(* ===== verification/Go_Prelude.thy ===== *)
theory Go_Prelude
  imports Main "HOL-Library.Word"
begin

unbundle bit_operations_syntax

text \<open>
  Shared vocabulary of the development: the Go machine types, Go's \<open>int\<close> with its
  wrap-around, run-time panics and error returns as values, byte slices with their spare
  capacity, and the generic lemmas about them that the component theories use.
\<close>

section \<open>Collections of facts\<close>

named_theorems go_simps \<open>evaluation of outcomes, slices and Go integers\<close>
named_theorems wire_enc \<open>what each writer operation appends\<close>
named_theorems wire_len \<open>lengths of encodings\<close>

section \<open>Machine types\<close>

text \<open>
  Go's sized integers are words. A signed and an unsigned Go integer of one width share the
  word type: conversions between them keep the bits, and a conversion that widens a signed
  value is \<^term>\<open>scast\<close>, an unsigned one \<^term>\<open>ucast\<close>. A float is its IEEE bit pattern,
  which is what \<^verbatim>\<open>math.Float64bits\<close> and \<^verbatim>\<open>math.Float64frombits\<close> convert from and to.
\<close>

type_synonym byte = "8 word"
type_synonym uint16 = "16 word"
type_synonym uint32 = "32 word"
type_synonym uint64 = "64 word"
type_synonym int8 = "8 word"
type_synonym int32 = "32 word"
type_synonym int64 = "64 word"
type_synonym float32 = "32 word"
type_synonym float64 = "64 word"

text \<open>Go's \<open>int\<close> is a 64 bit two's complement integer, kept here as a HOL integer; every
  addition the code performs on one goes through \<open>wrap_int\<close>.\<close>

definition wrap_int :: "int \<Rightarrow> int" where
  "wrap_int x = (x + 2 ^ 63) mod 2 ^ 64 - 2 ^ 63"

definition iadd :: "int \<Rightarrow> int \<Rightarrow> int" where
  "iadd a b = wrap_int (a + b)"

text \<open>The conversion \<^verbatim>\<open>int(v)\<close> of an unsigned 64 bit value keeps its bits.\<close>

definition int_of_u64 :: "uint64 \<Rightarrow> int" where
  "int_of_u64 v = sint v"

lemma wrap_int_id [simp]: "- (2 ^ 63) \<le> x \<Longrightarrow> x < 2 ^ 63 \<Longrightarrow> wrap_int x = x"
  by (simp add: wrap_int_def)

lemma wrap_int_range: "- (2 ^ 63) \<le> wrap_int x \<and> wrap_int x < 2 ^ 63"
proof -
  have "0 \<le> (x + 2 ^ 63) mod 2 ^ 64" and "(x + 2 ^ 63) mod 2 ^ 64 < 2 ^ 64"
    by simp_all
  then show ?thesis by (simp add: wrap_int_def)
qed

lemma iadd_id [simp]: "- (2 ^ 63) \<le> a + b \<Longrightarrow> a + b < 2 ^ 63 \<Longrightarrow> iadd a b = a + b"
  by (simp add: iadd_def)

lemma iadd_0 [simp]: "- (2 ^ 63) \<le> a \<Longrightarrow> a < 2 ^ 63 \<Longrightarrow> iadd a 0 = a"
  by simp

lemma int_of_u64_small [simp]:
  assumes "unat v < 2 ^ 63"
  shows "int_of_u64 v = int (unat v)"
proof -
  have "uint v < 2 ^ 63"
    using assms by (metis of_nat_less_iff of_nat_numeral of_nat_power uint_nat)
  moreover have "- (2 ^ 63) \<le> uint v"
    by (rule order_trans [of _ 0]) simp_all
  ultimately have "signed_take_bit 63 (uint v) = uint v"
    by (rule signed_take_bit_int_eq_self [rotated])
  then show ?thesis by (simp add: int_of_u64_def sint_uint)
qed

section \<open>Outcomes: values, error returns, panics\<close>

text \<open>
  \<open>Ret x\<close> is a normal return, \<open>Err e\<close> a return whose \<^verbatim>\<open>error\<close> result is not nil (with its
  text), \<open>Panic\<close> a run-time panic (index or slice bounds out of range).
\<close>

datatype 'a go = Ret 'a | Err string | Panic

fun go_bind :: "'a go \<Rightarrow> ('a \<Rightarrow> 'b go) \<Rightarrow> 'b go" where
  "go_bind (Ret x) f = f x"
| "go_bind (Err e) f = Err e"
| "go_bind Panic f = Panic"

lemma go_bind_Ret_iff: "go_bind m f = Ret y \<longleftrightarrow> (\<exists>x. m = Ret x \<and> f x = Ret y)"
  by (cases m) auto

lemma go_bind_assoc: "go_bind (go_bind m f) g = go_bind m (\<lambda>x. go_bind (f x) g)"
  by (cases m) auto

lemma go_bind_Ret_right [simp]: "go_bind m Ret = m"
  by (cases m) auto

fun go_fold :: "('a \<Rightarrow> 's \<Rightarrow> 's go) \<Rightarrow> 'a list \<Rightarrow> 's \<Rightarrow> 's go" where
  "go_fold f [] s = Ret s"
| "go_fold f (x # xs) s = go_bind (f x s) (go_fold f xs)"

text \<open>
  Code whose termination is not evident (it follows offsets read from its input) runs in
  \<open>'a run\<close>: \<^term>\<open>None\<close> is a computation that never returns.
\<close>

type_synonym 'a run = "'a go option"

definition run_bind :: "'a run \<Rightarrow> ('a \<Rightarrow> 'b run) \<Rightarrow> 'b run" where
  "run_bind m f = Option.bind m (\<lambda>r. case r of Ret x \<Rightarrow> f x | Err e \<Rightarrow> Some (Err e) | Panic \<Rightarrow> Some Panic)"

lemma run_bind_simps [simp]:
  "run_bind (Some (Ret x)) f = f x"
  "run_bind (Some (Err e)) f = Some (Err e)"
  "run_bind (Some Panic) f = Some Panic"
  "run_bind None f = None"
  by (simp_all add: run_bind_def)

lemma run_bind_Ret_iff: "run_bind m f = Some (Ret y) \<longleftrightarrow> (\<exists>x. m = Some (Ret x) \<and> f x = Some (Ret y))"
  by (cases m) (auto simp: run_bind_def split: go.splits)

fun run_map :: "('a \<Rightarrow> 'b run) \<Rightarrow> 'a list \<Rightarrow> 'b list run" where
  "run_map f [] = Some (Ret [])"
| "run_map f (x # xs) = run_bind (f x) (\<lambda>y. run_bind (run_map f xs) (\<lambda>ys. Some (Ret (y # ys))))"

lemma run_map_Ret: "(\<And>x. x \<in> set xs \<Longrightarrow> f x = Some (Ret (g x))) \<Longrightarrow> run_map f xs = Some (Ret (map g xs))"
  by (induction xs) simp_all

section \<open>Numbers in decimal, as formatted by the verb \<open>%d\<close>\<close>

definition digit_char :: "nat \<Rightarrow> char" where
  "digit_char d = char_of (48 + d)"

fun show_nat :: "nat \<Rightarrow> string" where
  "show_nat n = (if n < 10 then [digit_char n] else show_nat (n div 10) @ [digit_char (n mod 10)])"

declare show_nat.simps [simp del]

definition digit_value :: "char \<Rightarrow> nat" where
  "digit_value c = of_char c - 48"

definition read_nat :: "string \<Rightarrow> nat" where
  "read_nat cs = foldl (\<lambda>n c. 10 * n + digit_value c) 0 cs"

lemma digit_value_char [simp]: "d < 10 \<Longrightarrow> digit_value (digit_char d) = d"
  by (simp add: digit_value_def digit_char_def)

lemma read_show_nat [simp]: "read_nat (show_nat n) = n"
proof (induction n rule: show_nat.induct)
  case (1 n)
  then show ?case by (subst show_nat.simps) (simp add: read_nat_def)
qed

lemma show_nat_inject [simp]: "show_nat m = show_nat n \<longleftrightarrow> m = n"
  by (metis read_show_nat)

section \<open>Byte slices\<close>

text \<open>
  A Go slice is a window of an array: \<open>elems\<close> are the bytes below its length, \<open>spare\<close> those
  between its length and its capacity. Indexing is checked against the length, re-slicing
  against the capacity, so a re-slice can reach into \<open>spare\<close>.
\<close>

record gslice =
  elems :: "byte list"
  spare :: "byte list"

definition slice_of :: "byte list \<Rightarrow> gslice" where
  "slice_of xs = \<lparr>elems = xs, spare = []\<rparr>"

definition nil_slice :: gslice where
  "nil_slice = \<lparr>elems = [], spare = []\<rparr>"

definition slen :: "gslice \<Rightarrow> int" where
  "slen s = int (length (elems s))"

definition slice_at :: "gslice \<Rightarrow> int \<Rightarrow> byte go" where
  "slice_at s i = (if 0 \<le> i \<and> i < slen s then Ret (elems s ! nat i) else Panic)"

definition reslice :: "gslice \<Rightarrow> int \<Rightarrow> int \<Rightarrow> gslice go" where
  "reslice s lo hi =
     (if 0 \<le> lo \<and> lo \<le> hi \<and> hi \<le> slen s + int (length (spare s))
      then Ret \<lparr>elems = take (nat (hi - lo)) (drop (nat lo) (elems s @ spare s)),
                spare = drop (nat hi) (elems s @ spare s)\<rparr>
      else Panic)"

lemma elems_slice_of [simp]: "elems (slice_of xs) = xs" "spare (slice_of xs) = []"
  by (simp_all add: slice_of_def)

lemma elems_nil_slice [simp]: "elems nil_slice = []" "spare nil_slice = []"
  by (simp_all add: nil_slice_def)

lemma slen_ge0 [simp]: "0 \<le> slen s"
  by (simp add: slen_def)

lemma slice_at_Ret [go_simps]: "0 \<le> i \<Longrightarrow> i < slen s \<Longrightarrow> slice_at s i = Ret (elems s ! nat i)"
  by (simp add: slice_at_def)

lemma slice_at_nat [go_simps]:
  "k < length (elems s) \<Longrightarrow> slice_at s (int k) = Ret (elems s ! k)"
  by (simp add: slice_at_def slen_def)

text \<open>A re-slice that stays below the length sees the elements only.\<close>

lemma reslice_inside:
  assumes "elems s = pre @ mid @ post"
  shows "reslice s (int (length pre)) (int (length pre) + int (length mid)) =
    Ret \<lparr>elems = mid, spare = post @ spare s\<rparr>"
  using assms by (simp add: reslice_def slen_def nat_add_distrib)

text \<open>The bytes of an ASCII literal.\<close>

definition bytes_of :: "string \<Rightarrow> byte list" where
  "bytes_of s = map (\<lambda>c. of_nat (of_char c)) s"

section \<open>Words and their numerals\<close>

lemma unat_ucast_byte_u64 [simp]: "unat (ucast (b :: byte) :: uint64) = unat b"
  by (simp add: unsigned_ucast_eq take_bit_nat_eq_self order_less_trans [OF unsigned_less])

lemma unat_ucast_u32_u64 [simp]: "unat (ucast (w :: uint32) :: uint64) = unat w"
  by (simp add: unsigned_ucast_eq take_bit_nat_eq_self order_less_trans [OF unsigned_less])

lemma ucast_ucast_u32 [simp]: "ucast (ucast (w :: uint32) :: uint64) = w"
  by (rule bit_word_eqI) (auto simp: bit_simps)

lemma ucast_ucast_byte [simp]: "ucast (ucast (b :: byte) :: uint64) = b"
  by (rule bit_word_eqI) (auto simp: bit_simps)

lemma ucast_scast_u32 [simp]: "ucast (scast (w :: int32) :: uint64) = w"
  by (rule bit_word_eqI) (auto simp: bit_simps)

lemma byte_less_128: "(b :: byte) < 0x80 \<longleftrightarrow> unat b < 128"
  by (simp add: word_less_nat_alt)

lemma unat_byte_less [simp]: "unat (b :: byte) < 256"
  using unsigned_less [of b] by simp

lemma u64_nat_bound: "unat (v :: uint64) < 2 ^ 64"
  using unsigned_less [of v] by simp

end
