(* ===== verification/Wire_Reader.thy ===== *)
theory Wire_Reader
  imports Go_Prelude
begin

unbundle bit_operations_syntax

text \<open>
  The protobuf wire reader of \<^verbatim>\<open>src/shared/gremlin_go/reader.go\<close> and
  \<^verbatim>\<open>reading.go\<close>: tags, varints, fixed-width integers, length-delimited data, and the
  skipping of unknown fields. Offsets are Go \<open>int\<close>s that wrap around; an index or slice
  expression out of range is \<^term>\<open>Panic\<close>; a call that never returns is \<^term>\<open>None\<close>.
\<close>

section \<open>The reader and the wire types\<close>

type_synonym ProtoWireType = int8
type_synonym ProtoWireNumber = int32
type_synonym gostring = "byte list"

definition VarIntType :: ProtoWireType where "VarIntType = 0"
definition Fixed64Type :: ProtoWireType where "Fixed64Type = 1"
definition BytesType :: ProtoWireType where "BytesType = 2"
definition StartGroupType :: ProtoWireType where "StartGroupType = 3"
definition EndGroupType :: ProtoWireType where "EndGroupType = 4"
definition Fixed32Type :: ProtoWireType where "Fixed32Type = 5"

lemmas wire_types = VarIntType_def Fixed64Type_def BytesType_def StartGroupType_def
  EndGroupType_def Fixed32Type_def

record Reader =
  buf :: gslice

definition NewReader :: "gslice \<Rightarrow> Reader" where
  "NewReader data = \<lparr>buf = data\<rparr>"

definition Bytes :: "Reader option \<Rightarrow> gslice" where
  "Bytes p = (case p of None \<Rightarrow> nil_slice | Some r \<Rightarrow> buf r)"

section \<open>Varints\<close>

definition HasNext :: "Reader \<Rightarrow> int \<Rightarrow> int \<Rightarrow> bool" where
  "HasNext p offset sz \<longleftrightarrow> iadd offset sz < slen (buf p)"

text \<open>The loop of \<^verbatim>\<open>getVarIntSize\<close> from index \<open>i\<close> on.\<close>

function getVarIntSize_from :: "Reader \<Rightarrow> int \<Rightarrow> int \<Rightarrow> int go" where
  "getVarIntSize_from p offset i =
     (if i < 10
      then if \<not> HasNext p offset i then Err ''invalid varint, not enough bytes''
           else go_bind (slice_at (buf p) (iadd offset i)) (\<lambda>b.
             if b < 0x80 then Ret (i + 1) else getVarIntSize_from p offset (i + 1))
      else Ret 10)"
  by pat_completeness auto
termination
  by (relation "measure (\<lambda>(p, offset, i). nat (10 - i))") auto

declare getVarIntSize_from.simps [simp del]

definition getVarIntSize :: "Reader \<Rightarrow> int \<Rightarrow> int go" where
  "getVarIntSize p offset = getVarIntSize_from p offset 0"

text \<open>
  \<^verbatim>\<open>readVarIntAt\<close> is unrolled in the source: ten blocks of the same shape, of which
  \<open>varint_block\<close> is one (byte \<open>i\<close>, shifted by \<open>sh\<close>, with the continuation \<open>k\<close> for a set top
  bit), and a last one that accepts a tenth byte below 2 only.
\<close>

definition varint_block ::
  "Reader \<Rightarrow> int \<Rightarrow> int \<Rightarrow> nat \<Rightarrow> uint64 \<Rightarrow> (uint64 \<Rightarrow> (uint64 \<times> int) go) \<Rightarrow> (uint64 \<times> int) go" where
  "varint_block p offset i sh v k =
     (if \<not> HasNext p offset i then Ret (0, -1)
      else go_bind (slice_at (buf p) (iadd offset i)) (\<lambda>b.
        let y = ucast b; v = v + push_bit sh y in
        if y < 0x80 then Ret (v, i + 1) else k (v - push_bit sh 0x80)))"

definition readVarIntAt :: "Reader \<Rightarrow> int \<Rightarrow> (uint64 \<times> int) go" where
  "readVarIntAt p offset =
     varint_block p offset 0 0 0 (\<lambda>v.
     varint_block p offset 1 7 v (\<lambda>v.
     varint_block p offset 2 14 v (\<lambda>v.
     varint_block p offset 3 21 v (\<lambda>v.
     varint_block p offset 4 28 v (\<lambda>v.
     varint_block p offset 5 35 v (\<lambda>v.
     varint_block p offset 6 42 v (\<lambda>v.
     varint_block p offset 7 49 v (\<lambda>v.
     varint_block p offset 8 56 v (\<lambda>v.
     if \<not> HasNext p offset 9 then Ret (0, -1)
     else go_bind (slice_at (buf p) (iadd offset 9)) (\<lambda>b.
       let y = ucast b; v = v + push_bit 63 y in
       if y < 2 then Ret (v, 10) else Ret (0, -1)))))))))))"

definition readSignedVarIntAt :: "Reader \<Rightarrow> int \<Rightarrow> (int64 \<times> int) go" where
  "readSignedVarIntAt p offset =
     go_bind (readVarIntAt p offset) (\<lambda>(v, n).
       if n < 0 then Ret (0, n)
       else Ret (drop_bit 1 v XOR signed_drop_bit 63 (push_bit 63 v), n))"

section \<open>Tags\<close>

definition ReadTagAt :: "Reader \<Rightarrow> int \<Rightarrow> (ProtoWireNumber \<times> ProtoWireType \<times> int) go" where
  "ReadTagAt p offset =
     go_bind (readVarIntAt p offset) (\<lambda>(tagData, tagSize).
       if tagSize < 0 then Err ''invalid tag''
       else if drop_bit 3 tagData > 0x7FFFFFFF then Err ''tag number out of range''
       else Ret (ucast (drop_bit 3 tagData), ucast (tagData AND 7), tagSize))"

section \<open>Fixed-width and length-delimited data\<close>

definition readFixed32At :: "Reader \<Rightarrow> int \<Rightarrow> uint64 go" where
  "readFixed32At p offset =
     go_bind (slice_at (buf p) offset) (\<lambda>b0.
     go_bind (slice_at (buf p) (iadd offset 1)) (\<lambda>b1.
     go_bind (slice_at (buf p) (iadd offset 2)) (\<lambda>b2.
     go_bind (slice_at (buf p) (iadd offset 3)) (\<lambda>b3.
     Ret (ucast b0 OR push_bit 8 (ucast b1) OR push_bit 16 (ucast b2) OR push_bit 24 (ucast b3))))))"

definition readFixed64At :: "Reader \<Rightarrow> int \<Rightarrow> uint64 go" where
  "readFixed64At p offset =
     go_bind (slice_at (buf p) offset) (\<lambda>b0.
     go_bind (slice_at (buf p) (iadd offset 1)) (\<lambda>b1.
     go_bind (slice_at (buf p) (iadd offset 2)) (\<lambda>b2.
     go_bind (slice_at (buf p) (iadd offset 3)) (\<lambda>b3.
     go_bind (slice_at (buf p) (iadd offset 4)) (\<lambda>b4.
     go_bind (slice_at (buf p) (iadd offset 5)) (\<lambda>b5.
     go_bind (slice_at (buf p) (iadd offset 6)) (\<lambda>b6.
     go_bind (slice_at (buf p) (iadd offset 7)) (\<lambda>b7.
     Ret (ucast b0 OR push_bit 8 (ucast b1) OR push_bit 16 (ucast b2) OR push_bit 24 (ucast b3) OR
          push_bit 32 (ucast b4) OR push_bit 40 (ucast b5) OR push_bit 48 (ucast b6) OR
          push_bit 56 (ucast b7))))))))))"

definition ReadBytes :: "Reader \<Rightarrow> int \<Rightarrow> gslice go" where
  "ReadBytes p offset =
     go_bind (readVarIntAt p offset) (\<lambda>(size, sizeSize).
       reslice (buf p) (iadd offset sizeSize) (iadd (iadd offset sizeSize) (int_of_u64 size)))"

definition SizedReadBytes :: "Reader \<Rightarrow> int \<Rightarrow> (gslice \<times> int) go" where
  "SizedReadBytes p offset =
     go_bind (readVarIntAt p offset) (\<lambda>(size, sizeSize).
       go_bind (reslice (buf p) (iadd offset sizeSize)
                  (iadd (iadd offset sizeSize) (int_of_u64 size))) (\<lambda>bs.
         Ret (bs, iadd sizeSize (int_of_u64 size))))"

definition ReadString :: "Reader \<Rightarrow> int \<Rightarrow> gostring go" where
  "ReadString p offset = go_bind (ReadBytes p offset) (\<lambda>bs. Ret (elems bs))"

definition SizedReadString :: "Reader \<Rightarrow> int \<Rightarrow> (gostring \<times> int) go" where
  "SizedReadString p offset = go_bind (SizedReadBytes p offset) (\<lambda>(v, size). Ret (elems v, size))"

section \<open>Typed reads\<close>

definition ReadVarInt :: "Reader \<Rightarrow> int \<Rightarrow> uint64 go" where
  "ReadVarInt p offset = go_bind (readVarIntAt p offset) (\<lambda>(v, _). Ret v)"

definition SizedReadVarInt :: "Reader \<Rightarrow> int \<Rightarrow> (uint64 \<times> int) go" where
  "SizedReadVarInt p offset = readVarIntAt p offset"

definition ReadUint64 :: "Reader \<Rightarrow> int \<Rightarrow> uint64 go" where
  "ReadUint64 p offset = ReadVarInt p offset"

definition SizedReadUint64 :: "Reader \<Rightarrow> int \<Rightarrow> (uint64 \<times> int) go" where
  "SizedReadUint64 p offset = SizedReadVarInt p offset"

definition ReadUint32 :: "Reader \<Rightarrow> int \<Rightarrow> uint32 go" where
  "ReadUint32 p offset = go_bind (ReadVarInt p offset) (\<lambda>v. Ret (ucast v))"

definition SizedReadUint32 :: "Reader \<Rightarrow> int \<Rightarrow> (uint32 \<times> int) go" where
  "SizedReadUint32 p offset = go_bind (SizedReadVarInt p offset) (\<lambda>(res, size). Ret (ucast res, size))"

definition ReadInt64 :: "Reader \<Rightarrow> int \<Rightarrow> int64 go" where
  "ReadInt64 p offset = ReadVarInt p offset"

definition SizedReadInt64 :: "Reader \<Rightarrow> int \<Rightarrow> (int64 \<times> int) go" where
  "SizedReadInt64 p offset = readVarIntAt p offset"

definition ReadSInt64 :: "Reader \<Rightarrow> int \<Rightarrow> int64 go" where
  "ReadSInt64 p offset = go_bind (readSignedVarIntAt p offset) (\<lambda>(res, _). Ret res)"

definition SizedReadSInt64 :: "Reader \<Rightarrow> int \<Rightarrow> (int64 \<times> int) go" where
  "SizedReadSInt64 p offset = readSignedVarIntAt p offset"

definition ReadInt32 :: "Reader \<Rightarrow> int \<Rightarrow> int32 go" where
  "ReadInt32 p offset = go_bind (ReadVarInt p offset) (\<lambda>v. Ret (ucast v))"

definition SizedReadInt32 :: "Reader \<Rightarrow> int \<Rightarrow> (int32 \<times> int) go" where
  "SizedReadInt32 p offset = go_bind (readVarIntAt p offset) (\<lambda>(res, size). Ret (ucast res, size))"

definition ReadSInt32 :: "Reader \<Rightarrow> int \<Rightarrow> int32 go" where
  "ReadSInt32 p offset = go_bind (readSignedVarIntAt p offset) (\<lambda>(res, _). Ret (ucast res))"

definition SizedReadSInt32 :: "Reader \<Rightarrow> int \<Rightarrow> (int32 \<times> int) go" where
  "SizedReadSInt32 p offset = go_bind (readSignedVarIntAt p offset) (\<lambda>(res, n). Ret (ucast res, n))"

definition ReadBool :: "Reader \<Rightarrow> int \<Rightarrow> bool go" where
  "ReadBool p offset = go_bind (ReadVarInt p offset) (\<lambda>v. Ret (v \<noteq> 0))"

definition SizedReadBool :: "Reader \<Rightarrow> int \<Rightarrow> (bool \<times> int) go" where
  "SizedReadBool p offset = go_bind (SizedReadVarInt p offset) (\<lambda>(res, size). Ret (res \<noteq> 0, size))"

definition ReadFloat32 :: "Reader \<Rightarrow> int \<Rightarrow> float32 go" where
  "ReadFloat32 p offset = go_bind (readFixed32At p offset) (\<lambda>v. Ret (ucast v))"

definition SizedReadFloat32 :: "Reader \<Rightarrow> int \<Rightarrow> (float32 \<times> int) go" where
  "SizedReadFloat32 p offset = go_bind (readFixed32At p offset) (\<lambda>v. Ret (ucast v, 4))"

definition ReadFloat64 :: "Reader \<Rightarrow> int \<Rightarrow> float64 go" where
  "ReadFloat64 p offset = readFixed64At p offset"

definition SizedReadFloat64 :: "Reader \<Rightarrow> int \<Rightarrow> (float64 \<times> int) go" where
  "SizedReadFloat64 p offset = go_bind (readFixed64At p offset) (\<lambda>v. Ret (v, 8))"

definition ReadFixed32 :: "Reader \<Rightarrow> int \<Rightarrow> uint32 go" where
  "ReadFixed32 p offset = go_bind (readFixed32At p offset) (\<lambda>v. Ret (ucast v))"

definition SizedReadFixed32 :: "Reader \<Rightarrow> int \<Rightarrow> (uint32 \<times> int) go" where
  "SizedReadFixed32 p offset = go_bind (readFixed32At p offset) (\<lambda>v. Ret (ucast v, 4))"

definition ReadFixed64 :: "Reader \<Rightarrow> int \<Rightarrow> uint64 go" where
  "ReadFixed64 p offset = readFixed64At p offset"

definition SizedReadFixed64 :: "Reader \<Rightarrow> int \<Rightarrow> (uint64 \<times> int) go" where
  "SizedReadFixed64 p offset = go_bind (readFixed64At p offset) (\<lambda>v. Ret (v, 8))"

definition ReadSFixed32 :: "Reader \<Rightarrow> int \<Rightarrow> int32 go" where
  "ReadSFixed32 p offset = go_bind (readFixed32At p offset) (\<lambda>v. Ret (ucast v))"

definition SizedReadSFixed32 :: "Reader \<Rightarrow> int \<Rightarrow> (int32 \<times> int) go" where
  "SizedReadSFixed32 p offset = go_bind (readFixed32At p offset) (\<lambda>v. Ret (ucast v, 4))"

definition ReadSFixed64 :: "Reader \<Rightarrow> int \<Rightarrow> int64 go" where
  "ReadSFixed64 p offset = readFixed64At p offset"

definition SizedReadSFixed64 :: "Reader \<Rightarrow> int \<Rightarrow> (int64 \<times> int) go" where
  "SizedReadSFixed64 p offset = go_bind (readFixed64At p offset) (\<lambda>v. Ret (v, 8))"

section \<open>Skipping\<close>

text \<open>
  The \<^verbatim>\<open>for\<close> loop of the group case starts every round in the same state but for the
  offset, so the next round is the same call at the new offset.
\<close>

partial_function (option) SkipData :: "Reader \<Rightarrow> int \<Rightarrow> ProtoWireType \<Rightarrow> int go option" where
  "SkipData p offset protoType =
     (if protoType = VarIntType then
        Some (go_bind (getVarIntSize p offset) (\<lambda>varIntSize. Ret (iadd offset varIntSize)))
      else if protoType = Fixed32Type then Some (Ret (iadd offset 4))
      else if protoType = Fixed64Type then Some (Ret (iadd offset 8))
      else if protoType = BytesType then
        Some (go_bind (readVarIntAt p offset) (\<lambda>(size, sizeSize).
          if sizeSize < 0 then Err ''invalid varint''
          else Ret (iadd (iadd offset sizeSize) (int_of_u64 size))))
      else if protoType = StartGroupType then
        (case ReadTagAt p offset of
           Err e \<Rightarrow> Some (Err e)
         | Panic \<Rightarrow> Some Panic
         | Ret (_, cType, tagSize) \<Rightarrow>
             if cType = EndGroupType then Some (Ret (iadd offset tagSize))
             else Option.bind (SkipData p (iadd offset tagSize) cType) (\<lambda>r.
               case r of
                 Err e \<Rightarrow> Some (Err e)
               | Panic \<Rightarrow> Some Panic
               | Ret offset' \<Rightarrow> SkipData p offset' StartGroupType))
      else Some (Err ''invalid wire type while skipping data''))"

end
