(* ===== verification/Wire_Writer.thy ===== *)
theory Wire_Writer
  imports Wire_Reader
begin

unbundle bit_operations_syntax

text \<open>
  The protobuf wire writer of \<^verbatim>\<open>src/shared/gremlin_go/writer.go\<close>. A writer owns a buffer
  of fixed capacity: \<^verbatim>\<open>writeBytes\<close> extends the slice within its capacity and panics
  beyond it, so every append is a function into \<open>Writer go\<close>. The size functions of
  the same file compute, without writing, how many bytes an append will use.
\<close>

section \<open>The writer\<close>

record Writer =
  wbuf :: "byte list"
  wcap :: nat

definition NewWriter :: "int \<Rightarrow> Writer go" where
  "NewWriter sz = (if 0 \<le> sz then Ret \<lparr>wbuf = [], wcap = nat sz\<rparr> else Panic)"

definition writeBytes :: "Writer \<Rightarrow> byte list \<Rightarrow> Writer go" where
  "writeBytes p data =
     (if length (wbuf p) + length data \<le> wcap p then Ret (p\<lparr>wbuf := wbuf p @ data\<rparr>) else Panic)"

definition writeByte :: "Writer \<Rightarrow> byte list \<Rightarrow> Writer go" where
  "writeByte p data = writeBytes p data"

definition WriterBytes :: "Writer \<Rightarrow> byte list" where
  "WriterBytes p = wbuf p"

section \<open>Varints\<close>

definition cont_byte :: "nat \<Rightarrow> uint64 \<Rightarrow> byte" where
  "cont_byte n v = ucast (drop_bit n v AND 0x7f OR 0x80)"

definition last_byte :: "nat \<Rightarrow> uint64 \<Rightarrow> byte" where
  "last_byte n v = ucast (drop_bit n v)"

definition VarIntToBytes :: "uint64 \<Rightarrow> byte list" where
  "VarIntToBytes v =
     (if v < 2 ^ 7 then [last_byte 0 v]
      else if v < 2 ^ 14 then [cont_byte 0 v, last_byte 7 v]
      else if v < 2 ^ 21 then [cont_byte 0 v, cont_byte 7 v, last_byte 14 v]
      else if v < 2 ^ 28 then [cont_byte 0 v, cont_byte 7 v, cont_byte 14 v, last_byte 21 v]
      else if v < 2 ^ 35 then
          [cont_byte 0 v, cont_byte 7 v, cont_byte 14 v, cont_byte 21 v, last_byte 28 v]
      else if v < 2 ^ 42 then
          [cont_byte 0 v, cont_byte 7 v, cont_byte 14 v, cont_byte 21 v, cont_byte 28 v,
           last_byte 35 v]
      else if v < 2 ^ 49 then
          [cont_byte 0 v, cont_byte 7 v, cont_byte 14 v, cont_byte 21 v, cont_byte 28 v,
           cont_byte 35 v, last_byte 42 v]
      else if v < 2 ^ 56 then
          [cont_byte 0 v, cont_byte 7 v, cont_byte 14 v, cont_byte 21 v, cont_byte 28 v,
           cont_byte 35 v, cont_byte 42 v, last_byte 49 v]
      else if v < 2 ^ 63 then
          [cont_byte 0 v, cont_byte 7 v, cont_byte 14 v, cont_byte 21 v, cont_byte 28 v,
           cont_byte 35 v, cont_byte 42 v, cont_byte 49 v, last_byte 56 v]
      else
          [cont_byte 0 v, cont_byte 7 v, cont_byte 14 v, cont_byte 21 v, cont_byte 28 v,
           cont_byte 35 v, cont_byte 42 v, cont_byte 49 v, cont_byte 56 v, 1])"

definition appendVarInt :: "Writer \<Rightarrow> uint64 \<Rightarrow> Writer go" where
  "appendVarInt p v =
     (if v < 2 ^ 7 then writeByte p [last_byte 0 v]
      else if v < 2 ^ 14 then writeByte p [cont_byte 0 v, last_byte 7 v]
      else if v < 2 ^ 21 then writeByte p [cont_byte 0 v, cont_byte 7 v, last_byte 14 v]
      else if v < 2 ^ 28 then writeByte p
          [cont_byte 0 v, cont_byte 7 v, cont_byte 14 v, last_byte 21 v]
      else if v < 2 ^ 35 then writeByte p
          [cont_byte 0 v, cont_byte 7 v, cont_byte 14 v, cont_byte 21 v, last_byte 28 v]
      else if v < 2 ^ 42 then writeByte p
          [cont_byte 0 v, cont_byte 7 v, cont_byte 14 v, cont_byte 21 v, cont_byte 28 v,
           last_byte 35 v]
      else if v < 2 ^ 49 then writeByte p
          [cont_byte 0 v, cont_byte 7 v, cont_byte 14 v, cont_byte 21 v, cont_byte 28 v,
           cont_byte 35 v, last_byte 42 v]
      else if v < 2 ^ 56 then writeByte p
          [cont_byte 0 v, cont_byte 7 v, cont_byte 14 v, cont_byte 21 v, cont_byte 28 v,
           cont_byte 35 v, cont_byte 42 v, last_byte 49 v]
      else if v < 2 ^ 63 then writeByte p
          [cont_byte 0 v, cont_byte 7 v, cont_byte 14 v, cont_byte 21 v, cont_byte 28 v,
           cont_byte 35 v, cont_byte 42 v, cont_byte 49 v, last_byte 56 v]
      else writeByte p
          [cont_byte 0 v, cont_byte 7 v, cont_byte 14 v, cont_byte 21 v, cont_byte 28 v,
           cont_byte 35 v, cont_byte 42 v, cont_byte 49 v, cont_byte 56 v, 1])"

definition SizeVarInt :: "uint64 \<Rightarrow> int" where
  "SizeVarInt v =
     (if v < 2 ^ 7 then 1 else if v < 2 ^ 14 then 2 else if v < 2 ^ 21 then 3
      else if v < 2 ^ 28 then 4 else if v < 2 ^ 35 then 5 else if v < 2 ^ 42 then 6
      else if v < 2 ^ 49 then 7 else if v < 2 ^ 56 then 8 else if v < 2 ^ 63 then 9 else 10)"

definition appendSignedVarInt :: "Writer \<Rightarrow> int64 \<Rightarrow> Writer go" where
  "appendSignedVarInt p v = appendVarInt p (push_bit 1 v XOR signed_drop_bit 63 v)"

definition sizeSignedVarInt :: "int64 \<Rightarrow> int" where
  "sizeSignedVarInt v = SizeVarInt (push_bit 1 v XOR signed_drop_bit 63 v)"

section \<open>Tags and fixed-width data\<close>

definition appendTag :: "Writer \<Rightarrow> ProtoWireNumber \<Rightarrow> ProtoWireType \<Rightarrow> Writer go" where
  "appendTag p tag protoType =
     appendVarInt p (push_bit 3 (scast tag) OR scast (protoType AND 7))"

definition SizeTag :: "ProtoWireNumber \<Rightarrow> int" where
  "SizeTag tag = SizeVarInt (push_bit 3 (scast tag) OR (0 AND 7))"

definition appendFixed32 :: "Writer \<Rightarrow> uint32 \<Rightarrow> Writer go" where
  "appendFixed32 p v =
     writeByte p [ucast (drop_bit 0 v), ucast (drop_bit 8 v), ucast (drop_bit 16 v),
                  ucast (drop_bit 24 v)]"

definition sizeFixed32 :: int where "sizeFixed32 = 4"

definition appendFixed64 :: "Writer \<Rightarrow> uint64 \<Rightarrow> Writer go" where
  "appendFixed64 p v =
     writeByte p [ucast (drop_bit 0 v), ucast (drop_bit 8 v), ucast (drop_bit 16 v),
                  ucast (drop_bit 24 v), ucast (drop_bit 32 v), ucast (drop_bit 40 v),
                  ucast (drop_bit 48 v), ucast (drop_bit 56 v)]"

definition sizeFixed64 :: int where "sizeFixed64 = 8"

section \<open>Length-delimited data\<close>

definition AppendString :: "Writer \<Rightarrow> ProtoWireNumber \<Rightarrow> gostring \<Rightarrow> Writer go" where
  "AppendString p tag data =
     go_bind (appendTag p tag BytesType) (\<lambda>p.
     go_bind (appendVarInt p (of_nat (length data))) (\<lambda>p.
     if length (wbuf p) + length data \<le> wcap p then Ret (p\<lparr>wbuf := wbuf p @ data\<rparr>) else Panic))"

definition SizeString :: "gostring \<Rightarrow> int" where
  "SizeString data = int (length data)"

definition AppendBytesTag :: "Writer \<Rightarrow> ProtoWireNumber \<Rightarrow> int \<Rightarrow> Writer go" where
  "AppendBytesTag p tag len =
     go_bind (appendTag p tag BytesType) (\<lambda>p. appendVarInt p (of_int len))"

definition AppendBytes :: "Writer \<Rightarrow> ProtoWireNumber \<Rightarrow> byte list \<Rightarrow> Writer go" where
  "AppendBytes p tag data =
     go_bind (appendTag p tag BytesType) (\<lambda>p.
     go_bind (appendVarInt p (of_nat (length data))) (\<lambda>p. writeBytes p data))"

definition SizeBytes :: "byte list \<Rightarrow> int" where
  "SizeBytes data = int (length data)"

section \<open>Typed appends and sizes\<close>

definition AppendBoolWithoutTag :: "Writer \<Rightarrow> bool \<Rightarrow> Writer go" where
  "AppendBoolWithoutTag p data = (if data then appendVarInt p 1 else appendVarInt p 0)"

definition AppendBool :: "Writer \<Rightarrow> ProtoWireNumber \<Rightarrow> bool \<Rightarrow> Writer go" where
  "AppendBool p tag data =
     go_bind (appendTag p tag VarIntType) (\<lambda>p. AppendBoolWithoutTag p data)"

definition SizeBool :: "bool \<Rightarrow> int" where
  "SizeBool data = 1"

definition AppendInt32WithoutTag :: "Writer \<Rightarrow> int32 \<Rightarrow> Writer go" where
  "AppendInt32WithoutTag p data = appendVarInt p (scast data)"

definition AppendInt32 :: "Writer \<Rightarrow> ProtoWireNumber \<Rightarrow> int32 \<Rightarrow> Writer go" where
  "AppendInt32 p tag data =
     go_bind (appendTag p tag VarIntType) (\<lambda>p. AppendInt32WithoutTag p data)"

definition SizeInt32 :: "int32 \<Rightarrow> int" where
  "SizeInt32 data = SizeVarInt (scast data)"

definition AppendInt64WithoutTag :: "Writer \<Rightarrow> int64 \<Rightarrow> Writer go" where
  "AppendInt64WithoutTag p data = appendVarInt p data"

definition AppendInt64 :: "Writer \<Rightarrow> ProtoWireNumber \<Rightarrow> int64 \<Rightarrow> Writer go" where
  "AppendInt64 p tag data =
     go_bind (appendTag p tag VarIntType) (\<lambda>p. AppendInt64WithoutTag p data)"

definition SizeInt64 :: "int64 \<Rightarrow> int" where
  "SizeInt64 data = SizeVarInt data"

definition AppendUint32WithoutTag :: "Writer \<Rightarrow> uint32 \<Rightarrow> Writer go" where
  "AppendUint32WithoutTag p data = appendVarInt p (ucast data)"

definition AppendUint32 :: "Writer \<Rightarrow> ProtoWireNumber \<Rightarrow> uint32 \<Rightarrow> Writer go" where
  "AppendUint32 p tag data =
     go_bind (appendTag p tag VarIntType) (\<lambda>p. AppendUint32WithoutTag p data)"

definition SizeUint32 :: "uint32 \<Rightarrow> int" where
  "SizeUint32 data = SizeVarInt (ucast data)"

definition AppendUint64WithoutTag :: "Writer \<Rightarrow> uint64 \<Rightarrow> Writer go" where
  "AppendUint64WithoutTag p data = appendVarInt p data"

definition AppendUint64 :: "Writer \<Rightarrow> ProtoWireNumber \<Rightarrow> uint64 \<Rightarrow> Writer go" where
  "AppendUint64 p tag data =
     go_bind (appendTag p tag VarIntType) (\<lambda>p. AppendUint64WithoutTag p data)"

definition SizeUint64 :: "uint64 \<Rightarrow> int" where
  "SizeUint64 data = SizeVarInt data"

definition AppendSInt32WithoutTag :: "Writer \<Rightarrow> int32 \<Rightarrow> Writer go" where
  "AppendSInt32WithoutTag p data = appendSignedVarInt p (scast data)"

definition AppendSInt32 :: "Writer \<Rightarrow> ProtoWireNumber \<Rightarrow> int32 \<Rightarrow> Writer go" where
  "AppendSInt32 p tag data =
     go_bind (appendTag p tag VarIntType) (\<lambda>p. AppendSInt32WithoutTag p data)"

definition SizeSInt32 :: "int32 \<Rightarrow> int" where
  "SizeSInt32 data = sizeSignedVarInt (scast data)"

definition AppendSInt64WithoutTag :: "Writer \<Rightarrow> int64 \<Rightarrow> Writer go" where
  "AppendSInt64WithoutTag p data = appendSignedVarInt p data"

definition AppendSInt64 :: "Writer \<Rightarrow> ProtoWireNumber \<Rightarrow> int64 \<Rightarrow> Writer go" where
  "AppendSInt64 p tag data =
     go_bind (appendTag p tag VarIntType) (\<lambda>p. AppendSInt64WithoutTag p data)"

definition SizeSInt64 :: "int64 \<Rightarrow> int" where
  "SizeSInt64 data = sizeSignedVarInt data"

definition AppendFixed32WithoutTag :: "Writer \<Rightarrow> uint32 \<Rightarrow> Writer go" where
  "AppendFixed32WithoutTag p data = appendFixed32 p data"

definition AppendFixed32 :: "Writer \<Rightarrow> ProtoWireNumber \<Rightarrow> uint32 \<Rightarrow> Writer go" where
  "AppendFixed32 p tag data =
     go_bind (appendTag p tag Fixed32Type) (\<lambda>p. AppendFixed32WithoutTag p data)"

definition SizeFixed32 :: "uint32 \<Rightarrow> int" where
  "SizeFixed32 data = sizeFixed32"

definition AppendFixed64WithoutTag :: "Writer \<Rightarrow> uint64 \<Rightarrow> Writer go" where
  "AppendFixed64WithoutTag p data = appendFixed64 p data"

definition AppendFixed64 :: "Writer \<Rightarrow> ProtoWireNumber \<Rightarrow> uint64 \<Rightarrow> Writer go" where
  "AppendFixed64 p tag data =
     go_bind (appendTag p tag Fixed64Type) (\<lambda>p. AppendFixed64WithoutTag p data)"

definition SizeFixed64 :: "uint64 \<Rightarrow> int" where
  "SizeFixed64 data = sizeFixed64"

definition AppendSFixed32WithoutTag :: "Writer \<Rightarrow> int32 \<Rightarrow> Writer go" where
  "AppendSFixed32WithoutTag p data = appendFixed32 p data"

definition AppendSFixed32 :: "Writer \<Rightarrow> ProtoWireNumber \<Rightarrow> int32 \<Rightarrow> Writer go" where
  "AppendSFixed32 p tag data =
     go_bind (appendTag p tag Fixed32Type) (\<lambda>p. AppendSFixed32WithoutTag p data)"

definition SizeSFixed32 :: "int32 \<Rightarrow> int" where
  "SizeSFixed32 data = sizeFixed32"

definition AppendSFixed64WithoutTag :: "Writer \<Rightarrow> int64 \<Rightarrow> Writer go" where
  "AppendSFixed64WithoutTag p data = appendFixed64 p data"

definition AppendSFixed64 :: "Writer \<Rightarrow> ProtoWireNumber \<Rightarrow> int64 \<Rightarrow> Writer go" where
  "AppendSFixed64 p tag data =
     go_bind (appendTag p tag Fixed64Type) (\<lambda>p. AppendSFixed64WithoutTag p data)"

definition SizeSFixed64 :: "int64 \<Rightarrow> int" where
  "SizeSFixed64 data = sizeFixed64"

definition AppendFloat32WithoutTag :: "Writer \<Rightarrow> float32 \<Rightarrow> Writer go" where
  "AppendFloat32WithoutTag p data = appendFixed32 p data"

definition AppendFloat32 :: "Writer \<Rightarrow> ProtoWireNumber \<Rightarrow> float32 \<Rightarrow> Writer go" where
  "AppendFloat32 p tag data =
     go_bind (appendTag p tag Fixed32Type) (\<lambda>p. AppendFloat32WithoutTag p data)"

definition SizeFloat32 :: "float32 \<Rightarrow> int" where
  "SizeFloat32 data = sizeFixed32"

definition AppendFloat64WithoutTag :: "Writer \<Rightarrow> float64 \<Rightarrow> Writer go" where
  "AppendFloat64WithoutTag p data = appendFixed64 p data"

definition AppendFloat64 :: "Writer \<Rightarrow> ProtoWireNumber \<Rightarrow> float64 \<Rightarrow> Writer go" where
  "AppendFloat64 p tag data =
     go_bind (appendTag p tag Fixed64Type) (\<lambda>p. AppendFloat64WithoutTag p data)"

definition SizeFloat64 :: "float64 \<Rightarrow> int" where
  "SizeFloat64 data = sizeFixed64"

end
