(* ===== verification/Wire_Codec.thy ===== *)
theory Wire_Codec
  imports Wire_Writer
begin

unbundle bit_operations_syntax

text \<open>
  The writer and the reader fit together. Reference definitions of the base 128 varint
  (\<open>leb_enc\<close>, \<open>leb_dec\<close>) on naturals; the unrolled Go routines compute them; decoding an
  encoding returns the value and the number of bytes; the size functions predict the
  lengths.
\<close>

section \<open>The reference varint\<close>

fun leb_enc :: "nat \<Rightarrow> byte list" where
  "leb_enc n = (if n < 128 then [of_nat n] else of_nat (n mod 128 + 128) # leb_enc (n div 128))"

declare leb_enc.simps [simp del]

text \<open>\<open>leb_dec k bs\<close> decodes from byte number \<open>k\<close> of a varint on; the tenth byte is the last.\<close>

fun leb_dec :: "nat \<Rightarrow> byte list \<Rightarrow> (nat \<times> nat) option" where
  "leb_dec k [] = None"
| "leb_dec k (b # bs) =
     (if 9 \<le> k then (if unat b < 2 then Some (unat b, 1) else None)
      else if unat b < 128 then Some (unat b, 1)
      else map_option (\<lambda>(v, n). (unat b - 128 + 128 * v, Suc n)) (leb_dec (Suc k) bs))"

section \<open>The unrolled reader computes the reference\<close>

definition dec_res :: "Reader \<Rightarrow> nat \<Rightarrow> nat \<Rightarrow> uint64 \<Rightarrow> (uint64 \<times> int) go" where
  "dec_res p off i v =
     (case leb_dec i (drop (off + i) (elems (buf p))) of
        None \<Rightarrow> Ret (0, -1)
      | Some (w, n) \<Rightarrow> Ret (v + of_nat (2 ^ (7 * i) * w), int (i + n)))"

lemma push_bit_ucast_byte:
  "push_bit sh (ucast (b :: byte)) = (of_nat (2 ^ sh * unat b) :: uint64)"
  by (simp add: push_bit_eq_mult mult.commute)

lemma HasNext_nat [go_simps]:
  "int off + int i < 2 ^ 63 \<Longrightarrow>
   HasNext p (int off) (int i) \<longleftrightarrow> off + i < length (elems (buf p))"
  by (simp add: HasNext_def slen_def) linarith

lemma slice_at_add [go_simps]:
  "off + i < length (elems s) \<Longrightarrow> slice_at s (int off + int i) = Ret (elems s ! (off + i))"
  using slice_at_nat [of "off + i" s] by simp

lemma varint_block_leb:
  assumes rng: "int off + 10 < 2 ^ 63" and i: "i < 9" and j: "j = Suc i"
  shows "varint_block p (int off) (int i) (7 * i) v (dec_res p off j) = dec_res p off i v"
proof (cases "off + i < length (elems (buf p))")
  case False
  with i rng show ?thesis by (simp add: varint_block_def dec_res_def go_simps)
next
  case True
  let ?b = "elems (buf p) ! (off + i)"
  have d: "drop (off + i) (elems (buf p)) = ?b # drop (Suc (off + i)) (elems (buf p))"
    using True by (simp add: Cons_nth_drop_Suc)
  have lt: "(ucast ?b :: uint64) < 0x80 \<longleftrightarrow> unat ?b < 128"
    by (simp add: word_less_nat_alt)
  show ?thesis
  proof (cases "unat ?b < 128")
    case True
    with lt d i rng \<open>off + i < _\<close> show ?thesis
      by (simp add: varint_block_def dec_res_def go_simps push_bit_ucast_byte)
  next
    case False
    have "push_bit (7 * i) (0x80 :: uint64) = of_nat (2 ^ (7 * i) * 128)"
      by (simp add: push_bit_eq_mult)
    with False lt d i rng \<open>off + i < _\<close> j show ?thesis
      by (auto simp add: varint_block_def dec_res_def go_simps push_bit_ucast_byte of_nat_diff
          algebra_simps power_add split: option.splits)
  qed
qed

lemma varint_last_leb:
  assumes rng: "int off + 10 < 2 ^ 63"
  shows "(if \<not> HasNext p (int off) 9 then Ret (0, -1)
     else go_bind (slice_at (buf p) (iadd (int off) 9)) (\<lambda>b.
       let y = ucast b; v = v + push_bit 63 y in
       if y < 2 then Ret (v, 10) else Ret (0, -1))) = dec_res p off 9 v"
proof (cases "off + 9 < length (elems (buf p))")
  case False
  with rng HasNext_nat [of off 9 p] show ?thesis by (simp add: dec_res_def)
next
  case True
  let ?b = "elems (buf p) ! (off + 9)"
  have "drop (off + 9) (elems (buf p)) = ?b # drop (Suc (off + 9)) (elems (buf p))"
    by (rule Cons_nth_drop_Suc [OF True, symmetric])
  moreover have "(ucast ?b :: uint64) < 2 \<longleftrightarrow> unat ?b < 2"
    by (simp add: word_less_nat_alt)
  ultimately show ?thesis
    using True rng HasNext_nat [of off 9 p] slice_at_add [of off 9 "buf p"]
    by (simp add: dec_res_def push_bit_ucast_byte)
qed

lemma varint_block_leb_num:
  assumes "int off + 10 < 2 ^ 63" and "i < 9" and "j = Suc i" and "i' = int i" and "sh = 7 * i"
  shows "varint_block p (int off) i' sh v (dec_res p off j) = dec_res p off i v"
  using varint_block_leb [OF assms(1-3)] assms(4,5) by simp

lemma readVarIntAt_dec_res:
  assumes "int off + 10 < 2 ^ 63"
  shows "readVarIntAt p (int off) = dec_res p off 0 0"
proof -
  note block = varint_block_leb_num [OF assms, where p = p]
  have "varint_block p (int off) 8 56 v (dec_res p off 9) = dec_res p off 8 v"
    "varint_block p (int off) 7 49 v (dec_res p off 8) = dec_res p off 7 v"
    "varint_block p (int off) 6 42 v (dec_res p off 7) = dec_res p off 6 v"
    "varint_block p (int off) 5 35 v (dec_res p off 6) = dec_res p off 5 v"
    "varint_block p (int off) 4 28 v (dec_res p off 5) = dec_res p off 4 v"
    "varint_block p (int off) 3 21 v (dec_res p off 4) = dec_res p off 3 v"
    "varint_block p (int off) 2 14 v (dec_res p off 3) = dec_res p off 2 v"
    "varint_block p (int off) 1 7 v (dec_res p off 2) = dec_res p off 1 v"
    "varint_block p (int off) 0 0 v (dec_res p off 1) = dec_res p off 0 v" for v
    by (rule block; simp)+
  then show ?thesis
    unfolding readVarIntAt_def varint_last_leb [OF assms] by (simp only:)
qed

lemma readVarIntAt_leb:
  assumes "int off + 10 < 2 ^ 63"
  shows "readVarIntAt p (int off) =
    (case leb_dec 0 (drop off (elems (buf p))) of
       None \<Rightarrow> Ret (0, -1) | Some (v, n) \<Rightarrow> Ret (of_nat v, int n))"
  unfolding readVarIntAt_dec_res [OF assms] by (simp add: dec_res_def cong: option.case_cong)

section \<open>The unrolled writer computes the reference\<close>

lemma leb_enc_split:
  assumes "2 ^ (7 * k) \<le> n \<or> k = 0" and "n < 2 ^ (7 * Suc k)"
  shows "leb_enc n =
    map (\<lambda>i. of_nat (n div 2 ^ (7 * i) mod 128 + 128)) [0..<k] @ [of_nat (n div 2 ^ (7 * k))]"
  using assms
proof (induction k arbitrary: n)
  case 0
  then show ?case by (simp add: leb_enc.simps)
next
  case (Suc k)
  from Suc.prems(1) have ge: "2 ^ (7 * Suc k) \<le> n" by simp
  then have n: "128 \<le> n"
    by (rule order_trans [rotated]) (simp add: power_add)
  have "2 ^ (7 * k) \<le> n div 128" and "n div 128 < 2 ^ (7 * Suc k)"
    using ge Suc.prems(2) by (simp_all add: power_add less_eq_div_iff_mult_less_eq
        div_less_iff_less_mult mult.commute)
  then have IH: "leb_enc (n div 128) =
      map (\<lambda>i. of_nat (n div 128 div 2 ^ (7 * i) mod 128 + 128)) [0..<k] @
      [of_nat (n div 128 div 2 ^ (7 * k))]"
    by (intro Suc.IH) simp_all
  have "n div 128 div 2 ^ (7 * i) = n div 2 ^ (7 * Suc i)" for i
    by (simp add: power_add div_mult2_eq)
  then have "leb_enc n = of_nat (n mod 128 + 128) #
      map (\<lambda>i. of_nat (n div 2 ^ (7 * Suc i) mod 128 + 128)) [0..<k] @
      [of_nat (n div 2 ^ (7 * Suc k))]"
    using n IH by (subst leb_enc.simps) simp
  moreover have "[0..<Suc k] = 0 # map Suc [0..<k]"
    by (simp add: map_Suc_upt upt_conv_Cons)
  ultimately show ?case by (simp add: o_def)
qed

lemma ucast_of_nat_byte: "(ucast (of_nat m :: uint64) :: byte) = of_nat m"
  by (rule bit_word_eqI) (simp add: bit_simps)

lemma unat_drop_bit_u64: "unat (drop_bit n (v :: uint64)) = unat v div 2 ^ n"
  by (subst unsigned_drop_bit_eq)
    (simp add: drop_bit_eq_div take_bit_nat_eq_self u64_nat_bound [simplified])

lemma and_7f_nat: "(w :: uint64) AND 0x7f = of_nat (unat w mod 128)"
proof -
  have "w AND 0x7f = take_bit 7 w"
    by (simp add: take_bit_eq_mask mask_eq_exp_minus_1)
  also have "\<dots> = of_nat (unat (take_bit 7 w))" by simp
  also have "unat (take_bit 7 w) = unat w mod 128"
    by (subst unsigned_take_bit_eq) (simp_all add: take_bit_eq_mod)
  finally show ?thesis .
qed

lemma cont_byte_nat: "cont_byte n v = of_nat (unat v div 2 ^ n mod 128 + 128)"
proof -
  let ?w = "drop_bit n v"
  have "?w AND 0x7f OR 0x80 = (?w AND 0x7f) + 0x80"
    by (rule disjunctive_add_eq_or [symmetric]) (simp add: and.assoc)
  also have "\<dots> = of_nat (unat ?w mod 128 + 128)"
    by (simp only: and_7f_nat of_nat_add of_nat_numeral)
  finally show ?thesis
    by (simp only: cont_byte_def ucast_of_nat_byte unat_drop_bit_u64)
qed

lemma last_byte_nat: "last_byte n v = of_nat (unat v div 2 ^ n)"
proof -
  have "drop_bit n v = of_nat (unat v div 2 ^ n)"
    by (simp flip: unat_drop_bit_u64)
  then show ?thesis by (simp only: last_byte_def ucast_of_nat_byte)
qed

lemma VarIntToBytes_leb: "VarIntToBytes v = leb_enc (unat v)"
proof -
  let ?n = "unat v"
  note bytes = cont_byte_nat last_byte_nat
  note lt = word_less_nat_alt
  note split = leb_enc_split [of _ ?n]
  consider "?n < 2 ^ 7" | "2 ^ 7 \<le> ?n" "?n < 2 ^ 14" | "2 ^ 14 \<le> ?n" "?n < 2 ^ 21"
    | "2 ^ 21 \<le> ?n" "?n < 2 ^ 28" | "2 ^ 28 \<le> ?n" "?n < 2 ^ 35" | "2 ^ 35 \<le> ?n" "?n < 2 ^ 42"
    | "2 ^ 42 \<le> ?n" "?n < 2 ^ 49" | "2 ^ 49 \<le> ?n" "?n < 2 ^ 56" | "2 ^ 56 \<le> ?n" "?n < 2 ^ 63"
    | "2 ^ 63 \<le> ?n"
    by linarith
  then show ?thesis
  proof cases
    case 1 then show ?thesis using split [of 0] by (simp add: VarIntToBytes_def lt bytes)
  next
    case 2 then show ?thesis using split [of 1] by (simp add: VarIntToBytes_def lt bytes)
  next
    case 3 then show ?thesis using split [of 2] by (simp add: VarIntToBytes_def lt bytes upt_rec)
  next
    case 4 then show ?thesis using split [of 3] by (simp add: VarIntToBytes_def lt bytes upt_rec)
  next
    case 5 then show ?thesis using split [of 4] by (simp add: VarIntToBytes_def lt bytes upt_rec)
  next
    case 6 then show ?thesis using split [of 5] by (simp add: VarIntToBytes_def lt bytes upt_rec)
  next
    case 7 then show ?thesis using split [of 6] by (simp add: VarIntToBytes_def lt bytes upt_rec)
  next
    case 8 then show ?thesis using split [of 7] by (simp add: VarIntToBytes_def lt bytes upt_rec)
  next
    case 9 then show ?thesis using split [of 8] by (simp add: VarIntToBytes_def lt bytes upt_rec)
  next
    case 10
    moreover have "?n div 2 ^ 63 = 1" using 10 u64_nat_bound [of v] by simp
    ultimately show ?thesis
      using split [of 9] u64_nat_bound [of v] by (simp add: VarIntToBytes_def lt bytes upt_rec)
  qed
qed

lemma leb_dec_enc:
  assumes "n < 2 ^ (64 - 7 * k)" and "k \<le> 9"
  shows "leb_dec k (leb_enc n @ rest) = Some (n, length (leb_enc n))"
  using assms
proof (induction n arbitrary: k rule: leb_enc.induct)
  case (1 n)
  show ?case
  proof (cases "n < 128")
    case True
    then have "unat (of_nat n :: byte) = n" by (simp add: unat_of_nat)
    with True 1 show ?thesis by (cases "k = 9") (auto simp: leb_enc.simps [of n])
  next
    case False
    then have k: "k < 9" using 1 by (cases "k = 9") auto
    have b: "unat (of_nat (n mod 128 + 128) :: byte) = n mod 128 + 128"
      by (simp only: unat_of_nat) simp
    have "64 - 7 * k = 7 + (64 - 7 * Suc k)"
      using k by simp
    with 1(2) have "n < 128 * 2 ^ (64 - 7 * Suc k)"
      by (simp only: power_add) simp
    then have "n div 128 < 2 ^ (64 - 7 * Suc k)"
      by (simp only: div_less_iff_less_mult mult.commute)
    then have "leb_dec (Suc k) (leb_enc (n div 128) @ rest) =
        Some (n div 128, length (leb_enc (n div 128)))"
      using 1(1) False k by simp
    with False k b show ?thesis by (simp add: leb_enc.simps [of n])
  qed
qed

section \<open>What the appends write\<close>

lemma writeBytes_writeBytes [wire_enc]:
  "go_bind (writeBytes p xs) (\<lambda>p. writeBytes p ys) = writeBytes p (xs @ ys)"
  by (simp add: writeBytes_def)

lemma writeBytes_fit:
  "length (wbuf p) + length xs \<le> wcap p \<Longrightarrow> writeBytes p xs = Ret (p\<lparr>wbuf := wbuf p @ xs\<rparr>)"
  by (simp add: writeBytes_def)

lemma appendVarInt_bytes [wire_enc]: "appendVarInt p v = writeBytes p (VarIntToBytes v)"
  by (simp add: appendVarInt_def VarIntToBytes_def writeByte_def)

lemma SizeVarInt_length [wire_len]: "SizeVarInt v = int (length (VarIntToBytes v))"
  by (simp add: SizeVarInt_def VarIntToBytes_def)

lemma VarIntToBytes_nonempty [simp]: "VarIntToBytes v \<noteq> []"
  by (simp add: VarIntToBytes_def)

lemma VarIntToBytes_le_10: "length (VarIntToBytes v) \<le> 10"
  by (simp add: VarIntToBytes_def)

definition zigzag :: "int64 \<Rightarrow> uint64" where
  "zigzag v = push_bit 1 v XOR signed_drop_bit 63 v"

definition tag_bytes :: "ProtoWireNumber \<Rightarrow> ProtoWireType \<Rightarrow> byte list" where
  "tag_bytes tag t = VarIntToBytes (push_bit 3 (scast tag) OR scast (t AND 7))"

definition fixed32_bytes :: "uint32 \<Rightarrow> byte list" where
  "fixed32_bytes v = [ucast v, ucast (drop_bit 8 v), ucast (drop_bit 16 v), ucast (drop_bit 24 v)]"

definition fixed64_bytes :: "uint64 \<Rightarrow> byte list" where
  "fixed64_bytes v =
     [ucast v, ucast (drop_bit 8 v), ucast (drop_bit 16 v), ucast (drop_bit 24 v),
      ucast (drop_bit 32 v), ucast (drop_bit 40 v), ucast (drop_bit 48 v), ucast (drop_bit 56 v)]"

definition delimited :: "byte list \<Rightarrow> byte list" where
  "delimited data = VarIntToBytes (of_nat (length data)) @ data"

lemma appendTag_bytes [wire_enc]: "appendTag p tag t = writeBytes p (tag_bytes tag t)"
  by (simp add: appendTag_def tag_bytes_def wire_enc)

lemma appendSigned_bytes [wire_enc]: "appendSignedVarInt p v = writeBytes p (VarIntToBytes (zigzag v))"
  by (simp add: appendSignedVarInt_def zigzag_def wire_enc)

lemma appendFixed_bytes [wire_enc]:
  "appendFixed32 p w = writeBytes p (fixed32_bytes w)"
  "appendFixed64 p v = writeBytes p (fixed64_bytes v)"
  by (simp_all add: appendFixed32_def appendFixed64_def fixed32_bytes_def fixed64_bytes_def
      writeByte_def)

lemma fixed_bytes_length [simp, wire_len]:
  "length (fixed32_bytes w) = 4" "length (fixed64_bytes v) = 8"
  by (simp_all add: fixed32_bytes_def fixed64_bytes_def)

lemma AppendBytes_bytes [wire_enc]:
  "AppendBytes p tag data = writeBytes p (tag_bytes tag BytesType @ delimited data)"
  by (simp add: AppendBytes_def delimited_def wire_enc)

lemma AppendString_bytes [wire_enc]: "AppendString p tag data = AppendBytes p tag data"
  by (simp add: AppendString_def AppendBytes_def writeBytes_def)

section \<open>Bit-level facts of zigzag, tags and fixed-width integers\<close>

lemma zigzag_inverse:
  "drop_bit 1 (zigzag v) XOR signed_drop_bit 63 (push_bit 63 (zigzag v)) = v"
proof (rule bit_word_eqI)
  fix n
  assume "n < LENGTH(64)"
  then have n: "n < 64" by simp
  have "\<not> bit v (64 + k)" for k
    using bit_imp_le_length [of v "64 + k"] by auto
  from this [of 0] this [of 63] n
  show "bit (drop_bit 1 (zigzag v) XOR signed_drop_bit 63 (push_bit 63 (zigzag v))) n = bit v n"
    unfolding zigzag_def
    by (cases "n = 63"; simp only: bit_xor_iff bit_drop_bit_eq bit_signed_drop_bit_iff
        bit_push_bit_iff o_def size_word_def possible_bit_word) auto
qed

lemma fixed32_join:
  "ucast (ucast (v :: uint32) :: byte) OR push_bit 8 (ucast (ucast (drop_bit 8 v) :: byte)) OR
   push_bit 16 (ucast (ucast (drop_bit 16 v) :: byte)) OR
   push_bit 24 (ucast (ucast (drop_bit 24 v) :: byte)) = (ucast v :: uint64)"
  (is "?l = _")
proof (rule bit_word_eqI)
  fix n
  assume n: "n < LENGTH(64)"
  have "bit v n \<Longrightarrow> n < 32"
    using bit_imp_le_length [of v n] by auto
  with n show "bit ?l n = bit (ucast v :: uint64) n"
    by (cases "n < 8"; cases "n < 16"; cases "n < 24") (auto simp: bit_simps)
qed

lemma take_bit_join8:
  "take_bit k v OR push_bit k (ucast (ucast (drop_bit k v) :: byte)) = take_bit (k + 8) (v :: uint64)"
  by (rule bit_word_eqI) (auto simp: bit_simps dest: bit_imp_le_length)

lemma take_bit_byte: "take_bit 8 (v :: uint64) = ucast (ucast v :: byte)"
  by (rule bit_word_eqI) (auto simp: bit_simps)

lemma fixed64_join:
  "ucast (ucast (v :: uint64) :: byte) OR push_bit 8 (ucast (ucast (drop_bit 8 v) :: byte)) OR
   push_bit 16 (ucast (ucast (drop_bit 16 v) :: byte)) OR
   push_bit 24 (ucast (ucast (drop_bit 24 v) :: byte)) OR
   push_bit 32 (ucast (ucast (drop_bit 32 v) :: byte)) OR
   push_bit 40 (ucast (ucast (drop_bit 40 v) :: byte)) OR
   push_bit 48 (ucast (ucast (drop_bit 48 v) :: byte)) OR
   push_bit 56 (ucast (ucast (drop_bit 56 v) :: byte)) = v"
proof -
  have "take_bit 64 v = v"
    by (rule bit_word_eqI) (simp add: bit_simps)
  then show ?thesis
    using take_bit_join8 [of 8 v] take_bit_join8 [of 16 v] take_bit_join8 [of 24 v]
      take_bit_join8 [of 32 v] take_bit_join8 [of 40 v] take_bit_join8 [of 48 v]
      take_bit_join8 [of 56 v]
    by (simp add: take_bit_byte [symmetric] or.assoc [symmetric])
qed

text \<open>A tag number is a non-negative \<^verbatim>\<open>int32\<close>, a wire type a three bit value.\<close>

definition valid_tag :: "ProtoWireNumber \<Rightarrow> bool" where
  "valid_tag tag \<longleftrightarrow> tag < 0x80000000"

lemma scast_tag: "valid_tag tag \<Longrightarrow> scast tag = (ucast tag :: uint64)"
proof -
  assume "valid_tag tag"
  then have "uint tag < 2 ^ 31" by (simp add: valid_tag_def word_less_def)
  moreover have "- (2 ^ 31) \<le> uint tag"
    by (rule order_trans [of _ 0]) simp_all
  ultimately have "sint tag = uint tag"
    by (simp add: sint_uint signed_take_bit_int_eq_self)
  then show ?thesis by (simp add: scast_eq)
qed

lemma and_7_byte: "(t :: byte) AND 7 = take_bit 3 t"
  by (simp add: take_bit_eq_mask mask_eq_exp_minus_1)

lemma take_bit_3_small: "(t :: byte) < 8 \<Longrightarrow> take_bit 3 t = t"
proof -
  assume "t < 8"
  moreover have "unat (take_bit 3 t) = unat t mod 8"
    by (subst unsigned_take_bit_eq) (simp_all add: take_bit_eq_mod)
  ultimately show ?thesis by (simp add: word_less_nat_alt word_unat_eq_iff)
qed

lemma scast_take_bit_3: "scast (take_bit 3 (t :: byte)) = (ucast (take_bit 3 t) :: uint64)"
  by (rule bit_word_eqI) (auto simp: bit_simps dest: bit_imp_le_length)

lemma tag_number: "drop_bit 3 (push_bit 3 (ucast tag) OR ucast (take_bit 3 (t :: byte))) =
    (ucast (tag :: ProtoWireNumber) :: uint64)"
  by (rule bit_word_eqI) (auto simp: bit_simps dest: bit_imp_le_length)

lemma tag_wire: "(push_bit 3 (ucast (tag :: ProtoWireNumber)) OR ucast (take_bit 3 (t :: byte))) AND 7 =
    (ucast (take_bit 3 t) :: uint64)"
proof -
  have "x AND 7 = take_bit 3 x" for x :: uint64
    by (simp add: take_bit_eq_mask mask_eq_exp_minus_1)
  then show ?thesis by (simp only:) (rule bit_word_eqI, auto simp: bit_simps)
qed

section \<open>Reading what was written\<close>

text \<open>\<open>holds_at p off bs\<close>: the reader's buffer has the bytes \<open>bs\<close> at \<open>off\<close>, and is short
  enough for ten more bytes of offset arithmetic not to overflow.\<close>

definition holds_at :: "Reader \<Rightarrow> nat \<Rightarrow> byte list \<Rightarrow> bool" where
  "holds_at p off bs \<longleftrightarrow>
     off + length bs \<le> length (elems (buf p)) \<and>
     take (length bs) (drop off (elems (buf p))) = bs \<and>
     int (length (elems (buf p))) + 10 < 2 ^ 63"

lemma holds_at_append:
  "holds_at p off (xs @ ys) \<longleftrightarrow> holds_at p off xs \<and> holds_at p (off + length xs) ys"
  by (auto simp: holds_at_def take_add add.commute [of off] simp flip: drop_drop)

lemma holds_at_drop:
  assumes "holds_at p off bs"
  obtains post where "drop off (elems (buf p)) = bs @ post"
  using assms unfolding holds_at_def by (metis append_take_drop_id)

lemma holds_at_range: "holds_at p off bs \<Longrightarrow> int off + int (length bs) + 10 < 2 ^ 63"
  by (auto simp: holds_at_def)

lemma holds_at_nth:
  assumes "holds_at p off bs" and "i < length bs"
  shows "off + i < length (elems (buf p))" and "elems (buf p) ! (off + i) = bs ! i"
proof -
  obtain post where "drop off (elems (buf p)) = bs @ post"
    using assms(1) by (rule holds_at_drop)
  moreover have "off + i < length (elems (buf p))"
    using assms by (simp add: holds_at_def)
  ultimately show "elems (buf p) ! (off + i) = bs ! i" and "off + i < length (elems (buf p))"
    using assms(2) by (simp_all add: nth_append flip: nth_drop)
qed

lemma leb_dec_VarInt: "leb_dec 0 (VarIntToBytes v @ rest) = Some (unat v, length (VarIntToBytes v))"
  using leb_dec_enc [of "unat v" 0] u64_nat_bound [of v] by (simp add: VarIntToBytes_leb)

lemma readVarIntAt_holds [go_simps]:
  assumes "holds_at p off (VarIntToBytes v)"
  shows "readVarIntAt p (int off) = Ret (v, int (length (VarIntToBytes v)))"
proof -
  obtain post where "drop off (elems (buf p)) = VarIntToBytes v @ post"
    using assms by (rule holds_at_drop)
  moreover have "int off + 10 < 2 ^ 63"
    using holds_at_range [OF assms] by simp
  ultimately show ?thesis
    by (simp add: readVarIntAt_leb leb_dec_VarInt)
qed

lemma getVarIntSize_leb:
  assumes "leb_dec i bs = Some (v, n)" and "drop (off + i) (elems (buf p)) = bs" and "i \<le> 9"
    and "int off + 10 < 2 ^ 63"
  shows "getVarIntSize_from p (int off) (int i) = Ret (int (i + n))"
  using assms
proof (induction i bs arbitrary: v n rule: leb_dec.induct)
  case (1 k)
  then show ?case by simp
next
  case (2 k b bs)
  from 2(3) have len: "off + k < length (elems (buf p))"
    by (metis drop_eq_Nil list.distinct(1) not_le)
  from Cons_nth_drop_Suc [OF this] 2(3)
  have b: "elems (buf p) ! (off + k) = b" and rest: "drop (off + Suc k) (elems (buf p)) = bs"
    by simp_all
  have at: "slice_at (buf p) (iadd (int off) (int k)) = Ret b" "HasNext p (int off) (int k)"
    using len b 2(4,5) by (simp_all add: slice_at_add HasNext_nat)
  show ?case
  proof (cases "unat b < 128")
    case True
    with at 2(2,4) show ?thesis
      by (subst getVarIntSize_from.simps) (auto simp: byte_less_128 split: if_splits)
  next
    case False
    with 2(2,4) obtain v' n' where k: "k < 9" and "leb_dec (Suc k) bs = Some (v', n')"
      and n: "n = Suc n'"
      by (auto split: if_splits)
    then have "getVarIntSize_from p (int off) (int (Suc k)) = Ret (int (Suc k + n'))"
      using 2(1) [OF _ False _ rest] 2(5) by simp
    then show ?thesis
      using at k n False
      by (subst getVarIntSize_from.simps) (simp add: byte_less_128 add.commute)
  qed
qed

lemma getVarIntSize_holds [go_simps]:
  assumes "holds_at p off (VarIntToBytes v)"
  shows "getVarIntSize p (int off) = Ret (int (length (VarIntToBytes v)))"
proof -
  obtain post where "drop off (elems (buf p)) = VarIntToBytes v @ post"
    using assms by (rule holds_at_drop)
  then show ?thesis
    using getVarIntSize_leb [of 0 "VarIntToBytes v @ post"] leb_dec_VarInt [of v post]
      holds_at_range [OF assms]
    by (simp add: getVarIntSize_def)
qed

lemma readSigned_holds [go_simps]:
  assumes "holds_at p off (VarIntToBytes (zigzag v))"
  shows "readSignedVarIntAt p (int off) = Ret (v, int (length (VarIntToBytes (zigzag v))))"
  using readVarIntAt_holds [OF assms] zigzag_inverse [of v] by (simp add: readSignedVarIntAt_def)

lemma readFixed32_holds [go_simps]:
  assumes "holds_at p off (fixed32_bytes v)"
  shows "readFixed32At p (int off) = Ret (ucast v)"
proof -
  have "slice_at (buf p) (int off + int i) = Ret (fixed32_bytes v ! i)" if "i < 4" for i
    using holds_at_nth [OF assms, of i] that by (simp add: slice_at_add)
  from this [of 0] this [of 1] this [of 2] this [of 3] holds_at_range [OF assms]
  show ?thesis by (simp add: readFixed32At_def fixed32_bytes_def fixed32_join)
qed

lemma readFixed64_holds [go_simps]:
  assumes "holds_at p off (fixed64_bytes v)"
  shows "readFixed64At p (int off) = Ret v"
proof -
  have "slice_at (buf p) (int off + int i) = Ret (fixed64_bytes v ! i)" if "i < 8" for i
    using holds_at_nth [OF assms, of i] that by (simp add: slice_at_add)
  from this [of 0] this [of 1] this [of 2] this [of 3] this [of 4] this [of 5] this [of 6]
    this [of 7] holds_at_range [OF assms]
  show ?thesis by (simp add: readFixed64At_def fixed64_bytes_def fixed64_join)
qed

lemma tag_bytes_word:
  assumes "valid_tag tag" and "t < 8"
  obtains d where "tag_bytes tag t = VarIntToBytes d" and "drop_bit 3 d = ucast tag"
    and "d AND 7 = ucast t"
proof
  have t: "scast (t AND 7) = (ucast (take_bit 3 t) :: uint64)"
    by (simp add: and_7_byte scast_take_bit_3)
  show "tag_bytes tag t = VarIntToBytes (push_bit 3 (ucast tag) OR ucast (take_bit 3 t))"
    using assms(1) by (simp only: tag_bytes_def scast_tag t)
  show "(push_bit 3 (ucast tag) OR ucast (take_bit 3 t)) AND 7 = (ucast t :: uint64)"
    using tag_wire [of tag t] take_bit_3_small [OF assms(2)] by simp
qed (rule tag_number)

lemma ReadTagAt_holds [go_simps]:
  assumes "holds_at p off (tag_bytes tag t)" and "valid_tag tag" and "t < 8"
  shows "ReadTagAt p (int off) = Ret (tag, t, int (length (tag_bytes tag t)))"
proof -
  obtain d where d: "tag_bytes tag t = VarIntToBytes d" "drop_bit 3 d = ucast tag" "d AND 7 = ucast t"
    using assms(2,3) by (rule tag_bytes_word)
  moreover have "\<not> (ucast tag :: uint64) > 0x7FFFFFFF"
    using assms(2) by (simp add: valid_tag_def word_less_nat_alt)
  ultimately show ?thesis
    using assms(1) readVarIntAt_holds [of p off d] by (simp add: ReadTagAt_def)
qed

section \<open>The size of a tag does not depend on the wire type\<close>

lemma less_exp_drop_bit: "m < 64 \<Longrightarrow> (c :: uint64) < 2 ^ m \<longleftrightarrow> drop_bit m c = 0"
proof -
  assume "m < 64"
  then have "c < 2 ^ m \<longleftrightarrow> uint c < 2 ^ m" by (simp add: word_2p_lem word_size)
  also have "\<dots> \<longleftrightarrow> uint c div 2 ^ m = 0"
    using zero_less_power [of "2 :: int" m] by (auto simp: zdiv_eq_0_iff)
  also have "uint c div 2 ^ m = uint (drop_bit m c)"
    using uint_bounded [of c]
    by (subst unsigned_drop_bit_eq) (simp add: drop_bit_eq_div take_bit_int_eq_self)
  also have "uint (drop_bit m c) = 0 \<longleftrightarrow> drop_bit m c = 0" by (simp only: uint_0_iff)
  finally show ?thesis .
qed

lemma SizeTag_length: "SizeTag tag = int (length (tag_bytes tag t))"
proof -
  have z: "drop_bit m (scast (t AND 7) :: uint64) = 0" if "3 \<le> m" for m
    using that unfolding and_7_byte scast_take_bit_3
    by - (rule bit_word_eqI, auto simp: bit_simps)
  have lt: "push_bit 3 (scast tag) OR scast (t AND 7) < (2 :: uint64) ^ m \<longleftrightarrow>
      push_bit 3 (scast tag) < (2 :: uint64) ^ m" if "3 \<le> m" "m < 64" for m
    using that by (simp only: less_exp_drop_bit drop_bit_or z or.right_neutral)
  have "SizeVarInt (push_bit 3 (scast tag) OR (0 AND 7)) =
      SizeVarInt (push_bit 3 (scast tag) OR scast (t AND 7))"
    using lt [of 7] lt [of 14] lt [of 21] lt [of 28] lt [of 35] lt [of 42] lt [of 49] lt [of 56]
      lt [of 63]
    by (simp add: SizeVarInt_def)
  then show ?thesis by (simp add: SizeTag_def SizeVarInt_length tag_bytes_def)
qed

section \<open>The writer's invariant\<close>

definition wf_writer :: "Writer \<Rightarrow> bool" where
  "wf_writer w \<longleftrightarrow> length (wbuf w) \<le> wcap w"

lemma wf_NewWriter: "NewWriter sz = Ret w \<Longrightarrow> wf_writer w"
  by (auto simp: NewWriter_def wf_writer_def split: if_splits)

lemma wf_writeBytes: "writeBytes w xs = Ret w' \<Longrightarrow> wf_writer w' \<and> wcap w' = wcap w"
  by (auto simp: writeBytes_def wf_writer_def split: if_splits)

lemma writeBytes_Nil [simp]: "wf_writer w \<Longrightarrow> writeBytes w [] = Ret w"
  by (simp add: writeBytes_def wf_writer_def)

lemma go_fold_writeBytes [wire_enc]:
  "wf_writer w \<Longrightarrow> go_fold (\<lambda>x w. writeBytes w (f x)) xs w = writeBytes w (concat (map f xs))"
proof (induction xs arbitrary: w)
  case Nil
  then show ?case by simp
next
  case (Cons x xs)
  show ?case
  proof (cases "writeBytes w (f x)")
    case (Ret w')
    with Cons.IH [of w'] show ?thesis
      using writeBytes_writeBytes [of w "f x" "concat (map f xs)"] wf_writeBytes [OF Ret] by simp
  next
    case Panic
    then show ?thesis using writeBytes_writeBytes [of w "f x" "concat (map f xs)"] by simp
  qed (auto simp: writeBytes_def split: if_splits)
qed

end
