(* ===== verification/Wire_Fields.thy ===== *)
theory Wire_Fields
  imports Wire_Codec
begin

unbundle bit_operations_syntax

text \<open>
  Fields on the wire. The interface \<open>scalar_codec\<close> is what the generated code relies on for
  each protobuf scalar type (its reader, sized reader, appends and size function), and is
  interpreted on all thirteen of them. On top of it: the packed repeated fields and the
  \<^verbatim>\<open>Unmarshal\<close> loop that the templates of
  \<^verbatim>\<open>src/shared/gremlin_go/gremlinc/internal/generators/golang\<close> emit, which take the
  scalar operations as parameters.
\<close>

section \<open>Skipping one field\<close>

lemma SkipData_VarInt:
  assumes "holds_at p off (VarIntToBytes v)"
  shows "SkipData p (int off) VarIntType = Some (Ret (int off + int (length (VarIntToBytes v))))"
  using holds_at_range [OF assms]
  by (subst SkipData.simps) (simp add: getVarIntSize_holds [OF assms])

lemma SkipData_Fixed:
  "int off + 10 < 2 ^ 63 \<Longrightarrow> SkipData p (int off) Fixed32Type = Some (Ret (int off + 4))"
  "int off + 10 < 2 ^ 63 \<Longrightarrow> SkipData p (int off) Fixed64Type = Some (Ret (int off + 8))"
  by (subst SkipData.simps; simp add: wire_types)+

lemma unat_of_nat_small: "n < 2 ^ 63 \<Longrightarrow> unat (of_nat n :: uint64) = n"
  by (simp add: unat_of_nat)

lemma holds_at_delimited:
  assumes "holds_at p off (delimited data)"
  shows "holds_at p off (VarIntToBytes (of_nat (length data)))"
    and "holds_at p (off + length (VarIntToBytes (of_nat (length data)))) data"
    and "int_of_u64 (of_nat (length data)) = int (length data)"
    and "int off + int (length (VarIntToBytes (of_nat (length data)))) + int (length data) < 2 ^ 63"
proof -
  show v: "holds_at p off (VarIntToBytes (of_nat (length data)))"
    and d: "holds_at p (off + length (VarIntToBytes (of_nat (length data)))) data"
    using assms by (simp_all add: delimited_def holds_at_append)
  have "length data < 2 ^ 63"
    using holds_at_range [OF d] by simp
  then show "int_of_u64 (of_nat (length data)) = int (length data)"
    by (simp add: unat_of_nat_small)
  show "int off + int (length (VarIntToBytes (of_nat (length data)))) + int (length data) < 2 ^ 63"
    using holds_at_range [OF d] by simp
qed

lemma SkipData_Bytes:
  assumes "holds_at p off (delimited data)"
  shows "SkipData p (int off) BytesType = Some (Ret (int off + int (length (delimited data))))"
  using holds_at_delimited [OF assms]
  by (subst SkipData.simps) (simp add: wire_types readVarIntAt_holds delimited_def)

lemma ReadBytes_holds [go_simps]:
  assumes "holds_at p off (delimited data)"
  shows "\<exists>sp. ReadBytes p (int off) = Ret \<lparr>elems = data, spare = sp\<rparr>"
    and "\<exists>sp. SizedReadBytes p (int off) =
      Ret (\<lparr>elems = data, spare = sp\<rparr>, int (length (delimited data)))"
proof -
  let ?n = "length (VarIntToBytes (of_nat (length data)))"
  note h = holds_at_delimited [OF assms]
  obtain post where "drop (off + ?n) (elems (buf p)) = data @ post"
    using h(2) by (rule holds_at_drop)
  moreover have "length (take (off + ?n) (elems (buf p))) = off + ?n"
    using h(2) by (simp add: holds_at_def)
  ultimately have "reslice (buf p) (int (off + ?n)) (int (off + ?n) + int (length data)) =
      Ret \<lparr>elems = data, spare = post @ spare (buf p)\<rparr>"
    using reslice_inside [of "buf p" "take (off + ?n) (elems (buf p))" data post]
    by (metis append_take_drop_id)
  with h show "\<exists>sp. ReadBytes p (int off) = Ret \<lparr>elems = data, spare = sp\<rparr>"
    and "\<exists>sp. SizedReadBytes p (int off) =
      Ret (\<lparr>elems = data, spare = sp\<rparr>, int (length (delimited data)))"
    by (simp_all add: ReadBytes_def SizedReadBytes_def readVarIntAt_holds delimited_def)
qed

lemma ReadString_holds [go_simps]:
  "holds_at p off (delimited data) \<Longrightarrow> ReadString p (int off) = Ret data"
  using ReadBytes_holds(1) [of p off data] by (auto simp: ReadString_def)

section \<open>The scalar interface\<close>

locale scalar_codec =
  fixes enc :: "'a \<Rightarrow> byte list"
    and wire :: ProtoWireType
    and appendRaw :: "Writer \<Rightarrow> 'a \<Rightarrow> Writer go"
    and appendTagged :: "Writer \<Rightarrow> ProtoWireNumber \<Rightarrow> 'a \<Rightarrow> Writer go"
    and size_of :: "'a \<Rightarrow> int"
    and readRaw :: "Reader \<Rightarrow> int \<Rightarrow> 'a go"
    and sizedRead :: "Reader \<Rightarrow> int \<Rightarrow> ('a \<times> int) go"
  assumes enc_nonempty: "enc x \<noteq> []"
    and wire_small: "wire < 8"
    and appendRaw_enc: "appendRaw w x = writeBytes w (enc x)"
    and append_enc: "appendTagged w tag x = writeBytes w (tag_bytes tag wire @ enc x)"
    and size_enc: "size_of x = int (length (enc x))"
    and read_enc: "holds_at p off (enc x) \<Longrightarrow> readRaw p (int off) = Ret x"
    and sizedRead_enc:
      "holds_at p off (enc x) \<Longrightarrow> sizedRead p (int off) = Ret (x, int (length (enc x)))"
    and skip_enc:
      "holds_at p off (enc x) \<Longrightarrow>
       SkipData p (int off) wire = Some (Ret (int off + int (length (enc x))))"

lemma sizeSigned_zigzag: "sizeSignedVarInt v = SizeVarInt (zigzag v)"
  by (simp only: sizeSignedVarInt_def zigzag_def)

lemmas varint_laws = readVarIntAt_holds SkipData_VarInt SizeVarInt_length appendVarInt_bytes
  appendTag_bytes writeBytes_writeBytes readSigned_holds appendSigned_bytes

interpretation c_int32: scalar_codec "\<lambda>x. VarIntToBytes (scast x)" VarIntType
  AppendInt32WithoutTag AppendInt32 SizeInt32 ReadInt32 SizedReadInt32
  by unfold_locales (simp_all add: AppendInt32WithoutTag_def AppendInt32_def SizeInt32_def
      ReadInt32_def SizedReadInt32_def ReadVarInt_def varint_laws, simp add: wire_types)

interpretation c_int64: scalar_codec "VarIntToBytes" VarIntType
  AppendInt64WithoutTag AppendInt64 SizeInt64 ReadInt64 SizedReadInt64
  by unfold_locales (simp_all add: AppendInt64WithoutTag_def AppendInt64_def SizeInt64_def
      ReadInt64_def SizedReadInt64_def ReadVarInt_def varint_laws, simp add: wire_types)

interpretation c_uint32: scalar_codec "\<lambda>x. VarIntToBytes (ucast x)" VarIntType
  AppendUint32WithoutTag AppendUint32 SizeUint32 ReadUint32 SizedReadUint32
  by unfold_locales (simp_all add: AppendUint32WithoutTag_def AppendUint32_def SizeUint32_def
      ReadUint32_def SizedReadUint32_def ReadVarInt_def SizedReadVarInt_def varint_laws, simp add: wire_types)

interpretation c_uint64: scalar_codec "VarIntToBytes" VarIntType
  AppendUint64WithoutTag AppendUint64 SizeUint64 ReadUint64 SizedReadUint64
  by unfold_locales (simp_all add: AppendUint64WithoutTag_def AppendUint64_def SizeUint64_def
      ReadUint64_def SizedReadUint64_def ReadVarInt_def SizedReadVarInt_def varint_laws, simp add: wire_types)

interpretation c_sint32: scalar_codec "\<lambda>x. VarIntToBytes (zigzag (scast x))" VarIntType
  AppendSInt32WithoutTag AppendSInt32 SizeSInt32 ReadSInt32 SizedReadSInt32
  by unfold_locales (simp_all add: AppendSInt32WithoutTag_def AppendSInt32_def SizeSInt32_def
      ReadSInt32_def SizedReadSInt32_def sizeSigned_zigzag varint_laws, simp add: wire_types)

interpretation c_sint64: scalar_codec "\<lambda>x. VarIntToBytes (zigzag x)" VarIntType
  AppendSInt64WithoutTag AppendSInt64 SizeSInt64 ReadSInt64 SizedReadSInt64
  by unfold_locales (simp_all add: AppendSInt64WithoutTag_def AppendSInt64_def SizeSInt64_def
      ReadSInt64_def SizedReadSInt64_def sizeSigned_zigzag varint_laws, simp add: wire_types)

lemma VarIntToBytes_bool: "length (VarIntToBytes (if b then 1 else 0)) = 1"
  by (simp add: VarIntToBytes_def)

interpretation c_bool: scalar_codec "\<lambda>b. VarIntToBytes (if b then 1 else 0)" VarIntType
  AppendBoolWithoutTag AppendBool SizeBool ReadBool SizedReadBool
  by unfold_locales (simp_all add: AppendBoolWithoutTag_def AppendBool_def SizeBool_def
      ReadBool_def SizedReadBool_def ReadVarInt_def SizedReadVarInt_def varint_laws
      VarIntToBytes_bool del: if_split_asm, simp add: wire_types)

lemma SkipData_Fixed_holds:
  "holds_at p off (fixed32_bytes w) \<Longrightarrow> SkipData p (int off) Fixed32Type = Some (Ret (int off + 4))"
  "holds_at p off (fixed64_bytes v) \<Longrightarrow> SkipData p (int off) Fixed64Type = Some (Ret (int off + 8))"
  by (rule SkipData_Fixed, drule holds_at_range, simp)+

lemma fixed_nonempty [simp]: "fixed32_bytes w \<noteq> []" "fixed64_bytes v \<noteq> []"
  by (simp_all add: fixed32_bytes_def fixed64_bytes_def)

lemmas fixed_laws = readFixed32_holds readFixed64_holds appendFixed_bytes appendTag_bytes
  writeBytes_writeBytes sizeFixed32_def sizeFixed64_def fixed_bytes_length
  SkipData_Fixed_holds

interpretation c_fixed32: scalar_codec "fixed32_bytes" Fixed32Type
  AppendFixed32WithoutTag AppendFixed32 SizeFixed32 ReadFixed32 SizedReadFixed32
  by unfold_locales (simp_all add: AppendFixed32WithoutTag_def AppendFixed32_def SizeFixed32_def
      ReadFixed32_def SizedReadFixed32_def fixed_laws, simp add: wire_types)

interpretation c_fixed64: scalar_codec "fixed64_bytes" Fixed64Type
  AppendFixed64WithoutTag AppendFixed64 SizeFixed64 ReadFixed64 SizedReadFixed64
  by unfold_locales (simp_all add: AppendFixed64WithoutTag_def AppendFixed64_def SizeFixed64_def
      ReadFixed64_def SizedReadFixed64_def fixed_laws, simp add: wire_types)

interpretation c_sfixed32: scalar_codec "fixed32_bytes" Fixed32Type
  AppendSFixed32WithoutTag AppendSFixed32 SizeSFixed32 ReadSFixed32 SizedReadSFixed32
  by unfold_locales (simp_all add: AppendSFixed32WithoutTag_def AppendSFixed32_def SizeSFixed32_def
      ReadSFixed32_def SizedReadSFixed32_def fixed_laws, simp add: wire_types)

interpretation c_sfixed64: scalar_codec "fixed64_bytes" Fixed64Type
  AppendSFixed64WithoutTag AppendSFixed64 SizeSFixed64 ReadSFixed64 SizedReadSFixed64
  by unfold_locales (simp_all add: AppendSFixed64WithoutTag_def AppendSFixed64_def SizeSFixed64_def
      ReadSFixed64_def SizedReadSFixed64_def fixed_laws, simp add: wire_types)

interpretation c_float32: scalar_codec "fixed32_bytes" Fixed32Type
  AppendFloat32WithoutTag AppendFloat32 SizeFloat32 ReadFloat32 SizedReadFloat32
  by unfold_locales (simp_all add: AppendFloat32WithoutTag_def AppendFloat32_def SizeFloat32_def
      ReadFloat32_def SizedReadFloat32_def fixed_laws, simp add: wire_types)

interpretation c_float64: scalar_codec "fixed64_bytes" Fixed64Type
  AppendFloat64WithoutTag AppendFloat64 SizeFloat64 ReadFloat64 SizedReadFloat64
  by unfold_locales (simp_all add: AppendFloat64WithoutTag_def AppendFloat64_def SizeFloat64_def
      ReadFloat64_def SizedReadFloat64_def fixed_laws, simp add: wire_types)

end
