(* ===== verification/Generated_Code.thy ===== *)
theory Generated_Code
  imports Wire_Fields
begin

text \<open>
  The code that the templates under
  \<^verbatim>\<open>src/shared/gremlin_go/gremlinc/internal/generators/golang\<close> emit for every message:
  the \<^verbatim>\<open>Unmarshal\<close> loop (\<^verbatim>\<open>types/structs.go\<close>), the lazy readers of scalar,
  repeated and packed fields (\<^verbatim>\<open>fields/scalar.go\<close>, \<^verbatim>\<open>lists.go\<close>,
  \<^verbatim>\<open>plist.go\<close>), and their size and write code. What a template fills in per field (a
  read, append or size operation of the wire library, the field's default) is a parameter.
\<close>

section \<open>Readers\<close>

text \<open>A message reader holds a pointer \<^verbatim>\<open>buf\<close> to its wire reader, nil until \<^verbatim>\<open>Unmarshal\<close>.\<close>

definition on_buf :: "(Reader \<Rightarrow> int \<Rightarrow> 'a go) \<Rightarrow> Reader option \<Rightarrow> int \<Rightarrow> 'a go" where
  "on_buf rd b off = (case b of None \<Rightarrow> Panic | Some p \<Rightarrow> rd p off)"

definition entryReader :: "(Reader \<Rightarrow> int \<Rightarrow> 'a go) \<Rightarrow> 'a \<Rightarrow> Reader option \<Rightarrow> int \<Rightarrow> 'a go" where
  "entryReader rd dflt b wOffset = (if wOffset > 0 then on_buf rd b wOffset else Ret dflt)"

definition entrySizedReader ::
  "(Reader \<Rightarrow> int \<Rightarrow> ('a \<times> int) go) \<Rightarrow> 'a \<Rightarrow> Reader option \<Rightarrow> int \<Rightarrow> ('a \<times> int) go" where
  "entrySizedReader srd dflt b wOffset = (if wOffset > 0 then on_buf srd b wOffset else Ret (dflt, 0))"

text \<open>The loops of a repeated field, with the list read so far as \<open>entry\<close>.\<close>

fun repeatedReader ::
  "(Reader \<Rightarrow> int \<Rightarrow> 'a go) \<Rightarrow> 'a \<Rightarrow> Reader option \<Rightarrow> int list \<Rightarrow> 'a list \<Rightarrow> 'a list go" where
  "repeatedReader rd dflt b [] entry = Ret entry"
| "repeatedReader rd dflt b (wOffset # ws) entry =
     go_bind (entryReader rd dflt b wOffset) (\<lambda>listEntry.
       repeatedReader rd dflt b ws (entry @ [listEntry]))"

text \<open>The inner loop over one packed record: \<open>base\<close> is \<^verbatim>\<open>wOffset + sizeSize\<close>.\<close>

partial_function (option) packedLoop ::
  "(Reader \<Rightarrow> int \<Rightarrow> ('a \<times> int) go) \<Rightarrow> 'a \<Rightarrow> Reader option \<Rightarrow> int \<Rightarrow> int \<Rightarrow> int \<Rightarrow> 'a list \<Rightarrow>
   'a list go option" where
  "packedLoop srd dflt b base sz offset entry =
     (if offset < sz then
        (case entrySizedReader srd dflt b (iadd base offset) of
           Err e \<Rightarrow> Some (Err e)
         | Panic \<Rightarrow> Some Panic
         | Ret (listEntry, listEntrySize) \<Rightarrow>
             packedLoop srd dflt b base sz (iadd offset listEntrySize) (entry @ [listEntry]))
      else Some (Ret entry))"

fun packedReader ::
  "(Reader \<Rightarrow> int \<Rightarrow> 'a go) \<Rightarrow> (Reader \<Rightarrow> int \<Rightarrow> ('a \<times> int) go) \<Rightarrow> 'a \<Rightarrow> Reader option \<Rightarrow>
   int list \<Rightarrow> ProtoWireType list \<Rightarrow> 'a list \<Rightarrow> 'a list run" where
  "packedReader rd srd dflt b [] wTypes entry = Some (Ret entry)"
| "packedReader rd srd dflt b (wOffset # ws) [] entry = Some Panic"
| "packedReader rd srd dflt b (wOffset # ws) (wType # ts) entry =
     (if wType = BytesType then
        run_bind (Some (on_buf SizedReadVarInt b wOffset)) (\<lambda>(sz, sizeSize).
        run_bind (packedLoop srd dflt b (iadd wOffset sizeSize) (int_of_u64 sz) 0 entry) (\<lambda>entry.
        packedReader rd srd dflt b ws ts entry))
      else
        run_bind (Some (entryReader rd dflt b wOffset)) (\<lambda>listEntry.
        packedReader rd srd dflt b ws ts (entry @ [listEntry])))"

text \<open>
  A message field: \<open>unm\<close> is \<^verbatim>\<open>Unmarshal\<close> on a new reader. Its error is dropped, an empty
  payload leaves the pointer nil.
\<close>

definition structReader ::
  "(gslice \<Rightarrow> ('r \<times> string option) run) \<Rightarrow> Reader option \<Rightarrow> int \<Rightarrow> 'r option run" where
  "structReader unm b wOffset =
     (if wOffset > 0 then
        run_bind (Some (on_buf ReadBytes b wOffset)) (\<lambda>entryData.
          if slen entryData > 0
          then run_bind (unm entryData) (\<lambda>(entry, err). Some (Ret (Some entry)))
          else Some (Ret None))
      else Some (Ret None))"

fun repeatedStructReader ::
  "(gslice \<Rightarrow> ('r \<times> string option) run) \<Rightarrow> Reader option \<Rightarrow> int list \<Rightarrow> 'r option list \<Rightarrow>
   'r option list run" where
  "repeatedStructReader unm b [] entry = Some (Ret entry)"
| "repeatedStructReader unm b (wOffset # ws) entry =
     run_bind (structReader unm b wOffset) (\<lambda>listEntry.
       repeatedStructReader unm b ws (entry @ [listEntry]))"

text \<open>\<^verbatim>\<open>ToStruct\<close> of a pointer and of the pointers of a list. It fills the caches of the reader it
  is called on, so the reader is returned with its new state.\<close>

definition structToStruct ::
  "('r option \<Rightarrow> ('s option \<times> 'r option) run) \<Rightarrow> 'r option \<Rightarrow> ('s option \<times> 'r option) run" where
  "structToStruct to_struct data =
     (case data of None \<Rightarrow> Some (Ret (None, None)) | Some r \<Rightarrow> to_struct (Some r))"

definition repeatedToStruct ::
  "('r option \<Rightarrow> ('s option \<times> 'r option) run) \<Rightarrow> 'r option list \<Rightarrow>
   ('s option list \<times> 'r option list) run" where
  "repeatedToStruct to_struct data =
     run_bind (run_map (structToStruct to_struct) data) (\<lambda>xs. Some (Ret (map fst xs, map snd xs)))"

text \<open>
  The accessors of a reader. A lazy read returns the cached value, or reads it and caches it;
  a getter on a nil reader returns the default.
\<close>

definition lazyRead :: "bool \<Rightarrow> 'a \<Rightarrow> 'a run \<Rightarrow> ('a \<Rightarrow> 'r) \<Rightarrow> 'r \<Rightarrow> ('a \<times> 'r) run" where
  "lazyRead parsed cached rd store m =
     (if parsed then Some (Ret (cached, m))
      else run_bind rd (\<lambda>entry. Some (Ret (entry, store entry))))"

definition getter :: "('r \<Rightarrow> ('a \<times> 'r) run) \<Rightarrow> 'a \<Rightarrow> 'r option \<Rightarrow> ('a \<times> 'r option) run" where
  "getter read dflt m =
     (case m of
        None \<Rightarrow> Some (Ret (dflt, None))
      | Some r \<Rightarrow> run_bind (read r) (\<lambda>(v, r'). Some (Ret (v, Some r'))))"

section \<open>Unmarshal\<close>

text \<open>
  The loop scans the top level of a message and records, through \<open>save\<close> (the \<^verbatim>\<open>switch\<close>
  on the tag), the offset of every known field. It returns the filled reader and the error,
  if any.
\<close>

partial_function (option) unmarshalLoop ::
  "(ProtoWireNumber \<Rightarrow> ProtoWireType \<Rightarrow> int \<Rightarrow> 'm \<Rightarrow> 'm) \<Rightarrow> Reader \<Rightarrow> int \<Rightarrow> 'm \<Rightarrow>
   ('m \<times> string option) go option" where
  "unmarshalLoop save p offset m =
     (if HasNext p offset 0 then
        (case ReadTagAt p offset of
           Err e \<Rightarrow> Some (Ret (m, Some e))
         | Panic \<Rightarrow> Some Panic
         | Ret (tag, wire, tagSize) \<Rightarrow>
             Option.bind (SkipData p (iadd offset tagSize) wire) (\<lambda>r.
               case r of
                 Err e \<Rightarrow> Some (Ret (save tag wire (iadd offset tagSize) m, Some e))
               | Panic \<Rightarrow> Some Panic
               | Ret offset' \<Rightarrow>
                   unmarshalLoop save p offset' (save tag wire (iadd offset tagSize) m)))
      else Some (Ret (m, None)))"

section \<open>Sizes and writers\<close>

text \<open>The comparison \<^verbatim>\<open>v != 0\<close> of a float, on bit patterns: both zeros are equal to 0.\<close>

definition float64_is_zero :: "float64 \<Rightarrow> bool" where
  "float64_is_zero v \<longleftrightarrow> v = 0 \<or> v = 0x8000000000000000"

definition sizeWithTag :: "('a \<Rightarrow> int) \<Rightarrow> ProtoWireNumber \<Rightarrow> 'a \<Rightarrow> int" where
  "sizeWithTag size_of fieldTag x = SizeTag fieldTag + size_of x"

definition sizeDelimitedWithTag :: "('a \<Rightarrow> int) \<Rightarrow> ProtoWireNumber \<Rightarrow> 'a \<Rightarrow> int" where
  "sizeDelimitedWithTag size_of fieldTag x =
     (let sz = size_of x in sz + (SizeUint64 (of_int sz) + SizeTag fieldTag))"

definition repeatedSize :: "('a \<Rightarrow> int) \<Rightarrow> 'a list \<Rightarrow> int" where
  "repeatedSize entrySize xs = foldl (\<lambda>acc val. acc + entrySize val) 0 xs"

definition packedSize :: "('a \<Rightarrow> int) \<Rightarrow> ProtoWireNumber \<Rightarrow> 'a list \<Rightarrow> int" where
  "packedSize size_of fieldTag xs =
     (if length xs > 1 then
        (let listBytesSize = foldl (\<lambda>acc entry. acc + size_of entry) 0 xs
         in SizeUint64 (of_int listBytesSize) + SizeTag fieldTag + listBytesSize)
      else if length xs = 1 then sizeWithTag size_of fieldTag (xs ! 0)
      else 0)"

definition repeatedWriter ::
  "(Writer \<Rightarrow> ProtoWireNumber \<Rightarrow> 'a \<Rightarrow> Writer go) \<Rightarrow> Writer \<Rightarrow> ProtoWireNumber \<Rightarrow> 'a list \<Rightarrow> Writer go" where
  "repeatedWriter app res tag xs = go_fold (\<lambda>entry res. app res tag entry) xs res"

definition packedWriter ::
  "(Writer \<Rightarrow> 'a \<Rightarrow> Writer go) \<Rightarrow> (Writer \<Rightarrow> ProtoWireNumber \<Rightarrow> 'a \<Rightarrow> Writer go) \<Rightarrow> ('a \<Rightarrow> int) \<Rightarrow>
   Writer \<Rightarrow> ProtoWireNumber \<Rightarrow> 'a list \<Rightarrow> Writer go" where
  "packedWriter appendRaw app size_of res tag xs =
     (if length xs > 1 then
        (let listBytesSize = foldl (\<lambda>acc entry. acc + size_of entry) 0 xs
         in go_bind (AppendBytesTag res tag listBytesSize) (\<lambda>res.
              go_fold (\<lambda>entry res. appendRaw res entry) xs res))
      else if length xs = 1 then app res tag (xs ! 0)
      else Ret res)"

text \<open>A message field, which may be nil: its size functions and \<^verbatim>\<open>MarshalTo\<close> accept nil.\<close>

definition structWriter ::
  "('s \<Rightarrow> int) \<Rightarrow> (Writer \<Rightarrow> 's \<Rightarrow> Writer go) \<Rightarrow> Writer \<Rightarrow> ProtoWireNumber \<Rightarrow> 's \<Rightarrow> Writer go" where
  "structWriter contentSize marshalTo res tag s =
     go_bind (AppendBytesTag res tag (contentSize s)) (\<lambda>res. marshalTo res s)"

definition marshalWith ::
  "('s option \<Rightarrow> int) \<Rightarrow> (Writer \<Rightarrow> 's option \<Rightarrow> Writer go) \<Rightarrow> 's option \<Rightarrow> byte list go" where
  "marshalWith contentSize marshalTo s =
     (if s = None then Ret []
      else let size = contentSize s in
        if size = 0 then Ret []
        else go_bind (NewWriter size) (\<lambda>res.
             go_bind (marshalTo res s) (\<lambda>res. Ret (WriterBytes res))))"

section \<open>What the size and write code produces\<close>

lemma foldl_add_sum: "foldl (\<lambda>acc x. acc + f x) a xs = a + sum_list (map f xs)" for a :: int
  by (induction xs arbitrary: a) (simp_all add: algebra_simps)

definition packed_enc ::
  "('a \<Rightarrow> byte list) \<Rightarrow> ProtoWireType \<Rightarrow> ProtoWireNumber \<Rightarrow> 'a list \<Rightarrow> byte list" where
  "packed_enc enc wire tag xs =
     (if length xs > 1 then tag_bytes tag BytesType @ delimited (concat (map enc xs))
      else if length xs = 1 then tag_bytes tag wire @ enc (xs ! 0)
      else [])"

lemma wf_writer_bind:
  "go_bind (writeBytes w xs) (\<lambda>w. go_fold (\<lambda>x w. writeBytes w (f x)) ys w) =
     writeBytes w (xs @ concat (map f ys))"
proof (cases "writeBytes w xs")
  case (Ret w'')
  then show ?thesis
    using writeBytes_writeBytes [of w xs "concat (map f ys)"] wf_writeBytes [OF Ret]
    by (simp add: go_fold_writeBytes)
next
  case Panic
  then show ?thesis using writeBytes_writeBytes [of w xs "concat (map f ys)"] by simp
qed (auto simp: writeBytes_def split: if_splits)

context scalar_codec
begin

lemma sizeWithTag_enc: "sizeWithTag size_of tag x = int (length (tag_bytes tag wire @ enc x))"
  by (simp add: sizeWithTag_def size_enc SizeTag_length [of tag wire])

lemma sum_sizes: "foldl (\<lambda>acc entry. acc + size_of entry) 0 xs = int (length (concat (map enc xs)))"
  by (induction xs rule: rev_induct) (simp_all add: size_enc)

lemma packedSize_enc: "packedSize size_of tag xs = int (length (packed_enc enc wire tag xs))"
  by (simp add: packedSize_def packed_enc_def sum_sizes sizeWithTag_enc delimited_def
      SizeUint64_def SizeVarInt_length SizeTag_length [of tag BytesType])

lemma packedWriter_enc:
  assumes "wf_writer w"
  shows "packedWriter appendRaw appendTagged size_of w tag xs =
    writeBytes w (packed_enc enc wire tag xs)"
  using assms
  by (simp add: packedWriter_def packed_enc_def sum_sizes AppendBytesTag_def appendRaw_enc
      append_enc appendTag_bytes appendVarInt_bytes wf_writer_bind delimited_def
      writeBytes_writeBytes)

end

section \<open>Packed fields read back\<close>

context scalar_codec
begin

lemma enc_pos [simp]: "0 < length (enc x)"
  using enc_nonempty by simp

lemma entryReader_enc:
  "holds_at p off (enc x) \<Longrightarrow> 0 < off \<Longrightarrow> entryReader readRaw d (Some p) (int off) = Ret x"
  by (simp add: entryReader_def on_buf_def read_enc)

lemma entrySizedReader_enc:
  "holds_at p off (enc x) \<Longrightarrow> 0 < off \<Longrightarrow>
   entrySizedReader sizedRead d (Some p) (int off) = Ret (x, int (length (enc x)))"
  by (simp add: entrySizedReader_def on_buf_def sizedRead_enc)

lemma packedLoop_enc:
  assumes "holds_at p (base + off) (concat (map enc xs))" and "0 < base"
    and "sz = int off + int (length (concat (map enc xs)))"
  shows "packedLoop sizedRead d (Some p) (int base) sz (int off) acc = Some (Ret (acc @ xs))"
  using assms
proof (induction xs arbitrary: off acc)
  case Nil
  then show ?case by (subst packedLoop.simps) simp
next
  case (Cons x xs)
  have h: "holds_at p (base + off) (enc x)" "holds_at p (base + (off + length (enc x))) (concat (map enc xs))"
    using Cons.prems(1) by (simp_all add: holds_at_append add.assoc)
  have r: "entrySizedReader sizedRead d (Some p) (int base + int off) = Ret (x, int (length (enc x)))"
    using entrySizedReader_enc [OF h(1)] Cons.prems(2) by simp
  have "int off < sz" using Cons.prems(3) enc_pos [of x] by (simp del: length_greater_0_conv enc_pos)
  then show ?case
    using Cons.IH [OF h(2) Cons.prems(2), of "acc @ [x]"] Cons.prems(3) holds_at_range [OF h(1)]
      holds_at_range [OF h(2)]
    by (subst packedLoop.simps) (simp add: r)
qed

lemma packedReader_packed:
  assumes "holds_at p off (delimited (concat (map enc xs)))" and "0 < off"
  shows "packedReader readRaw sizedRead d (Some p) [int off] [BytesType] acc = Some (Ret (acc @ xs))"
proof -
  let ?bs = "concat (map enc xs)"
  let ?n = "length (VarIntToBytes (of_nat (length ?bs)))"
  note h = holds_at_delimited [OF assms(1)]
  have v: "on_buf SizedReadVarInt (Some p) (int off) = Ret (of_nat (length ?bs), int ?n)"
    by (simp only: on_buf_def SizedReadVarInt_def option.case readVarIntAt_holds [OF h(1)])
  have b: "iadd (int off) (int ?n) = int (off + ?n)"
    using holds_at_range [OF h(1)] by simp
  have l: "packedLoop sizedRead d (Some p) (int (off + ?n)) (int (length ?bs)) 0 acc =
      Some (Ret (acc @ xs))"
    using packedLoop_enc [of p "off + ?n" 0 xs "int (length ?bs)" d acc] h(2) assms(2) by simp
  show ?thesis
    by (simp only: packedReader.simps v b h(3) l run_bind_simps prod.case if_True refl)
qed

lemma packedReader_single:
  assumes "holds_at p off (enc x)" and "0 < off" and "wire \<noteq> BytesType"
  shows "packedReader readRaw sizedRead d (Some p) [int off] [wire] acc = Some (Ret (acc @ [x]))"
  using assms by (simp add: entryReader_enc)

end

end
