(* ===== verification/Wire_Grammar.thy ===== *)
theory Wire_Grammar
  imports Generated_Code
begin

text \<open>
  The protobuf wire grammar as a datatype, the proof that \<^verbatim>\<open>SkipData\<close> and the generated
  \<^verbatim>\<open>Unmarshal\<close> loop walk over every message of the grammar, known or unknown fields
  and nested groups alike, and the groups of fields (optional, repeated, packed) that a message
  is made of, with what the generated readers return for them.
\<close>

section \<open>The wire grammar\<close>

text \<open>
  The values the protobuf encoding admits, and their bytes: what a field holds after its tag.
  A group ends with an end tag of its own.
\<close>

datatype wval =
    WVarint uint64
  | WFixed64 uint64
  | WBytes "byte list"
  | WGroup ProtoWireNumber "(ProtoWireNumber \<times> wval) list"
  | WFixed32 uint32

type_synonym wfield = "ProtoWireNumber \<times> wval"

fun wire_of :: "wval \<Rightarrow> ProtoWireType" where
  "wire_of (WVarint _) = VarIntType"
| "wire_of (WFixed64 _) = Fixed64Type"
| "wire_of (WBytes _) = BytesType"
| "wire_of (WGroup _ _) = StartGroupType"
| "wire_of (WFixed32 _) = Fixed32Type"

fun payload :: "wval \<Rightarrow> byte list" where
  "payload (WVarint v) = VarIntToBytes v"
| "payload (WFixed64 v) = fixed64_bytes v"
| "payload (WBytes bs) = delimited bs"
| "payload (WGroup n fs) =
     concat (map (\<lambda>f. tag_bytes (fst f) (wire_of (snd f)) @ payload (snd f)) fs) @ tag_bytes n EndGroupType"
| "payload (WFixed32 v) = fixed32_bytes v"

definition field_bytes :: "wfield \<Rightarrow> byte list" where
  "field_bytes f = tag_bytes (fst f) (wire_of (snd f)) @ payload (snd f)"

definition fields_bytes :: "wfield list \<Rightarrow> byte list" where
  "fields_bytes fs = concat (map field_bytes fs)"

fun wf_val :: "wval \<Rightarrow> bool" where
  "wf_val (WGroup n fs) \<longleftrightarrow> valid_tag n \<and> (\<forall>f \<in> set fs. valid_tag (fst f) \<and> wf_val (snd f))"
| "wf_val _ \<longleftrightarrow> True"

definition wf_field :: "wfield \<Rightarrow> bool" where
  "wf_field f \<longleftrightarrow> valid_tag (fst f) \<and> wf_val (snd f)"

lemma wire_of_less [simp]: "wire_of v < 8"
  by (cases v) (simp_all add: wire_types)

lemma wire_of_not_End [simp]: "wire_of v \<noteq> EndGroupType"
  by (cases v) (simp_all add: wire_types)

lemma payload_Group: "payload (WGroup n fs) = fields_bytes fs @ tag_bytes n EndGroupType"
  by (simp add: fields_bytes_def field_bytes_def [abs_def])

lemma wf_Group: "wf_val (WGroup n fs) \<longleftrightarrow> valid_tag n \<and> list_all wf_field fs"
  by (auto simp: wf_field_def list_all_iff)

declare payload.simps(4) [simp del] wf_val.simps(1) [simp del]

lemma fields_bytes_simps [simp]:
  "fields_bytes [] = []"
  "fields_bytes (f # fs) = field_bytes f @ fields_bytes fs"
  "fields_bytes (fs @ gs) = fields_bytes fs @ fields_bytes gs"
  by (simp_all add: fields_bytes_def)

lemma SkipData_group_end:
  assumes "holds_at p off (tag_bytes n EndGroupType)" and "valid_tag n"
  shows "SkipData p (int off) StartGroupType = Some (Ret (int off + int (length (tag_bytes n EndGroupType))))"
  using ReadTagAt_holds [OF assms] holds_at_range [OF assms(1)]
  by (subst SkipData.simps) (simp add: wire_types)

lemma StartGroup_neq [simp]:
  "StartGroupType \<noteq> VarIntType" "StartGroupType \<noteq> Fixed32Type" "StartGroupType \<noteq> Fixed64Type"
  "StartGroupType \<noteq> BytesType"
  by (simp_all add: wire_types)

lemma BytesType_neq [simp]: "VarIntType \<noteq> BytesType" "Fixed32Type \<noteq> BytesType" "Fixed64Type \<noteq> BytesType"
  by (simp_all add: wire_types)

lemma SkipData_group_step:
  assumes "holds_at p off (tag_bytes n (wire_of v))" and "valid_tag n"
    and "SkipData p (int (off + length (tag_bytes n (wire_of v)))) (wire_of v) = Some (Ret (int off'))"
  shows "SkipData p (int off) StartGroupType = SkipData p (int off') StartGroupType"
proof -
  have "iadd (int off) (int (length (tag_bytes n (wire_of v)))) =
      int (off + length (tag_bytes n (wire_of v)))"
    using holds_at_range [OF assms(1)] by simp
  then show ?thesis
    using ReadTagAt_holds [OF assms(1,2) wire_of_less] assms(3)
    by (subst SkipData.simps) (simp del: of_nat_add)
qed

lemma SkipData_payload:
  "holds_at p off (payload v) \<Longrightarrow> wf_val v \<Longrightarrow>
   SkipData p (int off) (wire_of v) = Some (Ret (int (off + length (payload v))))"
proof (induction v arbitrary: off)
  case (WGroup n fs)
  have "SkipData p (int off) StartGroupType =
      Some (Ret (int (off + length (fields_bytes gs @ tag_bytes n EndGroupType))))"
    if "set gs \<subseteq> set fs" and "list_all wf_field gs"
      and "holds_at p off (fields_bytes gs @ tag_bytes n EndGroupType)" for gs off
    using that
  proof (induction gs arbitrary: off)
    case Nil
    then show ?case
      using SkipData_group_end [of p off n] WGroup.prems(2) by (simp add: wf_Group)
  next
    case (Cons g gs)
    let ?t = "length (tag_bytes (fst g) (wire_of (snd g)))"
    have h: "holds_at p off (tag_bytes (fst g) (wire_of (snd g)))"
      "holds_at p (off + ?t) (payload (snd g))"
      "holds_at p (off + ?t + length (payload (snd g))) (fields_bytes gs @ tag_bytes n EndGroupType)"
      using Cons.prems(3) by (simp_all add: holds_at_append field_bytes_def add.assoc)
    have g: "valid_tag (fst g)" "wf_val (snd g)"
      using Cons.prems(2) by (simp_all add: wf_field_def)
    have "SkipData p (int (off + ?t)) (wire_of (snd g)) = Some (Ret (int (off + ?t + length (payload (snd g)))))"
      using WGroup.IH [of g "snd g", OF _ _ h(2) g(2)] Cons.prems(1) by (cases g) simp
    from SkipData_group_step [OF h(1) g(1) this] show ?case
      using Cons.IH [OF _ _ h(3)] Cons.prems(1,2) by (simp add: field_bytes_def algebra_simps)
  qed
  then show ?case using WGroup.prems by (simp add: payload_Group wf_Group)
qed (simp_all add: SkipData_VarInt SkipData_Fixed_holds SkipData_Bytes)

section \<open>What Unmarshal records\<close>

fun run_save ::
  "(ProtoWireNumber \<Rightarrow> ProtoWireType \<Rightarrow> int \<Rightarrow> 'm \<Rightarrow> 'm) \<Rightarrow> nat \<Rightarrow> wfield list \<Rightarrow> 'm \<Rightarrow> 'm" where
  "run_save save off [] m = m"
| "run_save save off (f # fs) m =
     run_save save (off + length (field_bytes f)) fs
       (save (fst f) (wire_of (snd f)) (int (off + length (tag_bytes (fst f) (wire_of (snd f))))) m)"

lemma run_save_append [simp]:
  "run_save save off (fs @ gs) m = run_save save (off + length (fields_bytes fs)) gs (run_save save off fs m)"
  by (induction fs arbitrary: off m) (simp_all add: add.assoc)

lemma unmarshalLoop_fields:
  assumes "list_all wf_field fs" and "holds_at p off (fields_bytes fs)"
    and "off + length (fields_bytes fs) = length (elems (buf p))"
    and "int off + 10 < 2 ^ 63"
  shows "unmarshalLoop save p (int off) m = Some (Ret (run_save save off fs m, None))"
  using assms
proof (induction fs arbitrary: off m)
  case Nil
  then show ?case
    by (subst unmarshalLoop.simps) (simp add: HasNext_def slen_def)
next
  case (Cons f fs)
  let ?t = "length (tag_bytes (fst f) (wire_of (snd f)))"
  have h: "holds_at p off (tag_bytes (fst f) (wire_of (snd f)))"
    "holds_at p (off + ?t) (payload (snd f))"
    "holds_at p (off + length (field_bytes f)) (fields_bytes fs)"
    using Cons.prems(2) by (simp_all add: holds_at_append field_bytes_def add.assoc)
  have f: "valid_tag (fst f)" "wf_val (snd f)"
    using Cons.prems(1) by (simp_all add: wf_field_def)
  have lt: "0 < ?t" by (simp add: tag_bytes_def)
  have nx: "HasNext p (int off) 0"
    using Cons.prems(3,4) lt by (simp add: HasNext_def slen_def field_bytes_def del: length_greater_0_conv)
  have o: "iadd (int off) (int ?t) = int (off + ?t)"
    using holds_at_range [OF h(1)] by simp
  have e: "off + ?t + length (payload (snd f)) = off + length (field_bytes f)"
    by (simp add: field_bytes_def)
  have r: "int (off + length (field_bytes f)) + 10 < 2 ^ 63"
    using holds_at_range [OF h(2)] by (simp add: field_bytes_def)
  show ?case
    using Cons.IH [OF _ h(3) _ r] Cons.prems(1,3) nx
    by (subst unmarshalLoop.simps)
      (simp add: ReadTagAt_holds [OF h(1) f(1) wire_of_less] o SkipData_payload [OF h(2) f(2)] e
        del: of_nat_add)
qed

section \<open>Groups of fields\<close>

definition opt_field :: "bool \<Rightarrow> wfield \<Rightarrow> wfield list" where
  "opt_field present f = (if present then [f] else [])"

definition bytes_fields :: "ProtoWireNumber \<Rightarrow> byte list list \<Rightarrow> wfield list" where
  "bytes_fields tag xs = map (\<lambda>x. (tag, WBytes x)) xs"

definition packed_fields :: "('a \<Rightarrow> wval) \<Rightarrow> ProtoWireNumber \<Rightarrow> 'a list \<Rightarrow> wfield list" where
  "packed_fields val tag xs =
     (if length xs > 1 then [(tag, WBytes (concat (map (\<lambda>x. payload (val x)) xs)))]
      else if length xs = 1 then [(tag, val (xs ! 0))]
      else [])"

text \<open>Where the payload of a field, or of each field of a list, starts.\<close>

definition payload_off :: "nat \<Rightarrow> wfield \<Rightarrow> nat" where
  "payload_off off f = off + length (tag_bytes (fst f) (wire_of (snd f)))"

fun payload_offs :: "nat \<Rightarrow> wfield list \<Rightarrow> int list" where
  "payload_offs off [] = []"
| "payload_offs off (f # fs) = int (payload_off off f) # payload_offs (off + length (field_bytes f)) fs"

text \<open>The offset an optional field leaves in its reader, over the one that was there before.\<close>

definition opt_off :: "bool \<Rightarrow> nat \<Rightarrow> wfield \<Rightarrow> int \<Rightarrow> int" where
  "opt_off present off f old = (if present then int (payload_off off f) else old)"

lemma payload_off_pos [simp]: "0 < payload_off off f"
  by (simp add: payload_off_def tag_bytes_def)

lemma field_holds: "holds_at p off (field_bytes f) \<Longrightarrow> holds_at p (payload_off off f) (payload (snd f))"
  by (simp add: field_bytes_def payload_off_def holds_at_append)

lemma opt_holds:
  "holds_at p off (fields_bytes (opt_field c f)) \<Longrightarrow> c \<Longrightarrow> holds_at p (payload_off off f) (payload (snd f))"
  by (simp add: opt_field_def field_holds)

lemma run_save_opt:
  "run_save save off (opt_field c f) m =
     (if c then save (fst f) (wire_of (snd f)) (int (payload_off off f)) m else m)"
  by (simp add: opt_field_def payload_off_def)

lemma run_save_bytes:
  assumes "\<And>off m. save tag BytesType off m = upd (\<lambda>l. l @ [off]) m"
    and "\<And>f g m. upd f (upd g m) = upd (\<lambda>l. f (g l)) m" and "\<And>m. upd (\<lambda>l. l) m = m"
  shows "run_save save off (bytes_fields tag xs) m = upd (\<lambda>l. l @ payload_offs off (bytes_fields tag xs)) m"
  by (induction xs arbitrary: off m) (simp_all add: bytes_fields_def assms payload_off_def)

lemma wf_opt [simp]: "list_all wf_field (opt_field c f) \<longleftrightarrow> (c \<longrightarrow> wf_field f)"
  by (simp add: opt_field_def)

lemma wf_bytes_fields [simp]: "valid_tag tag \<Longrightarrow> list_all wf_field (bytes_fields tag xs)"
  by (induction xs) (simp_all add: bytes_fields_def wf_field_def)

section \<open>Reading a group back\<close>

lemma string_opt:
  assumes "holds_at p off (fields_bytes (opt_field (x \<noteq> []) (tag, WBytes x)))"
  shows "entryReader ReadString [] (Some p) (opt_off (x \<noteq> []) off (tag, WBytes x) 0) = Ret x"
  using opt_holds [OF assms] by (auto simp: opt_off_def entryReader_def on_buf_def ReadString_holds)

lemma repeated_strings:
  "holds_at p off (fields_bytes (bytes_fields tag xs)) \<Longrightarrow>
   repeatedReader ReadString [] (Some p) (payload_offs off (bytes_fields tag xs)) acc = Ret (acc @ xs)"
proof (induction xs arbitrary: off acc)
  case (Cons x xs)
  have h: "holds_at p off (field_bytes (tag, WBytes x))"
    "holds_at p (off + length (field_bytes (tag, WBytes x))) (fields_bytes (bytes_fields tag xs))"
    using Cons.prems by (simp_all add: bytes_fields_def holds_at_append)
  have "entryReader ReadString [] (Some p) (int (payload_off off (tag, WBytes x))) = Ret x"
    using field_holds [OF h(1)] by (simp add: entryReader_def on_buf_def ReadString_holds)
  then show ?case
    using Cons.IH [OF h(2)] by (simp add: bytes_fields_def)
qed (simp add: bytes_fields_def)

context scalar_codec
begin

lemma scalar_opt:
  assumes "holds_at p off (fields_bytes (opt_field c (tag, v)))" and "payload v = enc x"
    and "\<not> c \<Longrightarrow> x = d"
  shows "entryReader readRaw d (Some p) (opt_off c off (tag, v) 0) = Ret x"
proof (cases c)
  case True
  then show ?thesis
    using entryReader_enc [of p "payload_off off (tag, v)" x d] opt_holds [OF assms(1)] assms(2)
    by (simp add: opt_off_def)
qed (simp add: opt_off_def entryReader_def assms(3))

lemma packed_read:
  assumes "holds_at p off (fields_bytes (packed_fields val tag xs))"
    and "\<And>x. payload (val x) = enc x" and "\<And>x. wire_of (val x) = wire" and "wire \<noteq> BytesType"
  shows "packedReader readRaw sizedRead d (Some p) (payload_offs off (packed_fields val tag xs))
      (map (\<lambda>f. wire_of (snd f)) (packed_fields val tag xs)) acc = Some (Ret (acc @ xs))"
proof -
  consider "xs = []" | x where "xs = [x]" | "length xs > 1"
    by (cases xs rule: remdups_adj.cases) auto
  then show ?thesis
  proof cases
    case 2
    then show ?thesis
      using packedReader_single [of p "payload_off off (tag, val x)" x d acc] assms
        field_holds [of p off "(tag, val x)"]
      by (simp add: packed_fields_def)
  next
    case 3
    let ?f = "(tag, WBytes (concat (map enc xs)))"
    show ?thesis
      using packedReader_packed [of p "payload_off off ?f" xs d acc] assms 3 field_holds [of p off ?f]
      by (simp add: packed_fields_def)
  qed (simp add: packed_fields_def)
qed

lemma packed_enc_fields:
  "(\<And>x. payload (val x) = enc x) \<Longrightarrow> (\<And>x. wire_of (val x) = wire) \<Longrightarrow>
   packed_enc enc wire tag xs = fields_bytes (packed_fields val tag xs)"
  by (simp add: packed_enc_def packed_fields_def field_bytes_def)

end

end
