(* ===== verification/Message_Codec.thy ===== *)
theory Message_Codec
  imports Wire_Grammar
begin

text \<open>
  The interface \<open>message_codec\<close> of a generated message type, what follows from it for
  \<^verbatim>\<open>Marshal\<close> and for the messages that embed the type, and a small calculus (\<open>writes\<close>) for
  what the pieces of a generated \<^verbatim>\<open>MarshalTo\<close> append.
\<close>

section \<open>Pointers to messages\<close>

text \<open>The bytes of a message behind a pointer, and what a round trip makes of the pointer.\<close>

definition ptr_bytes :: "('s \<Rightarrow> wfield list) \<Rightarrow> 's option \<Rightarrow> byte list" where
  "ptr_bytes content x = (case x of None \<Rightarrow> [] | Some s \<Rightarrow> fields_bytes (content s))"

definition norm_ptr :: "('s \<Rightarrow> wfield list) \<Rightarrow> ('s \<Rightarrow> 's) \<Rightarrow> 's option \<Rightarrow> 's option" where
  "norm_ptr content norm x =
     (case x of None \<Rightarrow> None | Some s \<Rightarrow> if content s = [] then None else Some (norm s))"

lemma field_bytes_nonempty [simp]: "field_bytes f \<noteq> []"
  by (simp add: field_bytes_def tag_bytes_def)

lemma fields_bytes_empty [simp]: "fields_bytes fs = [] \<longleftrightarrow> fs = []"
  by (cases fs) simp_all

section \<open>What embedding a value needs\<close>

text \<open>
  The promise of a message type about one value: the functions agree on its bytes, and reading them gives the
  value back. The messages that embed the value need no more than this, so that a type can
  rely on its own promise for the values inside a value.
\<close>

definition decodes_to ::
  "(gslice \<Rightarrow> ('r \<times> string option) run) \<Rightarrow> ('r option \<Rightarrow> ('s option \<times> 'r option) run) \<Rightarrow> byte list \<Rightarrow> 's \<Rightarrow> bool" where
  "decodes_to unm to_struct bs t \<longleftrightarrow>
     (\<forall>d. elems d = bs \<longrightarrow> slen d + 10 < 2 ^ 63 \<longrightarrow>
        (\<exists>r r'. unm d = Some (Ret (r, None)) \<and> to_struct (Some r) = Some (Ret (Some t, Some r'))))"

definition codec_at ::
  "('s \<Rightarrow> wfield list) \<Rightarrow> ('s \<Rightarrow> 's) \<Rightarrow> ('s option \<Rightarrow> int) \<Rightarrow> (Writer \<Rightarrow> 's option \<Rightarrow> Writer go) \<Rightarrow>
   (gslice \<Rightarrow> ('r \<times> string option) run) \<Rightarrow> ('r option \<Rightarrow> ('s option \<times> 'r option) run) \<Rightarrow> 's option \<Rightarrow> bool" where
  "codec_at content norm contentSize marshalTo unm to_struct x \<longleftrightarrow>
     contentSize x = int (length (ptr_bytes content x)) \<and>
     (\<forall>w. wf_writer w \<longrightarrow> marshalTo w x = writeBytes w (ptr_bytes content x)) \<and>
     (\<forall>s. x = Some s \<longrightarrow> decodes_to unm to_struct (fields_bytes (content s)) (norm s))"

lemma structWriter_at:
  assumes "codec_at content norm contentSize marshalTo unm to_struct x" and "wf_writer w"
  shows "structWriter contentSize marshalTo w tag x =
    writeBytes w (tag_bytes tag BytesType @ delimited (ptr_bytes content x))"
proof -
  note c = assms(1) [unfolded codec_at_def]
  let ?b = "tag_bytes tag BytesType @ VarIntToBytes (of_nat (length (ptr_bytes content x)))"
  have "AppendBytesTag w tag (contentSize x) = writeBytes w ?b"
    by (simp add: AppendBytesTag_def wire_enc c)
  moreover have "go_bind (writeBytes w ?b) (\<lambda>w. marshalTo w x) =
      go_bind (writeBytes w ?b) (\<lambda>w. writeBytes w (ptr_bytes content x))"
    using c wf_writeBytes [of w ?b] assms(2) by (cases "writeBytes w ?b") simp_all
  ultimately show ?thesis by (simp add: structWriter_def writeBytes_writeBytes delimited_def)
qed

lemma structSize_at:
  assumes "codec_at content norm contentSize marshalTo unm to_struct x"
  shows "sizeDelimitedWithTag contentSize tag x = int (length (field_bytes (tag, WBytes (ptr_bytes content x))))"
  using assms
  by (simp add: codec_at_def sizeDelimitedWithTag_def field_bytes_def delimited_def
      SizeUint64_def SizeVarInt_length SizeTag_length [of tag BytesType])

lemma structReader_at:
  assumes "codec_at content norm contentSize marshalTo unm to_struct x"
    and "holds_at p off (delimited (ptr_bytes content x))" and "0 < off"
  shows "\<exists>r r'. structReader unm (Some p) (int off) = Some (Ret r) \<and>
    structToStruct to_struct r = Some (Ret (norm_ptr content norm x, r'))"
proof -
  obtain sp where rd: "ReadBytes p (int off) = Ret \<lparr>elems = ptr_bytes content x, spare = sp\<rparr>"
    using ReadBytes_holds(1) [OF assms(2)] by blast
  show ?thesis
  proof (cases "ptr_bytes content x = []")
    case True
    then show ?thesis
      using rd assms(3)
      by (auto simp: structReader_def on_buf_def slen_def structToStruct_def norm_ptr_def
          ptr_bytes_def split: option.splits)
  next
    case False
    then obtain s where s: "x = Some s" "content s \<noteq> []"
      by (auto simp: ptr_bytes_def split: option.splits)
    let ?d = "\<lparr>elems = ptr_bytes content x, spare = sp\<rparr>"
    have "slen ?d + 10 < 2 ^ 63"
      using holds_at_range [OF holds_at_delimited(2) [OF assms(2)]] by (simp add: slen_def)
    moreover have "elems ?d = fields_bytes (content s)" using s by (simp add: ptr_bytes_def)
    ultimately obtain r r' where "unm ?d = Some (Ret (r, None))"
      "to_struct (Some r) = Some (Ret (Some (norm s), Some r'))"
      using assms(1) s(1) unfolding codec_at_def decodes_to_def by blast
    then show ?thesis
      using rd assms(3) False s
      by (simp add: structReader_def on_buf_def slen_def structToStruct_def norm_ptr_def)
  qed
qed

lemma struct_opt_at:
  assumes "codec_at content norm contentSize marshalTo unm to_struct x"
    and "holds_at p off (fields_bytes (opt_field c (tag, WBytes (ptr_bytes content x))))" and "\<not> c \<Longrightarrow> x = None"
  shows "\<exists>r r'. structReader unm (Some p)
      (opt_off c off (tag, WBytes (ptr_bytes content x)) 0) = Some (Ret r) \<and>
    structToStruct to_struct r = Some (Ret (norm_ptr content norm x, r'))"
proof (cases c)
  case True
  then show ?thesis
    using structReader_at [OF assms(1), of p "payload_off off (tag, WBytes (ptr_bytes content x))"]
      opt_holds [OF assms(2)]
    by (simp add: opt_off_def)
next
  case False
  then show ?thesis using assms(3) by (simp add: opt_off_def structReader_def structToStruct_def norm_ptr_def)
qed

lemma repeatedStruct_at:
  assumes "\<forall>x \<in> set xs. codec_at content norm contentSize marshalTo unm to_struct x"
    and "holds_at p off (fields_bytes (bytes_fields tag (map (ptr_bytes content) xs)))"
  shows "\<exists>rs rs'. repeatedStructReader unm (Some p)
      (payload_offs off (bytes_fields tag (map (ptr_bytes content) xs))) acc = Some (Ret (acc @ rs)) \<and>
    repeatedToStruct to_struct rs = Some (Ret (map (norm_ptr content norm) xs, rs'))"
  using assms
proof (induction xs arbitrary: off acc)
  case (Cons x xs)
  let ?f = "(tag, WBytes (ptr_bytes content x))"
  have h: "holds_at p off (field_bytes ?f)"
    "holds_at p (off + length (field_bytes ?f)) (fields_bytes (bytes_fields tag (map (ptr_bytes content) xs)))"
    using Cons.prems(2) by (simp_all add: bytes_fields_def holds_at_append)
  have at: "codec_at content norm contentSize marshalTo unm to_struct x" using Cons.prems(1) by simp
  obtain r r' where r: "structReader unm (Some p) (int (payload_off off ?f)) = Some (Ret r)"
    "structToStruct to_struct r = Some (Ret (norm_ptr content norm x, r'))"
    using structReader_at [OF at, of p "payload_off off ?f"] field_holds [OF h(1)] by auto
  obtain rs rs' where rs: "repeatedStructReader unm (Some p)
      (payload_offs (off + length (field_bytes ?f)) (bytes_fields tag (map (ptr_bytes content) xs)))
      (acc @ [r]) = Some (Ret (acc @ r # rs))"
    "repeatedToStruct to_struct rs = Some (Ret (map (norm_ptr content norm) xs, rs'))"
    using Cons.IH [OF _ h(2), of "acc @ [r]"] Cons.prems(1) by auto
  obtain ys where ys: "run_map (structToStruct to_struct) rs = Some (Ret ys)"
    "map fst ys = map (norm_ptr content norm) xs" "map snd ys = rs'"
    using rs(2) by (auto simp: repeatedToStruct_def run_bind_Ret_iff)
  show ?case
    using r rs(1) ys
    by - (rule exI [of _ "r # rs"], rule exI [of _ "r' # rs'"],
        simp add: bytes_fields_def repeatedToStruct_def)
qed (simp add: bytes_fields_def repeatedToStruct_def)

lemma repeatedStructWriter_at:
  assumes "\<forall>x \<in> set xs. codec_at content norm contentSize marshalTo unm to_struct x" and "wf_writer w"
  shows "repeatedWriter (structWriter contentSize marshalTo) w tag xs =
    writeBytes w (fields_bytes (bytes_fields tag (map (ptr_bytes content) xs)))"
  using assms
proof (induction xs arbitrary: w)
  case (Cons x xs)
  let ?b = "tag_bytes tag BytesType @ delimited (ptr_bytes content x)"
  have at: "codec_at content norm contentSize marshalTo unm to_struct x" using Cons.prems(1) by simp
  have "go_bind (writeBytes w ?b) (\<lambda>w. repeatedWriter (structWriter contentSize marshalTo) w tag xs) =
      go_bind (writeBytes w ?b) (\<lambda>w. writeBytes w (fields_bytes (bytes_fields tag (map (ptr_bytes content) xs))))"
    using Cons.IH Cons.prems wf_writeBytes [of w ?b] by (cases "writeBytes w ?b") simp_all
  then show ?case
    using structWriter_at [OF at Cons.prems(2), of tag]
    by (simp add: repeatedWriter_def writeBytes_writeBytes bytes_fields_def field_bytes_def)
qed (simp add: repeatedWriter_def bytes_fields_def)

lemma repeatedStructSize_at:
  assumes "\<forall>x \<in> set xs. codec_at content norm contentSize marshalTo unm to_struct x"
  shows "repeatedSize (sizeDelimitedWithTag contentSize tag) xs =
     int (length (fields_bytes (bytes_fields tag (map (ptr_bytes content) xs))))"
  using assms unfolding repeatedSize_def foldl_add_sum
proof (induction xs)
  case (Cons x xs)
  have "codec_at content norm contentSize marshalTo unm to_struct x" using Cons.prems by simp
  from structSize_at [OF this, of tag] Cons show ?case by (simp add: bytes_fields_def)
qed (simp add: bytes_fields_def)

section \<open>The interface of a message type\<close>

text \<open>
  What a message type promises to its callers and to the messages that embed it. \<open>content\<close> is
  the wire content of a value, \<open>norm\<close> what a round trip makes of it. \<open>unm\<close> is \<^verbatim>\<open>Unmarshal\<close>
  on a new reader.
\<close>

locale message_codec =
  fixes content :: "'s \<Rightarrow> wfield list"
    and norm :: "'s \<Rightarrow> 's"
    and contentSize :: "'s option \<Rightarrow> int"
    and marshalTo :: "Writer \<Rightarrow> 's option \<Rightarrow> Writer go"
    and unm :: "gslice \<Rightarrow> ('r \<times> string option) run"
    and to_struct :: "'r option \<Rightarrow> ('s option \<times> 'r option) run"
  assumes contentSize_ptr: "contentSize x = int (length (ptr_bytes content x))"
    and marshalTo_ptr: "wf_writer w \<Longrightarrow> marshalTo w x = writeBytes w (ptr_bytes content x)"
    and decode:
      "elems d = fields_bytes (content s) \<Longrightarrow> slen d + 10 < 2 ^ 63 \<Longrightarrow>
       \<exists>r r'. unm d = Some (Ret (r, None)) \<and> to_struct (Some r) = Some (Ret (Some (norm s), Some r'))"
begin

lemma at: "codec_at content norm contentSize marshalTo unm to_struct x"
  unfolding codec_at_def decodes_to_def using contentSize_ptr marshalTo_ptr decode by blast

lemmas structWriter_ptr = structWriter_at [OF at]
lemmas structSize_ptr = structSize_at [OF at]
lemmas structReader_ptr = structReader_at [OF at]

lemma repeatedStruct_ptr:
  assumes "holds_at p off (fields_bytes (bytes_fields tag (map (ptr_bytes content) xs)))"
  shows "\<exists>rs rs'. repeatedStructReader unm (Some p)
      (payload_offs off (bytes_fields tag (map (ptr_bytes content) xs))) acc = Some (Ret (acc @ rs)) \<and>
    repeatedToStruct to_struct rs = Some (Ret (map (norm_ptr content norm) xs, rs'))"
  by (rule repeatedStruct_at [OF _ assms]) (rule ballI, rule at)

lemma struct_opt:
  assumes "holds_at p off (fields_bytes (opt_field (x \<noteq> None) (tag, WBytes (ptr_bytes content x))))"
  shows "\<exists>r r'. structReader unm (Some p)
      (opt_off (x \<noteq> None) off (tag, WBytes (ptr_bytes content x)) 0) = Some (Ret r) \<and>
    structToStruct to_struct r = Some (Ret (norm_ptr content norm x, r'))"
  by (rule struct_opt_at [OF at assms]) simp

lemma repeatedStructWriter_ptr:
  assumes "wf_writer w"
  shows "repeatedWriter (structWriter contentSize marshalTo) w tag xs =
    writeBytes w (fields_bytes (bytes_fields tag (map (ptr_bytes content) xs)))"
  by (rule repeatedStructWriter_at [OF _ assms]) (rule ballI, rule at)

lemma repeatedStructSize_ptr:
  "repeatedSize (sizeDelimitedWithTag contentSize tag) xs =
     int (length (fields_bytes (bytes_fields tag (map (ptr_bytes content) xs))))"
  by (rule repeatedStructSize_at) (rule ballI, rule at)

lemma marshal_ptr: "marshalWith contentSize marshalTo x = Ret (ptr_bytes content x)"
proof (cases "ptr_bytes content x = []")
  case True
  then show ?thesis by (simp add: marshalWith_def contentSize_ptr)
next
  case False
  let ?w = "\<lparr>wbuf = [], wcap = length (ptr_bytes content x)\<rparr>"
  have "NewWriter (contentSize x) = Ret ?w"
    by (simp add: NewWriter_def contentSize_ptr)
  moreover have "marshalTo ?w x = Ret (?w\<lparr>wbuf := ptr_bytes content x\<rparr>)"
    by (simp add: marshalTo_ptr wf_writer_def writeBytes_def)
  moreover have "x \<noteq> None" using False by (auto simp: ptr_bytes_def split: option.splits)
  ultimately show ?thesis
    using False by (auto simp: marshalWith_def contentSize_ptr WriterBytes_def)
qed

text \<open>A whole message: what \<^verbatim>\<open>Marshal\<close> returns has the computed size, and reading it gives the struct back.\<close>

lemma round_trip:
  assumes "contentSize (Some s) + 10 < 2 ^ 63"
  shows "\<exists>bs r r'. marshalWith contentSize marshalTo (Some s) = Ret bs \<and>
    int (length bs) = contentSize (Some s) \<and>
    unm (slice_of bs) = Some (Ret (r, None)) \<and>
    to_struct (Some r) = Some (Ret (Some (norm s), Some r'))"
proof -
  let ?bs = "fields_bytes (content s)"
  have len: "int (length ?bs) = contentSize (Some s)"
    using contentSize_ptr [of "Some s"] by (simp add: ptr_bytes_def)
  then have "slen (slice_of ?bs) + 10 < 2 ^ 63"
    using assms by (simp add: slen_def)
  from decode [OF _ this, of s] len show ?thesis
    using marshal_ptr [of "Some s"] by (auto simp: ptr_bytes_def)
qed

end

section \<open>Marshalling, compositionally\<close>

text \<open>\<open>writes f bs\<close>: on every writer, \<open>f\<close> does what appending \<open>bs\<close> does.\<close>

definition writes :: "(Writer \<Rightarrow> Writer go) \<Rightarrow> byte list \<Rightarrow> bool" where
  "writes f bs \<longleftrightarrow> (\<forall>w. wf_writer w \<longrightarrow> f w = writeBytes w bs)"

named_theorems writes_intros \<open>what the pieces of a generated MarshalTo write\<close>

lemma writeBytes_not_Err [simp]: "writeBytes w xs \<noteq> Err e" "Err e \<noteq> writeBytes w xs"
  by (simp_all add: writeBytes_def)

lemma writes_bind [writes_intros]:
  assumes "writes f xs" and "writes g ys"
  shows "writes (\<lambda>w. go_bind (f w) g) (xs @ ys)"
proof -
  have "go_bind (writeBytes w xs) g = writeBytes w (xs @ ys)" for w
    using assms(2) wf_writeBytes [of w xs] writeBytes_writeBytes [of w xs ys]
    by (cases "writeBytes w xs") (simp_all add: writes_def)
  then show ?thesis using assms(1) by (simp add: writes_def)
qed

lemma writes_opt [writes_intros]:
  "writes f (field_bytes x) \<Longrightarrow> writes (\<lambda>w. if c then f w else Ret w) (fields_bytes (opt_field c x))"
  by (simp add: writes_def opt_field_def)

lemma writes_list [writes_intros]:
  "writes f (fields_bytes (g xs)) \<Longrightarrow> g [] = [] \<Longrightarrow>
   writes (\<lambda>w. if xs \<noteq> [] then f w else Ret w) (fields_bytes (g xs))"
  by (auto simp: writes_def)

lemma writes_bytes [writes_intros]:
  "writes (\<lambda>w. AppendBytes w tag x) (field_bytes (tag, WBytes x))"
  "writes (\<lambda>w. AppendString w tag x) (field_bytes (tag, WBytes x))"
  by (simp_all add: writes_def AppendString_bytes AppendBytes_bytes field_bytes_def)

lemma writes_strings [writes_intros]:
  "writes (\<lambda>w. repeatedWriter AppendString w tag xs) (fields_bytes (bytes_fields tag xs))"
proof -
  have "repeatedWriter AppendString w tag xs = writeBytes w (concat (map (\<lambda>x. field_bytes (tag, WBytes x)) xs))"
    if "wf_writer w" for w
    using go_fold_writeBytes [OF that, of "\<lambda>x. field_bytes (tag, WBytes x)" xs]
    by (simp add: repeatedWriter_def AppendString_bytes AppendBytes_bytes field_bytes_def)
  then show ?thesis by (simp add: writes_def fields_bytes_def bytes_fields_def comp_def)
qed

lemma length_opt:
  "e = int (length (field_bytes f)) \<Longrightarrow> (if c then e else 0) = int (length (fields_bytes (opt_field c f)))"
  by (simp add: opt_field_def)

lemma length_list:
  "e = int (length (fields_bytes (g xs))) \<Longrightarrow> g [] = [] \<Longrightarrow>
   (if xs \<noteq> [] then e else 0) = int (length (fields_bytes (g xs)))"
  by auto

lemma bytes_fields_Nil [simp]: "bytes_fields tag [] = []"
  by (simp add: bytes_fields_def)

lemma packed_fields_Nil [simp]: "packed_fields val tag [] = []"
  by (simp add: packed_fields_def)

lemma size_bytes:
  "sizeDelimitedWithTag SizeString tag x = int (length (field_bytes (tag, WBytes x)))"
  "sizeDelimitedWithTag SizeBytes tag x = int (length (field_bytes (tag, WBytes x)))"
  by (simp_all add: sizeDelimitedWithTag_def SizeString_def SizeBytes_def field_bytes_def
      delimited_def SizeUint64_def SizeVarInt_length SizeTag_length [of tag BytesType])

lemma size_strings:
  "repeatedSize (sizeDelimitedWithTag SizeString tag) xs = int (length (fields_bytes (bytes_fields tag xs)))"
  by (simp add: repeatedSize_def foldl_add_sum) (induction xs; simp add: bytes_fields_def size_bytes)

context scalar_codec
begin

lemma writes_scalar:
  "payload v = enc x \<Longrightarrow> wire_of v = wire \<Longrightarrow> writes (\<lambda>w. appendTagged w tag x) (field_bytes (tag, v))"
  by (simp add: writes_def append_enc field_bytes_def)

lemma size_scalar:
  "payload v = enc x \<Longrightarrow> wire_of v = wire \<Longrightarrow>
   sizeWithTag size_of tag x = int (length (field_bytes (tag, v)))"
  using sizeWithTag_enc [of tag x] by (simp add: field_bytes_def)

lemma writes_packed:
  "(\<And>x. payload (val x) = enc x) \<Longrightarrow> (\<And>x. wire_of (val x) = wire) \<Longrightarrow>
   writes (\<lambda>w. packedWriter appendRaw appendTagged size_of w tag xs) (fields_bytes (packed_fields val tag xs))"
  by (simp add: writes_def packedWriter_enc packed_enc_fields [of val])

lemma size_packed:
  "(\<And>x. payload (val x) = enc x) \<Longrightarrow> (\<And>x. wire_of (val x) = wire) \<Longrightarrow>
   packedSize size_of tag xs = int (length (fields_bytes (packed_fields val tag xs)))"
  by (simp add: packedSize_enc packed_enc_fields [of val])

end

context message_codec
begin

lemma writes_struct: "writes (\<lambda>w. structWriter contentSize marshalTo w tag x) (field_bytes (tag, WBytes (ptr_bytes content x)))"
  by (simp add: writes_def structWriter_ptr field_bytes_def)

lemma writes_structs: "writes (\<lambda>w. repeatedWriter (structWriter contentSize marshalTo) w tag xs)
   (fields_bytes (bytes_fields tag (map (ptr_bytes content) xs)))"
  by (simp add: writes_def repeatedStructWriter_ptr)

end
section \<open>The scalar fields the generated messages use\<close>

abbreviation int32_val :: "int32 \<Rightarrow> wval" where
  "int32_val x \<equiv> WVarint (scast x)"

abbreviation bool_val :: "bool \<Rightarrow> wval" where
  "bool_val b \<equiv> WVarint (if b then 1 else 0)"

lemmas int32_writes [writes_intros] =
  c_int32.writes_scalar [where v = "int32_val x" and x = x for x, simplified]
  c_int32.writes_packed [where val = int32_val, simplified]
lemmas float64_writes [writes_intros] = c_float64.writes_scalar [where v = "WFixed64 x" and x = x for x, simplified]
lemmas bool_writes [writes_intros] = c_bool.writes_scalar [where v = "bool_val x" and x = x for x, simplified]

lemmas int32_size = c_int32.size_scalar [where v = "int32_val x" and x = x for x, simplified]
  c_int32.size_packed [where val = int32_val, simplified]
lemmas float64_size = c_float64.size_scalar [where v = "WFixed64 x" and x = x for x, simplified]
lemmas bool_size = c_bool.size_scalar [where v = "bool_val x" and x = x for x, simplified]

text \<open>A float that compares equal to 0 is not written, so negative zero is read back as zero.\<close>

definition float64_norm :: "float64 \<Rightarrow> float64" where
  "float64_norm v = (if float64_is_zero v then 0 else v)"

named_theorems reads_back \<open>what the generated readers return for the groups of a message\<close>

lemma int32_opt [reads_back]:
  "holds_at p off (fields_bytes (opt_field (x \<noteq> 0) (tag, int32_val x))) \<Longrightarrow>
   entryReader ReadInt32 0 (Some p) (opt_off (x \<noteq> 0) off (tag, int32_val x) 0) = Ret x"
  by (rule c_int32.scalar_opt) simp_all

lemma bool_opt [reads_back]:
  "holds_at p off (fields_bytes (opt_field x (tag, bool_val x))) \<Longrightarrow>
   entryReader ReadBool False (Some p) (opt_off x off (tag, bool_val x) 0) = Ret x"
  by (rule c_bool.scalar_opt) simp_all

lemma float64_opt [reads_back]:
  "holds_at p off (fields_bytes (opt_field (\<not> float64_is_zero x) (tag, WFixed64 x))) \<Longrightarrow>
   entryReader ReadFloat64 0 (Some p) (opt_off (\<not> float64_is_zero x) off (tag, WFixed64 x) 0) =
     Ret (float64_norm x)"
  by (cases "float64_is_zero x")
    (simp add: opt_off_def float64_norm_def entryReader_def,
     rule c_float64.scalar_opt, simp_all add: float64_norm_def)

lemma int32_packed [reads_back]:
  "holds_at p off (fields_bytes (packed_fields int32_val tag xs)) \<Longrightarrow>
   packedReader ReadInt32 SizedReadInt32 0 (Some p) (payload_offs off (packed_fields int32_val tag xs))
     (map (\<lambda>f. wire_of (snd f)) (packed_fields int32_val tag xs)) [] = Some (Ret xs)"
  using c_int32.packed_read [of p off int32_val tag xs 0 "[]"] by simp

lemma bytes_opt [reads_back]:
  "holds_at p off (fields_bytes (opt_field (x \<noteq> []) (tag, WBytes x))) \<Longrightarrow>
   entryReader (\<lambda>p off. go_bind (ReadBytes p off) (\<lambda>b. Ret (elems b))) [] (Some p)
     (opt_off (x \<noteq> []) off (tag, WBytes x) 0) = Ret x"
  using string_opt [of p off x tag] by (simp add: ReadString_def [abs_def])

lemmas string_reads [reads_back] = string_opt repeated_strings [where acc = "[]", simplified]

text \<open>Unmarshalling the content of a message on a new reader.\<close>

lemma unmarshal_content:
  assumes "elems d = fields_bytes fs" and "slen d + 10 < 2 ^ 63" and "list_all wf_field fs"
  shows "unmarshalLoop save (NewReader d) 0 m = Some (Ret (run_save save 0 fs m, None))"
    and "holds_at (NewReader d) 0 (fields_bytes fs)"
proof -
  show h: "holds_at (NewReader d) 0 (fields_bytes fs)"
    using assms by (simp add: holds_at_def NewReader_def slen_def)
  show "unmarshalLoop save (NewReader d) 0 m = Some (Ret (run_save save 0 fs m, None))"
    using unmarshalLoop_fields [OF assms(3) h] assms(1) by (simp add: NewReader_def)
qed

end
