(* ===== verification/Level4_Message.thy ===== *)
theory Level4_Message
  imports Message_Codec
begin

text \<open>
  The message type \<^verbatim>\<open>Level4\<close> of
  \<^verbatim>\<open>src/shared/gremlin_go/bench/gremlin_pb/benchmark/benchmark.pb2.go\<close>: its lazy
  reader, its struct, and the proof that they satisfy \<open>message_codec\<close>. A pointer receiver
  is an option; a reader that fills its caches is returned with its new state.
\<close>

section \<open>The reader\<close>

definition wireLevel4_Value :: ProtoWireNumber where "wireLevel4_Value = 1"
definition wireLevel4_Data :: ProtoWireNumber where "wireLevel4_Data = 2"
definition wireLevel4_Numbers :: ProtoWireNumber where "wireLevel4_Numbers = 3"

lemmas wireLevel4 = wireLevel4_Value_def wireLevel4_Data_def wireLevel4_Numbers_def

record Level4Reader =
  mbuf :: "Reader option"
  dataValue :: int32
  dataData :: gostring
  dataNumbers :: "int32 list"
  offsetValue :: int
  offsetData :: int
  offsetNumbers :: "int list"
  wireTypeNumbers :: "ProtoWireType list"
  parsedValue :: bool
  parsedData :: bool
  parsedNumbers :: bool

definition NewLevel4Reader :: Level4Reader where
  "NewLevel4Reader = \<lparr>mbuf = None, dataValue = 0, dataData = [], dataNumbers = [],
     offsetValue = 0, offsetData = 0, offsetNumbers = [], wireTypeNumbers = [],
     parsedValue = False, parsedData = False, parsedNumbers = False\<rparr>"

definition Level4Reader_readValue :: "Level4Reader \<Rightarrow> (int32 \<times> Level4Reader) run" where
  "Level4Reader_readValue m =
     lazyRead (parsedValue m) (dataValue m)
       (Some (entryReader ReadInt32 0 (mbuf m) (offsetValue m)))
       (\<lambda>entry. m\<lparr>dataValue := entry, parsedValue := True\<rparr>) m"

definition Level4Reader_GetValue ::
  "Level4Reader option \<Rightarrow> (int32 \<times> Level4Reader option) run" where
  "Level4Reader_GetValue = getter Level4Reader_readValue 0"

definition Level4Reader_readData :: "Level4Reader \<Rightarrow> (gostring \<times> Level4Reader) run" where
  "Level4Reader_readData m =
     lazyRead (parsedData m) (dataData m)
       (Some (entryReader ReadString [] (mbuf m) (offsetData m)))
       (\<lambda>entry. m\<lparr>dataData := entry, parsedData := True\<rparr>) m"

definition Level4Reader_GetData ::
  "Level4Reader option \<Rightarrow> (gostring \<times> Level4Reader option) run" where
  "Level4Reader_GetData = getter Level4Reader_readData []"

definition Level4Reader_readNumbers :: "Level4Reader \<Rightarrow> (int32 list \<times> Level4Reader) run" where
  "Level4Reader_readNumbers m =
     lazyRead (parsedNumbers m) (dataNumbers m)
       (packedReader ReadInt32 SizedReadInt32 0 (mbuf m) (offsetNumbers m) (wireTypeNumbers m) [])
       (\<lambda>entry. m\<lparr>dataNumbers := entry, parsedNumbers := True\<rparr>) m"

definition Level4Reader_GetNumbers ::
  "Level4Reader option \<Rightarrow> (int32 list \<times> Level4Reader option) run" where
  "Level4Reader_GetNumbers = getter Level4Reader_readNumbers []"

lemmas Level4_getters = Level4Reader_readValue_def Level4Reader_GetValue_def
  Level4Reader_readData_def Level4Reader_GetData_def
  Level4Reader_readNumbers_def Level4Reader_GetNumbers_def

text \<open>The \<^verbatim>\<open>switch\<close> on the tag, and the loop around it.\<close>

definition Level4Reader_save ::
  "ProtoWireNumber \<Rightarrow> ProtoWireType \<Rightarrow> int \<Rightarrow> Level4Reader \<Rightarrow> Level4Reader" where
  "Level4Reader_save tag wire offset m =
     (if tag = wireLevel4_Value then m\<lparr>offsetValue := offset\<rparr>
      else if tag = wireLevel4_Data then m\<lparr>offsetData := offset\<rparr>
      else if tag = wireLevel4_Numbers then 
        m\<lparr>offsetNumbers := offsetNumbers m @ [offset], wireTypeNumbers := wireTypeNumbers m @ [wire]\<rparr>
      else m)"

definition Level4Reader_Unmarshal ::
  "Level4Reader \<Rightarrow> gslice \<Rightarrow> (Level4Reader \<times> string option) run" where
  "Level4Reader_Unmarshal m data =
     unmarshalLoop Level4Reader_save (NewReader data) 0 (m\<lparr>mbuf := Some (NewReader data)\<rparr>)"

definition Level4Reader_SourceBytes :: "Level4Reader option \<Rightarrow> gslice" where
  "Level4Reader_SourceBytes s = (case s of None \<Rightarrow> nil_slice | Some r \<Rightarrow> Bytes (mbuf r))"

section \<open>The struct\<close>

record Level4 =
  Value :: int32
  Data :: gostring
  Numbers :: "int32 list"

definition Level4Reader_ToStruct ::
  "Level4Reader option \<Rightarrow> (Level4 option \<times> Level4Reader option) run" where
  "Level4Reader_ToStruct m =
     (case m of None \<Rightarrow> Some (Ret (None, None)) | Some _ \<Rightarrow>
      run_bind (Level4Reader_GetValue m) (\<lambda>(vValue, m).
      run_bind (Level4Reader_GetData m) (\<lambda>(vData, m).
      run_bind (Level4Reader_GetNumbers m) (\<lambda>(vNumbers, m).
      Some (Ret (Some \<lparr>Value = vValue, Data = vData, Numbers = vNumbers\<rparr>, m))))))"

definition Level4_MarshalTo :: "Writer \<Rightarrow> Level4 option \<Rightarrow> Writer go" where
  "Level4_MarshalTo res s =
     (case s of None \<Rightarrow> Ret res | Some s \<Rightarrow>
      go_bind (if Value s \<noteq> 0 then AppendInt32 res wireLevel4_Value (Value s) else Ret res) (\<lambda>res.
      go_bind (if Data s \<noteq> [] then AppendString res wireLevel4_Data (Data s) else Ret res) (\<lambda>res.
      (if Numbers s \<noteq> [] then 
        packedWriter AppendInt32WithoutTag AppendInt32 SizeInt32 res wireLevel4_Numbers (Numbers s) else Ret res))))"

definition Level4_XXX_PbContentSize :: "Level4 option \<Rightarrow> int" where
  "Level4_XXX_PbContentSize s =
     (case s of None \<Rightarrow> 0 | Some s \<Rightarrow>
      (if Value s \<noteq> 0 then sizeWithTag SizeInt32 wireLevel4_Value (Value s) else 0) +
      (if Data s \<noteq> [] then sizeDelimitedWithTag SizeString wireLevel4_Data (Data s) else 0) +
      (if Numbers s \<noteq> [] then packedSize SizeInt32 wireLevel4_Numbers (Numbers s) else 0))"

definition Level4_Marshal :: "Level4 option \<Rightarrow> byte list go" where
  "Level4_Marshal = marshalWith Level4_XXX_PbContentSize Level4_MarshalTo"

definition Level4_Copy :: "Level4 option \<Rightarrow> Level4 option" where
  "Level4_Copy s =
     (case s of None \<Rightarrow> None | Some s \<Rightarrow> Some \<lparr>
        Value = Value s,
        Data = Data s,
        Numbers = Numbers s\<rparr>)"

section \<open>Its wire content, and what a round trip keeps\<close>

definition Level4_content :: "Level4 \<Rightarrow> wfield list" where
  "Level4_content s =
     opt_field (Value s \<noteq> 0) (wireLevel4_Value, int32_val (Value s)) @
     opt_field (Data s \<noteq> []) (wireLevel4_Data, WBytes (Data s)) @
     packed_fields int32_val wireLevel4_Numbers (Numbers s)"

definition Level4_norm :: "Level4 \<Rightarrow> Level4" where
  "Level4_norm s = s"

lemma Level4_writes: "writes (\<lambda>w. Level4_MarshalTo w (Some s)) (fields_bytes (Level4_content s))"
  unfolding Level4_MarshalTo_def Level4_content_def fields_bytes_simps option.case
  by (intro writes_intros) (simp_all add: packed_fields_def bytes_fields_def)

lemma Level4_size: "Level4_XXX_PbContentSize (Some s) = int (length (fields_bytes (Level4_content s)))"
  unfolding Level4_XXX_PbContentSize_def Level4_content_def option.case
  by (simp add: int32_size size_bytes float64_size bool_size size_strings length_opt length_list bytes_fields_Nil packed_fields_Nil)

lemma Level4_wf: "list_all wf_field (Level4_content s)"
  by (simp add: Level4_content_def packed_fields_def wf_field_def valid_tag_def wireLevel4)

lemma Level4_run_save:
  "run_save Level4Reader_save k (Level4_content s) m = (
     let o1 = k;
     o2 = o1 + length (fields_bytes (opt_field (Value s \<noteq> 0) (wireLevel4_Value, int32_val (Value s))));
     o3 = o2 + length (fields_bytes (opt_field (Data s \<noteq> []) (wireLevel4_Data, WBytes (Data s))))
     in m\<lparr>
       offsetValue := opt_off (Value s \<noteq> 0) o1 (wireLevel4_Value, int32_val (Value s)) (offsetValue m),
       offsetData := opt_off (Data s \<noteq> []) o2 (wireLevel4_Data, WBytes (Data s)) (offsetData m),
       offsetNumbers := offsetNumbers m @ payload_offs o3 (packed_fields int32_val wireLevel4_Numbers (Numbers s)),
       wireTypeNumbers := wireTypeNumbers m @ map (\<lambda>f. wire_of (snd f)) (packed_fields int32_val wireLevel4_Numbers (Numbers s))\<rparr>)"
proof -
  have 1: "run_save Level4Reader_save k (opt_field (Value s \<noteq> 0) (wireLevel4_Value, int32_val (Value s))) m =
      m\<lparr>offsetValue := opt_off (Value s \<noteq> 0) k (wireLevel4_Value, int32_val (Value s)) (offsetValue m)\<rparr>" for k m
    by (simp add: run_save_opt opt_off_def Level4Reader_save_def wireLevel4)
  have 2: "run_save Level4Reader_save k (opt_field (Data s \<noteq> []) (wireLevel4_Data, WBytes (Data s))) m =
      m\<lparr>offsetData := opt_off (Data s \<noteq> []) k (wireLevel4_Data, WBytes (Data s)) (offsetData m)\<rparr>" for k m
    by (simp add: run_save_opt opt_off_def Level4Reader_save_def wireLevel4)
  have 3: "run_save Level4Reader_save k (packed_fields int32_val wireLevel4_Numbers (Numbers s)) m =
      m\<lparr>offsetNumbers := offsetNumbers m @ payload_offs k (packed_fields int32_val wireLevel4_Numbers (Numbers s)),
      wireTypeNumbers := wireTypeNumbers m @ map (\<lambda>f. wire_of (snd f)) (packed_fields int32_val wireLevel4_Numbers (Numbers s))\<rparr>" for k m
    by (simp add: packed_fields_def Level4Reader_save_def wireLevel4 payload_off_def)
  show ?thesis by (simp add: Level4_content_def Let_def 1 2 3 add.assoc)
qed

lemma Level4_decode:
  assumes "elems d = fields_bytes (Level4_content s)" and "slen d + 10 < 2 ^ 63"
  shows "\<exists>r r'. Level4Reader_Unmarshal NewLevel4Reader d = Some (Ret (r, None)) \<and>
    Level4Reader_ToStruct (Some r) = Some (Ret (Some (Level4_norm s), Some r'))"
proof -
  note u = unmarshal_content [OF assms Level4_wf]
  note h = u(2) [unfolded Level4_content_def fields_bytes_simps holds_at_append add_0]
  note h1 = h [THEN conjunct1]
  note h2 = h [THEN conjunct2, THEN conjunct1]
  note h3 = h [THEN conjunct2, THEN conjunct2]
  show ?thesis
    by (simp add: Level4Reader_Unmarshal_def u(1) Level4_run_save Let_def NewLevel4Reader_def Level4Reader_ToStruct_def
      Level4_getters getter_def lazyRead_def Level4_norm_def
      int32_opt [OF h1] string_reads(1) [OF h2] int32_packed [OF h3])
qed

interpretation m_Level4: message_codec Level4_content Level4_norm Level4_XXX_PbContentSize Level4_MarshalTo
  "Level4Reader_Unmarshal NewLevel4Reader" Level4Reader_ToStruct
proof
  show "Level4_XXX_PbContentSize x = int (length (ptr_bytes Level4_content x))" for x
    by (cases x) (simp_all add: ptr_bytes_def Level4_size, simp add: Level4_XXX_PbContentSize_def)
  show "Level4_MarshalTo w x = writeBytes w (ptr_bytes Level4_content x)" if "wf_writer w" for w x
    using that Level4_writes
    by (cases x) (simp_all add: ptr_bytes_def writes_def, simp add: Level4_MarshalTo_def)
qed (rule Level4_decode)

end
