(* ===== verification/Wire_Properties.thy ===== *)
theory Wire_Properties
  imports Level4_Message
begin

unbundle bit_operations_syntax

text \<open>
  What the wire library and the generated \<^verbatim>\<open>Unmarshal\<close> guarantee: varints are LEB128 and
  round-trip, every scalar type round-trips behind its tag, and every message of the wire
  grammar is walked over.
\<close>

section \<open>Varints and scalars\<close>

lemma readVarIntAt_outside:
  assumes "slen (buf p) \<le> off" and "0 \<le> off" and "off < 2 ^ 63"
  shows "readVarIntAt p off = Ret (0, -1)"
  using assms by (simp add: readVarIntAt_def varint_block_def HasNext_def)

lemma readVarIntAt_negative:
  assumes "off < 0" and "- (2 ^ 63) \<le> off"
  shows "readVarIntAt p off = Panic"
  using assms by (simp add: readVarIntAt_def varint_block_def HasNext_def slice_at_def slen_def)

text \<open>
  C19. The unrolled varint decoder is the LEB128 decoder at every offset that a Go int can hold, on a buffer of fewer
  than 2^63 - 10 bytes: at an offset that is not negative it returns the value
  and length that the reference decoder finds there, and \<open>(0, -1)\<close> when the bytes end
  early (or the offset is past them) or do not fit into 64 bits, without a panic; at a negative offset its
  check passes and indexing the buffer panics.
\<close>

theorem readVarIntAt_is_leb128:
  assumes "- (2 ^ 63) \<le> off" and "off < 2 ^ 63" and "slen (buf p) + 10 < 2 ^ 63"
  shows "readVarIntAt p off =
    (if off < 0 then Panic
     else case leb_dec 0 (drop (nat off) (elems (buf p))) of
       None \<Rightarrow> Ret (0, -1)
     | Some (v, n) \<Rightarrow> Ret (of_nat v, int n))"
proof (cases "0 \<le> off \<and> off < slen (buf p)")
  case True
  then show ?thesis using readVarIntAt_leb [of "nat off" p] assms(3) by simp
next
  case False
  then consider "off < 0" | "0 \<le> off" "slen (buf p) \<le> off" by linarith
  then show ?thesis
  proof cases
    case 1
    then show ?thesis using readVarIntAt_negative assms(1) by simp
  next
    case 2
    then have "drop (nat off) (elems (buf p)) = []" by (simp add: slen_def)
    then show ?thesis using readVarIntAt_outside 2 assms(2) by simp
  qed
qed

theorem readVarIntAt_is_leb128_witness:
  "readVarIntAt (NewReader (slice_of [7, 0xAC, 0x02])) 1 = Ret (300, 2) \<and>
   readVarIntAt (NewReader (slice_of [7, 0xAC, 0x02])) (-1) = Panic"
  using readVarIntAt_is_leb128 [of 1 "NewReader (slice_of [7, 0xAC, 0x02])"]
    readVarIntAt_is_leb128 [of "-1" "NewReader (slice_of [7, 0xAC, 0x02])"]
  by (simp add: NewReader_def slen_def)

text \<open>
  A varint that fits into the writer is appended without a panic in exactly
  \<^verbatim>\<open>SizeVarInt\<close> bytes, and is read back at the position where it was written, whatever is
  appended after it.
\<close>

theorem varint_roundtrip:
  assumes "int (length (wbuf w)) + SizeVarInt v \<le> int (wcap w)"
    and "int (length (wbuf w)) + SizeVarInt v + int (length rest) + 10 < 2 ^ 63"
  shows "\<exists>w'. appendVarInt w v = Ret w' \<and>
    int (length (WriterBytes w')) = int (length (WriterBytes w)) + SizeVarInt v \<and>
    readVarIntAt (NewReader (slice_of (WriterBytes w' @ rest))) (int (length (WriterBytes w))) =
      Ret (v, SizeVarInt v)"
proof -
  let ?w = "w\<lparr>wbuf := wbuf w @ VarIntToBytes v\<rparr>"
  let ?p = "NewReader (slice_of (wbuf w @ VarIntToBytes v @ rest))"
  have "appendVarInt w v = Ret ?w"
    using assms(1) by (simp add: appendVarInt_bytes writeBytes_fit SizeVarInt_length)
  moreover have "holds_at ?p (length (wbuf w)) (VarIntToBytes v)"
    using assms(2) by (simp add: holds_at_def NewReader_def SizeVarInt_length)
  ultimately show ?thesis
    using readVarIntAt_holds [of ?p "length (wbuf w)" v]
    by (simp add: WriterBytes_def SizeVarInt_length)
qed

theorem varint_roundtrip_witness:
  "\<exists>w'. appendVarInt \<lparr>wbuf = [1], wcap = 11\<rparr> (2 ^ 63) = Ret w' \<and> length (WriterBytes w') = 11 \<and>
     readVarIntAt (NewReader (slice_of (WriterBytes w' @ [5]))) 1 = Ret (2 ^ 63, 10)"
  using varint_roundtrip [of "\<lparr>wbuf = [1], wcap = 11\<rparr>" "2 ^ 63" "[5]"]
  by (simp add: SizeVarInt_def WriterBytes_def)

text \<open>
  The round trip of one scalar type behind its tag: when the writer has room for the tag and
  the value, the append returns, uses exactly that many bytes, and both are read back.
\<close>

definition tagged_roundtrip ::
  "(Writer \<Rightarrow> ProtoWireNumber \<Rightarrow> 'a \<Rightarrow> Writer go) \<Rightarrow> (Reader \<Rightarrow> int \<Rightarrow> 'a go) \<Rightarrow> ('a \<Rightarrow> int) \<Rightarrow>
   ProtoWireType \<Rightarrow> bool" where
  "tagged_roundtrip app rd size_of wire \<longleftrightarrow>
     (\<forall>w tag x rest. valid_tag tag \<longrightarrow>
        int (length (wbuf w)) + SizeTag tag + size_of x \<le> int (wcap w) \<longrightarrow>
        int (wcap w) + int (length rest) + 10 < 2 ^ 63 \<longrightarrow>
        (\<exists>w'. app w tag x = Ret w' \<and>
           int (length (wbuf w')) = int (length (wbuf w)) + SizeTag tag + size_of x \<and>
           ReadTagAt (NewReader (slice_of (wbuf w' @ rest))) (int (length (wbuf w))) =
             Ret (tag, wire, SizeTag tag) \<and>
           rd (NewReader (slice_of (wbuf w' @ rest))) (int (length (wbuf w)) + SizeTag tag) = Ret x))"

context scalar_codec
begin

lemma tagged: "tagged_roundtrip appendTagged readRaw size_of wire"
proof -
  have "\<exists>w'. appendTagged w tag x = Ret w' \<and>
      int (length (wbuf w')) = int (length (wbuf w)) + SizeTag tag + size_of x \<and>
      ReadTagAt (NewReader (slice_of (wbuf w' @ rest))) (int (length (wbuf w))) =
        Ret (tag, wire, SizeTag tag) \<and>
      readRaw (NewReader (slice_of (wbuf w' @ rest))) (int (length (wbuf w)) + SizeTag tag) = Ret x"
    if "valid_tag tag" and fit: "int (length (wbuf w)) + SizeTag tag + size_of x \<le> int (wcap w)"
      and rng: "int (wcap w) + int (length rest) + 10 < 2 ^ 63" for w tag x rest
  proof -
    let ?t = "tag_bytes tag wire"
    let ?p = "NewReader (slice_of (wbuf w @ ?t @ enc x @ rest))"
    note len = SizeTag_length [of tag wire] size_enc [of x]
    have app: "appendTagged w tag x = Ret (w\<lparr>wbuf := wbuf w @ ?t @ enc x\<rparr>)"
      using fit by (simp add: append_enc writeBytes_fit len)
    have "holds_at ?p (length (wbuf w)) (?t @ enc x)"
      using fit rng by (simp add: holds_at_def NewReader_def len)
    then have h: "holds_at ?p (length (wbuf w)) ?t" "holds_at ?p (length (wbuf w) + length ?t) (enc x)"
      by (simp_all add: holds_at_append)
    show ?thesis
      using app ReadTagAt_holds [OF h(1) that(1) wire_small] read_enc [OF h(2)] by (simp add: len)
  qed
  then show ?thesis by (auto simp: tagged_roundtrip_def)
qed

end

text \<open>
  C18. Every protobuf scalar type round-trips behind its tag: its append, its size function and
  its reader agree for all values, including the sign-extended, zigzag and fixed-width
  encodings.
\<close>

theorem scalars_roundtrip:
  "tagged_roundtrip AppendInt32 ReadInt32 SizeInt32 VarIntType \<and>
   tagged_roundtrip AppendInt64 ReadInt64 SizeInt64 VarIntType \<and>
   tagged_roundtrip AppendUint32 ReadUint32 SizeUint32 VarIntType \<and>
   tagged_roundtrip AppendUint64 ReadUint64 SizeUint64 VarIntType \<and>
   tagged_roundtrip AppendSInt32 ReadSInt32 SizeSInt32 VarIntType \<and>
   tagged_roundtrip AppendSInt64 ReadSInt64 SizeSInt64 VarIntType \<and>
   tagged_roundtrip AppendBool ReadBool SizeBool VarIntType \<and>
   tagged_roundtrip AppendFixed32 ReadFixed32 SizeFixed32 Fixed32Type \<and>
   tagged_roundtrip AppendFixed64 ReadFixed64 SizeFixed64 Fixed64Type \<and>
   tagged_roundtrip AppendSFixed32 ReadSFixed32 SizeSFixed32 Fixed32Type \<and>
   tagged_roundtrip AppendSFixed64 ReadSFixed64 SizeSFixed64 Fixed64Type \<and>
   tagged_roundtrip AppendFloat32 ReadFloat32 SizeFloat32 Fixed32Type \<and>
   tagged_roundtrip AppendFloat64 ReadFloat64 SizeFloat64 Fixed64Type"
  by (intro conjI c_int32.tagged c_int64.tagged c_uint32.tagged c_uint64.tagged c_sint32.tagged
      c_sint64.tagged c_bool.tagged c_fixed32.tagged c_fixed64.tagged c_sfixed32.tagged
      c_sfixed64.tagged c_float32.tagged c_float64.tagged)

section \<open>Messages of the grammar\<close>

text \<open>
  C10. \<^verbatim>\<open>SkipData\<close> terminates on every value of the wire grammar and moves the offset to the
  byte after it: varints, fixed-width values, length-delimited data, and groups nested to
  any depth.
\<close>

theorem SkipData_skips_value:
  assumes "holds_at p off (payload v)" and "wf_val v"
  shows "SkipData p (int off) (wire_of v) = Some (Ret (int off + int (length (payload v))))"
  using SkipData_payload [OF assms] by simp

definition demo_group :: wval where
  "demo_group = WGroup 4 [(1, WVarint 300), (2, WGroup 2 [(7, WBytes [1, 2])]), (3, WFixed32 9)]"

theorem SkipData_skips_value_witness:
  "SkipData (NewReader (slice_of (payload demo_group @ [0xFF]))) 0 StartGroupType =
     Some (Ret (int (length (payload demo_group))))"
proof -
  have "length (payload demo_group) < 100"
    by (simp add: demo_group_def payload.simps(4) tag_bytes_def VarIntToBytes_def delimited_def
        fixed32_bytes_def wire_types)
  then have "holds_at (NewReader (slice_of (payload demo_group @ [0xFF]))) 0 (payload demo_group)"
    by (simp add: holds_at_def NewReader_def)
  from SkipData_skips_value [OF this] show ?thesis
    by (simp add: demo_group_def wf_val.simps(1) valid_tag_def)
qed

text \<open>
  C20. The generated \<^verbatim>\<open>Unmarshal\<close> loop returns without an error on every message of the wire
  grammar, and has called the \<^verbatim>\<open>switch\<close> on its tag once for every field, in order, with
  the offset of its payload.
\<close>

theorem Unmarshal_walks_message:
  assumes "elems d = fields_bytes fs" and "slen d + 10 < 2 ^ 63" and "list_all wf_field fs"
  shows "unmarshalLoop save (NewReader d) 0 m = Some (Ret (run_save save 0 fs m, None))"
  by (rule unmarshal_content [OF assms])

theorem Unmarshal_walks_message_witness:
  "unmarshalLoop (\<lambda>tag wire off m. m @ [(tag, off)])
     (NewReader (slice_of (fields_bytes [(9, demo_group), (1, WVarint 5)]))) 0 [] =
   Some (Ret (run_save (\<lambda>tag wire off m. m @ [(tag, off)]) 0 [(9, demo_group), (1, WVarint 5)] [], None))"
proof -
  have "length (fields_bytes [(9, demo_group), (1, WVarint 5)]) < 100"
    by (simp add: demo_group_def payload.simps(4) tag_bytes_def VarIntToBytes_def delimited_def
        fixed32_bytes_def wire_types field_bytes_def)
  then show ?thesis
    by (intro Unmarshal_walks_message) (simp_all add: slen_def wf_field_def demo_group_def
        wf_val.simps(1) valid_tag_def del: fields_bytes_simps)
qed

end
