(* ===== verification/Wire_Hazards.thy ===== *)
theory Wire_Hazards
  imports Wire_Properties
begin

unbundle bit_operations_syntax

text \<open>
  How the readers behave on malformed input. The wire library checks that a varint is
  complete, but not that the length it announces stays inside the buffer, and the readers
  add lengths to offsets without a check for overflow. The theorems give concrete messages
  on which the generated code never returns, reads past the end of a submessage, or accepts a
  truncated message and panics later.
\<close>

lemmas read_eval = readVarIntAt_def varint_block_def HasNext_def slice_at_def NewReader_def slen_def

section \<open>A length that moves the offset backwards\<close>

text \<open>Field 1, length-delimited, with the length \<open>2^64 - 11\<close>: as a Go \<open>int\<close> it is \<open>-11\<close>.\<close>

definition bad_length :: "byte list" where
  "bad_length = [0x0A, 0xF5, 0xFF, 0xFF, 0xFF, 0xFF, 0xFF, 0xFF, 0xFF, 0xFF, 0x01]"

lemma bad_length_step:
  "HasNext (NewReader (slice_of bad_length)) 0 0"
  "ReadTagAt (NewReader (slice_of bad_length)) 0 = Ret (1, BytesType, 1)"
  "SkipData (NewReader (slice_of bad_length)) 1 BytesType = Some (Ret 0)"
  by (simp add: read_eval bad_length_def,
      simp add: ReadTagAt_def read_eval bad_length_def wire_types Let_def,
      subst SkipData.simps,
      simp add: read_eval bad_length_def wire_types Let_def int_of_u64_def iadd_def wrap_int_def)

lemma bad_length_loops:
  assumes "unmarshalLoop save p off m = Some r"
  shows "\<not> (p = NewReader (slice_of bad_length) \<and> off = 0)"
  by (rule unmarshalLoop.raw_induct
      [where P = "\<lambda>save p off m r. \<not> (p = NewReader (slice_of bad_length) \<and> off = 0)", OF _ assms])
    (fastforce simp: bad_length_step)

text \<open>
  C38. On an eleven byte message whose length prefix is \<open>2^64 - 11\<close>, the generated
  \<^verbatim>\<open>Unmarshal\<close> never returns: skipping the field moves the offset back to the start.
\<close>

theorem Unmarshal_diverges_on_bad_length:
  "Level4Reader_Unmarshal m (slice_of bad_length) = None"
  using bad_length_loops by (cases "Level4Reader_Unmarshal m (slice_of bad_length)")
    (fastforce simp: Level4Reader_Unmarshal_def)+

section \<open>Truncated packed data\<close>

text \<open>Field 3, a packed list of two bytes of which only one is there.\<close>

definition short_packed :: "byte list" where
  "short_packed = [0x1A, 0x02, 0x01]"

lemma short_packed_steps:
  "HasNext (NewReader (slice_of short_packed)) 0 0" "\<not> HasNext (NewReader (slice_of short_packed)) 4 0"
  "ReadTagAt (NewReader (slice_of short_packed)) 0 = Ret (3, BytesType, 1)"
  "SkipData (NewReader (slice_of short_packed)) 1 BytesType = Some (Ret 4)"
  by (simp add: read_eval short_packed_def, simp add: read_eval short_packed_def,
      simp add: ReadTagAt_def read_eval short_packed_def wire_types Let_def,
      subst SkipData.simps,
      simp add: read_eval short_packed_def wire_types Let_def int_of_u64_def)

lemma short_packed_reads:
  "SizedReadVarInt (NewReader (slice_of short_packed)) 1 = Ret (2, 1)"
  "SizedReadInt32 (NewReader (slice_of short_packed)) 2 = Ret (1, 1)"
  "SizedReadInt32 (NewReader (slice_of short_packed)) 3 = Ret (0, -1)"
  by (simp_all add: SizedReadVarInt_def SizedReadInt32_def read_eval short_packed_def Let_def)

lemma short_packed_loops:
  assumes "packedLoop srd d b base sz off acc = Some r"
  shows "\<not> (srd = SizedReadInt32 \<and> b = Some (NewReader (slice_of short_packed)) \<and> base = 2 \<and>
    sz = 2 \<and> (off = 0 \<or> off = 1))"
  by (rule packedLoop.raw_induct
      [where P = "\<lambda>srd d b base sz off acc r. \<not> (srd = SizedReadInt32 \<and>
         b = Some (NewReader (slice_of short_packed)) \<and> base = 2 \<and> sz = 2 \<and> (off = 0 \<or> off = 1))",
       OF _ assms])
    (fastforce simp: entrySizedReader_def on_buf_def short_packed_reads)

text \<open>
  A message that ends inside a packed list is accepted by \<^verbatim>\<open>Unmarshal\<close> without an error, and
  then \<^verbatim>\<open>GetNumbers\<close> never returns: the failed read at the end of the buffer reports a size
  of -1, the loop steps back and appends the previous entry again, forever.
\<close>

theorem packed_reader_diverges_on_truncation:
  "\<exists>r. Level4Reader_Unmarshal NewLevel4Reader (slice_of short_packed) = Some (Ret (r, None)) \<and>
     Level4Reader_GetNumbers (Some r) = None"
proof -
  let ?p = "NewReader (slice_of short_packed)"
  let ?r = "NewLevel4Reader\<lparr>mbuf := Some ?p, offsetNumbers := [1], wireTypeNumbers := [BytesType]\<rparr>"
  have "Level4Reader_Unmarshal NewLevel4Reader (slice_of short_packed) = Some (Ret (?r, None))"
    unfolding Level4Reader_Unmarshal_def
    by (subst unmarshalLoop.simps, simp add: short_packed_steps, subst unmarshalLoop.simps,
        simp add: short_packed_steps Level4Reader_save_def wireLevel4 NewLevel4Reader_def)
  moreover have "packedLoop SizedReadInt32 0 (Some ?p) 2 2 0 [] = None"
    using short_packed_loops [of SizedReadInt32 0 "Some ?p" 2 2 0 "[]"]
    by (cases "packedLoop SizedReadInt32 0 (Some ?p) 2 2 0 []") simp_all
  ultimately show ?thesis
    by (simp add: Level4_getters getter_def lazyRead_def NewLevel4Reader_def on_buf_def
        short_packed_reads int_of_u64_def)
qed

section \<open>Truncated length-delimited data\<close>

text \<open>Field 2, five bytes announced and none there.\<close>

definition short_string :: "byte list" where
  "short_string = [0x12, 0x05]"

lemma short_string_steps:
  "HasNext (NewReader (slice_of short_string)) 0 0" "\<not> HasNext (NewReader (slice_of short_string)) 7 0"
  "ReadTagAt (NewReader (slice_of short_string)) 0 = Ret (2, BytesType, 1)"
  "SkipData (NewReader (slice_of short_string)) 1 BytesType = Some (Ret 7)"
  by (simp add: read_eval short_string_def, simp add: read_eval short_string_def,
      simp add: ReadTagAt_def read_eval short_string_def wire_types Let_def,
      subst SkipData.simps,
      simp add: read_eval short_string_def wire_types Let_def int_of_u64_def)

text \<open>
  A message that ends inside a string is accepted by \<^verbatim>\<open>Unmarshal\<close> without an error, and the
  getter of the string then panics with a slice bound out of range.
\<close>

theorem truncated_string_accepted_then_panics:
  "\<exists>r. Level4Reader_Unmarshal NewLevel4Reader (slice_of short_string) = Some (Ret (r, None)) \<and>
     Level4Reader_GetData (Some r) = Some Panic"
proof -
  let ?p = "NewReader (slice_of short_string)"
  let ?r = "NewLevel4Reader\<lparr>mbuf := Some ?p, offsetData := 1\<rparr>"
  have "Level4Reader_Unmarshal NewLevel4Reader (slice_of short_string) = Some (Ret (?r, None))"
    unfolding Level4Reader_Unmarshal_def
    by (subst unmarshalLoop.simps, simp add: short_string_steps, subst unmarshalLoop.simps,
        simp add: short_string_steps Level4Reader_save_def wireLevel4 NewLevel4Reader_def)
  moreover have "ReadString ?p 1 = Panic"
    by (simp add: ReadString_def ReadBytes_def read_eval short_string_def Let_def int_of_u64_def reslice_def)
  ultimately show ?thesis
    by (simp add: Level4_getters getter_def lazyRead_def NewLevel4Reader_def entryReader_def on_buf_def)
qed

text \<open>
  Re-slicing checks the capacity and not the length: a string whose announced length runs
  past the end of its (sub)message is filled up with the bytes that follow the submessage in
  its parent's buffer.
\<close>

theorem string_reads_past_submessage:
  "ReadString (NewReader \<lparr>elems = [0x03, 0x61], spare = [0x62, 0x63, 0x64]\<rparr>) 0 =
     Ret [0x61, 0x62, 0x63]"
  by (simp add: ReadString_def ReadBytes_def read_eval Let_def int_of_u64_def reslice_def)

end
