(* ===== verification/Level3_Message.thy ===== *)
theory Level3_Message
  imports Level4_Message
begin

text \<open>
  The message type \<^verbatim>\<open>Level3\<close> of
  \<^verbatim>\<open>src/shared/gremlin_go/bench/gremlin_pb/benchmark/benchmark.pb2.go\<close>: its lazy
  reader, its struct, and the proof that they satisfy \<open>message_codec\<close>. A pointer receiver
  is an option; a reader that fills its caches is returned with its new state.
\<close>

section \<open>The reader\<close>

definition wireLevel3_Id :: ProtoWireNumber where "wireLevel3_Id = 1"
definition wireLevel3_Name :: ProtoWireNumber where "wireLevel3_Name = 2"
definition wireLevel3_Nested :: ProtoWireNumber where "wireLevel3_Nested = 3"
definition wireLevel3_Items :: ProtoWireNumber where "wireLevel3_Items = 4"

lemmas wireLevel3 = wireLevel3_Id_def wireLevel3_Name_def wireLevel3_Nested_def wireLevel3_Items_def

record Level3Reader =
  mbuf :: "Reader option"
  dataId :: int32
  dataName :: gostring
  dataNested :: "Level4Reader option"
  dataItems :: "Level4Reader option list"
  offsetId :: int
  offsetName :: int
  offsetNested :: int
  offsetItems :: "int list"
  parsedId :: bool
  parsedName :: bool
  parsedNested :: bool
  parsedItems :: bool

definition NewLevel3Reader :: Level3Reader where
  "NewLevel3Reader = \<lparr>mbuf = None, dataId = 0, dataName = [], dataNested = None, dataItems = [],
     offsetId = 0, offsetName = 0, offsetNested = 0, offsetItems = [],
     parsedId = False, parsedName = False, parsedNested = False,
     parsedItems = False\<rparr>"

definition Level3Reader_readId :: "Level3Reader \<Rightarrow> (int32 \<times> Level3Reader) run" where
  "Level3Reader_readId m =
     lazyRead (parsedId m) (dataId m)
       (Some (entryReader ReadInt32 0 (mbuf m) (offsetId m)))
       (\<lambda>entry. m\<lparr>dataId := entry, parsedId := True\<rparr>) m"

definition Level3Reader_GetId ::
  "Level3Reader option \<Rightarrow> (int32 \<times> Level3Reader option) run" where
  "Level3Reader_GetId = getter Level3Reader_readId 0"

definition Level3Reader_readName :: "Level3Reader \<Rightarrow> (gostring \<times> Level3Reader) run" where
  "Level3Reader_readName m =
     lazyRead (parsedName m) (dataName m)
       (Some (entryReader ReadString [] (mbuf m) (offsetName m)))
       (\<lambda>entry. m\<lparr>dataName := entry, parsedName := True\<rparr>) m"

definition Level3Reader_GetName ::
  "Level3Reader option \<Rightarrow> (gostring \<times> Level3Reader option) run" where
  "Level3Reader_GetName = getter Level3Reader_readName []"

definition Level3Reader_readNested :: "Level3Reader \<Rightarrow> (Level4Reader option \<times> Level3Reader) run" where
  "Level3Reader_readNested m =
     lazyRead (parsedNested m) (dataNested m)
       (structReader (Level4Reader_Unmarshal NewLevel4Reader) (mbuf m) (offsetNested m))
       (\<lambda>entry. m\<lparr>dataNested := entry, parsedNested := True\<rparr>) m"

definition Level3Reader_GetNested ::
  "Level3Reader option \<Rightarrow> (Level4Reader option \<times> Level3Reader option) run" where
  "Level3Reader_GetNested = getter Level3Reader_readNested None"

definition Level3Reader_readItems :: "Level3Reader \<Rightarrow> (Level4Reader option list \<times> Level3Reader) run" where
  "Level3Reader_readItems m =
     lazyRead (parsedItems m) (dataItems m)
       (repeatedStructReader (Level4Reader_Unmarshal NewLevel4Reader) (mbuf m) (offsetItems m) [])
       (\<lambda>entry. m\<lparr>dataItems := entry, parsedItems := True\<rparr>) m"

definition Level3Reader_GetItems ::
  "Level3Reader option \<Rightarrow> (Level4Reader option list \<times> Level3Reader option) run" where
  "Level3Reader_GetItems = getter Level3Reader_readItems []"

lemmas Level3_getters = Level3Reader_readId_def Level3Reader_GetId_def
  Level3Reader_readName_def Level3Reader_GetName_def
  Level3Reader_readNested_def Level3Reader_GetNested_def
  Level3Reader_readItems_def Level3Reader_GetItems_def

text \<open>The \<^verbatim>\<open>switch\<close> on the tag, and the loop around it.\<close>

definition Level3Reader_save ::
  "ProtoWireNumber \<Rightarrow> ProtoWireType \<Rightarrow> int \<Rightarrow> Level3Reader \<Rightarrow> Level3Reader" where
  "Level3Reader_save tag wire offset m =
     (if tag = wireLevel3_Id then m\<lparr>offsetId := offset\<rparr>
      else if tag = wireLevel3_Name then m\<lparr>offsetName := offset\<rparr>
      else if tag = wireLevel3_Nested then m\<lparr>offsetNested := offset\<rparr>
      else if tag = wireLevel3_Items then m\<lparr>offsetItems := offsetItems m @ [offset]\<rparr>
      else m)"

definition Level3Reader_Unmarshal ::
  "Level3Reader \<Rightarrow> gslice \<Rightarrow> (Level3Reader \<times> string option) run" where
  "Level3Reader_Unmarshal m data =
     unmarshalLoop Level3Reader_save (NewReader data) 0 (m\<lparr>mbuf := Some (NewReader data)\<rparr>)"

definition Level3Reader_SourceBytes :: "Level3Reader option \<Rightarrow> gslice" where
  "Level3Reader_SourceBytes s = (case s of None \<Rightarrow> nil_slice | Some r \<Rightarrow> Bytes (mbuf r))"

section \<open>The struct\<close>

record Level3 =
  Id' :: int32
  Name :: gostring
  Nested :: "Level4 option"
  Items :: "Level4 option list"

definition Level3Reader_ToStruct ::
  "Level3Reader option \<Rightarrow> (Level3 option \<times> Level3Reader option) run" where
  "Level3Reader_ToStruct m =
     (case m of None \<Rightarrow> Some (Ret (None, None)) | Some _ \<Rightarrow>
      run_bind (Level3Reader_GetId m) (\<lambda>(vId, m).
      run_bind (Level3Reader_GetName m) (\<lambda>(vName, m).
      run_bind (Level3Reader_GetNested m) (\<lambda>(data, m).
      run_bind (structToStruct Level4Reader_ToStruct data) (\<lambda>(vNested, data').
      let m = map_option (\<lambda>r. r\<lparr>dataNested := data'\<rparr>) m in
      run_bind (Level3Reader_GetItems m) (\<lambda>(data, m).
      run_bind (repeatedToStruct Level4Reader_ToStruct data) (\<lambda>(vItems, data').
      let m = map_option (\<lambda>r. r\<lparr>dataItems := data'\<rparr>) m in
      Some (Ret (Some \<lparr>Id' = vId, Name = vName, Nested = vNested, Items = vItems\<rparr>, m)))))))))"

definition Level3_MarshalTo :: "Writer \<Rightarrow> Level3 option \<Rightarrow> Writer go" where
  "Level3_MarshalTo res s =
     (case s of None \<Rightarrow> Ret res | Some s \<Rightarrow>
      go_bind (if Id' s \<noteq> 0 then AppendInt32 res wireLevel3_Id (Id' s) else Ret res) (\<lambda>res.
      go_bind (if Name s \<noteq> [] then AppendString res wireLevel3_Name (Name s) else Ret res) (\<lambda>res.
      go_bind (if Nested s \<noteq> None then 
        structWriter Level4_XXX_PbContentSize Level4_MarshalTo res wireLevel3_Nested (Nested s) else Ret res) (\<lambda>res.
      (if Items s \<noteq> [] then 
        repeatedWriter (structWriter Level4_XXX_PbContentSize Level4_MarshalTo) res wireLevel3_Items (Items s) else Ret res)))))"

definition Level3_XXX_PbContentSize :: "Level3 option \<Rightarrow> int" where
  "Level3_XXX_PbContentSize s =
     (case s of None \<Rightarrow> 0 | Some s \<Rightarrow>
      (if Id' s \<noteq> 0 then sizeWithTag SizeInt32 wireLevel3_Id (Id' s) else 0) +
      (if Name s \<noteq> [] then sizeDelimitedWithTag SizeString wireLevel3_Name (Name s) else 0) +
      (if Nested s \<noteq> None then sizeDelimitedWithTag Level4_XXX_PbContentSize wireLevel3_Nested (Nested s) else 0) +
      (if Items s \<noteq> [] then 
        repeatedSize (sizeDelimitedWithTag Level4_XXX_PbContentSize wireLevel3_Items) (Items s) else 0))"

definition Level3_Marshal :: "Level3 option \<Rightarrow> byte list go" where
  "Level3_Marshal = marshalWith Level3_XXX_PbContentSize Level3_MarshalTo"

definition Level3_Copy :: "Level3 option \<Rightarrow> Level3 option" where
  "Level3_Copy s =
     (case s of None \<Rightarrow> None | Some s \<Rightarrow> Some \<lparr>
        Id' = Id' s,
        Name = Name s,
        Nested = (case Nested s of None \<Rightarrow> None | Some x \<Rightarrow> Level4_Copy (Some x)),
        Items = map (\<lambda>e. case e of None \<Rightarrow> None | Some x \<Rightarrow> Level4_Copy (Some x)) (Items s)\<rparr>)"

section \<open>Its wire content, and what a round trip keeps\<close>

definition Level3_content :: "Level3 \<Rightarrow> wfield list" where
  "Level3_content s =
     opt_field (Id' s \<noteq> 0) (wireLevel3_Id, int32_val (Id' s)) @
     opt_field (Name s \<noteq> []) (wireLevel3_Name, WBytes (Name s)) @
     opt_field (Nested s \<noteq> None) (wireLevel3_Nested, WBytes (ptr_bytes Level4_content (Nested s))) @
     bytes_fields wireLevel3_Items (map (ptr_bytes Level4_content) (Items s))"

definition Level3_norm :: "Level3 \<Rightarrow> Level3" where
  "Level3_norm s = s\<lparr>Nested := norm_ptr Level4_content Level4_norm (Nested s),
     Items := map (norm_ptr Level4_content Level4_norm) (Items s)\<rparr>"

lemma Level3_writes: "writes (\<lambda>w. Level3_MarshalTo w (Some s)) (fields_bytes (Level3_content s))"
  unfolding Level3_MarshalTo_def Level3_content_def fields_bytes_simps option.case
  by (intro writes_intros m_Level4.writes_struct m_Level4.writes_structs) (simp_all add: packed_fields_def bytes_fields_def)

lemma Level3_size: "Level3_XXX_PbContentSize (Some s) = int (length (fields_bytes (Level3_content s)))"
  unfolding Level3_XXX_PbContentSize_def Level3_content_def option.case
  by (simp add: int32_size size_bytes float64_size bool_size size_strings m_Level4.structSize_ptr m_Level4.repeatedStructSize_ptr length_opt length_list bytes_fields_Nil packed_fields_Nil del: not_None_eq)

lemma Level3_wf: "list_all wf_field (Level3_content s)"
  by (simp add: Level3_content_def packed_fields_def wf_field_def valid_tag_def wireLevel3)

lemma Level3_run_save:
  "run_save Level3Reader_save k (Level3_content s) m = (
     let o1 = k;
     o2 = o1 + length (fields_bytes (opt_field (Id' s \<noteq> 0) (wireLevel3_Id, int32_val (Id' s))));
     o3 = o2 + length (fields_bytes (opt_field (Name s \<noteq> []) (wireLevel3_Name, WBytes (Name s))));
     o4 = o3 + length (fields_bytes (opt_field (Nested s \<noteq> None) (wireLevel3_Nested, WBytes (ptr_bytes Level4_content (Nested s)))))
     in m\<lparr>
       offsetId := opt_off (Id' s \<noteq> 0) o1 (wireLevel3_Id, int32_val (Id' s)) (offsetId m),
       offsetName := opt_off (Name s \<noteq> []) o2 (wireLevel3_Name, WBytes (Name s)) (offsetName m),
       offsetNested := opt_off (Nested s \<noteq> None) o3 (wireLevel3_Nested, WBytes (ptr_bytes Level4_content (Nested s))) (offsetNested m),
       offsetItems := offsetItems m @ payload_offs o4 (bytes_fields wireLevel3_Items (map (ptr_bytes Level4_content) (Items s)))\<rparr>)"
proof -
  have 1: "run_save Level3Reader_save k (opt_field (Id' s \<noteq> 0) (wireLevel3_Id, int32_val (Id' s))) m =
      m\<lparr>offsetId := opt_off (Id' s \<noteq> 0) k (wireLevel3_Id, int32_val (Id' s)) (offsetId m)\<rparr>" for k m
    by (simp add: run_save_opt opt_off_def Level3Reader_save_def wireLevel3)
  have 2: "run_save Level3Reader_save k (opt_field (Name s \<noteq> []) (wireLevel3_Name, WBytes (Name s))) m =
      m\<lparr>offsetName := opt_off (Name s \<noteq> []) k (wireLevel3_Name, WBytes (Name s)) (offsetName m)\<rparr>" for k m
    by (simp add: run_save_opt opt_off_def Level3Reader_save_def wireLevel3)
  have 3: "run_save Level3Reader_save k (opt_field (Nested s \<noteq> None) (wireLevel3_Nested, WBytes (ptr_bytes Level4_content (Nested s)))) m =
      m\<lparr>offsetNested := opt_off (Nested s \<noteq> None) k (wireLevel3_Nested, WBytes (ptr_bytes Level4_content (Nested s))) (offsetNested m)\<rparr>" for k m
    by (simp add: run_save_opt opt_off_def Level3Reader_save_def wireLevel3)
  have 4: "run_save Level3Reader_save k (bytes_fields wireLevel3_Items (map (ptr_bytes Level4_content) (Items s))) m =
      m\<lparr>offsetItems := offsetItems m @ payload_offs k (bytes_fields wireLevel3_Items (map (ptr_bytes Level4_content) (Items s)))\<rparr>" for k m
    by (subst run_save_bytes [where upd = offsetItems_update]) (simp_all add: Level3Reader_save_def wireLevel3)
  show ?thesis by (simp add: Level3_content_def Let_def 1 2 3 4 add.assoc del: not_None_eq)
qed

lemma Level3_decode:
  assumes "elems d = fields_bytes (Level3_content s)" and "slen d + 10 < 2 ^ 63"
  shows "\<exists>r r'. Level3Reader_Unmarshal NewLevel3Reader d = Some (Ret (r, None)) \<and>
    Level3Reader_ToStruct (Some r) = Some (Ret (Some (Level3_norm s), Some r'))"
proof -
  note u = unmarshal_content [OF assms Level3_wf]
  note h = u(2) [unfolded Level3_content_def fields_bytes_simps holds_at_append add_0]
  note h1 = h [THEN conjunct1]
  note h2 = h [THEN conjunct2, THEN conjunct1]
  note h3 = h [THEN conjunct2, THEN conjunct2, THEN conjunct1]
  note h4 = h [THEN conjunct2, THEN conjunct2, THEN conjunct2]
  note x3 = m_Level4.struct_opt [OF h3]
  obtain r3 r3' where e3:
    "structReader (Level4Reader_Unmarshal NewLevel4Reader) (Some (NewReader d))
      (opt_off (Nested s \<noteq> None) (length (fields_bytes (opt_field (Id' s \<noteq> 0) (wireLevel3_Id, int32_val (Id' s)))) + length (fields_bytes (opt_field (Name s \<noteq> []) (wireLevel3_Name, WBytes (Name s))))) (wireLevel3_Nested, WBytes (ptr_bytes Level4_content (Nested s))) 0) = Some (Ret r3)"
    "structToStruct Level4Reader_ToStruct r3 = Some (Ret (norm_ptr Level4_content Level4_norm (Nested s), r3'))"
    using x3 by blast
  note x4 = m_Level4.repeatedStruct_ptr [OF h4, of "[]", unfolded append_Nil]
  obtain r4 r4' where e4:
    "repeatedStructReader (Level4Reader_Unmarshal NewLevel4Reader) (Some (NewReader d))
      (payload_offs (length (fields_bytes (opt_field (Id' s \<noteq> 0) (wireLevel3_Id, int32_val (Id' s)))) + length (fields_bytes (opt_field (Name s \<noteq> []) (wireLevel3_Name, WBytes (Name s)))) + length (fields_bytes (opt_field (Nested s \<noteq> None) (wireLevel3_Nested, WBytes (ptr_bytes Level4_content (Nested s)))))) (bytes_fields wireLevel3_Items (map (ptr_bytes Level4_content) (Items s)))) [] = Some (Ret r4)"
    "repeatedToStruct Level4Reader_ToStruct r4 = Some (Ret (map (norm_ptr Level4_content Level4_norm) (Items s), r4'))"
    using x4 by blast
  show ?thesis
    by (simp add: Level3Reader_Unmarshal_def u(1) Level3_run_save Let_def NewLevel3Reader_def Level3Reader_ToStruct_def
      Level3_getters getter_def lazyRead_def Level3_norm_def
      int32_opt [OF h1] string_reads(1) [OF h2] e3 e4 del: not_None_eq)
qed

interpretation m_Level3: message_codec Level3_content Level3_norm Level3_XXX_PbContentSize Level3_MarshalTo
  "Level3Reader_Unmarshal NewLevel3Reader" Level3Reader_ToStruct
proof
  show "Level3_XXX_PbContentSize x = int (length (ptr_bytes Level3_content x))" for x
    by (cases x) (simp_all add: ptr_bytes_def Level3_size, simp add: Level3_XXX_PbContentSize_def)
  show "Level3_MarshalTo w x = writeBytes w (ptr_bytes Level3_content x)" if "wf_writer w" for w x
    using that Level3_writes
    by (cases x) (simp_all add: ptr_bytes_def writes_def, simp add: Level3_MarshalTo_def)
qed (rule Level3_decode)

end
