(* ===== verification/Level2_Message.thy ===== *)
theory Level2_Message
  imports Level3_Message
begin

text \<open>
  The message type \<^verbatim>\<open>Level2\<close> of
  \<^verbatim>\<open>src/shared/gremlin_go/bench/gremlin_pb/benchmark/benchmark.pb2.go\<close>: its lazy
  reader, its struct, and the proof that they satisfy \<open>message_codec\<close>. A pointer receiver
  is an option; a reader that fills its caches is returned with its new state.
\<close>

section \<open>The reader\<close>

definition wireLevel2_Id :: ProtoWireNumber where "wireLevel2_Id = 1"
definition wireLevel2_Description :: ProtoWireNumber where "wireLevel2_Description = 2"
definition wireLevel2_Nested :: ProtoWireNumber where "wireLevel2_Nested = 3"
definition wireLevel2_Items :: ProtoWireNumber where "wireLevel2_Items = 4"
definition wireLevel2_Payload :: ProtoWireNumber where "wireLevel2_Payload = 5"

lemmas wireLevel2 = wireLevel2_Id_def wireLevel2_Description_def wireLevel2_Nested_def wireLevel2_Items_def wireLevel2_Payload_def

record Level2Reader =
  mbuf :: "Reader option"
  dataId :: int32
  dataDescription :: gostring
  dataNested :: "Level3Reader option"
  dataItems :: "Level3Reader option list"
  dataPayload :: "byte list"
  offsetId :: int
  offsetDescription :: int
  offsetNested :: int
  offsetItems :: "int list"
  offsetPayload :: int
  parsedId :: bool
  parsedDescription :: bool
  parsedNested :: bool
  parsedItems :: bool
  parsedPayload :: bool

definition NewLevel2Reader :: Level2Reader where
  "NewLevel2Reader = \<lparr>mbuf = None, dataId = 0, dataDescription = [], dataNested = None,
     dataItems = [], dataPayload = [], offsetId = 0, offsetDescription = 0,
     offsetNested = 0, offsetItems = [], offsetPayload = 0, parsedId = False,
     parsedDescription = False, parsedNested = False, parsedItems = False,
     parsedPayload = False\<rparr>"

definition Level2Reader_readId :: "Level2Reader \<Rightarrow> (int32 \<times> Level2Reader) run" where
  "Level2Reader_readId m =
     lazyRead (parsedId m) (dataId m)
       (Some (entryReader ReadInt32 0 (mbuf m) (offsetId m)))
       (\<lambda>entry. m\<lparr>dataId := entry, parsedId := True\<rparr>) m"

definition Level2Reader_GetId ::
  "Level2Reader option \<Rightarrow> (int32 \<times> Level2Reader option) run" where
  "Level2Reader_GetId = getter Level2Reader_readId 0"

definition Level2Reader_readDescription :: "Level2Reader \<Rightarrow> (gostring \<times> Level2Reader) run" where
  "Level2Reader_readDescription m =
     lazyRead (parsedDescription m) (dataDescription m)
       (Some (entryReader ReadString [] (mbuf m) (offsetDescription m)))
       (\<lambda>entry. m\<lparr>dataDescription := entry, parsedDescription := True\<rparr>) m"

definition Level2Reader_GetDescription ::
  "Level2Reader option \<Rightarrow> (gostring \<times> Level2Reader option) run" where
  "Level2Reader_GetDescription = getter Level2Reader_readDescription []"

definition Level2Reader_readNested :: "Level2Reader \<Rightarrow> (Level3Reader option \<times> Level2Reader) run" where
  "Level2Reader_readNested m =
     lazyRead (parsedNested m) (dataNested m)
       (structReader (Level3Reader_Unmarshal NewLevel3Reader) (mbuf m) (offsetNested m))
       (\<lambda>entry. m\<lparr>dataNested := entry, parsedNested := True\<rparr>) m"

definition Level2Reader_GetNested ::
  "Level2Reader option \<Rightarrow> (Level3Reader option \<times> Level2Reader option) run" where
  "Level2Reader_GetNested = getter Level2Reader_readNested None"

definition Level2Reader_readItems :: "Level2Reader \<Rightarrow> (Level3Reader option list \<times> Level2Reader) run" where
  "Level2Reader_readItems m =
     lazyRead (parsedItems m) (dataItems m)
       (repeatedStructReader (Level3Reader_Unmarshal NewLevel3Reader) (mbuf m) (offsetItems m) [])
       (\<lambda>entry. m\<lparr>dataItems := entry, parsedItems := True\<rparr>) m"

definition Level2Reader_GetItems ::
  "Level2Reader option \<Rightarrow> (Level3Reader option list \<times> Level2Reader option) run" where
  "Level2Reader_GetItems = getter Level2Reader_readItems []"

definition Level2Reader_readPayload :: "Level2Reader \<Rightarrow> (byte list \<times> Level2Reader) run" where
  "Level2Reader_readPayload m =
     lazyRead (parsedPayload m) (dataPayload m)
       (Some (entryReader (\<lambda>p off. go_bind (ReadBytes p off) (\<lambda>b. Ret (elems b))) [] (mbuf m) (offsetPayload m)))
       (\<lambda>entry. m\<lparr>dataPayload := entry, parsedPayload := True\<rparr>) m"

definition Level2Reader_GetPayload ::
  "Level2Reader option \<Rightarrow> (byte list \<times> Level2Reader option) run" where
  "Level2Reader_GetPayload = getter Level2Reader_readPayload []"

lemmas Level2_getters = Level2Reader_readId_def Level2Reader_GetId_def
  Level2Reader_readDescription_def Level2Reader_GetDescription_def
  Level2Reader_readNested_def Level2Reader_GetNested_def
  Level2Reader_readItems_def Level2Reader_GetItems_def
  Level2Reader_readPayload_def Level2Reader_GetPayload_def

text \<open>The \<^verbatim>\<open>switch\<close> on the tag, and the loop around it.\<close>

definition Level2Reader_save ::
  "ProtoWireNumber \<Rightarrow> ProtoWireType \<Rightarrow> int \<Rightarrow> Level2Reader \<Rightarrow> Level2Reader" where
  "Level2Reader_save tag wire offset m =
     (if tag = wireLevel2_Id then m\<lparr>offsetId := offset\<rparr>
      else if tag = wireLevel2_Description then m\<lparr>offsetDescription := offset\<rparr>
      else if tag = wireLevel2_Nested then m\<lparr>offsetNested := offset\<rparr>
      else if tag = wireLevel2_Items then m\<lparr>offsetItems := offsetItems m @ [offset]\<rparr>
      else if tag = wireLevel2_Payload then m\<lparr>offsetPayload := offset\<rparr>
      else m)"

definition Level2Reader_Unmarshal ::
  "Level2Reader \<Rightarrow> gslice \<Rightarrow> (Level2Reader \<times> string option) run" where
  "Level2Reader_Unmarshal m data =
     unmarshalLoop Level2Reader_save (NewReader data) 0 (m\<lparr>mbuf := Some (NewReader data)\<rparr>)"

definition Level2Reader_SourceBytes :: "Level2Reader option \<Rightarrow> gslice" where
  "Level2Reader_SourceBytes s = (case s of None \<Rightarrow> nil_slice | Some r \<Rightarrow> Bytes (mbuf r))"

section \<open>The struct\<close>

record Level2 =
  Id' :: int32
  Description :: gostring
  Nested :: "Level3 option"
  Items :: "Level3 option list"
  Payload :: "byte list"

definition Level2Reader_ToStruct ::
  "Level2Reader option \<Rightarrow> (Level2 option \<times> Level2Reader option) run" where
  "Level2Reader_ToStruct m =
     (case m of None \<Rightarrow> Some (Ret (None, None)) | Some _ \<Rightarrow>
      run_bind (Level2Reader_GetId m) (\<lambda>(vId, m).
      run_bind (Level2Reader_GetDescription m) (\<lambda>(vDescription, m).
      run_bind (Level2Reader_GetNested m) (\<lambda>(data, m).
      run_bind (structToStruct Level3Reader_ToStruct data) (\<lambda>(vNested, data').
      let m = map_option (\<lambda>r. r\<lparr>dataNested := data'\<rparr>) m in
      run_bind (Level2Reader_GetItems m) (\<lambda>(data, m).
      run_bind (repeatedToStruct Level3Reader_ToStruct data) (\<lambda>(vItems, data').
      let m = map_option (\<lambda>r. r\<lparr>dataItems := data'\<rparr>) m in
      run_bind (Level2Reader_GetPayload m) (\<lambda>(vPayload, m).
      Some (Ret (Some \<lparr>Id' = vId, Description = vDescription, Nested = vNested, Items = vItems, Payload = vPayload\<rparr>, m))))))))))"

definition Level2_MarshalTo :: "Writer \<Rightarrow> Level2 option \<Rightarrow> Writer go" where
  "Level2_MarshalTo res s =
     (case s of None \<Rightarrow> Ret res | Some s \<Rightarrow>
      go_bind (if Id' s \<noteq> 0 then AppendInt32 res wireLevel2_Id (Id' s) else Ret res) (\<lambda>res.
      go_bind (if Description s \<noteq> [] then AppendString res wireLevel2_Description (Description s) else Ret res) (\<lambda>res.
      go_bind (if Nested s \<noteq> None then 
        structWriter Level3_XXX_PbContentSize Level3_MarshalTo res wireLevel2_Nested (Nested s) else Ret res) (\<lambda>res.
      go_bind (if Items s \<noteq> [] then 
        repeatedWriter (structWriter Level3_XXX_PbContentSize Level3_MarshalTo) res wireLevel2_Items (Items s) else Ret res) (\<lambda>res.
      (if Payload s \<noteq> [] then AppendBytes res wireLevel2_Payload (Payload s) else Ret res))))))"

definition Level2_XXX_PbContentSize :: "Level2 option \<Rightarrow> int" where
  "Level2_XXX_PbContentSize s =
     (case s of None \<Rightarrow> 0 | Some s \<Rightarrow>
      (if Id' s \<noteq> 0 then sizeWithTag SizeInt32 wireLevel2_Id (Id' s) else 0) +
      (if Description s \<noteq> [] then sizeDelimitedWithTag SizeString wireLevel2_Description (Description s) else 0) +
      (if Nested s \<noteq> None then sizeDelimitedWithTag Level3_XXX_PbContentSize wireLevel2_Nested (Nested s) else 0) +
      (if Items s \<noteq> [] then 
        repeatedSize (sizeDelimitedWithTag Level3_XXX_PbContentSize wireLevel2_Items) (Items s) else 0) +
      (if Payload s \<noteq> [] then sizeDelimitedWithTag SizeBytes wireLevel2_Payload (Payload s) else 0))"

definition Level2_Marshal :: "Level2 option \<Rightarrow> byte list go" where
  "Level2_Marshal = marshalWith Level2_XXX_PbContentSize Level2_MarshalTo"

definition Level2_Copy :: "Level2 option \<Rightarrow> Level2 option" where
  "Level2_Copy s =
     (case s of None \<Rightarrow> None | Some s \<Rightarrow> Some \<lparr>
        Id' = Id' s,
        Description = Description s,
        Nested = (case Nested s of None \<Rightarrow> None | Some x \<Rightarrow> Level3_Copy (Some x)),
        Items = map (\<lambda>e. case e of None \<Rightarrow> None | Some x \<Rightarrow> Level3_Copy (Some x)) (Items s),
        Payload = Payload s\<rparr>)"

section \<open>Its wire content, and what a round trip keeps\<close>

definition Level2_content :: "Level2 \<Rightarrow> wfield list" where
  "Level2_content s =
     opt_field (Id' s \<noteq> 0) (wireLevel2_Id, int32_val (Id' s)) @
     opt_field (Description s \<noteq> []) (wireLevel2_Description, WBytes (Description s)) @
     opt_field (Nested s \<noteq> None) (wireLevel2_Nested, WBytes (ptr_bytes Level3_content (Nested s))) @
     bytes_fields wireLevel2_Items (map (ptr_bytes Level3_content) (Items s)) @
     opt_field (Payload s \<noteq> []) (wireLevel2_Payload, WBytes (Payload s))"

definition Level2_norm :: "Level2 \<Rightarrow> Level2" where
  "Level2_norm s = s\<lparr>Nested := norm_ptr Level3_content Level3_norm (Nested s),
     Items := map (norm_ptr Level3_content Level3_norm) (Items s)\<rparr>"

lemma Level2_writes: "writes (\<lambda>w. Level2_MarshalTo w (Some s)) (fields_bytes (Level2_content s))"
  unfolding Level2_MarshalTo_def Level2_content_def fields_bytes_simps option.case
  by (intro writes_intros m_Level3.writes_struct m_Level3.writes_structs) (simp_all add: packed_fields_def bytes_fields_def)

lemma Level2_size: "Level2_XXX_PbContentSize (Some s) = int (length (fields_bytes (Level2_content s)))"
  unfolding Level2_XXX_PbContentSize_def Level2_content_def option.case
  by (simp add: int32_size size_bytes float64_size bool_size size_strings m_Level3.structSize_ptr m_Level3.repeatedStructSize_ptr length_opt length_list bytes_fields_Nil packed_fields_Nil del: not_None_eq)

lemma Level2_wf: "list_all wf_field (Level2_content s)"
  by (simp add: Level2_content_def packed_fields_def wf_field_def valid_tag_def wireLevel2)

lemma Level2_run_save:
  "run_save Level2Reader_save k (Level2_content s) m = (
     let o1 = k;
     o2 = o1 + length (fields_bytes (opt_field (Id' s \<noteq> 0) (wireLevel2_Id, int32_val (Id' s))));
     o3 = o2 + length (fields_bytes (opt_field (Description s \<noteq> []) (wireLevel2_Description, WBytes (Description s))));
     o4 = o3 + length (fields_bytes (opt_field (Nested s \<noteq> None) (wireLevel2_Nested, WBytes (ptr_bytes Level3_content (Nested s)))));
     o5 = o4 + length (fields_bytes (bytes_fields wireLevel2_Items (map (ptr_bytes Level3_content) (Items s))))
     in m\<lparr>
       offsetId := opt_off (Id' s \<noteq> 0) o1 (wireLevel2_Id, int32_val (Id' s)) (offsetId m),
       offsetDescription := opt_off (Description s \<noteq> []) o2 (wireLevel2_Description, WBytes (Description s)) (offsetDescription m),
       offsetNested := opt_off (Nested s \<noteq> None) o3 (wireLevel2_Nested, WBytes (ptr_bytes Level3_content (Nested s))) (offsetNested m),
       offsetItems := offsetItems m @ payload_offs o4 (bytes_fields wireLevel2_Items (map (ptr_bytes Level3_content) (Items s))),
       offsetPayload := opt_off (Payload s \<noteq> []) o5 (wireLevel2_Payload, WBytes (Payload s)) (offsetPayload m)\<rparr>)"
proof -
  have 1: "run_save Level2Reader_save k (opt_field (Id' s \<noteq> 0) (wireLevel2_Id, int32_val (Id' s))) m =
      m\<lparr>offsetId := opt_off (Id' s \<noteq> 0) k (wireLevel2_Id, int32_val (Id' s)) (offsetId m)\<rparr>" for k m
    by (simp add: run_save_opt opt_off_def Level2Reader_save_def wireLevel2)
  have 2: "run_save Level2Reader_save k (opt_field (Description s \<noteq> []) (wireLevel2_Description, WBytes (Description s))) m =
      m\<lparr>offsetDescription := opt_off (Description s \<noteq> []) k (wireLevel2_Description, WBytes (Description s)) (offsetDescription m)\<rparr>" for k m
    by (simp add: run_save_opt opt_off_def Level2Reader_save_def wireLevel2)
  have 3: "run_save Level2Reader_save k (opt_field (Nested s \<noteq> None) (wireLevel2_Nested, WBytes (ptr_bytes Level3_content (Nested s)))) m =
      m\<lparr>offsetNested := opt_off (Nested s \<noteq> None) k (wireLevel2_Nested, WBytes (ptr_bytes Level3_content (Nested s))) (offsetNested m)\<rparr>" for k m
    by (simp add: run_save_opt opt_off_def Level2Reader_save_def wireLevel2)
  have 4: "run_save Level2Reader_save k (bytes_fields wireLevel2_Items (map (ptr_bytes Level3_content) (Items s))) m =
      m\<lparr>offsetItems := offsetItems m @ payload_offs k (bytes_fields wireLevel2_Items (map (ptr_bytes Level3_content) (Items s)))\<rparr>" for k m
    by (subst run_save_bytes [where upd = offsetItems_update]) (simp_all add: Level2Reader_save_def wireLevel2)
  have 5: "run_save Level2Reader_save k (opt_field (Payload s \<noteq> []) (wireLevel2_Payload, WBytes (Payload s))) m =
      m\<lparr>offsetPayload := opt_off (Payload s \<noteq> []) k (wireLevel2_Payload, WBytes (Payload s)) (offsetPayload m)\<rparr>" for k m
    by (simp add: run_save_opt opt_off_def Level2Reader_save_def wireLevel2)
  show ?thesis by (simp add: Level2_content_def Let_def 1 2 3 4 5 add.assoc del: not_None_eq)
qed

lemma Level2_decode:
  assumes "elems d = fields_bytes (Level2_content s)" and "slen d + 10 < 2 ^ 63"
  shows "\<exists>r r'. Level2Reader_Unmarshal NewLevel2Reader d = Some (Ret (r, None)) \<and>
    Level2Reader_ToStruct (Some r) = Some (Ret (Some (Level2_norm s), Some r'))"
proof -
  note u = unmarshal_content [OF assms Level2_wf]
  note h = u(2) [unfolded Level2_content_def fields_bytes_simps holds_at_append add_0]
  note h1 = h [THEN conjunct1]
  note h2 = h [THEN conjunct2, THEN conjunct1]
  note h3 = h [THEN conjunct2, THEN conjunct2, THEN conjunct1]
  note h4 = h [THEN conjunct2, THEN conjunct2, THEN conjunct2, THEN conjunct1]
  note h5 = h [THEN conjunct2, THEN conjunct2, THEN conjunct2, THEN conjunct2]
  note x3 = m_Level3.struct_opt [OF h3]
  obtain r3 r3' where e3:
    "structReader (Level3Reader_Unmarshal NewLevel3Reader) (Some (NewReader d))
      (opt_off (Nested s \<noteq> None) (length (fields_bytes (opt_field (Id' s \<noteq> 0) (wireLevel2_Id, int32_val (Id' s)))) + length (fields_bytes (opt_field (Description s \<noteq> []) (wireLevel2_Description, WBytes (Description s))))) (wireLevel2_Nested, WBytes (ptr_bytes Level3_content (Nested s))) 0) = Some (Ret r3)"
    "structToStruct Level3Reader_ToStruct r3 = Some (Ret (norm_ptr Level3_content Level3_norm (Nested s), r3'))"
    using x3 by blast
  note x4 = m_Level3.repeatedStruct_ptr [OF h4, of "[]", unfolded append_Nil]
  obtain r4 r4' where e4:
    "repeatedStructReader (Level3Reader_Unmarshal NewLevel3Reader) (Some (NewReader d))
      (payload_offs (length (fields_bytes (opt_field (Id' s \<noteq> 0) (wireLevel2_Id, int32_val (Id' s)))) + length (fields_bytes (opt_field (Description s \<noteq> []) (wireLevel2_Description, WBytes (Description s)))) + length (fields_bytes (opt_field (Nested s \<noteq> None) (wireLevel2_Nested, WBytes (ptr_bytes Level3_content (Nested s)))))) (bytes_fields wireLevel2_Items (map (ptr_bytes Level3_content) (Items s)))) [] = Some (Ret r4)"
    "repeatedToStruct Level3Reader_ToStruct r4 = Some (Ret (map (norm_ptr Level3_content Level3_norm) (Items s), r4'))"
    using x4 by blast
  show ?thesis
    by (simp add: Level2Reader_Unmarshal_def u(1) Level2_run_save Let_def NewLevel2Reader_def Level2Reader_ToStruct_def
      Level2_getters getter_def lazyRead_def Level2_norm_def
      int32_opt [OF h1] string_reads(1) [OF h2] e3 e4 bytes_opt [OF h5] del: not_None_eq)
qed

interpretation m_Level2: message_codec Level2_content Level2_norm Level2_XXX_PbContentSize Level2_MarshalTo
  "Level2Reader_Unmarshal NewLevel2Reader" Level2Reader_ToStruct
proof
  show "Level2_XXX_PbContentSize x = int (length (ptr_bytes Level2_content x))" for x
    by (cases x) (simp_all add: ptr_bytes_def Level2_size, simp add: Level2_XXX_PbContentSize_def)
  show "Level2_MarshalTo w x = writeBytes w (ptr_bytes Level2_content x)" if "wf_writer w" for w x
    using that Level2_writes
    by (cases x) (simp_all add: ptr_bytes_def writes_def, simp add: Level2_MarshalTo_def)
qed (rule Level2_decode)

end
