(* ===== verification/Level1_Message.thy ===== *)
theory Level1_Message
  imports Level2_Message
begin

text \<open>
  The message type \<^verbatim>\<open>Level1\<close> of
  \<^verbatim>\<open>src/shared/gremlin_go/bench/gremlin_pb/benchmark/benchmark.pb2.go\<close>: its lazy
  reader, its struct, and the proof that they satisfy \<open>message_codec\<close>. A pointer receiver
  is an option; a reader that fills its caches is returned with its new state.
\<close>

section \<open>The reader\<close>

definition wireLevel1_Id :: ProtoWireNumber where "wireLevel1_Id = 1"
definition wireLevel1_Title :: ProtoWireNumber where "wireLevel1_Title = 2"
definition wireLevel1_Nested :: ProtoWireNumber where "wireLevel1_Nested = 3"
definition wireLevel1_Items :: ProtoWireNumber where "wireLevel1_Items = 4"
definition wireLevel1_Score :: ProtoWireNumber where "wireLevel1_Score = 5"

lemmas wireLevel1 = wireLevel1_Id_def wireLevel1_Title_def wireLevel1_Nested_def wireLevel1_Items_def wireLevel1_Score_def

record Level1Reader =
  mbuf :: "Reader option"
  dataId :: int32
  dataTitle :: gostring
  dataNested :: "Level2Reader option"
  dataItems :: "Level2Reader option list"
  dataScore :: float64
  offsetId :: int
  offsetTitle :: int
  offsetNested :: int
  offsetItems :: "int list"
  offsetScore :: int
  parsedId :: bool
  parsedTitle :: bool
  parsedNested :: bool
  parsedItems :: bool
  parsedScore :: bool

definition NewLevel1Reader :: Level1Reader where
  "NewLevel1Reader = \<lparr>mbuf = None, dataId = 0, dataTitle = [], dataNested = None, dataItems = [],
     dataScore = 0, offsetId = 0, offsetTitle = 0, offsetNested = 0,
     offsetItems = [], offsetScore = 0, parsedId = False, parsedTitle = False,
     parsedNested = False, parsedItems = False, parsedScore = False\<rparr>"

definition Level1Reader_readId :: "Level1Reader \<Rightarrow> (int32 \<times> Level1Reader) run" where
  "Level1Reader_readId m =
     lazyRead (parsedId m) (dataId m)
       (Some (entryReader ReadInt32 0 (mbuf m) (offsetId m)))
       (\<lambda>entry. m\<lparr>dataId := entry, parsedId := True\<rparr>) m"

definition Level1Reader_GetId ::
  "Level1Reader option \<Rightarrow> (int32 \<times> Level1Reader option) run" where
  "Level1Reader_GetId = getter Level1Reader_readId 0"

definition Level1Reader_readTitle :: "Level1Reader \<Rightarrow> (gostring \<times> Level1Reader) run" where
  "Level1Reader_readTitle m =
     lazyRead (parsedTitle m) (dataTitle m)
       (Some (entryReader ReadString [] (mbuf m) (offsetTitle m)))
       (\<lambda>entry. m\<lparr>dataTitle := entry, parsedTitle := True\<rparr>) m"

definition Level1Reader_GetTitle ::
  "Level1Reader option \<Rightarrow> (gostring \<times> Level1Reader option) run" where
  "Level1Reader_GetTitle = getter Level1Reader_readTitle []"

definition Level1Reader_readNested :: "Level1Reader \<Rightarrow> (Level2Reader option \<times> Level1Reader) run" where
  "Level1Reader_readNested m =
     lazyRead (parsedNested m) (dataNested m)
       (structReader (Level2Reader_Unmarshal NewLevel2Reader) (mbuf m) (offsetNested m))
       (\<lambda>entry. m\<lparr>dataNested := entry, parsedNested := True\<rparr>) m"

definition Level1Reader_GetNested ::
  "Level1Reader option \<Rightarrow> (Level2Reader option \<times> Level1Reader option) run" where
  "Level1Reader_GetNested = getter Level1Reader_readNested None"

definition Level1Reader_readItems :: "Level1Reader \<Rightarrow> (Level2Reader option list \<times> Level1Reader) run" where
  "Level1Reader_readItems m =
     lazyRead (parsedItems m) (dataItems m)
       (repeatedStructReader (Level2Reader_Unmarshal NewLevel2Reader) (mbuf m) (offsetItems m) [])
       (\<lambda>entry. m\<lparr>dataItems := entry, parsedItems := True\<rparr>) m"

definition Level1Reader_GetItems ::
  "Level1Reader option \<Rightarrow> (Level2Reader option list \<times> Level1Reader option) run" where
  "Level1Reader_GetItems = getter Level1Reader_readItems []"

definition Level1Reader_readScore :: "Level1Reader \<Rightarrow> (float64 \<times> Level1Reader) run" where
  "Level1Reader_readScore m =
     lazyRead (parsedScore m) (dataScore m)
       (Some (entryReader ReadFloat64 0 (mbuf m) (offsetScore m)))
       (\<lambda>entry. m\<lparr>dataScore := entry, parsedScore := True\<rparr>) m"

definition Level1Reader_GetScore ::
  "Level1Reader option \<Rightarrow> (float64 \<times> Level1Reader option) run" where
  "Level1Reader_GetScore = getter Level1Reader_readScore 0"

lemmas Level1_getters = Level1Reader_readId_def Level1Reader_GetId_def
  Level1Reader_readTitle_def Level1Reader_GetTitle_def
  Level1Reader_readNested_def Level1Reader_GetNested_def
  Level1Reader_readItems_def Level1Reader_GetItems_def
  Level1Reader_readScore_def Level1Reader_GetScore_def

text \<open>The \<^verbatim>\<open>switch\<close> on the tag, and the loop around it.\<close>

definition Level1Reader_save ::
  "ProtoWireNumber \<Rightarrow> ProtoWireType \<Rightarrow> int \<Rightarrow> Level1Reader \<Rightarrow> Level1Reader" where
  "Level1Reader_save tag wire offset m =
     (if tag = wireLevel1_Id then m\<lparr>offsetId := offset\<rparr>
      else if tag = wireLevel1_Title then m\<lparr>offsetTitle := offset\<rparr>
      else if tag = wireLevel1_Nested then m\<lparr>offsetNested := offset\<rparr>
      else if tag = wireLevel1_Items then m\<lparr>offsetItems := offsetItems m @ [offset]\<rparr>
      else if tag = wireLevel1_Score then m\<lparr>offsetScore := offset\<rparr>
      else m)"

definition Level1Reader_Unmarshal ::
  "Level1Reader \<Rightarrow> gslice \<Rightarrow> (Level1Reader \<times> string option) run" where
  "Level1Reader_Unmarshal m data =
     unmarshalLoop Level1Reader_save (NewReader data) 0 (m\<lparr>mbuf := Some (NewReader data)\<rparr>)"

definition Level1Reader_SourceBytes :: "Level1Reader option \<Rightarrow> gslice" where
  "Level1Reader_SourceBytes s = (case s of None \<Rightarrow> nil_slice | Some r \<Rightarrow> Bytes (mbuf r))"

section \<open>The struct\<close>

record Level1 =
  Id' :: int32
  Title :: gostring
  Nested :: "Level2 option"
  Items :: "Level2 option list"
  Score :: float64

definition Level1Reader_ToStruct ::
  "Level1Reader option \<Rightarrow> (Level1 option \<times> Level1Reader option) run" where
  "Level1Reader_ToStruct m =
     (case m of None \<Rightarrow> Some (Ret (None, None)) | Some _ \<Rightarrow>
      run_bind (Level1Reader_GetId m) (\<lambda>(vId, m).
      run_bind (Level1Reader_GetTitle m) (\<lambda>(vTitle, m).
      run_bind (Level1Reader_GetNested m) (\<lambda>(data, m).
      run_bind (structToStruct Level2Reader_ToStruct data) (\<lambda>(vNested, data').
      let m = map_option (\<lambda>r. r\<lparr>dataNested := data'\<rparr>) m in
      run_bind (Level1Reader_GetItems m) (\<lambda>(data, m).
      run_bind (repeatedToStruct Level2Reader_ToStruct data) (\<lambda>(vItems, data').
      let m = map_option (\<lambda>r. r\<lparr>dataItems := data'\<rparr>) m in
      run_bind (Level1Reader_GetScore m) (\<lambda>(vScore, m).
      Some (Ret (Some \<lparr>Id' = vId, Title = vTitle, Nested = vNested, Items = vItems, Score = vScore\<rparr>, m))))))))))"

definition Level1_MarshalTo :: "Writer \<Rightarrow> Level1 option \<Rightarrow> Writer go" where
  "Level1_MarshalTo res s =
     (case s of None \<Rightarrow> Ret res | Some s \<Rightarrow>
      go_bind (if Id' s \<noteq> 0 then AppendInt32 res wireLevel1_Id (Id' s) else Ret res) (\<lambda>res.
      go_bind (if Title s \<noteq> [] then AppendString res wireLevel1_Title (Title s) else Ret res) (\<lambda>res.
      go_bind (if Nested s \<noteq> None then 
        structWriter Level2_XXX_PbContentSize Level2_MarshalTo res wireLevel1_Nested (Nested s) else Ret res) (\<lambda>res.
      go_bind (if Items s \<noteq> [] then 
        repeatedWriter (structWriter Level2_XXX_PbContentSize Level2_MarshalTo) res wireLevel1_Items (Items s) else Ret res) (\<lambda>res.
      (if \<not> float64_is_zero (Score s) then AppendFloat64 res wireLevel1_Score (Score s) else Ret res))))))"

definition Level1_XXX_PbContentSize :: "Level1 option \<Rightarrow> int" where
  "Level1_XXX_PbContentSize s =
     (case s of None \<Rightarrow> 0 | Some s \<Rightarrow>
      (if Id' s \<noteq> 0 then sizeWithTag SizeInt32 wireLevel1_Id (Id' s) else 0) +
      (if Title s \<noteq> [] then sizeDelimitedWithTag SizeString wireLevel1_Title (Title s) else 0) +
      (if Nested s \<noteq> None then sizeDelimitedWithTag Level2_XXX_PbContentSize wireLevel1_Nested (Nested s) else 0) +
      (if Items s \<noteq> [] then 
        repeatedSize (sizeDelimitedWithTag Level2_XXX_PbContentSize wireLevel1_Items) (Items s) else 0) +
      (if \<not> float64_is_zero (Score s) then sizeWithTag SizeFloat64 wireLevel1_Score (Score s) else 0))"

definition Level1_Marshal :: "Level1 option \<Rightarrow> byte list go" where
  "Level1_Marshal = marshalWith Level1_XXX_PbContentSize Level1_MarshalTo"

definition Level1_Copy :: "Level1 option \<Rightarrow> Level1 option" where
  "Level1_Copy s =
     (case s of None \<Rightarrow> None | Some s \<Rightarrow> Some \<lparr>
        Id' = Id' s,
        Title = Title s,
        Nested = (case Nested s of None \<Rightarrow> None | Some x \<Rightarrow> Level2_Copy (Some x)),
        Items = map (\<lambda>e. case e of None \<Rightarrow> None | Some x \<Rightarrow> Level2_Copy (Some x)) (Items s),
        Score = Score s\<rparr>)"

section \<open>Its wire content, and what a round trip keeps\<close>

definition Level1_content :: "Level1 \<Rightarrow> wfield list" where
  "Level1_content s =
     opt_field (Id' s \<noteq> 0) (wireLevel1_Id, int32_val (Id' s)) @
     opt_field (Title s \<noteq> []) (wireLevel1_Title, WBytes (Title s)) @
     opt_field (Nested s \<noteq> None) (wireLevel1_Nested, WBytes (ptr_bytes Level2_content (Nested s))) @
     bytes_fields wireLevel1_Items (map (ptr_bytes Level2_content) (Items s)) @
     opt_field (\<not> float64_is_zero (Score s)) (wireLevel1_Score, WFixed64 (Score s))"

definition Level1_norm :: "Level1 \<Rightarrow> Level1" where
  "Level1_norm s = s\<lparr>Nested := norm_ptr Level2_content Level2_norm (Nested s),
     Items := map (norm_ptr Level2_content Level2_norm) (Items s),
     Score := float64_norm (Score s)\<rparr>"

lemma Level1_writes: "writes (\<lambda>w. Level1_MarshalTo w (Some s)) (fields_bytes (Level1_content s))"
  unfolding Level1_MarshalTo_def Level1_content_def fields_bytes_simps option.case
  by (intro writes_intros m_Level2.writes_struct m_Level2.writes_structs) (simp_all add: packed_fields_def bytes_fields_def)

lemma Level1_size: "Level1_XXX_PbContentSize (Some s) = int (length (fields_bytes (Level1_content s)))"
  unfolding Level1_XXX_PbContentSize_def Level1_content_def option.case
  by (simp add: int32_size size_bytes float64_size bool_size size_strings m_Level2.structSize_ptr m_Level2.repeatedStructSize_ptr length_opt length_list bytes_fields_Nil packed_fields_Nil del: not_None_eq)

lemma Level1_wf: "list_all wf_field (Level1_content s)"
  by (simp add: Level1_content_def packed_fields_def wf_field_def valid_tag_def wireLevel1)

lemma Level1_run_save:
  "run_save Level1Reader_save k (Level1_content s) m = (
     let o1 = k;
     o2 = o1 + length (fields_bytes (opt_field (Id' s \<noteq> 0) (wireLevel1_Id, int32_val (Id' s))));
     o3 = o2 + length (fields_bytes (opt_field (Title s \<noteq> []) (wireLevel1_Title, WBytes (Title s))));
     o4 = o3 + length (fields_bytes (opt_field (Nested s \<noteq> None) (wireLevel1_Nested, WBytes (ptr_bytes Level2_content (Nested s)))));
     o5 = o4 + length (fields_bytes (bytes_fields wireLevel1_Items (map (ptr_bytes Level2_content) (Items s))))
     in m\<lparr>
       offsetId := opt_off (Id' s \<noteq> 0) o1 (wireLevel1_Id, int32_val (Id' s)) (offsetId m),
       offsetTitle := opt_off (Title s \<noteq> []) o2 (wireLevel1_Title, WBytes (Title s)) (offsetTitle m),
       offsetNested := opt_off (Nested s \<noteq> None) o3 (wireLevel1_Nested, WBytes (ptr_bytes Level2_content (Nested s))) (offsetNested m),
       offsetItems := offsetItems m @ payload_offs o4 (bytes_fields wireLevel1_Items (map (ptr_bytes Level2_content) (Items s))),
       offsetScore := opt_off (\<not> float64_is_zero (Score s)) o5 (wireLevel1_Score, WFixed64 (Score s)) (offsetScore m)\<rparr>)"
proof -
  have 1: "run_save Level1Reader_save k (opt_field (Id' s \<noteq> 0) (wireLevel1_Id, int32_val (Id' s))) m =
      m\<lparr>offsetId := opt_off (Id' s \<noteq> 0) k (wireLevel1_Id, int32_val (Id' s)) (offsetId m)\<rparr>" for k m
    by (simp add: run_save_opt opt_off_def Level1Reader_save_def wireLevel1)
  have 2: "run_save Level1Reader_save k (opt_field (Title s \<noteq> []) (wireLevel1_Title, WBytes (Title s))) m =
      m\<lparr>offsetTitle := opt_off (Title s \<noteq> []) k (wireLevel1_Title, WBytes (Title s)) (offsetTitle m)\<rparr>" for k m
    by (simp add: run_save_opt opt_off_def Level1Reader_save_def wireLevel1)
  have 3: "run_save Level1Reader_save k (opt_field (Nested s \<noteq> None) (wireLevel1_Nested, WBytes (ptr_bytes Level2_content (Nested s)))) m =
      m\<lparr>offsetNested := opt_off (Nested s \<noteq> None) k (wireLevel1_Nested, WBytes (ptr_bytes Level2_content (Nested s))) (offsetNested m)\<rparr>" for k m
    by (simp add: run_save_opt opt_off_def Level1Reader_save_def wireLevel1)
  have 4: "run_save Level1Reader_save k (bytes_fields wireLevel1_Items (map (ptr_bytes Level2_content) (Items s))) m =
      m\<lparr>offsetItems := offsetItems m @ payload_offs k (bytes_fields wireLevel1_Items (map (ptr_bytes Level2_content) (Items s)))\<rparr>" for k m
    by (subst run_save_bytes [where upd = offsetItems_update]) (simp_all add: Level1Reader_save_def wireLevel1)
  have 5: "run_save Level1Reader_save k (opt_field (\<not> float64_is_zero (Score s)) (wireLevel1_Score, WFixed64 (Score s))) m =
      m\<lparr>offsetScore := opt_off (\<not> float64_is_zero (Score s)) k (wireLevel1_Score, WFixed64 (Score s)) (offsetScore m)\<rparr>" for k m
    by (simp add: run_save_opt opt_off_def Level1Reader_save_def wireLevel1)
  show ?thesis by (simp add: Level1_content_def Let_def 1 2 3 4 5 add.assoc del: not_None_eq)
qed

lemma Level1_decode:
  assumes "elems d = fields_bytes (Level1_content s)" and "slen d + 10 < 2 ^ 63"
  shows "\<exists>r r'. Level1Reader_Unmarshal NewLevel1Reader d = Some (Ret (r, None)) \<and>
    Level1Reader_ToStruct (Some r) = Some (Ret (Some (Level1_norm s), Some r'))"
proof -
  note u = unmarshal_content [OF assms Level1_wf]
  note h = u(2) [unfolded Level1_content_def fields_bytes_simps holds_at_append add_0]
  note h1 = h [THEN conjunct1]
  note h2 = h [THEN conjunct2, THEN conjunct1]
  note h3 = h [THEN conjunct2, THEN conjunct2, THEN conjunct1]
  note h4 = h [THEN conjunct2, THEN conjunct2, THEN conjunct2, THEN conjunct1]
  note h5 = h [THEN conjunct2, THEN conjunct2, THEN conjunct2, THEN conjunct2]
  note x3 = m_Level2.struct_opt [OF h3]
  obtain r3 r3' where e3:
    "structReader (Level2Reader_Unmarshal NewLevel2Reader) (Some (NewReader d))
      (opt_off (Nested s \<noteq> None) (length (fields_bytes (opt_field (Id' s \<noteq> 0) (wireLevel1_Id, int32_val (Id' s)))) + length (fields_bytes (opt_field (Title s \<noteq> []) (wireLevel1_Title, WBytes (Title s))))) (wireLevel1_Nested, WBytes (ptr_bytes Level2_content (Nested s))) 0) = Some (Ret r3)"
    "structToStruct Level2Reader_ToStruct r3 = Some (Ret (norm_ptr Level2_content Level2_norm (Nested s), r3'))"
    using x3 by blast
  note x4 = m_Level2.repeatedStruct_ptr [OF h4, of "[]", unfolded append_Nil]
  obtain r4 r4' where e4:
    "repeatedStructReader (Level2Reader_Unmarshal NewLevel2Reader) (Some (NewReader d))
      (payload_offs (length (fields_bytes (opt_field (Id' s \<noteq> 0) (wireLevel1_Id, int32_val (Id' s)))) + length (fields_bytes (opt_field (Title s \<noteq> []) (wireLevel1_Title, WBytes (Title s)))) + length (fields_bytes (opt_field (Nested s \<noteq> None) (wireLevel1_Nested, WBytes (ptr_bytes Level2_content (Nested s)))))) (bytes_fields wireLevel1_Items (map (ptr_bytes Level2_content) (Items s)))) [] = Some (Ret r4)"
    "repeatedToStruct Level2Reader_ToStruct r4 = Some (Ret (map (norm_ptr Level2_content Level2_norm) (Items s), r4'))"
    using x4 by blast
  show ?thesis
    by (simp add: Level1Reader_Unmarshal_def u(1) Level1_run_save Let_def NewLevel1Reader_def Level1Reader_ToStruct_def
      Level1_getters getter_def lazyRead_def Level1_norm_def
      int32_opt [OF h1] string_reads(1) [OF h2] e3 e4 float64_opt [OF h5] del: not_None_eq)
qed

interpretation m_Level1: message_codec Level1_content Level1_norm Level1_XXX_PbContentSize Level1_MarshalTo
  "Level1Reader_Unmarshal NewLevel1Reader" Level1Reader_ToStruct
proof
  show "Level1_XXX_PbContentSize x = int (length (ptr_bytes Level1_content x))" for x
    by (cases x) (simp_all add: ptr_bytes_def Level1_size, simp add: Level1_XXX_PbContentSize_def)
  show "Level1_MarshalTo w x = writeBytes w (ptr_bytes Level1_content x)" if "wf_writer w" for w x
    using that Level1_writes
    by (cases x) (simp_all add: ptr_bytes_def writes_def, simp add: Level1_MarshalTo_def)
qed (rule Level1_decode)

end
