(* ===== verification/DeepNested_Message.thy ===== *)
theory DeepNested_Message
  imports Level1_Message
begin

text \<open>
  The message type \<^verbatim>\<open>DeepNested\<close> of
  \<^verbatim>\<open>src/shared/gremlin_go/bench/gremlin_pb/benchmark/benchmark.pb2.go\<close>: its lazy
  reader, its struct, and the proof that they satisfy \<open>message_codec\<close>. A pointer receiver
  is an option; a reader that fills its caches is returned with its new state.
\<close>

section \<open>The reader\<close>

definition wireDeepNested_RootId :: ProtoWireNumber where "wireDeepNested_RootId = 1"
definition wireDeepNested_RootName :: ProtoWireNumber where "wireDeepNested_RootName = 2"
definition wireDeepNested_Nested :: ProtoWireNumber where "wireDeepNested_Nested = 3"
definition wireDeepNested_Items :: ProtoWireNumber where "wireDeepNested_Items = 4"
definition wireDeepNested_Active :: ProtoWireNumber where "wireDeepNested_Active = 5"
definition wireDeepNested_Tags :: ProtoWireNumber where "wireDeepNested_Tags = 6"

lemmas wireDeepNested = wireDeepNested_RootId_def wireDeepNested_RootName_def wireDeepNested_Nested_def wireDeepNested_Items_def wireDeepNested_Active_def wireDeepNested_Tags_def

record DeepNestedReader =
  mbuf :: "Reader option"
  dataRootId :: int32
  dataRootName :: gostring
  dataNested :: "Level1Reader option"
  dataItems :: "Level1Reader option list"
  dataActive :: bool
  dataTags :: "gostring list"
  offsetRootId :: int
  offsetRootName :: int
  offsetNested :: int
  offsetItems :: "int list"
  offsetActive :: int
  offsetTags :: "int list"
  parsedRootId :: bool
  parsedRootName :: bool
  parsedNested :: bool
  parsedItems :: bool
  parsedActive :: bool
  parsedTags :: bool

definition NewDeepNestedReader :: DeepNestedReader where
  "NewDeepNestedReader = \<lparr>mbuf = None, dataRootId = 0, dataRootName = [], dataNested = None,
     dataItems = [], dataActive = False, dataTags = [], offsetRootId = 0,
     offsetRootName = 0, offsetNested = 0, offsetItems = [], offsetActive = 0,
     offsetTags = [], parsedRootId = False, parsedRootName = False,
     parsedNested = False, parsedItems = False, parsedActive = False,
     parsedTags = False\<rparr>"

definition DeepNestedReader_readRootId :: "DeepNestedReader \<Rightarrow> (int32 \<times> DeepNestedReader) run" where
  "DeepNestedReader_readRootId m =
     lazyRead (parsedRootId m) (dataRootId m)
       (Some (entryReader ReadInt32 0 (mbuf m) (offsetRootId m)))
       (\<lambda>entry. m\<lparr>dataRootId := entry, parsedRootId := True\<rparr>) m"

definition DeepNestedReader_GetRootId ::
  "DeepNestedReader option \<Rightarrow> (int32 \<times> DeepNestedReader option) run" where
  "DeepNestedReader_GetRootId = getter DeepNestedReader_readRootId 0"

definition DeepNestedReader_readRootName :: "DeepNestedReader \<Rightarrow> (gostring \<times> DeepNestedReader) run" where
  "DeepNestedReader_readRootName m =
     lazyRead (parsedRootName m) (dataRootName m)
       (Some (entryReader ReadString [] (mbuf m) (offsetRootName m)))
       (\<lambda>entry. m\<lparr>dataRootName := entry, parsedRootName := True\<rparr>) m"

definition DeepNestedReader_GetRootName ::
  "DeepNestedReader option \<Rightarrow> (gostring \<times> DeepNestedReader option) run" where
  "DeepNestedReader_GetRootName = getter DeepNestedReader_readRootName []"

definition DeepNestedReader_readNested :: "DeepNestedReader \<Rightarrow> (Level1Reader option \<times> DeepNestedReader) run" where
  "DeepNestedReader_readNested m =
     lazyRead (parsedNested m) (dataNested m)
       (structReader (Level1Reader_Unmarshal NewLevel1Reader) (mbuf m) (offsetNested m))
       (\<lambda>entry. m\<lparr>dataNested := entry, parsedNested := True\<rparr>) m"

definition DeepNestedReader_GetNested ::
  "DeepNestedReader option \<Rightarrow> (Level1Reader option \<times> DeepNestedReader option) run" where
  "DeepNestedReader_GetNested = getter DeepNestedReader_readNested None"

definition DeepNestedReader_readItems :: "DeepNestedReader \<Rightarrow> (Level1Reader option list \<times> DeepNestedReader) run" where
  "DeepNestedReader_readItems m =
     lazyRead (parsedItems m) (dataItems m)
       (repeatedStructReader (Level1Reader_Unmarshal NewLevel1Reader) (mbuf m) (offsetItems m) [])
       (\<lambda>entry. m\<lparr>dataItems := entry, parsedItems := True\<rparr>) m"

definition DeepNestedReader_GetItems ::
  "DeepNestedReader option \<Rightarrow> (Level1Reader option list \<times> DeepNestedReader option) run" where
  "DeepNestedReader_GetItems = getter DeepNestedReader_readItems []"

definition DeepNestedReader_readActive :: "DeepNestedReader \<Rightarrow> (bool \<times> DeepNestedReader) run" where
  "DeepNestedReader_readActive m =
     lazyRead (parsedActive m) (dataActive m)
       (Some (entryReader ReadBool False (mbuf m) (offsetActive m)))
       (\<lambda>entry. m\<lparr>dataActive := entry, parsedActive := True\<rparr>) m"

definition DeepNestedReader_GetActive ::
  "DeepNestedReader option \<Rightarrow> (bool \<times> DeepNestedReader option) run" where
  "DeepNestedReader_GetActive = getter DeepNestedReader_readActive False"

definition DeepNestedReader_readTags :: "DeepNestedReader \<Rightarrow> (gostring list \<times> DeepNestedReader) run" where
  "DeepNestedReader_readTags m =
     lazyRead (parsedTags m) (dataTags m)
       (Some (repeatedReader ReadString [] (mbuf m) (offsetTags m) []))
       (\<lambda>entry. m\<lparr>dataTags := entry, parsedTags := True\<rparr>) m"

definition DeepNestedReader_GetTags ::
  "DeepNestedReader option \<Rightarrow> (gostring list \<times> DeepNestedReader option) run" where
  "DeepNestedReader_GetTags = getter DeepNestedReader_readTags []"

lemmas DeepNested_getters = DeepNestedReader_readRootId_def DeepNestedReader_GetRootId_def
  DeepNestedReader_readRootName_def DeepNestedReader_GetRootName_def
  DeepNestedReader_readNested_def DeepNestedReader_GetNested_def
  DeepNestedReader_readItems_def DeepNestedReader_GetItems_def
  DeepNestedReader_readActive_def DeepNestedReader_GetActive_def
  DeepNestedReader_readTags_def DeepNestedReader_GetTags_def

text \<open>The \<^verbatim>\<open>switch\<close> on the tag, and the loop around it.\<close>

definition DeepNestedReader_save ::
  "ProtoWireNumber \<Rightarrow> ProtoWireType \<Rightarrow> int \<Rightarrow> DeepNestedReader \<Rightarrow> DeepNestedReader" where
  "DeepNestedReader_save tag wire offset m =
     (if tag = wireDeepNested_RootId then m\<lparr>offsetRootId := offset\<rparr>
      else if tag = wireDeepNested_RootName then m\<lparr>offsetRootName := offset\<rparr>
      else if tag = wireDeepNested_Nested then m\<lparr>offsetNested := offset\<rparr>
      else if tag = wireDeepNested_Items then m\<lparr>offsetItems := offsetItems m @ [offset]\<rparr>
      else if tag = wireDeepNested_Active then m\<lparr>offsetActive := offset\<rparr>
      else if tag = wireDeepNested_Tags then m\<lparr>offsetTags := offsetTags m @ [offset]\<rparr>
      else m)"

definition DeepNestedReader_Unmarshal ::
  "DeepNestedReader \<Rightarrow> gslice \<Rightarrow> (DeepNestedReader \<times> string option) run" where
  "DeepNestedReader_Unmarshal m data =
     unmarshalLoop DeepNestedReader_save (NewReader data) 0 (m\<lparr>mbuf := Some (NewReader data)\<rparr>)"

definition DeepNestedReader_SourceBytes :: "DeepNestedReader option \<Rightarrow> gslice" where
  "DeepNestedReader_SourceBytes s = (case s of None \<Rightarrow> nil_slice | Some r \<Rightarrow> Bytes (mbuf r))"

section \<open>The struct\<close>

record DeepNested =
  RootId :: int32
  RootName :: gostring
  Nested :: "Level1 option"
  Items :: "Level1 option list"
  Active :: bool
  Tags :: "gostring list"

definition DeepNestedReader_ToStruct ::
  "DeepNestedReader option \<Rightarrow> (DeepNested option \<times> DeepNestedReader option) run" where
  "DeepNestedReader_ToStruct m =
     (case m of None \<Rightarrow> Some (Ret (None, None)) | Some _ \<Rightarrow>
      run_bind (DeepNestedReader_GetRootId m) (\<lambda>(vRootId, m).
      run_bind (DeepNestedReader_GetRootName m) (\<lambda>(vRootName, m).
      run_bind (DeepNestedReader_GetNested m) (\<lambda>(data, m).
      run_bind (structToStruct Level1Reader_ToStruct data) (\<lambda>(vNested, data').
      let m = map_option (\<lambda>r. r\<lparr>dataNested := data'\<rparr>) m in
      run_bind (DeepNestedReader_GetItems m) (\<lambda>(data, m).
      run_bind (repeatedToStruct Level1Reader_ToStruct data) (\<lambda>(vItems, data').
      let m = map_option (\<lambda>r. r\<lparr>dataItems := data'\<rparr>) m in
      run_bind (DeepNestedReader_GetActive m) (\<lambda>(vActive, m).
      run_bind (DeepNestedReader_GetTags m) (\<lambda>(vTags, m).
      Some (Ret (Some \<lparr>RootId = vRootId, RootName = vRootName, Nested = vNested, Items = vItems, Active = vActive, Tags = vTags\<rparr>, m)))))))))))"

definition DeepNested_MarshalTo :: "Writer \<Rightarrow> DeepNested option \<Rightarrow> Writer go" where
  "DeepNested_MarshalTo res s =
     (case s of None \<Rightarrow> Ret res | Some s \<Rightarrow>
      go_bind (if RootId s \<noteq> 0 then AppendInt32 res wireDeepNested_RootId (RootId s) else Ret res) (\<lambda>res.
      go_bind (if RootName s \<noteq> [] then AppendString res wireDeepNested_RootName (RootName s) else Ret res) (\<lambda>res.
      go_bind (if Nested s \<noteq> None then 
        structWriter Level1_XXX_PbContentSize Level1_MarshalTo res wireDeepNested_Nested (Nested s) else Ret res) (\<lambda>res.
      go_bind (if Items s \<noteq> [] then 
        repeatedWriter (structWriter Level1_XXX_PbContentSize Level1_MarshalTo) res wireDeepNested_Items (Items s) else Ret res) (\<lambda>res.
      go_bind (if Active s then AppendBool res wireDeepNested_Active (Active s) else Ret res) (\<lambda>res.
      (if Tags s \<noteq> [] then repeatedWriter AppendString res wireDeepNested_Tags (Tags s) else Ret res)))))))"

definition DeepNested_XXX_PbContentSize :: "DeepNested option \<Rightarrow> int" where
  "DeepNested_XXX_PbContentSize s =
     (case s of None \<Rightarrow> 0 | Some s \<Rightarrow>
      (if RootId s \<noteq> 0 then sizeWithTag SizeInt32 wireDeepNested_RootId (RootId s) else 0) +
      (if RootName s \<noteq> [] then sizeDelimitedWithTag SizeString wireDeepNested_RootName (RootName s) else 0) +
      (if Nested s \<noteq> None then sizeDelimitedWithTag Level1_XXX_PbContentSize wireDeepNested_Nested (Nested s) else 0) +
      (if Items s \<noteq> [] then 
        repeatedSize (sizeDelimitedWithTag Level1_XXX_PbContentSize wireDeepNested_Items) (Items s) else 0) +
      (if Active s then sizeWithTag SizeBool wireDeepNested_Active (Active s) else 0) +
      (if Tags s \<noteq> [] then repeatedSize (sizeDelimitedWithTag SizeString wireDeepNested_Tags) (Tags s) else 0))"

definition DeepNested_Marshal :: "DeepNested option \<Rightarrow> byte list go" where
  "DeepNested_Marshal = marshalWith DeepNested_XXX_PbContentSize DeepNested_MarshalTo"

definition DeepNested_Copy :: "DeepNested option \<Rightarrow> DeepNested option" where
  "DeepNested_Copy s =
     (case s of None \<Rightarrow> None | Some s \<Rightarrow> Some \<lparr>
        RootId = RootId s,
        RootName = RootName s,
        Nested = (case Nested s of None \<Rightarrow> None | Some x \<Rightarrow> Level1_Copy (Some x)),
        Items = map (\<lambda>e. case e of None \<Rightarrow> None | Some x \<Rightarrow> Level1_Copy (Some x)) (Items s),
        Active = Active s,
        Tags = Tags s\<rparr>)"

section \<open>Its wire content, and what a round trip keeps\<close>

definition DeepNested_content :: "DeepNested \<Rightarrow> wfield list" where
  "DeepNested_content s =
     opt_field (RootId s \<noteq> 0) (wireDeepNested_RootId, int32_val (RootId s)) @
     opt_field (RootName s \<noteq> []) (wireDeepNested_RootName, WBytes (RootName s)) @
     opt_field (Nested s \<noteq> None) (wireDeepNested_Nested, WBytes (ptr_bytes Level1_content (Nested s))) @
     bytes_fields wireDeepNested_Items (map (ptr_bytes Level1_content) (Items s)) @
     opt_field (Active s) (wireDeepNested_Active, bool_val (Active s)) @
     bytes_fields wireDeepNested_Tags (Tags s)"

definition DeepNested_norm :: "DeepNested \<Rightarrow> DeepNested" where
  "DeepNested_norm s = s\<lparr>Nested := norm_ptr Level1_content Level1_norm (Nested s),
     Items := map (norm_ptr Level1_content Level1_norm) (Items s)\<rparr>"

lemma DeepNested_writes: "writes (\<lambda>w. DeepNested_MarshalTo w (Some s)) (fields_bytes (DeepNested_content s))"
  unfolding DeepNested_MarshalTo_def DeepNested_content_def fields_bytes_simps option.case
  by (intro writes_intros m_Level1.writes_struct m_Level1.writes_structs) (simp_all add: packed_fields_def bytes_fields_def)

lemma DeepNested_size: "DeepNested_XXX_PbContentSize (Some s) = int (length (fields_bytes (DeepNested_content s)))"
  unfolding DeepNested_XXX_PbContentSize_def DeepNested_content_def option.case
  by (simp add: int32_size size_bytes float64_size bool_size size_strings m_Level1.structSize_ptr m_Level1.repeatedStructSize_ptr length_opt length_list bytes_fields_Nil packed_fields_Nil del: not_None_eq)

lemma DeepNested_wf: "list_all wf_field (DeepNested_content s)"
  by (simp add: DeepNested_content_def packed_fields_def wf_field_def valid_tag_def wireDeepNested)

lemma DeepNested_run_save:
  "run_save DeepNestedReader_save k (DeepNested_content s) m = (
     let o1 = k;
     o2 = o1 + length (fields_bytes (opt_field (RootId s \<noteq> 0) (wireDeepNested_RootId, int32_val (RootId s))));
     o3 = o2 + length (fields_bytes (opt_field (RootName s \<noteq> []) (wireDeepNested_RootName, WBytes (RootName s))));
     o4 = o3 + length (fields_bytes (opt_field (Nested s \<noteq> None) (wireDeepNested_Nested, WBytes (ptr_bytes Level1_content (Nested s)))));
     o5 = o4 + length (fields_bytes (bytes_fields wireDeepNested_Items (map (ptr_bytes Level1_content) (Items s))));
     o6 = o5 + length (fields_bytes (opt_field (Active s) (wireDeepNested_Active, bool_val (Active s))))
     in m\<lparr>
       offsetRootId := opt_off (RootId s \<noteq> 0) o1 (wireDeepNested_RootId, int32_val (RootId s)) (offsetRootId m),
       offsetRootName := opt_off (RootName s \<noteq> []) o2 (wireDeepNested_RootName, WBytes (RootName s)) (offsetRootName m),
       offsetNested := opt_off (Nested s \<noteq> None) o3 (wireDeepNested_Nested, WBytes (ptr_bytes Level1_content (Nested s))) (offsetNested m),
       offsetItems := offsetItems m @ payload_offs o4 (bytes_fields wireDeepNested_Items (map (ptr_bytes Level1_content) (Items s))),
       offsetActive := opt_off (Active s) o5 (wireDeepNested_Active, bool_val (Active s)) (offsetActive m),
       offsetTags := offsetTags m @ payload_offs o6 (bytes_fields wireDeepNested_Tags (Tags s))\<rparr>)"
proof -
  have 1: "run_save DeepNestedReader_save k (opt_field (RootId s \<noteq> 0) (wireDeepNested_RootId, int32_val (RootId s))) m =
      m\<lparr>offsetRootId := opt_off (RootId s \<noteq> 0) k (wireDeepNested_RootId, int32_val (RootId s)) (offsetRootId m)\<rparr>" for k m
    by (simp add: run_save_opt opt_off_def DeepNestedReader_save_def wireDeepNested)
  have 2: "run_save DeepNestedReader_save k (opt_field (RootName s \<noteq> []) (wireDeepNested_RootName, WBytes (RootName s))) m =
      m\<lparr>offsetRootName := opt_off (RootName s \<noteq> []) k (wireDeepNested_RootName, WBytes (RootName s)) (offsetRootName m)\<rparr>" for k m
    by (simp add: run_save_opt opt_off_def DeepNestedReader_save_def wireDeepNested)
  have 3: "run_save DeepNestedReader_save k (opt_field (Nested s \<noteq> None) (wireDeepNested_Nested, WBytes (ptr_bytes Level1_content (Nested s)))) m =
      m\<lparr>offsetNested := opt_off (Nested s \<noteq> None) k (wireDeepNested_Nested, WBytes (ptr_bytes Level1_content (Nested s))) (offsetNested m)\<rparr>" for k m
    by (simp add: run_save_opt opt_off_def DeepNestedReader_save_def wireDeepNested)
  have 4: "run_save DeepNestedReader_save k (bytes_fields wireDeepNested_Items (map (ptr_bytes Level1_content) (Items s))) m =
      m\<lparr>offsetItems := offsetItems m @ payload_offs k (bytes_fields wireDeepNested_Items (map (ptr_bytes Level1_content) (Items s)))\<rparr>" for k m
    by (subst run_save_bytes [where upd = offsetItems_update]) (simp_all add: DeepNestedReader_save_def wireDeepNested)
  have 5: "run_save DeepNestedReader_save k (opt_field (Active s) (wireDeepNested_Active, bool_val (Active s))) m =
      m\<lparr>offsetActive := opt_off (Active s) k (wireDeepNested_Active, bool_val (Active s)) (offsetActive m)\<rparr>" for k m
    by (simp add: run_save_opt opt_off_def DeepNestedReader_save_def wireDeepNested)
  have 6: "run_save DeepNestedReader_save k (bytes_fields wireDeepNested_Tags (Tags s)) m =
      m\<lparr>offsetTags := offsetTags m @ payload_offs k (bytes_fields wireDeepNested_Tags (Tags s))\<rparr>" for k m
    by (subst run_save_bytes [where upd = offsetTags_update]) (simp_all add: DeepNestedReader_save_def wireDeepNested)
  show ?thesis by (simp add: DeepNested_content_def Let_def 1 2 3 4 5 6 add.assoc del: not_None_eq)
qed

lemma DeepNested_decode:
  assumes "elems d = fields_bytes (DeepNested_content s)" and "slen d + 10 < 2 ^ 63"
  shows "\<exists>r r'. DeepNestedReader_Unmarshal NewDeepNestedReader d = Some (Ret (r, None)) \<and>
    DeepNestedReader_ToStruct (Some r) = Some (Ret (Some (DeepNested_norm s), Some r'))"
proof -
  note u = unmarshal_content [OF assms DeepNested_wf]
  note h = u(2) [unfolded DeepNested_content_def fields_bytes_simps holds_at_append add_0]
  note h1 = h [THEN conjunct1]
  note h2 = h [THEN conjunct2, THEN conjunct1]
  note h3 = h [THEN conjunct2, THEN conjunct2, THEN conjunct1]
  note h4 = h [THEN conjunct2, THEN conjunct2, THEN conjunct2, THEN conjunct1]
  note h5 = h [THEN conjunct2, THEN conjunct2, THEN conjunct2, THEN conjunct2, THEN conjunct1]
  note h6 = h [THEN conjunct2, THEN conjunct2, THEN conjunct2, THEN conjunct2, THEN conjunct2]
  note x3 = m_Level1.struct_opt [OF h3]
  obtain r3 r3' where e3:
    "structReader (Level1Reader_Unmarshal NewLevel1Reader) (Some (NewReader d))
      (opt_off (Nested s \<noteq> None) (length (fields_bytes (opt_field (RootId s \<noteq> 0) (wireDeepNested_RootId, int32_val (RootId s)))) + length (fields_bytes (opt_field (RootName s \<noteq> []) (wireDeepNested_RootName, WBytes (RootName s))))) (wireDeepNested_Nested, WBytes (ptr_bytes Level1_content (Nested s))) 0) = Some (Ret r3)"
    "structToStruct Level1Reader_ToStruct r3 = Some (Ret (norm_ptr Level1_content Level1_norm (Nested s), r3'))"
    using x3 by blast
  note x4 = m_Level1.repeatedStruct_ptr [OF h4, of "[]", unfolded append_Nil]
  obtain r4 r4' where e4:
    "repeatedStructReader (Level1Reader_Unmarshal NewLevel1Reader) (Some (NewReader d))
      (payload_offs (length (fields_bytes (opt_field (RootId s \<noteq> 0) (wireDeepNested_RootId, int32_val (RootId s)))) + length (fields_bytes (opt_field (RootName s \<noteq> []) (wireDeepNested_RootName, WBytes (RootName s)))) + length (fields_bytes (opt_field (Nested s \<noteq> None) (wireDeepNested_Nested, WBytes (ptr_bytes Level1_content (Nested s)))))) (bytes_fields wireDeepNested_Items (map (ptr_bytes Level1_content) (Items s)))) [] = Some (Ret r4)"
    "repeatedToStruct Level1Reader_ToStruct r4 = Some (Ret (map (norm_ptr Level1_content Level1_norm) (Items s), r4'))"
    using x4 by blast
  show ?thesis
    by (simp add: DeepNestedReader_Unmarshal_def u(1) DeepNested_run_save Let_def NewDeepNestedReader_def DeepNestedReader_ToStruct_def
      DeepNested_getters getter_def lazyRead_def DeepNested_norm_def
      int32_opt [OF h1] string_reads(1) [OF h2] e3 e4 bool_opt [OF h5] string_reads(2) [OF h6] del: not_None_eq)
qed

interpretation m_DeepNested: message_codec DeepNested_content DeepNested_norm DeepNested_XXX_PbContentSize DeepNested_MarshalTo
  "DeepNestedReader_Unmarshal NewDeepNestedReader" DeepNestedReader_ToStruct
proof
  show "DeepNested_XXX_PbContentSize x = int (length (ptr_bytes DeepNested_content x))" for x
    by (cases x) (simp_all add: ptr_bytes_def DeepNested_size, simp add: DeepNested_XXX_PbContentSize_def)
  show "DeepNested_MarshalTo w x = writeBytes w (ptr_bytes DeepNested_content x)" if "wf_writer w" for w x
    using that DeepNested_writes
    by (cases x) (simp_all add: ptr_bytes_def writes_def, simp add: DeepNested_MarshalTo_def)
qed (rule DeepNested_decode)

end
