(* ===== verification/Benchmark_Data.thy ===== *)
theory Benchmark_Data
  imports DeepNested_Message
begin

text \<open>
  The nested message that the benchmarks of \<^verbatim>\<open>src/shared/gremlin_go/bench/bench_data.go\<close> write and read. Floats are
  given by their bits.
\<close>

definition CreateDeepNestedGremlin :: "DeepNested option" where
  "CreateDeepNestedGremlin = Some \<lparr>DeepNested.RootId = 1,
    RootName = bytes_of ''root_node_with_complex_nested_structure'',
    Nested = (Some \<lparr>Level1.Id' = 10,
      Title = bytes_of ''level1_primary_branch'',
      Nested = (Some \<lparr>Level2.Id' = 20,
        Description = bytes_of ''level2_deeply_nested_with_payload'',
        Nested = (Some \<lparr>Level3.Id' = 30,
          Name = bytes_of ''level3_inner_structure'',
          Nested = (Some \<lparr>Level4.Value = 40,
            Data = bytes_of ''level4_leaf_node_with_data'',
            Numbers = [1, 2, 3, 4, 5, 6, 7, 8, 9, 10, 11, 12, 13, 14, 15]\<rparr>),
          Items = [Some \<lparr>Level4.Value = 41,
            Data = bytes_of ''item1_with_numbers'',
            Numbers = [10, 20, 30, 40, 50]\<rparr>,
            Some \<lparr>Level4.Value = 42,
            Data = bytes_of ''item2_with_numbers'',
            Numbers = [60, 70, 80, 90, 100]\<rparr>,
            Some \<lparr>Level4.Value = 43,
            Data = bytes_of ''item3_with_numbers'',
            Numbers = [110, 120, 130, 140, 150]\<rparr>,
            Some \<lparr>Level4.Value = 44,
            Data = bytes_of ''item4_with_numbers'',
            Numbers = [160, 170, 180, 190, 200]\<rparr>,
            Some \<lparr>Level4.Value = 45,
            Data = bytes_of ''item5_with_numbers'',
            Numbers = [210, 220, 230, 240, 250]\<rparr>]\<rparr>),
        Items = [Some \<lparr>Level3.Id' = 31,
          Name = bytes_of ''item1_nested'',
          Nested = (Some \<lparr>Level4.Value = 310,
            Data = bytes_of ''nested_item1_data'',
            Numbers = [1, 2, 3, 4, 5]\<rparr>),
          Items = [Some \<lparr>Level4.Value = 311,
            Data = bytes_of ''sub1'',
            Numbers = [1, 2]\<rparr>,
            Some \<lparr>Level4.Value = 312,
            Data = bytes_of ''sub2'',
            Numbers = [3, 4]\<rparr>]\<rparr>,
          Some \<lparr>Level3.Id' = 32,
          Name = bytes_of ''item2_nested'',
          Nested = (Some \<lparr>Level4.Value = 320,
            Data = bytes_of ''nested_item2_data'',
            Numbers = [6, 7, 8, 9, 10]\<rparr>),
          Items = [Some \<lparr>Level4.Value = 321,
            Data = bytes_of ''sub3'',
            Numbers = [5, 6]\<rparr>,
            Some \<lparr>Level4.Value = 322,
            Data = bytes_of ''sub4'',
            Numbers = [7, 8]\<rparr>]\<rparr>,
          Some \<lparr>Level3.Id' = 33,
          Name = bytes_of ''item3_nested'',
          Nested = (Some \<lparr>Level4.Value = 330,
            Data = bytes_of ''nested_item3_data'',
            Numbers = [11, 12, 13, 14, 15]\<rparr>),
          Items = []\<rparr>,
          Some \<lparr>Level3.Id' = 34,
          Name = bytes_of ''item4_nested'',
          Nested = (Some \<lparr>Level4.Value = 340,
            Data = bytes_of ''nested_item4_data'',
            Numbers = [16, 17, 18, 19, 20]\<rparr>),
          Items = []\<rparr>],
        Payload = bytes_of ''this is a much longer payload with more realistic data content that would be found in production systems''\<rparr>),
      Items = [Some \<lparr>Level2.Id' = 21,
        Description = bytes_of ''item1_level2_with_payload'',
        Nested = (Some \<lparr>Level3.Id' = 210,
          Name = bytes_of ''nested_in_item1'',
          Nested = (Some \<lparr>Level4.Value = 2100,
            Data = bytes_of ''deep_nested'',
            Numbers = [100, 200, 300]\<rparr>),
          Items = []\<rparr>),
        Items = [],
        Payload = bytes_of ''payload for item 1''\<rparr>,
        Some \<lparr>Level2.Id' = 22,
        Description = bytes_of ''item2_level2_with_payload'',
        Nested = (Some \<lparr>Level3.Id' = 220,
          Name = bytes_of ''nested_in_item2'',
          Nested = None,
          Items = []\<rparr>),
        Items = [],
        Payload = bytes_of ''payload for item 2 with more data''\<rparr>,
        Some \<lparr>Level2.Id' = 23,
        Description = bytes_of ''item3_level2_with_payload'',
        Nested = None,
        Items = [],
        Payload = bytes_of ''payload for item 3''\<rparr>,
        Some \<lparr>Level2.Id' = 24,
        Description = bytes_of ''item4_level2_with_payload'',
        Nested = None,
        Items = [],
        Payload = bytes_of ''payload for item 4 with additional content''\<rparr>],
      Score = 0x3FF3C0CA4283DE1B\<rparr>),
    Items = [Some \<lparr>Level1.Id' = 11,
      Title = bytes_of ''item1_top_level'',
      Nested = (Some \<lparr>Level2.Id' = 110,
        Description = bytes_of ''nested_in_top_item1'',
        Nested = (Some \<lparr>Level3.Id' = 1100,
          Name = bytes_of ''deeply_nested_top_item1'',
          Nested = None,
          Items = []\<rparr>),
        Items = [],
        Payload = bytes_of ''some payload data''\<rparr>),
      Items = [],
      Score = 0x4002B851EB851EB8\<rparr>,
      Some \<lparr>Level1.Id' = 12,
      Title = bytes_of ''item2_top_level'',
      Nested = (Some \<lparr>Level2.Id' = 120,
        Description = bytes_of ''nested_in_top_item2'',
        Nested = None,
        Items = [],
        Payload = bytes_of ''more payload data here''\<rparr>),
      Items = [],
      Score = 0x400B99999999999A\<rparr>,
      Some \<lparr>Level1.Id' = 13,
      Title = bytes_of ''item3_top_level'',
      Nested = None,
      Items = [],
      Score = 0x40123D70A3D70A3D\<rparr>,
      Some \<lparr>Level1.Id' = 14,
      Title = bytes_of ''item4_top_level'',
      Nested = (Some \<lparr>Level2.Id' = 140,
        Description = bytes_of ''nested_in_top_item4'',
        Nested = None,
        Items = [],
        Payload = bytes_of ''final payload data''\<rparr>),
      Items = [],
      Score = 0x4016AE147AE147AE\<rparr>,
      Some \<lparr>Level1.Id' = 15,
      Title = bytes_of ''item5_top_level'',
      Nested = None,
      Items = [],
      Score = 0x401B1EB851EB851F\<rparr>],
    Active = True,
    Tags = [bytes_of ''tag1'', bytes_of ''tag2'', bytes_of ''tag3'', bytes_of ''tag4'', bytes_of ''tag5'', bytes_of ''tag6'', bytes_of ''tag7'', bytes_of ''tag8'']\<rparr>"

text \<open>The message has no empty submessages and no negative zero, so a round trip returns it unchanged; it takes
  less than two thousand bytes.\<close>

lemma benchmark_norm: "map_option DeepNested_norm CreateDeepNestedGremlin = CreateDeepNestedGremlin"
  by (simp add: CreateDeepNestedGremlin_def DeepNested_norm_def Level1_norm_def Level2_norm_def Level3_norm_def norm_ptr_def
      Level1_content_def Level2_content_def Level3_content_def Level4_content_def opt_field_def float64_norm_def float64_is_zero_def
      Level4_norm_def)

lemma benchmark_size: "DeepNested_XXX_PbContentSize CreateDeepNestedGremlin < 2000"
  by code_simp

end
