(* ===== verification/FlatMessage_Message.thy ===== *)
theory FlatMessage_Message
  imports Message_Codec
begin

text \<open>
  The message type \<^verbatim>\<open>FlatMessage\<close> of
  \<^verbatim>\<open>src/shared/gremlin_go/bench/gremlin_pb/benchmark/benchmark.pb2.go\<close>: its lazy
  reader, its struct, and the proof that they satisfy \<open>message_codec\<close>. A pointer receiver
  is an option; a reader that fills its caches is returned with its new state.
\<close>

section \<open>The reader\<close>

definition wireFlatMessage_Id :: ProtoWireNumber where "wireFlatMessage_Id = 1"
definition wireFlatMessage_Name :: ProtoWireNumber where "wireFlatMessage_Name = 2"
definition wireFlatMessage_Value :: ProtoWireNumber where "wireFlatMessage_Value = 3"
definition wireFlatMessage_Score :: ProtoWireNumber where "wireFlatMessage_Score = 4"
definition wireFlatMessage_Numbers :: ProtoWireNumber where "wireFlatMessage_Numbers = 5"
definition wireFlatMessage_Tags :: ProtoWireNumber where "wireFlatMessage_Tags = 6"

lemmas wireFlatMessage = wireFlatMessage_Id_def wireFlatMessage_Name_def wireFlatMessage_Value_def wireFlatMessage_Score_def wireFlatMessage_Numbers_def wireFlatMessage_Tags_def

record FlatMessageReader =
  mbuf :: "Reader option"
  dataId :: int32
  dataName :: gostring
  dataValue :: int32
  dataScore :: float64
  dataNumbers :: "int32 list"
  dataTags :: "gostring list"
  offsetId :: int
  offsetName :: int
  offsetValue :: int
  offsetScore :: int
  offsetNumbers :: "int list"
  wireTypeNumbers :: "ProtoWireType list"
  offsetTags :: "int list"
  parsedId :: bool
  parsedName :: bool
  parsedValue :: bool
  parsedScore :: bool
  parsedNumbers :: bool
  parsedTags :: bool

definition NewFlatMessageReader :: FlatMessageReader where
  "NewFlatMessageReader = \<lparr>mbuf = None, dataId = 0, dataName = [], dataValue = 0, dataScore = 0,
     dataNumbers = [], dataTags = [], offsetId = 0, offsetName = 0,
     offsetValue = 0, offsetScore = 0, offsetNumbers = [], wireTypeNumbers = [],
     offsetTags = [], parsedId = False, parsedName = False, parsedValue = False,
     parsedScore = False, parsedNumbers = False, parsedTags = False\<rparr>"

definition FlatMessageReader_readId :: "FlatMessageReader \<Rightarrow> (int32 \<times> FlatMessageReader) run" where
  "FlatMessageReader_readId m =
     lazyRead (parsedId m) (dataId m)
       (Some (entryReader ReadInt32 0 (mbuf m) (offsetId m)))
       (\<lambda>entry. m\<lparr>dataId := entry, parsedId := True\<rparr>) m"

definition FlatMessageReader_GetId ::
  "FlatMessageReader option \<Rightarrow> (int32 \<times> FlatMessageReader option) run" where
  "FlatMessageReader_GetId = getter FlatMessageReader_readId 0"

definition FlatMessageReader_readName :: "FlatMessageReader \<Rightarrow> (gostring \<times> FlatMessageReader) run" where
  "FlatMessageReader_readName m =
     lazyRead (parsedName m) (dataName m)
       (Some (entryReader ReadString [] (mbuf m) (offsetName m)))
       (\<lambda>entry. m\<lparr>dataName := entry, parsedName := True\<rparr>) m"

definition FlatMessageReader_GetName ::
  "FlatMessageReader option \<Rightarrow> (gostring \<times> FlatMessageReader option) run" where
  "FlatMessageReader_GetName = getter FlatMessageReader_readName []"

definition FlatMessageReader_readValue :: "FlatMessageReader \<Rightarrow> (int32 \<times> FlatMessageReader) run" where
  "FlatMessageReader_readValue m =
     lazyRead (parsedValue m) (dataValue m)
       (Some (entryReader ReadInt32 0 (mbuf m) (offsetValue m)))
       (\<lambda>entry. m\<lparr>dataValue := entry, parsedValue := True\<rparr>) m"

definition FlatMessageReader_GetValue ::
  "FlatMessageReader option \<Rightarrow> (int32 \<times> FlatMessageReader option) run" where
  "FlatMessageReader_GetValue = getter FlatMessageReader_readValue 0"

definition FlatMessageReader_readScore :: "FlatMessageReader \<Rightarrow> (float64 \<times> FlatMessageReader) run" where
  "FlatMessageReader_readScore m =
     lazyRead (parsedScore m) (dataScore m)
       (Some (entryReader ReadFloat64 0 (mbuf m) (offsetScore m)))
       (\<lambda>entry. m\<lparr>dataScore := entry, parsedScore := True\<rparr>) m"

definition FlatMessageReader_GetScore ::
  "FlatMessageReader option \<Rightarrow> (float64 \<times> FlatMessageReader option) run" where
  "FlatMessageReader_GetScore = getter FlatMessageReader_readScore 0"

definition FlatMessageReader_readNumbers :: "FlatMessageReader \<Rightarrow> (int32 list \<times> FlatMessageReader) run" where
  "FlatMessageReader_readNumbers m =
     lazyRead (parsedNumbers m) (dataNumbers m)
       (packedReader ReadInt32 SizedReadInt32 0 (mbuf m) (offsetNumbers m) (wireTypeNumbers m) [])
       (\<lambda>entry. m\<lparr>dataNumbers := entry, parsedNumbers := True\<rparr>) m"

definition FlatMessageReader_GetNumbers ::
  "FlatMessageReader option \<Rightarrow> (int32 list \<times> FlatMessageReader option) run" where
  "FlatMessageReader_GetNumbers = getter FlatMessageReader_readNumbers []"

definition FlatMessageReader_readTags :: "FlatMessageReader \<Rightarrow> (gostring list \<times> FlatMessageReader) run" where
  "FlatMessageReader_readTags m =
     lazyRead (parsedTags m) (dataTags m)
       (Some (repeatedReader ReadString [] (mbuf m) (offsetTags m) []))
       (\<lambda>entry. m\<lparr>dataTags := entry, parsedTags := True\<rparr>) m"

definition FlatMessageReader_GetTags ::
  "FlatMessageReader option \<Rightarrow> (gostring list \<times> FlatMessageReader option) run" where
  "FlatMessageReader_GetTags = getter FlatMessageReader_readTags []"

lemmas FlatMessage_getters = FlatMessageReader_readId_def FlatMessageReader_GetId_def
  FlatMessageReader_readName_def FlatMessageReader_GetName_def
  FlatMessageReader_readValue_def FlatMessageReader_GetValue_def
  FlatMessageReader_readScore_def FlatMessageReader_GetScore_def
  FlatMessageReader_readNumbers_def FlatMessageReader_GetNumbers_def
  FlatMessageReader_readTags_def FlatMessageReader_GetTags_def

text \<open>The \<^verbatim>\<open>switch\<close> on the tag, and the loop around it.\<close>

definition FlatMessageReader_save ::
  "ProtoWireNumber \<Rightarrow> ProtoWireType \<Rightarrow> int \<Rightarrow> FlatMessageReader \<Rightarrow> FlatMessageReader" where
  "FlatMessageReader_save tag wire offset m =
     (if tag = wireFlatMessage_Id then m\<lparr>offsetId := offset\<rparr>
      else if tag = wireFlatMessage_Name then m\<lparr>offsetName := offset\<rparr>
      else if tag = wireFlatMessage_Value then m\<lparr>offsetValue := offset\<rparr>
      else if tag = wireFlatMessage_Score then m\<lparr>offsetScore := offset\<rparr>
      else if tag = wireFlatMessage_Numbers then 
        m\<lparr>offsetNumbers := offsetNumbers m @ [offset], wireTypeNumbers := wireTypeNumbers m @ [wire]\<rparr>
      else if tag = wireFlatMessage_Tags then m\<lparr>offsetTags := offsetTags m @ [offset]\<rparr>
      else m)"

definition FlatMessageReader_Unmarshal ::
  "FlatMessageReader \<Rightarrow> gslice \<Rightarrow> (FlatMessageReader \<times> string option) run" where
  "FlatMessageReader_Unmarshal m data =
     unmarshalLoop FlatMessageReader_save (NewReader data) 0 (m\<lparr>mbuf := Some (NewReader data)\<rparr>)"

definition FlatMessageReader_SourceBytes :: "FlatMessageReader option \<Rightarrow> gslice" where
  "FlatMessageReader_SourceBytes s = (case s of None \<Rightarrow> nil_slice | Some r \<Rightarrow> Bytes (mbuf r))"

section \<open>The struct\<close>

record FlatMessage =
  Id' :: int32
  Name :: gostring
  Value :: int32
  Score :: float64
  Numbers :: "int32 list"
  Tags :: "gostring list"

definition FlatMessageReader_ToStruct ::
  "FlatMessageReader option \<Rightarrow> (FlatMessage option \<times> FlatMessageReader option) run" where
  "FlatMessageReader_ToStruct m =
     (case m of None \<Rightarrow> Some (Ret (None, None)) | Some _ \<Rightarrow>
      run_bind (FlatMessageReader_GetId m) (\<lambda>(vId, m).
      run_bind (FlatMessageReader_GetName m) (\<lambda>(vName, m).
      run_bind (FlatMessageReader_GetValue m) (\<lambda>(vValue, m).
      run_bind (FlatMessageReader_GetScore m) (\<lambda>(vScore, m).
      run_bind (FlatMessageReader_GetNumbers m) (\<lambda>(vNumbers, m).
      run_bind (FlatMessageReader_GetTags m) (\<lambda>(vTags, m).
      Some (Ret (Some \<lparr>Id' = vId, Name = vName, Value = vValue, Score = vScore, Numbers = vNumbers, Tags = vTags\<rparr>, m)))))))))"

definition FlatMessage_MarshalTo :: "Writer \<Rightarrow> FlatMessage option \<Rightarrow> Writer go" where
  "FlatMessage_MarshalTo res s =
     (case s of None \<Rightarrow> Ret res | Some s \<Rightarrow>
      go_bind (if Id' s \<noteq> 0 then AppendInt32 res wireFlatMessage_Id (Id' s) else Ret res) (\<lambda>res.
      go_bind (if Name s \<noteq> [] then AppendString res wireFlatMessage_Name (Name s) else Ret res) (\<lambda>res.
      go_bind (if Value s \<noteq> 0 then AppendInt32 res wireFlatMessage_Value (Value s) else Ret res) (\<lambda>res.
      go_bind (if \<not> float64_is_zero (Score s) then AppendFloat64 res wireFlatMessage_Score (Score s) else Ret res) (\<lambda>res.
      go_bind (if Numbers s \<noteq> [] then 
        packedWriter AppendInt32WithoutTag AppendInt32 SizeInt32 res wireFlatMessage_Numbers (Numbers s) else Ret res) (\<lambda>res.
      (if Tags s \<noteq> [] then repeatedWriter AppendString res wireFlatMessage_Tags (Tags s) else Ret res)))))))"

definition FlatMessage_XXX_PbContentSize :: "FlatMessage option \<Rightarrow> int" where
  "FlatMessage_XXX_PbContentSize s =
     (case s of None \<Rightarrow> 0 | Some s \<Rightarrow>
      (if Id' s \<noteq> 0 then sizeWithTag SizeInt32 wireFlatMessage_Id (Id' s) else 0) +
      (if Name s \<noteq> [] then sizeDelimitedWithTag SizeString wireFlatMessage_Name (Name s) else 0) +
      (if Value s \<noteq> 0 then sizeWithTag SizeInt32 wireFlatMessage_Value (Value s) else 0) +
      (if \<not> float64_is_zero (Score s) then sizeWithTag SizeFloat64 wireFlatMessage_Score (Score s) else 0) +
      (if Numbers s \<noteq> [] then packedSize SizeInt32 wireFlatMessage_Numbers (Numbers s) else 0) +
      (if Tags s \<noteq> [] then repeatedSize (sizeDelimitedWithTag SizeString wireFlatMessage_Tags) (Tags s) else 0))"

definition FlatMessage_Marshal :: "FlatMessage option \<Rightarrow> byte list go" where
  "FlatMessage_Marshal = marshalWith FlatMessage_XXX_PbContentSize FlatMessage_MarshalTo"

definition FlatMessage_Copy :: "FlatMessage option \<Rightarrow> FlatMessage option" where
  "FlatMessage_Copy s =
     (case s of None \<Rightarrow> None | Some s \<Rightarrow> Some \<lparr>
        Id' = Id' s,
        Name = Name s,
        Value = Value s,
        Score = Score s,
        Numbers = Numbers s,
        Tags = Tags s\<rparr>)"

section \<open>Its wire content, and what a round trip keeps\<close>

definition FlatMessage_content :: "FlatMessage \<Rightarrow> wfield list" where
  "FlatMessage_content s =
     opt_field (Id' s \<noteq> 0) (wireFlatMessage_Id, int32_val (Id' s)) @
     opt_field (Name s \<noteq> []) (wireFlatMessage_Name, WBytes (Name s)) @
     opt_field (Value s \<noteq> 0) (wireFlatMessage_Value, int32_val (Value s)) @
     opt_field (\<not> float64_is_zero (Score s)) (wireFlatMessage_Score, WFixed64 (Score s)) @
     packed_fields int32_val wireFlatMessage_Numbers (Numbers s) @
     bytes_fields wireFlatMessage_Tags (Tags s)"

definition FlatMessage_norm :: "FlatMessage \<Rightarrow> FlatMessage" where
  "FlatMessage_norm s = s\<lparr>Score := float64_norm (Score s)\<rparr>"

lemma FlatMessage_writes: "writes (\<lambda>w. FlatMessage_MarshalTo w (Some s)) (fields_bytes (FlatMessage_content s))"
  unfolding FlatMessage_MarshalTo_def FlatMessage_content_def fields_bytes_simps option.case
  by (intro writes_intros) (simp_all add: packed_fields_def bytes_fields_def)

lemma FlatMessage_size: "FlatMessage_XXX_PbContentSize (Some s) = int (length (fields_bytes (FlatMessage_content s)))"
  unfolding FlatMessage_XXX_PbContentSize_def FlatMessage_content_def option.case
  by (simp add: int32_size size_bytes float64_size bool_size size_strings length_opt length_list bytes_fields_Nil packed_fields_Nil)

lemma FlatMessage_wf: "list_all wf_field (FlatMessage_content s)"
  by (simp add: FlatMessage_content_def packed_fields_def wf_field_def valid_tag_def wireFlatMessage)

lemma FlatMessage_run_save:
  "run_save FlatMessageReader_save k (FlatMessage_content s) m = (
     let o1 = k;
     o2 = o1 + length (fields_bytes (opt_field (Id' s \<noteq> 0) (wireFlatMessage_Id, int32_val (Id' s))));
     o3 = o2 + length (fields_bytes (opt_field (Name s \<noteq> []) (wireFlatMessage_Name, WBytes (Name s))));
     o4 = o3 + length (fields_bytes (opt_field (Value s \<noteq> 0) (wireFlatMessage_Value, int32_val (Value s))));
     o5 = o4 + length (fields_bytes (opt_field (\<not> float64_is_zero (Score s)) (wireFlatMessage_Score, WFixed64 (Score s))));
     o6 = o5 + length (fields_bytes (packed_fields int32_val wireFlatMessage_Numbers (Numbers s)))
     in m\<lparr>
       offsetId := opt_off (Id' s \<noteq> 0) o1 (wireFlatMessage_Id, int32_val (Id' s)) (offsetId m),
       offsetName := opt_off (Name s \<noteq> []) o2 (wireFlatMessage_Name, WBytes (Name s)) (offsetName m),
       offsetValue := opt_off (Value s \<noteq> 0) o3 (wireFlatMessage_Value, int32_val (Value s)) (offsetValue m),
       offsetScore := opt_off (\<not> float64_is_zero (Score s)) o4 (wireFlatMessage_Score, WFixed64 (Score s)) (offsetScore m),
       offsetNumbers := offsetNumbers m @ payload_offs o5 (packed_fields int32_val wireFlatMessage_Numbers (Numbers s)),
       wireTypeNumbers := wireTypeNumbers m @ map (\<lambda>f. wire_of (snd f)) (packed_fields int32_val wireFlatMessage_Numbers (Numbers s)),
       offsetTags := offsetTags m @ payload_offs o6 (bytes_fields wireFlatMessage_Tags (Tags s))\<rparr>)"
proof -
  have 1: "run_save FlatMessageReader_save k (opt_field (Id' s \<noteq> 0) (wireFlatMessage_Id, int32_val (Id' s))) m =
      m\<lparr>offsetId := opt_off (Id' s \<noteq> 0) k (wireFlatMessage_Id, int32_val (Id' s)) (offsetId m)\<rparr>" for k m
    by (simp add: run_save_opt opt_off_def FlatMessageReader_save_def wireFlatMessage)
  have 2: "run_save FlatMessageReader_save k (opt_field (Name s \<noteq> []) (wireFlatMessage_Name, WBytes (Name s))) m =
      m\<lparr>offsetName := opt_off (Name s \<noteq> []) k (wireFlatMessage_Name, WBytes (Name s)) (offsetName m)\<rparr>" for k m
    by (simp add: run_save_opt opt_off_def FlatMessageReader_save_def wireFlatMessage)
  have 3: "run_save FlatMessageReader_save k (opt_field (Value s \<noteq> 0) (wireFlatMessage_Value, int32_val (Value s))) m =
      m\<lparr>offsetValue := opt_off (Value s \<noteq> 0) k (wireFlatMessage_Value, int32_val (Value s)) (offsetValue m)\<rparr>" for k m
    by (simp add: run_save_opt opt_off_def FlatMessageReader_save_def wireFlatMessage)
  have 4: "run_save FlatMessageReader_save k (opt_field (\<not> float64_is_zero (Score s)) (wireFlatMessage_Score, WFixed64 (Score s))) m =
      m\<lparr>offsetScore := opt_off (\<not> float64_is_zero (Score s)) k (wireFlatMessage_Score, WFixed64 (Score s)) (offsetScore m)\<rparr>" for k m
    by (simp add: run_save_opt opt_off_def FlatMessageReader_save_def wireFlatMessage)
  have 5: "run_save FlatMessageReader_save k (packed_fields int32_val wireFlatMessage_Numbers (Numbers s)) m =
      m\<lparr>offsetNumbers := offsetNumbers m @ payload_offs k (packed_fields int32_val wireFlatMessage_Numbers (Numbers s)),
      wireTypeNumbers := wireTypeNumbers m @ map (\<lambda>f. wire_of (snd f)) (packed_fields int32_val wireFlatMessage_Numbers (Numbers s))\<rparr>" for k m
    by (simp add: packed_fields_def FlatMessageReader_save_def wireFlatMessage payload_off_def)
  have 6: "run_save FlatMessageReader_save k (bytes_fields wireFlatMessage_Tags (Tags s)) m =
      m\<lparr>offsetTags := offsetTags m @ payload_offs k (bytes_fields wireFlatMessage_Tags (Tags s))\<rparr>" for k m
    by (subst run_save_bytes [where upd = offsetTags_update]) (simp_all add: FlatMessageReader_save_def wireFlatMessage)
  show ?thesis by (simp add: FlatMessage_content_def Let_def 1 2 3 4 5 6 add.assoc)
qed

lemma FlatMessage_decode:
  assumes "elems d = fields_bytes (FlatMessage_content s)" and "slen d + 10 < 2 ^ 63"
  shows "\<exists>r r'. FlatMessageReader_Unmarshal NewFlatMessageReader d = Some (Ret (r, None)) \<and>
    FlatMessageReader_ToStruct (Some r) = Some (Ret (Some (FlatMessage_norm s), Some r'))"
proof -
  note u = unmarshal_content [OF assms FlatMessage_wf]
  note h = u(2) [unfolded FlatMessage_content_def fields_bytes_simps holds_at_append add_0]
  note h1 = h [THEN conjunct1]
  note h2 = h [THEN conjunct2, THEN conjunct1]
  note h3 = h [THEN conjunct2, THEN conjunct2, THEN conjunct1]
  note h4 = h [THEN conjunct2, THEN conjunct2, THEN conjunct2, THEN conjunct1]
  note h5 = h [THEN conjunct2, THEN conjunct2, THEN conjunct2, THEN conjunct2, THEN conjunct1]
  note h6 = h [THEN conjunct2, THEN conjunct2, THEN conjunct2, THEN conjunct2, THEN conjunct2]
  show ?thesis
    by (simp add: FlatMessageReader_Unmarshal_def u(1) FlatMessage_run_save Let_def NewFlatMessageReader_def FlatMessageReader_ToStruct_def
      FlatMessage_getters getter_def lazyRead_def FlatMessage_norm_def
      int32_opt [OF h1] string_reads(1) [OF h2] int32_opt [OF h3] float64_opt [OF h4] int32_packed [OF h5] string_reads(2) [OF h6])
qed

interpretation m_FlatMessage: message_codec FlatMessage_content FlatMessage_norm FlatMessage_XXX_PbContentSize FlatMessage_MarshalTo
  "FlatMessageReader_Unmarshal NewFlatMessageReader" FlatMessageReader_ToStruct
proof
  show "FlatMessage_XXX_PbContentSize x = int (length (ptr_bytes FlatMessage_content x))" for x
    by (cases x) (simp_all add: ptr_bytes_def FlatMessage_size, simp add: FlatMessage_XXX_PbContentSize_def)
  show "FlatMessage_MarshalTo w x = writeBytes w (ptr_bytes FlatMessage_content x)" if "wf_writer w" for w x
    using that FlatMessage_writes
    by (cases x) (simp_all add: ptr_bytes_def writes_def, simp add: FlatMessage_MarshalTo_def)
qed (rule FlatMessage_decode)

end
