(* ===== verification/Map_Fields.thy ===== *)
theory Map_Fields
  imports Message_Codec "HOL-Library.AList" "HOL-Library.Multiset"
begin

text \<open>
  The code that the template
  \<^verbatim>\<open>src/shared/gremlin_go/gremlinc/internal/generators/golang/fields/maps.go\<close> emits for a
  map field: its reader, its size and write loops, \<^verbatim>\<open>ToStruct\<close> and \<^verbatim>\<open>Copy\<close>. A Go map is an
  association list with distinct keys, in the order in which one \<^verbatim>\<open>range\<close> goes through it. Go
  leaves that order open, so what is shown holds for every list. A map that is nil and one
  that is empty are the same list: no code tells them apart.
\<close>

section \<open>The operations\<close>

text \<open>
  The loop over one entry. \<open>kread\<close> and \<open>vread\<close> are the sized reads of key and value. The error
  of \<^verbatim>\<open>ReadTagAt\<close> is dropped, and it returns zeros with it; so is the one of
  \<^verbatim>\<open>SkipData\<close>, which then returns offset 0.
\<close>

partial_function (option) mapEntryLoop ::
  "(Reader \<Rightarrow> int \<Rightarrow> ('k \<times> int) run) \<Rightarrow> (Reader \<Rightarrow> int \<Rightarrow> ('v \<times> int) run) \<Rightarrow> Reader \<Rightarrow> int \<Rightarrow> int \<Rightarrow>
   'k \<Rightarrow> 'v \<Rightarrow> ('k \<times> 'v) go option" where
  "mapEntryLoop kread vread p endOffset wOffset keyData valueData =
     (if wOffset < endOffset then
        (case (case ReadTagAt p wOffset of Err e \<Rightarrow> Ret (0, 0, 0) | r \<Rightarrow> r) of
           Err e \<Rightarrow> Some (Err e)
         | Panic \<Rightarrow> Some Panic
         | Ret (tag, wireType, tagSize) \<Rightarrow>
             if tag = 1 then
               Option.bind (kread p (iadd wOffset tagSize)) (\<lambda>r. case r of
                   Err e \<Rightarrow> Some (Err e)
                 | Panic \<Rightarrow> Some Panic
                 | Ret (keyEntry, keyEntrySize) \<Rightarrow>
                     mapEntryLoop kread vread p endOffset (iadd (iadd wOffset tagSize) keyEntrySize) keyEntry valueData)
             else if tag = 2 then
               Option.bind (vread p (iadd wOffset tagSize)) (\<lambda>r. case r of
                   Err e \<Rightarrow> Some (Err e)
                 | Panic \<Rightarrow> Some Panic
                 | Ret (valueEntry, valueEntrySize) \<Rightarrow>
                     mapEntryLoop kread vread p endOffset (iadd (iadd wOffset tagSize) valueEntrySize) keyData valueEntry)
             else
               Option.bind (SkipData p (iadd wOffset tagSize) wireType) (\<lambda>r. case r of
                   Err e \<Rightarrow> mapEntryLoop kread vread p endOffset 0 keyData valueData
                 | Panic \<Rightarrow> Some Panic
                 | Ret wOffset \<Rightarrow> mapEntryLoop kread vread p endOffset wOffset keyData valueData))
      else Some (Ret (keyData, valueData)))"

text \<open>The loop over the offsets of the entries, with the map read so far as \<open>entry\<close>.\<close>

fun mapReader ::
  "(Reader \<Rightarrow> int \<Rightarrow> ('k \<times> int) run) \<Rightarrow> (Reader \<Rightarrow> int \<Rightarrow> ('v \<times> int) run) \<Rightarrow> 'k \<Rightarrow> 'v \<Rightarrow>
   Reader option \<Rightarrow> int list \<Rightarrow> ('k \<times> 'v) list \<Rightarrow> ('k \<times> 'v) list run" where
  "mapReader kread vread k0 v0 b [] entry = Some (Ret entry)"
| "mapReader kread vread k0 v0 None (wOffset # ws) entry = Some Panic"
| "mapReader kread vread k0 v0 (Some p) (wOffset # ws) entry =
     run_bind (Some (SizedReadVarInt p wOffset)) (\<lambda>(entrySize, entrySizeSize).
     run_bind (mapEntryLoop kread vread p (iadd (iadd wOffset entrySizeSize) (int_of_u64 entrySize))
         (iadd wOffset entrySizeSize) k0 v0) (\<lambda>(keyData, valueData).
     mapReader kread vread k0 v0 (Some p) ws (AList.update keyData valueData entry)))"

text \<open>The sized read of a scalar and of a message, with the check of the offset around it.\<close>

definition sizedScalar :: "(Reader \<Rightarrow> int \<Rightarrow> ('a \<times> int) go) \<Rightarrow> 'a \<Rightarrow> Reader \<Rightarrow> int \<Rightarrow> ('a \<times> int) run" where
  "sizedScalar srd dflt p wOffset = Some (entrySizedReader srd dflt (Some p) wOffset)"

definition sizedBytes :: "Reader \<Rightarrow> int \<Rightarrow> (byte list \<times> int) go" where
  "sizedBytes p wOffset = go_bind (SizedReadBytes p wOffset) (\<lambda>(bs, size). Ret (elems bs, size))"

definition sizedStruct ::
  "(gslice \<Rightarrow> ('r \<times> string option) run) \<Rightarrow> Reader \<Rightarrow> int \<Rightarrow> ('r option \<times> int) run" where
  "sizedStruct unm p wOffset =
     (if wOffset > 0 then
        run_bind (Some (SizedReadBytes p wOffset)) (\<lambda>(entryData, entryDataSize).
          if slen entryData > 0
          then run_bind (unm entryData) (\<lambda>(entry, err). Some (Ret (Some entry, entryDataSize)))
          else Some (Ret (None, entryDataSize)))
      else Some (Ret (None, 0)))"

text \<open>The size of the entries and their writing; the sizes of key and value include their tags 1 and 2.\<close>

definition mapSize ::
  "(ProtoWireNumber \<Rightarrow> 'k \<Rightarrow> int) \<Rightarrow> (ProtoWireNumber \<Rightarrow> 'v \<Rightarrow> int) \<Rightarrow> ProtoWireNumber \<Rightarrow> ('k \<times> 'v) list \<Rightarrow> int" where
  "mapSize ksize vsize fieldTag kvs =
     foldl (\<lambda>entrySize (k, v). let mapEntrySize = ksize 1 k + vsize 2 v in
       entrySize + (mapEntrySize + SizeTag fieldTag + SizeUint64 (of_int mapEntrySize))) 0 kvs"

definition mapWriter ::
  "(ProtoWireNumber \<Rightarrow> 'k \<Rightarrow> int) \<Rightarrow> (ProtoWireNumber \<Rightarrow> 'v \<Rightarrow> int) \<Rightarrow>
   (Writer \<Rightarrow> ProtoWireNumber \<Rightarrow> 'k \<Rightarrow> Writer go) \<Rightarrow> (Writer \<Rightarrow> ProtoWireNumber \<Rightarrow> 'v \<Rightarrow> Writer go) \<Rightarrow>
   Writer \<Rightarrow> ProtoWireNumber \<Rightarrow> ('k \<times> 'v) list \<Rightarrow> Writer go" where
  "mapWriter ksize vsize kapp vapp res tag kvs =
     go_fold (\<lambda>(k, v) res. let mapEntrySize = ksize 1 k + vsize 2 v in
       go_bind (AppendBytesTag res tag mapEntrySize) (\<lambda>res.
       go_bind (kapp res 1 k) (\<lambda>res. vapp res 2 v))) kvs res"

text \<open>\<^verbatim>\<open>ToStruct\<close> of a map of readers skips nil, and returns the readers with their caches.\<close>

fun mapToStruct ::
  "('r option \<Rightarrow> ('s option \<times> 'r option) run) \<Rightarrow> ('k \<times> 'r option) list \<Rightarrow> ('k \<times> 's option) list \<Rightarrow>
   (('k \<times> 's option) list \<times> ('k \<times> 'r option) list) run" where
  "mapToStruct to_struct [] structData = Some (Ret (structData, []))"
| "mapToStruct to_struct ((k, None) # data) structData =
     run_bind (mapToStruct to_struct data structData) (\<lambda>(structData, data).
       Some (Ret (structData, (k, None) # data)))"
| "mapToStruct to_struct ((k, Some v) # data) structData =
     run_bind (to_struct (Some v)) (\<lambda>(s, v').
     run_bind (mapToStruct to_struct data (AList.update k s structData)) (\<lambda>(structData, data).
       Some (Ret (structData, (k, v') # data))))"

definition mapCopy :: "('k \<times> 'v) list \<Rightarrow> ('k \<times> 'v) list" where
  "mapCopy kvs = fold (\<lambda>(k, v) res. AList.update k v res) kvs []"

definition mapCopyStructs :: "('s option \<Rightarrow> 's option) \<Rightarrow> ('k \<times> 's option) list \<Rightarrow> ('k \<times> 's option) list" where
  "mapCopyStructs copy kvs =
     fold (\<lambda>(k, v) res. case v of None \<Rightarrow> res | Some x \<Rightarrow> AList.update k (copy (Some x)) res) kvs []"

section \<open>New keys\<close>

lemma update_append_new: "k \<notin> fst ` set kvs \<Longrightarrow> AList.update k v kvs = kvs @ [(k, v)]"
  by (induction kvs) auto

text \<open>Two maps with the same keys in the same order, and related values, stay so.\<close>

lemma update_related:
  assumes "list_all2 (\<lambda>(k, v) (k', r). k' = k \<and> R v r) xs ys" and "R v r"
  shows "list_all2 (\<lambda>(k, v) (k', r). k' = k \<and> R v r) (AList.update k v xs) (AList.update k r ys)"
  using assms by (induction rule: list_all2_induct) auto

text \<open>A map that is filled with entries of distinct keys is those entries.\<close>

lemma mapCopy_same: "distinct (map fst kvs) \<Longrightarrow> mapCopy kvs = kvs"
proof -
  have "distinct (map fst acc @ map fst kvs) \<Longrightarrow> fold (\<lambda>(k, v) res. AList.update k v res) kvs acc = acc @ kvs" for acc
    by (induction kvs arbitrary: acc) (auto simp: update_append_new)
  from this [of "[]"] show "distinct (map fst kvs) \<Longrightarrow> mapCopy kvs = kvs" by (simp add: mapCopy_def)
qed

lemma mapCopy_distinct: "distinct (map fst (mapCopy kvs))"
proof -
  have "distinct (map fst acc) \<Longrightarrow> distinct (map fst (fold (\<lambda>(k, v) res. AList.update k v res) kvs acc))" for acc
    by (induction kvs arbitrary: acc) (auto simp: distinct_update)
  from this [of "[]"] show ?thesis by (simp add: mapCopy_def)
qed

lemma mapCopyStructs_same:
  assumes "distinct (map fst kvs)"
  shows "mapCopyStructs copy kvs = map (\<lambda>(k, v). (k, copy v)) (filter (\<lambda>(k, v). v \<noteq> None) kvs)"
proof -
  have "distinct (map fst acc @ map fst kvs) \<Longrightarrow>
      fold (\<lambda>(k, v) res. case v of None \<Rightarrow> res | Some x \<Rightarrow> AList.update k (copy (Some x)) res) kvs acc =
      acc @ map (\<lambda>(k, v). (k, copy v)) (filter (\<lambda>(k, v). v \<noteq> None) kvs)" for acc
    by (induction kvs arbitrary: acc) (auto simp: update_append_new split: option.split)
  from this [of "[]"] assms show ?thesis by (simp add: mapCopyStructs_def)
qed

section \<open>The interface of a key or value type\<close>

text \<open>
  \<open>val\<close> is the wire value of an element. \<open>reads x r\<close> says that \<open>r\<close> is what a reader makes of
  \<open>x\<close>: the element itself for a scalar, a message reader that decodes to it for a message.
\<close>

locale entry_part =
  fixes val :: "'a \<Rightarrow> wval"
    and size_of :: "ProtoWireNumber \<Rightarrow> 'a \<Rightarrow> int"
    and append_part :: "Writer \<Rightarrow> ProtoWireNumber \<Rightarrow> 'a \<Rightarrow> Writer go"
    and sread :: "Reader \<Rightarrow> int \<Rightarrow> ('r \<times> int) run"
    and reads :: "'a \<Rightarrow> 'r \<Rightarrow> bool"
  assumes size_part: "size_of tag x = int (length (field_bytes (tag, val x)))"
    and writes_part: "writes (\<lambda>w. append_part w tag x) (field_bytes (tag, val x))"
    and reads_part: "holds_at p off (payload (val x)) \<Longrightarrow> 0 < off \<Longrightarrow>
      \<exists>r. sread p (int off) = Some (Ret (r, int (length (payload (val x))))) \<and> reads x r"

context scalar_codec
begin

lemma scalar_part:
  assumes "\<And>x. payload (val x) = enc x" and "\<And>x. wire_of (val x) = wire"
  shows "entry_part val (sizeWithTag size_of) appendTagged (sizedScalar sizedRead d) (=)"
  by unfold_locales
    (simp_all add: assms size_scalar writes_scalar sizedScalar_def entrySizedReader_enc)

end

text \<open>What a round trip keeps of a map of messages: the entries whose message is not empty.\<close>

definition map_norm :: "('s \<Rightarrow> wfield list) \<Rightarrow> ('s \<Rightarrow> 's) \<Rightarrow> ('k \<times> 's option) list \<Rightarrow> ('k \<times> 's option) list" where
  "map_norm content norm kvs = filter (\<lambda>(k, v). v \<noteq> None) (map (\<lambda>(k, v). (k, norm_ptr content norm v)) kvs)"

context message_codec
begin

definition reads_struct :: "'s option \<Rightarrow> 'r option \<Rightarrow> bool" where
  "reads_struct x r \<longleftrightarrow> (r = None \<longleftrightarrow> norm_ptr content norm x = None) \<and>
     (\<exists>r'. structToStruct to_struct r = Some (Ret (norm_ptr content norm x, r')))"

lemma message_part:
  "entry_part (\<lambda>x. WBytes (ptr_bytes content x)) (sizeDelimitedWithTag contentSize)
     (structWriter contentSize marshalTo) (sizedStruct unm) reads_struct"
proof
  fix p off x
  assume h: "holds_at p off (payload (WBytes (ptr_bytes content x)))" and "0 < off"
  then obtain r r' where r: "structReader unm (Some p) (int off) = Some (Ret r)"
    "structToStruct to_struct r = Some (Ret (norm_ptr content norm x, r'))"
    using structReader_ptr [of p off x] by auto
  obtain sp where s: "SizedReadBytes p (int off) =
      Ret (\<lparr>elems = ptr_bytes content x, spare = sp\<rparr>, int (length (delimited (ptr_bytes content x))))"
    "ReadBytes p (int off) = Ret \<lparr>elems = ptr_bytes content x, spare = sp\<rparr>"
    using ReadBytes_holds [of p off "ptr_bytes content x"] h by (auto simp: ReadBytes_def SizedReadBytes_def go_bind_Ret_iff)
  have "sizedStruct unm p (int off) = Some (Ret (r, int (length (delimited (ptr_bytes content x)))))"
    using r(1) s \<open>0 < off\<close>
    by (auto simp: sizedStruct_def structReader_def on_buf_def run_bind_Ret_iff split: if_splits)
  moreover have "r = None \<longleftrightarrow> ptr_bytes content x = []"
    using r(1) s(2) \<open>0 < off\<close> by (auto simp: structReader_def on_buf_def run_bind_Ret_iff slen_def split: if_splits)
  moreover have "norm_ptr content norm x = None \<longleftrightarrow> ptr_bytes content x = []"
    by (auto simp: norm_ptr_def ptr_bytes_def split: option.splits)
  ultimately show "\<exists>r. sizedStruct unm p (int off) =
      Some (Ret (r, int (length (payload (WBytes (ptr_bytes content x)))))) \<and> reads_struct x r"
    using r(2) by (auto simp: reads_struct_def)
qed (simp_all add: structSize_ptr writes_struct)

lemma mapToStruct_reads:
  assumes "list_all2 (\<lambda>(k, v) (k', r). k' = k \<and> reads_struct v r) kvs rs"
    and "distinct (map fst structData @ map fst kvs)"
  shows "\<exists>rs'. mapToStruct to_struct rs structData = Some (Ret (structData @ map_norm content norm kvs, rs'))"
  using assms
proof (induction arbitrary: structData rule: list_all2_induct)
  case Nil
  then show ?case by (simp add: map_norm_def)
next
  case (Cons kv kvs kr rs)
  obtain k v r where k: "kv = (k, v)" "kr = (k, r)" "reads_struct v r"
    using Cons.hyps(1) by (cases kv, cases kr) simp
  show ?case
  proof (cases r)
    case None
    then show ?thesis using Cons.IH [of structData] Cons.prems k by (auto simp: map_norm_def reads_struct_def)
  next
    case (Some r0)
    then obtain s r' where s: "to_struct (Some r0) = Some (Ret (Some s, r'))" "norm_ptr content norm v = Some s"
      using k(3) by (auto simp: reads_struct_def structToStruct_def)
    have "AList.update k (Some s) structData = structData @ [(k, Some s)]"
      using Cons.prems k(1) by (intro update_append_new) auto
    then show ?thesis
      using Cons.IH [of "structData @ [(k, Some s)]"] Cons.prems k Some s by (auto simp: map_norm_def)
  qed
qed

end

section \<open>Map fields\<close>

text \<open>Reading the tag of a field, and that the tag does not start a group.\<close>

lemma entry_tags: "valid_tag 1" "valid_tag 2"
  by (simp_all add: valid_tag_def)

definition entry_bytes :: "('k \<Rightarrow> wval) \<Rightarrow> ('v \<Rightarrow> wval) \<Rightarrow> 'k \<times> 'v \<Rightarrow> byte list" where
  "entry_bytes kval vval = (\<lambda>(k, v). fields_bytes [(1, kval k), (2, vval v)])"

definition map_content ::
  "('k \<Rightarrow> wval) \<Rightarrow> ('v \<Rightarrow> wval) \<Rightarrow> ProtoWireNumber \<Rightarrow> ('k \<times> 'v) list \<Rightarrow> wfield list" where
  "map_content kval vval tag kvs = bytes_fields tag (map (entry_bytes kval vval) kvs)"

lemma map_content_Nil [simp]: "map_content kval vval tag [] = []"
  by (simp add: map_content_def)

lemma wf_map [simp]: "valid_tag tag \<Longrightarrow> list_all wf_field (map_content kval vval tag kvs)"
  by (simp add: map_content_def)

lemma run_save_map:
  assumes "\<And>off m. save tag BytesType off m = upd (\<lambda>l. l @ [off]) m"
    and "\<And>f g m. upd f (upd g m) = upd (\<lambda>l. f (g l)) m" and "\<And>m. upd (\<lambda>l. l) m = m"
  shows "run_save save off (map_content kval vval tag kvs) m = upd (\<lambda>l. l @ payload_offs off (map_content kval vval tag kvs)) m"
  unfolding map_content_def using assms by (rule run_save_bytes)

text \<open>The order of the entries does not change how many bytes they take.\<close>

lemma length_map_content:
  "length (fields_bytes (map_content kval vval tag kvs)) =
     sum_mset (image_mset (\<lambda>kv. length (field_bytes (tag, WBytes (entry_bytes kval vval kv)))) (mset kvs))"
  by (induction kvs) (simp_all add: map_content_def bytes_fields_def)

locale map_field =
  kp: entry_part kval ksize kapp kread "(=)" + vp: entry_part vval vsize vapp vread vreads
  for kval :: "'k \<Rightarrow> wval" and ksize kapp kread
    and vval :: "'v \<Rightarrow> wval" and vsize vapp vread and vreads :: "'v \<Rightarrow> 'r \<Rightarrow> bool"
begin

lemma entry_size: "ksize 1 k + vsize 2 v = int (length (entry_bytes kval vval (k, v)))"
  by (simp add: entry_bytes_def kp.size_part vp.size_part)

lemma writes_map: "writes (\<lambda>w. mapWriter ksize vsize kapp vapp w tag kvs) (fields_bytes (map_content kval vval tag kvs))"
proof (induction kvs)
  case Nil
  then show ?case by (simp add: writes_def mapWriter_def map_content_def)
next
  case (Cons kv kvs)
  obtain k v where kv: "kv = (k, v)" by (cases kv)
  let ?n = "tag_bytes tag BytesType @ VarIntToBytes (of_nat (length (entry_bytes kval vval kv)))"
  have n: "writes (\<lambda>w. AppendBytesTag w tag (ksize 1 k + vsize 2 v)) ?n"
    by (simp add: writes_def AppendBytesTag_def wire_enc entry_size kv)
  have "writes (\<lambda>w. go_bind (go_bind (AppendBytesTag w tag (ksize 1 k + vsize 2 v))
      (\<lambda>w. go_bind (kapp w 1 k) (\<lambda>w. vapp w 2 v))) (\<lambda>w. mapWriter ksize vsize kapp vapp w tag kvs))
    ((?n @ field_bytes (1, kval k) @ field_bytes (2, vval v)) @ fields_bytes (map_content kval vval tag kvs))"
    by (intro writes_bind n kp.writes_part vp.writes_part Cons.IH)
  then show ?case
    by (simp add: mapWriter_def map_content_def bytes_fields_def kv entry_bytes_def delimited_def
        field_bytes_def [of "(tag, _)"] Let_def cong: if_cong)
qed

lemma size_map: "mapSize ksize vsize tag kvs = int (length (fields_bytes (map_content kval vval tag kvs)))"
proof -
  have "mapSize ksize vsize tag kvs = foldl (\<lambda>acc kv. acc + int (length (field_bytes (tag, WBytes (entry_bytes kval vval kv))))) 0 kvs"
    unfolding mapSize_def
    by (rule foldl_cong) (auto simp: Let_def entry_size field_bytes_def delimited_def
        SizeUint64_def SizeVarInt_length SizeTag_length [of tag BytesType])
  also have "\<dots> = int (length (fields_bytes (map_content kval vval tag kvs)))"
    unfolding foldl_add_sum by (induction kvs) (simp_all add: map_content_def bytes_fields_def)
  finally show ?thesis .
qed

lemma field_start:
  assumes "holds_at p off (field_bytes (tag, v))" and "valid_tag tag"
  shows "ReadTagAt p (int off) = Ret (tag, wire_of v, int (length (tag_bytes tag (wire_of v))))"
    and "iadd (int off) (int (length (tag_bytes tag (wire_of v)))) = int (payload_off off (tag, v))"
    and "iadd (int (payload_off off (tag, v))) (int (length (payload v))) = int (off + length (field_bytes (tag, v)))"
proof -
  have h: "holds_at p off (tag_bytes tag (wire_of v))"
    using assms(1) by (simp add: field_bytes_def holds_at_append)
  then show "ReadTagAt p (int off) = Ret (tag, wire_of v, int (length (tag_bytes tag (wire_of v))))"
    using ReadTagAt_holds [OF h assms(2) wire_of_less] by simp
  show "iadd (int off) (int (length (tag_bytes tag (wire_of v)))) = int (payload_off off (tag, v))"
    "iadd (int (payload_off off (tag, v))) (int (length (payload v))) = int (off + length (field_bytes (tag, v)))"
    using holds_at_range [OF assms(1)] by (simp_all add: payload_off_def field_bytes_def)
qed

lemma entry_loop_key:
  assumes "holds_at p off (field_bytes (1, kval k))" and "int off < stop"
  shows "mapEntryLoop kread vread p stop (int off) k0 v0 =
    mapEntryLoop kread vread p stop (int (off + length (field_bytes (1, kval k)))) k v0"
proof -
  have "kread p (int (payload_off off (1, kval k))) = Some (Ret (k, int (length (payload (kval k)))))"
    using kp.reads_part [OF field_holds [OF assms(1), unfolded snd_conv]] by simp
  then show ?thesis
    using assms(2) field_start [OF assms(1) entry_tags(1)] by (subst mapEntryLoop.simps) simp
qed

lemma entry_loop_value:
  assumes "holds_at p off (field_bytes (2, vval v))" and "int off < stop"
  shows "\<exists>r. mapEntryLoop kread vread p stop (int off) k0 v0 =
    mapEntryLoop kread vread p stop (int (off + length (field_bytes (2, vval v)))) k0 r \<and> vreads v r"
proof -
  obtain r where "vread p (int (payload_off off (2, vval v))) = Some (Ret (r, int (length (payload (vval v)))))" "vreads v r"
    using vp.reads_part [OF field_holds [OF assms(1), unfolded snd_conv]] by auto
  then show ?thesis
    using assms(2) field_start [OF assms(1) entry_tags(2)] by (subst mapEntryLoop.simps) auto
qed

lemma entry_loop:
  assumes "holds_at p off (entry_bytes kval vval (k, v))"
  shows "\<exists>r. mapEntryLoop kread vread p (int (off + length (entry_bytes kval vval (k, v)))) (int off) k0 v0 = Some (Ret (k, r)) \<and>
    vreads v r"
proof -
  let ?stop = "off + length (entry_bytes kval vval (k, v))" and ?mid = "off + length (field_bytes (1, kval k))"
  have h: "holds_at p off (field_bytes (1, kval k))" "holds_at p ?mid (field_bytes (2, vval v))"
    using assms by (simp_all add: entry_bytes_def holds_at_append)
  have pos: "0 < length (field_bytes f)" for f by simp
  have e: "?stop = ?mid + length (field_bytes (2, vval v))" by (simp add: entry_bytes_def)
  then have lt: "int off < int ?stop" "int ?mid < int ?stop"
    using pos [of "(1, kval k)"] pos [of "(2, vval v)"] by linarith+
  obtain r where r: "mapEntryLoop kread vread p (int ?stop) (int ?mid) k v0 =
      mapEntryLoop kread vread p (int ?stop) (int ?stop) k r" "vreads v r"
    using entry_loop_value [OF h(2) lt(2)] e by metis
  moreover have "mapEntryLoop kread vread p (int ?stop) (int ?stop) k r = Some (Ret (k, r))"
    by (subst mapEntryLoop.simps) simp
  ultimately show ?thesis using entry_loop_key [OF h(1) lt(1)] by auto
qed

lemma map_reads_onto:
  assumes "holds_at p off (fields_bytes (map_content kval vval tag kvs))"
    and "list_all2 (\<lambda>(k, v) (k', r). k' = k \<and> vreads v r) seen entry"
  shows "\<exists>rs. mapReader kread vread k0 v0 (Some p) (payload_offs off (map_content kval vval tag kvs)) entry = Some (Ret rs) \<and>
    list_all2 (\<lambda>(k, v) (k', r). k' = k \<and> vreads v r) (fold (\<lambda>(k, v) res. AList.update k v res) kvs seen) rs"
  using assms
proof (induction kvs arbitrary: off seen entry)
  case (Cons kv kvs)
  obtain k v where kv: "kv = (k, v)" by (cases kv)
  let ?f = "(tag, WBytes (entry_bytes kval vval (k, v)))"
  have h: "holds_at p off (field_bytes ?f)"
    "holds_at p (off + length (field_bytes ?f)) (fields_bytes (map_content kval vval tag kvs))"
    using Cons.prems(1) by (simp_all add: map_content_def bytes_fields_def holds_at_append kv)
  note d = holds_at_delimited [OF field_holds [OF h(1), unfolded snd_conv payload.simps]]
  let ?n = "length (VarIntToBytes (of_nat (length (entry_bytes kval vval (k, v)))))"
  have sz: "SizedReadVarInt p (int (payload_off off ?f)) = Ret (of_nat (length (entry_bytes kval vval (k, v))), int ?n)"
    by (simp only: SizedReadVarInt_def readVarIntAt_holds [OF d(1)])
  have b: "iadd (int (payload_off off ?f)) (int ?n) = int (payload_off off ?f + ?n)"
    "iadd (int (payload_off off ?f + ?n)) (int (length (entry_bytes kval vval (k, v)))) = int (payload_off off ?f + ?n + length (entry_bytes kval vval (k, v)))"
    using d(4) by simp_all
  obtain r where r: "mapEntryLoop kread vread p (int (payload_off off ?f + ?n + length (entry_bytes kval vval (k, v))))
      (int (payload_off off ?f + ?n)) k0 v0 = Some (Ret (k, r))" "vreads v r"
    using entry_loop [OF d(2)] by blast
  have "list_all2 (\<lambda>(k, v) (k', r). k' = k \<and> vreads v r) (AList.update k v seen) (AList.update k r entry)"
    by (rule update_related [OF Cons.prems(2) r(2)])
  from Cons.IH [OF h(2) this]
  show ?case using r sz b d(3) kv by (auto simp: map_content_def bytes_fields_def)
qed (simp add: map_content_def)

lemmas map_reads = map_reads_onto [where seen = "[]" and entry = "[]", simplified, folded mapCopy_def]

end

text \<open>A map whose values are scalars reads back as one that was filled with its entries.\<close>

locale scalar_map = map_field kval ksize kapp kread vval vsize vapp vread "(=)"
  for kval :: "'k \<Rightarrow> wval" and ksize kapp kread and vval :: "'v \<Rightarrow> wval" and vsize vapp vread
begin

lemma scalar_map_reads:
  assumes "holds_at p off (fields_bytes (map_content kval vval tag kvs))"
  shows "mapReader kread vread k0 v0 (Some p) (payload_offs off (map_content kval vval tag kvs)) [] = Some (Ret (mapCopy kvs))"
proof -
  have "list_all2 (\<lambda>(k, v) (k', r). k' = k \<and> v = r) xs rs \<Longrightarrow> rs = xs" for xs rs
    by (induction rule: list_all2_induct) auto
  then show ?thesis using map_reads [OF assms] by blast
qed

end

section \<open>The scalar types as keys and values\<close>

interpretation part_int32: entry_part int32_val "sizeWithTag SizeInt32" AppendInt32 "sizedScalar SizedReadInt32 0" "(=)"
  by (rule c_int32.scalar_part) simp_all

interpretation part_uint32: entry_part "\<lambda>x. WVarint (ucast x)" "sizeWithTag SizeUint32" AppendUint32
  "sizedScalar SizedReadUint32 0" "(=)"
  by (rule c_uint32.scalar_part) simp_all

interpretation part_int64: entry_part WVarint "sizeWithTag SizeInt64" AppendInt64 "sizedScalar SizedReadInt64 0" "(=)"
  by (rule c_int64.scalar_part) simp_all

interpretation part_bytes: entry_part WBytes "sizeDelimitedWithTag SizeBytes" AppendBytes "sizedScalar sizedBytes []" "(=)"
proof
  fix p off and x :: "byte list"
  assume "holds_at p off (payload (WBytes x))" and "0 < off"
  then show "\<exists>r. sizedScalar sizedBytes [] p (int off) = Some (Ret (r, int (length (payload (WBytes x))))) \<and> x = r"
    using ReadBytes_holds(2) [of p off x] by (auto simp: sizedScalar_def entrySizedReader_def on_buf_def sizedBytes_def)
qed (simp_all add: size_bytes writes_bytes)

interpretation part_string: entry_part WBytes "sizeDelimitedWithTag SizeString" AppendString "sizedScalar SizedReadString []" "(=)"
proof
  fix p off and x :: gostring
  assume "holds_at p off (payload (WBytes x))" and "0 < off"
  then show "\<exists>r. sizedScalar SizedReadString [] p (int off) = Some (Ret (r, int (length (payload (WBytes x))))) \<and> x = r"
    using ReadBytes_holds(2) [of p off x] by (auto simp: sizedScalar_def entrySizedReader_def on_buf_def SizedReadString_def)
qed (simp_all add: size_bytes writes_bytes)

end
