(* ===== verification/Lazy_Messages.thy ===== *)
theory Lazy_Messages
  imports Message_Codec
begin

text \<open>
  Generated messages with many fields. The templates emit the same code for every field, so what
  they emit for a kind of field is stated once, as the interface \<open>lazy_field\<close>, and a message whose
  fields are all of such kinds satisfies \<open>message_codec\<close> (the interface \<open>lazy_message\<close>). The four
  variables \<^verbatim>\<open>data\<close>, \<^verbatim>\<open>offset\<close>, \<^verbatim>\<open>wireType\<close> and
  \<^verbatim>\<open>parsed\<close> that a reader holds for a field are one record here, its cell; the bodies of
  \<^verbatim>\<open>ToStruct\<close> and \<^verbatim>\<open>MarshalTo\<close> are lists of their statements.
\<close>

section \<open>Cells\<close>

record ('a, 'o) cell =
  cellData :: 'a
  cellOffset :: 'o
  cellParsed :: bool

type_synonym 'a one_cell = "('a, int) cell"
type_synonym 'a list_cell = "('a list, int list) cell"
type_synonym 'a packed_cell = "('a list, int list \<times> ProtoWireType list) cell"

definition newCell :: "'a \<Rightarrow> 'o \<Rightarrow> ('a, 'o) cell" where
  "newCell d off = \<lparr>cellData = d, cellOffset = off, cellParsed = False\<rparr>"

text \<open>What the \<^verbatim>\<open>switch\<close> of \<^verbatim>\<open>Unmarshal\<close> does to the offset of a field it knows.\<close>

definition setOffset :: "ProtoWireType \<Rightarrow> int \<Rightarrow> int \<Rightarrow> int" where
  "setOffset wire offset old = offset"

definition addOffset :: "ProtoWireType \<Rightarrow> int \<Rightarrow> int list \<Rightarrow> int list" where
  "addOffset wire offset old = old @ [offset]"

definition addTyped :: "ProtoWireType \<Rightarrow> int \<Rightarrow> int list \<times> ProtoWireType list \<Rightarrow> int list \<times> ProtoWireType list" where
  "addTyped wire offset old = (fst old @ [offset], snd old @ [wire])"

definition onOffset :: "('o \<Rightarrow> 'o) \<Rightarrow> ('a, 'o) cell \<Rightarrow> ('a, 'o) cell" where
  "onOffset f c = c\<lparr>cellOffset := f (cellOffset c)\<rparr>"

text \<open>The lazy read of a field, with its cell given by a selector and an update of the reader.\<close>

definition readCell ::
  "('m \<Rightarrow> ('a, 'o) cell) \<Rightarrow> ((('a, 'o) cell \<Rightarrow> ('a, 'o) cell) \<Rightarrow> 'm \<Rightarrow> 'm) \<Rightarrow> ('m \<Rightarrow> Reader option) \<Rightarrow>
   (Reader option \<Rightarrow> 'o \<Rightarrow> 'a run) \<Rightarrow> 'm \<Rightarrow> ('a \<times> 'm) run" where
  "readCell sel upd bufOf rd m =
     lazyRead (cellParsed (sel m)) (cellData (sel m)) (rd (bufOf m) (cellOffset (sel m)))
       (\<lambda>entry. upd (\<lambda>c. c\<lparr>cellData := entry, cellParsed := True\<rparr>) m) m"

text \<open>How each kind of field is read.\<close>

definition readOne :: "(Reader \<Rightarrow> int \<Rightarrow> 'a go) \<Rightarrow> 'a \<Rightarrow> Reader option \<Rightarrow> int \<Rightarrow> 'a run" where
  "readOne rd dflt b wOffset = Some (entryReader rd dflt b wOffset)"

definition readList :: "(Reader \<Rightarrow> int \<Rightarrow> 'a go) \<Rightarrow> 'a \<Rightarrow> Reader option \<Rightarrow> int list \<Rightarrow> 'a list run" where
  "readList rd dflt b wOffset = Some (repeatedReader rd dflt b wOffset [])"

definition readPacked ::
  "(Reader \<Rightarrow> int \<Rightarrow> 'a go) \<Rightarrow> (Reader \<Rightarrow> int \<Rightarrow> ('a \<times> int) go) \<Rightarrow> 'a \<Rightarrow> Reader option \<Rightarrow>
   int list \<times> ProtoWireType list \<Rightarrow> 'a list run" where
  "readPacked rd srd dflt b off = packedReader rd srd dflt b (fst off) (snd off) []"

definition readStructs ::
  "(gslice \<Rightarrow> ('r \<times> string option) run) \<Rightarrow> Reader option \<Rightarrow> int list \<Rightarrow> 'r option list run" where
  "readStructs unm b wOffset = repeatedStructReader unm b wOffset []"

text \<open>A byte field is read as its elements; its slice shares the memory of the message.\<close>

definition ReadByteList :: "Reader \<Rightarrow> int \<Rightarrow> byte list go" where
  "ReadByteList p off = go_bind (ReadBytes p off) (\<lambda>b. Ret (elems b))"

lemma ReadByteList_eq: "ReadByteList = ReadString"
  by (simp add: fun_eq_iff ReadByteList_def ReadString_def)

section \<open>Statements\<close>

text \<open>A \<^verbatim>\<open>switch\<close> on a tag, with a statement for each case.\<close>

fun tag_switch :: "(ProtoWireNumber \<times> ('m \<Rightarrow> 'm)) list \<Rightarrow> ProtoWireNumber \<Rightarrow> 'm \<Rightarrow> 'm" where
  "tag_switch [] tag m = m"
| "tag_switch ((t, st) # cs) tag m = (if tag = t then st m else tag_switch cs tag m)"

fun run_seq :: "('s \<Rightarrow> 's run) list \<Rightarrow> 's \<Rightarrow> 's run" where
  "run_seq [] s = Some (Ret s)"
| "run_seq (st # sts) s = run_bind (st s) (run_seq sts)"

fun go_seq :: "('s \<Rightarrow> 's go) list \<Rightarrow> 's \<Rightarrow> 's go" where
  "go_seq [] s = Ret s"
| "go_seq (st # sts) s = go_bind (st s) (go_seq sts)"

text \<open>
  The statement \<^verbatim>\<open>res.F = m.GetF()\<close>, and the block that converts the reader of a message
  field: it calls \<^verbatim>\<open>ToStruct\<close> on the reader in the cell, which fills that reader's caches.
\<close>

definition assign ::
  "('m option \<Rightarrow> ('a \<times> 'm option) run) \<Rightarrow> ('a \<Rightarrow> 's \<Rightarrow> 's) \<Rightarrow> 's \<times> 'm option \<Rightarrow> ('s \<times> 'm option) run" where
  "assign get put = (\<lambda>(res, m). run_bind (get m) (\<lambda>(v, m). Some (Ret (put v res, m))))"

definition assignStruct ::
  "('m option \<Rightarrow> ('d \<times> 'm option) run) \<Rightarrow> ('d \<Rightarrow> ('a \<times> 'd) run) \<Rightarrow>
   ((('d, 'o) cell \<Rightarrow> ('d, 'o) cell) \<Rightarrow> 'm \<Rightarrow> 'm) \<Rightarrow> ('a \<Rightarrow> 's \<Rightarrow> 's) \<Rightarrow>
   's \<times> 'm option \<Rightarrow> ('s \<times> 'm option) run" where
  "assignStruct get conv upd put = (\<lambda>(res, m).
     run_bind (get m) (\<lambda>(data, m).
     run_bind (conv data) (\<lambda>(structData, data').
     Some (Ret (put structData res, map_option (upd (\<lambda>c. c\<lparr>cellData := data'\<rparr>)) m)))))"

text \<open>\<^verbatim>\<open>ToStruct\<close>, given its statements and the empty struct.\<close>

definition toStructWith ::
  "('s \<times> 'm option \<Rightarrow> ('s \<times> 'm option) run) list \<Rightarrow> 's \<Rightarrow> 'm option \<Rightarrow> ('s option \<times> 'm option) run" where
  "toStructWith sts blank m =
     (case m of None \<Rightarrow> Some (Ret (None, None))
      | Some _ \<Rightarrow> run_bind (run_seq sts (blank, m)) (\<lambda>(res, m). Some (Ret (Some res, m))))"

definition marshalToWith :: "('s \<Rightarrow> (Writer \<Rightarrow> Writer go) list) \<Rightarrow> Writer \<Rightarrow> 's option \<Rightarrow> Writer go" where
  "marshalToWith sts res s = (case s of None \<Rightarrow> Ret res | Some s \<Rightarrow> go_seq (sts s) res)"

definition contentSizeWith :: "('s \<Rightarrow> int list) \<Rightarrow> 's option \<Rightarrow> int" where
  "contentSizeWith szs s = (case s of None \<Rightarrow> 0 | Some s \<Rightarrow> sum_list (szs s))"

lemma go_seq_writes:
  "list_all2 (\<lambda>st g. writes st (fields_bytes g)) sts gs \<Longrightarrow> writes (go_seq sts) (fields_bytes (concat gs))"
proof (induction rule: list_all2_induct)
  case Nil
  then show ?case by (simp add: writes_def)
next
  case (Cons st sts g gs)
  then show ?case
    using writes_bind [of st "fields_bytes g" "go_seq sts" "fields_bytes (concat gs)"] by simp
qed

lemma sum_sizes_groups:
  "list_all2 (\<lambda>e g. e = int (length (fields_bytes g))) szs gs \<Longrightarrow>
   sum_list szs = int (length (fields_bytes (concat gs)))"
  by (induction rule: list_all2_induct) simp_all

section \<open>The interface of a kind of field\<close>

text \<open>
  \<open>group\<close> is what the field contributes to the wire content, \<open>norm\<close> what a round trip makes of its
  value, \<open>save\<close> what the \<^verbatim>\<open>switch\<close> does to its offset, \<open>conv\<close> how \<^verbatim>\<open>ToStruct\<close>
  converts the data in the cell.
\<close>

locale lazy_field =
  fixes tag :: ProtoWireNumber
    and group :: "'a \<Rightarrow> wfield list"
    and norm :: "'a \<Rightarrow> 'a"
    and size_of :: "'a \<Rightarrow> int"
    and wr :: "'a \<Rightarrow> Writer \<Rightarrow> Writer go"
    and save :: "ProtoWireType \<Rightarrow> int \<Rightarrow> 'o \<Rightarrow> 'o"
    and init :: 'o
    and rd :: "Reader option \<Rightarrow> 'o \<Rightarrow> 'd run"
    and conv :: "'d \<Rightarrow> ('a \<times> 'd) run"
  assumes tagged: "\<forall>f \<in> set (group x). fst f = tag \<and> wf_val (snd f)"
    and size_group: "size_of x = int (length (fields_bytes (group x)))"
    and writes_group: "writes (wr x) (fields_bytes (group x))"
    and reads_group: "holds_at p off (fields_bytes (group x)) \<Longrightarrow>
      \<exists>d d'. rd (Some p) (run_save (\<lambda>_. save) off (group x) init) = Some (Ret d) \<and>
        conv d = Some (Ret (norm x, d'))"

text \<open>The cell \<open>c\<close> is not read yet, and reading it gives \<open>v\<close>.\<close>

definition cell_reads ::
  "(Reader option \<Rightarrow> 'o \<Rightarrow> 'd run) \<Rightarrow> ('d \<Rightarrow> ('a \<times> 'd) run) \<Rightarrow> Reader \<Rightarrow> 'a \<Rightarrow> ('d, 'o) cell \<Rightarrow> bool" where
  "cell_reads rd conv p v c \<longleftrightarrow> \<not> cellParsed c \<and>
     (\<exists>d d'. rd (Some p) (cellOffset c) = Some (Ret d) \<and> conv d = Some (Ret (v, d')))"

text \<open>The fields with other tags leave the cell alone.\<close>

lemma run_save_cell_other:
  assumes "\<And>t w off m. t \<noteq> tag \<Longrightarrow> sel (sv t w off m) = sel m" and "\<forall>f \<in> set fs. fst f \<noteq> tag"
  shows "sel (run_save sv k fs m) = sel m"
  using assms(2) by (induction fs arbitrary: k m) (simp_all add: assms(1))

lemma run_save_cell_own:
  assumes "\<And>w off m. sel (sv tag w off m) = onOffset (save w off) (sel m)" and "\<forall>f \<in> set fs. fst f = tag"
  shows "sel (run_save sv k fs m) = onOffset (run_save (\<lambda>_. save) k fs) (sel m)"
  using assms(2) by (induction fs arbitrary: k m) (simp_all add: assms(1) onOffset_def)

definition stores_cell ::
  "(ProtoWireNumber \<Rightarrow> ProtoWireType \<Rightarrow> int \<Rightarrow> 'm \<Rightarrow> 'm) \<Rightarrow> ProtoWireNumber \<Rightarrow>
   (ProtoWireType \<Rightarrow> int \<Rightarrow> 'o \<Rightarrow> 'o) \<Rightarrow> ('m \<Rightarrow> ('d, 'o) cell) \<Rightarrow> bool" where
  "stores_cell sv tag save sel \<longleftrightarrow>
     (\<forall>t w off m. sel (sv t w off m) = (if t = tag then onOffset (save w off) (sel m) else sel m))"

lemma cell_reads_cong: "c = c' \<Longrightarrow> cell_reads rd conv p v c = cell_reads rd conv p v c'"
  by simp

text \<open>One case of the \<^verbatim>\<open>switch\<close>, that of the tag, changes the cell, by \<open>g\<close>.\<close>

inductive own_case :: "('m \<Rightarrow> 'c) \<Rightarrow> ('c \<Rightarrow> 'c) \<Rightarrow> ProtoWireNumber \<Rightarrow> (ProtoWireNumber \<times> ('m \<Rightarrow> 'm)) list \<Rightarrow> bool"
  for sel g tag where
  here: "\<forall>m. sel (f m) = g (sel m) \<Longrightarrow> list_all (\<lambda>(a, f). \<forall>m. sel (f m) = sel m) cs \<Longrightarrow>
    own_case sel g tag ((tag, f) # cs)"
| there: "\<forall>m. sel (f m) = sel m \<Longrightarrow> own_case sel g tag cs \<Longrightarrow> own_case sel g tag ((a, f) # cs)"

lemma tag_switch_keeps: "list_all (\<lambda>(a, f). \<forall>m. h (f m) = h m) cs \<Longrightarrow> h (tag_switch cs t m) = h m"
  by (induction cs) auto

lemma own_case_in: "own_case sel g tag cs \<Longrightarrow> tag \<in> fst ` set cs"
  by (induction rule: own_case.induct) simp_all

lemma own_case_switch:
  "own_case sel g tag cs \<Longrightarrow> distinct (map fst cs) \<Longrightarrow>
   sel (tag_switch cs t m) = (if t = tag then g (sel m) else sel m)"
proof (induction rule: own_case.induct)
  case (there f cs a)
  then show ?case using own_case_in [OF there.hyps(2)] by auto
qed (simp_all add: tag_switch_keeps [where h = sel])

lemma stores_cell_switch:
  assumes "\<And>w off. own_case sel (onOffset (save w off)) tag (cs w off)" and "\<And>w off. distinct (map fst (cs w off))"
  shows "stores_cell (\<lambda>t w off. tag_switch (cs w off) t) tag save sel"
  unfolding stores_cell_def using own_case_switch [OF assms] by blast

text \<open>
  What one field of a message promises once its group stands in a message without other fields of
  its tag: \<open>good_field sv p m0 tag g ready\<close>.
\<close>

definition good_field ::
  "(ProtoWireNumber \<Rightarrow> ProtoWireType \<Rightarrow> int \<Rightarrow> 'm \<Rightarrow> 'm) \<Rightarrow> Reader \<Rightarrow> 'm \<Rightarrow>
   ProtoWireNumber \<Rightarrow> wfield list \<Rightarrow> ('m \<Rightarrow> bool) \<Rightarrow> bool" where
  "good_field sv p m0 tag g ready \<longleftrightarrow>
     (\<forall>k A B. holds_at p (k + length (fields_bytes A)) (fields_bytes g) \<longrightarrow>
        (\<forall>f \<in> set A \<union> set B. fst f \<noteq> tag) \<longrightarrow> ready (run_save sv k (A @ g @ B) m0))"

lemma good_cell_group:
  assumes "stores_cell sv tag save sel" and "cellOffset (sel m0) = init" and "\<not> cellParsed (sel m0)"
    and "\<forall>f \<in> set g. fst f = tag"
    and "\<And>off. holds_at p off (fields_bytes g) \<Longrightarrow>
      \<exists>d d'. rd (Some p) (run_save (\<lambda>_. save) off g init) = Some (Ret d) \<and> conv d = Some (Ret (v, d'))"
  shows "good_field sv p m0 tag g (\<lambda>m. cell_reads rd conv p v (sel m))"
proof -
  have s: "sel (sv t w off m) = (if t = tag then onOffset (save w off) (sel m) else sel m)" for t w off m
    using assms(1) by (simp add: stores_cell_def)
  have "sel (run_save sv k (A @ g @ B) m0) =
      (sel m0)\<lparr>cellOffset := run_save (\<lambda>_. save) (k + length (fields_bytes A)) g init\<rparr>"
    if "\<forall>f \<in> set A \<union> set B. fst f \<noteq> tag" for k A B
  proof -
    have "sel (run_save sv k (A @ g @ B) m0) =
        sel (run_save sv (k + length (fields_bytes A)) g (run_save sv k A m0))"
      using that by (simp add: run_save_cell_other [where sel = sel and tag = tag] s)
    also have "\<dots> = onOffset (run_save (\<lambda>_. save) (k + length (fields_bytes A)) g) (sel (run_save sv k A m0))"
      by (rule run_save_cell_own [where tag = tag]) (use assms(4) in \<open>simp_all add: s\<close>)
    also have "sel (run_save sv k A m0) = sel m0"
      using that by (simp add: run_save_cell_other [where sel = sel and tag = tag] s)
    finally show ?thesis by (simp add: onOffset_def assms(2))
  qed
  then show ?thesis
    using assms(3,5) by (auto simp: good_field_def cell_reads_def)
qed

context lazy_field
begin

lemma good_cell:
  assumes "stores_cell sv tag save sel" and "cellOffset (sel m0) = init" and "\<not> cellParsed (sel m0)"
  shows "good_field sv p m0 tag (group x) (\<lambda>m. cell_reads rd conv p (norm x) (sel m))"
  by (rule good_cell_group [OF assms]) (use tagged reads_group in \<open>simp_all\<close>)

end

text \<open>All the fields of a message: one after the other, under distinct tags.\<close>

inductive good_fields ::
  "(ProtoWireNumber \<Rightarrow> ProtoWireType \<Rightarrow> int \<Rightarrow> 'm \<Rightarrow> 'm) \<Rightarrow> Reader \<Rightarrow> 'm \<Rightarrow>
   ProtoWireNumber list \<Rightarrow> wfield list list \<Rightarrow> ('m \<Rightarrow> bool) list \<Rightarrow> bool" for sv p m0 where
  Nil: "good_fields sv p m0 [] [] []"
| Cons: "good_field sv p m0 t g r \<Longrightarrow> good_fields sv p m0 ts gs rs \<Longrightarrow>
    good_fields sv p m0 (t # ts) (g # gs) (r # rs)"

text \<open>
  The elements of a field may stand anywhere in a message, as long as they stand together: the fields may have
  any order, and unknown ones may stand between them.
\<close>

definition stands_in :: "wfield list \<Rightarrow> ProtoWireNumber \<Rightarrow> wfield list \<Rightarrow> bool" where
  "stands_in fs t g \<longleftrightarrow>
     (let r = dropWhile (\<lambda>f. fst f \<noteq> t) fs
      in takeWhile (\<lambda>f. fst f = t) r = g \<and> list_all (\<lambda>f. fst f \<noteq> t) (dropWhile (\<lambda>f. fst f = t) r))"

lemma stands_in_split:
  assumes "stands_in fs t g"
  obtains A B where "fs = A @ g @ B" "\<And>f. f \<in> set A \<union> set B \<Longrightarrow> fst f \<noteq> t"
proof (rule that)
  let ?r = "dropWhile (\<lambda>f. fst f \<noteq> t) fs"
  note parts = assms [unfolded stands_in_def Let_def list_all_iff]
  show "fs = takeWhile (\<lambda>f. fst f \<noteq> t) fs @ g @ dropWhile (\<lambda>f. fst f = t) ?r"
    unfolding parts [THEN conjunct1, symmetric] takeWhile_dropWhile_id ..
  show "fst f \<noteq> t" if "f \<in> set (takeWhile (\<lambda>f. fst f \<noteq> t) fs) \<union> set (dropWhile (\<lambda>f. fst f = t) ?r)" for f
    using that parts [THEN conjunct2] set_takeWhileD [of f "\<lambda>f. fst f \<noteq> t" fs] by blast
qed

lemma stands_in_append:
  assumes "\<forall>f \<in> set g. fst f = t" and "\<forall>f \<in> set A \<union> set B. fst f \<noteq> t"
  shows "stands_in (A @ g @ B) t g"
proof (cases g)
  case Nil
  then have "dropWhile (\<lambda>f. fst f \<noteq> t) (A @ g @ B) = []"
    using assms(2) by (simp add: dropWhile_eq_Nil_conv ball_Un)
  then show ?thesis using Nil by (simp only: stands_in_def Let_def) simp
next
  case (Cons f g')
  then have "dropWhile (\<lambda>f. fst f \<noteq> t) (A @ g @ B) = g @ B"
    using assms by (simp add: dropWhile_append2)
  moreover have "takeWhile (\<lambda>f. fst f = t) (g @ B) = g" "dropWhile (\<lambda>f. fst f = t) (g @ B) = B"
    using assms by (cases B; simp add: takeWhile_append2 dropWhile_append2)+
  ultimately show ?thesis using assms(2) by (simp add: stands_in_def list_all_iff)
qed

lemma good_fields_ready:
  assumes "good_fields sv p m0 ts gs rs" and "list_all2 (stands_in fs) ts gs" and "holds_at p k (fields_bytes fs)"
  shows "\<forall>r \<in> set rs. r (run_save sv k fs m0)"
  using assms
proof (induction rule: good_fields.induct)
  case (Cons t g r ts gs rs)
  then have "stands_in fs t g" by simp
  then obtain A B where fs: "fs = A @ g @ B" "\<And>f. f \<in> set A \<union> set B \<Longrightarrow> fst f \<noteq> t"
    by (rule stands_in_split) (rule that)
  have "r (run_save sv k fs m0)"
    using Cons.hyps(1) Cons.prems(2) fs unfolding good_field_def by (auto simp: holds_at_append)
  then show ?case using Cons.IH Cons.prems by simp
qed simp

text \<open>In the content of a value the fields stand in the order of their tags.\<close>

lemma stands_in_concat:
  assumes "list_all2 (\<lambda>t g. \<forall>f \<in> set g. fst f = t) ts gs" and "distinct ts"
    and "\<forall>f \<in> set A. fst f \<notin> set ts"
  shows "list_all2 (stands_in (A @ concat gs)) ts gs"
  using assms
proof (induction arbitrary: A rule: list_all2_induct)
  case (Cons t ts g gs)
  have ts: "\<forall>f \<in> set (concat gs). fst f \<in> set ts"
    using Cons.hyps(2) by (induction rule: list_all2_induct) auto
  then have "stands_in (A @ g @ concat gs) t g"
    using Cons.hyps(1) Cons.prems by (intro stands_in_append) auto
  moreover have "list_all2 (stands_in ((A @ g) @ concat gs)) ts gs"
    using Cons.hyps(1) Cons.prems by (intro Cons.IH) auto
  ultimately show ?case by simp
qed simp

section \<open>ToStruct\<close>

text \<open>
  The statement \<open>st\<close> stores \<open>e\<close> in the struct and changes the reader only as \<open>chg\<close> allows: in the
  cell with the update \<open>upd\<close>, which is apart from the reader's buffer.
\<close>

definition within :: "('c \<Rightarrow> 'm \<Rightarrow> 'm) \<Rightarrow> 'm \<Rightarrow> 'm \<Rightarrow> bool" where
  "within upd m m' \<longleftrightarrow> (\<exists>fs. m' = fold upd fs m)"

lemma within_keeps: "within upd m m' \<Longrightarrow> (\<And>f m. h (upd f m) = h m) \<Longrightarrow> h m' = h m"
proof -
  assume h: "\<And>f m. h (upd f m) = h m"
  have "h (fold upd fs m) = h m" for fs
    by (induction fs arbitrary: m) (simp_all add: h)
  then show "within upd m m' \<Longrightarrow> h m' = h m" by (auto simp: within_def)
qed

lemma within_updates: "within upd m (upd f m)" "within upd m (upd g (upd f m))"
  by (auto simp: within_def intro: exI [of _ "[f]"] exI [of _ "[f, g]"])

definition good_stmt ::
  "('m \<Rightarrow> Reader option) \<Rightarrow> Reader \<Rightarrow> ('m \<Rightarrow> 'm \<Rightarrow> bool) \<Rightarrow>
   ('s \<times> 'm option \<Rightarrow> ('s \<times> 'm option) run) \<Rightarrow> ('m \<Rightarrow> bool) \<Rightarrow> ('s \<Rightarrow> 's) \<Rightarrow> bool" where
  "good_stmt bufOf p chg st ready e \<longleftrightarrow>
     (\<forall>m m'. chg m m' \<longrightarrow> bufOf m' = bufOf m) \<and>
     (\<forall>res m. bufOf m = Some p \<longrightarrow> ready m \<longrightarrow>
        (\<exists>m'. st (res, Some m) = Some (Ret (e res, Some m')) \<and> chg m m'))"

lemma good_assignStruct:
  assumes "\<And>f m. bufOf (upd f m) = bufOf m"
  shows "good_stmt bufOf p (within upd)
    (assignStruct (getter (readCell sel upd bufOf rd) dflt) conv upd put)
    (\<lambda>m. cell_reads rd conv p v (sel m)) (put v)"
proof -
  have "\<exists>m'. assignStruct (getter (readCell sel upd bufOf rd) dflt) conv upd put (res, Some m) =
      Some (Ret (put v res, Some m')) \<and> within upd m m'"
    if b: "bufOf m = Some p" and c: "cell_reads rd conv p v (sel m)" for res m
  proof -
    obtain d d' where "\<not> cellParsed (sel m)" "rd (Some p) (cellOffset (sel m)) = Some (Ret d)"
      "conv d = Some (Ret (v, d'))"
      using c by (auto simp: cell_reads_def)
    then show ?thesis
      by (simp add: assignStruct_def getter_def readCell_def lazyRead_def b within_updates)
  qed
  then show ?thesis
    unfolding good_stmt_def using within_keeps [where h = bufOf and upd = upd, OF _ assms] by blast
qed

text \<open>A field that needs no conversion.\<close>

definition plain :: "'a \<Rightarrow> ('a \<times> 'a) run" where
  "plain d = Some (Ret (d, d))"

lemma good_assign:
  assumes "\<And>f m. bufOf (upd f m) = bufOf m"
  shows "good_stmt bufOf p (within upd) (assign (getter (readCell sel upd bufOf rd) dflt) put)
    (\<lambda>m. cell_reads rd plain p v (sel m)) (put v)"
proof -
  have "\<exists>m'. assign (getter (readCell sel upd bufOf rd) dflt) put (res, Some m) =
      Some (Ret (put v res, Some m')) \<and> within upd m m'"
    if "bufOf m = Some p" and "cell_reads rd plain p v (sel m)" for res m
    using that
    by (auto simp: cell_reads_def plain_def assign_def getter_def readCell_def lazyRead_def within_updates)
  then show ?thesis
    unfolding good_stmt_def using within_keeps [where h = bufOf and upd = upd, OF _ assms] by blast
qed

text \<open>Statements that do not disturb what later ones rely on.\<close>

inductive good_stmts ::
  "('m \<Rightarrow> Reader option) \<Rightarrow> Reader \<Rightarrow> ('s \<times> 'm option \<Rightarrow> ('s \<times> 'm option) run) list \<Rightarrow>
   ('m \<Rightarrow> bool) list \<Rightarrow> ('s \<Rightarrow> 's) list \<Rightarrow> bool" for bufOf p where
  Nil: "good_stmts bufOf p [] [] []"
| Cons: "good_stmt bufOf p chg st r e \<Longrightarrow> \<forall>q \<in> set rs. \<forall>m m'. chg m m' \<longrightarrow> q m \<longrightarrow> q m' \<Longrightarrow>
    good_stmts bufOf p sts rs es \<Longrightarrow> good_stmts bufOf p (st # sts) (r # rs) (e # es)"

lemma within_kept:
  assumes "\<And>f m. list_all (\<lambda>q. q (upd f m) = q m) rs"
  shows "\<forall>q \<in> set rs. \<forall>m m'. within upd m m' \<longrightarrow> q m \<longrightarrow> q m'"
proof (intro ballI allI impI)
  fix q m m'
  assume "q \<in> set rs" and w: "within upd m m'" and "q m"
  then have "q (upd f m) = q m" for f m
    using assms by (simp add: list_all_iff)
  from within_keeps [where h = q, OF w this] show "q m'" using \<open>q m\<close> by simp
qed

lemma good_stmts_assign:
  assumes "\<And>f m. bufOf (upd f m) = bufOf m" and "\<And>f m. list_all (\<lambda>q. q (upd f m) = q m) rs"
    and "good_stmts bufOf p sts rs es"
  shows "good_stmts bufOf p (assign (getter (readCell sel upd bufOf rd) dflt) put # sts)
      ((\<lambda>m. cell_reads rd plain p v (sel m)) # rs) (put v # es)"
  by (rule good_stmts.Cons, rule good_assign, rule assms(1), rule within_kept, rule assms(2), rule assms(3))

lemma good_stmts_assignStruct:
  assumes "\<And>f m. bufOf (upd f m) = bufOf m" and "\<And>f m. list_all (\<lambda>q. q (upd f m) = q m) rs"
    and "good_stmts bufOf p sts rs es"
  shows "good_stmts bufOf p (assignStruct (getter (readCell sel upd bufOf rd) dflt) conv upd put # sts)
      ((\<lambda>m. cell_reads rd conv p v (sel m)) # rs) (put v # es)"
  by (rule good_stmts.Cons, rule good_assignStruct, rule assms(1), rule within_kept, rule assms(2), rule assms(3))

lemmas good_stmts_field = good_stmts_assign good_stmts_assignStruct

lemma run_seq_good:
  assumes "good_stmts bufOf p sts rs es" and "bufOf m = Some p" and "\<forall>r \<in> set rs. r m"
  shows "\<exists>m'. run_seq sts (res, Some m) = Some (Ret (fold (\<lambda>e. e) es res, Some m'))"
  using assms
proof (induction arbitrary: res m rule: good_stmts.induct)
  case (Cons chg st r e rs sts es)
  have st: "\<exists>m'. st (res, Some m) = Some (Ret (e res, Some m')) \<and> chg m m'"
    using Cons.hyps(1) Cons.prems by (simp add: good_stmt_def)
  then obtain m' where m': "st (res, Some m) = Some (Ret (e res, Some m'))" "chg m m'"
    by blast
  have "bufOf m' = Some p"
    using Cons.hyps(1) Cons.prems(1) m'(2) by (simp add: good_stmt_def)
  moreover have "\<forall>r \<in> set rs. r m'"
    using Cons.hyps(2) Cons.prems(2) m'(2) by fastforce
  ultimately show ?case using Cons.IH [of m' "e res"] m'(1) by simp
qed simp

section \<open>Reading a message\<close>

lemma run_save_keeps:
  assumes "\<And>t w off m. h (save t w off m) = h m"
  shows "h (run_save save k fs m) = h m"
  by (induction fs arbitrary: k m) (simp_all add: assms)

lemma groups_wf:
  "list_all2 (\<lambda>t g. \<forall>f \<in> set g. fst f = t \<and> wf_val (snd f)) ts gs \<Longrightarrow> list_all valid_tag ts \<Longrightarrow>
   list_all wf_field (concat gs)"
  by (induction rule: list_all2_induct) (auto simp: wf_field_def list_all_iff)

text \<open>
  A value whose groups the fields of a reader read, and the statements of \<^verbatim>\<open>ToStruct\<close> convert, is decoded
  from any message in which the groups stand.
\<close>

lemma decodes_fields:
  assumes "list_all wf_field fs" and "list_all2 (stands_in fs) tags gs"
    and "\<And>t w off m. bufOf (save t w off m) = bufOf m" and "\<And>p. bufOf (fresh p) = Some p"
    and "\<And>p. good_fields save p (fresh p) tags gs (ready p)" and "\<And>p. good_stmts bufOf p stmts (ready p) es"
    and "fold (\<lambda>e. e) es blank = t"
  shows "decodes_to (\<lambda>d. unmarshalLoop save (NewReader d) 0 (fresh (NewReader d))) (toStructWith stmts blank)
    (fields_bytes fs) t"
proof -
  have "\<exists>r r'. unmarshalLoop save (NewReader d) 0 (fresh (NewReader d)) = Some (Ret (r, None)) \<and>
      toStructWith stmts blank (Some r) = Some (Ret (Some t, Some r'))"
    if d: "elems d = fields_bytes fs" "slen d + 10 < 2 ^ 63" for d
  proof -
    let ?p = "NewReader d"
    let ?r = "run_save save 0 fs (fresh ?p)"
    note u = unmarshal_content [OF d assms(1)]
    have "\<forall>q \<in> set (ready ?p). q ?r"
      using good_fields_ready [OF assms(5,2) u(2)] .
    moreover have "bufOf ?r = Some ?p"
      using run_save_keeps [where h = bufOf, OF assms(3)] assms(4) by simp
    ultimately obtain r' where "run_seq stmts (blank, Some ?r) = Some (Ret (t, Some r'))"
      using run_seq_good [OF assms(6), of ?r ?p blank] assms(7) by auto
    then show ?thesis
      by (intro exI [of _ ?r] exI [of _ r']) (simp add: toStructWith_def u(1))
  qed
  then show ?thesis by (simp add: decodes_to_def)
qed

lemma decodes_groups:
  assumes "distinct tags" and "list_all valid_tag tags"
    and "list_all2 (\<lambda>t g. \<forall>f \<in> set g. fst f = t \<and> wf_val (snd f)) tags gs"
    and "\<And>t w off m. bufOf (save t w off m) = bufOf m" and "\<And>p. bufOf (fresh p) = Some p"
    and "\<And>p. good_fields save p (fresh p) tags gs (ready p)" and "\<And>p. good_stmts bufOf p stmts (ready p) es"
    and "fold (\<lambda>e. e) es blank = t"
  shows "decodes_to (\<lambda>d. unmarshalLoop save (NewReader d) 0 (fresh (NewReader d))) (toStructWith stmts blank)
    (fields_bytes (concat gs)) t"
proof (rule decodes_fields [OF groups_wf [OF assms(3,2)] _ assms(4,5,6,7,8)])
  have "list_all2 (\<lambda>t g. \<forall>f \<in> set g. fst f = t) tags gs"
    using assms(3) by (rule list_all2_mono) simp
  then show "list_all2 (stands_in (concat gs)) tags gs"
    using stands_in_concat [of tags gs "[]"] assms(1) by simp
qed

text \<open>The same with what the size and write code do: the promise of a message type about the value.\<close>

lemma codec_at_groups:
  assumes "decodes_to unm to_struct (fields_bytes (concat gs)) (norm s)" and "content s = concat gs"
    and "list_all2 (\<lambda>e g. e = int (length (fields_bytes g))) szs gs" and "contentSize (Some s) = sum_list szs"
    and "list_all2 (\<lambda>st g. writes st (fields_bytes g)) sts gs" and "\<And>w. marshalTo w (Some s) = go_seq sts w"
  shows "codec_at content norm contentSize marshalTo unm to_struct (Some s)"
  using assms(1,2,4,6) sum_sizes_groups [OF assms(3)] go_seq_writes [OF assms(5)]
  by (simp add: codec_at_def ptr_bytes_def writes_def)

section \<open>The interface of a message\<close>

locale lazy_message =
  fixes tags :: "ProtoWireNumber list"
    and groups :: "'s \<Rightarrow> wfield list list"
    and norm :: "'s \<Rightarrow> 's"
    and sizes :: "'s \<Rightarrow> int list"
    and writers :: "'s \<Rightarrow> (Writer \<Rightarrow> Writer go) list"
    and save :: "ProtoWireNumber \<Rightarrow> ProtoWireType \<Rightarrow> int \<Rightarrow> 'm \<Rightarrow> 'm"
    and fresh :: "Reader \<Rightarrow> 'm"
    and bufOf :: "'m \<Rightarrow> Reader option"
    and stmts :: "('s \<times> 'm option \<Rightarrow> ('s \<times> 'm option) run) list"
    and blank :: 's
    and ready :: "Reader \<Rightarrow> 's \<Rightarrow> ('m \<Rightarrow> bool) list"
    and stores :: "'s \<Rightarrow> ('s \<Rightarrow> 's) list"
  assumes distinct_tags: "distinct tags" and valid_tags: "list_all valid_tag tags"
    and tagged: "list_all2 (\<lambda>t g. \<forall>f \<in> set g. fst f = t \<and> wf_val (snd f)) tags (groups s)"
    and sized: "list_all2 (\<lambda>e g. e = int (length (fields_bytes g))) (sizes s) (groups s)"
    and written: "list_all2 (\<lambda>st g. writes st (fields_bytes g)) (writers s) (groups s)"
    and keeps_buf: "bufOf (save t w off m) = bufOf m" and fresh_buf: "bufOf (fresh p) = Some p"
    and saved: "good_fields save p (fresh p) tags (groups s) (ready p s)"
    and converted: "good_stmts bufOf p stmts (ready p s) (stores s)"
    and stored: "fold (\<lambda>e. e) (stores s) blank = norm s"
begin

abbreviation content :: "'s \<Rightarrow> wfield list" where
  "content s \<equiv> concat (groups s)"

lemma content_wf: "list_all wf_field (content s)"
  by (rule groups_wf [OF tagged valid_tags])

lemma decode_content: "decodes_to (\<lambda>d. unmarshalLoop save (NewReader d) 0 (fresh (NewReader d))) (toStructWith stmts blank)
    (fields_bytes (content s)) (norm s)"
  by (rule decodes_groups [OF distinct_tags valid_tags tagged keeps_buf fresh_buf saved converted stored])

lemma decode_any_order:
  assumes "list_all wf_field fs" and "list_all2 (stands_in fs) tags (groups s)"
  shows "decodes_to (\<lambda>d. unmarshalLoop save (NewReader d) 0 (fresh (NewReader d))) (toStructWith stmts blank)
    (fields_bytes fs) (norm s)"
  by (rule decodes_fields [OF assms keeps_buf fresh_buf saved converted stored])

end

sublocale lazy_message \<subseteq> codec: message_codec content norm "contentSizeWith sizes" "marshalToWith writers"
  "\<lambda>d. unmarshalLoop save (NewReader d) 0 (fresh (NewReader d))" "toStructWith stmts blank"
proof
  show "contentSizeWith sizes x = int (length (ptr_bytes content x))" for x
    by (cases x) (simp_all add: contentSizeWith_def ptr_bytes_def sum_sizes_groups [OF sized])
  show "marshalToWith writers w x = writeBytes w (ptr_bytes content x)" if "wf_writer w" for w x
    using that go_seq_writes [OF written] by (cases x) (simp_all add: marshalToWith_def ptr_bytes_def writes_def)
qed (use decode_content in \<open>simp add: decodes_to_def\<close>)

context lazy_message
begin

lemma message: "message_codec content norm (contentSizeWith sizes) (marshalToWith writers)
  (\<lambda>d. unmarshalLoop save (NewReader d) 0 (fresh (NewReader d))) (toStructWith stmts blank)"
  by unfold_locales

end

end
