(* ===== verification/Field_Kinds.thy ===== *)
theory Field_Kinds
  imports Lazy_Messages
begin

text \<open>
  The kinds of field of the generated messages, each an interpretation of \<open>lazy_field\<close>: scalars
  with and without a default, byte strings, lists of them, packed lists, messages and lists of
  messages. Enum fields are \<open>int32\<close> fields.
\<close>

section \<open>Single values\<close>

text \<open>
  A single value is written when \<open>present\<close> holds of it, and read back as the default \<open>d\<close> when it was
  not.
\<close>

definition oneNorm :: "('a \<Rightarrow> bool) \<Rightarrow> 'a \<Rightarrow> 'a \<Rightarrow> 'a" where
  "oneNorm present d x = (if present x then x else d)"

lemma oneNorm_id [simp]: "(\<not> present x \<Longrightarrow> x = d) \<Longrightarrow> oneNorm present d x = x"
  by (simp add: oneNorm_def)

lemma run_save_one: "run_save (\<lambda>_. setOffset) off (opt_field c f) 0 = opt_off c off f 0"
  by (simp add: run_save_opt opt_off_def setOffset_def)

lemma writes_present:
  "writes f (field_bytes x) \<Longrightarrow> writes (\<lambda>w. if c then f w else Ret w) (fields_bytes (opt_field c x))"
  by (rule writes_opt)

context scalar_codec
begin

lemma lazy_scalar:
  assumes "\<And>x. payload (val x) = enc x" and "\<And>x. wire_of (val x) = wire" and "\<And>x. wf_val (val x)"
  shows "lazy_field tag (\<lambda>x. opt_field (present x) (tag, val x)) (oneNorm present d)
    (\<lambda>x. if present x then sizeWithTag size_of tag x else 0)
    (\<lambda>x w. if present x then appendTagged w tag x else Ret w) setOffset 0 (readOne readRaw d) plain"
proof
  fix p off x
  assume h: "holds_at p off (fields_bytes (opt_field (present x) (tag, val x)))"
  have "entryReader readRaw d (Some p) (opt_off (present x) off (tag, val x) 0) = Ret (oneNorm present d x)"
  proof (cases "present x")
    case True
    then show ?thesis using scalar_opt [OF h] assms by (simp add: oneNorm_def)
  qed (simp add: oneNorm_def opt_off_def entryReader_def)
  then show "\<exists>y y'. readOne readRaw d (Some p) (run_save (\<lambda>_. setOffset) off (opt_field (present x) (tag, val x)) 0) =
      Some (Ret y) \<and> plain y = Some (Ret (oneNorm present d x, y'))"
    by (simp add: run_save_one readOne_def plain_def)
qed (simp_all add: opt_field_def size_scalar assms writes_opt [unfolded opt_field_def] writes_scalar length_opt)

lemma run_save_packed:
  "run_save (\<lambda>_. addTyped) off (packed_fields val tag xs) ([], []) =
     (payload_offs off (packed_fields val tag xs), map (\<lambda>f. wire_of (snd f)) (packed_fields val tag xs))"
  by (simp add: packed_fields_def addTyped_def payload_off_def)

lemma lazy_packed:
  assumes "\<And>x. payload (val x) = enc x" and "\<And>x. wire_of (val x) = wire" and "\<And>x. wf_val (val x)"
    and "wire \<noteq> BytesType"
  shows "lazy_field tag (packed_fields val tag) (\<lambda>xs. xs)
    (\<lambda>xs. if xs \<noteq> [] then packedSize size_of tag xs else 0)
    (\<lambda>xs w. if xs \<noteq> [] then packedWriter appendRaw appendTagged size_of w tag xs else Ret w)
    addTyped ([], []) (readPacked readRaw sizedRead d) plain"
proof
  fix p off and xs :: "'a list"
  assume "holds_at p off (fields_bytes (packed_fields val tag xs))"
  then show "\<exists>y y'. readPacked readRaw sizedRead d (Some p) (run_save (\<lambda>_. addTyped) off (packed_fields val tag xs) ([], [])) =
      Some (Ret y) \<and> plain y = Some (Ret (xs, y'))"
    using packed_read [of p off val tag xs d "[]"] assms by (simp add: run_save_packed readPacked_def plain_def)
next
  fix xs :: "'a list"
  show "writes (\<lambda>w. if xs \<noteq> [] then packedWriter appendRaw appendTagged size_of w tag xs else Ret w)
      (fields_bytes (packed_fields val tag xs))"
    by (rule writes_list [where g = "packed_fields val tag"]) (simp_all add: writes_packed assms)
  show "(if xs \<noteq> [] then packedSize size_of tag xs else 0) = int (length (fields_bytes (packed_fields val tag xs)))"
    by (rule length_list [where g = "packed_fields val tag"]) (simp_all add: size_packed assms)
qed (simp add: packed_fields_def assms)

end

section \<open>Byte strings\<close>

lemma lazy_string:
  "lazy_field tag (\<lambda>x. opt_field (present x) (tag, WBytes x)) (oneNorm present d)
     (\<lambda>x. if present x then sizeDelimitedWithTag SizeString tag x else 0)
     (\<lambda>x w. if present x then AppendString w tag x else Ret w) setOffset 0 (readOne ReadString d) plain"
proof
  fix p off x
  assume h: "holds_at p off (fields_bytes (opt_field (present x) (tag, WBytes x)))"
  have "entryReader ReadString d (Some p) (opt_off (present x) off (tag, WBytes x) 0) = Ret (oneNorm present d x)"
    using opt_holds [OF h] by (auto simp: oneNorm_def opt_off_def entryReader_def on_buf_def ReadString_holds)
  then show "\<exists>y y'. readOne ReadString d (Some p) (run_save (\<lambda>_. setOffset) off (opt_field (present x) (tag, WBytes x)) 0) =
      Some (Ret y) \<and> plain y = Some (Ret (oneNorm present d x, y'))"
    by (simp add: run_save_one readOne_def plain_def)
qed (simp_all add: opt_field_def size_bytes writes_opt [unfolded opt_field_def] writes_bytes length_opt)

lemma string_ops: "AppendString = AppendBytes" "SizeString = SizeBytes"
  by (simp_all add: fun_eq_iff AppendString_bytes SizeString_def SizeBytes_def)

lemma lazy_bytes:
  "lazy_field tag (\<lambda>x. opt_field (present x) (tag, WBytes x)) (oneNorm present d)
     (\<lambda>x. if present x then sizeDelimitedWithTag SizeBytes tag x else 0)
     (\<lambda>x w. if present x then AppendBytes w tag x else Ret w) setOffset 0 (readOne ReadByteList d) plain"
  unfolding ReadByteList_eq string_ops [symmetric] by (rule lazy_string)

lemma run_save_many: "run_save (\<lambda>_. addOffset) off fs os = os @ payload_offs off fs"
  by (induction fs arbitrary: off os) (simp_all add: addOffset_def payload_off_def)

lemma bytes_fields_tagged: "\<forall>f \<in> set (bytes_fields tag xs). fst f = tag \<and> wf_val (snd f)"
  by (auto simp: bytes_fields_def)

lemma lazy_strings:
  "lazy_field tag (bytes_fields tag) (\<lambda>xs. xs)
     (\<lambda>xs. if xs \<noteq> [] then repeatedSize (sizeDelimitedWithTag SizeString tag) xs else 0)
     (\<lambda>xs w. if xs \<noteq> [] then repeatedWriter AppendString w tag xs else Ret w)
     addOffset [] (readList ReadString []) plain"
proof
  fix p off and xs :: "byte list list"
  assume "holds_at p off (fields_bytes (bytes_fields tag xs))"
  then show "\<exists>y y'. readList ReadString [] (Some p) (run_save (\<lambda>_. addOffset) off (bytes_fields tag xs) []) =
      Some (Ret y) \<and> plain y = Some (Ret (xs, y'))"
    using repeated_strings [of p off tag xs "[]"] by (simp add: run_save_many readList_def plain_def)
next
  fix xs :: "byte list list"
  show "writes (\<lambda>w. if xs \<noteq> [] then repeatedWriter AppendString w tag xs else Ret w) (fields_bytes (bytes_fields tag xs))"
    by (rule writes_list [where g = "bytes_fields tag"]) (simp_all add: writes_strings)
  show "(if xs \<noteq> [] then repeatedSize (sizeDelimitedWithTag SizeString tag) xs else 0) =
      int (length (fields_bytes (bytes_fields tag xs)))"
    by (rule length_list [where g = "bytes_fields tag"]) (simp_all add: size_strings)
qed (rule bytes_fields_tagged)

lemma lazy_bytess:
  "lazy_field tag (bytes_fields tag) (\<lambda>xs. xs)
     (\<lambda>xs. if xs \<noteq> [] then repeatedSize (sizeDelimitedWithTag SizeBytes tag) xs else 0)
     (\<lambda>xs w. if xs \<noteq> [] then repeatedWriter AppendBytes w tag xs else Ret w)
     addOffset [] (readList ReadByteList []) plain"
  unfolding ReadByteList_eq string_ops [symmetric] by (rule lazy_strings)

section \<open>Messages\<close>

context message_codec
begin

lemma lazy_struct:
  "lazy_field tag (\<lambda>x. opt_field (x \<noteq> None) (tag, WBytes (ptr_bytes content x))) (norm_ptr content norm)
     (\<lambda>x. if x \<noteq> None then sizeDelimitedWithTag contentSize tag x else 0)
     (\<lambda>x w. if x \<noteq> None then structWriter contentSize marshalTo w tag x else Ret w)
     setOffset 0 (structReader unm) (structToStruct to_struct)"
proof
  fix p off x
  assume "holds_at p off (fields_bytes (opt_field (x \<noteq> None) (tag, WBytes (ptr_bytes content x))))"
  from struct_opt [OF this]
  show "\<exists>d d'. structReader unm (Some p)
      (run_save (\<lambda>_. setOffset) off (opt_field (x \<noteq> None) (tag, WBytes (ptr_bytes content x))) 0) = Some (Ret d) \<and>
    structToStruct to_struct d = Some (Ret (norm_ptr content norm x, d'))"
    by (simp add: run_save_one)
next
  fix x
  show "writes (\<lambda>w. if x \<noteq> None then structWriter contentSize marshalTo w tag x else Ret w)
      (fields_bytes (opt_field (x \<noteq> None) (tag, WBytes (ptr_bytes content x))))"
    by (intro writes_opt writes_struct)
  show "(if x \<noteq> None then sizeDelimitedWithTag contentSize tag x else 0) =
      int (length (fields_bytes (opt_field (x \<noteq> None) (tag, WBytes (ptr_bytes content x)))))"
    by (intro length_opt structSize_ptr)
qed (simp add: opt_field_def)

text \<open>A required message is always written, nil as an empty one.\<close>

lemma lazy_required:
  "lazy_field tag (\<lambda>x. opt_field True (tag, WBytes (ptr_bytes content x))) (norm_ptr content norm)
     (\<lambda>x. if True then sizeDelimitedWithTag contentSize tag x else 0)
     (\<lambda>x w. if True then structWriter contentSize marshalTo w tag x else Ret w)
     setOffset 0 (structReader unm) (structToStruct to_struct)"
proof
  fix p off x
  let ?f = "(tag, WBytes (ptr_bytes content x))"
  assume "holds_at p off (fields_bytes (opt_field True ?f))"
  from structReader_ptr [of p "payload_off off ?f" x] opt_holds [OF this]
  show "\<exists>d d'. structReader unm (Some p) (run_save (\<lambda>_. setOffset) off (opt_field True ?f) 0) = Some (Ret d) \<and>
    structToStruct to_struct d = Some (Ret (norm_ptr content norm x, d'))"
    by (simp add: run_save_one opt_off_def)
next
  fix x
  show "writes (\<lambda>w. if True then structWriter contentSize marshalTo w tag x else Ret w)
      (fields_bytes (opt_field True (tag, WBytes (ptr_bytes content x))))"
    by (intro writes_opt writes_struct)
  show "(if True then sizeDelimitedWithTag contentSize tag x else 0) =
      int (length (fields_bytes (opt_field True (tag, WBytes (ptr_bytes content x)))))"
    by (intro length_opt structSize_ptr)
qed (simp add: opt_field_def)

lemma lazy_structs:
  "lazy_field tag (\<lambda>xs. bytes_fields tag (map (ptr_bytes content) xs)) (map (norm_ptr content norm))
     (\<lambda>xs. if xs \<noteq> [] then repeatedSize (sizeDelimitedWithTag contentSize tag) xs else 0)
     (\<lambda>xs w. if xs \<noteq> [] then repeatedWriter (structWriter contentSize marshalTo) w tag xs else Ret w)
     addOffset [] (readStructs unm) (repeatedToStruct to_struct)"
proof
  fix p off and xs :: "'s option list"
  assume "holds_at p off (fields_bytes (bytes_fields tag (map (ptr_bytes content) xs)))"
  from repeatedStruct_ptr [OF this, of "[]"]
  show "\<exists>d d'. readStructs unm (Some p) (run_save (\<lambda>_. addOffset) off (bytes_fields tag (map (ptr_bytes content) xs)) []) =
      Some (Ret d) \<and> repeatedToStruct to_struct d = Some (Ret (map (norm_ptr content norm) xs, d'))"
    by (simp add: run_save_many readStructs_def)
next
  fix xs :: "'s option list"
  show "writes (\<lambda>w. if xs \<noteq> [] then repeatedWriter (structWriter contentSize marshalTo) w tag xs else Ret w)
      (fields_bytes (bytes_fields tag (map (ptr_bytes content) xs)))"
    by (rule writes_list [where g = "\<lambda>xs. bytes_fields tag (map (ptr_bytes content) xs)"], rule writes_structs) simp
  show "(if xs \<noteq> [] then repeatedSize (sizeDelimitedWithTag contentSize tag) xs else 0) =
      int (length (fields_bytes (bytes_fields tag (map (ptr_bytes content) xs))))"
    by (rule length_list [where g = "\<lambda>xs. bytes_fields tag (map (ptr_bytes content) xs)"], rule repeatedStructSize_ptr) simp
qed (rule bytes_fields_tagged)

lemmas tagged_struct = lazy_field.tagged [OF lazy_struct] lazy_field.tagged [OF lazy_required] lazy_field.tagged [OF lazy_structs]
lemmas sized_struct = lazy_field.size_group [OF lazy_struct] lazy_field.size_group [OF lazy_required] lazy_field.size_group [OF lazy_structs]
lemmas written_struct = lazy_field.writes_group [OF lazy_struct] lazy_field.writes_group [OF lazy_required] lazy_field.writes_group [OF lazy_structs]
lemmas saved_struct = lazy_field.good_cell [OF lazy_struct] lazy_field.good_cell [OF lazy_required] lazy_field.good_cell [OF lazy_structs]

end

section \<open>The scalar types\<close>

abbreviation int64_val :: "int64 \<Rightarrow> wval" where "int64_val \<equiv> WVarint"
abbreviation uint64_val :: "uint64 \<Rightarrow> wval" where "uint64_val \<equiv> WVarint"
abbreviation uint32_val :: "uint32 \<Rightarrow> wval" where "uint32_val x \<equiv> WVarint (ucast x)"
abbreviation sint32_val :: "int32 \<Rightarrow> wval" where "sint32_val x \<equiv> WVarint (zigzag (scast x))"
abbreviation sint64_val :: "int64 \<Rightarrow> wval" where "sint64_val x \<equiv> WVarint (zigzag x)"

text \<open>
  Equality of floats as Go compares them, on bit patterns: a NaN equals nothing, the two zeros are
  equal.
\<close>

definition float32_eq :: "float32 \<Rightarrow> float32 \<Rightarrow> bool" where
  "float32_eq a b \<longleftrightarrow>
     (let nan = (\<lambda>x. take_bit 31 x > 0x7F800000); zero = (\<lambda>x. take_bit 31 x = 0)
      in \<not> nan a \<and> \<not> nan b \<and> (a = b \<or> zero a \<and> zero b))"

definition float64_eq :: "float64 \<Rightarrow> float64 \<Rightarrow> bool" where
  "float64_eq a b \<longleftrightarrow>
     (let nan = (\<lambda>x. take_bit 63 x > 0x7FF0000000000000); zero = (\<lambda>x. take_bit 63 x = 0)
      in \<not> nan a \<and> \<not> nan b \<and> (a = b \<or> zero a \<and> zero b))"

interpretation f_int32: lazy_field tag "\<lambda>x. opt_field (present x) (tag, int32_val x)" "oneNorm present d"
  "\<lambda>x. if present x then sizeWithTag SizeInt32 tag x else 0"
  "\<lambda>x w. if present x then AppendInt32 w tag x else Ret w" setOffset 0 "readOne ReadInt32 d" plain for tag present d
  by (rule c_int32.lazy_scalar) simp_all

interpretation p_int32: lazy_field tag "packed_fields int32_val tag" "\<lambda>xs. xs"
  "\<lambda>xs. if xs \<noteq> [] then packedSize SizeInt32 tag xs else 0"
  "\<lambda>xs w. if xs \<noteq> [] then packedWriter AppendInt32WithoutTag AppendInt32 SizeInt32 w tag xs else Ret w"
  addTyped "([], [])" "readPacked ReadInt32 SizedReadInt32 d" plain for tag d
  by (rule c_int32.lazy_packed) simp_all

interpretation f_int64: lazy_field tag "\<lambda>x. opt_field (present x) (tag, int64_val x)" "oneNorm present d"
  "\<lambda>x. if present x then sizeWithTag SizeInt64 tag x else 0"
  "\<lambda>x w. if present x then AppendInt64 w tag x else Ret w" setOffset 0 "readOne ReadInt64 d" plain for tag present d
  by (rule c_int64.lazy_scalar) simp_all

interpretation p_int64: lazy_field tag "packed_fields int64_val tag" "\<lambda>xs. xs"
  "\<lambda>xs. if xs \<noteq> [] then packedSize SizeInt64 tag xs else 0"
  "\<lambda>xs w. if xs \<noteq> [] then packedWriter AppendInt64WithoutTag AppendInt64 SizeInt64 w tag xs else Ret w"
  addTyped "([], [])" "readPacked ReadInt64 SizedReadInt64 d" plain for tag d
  by (rule c_int64.lazy_packed) simp_all

interpretation f_uint32: lazy_field tag "\<lambda>x. opt_field (present x) (tag, uint32_val x)" "oneNorm present d"
  "\<lambda>x. if present x then sizeWithTag SizeUint32 tag x else 0"
  "\<lambda>x w. if present x then AppendUint32 w tag x else Ret w" setOffset 0 "readOne ReadUint32 d" plain for tag present d
  by (rule c_uint32.lazy_scalar) simp_all

interpretation p_uint32: lazy_field tag "packed_fields uint32_val tag" "\<lambda>xs. xs"
  "\<lambda>xs. if xs \<noteq> [] then packedSize SizeUint32 tag xs else 0"
  "\<lambda>xs w. if xs \<noteq> [] then packedWriter AppendUint32WithoutTag AppendUint32 SizeUint32 w tag xs else Ret w"
  addTyped "([], [])" "readPacked ReadUint32 SizedReadUint32 d" plain for tag d
  by (rule c_uint32.lazy_packed) simp_all

interpretation f_uint64: lazy_field tag "\<lambda>x. opt_field (present x) (tag, uint64_val x)" "oneNorm present d"
  "\<lambda>x. if present x then sizeWithTag SizeUint64 tag x else 0"
  "\<lambda>x w. if present x then AppendUint64 w tag x else Ret w" setOffset 0 "readOne ReadUint64 d" plain for tag present d
  by (rule c_uint64.lazy_scalar) simp_all

interpretation p_uint64: lazy_field tag "packed_fields uint64_val tag" "\<lambda>xs. xs"
  "\<lambda>xs. if xs \<noteq> [] then packedSize SizeUint64 tag xs else 0"
  "\<lambda>xs w. if xs \<noteq> [] then packedWriter AppendUint64WithoutTag AppendUint64 SizeUint64 w tag xs else Ret w"
  addTyped "([], [])" "readPacked ReadUint64 SizedReadUint64 d" plain for tag d
  by (rule c_uint64.lazy_packed) simp_all

interpretation f_sint32: lazy_field tag "\<lambda>x. opt_field (present x) (tag, sint32_val x)" "oneNorm present d"
  "\<lambda>x. if present x then sizeWithTag SizeSInt32 tag x else 0"
  "\<lambda>x w. if present x then AppendSInt32 w tag x else Ret w" setOffset 0 "readOne ReadSInt32 d" plain for tag present d
  by (rule c_sint32.lazy_scalar) simp_all

interpretation p_sint32: lazy_field tag "packed_fields sint32_val tag" "\<lambda>xs. xs"
  "\<lambda>xs. if xs \<noteq> [] then packedSize SizeSInt32 tag xs else 0"
  "\<lambda>xs w. if xs \<noteq> [] then packedWriter AppendSInt32WithoutTag AppendSInt32 SizeSInt32 w tag xs else Ret w"
  addTyped "([], [])" "readPacked ReadSInt32 SizedReadSInt32 d" plain for tag d
  by (rule c_sint32.lazy_packed) simp_all

interpretation f_sint64: lazy_field tag "\<lambda>x. opt_field (present x) (tag, sint64_val x)" "oneNorm present d"
  "\<lambda>x. if present x then sizeWithTag SizeSInt64 tag x else 0"
  "\<lambda>x w. if present x then AppendSInt64 w tag x else Ret w" setOffset 0 "readOne ReadSInt64 d" plain for tag present d
  by (rule c_sint64.lazy_scalar) simp_all

interpretation p_sint64: lazy_field tag "packed_fields sint64_val tag" "\<lambda>xs. xs"
  "\<lambda>xs. if xs \<noteq> [] then packedSize SizeSInt64 tag xs else 0"
  "\<lambda>xs w. if xs \<noteq> [] then packedWriter AppendSInt64WithoutTag AppendSInt64 SizeSInt64 w tag xs else Ret w"
  addTyped "([], [])" "readPacked ReadSInt64 SizedReadSInt64 d" plain for tag d
  by (rule c_sint64.lazy_packed) simp_all

interpretation f_bool: lazy_field tag "\<lambda>x. opt_field (present x) (tag, bool_val x)" "oneNorm present d"
  "\<lambda>x. if present x then sizeWithTag SizeBool tag x else 0"
  "\<lambda>x w. if present x then AppendBool w tag x else Ret w" setOffset 0 "readOne ReadBool d" plain for tag present d
  by (rule c_bool.lazy_scalar) simp_all

interpretation p_bool: lazy_field tag "packed_fields bool_val tag" "\<lambda>xs. xs"
  "\<lambda>xs. if xs \<noteq> [] then packedSize SizeBool tag xs else 0"
  "\<lambda>xs w. if xs \<noteq> [] then packedWriter AppendBoolWithoutTag AppendBool SizeBool w tag xs else Ret w"
  addTyped "([], [])" "readPacked ReadBool SizedReadBool d" plain for tag d
  by (rule c_bool.lazy_packed) simp_all

interpretation f_fixed32: lazy_field tag "\<lambda>x. opt_field (present x) (tag, WFixed32 x)" "oneNorm present d"
  "\<lambda>x. if present x then sizeWithTag SizeFixed32 tag x else 0"
  "\<lambda>x w. if present x then AppendFixed32 w tag x else Ret w" setOffset 0 "readOne ReadFixed32 d" plain for tag present d
  by (rule c_fixed32.lazy_scalar) simp_all

interpretation p_fixed32: lazy_field tag "packed_fields WFixed32 tag" "\<lambda>xs. xs"
  "\<lambda>xs. if xs \<noteq> [] then packedSize SizeFixed32 tag xs else 0"
  "\<lambda>xs w. if xs \<noteq> [] then packedWriter AppendFixed32WithoutTag AppendFixed32 SizeFixed32 w tag xs else Ret w"
  addTyped "([], [])" "readPacked ReadFixed32 SizedReadFixed32 d" plain for tag d
  by (rule c_fixed32.lazy_packed) simp_all

interpretation f_fixed64: lazy_field tag "\<lambda>x. opt_field (present x) (tag, WFixed64 x)" "oneNorm present d"
  "\<lambda>x. if present x then sizeWithTag SizeFixed64 tag x else 0"
  "\<lambda>x w. if present x then AppendFixed64 w tag x else Ret w" setOffset 0 "readOne ReadFixed64 d" plain for tag present d
  by (rule c_fixed64.lazy_scalar) simp_all

interpretation p_fixed64: lazy_field tag "packed_fields WFixed64 tag" "\<lambda>xs. xs"
  "\<lambda>xs. if xs \<noteq> [] then packedSize SizeFixed64 tag xs else 0"
  "\<lambda>xs w. if xs \<noteq> [] then packedWriter AppendFixed64WithoutTag AppendFixed64 SizeFixed64 w tag xs else Ret w"
  addTyped "([], [])" "readPacked ReadFixed64 SizedReadFixed64 d" plain for tag d
  by (rule c_fixed64.lazy_packed) simp_all

interpretation f_sfixed32: lazy_field tag "\<lambda>x. opt_field (present x) (tag, WFixed32 x)" "oneNorm present d"
  "\<lambda>x. if present x then sizeWithTag SizeSFixed32 tag x else 0"
  "\<lambda>x w. if present x then AppendSFixed32 w tag x else Ret w" setOffset 0 "readOne ReadSFixed32 d" plain for tag present d
  by (rule c_sfixed32.lazy_scalar) simp_all

interpretation p_sfixed32: lazy_field tag "packed_fields WFixed32 tag" "\<lambda>xs. xs"
  "\<lambda>xs. if xs \<noteq> [] then packedSize SizeSFixed32 tag xs else 0"
  "\<lambda>xs w. if xs \<noteq> [] then packedWriter AppendSFixed32WithoutTag AppendSFixed32 SizeSFixed32 w tag xs else Ret w"
  addTyped "([], [])" "readPacked ReadSFixed32 SizedReadSFixed32 d" plain for tag d
  by (rule c_sfixed32.lazy_packed) simp_all

interpretation f_sfixed64: lazy_field tag "\<lambda>x. opt_field (present x) (tag, WFixed64 x)" "oneNorm present d"
  "\<lambda>x. if present x then sizeWithTag SizeSFixed64 tag x else 0"
  "\<lambda>x w. if present x then AppendSFixed64 w tag x else Ret w" setOffset 0 "readOne ReadSFixed64 d" plain for tag present d
  by (rule c_sfixed64.lazy_scalar) simp_all

interpretation p_sfixed64: lazy_field tag "packed_fields WFixed64 tag" "\<lambda>xs. xs"
  "\<lambda>xs. if xs \<noteq> [] then packedSize SizeSFixed64 tag xs else 0"
  "\<lambda>xs w. if xs \<noteq> [] then packedWriter AppendSFixed64WithoutTag AppendSFixed64 SizeSFixed64 w tag xs else Ret w"
  addTyped "([], [])" "readPacked ReadSFixed64 SizedReadSFixed64 d" plain for tag d
  by (rule c_sfixed64.lazy_packed) simp_all

interpretation f_float32: lazy_field tag "\<lambda>x. opt_field (present x) (tag, WFixed32 x)" "oneNorm present d"
  "\<lambda>x. if present x then sizeWithTag SizeFloat32 tag x else 0"
  "\<lambda>x w. if present x then AppendFloat32 w tag x else Ret w" setOffset 0 "readOne ReadFloat32 d" plain for tag present d
  by (rule c_float32.lazy_scalar) simp_all

interpretation p_float32: lazy_field tag "packed_fields WFixed32 tag" "\<lambda>xs. xs"
  "\<lambda>xs. if xs \<noteq> [] then packedSize SizeFloat32 tag xs else 0"
  "\<lambda>xs w. if xs \<noteq> [] then packedWriter AppendFloat32WithoutTag AppendFloat32 SizeFloat32 w tag xs else Ret w"
  addTyped "([], [])" "readPacked ReadFloat32 SizedReadFloat32 d" plain for tag d
  by (rule c_float32.lazy_packed) simp_all

interpretation f_float64: lazy_field tag "\<lambda>x. opt_field (present x) (tag, WFixed64 x)" "oneNorm present d"
  "\<lambda>x. if present x then sizeWithTag SizeFloat64 tag x else 0"
  "\<lambda>x w. if present x then AppendFloat64 w tag x else Ret w" setOffset 0 "readOne ReadFloat64 d" plain for tag present d
  by (rule c_float64.lazy_scalar) simp_all

interpretation p_float64: lazy_field tag "packed_fields WFixed64 tag" "\<lambda>xs. xs"
  "\<lambda>xs. if xs \<noteq> [] then packedSize SizeFloat64 tag xs else 0"
  "\<lambda>xs w. if xs \<noteq> [] then packedWriter AppendFloat64WithoutTag AppendFloat64 SizeFloat64 w tag xs else Ret w"
  addTyped "([], [])" "readPacked ReadFloat64 SizedReadFloat64 d" plain for tag d
  by (rule c_float64.lazy_packed) simp_all

interpretation f_string: lazy_field tag "\<lambda>x. opt_field (present x) (tag, WBytes x)" "oneNorm present d"
  "\<lambda>x. if present x then sizeDelimitedWithTag SizeString tag x else 0"
  "\<lambda>x w. if present x then AppendString w tag x else Ret w" setOffset 0 "readOne ReadString d" plain for tag present d
  by (rule lazy_string)

interpretation f_bytes: lazy_field tag "\<lambda>x. opt_field (present x) (tag, WBytes x)" "oneNorm present d"
  "\<lambda>x. if present x then sizeDelimitedWithTag SizeBytes tag x else 0"
  "\<lambda>x w. if present x then AppendBytes w tag x else Ret w" setOffset 0 "readOne ReadByteList d" plain for tag present d
  by (rule lazy_bytes)

interpretation p_string: lazy_field tag "bytes_fields tag" "\<lambda>xs. xs"
  "\<lambda>xs. if xs \<noteq> [] then repeatedSize (sizeDelimitedWithTag SizeString tag) xs else 0"
  "\<lambda>xs w. if xs \<noteq> [] then repeatedWriter AppendString w tag xs else Ret w"
  addOffset "[]" "readList ReadString []" plain for tag
  by (rule lazy_strings)

interpretation p_bytes: lazy_field tag "bytes_fields tag" "\<lambda>xs. xs"
  "\<lambda>xs. if xs \<noteq> [] then repeatedSize (sizeDelimitedWithTag SizeBytes tag) xs else 0"
  "\<lambda>xs w. if xs \<noteq> [] then repeatedWriter AppendBytes w tag xs else Ret w"
  addOffset "[]" "readList ReadByteList []" plain for tag
  by (rule lazy_bytess)

definition float32_is_zero :: "float32 \<Rightarrow> bool" where
  "float32_is_zero v \<longleftrightarrow> v = 0 \<or> v = 0x80000000"

text \<open>A value that equals a default other than zero is the default.\<close>

lemma float_defaults:
  "take_bit 31 d \<noteq> 0 \<Longrightarrow> (if \<not> float32_eq x d then x else d) = x"
  "take_bit 63 d' \<noteq> 0 \<Longrightarrow> (if \<not> float64_eq y d' then y else d') = y"
  by (auto simp: float32_eq_def float64_eq_def Let_def)

section \<open>What a message proof uses\<close>

lemma ascending_distinct: "successively (<) (xs :: 'a :: linorder list) \<Longrightarrow> distinct xs"
  by (simp add: strict_sorted_iff successively_conv_sorted_wrt)

text \<open>The laws with the presence of a field as a truth value of its own.\<close>

lemmas field_tagged =
  f_int32.tagged [where present = "\<lambda>_. c" for c]
  f_int64.tagged [where present = "\<lambda>_. c" for c]
  f_uint32.tagged [where present = "\<lambda>_. c" for c]
  f_uint64.tagged [where present = "\<lambda>_. c" for c]
  f_sint32.tagged [where present = "\<lambda>_. c" for c]
  f_sint64.tagged [where present = "\<lambda>_. c" for c]
  f_bool.tagged [where present = "\<lambda>_. c" for c]
  f_fixed32.tagged [where present = "\<lambda>_. c" for c]
  f_fixed64.tagged [where present = "\<lambda>_. c" for c]
  f_sfixed32.tagged [where present = "\<lambda>_. c" for c]
  f_sfixed64.tagged [where present = "\<lambda>_. c" for c]
  f_float32.tagged [where present = "\<lambda>_. c" for c]
  f_float64.tagged [where present = "\<lambda>_. c" for c]
  f_string.tagged [where present = "\<lambda>_. c" for c]
  f_bytes.tagged [where present = "\<lambda>_. c" for c]
  p_int32.tagged
  p_int64.tagged
  p_uint32.tagged
  p_uint64.tagged
  p_sint32.tagged
  p_sint64.tagged
  p_bool.tagged
  p_fixed32.tagged
  p_fixed64.tagged
  p_sfixed32.tagged
  p_sfixed64.tagged
  p_float32.tagged
  p_float64.tagged
  p_string.tagged
  p_bytes.tagged

lemmas field_sized =
  f_int32.size_group [where present = "\<lambda>_. c" for c]
  f_int64.size_group [where present = "\<lambda>_. c" for c]
  f_uint32.size_group [where present = "\<lambda>_. c" for c]
  f_uint64.size_group [where present = "\<lambda>_. c" for c]
  f_sint32.size_group [where present = "\<lambda>_. c" for c]
  f_sint64.size_group [where present = "\<lambda>_. c" for c]
  f_bool.size_group [where present = "\<lambda>_. c" for c]
  f_fixed32.size_group [where present = "\<lambda>_. c" for c]
  f_fixed64.size_group [where present = "\<lambda>_. c" for c]
  f_sfixed32.size_group [where present = "\<lambda>_. c" for c]
  f_sfixed64.size_group [where present = "\<lambda>_. c" for c]
  f_float32.size_group [where present = "\<lambda>_. c" for c]
  f_float64.size_group [where present = "\<lambda>_. c" for c]
  f_string.size_group [where present = "\<lambda>_. c" for c]
  f_bytes.size_group [where present = "\<lambda>_. c" for c]
  p_int32.size_group
  p_int64.size_group
  p_uint32.size_group
  p_uint64.size_group
  p_sint32.size_group
  p_sint64.size_group
  p_bool.size_group
  p_fixed32.size_group
  p_fixed64.size_group
  p_sfixed32.size_group
  p_sfixed64.size_group
  p_float32.size_group
  p_float64.size_group
  p_string.size_group
  p_bytes.size_group

lemmas field_written =
  f_int32.writes_group [where present = "\<lambda>_. c" for c]
  f_int64.writes_group [where present = "\<lambda>_. c" for c]
  f_uint32.writes_group [where present = "\<lambda>_. c" for c]
  f_uint64.writes_group [where present = "\<lambda>_. c" for c]
  f_sint32.writes_group [where present = "\<lambda>_. c" for c]
  f_sint64.writes_group [where present = "\<lambda>_. c" for c]
  f_bool.writes_group [where present = "\<lambda>_. c" for c]
  f_fixed32.writes_group [where present = "\<lambda>_. c" for c]
  f_fixed64.writes_group [where present = "\<lambda>_. c" for c]
  f_sfixed32.writes_group [where present = "\<lambda>_. c" for c]
  f_sfixed64.writes_group [where present = "\<lambda>_. c" for c]
  f_float32.writes_group [where present = "\<lambda>_. c" for c]
  f_float64.writes_group [where present = "\<lambda>_. c" for c]
  f_string.writes_group [where present = "\<lambda>_. c" for c]
  f_bytes.writes_group [where present = "\<lambda>_. c" for c]
  p_int32.writes_group
  p_int64.writes_group
  p_uint32.writes_group
  p_uint64.writes_group
  p_sint32.writes_group
  p_sint64.writes_group
  p_bool.writes_group
  p_fixed32.writes_group
  p_fixed64.writes_group
  p_sfixed32.writes_group
  p_sfixed64.writes_group
  p_float32.writes_group
  p_float64.writes_group
  p_string.writes_group
  p_bytes.writes_group

lemmas field_saved =
  f_int32.good_cell [where present = "\<lambda>_. c" for c, unfolded oneNorm_def]
  f_int64.good_cell [where present = "\<lambda>_. c" for c, unfolded oneNorm_def]
  f_uint32.good_cell [where present = "\<lambda>_. c" for c, unfolded oneNorm_def]
  f_uint64.good_cell [where present = "\<lambda>_. c" for c, unfolded oneNorm_def]
  f_sint32.good_cell [where present = "\<lambda>_. c" for c, unfolded oneNorm_def]
  f_sint64.good_cell [where present = "\<lambda>_. c" for c, unfolded oneNorm_def]
  f_bool.good_cell [where present = "\<lambda>_. c" for c, unfolded oneNorm_def]
  f_fixed32.good_cell [where present = "\<lambda>_. c" for c, unfolded oneNorm_def]
  f_fixed64.good_cell [where present = "\<lambda>_. c" for c, unfolded oneNorm_def]
  f_sfixed32.good_cell [where present = "\<lambda>_. c" for c, unfolded oneNorm_def]
  f_sfixed64.good_cell [where present = "\<lambda>_. c" for c, unfolded oneNorm_def]
  f_float32.good_cell [where present = "\<lambda>_. c" for c, unfolded oneNorm_def]
  f_float64.good_cell [where present = "\<lambda>_. c" for c, unfolded oneNorm_def]
  f_string.good_cell [where present = "\<lambda>_. c" for c, unfolded oneNorm_def]
  f_bytes.good_cell [where present = "\<lambda>_. c" for c, unfolded oneNorm_def]
  p_int32.good_cell
  p_int64.good_cell
  p_uint32.good_cell
  p_uint64.good_cell
  p_sint32.good_cell
  p_sint64.good_cell
  p_bool.good_cell
  p_fixed32.good_cell
  p_fixed64.good_cell
  p_sfixed32.good_cell
  p_sfixed64.good_cell
  p_float32.good_cell
  p_float64.good_cell
  p_string.good_cell
  p_bytes.good_cell

end
