(* ===== verification/Map_Kinds.thy ===== *)
theory Map_Kinds
  imports Map_Fields Field_Kinds
begin

text \<open>
  Map fields as kinds of field of the generated messages: interpretations of \<open>lazy_field\<close> for every pair of key
  and value type that the generated files use, and for maps of messages. The loops over a map may take any
  order, and the size does not depend on it.
\<close>

section \<open>Reading and converting a map\<close>

definition readMap ::
  "(Reader \<Rightarrow> int \<Rightarrow> ('k \<times> int) run) \<Rightarrow> (Reader \<Rightarrow> int \<Rightarrow> ('v \<times> int) run) \<Rightarrow> 'k \<Rightarrow> 'v \<Rightarrow>
   Reader option \<Rightarrow> int list \<Rightarrow> ('k \<times> 'v) list run" where
  "readMap kread vread k0 v0 b wOffset = mapReader kread vread k0 v0 b wOffset []"

definition mapsToStruct ::
  "('r option \<Rightarrow> ('s option \<times> 'r option) run) \<Rightarrow> ('k \<times> 'r option) list \<Rightarrow>
   (('k \<times> 's option) list \<times> ('k \<times> 'r option) list) run" where
  "mapsToStruct to_struct data = (if data \<noteq> [] then mapToStruct to_struct data [] else Some (Ret ([], data)))"

lemma mapsToStruct_eq: "mapsToStruct to_struct data = mapToStruct to_struct data []"
  by (simp add: mapsToStruct_def)

section \<open>The laws of a map field\<close>

lemma map_content_tagged: "\<forall>f \<in> set (map_content kval vval tag kvs). fst f = tag \<and> wf_val (snd f)"
  unfolding map_content_def by (rule bytes_fields_tagged)

context map_field
begin

lemma writes_map_field:
  "writes (\<lambda>w. if kvs \<noteq> [] then mapWriter ksize vsize kapp vapp w tag kvs else Ret w) (fields_bytes (map_content kval vval tag kvs))"
  by (rule writes_list [where g = "map_content kval vval tag"]) (simp_all add: writes_map)

lemma size_map_field:
  "(if kvs \<noteq> [] then mapSize ksize vsize tag kvs else 0) = int (length (fields_bytes (map_content kval vval tag kvs)))"
  by (rule length_list [where g = "map_content kval vval tag"]) (simp_all add: size_map)

lemma size_map_order:
  assumes "mset kvs = mset kvs'"
  shows "mapSize ksize vsize tag kvs = mapSize ksize vsize tag kvs'"
  by (simp add: size_map length_map_content assms)

end

context scalar_map
begin

lemma lazy_map:
  "lazy_field tag (map_content kval vval tag) mapCopy
     (\<lambda>kvs. if kvs \<noteq> [] then mapSize ksize vsize tag kvs else 0)
     (\<lambda>kvs w. if kvs \<noteq> [] then mapWriter ksize vsize kapp vapp w tag kvs else Ret w)
     addOffset [] (readMap kread vread k0 v0) plain"
proof
  fix p off and kvs :: "('k \<times> 'v) list"
  assume "holds_at p off (fields_bytes (map_content kval vval tag kvs))"
  then show "\<exists>d d'. readMap kread vread k0 v0 (Some p) (run_save (\<lambda>_. addOffset) off (map_content kval vval tag kvs) []) =
      Some (Ret d) \<and> plain d = Some (Ret (mapCopy kvs, d'))"
    by (simp add: run_save_many readMap_def plain_def scalar_map_reads)
qed (rule map_content_tagged size_map_field writes_map_field)+

lemmas tagged_map = lazy_field.tagged [OF lazy_map]
lemmas sized_map = lazy_field.size_group [OF lazy_map]
lemmas written_map = lazy_field.writes_group [OF lazy_map]
lemmas saved_map = lazy_field.good_cell [OF lazy_map]

end

context message_codec
begin

lemma lazy_struct_map:
  assumes "entry_part kval ksize kapp kread (=)"
  shows "lazy_field tag (map_content kval (\<lambda>x. WBytes (ptr_bytes content x)) tag) (\<lambda>kvs. map_norm content norm (mapCopy kvs))
     (\<lambda>kvs. if kvs \<noteq> [] then mapSize ksize (sizeDelimitedWithTag contentSize) tag kvs else 0)
     (\<lambda>kvs w. if kvs \<noteq> [] then mapWriter ksize (sizeDelimitedWithTag contentSize) kapp (structWriter contentSize marshalTo) w tag kvs else Ret w)
     addOffset [] (readMap kread (sizedStruct unm) k0 None) (mapsToStruct to_struct)"
proof -
  have f: "map_field kval ksize kapp kread (\<lambda>x. WBytes (ptr_bytes content x)) (sizeDelimitedWithTag contentSize)
      (structWriter contentSize marshalTo) (sizedStruct unm) reads_struct"
    by (intro map_field.intro assms message_part)
  show ?thesis
  proof
    fix p off kvs
    assume "holds_at p off (fields_bytes (map_content kval (\<lambda>x. WBytes (ptr_bytes content x)) tag kvs))"
    then obtain rs where rs: "mapReader kread (sizedStruct unm) k0 None (Some p)
          (payload_offs off (map_content kval (\<lambda>x. WBytes (ptr_bytes content x)) tag kvs)) [] = Some (Ret rs)"
        "list_all2 (\<lambda>(k, v) (k', r). k' = k \<and> reads_struct v r) (mapCopy kvs) rs"
      using map_field.map_reads [OF f] by blast
    moreover obtain rs' where "mapToStruct to_struct rs [] = Some (Ret (map_norm content norm (mapCopy kvs), rs'))"
      using mapToStruct_reads [OF rs(2), of "[]"] mapCopy_distinct by auto
    ultimately show "\<exists>d d'. readMap kread (sizedStruct unm) k0 None (Some p)
          (run_save (\<lambda>_. addOffset) off (map_content kval (\<lambda>x. WBytes (ptr_bytes content x)) tag kvs) []) = Some (Ret d) \<and>
        mapsToStruct to_struct d = Some (Ret (map_norm content norm (mapCopy kvs), d'))"
      by (simp add: run_save_many readMap_def mapsToStruct_eq)
  qed (rule map_content_tagged map_field.size_map_field [OF f] map_field.writes_map_field [OF f])+
qed

end

section \<open>The pairs of key and value types\<close>

interpretation mf_int32_int32: scalar_map int32_val "sizeWithTag SizeInt32" AppendInt32 "sizedScalar SizedReadInt32 0"
  int32_val "sizeWithTag SizeInt32" AppendInt32 "sizedScalar SizedReadInt32 0"
  by (intro scalar_map.intro map_field.intro part_int32.entry_part_axioms part_int32.entry_part_axioms)

interpretation mf_int32_string: scalar_map int32_val "sizeWithTag SizeInt32" AppendInt32 "sizedScalar SizedReadInt32 0"
  WBytes "sizeDelimitedWithTag SizeString" AppendString "sizedScalar SizedReadString []"
  by (intro scalar_map.intro map_field.intro part_int32.entry_part_axioms part_string.entry_part_axioms)

interpretation mf_int32_bytes: scalar_map int32_val "sizeWithTag SizeInt32" AppendInt32 "sizedScalar SizedReadInt32 0"
  WBytes "sizeDelimitedWithTag SizeBytes" AppendBytes "sizedScalar sizedBytes []"
  by (intro scalar_map.intro map_field.intro part_int32.entry_part_axioms part_bytes.entry_part_axioms)

interpretation mf_string_int32: scalar_map WBytes "sizeDelimitedWithTag SizeString" AppendString "sizedScalar SizedReadString []"
  int32_val "sizeWithTag SizeInt32" AppendInt32 "sizedScalar SizedReadInt32 0"
  by (intro scalar_map.intro map_field.intro part_string.entry_part_axioms part_int32.entry_part_axioms)

interpretation mf_string_uint32: scalar_map WBytes "sizeDelimitedWithTag SizeString" AppendString "sizedScalar SizedReadString []"
  uint32_val "sizeWithTag SizeUint32" AppendUint32 "sizedScalar SizedReadUint32 0"
  by (intro scalar_map.intro map_field.intro part_string.entry_part_axioms part_uint32.entry_part_axioms)

interpretation mf_string_string: scalar_map WBytes "sizeDelimitedWithTag SizeString" AppendString "sizedScalar SizedReadString []"
  WBytes "sizeDelimitedWithTag SizeString" AppendString "sizedScalar SizedReadString []"
  by (intro scalar_map.intro map_field.intro part_string.entry_part_axioms part_string.entry_part_axioms)

interpretation mf_string_bytes: scalar_map WBytes "sizeDelimitedWithTag SizeString" AppendString "sizedScalar SizedReadString []"
  WBytes "sizeDelimitedWithTag SizeBytes" AppendBytes "sizedScalar sizedBytes []"
  by (intro scalar_map.intro map_field.intro part_string.entry_part_axioms part_bytes.entry_part_axioms)

interpretation mf_uint32_int32: scalar_map uint32_val "sizeWithTag SizeUint32" AppendUint32 "sizedScalar SizedReadUint32 0"
  int32_val "sizeWithTag SizeInt32" AppendInt32 "sizedScalar SizedReadInt32 0"
  by (intro scalar_map.intro map_field.intro part_uint32.entry_part_axioms part_int32.entry_part_axioms)

interpretation mf_int64_int32: scalar_map WVarint "sizeWithTag SizeInt64" AppendInt64 "sizedScalar SizedReadInt64 0"
  int32_val "sizeWithTag SizeInt32" AppendInt32 "sizedScalar SizedReadInt32 0"
  by (intro scalar_map.intro map_field.intro part_int64.entry_part_axioms part_int32.entry_part_axioms)

section \<open>What a message proof uses\<close>

lemmas map_tagged = map_content_tagged
lemmas map_sized = mf_int32_int32.sized_map mf_int32_string.sized_map mf_int32_bytes.sized_map mf_string_int32.sized_map
  mf_string_uint32.sized_map mf_string_string.sized_map mf_string_bytes.sized_map mf_uint32_int32.sized_map mf_int64_int32.sized_map
lemmas map_written = mf_int32_int32.written_map mf_int32_string.written_map mf_int32_bytes.written_map mf_string_int32.written_map
  mf_string_uint32.written_map mf_string_string.written_map mf_string_bytes.written_map mf_uint32_int32.written_map mf_int64_int32.written_map
lemmas map_saved = mf_int32_int32.saved_map mf_int32_string.saved_map mf_int32_bytes.saved_map mf_string_int32.saved_map
  mf_string_uint32.saved_map mf_string_string.saved_map mf_string_bytes.saved_map mf_uint32_int32.saved_map mf_int64_int32.saved_map

context message_codec
begin

lemmas sized_struct_map = lazy_field.size_group [OF lazy_struct_map [OF part_int32.entry_part_axioms]]
lemmas written_struct_map = lazy_field.writes_group [OF lazy_struct_map [OF part_int32.entry_part_axioms]]
lemmas saved_struct_map = lazy_field.good_cell [OF lazy_struct_map [OF part_int32.entry_part_axioms]]

end

end
