(* ===== verification/TestMap_Types.thy ===== *)
theory TestMap_Types
  imports Map_Kinds
begin

text \<open>
  The enums of \<^verbatim>\<open>src/shared/gremlin_go/gremlinc/testpb/map_test/map_test.pb2.go\<close> and its message type
  \<^verbatim>\<open>TestMap\<close>, whose fields are maps with values of every kind.
\<close>

section \<open>Enums\<close>

type_synonym TestMap_EnumValue = int32

definition TestMap_FOO :: TestMap_EnumValue where "TestMap_FOO = 0"
definition TestMap_BAR :: TestMap_EnumValue where "TestMap_BAR = 1"
definition TestMap_BAZ :: TestMap_EnumValue where "TestMap_BAZ = 2"
definition TestMap_QUX :: TestMap_EnumValue where "TestMap_QUX = 3"

definition TestMap_EnumValue_String :: "TestMap_EnumValue \<Rightarrow> string" where
  "TestMap_EnumValue_String e =
     (if e = TestMap_FOO then ''FOO''
      else if e = TestMap_BAR then ''BAR''
      else if e = TestMap_BAZ then ''BAZ''
      else if e = TestMap_QUX then ''QUX''
      else '''')"

type_synonym ReservedAsMapFieldWithEnumValue_SampleEnum = int32

definition ReservedAsMapFieldWithEnumValue_A :: ReservedAsMapFieldWithEnumValue_SampleEnum where "ReservedAsMapFieldWithEnumValue_A = 0"
definition ReservedAsMapFieldWithEnumValue_B :: ReservedAsMapFieldWithEnumValue_SampleEnum where "ReservedAsMapFieldWithEnumValue_B = 1"

definition ReservedAsMapFieldWithEnumValue_SampleEnum_String :: "ReservedAsMapFieldWithEnumValue_SampleEnum \<Rightarrow> string" where
  "ReservedAsMapFieldWithEnumValue_SampleEnum_String e =
     (if e = ReservedAsMapFieldWithEnumValue_A then ''A''
      else if e = ReservedAsMapFieldWithEnumValue_B then ''B''
      else '''')"

section \<open>TestMap_MessageValue: the reader\<close>

definition wireTestMap_MessageValue_Value :: ProtoWireNumber where "wireTestMap_MessageValue_Value = 1"

lemmas wireTestMap_MessageValue =
  wireTestMap_MessageValue_Value_def

record TestMap_MessageValueReader =
  mbuf :: "Reader option"
  cellValue :: "int32 one_cell"

definition NewTestMap_MessageValueReader :: TestMap_MessageValueReader where
  "NewTestMap_MessageValueReader = \<lparr>
     mbuf = None, cellValue = newCell 0 0\<rparr>"

definition TestMap_MessageValueReader_readValue :: "TestMap_MessageValueReader \<Rightarrow> (int32 \<times> TestMap_MessageValueReader) run" where
  "TestMap_MessageValueReader_readValue = readCell cellValue cellValue_update mbuf (readOne ReadInt32 0)"

definition TestMap_MessageValueReader_GetValue :: "TestMap_MessageValueReader option \<Rightarrow> (int32 \<times> TestMap_MessageValueReader option) run" where
  "TestMap_MessageValueReader_GetValue = getter TestMap_MessageValueReader_readValue 0"

lemmas TestMap_MessageValue_getters =
  TestMap_MessageValueReader_readValue_def TestMap_MessageValueReader_GetValue_def

definition TestMap_MessageValueReader_cases :: "ProtoWireType \<Rightarrow> int \<Rightarrow> (ProtoWireNumber \<times> (TestMap_MessageValueReader \<Rightarrow> TestMap_MessageValueReader)) list" where
  "TestMap_MessageValueReader_cases wire offset = [
     (wireTestMap_MessageValue_Value, \<lambda>m. m\<lparr>cellValue := onOffset (setOffset wire offset) (cellValue m)\<rparr>)]"

definition TestMap_MessageValueReader_save :: "ProtoWireNumber \<Rightarrow> ProtoWireType \<Rightarrow> int \<Rightarrow> TestMap_MessageValueReader \<Rightarrow> TestMap_MessageValueReader" where
  "TestMap_MessageValueReader_save tag wire offset = tag_switch (TestMap_MessageValueReader_cases wire offset) tag"

definition TestMap_MessageValueReader_Unmarshal :: "TestMap_MessageValueReader \<Rightarrow> gslice \<Rightarrow> (TestMap_MessageValueReader \<times> string option) run" where
  "TestMap_MessageValueReader_Unmarshal m data =
     unmarshalLoop TestMap_MessageValueReader_save (NewReader data) 0 (m\<lparr>mbuf := Some (NewReader data)\<rparr>)"

definition TestMap_MessageValueReader_SourceBytes :: "TestMap_MessageValueReader option \<Rightarrow> gslice" where
  "TestMap_MessageValueReader_SourceBytes s = (case s of None \<Rightarrow> nil_slice | Some r \<Rightarrow> Bytes (mbuf r))"

section \<open>TestMap_MessageValue: the struct\<close>

record TestMap_MessageValue =
  Value :: int32

definition TestMap_MessageValue_zero :: TestMap_MessageValue where
  "TestMap_MessageValue_zero = \<lparr>
     Value = 0\<rparr>"

definition TestMap_MessageValue_stmts :: "(TestMap_MessageValue \<times> TestMap_MessageValueReader option \<Rightarrow> (TestMap_MessageValue \<times> TestMap_MessageValueReader option) run) list" where
  "TestMap_MessageValue_stmts = [
     assign TestMap_MessageValueReader_GetValue (\<lambda>v res. res\<lparr>Value := v\<rparr>)]"

definition TestMap_MessageValueReader_ToStruct :: "TestMap_MessageValueReader option \<Rightarrow> (TestMap_MessageValue option \<times> TestMap_MessageValueReader option) run" where
  "TestMap_MessageValueReader_ToStruct = toStructWith (TestMap_MessageValue_stmts) TestMap_MessageValue_zero"

definition TestMap_MessageValue_appends :: "TestMap_MessageValue \<Rightarrow> (Writer \<Rightarrow> Writer go) list" where
  "TestMap_MessageValue_appends s = [
     \<lambda>res. if Value s \<noteq> 0 then AppendInt32 res wireTestMap_MessageValue_Value (Value s) else Ret res]"

definition TestMap_MessageValue_MarshalTo :: "Writer \<Rightarrow> TestMap_MessageValue option \<Rightarrow> Writer go" where
  "TestMap_MessageValue_MarshalTo = marshalToWith (\<lambda>s. TestMap_MessageValue_appends s)"

definition TestMap_MessageValue_sizes :: "TestMap_MessageValue \<Rightarrow> int list" where
  "TestMap_MessageValue_sizes s = [
     if Value s \<noteq> 0 then sizeWithTag SizeInt32 wireTestMap_MessageValue_Value (Value s) else 0]"

definition TestMap_MessageValue_XXX_PbContentSize :: "TestMap_MessageValue option \<Rightarrow> int" where
  "TestMap_MessageValue_XXX_PbContentSize = contentSizeWith (\<lambda>s. TestMap_MessageValue_sizes s)"

definition TestMap_MessageValue_Marshal :: "TestMap_MessageValue option \<Rightarrow> byte list go" where
  "TestMap_MessageValue_Marshal = marshalWith TestMap_MessageValue_XXX_PbContentSize TestMap_MessageValue_MarshalTo"

definition TestMap_MessageValue_Copy :: "TestMap_MessageValue option \<Rightarrow> TestMap_MessageValue option" where
  "TestMap_MessageValue_Copy s =
     (case s of None \<Rightarrow> None | Some s \<Rightarrow> Some \<lparr>
        Value = Value s\<rparr>)"

section \<open>TestMap_MessageValue: the round trip\<close>

definition TestMap_MessageValue_tags :: "ProtoWireNumber list" where
  "TestMap_MessageValue_tags = [
     wireTestMap_MessageValue_Value]"

definition TestMap_MessageValue_groups :: "TestMap_MessageValue \<Rightarrow> wfield list list" where
  "TestMap_MessageValue_groups s = [
     opt_field (Value s \<noteq> 0) (wireTestMap_MessageValue_Value, int32_val (Value s))]"

definition TestMap_MessageValue_content :: "TestMap_MessageValue \<Rightarrow> wfield list" where
  "TestMap_MessageValue_content s = concat (TestMap_MessageValue_groups s)"

text \<open>What a round trip keeps.\<close>

definition TestMap_MessageValue_norm :: "TestMap_MessageValue \<Rightarrow> TestMap_MessageValue" where
  "TestMap_MessageValue_norm s = s"

definition TestMap_MessageValue_ready :: "Reader \<Rightarrow> TestMap_MessageValue \<Rightarrow> (TestMap_MessageValueReader \<Rightarrow> bool) list" where
  "TestMap_MessageValue_ready p s = [
     \<lambda>m. cell_reads (readOne ReadInt32 0) plain p (if Value s \<noteq> 0 then Value s else 0) (cellValue m)]"

definition TestMap_MessageValue_stored :: "TestMap_MessageValue \<Rightarrow> (TestMap_MessageValue \<Rightarrow> TestMap_MessageValue) list" where
  "TestMap_MessageValue_stored s = [
     \<lambda>res. res\<lparr>Value := if Value s \<noteq> 0 then Value s else 0\<rparr>]"

lemma TestMap_MessageValue_cases_distinct: "distinct (map fst (TestMap_MessageValueReader_cases wire offset))"
  by (rule ascending_distinct) (simp add: TestMap_MessageValueReader_cases_def wireTestMap_MessageValue)

lemma TestMap_MessageValue_stores:
  "stores_cell TestMap_MessageValueReader_save wireTestMap_MessageValue_Value setOffset cellValue"
  unfolding TestMap_MessageValueReader_save_def [abs_def] by (rule stores_cell_switch; (rule TestMap_MessageValue_cases_distinct)?; unfold TestMap_MessageValueReader_cases_def; intro own_case.intros; simp)+

lemma TestMap_MessageValue_saved: "good_fields TestMap_MessageValueReader_save p (NewTestMap_MessageValueReader\<lparr>mbuf := Some p\<rparr>) TestMap_MessageValue_tags (TestMap_MessageValue_groups s) (TestMap_MessageValue_ready p s)"
  unfolding TestMap_MessageValue_tags_def TestMap_MessageValue_groups_def TestMap_MessageValue_ready_def
  by (intro good_fields.intros field_saved TestMap_MessageValue_stores) (simp_all add: NewTestMap_MessageValueReader_def newCell_def)

lemma TestMap_MessageValue_converted: "good_stmts mbuf p (TestMap_MessageValue_stmts) (TestMap_MessageValue_ready p s) (TestMap_MessageValue_stored s)"
  unfolding TestMap_MessageValue_stmts_def TestMap_MessageValue_ready_def TestMap_MessageValue_stored_def TestMap_MessageValue_getters append.simps
  by (intro good_stmts_field good_stmts.Nil) (simp_all cong: cell_reads_cong)

interpretation l_TestMap_MessageValue: lazy_message TestMap_MessageValue_tags TestMap_MessageValue_groups TestMap_MessageValue_norm
  "\<lambda>s. TestMap_MessageValue_sizes s" "\<lambda>s. TestMap_MessageValue_appends s"
  TestMap_MessageValueReader_save "\<lambda>p. NewTestMap_MessageValueReader\<lparr>mbuf := Some p\<rparr>" mbuf "TestMap_MessageValue_stmts" TestMap_MessageValue_zero TestMap_MessageValue_ready TestMap_MessageValue_stored
proof
  show "distinct TestMap_MessageValue_tags"
    using TestMap_MessageValue_cases_distinct by (simp only: TestMap_MessageValueReader_cases_def TestMap_MessageValue_tags_def list.map fst_conv)
  show "list_all valid_tag TestMap_MessageValue_tags"
    by (simp add: TestMap_MessageValue_tags_def wireTestMap_MessageValue valid_tag_def)
  show "list_all2 (\<lambda>t g. \<forall>f \<in> set g. fst f = t \<and> wf_val (snd f)) TestMap_MessageValue_tags (TestMap_MessageValue_groups s)" for s
    unfolding TestMap_MessageValue_tags_def TestMap_MessageValue_groups_def by (intro list.rel_intros field_tagged)
  show "list_all2 (\<lambda>e g. e = int (length (fields_bytes g))) (TestMap_MessageValue_sizes s) (TestMap_MessageValue_groups s)" for s
    unfolding TestMap_MessageValue_sizes_def TestMap_MessageValue_groups_def append.simps
    by (intro list.rel_intros field_sized)
  show "list_all2 (\<lambda>st g. writes st (fields_bytes g)) (TestMap_MessageValue_appends s) (TestMap_MessageValue_groups s)" for s
    unfolding TestMap_MessageValue_appends_def TestMap_MessageValue_groups_def append.simps
    by (intro list.rel_intros field_written)
  show "mbuf (TestMap_MessageValueReader_save t w off m) = mbuf m" for t w off m
    unfolding TestMap_MessageValueReader_save_def by (rule tag_switch_keeps) (simp add: TestMap_MessageValueReader_cases_def)
  show "fold (\<lambda>e. e) (TestMap_MessageValue_stored s) TestMap_MessageValue_zero = TestMap_MessageValue_norm s" for s
    unfolding TestMap_MessageValue_stored_def by (simp add: TestMap_MessageValue_zero_def TestMap_MessageValue_norm_def float_defaults)
qed (simp_all add: TestMap_MessageValue_saved TestMap_MessageValue_converted)

interpretation m_TestMap_MessageValue: message_codec TestMap_MessageValue_content TestMap_MessageValue_norm TestMap_MessageValue_XXX_PbContentSize TestMap_MessageValue_MarshalTo
  "TestMap_MessageValueReader_Unmarshal NewTestMap_MessageValueReader" TestMap_MessageValueReader_ToStruct
  using l_TestMap_MessageValue.message
  by (simp only: TestMap_MessageValue_content_def [abs_def] TestMap_MessageValue_XXX_PbContentSize_def TestMap_MessageValue_MarshalTo_def TestMap_MessageValueReader_Unmarshal_def [abs_def] TestMap_MessageValueReader_ToStruct_def)


section \<open>TestMap: the reader\<close>

definition wireTestMap_Int32ToInt32Field :: ProtoWireNumber where "wireTestMap_Int32ToInt32Field = 1"
definition wireTestMap_Int32ToStringField :: ProtoWireNumber where "wireTestMap_Int32ToStringField = 2"
definition wireTestMap_Int32ToBytesField :: ProtoWireNumber where "wireTestMap_Int32ToBytesField = 3"
definition wireTestMap_Int32ToEnumField :: ProtoWireNumber where "wireTestMap_Int32ToEnumField = 4"
definition wireTestMap_Int32ToMessageField :: ProtoWireNumber where "wireTestMap_Int32ToMessageField = 5"
definition wireTestMap_StringToInt32Field :: ProtoWireNumber where "wireTestMap_StringToInt32Field = 6"
definition wireTestMap_Uint32ToInt32Field :: ProtoWireNumber where "wireTestMap_Uint32ToInt32Field = 7"
definition wireTestMap_Int64ToInt32Field :: ProtoWireNumber where "wireTestMap_Int64ToInt32Field = 8"

lemmas wireTestMap =
  wireTestMap_Int32ToInt32Field_def wireTestMap_Int32ToStringField_def
  wireTestMap_Int32ToBytesField_def wireTestMap_Int32ToEnumField_def
  wireTestMap_Int32ToMessageField_def wireTestMap_StringToInt32Field_def
  wireTestMap_Uint32ToInt32Field_def wireTestMap_Int64ToInt32Field_def

record TestMapReader =
  mbuf :: "Reader option"
  cellInt32ToInt32Field :: "(int32 \<times> int32) list_cell"
  cellInt32ToStringField :: "(int32 \<times> gostring) list_cell"
  cellInt32ToBytesField :: "(int32 \<times> byte list) list_cell"
  cellInt32ToEnumField :: "(int32 \<times> TestMap_EnumValue) list_cell"
  cellInt32ToMessageField :: "(int32 \<times> TestMap_MessageValueReader option) list_cell"
  cellStringToInt32Field :: "(gostring \<times> int32) list_cell"
  cellUint32ToInt32Field :: "(uint32 \<times> int32) list_cell"
  cellInt64ToInt32Field :: "(int64 \<times> int32) list_cell"

definition NewTestMapReader :: TestMapReader where
  "NewTestMapReader = \<lparr>
     mbuf = None, cellInt32ToInt32Field = newCell [] [], cellInt32ToStringField = newCell [] [],
     cellInt32ToBytesField = newCell [] [], cellInt32ToEnumField = newCell [] [],
     cellInt32ToMessageField = newCell [] [], cellStringToInt32Field = newCell [] [],
     cellUint32ToInt32Field = newCell [] [], cellInt64ToInt32Field = newCell [] []\<rparr>"

definition TestMapReader_readInt32ToInt32Field :: "TestMapReader \<Rightarrow> ((int32 \<times> int32) list \<times> TestMapReader) run" where
  "TestMapReader_readInt32ToInt32Field = readCell cellInt32ToInt32Field cellInt32ToInt32Field_update mbuf (readMap (sizedScalar SizedReadInt32 0) (sizedScalar SizedReadInt32 0) 0 0)"

definition TestMapReader_GetInt32ToInt32Field :: "TestMapReader option \<Rightarrow> ((int32 \<times> int32) list \<times> TestMapReader option) run" where
  "TestMapReader_GetInt32ToInt32Field = getter TestMapReader_readInt32ToInt32Field []"

definition TestMapReader_readInt32ToStringField :: "TestMapReader \<Rightarrow> ((int32 \<times> gostring) list \<times> TestMapReader) run" where
  "TestMapReader_readInt32ToStringField = readCell cellInt32ToStringField cellInt32ToStringField_update mbuf (readMap (sizedScalar SizedReadInt32 0) (sizedScalar SizedReadString []) 0 [])"

definition TestMapReader_GetInt32ToStringField :: "TestMapReader option \<Rightarrow> ((int32 \<times> gostring) list \<times> TestMapReader option) run" where
  "TestMapReader_GetInt32ToStringField = getter TestMapReader_readInt32ToStringField []"

definition TestMapReader_readInt32ToBytesField :: "TestMapReader \<Rightarrow> ((int32 \<times> byte list) list \<times> TestMapReader) run" where
  "TestMapReader_readInt32ToBytesField = readCell cellInt32ToBytesField cellInt32ToBytesField_update mbuf (readMap (sizedScalar SizedReadInt32 0) (sizedScalar sizedBytes []) 0 [])"

definition TestMapReader_GetInt32ToBytesField :: "TestMapReader option \<Rightarrow> ((int32 \<times> byte list) list \<times> TestMapReader option) run" where
  "TestMapReader_GetInt32ToBytesField = getter TestMapReader_readInt32ToBytesField []"

definition TestMapReader_readInt32ToEnumField :: "TestMapReader \<Rightarrow> ((int32 \<times> TestMap_EnumValue) list \<times> TestMapReader) run" where
  "TestMapReader_readInt32ToEnumField = readCell cellInt32ToEnumField cellInt32ToEnumField_update mbuf (readMap (sizedScalar SizedReadInt32 0) (sizedScalar SizedReadInt32 0) 0 0)"

definition TestMapReader_GetInt32ToEnumField :: "TestMapReader option \<Rightarrow> ((int32 \<times> TestMap_EnumValue) list \<times> TestMapReader option) run" where
  "TestMapReader_GetInt32ToEnumField = getter TestMapReader_readInt32ToEnumField []"

definition TestMapReader_readInt32ToMessageField :: "TestMapReader \<Rightarrow> ((int32 \<times> TestMap_MessageValueReader option) list \<times> TestMapReader) run" where
  "TestMapReader_readInt32ToMessageField = readCell cellInt32ToMessageField cellInt32ToMessageField_update mbuf (readMap (sizedScalar SizedReadInt32 0) (sizedStruct (TestMap_MessageValueReader_Unmarshal NewTestMap_MessageValueReader)) 0 None)"

definition TestMapReader_GetInt32ToMessageField :: "TestMapReader option \<Rightarrow> ((int32 \<times> TestMap_MessageValueReader option) list \<times> TestMapReader option) run" where
  "TestMapReader_GetInt32ToMessageField = getter TestMapReader_readInt32ToMessageField []"

definition TestMapReader_readStringToInt32Field :: "TestMapReader \<Rightarrow> ((gostring \<times> int32) list \<times> TestMapReader) run" where
  "TestMapReader_readStringToInt32Field = readCell cellStringToInt32Field cellStringToInt32Field_update mbuf (readMap (sizedScalar SizedReadString []) (sizedScalar SizedReadInt32 0) [] 0)"

definition TestMapReader_GetStringToInt32Field :: "TestMapReader option \<Rightarrow> ((gostring \<times> int32) list \<times> TestMapReader option) run" where
  "TestMapReader_GetStringToInt32Field = getter TestMapReader_readStringToInt32Field []"

definition TestMapReader_readUint32ToInt32Field :: "TestMapReader \<Rightarrow> ((uint32 \<times> int32) list \<times> TestMapReader) run" where
  "TestMapReader_readUint32ToInt32Field = readCell cellUint32ToInt32Field cellUint32ToInt32Field_update mbuf (readMap (sizedScalar SizedReadUint32 0) (sizedScalar SizedReadInt32 0) 0 0)"

definition TestMapReader_GetUint32ToInt32Field :: "TestMapReader option \<Rightarrow> ((uint32 \<times> int32) list \<times> TestMapReader option) run" where
  "TestMapReader_GetUint32ToInt32Field = getter TestMapReader_readUint32ToInt32Field []"

definition TestMapReader_readInt64ToInt32Field :: "TestMapReader \<Rightarrow> ((int64 \<times> int32) list \<times> TestMapReader) run" where
  "TestMapReader_readInt64ToInt32Field = readCell cellInt64ToInt32Field cellInt64ToInt32Field_update mbuf (readMap (sizedScalar SizedReadInt64 0) (sizedScalar SizedReadInt32 0) 0 0)"

definition TestMapReader_GetInt64ToInt32Field :: "TestMapReader option \<Rightarrow> ((int64 \<times> int32) list \<times> TestMapReader option) run" where
  "TestMapReader_GetInt64ToInt32Field = getter TestMapReader_readInt64ToInt32Field []"

lemmas TestMap_getters =
  TestMapReader_readInt32ToInt32Field_def TestMapReader_GetInt32ToInt32Field_def
  TestMapReader_readInt32ToStringField_def TestMapReader_GetInt32ToStringField_def
  TestMapReader_readInt32ToBytesField_def TestMapReader_GetInt32ToBytesField_def
  TestMapReader_readInt32ToEnumField_def TestMapReader_GetInt32ToEnumField_def
  TestMapReader_readInt32ToMessageField_def TestMapReader_GetInt32ToMessageField_def
  TestMapReader_readStringToInt32Field_def TestMapReader_GetStringToInt32Field_def
  TestMapReader_readUint32ToInt32Field_def TestMapReader_GetUint32ToInt32Field_def
  TestMapReader_readInt64ToInt32Field_def TestMapReader_GetInt64ToInt32Field_def

definition TestMapReader_cases :: "ProtoWireType \<Rightarrow> int \<Rightarrow> (ProtoWireNumber \<times> (TestMapReader \<Rightarrow> TestMapReader)) list" where
  "TestMapReader_cases wire offset = [
     (wireTestMap_Int32ToInt32Field, \<lambda>m. m\<lparr>cellInt32ToInt32Field := onOffset (addOffset wire offset) (cellInt32ToInt32Field m)\<rparr>),
     (wireTestMap_Int32ToStringField, \<lambda>m. m\<lparr>cellInt32ToStringField := onOffset (addOffset wire offset) (cellInt32ToStringField m)\<rparr>),
     (wireTestMap_Int32ToBytesField, \<lambda>m. m\<lparr>cellInt32ToBytesField := onOffset (addOffset wire offset) (cellInt32ToBytesField m)\<rparr>),
     (wireTestMap_Int32ToEnumField, \<lambda>m. m\<lparr>cellInt32ToEnumField := onOffset (addOffset wire offset) (cellInt32ToEnumField m)\<rparr>),
     (wireTestMap_Int32ToMessageField, \<lambda>m. m\<lparr>cellInt32ToMessageField := onOffset (addOffset wire offset) (cellInt32ToMessageField m)\<rparr>),
     (wireTestMap_StringToInt32Field, \<lambda>m. m\<lparr>cellStringToInt32Field := onOffset (addOffset wire offset) (cellStringToInt32Field m)\<rparr>),
     (wireTestMap_Uint32ToInt32Field, \<lambda>m. m\<lparr>cellUint32ToInt32Field := onOffset (addOffset wire offset) (cellUint32ToInt32Field m)\<rparr>),
     (wireTestMap_Int64ToInt32Field, \<lambda>m. m\<lparr>cellInt64ToInt32Field := onOffset (addOffset wire offset) (cellInt64ToInt32Field m)\<rparr>)]"

definition TestMapReader_save :: "ProtoWireNumber \<Rightarrow> ProtoWireType \<Rightarrow> int \<Rightarrow> TestMapReader \<Rightarrow> TestMapReader" where
  "TestMapReader_save tag wire offset = tag_switch (TestMapReader_cases wire offset) tag"

definition TestMapReader_Unmarshal :: "TestMapReader \<Rightarrow> gslice \<Rightarrow> (TestMapReader \<times> string option) run" where
  "TestMapReader_Unmarshal m data =
     unmarshalLoop TestMapReader_save (NewReader data) 0 (m\<lparr>mbuf := Some (NewReader data)\<rparr>)"

definition TestMapReader_SourceBytes :: "TestMapReader option \<Rightarrow> gslice" where
  "TestMapReader_SourceBytes s = (case s of None \<Rightarrow> nil_slice | Some r \<Rightarrow> Bytes (mbuf r))"

section \<open>TestMap: the struct\<close>

record TestMap =
  Int32ToInt32Field :: "(int32 \<times> int32) list"
  Int32ToStringField :: "(int32 \<times> gostring) list"
  Int32ToBytesField :: "(int32 \<times> byte list) list"
  Int32ToEnumField :: "(int32 \<times> TestMap_EnumValue) list"
  Int32ToMessageField :: "(int32 \<times> TestMap_MessageValue option) list"
  StringToInt32Field :: "(gostring \<times> int32) list"
  Uint32ToInt32Field :: "(uint32 \<times> int32) list"
  Int64ToInt32Field :: "(int64 \<times> int32) list"

definition TestMap_zero :: TestMap where
  "TestMap_zero = \<lparr>
     Int32ToInt32Field = [], Int32ToStringField = [], Int32ToBytesField = [],
     Int32ToEnumField = [], Int32ToMessageField = [], StringToInt32Field = [],
     Uint32ToInt32Field = [], Int64ToInt32Field = []\<rparr>"

definition TestMap_stmts :: "(TestMap \<times> TestMapReader option \<Rightarrow> (TestMap \<times> TestMapReader option) run) list" where
  "TestMap_stmts = [
     assign TestMapReader_GetInt32ToInt32Field (\<lambda>v res. res\<lparr>Int32ToInt32Field := v\<rparr>),
     assign TestMapReader_GetInt32ToStringField (\<lambda>v res. res\<lparr>Int32ToStringField := v\<rparr>),
     assign TestMapReader_GetInt32ToBytesField (\<lambda>v res. res\<lparr>Int32ToBytesField := v\<rparr>),
     assign TestMapReader_GetInt32ToEnumField (\<lambda>v res. res\<lparr>Int32ToEnumField := v\<rparr>),
     assignStruct TestMapReader_GetInt32ToMessageField (mapsToStruct TestMap_MessageValueReader_ToStruct) cellInt32ToMessageField_update
       (\<lambda>v res. res\<lparr>Int32ToMessageField := v\<rparr>),
     assign TestMapReader_GetStringToInt32Field (\<lambda>v res. res\<lparr>StringToInt32Field := v\<rparr>),
     assign TestMapReader_GetUint32ToInt32Field (\<lambda>v res. res\<lparr>Uint32ToInt32Field := v\<rparr>),
     assign TestMapReader_GetInt64ToInt32Field (\<lambda>v res. res\<lparr>Int64ToInt32Field := v\<rparr>)]"

definition TestMapReader_ToStruct :: "TestMapReader option \<Rightarrow> (TestMap option \<times> TestMapReader option) run" where
  "TestMapReader_ToStruct = toStructWith (TestMap_stmts) TestMap_zero"

definition TestMap_appends :: "TestMap \<Rightarrow> (Writer \<Rightarrow> Writer go) list" where
  "TestMap_appends s = [
     \<lambda>res. if Int32ToInt32Field s \<noteq> [] then mapWriter (sizeWithTag SizeInt32) (sizeWithTag SizeInt32) AppendInt32 AppendInt32 res wireTestMap_Int32ToInt32Field (Int32ToInt32Field s) else Ret res,
     \<lambda>res. if Int32ToStringField s \<noteq> [] then mapWriter (sizeWithTag SizeInt32) (sizeDelimitedWithTag SizeString) AppendInt32 AppendString res wireTestMap_Int32ToStringField (Int32ToStringField s) else Ret res,
     \<lambda>res. if Int32ToBytesField s \<noteq> [] then mapWriter (sizeWithTag SizeInt32) (sizeDelimitedWithTag SizeBytes) AppendInt32 AppendBytes res wireTestMap_Int32ToBytesField (Int32ToBytesField s) else Ret res,
     \<lambda>res. if Int32ToEnumField s \<noteq> [] then mapWriter (sizeWithTag SizeInt32) (sizeWithTag SizeInt32) AppendInt32 AppendInt32 res wireTestMap_Int32ToEnumField (Int32ToEnumField s) else Ret res,
     \<lambda>res. if Int32ToMessageField s \<noteq> [] then mapWriter (sizeWithTag SizeInt32) (sizeDelimitedWithTag TestMap_MessageValue_XXX_PbContentSize) AppendInt32 (structWriter TestMap_MessageValue_XXX_PbContentSize TestMap_MessageValue_MarshalTo) res wireTestMap_Int32ToMessageField (Int32ToMessageField s) else Ret res,
     \<lambda>res. if StringToInt32Field s \<noteq> [] then mapWriter (sizeDelimitedWithTag SizeString) (sizeWithTag SizeInt32) AppendString AppendInt32 res wireTestMap_StringToInt32Field (StringToInt32Field s) else Ret res,
     \<lambda>res. if Uint32ToInt32Field s \<noteq> [] then mapWriter (sizeWithTag SizeUint32) (sizeWithTag SizeInt32) AppendUint32 AppendInt32 res wireTestMap_Uint32ToInt32Field (Uint32ToInt32Field s) else Ret res,
     \<lambda>res. if Int64ToInt32Field s \<noteq> [] then mapWriter (sizeWithTag SizeInt64) (sizeWithTag SizeInt32) AppendInt64 AppendInt32 res wireTestMap_Int64ToInt32Field (Int64ToInt32Field s) else Ret res]"

definition TestMap_MarshalTo :: "Writer \<Rightarrow> TestMap option \<Rightarrow> Writer go" where
  "TestMap_MarshalTo = marshalToWith (\<lambda>s. TestMap_appends s)"

definition TestMap_sizes :: "TestMap \<Rightarrow> int list" where
  "TestMap_sizes s = [
     if Int32ToInt32Field s \<noteq> [] then mapSize (sizeWithTag SizeInt32) (sizeWithTag SizeInt32) wireTestMap_Int32ToInt32Field (Int32ToInt32Field s) else 0,
     if Int32ToStringField s \<noteq> [] then mapSize (sizeWithTag SizeInt32) (sizeDelimitedWithTag SizeString) wireTestMap_Int32ToStringField (Int32ToStringField s) else 0,
     if Int32ToBytesField s \<noteq> [] then mapSize (sizeWithTag SizeInt32) (sizeDelimitedWithTag SizeBytes) wireTestMap_Int32ToBytesField (Int32ToBytesField s) else 0,
     if Int32ToEnumField s \<noteq> [] then mapSize (sizeWithTag SizeInt32) (sizeWithTag SizeInt32) wireTestMap_Int32ToEnumField (Int32ToEnumField s) else 0,
     if Int32ToMessageField s \<noteq> [] then mapSize (sizeWithTag SizeInt32) (sizeDelimitedWithTag TestMap_MessageValue_XXX_PbContentSize) wireTestMap_Int32ToMessageField (Int32ToMessageField s) else 0,
     if StringToInt32Field s \<noteq> [] then mapSize (sizeDelimitedWithTag SizeString) (sizeWithTag SizeInt32) wireTestMap_StringToInt32Field (StringToInt32Field s) else 0,
     if Uint32ToInt32Field s \<noteq> [] then mapSize (sizeWithTag SizeUint32) (sizeWithTag SizeInt32) wireTestMap_Uint32ToInt32Field (Uint32ToInt32Field s) else 0,
     if Int64ToInt32Field s \<noteq> [] then mapSize (sizeWithTag SizeInt64) (sizeWithTag SizeInt32) wireTestMap_Int64ToInt32Field (Int64ToInt32Field s) else 0]"

definition TestMap_XXX_PbContentSize :: "TestMap option \<Rightarrow> int" where
  "TestMap_XXX_PbContentSize = contentSizeWith (\<lambda>s. TestMap_sizes s)"

text \<open>
  The loops of the size and of the write code may take different orders through a map: the second argument is the
  struct as the second of them finds it.
\<close>

definition TestMap_Marshal :: "TestMap option \<Rightarrow> TestMap option \<Rightarrow> byte list go" where
  "TestMap_Marshal s s' = marshalWith (\<lambda>_. TestMap_XXX_PbContentSize s) TestMap_MarshalTo s'"

definition TestMap_Copy :: "TestMap option \<Rightarrow> TestMap option" where
  "TestMap_Copy s =
     (case s of None \<Rightarrow> None | Some s \<Rightarrow> Some \<lparr>
        Int32ToInt32Field = mapCopy (Int32ToInt32Field s),
        Int32ToStringField = mapCopy (Int32ToStringField s),
        Int32ToBytesField = mapCopy (Int32ToBytesField s),
        Int32ToEnumField = mapCopy (Int32ToEnumField s),
        Int32ToMessageField = mapCopyStructs TestMap_MessageValue_Copy (Int32ToMessageField s),
        StringToInt32Field = mapCopy (StringToInt32Field s),
        Uint32ToInt32Field = mapCopy (Uint32ToInt32Field s),
        Int64ToInt32Field = mapCopy (Int64ToInt32Field s)\<rparr>)"

section \<open>TestMap: the round trip\<close>

definition TestMap_tags :: "ProtoWireNumber list" where
  "TestMap_tags = [
     wireTestMap_Int32ToInt32Field, wireTestMap_Int32ToStringField,
     wireTestMap_Int32ToBytesField, wireTestMap_Int32ToEnumField,
     wireTestMap_Int32ToMessageField, wireTestMap_StringToInt32Field,
     wireTestMap_Uint32ToInt32Field, wireTestMap_Int64ToInt32Field]"

definition TestMap_groups :: "TestMap \<Rightarrow> wfield list list" where
  "TestMap_groups s = [
     map_content int32_val int32_val wireTestMap_Int32ToInt32Field (Int32ToInt32Field s),
     map_content int32_val WBytes wireTestMap_Int32ToStringField (Int32ToStringField s),
     map_content int32_val WBytes wireTestMap_Int32ToBytesField (Int32ToBytesField s),
     map_content int32_val int32_val wireTestMap_Int32ToEnumField (Int32ToEnumField s),
     map_content int32_val (\<lambda>x. WBytes (ptr_bytes TestMap_MessageValue_content x)) wireTestMap_Int32ToMessageField (Int32ToMessageField s),
     map_content WBytes int32_val wireTestMap_StringToInt32Field (StringToInt32Field s),
     map_content uint32_val int32_val wireTestMap_Uint32ToInt32Field (Uint32ToInt32Field s),
     map_content int64_val int32_val wireTestMap_Int64ToInt32Field (Int64ToInt32Field s)]"

definition TestMap_content :: "TestMap \<Rightarrow> wfield list" where
  "TestMap_content s = concat (TestMap_groups s)"

text \<open>What a round trip keeps.\<close>

definition TestMap_norm :: "TestMap \<Rightarrow> TestMap" where
  "TestMap_norm s = s\<lparr>
     Int32ToInt32Field := mapCopy (Int32ToInt32Field s),
     Int32ToStringField := mapCopy (Int32ToStringField s),
     Int32ToBytesField := mapCopy (Int32ToBytesField s),
     Int32ToEnumField := mapCopy (Int32ToEnumField s),
     Int32ToMessageField := map_norm TestMap_MessageValue_content TestMap_MessageValue_norm (mapCopy (Int32ToMessageField s)),
     StringToInt32Field := mapCopy (StringToInt32Field s),
     Uint32ToInt32Field := mapCopy (Uint32ToInt32Field s),
     Int64ToInt32Field := mapCopy (Int64ToInt32Field s)\<rparr>"

definition TestMap_ready :: "Reader \<Rightarrow> TestMap \<Rightarrow> (TestMapReader \<Rightarrow> bool) list" where
  "TestMap_ready p s = [
     \<lambda>m. cell_reads (readMap (sizedScalar SizedReadInt32 0) (sizedScalar SizedReadInt32 0) 0 0) plain p (mapCopy (Int32ToInt32Field s)) (cellInt32ToInt32Field m),
     \<lambda>m. cell_reads (readMap (sizedScalar SizedReadInt32 0) (sizedScalar SizedReadString []) 0 []) plain p (mapCopy (Int32ToStringField s)) (cellInt32ToStringField m),
     \<lambda>m. cell_reads (readMap (sizedScalar SizedReadInt32 0) (sizedScalar sizedBytes []) 0 []) plain p (mapCopy (Int32ToBytesField s)) (cellInt32ToBytesField m),
     \<lambda>m. cell_reads (readMap (sizedScalar SizedReadInt32 0) (sizedScalar SizedReadInt32 0) 0 0) plain p (mapCopy (Int32ToEnumField s)) (cellInt32ToEnumField m),
     \<lambda>m. cell_reads (readMap (sizedScalar SizedReadInt32 0) (sizedStruct (TestMap_MessageValueReader_Unmarshal NewTestMap_MessageValueReader)) 0 None) (mapsToStruct TestMap_MessageValueReader_ToStruct) p (map_norm TestMap_MessageValue_content TestMap_MessageValue_norm (mapCopy (Int32ToMessageField s))) (cellInt32ToMessageField m),
     \<lambda>m. cell_reads (readMap (sizedScalar SizedReadString []) (sizedScalar SizedReadInt32 0) [] 0) plain p (mapCopy (StringToInt32Field s)) (cellStringToInt32Field m),
     \<lambda>m. cell_reads (readMap (sizedScalar SizedReadUint32 0) (sizedScalar SizedReadInt32 0) 0 0) plain p (mapCopy (Uint32ToInt32Field s)) (cellUint32ToInt32Field m),
     \<lambda>m. cell_reads (readMap (sizedScalar SizedReadInt64 0) (sizedScalar SizedReadInt32 0) 0 0) plain p (mapCopy (Int64ToInt32Field s)) (cellInt64ToInt32Field m)]"

definition TestMap_stored :: "TestMap \<Rightarrow> (TestMap \<Rightarrow> TestMap) list" where
  "TestMap_stored s = [
     \<lambda>res. res\<lparr>Int32ToInt32Field := mapCopy (Int32ToInt32Field s)\<rparr>,
     \<lambda>res. res\<lparr>Int32ToStringField := mapCopy (Int32ToStringField s)\<rparr>,
     \<lambda>res. res\<lparr>Int32ToBytesField := mapCopy (Int32ToBytesField s)\<rparr>,
     \<lambda>res. res\<lparr>Int32ToEnumField := mapCopy (Int32ToEnumField s)\<rparr>,
     \<lambda>res. res\<lparr>Int32ToMessageField := map_norm TestMap_MessageValue_content TestMap_MessageValue_norm (mapCopy (Int32ToMessageField s))\<rparr>,
     \<lambda>res. res\<lparr>StringToInt32Field := mapCopy (StringToInt32Field s)\<rparr>,
     \<lambda>res. res\<lparr>Uint32ToInt32Field := mapCopy (Uint32ToInt32Field s)\<rparr>,
     \<lambda>res. res\<lparr>Int64ToInt32Field := mapCopy (Int64ToInt32Field s)\<rparr>]"

lemma TestMap_cases_distinct: "distinct (map fst (TestMapReader_cases wire offset))"
  by (rule ascending_distinct) (simp add: TestMapReader_cases_def wireTestMap)

lemma TestMap_stores:
  "stores_cell TestMapReader_save wireTestMap_Int32ToInt32Field addOffset cellInt32ToInt32Field"
  "stores_cell TestMapReader_save wireTestMap_Int32ToStringField addOffset cellInt32ToStringField"
  "stores_cell TestMapReader_save wireTestMap_Int32ToBytesField addOffset cellInt32ToBytesField"
  "stores_cell TestMapReader_save wireTestMap_Int32ToEnumField addOffset cellInt32ToEnumField"
  "stores_cell TestMapReader_save wireTestMap_Int32ToMessageField addOffset cellInt32ToMessageField"
  "stores_cell TestMapReader_save wireTestMap_StringToInt32Field addOffset cellStringToInt32Field"
  "stores_cell TestMapReader_save wireTestMap_Uint32ToInt32Field addOffset cellUint32ToInt32Field"
  "stores_cell TestMapReader_save wireTestMap_Int64ToInt32Field addOffset cellInt64ToInt32Field"
  unfolding TestMapReader_save_def [abs_def] by (rule stores_cell_switch; (rule TestMap_cases_distinct)?; unfold TestMapReader_cases_def; intro own_case.intros; simp)+

lemma TestMap_saved: "good_fields TestMapReader_save p (NewTestMapReader\<lparr>mbuf := Some p\<rparr>) TestMap_tags (TestMap_groups s) (TestMap_ready p s)"
  unfolding TestMap_tags_def TestMap_groups_def TestMap_ready_def
  by (intro good_fields.intros field_saved m_TestMap_MessageValue.saved_struct map_saved m_TestMap_MessageValue.saved_struct_map TestMap_stores) (simp_all add: NewTestMapReader_def newCell_def)

lemma TestMap_converted: "good_stmts mbuf p (TestMap_stmts) (TestMap_ready p s) (TestMap_stored s)"
  unfolding TestMap_stmts_def TestMap_ready_def TestMap_stored_def TestMap_getters append.simps
  by (intro good_stmts_field good_stmts.Nil) (simp_all cong: cell_reads_cong)

interpretation l_TestMap: lazy_message TestMap_tags TestMap_groups TestMap_norm
  "\<lambda>s. TestMap_sizes s" "\<lambda>s. TestMap_appends s"
  TestMapReader_save "\<lambda>p. NewTestMapReader\<lparr>mbuf := Some p\<rparr>" mbuf "TestMap_stmts" TestMap_zero TestMap_ready TestMap_stored
proof
  show "distinct TestMap_tags"
    using TestMap_cases_distinct by (simp only: TestMapReader_cases_def TestMap_tags_def list.map fst_conv)
  show "list_all valid_tag TestMap_tags"
    by (simp add: TestMap_tags_def wireTestMap valid_tag_def)
  show "list_all2 (\<lambda>t g. \<forall>f \<in> set g. fst f = t \<and> wf_val (snd f)) TestMap_tags (TestMap_groups s)" for s
    unfolding TestMap_tags_def TestMap_groups_def by (intro list.rel_intros field_tagged m_TestMap_MessageValue.tagged_struct map_tagged)
  show "list_all2 (\<lambda>e g. e = int (length (fields_bytes g))) (TestMap_sizes s) (TestMap_groups s)" for s
    unfolding TestMap_sizes_def TestMap_groups_def append.simps
    by (intro list.rel_intros field_sized m_TestMap_MessageValue.sized_struct map_sized m_TestMap_MessageValue.sized_struct_map)
  show "list_all2 (\<lambda>st g. writes st (fields_bytes g)) (TestMap_appends s) (TestMap_groups s)" for s
    unfolding TestMap_appends_def TestMap_groups_def append.simps
    by (intro list.rel_intros field_written m_TestMap_MessageValue.written_struct map_written m_TestMap_MessageValue.written_struct_map)
  show "mbuf (TestMapReader_save t w off m) = mbuf m" for t w off m
    unfolding TestMapReader_save_def by (rule tag_switch_keeps) (simp add: TestMapReader_cases_def)
  show "fold (\<lambda>e. e) (TestMap_stored s) TestMap_zero = TestMap_norm s" for s
    unfolding TestMap_stored_def by (simp add: TestMap_zero_def TestMap_norm_def float_defaults)
qed (simp_all add: TestMap_saved TestMap_converted)

interpretation m_TestMap: message_codec TestMap_content TestMap_norm TestMap_XXX_PbContentSize TestMap_MarshalTo
  "TestMapReader_Unmarshal NewTestMapReader" TestMapReader_ToStruct
  using l_TestMap.message
  by (simp only: TestMap_content_def [abs_def] TestMap_XXX_PbContentSize_def TestMap_MarshalTo_def TestMapReader_Unmarshal_def [abs_def] TestMapReader_ToStruct_def)


end
