(* ===== verification/TestMap_Message.thy ===== *)
theory TestMap_Message
  imports TestMap_Types
begin

text \<open>
  The round trip of the message type \<^verbatim>\<open>TestMap\<close> of
  \<^verbatim>\<open>src/shared/gremlin_go/gremlinc/testpb/map_test/map_test.pb2.go\<close>, whatever order the loops of the size and
  write code take through its maps, what \<^verbatim>\<open>Copy\<close> keeps of them, and what a message that ends inside an entry does
  to the readers.
\<close>

section \<open>Structs with the same maps\<close>

text \<open>The maps of a struct, as a Go program can build them.\<close>

definition distinct_keys :: "TestMap \<Rightarrow> bool" where
  "distinct_keys s \<longleftrightarrow>
     distinct (map fst (Int32ToInt32Field s)) \<and>
     distinct (map fst (Int32ToStringField s)) \<and>
     distinct (map fst (Int32ToBytesField s)) \<and>
     distinct (map fst (Int32ToEnumField s)) \<and>
     distinct (map fst (Int32ToMessageField s)) \<and>
     distinct (map fst (StringToInt32Field s)) \<and>
     distinct (map fst (Uint32ToInt32Field s)) \<and>
     distinct (map fst (Int64ToInt32Field s))"

text \<open>Two structs with the same maps, whose loops may take different orders.\<close>

definition same_maps :: "TestMap \<Rightarrow> TestMap \<Rightarrow> bool" where
  "same_maps s t \<longleftrightarrow>
     mset (Int32ToInt32Field s) = mset (Int32ToInt32Field t) \<and>
     mset (Int32ToStringField s) = mset (Int32ToStringField t) \<and>
     mset (Int32ToBytesField s) = mset (Int32ToBytesField t) \<and>
     mset (Int32ToEnumField s) = mset (Int32ToEnumField t) \<and>
     mset (Int32ToMessageField s) = mset (Int32ToMessageField t) \<and>
     mset (StringToInt32Field s) = mset (StringToInt32Field t) \<and>
     mset (Uint32ToInt32Field s) = mset (Uint32ToInt32Field t) \<and>
     mset (Int64ToInt32Field s) = mset (Int64ToInt32Field t)"

lemma same_maps_size: "same_maps s s' \<Longrightarrow> TestMap_XXX_PbContentSize (Some s) = TestMap_XXX_PbContentSize (Some s')"
  by (simp add: m_TestMap.contentSize_ptr ptr_bytes_def TestMap_content_def TestMap_groups_def same_maps_def length_map_content)

lemma distinct_keys_mset: "mset kvs = mset kvs' \<Longrightarrow> distinct (map fst kvs) \<Longrightarrow> distinct (map fst kvs')"
  by (metis distinct_count_atmost_1 mset_map set_mset_mset)

lemma same_maps_distinct: "same_maps s s' \<Longrightarrow> distinct_keys s \<Longrightarrow> distinct_keys s'"
  by (auto simp: distinct_keys_def same_maps_def elim: distinct_keys_mset)

lemma map_norm_mset: "mset kvs = mset kvs' \<Longrightarrow> mset (map_norm c n kvs) = mset (map_norm c n kvs')"
  by (simp add: map_norm_def)

text \<open>With distinct keys a round trip only drops the entries whose message is nil or empty.\<close>

lemma TestMap_norm_distinct:
  assumes "distinct_keys s"
  shows "TestMap_norm s =
    s\<lparr>Int32ToMessageField := map_norm TestMap_MessageValue_content TestMap_MessageValue_norm (Int32ToMessageField s)\<rparr>"
  using assms by (simp add: TestMap_norm_def distinct_keys_def mapCopy_same)

lemma same_maps_norm:
  assumes "same_maps s s'" and "distinct_keys s"
  shows "same_maps (TestMap_norm s) (TestMap_norm s')"
  using assms map_norm_mset [of "Int32ToMessageField s" "Int32ToMessageField s'"]
  by (simp add: TestMap_norm_distinct same_maps_distinct [OF assms]) (simp add: same_maps_def)

section \<open>The round trip\<close>

text \<open>
  C14. Whatever orders the two loops of \<^verbatim>\<open>Marshal\<close> take through the maps of a struct, it
  returns exactly \<^verbatim>\<open>XXX_PbContentSize\<close> bytes without a panic, \<^verbatim>\<open>Unmarshal\<close> accepts them,
  and \<^verbatim>\<open>ToStruct\<close> returns a struct with the same maps, except that the entries of the message map whose
  message is nil or empty are gone.
\<close>

theorem TestMap_roundtrip:
  assumes "distinct_keys s" and "same_maps s s'" and "TestMap_XXX_PbContentSize (Some s) + 10 < 2 ^ 63"
  shows "\<exists>bs r r' t. TestMap_Marshal (Some s) (Some s') = Ret bs \<and>
    int (length bs) = TestMap_XXX_PbContentSize (Some s) \<and>
    TestMapReader_Unmarshal NewTestMapReader (slice_of bs) = Some (Ret (r, None)) \<and>
    TestMapReader_ToStruct (Some r) = Some (Ret (Some t, r')) \<and> same_maps (TestMap_norm s) t"
proof -
  have sz: "TestMap_XXX_PbContentSize (Some s') = TestMap_XXX_PbContentSize (Some s)"
    by (rule same_maps_size [OF assms(2), symmetric])
  then have "TestMap_Marshal (Some s) (Some s') = marshalWith TestMap_XXX_PbContentSize TestMap_MarshalTo (Some s')"
    by (simp add: TestMap_Marshal_def marshalWith_def)
  then show ?thesis
    using m_TestMap.round_trip [of s'] assms(3) same_maps_norm [OF assms(2,1)] unfolding sz by auto
qed

definition demo_TestMap :: "bool \<Rightarrow> TestMap" where
  "demo_TestMap b = \<lparr>Int32ToInt32Field = (if b then [(1, -1), (-2, 0)] else [(-2, 0), (1, -1)]),
     Int32ToStringField = [(0, [0x61])], Int32ToBytesField = [], Int32ToEnumField = [(5, TestMap_QUX)],
     Int32ToMessageField = [(1, Some \<lparr>Value = 7\<rparr>), (2, Some \<lparr>Value = 0\<rparr>), (3, None)],
     StringToInt32Field = [([], 300)], Uint32ToInt32Field = [(0xFFFFFFFF, 2)], Int64ToInt32Field = [(-1, 1)]\<rparr>"

theorem TestMap_roundtrip_witness:
  "\<exists>bs r r' t. TestMap_Marshal (Some (demo_TestMap True)) (Some (demo_TestMap False)) = Ret bs \<and>
     TestMapReader_Unmarshal NewTestMapReader (slice_of bs) = Some (Ret (r, None)) \<and>
     TestMapReader_ToStruct (Some r) = Some (Ret (Some t, r')) \<and> Int32ToMessageField t = [(1, Some \<lparr>Value = 7\<rparr>)]"
proof -
  have "same_maps (demo_TestMap True) (demo_TestMap False)" by (simp add: same_maps_def demo_TestMap_def)
  moreover have "distinct_keys (demo_TestMap True)" by (simp add: distinct_keys_def demo_TestMap_def)
  moreover have "TestMap_XXX_PbContentSize (Some (demo_TestMap True)) < 200" by code_simp
  moreover have "Int32ToMessageField (TestMap_norm (demo_TestMap True)) = [(1, Some \<lparr>Value = 7\<rparr>)]"
    by code_simp
  ultimately show ?thesis
    using TestMap_roundtrip [of "demo_TestMap True" "demo_TestMap False"] by (auto simp: same_maps_def)
qed

text \<open>\<^verbatim>\<open>Copy\<close> keeps every map, but for the nil messages.\<close>

lemma TestMap_Copy_keeps:
  assumes "distinct_keys s"
  shows "TestMap_Copy (Some s) = Some (s\<lparr>Int32ToMessageField := filter (\<lambda>(k, v). v \<noteq> None) (Int32ToMessageField s)\<rparr>)"
proof -
  have "TestMap_MessageValue_Copy v = v" for v by (cases v) (simp_all add: TestMap_MessageValue_Copy_def)
  then show ?thesis
    using assms by (simp add: TestMap_Copy_def distinct_keys_def mapCopy_same mapCopyStructs_same case_prod_beta')
qed

section \<open>A truncated entry\<close>

text \<open>Field 1, a map entry of two bytes of which only the tag of its key is there.\<close>

definition short_entry :: "byte list" where
  "short_entry = [0x0A, 0x02, 0x08]"

lemmas short_eval = short_entry_def readVarIntAt_def varint_block_def HasNext_def slice_at_def NewReader_def slen_def

lemma short_entry_scan:
  "HasNext (NewReader (slice_of short_entry)) 0 0" "\<not> HasNext (NewReader (slice_of short_entry)) 4 0"
  "ReadTagAt (NewReader (slice_of short_entry)) 0 = Ret (1, BytesType, 1)"
  "SkipData (NewReader (slice_of short_entry)) 1 BytesType = Some (Ret 4)"
  by (simp add: short_eval, simp add: short_eval, simp add: ReadTagAt_def short_eval wire_types Let_def,
      subst SkipData.simps, simp add: short_eval wire_types Let_def int_of_u64_def)

lemma short_entry_reads:
  "SizedReadVarInt (NewReader (slice_of short_entry)) 1 = Ret (2, 1)"
  "ReadTagAt (NewReader (slice_of short_entry)) 2 = Ret (1, VarIntType, 1)"
  "sizedScalar SizedReadInt32 0 (NewReader (slice_of short_entry)) 3 = Some (Ret (0, -1))"
  by (simp_all add: SizedReadVarInt_def sizedScalar_def entrySizedReader_def on_buf_def SizedReadInt32_def ReadTagAt_def
      short_eval wire_types Let_def)

lemma short_entry_loops:
  assumes "mapEntryLoop kread vread p stop off k v = Some r"
  shows "\<not> (kread = sizedScalar SizedReadInt32 0 \<and> p = NewReader (slice_of short_entry) \<and> stop = 4 \<and> off = 2)"
  by (rule mapEntryLoop.raw_induct
      [where P = "\<lambda>kread vread p stop off k v r. \<not> (kread = sizedScalar SizedReadInt32 0 \<and>
         p = NewReader (slice_of short_entry) \<and> stop = 4 \<and> off = 2)", OF _ assms])
    (fastforce simp: short_entry_reads)

lemma short_entry_accepted:
  "TestMapReader_Unmarshal NewTestMapReader (slice_of short_entry) =
     Some (Ret (NewTestMapReader\<lparr>mbuf := Some (NewReader (slice_of short_entry)), 
       cellInt32ToInt32Field := newCell [] [1]\<rparr>, None))"
  unfolding TestMapReader_Unmarshal_def
  by (subst unmarshalLoop.simps, simp add: short_entry_scan, subst unmarshalLoop.simps)
    (simp add: short_entry_scan TestMapReader_save_def TestMapReader_cases_def wireTestMap NewTestMapReader_def
      onOffset_def addOffset_def newCell_def)

text \<open>
  A message that ends inside a map entry is accepted, and the getter of the map
  never returns: a failed read of the key moves the offset back by one, to the tag of the key.
\<close>

theorem map_reader_diverges_on_truncation:
  "\<exists>r. TestMapReader_Unmarshal NewTestMapReader (slice_of short_entry) = Some (Ret (r, None)) \<and>
     TestMapReader_GetInt32ToInt32Field (Some r) = None"
proof -
  have "mapEntryLoop (sizedScalar SizedReadInt32 0) vread (NewReader (slice_of short_entry)) 4 2 k v = None"
    for vread :: "Reader \<Rightarrow> int \<Rightarrow> (int32 \<times> int) run" and k v
    using short_entry_loops by (cases "mapEntryLoop (sizedScalar SizedReadInt32 0) vread (NewReader (slice_of short_entry)) 4 2 k v") fastforce+
  then show ?thesis
    using short_entry_accepted
    by (simp add: TestMap_getters getter_def readCell_def lazyRead_def readMap_def newCell_def short_entry_reads
        NewTestMapReader_def int_of_u64_def)
qed

end
