(* ===== verification/Map_Messages.thy ===== *)
theory Map_Messages
  imports TestMap_Types
begin

text \<open>
  The other message types of \<^verbatim>\<open>src/shared/gremlin_go/gremlinc/testpb/map_test/map_test.pb2.go\<close>: maps with other keys and
  values, under field names that are keywords of some language.
\<close>

section \<open>TestOnChangeEventPropagation: the reader\<close>

definition wireTestOnChangeEventPropagation_OptionalMessage :: ProtoWireNumber where "wireTestOnChangeEventPropagation_OptionalMessage = 1"

lemmas wireTestOnChangeEventPropagation =
  wireTestOnChangeEventPropagation_OptionalMessage_def

record TestOnChangeEventPropagationReader =
  mbuf :: "Reader option"
  cellOptionalMessage :: "(TestMapReader option) one_cell"

definition NewTestOnChangeEventPropagationReader :: TestOnChangeEventPropagationReader where
  "NewTestOnChangeEventPropagationReader = \<lparr>
     mbuf = None, cellOptionalMessage = newCell None 0\<rparr>"

definition TestOnChangeEventPropagationReader_readOptionalMessage :: "TestOnChangeEventPropagationReader \<Rightarrow> (TestMapReader option \<times> TestOnChangeEventPropagationReader) run" where
  "TestOnChangeEventPropagationReader_readOptionalMessage = readCell cellOptionalMessage cellOptionalMessage_update mbuf (structReader (TestMapReader_Unmarshal NewTestMapReader))"

definition TestOnChangeEventPropagationReader_GetOptionalMessage :: "TestOnChangeEventPropagationReader option \<Rightarrow> (TestMapReader option \<times> TestOnChangeEventPropagationReader option) run" where
  "TestOnChangeEventPropagationReader_GetOptionalMessage = getter TestOnChangeEventPropagationReader_readOptionalMessage None"

lemmas TestOnChangeEventPropagation_getters =
  TestOnChangeEventPropagationReader_readOptionalMessage_def TestOnChangeEventPropagationReader_GetOptionalMessage_def

definition TestOnChangeEventPropagationReader_cases :: "ProtoWireType \<Rightarrow> int \<Rightarrow> (ProtoWireNumber \<times> (TestOnChangeEventPropagationReader \<Rightarrow> TestOnChangeEventPropagationReader)) list" where
  "TestOnChangeEventPropagationReader_cases wire offset = [
     (wireTestOnChangeEventPropagation_OptionalMessage, \<lambda>m. m\<lparr>cellOptionalMessage := onOffset (setOffset wire offset) (cellOptionalMessage m)\<rparr>)]"

definition TestOnChangeEventPropagationReader_save :: "ProtoWireNumber \<Rightarrow> ProtoWireType \<Rightarrow> int \<Rightarrow> TestOnChangeEventPropagationReader \<Rightarrow> TestOnChangeEventPropagationReader" where
  "TestOnChangeEventPropagationReader_save tag wire offset = tag_switch (TestOnChangeEventPropagationReader_cases wire offset) tag"

definition TestOnChangeEventPropagationReader_Unmarshal :: "TestOnChangeEventPropagationReader \<Rightarrow> gslice \<Rightarrow> (TestOnChangeEventPropagationReader \<times> string option) run" where
  "TestOnChangeEventPropagationReader_Unmarshal m data =
     unmarshalLoop TestOnChangeEventPropagationReader_save (NewReader data) 0 (m\<lparr>mbuf := Some (NewReader data)\<rparr>)"

definition TestOnChangeEventPropagationReader_SourceBytes :: "TestOnChangeEventPropagationReader option \<Rightarrow> gslice" where
  "TestOnChangeEventPropagationReader_SourceBytes s = (case s of None \<Rightarrow> nil_slice | Some r \<Rightarrow> Bytes (mbuf r))"

section \<open>TestOnChangeEventPropagation: the struct\<close>

record TestOnChangeEventPropagation =
  OptionalMessage :: "TestMap option"

definition TestOnChangeEventPropagation_zero :: TestOnChangeEventPropagation where
  "TestOnChangeEventPropagation_zero = \<lparr>
     OptionalMessage = None\<rparr>"

definition TestOnChangeEventPropagation_stmts :: "(TestOnChangeEventPropagation \<times> TestOnChangeEventPropagationReader option \<Rightarrow> (TestOnChangeEventPropagation \<times> TestOnChangeEventPropagationReader option) run) list" where
  "TestOnChangeEventPropagation_stmts = [
     assignStruct TestOnChangeEventPropagationReader_GetOptionalMessage (structToStruct TestMapReader_ToStruct) cellOptionalMessage_update
       (\<lambda>v res. res\<lparr>OptionalMessage := v\<rparr>)]"

definition TestOnChangeEventPropagationReader_ToStruct :: "TestOnChangeEventPropagationReader option \<Rightarrow> (TestOnChangeEventPropagation option \<times> TestOnChangeEventPropagationReader option) run" where
  "TestOnChangeEventPropagationReader_ToStruct = toStructWith (TestOnChangeEventPropagation_stmts) TestOnChangeEventPropagation_zero"

definition TestOnChangeEventPropagation_appends :: "TestOnChangeEventPropagation \<Rightarrow> (Writer \<Rightarrow> Writer go) list" where
  "TestOnChangeEventPropagation_appends s = [
     \<lambda>res. if OptionalMessage s \<noteq> None then structWriter TestMap_XXX_PbContentSize TestMap_MarshalTo res wireTestOnChangeEventPropagation_OptionalMessage (OptionalMessage s) else Ret res]"

definition TestOnChangeEventPropagation_MarshalTo :: "Writer \<Rightarrow> TestOnChangeEventPropagation option \<Rightarrow> Writer go" where
  "TestOnChangeEventPropagation_MarshalTo = marshalToWith (\<lambda>s. TestOnChangeEventPropagation_appends s)"

definition TestOnChangeEventPropagation_sizes :: "TestOnChangeEventPropagation \<Rightarrow> int list" where
  "TestOnChangeEventPropagation_sizes s = [
     if OptionalMessage s \<noteq> None then sizeDelimitedWithTag TestMap_XXX_PbContentSize wireTestOnChangeEventPropagation_OptionalMessage (OptionalMessage s) else 0]"

definition TestOnChangeEventPropagation_XXX_PbContentSize :: "TestOnChangeEventPropagation option \<Rightarrow> int" where
  "TestOnChangeEventPropagation_XXX_PbContentSize = contentSizeWith (\<lambda>s. TestOnChangeEventPropagation_sizes s)"

text \<open>
  The loops of the size and of the write code may take different orders through a map: the second argument is the
  struct as the second of them finds it.
\<close>

definition TestOnChangeEventPropagation_Marshal :: "TestOnChangeEventPropagation option \<Rightarrow> TestOnChangeEventPropagation option \<Rightarrow> byte list go" where
  "TestOnChangeEventPropagation_Marshal s s' = marshalWith (\<lambda>_. TestOnChangeEventPropagation_XXX_PbContentSize s) TestOnChangeEventPropagation_MarshalTo s'"

definition TestOnChangeEventPropagation_Copy :: "TestOnChangeEventPropagation option \<Rightarrow> TestOnChangeEventPropagation option" where
  "TestOnChangeEventPropagation_Copy s =
     (case s of None \<Rightarrow> None | Some s \<Rightarrow> Some \<lparr>
        OptionalMessage = (case OptionalMessage s of None \<Rightarrow> None | Some x \<Rightarrow> TestMap_Copy (Some x))\<rparr>)"

section \<open>TestOnChangeEventPropagation: the round trip\<close>

definition TestOnChangeEventPropagation_tags :: "ProtoWireNumber list" where
  "TestOnChangeEventPropagation_tags = [
     wireTestOnChangeEventPropagation_OptionalMessage]"

definition TestOnChangeEventPropagation_groups :: "TestOnChangeEventPropagation \<Rightarrow> wfield list list" where
  "TestOnChangeEventPropagation_groups s = [
     opt_field (OptionalMessage s \<noteq> None) (wireTestOnChangeEventPropagation_OptionalMessage, WBytes (ptr_bytes TestMap_content (OptionalMessage s)))]"

definition TestOnChangeEventPropagation_content :: "TestOnChangeEventPropagation \<Rightarrow> wfield list" where
  "TestOnChangeEventPropagation_content s = concat (TestOnChangeEventPropagation_groups s)"

text \<open>What a round trip keeps.\<close>

definition TestOnChangeEventPropagation_norm :: "TestOnChangeEventPropagation \<Rightarrow> TestOnChangeEventPropagation" where
  "TestOnChangeEventPropagation_norm s = s\<lparr>
     OptionalMessage := norm_ptr TestMap_content TestMap_norm (OptionalMessage s)\<rparr>"

definition TestOnChangeEventPropagation_ready :: "Reader \<Rightarrow> TestOnChangeEventPropagation \<Rightarrow> (TestOnChangeEventPropagationReader \<Rightarrow> bool) list" where
  "TestOnChangeEventPropagation_ready p s = [
     \<lambda>m. cell_reads (structReader (TestMapReader_Unmarshal NewTestMapReader)) (structToStruct TestMapReader_ToStruct) p (norm_ptr TestMap_content TestMap_norm (OptionalMessage s)) (cellOptionalMessage m)]"

definition TestOnChangeEventPropagation_stored :: "TestOnChangeEventPropagation \<Rightarrow> (TestOnChangeEventPropagation \<Rightarrow> TestOnChangeEventPropagation) list" where
  "TestOnChangeEventPropagation_stored s = [
     \<lambda>res. res\<lparr>OptionalMessage := norm_ptr TestMap_content TestMap_norm (OptionalMessage s)\<rparr>]"

lemma TestOnChangeEventPropagation_cases_distinct: "distinct (map fst (TestOnChangeEventPropagationReader_cases wire offset))"
  by (rule ascending_distinct) (simp add: TestOnChangeEventPropagationReader_cases_def wireTestOnChangeEventPropagation)

lemma TestOnChangeEventPropagation_stores:
  "stores_cell TestOnChangeEventPropagationReader_save wireTestOnChangeEventPropagation_OptionalMessage setOffset cellOptionalMessage"
  unfolding TestOnChangeEventPropagationReader_save_def [abs_def] by (rule stores_cell_switch; (rule TestOnChangeEventPropagation_cases_distinct)?; unfold TestOnChangeEventPropagationReader_cases_def; intro own_case.intros; simp)+

lemma TestOnChangeEventPropagation_saved: "good_fields TestOnChangeEventPropagationReader_save p (NewTestOnChangeEventPropagationReader\<lparr>mbuf := Some p\<rparr>) TestOnChangeEventPropagation_tags (TestOnChangeEventPropagation_groups s) (TestOnChangeEventPropagation_ready p s)"
  unfolding TestOnChangeEventPropagation_tags_def TestOnChangeEventPropagation_groups_def TestOnChangeEventPropagation_ready_def
  by (intro good_fields.intros field_saved m_TestMap.saved_struct TestOnChangeEventPropagation_stores) (simp_all add: NewTestOnChangeEventPropagationReader_def newCell_def)

lemma TestOnChangeEventPropagation_converted: "good_stmts mbuf p (TestOnChangeEventPropagation_stmts) (TestOnChangeEventPropagation_ready p s) (TestOnChangeEventPropagation_stored s)"
  unfolding TestOnChangeEventPropagation_stmts_def TestOnChangeEventPropagation_ready_def TestOnChangeEventPropagation_stored_def TestOnChangeEventPropagation_getters append.simps
  by (intro good_stmts_field good_stmts.Nil) (simp_all cong: cell_reads_cong)

interpretation l_TestOnChangeEventPropagation: lazy_message TestOnChangeEventPropagation_tags TestOnChangeEventPropagation_groups TestOnChangeEventPropagation_norm
  "\<lambda>s. TestOnChangeEventPropagation_sizes s" "\<lambda>s. TestOnChangeEventPropagation_appends s"
  TestOnChangeEventPropagationReader_save "\<lambda>p. NewTestOnChangeEventPropagationReader\<lparr>mbuf := Some p\<rparr>" mbuf "TestOnChangeEventPropagation_stmts" TestOnChangeEventPropagation_zero TestOnChangeEventPropagation_ready TestOnChangeEventPropagation_stored
proof
  show "distinct TestOnChangeEventPropagation_tags"
    using TestOnChangeEventPropagation_cases_distinct by (simp only: TestOnChangeEventPropagationReader_cases_def TestOnChangeEventPropagation_tags_def list.map fst_conv)
  show "list_all valid_tag TestOnChangeEventPropagation_tags"
    by (simp add: TestOnChangeEventPropagation_tags_def wireTestOnChangeEventPropagation valid_tag_def)
  show "list_all2 (\<lambda>t g. \<forall>f \<in> set g. fst f = t \<and> wf_val (snd f)) TestOnChangeEventPropagation_tags (TestOnChangeEventPropagation_groups s)" for s
    unfolding TestOnChangeEventPropagation_tags_def TestOnChangeEventPropagation_groups_def by (intro list.rel_intros field_tagged m_TestMap.tagged_struct)
  show "list_all2 (\<lambda>e g. e = int (length (fields_bytes g))) (TestOnChangeEventPropagation_sizes s) (TestOnChangeEventPropagation_groups s)" for s
    unfolding TestOnChangeEventPropagation_sizes_def TestOnChangeEventPropagation_groups_def append.simps
    by (intro list.rel_intros field_sized m_TestMap.sized_struct)
  show "list_all2 (\<lambda>st g. writes st (fields_bytes g)) (TestOnChangeEventPropagation_appends s) (TestOnChangeEventPropagation_groups s)" for s
    unfolding TestOnChangeEventPropagation_appends_def TestOnChangeEventPropagation_groups_def append.simps
    by (intro list.rel_intros field_written m_TestMap.written_struct)
  show "mbuf (TestOnChangeEventPropagationReader_save t w off m) = mbuf m" for t w off m
    unfolding TestOnChangeEventPropagationReader_save_def by (rule tag_switch_keeps) (simp add: TestOnChangeEventPropagationReader_cases_def)
  show "fold (\<lambda>e. e) (TestOnChangeEventPropagation_stored s) TestOnChangeEventPropagation_zero = TestOnChangeEventPropagation_norm s" for s
    unfolding TestOnChangeEventPropagation_stored_def by (simp add: TestOnChangeEventPropagation_zero_def TestOnChangeEventPropagation_norm_def float_defaults)
qed (simp_all add: TestOnChangeEventPropagation_saved TestOnChangeEventPropagation_converted)

interpretation m_TestOnChangeEventPropagation: message_codec TestOnChangeEventPropagation_content TestOnChangeEventPropagation_norm TestOnChangeEventPropagation_XXX_PbContentSize TestOnChangeEventPropagation_MarshalTo
  "TestOnChangeEventPropagationReader_Unmarshal NewTestOnChangeEventPropagationReader" TestOnChangeEventPropagationReader_ToStruct
  using l_TestOnChangeEventPropagation.message
  by (simp only: TestOnChangeEventPropagation_content_def [abs_def] TestOnChangeEventPropagation_XXX_PbContentSize_def TestOnChangeEventPropagation_MarshalTo_def TestOnChangeEventPropagationReader_Unmarshal_def [abs_def] TestOnChangeEventPropagationReader_ToStruct_def)


section \<open>BizarroTestMap: the reader\<close>

definition wireBizarroTestMap_Int32ToInt32Field :: ProtoWireNumber where "wireBizarroTestMap_Int32ToInt32Field = 1"
definition wireBizarroTestMap_Int32ToStringField :: ProtoWireNumber where "wireBizarroTestMap_Int32ToStringField = 2"
definition wireBizarroTestMap_Int32ToBytesField :: ProtoWireNumber where "wireBizarroTestMap_Int32ToBytesField = 3"
definition wireBizarroTestMap_Int32ToEnumField :: ProtoWireNumber where "wireBizarroTestMap_Int32ToEnumField = 4"
definition wireBizarroTestMap_Int32ToMessageField :: ProtoWireNumber where "wireBizarroTestMap_Int32ToMessageField = 5"
definition wireBizarroTestMap_StringToInt32Field :: ProtoWireNumber where "wireBizarroTestMap_StringToInt32Field = 6"

lemmas wireBizarroTestMap =
  wireBizarroTestMap_Int32ToInt32Field_def wireBizarroTestMap_Int32ToStringField_def
  wireBizarroTestMap_Int32ToBytesField_def wireBizarroTestMap_Int32ToEnumField_def
  wireBizarroTestMap_Int32ToMessageField_def wireBizarroTestMap_StringToInt32Field_def

record BizarroTestMapReader =
  mbuf :: "Reader option"
  cellInt32ToInt32Field :: "(int32 \<times> byte list) list_cell"
  cellInt32ToStringField :: "(gostring \<times> int32) list_cell"
  cellInt32ToBytesField :: "(gostring \<times> int32) list_cell"
  cellInt32ToEnumField :: "(gostring \<times> byte list) list_cell"
  cellInt32ToMessageField :: "(gostring \<times> byte list) list_cell"
  cellStringToInt32Field :: "(gostring \<times> byte list) list_cell"

definition NewBizarroTestMapReader :: BizarroTestMapReader where
  "NewBizarroTestMapReader = \<lparr>
     mbuf = None, cellInt32ToInt32Field = newCell [] [], cellInt32ToStringField = newCell [] [],
     cellInt32ToBytesField = newCell [] [], cellInt32ToEnumField = newCell [] [],
     cellInt32ToMessageField = newCell [] [], cellStringToInt32Field = newCell [] []\<rparr>"

definition BizarroTestMapReader_readInt32ToInt32Field :: "BizarroTestMapReader \<Rightarrow> ((int32 \<times> byte list) list \<times> BizarroTestMapReader) run" where
  "BizarroTestMapReader_readInt32ToInt32Field = readCell cellInt32ToInt32Field cellInt32ToInt32Field_update mbuf (readMap (sizedScalar SizedReadInt32 0) (sizedScalar sizedBytes []) 0 [])"

definition BizarroTestMapReader_GetInt32ToInt32Field :: "BizarroTestMapReader option \<Rightarrow> ((int32 \<times> byte list) list \<times> BizarroTestMapReader option) run" where
  "BizarroTestMapReader_GetInt32ToInt32Field = getter BizarroTestMapReader_readInt32ToInt32Field []"

definition BizarroTestMapReader_readInt32ToStringField :: "BizarroTestMapReader \<Rightarrow> ((gostring \<times> int32) list \<times> BizarroTestMapReader) run" where
  "BizarroTestMapReader_readInt32ToStringField = readCell cellInt32ToStringField cellInt32ToStringField_update mbuf (readMap (sizedScalar SizedReadString []) (sizedScalar SizedReadInt32 0) [] 0)"

definition BizarroTestMapReader_GetInt32ToStringField :: "BizarroTestMapReader option \<Rightarrow> ((gostring \<times> int32) list \<times> BizarroTestMapReader option) run" where
  "BizarroTestMapReader_GetInt32ToStringField = getter BizarroTestMapReader_readInt32ToStringField []"

definition BizarroTestMapReader_readInt32ToBytesField :: "BizarroTestMapReader \<Rightarrow> ((gostring \<times> int32) list \<times> BizarroTestMapReader) run" where
  "BizarroTestMapReader_readInt32ToBytesField = readCell cellInt32ToBytesField cellInt32ToBytesField_update mbuf (readMap (sizedScalar SizedReadString []) (sizedScalar SizedReadInt32 0) [] 0)"

definition BizarroTestMapReader_GetInt32ToBytesField :: "BizarroTestMapReader option \<Rightarrow> ((gostring \<times> int32) list \<times> BizarroTestMapReader option) run" where
  "BizarroTestMapReader_GetInt32ToBytesField = getter BizarroTestMapReader_readInt32ToBytesField []"

definition BizarroTestMapReader_readInt32ToEnumField :: "BizarroTestMapReader \<Rightarrow> ((gostring \<times> byte list) list \<times> BizarroTestMapReader) run" where
  "BizarroTestMapReader_readInt32ToEnumField = readCell cellInt32ToEnumField cellInt32ToEnumField_update mbuf (readMap (sizedScalar SizedReadString []) (sizedScalar sizedBytes []) [] [])"

definition BizarroTestMapReader_GetInt32ToEnumField :: "BizarroTestMapReader option \<Rightarrow> ((gostring \<times> byte list) list \<times> BizarroTestMapReader option) run" where
  "BizarroTestMapReader_GetInt32ToEnumField = getter BizarroTestMapReader_readInt32ToEnumField []"

definition BizarroTestMapReader_readInt32ToMessageField :: "BizarroTestMapReader \<Rightarrow> ((gostring \<times> byte list) list \<times> BizarroTestMapReader) run" where
  "BizarroTestMapReader_readInt32ToMessageField = readCell cellInt32ToMessageField cellInt32ToMessageField_update mbuf (readMap (sizedScalar SizedReadString []) (sizedScalar sizedBytes []) [] [])"

definition BizarroTestMapReader_GetInt32ToMessageField :: "BizarroTestMapReader option \<Rightarrow> ((gostring \<times> byte list) list \<times> BizarroTestMapReader option) run" where
  "BizarroTestMapReader_GetInt32ToMessageField = getter BizarroTestMapReader_readInt32ToMessageField []"

definition BizarroTestMapReader_readStringToInt32Field :: "BizarroTestMapReader \<Rightarrow> ((gostring \<times> byte list) list \<times> BizarroTestMapReader) run" where
  "BizarroTestMapReader_readStringToInt32Field = readCell cellStringToInt32Field cellStringToInt32Field_update mbuf (readMap (sizedScalar SizedReadString []) (sizedScalar sizedBytes []) [] [])"

definition BizarroTestMapReader_GetStringToInt32Field :: "BizarroTestMapReader option \<Rightarrow> ((gostring \<times> byte list) list \<times> BizarroTestMapReader option) run" where
  "BizarroTestMapReader_GetStringToInt32Field = getter BizarroTestMapReader_readStringToInt32Field []"

lemmas BizarroTestMap_getters =
  BizarroTestMapReader_readInt32ToInt32Field_def BizarroTestMapReader_GetInt32ToInt32Field_def
  BizarroTestMapReader_readInt32ToStringField_def BizarroTestMapReader_GetInt32ToStringField_def
  BizarroTestMapReader_readInt32ToBytesField_def BizarroTestMapReader_GetInt32ToBytesField_def
  BizarroTestMapReader_readInt32ToEnumField_def BizarroTestMapReader_GetInt32ToEnumField_def
  BizarroTestMapReader_readInt32ToMessageField_def BizarroTestMapReader_GetInt32ToMessageField_def
  BizarroTestMapReader_readStringToInt32Field_def BizarroTestMapReader_GetStringToInt32Field_def

definition BizarroTestMapReader_cases :: "ProtoWireType \<Rightarrow> int \<Rightarrow> (ProtoWireNumber \<times> (BizarroTestMapReader \<Rightarrow> BizarroTestMapReader)) list" where
  "BizarroTestMapReader_cases wire offset = [
     (wireBizarroTestMap_Int32ToInt32Field, \<lambda>m. m\<lparr>cellInt32ToInt32Field := onOffset (addOffset wire offset) (cellInt32ToInt32Field m)\<rparr>),
     (wireBizarroTestMap_Int32ToStringField, \<lambda>m. m\<lparr>cellInt32ToStringField := onOffset (addOffset wire offset) (cellInt32ToStringField m)\<rparr>),
     (wireBizarroTestMap_Int32ToBytesField, \<lambda>m. m\<lparr>cellInt32ToBytesField := onOffset (addOffset wire offset) (cellInt32ToBytesField m)\<rparr>),
     (wireBizarroTestMap_Int32ToEnumField, \<lambda>m. m\<lparr>cellInt32ToEnumField := onOffset (addOffset wire offset) (cellInt32ToEnumField m)\<rparr>),
     (wireBizarroTestMap_Int32ToMessageField, \<lambda>m. m\<lparr>cellInt32ToMessageField := onOffset (addOffset wire offset) (cellInt32ToMessageField m)\<rparr>),
     (wireBizarroTestMap_StringToInt32Field, \<lambda>m. m\<lparr>cellStringToInt32Field := onOffset (addOffset wire offset) (cellStringToInt32Field m)\<rparr>)]"

definition BizarroTestMapReader_save :: "ProtoWireNumber \<Rightarrow> ProtoWireType \<Rightarrow> int \<Rightarrow> BizarroTestMapReader \<Rightarrow> BizarroTestMapReader" where
  "BizarroTestMapReader_save tag wire offset = tag_switch (BizarroTestMapReader_cases wire offset) tag"

definition BizarroTestMapReader_Unmarshal :: "BizarroTestMapReader \<Rightarrow> gslice \<Rightarrow> (BizarroTestMapReader \<times> string option) run" where
  "BizarroTestMapReader_Unmarshal m data =
     unmarshalLoop BizarroTestMapReader_save (NewReader data) 0 (m\<lparr>mbuf := Some (NewReader data)\<rparr>)"

definition BizarroTestMapReader_SourceBytes :: "BizarroTestMapReader option \<Rightarrow> gslice" where
  "BizarroTestMapReader_SourceBytes s = (case s of None \<Rightarrow> nil_slice | Some r \<Rightarrow> Bytes (mbuf r))"

section \<open>BizarroTestMap: the struct\<close>

record BizarroTestMap =
  Int32ToInt32Field :: "(int32 \<times> byte list) list"
  Int32ToStringField :: "(gostring \<times> int32) list"
  Int32ToBytesField :: "(gostring \<times> int32) list"
  Int32ToEnumField :: "(gostring \<times> byte list) list"
  Int32ToMessageField :: "(gostring \<times> byte list) list"
  StringToInt32Field :: "(gostring \<times> byte list) list"

definition BizarroTestMap_zero :: BizarroTestMap where
  "BizarroTestMap_zero = \<lparr>
     Int32ToInt32Field = [], Int32ToStringField = [], Int32ToBytesField = [],
     Int32ToEnumField = [], Int32ToMessageField = [], StringToInt32Field = []\<rparr>"

definition BizarroTestMap_stmts :: "(BizarroTestMap \<times> BizarroTestMapReader option \<Rightarrow> (BizarroTestMap \<times> BizarroTestMapReader option) run) list" where
  "BizarroTestMap_stmts = [
     assign BizarroTestMapReader_GetInt32ToInt32Field (\<lambda>v res. res\<lparr>Int32ToInt32Field := v\<rparr>),
     assign BizarroTestMapReader_GetInt32ToStringField (\<lambda>v res. res\<lparr>Int32ToStringField := v\<rparr>),
     assign BizarroTestMapReader_GetInt32ToBytesField (\<lambda>v res. res\<lparr>Int32ToBytesField := v\<rparr>),
     assign BizarroTestMapReader_GetInt32ToEnumField (\<lambda>v res. res\<lparr>Int32ToEnumField := v\<rparr>),
     assign BizarroTestMapReader_GetInt32ToMessageField (\<lambda>v res. res\<lparr>Int32ToMessageField := v\<rparr>),
     assign BizarroTestMapReader_GetStringToInt32Field (\<lambda>v res. res\<lparr>StringToInt32Field := v\<rparr>)]"

definition BizarroTestMapReader_ToStruct :: "BizarroTestMapReader option \<Rightarrow> (BizarroTestMap option \<times> BizarroTestMapReader option) run" where
  "BizarroTestMapReader_ToStruct = toStructWith (BizarroTestMap_stmts) BizarroTestMap_zero"

definition BizarroTestMap_appends :: "BizarroTestMap \<Rightarrow> (Writer \<Rightarrow> Writer go) list" where
  "BizarroTestMap_appends s = [
     \<lambda>res. if Int32ToInt32Field s \<noteq> [] then mapWriter (sizeWithTag SizeInt32) (sizeDelimitedWithTag SizeBytes) AppendInt32 AppendBytes res wireBizarroTestMap_Int32ToInt32Field (Int32ToInt32Field s) else Ret res,
     \<lambda>res. if Int32ToStringField s \<noteq> [] then mapWriter (sizeDelimitedWithTag SizeString) (sizeWithTag SizeInt32) AppendString AppendInt32 res wireBizarroTestMap_Int32ToStringField (Int32ToStringField s) else Ret res,
     \<lambda>res. if Int32ToBytesField s \<noteq> [] then mapWriter (sizeDelimitedWithTag SizeString) (sizeWithTag SizeInt32) AppendString AppendInt32 res wireBizarroTestMap_Int32ToBytesField (Int32ToBytesField s) else Ret res,
     \<lambda>res. if Int32ToEnumField s \<noteq> [] then mapWriter (sizeDelimitedWithTag SizeString) (sizeDelimitedWithTag SizeBytes) AppendString AppendBytes res wireBizarroTestMap_Int32ToEnumField (Int32ToEnumField s) else Ret res,
     \<lambda>res. if Int32ToMessageField s \<noteq> [] then mapWriter (sizeDelimitedWithTag SizeString) (sizeDelimitedWithTag SizeBytes) AppendString AppendBytes res wireBizarroTestMap_Int32ToMessageField (Int32ToMessageField s) else Ret res,
     \<lambda>res. if StringToInt32Field s \<noteq> [] then mapWriter (sizeDelimitedWithTag SizeString) (sizeDelimitedWithTag SizeBytes) AppendString AppendBytes res wireBizarroTestMap_StringToInt32Field (StringToInt32Field s) else Ret res]"

definition BizarroTestMap_MarshalTo :: "Writer \<Rightarrow> BizarroTestMap option \<Rightarrow> Writer go" where
  "BizarroTestMap_MarshalTo = marshalToWith (\<lambda>s. BizarroTestMap_appends s)"

definition BizarroTestMap_sizes :: "BizarroTestMap \<Rightarrow> int list" where
  "BizarroTestMap_sizes s = [
     if Int32ToInt32Field s \<noteq> [] then mapSize (sizeWithTag SizeInt32) (sizeDelimitedWithTag SizeBytes) wireBizarroTestMap_Int32ToInt32Field (Int32ToInt32Field s) else 0,
     if Int32ToStringField s \<noteq> [] then mapSize (sizeDelimitedWithTag SizeString) (sizeWithTag SizeInt32) wireBizarroTestMap_Int32ToStringField (Int32ToStringField s) else 0,
     if Int32ToBytesField s \<noteq> [] then mapSize (sizeDelimitedWithTag SizeString) (sizeWithTag SizeInt32) wireBizarroTestMap_Int32ToBytesField (Int32ToBytesField s) else 0,
     if Int32ToEnumField s \<noteq> [] then mapSize (sizeDelimitedWithTag SizeString) (sizeDelimitedWithTag SizeBytes) wireBizarroTestMap_Int32ToEnumField (Int32ToEnumField s) else 0,
     if Int32ToMessageField s \<noteq> [] then mapSize (sizeDelimitedWithTag SizeString) (sizeDelimitedWithTag SizeBytes) wireBizarroTestMap_Int32ToMessageField (Int32ToMessageField s) else 0,
     if StringToInt32Field s \<noteq> [] then mapSize (sizeDelimitedWithTag SizeString) (sizeDelimitedWithTag SizeBytes) wireBizarroTestMap_StringToInt32Field (StringToInt32Field s) else 0]"

definition BizarroTestMap_XXX_PbContentSize :: "BizarroTestMap option \<Rightarrow> int" where
  "BizarroTestMap_XXX_PbContentSize = contentSizeWith (\<lambda>s. BizarroTestMap_sizes s)"

text \<open>
  The loops of the size and of the write code may take different orders through a map: the second argument is the
  struct as the second of them finds it.
\<close>

definition BizarroTestMap_Marshal :: "BizarroTestMap option \<Rightarrow> BizarroTestMap option \<Rightarrow> byte list go" where
  "BizarroTestMap_Marshal s s' = marshalWith (\<lambda>_. BizarroTestMap_XXX_PbContentSize s) BizarroTestMap_MarshalTo s'"

definition BizarroTestMap_Copy :: "BizarroTestMap option \<Rightarrow> BizarroTestMap option" where
  "BizarroTestMap_Copy s =
     (case s of None \<Rightarrow> None | Some s \<Rightarrow> Some \<lparr>
        Int32ToInt32Field = mapCopy (Int32ToInt32Field s),
        Int32ToStringField = mapCopy (Int32ToStringField s),
        Int32ToBytesField = mapCopy (Int32ToBytesField s),
        Int32ToEnumField = mapCopy (Int32ToEnumField s),
        Int32ToMessageField = mapCopy (Int32ToMessageField s),
        StringToInt32Field = mapCopy (StringToInt32Field s)\<rparr>)"

section \<open>BizarroTestMap: the round trip\<close>

definition BizarroTestMap_tags :: "ProtoWireNumber list" where
  "BizarroTestMap_tags = [
     wireBizarroTestMap_Int32ToInt32Field, wireBizarroTestMap_Int32ToStringField,
     wireBizarroTestMap_Int32ToBytesField, wireBizarroTestMap_Int32ToEnumField,
     wireBizarroTestMap_Int32ToMessageField, wireBizarroTestMap_StringToInt32Field]"

definition BizarroTestMap_groups :: "BizarroTestMap \<Rightarrow> wfield list list" where
  "BizarroTestMap_groups s = [
     map_content int32_val WBytes wireBizarroTestMap_Int32ToInt32Field (Int32ToInt32Field s),
     map_content WBytes int32_val wireBizarroTestMap_Int32ToStringField (Int32ToStringField s),
     map_content WBytes int32_val wireBizarroTestMap_Int32ToBytesField (Int32ToBytesField s),
     map_content WBytes WBytes wireBizarroTestMap_Int32ToEnumField (Int32ToEnumField s),
     map_content WBytes WBytes wireBizarroTestMap_Int32ToMessageField (Int32ToMessageField s),
     map_content WBytes WBytes wireBizarroTestMap_StringToInt32Field (StringToInt32Field s)]"

definition BizarroTestMap_content :: "BizarroTestMap \<Rightarrow> wfield list" where
  "BizarroTestMap_content s = concat (BizarroTestMap_groups s)"

text \<open>What a round trip keeps.\<close>

definition BizarroTestMap_norm :: "BizarroTestMap \<Rightarrow> BizarroTestMap" where
  "BizarroTestMap_norm s = s\<lparr>
     Int32ToInt32Field := mapCopy (Int32ToInt32Field s),
     Int32ToStringField := mapCopy (Int32ToStringField s),
     Int32ToBytesField := mapCopy (Int32ToBytesField s),
     Int32ToEnumField := mapCopy (Int32ToEnumField s),
     Int32ToMessageField := mapCopy (Int32ToMessageField s),
     StringToInt32Field := mapCopy (StringToInt32Field s)\<rparr>"

definition BizarroTestMap_ready :: "Reader \<Rightarrow> BizarroTestMap \<Rightarrow> (BizarroTestMapReader \<Rightarrow> bool) list" where
  "BizarroTestMap_ready p s = [
     \<lambda>m. cell_reads (readMap (sizedScalar SizedReadInt32 0) (sizedScalar sizedBytes []) 0 []) plain p (mapCopy (Int32ToInt32Field s)) (cellInt32ToInt32Field m),
     \<lambda>m. cell_reads (readMap (sizedScalar SizedReadString []) (sizedScalar SizedReadInt32 0) [] 0) plain p (mapCopy (Int32ToStringField s)) (cellInt32ToStringField m),
     \<lambda>m. cell_reads (readMap (sizedScalar SizedReadString []) (sizedScalar SizedReadInt32 0) [] 0) plain p (mapCopy (Int32ToBytesField s)) (cellInt32ToBytesField m),
     \<lambda>m. cell_reads (readMap (sizedScalar SizedReadString []) (sizedScalar sizedBytes []) [] []) plain p (mapCopy (Int32ToEnumField s)) (cellInt32ToEnumField m),
     \<lambda>m. cell_reads (readMap (sizedScalar SizedReadString []) (sizedScalar sizedBytes []) [] []) plain p (mapCopy (Int32ToMessageField s)) (cellInt32ToMessageField m),
     \<lambda>m. cell_reads (readMap (sizedScalar SizedReadString []) (sizedScalar sizedBytes []) [] []) plain p (mapCopy (StringToInt32Field s)) (cellStringToInt32Field m)]"

definition BizarroTestMap_stored :: "BizarroTestMap \<Rightarrow> (BizarroTestMap \<Rightarrow> BizarroTestMap) list" where
  "BizarroTestMap_stored s = [
     \<lambda>res. res\<lparr>Int32ToInt32Field := mapCopy (Int32ToInt32Field s)\<rparr>,
     \<lambda>res. res\<lparr>Int32ToStringField := mapCopy (Int32ToStringField s)\<rparr>,
     \<lambda>res. res\<lparr>Int32ToBytesField := mapCopy (Int32ToBytesField s)\<rparr>,
     \<lambda>res. res\<lparr>Int32ToEnumField := mapCopy (Int32ToEnumField s)\<rparr>,
     \<lambda>res. res\<lparr>Int32ToMessageField := mapCopy (Int32ToMessageField s)\<rparr>,
     \<lambda>res. res\<lparr>StringToInt32Field := mapCopy (StringToInt32Field s)\<rparr>]"

lemma BizarroTestMap_cases_distinct: "distinct (map fst (BizarroTestMapReader_cases wire offset))"
  by (rule ascending_distinct) (simp add: BizarroTestMapReader_cases_def wireBizarroTestMap)

lemma BizarroTestMap_stores:
  "stores_cell BizarroTestMapReader_save wireBizarroTestMap_Int32ToInt32Field addOffset cellInt32ToInt32Field"
  "stores_cell BizarroTestMapReader_save wireBizarroTestMap_Int32ToStringField addOffset cellInt32ToStringField"
  "stores_cell BizarroTestMapReader_save wireBizarroTestMap_Int32ToBytesField addOffset cellInt32ToBytesField"
  "stores_cell BizarroTestMapReader_save wireBizarroTestMap_Int32ToEnumField addOffset cellInt32ToEnumField"
  "stores_cell BizarroTestMapReader_save wireBizarroTestMap_Int32ToMessageField addOffset cellInt32ToMessageField"
  "stores_cell BizarroTestMapReader_save wireBizarroTestMap_StringToInt32Field addOffset cellStringToInt32Field"
  unfolding BizarroTestMapReader_save_def [abs_def] by (rule stores_cell_switch; (rule BizarroTestMap_cases_distinct)?; unfold BizarroTestMapReader_cases_def; intro own_case.intros; simp)+

lemma BizarroTestMap_saved: "good_fields BizarroTestMapReader_save p (NewBizarroTestMapReader\<lparr>mbuf := Some p\<rparr>) BizarroTestMap_tags (BizarroTestMap_groups s) (BizarroTestMap_ready p s)"
  unfolding BizarroTestMap_tags_def BizarroTestMap_groups_def BizarroTestMap_ready_def
  by (intro good_fields.intros field_saved map_saved BizarroTestMap_stores) (simp_all add: NewBizarroTestMapReader_def newCell_def)

lemma BizarroTestMap_converted: "good_stmts mbuf p (BizarroTestMap_stmts) (BizarroTestMap_ready p s) (BizarroTestMap_stored s)"
  unfolding BizarroTestMap_stmts_def BizarroTestMap_ready_def BizarroTestMap_stored_def BizarroTestMap_getters append.simps
  by (intro good_stmts_field good_stmts.Nil) (simp_all cong: cell_reads_cong)

interpretation l_BizarroTestMap: lazy_message BizarroTestMap_tags BizarroTestMap_groups BizarroTestMap_norm
  "\<lambda>s. BizarroTestMap_sizes s" "\<lambda>s. BizarroTestMap_appends s"
  BizarroTestMapReader_save "\<lambda>p. NewBizarroTestMapReader\<lparr>mbuf := Some p\<rparr>" mbuf "BizarroTestMap_stmts" BizarroTestMap_zero BizarroTestMap_ready BizarroTestMap_stored
proof
  show "distinct BizarroTestMap_tags"
    using BizarroTestMap_cases_distinct by (simp only: BizarroTestMapReader_cases_def BizarroTestMap_tags_def list.map fst_conv)
  show "list_all valid_tag BizarroTestMap_tags"
    by (simp add: BizarroTestMap_tags_def wireBizarroTestMap valid_tag_def)
  show "list_all2 (\<lambda>t g. \<forall>f \<in> set g. fst f = t \<and> wf_val (snd f)) BizarroTestMap_tags (BizarroTestMap_groups s)" for s
    unfolding BizarroTestMap_tags_def BizarroTestMap_groups_def by (intro list.rel_intros field_tagged map_tagged)
  show "list_all2 (\<lambda>e g. e = int (length (fields_bytes g))) (BizarroTestMap_sizes s) (BizarroTestMap_groups s)" for s
    unfolding BizarroTestMap_sizes_def BizarroTestMap_groups_def append.simps
    by (intro list.rel_intros field_sized map_sized)
  show "list_all2 (\<lambda>st g. writes st (fields_bytes g)) (BizarroTestMap_appends s) (BizarroTestMap_groups s)" for s
    unfolding BizarroTestMap_appends_def BizarroTestMap_groups_def append.simps
    by (intro list.rel_intros field_written map_written)
  show "mbuf (BizarroTestMapReader_save t w off m) = mbuf m" for t w off m
    unfolding BizarroTestMapReader_save_def by (rule tag_switch_keeps) (simp add: BizarroTestMapReader_cases_def)
  show "fold (\<lambda>e. e) (BizarroTestMap_stored s) BizarroTestMap_zero = BizarroTestMap_norm s" for s
    unfolding BizarroTestMap_stored_def by (simp add: BizarroTestMap_zero_def BizarroTestMap_norm_def float_defaults)
qed (simp_all add: BizarroTestMap_saved BizarroTestMap_converted)

interpretation m_BizarroTestMap: message_codec BizarroTestMap_content BizarroTestMap_norm BizarroTestMap_XXX_PbContentSize BizarroTestMap_MarshalTo
  "BizarroTestMapReader_Unmarshal NewBizarroTestMapReader" BizarroTestMapReader_ToStruct
  using l_BizarroTestMap.message
  by (simp only: BizarroTestMap_content_def [abs_def] BizarroTestMap_XXX_PbContentSize_def BizarroTestMap_MarshalTo_def BizarroTestMapReader_Unmarshal_def [abs_def] BizarroTestMapReader_ToStruct_def)


section \<open>ReservedAsMapField: the reader\<close>

definition wireReservedAsMapField_If :: ProtoWireNumber where "wireReservedAsMapField_If = 1"
definition wireReservedAsMapField_Const :: ProtoWireNumber where "wireReservedAsMapField_Const = 2"
definition wireReservedAsMapField_Private :: ProtoWireNumber where "wireReservedAsMapField_Private = 3"
definition wireReservedAsMapField_Class :: ProtoWireNumber where "wireReservedAsMapField_Class = 4"
definition wireReservedAsMapField_Int :: ProtoWireNumber where "wireReservedAsMapField_Int = 5"
definition wireReservedAsMapField_Void :: ProtoWireNumber where "wireReservedAsMapField_Void = 6"
definition wireReservedAsMapField_String :: ProtoWireNumber where "wireReservedAsMapField_String = 7"
definition wireReservedAsMapField_Package :: ProtoWireNumber where "wireReservedAsMapField_Package = 8"
definition wireReservedAsMapField_Enum :: ProtoWireNumber where "wireReservedAsMapField_Enum = 9"
definition wireReservedAsMapField_Null :: ProtoWireNumber where "wireReservedAsMapField_Null = 10"

lemmas wireReservedAsMapField =
  wireReservedAsMapField_If_def wireReservedAsMapField_Const_def
  wireReservedAsMapField_Private_def wireReservedAsMapField_Class_def
  wireReservedAsMapField_Int_def wireReservedAsMapField_Void_def
  wireReservedAsMapField_String_def wireReservedAsMapField_Package_def
  wireReservedAsMapField_Enum_def wireReservedAsMapField_Null_def

record ReservedAsMapFieldReader =
  mbuf :: "Reader option"
  cellIf :: "(gostring \<times> uint32) list_cell"
  cellConst :: "(gostring \<times> uint32) list_cell"
  cellPrivate :: "(gostring \<times> uint32) list_cell"
  cellClass :: "(gostring \<times> uint32) list_cell"
  cellInt :: "(gostring \<times> uint32) list_cell"
  cellVoid :: "(gostring \<times> uint32) list_cell"
  cellString :: "(gostring \<times> uint32) list_cell"
  cellPackage :: "(gostring \<times> uint32) list_cell"
  cellEnum :: "(gostring \<times> uint32) list_cell"
  cellNull :: "(gostring \<times> uint32) list_cell"

definition NewReservedAsMapFieldReader :: ReservedAsMapFieldReader where
  "NewReservedAsMapFieldReader = \<lparr>
     mbuf = None, cellIf = newCell [] [], cellConst = newCell [] [],
     cellPrivate = newCell [] [], cellClass = newCell [] [], cellInt = newCell [] [],
     cellVoid = newCell [] [], cellString = newCell [] [], cellPackage = newCell [] [],
     cellEnum = newCell [] [], cellNull = newCell [] []\<rparr>"

definition ReservedAsMapFieldReader_readIf :: "ReservedAsMapFieldReader \<Rightarrow> ((gostring \<times> uint32) list \<times> ReservedAsMapFieldReader) run" where
  "ReservedAsMapFieldReader_readIf = readCell cellIf cellIf_update mbuf (readMap (sizedScalar SizedReadString []) (sizedScalar SizedReadUint32 0) [] 0)"

definition ReservedAsMapFieldReader_GetIf :: "ReservedAsMapFieldReader option \<Rightarrow> ((gostring \<times> uint32) list \<times> ReservedAsMapFieldReader option) run" where
  "ReservedAsMapFieldReader_GetIf = getter ReservedAsMapFieldReader_readIf []"

definition ReservedAsMapFieldReader_readConst :: "ReservedAsMapFieldReader \<Rightarrow> ((gostring \<times> uint32) list \<times> ReservedAsMapFieldReader) run" where
  "ReservedAsMapFieldReader_readConst = readCell cellConst cellConst_update mbuf (readMap (sizedScalar SizedReadString []) (sizedScalar SizedReadUint32 0) [] 0)"

definition ReservedAsMapFieldReader_GetConst :: "ReservedAsMapFieldReader option \<Rightarrow> ((gostring \<times> uint32) list \<times> ReservedAsMapFieldReader option) run" where
  "ReservedAsMapFieldReader_GetConst = getter ReservedAsMapFieldReader_readConst []"

definition ReservedAsMapFieldReader_readPrivate :: "ReservedAsMapFieldReader \<Rightarrow> ((gostring \<times> uint32) list \<times> ReservedAsMapFieldReader) run" where
  "ReservedAsMapFieldReader_readPrivate = readCell cellPrivate cellPrivate_update mbuf (readMap (sizedScalar SizedReadString []) (sizedScalar SizedReadUint32 0) [] 0)"

definition ReservedAsMapFieldReader_GetPrivate :: "ReservedAsMapFieldReader option \<Rightarrow> ((gostring \<times> uint32) list \<times> ReservedAsMapFieldReader option) run" where
  "ReservedAsMapFieldReader_GetPrivate = getter ReservedAsMapFieldReader_readPrivate []"

definition ReservedAsMapFieldReader_readClass :: "ReservedAsMapFieldReader \<Rightarrow> ((gostring \<times> uint32) list \<times> ReservedAsMapFieldReader) run" where
  "ReservedAsMapFieldReader_readClass = readCell cellClass cellClass_update mbuf (readMap (sizedScalar SizedReadString []) (sizedScalar SizedReadUint32 0) [] 0)"

definition ReservedAsMapFieldReader_GetClass :: "ReservedAsMapFieldReader option \<Rightarrow> ((gostring \<times> uint32) list \<times> ReservedAsMapFieldReader option) run" where
  "ReservedAsMapFieldReader_GetClass = getter ReservedAsMapFieldReader_readClass []"

definition ReservedAsMapFieldReader_readInt :: "ReservedAsMapFieldReader \<Rightarrow> ((gostring \<times> uint32) list \<times> ReservedAsMapFieldReader) run" where
  "ReservedAsMapFieldReader_readInt = readCell cellInt cellInt_update mbuf (readMap (sizedScalar SizedReadString []) (sizedScalar SizedReadUint32 0) [] 0)"

definition ReservedAsMapFieldReader_GetInt :: "ReservedAsMapFieldReader option \<Rightarrow> ((gostring \<times> uint32) list \<times> ReservedAsMapFieldReader option) run" where
  "ReservedAsMapFieldReader_GetInt = getter ReservedAsMapFieldReader_readInt []"

definition ReservedAsMapFieldReader_readVoid :: "ReservedAsMapFieldReader \<Rightarrow> ((gostring \<times> uint32) list \<times> ReservedAsMapFieldReader) run" where
  "ReservedAsMapFieldReader_readVoid = readCell cellVoid cellVoid_update mbuf (readMap (sizedScalar SizedReadString []) (sizedScalar SizedReadUint32 0) [] 0)"

definition ReservedAsMapFieldReader_GetVoid :: "ReservedAsMapFieldReader option \<Rightarrow> ((gostring \<times> uint32) list \<times> ReservedAsMapFieldReader option) run" where
  "ReservedAsMapFieldReader_GetVoid = getter ReservedAsMapFieldReader_readVoid []"

definition ReservedAsMapFieldReader_readString :: "ReservedAsMapFieldReader \<Rightarrow> ((gostring \<times> uint32) list \<times> ReservedAsMapFieldReader) run" where
  "ReservedAsMapFieldReader_readString = readCell cellString cellString_update mbuf (readMap (sizedScalar SizedReadString []) (sizedScalar SizedReadUint32 0) [] 0)"

definition ReservedAsMapFieldReader_GetString :: "ReservedAsMapFieldReader option \<Rightarrow> ((gostring \<times> uint32) list \<times> ReservedAsMapFieldReader option) run" where
  "ReservedAsMapFieldReader_GetString = getter ReservedAsMapFieldReader_readString []"

definition ReservedAsMapFieldReader_readPackage :: "ReservedAsMapFieldReader \<Rightarrow> ((gostring \<times> uint32) list \<times> ReservedAsMapFieldReader) run" where
  "ReservedAsMapFieldReader_readPackage = readCell cellPackage cellPackage_update mbuf (readMap (sizedScalar SizedReadString []) (sizedScalar SizedReadUint32 0) [] 0)"

definition ReservedAsMapFieldReader_GetPackage :: "ReservedAsMapFieldReader option \<Rightarrow> ((gostring \<times> uint32) list \<times> ReservedAsMapFieldReader option) run" where
  "ReservedAsMapFieldReader_GetPackage = getter ReservedAsMapFieldReader_readPackage []"

definition ReservedAsMapFieldReader_readEnum :: "ReservedAsMapFieldReader \<Rightarrow> ((gostring \<times> uint32) list \<times> ReservedAsMapFieldReader) run" where
  "ReservedAsMapFieldReader_readEnum = readCell cellEnum cellEnum_update mbuf (readMap (sizedScalar SizedReadString []) (sizedScalar SizedReadUint32 0) [] 0)"

definition ReservedAsMapFieldReader_GetEnum :: "ReservedAsMapFieldReader option \<Rightarrow> ((gostring \<times> uint32) list \<times> ReservedAsMapFieldReader option) run" where
  "ReservedAsMapFieldReader_GetEnum = getter ReservedAsMapFieldReader_readEnum []"

definition ReservedAsMapFieldReader_readNull :: "ReservedAsMapFieldReader \<Rightarrow> ((gostring \<times> uint32) list \<times> ReservedAsMapFieldReader) run" where
  "ReservedAsMapFieldReader_readNull = readCell cellNull cellNull_update mbuf (readMap (sizedScalar SizedReadString []) (sizedScalar SizedReadUint32 0) [] 0)"

definition ReservedAsMapFieldReader_GetNull :: "ReservedAsMapFieldReader option \<Rightarrow> ((gostring \<times> uint32) list \<times> ReservedAsMapFieldReader option) run" where
  "ReservedAsMapFieldReader_GetNull = getter ReservedAsMapFieldReader_readNull []"

lemmas ReservedAsMapField_getters =
  ReservedAsMapFieldReader_readIf_def ReservedAsMapFieldReader_GetIf_def
  ReservedAsMapFieldReader_readConst_def ReservedAsMapFieldReader_GetConst_def
  ReservedAsMapFieldReader_readPrivate_def ReservedAsMapFieldReader_GetPrivate_def
  ReservedAsMapFieldReader_readClass_def ReservedAsMapFieldReader_GetClass_def
  ReservedAsMapFieldReader_readInt_def ReservedAsMapFieldReader_GetInt_def
  ReservedAsMapFieldReader_readVoid_def ReservedAsMapFieldReader_GetVoid_def
  ReservedAsMapFieldReader_readString_def ReservedAsMapFieldReader_GetString_def
  ReservedAsMapFieldReader_readPackage_def ReservedAsMapFieldReader_GetPackage_def
  ReservedAsMapFieldReader_readEnum_def ReservedAsMapFieldReader_GetEnum_def
  ReservedAsMapFieldReader_readNull_def ReservedAsMapFieldReader_GetNull_def

definition ReservedAsMapFieldReader_cases :: "ProtoWireType \<Rightarrow> int \<Rightarrow> (ProtoWireNumber \<times> (ReservedAsMapFieldReader \<Rightarrow> ReservedAsMapFieldReader)) list" where
  "ReservedAsMapFieldReader_cases wire offset = [
     (wireReservedAsMapField_If, \<lambda>m. m\<lparr>cellIf := onOffset (addOffset wire offset) (cellIf m)\<rparr>),
     (wireReservedAsMapField_Const, \<lambda>m. m\<lparr>cellConst := onOffset (addOffset wire offset) (cellConst m)\<rparr>),
     (wireReservedAsMapField_Private, \<lambda>m. m\<lparr>cellPrivate := onOffset (addOffset wire offset) (cellPrivate m)\<rparr>),
     (wireReservedAsMapField_Class, \<lambda>m. m\<lparr>cellClass := onOffset (addOffset wire offset) (cellClass m)\<rparr>),
     (wireReservedAsMapField_Int, \<lambda>m. m\<lparr>cellInt := onOffset (addOffset wire offset) (cellInt m)\<rparr>),
     (wireReservedAsMapField_Void, \<lambda>m. m\<lparr>cellVoid := onOffset (addOffset wire offset) (cellVoid m)\<rparr>),
     (wireReservedAsMapField_String, \<lambda>m. m\<lparr>cellString := onOffset (addOffset wire offset) (cellString m)\<rparr>),
     (wireReservedAsMapField_Package, \<lambda>m. m\<lparr>cellPackage := onOffset (addOffset wire offset) (cellPackage m)\<rparr>),
     (wireReservedAsMapField_Enum, \<lambda>m. m\<lparr>cellEnum := onOffset (addOffset wire offset) (cellEnum m)\<rparr>),
     (wireReservedAsMapField_Null, \<lambda>m. m\<lparr>cellNull := onOffset (addOffset wire offset) (cellNull m)\<rparr>)]"

definition ReservedAsMapFieldReader_save :: "ProtoWireNumber \<Rightarrow> ProtoWireType \<Rightarrow> int \<Rightarrow> ReservedAsMapFieldReader \<Rightarrow> ReservedAsMapFieldReader" where
  "ReservedAsMapFieldReader_save tag wire offset = tag_switch (ReservedAsMapFieldReader_cases wire offset) tag"

definition ReservedAsMapFieldReader_Unmarshal :: "ReservedAsMapFieldReader \<Rightarrow> gslice \<Rightarrow> (ReservedAsMapFieldReader \<times> string option) run" where
  "ReservedAsMapFieldReader_Unmarshal m data =
     unmarshalLoop ReservedAsMapFieldReader_save (NewReader data) 0 (m\<lparr>mbuf := Some (NewReader data)\<rparr>)"

definition ReservedAsMapFieldReader_SourceBytes :: "ReservedAsMapFieldReader option \<Rightarrow> gslice" where
  "ReservedAsMapFieldReader_SourceBytes s = (case s of None \<Rightarrow> nil_slice | Some r \<Rightarrow> Bytes (mbuf r))"

section \<open>ReservedAsMapField: the struct\<close>

record ReservedAsMapField =
  If' :: "(gostring \<times> uint32) list"
  Const :: "(gostring \<times> uint32) list"
  Private :: "(gostring \<times> uint32) list"
  Class :: "(gostring \<times> uint32) list"
  Int' :: "(gostring \<times> uint32) list"
  Void :: "(gostring \<times> uint32) list"
  String :: "(gostring \<times> uint32) list"
  Package :: "(gostring \<times> uint32) list"
  Enum :: "(gostring \<times> uint32) list"
  Null :: "(gostring \<times> uint32) list"

definition ReservedAsMapField_zero :: ReservedAsMapField where
  "ReservedAsMapField_zero = \<lparr>
     If' = [], Const = [], Private = [], Class = [], Int' = [], Void = [], String = [],
     Package = [], Enum = [], Null = []\<rparr>"

definition ReservedAsMapField_stmts :: "(ReservedAsMapField \<times> ReservedAsMapFieldReader option \<Rightarrow> (ReservedAsMapField \<times> ReservedAsMapFieldReader option) run) list" where
  "ReservedAsMapField_stmts = [
     assign ReservedAsMapFieldReader_GetIf (\<lambda>v res. res\<lparr>If' := v\<rparr>),
     assign ReservedAsMapFieldReader_GetConst (\<lambda>v res. res\<lparr>Const := v\<rparr>),
     assign ReservedAsMapFieldReader_GetPrivate (\<lambda>v res. res\<lparr>Private := v\<rparr>),
     assign ReservedAsMapFieldReader_GetClass (\<lambda>v res. res\<lparr>Class := v\<rparr>),
     assign ReservedAsMapFieldReader_GetInt (\<lambda>v res. res\<lparr>Int' := v\<rparr>),
     assign ReservedAsMapFieldReader_GetVoid (\<lambda>v res. res\<lparr>Void := v\<rparr>),
     assign ReservedAsMapFieldReader_GetString (\<lambda>v res. res\<lparr>String := v\<rparr>),
     assign ReservedAsMapFieldReader_GetPackage (\<lambda>v res. res\<lparr>Package := v\<rparr>),
     assign ReservedAsMapFieldReader_GetEnum (\<lambda>v res. res\<lparr>Enum := v\<rparr>),
     assign ReservedAsMapFieldReader_GetNull (\<lambda>v res. res\<lparr>Null := v\<rparr>)]"

definition ReservedAsMapFieldReader_ToStruct :: "ReservedAsMapFieldReader option \<Rightarrow> (ReservedAsMapField option \<times> ReservedAsMapFieldReader option) run" where
  "ReservedAsMapFieldReader_ToStruct = toStructWith (ReservedAsMapField_stmts) ReservedAsMapField_zero"

definition ReservedAsMapField_appends :: "ReservedAsMapField \<Rightarrow> (Writer \<Rightarrow> Writer go) list" where
  "ReservedAsMapField_appends s = [
     \<lambda>res. if If' s \<noteq> [] then mapWriter (sizeDelimitedWithTag SizeString) (sizeWithTag SizeUint32) AppendString AppendUint32 res wireReservedAsMapField_If (If' s) else Ret res,
     \<lambda>res. if Const s \<noteq> [] then mapWriter (sizeDelimitedWithTag SizeString) (sizeWithTag SizeUint32) AppendString AppendUint32 res wireReservedAsMapField_Const (Const s) else Ret res,
     \<lambda>res. if Private s \<noteq> [] then mapWriter (sizeDelimitedWithTag SizeString) (sizeWithTag SizeUint32) AppendString AppendUint32 res wireReservedAsMapField_Private (Private s) else Ret res,
     \<lambda>res. if Class s \<noteq> [] then mapWriter (sizeDelimitedWithTag SizeString) (sizeWithTag SizeUint32) AppendString AppendUint32 res wireReservedAsMapField_Class (Class s) else Ret res,
     \<lambda>res. if Int' s \<noteq> [] then mapWriter (sizeDelimitedWithTag SizeString) (sizeWithTag SizeUint32) AppendString AppendUint32 res wireReservedAsMapField_Int (Int' s) else Ret res,
     \<lambda>res. if Void s \<noteq> [] then mapWriter (sizeDelimitedWithTag SizeString) (sizeWithTag SizeUint32) AppendString AppendUint32 res wireReservedAsMapField_Void (Void s) else Ret res,
     \<lambda>res. if String s \<noteq> [] then mapWriter (sizeDelimitedWithTag SizeString) (sizeWithTag SizeUint32) AppendString AppendUint32 res wireReservedAsMapField_String (String s) else Ret res,
     \<lambda>res. if Package s \<noteq> [] then mapWriter (sizeDelimitedWithTag SizeString) (sizeWithTag SizeUint32) AppendString AppendUint32 res wireReservedAsMapField_Package (Package s) else Ret res,
     \<lambda>res. if Enum s \<noteq> [] then mapWriter (sizeDelimitedWithTag SizeString) (sizeWithTag SizeUint32) AppendString AppendUint32 res wireReservedAsMapField_Enum (Enum s) else Ret res,
     \<lambda>res. if Null s \<noteq> [] then mapWriter (sizeDelimitedWithTag SizeString) (sizeWithTag SizeUint32) AppendString AppendUint32 res wireReservedAsMapField_Null (Null s) else Ret res]"

definition ReservedAsMapField_MarshalTo :: "Writer \<Rightarrow> ReservedAsMapField option \<Rightarrow> Writer go" where
  "ReservedAsMapField_MarshalTo = marshalToWith (\<lambda>s. ReservedAsMapField_appends s)"

definition ReservedAsMapField_sizes :: "ReservedAsMapField \<Rightarrow> int list" where
  "ReservedAsMapField_sizes s = [
     if If' s \<noteq> [] then mapSize (sizeDelimitedWithTag SizeString) (sizeWithTag SizeUint32) wireReservedAsMapField_If (If' s) else 0,
     if Const s \<noteq> [] then mapSize (sizeDelimitedWithTag SizeString) (sizeWithTag SizeUint32) wireReservedAsMapField_Const (Const s) else 0,
     if Private s \<noteq> [] then mapSize (sizeDelimitedWithTag SizeString) (sizeWithTag SizeUint32) wireReservedAsMapField_Private (Private s) else 0,
     if Class s \<noteq> [] then mapSize (sizeDelimitedWithTag SizeString) (sizeWithTag SizeUint32) wireReservedAsMapField_Class (Class s) else 0,
     if Int' s \<noteq> [] then mapSize (sizeDelimitedWithTag SizeString) (sizeWithTag SizeUint32) wireReservedAsMapField_Int (Int' s) else 0,
     if Void s \<noteq> [] then mapSize (sizeDelimitedWithTag SizeString) (sizeWithTag SizeUint32) wireReservedAsMapField_Void (Void s) else 0,
     if String s \<noteq> [] then mapSize (sizeDelimitedWithTag SizeString) (sizeWithTag SizeUint32) wireReservedAsMapField_String (String s) else 0,
     if Package s \<noteq> [] then mapSize (sizeDelimitedWithTag SizeString) (sizeWithTag SizeUint32) wireReservedAsMapField_Package (Package s) else 0,
     if Enum s \<noteq> [] then mapSize (sizeDelimitedWithTag SizeString) (sizeWithTag SizeUint32) wireReservedAsMapField_Enum (Enum s) else 0,
     if Null s \<noteq> [] then mapSize (sizeDelimitedWithTag SizeString) (sizeWithTag SizeUint32) wireReservedAsMapField_Null (Null s) else 0]"

definition ReservedAsMapField_XXX_PbContentSize :: "ReservedAsMapField option \<Rightarrow> int" where
  "ReservedAsMapField_XXX_PbContentSize = contentSizeWith (\<lambda>s. ReservedAsMapField_sizes s)"

text \<open>
  The loops of the size and of the write code may take different orders through a map: the second argument is the
  struct as the second of them finds it.
\<close>

definition ReservedAsMapField_Marshal :: "ReservedAsMapField option \<Rightarrow> ReservedAsMapField option \<Rightarrow> byte list go" where
  "ReservedAsMapField_Marshal s s' = marshalWith (\<lambda>_. ReservedAsMapField_XXX_PbContentSize s) ReservedAsMapField_MarshalTo s'"

definition ReservedAsMapField_Copy :: "ReservedAsMapField option \<Rightarrow> ReservedAsMapField option" where
  "ReservedAsMapField_Copy s =
     (case s of None \<Rightarrow> None | Some s \<Rightarrow> Some \<lparr>
        If' = mapCopy (If' s), Const = mapCopy (Const s), Private = mapCopy (Private s),
        Class = mapCopy (Class s), Int' = mapCopy (Int' s), Void = mapCopy (Void s),
        String = mapCopy (String s), Package = mapCopy (Package s), Enum = mapCopy (Enum s),
        Null = mapCopy (Null s)\<rparr>)"

section \<open>ReservedAsMapField: the round trip\<close>

definition ReservedAsMapField_tags :: "ProtoWireNumber list" where
  "ReservedAsMapField_tags = [
     wireReservedAsMapField_If, wireReservedAsMapField_Const, wireReservedAsMapField_Private,
     wireReservedAsMapField_Class, wireReservedAsMapField_Int, wireReservedAsMapField_Void,
     wireReservedAsMapField_String, wireReservedAsMapField_Package, wireReservedAsMapField_Enum,
     wireReservedAsMapField_Null]"

definition ReservedAsMapField_groups :: "ReservedAsMapField \<Rightarrow> wfield list list" where
  "ReservedAsMapField_groups s = [
     map_content WBytes uint32_val wireReservedAsMapField_If (If' s),
     map_content WBytes uint32_val wireReservedAsMapField_Const (Const s),
     map_content WBytes uint32_val wireReservedAsMapField_Private (Private s),
     map_content WBytes uint32_val wireReservedAsMapField_Class (Class s),
     map_content WBytes uint32_val wireReservedAsMapField_Int (Int' s),
     map_content WBytes uint32_val wireReservedAsMapField_Void (Void s),
     map_content WBytes uint32_val wireReservedAsMapField_String (String s),
     map_content WBytes uint32_val wireReservedAsMapField_Package (Package s),
     map_content WBytes uint32_val wireReservedAsMapField_Enum (Enum s),
     map_content WBytes uint32_val wireReservedAsMapField_Null (Null s)]"

definition ReservedAsMapField_content :: "ReservedAsMapField \<Rightarrow> wfield list" where
  "ReservedAsMapField_content s = concat (ReservedAsMapField_groups s)"

text \<open>What a round trip keeps.\<close>

definition ReservedAsMapField_norm :: "ReservedAsMapField \<Rightarrow> ReservedAsMapField" where
  "ReservedAsMapField_norm s = s\<lparr>
     If' := mapCopy (If' s),
     Const := mapCopy (Const s),
     Private := mapCopy (Private s),
     Class := mapCopy (Class s),
     Int' := mapCopy (Int' s),
     Void := mapCopy (Void s),
     String := mapCopy (String s),
     Package := mapCopy (Package s),
     Enum := mapCopy (Enum s),
     Null := mapCopy (Null s)\<rparr>"

definition ReservedAsMapField_ready :: "Reader \<Rightarrow> ReservedAsMapField \<Rightarrow> (ReservedAsMapFieldReader \<Rightarrow> bool) list" where
  "ReservedAsMapField_ready p s = [
     \<lambda>m. cell_reads (readMap (sizedScalar SizedReadString []) (sizedScalar SizedReadUint32 0) [] 0) plain p (mapCopy (If' s)) (cellIf m),
     \<lambda>m. cell_reads (readMap (sizedScalar SizedReadString []) (sizedScalar SizedReadUint32 0) [] 0) plain p (mapCopy (Const s)) (cellConst m),
     \<lambda>m. cell_reads (readMap (sizedScalar SizedReadString []) (sizedScalar SizedReadUint32 0) [] 0) plain p (mapCopy (Private s)) (cellPrivate m),
     \<lambda>m. cell_reads (readMap (sizedScalar SizedReadString []) (sizedScalar SizedReadUint32 0) [] 0) plain p (mapCopy (Class s)) (cellClass m),
     \<lambda>m. cell_reads (readMap (sizedScalar SizedReadString []) (sizedScalar SizedReadUint32 0) [] 0) plain p (mapCopy (Int' s)) (cellInt m),
     \<lambda>m. cell_reads (readMap (sizedScalar SizedReadString []) (sizedScalar SizedReadUint32 0) [] 0) plain p (mapCopy (Void s)) (cellVoid m),
     \<lambda>m. cell_reads (readMap (sizedScalar SizedReadString []) (sizedScalar SizedReadUint32 0) [] 0) plain p (mapCopy (String s)) (cellString m),
     \<lambda>m. cell_reads (readMap (sizedScalar SizedReadString []) (sizedScalar SizedReadUint32 0) [] 0) plain p (mapCopy (Package s)) (cellPackage m),
     \<lambda>m. cell_reads (readMap (sizedScalar SizedReadString []) (sizedScalar SizedReadUint32 0) [] 0) plain p (mapCopy (Enum s)) (cellEnum m),
     \<lambda>m. cell_reads (readMap (sizedScalar SizedReadString []) (sizedScalar SizedReadUint32 0) [] 0) plain p (mapCopy (Null s)) (cellNull m)]"

definition ReservedAsMapField_stored :: "ReservedAsMapField \<Rightarrow> (ReservedAsMapField \<Rightarrow> ReservedAsMapField) list" where
  "ReservedAsMapField_stored s = [
     \<lambda>res. res\<lparr>If' := mapCopy (If' s)\<rparr>,
     \<lambda>res. res\<lparr>Const := mapCopy (Const s)\<rparr>,
     \<lambda>res. res\<lparr>Private := mapCopy (Private s)\<rparr>,
     \<lambda>res. res\<lparr>Class := mapCopy (Class s)\<rparr>,
     \<lambda>res. res\<lparr>Int' := mapCopy (Int' s)\<rparr>,
     \<lambda>res. res\<lparr>Void := mapCopy (Void s)\<rparr>,
     \<lambda>res. res\<lparr>String := mapCopy (String s)\<rparr>,
     \<lambda>res. res\<lparr>Package := mapCopy (Package s)\<rparr>,
     \<lambda>res. res\<lparr>Enum := mapCopy (Enum s)\<rparr>,
     \<lambda>res. res\<lparr>Null := mapCopy (Null s)\<rparr>]"

lemma ReservedAsMapField_cases_distinct: "distinct (map fst (ReservedAsMapFieldReader_cases wire offset))"
  by (rule ascending_distinct) (simp add: ReservedAsMapFieldReader_cases_def wireReservedAsMapField)

lemma ReservedAsMapField_stores:
  "stores_cell ReservedAsMapFieldReader_save wireReservedAsMapField_If addOffset cellIf"
  "stores_cell ReservedAsMapFieldReader_save wireReservedAsMapField_Const addOffset cellConst"
  "stores_cell ReservedAsMapFieldReader_save wireReservedAsMapField_Private addOffset cellPrivate"
  "stores_cell ReservedAsMapFieldReader_save wireReservedAsMapField_Class addOffset cellClass"
  "stores_cell ReservedAsMapFieldReader_save wireReservedAsMapField_Int addOffset cellInt"
  "stores_cell ReservedAsMapFieldReader_save wireReservedAsMapField_Void addOffset cellVoid"
  "stores_cell ReservedAsMapFieldReader_save wireReservedAsMapField_String addOffset cellString"
  "stores_cell ReservedAsMapFieldReader_save wireReservedAsMapField_Package addOffset cellPackage"
  "stores_cell ReservedAsMapFieldReader_save wireReservedAsMapField_Enum addOffset cellEnum"
  "stores_cell ReservedAsMapFieldReader_save wireReservedAsMapField_Null addOffset cellNull"
  unfolding ReservedAsMapFieldReader_save_def [abs_def] by (rule stores_cell_switch; (rule ReservedAsMapField_cases_distinct)?; unfold ReservedAsMapFieldReader_cases_def; intro own_case.intros; simp)+

lemma ReservedAsMapField_saved: "good_fields ReservedAsMapFieldReader_save p (NewReservedAsMapFieldReader\<lparr>mbuf := Some p\<rparr>) ReservedAsMapField_tags (ReservedAsMapField_groups s) (ReservedAsMapField_ready p s)"
  unfolding ReservedAsMapField_tags_def ReservedAsMapField_groups_def ReservedAsMapField_ready_def
  by (intro good_fields.intros field_saved map_saved ReservedAsMapField_stores) (simp_all add: NewReservedAsMapFieldReader_def newCell_def)

lemma ReservedAsMapField_converted: "good_stmts mbuf p (ReservedAsMapField_stmts) (ReservedAsMapField_ready p s) (ReservedAsMapField_stored s)"
  unfolding ReservedAsMapField_stmts_def ReservedAsMapField_ready_def ReservedAsMapField_stored_def ReservedAsMapField_getters append.simps
  by (intro good_stmts_field good_stmts.Nil) (simp_all cong: cell_reads_cong)

interpretation l_ReservedAsMapField: lazy_message ReservedAsMapField_tags ReservedAsMapField_groups ReservedAsMapField_norm
  "\<lambda>s. ReservedAsMapField_sizes s" "\<lambda>s. ReservedAsMapField_appends s"
  ReservedAsMapFieldReader_save "\<lambda>p. NewReservedAsMapFieldReader\<lparr>mbuf := Some p\<rparr>" mbuf "ReservedAsMapField_stmts" ReservedAsMapField_zero ReservedAsMapField_ready ReservedAsMapField_stored
proof
  show "distinct ReservedAsMapField_tags"
    using ReservedAsMapField_cases_distinct by (simp only: ReservedAsMapFieldReader_cases_def ReservedAsMapField_tags_def list.map fst_conv)
  show "list_all valid_tag ReservedAsMapField_tags"
    by (simp add: ReservedAsMapField_tags_def wireReservedAsMapField valid_tag_def)
  show "list_all2 (\<lambda>t g. \<forall>f \<in> set g. fst f = t \<and> wf_val (snd f)) ReservedAsMapField_tags (ReservedAsMapField_groups s)" for s
    unfolding ReservedAsMapField_tags_def ReservedAsMapField_groups_def by (intro list.rel_intros field_tagged map_tagged)
  show "list_all2 (\<lambda>e g. e = int (length (fields_bytes g))) (ReservedAsMapField_sizes s) (ReservedAsMapField_groups s)" for s
    unfolding ReservedAsMapField_sizes_def ReservedAsMapField_groups_def append.simps
    by (intro list.rel_intros field_sized map_sized)
  show "list_all2 (\<lambda>st g. writes st (fields_bytes g)) (ReservedAsMapField_appends s) (ReservedAsMapField_groups s)" for s
    unfolding ReservedAsMapField_appends_def ReservedAsMapField_groups_def append.simps
    by (intro list.rel_intros field_written map_written)
  show "mbuf (ReservedAsMapFieldReader_save t w off m) = mbuf m" for t w off m
    unfolding ReservedAsMapFieldReader_save_def by (rule tag_switch_keeps) (simp add: ReservedAsMapFieldReader_cases_def)
  show "fold (\<lambda>e. e) (ReservedAsMapField_stored s) ReservedAsMapField_zero = ReservedAsMapField_norm s" for s
    unfolding ReservedAsMapField_stored_def by (simp add: ReservedAsMapField_zero_def ReservedAsMapField_norm_def float_defaults)
qed (simp_all add: ReservedAsMapField_saved ReservedAsMapField_converted)

interpretation m_ReservedAsMapField: message_codec ReservedAsMapField_content ReservedAsMapField_norm ReservedAsMapField_XXX_PbContentSize ReservedAsMapField_MarshalTo
  "ReservedAsMapFieldReader_Unmarshal NewReservedAsMapFieldReader" ReservedAsMapFieldReader_ToStruct
  using l_ReservedAsMapField.message
  by (simp only: ReservedAsMapField_content_def [abs_def] ReservedAsMapField_XXX_PbContentSize_def ReservedAsMapField_MarshalTo_def ReservedAsMapFieldReader_Unmarshal_def [abs_def] ReservedAsMapFieldReader_ToStruct_def)


section \<open>ReservedAsMapFieldWithEnumValue: the reader\<close>

definition wireReservedAsMapFieldWithEnumValue_If :: ProtoWireNumber where "wireReservedAsMapFieldWithEnumValue_If = 1"
definition wireReservedAsMapFieldWithEnumValue_Const :: ProtoWireNumber where "wireReservedAsMapFieldWithEnumValue_Const = 2"
definition wireReservedAsMapFieldWithEnumValue_Private :: ProtoWireNumber where "wireReservedAsMapFieldWithEnumValue_Private = 3"
definition wireReservedAsMapFieldWithEnumValue_Class :: ProtoWireNumber where "wireReservedAsMapFieldWithEnumValue_Class = 4"
definition wireReservedAsMapFieldWithEnumValue_Int :: ProtoWireNumber where "wireReservedAsMapFieldWithEnumValue_Int = 5"
definition wireReservedAsMapFieldWithEnumValue_Void :: ProtoWireNumber where "wireReservedAsMapFieldWithEnumValue_Void = 6"
definition wireReservedAsMapFieldWithEnumValue_String :: ProtoWireNumber where "wireReservedAsMapFieldWithEnumValue_String = 7"
definition wireReservedAsMapFieldWithEnumValue_Package :: ProtoWireNumber where "wireReservedAsMapFieldWithEnumValue_Package = 8"
definition wireReservedAsMapFieldWithEnumValue_Enum :: ProtoWireNumber where "wireReservedAsMapFieldWithEnumValue_Enum = 9"
definition wireReservedAsMapFieldWithEnumValue_Null :: ProtoWireNumber where "wireReservedAsMapFieldWithEnumValue_Null = 10"

lemmas wireReservedAsMapFieldWithEnumValue =
  wireReservedAsMapFieldWithEnumValue_If_def wireReservedAsMapFieldWithEnumValue_Const_def
  wireReservedAsMapFieldWithEnumValue_Private_def wireReservedAsMapFieldWithEnumValue_Class_def
  wireReservedAsMapFieldWithEnumValue_Int_def wireReservedAsMapFieldWithEnumValue_Void_def
  wireReservedAsMapFieldWithEnumValue_String_def wireReservedAsMapFieldWithEnumValue_Package_def
  wireReservedAsMapFieldWithEnumValue_Enum_def wireReservedAsMapFieldWithEnumValue_Null_def

record ReservedAsMapFieldWithEnumValueReader =
  mbuf :: "Reader option"
  cellIf :: "(gostring \<times> ReservedAsMapFieldWithEnumValue_SampleEnum) list_cell"
  cellConst :: "(gostring \<times> ReservedAsMapFieldWithEnumValue_SampleEnum) list_cell"
  cellPrivate :: "(gostring \<times> ReservedAsMapFieldWithEnumValue_SampleEnum) list_cell"
  cellClass :: "(gostring \<times> ReservedAsMapFieldWithEnumValue_SampleEnum) list_cell"
  cellInt :: "(gostring \<times> ReservedAsMapFieldWithEnumValue_SampleEnum) list_cell"
  cellVoid :: "(gostring \<times> ReservedAsMapFieldWithEnumValue_SampleEnum) list_cell"
  cellString :: "(gostring \<times> ReservedAsMapFieldWithEnumValue_SampleEnum) list_cell"
  cellPackage :: "(gostring \<times> ReservedAsMapFieldWithEnumValue_SampleEnum) list_cell"
  cellEnum :: "(gostring \<times> ReservedAsMapFieldWithEnumValue_SampleEnum) list_cell"
  cellNull :: "(gostring \<times> ReservedAsMapFieldWithEnumValue_SampleEnum) list_cell"

definition NewReservedAsMapFieldWithEnumValueReader :: ReservedAsMapFieldWithEnumValueReader where
  "NewReservedAsMapFieldWithEnumValueReader = \<lparr>
     mbuf = None, cellIf = newCell [] [], cellConst = newCell [] [],
     cellPrivate = newCell [] [], cellClass = newCell [] [], cellInt = newCell [] [],
     cellVoid = newCell [] [], cellString = newCell [] [], cellPackage = newCell [] [],
     cellEnum = newCell [] [], cellNull = newCell [] []\<rparr>"

definition ReservedAsMapFieldWithEnumValueReader_readIf :: "ReservedAsMapFieldWithEnumValueReader \<Rightarrow> ((gostring \<times> ReservedAsMapFieldWithEnumValue_SampleEnum) list \<times> ReservedAsMapFieldWithEnumValueReader) run" where
  "ReservedAsMapFieldWithEnumValueReader_readIf = readCell cellIf cellIf_update mbuf (readMap (sizedScalar SizedReadString []) (sizedScalar SizedReadInt32 0) [] 0)"

definition ReservedAsMapFieldWithEnumValueReader_GetIf :: "ReservedAsMapFieldWithEnumValueReader option \<Rightarrow> ((gostring \<times> ReservedAsMapFieldWithEnumValue_SampleEnum) list \<times> ReservedAsMapFieldWithEnumValueReader option) run" where
  "ReservedAsMapFieldWithEnumValueReader_GetIf = getter ReservedAsMapFieldWithEnumValueReader_readIf []"

definition ReservedAsMapFieldWithEnumValueReader_readConst :: "ReservedAsMapFieldWithEnumValueReader \<Rightarrow> ((gostring \<times> ReservedAsMapFieldWithEnumValue_SampleEnum) list \<times> ReservedAsMapFieldWithEnumValueReader) run" where
  "ReservedAsMapFieldWithEnumValueReader_readConst = readCell cellConst cellConst_update mbuf (readMap (sizedScalar SizedReadString []) (sizedScalar SizedReadInt32 0) [] 0)"

definition ReservedAsMapFieldWithEnumValueReader_GetConst :: "ReservedAsMapFieldWithEnumValueReader option \<Rightarrow> ((gostring \<times> ReservedAsMapFieldWithEnumValue_SampleEnum) list \<times> ReservedAsMapFieldWithEnumValueReader option) run" where
  "ReservedAsMapFieldWithEnumValueReader_GetConst = getter ReservedAsMapFieldWithEnumValueReader_readConst []"

definition ReservedAsMapFieldWithEnumValueReader_readPrivate :: "ReservedAsMapFieldWithEnumValueReader \<Rightarrow> ((gostring \<times> ReservedAsMapFieldWithEnumValue_SampleEnum) list \<times> ReservedAsMapFieldWithEnumValueReader) run" where
  "ReservedAsMapFieldWithEnumValueReader_readPrivate = readCell cellPrivate cellPrivate_update mbuf (readMap (sizedScalar SizedReadString []) (sizedScalar SizedReadInt32 0) [] 0)"

definition ReservedAsMapFieldWithEnumValueReader_GetPrivate :: "ReservedAsMapFieldWithEnumValueReader option \<Rightarrow> ((gostring \<times> ReservedAsMapFieldWithEnumValue_SampleEnum) list \<times> ReservedAsMapFieldWithEnumValueReader option) run" where
  "ReservedAsMapFieldWithEnumValueReader_GetPrivate = getter ReservedAsMapFieldWithEnumValueReader_readPrivate []"

definition ReservedAsMapFieldWithEnumValueReader_readClass :: "ReservedAsMapFieldWithEnumValueReader \<Rightarrow> ((gostring \<times> ReservedAsMapFieldWithEnumValue_SampleEnum) list \<times> ReservedAsMapFieldWithEnumValueReader) run" where
  "ReservedAsMapFieldWithEnumValueReader_readClass = readCell cellClass cellClass_update mbuf (readMap (sizedScalar SizedReadString []) (sizedScalar SizedReadInt32 0) [] 0)"

definition ReservedAsMapFieldWithEnumValueReader_GetClass :: "ReservedAsMapFieldWithEnumValueReader option \<Rightarrow> ((gostring \<times> ReservedAsMapFieldWithEnumValue_SampleEnum) list \<times> ReservedAsMapFieldWithEnumValueReader option) run" where
  "ReservedAsMapFieldWithEnumValueReader_GetClass = getter ReservedAsMapFieldWithEnumValueReader_readClass []"

definition ReservedAsMapFieldWithEnumValueReader_readInt :: "ReservedAsMapFieldWithEnumValueReader \<Rightarrow> ((gostring \<times> ReservedAsMapFieldWithEnumValue_SampleEnum) list \<times> ReservedAsMapFieldWithEnumValueReader) run" where
  "ReservedAsMapFieldWithEnumValueReader_readInt = readCell cellInt cellInt_update mbuf (readMap (sizedScalar SizedReadString []) (sizedScalar SizedReadInt32 0) [] 0)"

definition ReservedAsMapFieldWithEnumValueReader_GetInt :: "ReservedAsMapFieldWithEnumValueReader option \<Rightarrow> ((gostring \<times> ReservedAsMapFieldWithEnumValue_SampleEnum) list \<times> ReservedAsMapFieldWithEnumValueReader option) run" where
  "ReservedAsMapFieldWithEnumValueReader_GetInt = getter ReservedAsMapFieldWithEnumValueReader_readInt []"

definition ReservedAsMapFieldWithEnumValueReader_readVoid :: "ReservedAsMapFieldWithEnumValueReader \<Rightarrow> ((gostring \<times> ReservedAsMapFieldWithEnumValue_SampleEnum) list \<times> ReservedAsMapFieldWithEnumValueReader) run" where
  "ReservedAsMapFieldWithEnumValueReader_readVoid = readCell cellVoid cellVoid_update mbuf (readMap (sizedScalar SizedReadString []) (sizedScalar SizedReadInt32 0) [] 0)"

definition ReservedAsMapFieldWithEnumValueReader_GetVoid :: "ReservedAsMapFieldWithEnumValueReader option \<Rightarrow> ((gostring \<times> ReservedAsMapFieldWithEnumValue_SampleEnum) list \<times> ReservedAsMapFieldWithEnumValueReader option) run" where
  "ReservedAsMapFieldWithEnumValueReader_GetVoid = getter ReservedAsMapFieldWithEnumValueReader_readVoid []"

definition ReservedAsMapFieldWithEnumValueReader_readString :: "ReservedAsMapFieldWithEnumValueReader \<Rightarrow> ((gostring \<times> ReservedAsMapFieldWithEnumValue_SampleEnum) list \<times> ReservedAsMapFieldWithEnumValueReader) run" where
  "ReservedAsMapFieldWithEnumValueReader_readString = readCell cellString cellString_update mbuf (readMap (sizedScalar SizedReadString []) (sizedScalar SizedReadInt32 0) [] 0)"

definition ReservedAsMapFieldWithEnumValueReader_GetString :: "ReservedAsMapFieldWithEnumValueReader option \<Rightarrow> ((gostring \<times> ReservedAsMapFieldWithEnumValue_SampleEnum) list \<times> ReservedAsMapFieldWithEnumValueReader option) run" where
  "ReservedAsMapFieldWithEnumValueReader_GetString = getter ReservedAsMapFieldWithEnumValueReader_readString []"

definition ReservedAsMapFieldWithEnumValueReader_readPackage :: "ReservedAsMapFieldWithEnumValueReader \<Rightarrow> ((gostring \<times> ReservedAsMapFieldWithEnumValue_SampleEnum) list \<times> ReservedAsMapFieldWithEnumValueReader) run" where
  "ReservedAsMapFieldWithEnumValueReader_readPackage = readCell cellPackage cellPackage_update mbuf (readMap (sizedScalar SizedReadString []) (sizedScalar SizedReadInt32 0) [] 0)"

definition ReservedAsMapFieldWithEnumValueReader_GetPackage :: "ReservedAsMapFieldWithEnumValueReader option \<Rightarrow> ((gostring \<times> ReservedAsMapFieldWithEnumValue_SampleEnum) list \<times> ReservedAsMapFieldWithEnumValueReader option) run" where
  "ReservedAsMapFieldWithEnumValueReader_GetPackage = getter ReservedAsMapFieldWithEnumValueReader_readPackage []"

definition ReservedAsMapFieldWithEnumValueReader_readEnum :: "ReservedAsMapFieldWithEnumValueReader \<Rightarrow> ((gostring \<times> ReservedAsMapFieldWithEnumValue_SampleEnum) list \<times> ReservedAsMapFieldWithEnumValueReader) run" where
  "ReservedAsMapFieldWithEnumValueReader_readEnum = readCell cellEnum cellEnum_update mbuf (readMap (sizedScalar SizedReadString []) (sizedScalar SizedReadInt32 0) [] 0)"

definition ReservedAsMapFieldWithEnumValueReader_GetEnum :: "ReservedAsMapFieldWithEnumValueReader option \<Rightarrow> ((gostring \<times> ReservedAsMapFieldWithEnumValue_SampleEnum) list \<times> ReservedAsMapFieldWithEnumValueReader option) run" where
  "ReservedAsMapFieldWithEnumValueReader_GetEnum = getter ReservedAsMapFieldWithEnumValueReader_readEnum []"

definition ReservedAsMapFieldWithEnumValueReader_readNull :: "ReservedAsMapFieldWithEnumValueReader \<Rightarrow> ((gostring \<times> ReservedAsMapFieldWithEnumValue_SampleEnum) list \<times> ReservedAsMapFieldWithEnumValueReader) run" where
  "ReservedAsMapFieldWithEnumValueReader_readNull = readCell cellNull cellNull_update mbuf (readMap (sizedScalar SizedReadString []) (sizedScalar SizedReadInt32 0) [] 0)"

definition ReservedAsMapFieldWithEnumValueReader_GetNull :: "ReservedAsMapFieldWithEnumValueReader option \<Rightarrow> ((gostring \<times> ReservedAsMapFieldWithEnumValue_SampleEnum) list \<times> ReservedAsMapFieldWithEnumValueReader option) run" where
  "ReservedAsMapFieldWithEnumValueReader_GetNull = getter ReservedAsMapFieldWithEnumValueReader_readNull []"

lemmas ReservedAsMapFieldWithEnumValue_getters =
  ReservedAsMapFieldWithEnumValueReader_readIf_def ReservedAsMapFieldWithEnumValueReader_GetIf_def
  ReservedAsMapFieldWithEnumValueReader_readConst_def ReservedAsMapFieldWithEnumValueReader_GetConst_def
  ReservedAsMapFieldWithEnumValueReader_readPrivate_def ReservedAsMapFieldWithEnumValueReader_GetPrivate_def
  ReservedAsMapFieldWithEnumValueReader_readClass_def ReservedAsMapFieldWithEnumValueReader_GetClass_def
  ReservedAsMapFieldWithEnumValueReader_readInt_def ReservedAsMapFieldWithEnumValueReader_GetInt_def
  ReservedAsMapFieldWithEnumValueReader_readVoid_def ReservedAsMapFieldWithEnumValueReader_GetVoid_def
  ReservedAsMapFieldWithEnumValueReader_readString_def ReservedAsMapFieldWithEnumValueReader_GetString_def
  ReservedAsMapFieldWithEnumValueReader_readPackage_def ReservedAsMapFieldWithEnumValueReader_GetPackage_def
  ReservedAsMapFieldWithEnumValueReader_readEnum_def ReservedAsMapFieldWithEnumValueReader_GetEnum_def
  ReservedAsMapFieldWithEnumValueReader_readNull_def ReservedAsMapFieldWithEnumValueReader_GetNull_def

definition ReservedAsMapFieldWithEnumValueReader_cases :: "ProtoWireType \<Rightarrow> int \<Rightarrow> (ProtoWireNumber \<times> (ReservedAsMapFieldWithEnumValueReader \<Rightarrow> ReservedAsMapFieldWithEnumValueReader)) list" where
  "ReservedAsMapFieldWithEnumValueReader_cases wire offset = [
     (wireReservedAsMapFieldWithEnumValue_If, \<lambda>m. m\<lparr>cellIf := onOffset (addOffset wire offset) (cellIf m)\<rparr>),
     (wireReservedAsMapFieldWithEnumValue_Const, \<lambda>m. m\<lparr>cellConst := onOffset (addOffset wire offset) (cellConst m)\<rparr>),
     (wireReservedAsMapFieldWithEnumValue_Private, \<lambda>m. m\<lparr>cellPrivate := onOffset (addOffset wire offset) (cellPrivate m)\<rparr>),
     (wireReservedAsMapFieldWithEnumValue_Class, \<lambda>m. m\<lparr>cellClass := onOffset (addOffset wire offset) (cellClass m)\<rparr>),
     (wireReservedAsMapFieldWithEnumValue_Int, \<lambda>m. m\<lparr>cellInt := onOffset (addOffset wire offset) (cellInt m)\<rparr>),
     (wireReservedAsMapFieldWithEnumValue_Void, \<lambda>m. m\<lparr>cellVoid := onOffset (addOffset wire offset) (cellVoid m)\<rparr>),
     (wireReservedAsMapFieldWithEnumValue_String, \<lambda>m. m\<lparr>cellString := onOffset (addOffset wire offset) (cellString m)\<rparr>),
     (wireReservedAsMapFieldWithEnumValue_Package, \<lambda>m. m\<lparr>cellPackage := onOffset (addOffset wire offset) (cellPackage m)\<rparr>),
     (wireReservedAsMapFieldWithEnumValue_Enum, \<lambda>m. m\<lparr>cellEnum := onOffset (addOffset wire offset) (cellEnum m)\<rparr>),
     (wireReservedAsMapFieldWithEnumValue_Null, \<lambda>m. m\<lparr>cellNull := onOffset (addOffset wire offset) (cellNull m)\<rparr>)]"

definition ReservedAsMapFieldWithEnumValueReader_save :: "ProtoWireNumber \<Rightarrow> ProtoWireType \<Rightarrow> int \<Rightarrow> ReservedAsMapFieldWithEnumValueReader \<Rightarrow> ReservedAsMapFieldWithEnumValueReader" where
  "ReservedAsMapFieldWithEnumValueReader_save tag wire offset = tag_switch (ReservedAsMapFieldWithEnumValueReader_cases wire offset) tag"

definition ReservedAsMapFieldWithEnumValueReader_Unmarshal :: "ReservedAsMapFieldWithEnumValueReader \<Rightarrow> gslice \<Rightarrow> (ReservedAsMapFieldWithEnumValueReader \<times> string option) run" where
  "ReservedAsMapFieldWithEnumValueReader_Unmarshal m data =
     unmarshalLoop ReservedAsMapFieldWithEnumValueReader_save (NewReader data) 0 (m\<lparr>mbuf := Some (NewReader data)\<rparr>)"

definition ReservedAsMapFieldWithEnumValueReader_SourceBytes :: "ReservedAsMapFieldWithEnumValueReader option \<Rightarrow> gslice" where
  "ReservedAsMapFieldWithEnumValueReader_SourceBytes s = (case s of None \<Rightarrow> nil_slice | Some r \<Rightarrow> Bytes (mbuf r))"

section \<open>ReservedAsMapFieldWithEnumValue: the struct\<close>

record ReservedAsMapFieldWithEnumValue =
  If' :: "(gostring \<times> ReservedAsMapFieldWithEnumValue_SampleEnum) list"
  Const :: "(gostring \<times> ReservedAsMapFieldWithEnumValue_SampleEnum) list"
  Private :: "(gostring \<times> ReservedAsMapFieldWithEnumValue_SampleEnum) list"
  Class :: "(gostring \<times> ReservedAsMapFieldWithEnumValue_SampleEnum) list"
  Int' :: "(gostring \<times> ReservedAsMapFieldWithEnumValue_SampleEnum) list"
  Void :: "(gostring \<times> ReservedAsMapFieldWithEnumValue_SampleEnum) list"
  String :: "(gostring \<times> ReservedAsMapFieldWithEnumValue_SampleEnum) list"
  Package :: "(gostring \<times> ReservedAsMapFieldWithEnumValue_SampleEnum) list"
  Enum :: "(gostring \<times> ReservedAsMapFieldWithEnumValue_SampleEnum) list"
  Null :: "(gostring \<times> ReservedAsMapFieldWithEnumValue_SampleEnum) list"

definition ReservedAsMapFieldWithEnumValue_zero :: ReservedAsMapFieldWithEnumValue where
  "ReservedAsMapFieldWithEnumValue_zero = \<lparr>
     If' = [], Const = [], Private = [], Class = [], Int' = [], Void = [], String = [],
     Package = [], Enum = [], Null = []\<rparr>"

definition ReservedAsMapFieldWithEnumValue_stmts :: "(ReservedAsMapFieldWithEnumValue \<times> ReservedAsMapFieldWithEnumValueReader option \<Rightarrow> (ReservedAsMapFieldWithEnumValue \<times> ReservedAsMapFieldWithEnumValueReader option) run) list" where
  "ReservedAsMapFieldWithEnumValue_stmts = [
     assign ReservedAsMapFieldWithEnumValueReader_GetIf (\<lambda>v res. res\<lparr>If' := v\<rparr>),
     assign ReservedAsMapFieldWithEnumValueReader_GetConst (\<lambda>v res. res\<lparr>Const := v\<rparr>),
     assign ReservedAsMapFieldWithEnumValueReader_GetPrivate (\<lambda>v res. res\<lparr>Private := v\<rparr>),
     assign ReservedAsMapFieldWithEnumValueReader_GetClass (\<lambda>v res. res\<lparr>Class := v\<rparr>),
     assign ReservedAsMapFieldWithEnumValueReader_GetInt (\<lambda>v res. res\<lparr>Int' := v\<rparr>),
     assign ReservedAsMapFieldWithEnumValueReader_GetVoid (\<lambda>v res. res\<lparr>Void := v\<rparr>),
     assign ReservedAsMapFieldWithEnumValueReader_GetString (\<lambda>v res. res\<lparr>String := v\<rparr>),
     assign ReservedAsMapFieldWithEnumValueReader_GetPackage (\<lambda>v res. res\<lparr>Package := v\<rparr>),
     assign ReservedAsMapFieldWithEnumValueReader_GetEnum (\<lambda>v res. res\<lparr>Enum := v\<rparr>),
     assign ReservedAsMapFieldWithEnumValueReader_GetNull (\<lambda>v res. res\<lparr>Null := v\<rparr>)]"

definition ReservedAsMapFieldWithEnumValueReader_ToStruct :: "ReservedAsMapFieldWithEnumValueReader option \<Rightarrow> (ReservedAsMapFieldWithEnumValue option \<times> ReservedAsMapFieldWithEnumValueReader option) run" where
  "ReservedAsMapFieldWithEnumValueReader_ToStruct = toStructWith (ReservedAsMapFieldWithEnumValue_stmts) ReservedAsMapFieldWithEnumValue_zero"

definition ReservedAsMapFieldWithEnumValue_appends :: "ReservedAsMapFieldWithEnumValue \<Rightarrow> (Writer \<Rightarrow> Writer go) list" where
  "ReservedAsMapFieldWithEnumValue_appends s = [
     \<lambda>res. if If' s \<noteq> [] then mapWriter (sizeDelimitedWithTag SizeString) (sizeWithTag SizeInt32) AppendString AppendInt32 res wireReservedAsMapFieldWithEnumValue_If (If' s) else Ret res,
     \<lambda>res. if Const s \<noteq> [] then mapWriter (sizeDelimitedWithTag SizeString) (sizeWithTag SizeInt32) AppendString AppendInt32 res wireReservedAsMapFieldWithEnumValue_Const (Const s) else Ret res,
     \<lambda>res. if Private s \<noteq> [] then mapWriter (sizeDelimitedWithTag SizeString) (sizeWithTag SizeInt32) AppendString AppendInt32 res wireReservedAsMapFieldWithEnumValue_Private (Private s) else Ret res,
     \<lambda>res. if Class s \<noteq> [] then mapWriter (sizeDelimitedWithTag SizeString) (sizeWithTag SizeInt32) AppendString AppendInt32 res wireReservedAsMapFieldWithEnumValue_Class (Class s) else Ret res,
     \<lambda>res. if Int' s \<noteq> [] then mapWriter (sizeDelimitedWithTag SizeString) (sizeWithTag SizeInt32) AppendString AppendInt32 res wireReservedAsMapFieldWithEnumValue_Int (Int' s) else Ret res,
     \<lambda>res. if Void s \<noteq> [] then mapWriter (sizeDelimitedWithTag SizeString) (sizeWithTag SizeInt32) AppendString AppendInt32 res wireReservedAsMapFieldWithEnumValue_Void (Void s) else Ret res,
     \<lambda>res. if String s \<noteq> [] then mapWriter (sizeDelimitedWithTag SizeString) (sizeWithTag SizeInt32) AppendString AppendInt32 res wireReservedAsMapFieldWithEnumValue_String (String s) else Ret res,
     \<lambda>res. if Package s \<noteq> [] then mapWriter (sizeDelimitedWithTag SizeString) (sizeWithTag SizeInt32) AppendString AppendInt32 res wireReservedAsMapFieldWithEnumValue_Package (Package s) else Ret res,
     \<lambda>res. if Enum s \<noteq> [] then mapWriter (sizeDelimitedWithTag SizeString) (sizeWithTag SizeInt32) AppendString AppendInt32 res wireReservedAsMapFieldWithEnumValue_Enum (Enum s) else Ret res,
     \<lambda>res. if Null s \<noteq> [] then mapWriter (sizeDelimitedWithTag SizeString) (sizeWithTag SizeInt32) AppendString AppendInt32 res wireReservedAsMapFieldWithEnumValue_Null (Null s) else Ret res]"

definition ReservedAsMapFieldWithEnumValue_MarshalTo :: "Writer \<Rightarrow> ReservedAsMapFieldWithEnumValue option \<Rightarrow> Writer go" where
  "ReservedAsMapFieldWithEnumValue_MarshalTo = marshalToWith (\<lambda>s. ReservedAsMapFieldWithEnumValue_appends s)"

definition ReservedAsMapFieldWithEnumValue_sizes :: "ReservedAsMapFieldWithEnumValue \<Rightarrow> int list" where
  "ReservedAsMapFieldWithEnumValue_sizes s = [
     if If' s \<noteq> [] then mapSize (sizeDelimitedWithTag SizeString) (sizeWithTag SizeInt32) wireReservedAsMapFieldWithEnumValue_If (If' s) else 0,
     if Const s \<noteq> [] then mapSize (sizeDelimitedWithTag SizeString) (sizeWithTag SizeInt32) wireReservedAsMapFieldWithEnumValue_Const (Const s) else 0,
     if Private s \<noteq> [] then mapSize (sizeDelimitedWithTag SizeString) (sizeWithTag SizeInt32) wireReservedAsMapFieldWithEnumValue_Private (Private s) else 0,
     if Class s \<noteq> [] then mapSize (sizeDelimitedWithTag SizeString) (sizeWithTag SizeInt32) wireReservedAsMapFieldWithEnumValue_Class (Class s) else 0,
     if Int' s \<noteq> [] then mapSize (sizeDelimitedWithTag SizeString) (sizeWithTag SizeInt32) wireReservedAsMapFieldWithEnumValue_Int (Int' s) else 0,
     if Void s \<noteq> [] then mapSize (sizeDelimitedWithTag SizeString) (sizeWithTag SizeInt32) wireReservedAsMapFieldWithEnumValue_Void (Void s) else 0,
     if String s \<noteq> [] then mapSize (sizeDelimitedWithTag SizeString) (sizeWithTag SizeInt32) wireReservedAsMapFieldWithEnumValue_String (String s) else 0,
     if Package s \<noteq> [] then mapSize (sizeDelimitedWithTag SizeString) (sizeWithTag SizeInt32) wireReservedAsMapFieldWithEnumValue_Package (Package s) else 0,
     if Enum s \<noteq> [] then mapSize (sizeDelimitedWithTag SizeString) (sizeWithTag SizeInt32) wireReservedAsMapFieldWithEnumValue_Enum (Enum s) else 0,
     if Null s \<noteq> [] then mapSize (sizeDelimitedWithTag SizeString) (sizeWithTag SizeInt32) wireReservedAsMapFieldWithEnumValue_Null (Null s) else 0]"

definition ReservedAsMapFieldWithEnumValue_XXX_PbContentSize :: "ReservedAsMapFieldWithEnumValue option \<Rightarrow> int" where
  "ReservedAsMapFieldWithEnumValue_XXX_PbContentSize = contentSizeWith (\<lambda>s. ReservedAsMapFieldWithEnumValue_sizes s)"

text \<open>
  The loops of the size and of the write code may take different orders through a map: the second argument is the
  struct as the second of them finds it.
\<close>

definition ReservedAsMapFieldWithEnumValue_Marshal :: "ReservedAsMapFieldWithEnumValue option \<Rightarrow> ReservedAsMapFieldWithEnumValue option \<Rightarrow> byte list go" where
  "ReservedAsMapFieldWithEnumValue_Marshal s s' = marshalWith (\<lambda>_. ReservedAsMapFieldWithEnumValue_XXX_PbContentSize s) ReservedAsMapFieldWithEnumValue_MarshalTo s'"

definition ReservedAsMapFieldWithEnumValue_Copy :: "ReservedAsMapFieldWithEnumValue option \<Rightarrow> ReservedAsMapFieldWithEnumValue option" where
  "ReservedAsMapFieldWithEnumValue_Copy s =
     (case s of None \<Rightarrow> None | Some s \<Rightarrow> Some \<lparr>
        If' = mapCopy (If' s), Const = mapCopy (Const s), Private = mapCopy (Private s),
        Class = mapCopy (Class s), Int' = mapCopy (Int' s), Void = mapCopy (Void s),
        String = mapCopy (String s), Package = mapCopy (Package s), Enum = mapCopy (Enum s),
        Null = mapCopy (Null s)\<rparr>)"

section \<open>ReservedAsMapFieldWithEnumValue: the round trip\<close>

definition ReservedAsMapFieldWithEnumValue_tags :: "ProtoWireNumber list" where
  "ReservedAsMapFieldWithEnumValue_tags = [
     wireReservedAsMapFieldWithEnumValue_If, wireReservedAsMapFieldWithEnumValue_Const,
     wireReservedAsMapFieldWithEnumValue_Private, wireReservedAsMapFieldWithEnumValue_Class,
     wireReservedAsMapFieldWithEnumValue_Int, wireReservedAsMapFieldWithEnumValue_Void,
     wireReservedAsMapFieldWithEnumValue_String, wireReservedAsMapFieldWithEnumValue_Package,
     wireReservedAsMapFieldWithEnumValue_Enum, wireReservedAsMapFieldWithEnumValue_Null]"

definition ReservedAsMapFieldWithEnumValue_groups :: "ReservedAsMapFieldWithEnumValue \<Rightarrow> wfield list list" where
  "ReservedAsMapFieldWithEnumValue_groups s = [
     map_content WBytes int32_val wireReservedAsMapFieldWithEnumValue_If (If' s),
     map_content WBytes int32_val wireReservedAsMapFieldWithEnumValue_Const (Const s),
     map_content WBytes int32_val wireReservedAsMapFieldWithEnumValue_Private (Private s),
     map_content WBytes int32_val wireReservedAsMapFieldWithEnumValue_Class (Class s),
     map_content WBytes int32_val wireReservedAsMapFieldWithEnumValue_Int (Int' s),
     map_content WBytes int32_val wireReservedAsMapFieldWithEnumValue_Void (Void s),
     map_content WBytes int32_val wireReservedAsMapFieldWithEnumValue_String (String s),
     map_content WBytes int32_val wireReservedAsMapFieldWithEnumValue_Package (Package s),
     map_content WBytes int32_val wireReservedAsMapFieldWithEnumValue_Enum (Enum s),
     map_content WBytes int32_val wireReservedAsMapFieldWithEnumValue_Null (Null s)]"

definition ReservedAsMapFieldWithEnumValue_content :: "ReservedAsMapFieldWithEnumValue \<Rightarrow> wfield list" where
  "ReservedAsMapFieldWithEnumValue_content s = concat (ReservedAsMapFieldWithEnumValue_groups s)"

text \<open>What a round trip keeps.\<close>

definition ReservedAsMapFieldWithEnumValue_norm :: "ReservedAsMapFieldWithEnumValue \<Rightarrow> ReservedAsMapFieldWithEnumValue" where
  "ReservedAsMapFieldWithEnumValue_norm s = s\<lparr>
     If' := mapCopy (If' s),
     Const := mapCopy (Const s),
     Private := mapCopy (Private s),
     Class := mapCopy (Class s),
     Int' := mapCopy (Int' s),
     Void := mapCopy (Void s),
     String := mapCopy (String s),
     Package := mapCopy (Package s),
     Enum := mapCopy (Enum s),
     Null := mapCopy (Null s)\<rparr>"

definition ReservedAsMapFieldWithEnumValue_ready :: "Reader \<Rightarrow> ReservedAsMapFieldWithEnumValue \<Rightarrow> (ReservedAsMapFieldWithEnumValueReader \<Rightarrow> bool) list" where
  "ReservedAsMapFieldWithEnumValue_ready p s = [
     \<lambda>m. cell_reads (readMap (sizedScalar SizedReadString []) (sizedScalar SizedReadInt32 0) [] 0) plain p (mapCopy (If' s)) (cellIf m),
     \<lambda>m. cell_reads (readMap (sizedScalar SizedReadString []) (sizedScalar SizedReadInt32 0) [] 0) plain p (mapCopy (Const s)) (cellConst m),
     \<lambda>m. cell_reads (readMap (sizedScalar SizedReadString []) (sizedScalar SizedReadInt32 0) [] 0) plain p (mapCopy (Private s)) (cellPrivate m),
     \<lambda>m. cell_reads (readMap (sizedScalar SizedReadString []) (sizedScalar SizedReadInt32 0) [] 0) plain p (mapCopy (Class s)) (cellClass m),
     \<lambda>m. cell_reads (readMap (sizedScalar SizedReadString []) (sizedScalar SizedReadInt32 0) [] 0) plain p (mapCopy (Int' s)) (cellInt m),
     \<lambda>m. cell_reads (readMap (sizedScalar SizedReadString []) (sizedScalar SizedReadInt32 0) [] 0) plain p (mapCopy (Void s)) (cellVoid m),
     \<lambda>m. cell_reads (readMap (sizedScalar SizedReadString []) (sizedScalar SizedReadInt32 0) [] 0) plain p (mapCopy (String s)) (cellString m),
     \<lambda>m. cell_reads (readMap (sizedScalar SizedReadString []) (sizedScalar SizedReadInt32 0) [] 0) plain p (mapCopy (Package s)) (cellPackage m),
     \<lambda>m. cell_reads (readMap (sizedScalar SizedReadString []) (sizedScalar SizedReadInt32 0) [] 0) plain p (mapCopy (Enum s)) (cellEnum m),
     \<lambda>m. cell_reads (readMap (sizedScalar SizedReadString []) (sizedScalar SizedReadInt32 0) [] 0) plain p (mapCopy (Null s)) (cellNull m)]"

definition ReservedAsMapFieldWithEnumValue_stored :: "ReservedAsMapFieldWithEnumValue \<Rightarrow> (ReservedAsMapFieldWithEnumValue \<Rightarrow> ReservedAsMapFieldWithEnumValue) list" where
  "ReservedAsMapFieldWithEnumValue_stored s = [
     \<lambda>res. res\<lparr>If' := mapCopy (If' s)\<rparr>,
     \<lambda>res. res\<lparr>Const := mapCopy (Const s)\<rparr>,
     \<lambda>res. res\<lparr>Private := mapCopy (Private s)\<rparr>,
     \<lambda>res. res\<lparr>Class := mapCopy (Class s)\<rparr>,
     \<lambda>res. res\<lparr>Int' := mapCopy (Int' s)\<rparr>,
     \<lambda>res. res\<lparr>Void := mapCopy (Void s)\<rparr>,
     \<lambda>res. res\<lparr>String := mapCopy (String s)\<rparr>,
     \<lambda>res. res\<lparr>Package := mapCopy (Package s)\<rparr>,
     \<lambda>res. res\<lparr>Enum := mapCopy (Enum s)\<rparr>,
     \<lambda>res. res\<lparr>Null := mapCopy (Null s)\<rparr>]"

lemma ReservedAsMapFieldWithEnumValue_cases_distinct: "distinct (map fst (ReservedAsMapFieldWithEnumValueReader_cases wire offset))"
  by (rule ascending_distinct) (simp add: ReservedAsMapFieldWithEnumValueReader_cases_def wireReservedAsMapFieldWithEnumValue)

lemma ReservedAsMapFieldWithEnumValue_stores:
  "stores_cell ReservedAsMapFieldWithEnumValueReader_save wireReservedAsMapFieldWithEnumValue_If addOffset cellIf"
  "stores_cell ReservedAsMapFieldWithEnumValueReader_save wireReservedAsMapFieldWithEnumValue_Const addOffset cellConst"
  "stores_cell ReservedAsMapFieldWithEnumValueReader_save wireReservedAsMapFieldWithEnumValue_Private addOffset cellPrivate"
  "stores_cell ReservedAsMapFieldWithEnumValueReader_save wireReservedAsMapFieldWithEnumValue_Class addOffset cellClass"
  "stores_cell ReservedAsMapFieldWithEnumValueReader_save wireReservedAsMapFieldWithEnumValue_Int addOffset cellInt"
  "stores_cell ReservedAsMapFieldWithEnumValueReader_save wireReservedAsMapFieldWithEnumValue_Void addOffset cellVoid"
  "stores_cell ReservedAsMapFieldWithEnumValueReader_save wireReservedAsMapFieldWithEnumValue_String addOffset cellString"
  "stores_cell ReservedAsMapFieldWithEnumValueReader_save wireReservedAsMapFieldWithEnumValue_Package addOffset cellPackage"
  "stores_cell ReservedAsMapFieldWithEnumValueReader_save wireReservedAsMapFieldWithEnumValue_Enum addOffset cellEnum"
  "stores_cell ReservedAsMapFieldWithEnumValueReader_save wireReservedAsMapFieldWithEnumValue_Null addOffset cellNull"
  unfolding ReservedAsMapFieldWithEnumValueReader_save_def [abs_def] by (rule stores_cell_switch; (rule ReservedAsMapFieldWithEnumValue_cases_distinct)?; unfold ReservedAsMapFieldWithEnumValueReader_cases_def; intro own_case.intros; simp)+

lemma ReservedAsMapFieldWithEnumValue_saved: "good_fields ReservedAsMapFieldWithEnumValueReader_save p (NewReservedAsMapFieldWithEnumValueReader\<lparr>mbuf := Some p\<rparr>) ReservedAsMapFieldWithEnumValue_tags (ReservedAsMapFieldWithEnumValue_groups s) (ReservedAsMapFieldWithEnumValue_ready p s)"
  unfolding ReservedAsMapFieldWithEnumValue_tags_def ReservedAsMapFieldWithEnumValue_groups_def ReservedAsMapFieldWithEnumValue_ready_def
  by (intro good_fields.intros field_saved map_saved ReservedAsMapFieldWithEnumValue_stores) (simp_all add: NewReservedAsMapFieldWithEnumValueReader_def newCell_def)

lemma ReservedAsMapFieldWithEnumValue_converted: "good_stmts mbuf p (ReservedAsMapFieldWithEnumValue_stmts) (ReservedAsMapFieldWithEnumValue_ready p s) (ReservedAsMapFieldWithEnumValue_stored s)"
  unfolding ReservedAsMapFieldWithEnumValue_stmts_def ReservedAsMapFieldWithEnumValue_ready_def ReservedAsMapFieldWithEnumValue_stored_def ReservedAsMapFieldWithEnumValue_getters append.simps
  by (intro good_stmts_field good_stmts.Nil) (simp_all cong: cell_reads_cong)

interpretation l_ReservedAsMapFieldWithEnumValue: lazy_message ReservedAsMapFieldWithEnumValue_tags ReservedAsMapFieldWithEnumValue_groups ReservedAsMapFieldWithEnumValue_norm
  "\<lambda>s. ReservedAsMapFieldWithEnumValue_sizes s" "\<lambda>s. ReservedAsMapFieldWithEnumValue_appends s"
  ReservedAsMapFieldWithEnumValueReader_save "\<lambda>p. NewReservedAsMapFieldWithEnumValueReader\<lparr>mbuf := Some p\<rparr>" mbuf "ReservedAsMapFieldWithEnumValue_stmts" ReservedAsMapFieldWithEnumValue_zero ReservedAsMapFieldWithEnumValue_ready ReservedAsMapFieldWithEnumValue_stored
proof
  show "distinct ReservedAsMapFieldWithEnumValue_tags"
    using ReservedAsMapFieldWithEnumValue_cases_distinct by (simp only: ReservedAsMapFieldWithEnumValueReader_cases_def ReservedAsMapFieldWithEnumValue_tags_def list.map fst_conv)
  show "list_all valid_tag ReservedAsMapFieldWithEnumValue_tags"
    by (simp add: ReservedAsMapFieldWithEnumValue_tags_def wireReservedAsMapFieldWithEnumValue valid_tag_def)
  show "list_all2 (\<lambda>t g. \<forall>f \<in> set g. fst f = t \<and> wf_val (snd f)) ReservedAsMapFieldWithEnumValue_tags (ReservedAsMapFieldWithEnumValue_groups s)" for s
    unfolding ReservedAsMapFieldWithEnumValue_tags_def ReservedAsMapFieldWithEnumValue_groups_def by (intro list.rel_intros field_tagged map_tagged)
  show "list_all2 (\<lambda>e g. e = int (length (fields_bytes g))) (ReservedAsMapFieldWithEnumValue_sizes s) (ReservedAsMapFieldWithEnumValue_groups s)" for s
    unfolding ReservedAsMapFieldWithEnumValue_sizes_def ReservedAsMapFieldWithEnumValue_groups_def append.simps
    by (intro list.rel_intros field_sized map_sized)
  show "list_all2 (\<lambda>st g. writes st (fields_bytes g)) (ReservedAsMapFieldWithEnumValue_appends s) (ReservedAsMapFieldWithEnumValue_groups s)" for s
    unfolding ReservedAsMapFieldWithEnumValue_appends_def ReservedAsMapFieldWithEnumValue_groups_def append.simps
    by (intro list.rel_intros field_written map_written)
  show "mbuf (ReservedAsMapFieldWithEnumValueReader_save t w off m) = mbuf m" for t w off m
    unfolding ReservedAsMapFieldWithEnumValueReader_save_def by (rule tag_switch_keeps) (simp add: ReservedAsMapFieldWithEnumValueReader_cases_def)
  show "fold (\<lambda>e. e) (ReservedAsMapFieldWithEnumValue_stored s) ReservedAsMapFieldWithEnumValue_zero = ReservedAsMapFieldWithEnumValue_norm s" for s
    unfolding ReservedAsMapFieldWithEnumValue_stored_def by (simp add: ReservedAsMapFieldWithEnumValue_zero_def ReservedAsMapFieldWithEnumValue_norm_def float_defaults)
qed (simp_all add: ReservedAsMapFieldWithEnumValue_saved ReservedAsMapFieldWithEnumValue_converted)

interpretation m_ReservedAsMapFieldWithEnumValue: message_codec ReservedAsMapFieldWithEnumValue_content ReservedAsMapFieldWithEnumValue_norm ReservedAsMapFieldWithEnumValue_XXX_PbContentSize ReservedAsMapFieldWithEnumValue_MarshalTo
  "ReservedAsMapFieldWithEnumValueReader_Unmarshal NewReservedAsMapFieldWithEnumValueReader" ReservedAsMapFieldWithEnumValueReader_ToStruct
  using l_ReservedAsMapFieldWithEnumValue.message
  by (simp only: ReservedAsMapFieldWithEnumValue_content_def [abs_def] ReservedAsMapFieldWithEnumValue_XXX_PbContentSize_def ReservedAsMapFieldWithEnumValue_MarshalTo_def ReservedAsMapFieldWithEnumValueReader_Unmarshal_def [abs_def] ReservedAsMapFieldWithEnumValueReader_ToStruct_def)


section \<open>MapContainer: the reader\<close>

definition wireMapContainer_MyMap :: ProtoWireNumber where "wireMapContainer_MyMap = 1"

lemmas wireMapContainer =
  wireMapContainer_MyMap_def

record MapContainerReader =
  mbuf :: "Reader option"
  cellMyMap :: "(gostring \<times> gostring) list_cell"

definition NewMapContainerReader :: MapContainerReader where
  "NewMapContainerReader = \<lparr>
     mbuf = None, cellMyMap = newCell [] []\<rparr>"

definition MapContainerReader_readMyMap :: "MapContainerReader \<Rightarrow> ((gostring \<times> gostring) list \<times> MapContainerReader) run" where
  "MapContainerReader_readMyMap = readCell cellMyMap cellMyMap_update mbuf (readMap (sizedScalar SizedReadString []) (sizedScalar SizedReadString []) [] [])"

definition MapContainerReader_GetMyMap :: "MapContainerReader option \<Rightarrow> ((gostring \<times> gostring) list \<times> MapContainerReader option) run" where
  "MapContainerReader_GetMyMap = getter MapContainerReader_readMyMap []"

lemmas MapContainer_getters =
  MapContainerReader_readMyMap_def MapContainerReader_GetMyMap_def

definition MapContainerReader_cases :: "ProtoWireType \<Rightarrow> int \<Rightarrow> (ProtoWireNumber \<times> (MapContainerReader \<Rightarrow> MapContainerReader)) list" where
  "MapContainerReader_cases wire offset = [
     (wireMapContainer_MyMap, \<lambda>m. m\<lparr>cellMyMap := onOffset (addOffset wire offset) (cellMyMap m)\<rparr>)]"

definition MapContainerReader_save :: "ProtoWireNumber \<Rightarrow> ProtoWireType \<Rightarrow> int \<Rightarrow> MapContainerReader \<Rightarrow> MapContainerReader" where
  "MapContainerReader_save tag wire offset = tag_switch (MapContainerReader_cases wire offset) tag"

definition MapContainerReader_Unmarshal :: "MapContainerReader \<Rightarrow> gslice \<Rightarrow> (MapContainerReader \<times> string option) run" where
  "MapContainerReader_Unmarshal m data =
     unmarshalLoop MapContainerReader_save (NewReader data) 0 (m\<lparr>mbuf := Some (NewReader data)\<rparr>)"

definition MapContainerReader_SourceBytes :: "MapContainerReader option \<Rightarrow> gslice" where
  "MapContainerReader_SourceBytes s = (case s of None \<Rightarrow> nil_slice | Some r \<Rightarrow> Bytes (mbuf r))"

section \<open>MapContainer: the struct\<close>

record MapContainer =
  MyMap :: "(gostring \<times> gostring) list"

definition MapContainer_zero :: MapContainer where
  "MapContainer_zero = \<lparr>
     MyMap = []\<rparr>"

definition MapContainer_stmts :: "(MapContainer \<times> MapContainerReader option \<Rightarrow> (MapContainer \<times> MapContainerReader option) run) list" where
  "MapContainer_stmts = [
     assign MapContainerReader_GetMyMap (\<lambda>v res. res\<lparr>MyMap := v\<rparr>)]"

definition MapContainerReader_ToStruct :: "MapContainerReader option \<Rightarrow> (MapContainer option \<times> MapContainerReader option) run" where
  "MapContainerReader_ToStruct = toStructWith (MapContainer_stmts) MapContainer_zero"

definition MapContainer_appends :: "MapContainer \<Rightarrow> (Writer \<Rightarrow> Writer go) list" where
  "MapContainer_appends s = [
     \<lambda>res. if MyMap s \<noteq> [] then mapWriter (sizeDelimitedWithTag SizeString) (sizeDelimitedWithTag SizeString) AppendString AppendString res wireMapContainer_MyMap (MyMap s) else Ret res]"

definition MapContainer_MarshalTo :: "Writer \<Rightarrow> MapContainer option \<Rightarrow> Writer go" where
  "MapContainer_MarshalTo = marshalToWith (\<lambda>s. MapContainer_appends s)"

definition MapContainer_sizes :: "MapContainer \<Rightarrow> int list" where
  "MapContainer_sizes s = [
     if MyMap s \<noteq> [] then mapSize (sizeDelimitedWithTag SizeString) (sizeDelimitedWithTag SizeString) wireMapContainer_MyMap (MyMap s) else 0]"

definition MapContainer_XXX_PbContentSize :: "MapContainer option \<Rightarrow> int" where
  "MapContainer_XXX_PbContentSize = contentSizeWith (\<lambda>s. MapContainer_sizes s)"

text \<open>
  The loops of the size and of the write code may take different orders through a map: the second argument is the
  struct as the second of them finds it.
\<close>

definition MapContainer_Marshal :: "MapContainer option \<Rightarrow> MapContainer option \<Rightarrow> byte list go" where
  "MapContainer_Marshal s s' = marshalWith (\<lambda>_. MapContainer_XXX_PbContentSize s) MapContainer_MarshalTo s'"

definition MapContainer_Copy :: "MapContainer option \<Rightarrow> MapContainer option" where
  "MapContainer_Copy s =
     (case s of None \<Rightarrow> None | Some s \<Rightarrow> Some \<lparr>
        MyMap = mapCopy (MyMap s)\<rparr>)"

section \<open>MapContainer: the round trip\<close>

definition MapContainer_tags :: "ProtoWireNumber list" where
  "MapContainer_tags = [
     wireMapContainer_MyMap]"

definition MapContainer_groups :: "MapContainer \<Rightarrow> wfield list list" where
  "MapContainer_groups s = [
     map_content WBytes WBytes wireMapContainer_MyMap (MyMap s)]"

definition MapContainer_content :: "MapContainer \<Rightarrow> wfield list" where
  "MapContainer_content s = concat (MapContainer_groups s)"

text \<open>What a round trip keeps.\<close>

definition MapContainer_norm :: "MapContainer \<Rightarrow> MapContainer" where
  "MapContainer_norm s = s\<lparr>
     MyMap := mapCopy (MyMap s)\<rparr>"

definition MapContainer_ready :: "Reader \<Rightarrow> MapContainer \<Rightarrow> (MapContainerReader \<Rightarrow> bool) list" where
  "MapContainer_ready p s = [
     \<lambda>m. cell_reads (readMap (sizedScalar SizedReadString []) (sizedScalar SizedReadString []) [] []) plain p (mapCopy (MyMap s)) (cellMyMap m)]"

definition MapContainer_stored :: "MapContainer \<Rightarrow> (MapContainer \<Rightarrow> MapContainer) list" where
  "MapContainer_stored s = [
     \<lambda>res. res\<lparr>MyMap := mapCopy (MyMap s)\<rparr>]"

lemma MapContainer_cases_distinct: "distinct (map fst (MapContainerReader_cases wire offset))"
  by (rule ascending_distinct) (simp add: MapContainerReader_cases_def wireMapContainer)

lemma MapContainer_stores:
  "stores_cell MapContainerReader_save wireMapContainer_MyMap addOffset cellMyMap"
  unfolding MapContainerReader_save_def [abs_def] by (rule stores_cell_switch; (rule MapContainer_cases_distinct)?; unfold MapContainerReader_cases_def; intro own_case.intros; simp)+

lemma MapContainer_saved: "good_fields MapContainerReader_save p (NewMapContainerReader\<lparr>mbuf := Some p\<rparr>) MapContainer_tags (MapContainer_groups s) (MapContainer_ready p s)"
  unfolding MapContainer_tags_def MapContainer_groups_def MapContainer_ready_def
  by (intro good_fields.intros field_saved map_saved MapContainer_stores) (simp_all add: NewMapContainerReader_def newCell_def)

lemma MapContainer_converted: "good_stmts mbuf p (MapContainer_stmts) (MapContainer_ready p s) (MapContainer_stored s)"
  unfolding MapContainer_stmts_def MapContainer_ready_def MapContainer_stored_def MapContainer_getters append.simps
  by (intro good_stmts_field good_stmts.Nil) (simp_all cong: cell_reads_cong)

interpretation l_MapContainer: lazy_message MapContainer_tags MapContainer_groups MapContainer_norm
  "\<lambda>s. MapContainer_sizes s" "\<lambda>s. MapContainer_appends s"
  MapContainerReader_save "\<lambda>p. NewMapContainerReader\<lparr>mbuf := Some p\<rparr>" mbuf "MapContainer_stmts" MapContainer_zero MapContainer_ready MapContainer_stored
proof
  show "distinct MapContainer_tags"
    using MapContainer_cases_distinct by (simp only: MapContainerReader_cases_def MapContainer_tags_def list.map fst_conv)
  show "list_all valid_tag MapContainer_tags"
    by (simp add: MapContainer_tags_def wireMapContainer valid_tag_def)
  show "list_all2 (\<lambda>t g. \<forall>f \<in> set g. fst f = t \<and> wf_val (snd f)) MapContainer_tags (MapContainer_groups s)" for s
    unfolding MapContainer_tags_def MapContainer_groups_def by (intro list.rel_intros field_tagged map_tagged)
  show "list_all2 (\<lambda>e g. e = int (length (fields_bytes g))) (MapContainer_sizes s) (MapContainer_groups s)" for s
    unfolding MapContainer_sizes_def MapContainer_groups_def append.simps
    by (intro list.rel_intros field_sized map_sized)
  show "list_all2 (\<lambda>st g. writes st (fields_bytes g)) (MapContainer_appends s) (MapContainer_groups s)" for s
    unfolding MapContainer_appends_def MapContainer_groups_def append.simps
    by (intro list.rel_intros field_written map_written)
  show "mbuf (MapContainerReader_save t w off m) = mbuf m" for t w off m
    unfolding MapContainerReader_save_def by (rule tag_switch_keeps) (simp add: MapContainerReader_cases_def)
  show "fold (\<lambda>e. e) (MapContainer_stored s) MapContainer_zero = MapContainer_norm s" for s
    unfolding MapContainer_stored_def by (simp add: MapContainer_zero_def MapContainer_norm_def float_defaults)
qed (simp_all add: MapContainer_saved MapContainer_converted)

interpretation m_MapContainer: message_codec MapContainer_content MapContainer_norm MapContainer_XXX_PbContentSize MapContainer_MarshalTo
  "MapContainerReader_Unmarshal NewMapContainerReader" MapContainerReader_ToStruct
  using l_MapContainer.message
  by (simp only: MapContainer_content_def [abs_def] MapContainer_XXX_PbContentSize_def MapContainer_MarshalTo_def MapContainerReader_Unmarshal_def [abs_def] MapContainerReader_ToStruct_def)


end
