(* ===== verification/Motor_Memory.thy ===== *)
theory Motor_Memory
  imports Go_Prelude
begin

unbundle bit_operations_syntax

text \<open>
  The register image of a ST3215 servo, \<^verbatim>\<open>src/software/drivers/st3215/memory.go\<close>. Each
  accessor checks the length of the image it is given and reads little-endian registers at
  fixed addresses; an index out of range is \<^term>\<open>Panic\<close>, and the theorems show that no
  accessor reaches it.
\<close>

definition ADDR_PRESENT_POSITION :: int where "ADDR_PRESENT_POSITION = 0x38"
definition ADDR_PRESENT_CURRENT :: int where "ADDR_PRESENT_CURRENT = 0x45"
definition ADDR_PRESENT_VELOCITY :: int where "ADDR_PRESENT_VELOCITY = 0x3A"
definition ADDR_GOAL_POSITION :: int where "ADDR_GOAL_POSITION = 0x2A"
definition ADDR_STATUS :: int where "ADDR_STATUS = 0x40"
definition ADDR_TORQUE_ENABLE :: int where "ADDR_TORQUE_ENABLE = 0x28"
definition SIGN_BIT_MASK :: uint16 where "SIGN_BIT_MASK = 0x8000"
definition MAX_ANGLE_STEP :: uint16 where "MAX_ANGLE_STEP = 4095"
definition BUFFER_SIZE :: int where "BUFFER_SIZE = 0x47"

lemmas motor_addrs = ADDR_PRESENT_POSITION_def ADDR_PRESENT_CURRENT_def ADDR_PRESENT_VELOCITY_def
  ADDR_GOAL_POSITION_def ADDR_STATUS_def ADDR_TORQUE_ENABLE_def SIGN_BIT_MASK_def
  MAX_ANGLE_STEP_def BUFFER_SIZE_def

text \<open>The expression \<^verbatim>\<open>uint16(data[a]) | uint16(data[a+1])<<8\<close>.\<close>

definition read_reg16 :: "gslice \<Rightarrow> int \<Rightarrow> uint16 go" where
  "read_reg16 data a =
     go_bind (slice_at data a) (\<lambda>lo.
     go_bind (slice_at data (a + 1)) (\<lambda>hi.
     Ret (ucast lo OR push_bit 8 (ucast hi))))"

definition GetMotorPosition :: "gslice \<Rightarrow> uint16 go" where
  "GetMotorPosition data =
     (if slen data < ADDR_PRESENT_POSITION + 2 then Ret 0
      else go_bind (read_reg16 data ADDR_PRESENT_POSITION) (\<lambda>position.
        if position AND SIGN_BIT_MASK \<noteq> 0
        then let magnitude = position AND MAX_ANGLE_STEP
             in Ret ((MAX_ANGLE_STEP + 1 - magnitude) AND MAX_ANGLE_STEP)
        else Ret (position AND MAX_ANGLE_STEP)))"

definition GetMotorGoalPosition :: "gslice \<Rightarrow> uint16 go" where
  "GetMotorGoalPosition data =
     (if slen data < ADDR_GOAL_POSITION + 2 then Ret 0
      else go_bind (slice_at data ADDR_TORQUE_ENABLE) (\<lambda>torque.
        if torque = 0 then GetMotorPosition data
        else read_reg16 data ADDR_GOAL_POSITION))"

definition GetMotorCurrent :: "gslice \<Rightarrow> uint16 go" where
  "GetMotorCurrent data =
     (if slen data < ADDR_PRESENT_CURRENT + 2 then Ret 0
      else read_reg16 data ADDR_PRESENT_CURRENT)"

definition GetMotorVelocity :: "gslice \<Rightarrow> uint16 go" where
  "GetMotorVelocity data =
     (if slen data < ADDR_PRESENT_VELOCITY + 2 then Ret 0
      else read_reg16 data ADDR_PRESENT_VELOCITY)"

definition IsError :: "gslice \<Rightarrow> bool go" where
  "IsError data =
     (if slen data < BUFFER_SIZE then Ret True
      else go_bind (slice_at data ADDR_STATUS) (\<lambda>b. Ret (b \<noteq> 0)))"

definition IsTorqueEnabled :: "gslice \<Rightarrow> bool go" where
  "IsTorqueEnabled data =
     (if slen data < ADDR_TORQUE_ENABLE + 1 then Ret False
      else go_bind (slice_at data ADDR_TORQUE_ENABLE) (\<lambda>b. Ret (b \<noteq> 0)))"

section \<open>Registers as numbers\<close>

definition reg_value :: "gslice \<Rightarrow> int \<Rightarrow> nat" where
  "reg_value data a = unat (elems data ! nat a) + 256 * unat (elems data ! nat (a + 1))"

text \<open>The position register holds a sign bit and a magnitude; the angle is that number modulo
  one turn of 4096 steps.\<close>

definition signed_angle :: "nat \<Rightarrow> int" where
  "signed_angle r = (if r \<ge> 0x8000 then - int (r mod 4096) else int (r mod 4096))"

lemma reg16_join: "(ucast (lo :: byte) OR push_bit 8 (ucast (hi :: byte)) :: uint16) =
    of_nat (unat lo + 256 * unat hi)"
proof -
  have "(ucast lo :: uint16) AND push_bit 8 (ucast hi) = 0"
    by (rule bit_word_eqI) (auto simp: bit_simps dest: bit_imp_le_length)
  then have "(ucast lo :: uint16) OR push_bit 8 (ucast hi) = ucast lo + push_bit 8 (ucast hi)"
    by (rule disjunctive_add_eq_or [symmetric])
  then show ?thesis by (simp add: push_bit_eq_mult mult.commute)
qed

lemma read_reg16_value:
  assumes "0 \<le> a" and "a + 2 \<le> slen data"
  shows "read_reg16 data a = Ret (of_nat (reg_value data a))"
  using assms by (simp add: read_reg16_def slice_at_Ret reg16_join reg_value_def)

lemma reg_value_less: "reg_value data a < 65536"
  using unat_byte_less [of "elems data ! nat a"] unat_byte_less [of "elems data ! nat (a + 1)"]
  unfolding reg_value_def by linarith

lemma unat_reg_value: "unat (of_nat (reg_value data a) :: uint16) = reg_value data a"
  using reg_value_less [of data a] by (simp add: unat_of_nat)

lemma angle_mask: "unat (w AND MAX_ANGLE_STEP) = unat w mod 4096"
proof -
  have "w AND MAX_ANGLE_STEP = take_bit 12 w"
    by (simp add: MAX_ANGLE_STEP_def take_bit_eq_mask mask_eq_exp_minus_1)
  then show ?thesis by (simp only: unsigned_take_bit_eq) (simp add: take_bit_eq_mod)
qed

lemma sign_bit: "(w AND SIGN_BIT_MASK \<noteq> 0) \<longleftrightarrow> 0x8000 \<le> unat w"
proof -
  have "w AND SIGN_BIT_MASK \<noteq> 0 \<longleftrightarrow> bit w 15"
    by (simp add: SIGN_BIT_MASK_def and_exp_eq_0_iff_not_bit [of w 15, simplified])
  also have "\<dots> \<longleftrightarrow> bit (unat w) 15"
    by (simp add: bit_unsigned_iff)
  also have "\<dots> \<longleftrightarrow> unat w div 32768 = 1"
  proof -
    have "unat w div 32768 < 2" using unsigned_less [of w, where 'a = nat] by simp
    moreover have "odd k \<longleftrightarrow> k = 1" if "k < 2" for k :: nat
      using that by (cases "k = 0") auto
    ultimately show ?thesis by (simp only: bit_iff_odd) simp
  qed
  also have "\<dots> \<longleftrightarrow> 0x8000 \<le> unat w"
    using unsigned_less [of w, where 'a = nat] by simp linarith
  finally show ?thesis .
qed

section \<open>Properties\<close>

lemma position_long:
  assumes "58 \<le> slen data"
  defines "r \<equiv> reg_value data ADDR_PRESENT_POSITION"
  shows "\<exists>v. GetMotorPosition data = Ret v \<and> int (unat v) = signed_angle r mod 4096"
proof -
  let ?p = "of_nat r :: uint16"
  have rd: "read_reg16 data ADDR_PRESENT_POSITION = Ret ?p"
    using assms by (simp add: read_reg16_value ADDR_PRESENT_POSITION_def)
  have up: "unat ?p = r" by (simp add: r_def unat_reg_value)
  have len: "\<not> slen data < ADDR_PRESENT_POSITION + 2"
    using assms by (simp add: ADDR_PRESENT_POSITION_def)
  show ?thesis
  proof (cases "0x8000 \<le> r")
    case True
    have "unat (MAX_ANGLE_STEP + 1 - (?p AND MAX_ANGLE_STEP)) = 4096 - r mod 4096"
    proof -
      have "?p AND MAX_ANGLE_STEP \<le> 4096"
        using angle_mask [of ?p] by (simp add: word_le_nat_alt up)
      then have "unat (4096 - (?p AND MAX_ANGLE_STEP)) = 4096 - r mod 4096"
        using angle_mask [of ?p] by (simp add: unat_sub up)
      then show ?thesis by (simp add: MAX_ANGLE_STEP_def)
    qed
    then have "unat ((MAX_ANGLE_STEP + 1 - (?p AND MAX_ANGLE_STEP)) AND MAX_ANGLE_STEP) =
        (4096 - r mod 4096) mod 4096"
      by (simp only: angle_mask)
    moreover have "int ((4096 - r mod 4096) mod 4096) = - int (r mod 4096) mod 4096"
      by (simp add: of_nat_diff zmod_int)
    ultimately have "int (unat ((MAX_ANGLE_STEP + 1 - (?p AND MAX_ANGLE_STEP)) AND MAX_ANGLE_STEP)) =
        - int (r mod 4096) mod 4096"
      by (simp only:)
    then show ?thesis
      using True rd len by (simp add: GetMotorPosition_def Let_def sign_bit up signed_angle_def)
  next
    case False
    have "int (unat (?p AND MAX_ANGLE_STEP)) = int (r mod 4096)"
      by (simp only: angle_mask up)
    then show ?thesis
      using False rd len by (simp add: GetMotorPosition_def sign_bit up signed_angle_def)
  qed
qed

text \<open>
  C37. On every register image, however short, \<^verbatim>\<open>GetMotorPosition\<close> returns without a panic; on
  an image that reaches the position register the result is the signed angle (sign bit and 12
  bit magnitude) reduced to one turn of 4096 steps, on a shorter one it is 0.
\<close>

theorem motor_position_angle:
  "\<exists>v. GetMotorPosition data = Ret v \<and>
     int (unat v) = (if slen data < 58 then 0
       else signed_angle (reg_value data ADDR_PRESENT_POSITION) mod 4096)"
proof (cases "slen data < 58")
  case True
  then show ?thesis by (simp add: GetMotorPosition_def ADDR_PRESENT_POSITION_def)
next
  case False
  then show ?thesis using position_long [of data] by simp
qed

text \<open>
  The other accessors return on every image as well: the goal is the present position while
  torque is off and the raw goal register while it is on, current and velocity are their
  little-endian registers, an image below the full size counts as an error, and every
  accessor answers with its default on an image that does not reach its register.
\<close>

theorem motor_accessors:
  "GetMotorGoalPosition data =
     (if slen data < 44 then Ret 0
      else if elems data ! 0x28 = 0 then GetMotorPosition data
      else Ret (of_nat (reg_value data ADDR_GOAL_POSITION))) \<and>
   GetMotorCurrent data =
     Ret (if slen data < 71 then 0 else of_nat (reg_value data ADDR_PRESENT_CURRENT)) \<and>
   GetMotorVelocity data =
     Ret (if slen data < 60 then 0 else of_nat (reg_value data ADDR_PRESENT_VELOCITY)) \<and>
   IsError data = Ret (if slen data < 71 then True else 0 < elems data ! 0x40) \<and>
   IsTorqueEnabled data = Ret (41 \<le> slen data \<and> 0 < elems data ! 0x28)"
  by (simp add: GetMotorGoalPosition_def GetMotorCurrent_def GetMotorVelocity_def IsError_def
      IsTorqueEnabled_def motor_addrs read_reg16_value slice_at_def word_neq_0_conv)

end
