(* ===== verification/Messages.thy ===== *)
theory Messages
  imports Go_Prelude
begin

text \<open>
  The messages that the dataset generator sends to its terminal program,
  \<^verbatim>\<open>src/software/station/bin/dataset-generator/internal/messages.go\<close>, and the frames it
  records, \<^verbatim>\<open>framedef.go\<close>. Queue positions are of the type \<^verbatim>\<open>uintn.UintN\<close> of another
  repository, here a type parameter \<open>'u\<close>; a time is its nanosecond count.
\<close>

datatype 'u msg =
    ProgressMsg (Current: 'u) (Total: 'u) (FramesProcessed: uint64)
  | EpisodeStartedMsg uint64
  | EpisodeSavedMsg uint64 int
  | EpisodeDiscardedMsg uint64 string string
  | EpisodeSkipMarkedMsg uint64 string
  | FrameBufferedMsg
  | LogMsg string string int
  | DoneMsg "string option"
  | TickMsg int

record 'u Params =
  Robot :: string
  Queue :: string
  Task :: string
  Duration :: int
  Output :: string
  From :: 'u
  To :: 'u

record Joint =
  RangeMin :: uint32
  RangeMax :: uint32
  Position :: uint32
  PositionNorm :: float32
  Goal :: uint32
  GoalNorm :: float32
  CurrentMA :: uint32
  Velocity :: uint32

record Image =
  JPEG :: "byte list"

record Frame =
  EpisodeStartNS :: uint64
  GlobalFrameID :: "byte list"
  TimestampNsSinceEpisodeStart :: uint64
  Joints :: "Joint list"
  Images :: "Image list"
  FrameTask :: string

end
