(* ===== verification/Episodes.thy ===== *)
theory Episodes
  imports Messages
begin

text \<open>
  The episode detector of the dataset generator,
  \<^verbatim>\<open>src/software/station/bin/dataset-generator/internal/episodes.go\<close>: a state machine over a
  stream of frames that starts an episode when the commanded goals change, buffers its
  frames, marks it for skipping at a gap of more than 500 ms, and saves it as a numbered
  file once it is long enough and the robot has been idle for five seconds.

  The frame reader of the generated package \<^verbatim>\<open>normvla\<close> is the values its getters return (a
  nil joint or image reader returns zero values). What the operating system and the parquet
  library answer is an argument of each step, \<open>env\<close>; the text of a frame's id
  (\<^verbatim>\<open>uintn.FromLEBytes\<close> and \<^verbatim>\<open>String\<close>, of another repository) is the argument \<open>fmtId\<close>, \<^term>\<open>None\<close> where the bytes
  are not read: the source drops that error, and \<^verbatim>\<open>String\<close> is called on nil. The
  files on disk and the messages sent to the terminal program are the state \<open>World\<close>.
\<close>

section \<open>Frames as they arrive\<close>

record JointReader =
  getRangeMin :: uint32
  getRangeMax :: uint32
  getPosition :: uint32
  getPositionNorm :: float32
  getGoal :: uint32
  getGoalNorm :: float32
  getCurrentMa :: uint32
  getVelocity :: uint32

record ImageReader =
  getJpeg :: "byte list"

record FrameReader =
  GetImages :: "ImageReader option list"
  GetMonotonicStampNs :: uint64
  GetJoints :: "JointReader option list"
  GetGlobalFrameId :: "byte list"

definition GetGoal :: "JointReader option \<Rightarrow> uint32" where
  "GetGoal j = (case j of None \<Rightarrow> 0 | Some r \<Rightarrow> getGoal r)"

definition convertJoint :: "JointReader option \<Rightarrow> Joint" where
  "convertJoint j = (case j of
     None \<Rightarrow> \<lparr>RangeMin = 0, RangeMax = 0, Position = 0, PositionNorm = 0, Goal = 0, GoalNorm = 0,
       CurrentMA = 0, Velocity = 0\<rparr>
   | Some r \<Rightarrow> \<lparr>RangeMin = getRangeMin r, RangeMax = getRangeMax r, Position = getPosition r,
       PositionNorm = getPositionNorm r, Goal = getGoal r, GoalNorm = getGoalNorm r,
       CurrentMA = getCurrentMa r, Velocity = getVelocity r\<rparr>)"

definition convertJoints :: "JointReader option list \<Rightarrow> Joint list" where
  "convertJoints joints = map convertJoint joints"

definition convertImages :: "ImageReader option list \<Rightarrow> Image list" where
  "convertImages images =
     map (\<lambda>img. \<lparr>JPEG = (case img of None \<Rightarrow> [] | Some r \<Rightarrow> getJpeg r)\<rparr>) images"

section \<open>The detector and its world\<close>

record Stats =
  EpisodesStarted :: uint64
  EpisodesSaved :: uint64
  EpisodesDiscarded :: uint64
  TotalFramesSaved :: uint64

record EpisodeDetector =
  duration :: int64
  task :: string
  minCommands :: uint64
  lastGoals :: "uint32 list"
  commandsCnt :: uint64
  lastMovementStamp :: uint64
  episodeIndex :: uint64
  episodeMonotonicStart :: uint64
  episodeLocalStart :: uint64
  episodeSkipReason :: string
  episodeSkipFrameId :: string
  buffer :: "Frame list"
  stats :: Stats
  program :: bool

datatype file_key = EpisodeFile uint64 | MergedFile

record 'u World =
  sent :: "'u msg list"
  files :: "file_key \<Rightarrow> Frame list option"

text \<open>The answers of the environment in one step: the clock, and which call of the save fails;
  a failed write leaves some content behind.\<close>

record env =
  nowNs :: uint64
  mkdirFails :: bool
  createFails :: bool
  writeFails :: "Frame list option"

type_synonym 'u ed_state = "EpisodeDetector \<times> 'u World"

definition NewEpisodeDetector :: "int64 \<Rightarrow> string \<Rightarrow> uint64 \<Rightarrow> bool \<Rightarrow> EpisodeDetector" where
  "NewEpisodeDetector dur tsk minCmd prog = \<lparr>duration = dur, task = tsk, minCommands = minCmd,
     lastGoals = [], commandsCnt = 0, lastMovementStamp = 0, episodeIndex = 0,
     episodeMonotonicStart = 0, episodeLocalStart = 0, episodeSkipReason = [],
     episodeSkipFrameId = [], buffer = [],
     stats = \<lparr>EpisodesStarted = 0, EpisodesSaved = 0, EpisodesDiscarded = 0, TotalFramesSaved = 0\<rparr>,
     program = prog\<rparr>"

definition Send :: "'u msg \<Rightarrow> 'u ed_state \<Rightarrow> 'u ed_state" where
  "Send m s = (if program (fst s) then (fst s, (snd s)\<lparr>sent := sent (snd s) @ [m]\<rparr>) else s)"

section \<open>The operations\<close>

definition hasCommandsChanged :: "EpisodeDetector \<Rightarrow> uint32 list \<Rightarrow> bool" where
  "hasCommandsChanged ed currentGoals =
     (if length (lastGoals ed) = 0 then False
      else if length (lastGoals ed) \<noteq> length currentGoals then True
      else list_ex (\<lambda>i. lastGoals ed ! i \<noteq> currentGoals ! i) [0..<length currentGoals])"

definition updateGoalTracking :: "uint32 list \<Rightarrow> EpisodeDetector \<Rightarrow> EpisodeDetector" where
  "updateGoalTracking goals ed = ed\<lparr>lastGoals := goals\<rparr>"

definition resetEpisode :: "EpisodeDetector \<Rightarrow> EpisodeDetector" where
  "resetEpisode ed = ed\<lparr>episodeMonotonicStart := 0, episodeLocalStart := 0,
     episodeSkipReason := [], episodeSkipFrameId := [], commandsCnt := 0, buffer := []\<rparr>"

definition bufferFrame :: "FrameReader \<Rightarrow> uint64 \<Rightarrow> 'u ed_state \<Rightarrow> 'u ed_state" where
  "bufferFrame frame inEpisodeStamp s =
     (let ed = fst s;
          f = \<lparr>EpisodeStartNS = episodeLocalStart ed, GlobalFrameID = GetGlobalFrameId frame,
               TimestampNsSinceEpisodeStart = inEpisodeStamp,
               Joints = convertJoints (GetJoints frame), Images = convertImages (GetImages frame),
               FrameTask = task ed\<rparr>
      in Send FrameBufferedMsg (ed\<lparr>buffer := buffer ed @ [f]\<rparr>, snd s))"

text \<open>\<^verbatim>\<open>id, _ := uintn.FromLEBytes(bs)\<close> and then \<^verbatim>\<open>id.String()\<close>, which panics on nil.\<close>

definition idString :: "(byte list \<Rightarrow> string option) \<Rightarrow> byte list \<Rightarrow> string go" where
  "idString fmtId bs = (case fmtId bs of None \<Rightarrow> Panic | Some text \<Rightarrow> Ret text)"

definition markEpisodeSkip ::
  "(byte list \<Rightarrow> string option) \<Rightarrow> FrameReader \<Rightarrow> string \<Rightarrow> 'u ed_state \<Rightarrow> 'u ed_state go" where
  "markEpisodeSkip fmtId frame reason s =
     (let ed = fst s in
      if episodeSkipReason ed \<noteq> [] then Ret s
      else go_bind (idString fmtId (GetGlobalFrameId frame)) (\<lambda>frameId.
        Ret (Send (EpisodeSkipMarkedMsg (episodeIndex ed) reason)
          (ed\<lparr>episodeSkipReason := reason, episodeSkipFrameId := frameId\<rparr>, snd s))))"

definition startNewEpisode :: "env \<Rightarrow> FrameReader \<Rightarrow> 'u ed_state \<Rightarrow> 'u ed_state" where
  "startNewEpisode e frame s =
     (let stamp = GetMonotonicStampNs frame; ed = fst s;
          ed = ed\<lparr>episodeMonotonicStart := stamp, episodeLocalStart := nowNs e,
                lastMovementStamp := stamp, commandsCnt := 1,
                stats := (stats ed)\<lparr>EpisodesStarted := EpisodesStarted (stats ed) + 1\<rparr>,
                buffer := []\<rparr>;
          s = bufferFrame frame 0 (ed, snd s)
      in Send (EpisodeStartedMsg (episodeIndex (fst s))) s)"

definition discard :: "EpisodeDetector \<Rightarrow> EpisodeDetector" where
  "discard ed = ed\<lparr>stats := (stats ed)\<lparr>EpisodesDiscarded := EpisodesDiscarded (stats ed) + 1\<rparr>\<rparr>"

text \<open>Indexing the buffer panics when it is empty, as in the source.\<close>

definition frame_at :: "Frame list \<Rightarrow> int \<Rightarrow> Frame go" where
  "frame_at fs i = (if 0 \<le> i \<and> i < int (length fs) then Ret (fs ! nat i) else Panic)"

definition trySaveCurrentEpisode ::
  "(byte list \<Rightarrow> string option) \<Rightarrow> env \<Rightarrow> 'u ed_state \<Rightarrow> 'u ed_state go" where
  "trySaveCurrentEpisode fmtId e s =
     (let ed = fst s; w = snd s; idx = episodeIndex ed; n = int (length (buffer ed)) in
      if episodeSkipReason ed \<noteq> [] then
        let s = Send (EpisodeDiscardedMsg idx (episodeSkipReason ed) (episodeSkipFrameId ed)) s
        in Ret (discard (fst s), snd s)
      else if commandsCnt ed < minCommands ed then
        let reason = ''insufficient commands ('' @ show_nat (unat (commandsCnt ed)) @ '' < '' @
              show_nat (unat (minCommands ed)) @ '')'' in
        go_bind (frame_at (buffer ed) 0) (\<lambda>first.
        go_bind (frame_at (buffer ed) (n - 1)) (\<lambda>last.
          go_bind (if program ed
                   then go_bind (idString fmtId (GlobalFrameID last)) (\<lambda>frameId.
                     Ret (Send (EpisodeDiscardedMsg idx reason frameId) s))
                   else Ret s) (\<lambda>s.
            Ret (discard (fst s), snd s))))
      else if n = 0 then
        go_bind (if program ed
                 then go_bind (frame_at (buffer ed) (n - 1)) (\<lambda>last.
                   go_bind (idString fmtId (GlobalFrameID last)) (\<lambda>frameId.
                   Ret (Send (EpisodeDiscardedMsg idx ''no frames'' frameId) s)))
                 else Ret s) (\<lambda>s.
          Ret (discard (fst s), snd s))
      else if mkdirFails e then Ret s
      else if createFails e then Ret s
      else (case writeFails e of
        Some partial \<Rightarrow> Ret (ed, w\<lparr>files := (files w)(EpisodeFile idx := Some partial)\<rparr>)
      | None \<Rightarrow>
          go_bind (frame_at (buffer ed) 0) (\<lambda>first.
          go_bind (frame_at (buffer ed) (n - 1)) (\<lambda>last.
            let s = Send (EpisodeSavedMsg idx n)
                  (ed, w\<lparr>files := (files w)(EpisodeFile idx := Some (buffer ed))\<rparr>) in
            Ret ((fst s)\<lparr>
              stats := (stats (fst s))\<lparr>
                EpisodesSaved := EpisodesSaved (stats (fst s)) + 1,
                TotalFramesSaved := TotalFramesSaved (stats (fst s)) + of_int n\<rparr>,
              episodeIndex := episodeIndex (fst s) + 1\<rparr>, snd s)))))"

definition ms500 :: uint64 where "ms500 = 500 * 1000000"
definition sec5 :: int where "sec5 = 5 * 1000000000"

text \<open>
  A frame inside an episode: the command tracking, the gap check and the buffering of
  \<^verbatim>\<open>ProcessFrame\<close>, up to its check whether the episode ends.
\<close>

definition trackCommands :: "FrameReader \<Rightarrow> EpisodeDetector \<Rightarrow> EpisodeDetector" where
  "trackCommands frame ed =
     (let currentGoals = map GetGoal (GetJoints frame) in
      if hasCommandsChanged ed currentGoals
      then (updateGoalTracking currentGoals (ed\<lparr>commandsCnt := commandsCnt ed + 1\<rparr>))
             \<lparr>lastMovementStamp := GetMonotonicStampNs frame\<rparr>
      else ed)"

definition checkGap ::
  "(byte list \<Rightarrow> string option) \<Rightarrow> FrameReader \<Rightarrow> uint64 \<Rightarrow> 'u ed_state \<Rightarrow> 'u ed_state go" where
  "checkGap fmtId frame inEpisodeStamp s =
     (if episodeSkipReason (fst s) = [] \<and> buffer (fst s) \<noteq> [] then
        let gap = inEpisodeStamp - TimestampNsSinceEpisodeStart (last (buffer (fst s))) in
        if gap > ms500
        then markEpisodeSkip fmtId frame
          (''frame gap '' @ show_nat (unat (gap div 1000000)) @ ''ms > 500ms'') s
        else Ret s
      else Ret s)"

definition episodeFrame ::
  "(byte list \<Rightarrow> string option) \<Rightarrow> FrameReader \<Rightarrow> 'u ed_state \<Rightarrow> 'u ed_state go" where
  "episodeFrame fmtId frame s =
     (let ed = trackCommands frame (fst s);
          inEpisodeStamp = GetMonotonicStampNs frame - episodeMonotonicStart ed
      in go_bind (checkGap fmtId frame inEpisodeStamp (ed, snd s)) (\<lambda>s.
        Ret (if episodeSkipReason (fst s) = [] then bufferFrame frame inEpisodeStamp s else s)))"

definition episodeEnds :: "FrameReader \<Rightarrow> EpisodeDetector \<Rightarrow> bool" where
  "episodeEnds frame ed \<longleftrightarrow>
     sint (duration ed) \<le> sint (GetMonotonicStampNs frame - episodeMonotonicStart ed) \<and>
     sec5 \<le> sint (GetMonotonicStampNs frame - lastMovementStamp ed)"

definition ProcessFrame ::
  "(byte list \<Rightarrow> string option) \<Rightarrow> env \<Rightarrow> FrameReader \<Rightarrow> 'u ed_state \<Rightarrow> 'u ed_state go" where
  "ProcessFrame fmtId e frame s =
     (if length (GetImages frame) \<noteq> 2 then Ret s
      else if episodeMonotonicStart (fst s) = 0 then
        let currentGoals = map GetGoal (GetJoints frame);
            s = (if hasCommandsChanged (fst s) currentGoals then startNewEpisode e frame s else s)
        in Ret (updateGoalTracking currentGoals (fst s), snd s)
      else
        go_bind (episodeFrame fmtId frame s) (\<lambda>s.
        if episodeEnds frame (fst s)
        then go_bind (trySaveCurrentEpisode fmtId e s) (\<lambda>s. Ret (resetEpisode (fst s), snd s))
        else Ret s))"

section \<open>The end of the stream\<close>

text \<open>
  Merging reads the numbered files back in order, and removes them once the merged file is
  written. \<open>openFails\<close> and \<open>mergeFails\<close> are the answers of the file system and the parquet
  library; a failed merge may leave part of the rows in the merged file.
\<close>

record merge_env =
  openFails :: "uint64 \<Rightarrow> bool"
  createMergedFails :: bool
  mergeFails :: "Frame list option"

fun readEpisodes :: "merge_env \<Rightarrow> (file_key \<Rightarrow> Frame list option) \<Rightarrow> nat list \<Rightarrow> Frame list option" where
  "readEpisodes me fs [] = Some []"
| "readEpisodes me fs (i # is) =
     (if openFails me (of_nat i) then None
      else case fs (EpisodeFile (of_nat i)) of
        None \<Rightarrow> None
      | Some rows \<Rightarrow> map_option ((@) rows) (readEpisodes me fs is))"

definition removeEpisodes :: "nat \<Rightarrow> (file_key \<Rightarrow> Frame list option) \<Rightarrow> file_key \<Rightarrow> Frame list option" where
  "removeEpisodes n fs k = (case k of
     EpisodeFile i \<Rightarrow> if unat i < n then None else fs k
   | MergedFile \<Rightarrow> fs k)"

definition mergeParquetFiles :: "merge_env \<Rightarrow> 'u ed_state \<Rightarrow> 'u ed_state" where
  "mergeParquetFiles me s =
     (let ed = fst s; w = snd s; n = unat (episodeIndex ed) in
      if episodeIndex ed = 0 then s
      else case readEpisodes me (files w) [0..<n] of
        None \<Rightarrow> s
      | Some rows \<Rightarrow>
          if createMergedFails me then s
          else case mergeFails me of
            Some partial \<Rightarrow> (ed, w\<lparr>files := (files w)(MergedFile := Some partial)\<rparr>)
          | None \<Rightarrow> (ed, w\<lparr>files := removeEpisodes n ((files w)(MergedFile := Some rows))\<rparr>))"

definition Finalize ::
  "(byte list \<Rightarrow> string option) \<Rightarrow> env \<Rightarrow> merge_env \<Rightarrow> 'u ed_state \<Rightarrow> 'u ed_state go" where
  "Finalize fmtId e me s =
     go_bind (if episodeMonotonicStart (fst s) \<noteq> 0 then trySaveCurrentEpisode fmtId e s else Ret s)
       (\<lambda>s. Ret (mergeParquetFiles me s))"

section \<open>What an episode may look like\<close>

fun gaps_ok :: "Frame list \<Rightarrow> bool" where
  "gaps_ok (f # g # fs) \<longleftrightarrow>
     TimestampNsSinceEpisodeStart g - TimestampNsSinceEpisodeStart f \<le> ms500 \<and> gaps_ok (g # fs)"
| "gaps_ok _ \<longleftrightarrow> True"

definition episode_ok :: "string \<Rightarrow> Frame list \<Rightarrow> bool" where
  "episode_ok tsk fs \<longleftrightarrow>
     fs \<noteq> [] \<and> TimestampNsSinceEpisodeStart (hd fs) = 0 \<and> gaps_ok fs \<and>
     list_all (\<lambda>f. length (Images f) = 2 \<and> FrameTask f = tsk \<and>
       EpisodeStartNS f = EpisodeStartNS (hd fs)) fs"

lemma gaps_ok_snoc: "gaps_ok (fs @ [g]) \<longleftrightarrow> gaps_ok fs \<and>
    (fs \<noteq> [] \<longrightarrow> TimestampNsSinceEpisodeStart g - TimestampNsSinceEpisodeStart (last fs) \<le> ms500)"
  by (induction fs rule: gaps_ok.induct) simp_all

lemma episode_ok_snoc:
  assumes "episode_ok tsk fs" and "length (Images g) = 2" and "FrameTask g = tsk"
    and "EpisodeStartNS g = EpisodeStartNS (hd fs)"
    and "TimestampNsSinceEpisodeStart g - TimestampNsSinceEpisodeStart (last fs) \<le> ms500"
  shows "episode_ok tsk (fs @ [g])"
proof -
  have "fs \<noteq> []" using assms(1) by (simp add: episode_ok_def)
  then have "hd (fs @ [g]) = hd fs" by simp
  then show ?thesis
    using assms unfolding episode_ok_def list_all_append gaps_ok_snoc by simp
qed

section \<open>Invariant\<close>

text \<open>
  Between frames: the buffer of an episode in progress is a well-formed episode (never empty),
  outside an episode no skip reason is left over, and the count of saved episodes is the next
  file number.
\<close>

definition ed_inv :: "EpisodeDetector \<Rightarrow> bool" where
  "ed_inv ed \<longleftrightarrow>
     (episodeMonotonicStart ed \<noteq> 0 \<longrightarrow> buffer ed \<noteq> []) \<and>
     (buffer ed \<noteq> [] \<longrightarrow> episode_ok (task ed) (buffer ed) \<and>
        EpisodeStartNS (hd (buffer ed)) = episodeLocalStart ed) \<and>
     (episodeMonotonicStart ed = 0 \<longrightarrow> episodeSkipReason ed = []) \<and>
     EpisodesSaved (stats ed) = episodeIndex ed"

lemma Send_simps [simp]:
  "fst (Send m s) = fst s" "files (snd (Send m s)) = files (snd s)"
  by (simp_all add: Send_def)

lemma length_convertImages [simp]: "length (convertImages is) = length is"
  by (simp add: convertImages_def)

lemma updateGoal_simps [simp]:
  "episodeMonotonicStart (updateGoalTracking g ed) = episodeMonotonicStart ed"
  "buffer (updateGoalTracking g ed) = buffer ed" "task (updateGoalTracking g ed) = task ed"
  "episodeLocalStart (updateGoalTracking g ed) = episodeLocalStart ed"
  "episodeSkipReason (updateGoalTracking g ed) = episodeSkipReason ed"
  "stats (updateGoalTracking g ed) = stats ed"
  "episodeIndex (updateGoalTracking g ed) = episodeIndex ed"
  "commandsCnt (updateGoalTracking g ed) = commandsCnt ed"
  "minCommands (updateGoalTracking g ed) = minCommands ed"
  "duration (updateGoalTracking g ed) = duration ed"
  "lastMovementStamp (updateGoalTracking g ed) = lastMovementStamp ed"
  by (simp_all add: updateGoalTracking_def)

lemma inv_updateGoal [simp]: "ed_inv (updateGoalTracking g ed) = ed_inv ed"
  by (simp add: ed_inv_def)

lemma inv_New: "ed_inv (NewEpisodeDetector dur tsk minCmd prog)"
  by (simp add: ed_inv_def NewEpisodeDetector_def)

lemma inv_start:
  assumes "ed_inv (fst s)" and "length (GetImages frame) = 2" and "episodeMonotonicStart (fst s) = 0"
  shows "ed_inv (fst (startNewEpisode e frame s))"
    and "task (fst (startNewEpisode e frame s)) = task (fst s)"
    and "files (snd (startNewEpisode e frame s)) = files (snd s)"
  using assms
  by (simp_all add: ed_inv_def startNewEpisode_def bufferFrame_def Let_def episode_ok_def)

lemma trackCommands_simps [simp]:
  "episodeMonotonicStart (trackCommands f ed) = episodeMonotonicStart ed"
  "buffer (trackCommands f ed) = buffer ed" "task (trackCommands f ed) = task ed"
  "episodeLocalStart (trackCommands f ed) = episodeLocalStart ed"
  "episodeSkipReason (trackCommands f ed) = episodeSkipReason ed"
  "stats (trackCommands f ed) = stats ed"
  "episodeIndex (trackCommands f ed) = episodeIndex ed"
  "minCommands (trackCommands f ed) = minCommands ed"
  "duration (trackCommands f ed) = duration ed"
  "program (trackCommands f ed) = program ed"
  by (simp_all add: trackCommands_def Let_def updateGoalTracking_def)

text \<open>A frame that comes too late for an episode that is not yet marked.\<close>

definition gap_too_long :: "FrameReader \<Rightarrow> EpisodeDetector \<Rightarrow> bool" where
  "gap_too_long f ed \<longleftrightarrow> episodeSkipReason ed = [] \<and> buffer ed \<noteq> [] \<and>
     ms500 < (GetMonotonicStampNs f - episodeMonotonicStart ed) - TimestampNsSinceEpisodeStart (last (buffer ed))"

lemma episodeFrame_cases:
  obtains
    (unreadable) "episodeFrame fmtId f s = Panic" and "gap_too_long f (fst s)" and "fmtId (GetGlobalFrameId f) = None"
  | (marked) r i where "episodeFrame fmtId f s = Ret (Send (EpisodeSkipMarkedMsg (episodeIndex (fst s)) r)
        ((trackCommands f (fst s))\<lparr>episodeSkipReason := r, episodeSkipFrameId := i\<rparr>, snd s))"
      and "gap_too_long f (fst s)" and "fmtId (GetGlobalFrameId f) = Some i" and "r \<noteq> []"
  | (skipping) "episodeFrame fmtId f s = Ret (trackCommands f (fst s), snd s)" and "episodeSkipReason (fst s) \<noteq> []"
  | (buffered) "episodeFrame fmtId f s = Ret (bufferFrame f (GetMonotonicStampNs f - episodeMonotonicStart (fst s)) (trackCommands f (fst s), snd s))"
      and "episodeSkipReason (fst s) = []" and "\<not> gap_too_long f (fst s)"
proof (cases "gap_too_long f (fst s)")
  case True
  let ?stamp = "GetMonotonicStampNs f - episodeMonotonicStart (fst s)" and ?s = "(trackCommands f (fst s), snd s)"
  obtain r where r: "checkGap fmtId f ?stamp ?s = markEpisodeSkip fmtId f r ?s" "r \<noteq> []"
    using True by (simp add: gap_too_long_def checkGap_def Let_def)
  have skip: "episodeSkipReason (fst s) = []" using True by (simp add: gap_too_long_def)
  show thesis
  proof (cases "fmtId (GetGlobalFrameId f)")
    case None
    then show thesis
      using True unreadable r skip by (simp add: episodeFrame_def Let_def markEpisodeSkip_def idString_def)
  next
    case (Some i)
    then show thesis
      using True marked [of r i] r skip
      by (simp add: episodeFrame_def Let_def markEpisodeSkip_def idString_def)
  qed
next
  case False
  then have "checkGap fmtId f (GetMonotonicStampNs f - episodeMonotonicStart (fst s)) (trackCommands f (fst s), snd s) =
      Ret (trackCommands f (fst s), snd s)"
    by (auto simp: gap_too_long_def checkGap_def Let_def)
  then show thesis
    using False skipping buffered by (cases "episodeSkipReason (fst s) = []") (simp_all add: episodeFrame_def)
qed

lemma bufferFrame_simps [simp]:
  "fst (bufferFrame f stamp s) = (fst s)\<lparr>buffer := buffer (fst s) @ [\<lparr>EpisodeStartNS = episodeLocalStart (fst s),
     GlobalFrameID = GetGlobalFrameId f, TimestampNsSinceEpisodeStart = stamp, Joints = convertJoints (GetJoints f),
     Images = convertImages (GetImages f), FrameTask = task (fst s)\<rparr>]\<rparr>"
  "files (snd (bufferFrame f stamp s)) = files (snd s)"
  by (simp_all add: bufferFrame_def Let_def)

lemma episodeFrame_keeps:
  assumes "episodeFrame fmtId f s = Ret s'"
  shows "episodeMonotonicStart (fst s') = episodeMonotonicStart (fst s)" "task (fst s') = task (fst s)"
    "stats (fst s') = stats (fst s)" "episodeIndex (fst s') = episodeIndex (fst s)"
    "minCommands (fst s') = minCommands (fst s)" "duration (fst s') = duration (fst s)" "program (fst s') = program (fst s)"
    "files (snd s') = files (snd s)" "commandsCnt (fst s') = commandsCnt (trackCommands f (fst s))"
    "lastMovementStamp (fst s') = lastMovementStamp (trackCommands f (fst s))"
  using assms by (cases rule: episodeFrame_cases [of fmtId f s]; auto)+

lemma inv_episodeFrame:
  assumes "ed_inv (fst s)" and "length (GetImages f) = 2" and "episodeMonotonicStart (fst s) \<noteq> 0"
    and "episodeFrame fmtId f s = Ret s'"
  shows "ed_inv (fst s')"
proof -
  have ok: "episode_ok (task (fst s)) (buffer (fst s))" and ne: "buffer (fst s) \<noteq> []"
    using assms(1,3) by (simp_all add: ed_inv_def)
  show ?thesis
  proof (cases rule: episodeFrame_cases [of fmtId f s])
    case buffered
    then show ?thesis
      using assms ok ne by (auto simp: gap_too_long_def not_less ed_inv_def episode_ok_snoc)
  qed (use assms ok ne in \<open>auto simp: ed_inv_def\<close>)
qed

section \<open>Saving\<close>

text \<open>The three outcomes of an attempt to save, and what each leaves behind.\<close>

datatype outcome = Discarded | Failed | Saved

definition outcome :: "env \<Rightarrow> EpisodeDetector \<Rightarrow> outcome" where
  "outcome e ed =
     (if episodeSkipReason ed \<noteq> [] \<or> commandsCnt ed < minCommands ed then Discarded
      else if mkdirFails e \<or> createFails e \<or> writeFails e \<noteq> None then Failed
      else Saved)"

definition saved_ed :: "EpisodeDetector \<Rightarrow> EpisodeDetector" where
  "saved_ed ed = ed\<lparr>
     stats := (stats ed)\<lparr>EpisodesSaved := EpisodesSaved (stats ed) + 1,
       TotalFramesSaved := TotalFramesSaved (stats ed) + of_nat (length (buffer ed))\<rparr>,
     episodeIndex := episodeIndex ed + 1\<rparr>"

lemma frame_at_ends [simp]:
  "fs \<noteq> [] \<Longrightarrow> frame_at fs 0 = Ret (hd fs)"
  "fs \<noteq> [] \<Longrightarrow> frame_at fs (int (length fs) - 1) = Ret (last fs)"
  by (simp_all add: frame_at_def hd_conv_nth last_conv_nth nat_diff_distrib' del: of_nat_diff)

text \<open>The one way in which saving panics: too few commands, and a last frame whose id is not read but is to be shown.\<close>

definition save_unreadable :: "(byte list \<Rightarrow> string option) \<Rightarrow> EpisodeDetector \<Rightarrow> bool" where
  "save_unreadable fmtId ed \<longleftrightarrow> episodeSkipReason ed = [] \<and> commandsCnt ed < minCommands ed \<and> program ed \<and>
     fmtId (GlobalFrameID (last (buffer ed))) = None"

lemma trySave_Panic:
  assumes "buffer (fst s) \<noteq> []" and "save_unreadable fmtId (fst s)"
  shows "trySaveCurrentEpisode fmtId e s = Panic"
  using assms by (simp add: trySaveCurrentEpisode_def save_unreadable_def idString_def Let_def)

lemma trySave_outcome:
  assumes "buffer (fst s) \<noteq> []" and "\<not> save_unreadable fmtId (fst s)"
  shows "\<exists>s'. trySaveCurrentEpisode fmtId e s = Ret s' \<and>
    (case outcome e (fst s) of
       Discarded \<Rightarrow> fst s' = discard (fst s) \<and> files (snd s') = files (snd s) \<and>
         (\<exists>r i. sent (snd s') = sent (snd (Send (EpisodeDiscardedMsg (episodeIndex (fst s)) r i) s)))
     | Failed \<Rightarrow> fst s' = fst s \<and> (\<forall>k. k \<noteq> EpisodeFile (episodeIndex (fst s)) \<longrightarrow> files (snd s') k = files (snd s) k) \<and>
         sent (snd s') = sent (snd s)
     | Saved \<Rightarrow> fst s' = saved_ed (fst s) \<and>
         files (snd s') = (files (snd s))(EpisodeFile (episodeIndex (fst s)) := Some (buffer (fst s))) \<and>
         sent (snd s') = sent (snd (Send (EpisodeSavedMsg (episodeIndex (fst s)) (int (length (buffer (fst s))))) s)))"
  using assms
  by (cases s) (auto simp: trySaveCurrentEpisode_def save_unreadable_def idString_def outcome_def Let_def saved_ed_def Send_def
      discard_def split: option.splits)

lemma trySave_cases:
  assumes "buffer (fst s) \<noteq> []"
  obtains
    (Unreadable) "trySaveCurrentEpisode fmtId e s = Panic" and "save_unreadable fmtId (fst s)"
  | (Discarded) s' where "trySaveCurrentEpisode fmtId e s = Ret s'" and "outcome e (fst s) = Discarded"
      and "fst s' = discard (fst s)" and "files (snd s') = files (snd s)"
      and "\<exists>r i. sent (snd s') = sent (snd (Send (EpisodeDiscardedMsg (episodeIndex (fst s)) r i) s))"
  | (Failed) s' where "trySaveCurrentEpisode fmtId e s = Ret s'" and "outcome e (fst s) = Failed"
      and "fst s' = fst s"
      and "\<And>k. k \<noteq> EpisodeFile (episodeIndex (fst s)) \<Longrightarrow> files (snd s') k = files (snd s) k"
      and "sent (snd s') = sent (snd s)"
  | (Saved) s' where "trySaveCurrentEpisode fmtId e s = Ret s'" and "outcome e (fst s) = Saved"
      and "fst s' = saved_ed (fst s)"
      and "files (snd s') = (files (snd s))(EpisodeFile (episodeIndex (fst s)) := Some (buffer (fst s)))"
      and "sent (snd s') = sent (snd (Send (EpisodeSavedMsg (episodeIndex (fst s)) (int (length (buffer (fst s))))) s))"
proof (cases "save_unreadable fmtId (fst s)")
  case True
  then show thesis using Unreadable trySave_Panic [OF assms] by blast
next
  case False
  note o = trySave_outcome [OF assms this, of e]
  show thesis
  proof (cases "outcome e (fst s)")
    case Discarded
    with o show ?thesis using that(2) by (simp only: outcome.case) blast
  next
    case Failed
    with o show ?thesis using that(3) by (simp only: outcome.case) blast
  next
    case Saved
    with o show ?thesis using that(4) by (simp only: outcome.case) blast
  qed
qed

section \<open>One frame\<close>

text \<open>The ways a frame changes the detector.\<close>

lemma ProcessFrame_cases:
  assumes inv: "ed_inv (fst s)"
  obtains
    (skip) "ProcessFrame fmtId e f s = Ret s" and "length (GetImages f) \<noteq> 2"
  | (idle) "ProcessFrame fmtId e f s = Ret (updateGoalTracking (map GetGoal (GetJoints f)) (fst s), snd s)"
      and "length (GetImages f) = 2" and "episodeMonotonicStart (fst s) = 0"
      and "\<not> hasCommandsChanged (fst s) (map GetGoal (GetJoints f))"
  | (start) s1 where "s1 = startNewEpisode e f s"
      and "ProcessFrame fmtId e f s = Ret (updateGoalTracking (map GetGoal (GetJoints f)) (fst s1), snd s1)"
      and "length (GetImages f) = 2" and "episodeMonotonicStart (fst s) = 0"
      and "hasCommandsChanged (fst s) (map GetGoal (GetJoints f))"
  | (go_on) s2 where "episodeFrame fmtId f s = Ret s2" and "ProcessFrame fmtId e f s = Ret s2"
      and "length (GetImages f) = 2" and "episodeMonotonicStart (fst s) \<noteq> 0" and "\<not> episodeEnds f (fst s2)"
      and "ed_inv (fst s2)"
  | (finish) s2 s1 where "episodeFrame fmtId f s = Ret s2" and "trySaveCurrentEpisode fmtId e s2 = Ret s1"
      and "ProcessFrame fmtId e f s = Ret (resetEpisode (fst s1), snd s1)"
      and "length (GetImages f) = 2" and "episodeMonotonicStart (fst s) \<noteq> 0" and "episodeEnds f (fst s2)"
      and "ed_inv (fst s2)" and "buffer (fst s2) \<noteq> []"
  | (unmarked) "ProcessFrame fmtId e f s = Panic" and "length (GetImages f) = 2" and "episodeMonotonicStart (fst s) \<noteq> 0"
      and "gap_too_long f (fst s)" and "fmtId (GetGlobalFrameId f) = None"
  | (unsaved) s2 where "ProcessFrame fmtId e f s = Panic" and "length (GetImages f) = 2" and "episodeMonotonicStart (fst s) \<noteq> 0"
      and "episodeFrame fmtId f s = Ret s2" and "episodeEnds f (fst s2)" and "save_unreadable fmtId (fst s2)"
proof (cases "length (GetImages f) = 2 \<and> episodeMonotonicStart (fst s) \<noteq> 0")
  case inside: True
  show thesis
  proof (cases "episodeFrame fmtId f s")
    case (Ret s2)
    have i: "ed_inv (fst s2)" using inv_episodeFrame [OF inv _ _ Ret] inside by simp
    then have b: "buffer (fst s2) \<noteq> []" using episodeFrame_keeps(1) [OF Ret] inside by (simp add: ed_inv_def)
    show thesis
    proof (cases "episodeEnds f (fst s2)")
      case True
      show thesis
      proof (cases "trySaveCurrentEpisode fmtId e s2")
        case s1: (Ret s1)
        then show thesis using finish [of s2 s1] Ret True i b inside by (simp add: ProcessFrame_def)
      next
        case (Err err)
        then show thesis by (cases rule: trySave_cases [OF b, of fmtId e]) simp_all
      next
        case Panic
        then have "save_unreadable fmtId (fst s2)" by (cases rule: trySave_cases [OF b, of fmtId e]) simp_all
        then show thesis using unsaved [of s2] Ret True Panic inside by (simp add: ProcessFrame_def)
      qed
    next
      case False
      then show thesis using Ret i inside go_on by (simp add: ProcessFrame_def)
    qed
  next
    case (Err err)
    then show thesis by (cases rule: episodeFrame_cases [of fmtId f s]) simp_all
  next
    case Panic
    then show thesis
      by (cases rule: episodeFrame_cases [of fmtId f s]) (use inside unmarked in \<open>simp_all add: ProcessFrame_def\<close>)
  qed
next
  case False
  then show thesis
    using skip idle start by (auto simp: ProcessFrame_def Let_def split: if_splits)
qed

lemma resetEpisode_simps [simp]:
  "episodeMonotonicStart (resetEpisode ed) = 0" "buffer (resetEpisode ed) = []"
  "episodeSkipReason (resetEpisode ed) = []" "task (resetEpisode ed) = task ed"
  "stats (resetEpisode ed) = stats ed" "episodeIndex (resetEpisode ed) = episodeIndex ed"
  by (simp_all add: resetEpisode_def)

lemma discard_simps [simp]:
  "task (discard ed) = task ed" "episodeIndex (discard ed) = episodeIndex ed"
  "EpisodesSaved (stats (discard ed)) = EpisodesSaved (stats ed)"
  "TotalFramesSaved (stats (discard ed)) = TotalFramesSaved (stats ed)"
  "EpisodesStarted (stats (discard ed)) = EpisodesStarted (stats ed)"
  "EpisodesDiscarded (stats (discard ed)) = EpisodesDiscarded (stats ed) + 1"
  by (simp_all add: discard_def)

lemma saved_ed_simps [simp]:
  "task (saved_ed ed) = task ed" "episodeIndex (saved_ed ed) = episodeIndex ed + 1"
  "EpisodesSaved (stats (saved_ed ed)) = EpisodesSaved (stats ed) + 1"
  "TotalFramesSaved (stats (saved_ed ed)) = TotalFramesSaved (stats ed) + of_nat (length (buffer ed))"
  "EpisodesStarted (stats (saved_ed ed)) = EpisodesStarted (stats ed)"
  "EpisodesDiscarded (stats (saved_ed ed)) = EpisodesDiscarded (stats ed)"
  by (simp_all add: saved_ed_def)

lemma trySave_Ret: "trySaveCurrentEpisode fmtId e s = Ret s' \<Longrightarrow> buffer (fst s) \<noteq> [] \<Longrightarrow> \<not> save_unreadable fmtId (fst s)"
  using trySave_Panic [of s fmtId e] by auto

lemma inv_saved:
  assumes "ed_inv (fst s)" and "episodeMonotonicStart (fst s) \<noteq> 0" and "trySaveCurrentEpisode fmtId e s = Ret s'"
  shows "EpisodesSaved (stats (fst s')) = episodeIndex (fst s') \<and> task (fst s') = task (fst s)"
proof -
  have "buffer (fst s) \<noteq> []" using assms(1,2) by (simp add: ed_inv_def)
  then show ?thesis
    by (cases rule: trySave_cases [of s fmtId e]) (use assms in \<open>simp_all add: ed_inv_def\<close>)
qed

lemma inv_ProcessFrame:
  assumes "ed_inv (fst s)" and "ProcessFrame fmtId e f s = Ret s'"
  shows "ed_inv (fst s') \<and> task (fst s') = task (fst s)"
  using assms(1)
proof (cases rule: ProcessFrame_cases [of s fmtId e f])
  case (finish s2 s1)
  then show ?thesis
    using assms inv_saved [of s2 fmtId e s1] episodeFrame_keeps [OF finish(1)] by (simp add: ed_inv_def)
next
  case (go_on s2)
  then show ?thesis using assms(2) episodeFrame_keeps [OF go_on(1)] by simp
qed (use assms inv_start [of s f e] in \<open>simp_all\<close>)

section \<open>Runs\<close>

text \<open>The states after \<open>n\<close> frames, each with its own answers of the environment.\<close>

inductive run_to :: "(byte list \<Rightarrow> string option) \<Rightarrow> 'u ed_state \<Rightarrow> nat \<Rightarrow> 'u ed_state \<Rightarrow> bool"
  for fmtId s0 where
  run_start: "run_to fmtId s0 0 s0"
| run_frame: "run_to fmtId s0 n s \<Longrightarrow> ProcessFrame fmtId e f s = Ret s' \<Longrightarrow> run_to fmtId s0 (Suc n) s'"

lemma run_inv:
  assumes "run_to fmtId s0 n s" and "ed_inv (fst s0)"
  shows "ed_inv (fst s) \<and> task (fst s) = task (fst s0)"
  using assms(1) by induction (use assms(2) inv_ProcessFrame in fastforce)+

text \<open>
  The abstract view of a detector is the list of the episodes it has saved. \<open>holds_episodes\<close>
  relates it to the numbered files and the counters.
\<close>

definition holds_episodes :: "Frame list list \<Rightarrow> 'u ed_state \<Rightarrow> bool" where
  "holds_episodes hist s \<longleftrightarrow>
     episodeIndex (fst s) = of_nat (length hist) \<and>
     (\<forall>i < length hist. files (snd s) (EpisodeFile (of_nat i)) = Some (hist ! i)) \<and>
     TotalFramesSaved (stats (fst s)) = of_nat (sum_list (map length hist)) \<and>
     list_all (episode_ok (task (fst s))) hist"

lemma of_nat_u64_eq: "i < 2 ^ 64 \<Longrightarrow> j < 2 ^ 64 \<Longrightarrow> (of_nat i :: uint64) = of_nat j \<longleftrightarrow> i = j"
  by (simp add: word_of_nat_eq_iff take_bit_nat_eq_self)


lemma holds_New: "holds_episodes [] (NewEpisodeDetector dur tsk minCmd prog, w)"
  by (simp add: holds_episodes_def NewEpisodeDetector_def)

lemma holds_cong:
  assumes "episodeIndex (fst s') = episodeIndex (fst s)" and "task (fst s') = task (fst s)"
    and "TotalFramesSaved (stats (fst s')) = TotalFramesSaved (stats (fst s))"
    and "\<And>i. i < length hist \<Longrightarrow> files (snd s') (EpisodeFile (of_nat i)) = files (snd s) (EpisodeFile (of_nat i))"
    and "holds_episodes hist s"
  shows "holds_episodes hist s'"
  using assms by (simp add: holds_episodes_def)

lemma holds_trySave:
  assumes "holds_episodes hist s" and "ed_inv (fst s)" and "episodeMonotonicStart (fst s) \<noteq> 0"
    and "length hist + 1 < 2 ^ 64" and "trySaveCurrentEpisode fmtId e s = Ret s'"
  shows "holds_episodes (if outcome e (fst s) = Saved then hist @ [buffer (fst s)] else hist) s'"
proof -
  have buf: "buffer (fst s) \<noteq> []" "episode_ok (task (fst s)) (buffer (fst s))"
    using assms(2,3) by (simp_all add: ed_inv_def)
  have other: "EpisodeFile (of_nat i) \<noteq> EpisodeFile (episodeIndex (fst s))" if "i < length hist" for i
    using that assms(1,4) of_nat_u64_eq [of i "length hist"] by (simp add: holds_episodes_def)
  from buf(1) show ?thesis
  proof (cases rule: trySave_cases [of s fmtId e])
    case (Discarded s1)
    then show ?thesis using assms(1,5) holds_cong [of s' s hist] by simp
  next
    case (Failed s1)
    then show ?thesis using assms(1,5) other holds_cong [of s' s hist] by simp
  next
    case (Saved s1)
    then show ?thesis
      using assms(1,5) other buf by (auto simp: holds_episodes_def nth_append less_Suc_eq)
  qed (use assms(5) in simp)
qed

lemma holds_ProcessFrame:
  assumes "holds_episodes hist s" and "ed_inv (fst s)" and "length hist + 1 < 2 ^ 64"
    and "ProcessFrame fmtId e f s = Ret s'"
  shows "\<exists>hist'. length hist' \<le> Suc (length hist) \<and> holds_episodes hist' s'"
  using assms(2)
proof (cases rule: ProcessFrame_cases [of s fmtId e f])
  case (finish s2 s1)
  let ?h = "if outcome e (fst s2) = Saved then hist @ [buffer (fst s2)] else hist"
  note k = episodeFrame_keeps [OF finish(1)]
  have "holds_episodes hist s2" by (rule holds_cong [OF _ _ _ _ assms(1)]) (simp_all add: k)
  then have "holds_episodes ?h s1"
    using holds_trySave [of hist s2 fmtId e s1] finish assms(3) k(1) by simp
  then have "holds_episodes ?h s'"
    using finish assms(4) holds_cong [of s' s1 ?h] by simp
  moreover have "length ?h \<le> Suc (length hist)" by simp
  ultimately show ?thesis by blast
next
  case (start s1)
  then have "holds_episodes hist s'"
    using assms inv_start(2,3) [of s f e]
    by (intro holds_cong [OF _ _ _ _ assms(1)])
      (simp_all add: startNewEpisode_def bufferFrame_def Let_def)
  then show ?thesis by (intro exI [of _ hist]) simp
next
  case (go_on s2)
  then have "holds_episodes hist s'"
    using assms(4) episodeFrame_keeps [OF go_on(1)] by (intro holds_cong [OF _ _ _ _ assms(1)]) simp_all
  then show ?thesis by (intro exI [of _ hist]) simp
next
  case idle
  then have "holds_episodes hist s'"
    using assms(4) by (intro holds_cong [OF _ _ _ _ assms(1)]) simp_all
  then show ?thesis by (intro exI [of _ hist]) simp
next
  case skip
  then show ?thesis using assms(1,4) by (intro exI [of _ hist]) simp
qed (use assms(4) in simp_all)

lemma run_holds:
  assumes "run_to fmtId s0 n s" and "ed_inv (fst s0)" and "holds_episodes [] s0" and "n < 2 ^ 64"
  shows "\<exists>hist. length hist \<le> n \<and> holds_episodes hist s"
  using assms(1,4)
proof induction
  case run_start
  then show ?case using assms(3) by (intro exI [of _ "[]"]) simp
next
  case (run_frame n s e f s')
  then obtain hist where h: "length hist \<le> n" "holds_episodes hist s" by auto
  have "length hist + 1 < 2 ^ 64" using h(1) run_frame.prems by simp
  from holds_ProcessFrame [OF h(2) _ this run_frame.hyps(2)] run_inv [OF run_frame.hyps(1) assms(2)]
  obtain hist' where "length hist' \<le> Suc (length hist)" "holds_episodes hist' s'" by auto
  with h(1) show ?case by (intro exI [of _ hist']) simp
qed

section \<open>Panics\<close>

definition frame_unreadable :: "(byte list \<Rightarrow> string option) \<Rightarrow> FrameReader \<Rightarrow> EpisodeDetector \<Rightarrow> bool" where
  "frame_unreadable fmtId f ed \<longleftrightarrow>
     length (GetImages f) = 2 \<and> episodeMonotonicStart ed \<noteq> 0 \<and> episodeSkipReason ed = [] \<and>
     fmtId (GetGlobalFrameId f) = None \<and>
     (GetMonotonicStampNs f - episodeMonotonicStart ed - TimestampNsSinceEpisodeStart (last (buffer ed)) > ms500 \<or>
      episodeEnds f (trackCommands f ed) \<and> commandsCnt (trackCommands f ed) < minCommands ed \<and> program ed)"

lemma episodeEnds_episodeFrame:
  assumes "episodeFrame fmtId f s = Ret s'"
  shows "episodeEnds f (fst s') = episodeEnds f (trackCommands f (fst s))"
  using episodeFrame_keeps [OF assms] by (simp add: episodeEnds_def)

lemma save_unreadable_episodeFrame:
  assumes "episodeFrame fmtId f s = Ret s'"
  shows "save_unreadable fmtId (fst s') \<longleftrightarrow> episodeSkipReason (fst s) = [] \<and> \<not> gap_too_long f (fst s) \<and>
    commandsCnt (trackCommands f (fst s)) < minCommands (fst s) \<and> program (fst s) \<and> fmtId (GetGlobalFrameId f) = None"
  by (cases rule: episodeFrame_cases [of fmtId f s]) (use assms in \<open>auto simp: save_unreadable_def gap_too_long_def\<close>)

lemma ProcessFrame_panics:
  assumes "ed_inv (fst s)"
  shows "if frame_unreadable fmtId f (fst s) then ProcessFrame fmtId e f s = Panic
    else \<exists>s'. ProcessFrame fmtId e f s = Ret s'"
proof -
  have b: "episodeMonotonicStart (fst s) \<noteq> 0 \<Longrightarrow> buffer (fst s) \<noteq> []" using assms by (simp add: ed_inv_def)
  from assms show ?thesis
  proof (cases rule: ProcessFrame_cases [of s fmtId e f])
    case (go_on s2)
    have "\<not> (gap_too_long f (fst s) \<and> fmtId (GetGlobalFrameId f) = None)"
      by (cases rule: episodeFrame_cases [of fmtId f s]) (use go_on(1) in \<open>auto simp: gap_too_long_def\<close>)
    then have "\<not> frame_unreadable fmtId f (fst s)"
      using go_on(4,5) b episodeEnds_episodeFrame [OF go_on(1)] by (auto simp: frame_unreadable_def gap_too_long_def)
    then show ?thesis using go_on(2) by simp
  next
    case (finish s2 s1)
    have "\<not> (gap_too_long f (fst s) \<and> fmtId (GetGlobalFrameId f) = None)"
      by (cases rule: episodeFrame_cases [of fmtId f s]) (use finish(1) in \<open>auto simp: gap_too_long_def\<close>)
    then have "\<not> frame_unreadable fmtId f (fst s)"
      using finish(5) b trySave_Ret [OF finish(2,8)] save_unreadable_episodeFrame [OF finish(1)]
      by (auto simp: frame_unreadable_def gap_too_long_def)
    then show ?thesis using finish(3) by simp
  next
    case unmarked
    then show ?thesis by (simp add: frame_unreadable_def gap_too_long_def)
  next
    case (unsaved s2)
    then show ?thesis
      using save_unreadable_episodeFrame [OF unsaved(4)] episodeEnds_episodeFrame [OF unsaved(4)]
      by (simp add: frame_unreadable_def)
  qed (simp_all add: frame_unreadable_def)
qed

lemma Finalize_panics:
  assumes "ed_inv (fst s)"
  shows "if episodeMonotonicStart (fst s) \<noteq> 0 \<and> save_unreadable fmtId (fst s) then Finalize fmtId e me s = Panic
    else \<exists>s'. Finalize fmtId e me s = Ret s'"
proof (cases "episodeMonotonicStart (fst s) = 0")
  case False
  then have b: "buffer (fst s) \<noteq> []" using assms by (simp add: ed_inv_def)
  then show ?thesis
    using False trySave_Panic [OF b, of fmtId e] trySave_outcome [OF b, of fmtId e] by (auto simp: Finalize_def)
qed (simp add: Finalize_def)

section \<open>Merging\<close>

lemma readEpisodes_hist:
  assumes "\<And>i. i \<in> set is \<Longrightarrow> fs (EpisodeFile (of_nat i)) = Some (hist i)"
    and "\<And>i. \<not> openFails me i"
  shows "readEpisodes me fs is = Some (concat (map hist is))"
  using assms by (induction "is") simp_all

lemma merge_holds:
  assumes "holds_episodes hist s" and "length hist < 2 ^ 64" and "hist \<noteq> []"
    and "\<And>i. \<not> openFails me i" and "\<not> createMergedFails me" and "mergeFails me = None"
  shows "files (snd (mergeParquetFiles me s)) MergedFile = Some (concat hist)"
    and "\<And>i. i < length hist \<Longrightarrow> files (snd (mergeParquetFiles me s)) (EpisodeFile (of_nat i)) = None"
    and "fst (mergeParquetFiles me s) = fst s"
proof -
  have n: "unat (episodeIndex (fst s)) = length hist"
    using assms(1,2) by (simp add: holds_episodes_def unat_of_nat)
  then have nz: "episodeIndex (fst s) \<noteq> 0"
    using assms(3) by auto
  have "readEpisodes me (files (snd s)) [0..<length hist] = Some (concat (map ((!) hist) [0..<length hist]))"
    using assms(1,4) by (intro readEpisodes_hist) (simp_all add: holds_episodes_def)
  then have rd: "readEpisodes me (files (snd s)) [0..<length hist] = Some (concat hist)"
    by (simp add: map_nth)
  show "files (snd (mergeParquetFiles me s)) MergedFile = Some (concat hist)"
    and "fst (mergeParquetFiles me s) = fst s"
    using assms(5,6) rd nz by (simp_all add: mergeParquetFiles_def Let_def n removeEpisodes_def)
  show "files (snd (mergeParquetFiles me s)) (EpisodeFile (of_nat i)) = None" if "i < length hist" for i
    using assms(2,5,6) rd nz that
    by (simp add: mergeParquetFiles_def Let_def n removeEpisodes_def unat_of_nat)
qed

section \<open>Properties\<close>

text \<open>
  The goal comparison of the detector is inequality of the goal vectors, except that the
  first vector ever seen counts as no change.
\<close>

theorem commands_changed_iff:
  "hasCommandsChanged ed goals \<longleftrightarrow> lastGoals ed \<noteq> [] \<and> lastGoals ed \<noteq> goals"
proof -
  have "list_ex (\<lambda>i. lastGoals ed ! i \<noteq> goals ! i) [0..<length goals] \<longleftrightarrow> lastGoals ed \<noteq> goals"
    if "length (lastGoals ed) = length goals"
  proof -
    have "list_ex (\<lambda>i. lastGoals ed ! i \<noteq> goals ! i) [0..<length goals] \<longleftrightarrow>
        \<not> (\<forall>i < length goals. lastGoals ed ! i = goals ! i)"
      by (auto simp: list_ex_iff)
    also have "\<dots> \<longleftrightarrow> lastGoals ed \<noteq> goals"
      using that by (metis nth_equalityI)
    finally show ?thesis .
  qed
  then show ?thesis by (auto simp: hasCommandsChanged_def)
qed


definition demo_joint :: "uint32 \<Rightarrow> JointReader" where
  "demo_joint g = \<lparr>getRangeMin = 0, getRangeMax = 4095, getPosition = 0, getPositionNorm = 0,
     getGoal = g, getGoalNorm = 0, getCurrentMa = 0, getVelocity = 0\<rparr>"

definition demo_frame :: "uint64 \<Rightarrow> uint32 \<Rightarrow> FrameReader" where
  "demo_frame t g = \<lparr>GetImages = [None, Some \<lparr>getJpeg = [0xFF, 0xD8]\<rparr>], GetMonotonicStampNs = t,
     GetJoints = [Some (demo_joint g)], GetGlobalFrameId = [ucast t]\<rparr>"

definition demo_env :: env where
  "demo_env = \<lparr>nowNs = 1, mkdirFails = False, createFails = False, writeFails = None\<rparr>"

definition demo_start :: "nat ed_state" where
  "demo_start = (NewEpisodeDetector 10 ''pick'' 1 True, \<lparr>sent = [], files = \<lambda>_. None\<rparr>)"

text \<open>Twelve frames: the first goals, a change of goals that starts an episode, and a frame
  every 500 ms until the robot has been idle for five seconds.\<close>

definition demo_frames :: "FrameReader list" where
  "demo_frames = demo_frame 5 1 # map (\<lambda>i. demo_frame (10 + 500000000 * i) 2) [0, 1, 2, 3, 4, 5, 6, 7, 8, 9, 10]"

definition demo_run :: "nat ed_state go" where
  "demo_run = go_fold (\<lambda>f s. ProcessFrame (\<lambda>_. Some ''id'') demo_env f s) demo_frames demo_start"

lemma run_fold:
  "run_to fmtId s0 n s \<Longrightarrow> go_fold (\<lambda>f s. ProcessFrame fmtId e f s) fs s = Ret s' \<Longrightarrow>
   run_to fmtId s0 (n + length fs) s'"
proof (induction fs arbitrary: n s)
  case (Cons f fs)
  then obtain s1 where "ProcessFrame fmtId e f s = Ret s1"
    "go_fold (\<lambda>f s. ProcessFrame fmtId e f s) fs s1 = Ret s'"
    by (auto simp: go_bind_Ret_iff)
  then show ?case using Cons.IH [OF run_frame [OF Cons.prems(1)]] by simp
qed simp

lemmas ed_ops = ProcessFrame_def startNewEpisode_def episodeFrame_def episodeEnds_def checkGap_def
  markEpisodeSkip_def bufferFrame_def trackCommands_def updateGoalTracking_def hasCommandsChanged_def
  trySaveCurrentEpisode_def idString_def resetEpisode_def discard_def Send_def frame_at_def ms500_def sec5_def
  GetGoal_def Let_def

lemma demo_run_value:
  obtains s where "demo_run = Ret s" and "episodeIndex (fst s) = 1"
    and "run_to (\<lambda>_. Some ''id'') demo_start 12 s" and "episodeMonotonicStart (fst s) = 0"
proof -
  have "\<exists>s. demo_run = Ret s \<and> episodeIndex (fst s) = 1 \<and> episodeMonotonicStart (fst s) = 0"
    by (simp add: demo_run_def demo_frames_def demo_start_def demo_frame_def demo_joint_def demo_env_def
        NewEpisodeDetector_def ed_ops)
  then obtain s where s: "demo_run = Ret s" "episodeIndex (fst s) = 1" "episodeMonotonicStart (fst s) = 0" by blast
  have "run_to (\<lambda>_. Some ''id'') demo_start (0 + length demo_frames) s"
    using s(1) by (intro run_fold [OF run_start]) (simp only: demo_run_def)
  moreover have "0 + length demo_frames = 12" by (simp add: demo_frames_def)
  ultimately show thesis using that s by simp
qed

definition demo_merge :: merge_env where
  "demo_merge = \<lparr>openFails = \<lambda>_. False, createMergedFails = False, mergeFails = None\<rparr>"

text \<open>One episode in progress, and a frame 600 ms late whose id is not read.\<close>

definition short_ids :: "byte list \<Rightarrow> string option" where
  "short_ids bs = (if length bs = 1 then Some ''id'' else None)"

definition late_frame :: "byte list \<Rightarrow> FrameReader" where
  "late_frame bs = (demo_frame 600000010 2)\<lparr>GetGlobalFrameId := bs\<rparr>"


text \<open>
  C2. Every file the detector has written is a well-formed episode: after \<open>n\<close> frames there is a
  list of at most \<open>n\<close> episodes such that file \<open>i\<close> holds episode \<open>i\<close>, for every file number
  below the next one, each episode starts at time 0 with gaps of at most 500 ms, has two
  images in every frame, one task and one start time, and the counters are their number and
  their total length.
\<close>

theorem saved_files_are_episodes:
  assumes "run_to fmtId (NewEpisodeDetector dur tsk minCmd prog, w) n s" and "n < 2 ^ 64"
  shows "\<exists>hist. length hist \<le> n \<and> list_all (episode_ok tsk) hist \<and>
    (\<forall>i < length hist. files (snd s) (EpisodeFile (of_nat i)) = Some (hist ! i)) \<and>
    episodeIndex (fst s) = of_nat (length hist) \<and>
    EpisodesSaved (stats (fst s)) = of_nat (length hist) \<and>
    TotalFramesSaved (stats (fst s)) = of_nat (length (concat hist))"
proof -
  obtain hist where "length hist \<le> n" "holds_episodes hist s"
    using run_holds [OF assms(1) _ holds_New assms(2)] by (auto simp: inv_New)
  moreover have "ed_inv (fst s)" "task (fst s) = tsk"
    using run_inv [OF assms(1)] by (simp_all add: inv_New, simp add: NewEpisodeDetector_def)
  ultimately show ?thesis
    by (intro exI [of _ hist]) (simp add: holds_episodes_def ed_inv_def length_concat)
qed

theorem saved_files_are_episodes_witness:
  "\<exists>s fs. demo_run = Ret s \<and> files (snd s) (EpisodeFile 0) = Some fs \<and> episode_ok ''pick'' fs"
proof -
  obtain s where s: "demo_run = Ret s" "episodeIndex (fst s) = 1" "run_to (\<lambda>_. Some ''id'') demo_start 12 s"
    by (rule demo_run_value)
  obtain hist where h: "length hist \<le> 12" "list_all (episode_ok ''pick'') hist"
    "\<forall>i < length hist. files (snd s) (EpisodeFile (of_nat i)) = Some (hist ! i)"
    "episodeIndex (fst s) = of_nat (length hist)"
    using saved_files_are_episodes [OF s(3) [unfolded demo_start_def]] by auto
  have "0 < length hist" using s(2) h(4) by (cases hist) auto
  then have "files (snd s) (EpisodeFile 0) = Some (hist ! 0)" "episode_ok ''pick'' (hist ! 0)"
    using h(2,3) by (auto simp: list_all_length)
  then show ?thesis using s(1) by blast
qed

text \<open>What the numbered files of a detector hold, and what is there to be merged at the end: these episodes and the one in
  progress when it is saved.\<close>

definition episode_files :: "'u ed_state \<Rightarrow> Frame list list" where
  "episode_files s = map (\<lambda>i. case files (snd s) (EpisodeFile (of_nat i)) of None \<Rightarrow> [] | Some fs \<Rightarrow> fs)
     [0..<unat (episodeIndex (fst s))]"

definition final_episodes :: "env \<Rightarrow> 'u ed_state \<Rightarrow> Frame list list" where
  "final_episodes e s = episode_files s @
     (if episodeMonotonicStart (fst s) \<noteq> 0 \<and> outcome e (fst s) = Saved then [buffer (fst s)] else [])"

lemma holds_files:
  assumes "holds_episodes hist s" and "length hist < 2 ^ 64"
  shows "episode_files s = hist"
proof -
  have "unat (episodeIndex (fst s)) = length hist"
    using assms by (simp add: holds_episodes_def unat_of_nat)
  then show ?thesis
    using assms(1) by (auto simp: episode_files_def holds_episodes_def intro!: nth_equalityI)
qed

text \<open>The end of the stream from any state that holds a list of episodes.\<close>

lemma finalize_saves:
  assumes "ed_inv (fst s)" and "holds_episodes hist s" and "length hist + 1 < 2 ^ 64"
    and "\<not> (episodeMonotonicStart (fst s) \<noteq> 0 \<and> save_unreadable fmtId (fst s))"
  obtains s1 where "Finalize fmtId e me s = Ret (mergeParquetFiles me s1)"
    and "length (final_episodes e s) \<le> Suc (length hist)" and "holds_episodes (final_episodes e s) s1"
    and "EpisodesSaved (stats (fst s1)) = episodeIndex (fst s1)" and "task (fst s1) = task (fst s)"
    and "(if episodeMonotonicStart (fst s) \<noteq> 0 then trySaveCurrentEpisode fmtId e s else Ret s) = Ret s1"
proof -
  have h: "episode_files s = hist" using holds_files [OF assms(2)] assms(3) by simp
  show thesis
  proof (cases "episodeMonotonicStart (fst s) = 0")
    case True
    then show thesis using that [of s] assms h by (simp add: Finalize_def ed_inv_def final_episodes_def)
  next
    case False
    then obtain s1 where s1: "trySaveCurrentEpisode fmtId e s = Ret s1"
      using trySave_outcome [of s fmtId e] assms(1,4) by (auto simp: ed_inv_def)
    have f: "final_episodes e s = (if outcome e (fst s) = Saved then hist @ [buffer (fst s)] else hist)"
      using False h by (simp add: final_episodes_def)
    have "holds_episodes (final_episodes e s) s1"
      unfolding f by (rule holds_trySave [OF assms(2,1) False assms(3) s1])
    then show thesis
      using inv_saved [OF assms(1) False s1] s1 False that [of s1] f by (simp add: Finalize_def)
  qed
qed

lemma merge_keeps_detector: "fst (mergeParquetFiles me s) = fst s"
  by (simp add: mergeParquetFiles_def Let_def split: option.splits)

lemma finalize_holds:
  assumes "ed_inv (fst s)" and "holds_episodes hist s" and "length hist + 1 < 2 ^ 64"
    and "\<not> (episodeMonotonicStart (fst s) \<noteq> 0 \<and> save_unreadable fmtId (fst s))"
    and "\<And>i. \<not> openFails me i" and "\<not> createMergedFails me" and "mergeFails me = None"
  shows "list_all (episode_ok (task (fst s))) (final_episodes e s) \<and>
    (\<exists>s'. Finalize fmtId e me s = Ret s' \<and>
      EpisodesSaved (stats (fst s')) = of_nat (length (final_episodes e s)) \<and>
      TotalFramesSaved (stats (fst s')) = of_nat (length (concat (final_episodes e s))) \<and>
      (final_episodes e s \<noteq> [] \<longrightarrow> files (snd s') MergedFile = Some (concat (final_episodes e s)) \<and>
         (\<forall>i < length (final_episodes e s). files (snd s') (EpisodeFile (of_nat i)) = None)))"
proof -
  obtain s1 where f: "Finalize fmtId e me s = Ret (mergeParquetFiles me s1)"
    and h1: "length (final_episodes e s) \<le> Suc (length hist)" "holds_episodes (final_episodes e s) s1"
      "EpisodesSaved (stats (fst s1)) = episodeIndex (fst s1)" "task (fst s1) = task (fst s)"
    using finalize_saves [OF assms(1-4)] by metis
  have "length (final_episodes e s) < 2 ^ 64" using h1(1) assms(3) by simp
  note m = merge_holds [OF h1(2) this _ assms(5-7)]
  show ?thesis
    using f h1 m(1,2) by (simp add: holds_episodes_def length_concat merge_keeps_detector)
qed

text \<open>
  C17. At the end of the stream the episode in progress is saved when it qualifies (not marked for skipping, enough
  commands, no file operation fails), and when no step of the merge fails, the merged file holds exactly the contents of
  the numbered files in the order of their numbers, followed by the frames of that last episode; the numbered files are
  removed, and the counters are the number of these episodes and of their frames. The id of the last frame must be
  readable where discarding the episode in progress needs it.
\<close>

theorem finalize_merges_episodes:
  assumes "run_to fmtId (NewEpisodeDetector dur tsk minCmd prog, w) n s" and "n + 1 < 2 ^ 64"
    and "\<not> (episodeMonotonicStart (fst s) \<noteq> 0 \<and> save_unreadable fmtId (fst s))"
    and "\<And>i. \<not> openFails me i" and "\<not> createMergedFails me" and "mergeFails me = None"
  shows "(\<forall>i < unat (episodeIndex (fst s)). files (snd s) (EpisodeFile (of_nat i)) = Some (final_episodes e s ! i)) \<and>
    drop (unat (episodeIndex (fst s))) (final_episodes e s) =
      (if episodeMonotonicStart (fst s) \<noteq> 0 \<and> episodeSkipReason (fst s) = [] \<and> minCommands (fst s) \<le> commandsCnt (fst s) \<and>
          \<not> mkdirFails e \<and> \<not> createFails e \<and> writeFails e = None
       then [buffer (fst s)] else []) \<and>
    list_all (episode_ok tsk) (final_episodes e s) \<and>
    (\<exists>s'. Finalize fmtId e me s = Ret s' \<and>
      EpisodesSaved (stats (fst s')) = of_nat (length (final_episodes e s)) \<and>
      TotalFramesSaved (stats (fst s')) = of_nat (length (concat (final_episodes e s))) \<and>
      (final_episodes e s \<noteq> [] \<longrightarrow> files (snd s') MergedFile = Some (concat (final_episodes e s)) \<and>
         (\<forall>i < length (final_episodes e s). files (snd s') (EpisodeFile (of_nat i)) = None)))"
proof -
  obtain hist where h: "length hist \<le> n" "holds_episodes hist s"
    using run_holds [OF assms(1) _ holds_New] assms(2) by (auto simp: inv_New)
  have inv: "ed_inv (fst s)" and tsk: "task (fst s) = tsk"
    using run_inv [OF assms(1)] by (simp_all add: inv_New, simp add: NewEpisodeDetector_def)
  have f: "episode_files s = hist" "unat (episodeIndex (fst s)) = length hist"
    using holds_files [OF h(2)] h assms(2) by (simp_all add: holds_episodes_def unat_of_nat)
  have o: "outcome e (fst s) = Saved \<longleftrightarrow> episodeSkipReason (fst s) = [] \<and> minCommands (fst s) \<le> commandsCnt (fst s) \<and>
      \<not> mkdirFails e \<and> \<not> createFails e \<and> writeFails e = None"
    by (auto simp: outcome_def not_less)
  have "\<forall>i < unat (episodeIndex (fst s)). files (snd s) (EpisodeFile (of_nat i)) = Some (final_episodes e s ! i)"
    using h(2) f by (simp add: final_episodes_def nth_append holds_episodes_def)
  then show ?thesis
    using finalize_holds [OF inv h(2) _ assms(3-6), of e] h(1) assms(2) f tsk o by (simp add: final_episodes_def)
qed

theorem finalize_merges_episodes_witness:
  "\<exists>s s'. demo_run = Ret s \<and> Finalize (\<lambda>_. Some ''id'') demo_env demo_merge s = Ret s' \<and>
     files (snd s) (EpisodeFile 0) \<noteq> None \<and> files (snd s') MergedFile = files (snd s) (EpisodeFile 0) \<and>
     files (snd s') (EpisodeFile 0) = None"
proof -
  obtain s where s: "demo_run = Ret s" "episodeIndex (fst s) = 1" "run_to (\<lambda>_. Some ''id'') demo_start 12 s"
    and idle: "episodeMonotonicStart (fst s) = 0"
    by (rule demo_run_value)
  let ?h = "final_episodes demo_env s"
  have f: "files (snd s) (EpisodeFile 0) = Some (?h ! 0)" "drop 1 ?h = []"
    "\<exists>s'. Finalize (\<lambda>_. Some ''id'') demo_env demo_merge s = Ret s' \<and>
       (?h \<noteq> [] \<longrightarrow> files (snd s') MergedFile = Some (concat ?h) \<and>
         (\<forall>i < length ?h. files (snd s') (EpisodeFile (of_nat i)) = None))"
    using finalize_merges_episodes [OF s(3) [unfolded demo_start_def], of demo_merge demo_env] idle s(2)
    unfolding demo_merge_def by auto
  have "length ?h = 1" using s(2) idle by (simp add: final_episodes_def episode_files_def)
  then obtain fs where fs: "?h = [fs]" by (cases ?h) auto
  from f(3) obtain s' where s': "Finalize (\<lambda>_. Some ''id'') demo_env demo_merge s = Ret s'"
    "?h \<noteq> [] \<longrightarrow> files (snd s') MergedFile = Some (concat ?h) \<and> (\<forall>i < length ?h. files (snd s') (EpisodeFile (of_nat i)) = None)"
    by blast
  have "files (snd s') MergedFile = Some fs" "files (snd s') (EpisodeFile 0) = None" using s'(2) by (simp_all add: fs)
  then have "demo_run = Ret s \<and> Finalize (\<lambda>_. Some ''id'') demo_env demo_merge s = Ret s' \<and>
     files (snd s) (EpisodeFile 0) \<noteq> None \<and> files (snd s') MergedFile = files (snd s) (EpisodeFile 0) \<and>
     files (snd s') (EpisodeFile 0) = None"
    using f(1) s(1) s'(1) by (simp add: fs)
  then show ?thesis by blast
qed

text \<open>
  C24. A frame makes the detector write an episode file only when an episode is in progress, the
  configured duration has passed since its start and five seconds since the last movement,
  enough commands were seen and no gap was found: the episode is not marked, no gap between the buffered frames is longer
  than 500 ms, and neither is the gap before this frame. The file then holds the buffered episode
  with this frame at its end, and the detector is reset for the next one.
\<close>

theorem episode_saved_only_when_done:
  assumes "ed_inv (fst s)" and "ProcessFrame fmtId e f s = Ret s'"
    and "episodeIndex (fst s') \<noteq> episodeIndex (fst s)"
  shows "episodeMonotonicStart (fst s) \<noteq> 0 \<and>
    sint (duration (fst s)) \<le> sint (GetMonotonicStampNs f - episodeMonotonicStart (fst s)) \<and>
    5000000000 \<le> sint (GetMonotonicStampNs f - lastMovementStamp (trackCommands f (fst s))) \<and>
    minCommands (fst s) \<le> commandsCnt (trackCommands f (fst s)) \<and>
    episodeSkipReason (fst s) = [] \<and> gaps_ok (buffer (fst s)) \<and>
    (\<exists>g. files (snd s') (EpisodeFile (episodeIndex (fst s))) = Some (buffer (fst s) @ [g]) \<and>
       GlobalFrameID g = GetGlobalFrameId f \<and>
       TimestampNsSinceEpisodeStart g = GetMonotonicStampNs f - episodeMonotonicStart (fst s) \<and>
       TimestampNsSinceEpisodeStart g - TimestampNsSinceEpisodeStart (last (buffer (fst s))) \<le> 500000000) \<and>
    episodeIndex (fst s') = episodeIndex (fst s) + 1 \<and>
    episodeMonotonicStart (fst s') = 0 \<and> buffer (fst s') = []"
  using assms(1)
proof (cases rule: ProcessFrame_cases [of s fmtId e f])
  case (finish s2 s1)
  note k = episodeFrame_keeps [OF finish(1)]
  have "outcome e (fst s2) = Saved" and sv: "fst s1 = saved_ed (fst s2)"
    "files (snd s1) = (files (snd s))(EpisodeFile (episodeIndex (fst s)) := Some (buffer (fst s2)))"
    using finish assms(2,3) k by (cases rule: trySave_cases [OF finish(8), of fmtId e]; simp)+
  then have o: "episodeSkipReason (fst s2) = []" "\<not> commandsCnt (fst s2) < minCommands (fst s2)"
    by (simp_all add: outcome_def split: if_splits)
  have buf: "buffer (fst s) \<noteq> []" "gaps_ok (buffer (fst s))"
    using assms(1) finish(5) by (simp_all add: ed_inv_def episode_ok_def)
  have "episodeSkipReason (fst s) = [] \<and> (\<exists>g. buffer (fst s2) = buffer (fst s) @ [g] \<and> GlobalFrameID g = GetGlobalFrameId f \<and>
      TimestampNsSinceEpisodeStart g = GetMonotonicStampNs f - episodeMonotonicStart (fst s) \<and>
      TimestampNsSinceEpisodeStart g - TimestampNsSinceEpisodeStart (last (buffer (fst s))) \<le> 500000000)"
    by (cases rule: episodeFrame_cases [of fmtId f s])
      (use finish(1) o(1) buf(1) in \<open>auto simp: gap_too_long_def ms500_def not_less\<close>)
  then show ?thesis
    using finish assms(2) sv o k buf(2) by (auto simp: episodeEnds_def sec5_def not_less)
next
  case (start s1)
  then show ?thesis using assms(2,3) by (simp add: startNewEpisode_def Let_def)
next
  case (go_on s2)
  then show ?thesis using assms(2,3) episodeFrame_keeps(4) [OF go_on(1)] by simp
qed (use assms(2,3) in simp_all)

text \<open>An episode with its last movement at 10 ns and frames up to 400 ms before five seconds.\<close>

definition demo_last :: "nat ed_state go" where
  "demo_last = go_fold (\<lambda>f s. ProcessFrame (\<lambda>_. Some ''id'') demo_env f s) (butlast demo_frames) demo_start"

theorem episode_saved_only_when_done_witness:
  "\<exists>s s'. demo_last = Ret s \<and>
     ProcessFrame (\<lambda>_. Some ''id'') demo_env (demo_frame 5000000010 2) s = Ret s' \<and>
     5000000000 \<le> sint (5000000010 - lastMovementStamp (trackCommands (demo_frame 5000000010 2) (fst s))) \<and>
     buffer (fst s') = []"
proof -
  have "\<exists>s s'. demo_last = Ret s \<and> episodeIndex (fst s) = 0 \<and>
      ProcessFrame (\<lambda>_. Some ''id'') demo_env (demo_frame 5000000010 2) s = Ret s' \<and> episodeIndex (fst s') = 1"
    by (simp add: demo_last_def demo_frames_def demo_start_def demo_frame_def demo_joint_def demo_env_def
        NewEpisodeDetector_def ed_ops)
  then obtain s s' where s: "demo_last = Ret s" "episodeIndex (fst s) = 0"
    "ProcessFrame (\<lambda>_. Some ''id'') demo_env (demo_frame 5000000010 2) s = Ret s'" "episodeIndex (fst s') = 1"
    by blast
  have "run_to (\<lambda>_. Some ''id'') demo_start (0 + length (butlast demo_frames)) s"
    using s(1) by (intro run_fold [OF run_start]) (simp only: demo_last_def)
  from run_inv [OF this] have "ed_inv (fst s)" by (simp add: demo_start_def inv_New)
  note d = episode_saved_only_when_done [OF this s(3)]
  have "GetMonotonicStampNs (demo_frame 5000000010 2) = 5000000010" by (simp add: demo_frame_def)
  with d s(2,4) have "5000000000 \<le>
      sint (5000000010 - lastMovementStamp (trackCommands (demo_frame 5000000010 2) (fst s)))"
    and "buffer (fst s') = []"
    by simp_all
  then show ?thesis using s(1,3) by blast
qed

section \<open>Accounting\<close>

text \<open>Runs in which no file operation fails and every frame carries a nonzero time stamp.\<close>

definition clean_env :: "env \<Rightarrow> bool" where
  "clean_env e \<longleftrightarrow> \<not> mkdirFails e \<and> \<not> createFails e \<and> writeFails e = None"

inductive clean_run :: "(byte list \<Rightarrow> string option) \<Rightarrow> 'u ed_state \<Rightarrow> 'u ed_state \<Rightarrow> bool"
  for fmtId s0 where
  clean_start: "clean_run fmtId s0 s0"
| clean_frame: "clean_run fmtId s0 s \<Longrightarrow> clean_env e \<Longrightarrow> GetMonotonicStampNs f \<noteq> 0 \<Longrightarrow>
    ProcessFrame fmtId e f s = Ret s' \<Longrightarrow> clean_run fmtId s0 s'"

definition accounted :: "EpisodeDetector \<Rightarrow> bool" where
  "accounted ed \<longleftrightarrow> EpisodesStarted (stats ed) =
     EpisodesSaved (stats ed) + EpisodesDiscarded (stats ed) + (if episodeMonotonicStart ed = 0 then 0 else 1)"

lemma accounted_ProcessFrame:
  assumes "ed_inv (fst s)" and "accounted (fst s)" and "clean_env e" and "GetMonotonicStampNs f \<noteq> 0"
    and "ProcessFrame fmtId e f s = Ret s'"
  shows "accounted (fst s')"
  using assms(1)
proof (cases rule: ProcessFrame_cases [of s fmtId e f])
  case (finish s2 s1)
  note k = episodeFrame_keeps [OF finish(1)]
  from finish(8) show ?thesis
  proof (cases rule: trySave_cases [of s2 fmtId e])
    case (Failed s3)
    then show ?thesis using assms(3) by (simp add: outcome_def clean_env_def split: if_splits)
  qed (use finish assms(2,5) k in \<open>simp_all add: accounted_def\<close>)
next
  case (go_on s2)
  then show ?thesis using assms(2,5) episodeFrame_keeps [OF go_on(1)] by (simp add: accounted_def)
qed (use assms in \<open>simp_all add: accounted_def startNewEpisode_def Let_def\<close>)

text \<open>
  C25. When no file operation fails and time stamps are nonzero, every episode that was started
  is saved, discarded, or still in progress: the three counters agree at every moment.
\<close>

theorem episodes_accounted:
  assumes "clean_run fmtId (NewEpisodeDetector dur tsk minCmd prog, w) s"
  shows "EpisodesStarted (stats (fst s)) = EpisodesSaved (stats (fst s)) +
    EpisodesDiscarded (stats (fst s)) + (if episodeMonotonicStart (fst s) = 0 then 0 else 1)"
proof -
  have "ed_inv (fst s) \<and> accounted (fst s)"
    using assms
  proof induction
    case clean_start
    then show ?case by (simp add: inv_New) (simp add: accounted_def NewEpisodeDetector_def)
  next
    case (clean_frame s e f s')
    then show ?case using inv_ProcessFrame accounted_ProcessFrame by blast
  qed
  then show ?thesis by (simp add: accounted_def)
qed

lemma clean_fold:
  "clean_run fmtId s0 s \<Longrightarrow> clean_env e \<Longrightarrow> list_all (\<lambda>f. GetMonotonicStampNs f \<noteq> 0) fs \<Longrightarrow>
   go_fold (\<lambda>f s. ProcessFrame fmtId e f s) fs s = Ret s' \<Longrightarrow> clean_run fmtId s0 s'"
proof (induction fs arbitrary: s)
  case (Cons f fs)
  then obtain s1 where "ProcessFrame fmtId e f s = Ret s1"
    "go_fold (\<lambda>f s. ProcessFrame fmtId e f s) fs s1 = Ret s'"
    by (auto simp: go_bind_Ret_iff)
  moreover from this have "clean_run fmtId s0 s1"
    using clean_frame [OF Cons.prems(1,2), of f s1] Cons.prems(3) by simp
  ultimately show ?case using Cons.IH [OF _ Cons.prems(2)] Cons.prems(3) by simp
qed simp

theorem episodes_accounted_witness:
  "\<exists>s. demo_run = Ret s \<and> episodeIndex (fst s) = 1 \<and>
     EpisodesStarted (stats (fst s)) = EpisodesSaved (stats (fst s)) +
       EpisodesDiscarded (stats (fst s)) + (if episodeMonotonicStart (fst s) = 0 then 0 else 1)"
proof -
  obtain s where s: "demo_run = Ret s" "episodeIndex (fst s) = 1" by (rule demo_run_value)
  have "clean_run (\<lambda>_. Some ''id'') demo_start s"
  proof (rule clean_fold [OF clean_start])
    show "clean_env demo_env" by (simp add: clean_env_def demo_env_def)
    show "list_all (\<lambda>f. GetMonotonicStampNs f \<noteq> 0) demo_frames"
      by (simp add: demo_frames_def demo_frame_def)
    show "go_fold (\<lambda>f s. ProcessFrame (\<lambda>_. Some ''id'') demo_env f s) demo_frames demo_start = Ret s"
      using s(1) by (simp only: demo_run_def)
  qed
  from episodes_accounted [OF this [unfolded demo_start_def]] s show ?thesis by blast
qed

end
