(* ===== verification/Queue_Bounds.thy ===== *)
theory Queue_Bounds
  imports Go_Prelude
begin

text \<open>
  Locating and streaming a queue, \<^verbatim>\<open>internal/bounds.go\<close> and \<^verbatim>\<open>internal/source.go\<close> of
  \<^verbatim>\<open>src/software/station/bin/dataset-generator\<close>. Three things of other repositories are
  arguments: the integers \<^verbatim>\<open>uintn.UintN\<close> of type \<open>'u\<close> with the operations the code calls
  (\<open>uintn_ops\<close>; a nil one is \<^term>\<open>None\<close>), the station client (\<open>client\<close>, which may answer
  every request, numbered by its first argument, differently), and the generated parsers
  of the entries' payloads. A loop that need not end is a partial function, and \<^term>\<open>None\<close>
  means that it does not return.
\<close>

section \<open>The outside world\<close>

record 'u uintn_ops =
  greater :: "'u \<Rightarrow> 'u \<Rightarrow> bool"
  less :: "'u \<Rightarrow> 'u \<Rightarrow> bool"
  equal :: "'u \<Rightarrow> 'u \<Rightarrow> bool"
  add :: "'u \<Rightarrow> 'u \<Rightarrow> 'u go"
  sub :: "'u \<Rightarrow> 'u \<Rightarrow> 'u go"
  fromU64 :: "uint64 \<Rightarrow> 'u"
  fromLEBytes :: "byte list \<Rightarrow> 'u go"
  isZero :: "'u option \<Rightarrow> bool go"
  showU :: "'u \<Rightarrow> string"

record 'u entry =
  entryId :: 'u
  entryData :: "byte list"

record 'u read_result =
  resData :: "'u entry list"
  resErr :: "string option"

type_synonym 'u client = "nat \<Rightarrow> string \<Rightarrow> 'u \<Rightarrow> nat \<Rightarrow> 'u read_result"
type_synonym rx_entry = "string \<times> byte list"

definition InferenceStatesQueue :: string where "InferenceStatesQueue = ''inference-states''"
definition searchStep :: nat where "searchStep = 10000"
definition readBatchSize :: nat where "readBatchSize = 10000"

record 'u QueueBounds =
  From :: 'u
  To :: 'u

section \<open>Matching\<close>

definition queueMatchesByPostfix :: "string \<Rightarrow> string \<Rightarrow> bool" where
  "queueMatchesByPostfix queueName targetQueue =
     (if queueName = targetQueue then True
      else let suffix = ''/'' @ targetQueue in
        length queueName > length suffix \<and>
        drop (length queueName - length suffix) queueName = suffix)"

text \<open>The inner loop over the entries of one inference state.\<close>

fun findQueue :: "'u uintn_ops \<Rightarrow> string \<Rightarrow> rx_entry list \<Rightarrow> 'u option go" where
  "findQueue ops targetQueue [] = Ret None"
| "findQueue ops targetQueue ((queueName, ptrBytes) # es) =
     (if queueMatchesByPostfix queueName targetQueue then
        (case fromLEBytes ops ptrBytes of
           Err e \<Rightarrow> Err (''failed to parse ptr for queue '' @ queueName @ '': '' @ e)
         | Panic \<Rightarrow> Panic
         | Ret ptr \<Rightarrow> Ret (Some ptr))
      else findQueue ops targetQueue es)"

definition tryFindQueueAtPtr ::
  "'u uintn_ops \<Rightarrow> 'u client \<Rightarrow> (byte list \<Rightarrow> rx_entry list option) \<Rightarrow> nat \<Rightarrow> 'u \<Rightarrow> string \<Rightarrow>
   'u option go" where
  "tryFindQueueAtPtr ops client parseRx k inferencePtr targetQueue =
     (let res = client k InferenceStatesQueue inferencePtr 1 in
      case resData res of
        [] \<Rightarrow> (case resErr res of
                Some e \<Rightarrow> Err (''failed to read inference-states: '' @ e)
              | None \<Rightarrow> Ret None)
      | entry # _ \<Rightarrow> (case parseRx (entryData entry) of
                None \<Rightarrow> Ret None
              | Some rx \<Rightarrow> findQueue ops targetQueue rx))"

section \<open>Searching forward\<close>

text \<open>The loop over one batch: the pointer found, or the last entry read.\<close>

fun scanForward ::
  "'u uintn_ops \<Rightarrow> (byte list \<Rightarrow> rx_entry list option) \<Rightarrow> string \<Rightarrow> 'u entry list \<Rightarrow> 'u option \<Rightarrow>
   ('u + 'u option) go" where
  "scanForward ops parseRx targetQueue [] lastPtr = Ret (Inr lastPtr)"
| "scanForward ops parseRx targetQueue (entry # es) lastPtr =
     (case parseRx (entryData entry) of
        None \<Rightarrow> scanForward ops parseRx targetQueue es (Some (entryId entry))
      | Some rx \<Rightarrow> go_bind (findQueue ops targetQueue rx) (\<lambda>found.
          case found of
            Some ptr \<Rightarrow> Ret (Inl ptr)
          | None \<Rightarrow> scanForward ops parseRx targetQueue es (Some (entryId entry))))"

definition notFound :: "'u uintn_ops \<Rightarrow> string \<Rightarrow> 'u \<Rightarrow> 'u \<Rightarrow> string" where
  "notFound ops targetQueue startPtr endPtr =
     ''target queue '' @ targetQueue @ '' not found between '' @ showU ops startPtr @ '' and '' @ showU ops endPtr"

partial_function (option) searchForward ::
  "'u uintn_ops \<Rightarrow> 'u client \<Rightarrow> (byte list \<Rightarrow> rx_entry list option) \<Rightarrow> nat \<Rightarrow> 'u \<Rightarrow> 'u \<Rightarrow> string \<Rightarrow> 'u \<Rightarrow>
   'u go option" where
  "searchForward ops client parseRx k startPtr endPtr targetQueue currentPtr =
     (if greater ops currentPtr endPtr \<or> equal ops currentPtr endPtr
      then Some (Err (notFound ops targetQueue startPtr endPtr))
      else (case scanForward ops parseRx targetQueue
                   (resData (client k InferenceStatesQueue currentPtr searchStep)) None of
          Err e \<Rightarrow> Some (Err e)
        | Panic \<Rightarrow> Some Panic
        | Ret (Inl ptr) \<Rightarrow> Some (Ret ptr)
        | Ret (Inr lastPtr) \<Rightarrow>
            (case resErr (client k InferenceStatesQueue currentPtr searchStep) of
               Some e \<Rightarrow> Some (Err (''failed to read inference-states: '' @ e))
             | None \<Rightarrow>
                 (case lastPtr of
                    None \<Rightarrow> Some (Err (''no entries found at pointer '' @ showU ops currentPtr))
                  | Some l \<Rightarrow>
                      (case add ops l (fromU64 ops 1) of
                         Err e \<Rightarrow> Some (Err (''failed to increment pointer: '' @ e))
                       | Panic \<Rightarrow> Some Panic
                       | Ret next \<Rightarrow>
                           searchForward ops client parseRx (Suc k) startPtr endPtr targetQueue next)))))"

definition searchForwardForQueue ::
  "'u uintn_ops \<Rightarrow> 'u client \<Rightarrow> (byte list \<Rightarrow> rx_entry list option) \<Rightarrow> 'u \<Rightarrow> 'u \<Rightarrow> string \<Rightarrow> 'u go option" where
  "searchForwardForQueue ops client parseRx startPtr endPtr targetQueue =
     searchForward ops client parseRx 1 startPtr endPtr targetQueue startPtr"

section \<open>Searching backward\<close>

text \<open>The inner loop keeps the last match of an inference state, and passes over a pointer that
  does not parse.\<close>

fun keepLast :: "'u uintn_ops \<Rightarrow> string \<Rightarrow> rx_entry list \<Rightarrow> 'u option \<Rightarrow> 'u option go" where
  "keepLast ops targetQueue [] found = Ret found"
| "keepLast ops targetQueue ((queueName, ptrBytes) # es) found =
     (if queueMatchesByPostfix queueName targetQueue then
        (case fromLEBytes ops ptrBytes of
           Err _ \<Rightarrow> keepLast ops targetQueue es found
         | Panic \<Rightarrow> Panic
         | Ret ptr \<Rightarrow> keepLast ops targetQueue es (Some ptr))
      else keepLast ops targetQueue es found)"

text \<open>The loop over one batch, with the match found so far and the last entry read.\<close>

fun scanBackward ::
  "'u uintn_ops \<Rightarrow> (byte list \<Rightarrow> rx_entry list option) \<Rightarrow> string \<Rightarrow> 'u \<Rightarrow> 'u entry list \<Rightarrow>
   'u option \<Rightarrow> 'u option \<Rightarrow> ('u option \<times> 'u option) go" where
  "scanBackward ops parseRx targetQueue currentPtr [] found lastEntry = Ret (found, lastEntry)"
| "scanBackward ops parseRx targetQueue currentPtr (entry # es) found lastEntry =
     (if greater ops (entryId entry) currentPtr then Ret (found, Some (entryId entry))
      else (case parseRx (entryData entry) of
          None \<Rightarrow> scanBackward ops parseRx targetQueue currentPtr es found (Some (entryId entry))
        | Some rx \<Rightarrow> go_bind (keepLast ops targetQueue rx found) (\<lambda>found.
            scanBackward ops parseRx targetQueue currentPtr es found (Some (entryId entry)))))"

definition batchStartOf :: "'u uintn_ops \<Rightarrow> 'u \<Rightarrow> 'u \<Rightarrow> 'u go" where
  "batchStartOf ops startPtr currentPtr =
     (case sub ops currentPtr (fromU64 ops (of_nat searchStep)) of
        Err _ \<Rightarrow> Ret startPtr
      | Panic \<Rightarrow> Panic
      | Ret stepPtr \<Rightarrow> Ret (if greater ops stepPtr startPtr then stepPtr else startPtr))"

text \<open>Where the search goes on when a batch had no match.\<close>

definition previousPtr :: "'u uintn_ops \<Rightarrow> 'u \<Rightarrow> 'u \<Rightarrow> 'u option \<Rightarrow> 'u go" where
  "previousPtr ops batchStart currentPtr lastEntry =
     go_bind (isZero ops lastEntry) (\<lambda>z.
       case lastEntry of
         Some l \<Rightarrow> if \<not> z \<and> less ops l currentPtr then Ret l else Ret batchStart
       | None \<Rightarrow> if z then Ret batchStart else Panic)"

partial_function (option) searchBackward ::
  "'u uintn_ops \<Rightarrow> 'u client \<Rightarrow> (byte list \<Rightarrow> rx_entry list option) \<Rightarrow> nat \<Rightarrow> 'u \<Rightarrow> 'u \<Rightarrow> string \<Rightarrow> 'u \<Rightarrow>
   'u go option" where
  "searchBackward ops client parseRx k startPtr endPtr targetQueue currentPtr =
     (if less ops currentPtr startPtr \<or> equal ops currentPtr startPtr
      then Some (Err (notFound ops targetQueue startPtr endPtr))
      else (case batchStartOf ops startPtr currentPtr of
          Err e \<Rightarrow> Some (Err e)
        | Panic \<Rightarrow> Some Panic
        | Ret batchStart \<Rightarrow>
            (case scanBackward ops parseRx targetQueue currentPtr
                    (resData (client k InferenceStatesQueue batchStart searchStep)) None None of
               Err e \<Rightarrow> Some (Err e)
             | Panic \<Rightarrow> Some Panic
             | Ret (found, lastEntry) \<Rightarrow>
                 (case resErr (client k InferenceStatesQueue batchStart searchStep) of
                    Some e \<Rightarrow> Some (Err (''failed to read inference-states: '' @ e))
                  | None \<Rightarrow>
                      (case found of
                         Some ptr \<Rightarrow> Some (Ret ptr)
                       | None \<Rightarrow>
                           (case previousPtr ops batchStart currentPtr lastEntry of
                              Err e \<Rightarrow> Some (Err e)
                            | Panic \<Rightarrow> Some Panic
                            | Ret next \<Rightarrow>
                                if equal ops next startPtr
                                then Some (Err (notFound ops targetQueue startPtr endPtr))
                                else searchBackward ops client parseRx (Suc k) startPtr endPtr
                                       targetQueue next))))))"

definition searchBackwardForQueue ::
  "'u uintn_ops \<Rightarrow> 'u client \<Rightarrow> (byte list \<Rightarrow> rx_entry list option) \<Rightarrow> 'u \<Rightarrow> 'u \<Rightarrow> string \<Rightarrow> 'u go option" where
  "searchBackwardForQueue ops client parseRx startPtr endPtr targetQueue =
     searchBackward ops client parseRx 1 startPtr endPtr targetQueue endPtr"

section \<open>Both bounds\<close>

text \<open>One goroutine: a look at the exact pointer, then the search. The two goroutines share
  nothing but the wait group, each has its own client answers.\<close>

definition boundOf ::
  "string \<Rightarrow> string \<Rightarrow> 'u option go \<Rightarrow> 'u go option \<Rightarrow> 'u go option" where
  "boundOf checkMsg searchMsg tried search =
     (case tried of
        Err e \<Rightarrow> Some (Err (checkMsg @ e))
      | Panic \<Rightarrow> Some Panic
      | Ret (Some ptr) \<Rightarrow> Some (Ret ptr)
      | Ret None \<Rightarrow> map_option (\<lambda>r. case r of Err e \<Rightarrow> Err (searchMsg @ e) | _ \<Rightarrow> r) search)"

definition FetchQueueBounds ::
  "'u uintn_ops \<Rightarrow> 'u client \<Rightarrow> 'u client \<Rightarrow> (byte list \<Rightarrow> rx_entry list option) \<Rightarrow> 'u \<Rightarrow> 'u \<Rightarrow> string \<Rightarrow>
   'u QueueBounds run" where
  "FetchQueueBounds ops clientFrom clientTo parseRx fromPtr toPtr targetQueue =
     Option.bind (boundOf ''failed to check 'from' bound: '' ''failed to search forward from 'from' bound: ''
        (tryFindQueueAtPtr ops clientFrom parseRx 0 fromPtr targetQueue)
        (searchForwardForQueue ops clientFrom parseRx fromPtr toPtr targetQueue)) (\<lambda>fromRes.
     Option.bind (boundOf ''failed to check 'to' bound: '' ''failed to search backward from 'to' bound: ''
        (tryFindQueueAtPtr ops clientTo parseRx 0 toPtr targetQueue)
        (searchBackwardForQueue ops clientTo parseRx fromPtr toPtr targetQueue)) (\<lambda>toRes.
     Some (case fromRes of
        Panic \<Rightarrow> Panic
      | Err e \<Rightarrow> if toRes = Panic then Panic else Err (''failed to fetch 'from' bound: '' @ e)
      | Ret f \<Rightarrow> (case toRes of
          Panic \<Rightarrow> Panic
        | Err e \<Rightarrow> Err (''failed to fetch 'to' bound: '' @ e)
        | Ret t \<Rightarrow> Ret \<lparr>From = f, To = t\<rparr>))))"

section \<open>Streaming\<close>

text \<open>
  The loop over one batch of \<^verbatim>\<open>StreamFrames\<close>: the frames sent, the cursor, and whether the
  end pointer was passed. \<open>parseFrame\<close> is \<^verbatim>\<open>Unmarshal\<close> of the generated frame reader.
\<close>

fun streamBatch ::
  "'u uintn_ops \<Rightarrow> (byte list \<Rightarrow> 'f option) \<Rightarrow> 'u \<Rightarrow> 'u entry list \<Rightarrow> 'u \<Rightarrow> 'f list \<Rightarrow> 'f list \<times> 'u \<times> bool" where
  "streamBatch ops parseFrame to [] cursor sent = (sent, cursor, False)"
| "streamBatch ops parseFrame to (entry # es) cursor sent =
     (if greater ops (entryId entry) to then (sent, cursor, True)
      else (case parseFrame (entryData entry) of
          None \<Rightarrow> streamBatch ops parseFrame to es cursor sent
        | Some frame \<Rightarrow> streamBatch ops parseFrame to es (entryId entry) (sent @ [frame])))"

text \<open>The producer: all frames sent to the channel, and the error sent at the end, if any.\<close>

partial_function (option) streamLoop ::
  "'u uintn_ops \<Rightarrow> 'u client \<Rightarrow> (byte list \<Rightarrow> 'f option) \<Rightarrow> string \<Rightarrow> 'u \<Rightarrow> nat \<Rightarrow> 'u \<Rightarrow> 'f list \<Rightarrow>
   ('f list \<times> string option) go option" where
  "streamLoop ops client parseFrame queue to k cursor sent =
     (case streamBatch ops parseFrame to (resData (client k queue cursor readBatchSize)) cursor sent of
        (sent', cursor', passed) \<Rightarrow>
          if passed then Some (Ret (sent', None))
          else (case resErr (client k queue cursor readBatchSize) of
            Some e \<Rightarrow> Some (Ret (sent', Some (''failed to read from queue '' @ queue @ '': '' @ e)))
          | None \<Rightarrow>
              if length (resData (client k queue cursor readBatchSize)) < readBatchSize
              then Some (Ret (sent', None))
              else if greater ops cursor' to \<or> equal ops cursor' to then Some (Ret (sent', None))
              else (case add ops cursor' (fromU64 ops 1) of
                  Err e \<Rightarrow> Some (Ret (sent', Some (''failed to increment cursor: '' @ e)))
                | Panic \<Rightarrow> Some Panic
                | Ret next \<Rightarrow> streamLoop ops client parseFrame queue to (Suc k) next sent')))"

definition StreamFrames ::
  "'u uintn_ops \<Rightarrow> 'u client \<Rightarrow> (byte list \<Rightarrow> 'f option) \<Rightarrow> string \<Rightarrow> 'u QueueBounds \<Rightarrow>
   ('f list \<times> string option) run" where
  "StreamFrames ops client parseFrame queue bounds =
     streamLoop ops client parseFrame queue (To bounds) 0 (From bounds) []"

section \<open>What the code relies on\<close>

text \<open>The integers behave as unbounded naturals: \<open>val\<close> is the number they stand for.\<close>

definition uintn_ok :: "'u uintn_ops \<Rightarrow> ('u \<Rightarrow> nat) \<Rightarrow> bool" where
  "uintn_ok ops val \<longleftrightarrow>
     (\<forall>a b. greater ops a b \<longleftrightarrow> val b < val a) \<and>
     (\<forall>a b. less ops a b \<longleftrightarrow> val a < val b) \<and>
     (\<forall>a b. equal ops a b \<longleftrightarrow> val a = val b) \<and>
     (\<forall>a b. \<exists>c. add ops a b = Ret c \<and> val c = val a + val b) \<and>
     (\<forall>a b. if val b \<le> val a then \<exists>c. sub ops a b = Ret c \<and> val c = val a - val b
            else \<exists>e. sub ops a b = Err e) \<and>
     (\<forall>n. val (fromU64 ops n) = unat n) \<and>
     (\<forall>a. isZero ops (Some a) = Ret (val a = 0))"

text \<open>The client serves a queue held in order: a read returns the first \<open>limit\<close> entries from the
  given position on.\<close>

definition serves :: "('u \<Rightarrow> nat) \<Rightarrow> 'u client \<Rightarrow> string \<Rightarrow> 'u entry list \<Rightarrow> bool" where
  "serves val client queue store \<longleftrightarrow>
     sorted_wrt (<) (map (\<lambda>e. val (entryId e)) store) \<and>
     (\<forall>k off limit. client k queue off limit =
        \<lparr>resData = take limit (filter (\<lambda>e. val off \<le> val (entryId e)) store), resErr = None\<rparr>)"

definition nat_ops :: "nat uintn_ops" where
  "nat_ops = \<lparr>greater = (>), less = (<), equal = (=), add = (\<lambda>a b. Ret (a + b)),
     sub = (\<lambda>a b. if b \<le> a then Ret (a - b) else Err ''underflow''), fromU64 = unat,
     fromLEBytes = (\<lambda>bs. Ret (foldr (\<lambda>b n. unat b + 256 * n) bs 0)),
     isZero = (\<lambda>a. case a of None \<Rightarrow> Panic | Some n \<Rightarrow> Ret (n = 0)), showU = show_nat\<rparr>"

definition list_client :: "nat entry list \<Rightarrow> nat client" where
  "list_client store k queue off limit =
     \<lparr>resData = take limit (filter (\<lambda>e. off \<le> entryId e) store), resErr = None\<rparr>"

lemma nat_ops_ok: "uintn_ok nat_ops (\<lambda>n. n)"
  by (simp add: uintn_ok_def nat_ops_def)

lemma list_client_serves:
  "sorted_wrt (<) (map entryId store) \<Longrightarrow> serves (\<lambda>n. n) (list_client store) queue store"
  by (simp add: serves_def list_client_def)

end
