(* ===== verification/Queue_Properties.thy ===== *)
theory Queue_Properties
  imports Queue_Bounds
begin

text \<open>
  What locating and streaming a queue guarantees, against the documented behaviour of the
  integers and of the station client (\<open>uintn_ok\<close>, \<open>serves\<close>): the backward search always
  returns and finds the last entry that names the queue, the forward search the first, and
  streaming delivers every frame between the bounds exactly once and in order.
\<close>

section \<open>Integers, batches and matching\<close>

lemma postfix_iff: "queueMatchesByPostfix q t \<longleftrightarrow> q = t \<or> (\<exists>p. p \<noteq> [] \<and> q = p @ ''/'' @ t)"
proof -
  have "drop (length q - length s) q = s \<and> length s < length q \<longleftrightarrow> (\<exists>p. p \<noteq> [] \<and> q = p @ s)" for s :: string
  proof
    assume a: "drop (length q - length s) q = s \<and> length s < length q"
    let ?p = "take (length q - length s) q"
    have "q = ?p @ s" using a by (metis append_take_drop_id)
    moreover have "?p \<noteq> []" using a by auto
    ultimately show "\<exists>p. p \<noteq> [] \<and> q = p @ s" by blast
  qed auto
  from this [of "''/'' @ t"] show ?thesis by (auto simp: queueMatchesByPostfix_def Let_def)
qed

lemma uintn_simps:
  assumes "uintn_ok ops val"
  shows "greater ops a b \<longleftrightarrow> val b < val a" "less ops a b \<longleftrightarrow> val a < val b"
    "equal ops a b \<longleftrightarrow> val a = val b" "val (fromU64 ops n) = unat n" "isZero ops (Some a) = Ret (val a = 0)"
  using assms by (simp_all add: uintn_ok_def)

lemma uintn_add:
  assumes "uintn_ok ops val"
  obtains c where "add ops a b = Ret c" "val c = val a + val b"
  using assms unfolding uintn_ok_def by blast

lemma batchStart_bounds:
  assumes "uintn_ok ops val" and "val startPtr < val cur"
  obtains b where "batchStartOf ops startPtr cur = Ret b" "val startPtr \<le> val b" "val b < val cur"
    "val cur \<le> val b + searchStep"
proof -
  have n: "val (fromU64 ops (of_nat searchStep)) = 10000"
    using assms(1) by (simp add: uintn_simps searchStep_def unat_of_nat)
  show thesis
  proof (cases "10000 \<le> val cur")
    case True
    then obtain c where "sub ops cur (fromU64 ops (of_nat searchStep)) = Ret c" "val c = val cur - 10000"
      using assms(1) n unfolding uintn_ok_def by metis
    then show thesis
      using that [of c] that [of startPtr] assms True
      by (cases "val startPtr < val c") (simp_all add: batchStartOf_def uintn_simps searchStep_def)
  next
    case False
    then obtain e where "sub ops cur (fromU64 ops (of_nat searchStep)) = Err e"
      using assms(1) n unfolding uintn_ok_def by metis
    then show thesis
      using that [of startPtr] assms False by (auto simp: batchStartOf_def searchStep_def)
  qed
qed

lemma previousPtr_decreases:
  assumes "uintn_ok ops val" and "val b < val cur" and "previousPtr ops b cur l = Ret next"
  shows "val next < val cur"
  using assms by (auto simp: previousPtr_def go_bind_Ret_iff uintn_simps split: option.splits if_splits)

text \<open>An answer without entries and without an error.\<close>

definition empty_answer :: "'u read_result \<Rightarrow> bool" where
  "empty_answer res \<longleftrightarrow> resData res = [] \<and> resErr res = None"

lemma keepLast_Panic: "keepLast ops t rx found = Panic \<Longrightarrow> \<exists>bs. fromLEBytes ops bs = Panic"
  by (induction rx arbitrary: found) (auto split: if_splits go.splits)

lemma scanBackward_Panic: "scanBackward ops parseRx t cur es found l = Panic \<Longrightarrow> \<exists>bs. fromLEBytes ops bs = Panic"
proof (induction es arbitrary: found l)
  case (Cons e es)
  show ?case
  proof (cases "greater ops (entryId e) cur \<or> parseRx (entryData e) = None")
    case True
    then show ?thesis using Cons by (auto split: if_splits)
  next
    case False
    then obtain rx where rx: "parseRx (entryData e) = Some rx" "\<not> greater ops (entryId e) cur" by blast
    then show ?thesis
      using Cons keepLast_Panic [of ops t rx found] by (cases "keepLast ops t rx found") auto
  qed
qed simp

lemma scanBackward_unread: "scanBackward ops parseRx t cur es found l = Ret (f, None) \<Longrightarrow> es = [] \<and> l = None"
  by (induction es arbitrary: found l) (auto simp: go_bind_Ret_iff split: if_splits option.splits)

lemma previousPtr_Panic:
  assumes "uintn_ok ops val" and "previousPtr ops b cur l = Panic"
  shows "l = None"
  using assms by (cases l) (simp_all add: previousPtr_def uintn_simps split: if_splits)

text \<open>Every search returns; a panic comes from the parser of the pointers, or from a batch without an entry.\<close>

lemma searchBackward_returns:
  assumes "uintn_ok ops val"
  shows "\<exists>r. searchBackward ops client parseRx k startPtr endPtr t cur = Some r \<and>
    (r = Panic \<longrightarrow> (\<exists>bs. fromLEBytes ops bs = Panic) \<or>
      (\<exists>i off. val startPtr \<le> val off \<and> val off < val cur \<and> empty_answer (client i InferenceStatesQueue off searchStep)))"
proof (induction "val cur" arbitrary: cur k rule: less_induct)
  case less
  let ?ok = "\<lambda>cur r. r = Panic \<longrightarrow> (\<exists>bs. fromLEBytes ops bs = Panic) \<or>
      (\<exists>i off. val startPtr \<le> val off \<and> val off < val cur \<and> empty_answer (client i InferenceStatesQueue off searchStep))"
  show ?case
  proof (cases "val cur \<le> val startPtr")
    case True
    then show ?thesis
      using assms by (subst searchBackward.simps) (auto simp: uintn_simps le_less)
  next
    case False
    then have "val startPtr < val cur" by simp
    from batchStart_bounds [OF assms this] obtain b
      where b: "batchStartOf ops startPtr cur = Ret b" "val startPtr \<le> val b" "val b < val cur" by metis
    let ?res = "client k InferenceStatesQueue b searchStep"
    have next_round: "\<exists>r. searchBackward ops client parseRx (Suc k) startPtr endPtr t next = Some r \<and> ?ok cur r"
      if "previousPtr ops b cur l = Ret next" for l "next"
      using less [OF previousPtr_decreases [OF assms b(3) that], of "Suc k"] previousPtr_decreases [OF assms b(3) that]
      by (meson less_trans)
    have start: "\<not> (less ops cur startPtr \<or> equal ops cur startPtr)"
      using False assms by (simp add: uintn_simps)
    show ?thesis
    proof (cases "scanBackward ops parseRx t cur (resData ?res) None None")
      case (Err e)
      then show ?thesis by (subst searchBackward.simps) (simp add: start b(1))
    next
      case Panic
      then show ?thesis using scanBackward_Panic [OF Panic] by (subst searchBackward.simps) (simp add: start b(1))
    next
      case (Ret fl)
      obtain found l where fl: "fl = (found, l)" by (cases fl)
      have "?ok cur Panic" if "resErr ?res = None" "previousPtr ops b cur l = Panic"
        using that scanBackward_unread [OF Ret [unfolded fl, unfolded previousPtr_Panic [OF assms that(2)]]] b(2,3)
        by (auto simp: empty_answer_def)
      then show ?thesis
        using next_round by (subst searchBackward.simps) (auto simp: start b(1) Ret fl split: go.splits option.splits)
    qed
  qed
qed

text \<open>On a nil last entry the source calls \<^verbatim>\<open>IsZero\<close>.\<close>

lemma searchBackward_empty:
  assumes "uintn_ok ops val" and "isZero ops None = Panic" and "val startPtr < val cur"
    and "batchStartOf ops startPtr cur = Ret b" and "empty_answer (client k InferenceStatesQueue b searchStep)"
  shows "searchBackward ops client parseRx k startPtr endPtr t cur = Some Panic"
  using assms by (subst searchBackward.simps) (simp add: uintn_simps empty_answer_def previousPtr_def)

section \<open>What the backward search finds\<close>

text \<open>The pointer an inference state holds for the target queue: the last one that parses.\<close>

fun ptr_in :: "'u uintn_ops \<Rightarrow> string \<Rightarrow> rx_entry list \<Rightarrow> 'u option" where
  "ptr_in ops t [] = None"
| "ptr_in ops t ((q, bs) # es) =
     (case ptr_in ops t es of
        Some p \<Rightarrow> Some p
      | None \<Rightarrow> if queueMatchesByPostfix q t then (case fromLEBytes ops bs of Ret p \<Rightarrow> Some p | _ \<Rightarrow> None) else None)"

definition entry_ptr ::
  "'u uintn_ops \<Rightarrow> (byte list \<Rightarrow> rx_entry list option) \<Rightarrow> string \<Rightarrow> 'u entry \<Rightarrow> 'u option" where
  "entry_ptr ops parseRx t e = Option.bind (parseRx (entryData e)) (ptr_in ops t)"

fun last_ptr ::
  "'u uintn_ops \<Rightarrow> (byte list \<Rightarrow> rx_entry list option) \<Rightarrow> string \<Rightarrow> 'u entry list \<Rightarrow> 'u option" where
  "last_ptr ops parseRx t [] = None"
| "last_ptr ops parseRx t (e # es) =
     (case last_ptr ops parseRx t es of Some p \<Rightarrow> Some p | None \<Rightarrow> entry_ptr ops parseRx t e)"

lemma last_ptr_append:
  "last_ptr ops parseRx t (xs @ ys) =
     (case last_ptr ops parseRx t ys of Some p \<Rightarrow> Some p | None \<Rightarrow> last_ptr ops parseRx t xs)"
  by (induction xs) (auto split: option.splits)

lemma last_ptr_None: "last_ptr ops parseRx t es = None \<longleftrightarrow> (\<forall>e \<in> set es. entry_ptr ops parseRx t e = None)"
  by (induction es) (auto split: option.splits)

lemma keepLast_spec:
  assumes "\<And>bs. fromLEBytes ops bs \<noteq> Panic"
  shows "keepLast ops t rx found =
    Ret (case ptr_in ops t rx of Some p \<Rightarrow> Some p | None \<Rightarrow> found)"
proof (induction rx arbitrary: found)
  case (Cons x rx)
  then show ?case
    using assms [of "snd x"] by (cases x) (auto split: option.splits go.splits)
qed simp

lemma scanBackward_below:
  assumes "uintn_ok ops val" and "\<And>bs. fromLEBytes ops bs \<noteq> Panic"
    and "\<forall>e \<in> set xs. val (entryId e) \<le> val cur"
  shows "scanBackward ops parseRx t cur (xs @ ys) found l =
    scanBackward ops parseRx t cur ys
      (case last_ptr ops parseRx t xs of Some p \<Rightarrow> Some p | None \<Rightarrow> found)
      (if xs = [] then l else Some (entryId (last xs)))"
  using assms(3)
proof (induction xs arbitrary: found l)
  case (Cons x xs)
  then show ?case
    using assms(1,2)
    by (auto simp: uintn_simps entry_ptr_def keepLast_spec split: option.splits)
qed simp

lemma sorted_filter_split:
  assumes "sorted_wrt (<) (map f xs)" and "a \<le> b" and "b \<le> c"
  shows "filter (\<lambda>x. a \<le> f x \<and> f x < c) xs =
    filter (\<lambda>x. a \<le> f x \<and> f x < b) xs @ filter (\<lambda>x. b \<le> f x \<and> f x < (c :: nat)) xs"
  using assms(1)
proof (induction xs)
  case (Cons x xs)
  have "filter (\<lambda>x. a \<le> f x \<and> f x < b) xs = []" if "b \<le> f x"
    using Cons.prems that by (auto simp: filter_empty_conv)
  then show ?case using Cons assms(2,3) by auto
qed simp

lemma sorted_filter_from:
  assumes "sorted_wrt (<) (map f xs)" and "a \<le> b"
  shows "filter (\<lambda>x. a \<le> f x) xs =
    filter (\<lambda>x. a \<le> f x \<and> f x < b) xs @ filter (\<lambda>x. b \<le> (f x :: nat)) xs"
  using assms(1)
proof (induction xs)
  case (Cons x xs)
  have "filter (\<lambda>x. a \<le> f x \<and> f x < b) xs = []" if "b \<le> f x"
    using Cons.prems that by (auto simp: filter_empty_conv)
  then show ?case using Cons assms(2) by auto
qed simp

lemma sorted_filter_length:
  assumes "sorted_wrt (<) (map f xs)"
  shows "length (filter (\<lambda>x. a \<le> f x \<and> f x < (b :: nat)) xs) \<le> b - a"
proof -
  let ?A = "filter (\<lambda>x. a \<le> f x \<and> f x < b) xs"
  have "sorted_wrt (<) (map f ?A)"
    using assms by (induction xs) auto
  then have "distinct (map f ?A)" by (simp add: strict_sorted_iff)
  from distinct_card [OF this] have "length ?A = card (f ` set ?A)" by simp
  also have "\<dots> \<le> card {a..<b}" by (rule card_mono) auto
  finally show ?thesis by simp
qed

lemma scanBackward_above:
  assumes ok: "uintn_ok ops val" "\<And>bs. fromLEBytes ops bs \<noteq> Panic"
    and "\<forall>e \<in> set es. val cur \<le> val (entryId e) \<and>
      (val (entryId e) = val cur \<longrightarrow> entry_ptr ops parseRx t e = None)"
  shows "\<exists>l'. scanBackward ops parseRx t cur es found l = Ret (found, l') \<and>
    (es = [] \<and> l' = l \<or> (\<exists>x. l' = Some x \<and> val cur \<le> val x))"
  using assms(3)
proof (induction es arbitrary: l)
  case (Cons e es)
  show ?case
  proof (cases "val cur < val (entryId e)")
    case True
    then show ?thesis using ok(1) by (simp add: uintn_simps)
  next
    case False
    then have e: "val (entryId e) = val cur" "entry_ptr ops parseRx t e = None"
      using Cons.prems by auto
    have "scanBackward ops parseRx t cur (e # es) found l =
        scanBackward ops parseRx t cur es found (Some (entryId e))"
      using e ok by (auto simp: uintn_simps entry_ptr_def keepLast_spec split: option.splits)
    moreover obtain l' where
      "scanBackward ops parseRx t cur es found (Some (entryId e)) = Ret (found, l')"
      "es = [] \<and> l' = Some (entryId e) \<or> (\<exists>x. l' = Some x \<and> val cur \<le> val x)"
      using Cons.IH [of "Some (entryId e)"] Cons.prems by auto
    ultimately show ?thesis using e(1) by auto
  qed
qed simp

text \<open>One batch of the backward search over a served queue.\<close>

lemma scanBackward_batch:
  assumes ok: "uintn_ok ops val" "\<And>bs. fromLEBytes ops bs \<noteq> Panic"
    and srt: "sorted_wrt (<) (map (\<lambda>e. val (entryId e)) store)"
    and b: "val b < val cur" "val cur \<le> val b + searchStep"
    and none: "\<And>e. e \<in> set store \<Longrightarrow> val (entryId e) = val cur \<Longrightarrow> entry_ptr ops parseRx t e = None"
    and top: "\<exists>e \<in> set store. val cur \<le> val (entryId e)"
  defines "A \<equiv> filter (\<lambda>e. val b \<le> val (entryId e) \<and> val (entryId e) < val cur) store"
  shows "\<exists>l. scanBackward ops parseRx t cur
      (take searchStep (filter (\<lambda>e. val b \<le> val (entryId e)) store)) None None =
        Ret (last_ptr ops parseRx t A, Some l) \<and>
      (val cur \<le> val l \<or> (\<exists>e \<in> set A. l = entryId e \<and> A \<noteq> [] \<and> e = last A))"
proof -
  let ?C = "filter (\<lambda>e. val cur \<le> val (entryId e)) store"
  have lenA: "length A \<le> searchStep"
    using sorted_filter_length [OF srt, of "val b" "val cur"] b by (simp add: A_def)
  have "filter (\<lambda>e. val b \<le> val (entryId e)) store = A @ ?C"
    using sorted_filter_from [OF srt, of "val b" "val cur"] b(1) by (simp add: A_def)
  then have batch: "take searchStep (filter (\<lambda>e. val b \<le> val (entryId e)) store) =
      A @ take (searchStep - length A) ?C"
    using lenA by simp
  have below: "\<forall>e \<in> set A. val (entryId e) \<le> val cur" by (simp add: A_def)
  define D where "D = take (searchStep - length A) ?C"
  define l0 where "l0 = (if A = [] then None else Some (entryId (last A)))"
  have scan: "scanBackward ops parseRx t cur (A @ D) None None =
      scanBackward ops parseRx t cur D (last_ptr ops parseRx t A) l0"
    using scanBackward_below [OF ok below, of parseRx t D None None]
    by (simp add: l0_def split: option.splits)
  have "\<forall>e \<in> set D. val cur \<le> val (entryId e) \<and>
      (val (entryId e) = val cur \<longrightarrow> entry_ptr ops parseRx t e = None)"
    using none by (auto simp: D_def dest!: in_set_takeD)
  from scanBackward_above [OF ok this, of "last_ptr ops parseRx t A" l0]
  obtain l' where l': "scanBackward ops parseRx t cur D (last_ptr ops parseRx t A) l0 =
      Ret (last_ptr ops parseRx t A, l')"
    "D = [] \<and> l' = l0 \<or> (\<exists>x. l' = Some x \<and> val cur \<le> val x)" by blast
  have "A \<noteq> []" if "D = []"
    using that top by (auto simp: D_def filter_empty_conv searchStep_def)
  then show ?thesis
    using scan batch l' by (auto simp: D_def l0_def)
qed

lemma searchBackward_finds:
  assumes ok: "uintn_ok ops val" "\<And>bs. fromLEBytes ops bs \<noteq> Panic"
    and srv: "serves val client InferenceStatesQueue store"
    and top: "\<exists>e \<in> set store. val (entryId e) = val endPtr"
    and none: "\<And>e. e \<in> set store \<Longrightarrow> val cur \<le> val (entryId e) \<Longrightarrow> val (entryId e) \<le> val endPtr \<Longrightarrow>
      entry_ptr ops parseRx t e = None"
    and cur: "val cur \<le> val endPtr"
  shows "searchBackward ops client parseRx k startPtr endPtr t cur =
    Some (case last_ptr ops parseRx t
        (filter (\<lambda>e. val startPtr \<le> val (entryId e) \<and> val (entryId e) < val cur) store) of
      None \<Rightarrow> Err (notFound ops t startPtr endPtr)
    | Some p \<Rightarrow> Ret p)"
  using none cur
proof (induction "val cur" arbitrary: cur k rule: less_induct)
  case less
  have srt: "sorted_wrt (<) (map (\<lambda>e. val (entryId e)) store)" using srv by (simp add: serves_def)
  show ?case
  proof (cases "val cur \<le> val startPtr")
    case True
    then have "filter (\<lambda>e. val startPtr \<le> val (entryId e) \<and> val (entryId e) < val cur) store = []"
      by (auto simp: filter_empty_conv)
    with True show ?thesis
      using ok(1) by (subst searchBackward.simps) (auto simp: uintn_simps le_less)
  next
    case False
    then have sc: "val startPtr < val cur" by simp
    obtain b where b: "batchStartOf ops startPtr cur = Ret b" "val startPtr \<le> val b" "val b < val cur"
      "val cur \<le> val b + searchStep"
      by (rule batchStart_bounds [OF ok(1) sc])
    define A where "A = filter (\<lambda>e. val b \<le> val (entryId e) \<and> val (entryId e) < val cur) store"
    have nn: "entry_ptr ops parseRx t e = None" if "e \<in> set store" "val (entryId e) = val cur" for e
      using less.prems that by simp
    have tp: "\<exists>e \<in> set store. val cur \<le> val (entryId e)" using top less.prems(2) by metis
    obtain l where l: "scanBackward ops parseRx t cur
        (take searchStep (filter (\<lambda>e. val b \<le> val (entryId e)) store)) None None =
          Ret (last_ptr ops parseRx t A, Some l)"
      "val cur \<le> val l \<or> (\<exists>e \<in> set A. l = entryId e)"
      using scanBackward_batch [OF ok srt b(3,4) nn tp] by (fastforce simp: A_def)
    have split: "filter (\<lambda>e. val startPtr \<le> val (entryId e) \<and> val (entryId e) < val cur) store =
        filter (\<lambda>e. val startPtr \<le> val (entryId e) \<and> val (entryId e) < val x) store @
        filter (\<lambda>e. val x \<le> val (entryId e) \<and> val (entryId e) < val cur) store"
      if "val startPtr \<le> val x" "val x \<le> val cur" for x
      using sorted_filter_split [OF srt that] .
    show ?thesis
    proof (cases "last_ptr ops parseRx t A")
      case (Some p)
      then show ?thesis
        using sc b l ok(1) srv split [of b]
        by (subst searchBackward.simps) (simp add: uintn_simps serves_def A_def last_ptr_append)
    next
      case None
      define nx where "nx = (if val l \<noteq> 0 \<and> val l < val cur then l else b)"
      have prev: "previousPtr ops b cur (Some l) = Ret nx"
        using ok(1) by (simp add: previousPtr_def uintn_simps nx_def)
      have nx: "val b \<le> val nx" "val nx < val cur"
        using l(2) b(3) by (auto simp: nx_def A_def)
      have noneA: "last_ptr ops parseRx t
          (filter (\<lambda>e. val nx \<le> val (entryId e) \<and> val (entryId e) < val cur) store) = None"
        using None nx(1) by (auto simp: last_ptr_None A_def)
      have eq: "last_ptr ops parseRx t
          (filter (\<lambda>e. val startPtr \<le> val (entryId e) \<and> val (entryId e) < val cur) store) =
        last_ptr ops parseRx t
          (filter (\<lambda>e. val startPtr \<le> val (entryId e) \<and> val (entryId e) < val nx) store)"
        using split [of nx] nx b(2) noneA by (simp add: last_ptr_append)
      have step: "searchBackward ops client parseRx k startPtr endPtr t cur =
          (if val nx = val startPtr then Some (Err (notFound ops t startPtr endPtr))
           else searchBackward ops client parseRx (Suc k) startPtr endPtr t nx)"
        using sc b(1) l(1) ok(1) srv None prev
        by (subst searchBackward.simps) (simp add: uintn_simps serves_def)
      have "entry_ptr ops parseRx t e = None"
        if "e \<in> set store" "val nx \<le> val (entryId e)" "val (entryId e) \<le> val endPtr" for e
        using that noneA less.prems(1) [of e] by (cases "val cur \<le> val (entryId e)") (auto simp: last_ptr_None)
      then have ih: "searchBackward ops client parseRx (Suc k) startPtr endPtr t nx =
          Some (case last_ptr ops parseRx t
            (filter (\<lambda>e. val startPtr \<le> val (entryId e) \<and> val (entryId e) < val nx) store) of
          None \<Rightarrow> Err (notFound ops t startPtr endPtr) | Some p \<Rightarrow> Ret p)"
        using less.hyps [of nx] nx less.prems(2) by simp
      show ?thesis
      proof (cases "val nx = val startPtr")
        case True
        then have "filter (\<lambda>e. val startPtr \<le> val (entryId e) \<and> val (entryId e) < val nx) store = []"
          by (auto simp: filter_empty_conv)
        with True step eq show ?thesis by simp
      next
        case False
        with step ih eq show ?thesis by simp
      qed
    qed
  qed
qed

section \<open>What streaming delivers\<close>

fun frames_of :: "(byte list \<Rightarrow> 'f option) \<Rightarrow> 'u entry list \<Rightarrow> 'f list" where
  "frames_of parseFrame [] = []"
| "frames_of parseFrame (e # es) =
     (case parseFrame (entryData e) of None \<Rightarrow> [] | Some f \<Rightarrow> [f]) @ frames_of parseFrame es"

lemma frames_of_append [simp]: "frames_of pf (xs @ ys) = frames_of pf xs @ frames_of pf ys"
  by (induction xs) (simp_all split: option.splits)

lemma frames_of_filter:
  "(\<And>e. e \<in> set es \<Longrightarrow> \<not> P e \<Longrightarrow> parseFrame (entryData e) = None) \<Longrightarrow>
   frames_of parseFrame (filter P es) = frames_of parseFrame es"
  by (induction es) auto

text \<open>A batch that stays below the end pointer: the cursor becomes the last entry that parses.\<close>

lemma streamBatch_below:
  assumes "uintn_ok ops val" and "\<forall>e \<in> set es. val (entryId e) \<le> val to"
    and "sorted_wrt (<) (map (\<lambda>e. val (entryId e)) es)" and "\<forall>e \<in> set es. val cursor \<le> val (entryId e)"
  shows "\<exists>c. streamBatch ops pf to es cursor sent = (sent @ frames_of pf es, c, False) \<and>
    (c = cursor \<or> c \<in> entryId ` set es) \<and>
    (\<forall>e \<in> set es. pf (entryData e) \<noteq> None \<longrightarrow> val (entryId e) \<le> val c)"
  using assms(2-4)
proof (induction es arbitrary: cursor sent)
  case (Cons e es)
  show ?case
  proof (cases "pf (entryData e)")
    case None
    then obtain c where c: "streamBatch ops pf to es cursor sent = (sent @ frames_of pf es, c, False)"
      "c = cursor \<or> c \<in> entryId ` set es"
      "\<forall>e \<in> set es. pf (entryData e) \<noteq> None \<longrightarrow> val (entryId e) \<le> val c"
      using Cons.IH [of cursor sent] Cons.prems by auto
    then show ?thesis using None Cons.prems assms(1) by (auto simp: uintn_simps)
  next
    case (Some f)
    obtain c where c: "streamBatch ops pf to es (entryId e) (sent @ [f]) =
        ((sent @ [f]) @ frames_of pf es, c, False)"
      "c = entryId e \<or> c \<in> entryId ` set es"
      "\<forall>e \<in> set es. pf (entryData e) \<noteq> None \<longrightarrow> val (entryId e) \<le> val c"
      using Cons.IH [of "entryId e" "sent @ [f]"] Cons.prems by (auto simp: less_imp_le)
    have "val (entryId e) \<le> val c"
      using c(2) Cons.prems(2) by (auto simp: less_imp_le)
    then show ?thesis using Some c Cons.prems assms(1) by (auto simp: uintn_simps)
  qed
qed simp

text \<open>A batch that passes the end pointer.\<close>

lemma streamBatch_passes:
  assumes "uintn_ok ops val" and "\<forall>e \<in> set es. val (entryId e) \<le> val to" and "val to < val (entryId x)"
  shows "\<exists>c. streamBatch ops pf to (es @ x # ys) cursor sent = (sent @ frames_of pf es, c, True)"
  using assms(2)
proof (induction es arbitrary: cursor sent)
  case Nil
  then show ?case using assms(1,3) by (simp add: uintn_simps)
next
  case (Cons e es)
  then show ?case
    using assms(1) Cons.IH [of "entryId e" "sent @ [the (pf (entryData e))]"]
    by (cases "pf (entryData e)") (simp_all add: uintn_simps)
qed

lemma sorted_split_above:
  assumes "sorted_wrt (<) (map f xs)" and "x \<in> set xs" and "(to :: nat) < f x"
  shows "\<exists>as y bs. xs = as @ y # bs \<and> (\<forall>a \<in> set as. f a \<le> to) \<and> to < f y \<and> (\<forall>b \<in> set bs. to < f b)"
proof -
  have "\<exists>as y bs. xs = as @ y # bs \<and> (\<forall>a \<in> set as. \<not> to < f a) \<and> to < f y"
    using split_list_first_prop [of xs "\<lambda>x. to < f x"] assms(2,3) by blast
  then obtain as y bs where s: "xs = as @ y # bs" "\<forall>a \<in> set as. \<not> to < f a" "to < f y" by blast
  then have "\<forall>b \<in> set bs. to < f b"
    using assms(1) by (auto simp: sorted_wrt_append)
  with s show ?thesis by (metis not_less)
qed

lemma sorted_filter [simp]:
  "sorted_wrt (<) (map f xs) \<Longrightarrow> sorted_wrt (<) (map f (filter P xs))"
  by (induction xs) auto

lemma sorted_take [simp]:
  "sorted_wrt (<) (map f xs) \<Longrightarrow> sorted_wrt (<) (map f (take n xs))"
  by (simp add: sorted_wrt_take take_map [symmetric])

lemma stream_served:
  assumes ok: "uintn_ok ops val" and srv: "serves val client queue store"
    and bound: "\<forall>e \<in> set store. val (entryId e) < m"
  shows "streamLoop ops client pf queue to k cursor sent =
    Some (Ret (sent @ frames_of pf
      (filter (\<lambda>e. val cursor \<le> val (entryId e) \<and> val (entryId e) \<le> val to) store), None))"
proof (induction "m - val cursor" arbitrary: cursor k sent rule: less_induct)
  case less
  let ?id = "\<lambda>e. val (entryId e)"
  define R where "R = filter (\<lambda>e. val cursor \<le> ?id e) store"
  have cl: "client k queue cursor readBatchSize = \<lparr>resData = take readBatchSize R, resErr = None\<rparr>"
    using srv by (simp add: serves_def R_def)
  have srt: "sorted_wrt (<) (map ?id R)"
    using srv by (simp add: serves_def R_def)
  have goal: "filter (\<lambda>e. val cursor \<le> ?id e \<and> ?id e \<le> val to) store = filter (\<lambda>e. ?id e \<le> val to) R"
    by (simp add: R_def conj_commute)
  define B where "B = take readBatchSize R"
  define D where "D = drop readBatchSize R"
  have RBD: "R = B @ D" by (simp add: B_def D_def)
  have srtB: "sorted_wrt (<) (map ?id B)" using srt by (simp add: B_def)
  have BD: "?id b < ?id d" if "b \<in> set B" "d \<in> set D" for b d
    using srt that unfolding RBD by (auto simp: sorted_wrt_append)
  show ?case
  proof (cases "\<exists>x \<in> set B. val to < ?id x")
    case True
    then obtain x where "x \<in> set B" "val to < ?id x" by blast
    from sorted_split_above [OF srtB this] obtain as y bs where s: "B = as @ y # bs" "\<forall>a \<in> set as. ?id a \<le> val to" "val to < ?id y"
      "\<forall>b \<in> set bs. val to < ?id b"
      by blast
    have "filter (\<lambda>e. ?id e \<le> val to) D = []"
      using BD [of y] s by (fastforce simp: filter_empty_conv)
    moreover have "filter (\<lambda>e. ?id e \<le> val to) bs = []"
      using s(4) by (fastforce simp: filter_empty_conv)
    ultimately have "filter (\<lambda>e. ?id e \<le> val to) R = as"
      using s by (simp add: RBD)
    moreover obtain c where "streamBatch ops pf to B cursor sent = (sent @ frames_of pf as, c, True)"
      using streamBatch_passes [OF ok s(2,3)] s(1) by blast
    ultimately show ?thesis
      by (subst streamLoop.simps) (simp add: cl B_def [symmetric] goal)
  next
    case False
    then have le: "\<forall>e \<in> set B. ?id e \<le> val to" by (simp add: not_less)
    have ge: "\<forall>e \<in> set B. val cursor \<le> ?id e" by (auto simp: B_def R_def dest: in_set_takeD)
    obtain c where c: "streamBatch ops pf to B cursor sent = (sent @ frames_of pf B, c, False)"
      "c = cursor \<or> c \<in> entryId ` set B"
      "\<forall>e \<in> set B. pf (entryData e) \<noteq> None \<longrightarrow> ?id e \<le> val c"
      using streamBatch_below [OF ok le srtB ge] by blast
    show ?thesis
    proof (cases "length B < readBatchSize")
      case True
      then have "D = []" by (simp add: B_def D_def)
      then have "filter (\<lambda>e. ?id e \<le> val to) R = B" using le by (simp add: RBD)
      with True c(1) show ?thesis
        by (subst streamLoop.simps) (simp add: cl B_def [symmetric] goal)
    next
      case full: False
      then have Bne: "B \<noteq> []" by (auto simp: readBatchSize_def)
      have Dc: "val c < ?id d" if "d \<in> set D" for d
      proof -
        obtain b where "b \<in> set B" using Bne by (cases B) auto
        then have "val cursor < ?id d" using BD [OF _ that] ge by (metis le_less_trans)
        then show ?thesis using c(2) BD [OF _ that] by auto
      qed
      show ?thesis
      proof (cases "val to \<le> val c")
        case True
        have "filter (\<lambda>e. ?id e \<le> val to) D = []"
          using Dc True by (fastforce simp: filter_empty_conv)
        then have "filter (\<lambda>e. ?id e \<le> val to) R = B" using le by (simp add: RBD)
        moreover have "val to < val c \<or> val c = val to" using True by auto
        ultimately show ?thesis
          using full c(1) ok by (subst streamLoop.simps) (simp add: cl B_def [symmetric] goal uintn_simps)
      next
        case notyet: False
        obtain nx where nx: "add ops c (fromU64 ops 1) = Ret nx" "val nx = val c + 1"
          using uintn_add [OF ok, of c "fromU64 ops 1"] uintn_simps(4) [OF ok, of 1] by auto
        have cc: "val cursor \<le> val c" using c(2) ge by auto
        have "val cursor < m"
        proof -
          obtain b where b: "b \<in> set B" using Bne by (cases B) auto
          then have "b \<in> set store" by (auto simp: B_def R_def dest: in_set_takeD)
          then show ?thesis using b ge bound by (metis le_less_trans)
        qed
        then have "m - val nx < m - val cursor" using nx(2) cc by simp
        note ih = less [OF this, of "Suc k" "sent @ frames_of pf B"]
        have fD: "filter (\<lambda>e. val nx \<le> ?id e \<and> ?id e \<le> val to) D = filter (\<lambda>e. ?id e \<le> val to) D"
          using Dc nx(2) by (intro filter_cong) (auto simp: Suc_le_eq)
        have "frames_of pf (filter (\<lambda>e. val nx \<le> ?id e \<and> ?id e \<le> val to) store) =
            frames_of pf (filter (\<lambda>e. ?id e \<le> val to) D)"
        proof -
          have "filter (\<lambda>e. val nx \<le> ?id e \<and> ?id e \<le> val to) store =
              filter (\<lambda>e. val nx \<le> ?id e \<and> ?id e \<le> val to) R"
            using cc nx(2) by (auto simp: R_def intro!: filter_cong)
          also have "\<dots> = filter (\<lambda>e. val nx \<le> ?id e \<and> ?id e \<le> val to) B @ filter (\<lambda>e. ?id e \<le> val to) D"
            by (simp add: RBD fD)
          finally have e: "filter (\<lambda>e. val nx \<le> ?id e \<and> ?id e \<le> val to) store = \<dots>" .
          have "frames_of pf (filter (\<lambda>e. val nx \<le> ?id e \<and> ?id e \<le> val to) B) = []"
            using c(3) nx(2) by (induction B) (auto split: option.splits)
          then show ?thesis by (simp add: e)
        qed
        moreover have "filter (\<lambda>e. ?id e \<le> val to) R = B @ filter (\<lambda>e. ?id e \<le> val to) D"
          using le by (simp add: RBD)
        ultimately show ?thesis
          using full notyet c(1) ok nx(1) ih
          by (subst streamLoop.simps) (simp add: cl B_def [symmetric] goal uintn_simps)
      qed
    qed
  qed
qed

section \<open>What the forward search finds\<close>

text \<open>The first entry of an inference state that names the target queue, if there is one, with what becomes of its pointer.\<close>

fun first_in :: "'u uintn_ops \<Rightarrow> string \<Rightarrow> rx_entry list \<Rightarrow> 'u go option" where
  "first_in ops t [] = None"
| "first_in ops t ((q, bs) # es) =
     (if queueMatchesByPostfix q t then
        Some (case fromLEBytes ops bs of Err e \<Rightarrow> Err (''failed to parse ptr for queue '' @ q @ '': '' @ e) | r \<Rightarrow> r)
      else first_in ops t es)"

definition entry_first ::
  "'u uintn_ops \<Rightarrow> (byte list \<Rightarrow> rx_entry list option) \<Rightarrow> string \<Rightarrow> 'u entry \<Rightarrow> 'u go option" where
  "entry_first ops parseRx t e = Option.bind (parseRx (entryData e)) (first_in ops t)"

lemma findQueue_spec:
  "findQueue ops t rx = (case first_in ops t rx of None \<Rightarrow> Ret None | Some r \<Rightarrow> go_bind r (\<lambda>p. Ret (Some p)))"
proof (induction rx)
  case (Cons x rx)
  then show ?case by (cases x; cases "fromLEBytes ops (snd x)") simp_all
qed simp

lemma scanForward_skip:
  assumes "\<forall>e \<in> set xs. entry_first ops parseRx t e = None"
  shows "scanForward ops parseRx t (xs @ ys) l =
    scanForward ops parseRx t ys (if xs = [] then l else Some (entryId (last xs)))"
  using assms
proof (induction xs arbitrary: l)
  case (Cons e xs)
  then show ?case
    by (auto simp: findQueue_spec entry_first_def split: option.splits)
qed simp

lemma scanForward_hit:
  assumes "entry_first ops parseRx t m = Some r"
  shows "scanForward ops parseRx t (m # ys) l = go_bind r (\<lambda>p. Ret (Inl p))"
proof -
  obtain rx where "parseRx (entryData m) = Some rx" "first_in ops t rx = Some r"
    using assms by (auto simp: entry_first_def split: Option.bind_splits)
  then show ?thesis by (cases r) (simp_all add: findQueue_spec)
qed

lemma sorted_filter_suffix:
  assumes "sorted_wrt (<) (map f xs)" and "xs = as @ bs" and "as \<noteq> []" and "f (last as) < n"
    and "\<forall>b \<in> set bs. n \<le> (f b :: nat)"
  shows "filter (\<lambda>x. n \<le> f x) xs = bs"
proof -
  have "f a \<le> f (last as)" if "a \<in> set as" for a
    using assms(1,2,3) that
    by (cases as rule: rev_cases) (auto simp: sorted_wrt_append less_imp_le)
  then have "filter (\<lambda>x. n \<le> f x) as = []"
    using assms(4) by (fastforce simp: filter_empty_conv)
  then show ?thesis using assms(2,5) by simp
qed

lemma searchForward_finds:
  assumes ok: "uintn_ok ops val"
    and srv: "serves val client InferenceStatesQueue store"
    and m: "entry_first ops parseRx t m = Some r" "val (entryId m) < val endPtr"
  shows "filter (\<lambda>e. val cur \<le> val (entryId e)) store = xs @ m # ys \<Longrightarrow>
    \<forall>e \<in> set xs. entry_first ops parseRx t e = None \<Longrightarrow>
    searchForward ops client parseRx k startPtr endPtr t cur = Some r"
proof (induction "length xs" arbitrary: xs cur k rule: less_induct)
  case less
  let ?id = "\<lambda>e. val (entryId e)"
  have srt: "sorted_wrt (<) (map ?id store)" using srv by (simp add: serves_def)
  have "m \<in> set (filter (\<lambda>e. val cur \<le> ?id e) store)" by (simp add: less.prems(1))
  then have lt: "val cur < val endPtr" using m(2) by simp
  have cl: "client k InferenceStatesQueue cur searchStep =
      \<lparr>resData = take searchStep (xs @ m # ys), resErr = None\<rparr>"
    using srv less.prems(1) by (simp add: serves_def)
  show ?case
  proof (cases "length xs < searchStep")
    case True
    then obtain j where "searchStep - length xs = Suc j" using Suc_diff_Suc by metis
    then have "take searchStep (xs @ m # ys) = xs @ m # take j ys"
      using True by simp
    then have "scanForward ops parseRx t (take searchStep (xs @ m # ys)) None = go_bind r (\<lambda>p. Ret (Inl p))"
      using scanForward_skip [OF less.prems(2)] scanForward_hit [OF m(1)] by simp
    then show ?thesis
      using lt ok by (cases r; subst searchForward.simps) (simp_all add: cl uintn_simps)
  next
    case False
    define as where "as = take searchStep xs"
    define bs where "bs = drop searchStep xs"
    have xs: "xs = as @ bs" by (simp add: as_def bs_def)
    have tk: "take searchStep (xs @ m # ys) = as" using False by (simp add: as_def)
    have ne: "as \<noteq> []" using False by (auto simp: as_def searchStep_def)
    have "\<forall>e \<in> set as. entry_first ops parseRx t e = None" using less.prems(2) xs by simp
    from scanForward_skip [OF this, of "[]" None] ne
    have sc: "scanForward ops parseRx t as None = Ret (Inr (Some (entryId (last as))))" by simp
    obtain nx where nx: "add ops (entryId (last as)) (fromU64 ops 1) = Ret nx" "val nx = ?id (last as) + 1"
      using uintn_add [OF ok, of "entryId (last as)" "fromU64 ops 1"] uintn_simps(4) [OF ok, of 1] by auto
    have R: "filter (\<lambda>e. val cur \<le> ?id e) store = as @ (bs @ m # ys)" using less.prems(1) xs by simp
    have srtR: "sorted_wrt (<) (map ?id (as @ (bs @ m # ys)))"
      using sorted_filter [OF srt, of "\<lambda>e. val cur \<le> ?id e"] by (simp only: R)
    have last_in: "last as \<in> set as" using ne by simp
    have above: "\<forall>b \<in> set (bs @ m # ys). val nx \<le> ?id b"
      using srtR last_in nx(2) by (auto simp: sorted_wrt_append Suc_le_eq)
    have "last as \<in> set (filter (\<lambda>e. val cur \<le> ?id e) store)" using last_in R by simp
    then have "val cur \<le> ?id (last as)" by simp
    then have "filter (\<lambda>e. val nx \<le> ?id e) store = filter (\<lambda>e. val nx \<le> ?id e) (filter (\<lambda>e. val cur \<le> ?id e) store)"
      using nx(2) by (auto simp: intro!: filter_cong)
    also have "\<dots> = bs @ m # ys"
      using sorted_filter_suffix [OF srtR refl ne _ above] nx(2) by (simp only: R)
    finally have nxt: "filter (\<lambda>e. val nx \<le> ?id e) store = bs @ m # ys" .
    have "length bs < length xs" using xs ne by simp
    from less.hyps [OF this nxt, of "Suc k"] less.prems(2) xs
    have "searchForward ops client parseRx (Suc k) startPtr endPtr t nx = Some r" by simp
    then show ?thesis
      using lt ok nx(1) by (subst searchForward.simps) (simp add: cl [unfolded tk] sc uintn_simps)
  qed
qed

section \<open>Properties\<close>

text \<open>
  A queue name matches a target exactly when it is the target, or ends in a slash and the
  target with something in front of the slash.
\<close>

theorem queue_match_is_path_suffix:
  "queueMatchesByPostfix queueName target \<longleftrightarrow>
     queueName = target \<or> (\<exists>p. p \<noteq> [] \<and> queueName = p @ ''/'' @ target)"
  by (rule postfix_iff)

text \<open>
  C22. The backward search for a bound always ends, whatever the station answers: every round
  moves the pointer strictly towards the start. When no pointer makes the parser panic, it panics only if some
  read between the start and the end pointer is answered without entries and without an error; and it does when that
  is the first read, because it then asks a nil pointer whether it is zero.
\<close>

theorem backward_search_terminates:
  assumes "uintn_ok ops val"
  shows "(\<exists>r. searchBackwardForQueue ops client parseRx startPtr endPtr target = Some r \<and>
      (r = Panic \<longrightarrow> (\<exists>bs. fromLEBytes ops bs = Panic) \<or>
        (\<exists>i off. val startPtr \<le> val off \<and> val off < val endPtr \<and>
          resData (client i InferenceStatesQueue off searchStep) = [] \<and> resErr (client i InferenceStatesQueue off searchStep) = None))) \<and>
    (isZero ops None = Panic \<and> val startPtr < val endPtr \<and>
        (\<exists>b. batchStartOf ops startPtr endPtr = Ret b \<and> resData (client 1 InferenceStatesQueue b searchStep) = [] \<and>
          resErr (client 1 InferenceStatesQueue b searchStep) = None) \<longrightarrow>
      searchBackwardForQueue ops client parseRx startPtr endPtr target = Some Panic)"
  using searchBackward_returns [OF assms, of client parseRx 1 startPtr endPtr target endPtr]
    searchBackward_empty [OF assms, of startPtr endPtr _ client 1 parseRx endPtr target]
  unfolding searchBackwardForQueue_def empty_answer_def by blast

text \<open>
  C3. On a queue held in order, the backward search returns the pointer of the last inference
  state before the end pointer, and not before the start pointer, that names the target
  queue, and the error that there is none otherwise; the entry at the end pointer itself has
  been looked at before.
\<close>

theorem backward_search_finds_last:
  assumes "uintn_ok ops val" and "\<And>bs. fromLEBytes ops bs \<noteq> Panic"
    and "serves val client InferenceStatesQueue store"
    and "last_entry \<in> set store" and "val (entryId last_entry) = val endPtr"
    and "entry_ptr ops parseRx target last_entry = None"
  shows "searchBackwardForQueue ops client parseRx startPtr endPtr target =
    Some (case last_ptr ops parseRx target
        (filter (\<lambda>e. val startPtr \<le> val (entryId e) \<and> val (entryId e) < val endPtr) store) of
      None \<Rightarrow> Err (notFound ops target startPtr endPtr)
    | Some p \<Rightarrow> Ret p)"
proof -
  have "e = last_entry" if "e \<in> set store" "val (entryId e) = val endPtr" for e
  proof -
    have "distinct (map (\<lambda>e. val (entryId e)) store)"
      using assms(3) by (simp add: serves_def strict_sorted_iff)
    then show ?thesis using that assms(4,5) by (auto simp: distinct_map inj_on_def)
  qed
  then have "entry_ptr ops parseRx target e = None"
    if "e \<in> set store" "val endPtr \<le> val (entryId e)" "val (entryId e) \<le> val endPtr" for e
    using that assms(6) by fastforce
  then show ?thesis
    using searchBackward_finds [OF assms(1-3), of endPtr endPtr parseRx target 1 startPtr] assms(4,5)
    by (auto simp: searchBackwardForQueue_def)
qed

text \<open>
  C21. On a queue held in order, the forward search stops at the first inference
  state at or after the start pointer that names the target queue, when there is one before
  the end pointer, however many batches it has to read: it returns the pointer that its first such entry holds, or the
  error that this pointer cannot be parsed.
\<close>

theorem forward_search_finds_first:
  assumes "uintn_ok ops val" and "serves val client InferenceStatesQueue store"
    and "filter (\<lambda>e. val startPtr \<le> val (entryId e)) store = xs @ m # ys"
    and "\<forall>e \<in> set xs. entry_first ops parseRx target e = None"
    and "entry_first ops parseRx target m = Some r" and "val (entryId m) < val endPtr"
  shows "searchForwardForQueue ops client parseRx startPtr endPtr target = Some r"
  using searchForward_finds [OF assms(1,2,5,6,3,4)] by (simp add: searchForwardForQueue_def)

lemma StreamFrames_served:
  assumes "uintn_ok ops val" and "serves val client queue store"
  shows "StreamFrames ops client parseFrame queue \<lparr>From = f, To = t\<rparr> =
    Some (Ret (frames_of parseFrame
      (filter (\<lambda>e. val f \<le> val (entryId e) \<and> val (entryId e) \<le> val t) store), None))"
proof -
  obtain m where "\<forall>n \<in> (\<lambda>e. val (entryId e)) ` set store. n < m"
    using finite_nat_set_iff_bounded [of "(\<lambda>e. val (entryId e)) ` set store"] by auto
  then show ?thesis
    using stream_served [OF assms, of m parseFrame t 0 f "[]"] by (simp add: StreamFrames_def)
qed

text \<open>
  C4. On a queue held in order, streaming delivers the frames of all entries from the lower to
  the upper bound, both included, each once and in order, except those whose payload does
  not parse, and then ends without an error; batches of unparsable entries are passed over.
\<close>

theorem stream_delivers_all_frames:
  assumes "uintn_ok ops val" and "serves val client queue store"
  shows "StreamFrames ops client parseFrame queue \<lparr>From = f, To = t\<rparr> =
    Some (Ret (frames_of parseFrame
      (filter (\<lambda>e. val f \<le> val (entryId e) \<and> val (entryId e) \<le> val t) store), None))"
  by (rule StreamFrames_served [OF assms])

text \<open>A queue of three inference states; the payload byte is the pointer of the target queue, 0
  for none.\<close>

definition demo_store :: "nat entry list" where
  "demo_store = [\<lparr>entryId = 2, entryData = [0]\<rparr>, \<lparr>entryId = 5, entryData = [7]\<rparr>,
     \<lparr>entryId = 9, entryData = [8]\<rparr>, \<lparr>entryId = 12, entryData = [0]\<rparr>]"

definition demo_parse :: "byte list \<Rightarrow> rx_entry list option" where
  "demo_parse bs = (if bs = [0] then Some [] else Some [(''/h/inference/normvla'', bs)])"

lemma demo_serves: "serves (\<lambda>n. n) (list_client demo_store) queue demo_store"
  by (rule list_client_serves) (simp add: demo_store_def)

lemma demo_match: "queueMatchesByPostfix ''/h/inference/normvla'' ''inference/normvla''"
  by (simp add: queueMatchesByPostfix_def)

lemma nat_fromLE: "fromLEBytes nat_ops bs = Ret (foldr (\<lambda>b n. unat b + 256 * n) bs 0)"
  by (simp add: nat_ops_def)

theorem backward_search_terminates_witness:
  "(\<exists>r. searchBackwardForQueue nat_ops (\<lambda>k q off lim. \<lparr>resData = [\<lparr>entryId = k, entryData = []\<rparr>], resErr = None\<rparr>)
      (\<lambda>_. None) 3 70000 ''inference/normvla'' = Some r \<and> r \<noteq> Panic) \<and>
   searchBackwardForQueue nat_ops (\<lambda>k q off lim. \<lparr>resData = [], resErr = None\<rparr>) (\<lambda>_. None) 3 70 ''inference/normvla'' = Some Panic"
proof
  show "\<exists>r. searchBackwardForQueue nat_ops (\<lambda>k q off lim. \<lparr>resData = [\<lparr>entryId = k, entryData = []\<rparr>], resErr = None\<rparr>)
      (\<lambda>_. None) 3 70000 ''inference/normvla'' = Some r \<and> r \<noteq> Panic"
    using backward_search_terminates [OF nat_ops_ok, of "\<lambda>k q off lim. \<lparr>resData = [\<lparr>entryId = k, entryData = []\<rparr>], resErr = None\<rparr>"
        "\<lambda>_. None" 3 70000 "''inference/normvla''"] by (auto simp: nat_fromLE)
  have "batchStartOf nat_ops 3 70 = Ret 3" "isZero nat_ops None = Panic"
    by (simp_all add: batchStartOf_def nat_ops_def searchStep_def unat_of_nat)
  then show "searchBackwardForQueue nat_ops (\<lambda>k q off lim. \<lparr>resData = [], resErr = None\<rparr>) (\<lambda>_. None) 3 70 ''inference/normvla'' = Some Panic"
    using backward_search_terminates [OF nat_ops_ok, of "\<lambda>k q off lim. \<lparr>resData = [], resErr = None\<rparr>"
        "\<lambda>_. None" 3 70 "''inference/normvla''"] by simp
qed

theorem backward_search_finds_last_witness:
  "searchBackwardForQueue nat_ops (list_client demo_store) demo_parse 2 12 ''inference/normvla'' = Some (Ret 8)"
proof -
  have "searchBackwardForQueue nat_ops (list_client demo_store) demo_parse 2 12 ''inference/normvla'' =
      Some (case last_ptr nat_ops demo_parse ''inference/normvla''
        (filter (\<lambda>e. 2 \<le> entryId e \<and> entryId e < 12) demo_store) of
      None \<Rightarrow> Err (notFound nat_ops ''inference/normvla'' 2 12) | Some p \<Rightarrow> Ret p)"
    by (rule backward_search_finds_last [OF nat_ops_ok _ demo_serves,
          where last_entry = "\<lparr>entryId = 12, entryData = [0]\<rparr>"])
      (simp_all add: nat_fromLE demo_store_def entry_ptr_def demo_parse_def)
  then show ?thesis
    by (simp add: demo_store_def entry_ptr_def demo_parse_def demo_match nat_fromLE)
qed

theorem forward_search_finds_first_witness:
  "searchForwardForQueue nat_ops (list_client demo_store) demo_parse 2 12 ''inference/normvla'' = Some (Ret 7)"
proof (rule forward_search_finds_first [OF nat_ops_ok demo_serves,
      where xs = "[\<lparr>entryId = 2, entryData = [0]\<rparr>]" and m = "\<lparr>entryId = 5, entryData = [7]\<rparr>"
        and ys = "[\<lparr>entryId = 9, entryData = [8]\<rparr>, \<lparr>entryId = 12, entryData = [0]\<rparr>]"])
  show "filter (\<lambda>e. 2 \<le> entryId e) demo_store = [\<lparr>entryId = 2, entryData = [0]\<rparr>] @
      \<lparr>entryId = 5, entryData = [7]\<rparr> # [\<lparr>entryId = 9, entryData = [8]\<rparr>, \<lparr>entryId = 12, entryData = [0]\<rparr>]"
    by (simp add: demo_store_def)
qed (simp_all add: nat_fromLE entry_first_def demo_parse_def demo_match)

theorem stream_delivers_all_frames_witness:
  "StreamFrames nat_ops (list_client demo_store) (\<lambda>bs. if bs = [7] then None else Some bs) ''q'' \<lparr>From = 3, To = 12\<rparr> =
     Some (Ret ([[8], [0]], None))"
  using stream_delivers_all_frames [OF nat_ops_ok demo_serves,
      of "\<lambda>bs. if bs = [7] then None else Some bs" "''q''" 3 12]
  by (simp add: demo_store_def)

section \<open>Where the searches depart from their description\<close>

text \<open>
  The forward search does not look at the end pointer inside a batch: it returns the pointer
  of an inference state after the end pointer, where the range it was asked to search holds
  none.
\<close>

theorem forward_search_passes_end:
  "searchForwardForQueue nat_ops (list_client demo_store) demo_parse 2 4 ''inference/normvla'' = Some (Ret 7) \<and>
   list_all (\<lambda>e. entry_first nat_ops demo_parse ''inference/normvla'' e = None)
     (filter (\<lambda>e. 2 \<le> entryId e \<and> entryId e \<le> 4) demo_store)"
proof
  have "scanForward nat_ops demo_parse ''inference/normvla'' demo_store None = Ret (Inl 7)"
    by (simp add: demo_store_def demo_parse_def demo_match nat_fromLE)
  moreover have "take searchStep (filter (\<lambda>e. 2 \<le> entryId e) demo_store) = demo_store"
    by (simp add: searchStep_def demo_store_def)
  ultimately show "searchForwardForQueue nat_ops (list_client demo_store) demo_parse 2 4 ''inference/normvla'' =
      Some (Ret 7)"
    unfolding searchForwardForQueue_def
    by (subst searchForward.simps) (simp add: list_client_def uintn_simps [OF nat_ops_ok])
qed (simp add: demo_store_def entry_first_def demo_parse_def)

text \<open>
  In a dense queue the backward search moves by one entry per batch and not by a batch: after
  reading a full batch without a match it continues one entry below where it was.
\<close>

theorem backward_search_steps_by_one:
  assumes "searchStep \<le> cur" and "startPtr < cur - searchStep"
    and "resData (client k InferenceStatesQueue (cur - searchStep) searchStep) =
      map (\<lambda>i. \<lparr>entryId = i, entryData = []\<rparr>) [cur - searchStep..<cur]"
    and "resErr (client k InferenceStatesQueue (cur - searchStep) searchStep) = None"
    and "parseRx [] = Some []"
  shows "searchBackward nat_ops client parseRx k startPtr endPtr target cur =
    searchBackward nat_ops client parseRx (Suc k) startPtr endPtr target (cur - 1)"
proof -
  let ?B = "map (\<lambda>i. \<lparr>entryId = i, entryData = []\<rparr>) [cur - searchStep..<cur] :: nat entry list"
  have b: "batchStartOf nat_ops startPtr cur = Ret (cur - searchStep)"
    using assms(1,2) by (simp add: batchStartOf_def nat_ops_def searchStep_def unat_of_nat)
  have ne: "?B \<noteq> []" using assms(1) by (simp add: searchStep_def)
  have lst: "entryId (last ?B) = cur - 1"
  proof -
    have "cur - searchStep < cur" using assms(1) by (simp add: searchStep_def)
    then have "last [cur - searchStep..<cur] = cur - 1" by (simp only: last_upt)
    then show ?thesis using ne by (simp add: last_map)
  qed
  have np: "fromLEBytes nat_ops bs \<noteq> Panic" for bs by (simp add: nat_fromLE)
  have "last_ptr nat_ops parseRx target ?B = None"
    using assms(5) by (simp add: last_ptr_None entry_ptr_def)
  then have "scanBackward nat_ops parseRx target cur ?B None None = Ret (None, Some (cur - 1))"
    using scanBackward_below [OF nat_ops_ok np, of ?B cur parseRx target "[]" None None] ne lst by simp
  moreover have "previousPtr nat_ops (cur - searchStep) cur (Some (cur - 1)) = Ret (cur - 1)"
    using assms(1,2) by (simp add: previousPtr_def nat_ops_def searchStep_def)
  moreover have "startPtr < cur - 1" "\<not> cur < startPtr" "cur \<noteq> startPtr"
    using assms(1,2) by (simp_all add: searchStep_def)
  ultimately show ?thesis
    using assms(3,4) b by (subst searchBackward.simps) (simp add: uintn_simps [OF nat_ops_ok])
qed

theorem backward_search_steps_by_one_witness:
  "searchBackward nat_ops (\<lambda>k q off lim. \<lparr>resData = map (\<lambda>i. \<lparr>entryId = i, entryData = []\<rparr>) [off..<off + lim],
       resErr = None\<rparr>) (\<lambda>_. Some []) 1 5 30000 ''q'' 30000 =
   searchBackward nat_ops (\<lambda>k q off lim. \<lparr>resData = map (\<lambda>i. \<lparr>entryId = i, entryData = []\<rparr>) [off..<off + lim],
       resErr = None\<rparr>) (\<lambda>_. Some []) (Suc 1) 5 30000 ''q'' (30000 - 1)"
  by (rule backward_search_steps_by_one) (simp_all add: searchStep_def del: upt_Suc upt_rec_numeral)

end
