(* ===== verification/Go_Strings.thy ===== *)
theory Go_Strings
  imports Go_Prelude
begin

text \<open>
  The functions of Go's packages \<^verbatim>\<open>strings\<close> and \<^verbatim>\<open>path/filepath\<close> that the modelled code calls, on
  strings as byte sequences, with the laws the component theories use: splitting and
  joining are inverse, \<open>str_index\<close> finds the first occurrence, and joining a clean path and
  one proper component appends the component.
\<close>

named_theorems str_simps \<open>evaluation of string functions\<close>

section \<open>Package \<open>strings\<close>\<close>

fun split_on :: "char \<Rightarrow> string \<Rightarrow> string list" where
  "split_on c [] = [[]]"
| "split_on c (x # xs) =
     (if x = c then [] # split_on c xs
      else case split_on c xs of [] \<Rightarrow> [[x]] | p # ps \<Rightarrow> (x # p) # ps)"

fun join :: "string \<Rightarrow> string list \<Rightarrow> string" where
  "join sep [] = []"
| "join sep [p] = p"
| "join sep (p # q # ps) = p @ sep @ join sep (q # ps)"

definition has_prefix :: "string \<Rightarrow> string \<Rightarrow> bool" where
  "has_prefix s p = (length p \<le> length s \<and> take (length p) s = p)"

definition has_suffix :: "string \<Rightarrow> string \<Rightarrow> bool" where
  "has_suffix s p = (length p \<le> length s \<and> drop (length s - length p) s = p)"

definition trim_prefix :: "string \<Rightarrow> string \<Rightarrow> string" where
  "trim_prefix s p = (if has_prefix s p then drop (length p) s else s)"

definition trim_suffix :: "string \<Rightarrow> string \<Rightarrow> string" where
  "trim_suffix s p = (if has_suffix s p then take (length s - length p) s else s)"

text \<open>\<^verbatim>\<open>strings.Index\<close>, with \<^term>\<open>None\<close> for -1.\<close>

fun str_index :: "string \<Rightarrow> string \<Rightarrow> nat option" where
  "str_index [] sub = (if sub = [] then Some 0 else None)"
| "str_index (x # xs) sub =
     (if has_prefix (x # xs) sub then Some 0 else map_option Suc (str_index xs sub))"

definition str_contains :: "string \<Rightarrow> string \<Rightarrow> bool" where
  "str_contains s sub = (str_index s sub \<noteq> None)"

text \<open>
  The verb \<^verbatim>\<open>%q\<close>: a quoted Go string. Bytes from 0x80 on are kept, as Go does for the characters
  that it can print.
\<close>

definition hex_digit :: "nat \<Rightarrow> char" where
  "hex_digit n = char_of (if n < 10 then 48 + n else 87 + n)"

definition quote_char :: "char \<Rightarrow> string" where
  "quote_char c =
     (if c = CHR 0x22 then [CHR 0x5C, CHR 0x22]
      else if c = CHR 0x5C then [CHR 0x5C, CHR 0x5C]
      else if c = CHR 0x07 then [CHR 0x5C, CHR ''a'']
      else if c = CHR 0x08 then [CHR 0x5C, CHR ''b'']
      else if c = CHR 0x0C then [CHR 0x5C, CHR ''f'']
      else if c = CHR 0x0A then [CHR 0x5C, CHR ''n'']
      else if c = CHR 0x0D then [CHR 0x5C, CHR ''r'']
      else if c = CHR 0x09 then [CHR 0x5C, CHR ''t'']
      else if c = CHR 0x0B then [CHR 0x5C, CHR ''v'']
      else let n = (of_char c :: nat) in
        if n < 32 \<or> n = 127 then [CHR 0x5C, CHR ''x'', hex_digit (n div 16), hex_digit (n mod 16)] else [c])"

definition quote :: "string \<Rightarrow> string" where
  "quote s = [CHR 0x22] @ concat (map quote_char s) @ [CHR 0x22]"

lemma split_on_not_Nil [simp]: "split_on c s \<noteq> []"
  by (induction s) (auto split: list.splits)

lemma join_split: "join [c] (split_on c s) = s"
proof (induction s)
  case (Cons x xs)
  then show ?case by (cases "split_on c xs" rule: list.exhaust; cases "tl (split_on c xs)") auto
qed simp

lemma split_no_sep: "c \<notin> set s \<Longrightarrow> split_on c s = [s]"
  by (induction s) auto

lemma split_append: "c \<notin> set p \<Longrightarrow> split_on c (p @ c # s) = p # split_on c s"
  by (induction p) auto

lemma split_join:
  "ps \<noteq> [] \<Longrightarrow> list_all (\<lambda>p. c \<notin> set p) ps \<Longrightarrow> split_on c (join [c] ps) = ps"
  by (induction "[c]" ps rule: join.induct) (simp_all add: split_no_sep split_append)

lemma split_parts: "p \<in> set (split_on c s) \<Longrightarrow> c \<notin> set p"
  by (induction s arbitrary: p) (auto split: if_splits list.splits)

lemma join_inject:
  assumes "join [c] ps = join [c] qs" and "ps \<noteq> []" and "qs \<noteq> []"
    and "list_all (\<lambda>p. c \<notin> set p) ps" and "list_all (\<lambda>p. c \<notin> set p) qs"
  shows "ps = qs"
  using assms split_join by metis

lemma join_snoc: "ps \<noteq> [] \<Longrightarrow> join sep (ps @ [p]) = join sep ps @ sep @ p"
  by (induction sep ps rule: join.induct) simp_all

lemma join_eq_Nil: "join [c] ps = [] \<longleftrightarrow> ps = [] \<or> ps = [[]]"
  by (induction "[c]" ps rule: join.induct) simp_all

lemma has_prefix_iff: "has_prefix s p \<longleftrightarrow> (\<exists>t. s = p @ t)"
  by (metis append_eq_conv_conj append_take_drop_id has_prefix_def length_append le_add1)

lemma has_prefix_append [simp]: "has_prefix (p @ t) p"
  by (auto simp: has_prefix_iff)

lemma has_prefix_Cons [simp]: "has_prefix (x # xs) [y] \<longleftrightarrow> x = y"
  by (simp add: has_prefix_def)

lemma trim_prefix_append [simp]: "trim_prefix (p @ t) p = t"
  by (simp add: trim_prefix_def)

lemma index_Some: "str_index s sub = Some i \<Longrightarrow> \<exists>t. s = take i s @ sub @ t \<and> i + length sub \<le> length s"
proof (induction s arbitrary: i)
  case (Cons x xs)
  show ?case
  proof (cases "has_prefix (x # xs) sub")
    case True
    then have "i = 0" using Cons.prems by simp
    with True show ?thesis by (metis add_0 append_Nil has_prefix_def has_prefix_iff take0)
  next
    case False
    then obtain j where "i = Suc j" "str_index xs sub = Some j" using Cons.prems by auto
    with Cons.IH [of j] show ?thesis by auto
  qed
qed (auto split: if_splits)

lemma index_char: "c \<notin> set m \<Longrightarrow> str_index (m @ c # t) [c] = Some (length m)"
  by (induction m) (auto simp: has_prefix_def)

lemma index_absent: "c \<notin> set s \<Longrightarrow> str_index s [c] = None"
  by (induction s) (auto simp: has_prefix_def)

lemma contains_iff: "str_contains s sub \<longleftrightarrow> (\<exists>a b. s = a @ sub @ b)"
proof -
  have "str_index (a @ sub @ b) sub \<noteq> None" for a b
  proof (induction a)
    case Nil
    have "has_prefix (sub @ b) sub" by simp
    then show ?case by (cases "sub @ b") auto
  qed auto
  then show ?thesis using index_Some unfolding str_contains_def by blast
qed

lemma index_first:
  assumes "sub \<noteq> []" and "\<not> str_contains (pre @ butlast sub) sub"
  shows "str_index (pre @ sub @ t) sub = Some (length pre)"
  using assms(2)
proof (induction pre)
  case Nil
  have "has_prefix (sub @ t) sub" by simp
  then show ?case by (cases "sub @ t") (use assms(1) in auto)
next
  case (Cons x pre)
  have "\<not> has_prefix (x # pre @ sub @ t) sub"
  proof
    assume h: "has_prefix (x # pre @ sub @ t) sub"
    have "sub = butlast sub @ [last sub]" using assms(1) by simp
    then have "x # pre @ sub @ t = (x # pre @ butlast sub) @ last sub # t" by (metis append.assoc append_Cons append_Nil)
    moreover have "length sub \<le> length (x # pre @ butlast sub)" by simp
    ultimately have "has_prefix (x # pre @ butlast sub) sub"
      using h unfolding has_prefix_def by (metis diff_is_0_eq append_Nil2 take0 take_append)
    then show False using Cons.prems unfolding str_contains_def by (simp add: has_prefix_def)
  qed
  moreover have "\<not> str_contains (pre @ butlast sub) sub"
    using Cons.prems unfolding str_contains_def by (auto split: if_splits)
  ultimately show ?case using Cons.IH by simp
qed

section \<open>Package \<open>path/filepath\<close>\<close>

text \<open>
  \<^verbatim>\<open>Clean\<close> removes empty components and \<^verbatim>\<open>.\<close>, and lets \<^verbatim>\<open>..\<close> remove the component before it;
  \<^verbatim>\<open>Join\<close> joins the non-empty elements with a slash and cleans the result; \<^verbatim>\<open>Dir\<close> cleans what is
  before the last slash.
\<close>

fun clean_parts :: "bool \<Rightarrow> string list \<Rightarrow> string list \<Rightarrow> string list" where
  "clean_parts rooted acc [] = rev acc"
| "clean_parts rooted acc (p # ps) =
     (if p = [] \<or> p = ''.'' then clean_parts rooted acc ps
      else if p = ''..'' then
        (case acc of
           [] \<Rightarrow> clean_parts rooted (if rooted then [] else [''..'']) ps
         | a # as \<Rightarrow> clean_parts rooted (if a = ''..'' then ''..'' # acc else as) ps)
      else clean_parts rooted (p # acc) ps)"

definition path_clean :: "string \<Rightarrow> string" where
  "path_clean s =
     (let rooted = has_prefix s ''/'';
          body = join ''/'' (clean_parts rooted [] (split_on (CHR ''/'') s))
      in if rooted then ''/'' @ body else if body = [] then ''.'' else body)"

definition path_join :: "string list \<Rightarrow> string" where
  "path_join es =
     (let es = filter (\<lambda>e. e \<noteq> []) es in if es = [] then [] else path_clean (join ''/'' es))"

definition path_dir :: "string \<Rightarrow> string" where
  "path_dir s =
     (let parts = split_on (CHR ''/'') s in path_clean (join ''/'' (butlast parts @ [[]])))"

text \<open>A path that names a directory by proper components.\<close>

definition proper :: "string \<Rightarrow> bool" where
  "proper p \<longleftrightarrow> p \<noteq> [] \<and> p \<noteq> ''.'' \<and> p \<noteq> ''..'' \<and> CHR ''/'' \<notin> set p"

definition abs_path :: "string list \<Rightarrow> string" where
  "abs_path ps = ''/'' @ join ''/'' ps"

lemma clean_proper: "list_all proper ps \<Longrightarrow> clean_parts rooted acc ps = rev acc @ ps"
  by (induction ps arbitrary: acc) (auto simp: proper_def)

lemma clean_Nil: "clean_parts rooted acc ([] # ps) = clean_parts rooted acc ps"
  by simp

lemma clean_snoc_Nil: "clean_parts rooted acc (ps @ [[]]) = clean_parts rooted acc ps"
  by (induction rooted acc ps rule: clean_parts.induct) (auto split: list.splits)

lemma split_abs_path:
  "list_all proper ps \<Longrightarrow> split_on (CHR ''/'') (abs_path ps) = [] # (if ps = [] then [[]] else ps)"
  using split_join [of ps "CHR ''/''"] by (auto simp: abs_path_def proper_def list_all_iff)

lemma clean_abs_path: "list_all proper ps \<Longrightarrow> path_clean (abs_path ps) = abs_path ps"
proof -
  assume a: "list_all proper ps"
  have "has_prefix (abs_path ps) ''/''" by (simp add: abs_path_def)
  then show ?thesis
    unfolding path_clean_def Let_def split_abs_path [OF a]
    using a by (simp add: clean_proper abs_path_def)
qed

lemma join_abs_path:
  assumes "list_all proper ps" and "list_all proper qs" and "qs \<noteq> []"
  shows "path_join [abs_path ps, join ''/'' qs] = abs_path (ps @ qs)"
proof -
  have ne: "join ''/'' qs \<noteq> []"
    using assms(2,3) by (auto simp: join_eq_Nil proper_def)
  let ?s = "join ''/'' [abs_path ps, join ''/'' qs]"
  have p: "has_prefix ?s ''/''" by (simp add: abs_path_def)
  have "?s = join ''/'' ([] # (if ps = [] then [[]] else ps) @ qs)"
  proof -
    have app: "xs \<noteq> [] \<Longrightarrow> join ''/'' (xs @ qs) = join ''/'' xs @ ''/'' @ join ''/'' qs" for xs
      using assms(3) by (induction "''/''" xs rule: join.induct) (auto simp: neq_Nil_conv)
    show ?thesis
      using app [of "[] # (if ps = [] then [[]] else ps)"] by (auto simp: abs_path_def neq_Nil_conv)
  qed
  moreover have "split_on (CHR ''/'') (join ''/'' ([] # (if ps = [] then [[]] else ps) @ qs)) =
      [] # (if ps = [] then [[]] else ps) @ qs"
    using assms by (intro split_join) (auto simp: list_all_iff proper_def)
  ultimately have "split_on (CHR ''/'') ?s = [] # (if ps = [] then [[]] else ps) @ qs"
    by (simp only:)
  then have "path_clean ?s = ''/'' @ join ''/'' (clean_parts True [] ([] # (if ps = [] then [[]] else ps) @ qs))"
    using p by (simp add: path_clean_def Let_def)
  also have "\<dots> = abs_path (ps @ qs)"
    using assms by (simp add: clean_proper abs_path_def)
  finally show ?thesis
    using ne by (simp add: path_join_def abs_path_def Let_def)
qed

lemma dir_abs_path:
  assumes "list_all proper ps" and "proper f"
  shows "path_dir (abs_path (ps @ [f])) = abs_path ps"
proof -
  have "list_all proper (ps @ [f])" using assms by simp
  from split_abs_path [OF this]
  have "butlast (split_on (CHR ''/'') (abs_path (ps @ [f]))) @ [[]] = [] # ps @ [[]]" by simp
  then have e: "path_dir (abs_path (ps @ [f])) = path_clean (join ''/'' ([] # ps @ [[]]))"
    by (simp add: path_dir_def)
  have s: "split_on (CHR ''/'') (join ''/'' ([] # ps @ [[]])) = [] # ps @ [[]]"
    using assms by (intro split_join) (auto simp: list_all_iff proper_def)
  have "has_prefix (join ''/'' ([] # ps @ [[]])) ''/''"
    by (cases ps) (simp_all add: has_prefix_def)
  then have "path_clean (join ''/'' ([] # ps @ [[]])) = ''/'' @ join ''/'' (clean_parts True [] ([] # ps @ [[]]))"
    unfolding path_clean_def Let_def s by simp
  with e show ?thesis
    using assms by (simp add: clean_snoc_Nil clean_proper abs_path_def)
qed

lemma split_dir_abs_path:
  assumes "list_all proper ps" and "proper f"
  shows "filter (\<lambda>p. p \<noteq> []) (split_on (CHR ''/'') (path_dir (abs_path (ps @ [f])))) = ps"
  using assms by (auto simp: dir_abs_path split_abs_path list_all_iff proper_def)

end
