(* ===== verification/Ui_Model.thy ===== *)
theory Ui_Model
  imports Messages Go_Strings
begin

text \<open>
  The terminal interface of the dataset generator,
  \<^verbatim>\<open>src/software/station/bin/dataset-generator/internal/ui\<close>: the model of \<^verbatim>\<open>model.go\<close> with its
  whole \<^verbatim>\<open>Update\<close>, the rendering of the log pane and of the separators, the list of discarded
  episodes of the summary, and the log writer of \<^verbatim>\<open>runner.go\<close> that turns log lines into
  messages. The styles of the package lipgloss are an argument \<open>render\<close>, and the messages of
  the package bubbletea are the values its accessors return. What is drawn besides the log
  pane is in the theory of the view.
\<close>

section \<open>The model\<close>

definition minLogLines :: int where "minLogLines = 3"

datatype style = titleStyle | progressBarStyle | progressEmptyStyle | statsStyle | paramsStyle
  | logInfoStyle | logWarnStyle | logErrorStyle | separatorStyle

record log_msg =
  Level :: string
  Message :: string
  LogTime :: int

record 'u Model =
  params :: "'u Params"
  current :: 'u
  framesProcessed :: uint64
  episodeCount :: uint64
  episodesDiscarded :: uint64
  discardedReasons :: "string list"
  discardedFrameIds :: "string list"
  currentEpisodeIndex :: uint64
  framesInEpisode :: int
  totalFramesSaved :: int
  episodeSkipReason :: string
  startTime :: int
  logs :: "log_msg list"
  finished :: bool
  err :: "string option"
  width :: int
  height :: int

datatype 'u tea_msg = KeyMsg string | WindowSizeMsg int int | Internal "'u msg" | OtherMsg

datatype cmd = NoCmd | Quit | Tick

definition NewModel :: "int \<Rightarrow> 'u Params \<Rightarrow> 'u Model" where
  "NewModel now p = \<lparr>params = p, current = From p, framesProcessed = 0, episodeCount = 0,
     episodesDiscarded = 0, discardedReasons = [], discardedFrameIds = [], currentEpisodeIndex = 0,
     framesInEpisode = 0, totalFramesSaved = 0, episodeSkipReason = [], startTime = now, logs = [],
     finished = False, err = None, width = 80, height = 24\<rparr>"

definition Model_Err :: "'u Model \<Rightarrow> string option" where
  "Model_Err m = err m"

definition tickCmd :: cmd where "tickCmd = Tick"
definition Init :: "'u Model \<Rightarrow> cmd" where "Init m = tickCmd"

definition maxLogLines :: "'u Model \<Rightarrow> int" where
  "maxLogLines m = (let available = height m - 12 in
     if available < minLogLines then minLogLines else available)"

text \<open>\<open>keep_last n xs\<close> is the re-slice \<^verbatim>\<open>xs[len(xs)-n:]\<close> that is taken when there are more than n.\<close>

definition keep_last :: "int \<Rightarrow> 'a list \<Rightarrow> 'a list" where
  "keep_last n xs = (if n < int (length xs) then drop (length xs - nat n) xs else xs)"

definition Update_log :: "log_msg \<Rightarrow> 'u Model \<Rightarrow> 'u Model" where
  "Update_log l m = (let ls = logs m @ [l] in m\<lparr>logs := keep_last (maxLogLines m) ls\<rparr>)"

fun Update_internal :: "'u msg \<Rightarrow> 'u Model \<Rightarrow> 'u Model \<times> cmd" where
  "Update_internal (TickMsg _) m = (m, tickCmd)"
| "Update_internal (ProgressMsg cur _ n) m = (m\<lparr>current := cur, framesProcessed := n\<rparr>, NoCmd)"
| "Update_internal (EpisodeStartedMsg idx) m =
     (m\<lparr>currentEpisodeIndex := idx, framesInEpisode := 0, episodeSkipReason := []\<rparr>, NoCmd)"
| "Update_internal (EpisodeSkipMarkedMsg _ reason) m = (m\<lparr>episodeSkipReason := reason\<rparr>, NoCmd)"
| "Update_internal (EpisodeSavedMsg _ frames) m =
     (m\<lparr>episodeCount := episodeCount m + 1, totalFramesSaved := iadd (totalFramesSaved m) frames,
        framesInEpisode := 0, episodeSkipReason := []\<rparr>, NoCmd)"
| "Update_internal (EpisodeDiscardedMsg _ reason frameId) m =
     (m\<lparr>episodesDiscarded := episodesDiscarded m + 1,
        discardedReasons := discardedReasons m @ [reason],
        discardedFrameIds := discardedFrameIds m @ [frameId],
        framesInEpisode := 0, episodeSkipReason := []\<rparr>, NoCmd)"
| "Update_internal FrameBufferedMsg m = (m\<lparr>framesInEpisode := iadd (framesInEpisode m) 1\<rparr>, NoCmd)"
| "Update_internal (LogMsg level text t) m =
     (Update_log \<lparr>Level = level, Message = text, LogTime = t\<rparr> m, NoCmd)"
| "Update_internal (DoneMsg e) m = (m\<lparr>finished := True, err := e\<rparr>, Quit)"

fun Update :: "'u tea_msg \<Rightarrow> 'u Model \<Rightarrow> 'u Model \<times> cmd" where
  "Update (KeyMsg k) m =
     (if finished m then (m, Quit)
      else if k = ''ctrl+c'' \<or> k = ''q'' then (m, Quit)
      else (m, NoCmd))"
| "Update (WindowSizeMsg w h) m = (m\<lparr>width := w, height := h\<rparr>, NoCmd)"
| "Update (Internal msg) m = Update_internal msg m"
| "Update OtherMsg m = (m, NoCmd)"

text \<open>The model after a sequence of messages, as the event loop applies them.\<close>

definition Updates :: "'u tea_msg list \<Rightarrow> 'u Model \<Rightarrow> 'u Model" where
  "Updates msgs m = foldl (\<lambda>m msg. fst (Update msg m)) m msgs"

section \<open>Rendering\<close>

text \<open>The slice \<^verbatim>\<open>s[:n]\<close> of a string.\<close>

definition str_upto :: "string \<Rightarrow> int \<Rightarrow> string go" where
  "str_upto s n = (if 0 \<le> n \<and> n \<le> int (length s) then Ret (take (nat n) s) else Panic)"

definition logStyle :: "string \<Rightarrow> style" where
  "logStyle level =
     (if level = ''WRN'' \<or> level = ''WARN'' then logWarnStyle
      else if level = ''ERR'' \<or> level = ''ERROR'' then logErrorStyle
      else logInfoStyle)"

definition cutMessage :: "int \<Rightarrow> string \<Rightarrow> string go" where
  "cutMessage w text =
     (let maxLen = w - 10 in
      if maxLen > 0 \<and> int (length text) > maxLen
      then go_bind (str_upto text (maxLen - 3)) (\<lambda>t. Ret (t @ ''...''))
      else Ret text)"

fun logLines :: "(style \<Rightarrow> string \<Rightarrow> string) \<Rightarrow> int \<Rightarrow> log_msg list \<Rightarrow> string list go" where
  "logLines render w [] = Ret []"
| "logLines render w (l # ls) =
     go_bind (cutMessage w (Message l)) (\<lambda>text.
     go_bind (logLines render w ls) (\<lambda>lines.
       Ret (render (logStyle (Level l)) (''['' @ Level l @ ''] '' @ text) # lines)))"

definition renderLogs :: "(style \<Rightarrow> string \<Rightarrow> string) \<Rightarrow> 'u Model \<Rightarrow> string go" where
  "renderLogs render m =
     (if logs m = [] then Ret (render paramsStyle ''(no logs yet)'')
      else go_bind (logLines render (width m) (keep_last (maxLogLines m) (logs m))) (\<lambda>lines.
        Ret (join [CHR 0x0A] lines)))"

definition repeat_str :: "string \<Rightarrow> int \<Rightarrow> string go" where
  "repeat_str s n = (if n < 0 then Panic else Ret (concat (replicate (nat n) s)))"

definition renderSeparator :: "(style \<Rightarrow> string \<Rightarrow> string) \<Rightarrow> 'u Model \<Rightarrow> string go" where
  "renderSeparator render m =
     go_bind (repeat_str [CHR 0xE2, CHR 0x94, CHR 0x80] (width m)) (\<lambda>s. Ret (render separatorStyle s))"

definition shortTask :: "'u Model \<Rightarrow> string go" where
  "shortTask m =
     (let task = Task (params m) in
      if length task > 50 then go_bind (str_upto task 47) (\<lambda>t. Ret (t @ ''...'')) else Ret task)"

text \<open>The lines of the summary for the discarded episodes; the loop indexes one list by the
  positions of another.\<close>

fun reasonLines :: "string list \<Rightarrow> nat \<Rightarrow> string list \<Rightarrow> string list go" where
  "reasonLines ids i [] = Ret []"
| "reasonLines ids i (reason # rs) =
     (if i < length ids
      then go_bind (reasonLines ids (Suc i) rs) (\<lambda>ls.
        Ret ((''- Frame '' @ ids ! i @ '': '' @ reason) # ls))
      else Panic)"

definition discardedLines :: "'u Model \<Rightarrow> string list go" where
  "discardedLines m =
     (if discardedReasons m = [] then Ret []
      else go_bind (reasonLines (discardedFrameIds m) 0 (discardedReasons m)) (\<lambda>ls.
        Ret (''Discarded reasons:'' # ls)))"

section \<open>The log writer\<close>

definition logLevel :: "string \<Rightarrow> string" where
  \<open>logLevel line =
     (if str_contains line ''"level"'' then
        if str_contains line ''"warn"'' \<or> str_contains line ''"warning"'' then ''WRN''
        else if str_contains line ''"error"'' then ''ERR''
        else if str_contains line ''"debug"'' then ''DBG''
        else ''INF''
      else ''INF'')\<close>

definition logMessage :: "string \<Rightarrow> string" where
  \<open>logMessage line =
     (case str_index line ''"message":"'' of
        None \<Rightarrow> line
      | Some idx \<Rightarrow>
          (case str_index (drop (idx + 11) line) ''"'' of
             None \<Rightarrow> line
           | Some e \<Rightarrow> take e (drop (idx + 11) line)))\<close>

definition dropNewline :: "string \<Rightarrow> string" where
  "dropNewline p = (if p \<noteq> [] \<and> last p = CHR 0x0A then butlast p else p)"

definition tuiLogWriter_Write :: "int \<Rightarrow> string \<Rightarrow> int \<times> 'u msg" where
  "tuiLogWriter_Write now p =
     (let line = dropNewline p
      in (int (length p), LogMsg (logLevel line) (logMessage line) now))"

section \<open>The log pane\<close>

fun log_of :: "'u tea_msg \<Rightarrow> log_msg list" where
  "log_of (Internal (LogMsg level text t)) = [\<lparr>Level = level, Message = text, LogTime = t\<rparr>]"
| "log_of _ = []"

lemma maxLogLines_ge: "3 \<le> maxLogLines m"
  by (simp add: maxLogLines_def minLogLines_def Let_def)

lemma keep_last_suffix: "\<exists>k. keep_last n xs = drop k xs"
  by (auto simp: keep_last_def intro: exI [of _ 0])

lemma length_keep_last: "0 \<le> n \<Longrightarrow> length (keep_last n xs) = min (nat n) (length xs)"
  by (auto simp: keep_last_def)

lemma logs_Update: "logs (fst (Update msg m)) =
    (case log_of msg of [] \<Rightarrow> logs m | l # _ \<Rightarrow> keep_last (maxLogLines m) (logs m @ [l]))"
  by (cases msg rule: log_of.cases) (auto simp: Update_log_def Let_def)

lemma discarded_Update:
  "length (discardedReasons m) = length (discardedFrameIds m) \<Longrightarrow>
   episodesDiscarded m = of_nat (length (discardedReasons m)) \<Longrightarrow>
   length (discardedReasons (fst (Update msg m))) = length (discardedFrameIds (fst (Update msg m))) \<and>
   episodesDiscarded (fst (Update msg m)) = of_nat (length (discardedReasons (fst (Update msg m))))"
  by (cases msg rule: log_of.cases) (auto simp: Update_log_def Let_def)

lemma Updates_induct:
  assumes "P [] m" and "\<And>msgs msg. P msgs (Updates msgs m) \<Longrightarrow>
    P (msgs @ [msg]) (fst (Update msg (Updates msgs m)))"
  shows "P msgs (Updates msgs m)"
proof (induction msgs rule: rev_induct)
  case Nil
  then show ?case using assms(1) by (simp add: Updates_def)
next
  case (snoc msg msgs)
  then show ?case using assms(2) [of msgs msg] by (simp add: Updates_def)
qed

lemma reasonLines_Ret:
  "i + length rs \<le> length ids \<Longrightarrow> \<exists>ls. reasonLines ids i rs = Ret ls \<and> length ls = length rs"
proof (induction rs arbitrary: i)
  case (Cons r rs)
  then obtain ls where "reasonLines ids (Suc i) rs = Ret ls" "length ls = length rs"
    using Cons.IH [of "Suc i"] Cons.prems by (metis add_Suc_shift length_Cons)
  then show ?case using Cons.prems by simp
qed simp

text \<open>
  After any messages, the log pane holds the most recent log messages in the order they
  arrived: a suffix of all of them, with at least the last three.
\<close>

theorem log_pane_keeps_recent:
  "\<exists>k. logs (Updates msgs (NewModel now p)) = drop k (concat (map log_of msgs)) \<and>
     min 3 (length (concat (map log_of msgs))) \<le> length (logs (Updates msgs (NewModel now p)))"
proof (rule Updates_induct)
  fix msgs msg
  let ?m = "Updates msgs (NewModel now p)" and ?all = "concat (map log_of msgs)"
  assume "\<exists>k. logs ?m = drop k ?all \<and> min 3 (length ?all) \<le> length (logs ?m)"
  then obtain k where k: "logs ?m = drop k ?all" "min 3 (length ?all) \<le> length (logs ?m)" by blast
  show "\<exists>k. logs (fst (Update msg ?m)) = drop k (concat (map log_of (msgs @ [msg]))) \<and>
      min 3 (length (concat (map log_of (msgs @ [msg])))) \<le> length (logs (fst (Update msg ?m)))"
  proof (cases "log_of msg")
    case Nil
    then show ?thesis using k by (auto simp: logs_Update)
  next
    case (Cons l ls)
    then have ls: "ls = []" by (cases msg rule: log_of.cases) auto
    obtain j where j: "keep_last (maxLogLines ?m) (drop k ?all @ [l]) = drop j (drop k ?all @ [l])"
      using keep_last_suffix by blast
    let ?k = "min k (length ?all)"
    have "drop k ?all = drop ?k ?all" by (cases "k \<le> length ?all") simp_all
    then have "drop k ?all @ [l] = drop ?k (?all @ [l])" by simp
    then have "logs (fst (Update msg ?m)) = drop (j + ?k) (concat (map log_of (msgs @ [msg])))"
      using j Cons ls k(1) by (simp add: logs_Update drop_drop)
    moreover have "min 3 (length ?all + 1) \<le> length (logs (fst (Update msg ?m)))"
      using Cons ls k maxLogLines_ge [of ?m] by (auto simp: logs_Update length_keep_last)
    moreover have "length (concat (map log_of (msgs @ [msg]))) = length ?all + 1"
      using Cons ls by simp
    ultimately show ?thesis by metis
  qed
qed (simp add: NewModel_def)

text \<open>
  The summary never panics: after any messages, every discarded episode has a reason and a
  frame id, so the list of discarded episodes is printed, one line for each.
\<close>

theorem summary_lists_discarded:
  "\<exists>ls. discardedLines (Updates msgs (NewModel now p)) = Ret ls \<and>
     length ls = (let n = length (discardedReasons (Updates msgs (NewModel now p))) in
       if n = 0 then 0 else Suc n) \<and>
     episodesDiscarded (Updates msgs (NewModel now p)) =
       of_nat (length (discardedReasons (Updates msgs (NewModel now p))))"
proof -
  let ?m = "Updates msgs (NewModel now p)"
  have "length (discardedReasons ?m) = length (discardedFrameIds ?m) \<and>
      episodesDiscarded ?m = of_nat (length (discardedReasons ?m))"
    by (rule Updates_induct) (use discarded_Update in \<open>auto simp: NewModel_def\<close>)
  then show ?thesis
    using reasonLines_Ret [of 0 "discardedReasons ?m" "discardedFrameIds ?m"]
    by (auto simp: discardedLines_def)
qed

section \<open>Rendering the log pane\<close>

text \<open>What the pane shows of a message: all of it, or what fits with three dots.\<close>

definition shown_text :: "int \<Rightarrow> string \<Rightarrow> string" where
  "shown_text w text =
     (if 10 < w \<and> w - 10 < int (length text) then take (nat (w - 13)) text @ ''...'' else text)"

lemma shown_text_fits: "12 < w \<Longrightarrow> int (length (shown_text w text)) \<le> w - 10"
  by (auto simp: shown_text_def)

lemma cutMessage_Ret: "w < 11 \<or> 12 < w \<Longrightarrow> cutMessage w text = Ret (shown_text w text)"
  by (auto simp: cutMessage_def str_upto_def Let_def shown_text_def)

lemma logLines_Ret:
  "w < 11 \<or> 12 < w \<Longrightarrow> logLines render w ls =
     Ret (map (\<lambda>l. render (logStyle (Level l)) (''['' @ Level l @ ''] '' @ shown_text w (Message l))) ls)"
  by (induction ls) (simp_all add: cutMessage_Ret)

text \<open>
  The log pane renders at every window width but 11 and 12: one line for each of the last
  \<^verbatim>\<open>maxLogLines\<close> messages, in order, each message cut so that it fits into the window.
\<close>

theorem renderLogs_returns:
  assumes "width m < 11 \<or> 12 < width m"
  shows "renderLogs render m = Ret (if logs m = [] then render paramsStyle ''(no logs yet)''
      else join [CHR 0x0A] (map (\<lambda>l. render (logStyle (Level l))
        (''['' @ Level l @ ''] '' @ shown_text (width m) (Message l)))
        (drop (length (logs m) - nat (maxLogLines m)) (logs m)))) \<and>
    (\<forall>text. 12 < width m \<longrightarrow> int (length (shown_text (width m) text)) \<le> width m - 10)"
proof -
  have "keep_last (maxLogLines m) (logs m) = drop (length (logs m) - nat (maxLogLines m)) (logs m)"
    using maxLogLines_ge [of m] by (simp add: keep_last_def)
  then show ?thesis
    using assms shown_text_fits by (simp add: renderLogs_def logLines_Ret)
qed

theorem renderLogs_returns_witness:
  "renderLogs (\<lambda>_ s. s) (Updates [WindowSizeMsg 16 24, Internal (LogMsg ''INF'' ''read bounds'' 0)]
       (NewModel 0 \<lparr>Robot = [], Queue = [], Task = [], Duration = 0, Output = [], From = 0, To = 9 :: nat\<rparr>)) =
     Ret ''[INF] rea...''"
  using renderLogs_returns [of "Updates [WindowSizeMsg 16 24, Internal (LogMsg ''INF'' ''read bounds'' 0)]
       (NewModel 0 \<lparr>Robot = [], Queue = [], Task = [], Duration = 0, Output = [], From = 0, To = 9 :: nat\<rparr>)" "\<lambda>_ s. s"]
  by (simp add: Updates_def NewModel_def Update_log_def keep_last_def maxLogLines_def minLogLines_def
      shown_text_def)

text \<open>
  In a window 11 or 12 columns wide, any message longer than two bytes makes the log pane
  panic: it is cut to a negative length.
\<close>

theorem renderLogs_panics_in_narrow_window:
  "renderLogs render (Updates [WindowSizeMsg 12 24, Internal (LogMsg level (a # b # c # text) t)]
     (NewModel now p)) = Panic \<and>
   renderLogs render (Updates [WindowSizeMsg 11 24, Internal (LogMsg level (a # b # c # text) t)]
     (NewModel now p)) = Panic"
  by (simp add: Updates_def NewModel_def Update_log_def keep_last_def maxLogLines_def
      minLogLines_def renderLogs_def cutMessage_def str_upto_def)

section \<open>What the log writer reports\<close>

text \<open>
  A log line of zerolog whose message has no quotes is reported with exactly its message, and
  all its bytes count as written.
\<close>

theorem log_writer_message:
  \<open>\<not> str_contains (pre @ ''"message":'') ''"message":"'' \<Longrightarrow> CHR 0x22 \<notin> set text \<Longrightarrow>
   tuiLogWriter_Write now (pre @ ''"message":"'' @ text @ ''"'' @ post @ [CHR 0x0A]) =
     (int (length pre + length text + length post + 13),
      LogMsg (logLevel (pre @ ''"message":"'' @ text @ ''"'' @ post)) text now)\<close>
proof -
  assume a: \<open>\<not> str_contains (pre @ ''"message":'') ''"message":"''\<close> and b: "CHR 0x22 \<notin> set text"
  let ?line = \<open>pre @ ''"message":"'' @ text @ ''"'' @ post\<close>
  have i: \<open>str_index ?line ''"message":"'' = Some (length pre)\<close>
    by (rule index_first) (use a in simp_all)
  have "logMessage ?line = text"
    unfolding logMessage_def i using index_char [OF b, of post] by simp
  moreover have "dropNewline (?line @ [CHR 0x0A]) = ?line"
    by (simp only: dropNewline_def last_snoc butlast_snoc) simp
  ultimately show ?thesis
    by (simp add: tuiLogWriter_Write_def)
qed

theorem log_writer_message_witness:
  \<open>tuiLogWriter_Write 7 (''{"level":"warn","message":"slow reader"}'' @ [CHR 0x0A]) =
     (41, LogMsg ''WRN'' ''slow reader'' 7)\<close>
proof -
  have \<open>tuiLogWriter_Write 7 (''{"level":"warn",'' @ ''"message":"'' @ ''slow reader'' @ ''"'' @ ''}'' @ [CHR 0x0A]) =
     (int (length ''{"level":"warn",'' + length ''slow reader'' + length ''}'' + 13),
      LogMsg (logLevel (''{"level":"warn",'' @ ''"message":"'' @ ''slow reader'' @ ''"'' @ ''}'')) ''slow reader'' 7)\<close>
    by (rule log_writer_message) (simp_all add: str_contains_def has_prefix_def)
  then show ?thesis by (simp add: logLevel_def str_contains_def has_prefix_def)
qed

text \<open>
  A message with a quote in it is cut at the backslash that escapes the quote: the writer
  reads JSON without its escapes.
\<close>

theorem log_writer_cuts_escaped_quote:
  \<open>snd (tuiLogWriter_Write now (''{"level":"error","message":"open '' @ [CHR 0x5C] @ ''"a.bin'' @
       [CHR 0x5C] @ ''": denied"}'' @ [CHR 0x0A])) =
     LogMsg ''ERR'' (''open '' @ [CHR 0x5C]) now\<close>
  by (simp add: tuiLogWriter_Write_def dropNewline_def logLevel_def logMessage_def str_contains_def
      has_prefix_def)

end
