(* ===== verification/Dataset_Pipeline.thy ===== *)
theory Dataset_Pipeline
  imports Episodes Queue_Properties Ui_Model
begin

text \<open>
  The dataset generator as a whole: \<^verbatim>\<open>runProcessing\<close> of
  \<^verbatim>\<open>src/software/station/bin/dataset-generator/dataset-generator.go\<close> composes the bounds search,
  the stream, the episode detector and the messages to the terminal interface, and what the
  interface shows is compared with what the detector did. Log output is not modelled: it
  changes no state but the log pane.
\<close>

section \<open>The main loop\<close>

text \<open>A station client as it answers the two concurrent bound searches and the stream.\<close>

record 'u station =
  answersFrom :: "'u client"
  answersTo :: "'u client"
  answersStream :: "'u client"

definition SendProgress :: "'u \<Rightarrow> 'u \<Rightarrow> uint64 \<Rightarrow> 'u ed_state \<Rightarrow> 'u ed_state" where
  "SendProgress cur tot n s = Send (ProgressMsg cur tot n) s"

text \<open>The progress message of every 500th frame.\<close>

definition reportProgress ::
  "'u uintn_ops \<Rightarrow> 'u QueueBounds \<Rightarrow> FrameReader \<Rightarrow> uint64 \<Rightarrow> 'u ed_state \<Rightarrow> 'u ed_state go" where
  "reportProgress ops bounds frame count s =
     (if program (fst s) \<and> count mod 500 = 0 then
        (case fromLEBytes ops (GetGlobalFrameId frame) of
           Ret currentPos \<Rightarrow> Ret (SendProgress currentPos (QueueBounds.To bounds) count s)
         | Err _ \<Rightarrow> Ret s
         | Panic \<Rightarrow> Panic)
      else Ret s)"

fun processFrames ::
  "'u uintn_ops \<Rightarrow> (byte list \<Rightarrow> string option) \<Rightarrow> (nat \<Rightarrow> env) \<Rightarrow> 'u QueueBounds \<Rightarrow> FrameReader list \<Rightarrow> nat \<Rightarrow>
   'u ed_state \<Rightarrow> (nat \<times> 'u ed_state) go" where
  "processFrames ops fmtId envs bounds [] count s = Ret (count, s)"
| "processFrames ops fmtId envs bounds (frame # fs) count s =
     go_bind (ProcessFrame fmtId (envs count) frame s) (\<lambda>s.
     go_bind (reportProgress ops bounds frame (of_nat (Suc count)) s)
       (processFrames ops fmtId envs bounds fs (Suc count)))"

definition runProcessing ::
  "'u uintn_ops \<Rightarrow> (byte list \<Rightarrow> string option) \<Rightarrow> (string \<Rightarrow> 'u station go) \<Rightarrow>
   (byte list \<Rightarrow> rx_entry list option) \<Rightarrow> (byte list \<Rightarrow> FrameReader option) \<Rightarrow>
   (nat \<Rightarrow> env) \<Rightarrow> merge_env \<Rightarrow> uint64 \<Rightarrow> bool \<Rightarrow> 'u Params \<Rightarrow> 'u World \<Rightarrow>
   ('u ed_state option \<times> 'u World \<times> string option) run" where
  "runProcessing ops fmtId newClient parseRx parseFrame envs me minCmd prog p w =
     (case newClient (Robot p) of
        Err e \<Rightarrow> Some (Ret (None, w, Some (''failed to create station client: '' @ e)))
      | Panic \<Rightarrow> Some Panic
      | Ret st \<Rightarrow>
          Option.bind (FetchQueueBounds ops (answersFrom st) (answersTo st) parseRx
              (Params.From p) (Params.To p) (Queue p)) (\<lambda>r.
            case r of
              Err e \<Rightarrow> Some (Ret (None, w, Some (''failed to fetch queue bounds: '' @ e)))
            | Panic \<Rightarrow> Some Panic
            | Ret bounds \<Rightarrow>
                run_bind (StreamFrames ops (answersStream st) parseFrame (Queue p) bounds)
                  (\<lambda>(frames, streamErr).
                   Some (go_bind (processFrames ops fmtId envs bounds frames 0
                       (NewEpisodeDetector (word_of_int (Duration p)) (Task p) minCmd prog, w))
                     (\<lambda>(count, s).
                       case streamErr of
                         Some e \<Rightarrow> Ret (Some s, snd s, Some (''failed to read range: '' @ e))
                       | None \<Rightarrow>
                           go_bind (Finalize fmtId (envs count) me s) (\<lambda>s.
                             let s = SendProgress (Params.To p) (Params.To p) (of_nat count) s
                             in Ret (Some s, snd s, None)))))))"

section \<open>Parameters from the command line\<close>

record flags =
  robot :: string
  queue :: string
  fromFlag :: string
  toFlag :: string
  outputFlag :: string
  flagTask :: string
  episodeDuration :: uint64
  episodeMinCommands :: uint64
  noTui :: bool

text \<open>The checks at the start of \<^verbatim>\<open>main\<close>; \<open>parseDecimal\<close> is the parser of the package uintn, and a
  fatal log entry is a panic.\<close>

definition mainParams :: "(string \<Rightarrow> 'u go) \<Rightarrow> flags \<Rightarrow> 'u Params go" where
  "mainParams parseDecimal fl =
     (if fromFlag fl = [] \<or> toFlag fl = [] then Panic
      else if outputFlag fl = [] then Panic
      else if flagTask fl = [] then Panic
      else (case parseDecimal (fromFlag fl) of
          Ret fromPtr \<Rightarrow> (case parseDecimal (toFlag fl) of
              Ret toPtr \<Rightarrow> Ret \<lparr>Robot = robot fl, Queue = queue fl, Task = flagTask fl,
                Duration = sint (episodeDuration fl * 1000000000), Output = outputFlag fl,
                From = fromPtr, To = toPtr\<rparr>
            | Err _ \<Rightarrow> Panic
            | Panic \<Rightarrow> Panic)
        | Err _ \<Rightarrow> Panic
        | Panic \<Rightarrow> Panic))"

section \<open>What the interface shows of the detector\<close>

text \<open>The interface after all messages sent so far.\<close>

definition ui :: "'u Model \<Rightarrow> 'u World \<Rightarrow> 'u Model" where
  "ui m0 w = Updates (map Internal (sent w)) m0"

lemma ui_Send [simp]:
  "program (fst s) \<Longrightarrow> ui m0 (snd (Send msg s)) = fst (Update_internal msg (ui m0 (snd s)))"
  by (simp add: ui_def Send_def Updates_def)

lemma ui_files [simp]: "ui m0 (w\<lparr>files := fs\<rparr>) = ui m0 w"
  by (simp add: ui_def)

definition counters_shown :: "EpisodeDetector \<Rightarrow> 'u Model \<Rightarrow> bool" where
  "counters_shown ed m \<longleftrightarrow>
     episodeCount m = EpisodesSaved (stats ed) \<and>
     episodesDiscarded m = EpisodesDiscarded (stats ed) \<and>
     (of_int (totalFramesSaved m) :: uint64) = TotalFramesSaved (stats ed)"

text \<open>The frame counter of the interface is one behind the buffer: the message about the first
  frame of an episode is sent before the message that starts the episode and resets it.\<close>

definition episode_shown :: "EpisodeDetector \<Rightarrow> 'u Model \<Rightarrow> bool" where
  "episode_shown ed m \<longleftrightarrow>
     (of_int (framesInEpisode m) :: uint64) + 1 = of_nat (length (buffer ed)) \<and>
     Model.episodeSkipReason m = EpisodeDetector.episodeSkipReason ed \<and>
     currentEpisodeIndex m = episodeIndex ed"

definition shown :: "EpisodeDetector \<Rightarrow> 'u Model \<Rightarrow> bool" where
  "shown ed m \<longleftrightarrow> counters_shown ed m \<and> (episodeMonotonicStart ed \<noteq> 0 \<longrightarrow> episode_shown ed m)"

lemma of_int_iadd: "(of_int (iadd a b) :: uint64) = of_int a + of_int b"
proof -
  have m: "(of_int (x mod 2 ^ 64) :: uint64) = of_int x" for x
    by (simp add: word_of_int_eq_iff take_bit_eq_mod)
  have "(of_int (iadd a b) :: uint64) = of_int ((a + b + 2 ^ 63) mod 2 ^ 64) - of_int (2 ^ 63)"
    by (simp only: iadd_def wrap_int_def of_int_diff)
  also have "\<dots> = of_int a + of_int b"
    unfolding m by simp
  finally show ?thesis .
qed

lemma program_ops [simp]:
  "program (updateGoalTracking g ed) = program ed" "program (resetEpisode ed) = program ed"
  "program (discard ed) = program ed" "program (saved_ed ed) = program ed"
  "program (fst (startNewEpisode e f s)) = program (fst s)"
  by (simp_all add: updateGoalTracking_def resetEpisode_def discard_def saved_ed_def startNewEpisode_def Let_def)

lemma shown_trySave:
  assumes "program (fst s)" and "buffer (fst s) \<noteq> []" and "counters_shown (fst s) (ui m0 (snd s))"
    and "trySaveCurrentEpisode fmtId e s = Ret s'"
  shows "program (fst s') \<and> counters_shown (fst s') (ui m0 (snd s'))"
proof -
  have ui: "ui m0 (snd s') = fst (Update_internal msg (ui m0 (snd s)))" if "sent (snd s') = sent (snd (Send msg s))" for msg
    using that ui_Send [OF assms(1), of m0 msg] by (simp only: ui_def)
  from assms(2) show ?thesis
  proof (cases rule: trySave_cases [of s fmtId e])
    case (Discarded s1)
    then obtain r i where "sent (snd s') = sent (snd (Send (EpisodeDiscardedMsg (episodeIndex (fst s)) r i) s))"
      using assms(4) by auto
    from ui [OF this] show ?thesis using Discarded assms by (simp add: counters_shown_def discard_def)
  next
    case (Failed s1)
    then have "ui m0 (snd s') = ui m0 (snd s)" using assms(4) by (simp add: ui_def)
    then show ?thesis using Failed assms by simp
  next
    case (Saved s1)
    then have "sent (snd s') = sent (snd (Send (EpisodeSavedMsg (episodeIndex (fst s)) (int (length (buffer (fst s))))) s))"
      using assms(4) by simp
    from ui [OF this] show ?thesis using Saved assms by (simp add: counters_shown_def saved_ed_def of_int_iadd)
  qed (use assms(4) in simp)
qed

lemma shown_start:
  assumes "program (fst s)" and "counters_shown (fst s) (ui m0 (snd s))"
    and "EpisodeDetector.episodeSkipReason (fst s) = []"
  shows "shown (updateGoalTracking g (fst (startNewEpisode e f s))) (ui m0 (snd (startNewEpisode e f s)))"
  using assms
  by (simp add: startNewEpisode_def bufferFrame_def Let_def shown_def counters_shown_def
      episode_shown_def)

lemma shown_buffer:
  assumes "program (fst s)" and "shown (fst s) (ui m0 (snd s))"
  shows "shown (fst (bufferFrame f stamp s)) (ui m0 (snd (bufferFrame f stamp s)))"
  using assms
  by (cases s) (simp add: bufferFrame_def Let_def shown_def counters_shown_def episode_shown_def of_int_iadd)

lemma shown_mark:
  assumes "program (fst s)" and "shown (fst s) (ui m0 (snd s))"
  shows "shown ((fst s)\<lparr>EpisodeDetector.episodeSkipReason := r, episodeSkipFrameId := i\<rparr>)
    (ui m0 (snd (Send (EpisodeSkipMarkedMsg idx r) ((fst s)\<lparr>EpisodeDetector.episodeSkipReason := r, episodeSkipFrameId := i\<rparr>, snd s))))"
  using assms by (simp add: shown_def counters_shown_def episode_shown_def)

lemma shown_track:
  "shown (trackCommands f ed) m = shown ed m" "shown (updateGoalTracking g ed) m = shown ed m"
  by (simp_all add: shown_def counters_shown_def episode_shown_def)

lemma shown_frame:
  assumes "program (fst s)" and "shown (fst s) (ui m0 (snd s))" and "episodeFrame fmtId f s = Ret s'"
  shows "shown (fst s') (ui m0 (snd s'))"
proof (cases rule: episodeFrame_cases [of fmtId f s])
  case (marked r i)
  then show ?thesis
    using assms shown_mark [of "(trackCommands f (fst s), snd s)" m0 i r "episodeIndex (fst s)"] by (simp add: shown_track)
next
  case buffered
  then show ?thesis
    using assms shown_buffer [of "(trackCommands f (fst s), snd s)" m0 f "GetMonotonicStampNs f - episodeMonotonicStart (fst s)"]
    by (simp add: shown_track)
qed (use assms in \<open>auto simp: shown_track\<close>)

lemma shown_ProcessFrame:
  assumes "ed_inv (fst s)" and "program (fst s)" and "shown (fst s) (ui m0 (snd s))"
    and "ProcessFrame fmtId e f s = Ret s'"
  shows "program (fst s') \<and> shown (fst s') (ui m0 (snd s'))"
  using assms(1)
proof (cases rule: ProcessFrame_cases [of s fmtId e f])
  case skip
  then show ?thesis using assms by simp
next
  case idle
  then show ?thesis using assms by (auto simp: shown_track)
next
  case (start s1)
  have "EpisodeDetector.episodeSkipReason (fst s) = []" using assms(1) start(4) by (simp add: ed_inv_def)
  then show ?thesis
    using assms(2-4) start(1,2) shown_start [of s m0 "map GetGoal (GetJoints f)" e f]
    by (auto simp: shown_def [of "fst s"])
next
  case (go_on s2)
  then show ?thesis using assms shown_frame [OF assms(2,3) go_on(1)] episodeFrame_keeps(7) [OF go_on(1)] by simp
next
  case (finish s2 s1)
  have "program (fst s1) \<and> counters_shown (fst s1) (ui m0 (snd s1))"
    using shown_trySave [OF _ finish(8) _ finish(2), of m0] shown_frame [OF assms(2,3) finish(1)] assms(2)
      episodeFrame_keeps(7) [OF finish(1)] by (simp add: shown_def)
  then show ?thesis using finish(3) assms(4) by (auto simp: shown_def counters_shown_def)
qed (use assms(4) in simp_all)

section \<open>The whole run\<close>

lemma length_frames_of: "length (frames_of pf es) \<le> length es"
  by (induction es) (auto split: option.splits)

text \<open>The detector never tells the interface that the work is done: only the processing goroutine does, at its end.\<close>

definition not_done :: "'u World \<Rightarrow> bool" where
  "not_done w \<longleftrightarrow> (\<forall>e. DoneMsg e \<notin> set (sent w))"

lemma not_done_Send: "\<forall>e. m \<noteq> DoneMsg e \<Longrightarrow> not_done (snd (Send m s)) = not_done (snd s)"
  by (auto simp: not_done_def Send_def)

lemma not_done_buffer: "not_done (snd (bufferFrame f stamp s)) = not_done (snd s)"
  by (simp add: bufferFrame_def Let_def not_done_Send)

lemma not_done_trySave:
  assumes "trySaveCurrentEpisode fmtId e s = Ret s'" and "not_done (snd s)" and "buffer (fst s) \<noteq> []"
  shows "not_done (snd s')"
proof -
  have send: "\<forall>e. m \<noteq> DoneMsg e \<Longrightarrow> sent (snd s') = sent (snd (Send m s)) \<Longrightarrow> not_done (snd s')" for m
    using not_done_Send [of m s] assms(2) by (simp add: not_done_def)
  from assms(3) show ?thesis
  proof (cases rule: trySave_cases [of s fmtId e])
    case (Discarded s1)
    then show ?thesis using assms(1) send by auto
  next
    case (Failed s1)
    then show ?thesis using assms(1,2) by (simp add: not_done_def)
  next
    case (Saved s1)
    then show ?thesis using assms(1) send by auto
  qed (use assms(1) in simp)
qed

lemma not_done_episodeFrame:
  assumes "episodeFrame fmtId f s = Ret s'" and "not_done (snd s)"
  shows "not_done (snd s')"
  by (cases rule: episodeFrame_cases [of fmtId f s]) (use assms in \<open>auto simp: not_done_Send not_done_buffer\<close>)

lemma not_done_ProcessFrame:
  assumes "ed_inv (fst s)" and "not_done (snd s)" and "ProcessFrame fmtId e f s = Ret s'"
  shows "not_done (snd s')"
  using assms(1)
proof (cases rule: ProcessFrame_cases [of s fmtId e f])
  case (finish s2 s1)
  then show ?thesis
    using assms(3) not_done_trySave [OF finish(2) _ finish(8)] not_done_episodeFrame [OF finish(1) assms(2)] by simp
next
  case (go_on s2)
  then show ?thesis using assms(3) not_done_episodeFrame [OF go_on(1) assms(2)] by simp
next
  case (start s1)
  then show ?thesis using assms(2,3) by (simp add: startNewEpisode_def Let_def not_done_Send not_done_buffer)
qed (use assms(2,3) in auto)

text \<open>What holds between two frames of the main loop, with the episodes saved so far.\<close>

definition run_ok :: "(byte list \<Rightarrow> string option) \<Rightarrow> 'u Model \<Rightarrow> string \<Rightarrow> bool \<Rightarrow> Frame list list \<Rightarrow> 'u ed_state \<Rightarrow> bool" where
  "run_ok fmtId m0 tsk prog hist s \<longleftrightarrow>
     ed_inv (fst s) \<and> task (fst s) = tsk \<and> program (fst s) = prog \<and> holds_episodes hist s \<and>
     (prog \<longrightarrow> shown (fst s) (ui m0 (snd s))) \<and>
     (\<forall>g \<in> set (buffer (fst s)). fmtId (GlobalFrameID g) \<noteq> None) \<and> not_done (snd s)"

lemma ProcessFrame_program:
  assumes "ed_inv (fst s)" and "ProcessFrame fmtId e f s = Ret s'"
  shows "program (fst s') = program (fst s)"
  using assms(1)
proof (cases rule: ProcessFrame_cases [of s fmtId e f])
  case (finish s2 s1)
  have s': "fst s' = resetEpisode (fst s1)" using finish(3) assms(2) by auto
  from finish(8) have "program (fst s1) = program (fst s2)"
    by (cases rule: trySave_cases [of s2 fmtId e]) (use finish(2) in simp_all)
  then show ?thesis using s' episodeFrame_keeps(7) [OF finish(1)] by simp
next
  case (go_on s2)
  then show ?thesis using assms(2) episodeFrame_keeps(7) [OF go_on(1)] by simp
next
  case (start s1)
  have "fst s' = updateGoalTracking (map GetGoal (GetJoints f)) (fst s1)" using start(2) assms(2) by auto
  then show ?thesis using start(1) by simp
next
  case idle
  then have "fst s' = updateGoalTracking (map GetGoal (GetJoints f)) (fst s)" using assms(2) by auto
  then show ?thesis by simp
qed (use assms(2) in simp_all)

text \<open>The buffered frames are among those that have arrived.\<close>

lemma ProcessFrame_buffer:
  assumes "ed_inv (fst s)" and "ProcessFrame fmtId e f s = Ret s'"
  shows "GlobalFrameID ` set (buffer (fst s')) \<subseteq> insert (GetGlobalFrameId f) (GlobalFrameID ` set (buffer (fst s)))"
  using assms(1)
proof (cases rule: ProcessFrame_cases [of s fmtId e f])
  case (go_on s2)
  then show ?thesis
    using assms(2) by (cases rule: episodeFrame_cases [of fmtId f s]) auto
next
  case (start s1)
  have "buffer (fst s') = buffer (fst (startNewEpisode e f s))" using start(1,2) assms(2) by auto
  then show ?thesis by (simp add: startNewEpisode_def Let_def)
next
  case idle
  then have "buffer (fst s') = buffer (fst s)" using assms(2) by auto
  then show ?thesis by auto
next
  case (finish s2 s1)
  then have "buffer (fst s') = []" using assms(2) by auto
  then show ?thesis by simp
qed (use assms(2) in auto)

lemma run_ok_frame:
  assumes "run_ok fmtId m0 tsk prog hist s" and "length hist + 1 < 2 ^ 64" and "fmtId (GetGlobalFrameId f) \<noteq> None"
  obtains s' hist' where "ProcessFrame fmtId e f s = Ret s'" and "length hist' \<le> Suc (length hist)"
    and "run_ok fmtId m0 tsk prog hist' s'"
proof -
  have ok: "ed_inv (fst s)" "task (fst s) = tsk" "program (fst s) = prog" "holds_episodes hist s"
    "prog \<Longrightarrow> shown (fst s) (ui m0 (snd s))" "\<forall>g \<in> set (buffer (fst s)). fmtId (GlobalFrameID g) \<noteq> None" "not_done (snd s)"
    using assms(1) by (simp_all add: run_ok_def)
  have "\<not> frame_unreadable fmtId f (fst s)" using assms(3) by (simp add: frame_unreadable_def)
  then have "\<exists>s'. ProcessFrame fmtId e f s = Ret s'"
    using ProcessFrame_panics [OF ok(1), of fmtId f e] by (simp only: if_False)
  then obtain s' where s': "ProcessFrame fmtId e f s = Ret s'" by blast
  obtain hist' where "length hist' \<le> Suc (length hist)" "holds_episodes hist' s'"
    using holds_ProcessFrame [OF ok(4,1) assms(2) s'] by blast
  moreover have "prog \<Longrightarrow> shown (fst s') (ui m0 (snd s'))"
    using shown_ProcessFrame [OF ok(1) _ ok(5) s'] ok(3) by simp
  moreover have "\<forall>g \<in> set (buffer (fst s')). fmtId (GlobalFrameID g) \<noteq> None"
  proof
    fix g assume "g \<in> set (buffer (fst s'))"
    from subsetD [OF ProcessFrame_buffer [OF ok(1) s'] imageI [OF this]]
    consider "GlobalFrameID g = GetGlobalFrameId f" | g' where "g' \<in> set (buffer (fst s))" "GlobalFrameID g = GlobalFrameID g'"
      by (elim insertE imageE)
    then show "fmtId (GlobalFrameID g) \<noteq> None"
    proof cases
      case 1
      with assms(3) show ?thesis by (simp only: not_False_eq_True)
    next
      case (2 g')
      with bspec [OF ok(6) 2(1)] show ?thesis by (simp only: not_False_eq_True)
    qed
  qed
  ultimately show thesis
    using that [OF s', of hist'] inv_ProcessFrame [OF ok(1) s'] ProcessFrame_program [OF ok(1) s'] ok(2,3)
      not_done_ProcessFrame [OF ok(1,7) s']
    unfolding run_ok_def by simp
qed

lemma run_ok_progress:
  assumes "run_ok fmtId m0 tsk prog hist s"
  shows "run_ok fmtId m0 tsk prog hist (SendProgress cur tot n s)"
proof -
  have "shown ed (fst (Update_internal (ProgressMsg cur tot n) m)) = shown ed m" for ed and m :: "'a Model"
    by (simp add: shown_def counters_shown_def episode_shown_def)
  then show ?thesis
    using assms by (auto simp: run_ok_def SendProgress_def holds_episodes_def not_done_Send)
qed

lemma run_ok_report:
  assumes "run_ok fmtId m0 tsk prog hist s" and "\<And>bs. fromLEBytes ops bs \<noteq> Panic"
  shows "\<exists>s'. reportProgress ops bounds f n s = Ret s' \<and> run_ok fmtId m0 tsk prog hist s'"
  using assms(1) assms(2) [of "GetGlobalFrameId f"] run_ok_progress [OF assms(1)]
  by (cases "fromLEBytes ops (GetGlobalFrameId f)") (simp_all add: reportProgress_def del: split_paired_Ex)

lemma run_ok_frames:
  assumes "\<And>bs. fromLEBytes ops bs \<noteq> Panic"
  shows "run_ok fmtId m0 tsk prog hist s \<Longrightarrow> length hist + length fs < 2 ^ 64 \<Longrightarrow>
    \<forall>f \<in> set fs. fmtId (GetGlobalFrameId f) \<noteq> None \<Longrightarrow>
    \<exists>s' hist'. processFrames ops fmtId envs bounds fs count s = Ret (count + length fs, s') \<and>
      length hist' \<le> length hist + length fs \<and> run_ok fmtId m0 tsk prog hist' s'"
proof (induction fs arbitrary: hist s count)
  case Nil
  then show ?case by (intro exI [of _ s] exI [of _ hist]) simp
next
  case (Cons f fs)
  obtain s1 h1 where 1: "ProcessFrame fmtId (envs count) f s = Ret s1" "length h1 \<le> Suc (length hist)"
    "run_ok fmtId m0 tsk prog h1 s1"
    using run_ok_frame [OF Cons.prems(1), of f "envs count"] Cons.prems(2,3) by auto
  obtain s2 where 2: "reportProgress ops bounds f (of_nat (Suc count)) s1 = Ret s2" "run_ok fmtId m0 tsk prog h1 s2"
    using run_ok_report [OF 1(3) assms] by blast
  have "length h1 + length fs < 2 ^ 64" using 1(2) Cons.prems(2) by simp
  from Cons.IH [OF 2(2) this, of "Suc count"] Cons.prems(3) obtain s3 h3
    where 3: "processFrames ops fmtId envs bounds fs (Suc count) s2 = Ret (Suc count + length fs, s3)"
    "length h3 \<le> length h1 + length fs" "run_ok fmtId m0 tsk prog h3 s3" by auto
  then show ?case using 1 2 by (intro exI [of _ s3] exI [of _ h3]) simp
qed

lemma run_ok_New:
  assumes "sent w = []"
  shows "run_ok fmtId (NewModel now p) tsk prog [] (NewEpisodeDetector dur tsk minCmd prog, w)"
proof -
  have "task (NewEpisodeDetector dur tsk minCmd prog) = tsk" "buffer (NewEpisodeDetector dur tsk minCmd prog) = []"
    and "program (NewEpisodeDetector dur tsk minCmd prog) = prog"
    and "shown (NewEpisodeDetector dur tsk minCmd prog) (ui (NewModel now p) w)"
    using assms by (simp_all add: NewEpisodeDetector_def shown_def counters_shown_def ui_def Updates_def
        NewModel_def)
  then show ?thesis
    unfolding run_ok_def by (simp only: fst_conv snd_conv inv_New holds_New) (simp add: assms not_done_def)
qed

lemma run_ok_Finalize:
  assumes "run_ok fmtId m0 tsk prog hist s" and "length hist + 1 < 2 ^ 64"
    and "\<And>i. \<not> openFails me i" and "\<not> createMergedFails me" and "mergeFails me = None"
  shows "list_all (episode_ok tsk) (final_episodes e s) \<and>
    (\<exists>s'. Finalize fmtId e me s = Ret s' \<and> program (fst s') = prog \<and> not_done (snd s') \<and>
    EpisodesSaved (stats (fst s')) = of_nat (length (final_episodes e s)) \<and>
    TotalFramesSaved (stats (fst s')) = of_nat (length (concat (final_episodes e s))) \<and>
    (final_episodes e s \<noteq> [] \<longrightarrow> files (snd s') MergedFile = Some (concat (final_episodes e s))) \<and>
    (prog \<longrightarrow> counters_shown (fst s') (ui m0 (snd s'))))"
proof -
  have ok: "ed_inv (fst s)" "holds_episodes hist s" "task (fst s) = tsk" "program (fst s) = prog"
    "prog \<Longrightarrow> counters_shown (fst s) (ui m0 (snd s))" "\<forall>g \<in> set (buffer (fst s)). fmtId (GlobalFrameID g) \<noteq> None" "not_done (snd s)"
    using assms(1) by (simp_all add: run_ok_def shown_def)
  have buf: "episodeMonotonicStart (fst s) \<noteq> 0 \<Longrightarrow> buffer (fst s) \<noteq> []"
    using ok(1) by (simp add: ed_inv_def)
  then have rd: "\<not> (episodeMonotonicStart (fst s) \<noteq> 0 \<and> save_unreadable fmtId (fst s))"
    using ok(6) last_in_set by (auto simp: save_unreadable_def)
  obtain s1 where f: "Finalize fmtId e me s = Ret (mergeParquetFiles me s1)"
    and h1: "length (final_episodes e s) \<le> Suc (length hist)" "holds_episodes (final_episodes e s) s1"
      "EpisodesSaved (stats (fst s1)) = episodeIndex (fst s1)" "task (fst s1) = task (fst s)"
    and sv: "(if episodeMonotonicStart (fst s) \<noteq> 0 then trySaveCurrentEpisode fmtId e s else Ret s) = Ret s1"
    by (rule finalize_saves [OF ok(1,2) assms(2) rd, of e me]) blast
  have p: "program (fst s1) = prog"
  proof (cases "episodeMonotonicStart (fst s) = 0")
    case True
    then show ?thesis using sv ok(4) by simp
  next
    case False
    then show ?thesis using sv ok(4)
      by (cases rule: trySave_cases [OF buf [OF False], of fmtId e]) auto
  qed
  have c: "prog \<Longrightarrow> counters_shown (fst s1) (ui m0 (snd s1))"
    using sv ok(4,5) buf shown_trySave [of s m0 fmtId e s1] by (auto split: if_splits)
  have d: "not_done (snd s1)" using sv ok(7) buf not_done_trySave [of fmtId e s s1] by (auto split: if_splits)
  have u: "ui m0 (snd (mergeParquetFiles me s1)) = ui m0 (snd s1)" "not_done (snd (mergeParquetFiles me s1)) = not_done (snd s1)"
    by (simp_all add: mergeParquetFiles_def not_done_def Let_def split: option.splits)
  have "length (final_episodes e s) < 2 ^ 64" using h1(1) assms(2) by simp
  note m = merge_holds(1) [OF h1(2) this _ assms(3-5)]
  show ?thesis
    using f h1 m p c d u ok(3) by (simp add: holds_episodes_def length_concat merge_keeps_detector)
qed

text \<open>
  C12. The display agrees with the detector: after any frames of a run with the terminal
  interface, the saved and discarded episodes and the saved frames it shows are those of the
  detector, and during an episode it shows its number and its skip reason, and one frame
  less than are buffered.
\<close>

theorem display_agrees_with_detector:
  assumes "run_to fmtId (NewEpisodeDetector dur tsk minCmd True, w) n s" and "sent w = []"
  shows "counters_shown (fst s) (Updates (map Internal (sent (snd s))) (NewModel now p)) \<and>
    (episodeMonotonicStart (fst s) \<noteq> 0 \<longrightarrow>
       episode_shown (fst s) (Updates (map Internal (sent (snd s))) (NewModel now p)))"
proof -
  have "ed_inv (fst s) \<and> program (fst s) \<and> shown (fst s) (ui (NewModel now p) (snd s))"
    using assms(1)
  proof induction
    case run_start
    then show ?case using run_ok_New [OF assms(2), of fmtId now p tsk True dur minCmd] by (simp add: run_ok_def)
  next
    case (run_frame n s e f s')
    then show ?case using inv_ProcessFrame [of s fmtId e f s'] shown_ProcessFrame [of s "NewModel now p" fmtId e f s'] by blast
  qed
  then show ?thesis by (simp add: shown_def ui_def)
qed

definition demo_params :: "nat Params" where
  "demo_params = \<lparr>Robot = ''r'', Queue = ''inference/normvla'', Task = ''pick'', Duration = 10,
     Output = ''out'', From = 5, To = 9\<rparr>"

theorem display_agrees_with_detector_witness:
  "\<exists>s. run_to (\<lambda>_. Some ''id'') demo_start 2 s \<and> length (buffer (fst s)) = 1 \<and>
     (of_int (framesInEpisode (Updates (map Internal (sent (snd s))) (NewModel 0 demo_params))) :: uint64) = 0"
proof -
  have "\<exists>s. go_fold (\<lambda>f s. ProcessFrame (\<lambda>_. Some ''id'') demo_env f s) [demo_frame 5 1, demo_frame 10 2] demo_start = Ret s \<and>
      length (buffer (fst s)) = 1 \<and> episodeMonotonicStart (fst s) \<noteq> 0"
    by (simp add: demo_start_def demo_frame_def demo_joint_def demo_env_def NewEpisodeDetector_def ed_ops)
  then obtain s where s: "go_fold (\<lambda>f s. ProcessFrame (\<lambda>_. Some ''id'') demo_env f s) [demo_frame 5 1, demo_frame 10 2] demo_start = Ret s"
    "length (buffer (fst s)) = 1" "episodeMonotonicStart (fst s) \<noteq> 0" by blast
  have r: "run_to (\<lambda>_. Some ''id'') demo_start 2 s"
    using run_fold [OF run_start s(1)] by (simp add: numeral_2_eq_2)
  have "episode_shown (fst s) (Updates (map Internal (sent (snd s))) (NewModel 0 demo_params))"
    using display_agrees_with_detector [OF r [unfolded demo_start_def], of 0 demo_params] s(3) by simp
  then show ?thesis using r s(2) by (intro exI [of _ s]) (simp add: episode_shown_def)
qed

lemma frames_of_set: "fr \<in> set (frames_of pf es) \<Longrightarrow> \<exists>x \<in> set es. pf (entryData x) = Some fr"
  by (induction es) (auto split: option.splits)

text \<open>
  The whole program: when the client connects and finds the bounds of the queue, the station serves the queue in
  order, the ids of its frames can be read and no step of the merge fails, the run ends without an error; the merged file holds the
  well-formed episodes that the detector has saved, one after the other, and the interface ends at the upper bound with
  the number of frames between the bounds, of saved episodes and of frames in the file.
\<close>

lemma run_dataset_done:
  assumes "uintn_ok ops val" and "\<And>bs. fromLEBytes ops bs \<noteq> Panic" and "newClient (Robot p) = Ret st"
    and "FetchQueueBounds ops (answersFrom st) (answersTo st) parseRx (Params.From p) (Params.To p) (Queue p) =
      Some (Ret \<lparr>QueueBounds.From = f, To = t\<rparr>)"
    and "serves val (answersStream st) (Queue p) store" and "length store + 1 < 2 ^ 64"
    and "sent w = []"
    and "\<And>i. \<not> openFails me i" and "\<not> createMergedFails me" and "mergeFails me = None"
    and "\<forall>x \<in> set store. \<forall>fr. parseFrame (entryData x) = Some fr \<longrightarrow> fmtId (GetGlobalFrameId fr) \<noteq> None"
  shows "let fs = frames_of parseFrame (filter (\<lambda>e. val f \<le> val (entryId e) \<and> val (entryId e) \<le> val t) store) in
    \<exists>s1 s. processFrames ops fmtId envs \<lparr>QueueBounds.From = f, To = t\<rparr> fs 0
        (NewEpisodeDetector (word_of_int (Duration p)) (Task p) minCmd True, w) = Ret (length fs, s1) \<and>
      not_done (snd s) \<and>
      runProcessing ops fmtId newClient parseRx parseFrame envs me minCmd True p w = Some (Ret (Some s, snd s, None)) \<and>
      list_all (episode_ok (Task p)) (final_episodes (envs (length fs)) s1) \<and>
      (final_episodes (envs (length fs)) s1 \<noteq> [] \<longrightarrow>
         files (snd s) MergedFile = Some (concat (final_episodes (envs (length fs)) s1))) \<and>
      (let m = Updates (map Internal (sent (snd s))) (NewModel now p) in
         current m = Params.To p \<and> framesProcessed m = of_nat (length fs) \<and>
         episodeCount m = of_nat (length (final_episodes (envs (length fs)) s1)) \<and>
         (of_int (totalFramesSaved m) :: uint64) = of_nat (length (concat (final_episodes (envs (length fs)) s1))))"
proof -
  let ?fs = "frames_of parseFrame
    (filter (\<lambda>e. val f \<le> val (entryId e) \<and> val (entryId e) \<le> val t) store)"
  let ?b = "\<lparr>QueueBounds.From = f, To = t\<rparr>" and ?m0 = "NewModel now p" and ?e = "envs (length ?fs)"
  let ?s0 = "(NewEpisodeDetector (word_of_int (Duration p)) (Task p) minCmd True, w)"
  have "length ?fs \<le> length store"
    by (rule order_trans [OF length_frames_of length_filter_le])
  then have n: "length ([] :: Frame list list) + length ?fs < 2 ^ 64" using assms(6) by simp
  have rd: "\<forall>fr \<in> set ?fs. fmtId (GetGlobalFrameId fr) \<noteq> None"
    using frames_of_set [of _ parseFrame] assms(11) by fastforce
  obtain s1 h1 where 1: "processFrames ops fmtId envs ?b ?fs 0 ?s0 = Ret (length ?fs, s1)"
    "length h1 \<le> length ?fs" "run_ok fmtId ?m0 (Task p) True h1 s1"
    using run_ok_frames [OF assms(2) run_ok_New [OF assms(7), of fmtId now p "Task p" True "word_of_int (Duration p)" minCmd] n rd,
        of envs ?b 0] by auto
  have n1: "length h1 + 1 < 2 ^ 64" using 1(2) \<open>length ?fs \<le> length store\<close> assms(6) by simp
  let ?h = "final_episodes ?e s1"
  obtain s2 where 2: "Finalize fmtId ?e me s1 = Ret s2" "program (fst s2)" "not_done (snd s2)"
    "list_all (episode_ok (Task p)) ?h" "EpisodesSaved (stats (fst s2)) = of_nat (length ?h)"
    "TotalFramesSaved (stats (fst s2)) = of_nat (length (concat ?h))"
    "?h \<noteq> [] \<Longrightarrow> files (snd s2) MergedFile = Some (concat ?h)" "counters_shown (fst s2) (ui ?m0 (snd s2))"
    using run_ok_Finalize [OF 1(3) n1 assms(8-10), of ?e] by blast
  let ?s = "SendProgress (Params.To p) (Params.To p) (of_nat (length ?fs)) s2"
  have "runProcessing ops fmtId newClient parseRx parseFrame envs me minCmd True p w =
      Some (Ret (Some ?s, snd ?s, None))"
    using assms(3,4) StreamFrames_served [OF assms(1,5), of parseFrame f t] 1(1) 2(1) by (simp add: runProcessing_def Let_def)
  moreover have "ui ?m0 (snd ?s) = (ui ?m0 (snd s2))
      \<lparr>current := Params.To p, framesProcessed := of_nat (length ?fs)\<rparr>" "not_done (snd ?s)" "files (snd ?s) = files (snd s2)"
    using 2(2,3) by (simp_all add: SendProgress_def not_done_Send)
  ultimately show ?thesis
    unfolding Let_def ui_def [symmetric] using 1(1) 2(4-8)
    by (intro exI [of _ s1] exI [of _ ?s] conjI impI) (simp_all only: counters_shown_def, simp_all)
qed

definition demo_station :: "string \<Rightarrow> nat station go" where
  "demo_station r = Ret \<lparr>answersFrom = list_client demo_store, answersTo = list_client demo_store,
     answersStream = list_client [\<lparr>entryId = 7, entryData = [1]\<rparr>, \<lparr>entryId = 8, entryData = [2]\<rparr>]\<rparr>"

definition demo_parseFrame :: "byte list \<Rightarrow> FrameReader option" where
  "demo_parseFrame bs = (case bs of [b] \<Rightarrow> Some (demo_frame (ucast b) (ucast b)) | _ \<Rightarrow> None)"

lemma demo_bounds:
  "FetchQueueBounds nat_ops (list_client demo_store) (list_client demo_store) demo_parse 5 9 ''inference/normvla'' =
     Some (Ret \<lparr>QueueBounds.From = 7, To = 8\<rparr>)"
  by (simp add: FetchQueueBounds_def boundOf_def tryFindQueueAtPtr_def list_client_def demo_store_def
      demo_parse_def demo_match nat_fromLE)

end
