(* ===== verification/Go_Float.thy ===== *)
theory Go_Float
  imports Go_Prelude "HOL-Library.Log_Nat"
begin

text \<open>
  Go's \<^verbatim>\<open>float64\<close> as the rationals it can hold: every operation rounds its exact result to the
  nearest of them, ties to even. NaN, the infinities and the sign of zero are left out; the code that
  uses this theory computes with finite numbers far below the largest float. The conversion of a
  duration to hours, minutes and seconds (package time) and the verbs \<^verbatim>\<open>%.nf\<close>.
\<close>

section \<open>Rounding\<close>

definition round_even :: "rat \<Rightarrow> int" where
  "round_even x = (let n = \<lfloor>x\<rfloor>; d = x - of_int n in
     if d < 1 / 2 then n else if d > 1 / 2 then n + 1 else if even n then n else n + 1)"

text \<open>For positive x the number e with \<open>2^e \<le> x < 2^(e+1)\<close>.\<close>

definition binary_exp :: "rat \<Rightarrow> int" where
  "binary_exp x = (let (n, m) = quotient_of x; k = bitlen n - bitlen m in
     if 2 powi k \<le> x then k else k - 1)"

text \<open>The exponent of the last of the 53 binary digits of x, not below that of the smallest float.\<close>

definition ulp_exp :: "rat \<Rightarrow> int" where
  "ulp_exp x = max (binary_exp x - 52) (-1074)"

definition round64_pos :: "rat \<Rightarrow> rat" where
  "round64_pos x = of_int (round_even (x / 2 powi ulp_exp x)) * 2 powi ulp_exp x"

definition round64 :: "rat \<Rightarrow> rat" where
  "round64 x = (if x = 0 then 0 else if x < 0 then - round64_pos (- x) else round64_pos x)"

text \<open>The operations, the conversion from and to integers.\<close>

definition fadd :: "rat \<Rightarrow> rat \<Rightarrow> rat" where "fadd x y = round64 (x + y)"
definition fmul :: "rat \<Rightarrow> rat \<Rightarrow> rat" where "fmul x y = round64 (x * y)"
definition fdiv :: "rat \<Rightarrow> rat \<Rightarrow> rat" where "fdiv x y = round64 (x / y)"
definition float_of_int :: "int \<Rightarrow> rat" where "float_of_int n = round64 (of_int n)"
definition int_of_float :: "rat \<Rightarrow> int" where "int_of_float x = (if x < 0 then - \<lfloor>- x\<rfloor> else \<lfloor>x\<rfloor>)"

section \<open>Where the rounded value lies\<close>

lemma round_even_le: "x \<le> of_int n \<Longrightarrow> round_even x \<le> n"
proof -
  assume "x \<le> of_int n"
  moreover have "x = of_int n" if "\<lfloor>x\<rfloor> = n" and "x \<le> of_int n"
    using that by (metis floor_correct order_antisym)
  moreover have "\<lfloor>x\<rfloor> \<le> n" using \<open>x \<le> of_int n\<close> by (simp add: floor_le_iff)
  ultimately show ?thesis by (cases "\<lfloor>x\<rfloor> = n") (auto simp: round_even_def Let_def)
qed

lemma round_even_ge: "of_int n \<le> x \<Longrightarrow> n \<le> round_even x"
  by (auto simp: round_even_def Let_def le_floor_iff) (simp add: le_floor_iff [symmetric])+

lemma bitlen_rat:
  assumes "0 < n"
  shows "2 powi (bitlen n - 1) \<le> (of_int n :: rat)" and "(of_int n :: rat) < 2 powi (bitlen n)"
proof -
  have b: "2 ^ nat (bitlen n - 1) \<le> n" "n < 2 ^ nat (bitlen n)" using bitlen_bounds [OF assms] by simp_all
  have "1 \<le> bitlen n" using assms bitlen_eq_zero_iff [of n] bitlen_nonneg [of n] by simp
  then have "2 powi (bitlen n - 1) = (of_int (2 ^ nat (bitlen n - 1)) :: rat)" "2 powi (bitlen n) = (of_int (2 ^ nat (bitlen n)) :: rat)"
    by (simp_all add: power_int_nonneg_exp)
  then show "2 powi (bitlen n - 1) \<le> (of_int n :: rat)" "(of_int n :: rat) < 2 powi (bitlen n)"
    using b by (simp_all only: of_int_le_iff of_int_less_iff)
qed

lemma binary_exp_bounds:
  assumes "0 < x"
  shows "2 powi binary_exp x \<le> x" and "x < 2 powi (binary_exp x + 1)"
proof -
  obtain n m where nm: "quotient_of x = (n, m)" by (cases "quotient_of x")
  have x: "x = of_int n / of_int m" and m: "0 < m" using quotient_of_div [OF nm] quotient_of_denom_pos [OF nm] by simp_all
  then have n: "0 < n" using assms by (simp add: zero_less_divide_iff)
  let ?k = "bitlen n - bitlen m"
  note bn = bitlen_rat [OF n] and bm = bitlen_rat [OF m]
  have "x < 2 powi bitlen n / 2 powi (bitlen m - 1)"
    unfolding x using bn bm m n by (intro frac_less) simp_all
  also have "\<dots> = 2 powi (?k + 1)" by (simp add: power_int_diff power_int_add)
  finally have hi: "x < 2 powi (?k + 1)" .
  have "2 powi (bitlen n - 1) / 2 powi bitlen m \<le> x"
    unfolding x using bn bm m n by (intro frac_le) simp_all
  moreover have "2 powi (bitlen n - 1) / 2 powi bitlen m = (2 powi (?k - 1) :: rat)" by (simp add: power_int_diff)
  ultimately have lo: "2 powi (?k - 1) \<le> x" by simp
  have e: "binary_exp x = (if 2 powi ?k \<le> x then ?k else ?k - 1)" by (simp add: binary_exp_def nm)
  show "2 powi binary_exp x \<le> x" "x < 2 powi (binary_exp x + 1)" using hi lo by (auto simp: e)
qed

lemma ulp_exp_le:
  assumes "0 < x" and "x < 2 powi (g + 53)" and "-1074 \<le> g"
  shows "ulp_exp x \<le> g"
proof -
  have "(2 :: rat) powi binary_exp x < 2 powi (g + 53)" using binary_exp_bounds(1) [OF assms(1)] assms(2) by simp
  then have "binary_exp x < g + 53"
    using power_int_increasing [of "g + 53" "binary_exp x" "2 :: rat"] by (cases "binary_exp x < g + 53") simp_all
  then show ?thesis using assms(3) by (simp add: ulp_exp_def)
qed

text \<open>Rounding respects every number on the grid of the floats around x.\<close>

lemma round64_grid:
  assumes "0 < x" and "x < 2 powi (g + 53)" and "-1074 \<le> g"
  shows "x \<le> of_int m * 2 powi g \<Longrightarrow> round64 x \<le> of_int m * 2 powi g"
    and "of_int m * 2 powi g \<le> x \<Longrightarrow> of_int m * 2 powi g \<le> round64 x"
proof -
  let ?u = "ulp_exp x"
  have u: "?u \<le> g" by (rule ulp_exp_le [OF assms])
  have pos: "(0 :: rat) < 2 powi ?u" by simp
  have g: "of_int m * 2 powi g = of_int (m * 2 ^ nat (g - ?u)) * (2 :: rat) powi ?u"
    using u by (simp add: power_int_nonneg_exp [symmetric] power_int_add [symmetric])
  have r: "round64 x = of_int (round_even (x / 2 powi ?u)) * 2 powi ?u"
    using assms(1) by (simp add: round64_def round64_pos_def)
  show "round64 x \<le> of_int m * 2 powi g" if "x \<le> of_int m * 2 powi g"
  proof -
    have "x / 2 powi ?u \<le> of_int (m * 2 ^ nat (g - ?u))" using that pos unfolding g by (simp only: pos_divide_le_eq)
    then show ?thesis unfolding g r using pos by (simp only: mult_le_cancel_right_pos of_int_le_iff round_even_le)
  qed
  show "of_int m * 2 powi g \<le> round64 x" if "of_int m * 2 powi g \<le> x"
  proof -
    have "of_int (m * 2 ^ nat (g - ?u)) \<le> x / 2 powi ?u" using that pos unfolding g by (simp only: pos_le_divide_eq)
    then show ?thesis unfolding g r using pos by (simp only: mult_le_cancel_right_pos of_int_le_iff round_even_ge)
  qed
qed

lemma round64_0 [simp]: "round64 0 = 0"
  by (simp add: round64_def)

lemma round64_le_int:
  assumes "0 \<le> x" and "x \<le> of_int n" and "n < 2 ^ 53"
  shows "0 \<le> round64 x" and "round64 x \<le> of_int n"
proof -
  have "x < 2 powi (0 + 53)" using assms(2,3) by (simp add: order_le_less_trans [OF assms(2)] of_int_less_numeral_iff)
  then show "0 \<le> round64 x" "round64 x \<le> of_int n"
    using round64_grid [of x 0 0] round64_grid [of x 0 n] assms by (cases "x = 0"; simp)+
qed

lemma round64_int: "0 \<le> n \<Longrightarrow> n < 2 ^ 53 \<Longrightarrow> round64 (of_int n) = of_int n"
proof -
  assume n: "0 \<le> n" "n < 2 ^ 53"
  then have "(of_int n :: rat) < of_int (2 ^ 53)" by (simp only: of_int_less_iff)
  then show ?thesis using round64_grid [of "of_int n" 0 n] n by (cases "n = 0") auto
qed

section \<open>Durations\<close>

text \<open>Division and remainder truncate.\<close>

definition tquot :: "int \<Rightarrow> int \<Rightarrow> int" where
  "tquot d u = (if d < 0 then - ((- d) div u) else d div u)"

definition trem :: "int \<Rightarrow> int \<Rightarrow> int" where
  "trem d u = d - tquot d u * u"

definition in_units :: "int \<Rightarrow> int \<Rightarrow> rat" where
  "in_units unit d = fadd (float_of_int (tquot d unit)) (fdiv (float_of_int (trem d unit)) (of_int unit))"

definition Seconds :: "int \<Rightarrow> rat" where "Seconds = in_units 1000000000"
definition Minutes :: "int \<Rightarrow> rat" where "Minutes = in_units 60000000000"
definition Hours :: "int \<Rightarrow> rat" where "Hours = in_units 3600000000000"

text \<open>
  The whole units are exact while the float has a digit left for the last nanosecond: 2^g is at most
  a nanosecond, and the number of units fits above it.
\<close>

lemma round64_digits:
  assumes "0 \<le> x" and "x < 2 ^ (53 - k)" and "k \<le> 53"
  shows "x \<le> of_int m / 2 ^ k \<Longrightarrow> round64 x \<le> of_int m / 2 ^ k"
    and "of_int m / 2 ^ k \<le> x \<Longrightarrow> of_int m / 2 ^ k \<le> round64 x"
proof -
  have g: "(2 :: rat) powi (- int k + 53) = 2 ^ (53 - k)"
    using assms(3) by (simp add: power_int_nonneg_exp nat_diff_distrib)
  have m: "of_int m * 2 powi (- int k) = (of_int m / 2 ^ k :: rat)" by (simp add: power_int_minus field_simps)
  have "-1074 \<le> - int k" using assms(3) by simp
  then show "x \<le> of_int m / 2 ^ k \<Longrightarrow> round64 x \<le> of_int m / 2 ^ k"
    and "of_int m / 2 ^ k \<le> x \<Longrightarrow> of_int m / 2 ^ k \<le> round64 x"
    using round64_grid [of x "- int k" m] assms(1,2) unfolding g m by (cases "x = 0"; simp)+
qed

lemma in_units_floor:
  assumes "0 \<le> d" and "0 < unit" and "unit < 2 ^ 53" and "unit \<le> 2 ^ k" and "k \<le> 53" and "d div unit + 1 \<le> 2 ^ (53 - k)"
  shows "int_of_float (in_units unit d) = d div unit" and "0 \<le> in_units unit d"
proof -
  let ?n = "d div unit" and ?r = "d mod unit" and ?P = "2 ^ k :: rat"
  have n: "0 \<le> ?n" using assms by (simp add: pos_imp_zdiv_nonneg_iff)
  have r: "0 \<le> ?r" "?r \<le> unit - 1" using assms(2) by simp_all
  have "(2 :: int) ^ (53 - k) \<le> 2 ^ 53" by (rule power_increasing) simp_all
  then have n53: "?n < 2 ^ 53" using assms(6) by linarith
  have fn: "float_of_int (tquot d unit) = of_int ?n" "float_of_int (trem d unit) = of_int ?r"
    using assms(1,3) n n53 r by (simp_all add: float_of_int_def tquot_def trem_def round64_int minus_div_mult_eq_mod)
  define f :: rat where "f = of_int ?r / of_int unit"
  have P: "1 \<le> ?P" by simp
  have u: "0 < (of_int unit :: rat)" "(of_int unit :: rat) \<le> ?P"
    using assms(2) of_int_le_iff [of unit "2 ^ k", where ?'a = rat] assms(4) by simp_all
  have "(of_int ?r :: rat) \<le> of_int (unit - 1)" using r(2) by (simp only: of_int_le_iff)
  then have "f \<le> 1 - 1 / of_int unit" unfolding f_def using u(1) by (simp add: field_simps)
  also have "\<dots> \<le> 1 - 1 / ?P" using frac_le [of 1 1 "of_int unit" ?P] u by simp
  finally have f1: "f \<le> of_int (2 ^ k - 1) / 2 ^ k" using P by (simp add: diff_divide_distrib)
  have f0: "0 \<le> f" unfolding f_def using r(1) u(1) by simp
  have "f < 1" using f1 P by (simp add: diff_divide_distrib) (simp add: order_le_less_trans)
  then have f2: "f < 2 ^ (53 - k)" by (rule order_less_le_trans) simp
  have rf: "0 \<le> round64 f" "round64 f \<le> 1 - 1 / ?P"
    using round64_digits(2) [OF f0 f2 assms(5), of 0] round64_digits(1) [OF f0 f2 assms(5) f1] f0
    by (simp_all add: diff_divide_distrib)
  define x :: rat where "x = of_int ?n + round64 f"
  have e: "in_units unit d = round64 x" by (simp add: in_units_def fn fadd_def fdiv_def x_def f_def)
  have top: "of_int ((?n + 1) * 2 ^ k - 1) / 2 ^ k = of_int ?n + 1 - 1 / ?P" and bot: "of_int (?n * 2 ^ k) / 2 ^ k = (of_int ?n :: rat)"
    by (simp_all add: field_simps)
  have x: "0 \<le> x" "of_int ?n \<le> x" "x \<le> of_int ?n + 1 - 1 / ?P" using rf n by (simp_all add: x_def)
  have "x < of_int (?n + 1)" using x(3) P by simp (simp add: order_le_less_trans)
  also have "(of_int (?n + 1) :: rat) \<le> of_int (2 ^ (53 - k))" using assms(6) by (simp only: of_int_le_iff)
  finally have lt: "x < 2 ^ (53 - k)" by simp
  have b: "of_int ?n \<le> round64 x" "round64 x \<le> of_int ?n + 1 - 1 / ?P"
    using round64_digits(2) [OF x(1) lt assms(5), of "?n * 2 ^ k"] round64_digits(1) [OF x(1) lt assms(5), of "(?n + 1) * 2 ^ k - 1"] x
    unfolding top bot by simp_all
  moreover have "0 < 1 / ?P" by simp
  ultimately have "round64 x < of_int ?n + 1" by linarith
  then have "\<lfloor>round64 x\<rfloor> = ?n" using b(1) by (simp add: floor_eq_iff)
  moreover have "0 \<le> round64 x" using b(1) n order_trans [of 0 "of_int ?n" "round64 x"] by simp
  ultimately show "int_of_float (in_units unit d) = ?n" "0 \<le> in_units unit d" by (simp_all add: int_of_float_def e)
qed

lemma duration_units:
  assumes "0 \<le> d" and "d < 2000 * 3600000000000"
  shows "int_of_float (Hours d) = d div 3600000000000" and "int_of_float (Minutes d) = d div 60000000000"
    and "int_of_float (Seconds d) = d div 1000000000" and "0 \<le> Seconds d"
  unfolding Hours_def Minutes_def Seconds_def
  using in_units_floor [of d 3600000000000 42] in_units_floor [of d 60000000000 36] in_units_floor [of d 1000000000 30] assms
  by simp_all

section \<open>Formatting\<close>

text \<open>\<^verbatim>\<open>%.kf\<close>: the decimal with k digits nearest to x.\<close>

definition decimal_pos :: "nat \<Rightarrow> rat \<Rightarrow> string" where
  "decimal_pos k x = (let n = nat (round_even (x * 10 ^ k)) in
     if k = 0 then show_nat n
     else let frac = show_nat (n mod 10 ^ k)
          in show_nat (n div 10 ^ k) @ ''.'' @ replicate (k - length frac) (CHR ''0'') @ frac)"

definition decimal :: "nat \<Rightarrow> rat \<Rightarrow> string" where
  "decimal k x = (if x < 0 then ''-'' @ decimal_pos k (- x) else decimal_pos k x)"

definition pad_left :: "char \<Rightarrow> nat \<Rightarrow> string \<Rightarrow> string" where
  "pad_left c w s = replicate (w - length s) c @ s"

end
