(* ===== verification/Go_Text.thy ===== *)
theory Go_Text
  imports Go_Strings
begin

text \<open>
  Building text: \<^verbatim>\<open>strconv.Itoa\<close>, \<^verbatim>\<open>fmt.Sprintf\<close> with the verbs \<^verbatim>\<open>%v\<close>, \<^verbatim>\<open>%d\<close> and \<^verbatim>\<open>%q\<close> on
  arguments that are strings already, the string functions that work on single characters, the last
  element of a path, and \<^verbatim>\<open>AddTabs\<close> of \<^verbatim>\<open>gremlinc/internal/formatting/tabs.go\<close>. Templates are
  written as lines with their depth of indentation.
\<close>

section \<open>Numbers and characters\<close>

fun digits :: "nat \<Rightarrow> string" where
  "digits n = (if n < 10 then [] else digits (n div 10)) @ [char_of (48 + n mod 10)]"

declare digits.simps [simp del]

definition Itoa :: "int \<Rightarrow> string" where
  "Itoa i = (if i < 0 then ''-'' @ digits (nat (- i)) else digits (nat i))"

definition replace_char :: "char \<Rightarrow> char \<Rightarrow> string \<Rightarrow> string" where
  "replace_char old new s = map (\<lambda>c. if c = old then new else c) s"

definition upper :: "char \<Rightarrow> char" where
  "upper c = (let n = of_char c :: nat in if 97 \<le> n \<and> n \<le> 122 then char_of (n - 32) else c)"

definition path_base :: "string \<Rightarrow> string" where
  "path_base s =
     (if s = [] then ''.''
      else let body = rev (dropWhile (\<lambda>c. c = CHR ''/'') (rev s))
        in if body = [] then ''/'' else last (split_on (CHR ''/'') body))"

section \<open>Formatting\<close>

definition nl :: char where "nl = CHR 0x0A"
definition tab :: char where "tab = CHR 0x09"
definition dq :: char where "dq = CHR 0x22"
definition bq :: char where "bq = CHR 0x60"

text \<open>A missing argument is printed as Go prints it; the modelled calls never have too many.\<close>

fun sprintf :: "string \<Rightarrow> string list \<Rightarrow> string" where
  "sprintf [] as = []"
| "sprintf [c] as = [c]"
| "sprintf (c # d # s) as =
     (if c = CHR ''%'' \<and> d \<in> set ''vdq'' then
        (case as of
           [] \<Rightarrow> ''%!'' @ [d] @ ''(MISSING)'' @ sprintf s []
         | a # as \<Rightarrow> (if d = CHR ''q'' then quote a else a) @ sprintf s as)
      else c # sprintf (d # s) as)"

text \<open>A template of several lines, each with the number of tabs before it.\<close>

definition tabs_of :: "nat \<Rightarrow> string" where
  "tabs_of n = replicate n tab"

definition code :: "(nat \<times> string) list \<Rightarrow> string" where
  "code ls = join [nl] (map (\<lambda>(n, l). tabs_of n @ l) ls)"

section \<open>Indentation\<close>

definition AddTabs :: "string \<Rightarrow> string \<Rightarrow> string" where
  "AddTabs s tabs = (let lines = split_on nl s in join [nl] (map (\<lambda>line. tabs @ line) lines))"

lemma AddTabs_Nil [simp]: "AddTabs s [] = s"
  by (simp add: AddTabs_def join_split)

lemma AddTabs_lines: "nl \<notin> set tabs \<Longrightarrow> split_on nl (AddTabs s tabs) = map (\<lambda>line. tabs @ line) (split_on nl s)"
  unfolding AddTabs_def Let_def
  by (rule split_join) (auto simp: list_all_iff dest: split_parts)

lemma AddTabs_AddTabs: "nl \<notin> set t \<Longrightarrow> AddTabs (AddTabs s t) u = AddTabs s (u @ t)"
proof -
  assume "nl \<notin> set t"
  then have "map (\<lambda>line. u @ line) (split_on nl (AddTabs s t)) = map (\<lambda>line. (u @ t) @ line) (split_on nl s)"
    by (simp add: AddTabs_lines)
  then show ?thesis by (simp only: AddTabs_def [of _ u] AddTabs_def [of s "u @ t"] Let_def)
qed

end
