(* ===== verification/Ui_View.thy ===== *)
theory Ui_View
  imports Ui_Model Go_Float Go_Text
begin

text \<open>
  What the terminal interface of the dataset generator draws: the whole \<^verbatim>\<open>View\<close> of
  \<^verbatim>\<open>src/software/station/bin/dataset-generator/internal/ui/model.go\<close> with its progress bar, statistics,
  parameters and log pane, and the summary that \<^verbatim>\<open>PrintSummary\<close> prints at the end. The
  texts and the progress of queue positions (package uintn), the text of a duration (package time) and the
  styles are arguments; the clock is the argument \<open>now\<close>.
\<close>

record 'u view_env =
  styled :: "style \<Rightarrow> string \<Rightarrow> string"
  showPos :: "'u \<Rightarrow> string"
  progressOf :: "'u \<Rightarrow> 'u \<Rightarrow> 'u \<Rightarrow> rat"
  showDuration :: "int \<Rightarrow> string"

section \<open>The panes\<close>

definition full_block :: string where "full_block = [CHR 0xE2, CHR 0x96, CHR 0x88]"
definition light_block :: string where "light_block = [CHR 0xE2, CHR 0x96, CHR 0x91]"

text \<open>The verb \<^verbatim>\<open>%02d\<close> on a number that is not negative, and \<^verbatim>\<open>%d\<close> on an unsigned one.\<close>

definition two_digits :: "int \<Rightarrow> string" where
  "two_digits n = (if n < 0 then Itoa n else pad_left (CHR ''0'') 2 (Itoa n))"

definition show_u64 :: "uint64 \<Rightarrow> string" where
  "show_u64 n = Itoa (uint n)"

definition formatDuration :: "int \<Rightarrow> string" where
  "formatDuration d =
     (let h = int_of_float (Hours d); m = trem (int_of_float (Minutes d)) 60; s = trem (int_of_float (Seconds d)) 60
      in two_digits h @ '':'' @ two_digits m @ '':'' @ two_digits s)"

definition barWidth :: "'u view_env \<Rightarrow> 'u Model \<Rightarrow> int" where
  "barWidth env m =
     (let fixedWidth = 22 + int (length (showPos env (current m))) + int (length (showPos env (Params.To (params m))));
          barWidth = width m - fixedWidth
      in if barWidth < 10 then 10 else barWidth)"

definition filledCells :: "'u view_env \<Rightarrow> 'u Model \<Rightarrow> int" where
  "filledCells env m = int_of_float (fmul (float_of_int (barWidth env m))
     (progressOf env (current m) (Params.From (params m)) (Params.To (params m))))"

definition renderProgress :: "'u view_env \<Rightarrow> 'u Model \<Rightarrow> string go" where
  "renderProgress env m =
     (let progress = progressOf env (current m) (Params.From (params m)) (Params.To (params m));
          percent = fmul progress 100; filled = filledCells env m; empty = barWidth env m - filled
      in go_bind (repeat_str full_block filled) (\<lambda>full.
         go_bind (repeat_str light_block empty) (\<lambda>light.
         Ret (''Progress: ['' @ styled env progressBarStyle full @ styled env progressEmptyStyle light @ ''] '' @
           pad_left (CHR '' '') 5 (decimal 1 percent) @ ''%  '' @ showPos env (current m) @ ''/'' @
           showPos env (Params.To (params m))))))"

definition frameRate :: "int \<Rightarrow> 'u Model \<Rightarrow> rat" where
  "frameRate elapsed m =
     (if elapsed > 0 \<and> framesProcessed m > 0
      then fdiv (float_of_int (uint (framesProcessed m))) (Seconds elapsed) else 0)"

definition renderStats :: "'u view_env \<Rightarrow> int \<Rightarrow> 'u Model \<Rightarrow> string" where
  "renderStats env now m =
     (let episodeStatus = (if episodeSkipReason m \<noteq> [] then ''skip: '' @ episodeSkipReason m else ''working'');
          episodeLine = ''Episode: #'' @ show_u64 (currentEpisodeIndex m) @ '' ('' @ episodeStatus @
            '')    Frames in episode: '' @ Itoa (framesInEpisode m) @ ''    Total saved: '' @ Itoa (totalFramesSaved m);
          elapsed = now - startTime m;
          rateLine = ''Rate: '' @ decimal 0 (frameRate elapsed m) @ '' frames/sec   Elapsed: '' @ formatDuration elapsed @
            ''   Episodes saved: '' @ show_u64 (episodeCount m) @ ''   Episodes discarded: '' @
            show_u64 (episodesDiscarded m) @ ''   Frames processed: '' @ show_u64 (framesProcessed m)
      in styled env statsStyle (episodeLine @ [nl] @ rateLine))"

definition renderParams :: "'u view_env \<Rightarrow> 'u Model \<Rightarrow> string go" where
  "renderParams env m =
     go_bind (shortTask m) (\<lambda>task.
       let line1 = ''Robot: '' @ Robot (params m) @ ''    Queue: '' @ Queue (params m) @ ''    Duration: '' @
             showDuration env (Duration (params m));
           line2 = ''Output: '' @ Output (params m) @ ''    Task: '' @ task
       in Ret (styled env paramsStyle (line1 @ [nl] @ line2)))"

definition doneLine :: "'u view_env \<Rightarrow> 'u Model \<Rightarrow> string" where
  "doneLine env m =
     (if finished m then [nl] @ (case err m of
          Some e \<Rightarrow> styled env logErrorStyle (''Error: '' @ e)
        | None \<Rightarrow> styled env titleStyle ''Processing complete!'')
      else [])"

definition View :: "'u view_env \<Rightarrow> int \<Rightarrow> 'u Model \<Rightarrow> string go" where
  "View env now m =
     go_bind (renderProgress env m) (\<lambda>progress.
     go_bind (renderSeparator (styled env) m) (\<lambda>separator.
     go_bind (renderParams env m) (\<lambda>parameters.
     go_bind (renderLogs (styled env) m) (\<lambda>logLines.
     Ret (progress @ [nl] @ separator @ [nl] @ renderStats env now m @ [nl] @ separator @ [nl] @
       parameters @ [nl] @ separator @ [nl] @ logLines @ doneLine env m)))))"

section \<open>The summary\<close>

definition cross_mark :: string where "cross_mark = [CHR 0xE2, CHR 0x9D, CHR 0x8C]"
definition check_mark :: string where "check_mark = [CHR 0xE2, CHR 0x9C, CHR 0x85]"

definition PrintSummary :: "'u view_env \<Rightarrow> int \<Rightarrow> 'u Model \<Rightarrow> string list go" where
  "PrintSummary env now m =
     (case err m of
        Some e \<Rightarrow> Ret [[], cross_mark @ '' Processing failed: '' @ e, []]
      | None \<Rightarrow>
          let elapsed = now - startTime m in
          go_bind (discardedLines m) (\<lambda>discarded.
          Ret ([[], check_mark @ '' Processing complete!'', [],
            ''Progress: 100% - '' @ showPos env (Params.To (params m)) @ ''/'' @ showPos env (Params.To (params m)),
            ''Episodes saved: '' @ show_u64 (episodeCount m), ''Episodes discarded: '' @ show_u64 (episodesDiscarded m)] @
            discarded @
            [''Total frames saved: '' @ Itoa (totalFramesSaved m), ''Frames processed: '' @ show_u64 (framesProcessed m),
             ''Rate: '' @ decimal 0 (frameRate elapsed m) @ '' frames/sec'', ''Elapsed: '' @ formatDuration elapsed,
             ''Output: '' @ Output (params m), ''Task: '' @ Task (params m), []])))"

section \<open>Durations\<close>

text \<open>
  C32. For any duration up to 2,000 hours, \<^verbatim>\<open>formatDuration\<close> prints the whole hours, minutes and
  seconds, although it computes them in floating point.
\<close>

theorem formatDuration_exact:
  assumes "0 \<le> d" and "d < 2000 * 3600000000000"
  shows "formatDuration d = two_digits (d div 3600000000000) @ '':'' @ two_digits (d div 60000000000 mod 60) @ '':'' @
    two_digits (d div 1000000000 mod 60)"
  using duration_units [OF assms] assms(1)
  by (simp add: formatDuration_def Let_def trem_def tquot_def minus_div_mult_eq_mod pos_imp_zdiv_neg_iff not_less [symmetric])

theorem formatDuration_exact_witness: "formatDuration 3725999999999 = ''01:02:05''"
proof -
  have "two_digits 1 @ '':'' @ two_digits 2 @ '':'' @ two_digits 5 = ''01:02:05''" by code_simp
  then show ?thesis using formatDuration_exact [of 3725999999999] by simp
qed

section \<open>The view\<close>

lemma filledCells_bounds:
  assumes "0 \<le> progressOf env (current m) (Params.From (params m)) (Params.To (params m))"
    and "progressOf env (current m) (Params.From (params m)) (Params.To (params m)) \<le> 1"
    and "width m < 2 ^ 53"
  shows "0 \<le> filledCells env m" and "filledCells env m \<le> barWidth env m"
proof -
  let ?b = "barWidth env m" and ?p = "progressOf env (current m) (Params.From (params m)) (Params.To (params m))"
  have b: "0 \<le> ?b" "?b < 2 ^ 53" using assms(3) by (simp_all add: barWidth_def Let_def)
  have x: "0 \<le> of_int ?b * ?p" "of_int ?b * ?p \<le> of_int ?b"
    using b(1) assms(1,2) mult_left_mono [of ?p 1 "of_int ?b"] by simp_all
  have "filledCells env m = int_of_float (round64 (of_int ?b * ?p))"
    by (simp add: filledCells_def fmul_def float_of_int_def round64_int [OF b])
  then show "0 \<le> filledCells env m" "filledCells env m \<le> ?b"
    using round64_le_int [OF x b(2)] by (simp_all add: int_of_float_def floor_le_iff)
qed

lemma shortTask_Ret: "\<exists>t. shortTask m = Ret t \<and> length t \<le> 50"
  by (auto simp: shortTask_def str_upto_def Let_def)

text \<open>The one way in which the log pane panics: a message that is cut in a window of 11 or 12 columns.\<close>

definition cut_too_short :: "int \<Rightarrow> log_msg list \<Rightarrow> bool" where
  "cut_too_short w ls \<longleftrightarrow> 10 < w \<and> w < 13 \<and> (\<exists>l \<in> set ls. w - 10 < int (length (Message l)))"

lemma logLines_panics:
  "if cut_too_short w ls then logLines render w ls = Panic else \<exists>lines. logLines render w ls = Ret lines"
proof (induction ls)
  case (Cons l ls)
  have "if 10 < w \<and> w < 13 \<and> w - 10 < int (length (Message l)) then cutMessage w (Message l) = Panic
      else \<exists>t. cutMessage w (Message l) = Ret t"
    by (auto simp: cutMessage_def str_upto_def Let_def)
  then show ?case using Cons.IH by (auto simp: cut_too_short_def split: if_splits)
qed (simp add: cut_too_short_def)

lemma renderLogs_panics:
  "if cut_too_short (width m) (keep_last (maxLogLines m) (logs m)) then renderLogs render m = Panic
   else \<exists>text. renderLogs render m = Ret text"
proof (cases "logs m = []")
  case True
  then show ?thesis by (simp add: renderLogs_def cut_too_short_def keep_last_def)
next
  case False
  then show ?thesis
    using logLines_panics [of "width m" "keep_last (maxLogLines m) (logs m)" render] by (auto simp: renderLogs_def split: if_splits)
qed

lemma renderProgress_panics:
  "if filledCells env m < 0 \<or> barWidth env m < filledCells env m then renderProgress env m = Panic
   else \<exists>text. renderProgress env m = Ret text"
  by (auto simp: renderProgress_def Let_def repeat_str_def)

text \<open>
  C31. When the view panics, for a window whose width is below 2^53: exactly when that width is negative, when the filled cells of the progress
  bar are fewer than none or more than the bar has, or when the window is 11 or 12 columns wide and a message shown in the log pane is longer
  than the width less ten, so that it is cut to a negative length. The bar is at least ten cells wide, and its filled cells, computed in
  floating point, stay within it whenever the progress that the package uintn returns, a finite number, is from 0 to 1.
\<close>

theorem View_returns:
  assumes "\<bar>width m\<bar> < 2 ^ 53"
  shows "10 \<le> barWidth env m \<and>
    (0 \<le> progressOf env (current m) (Params.From (params m)) (Params.To (params m)) \<and>
       progressOf env (current m) (Params.From (params m)) (Params.To (params m)) \<le> 1 \<longrightarrow>
     0 \<le> filledCells env m \<and> filledCells env m \<le> barWidth env m) \<and>
    (if width m < 0 \<or> filledCells env m < 0 \<or> barWidth env m < filledCells env m \<or>
        (10 < width m \<and> width m < 13 \<and>
         (\<exists>l \<in> set (keep_last (maxLogLines m) (logs m)). width m - 10 < int (length (Message l))))
     then View env now m = Panic else \<exists>text. View env now m = Ret text)"
proof -
  have "width m < 2 ^ 53" using assms by simp
  note f = filledCells_bounds [OF _ _ this, of env]
  have s: "if width m < 0 then renderSeparator (styled env) m = Panic else \<exists>b. renderSeparator (styled env) m = Ret b"
    by (simp add: renderSeparator_def repeat_str_def)
  have p: "\<exists>c. renderParams env m = Ret c" using shortTask_Ret [of m] by (auto simp: renderParams_def Let_def)
  have "if width m < 0 \<or> filledCells env m < 0 \<or> barWidth env m < filledCells env m \<or>
      cut_too_short (width m) (keep_last (maxLogLines m) (logs m))
    then View env now m = Panic else \<exists>text. View env now m = Ret text"
    using renderProgress_panics [of env m] s p renderLogs_panics [of m "styled env"]
    by (auto simp: View_def split: if_splits)
  then show ?thesis using f by (auto simp: barWidth_def Let_def cut_too_short_def)
qed

definition demo_view :: "nat view_env" where
  "demo_view = \<lparr>styled = (\<lambda>_ s. s), showPos = show_nat,
     progressOf = (\<lambda>c f t. if t \<le> f then 0 else max 0 (min 1 (of_nat (c - f) / of_nat (t - f)))), showDuration = (\<lambda>_. ''45s'')\<rparr>"

definition demo_model :: "nat Model" where
  "demo_model = Updates [WindowSizeMsg 40 20, Internal (ProgressMsg 8 9 700), Internal (LogMsg ''WRN'' ''slow'' 0)]
     (NewModel 0 \<lparr>Robot = ''r'', Queue = ''q'', Task = ''pick'', Duration = 45, Output = ''o'', From = 5, To = 9\<rparr>)"

theorem View_returns_witness:
  "(\<exists>text. View demo_view 5000000000 demo_model = Ret text) \<and> filledCells demo_view demo_model = 12"
proof -
  have m: "width demo_model = 40" "current demo_model = 8" "Params.From (params demo_model) = 5" "Params.To (params demo_model) = 9"
    by (simp_all add: demo_model_def Updates_def NewModel_def Update_log_def)
  have f: "filledCells demo_view demo_model = 12" "barWidth demo_view demo_model = 16" by code_simp+
  show ?thesis
    using View_returns [of demo_model demo_view 5000000000] m f by simp
qed

end
