(* ===== verification/Dataset_Main.thy ===== *)
theory Dataset_Main
  imports Dataset_Pipeline Ui_View
begin

text \<open>
  The program \<^verbatim>\<open>dataset-generator\<close> as it is started: \<^verbatim>\<open>main\<close> of
  \<^verbatim>\<open>src/software/station/bin/dataset-generator/dataset-generator.go\<close> with and without the terminal interface, and the
  \<^verbatim>\<open>Runner\<close> of \<^verbatim>\<open>internal/ui/runner.go\<close>. The event loop of the package bubbletea is outside: what the program sees of it
  is the sequence of messages it hands to \<^verbatim>\<open>Update\<close> before it returns: part of an interleaving of what the processing goroutine
  sends with keys, window sizes, ticks and log lines, up to some message after an \<^verbatim>\<open>Update\<close> has returned \<^verbatim>\<open>tea.Quit\<close>.
\<close>

section \<open>The runner\<close>

record 'u Runner =
  runnerModel :: "'u Model"

definition NewRunner :: "int \<Rightarrow> 'u Params \<Rightarrow> 'u Runner" where
  "NewRunner now p = \<lparr>runnerModel = NewModel now p\<rparr>"

text \<open>What the event loop did: an error, or the messages that it handled until it returned.\<close>

datatype 'u event_loop = LoopError string | Handled "'u tea_msg list"

definition Run :: "'u Runner \<Rightarrow> 'u event_loop \<Rightarrow> string + 'u Model" where
  "Run r loop = (case loop of LoopError e \<Rightarrow> Inl e | Handled msgs \<Rightarrow> Inr (Updates msgs (runnerModel r)))"

section \<open>The program\<close>

text \<open>How the program ends, with what it has printed: by returning from \<^verbatim>\<open>main\<close>, by a fatal log entry, or by a panic.\<close>

datatype ending = Returns | Fatal string | Panics

definition main_tui :: "'u view_env \<Rightarrow> int \<Rightarrow> int \<Rightarrow> 'u Params \<Rightarrow> 'u event_loop \<Rightarrow> string list \<times> ending" where
  "main_tui env start now p loop =
     (case Run (NewRunner start p) loop of
        Inl e \<Rightarrow> ([], Fatal (''TUI error: '' @ e))
      | Inr finalModel \<Rightarrow>
          (case PrintSummary env now finalModel of
             Ret summary \<Rightarrow> (summary, case Model_Err finalModel of
                 Some e \<Rightarrow> Fatal (''Processing failed: '' @ e) | None \<Rightarrow> Returns)
           | Err e \<Rightarrow> ([], Panics)
           | Panic \<Rightarrow> ([], Panics)))"

text \<open>
  The whole program; \<open>process\<close> is \<^verbatim>\<open>runProcessing\<close> with its surroundings, given whether there is an interface. The
  loop is a function of the parameters, since what the interface is told depends on them.
\<close>

definition dataset_generator ::
  "(string \<Rightarrow> 'u go) \<Rightarrow> (bool \<Rightarrow> 'u Params \<Rightarrow> ('u ed_state option \<times> 'u World \<times> string option) run) \<Rightarrow>
   'u view_env \<Rightarrow> int \<Rightarrow> int \<Rightarrow> ('u Params \<Rightarrow> 'u event_loop) \<Rightarrow> flags \<Rightarrow> (string list \<times> ending) option" where
  "dataset_generator parseDecimal process env start now loop fl =
     (case mainParams parseDecimal fl of
        Ret p \<Rightarrow>
          if noTui fl then Option.bind (process False p) (\<lambda>r. case r of
              Ret (_, _, Some e) \<Rightarrow> Some ([], Fatal (''Processing failed: '' @ e))
            | Ret (_, _, None) \<Rightarrow> Some ([], Returns)
            | Err e \<Rightarrow> Some ([], Panics)
            | Panic \<Rightarrow> Some ([], Panics))
          else Some (main_tui env start now p (loop p))
      | Err e \<Rightarrow> Some ([], Panics)
      | Panic \<Rightarrow> Some ([], Panics))"

text \<open>The size of the data in the log entries of the main loop.\<close>

definition formatBytes :: "uint64 \<Rightarrow> string" where
  "formatBytes bytes =
     (if bytes \<ge> 2 ^ 30 then decimal 2 (fdiv (float_of_int (uint bytes)) (2 ^ 30)) @ '' GB''
      else if bytes \<ge> 2 ^ 20 then decimal 2 (fdiv (float_of_int (uint bytes)) (2 ^ 20)) @ '' MB''
      else if bytes \<ge> 2 ^ 10 then decimal 2 (fdiv (float_of_int (uint bytes)) (2 ^ 10)) @ '' KB''
      else show_u64 bytes @ '' B'')"

section \<open>What the user does not change\<close>

text \<open>The part of the model that the processing goroutine reports on.\<close>

definition report :: "'u Model \<Rightarrow> 'u Model" where
  "report m = m\<lparr>logs := [], width := 0, height := 0\<rparr>"

text \<open>The messages that neither change that part nor quit while the work goes on: the keys other than those that quit.\<close>

fun bystander :: "'u tea_msg \<Rightarrow> bool" where
  "bystander (KeyMsg k) \<longleftrightarrow> k \<noteq> ''q'' \<and> k \<noteq> ''ctrl+c''"
| "bystander (WindowSizeMsg w h) = True"
| "bystander OtherMsg = True"
| "bystander (Internal (LogMsg l t n)) = True"
| "bystander (Internal (TickMsg n)) = True"
| "bystander _ = False"

lemma report_Update_eq: "report (fst (Update msg m)) = (if bystander msg then report m else fst (Update msg (report m)))"
  by (cases msg rule: bystander.cases) (simp_all add: report_def Update_log_def Let_def)

lemma report_bystander: "bystander msg \<Longrightarrow> report (fst (Update msg m)) = report m"
  by (simp add: report_Update_eq)

lemma report_Update: "report m = report m' \<Longrightarrow> report (fst (Update msg m)) = report (fst (Update msg m'))"
  by (simp add: report_Update_eq)

lemma Updates_Cons: "Updates (x # xs) m = Updates xs (fst (Update x m))"
  by (simp add: Updates_def)

lemma report_Updates: "report m = report m' \<Longrightarrow> report (Updates msgs m) = report (Updates msgs m')"
proof (induction msgs arbitrary: m m')
  case (Cons x xs)
  show ?case using Cons.IH [OF report_Update [OF Cons.prems, of x]] by (simp only: Updates_Cons)
qed (simp add: Updates_def)

text \<open>The messages of bystanders make no difference, however they are interleaved with the others.\<close>

lemma report_bystanders: "list_all bystander msgs \<Longrightarrow> report (Updates msgs m) = report m"
proof (induction msgs arbitrary: m)
  case (Cons x xs)
  then show ?case using Cons.IH [of "fst (Update x m)"] report_bystander [of x m] by (simp add: Updates_Cons)
qed (simp add: Updates_def)

lemma report_shuffles:
  assumes "msgs \<in> shuffles work others" and "list_all bystander others"
  shows "report (Updates msgs m) = report (Updates work m)"
  using assms
proof (induction work others arbitrary: msgs m rule: shuffles.induct)
  case (1 ys msgs m)
  then show ?case using report_bystanders [of ys m] by (simp add: Updates_def)
next
  case (2 xs msgs m)
  then show ?case by simp
next
  case (3 x xs y ys msgs m)
  from 3(3) consider ms where "msgs = x # ms" "ms \<in> shuffles xs (y # ys)" | ms where "msgs = y # ms" "ms \<in> shuffles (x # xs) ys"
    by auto
  then show ?case
  proof cases
    case 1
    then show ?thesis using 3(1) [of ms "fst (Update x m)"] 3(4) by (simp add: Updates_Cons)
  next
    case 2
    then have "report (Updates msgs m) = report (Updates (x # xs) (fst (Update y m)))"
      using 3(2) [of ms "fst (Update y m)"] 3(4) by (simp add: Updates_Cons)
    then show ?thesis using 3(4) report_Updates [where msgs = "x # xs", OF report_bystander, of y m] by simp
  qed
qed

section \<open>When the event loop ends\<close>

text \<open>Some \<^verbatim>\<open>Update\<close> along the messages asks the event loop to quit, which it does then or some messages later.\<close>

fun quits :: "'u tea_msg list \<Rightarrow> 'u Model \<Rightarrow> bool" where
  "quits [] m = False"
| "quits (msg # msgs) m \<longleftrightarrow> snd (Update msg m) = Quit \<or> quits msgs (fst (Update msg m))"

lemma quits_append: "quits (xs @ ys) m \<longleftrightarrow> quits xs m \<or> quits ys (Updates xs m)"
  by (induction xs arbitrary: m) (simp_all add: Updates_def)

text \<open>Without the keys that quit, only the end of the work makes it quit.\<close>

lemma quits_when_done:
  assumes "quits msgs m" and "\<not> finished m" and "\<forall>k. KeyMsg k \<in> set msgs \<longrightarrow> bystander (KeyMsg k :: 'u tea_msg)"
  shows "\<exists>e. Internal (DoneMsg e) \<in> set (msgs :: 'u tea_msg list)"
  using assms
proof (induction msgs arbitrary: m)
  case (Cons x xs)
  show ?case
  proof (cases "\<exists>e. x = Internal (DoneMsg e)")
    case False
    then have "snd (Update x m) \<noteq> Quit" "finished (fst (Update x m)) = finished m"
      using Cons.prems(2,3) by (cases x rule: bystander.cases; simp add: tickCmd_def Update_log_def Let_def)+
    then show ?thesis using Cons.IH [of "fst (Update x m)"] Cons.prems by auto
  qed auto
qed simp

lemma shuffles_prefix:
  "as @ bs \<in> shuffles xs ys \<Longrightarrow> \<exists>x1 x2 y1 y2. xs = x1 @ x2 \<and> ys = y1 @ y2 \<and> as \<in> shuffles x1 y1 \<and> bs \<in> shuffles x2 y2"
proof (induction as arbitrary: xs ys)
  case Nil
  then show ?case by (intro exI [of _ "[]"] exI [of _ xs] exI [of _ ys]) simp
next
  case (Cons a as)
  from Cons.prems consider xs' where "xs = a # xs'" "as @ bs \<in> shuffles xs' ys" | ys' where "ys = a # ys'" "as @ bs \<in> shuffles xs ys'"
    by (cases xs; cases ys) (auto simp: Cons_in_shuffles_iff)
  then show ?case
  proof cases
    case 1
    from Cons.IH [OF 1(2)] obtain x1 x2 y1 y2 where "xs' = x1 @ x2" "ys = y1 @ y2" "as \<in> shuffles x1 y1" "bs \<in> shuffles x2 y2" by blast
    with 1(1) show ?thesis by (intro exI [of _ "a # x1"] exI [of _ x2] exI [of _ y1] exI [of _ y2]) (simp add: Cons_in_shuffles_leftI)
  next
    case 2
    from Cons.IH [OF 2(2)] obtain x1 x2 y1 y2 where "xs = x1 @ x2" "ys' = y1 @ y2" "as \<in> shuffles x1 y1" "bs \<in> shuffles x2 y2" by blast
    with 2(1) show ?thesis by (intro exI [of _ x1] exI [of _ x2] exI [of _ "a # y1"] exI [of _ y2]) (simp add: Cons_in_shuffles_rightI)
  qed
qed

text \<open>So the event loop has handled all of the work when it ends.\<close>

lemma quits_after_work:
  fixes w :: "'u World"
  assumes "msgs @ rest \<in> shuffles (map Internal (sent w) @ [Internal (DoneMsg None)]) others"
    and "list_all bystander others" and "not_done w" and "quits msgs m" and "\<not> finished m"
  shows "\<exists>heard. list_all bystander heard \<and> msgs \<in> shuffles (map Internal (sent w) @ [Internal (DoneMsg None)]) heard"
proof -
  let ?work = "map Internal (sent w) @ [Internal (DoneMsg None)]"
  obtain x1 x2 y1 y2 where s: "?work = x1 @ x2" "others = y1 @ y2" "msgs \<in> shuffles x1 y1"
    using shuffles_prefix [OF assms(1)] by blast
  have y: "list_all bystander y1" using assms(2) s(2) by simp
  have set: "set msgs = set x1 \<union> set y1" using s(3) by (rule set_shuffles)
  have no_key: "KeyMsg k \<notin> set x1" for k
  proof -
    have "set x1 \<subseteq> set ?work" unfolding s(1) by simp
    then show ?thesis by auto
  qed
  have "\<forall>k. KeyMsg k \<in> set msgs \<longrightarrow> bystander (KeyMsg k :: 'u tea_msg)"
    using y no_key unfolding set list_all_iff by blast
  from quits_when_done [OF assms(4,5) this] obtain e where e: "Internal (DoneMsg e) \<in> set msgs" by blast
  have "x2 = []"
  proof (rule ccontr)
    assume "x2 \<noteq> []"
    then have "butlast ?work = x1 @ butlast x2" unfolding s(1) by (simp add: butlast_append)
    then have "set x1 \<subseteq> Internal ` set (sent w)" by (metis Un_upper1 butlast_snoc list.set_map set_append)
    then have "Internal (DoneMsg e) \<notin> set x1" using assms(3) by (auto simp: not_done_def)
    moreover have "Internal (DoneMsg e) \<notin> set y1" using y by (auto simp: list_all_iff)
    ultimately show False using e set by blast
  qed
  then show ?thesis using s y by auto
qed

section \<open>What the program reports\<close>

lemma main_tui_Handled:
  assumes "err (Updates msgs (NewModel start p)) = None"
  shows "\<exists>discarded. discardedLines (Updates msgs (NewModel start p)) = Ret discarded \<and>
    (let m = Updates msgs (NewModel start p) in main_tui env start now p (Handled msgs) =
      ([[], check_mark @ '' Processing complete!'', [],
        ''Progress: 100% - '' @ showPos env (Params.To (params m)) @ ''/'' @ showPos env (Params.To (params m)),
        ''Episodes saved: '' @ show_u64 (episodeCount m), ''Episodes discarded: '' @ show_u64 (episodesDiscarded m)] @
        discarded @
        [''Total frames saved: '' @ Itoa (totalFramesSaved m), ''Frames processed: '' @ show_u64 (framesProcessed m),
         ''Rate: '' @ decimal 0 (frameRate (now - startTime m) m) @ '' frames/sec'', ''Elapsed: '' @ formatDuration (now - startTime m),
         ''Output: '' @ Output (params m), ''Task: '' @ Task (params m), []], Returns))"
proof -
  obtain ls where "discardedLines (Updates msgs (NewModel start p)) = Ret ls"
    using summary_lists_discarded [of msgs start p] by blast
  then show ?thesis
    using assms by (simp add: main_tui_def Run_def NewRunner_def PrintSummary_def Model_Err_def Let_def)
qed

lemma Updates_append: "Updates (xs @ ys) m = Updates ys (Updates xs m)"
  by (simp add: Updates_def)

lemma report_eqD:
  "report m = report m' \<Longrightarrow> err m = err m' \<and> episodeCount m = episodeCount m' \<and> framesProcessed m = framesProcessed m' \<and>
     totalFramesSaved m = totalFramesSaved m'"
  by (drule arg_cong [where f = "\<lambda>m. (err m, episodeCount m, framesProcessed m, totalFramesSaved m)"]) (simp add: report_def)


definition demo_flags :: flags where
  "demo_flags = \<lparr>robot = ''r'', queue = ''inference/normvla'', fromFlag = ''5'', toFlag = ''9'', outputFlag = ''out'',
     flagTask = ''pick'', episodeDuration = 45, episodeMinCommands = 1, noTui = False\<rparr>"

definition demo_decimal :: "string \<Rightarrow> nat go" where
  "demo_decimal s = (if s = [] then Err ''empty'' else Ret (read_nat s))"

definition demo_cli_params :: "nat Params" where
  "demo_cli_params = demo_params\<lparr>Duration := 45000000000\<rparr>"

abbreviation demo_process :: "bool \<Rightarrow> nat Params \<Rightarrow> (nat ed_state option \<times> nat World \<times> string option) run" where
  "demo_process \<equiv> \<lambda>prog p. runProcessing nat_ops (\<lambda>_. Some ''id'') demo_station demo_parse demo_parseFrame (\<lambda>_. demo_env) demo_merge 1 prog p
     \<lparr>sent = [], files = \<lambda>_. None\<rparr>"


section \<open>Quitting\<close>

text \<open>
  C39. When the user quits while the processing goroutine is still at work, the program returns as if it had succeeded: the
  summary says that processing is complete and shows the upper bound as reached.
\<close>

theorem quit_reports_success:
  assumes "\<forall>msg \<in> set msgs. \<forall>e. msg \<noteq> Internal (DoneMsg e)"
  shows "snd (Update (KeyMsg ''q'') (Updates msgs (NewModel start p))) = Quit \<and>
    (\<exists>summary. main_tui env start now p (Handled (msgs @ [KeyMsg ''q''])) = (summary, Returns) \<and>
      check_mark @ '' Processing complete!'' \<in> set summary \<and>
      ''Progress: 100% - '' @ showPos env (Params.To p) @ ''/'' @ showPos env (Params.To p) \<in> set summary)"
proof -
  have err: "err (fst (Update msg m)) = err m" if "\<forall>e. msg \<noteq> Internal (DoneMsg e)" for msg :: "'a tea_msg" and m
    using that by (cases msg rule: bystander.cases) (simp_all add: Update_log_def Let_def)
  have par: "params (fst (Update msg m)) = params m" for msg :: "'a tea_msg" and m
    by (cases msg rule: bystander.cases) (simp_all add: Update_log_def Let_def)
  let ?m = "Updates (msgs @ [KeyMsg ''q'']) (NewModel start p)"
  have "err (Updates ms m) = err m" if "\<forall>msg \<in> set ms. \<forall>e. msg \<noteq> Internal (DoneMsg e)" for ms :: "'a tea_msg list" and m
    using that by (induction ms arbitrary: m) (simp_all add: Updates_Cons err, simp add: Updates_def)
  then have e: "err ?m = None" using assms by (simp add: NewModel_def)
  have "params (Updates ms m) = params m" for ms :: "'a tea_msg list" and m
    by (induction ms arbitrary: m) (simp_all add: Updates_Cons par, simp add: Updates_def)
  then have "params ?m = p" by (simp add: NewModel_def)
  then show ?thesis using main_tui_Handled [OF e, of env now] by (auto simp: Let_def)
qed

theorem quit_reports_success_witness:
  "\<exists>summary. main_tui demo_view 0 5 demo_params (Handled [Internal (ProgressMsg 6 9 500), KeyMsg ''q'']) = (summary, Returns) \<and>
     check_mark @ '' Processing complete!'' \<in> set summary"
  using quit_reports_success [of "[Internal (ProgressMsg 6 9 500)]" 0 demo_params demo_view 5] by auto

end
