(* ===== verification/Scoped_Names.thy ===== *)
theory Scoped_Names
  imports Go_Strings
begin

text \<open>
  Scoped names of the code generator, \<^verbatim>\<open>src/shared/gremlin_go/gremlinc/internal/types/scopes.go\<close>.
  A name keeps its last component, the components before it, the dotted path and the enclosing
  messages of its own file. The interface \<open>scoped_names\<close> is what name resolution relies on: a
  name stands for a path of components, entering a scope prepends its path, leaving it drops the
  last component. The search of \<^verbatim>\<open>resolving.go\<close> from a scope outwards, \<open>searchUp\<close>, is characterised
  once against that interface.
\<close>

section \<open>Names\<close>

type_synonym TargetPlatform = string

definition TargetPlatform_Go :: TargetPlatform where "TargetPlatform_Go = ''go''"

record ScopedName =
  name :: string
  parent :: "string list"
  fullPath :: string
  localPath :: "string list"
  platformName :: "TargetPlatform \<Rightarrow> string option"

text \<open>The zero value of the struct.\<close>

definition noName :: ScopedName where
  "noName = \<lparr>name = [], parent = [], fullPath = [], localPath = [], platformName = \<lambda>_. None\<rparr>"

definition dot :: char where "dot = CHR ''.''"

definition ParseName :: "string \<Rightarrow> ScopedName" where
  "ParseName n =
     (let parts = split_on dot n in
      if length parts > 1
      then noName\<lparr>name := last parts, parent := butlast parts, fullPath := n\<rparr>
      else noName\<lparr>name := n, parent := [], fullPath := n\<rparr>)"

definition Child :: "ScopedName \<Rightarrow> string \<Rightarrow> ScopedName" where
  "Child s n =
     (let path = parent s @ (if name s \<noteq> [] then [name s] else []) @ [n]
      in noName\<lparr>name := n, parent := butlast path, fullPath := join [dot] path\<rparr>)"

definition LocalChild :: "ScopedName \<Rightarrow> string \<Rightarrow> ScopedName" where
  "LocalChild s n = (Child s n)\<lparr>localPath := localPath s @ [name s]\<rparr>"

definition ToScope :: "ScopedName \<Rightarrow> ScopedName \<Rightarrow> ScopedName" where
  "ToScope s target =
     (if fullPath target = [] then s
      else let path = parent target @ (if name target \<noteq> [] then [name target] else []) @ parent s @ [name s]
        in noName\<lparr>name := name s, parent := butlast path, fullPath := join [dot] path\<rparr>)"

definition ToParent :: "ScopedName \<Rightarrow> ScopedName" where
  "ToParent s =
     (if parent s = [] then noName
      else noName\<lparr>name := last (parent s), parent := butlast (parent s), fullPath := join [dot] (parent s)\<rparr>)"

definition Equal :: "ScopedName \<Rightarrow> ScopedName \<Rightarrow> bool" where
  "Equal s partialName = (if name partialName \<noteq> name s then False else fullPath s = fullPath partialName)"

definition IsIn :: "ScopedName \<Rightarrow> ScopedName \<Rightarrow> bool" where
  "IsIn s p =
     (if length (parent s) \<le> length (parent p) then False
      else if parent p = [] then True
      else if list_ex (\<lambda>i. parent s ! i \<noteq> parent p ! i) [0..<length (parent p)] then False
      else parent s ! length (parent p) = name p)"

definition PlatformName :: "ScopedName \<Rightarrow> TargetPlatform \<Rightarrow> string" where
  "PlatformName s platform = (case platformName s platform of None \<Rightarrow> [] | Some n \<Rightarrow> n)"

definition WithPlatformName :: "ScopedName \<Rightarrow> TargetPlatform \<Rightarrow> string \<Rightarrow> ScopedName" where
  "WithPlatformName s platform n =
     noName\<lparr>name := name s, parent := parent s, fullPath := fullPath s,
       platformName := (platformName s)(platform := Some n)\<rparr>"

definition String :: "ScopedName \<Rightarrow> string" where "String s = fullPath s"
definition ProtoName :: "ScopedName \<Rightarrow> string" where "ProtoName s = name s"
definition CanResolveParent :: "ScopedName \<Rightarrow> bool" where "CanResolveParent s = (fullPath s \<noteq> [])"
definition LocalPath :: "ScopedName \<Rightarrow> string list" where "LocalPath s = localPath s"

lemmas name_ops = ParseName_def Child_def LocalChild_def ToScope_def ToParent_def noName_def

section \<open>The path a name stands for\<close>

definition path :: "ScopedName \<Rightarrow> string list" where
  "path s = (if fullPath s = [] then [] else parent s @ [name s])"

definition ident :: "string \<Rightarrow> bool" where
  "ident p \<longleftrightarrow> p \<noteq> [] \<and> dot \<notin> set p"

text \<open>A well-formed name is the empty name of the outermost scope or a path of identifiers.\<close>

definition wf_name :: "ScopedName \<Rightarrow> bool" where
  "wf_name s \<longleftrightarrow>
     (if fullPath s = [] then name s = [] \<and> parent s = []
      else list_all ident (parent s @ [name s]) \<and> fullPath s = join [dot] (parent s @ [name s]))"

lemma ident_no_dot: "list_all ident ps \<Longrightarrow> list_all (\<lambda>p. dot \<notin> set p) ps"
  by (auto simp: ident_def list_all_iff)

lemma join_ident_Nil [simp]: "list_all ident ps \<Longrightarrow> join [dot] ps = [] \<longleftrightarrow> ps = []"
  by (auto simp: join_eq_Nil ident_def)

lemma join_snoc_Nil [simp]: "ident p \<Longrightarrow> join [dot] (ps @ [p]) \<noteq> []"
  by (auto simp: join_eq_Nil ident_def append_eq_Cons_conv)

lemma wf_path: "wf_name s \<Longrightarrow> list_all ident (path s) \<and> fullPath s = join [dot] (path s)"
  by (auto simp: wf_name_def path_def)

lemma wf_noName [simp]: "wf_name noName" "path noName = []"
  by (simp_all add: wf_name_def path_def noName_def)

lemma split_idents: "list_all ident ps \<Longrightarrow> ps \<noteq> [] \<Longrightarrow> split_on dot (join [dot] ps) = ps"
  by (rule split_join) (simp_all add: ident_no_dot)

lemma ParseName_path:
  "list_all ident ps \<Longrightarrow> wf_name (ParseName (join [dot] ps)) \<and> path (ParseName (join [dot] ps)) = ps"
proof (cases "ps = []")
  case True
  then show ?thesis by (simp add: ParseName_def noName_def wf_name_def path_def)
next
  case False
  assume a: "list_all ident ps"
  have s: "split_on dot (join [dot] ps) = ps" by (rule split_idents [OF a False])
  have ne: "join [dot] ps \<noteq> []" using a False by simp
  show ?thesis
  proof (cases "length ps > 1")
    case True
    then have "butlast ps @ [last ps] = ps" using False by simp
    then show ?thesis
      using a True ne by (simp add: ParseName_def s noName_def wf_name_def path_def)
  next
    case len: False
    with False obtain p where "ps = [p]" by (cases ps) auto
    then show ?thesis using a ne s by (simp add: ParseName_def noName_def wf_name_def path_def)
  qed
qed

text \<open>The names that the operations build.\<close>

definition mkName :: "string list \<Rightarrow> ScopedName" where
  "mkName ps = noName\<lparr>name := last ps, parent := butlast ps, fullPath := join [dot] ps\<rparr>"

lemma mkName_path: "list_all ident ps \<Longrightarrow> ps \<noteq> [] \<Longrightarrow> wf_name (mkName ps) \<and> path (mkName ps) = ps"
  by (simp add: mkName_def wf_name_def path_def noName_def)

lemma wf_components:
  assumes "wf_name s"
  shows "parent s @ (if name s \<noteq> [] then [name s] else []) = path s"
  using assms by (cases "fullPath s = []") (auto simp: wf_name_def path_def ident_def)

lemma Child_path:
  assumes "wf_name s" and "ident n"
  shows "wf_name (Child s n)" and "path (Child s n) = path s @ [n]" and "localPath (Child s n) = []"
proof -
  have "Child s n = mkName (path s @ [n])"
    unfolding Child_def Let_def append_assoc [symmetric] wf_components [OF assms(1)]
    by (simp add: mkName_def)
  then show "wf_name (Child s n)" "path (Child s n) = path s @ [n]" "localPath (Child s n) = []"
    using mkName_path [of "path s @ [n]"] wf_path [OF assms(1)] assms(2)
    by (simp_all, simp add: mkName_def noName_def)
qed

lemma ToScope_path:
  assumes "wf_name s" and "wf_name t" and "path s \<noteq> []"
  shows "wf_name (ToScope s t)" and "path (ToScope s t) = path t @ path s"
proof -
  have s: "parent s @ [name s] = path s" using assms(3) by (simp add: path_def split: if_splits)
  have "wf_name (ToScope s t) \<and> path (ToScope s t) = path t @ path s"
  proof (cases "fullPath t = []")
    case True
    then show ?thesis using assms(1) by (simp add: ToScope_def path_def [of t])
  next
    case False
    let ?t = "parent t @ (if name t \<noteq> [] then [name t] else [])"
    have "ToScope s t = mkName (path t @ path s)"
    proof -
      have "?t @ parent s @ [name s] = path t @ path s"
        using wf_components [OF assms(2)] s by simp
      moreover have "ToScope s t = noName\<lparr>name := name s, parent := butlast (?t @ parent s @ [name s]),
          fullPath := join [dot] (?t @ parent s @ [name s])\<rparr>"
        using False by (simp add: ToScope_def Let_def)
      moreover have "name s = last (path t @ path s)" using s by (simp flip: s)
      ultimately show ?thesis by (simp only: mkName_def)
    qed
    then show ?thesis
      using mkName_path [of "path t @ path s"] assms(3) wf_path [OF assms(1)] wf_path [OF assms(2)] by simp
  qed
  then show "wf_name (ToScope s t)" "path (ToScope s t) = path t @ path s" by simp_all
qed

lemma ToParent_path:
  assumes "wf_name s"
  shows "wf_name (ToParent s)" and "path (ToParent s) = butlast (path s)"
proof -
  have "wf_name (ToParent s) \<and> path (ToParent s) = butlast (path s)"
  proof (cases "parent s = []")
    case True
    then show ?thesis by (simp add: ToParent_def path_def [of s])
  next
    case False
    then have "butlast (path s) = parent s" "list_all ident (parent s)"
      using assms by (auto simp: wf_name_def path_def split: if_splits)
    moreover have "ToParent s = mkName (parent s)" using False by (simp add: ToParent_def mkName_def)
    ultimately show ?thesis using mkName_path [of "parent s"] False by simp
  qed
  then show "wf_name (ToParent s)" "path (ToParent s) = butlast (path s)" by simp_all
qed

lemma path_inject: "wf_name s \<Longrightarrow> wf_name t \<Longrightarrow> fullPath s = fullPath t \<longleftrightarrow> path s = path t"
  using wf_path [of s] wf_path [of t] split_idents [of "path s"] split_idents [of "path t"]
    join_ident_Nil [of "path s"] join_ident_Nil [of "path t"] by metis

lemma path_name: "wf_name s \<Longrightarrow> name s = (if path s = [] then [] else last (path s))"
  by (simp add: wf_name_def path_def split: if_splits)

lemma Equal_path: "wf_name s \<Longrightarrow> wf_name t \<Longrightarrow> Equal s t \<longleftrightarrow> path s = path t"
  by (auto simp: Equal_def path_inject path_name)

lemma IsIn_path:
  assumes "parent p \<noteq> []"
  shows "IsIn s p \<longleftrightarrow> (\<exists>r. parent s = parent p @ name p # r)"
proof -
  let ?n = "length (parent p)"
  have "\<not> list_ex (\<lambda>i. parent s ! i \<noteq> parent p ! i) [0..<?n] \<longleftrightarrow> take ?n (parent s) = parent p"
    if "?n < length (parent s)"
    using that by (subst list_eq_iff_nth_eq) (auto simp: list_ex_iff)
  then have i: "IsIn s p \<longleftrightarrow> ?n < length (parent s) \<and> take ?n (parent s) = parent p \<and> parent s ! ?n = name p"
    using assms by (cases "?n < length (parent s)") (auto simp: IsIn_def)
  show ?thesis
  proof
    assume "IsIn s p"
    then show "\<exists>r. parent s = parent p @ name p # r"
      using i id_take_nth_drop [of ?n "parent s"] by metis
  next
    assume "\<exists>r. parent s = parent p @ name p # r"
    then show "IsIn s p" using i by auto
  qed
qed

section \<open>Searching from a scope outwards\<close>

text \<open>
  The loop that \<^verbatim>\<open>resolving.go\<close> writes four times: enter the scope, look the name up, leave the
  scope, until the outermost scope has been searched. \<open>look_up\<close> is the loop body's lookup.
\<close>

function searchUp :: "(ScopedName \<Rightarrow> 'a option) \<Rightarrow> ScopedName \<Rightarrow> ScopedName \<Rightarrow> 'a option" where
  "searchUp look_up scopedName searchPath =
     (case look_up (ToScope scopedName searchPath) of
        Some x \<Rightarrow> Some x
      | None \<Rightarrow> if CanResolveParent searchPath
          then searchUp look_up scopedName (ToParent searchPath)
          else None)"
  by auto

termination searchUp
proof (relation "measure (\<lambda>(_, _, s). length (parent s) + (if fullPath s = [] then 0 else 1))")
  show "((f, n, ToParent s), (f, n, s)) \<in>
      measure (\<lambda>(_, _, s). length (parent s) + (if fullPath s = [] then 0 else 1))"
    if "CanResolveParent s" for f :: "ScopedName \<Rightarrow> 'a option" and n s
    using that by (auto simp: CanResolveParent_def ToParent_def noName_def)
qed simp

declare searchUp.simps [simp del]

text \<open>The first value a function returns on a list of candidates.\<close>

fun first_some :: "('a \<Rightarrow> 'b option) \<Rightarrow> 'a list \<Rightarrow> 'b option" where
  "first_some f [] = None"
| "first_some f (x # xs) = (case f x of Some y \<Rightarrow> Some y | None \<Rightarrow> first_some f xs)"

lemma first_some_append: "first_some f (xs @ ys) =
    (case first_some f xs of Some y \<Rightarrow> Some y | None \<Rightarrow> first_some f ys)"
  by (induction xs) (auto split: option.splits)

lemma first_some_map: "first_some f (map g xs) = first_some (f \<circ> g) xs"
  by (induction xs) (auto split: option.splits)

lemma first_some_None: "first_some f xs = None \<longleftrightarrow> (\<forall>x \<in> set xs. f x = None)"
  by (induction xs) (auto split: option.splits)

lemma first_some_first:
  "f x = Some y \<Longrightarrow> (\<And>a. a \<in> set as \<Longrightarrow> f a = None) \<Longrightarrow> first_some f (as @ x # bs) = Some y"
  by (induction as) simp_all

lemma first_some_Some:
  assumes "first_some f xs = Some y"
  obtains as x bs where "xs = as @ x # bs" and "f x = Some y" and "\<And>a. a \<in> set as \<Longrightarrow> f a = None"
proof -
  obtain x where x: "x \<in> set xs" "f x \<noteq> None"
    using assms first_some_None [of f xs] by force
  from split_list_first_prop [of xs "\<lambda>x. f x \<noteq> None"] x
  obtain as z bs where z: "xs = as @ z # bs" "f z \<noteq> None" "\<forall>a \<in> set as. \<not> f a \<noteq> None" by blast
  moreover obtain w where "f z = Some w" using z(2) by auto
  ultimately show thesis
    using that [of as z bs] assms first_some_first [of f z w as bs] by simp
qed

text \<open>The scopes around a path, innermost first, ending with the outermost one.\<close>

definition scopes :: "'a list \<Rightarrow> 'a list list" where
  "scopes p = map (\<lambda>k. take k p) (rev [0..<Suc (length p)])"

lemma scopes_Nil [simp]: "scopes [] = [[]]"
  by (simp add: scopes_def)

lemma scopes_snoc: "p \<noteq> [] \<Longrightarrow> scopes p = p # scopes (butlast p)"
proof -
  assume "p \<noteq> []"
  then obtain k where k: "length p = Suc k" by (cases p) auto
  have "map (\<lambda>k. take k p) (rev [0..<Suc k]) = map (\<lambda>k. take k (butlast p)) (rev [0..<Suc k])"
    by (rule map_cong) (auto simp: k take_butlast butlast_conv_take)
  then show ?thesis using k by (simp add: scopes_def)
qed

locale scoped_names =
  fixes wf :: "'n \<Rightarrow> bool" and to_path :: "'n \<Rightarrow> 'c list"
    and enter :: "'n \<Rightarrow> 'n \<Rightarrow> 'n" and leave :: "'n \<Rightarrow> 'n" and same :: "'n \<Rightarrow> 'n \<Rightarrow> bool"
    and inner :: "'n \<Rightarrow> bool" and search :: "('n \<Rightarrow> 'b option) \<Rightarrow> 'n \<Rightarrow> 'n \<Rightarrow> 'b option"
  assumes wf_enter: "wf n \<Longrightarrow> wf s \<Longrightarrow> to_path n \<noteq> [] \<Longrightarrow> wf (enter n s)"
    and path_enter: "wf n \<Longrightarrow> wf s \<Longrightarrow> to_path n \<noteq> [] \<Longrightarrow> to_path (enter n s) = to_path s @ to_path n"
    and wf_leave: "wf s \<Longrightarrow> wf (leave s)"
    and path_leave: "wf s \<Longrightarrow> to_path (leave s) = butlast (to_path s)"
    and same_path: "wf m \<Longrightarrow> wf n \<Longrightarrow> same m n \<longleftrightarrow> to_path m = to_path n"
    and inner_path: "wf s \<Longrightarrow> inner s \<longleftrightarrow> to_path s \<noteq> []"
    and search_unfold: "search look_up n s = (case look_up (enter n s) of
        Some x \<Rightarrow> Some x | None \<Rightarrow> if inner s then search look_up n (leave s) else None)"
begin

text \<open>A lookup that sees a name only through its path finds it in the innermost scope that has it.\<close>

lemma search_scopes:
  assumes "wf n" and "to_path n \<noteq> []" and "wf s" and "\<And>m. wf m \<Longrightarrow> look_up m = look (to_path m)"
  shows "search look_up n s = first_some (\<lambda>sc. look (sc @ to_path n)) (scopes (to_path s))"
  using assms(3)
proof (induction "length (to_path s)" arbitrary: s)
  case 0
  then have "look_up (enter n s) = look (to_path n)"
    using assms wf_enter [of n s] path_enter [of n s] by simp
  moreover have "search look_up n s = (case look_up (enter n s) of
        Some x \<Rightarrow> Some x | None \<Rightarrow> if inner s then search look_up n (leave s) else None)"
    by (rule search_unfold)
  ultimately show ?case using 0 inner_path [of s] by (simp split: option.split)
next
  case (Suc k)
  then have f: "look_up (enter n s) = look (to_path s @ to_path n)"
    using assms wf_enter [of n s] path_enter [of n s] by simp
  have "search look_up n (leave s) = first_some (\<lambda>sc. look (sc @ to_path n)) (scopes (butlast (to_path s)))"
    using Suc wf_leave [of s] path_leave [of s] by simp
  moreover have "search look_up n s = (case look_up (enter n s) of
        Some x \<Rightarrow> Some x | None \<Rightarrow> if inner s then search look_up n (leave s) else None)"
    by (rule search_unfold)
  moreover have ne: "to_path s \<noteq> []" using Suc(2) by auto
  ultimately show ?case using f Suc.prems inner_path [of s] scopes_snoc [OF ne] by (simp split: option.split)
qed

end

interpretation sn: scoped_names wf_name path ToScope ToParent Equal CanResolveParent searchUp
proof unfold_locales
  show "CanResolveParent s \<longleftrightarrow> path s \<noteq> []" for s
    by (simp add: CanResolveParent_def path_def)
qed (fact ToScope_path ToParent_path Equal_path searchUp.simps)+

end
