(* ===== verification/Proto_Model.thy ===== *)
theory Proto_Model
  imports Scoped_Names
begin

text \<open>
  The data of the code generator's front end,
  \<^verbatim>\<open>src/shared/gremlin_go/gremlinc/internal/types\<close>: proto files with their imports, messages and
  enums. Messages and enums are shared by pointer in the source; here a pointer is an address into
  the heaps of a \<open>program\<close>, and a pointer to a file is its index. The syntax tree of the package
  \<^verbatim>\<open>emicklei/proto\<close> is the values of the fields that the code reads.
\<close>

section \<open>The syntax tree of the parser package\<close>

record proto_option =
  optName :: string
  optSource :: string
  optIsString :: bool

record proto_field =
  pfName :: string
  pfType :: string
  pfSequence :: int
  pfOptions :: "proto_option list"

text \<open>The elements of a message. A field of a \<^verbatim>\<open>oneof\<close> is a plain field inside the group's elements.\<close>

datatype element =
    NormalField proto_field bool bool
  | MapField proto_field string
  | Oneof string "element list"
  | OneOfField proto_field
  | Group string
  | OtherElement

record proto_message =
  pmName :: string
  pmIsExtend :: bool
  pmElements :: "element list"

record proto_enum_field =
  efName :: string
  efInteger :: int
  efElements :: "proto_option option list"

record proto_enum =
  peName :: string
  peFields :: "proto_enum_field option list"

text \<open>
  What a walk over a file visits, in order. A message or enum comes with the names of the messages
  around it, innermost first; an element that is not of a kind the code asks for is \<^term>\<open>None\<close>
  or \<open>VOther\<close>.
\<close>

datatype visitee =
    VImport string string
  | VSyntax string
  | VPackage string
  | VOption proto_option
  | VMessage "string list" proto_message
  | VEnum "string list" proto_enum
  | VOther

section \<open>Definitions\<close>

type_synonym msg_ptr = nat
type_synonym enum_ptr = nat
type_synonym file_ptr = nat

definition ProtobufScalarTypes :: "string list" where
  "ProtobufScalarTypes = [''string'', ''bytes'', ''bool'', ''double'', ''float'', ''int32'', ''int64'',
     ''uint32'', ''uint64'', ''sint32'', ''sint64'', ''fixed32'', ''fixed64'', ''sfixed32'', ''sfixed64'']"

definition PbGoExtension :: string where "PbGoExtension = ''.pb2.go''"
definition ProtoExtension :: string where "ProtoExtension = ''.proto''"

record EnumValueOptionDefinition =
  eoName :: string
  eoRepeated :: bool
  eoScalarValueType :: string
  eoLocalEnumType :: "enum_ptr option"
  eoProtoDef :: "proto_option option"
  eoValues :: "string list"
  eoValue :: string

record EnumValueDefinition =
  evName :: ScopedName
  evValue :: int
  evProtoDef :: proto_enum_field
  evOptions :: "string \<Rightarrow> EnumValueOptionDefinition option"

record EnumDefinition =
  edName :: ScopedName
  edValues :: "EnumValueDefinition list"
  edProtoDef :: proto_enum

record MessageFieldDefinition =
  mfName :: ScopedName
  Repeated :: bool
  Map :: bool
  OneOfGroup :: string
  MapKeyType :: string
  Required :: bool
  ScalarValueType :: string
  ExternalTypeFile :: "file_ptr option"
  ExternalEnumType :: "enum_ptr option"
  ExternalMsgType :: "msg_ptr option"
  LocalEnumType :: "enum_ptr option"
  LocalMsgType :: "msg_ptr option"
  mfProtoDef :: proto_field
  ExtraScopes :: "ScopedName list"
  DefaultValue :: "proto_option option"

record MessageDefinition =
  mdName :: ScopedName
  Fields :: "MessageFieldDefinition list"
  mdProtoDef :: proto_message

record ProtoImport =
  FSPath :: string
  TargetFile :: "file_ptr option"
  importKind :: string

record ProtoPackage =
  pkgName :: ScopedName

record ProtoFile =
  Path :: string
  RelativePath :: string
  Parsed :: "visitee list"
  Proto2 :: bool
  Package :: "ProtoPackage option"
  Imports :: "ProtoImport list"
  Enums :: "enum_ptr list"
  Messages :: "msg_ptr list"
  BaseFolder :: string

record program =
  files :: "ProtoFile list"
  messages :: "MessageDefinition list"
  enums :: "EnumDefinition list"

text \<open>The copy of a field shares nothing that is written later: the pointers stay, the list of
  extra scopes is a new slice.\<close>

definition Copy :: "MessageFieldDefinition \<Rightarrow> MessageFieldDefinition" where
  "Copy m = \<lparr>mfName = mfName m, Repeated = Repeated m, Map = Map m, OneOfGroup = OneOfGroup m,
     MapKeyType = MapKeyType m, Required = Required m, ScalarValueType = ScalarValueType m,
     ExternalTypeFile = ExternalTypeFile m, ExternalEnumType = ExternalEnumType m,
     ExternalMsgType = ExternalMsgType m, LocalEnumType = LocalEnumType m, LocalMsgType = LocalMsgType m,
     mfProtoDef = mfProtoDef m, ExtraScopes = ExtraScopes m, DefaultValue = DefaultValue m\<rparr>"

lemma Copy_id [simp]: "Copy m = m"
  by (simp add: Copy_def)

text \<open>The errors the front end reports, with the values their texts are made of.\<close>

datatype gen_error =
    GroupUnsupported string string
  | ImportUnresolved string string string string
  | ExtendUnresolved string string string
  | ReferenceUnresolved string string string
  | UnknownOption string string

section \<open>Updates of the heaps\<close>

definition upd_file :: "file_ptr \<Rightarrow> (ProtoFile \<Rightarrow> ProtoFile) \<Rightarrow> program \<Rightarrow> program" where
  "upd_file i f P = P\<lparr>files := (files P)[i := f (files P ! i)]\<rparr>"

definition upd_msg :: "msg_ptr \<Rightarrow> (MessageDefinition \<Rightarrow> MessageDefinition) \<Rightarrow> program \<Rightarrow> program" where
  "upd_msg a f P = P\<lparr>messages := (messages P)[a := f (messages P ! a)]\<rparr>"

definition upd_enum :: "enum_ptr \<Rightarrow> (EnumDefinition \<Rightarrow> EnumDefinition) \<Rightarrow> program \<Rightarrow> program" where
  "upd_enum a f P = P\<lparr>enums := (enums P)[a := f (enums P ! a)]\<rparr>"

lemma upd_simps [simp]:
  "messages (upd_file i g P) = messages P" "enums (upd_file i g P) = enums P"
  "files (upd_msg a h P) = files P" "enums (upd_msg a h P) = enums P"
  "files (upd_enum a k P) = files P" "messages (upd_enum a k P) = messages P"
  "length (files (upd_file i g P)) = length (files P)"
  "length (messages (upd_msg a h P)) = length (messages P)"
  "length (enums (upd_enum a k P)) = length (enums P)"
  by (simp_all add: upd_file_def upd_msg_def upd_enum_def)

end
