(* ===== verification/Gen_Fields.thy ===== *)
theory Gen_Fields
  imports Go_Text Proto_Model
begin

text \<open>
  The Go field types of the code generator,
  \<^verbatim>\<open>src/shared/gremlin_go/gremlinc/internal/generators/golang/fields\<close>: six implementations of the
  interface \<^verbatim>\<open>GoFieldType\<close> of \<^verbatim>\<open>core/types.go\<close>, whose methods return source text. A method of an
  implementation is \<open><type>_<Method>\<close>; for a list or map type it takes the results of the same
  interface for the entries as arguments, and the datatype \<open>GoFieldType\<close> ties them together. The
  methods that end the program on some types return \<^term>\<open>Panic\<close> there.
\<close>

section \<open>Scalars\<close>

text \<open>A lookup in a Go map gives the zero value for a missing key.\<close>

definition go_lookup :: "(string \<times> string) list \<Rightarrow> string \<Rightarrow> string" where
  "go_lookup m k = (case map_of m k of None \<Rightarrow> [] | Some v \<Rightarrow> v)"

definition goBasicTypesMap :: "(string \<times> string) list" where
  "goBasicTypesMap = [(''string'', ''string''), (''bytes'', ''[]byte''), (''bool'', ''bool''), (''double'', ''float64''),
     (''float'', ''float32''), (''int32'', ''int32''), (''int64'', ''int64''), (''uint32'', ''uint32''),
     (''uint64'', ''uint64''), (''sint32'', ''int32''), (''sint64'', ''int64''), (''fixed32'', ''uint32''),
     (''fixed64'', ''uint64''), (''sfixed32'', ''int32''), (''sfixed64'', ''int64'')]"

record goBasicValueType =
  bName :: string
  bProtoType :: string
  bDefault :: string
  bRequired :: bool

definition goBasicValueType_ReaderTypeName :: "goBasicValueType \<Rightarrow> string" where
  "goBasicValueType_ReaderTypeName t = bName t"

definition goBasicValueType_WriterTypeName :: "goBasicValueType \<Rightarrow> string" where
  "goBasicValueType_WriterTypeName t = bName t"

text \<open>The default values. What they import into the file is returned beside them: the path, which
  is also the alias, or nothing.\<close>

definition parseByteDefaultValue :: "proto_option \<Rightarrow> string" where
  "parseByteDefaultValue d =
     (if optIsString d then sprintf ''[]byte(%q)'' [optSource d] else sprintf ''[]byte(%v)'' [optSource d])"

definition setPositiveInfDefault :: "goBasicValueType \<Rightarrow> string" where
  "setPositiveInfDefault t = (if bName t \<noteq> ''float64'' then sprintf ''%v(math.Inf(1))'' [bName t] else ''math.Inf(1)'')"

definition setNegativeInfDefault :: "goBasicValueType \<Rightarrow> string" where
  "setNegativeInfDefault t = (if bName t \<noteq> ''float64'' then sprintf ''%v(math.Inf(-1))'' [bName t] else ''math.Inf(-1)'')"

definition setNanDefault :: "goBasicValueType \<Rightarrow> string" where
  "setNanDefault t = (if bName t \<noteq> ''float64'' then sprintf ''%v(math.NaN())'' [bName t] else ''math.NaN()'')"

definition parseDefaultValue :: "MessageFieldDefinition \<Rightarrow> goBasicValueType \<Rightarrow> goBasicValueType \<times> string option" where
  "parseDefaultValue field t =
     (case DefaultValue field of
        None \<Rightarrow> (t, None)
      | Some d \<Rightarrow>
          if bName t = ''[]byte'' then (t\<lparr>bDefault := parseByteDefaultValue d\<rparr>, Some ''bytes'')
          else if bName t = ''string'' then (t\<lparr>bDefault := quote (optSource d)\<rparr>, None)
          else if optSource d = ''inf'' then (t\<lparr>bDefault := setPositiveInfDefault t\<rparr>, Some ''math'')
          else if optSource d = ''-inf'' then (t\<lparr>bDefault := setNegativeInfDefault t\<rparr>, Some ''math'')
          else if optSource d = ''nan'' then (t\<lparr>bDefault := setNanDefault t\<rparr>, Some ''math'')
          else (t\<lparr>bDefault := optSource d\<rparr>, None))"

definition canBePacked :: "string list" where
  "canBePacked = [''bool'', ''double'', ''float'', ''int32'', ''int64'', ''uint32'', ''uint64'',
     ''sint32'', ''sint64'', ''fixed32'', ''fixed64'', ''sfixed32'', ''sfixed64'']"

definition goBasicValueType_CanBePacked :: "goBasicValueType \<Rightarrow> bool" where
  "goBasicValueType_CanBePacked t = (bProtoType t \<in> set canBePacked)"

definition bufBasicTypesReaders :: "(string \<times> string) list" where
  "bufBasicTypesReaders = [(''string'', ''ReadString''), (''bytes'', ''ReadBytes''), (''bool'', ''ReadBool''), (''double'', ''ReadFloat64''),
     (''float'', ''ReadFloat32''), (''int32'', ''ReadInt32''), (''int64'', ''ReadInt64''), (''uint32'', ''ReadUint32''),
     (''uint64'', ''ReadUint64''), (''sint32'', ''ReadSInt32''), (''sint64'', ''ReadSInt64''), (''fixed32'', ''ReadFixed32''),
     (''fixed64'', ''ReadFixed64''), (''sfixed32'', ''ReadSFixed32''), (''sfixed64'', ''ReadSFixed64'')]"

definition goBasicValueType_EntryUnmarshalSaveOffsets :: "string \<Rightarrow> string \<Rightarrow> string" where
  "goBasicValueType_EntryUnmarshalSaveOffsets tabs fieldName =
     AddTabs (sprintf ''m.offset%v = offset'' [fieldName]) tabs"

definition goBasicValueType_EntryReader :: "goBasicValueType \<Rightarrow> string \<Rightarrow> string \<Rightarrow> string" where
  "goBasicValueType_EntryReader t tabs v =
     (let rd = go_lookup bufBasicTypesReaders (bProtoType t);
          res = if bDefault t = []
            then sprintf (code [(0, ''''), (0, ''var %v %v''), (0, ''if wOffset > 0 {''), 
        (1, ''%v = m.buf.%v(wOffset)''), (0, ''}''), (0, '''')])
              [v, goBasicValueType_ReaderTypeName t, v, rd]
            else sprintf (code [(0, ''''), (0, ''var %v %v''), (0, ''if wOffset > 0 {''), 
        (1, ''%v = m.buf.%v(wOffset)''), (0, ''} else {''), (1, ''%v = %v''), (0, ''}''), 
        (0, '''')])
              [v, goBasicValueType_ReaderTypeName t, v, rd, v, bDefault t]
      in AddTabs res tabs)"

definition goBasicValueType_EntrySizedReader :: "goBasicValueType \<Rightarrow> string \<Rightarrow> string \<Rightarrow> string" where
  "goBasicValueType_EntrySizedReader t tabs v =
     (let rd = go_lookup bufBasicTypesReaders (bProtoType t);
          res = if bDefault t = []
            then sprintf (code [(0, ''''), (0, ''var %v %v''), (0, ''var %vSize int''), (0, ''if wOffset > 0 {''), 
        (1, ''%v, %vSize = m.buf.Sized%v(wOffset)''), (0, ''}''), (0, '''')])
              [v, goBasicValueType_ReaderTypeName t, v, v, v, rd]
            else sprintf (code [(0, ''''), (0, ''var %v %v''), (0, ''var %vSize int''), (0, ''if wOffset > 0 {''), 
        (1, ''%v, %vSize = m.buf.Sized%v(wOffset)''), (0, ''} else {''), (1, ''%v = %v''), 
        (0, ''}''), (0, '''')])
              [v, goBasicValueType_ReaderTypeName t, v, v, v, rd, v, bDefault t]
      in AddTabs res tabs)"

definition goBasicValueType_ToStruct :: "string \<Rightarrow> string \<Rightarrow> string \<Rightarrow> string" where
  "goBasicValueType_ToStruct tabs targetVar readerField =
     AddTabs (sprintf ''%v = %v'' [targetVar, readerField]) tabs"

definition goBasicValueType_EntryIsNotEmpty :: "goBasicValueType \<Rightarrow> string \<Rightarrow> string" where
  "goBasicValueType_EntryIsNotEmpty t v =
     (if bRequired t then ''true''
      else if goBasicValueType_ReaderTypeName t = ''[]byte'' then
        (if bDefault t = [] then sprintf ''len(%v) != 0'' [v]
         else sprintf ''!bytes.Equal(%v, %v)'' [v, bDefault t])
      else if goBasicValueType_ReaderTypeName t = ''string'' then
        (if bDefault t = [] then sprintf (''%v != '' @ [dq] @ [dq]) [v]
         else sprintf ''%v != %v'' [v, bDefault t])
      else if goBasicValueType_ReaderTypeName t = ''bool'' then
        (if bDefault t = [] then sprintf ''%v'' [v]
         else sprintf ''%v != %v'' [v, bDefault t])
      else
        (if bDefault t = [] then sprintf ''%v != 0'' [v]
         else sprintf ''%v != %v'' [v, bDefault t]))"

definition goBasicValueType_DefaultReturn :: "goBasicValueType \<Rightarrow> string" where
  "goBasicValueType_DefaultReturn t =
     (if bDefault t \<noteq> [] then bDefault t
      else if goBasicValueType_ReaderTypeName t = ''[]byte'' then ''nil''
      else if goBasicValueType_ReaderTypeName t = ''string'' then [dq, dq]
      else if goBasicValueType_ReaderTypeName t = ''bool'' then ''false''
      else ''0'')"

definition bufBasicTypesWriters :: "(string \<times> string) list" where
  "bufBasicTypesWriters = [(''string'', ''AppendString''), (''bytes'', ''AppendBytes''), (''bool'', ''AppendBool''), (''double'', ''AppendFloat64''),
     (''float'', ''AppendFloat32''), (''int32'', ''AppendInt32''), (''int64'', ''AppendInt64''), (''uint32'', ''AppendUint32''),
     (''uint64'', ''AppendUint64''), (''sint32'', ''AppendSInt32''), (''sint64'', ''AppendSInt64''), (''fixed32'', ''AppendFixed32''),
     (''fixed64'', ''AppendFixed64''), (''sfixed32'', ''AppendSFixed32''), (''sfixed64'', ''AppendSFixed64'')]"

definition goBasicValueType_EntryWriter :: "goBasicValueType \<Rightarrow> string \<Rightarrow> string \<Rightarrow> string \<Rightarrow> string \<Rightarrow> string" where
  "goBasicValueType_EntryWriter t tabs targetBuffer tag varName =
     AddTabs (sprintf ''%v.%v(%v, %v)''
       [targetBuffer, go_lookup bufBasicTypesWriters (bProtoType t), tag, varName]) tabs"

definition goBasicValueType_PackedEntryWriter :: "goBasicValueType \<Rightarrow> string \<Rightarrow> string \<Rightarrow> string \<Rightarrow> string" where
  "goBasicValueType_PackedEntryWriter t tabs targetBuffer varName =
     AddTabs (sprintf ''%v.%vWithoutTag(%v)''
       [targetBuffer, go_lookup bufBasicTypesWriters (bProtoType t), varName]) tabs"

definition goBasicValueType_EntryCopy :: "string \<Rightarrow> string \<Rightarrow> string \<Rightarrow> string" where
  "goBasicValueType_EntryCopy tabs targetVar srcVar = AddTabs (sprintf ''%v = %v'' [targetVar, srcVar]) tabs"

definition bufBasicTypesSizers :: "(string \<times> string) list" where
  "bufBasicTypesSizers = [(''string'', ''SizeString''), (''bytes'', ''SizeBytes''), (''bool'', ''SizeBool''), (''double'', ''SizeFloat64''),
     (''float'', ''SizeFloat32''), (''int32'', ''SizeInt32''), (''int64'', ''SizeInt64''), (''uint32'', ''SizeUint32''),
     (''uint64'', ''SizeUint64''), (''sint32'', ''SizeSInt32''), (''sint64'', ''SizeSInt64''), (''fixed32'', ''SizeFixed32''),
     (''fixed64'', ''SizeFixed64''), (''sfixed32'', ''SizeSFixed32''), (''sfixed64'', ''SizeSFixed64'')]"

definition goBasicValueType_EntryFullSizeWithTag :: "goBasicValueType \<Rightarrow> string \<Rightarrow> string \<Rightarrow> string \<Rightarrow> string \<Rightarrow> string" where
  "goBasicValueType_EntryFullSizeWithTag t tabs sizeVar fieldName fieldTag =
     (let sz = go_lookup bufBasicTypesSizers (bProtoType t) in
      if bProtoType t = ''bytes'' \<or> bProtoType t = ''string''
      then AddTabs (sprintf (code [(0, ''%v = gremlin.%v(%v)''), 
        (0, ''%v += gremlin.SizeUint64(uint64(%v)) + gremlin.SizeTag(%v)'')])
        [sizeVar, sz, fieldName, sizeVar, sizeVar, fieldTag]) tabs
      else AddTabs (sprintf ''%v = gremlin.SizeTag(%v) + gremlin.%v(%v)''
        [sizeVar, fieldTag, sz, fieldName]) tabs)"

definition goBasicValueType_EntryFullSizeWithoutTag :: "goBasicValueType \<Rightarrow> string \<Rightarrow> string \<Rightarrow> string \<Rightarrow> string" where
  "goBasicValueType_EntryFullSizeWithoutTag t tabs sizeVar fieldName =
     (let sz = go_lookup bufBasicTypesSizers (bProtoType t) in
      if bProtoType t = ''bytes'' \<or> bProtoType t = ''string''
      then AddTabs (sprintf (code [(0, ''%v = gremlin.%v(%v)''), (0, ''%v += gremlin.SizeUint64(uint64(%v))'')])
        [sizeVar, sz, fieldName, sizeVar, sizeVar]) tabs
      else AddTabs (sprintf ''%v = gremlin.%v(%v)'' [sizeVar, sz, fieldName]) tabs)"

section \<open>Enums\<close>

record goEnumValueType =
  eEnumName :: string
  eDefault :: string
  eRequired :: bool

definition goEnumValueType_ReaderTypeName :: "goEnumValueType \<Rightarrow> string" where
  "goEnumValueType_ReaderTypeName e = eEnumName e"

definition goEnumValueType_WriterTypeName :: "goEnumValueType \<Rightarrow> string" where
  "goEnumValueType_WriterTypeName e = goEnumValueType_ReaderTypeName e"

text \<open>The default value, given the constant of the enum type for a value name.\<close>

definition resolveDefaultValue ::
  "MessageFieldDefinition \<Rightarrow> string \<Rightarrow> (string \<Rightarrow> string) \<Rightarrow> goEnumValueType \<Rightarrow> goEnumValueType" where
  "resolveDefaultValue field enumPackage getEnumForDefault e =
     (case DefaultValue field of
        None \<Rightarrow> e
      | Some d \<Rightarrow> e\<lparr>eDefault := enumPackage @ getEnumForDefault (optSource d)\<rparr>)"

definition goEnumValueType_EntryUnmarshalSaveOffsets :: "string \<Rightarrow> string \<Rightarrow> string" where
  "goEnumValueType_EntryUnmarshalSaveOffsets tabs fieldName =
     AddTabs (sprintf ''m.offset%v = offset'' [fieldName]) tabs"

definition goEnumValueType_EntryReader :: "goEnumValueType \<Rightarrow> string \<Rightarrow> string \<Rightarrow> string" where
  "goEnumValueType_EntryReader e tabs v =
     (let res = if eDefault e = []
        then sprintf (code [(0, ''''), (0, ''var %v %v''), (0, ''if wOffset > 0 {''), 
        (1, ''rawEntry := m.buf.ReadInt32(wOffset)''), (1, ''%v = %v(rawEntry)''), (0, ''}''), 
        (0, '''')])
          [v, eEnumName e, v, eEnumName e]
        else sprintf (code [(0, ''''), (0, ''var %v %v''), (0, ''if wOffset > 0 {''), 
        (1, ''rawEntry := m.buf.ReadInt32(wOffset)''), (1, ''%v = %v(rawEntry)''), 
        (0, ''} else {''), (1, ''%v = %v''), (0, ''}''), (0, '''')])
          [v, eEnumName e, v, eEnumName e, v, eDefault e]
      in AddTabs res tabs)"

definition goEnumValueType_EntrySizedReader :: "goEnumValueType \<Rightarrow> string \<Rightarrow> string \<Rightarrow> string" where
  "goEnumValueType_EntrySizedReader e tabs v =
     (let res = if eDefault e = []
        then sprintf (code [(0, ''''), (0, ''var %v %v''), (0, ''var %vSize int''), (0, ''if wOffset > 0 {''), 
        (1, ''rawEntry, size := m.buf.SizedReadInt32(wOffset)''), (1, ''%v = %v(rawEntry)''), 
        (1, ''%vSize = size''), (0, ''}''), (0, '''')])
          [v, eEnumName e, v, v, eEnumName e, v]
        else sprintf (code [(0, ''''), (0, ''var %v %v''), (0, ''var %vSize int''), (0, ''if wOffset > 0 {''), 
        (1, ''rawEntry, size := m.buf.SizedReadInt32(wOffset)''), (1, ''%v = %v(rawEntry)''), 
        (1, ''%vSize = size''), (0, ''} else {''), (1, ''%v = %v''), (0, ''}''), (0, '''')])
          [v, eEnumName e, v, v, eEnumName e, v, v, eDefault e]
      in AddTabs res tabs)"

definition goEnumValueType_ToStruct :: "string \<Rightarrow> string \<Rightarrow> string \<Rightarrow> string" where
  "goEnumValueType_ToStruct tabs targetVar readerField =
     AddTabs (sprintf ''%v = %v'' [targetVar, readerField]) tabs"

definition goEnumValueType_EntryIsNotEmpty :: "goEnumValueType \<Rightarrow> string \<Rightarrow> string" where
  "goEnumValueType_EntryIsNotEmpty e v =
     (if eRequired e then ''true''
      else let defaultValue = (if eDefault e = [] then ''0'' else eDefault e)
        in sprintf ''%v != %v'' [v, defaultValue])"

definition goEnumValueType_EntryCopy :: "string \<Rightarrow> string \<Rightarrow> string \<Rightarrow> string" where
  "goEnumValueType_EntryCopy tabs targetVar srcVar = AddTabs (sprintf ''%v = %v'' [targetVar, srcVar]) tabs"

definition goEnumValueType_EntryFullSizeWithTag :: "string \<Rightarrow> string \<Rightarrow> string \<Rightarrow> string \<Rightarrow> string" where
  "goEnumValueType_EntryFullSizeWithTag tabs sizeVar fieldName fieldTag =
     AddTabs (sprintf ''%v = gremlin.SizeTag(%v) + gremlin.SizeInt32(int32(%v))''
       [sizeVar, fieldTag, fieldName]) tabs"

definition goEnumValueType_EntryFullSizeWithoutTag :: "string \<Rightarrow> string \<Rightarrow> string \<Rightarrow> string" where
  "goEnumValueType_EntryFullSizeWithoutTag tabs sizeVar fieldName =
     AddTabs (sprintf ''%v = gremlin.SizeInt32(int32(%v))'' [sizeVar, fieldName]) tabs"

definition goEnumValueType_EntryWriter :: "string \<Rightarrow> string \<Rightarrow> string \<Rightarrow> string \<Rightarrow> string" where
  "goEnumValueType_EntryWriter tabs targetBuffer tag varName =
     AddTabs (sprintf ''%v.AppendInt32(%v, int32(%v))'' [targetBuffer, tag, varName]) tabs"

definition goEnumValueType_PackedEntryWriter :: "string \<Rightarrow> string \<Rightarrow> string \<Rightarrow> string" where
  "goEnumValueType_PackedEntryWriter tabs targetBuffer varName =
     AddTabs (sprintf ''%v.AppendInt32WithoutTag(int32(%v))'' [targetBuffer, varName]) tabs"

definition goEnumValueType_DefaultReturn :: "goEnumValueType \<Rightarrow> string" where
  "goEnumValueType_DefaultReturn e = (if eDefault e = [] then ''0'' else eDefault e)"

section \<open>Messages\<close>

record goStructValueType =
  sPackage :: string
  sName :: string
  sRequired :: bool

definition goStructValueType_ReaderTypeName :: "goStructValueType \<Rightarrow> string" where
  "goStructValueType_ReaderTypeName t =
     (if sPackage t \<noteq> [] then ''*'' @ sPackage t @ ''.'' @ sName t @ ''Reader'' else ''*'' @ sName t @ ''Reader'')"

definition goStructValueType_WriterTypeName :: "goStructValueType \<Rightarrow> string" where
  "goStructValueType_WriterTypeName t =
     (if sPackage t = [] then ''*'' @ sName t else ''*'' @ sPackage t @ ''.'' @ sName t)"

definition goStructValueType_EntryUnmarshalSaveOffsets :: "string \<Rightarrow> string \<Rightarrow> string" where
  "goStructValueType_EntryUnmarshalSaveOffsets tabs fieldName =
     AddTabs (sprintf ''m.offset%v = offset'' [fieldName]) tabs"

definition goStructValueType_EntryReader :: "goStructValueType \<Rightarrow> string \<Rightarrow> string \<Rightarrow> string" where
  "goStructValueType_EntryReader t tabs v =
     (let res = if sPackage t = []
        then sprintf (code [(0, ''''), (0, ''var %v *%vReader''), (0, ''if wOffset > 0 {''), 
        (1, ''var %vData = m.buf.ReadBytes(wOffset)''), (1, ''if len(%vData) > 0 {''), 
        (2, ''%v = New%vReader()''), (2, ''%v.Unmarshal(%vData)''), (1, ''}''), (0, ''}''), 
        (0, '''')])
          [v, sName t, v, v, v, sName t, v, v]
        else sprintf (code [(0, ''''), (0, ''var %v *%v.%vReader''), (0, ''if wOffset > 0 {''), 
        (1, ''var %vData = m.buf.ReadBytes(wOffset)''), (1, ''if len(%vData) > 0 {''), 
        (2, ''%v = %v.New%vReader()''), (2, ''%v.Unmarshal(%vData)''), (1, ''}''), (0, ''}''), 
        (0, '''')])
          [v, sPackage t, sName t, v, v, v, sPackage t, sName t, v, v]
      in AddTabs res tabs)"

definition goStructValueType_EntrySizedReader :: "goStructValueType \<Rightarrow> string \<Rightarrow> string \<Rightarrow> string" where
  "goStructValueType_EntrySizedReader t tabs v =
     (let res = if sPackage t = []
        then sprintf (code [(0, ''''), (0, ''var %v *%vReader''), (0, ''var %vSize int''), 
        (0, ''if wOffset > 0 {''), 
        (1, ''var %vData, %vDataSize = m.buf.SizedReadBytes(wOffset)''), 
        (1, ''if len(%vData) > 0 {''), (2, ''%v = New%vReader()''), 
        (2, ''%v.Unmarshal(%vData)''), (1, ''}''), (1, ''%vSize = %vDataSize''), (0, ''}''), 
        (0, '''')])
          [v, sName t, v, v, v, v, v, sName t, v, v, v, v]
        else sprintf (code [(0, ''''), (0, ''var %v *%v.%vReader''), (0, ''var %vSize int''), 
        (0, ''if wOffset > 0 {''), 
        (1, ''var %vData, %vDataSize = m.buf.SizedReadBytes(wOffset)''), 
        (1, ''if len(%vData) > 0 {''), (2, ''%v = %v.New%vReader()''), 
        (2, ''%v.Unmarshal(%vData)''), (1, ''}''), (1, ''%vSize = %vDataSize''), (0, ''}''), 
        (0, '''')])
          [v, sPackage t, sName t, v, v, v, v, v, sPackage t, sName t, v, v, v, v]
      in AddTabs res tabs)"

definition goStructValueType_ToStruct :: "string \<Rightarrow> string \<Rightarrow> string \<Rightarrow> string" where
  "goStructValueType_ToStruct tabs targetVar readerField =
     AddTabs (sprintf (code [(0, ''if %v != nil {''), (1, ''%v = %v.ToStruct()''), (0, ''}'')])
       [readerField, targetVar, readerField]) tabs"

definition goStructValueType_EntryIsNotEmpty :: "goStructValueType \<Rightarrow> string \<Rightarrow> string" where
  "goStructValueType_EntryIsNotEmpty t v =
     (if sRequired t then ''true'' else sprintf ''%v != nil'' [v])"

definition goStructValueType_EntryFullSizeWithTag :: "string \<Rightarrow> string \<Rightarrow> string \<Rightarrow> string \<Rightarrow> string" where
  "goStructValueType_EntryFullSizeWithTag tabs sizeVar fieldName fieldTag =
     AddTabs (sprintf (code [(0, ''%v = %v.XXX_PbContentSize()''), 
        (0, ''%v += gremlin.SizeUint64(uint64(%v)) + gremlin.SizeTag(%v)''), (0, '''')])
       [sizeVar, fieldName, sizeVar, sizeVar, fieldTag]) tabs"

definition goStructValueType_EntryFullSizeWithoutTag :: "string \<Rightarrow> string \<Rightarrow> string \<Rightarrow> string" where
  "goStructValueType_EntryFullSizeWithoutTag tabs sizeVar fieldName =
     AddTabs (sprintf (code [(0, ''%v = %v.XXX_PbContentSize()''), (0, ''%v += gremlin.SizeUint64(uint64(%v))''), 
        (0, '''')])
       [sizeVar, fieldName, sizeVar, sizeVar]) tabs"

definition goStructValueType_EntryWriter :: "string \<Rightarrow> string \<Rightarrow> string \<Rightarrow> string \<Rightarrow> string" where
  "goStructValueType_EntryWriter tabs targetBuffer tag varName =
     AddTabs (sprintf (code [(0, ''structSize := %v.XXX_PbContentSize()''), 
        (0, ''%v.AppendBytesTag(%v, structSize)''), (0, ''%v.MarshalTo(%v)'')])
       [varName, targetBuffer, tag, varName, targetBuffer]) tabs"

definition goStructValueType_EntryCopy :: "string \<Rightarrow> string \<Rightarrow> string \<Rightarrow> string" where
  "goStructValueType_EntryCopy tabs targetVar srcVar =
     AddTabs (sprintf (code [(0, ''if %v != nil {''), (1, ''%v = %v.Copy()''), (0, ''}'')]) [srcVar, targetVar, srcVar]) tabs"

section \<open>Lists\<close>

definition goRepeatedValueType_ReaderTypeName :: "string \<Rightarrow> string" where
  "goRepeatedValueType_ReaderTypeName inner = sprintf ''[]%v'' [inner]"

definition goRepeatedValueType_WriterTypeName :: "string \<Rightarrow> string" where
  "goRepeatedValueType_WriterTypeName inner = sprintf ''[]%v'' [inner]"

definition goRepeatedValueType_WireTypeType :: "bool \<Rightarrow> string" where
  "goRepeatedValueType_WireTypeType canPack = (if canPack then ''[]gremlin.ProtoWireType'' else [])"

definition goRepeatedValueType_EntryUnmarshalSaveOffsets :: "string \<Rightarrow> string \<Rightarrow> string" where
  "goRepeatedValueType_EntryUnmarshalSaveOffsets tabs fieldName =
     AddTabs (sprintf ''m.offset%v = append(m.offset%v, offset)'' [fieldName, fieldName]) tabs"

definition goRepeatedValueType_EntryReader ::
  "string \<Rightarrow> (string \<Rightarrow> string \<Rightarrow> string) \<Rightarrow> string \<Rightarrow> string \<Rightarrow> string" where
  "goRepeatedValueType_EntryReader readerTypeName entryReader tabs v =
     AddTabs (sprintf (code [(0, ''''), (0, ''var %v %v''), (0, ''for i := 0; i < len(wOffset); i++ {''), 
        (1, ''wOffset := wOffset[i]''), (0, ''%v''), (1, ''%v = append(%v, listEntry)''), 
        (0, ''}''), (0, '''')])
       [v, readerTypeName, entryReader [tab] ''listEntry'', v, v]) tabs"

definition goRepeatedValueType_ToStruct ::
  "string \<Rightarrow> (string \<Rightarrow> string \<Rightarrow> string \<Rightarrow> string) \<Rightarrow> string \<Rightarrow> string \<Rightarrow> string \<Rightarrow> string" where
  "goRepeatedValueType_ToStruct writerTypeName toStruct tabs targetVar readerField =
     AddTabs (sprintf (code [(0, ''if len(%v) > 0 {''), (1, ''%v = make(%v, len(%v))''), 
        (1, ''for i := range %v {''), (0, ''%v''), (1, ''}''), (0, ''}'')])
       [readerField, targetVar, writerTypeName, readerField, readerField,
        toStruct [tab, tab] (targetVar @ ''[i]'') (readerField @ ''[i]'')]) tabs"

definition goRepeatedValueType_EntryIsNotEmpty :: "bool \<Rightarrow> string \<Rightarrow> string" where
  "goRepeatedValueType_EntryIsNotEmpty req v =
     (if req then ''true'' else sprintf ''len(%v) > 0'' [v])"

definition goRepeatedValueType_EntryFullSizeWithTag ::
  "(string \<Rightarrow> string \<Rightarrow> string \<Rightarrow> string \<Rightarrow> string go) \<Rightarrow> string \<Rightarrow> string \<Rightarrow> string \<Rightarrow> string \<Rightarrow> string go" where
  "goRepeatedValueType_EntryFullSizeWithTag sizeWith tabs sizeVar fieldName fieldTag =
     go_bind (sizeWith [tab] ''listEntrySize'' ''val'' fieldTag) (\<lambda>entry.
       Ret (AddTabs (sprintf (code [(0, ''%v = 0''), (0, ''for _, val := range %v {''), (1, ''var listEntrySize int''), 
        (0, ''%v''), (1, ''%v += listEntrySize''), (0, ''}'')])
         [sizeVar, fieldName, entry, sizeVar]) tabs))"

definition goRepeatedValueType_EntryWriter ::
  "(string \<Rightarrow> string \<Rightarrow> string \<Rightarrow> string \<Rightarrow> string go) \<Rightarrow> string \<Rightarrow> string \<Rightarrow> string \<Rightarrow> string \<Rightarrow> string go" where
  "goRepeatedValueType_EntryWriter entryWriter tabs targetBuffer tag varName =
     go_bind (entryWriter [tab] targetBuffer tag ''entry'') (\<lambda>entry.
       Ret (AddTabs (sprintf (code [(0, ''for _, entry := range %v {''), (0, ''%v''), (0, ''}'')]) [varName, entry]) tabs))"

definition goRepeatedValueType_EntryCopy ::
  "bool \<Rightarrow> string \<Rightarrow> (string \<Rightarrow> string \<Rightarrow> string \<Rightarrow> string) \<Rightarrow> string \<Rightarrow> string \<Rightarrow> string \<Rightarrow> string" where
  "goRepeatedValueType_EntryCopy direct writerTypeName entryCopy tabs targetVar srcVar =
     (if direct then AddTabs (sprintf ''%v = %v'' [targetVar, srcVar]) tabs
      else AddTabs (sprintf (code [(0, ''%v = make(%v, len(%v))''), (0, ''for i := range %v {''), (0, ''%v''), (0, ''}'')])
        [targetVar, writerTypeName, srcVar, srcVar, entryCopy [tab] (targetVar @ ''[i]'') (srcVar @ ''[i]'')]) tabs)"

section \<open>Packed lists\<close>

definition goRepeatedPackedValueType_ReaderTypeName :: "string \<Rightarrow> string" where
  "goRepeatedPackedValueType_ReaderTypeName inner = sprintf ''[]%v'' [inner]"

definition goRepeatedPackedValueType_WriterTypeName :: "string \<Rightarrow> string" where
  "goRepeatedPackedValueType_WriterTypeName inner = sprintf ''[]%v'' [inner]"

definition goRepeatedPackedValueType_WireTypeType :: "bool \<Rightarrow> string" where
  "goRepeatedPackedValueType_WireTypeType canPack = (if canPack then ''[]gremlin.ProtoWireType'' else [])"

definition goRepeatedPackedValueType_EntryUnmarshalSaveOffsets :: "string \<Rightarrow> string \<Rightarrow> string" where
  "goRepeatedPackedValueType_EntryUnmarshalSaveOffsets tabs fieldName =
     AddTabs (sprintf (code [(0, ''m.offset%v = append(m.offset%v, offset)''), 
        (0, ''m.wireType%v = append(m.wireType%v, wire)'')])
       [fieldName, fieldName, fieldName, fieldName]) tabs"

definition goRepeatedPackedValueType_EntryReader ::
  "string \<Rightarrow> (string \<Rightarrow> string \<Rightarrow> string) \<Rightarrow> (string \<Rightarrow> string \<Rightarrow> string) \<Rightarrow> string \<Rightarrow> string \<Rightarrow> string" where
  "goRepeatedPackedValueType_EntryReader readerTypeName entryReader entrySizedReader tabs v =
     AddTabs (sprintf (code [(0, ''''), (0, ''var %v %v''), (0, ''for i := 0; i < len(wOffset); i++ {''), 
        (1, ''wOffset := wOffset[i]''), (1, ''wType := wType[i]''), 
        (1, ''if wType == gremlin.BytesType {''), 
        (2, ''size, sizeSize := m.buf.SizedReadVarInt(wOffset)''), (2, ''offset := 0''), 
        (2, ''for offset < int(size) {''), (3, ''wOffset := wOffset + sizeSize + offset''), 
        (0, ''%v''), (3, ''%v = append(%v, listEntry)''), (3, ''offset += listEntrySize''), 
        (2, ''}''), (1, ''} else {''), (0, ''%v''), (2, ''%v = append(%v, listEntry)''), 
        (1, ''}''), (0, ''}''), (0, '''')])
       [v, readerTypeName, entrySizedReader [tab, tab, tab] ''listEntry'', v, v,
        entryReader [tab, tab] ''listEntry'', v, v]) tabs"

definition goRepeatedPackedValueType_ToStruct ::
  "string \<Rightarrow> (string \<Rightarrow> string \<Rightarrow> string \<Rightarrow> string) \<Rightarrow> string \<Rightarrow> string \<Rightarrow> string \<Rightarrow> string" where
  "goRepeatedPackedValueType_ToStruct writerTypeName toStruct tabs targetVar readerField =
     AddTabs (sprintf (code [(0, ''if len(%v) > 0 {''), (1, ''%v = make(%v, len(%v))''), 
        (1, ''for i := range %v {''), (0, ''%v''), (1, ''}''), (0, ''}'')])
       [readerField, targetVar, writerTypeName, readerField, readerField,
        toStruct [tab, tab] (targetVar @ ''[i]'') (readerField @ ''[i]'')]) tabs"

definition goRepeatedPackedValueType_EntryIsNotEmpty :: "bool \<Rightarrow> string \<Rightarrow> string" where
  "goRepeatedPackedValueType_EntryIsNotEmpty req v =
     (if req then ''true'' else sprintf ''len(%v) > 0'' [v])"

definition goRepeatedPackedValueType_EntryFullSizeWithTag ::
  "(string \<Rightarrow> string \<Rightarrow> string \<Rightarrow> string go) \<Rightarrow> (string \<Rightarrow> string \<Rightarrow> string \<Rightarrow> string \<Rightarrow> string go) \<Rightarrow>
   string \<Rightarrow> string \<Rightarrow> string \<Rightarrow> string \<Rightarrow> string go" where
  "goRepeatedPackedValueType_EntryFullSizeWithTag sizeWithout sizeWith tabs sizeVar fieldName fieldTag =
     go_bind (sizeWithout [tab, tab] ''listEntrySize'' ''entry'') (\<lambda>entry.
     go_bind (sizeWith [tab] ''listEntrySize'' (fieldName @ ''[0]'') fieldTag) (\<lambda>single.
       Ret (AddTabs (sprintf (code [(0, ''%v = 0''), (0, ''if len(%v) > 1 {''), (1, ''var listBytesSize = 0''), 
        (1, ''for _, entry := range %v {''), (2, ''var listEntrySize = 0''), (0, ''%v''), 
        (2, ''listBytesSize += listEntrySize''), (1, ''}''), 
        (1, ''%v += gremlin.SizeUint64(uint64(listBytesSize)) + gremlin.SizeTag(%v) + listBytesSize''), 
        (0, ''} else if len(%v) == 1 {''), (1, ''var listEntrySize = 0''), (0, ''%v''), 
        (1, ''%v += listEntrySize''), (0, ''}'')])
         [sizeVar, fieldName, fieldName, entry, sizeVar, fieldTag, fieldName, single, sizeVar]) tabs)))"

definition goRepeatedPackedValueType_EntryWriter ::
  "(string \<Rightarrow> string \<Rightarrow> string \<Rightarrow> string go) \<Rightarrow> (string \<Rightarrow> string \<Rightarrow> string \<Rightarrow> string go) \<Rightarrow>
   (string \<Rightarrow> string \<Rightarrow> string \<Rightarrow> string \<Rightarrow> string go) \<Rightarrow> string \<Rightarrow> string \<Rightarrow> string \<Rightarrow> string \<Rightarrow> string go" where
  "goRepeatedPackedValueType_EntryWriter sizeWithout packedWriter entryWriter tabs targetBuffer tag varName =
     go_bind (sizeWithout [tab, tab] ''entrySize'' ''entry'') (\<lambda>size.
     go_bind (packedWriter [tab, tab] targetBuffer ''entry'') (\<lambda>packed.
     go_bind (entryWriter [tab] targetBuffer tag (varName @ ''[0]'')) (\<lambda>single.
       Ret (AddTabs (sprintf (code [(0, ''if len(%v) > 1 {''), (1, ''var listBytesSize = 0''), 
        (1, ''for _, entry := range %v {''), (2, ''var entrySize = 0''), (0, ''%v''), 
        (2, ''listBytesSize += entrySize''), (1, ''}''), 
        (1, ''%v.AppendBytesTag(%v, listBytesSize)''), (1, ''for _, entry := range %v {''), 
        (0, ''%v''), (1, ''}''), (0, ''} else if len(%v) == 1 {''), (0, ''%v''), (0, ''}'')])
         [varName, varName, size, targetBuffer, tag, varName, packed, varName, single]) tabs))))"

definition goRepeatedPackedValueType_EntryCopy ::
  "bool \<Rightarrow> string \<Rightarrow> (string \<Rightarrow> string \<Rightarrow> string \<Rightarrow> string) \<Rightarrow> string \<Rightarrow> string \<Rightarrow> string \<Rightarrow> string" where
  "goRepeatedPackedValueType_EntryCopy direct writerTypeName entryCopy tabs targetVar srcVar =
     (if direct then AddTabs (sprintf ''%v = %v'' [targetVar, srcVar]) tabs
      else AddTabs (sprintf (code [(0, ''%v = make(%v, len(%v))''), (0, ''for i := range %v {''), (0, ''%v''), (0, ''}'')])
        [targetVar, writerTypeName, srcVar, srcVar, entryCopy [tab] (targetVar @ ''[i]'') (srcVar @ ''[i]'')]) tabs)"

section \<open>Maps\<close>

definition mapEntryKeyTag :: int where "mapEntryKeyTag = 1"
definition mapEntryValueTag :: int where "mapEntryValueTag = 2"

definition goMapValueType_ReaderTypeName :: "string \<Rightarrow> string \<Rightarrow> string" where
  "goMapValueType_ReaderTypeName key val = sprintf ''map[%v]%v'' [key, val]"

definition goMapValueType_WriterTypeName :: "string \<Rightarrow> string \<Rightarrow> string" where
  "goMapValueType_WriterTypeName key val = sprintf ''map[%v]%v'' [key, val]"

definition goMapValueType_EntryUnmarshalSaveOffsets :: "string \<Rightarrow> string \<Rightarrow> string" where
  "goMapValueType_EntryUnmarshalSaveOffsets tabs fieldName =
     AddTabs (sprintf ''m.offset%v = append(m.offset%v, offset)'' [fieldName, fieldName]) tabs"

definition goMapValueType_EntryReader ::
  "string \<Rightarrow> string \<Rightarrow> (string \<Rightarrow> string \<Rightarrow> string) \<Rightarrow> (string \<Rightarrow> string \<Rightarrow> string) \<Rightarrow> string \<Rightarrow> string \<Rightarrow> string" where
  "goMapValueType_EntryReader keyName valName keyReader valReader tabs v =
     AddTabs (sprintf (code [(0, ''''), (0, ''var %v = map[%v]%v{}''), (0, ''for i := range wOffset {''), 
        (1, ''wOffset := wOffset[i]''), (0, ''''), 
        (1, ''entrySize, entrySizeSize := m.buf.SizedReadVarInt(wOffset)''), 
        (1, ''endOffset := wOffset + entrySizeSize + int(entrySize)''), 
        (1, ''wOffset += entrySizeSize''), (1, ''''), (1, ''var keyData %v''), 
        (1, ''var valueData %v''), (1, ''for wOffset < endOffset {''), 
        (2, ''tag, wireType, tagSize, _ := m.buf.ReadTagAt(wOffset)''), 
        (2, ''wOffset += tagSize''), (2, ''if tag == 1 {''), (0, ''%v''), 
        (3, ''wOffset += keyEntrySize''), (3, ''keyData = keyEntry''), 
        (2, ''} else if tag == 2 {''), (0, ''%v''), (3, ''wOffset += valueEntrySize''), 
        (3, ''valueData = valueEntry''), (2, ''} else {''), 
        (3, ''wOffset, _ = m.buf.SkipData(wOffset, wireType)''), (2, ''}''), (1, ''}''), 
        (1, ''%v[keyData] = valueData''), (0, ''}''), (0, '''')])
       [v, keyName, valName, keyName, valName, keyReader [tab, tab, tab] ''keyEntry'',
        valReader [tab, tab, tab] ''valueEntry'', v]) tabs"

definition goMapValueType_ToStruct ::
  "string \<Rightarrow> (string \<Rightarrow> string \<Rightarrow> string \<Rightarrow> string) \<Rightarrow> string \<Rightarrow> string \<Rightarrow> string \<Rightarrow> string" where
  "goMapValueType_ToStruct writerTypeName toStruct tabs targetVar readerField =
     AddTabs (sprintf (code [(0, ''if len(%v) > 0 {''), (1, ''%v = make(%v, len(%v))''), 
        (1, ''for k,v := range %v {''), (0, ''%v''), (1, ''}''), (0, ''}'')])
       [readerField, targetVar, writerTypeName, readerField, readerField,
        toStruct [tab, tab] (targetVar @ ''[k]'') ''v'']) tabs"

definition goMapValueType_EntryIsNotEmpty :: "string \<Rightarrow> string" where
  "goMapValueType_EntryIsNotEmpty v = sprintf ''len(%v) > 0'' [v]"

definition goMapValueType_EntryFullSizeWithTag ::
  "(string \<Rightarrow> string \<Rightarrow> string \<Rightarrow> string \<Rightarrow> string go) \<Rightarrow> (string \<Rightarrow> string \<Rightarrow> string \<Rightarrow> string \<Rightarrow> string go) \<Rightarrow>
   string \<Rightarrow> string \<Rightarrow> string \<Rightarrow> string \<Rightarrow> string go" where
  "goMapValueType_EntryFullSizeWithTag keySize valSize tabs sizeVar fieldName fieldTag =
     go_bind (keySize [tab] ''keySize'' ''k'' (Itoa mapEntryKeyTag)) (\<lambda>key.
     go_bind (valSize [tab] ''valueSize'' ''v'' (Itoa mapEntryValueTag)) (\<lambda>val.
       Ret (AddTabs (sprintf (code [(0, ''%v = 0''), (0, ''for k, v := range %v {''), (1, ''var keySize, valueSize int''), 
        (0, ''%v''), (0, ''%v''), (1, ''var mapEntrySize = keySize + valueSize''), 
        (1, ''%v += mapEntrySize + gremlin.SizeTag(%v) + gremlin.SizeUint64(uint64(mapEntrySize))''), 
        (0, ''}''), (0, '''')])
         [sizeVar, fieldName, key, val, sizeVar, fieldTag]) tabs)))"

definition goMapValueType_EntryWriter ::
  "(string \<Rightarrow> string \<Rightarrow> string \<Rightarrow> string \<Rightarrow> string go) \<Rightarrow> (string \<Rightarrow> string \<Rightarrow> string \<Rightarrow> string \<Rightarrow> string go) \<Rightarrow>
   (string \<Rightarrow> string \<Rightarrow> string \<Rightarrow> string \<Rightarrow> string go) \<Rightarrow> (string \<Rightarrow> string \<Rightarrow> string \<Rightarrow> string \<Rightarrow> string go) \<Rightarrow>
   string \<Rightarrow> string \<Rightarrow> string \<Rightarrow> string \<Rightarrow> string go" where
  "goMapValueType_EntryWriter keySize valSize keyWriter valWriter tabs targetBuffer tag varName =
     go_bind (keySize [tab] ''keySize'' ''k'' (Itoa mapEntryKeyTag)) (\<lambda>ks.
     go_bind (valSize [tab] ''valueSize'' ''v'' (Itoa mapEntryValueTag)) (\<lambda>vs.
     go_bind (keyWriter [tab] targetBuffer (Itoa mapEntryKeyTag) ''k'') (\<lambda>kw.
     go_bind (valWriter [tab] targetBuffer (Itoa mapEntryValueTag) ''v'') (\<lambda>vw.
       Ret (AddTabs (sprintf (code [(0, ''for k, v := range %v {''), (1, ''var keySize, valueSize int''), (0, ''%v''), 
        (0, ''%v''), (1, ''mapEntrySize := keySize + valueSize''), 
        (1, ''%v.AppendBytesTag(%v, mapEntrySize)''), (0, ''%v''), (0, ''%v''), (0, ''}'')])
         [varName, ks, vs, targetBuffer, tag, kw, vw]) tabs)))))"

definition goMapValueType_EntryCopy ::
  "string \<Rightarrow> string \<Rightarrow> (string \<Rightarrow> string \<Rightarrow> string \<Rightarrow> string) \<Rightarrow> string \<Rightarrow> string \<Rightarrow> string \<Rightarrow> string" where
  "goMapValueType_EntryCopy keyName valName entryCopy tabs targetVar srcVar =
     AddTabs (sprintf (code [(0, ''%v = make(map[%v]%v, len(%v))''), (0, ''for k, v := range %v {''), (0, ''%v''), 
        (0, ''}'')])
       [targetVar, keyName, valName, srcVar, srcVar, entryCopy [tab] (targetVar @ ''[k]'') ''v'']) tabs"

section \<open>The interface\<close>

datatype GoFieldType =
    GoBasic goBasicValueType
  | GoEnumField goEnumValueType
  | GoStructField goStructValueType
  | GoRepeated GoFieldType bool
  | GoPacked GoFieldType bool
  | GoMap GoFieldType GoFieldType

primrec ReaderTypeName :: "GoFieldType \<Rightarrow> string" where
  "ReaderTypeName (GoBasic b) = goBasicValueType_ReaderTypeName b"
| "ReaderTypeName (GoEnumField e) = goEnumValueType_ReaderTypeName e"
| "ReaderTypeName (GoStructField s) = goStructValueType_ReaderTypeName s"
| "ReaderTypeName (GoRepeated t r) = goRepeatedValueType_ReaderTypeName (ReaderTypeName t)"
| "ReaderTypeName (GoPacked t r) = goRepeatedPackedValueType_ReaderTypeName (ReaderTypeName t)"
| "ReaderTypeName (GoMap k v) = goMapValueType_ReaderTypeName (ReaderTypeName k) (ReaderTypeName v)"

primrec WriterTypeName :: "GoFieldType \<Rightarrow> string" where
  "WriterTypeName (GoBasic b) = goBasicValueType_WriterTypeName b"
| "WriterTypeName (GoEnumField e) = goEnumValueType_WriterTypeName e"
| "WriterTypeName (GoStructField s) = goStructValueType_WriterTypeName s"
| "WriterTypeName (GoRepeated t r) = goRepeatedValueType_WriterTypeName (WriterTypeName t)"
| "WriterTypeName (GoPacked t r) = goRepeatedPackedValueType_WriterTypeName (WriterTypeName t)"
| "WriterTypeName (GoMap k v) = goMapValueType_WriterTypeName (WriterTypeName k) (WriterTypeName v)"

fun OffsetsType :: "GoFieldType \<Rightarrow> string" where
  "OffsetsType (GoRepeated t r) = ''[]int''"
| "OffsetsType (GoPacked t r) = ''[]int''"
| "OffsetsType (GoMap k v) = ''[]int''"
| "OffsetsType _ = ''int''"

fun CanBePacked :: "GoFieldType \<Rightarrow> bool" where
  "CanBePacked (GoBasic b) = goBasicValueType_CanBePacked b"
| "CanBePacked (GoEnumField e) = True"
| "CanBePacked _ = False"

fun WireTypeType :: "GoFieldType \<Rightarrow> string" where
  "WireTypeType (GoRepeated t r) = goRepeatedValueType_WireTypeType (CanBePacked t)"
| "WireTypeType (GoPacked t r) = goRepeatedPackedValueType_WireTypeType (CanBePacked t)"
| "WireTypeType _ = []"

fun EntrySizedReader :: "GoFieldType \<Rightarrow> string \<Rightarrow> string \<Rightarrow> string" where
  "EntrySizedReader (GoBasic b) tabs v = goBasicValueType_EntrySizedReader b tabs v"
| "EntrySizedReader (GoEnumField e) tabs v = goEnumValueType_EntrySizedReader e tabs v"
| "EntrySizedReader (GoStructField s) tabs v = goStructValueType_EntrySizedReader s tabs v"
| "EntrySizedReader _ tabs v = []"

primrec EntryReader :: "GoFieldType \<Rightarrow> string \<Rightarrow> string \<Rightarrow> string" where
  "EntryReader (GoBasic b) = goBasicValueType_EntryReader b"
| "EntryReader (GoEnumField e) = goEnumValueType_EntryReader e"
| "EntryReader (GoStructField s) = goStructValueType_EntryReader s"
| "EntryReader (GoRepeated t r) = goRepeatedValueType_EntryReader (ReaderTypeName (GoRepeated t r)) (EntryReader t)"
| "EntryReader (GoPacked t r) =
     goRepeatedPackedValueType_EntryReader (ReaderTypeName (GoPacked t r)) (EntryReader t) (EntrySizedReader t)"
| "EntryReader (GoMap k v) =
     goMapValueType_EntryReader (ReaderTypeName k) (ReaderTypeName v) (EntrySizedReader k) (EntrySizedReader v)"

fun EntryUnmarshalSaveOffsets :: "GoFieldType \<Rightarrow> string \<Rightarrow> string \<Rightarrow> string" where
  "EntryUnmarshalSaveOffsets (GoBasic b) tabs n = goBasicValueType_EntryUnmarshalSaveOffsets tabs n"
| "EntryUnmarshalSaveOffsets (GoEnumField e) tabs n = goEnumValueType_EntryUnmarshalSaveOffsets tabs n"
| "EntryUnmarshalSaveOffsets (GoStructField s) tabs n = goStructValueType_EntryUnmarshalSaveOffsets tabs n"
| "EntryUnmarshalSaveOffsets (GoRepeated t r) tabs n = goRepeatedValueType_EntryUnmarshalSaveOffsets tabs n"
| "EntryUnmarshalSaveOffsets (GoPacked t r) tabs n = goRepeatedPackedValueType_EntryUnmarshalSaveOffsets tabs n"
| "EntryUnmarshalSaveOffsets (GoMap k v) tabs n = goMapValueType_EntryUnmarshalSaveOffsets tabs n"

fun DefaultReturn :: "GoFieldType \<Rightarrow> string" where
  "DefaultReturn (GoBasic b) = goBasicValueType_DefaultReturn b"
| "DefaultReturn (GoEnumField e) = goEnumValueType_DefaultReturn e"
| "DefaultReturn _ = ''nil''"

primrec ToStruct :: "GoFieldType \<Rightarrow> string \<Rightarrow> string \<Rightarrow> string \<Rightarrow> string" where
  "ToStruct (GoBasic b) = goBasicValueType_ToStruct"
| "ToStruct (GoEnumField e) = goEnumValueType_ToStruct"
| "ToStruct (GoStructField s) = goStructValueType_ToStruct"
| "ToStruct (GoRepeated t r) = goRepeatedValueType_ToStruct (WriterTypeName (GoRepeated t r)) (ToStruct t)"
| "ToStruct (GoPacked t r) = goRepeatedPackedValueType_ToStruct (WriterTypeName (GoPacked t r)) (ToStruct t)"
| "ToStruct (GoMap k v) = goMapValueType_ToStruct (WriterTypeName (GoMap k v)) (ToStruct v)"

primrec JsonStructCanBeUsedDirectly :: "GoFieldType \<Rightarrow> bool" where
  "JsonStructCanBeUsedDirectly (GoBasic b) = True"
| "JsonStructCanBeUsedDirectly (GoEnumField e) = True"
| "JsonStructCanBeUsedDirectly (GoStructField s) = False"
| "JsonStructCanBeUsedDirectly (GoRepeated t r) = JsonStructCanBeUsedDirectly t"
| "JsonStructCanBeUsedDirectly (GoPacked t r) = JsonStructCanBeUsedDirectly t"
| "JsonStructCanBeUsedDirectly (GoMap k v) = (JsonStructCanBeUsedDirectly k \<and> JsonStructCanBeUsedDirectly v)"

primrec EntryCopy :: "GoFieldType \<Rightarrow> string \<Rightarrow> string \<Rightarrow> string \<Rightarrow> string" where
  "EntryCopy (GoBasic b) = goBasicValueType_EntryCopy"
| "EntryCopy (GoEnumField e) = goEnumValueType_EntryCopy"
| "EntryCopy (GoStructField s) = goStructValueType_EntryCopy"
| "EntryCopy (GoRepeated t r) = goRepeatedValueType_EntryCopy (JsonStructCanBeUsedDirectly t)
     (WriterTypeName (GoRepeated t r)) (EntryCopy t)"
| "EntryCopy (GoPacked t r) = goRepeatedPackedValueType_EntryCopy (JsonStructCanBeUsedDirectly t)
     (WriterTypeName (GoPacked t r)) (EntryCopy t)"
| "EntryCopy (GoMap k v) = goMapValueType_EntryCopy (WriterTypeName k) (WriterTypeName v) (EntryCopy v)"

fun EntryIsNotEmpty :: "GoFieldType \<Rightarrow> string \<Rightarrow> string" where
  "EntryIsNotEmpty (GoBasic b) v = goBasicValueType_EntryIsNotEmpty b v"
| "EntryIsNotEmpty (GoEnumField e) v = goEnumValueType_EntryIsNotEmpty e v"
| "EntryIsNotEmpty (GoStructField s) v = goStructValueType_EntryIsNotEmpty s v"
| "EntryIsNotEmpty (GoRepeated t r) v = goRepeatedValueType_EntryIsNotEmpty r v"
| "EntryIsNotEmpty (GoPacked t r) v = goRepeatedPackedValueType_EntryIsNotEmpty r v"
| "EntryIsNotEmpty (GoMap k w) v = goMapValueType_EntryIsNotEmpty v"

fun EntryFullSizeWithoutTag :: "GoFieldType \<Rightarrow> string \<Rightarrow> string \<Rightarrow> string \<Rightarrow> string go" where
  "EntryFullSizeWithoutTag (GoBasic b) tabs s f = Ret (goBasicValueType_EntryFullSizeWithoutTag b tabs s f)"
| "EntryFullSizeWithoutTag (GoEnumField e) tabs s f = Ret (goEnumValueType_EntryFullSizeWithoutTag tabs s f)"
| "EntryFullSizeWithoutTag (GoStructField t) tabs s f = Ret (goStructValueType_EntryFullSizeWithoutTag tabs s f)"
| "EntryFullSizeWithoutTag _ tabs s f = Panic"

primrec EntryFullSizeWithTag :: "GoFieldType \<Rightarrow> string \<Rightarrow> string \<Rightarrow> string \<Rightarrow> string \<Rightarrow> string go" where
  "EntryFullSizeWithTag (GoBasic b) = (\<lambda>tabs s f tag. Ret (goBasicValueType_EntryFullSizeWithTag b tabs s f tag))"
| "EntryFullSizeWithTag (GoEnumField e) = (\<lambda>tabs s f tag. Ret (goEnumValueType_EntryFullSizeWithTag tabs s f tag))"
| "EntryFullSizeWithTag (GoStructField t) = (\<lambda>tabs s f tag. Ret (goStructValueType_EntryFullSizeWithTag tabs s f tag))"
| "EntryFullSizeWithTag (GoRepeated t r) = goRepeatedValueType_EntryFullSizeWithTag (EntryFullSizeWithTag t)"
| "EntryFullSizeWithTag (GoPacked t r) =
     goRepeatedPackedValueType_EntryFullSizeWithTag (EntryFullSizeWithoutTag t) (EntryFullSizeWithTag t)"
| "EntryFullSizeWithTag (GoMap k v) =
     goMapValueType_EntryFullSizeWithTag (EntryFullSizeWithTag k) (EntryFullSizeWithTag v)"

fun PackedEntryWriter :: "GoFieldType \<Rightarrow> string \<Rightarrow> string \<Rightarrow> string \<Rightarrow> string go" where
  "PackedEntryWriter (GoBasic b) tabs buf v = Ret (goBasicValueType_PackedEntryWriter b tabs buf v)"
| "PackedEntryWriter (GoEnumField e) tabs buf v = Ret (goEnumValueType_PackedEntryWriter tabs buf v)"
| "PackedEntryWriter _ tabs buf v = Panic"

primrec EntryWriter :: "GoFieldType \<Rightarrow> string \<Rightarrow> string \<Rightarrow> string \<Rightarrow> string \<Rightarrow> string go" where
  "EntryWriter (GoBasic b) = (\<lambda>tabs buf tag v. Ret (goBasicValueType_EntryWriter b tabs buf tag v))"
| "EntryWriter (GoEnumField e) = (\<lambda>tabs buf tag v. Ret (goEnumValueType_EntryWriter tabs buf tag v))"
| "EntryWriter (GoStructField t) = (\<lambda>tabs buf tag v. Ret (goStructValueType_EntryWriter tabs buf tag v))"
| "EntryWriter (GoRepeated t r) = goRepeatedValueType_EntryWriter (EntryWriter t)"
| "EntryWriter (GoPacked t r) =
     goRepeatedPackedValueType_EntryWriter (EntryFullSizeWithoutTag t) (PackedEntryWriter t) (EntryWriter t)"
| "EntryWriter (GoMap k v) =
     goMapValueType_EntryWriter (EntryFullSizeWithTag k) (EntryFullSizeWithTag v) (EntryWriter k) (EntryWriter v)"

end
