(* ===== verification/Gen_Types.thy ===== *)
theory Gen_Types
  imports Gen_Fields
begin

text \<open>
  The Go types of the code generator, \<^verbatim>\<open>structs.go\<close>, \<^verbatim>\<open>fields.go\<close> and \<^verbatim>\<open>enums.go\<close> in
  \<^verbatim>\<open>src/shared/gremlin_go/gremlinc/internal/generators/golang/types\<close>. A method that writes to a
  string builder is the text it writes. A field keeps of its struct the name, all it reads of it.
\<close>

section \<open>Fields of a struct\<close>

record goStructFieldDef =
  fStruct :: string
  fName :: string
  fType :: GoFieldType
  fProto :: MessageFieldDefinition

text \<open>The names of proto fields are ASCII identifiers, so that a rune is a byte.\<close>

fun camelCase :: "bool \<Rightarrow> string \<Rightarrow> string" where
  "camelCase targetNameShouldUpper [] = []"
| "camelCase targetNameShouldUpper (c # cs) =
     (if c \<in> set ''-_. '' then camelCase True cs
      else (if targetNameShouldUpper then upper c else c) # camelCase False cs)"

definition GoStructField_parseName :: "MessageFieldDefinition \<Rightarrow> string" where
  "GoStructField_parseName field = camelCase True (ProtoName (mfName field))"

definition wireTypeConstName :: "goStructFieldDef \<Rightarrow> string" where
  "wireTypeConstName g = sprintf ''wire%v_%v'' [fStruct g, fName g]"

definition writeWireTypeConst :: "goStructFieldDef \<Rightarrow> string" where
  "writeWireTypeConst g = sprintf (code [(1, ''%v gremlin.ProtoWireNumber = %v''), (0, '''')])
     [wireTypeConstName g, Itoa (pfSequence (mfProtoDef (fProto g)))]"

definition writeProtoStructData :: "goStructFieldDef \<Rightarrow> string" where
  "writeProtoStructData g = sprintf (code [(1, ''data%v     %v''), (0, '''')]) [fName g, ReaderTypeName (fType g)]"

definition writeProtoStructOffset :: "goStructFieldDef \<Rightarrow> string" where
  "writeProtoStructOffset g =
     (let wType = WireTypeType (fType g);
          wTypeCode = (if wType \<noteq> [] then sprintf (code [(0, ''''), (1, ''wireType%v %v'')]) [fName g, wType] else [])
      in sprintf (code [(1, ''offset%v   %v%v''), (0, '''')]) [fName g, OffsetsType (fType g), wTypeCode])"

definition writeProtoStructParsedFlag :: "goStructFieldDef \<Rightarrow> string" where
  "writeProtoStructParsedFlag g = sprintf (code [(1, ''parsed%v   bool''), (0, '''')]) [fName g]"

definition writeGetter :: "goStructFieldDef \<Rightarrow> string" where
  "writeGetter g = sprintf (code [(0, ''''), (0, ''func (m *%vReader) Get%v() %v {''), (1, ''if m == nil {''), 
        (2, ''return %v''), (1, ''}''), (1, ''return m.read%v()''), (0, ''}''), (0, '''')])
     [fStruct g, fName g, ReaderTypeName (fType g), DefaultReturn (fType g), fName g]"

definition writeReader :: "goStructFieldDef \<Rightarrow> string" where
  "writeReader g =
     (let wireTypeCode = (if WireTypeType (fType g) \<noteq> [] then sprintf (code [(1, ''var wType = m.wireType%v''), (0, '''')]) [fName g] else [])
      in sprintf (code [(0, ''''), (0, ''func (m *%vReader) read%v() %v {''), (1, ''if m.parsed%v {''), 
        (2, ''return m.data%v''), (1, ''}''), (1, ''wOffset := m.offset%v''), (0, ''%v%v''), 
        (1, ''m.data%v = entry''), (1, ''m.parsed%v = true''), (1, ''return entry''), 
        (0, ''}''), (0, '''')])
        [fStruct g, fName g, ReaderTypeName (fType g), fName g, fName g, fName g, wireTypeCode,
         EntryReader (fType g) [tab] ''entry'', fName g, fName g])"

definition writeAccessors :: "goStructFieldDef \<Rightarrow> string" where
  "writeAccessors g = writeGetter g @ writeReader g"

definition GoStructField_writeUnmarshal :: "goStructFieldDef \<Rightarrow> string" where
  "GoStructField_writeUnmarshal g = sprintf (code [(0, ''''), (2, ''case %v:''), (0, ''%v'')])
     [wireTypeConstName g, EntryUnmarshalSaveOffsets (fType g) [tab, tab, tab] (fName g)]"

definition writeStructField :: "goStructFieldDef \<Rightarrow> string" where
  "writeStructField g = sprintf (code [(1, ''%v'' @ [tab] @ ''%v'' @ [tab] @ [bq] @ ''json:'' @ [dq] @ ''%v,omitempty'' @ [dq] @ [bq]), 
        (0, '''')])
     [fName g, WriterTypeName (fType g), ProtoName (mfName (fProto g))]"

definition GoStructField_writeToStruct :: "goStructFieldDef \<Rightarrow> string" where
  "GoStructField_writeToStruct g =
     (if JsonStructCanBeUsedDirectly (fType g)
      then sprintf (code [(1, ''res.%v = m.Get%v()''), (0, '''')]) [fName g, fName g]
      else sprintf (code [(0, ''''), (1, ''{''), (2, ''var data = m.Get%v()''), (2, ''var structData %v''), 
        (0, ''%v''), (2, ''res.%v = structData''), (1, ''}''), (0, '''')])
        [fName g, WriterTypeName (fType g), ToStruct (fType g) [tab, tab] ''structData'' ''data'', fName g])"

definition writeSizeCalc :: "goStructFieldDef \<Rightarrow> string go" where
  "writeSizeCalc g =
     go_bind (EntryFullSizeWithTag (fType g) [tab, tab] ''entrySize'' (''s.'' @ fName g) (wireTypeConstName g)) (\<lambda>size.
       Ret (sprintf (code [(0, ''''), (1, ''if %v {''), (2, ''var entrySize = 0''), (0, ''%v''), 
        (2, ''size += entrySize''), (1, ''}''), (0, '''')]) [EntryIsNotEmpty (fType g) (''s.'' @ fName g), size]))"

definition GoStructField_writeMarshal :: "goStructFieldDef \<Rightarrow> string go" where
  "GoStructField_writeMarshal g =
     go_bind (EntryWriter (fType g) [tab, tab] ''res'' (wireTypeConstName g) (''s.'' @ fName g)) (\<lambda>w.
       Ret (sprintf (code [(0, ''''), (1, ''if %v {''), (0, ''%v''), (1, ''}'')]) [EntryIsNotEmpty (fType g) (''s.'' @ fName g), w]))"

definition GoStructField_writeCopy :: "goStructFieldDef \<Rightarrow> string" where
  "GoStructField_writeCopy g = EntryCopy (fType g) [tab] (''res.'' @ fName g) (''s.'' @ fName g) @ [nl]"

section \<open>Structs\<close>

record GoStructType =
  StructName :: string
  stProto :: msg_ptr
  stFields :: "goStructFieldDef list"

definition GoStructType_parseName :: "MessageDefinition \<Rightarrow> string" where
  "GoStructType_parseName msg =
     (let msgType = ProtoName (mdName msg);
          msgType = (if LocalPath (mdName msg) \<noteq> [] then join ''_'' (LocalPath (mdName msg)) @ ''_'' @ msgType else msgType)
      in replace_char (CHR ''.'') (CHR ''_'') msgType)"

definition NewStructType :: "program \<Rightarrow> msg_ptr \<Rightarrow> GoStructType" where
  "NewStructType P structDef =
     \<lparr>StructName = GoStructType_parseName (messages P ! structDef), stProto = structDef, stFields = []\<rparr>"

definition AddField :: "MessageFieldDefinition \<Rightarrow> GoFieldType \<Rightarrow> GoStructType \<Rightarrow> GoStructType" where
  "AddField fieldDef fieldType g =
     g\<lparr>stFields := stFields g @ [\<lparr>fStruct = StructName g, fName = GoStructField_parseName fieldDef,
        fType = fieldType, fProto = fieldDef\<rparr>]\<rparr>"

text \<open>The texts of the fields, one after the other; the first one that panics ends it.\<close>

fun go_concat :: "('a \<Rightarrow> string go) \<Rightarrow> 'a list \<Rightarrow> string go" where
  "go_concat f [] = Ret []"
| "go_concat f (x # xs) = go_bind (f x) (\<lambda>s. go_bind (go_concat f xs) (\<lambda>r. Ret (s @ r)))"

definition writeWireTypes :: "GoStructType \<Rightarrow> string" where
  "writeWireTypes g = (code [(0, ''''), (0, ''const (''), (0, '''')]) @ concat (map writeWireTypeConst (stFields g)) @ (code [(0, '')''), (0, '''')])"

definition writeReaderConstructor :: "GoStructType \<Rightarrow> string" where
  "writeReaderConstructor g = sprintf (code [(0, ''''), (0, ''func New%vReader() *%vReader {''), (1, ''return &%vReader{}''), 
        (0, ''}''), (0, '''')]) [StructName g, StructName g, StructName g]"

definition writeReaderStruct :: "GoStructType \<Rightarrow> string" where
  "writeReaderStruct g =
     sprintf (code [(0, ''''), (0, ''type %vReader struct {''), (1, ''buf *gremlin.Reader''), (0, ''''), 
        (0, '''')]) [StructName g] @
     concat (map writeProtoStructData (stFields g)) @ [nl] @
     concat (map writeProtoStructOffset (stFields g)) @ [nl] @
     concat (map writeProtoStructParsedFlag (stFields g)) @
     (code [(0, ''}''), (0, '''')])"

definition writeStruct :: "GoStructType \<Rightarrow> string" where
  "writeStruct g = sprintf (code [(0, ''''), (0, ''type %v struct {''), (0, '''')]) [StructName g] @
     concat (map writeStructField (stFields g)) @ (code [(0, ''}''), (0, '''')])"

definition writeFieldsAccessors :: "GoStructType \<Rightarrow> string" where
  "writeFieldsAccessors g = concat (map writeAccessors (stFields g))"

definition writeUnmarshal :: "GoStructType \<Rightarrow> string" where
  "writeUnmarshal g =
     sprintf (code [(0, ''''), (0, ''func (m *%vReader) Unmarshal(data []byte) error {''), 
        (1, ''m.buf = gremlin.NewReader(data)''), (1, ''offset := 0''), 
        (1, ''for m.buf.HasNext(offset, 0) {''), 
        (2, ''tag, wire, tagSize, err := m.buf.ReadTagAt(offset)''), (2, ''if err != nil {''), 
        (3, ''return err''), (2, ''}''), (0, ''''), (2, ''offset += tagSize''), 
        (2, ''switch tag {'')]) [StructName g] @
     concat (map GoStructField_writeUnmarshal (stFields g)) @
     (code [(0, ''''), (2, ''}''), (0, ''''), (2, ''offset, err = m.buf.SkipData(offset, wire)''), 
        (2, ''if err != nil {''), (3, ''return err''), (2, ''}''), (1, ''}''), 
        (1, ''return nil''), (0, ''}''), (0, '''')])"

definition writeToStruct :: "GoStructType \<Rightarrow> string" where
  "writeToStruct g =
     sprintf (code [(0, ''''), (0, ''func (m *%vReader) ToStruct() *%v {''), (1, ''if m == nil {''), 
        (2, ''return nil''), (1, ''}''), (1, ''res := &%v{}''), (0, '''')]) [StructName g, StructName g, StructName g] @
     concat (map GoStructField_writeToStruct (stFields g)) @
     (code [(0, ''''), (1, ''return res''), (0, ''}''), (0, '''')])"

definition writeMarshal :: "GoStructType \<Rightarrow> string go" where
  "writeMarshal g =
     go_bind (go_concat GoStructField_writeMarshal (stFields g)) (\<lambda>body.
       Ret (sprintf (code [(0, ''''), (0, ''func (s *%v) Marshal() []byte {''), (1, ''if s == nil {''), 
        (2, ''return nil''), (1, ''}''), (1, ''size := s.XXX_PbContentSize()''), 
        (1, ''if size == 0 {''), (2, ''return nil''), (1, ''}''), 
        (1, ''res := gremlin.NewWriter(size)''), (1, ''s.MarshalTo(res)''), 
        (1, ''return res.Bytes()''), (0, ''}''), (0, ''''), 
        (0, ''func (s *%v) MarshalTo(res *gremlin.Writer) {''), (1, ''if s == nil {''), 
        (2, ''return''), (1, ''}''), (0, '''')]) [StructName g, StructName g] @ body @
         (code [(0, ''''), (0, ''}''), (0, '''')])))"

definition writeSize :: "GoStructType \<Rightarrow> string go" where
  "writeSize g =
     go_bind (go_concat writeSizeCalc (stFields g)) (\<lambda>body.
       Ret (sprintf (code [(0, ''''), (0, ''func (s *%v) XXX_PbContentSize() int {''), (1, ''if s == nil {''), 
        (2, ''return 0''), (1, ''}''), (1, ''var size = 0''), (0, '''')]) [StructName g] @ body @
         (code [(0, ''''), (1, ''return size''), (0, ''}''), (0, '''')])))"

definition writeGetBytes :: "GoStructType \<Rightarrow> string" where
  "writeGetBytes g = sprintf (code [(0, ''''), (0, ''func (s *%vReader) SourceBytes() []byte {''), (1, ''if s == nil {''), 
        (2, ''return nil''), (1, ''}''), (1, ''return s.buf.Bytes()''), (0, ''}''), (0, '''')]) [StructName g]"

definition writeCopy :: "GoStructType \<Rightarrow> string" where
  "writeCopy g =
     sprintf (code [(0, ''''), (0, ''func (s *%v) Copy() *%v {''), (1, ''if s == nil {''), 
        (2, ''return nil''), (1, ''}''), (1, ''res := &%v{}''), (0, '''')]) [StructName g, StructName g, StructName g] @
     concat (map GoStructField_writeCopy (stFields g)) @
     (code [(0, ''''), (1, ''return res''), (0, ''}''), (0, '''')])"

definition GoStructType_GenerateCode :: "GoStructType \<Rightarrow> string go" where
  "GoStructType_GenerateCode g =
     go_bind (writeMarshal g) (\<lambda>marshal.
     go_bind (writeSize g) (\<lambda>size.
       Ret (writeWireTypes g @ writeReaderStruct g @ writeReaderConstructor g @ writeFieldsAccessors g @
         writeUnmarshal g @ writeToStruct g @ writeGetBytes g @ writeStruct g @ marshal @ writeCopy g @ size)))"

section \<open>Enums\<close>

record goEnumVariant =
  ConstName :: string
  vValue :: int
  vProto :: EnumValueDefinition

record GoEnumType =
  EnumName :: string
  enumValuesPrefix :: string
  enValues :: "goEnumVariant list"
  enProto :: enum_ptr

definition GetEnumForDefault :: "GoEnumType \<Rightarrow> string \<Rightarrow> string" where
  "GetEnumForDefault g value =
     (case List.find (\<lambda>v. ProtoName (evName (vProto v)) = value) (enValues g) of
        Some v \<Rightarrow> ConstName v
      | None \<Rightarrow> [])"

definition GoEnumType_parseName :: "EnumDefinition \<Rightarrow> GoEnumType \<Rightarrow> GoEnumType" where
  "GoEnumType_parseName enum g =
     (let enumType = replace_char (CHR ''.'') (CHR ''_'') (ProtoName (edName enum));
          localPath = LocalPath (edName enum)
      in if localPath \<noteq> []
         then g\<lparr>enumValuesPrefix := join ''_'' localPath @ ''_'', EnumName := join ''_'' localPath @ ''_'' @ enumType\<rparr>
         else g\<lparr>enumValuesPrefix := enumType @ ''_'', EnumName := enumType\<rparr>)"

definition parseValues :: "EnumDefinition \<Rightarrow> GoEnumType \<Rightarrow> GoEnumType" where
  "parseValues enum g =
     g\<lparr>enValues := enValues g @ map (\<lambda>value. \<lparr>ConstName = enumValuesPrefix g @ ProtoName (evName value),
        vValue = evValue value, vProto = value\<rparr>) (edValues enum)\<rparr>"

definition NewEnumType :: "program \<Rightarrow> enum_ptr \<Rightarrow> GoEnumType" where
  "NewEnumType P enum =
     (let d = enums P ! enum in
      parseValues d (GoEnumType_parseName d \<lparr>EnumName = [], enumValuesPrefix = [], enValues = [], enProto = enum\<rparr>))"

definition writeEnumHeader :: "GoEnumType \<Rightarrow> string" where
  "writeEnumHeader g = sprintf (code [(0, ''''), (0, ''type %v int32''), (0, '''')]) [EnumName g]"

definition writeEnumConstants :: "GoEnumType \<Rightarrow> string" where
  "writeEnumConstants g =
     (code [(0, ''''), (0, ''const (''), (0, '''')]) @
     concat (map (\<lambda>v. sprintf (code [(1, ''%v %v = %v''), (0, '''')]) [ConstName v, EnumName g, Itoa (vValue v)]) (enValues g)) @
     (code [(0, '')''), (0, '''')])"

definition writeCase :: "goEnumVariant \<Rightarrow> string" where
  "writeCase v = sprintf (code [(1, ''case %v:''), (2, ''return %q''), (0, '''')]) [ConstName v, ProtoName (evName (vProto v))]"

text \<open>The loop over the values, with the set of the numbers used so far.\<close>

fun writeCases :: "int list \<Rightarrow> goEnumVariant list \<Rightarrow> string" where
  "writeCases usedValues [] = []"
| "writeCases usedValues (v # vs) =
     (if vValue v \<notin> set usedValues then writeCase v @ writeCases (vValue v # usedValues) vs
      else writeCases usedValues vs)"

definition writeEnumToString :: "GoEnumType \<Rightarrow> string" where
  "writeEnumToString g =
     sprintf (code [(0, ''''), (0, ''func (e %v) String() string {''), (1, ''switch e {''), (0, '''')]) [EnumName g] @
     writeCases [] (enValues g) @
     (code [(1, ''default:''), (2, ''return '' @ [dq] @ [dq]), (1, ''}''), (0, ''}''), (0, '''')])"

definition GoEnumType_GenerateCode :: "GoEnumType \<Rightarrow> string" where
  "GoEnumType_GenerateCode g = writeEnumHeader g @ writeEnumConstants g @ writeEnumToString g"

end
