(* ===== verification/Proto_Imports.thy ===== *)
theory Proto_Imports
  imports Proto_Model
begin

text \<open>
  Imports between proto files, \<^verbatim>\<open>src/shared/gremlin_go/gremlinc/internal/imports.go\<close>. The base folders
  are found with a tree of the directories that hold proto files; the nodes, which the source
  shares by pointer and extends in place, are rebuilt here along the path of the new file. A
  fatal log entry ends the program and is modelled as a panic.
\<close>

section \<open>The directory tree\<close>

datatype fsNode = FsNode (nodePath: string) (Children: "fsNode list") (Files: "file_ptr list")

text \<open>The walk of one file's directory parts down the tree, creating the nodes that are missing.\<close>

function addFile :: "string list \<Rightarrow> file_ptr \<Rightarrow> fsNode \<Rightarrow> fsNode"
  and addToChild :: "string \<Rightarrow> string list \<Rightarrow> file_ptr \<Rightarrow> fsNode list \<Rightarrow> fsNode list" where
  "addFile [] i (FsNode p cs fs) = FsNode p cs (fs @ [i])"
| "addFile (part # parts) i (FsNode p cs fs) =
     (if part = [] then addFile parts i (FsNode p cs fs)
      else FsNode p (addToChild (path_join [p, part]) parts i cs) fs)"
| "addToChild target parts i [] = [addFile parts i (FsNode target [] [])]"
| "addToChild target parts i (c # cs) =
     (if nodePath c = target then addFile parts i c # cs else c # addToChild target parts i cs)"
  by pat_completeness auto

termination
  by (relation "inv_image (less_than <*lex*> less_than <*lex*> less_than)
      (\<lambda>x. case x of Inl (parts, _, _) \<Rightarrow> (length parts, 0, 0)
         | Inr (_, parts, _, cs) \<Rightarrow> (length parts, 1, length cs))") auto

definition addProtoFile :: "program \<Rightarrow> file_ptr \<Rightarrow> fsNode \<Rightarrow> fsNode" where
  "addProtoFile P i root = addFile (split_on (CHR ''/'') (path_dir (Path (files P ! i)))) i root"

fun findRoot :: "fsNode \<Rightarrow> fsNode" where
  "findRoot (FsNode p [c] []) = findRoot c"
| "findRoot n = n"

definition setBaseFolder :: "string \<Rightarrow> file_ptr \<Rightarrow> program \<Rightarrow> program" where
  "setBaseFolder base i P = upd_file i (\<lambda>f. f\<lparr>BaseFolder := base\<rparr>) P"

fun recursivelyAssignImportBaseFolder :: "fsNode \<Rightarrow> string \<Rightarrow> program \<Rightarrow> program" where
  "recursivelyAssignImportBaseFolder (FsNode p cs fs) basePath P =
     fold (\<lambda>c. recursivelyAssignImportBaseFolder c basePath) cs (fold (setBaseFolder basePath) fs P)"

definition assignBaseFolder :: "fsNode \<Rightarrow> program \<Rightarrow> program" where
  "assignBaseFolder rootNode P =
     fold (\<lambda>child. recursivelyAssignImportBaseFolder child (nodePath child)) (Children rootNode)
       (if Files rootNode \<noteq> [] then fold (setBaseFolder (nodePath rootNode)) (Files rootNode) P else P)"

definition resolveBaseFolders :: "program \<Rightarrow> program go" where
  "resolveBaseFolders P =
     (let rootNode = findRoot (fold (addProtoFile P) [0..<length (files P)] (FsNode ''/'' [] []));
          hasChildren = Children rootNode \<noteq> [];
          hasFiles = Files rootNode \<noteq> []
      in if \<not> hasChildren \<and> \<not> hasFiles then Panic
         else if hasFiles \<and> hasChildren then Panic
         else Ret (assignBaseFolder rootNode P))"

section \<open>Imports\<close>

text \<open>The map from paths to files; a later file with the same path replaces an earlier one.\<close>

definition parsedMap :: "program \<Rightarrow> string \<Rightarrow> file_ptr option" where
  "parsedMap P fpath = List.find (\<lambda>i. Path (files P ! i) = fpath) (rev [0..<length (files P)])"

definition resolveImport :: "program \<Rightarrow> ProtoFile \<Rightarrow> ProtoImport \<Rightarrow> ProtoImport \<times> gen_error list" where
  "resolveImport P pFile imp =
     (let fpath = path_join [BaseFolder pFile, FSPath imp] in
      case parsedMap P fpath of
        Some t \<Rightarrow> (imp\<lparr>TargetFile := Some t\<rparr>, [])
      | None \<Rightarrow> (imp, [ImportUnresolved (FSPath imp) (RelativePath pFile) (BaseFolder pFile) fpath]))"

definition resolveImports :: "file_ptr \<Rightarrow> program \<times> gen_error list \<Rightarrow> program \<times> gen_error list" where
  "resolveImports i s =
     (let P = fst s; rs = map (resolveImport P (files P ! i)) (Imports (files P ! i))
      in (upd_file i (\<lambda>f. f\<lparr>Imports := map fst rs\<rparr>) P, snd s @ concat (map snd rs)))"

text \<open>One import of a file adds the public imports of its target, as they are at that moment.\<close>

definition addPublicOf :: "file_ptr \<Rightarrow> ProtoImport \<Rightarrow> program \<Rightarrow> program" where
  "addPublicOf i imp P =
     (case TargetFile imp of
        None \<Rightarrow> P
      | Some t \<Rightarrow> upd_file i (\<lambda>f. f\<lparr>Imports := Imports f @
          filter (\<lambda>targetImport. importKind targetImport = ''public'') (Imports (files P ! t))\<rparr>) P)"

definition addPublicImports :: "file_ptr \<Rightarrow> program \<Rightarrow> program" where
  "addPublicImports i P = fold (addPublicOf i) (Imports (files P ! i)) P"

section \<open>What the tree holds\<close>

fun subFiles :: "fsNode \<Rightarrow> file_ptr list" where
  "subFiles (FsNode p cs fs) = fs @ concat (map subFiles cs)"

text \<open>The files of a tree with the path of their node.\<close>

fun content :: "fsNode \<Rightarrow> (string \<times> file_ptr) set" where
  "content (FsNode p cs fs) = {p} \<times> set fs \<union> (\<Union>c \<in> set cs. content c)"

text \<open>A tree rooted at a directory: the children are different subdirectories, each with files.\<close>

fun tree_at :: "string list \<Rightarrow> fsNode \<Rightarrow> bool" where
  "tree_at ps (FsNode p cs fs) \<longleftrightarrow>
     p = abs_path ps \<and> distinct (map nodePath cs) \<and>
     (\<forall>c \<in> set cs. content c \<noteq> {} \<and> (\<exists>n. proper n \<and> tree_at (ps @ [n]) c))"

lemma tree_at_path: "tree_at ps t \<Longrightarrow> nodePath t = abs_path ps"
  by (cases t) simp

lemma abs_path_inject [simp]:
  "list_all proper ps \<Longrightarrow> list_all proper qs \<Longrightarrow> abs_path ps = abs_path qs \<longleftrightarrow> ps = qs"
proof
  assume a: "list_all proper ps" "list_all proper qs" "abs_path ps = abs_path qs"
  then have "[] # (if ps = [] then [[]] else ps) = [] # (if qs = [] then [[]] else qs)"
    using split_abs_path by metis
  then show "ps = qs" using a(1,2) by (auto split: if_splits simp: proper_def)
qed simp

definition children_at :: "string list \<Rightarrow> fsNode list \<Rightarrow> bool" where
  "children_at ps cs \<longleftrightarrow> distinct (map nodePath cs) \<and>
     (\<forall>c \<in> set cs. content c \<noteq> {} \<and> (\<exists>n. proper n \<and> tree_at (ps @ [n]) c))"

lemma tree_at_iff: "tree_at ps (FsNode p cs fs) \<longleftrightarrow> p = abs_path ps \<and> children_at ps cs"
  by (simp add: children_at_def)

lemma addFile_skip:
  "addFile parts i t = addFile (filter (\<lambda>p. p \<noteq> []) parts) i t"
  "addToChild q parts i cs = addToChild q (filter (\<lambda>p. p \<noteq> []) parts) i cs"
  by (induction parts i t and q parts i cs rule: addFile_addToChild.induct) auto

lemma addFile_path [simp]: "nodePath (addFile parts i t) = nodePath t"
proof (induction parts arbitrary: t)
  case (Cons part parts)
  then show ?case by (cases t) simp
next
  case Nil
  then show ?case by (cases t) simp
qed

lemma path_child: "list_all proper ps \<Longrightarrow> proper n \<Longrightarrow> path_join [abs_path ps, n] = abs_path (ps @ [n])"
  using join_abs_path [of ps "[n]"] by simp

lemma add_ok:
  "\<lbrakk>tree_at ps t; list_all proper ps; list_all proper parts\<rbrakk> \<Longrightarrow>
     tree_at ps (addFile parts i t) \<and> content (addFile parts i t) = insert (abs_path (ps @ parts), i) (content t)"
  "\<lbrakk>children_at ps cs; list_all proper ps; list_all proper parts; proper n; q = abs_path (ps @ [n])\<rbrakk> \<Longrightarrow>
     children_at ps (addToChild q parts i cs) \<and>
     (\<Union>c \<in> set (addToChild q parts i cs). content c) =
       insert (abs_path (ps @ n # parts), i) (\<Union>c \<in> set cs. content c) \<and>
     nodePath ` set (addToChild q parts i cs) = insert q (nodePath ` set cs)"
proof (induction parts i t and q parts i cs arbitrary: ps and ps n rule: addFile_addToChild.induct)
  case (1 i p cs fs)
  then show ?case by (auto simp: tree_at_iff simp del: tree_at.simps)
next
  case (2 part parts i p cs fs)
  then have part: "part \<noteq> []" "proper part" by (auto simp: proper_def)
  have p: "p = abs_path ps" "children_at ps cs" using 2(3) by (simp_all only: tree_at_iff)
  note IH = 2(2) [OF part(1) p(2) 2(4) _ part(2)]
  have "children_at ps (addToChild (path_join [p, part]) parts i cs) \<and>
      (\<Union>c \<in> set (addToChild (path_join [p, part]) parts i cs). content c) =
        insert (abs_path (ps @ part # parts), i) (\<Union>c \<in> set cs. content c)"
    using IH 2(5) path_child [OF 2(4) part(2)] p(1) by simp
  then show ?case using p(1) part(1) by (simp add: tree_at_iff del: tree_at.simps)
next
  case (3 q parts i)
  let ?t = "FsNode q [] []"
  have t: "tree_at (ps @ [n]) ?t" using 3 by simp
  have "tree_at (ps @ [n]) (addFile parts i ?t) \<and>
      content (addFile parts i ?t) = insert (abs_path ((ps @ [n]) @ parts), i) (content ?t)"
    using 3(1) [OF t] 3(3,4,5) by simp
  then show ?case using 3(5) by (auto simp: children_at_def)
next
  case (4 q parts i c cs)
  have cs: "children_at ps cs" and c: "content c \<noteq> {}" "nodePath c \<notin> nodePath ` set cs"
    using 4(3) by (auto simp: children_at_def)
  obtain m where m: "proper m" "tree_at (ps @ [m]) c" using 4(3) by (auto simp: children_at_def)
  show ?case
  proof (cases "nodePath c = q")
    case True
    then have "m = n" using tree_at_path [OF m(2)] 4(4,6,7) m(1) by simp
    then have "tree_at (ps @ [n]) (addFile parts i c) \<and>
        content (addFile parts i c) = insert (abs_path ((ps @ [n]) @ parts), i) (content c)"
      using 4(1) [OF True, of "ps @ [n]"] m(2) 4(4,5,6) by simp
    then show ?thesis using True cs c 4(6) by (auto simp: children_at_def)
  next
    case False
    note IH = 4(2) [OF False cs 4(4-7)]
    show ?thesis using False IH c m by (auto simp: children_at_def)
  qed
qed

text \<open>Where the files are: their directories, as lists of path components.\<close>

definition located :: "program \<Rightarrow> (file_ptr \<Rightarrow> string list) \<Rightarrow> bool" where
  "located P dirs \<longleftrightarrow> (\<forall>i < length (files P). list_all proper (dirs i) \<and>
     (\<exists>f. proper f \<and> Path (files P ! i) = abs_path (dirs i @ [f])))"

lemma tree_of_files:
  assumes "located P dirs"
  shows "n \<le> length (files P) \<Longrightarrow>
    tree_at [] (fold (addProtoFile P) [0..<n] (FsNode ''/'' [] [])) \<and>
    content (fold (addProtoFile P) [0..<n] (FsNode ''/'' [] [])) = (\<lambda>i. (abs_path (dirs i), i)) ` {..<n}"
proof (induction n)
  case 0
  then show ?case by (simp add: abs_path_def)
next
  case (Suc n)
  let ?t = "fold (addProtoFile P) [0..<n] (FsNode ''/'' [] [])"
  obtain f where f: "list_all proper (dirs n)" "proper f" "Path (files P ! n) = abs_path (dirs n @ [f])"
    using assms Suc.prems unfolding located_def by (metis Suc_le_lessD)
  have "addProtoFile P n ?t = addFile (dirs n) n ?t"
    unfolding addProtoFile_def f(3)
    by (subst addFile_skip(1)) (simp only: split_dir_abs_path [OF f(1,2)])
  moreover have "tree_at [] (addFile (dirs n) n ?t) \<and>
      content (addFile (dirs n) n ?t) = insert (abs_path ([] @ dirs n), n) (content ?t)"
    using Suc f(1) by (intro add_ok(1)) simp_all
  ultimately show ?case using Suc by (simp add: lessThan_Suc)
qed

lemma findRoot_ok:
  "tree_at ps t \<Longrightarrow> list_all proper ps \<Longrightarrow>
   \<exists>qs. list_all proper (ps @ qs) \<and> tree_at (ps @ qs) (findRoot t) \<and> content (findRoot t) = content t \<and>
     \<not> (length (Children (findRoot t)) = 1 \<and> Files (findRoot t) = [])"
proof (induction t arbitrary: ps rule: findRoot.induct)
  case (1 p c)
  then obtain n where "proper n" "tree_at (ps @ [n]) c" by auto
  with 1(1) [of "ps @ [n]"] 1(3) obtain qs where
    "list_all proper ((ps @ [n]) @ qs)" "tree_at ((ps @ [n]) @ qs) (findRoot c)" "content (findRoot c) = content c"
    "\<not> (length (Children (findRoot c)) = 1 \<and> Files (findRoot c) = [])" by auto
  then show ?case by (intro exI [of _ "n # qs"]) simp
qed (rule exI [of _ "[]"], simp)+

lemma content_below:
  "tree_at ps t \<Longrightarrow> list_all proper ps \<Longrightarrow> (d, i) \<in> content t \<Longrightarrow> \<exists>r. list_all proper r \<and> d = abs_path (ps @ r)"
proof (induction t arbitrary: ps rule: content.induct)
  case (1 p cs fs)
  then consider "d = abs_path ps" | c where "c \<in> set cs" "(d, i) \<in> content c" by auto
  then show ?case
  proof cases
    case 1
    then show ?thesis by (intro exI [of _ "[]"]) simp
  next
    case (2 c)
    then obtain n where "proper n" "tree_at (ps @ [n]) c" using 1(2) by auto
    with 1(1) [OF 2(1), of "ps @ [n]"] 1(3) 2(2) obtain r where
      "list_all proper r" "d = abs_path ((ps @ [n]) @ r)" by auto
    then show ?thesis using \<open>proper n\<close> by (intro exI [of _ "n # r"]) simp
  qed
qed

section \<open>Assigning base folders\<close>

lemma base_fold:
  "length (files (fold (setBaseFolder b) is P)) = length (files P) \<and>
   (i < length (files P) \<longrightarrow> BaseFolder (files (fold (setBaseFolder b) is P) ! i) =
      (if i \<in> set is then b else BaseFolder (files P ! i)))"
  by (induction "is" arbitrary: P) (auto simp: setBaseFolder_def upd_file_def nth_list_update)

definition in_tree :: "file_ptr \<Rightarrow> fsNode \<Rightarrow> bool" where
  "in_tree i t \<longleftrightarrow> (\<exists>d. (d, i) \<in> content t)"

lemma in_tree_node [simp]: "in_tree i (FsNode p cs fs) \<longleftrightarrow> i \<in> set fs \<or> (\<exists>c \<in> set cs. in_tree i c)"
  by (auto simp: in_tree_def)

lemma assign_sub:
  "length (files (recursivelyAssignImportBaseFolder t b P)) = length (files P) \<and>
   (i < length (files P) \<longrightarrow> BaseFolder (files (recursivelyAssignImportBaseFolder t b P) ! i) =
      (if in_tree i t then b else BaseFolder (files P ! i)))"
proof (induction t arbitrary: P rule: content.induct)
  case (1 p cs fs)
  have "length (files (fold (\<lambda>c. recursivelyAssignImportBaseFolder c b) ds Q)) = length (files Q) \<and>
     (i < length (files Q) \<longrightarrow> BaseFolder (files (fold (\<lambda>c. recursivelyAssignImportBaseFolder c b) ds Q) ! i) =
      (if \<exists>c \<in> set ds. in_tree i c then b else BaseFolder (files Q ! i)))"
    if "set ds \<subseteq> set cs" for ds Q
    using that
  proof (induction ds arbitrary: Q)
    case (Cons d ds)
    then show ?case using 1 [of d Q] by auto
  qed simp
  from this [of cs "fold (setBaseFolder b) fs P"] base_fold [of b fs P i]
  show ?case by auto
qed

lemma assign_children:
  "length (files (fold (\<lambda>c. recursivelyAssignImportBaseFolder c (nodePath c)) cs P)) = length (files P) \<and>
   (i < length (files P) \<longrightarrow> (\<forall>c \<in> set cs. in_tree i c \<longrightarrow> nodePath c = b) \<longrightarrow>
      BaseFolder (files (fold (\<lambda>c. recursivelyAssignImportBaseFolder c (nodePath c)) cs P) ! i) =
      (if \<exists>c \<in> set cs. in_tree i c then b else BaseFolder (files P ! i)))"
proof (induction cs arbitrary: P)
  case (Cons c cs)
  then show ?case using assign_sub [of c "nodePath c" P i] by auto
qed simp

lemma root_node:
  assumes "tree_at R (FsNode p cs fs)" and "list_all proper R"
    and "content (FsNode p cs fs) = (\<lambda>i. (abs_path (dirs i), i)) ` {..<n}"
    and "\<forall>i < n. list_all proper (dirs i)"
  shows root_below: "i < n \<Longrightarrow> \<exists>r. dirs i = R @ r"
    and root_file: "i \<in> set fs \<longleftrightarrow> i < n \<and> dirs i = R"
    and root_child: "c \<in> set cs \<Longrightarrow> in_tree i c \<Longrightarrow>
      i < n \<and> dirs i \<noteq> R \<and> nodePath c = abs_path (take (Suc (length R)) (dirs i))"
    and root_deep: "i < n \<Longrightarrow> dirs i \<noteq> R \<Longrightarrow> \<exists>c \<in> set cs. in_tree i c"
proof -
  have p: "p = abs_path R" using assms(1) by simp
  have mem: "(abs_path (dirs i), i) \<in> content (FsNode p cs fs)" if "i < n" for i
    using that assms(3) by auto
  show below: "\<exists>r. dirs i = R @ r" if "i < n" for i
    using content_below [OF assms(1,2) mem [OF that]] assms(2,4) that by auto
  have child: "i < n \<and> dirs i \<noteq> R \<and> nodePath c = abs_path (take (Suc (length R)) (dirs i))"
    if c: "c \<in> set cs" "(d, i) \<in> content c" for c d i
  proof -
    obtain m where m: "proper m" "tree_at (R @ [m]) c" using assms(1) c(1) by auto
    obtain r where r: "list_all proper r" "d = abs_path ((R @ [m]) @ r)"
      using content_below [OF m(2) _ c(2)] m(1) assms(2) by auto
    have "(d, i) \<in> content (FsNode p cs fs)" using c by auto
    then have i: "i < n" "d = abs_path (dirs i)" using assms(3) by auto
    then have "dirs i = (R @ [m]) @ r" using r m(1) assms(2,4) by auto
    then show ?thesis using i(1) tree_at_path [OF m(2)] by simp
  qed
  then show "i < n \<and> dirs i \<noteq> R \<and> nodePath c = abs_path (take (Suc (length R)) (dirs i))"
    if "c \<in> set cs" "in_tree i c" for c using that by (auto simp: in_tree_def)
  show "i \<in> set fs \<longleftrightarrow> i < n \<and> dirs i = R"
  proof
    assume "i \<in> set fs"
    then have "(abs_path R, i) \<in> content (FsNode p cs fs)" using p by simp
    then have "(abs_path R, i) \<in> (\<lambda>i. (abs_path (dirs i), i)) ` {..<n}" unfolding assms(3) .
    then show "i < n \<and> dirs i = R" using assms(2,4) by auto
  next
    assume "i < n \<and> dirs i = R"
    then show "i \<in> set fs" using mem [of i] child [of _ "abs_path (dirs i)" i] by auto
  qed
  then show "\<exists>c \<in> set cs. in_tree i c" if "i < n" "dirs i \<noteq> R"
    using that mem [of i] by (auto simp: in_tree_def)
qed

lemma tree_children_differ:
  assumes "tree_at R (FsNode p cs fs)" and "Suc 0 < length cs"
  shows "\<exists>c d i j. c \<in> set cs \<and> d \<in> set cs \<and> nodePath c \<noteq> nodePath d \<and> in_tree i c \<and> in_tree j d"
proof -
  obtain c d ds where cs: "cs = c # d # ds"
    using assms(2) by (cases cs; cases "tl cs") auto
  then have "content c \<noteq> {}" "content d \<noteq> {}" "nodePath c \<noteq> nodePath d" using assms(1) by auto
  then show ?thesis using cs by (auto simp: in_tree_def)
qed

lemma root_differ:
  assumes "tree_at R (FsNode p cs fs)" and "list_all proper R"
    and "content (FsNode p cs fs) = (\<lambda>i. (abs_path (dirs i), i)) ` {..<n}"
    and "\<forall>i < n. list_all proper (dirs i)" and "fs = []" and "Suc 0 < length cs"
  shows "\<exists>i j. i < n \<and> j < n \<and> dirs i ! length R \<noteq> dirs j ! length R"
proof -
  note rt = assms(1-4)
  obtain c d i j where cd: "c \<in> set cs" "d \<in> set cs" "nodePath c \<noteq> nodePath d" "in_tree i c" "in_tree j d"
    using tree_children_differ [OF rt(1) assms(6)] by blast
  then have ij: "i < n" "j < n" "take (Suc (length R)) (dirs i) \<noteq> take (Suc (length R)) (dirs j)"
    "dirs i \<noteq> R" "dirs j \<noteq> R" using root_child [OF rt] by metis+
  then obtain r q where rq: "dirs i = R @ r" "dirs j = R @ q" using root_below [OF rt] by metis
  with ij(3-5) have "dirs i ! length R \<noteq> dirs j ! length R" by (cases r; cases q) auto
  then show ?thesis using ij(1,2) by blast
qed

text \<open>
  C29. The base folder of every proto file. Let the files be given by absolute paths and let R be
  their longest common directory. When all files are in R itself, R is the base folder of all;
  when none is, each file has the directory directly below R that it is in; when some are and
  some are not, or when there are no files, the program ends with a fatal error.
\<close>

theorem base_folders:
  assumes "located P dirs" and "files P \<noteq> []"
  shows "\<exists>R. (\<forall>i < length (files P). \<exists>r. dirs i = R @ r) \<and>
    ((\<forall>i < length (files P). dirs i = R) \<and>
       (\<exists>P'. resolveBaseFolders P = Ret P' \<and>
         (\<forall>i < length (files P). BaseFolder (files P' ! i) = abs_path R))
     \<or> (\<forall>i < length (files P). dirs i \<noteq> R) \<and>
       (\<exists>i j. i < length (files P) \<and> j < length (files P) \<and> dirs i ! length R \<noteq> dirs j ! length R) \<and>
       (\<exists>P'. resolveBaseFolders P = Ret P' \<and>
         (\<forall>i < length (files P). BaseFolder (files P' ! i) = abs_path (take (Suc (length R)) (dirs i))))
     \<or> (\<exists>i < length (files P). dirs i = R) \<and> (\<exists>i < length (files P). dirs i \<noteq> R) \<and>
       resolveBaseFolders P = Panic)"
proof -
  let ?n = "length (files P)"
  let ?t = "fold (addProtoFile P) [0..<?n] (FsNode ''/'' [] [])"
  have t: "tree_at [] ?t" "content ?t = (\<lambda>i. (abs_path (dirs i), i)) ` {..<?n}"
    using tree_of_files [OF assms(1), of ?n] by simp_all
  obtain R where R: "list_all proper R" "tree_at R (findRoot ?t)" "content (findRoot ?t) = content ?t"
    "\<not> (length (Children (findRoot ?t)) = 1 \<and> Files (findRoot ?t) = [])"
    using findRoot_ok [OF t(1)] by auto
  obtain cs fs where root: "findRoot ?t = FsNode (abs_path R) cs fs"
    using tree_at_path [OF R(2)] by (cases "findRoot ?t") simp
  have loc: "\<forall>i < ?n. list_all proper (dirs i)" using assms(1) by (simp add: located_def)
  note rt = R(2) [unfolded root] R(1) R(3) [unfolded root t(2)] loc
  note below = root_below [OF rt] and at_root = root_file [OF rt] and child = root_child [OF rt]
    and deep = root_deep [OF rt]
  have res: "resolveBaseFolders P = (if cs = [] \<and> fs = [] \<or> fs \<noteq> [] \<and> cs \<noteq> [] then Panic
      else Ret (assignBaseFolder (FsNode (abs_path R) cs fs) P))"
    by (simp add: resolveBaseFolders_def root Let_def)
  have some: "0 < ?n" using assms(2) by simp
  show ?thesis
  proof (intro exI [of _ R] conjI)
    show "\<forall>i < ?n. \<exists>r. dirs i = R @ r" using below by blast
    consider (all) "fs \<noteq> []" "cs = []" | (none) "fs = []" "Suc 0 < length cs" | (mixed) "fs \<noteq> []" "cs \<noteq> []"
      | (empty) "fs = []" "cs = []"
      using R(4) unfolding root by (cases cs) auto
    then show "(\<forall>i < ?n. dirs i = R) \<and>
        (\<exists>P'. resolveBaseFolders P = Ret P' \<and> (\<forall>i < ?n. BaseFolder (files P' ! i) = abs_path R))
      \<or> (\<forall>i < ?n. dirs i \<noteq> R) \<and>
        (\<exists>i j. i < ?n \<and> j < ?n \<and> dirs i ! length R \<noteq> dirs j ! length R) \<and>
        (\<exists>P'. resolveBaseFolders P = Ret P' \<and>
          (\<forall>i < ?n. BaseFolder (files P' ! i) = abs_path (take (Suc (length R)) (dirs i))))
      \<or> (\<exists>i < ?n. dirs i = R) \<and> (\<exists>i < ?n. dirs i \<noteq> R) \<and> resolveBaseFolders P = Panic"
    proof cases
      case all
      have eq: "dirs i = R" if "i < ?n" for i using deep [OF that] all(2) by auto
      have "BaseFolder (files (assignBaseFolder (FsNode (abs_path R) cs fs) P) ! i) = abs_path R" if "i < ?n" for i
        using base_fold [of "abs_path R" fs P i] at_root [of i] eq that all by (simp add: assignBaseFolder_def)
      then show ?thesis using eq res all by auto
    next
      case none
      have ne: "dirs i \<noteq> R" if "i < ?n" for i using at_root [of i] none(1) that by simp
      have "BaseFolder (files (assignBaseFolder (FsNode (abs_path R) cs fs) P) ! i) =
          abs_path (take (Suc (length R)) (dirs i))" if "i < ?n" for i
        using assign_children [of cs P i "abs_path (take (Suc (length R)) (dirs i))"] that child
          deep [OF that ne [OF that]] none by (auto simp: assignBaseFolder_def)
      moreover note root_differ [OF rt none]
      ultimately show ?thesis using ne res none by auto
    next
      case mixed
      then obtain i c where "i \<in> set fs" "c \<in> set cs" by (metis list.set_intros(1) neq_Nil_conv)
      moreover have "content c \<noteq> {}" using rt(1) \<open>c \<in> set cs\<close> by auto
      then obtain j where "in_tree j c" unfolding in_tree_def by force
      ultimately show ?thesis using at_root [of i] child [of c j] res mixed by auto
    next
      case empty
      then show ?thesis using at_root [of 0] deep [of 0] some by auto
    qed
  qed
qed

section \<open>Public imports\<close>

definition public_of :: "program \<Rightarrow> ProtoImport \<Rightarrow> ProtoImport list" where
  "public_of P imp = (case TargetFile imp of
     None \<Rightarrow> []
   | Some t \<Rightarrow> filter (\<lambda>targetImport. importKind targetImport = ''public'') (Imports (files P ! t)))"

lemma in_public: "imp' \<in> set (public_of P imp) \<longleftrightarrow>
    (\<exists>t. TargetFile imp = Some t \<and> imp' \<in> set (Imports (files P ! t)) \<and> importKind imp' = ''public'')"
  by (cases "TargetFile imp") (auto simp: public_of_def)

lemma addPublic_fold:
  assumes "i < length (files P)" and "\<And>imp. imp \<in> set imps \<Longrightarrow> TargetFile imp \<noteq> Some i"
  shows "length (files (fold (addPublicOf i) imps P)) = length (files P) \<and>
    (\<forall>j. j \<noteq> i \<longrightarrow> files (fold (addPublicOf i) imps P) ! j = files P ! j) \<and>
    Imports (files (fold (addPublicOf i) imps P) ! i) = Imports (files P ! i) @ concat (map (public_of P) imps)"
  using assms
proof (induction imps arbitrary: P)
  case (Cons imp imps)
  let ?P = "addPublicOf i imp P"
  have 1: "length (files ?P) = length (files P)" "\<And>j. j \<noteq> i \<Longrightarrow> files ?P ! j = files P ! j"
    "Imports (files ?P ! i) = Imports (files P ! i) @ public_of P imp"
    using Cons.prems(1) by (auto simp: addPublicOf_def upd_file_def public_of_def split: option.splits)
  have "public_of ?P im = public_of P im" if "im \<in> set imps" for im
    using Cons.prems(2) [of im] that 1(2) by (auto simp: public_of_def split: option.splits)
  then have "map (public_of ?P) imps = map (public_of P) imps" by simp
  with Cons.IH [of ?P] Cons.prems 1 show ?case by simp
qed simp

text \<open>Every import passes on the public imports of its target.\<close>

definition passes_on :: "program \<Rightarrow> file_ptr \<Rightarrow> bool" where
  "passes_on P i \<longleftrightarrow> (\<forall>imp \<in> set (Imports (files P ! i)). set (public_of P imp) \<subseteq> set (Imports (files P ! i)))"

definition ordered :: "program \<Rightarrow> bool" where
  "ordered P \<longleftrightarrow> (\<forall>i < length (files P). \<forall>imp \<in> set (Imports (files P ! i)).
     case TargetFile imp of None \<Rightarrow> True | Some t \<Rightarrow> t < i)"

lemma public_steps:
  assumes "ordered P"
  shows "k \<le> length (files P) \<Longrightarrow>
    length (files (fold addPublicImports [0..<k] P)) = length (files P) \<and>
    (\<forall>j \<ge> k. files (fold addPublicImports [0..<k] P) ! j = files P ! j) \<and>
    (\<forall>i < k. passes_on (fold addPublicImports [0..<k] P) i \<and>
       (\<forall>imp \<in> set (Imports (files (fold addPublicImports [0..<k] P) ! i)).
          case TargetFile imp of None \<Rightarrow> True | Some t \<Rightarrow> t < i))"
proof (induction k)
  case (Suc k)
  let ?Q = "fold addPublicImports [0..<k] P" and ?is = "Imports (files P ! k)"
  let ?R = "addPublicImports k ?Q"
  have IH: "length (files ?Q) = length (files P)" "\<And>j. k \<le> j \<Longrightarrow> files ?Q ! j = files P ! j"
    "\<And>i. i < k \<Longrightarrow> passes_on ?Q i"
    "\<And>i imp t. i < k \<Longrightarrow> imp \<in> set (Imports (files ?Q ! i)) \<Longrightarrow> TargetFile imp = Some t \<Longrightarrow> t < i"
    using Suc by (auto split: option.splits)
  have before: "t < k" if "imp \<in> set ?is" "TargetFile imp = Some t" for imp t
  proof -
    have "k < length (files P)" using Suc.prems by simp
    then have "case TargetFile imp of None \<Rightarrow> True | Some t \<Rightarrow> t < k"
      using assms that(1) unfolding ordered_def by blast
    then show ?thesis using that(2) by simp
  qed
  then have R: "length (files ?R) = length (files P)" "\<And>j. j \<noteq> k \<Longrightarrow> files ?R ! j = files ?Q ! j"
    "Imports (files ?R ! k) = ?is @ concat (map (public_of ?Q) ?is)"
    using addPublic_fold [of k ?Q ?is] Suc.prems IH(1,2)
    by (auto simp: addPublicImports_def)
  have same: "public_of ?R imp = public_of ?Q imp" if "\<And>t. TargetFile imp = Some t \<Longrightarrow> t < k" for imp
    using that R(2) by (force simp: public_of_def split: option.splits)
  have fresh: "t < k" if "imp \<in> set (Imports (files ?R ! k))" "TargetFile imp = Some t" for imp t
    using that R(3) before IH(4) by (auto simp: in_public) (meson less_trans)
  have "passes_on ?R k"
    unfolding passes_on_def
  proof
    fix imp assume i: "imp \<in> set (Imports (files ?R ! k))"
    have e: "public_of ?R imp = public_of ?Q imp" using same fresh [OF i] by blast
    show "set (public_of ?R imp) \<subseteq> set (Imports (files ?R ! k))"
    proof (cases "imp \<in> set ?is")
      case True
      then show ?thesis using e R(3) by auto
    next
      case False
      then obtain im t where im: "im \<in> set ?is" "TargetFile im = Some t" "imp \<in> set (Imports (files ?Q ! t))"
        "imp \<in> set (public_of ?Q im)"
        using i R(3) by (auto simp: in_public)
      have "set (public_of ?Q imp) \<subseteq> set (Imports (files ?Q ! t))"
        using IH(3) [OF before [OF im(1,2)]] im(3) by (auto simp: passes_on_def)
      then have "set (public_of ?Q imp) \<subseteq> set (public_of ?Q im)"
        using im(2) by (auto simp: in_public)
      then show ?thesis using e R(3) im(1) by auto
    qed
  qed
  moreover have "passes_on ?R i" if "i < k" for i
  proof -
    have f: "files ?R ! i = files ?Q ! i" using R(2) [of i] that by simp
    have "public_of ?R imp = public_of ?Q imp" if "imp \<in> set (Imports (files ?Q ! i))" for imp
      by (rule same) (use IH(4) [OF \<open>i < k\<close> that] \<open>i < k\<close> in fastforce)
    then show ?thesis using IH(3) [OF that] unfolding passes_on_def f by simp
  qed
  moreover have "i < k \<Longrightarrow> files ?R ! i = files ?Q ! i" for i using R(2) [of i] by simp
  ultimately show ?case
    using R(1,2) IH fresh by (auto simp: less_Suc_eq split: option.splits)
qed simp

text \<open>
  C30. When every file comes after the files it imports, the imports of each file are closed under
  public imports: whatever an imported file imports publicly, directly or through other files,
  is imported too.
\<close>

theorem public_imports_closed:
  assumes "ordered P" and "i < length (files P)"
    and "imp \<in> set (Imports (files (fold addPublicImports [0..<length (files P)] P) ! i))"
    and "TargetFile imp = Some t"
    and "imp' \<in> set (Imports (files (fold addPublicImports [0..<length (files P)] P) ! t))"
    and "importKind imp' = ''public''"
  shows "imp' \<in> set (Imports (files (fold addPublicImports [0..<length (files P)] P) ! i))"
proof -
  have "passes_on (fold addPublicImports [0..<length (files P)] P) i"
    using public_steps [OF assms(1), of "length (files P)"] assms(2) by simp
  then show ?thesis using assms(3-6) in_public unfolding passes_on_def by blast
qed

section \<open>Example: a chain of public imports\<close>

definition bare_file :: "string \<Rightarrow> ProtoImport list \<Rightarrow> ProtoFile" where
  "bare_file p imps = \<lparr>Path = p, RelativePath = p, Parsed = [], Proto2 = False, Package = None,
     Imports = imps, Enums = [], Messages = [], BaseFolder = []\<rparr>"

definition import_of :: "string \<Rightarrow> file_ptr \<Rightarrow> string \<Rightarrow> ProtoImport" where
  "import_of p t kind = \<lparr>FSPath = p, TargetFile = Some t, importKind = kind\<rparr>"

text \<open>File a imports b, b publicly imports c, c publicly imports d; once with the imported files
  first, once with the importing files first.\<close>

definition chain_up :: program where
  "chain_up = \<lparr>files = [bare_file ''/p/d.proto'' [], bare_file ''/p/c.proto'' [import_of ''d.proto'' 0 ''public''],
     bare_file ''/p/b.proto'' [import_of ''c.proto'' 1 ''public''], bare_file ''/p/a.proto'' [import_of ''b.proto'' 2 []]],
     messages = [], enums = []\<rparr>"

definition chain_down :: program where
  "chain_down = \<lparr>files = [bare_file ''/p/a.proto'' [import_of ''b.proto'' 1 []],
     bare_file ''/p/b.proto'' [import_of ''c.proto'' 2 ''public''], bare_file ''/p/c.proto'' [import_of ''d.proto'' 3 ''public''],
     bare_file ''/p/d.proto'' []], messages = [], enums = []\<rparr>"

lemma chain_up_result:
  "map (\<lambda>f. map FSPath (Imports f)) (files (fold addPublicImports [0..<4] chain_up)) =
     [[], [''d.proto''], [''c.proto'', ''d.proto''], [''b.proto'', ''c.proto'', ''d.proto'']]"
  by (simp add: chain_up_def bare_file_def import_of_def addPublicImports_def addPublicOf_def upd_file_def upt_conv_Cons)

theorem public_imports_closed_witness:
  "import_of ''d.proto'' 0 ''public'' \<in> set (Imports (files (fold addPublicImports [0..<length (files chain_up)] chain_up) ! 3))"
proof (rule public_imports_closed [where imp = "import_of ''b.proto'' 2 []" and t = 2])
  show "ordered chain_up"
    by (auto simp: ordered_def chain_up_def bare_file_def import_of_def less_Suc_eq numeral_eq_Suc)
qed (simp_all add: chain_up_def bare_file_def import_of_def addPublicImports_def addPublicOf_def upd_file_def upt_conv_Cons)

text \<open>
  In the other order the chain is not followed: the first file gets the public import of the file
  it imports, but not the one behind it, so whether a type is visible depends on the order in
  which the files were found.
\<close>

theorem public_imports_depend_on_order:
  "map FSPath (Imports (files (fold addPublicImports [0..<4] chain_down) ! 0)) = [''b.proto'', ''c.proto''] \<and>
   map FSPath (Imports (files (fold addPublicImports [0..<4] chain_up) ! 3)) = [''b.proto'', ''c.proto'', ''d.proto'']"
  by (simp add: chain_down_def chain_up_def bare_file_def import_of_def addPublicImports_def addPublicOf_def upd_file_def
      upt_conv_Cons)

theorem base_folders_witness:
  "\<exists>P'. resolveBaseFolders \<lparr>files = [bare_file ''/src/a/x.proto'' [], bare_file ''/src/b/c/y.proto'' []],
       messages = [], enums = []\<rparr> = Ret P' \<and> BaseFolder (files P' ! 0) = ''/src/a'' \<and> BaseFolder (files P' ! 1) = ''/src/b''"
proof -
  let ?P = "\<lparr>files = [bare_file ''/src/a/x.proto'' [], bare_file ''/src/b/c/y.proto'' []], messages = [], enums = []\<rparr>"
  let ?d = "\<lambda>i :: nat. if i = 0 then [''src'', ''a''] else [''src'', ''b'', ''c'']"
  have "located ?P ?d"
    by (auto simp: located_def proper_def abs_path_def bare_file_def less_Suc_eq
        intro: exI [of _ "''x.proto''"] exI [of _ "''y.proto''"])
  then have "\<exists>R. (\<forall>i < length (files ?P). \<exists>r. ?d i = R @ r) \<and>
      ((\<forall>i < length (files ?P). ?d i = R) \<and>
         (\<exists>P'. resolveBaseFolders ?P = Ret P' \<and> (\<forall>i < length (files ?P). BaseFolder (files P' ! i) = abs_path R)) \<or>
       (\<forall>i < length (files ?P). ?d i \<noteq> R) \<and>
         (\<exists>i j. i < length (files ?P) \<and> j < length (files ?P) \<and> ?d i ! length R \<noteq> ?d j ! length R) \<and>
         (\<exists>P'. resolveBaseFolders ?P = Ret P' \<and>
           (\<forall>i < length (files ?P). BaseFolder (files P' ! i) = abs_path (take (Suc (length R)) (?d i)))) \<or>
       (\<exists>i < length (files ?P). ?d i = R) \<and> (\<exists>i < length (files ?P). ?d i \<noteq> R) \<and> resolveBaseFolders ?P = Panic)"
    by (rule base_folders) simp
  then obtain R where R: "\<And>i. i < length (files ?P) \<Longrightarrow> \<exists>r. ?d i = R @ r"
    and c: "(\<forall>i < length (files ?P). ?d i = R) \<or>
       (\<exists>i j. i < length (files ?P) \<and> j < length (files ?P) \<and> ?d i ! length R \<noteq> ?d j ! length R) \<and>
         (\<exists>P'. resolveBaseFolders ?P = Ret P' \<and> 
           (\<forall>i < length (files ?P). BaseFolder (files P' ! i) = abs_path (take (Suc (length R)) (?d i)))) \<or>
       (\<exists>i < length (files ?P). ?d i = R)" by blast
  have "R \<noteq> ?d i" for i using R [of 0] R [of 1] by (auto simp: Cons_eq_append_conv)
  moreover have "R = [] \<or> R = [''src'']" using R [of 0] R [of 1] by (auto simp: Cons_eq_append_conv)
  ultimately have "R = [''src'']"
    and "\<exists>P'. resolveBaseFolders ?P = Ret P' \<and>
           (\<forall>i < length (files ?P). BaseFolder (files P' ! i) = abs_path (take (Suc (length R)) (?d i)))"
    using c by (auto simp: less_Suc_eq split: if_splits)
  then obtain P' where P': "resolveBaseFolders ?P = Ret P'"
    "\<And>i. i < length (files ?P) \<Longrightarrow> BaseFolder (files P' ! i) = abs_path (take (Suc (length [''src''])) (?d i))"
    by blast
  from P'(2) [of 0] P'(2) [of 1] have "BaseFolder (files P' ! 0) = ''/src/a''" "BaseFolder (files P' ! 1) = ''/src/b''"
    by (simp_all add: abs_path_def)
  then show ?thesis using P'(1) by blast
qed

end
