(* ===== verification/Proto_Parser.thy ===== *)
theory Proto_Parser
  imports Proto_Model
begin

text \<open>
  From syntax trees to definitions, \<^verbatim>\<open>src/shared/gremlin_go/gremlinc/internal/parser.go\<close>. The
  goroutines of \<^verbatim>\<open>ParseStruct\<close> each write their own file and share only the list of errors; they
  are run here one after the other, so the order of the errors is one of the possible ones.
\<close>

section \<open>Names\<close>

fun buildScopedName :: "ProtoPackage option \<Rightarrow> string list \<Rightarrow> string \<Rightarrow> ScopedName" where
  "buildScopedName pkg (p # ps) n = LocalChild (buildScopedName pkg ps p) n"
| "buildScopedName pkg [] n = (case pkg of None \<Rightarrow> ParseName n | Some pk \<Rightarrow> Child (pkgName pk) n)"

section \<open>Enums\<close>

definition enumValue :: "ScopedName \<Rightarrow> proto_enum_field \<Rightarrow> EnumValueDefinition" where
  "enumValue enumName v = \<lparr>evName = Child enumName (efName v), evValue = efInteger v, evProtoDef = v,
     evOptions = \<lambda>_. None\<rparr>"

definition extractEnum :: "ProtoPackage option \<Rightarrow> string list \<Rightarrow> proto_enum \<Rightarrow> EnumDefinition" where
  "extractEnum pkg parents e =
     (let n = buildScopedName pkg parents (peName e)
      in \<lparr>edName = n, edValues = map (enumValue n) (List.map_filter id (peFields e)), edProtoDef = e\<rparr>)"

section \<open>Fields\<close>

definition extractDefaultValue :: "proto_field \<Rightarrow> proto_option option" where
  "extractDefaultValue f = List.find (\<lambda>option. optName option = ''default'') (pfOptions f)"

definition scalarType :: "string \<Rightarrow> string" where
  "scalarType t = (if t \<in> set ProtobufScalarTypes then t else [])"

definition newField :: "ScopedName \<Rightarrow> proto_field \<Rightarrow> MessageFieldDefinition" where
  "newField n f = \<lparr>mfName = n, Repeated = False, Map = False, OneOfGroup = [], MapKeyType = [],
     Required = False, ScalarValueType = [], ExternalTypeFile = None, ExternalEnumType = None,
     ExternalMsgType = None, LocalEnumType = None, LocalMsgType = None, mfProtoDef = f, ExtraScopes = [],
     DefaultValue = None\<rparr>"

definition extractField :: "ScopedName \<Rightarrow> proto_field \<Rightarrow> bool \<Rightarrow> bool \<Rightarrow> MessageFieldDefinition" where
  "extractField n v repeated required =
     (newField (Child n (pfName v)) v)\<lparr>Repeated := repeated, DefaultValue := extractDefaultValue v,
        Required := required, ScalarValueType := scalarType (pfType v)\<rparr>"

definition extractBasicField :: "ScopedName \<Rightarrow> proto_field \<Rightarrow> MessageFieldDefinition" where
  "extractBasicField n v =
     (newField (Child n (pfName v)) v)\<lparr>DefaultValue := extractDefaultValue v,
        ScalarValueType := scalarType (pfType v)\<rparr>"

definition extractMap :: "ScopedName \<Rightarrow> proto_field \<Rightarrow> string \<Rightarrow> MessageFieldDefinition" where
  "extractMap n v keyType =
     (newField (Child n (pfName v)) v)\<lparr>Map := True, MapKeyType := scalarType keyType,
        ScalarValueType := scalarType (pfType v)\<rparr>"

fun parseStructElement :: "ScopedName \<Rightarrow> element \<Rightarrow> MessageFieldDefinition list"
  and extractOneOf :: "ScopedName \<Rightarrow> string \<Rightarrow> element list \<Rightarrow> MessageFieldDefinition list" where
  "parseStructElement n (NormalField v repeated required) = [extractField n v repeated required]"
| "parseStructElement n (MapField v keyType) = [extractMap n v keyType]"
| "parseStructElement n (Oneof grp es) = extractOneOf n grp es"
| "parseStructElement n (OneOfField v) = [extractBasicField n v]"
| "parseStructElement n (Group g) = []"
| "parseStructElement n OtherElement = []"
| "extractOneOf n grp [] = []"
| "extractOneOf n grp (e # es) =
     map (\<lambda>f. f\<lparr>OneOfGroup := grp\<rparr>) (parseStructElement n e) @ extractOneOf n grp es"

fun messageFields ::
  "string \<Rightarrow> ScopedName \<Rightarrow> element list \<Rightarrow> MessageFieldDefinition list \<times> gen_error list" where
  "messageFields fpath n [] = ([], [])"
| "messageFields fpath n (e # es) =
     (let (fs, errs) = messageFields fpath n es in
      case e of
        Group g \<Rightarrow> (fs, GroupUnsupported fpath g # errs)
      | _ \<Rightarrow> (parseStructElement n e @ fs, errs))"

definition extractMessage ::
  "string \<Rightarrow> ProtoPackage option \<Rightarrow> string list \<Rightarrow> proto_message \<Rightarrow> MessageDefinition \<times> gen_error list" where
  "extractMessage fpath pkg parents e =
     (let n = buildScopedName pkg parents (pmName e);
          (fs, errs) = messageFields fpath n (pmElements e)
      in (\<lparr>mdName = n, Fields = fs, mdProtoDef = e\<rparr>, errs))"

section \<open>Files\<close>

definition setPackage :: "string \<Rightarrow> ProtoPackage option \<Rightarrow> ProtoPackage option" where
  "setPackage p pkg = (case pkg of
     None \<Rightarrow> Some \<lparr>pkgName = ParseName p\<rparr>
   | Some pk \<Rightarrow> Some (pk\<lparr>pkgName := ParseName p\<rparr>))"

definition setGoPackage :: "string \<Rightarrow> ProtoPackage option \<Rightarrow> ProtoPackage option" where
  "setGoPackage source pkg =
     (let pk = (case pkg of None \<Rightarrow> \<lparr>pkgName = noName\<rparr> | Some pk \<Rightarrow> pk)
      in Some (pk\<lparr>pkgName := WithPlatformName (pkgName pk) TargetPlatform_Go source\<rparr>))"

fun walkHandler :: "file_ptr \<Rightarrow> visitee \<Rightarrow> program \<times> gen_error list \<Rightarrow> program \<times> gen_error list" where
  "walkHandler i (VImport filename kind) (P, errs) =
     (if filename = ''google/protobuf/descriptor.proto'' then (P, errs)
      else (upd_file i (\<lambda>f. f\<lparr>Imports := Imports f @
        [\<lparr>FSPath = filename, TargetFile = None, importKind = kind\<rparr>]\<rparr>) P, errs))"
| "walkHandler i (VSyntax v) (P, errs) =
     (if v = ''proto2'' then (upd_file i (\<lambda>f. f\<lparr>Proto2 := True\<rparr>) P, errs) else (P, errs))"
| "walkHandler i (VPackage p) (P, errs) = (upd_file i (\<lambda>f. f\<lparr>Package := setPackage p (Package f)\<rparr>) P, errs)"
| "walkHandler i (VOption o') (P, errs) =
     (if optName o' = ''go_package''
      then (upd_file i (\<lambda>f. f\<lparr>Package := setGoPackage (optSource o') (Package f)\<rparr>) P, errs)
      else (P, errs))"
| "walkHandler i (VMessage parents m) (P, errs) =
     (let (msg, errs') = extractMessage (Path (files P ! i)) (Package (files P ! i)) parents m;
          a = length (messages P)
      in (upd_file i (\<lambda>f. f\<lparr>Messages := Messages f @ [a]\<rparr>) (P\<lparr>messages := messages P @ [msg]\<rparr>), errs @ errs'))"
| "walkHandler i (VEnum parents e) (P, errs) =
     (let a = length (enums P)
      in (upd_file i (\<lambda>f. f\<lparr>Enums := Enums f @ [a]\<rparr>)
            (P\<lparr>enums := enums P @ [extractEnum (Package (files P ! i)) parents e]\<rparr>), errs))"
| "walkHandler i VOther s = s"

definition extractProtoStruct :: "file_ptr \<Rightarrow> program \<times> gen_error list \<Rightarrow> program \<times> gen_error list" where
  "extractProtoStruct i s = fold (walkHandler i) (Parsed (files (fst s) ! i)) s"

definition ParseStruct :: "program \<Rightarrow> program \<times> gen_error list" where
  "ParseStruct P = fold extractProtoStruct [0..<length (files P)] (P, [])"

section \<open>Where a definition ends up\<close>

definition pkgPath :: "ProtoPackage option \<Rightarrow> string list" where
  "pkgPath pkg = (case pkg of None \<Rightarrow> [] | Some pk \<Rightarrow> path (pkgName pk))"

definition wf_pkg :: "ProtoPackage option \<Rightarrow> bool" where
  "wf_pkg pkg = (case pkg of None \<Rightarrow> True | Some pk \<Rightarrow> wf_name (pkgName pk))"

lemma localPath_upd [simp]:
  "wf_name (s\<lparr>localPath := l\<rparr>) = wf_name s" "path (s\<lparr>localPath := l\<rparr>) = path s"
  by (simp_all add: wf_name_def path_def)

lemma LocalChild_path:
  assumes "wf_name s" and "ident n"
  shows "wf_name (LocalChild s n)" and "path (LocalChild s n) = path s @ [n]"
    and "localPath (LocalChild s n) = localPath s @ [name s]"
  using Child_path [OF assms] by (simp_all add: LocalChild_def)

lemma ParseName_ident:
  assumes "ident n"
  shows "wf_name (ParseName n)" and "path (ParseName n) = [n]" and "localPath (ParseName n) = []"
  using ParseName_path [of "[n]"] assms by (simp_all add: ParseName_def noName_def Let_def)

lemma buildScopedName_path:
  assumes "wf_pkg pkg"
  shows "list_all ident (n # parents) \<Longrightarrow>
    wf_name (buildScopedName pkg parents n) \<and>
    path (buildScopedName pkg parents n) = pkgPath pkg @ rev parents @ [n] \<and>
    localPath (buildScopedName pkg parents n) = rev parents \<and> name (buildScopedName pkg parents n) = n"
proof (induction parents arbitrary: n)
  case Nil
  then have i: "ident n" by simp
  show ?case
  proof (cases pkg)
    case None
    then show ?thesis
      using ParseName_ident [OF i] path_name [of "ParseName n"] by (simp add: pkgPath_def)
  next
    case (Some pk)
    then have w: "wf_name (pkgName pk)" using assms by (simp add: wf_pkg_def)
    show ?thesis
      using Child_path [OF w i] path_name [of "Child (pkgName pk) n"] Some by (simp add: pkgPath_def)
  qed
next
  case (Cons p ps)
  then have IH: "wf_name (buildScopedName pkg ps p)"
    "path (buildScopedName pkg ps p) = pkgPath pkg @ rev ps @ [p]"
    "localPath (buildScopedName pkg ps p) = rev ps" "name (buildScopedName pkg ps p) = p" by simp_all
  from LocalChild_path [OF IH(1), of n] Cons.prems IH path_name [of "LocalChild (buildScopedName pkg ps p) n"]
  show ?case by simp
qed

section \<open>Types of fields\<close>

text \<open>What holds of every field the front end makes: its types are scalar types or empty, a map is
  not repeated and only a map has a key type, and it points to no definition yet.\<close>

definition scalar_or_empty :: "string \<Rightarrow> bool" where
  "scalar_or_empty t \<longleftrightarrow> t = [] \<or> t \<in> set ProtobufScalarTypes"

definition field_typed :: "MessageFieldDefinition \<Rightarrow> bool" where
  "field_typed f \<longleftrightarrow>
     scalar_or_empty (ScalarValueType f) \<and> scalar_or_empty (MapKeyType f) \<and>
     (ScalarValueType f \<noteq> [] \<longrightarrow> ScalarValueType f = pfType (mfProtoDef f)) \<and>
     (Map f \<longrightarrow> \<not> Repeated f \<and> DefaultValue f = None) \<and> (\<not> Map f \<longrightarrow> MapKeyType f = []) \<and>
     LocalEnumType f = None \<and> LocalMsgType f = None \<and> ExternalTypeFile f = None \<and>
     ExternalEnumType f = None \<and> ExternalMsgType f = None \<and> ExtraScopes f = []"

lemmas extract_defs = extractField_def extractBasicField_def extractMap_def newField_def

lemma scalarType_ok:
  "scalar_or_empty (scalarType t)" "scalar_or_empty []" "scalarType t \<noteq> [] \<Longrightarrow> scalarType t = t"
  by (auto simp: scalarType_def scalar_or_empty_def)

lemma parse_typed:
  "f \<in> set (parseStructElement n e) \<Longrightarrow> field_typed f"
  "f \<in> set (extractOneOf n g es) \<Longrightarrow> field_typed f"
proof (induction n e and n g es arbitrary: f and f rule: parseStructElement_extractOneOf.induct)
  case (8 n grp e es)
  then show ?case by (auto simp: field_typed_def)
qed (auto simp: field_typed_def extract_defs scalarType_ok)

lemma parse_child:
  "f \<in> set (parseStructElement n e) \<Longrightarrow> mfName f = Child n (pfName (mfProtoDef f))"
  "f \<in> set (extractOneOf n g es) \<Longrightarrow> mfName f = Child n (pfName (mfProtoDef f))"
proof (induction n e and n g es arbitrary: f and f rule: parseStructElement_extractOneOf.induct)
  case (8 n grp e es)
  then show ?case by auto
qed (auto simp: extract_defs)

lemma messageFields_typed: "f \<in> set (fst (messageFields fpath n es)) \<Longrightarrow> field_typed f"
proof (induction es)
  case (Cons e es)
  then show ?case
    using parse_typed(1) [of f n e] by (cases e) (auto simp: split_def Let_def simp del: parseStructElement.simps)
qed simp

definition typed_program :: "program \<Rightarrow> bool" where
  "typed_program P \<longleftrightarrow> list_all (\<lambda>m. list_all field_typed (Fields m)) (messages P)"

lemma walk_typed: "typed_program (fst s) \<Longrightarrow> typed_program (fst (walkHandler i v s))"
  by (cases "(i, v, s)" rule: walkHandler.cases)
    (auto simp: typed_program_def upd_file_def extractMessage_def Let_def split_def list_all_iff
      messageFields_typed)

lemma fold_typed: "(\<And>x s. typed_program (fst s) \<Longrightarrow> typed_program (fst (f x s))) \<Longrightarrow>
    typed_program (fst s) \<Longrightarrow> typed_program (fst (fold f xs s))"
  by (induction xs arbitrary: s) simp_all

lemma ParseStruct_typed:
  assumes "messages P = []"
  shows "typed_program (fst (ParseStruct P))"
  unfolding ParseStruct_def
  by (rule fold_typed) (use assms in \<open>auto simp: extractProtoStruct_def fold_typed walk_typed typed_program_def [of P]\<close>)

section \<open>Properties\<close>

text \<open>
  A message is named by the package, the messages around it and its own name, its local path is
  the messages around it, and every field is named inside the message.
\<close>

theorem message_names:
  assumes "wf_pkg pkg" and "list_all ident (pmName e # parents)"
    and "extractMessage fpath pkg parents e = (m, errs)"
  shows "path (mdName m) = pkgPath pkg @ rev parents @ [pmName e] \<and> LocalPath (mdName m) = rev parents \<and>
    (\<forall>f \<in> set (Fields m). ident (pfName (mfProtoDef f)) \<longrightarrow>
       path (mfName f) = path (mdName m) @ [pfName (mfProtoDef f)])"
proof -
  let ?n = "buildScopedName pkg parents (pmName e)"
  have n: "wf_name ?n" "path ?n = pkgPath pkg @ rev parents @ [pmName e]" "localPath ?n = rev parents"
    using buildScopedName_path [OF assms(1,2)] by simp_all
  have "mfName f = Child n' (pfName (mfProtoDef f))" if "f \<in> set (parseStructElement n' el)" for n' el f
    using that by (rule parse_child(1))
  then have c: "mfName f = Child ?n (pfName (mfProtoDef f))" if "f \<in> set (fst (messageFields fpath ?n es))" for f es
    using that
  proof (induction es)
    case (Cons el es)
    then show ?case by (cases el) (auto simp: split_def Let_def simp del: parseStructElement.simps)
  qed simp
  have "mdName m = ?n" and "Fields m = fst (messageFields fpath ?n (pmElements e))"
    using assms(3) by (auto simp: extractMessage_def Let_def split_def)
  then show ?thesis using n c Child_path(2) [OF n(1)] by (auto simp: LocalPath_def)
qed

text \<open>
  Every field of every message that parsing adds is well typed: scalar types come from the table
  of scalar types, maps have a key type and are not repeated, and no reference is resolved yet.
\<close>

theorem parsed_fields_typed:
  assumes "messages P = []"
  shows "typed_program (fst (ParseStruct P))"
  using assms by (rule ParseStruct_typed)

text \<open>
  A \<^verbatim>\<open>go_package\<close> option is kept when it follows the package statement and lost when it precedes
  it, although the two may come in any order in a proto file.
\<close>

theorem go_package_lost_before_package:
  "map_option (\<lambda>pk. PlatformName (pkgName pk) TargetPlatform_Go)
     (Package (hd (files (fst (fold (walkHandler 0) [VPackage p, VOption \<lparr>optName = ''go_package'', optSource = g, optIsString = True\<rparr>]
       (\<lparr>files = [f], messages = [], enums = []\<rparr>, [])))))) = Some g \<and>
   map_option (\<lambda>pk. PlatformName (pkgName pk) TargetPlatform_Go)
     (Package (hd (files (fst (fold (walkHandler 0) [VOption \<lparr>optName = ''go_package'', optSource = g, optIsString = True\<rparr>, VPackage p]
       (\<lparr>files = [f], messages = [], enums = []\<rparr>, [])))))) = Some []"
  by (simp add: upd_file_def setGoPackage_def setPackage_def PlatformName_def WithPlatformName_def ParseName_def
      noName_def Let_def split: option.splits)

section \<open>A file with a nested message\<close>

definition demo_file :: ProtoFile where
  "demo_file = \<lparr>Path = ''/p/robot.proto'', RelativePath = ''robot.proto'',
     Parsed = [VSyntax ''proto3'', VPackage ''norma.robot'',
       VMessage [] \<lparr>pmName = ''Arm'', pmIsExtend = False, pmElements =
         [NormalField \<lparr>pfName = ''joints'', pfType = ''Joint'', pfSequence = 1, pfOptions = []\<rparr> True False]\<rparr>,
       VMessage [''Arm''] \<lparr>pmName = ''Joint'', pmIsExtend = False, pmElements =
         [NormalField \<lparr>pfName = ''goal'', pfType = ''uint32'', pfSequence = 1, pfOptions = []\<rparr> False False,
          Oneof ''mode'' [OneOfField \<lparr>pfName = ''torque'', pfType = ''bool'', pfSequence = 2, pfOptions = []\<rparr>]]\<rparr>],
     Proto2 = False, Package = None, Imports = [], Enums = [], Messages = [], BaseFolder = []\<rparr>"

definition demo_program :: program where
  "demo_program = \<lparr>files = [demo_file], messages = [], enums = []\<rparr>"

theorem parsed_fields_typed_witness:
  "typed_program (fst (ParseStruct demo_program)) \<and> length (messages (fst (ParseStruct demo_program))) = 2"
proof
  show "typed_program (fst (ParseStruct demo_program))"
    by (rule parsed_fields_typed) (simp add: demo_program_def)
  show "length (messages (fst (ParseStruct demo_program))) = 2"
    by (simp add: demo_program_def demo_file_def ParseStruct_def extractProtoStruct_def upd_file_def Let_def split_def)
qed

theorem message_names_witness:
  "path (mdName (fst (extractMessage [] None [''Arm''] \<lparr>pmName = ''Joint'', pmIsExtend = False, pmElements =
     [NormalField \<lparr>pfName = ''goal'', pfType = ''uint32'', pfSequence = 1, pfOptions = []\<rparr> False False]\<rparr>))) =
   [''Arm'', ''Joint'']"
proof -
  let ?e = "\<lparr>pmName = ''Joint'', pmIsExtend = False, pmElements =
     [NormalField \<lparr>pfName = ''goal'', pfType = ''uint32'', pfSequence = 1, pfOptions = []\<rparr> False False]\<rparr>"
  obtain m errs where e: "extractMessage [] None [''Arm''] ?e = (m, errs)" by (rule prod.exhaust)
  have "path (mdName m) = pkgPath None @ rev [''Arm''] @ [pmName ?e]"
    by (rule message_names [OF _ _ e, THEN conjunct1]) (simp_all add: wf_pkg_def ident_def dot_def)
  then show ?thesis using e by (simp add: pkgPath_def)
qed

end
