(* ===== verification/Proto_Resolve.thy ===== *)
theory Proto_Resolve
  imports Proto_Imports Proto_Parser
begin

text \<open>
  Resolving extensions, type references and enum options,
  \<^verbatim>\<open>src/shared/gremlin_go/gremlinc/internal/resolving.go\<close>, and the pass over all files,
  \<^verbatim>\<open>ResolveImportsAndReferences\<close> of \<^verbatim>\<open>imports.go\<close>. A nil dereference is a panic. A reference is
  resolved by \<open>searchUp\<close>, so that the interface \<open>scoped_names\<close> gives its meaning.
\<close>

section \<open>Extensions\<close>

definition extendSourceIn :: "program \<Rightarrow> msg_ptr list \<Rightarrow> ScopedName \<Rightarrow> msg_ptr option" where
  "extendSourceIn P ms n =
     List.find (\<lambda>a. Equal (mdName (messages P ! a)) n \<and> \<not> pmIsExtend (mdProtoDef (messages P ! a))) ms"

definition packageScope :: "ProtoFile \<Rightarrow> ScopedName" where
  "packageScope f = (case Package f of None \<Rightarrow> noName | Some pk \<Rightarrow> pkgName pk)"

definition resolveLocalExtendSource :: "program \<Rightarrow> ProtoFile \<Rightarrow> MessageDefinition \<Rightarrow> msg_ptr option" where
  "resolveLocalExtendSource P pFile m =
     searchUp (extendSourceIn P (Messages pFile)) (ParseName (pmName (mdProtoDef m))) (mdName m)"

definition resolveImportedExtendSource :: "program \<Rightarrow> ProtoFile \<Rightarrow> MessageDefinition \<Rightarrow> msg_ptr option" where
  "resolveImportedExtendSource P pFile m =
     first_some (\<lambda>imp. case TargetFile imp of
         None \<Rightarrow> None
       | Some t \<Rightarrow> searchUp (extendSourceIn P (Messages (files P ! t)))
           (ParseName (pmName (mdProtoDef m))) (packageScope (files P ! t)))
       (Imports pFile)"

definition copyFields :: "MessageDefinition \<Rightarrow> MessageFieldDefinition list" where
  "copyFields src = map (\<lambda>field. (Copy field)\<lparr>ExtraScopes := ExtraScopes (Copy field) @ [mdName src]\<rparr>) (Fields src)"

definition resolveExtend ::
  "file_ptr \<Rightarrow> msg_ptr \<Rightarrow> program \<times> msg_ptr list \<times> gen_error list \<Rightarrow> program \<times> msg_ptr list \<times> gen_error list" where
  "resolveExtend i a s =
     (case s of (P, removed, errs) \<Rightarrow>
      let pFile = files P ! i; message = messages P ! a in
      if \<not> pmIsExtend (mdProtoDef message) then (P, removed, errs)
      else (case resolveLocalExtendSource P pFile message of
          Some src \<Rightarrow>
            (upd_msg a (\<lambda>m. m\<lparr>Fields := Fields m @ copyFields (messages P ! src)\<rparr>) P,
             (if Equal (mdName (messages P ! src)) (mdName message) then removed @ [src] else removed), errs)
        | None \<Rightarrow> (case resolveImportedExtendSource P pFile message of
              Some src \<Rightarrow>
                (upd_msg a (\<lambda>m. m\<lparr>Fields := Fields m @ copyFields (messages P ! src)\<rparr>) P, removed, errs)
            | None \<Rightarrow>
                if has_prefix (pmName (mdProtoDef message)) ''google.protobuf.'' then (P, removed, errs)
                else (P, removed, errs @ [ExtendUnresolved (pmName (mdProtoDef message))
                  (String (mdName message)) (RelativePath pFile)]))))"

definition resolveExtensions :: "file_ptr \<Rightarrow> program \<times> gen_error list \<Rightarrow> program \<times> gen_error list" where
  "resolveExtensions i s =
     (let (P, errs) = s;
          (P', removed, errs') = fold (resolveExtend i) (Messages (files P ! i)) (P, [], [])
      in (if removed \<noteq> []
          then upd_file i (\<lambda>f. f\<lparr>Messages := filter (\<lambda>a. a \<notin> set removed) (Messages f)\<rparr>) P'
          else P', errs @ errs'))"

section \<open>References\<close>

datatype type_ref = EnumRef enum_ptr | MsgRef msg_ptr

definition lookupType :: "program \<Rightarrow> ProtoFile \<Rightarrow> ScopedName \<Rightarrow> type_ref option" where
  "lookupType P f n =
     (case List.find (\<lambda>e. Equal (edName (enums P ! e)) n) (Enums f) of
        Some e \<Rightarrow> Some (EnumRef e)
      | None \<Rightarrow> map_option MsgRef (List.find (\<lambda>a. Equal (mdName (messages P ! a)) n) (Messages f)))"

definition scopesToSearch :: "MessageFieldDefinition \<Rightarrow> ScopedName list" where
  "scopesToSearch field = ParseName (pfType (mfProtoDef field)) # ExtraScopes field"

definition resolveLocalReference ::
  "program \<Rightarrow> ProtoFile \<Rightarrow> MessageDefinition \<Rightarrow> MessageFieldDefinition \<Rightarrow> MessageFieldDefinition option" where
  "resolveLocalReference P f m field =
     (case first_some (\<lambda>scopedName. searchUp (lookupType P f) scopedName (mdName m)) (scopesToSearch field) of
        None \<Rightarrow> None
      | Some (EnumRef e) \<Rightarrow> Some (field\<lparr>LocalEnumType := Some e\<rparr>)
      | Some (MsgRef a) \<Rightarrow> Some (field\<lparr>LocalMsgType := Some a\<rparr>))"

definition importedType ::
  "program \<Rightarrow> ProtoFile \<Rightarrow> ScopedName \<Rightarrow> (file_ptr \<times> type_ref) option" where
  "importedType P f scopedName =
     first_some (\<lambda>imp. case TargetFile imp of
         None \<Rightarrow> None
       | Some t \<Rightarrow> map_option (Pair t)
           (searchUp (lookupType P (files P ! t)) scopedName (packageScope (files P ! t))))
       (Imports f)"

definition resolveImportedReference ::
  "program \<Rightarrow> ProtoFile \<Rightarrow> MessageFieldDefinition \<Rightarrow> MessageFieldDefinition option" where
  "resolveImportedReference P f field =
     (case first_some (importedType P f) (scopesToSearch field) of
        None \<Rightarrow> None
      | Some (t, EnumRef e) \<Rightarrow> Some (field\<lparr>ExternalEnumType := Some e, ExternalTypeFile := Some t\<rparr>)
      | Some (t, MsgRef a) \<Rightarrow> Some (field\<lparr>ExternalMsgType := Some a, ExternalTypeFile := Some t\<rparr>))"

definition resolveReference ::
  "program \<Rightarrow> ProtoFile \<Rightarrow> MessageDefinition \<Rightarrow> MessageFieldDefinition \<Rightarrow> MessageFieldDefinition \<times> gen_error list" where
  "resolveReference P f m field =
     (if ScalarValueType field \<noteq> [] then (field, [])
      else (case resolveLocalReference P f m field of
          Some field' \<Rightarrow> (field', [])
        | None \<Rightarrow> (case resolveImportedReference P f field of
              Some field' \<Rightarrow> (field', [])
            | None \<Rightarrow> (field, [ReferenceUnresolved (pfType (mfProtoDef field)) (String (mdName m)) (RelativePath f)]))))"

definition resolveMessage :: "file_ptr \<Rightarrow> msg_ptr \<Rightarrow> program \<times> gen_error list \<Rightarrow> program \<times> gen_error list" where
  "resolveMessage i a s =
     (let (P, errs) = s; m = messages P ! a; rs = map (resolveReference P (files P ! i) m) (Fields m)
      in (upd_msg a (\<lambda>m. m\<lparr>Fields := map fst rs\<rparr>) P, errs @ concat (map snd rs)))"

definition resolveReferences :: "file_ptr \<Rightarrow> program \<times> gen_error list \<Rightarrow> program \<times> gen_error list" where
  "resolveReferences i s = fold (resolveMessage i) (Messages (files (fst s) ! i)) s"

section \<open>Options\<close>

definition extraOptions :: "program \<Rightarrow> ProtoFile \<Rightarrow> string \<Rightarrow> MessageFieldDefinition option" where
  "extraOptions P f =
     fold (\<lambda>a opts. if ProtoName (mdName (messages P ! a)) = ''google.protobuf.EnumValueOptions''
         then fold (\<lambda>field opts. opts(ProtoName (mfName field) \<mapsto> field)) (Fields (messages P ! a)) opts
         else opts) (Messages f) (\<lambda>_. None)"

definition optionField ::
  "(string \<Rightarrow> MessageFieldDefinition option) \<Rightarrow> string \<Rightarrow> MessageFieldDefinition option" where
  "optionField extra n =
     (case extra n of
        Some field \<Rightarrow> Some field
      | None \<Rightarrow> extra (trim_suffix (trim_prefix n ''('') '')''))"

type_synonym value_options = "string \<Rightarrow> EnumValueOptionDefinition option"

text \<open>One option of an enum value. An option without a field is reported in a list that is not
  returned, and then the nil field is read.\<close>

definition resolveOption ::
  "(string \<Rightarrow> MessageFieldDefinition option) \<Rightarrow> proto_option \<Rightarrow> value_options \<Rightarrow> value_options go" where
  "resolveOption extra opt opts =
     (case optionField extra (optName opt) of
        None \<Rightarrow> Panic
      | Some field \<Rightarrow>
          let optValue = (if optIsString opt \<and> ScalarValueType field \<noteq> [] then quote (optSource opt) else optSource opt);
              key = ProtoName (mfName field);
              fresh = \<lparr>eoName = key, eoRepeated = Repeated field, eoScalarValueType = ScalarValueType field,
                eoLocalEnumType = LocalEnumType field, eoProtoDef = None, eoValues = [], eoValue = []\<rparr>
          in if Repeated field
             then let d = (case opts key of None \<Rightarrow> fresh | Some d \<Rightarrow> d)
               in Ret (opts(key \<mapsto> d\<lparr>eoValues := eoValues d @ [optValue]\<rparr>))
             else Ret (opts(key \<mapsto> fresh\<lparr>eoProtoDef := Some opt, eoValue := optValue\<rparr>)))"

fun resolveElements ::
  "(string \<Rightarrow> MessageFieldDefinition option) \<Rightarrow> proto_option option list \<Rightarrow> value_options \<Rightarrow> value_options go" where
  "resolveElements extra [] opts = Ret opts"
| "resolveElements extra (None # es) opts = resolveElements extra es opts"
| "resolveElements extra (Some opt # es) opts =
     go_bind (resolveOption extra opt opts) (resolveElements extra es)"

fun resolveValues ::
  "(string \<Rightarrow> MessageFieldDefinition option) \<Rightarrow> EnumValueDefinition list \<Rightarrow> EnumValueDefinition list go" where
  "resolveValues extra [] = Ret []"
| "resolveValues extra (v # vs) =
     go_bind (resolveElements extra (efElements (evProtoDef v)) (evOptions v)) (\<lambda>opts.
     go_bind (resolveValues extra vs) (\<lambda>vs'. Ret (v\<lparr>evOptions := opts\<rparr> # vs')))"

fun resolveEnums :: "(string \<Rightarrow> MessageFieldDefinition option) \<Rightarrow> enum_ptr list \<Rightarrow> program \<Rightarrow> program go" where
  "resolveEnums extra [] P = Ret P"
| "resolveEnums extra (e # es) P =
     go_bind (resolveValues extra (edValues (enums P ! e))) (\<lambda>vs.
       resolveEnums extra es (upd_enum e (\<lambda>d. d\<lparr>edValues := vs\<rparr>) P))"

text \<open>The errors that \<^verbatim>\<open>resolveOptions\<close> returns are always none.\<close>

definition resolveOptions :: "file_ptr \<Rightarrow> program \<Rightarrow> (program \<times> gen_error list) go" where
  "resolveOptions i P =
     go_bind (resolveEnums (extraOptions P (files P ! i)) (Enums (files P ! i)) P) (\<lambda>P. Ret (P, []))"

fun resolveAllOptions :: "file_ptr list \<Rightarrow> program \<times> gen_error list \<Rightarrow> (program \<times> gen_error list) go" where
  "resolveAllOptions [] s = Ret s"
| "resolveAllOptions (i # is) s =
     go_bind (resolveOptions i (fst s)) (\<lambda>(P, errs). resolveAllOptions is (P, snd s @ errs))"

section \<open>The whole pass\<close>

definition ResolveImportsAndReferences :: "program \<Rightarrow> (program \<times> gen_error list) go" where
  "ResolveImportsAndReferences P =
     (let is = [0..<length (files P)] in
      go_bind (resolveBaseFolders P) (\<lambda>P.
        let (P, errs) = fold resolveImports is (P, []);
            P = fold addPublicImports is P;
            s = fold resolveReferences is (fold resolveExtensions is (P, errs))
        in resolveAllOptions is s))"

section \<open>References are found in the innermost scope\<close>

definition wf_file :: "program \<Rightarrow> ProtoFile \<Rightarrow> bool" where
  "wf_file P f \<longleftrightarrow> list_all (\<lambda>a. wf_name (mdName (messages P ! a))) (Messages f) \<and>
     list_all (\<lambda>e. wf_name (edName (enums P ! e))) (Enums f)"

text \<open>The enum, else the message, that a file declares at a path.\<close>

definition typeAt :: "program \<Rightarrow> ProtoFile \<Rightarrow> string list \<Rightarrow> type_ref option" where
  "typeAt P f p =
     (case List.find (\<lambda>e. path (edName (enums P ! e)) = p) (Enums f) of
        Some e \<Rightarrow> Some (EnumRef e)
      | None \<Rightarrow> map_option MsgRef (List.find (\<lambda>a. path (mdName (messages P ! a)) = p) (Messages f)))"

definition setLocal :: "MessageFieldDefinition \<Rightarrow> type_ref \<Rightarrow> MessageFieldDefinition" where
  "setLocal field r = (case r of EnumRef e \<Rightarrow> field\<lparr>LocalEnumType := Some e\<rparr> | MsgRef a \<Rightarrow> field\<lparr>LocalMsgType := Some a\<rparr>)"

lemma lookupType_path:
  assumes "wf_file P f" and "wf_name n"
  shows "lookupType P f n = typeAt P f (path n)"
proof -
  have "List.find (\<lambda>e. Equal (edName (enums P ! e)) n) (Enums f) =
      List.find (\<lambda>e. path (edName (enums P ! e)) = path n) (Enums f)"
    by (rule find_cong) (use assms in \<open>auto simp: wf_file_def list_all_iff Equal_path\<close>)
  moreover have "List.find (\<lambda>a. Equal (mdName (messages P ! a)) n) (Messages f) =
      List.find (\<lambda>a. path (mdName (messages P ! a)) = path n) (Messages f)"
    by (rule find_cong) (use assms in \<open>auto simp: wf_file_def list_all_iff Equal_path\<close>)
  ultimately show ?thesis by (simp add: lookupType_def typeAt_def split: option.split)
qed

lemma resolveLocal_set: "resolveLocalReference P f m field =
    map_option (setLocal field)
      (first_some (\<lambda>scopedName. searchUp (lookupType P f) scopedName (mdName m)) (scopesToSearch field))"
  by (auto simp: resolveLocalReference_def setLocal_def split: option.splits type_ref.splits)

text \<open>
  C27. In files with well-formed names, a reference is resolved in its own file as the protobuf scoping
  rules say: of the scopes around the message, innermost first and ending outside of the package,
  the first one in which the relative type name is declared gives the enum, else the message, that
  the field points to; nothing is found exactly when no scope declares it.
\<close>

theorem resolve_innermost:
  assumes "wf_file P f" and "wf_name (mdName m)" and "ExtraScopes field = []"
    and "list_all ident tp" and "tp \<noteq> []" and "pfType (mfProtoDef field) = join [dot] tp"
  shows "resolveLocalReference P f m field =
    map_option (setLocal field) (first_some (\<lambda>sc. typeAt P f (sc @ tp)) (scopes (path (mdName m))))"
proof -
  let ?n = "ParseName (join [dot] tp)"
  have n: "wf_name ?n" "path ?n = tp" using ParseName_path [OF assms(4)] by simp_all
  have "searchUp (lookupType P f) ?n (mdName m) =
      first_some (\<lambda>sc. typeAt P f (sc @ path ?n)) (scopes (path (mdName m)))"
    by (rule sn.search_scopes) (use n assms lookupType_path [OF assms(1)] in simp_all)
  then show ?thesis
    using assms n by (simp add: resolveLocal_set scopesToSearch_def split: option.split)
qed

section \<open>Every field has a type\<close>

definition has_type :: "program \<Rightarrow> ProtoFile \<Rightarrow> MessageFieldDefinition \<Rightarrow> bool" where
  "has_type P f field \<longleftrightarrow>
     ScalarValueType field \<noteq> [] \<or>
     (\<exists>e \<in> set (Enums f). LocalEnumType field = Some e) \<or>
     (\<exists>a \<in> set (Messages f). LocalMsgType field = Some a) \<or>
     (\<exists>imp \<in> set (Imports f). \<exists>t. TargetFile imp = Some t \<and> ExternalTypeFile field = Some t \<and>
        ((\<exists>e \<in> set (Enums (files P ! t)). ExternalEnumType field = Some e) \<or>
         (\<exists>a \<in> set (Messages (files P ! t)). ExternalMsgType field = Some a)))"

lemma searchUp_result: "searchUp look n s = Some r \<Longrightarrow> \<exists>m. look m = Some r"
proof (induction look n s rule: searchUp.induct)
  case (1 look n s)
  then show ?case
    by (subst (asm) (2) searchUp.simps) (auto split: option.splits if_splits)
qed

definition declares :: "ProtoFile \<Rightarrow> type_ref \<Rightarrow> bool" where
  "declares f r = (case r of EnumRef e \<Rightarrow> e \<in> set (Enums f) | MsgRef a \<Rightarrow> a \<in> set (Messages f))"

lemma find_member: "List.find p xs = Some x \<Longrightarrow> x \<in> set xs"
  by (auto simp: find_Some_iff)

lemma lookupType_declared: "lookupType P f n = Some r \<Longrightarrow> declares f r"
  by (auto simp: lookupType_def declares_def dest: find_member split: option.splits)

lemma searchUp_declared:
  assumes "searchUp (lookupType P f) n s = Some r"
  shows "declares f r"
proof -
  from searchUp_result [OF assms] obtain m where "lookupType P f m = Some r" by blast
  then show ?thesis by (rule lookupType_declared)
qed

lemma resolveLocal_typed:
  assumes "resolveLocalReference P f m field = Some field'"
  shows "has_type P f field'"
proof -
  from assms obtain r n where "field' = setLocal field r"
    and "searchUp (lookupType P f) n (mdName m) = Some r"
    unfolding resolveLocal_set by (auto elim: first_some_Some)
  then show ?thesis
    by (auto simp: setLocal_def has_type_def declares_def split: type_ref.splits dest: searchUp_declared)
qed

lemma importedType_declared:
  assumes "importedType P f n = Some (t, r)"
  shows "\<exists>imp \<in> set (Imports f). TargetFile imp = Some t \<and> declares (files P ! t) r"
proof -
  from assms obtain as imp bs where "Imports f = as @ imp # bs"
    and imp: "(case TargetFile imp of None \<Rightarrow> None | Some t \<Rightarrow> map_option (Pair t)
        (searchUp (lookupType P (files P ! t)) n (packageScope (files P ! t)))) = Some (t, r)"
    unfolding importedType_def by (rule first_some_Some)
  then have "imp \<in> set (Imports f)" by simp
  with imp show ?thesis by (auto split: option.splits dest: searchUp_declared)
qed

lemma resolveImported_typed:
  assumes "resolveImportedReference P f field = Some field'"
  shows "has_type P f field'"
proof -
  from assms obtain t r where r: "first_some (importedType P f) (scopesToSearch field) = Some (t, r)"
    and f: "field' = (case r of
        EnumRef e \<Rightarrow> field\<lparr>ExternalEnumType := Some e, ExternalTypeFile := Some t\<rparr>
      | MsgRef a \<Rightarrow> field\<lparr>ExternalMsgType := Some a, ExternalTypeFile := Some t\<rparr>)"
    by (auto simp: resolveImportedReference_def split: option.splits type_ref.splits)
  from r obtain n where "importedType P f n = Some (t, r)" by (rule first_some_Some)
  then obtain imp where "imp \<in> set (Imports f)" "TargetFile imp = Some t" "declares (files P ! t) r"
    using importedType_declared by blast
  then show ?thesis
    unfolding has_type_def f by (cases r) (auto simp: declares_def)
qed

lemma resolveReference_typed:
  assumes "snd (resolveReference P f m field) = []"
  shows "has_type P f (fst (resolveReference P f m field))"
proof (cases "ScalarValueType field = []")
  case True
  then show ?thesis
    using assms resolveLocal_typed [of P f m field] resolveImported_typed [of P f field]
    by (simp add: resolveReference_def split: option.splits)
qed (simp add: resolveReference_def has_type_def)

definition typed_message :: "file_ptr \<Rightarrow> program \<Rightarrow> msg_ptr \<Rightarrow> bool" where
  "typed_message i P a = list_all (has_type P (files P ! i)) (Fields (messages P ! a))"

lemma has_type_files: "files Q = files P \<Longrightarrow> has_type Q f = has_type P f"
  by (auto simp: has_type_def)

lemma resolveMessage_keeps:
  "files (fst (resolveMessage i a s)) = files (fst s)"
  "length (messages (fst (resolveMessage i a s))) = length (messages (fst s))"
  "\<exists>es. snd (resolveMessage i a s) = snd s @ es"
  by (simp_all add: resolveMessage_def case_prod_beta Let_def)

lemma resolveMessage_fields:
  assumes "a < length (messages (fst s))"
  shows "Fields (messages (fst (resolveMessage i a s)) ! b) =
    (if b = a then map (\<lambda>field. fst (resolveReference (fst s) (files (fst s) ! i) (messages (fst s) ! a) field))
       (Fields (messages (fst s) ! a)) else Fields (messages (fst s) ! b))"
  using assms by (simp add: resolveMessage_def upd_msg_def case_prod_beta Let_def)

lemma resolveMessage_errors:
  assumes "snd (resolveMessage i a s) = snd s" and "field \<in> set (Fields (messages (fst s) ! a))"
  shows "snd (resolveReference (fst s) (files (fst s) ! i) (messages (fst s) ! a) field) = []"
  using assms by (simp add: resolveMessage_def case_prod_beta Let_def)

lemma resolveMessage_typed:
  assumes "snd (resolveMessage i a s) = snd s" and "a < length (messages (fst s))"
    and "b = a \<or> typed_message i (fst s) b"
  shows "typed_message i (fst (resolveMessage i a s)) b"
proof -
  have f: "has_type (fst (resolveMessage i a s)) = has_type (fst s)"
    by (rule ext) (rule has_type_files, rule resolveMessage_keeps)
  have "has_type (fst s) (files (fst s) ! i)
      (fst (resolveReference (fst s) (files (fst s) ! i) (messages (fst s) ! a) field))"
    if "field \<in> set (Fields (messages (fst s) ! a))" for field
    using resolveReference_typed resolveMessage_errors [OF assms(1) that] .
  then have "list_all (has_type (fst s) (files (fst s) ! i))
      (map (\<lambda>field. fst (resolveReference (fst s) (files (fst s) ! i) (messages (fst s) ! a) field))
        (Fields (messages (fst s) ! a)))"
    by (simp add: list_all_iff)
  then show ?thesis
    using assms(3) unfolding typed_message_def f resolveMessage_keeps(1) resolveMessage_fields [OF assms(2)]
    by (cases "b = a") simp_all
qed

lemma resolveMessages_grow:
  "\<exists>es. snd (fold (resolveMessage i) as s) = snd s @ es"
proof (induction as arbitrary: s)
  case (Cons a as)
  obtain es where "snd (resolveMessage i a s) = snd s @ es" using resolveMessage_keeps(3) by blast
  moreover obtain es' where "snd (fold (resolveMessage i) as (resolveMessage i a s)) = snd (resolveMessage i a s) @ es'"
    using Cons by blast
  ultimately show ?case by simp
qed simp

lemma resolveMessages_typed:
  assumes "snd (fold (resolveMessage i) as s) = snd s" and "\<forall>a \<in> set as. a < length (messages (fst s))"
    and "a \<in> set as \<or> typed_message i (fst s) a"
  shows "typed_message i (fst (fold (resolveMessage i) as s)) a"
  using assms
proof (induction as arbitrary: s)
  case (Cons b as)
  let ?s = "resolveMessage i b s"
  obtain es es' where "snd ?s = snd s @ es" "snd (fold (resolveMessage i) as ?s) = snd ?s @ es'"
    using resolveMessage_keeps(3) resolveMessages_grow by blast
  with Cons.prems(1) have e: "snd ?s = snd s" "snd (fold (resolveMessage i) as ?s) = snd ?s" by simp_all
  have "a \<in> set as \<or> typed_message i (fst ?s) a"
    using resolveMessage_typed [OF e(1), of a] Cons.prems by auto
  with Cons.IH [OF e(2)] Cons.prems(2) show ?case by (simp add: resolveMessage_keeps)
qed simp

lemma resolveReferences_files: "files (fst (fold (resolveMessage i) as s)) = files (fst s)"
  by (induction as arbitrary: s) (simp_all add: resolveMessage_keeps)

text \<open>
  C28. When resolving the references of a file reports no error, every field of its messages has a type:
  a scalar type, an enum or message of the same file, or an enum or message of a file it imports,
  which is then the file it is recorded to come from. Files and their imports stay as they were.
\<close>

theorem references_resolved:
  assumes "resolveReferences i (P, errs) = (Q, errs)"
    and "\<forall>a \<in> set (Messages (files P ! i)). a < length (messages P)"
  shows "files Q = files P \<and>
    (\<forall>a \<in> set (Messages (files Q ! i)). \<forall>field \<in> set (Fields (messages Q ! a)). has_type Q (files Q ! i) field)"
proof -
  let ?as = "Messages (files P ! i)"
  have q: "fold (resolveMessage i) ?as (P, errs) = (Q, errs)" using assms(1) by (simp add: resolveReferences_def)
  then have f: "files Q = files P" using resolveReferences_files [of i ?as "(P, errs)"] by simp
  show ?thesis
    using resolveMessages_typed [of i ?as "(P, errs)"] q assms(2) f
    by (auto simp: typed_message_def list_all_iff)
qed

section \<open>Unknown enum value options\<close>

definition unknown :: "(string \<Rightarrow> MessageFieldDefinition option) \<Rightarrow> proto_enum_field \<Rightarrow> bool" where
  "unknown extra v \<longleftrightarrow> list_ex (\<lambda>el. case el of None \<Rightarrow> False | Some opt \<Rightarrow> optionField extra (optName opt) = None)
     (efElements v)"

lemma resolveElements_unknown:
  "(case resolveElements extra es opts of Ret _ \<Rightarrow> \<not> u | Err _ \<Rightarrow> False | Panic \<Rightarrow> u)"
  if "u = list_ex (\<lambda>el. case el of None \<Rightarrow> False | Some opt \<Rightarrow> optionField extra (optName opt) = None) es"
  using that
proof (induction extra es opts rule: resolveElements.induct)
  case (3 extra opt es opts)
  show ?case
  proof (cases "optionField extra (optName opt)")
    case None
    then show ?thesis using 3 by (simp add: resolveOption_def)
  next
    case (Some field)
    then obtain opts' where "resolveOption extra opt opts = Ret opts'"
      by (cases "Repeated field") (simp_all add: resolveOption_def Let_def)
    with 3 Some show ?thesis by simp
  qed
qed simp_all

lemma resolveValues_unknown:
  "(case resolveValues extra vs of
      Ret vs' \<Rightarrow> \<not> list_ex (unknown extra) (map evProtoDef vs) \<and> map evProtoDef vs' = map evProtoDef vs
    | Err _ \<Rightarrow> False | Panic \<Rightarrow> list_ex (unknown extra) (map evProtoDef vs))"
proof (induction vs)
  case (Cons v vs)
  then show ?case
    using resolveElements_unknown [OF unknown_def, of extra "evProtoDef v" "evOptions v"]
    by (auto split: go.splits)
qed simp

definition bad_enum :: "(string \<Rightarrow> MessageFieldDefinition option) \<Rightarrow> program \<Rightarrow> enum_ptr \<Rightarrow> bool" where
  "bad_enum extra P e \<longleftrightarrow> list_ex (unknown extra) (map evProtoDef (edValues (enums P ! e)))"

lemma bad_enum_upd:
  assumes "map evProtoDef vs = map evProtoDef (edValues (enums P ! e))" and "e < length (enums P)"
  shows "bad_enum extra (upd_enum e (\<lambda>d. d\<lparr>edValues := vs\<rparr>) P) = bad_enum extra P"
  by (rule ext) (use assms in \<open>auto simp: bad_enum_def upd_enum_def nth_list_update\<close>)

lemma resolveEnums_unknown:
  "\<forall>e \<in> set es. e < length (enums P) \<Longrightarrow>
   (case resolveEnums extra es P of Ret _ \<Rightarrow> \<not> list_ex (bad_enum extra P) es | Err _ \<Rightarrow> False
    | Panic \<Rightarrow> list_ex (bad_enum extra P) es)"
proof (induction es arbitrary: P)
  case (Cons e es)
  have v: "case resolveValues extra (edValues (enums P ! e)) of
      Ret vs' \<Rightarrow> \<not> bad_enum extra P e \<and> map evProtoDef vs' = map evProtoDef (edValues (enums P ! e))
    | Err _ \<Rightarrow> False | Panic \<Rightarrow> bad_enum extra P e"
    unfolding bad_enum_def by (rule resolveValues_unknown)
  show ?case
  proof (cases "resolveValues extra (edValues (enums P ! e))")
    case (Ret vs)
    with v have "map evProtoDef vs = map evProtoDef (edValues (enums P ! e))" "\<not> bad_enum extra P e" by simp_all
    with Cons.IH [of "upd_enum e (\<lambda>d. d\<lparr>edValues := vs\<rparr>) P"] Cons.prems Ret show ?thesis
      by (simp add: bad_enum_upd split: go.splits)
  qed (use v in simp_all)
qed simp

text \<open>
  Resolving the options of a file either succeeds or panics, and it panics exactly when some enum
  value has an option that is not a field of an extension of \<^verbatim>\<open>google.protobuf.EnumValueOptions\<close>
  in the same file: the error that is made for this case is never returned.
\<close>

theorem unknown_option_panics:
  assumes "\<forall>e \<in> set (Enums (files P ! i)). e < length (enums P)"
  shows "(resolveOptions i P = Panic \<longleftrightarrow>
      (\<exists>e \<in> set (Enums (files P ! i)). \<exists>v \<in> set (edValues (enums P ! e)).
         unknown (extraOptions P (files P ! i)) (evProtoDef v))) \<and>
    (resolveOptions i P \<noteq> Panic \<longrightarrow> (\<exists>Q. resolveOptions i P = Ret (Q, [])))"
  using resolveEnums_unknown [OF assms, of "extraOptions P (files P ! i)"]
  by (auto simp: resolveOptions_def bad_enum_def list_ex_iff split: go.splits)

section \<open>Examples\<close>


definition nested_program :: program where
  "nested_program = \<lparr>files =
     [(bare_file ''/p/a.proto'' [])\<lparr>Parsed := [VPackage ''a'',
        VMessage [] \<lparr>pmName = ''Base'', pmIsExtend = False, pmElements =
          [NormalField \<lparr>pfName = ''x'', pfType = ''Inner'', pfSequence = 1, pfOptions = []\<rparr> False False]\<rparr>,
        VMessage [''Base''] \<lparr>pmName = ''Inner'', pmIsExtend = False, pmElements = []\<rparr>]\<rparr>,
      (bare_file ''/p/b.proto'' [])\<lparr>Parsed := [VPackage ''b'', VImport ''a.proto'' [],
        VMessage [] \<lparr>pmName = ''a.Base'', pmIsExtend = True, pmElements = []\<rparr>]\<rparr>],
     messages = [], enums = []\<rparr>"

text \<open>
  A field that an extension copies from a message of another file keeps the name of its type, which was
  relative to that message. The extended message is then searched as if it were the type itself: a
  field of type \<^verbatim>\<open>Inner\<close>, which is message 1 for the original, becomes a field of type \<^verbatim>\<open>Base\<close>, message
  0, in the extension, and no error is reported.
\<close>

theorem extension_field_gets_wrong_type:
  "case ResolveImportsAndReferences (fst (ParseStruct nested_program)) of
     Ret (P, errs) \<Rightarrow> errs = [] \<and>
       map (\<lambda>m. (String (mdName m), map (\<lambda>f. (LocalMsgType f, ExternalMsgType f)) (Fields m))) (messages P) =
         [(''a.Base'', [(Some 1, None)]), (''a.Base.Inner'', []), (''b.a.Base'', [(None, Some 0)])]
   | _ \<Rightarrow> False"
  by code_simp

definition joint_program :: program where
  "joint_program = fst (ParseStruct demo_program)"

lemma joint_names:
  "map (path \<circ> mdName) (messages joint_program) = [[''norma'', ''robot'', ''Arm''], [''norma'', ''robot'', ''Arm'', ''Joint'']]"
  "wf_name (mdName (messages joint_program ! 0))" "wf_name (mdName (messages joint_program ! Suc 0))" "length (messages joint_program) = 2"
  "Messages (files joint_program ! 0) = [0, 1]" "Enums (files joint_program ! 0) = []"
  by code_simp+

theorem references_resolved_witness:
  "list_all (has_type (fst (resolveReferences 0 (joint_program, []))) (files joint_program ! 0))
     (Fields (messages (fst (resolveReferences 0 (joint_program, []))) ! 0))"
proof -
  let ?Q = "fst (resolveReferences 0 (joint_program, []))"
  have "snd (resolveReferences 0 (joint_program, [])) = []" by code_simp
  then have "resolveReferences 0 (joint_program, []) = (?Q, [])" by (simp add: prod_eq_iff)
  then have r: "files ?Q = files joint_program \<and>
      (\<forall>a \<in> set (Messages (files ?Q ! 0)). \<forall>field \<in> set (Fields (messages ?Q ! a)). has_type ?Q (files ?Q ! 0) field)"
    by (rule references_resolved) (simp add: joint_names)
  have "(0 :: nat) \<in> set (Messages (files joint_program ! 0))" by (simp add: joint_names)
  with r show ?thesis unfolding list_all_iff by metis
qed

definition joints_field :: MessageFieldDefinition where
  "joints_field = Fields (messages joint_program ! 0) ! 0"

theorem resolve_innermost_witness:
  "map_option LocalMsgType
     (resolveLocalReference joint_program (files joint_program ! 0) (messages joint_program ! 0) joints_field) = Some (Some 1)"
proof -
  have l: "resolveLocalReference joint_program (files joint_program ! 0) (messages joint_program ! 0) joints_field =
    map_option (setLocal joints_field) (first_some (\<lambda>sc. typeAt joint_program (files joint_program ! 0) (sc @ [''Joint'']))
      (scopes (path (mdName (messages joint_program ! 0)))))"
  proof (rule resolve_innermost)
    show "wf_file joint_program (files joint_program ! 0)" "wf_name (mdName (messages joint_program ! 0))"
      by (simp_all add: wf_file_def joint_names)
    show "ExtraScopes joints_field = []" by code_simp
    show "pfType (mfProtoDef joints_field) = join [dot] [''Joint'']" by code_simp
  qed (simp_all add: ident_def dot_def)
  have "first_some (\<lambda>sc. typeAt joint_program (files joint_program ! 0) (sc @ [''Joint'']))
      (scopes (path (mdName (messages joint_program ! 0)))) = Some (MsgRef 1)"
    by code_simp
  then show ?thesis using l by (simp add: setLocal_def)
qed

text \<open>An enum value that is marked \<^verbatim>\<open>deprecated\<close>, an option every proto file may use.\<close>

definition deprecated_program :: program where
  "deprecated_program = \<lparr>files = [(bare_file ''/p/a.proto'' [])\<lparr>Enums := [0]\<rparr>], messages = [],
     enums = [extractEnum None [] \<lparr>peName = ''E'', peFields = [Some \<lparr>efName = ''OLD'', efInteger = 0,
       efElements = [Some \<lparr>optName = ''deprecated'', optSource = ''true'', optIsString = False\<rparr>]\<rparr>]\<rparr>]\<rparr>"

theorem unknown_option_panics_witness: "resolveOptions 0 deprecated_program = Panic"
proof (rule unknown_option_panics [THEN conjunct1, THEN iffD2])
  show "\<forall>e \<in> set (Enums (files deprecated_program ! 0)). e < length (enums deprecated_program)"
    by (simp add: deprecated_program_def)
  show "\<exists>e \<in> set (Enums (files deprecated_program ! 0)). \<exists>v \<in> set (edValues (enums deprecated_program ! e)).
      unknown (extraOptions deprecated_program (files deprecated_program ! 0)) (evProtoDef v)"
    by (simp add: deprecated_program_def bare_file_def extractEnum_def enumValue_def unknown_def extraOptions_def
        optionField_def Let_def map_filter_simps)
qed

end
