(* ===== verification/Gen_Files.thy ===== *)
theory Gen_Files
  imports Gen_Types Proto_Resolve
begin

text \<open>
  Generated files, their imports, and the mapping from proto files:
  \<^verbatim>\<open>core/files.go\<close>, \<^verbatim>\<open>fields/types.go\<close>, \<^verbatim>\<open>mapper\<close> and \<^verbatim>\<open>golang.go\<close> of
  \<^verbatim>\<open>src/shared/gremlin_go/gremlinc/internal/generators/golang\<close>. A pointer to a generated file is its
  index in the list of all of them, which is the index of its proto file too. The enums of a file
  are all enum types and its structs all struct types, so the interface \<^verbatim>\<open>GoType\<close> is two records.
\<close>

section \<open>Files and imports\<close>

record GoImport =
  giPath :: string
  giAlias :: string
  giGoFiles :: "nat list"
  giUsed :: bool

record GoGeneratedFile =
  gfImports :: "GoImport list"
  samePackageImports :: "nat list"
  gfEnums :: "GoEnumType list"
  gfStructs :: "GoStructType list"
  gfProtoFile :: file_ptr
  FullPackageName :: string
  ShortPackageName :: string
  FullOutputPath :: string

type_synonym go_files = "GoGeneratedFile list"

definition upd_go :: "nat \<Rightarrow> (GoGeneratedFile \<Rightarrow> GoGeneratedFile) \<Rightarrow> go_files \<Rightarrow> go_files" where
  "upd_go i f gs = gs[i := f (gs ! i)]"

definition IsProto2 :: "program \<Rightarrow> GoGeneratedFile \<Rightarrow> bool" where
  "IsProto2 P g = Proto2 (files P ! gfProtoFile g)"

text \<open>The alias of a new import: a number is added when the alias is in use.\<close>

definition freshAlias :: "GoImport list \<Rightarrow> string \<Rightarrow> string" where
  "freshAlias imports alias =
     (let usedAliases = length (filter (\<lambda>goImport. giAlias goImport = alias) imports)
      in if usedAliases > 0 then alias @ ''_'' @ Itoa (int usedAliases) else alias)"

definition AddImport :: "string \<Rightarrow> string \<Rightarrow> GoGeneratedFile \<Rightarrow> GoGeneratedFile" where
  "AddImport ipath alias g =
     (if list_ex (\<lambda>goImport. giPath goImport = ipath) (gfImports g) then g
      else g\<lparr>gfImports := gfImports g @ [\<lparr>giPath = ipath, giAlias = freshAlias (gfImports g) alias,
         giGoFiles = [], giUsed = True\<rparr>]\<rparr>)"

text \<open>The update of the first element with a property.\<close>

fun map_first :: "('a \<Rightarrow> bool) \<Rightarrow> ('a \<Rightarrow> 'a) \<Rightarrow> 'a list \<Rightarrow> 'a list" where
  "map_first p f [] = []"
| "map_first p f (x # xs) = (if p x then f x # xs else x # map_first p f xs)"

definition AddProtoImport :: "go_files \<Rightarrow> nat \<Rightarrow> GoGeneratedFile \<Rightarrow> GoGeneratedFile" where
  "AddProtoImport gs j g =
     (let targetFile = gs ! j in
      if FullPackageName targetFile = FullPackageName g
      then g\<lparr>samePackageImports := samePackageImports g @ [j]\<rparr>
      else if list_ex (\<lambda>imp. giPath imp = FullPackageName targetFile) (gfImports g)
      then g\<lparr>gfImports := map_first (\<lambda>imp. giPath imp = FullPackageName targetFile)
          (\<lambda>imp. imp\<lparr>giGoFiles := giGoFiles imp @ [j]\<rparr>) (gfImports g)\<rparr>
      else g\<lparr>gfImports := gfImports g @ [\<lparr>giPath = FullPackageName targetFile,
          giAlias = freshAlias (gfImports g) (ShortPackageName targetFile), giGoFiles = [j], giUsed = False\<rparr>]\<rparr>)"

definition AddEnum :: "GoEnumType \<Rightarrow> GoGeneratedFile \<Rightarrow> GoGeneratedFile" where
  "AddEnum enum g = g\<lparr>gfEnums := gfEnums g @ [enum]\<rparr>"

definition AddStruct :: "GoStructType \<Rightarrow> GoGeneratedFile \<Rightarrow> GoGeneratedFile" where
  "AddStruct structDef g = g\<lparr>gfStructs := gfStructs g @ [structDef]\<rparr>"

definition FindEnum :: "enum_ptr option \<Rightarrow> GoGeneratedFile \<Rightarrow> GoEnumType option" where
  "FindEnum enumType g = List.find (\<lambda>enum. Some (enProto enum) = enumType) (gfEnums g)"

definition FindStruct :: "msg_ptr option \<Rightarrow> GoGeneratedFile \<Rightarrow> GoStructType option" where
  "FindStruct msgType g = List.find (\<lambda>goType. Some (stProto goType) = msgType) (gfStructs g)"

definition GoImport_FindEnum :: "go_files \<Rightarrow> enum_ptr option \<Rightarrow> GoImport \<Rightarrow> GoEnumType option" where
  "GoImport_FindEnum gs enumType g = first_some (\<lambda>j. FindEnum enumType (gs ! j)) (giGoFiles g)"

definition GoImport_FindStruct :: "go_files \<Rightarrow> msg_ptr option \<Rightarrow> GoImport \<Rightarrow> GoStructType option" where
  "GoImport_FindStruct gs msgType g = first_some (\<lambda>j. FindStruct msgType (gs ! j)) (giGoFiles g)"

definition importsFile :: "go_files \<Rightarrow> file_ptr \<Rightarrow> GoImport \<Rightarrow> bool" where
  "importsFile gs f imp = list_ex (\<lambda>j. gfProtoFile (gs ! j) = f) (giGoFiles imp)"

definition useImport :: "go_files \<Rightarrow> file_ptr \<Rightarrow> GoGeneratedFile \<Rightarrow> GoGeneratedFile" where
  "useImport gs f g = g\<lparr>gfImports := map_first (importsFile gs f) (\<lambda>imp. imp\<lparr>giUsed := True\<rparr>) (gfImports g)\<rparr>"

definition FindEnumInImports ::
  "nat \<Rightarrow> file_ptr \<Rightarrow> enum_ptr option \<Rightarrow> go_files \<Rightarrow> (string \<times> GoEnumType option) \<times> go_files" where
  "FindEnumInImports i enumFile enumType gs =
     (case List.find (\<lambda>j. gfProtoFile (gs ! j) = enumFile) (samePackageImports (gs ! i)) of
        Some j \<Rightarrow> (([], FindEnum enumType (gs ! j)), gs)
      | None \<Rightarrow> (case List.find (importsFile gs enumFile) (gfImports (gs ! i)) of
            Some goImport \<Rightarrow> ((giAlias goImport, GoImport_FindEnum gs enumType goImport), upd_go i (useImport gs enumFile) gs)
          | None \<Rightarrow> (([], None), gs)))"

definition FindStructInImports ::
  "nat \<Rightarrow> file_ptr \<Rightarrow> msg_ptr option \<Rightarrow> go_files \<Rightarrow> (string \<times> GoStructType option) \<times> go_files" where
  "FindStructInImports i msgFile msgType gs =
     (case List.find (\<lambda>j. gfProtoFile (gs ! j) = msgFile) (samePackageImports (gs ! i)) of
        Some j \<Rightarrow> (([], FindStruct msgType (gs ! j)), gs)
      | None \<Rightarrow> (case List.find (importsFile gs msgFile) (gfImports (gs ! i)) of
            Some goImport \<Rightarrow> ((giAlias goImport, GoImport_FindStruct gs msgType goImport), upd_go i (useImport gs msgFile) gs)
          | None \<Rightarrow> (([], None), gs)))"

section \<open>The types of fields\<close>

datatype type_error =
    UnknownFieldType string
  | UnknownScalarType string
  | UnknownMapKeyType string
  | UnknownEnumType string string
  | UnknownMessageType string

definition resolveMapKeyType :: "MessageFieldDefinition \<Rightarrow> type_error + GoFieldType" where
  "resolveMapKeyType field =
     (let keyType = go_lookup goBasicTypesMap (MapKeyType field) in
      if keyType = [] then Inl (UnknownMapKeyType (MapKeyType field))
      else Inr (GoBasic \<lparr>bName = keyType, bProtoType = MapKeyType field, bDefault = [], bRequired = False\<rparr>))"

text \<open>A map field with the given type of values.\<close>

definition mapType :: "MessageFieldDefinition \<Rightarrow> GoFieldType \<Rightarrow> type_error + GoFieldType" where
  "mapType field valueType =
     (case resolveMapKeyType field of Inl err \<Rightarrow> Inl err | Inr basicKeyType \<Rightarrow> Inr (GoMap basicKeyType valueType))"

definition resolveScalarType ::
  "nat \<Rightarrow> MessageFieldDefinition \<Rightarrow> go_files \<Rightarrow> (type_error + GoFieldType) \<times> go_files" where
  "resolveScalarType i field gs =
     (let typeName = go_lookup goBasicTypesMap (ScalarValueType field);
          baseType = \<lparr>bName = typeName, bProtoType = ScalarValueType field, bDefault = [], bRequired = Required field\<rparr>
      in if typeName = [] then (Inl (UnknownScalarType (ScalarValueType field)), gs)
         else if Repeated field then
           (Inr ((if goBasicValueType_CanBePacked baseType then GoPacked else GoRepeated) (GoBasic baseType) (Required field)), gs)
         else if Map field then (mapType field (GoBasic baseType), gs)
         else (case parseDefaultValue field baseType of
             (t, None) \<Rightarrow> (Inr (GoBasic t), gs)
           | (t, Some pkg) \<Rightarrow> (Inr (GoBasic t), upd_go i (AddImport pkg pkg) gs)))"

definition resolveEnumType ::
  "program \<Rightarrow> nat \<Rightarrow> MessageFieldDefinition \<Rightarrow> go_files \<Rightarrow> (type_error + GoFieldType) \<times> go_files" where
  "resolveEnumType P i field gs =
     (let ((enumPackage, enumType), gs') =
        (case ExternalTypeFile field of
           Some f \<Rightarrow> (case FindEnumInImports i f (ExternalEnumType field) gs of
               ((p, e), gs') \<Rightarrow> ((if p \<noteq> [] then p @ ''.'' else p, e), gs'))
         | None \<Rightarrow> (([], FindEnum (LocalEnumType field) (gs ! i)), gs))
      in case enumType of
        None \<Rightarrow> (Inl (UnknownEnumType (pfType (mfProtoDef field)) (pfName (mfProtoDef field))), gs')
      | Some e \<Rightarrow>
          let valueType = \<lparr>eEnumName = enumPackage @ EnumName e, eDefault = [], eRequired = Required field\<rparr> in
          if Repeated field then (Inr (GoPacked (GoEnumField valueType) (Required field)), gs')
          else if Map field then (mapType field (GoEnumField valueType), gs')
          else if IsProto2 P (gs ! i) then (Inr (GoEnumField (valueType\<lparr>eDefault := ''0''\<rparr>)), gs')
          else (Inr (GoEnumField (resolveDefaultValue field enumPackage (GetEnumForDefault e) valueType)), gs'))"

definition resolveMsgType ::
  "nat \<Rightarrow> MessageFieldDefinition \<Rightarrow> go_files \<Rightarrow> (type_error + GoFieldType) \<times> go_files" where
  "resolveMsgType i field gs =
     (let ((msgPackage, msgType), gs') =
        (case ExternalTypeFile field of
           Some f \<Rightarrow> FindStructInImports i f (ExternalMsgType field) gs
         | None \<Rightarrow> (([], FindStruct (LocalMsgType field) (gs ! i)), gs))
      in case msgType of
        None \<Rightarrow> (Inl (UnknownMessageType (pfType (mfProtoDef field))), gs')
      | Some m \<Rightarrow>
          let valueType = GoStructField \<lparr>sPackage = msgPackage, sName = StructName m, sRequired = Required field\<rparr> in
          if Repeated field then (Inr (GoRepeated valueType (Required field)), gs')
          else if Map field then (mapType field valueType, gs')
          else (Inr valueType, gs'))"

definition ResolveType ::
  "program \<Rightarrow> nat \<Rightarrow> MessageFieldDefinition \<Rightarrow> go_files \<Rightarrow> (type_error + GoFieldType) \<times> go_files" where
  "ResolveType P i field gs =
     (if ScalarValueType field \<noteq> [] then resolveScalarType i field gs
      else if LocalEnumType field \<noteq> None \<or> ExternalEnumType field \<noteq> None then resolveEnumType P i field gs
      else if LocalMsgType field \<noteq> None \<or> ExternalMsgType field \<noteq> None then resolveMsgType i field gs
      else (Inl (UnknownFieldType (String (mfName field))), gs))"

section \<open>Packages and paths\<close>

definition cleanupPackageName :: "string \<Rightarrow> string" where
  "cleanupPackageName n = replace_char (CHR ''.'') (CHR ''_'') (replace_char (CHR ''-'') (CHR ''_'') n)"

definition getGoPackage :: "string \<Rightarrow> string \<Rightarrow> ProtoFile \<Rightarrow> string \<times> string" where
  "getGoPackage outBase modulePath target =
     (let pkg = path_dir (RelativePath target);
          protoName = (case Package target of None \<Rightarrow> [] | Some pk \<Rightarrow> ProtoName (pkgName pk));
          goName = (case Package target of None \<Rightarrow> [] | Some pk \<Rightarrow> PlatformName (pkgName pk) TargetPlatform_Go)
      in if goName = [] then
           let shortName = (if protoName \<noteq> [] then protoName else path_base pkg);
               pkg = (if protoName \<noteq> [] then path_join [pkg, protoName] else pkg);
               pkg = (if modulePath \<noteq> []
                 then path_join [modulePath, trim_prefix (trim_prefix pkg ''.'') ''/'']
                 else path_join [path_base outBase, trim_prefix pkg outBase])
           in (cleanupPackageName shortName, pkg)
         else (cleanupPackageName (path_base goName), goName))"

definition buildOutputPath :: "program \<Rightarrow> string \<Rightarrow> GoGeneratedFile \<Rightarrow> string" where
  "buildOutputPath P root pFile =
     (let f = files P ! gfProtoFile pFile;
          fName = trim_suffix (path_base (RelativePath f)) ProtoExtension @ PbGoExtension;
          pkgDir = path_dir (RelativePath f);
          protoName = (case Package f of None \<Rightarrow> [] | Some pk \<Rightarrow> ProtoName (pkgName pk));
          pkgDir = (if protoName \<noteq> [] then path_join [pkgDir, protoName] else pkgDir)
      in path_join [root, trim_prefix (trim_prefix pkgDir ''.'') ''/'', fName])"

section \<open>Mapping proto files\<close>

datatype map_error =
    NoPackage string
  | NoGoFile string
  | FieldError string type_error

definition findImportedGoFile :: "go_files \<Rightarrow> file_ptr option \<Rightarrow> nat option" where
  "findImportedGoFile gs target = List.find (\<lambda>j. Some (gfProtoFile (gs ! j)) = target) [0..<length gs]"

text \<open>One import of file \<open>i\<close>. The error text of an import that has no generated file reads the target,
  which is nil when it was not resolved.\<close>

definition mapImport :: "program \<Rightarrow> nat \<Rightarrow> ProtoImport \<Rightarrow> go_files \<times> map_error list \<Rightarrow> (go_files \<times> map_error list) go" where
  "mapImport P i imp s =
     (case findImportedGoFile (fst s) (TargetFile imp) of
        Some j \<Rightarrow> Ret (upd_go i (AddProtoImport (fst s) j) (fst s), snd s)
      | None \<Rightarrow> (case TargetFile imp of
            None \<Rightarrow> Panic
          | Some t \<Rightarrow> Ret (fst s, snd s @ [NoGoFile (RelativePath (files P ! t))])))"

definition mapFileImports :: "program \<Rightarrow> nat \<Rightarrow> go_files \<times> map_error list \<Rightarrow> (go_files \<times> map_error list) go" where
  "mapFileImports P i s = go_fold (mapImport P i) (Imports (files P ! gfProtoFile (fst s ! i))) s"

definition mapImports :: "program \<Rightarrow> go_files \<Rightarrow> (go_files \<times> map_error list) go" where
  "mapImports P gs = go_fold (mapFileImports P) [0..<length gs] (gs, [])"

definition newFile :: "string \<Rightarrow> string \<Rightarrow> program \<Rightarrow> file_ptr \<Rightarrow> map_error + GoGeneratedFile" where
  "newFile root modulePath P i =
     (case getGoPackage root modulePath (files P ! i) of (shortName, fullName) \<Rightarrow>
        if shortName = [] \<or> fullName = [] then Inl (NoPackage (RelativePath (files P ! i)))
        else Inr \<lparr>gfImports = [], samePackageImports = [], gfEnums = [], gfStructs = [], gfProtoFile = i,
           FullPackageName = fullName, ShortPackageName = shortName, FullOutputPath = []\<rparr>)"

text \<open>The declarations of a file: all enums, then all messages.\<close>

definition addTypes :: "program \<Rightarrow> GoGeneratedFile \<Rightarrow> GoGeneratedFile" where
  "addTypes P g =
     (let f = files P ! gfProtoFile g in
      fold (\<lambda>m. AddStruct (NewStructType P m)) (Messages f) (fold (\<lambda>e. AddEnum (NewEnumType P e)) (Enums f) g))"

definition upd_struct :: "nat \<Rightarrow> nat \<Rightarrow> (GoStructType \<Rightarrow> GoStructType) \<Rightarrow> go_files \<Rightarrow> go_files" where
  "upd_struct i j f gs = upd_go i (\<lambda>g. g\<lparr>gfStructs := (gfStructs g)[j := f (gfStructs g ! j)]\<rparr>) gs"

definition mapField ::
  "program \<Rightarrow> nat \<Rightarrow> nat \<Rightarrow> MessageFieldDefinition \<Rightarrow> go_files \<times> map_error list \<Rightarrow> go_files \<times> map_error list" where
  "mapField P i j fieldDef s =
     (case ResolveType P i fieldDef (fst s) of
        (Inl err, gs) \<Rightarrow> (gs, snd s @ [FieldError (RelativePath (files P ! gfProtoFile (gs ! i))) err])
      | (Inr fieldType, gs) \<Rightarrow> (upd_struct i j (AddField fieldDef fieldType) gs, snd s))"

definition mapFields :: "program \<Rightarrow> nat \<Rightarrow> go_files \<times> map_error list \<Rightarrow> go_files \<times> map_error list" where
  "mapFields P i s =
     (let ms = Messages (files P ! gfProtoFile (fst s ! i)) in
      fold (\<lambda>j. fold (mapField P i j) (Fields (messages P ! (ms ! j)))) [0..<length ms] s)"

text \<open>A file without a package leaves a nil entry, and mapping the imports reads it. The errors of the
  first two steps end the function with no files.\<close>

definition MapProtoFiles :: "string \<Rightarrow> string \<Rightarrow> program \<Rightarrow> (go_files \<times> map_error list) go" where
  "MapProtoFiles root modulePath P =
     (let result = map (newFile root modulePath P) [0..<length (files P)] in
      if list_ex (\<lambda>r. case r of Inl _ \<Rightarrow> True | Inr _ \<Rightarrow> False) result then Panic
      else go_bind (mapImports P (map projr result)) (\<lambda>(gs, errors).
        if errors \<noteq> [] then Ret ([], errors)
        else
          let gs = map (\<lambda>target. target\<lparr>FullOutputPath := buildOutputPath P root target\<rparr>) gs;
              gs = map (addTypes P) gs
          in Ret (fold (mapFields P) [0..<length gs] (gs, []))))"

section \<open>The text of a file\<close>

definition importLines :: "GoImport list \<Rightarrow> string" where
  "importLines filtered =
     (if length filtered > 1 then
        (code [(0, ''import (''), (0, '''')]) @ concat (map (\<lambda>goImport. sprintf (code [(1, ''%v '' @ [dq] @ ''%v'' @ [dq]), (0, '''')]) [giAlias goImport, giPath goImport]) filtered) @ (code [(0, '')''), (0, '''')])
      else if length filtered = 1 then sprintf (code [(0, ''import %v %q''), (0, '''')]) [giAlias (hd filtered), giPath (hd filtered)]
      else [])"

definition withRuntime :: "GoGeneratedFile \<Rightarrow> GoGeneratedFile" where
  "withRuntime g =
     (if gfStructs g \<noteq> [] then AddImport ''github.com/norma-core/norma-core/shared/gremlin_go'' ''gremlin'' g else g)"

definition GenerateCode :: "program \<Rightarrow> GoGeneratedFile \<Rightarrow> string go" where
  "GenerateCode P g =
     (let g = withRuntime g in
      go_bind (go_concat GoStructType_GenerateCode (gfStructs g)) (\<lambda>structs.
        Ret (sprintf (code [(0, ''// Code generated by gremlin. DO NOT EDIT.''), (0, ''// source: %v''), (0, ''''), 
        (0, ''package %v''), (0, ''''), (0, '''')]) [RelativePath (files P ! gfProtoFile g), ShortPackageName g] @
          importLines (filter giUsed (gfImports g)) @
          concat (map GoEnumType_GenerateCode (gfEnums g)) @ structs)))"

text \<open>\<^verbatim>\<open>Generate\<close>: the files in the order they are written, and the errors that the file system
  reports, a function of the path and the content.\<close>

definition Generate ::
  "(string \<Rightarrow> string \<Rightarrow> string option) \<Rightarrow> string \<Rightarrow> string \<Rightarrow> program \<Rightarrow>
   ((string \<times> string) list \<times> map_error list \<times> string list) go" where
  "Generate writeFile root modulePath P =
     go_bind (MapProtoFiles root modulePath P) (\<lambda>(mapped, errors).
       if errors \<noteq> [] then Ret ([], errors, [])
       else go_fold (\<lambda>target (written, errs, failed).
         go_bind (GenerateCode P target) (\<lambda>content.
           Ret (written @ [(FullOutputPath target, content)], errs,
             failed @ (case writeFile (FullOutputPath target) content of None \<Rightarrow> [] | Some e \<Rightarrow> [e]))))
         mapped ([], [], []))"

end
