(* ===== verification/Gen_Soundness.thy ===== *)
theory Gen_Soundness
  imports Gen_Files
begin

text \<open>
  What the mapping of proto files to Go files guarantees, step by step: the imports of a file stay
  consistent with the packages (\<open>files_ok\<close>), later steps only add to a file (\<open>extends\<close>), every type
  that \<open>ResolveType\<close> returns is declared in its package or in an imported and used one and has a
  shape that can be written (\<open>sound\<close>), and so the whole mapping keeps \<open>fields_ok\<close>.
\<close>

section \<open>Updates of one file\<close>

lemma length_upd_go [simp]: "length (upd_go i f gs) = length gs"
  by (simp add: upd_go_def)

lemma nth_upd_go: "j < length gs \<Longrightarrow> upd_go i f gs ! j = (if j = i then f (gs ! j) else gs ! j)"
  by (auto simp: upd_go_def)

section \<open>Imports are consistent\<close>

text \<open>The generated files behind an import are those of its package, an import has an alias, and no
  package is imported twice. Of the other files only the packages matter.\<close>

definition imports_ok :: "string list \<Rightarrow> GoGeneratedFile \<Rightarrow> bool" where
  "imports_ok ns g \<longleftrightarrow>
     (\<forall>j \<in> set (samePackageImports g). j < length ns \<and> ns ! j = FullPackageName g) \<and>
     (\<forall>imp \<in> set (gfImports g). giAlias imp \<noteq> [] \<and> (\<forall>j \<in> set (giGoFiles imp). j < length ns \<and> ns ! j = giPath imp)) \<and>
     distinct (map giPath (gfImports g))"

lemma imports_ok_upd [simp]:
  "imports_ok ns (g\<lparr>gfStructs := ss\<rparr>) = imports_ok ns g" "imports_ok ns (g\<lparr>gfEnums := es\<rparr>) = imports_ok ns g"
  "imports_ok ns (g\<lparr>FullOutputPath := p\<rparr>) = imports_ok ns g"
  by (simp_all add: imports_ok_def)

definition files_ok :: "nat \<Rightarrow> go_files \<Rightarrow> bool" where
  "files_ok n gs \<longleftrightarrow> length gs = n \<and>
     (\<forall>i < n. gfProtoFile (gs ! i) = i \<and> ShortPackageName (gs ! i) \<noteq> [] \<and>
        imports_ok (map FullPackageName gs) (gs ! i))"

lemma files_okD:
  assumes "files_ok n gs" and "i < n"
  shows "gfProtoFile (gs ! i) = i" and "ShortPackageName (gs ! i) \<noteq> []"
    and "imports_ok (map FullPackageName gs) (gs ! i)" and "length gs = n"
  using assms by (simp_all add: files_ok_def)

lemma files_ok_upd:
  assumes "files_ok n gs"
    and "i < n \<Longrightarrow> gfProtoFile (f (gs ! i)) = gfProtoFile (gs ! i) \<and> FullPackageName (f (gs ! i)) = FullPackageName (gs ! i) \<and>
      ShortPackageName (f (gs ! i)) = ShortPackageName (gs ! i) \<and> imports_ok (map FullPackageName gs) (f (gs ! i))"
  shows "files_ok n (upd_go i f gs)"
proof -
  have "map FullPackageName (upd_go i f gs) = map FullPackageName gs"
    using assms by (cases "i < n") (auto simp: files_ok_def upd_go_def intro!: nth_equalityI simp: nth_list_update)
  then show ?thesis
    using assms by (auto simp: files_ok_def nth_upd_go)
qed

lemma map_first_in: "x \<in> set (map_first p f xs) \<Longrightarrow> x \<in> set xs \<or> (\<exists>y \<in> set xs. p y \<and> x = f y)"
  by (induction xs) (auto split: if_splits)

lemma map_first_keep: "y \<in> set xs \<Longrightarrow> y \<in> set (map_first p f xs) \<or> p y \<and> f y \<in> set (map_first p f xs)"
  by (induction xs) auto

lemma map_first_hit: "List.find p xs = Some y \<Longrightarrow> f y \<in> set (map_first p f xs)"
  by (induction xs) (auto split: if_splits)

lemma map_map_first: "(\<And>y. h (f y) = h y) \<Longrightarrow> map h (map_first p f xs) = map h xs"
  by (induction xs) auto

lemma freshAlias_nonempty [simp]: "a \<noteq> [] \<Longrightarrow> freshAlias imps a \<noteq> []"
  by (simp add: freshAlias_def Let_def)

lemma imports_ok_AddImport:
  "imports_ok ns g \<Longrightarrow> a \<noteq> [] \<Longrightarrow> imports_ok ns (AddImport p a g)"
  by (auto simp: imports_ok_def AddImport_def list_ex_iff)

lemma imports_ok_AddProtoImport:
  assumes "imports_ok ns g" and "j < length ns" and "ns ! j = FullPackageName (gs ! j)" and "ShortPackageName (gs ! j) \<noteq> []"
  shows "imports_ok ns (AddProtoImport gs j g)"
  using assms
  by (auto simp: imports_ok_def AddProtoImport_def Let_def list_ex_iff map_map_first dest!: map_first_in)

lemma imports_ok_useImport: "imports_ok ns g \<Longrightarrow> imports_ok ns (useImport gs f g)"
  by (auto simp: imports_ok_def useImport_def map_map_first dest!: map_first_in)

lemma AddImport_keeps [simp]:
  "gfProtoFile (AddImport p a g) = gfProtoFile g" "FullPackageName (AddImport p a g) = FullPackageName g"
  "ShortPackageName (AddImport p a g) = ShortPackageName g" "gfStructs (AddImport p a g) = gfStructs g"
  "gfEnums (AddImport p a g) = gfEnums g" "samePackageImports (AddImport p a g) = samePackageImports g"
  "FullOutputPath (AddImport p a g) = FullOutputPath g"
  by (simp_all add: AddImport_def)

lemma AddProtoImport_keeps [simp]:
  "gfProtoFile (AddProtoImport gs j g) = gfProtoFile g" "FullPackageName (AddProtoImport gs j g) = FullPackageName g"
  "ShortPackageName (AddProtoImport gs j g) = ShortPackageName g" "gfStructs (AddProtoImport gs j g) = gfStructs g"
  "gfEnums (AddProtoImport gs j g) = gfEnums g"
  by (simp_all add: AddProtoImport_def Let_def)

lemma useImport_keeps [simp]:
  "gfProtoFile (useImport gs f g) = gfProtoFile g" "FullPackageName (useImport gs f g) = FullPackageName g"
  "ShortPackageName (useImport gs f g) = ShortPackageName g" "gfStructs (useImport gs f g) = gfStructs g"
  "gfEnums (useImport gs f g) = gfEnums g" "samePackageImports (useImport gs f g) = samePackageImports g"
  "FullOutputPath (useImport gs f g) = FullOutputPath g"
  by (simp_all add: useImport_def)

section \<open>What later steps keep of a file\<close>

text \<open>While the fields are mapped, a file keeps its declarations and its imports; imports may be added and
  become used.\<close>

definition extends :: "GoGeneratedFile \<Rightarrow> GoGeneratedFile \<Rightarrow> bool" where
  "extends g g' \<longleftrightarrow> gfProtoFile g' = gfProtoFile g \<and> FullPackageName g' = FullPackageName g \<and>
     FullOutputPath g' = FullOutputPath g \<and>
     samePackageImports g' = samePackageImports g \<and> gfEnums g' = gfEnums g \<and>
     map (\<lambda>s. (StructName s, stProto s)) (gfStructs g') = map (\<lambda>s. (StructName s, stProto s)) (gfStructs g) \<and>
     (\<forall>imp \<in> set (gfImports g). \<exists>imp' \<in> set (gfImports g'). giPath imp' = giPath imp \<and> giAlias imp' = giAlias imp \<and>
        giGoFiles imp' = giGoFiles imp \<and> (giUsed imp \<longrightarrow> giUsed imp'))"

lemma extends_refl [simp]: "extends g g"
  by (auto simp: extends_def)

lemma extends_trans: "extends a b \<Longrightarrow> extends b c \<Longrightarrow> extends a c"
  unfolding extends_def by (elim conjE) (intro conjI; metis)

lemma extends_AddImport: "extends g (AddImport p a g)"
  by (auto simp: extends_def AddImport_def)

lemma extends_useImport: "extends g (useImport gs f g)"
proof -
  have "\<exists>imp' \<in> set (gfImports (useImport gs f g)). giPath imp' = giPath imp \<and> giAlias imp' = giAlias imp \<and>
      giGoFiles imp' = giGoFiles imp \<and> (giUsed imp \<longrightarrow> giUsed imp')" if "imp \<in> set (gfImports g)" for imp
    using map_first_keep [OF that, of "importsFile gs f" "\<lambda>imp. imp\<lparr>giUsed := True\<rparr>"]
    by (auto simp: useImport_def intro: bexI [of _ imp] bexI [of _ "imp\<lparr>giUsed := True\<rparr>"])
  then show ?thesis by (simp add: extends_def)
qed

lemma extends_upd: "extends (gs ! i) (f (gs ! i)) \<Longrightarrow> list_all2 extends gs (upd_go i f gs)"
  by (auto simp: list_all2_conv_all_nth nth_upd_go)

lemma all_extends_refl [simp]: "list_all2 extends gs gs"
  by (simp add: list_all2_refl)

lemma all_extends_trans: "list_all2 extends a b \<Longrightarrow> list_all2 extends b c \<Longrightarrow> list_all2 extends a c"
  using list_all2_trans [of extends extends extends] extends_trans by blast

section \<open>Types that are declared\<close>

definition declaresStruct :: "go_files \<Rightarrow> string \<Rightarrow> string \<Rightarrow> bool" where
  "declaresStruct gs pkg n \<longleftrightarrow> (\<exists>g \<in> set gs. FullPackageName g = pkg \<and> n \<in> StructName ` set (gfStructs g))"

definition declaresEnum :: "go_files \<Rightarrow> string \<Rightarrow> string \<Rightarrow> bool" where
  "declaresEnum gs pkg n \<longleftrightarrow> (\<exists>g \<in> set gs. FullPackageName g = pkg \<and> n \<in> EnumName ` set (gfEnums g))"

primrec type_declared :: "go_files \<Rightarrow> GoGeneratedFile \<Rightarrow> GoFieldType \<Rightarrow> bool" where
  "type_declared gs g (GoBasic b) \<longleftrightarrow> bProtoType b \<in> set ProtobufScalarTypes"
| "type_declared gs g (GoEnumField e) \<longleftrightarrow>
     declaresEnum gs (FullPackageName g) (eEnumName e) \<or>
     (\<exists>imp \<in> set (gfImports g). giUsed imp \<and>
        (\<exists>n. eEnumName e = giAlias imp @ ''.'' @ n \<and> declaresEnum gs (giPath imp) n))"
| "type_declared gs g (GoStructField s) \<longleftrightarrow>
     sPackage s = [] \<and> declaresStruct gs (FullPackageName g) (sName s) \<or>
     (\<exists>imp \<in> set (gfImports g). giUsed imp \<and> sPackage s = giAlias imp \<and> declaresStruct gs (giPath imp) (sName s))"
| "type_declared gs g (GoRepeated t r) \<longleftrightarrow> type_declared gs g t"
| "type_declared gs g (GoPacked t r) \<longleftrightarrow> type_declared gs g t"
| "type_declared gs g (GoMap k v) \<longleftrightarrow> type_declared gs g k \<and> type_declared gs g v"

lemma declares_mono:
  assumes "list_all2 extends gs gs'"
  shows "declaresStruct gs p n \<Longrightarrow> declaresStruct gs' p n" and "declaresEnum gs p n \<Longrightarrow> declaresEnum gs' p n"
proof -
  have e: "\<exists>g' \<in> set gs'. extends g g'" if "g \<in> set gs" for g
    using assms that by (metis list_all2_conv_all_nth in_set_conv_nth)
  have s: "StructName ` set (gfStructs g') = StructName ` set (gfStructs g)" if "extends g g'" for g g'
  proof -
    have "map fst (map (\<lambda>s. (StructName s, stProto s)) (gfStructs g')) = map fst (map (\<lambda>s. (StructName s, stProto s)) (gfStructs g))"
      using that by (simp only: extends_def)
    then have "map StructName (gfStructs g') = map StructName (gfStructs g)" by (simp add: comp_def)
    then show ?thesis by (metis list.set_map)
  qed
  show "declaresStruct gs p n \<Longrightarrow> declaresStruct gs' p n"
    unfolding declaresStruct_def using e s by (metis extends_def)
  show "declaresEnum gs p n \<Longrightarrow> declaresEnum gs' p n"
    unfolding declaresEnum_def using e by (metis extends_def)
qed

lemma type_declared_mono:
  assumes "list_all2 extends gs gs'" and "extends g g'"
  shows "type_declared gs g t \<Longrightarrow> type_declared gs' g' t"
proof (induction t)
  case (GoEnumField e)
  have p: "FullPackageName g' = FullPackageName g" using assms(2) by (simp add: extends_def)
  from GoEnumField consider "declaresEnum gs (FullPackageName g) (eEnumName e)"
    | imp n where "imp \<in> set (gfImports g)" "giUsed imp" "eEnumName e = giAlias imp @ ''.'' @ n" "declaresEnum gs (giPath imp) n"
    by auto
  then show ?case
  proof cases
    case 1
    then show ?thesis using declares_mono(2) [OF assms(1)] p by simp
  next
    case 2
    then obtain imp' where "imp' \<in> set (gfImports g')" "giPath imp' = giPath imp" "giAlias imp' = giAlias imp" "giUsed imp'"
      using assms(2) unfolding extends_def by blast
    then show ?thesis using 2 declares_mono(2) [OF assms(1)] by (metis type_declared.simps(2))
  qed
next
  case (GoStructField s)
  have p: "FullPackageName g' = FullPackageName g" using assms(2) by (simp add: extends_def)
  from GoStructField consider "sPackage s = []" "declaresStruct gs (FullPackageName g) (sName s)"
    | imp where "imp \<in> set (gfImports g)" "giUsed imp" "sPackage s = giAlias imp" "declaresStruct gs (giPath imp) (sName s)"
    by auto
  then show ?case
  proof cases
    case 1
    then show ?thesis using declares_mono(1) [OF assms(1)] p by simp
  next
    case 2
    then obtain imp' where "imp' \<in> set (gfImports g')" "giPath imp' = giPath imp" "giAlias imp' = giAlias imp" "giUsed imp'"
      using assms(2) unfolding extends_def by blast
    then show ?thesis using 2 declares_mono(1) [OF assms(1)] by (metis type_declared.simps(3))
  qed
qed simp_all


section \<open>Shapes that can be written\<close>

fun plain :: "GoFieldType \<Rightarrow> bool" where
  "plain (GoBasic b) \<longleftrightarrow> True"
| "plain (GoEnumField e) \<longleftrightarrow> True"
| "plain (GoStructField s) \<longleftrightarrow> True"
| "plain _ \<longleftrightarrow> False"

fun well_shaped :: "GoFieldType \<Rightarrow> bool" where
  "well_shaped (GoRepeated t r) \<longleftrightarrow> plain t"
| "well_shaped (GoPacked t r) \<longleftrightarrow> CanBePacked t"
| "well_shaped (GoMap k v) \<longleftrightarrow> plain k \<and> plain v"
| "well_shaped t \<longleftrightarrow> True"

definition rets :: "'a go \<Rightarrow> bool" where
  "rets m \<longleftrightarrow> (\<exists>x. m = Ret x)"

lemma rets_Ret [simp, intro]: "rets (Ret x)"
  by (simp add: rets_def)

lemma rets_bind [intro]: "rets m \<Longrightarrow> (\<And>x. m = Ret x \<Longrightarrow> rets (f x)) \<Longrightarrow> rets (go_bind m f)"
  by (auto simp: rets_def)

lemma plain_writes:
  assumes "plain t"
  shows "rets (EntryFullSizeWithTag t tabs s f tag)" and "rets (EntryWriter t tabs buf tag v)"
    and "rets (EntryFullSizeWithoutTag t tabs s f)"
  using assms by (cases t; simp)+

lemma packed_writes:
  assumes "CanBePacked t"
  shows "rets (PackedEntryWriter t tabs buf v)" and "plain t"
  using assms by (cases t; simp)+

lemmas write_defs = goRepeatedValueType_EntryFullSizeWithTag_def goRepeatedValueType_EntryWriter_def
  goRepeatedPackedValueType_EntryFullSizeWithTag_def goRepeatedPackedValueType_EntryWriter_def
  goMapValueType_EntryFullSizeWithTag_def goMapValueType_EntryWriter_def

lemma well_shaped_writes:
  assumes "well_shaped t"
  shows "rets (EntryFullSizeWithTag t tabs s f tag)" and "rets (EntryWriter t tabs buf tag v)"
  using assms
  by (cases t; simp add: write_defs; blast intro: plain_writes packed_writes)+

lemma rets_concat: "(\<And>x. x \<in> set xs \<Longrightarrow> rets (f x)) \<Longrightarrow> rets (go_concat f xs)"
  by (induction xs) auto

lemma struct_writes:
  assumes "\<And>f. f \<in> set (stFields s) \<Longrightarrow> well_shaped (fType f)"
  shows "rets (GoStructType_GenerateCode s)"
proof -
  have "rets (GoStructField_writeMarshal f)" "rets (writeSizeCalc f)" if "f \<in> set (stFields s)" for f
    using well_shaped_writes [OF assms [OF that]]
    by (auto simp: GoStructField_writeMarshal_def writeSizeCalc_def)
  then show ?thesis
    unfolding GoStructType_GenerateCode_def writeMarshal_def writeSize_def
    by (intro rets_bind rets_concat rets_Ret)
qed

lemma withRuntime_structs [simp]: "gfStructs (withRuntime g) = gfStructs g"
  by (simp add: withRuntime_def)

lemma file_writes:
  assumes "\<And>s f. s \<in> set (gfStructs g) \<Longrightarrow> f \<in> set (stFields s) \<Longrightarrow> well_shaped (fType f)"
  shows "rets (GenerateCode P g)"
  unfolding GenerateCode_def Let_def withRuntime_structs
  by (intro rets_bind rets_concat rets_Ret struct_writes) (rule assms)


section \<open>Resolving a type\<close>

definition evolves :: "nat \<Rightarrow> go_files \<Rightarrow> go_files \<Rightarrow> bool" where
  "evolves n gs gs' \<longleftrightarrow> files_ok n gs' \<and> list_all2 extends gs gs'"

lemma evolves_refl: "files_ok n gs \<Longrightarrow> evolves n gs gs"
  by (simp add: evolves_def)

lemma evolves_trans: "evolves n a b \<Longrightarrow> evolves n b c \<Longrightarrow> evolves n a c"
  unfolding evolves_def using all_extends_trans by blast

lemma evolves_upd:
  assumes "files_ok n gs" and "extends (gs ! i) (f (gs ! i))" and "ShortPackageName (f (gs ! i)) = ShortPackageName (gs ! i)"
    and "i < n \<Longrightarrow> imports_ok (map FullPackageName gs) (f (gs ! i))"
  shows "evolves n gs (upd_go i f gs)"
  unfolding evolves_def
  using assms files_ok_upd [of n gs i f] extends_upd [of gs i f] by (simp add: extends_def)

lemma evolves_use:
  assumes "files_ok n gs"
  shows "evolves n gs (upd_go i (useImport gs' f) gs)"
  using assms
  by (intro evolves_upd extends_useImport) (auto intro: imports_ok_useImport files_okD)

lemma evolves_import:
  assumes "files_ok n gs" and "a \<noteq> []"
  shows "evolves n gs (upd_go i (AddImport p a) gs)"
  using assms
  by (intro evolves_upd extends_AddImport) (auto intro: imports_ok_AddImport files_okD)

lemma find_struct_in: "FindStruct m g = Some s \<Longrightarrow> s \<in> set (gfStructs g)"
  unfolding FindStruct_def by (rule find_member)

lemma find_enum_in: "FindEnum m g = Some s \<Longrightarrow> s \<in> set (gfEnums g)"
  unfolding FindEnum_def by (rule find_member)

lemma declares_at:
  assumes "j < length gs" and "FullPackageName (gs ! j) = p"
  shows "s \<in> set (gfStructs (gs ! j)) \<Longrightarrow> declaresStruct gs p (StructName s)"
    and "e \<in> set (gfEnums (gs ! j)) \<Longrightarrow> declaresEnum gs p (EnumName e)"
  using assms unfolding declaresStruct_def declaresEnum_def by (metis image_eqI nth_mem)+

lemma imports_okD:
  assumes "imports_ok (map FullPackageName gs) g"
  shows "j \<in> set (samePackageImports g) \<Longrightarrow> j < length gs \<and> FullPackageName (gs ! j) = FullPackageName g"
    and "imp \<in> set (gfImports g) \<Longrightarrow> giAlias imp \<noteq> []"
    and "imp \<in> set (gfImports g) \<Longrightarrow> j \<in> set (giGoFiles imp) \<Longrightarrow> j < length gs \<and> FullPackageName (gs ! j) = giPath imp"
  using assms unfolding imports_ok_def by (metis length_map nth_map)+

lemma first_some_in: "first_some f xs = Some y \<Longrightarrow> \<exists>x \<in> set xs. f x = Some y"
  by (erule first_some_Some) auto

text \<open>Both searches of the imports are one search, for what a file declares.\<close>

definition findInImports ::
  "(GoGeneratedFile \<Rightarrow> 'a option) \<Rightarrow> nat \<Rightarrow> file_ptr \<Rightarrow> go_files \<Rightarrow> (string \<times> 'a option) \<times> go_files" where
  "findInImports decl i f gs =
     (case List.find (\<lambda>j. gfProtoFile (gs ! j) = f) (samePackageImports (gs ! i)) of
        Some j \<Rightarrow> (([], decl (gs ! j)), gs)
      | None \<Rightarrow> (case List.find (importsFile gs f) (gfImports (gs ! i)) of
            Some imp \<Rightarrow> ((giAlias imp, first_some (\<lambda>j. decl (gs ! j)) (giGoFiles imp)), upd_go i (useImport gs f) gs)
          | None \<Rightarrow> (([], None), gs)))"

lemma find_generic:
  "FindStructInImports i f m gs = findInImports (FindStruct m) i f gs"
  "FindEnumInImports i f e gs = findInImports (FindEnum e) i f gs"
  unfolding FindStructInImports_def FindEnumInImports_def findInImports_def GoImport_FindStruct_def GoImport_FindEnum_def
  by (rule refl)+

text \<open>What is found in a package: a file of that package declares it.\<close>

definition declaredIn :: "(GoGeneratedFile \<Rightarrow> 'a option) \<Rightarrow> go_files \<Rightarrow> string \<Rightarrow> 'a \<Rightarrow> bool" where
  "declaredIn decl gs pkg x \<longleftrightarrow> (\<exists>g \<in> set gs. FullPackageName g = pkg \<and> decl g = Some x)"

lemma declaredIn_at: "j < length gs \<and> FullPackageName (gs ! j) = p \<Longrightarrow> decl (gs ! j) = Some x \<Longrightarrow> declaredIn decl gs p x"
  unfolding declaredIn_def by (metis nth_mem)

lemma findInImports_sound:
  assumes "files_ok n gs" and "i < n" and "findInImports decl i f gs = ((p, r), gs')"
  shows "evolves n gs gs' \<and>
    (r = Some x \<longrightarrow> p = [] \<and> declaredIn decl gs (FullPackageName (gs ! i)) x \<or>
      p \<noteq> [] \<and> (\<exists>imp \<in> set (gfImports (gs' ! i)). giUsed imp \<and> giAlias imp = p \<and> declaredIn decl gs (giPath imp) x))"
proof (cases "List.find (\<lambda>j. gfProtoFile (gs ! j) = f) (samePackageImports (gs ! i))")
  case (Some j)
  then have "decl (gs ! j) = r" and eq: "gs' = gs" "p = []" using assms(3) by (auto simp: findInImports_def)
  then have "declaredIn decl gs (FullPackageName (gs ! i)) x" if "r = Some x"
    using imports_okD(1) [OF files_okD(3) [OF assms(1,2)] find_member [OF Some]] that by (auto intro: declaredIn_at)
  then show ?thesis using evolves_refl [OF assms(1)] eq by simp
next
  case same: None
  show ?thesis
  proof (cases "List.find (importsFile gs f) (gfImports (gs ! i))")
    case None
    then show ?thesis using same assms(3) evolves_refl [OF assms(1)] by (auto simp: findInImports_def)
  next
    case (Some imp)
    have in_i: "imp \<in> set (gfImports (gs ! i))" by (rule find_member [OF Some])
    have g: "gs' = upd_go i (useImport gs f) gs" "p = giAlias imp" "r = first_some (\<lambda>j. decl (gs ! j)) (giGoFiles imp)"
      using same Some assms(3) by (simp_all add: findInImports_def)
    have "imp\<lparr>giUsed := True\<rparr> \<in> set (gfImports (gs' ! i))"
      using map_first_hit [OF Some] files_okD(4) [OF assms(1,2)] assms(2) by (simp add: g nth_upd_go useImport_def)
    moreover have "declaredIn decl gs (giPath imp) x" if "r = Some x"
    proof -
      from that obtain j where "j \<in> set (giGoFiles imp)" "decl (gs ! j) = Some x"
        unfolding g using first_some_in by fastforce
      then show ?thesis using imports_okD(3) [OF files_okD(3) [OF assms(1,2)] in_i] by (auto intro: declaredIn_at)
    qed
    moreover have "evolves n gs gs'" unfolding g by (rule evolves_use [OF assms(1)])
    moreover have "p \<noteq> []" using imports_okD(2) [OF files_okD(3) [OF assms(1,2)] in_i] g by simp
    ultimately show ?thesis using g(2) by (auto intro!: bexI [of _ "imp\<lparr>giUsed := True\<rparr>"])
  qed
qed

lemma declaredIn_types:
  "declaredIn (FindStruct m) gs p s \<Longrightarrow> declaresStruct gs p (StructName s)"
  "declaredIn (FindEnum e) gs p d \<Longrightarrow> declaresEnum gs p (EnumName d)"
  unfolding declaredIn_def declaresStruct_def declaresEnum_def using find_struct_in find_enum_in by (metis imageI)+

text \<open>A type that is sound in the state it was resolved in.\<close>

definition sound :: "nat \<Rightarrow> nat \<Rightarrow> go_files \<Rightarrow> (type_error + GoFieldType) \<times> go_files \<Rightarrow> bool" where
  "sound n i gs res \<longleftrightarrow> (case res of (r, gs') \<Rightarrow> evolves n gs gs' \<and>
     (\<forall>t. r = Inr t \<longrightarrow> well_shaped t \<and> type_declared gs' (gs' ! i) t))"

lemma go_lookup_scalar: "go_lookup goBasicTypesMap k \<noteq> [] \<Longrightarrow> k \<in> set ProtobufScalarTypes"
  by (auto simp: go_lookup_def goBasicTypesMap_def ProtobufScalarTypes_def split: option.splits if_splits)

lemma mapType_sound:
  assumes "mapType field v = Inr t" and "plain v" and "type_declared gs g v"
  shows "well_shaped t \<and> type_declared gs g t"
  using assms go_lookup_scalar [of "MapKeyType field"]
  by (auto simp: mapType_def resolveMapKeyType_def Let_def split: if_splits)

lemma parseDefaultValue_type: "parseDefaultValue field b = (b', imp) \<Longrightarrow> bProtoType b' = bProtoType b"
  by (auto simp: parseDefaultValue_def split: option.splits if_splits)

lemma resolveScalarType_sound:
  assumes "files_ok n gs" and "i < n"
  shows "sound n i gs (resolveScalarType i field gs)"
proof -
  let ?k = "ScalarValueType field"
  let ?b = "\<lparr>bName = go_lookup goBasicTypesMap ?k, bProtoType = ?k, bDefault = [], bRequired = Required field\<rparr>"
  note ev = evolves_refl [OF assms(1)]
  show ?thesis
  proof (cases "go_lookup goBasicTypesMap ?k = []")
    case True
    then show ?thesis using ev by (simp add: sound_def resolveScalarType_def)
  next
    case False
    then have k: "?k \<in> set ProtobufScalarTypes" by (rule go_lookup_scalar)
    consider "Repeated field" | "\<not> Repeated field" "Map field" | "\<not> Repeated field" "\<not> Map field" by blast
    then show ?thesis
    proof cases
      case 1
      then show ?thesis using ev k False by (simp add: sound_def resolveScalarType_def Let_def)
    next
      case 2
      then have "resolveScalarType i field gs = (mapType field (GoBasic ?b), gs)"
        using False by (simp add: resolveScalarType_def Let_def)
      then show ?thesis using ev k mapType_sound [of field "GoBasic ?b" _ gs "gs ! i"] by (auto simp: sound_def)
    next
      case 3
      obtain b' imp where d: "parseDefaultValue field ?b = (b', imp)" by (rule prod.exhaust)
      have e: "evolves n gs (upd_go i (AddImport pkg pkg) gs)" if "imp = Some pkg" for pkg
        using that d by (intro evolves_import [OF assms(1)]) (auto simp: parseDefaultValue_def split: option.splits if_splits)
      show ?thesis
        using 3 False d e ev k parseDefaultValue_type [OF d]
        by (cases imp) (simp_all add: sound_def resolveScalarType_def Let_def)
    qed
  qed
qed


text \<open>The package prefix and the declaration that a field's type is looked up to.\<close>

definition foundAs :: "(string \<Rightarrow> 'a \<Rightarrow> bool) \<Rightarrow> GoGeneratedFile \<Rightarrow> string \<Rightarrow> 'a \<Rightarrow> bool" where
  "foundAs decl g p x \<longleftrightarrow> p = [] \<and> decl (FullPackageName g) x \<or>
     p \<noteq> [] \<and> (\<exists>imp \<in> set (gfImports g). giUsed imp \<and> giAlias imp = p \<and> decl (giPath imp) x)"

lemma lookup_sound:
  assumes "files_ok n gs" and "i < n"
    and "(case ext of Some f \<Rightarrow> findInImports decl i f gs | None \<Rightarrow> (([], decl' (gs ! i)), gs)) = ((p, r), gs')"
    and "\<And>pkg x. declaredIn decl gs pkg x \<Longrightarrow> dcl gs pkg x" and "\<And>pkg x. declaredIn decl' gs pkg x \<Longrightarrow> dcl gs pkg x"
    and mono: "\<And>pkg x. list_all2 extends gs gs' \<Longrightarrow> dcl gs pkg x \<Longrightarrow> dcl gs' pkg x"
  shows "evolves n gs gs' \<and> (\<forall>x. r = Some x \<longrightarrow> foundAs (dcl gs') (gs' ! i) p x)"
proof (cases ext)
  case None
  then have "gs' = gs" "p = []" "decl' (gs ! i) = r" using assms(3) by auto
  then show ?thesis
    using assms(5) declaredIn_at [of i gs "FullPackageName (gs ! i)" decl'] files_okD(4) [OF assms(1,2)] assms(2)
      evolves_refl [OF assms(1)] by (auto simp: foundAs_def)
next
  case (Some f)
  then have f: "findInImports decl i f gs = ((p, r), gs')" using assms(3) by simp
  have ev: "evolves n gs gs'" using findInImports_sound [OF assms(1,2) f] by blast
  then have "FullPackageName (gs' ! i) = FullPackageName (gs ! i)"
    using files_okD(4) [OF assms(1,2)] assms(2) by (auto simp: evolves_def list_all2_conv_all_nth extends_def)
  then show ?thesis
    using findInImports_sound [OF assms(1,2) f] assms(4) mono ev unfolding foundAs_def evolves_def by fastforce
qed

lemma resolveMsgType_sound:
  assumes "files_ok n gs" and "i < n"
  shows "sound n i gs (resolveMsgType i field gs)"
proof -
  obtain p r gs' where f: "(case ExternalTypeFile field of
      Some f \<Rightarrow> FindStructInImports i f (ExternalMsgType field) gs
    | None \<Rightarrow> (([], FindStruct (LocalMsgType field) (gs ! i)), gs)) = ((p, r), gs')"
    by (metis prod.collapse)
  have s: "evolves n gs gs' \<and>
      (\<forall>s. r = Some s \<longrightarrow> foundAs (\<lambda>pkg s. declaresStruct gs' pkg (StructName s)) (gs' ! i) p s)"
    by (rule lookup_sound [where decl' = "FindStruct (LocalMsgType field)" and dcl = "\<lambda>gs pkg s. declaresStruct gs pkg (StructName s)",
          OF assms f [unfolded find_generic]]) (auto intro: declaredIn_types declares_mono)
  show ?thesis
  proof (cases r)
    case None
    then show ?thesis using f s by (simp add: sound_def resolveMsgType_def)
  next
    case (Some m)
    let ?t = "GoStructField \<lparr>sPackage = p, sName = StructName m, sRequired = Required field\<rparr>"
    have "type_declared gs' (gs' ! i) ?t" using s Some by (auto simp: foundAs_def)
    then show ?thesis
      using f s Some mapType_sound [of field ?t _ gs' "gs' ! i"] by (auto simp: sound_def resolveMsgType_def Let_def)
  qed
qed

lemma resolveEnumType_sound:
  assumes "files_ok n gs" and "i < n"
  shows "sound n i gs (resolveEnumType P i field gs)"
proof -
  obtain p r gs' where f: "(case ExternalTypeFile field of
      Some f \<Rightarrow> FindEnumInImports i f (ExternalEnumType field) gs
    | None \<Rightarrow> (([], FindEnum (LocalEnumType field) (gs ! i)), gs)) = ((p, r), gs')"
    by (metis prod.collapse)
  let ?p = "if p \<noteq> [] then p @ ''.'' else p"
  have s: "evolves n gs gs' \<and>
      (\<forall>e. r = Some e \<longrightarrow> foundAs (\<lambda>pkg e. declaresEnum gs' pkg (EnumName e)) (gs' ! i) p e)"
    by (rule lookup_sound [where decl' = "FindEnum (LocalEnumType field)" and dcl = "\<lambda>gs pkg e. declaresEnum gs pkg (EnumName e)",
          OF assms f [unfolded find_generic]]) (auto intro: declaredIn_types declares_mono)
  have f': "(case ExternalTypeFile field of
           Some f \<Rightarrow> (case FindEnumInImports i f (ExternalEnumType field) gs of
               ((p, e), gs') \<Rightarrow> ((if p \<noteq> [] then p @ ''.'' else p, e), gs'))
         | None \<Rightarrow> (([], FindEnum (LocalEnumType field) (gs ! i)), gs)) = ((?p, r), gs')"
    using f by (auto split: option.splits)
  show ?thesis
  proof (cases r)
    case None
    then show ?thesis using f' s by (simp add: sound_def resolveEnumType_def)
  next
    case (Some e)
    let ?t = "\<lambda>d. GoEnumField \<lparr>eEnumName = ?p @ EnumName e, eDefault = d, eRequired = Required field\<rparr>"
    have t: "type_declared gs' (gs' ! i) (?t d)" for d using s Some by (auto simp: foundAs_def)
    moreover have "\<exists>d. GoEnumField (resolveDefaultValue field ?p (GetEnumForDefault e)
        \<lparr>eEnumName = ?p @ EnumName e, eDefault = [], eRequired = Required field\<rparr>) = ?t d"
      by (auto simp: resolveDefaultValue_def split: option.splits)
    ultimately have "type_declared gs' (gs' ! i) (GoEnumField (resolveDefaultValue field ?p (GetEnumForDefault e)
        \<lparr>eEnumName = ?p @ EnumName e, eDefault = [], eRequired = Required field\<rparr>))" by metis
    then show ?thesis
      using f' s Some t mapType_sound [of field "?t []" _ gs' "gs' ! i"]
      by (auto simp: sound_def resolveEnumType_def Let_def)
  qed
qed

lemma ResolveType_sound:
  assumes "files_ok n gs" and "i < n"
  shows "sound n i gs (ResolveType P i field gs)"
  using resolveScalarType_sound [OF assms] resolveEnumType_sound [OF assms] resolveMsgType_sound [OF assms]
    evolves_refl [OF assms(1)]
  by (auto simp: ResolveType_def sound_def)


section \<open>Mapping the fields\<close>

definition fields_ok :: "go_files \<Rightarrow> bool" where
  "fields_ok gs \<longleftrightarrow> (\<forall>g \<in> set gs. \<forall>s \<in> set (gfStructs g). \<forall>f \<in> set (stFields s).
     well_shaped (fType f) \<and> type_declared gs g (fType f))"

lemma structs_upd_go: "(\<And>g. gfStructs (f g) = gfStructs g) \<Longrightarrow> map gfStructs (upd_go i f gs) = map gfStructs gs"
  by (rule nth_equalityI) (auto simp: nth_upd_go)

lemma findInImports_structs: "findInImports decl i f gs = (r, gs') \<Longrightarrow> map gfStructs gs' = map gfStructs gs"
  by (auto simp: findInImports_def structs_upd_go split: option.splits)

lemma ResolveType_structs: "map gfStructs (snd (ResolveType P i field gs)) = map gfStructs gs"
proof -
  have "map gfStructs (snd (resolveScalarType i field gs)) = map gfStructs gs"
    by (auto simp: resolveScalarType_def Let_def structs_upd_go split: prod.split option.split)
  moreover have "map gfStructs (snd (resolveMsgType i field gs)) = map gfStructs gs"
    by (auto simp: resolveMsgType_def find_generic Let_def split: prod.splits option.splits dest: findInImports_structs)
  moreover have "map gfStructs (snd (resolveEnumType P i field gs)) = map gfStructs gs"
    by (auto simp: resolveEnumType_def find_generic Let_def split: prod.splits option.splits dest: findInImports_structs)
  ultimately show ?thesis by (simp add: ResolveType_def)
qed

lemma fields_ok_mono:
  assumes "fields_ok gs" and "list_all2 extends gs gs'" and "map gfStructs gs' = map gfStructs gs"
  shows "fields_ok gs'"
  unfolding fields_ok_def
proof (intro ballI)
  fix g' s f assume a: "g' \<in> set gs'" "s \<in> set (gfStructs g')" "f \<in> set (stFields s)"
  then obtain i where i: "i < length gs'" "g' = gs' ! i" by (metis in_set_conv_nth)
  have l: "length gs' = length gs" and e: "extends (gs ! i) g'"
    using assms(2) i by (auto simp: list_all2_conv_all_nth)
  have "gfStructs (gs ! i) = gfStructs g'" using assms(3) i l by (metis nth_map)
  then have "well_shaped (fType f) \<and> type_declared gs (gs ! i) (fType f)"
    using a assms(1) i l unfolding fields_ok_def by (metis nth_mem)
  then show "well_shaped (fType f) \<and> type_declared gs' g' (fType f)"
    using type_declared_mono [OF assms(2) e] by blast
qed

lemma extends_structs:
  "map (\<lambda>s. (StructName s, stProto s)) ss = map (\<lambda>s. (StructName s, stProto s)) (gfStructs g) \<Longrightarrow> extends g (g\<lparr>gfStructs := ss\<rparr>)"
  by (auto simp: extends_def)

lemma upd_struct_ok:
  assumes "files_ok n gs" and "fields_ok gs" and "i < n" and "well_shaped t" and "type_declared gs (gs ! i) t"
  shows "evolves n gs (upd_struct i j (AddField d t) gs) \<and> fields_ok (upd_struct i j (AddField d t) gs)"
proof
  let ?f = "\<lambda>g. g\<lparr>gfStructs := (gfStructs g)[j := AddField d t (gfStructs g ! j)]\<rparr>"
  let ?gs = "upd_struct i j (AddField d t) gs"
  have u: "?gs = upd_go i ?f gs" by (simp add: upd_struct_def)
  have x: "extends (gs ! i) (?f (gs ! i))"
  proof (rule extends_structs)
    show "map (\<lambda>s. (StructName s, stProto s)) ((gfStructs (gs ! i))[j := AddField d t (gfStructs (gs ! i) ! j)]) =
        map (\<lambda>s. (StructName s, stProto s)) (gfStructs (gs ! i))"
      by (cases "j < length (gfStructs (gs ! i))") (simp_all add: map_update AddField_def list_update_same_conv list_update_beyond)
  qed
  show ev: "evolves n gs ?gs"
    unfolding u by (rule evolves_upd [where f = ?f, OF assms(1) x]) (simp_all add: files_okD(3) [OF assms(1,3)])
  have len: "length gs = n" using assms files_okD by blast
  show "fields_ok ?gs"
    unfolding fields_ok_def
  proof (intro ballI)
    fix g' s f assume a: "g' \<in> set ?gs" "s \<in> set (gfStructs g')" "f \<in> set (stFields s)"
    from a(1) obtain k where k: "k < n" "g' = ?gs ! k" by (auto simp: in_set_conv_nth u len)
    have e: "extends (gs ! k) g'" using ev k len by (auto simp: evolves_def list_all2_conv_all_nth)
    have "fType f = t \<and> k = i \<or> (\<exists>s \<in> set (gfStructs (gs ! k)). f \<in> set (stFields s))"
    proof (cases "k = i")
      case True
      then have "s \<in> set ((gfStructs (gs ! k))[j := AddField d t (gfStructs (gs ! k) ! j)])"
        using a(2) k len by (simp add: u nth_upd_go)
      then have "s \<in> set (gfStructs (gs ! k)) \<or> j < length (gfStructs (gs ! k)) \<and> s = AddField d t (gfStructs (gs ! k) ! j)"
        by (metis in_set_conv_nth length_list_update nth_list_update nth_list_update_neq)
      then show ?thesis using a(3) True by (auto simp: AddField_def)
    next
      case False
      then show ?thesis using a k len by (auto simp: u nth_upd_go)
    qed
    moreover have "gs ! k \<in> set gs" using k(1) len by simp
    ultimately have "well_shaped (fType f) \<and> type_declared gs (gs ! k) (fType f)"
      using assms(2,4,5) unfolding fields_ok_def by blast
    then show "well_shaped (fType f) \<and> type_declared ?gs g' (fType f)"
      using type_declared_mono [OF _ e] ev unfolding evolves_def by blast
  qed
qed

lemma mapField_ok:
  assumes "files_ok n (fst s)" and "fields_ok (fst s)" and "i < n"
  shows "evolves n (fst s) (fst (mapField P i j d s)) \<and> fields_ok (fst (mapField P i j d s))"
proof -
  obtain r gs where r: "ResolveType P i d (fst s) = (r, gs)" by (rule prod.exhaust)
  have snd: "evolves n (fst s) gs" "\<And>t. r = Inr t \<Longrightarrow> well_shaped t \<and> type_declared gs (gs ! i) t"
    using ResolveType_sound [OF assms(1,3), of P d] r by (auto simp: sound_def)
  have ok: "files_ok n gs" "fields_ok gs"
    using snd(1) fields_ok_mono [OF assms(2)] ResolveType_structs [of P i d "fst s"] r by (auto simp: evolves_def)
  show ?thesis
  proof (cases r)
    case (Inl e)
    then show ?thesis using r snd ok by (simp add: mapField_def)
  next
    case (Inr t)
    then have "evolves n gs (upd_struct i j (AddField d t) gs) \<and> fields_ok (upd_struct i j (AddField d t) gs)"
      using upd_struct_ok [OF ok assms(3)] snd(2) by blast
    then show ?thesis using r snd Inr evolves_trans by (auto simp: mapField_def)
  qed
qed

definition mapped_from :: "nat \<Rightarrow> go_files \<Rightarrow> go_files \<Rightarrow> bool" where
  "mapped_from n gs0 gs \<longleftrightarrow> evolves n gs0 gs \<and> fields_ok gs"

lemma mapFields_ok:
  assumes "mapped_from n gs0 (fst s)" and "i < n"
  shows "mapped_from n gs0 (fst (mapFields P i s))"
proof -
  let ?ms = "Messages (files P ! gfProtoFile (fst s ! i))"
  have step: "mapped_from n gs0 (fst (fold (mapField P i j) ds s))" if "mapped_from n gs0 (fst s)" for j ds s
    using that
  proof (induction ds arbitrary: s)
    case (Cons d ds)
    have "mapped_from n gs0 (fst (mapField P i j d s))"
      using mapField_ok [of n s i P j d] Cons.prems assms(2) evolves_trans unfolding mapped_from_def evolves_def
      using all_extends_trans by blast
    then show ?case using Cons.IH by simp
  qed simp
  have "mapped_from n gs0 (fst (fold (\<lambda>j. fold (mapField P i j) (Fields (messages P ! (?ms ! j)))) js s))"
    if "mapped_from n gs0 (fst s)" for js s
    using that by (induction js arbitrary: s) (simp_all add: step)
  then show ?thesis using assms(1) by (simp add: mapFields_def Let_def)
qed

lemma all_mapFields_ok:
  assumes "mapped_from n gs0 (fst s)" and "\<forall>i \<in> set is. i < n"
  shows "mapped_from n gs0 (fst (fold (mapFields P) is s))"
  using assms by (induction "is" arbitrary: s) (simp_all add: mapFields_ok)


section \<open>Packages and imports\<close>

lemma last_split: "last (split_on c s) = [] \<Longrightarrow> s = [] \<or> last s = c"
  by (induction s) (auto split: if_splits list.splits)

lemma path_base_nonempty [simp]: "path_base s \<noteq> []"
proof -
  let ?b = "rev (dropWhile (\<lambda>c. c = CHR ''/'') (rev s))"
  have "?b \<noteq> [] \<Longrightarrow> last ?b \<noteq> CHR ''/''"
    using hd_dropWhile [of "\<lambda>c. c = CHR ''/''" "rev s"] by (auto simp: last_rev)
  then show ?thesis using last_split [of "CHR ''/''" ?b] by (auto simp: path_base_def Let_def)
qed

lemma path_clean_nonempty [simp]: "path_clean s \<noteq> []"
  by (simp add: path_clean_def Let_def)

lemma path_join_nonempty [simp]: "x \<noteq> [] \<Longrightarrow> path_join (x # xs) \<noteq> []"
  by (auto simp: path_join_def Let_def filter_empty_conv)

lemma cleanup_nonempty [simp]: "cleanupPackageName n = [] \<longleftrightarrow> n = []"
  by (simp add: cleanupPackageName_def replace_char_def)

lemma getGoPackage_nonempty: "fst (getGoPackage root modulePath f) \<noteq> [] \<and> snd (getGoPackage root modulePath f) \<noteq> []"
  by (simp add: getGoPackage_def Let_def)

definition new_file :: "string \<Rightarrow> string \<Rightarrow> program \<Rightarrow> file_ptr \<Rightarrow> GoGeneratedFile" where
  "new_file root modulePath P i =
     \<lparr>gfImports = [], samePackageImports = [], gfEnums = [], gfStructs = [], gfProtoFile = i,
      FullPackageName = snd (getGoPackage root modulePath (files P ! i)),
      ShortPackageName = fst (getGoPackage root modulePath (files P ! i)), FullOutputPath = []\<rparr>"

lemma newFile_Inr: "newFile root modulePath P = (\<lambda>i. Inr (new_file root modulePath P i))"
proof (rule ext)
  show "newFile root modulePath P i = Inr (new_file root modulePath P i)" for i
    using getGoPackage_nonempty [of root modulePath "files P ! i"]
    by (auto simp: newFile_def new_file_def split: prod.split)
qed

text \<open>The files before the types are added: nothing is declared yet.\<close>

definition imported_files :: "nat \<Rightarrow> go_files \<Rightarrow> bool" where
  "imported_files n gs \<longleftrightarrow> files_ok n gs \<and> (\<forall>i < n. gfStructs (gs ! i) = [] \<and> gfEnums (gs ! i) = [])"

lemma new_files: "imported_files n (map (new_file root modulePath P) [0..<n])"
  using getGoPackage_nonempty
  by (auto simp: imported_files_def files_ok_def new_file_def imports_ok_def)

lemma AddProtoImport_ok:
  assumes "imported_files n gs" and "j < n"
  shows "imported_files n (upd_go i (AddProtoImport gs j) gs)"
proof -
  have ok: "files_ok n gs" and len: "length gs = n" using assms by (auto simp: imported_files_def files_ok_def)
  have "files_ok n (upd_go i (AddProtoImport gs j) gs)"
    using assms(2) len files_okD(2,3) [OF ok] imports_ok_AddProtoImport [of "map FullPackageName gs" "gs ! i" j gs]
    by (intro files_ok_upd [OF ok]) simp
  then show ?thesis using assms(1) len by (auto simp: imported_files_def nth_upd_go)
qed

lemma found_file:
  assumes "files_ok n gs"
  shows "findImportedGoFile gs (Some t) = (if t < n then Some t else None)" and "findImportedGoFile gs None = None"
proof -
  have p: "j < n \<Longrightarrow> gfProtoFile (gs ! j) = j" and len: "length gs = n" for j
    using assms by (auto simp: files_ok_def)
  show "findImportedGoFile gs None = None" by (simp add: findImportedGoFile_def find_None_iff)
  have "findImportedGoFile gs (Some t) = List.find (\<lambda>j. j = t) [0..<n]"
    unfolding findImportedGoFile_def len by (rule find_cong) (auto simp: p)
  also have "\<dots> = (if t < n then Some t else None)"
  proof (cases "t < n")
    case True
    then have "List.find (\<lambda>j. j = t) [0..<n] = Some t"
      unfolding find_Some_iff by (intro exI [of _ t]) simp
    with True show ?thesis by simp
  qed (simp add: find_None_iff)
  finally show "findImportedGoFile gs (Some t) = (if t < n then Some t else None)" .
qed

lemma mapImport_ok:
  assumes "imported_files n (fst s)" and "mapImport P i imp s = Ret s'"
  shows "imported_files n (fst s')"
proof -
  have ok: "files_ok n (fst s)" using assms(1) by (simp add: imported_files_def)
  show ?thesis
    using assms AddProtoImport_ok [OF assms(1)] found_file [OF ok]
    by (cases "TargetFile imp") (auto simp: mapImport_def split: if_splits)
qed

lemma go_fold_inv:
  assumes "go_fold f xs s = Ret s'" and "I s" and "\<And>x s s'. x \<in> set xs \<Longrightarrow> I s \<Longrightarrow> f x s = Ret s' \<Longrightarrow> I s'"
  shows "I s'"
  using assms by (induction xs arbitrary: s) (auto simp: go_bind_Ret_iff)

lemma mapImports_ok:
  assumes "imported_files n gs" and "mapImports P gs = Ret (gs', errs)"
  shows "imported_files n gs'"
proof -
  have step: "imported_files n (fst s')" if "imported_files n (fst s)" "mapFileImports P i s = Ret s'" for i s s'
    using that(2) unfolding mapFileImports_def
    by (rule go_fold_inv [where I = "\<lambda>s. imported_files n (fst s)"]) (use that(1) mapImport_ok in auto)
  have "imported_files n (fst (gs', errs))"
    using assms(2) unfolding mapImports_def
    by (rule go_fold_inv [where I = "\<lambda>s. imported_files n (fst s)"]) (use assms(1) step in auto)
  then show ?thesis by simp
qed

lemma addTypes_file:
  "addTypes P g = g\<lparr>gfEnums := gfEnums g @ map (NewEnumType P) (Enums (files P ! gfProtoFile g)),
     gfStructs := gfStructs g @ map (NewStructType P) (Messages (files P ! gfProtoFile g))\<rparr>"
proof -
  have e: "fold (\<lambda>e. AddEnum (NewEnumType P e)) es g = g\<lparr>gfEnums := gfEnums g @ map (NewEnumType P) es\<rparr>" for es g
    by (induction es arbitrary: g) (simp_all add: AddEnum_def)
  have s: "fold (\<lambda>m. AddStruct (NewStructType P m)) ms g = g\<lparr>gfStructs := gfStructs g @ map (NewStructType P) ms\<rparr>" for ms g
    by (induction ms arbitrary: g) (simp_all add: AddStruct_def)
  show ?thesis by (simp add: addTypes_def e s Let_def)
qed

definition declared_files :: "string \<Rightarrow> program \<Rightarrow> go_files \<Rightarrow> go_files" where
  "declared_files root P gs =
     map (addTypes P) (map (\<lambda>target. target\<lparr>FullOutputPath := buildOutputPath P root target\<rparr>) gs)"

lemma nth_declared:
  "i < length gs \<Longrightarrow> declared_files root P gs ! i =
     addTypes P ((gs ! i)\<lparr>FullOutputPath := buildOutputPath P root (gs ! i)\<rparr>)"
  by (simp add: declared_files_def)

lemma declared_files_ok:
  assumes "imported_files n gs"
  shows "mapped_from n (declared_files root P gs) (declared_files root P gs)"
proof -
  let ?gs = "declared_files root P gs"
  have len: "length gs = n" and ok: "files_ok n gs" and e: "\<And>i. i < n \<Longrightarrow> gfStructs (gs ! i) = []"
    using assms by (auto simp: imported_files_def files_ok_def)
  have "map FullPackageName ?gs = map FullPackageName gs"
    by (simp add: declared_files_def addTypes_file)
  then have "files_ok n ?gs"
    using ok len by (simp add: files_ok_def nth_declared addTypes_file) (simp add: declared_files_def)
  moreover have "stFields s = []" if "g \<in> set ?gs" "s \<in> set (gfStructs g)" for g s
  proof -
    from that(1) obtain i where "i < n" "g = ?gs ! i" using len by (auto simp: in_set_conv_nth declared_files_def)
    then show ?thesis using that(2) e len by (auto simp: nth_declared addTypes_file NewStructType_def)
  qed
  ultimately show ?thesis by (simp add: mapped_from_def evolves_def fields_ok_def)
qed

text \<open>What the mapping returns, whatever the proto files are.\<close>

lemma MapProtoFiles_unfold:
  "MapProtoFiles root modulePath P =
     go_bind (mapImports P (map (new_file root modulePath P) [0..<length (files P)])) (\<lambda>(gs, errors).
       if errors \<noteq> [] then Ret ([], errors)
       else Ret (fold (mapFields P) [0..<length (declared_files root P gs)] (declared_files root P gs, [])))"
  by (auto simp: MapProtoFiles_def newFile_Inr comp_def declared_files_def Let_def list_ex_iff intro!: arg_cong [of _ _ "go_bind _"])

lemma MapProtoFiles_ok:
  assumes "MapProtoFiles root modulePath P = Ret (gs, errs)" and "gs \<noteq> []"
  shows "\<exists>gs0. mapped_from (length (files P)) gs0 gs"
proof -
  let ?n = "length (files P)"
  from assms obtain gs1 where m: "mapImports P (map (new_file root modulePath P) [0..<?n]) = Ret (gs1, [])"
    and f: "fold (mapFields P) [0..<length (declared_files root P gs1)] (declared_files root P gs1, []) = (gs, errs)"
    by (auto simp: MapProtoFiles_unfold go_bind_Ret_iff split: if_splits)
  have d: "mapped_from ?n (declared_files root P gs1) (declared_files root P gs1)"
    by (rule declared_files_ok [OF mapImports_ok [OF new_files m]])
  then have "length (declared_files root P gs1) = ?n" by (simp add: mapped_from_def evolves_def files_ok_def)
  then show ?thesis using all_mapFields_ok [of ?n _ "(declared_files root P gs1, [])" "[0..<?n]" P] d f by auto
qed

end
