(* ===== verification/Gen_Complete.thy ===== *)
theory Gen_Complete
  imports Gen_Soundness
begin

text \<open>
  The generator succeeds on what the front end resolves: when every import has its file and every
  field its type, mapping the imports covers all imported files (\<open>all_covered\<close>), every field is
  mapped to a Go type, and all texts are written.
\<close>

section \<open>Every resolved program is generated\<close>

text \<open>The proto file of an import is reachable: it is in the same package or behind an import.\<close>

definition covers :: "GoGeneratedFile \<Rightarrow> file_ptr \<Rightarrow> bool" where
  "covers g t \<longleftrightarrow> t \<in> set (samePackageImports g) \<or> (\<exists>imp \<in> set (gfImports g). t \<in> set (giGoFiles imp))"

lemma covers_extends: "extends g g' \<Longrightarrow> covers g t \<Longrightarrow> covers g' t"
  unfolding extends_def covers_def by metis

lemma covers_AddProtoImport: "covers (AddProtoImport gs j g) j" "covers g t \<Longrightarrow> covers (AddProtoImport gs j g) t"
proof -
  let ?p = "\<lambda>imp. giPath imp = FullPackageName (gs ! j)" and ?f = "\<lambda>imp. imp\<lparr>giGoFiles := giGoFiles imp @ [j]\<rparr>"
  have keep: "\<exists>imp' \<in> set (map_first ?p ?f xs). t \<in> set (giGoFiles imp')"
    if "imp \<in> set xs" "t \<in> set (giGoFiles imp)" for imp xs
    using map_first_keep [OF that(1), of ?p ?f] that(2) by (auto intro: bexI [of _ imp] bexI [of _ "?f imp"])
  then show "covers g t \<Longrightarrow> covers (AddProtoImport gs j g) t"
    by (auto simp: covers_def AddProtoImport_def Let_def)
  have "\<exists>imp \<in> set (map_first ?p ?f xs). j \<in> set (giGoFiles imp)" if "list_ex ?p xs" for xs
    using that by (induction xs) auto
  then show "covers (AddProtoImport gs j g) j"
    by (auto simp: covers_def AddProtoImport_def Let_def)
qed

definition imports_resolved :: "program \<Rightarrow> bool" where
  "imports_resolved P \<longleftrightarrow> (\<forall>f \<in> set (files P). \<forall>imp \<in> set (Imports f). \<exists>t < length (files P). TargetFile imp = Some t)"

text \<open>The state while the imports are mapped: the files before \<open>i\<close> cover their imports.\<close>

definition all_covered :: "program \<Rightarrow> go_files \<Rightarrow> nat \<Rightarrow> bool" where
  "all_covered P gs i \<longleftrightarrow> (\<forall>imp \<in> set (Imports (files P ! i)). \<forall>t. TargetFile imp = Some t \<longrightarrow> covers (gs ! i) t)"

lemma mapImport_Ret:
  assumes "imported_files n gs" and "TargetFile imp = Some t" and "t < n"
  shows "mapImport P i imp (gs, errs) = Ret (upd_go i (AddProtoImport gs t) gs, errs)"
  using assms found_file(1) [of n gs] by (simp add: mapImport_def imported_files_def)

lemma mapFileImports_Ret:
  assumes "imported_files n gs" and "i < n" and "\<forall>imp \<in> set imps. \<exists>t < n. TargetFile imp = Some t"
  shows "\<exists>gs'. go_fold (mapImport P i) imps (gs, errs) = Ret (gs', errs) \<and> imported_files n gs' \<and>
    (\<forall>k < n. \<forall>t. covers (gs ! k) t \<longrightarrow> covers (gs' ! k) t) \<and>
    (\<forall>imp \<in> set imps. \<forall>t. TargetFile imp = Some t \<longrightarrow> covers (gs' ! i) t)"
  using assms
proof (induction imps arbitrary: gs)
  case (Cons imp imps)
  then obtain t where t: "TargetFile imp = Some t" "t < n" by auto
  let ?gs = "upd_go i (AddProtoImport gs t) gs"
  have len: "length gs = n" using Cons.prems(1) by (simp add: imported_files_def files_ok_def)
  have "imported_files n ?gs" by (rule AddProtoImport_ok [OF Cons.prems(1) t(2)])
  then obtain gs' where gs': "go_fold (mapImport P i) imps (?gs, errs) = Ret (gs', errs)" "imported_files n gs'"
    "\<And>k t. k < n \<Longrightarrow> covers (?gs ! k) t \<Longrightarrow> covers (gs' ! k) t"
    "\<And>imp t. imp \<in> set imps \<Longrightarrow> TargetFile imp = Some t \<Longrightarrow> covers (gs' ! i) t"
    using Cons.IH [of ?gs] Cons.prems by auto
  have "covers (?gs ! k) u" if "k < n" "covers (gs ! k) u" for k u
    using that len covers_AddProtoImport(2) [of "gs ! k" u gs t] by (auto simp: nth_upd_go)
  moreover have "covers (?gs ! i) t" using len Cons.prems(2) covers_AddProtoImport(1) by (simp add: nth_upd_go)
  moreover have "go_fold (mapImport P i) (imp # imps) (gs, errs) = Ret (gs', errs)"
    using mapImport_Ret [OF Cons.prems(1) t, of P i errs] gs'(1) by simp
  ultimately show ?case
    using gs' t(1) Cons.prems(2) by (intro exI [of _ gs']) auto
qed simp

lemma mapImports_from_Ret:
  assumes "imports_resolved P" and "n = length (files P)" and "imported_files n gs" and "m \<le> n"
  shows "\<exists>gs'. go_fold (mapFileImports P) [m..<n] (gs, []) = Ret (gs', []) \<and> imported_files n gs' \<and>
    (\<forall>k < n. \<forall>t. covers (gs ! k) t \<longrightarrow> covers (gs' ! k) t) \<and> (\<forall>k. m \<le> k \<and> k < n \<longrightarrow> all_covered P gs' k)"
  using assms(3,4)
proof (induction "n - m" arbitrary: m gs)
  case 0
  then show ?case by (intro exI [of _ gs]) auto
next
  case (Suc d)
  then have m: "m < n" and d: "d = n - Suc m" by simp_all
  have "files P ! m \<in> set (files P)" using m assms(2) by simp
  then have imps: "\<forall>imp \<in> set (Imports (files P ! m)). \<exists>t < n. TargetFile imp = Some t"
    using assms(1,2) by (auto simp: imports_resolved_def)
  have p: "gfProtoFile (gs ! m) = m" using Suc.prems(1) m by (simp add: imported_files_def files_ok_def)
  obtain gs1 where gs1: "mapFileImports P m (gs, []) = Ret (gs1, [])" "imported_files n gs1"
    "\<And>k t. k < n \<Longrightarrow> covers (gs ! k) t \<Longrightarrow> covers (gs1 ! k) t" "all_covered P gs1 m"
    using mapFileImports_Ret [OF Suc.prems(1) m imps, of P "[]"] p by (auto simp: mapFileImports_def all_covered_def)
  obtain gs2 where gs2: "go_fold (mapFileImports P) [Suc m..<n] (gs1, []) = Ret (gs2, [])" "imported_files n gs2"
    "\<And>k t. k < n \<Longrightarrow> covers (gs1 ! k) t \<Longrightarrow> covers (gs2 ! k) t" "\<And>k. Suc m \<le> k \<Longrightarrow> k < n \<Longrightarrow> all_covered P gs2 k"
    using Suc.hyps(1) [of "Suc m" gs1, OF _ gs1(2)] d m by auto
  have "go_fold (mapFileImports P) [m..<n] (gs, []) = Ret (gs2, [])"
    using gs1(1) gs2(1) m by (simp add: upt_conv_Cons)
  moreover have "all_covered P gs2 k" if "m \<le> k" "k < n" for k
    using that gs1(4) gs2(3,4) by (cases "k = m") (auto simp: all_covered_def)
  ultimately show ?case using gs1(3) gs2(2,3) by (intro exI [of _ gs2]) auto
qed

text \<open>What the files declare for the proto files.\<close>

definition complete :: "program \<Rightarrow> go_files \<Rightarrow> bool" where
  "complete P gs \<longleftrightarrow> (\<forall>i < length (files P). all_covered P gs i \<and>
     map stProto (gfStructs (gs ! i)) = Messages (files P ! i) \<and> map enProto (gfEnums (gs ! i)) = Enums (files P ! i))"

lemma complete_evolves:
  assumes "complete P gs" and "evolves (length (files P)) gs gs'"
  shows "complete P gs'"
  unfolding complete_def
proof (intro allI impI)
  fix i assume i: "i < length (files P)"
  have e: "extends (gs ! i) (gs' ! i)"
    using assms(2) i by (auto simp: evolves_def files_ok_def list_all2_conv_all_nth)
  then have "map snd (map (\<lambda>s. (StructName s, stProto s)) (gfStructs (gs' ! i))) =
      map snd (map (\<lambda>s. (StructName s, stProto s)) (gfStructs (gs ! i)))"
    by (simp only: extends_def)
  then have "map stProto (gfStructs (gs' ! i)) = map stProto (gfStructs (gs ! i))" by (simp add: comp_def)
  then show "all_covered P gs' i \<and> map stProto (gfStructs (gs' ! i)) = Messages (files P ! i) \<and>
      map enProto (gfEnums (gs' ! i)) = Enums (files P ! i)"
    using assms(1) i e covers_extends [OF e] by (auto simp: complete_def all_covered_def extends_def)
qed

lemma covers_declared:
  "i < length gs \<Longrightarrow> covers (declared_files root P gs ! i) t = covers (gs ! i) t"
  by (simp add: nth_declared addTypes_file covers_def)

lemma NewEnumType_proto [simp]: "enProto (NewEnumType P e) = e"
  by (simp add: NewEnumType_def parseValues_def GoEnumType_parseName_def Let_def)

lemma declared_complete:
  assumes "imported_files (length (files P)) gs" and "\<forall>i < length (files P). all_covered P gs i"
  shows "complete P (declared_files root P gs)"
  using assms
  by (auto simp: complete_def imported_files_def files_ok_def all_covered_def covers_declared)
    (simp_all add: nth_declared addTypes_file NewStructType_def comp_def)


text \<open>A field that has a type: a scalar type, or exactly one of a local and an imported reference. A map
  has a scalar key type.\<close>

definition well_typed :: "program \<Rightarrow> ProtoFile \<Rightarrow> MessageFieldDefinition \<Rightarrow> bool" where
  "well_typed P f field \<longleftrightarrow>
     (Map field \<longrightarrow> MapKeyType field \<in> set ProtobufScalarTypes) \<and>
     (ScalarValueType field \<in> set ProtobufScalarTypes \<or>
      ScalarValueType field = [] \<and> ExternalTypeFile field = None \<and> ExternalEnumType field = None \<and>
        ExternalMsgType field = None \<and>
        ((\<exists>e \<in> set (Enums f). LocalEnumType field = Some e) \<or>
         LocalEnumType field = None \<and> (\<exists>a \<in> set (Messages f). LocalMsgType field = Some a)) \<or>
      ScalarValueType field = [] \<and> LocalEnumType field = None \<and> LocalMsgType field = None \<and>
        (case ExternalTypeFile field of None \<Rightarrow> False | Some t \<Rightarrow>
          (\<exists>imp \<in> set (Imports f). TargetFile imp = Some t) \<and>
          ((\<exists>e \<in> set (Enums (files P ! t)). ExternalEnumType field = Some e) \<or>
           ExternalEnumType field = None \<and> (\<exists>a \<in> set (Messages (files P ! t)). ExternalMsgType field = Some a))))"

lemma findInImports_complete:
  assumes "files_ok n gs" and "i < n" and "covers (gs ! i) t" and "decl (gs ! t) \<noteq> None"
  shows "snd (fst (findInImports decl i t gs)) \<noteq> None"
proof (cases "List.find (\<lambda>j. gfProtoFile (gs ! j) = t) (samePackageImports (gs ! i))")
  case (Some j)
  then have "gfProtoFile (gs ! j) = t" "j \<in> set (samePackageImports (gs ! i))" by (auto simp: find_Some_iff)
  then have "j = t" using imports_okD(1) [OF files_okD(3) [OF assms(1,2)]] assms(1) by (auto simp: files_ok_def)
  then show ?thesis using Some assms(4) by (simp add: findInImports_def)
next
  case None
  have p: "gfProtoFile (gs ! j) = j" if "imp \<in> set (gfImports (gs ! i))" "j \<in> set (giGoFiles imp)" for j imp
    using imports_okD(3) [OF files_okD(3) [OF assms(1,2)] that] assms(1) by (auto simp: files_ok_def)
  have "t \<notin> set (samePackageImports (gs ! i))"
  proof
    assume t: "t \<in> set (samePackageImports (gs ! i))"
    then have "gfProtoFile (gs ! t) = t"
      using imports_okD(1) [OF files_okD(3) [OF assms(1,2)]] assms(1) by (auto simp: files_ok_def)
    with t None show False by (auto simp: find_None_iff)
  qed
  then obtain imp' where i': "imp' \<in> set (gfImports (gs ! i))" "t \<in> set (giGoFiles imp')"
    using assms(3) by (auto simp: covers_def)
  then have "importsFile gs t imp'" using p by (auto simp: importsFile_def list_ex_iff)
  then obtain imp where imp: "List.find (importsFile gs t) (gfImports (gs ! i)) = Some imp"
    using i'(1) by (cases "List.find (importsFile gs t) (gfImports (gs ! i))") (auto simp: find_None_iff)
  then have "importsFile gs t imp" "imp \<in> set (gfImports (gs ! i))" by (auto simp: find_Some_iff)
  then have "t \<in> set (giGoFiles imp)" using p by (auto simp: importsFile_def list_ex_iff)
  then have "first_some (\<lambda>j. decl (gs ! j)) (giGoFiles imp) \<noteq> None"
    using assms(4) first_some_None [of "\<lambda>j. decl (gs ! j)" "giGoFiles imp"] by auto
  then show ?thesis using None imp by (simp add: findInImports_def)
qed

lemma find_proto: "a \<in> set (map f xs) \<Longrightarrow> List.find (\<lambda>x. Some (f x) = Some a) xs \<noteq> None"
  by (auto simp: find_None_iff)

lemma scalar_go_type: "k \<in> set ProtobufScalarTypes \<Longrightarrow> go_lookup goBasicTypesMap k \<noteq> [] \<and> k \<noteq> []"
  by (auto simp: go_lookup_def goBasicTypesMap_def ProtobufScalarTypes_def)

definition resolves :: "(type_error + GoFieldType) \<times> go_files \<Rightarrow> bool" where
  "resolves res \<longleftrightarrow> (\<exists>t. fst res = Inr t)"

lemma mapType_resolves:
  "Map field \<Longrightarrow> MapKeyType field \<in> set ProtobufScalarTypes \<Longrightarrow> \<exists>t. mapType field v = Inr t"
  using scalar_go_type by (simp add: mapType_def resolveMapKeyType_def Let_def)

lemma resolveScalarType_resolves:
  assumes "ScalarValueType field \<in> set ProtobufScalarTypes" and "Map field \<longrightarrow> MapKeyType field \<in> set ProtobufScalarTypes"
  shows "resolves (resolveScalarType i field gs)"
  using assms scalar_go_type [OF assms(1)] mapType_resolves [of field]
  by (auto simp: resolves_def resolveScalarType_def Let_def split: prod.split option.split)

lemma resolveMsgType_resolves:
  assumes "snd (fst (case ExternalTypeFile field of
      Some f \<Rightarrow> FindStructInImports i f (ExternalMsgType field) gs
    | None \<Rightarrow> (([], FindStruct (LocalMsgType field) (gs ! i)), gs))) \<noteq> None"
    and "Map field \<longrightarrow> MapKeyType field \<in> set ProtobufScalarTypes"
  shows "resolves (resolveMsgType i field gs)"
  using assms mapType_resolves [of field]
  by (auto simp: resolves_def resolveMsgType_def Let_def case_prod_beta split: option.splits)

lemma resolveEnumType_resolves:
  assumes "snd (fst (case ExternalTypeFile field of
      Some f \<Rightarrow> FindEnumInImports i f (ExternalEnumType field) gs
    | None \<Rightarrow> (([], FindEnum (LocalEnumType field) (gs ! i)), gs))) \<noteq> None"
    and "Map field \<longrightarrow> MapKeyType field \<in> set ProtobufScalarTypes"
  shows "resolves (resolveEnumType P i field gs)"
  using assms mapType_resolves [of field]
  by (auto simp: resolves_def resolveEnumType_def Let_def case_prod_beta split: option.splits)

lemma ResolveType_resolves:
  assumes "files_ok (length (files P)) gs" and "complete P gs" and "i < length (files P)"
    and "well_typed P (files P ! i) field" and "imports_resolved P"
  shows "resolves (ResolveType P i field gs)"
proof -
  have here: "set (map stProto (gfStructs (gs ! j))) = set (Messages (files P ! j))"
    "set (map enProto (gfEnums (gs ! j))) = set (Enums (files P ! j))" if "j < length (files P)" for j
    using assms(2) that by (simp_all add: complete_def)
  have m: "FindStruct (Some a) (gs ! j) \<noteq> None" if "j < length (files P)" "a \<in> set (Messages (files P ! j))" for a j
    using find_proto [of a stProto "gfStructs (gs ! j)"] here(1) [OF that(1)] that(2) by (simp add: FindStruct_def)
  have e: "FindEnum (Some a) (gs ! j) \<noteq> None" if "j < length (files P)" "a \<in> set (Enums (files P ! j))" for a j
    using find_proto [of a enProto "gfEnums (gs ! j)"] here(2) [OF that(1)] that(2) by (simp add: FindEnum_def)
  have c: "covers (gs ! i) t \<and> t < length (files P)" if "imp \<in> set (Imports (files P ! i))" "TargetFile imp = Some t" for imp t
  proof
    show "covers (gs ! i) t" using assms(2,3) that by (simp add: complete_def all_covered_def)
    show "t < length (files P)"
      using assms(5) that nth_mem [OF assms(3)] unfolding imports_resolved_def by (metis option.inject)
  qed
  note found = findInImports_complete [OF assms(1,3)]
  have k: "Map field \<longrightarrow> MapKeyType field \<in> set ProtobufScalarTypes" using assms(4) by (simp add: well_typed_def)
  consider (scalar) "ScalarValueType field \<in> set ProtobufScalarTypes"
    | (enum) e where "ScalarValueType field = []" "ExternalTypeFile field = None" "e \<in> set (Enums (files P ! i))"
        "LocalEnumType field = Some e"
    | (msg) a where "ScalarValueType field = []" "ExternalTypeFile field = None" "LocalEnumType field = None"
        "ExternalEnumType field = None" "a \<in> set (Messages (files P ! i))" "LocalMsgType field = Some a"
    | (ext_enum) imp t e where "ScalarValueType field = []" "imp \<in> set (Imports (files P ! i))" "TargetFile imp = Some t"
        "ExternalTypeFile field = Some t" "e \<in> set (Enums (files P ! t))" "ExternalEnumType field = Some e"
    | (ext_msg) imp t a where "ScalarValueType field = []" "imp \<in> set (Imports (files P ! i))" "TargetFile imp = Some t"
        "ExternalTypeFile field = Some t" "LocalEnumType field = None" "ExternalEnumType field = None"
        "a \<in> set (Messages (files P ! t))" "ExternalMsgType field = Some a"
    using assms(4) unfolding well_typed_def by (auto split: option.splits)
  then show ?thesis
  proof cases
    case scalar
    then show ?thesis using resolveScalarType_resolves [OF scalar k] scalar_go_type by (simp add: ResolveType_def)
  next
    case enum
    then have "resolves (resolveEnumType P i field gs)"
      using e [OF assms(3)] by (intro resolveEnumType_resolves [OF _ k]) simp
    then show ?thesis using enum by (simp add: ResolveType_def)
  next
    case msg
    then have "resolves (resolveMsgType i field gs)"
      using m [OF assms(3)] by (intro resolveMsgType_resolves [OF _ k]) simp
    then show ?thesis using msg by (simp add: ResolveType_def)
  next
    case ext_enum
    then have "resolves (resolveEnumType P i field gs)"
      using found [of t "FindEnum (Some e)"] c [of imp t] e [of t e]
      by (intro resolveEnumType_resolves [OF _ k]) (simp add: find_generic)
    then show ?thesis using ext_enum by (simp add: ResolveType_def)
  next
    case ext_msg
    then have "resolves (resolveMsgType i field gs)"
      using found [of t "FindStruct (Some a)"] c [of imp t] m [of t a]
      by (intro resolveMsgType_resolves [OF _ k]) (simp add: find_generic)
    then show ?thesis using ext_msg by (simp add: ResolveType_def)
  qed
qed

section \<open>The generator on a resolved program\<close>

definition program_typed :: "program \<Rightarrow> bool" where
  "program_typed P \<longleftrightarrow> (\<forall>f \<in> set (files P). \<forall>a \<in> set (Messages f). \<forall>field \<in> set (Fields (messages P ! a)).
     well_typed P f field)"

lemma mapField_complete:
  assumes "mapped_from (length (files P)) gs0 (fst s)" and "complete P gs0" and "i < length (files P)"
    and "well_typed P (files P ! i) d" and "imports_resolved P"
  shows "snd (mapField P i j d s) = snd s"
proof -
  have "files_ok (length (files P)) (fst s)" "complete P (fst s)"
    using assms(1,2) complete_evolves by (auto simp: mapped_from_def evolves_def)
  then have "resolves (ResolveType P i d (fst s))" using ResolveType_resolves assms(3-5) by blast
  then show ?thesis by (auto simp: mapField_def resolves_def split: prod.splits)
qed

lemma mapField_mapped:
  assumes "mapped_from n gs0 (fst s)" and "i < n"
  shows "mapped_from n gs0 (fst (mapField P i j d s))"
  using mapField_ok [of n s i P j d] assms evolves_trans unfolding mapped_from_def evolves_def
  using all_extends_trans by blast

lemma mapFields_complete:
  assumes "mapped_from (length (files P)) gs0 (fst s)" and "complete P gs0" and "i < length (files P)"
    and "program_typed P" and "imports_resolved P"
  shows "snd (mapFields P i s) = snd s"
proof -
  let ?n = "length (files P)" let ?f = "files P ! i"
  have p: "gfProtoFile (fst s ! i) = i" using assms(1,3) by (simp add: mapped_from_def evolves_def files_ok_def)
  have one: "mapped_from ?n gs0 (fst (fold (mapField P i j) ds s)) \<and> snd (fold (mapField P i j) ds s) = snd s"
    if "mapped_from ?n gs0 (fst s)" "\<forall>d \<in> set ds. well_typed P ?f d" for j ds s
    using that
    by (induction ds arbitrary: s)
      (simp_all add: mapField_mapped assms(3) mapField_complete [OF _ assms(2,3) _ assms(5)])
  have "mapped_from ?n gs0 (fst (fold (\<lambda>j. fold (mapField P i j) (Fields (messages P ! (Messages ?f ! j)))) js s)) \<and>
      snd (fold (\<lambda>j. fold (mapField P i j) (Fields (messages P ! (Messages ?f ! j)))) js s) = snd s"
    if "mapped_from ?n gs0 (fst s)" "\<forall>j \<in> set js. j < length (Messages ?f)" for js s
    using that
  proof (induction js arbitrary: s)
    case (Cons j js)
    have "Messages ?f ! j \<in> set (Messages ?f)" using Cons.prems(2) by simp
    then have "\<forall>d \<in> set (Fields (messages P ! (Messages ?f ! j))). well_typed P ?f d"
      using assms(4) nth_mem [OF assms(3)] unfolding program_typed_def by blast
    then show ?case using one [OF Cons.prems(1)] Cons by simp
  qed simp
  then show ?thesis using assms(1) p by (simp add: mapFields_def Let_def)
qed

lemma resolved_program_maps:
  assumes "imports_resolved P" and "program_typed P"
  shows "\<exists>gs1 gs. MapProtoFiles root modulePath P = Ret (gs, []) \<and> imported_files (length (files P)) gs1 \<and>
    mapped_from (length (files P)) (declared_files root P gs1) gs"
proof -
  let ?n = "length (files P)"
  let ?gs0 = "map (new_file root modulePath P) [0..<?n]"
  obtain gs1 where m: "mapImports P ?gs0 = Ret (gs1, [])" and ok: "imported_files ?n gs1"
    and cov: "\<forall>k < ?n. all_covered P gs1 k"
    using mapImports_from_Ret [OF assms(1) refl new_files [of ?n root modulePath P], of 0] by (auto simp: mapImports_def)
  let ?gs = "declared_files root P gs1"
  have c: "complete P ?gs" by (rule declared_complete [OF ok cov])
  have mp: "mapped_from ?n ?gs ?gs" by (rule declared_files_ok [OF ok])
  have "mapped_from ?n ?gs (fst (fold (mapFields P) is s)) \<and> snd (fold (mapFields P) is s) = snd s"
    if "mapped_from ?n ?gs (fst s)" "\<forall>i \<in> set is. i < ?n" for "is" s
    using that
    by (induction "is" arbitrary: s) (simp_all add: mapFields_ok mapFields_complete [OF _ c _ assms(2,1)])
  from this [of "(?gs, [])" "[0..<?n]"] mp
  have r: "mapped_from ?n ?gs (fst (fold (mapFields P) [0..<?n] (?gs, [])))" "snd (fold (mapFields P) [0..<?n] (?gs, [])) = []"
    by auto
  have "length ?gs = ?n" using mp by (simp add: mapped_from_def evolves_def files_ok_def)
  then have "MapProtoFiles root modulePath P = Ret (fold (mapFields P) [0..<?n] (?gs, []))"
    using m by (simp add: MapProtoFiles_unfold)
  then show ?thesis using r ok by (auto simp: prod_eq_iff)
qed

lemma mapped_writes:
  assumes "mapped_from n gs0 gs" and "g \<in> set gs"
  shows "rets (GenerateCode P g)"
  using assms by (intro file_writes) (auto simp: mapped_from_def fields_ok_def)

text \<open>Writing files whose text can be generated.\<close>

lemma written_files:
  assumes "\<forall>g \<in> set gs. rets (GenerateCode P g)"
  shows "\<exists>contents failed. length contents = length gs \<and>
    go_fold (\<lambda>target (written, errs, failed).
         go_bind (GenerateCode P target) (\<lambda>content.
           Ret (written @ [(FullOutputPath target, content)], errs,
             failed @ (case writeFile (FullOutputPath target) content of None \<Rightarrow> [] | Some e \<Rightarrow> [e]))))
      gs (written, errs, failed0) = Ret (written @ zip (map FullOutputPath gs) contents, errs, failed) \<and>
    (\<forall>i < length gs. GenerateCode P (gs ! i) = Ret (contents ! i))"
  using assms
proof (induction gs arbitrary: written failed0)
  case (Cons g gs)
  then obtain c where c: "GenerateCode P g = Ret c" by (auto simp: rets_def)
  have "\<forall>g \<in> set gs. rets (GenerateCode P g)" using Cons.prems by simp
  from Cons.IH [OF this, of "written @ [(FullOutputPath g, c)]"
      "failed0 @ (case writeFile (FullOutputPath g) c of None \<Rightarrow> [] | Some e \<Rightarrow> [e])"]
  obtain cs failed where "length cs = length gs"
    "go_fold (\<lambda>target (written, errs, failed).
         go_bind (GenerateCode P target) (\<lambda>content.
           Ret (written @ [(FullOutputPath target, content)], errs,
             failed @ (case writeFile (FullOutputPath target) content of None \<Rightarrow> [] | Some e \<Rightarrow> [e]))))
      gs (written @ [(FullOutputPath g, c)], errs, failed0 @ (case writeFile (FullOutputPath g) c of None \<Rightarrow> [] | Some e \<Rightarrow> [e])) =
      Ret ((written @ [(FullOutputPath g, c)]) @ zip (map FullOutputPath gs) cs, errs, failed)"
    "\<forall>i < length gs. GenerateCode P (gs ! i) = Ret (cs ! i)"
    by blast
  then show ?case using c by (intro exI [of _ "c # cs"] exI [of _ failed]) (auto simp: nth_Cons split: nat.split)
qed simp

lemma mapped_paths:
  assumes "imported_files n gs1" and "mapped_from n (declared_files root P gs1) gs"
  shows "map FullOutputPath gs = map (\<lambda>i. buildOutputPath P root (new_file root modulePath P i)) [0..<n]"
proof (rule nth_equalityI)
  have len: "length gs1 = n" "length gs = n"
    using assms by (auto simp: imported_files_def files_ok_def mapped_from_def evolves_def)
  then show "length (map FullOutputPath gs) = length (map (\<lambda>i. buildOutputPath P root (new_file root modulePath P i)) [0..<n])"
    by simp
  fix i assume "i < length (map FullOutputPath gs)"
  then have i: "i < n" using len by simp
  have "FullOutputPath (gs ! i) = FullOutputPath (declared_files root P gs1 ! i)"
    using assms(2) i len by (auto simp: mapped_from_def evolves_def list_all2_conv_all_nth extends_def)
  also have "\<dots> = buildOutputPath P root (gs1 ! i)" using i len by (simp add: nth_declared addTypes_file)
  also have "\<dots> = buildOutputPath P root (new_file root modulePath P i)"
    using assms(1) i by (simp add: buildOutputPath_def imported_files_def files_ok_def new_file_def)
  finally show "map FullOutputPath gs ! i = map (\<lambda>i. buildOutputPath P root (new_file root modulePath P i)) [0..<n] ! i"
    using i len by simp
qed

text \<open>
  On a program whose imports are resolved and whose fields have types, the generator always
  finishes: it reports no error of its own, none of its panics is reached, and it writes one file
  for every proto file, in order, at the path that its folder and package say.
\<close>

lemma resolved_program_generates:
  assumes "imports_resolved P" and "program_typed P"
  shows "\<exists>written failed. Generate writeFile root modulePath P = Ret (written, [], failed) \<and>
    map fst written = map (\<lambda>i. buildOutputPath P root (new_file root modulePath P i)) [0..<length (files P)]"
proof -
  obtain gs1 gs where g: "MapProtoFiles root modulePath P = Ret (gs, [])" "imported_files (length (files P)) gs1"
    "mapped_from (length (files P)) (declared_files root P gs1) gs"
    using resolved_program_maps [OF assms] by blast
  obtain cs failed where w: "length cs = length gs"
    "Generate writeFile root modulePath P = Ret (zip (map FullOutputPath gs) cs, [], failed)"
    using written_files [of gs P writeFile "[]" "[]" "[]"] mapped_writes [OF g(3)] g(1) by (auto simp: Generate_def)
  have "map fst (zip (map FullOutputPath gs) cs) = map FullOutputPath gs" using w(1) by simp
  then show ?thesis using w(2) mapped_paths [OF g(2,3), of modulePath] by auto
qed

text \<open>
  C26. The generated code refers only to declared names: whatever proto files are mapped, a field of a
  generated struct has a scalar type, or a type that a generated file of its own package declares, or
  one that a file of an imported package declares, and then the alias is that of an import which
  is marked as used and so is written out. No package is imported twice.
\<close>

theorem generated_types_declared:
  assumes "MapProtoFiles root modulePath P = Ret (gs, errs)" and "g \<in> set gs"
  shows "distinct (map giPath (gfImports g)) \<and>
    (\<forall>s \<in> set (gfStructs g). \<forall>f \<in> set (stFields s). type_declared gs g (fType f))"
proof -
  obtain gs0 where m: "mapped_from (length (files P)) gs0 gs"
    using MapProtoFiles_ok [OF assms(1)] assms(2) by fastforce
  from assms(2) obtain i where "i < length gs" "g = gs ! i" by (auto simp: in_set_conv_nth)
  then have "distinct (map giPath (gfImports g))"
    using m by (auto simp: mapped_from_def evolves_def files_ok_def imports_ok_def)
  moreover have "fields_ok gs" using m by (simp add: mapped_from_def)
  ultimately show ?thesis using assms(2) by (simp add: fields_ok_def)
qed

end
