(* ===== verification/Gen_Properties.thy ===== *)
theory Gen_Properties
  imports Gen_Complete
begin

text \<open>
  Properties of the Go generator beyond types: the tables of scalar types, the switch of an enum, where a
  file is written, import aliases, and an example of two files.
\<close>

section \<open>Scalar types\<close>

text \<open>
  The tables of the generator agree: for every protobuf scalar type there is a Go type, and the reader,
  writer and size functions it names are those of one and the same wire type; other type names
  are in none of the tables, and the packed types are those that are not strings or bytes.
\<close>

theorem scalar_tables_agree:
  "(t \<in> set ProtobufScalarTypes \<longrightarrow>
      go_lookup goBasicTypesMap t \<noteq> [] \<and>
      (\<exists>T. go_lookup bufBasicTypesReaders t = ''Read'' @ T \<and> go_lookup bufBasicTypesWriters t = ''Append'' @ T \<and>
         go_lookup bufBasicTypesSizers t = ''Size'' @ T) \<and>
      (t \<in> set canBePacked \<longleftrightarrow> t \<noteq> ''string'' \<and> t \<noteq> ''bytes'')) \<and>
   (t \<notin> set ProtobufScalarTypes \<longrightarrow>
      go_lookup goBasicTypesMap t = [] \<and> go_lookup bufBasicTypesReaders t = [] \<and>
      go_lookup bufBasicTypesWriters t = [] \<and> go_lookup bufBasicTypesSizers t = [] \<and> t \<notin> set canBePacked)"
  by (auto simp: ProtobufScalarTypes_def go_lookup_def goBasicTypesMap_def bufBasicTypesReaders_def
      bufBasicTypesWriters_def bufBasicTypesSizers_def canBePacked_def)

theorem scalar_tables_agree_witness:
  "\<exists>T. go_lookup bufBasicTypesReaders ''sint64'' = ''Read'' @ T \<and> go_lookup bufBasicTypesWriters ''sint64'' = ''Append'' @ T \<and>
     go_lookup bufBasicTypesSizers ''sint64'' = ''Size'' @ T"
proof -
  have "''sint64'' \<in> set ProtobufScalarTypes" by (simp add: ProtobufScalarTypes_def)
  then show ?thesis using scalar_tables_agree [of "''sint64''"] by blast
qed

section \<open>Enums\<close>

text \<open>The first value of every number.\<close>

fun firsts :: "int list \<Rightarrow> goEnumVariant list \<Rightarrow> goEnumVariant list" where
  "firsts used [] = []"
| "firsts used (v # vs) = (if vValue v \<in> set used then firsts used vs else v # firsts (vValue v # used) vs)"

lemma writeCases_firsts: "writeCases used vs = concat (map writeCase (firsts used vs))"
  by (induction used vs rule: firsts.induct) auto

lemma firsts_values:
  "distinct (map vValue (firsts used vs)) \<and> set (map vValue (firsts used vs)) = set (map vValue vs) - set used"
  by (induction used vs rule: firsts.induct) auto

lemma firsts_find:
  "n \<notin> set used \<Longrightarrow> List.find (\<lambda>v. vValue v = n) (firsts used vs) = List.find (\<lambda>v. vValue v = n) vs"
  by (induction used vs rule: firsts.induct) auto

text \<open>
  The generated \<^verbatim>\<open>String\<close> method of an enum has exactly one case for every number of the enum, so that
  the switch compiles when values are aliased, and the case of a number is that of its first value.
\<close>

theorem enum_cases_distinct:
  "\<exists>cases. writeEnumToString g =
     sprintf (code [(0, ''''), (0, ''func (e %v) String() string {''), (1, ''switch e {''), (0, '''')]) [EnumName g] @
     concat (map writeCase cases) @
     code [(1, ''default:''), (2, ''return '' @ [dq] @ [dq]), (1, ''}''), (0, ''}''), (0, '''')] \<and>
   distinct (map vValue cases) \<and> set (map vValue cases) = set (map vValue (enValues g)) \<and>
   (\<forall>n. List.find (\<lambda>v. vValue v = n) cases = List.find (\<lambda>v. vValue v = n) (enValues g))"
  using firsts_values [of "[]" "enValues g"] firsts_find [of _ "[]" "enValues g"]
  by (intro exI [of _ "firsts [] (enValues g)"]) (simp add: writeEnumToString_def writeCases_firsts)

section \<open>Paths\<close>

definition pkgDir :: "ProtoFile \<Rightarrow> string" where
  "pkgDir f =
     (let protoName = (case Package f of None \<Rightarrow> [] | Some pk \<Rightarrow> ProtoName (pkgName pk));
          dir = path_dir (RelativePath f)
      in trim_prefix (trim_prefix (if protoName \<noteq> [] then path_join [dir, protoName] else dir) ''.'') ''/'')"

definition goPackage :: "ProtoFile \<Rightarrow> string" where
  "goPackage f = (case Package f of None \<Rightarrow> [] | Some pk \<Rightarrow> PlatformName (pkgName pk) TargetPlatform_Go)"

text \<open>
  C33. Without a \<^verbatim>\<open>go_package\<close> option and with a module path, a generated file lies where its import
  path says: the same folder below the output root as below the module path. The folder is that of
  the proto file, extended by the last component of the proto package.
\<close>

theorem output_path_is_import_path:
  assumes "goPackage (files P ! gfProtoFile g) = []" and "modulePath \<noteq> []"
  shows "snd (getGoPackage root modulePath (files P ! gfProtoFile g)) =
      path_join [modulePath, pkgDir (files P ! gfProtoFile g)] \<and>
    buildOutputPath P root g = path_join [root, pkgDir (files P ! gfProtoFile g),
      trim_suffix (path_base (RelativePath (files P ! gfProtoFile g))) ProtoExtension @ PbGoExtension]"
  using assms by (auto simp: getGoPackage_def buildOutputPath_def pkgDir_def goPackage_def Let_def split: option.splits)

definition no_import_file :: "string \<Rightarrow> string \<Rightarrow> ProtoPackage option \<Rightarrow> ProtoFile" where
  "no_import_file full rel pk = \<lparr>Path = full, RelativePath = rel, Parsed = [], Proto2 = False, Package = pk,
     Imports = [], Enums = [], Messages = [], BaseFolder = []\<rparr>"

definition go_file_of :: "file_ptr \<Rightarrow> GoGeneratedFile" where
  "go_file_of i = \<lparr>gfImports = [], samePackageImports = [], gfEnums = [], gfStructs = [], gfProtoFile = i,
     FullPackageName = [], ShortPackageName = [], FullOutputPath = []\<rparr>"

theorem output_path_is_import_path_witness:
  "getGoPackage ''out'' ''norma/gen'' (no_import_file ''/p/arm/v1.proto'' ''arm/v1.proto'' (Some \<lparr>pkgName = ParseName ''norma.motors''\<rparr>)) =
     (''motors'', ''norma/gen/arm/motors'') \<and>
   buildOutputPath \<lparr>files = [no_import_file ''/p/arm/v1.proto'' ''arm/v1.proto'' (Some \<lparr>pkgName = ParseName ''norma.motors''\<rparr>)],
     messages = [], enums = []\<rparr> ''out'' (go_file_of 0) = ''out/arm/motors/v1.pb2.go''"
proof -
  let ?f = "no_import_file ''/p/arm/v1.proto'' ''arm/v1.proto'' (Some \<lparr>pkgName = ParseName ''norma.motors''\<rparr>)"
  let ?P = "\<lparr>files = [?f], messages = [], enums = []\<rparr>"
  have g: "files ?P ! gfProtoFile (go_file_of 0) = ?f" by (simp add: go_file_of_def)
  have "goPackage ?f = []" by code_simp
  then have r: "snd (getGoPackage ''out'' ''norma/gen'' ?f) = path_join [''norma/gen'', pkgDir ?f] \<and>
    buildOutputPath ?P ''out'' (go_file_of 0) = path_join [''out'', pkgDir ?f,
      trim_suffix (path_base (RelativePath ?f)) ProtoExtension @ PbGoExtension]"
    using output_path_is_import_path [of ?P "go_file_of 0" "''norma/gen''" "''out''"] unfolding g by simp
  have "pkgDir ?f = ''arm/motors''" "fst (getGoPackage ''out'' ''norma/gen'' ?f) = ''motors''"
    "trim_suffix (path_base (RelativePath ?f)) ProtoExtension @ PbGoExtension = ''v1.pb2.go''"
    "path_join [''norma/gen'', ''arm/motors''] = ''norma/gen/arm/motors''"
    "path_join [''out'', ''arm/motors'', ''v1.pb2.go''] = ''out/arm/motors/v1.pb2.go''" by code_simp+
  then show ?thesis using r by (simp add: prod_eq_iff)
qed

text \<open>
  Two proto files can get the same output path: one in a folder, the other above it with the folder's name
  as its package. The second file then overwrites the first.
\<close>

theorem output_paths_collide:
  "let P = \<lparr>files = [no_import_file ''/p/arm/x.proto'' ''arm/x.proto'' None,
       no_import_file ''/p/x.proto'' ''x.proto'' (Some \<lparr>pkgName = ParseName ''arm''\<rparr>)], messages = [], enums = []\<rparr>
   in buildOutputPath P ''out'' (go_file_of 0) = buildOutputPath P ''out'' (go_file_of 1)"
  by code_simp

text \<open>
  A proto file at the top of the source folder without a package gets the Go package name \<^verbatim>\<open>_\<close>, which
  Go does not accept.
\<close>

theorem root_file_package_name:
  "CHR ''/'' \<notin> set rel \<Longrightarrow> fst (getGoPackage root modulePath (no_import_file full rel None)) = ''_''"
proof -
  assume "CHR ''/'' \<notin> set rel"
  then have "path_dir rel = ''.''"
    by (simp add: path_dir_def split_no_sep path_clean_def has_prefix_def)
  moreover have "path_base ''.'' = ''.''" "cleanupPackageName ''.'' = ''_''" by code_simp+
  ultimately show ?thesis by (simp add: getGoPackage_def no_import_file_def Let_def)
qed

section \<open>Aliases\<close>

definition file_in :: "string \<Rightarrow> string \<Rightarrow> GoGeneratedFile" where
  "file_in full short = (go_file_of 0)\<lparr>FullPackageName := full, ShortPackageName := short\<rparr>"

text \<open>
  When a file imports three packages with the same short name, the second and the third get the same
  alias: only imports with the unnumbered alias are counted. The generated import block then
  declares a name twice.
\<close>

theorem third_alias_collides:
  assumes "distinct [own, p1, p2, p3]"
  shows "let gs = [file_in own n, file_in p1 a, file_in p2 a, file_in p3 a]
    in map giAlias (gfImports (AddProtoImport gs 3 (AddProtoImport gs 2 (AddProtoImport gs 1 (gs ! 0))))) =
      [a, a @ ''_1'', a @ ''_1'']"
proof -
  have "Itoa 1 = ''1''" by code_simp
  then show ?thesis
    using assms by (auto simp: AddProtoImport_def file_in_def go_file_of_def freshAlias_def)
qed

theorem third_alias_collides_witness:
  "let gs = [file_in ''m/own'' ''own'', file_in ''m/a/v1'' ''v1'', file_in ''m/b/v1'' ''v1'', file_in ''m/c/v1'' ''v1'']
   in map giAlias (gfImports (AddProtoImport gs 3 (AddProtoImport gs 2 (AddProtoImport gs 1 (gs ! 0))))) =
     [''v1'', ''v1_1'', ''v1_1'']"
  using third_alias_collides [of "''m/own''" "''m/a/v1''" "''m/b/v1''" "''m/c/v1''" "''own''" "''v1''"] by (simp add: Let_def)

section \<open>Example: two files\<close>

text \<open>A resolved program: the second file imports an enum and a message of the first.\<close>

definition plain_field :: "string \<Rightarrow> string \<Rightarrow> int \<Rightarrow> MessageFieldDefinition" where
  "plain_field full t n = newField (ParseName full) \<lparr>pfName = full, pfType = t, pfSequence = n, pfOptions = []\<rparr>"

definition robot_program :: program where
  "robot_program = \<lparr>files =
     [(no_import_file ''/p/arm/kinds.proto'' ''arm/kinds.proto'' (Some \<lparr>pkgName = ParseName ''arm''\<rparr>))\<lparr>Enums := [0], Messages := [0]\<rparr>,
      (no_import_file ''/p/arm/robot.proto'' ''arm/robot.proto'' (Some \<lparr>pkgName = ParseName ''robot''\<rparr>))
        \<lparr>Imports := [\<lparr>FSPath = ''kinds.proto'', TargetFile = Some 0, importKind = []\<rparr>], Messages := [1]\<rparr>],
     messages =
      [\<lparr>mdName = ParseName ''arm.Joint'', Fields = [(plain_field ''arm.Joint.goal'' ''uint32'' 1)\<lparr>Repeated := True, ScalarValueType := ''uint32''\<rparr>],
         mdProtoDef = \<lparr>pmName = ''Joint'', pmIsExtend = False, pmElements = []\<rparr>\<rparr>,
       \<lparr>mdName = ParseName ''robot.Robot'', Fields =
          [(plain_field ''robot.Robot.kind'' ''arm.Kind'' 1)\<lparr>ExternalEnumType := Some 0, ExternalTypeFile := Some 0\<rparr>,
           (plain_field ''robot.Robot.joints'' ''arm.Joint'' 2)\<lparr>Map := True, MapKeyType := ''string'', ExternalMsgType := Some 0, ExternalTypeFile := Some 0\<rparr>],
         mdProtoDef = \<lparr>pmName = ''Robot'', pmIsExtend = False, pmElements = []\<rparr>\<rparr>],
     enums = [extractEnum (Some \<lparr>pkgName = ParseName ''arm''\<rparr>) [] \<lparr>peName = ''Kind'', peFields = [Some \<lparr>efName = ''NONE'', efInteger = 0, efElements = []\<rparr>]\<rparr>]\<rparr>"

lemma robot_resolved: "imports_resolved robot_program" "program_typed robot_program" "length (files robot_program) = 2"
  by (simp_all add: robot_program_def imports_resolved_def program_typed_def well_typed_def no_import_file_def plain_field_def
      newField_def ProtobufScalarTypes_def)

lemma robot_program_generates:
  "\<exists>written failed. Generate (\<lambda>_ _. None) ''out'' ''gen'' robot_program = Ret (written, [], failed) \<and>
     map fst written = [''out/arm/arm/kinds.pb2.go'', ''out/arm/robot/robot.pb2.go'']"
proof -
  have "map (\<lambda>i. buildOutputPath robot_program ''out'' (new_file ''out'' ''gen'' robot_program i)) [0..<length (files robot_program)] =
      [''out/arm/arm/kinds.pb2.go'', ''out/arm/robot/robot.pb2.go'']" by code_simp
  then show ?thesis
    using resolved_program_generates [OF robot_resolved(1,2), of "\<lambda>_ _. None" "''out''" "''gen''"] by simp
qed

theorem generated_types_declared_witness:
  "\<exists>gs. MapProtoFiles ''out'' ''gen'' robot_program = Ret (gs, []) \<and> length gs = 2 \<and>
     list_all (\<lambda>s. list_all (\<lambda>f. type_declared gs (gs ! 1) (fType f)) (stFields s)) (gfStructs (gs ! 1))"
proof -
  obtain gs1 gs where m: "MapProtoFiles ''out'' ''gen'' robot_program = Ret (gs, [])"
    and d: "mapped_from (length (files robot_program)) (declared_files ''out'' robot_program gs1) gs"
    using resolved_program_maps [OF robot_resolved(1,2)] by blast
  have "length gs = 2" using d by (simp add: robot_resolved mapped_from_def evolves_def files_ok_def)
  then have "gs ! 1 \<in> set gs" by simp
  from generated_types_declared [OF m this] \<open>length gs = 2\<close> m show ?thesis by (auto simp: list_all_iff)
qed

end
