(* ===== verification/Source_Files.thy ===== *)
theory Source_Files
  imports Proto_Model
begin

text \<open>
  How \<^verbatim>\<open>gremlinc\<close> finds and reads its proto files,
  \<^verbatim>\<open>src/shared/gremlin_go/gremlinc/internal/paths.go\<close> and \<^verbatim>\<open>reader.go\<close>. The file system is a tree, walked
  as \<^verbatim>\<open>filepath.WalkDir\<close> walks it; opening a file and the parser package are arguments. The files are
  parsed by one goroutine each, as a step relation over the shared slices; every interleaving ends in
  the result of parsing them one after the other.
\<close>

section \<open>Walking the file system\<close>

text \<open>
  A directory has its entries by name, in the order in which they are read, and the error that reading
  it ends with, if any; the entries read up to then are walked all the same.
\<close>

datatype fs_tree = FileEntry | DirEntry (readError: "string option") (dirEntries: "(string \<times> fs_tree) list")

fun isDir :: "fs_tree \<Rightarrow> bool" where
  "isDir FileEntry = False"
| "isDir (DirEntry e es) = True"

text \<open>
  \<^verbatim>\<open>filepath.WalkDir\<close>: the callback gets the path, the entry (\<^term>\<open>None\<close> for nil) and the error, and
  its error ends the walk. It never asks to skip a directory here.
\<close>

type_synonym 's walk_fun = "string \<Rightarrow> bool option \<Rightarrow> string option \<Rightarrow> 's \<Rightarrow> 's go"

fun walkDir :: "'s walk_fun \<Rightarrow> string \<Rightarrow> fs_tree \<Rightarrow> 's \<Rightarrow> 's go"
  and walkEntries :: "'s walk_fun \<Rightarrow> string \<Rightarrow> (string \<times> fs_tree) list \<Rightarrow> 's \<Rightarrow> 's go" where
  "walkDir fn fpath FileEntry s = fn fpath (Some False) None s"
| "walkDir fn fpath (DirEntry e es) s =
     go_bind (fn fpath (Some True) None s) (\<lambda>s.
     go_bind (case e of None \<Rightarrow> Ret s | Some err \<Rightarrow> fn fpath (Some True) (Some err) s) (\<lambda>s.
       walkEntries fn fpath es s))"
| "walkEntries fn fpath [] s = Ret s"
| "walkEntries fn fpath ((n, t) # es) s =
     go_bind (walkDir fn (path_join [fpath, n]) t s) (walkEntries fn fpath es)"

definition WalkDir :: "(string \<Rightarrow> string + fs_tree) \<Rightarrow> string \<Rightarrow> 's walk_fun \<Rightarrow> 's \<Rightarrow> 's go" where
  "WalkDir lstat root fn s =
     (case lstat root of Inl err \<Rightarrow> fn root None (Some err) s | Inr t \<Rightarrow> walkDir fn root t s)"

text \<open>\<^verbatim>\<open>filepath.Abs\<close>, with the result of asking for the working directory.\<close>

definition path_abs :: "string + string \<Rightarrow> string \<Rightarrow> string go" where
  "path_abs getwd p =
     (if has_prefix p ''/'' then Ret (path_clean p)
      else case getwd of Inl err \<Rightarrow> Err err | Inr wd \<Rightarrow> Ret (path_join [wd, p]))"

section \<open>Finding the proto files\<close>

definition DefaultIgnorePatterns :: "string list" where
  "DefaultIgnorePatterns = [''node_modules'', ''vendor'', ''test_data'', ''.git'']"

definition buildRelativePath :: "string \<Rightarrow> string \<Rightarrow> string go" where
  "buildRelativePath root fpath =
     (if \<not> has_prefix fpath root then Panic
      else Ret (trim_prefix (trim_prefix fpath root) ''/''))"

definition newProtoFile :: "string \<Rightarrow> string \<Rightarrow> ProtoFile" where
  "newProtoFile fpath relative = \<lparr>Path = fpath, RelativePath = relative, Parsed = [], Proto2 = False,
     Package = None, Imports = [], Enums = [], Messages = [], BaseFolder = []\<rparr>"

text \<open>The callback. A nil entry is dereferenced by the first condition.\<close>

definition visitPath :: "string list \<Rightarrow> string \<Rightarrow> ProtoFile list walk_fun" where
  "visitPath ignorePatterns absCwd filePath info err fs =
     (case info of
        None \<Rightarrow> Panic
      | Some dir \<Rightarrow>
          if dir \<or> \<not> has_suffix filePath ProtoExtension then Ret fs
          else if list_ex (\<lambda>part. part \<in> set ignorePatterns) (split_on (CHR ''/'') filePath) then Ret fs
          else go_bind (buildRelativePath absCwd filePath) (\<lambda>relative.
            case err of
              None \<Rightarrow> Ret (fs @ [newProtoFile filePath relative])
            | Some e \<Rightarrow> Err e))"

definition FindAllProtobufFiles ::
  "string + string \<Rightarrow> (string \<Rightarrow> string + fs_tree) \<Rightarrow> string \<Rightarrow> string list \<Rightarrow> ProtoFile list go" where
  "FindAllProtobufFiles getwd lstat cwd ignorePatterns =
     go_bind (path_abs getwd cwd) (\<lambda>absCwd.
       WalkDir lstat absCwd (visitPath ignorePatterns absCwd) [])"

section \<open>Parsing the files\<close>

text \<open>What a goroutine stores: the error of opening or parsing its file, or the parsed file.\<close>

definition parseFile :: "(string \<Rightarrow> string + 'c) \<Rightarrow> ('c \<Rightarrow> string + visitee list) \<Rightarrow> ProtoFile \<Rightarrow> string + visitee list" where
  "parseFile open parse f = (case open (Path f) of Inl err \<Rightarrow> Inl err | Inr content \<Rightarrow> parse content)"

record parse_state =
  psFiles :: "ProtoFile list"
  psErrors :: "string option list"
  psRunning :: "nat set"

definition parseStart :: "ProtoFile list \<Rightarrow> parse_state" where
  "parseStart fs = \<lparr>psFiles = fs, psErrors = replicate (length fs) None, psRunning = {..<length fs}\<rparr>"

definition parseGoroutine :: "(ProtoFile \<Rightarrow> string + visitee list) \<Rightarrow> nat \<Rightarrow> parse_state \<Rightarrow> parse_state" where
  "parseGoroutine p i s =
     (case p (psFiles s ! i) of
        Inl err \<Rightarrow> s\<lparr>psErrors := (psErrors s)[i := Some err], psRunning := psRunning s - {i}\<rparr>
      | Inr es \<Rightarrow> s\<lparr>psFiles := (psFiles s)[i := (psFiles s ! i)\<lparr>Parsed := es\<rparr>], psRunning := psRunning s - {i}\<rparr>)"

text \<open>Any goroutine that has not finished may be the next one to store its result.\<close>

inductive parse_step :: "(ProtoFile \<Rightarrow> string + visitee list) \<Rightarrow> parse_state \<Rightarrow> parse_state \<Rightarrow> bool" for p where
  finish: "i \<in> psRunning s \<Longrightarrow> parse_step p s (parseGoroutine p i s)"

text \<open>After \<^verbatim>\<open>wg.Wait\<close>: the first error in the order of the files, with the file it is for.\<close>

definition parseResult :: "parse_state \<Rightarrow> (ProtoFile \<times> string) + ProtoFile list" where
  "parseResult s =
     (case List.find (\<lambda>i. psErrors s ! i \<noteq> None) [0..<length (psErrors s)] of
        Some i \<Rightarrow> Inl (psFiles s ! i, the (psErrors s ! i))
      | None \<Rightarrow> Inr (psFiles s))"

definition ParseProtoFiles :: "(ProtoFile \<Rightarrow> string + visitee list) \<Rightarrow> ProtoFile list \<Rightarrow> (ProtoFile \<times> string) + ProtoFile list" where
  "ParseProtoFiles p fs = parseResult (fold (parseGoroutine p) [0..<length fs] (parseStart fs))"

section \<open>The files that are found\<close>

text \<open>The files of a tree, each by the names that lead to it.\<close>

fun treeFiles :: "fs_tree \<Rightarrow> string list list" where
  "treeFiles FileEntry = [[]]"
| "treeFiles (DirEntry e es) = concat (map (\<lambda>(n, t). map ((#) n) (treeFiles t)) es)"

fun properTree :: "fs_tree \<Rightarrow> bool" where
  "properTree FileEntry = True"
| "properTree (DirEntry e es) = list_all (\<lambda>(n, t). proper n \<and> properTree t) es"

definition wantedFile :: "string list \<Rightarrow> string list \<Rightarrow> bool" where
  "wantedFile ignorePatterns ns \<longleftrightarrow> has_suffix (abs_path ns) ProtoExtension \<and> set ([] # ns) \<inter> set ignorePatterns = {}"

definition foundFile :: "string list \<Rightarrow> string list \<Rightarrow> ProtoFile" where
  "foundFile ps ns = newProtoFile (abs_path (ps @ ns)) (join ''/'' ns)"

lemma join_append: "ps \<noteq> [] \<Longrightarrow> ns \<noteq> [] \<Longrightarrow> join sep (ps @ ns) = join sep ps @ sep @ join sep ns"
proof (induction ps)
  case (Cons p ps)
  then show ?case by (cases ps; cases ns) auto
qed simp

lemma proper_join: "list_all proper ns \<Longrightarrow> \<not> has_prefix (join ''/'' ns) ''/''"
  by (cases ns rule: join.cases [of "(''/'', ns)" for ns, simplified])
    (auto simp: proper_def has_prefix_iff neq_Nil_conv Cons_eq_append_conv)

lemma relative_path:
  assumes "list_all proper ps" and "list_all proper ns"
  shows "buildRelativePath (abs_path ps) (abs_path (ps @ ns)) = Ret (join ''/'' ns)"
proof -
  consider "ns = []" | "ps = []" "ns \<noteq> []" | "ps \<noteq> []" "ns \<noteq> []" by blast
  then show ?thesis
  proof cases
    case 1
    then show ?thesis using has_prefix_append [of _ "[]"] trim_prefix_append [of _ "[]"]
      by (simp add: buildRelativePath_def trim_prefix_def [of "[]"] has_prefix_def)
  next
    case 2
    then show ?thesis using proper_join [OF assms(2)]
      by (simp add: buildRelativePath_def abs_path_def trim_prefix_def)
  next
    case 3
    then show ?thesis 
      using trim_prefix_append [of "''/'' @ join ''/'' ps" "''/'' @ join ''/'' ns"] has_prefix_append [of "''/'' @ join ''/'' ps" "''/'' @ join ''/'' ns"]
      by (simp add: buildRelativePath_def abs_path_def join_append trim_prefix_append [of "''/''", simplified])
  qed
qed

lemma visit_file:
  assumes "list_all proper ps" and "list_all proper ns"
  shows "visitPath ig (abs_path ps) (abs_path (ps @ ns)) (Some False) None fs =
    Ret (fs @ map (foundFile ps) (filter (\<lambda>ns. wantedFile ig (ps @ ns)) [ns]))"
proof -
  have "set (split_on (CHR ''/'') (abs_path (ps @ ns))) = insert [] (set (ps @ ns))"
    using assms by (subst split_abs_path) auto
  then have "list_ex (\<lambda>part. part \<in> set ig) (split_on (CHR ''/'') (abs_path (ps @ ns))) \<longleftrightarrow> set ([] # ps @ ns) \<inter> set ig \<noteq> {}"
    by (auto simp: list_ex_iff)
  then show ?thesis
    using relative_path [OF assms] by (auto simp: visitPath_def wantedFile_def foundFile_def)
qed

lemma walk_finds:
  assumes "list_all proper ps"
  shows "list_all proper ns \<Longrightarrow> properTree t \<Longrightarrow>
    walkDir (visitPath ig (abs_path ps)) (abs_path (ps @ ns)) t fs =
      Ret (fs @ map (foundFile ps) (filter (\<lambda>ns. wantedFile ig (ps @ ns)) (map ((@) ns) (treeFiles t))))"
proof (induction t arbitrary: ns fs rule: treeFiles.induct)
  case 1
  then show ?case using visit_file [OF assms 1(1)] by simp
next
  case (2 e es)
  have "walkEntries (visitPath ig (abs_path ps)) (abs_path (ps @ ns)) es' fs =
      Ret (fs @ map (foundFile ps) (filter (\<lambda>ns. wantedFile ig (ps @ ns)) (map ((@) ns) (treeFiles (DirEntry e es')))))"
    if "set es' \<subseteq> set es" for es' fs
    using that
  proof (induction es' arbitrary: fs)
    case (Cons x es')
    obtain n t where x: "x = (n, t)" by (rule prod.exhaust)
    have n: "proper n" "properTree t" using Cons.prems 2(3) x by (auto simp: list_all_iff)
    have "path_join [abs_path (ps @ ns), n] = abs_path (ps @ ns @ [n])"
      using join_abs_path [of "ps @ ns" "[n]"] assms 2(2) n by simp
    then have w: "walkDir (visitPath ig (abs_path ps)) (path_join [abs_path (ps @ ns), n]) t fs =
        Ret (fs @ map (foundFile ps) (filter (\<lambda>ns. wantedFile ig (ps @ ns)) (map (\<lambda>a. ns @ n # a) (treeFiles t))))" for fs
      using 2(1) [OF _ x [symmetric], of "ns @ [n]" fs] Cons.prems n 2(2) by simp
    have m: "map ((@) ns) (map ((#) n) xs) = map (\<lambda>a. ns @ n # a) xs" for xs by simp
    show ?case unfolding x walkEntries.simps w go_bind.simps treeFiles.simps list.map prod.case concat.simps map_append m filter_append
      using Cons.IH Cons.prems by simp
  qed simp
  from this [of es] show ?case by (cases e) (simp_all add: visitPath_def [of _ _ _ "Some True"])
qed

lemma found_all:
  assumes "list_all proper ps" and "properTree t" and "lstat (abs_path ps) = Inr t"
  shows "FindAllProtobufFiles getwd lstat (abs_path ps) ignorePatterns =
    Ret (map (foundFile ps) (filter (\<lambda>ns. wantedFile ignorePatterns (ps @ ns)) (treeFiles t)))"
proof -
  have "path_abs getwd (abs_path ps) = Ret (abs_path ps)"
    using clean_abs_path [OF assms(1)] by (simp add: path_abs_def abs_path_def)
  then show ?thesis
    using walk_finds [OF assms(1) _ assms(2), of "[]" ignorePatterns "[]"] assms(3) map_idI [of "treeFiles t" "(@) []"]
    by (simp add: FindAllProtobufFiles_def WalkDir_def)
qed

section \<open>Every order of parsing gives the same result\<close>

definition fileAfter :: "(ProtoFile \<Rightarrow> string + visitee list) \<Rightarrow> ProtoFile \<Rightarrow> ProtoFile" where
  "fileAfter p f = (case p f of Inl _ \<Rightarrow> f | Inr es \<Rightarrow> f\<lparr>Parsed := es\<rparr>)"

definition errorAfter :: "(ProtoFile \<Rightarrow> string + visitee list) \<Rightarrow> ProtoFile \<Rightarrow> string option" where
  "errorAfter p f = (case p f of Inl err \<Rightarrow> Some err | Inr _ \<Rightarrow> None)"

text \<open>The state is determined by which goroutines are still running.\<close>

definition parseState :: "(ProtoFile \<Rightarrow> string + visitee list) \<Rightarrow> ProtoFile list \<Rightarrow> nat set \<Rightarrow> parse_state" where
  "parseState p fs R = \<lparr>psFiles = map (\<lambda>i. if i \<in> R then fs ! i else fileAfter p (fs ! i)) [0..<length fs],
     psErrors = map (\<lambda>i. if i \<in> R then None else errorAfter p (fs ! i)) [0..<length fs], psRunning = R\<rparr>"

lemma parseState_start: "parseStart fs = parseState p fs {..<length fs}"
  by (auto simp: parseStart_def parseState_def intro!: nth_equalityI)

lemma parseState_goroutine:
  assumes "i \<in> R" and "i < length fs"
  shows "parseGoroutine p i (parseState p fs R) = parseState p fs (R - {i})"
proof (cases "p (fs ! i)")
  case (Inl err)
  have f: "fileAfter p (fs ! i) = fs ! i" "errorAfter p (fs ! i) = Some err" using Inl by (simp_all add: fileAfter_def errorAfter_def)
  have "(psErrors (parseState p fs R))[i := Some err] = psErrors (parseState p fs (R - {i}))"
    by (rule nth_equalityI) (auto simp: parseState_def nth_list_update f assms)
  moreover have "psFiles (parseState p fs R) = psFiles (parseState p fs (R - {i}))"
    by (rule nth_equalityI) (auto simp: parseState_def f)
  moreover have "psFiles (parseState p fs R) ! i = fs ! i" using assms by (simp add: parseState_def)
  ultimately show ?thesis using Inl by (simp add: parseGoroutine_def) (simp add: parseState_def)
next
  case (Inr es)
  have f: "fileAfter p (fs ! i) = (fs ! i)\<lparr>Parsed := es\<rparr>" "errorAfter p (fs ! i) = None" using Inr by (simp_all add: fileAfter_def errorAfter_def)
  have "(psFiles (parseState p fs R))[i := (fs ! i)\<lparr>Parsed := es\<rparr>] = psFiles (parseState p fs (R - {i}))"
    by (rule nth_equalityI) (auto simp: parseState_def nth_list_update f assms(2))
  moreover have "psErrors (parseState p fs R) = psErrors (parseState p fs (R - {i}))"
    by (rule nth_equalityI) (auto simp: parseState_def f)
  moreover have "psFiles (parseState p fs R) ! i = fs ! i" using assms by (simp add: parseState_def)
  ultimately show ?thesis using Inr by (simp add: parseGoroutine_def) (simp add: parseState_def)
qed

lemma parse_reachable:
  "(parse_step p)\<^sup>*\<^sup>* (parseStart fs) s \<Longrightarrow> \<exists>R \<subseteq> {..<length fs}. s = parseState p fs R"
proof (induction rule: rtranclp_induct)
  case base
  show ?case using parseState_start by blast
next
  case (step s s')
  then obtain R i where r: "R \<subseteq> {..<length fs}" "s = parseState p fs R" "i \<in> R" "s' = parseGoroutine p i s"
    by (auto elim!: parse_step.cases simp: parseState_def)
  then have "s' = parseState p fs (R - {i})" using parseState_goroutine by auto
  then show ?case using r(1) by blast
qed

lemma sequential_parsed:
  "k \<le> length fs \<Longrightarrow> fold (parseGoroutine p) [0..<k] (parseStart fs) = parseState p fs {k..<length fs}"
proof (induction k)
  case 0
  then show ?case by (simp add: parseState_start [of fs p] lessThan_atLeast0)
next
  case (Suc k)
  have "{k..<length fs} - {k} = {Suc k..<length fs}" by auto
  then show ?case using Suc parseState_goroutine [of k "{k..<length fs}" fs p] by simp
qed

text \<open>
  C35. Whatever the order in which the goroutines finish, parsing ends, and it ends with the result of
  parsing the files one after the other: no run gets stuck, every step ends a goroutine, and when
  none is left the result is that of the sequential order.
\<close>

theorem parsing_order_irrelevant:
  assumes "(parse_step p)\<^sup>*\<^sup>* (parseStart fs) s"
  shows "(psRunning s = {} \<longrightarrow> parseResult s = ParseProtoFiles p fs) \<and>
    (psRunning s \<noteq> {} \<longrightarrow> (\<exists>s'. parse_step p s s')) \<and>
    (\<forall>s'. parse_step p s s' \<longrightarrow> card (psRunning s') < card (psRunning s))"
proof -
  obtain R where r: "R \<subseteq> {..<length fs}" "s = parseState p fs R" using parse_reachable [OF assms] by blast
  then have R: "psRunning s = R" "finite R" by (auto simp: parseState_def intro: finite_subset)
  have "ParseProtoFiles p fs = parseResult (parseState p fs {})"
    using sequential_parsed [of "length fs" fs p] by (simp add: ParseProtoFiles_def)
  moreover have "card (psRunning s') < card (psRunning s)" if step: "parse_step p s s'" for s'
  proof -
    obtain i where i: "i \<in> R" "s' = parseGoroutine p i s" using step R by (auto elim: parse_step.cases)
    then have "s' = parseState p fs (R - {i})" using parseState_goroutine r by auto
    then show ?thesis using R i card_Diff1_less [of R i] by (simp add: parseState_def del: card_Diff_insert)
  qed
  moreover have "\<exists>s'. parse_step p s s'" if "R \<noteq> {}" using that parse_step.finish [of _ s p] R(1) by blast
  ultimately show ?thesis using r R by simp
qed

text \<open>Parsing returns the files with their contents, or the first error.\<close>

lemma ParseProtoFiles_Inr:
  assumes "ParseProtoFiles p fs = Inr gs"
  shows "length gs = length fs \<and> gs = map (fileAfter p) fs \<and> list_all (\<lambda>f. \<not> isl (p f)) fs"
proof -
  have s: "ParseProtoFiles p fs = parseResult (parseState p fs {})"
    using sequential_parsed [of "length fs" fs p] by (simp add: ParseProtoFiles_def)
  have m: "map (\<lambda>i. g (fs ! i)) [0..<length fs] = map g fs" for g :: "ProtoFile \<Rightarrow> 'x"
    by (rule nth_equalityI) simp_all
  from assms have "gs = map (fileAfter p) fs" and "\<forall>i < length fs. errorAfter p (fs ! i) = None"
    unfolding s by (auto simp: parseResult_def parseState_def m find_None_iff split: option.splits)
  then show ?thesis
    by (auto simp: list_all_length errorAfter_def isl_def split: sum.splits)
qed

section \<open>Example: three files, one of which cannot be parsed\<close>

definition demo_parse :: "ProtoFile \<Rightarrow> string + visitee list" where
  "demo_parse f = (if Path f = ''b.proto'' then Inl ''syntax error'' else Inr [VPackage (Path f)])"

definition demo_files :: "ProtoFile list" where
  "demo_files = map (\<lambda>p. newProtoFile p p) [''a.proto'', ''b.proto'', ''c.proto'']"

definition demo_run :: parse_state where
  "demo_run = fold (parseGoroutine demo_parse) [2, 0, 1] (parseStart demo_files)"

lemma demo_run_reachable: "(parse_step demo_parse)\<^sup>*\<^sup>* (parseStart demo_files) demo_run"
proof -
  let ?g = "parseGoroutine demo_parse" and ?s = "parseStart demo_files"
  have R: "psRunning ?s = {0, 1, 2}" by (auto simp: parseStart_def demo_files_def)
  have run: "psRunning (?g i s) = psRunning s - {i}" for i s by (simp add: parseGoroutine_def split: sum.split)
  have "parse_step demo_parse ?s (?g 2 ?s)" "parse_step demo_parse (?g 2 ?s) (?g 0 (?g 2 ?s))"
    "parse_step demo_parse (?g 0 (?g 2 ?s)) (?g 1 (?g 0 (?g 2 ?s)))"
    by (simp_all add: parse_step.finish run R)
  then show ?thesis by (simp add: demo_run_def)
qed

theorem parsing_order_irrelevant_witness:
  "parseResult demo_run = ParseProtoFiles demo_parse demo_files \<and> parseResult demo_run = Inl (demo_files ! 1, ''syntax error'')"
proof
  have "psRunning demo_run = {}" by (auto simp: demo_run_def parseGoroutine_def parseStart_def demo_files_def split: sum.splits)
  then show "parseResult demo_run = ParseProtoFiles demo_parse demo_files"
    using parsing_order_irrelevant [OF demo_run_reachable] by simp
  show "parseResult demo_run = Inl (demo_files ! 1, ''syntax error'')"
    by (simp add: demo_run_def demo_files_def parseGoroutine_def parseStart_def demo_parse_def newProtoFile_def parseResult_def)
qed

end
