(* ===== verification/Compiler.thy ===== *)
theory Compiler
  imports Gen_Properties Source_Files
begin

text \<open>
  The compiler as \<^verbatim>\<open>gremlinc/main.go\<close> composes it: parsing, resolving imports and references, and
  generating the Go files. The lemmas follow a program through the passes of
  \<^verbatim>\<open>ResolveImportsAndReferences\<close>: every message belongs to one file (\<open>owned\<close>), no field is resolved before the
  references pass (\<open>clean\<close>), every import has a target once the imports pass has reported no error
  (\<open>targeted\<close>), and every field has a type once the references pass has reported none. What comes out is
  what the generator needs.
\<close>

section \<open>Messages that belong to one file\<close>

lemma nth_upd_file: "j < length (files P) \<Longrightarrow> files (upd_file i g P) ! j = (if j = i then g (files P ! j) else files P ! j)"
  by (simp add: upd_file_def)

definition owned :: "program \<Rightarrow> bool" where
  "owned P \<longleftrightarrow> (\<forall>i < length (files P). distinct (Messages (files P ! i)) \<and>
     (\<forall>a \<in> set (Messages (files P ! i)). a < length (messages P) \<and>
        (\<forall>j < length (files P). j \<noteq> i \<longrightarrow> a \<notin> set (Messages (files P ! j)))))"

text \<open>A field as the parser makes it, or a copy of one: no reference is set.\<close>

definition unresolved :: "MessageFieldDefinition \<Rightarrow> bool" where
  "unresolved f \<longleftrightarrow> scalar_or_empty (ScalarValueType f) \<and> (Map f \<longrightarrow> MapKeyType f \<in> set ProtobufScalarTypes) \<and>
     LocalEnumType f = None \<and> LocalMsgType f = None \<and> ExternalTypeFile f = None \<and>
     ExternalEnumType f = None \<and> ExternalMsgType f = None"

definition clean :: "program \<Rightarrow> bool" where
  "clean P \<longleftrightarrow> (\<forall>m \<in> set (messages P). \<forall>f \<in> set (Fields m). unresolved f)"

text \<open>Updates of files that change neither their messages nor their number.\<close>

lemma owned_upd_file:
  assumes "\<And>f. Messages (g f) = Messages f"
  shows "owned (upd_file i g P) = owned P"
  using assms by (auto simp: owned_def nth_upd_file)

lemma owned_upd_msg [simp]: "owned (upd_msg a h P) = owned P"
  by (simp add: owned_def)

lemma ownedD:
  assumes "owned P" and "i < length (files P)"
  shows "distinct (Messages (files P ! i))"
    and "a \<in> set (Messages (files P ! i)) \<Longrightarrow> a < length (messages P)"
    and "a \<in> set (Messages (files P ! i)) \<Longrightarrow> j < length (files P) \<Longrightarrow> j \<noteq> i \<Longrightarrow> a \<notin> set (Messages (files P ! j))"
  using assms unfolding owned_def by blast+

lemma owned_filter:
  assumes "owned P"
  shows "owned (upd_file i (\<lambda>f. f\<lparr>Messages := filter p (Messages f)\<rparr>) P)"
    (is "owned ?Q")
proof -
  have m: "Messages (files ?Q ! j) = (if j = i then filter p (Messages (files P ! j)) else Messages (files P ! j))"
    if "j < length (files P)" for j
    using that by (simp add: nth_upd_file)
  then have "set (Messages (files ?Q ! j)) \<subseteq> set (Messages (files P ! j))" if "j < length (files P)" for j
    using that by auto
  moreover have "distinct (Messages (files ?Q ! j))" if "j < length (files P)" for j
    using that m ownedD(1) [OF assms] by simp
  ultimately show ?thesis
    unfolding owned_def upd_simps using ownedD(2,3) [OF assms] by blast
qed

lemma owned_new:
  assumes "owned P" and "i < length (files P)"
  shows "owned (upd_file i (\<lambda>f. f\<lparr>Messages := Messages f @ [length (messages P)]\<rparr>) (P\<lparr>messages := messages P @ [m]\<rparr>))"
    (is "owned ?Q")
proof -
  let ?n = "length (messages P)"
  have m: "set (Messages (files ?Q ! j)) = set (Messages (files P ! j)) \<union> (if j = i then {?n} else {})"
    if "j < length (files P)" for j
    using that by (simp add: nth_upd_file)
  have n: "?n \<notin> set (Messages (files P ! j))" if "j < length (files P)" for j
    using ownedD(2) [OF assms(1) that] by blast
  have d: "distinct (Messages (files ?Q ! j))" if "j < length (files P)" for j
    using that n ownedD(1) [OF assms(1)] by (simp add: nth_upd_file)
  have "a < Suc ?n \<and> (\<forall>k < length (files P). k \<noteq> j \<longrightarrow> a \<notin> set (Messages (files ?Q ! k)))"
    if j: "j < length (files P)" and a: "a \<in> set (Messages (files ?Q ! j))" for j a
  proof (cases "a \<in> set (Messages (files P ! j))")
    case True
    then have "a < ?n" "a \<noteq> ?n" using ownedD(2) [OF assms(1) j] by blast+
    moreover have "a \<notin> set (Messages (files ?Q ! k))" if "k < length (files P)" "k \<noteq> j" for k
      using ownedD(3) [OF assms(1) j True that] m [OF that(1)] \<open>a \<noteq> ?n\<close> by simp
    ultimately show ?thesis by simp
  next
    case False
    then have "j = i" "a = ?n" using a m [OF j] by (simp_all split: if_splits)
    then show ?thesis using m n by simp
  qed
  then show ?thesis using d unfolding owned_def by simp
qed

section \<open>Parsing\<close>

lemma walk_owned:
  assumes "i < length (files (fst s))" and "owned (fst s)"
  shows "owned (fst (walkHandler i v s)) \<and> length (files (fst (walkHandler i v s))) = length (files (fst s))"
proof (cases "(i, v, s)" rule: walkHandler.cases)
  case (5 j parents m P errs)
  then show ?thesis using owned_new [of P i] assms by (simp add: split_def Let_def)
next
  case (6 j parents e P errs)
  have "owned (P\<lparr>enums := es\<rparr>) = owned P" for es by (simp add: owned_def)
  then show ?thesis using 6 assms by (simp add: owned_upd_file Let_def)
qed (use assms in \<open>auto simp: owned_upd_file\<close>)

lemma parse_owned:
  assumes "i < length (files (fst s))" and "owned (fst s)"
  shows "owned (fst (extractProtoStruct i s)) \<and> length (files (fst (extractProtoStruct i s))) = length (files (fst s))"
proof -
  have "owned (fst (fold (walkHandler i) vs s)) \<and> length (files (fst (fold (walkHandler i) vs s))) = length (files (fst s))"
    if "i < length (files (fst s))" "owned (fst s)" for vs s
    using that
  proof (induction vs arbitrary: s)
    case (Cons v vs)
    then show ?case using walk_owned [of i s v] by simp
  qed simp
  then show ?thesis using assms by (simp add: extractProtoStruct_def)
qed

lemma ParseStruct_owned:
  assumes "\<forall>f \<in> set (files P). Messages f = []"
  shows "owned (fst (ParseStruct P)) \<and> length (files (fst (ParseStruct P))) = length (files P)"
proof -
  have "owned (fst (fold extractProtoStruct is s)) \<and> length (files (fst (fold extractProtoStruct is s))) = length (files (fst s))"
    if "\<forall>i \<in> set is. i < length (files (fst s))" "owned (fst s)" for "is" s
    using that
  proof (induction "is" arbitrary: s)
    case (Cons i "is")
    then show ?case using parse_owned [of i s] by simp
  qed simp
  moreover have "owned P" using assms by (simp add: owned_def)
  ultimately show ?thesis using assms by (simp add: ParseStruct_def)
qed

section \<open>Imports\<close>

text \<open>Steps that leave messages, enums and the messages of the files as they are.\<close>

definition keeps :: "program \<Rightarrow> program \<Rightarrow> bool" where
  "keeps P Q \<longleftrightarrow> messages Q = messages P \<and> length (files Q) = length (files P) \<and> owned Q = owned P"

lemma keeps_refl [simp]: "keeps P P" by (simp add: keeps_def)
lemma keeps_trans: "keeps P Q \<Longrightarrow> keeps Q R \<Longrightarrow> keeps P R" by (simp add: keeps_def)

lemma keeps_clean: "keeps P Q \<Longrightarrow> clean Q = clean P" by (simp add: keeps_def clean_def)

lemma keeps_fold: "(\<And>x s. keeps (h s) (h (f x s))) \<Longrightarrow> keeps (h s) (h (fold f xs s))"
proof (induction xs arbitrary: s)
  case (Cons x xs)
  then show ?case using keeps_trans [of "h s" "h (f x s)"] by simp
qed simp

lemma keeps_folds: "(\<And>x P. keeps P (f x P)) \<Longrightarrow> keeps P (fold f xs P)"
  using keeps_fold [of "\<lambda>P. P" f] by simp

lemma keeps_upd: "(\<And>f. Messages (g f) = Messages f) \<Longrightarrow> keeps P (upd_file i g P)"
  by (simp add: keeps_def owned_upd_file)

lemma keeps_base: "keeps P (setBaseFolder b i P)"
  unfolding setBaseFolder_def by (rule keeps_upd) simp

lemma keeps_recursive: "keeps P (recursivelyAssignImportBaseFolder t b P)"
proof (induction t b P rule: recursivelyAssignImportBaseFolder.induct)
  case (1 p cs fs b P)
  have "keeps P (fold (setBaseFolder b) fs P)"
    using keeps_fold [of "\<lambda>P. P" "setBaseFolder b"] keeps_base by simp
  moreover have "keeps Q (fold (\<lambda>c. recursivelyAssignImportBaseFolder c b) cs' Q)"
    if "set cs' \<subseteq> set cs" for cs' Q
    using that
  proof (induction cs' arbitrary: Q)
    case (Cons c cs')
    have "keeps Q (recursivelyAssignImportBaseFolder c b Q)" using 1 Cons.prems by simp
    moreover have "keeps (recursivelyAssignImportBaseFolder c b Q)
        (fold (\<lambda>c. recursivelyAssignImportBaseFolder c b) cs' (recursivelyAssignImportBaseFolder c b Q))"
      using Cons by simp
    ultimately show ?case by (simp add: keeps_trans)
  qed simp
  ultimately show ?case by (simp add: keeps_trans)
qed

lemma keeps_resolveBaseFolders: "resolveBaseFolders P = Ret Q \<Longrightarrow> keeps P Q"
proof -
  have "keeps P (assignBaseFolder root P)" for root
    unfolding assignBaseFolder_def
    by (rule keeps_trans [of _ "if Files root \<noteq> [] then fold (setBaseFolder (nodePath root)) (Files root) P else P"])
      (auto intro!: keeps_folds keeps_base keeps_recursive)
  then show "resolveBaseFolders P = Ret Q \<Longrightarrow> keeps P Q"
    by (auto simp: resolveBaseFolders_def Let_def split: if_splits)
qed

lemma keeps_resolveImports: "keeps (fst s) (fst (resolveImports i s))"
  by (auto simp: resolveImports_def Let_def intro!: keeps_upd)

lemma keeps_addPublicOf: "keeps P (addPublicOf i imp P)"
  by (auto simp: addPublicOf_def intro!: keeps_upd split: option.split)

lemma keeps_addPublicImports: "keeps P (addPublicImports i P)"
  unfolding addPublicImports_def using keeps_fold [of "\<lambda>P. P" "addPublicOf i"] keeps_addPublicOf by simp

definition targeted :: "program \<Rightarrow> nat \<Rightarrow> bool" where
  "targeted P i \<longleftrightarrow> (\<forall>imp \<in> set (Imports (files P ! i)). \<exists>t < length (files P). TargetFile imp = Some t)"

lemma imports_resolved_targeted: "imports_resolved P \<longleftrightarrow> (\<forall>i < length (files P). targeted P i)"
  unfolding imports_resolved_def targeted_def all_set_conv_all_nth by blast

lemma resolveImport_target:
  "snd (resolveImport P f imp) = [] \<Longrightarrow> \<exists>t < length (files P). TargetFile (fst (resolveImport P f imp)) = Some t"
  by (auto simp: resolveImport_def parsedMap_def Let_def split: option.splits dest: find_member)

lemma resolveImports_grows: "\<exists>es. snd (resolveImports i s) = snd s @ es"
  by (simp add: resolveImports_def Let_def)

lemma resolveImports_targeted:
  assumes "snd (resolveImports i s) = snd s" and "j < length (files (fst s))" and "j = i \<or> targeted (fst s) j"
  shows "targeted (fst (resolveImports i s)) j"
  using assms resolveImport_target
  by (auto simp: targeted_def resolveImports_def Let_def nth_upd_file)

text \<open>A fold in which the list of errors only grows and ends as it began.\<close>

lemma grow_fold:
  assumes "\<And>x s. \<exists>es. snd (f x s) = snd s @ es"
  shows "\<exists>es. snd (fold f xs s) = snd s @ es"
proof (induction xs arbitrary: s)
  case (Cons x xs)
  obtain es where "snd (f x s) = snd s @ es" using assms by blast
  moreover obtain es' where "snd (fold f xs (f x s)) = snd (f x s) @ es'" using Cons by blast
  ultimately show ?case by simp
qed simp

lemma quiet_fold:
  assumes "\<And>x s. \<exists>es. snd (f x s) = snd s @ es" and "snd (fold f (x # xs) s) = snd s"
  shows "snd (f x s) = snd s \<and> snd (fold f xs (f x s)) = snd (f x s)"
proof -
  obtain es es' where "snd (f x s) = snd s @ es" "snd (fold f xs (f x s)) = snd (f x s) @ es'"
    using assms(1) grow_fold [of f, OF assms(1)] by blast
  with assms(2) show ?thesis by simp
qed

lemma all_imports_targeted:
  assumes "snd (fold resolveImports is s) = snd s" and "j < length (files (fst s))" and "j \<in> set is \<or> targeted (fst s) j"
  shows "targeted (fst (fold resolveImports is s)) j"
  using assms
proof (induction "is" arbitrary: s)
  case (Cons i "is")
  note q = quiet_fold [OF resolveImports_grows Cons.prems(1)]
  have "length (files (fst (resolveImports i s))) = length (files (fst s))"
    using keeps_resolveImports by (simp add: keeps_def)
  moreover have "j \<in> set is \<or> targeted (fst (resolveImports i s)) j"
    using resolveImports_targeted [of i s j] q Cons.prems by auto
  ultimately show ?case using Cons.IH [of "resolveImports i s"] q Cons.prems by simp
qed simp

lemma public_targeted:
  assumes "imports_resolved P" and "i < length (files P)"
  shows "imports_resolved (addPublicImports i P)"
proof -
  have "imports_resolved (addPublicOf i imp P)" if r: "imports_resolved P" and imp: "\<exists>t < length (files P). TargetFile imp = Some t" for imp P
  proof -
    obtain t where t: "t < length (files P)" "TargetFile imp = Some t" using imp by blast
    then have "targeted P t" using r by (simp add: imports_resolved_targeted)
    then show ?thesis using r t by (auto simp: imports_resolved_targeted targeted_def addPublicOf_def nth_upd_file)
  qed
  moreover have "length (files (addPublicOf i imp P)) = length (files P)" for imp P
    using keeps_addPublicOf by (simp add: keeps_def)
  ultimately have "imports_resolved (fold (addPublicOf i) imps P)"
    if "imports_resolved P" "\<forall>imp \<in> set imps. \<exists>t < length (files P). TargetFile imp = Some t" for imps P
    using that by (induction imps arbitrary: P) auto
  moreover have "\<forall>imp \<in> set (Imports (files P ! i)). \<exists>t < length (files P). TargetFile imp = Some t"
    using assms by (simp add: imports_resolved_targeted targeted_def)
  ultimately show ?thesis
    using assms by (auto simp: addPublicImports_def)
qed


lemma all_public_targeted:
  assumes "imports_resolved P" and "\<forall>i \<in> set is. i < length (files P)"
  shows "imports_resolved (fold addPublicImports is P)"
  using assms
proof (induction "is" arbitrary: P)
  case (Cons i "is")
  then show ?case
    using public_targeted [of P i] keeps_addPublicImports [of P i] by (simp add: keeps_def)
qed simp

section \<open>Extensions\<close>

definition front :: "program \<Rightarrow> bool" where
  "front P \<longleftrightarrow> owned P \<and> clean P \<and> imports_resolved P"

lemma clean_copy:
  assumes "clean P" and "src < length (messages P)"
  shows "clean (upd_msg a (\<lambda>m. m\<lparr>Fields := Fields m @ copyFields (messages P ! src)\<rparr>) P)"
proof (cases "a < length (messages P)")
  case True
  have c: "unresolved f" if "f \<in> set (copyFields (messages P ! src))" for f
    using that assms nth_mem [OF assms(2)] by (fastforce simp: copyFields_def clean_def unresolved_def)
  have "unresolved f" if "m \<in> set (messages (upd_msg a (\<lambda>m. m\<lparr>Fields := Fields m @ copyFields (messages P ! src)\<rparr>) P))" "f \<in> set (Fields m)" for m f
  proof -
    have "m \<in> set (messages P) \<or> m = (messages P ! a)\<lparr>Fields := Fields (messages P ! a) @ copyFields (messages P ! src)\<rparr>"
      using that(1) subsetD [OF set_update_subset_insert [of "messages P" a]] by (fastforce simp: upd_msg_def)
    then show ?thesis using that(2) assms(1) c nth_mem [OF True] unfolding clean_def by auto
  qed
  then show ?thesis by (simp add: clean_def)
qed (simp add: upd_msg_def list_update_beyond assms)

lemma local_source:
  assumes "resolveLocalExtendSource P f m = Some src"
  shows "src \<in> set (Messages f)"
  using searchUp_result [OF assms [unfolded resolveLocalExtendSource_def]]
  by (auto simp: extendSourceIn_def dest: find_member)

lemma imported_source:
  assumes "resolveImportedExtendSource P f m = Some src"
  shows "\<exists>imp \<in> set (Imports f). \<exists>t. TargetFile imp = Some t \<and> src \<in> set (Messages (files P ! t))"
proof -
  obtain imp where imp: "imp \<in> set (Imports f)" "(case TargetFile imp of
         None \<Rightarrow> None
       | Some t \<Rightarrow> searchUp (extendSourceIn P (Messages (files P ! t)))
           (ParseName (pmName (mdProtoDef m))) (packageScope (files P ! t))) = Some src"
    using first_some_in [OF assms [unfolded resolveImportedExtendSource_def]] by blast
  then obtain t where t: "TargetFile imp = Some t" "searchUp (extendSourceIn P (Messages (files P ! t)))
      (ParseName (pmName (mdProtoDef m))) (packageScope (files P ! t)) = Some src" by (auto split: option.splits)
  then have "src \<in> set (Messages (files P ! t))"
    using searchUp_result [OF t(2)] by (auto simp: extendSourceIn_def dest: find_member)
  then show ?thesis using imp(1) t(1) by blast
qed

lemma resolveExtend_ok:
  assumes "front P" and "i < length (files P)"
  shows "front (fst (resolveExtend i a (P, r, errs))) \<and> files (fst (resolveExtend i a (P, r, errs))) = files P"
proof -
  have o: "owned P" "clean P" and imp: "targeted P i" using assms by (simp_all add: front_def imports_resolved_targeted)
  have upd: "front (upd_msg a (\<lambda>m. m\<lparr>Fields := Fields m @ copyFields (messages P ! src)\<rparr>) P)" if "src < length (messages P)" for src
    using assms(1) clean_copy [OF o(2) that] by (simp add: front_def imports_resolved_def)
  have l: "src < length (messages P)" if "resolveLocalExtendSource P (files P ! i) m = Some src" for src m
    using local_source [OF that] ownedD(2) [OF o(1) assms(2)] by blast
  have x: "src < length (messages P)" if h: "resolveImportedExtendSource P (files P ! i) m = Some src" for src m
  proof -
    obtain im t where "im \<in> set (Imports (files P ! i))" "TargetFile im = Some t" "src \<in> set (Messages (files P ! t))"
      using imported_source [OF h] by blast
    moreover from this have "t < length (files P)" using imp unfolding targeted_def by (metis option.inject)
    ultimately show ?thesis using ownedD(2) [OF o(1)] by blast
  qed
  show ?thesis
    using assms(1) upd l x by (auto simp: resolveExtend_def Let_def split: option.splits)
qed

lemma fold_resolveExtend_ok:
  assumes "front (fst s)" and "i < length (files (fst s))"
  shows "front (fst (fold (resolveExtend i) as s)) \<and> files (fst (fold (resolveExtend i) as s)) = files (fst s)"
  using assms
proof (induction as arbitrary: s)
  case (Cons a as)
  obtain P r errs where s: "s = (P, r, errs)" by (metis prod.collapse)
  show ?case
    using resolveExtend_ok [of P i a r errs] Cons.prems Cons.IH [of "resolveExtend i a s"] s by simp
qed simp

lemma resolveExtensions_grows: "\<exists>es. snd (resolveExtensions i s) = snd s @ es"
  by (simp add: resolveExtensions_def split_def Let_def)

lemma resolveExtensions_ok:
  assumes "front (fst s)" and "i < length (files (fst s))"
  shows "front (fst (resolveExtensions i s))" and "length (files (fst (resolveExtensions i s))) = length (files (fst s))"
    and "\<exists>es. snd (resolveExtensions i s) = snd s @ es"
proof -
  obtain P errs where s: "s = (P, errs)" by (rule prod.exhaust)
  obtain Q r es where q: "fold (resolveExtend i) (Messages (files P ! i)) (P, [], []) = (Q, r, es)" by (metis prod.collapse)
  have ok: "front Q" "files Q = files P"
    using fold_resolveExtend_ok [of "(P, [], [])" i "Messages (files P ! i)"] assms s q by auto
  have "front (upd_file i (\<lambda>f. f\<lparr>Messages := filter p (Messages f)\<rparr>) Q)" for p
    using ok(1) owned_filter by (auto simp: front_def clean_def imports_resolved_targeted targeted_def nth_upd_file)
  then show "front (fst (resolveExtensions i s))" "length (files (fst (resolveExtensions i s))) = length (files (fst s))"
    "\<exists>es. snd (resolveExtensions i s) = snd s @ es"
    using ok s q by (simp_all add: resolveExtensions_def)
qed

lemma all_extensions_ok:
  assumes "front (fst s)" and "\<forall>i \<in> set is. i < length (files (fst s))"
  shows "front (fst (fold resolveExtensions is s)) \<and> length (files (fst (fold resolveExtensions is s))) = length (files (fst s)) \<and>
    (\<exists>es. snd (fold resolveExtensions is s) = snd s @ es)"
  using assms
proof (induction "is" arbitrary: s)
  case (Cons i "is")
  then have ok: "front (fst (resolveExtensions i s))" "length (files (fst (resolveExtensions i s))) = length (files (fst s))"
    "\<exists>es. snd (resolveExtensions i s) = snd s @ es"
    using resolveExtensions_ok [of s i] by auto
  then obtain es where "snd (resolveExtensions i s) = snd s @ es" by blast
  with Cons.IH [of "resolveExtensions i s"] ok Cons.prems show ?case by auto
qed simp

section \<open>References\<close>

lemma local_well_typed:
  assumes "unresolved field" and "ScalarValueType field = []" and "declares f r"
  shows "well_typed P f (setLocal field r)"
  using assms by (cases r) (auto simp: unresolved_def well_typed_def setLocal_def declares_def)

lemma resolveReference_well_typed:
  assumes "unresolved field" and "snd (resolveReference P f m field) = []"
  shows "well_typed P f (fst (resolveReference P f m field))"
proof (cases "ScalarValueType field = []")
  case False
  then show ?thesis using assms by (auto simp: resolveReference_def well_typed_def unresolved_def scalar_or_empty_def)
next
  case True
  show ?thesis
  proof (cases "resolveLocalReference P f m field")
    case (Some field')
    then obtain r n where "field' = setLocal field r" "searchUp (lookupType P f) n (mdName m) = Some r"
      unfolding resolveLocal_set by (auto dest: first_some_in)
    then show ?thesis using Some True local_well_typed [OF assms(1) True] searchUp_declared by (auto simp: resolveReference_def)
  next
    case None
    then obtain field' where f': "resolveImportedReference P f field = Some field'"
      using assms(2) True by (auto simp: resolveReference_def split: option.splits)
    then obtain t r n where "importedType P f n = Some (t, r)"
      and e: "field' = (case r of
        EnumRef e \<Rightarrow> field\<lparr>ExternalEnumType := Some e, ExternalTypeFile := Some t\<rparr>
      | MsgRef a \<Rightarrow> field\<lparr>ExternalMsgType := Some a, ExternalTypeFile := Some t\<rparr>)"
      unfolding resolveImportedReference_def by (auto split: option.splits type_ref.splits dest: first_some_in)
    then have "\<exists>imp \<in> set (Imports f). TargetFile imp = Some t" "declares (files P ! t) r"
      using importedType_declared by blast+
    then show ?thesis
      using None True f' e assms(1)
      by (cases r) (auto simp: resolveReference_def well_typed_def unresolved_def declares_def)
  qed
qed

definition file_clean :: "program \<Rightarrow> nat \<Rightarrow> bool" where
  "file_clean P i \<longleftrightarrow> (\<forall>a \<in> set (Messages (files P ! i)). \<forall>f \<in> set (Fields (messages P ! a)). unresolved f)"

definition file_typed :: "program \<Rightarrow> nat \<Rightarrow> bool" where
  "file_typed P i \<longleftrightarrow> (\<forall>a \<in> set (Messages (files P ! i)). \<forall>f \<in> set (Fields (messages P ! a)). well_typed P (files P ! i) f)"

lemma well_typed_files: "files Q = files P \<Longrightarrow> well_typed Q f field = well_typed P f field"
  by (simp add: well_typed_def split: option.split)

lemma resolveMessages_typed':
  assumes "snd (fold (resolveMessage i) as s) = snd s" and "distinct as" and "\<forall>a \<in> set as. a < length (messages (fst s))"
    and "\<forall>a \<in> set as. \<forall>f \<in> set (Fields (messages (fst s) ! a)). unresolved f"
  shows "(\<forall>a \<in> set as. \<forall>f \<in> set (Fields (messages (fst (fold (resolveMessage i) as s)) ! a)). well_typed (fst s) (files (fst s) ! i) f) \<and>
    (\<forall>b. b \<notin> set as \<longrightarrow> Fields (messages (fst (fold (resolveMessage i) as s)) ! b) = Fields (messages (fst s) ! b))"
  using assms
proof (induction as arbitrary: s)
  case (Cons a as)
  let ?s = "resolveMessage i a s"
  note q = quiet_fold [OF resolveMessage_keeps(3) Cons.prems(1)]
  have a: "a < length (messages (fst s))" using Cons.prems(3) by simp
  note flds = resolveMessage_fields [OF a, of i]
  have u: "\<forall>b \<in> set as. \<forall>f \<in> set (Fields (messages (fst ?s) ! b)). unresolved f"
    using Cons.prems(2,4) flds by auto
  have IH: "\<forall>b \<in> set as. \<forall>f \<in> set (Fields (messages (fst (fold (resolveMessage i) as ?s)) ! b)). well_typed (fst ?s) (files (fst ?s) ! i) f"
    "\<forall>b. b \<notin> set as \<longrightarrow> Fields (messages (fst (fold (resolveMessage i) as ?s)) ! b) = Fields (messages (fst ?s) ! b)"
    using Cons.IH [of ?s] q u Cons.prems(2,3) by (simp_all add: resolveMessage_keeps)
  have t: "well_typed (fst s) (files (fst s) ! i) f" if f: "f \<in> set (Fields (messages (fst ?s) ! a))" for f
  proof -
    obtain f0 where f0: "f0 \<in> set (Fields (messages (fst s) ! a))"
      "f = fst (resolveReference (fst s) (files (fst s) ! i) (messages (fst s) ! a) f0)"
      using f flds [of a] by auto
    then show ?thesis
      using resolveReference_well_typed resolveMessage_errors [OF q [THEN conjunct1] f0(1)] Cons.prems(4) by simp
  qed
  have w: "well_typed (fst ?s) f x = well_typed (fst s) f x" for f x
    by (rule well_typed_files) (rule resolveMessage_keeps)
  show ?case
    using IH t Cons.prems(2) flds unfolding w resolveMessage_keeps(1) by simp
qed simp

lemma resolveReferences_step:
  assumes "resolveReferences i (P, errs) = (Q, errs)" and "owned P" and "i < length (files P)" and "file_clean P i"
  shows "files Q = files P \<and> length (messages Q) = length (messages P) \<and> file_typed Q i \<and>
    (\<forall>j < length (files P). j \<noteq> i \<longrightarrow> (file_typed P j \<longrightarrow> file_typed Q j) \<and> (file_clean P j \<longrightarrow> file_clean Q j))"
proof -
  let ?as = "Messages (files P ! i)"
  have q: "fold (resolveMessage i) ?as (P, errs) = (Q, errs)" using assms(1) by (simp add: resolveReferences_def)
  have f: "files Q = files P" using resolveReferences_files [of i ?as "(P, errs)"] q by simp
  have "length (messages (fst (fold (resolveMessage i) as s))) = length (messages (fst s))" for as s
    by (induction as arbitrary: s) (simp_all add: resolveMessage_keeps)
  from this [of ?as "(P, errs)"] have l: "length (messages Q) = length (messages P)" using q by simp
  have m: "\<forall>a \<in> set ?as. \<forall>f \<in> set (Fields (messages Q ! a)). well_typed P (files P ! i) f"
    "\<forall>b. b \<notin> set ?as \<longrightarrow> Fields (messages Q ! b) = Fields (messages P ! b)"
    using resolveMessages_typed' [of i ?as "(P, errs)"] q assms(4) ownedD(1,2) [OF assms(2,3)] by (auto simp: file_clean_def)
  have w: "well_typed Q f x = well_typed P f x" for f x by (rule well_typed_files [OF f])
  have "Fields (messages Q ! a) = Fields (messages P ! a)"
    if "j < length (files P)" "j \<noteq> i" "a \<in> set (Messages (files P ! j))" for j a
    using ownedD(3) [OF assms(2) that(1,3) assms(3)] that(2) m(2) by metis
  then show ?thesis using f l m(1) by (simp add: file_typed_def file_clean_def w)
qed

lemma resolveReferences_grows: "\<exists>es. snd (resolveReferences i s) = snd s @ es"
  using resolveMessages_grow by (simp add: resolveReferences_def)

lemma resolveReferences_files': "files (fst (fold resolveReferences is s)) = files (fst s)"
  by (induction "is" arbitrary: s) (simp_all add: resolveReferences_def resolveReferences_files)

lemma all_references_typed:
  assumes "fold resolveReferences is s = (Q, snd s)" and "owned (fst s)" and "distinct is"
    and "\<forall>i \<in> set is. i < length (files (fst s)) \<and> file_clean (fst s) i" and "j < length (files (fst s))"
    and "j \<in> set is \<or> file_typed (fst s) j"
  shows "files Q = files (fst s) \<and> file_typed Q j"
  using assms
proof (induction "is" arbitrary: s)
  case (Cons i "is")
  obtain P errs where s: "s = (P, errs)" by (rule prod.exhaust)
  have "snd (fold resolveReferences (i # is) s) = snd s" by (simp only: Cons.prems(1) snd_conv)
  note q = quiet_fold [of resolveReferences, OF resolveReferences_grows this, THEN conjunct1]
  define R where "R = fst (resolveReferences i s)"
  have r0: "resolveReferences i s = (R, errs)" using q by (simp only: R_def prod_eq_iff s fst_conv snd_conv)
  have r: "resolveReferences i (P, errs) = (R, errs)" using r0 by (simp only: s)
  have r2: "fold resolveReferences is (R, errs) = (Q, errs)"
    using Cons.prems(1) unfolding fold_simps r0 by (simp only: s snd_conv)
  have pre: "owned P" "i < length (files P)" "file_clean P i" using Cons.prems(2,4) s by simp_all
  have st: "files R = files P" "length (messages R) = length (messages P)" "file_typed R i"
    "\<And>j. j < length (files P) \<Longrightarrow> j \<noteq> i \<Longrightarrow> file_typed P j \<Longrightarrow> file_typed R j"
    "\<And>j. j < length (files P) \<Longrightarrow> j \<noteq> i \<Longrightarrow> file_clean P j \<Longrightarrow> file_clean R j"
    using resolveReferences_step [OF r pre] by blast+
  have "owned R" using Cons.prems(2) s st(1,2) by (simp add: owned_def)
  moreover have "\<forall>k \<in> set is. k < length (files R) \<and> file_clean R k"
  proof
    fix k assume k: "k \<in> set is"
    then have "k \<noteq> i" "k < length (files P)" "file_clean P k" using Cons.prems(3,4) s by auto
    then show "k < length (files R) \<and> file_clean R k" using st(1,5) by simp
  qed
  moreover have "j \<in> set is \<or> file_typed R j"
    using Cons.prems(5,6) s st(3) st(4) [of j] by (cases "j = i") auto
  ultimately show ?case using Cons.IH [of "(R, errs)"] r2 Cons.prems(3,5) s st(1) by simp
next
  case Nil
  have "fst s = Q" using arg_cong [OF Nil.prems(1), of fst] by simp
  then show ?case using Nil.prems(6) by simp
qed


section \<open>From proto files to Go files\<close>

lemma resolveEnums_keeps: "resolveEnums extra es P = Ret Q \<Longrightarrow> files Q = files P \<and> messages Q = messages P"
  by (induction es arbitrary: P) (auto simp: go_bind_Ret_iff)

lemma resolveAllOptions_keeps:
  "resolveAllOptions is s = Ret s' \<Longrightarrow> files (fst s') = files (fst s) \<and> messages (fst s') = messages (fst s) \<and> snd s' = snd s"
proof (induction "is" arbitrary: s)
  case (Cons i "is")
  then obtain Q where q: "resolveEnums (extraOptions (fst s) (files (fst s) ! i)) (Enums (files (fst s) ! i)) (fst s) = Ret Q"
    "resolveAllOptions is (Q, snd s) = Ret s'"
    by (auto simp: resolveOptions_def go_bind_Ret_iff)
  then show ?case using Cons.IH [OF q(2)] resolveEnums_keeps [OF q(1)] by simp
qed simp

lemma clean_files: "clean P \<Longrightarrow> owned P \<Longrightarrow> i < length (files P) \<Longrightarrow> file_clean P i"
  unfolding clean_def file_clean_def using ownedD(2) nth_mem by blast

lemma resolved_front:
  assumes "owned P" and "clean P" and "ResolveImportsAndReferences P = Ret (Q, [])"
  shows "imports_resolved Q \<and> program_typed Q \<and> length (files Q) = length (files P)"
proof -
  let ?is = "[0..<length (files P)]"
  obtain P1 where b: "resolveBaseFolders P = Ret P1"
    using assms(3) by (auto simp: ResolveImportsAndReferences_def Let_def go_bind_Ret_iff)
  have k1: "keeps P P1" by (rule keeps_resolveBaseFolders [OF b])
  obtain P2 e2 where i: "fold resolveImports ?is (P1, []) = (P2, e2)" by (rule prod.exhaust)
  have k2: "keeps P1 P2" using keeps_fold [of fst resolveImports "(P1, [])" ?is] keeps_resolveImports i by simp
  define P3 where "P3 = fold addPublicImports ?is P2"
  have k3: "keeps P2 P3" unfolding P3_def by (rule keeps_folds) (rule keeps_addPublicImports)
  obtain P4 e4 where x: "fold resolveExtensions ?is (P3, e2) = (P4, e4)" by (rule prod.exhaust)
  obtain P5 e5 where r: "fold resolveReferences ?is (P4, e4) = (P5, e5)" by (rule prod.exhaust)
  have o: "resolveAllOptions ?is (P5, e5) = Ret (Q, [])"
    using assms(3) b i x r by (simp add: ResolveImportsAndReferences_def Let_def P3_def)
  have q: "files Q = files P5" "messages Q = messages P5" "e5 = []" using resolveAllOptions_keeps [OF o] by simp_all
  have k: "keeps P P3" using k1 k2 k3 keeps_trans by blast
  then have n: "length (files P3) = length (files P)" "length (files P2) = length (files P)" "length (files P1) = length (files P)"
    using k1 k2 by (simp_all add: keeps_def)
  have "\<exists>es. e5 = e4 @ es" using grow_fold [of resolveReferences, OF resolveReferences_grows, where s = "(P4, e4)" and xs = ?is] r by simp
  moreover have "\<exists>es. e4 = e2 @ es"
    using grow_fold [of resolveExtensions, OF resolveExtensions_grows, where s = "(P3, e2)" and xs = ?is] x by simp
  ultimately have e: "e4 = []" "e2 = []" using q(3) by auto
  have own3: "owned P3" "clean P3" using assms(1,2) k keeps_clean [OF k] by (simp_all add: keeps_def)
  have "targeted P2 j" if "j < length (files P)" for j
    using all_imports_targeted [of ?is "(P1, [])" j] i e that n by simp
  then have "imports_resolved P2" using n by (simp add: imports_resolved_targeted)
  then have ir3: "imports_resolved P3"
    unfolding P3_def using all_public_targeted [of P2 ?is] n by simp
  have f4: "front P4" "length (files P4) = length (files P)"
    using all_extensions_ok [of "(P3, e2)" ?is] own3 ir3 n x by (auto simp: front_def)
  then have "files P5 = files P4 \<and> file_typed P5 j" if "j < length (files P)" for j
    using all_references_typed [of ?is "(P4, e4)" P5 j] r e q that clean_files [of P4] by (simp add: front_def)
  moreover have "files P5 = files P4" using resolveReferences_files' [of ?is "(P4, e4)"] r by simp
  ultimately have t: "files P5 = files P4" "\<And>j. j < length (files P) \<Longrightarrow> file_typed P5 j" by auto
  have "imports_resolved Q" using f4 t q by (simp add: front_def imports_resolved_def)
  moreover have "program_typed Q"
    unfolding program_typed_def all_set_conv_all_nth [of "files Q"]
    using t f4(2) q well_typed_files [of Q P5] by (simp add: file_typed_def)
  ultimately show ?thesis using f4 t q by simp
qed


lemma compile_without_errors:
  assumes "messages P = []" and "\<forall>f \<in> set (files P). Messages f = []"
    and "ParseStruct P = (P1, [])" and "\<forall>m \<in> set (messages P1). \<forall>f \<in> set (Fields m). Map f \<longrightarrow> MapKeyType f \<noteq> []"
    and "ResolveImportsAndReferences P1 = Ret (P2, [])"
  shows "\<exists>written failed. Generate writeFile root modulePath P2 = Ret (written, [], failed) \<and>
    length written = length (files P) \<and>
    map fst written = map (\<lambda>i. buildOutputPath P2 root (new_file root modulePath P2 i)) [0..<length (files P)]"
proof -
  have "typed_program P1" using ParseStruct_typed [OF assms(1)] assms(3) by simp
  then have "clean P1"
    using assms(4) by (auto simp: clean_def typed_program_def list_all_iff field_typed_def unresolved_def scalar_or_empty_def)
  moreover have "owned P1" "length (files P1) = length (files P)" using ParseStruct_owned [OF assms(2)] assms(3) by simp_all
  ultimately have r: "imports_resolved P2" "program_typed P2" "length (files P2) = length (files P)"
    using resolved_front [OF _ _ assms(5)] by simp_all
  obtain written failed where w: "Generate writeFile root modulePath P2 = Ret (written, [], failed)"
    "map fst written = map (\<lambda>i. buildOutputPath P2 root (new_file root modulePath P2 i)) [0..<length (files P2)]"
    using resolved_program_generates [OF r(1,2)] by blast
  have "length (map fst written) = length (files P)" unfolding w(2) using r(3) by simp
  then show ?thesis using w r(3) by (metis length_map)
qed

section \<open>The command\<close>

record 'c compiler_env =
  getwd :: "string + string"
  mkdirAll :: "string \<Rightarrow> string option"
  lstat :: "string \<Rightarrow> string + fs_tree"
  openFile :: "string \<Rightarrow> string + 'c"
  parseProto :: "'c \<Rightarrow> string + visitee list"
  writeFile :: "string \<Rightarrow> string \<Rightarrow> string option"

record compiler_flags =
  srcPath :: string
  outPath :: string
  moduleFlag :: string
  ignoreFlag :: string

datatype main_error = FrontError gen_error | MapError map_error | WriteError string

text \<open>How the process ends: a fatal log entry, a panic, status -1 with the errors it printed, or status 0.\<close>

datatype exit = Fatal string | Crash | ExitErrors "main_error list" | Success

definition space :: "char \<Rightarrow> bool" where
  "space c \<longleftrightarrow> c \<in> set [CHR '' '', CHR 0x09, CHR 0x0A, CHR 0x0B, CHR 0x0C, CHR 0x0D]"

text \<open>\<^verbatim>\<open>strings.TrimSpace\<close> on ASCII strings.\<close>

definition trim_space :: "string \<Rightarrow> string" where
  "trim_space s = rev (dropWhile space (rev (dropWhile space s)))"

definition ignorePatterns :: "compiler_flags \<Rightarrow> string list" where
  "ignorePatterns fl =
     (if ignoreFlag fl \<noteq> [] then map trim_space (split_on (CHR '','') (ignoreFlag fl)) else DefaultIgnorePatterns)"

text \<open>The files that the run tries to write, with their contents, and how it ends.\<close>

definition gremlinc_main :: "'c compiler_env \<Rightarrow> compiler_flags \<Rightarrow> (string \<times> string) list \<times> exit" where
  "gremlinc_main env fl =
     (if srcPath fl = [] then ([], Fatal ''Missing required flag: -src (source path where proto files are located)'')
      else if outPath fl = [] then ([], Fatal ''Missing required flag: -out (output path for generated files)'')
      else case mkdirAll env (outPath fl) of Some err \<Rightarrow> ([], Crash) | None \<Rightarrow>
        case FindAllProtobufFiles (getwd env) (lstat env) (srcPath fl) (ignorePatterns fl) of
          Err err \<Rightarrow> ([], Crash) | Panic \<Rightarrow> ([], Crash) | Ret targets \<Rightarrow>
        case ParseProtoFiles (parseFile (openFile env) (parseProto env)) targets of
          Inl err \<Rightarrow> ([], Crash) | Inr targets \<Rightarrow>
        case ParseStruct \<lparr>files = targets, messages = [], enums = []\<rparr> of (P, errors) \<Rightarrow>
        if errors \<noteq> [] then ([], ExitErrors (map FrontError errors))
        else case ResolveImportsAndReferences P of
          Err err \<Rightarrow> ([], Crash) | Panic \<Rightarrow> ([], Crash) | Ret (P, errors) \<Rightarrow>
        if errors \<noteq> [] then ([], ExitErrors (map FrontError errors))
        else case Generate (writeFile env) (outPath fl) (moduleFlag fl) P of
          Err err \<Rightarrow> ([], Crash) | Panic \<Rightarrow> ([], Crash) | Ret (written, errors, failed) \<Rightarrow>
        if errors \<noteq> [] \<or> failed \<noteq> [] then (written, ExitErrors (map MapError errors @ map WriteError failed))
        else (written, Success))"

lemma go_fold_invariant:
  "go_fold f xs s = Ret s' \<Longrightarrow> P s \<Longrightarrow> (\<And>x s s'. f x s = Ret s' \<Longrightarrow> P s \<Longrightarrow> P s') \<Longrightarrow> P s'"
  by (induction xs arbitrary: s) (auto simp: go_bind_Ret_iff)

definition write_errors :: "(string \<Rightarrow> string \<Rightarrow> string option) \<Rightarrow> (string \<times> string) list \<Rightarrow> string list" where
  "write_errors write ws = List.map_filter (\<lambda>(p, content). write p content) ws"

lemma Generate_failed:
  assumes "Generate write root modulePath P = Ret (written, errors, failed)"
  shows "failed = write_errors write written"
proof -
  obtain mapped errs where m: "MapProtoFiles root modulePath P = Ret (mapped, errs)"
    using assms by (auto simp: Generate_def go_bind_Ret_iff)
  show ?thesis
  proof (cases "errs = []")
    case True
    let ?f = "\<lambda>target (written, errs, failed). go_bind (GenerateCode P target) (\<lambda>content.
      Ret (written @ [(FullOutputPath target, content)], errs,
        failed @ (case write (FullOutputPath target) content of None \<Rightarrow> [] | Some e \<Rightarrow> [e])))"
    let ?ok = "\<lambda>(w, _ :: map_error list, f). f = write_errors write w"
    have "go_fold ?f mapped ([], [], []) = Ret (written, errors, failed)" using assms m True by (simp add: Generate_def)
    moreover have "?ok ([], [], [])" by (simp add: write_errors_def List.map_filter_def)
    moreover have "?ok s'" if "?f x s = Ret s'" "?ok s" for x s s'
      using that by (auto simp: go_bind_Ret_iff write_errors_def List.map_filter_def split: option.splits)
    ultimately have "?ok (written, errors, failed)" by (rule go_fold_invariant)
    then show ?thesis by simp
  next
    case False
    then show ?thesis using assms m by (simp add: Generate_def write_errors_def List.map_filter_def)
  qed
qed

lemma no_files_panic: "ResolveImportsAndReferences \<lparr>files = [], messages = [], enums = []\<rparr> = Panic"
  by (simp add: ResolveImportsAndReferences_def resolveBaseFolders_def)

lemma no_targets_crash:
  assumes "srcPath fl \<noteq> []" and "outPath fl \<noteq> []"
    and "FindAllProtobufFiles (getwd env) (lstat env) (srcPath fl) (ignorePatterns fl) \<in> {Panic, Ret []}"
  shows "gremlinc_main env fl = ([], Crash)"
  using assms no_files_panic
  by (auto simp: gremlinc_main_def ParseProtoFiles_def parseStart_def parseResult_def ParseStruct_def split: option.splits)

text \<open>
  C5. The compiler as a whole: when every proto file below the source path can be parsed, parsing and resolving
  report no errors and every map has a key type, then the command does not crash and reports no error
  but those of writing files; it writes one file for every proto file it finds, in the order of the
  walk, at the path that its folder and package say.
\<close>

theorem main_completes:
  assumes "srcPath fl = abs_path ps" and "list_all proper ps" and "lstat env (abs_path ps) = Inr t" and "properTree t"
    and "outPath fl \<noteq> []" and "mkdirAll env (outPath fl) = None"
    and found: "found = map (foundFile ps) (filter (\<lambda>ns. wantedFile (ignorePatterns fl) (ps @ ns)) (treeFiles t))"
    and parsed: "ParseProtoFiles (parseFile (openFile env) (parseProto env)) found = Inr targets"
    and struct: "ParseStruct \<lparr>files = targets, messages = [], enums = []\<rparr> = (P1, [])"
    and keys: "\<forall>m \<in> set (messages P1). \<forall>f \<in> set (Fields m). Map f \<longrightarrow> MapKeyType f \<noteq> []"
    and resolved: "ResolveImportsAndReferences P1 = Ret (P2, [])"
  shows "\<exists>written. gremlinc_main env fl = (written, case write_errors (writeFile env) written of
      [] \<Rightarrow> Success | failed \<Rightarrow> ExitErrors (map WriteError failed)) \<and>
    map fst written = map (\<lambda>i. buildOutputPath P2 (outPath fl) (new_file (outPath fl) (moduleFlag fl) P2 i)) [0..<length found]"
proof -
  let ?P = "\<lparr>files = targets, messages = [], enums = []\<rparr>"
  have f: "FindAllProtobufFiles (getwd env) (lstat env) (srcPath fl) (ignorePatterns fl) = Ret found"
    using found_all [of ps t "lstat env"] assms(1-4) found by simp
  have t: "length targets = length found" "targets = map (fileAfter (parseFile (openFile env) (parseProto env))) found"
    using ParseProtoFiles_Inr [OF parsed] by simp_all
  have "\<forall>f \<in> set targets. Messages f = []"
    unfolding t(2) found by (auto simp: fileAfter_def foundFile_def newProtoFile_def split: sum.splits)
  then obtain written failed where w: "Generate (writeFile env) (outPath fl) (moduleFlag fl) P2 = Ret (written, [], failed)"
    "map fst written = map (\<lambda>i. buildOutputPath P2 (outPath fl) (new_file (outPath fl) (moduleFlag fl) P2 i)) [0..<length targets]"
    using compile_without_errors [of ?P P1 P2 "writeFile env" "outPath fl" "moduleFlag fl"] struct keys resolved by auto
  have "srcPath fl \<noteq> []" using assms(1) by (simp add: abs_path_def)
  then have "gremlinc_main env fl = (written, case failed of [] \<Rightarrow> Success | _ \<Rightarrow> ExitErrors (map WriteError failed))"
    using assms(5,6) f parsed struct resolved w(1) by (simp add: gremlinc_main_def split: list.split)
  then show ?thesis using w(2) t(1) Generate_failed [OF w(1)] by (auto split: list.splits)
qed

text \<open>
  C36. The ignored names are looked for in the whole absolute path of a file: when the source directory or a
  directory above it has an ignored name, or when the flag has an empty name (a comma at its end),
  no file is found and the command crashes.
\<close>

theorem ignored_source_crashes:
  assumes "srcPath fl = abs_path ps" and "list_all proper ps" and "outPath fl \<noteq> []"
    and "\<exists>t. lstat env (abs_path ps) = Inr t \<and> properTree t"
    and "set ([] # ps) \<inter> set (ignorePatterns fl) \<noteq> {}"
  shows "gremlinc_main env fl = ([], Crash)"
proof (rule no_targets_crash)
  show "srcPath fl \<noteq> []" using assms(1) by (simp add: abs_path_def)
  have "\<not> wantedFile (ignorePatterns fl) (ps @ ns)" for ns using assms(5) by (auto simp: wantedFile_def)
  then show "FindAllProtobufFiles (getwd env) (lstat env) (srcPath fl) (ignorePatterns fl) \<in> {Panic, Ret []}"
    using assms(1,2,4) found_all [of ps _ "lstat env" "getwd env" "ignorePatterns fl"] by auto
qed (rule assms(3))

text \<open>A source directory that does not exist is not reported: its nil entry is dereferenced.\<close>

theorem missing_source_crashes:
  assumes "srcPath fl = abs_path ps" and "list_all proper ps" and "outPath fl \<noteq> []" and "lstat env (abs_path ps) = Inl err"
  shows "gremlinc_main env fl = ([], Crash)"
proof (rule no_targets_crash)
  show "srcPath fl \<noteq> []" using assms(1) by (simp add: abs_path_def)
  have "path_abs (getwd env) (abs_path ps) = Ret (abs_path ps)"
    using clean_abs_path [OF assms(2)] by (simp add: path_abs_def abs_path_def)
  then show "FindAllProtobufFiles (getwd env) (lstat env) (srcPath fl) (ignorePatterns fl) \<in> {Panic, Ret []}"
    using assms(1,4) by (simp add: FindAllProtobufFiles_def WalkDir_def visitPath_def)
qed (rule assms(3))

section \<open>Example: a directory with two proto files\<close>

definition demo_env :: "string compiler_env" where
  "demo_env = \<lparr>getwd = Inr ''/home'', mkdirAll = (\<lambda>_. None),
     lstat = (\<lambda>p. if p = ''/p'' then Inr (DirEntry None
       [(''a.proto'', FileEntry), (''b.proto'', FileEntry), (''readme.md'', FileEntry), (''vendor'', DirEntry None [(''x.proto'', FileEntry)])])
       else Inl ''no such file''),
     openFile = Inr,
     parseProto = (\<lambda>p.
       if p = ''/p/a.proto'' then Inr [VPackage ''a'', VMessage [] \<lparr>pmName = ''Base'', pmIsExtend = False, pmElements =
          [NormalField \<lparr>pfName = ''x'', pfType = ''Inner'', pfSequence = 1, pfOptions = []\<rparr> False False]\<rparr>,
          VMessage [''Base''] \<lparr>pmName = ''Inner'', pmIsExtend = False, pmElements = []\<rparr>]
       else if p = ''/p/b.proto'' then Inr [VPackage ''b'', VImport ''a.proto'' [],
          VMessage [] \<lparr>pmName = ''Robot'', pmIsExtend = False, pmElements =
            [NormalField \<lparr>pfName = ''base'', pfType = ''a.Base'', pfSequence = 1, pfOptions = []\<rparr> True False]\<rparr>]
       else Inl ''unexpected''),
     writeFile = (\<lambda>p _. if p = ''out/a/a.pb2.go'' then None else Some ''disk full'')\<rparr>"

definition demo_flags :: compiler_flags where
  "demo_flags = \<lparr>srcPath = ''/p'', outPath = ''out'', moduleFlag = ''gen'', ignoreFlag = []\<rparr>"

theorem main_completes_witness:
  "\<exists>written. gremlinc_main demo_env demo_flags = (written, case write_errors (writeFile demo_env) written of
      [] \<Rightarrow> Success | failed \<Rightarrow> ExitErrors (map WriteError failed)) \<and>
    map fst written = [''out/a/a.pb2.go'', ''out/b/b.pb2.go'']"
proof -
  let ?t = "projr (lstat demo_env ''/p'')"
  let ?found = "map (foundFile [''p'']) (filter (\<lambda>ns. wantedFile (ignorePatterns demo_flags) ([''p''] @ ns)) (treeFiles ?t))"
  have "case ParseProtoFiles (parseFile (openFile demo_env) (parseProto demo_env)) ?found of
      Inl _ \<Rightarrow> False
    | Inr targets \<Rightarrow>
      case ParseStruct \<lparr>files = targets, messages = [], enums = []\<rparr> of (P1, errs) \<Rightarrow>
        errs = [] \<and> list_all (\<lambda>m. list_all (\<lambda>f. Map f \<longrightarrow> MapKeyType f \<noteq> []) (Fields m)) (messages P1) \<and>
        (case ResolveImportsAndReferences P1 of
           Ret (P2, errs) \<Rightarrow> errs = [] \<and>
             map (\<lambda>i. buildOutputPath P2 ''out'' (new_file ''out'' ''gen'' P2 i)) [0..<length ?found] =
               [''out/a/a.pb2.go'', ''out/b/b.pb2.go'']
         | _ \<Rightarrow> False)"
    by code_simp
  then obtain targets P1 P2 where p: "ParseProtoFiles (parseFile (openFile demo_env) (parseProto demo_env)) ?found = Inr targets"
    "ParseStruct \<lparr>files = targets, messages = [], enums = []\<rparr> = (P1, [])"
    "\<forall>m \<in> set (messages P1). \<forall>f \<in> set (Fields m). Map f \<longrightarrow> MapKeyType f \<noteq> []"
    "ResolveImportsAndReferences P1 = Ret (P2, [])"
    "map (\<lambda>i. buildOutputPath P2 ''out'' (new_file ''out'' ''gen'' P2 i)) [0..<length ?found] = [''out/a/a.pb2.go'', ''out/b/b.pb2.go'']"
    by (auto split: sum.splits prod.splits go.splits simp: list_all_iff)
  have c: "srcPath demo_flags = abs_path [''p'']" "list_all proper [''p'']" "lstat demo_env (abs_path [''p'']) = Inr ?t"
    "properTree ?t" "outPath demo_flags = ''out''" "moduleFlag demo_flags = ''gen''"
    "mkdirAll demo_env (outPath demo_flags) = None"
    by (simp_all add: demo_flags_def demo_env_def abs_path_def proper_def)
  show ?thesis
    using main_completes [of demo_flags "[''p'']" demo_env ?t ?found, OF c(1-4) _ c(7) refl p(1-4)] p(5) c(5,6) by simp
qed

theorem ignored_source_crashes_witness:
  "gremlinc_main demo_env (demo_flags\<lparr>ignoreFlag := ''test,p''\<rparr>) = ([], Crash) \<and>
   gremlinc_main demo_env (demo_flags\<lparr>ignoreFlag := ''test,''\<rparr>) = ([], Crash)"
proof -
  have c: "srcPath (demo_flags\<lparr>ignoreFlag := s\<rparr>) = abs_path [''p'']" "list_all proper [''p'']" "outPath (demo_flags\<lparr>ignoreFlag := s\<rparr>) \<noteq> []"
    "\<exists>t. lstat demo_env (abs_path [''p'']) = Inr t \<and> properTree t" for s
    by (simp_all add: demo_flags_def demo_env_def abs_path_def proper_def)
  have "set (ignorePatterns (demo_flags\<lparr>ignoreFlag := ''test,p''\<rparr>)) = {''test'', ''p''}"
    "set (ignorePatterns (demo_flags\<lparr>ignoreFlag := ''test,''\<rparr>)) = {''test'', []}" by code_simp+
  then show ?thesis
    using ignored_source_crashes [OF c, of "''test,p''"] ignored_source_crashes [OF c, of "''test,''"] by auto
qed

end
