(* ===== verification/Video_Episodes.thy ===== *)
theory Video_Episodes
  imports Episodes
begin

text \<open>
  How the video exporter reads a dataset, \<^verbatim>\<open>src/software/station/bin/dataset-mp4/dataset-mp4.go\<close>: the
  columns of the parquet file's record batches, the frame of a row (the exporter declares the frame,
  joint and image types of the generator's \<^verbatim>\<open>framedef.go\<close> again), and the grouping of the rows into
  episodes. The Arrow library's arrays are the values they hold; a type assertion on the wrong array,
  an index out of range and a fatal log entry are panics.
\<close>

section \<open>Columns\<close>

datatype column =
    Uint64Array "uint64 list"
  | Uint32Array "uint32 list"
  | Float32Array "float32 list"
  | BinaryArray "byte list list"
  | StringArray "string list"
  | ListArray "bool list" "int list" column
  | StructArray "column list"

record batch =
  NumRows :: nat
  Columns :: "column list"

definition value_at :: "'a list \<Rightarrow> int \<Rightarrow> 'a go" where
  "value_at xs i = (if 0 \<le> i \<and> i < int (length xs) then Ret (xs ! nat i) else Panic)"

fun asUint64 :: "column \<Rightarrow> uint64 list go" where
  "asUint64 (Uint64Array xs) = Ret xs" | "asUint64 _ = Panic"

fun asUint32 :: "column \<Rightarrow> uint32 list go" where
  "asUint32 (Uint32Array xs) = Ret xs" | "asUint32 _ = Panic"

fun asFloat32 :: "column \<Rightarrow> float32 list go" where
  "asFloat32 (Float32Array xs) = Ret xs" | "asFloat32 _ = Panic"

fun asBinary :: "column \<Rightarrow> byte list list go" where
  "asBinary (BinaryArray xs) = Ret xs" | "asBinary _ = Panic"

fun asString :: "column \<Rightarrow> string list go" where
  "asString (StringArray xs) = Ret xs" | "asString _ = Panic"

fun asList :: "column \<Rightarrow> (bool list \<times> int list \<times> column) go" where
  "asList (ListArray nulls offsets vs) = Ret (nulls, offsets, vs)" | "asList _ = Panic"

fun asStruct :: "column \<Rightarrow> column list go" where
  "asStruct (StructArray cs) = Ret cs" | "asStruct _ = Panic"

text \<open>The range of a list column's row in its values.\<close>

definition listRange :: "int list \<Rightarrow> int \<Rightarrow> (int \<times> int) go" where
  "listRange offsets i =
     go_bind (value_at offsets i) (\<lambda>start. go_bind (value_at offsets (i + 1)) (\<lambda>end. Ret (start, end)))"

section \<open>The frame of a row\<close>

definition extractJoint :: "column list \<Rightarrow> (int \<Rightarrow> Joint go) go" where
  "extractJoint cs =
     go_bind (value_at cs 0) (\<lambda>c. go_bind (asUint32 c) (\<lambda>rangeMin.
     go_bind (value_at cs 1) (\<lambda>c. go_bind (asUint32 c) (\<lambda>rangeMax.
     go_bind (value_at cs 2) (\<lambda>c. go_bind (asUint32 c) (\<lambda>position.
     go_bind (value_at cs 3) (\<lambda>c. go_bind (asFloat32 c) (\<lambda>positionNorm.
     go_bind (value_at cs 4) (\<lambda>c. go_bind (asUint32 c) (\<lambda>goal.
     go_bind (value_at cs 5) (\<lambda>c. go_bind (asFloat32 c) (\<lambda>goalNorm.
     go_bind (value_at cs 6) (\<lambda>c. go_bind (asUint32 c) (\<lambda>currentMA.
     go_bind (value_at cs 7) (\<lambda>c. go_bind (asUint32 c) (\<lambda>velocity.
     Ret (\<lambda>j.
       go_bind (value_at rangeMin j) (\<lambda>mi. go_bind (value_at rangeMax j) (\<lambda>ma.
       go_bind (value_at position j) (\<lambda>po. go_bind (value_at positionNorm j) (\<lambda>pn.
       go_bind (value_at goal j) (\<lambda>gl. go_bind (value_at goalNorm j) (\<lambda>gn.
       go_bind (value_at currentMA j) (\<lambda>cu. go_bind (value_at velocity j) (\<lambda>ve.
         Ret \<lparr>RangeMin = mi, RangeMax = ma, Position = po, PositionNorm = pn, Goal = gl, GoalNorm = gn,
           CurrentMA = cu, Velocity = ve\<rparr>)))))))))))))))))))))))))"

definition extractJoints :: "bool list \<times> int list \<times> column \<Rightarrow> int \<Rightarrow> Joint list go" where
  "extractJoints jointsArr idx = (case jointsArr of (nulls, offsets, values) \<Rightarrow>
     go_bind (value_at nulls idx) (\<lambda>isNull.
     if isNull then Ret []
     else go_bind (listRange offsets idx) (\<lambda>(start, end).
       go_bind (asStruct values) (\<lambda>cs. go_bind (extractJoint cs) (\<lambda>jointAt.
       go_fold (\<lambda>j js. go_bind (jointAt j) (\<lambda>joint. Ret (js @ [joint]))) [start..end - 1] [])))))"

definition extractImages :: "bool list \<times> int list \<times> column \<Rightarrow> int \<Rightarrow> Image list go" where
  "extractImages imagesArr idx = (case imagesArr of (nulls, offsets, values) \<Rightarrow>
     go_bind (value_at nulls idx) (\<lambda>isNull.
     if isNull then Ret []
     else go_bind (listRange offsets idx) (\<lambda>(start, end).
       go_bind (asStruct values) (\<lambda>cs. go_bind (value_at cs 0) (\<lambda>c. go_bind (asBinary c) (\<lambda>jpegArr.
       go_fold (\<lambda>j imgs. go_bind (value_at jpegArr j) (\<lambda>b. Ret (imgs @ [\<lparr>JPEG = b\<rparr>]))) [start..end - 1] []))))))"

record batch_arrays =
  episodeStartArr :: "uint64 list"
  idArr :: "byte list list"
  timestampArr :: "uint64 list"
  jointsArr :: "bool list \<times> int list \<times> column"
  imagesArr :: "bool list \<times> int list \<times> column"
  taskArr :: "string list"

definition extractFrameFromBatch :: "int \<Rightarrow> batch_arrays \<Rightarrow> Frame go" where
  "extractFrameFromBatch idx b =
     go_bind (value_at (episodeStartArr b) idx) (\<lambda>start.
     go_bind (value_at (idArr b) idx) (\<lambda>fid.
     go_bind (value_at (timestampArr b) idx) (\<lambda>ts.
     go_bind (value_at (taskArr b) idx) (\<lambda>task.
     go_bind (extractJoints (jointsArr b) idx) (\<lambda>joints.
     go_bind (extractImages (imagesArr b) idx) (\<lambda>images.
       Ret \<lparr>EpisodeStartNS = start, GlobalFrameID = fid, TimestampNsSinceEpisodeStart = ts,
         Joints = joints, Images = images, FrameTask = task\<rparr>))))))"

definition batchArrays :: "batch \<Rightarrow> batch_arrays go" where
  "batchArrays b =
     go_bind (value_at (Columns b) 0) (\<lambda>c. go_bind (asUint64 c) (\<lambda>starts.
     go_bind (value_at (Columns b) 1) (\<lambda>c. go_bind (asBinary c) (\<lambda>ids.
     go_bind (value_at (Columns b) 2) (\<lambda>c. go_bind (asUint64 c) (\<lambda>timestamps.
     go_bind (value_at (Columns b) 3) (\<lambda>c. go_bind (asList c) (\<lambda>joints.
     go_bind (value_at (Columns b) 4) (\<lambda>c. go_bind (asList c) (\<lambda>images.
     go_bind (value_at (Columns b) 5) (\<lambda>c. go_bind (asString c) (\<lambda>tasks.
       Ret \<lparr>episodeStartArr = starts, idArr = ids, timestampArr = timestamps, jointsArr = joints,
         imagesArr = images, taskArr = tasks\<rparr>))))))))))))"

section \<open>Collecting the episodes\<close>

text \<open>The frames of an episode are a slice that is nil, \<^term>\<open>None\<close>, once the episode is invalid.\<close>

record Episode =
  epFrames :: "Frame list option"
  startNS :: uint64
  episodeNum :: int

type_synonym collect_state = "Episode list \<times> Episode option"

definition framesOf :: "Episode \<Rightarrow> Frame list" where
  "framesOf e = (case epFrames e of None \<Rightarrow> [] | Some fs \<Rightarrow> fs)"

definition saveEpisode :: "collect_state \<Rightarrow> Episode list" where
  "saveEpisode s = (case s of (episodes, cur) \<Rightarrow>
     case cur of Some e \<Rightarrow> if framesOf e \<noteq> [] then episodes @ [e] else episodes | None \<Rightarrow> episodes)"

definition detectChange :: "uint64 \<Rightarrow> collect_state \<Rightarrow> collect_state" where
  "detectChange episodeStart s =
     (if (case snd s of None \<Rightarrow> True | Some e \<Rightarrow> episodeStart \<noteq> startNS e)
      then let episodes = saveEpisode s in
        (episodes, Some \<lparr>epFrames = Some [], startNS = episodeStart, episodeNum = int (length episodes) + 1\<rparr>)
      else s)"

definition addFrame :: "Frame \<Rightarrow> Episode \<Rightarrow> Episode" where
  "addFrame frame e =
     (if length (Images frame) \<noteq> 2 then e\<lparr>epFrames := None\<rparr>
      else case epFrames e of None \<Rightarrow> e | Some fs \<Rightarrow> e\<lparr>epFrames := Some (fs @ [frame])\<rparr>)"

definition collectRow :: "batch_arrays \<Rightarrow> int \<Rightarrow> collect_state \<Rightarrow> collect_state go" where
  "collectRow b i s =
     go_bind (value_at (episodeStartArr b) i) (\<lambda>episodeStart.
     let s = detectChange episodeStart s in
     go_bind (extractFrameFromBatch i b) (\<lambda>frame. Ret (fst s, map_option (addFrame frame) (snd s))))"

definition collectBatch :: "batch \<Rightarrow> collect_state \<Rightarrow> collect_state go" where
  "collectBatch b s =
     go_bind (batchArrays b) (\<lambda>arrays. go_fold (collectRow arrays) [0..int (NumRows b) - 1] s)"

text \<open>The batches that the reader yields and the error it ends with, if any but end of file.\<close>

definition collectEpisodes :: "batch list \<Rightarrow> string option \<Rightarrow> Episode list go" where
  "collectEpisodes batches readerErr =
     go_bind (go_fold collectBatch batches ([], None)) (\<lambda>s.
       case readerErr of None \<Rightarrow> Ret (saveEpisode s) | Some err \<Rightarrow> Panic)"

section \<open>Reference: the runs of rows with the same start\<close>

definition same_start :: "Frame \<Rightarrow> Frame \<Rightarrow> bool" where
  "same_start f g \<longleftrightarrow> EpisodeStartNS g = EpisodeStartNS f"

function runs :: "Frame list \<Rightarrow> Frame list list" where
  "runs [] = []"
| "runs (f # fs) = (f # takeWhile (same_start f) fs) # runs (dropWhile (same_start f) fs)"
  by pat_completeness auto

termination
  by (relation "measure length") (simp_all add: le_imp_less_Suc length_dropWhile_le)

definition two_images :: "Frame \<Rightarrow> bool" where
  "two_images f \<longleftrightarrow> length (Images f) = 2"

fun numbered :: "int \<Rightarrow> Frame list list \<Rightarrow> Episode list" where
  "numbered k [] = []"
| "numbered k (fs # fss) = \<lparr>epFrames = Some fs, startNS = EpisodeStartNS (hd fs), episodeNum = k\<rparr> # numbered (k + 1) fss"

text \<open>A batch holds these frames when its columns have them row by row.\<close>

definition batch_holds :: "batch \<Rightarrow> Frame list \<Rightarrow> bool" where
  "batch_holds b fs \<longleftrightarrow> NumRows b = length fs \<and>
     (case batchArrays b of
        Ret arrays \<Rightarrow> list_all (\<lambda>i. extractFrameFromBatch (int i) arrays = Ret (fs ! i)) [0..<length fs]
      | _ \<Rightarrow> False)"

definition addRow :: "Frame \<Rightarrow> collect_state \<Rightarrow> collect_state" where
  "addRow f s = (let s = detectChange (EpisodeStartNS f) s in (fst s, map_option (addFrame f) (snd s)))"

lemma collectRow_addRow:
  assumes "extractFrameFromBatch i arrays = Ret f"
  shows "collectRow arrays i s = Ret (addRow f s)"
  using assms by (auto simp: collectRow_def addRow_def extractFrameFromBatch_def go_bind_Ret_iff Let_def)

lemma go_fold_Ret: "(\<And>x s. x \<in> set xs \<Longrightarrow> f x s = Ret (g x s)) \<Longrightarrow> go_fold f xs s = Ret (fold g xs s)"
  by (induction xs arbitrary: s) simp_all

lemma fold_upto_nth: "fold (\<lambda>i. g (xs ! nat i)) [0..int (length xs) - 1] s = fold g xs s"
proof -
  have "map (\<lambda>i. xs ! nat i) [0..int (length xs) - 1] = xs"
    by (rule nth_equalityI) simp_all
  then show ?thesis by (metis (no_types, lifting) comp_apply fold_map ext)
qed

lemma collectBatch_fold:
  assumes "batch_holds b fs"
  shows "collectBatch b s = Ret (fold addRow fs s)"
proof -
  obtain arrays where a: "batchArrays b = Ret arrays" and n: "NumRows b = length fs"
    and x: "\<And>i. i < length fs \<Longrightarrow> extractFrameFromBatch (int i) arrays = Ret (fs ! i)"
    using assms by (auto simp: batch_holds_def list_all_iff split: go.splits)
  have "go_fold (collectRow arrays) [0..int (length fs) - 1] s = Ret (fold (\<lambda>i. addRow (fs ! nat i)) [0..int (length fs) - 1] s)"
  proof (rule go_fold_Ret)
    fix i :: int and s assume "i \<in> set [0..int (length fs) - 1]"
    then show "collectRow arrays i s = Ret (addRow (fs ! nat i) s)" using x [of "nat i"] by (auto intro: collectRow_addRow)
  qed
  then show ?thesis using a n fold_upto_nth [of addRow fs s] by (simp add: collectBatch_def)
qed

lemma collectBatches_fold:
  "list_all2 batch_holds bs fss \<Longrightarrow> go_fold collectBatch bs s = Ret (fold addRow (concat fss) s)"
  by (induction arbitrary: s rule: list_all2_induct) (simp_all add: collectBatch_fold)

text \<open>Rows of the episode in progress, and the row that begins a new one.\<close>

lemma addRows_same:
  "list_all (\<lambda>f. EpisodeStartNS f = startNS e) fs \<Longrightarrow>
    fold addRow fs (eps, Some e) = (eps, Some (e\<lparr>epFrames := case epFrames e of None \<Rightarrow> None
      | Some gs \<Rightarrow> if list_all two_images fs then Some (gs @ fs) else None\<rparr>))"
proof (induction fs arbitrary: e)
  case Nil
  then show ?case by (cases e) (simp split: option.split)
next
  case (Cons f fs)
  have "addRow f (eps, Some e) = (eps, Some (addFrame f e))"
    using Cons.prems by (simp add: addRow_def detectChange_def)
  moreover have "startNS (addFrame f e) = startNS e" by (simp add: addFrame_def split: option.split)
  ultimately show ?case
    using Cons by (auto simp: addFrame_def two_images_def split: option.splits)
qed

lemma addRow_new:
  assumes "case snd s of None \<Rightarrow> True | Some e \<Rightarrow> startNS e \<noteq> EpisodeStartNS f"
  shows "addRow f s = (saveEpisode s, Some \<lparr>epFrames = if two_images f then Some [f] else None,
    startNS = EpisodeStartNS f, episodeNum = int (length (saveEpisode s)) + 1\<rparr>)"
  using assms by (auto simp: addRow_def detectChange_def addFrame_def two_images_def Let_def split: option.splits)

lemma numbered_length [simp]: "length (numbered k fss) = length fss"
  by (induction fss arbitrary: k) simp_all

lemma collected:
  "(case snd s of None \<Rightarrow> True | Some e \<Rightarrow> fs \<noteq> [] \<longrightarrow> startNS e \<noteq> EpisodeStartNS (hd fs)) \<Longrightarrow>
    saveEpisode (fold addRow fs s) =
      saveEpisode s @ numbered (int (length (saveEpisode s)) + 1) (filter (list_all two_images) (runs fs))"
proof (induction fs arbitrary: s rule: runs.induct)
  case (2 f fs)
  let ?run = "takeWhile (same_start f) fs" and ?rest = "dropWhile (same_start f) fs"
  let ?e = "\<lparr>epFrames = if list_all two_images (f # ?run) then Some (f # ?run) else None,
    startNS = EpisodeStartNS f, episodeNum = int (length (saveEpisode s)) + 1\<rparr>"
  have "addRow f s = (saveEpisode s, Some \<lparr>epFrames = if two_images f then Some [f] else None,
      startNS = EpisodeStartNS f, episodeNum = int (length (saveEpisode s)) + 1\<rparr>)"
    using 2(2) by (intro addRow_new) (simp split: option.splits)
  moreover have "list_all (\<lambda>g. EpisodeStartNS g = EpisodeStartNS f) ?run"
    by (auto simp: list_all_iff same_start_def dest: set_takeWhileD)
  ultimately have r: "fold addRow (f # ?run) s = (saveEpisode s, Some ?e)"
    using addRows_same [of _ ?run "saveEpisode s"] by simp
  have "fold addRow (f # fs) s = fold addRow ?rest (fold addRow (f # ?run) s)"
    by (metis append_Cons fold_append comp_apply takeWhile_dropWhile_id)
  moreover have "?rest \<noteq> [] \<Longrightarrow> EpisodeStartNS f \<noteq> EpisodeStartNS (hd ?rest)"
    using hd_dropWhile [of "same_start f" fs] by (auto simp: same_start_def)
  ultimately have "saveEpisode (fold addRow (f # fs) s) = saveEpisode (saveEpisode s, Some ?e) @
      numbered (int (length (saveEpisode (saveEpisode s, Some ?e))) + 1) (filter (list_all two_images) (runs ?rest))"
    unfolding r using 2(1) [of "(saveEpisode s, Some ?e)"] by simp
  then show ?case by (simp add: saveEpisode_def [of "(_, Some _)"] framesOf_def)
qed simp

lemma collectEpisodes_runs:
  assumes "list_all2 batch_holds batches rows"
  shows "collectEpisodes batches None = Ret (numbered 1 (filter (list_all two_images) (runs (concat rows))))"
  using collectBatches_fold [OF assms] collected [where s = "([], None)" and fs = "concat rows"]
  by (simp add: collectEpisodes_def saveEpisode_def [of "([], None)"])

section \<open>The columns of a list of frames\<close>

fun offsets_from :: "int \<Rightarrow> nat list \<Rightarrow> int list" where
  "offsets_from k [] = [k]"
| "offsets_from k (n # ns) = k # offsets_from (k + int n) ns"

definition listArray :: "nat list \<Rightarrow> column list \<Rightarrow> column" where
  "listArray ns cs = ListArray (replicate (length ns) False) (offsets_from 0 ns) (StructArray cs)"

definition jointColumns :: "Joint list \<Rightarrow> column list" where
  "jointColumns js = [Uint32Array (map RangeMin js), Uint32Array (map RangeMax js), Uint32Array (map Position js),
     Float32Array (map PositionNorm js), Uint32Array (map Goal js), Float32Array (map GoalNorm js),
     Uint32Array (map CurrentMA js), Uint32Array (map Velocity js)]"

definition batch_of :: "Frame list \<Rightarrow> batch" where
  "batch_of fs = \<lparr>NumRows = length fs, Columns =
     [Uint64Array (map EpisodeStartNS fs), BinaryArray (map GlobalFrameID fs), Uint64Array (map TimestampNsSinceEpisodeStart fs),
      listArray (map (\<lambda>f. length (Joints f)) fs) (jointColumns (concat (map Joints fs))),
      listArray (map (\<lambda>f. length (Images f)) fs) [BinaryArray (map JPEG (concat (map Images fs)))],
      StringArray (map FrameTask fs)]\<rparr>"

lemma offsets_nth: "i \<le> length ns \<Longrightarrow> offsets_from k ns ! i = k + int (sum_list (take i ns))"
  by (induction k ns arbitrary: i rule: offsets_from.induct) (auto simp: nth_Cons split: nat.split)

lemma offsets_length [simp]: "length (offsets_from k ns) = Suc (length ns)"
  by (induction k ns rule: offsets_from.induct) simp_all

lemma value_at_nth [simp]: "i < length xs \<Longrightarrow> value_at xs (int i) = Ret (xs ! i)"
  by (simp add: value_at_def)

lemma listRange_offsets:
  "i < length ns \<Longrightarrow> listRange (offsets_from 0 ns) (int i) = Ret (int (sum_list (take i ns)), int (sum_list (take (Suc i) ns)))"
  using value_at_nth [of "Suc i" "offsets_from 0 ns"] value_at_nth [of i "offsets_from 0 ns"]
  by (simp add: listRange_def offsets_nth add.commute)

lemma concat_range:
  assumes "i < length xss"
  defines "a \<equiv> sum_list (take i (map length xss))" and "b \<equiv> sum_list (take (Suc i) (map length xss))"
  shows "map (\<lambda>j. concat xss ! nat j) [int a..int b - 1] = xss ! i" and "b \<le> length (concat xss)"
proof -
  have "concat xss = concat (take i xss) @ xss ! i @ concat (drop (Suc i) xss)"
    using assms(1) by (metis concat.simps(2) concat_append id_take_nth_drop)
  moreover have a: "length (concat (take i xss)) = a" by (simp add: a_def length_concat take_map)
  moreover have b: "b = a + length (xss ! i)" using assms(1) by (simp add: a_def b_def take_Suc_conv_app_nth)
  ultimately show "b \<le> length (concat xss)" by simp
  show "map (\<lambda>j. concat xss ! nat j) [int a..int b - 1] = xss ! i"
  proof (rule nth_equalityI)
    fix j assume "j < length (map (\<lambda>j. concat xss ! nat j) [int a..int b - 1])"
    then have j: "j < length (xss ! i)" using b by simp
    then have "map (\<lambda>j. concat xss ! nat j) [int a..int b - 1] ! j = concat xss ! (a + j)"
      using b by (simp add: nat_add_distrib)
    also have "\<dots> = xss ! i ! j" 
      using \<open>concat xss = _\<close> a j by (metis nth_append_length_plus nth_append)
    finally show "map (\<lambda>j. concat xss ! nat j) [int a..int b - 1] ! j = xss ! i ! j" .
  qed (simp add: b)
qed

lemma go_fold_snoc:
  "(\<And>x. x \<in> set xs \<Longrightarrow> f x = Ret (g x)) \<Longrightarrow> go_fold (\<lambda>x ys. go_bind (f x) (\<lambda>y. Ret (ys @ [y]))) xs ys = Ret (ys @ map g xs)"
  by (induction xs arbitrary: ys) simp_all

lemma extractJoints_row:
  assumes "i < length fs"
  shows "extractJoints (replicate (length fs) False, offsets_from 0 (map (\<lambda>f. length (Joints f)) fs),
    StructArray (jointColumns (concat (map Joints fs)))) (int i) = Ret (Joints (fs ! i))"
proof -
  let ?js = "concat (map Joints fs)"
  let ?a = "sum_list (take i (map length (map Joints fs)))" and ?b = "sum_list (take (Suc i) (map length (map Joints fs)))"
  obtain jointAt where j: "extractJoint (jointColumns ?js) = Ret jointAt"
    and at: "\<And>j. 0 \<le> j \<Longrightarrow> j < int (length ?js) \<Longrightarrow> jointAt j = Ret (?js ! nat j)"
    by (simp add: extractJoint_def jointColumns_def value_at_def)
  have "go_fold (\<lambda>j js. go_bind (jointAt j) (\<lambda>joint. Ret (js @ [joint]))) [int ?a..int ?b - 1] [] =
      Ret ([] @ map (\<lambda>j. ?js ! nat j) [int ?a..int ?b - 1])"
    using concat_range(2) [of i "map Joints fs"] assms by (intro go_fold_snoc at) auto
  then show ?thesis
    using listRange_offsets [of i "map (\<lambda>f. length (Joints f)) fs"] j assms concat_range(1) [of i "map Joints fs"]
    by (simp add: extractJoints_def comp_def value_at_def)
qed

lemma extractImages_row:
  assumes "i < length fs"
  shows "extractImages (replicate (length fs) False, offsets_from 0 (map (\<lambda>f. length (Images f)) fs),
    StructArray [BinaryArray (map JPEG (concat (map Images fs)))]) (int i) = Ret (Images (fs ! i))"
proof -
  let ?is = "concat (map Images fs)"
  let ?a = "sum_list (take i (map length (map Images fs)))" and ?b = "sum_list (take (Suc i) (map length (map Images fs)))"
  have "go_fold (\<lambda>j imgs. go_bind (value_at (map JPEG ?is) j) (\<lambda>b. Ret (imgs @ [\<lparr>JPEG = b\<rparr>]))) [int ?a..int ?b - 1] [] = 
      Ret ([] @ map (\<lambda>j. ?is ! nat j) [int ?a..int ?b - 1])"
  proof -
    have "go_bind (value_at (map JPEG ?is) j) (\<lambda>b. Ret (imgs @ [\<lparr>JPEG = b\<rparr>])) =
      go_bind (go_bind (value_at (map JPEG ?is) j) (\<lambda>b. Ret \<lparr>JPEG = b\<rparr>)) (\<lambda>y. Ret (imgs @ [y]))" for j imgs
      by (cases "value_at (map JPEG ?is) j") simp_all
    then show ?thesis
      using concat_range(2) [of i "map Images fs"] assms
      by (simp only:) (intro go_fold_snoc, auto simp: value_at_def)
  qed
  then show ?thesis
    using listRange_offsets [of i "map (\<lambda>f. length (Images f)) fs"] assms concat_range(1) [of i "map Images fs"]
    by (simp add: extractImages_def comp_def value_at_def)
qed

lemma batch_of_holds: "batch_holds (batch_of fs) fs"
proof -
  have v: "value_at (x # xs) 0 = Ret x" "value_at (x # y # xs) 1 = Ret y" "value_at (x # y # z # xs) 2 = Ret z"
    "value_at (x # y # z # u # xs) 3 = Ret u" "value_at (x # y # z # u # v # xs) 4 = Ret v"
    "value_at (x # y # z # u # v # w # xs) 5 = Ret w" for x y z u v w :: column and xs
    by (simp_all add: value_at_def)
  show ?thesis
    using extractJoints_row [of _ fs] extractImages_row [of _ fs]
    by (auto simp: batch_holds_def batch_of_def batchArrays_def v listArray_def list_all_iff extractFrameFromBatch_def)
qed

section \<open>Properties\<close>

text \<open>
  C9. However the rows are split into batches, the exporter collects the runs of rows with the same start, keeps those
  in which every frame has two images, whole and in order, and numbers them from 1.
\<close>

theorem collects_valid_runs:
  assumes "list_all2 batch_holds batches rows"
  shows "collectEpisodes batches None = Ret (numbered 1 (filter (list_all two_images) (runs (concat rows))))"
  using assms by (rule collectEpisodes_runs)

fun starts_differ :: "Frame list list \<Rightarrow> bool" where
  "starts_differ (f # g # fs) \<longleftrightarrow> EpisodeStartNS (hd f) \<noteq> EpisodeStartNS (hd g) \<and> starts_differ (g # fs)"
| "starts_differ _ \<longleftrightarrow> True"

lemma run_first:
  assumes "fs \<noteq> []" and "list_all (\<lambda>f. EpisodeStartNS f = EpisodeStartNS (hd fs)) fs"
    and "rest \<noteq> [] \<Longrightarrow> EpisodeStartNS (hd rest) \<noteq> EpisodeStartNS (hd fs)"
  shows "runs (fs @ rest) = fs # runs rest"
proof -
  obtain f fs' where f: "fs = f # fs'" using assms(1) by (cases fs) simp_all
  have s: "list_all (same_start f) fs'" using assms(2) f by (simp add: same_start_def [abs_def])
  have "takeWhile (same_start f) rest = []" "dropWhile (same_start f) rest = rest"
    using assms(3) f by (cases rest, simp_all add: same_start_def)+
  then show ?thesis using s f by (simp add: list_all_iff)
qed

lemma episode_okD: "episode_ok tsk fs \<Longrightarrow> fs \<noteq> [] \<and> list_all (\<lambda>f. EpisodeStartNS f = EpisodeStartNS (hd fs)) fs"
  unfolding episode_ok_def list_all_iff by blast

lemma runs_concat:
  "list_all (episode_ok tsk) hist \<Longrightarrow> starts_differ hist \<Longrightarrow> runs (concat hist) = hist"
proof (induction hist rule: induct_list012)
  case (3 f g fs)
  have f: "f \<noteq> []" "list_all (\<lambda>x. EpisodeStartNS x = EpisodeStartNS (hd f)) f" and g: "g \<noteq> []"
    using 3(3) episode_okD [of tsk f] episode_okD [of tsk g] unfolding list.pred_inject by blast+
  have "EpisodeStartNS (hd (concat (g # fs))) \<noteq> EpisodeStartNS (hd f)" using 3(4) g by auto
  from run_first [OF f this] have "runs (concat (f # g # fs)) = f # runs (concat (g # fs))" by (simp only: concat.simps)
  moreover have "runs (concat (g # fs)) = g # fs" using 3(3,4) by (intro 3(2)) simp_all
  ultimately show ?case by (simp only:)
next
  case (2 f)
  then have f: "f \<noteq> []" "list_all (\<lambda>x. EpisodeStartNS x = EpisodeStartNS (hd f)) f"
    using episode_okD [of tsk f] unfolding list.pred_inject by blast+
  from run_first [OF this, of "[]"] show ?case by simp
qed simp

text \<open>
  C8. The exporter shows what the generator saved: from the merged file of a run, which holds the frames of
  well-formed episodes one after the other, it collects these episodes again, all of them, whole and
  numbered in the order in which they were saved, provided that neighbours have different starts.
\<close>

theorem saved_episodes_collected:
  assumes "list_all (episode_ok tsk) hist" and "starts_differ hist" and "concat chunks = concat hist"
  shows "collectEpisodes (map batch_of chunks) None = Ret (numbered 1 hist)"
proof -
  have "list_all2 batch_holds (map batch_of chunks) chunks"
    by (simp add: list_all2_conv_all_nth batch_of_holds)
  moreover have "filter (list_all two_images) hist = hist"
    using assms(1) by (auto simp: filter_id_conv episode_ok_def two_images_def list_all_iff)
  ultimately show ?thesis
    using collectEpisodes_runs [of "map batch_of chunks" chunks] runs_concat [OF assms(1,2)] assms(3) by simp
qed

section \<open>Example: two episodes, and one that is dropped\<close>

definition video_frame :: "uint64 \<Rightarrow> uint64 \<Rightarrow> nat \<Rightarrow> Frame" where
  "video_frame start t n = \<lparr>EpisodeStartNS = start, GlobalFrameID = [1], TimestampNsSinceEpisodeStart = t, Joints = [],
     Images = replicate n \<lparr>JPEG = [7]\<rparr>, FrameTask = ''pick''\<rparr>"

theorem collects_valid_runs_witness:
  "collectEpisodes [batch_of [video_frame 5 0 2, video_frame 5 9 2, video_frame 6 0 2], batch_of [video_frame 6 9 1, video_frame 7 0 2]] None =
     Ret [\<lparr>epFrames = Some [video_frame 5 0 2, video_frame 5 9 2], startNS = 5, episodeNum = 1\<rparr>,
       \<lparr>epFrames = Some [video_frame 7 0 2], startNS = 7, episodeNum = 2\<rparr>]"
proof -
  let ?r = "[video_frame 5 0 2, video_frame 5 9 2, video_frame 6 0 2]" and ?q = "[video_frame 6 9 1, video_frame 7 0 2]"
  have "list_all2 batch_holds [batch_of ?r, batch_of ?q] [?r, ?q]" by (simp add: batch_of_holds)
  from collects_valid_runs [OF this] show ?thesis by (simp add: video_frame_def same_start_def two_images_def)
qed

theorem saved_episodes_collected_witness:
  "collectEpisodes [batch_of [video_frame 5 0 2], batch_of [video_frame 5 9 2, video_frame 6 0 2]] None =
     Ret (numbered 1 [[video_frame 5 0 2, video_frame 5 9 2], [video_frame 6 0 2]])"
  using saved_episodes_collected [of "''pick''" "[[video_frame 5 0 2, video_frame 5 9 2], [video_frame 6 0 2]]"
      "[[video_frame 5 0 2], [video_frame 5 9 2, video_frame 6 0 2]]"]
  by (simp add: video_frame_def episode_ok_def ms500_def)

end
