(* ===== verification/Video_Grid.thy ===== *)
theory Video_Grid
  imports Complex_Main Video_Episodes Go_Text
begin

text \<open>
  What the video exporter draws, \<^verbatim>\<open>src/software/station/bin/dataset-mp4/dataset-mp4.go\<close>: the grid frames
  that \<^verbatim>\<open>main\<close> sends to its workers, and the drawing of one grid frame as the list of the calls on the
  drawing context. Coordinates are numbers of pixels, as rationals where the source has floating
  point: they are small multiples of 1/64, which are exact there. The drawing library, the JPEG decoder, the
  render service, the fonts and \<^verbatim>\<open>ffmpeg\<close> are arguments, and so is the text of a frame's id, \<^term>\<open>None\<close> where
  \<^verbatim>\<open>uintn.FromBEBytes\<close> does not read it: the source drops that error, and \<^verbatim>\<open>String\<close> is called on nil.
\<close>

section \<open>Grid frames\<close>

text \<open>Integer division and remainder of Go, which truncate towards zero; by zero they panic.\<close>

definition quot :: "int \<Rightarrow> int \<Rightarrow> int" where
  "quot a b = sgn a * sgn b * (\<bar>a\<bar> div \<bar>b\<bar>)"

definition go_quot :: "int \<Rightarrow> int \<Rightarrow> int go" where
  "go_quot a b = (if b = 0 then Panic else Ret (quot a b))"

definition go_rem :: "int \<Rightarrow> int \<Rightarrow> int go" where
  "go_rem a b = (if b = 0 then Panic else Ret (a - b * quot a b))"

text \<open>The exporter's own \<^verbatim>\<open>min\<close>, of at least one value.\<close>

fun go_min :: "int list \<Rightarrow> int go" where
  "go_min [] = Panic"
| "go_min (v # vs) = Ret (fold (\<lambda>v m. if v < m then v else m) vs v)"

record renderJob =
  jobFrames :: "Frame list"
  episodeNums :: "int list"
  frameIndex :: int

definition noFrame :: Frame where
  "noFrame = \<lparr>EpisodeStartNS = 0, GlobalFrameID = [], TimestampNsSinceEpisodeStart = 0, Joints = [],
     Images = [], FrameTask = []\<rparr>"

definition gridSlot :: "Episode list \<Rightarrow> nat \<Rightarrow> nat \<Rightarrow> Frame \<times> int" where
  "gridSlot gridEpisodes k i =
     (if i < length gridEpisodes \<and> k < length (framesOf (gridEpisodes ! i))
      then (framesOf (gridEpisodes ! i) ! k, episodeNum (gridEpisodes ! i)) else (noFrame, 0))"

definition gridJob :: "int \<Rightarrow> Episode list \<Rightarrow> nat \<Rightarrow> int \<Rightarrow> renderJob" where
  "gridJob gridSize gridEpisodes k index =
     (let slots = map (gridSlot gridEpisodes k) [0..<nat gridSize]
      in \<lparr>jobFrames = map fst slots, episodeNums = map snd slots, frameIndex = index\<rparr>)"

definition maxFrames :: "Episode list \<Rightarrow> nat" where
  "maxFrames es = fold (\<lambda>e m. if length (framesOf e) > m then length (framesOf e) else m) es 0"

text \<open>One grid: its slice of the episodes, and a job for every frame of its longest episode.\<close>

definition gridEpisodesAt :: "Episode list \<Rightarrow> int \<Rightarrow> int \<Rightarrow> Episode list go" where
  "gridEpisodesAt episodes gridSize gridIdx =
     (let startEp = gridIdx * gridSize in
      go_bind (go_min [startEp + gridSize, int (length episodes)]) (\<lambda>endEp.
        if 0 \<le> startEp \<and> startEp \<le> endEp \<and> endEp \<le> int (length episodes)
        then Ret (take (nat (endEp - startEp)) (drop (nat startEp) episodes)) else Panic))"

definition gridJobs :: "int \<Rightarrow> Episode list \<Rightarrow> renderJob list \<Rightarrow> renderJob list" where
  "gridJobs gridSize gridEpisodes jobs =
     fold (\<lambda>k jobs. jobs @ [gridJob gridSize gridEpisodes k (int (length jobs))]) [0..<maxFrames gridEpisodes] jobs"

definition renderJobs :: "Episode list \<Rightarrow> int \<Rightarrow> int \<Rightarrow> renderJob list go" where
  "renderJobs episodes cols rows =
     (let gridSize = cols * rows in
      go_bind (go_quot (int (length episodes) + gridSize - 1) gridSize) (\<lambda>numGrids.
        go_fold (\<lambda>gridIdx jobs.
            go_bind (gridEpisodesAt episodes gridSize gridIdx) (\<lambda>es. Ret (gridJobs gridSize es jobs)))
          [0..numGrids - 1] []))"

section \<open>Drawing\<close>

datatype 'i draw =
    NewContext int int
  | SetRGB rat rat rat
  | Clear
  | SetLineWidth rat
  | DrawLine rat rat rat rat
  | Stroke
  | DrawImage 'i int int
  | LoadFontFace string rat
  | DrawString string rat rat
  | DrawRectangle rat rat rat rat
  | Fill

record 'i draw_env =
  decodeJPEG :: "byte list \<Rightarrow> string + 'i"
  fontLoads :: "string \<Rightarrow> rat \<Rightarrow> bool"
  measureString :: "string \<Rightarrow> rat \<times> rat"
  idText :: "byte list \<Rightarrow> string option"
  response :: "nat \<Rightarrow> Joint list \<Rightarrow> 'i option"

definition fontPath :: string where
  "fontPath = ''/System/Library/Fonts/Courier.ttc''"

text \<open>What is drawn only when the font can be loaded.\<close>

definition withFont :: "'i draw_env \<Rightarrow> rat \<Rightarrow> 'i draw list \<Rightarrow> 'i draw list" where
  "withFont env points cmds = (if fontLoads env fontPath points then LoadFontFace fontPath points # cmds else [])"

definition trunc_int :: "rat \<Rightarrow> int" where
  "trunc_int r = (if 0 \<le> r then \<lfloor>r\<rfloor> else \<lceil>r\<rceil>)"

definition singleWidth :: int where "singleWidth = 448"
definition singleHeight :: int where "singleHeight = 448"
definition borderWidth :: int where "borderWidth = 2"

definition drawCellImages :: "'i draw_env \<Rightarrow> Frame \<Rightarrow> int \<Rightarrow> int \<Rightarrow> 'i draw list" where
  "drawCellImages env frame offsetX offsetY =
     concat (map (\<lambda>imgIdx. let jpeg = JPEG (Images frame ! imgIdx) in
       if jpeg = [] then []
       else case decodeJPEG env jpeg of Inl err \<Rightarrow> [] | Inr img \<Rightarrow> [DrawImage img (offsetX + int imgIdx * 224) offsetY])
       [0, 1])"

definition drawEpisodeNumber :: "'i draw_env \<Rightarrow> int \<Rightarrow> int \<Rightarrow> int \<Rightarrow> 'i draw list" where
  "drawEpisodeNumber env num offsetX offsetY =
     SetRGB 1 1 1 # withFont env 11
       (let episodeText = ''Ep'' @ Itoa num;
            (textWidth, textHeight) = measureString env episodeText;
            padding = 3;
            rectX = of_int (offsetX + 448 - trunc_int textWidth - 8);
            rectY = of_int (offsetY + 5)
        in [SetRGB 0 0 (8 / 10),
            DrawRectangle (rectX - padding) (rectY - padding) (textWidth + 2 * padding) (textHeight + 2 * padding),
            Fill, SetRGB 1 1 1, DrawString episodeText rectX (of_int (offsetY + trunc_int textHeight))])"

text \<open>Two lines for each joint; the joints come with their indices.\<close>

fun jointLines :: "rat \<Rightarrow> rat \<Rightarrow> (nat \<times> Joint) list \<Rightarrow> 'i draw list" where
  "jointLines textX y [] = []"
| "jointLines textX y ((j, joint) # js) =
     [DrawString (''M'' @ Itoa (int j) @ '' P:'' @ Itoa (uint (Position joint)) @ '' G:'' @ Itoa (uint (Goal joint))) textX y,
      DrawString (''   C:'' @ Itoa (uint (CurrentMA joint)) @ ''mA V:'' @ Itoa (uint (Velocity joint))) textX (y + 13)] @
     jointLines textX (y + 13 + 14) js"

definition numJointsLeft :: "Joint list \<Rightarrow> nat" where
  "numJointsLeft js = (length js + 1) div 2"

definition drawCellState :: "'i draw_env \<Rightarrow> bool \<Rightarrow> 'i option \<Rightarrow> Frame \<Rightarrow> int \<Rightarrow> int \<Rightarrow> 'i draw list" where
  "drawCellState env enableRendering answer frame offsetX offsetY =
     (if enableRendering then
        case answer of
          Some img \<Rightarrow> [DrawImage img offsetX (offsetY + 224)]
        | None \<Rightarrow> if length (Joints frame) \<ge> 8
            then [SetRGB (2 / 10) 0 0, DrawRectangle (of_int offsetX) (of_int (offsetY + 224)) 224 224, Fill] else []
      else if length (Joints frame) > 0 then
        SetRGB 1 1 1 # withFont env 11
          (jointLines (of_int (offsetX + 5)) (of_int (offsetY + 224 + 15))
            (take (numJointsLeft (Joints frame)) (enumerate 0 (Joints frame))))
      else [])"

definition motorLine :: "rat \<Rightarrow> rat \<Rightarrow> nat \<times> Joint \<Rightarrow> 'i draw" where
  "motorLine textX y = (\<lambda>(i, joint). DrawString (''M'' @ Itoa (int i) @ '':P'' @ Itoa (uint (Position joint)) @
     '' C'' @ Itoa (uint (CurrentMA joint))) textX (y + of_nat i * (10 + 2)))"

definition drawCellText :: "'i draw_env \<Rightarrow> bool \<Rightarrow> Frame \<Rightarrow> int \<Rightarrow> int \<Rightarrow> 'i draw list go" where
  "drawCellText env enableRendering frame offsetX offsetY =
     (if \<not> fontLoads env fontPath 11 then Ret [SetRGB 1 1 1]
      else let textX = of_int (offsetX + 224 + 5);
            y = of_int (offsetY + 224 + 15)
        in if enableRendering then
          go_bind (idString (idText env) (GlobalFrameID frame)) (\<lambda>globalFrameID.
          let timestampMs = TimestampNsSinceEpisodeStart frame div 1000000;
              y1 = y + 13; y2 = y1 + 15;
              (task, y3) = (if FrameTask frame \<noteq> [] then ([DrawString (''Task:'' @ FrameTask frame) textX y2], y2 + 15) else ([], y2))
          in Ret ([SetRGB 1 1 1, LoadFontFace fontPath 11, DrawString (''ID:'' @ globalFrameID) textX y,
              DrawString (''T:'' @ Itoa (uint timestampMs) @ ''ms'') textX y1] @ task @
             withFont env 10 [] @ map (motorLine textX y3) (take 8 (enumerate 0 (Joints frame)))))
        else Ret ([SetRGB 1 1 1, LoadFontFace fontPath 11] @
          jointLines textX y (drop (numJointsLeft (Joints frame)) (enumerate 0 (Joints frame)))))"

definition offsets :: "int \<Rightarrow> int \<Rightarrow> (int \<times> int) go" where
  "offsets cols i =
     go_bind (go_quot i cols) (\<lambda>row. go_bind (go_rem i cols) (\<lambda>col.
       Ret (col * (singleWidth + borderWidth) + borderWidth, row * (singleHeight + borderWidth) + borderWidth)))"

definition drawCell :: "'i draw_env \<Rightarrow> bool \<Rightarrow> int \<Rightarrow> int list \<Rightarrow> 'i option list \<Rightarrow> nat \<times> Frame \<Rightarrow> 'i draw list go" where
  "drawCell env enableRendering cols nums renders = (\<lambda>(i, frame).
     go_bind (offsets cols (int i)) (\<lambda>(offsetX, offsetY).
       if length (Images frame) \<noteq> 2 then Ret []
       else go_bind (drawCellText env enableRendering frame offsetX offsetY) (\<lambda>cellText.
         Ret (drawCellImages env frame offsetX offsetY @
         (if i < length nums \<and> nums ! i > 0 then drawEpisodeNumber env (nums ! i) offsetX offsetY else []) @
         drawCellState env enableRendering (if enableRendering then renders ! i else None) frame offsetX offsetY @
         cellText))))"

text \<open>The answers of the render service, one for each slot; a slot that is not asked has none.\<close>

definition gridRenders :: "'i draw_env \<Rightarrow> Frame list \<Rightarrow> int \<Rightarrow> 'i option list" where
  "gridRenders env fs gridSize =
     map (\<lambda>i. if i < length fs \<and> length (Joints (fs ! i)) \<ge> 8 \<and> length (Images (fs ! i)) = 2
       then response env i (Joints (fs ! i)) else None) [0..<nat gridSize]"

definition canvasWidth :: "int \<Rightarrow> int" where
  "canvasWidth cols = singleWidth * cols + borderWidth * (cols + 1)"

definition canvasHeight :: "int \<Rightarrow> int" where
  "canvasHeight rows = singleHeight * rows + borderWidth * (rows + 1)"

definition gridLines :: "int \<Rightarrow> int \<Rightarrow> 'i draw list" where
  "gridLines cols rows =
     concat (map (\<lambda>col. let x = of_int (col * (singleWidth + borderWidth) + borderWidth div 2)
       in [DrawLine x 0 x (of_int (canvasHeight rows)), Stroke]) [0..cols]) @
     concat (map (\<lambda>row. let y = of_int (row * (singleHeight + borderWidth) + borderWidth div 2)
       in [DrawLine 0 y (of_int (canvasWidth cols)) y, Stroke]) [0..rows])"

definition drawGridFrame :: "'i draw_env \<Rightarrow> Frame list \<Rightarrow> int list \<Rightarrow> int \<Rightarrow> int \<Rightarrow> bool \<Rightarrow> 'i draw list go" where
  "drawGridFrame env fs nums cols rows enableRendering =
     (if enableRendering \<and> cols * rows < 0 then Panic
      else let renders = gridRenders env fs (cols * rows) in
      go_fold (\<lambda>slot cmds. go_bind (drawCell env enableRendering cols nums renders slot) (\<lambda>cell. Ret (cmds @ cell)))
        (filter (\<lambda>(i, _). int i < cols * rows) (enumerate 0 fs))
        ([NewContext (canvasWidth cols) (canvasHeight rows), SetRGB 0 0 0, Clear, SetRGB (3 / 10) (3 / 10) (3 / 10),
          SetLineWidth (of_int borderWidth)] @ gridLines cols rows))"

text \<open>The drawings of a single frame and of a separator, which \<^verbatim>\<open>main\<close> does not use.\<close>

definition motorText :: "nat \<times> Joint \<Rightarrow> string" where
  "motorText = (\<lambda>(i, joint). ''  Motor '' @ Itoa (int i) @ '': Pos='' @ Itoa (uint (Position joint)) @
     '' Goal='' @ Itoa (uint (Goal joint)) @ '' Curr='' @ Itoa (uint (CurrentMA joint)) @ ''mA Vel='' @ Itoa (uint (Velocity joint)))"

definition drawFrame :: "'i draw_env \<Rightarrow> Frame \<Rightarrow> int \<Rightarrow> 'i draw list go" where
  "drawFrame env frame index =
     go_bind (idString (idText env) (GlobalFrameID frame)) (\<lambda>globalFrameID.
     Ret ([NewContext (224 * 2) (224 + 280), SetRGB 0 0 0, Clear] @
     concat (map (\<lambda>(i, image). if JPEG image = [] then []
       else case decodeJPEG env (JPEG image) of Inl err \<Rightarrow> [] | Inr img \<Rightarrow> [DrawImage img (int i * 224) 0])
       (take 2 (enumerate 0 (Images frame)))) @
     SetRGB 1 1 1 # withFont env 14 [] @
     [DrawString (''Frame: '' @ Itoa index) 10 244,
      DrawString (''Global Frame ID: '' @ globalFrameID) 10 263,
      DrawString (''Time: '' @ Itoa (uint (TimestampNsSinceEpisodeStart frame div 1000000)) @ '' ms'') 10 282,
      DrawString ''Motors:'' 10 306] @
     map (\<lambda>(i, joint). DrawString (motorText (i, joint)) 10 (325 + of_nat i * 17)) (enumerate 0 (Joints frame))))"

definition drawEpisodeSeparator :: "'i draw_env \<Rightarrow> int \<Rightarrow> 'i draw list" where
  "drawEpisodeSeparator env episodeNumber =
     (let txt = ''Episode '' @ Itoa episodeNumber; (w, h) = measureString env txt
      in [NewContext 448 524, SetRGB 0 0 0, Clear, SetRGB 1 1 1] @ withFont env 32 [] @
         [DrawString txt ((448 - w) / 2) ((524 - h) / 2)])"

text \<open>\<^verbatim>\<open>frame_%06d.png\<close>\<close>

definition pad6 :: "int \<Rightarrow> string" where
  "pad6 n = (let s = Itoa n in
     if n < 0 then ''-'' @ replicate (6 - length s) (CHR ''0'') @ Itoa (- n) else replicate (6 - length s) (CHR ''0'') @ s)"

definition framePath :: "string \<Rightarrow> int \<Rightarrow> string" where
  "framePath outputDir index = path_join [outputDir, ''frame_'' @ pad6 index @ ''.png'']"

definition renderGridFrame ::
  "'i draw_env \<Rightarrow> (string \<Rightarrow> 'i draw list \<Rightarrow> string option) \<Rightarrow> string \<Rightarrow> int \<Rightarrow> int \<Rightarrow> bool \<Rightarrow> renderJob \<Rightarrow> string option go" where
  "renderGridFrame env savePNG outputDir cols rows enableRendering job =
     go_bind (drawGridFrame env (jobFrames job) (episodeNums job) cols rows enableRendering)
       (\<lambda>cmds. Ret (savePNG (framePath outputDir (frameIndex job)) cmds))"

definition renderFrame :: "'i draw_env \<Rightarrow> (string \<Rightarrow> 'i draw list \<Rightarrow> string option) \<Rightarrow> string \<Rightarrow> Frame \<Rightarrow> int \<Rightarrow> string option go" where
  "renderFrame env savePNG outputDir frame index =
     go_bind (drawFrame env frame index) (\<lambda>cmds. Ret (savePNG (framePath outputDir index) cmds))"

definition renderEpisodeSeparator :: "'i draw_env \<Rightarrow> (string \<Rightarrow> 'i draw list \<Rightarrow> string option) \<Rightarrow> string \<Rightarrow> int \<Rightarrow> int \<Rightarrow> string option" where
  "renderEpisodeSeparator env savePNG outputDir index episodeNumber =
     savePNG (framePath outputDir index) (drawEpisodeSeparator env episodeNumber)"

text \<open>
  One request to the render service: the URL has the first eight joint positions in percent, formatted by
  \<open>angle\<close>; the answer has a status and a body.
\<close>

definition fetch3DRender ::
  "(string \<Rightarrow> string + int \<times> byte list) \<Rightarrow> (byte list \<Rightarrow> string + 'i) \<Rightarrow> (float32 \<Rightarrow> string) \<Rightarrow> string \<Rightarrow> Joint list \<Rightarrow> int \<Rightarrow> string + 'i" where
  "fetch3DRender httpGet decode angle host joints port =
     (if length joints < 8 then Inl (''need at least 8 joints, got '' @ Itoa (int (length joints)))
      else let angles = map (\<lambda>j. angle (PositionNorm j)) (take 8 joints);
               url = ''http://'' @ host @ '':'' @ Itoa port @ ''/render?angles='' @ join '','' angles @ ''&view=perspective''
        in case httpGet url of
          Inl err \<Rightarrow> Inl err
        | Inr (status, body) \<Rightarrow>
            if status \<noteq> 200 then Inl (''render service returned status '' @ Itoa status) else decode body)"

section \<open>Every frame of every episode is shown once\<close>

text \<open>What a job shows of the episode with a number.\<close>

definition showsOf :: "int \<Rightarrow> renderJob \<Rightarrow> Frame list" where
  "showsOf n j = map snd (filter (\<lambda>(m, f). m = n) (zip (episodeNums j) (jobFrames j)))"

lemma quot_pos: "0 \<le> a \<Longrightarrow> 0 < b \<Longrightarrow> quot a b = a div b"
  by (cases "a = 0") (simp_all add: quot_def)

lemma filter_one: "filter (\<lambda>i. i = a \<and> Q) [0..<n] = (if a < n \<and> Q then [a] else [])"
  by (induction n) auto

lemma showsOf_gridJob:
  assumes nums: "\<And>i. i < length es \<Longrightarrow> episodeNum (es ! i) = int (b + i) + 1" and "length es \<le> G" and "b \<le> I"
  shows "showsOf (int I + 1) (gridJob (int G) es k index) =
    (if I - b < length es \<and> k < length (framesOf (es ! (I - b))) then [framesOf (es ! (I - b)) ! k] else [])"
proof -
  let ?Q = "I - b < length es \<and> k < length (framesOf (es ! (I - b)))"
  have s: "(snd (gridSlot es k i) = int I + 1) = (i = I - b \<and> ?Q)" for i
  proof (cases "i = I - b")
    case True
    then show ?thesis using nums [of i] assms(3) by (simp add: gridSlot_def)
  next
    case False
    then show ?thesis using nums [of i] assms(3) by (auto simp: gridSlot_def)
  qed
  have z: "zip (map (snd \<circ> h) xs) (map (fst \<circ> h) xs) = map (\<lambda>i. (snd (h i), fst (h i))) xs" for h :: "nat \<Rightarrow> Frame \<times> int" and xs
    by (induction xs) auto
  have "showsOf (int I + 1) (gridJob (int G) es k index) =
      map (\<lambda>i. fst (gridSlot es k i)) (filter (\<lambda>i. snd (gridSlot es k i) = int I + 1) [0..<G])"
    unfolding showsOf_def gridJob_def Let_def renderJob.simps nat_int map_map z filter_map
    by (simp add: comp_def split_def)
  also have "\<dots> = map (\<lambda>i. fst (gridSlot es k i)) (if I - b < G \<and> ?Q then [I - b] else [])"
    unfolding s filter_one ..
  finally show ?thesis using assms(2) by (auto simp: gridSlot_def)
qed

lemma showsOf_earlier:
  assumes nums: "\<And>i. i < length es \<Longrightarrow> episodeNum (es ! i) = int (b + i) + 1" and "I < b"
  shows "showsOf (int I + 1) (gridJob (int G) es k index) = []"
proof -
  have "snd (gridSlot es k i) \<noteq> int I + 1" for i using nums [of i] assms(2) by (auto simp: gridSlot_def)
  then show ?thesis by (auto simp: showsOf_def gridJob_def Let_def filter_empty_conv in_set_zip)
qed

lemma maxFrames_ge: "e \<in> set es \<Longrightarrow> length (framesOf e) \<le> maxFrames es"
proof -
  have m: "m \<le> fold (\<lambda>e m. if length (framesOf e) > m then length (framesOf e) else m) es m" for m es
  proof (induction es arbitrary: m)
    case (Cons e es)
    then show ?case by (auto intro: le_trans [OF less_imp_le_nat Cons.IH] Cons.IH)
  qed simp
  have "e \<in> set es \<Longrightarrow> length (framesOf e) \<le> fold (\<lambda>e m. if length (framesOf e) > m then length (framesOf e) else m) es m" for m es
  proof (induction es arbitrary: m)
    case (Cons a es)
    then show ?case using m [of "length (framesOf a)" es] m [of m es] by (auto intro: order_trans)
  qed simp
  then show "e \<in> set es \<Longrightarrow> length (framesOf e) \<le> maxFrames es" by (simp add: maxFrames_def)
qed

lemma gridJobs_map:
  "gridJobs g es jobs = jobs @ map (\<lambda>k. gridJob g es k (int (length jobs) + int k)) [0..<maxFrames es]"
proof -
  have "fold (\<lambda>k jobs. jobs @ [gridJob g es k (int (length jobs))]) [0..<n] jobs =
      jobs @ map (\<lambda>k. gridJob g es k (int (length jobs) + int k)) [0..<n]" for n
    by (induction n) simp_all
  then show ?thesis by (simp add: gridJobs_def)
qed

lemma concat_pick: "concat (map (\<lambda>k. if k < length xs then [xs ! k] else []) [0..<n]) = take n xs"
proof (induction n)
  case (Suc n)
  then show ?case by (cases "n < length xs") (simp_all add: take_Suc_conv_app_nth)
qed simp

lemma showsOf_grid:
  assumes nums: "\<And>i. i < length es \<Longrightarrow> episodeNum (es ! i) = int (b + i) + 1" and "length es \<le> G"
  shows "concat (map (showsOf (int I + 1)) (gridJobs (int G) es jobs)) = concat (map (showsOf (int I + 1)) jobs) @
    (if b \<le> I \<and> I - b < length es then framesOf (es ! (I - b)) else [])"
proof (cases "b \<le> I \<and> I - b < length es")
  case True
  have "length (framesOf (es ! (I - b))) \<le> maxFrames es" using True by (intro maxFrames_ge) simp
  then show ?thesis
    using True showsOf_gridJob [OF nums assms(2), of I] concat_pick [of "framesOf (es ! (I - b))"]
    by (simp add: gridJobs_map comp_def)
next
  case False
  then show ?thesis
    using showsOf_gridJob [OF nums assms(2), of I] showsOf_earlier [OF nums, of I]
    by (cases "b \<le> I") (auto simp: gridJobs_map comp_def)
qed

lemma gridEpisodesAt_slice:
  assumes "c * G \<le> length eps"
  shows "gridEpisodesAt eps (int G) (int c) = Ret (take G (drop (c * G) eps))"
proof -
  have "int c * int G + int G = int (c * G + G)" "int c * int G = int (c * G)" by simp_all
  then show ?thesis
    using assms by (auto simp: gridEpisodesAt_def Let_def min_def simp del: of_nat_add of_nat_mult) 
qed

definition jobsUpTo :: "nat \<Rightarrow> Episode list \<Rightarrow> nat \<Rightarrow> renderJob list" where
  "jobsUpTo G eps n = fold (\<lambda>c. gridJobs (int G) (take G (drop (c * G) eps))) [0..<n] []"

lemma renderJobs_upto:
  assumes "cols * rows = int G" and "0 < G"
  shows "renderJobs eps cols rows = Ret (jobsUpTo G eps ((length eps + G - 1) div G))"
proof -
  let ?n = "(length eps + G - 1) div G"
  have q: "go_quot (int (length eps) + int G - 1) (int G) = Ret (int ?n)"
    using assms(2) quot_pos [of "int (length eps) + int G - 1" "int G"]
    by (simp add: go_quot_def zdiv_int of_nat_diff)
  have m: "[0..int n - 1] = map int [0..<n]" for n by (rule nth_equalityI) simp_all
  have le: "c * G \<le> length eps" if "c < ?n" for c
  proof -
    have "Suc c \<le> ?n" using that by simp
    then have "Suc c * G \<le> length eps + G - 1" using assms(2) by (simp only: less_eq_div_iff_mult_less_eq)
    then show ?thesis by simp
  qed
  have f: "go_fold (\<lambda>gridIdx jobs. go_bind (gridEpisodesAt eps (int G) gridIdx) (\<lambda>es. Ret (gridJobs (int G) es jobs))) (map int xs) s =
      Ret (fold (\<lambda>c. gridJobs (int G) (take G (drop (c * G) eps))) xs s)" if "\<forall>c \<in> set xs. c < ?n" for xs s
    using that by (induction xs arbitrary: s) (simp_all add: gridEpisodesAt_slice le)
  show ?thesis using f [of "[0..<?n]" "[]"] by (simp add: renderJobs_def assms(1) q m jobsUpTo_def)
qed

lemma jobsUpTo_shows:
  assumes nums: "\<And>i. i < length eps \<Longrightarrow> episodeNum (eps ! i) = int i + 1" and "0 < G" and "I < length eps"
  shows "concat (map (showsOf (int I + 1)) (jobsUpTo G eps n)) = (if I < n * G then framesOf (eps ! I) else [])"
proof (induction n)
  case 0
  then show ?case by (simp add: jobsUpTo_def)
next
  case (Suc n)
  let ?es = "take G (drop (n * G) eps)"
  have n: "episodeNum (?es ! i) = int (n * G + i) + 1" if "i < length ?es" for i using nums [of "n * G + i"] that by (simp add: less_diff_conv add.commute)
  have "length ?es \<le> G" by simp
  note g = showsOf_grid [OF n this, of I "jobsUpTo G eps n"]
  have "jobsUpTo G eps (Suc n) = gridJobs (int G) ?es (jobsUpTo G eps n)" by (simp add: jobsUpTo_def)
  moreover have "(n * G \<le> I \<and> I - n * G < length ?es) = (n * G \<le> I \<and> I < Suc n * G)" using assms(3) by auto
  moreover have "?es ! (I - n * G) = eps ! I" if "n * G \<le> I" "I < Suc n * G" using that assms(3) by simp
  ultimately show ?case using g Suc by auto
qed

lemma jobs_indexed: "map frameIndex (jobsUpTo G eps n) = [0..int (length (jobsUpTo G eps n)) - 1]"
proof (induction n)
  case (Suc n)
  let ?es = "take G (drop (n * G) eps)" and ?js = "jobsUpTo G eps n"
  have "jobsUpTo G eps (Suc n) = gridJobs (int G) ?es ?js" by (simp add: jobsUpTo_def)
  moreover have "[0..int (length ?js + m) - 1] = [0..int (length ?js) - 1] @ map (\<lambda>k. int (length ?js) + int k) [0..<m]" for m
    by (rule nth_equalityI) (auto simp: nth_append)
  ultimately show ?case using Suc by (simp add: gridJobs_map gridJob_def Let_def comp_def)
qed (simp add: jobsUpTo_def)

text \<open>
  C7. The video shows every frame of every episode exactly once and in order: with a grid of positive size and
  episodes numbered from 1, the jobs are numbered consecutively from 0, and what they show under the number
  of an episode, in the order of the jobs, is the list of its frames.
\<close>

theorem every_frame_shown_once:
  assumes "0 < cols * rows" and "map episodeNum episodes = [1..int (length episodes)]"
  shows "\<exists>jobs. renderJobs episodes cols rows = Ret jobs \<and>
    map frameIndex jobs = [0..int (length jobs) - 1] \<and>
    (\<forall>i < length episodes. concat (map (showsOf (int i + 1)) jobs) = framesOf (episodes ! i))"
proof -
  define G where "G = nat (cols * rows)"
  have G: "cols * rows = int G" "0 < G" using assms(1) by (simp_all add: G_def)
  let ?n = "(length episodes + G - 1) div G"
  have nums: "episodeNum (episodes ! i) = int i + 1" if "i < length episodes" for i
    using arg_cong [OF assms(2), of "\<lambda>xs. xs ! i"] that by simp
  have "length episodes \<le> ?n * G"
  proof -
    have "length episodes + G - 1 < (?n + 1) * G" using G(2) by (simp add: dividend_less_div_times)
    then show ?thesis by simp
  qed
  then have "concat (map (showsOf (int i + 1)) (jobsUpTo G episodes ?n)) = framesOf (episodes ! i)" if "i < length episodes" for i
    using jobsUpTo_shows [OF nums G(2) that, of ?n] that by simp
  then show ?thesis using renderJobs_upto [OF G, of episodes] jobs_indexed [of G episodes ?n] by blast
qed

section \<open>Images stay in their cells\<close>

lemma offsets_cell:
  assumes "0 < cols" and "i < nat (cols * rows)"
  shows "offsets cols (int i) = Ret (450 * (int i mod cols) + 2, 450 * (int i div cols) + 2)"
    and "0 \<le> int i mod cols \<and> int i mod cols < cols" and "0 \<le> int i div cols \<and> int i div cols < rows"
proof -
  show "offsets cols (int i) = Ret (450 * (int i mod cols) + 2, 450 * (int i div cols) + 2)"
    using assms(1) quot_pos [of "int i" cols]
    by (simp add: offsets_def go_quot_def go_rem_def minus_mult_div_eq_mod singleWidth_def singleHeight_def borderWidth_def algebra_simps)
  show "0 \<le> int i mod cols \<and> int i mod cols < cols" using assms(1) by simp
  have "int i < rows * cols" using assms(2) by (simp add: mult.commute)
  have "int i div cols < rows"
  proof (rule ccontr)
    assume "\<not> int i div cols < rows"
    then have "rows * cols \<le> int i div cols * cols" using assms(1) by (simp add: mult_right_mono)
    also have "\<dots> \<le> int i" using assms(1) by (metis minus_mod_eq_div_mult pos_mod_sign diff_ge_0_iff_ge minus_diff_eq le_minus_iff diff_le_eq le_add_same_cancel1 mult.commute)
    finally show False using \<open>int i < rows * cols\<close> by simp
  qed
  then show "0 \<le> int i div cols \<and> int i div cols < rows"
    using assms(1) by (simp add: pos_imp_zdiv_nonneg_iff)
qed

definition is_image :: "'i draw \<Rightarrow> bool" where
  "is_image d = (case d of DrawImage _ _ _ \<Rightarrow> True | _ \<Rightarrow> False)"

text \<open>The pictures that belong into a cell, with their places in it: the two camera images next to each other, and the
  rendered robot below the first.\<close>

definition camera :: "'i draw_env \<Rightarrow> Image \<Rightarrow> 'i option" where
  "camera env pic = (if JPEG pic = [] then None else case decodeJPEG env (JPEG pic) of Inl err \<Rightarrow> None | Inr img \<Rightarrow> Some img)"

definition picture_at :: "int \<Rightarrow> int \<Rightarrow> 'i option \<Rightarrow> ('i \<times> int \<times> int) list" where
  "picture_at x y img = (case img of None \<Rightarrow> [] | Some i \<Rightarrow> [(i, x, y)])"

definition pictures :: "'i draw_env \<Rightarrow> bool \<Rightarrow> nat \<Rightarrow> Frame \<Rightarrow> ('i \<times> int \<times> int) list" where
  "pictures env rendering i frame =
     (case Images frame of
        [left, right] \<Rightarrow> picture_at 0 0 (camera env left) @ picture_at 224 0 (camera env right) @
          (if rendering \<and> 8 \<le> length (Joints frame) then picture_at 0 224 (response env i (Joints frame)) else [])
      | _ \<Rightarrow> [])"

text \<open>Slot \<open>i\<close> is the cell in row \<open>i div cols\<close> and column \<open>i mod cols\<close>; the cells are 448 pixels wide and high, and 2 apart.\<close>

definition placed :: "'i draw_env \<Rightarrow> bool \<Rightarrow> int \<Rightarrow> nat \<Rightarrow> Frame \<Rightarrow> ('i \<times> int \<times> int) list" where
  "placed env rendering cols i frame =
     map (\<lambda>(img, x, y). (img, 450 * (int i mod cols) + 2 + x, 450 * (int i div cols) + 2 + y)) (pictures env rendering i frame)"

lemma no_images [simp]:
  "filter is_image (jointLines tx ty js) = []" "filter is_image (drawEpisodeNumber env num ox oy) = []"
  "filter is_image (gridLines cols rows) = []" "filter is_image (map (motorLine tx ty) js') = []" "\<not> is_image (SetRGB a b c)" "\<not> is_image (LoadFontFace s q)" "\<not> is_image Fill"
  "\<not> is_image (DrawRectangle a b c d)" "\<not> is_image (DrawString s a b)" "is_image (DrawImage img x y)"
proof -
  show "filter is_image (jointLines tx ty js) = []"
    by (induction tx ty js rule: jointLines.induct) (simp_all add: is_image_def)
  show "filter is_image (drawEpisodeNumber env num ox oy) = []"
    by (simp add: drawEpisodeNumber_def withFont_def Let_def split_def is_image_def)
  show "filter is_image (gridLines cols rows) = []"
    by (auto simp: gridLines_def Let_def filter_empty_conv is_image_def)
  show "filter is_image (map (motorLine tx ty) js') = []"
    by (auto simp: motorLine_def filter_empty_conv is_image_def)
qed (simp_all add: is_image_def)

text \<open>The one way in which the text of a cell panics.\<close>

definition id_unreadable :: "'i draw_env \<Rightarrow> bool \<Rightarrow> Frame \<Rightarrow> bool" where
  "id_unreadable env rendering frame \<longleftrightarrow> rendering \<and> fontLoads env fontPath 11 \<and> length (Images frame) = 2 \<and>
     idText env (GlobalFrameID frame) = None"

lemma drawCellText_cases:
  assumes "length (Images frame) = 2"
  shows "if id_unreadable env r frame then drawCellText env r frame ox oy = Panic
    else \<exists>cmds. drawCellText env r frame ox oy = Ret cmds \<and> filter is_image cmds = []"
  using assms
  by (cases "idText env (GlobalFrameID frame)") (simp_all add: drawCellText_def id_unreadable_def idString_def withFont_def Let_def)

lemma drawCellState_images:
  "filter is_image (drawCellState env r answer frame ox oy) =
    (if r then case answer of Some img \<Rightarrow> [DrawImage img ox (oy + 224)] | None \<Rightarrow> [] else [])"
  by (simp add: drawCellState_def withFont_def split: option.split)

lemma drawCellImages_images:
  assumes "Images frame = [left, right]"
  shows "drawCellImages env frame ox oy = map (\<lambda>(img, x, y). DrawImage img (ox + x) (oy + y)) (picture_at 0 0 (camera env left) @ picture_at 224 0 (camera env right))"
  using assms by (simp add: drawCellImages_def Let_def camera_def picture_at_def split: sum.split)

lemma drawCell_cases:
  assumes "0 < cols" and "i < nat (cols * rows)" and "r \<longrightarrow> i < length renders"
    and "r \<Longrightarrow> renders ! i = (if 8 \<le> length (Joints frame) \<and> length (Images frame) = 2 then response env i (Joints frame) else None)"
  shows "if id_unreadable env r frame then drawCell env r cols nums renders (i, frame) = Panic
    else \<exists>cmds. drawCell env r cols nums renders (i, frame) = Ret cmds \<and>
      filter is_image cmds = map (\<lambda>(img, x, y). DrawImage img x y) (placed env r cols i frame)"
proof (cases "length (Images frame) = 2")
  case True
  then obtain left right where im: "Images frame = [left, right]" by (auto simp: length_Suc_conv numeral_2_eq_2)
  let ?ox = "450 * (int i mod cols) + 2" and ?oy = "450 * (int i div cols) + 2"
  note o = offsets_cell(1) [OF assms(1,2)]
  have cell_text: "if id_unreadable env r frame then drawCellText env r frame ?ox ?oy = Panic
      else \<exists>cmds. drawCellText env r frame ?ox ?oy = Ret cmds \<and> filter is_image cmds = []"
    by (rule drawCellText_cases [OF True])
  have pics: "filter is_image (drawCellImages env frame ?ox ?oy) @
      (if r then case renders ! i of Some img \<Rightarrow> [DrawImage img ?ox (?oy + 224)] | None \<Rightarrow> [] else []) =
      map (\<lambda>(img, x, y). DrawImage img x y) (placed env r cols i frame)"
    using assms(4) im
    by (auto simp: placed_def pictures_def drawCellImages_images picture_at_def split: option.splits)
  show ?thesis
  proof (cases "id_unreadable env r frame")
    case bad: True
    then show ?thesis using cell_text True o by (simp add: drawCell_def)
  next
    case False
    then obtain cmds where "drawCellText env r frame ?ox ?oy = Ret cmds" "filter is_image cmds = []" using cell_text by auto
    then show ?thesis using False True o pics by (cases r) (auto simp: drawCell_def drawCellState_images)
  qed
next
  case False
  then have "pictures env r i frame = []" by (auto simp: pictures_def split: list.splits)
  then show ?thesis using False offsets_cell(1) [OF assms(1,2)] by (simp add: drawCell_def id_unreadable_def placed_def)
qed

lemma slots_indexed:
  "filter (\<lambda>(i, _). int i < G) (enumerate 0 fs) = map (\<lambda>i. (i, fs ! i)) [0..<min (length fs) (nat G)]"
proof -
  have "enumerate 0 fs = map (\<lambda>i. (i, fs ! i)) [0..<length fs]"
    by (rule nth_equalityI) (simp_all add: nth_enumerate_eq)
  moreover have "filter (\<lambda>i. int i < G) [0..<n] = [0..<min n (nat G)]" for n
  proof (induction n)
    case (Suc n)
    show ?case
    proof (cases "int n < G")
      case True
      then have "min n (nat G) = n" "min (Suc n) (nat G) = Suc n" by auto
      then show ?thesis using Suc True by simp
    next
      case False
      then have "min n (nat G) = nat G" "min (Suc n) (nat G) = nat G" by auto
      then show ?thesis using Suc False by simp
    qed
  qed simp
  ultimately show ?thesis by (simp add: filter_map comp_def)
qed

text \<open>Drawing a grid frame: the panics, and the images in the order of the slots.\<close>

lemma drawGridFrame_cases:
  assumes "0 < cols" and "0 < rows"
  shows "if \<exists>i < min (length fs) (nat (cols * rows)). id_unreadable env r (fs ! i)
    then drawGridFrame env fs nums cols rows r = Panic
    else \<exists>cmds. drawGridFrame env fs nums cols rows r = Ret cmds \<and>
      filter is_image cmds = concat (map (\<lambda>i. map (\<lambda>(img, x, y). DrawImage img x y) (placed env r cols i (fs ! i)))
        [0..<min (length fs) (nat (cols * rows))])"
proof -
  let ?n = "min (length fs) (nat (cols * rows))" and ?renders = "gridRenders env fs (cols * rows)"
  let ?f = "\<lambda>slot cmds. go_bind (drawCell env r cols nums ?renders slot) (\<lambda>cell. Ret (cmds @ cell))"
  let ?pics = "\<lambda>i. map (\<lambda>(img, x, y). DrawImage img x y) (placed env r cols i (fs ! i))"
  have fold: "if \<exists>i \<in> set is. id_unreadable env r (fs ! i) then go_fold ?f (map (\<lambda>i. (i, fs ! i)) is) cmds0 = Panic
      else \<exists>cmds. go_fold ?f (map (\<lambda>i. (i, fs ! i)) is) cmds0 = Ret cmds \<and>
        filter is_image cmds = filter is_image cmds0 @ concat (map ?pics is)"
    if "\<forall>i \<in> set is. i < ?n" for "is" cmds0
    using that
  proof (induction "is" arbitrary: cmds0)
    case (Cons i "is")
    then have i: "i < nat (cols * rows)" "i < length fs" by auto
    have "r \<longrightarrow> i < length ?renders" "?renders ! i = (if 8 \<le> length (Joints (fs ! i)) \<and> length (Images (fs ! i)) = 2 then response env i (Joints (fs ! i)) else None)"
      using i by (simp_all add: gridRenders_def)
    note c = drawCell_cases [where frame = "fs ! i" and env = env and nums = nums, OF assms(1) i(1) this]
    show ?case
    proof (cases "id_unreadable env r (fs ! i)")
      case True
      then show ?thesis using c by simp
    next
      case False
      then obtain cell where "drawCell env r cols nums ?renders (i, fs ! i) = Ret cell" "filter is_image cell = ?pics i"
        using c by auto
      then show ?thesis using Cons.IH [of "cmds0 @ cell"] Cons.prems False by auto
    qed
  qed simp
  have pos: "\<not> cols * rows < 0" using assms by (simp add: not_less)
  let ?start = "[NewContext (canvasWidth cols) (canvasHeight rows), SetRGB 0 0 0, Clear, SetRGB (3 / 10) (3 / 10) (3 / 10),
          SetLineWidth (of_int borderWidth)] @ gridLines cols rows"
  have start: "filter is_image ?start = []" by (simp add: is_image_def)
  have d: "drawGridFrame env fs nums cols rows r = go_fold ?f (map (\<lambda>i. (i, fs ! i)) [0..<?n]) ?start"
    unfolding drawGridFrame_def Let_def slots_indexed using pos by simp
  have e: "(\<exists>i \<in> set [0..<?n]. id_unreadable env r (fs ! i)) \<longleftrightarrow> (\<exists>i < ?n. id_unreadable env r (fs ! i))" by auto
  show ?thesis
    unfolding d by (rule fold [of "[0..<?n]" ?start, unfolded e start append_Nil]) simp
qed

lemma pictures_in_cell:
  "(img, x, y) \<in> set (pictures env r i frame) \<Longrightarrow> 0 \<le> x \<and> x \<le> 224 \<and> 0 \<le> y \<and> y \<le> 224"
  by (auto simp: pictures_def picture_at_def split: list.splits option.splits if_splits)

lemma placed_inside:
  assumes "0 < cols" and "i < nat (cols * rows)" and "(img, x, y) \<in> set (placed env r cols i frame)"
  shows "2 \<le> x \<and> x + 224 \<le> canvasWidth cols - 2 \<and> 2 \<le> y \<and> y + 224 \<le> canvasHeight rows - 2"
  using offsets_cell(2,3) [OF assms(1,2)] assms(3) pictures_in_cell
  by (fastforce simp: placed_def canvasWidth_def canvasHeight_def singleWidth_def singleHeight_def borderWidth_def)

lemma cells_apart: "a \<noteq> b \<Longrightarrow> 0 \<le> x \<Longrightarrow> x \<le> 224 \<Longrightarrow> 0 \<le> x' \<Longrightarrow> x' \<le> 224 \<Longrightarrow>
    226 \<le> \<bar>(450 * a + 2 + x) - (450 * b + 2 + x')\<bar>" for a b x x' :: int
  by linarith

lemma placed_apart:
  assumes "0 < cols" and "i \<noteq> j" and "(img, x, y) \<in> set (placed env r cols i f)" and "(img', x', y') \<in> set (placed env r cols j g)"
  shows "226 \<le> \<bar>x - x'\<bar> \<or> 226 \<le> \<bar>y - y'\<bar>"
proof -
  obtain u v where p: "(img, u, v) \<in> set (pictures env r i f)" "x = 450 * (int i mod cols) + 2 + u" "y = 450 * (int i div cols) + 2 + v"
    using assms(3) by (auto simp: placed_def)
  obtain u' v' where q: "(img', u', v') \<in> set (pictures env r j g)" "x' = 450 * (int j mod cols) + 2 + u'" "y' = 450 * (int j div cols) + 2 + v'"
    using assms(4) by (auto simp: placed_def)
  have "int i mod cols \<noteq> int j mod cols \<or> int i div cols \<noteq> int j div cols"
    using assms(2) by (metis mult_div_mod_eq of_nat_eq_iff)
  then show ?thesis
    using cells_apart pictures_in_cell [OF p(1)] pictures_in_cell [OF q(1)] unfolding p(2,3) q(2,3) by blast
qed

text \<open>
  C34. Drawing a grid frame puts the pictures of every slot into the slot's own cell, in the order of the slots, and draws no other image:
  the camera images that can be decoded side by side, the rendered robot below the first. Every image, 224 pixels in width and height, is inside the
  canvas, and images of different slots are at least 226 pixels apart. It panics exactly when the robot is to be rendered, the
  font can be loaded, and some frame that is drawn has an id that cannot be read.
\<close>

theorem images_in_cells:
  assumes "0 < cols" and "0 < rows"
  shows "(if r \<and> fontLoads env fontPath 11 \<and> (\<exists>i < min (length fs) (nat (cols * rows)).
        length (Images (fs ! i)) = 2 \<and> idText env (GlobalFrameID (fs ! i)) = None)
     then drawGridFrame env fs nums cols rows r = Panic
     else \<exists>cmds. drawGridFrame env fs nums cols rows r = Ret cmds \<and>
       filter is_image cmds = concat (map (\<lambda>i. map (\<lambda>(img, x, y). DrawImage img x y) (placed env r cols i (fs ! i)))
         [0..<min (length fs) (nat (cols * rows))])) \<and>
    (\<forall>i < nat (cols * rows). \<forall>(img, x, y) \<in> set (placed env r cols i (fs ! i)).
       2 \<le> x \<and> x + 224 \<le> canvasWidth cols - 2 \<and> 2 \<le> y \<and> y + 224 \<le> canvasHeight rows - 2 \<and>
       (\<forall>j. j \<noteq> i \<longrightarrow> (\<forall>(img', x', y') \<in> set (placed env r cols j (fs ! j)). 226 \<le> \<bar>x - x'\<bar> \<or> 226 \<le> \<bar>y - y'\<bar>)))"
proof -
  have "(\<exists>i < n. id_unreadable env r (fs ! i)) \<longleftrightarrow> r \<and> fontLoads env fontPath 11 \<and>
      (\<exists>i < n. length (Images (fs ! i)) = 2 \<and> idText env (GlobalFrameID (fs ! i)) = None)" for n
    by (auto simp: id_unreadable_def)
  note d = drawGridFrame_cases [OF assms, of fs env r nums, unfolded this]
  have "\<forall>i < nat (cols * rows). \<forall>(img, x, y) \<in> set (placed env r cols i (fs ! i)).
       2 \<le> x \<and> x + 224 \<le> canvasWidth cols - 2 \<and> 2 \<le> y \<and> y + 224 \<le> canvasHeight rows - 2 \<and>
       (\<forall>j. j \<noteq> i \<longrightarrow> (\<forall>(img', x', y') \<in> set (placed env r cols j (fs ! j)). 226 \<le> \<bar>x - x'\<bar> \<or> 226 \<le> \<bar>y - y'\<bar>))"
  proof (intro allI impI ballI)
    fix i p
    assume i: "i < nat (cols * rows)" and p: "p \<in> set (placed env r cols i (fs ! i))"
    obtain img x y where e: "p = (img, x, y)" by (cases p)
    have "\<forall>j. j \<noteq> i \<longrightarrow> (\<forall>(img', x', y') \<in> set (placed env r cols j (fs ! j)). 226 \<le> \<bar>x - x'\<bar> \<or> 226 \<le> \<bar>y - y'\<bar>)"
    proof (intro allI impI ballI)
      fix j q
      assume j: "j \<noteq> i" and q: "q \<in> set (placed env r cols j (fs ! j))"
      obtain img' x' y' where e': "q = (img', x', y')" by (cases q)
      show "case q of (img', x', y') \<Rightarrow> 226 \<le> \<bar>x - x'\<bar> \<or> 226 \<le> \<bar>y - y'\<bar>"
        using placed_apart [OF assms(1) j [symmetric] p [unfolded e] q [unfolded e']] by (simp add: e')
    qed
    then show "case p of (img, x, y) \<Rightarrow> 2 \<le> x \<and> x + 224 \<le> canvasWidth cols - 2 \<and> 2 \<le> y \<and> y + 224 \<le> canvasHeight rows - 2 \<and>
        (\<forall>j. j \<noteq> i \<longrightarrow> (\<forall>(img', x', y') \<in> set (placed env r cols j (fs ! j)). 226 \<le> \<bar>x - x'\<bar> \<or> 226 \<le> \<bar>y - y'\<bar>))"
      using placed_inside [OF assms(1) i p [unfolded e]] by (simp add: e)
  qed
  then show ?thesis using d by blast
qed

section \<open>Example: three episodes in a grid of two cells\<close>

definition video_episodes :: "Episode list" where
  "video_episodes = numbered 1 [[video_frame 5 0 2, video_frame 5 9 2], [video_frame 6 0 2], [video_frame 7 0 2]]"

definition video_env :: "string draw_env" where
  "video_env = \<lparr>decodeJPEG = (\<lambda>b. if b = [7] then Inr ''camera'' else Inl ''no image''), fontLoads = (\<lambda>_ _. True),
     measureString = (\<lambda>s. (of_nat (length s) * 7, 33 / 4)), idText = (\<lambda>_. Some ''1''), response = (\<lambda>_ _. None)\<rparr>"

theorem every_frame_shown_once_witness:
  "\<exists>jobs. renderJobs video_episodes 1 2 = Ret jobs \<and> map frameIndex jobs = [0..int (length jobs) - 1] \<and>
     concat (map (showsOf 1) jobs) = [video_frame 5 0 2, video_frame 5 9 2] \<and>
     concat (map (showsOf 3) jobs) = [video_frame 7 0 2]"
proof -
  have n: "map episodeNum video_episodes = [1..int (length video_episodes)]" by code_simp
  have l: "length video_episodes = 3" "framesOf (video_episodes ! 0) = [video_frame 5 0 2, video_frame 5 9 2]"
    "framesOf (video_episodes ! 2) = [video_frame 7 0 2]"
    by (simp_all add: video_episodes_def framesOf_def)
  obtain jobs where j: "renderJobs video_episodes 1 2 = Ret jobs" "map frameIndex jobs = [0..int (length jobs) - 1]"
    "\<forall>i < length video_episodes. concat (map (showsOf (int i + 1)) jobs) = framesOf (video_episodes ! i)"
    using every_frame_shown_once [of 1 2 video_episodes, OF _ n] by auto
  have "concat (map (showsOf 1) jobs) = [video_frame 5 0 2, video_frame 5 9 2]" using j(3) [rule_format, of 0] l by simp
  moreover have "concat (map (showsOf 3) jobs) = [video_frame 7 0 2]" using j(3) [rule_format, of 2] l by simp
  ultimately show ?thesis using j by blast
qed

theorem images_in_cells_witness:
  "\<exists>cmds. drawGridFrame video_env [video_frame 5 0 2, video_frame 6 0 2] [1, 2] 1 2 False = Ret cmds \<and>
     filter is_image cmds = [DrawImage ''camera'' 2 2, DrawImage ''camera'' 226 2, DrawImage ''camera'' 2 452, DrawImage ''camera'' 226 452]"
proof -
  let ?fs = "[video_frame 5 0 2, video_frame 6 0 2]"
  obtain cmds where c: "drawGridFrame video_env ?fs [1, 2] 1 2 False = Ret cmds"
    "filter is_image cmds = concat (map (\<lambda>i. map (\<lambda>(img, x, y). DrawImage img x y) (placed video_env False 1 i (?fs ! i)))
       [0..<min (length ?fs) (nat (1 * 2))])"
    using images_in_cells [of 1 2 False video_env ?fs "[1, 2]"] by auto
  have "concat (map (\<lambda>i. map (\<lambda>(img, x, y). DrawImage img x y) (placed video_env False 1 i (?fs ! i))) [0..<min (length ?fs) (nat (1 * 2))]) =
      [DrawImage ''camera'' 2 2, DrawImage ''camera'' 226 2, DrawImage ''camera'' 2 452, DrawImage ''camera'' 226 452]"
    by code_simp
  then show ?thesis using c by (intro exI [of _ cmds]) (simp only:)
qed

end
