(* ===== verification/Video_Pool.thy ===== *)
theory Video_Pool
  imports Video_Grid "HOL-Library.Multiset"
begin

text \<open>
  The goroutines of the video exporter, \<^verbatim>\<open>src/software/station/bin/dataset-mp4/dataset-mp4.go\<close>: \<^verbatim>\<open>main\<close>
  sends the jobs into a buffered channel, the workers render them and send their results into another,
  and the collector counts these; and the exporter as a whole. Each step of the relation is one channel operation
  or one rendering; rendering a job is the function \<open>work\<close> from jobs to errors, as in \<open>renderGridFrame\<close> where it does not
  panic (a panic in a worker ends the whole program, which is the case \<open>Mp4Crash\<close> of \<open>dataset_mp4\<close>).
\<close>

section \<open>The pool\<close>

datatype 'j worker = Idle | Rendering 'j | Reporting "int \<times> string option" | Exited

record 'j pool =
  toSend :: "'j list"
  jobsChan :: "'j list"
  jobsClosed :: bool
  workers :: "'j worker list"
  saved :: "'j list"
  resultsChan :: "(int \<times> string option) list"
  resultsClosed :: bool
  renderedCount :: nat
  renderErrors :: nat
  collectorDone :: bool

definition poolStart :: "nat \<Rightarrow> 'j list \<Rightarrow> 'j pool" where
  "poolStart n jobs = \<lparr>toSend = jobs, jobsChan = [], jobsClosed = False, workers = replicate n Idle, saved = [],
     resultsChan = [], resultsClosed = False, renderedCount = 0, renderErrors = 0, collectorDone = False\<rparr>"

definition setWorker :: "nat \<Rightarrow> 'j worker \<Rightarrow> 'j pool \<Rightarrow> 'j pool" where
  "setWorker w x s = s\<lparr>workers := (workers s)[w := x]\<rparr>"

text \<open>The collector's count of one result.\<close>

definition countResult :: "int \<times> string option \<Rightarrow> 'j pool \<Rightarrow> 'j pool" where
  "countResult r s =
     (if snd r \<noteq> None then s\<lparr>renderErrors := renderErrors s + 1\<rparr> else s\<lparr>renderedCount := renderedCount s + 1\<rparr>)"

inductive pool_step :: "('j \<Rightarrow> int) \<Rightarrow> ('j \<Rightarrow> string option) \<Rightarrow> nat \<Rightarrow> 'j pool \<Rightarrow> 'j pool \<Rightarrow> bool"
  for index work cap where
  send: "toSend s = j # js \<Longrightarrow> length (jobsChan s) < cap \<Longrightarrow>
    pool_step index work cap s (s\<lparr>toSend := js, jobsChan := jobsChan s @ [j]\<rparr>)"
| closeJobs: "toSend s = [] \<Longrightarrow> \<not> jobsClosed s \<Longrightarrow> pool_step index work cap s (s\<lparr>jobsClosed := True\<rparr>)"
| receive: "w < length (workers s) \<Longrightarrow> workers s ! w = Idle \<Longrightarrow> jobsChan s = j # js \<Longrightarrow>
    pool_step index work cap s (setWorker w (Rendering j) (s\<lparr>jobsChan := js\<rparr>))"
| render: "w < length (workers s) \<Longrightarrow> workers s ! w = Rendering j \<Longrightarrow>
    pool_step index work cap s (setWorker w (Reporting (index j, work j)) (s\<lparr>saved := saved s @ [j]\<rparr>))"
| report: "w < length (workers s) \<Longrightarrow> workers s ! w = Reporting r \<Longrightarrow> length (resultsChan s) < cap \<Longrightarrow>
    pool_step index work cap s (setWorker w Idle (s\<lparr>resultsChan := resultsChan s @ [r]\<rparr>))"
| exit: "w < length (workers s) \<Longrightarrow> workers s ! w = Idle \<Longrightarrow> jobsChan s = [] \<Longrightarrow> jobsClosed s \<Longrightarrow>
    pool_step index work cap s (setWorker w Exited s)"
| closeResults: "jobsClosed s \<Longrightarrow> list_all (\<lambda>w. w = Exited) (workers s) \<Longrightarrow> \<not> resultsClosed s \<Longrightarrow>
    pool_step index work cap s (s\<lparr>resultsClosed := True\<rparr>)"
| collect: "resultsChan s = r # rs \<Longrightarrow> pool_step index work cap s (countResult r (s\<lparr>resultsChan := rs\<rparr>))"
| collectorEnds: "resultsChan s = [] \<Longrightarrow> resultsClosed s \<Longrightarrow> \<not> collectorDone s \<Longrightarrow>
    pool_step index work cap s (s\<lparr>collectorDone := True\<rparr>)"

inductive_cases pool_stepE: "pool_step index work cap s s'"

section \<open>What is where\<close>

fun inWork :: "'j worker \<Rightarrow> 'j list" where
  "inWork (Rendering j) = [j]" | "inWork _ = []"

fun toReport :: "'j worker \<Rightarrow> (int \<times> string option) list" where
  "toReport (Reporting r) = [r]" | "toReport _ = []"

definition rendering :: "'j pool \<Rightarrow> 'j multiset" where
  "rendering s = mset (concat (map inWork (workers s)))"

definition pending :: "'j pool \<Rightarrow> (int \<times> string option) multiset" where
  "pending s = mset (concat (map toReport (workers s))) + mset (resultsChan s)"

definition failed_in :: "(int \<times> string option) multiset \<Rightarrow> nat" where
  "failed_in M = size (filter_mset (\<lambda>r. snd r \<noteq> None) M)"

definition pool_inv :: "('j \<Rightarrow> int) \<Rightarrow> ('j \<Rightarrow> string option) \<Rightarrow> nat \<Rightarrow> 'j list \<Rightarrow> 'j pool \<Rightarrow> bool" where
  "pool_inv index work n jobs s \<longleftrightarrow>
     length (workers s) = n \<and>
     mset (saved s) + rendering s + mset (jobsChan s) + mset (toSend s) = mset jobs \<and>
     renderErrors s + failed_in (pending s) = failed_in (mset (map (\<lambda>j. (index j, work j)) (saved s))) \<and>
     renderErrors s + renderedCount s + size (pending s) = length (saved s) \<and>
     (jobsClosed s \<longrightarrow> toSend s = []) \<and>
     (Exited \<in> set (workers s) \<longrightarrow> jobsClosed s \<and> jobsChan s = []) \<and>
     (resultsClosed s \<longrightarrow> jobsClosed s \<and> list_all (\<lambda>w. w = Exited) (workers s)) \<and>
     (collectorDone s \<longrightarrow> resultsClosed s \<and> resultsChan s = [])"

lemma concat_update:
  assumes "w < length xs"
  shows "mset (concat (map f (xs[w := x]))) + mset (f (xs ! w)) = mset (concat (map f xs)) + mset (f x)"
proof -
  have "xs = take w xs @ xs ! w # drop (Suc w) xs" using assms by (rule id_take_nth_drop)
  then have "mset (concat (map f xs)) = mset (concat (map f (take w xs))) + mset (f (xs ! w)) + mset (concat (map f (drop (Suc w) xs)))"
    by (metis concat.simps(2) concat_append list.simps(9) map_append mset_append union_assoc)
  moreover have "mset (concat (map f (xs[w := x]))) = mset (concat (map f (take w xs))) + mset (f x) + mset (concat (map f (drop (Suc w) xs)))"
    using assms by (simp add: upd_conv_take_nth_drop)
  ultimately show ?thesis by simp
qed

lemma rendering_setWorker:
  assumes "w < length (workers s)"
  shows "rendering (setWorker w x s) + mset (inWork (workers s ! w)) = rendering s + mset (inWork x)"
  using concat_update [OF assms, of inWork x] by (simp add: rendering_def setWorker_def)

lemma pending_setWorker:
  assumes "w < length (workers s)"
  shows "pending (setWorker w x s) + mset (toReport (workers s ! w)) = pending s + mset (toReport x)"
  using concat_update [OF assms, of toReport x] by (simp add: pending_def setWorker_def)

lemma failed_in_simps [simp]:
  "failed_in {#} = 0" "failed_in (M + N) = failed_in M + failed_in N"
  "failed_in (add_mset r M) = (if snd r \<noteq> None then 1 else 0) + failed_in M"
  by (simp_all add: failed_in_def)

lemma setWorker_fields [simp]:
  "toSend (setWorker w x s) = toSend s" "jobsChan (setWorker w x s) = jobsChan s" "jobsClosed (setWorker w x s) = jobsClosed s"
  "saved (setWorker w x s) = saved s" "resultsChan (setWorker w x s) = resultsChan s"
  "resultsClosed (setWorker w x s) = resultsClosed s" "renderedCount (setWorker w x s) = renderedCount s"
  "renderErrors (setWorker w x s) = renderErrors s" "collectorDone (setWorker w x s) = collectorDone s"
  "workers (setWorker w x s) = (workers s)[w := x]"
  by (simp_all add: setWorker_def)

lemma rendering_fields [simp]:
  "rendering (s\<lparr>toSend := a\<rparr>) = rendering s" "rendering (s\<lparr>jobsChan := b\<rparr>) = rendering s" "rendering (s\<lparr>jobsClosed := c\<rparr>) = rendering s"
  "rendering (s\<lparr>saved := d\<rparr>) = rendering s" "rendering (s\<lparr>resultsChan := e\<rparr>) = rendering s" "rendering (s\<lparr>resultsClosed := c\<rparr>) = rendering s"
  "rendering (s\<lparr>collectorDone := c\<rparr>) = rendering s" "rendering (countResult r s) = rendering s"
  by (simp_all add: rendering_def countResult_def)

lemma pending_fields [simp]:
  "pending (s\<lparr>toSend := a\<rparr>) = pending s" "pending (s\<lparr>jobsChan := b\<rparr>) = pending s" "pending (s\<lparr>jobsClosed := c\<rparr>) = pending s"
  "pending (s\<lparr>saved := d\<rparr>) = pending s" "pending (s\<lparr>resultsClosed := c\<rparr>) = pending s"
  "pending (s\<lparr>collectorDone := c\<rparr>) = pending s" "pending (countResult r s) = pending s"
  by (simp_all add: pending_def countResult_def)

lemma pool_inv_start: "pool_inv index work n jobs (poolStart n jobs)"
proof -
  have "concat (map f (replicate n Idle)) = []" if "f Idle = []" for f :: "'j worker \<Rightarrow> 'b list"
    using that by (induction n) simp_all
  then show ?thesis by (simp add: pool_inv_def poolStart_def rendering_def pending_def)
qed

lemma Exited_setWorker: "Exited \<in> set (xs[w := x]) \<Longrightarrow> x \<noteq> Exited \<Longrightarrow> Exited \<in> set xs"
  using set_update_subset_insert [of xs w x] by auto

lemma not_all_exited: "w < length xs \<Longrightarrow> xs ! w \<noteq> Exited \<Longrightarrow> \<not> list_all (\<lambda>x. x = Exited) xs"
  by (auto simp: list_all_length)

lemma setWorker_upd [simp]:
  "setWorker w x (s\<lparr>jobsChan := b\<rparr>) = (setWorker w x s)\<lparr>jobsChan := b\<rparr>"
  "setWorker w x (s\<lparr>saved := d\<rparr>) = (setWorker w x s)\<lparr>saved := d\<rparr>"
  "setWorker w x (s\<lparr>resultsChan := e\<rparr>) = (setWorker w x s)\<lparr>resultsChan := e\<rparr>"
  by (simp_all add: setWorker_def)

lemma pool_inv_step:
  assumes "pool_step index work cap s s'" and "pool_inv index work n jobs s"
  shows "pool_inv index work n jobs s'"
  using assms(1)
proof cases
  case (send j js)
  then show ?thesis using assms(2) by (auto simp: pool_inv_def)
next
  case closeJobs
  then show ?thesis using assms(2) by (auto simp: pool_inv_def)
next
  case (receive w j js)
  have "rendering (setWorker w (Rendering j) s) = add_mset j (rendering s)" "pending (setWorker w (Rendering j) s) = pending s"
    using rendering_setWorker [OF receive(2), of "Rendering j"] pending_setWorker [OF receive(2), of "Rendering j"] receive(3) by simp_all
  then show ?thesis
    using assms(2) receive not_all_exited [OF receive(2)] by (auto simp: pool_inv_def dest: Exited_setWorker)
next
  case (render w j)
  have "rendering s = add_mset j (rendering (setWorker w (Reporting (index j, work j)) s))"
    "pending (setWorker w (Reporting (index j, work j)) s) = add_mset (index j, work j) (pending s)"
    using rendering_setWorker [OF render(2), of "Reporting (index j, work j)"] pending_setWorker [OF render(2), of "Reporting (index j, work j)"] render(3) by simp_all
  then show ?thesis
    using assms(2) render not_all_exited [OF render(2)] by (auto simp: pool_inv_def dest: Exited_setWorker)
next
  case (report w r)
  have "rendering (setWorker w Idle s) = rendering s" "pending s = add_mset r (pending (setWorker w Idle s))"
    using rendering_setWorker [OF report(2), of Idle] pending_setWorker [OF report(2), of Idle] report(3) by simp_all
  moreover have "pending ((setWorker w Idle s)\<lparr>resultsChan := resultsChan s @ [r]\<rparr>) = add_mset r (pending (setWorker w Idle s))"
    by (simp add: pending_def)
  ultimately show ?thesis
    using assms(2) report not_all_exited [OF report(2)] by (auto simp: pool_inv_def dest: Exited_setWorker)
next
  case (exit w)
  have "rendering (setWorker w Exited s) = rendering s" "pending (setWorker w Exited s) = pending s"
    using rendering_setWorker [OF exit(2), of Exited] pending_setWorker [OF exit(2), of Exited] exit(3) by simp_all
  then show ?thesis using assms(2) exit not_all_exited [OF exit(2)] by (auto simp: pool_inv_def)
next
  case closeResults
  then show ?thesis using assms(2) by (auto simp: pool_inv_def)
next
  case (collect r rs)
  have "pending s = add_mset r (pending (s\<lparr>resultsChan := rs\<rparr>))" using collect(2) by (simp add: pending_def)
  moreover have "failed_in (add_mset r M) = (if snd r \<noteq> None then 1 else 0) + failed_in M" for M by simp
  ultimately show ?thesis
    using assms(2) collect(2) by (auto simp: pool_inv_def collect(1) countResult_def rendering_def pending_def)
next
  case collectorEnds
  then show ?thesis using assms(2) by (auto simp: pool_inv_def)
qed

lemma pool_reachable:
  "(pool_step index work cap)\<^sup>*\<^sup>* (poolStart n jobs) s \<Longrightarrow> pool_inv index work n jobs s"
  by (induction rule: rtranclp_induct) (auto intro: pool_inv_start pool_inv_step)

lemma all_exited_empty:
  "list_all (\<lambda>w. w = Exited) ws \<Longrightarrow> concat (map inWork ws) = [] \<and> concat (map toReport ws) = []"
  by (auto simp: list_all_iff)

lemma pool_done:
  assumes "pool_inv index work n jobs s" and "collectorDone s" and "0 < n"
  shows "mset (saved s) = mset jobs \<and> renderErrors s = length (filter (\<lambda>j. work j \<noteq> None) jobs) \<and>
    renderErrors s + renderedCount s = length jobs"
proof -
  have e: "list_all (\<lambda>w. w = Exited) (workers s)" "resultsChan s = []" "toSend s = []" "length (workers s) = n"
    using assms(1,2) by (auto simp: pool_inv_def)
  then have "Exited \<in> set (workers s)" using assms(3) by (cases "workers s") auto
  then have "jobsChan s = []" using assms(1) by (simp add: pool_inv_def)
  moreover have "rendering s = {#}" "pending s = {#}" using all_exited_empty [OF e(1)] e(2) by (simp_all add: rendering_def pending_def)
  ultimately have m: "mset (saved s) = mset jobs" using assms(1) e(3) by (simp add: pool_inv_def)
  have "renderErrors s + failed_in (pending s) = failed_in (mset (map (\<lambda>j. (index j, work j)) (saved s)))"
    "renderErrors s + renderedCount s + size (pending s) = length (saved s)"
    using assms(1) unfolding pool_inv_def by blast+
  then have f: "renderErrors s = failed_in (mset (map (\<lambda>j. (index j, work j)) (saved s)))"
    and l: "renderErrors s + renderedCount s = length (saved s)"
    unfolding \<open>pending s = {#}\<close> by simp_all
  have "mset (map (\<lambda>j. (index j, work j)) (saved s)) = mset (map (\<lambda>j. (index j, work j)) jobs)" using m by simp
  then have "failed_in (mset (map (\<lambda>j. (index j, work j)) (saved s))) = length (filter (\<lambda>j. work j \<noteq> None) jobs)"
    by (simp add: failed_in_def mset_filter [symmetric] filter_map comp_def flip: mset_map del: mset_map)
  then show ?thesis using m f l mset_eq_length [OF m] by simp
qed

lemma pool_progress:
  assumes "pool_inv index work n jobs s" and "\<not> collectorDone s" and "0 < n" and "0 < cap"
  shows "\<exists>s'. pool_step index work cap s s'"
proof (cases "resultsChan s")
  case (Cons r rs)
  then show ?thesis by (blast intro: pool_step.collect)
next
  case Nil
  have ws: "length (workers s) = n" using assms(1) by (simp add: pool_inv_def)
  consider (busy) w where "w < length (workers s)" "workers s ! w \<noteq> Idle" "workers s ! w \<noteq> Exited"
    | (idle) w where "w < length (workers s)" "workers s ! w = Idle" "\<And>w. w < length (workers s) \<Longrightarrow> workers s ! w \<in> {Idle, Exited}"
    | (exited) "list_all (\<lambda>w. w = Exited) (workers s)"
    by (auto simp: list_all_length)
  then show ?thesis
  proof cases
    case busy
    then show ?thesis
    proof (cases "workers s ! w")
      case (Rendering j)
      then show ?thesis using busy(1) by (blast intro: pool_step.render)
    next
      case (Reporting r)
      then show ?thesis using busy(1) Nil assms(4) pool_step.report [of w s r cap] by auto
    qed simp_all
  next
    case idle
    show ?thesis
    proof (cases "jobsChan s")
      case (Cons j js)
      then show ?thesis using idle(1,2) by (blast intro: pool_step.receive)
    next
      case jobs: Nil
      show ?thesis
      proof (cases "toSend s")
        case (Cons j js)
        then show ?thesis using jobs assms(4) pool_step.send [of s j js cap] by auto
      next
        case send: Nil
        then show ?thesis using idle(1,2) jobs by (cases "jobsClosed s") (blast intro: pool_step.closeJobs pool_step.exit)+
      qed
    qed
  next
    case exited
    then have "Exited \<in> set (workers s)" using assms(3) ws by (cases "workers s") auto
    then have "jobsClosed s" using assms(1) by (simp add: pool_inv_def)
    then show ?thesis
      using exited Nil assms(2) by (cases "resultsClosed s") (blast intro: pool_step.closeResults pool_step.collectorEnds)+
  qed
qed

text \<open>What is left to do: the steps a job still takes, the ends of the workers, and the closing of the channels.\<close>

fun workerSteps :: "'j worker \<Rightarrow> nat" where
  "workerSteps Idle = 1" | "workerSteps (Rendering _) = 4" | "workerSteps (Reporting _) = 3" | "workerSteps Exited = 0"

definition stepsLeft :: "'j pool \<Rightarrow> nat" where
  "stepsLeft s = 5 * length (toSend s) + 4 * length (jobsChan s) + sum_list (map workerSteps (workers s)) +
     length (resultsChan s) + (if jobsClosed s then 0 else 1) + (if resultsClosed s then 0 else 1) +
     (if collectorDone s then 0 else 1)"

lemma sum_update:
  "w < length xs \<Longrightarrow> sum_list (map f (xs[w := x])) + f (xs ! w) = sum_list (map f xs) + f x" for f :: "'a \<Rightarrow> nat"
  by (induction xs arbitrary: w) (auto split: nat.split simp: nth_Cons)

lemma pool_steps_decrease:
  assumes "pool_step index work cap s s'"
  shows "stepsLeft s' < stepsLeft s"
  using assms
proof cases
  case (receive w j js)
  then show ?thesis using sum_update [OF receive(2), of workerSteps "Rendering j"] by (simp add: stepsLeft_def)
next
  case (render w j)
  then show ?thesis using sum_update [OF render(2), of workerSteps "Reporting (index j, work j)"] by (simp add: stepsLeft_def)
next
  case (report w r)
  then show ?thesis using sum_update [OF report(2), of workerSteps Idle] by (simp add: stepsLeft_def)
next
  case (exit w)
  then show ?thesis using sum_update [OF exit(2), of workerSteps Exited] by (simp add: stepsLeft_def)
qed (simp_all add: stepsLeft_def countResult_def)

text \<open>
  C6. The worker pool neither deadlocks nor loses work, however its goroutines interleave: until the collector has ended
  some step is possible, every step brings the end nearer, and at the end every job has been rendered
  exactly once and the errors are counted correctly.
\<close>

theorem pool_completes:
  assumes "(pool_step index work cap)\<^sup>*\<^sup>* (poolStart n jobs) s" and "0 < n" and "0 < cap"
  shows "(collectorDone s \<longrightarrow> mset (saved s) = mset jobs \<and>
      renderErrors s = length (filter (\<lambda>j. work j \<noteq> None) jobs) \<and> renderErrors s + renderedCount s = length jobs) \<and>
    (\<not> collectorDone s \<longrightarrow> (\<exists>s'. pool_step index work cap s s')) \<and>
    (\<forall>s'. pool_step index work cap s s' \<longrightarrow> stepsLeft s' < stepsLeft s)"
  using pool_reachable [OF assms(1)] pool_done pool_progress pool_steps_decrease assms(2,3) by blast

section \<open>The exporter\<close>

record mp4_flags =
  inputFlag :: string
  outputFlag :: string
  frameDuration :: int
  workersFlag :: int
  gridCols :: int
  gridRows :: int
  renderState :: bool
  renderHost :: string

text \<open>What the exporter needs from outside; a request to the render service is served on some port.\<close>

record 'i mp4_env =
  openInput :: "string \<Rightarrow> string + batch list \<times> string option"
  mkdirTemp :: "string + string"
  numCPU :: nat
  decode :: "byte list \<Rightarrow> string + 'i"
  fonts :: "string \<Rightarrow> rat \<Rightarrow> bool"
  measure :: "string \<Rightarrow> rat \<times> rat"
  frameIdText :: "byte list \<Rightarrow> string option"
  httpGet :: "string \<Rightarrow> string + int \<times> byte list"
  angleText :: "float32 \<Rightarrow> string"
  portOf :: "renderJob \<Rightarrow> nat \<Rightarrow> int"
  savePNG :: "string \<Rightarrow> 'i draw list \<Rightarrow> string option"
  fpsText :: "int \<Rightarrow> string"
  ffmpeg :: "string list \<Rightarrow> string option"

definition renderPortStart :: int where "renderPortStart = 8000"
definition renderPortEnd :: int where "renderPortEnd = 8008"

text \<open>The render service's answer to the request for one slot of a job: an image, or none after an error.\<close>

definition answer3D :: "'i mp4_env \<Rightarrow> mp4_flags \<Rightarrow> renderJob \<Rightarrow> nat \<Rightarrow> Joint list \<Rightarrow> 'i option" where
  "answer3D env fl job i joints =
     (case fetch3DRender (httpGet env) (decode env) (angleText env) (renderHost fl) joints (portOf env job i) of
        Inl err \<Rightarrow> None | Inr img \<Rightarrow> Some img)"

definition drawEnv :: "'i mp4_env \<Rightarrow> mp4_flags \<Rightarrow> renderJob \<Rightarrow> 'i draw_env" where
  "drawEnv env fl job = \<lparr>decodeJPEG = decode env, fontLoads = fonts env, measureString = measure env,
     idText = frameIdText env, response = answer3D env fl job\<rparr>"

definition renderOne :: "'i mp4_env \<Rightarrow> mp4_flags \<Rightarrow> string \<Rightarrow> renderJob \<Rightarrow> string option go" where
  "renderOne env fl outputDir job =
     renderGridFrame (drawEnv env fl job) (savePNG env) outputDir (gridCols fl) (gridRows fl) (renderState fl) job"

definition generateVideo :: "(string list \<Rightarrow> string option) \<Rightarrow> string \<Rightarrow> string \<Rightarrow> string \<Rightarrow> string option" where
  "generateVideo run inputDir outputPath fps =
     run [''-framerate'', fps, ''-i'', path_join [inputDir, ''frame_%06d.png''], ''-c:v'', ''libx264'',
       ''-pix_fmt'', ''yuv420p'', ''-y'', outputPath]"

datatype mp4_exit = Mp4Fatal string | Mp4Crash | Mp4Done

text \<open>The main program, with the workers one after the other; the number of errors, and how it ends.\<close>

definition dataset_mp4 :: "'i mp4_env \<Rightarrow> mp4_flags \<Rightarrow> nat \<times> mp4_exit" where
  "dataset_mp4 env fl =
     (if inputFlag fl = [] then (0, Mp4Fatal ''input parquet file is required'')
      else case openInput env (inputFlag fl) of Inl err \<Rightarrow> (0, Mp4Fatal err) | Inr (batches, readerErr) \<Rightarrow>
        case mkdirTemp env of Inl err \<Rightarrow> (0, Mp4Fatal ''failed to create temp directory'') | Inr tmpDir \<Rightarrow>
        case go_bind (collectEpisodes batches readerErr) (\<lambda>episodes.
            go_bind (renderJobs episodes (gridCols fl) (gridRows fl)) (\<lambda>jobs.
            let numWorkers = if workersFlag fl = 0 then int (numCPU env) else workersFlag fl in
            if numWorkers < 0 then Panic
            else go_fold (\<lambda>job errs. go_bind (renderOne env fl tmpDir job) (\<lambda>err.
              Ret (if err \<noteq> None then errs + 1 else errs))) jobs 0)) of
          Ret errs \<Rightarrow>
            (errs, case generateVideo (ffmpeg env) tmpDir (outputFlag fl) (fpsText env (frameDuration fl)) of
               None \<Rightarrow> Mp4Done | Some err \<Rightarrow> Mp4Fatal ''failed to generate video'')
        | _ \<Rightarrow> (0, Mp4Crash))"

text \<open>A job whose picture cannot be drawn: a frame of it has an id that is not read, and is to be shown.\<close>

definition job_unreadable :: "'i mp4_env \<Rightarrow> mp4_flags \<Rightarrow> renderJob \<Rightarrow> bool" where
  "job_unreadable env fl job \<longleftrightarrow> renderState fl \<and> fonts env fontPath 11 \<and>
     (\<exists>f \<in> set (take (nat (gridCols fl * gridRows fl)) (jobFrames job)). two_images f \<and> frameIdText env (GlobalFrameID f) = None)"

lemma renderOne_cases:
  assumes "0 < gridCols fl" and "0 < gridRows fl"
  shows "if job_unreadable env fl job then renderOne env fl dir job = Panic else \<exists>err. renderOne env fl dir job = Ret err"
proof -
  let ?n = "nat (gridCols fl * gridRows fl)" and ?fs = "jobFrames job"
  let ?P = "\<lambda>f. two_images f \<and> frameIdText env (GlobalFrameID f) = None"
  have "set (take ?n ?fs) = nth ?fs ` {0..<min (length ?fs) ?n}"
    using nth_image [of "min (length ?fs) ?n" ?fs] by (cases "?n \<le> length ?fs") (simp_all add: min_def)
  then have "(\<exists>i < min (length ?fs) ?n. ?P (?fs ! i)) \<longleftrightarrow> (\<exists>f \<in> set (take ?n ?fs). ?P f)" by auto
  moreover have "id_unreadable (drawEnv env fl job) (renderState fl) f \<longleftrightarrow> renderState fl \<and> fonts env fontPath 11 \<and> ?P f" for f
    by (simp add: id_unreadable_def drawEnv_def two_images_def)
  ultimately have "(\<exists>i < min (length ?fs) ?n. id_unreadable (drawEnv env fl job) (renderState fl) (?fs ! i)) \<longleftrightarrow> job_unreadable env fl job"
    unfolding job_unreadable_def by blast
  then show ?thesis
    using drawGridFrame_cases [OF assms, of "jobFrames job" "drawEnv env fl job" "renderState fl" "episodeNums job"]
    by (auto simp: renderOne_def renderGridFrame_def split: if_splits)
qed

text \<open>The frames of the jobs are those of the episodes, and empty ones.\<close>

lemma gridSlot_frame: "fst (gridSlot es k i) \<in> insert noFrame (\<Union>e \<in> set es. set (framesOf e))"
proof (cases "i < length es \<and> k < length (framesOf (es ! i))")
  case True
  then have "es ! i \<in> set es" "framesOf (es ! i) ! k \<in> set (framesOf (es ! i))" by simp_all
  then have "framesOf (es ! i) ! k \<in> (\<Union>e \<in> set es. set (framesOf e))" by blast
  then show ?thesis using True by (simp add: gridSlot_def)
qed (auto simp: gridSlot_def)

lemma jobsUpTo_frames:
  "job \<in> set (jobsUpTo G eps n) \<Longrightarrow>
    length (jobFrames job) = G \<and> set (jobFrames job) \<subseteq> insert noFrame (\<Union>e \<in> set eps. set (framesOf e))"
proof (induction n)
  case (Suc n)
  let ?es = "take G (drop (n * G) eps)"
  have "jobsUpTo G eps (Suc n) = gridJobs (int G) ?es (jobsUpTo G eps n)" by (simp add: jobsUpTo_def)
  then consider "job \<in> set (jobsUpTo G eps n)" | k index where "job = gridJob (int G) ?es k index"
    using Suc.prems by (auto simp: gridJobs_map)
  then show ?case
  proof cases
    case (2 k index)
    have "set ?es \<subseteq> set eps" by (meson order_trans set_drop_subset set_take_subset)
    then show ?thesis using gridSlot_frame [of ?es k] 2 by (fastforce simp: gridJob_def Let_def)
  qed (rule Suc.IH)
qed (simp add: jobsUpTo_def)

text \<open>Some job has a frame with two images and some property exactly when some episode has.\<close>

lemma jobs_have_frame:
  assumes "0 < G" and "\<And>i. i < length eps \<Longrightarrow> episodeNum (eps ! i) = int i + 1" and "length eps \<le> n * G"
  shows "(\<exists>job \<in> set (jobsUpTo G eps n). \<exists>f \<in> set (take G (jobFrames job)). two_images f \<and> P f) \<longleftrightarrow>
    (\<exists>e \<in> set eps. \<exists>f \<in> set (framesOf e). two_images f \<and> P f)"
proof
  assume "\<exists>job \<in> set (jobsUpTo G eps n). \<exists>f \<in> set (take G (jobFrames job)). two_images f \<and> P f"
  then obtain job f where f: "job \<in> set (jobsUpTo G eps n)" "f \<in> set (jobFrames job)" "two_images f" "P f"
    by (meson in_set_takeD)
  moreover have "f \<noteq> noFrame" using f(3) by (auto simp: two_images_def noFrame_def)
  ultimately show "\<exists>e \<in> set eps. \<exists>f \<in> set (framesOf e). two_images f \<and> P f"
    using jobsUpTo_frames [OF f(1)] by blast
next
  assume "\<exists>e \<in> set eps. \<exists>f \<in> set (framesOf e). two_images f \<and> P f"
  then obtain e f where f: "e \<in> set eps" "f \<in> set (framesOf e)" "two_images f" "P f" by blast
  then obtain i where i: "i < length eps" "e = eps ! i" by (auto simp: in_set_conv_nth)
  then have "i < n * G" using assms(3) by simp
  with jobsUpTo_shows [OF assms(2,1) i(1), of n]
  have "concat (map (showsOf (int i + 1)) (jobsUpTo G eps n)) = framesOf e" using i(2) by simp
  then have "f \<in> set (concat (map (showsOf (int i + 1)) (jobsUpTo G eps n)))" using f(2) by simp
  then obtain job where job: "job \<in> set (jobsUpTo G eps n)" "f \<in> set (showsOf (int i + 1) job)" by auto
  then have "f \<in> set (jobFrames job)" by (auto simp: showsOf_def dest: set_zip_rightD)
  then show "\<exists>job \<in> set (jobsUpTo G eps n). \<exists>f \<in> set (take G (jobFrames job)). two_images f \<and> P f"
    using job(1) f(3,4) jobsUpTo_frames [OF job(1)] by force
qed

lemma numbered_frames: "(\<exists>e \<in> set (numbered k fss). \<exists>f \<in> set (framesOf e). P f) \<longleftrightarrow> (\<exists>fs \<in> set fss. \<exists>f \<in> set fs. P f)"
  by (induction fss arbitrary: k) (auto simp: framesOf_def)

lemma numbered_nums: "map episodeNum (numbered k fss) = [k..k + int (length fss) - 1]"
  by (induction fss arbitrary: k) (simp_all add: upto_rec1 algebra_simps)

lemma renderAll_cases:
  assumes "0 < gridCols fl" and "0 < gridRows fl"
  shows "go_fold (\<lambda>job errs. go_bind (renderOne env fl dir job) (\<lambda>err. Ret (if err \<noteq> None then errs + 1 else errs))) js n =
    (if \<exists>job \<in> set js. job_unreadable env fl job then Panic
     else Ret (n + length (filter (\<lambda>job. renderOne env fl dir job \<noteq> Ret None) js)))"
proof (induction js arbitrary: n)
  case (Cons job js)
  show ?case
  proof (cases "job_unreadable env fl job")
    case True
    then have "renderOne env fl dir job = Panic" using renderOne_cases [OF assms, of env job dir] by simp
    then show ?thesis using True by simp
  next
    case False
    then obtain err where "renderOne env fl dir job = Ret err" using renderOne_cases [OF assms, of env job dir] by auto
    then show ?thesis using Cons.IH False by simp
  qed
qed simp

text \<open>
  C40. The exporter as a whole: with a grid of positive size and a file that can be read, it renders the valid
  episodes of the file, counts the frames that could not be saved, and ends with what \<^verbatim>\<open>ffmpeg\<close> says. It crashes in one case only:
  the state is to be rendered, the font can be loaded, and some frame of a valid episode has an id that cannot be read.
\<close>

theorem exporter_completes:
  assumes "inputFlag fl \<noteq> []" and "openInput env (inputFlag fl) = Inr (batches, None)" and "list_all2 batch_holds batches rows"
    and "mkdirTemp env = Inr dir" and "0 < gridCols fl" and "0 < gridRows fl" and "0 \<le> workersFlag fl"
  shows "\<exists>jobs. renderJobs (numbered 1 (filter (list_all two_images) (runs (concat rows)))) (gridCols fl) (gridRows fl) = Ret jobs \<and>
    dataset_mp4 env fl =
      (if renderState fl \<and> fonts env fontPath 11 \<and>
         (\<exists>fs \<in> set (filter (list_all two_images) (runs (concat rows))). \<exists>f \<in> set fs. frameIdText env (GlobalFrameID f) = None)
       then (0, Mp4Crash)
       else (length (filter (\<lambda>job. renderOne env fl dir job \<noteq> Ret None) jobs),
         case generateVideo (ffmpeg env) dir (outputFlag fl) (fpsText env (frameDuration fl)) of
           None \<Rightarrow> Mp4Done | Some err \<Rightarrow> Mp4Fatal ''failed to generate video''))"
proof -
  let ?valid = "filter (list_all two_images) (runs (concat rows))"
  let ?eps = "numbered 1 ?valid"
  define G where "G = nat (gridCols fl * gridRows fl)"
  have G: "gridCols fl * gridRows fl = int G" "0 < G" using assms(5,6) by (simp_all add: G_def)
  let ?n = "(length ?eps + G - 1) div G"
  let ?jobs = "jobsUpTo G ?eps ?n"
  have j: "renderJobs ?eps (gridCols fl) (gridRows fl) = Ret ?jobs" by (rule renderJobs_upto [OF G])
  have nums: "episodeNum (?eps ! i) = int i + 1" if "i < length ?eps" for i
    using arg_cong [OF numbered_nums [of 1 ?valid], of "\<lambda>xs. xs ! i"] that by simp
  have "length ?eps + G - 1 < (?n + 1) * G" using G(2) by (simp add: dividend_less_div_times)
  then have len: "length ?eps \<le> ?n * G" by simp
  have "(\<exists>job \<in> set ?jobs. \<exists>f \<in> set (take G (jobFrames job)). two_images f \<and> frameIdText env (GlobalFrameID f) = None) \<longleftrightarrow>
      (\<exists>fs \<in> set ?valid. \<exists>f \<in> set fs. two_images f \<and> frameIdText env (GlobalFrameID f) = None)"
    by (simp only: jobs_have_frame [OF G(2) nums len] numbered_frames)
  also have "\<dots> \<longleftrightarrow> (\<exists>fs \<in> set ?valid. \<exists>f \<in> set fs. frameIdText env (GlobalFrameID f) = None)"
    by (auto simp: list_all_iff)
  finally have bad: "(\<exists>job \<in> set ?jobs. job_unreadable env fl job) \<longleftrightarrow> renderState fl \<and> fonts env fontPath 11 \<and>
      (\<exists>fs \<in> set ?valid. \<exists>f \<in> set fs. frameIdText env (GlobalFrameID f) = None)"
    unfolding job_unreadable_def G(1) nat_int by blast
  define crash where "crash \<longleftrightarrow> renderState fl \<and> fonts env fontPath 11 \<and>
      (\<exists>fs \<in> set ?valid. \<exists>f \<in> set fs. frameIdText env (GlobalFrameID f) = None)"
  define jobs where "jobs = ?jobs"
  note fold = renderAll_cases [OF assms(5,6), of env dir ?jobs 0, unfolded bad, folded crash_def jobs_def]
  have "dataset_mp4 env fl = (if crash then (0, Mp4Crash)
      else (length (filter (\<lambda>job. renderOne env fl dir job \<noteq> Ret None) jobs),
         case generateVideo (ffmpeg env) dir (outputFlag fl) (fpsText env (frameDuration fl)) of
           None \<Rightarrow> Mp4Done | Some err \<Rightarrow> Mp4Fatal ''failed to generate video''))"
    unfolding dataset_mp4_def assms(2,4) collectEpisodes_runs [OF assms(3)] sum.case prod.case go_bind.simps
      j [folded jobs_def] Let_def fold
    using assms(1,7) by simp
  then show ?thesis using j unfolding crash_def jobs_def by blast
qed

section \<open>Example: three jobs and two workers\<close>

definition demo_work :: "nat \<Rightarrow> string option" where
  "demo_work j = (if j = 1 then Some ''disk full'' else None)"

text \<open>The second worker is done before the first.\<close>

definition pool_run :: "nat pool" where
  "pool_run = \<lparr>toSend = [2], jobsChan = [], jobsClosed = False, workers = [Rendering 0, Reporting (1, Some ''disk full'')],
     saved = [1], resultsChan = [], resultsClosed = False, renderedCount = 0, renderErrors = 0, collectorDone = False\<rparr>"

lemma pool_run_reachable: "(pool_step int demo_work 4)\<^sup>*\<^sup>* (poolStart 2 [0, 1, 2]) pool_run"
proof -
  let ?step = "pool_step int demo_work 4"
  have "?step s (s\<lparr>toSend := tl (toSend s), jobsChan := jobsChan s @ [hd (toSend s)]\<rparr>)"
    if "toSend s \<noteq> []" "length (jobsChan s) < 4" for s
    using that pool_step.send [of s "hd (toSend s)" "tl (toSend s)" 4] by simp
  note send = this
  have "?step s (setWorker w (Rendering (hd (jobsChan s))) (s\<lparr>jobsChan := tl (jobsChan s)\<rparr>))"
    if "w < length (workers s)" "workers s ! w = Idle" "jobsChan s \<noteq> []" for s w
    using that pool_step.receive [of w s "hd (jobsChan s)" "tl (jobsChan s)"] by simp
  note receive = this
  let ?s0 = "poolStart 2 [0, 1, 2] :: nat pool"
  let ?s2 = "?s0\<lparr>toSend := [2], jobsChan := [0, 1]\<rparr>"
  let ?s4 = "?s2\<lparr>jobsChan := [], workers := [Rendering 0, Rendering 1]\<rparr>"
  have 1: "?step ?s0 (?s0\<lparr>toSend := [1, 2], jobsChan := [0]\<rparr>)" using send [of ?s0] by (simp add: poolStart_def)
  have 2: "?step (?s0\<lparr>toSend := [1, 2], jobsChan := [0]\<rparr>) ?s2"
    using send [of "?s0\<lparr>toSend := [1, 2], jobsChan := [0]\<rparr>"] by (simp add: poolStart_def)
  have 3: "?step ?s2 (?s2\<lparr>jobsChan := [1], workers := [Rendering 0, Idle]\<rparr>)"
    using receive [of 0 ?s2] by (simp add: poolStart_def setWorker_def numeral_2_eq_2)
  have 4: "?step (?s2\<lparr>jobsChan := [1], workers := [Rendering 0, Idle]\<rparr>) ?s4"
    using receive [of 1 "?s2\<lparr>jobsChan := [1], workers := [Rendering 0, Idle]\<rparr>"] by (simp add: poolStart_def setWorker_def)
  have 5: "?step ?s4 pool_run"
    using pool_step.render [of 1 ?s4 1 int demo_work 4] by (simp add: poolStart_def setWorker_def pool_run_def demo_work_def)
  show ?thesis using 1 2 3 4 5 by (meson rtranclp.rtrancl_into_rtrancl rtranclp.rtrancl_refl)
qed

theorem pool_completes_witness: "\<exists>s'. pool_step int demo_work 4 pool_run s' \<and> stepsLeft s' < stepsLeft pool_run"
  using pool_completes [OF pool_run_reachable] by (auto simp: pool_run_def)

definition mp4_demo_env :: "string mp4_env" where
  "mp4_demo_env = \<lparr>openInput = (\<lambda>_. Inr ([batch_of [video_frame 5 0 2, video_frame 5 9 2, video_frame 6 0 2]], None)),
     mkdirTemp = Inr ''/tmp/frames'', numCPU = 4, decode = (\<lambda>b. Inr ''camera''), fonts = (\<lambda>_ _. False), measure = (\<lambda>_. (0, 0)),
     frameIdText = (\<lambda>_. Some ''1''), httpGet = (\<lambda>_. Inl ''refused''), angleText = (\<lambda>_. ''0''), portOf = (\<lambda>_ _. renderPortStart),
     savePNG = (\<lambda>p _. if p = ''/tmp/frames/frame_000001.png'' then Some ''disk full'' else None), fpsText = (\<lambda>_. ''10.00''), ffmpeg = (\<lambda>_. None)\<rparr>"

definition mp4_demo_flags :: mp4_flags where
  "mp4_demo_flags = \<lparr>inputFlag = ''d.parquet'', outputFlag = ''output.mp4'', frameDuration = 100, workersFlag = 0, gridCols = 3,
     gridRows = 3, renderState = True, renderHost = ''localhost''\<rparr>"

theorem exporter_completes_witness: "\<exists>errs. dataset_mp4 mp4_demo_env mp4_demo_flags = (errs, Mp4Done)"
proof -
  let ?fs = "[video_frame 5 0 2, video_frame 5 9 2, video_frame 6 0 2]"
  have "list_all2 batch_holds [batch_of ?fs] [?fs]" by (simp add: batch_of_holds)
  from exporter_completes [of mp4_demo_flags mp4_demo_env, OF _ _ this, of "''/tmp/frames''"]
  show ?thesis by (auto simp: mp4_demo_env_def mp4_demo_flags_def generateVideo_def)
qed

end
