(* ===== verification/Support_Code.thy ===== *)
theory Support_Code
  imports Source_Files Go_Text
begin

text \<open>
  The small packages around the programs: the search for the project root and the creation of
  folders of \<^verbatim>\<open>src/shared/gremlin_go/gremlinc/internal/pathutils\<close>, the wrapper of the station client of
  \<^verbatim>\<open>src/software/station/shared/station/streams.go\<close>, the limit of open files that
  \<^verbatim>\<open>src/shared/ulimits\<close> asks for, and the log hook of \<^verbatim>\<open>src/shared/console-tool\<close>. The file system, the
  system calls and the client are arguments.
\<close>

section \<open>The project root\<close>

text \<open>\<open>readDir\<close> gives the names in a folder, \<open>getwd\<close> the working directory.\<close>

function searchProjectRootFromTopToBottom ::
  "string + string \<Rightarrow> (string \<Rightarrow> string + string list) \<Rightarrow> string \<Rightarrow> int \<Rightarrow> int \<Rightarrow> string go" where
  "searchProjectRootFromTopToBottom getwd readDir currentPath depth maxDepth =
     (if depth > maxDepth then Err (''No root directory was found, exceeded hierarchy depth of : '' @ Itoa depth)
      else case readDir currentPath of
        Inl err \<Rightarrow> Err err
      | Inr names \<Rightarrow>
          if ''Makefile'' \<in> set names then Ret currentPath
          else go_bind (path_abs getwd (currentPath @ ''/..'')) (\<lambda>dir.
            searchProjectRootFromTopToBottom getwd readDir dir (depth + 1) maxDepth))"
  by auto

termination by (relation "measure (\<lambda>(_, _, _, depth, maxDepth). nat (maxDepth + 1 - depth))") auto

declare searchProjectRootFromTopToBottom.simps [simp del]

definition GetProjectRootByMakefile ::
  "string + string \<Rightarrow> (string \<Rightarrow> string + string list) \<Rightarrow> string \<Rightarrow> int \<Rightarrow> string go" where
  "GetProjectRootByMakefile getwd readDir currentPath maxDepth =
     searchProjectRootFromTopToBottom getwd readDir currentPath 0 maxDepth"

lemma clean_proper_append: "list_all proper ps \<Longrightarrow> clean_parts rooted acc (ps @ qs) = clean_parts rooted (rev ps @ acc) qs"
  by (induction ps arbitrary: acc) (auto simp: proper_def)

lemma abs_parent:
  assumes "list_all proper ps"
  shows "path_abs getwd (abs_path ps @ ''/..'') = Ret (abs_path (butlast ps))"
proof -
  have s: "split_on (CHR ''/'') (abs_path ps @ ''/..'') = [] # (if ps = [] then [[]] else ps) @ [''..'']"
  proof (cases "ps = []")
    case False
    have "abs_path ps @ ''/..'' = ''/'' @ join ''/'' (ps @ [''..''])"
      using join_snoc [OF False, of "''/''" "''..''"] by (simp add: abs_path_def)
    then show ?thesis using False assms split_join [of "ps @ [''..'']" "CHR ''/''"]
      by (auto simp: proper_def list_all_iff)
  qed (simp add: abs_path_def)
  have "clean_parts True [] (split_on (CHR ''/'') (abs_path ps @ ''/..'')) = butlast ps"
    using assms unfolding s
    by (cases ps rule: rev_cases) (auto simp: clean_proper_append, auto simp: proper_def)
  then show ?thesis by (simp add: path_abs_def path_clean_def Let_def abs_path_def has_prefix_def)
qed

text \<open>
  The result is the nearest folder with a Makefile, from the start outwards, no further than \<open>maxDepth\<close> levels up.
\<close>

definition ancestors :: "string list \<Rightarrow> nat \<Rightarrow> string list" where
  "ancestors ps n = map (\<lambda>k. abs_path (take (length ps - k) ps)) [0..<n]"

lemma ancestors_Suc: "ancestors ps (Suc n) = abs_path ps # ancestors (butlast ps) n"
proof -
  have "map (\<lambda>k. abs_path (take (length ps - Suc k) ps)) [0..<n] = map (\<lambda>k. abs_path (take (length (butlast ps) - k) (butlast ps))) [0..<n]"
    by (simp add: butlast_conv_take take_take min_def)
  then show ?thesis by (simp add: ancestors_def upt_conv_Cons map_Suc_upt [symmetric] del: upt_Suc)
qed

lemma search_ancestors:
  assumes "list_all proper ps" and "maxDepth + 1 - depth = int n"
  shows "searchProjectRootFromTopToBottom getwd (\<lambda>d. Inr (entries d)) (abs_path ps) depth maxDepth =
    (case List.find (\<lambda>d. ''Makefile'' \<in> set (entries d)) (ancestors ps n) of
       Some d \<Rightarrow> Ret d
     | None \<Rightarrow> Err (''No root directory was found, exceeded hierarchy depth of : '' @ Itoa (maxDepth + 1)))"
  using assms
proof (induction n arbitrary: ps depth)
  case 0
  then show ?case by (subst searchProjectRootFromTopToBottom.simps) (simp add: ancestors_def)
next
  case (Suc n)
  have "list_all proper (butlast ps)" using Suc.prems(1) by (auto simp: list_all_iff dest: in_set_butlastD)
  then show ?case
    using Suc.IH [of "butlast ps" "depth + 1"] Suc.prems
    by (subst searchProjectRootFromTopToBottom.simps) (simp add: ancestors_Suc abs_parent)
qed

theorem project_root_nearest:
  assumes "list_all proper ps" and "0 \<le> maxDepth"
  shows "GetProjectRootByMakefile getwd (\<lambda>d. Inr (entries d)) (abs_path ps) maxDepth =
    (case List.find (\<lambda>d. ''Makefile'' \<in> set (entries d)) (ancestors ps (Suc (nat maxDepth))) of
       Some d \<Rightarrow> Ret d
     | None \<Rightarrow> Err (''No root directory was found, exceeded hierarchy depth of : '' @ Itoa (maxDepth + 1)))"
  using search_ancestors [OF assms(1), of maxDepth 0 "Suc (nat maxDepth)" getwd entries] assms(2) by (simp add: GetProjectRootByMakefile_def)

section \<open>Creating folders\<close>

text \<open>The result of \<^verbatim>\<open>os.Stat\<close>, with the text of its error and whether it is one of permission; a log entry is kept.\<close>

definition Exists :: "(string \<Rightarrow> (string \<times> bool) + 'info) \<Rightarrow> string \<Rightarrow> string list \<times> 'info option" where
  "Exists stat dir =
     (case stat dir of
        Inl (err, isPermission) \<Rightarrow>
          (if isPermission then [''Permission error on file stat: '' @ dir @ '', err = '' @ err] else [], None)
      | Inr info \<Rightarrow> ([], Some info))"

definition MkPath ::
  "(string \<Rightarrow> (string \<times> bool) + 'info) \<Rightarrow> (string \<Rightarrow> 'perm \<Rightarrow> string option) \<Rightarrow> string \<Rightarrow> 'perm \<Rightarrow> string list \<times> string option" where
  "MkPath stat mkdirAll dir perm =
     (case Exists stat dir of
        (log, Some _) \<Rightarrow> (log, None)
      | (log, None) \<Rightarrow> (log, map_option (\<lambda>err. ''failed to create path: '' @ [CHR 0x27] @ dir @ [CHR 0x27] @ '', error: '' @
          [CHR 0x27] @ err @ [CHR 0x27]) (mkdirAll dir perm)))"

section \<open>The station client\<close>

text \<open>A server without a port gets the default one. Commands are sent in one request.\<close>

definition NewStationClient :: "(string \<Rightarrow> 'c go) \<Rightarrow> string \<Rightarrow> 'c go" where
  "NewStationClient newClient server =
     newClient (if str_contains server '':'' then server else server @ '':'' @ Itoa 8888)"

definition SendCommands ::
  "(string \<Rightarrow> byte list list \<Rightarrow> 'r go) \<Rightarrow> ('cmd \<Rightarrow> byte list go) \<Rightarrow> 'cmd list \<Rightarrow> string option go" where
  "SendCommands enqueuePack marshal commands =
     go_bind (go_fold (\<lambda>cmd bytes. go_bind (marshal cmd) (\<lambda>b. Ret (bytes @ [b]))) commands []) (\<lambda>bytes.
       case enqueuePack ''commands'' bytes of Ret _ \<Rightarrow> Ret None | Err e \<Rightarrow> Ret (Some e) | Panic \<Rightarrow> Panic)"

section \<open>The limit of open files\<close>

record rlimit =
  Cur :: uint64
  Max :: uint64

text \<open>The raised limit, if one is too low.\<close>

definition raiseLimit :: "rlimit \<Rightarrow> rlimit option" where
  "raiseLimit r =
     (let (r, changed) = (if Cur r < 256000 then (r\<lparr>Cur := 256000\<rparr>, True) else (r, False));
          (r, changed) = (if Max r < 256000 then (r\<lparr>Max := 256000\<rparr>, True) else (r, changed))
      in if changed then Some r else None)"

text \<open>What is asked of the kernel, and what is printed; \<open>before\<close> and \<open>after\<close> are the answers of \<^verbatim>\<open>getrlimit\<close>.\<close>

definition showLimit :: "(string \<Rightarrow> string) \<Rightarrow> string \<Rightarrow> rlimit \<Rightarrow> string" where
  "showLimit green text r = green ''rlimit'' @ text @ Itoa (uint (Cur r)) @ '', max='' @ Itoa (uint (Max r))"

definition SetupForHighLoad ::
  "(string \<Rightarrow> string) \<Rightarrow> (string \<Rightarrow> string) \<Rightarrow> string + rlimit \<Rightarrow> (rlimit \<Rightarrow> string option) \<Rightarrow> string + rlimit \<Rightarrow>
   rlimit option \<times> string" where
  "SetupForHighLoad red green before setrlimit after =
     (case before of
        Inl err \<Rightarrow> (None, red ''ERR'' @ '' Failed to get rlimit: '' @ err)
      | Inr r \<Rightarrow>
          (case raiseLimit r of
             None \<Rightarrow> (None, showLimit green '' current='' r @ '' is enough, no changes needed'')
           | Some r' \<Rightarrow> (Some r', case setrlimit r' of
                 Some err \<Rightarrow> red ''ERR'' @ '' Failed to set rlimit: '' @ err
               | None \<Rightarrow> (case after of
                   Inl err \<Rightarrow> red ''ERR'' @ '' Failed to check rlimit: '' @ err
                 | Inr r'' \<Rightarrow> showLimit green '' changed to current='' r''))))"

text \<open>A limit is never lowered, and asking is omitted exactly when both limits suffice.\<close>

theorem limit_never_lowered:
  "fst (SetupForHighLoad red green (Inr r) setrlimit after) =
     (if 256000 \<le> Cur r \<and> 256000 \<le> Max r then None else Some \<lparr>Cur = max (Cur r) 256000, Max = max (Max r) 256000\<rparr>)"
  by (cases r) (auto simp: SetupForHighLoad_def raiseLimit_def max_def)

section \<open>The line of a log entry\<close>

text \<open>
  The hook adds the file and line of the caller, which \<^verbatim>\<open>runtime.Caller\<close> gives if it can, to entries of level info
  and above. \<^verbatim>\<open>strings.Index\<close> is -1 for a text that does not occur.
\<close>

definition LineInfoHook_Run :: "int \<Rightarrow> (string \<times> int) option \<Rightarrow> string option go" where
  "LineInfoHook_Run level caller =
     (if level \<ge> 1 then
        (case caller of
           None \<Rightarrow> Ret None
         | Some (file, line) \<Rightarrow>
             (let start = (case str_index file ''norma_core/'' of Some i \<Rightarrow> int i | None \<Rightarrow> -1) + 8
              in if start \<le> int (length file) then Ret (Some (drop (nat start) file @ '':'' @ Itoa line)) else Panic))
      else Ret None)"

text \<open>The offset 8 is not the length of the prefix, which has 11 characters: three of them stay.\<close>

theorem hook_keeps_part_of_prefix:
  assumes "str_index file ''norma_core/'' = Some (length pre)" and "file = pre @ ''norma_core/'' @ rest"
  shows "LineInfoHook_Run 1 (Some (file, line)) = Ret (Some (''re/'' @ rest @ '':'' @ Itoa line))"
  using assms(1) unfolding assms(2) by (simp add: LineInfoHook_Run_def Let_def nat_add_distrib)

text \<open>In a checkout whose folder has another name, such as \<^verbatim>\<open>norma-core\<close>, the first seven characters of the path are cut
  off, and the entry panics when there are fewer.\<close>

theorem hook_without_prefix:
  assumes "str_index file ''norma_core/'' = None"
  shows "LineInfoHook_Run 1 (Some (file, line)) =
    (if 7 \<le> length file then Ret (Some (drop 7 file @ '':'' @ Itoa line)) else Panic)"
  using assms by (simp add: LineInfoHook_Run_def Let_def)

end
