(* ===== verification/Unittest_Base.thy ===== *)
theory Unittest_Base
  imports Field_Kinds
begin

text \<open>
  The enums of \<^verbatim>\<open>src/shared/gremlin_go/bench/gremlin_pb/protobuf_unittest/unittest.pb2.go\<close> and
  \<^verbatim>\<open>src/shared/gremlin_go/bench/gremlin_pb/protobuf_unittest_import\<close>, and the message types that other messages embed most.
  Every message of the file is the same code over its table of fields: constants for the tags, a lazy reader,
  the struct, and the functions between them and the wire. Each is followed by its round trip, as an
  interpretation of \<open>lazy_message\<close> and of \<open>message_codec\<close>.
\<close>

section \<open>Enums\<close>

type_synonym TestAllTypes_NestedEnum = int32

definition TestAllTypes_FOO :: TestAllTypes_NestedEnum where "TestAllTypes_FOO = 1"
definition TestAllTypes_BAR :: TestAllTypes_NestedEnum where "TestAllTypes_BAR = 2"
definition TestAllTypes_BAZ :: TestAllTypes_NestedEnum where "TestAllTypes_BAZ = 3"
definition TestAllTypes_NEG :: TestAllTypes_NestedEnum where "TestAllTypes_NEG = - 1"

definition TestAllTypes_NestedEnum_String :: "TestAllTypes_NestedEnum \<Rightarrow> string" where
  "TestAllTypes_NestedEnum_String e =
     (if e = TestAllTypes_FOO then ''FOO''
      else if e = TestAllTypes_BAR then ''BAR''
      else if e = TestAllTypes_BAZ then ''BAZ''
      else if e = TestAllTypes_NEG then ''NEG''
      else '''')"

type_synonym ForeignEnum = int32

definition ForeignEnum_FOREIGN_FOO :: ForeignEnum where "ForeignEnum_FOREIGN_FOO = 4"
definition ForeignEnum_FOREIGN_BAR :: ForeignEnum where "ForeignEnum_FOREIGN_BAR = 5"
definition ForeignEnum_FOREIGN_BAZ :: ForeignEnum where "ForeignEnum_FOREIGN_BAZ = 6"

definition ForeignEnum_String :: "ForeignEnum \<Rightarrow> string" where
  "ForeignEnum_String e =
     (if e = ForeignEnum_FOREIGN_FOO then ''FOREIGN_FOO''
      else if e = ForeignEnum_FOREIGN_BAR then ''FOREIGN_BAR''
      else if e = ForeignEnum_FOREIGN_BAZ then ''FOREIGN_BAZ''
      else '''')"

type_synonym TestEnumWithDupValue = int32

definition TestEnumWithDupValue_FOO1 :: TestEnumWithDupValue where "TestEnumWithDupValue_FOO1 = 1"
definition TestEnumWithDupValue_BAR1 :: TestEnumWithDupValue where "TestEnumWithDupValue_BAR1 = 2"
definition TestEnumWithDupValue_BAZ :: TestEnumWithDupValue where "TestEnumWithDupValue_BAZ = 3"
definition TestEnumWithDupValue_FOO2 :: TestEnumWithDupValue where "TestEnumWithDupValue_FOO2 = 1"
definition TestEnumWithDupValue_BAR2 :: TestEnumWithDupValue where "TestEnumWithDupValue_BAR2 = 2"

definition TestEnumWithDupValue_String :: "TestEnumWithDupValue \<Rightarrow> string" where
  "TestEnumWithDupValue_String e =
     (if e = TestEnumWithDupValue_FOO1 then ''FOO1''
      else if e = TestEnumWithDupValue_BAR1 then ''BAR1''
      else if e = TestEnumWithDupValue_BAZ then ''BAZ''
      else '''')"

type_synonym TestSparseEnum = int32

definition TestSparseEnum_SPARSE_A :: TestSparseEnum where "TestSparseEnum_SPARSE_A = 123"
definition TestSparseEnum_SPARSE_B :: TestSparseEnum where "TestSparseEnum_SPARSE_B = 62374"
definition TestSparseEnum_SPARSE_C :: TestSparseEnum where "TestSparseEnum_SPARSE_C = 12589234"
definition TestSparseEnum_SPARSE_D :: TestSparseEnum where "TestSparseEnum_SPARSE_D = - 15"
definition TestSparseEnum_SPARSE_E :: TestSparseEnum where "TestSparseEnum_SPARSE_E = - 53452"
definition TestSparseEnum_SPARSE_F :: TestSparseEnum where "TestSparseEnum_SPARSE_F = 0"
definition TestSparseEnum_SPARSE_G :: TestSparseEnum where "TestSparseEnum_SPARSE_G = 2"

definition TestSparseEnum_String :: "TestSparseEnum \<Rightarrow> string" where
  "TestSparseEnum_String e =
     (if e = TestSparseEnum_SPARSE_A then ''SPARSE_A''
      else if e = TestSparseEnum_SPARSE_B then ''SPARSE_B''
      else if e = TestSparseEnum_SPARSE_C then ''SPARSE_C''
      else if e = TestSparseEnum_SPARSE_D then ''SPARSE_D''
      else if e = TestSparseEnum_SPARSE_E then ''SPARSE_E''
      else if e = TestSparseEnum_SPARSE_F then ''SPARSE_F''
      else if e = TestSparseEnum_SPARSE_G then ''SPARSE_G''
      else '''')"

type_synonym TestOneof2_NestedEnum = int32

definition TestOneof2_FOO :: TestOneof2_NestedEnum where "TestOneof2_FOO = 1"
definition TestOneof2_BAR :: TestOneof2_NestedEnum where "TestOneof2_BAR = 2"
definition TestOneof2_BAZ :: TestOneof2_NestedEnum where "TestOneof2_BAZ = 3"

definition TestOneof2_NestedEnum_String :: "TestOneof2_NestedEnum \<Rightarrow> string" where
  "TestOneof2_NestedEnum_String e =
     (if e = TestOneof2_FOO then ''FOO''
      else if e = TestOneof2_BAR then ''BAR''
      else if e = TestOneof2_BAZ then ''BAZ''
      else '''')"

type_synonym TestDynamicExtensions_DynamicEnumType = int32

definition TestDynamicExtensions_DYNAMIC_FOO :: TestDynamicExtensions_DynamicEnumType where "TestDynamicExtensions_DYNAMIC_FOO = 2200"
definition TestDynamicExtensions_DYNAMIC_BAR :: TestDynamicExtensions_DynamicEnumType where "TestDynamicExtensions_DYNAMIC_BAR = 2201"
definition TestDynamicExtensions_DYNAMIC_BAZ :: TestDynamicExtensions_DynamicEnumType where "TestDynamicExtensions_DYNAMIC_BAZ = 2202"

definition TestDynamicExtensions_DynamicEnumType_String :: "TestDynamicExtensions_DynamicEnumType \<Rightarrow> string" where
  "TestDynamicExtensions_DynamicEnumType_String e =
     (if e = TestDynamicExtensions_DYNAMIC_FOO then ''DYNAMIC_FOO''
      else if e = TestDynamicExtensions_DYNAMIC_BAR then ''DYNAMIC_BAR''
      else if e = TestDynamicExtensions_DYNAMIC_BAZ then ''DYNAMIC_BAZ''
      else '''')"

type_synonym VeryLargeEnum = int32

definition VeryLargeEnum_ENUM_LABEL_DEFAULT :: VeryLargeEnum where "VeryLargeEnum_ENUM_LABEL_DEFAULT = 0"
definition VeryLargeEnum_ENUM_LABEL_1 :: VeryLargeEnum where "VeryLargeEnum_ENUM_LABEL_1 = 1"
definition VeryLargeEnum_ENUM_LABEL_2 :: VeryLargeEnum where "VeryLargeEnum_ENUM_LABEL_2 = 2"
definition VeryLargeEnum_ENUM_LABEL_3 :: VeryLargeEnum where "VeryLargeEnum_ENUM_LABEL_3 = 3"
definition VeryLargeEnum_ENUM_LABEL_4 :: VeryLargeEnum where "VeryLargeEnum_ENUM_LABEL_4 = 4"
definition VeryLargeEnum_ENUM_LABEL_5 :: VeryLargeEnum where "VeryLargeEnum_ENUM_LABEL_5 = 5"
definition VeryLargeEnum_ENUM_LABEL_6 :: VeryLargeEnum where "VeryLargeEnum_ENUM_LABEL_6 = 6"
definition VeryLargeEnum_ENUM_LABEL_7 :: VeryLargeEnum where "VeryLargeEnum_ENUM_LABEL_7 = 7"
definition VeryLargeEnum_ENUM_LABEL_8 :: VeryLargeEnum where "VeryLargeEnum_ENUM_LABEL_8 = 8"
definition VeryLargeEnum_ENUM_LABEL_9 :: VeryLargeEnum where "VeryLargeEnum_ENUM_LABEL_9 = 9"
definition VeryLargeEnum_ENUM_LABEL_10 :: VeryLargeEnum where "VeryLargeEnum_ENUM_LABEL_10 = 10"
definition VeryLargeEnum_ENUM_LABEL_11 :: VeryLargeEnum where "VeryLargeEnum_ENUM_LABEL_11 = 11"
definition VeryLargeEnum_ENUM_LABEL_12 :: VeryLargeEnum where "VeryLargeEnum_ENUM_LABEL_12 = 12"
definition VeryLargeEnum_ENUM_LABEL_13 :: VeryLargeEnum where "VeryLargeEnum_ENUM_LABEL_13 = 13"
definition VeryLargeEnum_ENUM_LABEL_14 :: VeryLargeEnum where "VeryLargeEnum_ENUM_LABEL_14 = 14"
definition VeryLargeEnum_ENUM_LABEL_15 :: VeryLargeEnum where "VeryLargeEnum_ENUM_LABEL_15 = 15"
definition VeryLargeEnum_ENUM_LABEL_16 :: VeryLargeEnum where "VeryLargeEnum_ENUM_LABEL_16 = 16"
definition VeryLargeEnum_ENUM_LABEL_17 :: VeryLargeEnum where "VeryLargeEnum_ENUM_LABEL_17 = 17"
definition VeryLargeEnum_ENUM_LABEL_18 :: VeryLargeEnum where "VeryLargeEnum_ENUM_LABEL_18 = 18"
definition VeryLargeEnum_ENUM_LABEL_19 :: VeryLargeEnum where "VeryLargeEnum_ENUM_LABEL_19 = 19"
definition VeryLargeEnum_ENUM_LABEL_20 :: VeryLargeEnum where "VeryLargeEnum_ENUM_LABEL_20 = 20"
definition VeryLargeEnum_ENUM_LABEL_21 :: VeryLargeEnum where "VeryLargeEnum_ENUM_LABEL_21 = 21"
definition VeryLargeEnum_ENUM_LABEL_22 :: VeryLargeEnum where "VeryLargeEnum_ENUM_LABEL_22 = 22"
definition VeryLargeEnum_ENUM_LABEL_23 :: VeryLargeEnum where "VeryLargeEnum_ENUM_LABEL_23 = 23"
definition VeryLargeEnum_ENUM_LABEL_24 :: VeryLargeEnum where "VeryLargeEnum_ENUM_LABEL_24 = 24"
definition VeryLargeEnum_ENUM_LABEL_25 :: VeryLargeEnum where "VeryLargeEnum_ENUM_LABEL_25 = 25"
definition VeryLargeEnum_ENUM_LABEL_26 :: VeryLargeEnum where "VeryLargeEnum_ENUM_LABEL_26 = 26"
definition VeryLargeEnum_ENUM_LABEL_27 :: VeryLargeEnum where "VeryLargeEnum_ENUM_LABEL_27 = 27"
definition VeryLargeEnum_ENUM_LABEL_28 :: VeryLargeEnum where "VeryLargeEnum_ENUM_LABEL_28 = 28"
definition VeryLargeEnum_ENUM_LABEL_29 :: VeryLargeEnum where "VeryLargeEnum_ENUM_LABEL_29 = 29"
definition VeryLargeEnum_ENUM_LABEL_30 :: VeryLargeEnum where "VeryLargeEnum_ENUM_LABEL_30 = 30"
definition VeryLargeEnum_ENUM_LABEL_31 :: VeryLargeEnum where "VeryLargeEnum_ENUM_LABEL_31 = 31"
definition VeryLargeEnum_ENUM_LABEL_32 :: VeryLargeEnum where "VeryLargeEnum_ENUM_LABEL_32 = 32"
definition VeryLargeEnum_ENUM_LABEL_33 :: VeryLargeEnum where "VeryLargeEnum_ENUM_LABEL_33 = 33"
definition VeryLargeEnum_ENUM_LABEL_34 :: VeryLargeEnum where "VeryLargeEnum_ENUM_LABEL_34 = 34"
definition VeryLargeEnum_ENUM_LABEL_35 :: VeryLargeEnum where "VeryLargeEnum_ENUM_LABEL_35 = 35"
definition VeryLargeEnum_ENUM_LABEL_36 :: VeryLargeEnum where "VeryLargeEnum_ENUM_LABEL_36 = 36"
definition VeryLargeEnum_ENUM_LABEL_37 :: VeryLargeEnum where "VeryLargeEnum_ENUM_LABEL_37 = 37"
definition VeryLargeEnum_ENUM_LABEL_38 :: VeryLargeEnum where "VeryLargeEnum_ENUM_LABEL_38 = 38"
definition VeryLargeEnum_ENUM_LABEL_39 :: VeryLargeEnum where "VeryLargeEnum_ENUM_LABEL_39 = 39"
definition VeryLargeEnum_ENUM_LABEL_40 :: VeryLargeEnum where "VeryLargeEnum_ENUM_LABEL_40 = 40"
definition VeryLargeEnum_ENUM_LABEL_41 :: VeryLargeEnum where "VeryLargeEnum_ENUM_LABEL_41 = 41"
definition VeryLargeEnum_ENUM_LABEL_42 :: VeryLargeEnum where "VeryLargeEnum_ENUM_LABEL_42 = 42"
definition VeryLargeEnum_ENUM_LABEL_43 :: VeryLargeEnum where "VeryLargeEnum_ENUM_LABEL_43 = 43"
definition VeryLargeEnum_ENUM_LABEL_44 :: VeryLargeEnum where "VeryLargeEnum_ENUM_LABEL_44 = 44"
definition VeryLargeEnum_ENUM_LABEL_45 :: VeryLargeEnum where "VeryLargeEnum_ENUM_LABEL_45 = 45"
definition VeryLargeEnum_ENUM_LABEL_46 :: VeryLargeEnum where "VeryLargeEnum_ENUM_LABEL_46 = 46"
definition VeryLargeEnum_ENUM_LABEL_47 :: VeryLargeEnum where "VeryLargeEnum_ENUM_LABEL_47 = 47"
definition VeryLargeEnum_ENUM_LABEL_48 :: VeryLargeEnum where "VeryLargeEnum_ENUM_LABEL_48 = 48"
definition VeryLargeEnum_ENUM_LABEL_49 :: VeryLargeEnum where "VeryLargeEnum_ENUM_LABEL_49 = 49"
definition VeryLargeEnum_ENUM_LABEL_50 :: VeryLargeEnum where "VeryLargeEnum_ENUM_LABEL_50 = 50"
definition VeryLargeEnum_ENUM_LABEL_51 :: VeryLargeEnum where "VeryLargeEnum_ENUM_LABEL_51 = 51"
definition VeryLargeEnum_ENUM_LABEL_52 :: VeryLargeEnum where "VeryLargeEnum_ENUM_LABEL_52 = 52"
definition VeryLargeEnum_ENUM_LABEL_53 :: VeryLargeEnum where "VeryLargeEnum_ENUM_LABEL_53 = 53"
definition VeryLargeEnum_ENUM_LABEL_54 :: VeryLargeEnum where "VeryLargeEnum_ENUM_LABEL_54 = 54"
definition VeryLargeEnum_ENUM_LABEL_55 :: VeryLargeEnum where "VeryLargeEnum_ENUM_LABEL_55 = 55"
definition VeryLargeEnum_ENUM_LABEL_56 :: VeryLargeEnum where "VeryLargeEnum_ENUM_LABEL_56 = 56"
definition VeryLargeEnum_ENUM_LABEL_57 :: VeryLargeEnum where "VeryLargeEnum_ENUM_LABEL_57 = 57"
definition VeryLargeEnum_ENUM_LABEL_58 :: VeryLargeEnum where "VeryLargeEnum_ENUM_LABEL_58 = 58"
definition VeryLargeEnum_ENUM_LABEL_59 :: VeryLargeEnum where "VeryLargeEnum_ENUM_LABEL_59 = 59"
definition VeryLargeEnum_ENUM_LABEL_60 :: VeryLargeEnum where "VeryLargeEnum_ENUM_LABEL_60 = 60"
definition VeryLargeEnum_ENUM_LABEL_61 :: VeryLargeEnum where "VeryLargeEnum_ENUM_LABEL_61 = 61"
definition VeryLargeEnum_ENUM_LABEL_62 :: VeryLargeEnum where "VeryLargeEnum_ENUM_LABEL_62 = 62"
definition VeryLargeEnum_ENUM_LABEL_63 :: VeryLargeEnum where "VeryLargeEnum_ENUM_LABEL_63 = 63"
definition VeryLargeEnum_ENUM_LABEL_64 :: VeryLargeEnum where "VeryLargeEnum_ENUM_LABEL_64 = 64"
definition VeryLargeEnum_ENUM_LABEL_65 :: VeryLargeEnum where "VeryLargeEnum_ENUM_LABEL_65 = 65"
definition VeryLargeEnum_ENUM_LABEL_66 :: VeryLargeEnum where "VeryLargeEnum_ENUM_LABEL_66 = 66"
definition VeryLargeEnum_ENUM_LABEL_67 :: VeryLargeEnum where "VeryLargeEnum_ENUM_LABEL_67 = 67"
definition VeryLargeEnum_ENUM_LABEL_68 :: VeryLargeEnum where "VeryLargeEnum_ENUM_LABEL_68 = 68"
definition VeryLargeEnum_ENUM_LABEL_69 :: VeryLargeEnum where "VeryLargeEnum_ENUM_LABEL_69 = 69"
definition VeryLargeEnum_ENUM_LABEL_70 :: VeryLargeEnum where "VeryLargeEnum_ENUM_LABEL_70 = 70"
definition VeryLargeEnum_ENUM_LABEL_71 :: VeryLargeEnum where "VeryLargeEnum_ENUM_LABEL_71 = 71"
definition VeryLargeEnum_ENUM_LABEL_72 :: VeryLargeEnum where "VeryLargeEnum_ENUM_LABEL_72 = 72"
definition VeryLargeEnum_ENUM_LABEL_73 :: VeryLargeEnum where "VeryLargeEnum_ENUM_LABEL_73 = 73"
definition VeryLargeEnum_ENUM_LABEL_74 :: VeryLargeEnum where "VeryLargeEnum_ENUM_LABEL_74 = 74"
definition VeryLargeEnum_ENUM_LABEL_75 :: VeryLargeEnum where "VeryLargeEnum_ENUM_LABEL_75 = 75"
definition VeryLargeEnum_ENUM_LABEL_76 :: VeryLargeEnum where "VeryLargeEnum_ENUM_LABEL_76 = 76"
definition VeryLargeEnum_ENUM_LABEL_77 :: VeryLargeEnum where "VeryLargeEnum_ENUM_LABEL_77 = 77"
definition VeryLargeEnum_ENUM_LABEL_78 :: VeryLargeEnum where "VeryLargeEnum_ENUM_LABEL_78 = 78"
definition VeryLargeEnum_ENUM_LABEL_79 :: VeryLargeEnum where "VeryLargeEnum_ENUM_LABEL_79 = 79"
definition VeryLargeEnum_ENUM_LABEL_80 :: VeryLargeEnum where "VeryLargeEnum_ENUM_LABEL_80 = 80"
definition VeryLargeEnum_ENUM_LABEL_81 :: VeryLargeEnum where "VeryLargeEnum_ENUM_LABEL_81 = 81"
definition VeryLargeEnum_ENUM_LABEL_82 :: VeryLargeEnum where "VeryLargeEnum_ENUM_LABEL_82 = 82"
definition VeryLargeEnum_ENUM_LABEL_83 :: VeryLargeEnum where "VeryLargeEnum_ENUM_LABEL_83 = 83"
definition VeryLargeEnum_ENUM_LABEL_84 :: VeryLargeEnum where "VeryLargeEnum_ENUM_LABEL_84 = 84"
definition VeryLargeEnum_ENUM_LABEL_85 :: VeryLargeEnum where "VeryLargeEnum_ENUM_LABEL_85 = 85"
definition VeryLargeEnum_ENUM_LABEL_86 :: VeryLargeEnum where "VeryLargeEnum_ENUM_LABEL_86 = 86"
definition VeryLargeEnum_ENUM_LABEL_87 :: VeryLargeEnum where "VeryLargeEnum_ENUM_LABEL_87 = 87"
definition VeryLargeEnum_ENUM_LABEL_88 :: VeryLargeEnum where "VeryLargeEnum_ENUM_LABEL_88 = 88"
definition VeryLargeEnum_ENUM_LABEL_89 :: VeryLargeEnum where "VeryLargeEnum_ENUM_LABEL_89 = 89"
definition VeryLargeEnum_ENUM_LABEL_90 :: VeryLargeEnum where "VeryLargeEnum_ENUM_LABEL_90 = 90"
definition VeryLargeEnum_ENUM_LABEL_91 :: VeryLargeEnum where "VeryLargeEnum_ENUM_LABEL_91 = 91"
definition VeryLargeEnum_ENUM_LABEL_92 :: VeryLargeEnum where "VeryLargeEnum_ENUM_LABEL_92 = 92"
definition VeryLargeEnum_ENUM_LABEL_93 :: VeryLargeEnum where "VeryLargeEnum_ENUM_LABEL_93 = 93"
definition VeryLargeEnum_ENUM_LABEL_94 :: VeryLargeEnum where "VeryLargeEnum_ENUM_LABEL_94 = 94"
definition VeryLargeEnum_ENUM_LABEL_95 :: VeryLargeEnum where "VeryLargeEnum_ENUM_LABEL_95 = 95"
definition VeryLargeEnum_ENUM_LABEL_96 :: VeryLargeEnum where "VeryLargeEnum_ENUM_LABEL_96 = 96"
definition VeryLargeEnum_ENUM_LABEL_97 :: VeryLargeEnum where "VeryLargeEnum_ENUM_LABEL_97 = 97"
definition VeryLargeEnum_ENUM_LABEL_98 :: VeryLargeEnum where "VeryLargeEnum_ENUM_LABEL_98 = 98"
definition VeryLargeEnum_ENUM_LABEL_99 :: VeryLargeEnum where "VeryLargeEnum_ENUM_LABEL_99 = 99"
definition VeryLargeEnum_ENUM_LABEL_100 :: VeryLargeEnum where "VeryLargeEnum_ENUM_LABEL_100 = 100"

definition VeryLargeEnum_String :: "VeryLargeEnum \<Rightarrow> string" where
  "VeryLargeEnum_String e =
     (if e = VeryLargeEnum_ENUM_LABEL_DEFAULT then ''ENUM_LABEL_DEFAULT''
      else if e = VeryLargeEnum_ENUM_LABEL_1 then ''ENUM_LABEL_1''
      else if e = VeryLargeEnum_ENUM_LABEL_2 then ''ENUM_LABEL_2''
      else if e = VeryLargeEnum_ENUM_LABEL_3 then ''ENUM_LABEL_3''
      else if e = VeryLargeEnum_ENUM_LABEL_4 then ''ENUM_LABEL_4''
      else if e = VeryLargeEnum_ENUM_LABEL_5 then ''ENUM_LABEL_5''
      else if e = VeryLargeEnum_ENUM_LABEL_6 then ''ENUM_LABEL_6''
      else if e = VeryLargeEnum_ENUM_LABEL_7 then ''ENUM_LABEL_7''
      else if e = VeryLargeEnum_ENUM_LABEL_8 then ''ENUM_LABEL_8''
      else if e = VeryLargeEnum_ENUM_LABEL_9 then ''ENUM_LABEL_9''
      else if e = VeryLargeEnum_ENUM_LABEL_10 then ''ENUM_LABEL_10''
      else if e = VeryLargeEnum_ENUM_LABEL_11 then ''ENUM_LABEL_11''
      else if e = VeryLargeEnum_ENUM_LABEL_12 then ''ENUM_LABEL_12''
      else if e = VeryLargeEnum_ENUM_LABEL_13 then ''ENUM_LABEL_13''
      else if e = VeryLargeEnum_ENUM_LABEL_14 then ''ENUM_LABEL_14''
      else if e = VeryLargeEnum_ENUM_LABEL_15 then ''ENUM_LABEL_15''
      else if e = VeryLargeEnum_ENUM_LABEL_16 then ''ENUM_LABEL_16''
      else if e = VeryLargeEnum_ENUM_LABEL_17 then ''ENUM_LABEL_17''
      else if e = VeryLargeEnum_ENUM_LABEL_18 then ''ENUM_LABEL_18''
      else if e = VeryLargeEnum_ENUM_LABEL_19 then ''ENUM_LABEL_19''
      else if e = VeryLargeEnum_ENUM_LABEL_20 then ''ENUM_LABEL_20''
      else if e = VeryLargeEnum_ENUM_LABEL_21 then ''ENUM_LABEL_21''
      else if e = VeryLargeEnum_ENUM_LABEL_22 then ''ENUM_LABEL_22''
      else if e = VeryLargeEnum_ENUM_LABEL_23 then ''ENUM_LABEL_23''
      else if e = VeryLargeEnum_ENUM_LABEL_24 then ''ENUM_LABEL_24''
      else if e = VeryLargeEnum_ENUM_LABEL_25 then ''ENUM_LABEL_25''
      else if e = VeryLargeEnum_ENUM_LABEL_26 then ''ENUM_LABEL_26''
      else if e = VeryLargeEnum_ENUM_LABEL_27 then ''ENUM_LABEL_27''
      else if e = VeryLargeEnum_ENUM_LABEL_28 then ''ENUM_LABEL_28''
      else if e = VeryLargeEnum_ENUM_LABEL_29 then ''ENUM_LABEL_29''
      else if e = VeryLargeEnum_ENUM_LABEL_30 then ''ENUM_LABEL_30''
      else if e = VeryLargeEnum_ENUM_LABEL_31 then ''ENUM_LABEL_31''
      else if e = VeryLargeEnum_ENUM_LABEL_32 then ''ENUM_LABEL_32''
      else if e = VeryLargeEnum_ENUM_LABEL_33 then ''ENUM_LABEL_33''
      else if e = VeryLargeEnum_ENUM_LABEL_34 then ''ENUM_LABEL_34''
      else if e = VeryLargeEnum_ENUM_LABEL_35 then ''ENUM_LABEL_35''
      else if e = VeryLargeEnum_ENUM_LABEL_36 then ''ENUM_LABEL_36''
      else if e = VeryLargeEnum_ENUM_LABEL_37 then ''ENUM_LABEL_37''
      else if e = VeryLargeEnum_ENUM_LABEL_38 then ''ENUM_LABEL_38''
      else if e = VeryLargeEnum_ENUM_LABEL_39 then ''ENUM_LABEL_39''
      else if e = VeryLargeEnum_ENUM_LABEL_40 then ''ENUM_LABEL_40''
      else if e = VeryLargeEnum_ENUM_LABEL_41 then ''ENUM_LABEL_41''
      else if e = VeryLargeEnum_ENUM_LABEL_42 then ''ENUM_LABEL_42''
      else if e = VeryLargeEnum_ENUM_LABEL_43 then ''ENUM_LABEL_43''
      else if e = VeryLargeEnum_ENUM_LABEL_44 then ''ENUM_LABEL_44''
      else if e = VeryLargeEnum_ENUM_LABEL_45 then ''ENUM_LABEL_45''
      else if e = VeryLargeEnum_ENUM_LABEL_46 then ''ENUM_LABEL_46''
      else if e = VeryLargeEnum_ENUM_LABEL_47 then ''ENUM_LABEL_47''
      else if e = VeryLargeEnum_ENUM_LABEL_48 then ''ENUM_LABEL_48''
      else if e = VeryLargeEnum_ENUM_LABEL_49 then ''ENUM_LABEL_49''
      else if e = VeryLargeEnum_ENUM_LABEL_50 then ''ENUM_LABEL_50''
      else if e = VeryLargeEnum_ENUM_LABEL_51 then ''ENUM_LABEL_51''
      else if e = VeryLargeEnum_ENUM_LABEL_52 then ''ENUM_LABEL_52''
      else if e = VeryLargeEnum_ENUM_LABEL_53 then ''ENUM_LABEL_53''
      else if e = VeryLargeEnum_ENUM_LABEL_54 then ''ENUM_LABEL_54''
      else if e = VeryLargeEnum_ENUM_LABEL_55 then ''ENUM_LABEL_55''
      else if e = VeryLargeEnum_ENUM_LABEL_56 then ''ENUM_LABEL_56''
      else if e = VeryLargeEnum_ENUM_LABEL_57 then ''ENUM_LABEL_57''
      else if e = VeryLargeEnum_ENUM_LABEL_58 then ''ENUM_LABEL_58''
      else if e = VeryLargeEnum_ENUM_LABEL_59 then ''ENUM_LABEL_59''
      else if e = VeryLargeEnum_ENUM_LABEL_60 then ''ENUM_LABEL_60''
      else if e = VeryLargeEnum_ENUM_LABEL_61 then ''ENUM_LABEL_61''
      else if e = VeryLargeEnum_ENUM_LABEL_62 then ''ENUM_LABEL_62''
      else if e = VeryLargeEnum_ENUM_LABEL_63 then ''ENUM_LABEL_63''
      else if e = VeryLargeEnum_ENUM_LABEL_64 then ''ENUM_LABEL_64''
      else if e = VeryLargeEnum_ENUM_LABEL_65 then ''ENUM_LABEL_65''
      else if e = VeryLargeEnum_ENUM_LABEL_66 then ''ENUM_LABEL_66''
      else if e = VeryLargeEnum_ENUM_LABEL_67 then ''ENUM_LABEL_67''
      else if e = VeryLargeEnum_ENUM_LABEL_68 then ''ENUM_LABEL_68''
      else if e = VeryLargeEnum_ENUM_LABEL_69 then ''ENUM_LABEL_69''
      else if e = VeryLargeEnum_ENUM_LABEL_70 then ''ENUM_LABEL_70''
      else if e = VeryLargeEnum_ENUM_LABEL_71 then ''ENUM_LABEL_71''
      else if e = VeryLargeEnum_ENUM_LABEL_72 then ''ENUM_LABEL_72''
      else if e = VeryLargeEnum_ENUM_LABEL_73 then ''ENUM_LABEL_73''
      else if e = VeryLargeEnum_ENUM_LABEL_74 then ''ENUM_LABEL_74''
      else if e = VeryLargeEnum_ENUM_LABEL_75 then ''ENUM_LABEL_75''
      else if e = VeryLargeEnum_ENUM_LABEL_76 then ''ENUM_LABEL_76''
      else if e = VeryLargeEnum_ENUM_LABEL_77 then ''ENUM_LABEL_77''
      else if e = VeryLargeEnum_ENUM_LABEL_78 then ''ENUM_LABEL_78''
      else if e = VeryLargeEnum_ENUM_LABEL_79 then ''ENUM_LABEL_79''
      else if e = VeryLargeEnum_ENUM_LABEL_80 then ''ENUM_LABEL_80''
      else if e = VeryLargeEnum_ENUM_LABEL_81 then ''ENUM_LABEL_81''
      else if e = VeryLargeEnum_ENUM_LABEL_82 then ''ENUM_LABEL_82''
      else if e = VeryLargeEnum_ENUM_LABEL_83 then ''ENUM_LABEL_83''
      else if e = VeryLargeEnum_ENUM_LABEL_84 then ''ENUM_LABEL_84''
      else if e = VeryLargeEnum_ENUM_LABEL_85 then ''ENUM_LABEL_85''
      else if e = VeryLargeEnum_ENUM_LABEL_86 then ''ENUM_LABEL_86''
      else if e = VeryLargeEnum_ENUM_LABEL_87 then ''ENUM_LABEL_87''
      else if e = VeryLargeEnum_ENUM_LABEL_88 then ''ENUM_LABEL_88''
      else if e = VeryLargeEnum_ENUM_LABEL_89 then ''ENUM_LABEL_89''
      else if e = VeryLargeEnum_ENUM_LABEL_90 then ''ENUM_LABEL_90''
      else if e = VeryLargeEnum_ENUM_LABEL_91 then ''ENUM_LABEL_91''
      else if e = VeryLargeEnum_ENUM_LABEL_92 then ''ENUM_LABEL_92''
      else if e = VeryLargeEnum_ENUM_LABEL_93 then ''ENUM_LABEL_93''
      else if e = VeryLargeEnum_ENUM_LABEL_94 then ''ENUM_LABEL_94''
      else if e = VeryLargeEnum_ENUM_LABEL_95 then ''ENUM_LABEL_95''
      else if e = VeryLargeEnum_ENUM_LABEL_96 then ''ENUM_LABEL_96''
      else if e = VeryLargeEnum_ENUM_LABEL_97 then ''ENUM_LABEL_97''
      else if e = VeryLargeEnum_ENUM_LABEL_98 then ''ENUM_LABEL_98''
      else if e = VeryLargeEnum_ENUM_LABEL_99 then ''ENUM_LABEL_99''
      else if e = VeryLargeEnum_ENUM_LABEL_100 then ''ENUM_LABEL_100''
      else '''')"

type_synonym ImportEnum = int32

definition ImportEnum_IMPORT_FOO :: ImportEnum where "ImportEnum_IMPORT_FOO = 7"
definition ImportEnum_IMPORT_BAR :: ImportEnum where "ImportEnum_IMPORT_BAR = 8"
definition ImportEnum_IMPORT_BAZ :: ImportEnum where "ImportEnum_IMPORT_BAZ = 9"

definition ImportEnum_String :: "ImportEnum \<Rightarrow> string" where
  "ImportEnum_String e =
     (if e = ImportEnum_IMPORT_FOO then ''IMPORT_FOO''
      else if e = ImportEnum_IMPORT_BAR then ''IMPORT_BAR''
      else if e = ImportEnum_IMPORT_BAZ then ''IMPORT_BAZ''
      else '''')"

type_synonym ImportEnumForMap = int32

definition ImportEnumForMap_UNKNOWN :: ImportEnumForMap where "ImportEnumForMap_UNKNOWN = 0"
definition ImportEnumForMap_FOO :: ImportEnumForMap where "ImportEnumForMap_FOO = 1"
definition ImportEnumForMap_BAR :: ImportEnumForMap where "ImportEnumForMap_BAR = 2"

definition ImportEnumForMap_String :: "ImportEnumForMap \<Rightarrow> string" where
  "ImportEnumForMap_String e =
     (if e = ImportEnumForMap_UNKNOWN then ''UNKNOWN''
      else if e = ImportEnumForMap_FOO then ''FOO''
      else if e = ImportEnumForMap_BAR then ''BAR''
      else '''')"

section \<open>ForeignMessage: the reader\<close>

definition wireForeignMessage_C :: ProtoWireNumber where "wireForeignMessage_C = 1"
definition wireForeignMessage_D :: ProtoWireNumber where "wireForeignMessage_D = 2"

lemmas wireForeignMessage =
  wireForeignMessage_C_def wireForeignMessage_D_def

record ForeignMessageReader =
  mbuf :: "Reader option"
  cellC :: "int32 one_cell"
  cellD :: "int32 one_cell"

definition NewForeignMessageReader :: ForeignMessageReader where
  "NewForeignMessageReader = \<lparr>
     mbuf = None, cellC = newCell 0 0, cellD = newCell 0 0\<rparr>"

definition ForeignMessageReader_readC :: "ForeignMessageReader \<Rightarrow> (int32 \<times> ForeignMessageReader) run" where
  "ForeignMessageReader_readC = readCell cellC cellC_update mbuf (readOne ReadInt32 0)"

definition ForeignMessageReader_GetC :: "ForeignMessageReader option \<Rightarrow> (int32 \<times> ForeignMessageReader option) run" where
  "ForeignMessageReader_GetC = getter ForeignMessageReader_readC 0"

definition ForeignMessageReader_readD :: "ForeignMessageReader \<Rightarrow> (int32 \<times> ForeignMessageReader) run" where
  "ForeignMessageReader_readD = readCell cellD cellD_update mbuf (readOne ReadInt32 0)"

definition ForeignMessageReader_GetD :: "ForeignMessageReader option \<Rightarrow> (int32 \<times> ForeignMessageReader option) run" where
  "ForeignMessageReader_GetD = getter ForeignMessageReader_readD 0"

lemmas ForeignMessage_getters =
  ForeignMessageReader_readC_def ForeignMessageReader_GetC_def
  ForeignMessageReader_readD_def ForeignMessageReader_GetD_def

definition ForeignMessageReader_cases :: "ProtoWireType \<Rightarrow> int \<Rightarrow> (ProtoWireNumber \<times> (ForeignMessageReader \<Rightarrow> ForeignMessageReader)) list" where
  "ForeignMessageReader_cases wire offset = [
     (wireForeignMessage_C, \<lambda>m. m\<lparr>cellC := onOffset (setOffset wire offset) (cellC m)\<rparr>),
     (wireForeignMessage_D, \<lambda>m. m\<lparr>cellD := onOffset (setOffset wire offset) (cellD m)\<rparr>)]"

definition ForeignMessageReader_save :: "ProtoWireNumber \<Rightarrow> ProtoWireType \<Rightarrow> int \<Rightarrow> ForeignMessageReader \<Rightarrow> ForeignMessageReader" where
  "ForeignMessageReader_save tag wire offset = tag_switch (ForeignMessageReader_cases wire offset) tag"

definition ForeignMessageReader_Unmarshal :: "ForeignMessageReader \<Rightarrow> gslice \<Rightarrow> (ForeignMessageReader \<times> string option) run" where
  "ForeignMessageReader_Unmarshal m data =
     unmarshalLoop ForeignMessageReader_save (NewReader data) 0 (m\<lparr>mbuf := Some (NewReader data)\<rparr>)"

definition ForeignMessageReader_SourceBytes :: "ForeignMessageReader option \<Rightarrow> gslice" where
  "ForeignMessageReader_SourceBytes s = (case s of None \<Rightarrow> nil_slice | Some r \<Rightarrow> Bytes (mbuf r))"

section \<open>ForeignMessage: the struct\<close>

record ForeignMessage =
  C' :: int32
  D' :: int32

definition ForeignMessage_zero :: ForeignMessage where
  "ForeignMessage_zero = \<lparr>
     C' = 0, D' = 0\<rparr>"

definition ForeignMessage_stmts :: "(ForeignMessage \<times> ForeignMessageReader option \<Rightarrow> (ForeignMessage \<times> ForeignMessageReader option) run) list" where
  "ForeignMessage_stmts = [
     assign ForeignMessageReader_GetC (\<lambda>v res. res\<lparr>C' := v\<rparr>),
     assign ForeignMessageReader_GetD (\<lambda>v res. res\<lparr>D' := v\<rparr>)]"

definition ForeignMessageReader_ToStruct :: "ForeignMessageReader option \<Rightarrow> (ForeignMessage option \<times> ForeignMessageReader option) run" where
  "ForeignMessageReader_ToStruct = toStructWith (ForeignMessage_stmts) ForeignMessage_zero"

definition ForeignMessage_appends :: "ForeignMessage \<Rightarrow> (Writer \<Rightarrow> Writer go) list" where
  "ForeignMessage_appends s = [
     \<lambda>res. if C' s \<noteq> 0 then AppendInt32 res wireForeignMessage_C (C' s) else Ret res,
     \<lambda>res. if D' s \<noteq> 0 then AppendInt32 res wireForeignMessage_D (D' s) else Ret res]"

definition ForeignMessage_MarshalTo :: "Writer \<Rightarrow> ForeignMessage option \<Rightarrow> Writer go" where
  "ForeignMessage_MarshalTo = marshalToWith (\<lambda>s. ForeignMessage_appends s)"

definition ForeignMessage_sizes :: "ForeignMessage \<Rightarrow> int list" where
  "ForeignMessage_sizes s = [
     if C' s \<noteq> 0 then sizeWithTag SizeInt32 wireForeignMessage_C (C' s) else 0,
     if D' s \<noteq> 0 then sizeWithTag SizeInt32 wireForeignMessage_D (D' s) else 0]"

definition ForeignMessage_XXX_PbContentSize :: "ForeignMessage option \<Rightarrow> int" where
  "ForeignMessage_XXX_PbContentSize = contentSizeWith (\<lambda>s. ForeignMessage_sizes s)"

definition ForeignMessage_Marshal :: "ForeignMessage option \<Rightarrow> byte list go" where
  "ForeignMessage_Marshal = marshalWith ForeignMessage_XXX_PbContentSize ForeignMessage_MarshalTo"

definition ForeignMessage_Copy :: "ForeignMessage option \<Rightarrow> ForeignMessage option" where
  "ForeignMessage_Copy s =
     (case s of None \<Rightarrow> None | Some s \<Rightarrow> Some \<lparr>
        C' = C' s, D' = D' s\<rparr>)"

section \<open>ForeignMessage: the round trip\<close>

definition ForeignMessage_tags :: "ProtoWireNumber list" where
  "ForeignMessage_tags = [
     wireForeignMessage_C, wireForeignMessage_D]"

definition ForeignMessage_groups :: "ForeignMessage \<Rightarrow> wfield list list" where
  "ForeignMessage_groups s = [
     opt_field (C' s \<noteq> 0) (wireForeignMessage_C, int32_val (C' s)),
     opt_field (D' s \<noteq> 0) (wireForeignMessage_D, int32_val (D' s))]"

definition ForeignMessage_content :: "ForeignMessage \<Rightarrow> wfield list" where
  "ForeignMessage_content s = concat (ForeignMessage_groups s)"

text \<open>What a round trip keeps.\<close>

definition ForeignMessage_norm :: "ForeignMessage \<Rightarrow> ForeignMessage" where
  "ForeignMessage_norm s = s"

definition ForeignMessage_ready :: "Reader \<Rightarrow> ForeignMessage \<Rightarrow> (ForeignMessageReader \<Rightarrow> bool) list" where
  "ForeignMessage_ready p s = [
     \<lambda>m. cell_reads (readOne ReadInt32 0) plain p (if C' s \<noteq> 0 then C' s else 0) (cellC m),
     \<lambda>m. cell_reads (readOne ReadInt32 0) plain p (if D' s \<noteq> 0 then D' s else 0) (cellD m)]"

definition ForeignMessage_stored :: "ForeignMessage \<Rightarrow> (ForeignMessage \<Rightarrow> ForeignMessage) list" where
  "ForeignMessage_stored s = [
     \<lambda>res. res\<lparr>C' := if C' s \<noteq> 0 then C' s else 0\<rparr>,
     \<lambda>res. res\<lparr>D' := if D' s \<noteq> 0 then D' s else 0\<rparr>]"

lemma ForeignMessage_cases_distinct: "distinct (map fst (ForeignMessageReader_cases wire offset))"
  by (rule ascending_distinct) (simp add: ForeignMessageReader_cases_def wireForeignMessage)

lemma ForeignMessage_stores:
  "stores_cell ForeignMessageReader_save wireForeignMessage_C setOffset cellC"
  "stores_cell ForeignMessageReader_save wireForeignMessage_D setOffset cellD"
  unfolding ForeignMessageReader_save_def [abs_def] by (rule stores_cell_switch; (rule ForeignMessage_cases_distinct)?; unfold ForeignMessageReader_cases_def; intro own_case.intros; simp)+

lemma ForeignMessage_saved: "good_fields ForeignMessageReader_save p (NewForeignMessageReader\<lparr>mbuf := Some p\<rparr>) ForeignMessage_tags (ForeignMessage_groups s) (ForeignMessage_ready p s)"
  unfolding ForeignMessage_tags_def ForeignMessage_groups_def ForeignMessage_ready_def
  by (intro good_fields.intros field_saved ForeignMessage_stores) (simp_all add: NewForeignMessageReader_def newCell_def)

lemma ForeignMessage_converted: "good_stmts mbuf p (ForeignMessage_stmts) (ForeignMessage_ready p s) (ForeignMessage_stored s)"
  unfolding ForeignMessage_stmts_def ForeignMessage_ready_def ForeignMessage_stored_def ForeignMessage_getters append.simps
  by (intro good_stmts_field good_stmts.Nil) (simp_all cong: cell_reads_cong)

interpretation l_ForeignMessage: lazy_message ForeignMessage_tags ForeignMessage_groups ForeignMessage_norm
  "\<lambda>s. ForeignMessage_sizes s" "\<lambda>s. ForeignMessage_appends s"
  ForeignMessageReader_save "\<lambda>p. NewForeignMessageReader\<lparr>mbuf := Some p\<rparr>" mbuf "ForeignMessage_stmts" ForeignMessage_zero ForeignMessage_ready ForeignMessage_stored
proof
  show "distinct ForeignMessage_tags"
    using ForeignMessage_cases_distinct by (simp only: ForeignMessageReader_cases_def ForeignMessage_tags_def list.map fst_conv)
  show "list_all valid_tag ForeignMessage_tags"
    by (simp add: ForeignMessage_tags_def wireForeignMessage valid_tag_def)
  show "list_all2 (\<lambda>t g. \<forall>f \<in> set g. fst f = t \<and> wf_val (snd f)) ForeignMessage_tags (ForeignMessage_groups s)" for s
    unfolding ForeignMessage_tags_def ForeignMessage_groups_def by (intro list.rel_intros field_tagged)
  show "list_all2 (\<lambda>e g. e = int (length (fields_bytes g))) (ForeignMessage_sizes s) (ForeignMessage_groups s)" for s
    unfolding ForeignMessage_sizes_def ForeignMessage_groups_def append.simps
    by (intro list.rel_intros field_sized)
  show "list_all2 (\<lambda>st g. writes st (fields_bytes g)) (ForeignMessage_appends s) (ForeignMessage_groups s)" for s
    unfolding ForeignMessage_appends_def ForeignMessage_groups_def append.simps
    by (intro list.rel_intros field_written)
  show "mbuf (ForeignMessageReader_save t w off m) = mbuf m" for t w off m
    unfolding ForeignMessageReader_save_def by (rule tag_switch_keeps) (simp add: ForeignMessageReader_cases_def)
  show "fold (\<lambda>e. e) (ForeignMessage_stored s) ForeignMessage_zero = ForeignMessage_norm s" for s
    unfolding ForeignMessage_stored_def by (simp add: ForeignMessage_zero_def ForeignMessage_norm_def float_defaults)
qed (simp_all add: ForeignMessage_saved ForeignMessage_converted)

interpretation m_ForeignMessage: message_codec ForeignMessage_content ForeignMessage_norm ForeignMessage_XXX_PbContentSize ForeignMessage_MarshalTo
  "ForeignMessageReader_Unmarshal NewForeignMessageReader" ForeignMessageReader_ToStruct
  using l_ForeignMessage.message
  by (simp only: ForeignMessage_content_def [abs_def] ForeignMessage_XXX_PbContentSize_def ForeignMessage_MarshalTo_def ForeignMessageReader_Unmarshal_def [abs_def] ForeignMessageReader_ToStruct_def)


section \<open>TestAllTypes_NestedMessage: the reader\<close>

definition wireTestAllTypes_NestedMessage_Bb :: ProtoWireNumber where "wireTestAllTypes_NestedMessage_Bb = 1"

lemmas wireTestAllTypes_NestedMessage =
  wireTestAllTypes_NestedMessage_Bb_def

record TestAllTypes_NestedMessageReader =
  mbuf :: "Reader option"
  cellBb :: "int32 one_cell"

definition NewTestAllTypes_NestedMessageReader :: TestAllTypes_NestedMessageReader where
  "NewTestAllTypes_NestedMessageReader = \<lparr>
     mbuf = None, cellBb = newCell 0 0\<rparr>"

definition TestAllTypes_NestedMessageReader_readBb :: "TestAllTypes_NestedMessageReader \<Rightarrow> (int32 \<times> TestAllTypes_NestedMessageReader) run" where
  "TestAllTypes_NestedMessageReader_readBb = readCell cellBb cellBb_update mbuf (readOne ReadInt32 0)"

definition TestAllTypes_NestedMessageReader_GetBb :: "TestAllTypes_NestedMessageReader option \<Rightarrow> (int32 \<times> TestAllTypes_NestedMessageReader option) run" where
  "TestAllTypes_NestedMessageReader_GetBb = getter TestAllTypes_NestedMessageReader_readBb 0"

lemmas TestAllTypes_NestedMessage_getters =
  TestAllTypes_NestedMessageReader_readBb_def TestAllTypes_NestedMessageReader_GetBb_def

definition TestAllTypes_NestedMessageReader_cases :: "ProtoWireType \<Rightarrow> int \<Rightarrow> (ProtoWireNumber \<times> (TestAllTypes_NestedMessageReader \<Rightarrow> TestAllTypes_NestedMessageReader)) list" where
  "TestAllTypes_NestedMessageReader_cases wire offset = [
     (wireTestAllTypes_NestedMessage_Bb, \<lambda>m. m\<lparr>cellBb := onOffset (setOffset wire offset) (cellBb m)\<rparr>)]"

definition TestAllTypes_NestedMessageReader_save :: "ProtoWireNumber \<Rightarrow> ProtoWireType \<Rightarrow> int \<Rightarrow> TestAllTypes_NestedMessageReader \<Rightarrow> TestAllTypes_NestedMessageReader" where
  "TestAllTypes_NestedMessageReader_save tag wire offset = tag_switch (TestAllTypes_NestedMessageReader_cases wire offset) tag"

definition TestAllTypes_NestedMessageReader_Unmarshal :: "TestAllTypes_NestedMessageReader \<Rightarrow> gslice \<Rightarrow> (TestAllTypes_NestedMessageReader \<times> string option) run" where
  "TestAllTypes_NestedMessageReader_Unmarshal m data =
     unmarshalLoop TestAllTypes_NestedMessageReader_save (NewReader data) 0 (m\<lparr>mbuf := Some (NewReader data)\<rparr>)"

definition TestAllTypes_NestedMessageReader_SourceBytes :: "TestAllTypes_NestedMessageReader option \<Rightarrow> gslice" where
  "TestAllTypes_NestedMessageReader_SourceBytes s = (case s of None \<Rightarrow> nil_slice | Some r \<Rightarrow> Bytes (mbuf r))"

section \<open>TestAllTypes_NestedMessage: the struct\<close>

record TestAllTypes_NestedMessage =
  Bb :: int32

definition TestAllTypes_NestedMessage_zero :: TestAllTypes_NestedMessage where
  "TestAllTypes_NestedMessage_zero = \<lparr>
     Bb = 0\<rparr>"

definition TestAllTypes_NestedMessage_stmts :: "(TestAllTypes_NestedMessage \<times> TestAllTypes_NestedMessageReader option \<Rightarrow> (TestAllTypes_NestedMessage \<times> TestAllTypes_NestedMessageReader option) run) list" where
  "TestAllTypes_NestedMessage_stmts = [
     assign TestAllTypes_NestedMessageReader_GetBb (\<lambda>v res. res\<lparr>Bb := v\<rparr>)]"

definition TestAllTypes_NestedMessageReader_ToStruct :: "TestAllTypes_NestedMessageReader option \<Rightarrow> (TestAllTypes_NestedMessage option \<times> TestAllTypes_NestedMessageReader option) run" where
  "TestAllTypes_NestedMessageReader_ToStruct = toStructWith (TestAllTypes_NestedMessage_stmts) TestAllTypes_NestedMessage_zero"

definition TestAllTypes_NestedMessage_appends :: "TestAllTypes_NestedMessage \<Rightarrow> (Writer \<Rightarrow> Writer go) list" where
  "TestAllTypes_NestedMessage_appends s = [
     \<lambda>res. if Bb s \<noteq> 0 then AppendInt32 res wireTestAllTypes_NestedMessage_Bb (Bb s) else Ret res]"

definition TestAllTypes_NestedMessage_MarshalTo :: "Writer \<Rightarrow> TestAllTypes_NestedMessage option \<Rightarrow> Writer go" where
  "TestAllTypes_NestedMessage_MarshalTo = marshalToWith (\<lambda>s. TestAllTypes_NestedMessage_appends s)"

definition TestAllTypes_NestedMessage_sizes :: "TestAllTypes_NestedMessage \<Rightarrow> int list" where
  "TestAllTypes_NestedMessage_sizes s = [
     if Bb s \<noteq> 0 then sizeWithTag SizeInt32 wireTestAllTypes_NestedMessage_Bb (Bb s) else 0]"

definition TestAllTypes_NestedMessage_XXX_PbContentSize :: "TestAllTypes_NestedMessage option \<Rightarrow> int" where
  "TestAllTypes_NestedMessage_XXX_PbContentSize = contentSizeWith (\<lambda>s. TestAllTypes_NestedMessage_sizes s)"

definition TestAllTypes_NestedMessage_Marshal :: "TestAllTypes_NestedMessage option \<Rightarrow> byte list go" where
  "TestAllTypes_NestedMessage_Marshal = marshalWith TestAllTypes_NestedMessage_XXX_PbContentSize TestAllTypes_NestedMessage_MarshalTo"

definition TestAllTypes_NestedMessage_Copy :: "TestAllTypes_NestedMessage option \<Rightarrow> TestAllTypes_NestedMessage option" where
  "TestAllTypes_NestedMessage_Copy s =
     (case s of None \<Rightarrow> None | Some s \<Rightarrow> Some \<lparr>
        Bb = Bb s\<rparr>)"

section \<open>TestAllTypes_NestedMessage: the round trip\<close>

definition TestAllTypes_NestedMessage_tags :: "ProtoWireNumber list" where
  "TestAllTypes_NestedMessage_tags = [
     wireTestAllTypes_NestedMessage_Bb]"

definition TestAllTypes_NestedMessage_groups :: "TestAllTypes_NestedMessage \<Rightarrow> wfield list list" where
  "TestAllTypes_NestedMessage_groups s = [
     opt_field (Bb s \<noteq> 0) (wireTestAllTypes_NestedMessage_Bb, int32_val (Bb s))]"

definition TestAllTypes_NestedMessage_content :: "TestAllTypes_NestedMessage \<Rightarrow> wfield list" where
  "TestAllTypes_NestedMessage_content s = concat (TestAllTypes_NestedMessage_groups s)"

text \<open>What a round trip keeps.\<close>

definition TestAllTypes_NestedMessage_norm :: "TestAllTypes_NestedMessage \<Rightarrow> TestAllTypes_NestedMessage" where
  "TestAllTypes_NestedMessage_norm s = s"

definition TestAllTypes_NestedMessage_ready :: "Reader \<Rightarrow> TestAllTypes_NestedMessage \<Rightarrow> (TestAllTypes_NestedMessageReader \<Rightarrow> bool) list" where
  "TestAllTypes_NestedMessage_ready p s = [
     \<lambda>m. cell_reads (readOne ReadInt32 0) plain p (if Bb s \<noteq> 0 then Bb s else 0) (cellBb m)]"

definition TestAllTypes_NestedMessage_stored :: "TestAllTypes_NestedMessage \<Rightarrow> (TestAllTypes_NestedMessage \<Rightarrow> TestAllTypes_NestedMessage) list" where
  "TestAllTypes_NestedMessage_stored s = [
     \<lambda>res. res\<lparr>Bb := if Bb s \<noteq> 0 then Bb s else 0\<rparr>]"

lemma TestAllTypes_NestedMessage_cases_distinct: "distinct (map fst (TestAllTypes_NestedMessageReader_cases wire offset))"
  by (rule ascending_distinct) (simp add: TestAllTypes_NestedMessageReader_cases_def wireTestAllTypes_NestedMessage)

lemma TestAllTypes_NestedMessage_stores:
  "stores_cell TestAllTypes_NestedMessageReader_save wireTestAllTypes_NestedMessage_Bb setOffset cellBb"
  unfolding TestAllTypes_NestedMessageReader_save_def [abs_def] by (rule stores_cell_switch; (rule TestAllTypes_NestedMessage_cases_distinct)?; unfold TestAllTypes_NestedMessageReader_cases_def; intro own_case.intros; simp)+

lemma TestAllTypes_NestedMessage_saved: "good_fields TestAllTypes_NestedMessageReader_save p (NewTestAllTypes_NestedMessageReader\<lparr>mbuf := Some p\<rparr>) TestAllTypes_NestedMessage_tags (TestAllTypes_NestedMessage_groups s) (TestAllTypes_NestedMessage_ready p s)"
  unfolding TestAllTypes_NestedMessage_tags_def TestAllTypes_NestedMessage_groups_def TestAllTypes_NestedMessage_ready_def
  by (intro good_fields.intros field_saved TestAllTypes_NestedMessage_stores) (simp_all add: NewTestAllTypes_NestedMessageReader_def newCell_def)

lemma TestAllTypes_NestedMessage_converted: "good_stmts mbuf p (TestAllTypes_NestedMessage_stmts) (TestAllTypes_NestedMessage_ready p s) (TestAllTypes_NestedMessage_stored s)"
  unfolding TestAllTypes_NestedMessage_stmts_def TestAllTypes_NestedMessage_ready_def TestAllTypes_NestedMessage_stored_def TestAllTypes_NestedMessage_getters append.simps
  by (intro good_stmts_field good_stmts.Nil) (simp_all cong: cell_reads_cong)

interpretation l_TestAllTypes_NestedMessage: lazy_message TestAllTypes_NestedMessage_tags TestAllTypes_NestedMessage_groups TestAllTypes_NestedMessage_norm
  "\<lambda>s. TestAllTypes_NestedMessage_sizes s" "\<lambda>s. TestAllTypes_NestedMessage_appends s"
  TestAllTypes_NestedMessageReader_save "\<lambda>p. NewTestAllTypes_NestedMessageReader\<lparr>mbuf := Some p\<rparr>" mbuf "TestAllTypes_NestedMessage_stmts" TestAllTypes_NestedMessage_zero TestAllTypes_NestedMessage_ready TestAllTypes_NestedMessage_stored
proof
  show "distinct TestAllTypes_NestedMessage_tags"
    using TestAllTypes_NestedMessage_cases_distinct by (simp only: TestAllTypes_NestedMessageReader_cases_def TestAllTypes_NestedMessage_tags_def list.map fst_conv)
  show "list_all valid_tag TestAllTypes_NestedMessage_tags"
    by (simp add: TestAllTypes_NestedMessage_tags_def wireTestAllTypes_NestedMessage valid_tag_def)
  show "list_all2 (\<lambda>t g. \<forall>f \<in> set g. fst f = t \<and> wf_val (snd f)) TestAllTypes_NestedMessage_tags (TestAllTypes_NestedMessage_groups s)" for s
    unfolding TestAllTypes_NestedMessage_tags_def TestAllTypes_NestedMessage_groups_def by (intro list.rel_intros field_tagged)
  show "list_all2 (\<lambda>e g. e = int (length (fields_bytes g))) (TestAllTypes_NestedMessage_sizes s) (TestAllTypes_NestedMessage_groups s)" for s
    unfolding TestAllTypes_NestedMessage_sizes_def TestAllTypes_NestedMessage_groups_def append.simps
    by (intro list.rel_intros field_sized)
  show "list_all2 (\<lambda>st g. writes st (fields_bytes g)) (TestAllTypes_NestedMessage_appends s) (TestAllTypes_NestedMessage_groups s)" for s
    unfolding TestAllTypes_NestedMessage_appends_def TestAllTypes_NestedMessage_groups_def append.simps
    by (intro list.rel_intros field_written)
  show "mbuf (TestAllTypes_NestedMessageReader_save t w off m) = mbuf m" for t w off m
    unfolding TestAllTypes_NestedMessageReader_save_def by (rule tag_switch_keeps) (simp add: TestAllTypes_NestedMessageReader_cases_def)
  show "fold (\<lambda>e. e) (TestAllTypes_NestedMessage_stored s) TestAllTypes_NestedMessage_zero = TestAllTypes_NestedMessage_norm s" for s
    unfolding TestAllTypes_NestedMessage_stored_def by (simp add: TestAllTypes_NestedMessage_zero_def TestAllTypes_NestedMessage_norm_def float_defaults)
qed (simp_all add: TestAllTypes_NestedMessage_saved TestAllTypes_NestedMessage_converted)

interpretation m_TestAllTypes_NestedMessage: message_codec TestAllTypes_NestedMessage_content TestAllTypes_NestedMessage_norm TestAllTypes_NestedMessage_XXX_PbContentSize TestAllTypes_NestedMessage_MarshalTo
  "TestAllTypes_NestedMessageReader_Unmarshal NewTestAllTypes_NestedMessageReader" TestAllTypes_NestedMessageReader_ToStruct
  using l_TestAllTypes_NestedMessage.message
  by (simp only: TestAllTypes_NestedMessage_content_def [abs_def] TestAllTypes_NestedMessage_XXX_PbContentSize_def TestAllTypes_NestedMessage_MarshalTo_def TestAllTypes_NestedMessageReader_Unmarshal_def [abs_def] TestAllTypes_NestedMessageReader_ToStruct_def)


section \<open>ImportMessage: the reader\<close>

definition wireImportMessage_D :: ProtoWireNumber where "wireImportMessage_D = 1"

lemmas wireImportMessage =
  wireImportMessage_D_def

record ImportMessageReader =
  mbuf :: "Reader option"
  cellD :: "int32 one_cell"

definition NewImportMessageReader :: ImportMessageReader where
  "NewImportMessageReader = \<lparr>
     mbuf = None, cellD = newCell 0 0\<rparr>"

definition ImportMessageReader_readD :: "ImportMessageReader \<Rightarrow> (int32 \<times> ImportMessageReader) run" where
  "ImportMessageReader_readD = readCell cellD cellD_update mbuf (readOne ReadInt32 0)"

definition ImportMessageReader_GetD :: "ImportMessageReader option \<Rightarrow> (int32 \<times> ImportMessageReader option) run" where
  "ImportMessageReader_GetD = getter ImportMessageReader_readD 0"

lemmas ImportMessage_getters =
  ImportMessageReader_readD_def ImportMessageReader_GetD_def

definition ImportMessageReader_cases :: "ProtoWireType \<Rightarrow> int \<Rightarrow> (ProtoWireNumber \<times> (ImportMessageReader \<Rightarrow> ImportMessageReader)) list" where
  "ImportMessageReader_cases wire offset = [
     (wireImportMessage_D, \<lambda>m. m\<lparr>cellD := onOffset (setOffset wire offset) (cellD m)\<rparr>)]"

definition ImportMessageReader_save :: "ProtoWireNumber \<Rightarrow> ProtoWireType \<Rightarrow> int \<Rightarrow> ImportMessageReader \<Rightarrow> ImportMessageReader" where
  "ImportMessageReader_save tag wire offset = tag_switch (ImportMessageReader_cases wire offset) tag"

definition ImportMessageReader_Unmarshal :: "ImportMessageReader \<Rightarrow> gslice \<Rightarrow> (ImportMessageReader \<times> string option) run" where
  "ImportMessageReader_Unmarshal m data =
     unmarshalLoop ImportMessageReader_save (NewReader data) 0 (m\<lparr>mbuf := Some (NewReader data)\<rparr>)"

definition ImportMessageReader_SourceBytes :: "ImportMessageReader option \<Rightarrow> gslice" where
  "ImportMessageReader_SourceBytes s = (case s of None \<Rightarrow> nil_slice | Some r \<Rightarrow> Bytes (mbuf r))"

section \<open>ImportMessage: the struct\<close>

record ImportMessage =
  D' :: int32

definition ImportMessage_zero :: ImportMessage where
  "ImportMessage_zero = \<lparr>
     D' = 0\<rparr>"

definition ImportMessage_stmts :: "(ImportMessage \<times> ImportMessageReader option \<Rightarrow> (ImportMessage \<times> ImportMessageReader option) run) list" where
  "ImportMessage_stmts = [
     assign ImportMessageReader_GetD (\<lambda>v res. res\<lparr>D' := v\<rparr>)]"

definition ImportMessageReader_ToStruct :: "ImportMessageReader option \<Rightarrow> (ImportMessage option \<times> ImportMessageReader option) run" where
  "ImportMessageReader_ToStruct = toStructWith (ImportMessage_stmts) ImportMessage_zero"

definition ImportMessage_appends :: "ImportMessage \<Rightarrow> (Writer \<Rightarrow> Writer go) list" where
  "ImportMessage_appends s = [
     \<lambda>res. if D' s \<noteq> 0 then AppendInt32 res wireImportMessage_D (D' s) else Ret res]"

definition ImportMessage_MarshalTo :: "Writer \<Rightarrow> ImportMessage option \<Rightarrow> Writer go" where
  "ImportMessage_MarshalTo = marshalToWith (\<lambda>s. ImportMessage_appends s)"

definition ImportMessage_sizes :: "ImportMessage \<Rightarrow> int list" where
  "ImportMessage_sizes s = [
     if D' s \<noteq> 0 then sizeWithTag SizeInt32 wireImportMessage_D (D' s) else 0]"

definition ImportMessage_XXX_PbContentSize :: "ImportMessage option \<Rightarrow> int" where
  "ImportMessage_XXX_PbContentSize = contentSizeWith (\<lambda>s. ImportMessage_sizes s)"

definition ImportMessage_Marshal :: "ImportMessage option \<Rightarrow> byte list go" where
  "ImportMessage_Marshal = marshalWith ImportMessage_XXX_PbContentSize ImportMessage_MarshalTo"

definition ImportMessage_Copy :: "ImportMessage option \<Rightarrow> ImportMessage option" where
  "ImportMessage_Copy s =
     (case s of None \<Rightarrow> None | Some s \<Rightarrow> Some \<lparr>
        D' = D' s\<rparr>)"

section \<open>ImportMessage: the round trip\<close>

definition ImportMessage_tags :: "ProtoWireNumber list" where
  "ImportMessage_tags = [
     wireImportMessage_D]"

definition ImportMessage_groups :: "ImportMessage \<Rightarrow> wfield list list" where
  "ImportMessage_groups s = [
     opt_field (D' s \<noteq> 0) (wireImportMessage_D, int32_val (D' s))]"

definition ImportMessage_content :: "ImportMessage \<Rightarrow> wfield list" where
  "ImportMessage_content s = concat (ImportMessage_groups s)"

text \<open>What a round trip keeps.\<close>

definition ImportMessage_norm :: "ImportMessage \<Rightarrow> ImportMessage" where
  "ImportMessage_norm s = s"

definition ImportMessage_ready :: "Reader \<Rightarrow> ImportMessage \<Rightarrow> (ImportMessageReader \<Rightarrow> bool) list" where
  "ImportMessage_ready p s = [
     \<lambda>m. cell_reads (readOne ReadInt32 0) plain p (if D' s \<noteq> 0 then D' s else 0) (cellD m)]"

definition ImportMessage_stored :: "ImportMessage \<Rightarrow> (ImportMessage \<Rightarrow> ImportMessage) list" where
  "ImportMessage_stored s = [
     \<lambda>res. res\<lparr>D' := if D' s \<noteq> 0 then D' s else 0\<rparr>]"

lemma ImportMessage_cases_distinct: "distinct (map fst (ImportMessageReader_cases wire offset))"
  by (rule ascending_distinct) (simp add: ImportMessageReader_cases_def wireImportMessage)

lemma ImportMessage_stores:
  "stores_cell ImportMessageReader_save wireImportMessage_D setOffset cellD"
  unfolding ImportMessageReader_save_def [abs_def] by (rule stores_cell_switch; (rule ImportMessage_cases_distinct)?; unfold ImportMessageReader_cases_def; intro own_case.intros; simp)+

lemma ImportMessage_saved: "good_fields ImportMessageReader_save p (NewImportMessageReader\<lparr>mbuf := Some p\<rparr>) ImportMessage_tags (ImportMessage_groups s) (ImportMessage_ready p s)"
  unfolding ImportMessage_tags_def ImportMessage_groups_def ImportMessage_ready_def
  by (intro good_fields.intros field_saved ImportMessage_stores) (simp_all add: NewImportMessageReader_def newCell_def)

lemma ImportMessage_converted: "good_stmts mbuf p (ImportMessage_stmts) (ImportMessage_ready p s) (ImportMessage_stored s)"
  unfolding ImportMessage_stmts_def ImportMessage_ready_def ImportMessage_stored_def ImportMessage_getters append.simps
  by (intro good_stmts_field good_stmts.Nil) (simp_all cong: cell_reads_cong)

interpretation l_ImportMessage: lazy_message ImportMessage_tags ImportMessage_groups ImportMessage_norm
  "\<lambda>s. ImportMessage_sizes s" "\<lambda>s. ImportMessage_appends s"
  ImportMessageReader_save "\<lambda>p. NewImportMessageReader\<lparr>mbuf := Some p\<rparr>" mbuf "ImportMessage_stmts" ImportMessage_zero ImportMessage_ready ImportMessage_stored
proof
  show "distinct ImportMessage_tags"
    using ImportMessage_cases_distinct by (simp only: ImportMessageReader_cases_def ImportMessage_tags_def list.map fst_conv)
  show "list_all valid_tag ImportMessage_tags"
    by (simp add: ImportMessage_tags_def wireImportMessage valid_tag_def)
  show "list_all2 (\<lambda>t g. \<forall>f \<in> set g. fst f = t \<and> wf_val (snd f)) ImportMessage_tags (ImportMessage_groups s)" for s
    unfolding ImportMessage_tags_def ImportMessage_groups_def by (intro list.rel_intros field_tagged)
  show "list_all2 (\<lambda>e g. e = int (length (fields_bytes g))) (ImportMessage_sizes s) (ImportMessage_groups s)" for s
    unfolding ImportMessage_sizes_def ImportMessage_groups_def append.simps
    by (intro list.rel_intros field_sized)
  show "list_all2 (\<lambda>st g. writes st (fields_bytes g)) (ImportMessage_appends s) (ImportMessage_groups s)" for s
    unfolding ImportMessage_appends_def ImportMessage_groups_def append.simps
    by (intro list.rel_intros field_written)
  show "mbuf (ImportMessageReader_save t w off m) = mbuf m" for t w off m
    unfolding ImportMessageReader_save_def by (rule tag_switch_keeps) (simp add: ImportMessageReader_cases_def)
  show "fold (\<lambda>e. e) (ImportMessage_stored s) ImportMessage_zero = ImportMessage_norm s" for s
    unfolding ImportMessage_stored_def by (simp add: ImportMessage_zero_def ImportMessage_norm_def float_defaults)
qed (simp_all add: ImportMessage_saved ImportMessage_converted)

interpretation m_ImportMessage: message_codec ImportMessage_content ImportMessage_norm ImportMessage_XXX_PbContentSize ImportMessage_MarshalTo
  "ImportMessageReader_Unmarshal NewImportMessageReader" ImportMessageReader_ToStruct
  using l_ImportMessage.message
  by (simp only: ImportMessage_content_def [abs_def] ImportMessage_XXX_PbContentSize_def ImportMessage_MarshalTo_def ImportMessageReader_Unmarshal_def [abs_def] ImportMessageReader_ToStruct_def)


section \<open>PublicImportMessage: the reader\<close>

definition wirePublicImportMessage_E :: ProtoWireNumber where "wirePublicImportMessage_E = 1"

lemmas wirePublicImportMessage =
  wirePublicImportMessage_E_def

record PublicImportMessageReader =
  mbuf :: "Reader option"
  cellE :: "int32 one_cell"

definition NewPublicImportMessageReader :: PublicImportMessageReader where
  "NewPublicImportMessageReader = \<lparr>
     mbuf = None, cellE = newCell 0 0\<rparr>"

definition PublicImportMessageReader_readE :: "PublicImportMessageReader \<Rightarrow> (int32 \<times> PublicImportMessageReader) run" where
  "PublicImportMessageReader_readE = readCell cellE cellE_update mbuf (readOne ReadInt32 0)"

definition PublicImportMessageReader_GetE :: "PublicImportMessageReader option \<Rightarrow> (int32 \<times> PublicImportMessageReader option) run" where
  "PublicImportMessageReader_GetE = getter PublicImportMessageReader_readE 0"

lemmas PublicImportMessage_getters =
  PublicImportMessageReader_readE_def PublicImportMessageReader_GetE_def

definition PublicImportMessageReader_cases :: "ProtoWireType \<Rightarrow> int \<Rightarrow> (ProtoWireNumber \<times> (PublicImportMessageReader \<Rightarrow> PublicImportMessageReader)) list" where
  "PublicImportMessageReader_cases wire offset = [
     (wirePublicImportMessage_E, \<lambda>m. m\<lparr>cellE := onOffset (setOffset wire offset) (cellE m)\<rparr>)]"

definition PublicImportMessageReader_save :: "ProtoWireNumber \<Rightarrow> ProtoWireType \<Rightarrow> int \<Rightarrow> PublicImportMessageReader \<Rightarrow> PublicImportMessageReader" where
  "PublicImportMessageReader_save tag wire offset = tag_switch (PublicImportMessageReader_cases wire offset) tag"

definition PublicImportMessageReader_Unmarshal :: "PublicImportMessageReader \<Rightarrow> gslice \<Rightarrow> (PublicImportMessageReader \<times> string option) run" where
  "PublicImportMessageReader_Unmarshal m data =
     unmarshalLoop PublicImportMessageReader_save (NewReader data) 0 (m\<lparr>mbuf := Some (NewReader data)\<rparr>)"

definition PublicImportMessageReader_SourceBytes :: "PublicImportMessageReader option \<Rightarrow> gslice" where
  "PublicImportMessageReader_SourceBytes s = (case s of None \<Rightarrow> nil_slice | Some r \<Rightarrow> Bytes (mbuf r))"

section \<open>PublicImportMessage: the struct\<close>

record PublicImportMessage =
  E' :: int32

definition PublicImportMessage_zero :: PublicImportMessage where
  "PublicImportMessage_zero = \<lparr>
     E' = 0\<rparr>"

definition PublicImportMessage_stmts :: "(PublicImportMessage \<times> PublicImportMessageReader option \<Rightarrow> (PublicImportMessage \<times> PublicImportMessageReader option) run) list" where
  "PublicImportMessage_stmts = [
     assign PublicImportMessageReader_GetE (\<lambda>v res. res\<lparr>E' := v\<rparr>)]"

definition PublicImportMessageReader_ToStruct :: "PublicImportMessageReader option \<Rightarrow> (PublicImportMessage option \<times> PublicImportMessageReader option) run" where
  "PublicImportMessageReader_ToStruct = toStructWith (PublicImportMessage_stmts) PublicImportMessage_zero"

definition PublicImportMessage_appends :: "PublicImportMessage \<Rightarrow> (Writer \<Rightarrow> Writer go) list" where
  "PublicImportMessage_appends s = [
     \<lambda>res. if E' s \<noteq> 0 then AppendInt32 res wirePublicImportMessage_E (E' s) else Ret res]"

definition PublicImportMessage_MarshalTo :: "Writer \<Rightarrow> PublicImportMessage option \<Rightarrow> Writer go" where
  "PublicImportMessage_MarshalTo = marshalToWith (\<lambda>s. PublicImportMessage_appends s)"

definition PublicImportMessage_sizes :: "PublicImportMessage \<Rightarrow> int list" where
  "PublicImportMessage_sizes s = [
     if E' s \<noteq> 0 then sizeWithTag SizeInt32 wirePublicImportMessage_E (E' s) else 0]"

definition PublicImportMessage_XXX_PbContentSize :: "PublicImportMessage option \<Rightarrow> int" where
  "PublicImportMessage_XXX_PbContentSize = contentSizeWith (\<lambda>s. PublicImportMessage_sizes s)"

definition PublicImportMessage_Marshal :: "PublicImportMessage option \<Rightarrow> byte list go" where
  "PublicImportMessage_Marshal = marshalWith PublicImportMessage_XXX_PbContentSize PublicImportMessage_MarshalTo"

definition PublicImportMessage_Copy :: "PublicImportMessage option \<Rightarrow> PublicImportMessage option" where
  "PublicImportMessage_Copy s =
     (case s of None \<Rightarrow> None | Some s \<Rightarrow> Some \<lparr>
        E' = E' s\<rparr>)"

section \<open>PublicImportMessage: the round trip\<close>

definition PublicImportMessage_tags :: "ProtoWireNumber list" where
  "PublicImportMessage_tags = [
     wirePublicImportMessage_E]"

definition PublicImportMessage_groups :: "PublicImportMessage \<Rightarrow> wfield list list" where
  "PublicImportMessage_groups s = [
     opt_field (E' s \<noteq> 0) (wirePublicImportMessage_E, int32_val (E' s))]"

definition PublicImportMessage_content :: "PublicImportMessage \<Rightarrow> wfield list" where
  "PublicImportMessage_content s = concat (PublicImportMessage_groups s)"

text \<open>What a round trip keeps.\<close>

definition PublicImportMessage_norm :: "PublicImportMessage \<Rightarrow> PublicImportMessage" where
  "PublicImportMessage_norm s = s"

definition PublicImportMessage_ready :: "Reader \<Rightarrow> PublicImportMessage \<Rightarrow> (PublicImportMessageReader \<Rightarrow> bool) list" where
  "PublicImportMessage_ready p s = [
     \<lambda>m. cell_reads (readOne ReadInt32 0) plain p (if E' s \<noteq> 0 then E' s else 0) (cellE m)]"

definition PublicImportMessage_stored :: "PublicImportMessage \<Rightarrow> (PublicImportMessage \<Rightarrow> PublicImportMessage) list" where
  "PublicImportMessage_stored s = [
     \<lambda>res. res\<lparr>E' := if E' s \<noteq> 0 then E' s else 0\<rparr>]"

lemma PublicImportMessage_cases_distinct: "distinct (map fst (PublicImportMessageReader_cases wire offset))"
  by (rule ascending_distinct) (simp add: PublicImportMessageReader_cases_def wirePublicImportMessage)

lemma PublicImportMessage_stores:
  "stores_cell PublicImportMessageReader_save wirePublicImportMessage_E setOffset cellE"
  unfolding PublicImportMessageReader_save_def [abs_def] by (rule stores_cell_switch; (rule PublicImportMessage_cases_distinct)?; unfold PublicImportMessageReader_cases_def; intro own_case.intros; simp)+

lemma PublicImportMessage_saved: "good_fields PublicImportMessageReader_save p (NewPublicImportMessageReader\<lparr>mbuf := Some p\<rparr>) PublicImportMessage_tags (PublicImportMessage_groups s) (PublicImportMessage_ready p s)"
  unfolding PublicImportMessage_tags_def PublicImportMessage_groups_def PublicImportMessage_ready_def
  by (intro good_fields.intros field_saved PublicImportMessage_stores) (simp_all add: NewPublicImportMessageReader_def newCell_def)

lemma PublicImportMessage_converted: "good_stmts mbuf p (PublicImportMessage_stmts) (PublicImportMessage_ready p s) (PublicImportMessage_stored s)"
  unfolding PublicImportMessage_stmts_def PublicImportMessage_ready_def PublicImportMessage_stored_def PublicImportMessage_getters append.simps
  by (intro good_stmts_field good_stmts.Nil) (simp_all cong: cell_reads_cong)

interpretation l_PublicImportMessage: lazy_message PublicImportMessage_tags PublicImportMessage_groups PublicImportMessage_norm
  "\<lambda>s. PublicImportMessage_sizes s" "\<lambda>s. PublicImportMessage_appends s"
  PublicImportMessageReader_save "\<lambda>p. NewPublicImportMessageReader\<lparr>mbuf := Some p\<rparr>" mbuf "PublicImportMessage_stmts" PublicImportMessage_zero PublicImportMessage_ready PublicImportMessage_stored
proof
  show "distinct PublicImportMessage_tags"
    using PublicImportMessage_cases_distinct by (simp only: PublicImportMessageReader_cases_def PublicImportMessage_tags_def list.map fst_conv)
  show "list_all valid_tag PublicImportMessage_tags"
    by (simp add: PublicImportMessage_tags_def wirePublicImportMessage valid_tag_def)
  show "list_all2 (\<lambda>t g. \<forall>f \<in> set g. fst f = t \<and> wf_val (snd f)) PublicImportMessage_tags (PublicImportMessage_groups s)" for s
    unfolding PublicImportMessage_tags_def PublicImportMessage_groups_def by (intro list.rel_intros field_tagged)
  show "list_all2 (\<lambda>e g. e = int (length (fields_bytes g))) (PublicImportMessage_sizes s) (PublicImportMessage_groups s)" for s
    unfolding PublicImportMessage_sizes_def PublicImportMessage_groups_def append.simps
    by (intro list.rel_intros field_sized)
  show "list_all2 (\<lambda>st g. writes st (fields_bytes g)) (PublicImportMessage_appends s) (PublicImportMessage_groups s)" for s
    unfolding PublicImportMessage_appends_def PublicImportMessage_groups_def append.simps
    by (intro list.rel_intros field_written)
  show "mbuf (PublicImportMessageReader_save t w off m) = mbuf m" for t w off m
    unfolding PublicImportMessageReader_save_def by (rule tag_switch_keeps) (simp add: PublicImportMessageReader_cases_def)
  show "fold (\<lambda>e. e) (PublicImportMessage_stored s) PublicImportMessage_zero = PublicImportMessage_norm s" for s
    unfolding PublicImportMessage_stored_def by (simp add: PublicImportMessage_zero_def PublicImportMessage_norm_def float_defaults)
qed (simp_all add: PublicImportMessage_saved PublicImportMessage_converted)

interpretation m_PublicImportMessage: message_codec PublicImportMessage_content PublicImportMessage_norm PublicImportMessage_XXX_PbContentSize PublicImportMessage_MarshalTo
  "PublicImportMessageReader_Unmarshal NewPublicImportMessageReader" PublicImportMessageReader_ToStruct
  using l_PublicImportMessage.message
  by (simp only: PublicImportMessage_content_def [abs_def] PublicImportMessage_XXX_PbContentSize_def PublicImportMessage_MarshalTo_def PublicImportMessageReader_Unmarshal_def [abs_def] PublicImportMessageReader_ToStruct_def)


end
