(* ===== verification/Unittest_Defaults.thy ===== *)
theory Unittest_Defaults
  imports Unittest_Base
begin

text \<open>
  The messages of \<^verbatim>\<open>src/shared/gremlin_go/bench/gremlin_pb/protobuf_unittest/unittest.pb2.go\<close> with default values: extreme integers,
  infinities and NaN, and strings with escapes, which the generated code does not decode.
\<close>

section \<open>TestExtremeDefaultValues: the reader\<close>

definition wireTestExtremeDefaultValues_EscapedBytes :: ProtoWireNumber where "wireTestExtremeDefaultValues_EscapedBytes = 1"
definition wireTestExtremeDefaultValues_LargeUint32 :: ProtoWireNumber where "wireTestExtremeDefaultValues_LargeUint32 = 2"
definition wireTestExtremeDefaultValues_LargeUint64 :: ProtoWireNumber where "wireTestExtremeDefaultValues_LargeUint64 = 3"
definition wireTestExtremeDefaultValues_SmallInt32 :: ProtoWireNumber where "wireTestExtremeDefaultValues_SmallInt32 = 4"
definition wireTestExtremeDefaultValues_SmallInt64 :: ProtoWireNumber where "wireTestExtremeDefaultValues_SmallInt64 = 5"
definition wireTestExtremeDefaultValues_ReallySmallInt32 :: ProtoWireNumber where "wireTestExtremeDefaultValues_ReallySmallInt32 = 21"
definition wireTestExtremeDefaultValues_ReallySmallInt64 :: ProtoWireNumber where "wireTestExtremeDefaultValues_ReallySmallInt64 = 22"
definition wireTestExtremeDefaultValues_Utf8String :: ProtoWireNumber where "wireTestExtremeDefaultValues_Utf8String = 6"
definition wireTestExtremeDefaultValues_ZeroFloat :: ProtoWireNumber where "wireTestExtremeDefaultValues_ZeroFloat = 7"
definition wireTestExtremeDefaultValues_OneFloat :: ProtoWireNumber where "wireTestExtremeDefaultValues_OneFloat = 8"
definition wireTestExtremeDefaultValues_SmallFloat :: ProtoWireNumber where "wireTestExtremeDefaultValues_SmallFloat = 9"
definition wireTestExtremeDefaultValues_NegativeOneFloat :: ProtoWireNumber where "wireTestExtremeDefaultValues_NegativeOneFloat = 10"
definition wireTestExtremeDefaultValues_NegativeFloat :: ProtoWireNumber where "wireTestExtremeDefaultValues_NegativeFloat = 11"
definition wireTestExtremeDefaultValues_LargeFloat :: ProtoWireNumber where "wireTestExtremeDefaultValues_LargeFloat = 12"
definition wireTestExtremeDefaultValues_SmallNegativeFloat :: ProtoWireNumber where "wireTestExtremeDefaultValues_SmallNegativeFloat = 13"
definition wireTestExtremeDefaultValues_InfDouble :: ProtoWireNumber where "wireTestExtremeDefaultValues_InfDouble = 14"
definition wireTestExtremeDefaultValues_NegInfDouble :: ProtoWireNumber where "wireTestExtremeDefaultValues_NegInfDouble = 15"
definition wireTestExtremeDefaultValues_NanDouble :: ProtoWireNumber where "wireTestExtremeDefaultValues_NanDouble = 16"
definition wireTestExtremeDefaultValues_InfFloat :: ProtoWireNumber where "wireTestExtremeDefaultValues_InfFloat = 17"
definition wireTestExtremeDefaultValues_NegInfFloat :: ProtoWireNumber where "wireTestExtremeDefaultValues_NegInfFloat = 18"
definition wireTestExtremeDefaultValues_NanFloat :: ProtoWireNumber where "wireTestExtremeDefaultValues_NanFloat = 19"
definition wireTestExtremeDefaultValues_CppTrigraph :: ProtoWireNumber where "wireTestExtremeDefaultValues_CppTrigraph = 20"
definition wireTestExtremeDefaultValues_StringWithZero :: ProtoWireNumber where "wireTestExtremeDefaultValues_StringWithZero = 23"
definition wireTestExtremeDefaultValues_BytesWithZero :: ProtoWireNumber where "wireTestExtremeDefaultValues_BytesWithZero = 24"
definition wireTestExtremeDefaultValues_StringPieceWithZero :: ProtoWireNumber where "wireTestExtremeDefaultValues_StringPieceWithZero = 25"
definition wireTestExtremeDefaultValues_CordWithZero :: ProtoWireNumber where "wireTestExtremeDefaultValues_CordWithZero = 26"
definition wireTestExtremeDefaultValues_ReplacementString :: ProtoWireNumber where "wireTestExtremeDefaultValues_ReplacementString = 27"

lemmas wireTestExtremeDefaultValues =
  wireTestExtremeDefaultValues_EscapedBytes_def wireTestExtremeDefaultValues_LargeUint32_def
  wireTestExtremeDefaultValues_LargeUint64_def wireTestExtremeDefaultValues_SmallInt32_def
  wireTestExtremeDefaultValues_SmallInt64_def wireTestExtremeDefaultValues_ReallySmallInt32_def
  wireTestExtremeDefaultValues_ReallySmallInt64_def wireTestExtremeDefaultValues_Utf8String_def
  wireTestExtremeDefaultValues_ZeroFloat_def wireTestExtremeDefaultValues_OneFloat_def
  wireTestExtremeDefaultValues_SmallFloat_def wireTestExtremeDefaultValues_NegativeOneFloat_def
  wireTestExtremeDefaultValues_NegativeFloat_def wireTestExtremeDefaultValues_LargeFloat_def
  wireTestExtremeDefaultValues_SmallNegativeFloat_def wireTestExtremeDefaultValues_InfDouble_def
  wireTestExtremeDefaultValues_NegInfDouble_def wireTestExtremeDefaultValues_NanDouble_def
  wireTestExtremeDefaultValues_InfFloat_def wireTestExtremeDefaultValues_NegInfFloat_def
  wireTestExtremeDefaultValues_NanFloat_def wireTestExtremeDefaultValues_CppTrigraph_def
  wireTestExtremeDefaultValues_StringWithZero_def wireTestExtremeDefaultValues_BytesWithZero_def
  wireTestExtremeDefaultValues_StringPieceWithZero_def
  wireTestExtremeDefaultValues_CordWithZero_def
  wireTestExtremeDefaultValues_ReplacementString_def

record TestExtremeDefaultValuesReader =
  mbuf :: "Reader option"
  cellEscapedBytes :: "(byte list) one_cell"
  cellLargeUint32 :: "uint32 one_cell"
  cellLargeUint64 :: "uint64 one_cell"
  cellSmallInt32 :: "int32 one_cell"
  cellSmallInt64 :: "int64 one_cell"
  cellReallySmallInt32 :: "int32 one_cell"
  cellReallySmallInt64 :: "int64 one_cell"
  cellUtf8String :: "gostring one_cell"
  cellZeroFloat :: "float32 one_cell"
  cellOneFloat :: "float32 one_cell"
  cellSmallFloat :: "float32 one_cell"
  cellNegativeOneFloat :: "float32 one_cell"
  cellNegativeFloat :: "float32 one_cell"
  cellLargeFloat :: "float32 one_cell"
  cellSmallNegativeFloat :: "float32 one_cell"
  cellInfDouble :: "float64 one_cell"
  cellNegInfDouble :: "float64 one_cell"
  cellNanDouble :: "float64 one_cell"
  cellInfFloat :: "float32 one_cell"
  cellNegInfFloat :: "float32 one_cell"
  cellNanFloat :: "float32 one_cell"
  cellCppTrigraph :: "gostring one_cell"
  cellStringWithZero :: "gostring one_cell"
  cellBytesWithZero :: "(byte list) one_cell"
  cellStringPieceWithZero :: "gostring one_cell"
  cellCordWithZero :: "gostring one_cell"
  cellReplacementString :: "gostring one_cell"

definition NewTestExtremeDefaultValuesReader :: TestExtremeDefaultValuesReader where
  "NewTestExtremeDefaultValuesReader = \<lparr>
     mbuf = None, cellEscapedBytes = newCell [] 0, cellLargeUint32 = newCell 0 0,
     cellLargeUint64 = newCell 0 0, cellSmallInt32 = newCell 0 0, cellSmallInt64 = newCell 0 0,
     cellReallySmallInt32 = newCell 0 0, cellReallySmallInt64 = newCell 0 0,
     cellUtf8String = newCell [] 0, cellZeroFloat = newCell 0 0, cellOneFloat = newCell 0 0,
     cellSmallFloat = newCell 0 0, cellNegativeOneFloat = newCell 0 0,
     cellNegativeFloat = newCell 0 0, cellLargeFloat = newCell 0 0,
     cellSmallNegativeFloat = newCell 0 0, cellInfDouble = newCell 0 0,
     cellNegInfDouble = newCell 0 0, cellNanDouble = newCell 0 0, cellInfFloat = newCell 0 0,
     cellNegInfFloat = newCell 0 0, cellNanFloat = newCell 0 0, cellCppTrigraph = newCell [] 0,
     cellStringWithZero = newCell [] 0, cellBytesWithZero = newCell [] 0,
     cellStringPieceWithZero = newCell [] 0, cellCordWithZero = newCell [] 0,
     cellReplacementString = newCell [] 0\<rparr>"

definition TestExtremeDefaultValuesReader_readEscapedBytes :: "TestExtremeDefaultValuesReader \<Rightarrow> (byte list \<times> TestExtremeDefaultValuesReader) run" where
  "TestExtremeDefaultValuesReader_readEscapedBytes = readCell cellEscapedBytes cellEscapedBytes_update mbuf (readOne ReadByteList ([92, 48, 92, 48, 48, 49, 92, 97, 92, 98, 92, 102, 92, 110, 92, 114, 92, 116, 92, 118, 92, 92, 92, 39, 92, 34, 92, 120, 102, 101]))"

definition TestExtremeDefaultValuesReader_GetEscapedBytes :: "TestExtremeDefaultValuesReader option \<Rightarrow> (byte list \<times> TestExtremeDefaultValuesReader option) run" where
  "TestExtremeDefaultValuesReader_GetEscapedBytes = getter TestExtremeDefaultValuesReader_readEscapedBytes ([92, 48, 92, 48, 48, 49, 92, 97, 92, 98, 92, 102, 92, 110, 92, 114, 92, 116, 92, 118, 92, 92, 92, 39, 92, 34, 92, 120, 102, 101])"

definition TestExtremeDefaultValuesReader_readLargeUint32 :: "TestExtremeDefaultValuesReader \<Rightarrow> (uint32 \<times> TestExtremeDefaultValuesReader) run" where
  "TestExtremeDefaultValuesReader_readLargeUint32 = readCell cellLargeUint32 cellLargeUint32_update mbuf (readOne ReadUint32 0xFFFFFFFF)"

definition TestExtremeDefaultValuesReader_GetLargeUint32 :: "TestExtremeDefaultValuesReader option \<Rightarrow> (uint32 \<times> TestExtremeDefaultValuesReader option) run" where
  "TestExtremeDefaultValuesReader_GetLargeUint32 = getter TestExtremeDefaultValuesReader_readLargeUint32 0xFFFFFFFF"

definition TestExtremeDefaultValuesReader_readLargeUint64 :: "TestExtremeDefaultValuesReader \<Rightarrow> (uint64 \<times> TestExtremeDefaultValuesReader) run" where
  "TestExtremeDefaultValuesReader_readLargeUint64 = readCell cellLargeUint64 cellLargeUint64_update mbuf (readOne ReadUint64 0xFFFFFFFFFFFFFFFF)"

definition TestExtremeDefaultValuesReader_GetLargeUint64 :: "TestExtremeDefaultValuesReader option \<Rightarrow> (uint64 \<times> TestExtremeDefaultValuesReader option) run" where
  "TestExtremeDefaultValuesReader_GetLargeUint64 = getter TestExtremeDefaultValuesReader_readLargeUint64 0xFFFFFFFFFFFFFFFF"

definition TestExtremeDefaultValuesReader_readSmallInt32 :: "TestExtremeDefaultValuesReader \<Rightarrow> (int32 \<times> TestExtremeDefaultValuesReader) run" where
  "TestExtremeDefaultValuesReader_readSmallInt32 = readCell cellSmallInt32 cellSmallInt32_update mbuf (readOne ReadInt32 (- 0x7FFFFFFF))"

definition TestExtremeDefaultValuesReader_GetSmallInt32 :: "TestExtremeDefaultValuesReader option \<Rightarrow> (int32 \<times> TestExtremeDefaultValuesReader option) run" where
  "TestExtremeDefaultValuesReader_GetSmallInt32 = getter TestExtremeDefaultValuesReader_readSmallInt32 (- 0x7FFFFFFF)"

definition TestExtremeDefaultValuesReader_readSmallInt64 :: "TestExtremeDefaultValuesReader \<Rightarrow> (int64 \<times> TestExtremeDefaultValuesReader) run" where
  "TestExtremeDefaultValuesReader_readSmallInt64 = readCell cellSmallInt64 cellSmallInt64_update mbuf (readOne ReadInt64 (- 0x7FFFFFFFFFFFFFFF))"

definition TestExtremeDefaultValuesReader_GetSmallInt64 :: "TestExtremeDefaultValuesReader option \<Rightarrow> (int64 \<times> TestExtremeDefaultValuesReader option) run" where
  "TestExtremeDefaultValuesReader_GetSmallInt64 = getter TestExtremeDefaultValuesReader_readSmallInt64 (- 0x7FFFFFFFFFFFFFFF)"

definition TestExtremeDefaultValuesReader_readReallySmallInt32 :: "TestExtremeDefaultValuesReader \<Rightarrow> (int32 \<times> TestExtremeDefaultValuesReader) run" where
  "TestExtremeDefaultValuesReader_readReallySmallInt32 = readCell cellReallySmallInt32 cellReallySmallInt32_update mbuf (readOne ReadInt32 (- 0x80000000))"

definition TestExtremeDefaultValuesReader_GetReallySmallInt32 :: "TestExtremeDefaultValuesReader option \<Rightarrow> (int32 \<times> TestExtremeDefaultValuesReader option) run" where
  "TestExtremeDefaultValuesReader_GetReallySmallInt32 = getter TestExtremeDefaultValuesReader_readReallySmallInt32 (- 0x80000000)"

definition TestExtremeDefaultValuesReader_readReallySmallInt64 :: "TestExtremeDefaultValuesReader \<Rightarrow> (int64 \<times> TestExtremeDefaultValuesReader) run" where
  "TestExtremeDefaultValuesReader_readReallySmallInt64 = readCell cellReallySmallInt64 cellReallySmallInt64_update mbuf (readOne ReadInt64 (- 0x8000000000000000))"

definition TestExtremeDefaultValuesReader_GetReallySmallInt64 :: "TestExtremeDefaultValuesReader option \<Rightarrow> (int64 \<times> TestExtremeDefaultValuesReader option) run" where
  "TestExtremeDefaultValuesReader_GetReallySmallInt64 = getter TestExtremeDefaultValuesReader_readReallySmallInt64 (- 0x8000000000000000)"

definition TestExtremeDefaultValuesReader_readUtf8String :: "TestExtremeDefaultValuesReader \<Rightarrow> (gostring \<times> TestExtremeDefaultValuesReader) run" where
  "TestExtremeDefaultValuesReader_readUtf8String = readCell cellUtf8String cellUtf8String_update mbuf (readOne ReadString ([92, 51, 52, 49, 92, 50, 49, 48, 92, 50, 54, 52]))"

definition TestExtremeDefaultValuesReader_GetUtf8String :: "TestExtremeDefaultValuesReader option \<Rightarrow> (gostring \<times> TestExtremeDefaultValuesReader option) run" where
  "TestExtremeDefaultValuesReader_GetUtf8String = getter TestExtremeDefaultValuesReader_readUtf8String ([92, 51, 52, 49, 92, 50, 49, 48, 92, 50, 54, 52])"

definition TestExtremeDefaultValuesReader_readZeroFloat :: "TestExtremeDefaultValuesReader \<Rightarrow> (float32 \<times> TestExtremeDefaultValuesReader) run" where
  "TestExtremeDefaultValuesReader_readZeroFloat = readCell cellZeroFloat cellZeroFloat_update mbuf (readOne ReadFloat32 0x0)"

definition TestExtremeDefaultValuesReader_GetZeroFloat :: "TestExtremeDefaultValuesReader option \<Rightarrow> (float32 \<times> TestExtremeDefaultValuesReader option) run" where
  "TestExtremeDefaultValuesReader_GetZeroFloat = getter TestExtremeDefaultValuesReader_readZeroFloat 0x0"

definition TestExtremeDefaultValuesReader_readOneFloat :: "TestExtremeDefaultValuesReader \<Rightarrow> (float32 \<times> TestExtremeDefaultValuesReader) run" where
  "TestExtremeDefaultValuesReader_readOneFloat = readCell cellOneFloat cellOneFloat_update mbuf (readOne ReadFloat32 0x3F800000)"

definition TestExtremeDefaultValuesReader_GetOneFloat :: "TestExtremeDefaultValuesReader option \<Rightarrow> (float32 \<times> TestExtremeDefaultValuesReader option) run" where
  "TestExtremeDefaultValuesReader_GetOneFloat = getter TestExtremeDefaultValuesReader_readOneFloat 0x3F800000"

definition TestExtremeDefaultValuesReader_readSmallFloat :: "TestExtremeDefaultValuesReader \<Rightarrow> (float32 \<times> TestExtremeDefaultValuesReader) run" where
  "TestExtremeDefaultValuesReader_readSmallFloat = readCell cellSmallFloat cellSmallFloat_update mbuf (readOne ReadFloat32 0x3FC00000)"

definition TestExtremeDefaultValuesReader_GetSmallFloat :: "TestExtremeDefaultValuesReader option \<Rightarrow> (float32 \<times> TestExtremeDefaultValuesReader option) run" where
  "TestExtremeDefaultValuesReader_GetSmallFloat = getter TestExtremeDefaultValuesReader_readSmallFloat 0x3FC00000"

definition TestExtremeDefaultValuesReader_readNegativeOneFloat :: "TestExtremeDefaultValuesReader \<Rightarrow> (float32 \<times> TestExtremeDefaultValuesReader) run" where
  "TestExtremeDefaultValuesReader_readNegativeOneFloat = readCell cellNegativeOneFloat cellNegativeOneFloat_update mbuf (readOne ReadFloat32 0xBF800000)"

definition TestExtremeDefaultValuesReader_GetNegativeOneFloat :: "TestExtremeDefaultValuesReader option \<Rightarrow> (float32 \<times> TestExtremeDefaultValuesReader option) run" where
  "TestExtremeDefaultValuesReader_GetNegativeOneFloat = getter TestExtremeDefaultValuesReader_readNegativeOneFloat 0xBF800000"

definition TestExtremeDefaultValuesReader_readNegativeFloat :: "TestExtremeDefaultValuesReader \<Rightarrow> (float32 \<times> TestExtremeDefaultValuesReader) run" where
  "TestExtremeDefaultValuesReader_readNegativeFloat = readCell cellNegativeFloat cellNegativeFloat_update mbuf (readOne ReadFloat32 0xBFC00000)"

definition TestExtremeDefaultValuesReader_GetNegativeFloat :: "TestExtremeDefaultValuesReader option \<Rightarrow> (float32 \<times> TestExtremeDefaultValuesReader option) run" where
  "TestExtremeDefaultValuesReader_GetNegativeFloat = getter TestExtremeDefaultValuesReader_readNegativeFloat 0xBFC00000"

definition TestExtremeDefaultValuesReader_readLargeFloat :: "TestExtremeDefaultValuesReader \<Rightarrow> (float32 \<times> TestExtremeDefaultValuesReader) run" where
  "TestExtremeDefaultValuesReader_readLargeFloat = readCell cellLargeFloat cellLargeFloat_update mbuf (readOne ReadFloat32 0x4D3EBC20)"

definition TestExtremeDefaultValuesReader_GetLargeFloat :: "TestExtremeDefaultValuesReader option \<Rightarrow> (float32 \<times> TestExtremeDefaultValuesReader option) run" where
  "TestExtremeDefaultValuesReader_GetLargeFloat = getter TestExtremeDefaultValuesReader_readLargeFloat 0x4D3EBC20"

definition TestExtremeDefaultValuesReader_readSmallNegativeFloat :: "TestExtremeDefaultValuesReader \<Rightarrow> (float32 \<times> TestExtremeDefaultValuesReader) run" where
  "TestExtremeDefaultValuesReader_readSmallNegativeFloat = readCell cellSmallNegativeFloat cellSmallNegativeFloat_update mbuf (readOne ReadFloat32 0x927D87B6)"

definition TestExtremeDefaultValuesReader_GetSmallNegativeFloat :: "TestExtremeDefaultValuesReader option \<Rightarrow> (float32 \<times> TestExtremeDefaultValuesReader option) run" where
  "TestExtremeDefaultValuesReader_GetSmallNegativeFloat = getter TestExtremeDefaultValuesReader_readSmallNegativeFloat 0x927D87B6"

definition TestExtremeDefaultValuesReader_readInfDouble :: "TestExtremeDefaultValuesReader \<Rightarrow> (float64 \<times> TestExtremeDefaultValuesReader) run" where
  "TestExtremeDefaultValuesReader_readInfDouble = readCell cellInfDouble cellInfDouble_update mbuf (readOne ReadFloat64 0x7FF0000000000000)"

definition TestExtremeDefaultValuesReader_GetInfDouble :: "TestExtremeDefaultValuesReader option \<Rightarrow> (float64 \<times> TestExtremeDefaultValuesReader option) run" where
  "TestExtremeDefaultValuesReader_GetInfDouble = getter TestExtremeDefaultValuesReader_readInfDouble 0x7FF0000000000000"

definition TestExtremeDefaultValuesReader_readNegInfDouble :: "TestExtremeDefaultValuesReader \<Rightarrow> (float64 \<times> TestExtremeDefaultValuesReader) run" where
  "TestExtremeDefaultValuesReader_readNegInfDouble = readCell cellNegInfDouble cellNegInfDouble_update mbuf (readOne ReadFloat64 0xFFF0000000000000)"

definition TestExtremeDefaultValuesReader_GetNegInfDouble :: "TestExtremeDefaultValuesReader option \<Rightarrow> (float64 \<times> TestExtremeDefaultValuesReader option) run" where
  "TestExtremeDefaultValuesReader_GetNegInfDouble = getter TestExtremeDefaultValuesReader_readNegInfDouble 0xFFF0000000000000"

definition TestExtremeDefaultValuesReader_readNanDouble :: "TestExtremeDefaultValuesReader \<Rightarrow> (float64 \<times> TestExtremeDefaultValuesReader) run" where
  "TestExtremeDefaultValuesReader_readNanDouble = readCell cellNanDouble cellNanDouble_update mbuf (readOne ReadFloat64 0x7FF8000000000001)"

definition TestExtremeDefaultValuesReader_GetNanDouble :: "TestExtremeDefaultValuesReader option \<Rightarrow> (float64 \<times> TestExtremeDefaultValuesReader option) run" where
  "TestExtremeDefaultValuesReader_GetNanDouble = getter TestExtremeDefaultValuesReader_readNanDouble 0x7FF8000000000001"

definition TestExtremeDefaultValuesReader_readInfFloat :: "TestExtremeDefaultValuesReader \<Rightarrow> (float32 \<times> TestExtremeDefaultValuesReader) run" where
  "TestExtremeDefaultValuesReader_readInfFloat = readCell cellInfFloat cellInfFloat_update mbuf (readOne ReadFloat32 0x7F800000)"

definition TestExtremeDefaultValuesReader_GetInfFloat :: "TestExtremeDefaultValuesReader option \<Rightarrow> (float32 \<times> TestExtremeDefaultValuesReader option) run" where
  "TestExtremeDefaultValuesReader_GetInfFloat = getter TestExtremeDefaultValuesReader_readInfFloat 0x7F800000"

definition TestExtremeDefaultValuesReader_readNegInfFloat :: "TestExtremeDefaultValuesReader \<Rightarrow> (float32 \<times> TestExtremeDefaultValuesReader) run" where
  "TestExtremeDefaultValuesReader_readNegInfFloat = readCell cellNegInfFloat cellNegInfFloat_update mbuf (readOne ReadFloat32 0xFF800000)"

definition TestExtremeDefaultValuesReader_GetNegInfFloat :: "TestExtremeDefaultValuesReader option \<Rightarrow> (float32 \<times> TestExtremeDefaultValuesReader option) run" where
  "TestExtremeDefaultValuesReader_GetNegInfFloat = getter TestExtremeDefaultValuesReader_readNegInfFloat 0xFF800000"

definition TestExtremeDefaultValuesReader_readNanFloat :: "TestExtremeDefaultValuesReader \<Rightarrow> (float32 \<times> TestExtremeDefaultValuesReader) run" where
  "TestExtremeDefaultValuesReader_readNanFloat = readCell cellNanFloat cellNanFloat_update mbuf (readOne ReadFloat32 0x7FC00000)"

definition TestExtremeDefaultValuesReader_GetNanFloat :: "TestExtremeDefaultValuesReader option \<Rightarrow> (float32 \<times> TestExtremeDefaultValuesReader option) run" where
  "TestExtremeDefaultValuesReader_GetNanFloat = getter TestExtremeDefaultValuesReader_readNanFloat 0x7FC00000"

definition TestExtremeDefaultValuesReader_readCppTrigraph :: "TestExtremeDefaultValuesReader \<Rightarrow> (gostring \<times> TestExtremeDefaultValuesReader) run" where
  "TestExtremeDefaultValuesReader_readCppTrigraph = readCell cellCppTrigraph cellCppTrigraph_update mbuf (readOne ReadString ([63, 32, 92, 63, 32, 63, 63, 32, 92, 63, 63, 32, 92, 63, 63, 63, 32, 63, 63, 47, 32, 63, 92, 63, 45]))"

definition TestExtremeDefaultValuesReader_GetCppTrigraph :: "TestExtremeDefaultValuesReader option \<Rightarrow> (gostring \<times> TestExtremeDefaultValuesReader option) run" where
  "TestExtremeDefaultValuesReader_GetCppTrigraph = getter TestExtremeDefaultValuesReader_readCppTrigraph ([63, 32, 92, 63, 32, 63, 63, 32, 92, 63, 63, 32, 92, 63, 63, 63, 32, 63, 63, 47, 32, 63, 92, 63, 45])"

definition TestExtremeDefaultValuesReader_readStringWithZero :: "TestExtremeDefaultValuesReader \<Rightarrow> (gostring \<times> TestExtremeDefaultValuesReader) run" where
  "TestExtremeDefaultValuesReader_readStringWithZero = readCell cellStringWithZero cellStringWithZero_update mbuf (readOne ReadString ([104, 101, 108, 92, 48, 48, 48, 108, 111]))"

definition TestExtremeDefaultValuesReader_GetStringWithZero :: "TestExtremeDefaultValuesReader option \<Rightarrow> (gostring \<times> TestExtremeDefaultValuesReader option) run" where
  "TestExtremeDefaultValuesReader_GetStringWithZero = getter TestExtremeDefaultValuesReader_readStringWithZero ([104, 101, 108, 92, 48, 48, 48, 108, 111])"

definition TestExtremeDefaultValuesReader_readBytesWithZero :: "TestExtremeDefaultValuesReader \<Rightarrow> (byte list \<times> TestExtremeDefaultValuesReader) run" where
  "TestExtremeDefaultValuesReader_readBytesWithZero = readCell cellBytesWithZero cellBytesWithZero_update mbuf (readOne ReadByteList ([119, 111, 114, 92, 48, 48, 48, 108, 100]))"

definition TestExtremeDefaultValuesReader_GetBytesWithZero :: "TestExtremeDefaultValuesReader option \<Rightarrow> (byte list \<times> TestExtremeDefaultValuesReader option) run" where
  "TestExtremeDefaultValuesReader_GetBytesWithZero = getter TestExtremeDefaultValuesReader_readBytesWithZero ([119, 111, 114, 92, 48, 48, 48, 108, 100])"

definition TestExtremeDefaultValuesReader_readStringPieceWithZero :: "TestExtremeDefaultValuesReader \<Rightarrow> (gostring \<times> TestExtremeDefaultValuesReader) run" where
  "TestExtremeDefaultValuesReader_readStringPieceWithZero = readCell cellStringPieceWithZero cellStringPieceWithZero_update mbuf (readOne ReadString ([97, 98, 92, 48, 48, 48, 99]))"

definition TestExtremeDefaultValuesReader_GetStringPieceWithZero :: "TestExtremeDefaultValuesReader option \<Rightarrow> (gostring \<times> TestExtremeDefaultValuesReader option) run" where
  "TestExtremeDefaultValuesReader_GetStringPieceWithZero = getter TestExtremeDefaultValuesReader_readStringPieceWithZero ([97, 98, 92, 48, 48, 48, 99])"

definition TestExtremeDefaultValuesReader_readCordWithZero :: "TestExtremeDefaultValuesReader \<Rightarrow> (gostring \<times> TestExtremeDefaultValuesReader) run" where
  "TestExtremeDefaultValuesReader_readCordWithZero = readCell cellCordWithZero cellCordWithZero_update mbuf (readOne ReadString ([49, 50, 92, 48, 48, 48, 51]))"

definition TestExtremeDefaultValuesReader_GetCordWithZero :: "TestExtremeDefaultValuesReader option \<Rightarrow> (gostring \<times> TestExtremeDefaultValuesReader option) run" where
  "TestExtremeDefaultValuesReader_GetCordWithZero = getter TestExtremeDefaultValuesReader_readCordWithZero ([49, 50, 92, 48, 48, 48, 51])"

definition TestExtremeDefaultValuesReader_readReplacementString :: "TestExtremeDefaultValuesReader \<Rightarrow> (gostring \<times> TestExtremeDefaultValuesReader) run" where
  "TestExtremeDefaultValuesReader_readReplacementString = readCell cellReplacementString cellReplacementString_update mbuf (readOne ReadString (bytes_of ''${unknown}''))"

definition TestExtremeDefaultValuesReader_GetReplacementString :: "TestExtremeDefaultValuesReader option \<Rightarrow> (gostring \<times> TestExtremeDefaultValuesReader option) run" where
  "TestExtremeDefaultValuesReader_GetReplacementString = getter TestExtremeDefaultValuesReader_readReplacementString (bytes_of ''${unknown}'')"

lemmas TestExtremeDefaultValues_getters =
  TestExtremeDefaultValuesReader_readEscapedBytes_def TestExtremeDefaultValuesReader_GetEscapedBytes_def
  TestExtremeDefaultValuesReader_readLargeUint32_def TestExtremeDefaultValuesReader_GetLargeUint32_def
  TestExtremeDefaultValuesReader_readLargeUint64_def TestExtremeDefaultValuesReader_GetLargeUint64_def
  TestExtremeDefaultValuesReader_readSmallInt32_def TestExtremeDefaultValuesReader_GetSmallInt32_def
  TestExtremeDefaultValuesReader_readSmallInt64_def TestExtremeDefaultValuesReader_GetSmallInt64_def
  TestExtremeDefaultValuesReader_readReallySmallInt32_def TestExtremeDefaultValuesReader_GetReallySmallInt32_def
  TestExtremeDefaultValuesReader_readReallySmallInt64_def TestExtremeDefaultValuesReader_GetReallySmallInt64_def
  TestExtremeDefaultValuesReader_readUtf8String_def TestExtremeDefaultValuesReader_GetUtf8String_def
  TestExtremeDefaultValuesReader_readZeroFloat_def TestExtremeDefaultValuesReader_GetZeroFloat_def
  TestExtremeDefaultValuesReader_readOneFloat_def TestExtremeDefaultValuesReader_GetOneFloat_def
  TestExtremeDefaultValuesReader_readSmallFloat_def TestExtremeDefaultValuesReader_GetSmallFloat_def
  TestExtremeDefaultValuesReader_readNegativeOneFloat_def TestExtremeDefaultValuesReader_GetNegativeOneFloat_def
  TestExtremeDefaultValuesReader_readNegativeFloat_def TestExtremeDefaultValuesReader_GetNegativeFloat_def
  TestExtremeDefaultValuesReader_readLargeFloat_def TestExtremeDefaultValuesReader_GetLargeFloat_def
  TestExtremeDefaultValuesReader_readSmallNegativeFloat_def TestExtremeDefaultValuesReader_GetSmallNegativeFloat_def
  TestExtremeDefaultValuesReader_readInfDouble_def TestExtremeDefaultValuesReader_GetInfDouble_def
  TestExtremeDefaultValuesReader_readNegInfDouble_def TestExtremeDefaultValuesReader_GetNegInfDouble_def
  TestExtremeDefaultValuesReader_readNanDouble_def TestExtremeDefaultValuesReader_GetNanDouble_def
  TestExtremeDefaultValuesReader_readInfFloat_def TestExtremeDefaultValuesReader_GetInfFloat_def
  TestExtremeDefaultValuesReader_readNegInfFloat_def TestExtremeDefaultValuesReader_GetNegInfFloat_def
  TestExtremeDefaultValuesReader_readNanFloat_def TestExtremeDefaultValuesReader_GetNanFloat_def
  TestExtremeDefaultValuesReader_readCppTrigraph_def TestExtremeDefaultValuesReader_GetCppTrigraph_def
  TestExtremeDefaultValuesReader_readStringWithZero_def TestExtremeDefaultValuesReader_GetStringWithZero_def
  TestExtremeDefaultValuesReader_readBytesWithZero_def TestExtremeDefaultValuesReader_GetBytesWithZero_def
  TestExtremeDefaultValuesReader_readStringPieceWithZero_def TestExtremeDefaultValuesReader_GetStringPieceWithZero_def
  TestExtremeDefaultValuesReader_readCordWithZero_def TestExtremeDefaultValuesReader_GetCordWithZero_def
  TestExtremeDefaultValuesReader_readReplacementString_def TestExtremeDefaultValuesReader_GetReplacementString_def

definition TestExtremeDefaultValuesReader_cases :: "ProtoWireType \<Rightarrow> int \<Rightarrow> (ProtoWireNumber \<times> (TestExtremeDefaultValuesReader \<Rightarrow> TestExtremeDefaultValuesReader)) list" where
  "TestExtremeDefaultValuesReader_cases wire offset = [
     (wireTestExtremeDefaultValues_EscapedBytes, \<lambda>m. m\<lparr>cellEscapedBytes := onOffset (setOffset wire offset) (cellEscapedBytes m)\<rparr>),
     (wireTestExtremeDefaultValues_LargeUint32, \<lambda>m. m\<lparr>cellLargeUint32 := onOffset (setOffset wire offset) (cellLargeUint32 m)\<rparr>),
     (wireTestExtremeDefaultValues_LargeUint64, \<lambda>m. m\<lparr>cellLargeUint64 := onOffset (setOffset wire offset) (cellLargeUint64 m)\<rparr>),
     (wireTestExtremeDefaultValues_SmallInt32, \<lambda>m. m\<lparr>cellSmallInt32 := onOffset (setOffset wire offset) (cellSmallInt32 m)\<rparr>),
     (wireTestExtremeDefaultValues_SmallInt64, \<lambda>m. m\<lparr>cellSmallInt64 := onOffset (setOffset wire offset) (cellSmallInt64 m)\<rparr>),
     (wireTestExtremeDefaultValues_ReallySmallInt32, \<lambda>m. m\<lparr>cellReallySmallInt32 := onOffset (setOffset wire offset) (cellReallySmallInt32 m)\<rparr>),
     (wireTestExtremeDefaultValues_ReallySmallInt64, \<lambda>m. m\<lparr>cellReallySmallInt64 := onOffset (setOffset wire offset) (cellReallySmallInt64 m)\<rparr>),
     (wireTestExtremeDefaultValues_Utf8String, \<lambda>m. m\<lparr>cellUtf8String := onOffset (setOffset wire offset) (cellUtf8String m)\<rparr>),
     (wireTestExtremeDefaultValues_ZeroFloat, \<lambda>m. m\<lparr>cellZeroFloat := onOffset (setOffset wire offset) (cellZeroFloat m)\<rparr>),
     (wireTestExtremeDefaultValues_OneFloat, \<lambda>m. m\<lparr>cellOneFloat := onOffset (setOffset wire offset) (cellOneFloat m)\<rparr>),
     (wireTestExtremeDefaultValues_SmallFloat, \<lambda>m. m\<lparr>cellSmallFloat := onOffset (setOffset wire offset) (cellSmallFloat m)\<rparr>),
     (wireTestExtremeDefaultValues_NegativeOneFloat, \<lambda>m. m\<lparr>cellNegativeOneFloat := onOffset (setOffset wire offset) (cellNegativeOneFloat m)\<rparr>),
     (wireTestExtremeDefaultValues_NegativeFloat, \<lambda>m. m\<lparr>cellNegativeFloat := onOffset (setOffset wire offset) (cellNegativeFloat m)\<rparr>),
     (wireTestExtremeDefaultValues_LargeFloat, \<lambda>m. m\<lparr>cellLargeFloat := onOffset (setOffset wire offset) (cellLargeFloat m)\<rparr>),
     (wireTestExtremeDefaultValues_SmallNegativeFloat, \<lambda>m. m\<lparr>cellSmallNegativeFloat := onOffset (setOffset wire offset) (cellSmallNegativeFloat m)\<rparr>),
     (wireTestExtremeDefaultValues_InfDouble, \<lambda>m. m\<lparr>cellInfDouble := onOffset (setOffset wire offset) (cellInfDouble m)\<rparr>),
     (wireTestExtremeDefaultValues_NegInfDouble, \<lambda>m. m\<lparr>cellNegInfDouble := onOffset (setOffset wire offset) (cellNegInfDouble m)\<rparr>),
     (wireTestExtremeDefaultValues_NanDouble, \<lambda>m. m\<lparr>cellNanDouble := onOffset (setOffset wire offset) (cellNanDouble m)\<rparr>),
     (wireTestExtremeDefaultValues_InfFloat, \<lambda>m. m\<lparr>cellInfFloat := onOffset (setOffset wire offset) (cellInfFloat m)\<rparr>),
     (wireTestExtremeDefaultValues_NegInfFloat, \<lambda>m. m\<lparr>cellNegInfFloat := onOffset (setOffset wire offset) (cellNegInfFloat m)\<rparr>),
     (wireTestExtremeDefaultValues_NanFloat, \<lambda>m. m\<lparr>cellNanFloat := onOffset (setOffset wire offset) (cellNanFloat m)\<rparr>),
     (wireTestExtremeDefaultValues_CppTrigraph, \<lambda>m. m\<lparr>cellCppTrigraph := onOffset (setOffset wire offset) (cellCppTrigraph m)\<rparr>),
     (wireTestExtremeDefaultValues_StringWithZero, \<lambda>m. m\<lparr>cellStringWithZero := onOffset (setOffset wire offset) (cellStringWithZero m)\<rparr>),
     (wireTestExtremeDefaultValues_BytesWithZero, \<lambda>m. m\<lparr>cellBytesWithZero := onOffset (setOffset wire offset) (cellBytesWithZero m)\<rparr>),
     (wireTestExtremeDefaultValues_StringPieceWithZero, \<lambda>m. m\<lparr>cellStringPieceWithZero := onOffset (setOffset wire offset) (cellStringPieceWithZero m)\<rparr>),
     (wireTestExtremeDefaultValues_CordWithZero, \<lambda>m. m\<lparr>cellCordWithZero := onOffset (setOffset wire offset) (cellCordWithZero m)\<rparr>),
     (wireTestExtremeDefaultValues_ReplacementString, \<lambda>m. m\<lparr>cellReplacementString := onOffset (setOffset wire offset) (cellReplacementString m)\<rparr>)]"

definition TestExtremeDefaultValuesReader_save :: "ProtoWireNumber \<Rightarrow> ProtoWireType \<Rightarrow> int \<Rightarrow> TestExtremeDefaultValuesReader \<Rightarrow> TestExtremeDefaultValuesReader" where
  "TestExtremeDefaultValuesReader_save tag wire offset = tag_switch (TestExtremeDefaultValuesReader_cases wire offset) tag"

definition TestExtremeDefaultValuesReader_Unmarshal :: "TestExtremeDefaultValuesReader \<Rightarrow> gslice \<Rightarrow> (TestExtremeDefaultValuesReader \<times> string option) run" where
  "TestExtremeDefaultValuesReader_Unmarshal m data =
     unmarshalLoop TestExtremeDefaultValuesReader_save (NewReader data) 0 (m\<lparr>mbuf := Some (NewReader data)\<rparr>)"

definition TestExtremeDefaultValuesReader_SourceBytes :: "TestExtremeDefaultValuesReader option \<Rightarrow> gslice" where
  "TestExtremeDefaultValuesReader_SourceBytes s = (case s of None \<Rightarrow> nil_slice | Some r \<Rightarrow> Bytes (mbuf r))"

section \<open>TestExtremeDefaultValues: the struct\<close>

record TestExtremeDefaultValues =
  EscapedBytes :: "byte list"
  LargeUint32 :: uint32
  LargeUint64 :: uint64
  SmallInt32 :: int32
  SmallInt64 :: int64
  ReallySmallInt32 :: int32
  ReallySmallInt64 :: int64
  Utf8String :: gostring
  ZeroFloat :: float32
  OneFloat :: float32
  SmallFloat :: float32
  NegativeOneFloat :: float32
  NegativeFloat :: float32
  LargeFloat :: float32
  SmallNegativeFloat :: float32
  InfDouble :: float64
  NegInfDouble :: float64
  NanDouble :: float64
  InfFloat :: float32
  NegInfFloat :: float32
  NanFloat :: float32
  CppTrigraph :: gostring
  StringWithZero :: gostring
  BytesWithZero :: "byte list"
  StringPieceWithZero :: gostring
  CordWithZero :: gostring
  ReplacementString :: gostring

definition TestExtremeDefaultValues_zero :: TestExtremeDefaultValues where
  "TestExtremeDefaultValues_zero = \<lparr>
     EscapedBytes = [], LargeUint32 = 0, LargeUint64 = 0, SmallInt32 = 0, SmallInt64 = 0,
     ReallySmallInt32 = 0, ReallySmallInt64 = 0, Utf8String = [], ZeroFloat = 0, OneFloat = 0,
     SmallFloat = 0, NegativeOneFloat = 0, NegativeFloat = 0, LargeFloat = 0,
     SmallNegativeFloat = 0, InfDouble = 0, NegInfDouble = 0, NanDouble = 0, InfFloat = 0,
     NegInfFloat = 0, NanFloat = 0, CppTrigraph = [], StringWithZero = [], BytesWithZero = [],
     StringPieceWithZero = [], CordWithZero = [], ReplacementString = []\<rparr>"

definition TestExtremeDefaultValues_stmts :: "(TestExtremeDefaultValues \<times> TestExtremeDefaultValuesReader option \<Rightarrow> (TestExtremeDefaultValues \<times> TestExtremeDefaultValuesReader option) run) list" where
  "TestExtremeDefaultValues_stmts = [
     assign TestExtremeDefaultValuesReader_GetEscapedBytes (\<lambda>v res. res\<lparr>EscapedBytes := v\<rparr>),
     assign TestExtremeDefaultValuesReader_GetLargeUint32 (\<lambda>v res. res\<lparr>LargeUint32 := v\<rparr>),
     assign TestExtremeDefaultValuesReader_GetLargeUint64 (\<lambda>v res. res\<lparr>LargeUint64 := v\<rparr>),
     assign TestExtremeDefaultValuesReader_GetSmallInt32 (\<lambda>v res. res\<lparr>SmallInt32 := v\<rparr>),
     assign TestExtremeDefaultValuesReader_GetSmallInt64 (\<lambda>v res. res\<lparr>SmallInt64 := v\<rparr>),
     assign TestExtremeDefaultValuesReader_GetReallySmallInt32 (\<lambda>v res. res\<lparr>ReallySmallInt32 := v\<rparr>),
     assign TestExtremeDefaultValuesReader_GetReallySmallInt64 (\<lambda>v res. res\<lparr>ReallySmallInt64 := v\<rparr>),
     assign TestExtremeDefaultValuesReader_GetUtf8String (\<lambda>v res. res\<lparr>Utf8String := v\<rparr>),
     assign TestExtremeDefaultValuesReader_GetZeroFloat (\<lambda>v res. res\<lparr>ZeroFloat := v\<rparr>),
     assign TestExtremeDefaultValuesReader_GetOneFloat (\<lambda>v res. res\<lparr>OneFloat := v\<rparr>),
     assign TestExtremeDefaultValuesReader_GetSmallFloat (\<lambda>v res. res\<lparr>SmallFloat := v\<rparr>),
     assign TestExtremeDefaultValuesReader_GetNegativeOneFloat (\<lambda>v res. res\<lparr>NegativeOneFloat := v\<rparr>),
     assign TestExtremeDefaultValuesReader_GetNegativeFloat (\<lambda>v res. res\<lparr>NegativeFloat := v\<rparr>),
     assign TestExtremeDefaultValuesReader_GetLargeFloat (\<lambda>v res. res\<lparr>LargeFloat := v\<rparr>),
     assign TestExtremeDefaultValuesReader_GetSmallNegativeFloat (\<lambda>v res. res\<lparr>SmallNegativeFloat := v\<rparr>),
     assign TestExtremeDefaultValuesReader_GetInfDouble (\<lambda>v res. res\<lparr>InfDouble := v\<rparr>),
     assign TestExtremeDefaultValuesReader_GetNegInfDouble (\<lambda>v res. res\<lparr>NegInfDouble := v\<rparr>),
     assign TestExtremeDefaultValuesReader_GetNanDouble (\<lambda>v res. res\<lparr>NanDouble := v\<rparr>),
     assign TestExtremeDefaultValuesReader_GetInfFloat (\<lambda>v res. res\<lparr>InfFloat := v\<rparr>),
     assign TestExtremeDefaultValuesReader_GetNegInfFloat (\<lambda>v res. res\<lparr>NegInfFloat := v\<rparr>),
     assign TestExtremeDefaultValuesReader_GetNanFloat (\<lambda>v res. res\<lparr>NanFloat := v\<rparr>),
     assign TestExtremeDefaultValuesReader_GetCppTrigraph (\<lambda>v res. res\<lparr>CppTrigraph := v\<rparr>),
     assign TestExtremeDefaultValuesReader_GetStringWithZero (\<lambda>v res. res\<lparr>StringWithZero := v\<rparr>),
     assign TestExtremeDefaultValuesReader_GetBytesWithZero (\<lambda>v res. res\<lparr>BytesWithZero := v\<rparr>),
     assign TestExtremeDefaultValuesReader_GetStringPieceWithZero (\<lambda>v res. res\<lparr>StringPieceWithZero := v\<rparr>),
     assign TestExtremeDefaultValuesReader_GetCordWithZero (\<lambda>v res. res\<lparr>CordWithZero := v\<rparr>),
     assign TestExtremeDefaultValuesReader_GetReplacementString (\<lambda>v res. res\<lparr>ReplacementString := v\<rparr>)]"

definition TestExtremeDefaultValuesReader_ToStruct :: "TestExtremeDefaultValuesReader option \<Rightarrow> (TestExtremeDefaultValues option \<times> TestExtremeDefaultValuesReader option) run" where
  "TestExtremeDefaultValuesReader_ToStruct = toStructWith (TestExtremeDefaultValues_stmts) TestExtremeDefaultValues_zero"

definition TestExtremeDefaultValues_appends :: "TestExtremeDefaultValues \<Rightarrow> (Writer \<Rightarrow> Writer go) list" where
  "TestExtremeDefaultValues_appends s = [
     \<lambda>res. if EscapedBytes s \<noteq> [92, 48, 92, 48, 48, 49, 92, 97, 92, 98, 92, 102, 92, 110, 92, 114, 92, 116, 92, 118, 92, 92, 92, 39, 92, 34, 92, 120, 102, 101] then AppendBytes res wireTestExtremeDefaultValues_EscapedBytes (EscapedBytes s) else Ret res,
     \<lambda>res. if LargeUint32 s \<noteq> 0xFFFFFFFF then AppendUint32 res wireTestExtremeDefaultValues_LargeUint32 (LargeUint32 s) else Ret res,
     \<lambda>res. if LargeUint64 s \<noteq> 0xFFFFFFFFFFFFFFFF then AppendUint64 res wireTestExtremeDefaultValues_LargeUint64 (LargeUint64 s) else Ret res,
     \<lambda>res. if SmallInt32 s \<noteq> - 0x7FFFFFFF then AppendInt32 res wireTestExtremeDefaultValues_SmallInt32 (SmallInt32 s) else Ret res,
     \<lambda>res. if SmallInt64 s \<noteq> - 0x7FFFFFFFFFFFFFFF then AppendInt64 res wireTestExtremeDefaultValues_SmallInt64 (SmallInt64 s) else Ret res,
     \<lambda>res. if ReallySmallInt32 s \<noteq> - 0x80000000 then AppendInt32 res wireTestExtremeDefaultValues_ReallySmallInt32 (ReallySmallInt32 s) else Ret res,
     \<lambda>res. if ReallySmallInt64 s \<noteq> - 0x8000000000000000 then AppendInt64 res wireTestExtremeDefaultValues_ReallySmallInt64 (ReallySmallInt64 s) else Ret res,
     \<lambda>res. if Utf8String s \<noteq> [92, 51, 52, 49, 92, 50, 49, 48, 92, 50, 54, 52] then AppendString res wireTestExtremeDefaultValues_Utf8String (Utf8String s) else Ret res,
     \<lambda>res. if \<not> float32_is_zero (ZeroFloat s) then AppendFloat32 res wireTestExtremeDefaultValues_ZeroFloat (ZeroFloat s) else Ret res,
     \<lambda>res. if \<not> float32_eq (OneFloat s) (0x3F800000) then AppendFloat32 res wireTestExtremeDefaultValues_OneFloat (OneFloat s) else Ret res,
     \<lambda>res. if \<not> float32_eq (SmallFloat s) (0x3FC00000) then AppendFloat32 res wireTestExtremeDefaultValues_SmallFloat (SmallFloat s) else Ret res,
     \<lambda>res. if \<not> float32_eq (NegativeOneFloat s) (0xBF800000) then AppendFloat32 res wireTestExtremeDefaultValues_NegativeOneFloat (NegativeOneFloat s) else Ret res,
     \<lambda>res. if \<not> float32_eq (NegativeFloat s) (0xBFC00000) then AppendFloat32 res wireTestExtremeDefaultValues_NegativeFloat (NegativeFloat s) else Ret res,
     \<lambda>res. if \<not> float32_eq (LargeFloat s) (0x4D3EBC20) then AppendFloat32 res wireTestExtremeDefaultValues_LargeFloat (LargeFloat s) else Ret res,
     \<lambda>res. if \<not> float32_eq (SmallNegativeFloat s) (0x927D87B6) then AppendFloat32 res wireTestExtremeDefaultValues_SmallNegativeFloat (SmallNegativeFloat s) else Ret res,
     \<lambda>res. if \<not> float64_eq (InfDouble s) (0x7FF0000000000000) then AppendFloat64 res wireTestExtremeDefaultValues_InfDouble (InfDouble s) else Ret res,
     \<lambda>res. if \<not> float64_eq (NegInfDouble s) (0xFFF0000000000000) then AppendFloat64 res wireTestExtremeDefaultValues_NegInfDouble (NegInfDouble s) else Ret res,
     \<lambda>res. if \<not> float64_eq (NanDouble s) (0x7FF8000000000001) then AppendFloat64 res wireTestExtremeDefaultValues_NanDouble (NanDouble s) else Ret res,
     \<lambda>res. if \<not> float32_eq (InfFloat s) (0x7F800000) then AppendFloat32 res wireTestExtremeDefaultValues_InfFloat (InfFloat s) else Ret res,
     \<lambda>res. if \<not> float32_eq (NegInfFloat s) (0xFF800000) then AppendFloat32 res wireTestExtremeDefaultValues_NegInfFloat (NegInfFloat s) else Ret res,
     \<lambda>res. if \<not> float32_eq (NanFloat s) (0x7FC00000) then AppendFloat32 res wireTestExtremeDefaultValues_NanFloat (NanFloat s) else Ret res,
     \<lambda>res. if CppTrigraph s \<noteq> [63, 32, 92, 63, 32, 63, 63, 32, 92, 63, 63, 32, 92, 63, 63, 63, 32, 63, 63, 47, 32, 63, 92, 63, 45] then AppendString res wireTestExtremeDefaultValues_CppTrigraph (CppTrigraph s) else Ret res,
     \<lambda>res. if StringWithZero s \<noteq> [104, 101, 108, 92, 48, 48, 48, 108, 111] then AppendString res wireTestExtremeDefaultValues_StringWithZero (StringWithZero s) else Ret res,
     \<lambda>res. if BytesWithZero s \<noteq> [119, 111, 114, 92, 48, 48, 48, 108, 100] then AppendBytes res wireTestExtremeDefaultValues_BytesWithZero (BytesWithZero s) else Ret res,
     \<lambda>res. if StringPieceWithZero s \<noteq> [97, 98, 92, 48, 48, 48, 99] then AppendString res wireTestExtremeDefaultValues_StringPieceWithZero (StringPieceWithZero s) else Ret res,
     \<lambda>res. if CordWithZero s \<noteq> [49, 50, 92, 48, 48, 48, 51] then AppendString res wireTestExtremeDefaultValues_CordWithZero (CordWithZero s) else Ret res,
     \<lambda>res. if ReplacementString s \<noteq> bytes_of ''${unknown}'' then AppendString res wireTestExtremeDefaultValues_ReplacementString (ReplacementString s) else Ret res]"

definition TestExtremeDefaultValues_MarshalTo :: "Writer \<Rightarrow> TestExtremeDefaultValues option \<Rightarrow> Writer go" where
  "TestExtremeDefaultValues_MarshalTo = marshalToWith (\<lambda>s. TestExtremeDefaultValues_appends s)"

definition TestExtremeDefaultValues_sizes1 :: "TestExtremeDefaultValues \<Rightarrow> int list" where
  "TestExtremeDefaultValues_sizes1 s = [
     if EscapedBytes s \<noteq> [92, 48, 92, 48, 48, 49, 92, 97, 92, 98, 92, 102, 92, 110, 92, 114, 92, 116, 92, 118, 92, 92, 92, 39, 92, 34, 92, 120, 102, 101] then sizeDelimitedWithTag SizeBytes wireTestExtremeDefaultValues_EscapedBytes (EscapedBytes s) else 0,
     if LargeUint32 s \<noteq> 0xFFFFFFFF then sizeWithTag SizeUint32 wireTestExtremeDefaultValues_LargeUint32 (LargeUint32 s) else 0,
     if LargeUint64 s \<noteq> 0xFFFFFFFFFFFFFFFF then sizeWithTag SizeUint64 wireTestExtremeDefaultValues_LargeUint64 (LargeUint64 s) else 0,
     if SmallInt32 s \<noteq> - 0x7FFFFFFF then sizeWithTag SizeInt32 wireTestExtremeDefaultValues_SmallInt32 (SmallInt32 s) else 0,
     if SmallInt64 s \<noteq> - 0x7FFFFFFFFFFFFFFF then sizeWithTag SizeInt64 wireTestExtremeDefaultValues_SmallInt64 (SmallInt64 s) else 0,
     if ReallySmallInt32 s \<noteq> - 0x80000000 then sizeWithTag SizeInt32 wireTestExtremeDefaultValues_ReallySmallInt32 (ReallySmallInt32 s) else 0,
     if ReallySmallInt64 s \<noteq> - 0x8000000000000000 then sizeWithTag SizeInt64 wireTestExtremeDefaultValues_ReallySmallInt64 (ReallySmallInt64 s) else 0,
     if Utf8String s \<noteq> [92, 51, 52, 49, 92, 50, 49, 48, 92, 50, 54, 52] then sizeDelimitedWithTag SizeString wireTestExtremeDefaultValues_Utf8String (Utf8String s) else 0,
     if \<not> float32_is_zero (ZeroFloat s) then sizeWithTag SizeFloat32 wireTestExtremeDefaultValues_ZeroFloat (ZeroFloat s) else 0,
     if \<not> float32_eq (OneFloat s) (0x3F800000) then sizeWithTag SizeFloat32 wireTestExtremeDefaultValues_OneFloat (OneFloat s) else 0,
     if \<not> float32_eq (SmallFloat s) (0x3FC00000) then sizeWithTag SizeFloat32 wireTestExtremeDefaultValues_SmallFloat (SmallFloat s) else 0,
     if \<not> float32_eq (NegativeOneFloat s) (0xBF800000) then sizeWithTag SizeFloat32 wireTestExtremeDefaultValues_NegativeOneFloat (NegativeOneFloat s) else 0,
     if \<not> float32_eq (NegativeFloat s) (0xBFC00000) then sizeWithTag SizeFloat32 wireTestExtremeDefaultValues_NegativeFloat (NegativeFloat s) else 0,
     if \<not> float32_eq (LargeFloat s) (0x4D3EBC20) then sizeWithTag SizeFloat32 wireTestExtremeDefaultValues_LargeFloat (LargeFloat s) else 0,
     if \<not> float32_eq (SmallNegativeFloat s) (0x927D87B6) then sizeWithTag SizeFloat32 wireTestExtremeDefaultValues_SmallNegativeFloat (SmallNegativeFloat s) else 0,
     if \<not> float64_eq (InfDouble s) (0x7FF0000000000000) then sizeWithTag SizeFloat64 wireTestExtremeDefaultValues_InfDouble (InfDouble s) else 0,
     if \<not> float64_eq (NegInfDouble s) (0xFFF0000000000000) then sizeWithTag SizeFloat64 wireTestExtremeDefaultValues_NegInfDouble (NegInfDouble s) else 0,
     if \<not> float64_eq (NanDouble s) (0x7FF8000000000001) then sizeWithTag SizeFloat64 wireTestExtremeDefaultValues_NanDouble (NanDouble s) else 0,
     if \<not> float32_eq (InfFloat s) (0x7F800000) then sizeWithTag SizeFloat32 wireTestExtremeDefaultValues_InfFloat (InfFloat s) else 0,
     if \<not> float32_eq (NegInfFloat s) (0xFF800000) then sizeWithTag SizeFloat32 wireTestExtremeDefaultValues_NegInfFloat (NegInfFloat s) else 0,
     if \<not> float32_eq (NanFloat s) (0x7FC00000) then sizeWithTag SizeFloat32 wireTestExtremeDefaultValues_NanFloat (NanFloat s) else 0,
     if CppTrigraph s \<noteq> [63, 32, 92, 63, 32, 63, 63, 32, 92, 63, 63, 32, 92, 63, 63, 63, 32, 63, 63, 47, 32, 63, 92, 63, 45] then sizeDelimitedWithTag SizeString wireTestExtremeDefaultValues_CppTrigraph (CppTrigraph s) else 0,
     if StringWithZero s \<noteq> [104, 101, 108, 92, 48, 48, 48, 108, 111] then sizeDelimitedWithTag SizeString wireTestExtremeDefaultValues_StringWithZero (StringWithZero s) else 0,
     if BytesWithZero s \<noteq> [119, 111, 114, 92, 48, 48, 48, 108, 100] then sizeDelimitedWithTag SizeBytes wireTestExtremeDefaultValues_BytesWithZero (BytesWithZero s) else 0]"

definition TestExtremeDefaultValues_sizes2 :: "TestExtremeDefaultValues \<Rightarrow> int list" where
  "TestExtremeDefaultValues_sizes2 s = [
     if StringPieceWithZero s \<noteq> [97, 98, 92, 48, 48, 48, 99] then sizeDelimitedWithTag SizeString wireTestExtremeDefaultValues_StringPieceWithZero (StringPieceWithZero s) else 0,
     if CordWithZero s \<noteq> [49, 50, 92, 48, 48, 48, 51] then sizeDelimitedWithTag SizeString wireTestExtremeDefaultValues_CordWithZero (CordWithZero s) else 0,
     if ReplacementString s \<noteq> bytes_of ''${unknown}'' then sizeDelimitedWithTag SizeString wireTestExtremeDefaultValues_ReplacementString (ReplacementString s) else 0]"

definition TestExtremeDefaultValues_XXX_PbContentSize :: "TestExtremeDefaultValues option \<Rightarrow> int" where
  "TestExtremeDefaultValues_XXX_PbContentSize = contentSizeWith (\<lambda>s. TestExtremeDefaultValues_sizes1 s @ TestExtremeDefaultValues_sizes2 s)"

definition TestExtremeDefaultValues_Marshal :: "TestExtremeDefaultValues option \<Rightarrow> byte list go" where
  "TestExtremeDefaultValues_Marshal = marshalWith TestExtremeDefaultValues_XXX_PbContentSize TestExtremeDefaultValues_MarshalTo"

definition TestExtremeDefaultValues_Copy :: "TestExtremeDefaultValues option \<Rightarrow> TestExtremeDefaultValues option" where
  "TestExtremeDefaultValues_Copy s =
     (case s of None \<Rightarrow> None | Some s \<Rightarrow> Some \<lparr>
        EscapedBytes = EscapedBytes s, LargeUint32 = LargeUint32 s, LargeUint64 = LargeUint64 s,
        SmallInt32 = SmallInt32 s, SmallInt64 = SmallInt64 s,
        ReallySmallInt32 = ReallySmallInt32 s, ReallySmallInt64 = ReallySmallInt64 s,
        Utf8String = Utf8String s, ZeroFloat = ZeroFloat s, OneFloat = OneFloat s,
        SmallFloat = SmallFloat s, NegativeOneFloat = NegativeOneFloat s,
        NegativeFloat = NegativeFloat s, LargeFloat = LargeFloat s,
        SmallNegativeFloat = SmallNegativeFloat s, InfDouble = InfDouble s,
        NegInfDouble = NegInfDouble s, NanDouble = NanDouble s, InfFloat = InfFloat s,
        NegInfFloat = NegInfFloat s, NanFloat = NanFloat s, CppTrigraph = CppTrigraph s,
        StringWithZero = StringWithZero s, BytesWithZero = BytesWithZero s,
        StringPieceWithZero = StringPieceWithZero s, CordWithZero = CordWithZero s,
        ReplacementString = ReplacementString s\<rparr>)"

section \<open>TestExtremeDefaultValues: the round trip\<close>

definition TestExtremeDefaultValues_tags :: "ProtoWireNumber list" where
  "TestExtremeDefaultValues_tags = [
     wireTestExtremeDefaultValues_EscapedBytes, wireTestExtremeDefaultValues_LargeUint32,
     wireTestExtremeDefaultValues_LargeUint64, wireTestExtremeDefaultValues_SmallInt32,
     wireTestExtremeDefaultValues_SmallInt64, wireTestExtremeDefaultValues_ReallySmallInt32,
     wireTestExtremeDefaultValues_ReallySmallInt64, wireTestExtremeDefaultValues_Utf8String,
     wireTestExtremeDefaultValues_ZeroFloat, wireTestExtremeDefaultValues_OneFloat,
     wireTestExtremeDefaultValues_SmallFloat, wireTestExtremeDefaultValues_NegativeOneFloat,
     wireTestExtremeDefaultValues_NegativeFloat, wireTestExtremeDefaultValues_LargeFloat,
     wireTestExtremeDefaultValues_SmallNegativeFloat, wireTestExtremeDefaultValues_InfDouble,
     wireTestExtremeDefaultValues_NegInfDouble, wireTestExtremeDefaultValues_NanDouble,
     wireTestExtremeDefaultValues_InfFloat, wireTestExtremeDefaultValues_NegInfFloat,
     wireTestExtremeDefaultValues_NanFloat, wireTestExtremeDefaultValues_CppTrigraph,
     wireTestExtremeDefaultValues_StringWithZero, wireTestExtremeDefaultValues_BytesWithZero,
     wireTestExtremeDefaultValues_StringPieceWithZero,
     wireTestExtremeDefaultValues_CordWithZero, wireTestExtremeDefaultValues_ReplacementString]"

definition TestExtremeDefaultValues_groups :: "TestExtremeDefaultValues \<Rightarrow> wfield list list" where
  "TestExtremeDefaultValues_groups s = [
     opt_field (EscapedBytes s \<noteq> [92, 48, 92, 48, 48, 49, 92, 97, 92, 98, 92, 102, 92, 110, 92, 114, 92, 116, 92, 118, 92, 92, 92, 39, 92, 34, 92, 120, 102, 101]) (wireTestExtremeDefaultValues_EscapedBytes, WBytes (EscapedBytes s)),
     opt_field (LargeUint32 s \<noteq> 0xFFFFFFFF) (wireTestExtremeDefaultValues_LargeUint32, uint32_val (LargeUint32 s)),
     opt_field (LargeUint64 s \<noteq> 0xFFFFFFFFFFFFFFFF) (wireTestExtremeDefaultValues_LargeUint64, uint64_val (LargeUint64 s)),
     opt_field (SmallInt32 s \<noteq> - 0x7FFFFFFF) (wireTestExtremeDefaultValues_SmallInt32, int32_val (SmallInt32 s)),
     opt_field (SmallInt64 s \<noteq> - 0x7FFFFFFFFFFFFFFF) (wireTestExtremeDefaultValues_SmallInt64, int64_val (SmallInt64 s)),
     opt_field (ReallySmallInt32 s \<noteq> - 0x80000000) (wireTestExtremeDefaultValues_ReallySmallInt32, int32_val (ReallySmallInt32 s)),
     opt_field (ReallySmallInt64 s \<noteq> - 0x8000000000000000) (wireTestExtremeDefaultValues_ReallySmallInt64, int64_val (ReallySmallInt64 s)),
     opt_field (Utf8String s \<noteq> [92, 51, 52, 49, 92, 50, 49, 48, 92, 50, 54, 52]) (wireTestExtremeDefaultValues_Utf8String, WBytes (Utf8String s)),
     opt_field (\<not> float32_is_zero (ZeroFloat s)) (wireTestExtremeDefaultValues_ZeroFloat, WFixed32 (ZeroFloat s)),
     opt_field (\<not> float32_eq (OneFloat s) (0x3F800000)) (wireTestExtremeDefaultValues_OneFloat, WFixed32 (OneFloat s)),
     opt_field (\<not> float32_eq (SmallFloat s) (0x3FC00000)) (wireTestExtremeDefaultValues_SmallFloat, WFixed32 (SmallFloat s)),
     opt_field (\<not> float32_eq (NegativeOneFloat s) (0xBF800000)) (wireTestExtremeDefaultValues_NegativeOneFloat, WFixed32 (NegativeOneFloat s)),
     opt_field (\<not> float32_eq (NegativeFloat s) (0xBFC00000)) (wireTestExtremeDefaultValues_NegativeFloat, WFixed32 (NegativeFloat s)),
     opt_field (\<not> float32_eq (LargeFloat s) (0x4D3EBC20)) (wireTestExtremeDefaultValues_LargeFloat, WFixed32 (LargeFloat s)),
     opt_field (\<not> float32_eq (SmallNegativeFloat s) (0x927D87B6)) (wireTestExtremeDefaultValues_SmallNegativeFloat, WFixed32 (SmallNegativeFloat s)),
     opt_field (\<not> float64_eq (InfDouble s) (0x7FF0000000000000)) (wireTestExtremeDefaultValues_InfDouble, WFixed64 (InfDouble s)),
     opt_field (\<not> float64_eq (NegInfDouble s) (0xFFF0000000000000)) (wireTestExtremeDefaultValues_NegInfDouble, WFixed64 (NegInfDouble s)),
     opt_field (\<not> float64_eq (NanDouble s) (0x7FF8000000000001)) (wireTestExtremeDefaultValues_NanDouble, WFixed64 (NanDouble s)),
     opt_field (\<not> float32_eq (InfFloat s) (0x7F800000)) (wireTestExtremeDefaultValues_InfFloat, WFixed32 (InfFloat s)),
     opt_field (\<not> float32_eq (NegInfFloat s) (0xFF800000)) (wireTestExtremeDefaultValues_NegInfFloat, WFixed32 (NegInfFloat s)),
     opt_field (\<not> float32_eq (NanFloat s) (0x7FC00000)) (wireTestExtremeDefaultValues_NanFloat, WFixed32 (NanFloat s)),
     opt_field (CppTrigraph s \<noteq> [63, 32, 92, 63, 32, 63, 63, 32, 92, 63, 63, 32, 92, 63, 63, 63, 32, 63, 63, 47, 32, 63, 92, 63, 45]) (wireTestExtremeDefaultValues_CppTrigraph, WBytes (CppTrigraph s)),
     opt_field (StringWithZero s \<noteq> [104, 101, 108, 92, 48, 48, 48, 108, 111]) (wireTestExtremeDefaultValues_StringWithZero, WBytes (StringWithZero s)),
     opt_field (BytesWithZero s \<noteq> [119, 111, 114, 92, 48, 48, 48, 108, 100]) (wireTestExtremeDefaultValues_BytesWithZero, WBytes (BytesWithZero s)),
     opt_field (StringPieceWithZero s \<noteq> [97, 98, 92, 48, 48, 48, 99]) (wireTestExtremeDefaultValues_StringPieceWithZero, WBytes (StringPieceWithZero s)),
     opt_field (CordWithZero s \<noteq> [49, 50, 92, 48, 48, 48, 51]) (wireTestExtremeDefaultValues_CordWithZero, WBytes (CordWithZero s)),
     opt_field (ReplacementString s \<noteq> bytes_of ''${unknown}'') (wireTestExtremeDefaultValues_ReplacementString, WBytes (ReplacementString s))]"

definition TestExtremeDefaultValues_content :: "TestExtremeDefaultValues \<Rightarrow> wfield list" where
  "TestExtremeDefaultValues_content s = concat (TestExtremeDefaultValues_groups s)"

text \<open>What a round trip keeps.\<close>

definition TestExtremeDefaultValues_norm :: "TestExtremeDefaultValues \<Rightarrow> TestExtremeDefaultValues" where
  "TestExtremeDefaultValues_norm s = s\<lparr>
     ZeroFloat := if \<not> float32_is_zero (ZeroFloat s) then ZeroFloat s else 0x0\<rparr>"

definition TestExtremeDefaultValues_ready :: "Reader \<Rightarrow> TestExtremeDefaultValues \<Rightarrow> (TestExtremeDefaultValuesReader \<Rightarrow> bool) list" where
  "TestExtremeDefaultValues_ready p s = [
     \<lambda>m. cell_reads (readOne ReadByteList ([92, 48, 92, 48, 48, 49, 92, 97, 92, 98, 92, 102, 92, 110, 92, 114, 92, 116, 92, 118, 92, 92, 92, 39, 92, 34, 92, 120, 102, 101])) plain p (if EscapedBytes s \<noteq> [92, 48, 92, 48, 48, 49, 92, 97, 92, 98, 92, 102, 92, 110, 92, 114, 92, 116, 92, 118, 92, 92, 92, 39, 92, 34, 92, 120, 102, 101] then EscapedBytes s else [92, 48, 92, 48, 48, 49, 92, 97, 92, 98, 92, 102, 92, 110, 92, 114, 92, 116, 92, 118, 92, 92, 92, 39, 92, 34, 92, 120, 102, 101]) (cellEscapedBytes m),
     \<lambda>m. cell_reads (readOne ReadUint32 0xFFFFFFFF) plain p (if LargeUint32 s \<noteq> 0xFFFFFFFF then LargeUint32 s else 0xFFFFFFFF) (cellLargeUint32 m),
     \<lambda>m. cell_reads (readOne ReadUint64 0xFFFFFFFFFFFFFFFF) plain p (if LargeUint64 s \<noteq> 0xFFFFFFFFFFFFFFFF then LargeUint64 s else 0xFFFFFFFFFFFFFFFF) (cellLargeUint64 m),
     \<lambda>m. cell_reads (readOne ReadInt32 (- 0x7FFFFFFF)) plain p (if SmallInt32 s \<noteq> - 0x7FFFFFFF then SmallInt32 s else - 0x7FFFFFFF) (cellSmallInt32 m),
     \<lambda>m. cell_reads (readOne ReadInt64 (- 0x7FFFFFFFFFFFFFFF)) plain p (if SmallInt64 s \<noteq> - 0x7FFFFFFFFFFFFFFF then SmallInt64 s else - 0x7FFFFFFFFFFFFFFF) (cellSmallInt64 m),
     \<lambda>m. cell_reads (readOne ReadInt32 (- 0x80000000)) plain p (if ReallySmallInt32 s \<noteq> - 0x80000000 then ReallySmallInt32 s else - 0x80000000) (cellReallySmallInt32 m),
     \<lambda>m. cell_reads (readOne ReadInt64 (- 0x8000000000000000)) plain p (if ReallySmallInt64 s \<noteq> - 0x8000000000000000 then ReallySmallInt64 s else - 0x8000000000000000) (cellReallySmallInt64 m),
     \<lambda>m. cell_reads (readOne ReadString ([92, 51, 52, 49, 92, 50, 49, 48, 92, 50, 54, 52])) plain p (if Utf8String s \<noteq> [92, 51, 52, 49, 92, 50, 49, 48, 92, 50, 54, 52] then Utf8String s else [92, 51, 52, 49, 92, 50, 49, 48, 92, 50, 54, 52]) (cellUtf8String m),
     \<lambda>m. cell_reads (readOne ReadFloat32 0x0) plain p (if \<not> float32_is_zero (ZeroFloat s) then ZeroFloat s else 0x0) (cellZeroFloat m),
     \<lambda>m. cell_reads (readOne ReadFloat32 0x3F800000) plain p (if \<not> float32_eq (OneFloat s) (0x3F800000) then OneFloat s else 0x3F800000) (cellOneFloat m),
     \<lambda>m. cell_reads (readOne ReadFloat32 0x3FC00000) plain p (if \<not> float32_eq (SmallFloat s) (0x3FC00000) then SmallFloat s else 0x3FC00000) (cellSmallFloat m),
     \<lambda>m. cell_reads (readOne ReadFloat32 0xBF800000) plain p (if \<not> float32_eq (NegativeOneFloat s) (0xBF800000) then NegativeOneFloat s else 0xBF800000) (cellNegativeOneFloat m),
     \<lambda>m. cell_reads (readOne ReadFloat32 0xBFC00000) plain p (if \<not> float32_eq (NegativeFloat s) (0xBFC00000) then NegativeFloat s else 0xBFC00000) (cellNegativeFloat m),
     \<lambda>m. cell_reads (readOne ReadFloat32 0x4D3EBC20) plain p (if \<not> float32_eq (LargeFloat s) (0x4D3EBC20) then LargeFloat s else 0x4D3EBC20) (cellLargeFloat m),
     \<lambda>m. cell_reads (readOne ReadFloat32 0x927D87B6) plain p (if \<not> float32_eq (SmallNegativeFloat s) (0x927D87B6) then SmallNegativeFloat s else 0x927D87B6) (cellSmallNegativeFloat m),
     \<lambda>m. cell_reads (readOne ReadFloat64 0x7FF0000000000000) plain p (if \<not> float64_eq (InfDouble s) (0x7FF0000000000000) then InfDouble s else 0x7FF0000000000000) (cellInfDouble m),
     \<lambda>m. cell_reads (readOne ReadFloat64 0xFFF0000000000000) plain p (if \<not> float64_eq (NegInfDouble s) (0xFFF0000000000000) then NegInfDouble s else 0xFFF0000000000000) (cellNegInfDouble m),
     \<lambda>m. cell_reads (readOne ReadFloat64 0x7FF8000000000001) plain p (if \<not> float64_eq (NanDouble s) (0x7FF8000000000001) then NanDouble s else 0x7FF8000000000001) (cellNanDouble m),
     \<lambda>m. cell_reads (readOne ReadFloat32 0x7F800000) plain p (if \<not> float32_eq (InfFloat s) (0x7F800000) then InfFloat s else 0x7F800000) (cellInfFloat m),
     \<lambda>m. cell_reads (readOne ReadFloat32 0xFF800000) plain p (if \<not> float32_eq (NegInfFloat s) (0xFF800000) then NegInfFloat s else 0xFF800000) (cellNegInfFloat m),
     \<lambda>m. cell_reads (readOne ReadFloat32 0x7FC00000) plain p (if \<not> float32_eq (NanFloat s) (0x7FC00000) then NanFloat s else 0x7FC00000) (cellNanFloat m),
     \<lambda>m. cell_reads (readOne ReadString ([63, 32, 92, 63, 32, 63, 63, 32, 92, 63, 63, 32, 92, 63, 63, 63, 32, 63, 63, 47, 32, 63, 92, 63, 45])) plain p (if CppTrigraph s \<noteq> [63, 32, 92, 63, 32, 63, 63, 32, 92, 63, 63, 32, 92, 63, 63, 63, 32, 63, 63, 47, 32, 63, 92, 63, 45] then CppTrigraph s else [63, 32, 92, 63, 32, 63, 63, 32, 92, 63, 63, 32, 92, 63, 63, 63, 32, 63, 63, 47, 32, 63, 92, 63, 45]) (cellCppTrigraph m),
     \<lambda>m. cell_reads (readOne ReadString ([104, 101, 108, 92, 48, 48, 48, 108, 111])) plain p (if StringWithZero s \<noteq> [104, 101, 108, 92, 48, 48, 48, 108, 111] then StringWithZero s else [104, 101, 108, 92, 48, 48, 48, 108, 111]) (cellStringWithZero m),
     \<lambda>m. cell_reads (readOne ReadByteList ([119, 111, 114, 92, 48, 48, 48, 108, 100])) plain p (if BytesWithZero s \<noteq> [119, 111, 114, 92, 48, 48, 48, 108, 100] then BytesWithZero s else [119, 111, 114, 92, 48, 48, 48, 108, 100]) (cellBytesWithZero m),
     \<lambda>m. cell_reads (readOne ReadString ([97, 98, 92, 48, 48, 48, 99])) plain p (if StringPieceWithZero s \<noteq> [97, 98, 92, 48, 48, 48, 99] then StringPieceWithZero s else [97, 98, 92, 48, 48, 48, 99]) (cellStringPieceWithZero m),
     \<lambda>m. cell_reads (readOne ReadString ([49, 50, 92, 48, 48, 48, 51])) plain p (if CordWithZero s \<noteq> [49, 50, 92, 48, 48, 48, 51] then CordWithZero s else [49, 50, 92, 48, 48, 48, 51]) (cellCordWithZero m),
     \<lambda>m. cell_reads (readOne ReadString (bytes_of ''${unknown}'')) plain p (if ReplacementString s \<noteq> bytes_of ''${unknown}'' then ReplacementString s else bytes_of ''${unknown}'') (cellReplacementString m)]"

definition TestExtremeDefaultValues_stored :: "TestExtremeDefaultValues \<Rightarrow> (TestExtremeDefaultValues \<Rightarrow> TestExtremeDefaultValues) list" where
  "TestExtremeDefaultValues_stored s = [
     \<lambda>res. res\<lparr>EscapedBytes := if EscapedBytes s \<noteq> [92, 48, 92, 48, 48, 49, 92, 97, 92, 98, 92, 102, 92, 110, 92, 114, 92, 116, 92, 118, 92, 92, 92, 39, 92, 34, 92, 120, 102, 101] then EscapedBytes s else [92, 48, 92, 48, 48, 49, 92, 97, 92, 98, 92, 102, 92, 110, 92, 114, 92, 116, 92, 118, 92, 92, 92, 39, 92, 34, 92, 120, 102, 101]\<rparr>,
     \<lambda>res. res\<lparr>LargeUint32 := if LargeUint32 s \<noteq> 0xFFFFFFFF then LargeUint32 s else 0xFFFFFFFF\<rparr>,
     \<lambda>res. res\<lparr>LargeUint64 := if LargeUint64 s \<noteq> 0xFFFFFFFFFFFFFFFF then LargeUint64 s else 0xFFFFFFFFFFFFFFFF\<rparr>,
     \<lambda>res. res\<lparr>SmallInt32 := if SmallInt32 s \<noteq> - 0x7FFFFFFF then SmallInt32 s else - 0x7FFFFFFF\<rparr>,
     \<lambda>res. res\<lparr>SmallInt64 := if SmallInt64 s \<noteq> - 0x7FFFFFFFFFFFFFFF then SmallInt64 s else - 0x7FFFFFFFFFFFFFFF\<rparr>,
     \<lambda>res. res\<lparr>ReallySmallInt32 := if ReallySmallInt32 s \<noteq> - 0x80000000 then ReallySmallInt32 s else - 0x80000000\<rparr>,
     \<lambda>res. res\<lparr>ReallySmallInt64 := if ReallySmallInt64 s \<noteq> - 0x8000000000000000 then ReallySmallInt64 s else - 0x8000000000000000\<rparr>,
     \<lambda>res. res\<lparr>Utf8String := if Utf8String s \<noteq> [92, 51, 52, 49, 92, 50, 49, 48, 92, 50, 54, 52] then Utf8String s else [92, 51, 52, 49, 92, 50, 49, 48, 92, 50, 54, 52]\<rparr>,
     \<lambda>res. res\<lparr>ZeroFloat := if \<not> float32_is_zero (ZeroFloat s) then ZeroFloat s else 0x0\<rparr>,
     \<lambda>res. res\<lparr>OneFloat := if \<not> float32_eq (OneFloat s) (0x3F800000) then OneFloat s else 0x3F800000\<rparr>,
     \<lambda>res. res\<lparr>SmallFloat := if \<not> float32_eq (SmallFloat s) (0x3FC00000) then SmallFloat s else 0x3FC00000\<rparr>,
     \<lambda>res. res\<lparr>NegativeOneFloat := if \<not> float32_eq (NegativeOneFloat s) (0xBF800000) then NegativeOneFloat s else 0xBF800000\<rparr>,
     \<lambda>res. res\<lparr>NegativeFloat := if \<not> float32_eq (NegativeFloat s) (0xBFC00000) then NegativeFloat s else 0xBFC00000\<rparr>,
     \<lambda>res. res\<lparr>LargeFloat := if \<not> float32_eq (LargeFloat s) (0x4D3EBC20) then LargeFloat s else 0x4D3EBC20\<rparr>,
     \<lambda>res. res\<lparr>SmallNegativeFloat := if \<not> float32_eq (SmallNegativeFloat s) (0x927D87B6) then SmallNegativeFloat s else 0x927D87B6\<rparr>,
     \<lambda>res. res\<lparr>InfDouble := if \<not> float64_eq (InfDouble s) (0x7FF0000000000000) then InfDouble s else 0x7FF0000000000000\<rparr>,
     \<lambda>res. res\<lparr>NegInfDouble := if \<not> float64_eq (NegInfDouble s) (0xFFF0000000000000) then NegInfDouble s else 0xFFF0000000000000\<rparr>,
     \<lambda>res. res\<lparr>NanDouble := if \<not> float64_eq (NanDouble s) (0x7FF8000000000001) then NanDouble s else 0x7FF8000000000001\<rparr>,
     \<lambda>res. res\<lparr>InfFloat := if \<not> float32_eq (InfFloat s) (0x7F800000) then InfFloat s else 0x7F800000\<rparr>,
     \<lambda>res. res\<lparr>NegInfFloat := if \<not> float32_eq (NegInfFloat s) (0xFF800000) then NegInfFloat s else 0xFF800000\<rparr>,
     \<lambda>res. res\<lparr>NanFloat := if \<not> float32_eq (NanFloat s) (0x7FC00000) then NanFloat s else 0x7FC00000\<rparr>,
     \<lambda>res. res\<lparr>CppTrigraph := if CppTrigraph s \<noteq> [63, 32, 92, 63, 32, 63, 63, 32, 92, 63, 63, 32, 92, 63, 63, 63, 32, 63, 63, 47, 32, 63, 92, 63, 45] then CppTrigraph s else [63, 32, 92, 63, 32, 63, 63, 32, 92, 63, 63, 32, 92, 63, 63, 63, 32, 63, 63, 47, 32, 63, 92, 63, 45]\<rparr>,
     \<lambda>res. res\<lparr>StringWithZero := if StringWithZero s \<noteq> [104, 101, 108, 92, 48, 48, 48, 108, 111] then StringWithZero s else [104, 101, 108, 92, 48, 48, 48, 108, 111]\<rparr>,
     \<lambda>res. res\<lparr>BytesWithZero := if BytesWithZero s \<noteq> [119, 111, 114, 92, 48, 48, 48, 108, 100] then BytesWithZero s else [119, 111, 114, 92, 48, 48, 48, 108, 100]\<rparr>,
     \<lambda>res. res\<lparr>StringPieceWithZero := if StringPieceWithZero s \<noteq> [97, 98, 92, 48, 48, 48, 99] then StringPieceWithZero s else [97, 98, 92, 48, 48, 48, 99]\<rparr>,
     \<lambda>res. res\<lparr>CordWithZero := if CordWithZero s \<noteq> [49, 50, 92, 48, 48, 48, 51] then CordWithZero s else [49, 50, 92, 48, 48, 48, 51]\<rparr>,
     \<lambda>res. res\<lparr>ReplacementString := if ReplacementString s \<noteq> bytes_of ''${unknown}'' then ReplacementString s else bytes_of ''${unknown}''\<rparr>]"

lemma TestExtremeDefaultValues_cases_distinct: "distinct (map fst (TestExtremeDefaultValuesReader_cases wire offset))"
  by (simp add: TestExtremeDefaultValuesReader_cases_def wireTestExtremeDefaultValues)

lemma TestExtremeDefaultValues_stores:
  "stores_cell TestExtremeDefaultValuesReader_save wireTestExtremeDefaultValues_EscapedBytes setOffset cellEscapedBytes"
  "stores_cell TestExtremeDefaultValuesReader_save wireTestExtremeDefaultValues_LargeUint32 setOffset cellLargeUint32"
  "stores_cell TestExtremeDefaultValuesReader_save wireTestExtremeDefaultValues_LargeUint64 setOffset cellLargeUint64"
  "stores_cell TestExtremeDefaultValuesReader_save wireTestExtremeDefaultValues_SmallInt32 setOffset cellSmallInt32"
  "stores_cell TestExtremeDefaultValuesReader_save wireTestExtremeDefaultValues_SmallInt64 setOffset cellSmallInt64"
  "stores_cell TestExtremeDefaultValuesReader_save wireTestExtremeDefaultValues_ReallySmallInt32 setOffset cellReallySmallInt32"
  "stores_cell TestExtremeDefaultValuesReader_save wireTestExtremeDefaultValues_ReallySmallInt64 setOffset cellReallySmallInt64"
  "stores_cell TestExtremeDefaultValuesReader_save wireTestExtremeDefaultValues_Utf8String setOffset cellUtf8String"
  "stores_cell TestExtremeDefaultValuesReader_save wireTestExtremeDefaultValues_ZeroFloat setOffset cellZeroFloat"
  "stores_cell TestExtremeDefaultValuesReader_save wireTestExtremeDefaultValues_OneFloat setOffset cellOneFloat"
  "stores_cell TestExtremeDefaultValuesReader_save wireTestExtremeDefaultValues_SmallFloat setOffset cellSmallFloat"
  "stores_cell TestExtremeDefaultValuesReader_save wireTestExtremeDefaultValues_NegativeOneFloat setOffset cellNegativeOneFloat"
  "stores_cell TestExtremeDefaultValuesReader_save wireTestExtremeDefaultValues_NegativeFloat setOffset cellNegativeFloat"
  "stores_cell TestExtremeDefaultValuesReader_save wireTestExtremeDefaultValues_LargeFloat setOffset cellLargeFloat"
  "stores_cell TestExtremeDefaultValuesReader_save wireTestExtremeDefaultValues_SmallNegativeFloat setOffset cellSmallNegativeFloat"
  "stores_cell TestExtremeDefaultValuesReader_save wireTestExtremeDefaultValues_InfDouble setOffset cellInfDouble"
  "stores_cell TestExtremeDefaultValuesReader_save wireTestExtremeDefaultValues_NegInfDouble setOffset cellNegInfDouble"
  "stores_cell TestExtremeDefaultValuesReader_save wireTestExtremeDefaultValues_NanDouble setOffset cellNanDouble"
  "stores_cell TestExtremeDefaultValuesReader_save wireTestExtremeDefaultValues_InfFloat setOffset cellInfFloat"
  "stores_cell TestExtremeDefaultValuesReader_save wireTestExtremeDefaultValues_NegInfFloat setOffset cellNegInfFloat"
  "stores_cell TestExtremeDefaultValuesReader_save wireTestExtremeDefaultValues_NanFloat setOffset cellNanFloat"
  "stores_cell TestExtremeDefaultValuesReader_save wireTestExtremeDefaultValues_CppTrigraph setOffset cellCppTrigraph"
  "stores_cell TestExtremeDefaultValuesReader_save wireTestExtremeDefaultValues_StringWithZero setOffset cellStringWithZero"
  "stores_cell TestExtremeDefaultValuesReader_save wireTestExtremeDefaultValues_BytesWithZero setOffset cellBytesWithZero"
  "stores_cell TestExtremeDefaultValuesReader_save wireTestExtremeDefaultValues_StringPieceWithZero setOffset cellStringPieceWithZero"
  "stores_cell TestExtremeDefaultValuesReader_save wireTestExtremeDefaultValues_CordWithZero setOffset cellCordWithZero"
  "stores_cell TestExtremeDefaultValuesReader_save wireTestExtremeDefaultValues_ReplacementString setOffset cellReplacementString"
  unfolding TestExtremeDefaultValuesReader_save_def [abs_def] by (rule stores_cell_switch; (rule TestExtremeDefaultValues_cases_distinct)?; unfold TestExtremeDefaultValuesReader_cases_def; intro own_case.intros; simp)+

lemma TestExtremeDefaultValues_saved: "good_fields TestExtremeDefaultValuesReader_save p (NewTestExtremeDefaultValuesReader\<lparr>mbuf := Some p\<rparr>) TestExtremeDefaultValues_tags (TestExtremeDefaultValues_groups s) (TestExtremeDefaultValues_ready p s)"
  unfolding TestExtremeDefaultValues_tags_def TestExtremeDefaultValues_groups_def TestExtremeDefaultValues_ready_def
  by (intro good_fields.intros field_saved TestExtremeDefaultValues_stores) (simp_all add: NewTestExtremeDefaultValuesReader_def newCell_def)

lemma TestExtremeDefaultValues_converted: "good_stmts mbuf p (TestExtremeDefaultValues_stmts) (TestExtremeDefaultValues_ready p s) (TestExtremeDefaultValues_stored s)"
  unfolding TestExtremeDefaultValues_stmts_def TestExtremeDefaultValues_ready_def TestExtremeDefaultValues_stored_def TestExtremeDefaultValues_getters append.simps
  by (intro good_stmts_field good_stmts.Nil) (simp_all cong: cell_reads_cong)

interpretation l_TestExtremeDefaultValues: lazy_message TestExtremeDefaultValues_tags TestExtremeDefaultValues_groups TestExtremeDefaultValues_norm
  "\<lambda>s. TestExtremeDefaultValues_sizes1 s @ TestExtremeDefaultValues_sizes2 s" "\<lambda>s. TestExtremeDefaultValues_appends s"
  TestExtremeDefaultValuesReader_save "\<lambda>p. NewTestExtremeDefaultValuesReader\<lparr>mbuf := Some p\<rparr>" mbuf "TestExtremeDefaultValues_stmts" TestExtremeDefaultValues_zero TestExtremeDefaultValues_ready TestExtremeDefaultValues_stored
proof
  show "distinct TestExtremeDefaultValues_tags"
    using TestExtremeDefaultValues_cases_distinct by (simp only: TestExtremeDefaultValuesReader_cases_def TestExtremeDefaultValues_tags_def list.map fst_conv)
  show "list_all valid_tag TestExtremeDefaultValues_tags"
    by (simp add: TestExtremeDefaultValues_tags_def wireTestExtremeDefaultValues valid_tag_def)
  show "list_all2 (\<lambda>t g. \<forall>f \<in> set g. fst f = t \<and> wf_val (snd f)) TestExtremeDefaultValues_tags (TestExtremeDefaultValues_groups s)" for s
    unfolding TestExtremeDefaultValues_tags_def TestExtremeDefaultValues_groups_def by (intro list.rel_intros field_tagged)
  show "list_all2 (\<lambda>e g. e = int (length (fields_bytes g))) (TestExtremeDefaultValues_sizes1 s @ TestExtremeDefaultValues_sizes2 s) (TestExtremeDefaultValues_groups s)" for s
    unfolding TestExtremeDefaultValues_sizes1_def TestExtremeDefaultValues_sizes2_def TestExtremeDefaultValues_groups_def append.simps
    by (intro list.rel_intros field_sized)
  show "list_all2 (\<lambda>st g. writes st (fields_bytes g)) (TestExtremeDefaultValues_appends s) (TestExtremeDefaultValues_groups s)" for s
    unfolding TestExtremeDefaultValues_appends_def TestExtremeDefaultValues_groups_def append.simps
    by (intro list.rel_intros field_written)
  show "mbuf (TestExtremeDefaultValuesReader_save t w off m) = mbuf m" for t w off m
    unfolding TestExtremeDefaultValuesReader_save_def by (rule tag_switch_keeps) (simp add: TestExtremeDefaultValuesReader_cases_def)
  show "fold (\<lambda>e. e) (TestExtremeDefaultValues_stored s) TestExtremeDefaultValues_zero = TestExtremeDefaultValues_norm s" for s
    unfolding TestExtremeDefaultValues_stored_def by (simp add: TestExtremeDefaultValues_zero_def TestExtremeDefaultValues_norm_def float_defaults)
qed (simp_all add: TestExtremeDefaultValues_saved TestExtremeDefaultValues_converted)

interpretation m_TestExtremeDefaultValues: message_codec TestExtremeDefaultValues_content TestExtremeDefaultValues_norm TestExtremeDefaultValues_XXX_PbContentSize TestExtremeDefaultValues_MarshalTo
  "TestExtremeDefaultValuesReader_Unmarshal NewTestExtremeDefaultValuesReader" TestExtremeDefaultValuesReader_ToStruct
  using l_TestExtremeDefaultValues.message
  by (simp only: TestExtremeDefaultValues_content_def [abs_def] TestExtremeDefaultValues_XXX_PbContentSize_def TestExtremeDefaultValues_MarshalTo_def TestExtremeDefaultValuesReader_Unmarshal_def [abs_def] TestExtremeDefaultValuesReader_ToStruct_def)


section \<open>DefaultBoolTest: the reader\<close>

definition wireDefaultBoolTest_DefaultBool :: ProtoWireNumber where "wireDefaultBoolTest_DefaultBool = 73"

lemmas wireDefaultBoolTest =
  wireDefaultBoolTest_DefaultBool_def

record DefaultBoolTestReader =
  mbuf :: "Reader option"
  cellDefaultBool :: "bool one_cell"

definition NewDefaultBoolTestReader :: DefaultBoolTestReader where
  "NewDefaultBoolTestReader = \<lparr>
     mbuf = None, cellDefaultBool = newCell False 0\<rparr>"

definition DefaultBoolTestReader_readDefaultBool :: "DefaultBoolTestReader \<Rightarrow> (bool \<times> DefaultBoolTestReader) run" where
  "DefaultBoolTestReader_readDefaultBool = readCell cellDefaultBool cellDefaultBool_update mbuf (readOne ReadBool True)"

definition DefaultBoolTestReader_GetDefaultBool :: "DefaultBoolTestReader option \<Rightarrow> (bool \<times> DefaultBoolTestReader option) run" where
  "DefaultBoolTestReader_GetDefaultBool = getter DefaultBoolTestReader_readDefaultBool True"

lemmas DefaultBoolTest_getters =
  DefaultBoolTestReader_readDefaultBool_def DefaultBoolTestReader_GetDefaultBool_def

definition DefaultBoolTestReader_cases :: "ProtoWireType \<Rightarrow> int \<Rightarrow> (ProtoWireNumber \<times> (DefaultBoolTestReader \<Rightarrow> DefaultBoolTestReader)) list" where
  "DefaultBoolTestReader_cases wire offset = [
     (wireDefaultBoolTest_DefaultBool, \<lambda>m. m\<lparr>cellDefaultBool := onOffset (setOffset wire offset) (cellDefaultBool m)\<rparr>)]"

definition DefaultBoolTestReader_save :: "ProtoWireNumber \<Rightarrow> ProtoWireType \<Rightarrow> int \<Rightarrow> DefaultBoolTestReader \<Rightarrow> DefaultBoolTestReader" where
  "DefaultBoolTestReader_save tag wire offset = tag_switch (DefaultBoolTestReader_cases wire offset) tag"

definition DefaultBoolTestReader_Unmarshal :: "DefaultBoolTestReader \<Rightarrow> gslice \<Rightarrow> (DefaultBoolTestReader \<times> string option) run" where
  "DefaultBoolTestReader_Unmarshal m data =
     unmarshalLoop DefaultBoolTestReader_save (NewReader data) 0 (m\<lparr>mbuf := Some (NewReader data)\<rparr>)"

definition DefaultBoolTestReader_SourceBytes :: "DefaultBoolTestReader option \<Rightarrow> gslice" where
  "DefaultBoolTestReader_SourceBytes s = (case s of None \<Rightarrow> nil_slice | Some r \<Rightarrow> Bytes (mbuf r))"

section \<open>DefaultBoolTest: the struct\<close>

record DefaultBoolTest =
  DefaultBool :: bool

definition DefaultBoolTest_zero :: DefaultBoolTest where
  "DefaultBoolTest_zero = \<lparr>
     DefaultBool = False\<rparr>"

definition DefaultBoolTest_stmts :: "(DefaultBoolTest \<times> DefaultBoolTestReader option \<Rightarrow> (DefaultBoolTest \<times> DefaultBoolTestReader option) run) list" where
  "DefaultBoolTest_stmts = [
     assign DefaultBoolTestReader_GetDefaultBool (\<lambda>v res. res\<lparr>DefaultBool := v\<rparr>)]"

definition DefaultBoolTestReader_ToStruct :: "DefaultBoolTestReader option \<Rightarrow> (DefaultBoolTest option \<times> DefaultBoolTestReader option) run" where
  "DefaultBoolTestReader_ToStruct = toStructWith (DefaultBoolTest_stmts) DefaultBoolTest_zero"

definition DefaultBoolTest_appends :: "DefaultBoolTest \<Rightarrow> (Writer \<Rightarrow> Writer go) list" where
  "DefaultBoolTest_appends s = [
     \<lambda>res. if DefaultBool s \<noteq> True then AppendBool res wireDefaultBoolTest_DefaultBool (DefaultBool s) else Ret res]"

definition DefaultBoolTest_MarshalTo :: "Writer \<Rightarrow> DefaultBoolTest option \<Rightarrow> Writer go" where
  "DefaultBoolTest_MarshalTo = marshalToWith (\<lambda>s. DefaultBoolTest_appends s)"

definition DefaultBoolTest_sizes :: "DefaultBoolTest \<Rightarrow> int list" where
  "DefaultBoolTest_sizes s = [
     if DefaultBool s \<noteq> True then sizeWithTag SizeBool wireDefaultBoolTest_DefaultBool (DefaultBool s) else 0]"

definition DefaultBoolTest_XXX_PbContentSize :: "DefaultBoolTest option \<Rightarrow> int" where
  "DefaultBoolTest_XXX_PbContentSize = contentSizeWith (\<lambda>s. DefaultBoolTest_sizes s)"

definition DefaultBoolTest_Marshal :: "DefaultBoolTest option \<Rightarrow> byte list go" where
  "DefaultBoolTest_Marshal = marshalWith DefaultBoolTest_XXX_PbContentSize DefaultBoolTest_MarshalTo"

definition DefaultBoolTest_Copy :: "DefaultBoolTest option \<Rightarrow> DefaultBoolTest option" where
  "DefaultBoolTest_Copy s =
     (case s of None \<Rightarrow> None | Some s \<Rightarrow> Some \<lparr>
        DefaultBool = DefaultBool s\<rparr>)"

section \<open>DefaultBoolTest: the round trip\<close>

definition DefaultBoolTest_tags :: "ProtoWireNumber list" where
  "DefaultBoolTest_tags = [
     wireDefaultBoolTest_DefaultBool]"

definition DefaultBoolTest_groups :: "DefaultBoolTest \<Rightarrow> wfield list list" where
  "DefaultBoolTest_groups s = [
     opt_field (DefaultBool s \<noteq> True) (wireDefaultBoolTest_DefaultBool, bool_val (DefaultBool s))]"

definition DefaultBoolTest_content :: "DefaultBoolTest \<Rightarrow> wfield list" where
  "DefaultBoolTest_content s = concat (DefaultBoolTest_groups s)"

text \<open>What a round trip keeps.\<close>

definition DefaultBoolTest_norm :: "DefaultBoolTest \<Rightarrow> DefaultBoolTest" where
  "DefaultBoolTest_norm s = s"

definition DefaultBoolTest_ready :: "Reader \<Rightarrow> DefaultBoolTest \<Rightarrow> (DefaultBoolTestReader \<Rightarrow> bool) list" where
  "DefaultBoolTest_ready p s = [
     \<lambda>m. cell_reads (readOne ReadBool True) plain p (if DefaultBool s \<noteq> True then DefaultBool s else True) (cellDefaultBool m)]"

definition DefaultBoolTest_stored :: "DefaultBoolTest \<Rightarrow> (DefaultBoolTest \<Rightarrow> DefaultBoolTest) list" where
  "DefaultBoolTest_stored s = [
     \<lambda>res. res\<lparr>DefaultBool := if DefaultBool s \<noteq> True then DefaultBool s else True\<rparr>]"

lemma DefaultBoolTest_cases_distinct: "distinct (map fst (DefaultBoolTestReader_cases wire offset))"
  by (rule ascending_distinct) (simp add: DefaultBoolTestReader_cases_def wireDefaultBoolTest)

lemma DefaultBoolTest_stores:
  "stores_cell DefaultBoolTestReader_save wireDefaultBoolTest_DefaultBool setOffset cellDefaultBool"
  unfolding DefaultBoolTestReader_save_def [abs_def] by (rule stores_cell_switch; (rule DefaultBoolTest_cases_distinct)?; unfold DefaultBoolTestReader_cases_def; intro own_case.intros; simp)+

lemma DefaultBoolTest_saved: "good_fields DefaultBoolTestReader_save p (NewDefaultBoolTestReader\<lparr>mbuf := Some p\<rparr>) DefaultBoolTest_tags (DefaultBoolTest_groups s) (DefaultBoolTest_ready p s)"
  unfolding DefaultBoolTest_tags_def DefaultBoolTest_groups_def DefaultBoolTest_ready_def
  by (intro good_fields.intros field_saved DefaultBoolTest_stores) (simp_all add: NewDefaultBoolTestReader_def newCell_def)

lemma DefaultBoolTest_converted: "good_stmts mbuf p (DefaultBoolTest_stmts) (DefaultBoolTest_ready p s) (DefaultBoolTest_stored s)"
  unfolding DefaultBoolTest_stmts_def DefaultBoolTest_ready_def DefaultBoolTest_stored_def DefaultBoolTest_getters append.simps
  by (intro good_stmts_field good_stmts.Nil) (simp_all cong: cell_reads_cong)

interpretation l_DefaultBoolTest: lazy_message DefaultBoolTest_tags DefaultBoolTest_groups DefaultBoolTest_norm
  "\<lambda>s. DefaultBoolTest_sizes s" "\<lambda>s. DefaultBoolTest_appends s"
  DefaultBoolTestReader_save "\<lambda>p. NewDefaultBoolTestReader\<lparr>mbuf := Some p\<rparr>" mbuf "DefaultBoolTest_stmts" DefaultBoolTest_zero DefaultBoolTest_ready DefaultBoolTest_stored
proof
  show "distinct DefaultBoolTest_tags"
    using DefaultBoolTest_cases_distinct by (simp only: DefaultBoolTestReader_cases_def DefaultBoolTest_tags_def list.map fst_conv)
  show "list_all valid_tag DefaultBoolTest_tags"
    by (simp add: DefaultBoolTest_tags_def wireDefaultBoolTest valid_tag_def)
  show "list_all2 (\<lambda>t g. \<forall>f \<in> set g. fst f = t \<and> wf_val (snd f)) DefaultBoolTest_tags (DefaultBoolTest_groups s)" for s
    unfolding DefaultBoolTest_tags_def DefaultBoolTest_groups_def by (intro list.rel_intros field_tagged)
  show "list_all2 (\<lambda>e g. e = int (length (fields_bytes g))) (DefaultBoolTest_sizes s) (DefaultBoolTest_groups s)" for s
    unfolding DefaultBoolTest_sizes_def DefaultBoolTest_groups_def append.simps
    by (intro list.rel_intros field_sized)
  show "list_all2 (\<lambda>st g. writes st (fields_bytes g)) (DefaultBoolTest_appends s) (DefaultBoolTest_groups s)" for s
    unfolding DefaultBoolTest_appends_def DefaultBoolTest_groups_def append.simps
    by (intro list.rel_intros field_written)
  show "mbuf (DefaultBoolTestReader_save t w off m) = mbuf m" for t w off m
    unfolding DefaultBoolTestReader_save_def by (rule tag_switch_keeps) (simp add: DefaultBoolTestReader_cases_def)
  show "fold (\<lambda>e. e) (DefaultBoolTest_stored s) DefaultBoolTest_zero = DefaultBoolTest_norm s" for s
    unfolding DefaultBoolTest_stored_def by (simp add: DefaultBoolTest_zero_def DefaultBoolTest_norm_def float_defaults)
qed (simp_all add: DefaultBoolTest_saved DefaultBoolTest_converted)

interpretation m_DefaultBoolTest: message_codec DefaultBoolTest_content DefaultBoolTest_norm DefaultBoolTest_XXX_PbContentSize DefaultBoolTest_MarshalTo
  "DefaultBoolTestReader_Unmarshal NewDefaultBoolTestReader" DefaultBoolTestReader_ToStruct
  using l_DefaultBoolTest.message
  by (simp only: DefaultBoolTest_content_def [abs_def] DefaultBoolTest_XXX_PbContentSize_def DefaultBoolTest_MarshalTo_def DefaultBoolTestReader_Unmarshal_def [abs_def] DefaultBoolTestReader_ToStruct_def)


section \<open>TestCommentInjectionMessage: the reader\<close>

definition wireTestCommentInjectionMessage_A :: ProtoWireNumber where "wireTestCommentInjectionMessage_A = 1"

lemmas wireTestCommentInjectionMessage =
  wireTestCommentInjectionMessage_A_def

record TestCommentInjectionMessageReader =
  mbuf :: "Reader option"
  cellA :: "gostring one_cell"

definition NewTestCommentInjectionMessageReader :: TestCommentInjectionMessageReader where
  "NewTestCommentInjectionMessageReader = \<lparr>
     mbuf = None, cellA = newCell [] 0\<rparr>"

definition TestCommentInjectionMessageReader_readA :: "TestCommentInjectionMessageReader \<Rightarrow> (gostring \<times> TestCommentInjectionMessageReader) run" where
  "TestCommentInjectionMessageReader_readA = readCell cellA cellA_update mbuf (readOne ReadString (bytes_of ''*/ <- Neither should this.''))"

definition TestCommentInjectionMessageReader_GetA :: "TestCommentInjectionMessageReader option \<Rightarrow> (gostring \<times> TestCommentInjectionMessageReader option) run" where
  "TestCommentInjectionMessageReader_GetA = getter TestCommentInjectionMessageReader_readA (bytes_of ''*/ <- Neither should this.'')"

lemmas TestCommentInjectionMessage_getters =
  TestCommentInjectionMessageReader_readA_def TestCommentInjectionMessageReader_GetA_def

definition TestCommentInjectionMessageReader_cases :: "ProtoWireType \<Rightarrow> int \<Rightarrow> (ProtoWireNumber \<times> (TestCommentInjectionMessageReader \<Rightarrow> TestCommentInjectionMessageReader)) list" where
  "TestCommentInjectionMessageReader_cases wire offset = [
     (wireTestCommentInjectionMessage_A, \<lambda>m. m\<lparr>cellA := onOffset (setOffset wire offset) (cellA m)\<rparr>)]"

definition TestCommentInjectionMessageReader_save :: "ProtoWireNumber \<Rightarrow> ProtoWireType \<Rightarrow> int \<Rightarrow> TestCommentInjectionMessageReader \<Rightarrow> TestCommentInjectionMessageReader" where
  "TestCommentInjectionMessageReader_save tag wire offset = tag_switch (TestCommentInjectionMessageReader_cases wire offset) tag"

definition TestCommentInjectionMessageReader_Unmarshal :: "TestCommentInjectionMessageReader \<Rightarrow> gslice \<Rightarrow> (TestCommentInjectionMessageReader \<times> string option) run" where
  "TestCommentInjectionMessageReader_Unmarshal m data =
     unmarshalLoop TestCommentInjectionMessageReader_save (NewReader data) 0 (m\<lparr>mbuf := Some (NewReader data)\<rparr>)"

definition TestCommentInjectionMessageReader_SourceBytes :: "TestCommentInjectionMessageReader option \<Rightarrow> gslice" where
  "TestCommentInjectionMessageReader_SourceBytes s = (case s of None \<Rightarrow> nil_slice | Some r \<Rightarrow> Bytes (mbuf r))"

section \<open>TestCommentInjectionMessage: the struct\<close>

record TestCommentInjectionMessage =
  A' :: gostring

definition TestCommentInjectionMessage_zero :: TestCommentInjectionMessage where
  "TestCommentInjectionMessage_zero = \<lparr>
     A' = []\<rparr>"

definition TestCommentInjectionMessage_stmts :: "(TestCommentInjectionMessage \<times> TestCommentInjectionMessageReader option \<Rightarrow> (TestCommentInjectionMessage \<times> TestCommentInjectionMessageReader option) run) list" where
  "TestCommentInjectionMessage_stmts = [
     assign TestCommentInjectionMessageReader_GetA (\<lambda>v res. res\<lparr>A' := v\<rparr>)]"

definition TestCommentInjectionMessageReader_ToStruct :: "TestCommentInjectionMessageReader option \<Rightarrow> (TestCommentInjectionMessage option \<times> TestCommentInjectionMessageReader option) run" where
  "TestCommentInjectionMessageReader_ToStruct = toStructWith (TestCommentInjectionMessage_stmts) TestCommentInjectionMessage_zero"

definition TestCommentInjectionMessage_appends :: "TestCommentInjectionMessage \<Rightarrow> (Writer \<Rightarrow> Writer go) list" where
  "TestCommentInjectionMessage_appends s = [
     \<lambda>res. if A' s \<noteq> bytes_of ''*/ <- Neither should this.'' then AppendString res wireTestCommentInjectionMessage_A (A' s) else Ret res]"

definition TestCommentInjectionMessage_MarshalTo :: "Writer \<Rightarrow> TestCommentInjectionMessage option \<Rightarrow> Writer go" where
  "TestCommentInjectionMessage_MarshalTo = marshalToWith (\<lambda>s. TestCommentInjectionMessage_appends s)"

definition TestCommentInjectionMessage_sizes :: "TestCommentInjectionMessage \<Rightarrow> int list" where
  "TestCommentInjectionMessage_sizes s = [
     if A' s \<noteq> bytes_of ''*/ <- Neither should this.'' then sizeDelimitedWithTag SizeString wireTestCommentInjectionMessage_A (A' s) else 0]"

definition TestCommentInjectionMessage_XXX_PbContentSize :: "TestCommentInjectionMessage option \<Rightarrow> int" where
  "TestCommentInjectionMessage_XXX_PbContentSize = contentSizeWith (\<lambda>s. TestCommentInjectionMessage_sizes s)"

definition TestCommentInjectionMessage_Marshal :: "TestCommentInjectionMessage option \<Rightarrow> byte list go" where
  "TestCommentInjectionMessage_Marshal = marshalWith TestCommentInjectionMessage_XXX_PbContentSize TestCommentInjectionMessage_MarshalTo"

definition TestCommentInjectionMessage_Copy :: "TestCommentInjectionMessage option \<Rightarrow> TestCommentInjectionMessage option" where
  "TestCommentInjectionMessage_Copy s =
     (case s of None \<Rightarrow> None | Some s \<Rightarrow> Some \<lparr>
        A' = A' s\<rparr>)"

section \<open>TestCommentInjectionMessage: the round trip\<close>

definition TestCommentInjectionMessage_tags :: "ProtoWireNumber list" where
  "TestCommentInjectionMessage_tags = [
     wireTestCommentInjectionMessage_A]"

definition TestCommentInjectionMessage_groups :: "TestCommentInjectionMessage \<Rightarrow> wfield list list" where
  "TestCommentInjectionMessage_groups s = [
     opt_field (A' s \<noteq> bytes_of ''*/ <- Neither should this.'') (wireTestCommentInjectionMessage_A, WBytes (A' s))]"

definition TestCommentInjectionMessage_content :: "TestCommentInjectionMessage \<Rightarrow> wfield list" where
  "TestCommentInjectionMessage_content s = concat (TestCommentInjectionMessage_groups s)"

text \<open>What a round trip keeps.\<close>

definition TestCommentInjectionMessage_norm :: "TestCommentInjectionMessage \<Rightarrow> TestCommentInjectionMessage" where
  "TestCommentInjectionMessage_norm s = s"

definition TestCommentInjectionMessage_ready :: "Reader \<Rightarrow> TestCommentInjectionMessage \<Rightarrow> (TestCommentInjectionMessageReader \<Rightarrow> bool) list" where
  "TestCommentInjectionMessage_ready p s = [
     \<lambda>m. cell_reads (readOne ReadString (bytes_of ''*/ <- Neither should this.'')) plain p (if A' s \<noteq> bytes_of ''*/ <- Neither should this.'' then A' s else bytes_of ''*/ <- Neither should this.'') (cellA m)]"

definition TestCommentInjectionMessage_stored :: "TestCommentInjectionMessage \<Rightarrow> (TestCommentInjectionMessage \<Rightarrow> TestCommentInjectionMessage) list" where
  "TestCommentInjectionMessage_stored s = [
     \<lambda>res. res\<lparr>A' := if A' s \<noteq> bytes_of ''*/ <- Neither should this.'' then A' s else bytes_of ''*/ <- Neither should this.''\<rparr>]"

lemma TestCommentInjectionMessage_cases_distinct: "distinct (map fst (TestCommentInjectionMessageReader_cases wire offset))"
  by (rule ascending_distinct) (simp add: TestCommentInjectionMessageReader_cases_def wireTestCommentInjectionMessage)

lemma TestCommentInjectionMessage_stores:
  "stores_cell TestCommentInjectionMessageReader_save wireTestCommentInjectionMessage_A setOffset cellA"
  unfolding TestCommentInjectionMessageReader_save_def [abs_def] by (rule stores_cell_switch; (rule TestCommentInjectionMessage_cases_distinct)?; unfold TestCommentInjectionMessageReader_cases_def; intro own_case.intros; simp)+

lemma TestCommentInjectionMessage_saved: "good_fields TestCommentInjectionMessageReader_save p (NewTestCommentInjectionMessageReader\<lparr>mbuf := Some p\<rparr>) TestCommentInjectionMessage_tags (TestCommentInjectionMessage_groups s) (TestCommentInjectionMessage_ready p s)"
  unfolding TestCommentInjectionMessage_tags_def TestCommentInjectionMessage_groups_def TestCommentInjectionMessage_ready_def
  by (intro good_fields.intros field_saved TestCommentInjectionMessage_stores) (simp_all add: NewTestCommentInjectionMessageReader_def newCell_def)

lemma TestCommentInjectionMessage_converted: "good_stmts mbuf p (TestCommentInjectionMessage_stmts) (TestCommentInjectionMessage_ready p s) (TestCommentInjectionMessage_stored s)"
  unfolding TestCommentInjectionMessage_stmts_def TestCommentInjectionMessage_ready_def TestCommentInjectionMessage_stored_def TestCommentInjectionMessage_getters append.simps
  by (intro good_stmts_field good_stmts.Nil) (simp_all cong: cell_reads_cong)

interpretation l_TestCommentInjectionMessage: lazy_message TestCommentInjectionMessage_tags TestCommentInjectionMessage_groups TestCommentInjectionMessage_norm
  "\<lambda>s. TestCommentInjectionMessage_sizes s" "\<lambda>s. TestCommentInjectionMessage_appends s"
  TestCommentInjectionMessageReader_save "\<lambda>p. NewTestCommentInjectionMessageReader\<lparr>mbuf := Some p\<rparr>" mbuf "TestCommentInjectionMessage_stmts" TestCommentInjectionMessage_zero TestCommentInjectionMessage_ready TestCommentInjectionMessage_stored
proof
  show "distinct TestCommentInjectionMessage_tags"
    using TestCommentInjectionMessage_cases_distinct by (simp only: TestCommentInjectionMessageReader_cases_def TestCommentInjectionMessage_tags_def list.map fst_conv)
  show "list_all valid_tag TestCommentInjectionMessage_tags"
    by (simp add: TestCommentInjectionMessage_tags_def wireTestCommentInjectionMessage valid_tag_def)
  show "list_all2 (\<lambda>t g. \<forall>f \<in> set g. fst f = t \<and> wf_val (snd f)) TestCommentInjectionMessage_tags (TestCommentInjectionMessage_groups s)" for s
    unfolding TestCommentInjectionMessage_tags_def TestCommentInjectionMessage_groups_def by (intro list.rel_intros field_tagged)
  show "list_all2 (\<lambda>e g. e = int (length (fields_bytes g))) (TestCommentInjectionMessage_sizes s) (TestCommentInjectionMessage_groups s)" for s
    unfolding TestCommentInjectionMessage_sizes_def TestCommentInjectionMessage_groups_def append.simps
    by (intro list.rel_intros field_sized)
  show "list_all2 (\<lambda>st g. writes st (fields_bytes g)) (TestCommentInjectionMessage_appends s) (TestCommentInjectionMessage_groups s)" for s
    unfolding TestCommentInjectionMessage_appends_def TestCommentInjectionMessage_groups_def append.simps
    by (intro list.rel_intros field_written)
  show "mbuf (TestCommentInjectionMessageReader_save t w off m) = mbuf m" for t w off m
    unfolding TestCommentInjectionMessageReader_save_def by (rule tag_switch_keeps) (simp add: TestCommentInjectionMessageReader_cases_def)
  show "fold (\<lambda>e. e) (TestCommentInjectionMessage_stored s) TestCommentInjectionMessage_zero = TestCommentInjectionMessage_norm s" for s
    unfolding TestCommentInjectionMessage_stored_def by (simp add: TestCommentInjectionMessage_zero_def TestCommentInjectionMessage_norm_def float_defaults)
qed (simp_all add: TestCommentInjectionMessage_saved TestCommentInjectionMessage_converted)

interpretation m_TestCommentInjectionMessage: message_codec TestCommentInjectionMessage_content TestCommentInjectionMessage_norm TestCommentInjectionMessage_XXX_PbContentSize TestCommentInjectionMessage_MarshalTo
  "TestCommentInjectionMessageReader_Unmarshal NewTestCommentInjectionMessageReader" TestCommentInjectionMessageReader_ToStruct
  using l_TestCommentInjectionMessage.message
  by (simp only: TestCommentInjectionMessage_content_def [abs_def] TestCommentInjectionMessage_XXX_PbContentSize_def TestCommentInjectionMessage_MarshalTo_def TestCommentInjectionMessageReader_Unmarshal_def [abs_def] TestCommentInjectionMessageReader_ToStruct_def)


section \<open>TestOneof2_NestedMessage: the reader\<close>

definition wireTestOneof2_NestedMessage_MooInt :: ProtoWireNumber where "wireTestOneof2_NestedMessage_MooInt = 1"
definition wireTestOneof2_NestedMessage_CorgeInt :: ProtoWireNumber where "wireTestOneof2_NestedMessage_CorgeInt = 2"

lemmas wireTestOneof2_NestedMessage =
  wireTestOneof2_NestedMessage_MooInt_def wireTestOneof2_NestedMessage_CorgeInt_def

record TestOneof2_NestedMessageReader =
  mbuf :: "Reader option"
  cellMooInt :: "int64 one_cell"
  cellCorgeInt :: "int32 packed_cell"

definition NewTestOneof2_NestedMessageReader :: TestOneof2_NestedMessageReader where
  "NewTestOneof2_NestedMessageReader = \<lparr>
     mbuf = None, cellMooInt = newCell 0 0, cellCorgeInt = newCell [] ([], [])\<rparr>"

definition TestOneof2_NestedMessageReader_readMooInt :: "TestOneof2_NestedMessageReader \<Rightarrow> (int64 \<times> TestOneof2_NestedMessageReader) run" where
  "TestOneof2_NestedMessageReader_readMooInt = readCell cellMooInt cellMooInt_update mbuf (readOne ReadInt64 0)"

definition TestOneof2_NestedMessageReader_GetMooInt :: "TestOneof2_NestedMessageReader option \<Rightarrow> (int64 \<times> TestOneof2_NestedMessageReader option) run" where
  "TestOneof2_NestedMessageReader_GetMooInt = getter TestOneof2_NestedMessageReader_readMooInt 0"

definition TestOneof2_NestedMessageReader_readCorgeInt :: "TestOneof2_NestedMessageReader \<Rightarrow> (int32 list \<times> TestOneof2_NestedMessageReader) run" where
  "TestOneof2_NestedMessageReader_readCorgeInt = readCell cellCorgeInt cellCorgeInt_update mbuf (readPacked ReadInt32 SizedReadInt32 0)"

definition TestOneof2_NestedMessageReader_GetCorgeInt :: "TestOneof2_NestedMessageReader option \<Rightarrow> (int32 list \<times> TestOneof2_NestedMessageReader option) run" where
  "TestOneof2_NestedMessageReader_GetCorgeInt = getter TestOneof2_NestedMessageReader_readCorgeInt []"

lemmas TestOneof2_NestedMessage_getters =
  TestOneof2_NestedMessageReader_readMooInt_def TestOneof2_NestedMessageReader_GetMooInt_def
  TestOneof2_NestedMessageReader_readCorgeInt_def TestOneof2_NestedMessageReader_GetCorgeInt_def

definition TestOneof2_NestedMessageReader_cases :: "ProtoWireType \<Rightarrow> int \<Rightarrow> (ProtoWireNumber \<times> (TestOneof2_NestedMessageReader \<Rightarrow> TestOneof2_NestedMessageReader)) list" where
  "TestOneof2_NestedMessageReader_cases wire offset = [
     (wireTestOneof2_NestedMessage_MooInt, \<lambda>m. m\<lparr>cellMooInt := onOffset (setOffset wire offset) (cellMooInt m)\<rparr>),
     (wireTestOneof2_NestedMessage_CorgeInt, \<lambda>m. m\<lparr>cellCorgeInt := onOffset (addTyped wire offset) (cellCorgeInt m)\<rparr>)]"

definition TestOneof2_NestedMessageReader_save :: "ProtoWireNumber \<Rightarrow> ProtoWireType \<Rightarrow> int \<Rightarrow> TestOneof2_NestedMessageReader \<Rightarrow> TestOneof2_NestedMessageReader" where
  "TestOneof2_NestedMessageReader_save tag wire offset = tag_switch (TestOneof2_NestedMessageReader_cases wire offset) tag"

definition TestOneof2_NestedMessageReader_Unmarshal :: "TestOneof2_NestedMessageReader \<Rightarrow> gslice \<Rightarrow> (TestOneof2_NestedMessageReader \<times> string option) run" where
  "TestOneof2_NestedMessageReader_Unmarshal m data =
     unmarshalLoop TestOneof2_NestedMessageReader_save (NewReader data) 0 (m\<lparr>mbuf := Some (NewReader data)\<rparr>)"

definition TestOneof2_NestedMessageReader_SourceBytes :: "TestOneof2_NestedMessageReader option \<Rightarrow> gslice" where
  "TestOneof2_NestedMessageReader_SourceBytes s = (case s of None \<Rightarrow> nil_slice | Some r \<Rightarrow> Bytes (mbuf r))"

section \<open>TestOneof2_NestedMessage: the struct\<close>

record TestOneof2_NestedMessage =
  MooInt :: int64
  CorgeInt :: "int32 list"

definition TestOneof2_NestedMessage_zero :: TestOneof2_NestedMessage where
  "TestOneof2_NestedMessage_zero = \<lparr>
     MooInt = 0, CorgeInt = []\<rparr>"

definition TestOneof2_NestedMessage_stmts :: "(TestOneof2_NestedMessage \<times> TestOneof2_NestedMessageReader option \<Rightarrow> (TestOneof2_NestedMessage \<times> TestOneof2_NestedMessageReader option) run) list" where
  "TestOneof2_NestedMessage_stmts = [
     assign TestOneof2_NestedMessageReader_GetMooInt (\<lambda>v res. res\<lparr>MooInt := v\<rparr>),
     assign TestOneof2_NestedMessageReader_GetCorgeInt (\<lambda>v res. res\<lparr>CorgeInt := v\<rparr>)]"

definition TestOneof2_NestedMessageReader_ToStruct :: "TestOneof2_NestedMessageReader option \<Rightarrow> (TestOneof2_NestedMessage option \<times> TestOneof2_NestedMessageReader option) run" where
  "TestOneof2_NestedMessageReader_ToStruct = toStructWith (TestOneof2_NestedMessage_stmts) TestOneof2_NestedMessage_zero"

definition TestOneof2_NestedMessage_appends :: "TestOneof2_NestedMessage \<Rightarrow> (Writer \<Rightarrow> Writer go) list" where
  "TestOneof2_NestedMessage_appends s = [
     \<lambda>res. if MooInt s \<noteq> 0 then AppendInt64 res wireTestOneof2_NestedMessage_MooInt (MooInt s) else Ret res,
     \<lambda>res. if CorgeInt s \<noteq> [] then packedWriter AppendInt32WithoutTag AppendInt32 SizeInt32 res wireTestOneof2_NestedMessage_CorgeInt (CorgeInt s) else Ret res]"

definition TestOneof2_NestedMessage_MarshalTo :: "Writer \<Rightarrow> TestOneof2_NestedMessage option \<Rightarrow> Writer go" where
  "TestOneof2_NestedMessage_MarshalTo = marshalToWith (\<lambda>s. TestOneof2_NestedMessage_appends s)"

definition TestOneof2_NestedMessage_sizes :: "TestOneof2_NestedMessage \<Rightarrow> int list" where
  "TestOneof2_NestedMessage_sizes s = [
     if MooInt s \<noteq> 0 then sizeWithTag SizeInt64 wireTestOneof2_NestedMessage_MooInt (MooInt s) else 0,
     if CorgeInt s \<noteq> [] then packedSize SizeInt32 wireTestOneof2_NestedMessage_CorgeInt (CorgeInt s) else 0]"

definition TestOneof2_NestedMessage_XXX_PbContentSize :: "TestOneof2_NestedMessage option \<Rightarrow> int" where
  "TestOneof2_NestedMessage_XXX_PbContentSize = contentSizeWith (\<lambda>s. TestOneof2_NestedMessage_sizes s)"

definition TestOneof2_NestedMessage_Marshal :: "TestOneof2_NestedMessage option \<Rightarrow> byte list go" where
  "TestOneof2_NestedMessage_Marshal = marshalWith TestOneof2_NestedMessage_XXX_PbContentSize TestOneof2_NestedMessage_MarshalTo"

definition TestOneof2_NestedMessage_Copy :: "TestOneof2_NestedMessage option \<Rightarrow> TestOneof2_NestedMessage option" where
  "TestOneof2_NestedMessage_Copy s =
     (case s of None \<Rightarrow> None | Some s \<Rightarrow> Some \<lparr>
        MooInt = MooInt s, CorgeInt = CorgeInt s\<rparr>)"

section \<open>TestOneof2_NestedMessage: the round trip\<close>

definition TestOneof2_NestedMessage_tags :: "ProtoWireNumber list" where
  "TestOneof2_NestedMessage_tags = [
     wireTestOneof2_NestedMessage_MooInt, wireTestOneof2_NestedMessage_CorgeInt]"

definition TestOneof2_NestedMessage_groups :: "TestOneof2_NestedMessage \<Rightarrow> wfield list list" where
  "TestOneof2_NestedMessage_groups s = [
     opt_field (MooInt s \<noteq> 0) (wireTestOneof2_NestedMessage_MooInt, int64_val (MooInt s)),
     packed_fields int32_val wireTestOneof2_NestedMessage_CorgeInt (CorgeInt s)]"

definition TestOneof2_NestedMessage_content :: "TestOneof2_NestedMessage \<Rightarrow> wfield list" where
  "TestOneof2_NestedMessage_content s = concat (TestOneof2_NestedMessage_groups s)"

text \<open>What a round trip keeps.\<close>

definition TestOneof2_NestedMessage_norm :: "TestOneof2_NestedMessage \<Rightarrow> TestOneof2_NestedMessage" where
  "TestOneof2_NestedMessage_norm s = s"

definition TestOneof2_NestedMessage_ready :: "Reader \<Rightarrow> TestOneof2_NestedMessage \<Rightarrow> (TestOneof2_NestedMessageReader \<Rightarrow> bool) list" where
  "TestOneof2_NestedMessage_ready p s = [
     \<lambda>m. cell_reads (readOne ReadInt64 0) plain p (if MooInt s \<noteq> 0 then MooInt s else 0) (cellMooInt m),
     \<lambda>m. cell_reads (readPacked ReadInt32 SizedReadInt32 0) plain p (CorgeInt s) (cellCorgeInt m)]"

definition TestOneof2_NestedMessage_stored :: "TestOneof2_NestedMessage \<Rightarrow> (TestOneof2_NestedMessage \<Rightarrow> TestOneof2_NestedMessage) list" where
  "TestOneof2_NestedMessage_stored s = [
     \<lambda>res. res\<lparr>MooInt := if MooInt s \<noteq> 0 then MooInt s else 0\<rparr>,
     \<lambda>res. res\<lparr>CorgeInt := CorgeInt s\<rparr>]"

lemma TestOneof2_NestedMessage_cases_distinct: "distinct (map fst (TestOneof2_NestedMessageReader_cases wire offset))"
  by (rule ascending_distinct) (simp add: TestOneof2_NestedMessageReader_cases_def wireTestOneof2_NestedMessage)

lemma TestOneof2_NestedMessage_stores:
  "stores_cell TestOneof2_NestedMessageReader_save wireTestOneof2_NestedMessage_MooInt setOffset cellMooInt"
  "stores_cell TestOneof2_NestedMessageReader_save wireTestOneof2_NestedMessage_CorgeInt addTyped cellCorgeInt"
  unfolding TestOneof2_NestedMessageReader_save_def [abs_def] by (rule stores_cell_switch; (rule TestOneof2_NestedMessage_cases_distinct)?; unfold TestOneof2_NestedMessageReader_cases_def; intro own_case.intros; simp)+

lemma TestOneof2_NestedMessage_saved: "good_fields TestOneof2_NestedMessageReader_save p (NewTestOneof2_NestedMessageReader\<lparr>mbuf := Some p\<rparr>) TestOneof2_NestedMessage_tags (TestOneof2_NestedMessage_groups s) (TestOneof2_NestedMessage_ready p s)"
  unfolding TestOneof2_NestedMessage_tags_def TestOneof2_NestedMessage_groups_def TestOneof2_NestedMessage_ready_def
  by (intro good_fields.intros field_saved TestOneof2_NestedMessage_stores) (simp_all add: NewTestOneof2_NestedMessageReader_def newCell_def)

lemma TestOneof2_NestedMessage_converted: "good_stmts mbuf p (TestOneof2_NestedMessage_stmts) (TestOneof2_NestedMessage_ready p s) (TestOneof2_NestedMessage_stored s)"
  unfolding TestOneof2_NestedMessage_stmts_def TestOneof2_NestedMessage_ready_def TestOneof2_NestedMessage_stored_def TestOneof2_NestedMessage_getters append.simps
  by (intro good_stmts_field good_stmts.Nil) (simp_all cong: cell_reads_cong)

interpretation l_TestOneof2_NestedMessage: lazy_message TestOneof2_NestedMessage_tags TestOneof2_NestedMessage_groups TestOneof2_NestedMessage_norm
  "\<lambda>s. TestOneof2_NestedMessage_sizes s" "\<lambda>s. TestOneof2_NestedMessage_appends s"
  TestOneof2_NestedMessageReader_save "\<lambda>p. NewTestOneof2_NestedMessageReader\<lparr>mbuf := Some p\<rparr>" mbuf "TestOneof2_NestedMessage_stmts" TestOneof2_NestedMessage_zero TestOneof2_NestedMessage_ready TestOneof2_NestedMessage_stored
proof
  show "distinct TestOneof2_NestedMessage_tags"
    using TestOneof2_NestedMessage_cases_distinct by (simp only: TestOneof2_NestedMessageReader_cases_def TestOneof2_NestedMessage_tags_def list.map fst_conv)
  show "list_all valid_tag TestOneof2_NestedMessage_tags"
    by (simp add: TestOneof2_NestedMessage_tags_def wireTestOneof2_NestedMessage valid_tag_def)
  show "list_all2 (\<lambda>t g. \<forall>f \<in> set g. fst f = t \<and> wf_val (snd f)) TestOneof2_NestedMessage_tags (TestOneof2_NestedMessage_groups s)" for s
    unfolding TestOneof2_NestedMessage_tags_def TestOneof2_NestedMessage_groups_def by (intro list.rel_intros field_tagged)
  show "list_all2 (\<lambda>e g. e = int (length (fields_bytes g))) (TestOneof2_NestedMessage_sizes s) (TestOneof2_NestedMessage_groups s)" for s
    unfolding TestOneof2_NestedMessage_sizes_def TestOneof2_NestedMessage_groups_def append.simps
    by (intro list.rel_intros field_sized)
  show "list_all2 (\<lambda>st g. writes st (fields_bytes g)) (TestOneof2_NestedMessage_appends s) (TestOneof2_NestedMessage_groups s)" for s
    unfolding TestOneof2_NestedMessage_appends_def TestOneof2_NestedMessage_groups_def append.simps
    by (intro list.rel_intros field_written)
  show "mbuf (TestOneof2_NestedMessageReader_save t w off m) = mbuf m" for t w off m
    unfolding TestOneof2_NestedMessageReader_save_def by (rule tag_switch_keeps) (simp add: TestOneof2_NestedMessageReader_cases_def)
  show "fold (\<lambda>e. e) (TestOneof2_NestedMessage_stored s) TestOneof2_NestedMessage_zero = TestOneof2_NestedMessage_norm s" for s
    unfolding TestOneof2_NestedMessage_stored_def by (simp add: TestOneof2_NestedMessage_zero_def TestOneof2_NestedMessage_norm_def float_defaults)
qed (simp_all add: TestOneof2_NestedMessage_saved TestOneof2_NestedMessage_converted)

interpretation m_TestOneof2_NestedMessage: message_codec TestOneof2_NestedMessage_content TestOneof2_NestedMessage_norm TestOneof2_NestedMessage_XXX_PbContentSize TestOneof2_NestedMessage_MarshalTo
  "TestOneof2_NestedMessageReader_Unmarshal NewTestOneof2_NestedMessageReader" TestOneof2_NestedMessageReader_ToStruct
  using l_TestOneof2_NestedMessage.message
  by (simp only: TestOneof2_NestedMessage_content_def [abs_def] TestOneof2_NestedMessage_XXX_PbContentSize_def TestOneof2_NestedMessage_MarshalTo_def TestOneof2_NestedMessageReader_Unmarshal_def [abs_def] TestOneof2_NestedMessageReader_ToStruct_def)


section \<open>TestOneof2: the reader\<close>

definition wireTestOneof2_FooInt :: ProtoWireNumber where "wireTestOneof2_FooInt = 1"
definition wireTestOneof2_FooString :: ProtoWireNumber where "wireTestOneof2_FooString = 2"
definition wireTestOneof2_FooCord :: ProtoWireNumber where "wireTestOneof2_FooCord = 3"
definition wireTestOneof2_FooStringPiece :: ProtoWireNumber where "wireTestOneof2_FooStringPiece = 4"
definition wireTestOneof2_FooBytes :: ProtoWireNumber where "wireTestOneof2_FooBytes = 5"
definition wireTestOneof2_FooEnum :: ProtoWireNumber where "wireTestOneof2_FooEnum = 6"
definition wireTestOneof2_FooMessage :: ProtoWireNumber where "wireTestOneof2_FooMessage = 7"
definition wireTestOneof2_FooLazyMessage :: ProtoWireNumber where "wireTestOneof2_FooLazyMessage = 11"
definition wireTestOneof2_BarInt :: ProtoWireNumber where "wireTestOneof2_BarInt = 12"
definition wireTestOneof2_BarString :: ProtoWireNumber where "wireTestOneof2_BarString = 13"
definition wireTestOneof2_BarCord :: ProtoWireNumber where "wireTestOneof2_BarCord = 14"
definition wireTestOneof2_BarStringPiece :: ProtoWireNumber where "wireTestOneof2_BarStringPiece = 15"
definition wireTestOneof2_BarBytes :: ProtoWireNumber where "wireTestOneof2_BarBytes = 16"
definition wireTestOneof2_BarEnum :: ProtoWireNumber where "wireTestOneof2_BarEnum = 17"
definition wireTestOneof2_BarStringWithEmptyDefault :: ProtoWireNumber where "wireTestOneof2_BarStringWithEmptyDefault = 20"
definition wireTestOneof2_BarCordWithEmptyDefault :: ProtoWireNumber where "wireTestOneof2_BarCordWithEmptyDefault = 21"
definition wireTestOneof2_BarStringPieceWithEmptyDefault :: ProtoWireNumber where "wireTestOneof2_BarStringPieceWithEmptyDefault = 22"
definition wireTestOneof2_BarBytesWithEmptyDefault :: ProtoWireNumber where "wireTestOneof2_BarBytesWithEmptyDefault = 23"
definition wireTestOneof2_BazInt :: ProtoWireNumber where "wireTestOneof2_BazInt = 18"
definition wireTestOneof2_BazString :: ProtoWireNumber where "wireTestOneof2_BazString = 19"

lemmas wireTestOneof2 =
  wireTestOneof2_FooInt_def wireTestOneof2_FooString_def wireTestOneof2_FooCord_def
  wireTestOneof2_FooStringPiece_def wireTestOneof2_FooBytes_def wireTestOneof2_FooEnum_def
  wireTestOneof2_FooMessage_def wireTestOneof2_FooLazyMessage_def wireTestOneof2_BarInt_def
  wireTestOneof2_BarString_def wireTestOneof2_BarCord_def wireTestOneof2_BarStringPiece_def
  wireTestOneof2_BarBytes_def wireTestOneof2_BarEnum_def
  wireTestOneof2_BarStringWithEmptyDefault_def wireTestOneof2_BarCordWithEmptyDefault_def
  wireTestOneof2_BarStringPieceWithEmptyDefault_def wireTestOneof2_BarBytesWithEmptyDefault_def
  wireTestOneof2_BazInt_def wireTestOneof2_BazString_def

record TestOneof2Reader =
  mbuf :: "Reader option"
  cellFooInt :: "int32 one_cell"
  cellFooString :: "gostring one_cell"
  cellFooCord :: "gostring one_cell"
  cellFooStringPiece :: "gostring one_cell"
  cellFooBytes :: "(byte list) one_cell"
  cellFooEnum :: "TestOneof2_NestedEnum one_cell"
  cellFooMessage :: "(TestOneof2_NestedMessageReader option) one_cell"
  cellFooLazyMessage :: "(TestOneof2_NestedMessageReader option) one_cell"
  cellBarInt :: "int32 one_cell"
  cellBarString :: "gostring one_cell"
  cellBarCord :: "gostring one_cell"
  cellBarStringPiece :: "gostring one_cell"
  cellBarBytes :: "(byte list) one_cell"
  cellBarEnum :: "TestOneof2_NestedEnum one_cell"
  cellBarStringWithEmptyDefault :: "gostring one_cell"
  cellBarCordWithEmptyDefault :: "gostring one_cell"
  cellBarStringPieceWithEmptyDefault :: "gostring one_cell"
  cellBarBytesWithEmptyDefault :: "(byte list) one_cell"
  cellBazInt :: "int32 one_cell"
  cellBazString :: "gostring one_cell"

definition NewTestOneof2Reader :: TestOneof2Reader where
  "NewTestOneof2Reader = \<lparr>
     mbuf = None, cellFooInt = newCell 0 0, cellFooString = newCell [] 0,
     cellFooCord = newCell [] 0, cellFooStringPiece = newCell [] 0, cellFooBytes = newCell [] 0,
     cellFooEnum = newCell 0 0, cellFooMessage = newCell None 0,
     cellFooLazyMessage = newCell None 0, cellBarInt = newCell 0 0,
     cellBarString = newCell [] 0, cellBarCord = newCell [] 0,
     cellBarStringPiece = newCell [] 0, cellBarBytes = newCell [] 0, cellBarEnum = newCell 0 0,
     cellBarStringWithEmptyDefault = newCell [] 0, cellBarCordWithEmptyDefault = newCell [] 0,
     cellBarStringPieceWithEmptyDefault = newCell [] 0,
     cellBarBytesWithEmptyDefault = newCell [] 0, cellBazInt = newCell 0 0,
     cellBazString = newCell [] 0\<rparr>"

definition TestOneof2Reader_readFooInt :: "TestOneof2Reader \<Rightarrow> (int32 \<times> TestOneof2Reader) run" where
  "TestOneof2Reader_readFooInt = readCell cellFooInt cellFooInt_update mbuf (readOne ReadInt32 0)"

definition TestOneof2Reader_GetFooInt :: "TestOneof2Reader option \<Rightarrow> (int32 \<times> TestOneof2Reader option) run" where
  "TestOneof2Reader_GetFooInt = getter TestOneof2Reader_readFooInt 0"

definition TestOneof2Reader_readFooString :: "TestOneof2Reader \<Rightarrow> (gostring \<times> TestOneof2Reader) run" where
  "TestOneof2Reader_readFooString = readCell cellFooString cellFooString_update mbuf (readOne ReadString [])"

definition TestOneof2Reader_GetFooString :: "TestOneof2Reader option \<Rightarrow> (gostring \<times> TestOneof2Reader option) run" where
  "TestOneof2Reader_GetFooString = getter TestOneof2Reader_readFooString []"

definition TestOneof2Reader_readFooCord :: "TestOneof2Reader \<Rightarrow> (gostring \<times> TestOneof2Reader) run" where
  "TestOneof2Reader_readFooCord = readCell cellFooCord cellFooCord_update mbuf (readOne ReadString [])"

definition TestOneof2Reader_GetFooCord :: "TestOneof2Reader option \<Rightarrow> (gostring \<times> TestOneof2Reader option) run" where
  "TestOneof2Reader_GetFooCord = getter TestOneof2Reader_readFooCord []"

definition TestOneof2Reader_readFooStringPiece :: "TestOneof2Reader \<Rightarrow> (gostring \<times> TestOneof2Reader) run" where
  "TestOneof2Reader_readFooStringPiece = readCell cellFooStringPiece cellFooStringPiece_update mbuf (readOne ReadString [])"

definition TestOneof2Reader_GetFooStringPiece :: "TestOneof2Reader option \<Rightarrow> (gostring \<times> TestOneof2Reader option) run" where
  "TestOneof2Reader_GetFooStringPiece = getter TestOneof2Reader_readFooStringPiece []"

definition TestOneof2Reader_readFooBytes :: "TestOneof2Reader \<Rightarrow> (byte list \<times> TestOneof2Reader) run" where
  "TestOneof2Reader_readFooBytes = readCell cellFooBytes cellFooBytes_update mbuf (readOne ReadByteList [])"

definition TestOneof2Reader_GetFooBytes :: "TestOneof2Reader option \<Rightarrow> (byte list \<times> TestOneof2Reader option) run" where
  "TestOneof2Reader_GetFooBytes = getter TestOneof2Reader_readFooBytes []"

definition TestOneof2Reader_readFooEnum :: "TestOneof2Reader \<Rightarrow> (TestOneof2_NestedEnum \<times> TestOneof2Reader) run" where
  "TestOneof2Reader_readFooEnum = readCell cellFooEnum cellFooEnum_update mbuf (readOne ReadInt32 0)"

definition TestOneof2Reader_GetFooEnum :: "TestOneof2Reader option \<Rightarrow> (TestOneof2_NestedEnum \<times> TestOneof2Reader option) run" where
  "TestOneof2Reader_GetFooEnum = getter TestOneof2Reader_readFooEnum 0"

definition TestOneof2Reader_readFooMessage :: "TestOneof2Reader \<Rightarrow> (TestOneof2_NestedMessageReader option \<times> TestOneof2Reader) run" where
  "TestOneof2Reader_readFooMessage = readCell cellFooMessage cellFooMessage_update mbuf (structReader (TestOneof2_NestedMessageReader_Unmarshal NewTestOneof2_NestedMessageReader))"

definition TestOneof2Reader_GetFooMessage :: "TestOneof2Reader option \<Rightarrow> (TestOneof2_NestedMessageReader option \<times> TestOneof2Reader option) run" where
  "TestOneof2Reader_GetFooMessage = getter TestOneof2Reader_readFooMessage None"

definition TestOneof2Reader_readFooLazyMessage :: "TestOneof2Reader \<Rightarrow> (TestOneof2_NestedMessageReader option \<times> TestOneof2Reader) run" where
  "TestOneof2Reader_readFooLazyMessage = readCell cellFooLazyMessage cellFooLazyMessage_update mbuf (structReader (TestOneof2_NestedMessageReader_Unmarshal NewTestOneof2_NestedMessageReader))"

definition TestOneof2Reader_GetFooLazyMessage :: "TestOneof2Reader option \<Rightarrow> (TestOneof2_NestedMessageReader option \<times> TestOneof2Reader option) run" where
  "TestOneof2Reader_GetFooLazyMessage = getter TestOneof2Reader_readFooLazyMessage None"

definition TestOneof2Reader_readBarInt :: "TestOneof2Reader \<Rightarrow> (int32 \<times> TestOneof2Reader) run" where
  "TestOneof2Reader_readBarInt = readCell cellBarInt cellBarInt_update mbuf (readOne ReadInt32 5)"

definition TestOneof2Reader_GetBarInt :: "TestOneof2Reader option \<Rightarrow> (int32 \<times> TestOneof2Reader option) run" where
  "TestOneof2Reader_GetBarInt = getter TestOneof2Reader_readBarInt 5"

definition TestOneof2Reader_readBarString :: "TestOneof2Reader \<Rightarrow> (gostring \<times> TestOneof2Reader) run" where
  "TestOneof2Reader_readBarString = readCell cellBarString cellBarString_update mbuf (readOne ReadString (bytes_of ''STRING''))"

definition TestOneof2Reader_GetBarString :: "TestOneof2Reader option \<Rightarrow> (gostring \<times> TestOneof2Reader option) run" where
  "TestOneof2Reader_GetBarString = getter TestOneof2Reader_readBarString (bytes_of ''STRING'')"

definition TestOneof2Reader_readBarCord :: "TestOneof2Reader \<Rightarrow> (gostring \<times> TestOneof2Reader) run" where
  "TestOneof2Reader_readBarCord = readCell cellBarCord cellBarCord_update mbuf (readOne ReadString (bytes_of ''CORD''))"

definition TestOneof2Reader_GetBarCord :: "TestOneof2Reader option \<Rightarrow> (gostring \<times> TestOneof2Reader option) run" where
  "TestOneof2Reader_GetBarCord = getter TestOneof2Reader_readBarCord (bytes_of ''CORD'')"

definition TestOneof2Reader_readBarStringPiece :: "TestOneof2Reader \<Rightarrow> (gostring \<times> TestOneof2Reader) run" where
  "TestOneof2Reader_readBarStringPiece = readCell cellBarStringPiece cellBarStringPiece_update mbuf (readOne ReadString (bytes_of ''SPIECE''))"

definition TestOneof2Reader_GetBarStringPiece :: "TestOneof2Reader option \<Rightarrow> (gostring \<times> TestOneof2Reader option) run" where
  "TestOneof2Reader_GetBarStringPiece = getter TestOneof2Reader_readBarStringPiece (bytes_of ''SPIECE'')"

definition TestOneof2Reader_readBarBytes :: "TestOneof2Reader \<Rightarrow> (byte list \<times> TestOneof2Reader) run" where
  "TestOneof2Reader_readBarBytes = readCell cellBarBytes cellBarBytes_update mbuf (readOne ReadByteList (bytes_of ''BYTES''))"

definition TestOneof2Reader_GetBarBytes :: "TestOneof2Reader option \<Rightarrow> (byte list \<times> TestOneof2Reader option) run" where
  "TestOneof2Reader_GetBarBytes = getter TestOneof2Reader_readBarBytes (bytes_of ''BYTES'')"

definition TestOneof2Reader_readBarEnum :: "TestOneof2Reader \<Rightarrow> (TestOneof2_NestedEnum \<times> TestOneof2Reader) run" where
  "TestOneof2Reader_readBarEnum = readCell cellBarEnum cellBarEnum_update mbuf (readOne ReadInt32 0)"

definition TestOneof2Reader_GetBarEnum :: "TestOneof2Reader option \<Rightarrow> (TestOneof2_NestedEnum \<times> TestOneof2Reader option) run" where
  "TestOneof2Reader_GetBarEnum = getter TestOneof2Reader_readBarEnum 0"

definition TestOneof2Reader_readBarStringWithEmptyDefault :: "TestOneof2Reader \<Rightarrow> (gostring \<times> TestOneof2Reader) run" where
  "TestOneof2Reader_readBarStringWithEmptyDefault = readCell cellBarStringWithEmptyDefault cellBarStringWithEmptyDefault_update mbuf (readOne ReadString [])"

definition TestOneof2Reader_GetBarStringWithEmptyDefault :: "TestOneof2Reader option \<Rightarrow> (gostring \<times> TestOneof2Reader option) run" where
  "TestOneof2Reader_GetBarStringWithEmptyDefault = getter TestOneof2Reader_readBarStringWithEmptyDefault []"

definition TestOneof2Reader_readBarCordWithEmptyDefault :: "TestOneof2Reader \<Rightarrow> (gostring \<times> TestOneof2Reader) run" where
  "TestOneof2Reader_readBarCordWithEmptyDefault = readCell cellBarCordWithEmptyDefault cellBarCordWithEmptyDefault_update mbuf (readOne ReadString [])"

definition TestOneof2Reader_GetBarCordWithEmptyDefault :: "TestOneof2Reader option \<Rightarrow> (gostring \<times> TestOneof2Reader option) run" where
  "TestOneof2Reader_GetBarCordWithEmptyDefault = getter TestOneof2Reader_readBarCordWithEmptyDefault []"

definition TestOneof2Reader_readBarStringPieceWithEmptyDefault :: "TestOneof2Reader \<Rightarrow> (gostring \<times> TestOneof2Reader) run" where
  "TestOneof2Reader_readBarStringPieceWithEmptyDefault = readCell cellBarStringPieceWithEmptyDefault cellBarStringPieceWithEmptyDefault_update mbuf (readOne ReadString [])"

definition TestOneof2Reader_GetBarStringPieceWithEmptyDefault :: "TestOneof2Reader option \<Rightarrow> (gostring \<times> TestOneof2Reader option) run" where
  "TestOneof2Reader_GetBarStringPieceWithEmptyDefault = getter TestOneof2Reader_readBarStringPieceWithEmptyDefault []"

definition TestOneof2Reader_readBarBytesWithEmptyDefault :: "TestOneof2Reader \<Rightarrow> (byte list \<times> TestOneof2Reader) run" where
  "TestOneof2Reader_readBarBytesWithEmptyDefault = readCell cellBarBytesWithEmptyDefault cellBarBytesWithEmptyDefault_update mbuf (readOne ReadByteList [])"

definition TestOneof2Reader_GetBarBytesWithEmptyDefault :: "TestOneof2Reader option \<Rightarrow> (byte list \<times> TestOneof2Reader option) run" where
  "TestOneof2Reader_GetBarBytesWithEmptyDefault = getter TestOneof2Reader_readBarBytesWithEmptyDefault []"

definition TestOneof2Reader_readBazInt :: "TestOneof2Reader \<Rightarrow> (int32 \<times> TestOneof2Reader) run" where
  "TestOneof2Reader_readBazInt = readCell cellBazInt cellBazInt_update mbuf (readOne ReadInt32 0)"

definition TestOneof2Reader_GetBazInt :: "TestOneof2Reader option \<Rightarrow> (int32 \<times> TestOneof2Reader option) run" where
  "TestOneof2Reader_GetBazInt = getter TestOneof2Reader_readBazInt 0"

definition TestOneof2Reader_readBazString :: "TestOneof2Reader \<Rightarrow> (gostring \<times> TestOneof2Reader) run" where
  "TestOneof2Reader_readBazString = readCell cellBazString cellBazString_update mbuf (readOne ReadString (bytes_of ''BAZ''))"

definition TestOneof2Reader_GetBazString :: "TestOneof2Reader option \<Rightarrow> (gostring \<times> TestOneof2Reader option) run" where
  "TestOneof2Reader_GetBazString = getter TestOneof2Reader_readBazString (bytes_of ''BAZ'')"

lemmas TestOneof2_getters =
  TestOneof2Reader_readFooInt_def TestOneof2Reader_GetFooInt_def
  TestOneof2Reader_readFooString_def TestOneof2Reader_GetFooString_def
  TestOneof2Reader_readFooCord_def TestOneof2Reader_GetFooCord_def
  TestOneof2Reader_readFooStringPiece_def TestOneof2Reader_GetFooStringPiece_def
  TestOneof2Reader_readFooBytes_def TestOneof2Reader_GetFooBytes_def
  TestOneof2Reader_readFooEnum_def TestOneof2Reader_GetFooEnum_def
  TestOneof2Reader_readFooMessage_def TestOneof2Reader_GetFooMessage_def
  TestOneof2Reader_readFooLazyMessage_def TestOneof2Reader_GetFooLazyMessage_def
  TestOneof2Reader_readBarInt_def TestOneof2Reader_GetBarInt_def
  TestOneof2Reader_readBarString_def TestOneof2Reader_GetBarString_def
  TestOneof2Reader_readBarCord_def TestOneof2Reader_GetBarCord_def
  TestOneof2Reader_readBarStringPiece_def TestOneof2Reader_GetBarStringPiece_def
  TestOneof2Reader_readBarBytes_def TestOneof2Reader_GetBarBytes_def
  TestOneof2Reader_readBarEnum_def TestOneof2Reader_GetBarEnum_def
  TestOneof2Reader_readBarStringWithEmptyDefault_def TestOneof2Reader_GetBarStringWithEmptyDefault_def
  TestOneof2Reader_readBarCordWithEmptyDefault_def TestOneof2Reader_GetBarCordWithEmptyDefault_def
  TestOneof2Reader_readBarStringPieceWithEmptyDefault_def TestOneof2Reader_GetBarStringPieceWithEmptyDefault_def
  TestOneof2Reader_readBarBytesWithEmptyDefault_def TestOneof2Reader_GetBarBytesWithEmptyDefault_def
  TestOneof2Reader_readBazInt_def TestOneof2Reader_GetBazInt_def
  TestOneof2Reader_readBazString_def TestOneof2Reader_GetBazString_def

definition TestOneof2Reader_cases :: "ProtoWireType \<Rightarrow> int \<Rightarrow> (ProtoWireNumber \<times> (TestOneof2Reader \<Rightarrow> TestOneof2Reader)) list" where
  "TestOneof2Reader_cases wire offset = [
     (wireTestOneof2_FooInt, \<lambda>m. m\<lparr>cellFooInt := onOffset (setOffset wire offset) (cellFooInt m)\<rparr>),
     (wireTestOneof2_FooString, \<lambda>m. m\<lparr>cellFooString := onOffset (setOffset wire offset) (cellFooString m)\<rparr>),
     (wireTestOneof2_FooCord, \<lambda>m. m\<lparr>cellFooCord := onOffset (setOffset wire offset) (cellFooCord m)\<rparr>),
     (wireTestOneof2_FooStringPiece, \<lambda>m. m\<lparr>cellFooStringPiece := onOffset (setOffset wire offset) (cellFooStringPiece m)\<rparr>),
     (wireTestOneof2_FooBytes, \<lambda>m. m\<lparr>cellFooBytes := onOffset (setOffset wire offset) (cellFooBytes m)\<rparr>),
     (wireTestOneof2_FooEnum, \<lambda>m. m\<lparr>cellFooEnum := onOffset (setOffset wire offset) (cellFooEnum m)\<rparr>),
     (wireTestOneof2_FooMessage, \<lambda>m. m\<lparr>cellFooMessage := onOffset (setOffset wire offset) (cellFooMessage m)\<rparr>),
     (wireTestOneof2_FooLazyMessage, \<lambda>m. m\<lparr>cellFooLazyMessage := onOffset (setOffset wire offset) (cellFooLazyMessage m)\<rparr>),
     (wireTestOneof2_BarInt, \<lambda>m. m\<lparr>cellBarInt := onOffset (setOffset wire offset) (cellBarInt m)\<rparr>),
     (wireTestOneof2_BarString, \<lambda>m. m\<lparr>cellBarString := onOffset (setOffset wire offset) (cellBarString m)\<rparr>),
     (wireTestOneof2_BarCord, \<lambda>m. m\<lparr>cellBarCord := onOffset (setOffset wire offset) (cellBarCord m)\<rparr>),
     (wireTestOneof2_BarStringPiece, \<lambda>m. m\<lparr>cellBarStringPiece := onOffset (setOffset wire offset) (cellBarStringPiece m)\<rparr>),
     (wireTestOneof2_BarBytes, \<lambda>m. m\<lparr>cellBarBytes := onOffset (setOffset wire offset) (cellBarBytes m)\<rparr>),
     (wireTestOneof2_BarEnum, \<lambda>m. m\<lparr>cellBarEnum := onOffset (setOffset wire offset) (cellBarEnum m)\<rparr>),
     (wireTestOneof2_BarStringWithEmptyDefault, \<lambda>m. m\<lparr>cellBarStringWithEmptyDefault := onOffset (setOffset wire offset) (cellBarStringWithEmptyDefault m)\<rparr>),
     (wireTestOneof2_BarCordWithEmptyDefault, \<lambda>m. m\<lparr>cellBarCordWithEmptyDefault := onOffset (setOffset wire offset) (cellBarCordWithEmptyDefault m)\<rparr>),
     (wireTestOneof2_BarStringPieceWithEmptyDefault, \<lambda>m. m\<lparr>cellBarStringPieceWithEmptyDefault := onOffset (setOffset wire offset) (cellBarStringPieceWithEmptyDefault m)\<rparr>),
     (wireTestOneof2_BarBytesWithEmptyDefault, \<lambda>m. m\<lparr>cellBarBytesWithEmptyDefault := onOffset (setOffset wire offset) (cellBarBytesWithEmptyDefault m)\<rparr>),
     (wireTestOneof2_BazInt, \<lambda>m. m\<lparr>cellBazInt := onOffset (setOffset wire offset) (cellBazInt m)\<rparr>),
     (wireTestOneof2_BazString, \<lambda>m. m\<lparr>cellBazString := onOffset (setOffset wire offset) (cellBazString m)\<rparr>)]"

definition TestOneof2Reader_save :: "ProtoWireNumber \<Rightarrow> ProtoWireType \<Rightarrow> int \<Rightarrow> TestOneof2Reader \<Rightarrow> TestOneof2Reader" where
  "TestOneof2Reader_save tag wire offset = tag_switch (TestOneof2Reader_cases wire offset) tag"

definition TestOneof2Reader_Unmarshal :: "TestOneof2Reader \<Rightarrow> gslice \<Rightarrow> (TestOneof2Reader \<times> string option) run" where
  "TestOneof2Reader_Unmarshal m data =
     unmarshalLoop TestOneof2Reader_save (NewReader data) 0 (m\<lparr>mbuf := Some (NewReader data)\<rparr>)"

definition TestOneof2Reader_SourceBytes :: "TestOneof2Reader option \<Rightarrow> gslice" where
  "TestOneof2Reader_SourceBytes s = (case s of None \<Rightarrow> nil_slice | Some r \<Rightarrow> Bytes (mbuf r))"

section \<open>TestOneof2: the struct\<close>

record TestOneof2 =
  FooInt :: int32
  FooString :: gostring
  FooCord :: gostring
  FooStringPiece :: gostring
  FooBytes :: "byte list"
  FooEnum :: TestOneof2_NestedEnum
  FooMessage :: "TestOneof2_NestedMessage option"
  FooLazyMessage :: "TestOneof2_NestedMessage option"
  BarInt :: int32
  BarString :: gostring
  BarCord :: gostring
  BarStringPiece :: gostring
  BarBytes :: "byte list"
  BarEnum :: TestOneof2_NestedEnum
  BarStringWithEmptyDefault :: gostring
  BarCordWithEmptyDefault :: gostring
  BarStringPieceWithEmptyDefault :: gostring
  BarBytesWithEmptyDefault :: "byte list"
  BazInt :: int32
  BazString :: gostring

definition TestOneof2_zero :: TestOneof2 where
  "TestOneof2_zero = \<lparr>
     FooInt = 0, FooString = [], FooCord = [], FooStringPiece = [], FooBytes = [], FooEnum = 0,
     FooMessage = None, FooLazyMessage = None, BarInt = 0, BarString = [], BarCord = [],
     BarStringPiece = [], BarBytes = [], BarEnum = 0, BarStringWithEmptyDefault = [],
     BarCordWithEmptyDefault = [], BarStringPieceWithEmptyDefault = [],
     BarBytesWithEmptyDefault = [], BazInt = 0, BazString = []\<rparr>"

definition TestOneof2_stmts :: "(TestOneof2 \<times> TestOneof2Reader option \<Rightarrow> (TestOneof2 \<times> TestOneof2Reader option) run) list" where
  "TestOneof2_stmts = [
     assign TestOneof2Reader_GetFooInt (\<lambda>v res. res\<lparr>FooInt := v\<rparr>),
     assign TestOneof2Reader_GetFooString (\<lambda>v res. res\<lparr>FooString := v\<rparr>),
     assign TestOneof2Reader_GetFooCord (\<lambda>v res. res\<lparr>FooCord := v\<rparr>),
     assign TestOneof2Reader_GetFooStringPiece (\<lambda>v res. res\<lparr>FooStringPiece := v\<rparr>),
     assign TestOneof2Reader_GetFooBytes (\<lambda>v res. res\<lparr>FooBytes := v\<rparr>),
     assign TestOneof2Reader_GetFooEnum (\<lambda>v res. res\<lparr>FooEnum := v\<rparr>),
     assignStruct TestOneof2Reader_GetFooMessage (structToStruct TestOneof2_NestedMessageReader_ToStruct) cellFooMessage_update
       (\<lambda>v res. res\<lparr>FooMessage := v\<rparr>),
     assignStruct TestOneof2Reader_GetFooLazyMessage (structToStruct TestOneof2_NestedMessageReader_ToStruct) cellFooLazyMessage_update
       (\<lambda>v res. res\<lparr>FooLazyMessage := v\<rparr>),
     assign TestOneof2Reader_GetBarInt (\<lambda>v res. res\<lparr>BarInt := v\<rparr>),
     assign TestOneof2Reader_GetBarString (\<lambda>v res. res\<lparr>BarString := v\<rparr>),
     assign TestOneof2Reader_GetBarCord (\<lambda>v res. res\<lparr>BarCord := v\<rparr>),
     assign TestOneof2Reader_GetBarStringPiece (\<lambda>v res. res\<lparr>BarStringPiece := v\<rparr>),
     assign TestOneof2Reader_GetBarBytes (\<lambda>v res. res\<lparr>BarBytes := v\<rparr>),
     assign TestOneof2Reader_GetBarEnum (\<lambda>v res. res\<lparr>BarEnum := v\<rparr>),
     assign TestOneof2Reader_GetBarStringWithEmptyDefault (\<lambda>v res. res\<lparr>BarStringWithEmptyDefault := v\<rparr>),
     assign TestOneof2Reader_GetBarCordWithEmptyDefault (\<lambda>v res. res\<lparr>BarCordWithEmptyDefault := v\<rparr>),
     assign TestOneof2Reader_GetBarStringPieceWithEmptyDefault (\<lambda>v res. res\<lparr>BarStringPieceWithEmptyDefault := v\<rparr>),
     assign TestOneof2Reader_GetBarBytesWithEmptyDefault (\<lambda>v res. res\<lparr>BarBytesWithEmptyDefault := v\<rparr>),
     assign TestOneof2Reader_GetBazInt (\<lambda>v res. res\<lparr>BazInt := v\<rparr>),
     assign TestOneof2Reader_GetBazString (\<lambda>v res. res\<lparr>BazString := v\<rparr>)]"

definition TestOneof2Reader_ToStruct :: "TestOneof2Reader option \<Rightarrow> (TestOneof2 option \<times> TestOneof2Reader option) run" where
  "TestOneof2Reader_ToStruct = toStructWith (TestOneof2_stmts) TestOneof2_zero"

definition TestOneof2_appends :: "TestOneof2 \<Rightarrow> (Writer \<Rightarrow> Writer go) list" where
  "TestOneof2_appends s = [
     \<lambda>res. if FooInt s \<noteq> 0 then AppendInt32 res wireTestOneof2_FooInt (FooInt s) else Ret res,
     \<lambda>res. if FooString s \<noteq> [] then AppendString res wireTestOneof2_FooString (FooString s) else Ret res,
     \<lambda>res. if FooCord s \<noteq> [] then AppendString res wireTestOneof2_FooCord (FooCord s) else Ret res,
     \<lambda>res. if FooStringPiece s \<noteq> [] then AppendString res wireTestOneof2_FooStringPiece (FooStringPiece s) else Ret res,
     \<lambda>res. if FooBytes s \<noteq> [] then AppendBytes res wireTestOneof2_FooBytes (FooBytes s) else Ret res,
     \<lambda>res. if FooEnum s \<noteq> 0 then AppendInt32 res wireTestOneof2_FooEnum (FooEnum s) else Ret res,
     \<lambda>res. if FooMessage s \<noteq> None then structWriter TestOneof2_NestedMessage_XXX_PbContentSize TestOneof2_NestedMessage_MarshalTo res wireTestOneof2_FooMessage (FooMessage s) else Ret res,
     \<lambda>res. if FooLazyMessage s \<noteq> None then structWriter TestOneof2_NestedMessage_XXX_PbContentSize TestOneof2_NestedMessage_MarshalTo res wireTestOneof2_FooLazyMessage (FooLazyMessage s) else Ret res,
     \<lambda>res. if BarInt s \<noteq> 5 then AppendInt32 res wireTestOneof2_BarInt (BarInt s) else Ret res,
     \<lambda>res. if BarString s \<noteq> bytes_of ''STRING'' then AppendString res wireTestOneof2_BarString (BarString s) else Ret res,
     \<lambda>res. if BarCord s \<noteq> bytes_of ''CORD'' then AppendString res wireTestOneof2_BarCord (BarCord s) else Ret res,
     \<lambda>res. if BarStringPiece s \<noteq> bytes_of ''SPIECE'' then AppendString res wireTestOneof2_BarStringPiece (BarStringPiece s) else Ret res,
     \<lambda>res. if BarBytes s \<noteq> bytes_of ''BYTES'' then AppendBytes res wireTestOneof2_BarBytes (BarBytes s) else Ret res,
     \<lambda>res. if BarEnum s \<noteq> 0 then AppendInt32 res wireTestOneof2_BarEnum (BarEnum s) else Ret res,
     \<lambda>res. if BarStringWithEmptyDefault s \<noteq> [] then AppendString res wireTestOneof2_BarStringWithEmptyDefault (BarStringWithEmptyDefault s) else Ret res,
     \<lambda>res. if BarCordWithEmptyDefault s \<noteq> [] then AppendString res wireTestOneof2_BarCordWithEmptyDefault (BarCordWithEmptyDefault s) else Ret res,
     \<lambda>res. if BarStringPieceWithEmptyDefault s \<noteq> [] then AppendString res wireTestOneof2_BarStringPieceWithEmptyDefault (BarStringPieceWithEmptyDefault s) else Ret res,
     \<lambda>res. if BarBytesWithEmptyDefault s \<noteq> [] then AppendBytes res wireTestOneof2_BarBytesWithEmptyDefault (BarBytesWithEmptyDefault s) else Ret res,
     \<lambda>res. if BazInt s \<noteq> 0 then AppendInt32 res wireTestOneof2_BazInt (BazInt s) else Ret res,
     \<lambda>res. if BazString s \<noteq> bytes_of ''BAZ'' then AppendString res wireTestOneof2_BazString (BazString s) else Ret res]"

definition TestOneof2_MarshalTo :: "Writer \<Rightarrow> TestOneof2 option \<Rightarrow> Writer go" where
  "TestOneof2_MarshalTo = marshalToWith (\<lambda>s. TestOneof2_appends s)"

definition TestOneof2_sizes :: "TestOneof2 \<Rightarrow> int list" where
  "TestOneof2_sizes s = [
     if FooInt s \<noteq> 0 then sizeWithTag SizeInt32 wireTestOneof2_FooInt (FooInt s) else 0,
     if FooString s \<noteq> [] then sizeDelimitedWithTag SizeString wireTestOneof2_FooString (FooString s) else 0,
     if FooCord s \<noteq> [] then sizeDelimitedWithTag SizeString wireTestOneof2_FooCord (FooCord s) else 0,
     if FooStringPiece s \<noteq> [] then sizeDelimitedWithTag SizeString wireTestOneof2_FooStringPiece (FooStringPiece s) else 0,
     if FooBytes s \<noteq> [] then sizeDelimitedWithTag SizeBytes wireTestOneof2_FooBytes (FooBytes s) else 0,
     if FooEnum s \<noteq> 0 then sizeWithTag SizeInt32 wireTestOneof2_FooEnum (FooEnum s) else 0,
     if FooMessage s \<noteq> None then sizeDelimitedWithTag TestOneof2_NestedMessage_XXX_PbContentSize wireTestOneof2_FooMessage (FooMessage s) else 0,
     if FooLazyMessage s \<noteq> None then sizeDelimitedWithTag TestOneof2_NestedMessage_XXX_PbContentSize wireTestOneof2_FooLazyMessage (FooLazyMessage s) else 0,
     if BarInt s \<noteq> 5 then sizeWithTag SizeInt32 wireTestOneof2_BarInt (BarInt s) else 0,
     if BarString s \<noteq> bytes_of ''STRING'' then sizeDelimitedWithTag SizeString wireTestOneof2_BarString (BarString s) else 0,
     if BarCord s \<noteq> bytes_of ''CORD'' then sizeDelimitedWithTag SizeString wireTestOneof2_BarCord (BarCord s) else 0,
     if BarStringPiece s \<noteq> bytes_of ''SPIECE'' then sizeDelimitedWithTag SizeString wireTestOneof2_BarStringPiece (BarStringPiece s) else 0,
     if BarBytes s \<noteq> bytes_of ''BYTES'' then sizeDelimitedWithTag SizeBytes wireTestOneof2_BarBytes (BarBytes s) else 0,
     if BarEnum s \<noteq> 0 then sizeWithTag SizeInt32 wireTestOneof2_BarEnum (BarEnum s) else 0,
     if BarStringWithEmptyDefault s \<noteq> [] then sizeDelimitedWithTag SizeString wireTestOneof2_BarStringWithEmptyDefault (BarStringWithEmptyDefault s) else 0,
     if BarCordWithEmptyDefault s \<noteq> [] then sizeDelimitedWithTag SizeString wireTestOneof2_BarCordWithEmptyDefault (BarCordWithEmptyDefault s) else 0,
     if BarStringPieceWithEmptyDefault s \<noteq> [] then sizeDelimitedWithTag SizeString wireTestOneof2_BarStringPieceWithEmptyDefault (BarStringPieceWithEmptyDefault s) else 0,
     if BarBytesWithEmptyDefault s \<noteq> [] then sizeDelimitedWithTag SizeBytes wireTestOneof2_BarBytesWithEmptyDefault (BarBytesWithEmptyDefault s) else 0,
     if BazInt s \<noteq> 0 then sizeWithTag SizeInt32 wireTestOneof2_BazInt (BazInt s) else 0,
     if BazString s \<noteq> bytes_of ''BAZ'' then sizeDelimitedWithTag SizeString wireTestOneof2_BazString (BazString s) else 0]"

definition TestOneof2_XXX_PbContentSize :: "TestOneof2 option \<Rightarrow> int" where
  "TestOneof2_XXX_PbContentSize = contentSizeWith (\<lambda>s. TestOneof2_sizes s)"

definition TestOneof2_Marshal :: "TestOneof2 option \<Rightarrow> byte list go" where
  "TestOneof2_Marshal = marshalWith TestOneof2_XXX_PbContentSize TestOneof2_MarshalTo"

definition TestOneof2_Copy :: "TestOneof2 option \<Rightarrow> TestOneof2 option" where
  "TestOneof2_Copy s =
     (case s of None \<Rightarrow> None | Some s \<Rightarrow> Some \<lparr>
        FooInt = FooInt s, FooString = FooString s, FooCord = FooCord s,
        FooStringPiece = FooStringPiece s, FooBytes = FooBytes s, FooEnum = FooEnum s,
        FooMessage = (case FooMessage s of None \<Rightarrow> None | Some x \<Rightarrow> TestOneof2_NestedMessage_Copy (Some x)),
        FooLazyMessage = (case FooLazyMessage s of None \<Rightarrow> None | Some x \<Rightarrow> TestOneof2_NestedMessage_Copy (Some x)),
        BarInt = BarInt s, BarString = BarString s, BarCord = BarCord s,
        BarStringPiece = BarStringPiece s, BarBytes = BarBytes s, BarEnum = BarEnum s,
        BarStringWithEmptyDefault = BarStringWithEmptyDefault s,
        BarCordWithEmptyDefault = BarCordWithEmptyDefault s,
        BarStringPieceWithEmptyDefault = BarStringPieceWithEmptyDefault s,
        BarBytesWithEmptyDefault = BarBytesWithEmptyDefault s, BazInt = BazInt s,
        BazString = BazString s\<rparr>)"

section \<open>TestOneof2: the round trip\<close>

definition TestOneof2_tags :: "ProtoWireNumber list" where
  "TestOneof2_tags = [
     wireTestOneof2_FooInt, wireTestOneof2_FooString, wireTestOneof2_FooCord,
     wireTestOneof2_FooStringPiece, wireTestOneof2_FooBytes, wireTestOneof2_FooEnum,
     wireTestOneof2_FooMessage, wireTestOneof2_FooLazyMessage, wireTestOneof2_BarInt,
     wireTestOneof2_BarString, wireTestOneof2_BarCord, wireTestOneof2_BarStringPiece,
     wireTestOneof2_BarBytes, wireTestOneof2_BarEnum, wireTestOneof2_BarStringWithEmptyDefault,
     wireTestOneof2_BarCordWithEmptyDefault, wireTestOneof2_BarStringPieceWithEmptyDefault,
     wireTestOneof2_BarBytesWithEmptyDefault, wireTestOneof2_BazInt, wireTestOneof2_BazString]"

definition TestOneof2_groups :: "TestOneof2 \<Rightarrow> wfield list list" where
  "TestOneof2_groups s = [
     opt_field (FooInt s \<noteq> 0) (wireTestOneof2_FooInt, int32_val (FooInt s)),
     opt_field (FooString s \<noteq> []) (wireTestOneof2_FooString, WBytes (FooString s)),
     opt_field (FooCord s \<noteq> []) (wireTestOneof2_FooCord, WBytes (FooCord s)),
     opt_field (FooStringPiece s \<noteq> []) (wireTestOneof2_FooStringPiece, WBytes (FooStringPiece s)),
     opt_field (FooBytes s \<noteq> []) (wireTestOneof2_FooBytes, WBytes (FooBytes s)),
     opt_field (FooEnum s \<noteq> 0) (wireTestOneof2_FooEnum, int32_val (FooEnum s)),
     opt_field (FooMessage s \<noteq> None) (wireTestOneof2_FooMessage, WBytes (ptr_bytes TestOneof2_NestedMessage_content (FooMessage s))),
     opt_field (FooLazyMessage s \<noteq> None) (wireTestOneof2_FooLazyMessage, WBytes (ptr_bytes TestOneof2_NestedMessage_content (FooLazyMessage s))),
     opt_field (BarInt s \<noteq> 5) (wireTestOneof2_BarInt, int32_val (BarInt s)),
     opt_field (BarString s \<noteq> bytes_of ''STRING'') (wireTestOneof2_BarString, WBytes (BarString s)),
     opt_field (BarCord s \<noteq> bytes_of ''CORD'') (wireTestOneof2_BarCord, WBytes (BarCord s)),
     opt_field (BarStringPiece s \<noteq> bytes_of ''SPIECE'') (wireTestOneof2_BarStringPiece, WBytes (BarStringPiece s)),
     opt_field (BarBytes s \<noteq> bytes_of ''BYTES'') (wireTestOneof2_BarBytes, WBytes (BarBytes s)),
     opt_field (BarEnum s \<noteq> 0) (wireTestOneof2_BarEnum, int32_val (BarEnum s)),
     opt_field (BarStringWithEmptyDefault s \<noteq> []) (wireTestOneof2_BarStringWithEmptyDefault, WBytes (BarStringWithEmptyDefault s)),
     opt_field (BarCordWithEmptyDefault s \<noteq> []) (wireTestOneof2_BarCordWithEmptyDefault, WBytes (BarCordWithEmptyDefault s)),
     opt_field (BarStringPieceWithEmptyDefault s \<noteq> []) (wireTestOneof2_BarStringPieceWithEmptyDefault, WBytes (BarStringPieceWithEmptyDefault s)),
     opt_field (BarBytesWithEmptyDefault s \<noteq> []) (wireTestOneof2_BarBytesWithEmptyDefault, WBytes (BarBytesWithEmptyDefault s)),
     opt_field (BazInt s \<noteq> 0) (wireTestOneof2_BazInt, int32_val (BazInt s)),
     opt_field (BazString s \<noteq> bytes_of ''BAZ'') (wireTestOneof2_BazString, WBytes (BazString s))]"

definition TestOneof2_content :: "TestOneof2 \<Rightarrow> wfield list" where
  "TestOneof2_content s = concat (TestOneof2_groups s)"

text \<open>What a round trip keeps.\<close>

definition TestOneof2_norm :: "TestOneof2 \<Rightarrow> TestOneof2" where
  "TestOneof2_norm s = s\<lparr>
     FooMessage := norm_ptr TestOneof2_NestedMessage_content TestOneof2_NestedMessage_norm (FooMessage s),
     FooLazyMessage := norm_ptr TestOneof2_NestedMessage_content TestOneof2_NestedMessage_norm (FooLazyMessage s)\<rparr>"

definition TestOneof2_ready :: "Reader \<Rightarrow> TestOneof2 \<Rightarrow> (TestOneof2Reader \<Rightarrow> bool) list" where
  "TestOneof2_ready p s = [
     \<lambda>m. cell_reads (readOne ReadInt32 0) plain p (if FooInt s \<noteq> 0 then FooInt s else 0) (cellFooInt m),
     \<lambda>m. cell_reads (readOne ReadString []) plain p (if FooString s \<noteq> [] then FooString s else []) (cellFooString m),
     \<lambda>m. cell_reads (readOne ReadString []) plain p (if FooCord s \<noteq> [] then FooCord s else []) (cellFooCord m),
     \<lambda>m. cell_reads (readOne ReadString []) plain p (if FooStringPiece s \<noteq> [] then FooStringPiece s else []) (cellFooStringPiece m),
     \<lambda>m. cell_reads (readOne ReadByteList []) plain p (if FooBytes s \<noteq> [] then FooBytes s else []) (cellFooBytes m),
     \<lambda>m. cell_reads (readOne ReadInt32 0) plain p (if FooEnum s \<noteq> 0 then FooEnum s else 0) (cellFooEnum m),
     \<lambda>m. cell_reads (structReader (TestOneof2_NestedMessageReader_Unmarshal NewTestOneof2_NestedMessageReader)) (structToStruct TestOneof2_NestedMessageReader_ToStruct) p (norm_ptr TestOneof2_NestedMessage_content TestOneof2_NestedMessage_norm (FooMessage s)) (cellFooMessage m),
     \<lambda>m. cell_reads (structReader (TestOneof2_NestedMessageReader_Unmarshal NewTestOneof2_NestedMessageReader)) (structToStruct TestOneof2_NestedMessageReader_ToStruct) p (norm_ptr TestOneof2_NestedMessage_content TestOneof2_NestedMessage_norm (FooLazyMessage s)) (cellFooLazyMessage m),
     \<lambda>m. cell_reads (readOne ReadInt32 5) plain p (if BarInt s \<noteq> 5 then BarInt s else 5) (cellBarInt m),
     \<lambda>m. cell_reads (readOne ReadString (bytes_of ''STRING'')) plain p (if BarString s \<noteq> bytes_of ''STRING'' then BarString s else bytes_of ''STRING'') (cellBarString m),
     \<lambda>m. cell_reads (readOne ReadString (bytes_of ''CORD'')) plain p (if BarCord s \<noteq> bytes_of ''CORD'' then BarCord s else bytes_of ''CORD'') (cellBarCord m),
     \<lambda>m. cell_reads (readOne ReadString (bytes_of ''SPIECE'')) plain p (if BarStringPiece s \<noteq> bytes_of ''SPIECE'' then BarStringPiece s else bytes_of ''SPIECE'') (cellBarStringPiece m),
     \<lambda>m. cell_reads (readOne ReadByteList (bytes_of ''BYTES'')) plain p (if BarBytes s \<noteq> bytes_of ''BYTES'' then BarBytes s else bytes_of ''BYTES'') (cellBarBytes m),
     \<lambda>m. cell_reads (readOne ReadInt32 0) plain p (if BarEnum s \<noteq> 0 then BarEnum s else 0) (cellBarEnum m),
     \<lambda>m. cell_reads (readOne ReadString []) plain p (if BarStringWithEmptyDefault s \<noteq> [] then BarStringWithEmptyDefault s else []) (cellBarStringWithEmptyDefault m),
     \<lambda>m. cell_reads (readOne ReadString []) plain p (if BarCordWithEmptyDefault s \<noteq> [] then BarCordWithEmptyDefault s else []) (cellBarCordWithEmptyDefault m),
     \<lambda>m. cell_reads (readOne ReadString []) plain p (if BarStringPieceWithEmptyDefault s \<noteq> [] then BarStringPieceWithEmptyDefault s else []) (cellBarStringPieceWithEmptyDefault m),
     \<lambda>m. cell_reads (readOne ReadByteList []) plain p (if BarBytesWithEmptyDefault s \<noteq> [] then BarBytesWithEmptyDefault s else []) (cellBarBytesWithEmptyDefault m),
     \<lambda>m. cell_reads (readOne ReadInt32 0) plain p (if BazInt s \<noteq> 0 then BazInt s else 0) (cellBazInt m),
     \<lambda>m. cell_reads (readOne ReadString (bytes_of ''BAZ'')) plain p (if BazString s \<noteq> bytes_of ''BAZ'' then BazString s else bytes_of ''BAZ'') (cellBazString m)]"

definition TestOneof2_stored :: "TestOneof2 \<Rightarrow> (TestOneof2 \<Rightarrow> TestOneof2) list" where
  "TestOneof2_stored s = [
     \<lambda>res. res\<lparr>FooInt := if FooInt s \<noteq> 0 then FooInt s else 0\<rparr>,
     \<lambda>res. res\<lparr>FooString := if FooString s \<noteq> [] then FooString s else []\<rparr>,
     \<lambda>res. res\<lparr>FooCord := if FooCord s \<noteq> [] then FooCord s else []\<rparr>,
     \<lambda>res. res\<lparr>FooStringPiece := if FooStringPiece s \<noteq> [] then FooStringPiece s else []\<rparr>,
     \<lambda>res. res\<lparr>FooBytes := if FooBytes s \<noteq> [] then FooBytes s else []\<rparr>,
     \<lambda>res. res\<lparr>FooEnum := if FooEnum s \<noteq> 0 then FooEnum s else 0\<rparr>,
     \<lambda>res. res\<lparr>FooMessage := norm_ptr TestOneof2_NestedMessage_content TestOneof2_NestedMessage_norm (FooMessage s)\<rparr>,
     \<lambda>res. res\<lparr>FooLazyMessage := norm_ptr TestOneof2_NestedMessage_content TestOneof2_NestedMessage_norm (FooLazyMessage s)\<rparr>,
     \<lambda>res. res\<lparr>BarInt := if BarInt s \<noteq> 5 then BarInt s else 5\<rparr>,
     \<lambda>res. res\<lparr>BarString := if BarString s \<noteq> bytes_of ''STRING'' then BarString s else bytes_of ''STRING''\<rparr>,
     \<lambda>res. res\<lparr>BarCord := if BarCord s \<noteq> bytes_of ''CORD'' then BarCord s else bytes_of ''CORD''\<rparr>,
     \<lambda>res. res\<lparr>BarStringPiece := if BarStringPiece s \<noteq> bytes_of ''SPIECE'' then BarStringPiece s else bytes_of ''SPIECE''\<rparr>,
     \<lambda>res. res\<lparr>BarBytes := if BarBytes s \<noteq> bytes_of ''BYTES'' then BarBytes s else bytes_of ''BYTES''\<rparr>,
     \<lambda>res. res\<lparr>BarEnum := if BarEnum s \<noteq> 0 then BarEnum s else 0\<rparr>,
     \<lambda>res. res\<lparr>BarStringWithEmptyDefault := if BarStringWithEmptyDefault s \<noteq> [] then BarStringWithEmptyDefault s else []\<rparr>,
     \<lambda>res. res\<lparr>BarCordWithEmptyDefault := if BarCordWithEmptyDefault s \<noteq> [] then BarCordWithEmptyDefault s else []\<rparr>,
     \<lambda>res. res\<lparr>BarStringPieceWithEmptyDefault := if BarStringPieceWithEmptyDefault s \<noteq> [] then BarStringPieceWithEmptyDefault s else []\<rparr>,
     \<lambda>res. res\<lparr>BarBytesWithEmptyDefault := if BarBytesWithEmptyDefault s \<noteq> [] then BarBytesWithEmptyDefault s else []\<rparr>,
     \<lambda>res. res\<lparr>BazInt := if BazInt s \<noteq> 0 then BazInt s else 0\<rparr>,
     \<lambda>res. res\<lparr>BazString := if BazString s \<noteq> bytes_of ''BAZ'' then BazString s else bytes_of ''BAZ''\<rparr>]"

lemma TestOneof2_cases_distinct: "distinct (map fst (TestOneof2Reader_cases wire offset))"
  by (simp add: TestOneof2Reader_cases_def wireTestOneof2)

lemma TestOneof2_stores:
  "stores_cell TestOneof2Reader_save wireTestOneof2_FooInt setOffset cellFooInt"
  "stores_cell TestOneof2Reader_save wireTestOneof2_FooString setOffset cellFooString"
  "stores_cell TestOneof2Reader_save wireTestOneof2_FooCord setOffset cellFooCord"
  "stores_cell TestOneof2Reader_save wireTestOneof2_FooStringPiece setOffset cellFooStringPiece"
  "stores_cell TestOneof2Reader_save wireTestOneof2_FooBytes setOffset cellFooBytes"
  "stores_cell TestOneof2Reader_save wireTestOneof2_FooEnum setOffset cellFooEnum"
  "stores_cell TestOneof2Reader_save wireTestOneof2_FooMessage setOffset cellFooMessage"
  "stores_cell TestOneof2Reader_save wireTestOneof2_FooLazyMessage setOffset cellFooLazyMessage"
  "stores_cell TestOneof2Reader_save wireTestOneof2_BarInt setOffset cellBarInt"
  "stores_cell TestOneof2Reader_save wireTestOneof2_BarString setOffset cellBarString"
  "stores_cell TestOneof2Reader_save wireTestOneof2_BarCord setOffset cellBarCord"
  "stores_cell TestOneof2Reader_save wireTestOneof2_BarStringPiece setOffset cellBarStringPiece"
  "stores_cell TestOneof2Reader_save wireTestOneof2_BarBytes setOffset cellBarBytes"
  "stores_cell TestOneof2Reader_save wireTestOneof2_BarEnum setOffset cellBarEnum"
  "stores_cell TestOneof2Reader_save wireTestOneof2_BarStringWithEmptyDefault setOffset cellBarStringWithEmptyDefault"
  "stores_cell TestOneof2Reader_save wireTestOneof2_BarCordWithEmptyDefault setOffset cellBarCordWithEmptyDefault"
  "stores_cell TestOneof2Reader_save wireTestOneof2_BarStringPieceWithEmptyDefault setOffset cellBarStringPieceWithEmptyDefault"
  "stores_cell TestOneof2Reader_save wireTestOneof2_BarBytesWithEmptyDefault setOffset cellBarBytesWithEmptyDefault"
  "stores_cell TestOneof2Reader_save wireTestOneof2_BazInt setOffset cellBazInt"
  "stores_cell TestOneof2Reader_save wireTestOneof2_BazString setOffset cellBazString"
  unfolding TestOneof2Reader_save_def [abs_def] by (rule stores_cell_switch; (rule TestOneof2_cases_distinct)?; unfold TestOneof2Reader_cases_def; intro own_case.intros; simp)+

lemma TestOneof2_saved: "good_fields TestOneof2Reader_save p (NewTestOneof2Reader\<lparr>mbuf := Some p\<rparr>) TestOneof2_tags (TestOneof2_groups s) (TestOneof2_ready p s)"
  unfolding TestOneof2_tags_def TestOneof2_groups_def TestOneof2_ready_def
  by (intro good_fields.intros field_saved m_TestOneof2_NestedMessage.saved_struct TestOneof2_stores) (simp_all add: NewTestOneof2Reader_def newCell_def)

lemma TestOneof2_converted: "good_stmts mbuf p (TestOneof2_stmts) (TestOneof2_ready p s) (TestOneof2_stored s)"
  unfolding TestOneof2_stmts_def TestOneof2_ready_def TestOneof2_stored_def TestOneof2_getters append.simps
  by (intro good_stmts_field good_stmts.Nil) (simp_all cong: cell_reads_cong)

interpretation l_TestOneof2: lazy_message TestOneof2_tags TestOneof2_groups TestOneof2_norm
  "\<lambda>s. TestOneof2_sizes s" "\<lambda>s. TestOneof2_appends s"
  TestOneof2Reader_save "\<lambda>p. NewTestOneof2Reader\<lparr>mbuf := Some p\<rparr>" mbuf "TestOneof2_stmts" TestOneof2_zero TestOneof2_ready TestOneof2_stored
proof
  show "distinct TestOneof2_tags"
    using TestOneof2_cases_distinct by (simp only: TestOneof2Reader_cases_def TestOneof2_tags_def list.map fst_conv)
  show "list_all valid_tag TestOneof2_tags"
    by (simp add: TestOneof2_tags_def wireTestOneof2 valid_tag_def)
  show "list_all2 (\<lambda>t g. \<forall>f \<in> set g. fst f = t \<and> wf_val (snd f)) TestOneof2_tags (TestOneof2_groups s)" for s
    unfolding TestOneof2_tags_def TestOneof2_groups_def by (intro list.rel_intros field_tagged m_TestOneof2_NestedMessage.tagged_struct)
  show "list_all2 (\<lambda>e g. e = int (length (fields_bytes g))) (TestOneof2_sizes s) (TestOneof2_groups s)" for s
    unfolding TestOneof2_sizes_def TestOneof2_groups_def append.simps
    by (intro list.rel_intros field_sized m_TestOneof2_NestedMessage.sized_struct)
  show "list_all2 (\<lambda>st g. writes st (fields_bytes g)) (TestOneof2_appends s) (TestOneof2_groups s)" for s
    unfolding TestOneof2_appends_def TestOneof2_groups_def append.simps
    by (intro list.rel_intros field_written m_TestOneof2_NestedMessage.written_struct)
  show "mbuf (TestOneof2Reader_save t w off m) = mbuf m" for t w off m
    unfolding TestOneof2Reader_save_def by (rule tag_switch_keeps) (simp add: TestOneof2Reader_cases_def)
  show "fold (\<lambda>e. e) (TestOneof2_stored s) TestOneof2_zero = TestOneof2_norm s" for s
    unfolding TestOneof2_stored_def by (simp add: TestOneof2_zero_def TestOneof2_norm_def float_defaults)
qed (simp_all add: TestOneof2_saved TestOneof2_converted)

interpretation m_TestOneof2: message_codec TestOneof2_content TestOneof2_norm TestOneof2_XXX_PbContentSize TestOneof2_MarshalTo
  "TestOneof2Reader_Unmarshal NewTestOneof2Reader" TestOneof2Reader_ToStruct
  using l_TestOneof2.message
  by (simp only: TestOneof2_content_def [abs_def] TestOneof2_XXX_PbContentSize_def TestOneof2_MarshalTo_def TestOneof2Reader_Unmarshal_def [abs_def] TestOneof2Reader_ToStruct_def)


end
