(* ===== verification/Unittest_Required.thy ===== *)
theory Unittest_Required
  imports Unittest_Base
begin

text \<open>
  The messages of \<^verbatim>\<open>src/shared/gremlin_go/bench/gremlin_pb/protobuf_unittest/unittest.pb2.go\<close> with required fields, which are always written.
\<close>

section \<open>TestRequired: the reader\<close>

definition wireTestRequired_A :: ProtoWireNumber where "wireTestRequired_A = 1"
definition wireTestRequired_Dummy2 :: ProtoWireNumber where "wireTestRequired_Dummy2 = 2"
definition wireTestRequired_B :: ProtoWireNumber where "wireTestRequired_B = 3"
definition wireTestRequired_Dummy4 :: ProtoWireNumber where "wireTestRequired_Dummy4 = 4"
definition wireTestRequired_Dummy5 :: ProtoWireNumber where "wireTestRequired_Dummy5 = 5"
definition wireTestRequired_Dummy6 :: ProtoWireNumber where "wireTestRequired_Dummy6 = 6"
definition wireTestRequired_Dummy7 :: ProtoWireNumber where "wireTestRequired_Dummy7 = 7"
definition wireTestRequired_Dummy8 :: ProtoWireNumber where "wireTestRequired_Dummy8 = 8"
definition wireTestRequired_Dummy9 :: ProtoWireNumber where "wireTestRequired_Dummy9 = 9"
definition wireTestRequired_Dummy10 :: ProtoWireNumber where "wireTestRequired_Dummy10 = 10"
definition wireTestRequired_Dummy11 :: ProtoWireNumber where "wireTestRequired_Dummy11 = 11"
definition wireTestRequired_Dummy12 :: ProtoWireNumber where "wireTestRequired_Dummy12 = 12"
definition wireTestRequired_Dummy13 :: ProtoWireNumber where "wireTestRequired_Dummy13 = 13"
definition wireTestRequired_Dummy14 :: ProtoWireNumber where "wireTestRequired_Dummy14 = 14"
definition wireTestRequired_Dummy15 :: ProtoWireNumber where "wireTestRequired_Dummy15 = 15"
definition wireTestRequired_Dummy16 :: ProtoWireNumber where "wireTestRequired_Dummy16 = 16"
definition wireTestRequired_Dummy17 :: ProtoWireNumber where "wireTestRequired_Dummy17 = 17"
definition wireTestRequired_Dummy18 :: ProtoWireNumber where "wireTestRequired_Dummy18 = 18"
definition wireTestRequired_Dummy19 :: ProtoWireNumber where "wireTestRequired_Dummy19 = 19"
definition wireTestRequired_Dummy20 :: ProtoWireNumber where "wireTestRequired_Dummy20 = 20"
definition wireTestRequired_Dummy21 :: ProtoWireNumber where "wireTestRequired_Dummy21 = 21"
definition wireTestRequired_Dummy22 :: ProtoWireNumber where "wireTestRequired_Dummy22 = 22"
definition wireTestRequired_Dummy23 :: ProtoWireNumber where "wireTestRequired_Dummy23 = 23"
definition wireTestRequired_Dummy24 :: ProtoWireNumber where "wireTestRequired_Dummy24 = 24"
definition wireTestRequired_Dummy25 :: ProtoWireNumber where "wireTestRequired_Dummy25 = 25"
definition wireTestRequired_Dummy26 :: ProtoWireNumber where "wireTestRequired_Dummy26 = 26"
definition wireTestRequired_Dummy27 :: ProtoWireNumber where "wireTestRequired_Dummy27 = 27"
definition wireTestRequired_Dummy28 :: ProtoWireNumber where "wireTestRequired_Dummy28 = 28"
definition wireTestRequired_Dummy29 :: ProtoWireNumber where "wireTestRequired_Dummy29 = 29"
definition wireTestRequired_Dummy30 :: ProtoWireNumber where "wireTestRequired_Dummy30 = 30"
definition wireTestRequired_Dummy31 :: ProtoWireNumber where "wireTestRequired_Dummy31 = 31"
definition wireTestRequired_Dummy32 :: ProtoWireNumber where "wireTestRequired_Dummy32 = 32"
definition wireTestRequired_C :: ProtoWireNumber where "wireTestRequired_C = 33"
definition wireTestRequired_OptionalForeign :: ProtoWireNumber where "wireTestRequired_OptionalForeign = 34"

lemmas wireTestRequired =
  wireTestRequired_A_def wireTestRequired_Dummy2_def wireTestRequired_B_def
  wireTestRequired_Dummy4_def wireTestRequired_Dummy5_def wireTestRequired_Dummy6_def
  wireTestRequired_Dummy7_def wireTestRequired_Dummy8_def wireTestRequired_Dummy9_def
  wireTestRequired_Dummy10_def wireTestRequired_Dummy11_def wireTestRequired_Dummy12_def
  wireTestRequired_Dummy13_def wireTestRequired_Dummy14_def wireTestRequired_Dummy15_def
  wireTestRequired_Dummy16_def wireTestRequired_Dummy17_def wireTestRequired_Dummy18_def
  wireTestRequired_Dummy19_def wireTestRequired_Dummy20_def wireTestRequired_Dummy21_def
  wireTestRequired_Dummy22_def wireTestRequired_Dummy23_def wireTestRequired_Dummy24_def
  wireTestRequired_Dummy25_def wireTestRequired_Dummy26_def wireTestRequired_Dummy27_def
  wireTestRequired_Dummy28_def wireTestRequired_Dummy29_def wireTestRequired_Dummy30_def
  wireTestRequired_Dummy31_def wireTestRequired_Dummy32_def wireTestRequired_C_def
  wireTestRequired_OptionalForeign_def

record TestRequiredReader =
  mbuf :: "Reader option"
  cellA :: "int32 one_cell"
  cellDummy2 :: "int32 one_cell"
  cellB :: "int32 one_cell"
  cellDummy4 :: "int32 one_cell"
  cellDummy5 :: "int32 one_cell"
  cellDummy6 :: "int32 one_cell"
  cellDummy7 :: "int32 one_cell"
  cellDummy8 :: "int32 one_cell"
  cellDummy9 :: "int32 one_cell"
  cellDummy10 :: "int32 one_cell"
  cellDummy11 :: "int32 one_cell"
  cellDummy12 :: "int32 one_cell"
  cellDummy13 :: "int32 one_cell"
  cellDummy14 :: "int32 one_cell"
  cellDummy15 :: "int32 one_cell"
  cellDummy16 :: "int32 one_cell"
  cellDummy17 :: "int32 one_cell"
  cellDummy18 :: "int32 one_cell"
  cellDummy19 :: "int32 one_cell"
  cellDummy20 :: "int32 one_cell"
  cellDummy21 :: "int32 one_cell"
  cellDummy22 :: "int32 one_cell"
  cellDummy23 :: "int32 one_cell"
  cellDummy24 :: "int32 one_cell"
  cellDummy25 :: "int32 one_cell"
  cellDummy26 :: "int32 one_cell"
  cellDummy27 :: "int32 one_cell"
  cellDummy28 :: "int32 one_cell"
  cellDummy29 :: "int32 one_cell"
  cellDummy30 :: "int32 one_cell"
  cellDummy31 :: "int32 one_cell"
  cellDummy32 :: "int32 one_cell"
  cellC :: "int32 one_cell"
  cellOptionalForeign :: "(ForeignMessageReader option) one_cell"

definition NewTestRequiredReader :: TestRequiredReader where
  "NewTestRequiredReader = \<lparr>
     mbuf = None, cellA = newCell 0 0, cellDummy2 = newCell 0 0, cellB = newCell 0 0,
     cellDummy4 = newCell 0 0, cellDummy5 = newCell 0 0, cellDummy6 = newCell 0 0,
     cellDummy7 = newCell 0 0, cellDummy8 = newCell 0 0, cellDummy9 = newCell 0 0,
     cellDummy10 = newCell 0 0, cellDummy11 = newCell 0 0, cellDummy12 = newCell 0 0,
     cellDummy13 = newCell 0 0, cellDummy14 = newCell 0 0, cellDummy15 = newCell 0 0,
     cellDummy16 = newCell 0 0, cellDummy17 = newCell 0 0, cellDummy18 = newCell 0 0,
     cellDummy19 = newCell 0 0, cellDummy20 = newCell 0 0, cellDummy21 = newCell 0 0,
     cellDummy22 = newCell 0 0, cellDummy23 = newCell 0 0, cellDummy24 = newCell 0 0,
     cellDummy25 = newCell 0 0, cellDummy26 = newCell 0 0, cellDummy27 = newCell 0 0,
     cellDummy28 = newCell 0 0, cellDummy29 = newCell 0 0, cellDummy30 = newCell 0 0,
     cellDummy31 = newCell 0 0, cellDummy32 = newCell 0 0, cellC = newCell 0 0,
     cellOptionalForeign = newCell None 0\<rparr>"

definition TestRequiredReader_readA :: "TestRequiredReader \<Rightarrow> (int32 \<times> TestRequiredReader) run" where
  "TestRequiredReader_readA = readCell cellA cellA_update mbuf (readOne ReadInt32 0)"

definition TestRequiredReader_GetA :: "TestRequiredReader option \<Rightarrow> (int32 \<times> TestRequiredReader option) run" where
  "TestRequiredReader_GetA = getter TestRequiredReader_readA 0"

definition TestRequiredReader_readDummy2 :: "TestRequiredReader \<Rightarrow> (int32 \<times> TestRequiredReader) run" where
  "TestRequiredReader_readDummy2 = readCell cellDummy2 cellDummy2_update mbuf (readOne ReadInt32 0)"

definition TestRequiredReader_GetDummy2 :: "TestRequiredReader option \<Rightarrow> (int32 \<times> TestRequiredReader option) run" where
  "TestRequiredReader_GetDummy2 = getter TestRequiredReader_readDummy2 0"

definition TestRequiredReader_readB :: "TestRequiredReader \<Rightarrow> (int32 \<times> TestRequiredReader) run" where
  "TestRequiredReader_readB = readCell cellB cellB_update mbuf (readOne ReadInt32 0)"

definition TestRequiredReader_GetB :: "TestRequiredReader option \<Rightarrow> (int32 \<times> TestRequiredReader option) run" where
  "TestRequiredReader_GetB = getter TestRequiredReader_readB 0"

definition TestRequiredReader_readDummy4 :: "TestRequiredReader \<Rightarrow> (int32 \<times> TestRequiredReader) run" where
  "TestRequiredReader_readDummy4 = readCell cellDummy4 cellDummy4_update mbuf (readOne ReadInt32 0)"

definition TestRequiredReader_GetDummy4 :: "TestRequiredReader option \<Rightarrow> (int32 \<times> TestRequiredReader option) run" where
  "TestRequiredReader_GetDummy4 = getter TestRequiredReader_readDummy4 0"

definition TestRequiredReader_readDummy5 :: "TestRequiredReader \<Rightarrow> (int32 \<times> TestRequiredReader) run" where
  "TestRequiredReader_readDummy5 = readCell cellDummy5 cellDummy5_update mbuf (readOne ReadInt32 0)"

definition TestRequiredReader_GetDummy5 :: "TestRequiredReader option \<Rightarrow> (int32 \<times> TestRequiredReader option) run" where
  "TestRequiredReader_GetDummy5 = getter TestRequiredReader_readDummy5 0"

definition TestRequiredReader_readDummy6 :: "TestRequiredReader \<Rightarrow> (int32 \<times> TestRequiredReader) run" where
  "TestRequiredReader_readDummy6 = readCell cellDummy6 cellDummy6_update mbuf (readOne ReadInt32 0)"

definition TestRequiredReader_GetDummy6 :: "TestRequiredReader option \<Rightarrow> (int32 \<times> TestRequiredReader option) run" where
  "TestRequiredReader_GetDummy6 = getter TestRequiredReader_readDummy6 0"

definition TestRequiredReader_readDummy7 :: "TestRequiredReader \<Rightarrow> (int32 \<times> TestRequiredReader) run" where
  "TestRequiredReader_readDummy7 = readCell cellDummy7 cellDummy7_update mbuf (readOne ReadInt32 0)"

definition TestRequiredReader_GetDummy7 :: "TestRequiredReader option \<Rightarrow> (int32 \<times> TestRequiredReader option) run" where
  "TestRequiredReader_GetDummy7 = getter TestRequiredReader_readDummy7 0"

definition TestRequiredReader_readDummy8 :: "TestRequiredReader \<Rightarrow> (int32 \<times> TestRequiredReader) run" where
  "TestRequiredReader_readDummy8 = readCell cellDummy8 cellDummy8_update mbuf (readOne ReadInt32 0)"

definition TestRequiredReader_GetDummy8 :: "TestRequiredReader option \<Rightarrow> (int32 \<times> TestRequiredReader option) run" where
  "TestRequiredReader_GetDummy8 = getter TestRequiredReader_readDummy8 0"

definition TestRequiredReader_readDummy9 :: "TestRequiredReader \<Rightarrow> (int32 \<times> TestRequiredReader) run" where
  "TestRequiredReader_readDummy9 = readCell cellDummy9 cellDummy9_update mbuf (readOne ReadInt32 0)"

definition TestRequiredReader_GetDummy9 :: "TestRequiredReader option \<Rightarrow> (int32 \<times> TestRequiredReader option) run" where
  "TestRequiredReader_GetDummy9 = getter TestRequiredReader_readDummy9 0"

definition TestRequiredReader_readDummy10 :: "TestRequiredReader \<Rightarrow> (int32 \<times> TestRequiredReader) run" where
  "TestRequiredReader_readDummy10 = readCell cellDummy10 cellDummy10_update mbuf (readOne ReadInt32 0)"

definition TestRequiredReader_GetDummy10 :: "TestRequiredReader option \<Rightarrow> (int32 \<times> TestRequiredReader option) run" where
  "TestRequiredReader_GetDummy10 = getter TestRequiredReader_readDummy10 0"

definition TestRequiredReader_readDummy11 :: "TestRequiredReader \<Rightarrow> (int32 \<times> TestRequiredReader) run" where
  "TestRequiredReader_readDummy11 = readCell cellDummy11 cellDummy11_update mbuf (readOne ReadInt32 0)"

definition TestRequiredReader_GetDummy11 :: "TestRequiredReader option \<Rightarrow> (int32 \<times> TestRequiredReader option) run" where
  "TestRequiredReader_GetDummy11 = getter TestRequiredReader_readDummy11 0"

definition TestRequiredReader_readDummy12 :: "TestRequiredReader \<Rightarrow> (int32 \<times> TestRequiredReader) run" where
  "TestRequiredReader_readDummy12 = readCell cellDummy12 cellDummy12_update mbuf (readOne ReadInt32 0)"

definition TestRequiredReader_GetDummy12 :: "TestRequiredReader option \<Rightarrow> (int32 \<times> TestRequiredReader option) run" where
  "TestRequiredReader_GetDummy12 = getter TestRequiredReader_readDummy12 0"

definition TestRequiredReader_readDummy13 :: "TestRequiredReader \<Rightarrow> (int32 \<times> TestRequiredReader) run" where
  "TestRequiredReader_readDummy13 = readCell cellDummy13 cellDummy13_update mbuf (readOne ReadInt32 0)"

definition TestRequiredReader_GetDummy13 :: "TestRequiredReader option \<Rightarrow> (int32 \<times> TestRequiredReader option) run" where
  "TestRequiredReader_GetDummy13 = getter TestRequiredReader_readDummy13 0"

definition TestRequiredReader_readDummy14 :: "TestRequiredReader \<Rightarrow> (int32 \<times> TestRequiredReader) run" where
  "TestRequiredReader_readDummy14 = readCell cellDummy14 cellDummy14_update mbuf (readOne ReadInt32 0)"

definition TestRequiredReader_GetDummy14 :: "TestRequiredReader option \<Rightarrow> (int32 \<times> TestRequiredReader option) run" where
  "TestRequiredReader_GetDummy14 = getter TestRequiredReader_readDummy14 0"

definition TestRequiredReader_readDummy15 :: "TestRequiredReader \<Rightarrow> (int32 \<times> TestRequiredReader) run" where
  "TestRequiredReader_readDummy15 = readCell cellDummy15 cellDummy15_update mbuf (readOne ReadInt32 0)"

definition TestRequiredReader_GetDummy15 :: "TestRequiredReader option \<Rightarrow> (int32 \<times> TestRequiredReader option) run" where
  "TestRequiredReader_GetDummy15 = getter TestRequiredReader_readDummy15 0"

definition TestRequiredReader_readDummy16 :: "TestRequiredReader \<Rightarrow> (int32 \<times> TestRequiredReader) run" where
  "TestRequiredReader_readDummy16 = readCell cellDummy16 cellDummy16_update mbuf (readOne ReadInt32 0)"

definition TestRequiredReader_GetDummy16 :: "TestRequiredReader option \<Rightarrow> (int32 \<times> TestRequiredReader option) run" where
  "TestRequiredReader_GetDummy16 = getter TestRequiredReader_readDummy16 0"

definition TestRequiredReader_readDummy17 :: "TestRequiredReader \<Rightarrow> (int32 \<times> TestRequiredReader) run" where
  "TestRequiredReader_readDummy17 = readCell cellDummy17 cellDummy17_update mbuf (readOne ReadInt32 0)"

definition TestRequiredReader_GetDummy17 :: "TestRequiredReader option \<Rightarrow> (int32 \<times> TestRequiredReader option) run" where
  "TestRequiredReader_GetDummy17 = getter TestRequiredReader_readDummy17 0"

definition TestRequiredReader_readDummy18 :: "TestRequiredReader \<Rightarrow> (int32 \<times> TestRequiredReader) run" where
  "TestRequiredReader_readDummy18 = readCell cellDummy18 cellDummy18_update mbuf (readOne ReadInt32 0)"

definition TestRequiredReader_GetDummy18 :: "TestRequiredReader option \<Rightarrow> (int32 \<times> TestRequiredReader option) run" where
  "TestRequiredReader_GetDummy18 = getter TestRequiredReader_readDummy18 0"

definition TestRequiredReader_readDummy19 :: "TestRequiredReader \<Rightarrow> (int32 \<times> TestRequiredReader) run" where
  "TestRequiredReader_readDummy19 = readCell cellDummy19 cellDummy19_update mbuf (readOne ReadInt32 0)"

definition TestRequiredReader_GetDummy19 :: "TestRequiredReader option \<Rightarrow> (int32 \<times> TestRequiredReader option) run" where
  "TestRequiredReader_GetDummy19 = getter TestRequiredReader_readDummy19 0"

definition TestRequiredReader_readDummy20 :: "TestRequiredReader \<Rightarrow> (int32 \<times> TestRequiredReader) run" where
  "TestRequiredReader_readDummy20 = readCell cellDummy20 cellDummy20_update mbuf (readOne ReadInt32 0)"

definition TestRequiredReader_GetDummy20 :: "TestRequiredReader option \<Rightarrow> (int32 \<times> TestRequiredReader option) run" where
  "TestRequiredReader_GetDummy20 = getter TestRequiredReader_readDummy20 0"

definition TestRequiredReader_readDummy21 :: "TestRequiredReader \<Rightarrow> (int32 \<times> TestRequiredReader) run" where
  "TestRequiredReader_readDummy21 = readCell cellDummy21 cellDummy21_update mbuf (readOne ReadInt32 0)"

definition TestRequiredReader_GetDummy21 :: "TestRequiredReader option \<Rightarrow> (int32 \<times> TestRequiredReader option) run" where
  "TestRequiredReader_GetDummy21 = getter TestRequiredReader_readDummy21 0"

definition TestRequiredReader_readDummy22 :: "TestRequiredReader \<Rightarrow> (int32 \<times> TestRequiredReader) run" where
  "TestRequiredReader_readDummy22 = readCell cellDummy22 cellDummy22_update mbuf (readOne ReadInt32 0)"

definition TestRequiredReader_GetDummy22 :: "TestRequiredReader option \<Rightarrow> (int32 \<times> TestRequiredReader option) run" where
  "TestRequiredReader_GetDummy22 = getter TestRequiredReader_readDummy22 0"

definition TestRequiredReader_readDummy23 :: "TestRequiredReader \<Rightarrow> (int32 \<times> TestRequiredReader) run" where
  "TestRequiredReader_readDummy23 = readCell cellDummy23 cellDummy23_update mbuf (readOne ReadInt32 0)"

definition TestRequiredReader_GetDummy23 :: "TestRequiredReader option \<Rightarrow> (int32 \<times> TestRequiredReader option) run" where
  "TestRequiredReader_GetDummy23 = getter TestRequiredReader_readDummy23 0"

definition TestRequiredReader_readDummy24 :: "TestRequiredReader \<Rightarrow> (int32 \<times> TestRequiredReader) run" where
  "TestRequiredReader_readDummy24 = readCell cellDummy24 cellDummy24_update mbuf (readOne ReadInt32 0)"

definition TestRequiredReader_GetDummy24 :: "TestRequiredReader option \<Rightarrow> (int32 \<times> TestRequiredReader option) run" where
  "TestRequiredReader_GetDummy24 = getter TestRequiredReader_readDummy24 0"

definition TestRequiredReader_readDummy25 :: "TestRequiredReader \<Rightarrow> (int32 \<times> TestRequiredReader) run" where
  "TestRequiredReader_readDummy25 = readCell cellDummy25 cellDummy25_update mbuf (readOne ReadInt32 0)"

definition TestRequiredReader_GetDummy25 :: "TestRequiredReader option \<Rightarrow> (int32 \<times> TestRequiredReader option) run" where
  "TestRequiredReader_GetDummy25 = getter TestRequiredReader_readDummy25 0"

definition TestRequiredReader_readDummy26 :: "TestRequiredReader \<Rightarrow> (int32 \<times> TestRequiredReader) run" where
  "TestRequiredReader_readDummy26 = readCell cellDummy26 cellDummy26_update mbuf (readOne ReadInt32 0)"

definition TestRequiredReader_GetDummy26 :: "TestRequiredReader option \<Rightarrow> (int32 \<times> TestRequiredReader option) run" where
  "TestRequiredReader_GetDummy26 = getter TestRequiredReader_readDummy26 0"

definition TestRequiredReader_readDummy27 :: "TestRequiredReader \<Rightarrow> (int32 \<times> TestRequiredReader) run" where
  "TestRequiredReader_readDummy27 = readCell cellDummy27 cellDummy27_update mbuf (readOne ReadInt32 0)"

definition TestRequiredReader_GetDummy27 :: "TestRequiredReader option \<Rightarrow> (int32 \<times> TestRequiredReader option) run" where
  "TestRequiredReader_GetDummy27 = getter TestRequiredReader_readDummy27 0"

definition TestRequiredReader_readDummy28 :: "TestRequiredReader \<Rightarrow> (int32 \<times> TestRequiredReader) run" where
  "TestRequiredReader_readDummy28 = readCell cellDummy28 cellDummy28_update mbuf (readOne ReadInt32 0)"

definition TestRequiredReader_GetDummy28 :: "TestRequiredReader option \<Rightarrow> (int32 \<times> TestRequiredReader option) run" where
  "TestRequiredReader_GetDummy28 = getter TestRequiredReader_readDummy28 0"

definition TestRequiredReader_readDummy29 :: "TestRequiredReader \<Rightarrow> (int32 \<times> TestRequiredReader) run" where
  "TestRequiredReader_readDummy29 = readCell cellDummy29 cellDummy29_update mbuf (readOne ReadInt32 0)"

definition TestRequiredReader_GetDummy29 :: "TestRequiredReader option \<Rightarrow> (int32 \<times> TestRequiredReader option) run" where
  "TestRequiredReader_GetDummy29 = getter TestRequiredReader_readDummy29 0"

definition TestRequiredReader_readDummy30 :: "TestRequiredReader \<Rightarrow> (int32 \<times> TestRequiredReader) run" where
  "TestRequiredReader_readDummy30 = readCell cellDummy30 cellDummy30_update mbuf (readOne ReadInt32 0)"

definition TestRequiredReader_GetDummy30 :: "TestRequiredReader option \<Rightarrow> (int32 \<times> TestRequiredReader option) run" where
  "TestRequiredReader_GetDummy30 = getter TestRequiredReader_readDummy30 0"

definition TestRequiredReader_readDummy31 :: "TestRequiredReader \<Rightarrow> (int32 \<times> TestRequiredReader) run" where
  "TestRequiredReader_readDummy31 = readCell cellDummy31 cellDummy31_update mbuf (readOne ReadInt32 0)"

definition TestRequiredReader_GetDummy31 :: "TestRequiredReader option \<Rightarrow> (int32 \<times> TestRequiredReader option) run" where
  "TestRequiredReader_GetDummy31 = getter TestRequiredReader_readDummy31 0"

definition TestRequiredReader_readDummy32 :: "TestRequiredReader \<Rightarrow> (int32 \<times> TestRequiredReader) run" where
  "TestRequiredReader_readDummy32 = readCell cellDummy32 cellDummy32_update mbuf (readOne ReadInt32 0)"

definition TestRequiredReader_GetDummy32 :: "TestRequiredReader option \<Rightarrow> (int32 \<times> TestRequiredReader option) run" where
  "TestRequiredReader_GetDummy32 = getter TestRequiredReader_readDummy32 0"

definition TestRequiredReader_readC :: "TestRequiredReader \<Rightarrow> (int32 \<times> TestRequiredReader) run" where
  "TestRequiredReader_readC = readCell cellC cellC_update mbuf (readOne ReadInt32 0)"

definition TestRequiredReader_GetC :: "TestRequiredReader option \<Rightarrow> (int32 \<times> TestRequiredReader option) run" where
  "TestRequiredReader_GetC = getter TestRequiredReader_readC 0"

definition TestRequiredReader_readOptionalForeign :: "TestRequiredReader \<Rightarrow> (ForeignMessageReader option \<times> TestRequiredReader) run" where
  "TestRequiredReader_readOptionalForeign = readCell cellOptionalForeign cellOptionalForeign_update mbuf (structReader (ForeignMessageReader_Unmarshal NewForeignMessageReader))"

definition TestRequiredReader_GetOptionalForeign :: "TestRequiredReader option \<Rightarrow> (ForeignMessageReader option \<times> TestRequiredReader option) run" where
  "TestRequiredReader_GetOptionalForeign = getter TestRequiredReader_readOptionalForeign None"

lemmas TestRequired_getters =
  TestRequiredReader_readA_def TestRequiredReader_GetA_def
  TestRequiredReader_readDummy2_def TestRequiredReader_GetDummy2_def
  TestRequiredReader_readB_def TestRequiredReader_GetB_def
  TestRequiredReader_readDummy4_def TestRequiredReader_GetDummy4_def
  TestRequiredReader_readDummy5_def TestRequiredReader_GetDummy5_def
  TestRequiredReader_readDummy6_def TestRequiredReader_GetDummy6_def
  TestRequiredReader_readDummy7_def TestRequiredReader_GetDummy7_def
  TestRequiredReader_readDummy8_def TestRequiredReader_GetDummy8_def
  TestRequiredReader_readDummy9_def TestRequiredReader_GetDummy9_def
  TestRequiredReader_readDummy10_def TestRequiredReader_GetDummy10_def
  TestRequiredReader_readDummy11_def TestRequiredReader_GetDummy11_def
  TestRequiredReader_readDummy12_def TestRequiredReader_GetDummy12_def
  TestRequiredReader_readDummy13_def TestRequiredReader_GetDummy13_def
  TestRequiredReader_readDummy14_def TestRequiredReader_GetDummy14_def
  TestRequiredReader_readDummy15_def TestRequiredReader_GetDummy15_def
  TestRequiredReader_readDummy16_def TestRequiredReader_GetDummy16_def
  TestRequiredReader_readDummy17_def TestRequiredReader_GetDummy17_def
  TestRequiredReader_readDummy18_def TestRequiredReader_GetDummy18_def
  TestRequiredReader_readDummy19_def TestRequiredReader_GetDummy19_def
  TestRequiredReader_readDummy20_def TestRequiredReader_GetDummy20_def
  TestRequiredReader_readDummy21_def TestRequiredReader_GetDummy21_def
  TestRequiredReader_readDummy22_def TestRequiredReader_GetDummy22_def
  TestRequiredReader_readDummy23_def TestRequiredReader_GetDummy23_def
  TestRequiredReader_readDummy24_def TestRequiredReader_GetDummy24_def
  TestRequiredReader_readDummy25_def TestRequiredReader_GetDummy25_def
  TestRequiredReader_readDummy26_def TestRequiredReader_GetDummy26_def
  TestRequiredReader_readDummy27_def TestRequiredReader_GetDummy27_def
  TestRequiredReader_readDummy28_def TestRequiredReader_GetDummy28_def
  TestRequiredReader_readDummy29_def TestRequiredReader_GetDummy29_def
  TestRequiredReader_readDummy30_def TestRequiredReader_GetDummy30_def
  TestRequiredReader_readDummy31_def TestRequiredReader_GetDummy31_def
  TestRequiredReader_readDummy32_def TestRequiredReader_GetDummy32_def
  TestRequiredReader_readC_def TestRequiredReader_GetC_def
  TestRequiredReader_readOptionalForeign_def TestRequiredReader_GetOptionalForeign_def

definition TestRequiredReader_cases :: "ProtoWireType \<Rightarrow> int \<Rightarrow> (ProtoWireNumber \<times> (TestRequiredReader \<Rightarrow> TestRequiredReader)) list" where
  "TestRequiredReader_cases wire offset = [
     (wireTestRequired_A, \<lambda>m. m\<lparr>cellA := onOffset (setOffset wire offset) (cellA m)\<rparr>),
     (wireTestRequired_Dummy2, \<lambda>m. m\<lparr>cellDummy2 := onOffset (setOffset wire offset) (cellDummy2 m)\<rparr>),
     (wireTestRequired_B, \<lambda>m. m\<lparr>cellB := onOffset (setOffset wire offset) (cellB m)\<rparr>),
     (wireTestRequired_Dummy4, \<lambda>m. m\<lparr>cellDummy4 := onOffset (setOffset wire offset) (cellDummy4 m)\<rparr>),
     (wireTestRequired_Dummy5, \<lambda>m. m\<lparr>cellDummy5 := onOffset (setOffset wire offset) (cellDummy5 m)\<rparr>),
     (wireTestRequired_Dummy6, \<lambda>m. m\<lparr>cellDummy6 := onOffset (setOffset wire offset) (cellDummy6 m)\<rparr>),
     (wireTestRequired_Dummy7, \<lambda>m. m\<lparr>cellDummy7 := onOffset (setOffset wire offset) (cellDummy7 m)\<rparr>),
     (wireTestRequired_Dummy8, \<lambda>m. m\<lparr>cellDummy8 := onOffset (setOffset wire offset) (cellDummy8 m)\<rparr>),
     (wireTestRequired_Dummy9, \<lambda>m. m\<lparr>cellDummy9 := onOffset (setOffset wire offset) (cellDummy9 m)\<rparr>),
     (wireTestRequired_Dummy10, \<lambda>m. m\<lparr>cellDummy10 := onOffset (setOffset wire offset) (cellDummy10 m)\<rparr>),
     (wireTestRequired_Dummy11, \<lambda>m. m\<lparr>cellDummy11 := onOffset (setOffset wire offset) (cellDummy11 m)\<rparr>),
     (wireTestRequired_Dummy12, \<lambda>m. m\<lparr>cellDummy12 := onOffset (setOffset wire offset) (cellDummy12 m)\<rparr>),
     (wireTestRequired_Dummy13, \<lambda>m. m\<lparr>cellDummy13 := onOffset (setOffset wire offset) (cellDummy13 m)\<rparr>),
     (wireTestRequired_Dummy14, \<lambda>m. m\<lparr>cellDummy14 := onOffset (setOffset wire offset) (cellDummy14 m)\<rparr>),
     (wireTestRequired_Dummy15, \<lambda>m. m\<lparr>cellDummy15 := onOffset (setOffset wire offset) (cellDummy15 m)\<rparr>),
     (wireTestRequired_Dummy16, \<lambda>m. m\<lparr>cellDummy16 := onOffset (setOffset wire offset) (cellDummy16 m)\<rparr>),
     (wireTestRequired_Dummy17, \<lambda>m. m\<lparr>cellDummy17 := onOffset (setOffset wire offset) (cellDummy17 m)\<rparr>),
     (wireTestRequired_Dummy18, \<lambda>m. m\<lparr>cellDummy18 := onOffset (setOffset wire offset) (cellDummy18 m)\<rparr>),
     (wireTestRequired_Dummy19, \<lambda>m. m\<lparr>cellDummy19 := onOffset (setOffset wire offset) (cellDummy19 m)\<rparr>),
     (wireTestRequired_Dummy20, \<lambda>m. m\<lparr>cellDummy20 := onOffset (setOffset wire offset) (cellDummy20 m)\<rparr>),
     (wireTestRequired_Dummy21, \<lambda>m. m\<lparr>cellDummy21 := onOffset (setOffset wire offset) (cellDummy21 m)\<rparr>),
     (wireTestRequired_Dummy22, \<lambda>m. m\<lparr>cellDummy22 := onOffset (setOffset wire offset) (cellDummy22 m)\<rparr>),
     (wireTestRequired_Dummy23, \<lambda>m. m\<lparr>cellDummy23 := onOffset (setOffset wire offset) (cellDummy23 m)\<rparr>),
     (wireTestRequired_Dummy24, \<lambda>m. m\<lparr>cellDummy24 := onOffset (setOffset wire offset) (cellDummy24 m)\<rparr>),
     (wireTestRequired_Dummy25, \<lambda>m. m\<lparr>cellDummy25 := onOffset (setOffset wire offset) (cellDummy25 m)\<rparr>),
     (wireTestRequired_Dummy26, \<lambda>m. m\<lparr>cellDummy26 := onOffset (setOffset wire offset) (cellDummy26 m)\<rparr>),
     (wireTestRequired_Dummy27, \<lambda>m. m\<lparr>cellDummy27 := onOffset (setOffset wire offset) (cellDummy27 m)\<rparr>),
     (wireTestRequired_Dummy28, \<lambda>m. m\<lparr>cellDummy28 := onOffset (setOffset wire offset) (cellDummy28 m)\<rparr>),
     (wireTestRequired_Dummy29, \<lambda>m. m\<lparr>cellDummy29 := onOffset (setOffset wire offset) (cellDummy29 m)\<rparr>),
     (wireTestRequired_Dummy30, \<lambda>m. m\<lparr>cellDummy30 := onOffset (setOffset wire offset) (cellDummy30 m)\<rparr>),
     (wireTestRequired_Dummy31, \<lambda>m. m\<lparr>cellDummy31 := onOffset (setOffset wire offset) (cellDummy31 m)\<rparr>),
     (wireTestRequired_Dummy32, \<lambda>m. m\<lparr>cellDummy32 := onOffset (setOffset wire offset) (cellDummy32 m)\<rparr>),
     (wireTestRequired_C, \<lambda>m. m\<lparr>cellC := onOffset (setOffset wire offset) (cellC m)\<rparr>),
     (wireTestRequired_OptionalForeign, \<lambda>m. m\<lparr>cellOptionalForeign := onOffset (setOffset wire offset) (cellOptionalForeign m)\<rparr>)]"

definition TestRequiredReader_save :: "ProtoWireNumber \<Rightarrow> ProtoWireType \<Rightarrow> int \<Rightarrow> TestRequiredReader \<Rightarrow> TestRequiredReader" where
  "TestRequiredReader_save tag wire offset = tag_switch (TestRequiredReader_cases wire offset) tag"

definition TestRequiredReader_Unmarshal :: "TestRequiredReader \<Rightarrow> gslice \<Rightarrow> (TestRequiredReader \<times> string option) run" where
  "TestRequiredReader_Unmarshal m data =
     unmarshalLoop TestRequiredReader_save (NewReader data) 0 (m\<lparr>mbuf := Some (NewReader data)\<rparr>)"

definition TestRequiredReader_SourceBytes :: "TestRequiredReader option \<Rightarrow> gslice" where
  "TestRequiredReader_SourceBytes s = (case s of None \<Rightarrow> nil_slice | Some r \<Rightarrow> Bytes (mbuf r))"

section \<open>TestRequired: the struct\<close>

record TestRequired =
  A' :: int32
  Dummy2 :: int32
  B' :: int32
  Dummy4 :: int32
  Dummy5 :: int32
  Dummy6 :: int32
  Dummy7 :: int32
  Dummy8 :: int32
  Dummy9 :: int32
  Dummy10 :: int32
  Dummy11 :: int32
  Dummy12 :: int32
  Dummy13 :: int32
  Dummy14 :: int32
  Dummy15 :: int32
  Dummy16 :: int32
  Dummy17 :: int32
  Dummy18 :: int32
  Dummy19 :: int32
  Dummy20 :: int32
  Dummy21 :: int32
  Dummy22 :: int32
  Dummy23 :: int32
  Dummy24 :: int32
  Dummy25 :: int32
  Dummy26 :: int32
  Dummy27 :: int32
  Dummy28 :: int32
  Dummy29 :: int32
  Dummy30 :: int32
  Dummy31 :: int32
  Dummy32 :: int32
  C' :: int32
  OptionalForeign :: "ForeignMessage option"

definition TestRequired_zero :: TestRequired where
  "TestRequired_zero = \<lparr>
     A' = 0, Dummy2 = 0, B' = 0, Dummy4 = 0, Dummy5 = 0, Dummy6 = 0, Dummy7 = 0, Dummy8 = 0,
     Dummy9 = 0, Dummy10 = 0, Dummy11 = 0, Dummy12 = 0, Dummy13 = 0, Dummy14 = 0, Dummy15 = 0,
     Dummy16 = 0, Dummy17 = 0, Dummy18 = 0, Dummy19 = 0, Dummy20 = 0, Dummy21 = 0, Dummy22 = 0,
     Dummy23 = 0, Dummy24 = 0, Dummy25 = 0, Dummy26 = 0, Dummy27 = 0, Dummy28 = 0, Dummy29 = 0,
     Dummy30 = 0, Dummy31 = 0, Dummy32 = 0, C' = 0, OptionalForeign = None\<rparr>"

definition TestRequired_stmts :: "(TestRequired \<times> TestRequiredReader option \<Rightarrow> (TestRequired \<times> TestRequiredReader option) run) list" where
  "TestRequired_stmts = [
     assign TestRequiredReader_GetA (\<lambda>v res. res\<lparr>A' := v\<rparr>),
     assign TestRequiredReader_GetDummy2 (\<lambda>v res. res\<lparr>Dummy2 := v\<rparr>),
     assign TestRequiredReader_GetB (\<lambda>v res. res\<lparr>B' := v\<rparr>),
     assign TestRequiredReader_GetDummy4 (\<lambda>v res. res\<lparr>Dummy4 := v\<rparr>),
     assign TestRequiredReader_GetDummy5 (\<lambda>v res. res\<lparr>Dummy5 := v\<rparr>),
     assign TestRequiredReader_GetDummy6 (\<lambda>v res. res\<lparr>Dummy6 := v\<rparr>),
     assign TestRequiredReader_GetDummy7 (\<lambda>v res. res\<lparr>Dummy7 := v\<rparr>),
     assign TestRequiredReader_GetDummy8 (\<lambda>v res. res\<lparr>Dummy8 := v\<rparr>),
     assign TestRequiredReader_GetDummy9 (\<lambda>v res. res\<lparr>Dummy9 := v\<rparr>),
     assign TestRequiredReader_GetDummy10 (\<lambda>v res. res\<lparr>Dummy10 := v\<rparr>),
     assign TestRequiredReader_GetDummy11 (\<lambda>v res. res\<lparr>Dummy11 := v\<rparr>),
     assign TestRequiredReader_GetDummy12 (\<lambda>v res. res\<lparr>Dummy12 := v\<rparr>),
     assign TestRequiredReader_GetDummy13 (\<lambda>v res. res\<lparr>Dummy13 := v\<rparr>),
     assign TestRequiredReader_GetDummy14 (\<lambda>v res. res\<lparr>Dummy14 := v\<rparr>),
     assign TestRequiredReader_GetDummy15 (\<lambda>v res. res\<lparr>Dummy15 := v\<rparr>),
     assign TestRequiredReader_GetDummy16 (\<lambda>v res. res\<lparr>Dummy16 := v\<rparr>),
     assign TestRequiredReader_GetDummy17 (\<lambda>v res. res\<lparr>Dummy17 := v\<rparr>),
     assign TestRequiredReader_GetDummy18 (\<lambda>v res. res\<lparr>Dummy18 := v\<rparr>),
     assign TestRequiredReader_GetDummy19 (\<lambda>v res. res\<lparr>Dummy19 := v\<rparr>),
     assign TestRequiredReader_GetDummy20 (\<lambda>v res. res\<lparr>Dummy20 := v\<rparr>),
     assign TestRequiredReader_GetDummy21 (\<lambda>v res. res\<lparr>Dummy21 := v\<rparr>),
     assign TestRequiredReader_GetDummy22 (\<lambda>v res. res\<lparr>Dummy22 := v\<rparr>),
     assign TestRequiredReader_GetDummy23 (\<lambda>v res. res\<lparr>Dummy23 := v\<rparr>),
     assign TestRequiredReader_GetDummy24 (\<lambda>v res. res\<lparr>Dummy24 := v\<rparr>),
     assign TestRequiredReader_GetDummy25 (\<lambda>v res. res\<lparr>Dummy25 := v\<rparr>),
     assign TestRequiredReader_GetDummy26 (\<lambda>v res. res\<lparr>Dummy26 := v\<rparr>),
     assign TestRequiredReader_GetDummy27 (\<lambda>v res. res\<lparr>Dummy27 := v\<rparr>),
     assign TestRequiredReader_GetDummy28 (\<lambda>v res. res\<lparr>Dummy28 := v\<rparr>),
     assign TestRequiredReader_GetDummy29 (\<lambda>v res. res\<lparr>Dummy29 := v\<rparr>),
     assign TestRequiredReader_GetDummy30 (\<lambda>v res. res\<lparr>Dummy30 := v\<rparr>),
     assign TestRequiredReader_GetDummy31 (\<lambda>v res. res\<lparr>Dummy31 := v\<rparr>),
     assign TestRequiredReader_GetDummy32 (\<lambda>v res. res\<lparr>Dummy32 := v\<rparr>),
     assign TestRequiredReader_GetC (\<lambda>v res. res\<lparr>C' := v\<rparr>),
     assignStruct TestRequiredReader_GetOptionalForeign (structToStruct ForeignMessageReader_ToStruct) cellOptionalForeign_update
       (\<lambda>v res. res\<lparr>OptionalForeign := v\<rparr>)]"

definition TestRequiredReader_ToStruct :: "TestRequiredReader option \<Rightarrow> (TestRequired option \<times> TestRequiredReader option) run" where
  "TestRequiredReader_ToStruct = toStructWith (TestRequired_stmts) TestRequired_zero"

definition TestRequired_appends :: "TestRequired \<Rightarrow> (Writer \<Rightarrow> Writer go) list" where
  "TestRequired_appends s = [
     \<lambda>res. if True then AppendInt32 res wireTestRequired_A (A' s) else Ret res,
     \<lambda>res. if Dummy2 s \<noteq> 0 then AppendInt32 res wireTestRequired_Dummy2 (Dummy2 s) else Ret res,
     \<lambda>res. if True then AppendInt32 res wireTestRequired_B (B' s) else Ret res,
     \<lambda>res. if Dummy4 s \<noteq> 0 then AppendInt32 res wireTestRequired_Dummy4 (Dummy4 s) else Ret res,
     \<lambda>res. if Dummy5 s \<noteq> 0 then AppendInt32 res wireTestRequired_Dummy5 (Dummy5 s) else Ret res,
     \<lambda>res. if Dummy6 s \<noteq> 0 then AppendInt32 res wireTestRequired_Dummy6 (Dummy6 s) else Ret res,
     \<lambda>res. if Dummy7 s \<noteq> 0 then AppendInt32 res wireTestRequired_Dummy7 (Dummy7 s) else Ret res,
     \<lambda>res. if Dummy8 s \<noteq> 0 then AppendInt32 res wireTestRequired_Dummy8 (Dummy8 s) else Ret res,
     \<lambda>res. if Dummy9 s \<noteq> 0 then AppendInt32 res wireTestRequired_Dummy9 (Dummy9 s) else Ret res,
     \<lambda>res. if Dummy10 s \<noteq> 0 then AppendInt32 res wireTestRequired_Dummy10 (Dummy10 s) else Ret res,
     \<lambda>res. if Dummy11 s \<noteq> 0 then AppendInt32 res wireTestRequired_Dummy11 (Dummy11 s) else Ret res,
     \<lambda>res. if Dummy12 s \<noteq> 0 then AppendInt32 res wireTestRequired_Dummy12 (Dummy12 s) else Ret res,
     \<lambda>res. if Dummy13 s \<noteq> 0 then AppendInt32 res wireTestRequired_Dummy13 (Dummy13 s) else Ret res,
     \<lambda>res. if Dummy14 s \<noteq> 0 then AppendInt32 res wireTestRequired_Dummy14 (Dummy14 s) else Ret res,
     \<lambda>res. if Dummy15 s \<noteq> 0 then AppendInt32 res wireTestRequired_Dummy15 (Dummy15 s) else Ret res,
     \<lambda>res. if Dummy16 s \<noteq> 0 then AppendInt32 res wireTestRequired_Dummy16 (Dummy16 s) else Ret res,
     \<lambda>res. if Dummy17 s \<noteq> 0 then AppendInt32 res wireTestRequired_Dummy17 (Dummy17 s) else Ret res,
     \<lambda>res. if Dummy18 s \<noteq> 0 then AppendInt32 res wireTestRequired_Dummy18 (Dummy18 s) else Ret res,
     \<lambda>res. if Dummy19 s \<noteq> 0 then AppendInt32 res wireTestRequired_Dummy19 (Dummy19 s) else Ret res,
     \<lambda>res. if Dummy20 s \<noteq> 0 then AppendInt32 res wireTestRequired_Dummy20 (Dummy20 s) else Ret res,
     \<lambda>res. if Dummy21 s \<noteq> 0 then AppendInt32 res wireTestRequired_Dummy21 (Dummy21 s) else Ret res,
     \<lambda>res. if Dummy22 s \<noteq> 0 then AppendInt32 res wireTestRequired_Dummy22 (Dummy22 s) else Ret res,
     \<lambda>res. if Dummy23 s \<noteq> 0 then AppendInt32 res wireTestRequired_Dummy23 (Dummy23 s) else Ret res,
     \<lambda>res. if Dummy24 s \<noteq> 0 then AppendInt32 res wireTestRequired_Dummy24 (Dummy24 s) else Ret res,
     \<lambda>res. if Dummy25 s \<noteq> 0 then AppendInt32 res wireTestRequired_Dummy25 (Dummy25 s) else Ret res,
     \<lambda>res. if Dummy26 s \<noteq> 0 then AppendInt32 res wireTestRequired_Dummy26 (Dummy26 s) else Ret res,
     \<lambda>res. if Dummy27 s \<noteq> 0 then AppendInt32 res wireTestRequired_Dummy27 (Dummy27 s) else Ret res,
     \<lambda>res. if Dummy28 s \<noteq> 0 then AppendInt32 res wireTestRequired_Dummy28 (Dummy28 s) else Ret res,
     \<lambda>res. if Dummy29 s \<noteq> 0 then AppendInt32 res wireTestRequired_Dummy29 (Dummy29 s) else Ret res,
     \<lambda>res. if Dummy30 s \<noteq> 0 then AppendInt32 res wireTestRequired_Dummy30 (Dummy30 s) else Ret res,
     \<lambda>res. if Dummy31 s \<noteq> 0 then AppendInt32 res wireTestRequired_Dummy31 (Dummy31 s) else Ret res,
     \<lambda>res. if Dummy32 s \<noteq> 0 then AppendInt32 res wireTestRequired_Dummy32 (Dummy32 s) else Ret res,
     \<lambda>res. if True then AppendInt32 res wireTestRequired_C (C' s) else Ret res,
     \<lambda>res. if OptionalForeign s \<noteq> None then structWriter ForeignMessage_XXX_PbContentSize ForeignMessage_MarshalTo res wireTestRequired_OptionalForeign (OptionalForeign s) else Ret res]"

definition TestRequired_MarshalTo :: "Writer \<Rightarrow> TestRequired option \<Rightarrow> Writer go" where
  "TestRequired_MarshalTo = marshalToWith (\<lambda>s. TestRequired_appends s)"

definition TestRequired_sizes1 :: "TestRequired \<Rightarrow> int list" where
  "TestRequired_sizes1 s = [
     if True then sizeWithTag SizeInt32 wireTestRequired_A (A' s) else 0,
     if Dummy2 s \<noteq> 0 then sizeWithTag SizeInt32 wireTestRequired_Dummy2 (Dummy2 s) else 0,
     if True then sizeWithTag SizeInt32 wireTestRequired_B (B' s) else 0,
     if Dummy4 s \<noteq> 0 then sizeWithTag SizeInt32 wireTestRequired_Dummy4 (Dummy4 s) else 0,
     if Dummy5 s \<noteq> 0 then sizeWithTag SizeInt32 wireTestRequired_Dummy5 (Dummy5 s) else 0,
     if Dummy6 s \<noteq> 0 then sizeWithTag SizeInt32 wireTestRequired_Dummy6 (Dummy6 s) else 0,
     if Dummy7 s \<noteq> 0 then sizeWithTag SizeInt32 wireTestRequired_Dummy7 (Dummy7 s) else 0,
     if Dummy8 s \<noteq> 0 then sizeWithTag SizeInt32 wireTestRequired_Dummy8 (Dummy8 s) else 0,
     if Dummy9 s \<noteq> 0 then sizeWithTag SizeInt32 wireTestRequired_Dummy9 (Dummy9 s) else 0,
     if Dummy10 s \<noteq> 0 then sizeWithTag SizeInt32 wireTestRequired_Dummy10 (Dummy10 s) else 0,
     if Dummy11 s \<noteq> 0 then sizeWithTag SizeInt32 wireTestRequired_Dummy11 (Dummy11 s) else 0,
     if Dummy12 s \<noteq> 0 then sizeWithTag SizeInt32 wireTestRequired_Dummy12 (Dummy12 s) else 0,
     if Dummy13 s \<noteq> 0 then sizeWithTag SizeInt32 wireTestRequired_Dummy13 (Dummy13 s) else 0,
     if Dummy14 s \<noteq> 0 then sizeWithTag SizeInt32 wireTestRequired_Dummy14 (Dummy14 s) else 0,
     if Dummy15 s \<noteq> 0 then sizeWithTag SizeInt32 wireTestRequired_Dummy15 (Dummy15 s) else 0,
     if Dummy16 s \<noteq> 0 then sizeWithTag SizeInt32 wireTestRequired_Dummy16 (Dummy16 s) else 0,
     if Dummy17 s \<noteq> 0 then sizeWithTag SizeInt32 wireTestRequired_Dummy17 (Dummy17 s) else 0,
     if Dummy18 s \<noteq> 0 then sizeWithTag SizeInt32 wireTestRequired_Dummy18 (Dummy18 s) else 0,
     if Dummy19 s \<noteq> 0 then sizeWithTag SizeInt32 wireTestRequired_Dummy19 (Dummy19 s) else 0,
     if Dummy20 s \<noteq> 0 then sizeWithTag SizeInt32 wireTestRequired_Dummy20 (Dummy20 s) else 0,
     if Dummy21 s \<noteq> 0 then sizeWithTag SizeInt32 wireTestRequired_Dummy21 (Dummy21 s) else 0,
     if Dummy22 s \<noteq> 0 then sizeWithTag SizeInt32 wireTestRequired_Dummy22 (Dummy22 s) else 0,
     if Dummy23 s \<noteq> 0 then sizeWithTag SizeInt32 wireTestRequired_Dummy23 (Dummy23 s) else 0,
     if Dummy24 s \<noteq> 0 then sizeWithTag SizeInt32 wireTestRequired_Dummy24 (Dummy24 s) else 0,
     if Dummy25 s \<noteq> 0 then sizeWithTag SizeInt32 wireTestRequired_Dummy25 (Dummy25 s) else 0]"

definition TestRequired_sizes2 :: "TestRequired \<Rightarrow> int list" where
  "TestRequired_sizes2 s = [
     if Dummy26 s \<noteq> 0 then sizeWithTag SizeInt32 wireTestRequired_Dummy26 (Dummy26 s) else 0,
     if Dummy27 s \<noteq> 0 then sizeWithTag SizeInt32 wireTestRequired_Dummy27 (Dummy27 s) else 0,
     if Dummy28 s \<noteq> 0 then sizeWithTag SizeInt32 wireTestRequired_Dummy28 (Dummy28 s) else 0,
     if Dummy29 s \<noteq> 0 then sizeWithTag SizeInt32 wireTestRequired_Dummy29 (Dummy29 s) else 0,
     if Dummy30 s \<noteq> 0 then sizeWithTag SizeInt32 wireTestRequired_Dummy30 (Dummy30 s) else 0,
     if Dummy31 s \<noteq> 0 then sizeWithTag SizeInt32 wireTestRequired_Dummy31 (Dummy31 s) else 0,
     if Dummy32 s \<noteq> 0 then sizeWithTag SizeInt32 wireTestRequired_Dummy32 (Dummy32 s) else 0,
     if True then sizeWithTag SizeInt32 wireTestRequired_C (C' s) else 0,
     if OptionalForeign s \<noteq> None then sizeDelimitedWithTag ForeignMessage_XXX_PbContentSize wireTestRequired_OptionalForeign (OptionalForeign s) else 0]"

definition TestRequired_XXX_PbContentSize :: "TestRequired option \<Rightarrow> int" where
  "TestRequired_XXX_PbContentSize = contentSizeWith (\<lambda>s. TestRequired_sizes1 s @ TestRequired_sizes2 s)"

definition TestRequired_Marshal :: "TestRequired option \<Rightarrow> byte list go" where
  "TestRequired_Marshal = marshalWith TestRequired_XXX_PbContentSize TestRequired_MarshalTo"

definition TestRequired_Copy :: "TestRequired option \<Rightarrow> TestRequired option" where
  "TestRequired_Copy s =
     (case s of None \<Rightarrow> None | Some s \<Rightarrow> Some \<lparr>
        A' = A' s, Dummy2 = Dummy2 s, B' = B' s, Dummy4 = Dummy4 s, Dummy5 = Dummy5 s,
        Dummy6 = Dummy6 s, Dummy7 = Dummy7 s, Dummy8 = Dummy8 s, Dummy9 = Dummy9 s,
        Dummy10 = Dummy10 s, Dummy11 = Dummy11 s, Dummy12 = Dummy12 s, Dummy13 = Dummy13 s,
        Dummy14 = Dummy14 s, Dummy15 = Dummy15 s, Dummy16 = Dummy16 s, Dummy17 = Dummy17 s,
        Dummy18 = Dummy18 s, Dummy19 = Dummy19 s, Dummy20 = Dummy20 s, Dummy21 = Dummy21 s,
        Dummy22 = Dummy22 s, Dummy23 = Dummy23 s, Dummy24 = Dummy24 s, Dummy25 = Dummy25 s,
        Dummy26 = Dummy26 s, Dummy27 = Dummy27 s, Dummy28 = Dummy28 s, Dummy29 = Dummy29 s,
        Dummy30 = Dummy30 s, Dummy31 = Dummy31 s, Dummy32 = Dummy32 s, C' = C' s,
        OptionalForeign = (case OptionalForeign s of None \<Rightarrow> None | Some x \<Rightarrow> ForeignMessage_Copy (Some x))\<rparr>)"

section \<open>TestRequired: the round trip\<close>

definition TestRequired_tags :: "ProtoWireNumber list" where
  "TestRequired_tags = [
     wireTestRequired_A, wireTestRequired_Dummy2, wireTestRequired_B, wireTestRequired_Dummy4,
     wireTestRequired_Dummy5, wireTestRequired_Dummy6, wireTestRequired_Dummy7,
     wireTestRequired_Dummy8, wireTestRequired_Dummy9, wireTestRequired_Dummy10,
     wireTestRequired_Dummy11, wireTestRequired_Dummy12, wireTestRequired_Dummy13,
     wireTestRequired_Dummy14, wireTestRequired_Dummy15, wireTestRequired_Dummy16,
     wireTestRequired_Dummy17, wireTestRequired_Dummy18, wireTestRequired_Dummy19,
     wireTestRequired_Dummy20, wireTestRequired_Dummy21, wireTestRequired_Dummy22,
     wireTestRequired_Dummy23, wireTestRequired_Dummy24, wireTestRequired_Dummy25,
     wireTestRequired_Dummy26, wireTestRequired_Dummy27, wireTestRequired_Dummy28,
     wireTestRequired_Dummy29, wireTestRequired_Dummy30, wireTestRequired_Dummy31,
     wireTestRequired_Dummy32, wireTestRequired_C, wireTestRequired_OptionalForeign]"

definition TestRequired_groups :: "TestRequired \<Rightarrow> wfield list list" where
  "TestRequired_groups s = [
     opt_field (True) (wireTestRequired_A, int32_val (A' s)),
     opt_field (Dummy2 s \<noteq> 0) (wireTestRequired_Dummy2, int32_val (Dummy2 s)),
     opt_field (True) (wireTestRequired_B, int32_val (B' s)),
     opt_field (Dummy4 s \<noteq> 0) (wireTestRequired_Dummy4, int32_val (Dummy4 s)),
     opt_field (Dummy5 s \<noteq> 0) (wireTestRequired_Dummy5, int32_val (Dummy5 s)),
     opt_field (Dummy6 s \<noteq> 0) (wireTestRequired_Dummy6, int32_val (Dummy6 s)),
     opt_field (Dummy7 s \<noteq> 0) (wireTestRequired_Dummy7, int32_val (Dummy7 s)),
     opt_field (Dummy8 s \<noteq> 0) (wireTestRequired_Dummy8, int32_val (Dummy8 s)),
     opt_field (Dummy9 s \<noteq> 0) (wireTestRequired_Dummy9, int32_val (Dummy9 s)),
     opt_field (Dummy10 s \<noteq> 0) (wireTestRequired_Dummy10, int32_val (Dummy10 s)),
     opt_field (Dummy11 s \<noteq> 0) (wireTestRequired_Dummy11, int32_val (Dummy11 s)),
     opt_field (Dummy12 s \<noteq> 0) (wireTestRequired_Dummy12, int32_val (Dummy12 s)),
     opt_field (Dummy13 s \<noteq> 0) (wireTestRequired_Dummy13, int32_val (Dummy13 s)),
     opt_field (Dummy14 s \<noteq> 0) (wireTestRequired_Dummy14, int32_val (Dummy14 s)),
     opt_field (Dummy15 s \<noteq> 0) (wireTestRequired_Dummy15, int32_val (Dummy15 s)),
     opt_field (Dummy16 s \<noteq> 0) (wireTestRequired_Dummy16, int32_val (Dummy16 s)),
     opt_field (Dummy17 s \<noteq> 0) (wireTestRequired_Dummy17, int32_val (Dummy17 s)),
     opt_field (Dummy18 s \<noteq> 0) (wireTestRequired_Dummy18, int32_val (Dummy18 s)),
     opt_field (Dummy19 s \<noteq> 0) (wireTestRequired_Dummy19, int32_val (Dummy19 s)),
     opt_field (Dummy20 s \<noteq> 0) (wireTestRequired_Dummy20, int32_val (Dummy20 s)),
     opt_field (Dummy21 s \<noteq> 0) (wireTestRequired_Dummy21, int32_val (Dummy21 s)),
     opt_field (Dummy22 s \<noteq> 0) (wireTestRequired_Dummy22, int32_val (Dummy22 s)),
     opt_field (Dummy23 s \<noteq> 0) (wireTestRequired_Dummy23, int32_val (Dummy23 s)),
     opt_field (Dummy24 s \<noteq> 0) (wireTestRequired_Dummy24, int32_val (Dummy24 s)),
     opt_field (Dummy25 s \<noteq> 0) (wireTestRequired_Dummy25, int32_val (Dummy25 s)),
     opt_field (Dummy26 s \<noteq> 0) (wireTestRequired_Dummy26, int32_val (Dummy26 s)),
     opt_field (Dummy27 s \<noteq> 0) (wireTestRequired_Dummy27, int32_val (Dummy27 s)),
     opt_field (Dummy28 s \<noteq> 0) (wireTestRequired_Dummy28, int32_val (Dummy28 s)),
     opt_field (Dummy29 s \<noteq> 0) (wireTestRequired_Dummy29, int32_val (Dummy29 s)),
     opt_field (Dummy30 s \<noteq> 0) (wireTestRequired_Dummy30, int32_val (Dummy30 s)),
     opt_field (Dummy31 s \<noteq> 0) (wireTestRequired_Dummy31, int32_val (Dummy31 s)),
     opt_field (Dummy32 s \<noteq> 0) (wireTestRequired_Dummy32, int32_val (Dummy32 s)),
     opt_field (True) (wireTestRequired_C, int32_val (C' s)),
     opt_field (OptionalForeign s \<noteq> None) (wireTestRequired_OptionalForeign, WBytes (ptr_bytes ForeignMessage_content (OptionalForeign s)))]"

definition TestRequired_content :: "TestRequired \<Rightarrow> wfield list" where
  "TestRequired_content s = concat (TestRequired_groups s)"

text \<open>What a round trip keeps.\<close>

definition TestRequired_norm :: "TestRequired \<Rightarrow> TestRequired" where
  "TestRequired_norm s = s\<lparr>
     OptionalForeign := norm_ptr ForeignMessage_content ForeignMessage_norm (OptionalForeign s)\<rparr>"

definition TestRequired_ready :: "Reader \<Rightarrow> TestRequired \<Rightarrow> (TestRequiredReader \<Rightarrow> bool) list" where
  "TestRequired_ready p s = [
     \<lambda>m. cell_reads (readOne ReadInt32 0) plain p (if True then A' s else 0) (cellA m),
     \<lambda>m. cell_reads (readOne ReadInt32 0) plain p (if Dummy2 s \<noteq> 0 then Dummy2 s else 0) (cellDummy2 m),
     \<lambda>m. cell_reads (readOne ReadInt32 0) plain p (if True then B' s else 0) (cellB m),
     \<lambda>m. cell_reads (readOne ReadInt32 0) plain p (if Dummy4 s \<noteq> 0 then Dummy4 s else 0) (cellDummy4 m),
     \<lambda>m. cell_reads (readOne ReadInt32 0) plain p (if Dummy5 s \<noteq> 0 then Dummy5 s else 0) (cellDummy5 m),
     \<lambda>m. cell_reads (readOne ReadInt32 0) plain p (if Dummy6 s \<noteq> 0 then Dummy6 s else 0) (cellDummy6 m),
     \<lambda>m. cell_reads (readOne ReadInt32 0) plain p (if Dummy7 s \<noteq> 0 then Dummy7 s else 0) (cellDummy7 m),
     \<lambda>m. cell_reads (readOne ReadInt32 0) plain p (if Dummy8 s \<noteq> 0 then Dummy8 s else 0) (cellDummy8 m),
     \<lambda>m. cell_reads (readOne ReadInt32 0) plain p (if Dummy9 s \<noteq> 0 then Dummy9 s else 0) (cellDummy9 m),
     \<lambda>m. cell_reads (readOne ReadInt32 0) plain p (if Dummy10 s \<noteq> 0 then Dummy10 s else 0) (cellDummy10 m),
     \<lambda>m. cell_reads (readOne ReadInt32 0) plain p (if Dummy11 s \<noteq> 0 then Dummy11 s else 0) (cellDummy11 m),
     \<lambda>m. cell_reads (readOne ReadInt32 0) plain p (if Dummy12 s \<noteq> 0 then Dummy12 s else 0) (cellDummy12 m),
     \<lambda>m. cell_reads (readOne ReadInt32 0) plain p (if Dummy13 s \<noteq> 0 then Dummy13 s else 0) (cellDummy13 m),
     \<lambda>m. cell_reads (readOne ReadInt32 0) plain p (if Dummy14 s \<noteq> 0 then Dummy14 s else 0) (cellDummy14 m),
     \<lambda>m. cell_reads (readOne ReadInt32 0) plain p (if Dummy15 s \<noteq> 0 then Dummy15 s else 0) (cellDummy15 m),
     \<lambda>m. cell_reads (readOne ReadInt32 0) plain p (if Dummy16 s \<noteq> 0 then Dummy16 s else 0) (cellDummy16 m),
     \<lambda>m. cell_reads (readOne ReadInt32 0) plain p (if Dummy17 s \<noteq> 0 then Dummy17 s else 0) (cellDummy17 m),
     \<lambda>m. cell_reads (readOne ReadInt32 0) plain p (if Dummy18 s \<noteq> 0 then Dummy18 s else 0) (cellDummy18 m),
     \<lambda>m. cell_reads (readOne ReadInt32 0) plain p (if Dummy19 s \<noteq> 0 then Dummy19 s else 0) (cellDummy19 m),
     \<lambda>m. cell_reads (readOne ReadInt32 0) plain p (if Dummy20 s \<noteq> 0 then Dummy20 s else 0) (cellDummy20 m),
     \<lambda>m. cell_reads (readOne ReadInt32 0) plain p (if Dummy21 s \<noteq> 0 then Dummy21 s else 0) (cellDummy21 m),
     \<lambda>m. cell_reads (readOne ReadInt32 0) plain p (if Dummy22 s \<noteq> 0 then Dummy22 s else 0) (cellDummy22 m),
     \<lambda>m. cell_reads (readOne ReadInt32 0) plain p (if Dummy23 s \<noteq> 0 then Dummy23 s else 0) (cellDummy23 m),
     \<lambda>m. cell_reads (readOne ReadInt32 0) plain p (if Dummy24 s \<noteq> 0 then Dummy24 s else 0) (cellDummy24 m),
     \<lambda>m. cell_reads (readOne ReadInt32 0) plain p (if Dummy25 s \<noteq> 0 then Dummy25 s else 0) (cellDummy25 m),
     \<lambda>m. cell_reads (readOne ReadInt32 0) plain p (if Dummy26 s \<noteq> 0 then Dummy26 s else 0) (cellDummy26 m),
     \<lambda>m. cell_reads (readOne ReadInt32 0) plain p (if Dummy27 s \<noteq> 0 then Dummy27 s else 0) (cellDummy27 m),
     \<lambda>m. cell_reads (readOne ReadInt32 0) plain p (if Dummy28 s \<noteq> 0 then Dummy28 s else 0) (cellDummy28 m),
     \<lambda>m. cell_reads (readOne ReadInt32 0) plain p (if Dummy29 s \<noteq> 0 then Dummy29 s else 0) (cellDummy29 m),
     \<lambda>m. cell_reads (readOne ReadInt32 0) plain p (if Dummy30 s \<noteq> 0 then Dummy30 s else 0) (cellDummy30 m),
     \<lambda>m. cell_reads (readOne ReadInt32 0) plain p (if Dummy31 s \<noteq> 0 then Dummy31 s else 0) (cellDummy31 m),
     \<lambda>m. cell_reads (readOne ReadInt32 0) plain p (if Dummy32 s \<noteq> 0 then Dummy32 s else 0) (cellDummy32 m),
     \<lambda>m. cell_reads (readOne ReadInt32 0) plain p (if True then C' s else 0) (cellC m),
     \<lambda>m. cell_reads (structReader (ForeignMessageReader_Unmarshal NewForeignMessageReader)) (structToStruct ForeignMessageReader_ToStruct) p (norm_ptr ForeignMessage_content ForeignMessage_norm (OptionalForeign s)) (cellOptionalForeign m)]"

definition TestRequired_stored :: "TestRequired \<Rightarrow> (TestRequired \<Rightarrow> TestRequired) list" where
  "TestRequired_stored s = [
     \<lambda>res. res\<lparr>A' := if True then A' s else 0\<rparr>,
     \<lambda>res. res\<lparr>Dummy2 := if Dummy2 s \<noteq> 0 then Dummy2 s else 0\<rparr>,
     \<lambda>res. res\<lparr>B' := if True then B' s else 0\<rparr>,
     \<lambda>res. res\<lparr>Dummy4 := if Dummy4 s \<noteq> 0 then Dummy4 s else 0\<rparr>,
     \<lambda>res. res\<lparr>Dummy5 := if Dummy5 s \<noteq> 0 then Dummy5 s else 0\<rparr>,
     \<lambda>res. res\<lparr>Dummy6 := if Dummy6 s \<noteq> 0 then Dummy6 s else 0\<rparr>,
     \<lambda>res. res\<lparr>Dummy7 := if Dummy7 s \<noteq> 0 then Dummy7 s else 0\<rparr>,
     \<lambda>res. res\<lparr>Dummy8 := if Dummy8 s \<noteq> 0 then Dummy8 s else 0\<rparr>,
     \<lambda>res. res\<lparr>Dummy9 := if Dummy9 s \<noteq> 0 then Dummy9 s else 0\<rparr>,
     \<lambda>res. res\<lparr>Dummy10 := if Dummy10 s \<noteq> 0 then Dummy10 s else 0\<rparr>,
     \<lambda>res. res\<lparr>Dummy11 := if Dummy11 s \<noteq> 0 then Dummy11 s else 0\<rparr>,
     \<lambda>res. res\<lparr>Dummy12 := if Dummy12 s \<noteq> 0 then Dummy12 s else 0\<rparr>,
     \<lambda>res. res\<lparr>Dummy13 := if Dummy13 s \<noteq> 0 then Dummy13 s else 0\<rparr>,
     \<lambda>res. res\<lparr>Dummy14 := if Dummy14 s \<noteq> 0 then Dummy14 s else 0\<rparr>,
     \<lambda>res. res\<lparr>Dummy15 := if Dummy15 s \<noteq> 0 then Dummy15 s else 0\<rparr>,
     \<lambda>res. res\<lparr>Dummy16 := if Dummy16 s \<noteq> 0 then Dummy16 s else 0\<rparr>,
     \<lambda>res. res\<lparr>Dummy17 := if Dummy17 s \<noteq> 0 then Dummy17 s else 0\<rparr>,
     \<lambda>res. res\<lparr>Dummy18 := if Dummy18 s \<noteq> 0 then Dummy18 s else 0\<rparr>,
     \<lambda>res. res\<lparr>Dummy19 := if Dummy19 s \<noteq> 0 then Dummy19 s else 0\<rparr>,
     \<lambda>res. res\<lparr>Dummy20 := if Dummy20 s \<noteq> 0 then Dummy20 s else 0\<rparr>,
     \<lambda>res. res\<lparr>Dummy21 := if Dummy21 s \<noteq> 0 then Dummy21 s else 0\<rparr>,
     \<lambda>res. res\<lparr>Dummy22 := if Dummy22 s \<noteq> 0 then Dummy22 s else 0\<rparr>,
     \<lambda>res. res\<lparr>Dummy23 := if Dummy23 s \<noteq> 0 then Dummy23 s else 0\<rparr>,
     \<lambda>res. res\<lparr>Dummy24 := if Dummy24 s \<noteq> 0 then Dummy24 s else 0\<rparr>,
     \<lambda>res. res\<lparr>Dummy25 := if Dummy25 s \<noteq> 0 then Dummy25 s else 0\<rparr>,
     \<lambda>res. res\<lparr>Dummy26 := if Dummy26 s \<noteq> 0 then Dummy26 s else 0\<rparr>,
     \<lambda>res. res\<lparr>Dummy27 := if Dummy27 s \<noteq> 0 then Dummy27 s else 0\<rparr>,
     \<lambda>res. res\<lparr>Dummy28 := if Dummy28 s \<noteq> 0 then Dummy28 s else 0\<rparr>,
     \<lambda>res. res\<lparr>Dummy29 := if Dummy29 s \<noteq> 0 then Dummy29 s else 0\<rparr>,
     \<lambda>res. res\<lparr>Dummy30 := if Dummy30 s \<noteq> 0 then Dummy30 s else 0\<rparr>,
     \<lambda>res. res\<lparr>Dummy31 := if Dummy31 s \<noteq> 0 then Dummy31 s else 0\<rparr>,
     \<lambda>res. res\<lparr>Dummy32 := if Dummy32 s \<noteq> 0 then Dummy32 s else 0\<rparr>,
     \<lambda>res. res\<lparr>C' := if True then C' s else 0\<rparr>,
     \<lambda>res. res\<lparr>OptionalForeign := norm_ptr ForeignMessage_content ForeignMessage_norm (OptionalForeign s)\<rparr>]"

lemma TestRequired_cases_distinct: "distinct (map fst (TestRequiredReader_cases wire offset))"
  by (rule ascending_distinct) (simp add: TestRequiredReader_cases_def wireTestRequired)

lemma TestRequired_stores:
  "stores_cell TestRequiredReader_save wireTestRequired_A setOffset cellA"
  "stores_cell TestRequiredReader_save wireTestRequired_Dummy2 setOffset cellDummy2"
  "stores_cell TestRequiredReader_save wireTestRequired_B setOffset cellB"
  "stores_cell TestRequiredReader_save wireTestRequired_Dummy4 setOffset cellDummy4"
  "stores_cell TestRequiredReader_save wireTestRequired_Dummy5 setOffset cellDummy5"
  "stores_cell TestRequiredReader_save wireTestRequired_Dummy6 setOffset cellDummy6"
  "stores_cell TestRequiredReader_save wireTestRequired_Dummy7 setOffset cellDummy7"
  "stores_cell TestRequiredReader_save wireTestRequired_Dummy8 setOffset cellDummy8"
  "stores_cell TestRequiredReader_save wireTestRequired_Dummy9 setOffset cellDummy9"
  "stores_cell TestRequiredReader_save wireTestRequired_Dummy10 setOffset cellDummy10"
  "stores_cell TestRequiredReader_save wireTestRequired_Dummy11 setOffset cellDummy11"
  "stores_cell TestRequiredReader_save wireTestRequired_Dummy12 setOffset cellDummy12"
  "stores_cell TestRequiredReader_save wireTestRequired_Dummy13 setOffset cellDummy13"
  "stores_cell TestRequiredReader_save wireTestRequired_Dummy14 setOffset cellDummy14"
  "stores_cell TestRequiredReader_save wireTestRequired_Dummy15 setOffset cellDummy15"
  "stores_cell TestRequiredReader_save wireTestRequired_Dummy16 setOffset cellDummy16"
  "stores_cell TestRequiredReader_save wireTestRequired_Dummy17 setOffset cellDummy17"
  "stores_cell TestRequiredReader_save wireTestRequired_Dummy18 setOffset cellDummy18"
  "stores_cell TestRequiredReader_save wireTestRequired_Dummy19 setOffset cellDummy19"
  "stores_cell TestRequiredReader_save wireTestRequired_Dummy20 setOffset cellDummy20"
  "stores_cell TestRequiredReader_save wireTestRequired_Dummy21 setOffset cellDummy21"
  "stores_cell TestRequiredReader_save wireTestRequired_Dummy22 setOffset cellDummy22"
  "stores_cell TestRequiredReader_save wireTestRequired_Dummy23 setOffset cellDummy23"
  "stores_cell TestRequiredReader_save wireTestRequired_Dummy24 setOffset cellDummy24"
  "stores_cell TestRequiredReader_save wireTestRequired_Dummy25 setOffset cellDummy25"
  "stores_cell TestRequiredReader_save wireTestRequired_Dummy26 setOffset cellDummy26"
  "stores_cell TestRequiredReader_save wireTestRequired_Dummy27 setOffset cellDummy27"
  "stores_cell TestRequiredReader_save wireTestRequired_Dummy28 setOffset cellDummy28"
  "stores_cell TestRequiredReader_save wireTestRequired_Dummy29 setOffset cellDummy29"
  "stores_cell TestRequiredReader_save wireTestRequired_Dummy30 setOffset cellDummy30"
  "stores_cell TestRequiredReader_save wireTestRequired_Dummy31 setOffset cellDummy31"
  "stores_cell TestRequiredReader_save wireTestRequired_Dummy32 setOffset cellDummy32"
  "stores_cell TestRequiredReader_save wireTestRequired_C setOffset cellC"
  "stores_cell TestRequiredReader_save wireTestRequired_OptionalForeign setOffset cellOptionalForeign"
  unfolding TestRequiredReader_save_def [abs_def] by (rule stores_cell_switch; (rule TestRequired_cases_distinct)?; unfold TestRequiredReader_cases_def; intro own_case.intros; simp)+

lemma TestRequired_saved: "good_fields TestRequiredReader_save p (NewTestRequiredReader\<lparr>mbuf := Some p\<rparr>) TestRequired_tags (TestRequired_groups s) (TestRequired_ready p s)"
  unfolding TestRequired_tags_def TestRequired_groups_def TestRequired_ready_def
  by (intro good_fields.intros field_saved m_ForeignMessage.saved_struct TestRequired_stores) (simp_all add: NewTestRequiredReader_def newCell_def)

lemma TestRequired_converted: "good_stmts mbuf p (TestRequired_stmts) (TestRequired_ready p s) (TestRequired_stored s)"
  unfolding TestRequired_stmts_def TestRequired_ready_def TestRequired_stored_def TestRequired_getters append.simps
  by (intro good_stmts_field good_stmts.Nil) (simp_all cong: cell_reads_cong)

interpretation l_TestRequired: lazy_message TestRequired_tags TestRequired_groups TestRequired_norm
  "\<lambda>s. TestRequired_sizes1 s @ TestRequired_sizes2 s" "\<lambda>s. TestRequired_appends s"
  TestRequiredReader_save "\<lambda>p. NewTestRequiredReader\<lparr>mbuf := Some p\<rparr>" mbuf "TestRequired_stmts" TestRequired_zero TestRequired_ready TestRequired_stored
proof
  show "distinct TestRequired_tags"
    using TestRequired_cases_distinct by (simp only: TestRequiredReader_cases_def TestRequired_tags_def list.map fst_conv)
  show "list_all valid_tag TestRequired_tags"
    by (simp add: TestRequired_tags_def wireTestRequired valid_tag_def)
  show "list_all2 (\<lambda>t g. \<forall>f \<in> set g. fst f = t \<and> wf_val (snd f)) TestRequired_tags (TestRequired_groups s)" for s
    unfolding TestRequired_tags_def TestRequired_groups_def by (intro list.rel_intros field_tagged m_ForeignMessage.tagged_struct)
  show "list_all2 (\<lambda>e g. e = int (length (fields_bytes g))) (TestRequired_sizes1 s @ TestRequired_sizes2 s) (TestRequired_groups s)" for s
    unfolding TestRequired_sizes1_def TestRequired_sizes2_def TestRequired_groups_def append.simps
    by (intro list.rel_intros field_sized m_ForeignMessage.sized_struct)
  show "list_all2 (\<lambda>st g. writes st (fields_bytes g)) (TestRequired_appends s) (TestRequired_groups s)" for s
    unfolding TestRequired_appends_def TestRequired_groups_def append.simps
    by (intro list.rel_intros field_written m_ForeignMessage.written_struct)
  show "mbuf (TestRequiredReader_save t w off m) = mbuf m" for t w off m
    unfolding TestRequiredReader_save_def by (rule tag_switch_keeps) (simp add: TestRequiredReader_cases_def)
  show "fold (\<lambda>e. e) (TestRequired_stored s) TestRequired_zero = TestRequired_norm s" for s
    unfolding TestRequired_stored_def by (simp add: TestRequired_zero_def TestRequired_norm_def float_defaults)
qed (simp_all add: TestRequired_saved TestRequired_converted)

interpretation m_TestRequired: message_codec TestRequired_content TestRequired_norm TestRequired_XXX_PbContentSize TestRequired_MarshalTo
  "TestRequiredReader_Unmarshal NewTestRequiredReader" TestRequiredReader_ToStruct
  using l_TestRequired.message
  by (simp only: TestRequired_content_def [abs_def] TestRequired_XXX_PbContentSize_def TestRequired_MarshalTo_def TestRequiredReader_Unmarshal_def [abs_def] TestRequiredReader_ToStruct_def)


section \<open>TestRequiredForeign: the reader\<close>

definition wireTestRequiredForeign_OptionalMessage :: ProtoWireNumber where "wireTestRequiredForeign_OptionalMessage = 1"
definition wireTestRequiredForeign_RepeatedMessage :: ProtoWireNumber where "wireTestRequiredForeign_RepeatedMessage = 2"
definition wireTestRequiredForeign_Dummy :: ProtoWireNumber where "wireTestRequiredForeign_Dummy = 3"

lemmas wireTestRequiredForeign =
  wireTestRequiredForeign_OptionalMessage_def wireTestRequiredForeign_RepeatedMessage_def
  wireTestRequiredForeign_Dummy_def

record TestRequiredForeignReader =
  mbuf :: "Reader option"
  cellOptionalMessage :: "(TestRequiredReader option) one_cell"
  cellRepeatedMessage :: "(TestRequiredReader option) list_cell"
  cellDummy :: "int32 one_cell"

definition NewTestRequiredForeignReader :: TestRequiredForeignReader where
  "NewTestRequiredForeignReader = \<lparr>
     mbuf = None, cellOptionalMessage = newCell None 0, cellRepeatedMessage = newCell [] [],
     cellDummy = newCell 0 0\<rparr>"

definition TestRequiredForeignReader_readOptionalMessage :: "TestRequiredForeignReader \<Rightarrow> (TestRequiredReader option \<times> TestRequiredForeignReader) run" where
  "TestRequiredForeignReader_readOptionalMessage = readCell cellOptionalMessage cellOptionalMessage_update mbuf (structReader (TestRequiredReader_Unmarshal NewTestRequiredReader))"

definition TestRequiredForeignReader_GetOptionalMessage :: "TestRequiredForeignReader option \<Rightarrow> (TestRequiredReader option \<times> TestRequiredForeignReader option) run" where
  "TestRequiredForeignReader_GetOptionalMessage = getter TestRequiredForeignReader_readOptionalMessage None"

definition TestRequiredForeignReader_readRepeatedMessage :: "TestRequiredForeignReader \<Rightarrow> ((TestRequiredReader option) list \<times> TestRequiredForeignReader) run" where
  "TestRequiredForeignReader_readRepeatedMessage = readCell cellRepeatedMessage cellRepeatedMessage_update mbuf (readStructs (TestRequiredReader_Unmarshal NewTestRequiredReader))"

definition TestRequiredForeignReader_GetRepeatedMessage :: "TestRequiredForeignReader option \<Rightarrow> ((TestRequiredReader option) list \<times> TestRequiredForeignReader option) run" where
  "TestRequiredForeignReader_GetRepeatedMessage = getter TestRequiredForeignReader_readRepeatedMessage []"

definition TestRequiredForeignReader_readDummy :: "TestRequiredForeignReader \<Rightarrow> (int32 \<times> TestRequiredForeignReader) run" where
  "TestRequiredForeignReader_readDummy = readCell cellDummy cellDummy_update mbuf (readOne ReadInt32 0)"

definition TestRequiredForeignReader_GetDummy :: "TestRequiredForeignReader option \<Rightarrow> (int32 \<times> TestRequiredForeignReader option) run" where
  "TestRequiredForeignReader_GetDummy = getter TestRequiredForeignReader_readDummy 0"

lemmas TestRequiredForeign_getters =
  TestRequiredForeignReader_readOptionalMessage_def TestRequiredForeignReader_GetOptionalMessage_def
  TestRequiredForeignReader_readRepeatedMessage_def TestRequiredForeignReader_GetRepeatedMessage_def
  TestRequiredForeignReader_readDummy_def TestRequiredForeignReader_GetDummy_def

definition TestRequiredForeignReader_cases :: "ProtoWireType \<Rightarrow> int \<Rightarrow> (ProtoWireNumber \<times> (TestRequiredForeignReader \<Rightarrow> TestRequiredForeignReader)) list" where
  "TestRequiredForeignReader_cases wire offset = [
     (wireTestRequiredForeign_OptionalMessage, \<lambda>m. m\<lparr>cellOptionalMessage := onOffset (setOffset wire offset) (cellOptionalMessage m)\<rparr>),
     (wireTestRequiredForeign_RepeatedMessage, \<lambda>m. m\<lparr>cellRepeatedMessage := onOffset (addOffset wire offset) (cellRepeatedMessage m)\<rparr>),
     (wireTestRequiredForeign_Dummy, \<lambda>m. m\<lparr>cellDummy := onOffset (setOffset wire offset) (cellDummy m)\<rparr>)]"

definition TestRequiredForeignReader_save :: "ProtoWireNumber \<Rightarrow> ProtoWireType \<Rightarrow> int \<Rightarrow> TestRequiredForeignReader \<Rightarrow> TestRequiredForeignReader" where
  "TestRequiredForeignReader_save tag wire offset = tag_switch (TestRequiredForeignReader_cases wire offset) tag"

definition TestRequiredForeignReader_Unmarshal :: "TestRequiredForeignReader \<Rightarrow> gslice \<Rightarrow> (TestRequiredForeignReader \<times> string option) run" where
  "TestRequiredForeignReader_Unmarshal m data =
     unmarshalLoop TestRequiredForeignReader_save (NewReader data) 0 (m\<lparr>mbuf := Some (NewReader data)\<rparr>)"

definition TestRequiredForeignReader_SourceBytes :: "TestRequiredForeignReader option \<Rightarrow> gslice" where
  "TestRequiredForeignReader_SourceBytes s = (case s of None \<Rightarrow> nil_slice | Some r \<Rightarrow> Bytes (mbuf r))"

section \<open>TestRequiredForeign: the struct\<close>

record TestRequiredForeign =
  OptionalMessage :: "TestRequired option"
  RepeatedMessage :: "(TestRequired option) list"
  Dummy :: int32

definition TestRequiredForeign_zero :: TestRequiredForeign where
  "TestRequiredForeign_zero = \<lparr>
     OptionalMessage = None, RepeatedMessage = [], Dummy = 0\<rparr>"

definition TestRequiredForeign_stmts :: "(TestRequiredForeign \<times> TestRequiredForeignReader option \<Rightarrow> (TestRequiredForeign \<times> TestRequiredForeignReader option) run) list" where
  "TestRequiredForeign_stmts = [
     assignStruct TestRequiredForeignReader_GetOptionalMessage (structToStruct TestRequiredReader_ToStruct) cellOptionalMessage_update
       (\<lambda>v res. res\<lparr>OptionalMessage := v\<rparr>),
     assignStruct TestRequiredForeignReader_GetRepeatedMessage (repeatedToStruct TestRequiredReader_ToStruct) cellRepeatedMessage_update
       (\<lambda>v res. res\<lparr>RepeatedMessage := v\<rparr>),
     assign TestRequiredForeignReader_GetDummy (\<lambda>v res. res\<lparr>Dummy := v\<rparr>)]"

definition TestRequiredForeignReader_ToStruct :: "TestRequiredForeignReader option \<Rightarrow> (TestRequiredForeign option \<times> TestRequiredForeignReader option) run" where
  "TestRequiredForeignReader_ToStruct = toStructWith (TestRequiredForeign_stmts) TestRequiredForeign_zero"

definition TestRequiredForeign_appends :: "TestRequiredForeign \<Rightarrow> (Writer \<Rightarrow> Writer go) list" where
  "TestRequiredForeign_appends s = [
     \<lambda>res. if OptionalMessage s \<noteq> None then structWriter TestRequired_XXX_PbContentSize TestRequired_MarshalTo res wireTestRequiredForeign_OptionalMessage (OptionalMessage s) else Ret res,
     \<lambda>res. if RepeatedMessage s \<noteq> [] then repeatedWriter (structWriter TestRequired_XXX_PbContentSize TestRequired_MarshalTo) res wireTestRequiredForeign_RepeatedMessage (RepeatedMessage s) else Ret res,
     \<lambda>res. if Dummy s \<noteq> 0 then AppendInt32 res wireTestRequiredForeign_Dummy (Dummy s) else Ret res]"

definition TestRequiredForeign_MarshalTo :: "Writer \<Rightarrow> TestRequiredForeign option \<Rightarrow> Writer go" where
  "TestRequiredForeign_MarshalTo = marshalToWith (\<lambda>s. TestRequiredForeign_appends s)"

definition TestRequiredForeign_sizes :: "TestRequiredForeign \<Rightarrow> int list" where
  "TestRequiredForeign_sizes s = [
     if OptionalMessage s \<noteq> None then sizeDelimitedWithTag TestRequired_XXX_PbContentSize wireTestRequiredForeign_OptionalMessage (OptionalMessage s) else 0,
     if RepeatedMessage s \<noteq> [] then repeatedSize (sizeDelimitedWithTag TestRequired_XXX_PbContentSize wireTestRequiredForeign_RepeatedMessage) (RepeatedMessage s) else 0,
     if Dummy s \<noteq> 0 then sizeWithTag SizeInt32 wireTestRequiredForeign_Dummy (Dummy s) else 0]"

definition TestRequiredForeign_XXX_PbContentSize :: "TestRequiredForeign option \<Rightarrow> int" where
  "TestRequiredForeign_XXX_PbContentSize = contentSizeWith (\<lambda>s. TestRequiredForeign_sizes s)"

definition TestRequiredForeign_Marshal :: "TestRequiredForeign option \<Rightarrow> byte list go" where
  "TestRequiredForeign_Marshal = marshalWith TestRequiredForeign_XXX_PbContentSize TestRequiredForeign_MarshalTo"

definition TestRequiredForeign_Copy :: "TestRequiredForeign option \<Rightarrow> TestRequiredForeign option" where
  "TestRequiredForeign_Copy s =
     (case s of None \<Rightarrow> None | Some s \<Rightarrow> Some \<lparr>
        OptionalMessage = (case OptionalMessage s of None \<Rightarrow> None | Some x \<Rightarrow> TestRequired_Copy (Some x)),
        RepeatedMessage = map (\<lambda>e. case e of None \<Rightarrow> None | Some x \<Rightarrow> TestRequired_Copy (Some x)) (RepeatedMessage s),
        Dummy = Dummy s\<rparr>)"

section \<open>TestRequiredForeign: the round trip\<close>

definition TestRequiredForeign_tags :: "ProtoWireNumber list" where
  "TestRequiredForeign_tags = [
     wireTestRequiredForeign_OptionalMessage, wireTestRequiredForeign_RepeatedMessage,
     wireTestRequiredForeign_Dummy]"

definition TestRequiredForeign_groups :: "TestRequiredForeign \<Rightarrow> wfield list list" where
  "TestRequiredForeign_groups s = [
     opt_field (OptionalMessage s \<noteq> None) (wireTestRequiredForeign_OptionalMessage, WBytes (ptr_bytes TestRequired_content (OptionalMessage s))),
     bytes_fields wireTestRequiredForeign_RepeatedMessage (map (ptr_bytes TestRequired_content) (RepeatedMessage s)),
     opt_field (Dummy s \<noteq> 0) (wireTestRequiredForeign_Dummy, int32_val (Dummy s))]"

definition TestRequiredForeign_content :: "TestRequiredForeign \<Rightarrow> wfield list" where
  "TestRequiredForeign_content s = concat (TestRequiredForeign_groups s)"

text \<open>What a round trip keeps.\<close>

definition TestRequiredForeign_norm :: "TestRequiredForeign \<Rightarrow> TestRequiredForeign" where
  "TestRequiredForeign_norm s = s\<lparr>
     OptionalMessage := norm_ptr TestRequired_content TestRequired_norm (OptionalMessage s),
     RepeatedMessage := map (norm_ptr TestRequired_content TestRequired_norm) (RepeatedMessage s)\<rparr>"

definition TestRequiredForeign_ready :: "Reader \<Rightarrow> TestRequiredForeign \<Rightarrow> (TestRequiredForeignReader \<Rightarrow> bool) list" where
  "TestRequiredForeign_ready p s = [
     \<lambda>m. cell_reads (structReader (TestRequiredReader_Unmarshal NewTestRequiredReader)) (structToStruct TestRequiredReader_ToStruct) p (norm_ptr TestRequired_content TestRequired_norm (OptionalMessage s)) (cellOptionalMessage m),
     \<lambda>m. cell_reads (readStructs (TestRequiredReader_Unmarshal NewTestRequiredReader)) (repeatedToStruct TestRequiredReader_ToStruct) p (map (norm_ptr TestRequired_content TestRequired_norm) (RepeatedMessage s)) (cellRepeatedMessage m),
     \<lambda>m. cell_reads (readOne ReadInt32 0) plain p (if Dummy s \<noteq> 0 then Dummy s else 0) (cellDummy m)]"

definition TestRequiredForeign_stored :: "TestRequiredForeign \<Rightarrow> (TestRequiredForeign \<Rightarrow> TestRequiredForeign) list" where
  "TestRequiredForeign_stored s = [
     \<lambda>res. res\<lparr>OptionalMessage := norm_ptr TestRequired_content TestRequired_norm (OptionalMessage s)\<rparr>,
     \<lambda>res. res\<lparr>RepeatedMessage := map (norm_ptr TestRequired_content TestRequired_norm) (RepeatedMessage s)\<rparr>,
     \<lambda>res. res\<lparr>Dummy := if Dummy s \<noteq> 0 then Dummy s else 0\<rparr>]"

lemma TestRequiredForeign_cases_distinct: "distinct (map fst (TestRequiredForeignReader_cases wire offset))"
  by (rule ascending_distinct) (simp add: TestRequiredForeignReader_cases_def wireTestRequiredForeign)

lemma TestRequiredForeign_stores:
  "stores_cell TestRequiredForeignReader_save wireTestRequiredForeign_OptionalMessage setOffset cellOptionalMessage"
  "stores_cell TestRequiredForeignReader_save wireTestRequiredForeign_RepeatedMessage addOffset cellRepeatedMessage"
  "stores_cell TestRequiredForeignReader_save wireTestRequiredForeign_Dummy setOffset cellDummy"
  unfolding TestRequiredForeignReader_save_def [abs_def] by (rule stores_cell_switch; (rule TestRequiredForeign_cases_distinct)?; unfold TestRequiredForeignReader_cases_def; intro own_case.intros; simp)+

lemma TestRequiredForeign_saved: "good_fields TestRequiredForeignReader_save p (NewTestRequiredForeignReader\<lparr>mbuf := Some p\<rparr>) TestRequiredForeign_tags (TestRequiredForeign_groups s) (TestRequiredForeign_ready p s)"
  unfolding TestRequiredForeign_tags_def TestRequiredForeign_groups_def TestRequiredForeign_ready_def
  by (intro good_fields.intros field_saved m_TestRequired.saved_struct TestRequiredForeign_stores) (simp_all add: NewTestRequiredForeignReader_def newCell_def)

lemma TestRequiredForeign_converted: "good_stmts mbuf p (TestRequiredForeign_stmts) (TestRequiredForeign_ready p s) (TestRequiredForeign_stored s)"
  unfolding TestRequiredForeign_stmts_def TestRequiredForeign_ready_def TestRequiredForeign_stored_def TestRequiredForeign_getters append.simps
  by (intro good_stmts_field good_stmts.Nil) (simp_all cong: cell_reads_cong)

interpretation l_TestRequiredForeign: lazy_message TestRequiredForeign_tags TestRequiredForeign_groups TestRequiredForeign_norm
  "\<lambda>s. TestRequiredForeign_sizes s" "\<lambda>s. TestRequiredForeign_appends s"
  TestRequiredForeignReader_save "\<lambda>p. NewTestRequiredForeignReader\<lparr>mbuf := Some p\<rparr>" mbuf "TestRequiredForeign_stmts" TestRequiredForeign_zero TestRequiredForeign_ready TestRequiredForeign_stored
proof
  show "distinct TestRequiredForeign_tags"
    using TestRequiredForeign_cases_distinct by (simp only: TestRequiredForeignReader_cases_def TestRequiredForeign_tags_def list.map fst_conv)
  show "list_all valid_tag TestRequiredForeign_tags"
    by (simp add: TestRequiredForeign_tags_def wireTestRequiredForeign valid_tag_def)
  show "list_all2 (\<lambda>t g. \<forall>f \<in> set g. fst f = t \<and> wf_val (snd f)) TestRequiredForeign_tags (TestRequiredForeign_groups s)" for s
    unfolding TestRequiredForeign_tags_def TestRequiredForeign_groups_def by (intro list.rel_intros field_tagged m_TestRequired.tagged_struct)
  show "list_all2 (\<lambda>e g. e = int (length (fields_bytes g))) (TestRequiredForeign_sizes s) (TestRequiredForeign_groups s)" for s
    unfolding TestRequiredForeign_sizes_def TestRequiredForeign_groups_def append.simps
    by (intro list.rel_intros field_sized m_TestRequired.sized_struct)
  show "list_all2 (\<lambda>st g. writes st (fields_bytes g)) (TestRequiredForeign_appends s) (TestRequiredForeign_groups s)" for s
    unfolding TestRequiredForeign_appends_def TestRequiredForeign_groups_def append.simps
    by (intro list.rel_intros field_written m_TestRequired.written_struct)
  show "mbuf (TestRequiredForeignReader_save t w off m) = mbuf m" for t w off m
    unfolding TestRequiredForeignReader_save_def by (rule tag_switch_keeps) (simp add: TestRequiredForeignReader_cases_def)
  show "fold (\<lambda>e. e) (TestRequiredForeign_stored s) TestRequiredForeign_zero = TestRequiredForeign_norm s" for s
    unfolding TestRequiredForeign_stored_def by (simp add: TestRequiredForeign_zero_def TestRequiredForeign_norm_def float_defaults)
qed (simp_all add: TestRequiredForeign_saved TestRequiredForeign_converted)

interpretation m_TestRequiredForeign: message_codec TestRequiredForeign_content TestRequiredForeign_norm TestRequiredForeign_XXX_PbContentSize TestRequiredForeign_MarshalTo
  "TestRequiredForeignReader_Unmarshal NewTestRequiredForeignReader" TestRequiredForeignReader_ToStruct
  using l_TestRequiredForeign.message
  by (simp only: TestRequiredForeign_content_def [abs_def] TestRequiredForeign_XXX_PbContentSize_def TestRequiredForeign_MarshalTo_def TestRequiredForeignReader_Unmarshal_def [abs_def] TestRequiredForeignReader_ToStruct_def)


section \<open>TestRequiredMessage: the reader\<close>

definition wireTestRequiredMessage_OptionalMessage :: ProtoWireNumber where "wireTestRequiredMessage_OptionalMessage = 1"
definition wireTestRequiredMessage_RepeatedMessage :: ProtoWireNumber where "wireTestRequiredMessage_RepeatedMessage = 2"
definition wireTestRequiredMessage_RequiredMessage :: ProtoWireNumber where "wireTestRequiredMessage_RequiredMessage = 3"

lemmas wireTestRequiredMessage =
  wireTestRequiredMessage_OptionalMessage_def wireTestRequiredMessage_RepeatedMessage_def
  wireTestRequiredMessage_RequiredMessage_def

record TestRequiredMessageReader =
  mbuf :: "Reader option"
  cellOptionalMessage :: "(TestRequiredReader option) one_cell"
  cellRepeatedMessage :: "(TestRequiredReader option) list_cell"
  cellRequiredMessage :: "(TestRequiredReader option) one_cell"

definition NewTestRequiredMessageReader :: TestRequiredMessageReader where
  "NewTestRequiredMessageReader = \<lparr>
     mbuf = None, cellOptionalMessage = newCell None 0, cellRepeatedMessage = newCell [] [],
     cellRequiredMessage = newCell None 0\<rparr>"

definition TestRequiredMessageReader_readOptionalMessage :: "TestRequiredMessageReader \<Rightarrow> (TestRequiredReader option \<times> TestRequiredMessageReader) run" where
  "TestRequiredMessageReader_readOptionalMessage = readCell cellOptionalMessage cellOptionalMessage_update mbuf (structReader (TestRequiredReader_Unmarshal NewTestRequiredReader))"

definition TestRequiredMessageReader_GetOptionalMessage :: "TestRequiredMessageReader option \<Rightarrow> (TestRequiredReader option \<times> TestRequiredMessageReader option) run" where
  "TestRequiredMessageReader_GetOptionalMessage = getter TestRequiredMessageReader_readOptionalMessage None"

definition TestRequiredMessageReader_readRepeatedMessage :: "TestRequiredMessageReader \<Rightarrow> ((TestRequiredReader option) list \<times> TestRequiredMessageReader) run" where
  "TestRequiredMessageReader_readRepeatedMessage = readCell cellRepeatedMessage cellRepeatedMessage_update mbuf (readStructs (TestRequiredReader_Unmarshal NewTestRequiredReader))"

definition TestRequiredMessageReader_GetRepeatedMessage :: "TestRequiredMessageReader option \<Rightarrow> ((TestRequiredReader option) list \<times> TestRequiredMessageReader option) run" where
  "TestRequiredMessageReader_GetRepeatedMessage = getter TestRequiredMessageReader_readRepeatedMessage []"

definition TestRequiredMessageReader_readRequiredMessage :: "TestRequiredMessageReader \<Rightarrow> (TestRequiredReader option \<times> TestRequiredMessageReader) run" where
  "TestRequiredMessageReader_readRequiredMessage = readCell cellRequiredMessage cellRequiredMessage_update mbuf (structReader (TestRequiredReader_Unmarshal NewTestRequiredReader))"

definition TestRequiredMessageReader_GetRequiredMessage :: "TestRequiredMessageReader option \<Rightarrow> (TestRequiredReader option \<times> TestRequiredMessageReader option) run" where
  "TestRequiredMessageReader_GetRequiredMessage = getter TestRequiredMessageReader_readRequiredMessage None"

lemmas TestRequiredMessage_getters =
  TestRequiredMessageReader_readOptionalMessage_def TestRequiredMessageReader_GetOptionalMessage_def
  TestRequiredMessageReader_readRepeatedMessage_def TestRequiredMessageReader_GetRepeatedMessage_def
  TestRequiredMessageReader_readRequiredMessage_def TestRequiredMessageReader_GetRequiredMessage_def

definition TestRequiredMessageReader_cases :: "ProtoWireType \<Rightarrow> int \<Rightarrow> (ProtoWireNumber \<times> (TestRequiredMessageReader \<Rightarrow> TestRequiredMessageReader)) list" where
  "TestRequiredMessageReader_cases wire offset = [
     (wireTestRequiredMessage_OptionalMessage, \<lambda>m. m\<lparr>cellOptionalMessage := onOffset (setOffset wire offset) (cellOptionalMessage m)\<rparr>),
     (wireTestRequiredMessage_RepeatedMessage, \<lambda>m. m\<lparr>cellRepeatedMessage := onOffset (addOffset wire offset) (cellRepeatedMessage m)\<rparr>),
     (wireTestRequiredMessage_RequiredMessage, \<lambda>m. m\<lparr>cellRequiredMessage := onOffset (setOffset wire offset) (cellRequiredMessage m)\<rparr>)]"

definition TestRequiredMessageReader_save :: "ProtoWireNumber \<Rightarrow> ProtoWireType \<Rightarrow> int \<Rightarrow> TestRequiredMessageReader \<Rightarrow> TestRequiredMessageReader" where
  "TestRequiredMessageReader_save tag wire offset = tag_switch (TestRequiredMessageReader_cases wire offset) tag"

definition TestRequiredMessageReader_Unmarshal :: "TestRequiredMessageReader \<Rightarrow> gslice \<Rightarrow> (TestRequiredMessageReader \<times> string option) run" where
  "TestRequiredMessageReader_Unmarshal m data =
     unmarshalLoop TestRequiredMessageReader_save (NewReader data) 0 (m\<lparr>mbuf := Some (NewReader data)\<rparr>)"

definition TestRequiredMessageReader_SourceBytes :: "TestRequiredMessageReader option \<Rightarrow> gslice" where
  "TestRequiredMessageReader_SourceBytes s = (case s of None \<Rightarrow> nil_slice | Some r \<Rightarrow> Bytes (mbuf r))"

section \<open>TestRequiredMessage: the struct\<close>

record TestRequiredMessage =
  OptionalMessage :: "TestRequired option"
  RepeatedMessage :: "(TestRequired option) list"
  RequiredMessage :: "TestRequired option"

definition TestRequiredMessage_zero :: TestRequiredMessage where
  "TestRequiredMessage_zero = \<lparr>
     OptionalMessage = None, RepeatedMessage = [], RequiredMessage = None\<rparr>"

definition TestRequiredMessage_stmts :: "(TestRequiredMessage \<times> TestRequiredMessageReader option \<Rightarrow> (TestRequiredMessage \<times> TestRequiredMessageReader option) run) list" where
  "TestRequiredMessage_stmts = [
     assignStruct TestRequiredMessageReader_GetOptionalMessage (structToStruct TestRequiredReader_ToStruct) cellOptionalMessage_update
       (\<lambda>v res. res\<lparr>OptionalMessage := v\<rparr>),
     assignStruct TestRequiredMessageReader_GetRepeatedMessage (repeatedToStruct TestRequiredReader_ToStruct) cellRepeatedMessage_update
       (\<lambda>v res. res\<lparr>RepeatedMessage := v\<rparr>),
     assignStruct TestRequiredMessageReader_GetRequiredMessage (structToStruct TestRequiredReader_ToStruct) cellRequiredMessage_update
       (\<lambda>v res. res\<lparr>RequiredMessage := v\<rparr>)]"

definition TestRequiredMessageReader_ToStruct :: "TestRequiredMessageReader option \<Rightarrow> (TestRequiredMessage option \<times> TestRequiredMessageReader option) run" where
  "TestRequiredMessageReader_ToStruct = toStructWith (TestRequiredMessage_stmts) TestRequiredMessage_zero"

definition TestRequiredMessage_appends :: "TestRequiredMessage \<Rightarrow> (Writer \<Rightarrow> Writer go) list" where
  "TestRequiredMessage_appends s = [
     \<lambda>res. if OptionalMessage s \<noteq> None then structWriter TestRequired_XXX_PbContentSize TestRequired_MarshalTo res wireTestRequiredMessage_OptionalMessage (OptionalMessage s) else Ret res,
     \<lambda>res. if RepeatedMessage s \<noteq> [] then repeatedWriter (structWriter TestRequired_XXX_PbContentSize TestRequired_MarshalTo) res wireTestRequiredMessage_RepeatedMessage (RepeatedMessage s) else Ret res,
     \<lambda>res. if True then structWriter TestRequired_XXX_PbContentSize TestRequired_MarshalTo res wireTestRequiredMessage_RequiredMessage (RequiredMessage s) else Ret res]"

definition TestRequiredMessage_MarshalTo :: "Writer \<Rightarrow> TestRequiredMessage option \<Rightarrow> Writer go" where
  "TestRequiredMessage_MarshalTo = marshalToWith (\<lambda>s. TestRequiredMessage_appends s)"

definition TestRequiredMessage_sizes :: "TestRequiredMessage \<Rightarrow> int list" where
  "TestRequiredMessage_sizes s = [
     if OptionalMessage s \<noteq> None then sizeDelimitedWithTag TestRequired_XXX_PbContentSize wireTestRequiredMessage_OptionalMessage (OptionalMessage s) else 0,
     if RepeatedMessage s \<noteq> [] then repeatedSize (sizeDelimitedWithTag TestRequired_XXX_PbContentSize wireTestRequiredMessage_RepeatedMessage) (RepeatedMessage s) else 0,
     if True then sizeDelimitedWithTag TestRequired_XXX_PbContentSize wireTestRequiredMessage_RequiredMessage (RequiredMessage s) else 0]"

definition TestRequiredMessage_XXX_PbContentSize :: "TestRequiredMessage option \<Rightarrow> int" where
  "TestRequiredMessage_XXX_PbContentSize = contentSizeWith (\<lambda>s. TestRequiredMessage_sizes s)"

definition TestRequiredMessage_Marshal :: "TestRequiredMessage option \<Rightarrow> byte list go" where
  "TestRequiredMessage_Marshal = marshalWith TestRequiredMessage_XXX_PbContentSize TestRequiredMessage_MarshalTo"

definition TestRequiredMessage_Copy :: "TestRequiredMessage option \<Rightarrow> TestRequiredMessage option" where
  "TestRequiredMessage_Copy s =
     (case s of None \<Rightarrow> None | Some s \<Rightarrow> Some \<lparr>
        OptionalMessage = (case OptionalMessage s of None \<Rightarrow> None | Some x \<Rightarrow> TestRequired_Copy (Some x)),
        RepeatedMessage = map (\<lambda>e. case e of None \<Rightarrow> None | Some x \<Rightarrow> TestRequired_Copy (Some x)) (RepeatedMessage s),
        RequiredMessage = (case RequiredMessage s of None \<Rightarrow> None | Some x \<Rightarrow> TestRequired_Copy (Some x))\<rparr>)"

section \<open>TestRequiredMessage: the round trip\<close>

definition TestRequiredMessage_tags :: "ProtoWireNumber list" where
  "TestRequiredMessage_tags = [
     wireTestRequiredMessage_OptionalMessage, wireTestRequiredMessage_RepeatedMessage,
     wireTestRequiredMessage_RequiredMessage]"

definition TestRequiredMessage_groups :: "TestRequiredMessage \<Rightarrow> wfield list list" where
  "TestRequiredMessage_groups s = [
     opt_field (OptionalMessage s \<noteq> None) (wireTestRequiredMessage_OptionalMessage, WBytes (ptr_bytes TestRequired_content (OptionalMessage s))),
     bytes_fields wireTestRequiredMessage_RepeatedMessage (map (ptr_bytes TestRequired_content) (RepeatedMessage s)),
     opt_field (True) (wireTestRequiredMessage_RequiredMessage, WBytes (ptr_bytes TestRequired_content (RequiredMessage s)))]"

definition TestRequiredMessage_content :: "TestRequiredMessage \<Rightarrow> wfield list" where
  "TestRequiredMessage_content s = concat (TestRequiredMessage_groups s)"

text \<open>What a round trip keeps.\<close>

definition TestRequiredMessage_norm :: "TestRequiredMessage \<Rightarrow> TestRequiredMessage" where
  "TestRequiredMessage_norm s = s\<lparr>
     OptionalMessage := norm_ptr TestRequired_content TestRequired_norm (OptionalMessage s),
     RepeatedMessage := map (norm_ptr TestRequired_content TestRequired_norm) (RepeatedMessage s),
     RequiredMessage := norm_ptr TestRequired_content TestRequired_norm (RequiredMessage s)\<rparr>"

definition TestRequiredMessage_ready :: "Reader \<Rightarrow> TestRequiredMessage \<Rightarrow> (TestRequiredMessageReader \<Rightarrow> bool) list" where
  "TestRequiredMessage_ready p s = [
     \<lambda>m. cell_reads (structReader (TestRequiredReader_Unmarshal NewTestRequiredReader)) (structToStruct TestRequiredReader_ToStruct) p (norm_ptr TestRequired_content TestRequired_norm (OptionalMessage s)) (cellOptionalMessage m),
     \<lambda>m. cell_reads (readStructs (TestRequiredReader_Unmarshal NewTestRequiredReader)) (repeatedToStruct TestRequiredReader_ToStruct) p (map (norm_ptr TestRequired_content TestRequired_norm) (RepeatedMessage s)) (cellRepeatedMessage m),
     \<lambda>m. cell_reads (structReader (TestRequiredReader_Unmarshal NewTestRequiredReader)) (structToStruct TestRequiredReader_ToStruct) p (norm_ptr TestRequired_content TestRequired_norm (RequiredMessage s)) (cellRequiredMessage m)]"

definition TestRequiredMessage_stored :: "TestRequiredMessage \<Rightarrow> (TestRequiredMessage \<Rightarrow> TestRequiredMessage) list" where
  "TestRequiredMessage_stored s = [
     \<lambda>res. res\<lparr>OptionalMessage := norm_ptr TestRequired_content TestRequired_norm (OptionalMessage s)\<rparr>,
     \<lambda>res. res\<lparr>RepeatedMessage := map (norm_ptr TestRequired_content TestRequired_norm) (RepeatedMessage s)\<rparr>,
     \<lambda>res. res\<lparr>RequiredMessage := norm_ptr TestRequired_content TestRequired_norm (RequiredMessage s)\<rparr>]"

lemma TestRequiredMessage_cases_distinct: "distinct (map fst (TestRequiredMessageReader_cases wire offset))"
  by (rule ascending_distinct) (simp add: TestRequiredMessageReader_cases_def wireTestRequiredMessage)

lemma TestRequiredMessage_stores:
  "stores_cell TestRequiredMessageReader_save wireTestRequiredMessage_OptionalMessage setOffset cellOptionalMessage"
  "stores_cell TestRequiredMessageReader_save wireTestRequiredMessage_RepeatedMessage addOffset cellRepeatedMessage"
  "stores_cell TestRequiredMessageReader_save wireTestRequiredMessage_RequiredMessage setOffset cellRequiredMessage"
  unfolding TestRequiredMessageReader_save_def [abs_def] by (rule stores_cell_switch; (rule TestRequiredMessage_cases_distinct)?; unfold TestRequiredMessageReader_cases_def; intro own_case.intros; simp)+

lemma TestRequiredMessage_saved: "good_fields TestRequiredMessageReader_save p (NewTestRequiredMessageReader\<lparr>mbuf := Some p\<rparr>) TestRequiredMessage_tags (TestRequiredMessage_groups s) (TestRequiredMessage_ready p s)"
  unfolding TestRequiredMessage_tags_def TestRequiredMessage_groups_def TestRequiredMessage_ready_def
  by (intro good_fields.intros field_saved m_TestRequired.saved_struct TestRequiredMessage_stores) (simp_all add: NewTestRequiredMessageReader_def newCell_def)

lemma TestRequiredMessage_converted: "good_stmts mbuf p (TestRequiredMessage_stmts) (TestRequiredMessage_ready p s) (TestRequiredMessage_stored s)"
  unfolding TestRequiredMessage_stmts_def TestRequiredMessage_ready_def TestRequiredMessage_stored_def TestRequiredMessage_getters append.simps
  by (intro good_stmts_field good_stmts.Nil) (simp_all cong: cell_reads_cong)

interpretation l_TestRequiredMessage: lazy_message TestRequiredMessage_tags TestRequiredMessage_groups TestRequiredMessage_norm
  "\<lambda>s. TestRequiredMessage_sizes s" "\<lambda>s. TestRequiredMessage_appends s"
  TestRequiredMessageReader_save "\<lambda>p. NewTestRequiredMessageReader\<lparr>mbuf := Some p\<rparr>" mbuf "TestRequiredMessage_stmts" TestRequiredMessage_zero TestRequiredMessage_ready TestRequiredMessage_stored
proof
  show "distinct TestRequiredMessage_tags"
    using TestRequiredMessage_cases_distinct by (simp only: TestRequiredMessageReader_cases_def TestRequiredMessage_tags_def list.map fst_conv)
  show "list_all valid_tag TestRequiredMessage_tags"
    by (simp add: TestRequiredMessage_tags_def wireTestRequiredMessage valid_tag_def)
  show "list_all2 (\<lambda>t g. \<forall>f \<in> set g. fst f = t \<and> wf_val (snd f)) TestRequiredMessage_tags (TestRequiredMessage_groups s)" for s
    unfolding TestRequiredMessage_tags_def TestRequiredMessage_groups_def by (intro list.rel_intros field_tagged m_TestRequired.tagged_struct)
  show "list_all2 (\<lambda>e g. e = int (length (fields_bytes g))) (TestRequiredMessage_sizes s) (TestRequiredMessage_groups s)" for s
    unfolding TestRequiredMessage_sizes_def TestRequiredMessage_groups_def append.simps
    by (intro list.rel_intros field_sized m_TestRequired.sized_struct)
  show "list_all2 (\<lambda>st g. writes st (fields_bytes g)) (TestRequiredMessage_appends s) (TestRequiredMessage_groups s)" for s
    unfolding TestRequiredMessage_appends_def TestRequiredMessage_groups_def append.simps
    by (intro list.rel_intros field_written m_TestRequired.written_struct)
  show "mbuf (TestRequiredMessageReader_save t w off m) = mbuf m" for t w off m
    unfolding TestRequiredMessageReader_save_def by (rule tag_switch_keeps) (simp add: TestRequiredMessageReader_cases_def)
  show "fold (\<lambda>e. e) (TestRequiredMessage_stored s) TestRequiredMessage_zero = TestRequiredMessage_norm s" for s
    unfolding TestRequiredMessage_stored_def by (simp add: TestRequiredMessage_zero_def TestRequiredMessage_norm_def float_defaults)
qed (simp_all add: TestRequiredMessage_saved TestRequiredMessage_converted)

interpretation m_TestRequiredMessage: message_codec TestRequiredMessage_content TestRequiredMessage_norm TestRequiredMessage_XXX_PbContentSize TestRequiredMessage_MarshalTo
  "TestRequiredMessageReader_Unmarshal NewTestRequiredMessageReader" TestRequiredMessageReader_ToStruct
  using l_TestRequiredMessage.message
  by (simp only: TestRequiredMessage_content_def [abs_def] TestRequiredMessage_XXX_PbContentSize_def TestRequiredMessage_MarshalTo_def TestRequiredMessageReader_Unmarshal_def [abs_def] TestRequiredMessageReader_ToStruct_def)


section \<open>TestRequired_TestAllExtensions: the reader\<close>

definition wireTestRequired_TestAllExtensions_Single :: ProtoWireNumber where "wireTestRequired_TestAllExtensions_Single = 1000"
definition wireTestRequired_TestAllExtensions_Multi :: ProtoWireNumber where "wireTestRequired_TestAllExtensions_Multi = 1001"

lemmas wireTestRequired_TestAllExtensions =
  wireTestRequired_TestAllExtensions_Single_def wireTestRequired_TestAllExtensions_Multi_def

record TestRequired_TestAllExtensionsReader =
  mbuf :: "Reader option"
  cellSingle :: "(TestRequiredReader option) one_cell"
  cellMulti :: "(TestRequiredReader option) list_cell"

definition NewTestRequired_TestAllExtensionsReader :: TestRequired_TestAllExtensionsReader where
  "NewTestRequired_TestAllExtensionsReader = \<lparr>
     mbuf = None, cellSingle = newCell None 0, cellMulti = newCell [] []\<rparr>"

definition TestRequired_TestAllExtensionsReader_readSingle :: "TestRequired_TestAllExtensionsReader \<Rightarrow> (TestRequiredReader option \<times> TestRequired_TestAllExtensionsReader) run" where
  "TestRequired_TestAllExtensionsReader_readSingle = readCell cellSingle cellSingle_update mbuf (structReader (TestRequiredReader_Unmarshal NewTestRequiredReader))"

definition TestRequired_TestAllExtensionsReader_GetSingle :: "TestRequired_TestAllExtensionsReader option \<Rightarrow> (TestRequiredReader option \<times> TestRequired_TestAllExtensionsReader option) run" where
  "TestRequired_TestAllExtensionsReader_GetSingle = getter TestRequired_TestAllExtensionsReader_readSingle None"

definition TestRequired_TestAllExtensionsReader_readMulti :: "TestRequired_TestAllExtensionsReader \<Rightarrow> ((TestRequiredReader option) list \<times> TestRequired_TestAllExtensionsReader) run" where
  "TestRequired_TestAllExtensionsReader_readMulti = readCell cellMulti cellMulti_update mbuf (readStructs (TestRequiredReader_Unmarshal NewTestRequiredReader))"

definition TestRequired_TestAllExtensionsReader_GetMulti :: "TestRequired_TestAllExtensionsReader option \<Rightarrow> ((TestRequiredReader option) list \<times> TestRequired_TestAllExtensionsReader option) run" where
  "TestRequired_TestAllExtensionsReader_GetMulti = getter TestRequired_TestAllExtensionsReader_readMulti []"

lemmas TestRequired_TestAllExtensions_getters =
  TestRequired_TestAllExtensionsReader_readSingle_def TestRequired_TestAllExtensionsReader_GetSingle_def
  TestRequired_TestAllExtensionsReader_readMulti_def TestRequired_TestAllExtensionsReader_GetMulti_def

definition TestRequired_TestAllExtensionsReader_cases :: "ProtoWireType \<Rightarrow> int \<Rightarrow> (ProtoWireNumber \<times> (TestRequired_TestAllExtensionsReader \<Rightarrow> TestRequired_TestAllExtensionsReader)) list" where
  "TestRequired_TestAllExtensionsReader_cases wire offset = [
     (wireTestRequired_TestAllExtensions_Single, \<lambda>m. m\<lparr>cellSingle := onOffset (setOffset wire offset) (cellSingle m)\<rparr>),
     (wireTestRequired_TestAllExtensions_Multi, \<lambda>m. m\<lparr>cellMulti := onOffset (addOffset wire offset) (cellMulti m)\<rparr>)]"

definition TestRequired_TestAllExtensionsReader_save :: "ProtoWireNumber \<Rightarrow> ProtoWireType \<Rightarrow> int \<Rightarrow> TestRequired_TestAllExtensionsReader \<Rightarrow> TestRequired_TestAllExtensionsReader" where
  "TestRequired_TestAllExtensionsReader_save tag wire offset = tag_switch (TestRequired_TestAllExtensionsReader_cases wire offset) tag"

definition TestRequired_TestAllExtensionsReader_Unmarshal :: "TestRequired_TestAllExtensionsReader \<Rightarrow> gslice \<Rightarrow> (TestRequired_TestAllExtensionsReader \<times> string option) run" where
  "TestRequired_TestAllExtensionsReader_Unmarshal m data =
     unmarshalLoop TestRequired_TestAllExtensionsReader_save (NewReader data) 0 (m\<lparr>mbuf := Some (NewReader data)\<rparr>)"

definition TestRequired_TestAllExtensionsReader_SourceBytes :: "TestRequired_TestAllExtensionsReader option \<Rightarrow> gslice" where
  "TestRequired_TestAllExtensionsReader_SourceBytes s = (case s of None \<Rightarrow> nil_slice | Some r \<Rightarrow> Bytes (mbuf r))"

section \<open>TestRequired_TestAllExtensions: the struct\<close>

record TestRequired_TestAllExtensions =
  Single :: "TestRequired option"
  Multi :: "(TestRequired option) list"

definition TestRequired_TestAllExtensions_zero :: TestRequired_TestAllExtensions where
  "TestRequired_TestAllExtensions_zero = \<lparr>
     Single = None, Multi = []\<rparr>"

definition TestRequired_TestAllExtensions_stmts :: "(TestRequired_TestAllExtensions \<times> TestRequired_TestAllExtensionsReader option \<Rightarrow> (TestRequired_TestAllExtensions \<times> TestRequired_TestAllExtensionsReader option) run) list" where
  "TestRequired_TestAllExtensions_stmts = [
     assignStruct TestRequired_TestAllExtensionsReader_GetSingle (structToStruct TestRequiredReader_ToStruct) cellSingle_update
       (\<lambda>v res. res\<lparr>Single := v\<rparr>),
     assignStruct TestRequired_TestAllExtensionsReader_GetMulti (repeatedToStruct TestRequiredReader_ToStruct) cellMulti_update
       (\<lambda>v res. res\<lparr>Multi := v\<rparr>)]"

definition TestRequired_TestAllExtensionsReader_ToStruct :: "TestRequired_TestAllExtensionsReader option \<Rightarrow> (TestRequired_TestAllExtensions option \<times> TestRequired_TestAllExtensionsReader option) run" where
  "TestRequired_TestAllExtensionsReader_ToStruct = toStructWith (TestRequired_TestAllExtensions_stmts) TestRequired_TestAllExtensions_zero"

definition TestRequired_TestAllExtensions_appends :: "TestRequired_TestAllExtensions \<Rightarrow> (Writer \<Rightarrow> Writer go) list" where
  "TestRequired_TestAllExtensions_appends s = [
     \<lambda>res. if Single s \<noteq> None then structWriter TestRequired_XXX_PbContentSize TestRequired_MarshalTo res wireTestRequired_TestAllExtensions_Single (Single s) else Ret res,
     \<lambda>res. if Multi s \<noteq> [] then repeatedWriter (structWriter TestRequired_XXX_PbContentSize TestRequired_MarshalTo) res wireTestRequired_TestAllExtensions_Multi (Multi s) else Ret res]"

definition TestRequired_TestAllExtensions_MarshalTo :: "Writer \<Rightarrow> TestRequired_TestAllExtensions option \<Rightarrow> Writer go" where
  "TestRequired_TestAllExtensions_MarshalTo = marshalToWith (\<lambda>s. TestRequired_TestAllExtensions_appends s)"

definition TestRequired_TestAllExtensions_sizes :: "TestRequired_TestAllExtensions \<Rightarrow> int list" where
  "TestRequired_TestAllExtensions_sizes s = [
     if Single s \<noteq> None then sizeDelimitedWithTag TestRequired_XXX_PbContentSize wireTestRequired_TestAllExtensions_Single (Single s) else 0,
     if Multi s \<noteq> [] then repeatedSize (sizeDelimitedWithTag TestRequired_XXX_PbContentSize wireTestRequired_TestAllExtensions_Multi) (Multi s) else 0]"

definition TestRequired_TestAllExtensions_XXX_PbContentSize :: "TestRequired_TestAllExtensions option \<Rightarrow> int" where
  "TestRequired_TestAllExtensions_XXX_PbContentSize = contentSizeWith (\<lambda>s. TestRequired_TestAllExtensions_sizes s)"

definition TestRequired_TestAllExtensions_Marshal :: "TestRequired_TestAllExtensions option \<Rightarrow> byte list go" where
  "TestRequired_TestAllExtensions_Marshal = marshalWith TestRequired_TestAllExtensions_XXX_PbContentSize TestRequired_TestAllExtensions_MarshalTo"

definition TestRequired_TestAllExtensions_Copy :: "TestRequired_TestAllExtensions option \<Rightarrow> TestRequired_TestAllExtensions option" where
  "TestRequired_TestAllExtensions_Copy s =
     (case s of None \<Rightarrow> None | Some s \<Rightarrow> Some \<lparr>
        Single = (case Single s of None \<Rightarrow> None | Some x \<Rightarrow> TestRequired_Copy (Some x)),
        Multi = map (\<lambda>e. case e of None \<Rightarrow> None | Some x \<Rightarrow> TestRequired_Copy (Some x)) (Multi s)\<rparr>)"

section \<open>TestRequired_TestAllExtensions: the round trip\<close>

definition TestRequired_TestAllExtensions_tags :: "ProtoWireNumber list" where
  "TestRequired_TestAllExtensions_tags = [
     wireTestRequired_TestAllExtensions_Single, wireTestRequired_TestAllExtensions_Multi]"

definition TestRequired_TestAllExtensions_groups :: "TestRequired_TestAllExtensions \<Rightarrow> wfield list list" where
  "TestRequired_TestAllExtensions_groups s = [
     opt_field (Single s \<noteq> None) (wireTestRequired_TestAllExtensions_Single, WBytes (ptr_bytes TestRequired_content (Single s))),
     bytes_fields wireTestRequired_TestAllExtensions_Multi (map (ptr_bytes TestRequired_content) (Multi s))]"

definition TestRequired_TestAllExtensions_content :: "TestRequired_TestAllExtensions \<Rightarrow> wfield list" where
  "TestRequired_TestAllExtensions_content s = concat (TestRequired_TestAllExtensions_groups s)"

text \<open>What a round trip keeps.\<close>

definition TestRequired_TestAllExtensions_norm :: "TestRequired_TestAllExtensions \<Rightarrow> TestRequired_TestAllExtensions" where
  "TestRequired_TestAllExtensions_norm s = s\<lparr>
     Single := norm_ptr TestRequired_content TestRequired_norm (Single s),
     Multi := map (norm_ptr TestRequired_content TestRequired_norm) (Multi s)\<rparr>"

definition TestRequired_TestAllExtensions_ready :: "Reader \<Rightarrow> TestRequired_TestAllExtensions \<Rightarrow> (TestRequired_TestAllExtensionsReader \<Rightarrow> bool) list" where
  "TestRequired_TestAllExtensions_ready p s = [
     \<lambda>m. cell_reads (structReader (TestRequiredReader_Unmarshal NewTestRequiredReader)) (structToStruct TestRequiredReader_ToStruct) p (norm_ptr TestRequired_content TestRequired_norm (Single s)) (cellSingle m),
     \<lambda>m. cell_reads (readStructs (TestRequiredReader_Unmarshal NewTestRequiredReader)) (repeatedToStruct TestRequiredReader_ToStruct) p (map (norm_ptr TestRequired_content TestRequired_norm) (Multi s)) (cellMulti m)]"

definition TestRequired_TestAllExtensions_stored :: "TestRequired_TestAllExtensions \<Rightarrow> (TestRequired_TestAllExtensions \<Rightarrow> TestRequired_TestAllExtensions) list" where
  "TestRequired_TestAllExtensions_stored s = [
     \<lambda>res. res\<lparr>Single := norm_ptr TestRequired_content TestRequired_norm (Single s)\<rparr>,
     \<lambda>res. res\<lparr>Multi := map (norm_ptr TestRequired_content TestRequired_norm) (Multi s)\<rparr>]"

lemma TestRequired_TestAllExtensions_cases_distinct: "distinct (map fst (TestRequired_TestAllExtensionsReader_cases wire offset))"
  by (rule ascending_distinct) (simp add: TestRequired_TestAllExtensionsReader_cases_def wireTestRequired_TestAllExtensions)

lemma TestRequired_TestAllExtensions_stores:
  "stores_cell TestRequired_TestAllExtensionsReader_save wireTestRequired_TestAllExtensions_Single setOffset cellSingle"
  "stores_cell TestRequired_TestAllExtensionsReader_save wireTestRequired_TestAllExtensions_Multi addOffset cellMulti"
  unfolding TestRequired_TestAllExtensionsReader_save_def [abs_def] by (rule stores_cell_switch; (rule TestRequired_TestAllExtensions_cases_distinct)?; unfold TestRequired_TestAllExtensionsReader_cases_def; intro own_case.intros; simp)+

lemma TestRequired_TestAllExtensions_saved: "good_fields TestRequired_TestAllExtensionsReader_save p (NewTestRequired_TestAllExtensionsReader\<lparr>mbuf := Some p\<rparr>) TestRequired_TestAllExtensions_tags (TestRequired_TestAllExtensions_groups s) (TestRequired_TestAllExtensions_ready p s)"
  unfolding TestRequired_TestAllExtensions_tags_def TestRequired_TestAllExtensions_groups_def TestRequired_TestAllExtensions_ready_def
  by (intro good_fields.intros field_saved m_TestRequired.saved_struct TestRequired_TestAllExtensions_stores) (simp_all add: NewTestRequired_TestAllExtensionsReader_def newCell_def)

lemma TestRequired_TestAllExtensions_converted: "good_stmts mbuf p (TestRequired_TestAllExtensions_stmts) (TestRequired_TestAllExtensions_ready p s) (TestRequired_TestAllExtensions_stored s)"
  unfolding TestRequired_TestAllExtensions_stmts_def TestRequired_TestAllExtensions_ready_def TestRequired_TestAllExtensions_stored_def TestRequired_TestAllExtensions_getters append.simps
  by (intro good_stmts_field good_stmts.Nil) (simp_all cong: cell_reads_cong)

interpretation l_TestRequired_TestAllExtensions: lazy_message TestRequired_TestAllExtensions_tags TestRequired_TestAllExtensions_groups TestRequired_TestAllExtensions_norm
  "\<lambda>s. TestRequired_TestAllExtensions_sizes s" "\<lambda>s. TestRequired_TestAllExtensions_appends s"
  TestRequired_TestAllExtensionsReader_save "\<lambda>p. NewTestRequired_TestAllExtensionsReader\<lparr>mbuf := Some p\<rparr>" mbuf "TestRequired_TestAllExtensions_stmts" TestRequired_TestAllExtensions_zero TestRequired_TestAllExtensions_ready TestRequired_TestAllExtensions_stored
proof
  show "distinct TestRequired_TestAllExtensions_tags"
    using TestRequired_TestAllExtensions_cases_distinct by (simp only: TestRequired_TestAllExtensionsReader_cases_def TestRequired_TestAllExtensions_tags_def list.map fst_conv)
  show "list_all valid_tag TestRequired_TestAllExtensions_tags"
    by (simp add: TestRequired_TestAllExtensions_tags_def wireTestRequired_TestAllExtensions valid_tag_def)
  show "list_all2 (\<lambda>t g. \<forall>f \<in> set g. fst f = t \<and> wf_val (snd f)) TestRequired_TestAllExtensions_tags (TestRequired_TestAllExtensions_groups s)" for s
    unfolding TestRequired_TestAllExtensions_tags_def TestRequired_TestAllExtensions_groups_def by (intro list.rel_intros field_tagged m_TestRequired.tagged_struct)
  show "list_all2 (\<lambda>e g. e = int (length (fields_bytes g))) (TestRequired_TestAllExtensions_sizes s) (TestRequired_TestAllExtensions_groups s)" for s
    unfolding TestRequired_TestAllExtensions_sizes_def TestRequired_TestAllExtensions_groups_def append.simps
    by (intro list.rel_intros field_sized m_TestRequired.sized_struct)
  show "list_all2 (\<lambda>st g. writes st (fields_bytes g)) (TestRequired_TestAllExtensions_appends s) (TestRequired_TestAllExtensions_groups s)" for s
    unfolding TestRequired_TestAllExtensions_appends_def TestRequired_TestAllExtensions_groups_def append.simps
    by (intro list.rel_intros field_written m_TestRequired.written_struct)
  show "mbuf (TestRequired_TestAllExtensionsReader_save t w off m) = mbuf m" for t w off m
    unfolding TestRequired_TestAllExtensionsReader_save_def by (rule tag_switch_keeps) (simp add: TestRequired_TestAllExtensionsReader_cases_def)
  show "fold (\<lambda>e. e) (TestRequired_TestAllExtensions_stored s) TestRequired_TestAllExtensions_zero = TestRequired_TestAllExtensions_norm s" for s
    unfolding TestRequired_TestAllExtensions_stored_def by (simp add: TestRequired_TestAllExtensions_zero_def TestRequired_TestAllExtensions_norm_def float_defaults)
qed (simp_all add: TestRequired_TestAllExtensions_saved TestRequired_TestAllExtensions_converted)

interpretation m_TestRequired_TestAllExtensions: message_codec TestRequired_TestAllExtensions_content TestRequired_TestAllExtensions_norm TestRequired_TestAllExtensions_XXX_PbContentSize TestRequired_TestAllExtensions_MarshalTo
  "TestRequired_TestAllExtensionsReader_Unmarshal NewTestRequired_TestAllExtensionsReader" TestRequired_TestAllExtensionsReader_ToStruct
  using l_TestRequired_TestAllExtensions.message
  by (simp only: TestRequired_TestAllExtensions_content_def [abs_def] TestRequired_TestAllExtensions_XXX_PbContentSize_def TestRequired_TestAllExtensions_MarshalTo_def TestRequired_TestAllExtensionsReader_Unmarshal_def [abs_def] TestRequired_TestAllExtensionsReader_ToStruct_def)


section \<open>TestRequiredOneof_NestedMessage: the reader\<close>

definition wireTestRequiredOneof_NestedMessage_RequiredDouble :: ProtoWireNumber where "wireTestRequiredOneof_NestedMessage_RequiredDouble = 1"

lemmas wireTestRequiredOneof_NestedMessage =
  wireTestRequiredOneof_NestedMessage_RequiredDouble_def

record TestRequiredOneof_NestedMessageReader =
  mbuf :: "Reader option"
  cellRequiredDouble :: "float64 one_cell"

definition NewTestRequiredOneof_NestedMessageReader :: TestRequiredOneof_NestedMessageReader where
  "NewTestRequiredOneof_NestedMessageReader = \<lparr>
     mbuf = None, cellRequiredDouble = newCell 0 0\<rparr>"

definition TestRequiredOneof_NestedMessageReader_readRequiredDouble :: "TestRequiredOneof_NestedMessageReader \<Rightarrow> (float64 \<times> TestRequiredOneof_NestedMessageReader) run" where
  "TestRequiredOneof_NestedMessageReader_readRequiredDouble = readCell cellRequiredDouble cellRequiredDouble_update mbuf (readOne ReadFloat64 0x0)"

definition TestRequiredOneof_NestedMessageReader_GetRequiredDouble :: "TestRequiredOneof_NestedMessageReader option \<Rightarrow> (float64 \<times> TestRequiredOneof_NestedMessageReader option) run" where
  "TestRequiredOneof_NestedMessageReader_GetRequiredDouble = getter TestRequiredOneof_NestedMessageReader_readRequiredDouble 0x0"

lemmas TestRequiredOneof_NestedMessage_getters =
  TestRequiredOneof_NestedMessageReader_readRequiredDouble_def TestRequiredOneof_NestedMessageReader_GetRequiredDouble_def

definition TestRequiredOneof_NestedMessageReader_cases :: "ProtoWireType \<Rightarrow> int \<Rightarrow> (ProtoWireNumber \<times> (TestRequiredOneof_NestedMessageReader \<Rightarrow> TestRequiredOneof_NestedMessageReader)) list" where
  "TestRequiredOneof_NestedMessageReader_cases wire offset = [
     (wireTestRequiredOneof_NestedMessage_RequiredDouble, \<lambda>m. m\<lparr>cellRequiredDouble := onOffset (setOffset wire offset) (cellRequiredDouble m)\<rparr>)]"

definition TestRequiredOneof_NestedMessageReader_save :: "ProtoWireNumber \<Rightarrow> ProtoWireType \<Rightarrow> int \<Rightarrow> TestRequiredOneof_NestedMessageReader \<Rightarrow> TestRequiredOneof_NestedMessageReader" where
  "TestRequiredOneof_NestedMessageReader_save tag wire offset = tag_switch (TestRequiredOneof_NestedMessageReader_cases wire offset) tag"

definition TestRequiredOneof_NestedMessageReader_Unmarshal :: "TestRequiredOneof_NestedMessageReader \<Rightarrow> gslice \<Rightarrow> (TestRequiredOneof_NestedMessageReader \<times> string option) run" where
  "TestRequiredOneof_NestedMessageReader_Unmarshal m data =
     unmarshalLoop TestRequiredOneof_NestedMessageReader_save (NewReader data) 0 (m\<lparr>mbuf := Some (NewReader data)\<rparr>)"

definition TestRequiredOneof_NestedMessageReader_SourceBytes :: "TestRequiredOneof_NestedMessageReader option \<Rightarrow> gslice" where
  "TestRequiredOneof_NestedMessageReader_SourceBytes s = (case s of None \<Rightarrow> nil_slice | Some r \<Rightarrow> Bytes (mbuf r))"

section \<open>TestRequiredOneof_NestedMessage: the struct\<close>

record TestRequiredOneof_NestedMessage =
  RequiredDouble :: float64

definition TestRequiredOneof_NestedMessage_zero :: TestRequiredOneof_NestedMessage where
  "TestRequiredOneof_NestedMessage_zero = \<lparr>
     RequiredDouble = 0\<rparr>"

definition TestRequiredOneof_NestedMessage_stmts :: "(TestRequiredOneof_NestedMessage \<times> TestRequiredOneof_NestedMessageReader option \<Rightarrow> (TestRequiredOneof_NestedMessage \<times> TestRequiredOneof_NestedMessageReader option) run) list" where
  "TestRequiredOneof_NestedMessage_stmts = [
     assign TestRequiredOneof_NestedMessageReader_GetRequiredDouble (\<lambda>v res. res\<lparr>RequiredDouble := v\<rparr>)]"

definition TestRequiredOneof_NestedMessageReader_ToStruct :: "TestRequiredOneof_NestedMessageReader option \<Rightarrow> (TestRequiredOneof_NestedMessage option \<times> TestRequiredOneof_NestedMessageReader option) run" where
  "TestRequiredOneof_NestedMessageReader_ToStruct = toStructWith (TestRequiredOneof_NestedMessage_stmts) TestRequiredOneof_NestedMessage_zero"

definition TestRequiredOneof_NestedMessage_appends :: "TestRequiredOneof_NestedMessage \<Rightarrow> (Writer \<Rightarrow> Writer go) list" where
  "TestRequiredOneof_NestedMessage_appends s = [
     \<lambda>res. if True then AppendFloat64 res wireTestRequiredOneof_NestedMessage_RequiredDouble (RequiredDouble s) else Ret res]"

definition TestRequiredOneof_NestedMessage_MarshalTo :: "Writer \<Rightarrow> TestRequiredOneof_NestedMessage option \<Rightarrow> Writer go" where
  "TestRequiredOneof_NestedMessage_MarshalTo = marshalToWith (\<lambda>s. TestRequiredOneof_NestedMessage_appends s)"

definition TestRequiredOneof_NestedMessage_sizes :: "TestRequiredOneof_NestedMessage \<Rightarrow> int list" where
  "TestRequiredOneof_NestedMessage_sizes s = [
     if True then sizeWithTag SizeFloat64 wireTestRequiredOneof_NestedMessage_RequiredDouble (RequiredDouble s) else 0]"

definition TestRequiredOneof_NestedMessage_XXX_PbContentSize :: "TestRequiredOneof_NestedMessage option \<Rightarrow> int" where
  "TestRequiredOneof_NestedMessage_XXX_PbContentSize = contentSizeWith (\<lambda>s. TestRequiredOneof_NestedMessage_sizes s)"

definition TestRequiredOneof_NestedMessage_Marshal :: "TestRequiredOneof_NestedMessage option \<Rightarrow> byte list go" where
  "TestRequiredOneof_NestedMessage_Marshal = marshalWith TestRequiredOneof_NestedMessage_XXX_PbContentSize TestRequiredOneof_NestedMessage_MarshalTo"

definition TestRequiredOneof_NestedMessage_Copy :: "TestRequiredOneof_NestedMessage option \<Rightarrow> TestRequiredOneof_NestedMessage option" where
  "TestRequiredOneof_NestedMessage_Copy s =
     (case s of None \<Rightarrow> None | Some s \<Rightarrow> Some \<lparr>
        RequiredDouble = RequiredDouble s\<rparr>)"

section \<open>TestRequiredOneof_NestedMessage: the round trip\<close>

definition TestRequiredOneof_NestedMessage_tags :: "ProtoWireNumber list" where
  "TestRequiredOneof_NestedMessage_tags = [
     wireTestRequiredOneof_NestedMessage_RequiredDouble]"

definition TestRequiredOneof_NestedMessage_groups :: "TestRequiredOneof_NestedMessage \<Rightarrow> wfield list list" where
  "TestRequiredOneof_NestedMessage_groups s = [
     opt_field (True) (wireTestRequiredOneof_NestedMessage_RequiredDouble, WFixed64 (RequiredDouble s))]"

definition TestRequiredOneof_NestedMessage_content :: "TestRequiredOneof_NestedMessage \<Rightarrow> wfield list" where
  "TestRequiredOneof_NestedMessage_content s = concat (TestRequiredOneof_NestedMessage_groups s)"

text \<open>What a round trip keeps.\<close>

definition TestRequiredOneof_NestedMessage_norm :: "TestRequiredOneof_NestedMessage \<Rightarrow> TestRequiredOneof_NestedMessage" where
  "TestRequiredOneof_NestedMessage_norm s = s\<lparr>
     RequiredDouble := if True then RequiredDouble s else 0x0\<rparr>"

definition TestRequiredOneof_NestedMessage_ready :: "Reader \<Rightarrow> TestRequiredOneof_NestedMessage \<Rightarrow> (TestRequiredOneof_NestedMessageReader \<Rightarrow> bool) list" where
  "TestRequiredOneof_NestedMessage_ready p s = [
     \<lambda>m. cell_reads (readOne ReadFloat64 0x0) plain p (if True then RequiredDouble s else 0x0) (cellRequiredDouble m)]"

definition TestRequiredOneof_NestedMessage_stored :: "TestRequiredOneof_NestedMessage \<Rightarrow> (TestRequiredOneof_NestedMessage \<Rightarrow> TestRequiredOneof_NestedMessage) list" where
  "TestRequiredOneof_NestedMessage_stored s = [
     \<lambda>res. res\<lparr>RequiredDouble := if True then RequiredDouble s else 0x0\<rparr>]"

lemma TestRequiredOneof_NestedMessage_cases_distinct: "distinct (map fst (TestRequiredOneof_NestedMessageReader_cases wire offset))"
  by (rule ascending_distinct) (simp add: TestRequiredOneof_NestedMessageReader_cases_def wireTestRequiredOneof_NestedMessage)

lemma TestRequiredOneof_NestedMessage_stores:
  "stores_cell TestRequiredOneof_NestedMessageReader_save wireTestRequiredOneof_NestedMessage_RequiredDouble setOffset cellRequiredDouble"
  unfolding TestRequiredOneof_NestedMessageReader_save_def [abs_def] by (rule stores_cell_switch; (rule TestRequiredOneof_NestedMessage_cases_distinct)?; unfold TestRequiredOneof_NestedMessageReader_cases_def; intro own_case.intros; simp)+

lemma TestRequiredOneof_NestedMessage_saved: "good_fields TestRequiredOneof_NestedMessageReader_save p (NewTestRequiredOneof_NestedMessageReader\<lparr>mbuf := Some p\<rparr>) TestRequiredOneof_NestedMessage_tags (TestRequiredOneof_NestedMessage_groups s) (TestRequiredOneof_NestedMessage_ready p s)"
  unfolding TestRequiredOneof_NestedMessage_tags_def TestRequiredOneof_NestedMessage_groups_def TestRequiredOneof_NestedMessage_ready_def
  by (intro good_fields.intros field_saved TestRequiredOneof_NestedMessage_stores) (simp_all add: NewTestRequiredOneof_NestedMessageReader_def newCell_def)

lemma TestRequiredOneof_NestedMessage_converted: "good_stmts mbuf p (TestRequiredOneof_NestedMessage_stmts) (TestRequiredOneof_NestedMessage_ready p s) (TestRequiredOneof_NestedMessage_stored s)"
  unfolding TestRequiredOneof_NestedMessage_stmts_def TestRequiredOneof_NestedMessage_ready_def TestRequiredOneof_NestedMessage_stored_def TestRequiredOneof_NestedMessage_getters append.simps
  by (intro good_stmts_field good_stmts.Nil) (simp_all cong: cell_reads_cong)

interpretation l_TestRequiredOneof_NestedMessage: lazy_message TestRequiredOneof_NestedMessage_tags TestRequiredOneof_NestedMessage_groups TestRequiredOneof_NestedMessage_norm
  "\<lambda>s. TestRequiredOneof_NestedMessage_sizes s" "\<lambda>s. TestRequiredOneof_NestedMessage_appends s"
  TestRequiredOneof_NestedMessageReader_save "\<lambda>p. NewTestRequiredOneof_NestedMessageReader\<lparr>mbuf := Some p\<rparr>" mbuf "TestRequiredOneof_NestedMessage_stmts" TestRequiredOneof_NestedMessage_zero TestRequiredOneof_NestedMessage_ready TestRequiredOneof_NestedMessage_stored
proof
  show "distinct TestRequiredOneof_NestedMessage_tags"
    using TestRequiredOneof_NestedMessage_cases_distinct by (simp only: TestRequiredOneof_NestedMessageReader_cases_def TestRequiredOneof_NestedMessage_tags_def list.map fst_conv)
  show "list_all valid_tag TestRequiredOneof_NestedMessage_tags"
    by (simp add: TestRequiredOneof_NestedMessage_tags_def wireTestRequiredOneof_NestedMessage valid_tag_def)
  show "list_all2 (\<lambda>t g. \<forall>f \<in> set g. fst f = t \<and> wf_val (snd f)) TestRequiredOneof_NestedMessage_tags (TestRequiredOneof_NestedMessage_groups s)" for s
    unfolding TestRequiredOneof_NestedMessage_tags_def TestRequiredOneof_NestedMessage_groups_def by (intro list.rel_intros field_tagged)
  show "list_all2 (\<lambda>e g. e = int (length (fields_bytes g))) (TestRequiredOneof_NestedMessage_sizes s) (TestRequiredOneof_NestedMessage_groups s)" for s
    unfolding TestRequiredOneof_NestedMessage_sizes_def TestRequiredOneof_NestedMessage_groups_def append.simps
    by (intro list.rel_intros field_sized)
  show "list_all2 (\<lambda>st g. writes st (fields_bytes g)) (TestRequiredOneof_NestedMessage_appends s) (TestRequiredOneof_NestedMessage_groups s)" for s
    unfolding TestRequiredOneof_NestedMessage_appends_def TestRequiredOneof_NestedMessage_groups_def append.simps
    by (intro list.rel_intros field_written)
  show "mbuf (TestRequiredOneof_NestedMessageReader_save t w off m) = mbuf m" for t w off m
    unfolding TestRequiredOneof_NestedMessageReader_save_def by (rule tag_switch_keeps) (simp add: TestRequiredOneof_NestedMessageReader_cases_def)
  show "fold (\<lambda>e. e) (TestRequiredOneof_NestedMessage_stored s) TestRequiredOneof_NestedMessage_zero = TestRequiredOneof_NestedMessage_norm s" for s
    unfolding TestRequiredOneof_NestedMessage_stored_def by (simp add: TestRequiredOneof_NestedMessage_zero_def TestRequiredOneof_NestedMessage_norm_def float_defaults)
qed (simp_all add: TestRequiredOneof_NestedMessage_saved TestRequiredOneof_NestedMessage_converted)

interpretation m_TestRequiredOneof_NestedMessage: message_codec TestRequiredOneof_NestedMessage_content TestRequiredOneof_NestedMessage_norm TestRequiredOneof_NestedMessage_XXX_PbContentSize TestRequiredOneof_NestedMessage_MarshalTo
  "TestRequiredOneof_NestedMessageReader_Unmarshal NewTestRequiredOneof_NestedMessageReader" TestRequiredOneof_NestedMessageReader_ToStruct
  using l_TestRequiredOneof_NestedMessage.message
  by (simp only: TestRequiredOneof_NestedMessage_content_def [abs_def] TestRequiredOneof_NestedMessage_XXX_PbContentSize_def TestRequiredOneof_NestedMessage_MarshalTo_def TestRequiredOneof_NestedMessageReader_Unmarshal_def [abs_def] TestRequiredOneof_NestedMessageReader_ToStruct_def)


section \<open>TestRequiredOneof: the reader\<close>

definition wireTestRequiredOneof_FooInt :: ProtoWireNumber where "wireTestRequiredOneof_FooInt = 1"
definition wireTestRequiredOneof_FooString :: ProtoWireNumber where "wireTestRequiredOneof_FooString = 2"
definition wireTestRequiredOneof_FooMessage :: ProtoWireNumber where "wireTestRequiredOneof_FooMessage = 3"

lemmas wireTestRequiredOneof =
  wireTestRequiredOneof_FooInt_def wireTestRequiredOneof_FooString_def
  wireTestRequiredOneof_FooMessage_def

record TestRequiredOneofReader =
  mbuf :: "Reader option"
  cellFooInt :: "int32 one_cell"
  cellFooString :: "gostring one_cell"
  cellFooMessage :: "(TestRequiredOneof_NestedMessageReader option) one_cell"

definition NewTestRequiredOneofReader :: TestRequiredOneofReader where
  "NewTestRequiredOneofReader = \<lparr>
     mbuf = None, cellFooInt = newCell 0 0, cellFooString = newCell [] 0,
     cellFooMessage = newCell None 0\<rparr>"

definition TestRequiredOneofReader_readFooInt :: "TestRequiredOneofReader \<Rightarrow> (int32 \<times> TestRequiredOneofReader) run" where
  "TestRequiredOneofReader_readFooInt = readCell cellFooInt cellFooInt_update mbuf (readOne ReadInt32 0)"

definition TestRequiredOneofReader_GetFooInt :: "TestRequiredOneofReader option \<Rightarrow> (int32 \<times> TestRequiredOneofReader option) run" where
  "TestRequiredOneofReader_GetFooInt = getter TestRequiredOneofReader_readFooInt 0"

definition TestRequiredOneofReader_readFooString :: "TestRequiredOneofReader \<Rightarrow> (gostring \<times> TestRequiredOneofReader) run" where
  "TestRequiredOneofReader_readFooString = readCell cellFooString cellFooString_update mbuf (readOne ReadString [])"

definition TestRequiredOneofReader_GetFooString :: "TestRequiredOneofReader option \<Rightarrow> (gostring \<times> TestRequiredOneofReader option) run" where
  "TestRequiredOneofReader_GetFooString = getter TestRequiredOneofReader_readFooString []"

definition TestRequiredOneofReader_readFooMessage :: "TestRequiredOneofReader \<Rightarrow> (TestRequiredOneof_NestedMessageReader option \<times> TestRequiredOneofReader) run" where
  "TestRequiredOneofReader_readFooMessage = readCell cellFooMessage cellFooMessage_update mbuf (structReader (TestRequiredOneof_NestedMessageReader_Unmarshal NewTestRequiredOneof_NestedMessageReader))"

definition TestRequiredOneofReader_GetFooMessage :: "TestRequiredOneofReader option \<Rightarrow> (TestRequiredOneof_NestedMessageReader option \<times> TestRequiredOneofReader option) run" where
  "TestRequiredOneofReader_GetFooMessage = getter TestRequiredOneofReader_readFooMessage None"

lemmas TestRequiredOneof_getters =
  TestRequiredOneofReader_readFooInt_def TestRequiredOneofReader_GetFooInt_def
  TestRequiredOneofReader_readFooString_def TestRequiredOneofReader_GetFooString_def
  TestRequiredOneofReader_readFooMessage_def TestRequiredOneofReader_GetFooMessage_def

definition TestRequiredOneofReader_cases :: "ProtoWireType \<Rightarrow> int \<Rightarrow> (ProtoWireNumber \<times> (TestRequiredOneofReader \<Rightarrow> TestRequiredOneofReader)) list" where
  "TestRequiredOneofReader_cases wire offset = [
     (wireTestRequiredOneof_FooInt, \<lambda>m. m\<lparr>cellFooInt := onOffset (setOffset wire offset) (cellFooInt m)\<rparr>),
     (wireTestRequiredOneof_FooString, \<lambda>m. m\<lparr>cellFooString := onOffset (setOffset wire offset) (cellFooString m)\<rparr>),
     (wireTestRequiredOneof_FooMessage, \<lambda>m. m\<lparr>cellFooMessage := onOffset (setOffset wire offset) (cellFooMessage m)\<rparr>)]"

definition TestRequiredOneofReader_save :: "ProtoWireNumber \<Rightarrow> ProtoWireType \<Rightarrow> int \<Rightarrow> TestRequiredOneofReader \<Rightarrow> TestRequiredOneofReader" where
  "TestRequiredOneofReader_save tag wire offset = tag_switch (TestRequiredOneofReader_cases wire offset) tag"

definition TestRequiredOneofReader_Unmarshal :: "TestRequiredOneofReader \<Rightarrow> gslice \<Rightarrow> (TestRequiredOneofReader \<times> string option) run" where
  "TestRequiredOneofReader_Unmarshal m data =
     unmarshalLoop TestRequiredOneofReader_save (NewReader data) 0 (m\<lparr>mbuf := Some (NewReader data)\<rparr>)"

definition TestRequiredOneofReader_SourceBytes :: "TestRequiredOneofReader option \<Rightarrow> gslice" where
  "TestRequiredOneofReader_SourceBytes s = (case s of None \<Rightarrow> nil_slice | Some r \<Rightarrow> Bytes (mbuf r))"

section \<open>TestRequiredOneof: the struct\<close>

record TestRequiredOneof =
  FooInt :: int32
  FooString :: gostring
  FooMessage :: "TestRequiredOneof_NestedMessage option"

definition TestRequiredOneof_zero :: TestRequiredOneof where
  "TestRequiredOneof_zero = \<lparr>
     FooInt = 0, FooString = [], FooMessage = None\<rparr>"

definition TestRequiredOneof_stmts :: "(TestRequiredOneof \<times> TestRequiredOneofReader option \<Rightarrow> (TestRequiredOneof \<times> TestRequiredOneofReader option) run) list" where
  "TestRequiredOneof_stmts = [
     assign TestRequiredOneofReader_GetFooInt (\<lambda>v res. res\<lparr>FooInt := v\<rparr>),
     assign TestRequiredOneofReader_GetFooString (\<lambda>v res. res\<lparr>FooString := v\<rparr>),
     assignStruct TestRequiredOneofReader_GetFooMessage (structToStruct TestRequiredOneof_NestedMessageReader_ToStruct) cellFooMessage_update
       (\<lambda>v res. res\<lparr>FooMessage := v\<rparr>)]"

definition TestRequiredOneofReader_ToStruct :: "TestRequiredOneofReader option \<Rightarrow> (TestRequiredOneof option \<times> TestRequiredOneofReader option) run" where
  "TestRequiredOneofReader_ToStruct = toStructWith (TestRequiredOneof_stmts) TestRequiredOneof_zero"

definition TestRequiredOneof_appends :: "TestRequiredOneof \<Rightarrow> (Writer \<Rightarrow> Writer go) list" where
  "TestRequiredOneof_appends s = [
     \<lambda>res. if FooInt s \<noteq> 0 then AppendInt32 res wireTestRequiredOneof_FooInt (FooInt s) else Ret res,
     \<lambda>res. if FooString s \<noteq> [] then AppendString res wireTestRequiredOneof_FooString (FooString s) else Ret res,
     \<lambda>res. if FooMessage s \<noteq> None then structWriter TestRequiredOneof_NestedMessage_XXX_PbContentSize TestRequiredOneof_NestedMessage_MarshalTo res wireTestRequiredOneof_FooMessage (FooMessage s) else Ret res]"

definition TestRequiredOneof_MarshalTo :: "Writer \<Rightarrow> TestRequiredOneof option \<Rightarrow> Writer go" where
  "TestRequiredOneof_MarshalTo = marshalToWith (\<lambda>s. TestRequiredOneof_appends s)"

definition TestRequiredOneof_sizes :: "TestRequiredOneof \<Rightarrow> int list" where
  "TestRequiredOneof_sizes s = [
     if FooInt s \<noteq> 0 then sizeWithTag SizeInt32 wireTestRequiredOneof_FooInt (FooInt s) else 0,
     if FooString s \<noteq> [] then sizeDelimitedWithTag SizeString wireTestRequiredOneof_FooString (FooString s) else 0,
     if FooMessage s \<noteq> None then sizeDelimitedWithTag TestRequiredOneof_NestedMessage_XXX_PbContentSize wireTestRequiredOneof_FooMessage (FooMessage s) else 0]"

definition TestRequiredOneof_XXX_PbContentSize :: "TestRequiredOneof option \<Rightarrow> int" where
  "TestRequiredOneof_XXX_PbContentSize = contentSizeWith (\<lambda>s. TestRequiredOneof_sizes s)"

definition TestRequiredOneof_Marshal :: "TestRequiredOneof option \<Rightarrow> byte list go" where
  "TestRequiredOneof_Marshal = marshalWith TestRequiredOneof_XXX_PbContentSize TestRequiredOneof_MarshalTo"

definition TestRequiredOneof_Copy :: "TestRequiredOneof option \<Rightarrow> TestRequiredOneof option" where
  "TestRequiredOneof_Copy s =
     (case s of None \<Rightarrow> None | Some s \<Rightarrow> Some \<lparr>
        FooInt = FooInt s, FooString = FooString s,
        FooMessage = (case FooMessage s of None \<Rightarrow> None | Some x \<Rightarrow> TestRequiredOneof_NestedMessage_Copy (Some x))\<rparr>)"

section \<open>TestRequiredOneof: the round trip\<close>

definition TestRequiredOneof_tags :: "ProtoWireNumber list" where
  "TestRequiredOneof_tags = [
     wireTestRequiredOneof_FooInt, wireTestRequiredOneof_FooString,
     wireTestRequiredOneof_FooMessage]"

definition TestRequiredOneof_groups :: "TestRequiredOneof \<Rightarrow> wfield list list" where
  "TestRequiredOneof_groups s = [
     opt_field (FooInt s \<noteq> 0) (wireTestRequiredOneof_FooInt, int32_val (FooInt s)),
     opt_field (FooString s \<noteq> []) (wireTestRequiredOneof_FooString, WBytes (FooString s)),
     opt_field (FooMessage s \<noteq> None) (wireTestRequiredOneof_FooMessage, WBytes (ptr_bytes TestRequiredOneof_NestedMessage_content (FooMessage s)))]"

definition TestRequiredOneof_content :: "TestRequiredOneof \<Rightarrow> wfield list" where
  "TestRequiredOneof_content s = concat (TestRequiredOneof_groups s)"

text \<open>What a round trip keeps.\<close>

definition TestRequiredOneof_norm :: "TestRequiredOneof \<Rightarrow> TestRequiredOneof" where
  "TestRequiredOneof_norm s = s\<lparr>
     FooMessage := norm_ptr TestRequiredOneof_NestedMessage_content TestRequiredOneof_NestedMessage_norm (FooMessage s)\<rparr>"

definition TestRequiredOneof_ready :: "Reader \<Rightarrow> TestRequiredOneof \<Rightarrow> (TestRequiredOneofReader \<Rightarrow> bool) list" where
  "TestRequiredOneof_ready p s = [
     \<lambda>m. cell_reads (readOne ReadInt32 0) plain p (if FooInt s \<noteq> 0 then FooInt s else 0) (cellFooInt m),
     \<lambda>m. cell_reads (readOne ReadString []) plain p (if FooString s \<noteq> [] then FooString s else []) (cellFooString m),
     \<lambda>m. cell_reads (structReader (TestRequiredOneof_NestedMessageReader_Unmarshal NewTestRequiredOneof_NestedMessageReader)) (structToStruct TestRequiredOneof_NestedMessageReader_ToStruct) p (norm_ptr TestRequiredOneof_NestedMessage_content TestRequiredOneof_NestedMessage_norm (FooMessage s)) (cellFooMessage m)]"

definition TestRequiredOneof_stored :: "TestRequiredOneof \<Rightarrow> (TestRequiredOneof \<Rightarrow> TestRequiredOneof) list" where
  "TestRequiredOneof_stored s = [
     \<lambda>res. res\<lparr>FooInt := if FooInt s \<noteq> 0 then FooInt s else 0\<rparr>,
     \<lambda>res. res\<lparr>FooString := if FooString s \<noteq> [] then FooString s else []\<rparr>,
     \<lambda>res. res\<lparr>FooMessage := norm_ptr TestRequiredOneof_NestedMessage_content TestRequiredOneof_NestedMessage_norm (FooMessage s)\<rparr>]"

lemma TestRequiredOneof_cases_distinct: "distinct (map fst (TestRequiredOneofReader_cases wire offset))"
  by (rule ascending_distinct) (simp add: TestRequiredOneofReader_cases_def wireTestRequiredOneof)

lemma TestRequiredOneof_stores:
  "stores_cell TestRequiredOneofReader_save wireTestRequiredOneof_FooInt setOffset cellFooInt"
  "stores_cell TestRequiredOneofReader_save wireTestRequiredOneof_FooString setOffset cellFooString"
  "stores_cell TestRequiredOneofReader_save wireTestRequiredOneof_FooMessage setOffset cellFooMessage"
  unfolding TestRequiredOneofReader_save_def [abs_def] by (rule stores_cell_switch; (rule TestRequiredOneof_cases_distinct)?; unfold TestRequiredOneofReader_cases_def; intro own_case.intros; simp)+

lemma TestRequiredOneof_saved: "good_fields TestRequiredOneofReader_save p (NewTestRequiredOneofReader\<lparr>mbuf := Some p\<rparr>) TestRequiredOneof_tags (TestRequiredOneof_groups s) (TestRequiredOneof_ready p s)"
  unfolding TestRequiredOneof_tags_def TestRequiredOneof_groups_def TestRequiredOneof_ready_def
  by (intro good_fields.intros field_saved m_TestRequiredOneof_NestedMessage.saved_struct TestRequiredOneof_stores) (simp_all add: NewTestRequiredOneofReader_def newCell_def)

lemma TestRequiredOneof_converted: "good_stmts mbuf p (TestRequiredOneof_stmts) (TestRequiredOneof_ready p s) (TestRequiredOneof_stored s)"
  unfolding TestRequiredOneof_stmts_def TestRequiredOneof_ready_def TestRequiredOneof_stored_def TestRequiredOneof_getters append.simps
  by (intro good_stmts_field good_stmts.Nil) (simp_all cong: cell_reads_cong)

interpretation l_TestRequiredOneof: lazy_message TestRequiredOneof_tags TestRequiredOneof_groups TestRequiredOneof_norm
  "\<lambda>s. TestRequiredOneof_sizes s" "\<lambda>s. TestRequiredOneof_appends s"
  TestRequiredOneofReader_save "\<lambda>p. NewTestRequiredOneofReader\<lparr>mbuf := Some p\<rparr>" mbuf "TestRequiredOneof_stmts" TestRequiredOneof_zero TestRequiredOneof_ready TestRequiredOneof_stored
proof
  show "distinct TestRequiredOneof_tags"
    using TestRequiredOneof_cases_distinct by (simp only: TestRequiredOneofReader_cases_def TestRequiredOneof_tags_def list.map fst_conv)
  show "list_all valid_tag TestRequiredOneof_tags"
    by (simp add: TestRequiredOneof_tags_def wireTestRequiredOneof valid_tag_def)
  show "list_all2 (\<lambda>t g. \<forall>f \<in> set g. fst f = t \<and> wf_val (snd f)) TestRequiredOneof_tags (TestRequiredOneof_groups s)" for s
    unfolding TestRequiredOneof_tags_def TestRequiredOneof_groups_def by (intro list.rel_intros field_tagged m_TestRequiredOneof_NestedMessage.tagged_struct)
  show "list_all2 (\<lambda>e g. e = int (length (fields_bytes g))) (TestRequiredOneof_sizes s) (TestRequiredOneof_groups s)" for s
    unfolding TestRequiredOneof_sizes_def TestRequiredOneof_groups_def append.simps
    by (intro list.rel_intros field_sized m_TestRequiredOneof_NestedMessage.sized_struct)
  show "list_all2 (\<lambda>st g. writes st (fields_bytes g)) (TestRequiredOneof_appends s) (TestRequiredOneof_groups s)" for s
    unfolding TestRequiredOneof_appends_def TestRequiredOneof_groups_def append.simps
    by (intro list.rel_intros field_written m_TestRequiredOneof_NestedMessage.written_struct)
  show "mbuf (TestRequiredOneofReader_save t w off m) = mbuf m" for t w off m
    unfolding TestRequiredOneofReader_save_def by (rule tag_switch_keeps) (simp add: TestRequiredOneofReader_cases_def)
  show "fold (\<lambda>e. e) (TestRequiredOneof_stored s) TestRequiredOneof_zero = TestRequiredOneof_norm s" for s
    unfolding TestRequiredOneof_stored_def by (simp add: TestRequiredOneof_zero_def TestRequiredOneof_norm_def float_defaults)
qed (simp_all add: TestRequiredOneof_saved TestRequiredOneof_converted)

interpretation m_TestRequiredOneof: message_codec TestRequiredOneof_content TestRequiredOneof_norm TestRequiredOneof_XXX_PbContentSize TestRequiredOneof_MarshalTo
  "TestRequiredOneofReader_Unmarshal NewTestRequiredOneofReader" TestRequiredOneofReader_ToStruct
  using l_TestRequiredOneof.message
  by (simp only: TestRequiredOneof_content_def [abs_def] TestRequiredOneof_XXX_PbContentSize_def TestRequiredOneof_MarshalTo_def TestRequiredOneofReader_Unmarshal_def [abs_def] TestRequiredOneofReader_ToStruct_def)


end
