(* ===== verification/Unittest_Scalars.thy ===== *)
theory Unittest_Scalars
  imports Unittest_Base
begin

text \<open>
  The messages of \<^verbatim>\<open>src/shared/gremlin_go/bench/gremlin_pb/protobuf_unittest/unittest.pb2.go\<close> whose fields are scalars, strings and enums, with the field names and
  tag numbers that generators find difficult.
\<close>

section \<open>OneString: the reader\<close>

definition wireOneString_Data :: ProtoWireNumber where "wireOneString_Data = 1"

lemmas wireOneString =
  wireOneString_Data_def

record OneStringReader =
  mbuf :: "Reader option"
  cellData :: "gostring one_cell"

definition NewOneStringReader :: OneStringReader where
  "NewOneStringReader = \<lparr>
     mbuf = None, cellData = newCell [] 0\<rparr>"

definition OneStringReader_readData :: "OneStringReader \<Rightarrow> (gostring \<times> OneStringReader) run" where
  "OneStringReader_readData = readCell cellData cellData_update mbuf (readOne ReadString [])"

definition OneStringReader_GetData :: "OneStringReader option \<Rightarrow> (gostring \<times> OneStringReader option) run" where
  "OneStringReader_GetData = getter OneStringReader_readData []"

lemmas OneString_getters =
  OneStringReader_readData_def OneStringReader_GetData_def

definition OneStringReader_cases :: "ProtoWireType \<Rightarrow> int \<Rightarrow> (ProtoWireNumber \<times> (OneStringReader \<Rightarrow> OneStringReader)) list" where
  "OneStringReader_cases wire offset = [
     (wireOneString_Data, \<lambda>m. m\<lparr>cellData := onOffset (setOffset wire offset) (cellData m)\<rparr>)]"

definition OneStringReader_save :: "ProtoWireNumber \<Rightarrow> ProtoWireType \<Rightarrow> int \<Rightarrow> OneStringReader \<Rightarrow> OneStringReader" where
  "OneStringReader_save tag wire offset = tag_switch (OneStringReader_cases wire offset) tag"

definition OneStringReader_Unmarshal :: "OneStringReader \<Rightarrow> gslice \<Rightarrow> (OneStringReader \<times> string option) run" where
  "OneStringReader_Unmarshal m data =
     unmarshalLoop OneStringReader_save (NewReader data) 0 (m\<lparr>mbuf := Some (NewReader data)\<rparr>)"

definition OneStringReader_SourceBytes :: "OneStringReader option \<Rightarrow> gslice" where
  "OneStringReader_SourceBytes s = (case s of None \<Rightarrow> nil_slice | Some r \<Rightarrow> Bytes (mbuf r))"

section \<open>OneString: the struct\<close>

record OneString =
  Data :: gostring

definition OneString_zero :: OneString where
  "OneString_zero = \<lparr>
     Data = []\<rparr>"

definition OneString_stmts :: "(OneString \<times> OneStringReader option \<Rightarrow> (OneString \<times> OneStringReader option) run) list" where
  "OneString_stmts = [
     assign OneStringReader_GetData (\<lambda>v res. res\<lparr>Data := v\<rparr>)]"

definition OneStringReader_ToStruct :: "OneStringReader option \<Rightarrow> (OneString option \<times> OneStringReader option) run" where
  "OneStringReader_ToStruct = toStructWith (OneString_stmts) OneString_zero"

definition OneString_appends :: "OneString \<Rightarrow> (Writer \<Rightarrow> Writer go) list" where
  "OneString_appends s = [
     \<lambda>res. if Data s \<noteq> [] then AppendString res wireOneString_Data (Data s) else Ret res]"

definition OneString_MarshalTo :: "Writer \<Rightarrow> OneString option \<Rightarrow> Writer go" where
  "OneString_MarshalTo = marshalToWith (\<lambda>s. OneString_appends s)"

definition OneString_sizes :: "OneString \<Rightarrow> int list" where
  "OneString_sizes s = [
     if Data s \<noteq> [] then sizeDelimitedWithTag SizeString wireOneString_Data (Data s) else 0]"

definition OneString_XXX_PbContentSize :: "OneString option \<Rightarrow> int" where
  "OneString_XXX_PbContentSize = contentSizeWith (\<lambda>s. OneString_sizes s)"

definition OneString_Marshal :: "OneString option \<Rightarrow> byte list go" where
  "OneString_Marshal = marshalWith OneString_XXX_PbContentSize OneString_MarshalTo"

definition OneString_Copy :: "OneString option \<Rightarrow> OneString option" where
  "OneString_Copy s =
     (case s of None \<Rightarrow> None | Some s \<Rightarrow> Some \<lparr>
        Data = Data s\<rparr>)"

section \<open>OneString: the round trip\<close>

definition OneString_tags :: "ProtoWireNumber list" where
  "OneString_tags = [
     wireOneString_Data]"

definition OneString_groups :: "OneString \<Rightarrow> wfield list list" where
  "OneString_groups s = [
     opt_field (Data s \<noteq> []) (wireOneString_Data, WBytes (Data s))]"

definition OneString_content :: "OneString \<Rightarrow> wfield list" where
  "OneString_content s = concat (OneString_groups s)"

text \<open>What a round trip keeps.\<close>

definition OneString_norm :: "OneString \<Rightarrow> OneString" where
  "OneString_norm s = s"

definition OneString_ready :: "Reader \<Rightarrow> OneString \<Rightarrow> (OneStringReader \<Rightarrow> bool) list" where
  "OneString_ready p s = [
     \<lambda>m. cell_reads (readOne ReadString []) plain p (if Data s \<noteq> [] then Data s else []) (cellData m)]"

definition OneString_stored :: "OneString \<Rightarrow> (OneString \<Rightarrow> OneString) list" where
  "OneString_stored s = [
     \<lambda>res. res\<lparr>Data := if Data s \<noteq> [] then Data s else []\<rparr>]"

lemma OneString_cases_distinct: "distinct (map fst (OneStringReader_cases wire offset))"
  by (rule ascending_distinct) (simp add: OneStringReader_cases_def wireOneString)

lemma OneString_stores:
  "stores_cell OneStringReader_save wireOneString_Data setOffset cellData"
  unfolding OneStringReader_save_def [abs_def] by (rule stores_cell_switch; (rule OneString_cases_distinct)?; unfold OneStringReader_cases_def; intro own_case.intros; simp)+

lemma OneString_saved: "good_fields OneStringReader_save p (NewOneStringReader\<lparr>mbuf := Some p\<rparr>) OneString_tags (OneString_groups s) (OneString_ready p s)"
  unfolding OneString_tags_def OneString_groups_def OneString_ready_def
  by (intro good_fields.intros field_saved OneString_stores) (simp_all add: NewOneStringReader_def newCell_def)

lemma OneString_converted: "good_stmts mbuf p (OneString_stmts) (OneString_ready p s) (OneString_stored s)"
  unfolding OneString_stmts_def OneString_ready_def OneString_stored_def OneString_getters append.simps
  by (intro good_stmts_field good_stmts.Nil) (simp_all cong: cell_reads_cong)

interpretation l_OneString: lazy_message OneString_tags OneString_groups OneString_norm
  "\<lambda>s. OneString_sizes s" "\<lambda>s. OneString_appends s"
  OneStringReader_save "\<lambda>p. NewOneStringReader\<lparr>mbuf := Some p\<rparr>" mbuf "OneString_stmts" OneString_zero OneString_ready OneString_stored
proof
  show "distinct OneString_tags"
    using OneString_cases_distinct by (simp only: OneStringReader_cases_def OneString_tags_def list.map fst_conv)
  show "list_all valid_tag OneString_tags"
    by (simp add: OneString_tags_def wireOneString valid_tag_def)
  show "list_all2 (\<lambda>t g. \<forall>f \<in> set g. fst f = t \<and> wf_val (snd f)) OneString_tags (OneString_groups s)" for s
    unfolding OneString_tags_def OneString_groups_def by (intro list.rel_intros field_tagged)
  show "list_all2 (\<lambda>e g. e = int (length (fields_bytes g))) (OneString_sizes s) (OneString_groups s)" for s
    unfolding OneString_sizes_def OneString_groups_def append.simps
    by (intro list.rel_intros field_sized)
  show "list_all2 (\<lambda>st g. writes st (fields_bytes g)) (OneString_appends s) (OneString_groups s)" for s
    unfolding OneString_appends_def OneString_groups_def append.simps
    by (intro list.rel_intros field_written)
  show "mbuf (OneStringReader_save t w off m) = mbuf m" for t w off m
    unfolding OneStringReader_save_def by (rule tag_switch_keeps) (simp add: OneStringReader_cases_def)
  show "fold (\<lambda>e. e) (OneString_stored s) OneString_zero = OneString_norm s" for s
    unfolding OneString_stored_def by (simp add: OneString_zero_def OneString_norm_def float_defaults)
qed (simp_all add: OneString_saved OneString_converted)

interpretation m_OneString: message_codec OneString_content OneString_norm OneString_XXX_PbContentSize OneString_MarshalTo
  "OneStringReader_Unmarshal NewOneStringReader" OneStringReader_ToStruct
  using l_OneString.message
  by (simp only: OneString_content_def [abs_def] OneString_XXX_PbContentSize_def OneString_MarshalTo_def OneStringReader_Unmarshal_def [abs_def] OneStringReader_ToStruct_def)


section \<open>MoreString: the reader\<close>

definition wireMoreString_Data :: ProtoWireNumber where "wireMoreString_Data = 1"

lemmas wireMoreString =
  wireMoreString_Data_def

record MoreStringReader =
  mbuf :: "Reader option"
  cellData :: "gostring list_cell"

definition NewMoreStringReader :: MoreStringReader where
  "NewMoreStringReader = \<lparr>
     mbuf = None, cellData = newCell [] []\<rparr>"

definition MoreStringReader_readData :: "MoreStringReader \<Rightarrow> (gostring list \<times> MoreStringReader) run" where
  "MoreStringReader_readData = readCell cellData cellData_update mbuf (readList ReadString [])"

definition MoreStringReader_GetData :: "MoreStringReader option \<Rightarrow> (gostring list \<times> MoreStringReader option) run" where
  "MoreStringReader_GetData = getter MoreStringReader_readData []"

lemmas MoreString_getters =
  MoreStringReader_readData_def MoreStringReader_GetData_def

definition MoreStringReader_cases :: "ProtoWireType \<Rightarrow> int \<Rightarrow> (ProtoWireNumber \<times> (MoreStringReader \<Rightarrow> MoreStringReader)) list" where
  "MoreStringReader_cases wire offset = [
     (wireMoreString_Data, \<lambda>m. m\<lparr>cellData := onOffset (addOffset wire offset) (cellData m)\<rparr>)]"

definition MoreStringReader_save :: "ProtoWireNumber \<Rightarrow> ProtoWireType \<Rightarrow> int \<Rightarrow> MoreStringReader \<Rightarrow> MoreStringReader" where
  "MoreStringReader_save tag wire offset = tag_switch (MoreStringReader_cases wire offset) tag"

definition MoreStringReader_Unmarshal :: "MoreStringReader \<Rightarrow> gslice \<Rightarrow> (MoreStringReader \<times> string option) run" where
  "MoreStringReader_Unmarshal m data =
     unmarshalLoop MoreStringReader_save (NewReader data) 0 (m\<lparr>mbuf := Some (NewReader data)\<rparr>)"

definition MoreStringReader_SourceBytes :: "MoreStringReader option \<Rightarrow> gslice" where
  "MoreStringReader_SourceBytes s = (case s of None \<Rightarrow> nil_slice | Some r \<Rightarrow> Bytes (mbuf r))"

section \<open>MoreString: the struct\<close>

record MoreString =
  Data :: "gostring list"

definition MoreString_zero :: MoreString where
  "MoreString_zero = \<lparr>
     Data = []\<rparr>"

definition MoreString_stmts :: "(MoreString \<times> MoreStringReader option \<Rightarrow> (MoreString \<times> MoreStringReader option) run) list" where
  "MoreString_stmts = [
     assign MoreStringReader_GetData (\<lambda>v res. res\<lparr>Data := v\<rparr>)]"

definition MoreStringReader_ToStruct :: "MoreStringReader option \<Rightarrow> (MoreString option \<times> MoreStringReader option) run" where
  "MoreStringReader_ToStruct = toStructWith (MoreString_stmts) MoreString_zero"

definition MoreString_appends :: "MoreString \<Rightarrow> (Writer \<Rightarrow> Writer go) list" where
  "MoreString_appends s = [
     \<lambda>res. if Data s \<noteq> [] then repeatedWriter AppendString res wireMoreString_Data (Data s) else Ret res]"

definition MoreString_MarshalTo :: "Writer \<Rightarrow> MoreString option \<Rightarrow> Writer go" where
  "MoreString_MarshalTo = marshalToWith (\<lambda>s. MoreString_appends s)"

definition MoreString_sizes :: "MoreString \<Rightarrow> int list" where
  "MoreString_sizes s = [
     if Data s \<noteq> [] then repeatedSize (sizeDelimitedWithTag SizeString wireMoreString_Data) (Data s) else 0]"

definition MoreString_XXX_PbContentSize :: "MoreString option \<Rightarrow> int" where
  "MoreString_XXX_PbContentSize = contentSizeWith (\<lambda>s. MoreString_sizes s)"

definition MoreString_Marshal :: "MoreString option \<Rightarrow> byte list go" where
  "MoreString_Marshal = marshalWith MoreString_XXX_PbContentSize MoreString_MarshalTo"

definition MoreString_Copy :: "MoreString option \<Rightarrow> MoreString option" where
  "MoreString_Copy s =
     (case s of None \<Rightarrow> None | Some s \<Rightarrow> Some \<lparr>
        Data = Data s\<rparr>)"

section \<open>MoreString: the round trip\<close>

definition MoreString_tags :: "ProtoWireNumber list" where
  "MoreString_tags = [
     wireMoreString_Data]"

definition MoreString_groups :: "MoreString \<Rightarrow> wfield list list" where
  "MoreString_groups s = [
     bytes_fields wireMoreString_Data (Data s)]"

definition MoreString_content :: "MoreString \<Rightarrow> wfield list" where
  "MoreString_content s = concat (MoreString_groups s)"

text \<open>What a round trip keeps.\<close>

definition MoreString_norm :: "MoreString \<Rightarrow> MoreString" where
  "MoreString_norm s = s"

definition MoreString_ready :: "Reader \<Rightarrow> MoreString \<Rightarrow> (MoreStringReader \<Rightarrow> bool) list" where
  "MoreString_ready p s = [
     \<lambda>m. cell_reads (readList ReadString []) plain p (Data s) (cellData m)]"

definition MoreString_stored :: "MoreString \<Rightarrow> (MoreString \<Rightarrow> MoreString) list" where
  "MoreString_stored s = [
     \<lambda>res. res\<lparr>Data := Data s\<rparr>]"

lemma MoreString_cases_distinct: "distinct (map fst (MoreStringReader_cases wire offset))"
  by (rule ascending_distinct) (simp add: MoreStringReader_cases_def wireMoreString)

lemma MoreString_stores:
  "stores_cell MoreStringReader_save wireMoreString_Data addOffset cellData"
  unfolding MoreStringReader_save_def [abs_def] by (rule stores_cell_switch; (rule MoreString_cases_distinct)?; unfold MoreStringReader_cases_def; intro own_case.intros; simp)+

lemma MoreString_saved: "good_fields MoreStringReader_save p (NewMoreStringReader\<lparr>mbuf := Some p\<rparr>) MoreString_tags (MoreString_groups s) (MoreString_ready p s)"
  unfolding MoreString_tags_def MoreString_groups_def MoreString_ready_def
  by (intro good_fields.intros field_saved MoreString_stores) (simp_all add: NewMoreStringReader_def newCell_def)

lemma MoreString_converted: "good_stmts mbuf p (MoreString_stmts) (MoreString_ready p s) (MoreString_stored s)"
  unfolding MoreString_stmts_def MoreString_ready_def MoreString_stored_def MoreString_getters append.simps
  by (intro good_stmts_field good_stmts.Nil) (simp_all cong: cell_reads_cong)

interpretation l_MoreString: lazy_message MoreString_tags MoreString_groups MoreString_norm
  "\<lambda>s. MoreString_sizes s" "\<lambda>s. MoreString_appends s"
  MoreStringReader_save "\<lambda>p. NewMoreStringReader\<lparr>mbuf := Some p\<rparr>" mbuf "MoreString_stmts" MoreString_zero MoreString_ready MoreString_stored
proof
  show "distinct MoreString_tags"
    using MoreString_cases_distinct by (simp only: MoreStringReader_cases_def MoreString_tags_def list.map fst_conv)
  show "list_all valid_tag MoreString_tags"
    by (simp add: MoreString_tags_def wireMoreString valid_tag_def)
  show "list_all2 (\<lambda>t g. \<forall>f \<in> set g. fst f = t \<and> wf_val (snd f)) MoreString_tags (MoreString_groups s)" for s
    unfolding MoreString_tags_def MoreString_groups_def by (intro list.rel_intros field_tagged)
  show "list_all2 (\<lambda>e g. e = int (length (fields_bytes g))) (MoreString_sizes s) (MoreString_groups s)" for s
    unfolding MoreString_sizes_def MoreString_groups_def append.simps
    by (intro list.rel_intros field_sized)
  show "list_all2 (\<lambda>st g. writes st (fields_bytes g)) (MoreString_appends s) (MoreString_groups s)" for s
    unfolding MoreString_appends_def MoreString_groups_def append.simps
    by (intro list.rel_intros field_written)
  show "mbuf (MoreStringReader_save t w off m) = mbuf m" for t w off m
    unfolding MoreStringReader_save_def by (rule tag_switch_keeps) (simp add: MoreStringReader_cases_def)
  show "fold (\<lambda>e. e) (MoreString_stored s) MoreString_zero = MoreString_norm s" for s
    unfolding MoreString_stored_def by (simp add: MoreString_zero_def MoreString_norm_def float_defaults)
qed (simp_all add: MoreString_saved MoreString_converted)

interpretation m_MoreString: message_codec MoreString_content MoreString_norm MoreString_XXX_PbContentSize MoreString_MarshalTo
  "MoreStringReader_Unmarshal NewMoreStringReader" MoreStringReader_ToStruct
  using l_MoreString.message
  by (simp only: MoreString_content_def [abs_def] MoreString_XXX_PbContentSize_def MoreString_MarshalTo_def MoreStringReader_Unmarshal_def [abs_def] MoreStringReader_ToStruct_def)


section \<open>OneBytes: the reader\<close>

definition wireOneBytes_Data :: ProtoWireNumber where "wireOneBytes_Data = 1"

lemmas wireOneBytes =
  wireOneBytes_Data_def

record OneBytesReader =
  mbuf :: "Reader option"
  cellData :: "(byte list) one_cell"

definition NewOneBytesReader :: OneBytesReader where
  "NewOneBytesReader = \<lparr>
     mbuf = None, cellData = newCell [] 0\<rparr>"

definition OneBytesReader_readData :: "OneBytesReader \<Rightarrow> (byte list \<times> OneBytesReader) run" where
  "OneBytesReader_readData = readCell cellData cellData_update mbuf (readOne ReadByteList [])"

definition OneBytesReader_GetData :: "OneBytesReader option \<Rightarrow> (byte list \<times> OneBytesReader option) run" where
  "OneBytesReader_GetData = getter OneBytesReader_readData []"

lemmas OneBytes_getters =
  OneBytesReader_readData_def OneBytesReader_GetData_def

definition OneBytesReader_cases :: "ProtoWireType \<Rightarrow> int \<Rightarrow> (ProtoWireNumber \<times> (OneBytesReader \<Rightarrow> OneBytesReader)) list" where
  "OneBytesReader_cases wire offset = [
     (wireOneBytes_Data, \<lambda>m. m\<lparr>cellData := onOffset (setOffset wire offset) (cellData m)\<rparr>)]"

definition OneBytesReader_save :: "ProtoWireNumber \<Rightarrow> ProtoWireType \<Rightarrow> int \<Rightarrow> OneBytesReader \<Rightarrow> OneBytesReader" where
  "OneBytesReader_save tag wire offset = tag_switch (OneBytesReader_cases wire offset) tag"

definition OneBytesReader_Unmarshal :: "OneBytesReader \<Rightarrow> gslice \<Rightarrow> (OneBytesReader \<times> string option) run" where
  "OneBytesReader_Unmarshal m data =
     unmarshalLoop OneBytesReader_save (NewReader data) 0 (m\<lparr>mbuf := Some (NewReader data)\<rparr>)"

definition OneBytesReader_SourceBytes :: "OneBytesReader option \<Rightarrow> gslice" where
  "OneBytesReader_SourceBytes s = (case s of None \<Rightarrow> nil_slice | Some r \<Rightarrow> Bytes (mbuf r))"

section \<open>OneBytes: the struct\<close>

record OneBytes =
  Data :: "byte list"

definition OneBytes_zero :: OneBytes where
  "OneBytes_zero = \<lparr>
     Data = []\<rparr>"

definition OneBytes_stmts :: "(OneBytes \<times> OneBytesReader option \<Rightarrow> (OneBytes \<times> OneBytesReader option) run) list" where
  "OneBytes_stmts = [
     assign OneBytesReader_GetData (\<lambda>v res. res\<lparr>Data := v\<rparr>)]"

definition OneBytesReader_ToStruct :: "OneBytesReader option \<Rightarrow> (OneBytes option \<times> OneBytesReader option) run" where
  "OneBytesReader_ToStruct = toStructWith (OneBytes_stmts) OneBytes_zero"

definition OneBytes_appends :: "OneBytes \<Rightarrow> (Writer \<Rightarrow> Writer go) list" where
  "OneBytes_appends s = [
     \<lambda>res. if Data s \<noteq> [] then AppendBytes res wireOneBytes_Data (Data s) else Ret res]"

definition OneBytes_MarshalTo :: "Writer \<Rightarrow> OneBytes option \<Rightarrow> Writer go" where
  "OneBytes_MarshalTo = marshalToWith (\<lambda>s. OneBytes_appends s)"

definition OneBytes_sizes :: "OneBytes \<Rightarrow> int list" where
  "OneBytes_sizes s = [
     if Data s \<noteq> [] then sizeDelimitedWithTag SizeBytes wireOneBytes_Data (Data s) else 0]"

definition OneBytes_XXX_PbContentSize :: "OneBytes option \<Rightarrow> int" where
  "OneBytes_XXX_PbContentSize = contentSizeWith (\<lambda>s. OneBytes_sizes s)"

definition OneBytes_Marshal :: "OneBytes option \<Rightarrow> byte list go" where
  "OneBytes_Marshal = marshalWith OneBytes_XXX_PbContentSize OneBytes_MarshalTo"

definition OneBytes_Copy :: "OneBytes option \<Rightarrow> OneBytes option" where
  "OneBytes_Copy s =
     (case s of None \<Rightarrow> None | Some s \<Rightarrow> Some \<lparr>
        Data = Data s\<rparr>)"

section \<open>OneBytes: the round trip\<close>

definition OneBytes_tags :: "ProtoWireNumber list" where
  "OneBytes_tags = [
     wireOneBytes_Data]"

definition OneBytes_groups :: "OneBytes \<Rightarrow> wfield list list" where
  "OneBytes_groups s = [
     opt_field (Data s \<noteq> []) (wireOneBytes_Data, WBytes (Data s))]"

definition OneBytes_content :: "OneBytes \<Rightarrow> wfield list" where
  "OneBytes_content s = concat (OneBytes_groups s)"

text \<open>What a round trip keeps.\<close>

definition OneBytes_norm :: "OneBytes \<Rightarrow> OneBytes" where
  "OneBytes_norm s = s"

definition OneBytes_ready :: "Reader \<Rightarrow> OneBytes \<Rightarrow> (OneBytesReader \<Rightarrow> bool) list" where
  "OneBytes_ready p s = [
     \<lambda>m. cell_reads (readOne ReadByteList []) plain p (if Data s \<noteq> [] then Data s else []) (cellData m)]"

definition OneBytes_stored :: "OneBytes \<Rightarrow> (OneBytes \<Rightarrow> OneBytes) list" where
  "OneBytes_stored s = [
     \<lambda>res. res\<lparr>Data := if Data s \<noteq> [] then Data s else []\<rparr>]"

lemma OneBytes_cases_distinct: "distinct (map fst (OneBytesReader_cases wire offset))"
  by (rule ascending_distinct) (simp add: OneBytesReader_cases_def wireOneBytes)

lemma OneBytes_stores:
  "stores_cell OneBytesReader_save wireOneBytes_Data setOffset cellData"
  unfolding OneBytesReader_save_def [abs_def] by (rule stores_cell_switch; (rule OneBytes_cases_distinct)?; unfold OneBytesReader_cases_def; intro own_case.intros; simp)+

lemma OneBytes_saved: "good_fields OneBytesReader_save p (NewOneBytesReader\<lparr>mbuf := Some p\<rparr>) OneBytes_tags (OneBytes_groups s) (OneBytes_ready p s)"
  unfolding OneBytes_tags_def OneBytes_groups_def OneBytes_ready_def
  by (intro good_fields.intros field_saved OneBytes_stores) (simp_all add: NewOneBytesReader_def newCell_def)

lemma OneBytes_converted: "good_stmts mbuf p (OneBytes_stmts) (OneBytes_ready p s) (OneBytes_stored s)"
  unfolding OneBytes_stmts_def OneBytes_ready_def OneBytes_stored_def OneBytes_getters append.simps
  by (intro good_stmts_field good_stmts.Nil) (simp_all cong: cell_reads_cong)

interpretation l_OneBytes: lazy_message OneBytes_tags OneBytes_groups OneBytes_norm
  "\<lambda>s. OneBytes_sizes s" "\<lambda>s. OneBytes_appends s"
  OneBytesReader_save "\<lambda>p. NewOneBytesReader\<lparr>mbuf := Some p\<rparr>" mbuf "OneBytes_stmts" OneBytes_zero OneBytes_ready OneBytes_stored
proof
  show "distinct OneBytes_tags"
    using OneBytes_cases_distinct by (simp only: OneBytesReader_cases_def OneBytes_tags_def list.map fst_conv)
  show "list_all valid_tag OneBytes_tags"
    by (simp add: OneBytes_tags_def wireOneBytes valid_tag_def)
  show "list_all2 (\<lambda>t g. \<forall>f \<in> set g. fst f = t \<and> wf_val (snd f)) OneBytes_tags (OneBytes_groups s)" for s
    unfolding OneBytes_tags_def OneBytes_groups_def by (intro list.rel_intros field_tagged)
  show "list_all2 (\<lambda>e g. e = int (length (fields_bytes g))) (OneBytes_sizes s) (OneBytes_groups s)" for s
    unfolding OneBytes_sizes_def OneBytes_groups_def append.simps
    by (intro list.rel_intros field_sized)
  show "list_all2 (\<lambda>st g. writes st (fields_bytes g)) (OneBytes_appends s) (OneBytes_groups s)" for s
    unfolding OneBytes_appends_def OneBytes_groups_def append.simps
    by (intro list.rel_intros field_written)
  show "mbuf (OneBytesReader_save t w off m) = mbuf m" for t w off m
    unfolding OneBytesReader_save_def by (rule tag_switch_keeps) (simp add: OneBytesReader_cases_def)
  show "fold (\<lambda>e. e) (OneBytes_stored s) OneBytes_zero = OneBytes_norm s" for s
    unfolding OneBytes_stored_def by (simp add: OneBytes_zero_def OneBytes_norm_def float_defaults)
qed (simp_all add: OneBytes_saved OneBytes_converted)

interpretation m_OneBytes: message_codec OneBytes_content OneBytes_norm OneBytes_XXX_PbContentSize OneBytes_MarshalTo
  "OneBytesReader_Unmarshal NewOneBytesReader" OneBytesReader_ToStruct
  using l_OneBytes.message
  by (simp only: OneBytes_content_def [abs_def] OneBytes_XXX_PbContentSize_def OneBytes_MarshalTo_def OneBytesReader_Unmarshal_def [abs_def] OneBytesReader_ToStruct_def)


section \<open>MoreBytes: the reader\<close>

definition wireMoreBytes_Data :: ProtoWireNumber where "wireMoreBytes_Data = 1"

lemmas wireMoreBytes =
  wireMoreBytes_Data_def

record MoreBytesReader =
  mbuf :: "Reader option"
  cellData :: "(byte list) list_cell"

definition NewMoreBytesReader :: MoreBytesReader where
  "NewMoreBytesReader = \<lparr>
     mbuf = None, cellData = newCell [] []\<rparr>"

definition MoreBytesReader_readData :: "MoreBytesReader \<Rightarrow> ((byte list) list \<times> MoreBytesReader) run" where
  "MoreBytesReader_readData = readCell cellData cellData_update mbuf (readList ReadByteList [])"

definition MoreBytesReader_GetData :: "MoreBytesReader option \<Rightarrow> ((byte list) list \<times> MoreBytesReader option) run" where
  "MoreBytesReader_GetData = getter MoreBytesReader_readData []"

lemmas MoreBytes_getters =
  MoreBytesReader_readData_def MoreBytesReader_GetData_def

definition MoreBytesReader_cases :: "ProtoWireType \<Rightarrow> int \<Rightarrow> (ProtoWireNumber \<times> (MoreBytesReader \<Rightarrow> MoreBytesReader)) list" where
  "MoreBytesReader_cases wire offset = [
     (wireMoreBytes_Data, \<lambda>m. m\<lparr>cellData := onOffset (addOffset wire offset) (cellData m)\<rparr>)]"

definition MoreBytesReader_save :: "ProtoWireNumber \<Rightarrow> ProtoWireType \<Rightarrow> int \<Rightarrow> MoreBytesReader \<Rightarrow> MoreBytesReader" where
  "MoreBytesReader_save tag wire offset = tag_switch (MoreBytesReader_cases wire offset) tag"

definition MoreBytesReader_Unmarshal :: "MoreBytesReader \<Rightarrow> gslice \<Rightarrow> (MoreBytesReader \<times> string option) run" where
  "MoreBytesReader_Unmarshal m data =
     unmarshalLoop MoreBytesReader_save (NewReader data) 0 (m\<lparr>mbuf := Some (NewReader data)\<rparr>)"

definition MoreBytesReader_SourceBytes :: "MoreBytesReader option \<Rightarrow> gslice" where
  "MoreBytesReader_SourceBytes s = (case s of None \<Rightarrow> nil_slice | Some r \<Rightarrow> Bytes (mbuf r))"

section \<open>MoreBytes: the struct\<close>

record MoreBytes =
  Data :: "(byte list) list"

definition MoreBytes_zero :: MoreBytes where
  "MoreBytes_zero = \<lparr>
     Data = []\<rparr>"

definition MoreBytes_stmts :: "(MoreBytes \<times> MoreBytesReader option \<Rightarrow> (MoreBytes \<times> MoreBytesReader option) run) list" where
  "MoreBytes_stmts = [
     assign MoreBytesReader_GetData (\<lambda>v res. res\<lparr>Data := v\<rparr>)]"

definition MoreBytesReader_ToStruct :: "MoreBytesReader option \<Rightarrow> (MoreBytes option \<times> MoreBytesReader option) run" where
  "MoreBytesReader_ToStruct = toStructWith (MoreBytes_stmts) MoreBytes_zero"

definition MoreBytes_appends :: "MoreBytes \<Rightarrow> (Writer \<Rightarrow> Writer go) list" where
  "MoreBytes_appends s = [
     \<lambda>res. if Data s \<noteq> [] then repeatedWriter AppendBytes res wireMoreBytes_Data (Data s) else Ret res]"

definition MoreBytes_MarshalTo :: "Writer \<Rightarrow> MoreBytes option \<Rightarrow> Writer go" where
  "MoreBytes_MarshalTo = marshalToWith (\<lambda>s. MoreBytes_appends s)"

definition MoreBytes_sizes :: "MoreBytes \<Rightarrow> int list" where
  "MoreBytes_sizes s = [
     if Data s \<noteq> [] then repeatedSize (sizeDelimitedWithTag SizeBytes wireMoreBytes_Data) (Data s) else 0]"

definition MoreBytes_XXX_PbContentSize :: "MoreBytes option \<Rightarrow> int" where
  "MoreBytes_XXX_PbContentSize = contentSizeWith (\<lambda>s. MoreBytes_sizes s)"

definition MoreBytes_Marshal :: "MoreBytes option \<Rightarrow> byte list go" where
  "MoreBytes_Marshal = marshalWith MoreBytes_XXX_PbContentSize MoreBytes_MarshalTo"

definition MoreBytes_Copy :: "MoreBytes option \<Rightarrow> MoreBytes option" where
  "MoreBytes_Copy s =
     (case s of None \<Rightarrow> None | Some s \<Rightarrow> Some \<lparr>
        Data = Data s\<rparr>)"

section \<open>MoreBytes: the round trip\<close>

definition MoreBytes_tags :: "ProtoWireNumber list" where
  "MoreBytes_tags = [
     wireMoreBytes_Data]"

definition MoreBytes_groups :: "MoreBytes \<Rightarrow> wfield list list" where
  "MoreBytes_groups s = [
     bytes_fields wireMoreBytes_Data (Data s)]"

definition MoreBytes_content :: "MoreBytes \<Rightarrow> wfield list" where
  "MoreBytes_content s = concat (MoreBytes_groups s)"

text \<open>What a round trip keeps.\<close>

definition MoreBytes_norm :: "MoreBytes \<Rightarrow> MoreBytes" where
  "MoreBytes_norm s = s"

definition MoreBytes_ready :: "Reader \<Rightarrow> MoreBytes \<Rightarrow> (MoreBytesReader \<Rightarrow> bool) list" where
  "MoreBytes_ready p s = [
     \<lambda>m. cell_reads (readList ReadByteList []) plain p (Data s) (cellData m)]"

definition MoreBytes_stored :: "MoreBytes \<Rightarrow> (MoreBytes \<Rightarrow> MoreBytes) list" where
  "MoreBytes_stored s = [
     \<lambda>res. res\<lparr>Data := Data s\<rparr>]"

lemma MoreBytes_cases_distinct: "distinct (map fst (MoreBytesReader_cases wire offset))"
  by (rule ascending_distinct) (simp add: MoreBytesReader_cases_def wireMoreBytes)

lemma MoreBytes_stores:
  "stores_cell MoreBytesReader_save wireMoreBytes_Data addOffset cellData"
  unfolding MoreBytesReader_save_def [abs_def] by (rule stores_cell_switch; (rule MoreBytes_cases_distinct)?; unfold MoreBytesReader_cases_def; intro own_case.intros; simp)+

lemma MoreBytes_saved: "good_fields MoreBytesReader_save p (NewMoreBytesReader\<lparr>mbuf := Some p\<rparr>) MoreBytes_tags (MoreBytes_groups s) (MoreBytes_ready p s)"
  unfolding MoreBytes_tags_def MoreBytes_groups_def MoreBytes_ready_def
  by (intro good_fields.intros field_saved MoreBytes_stores) (simp_all add: NewMoreBytesReader_def newCell_def)

lemma MoreBytes_converted: "good_stmts mbuf p (MoreBytes_stmts) (MoreBytes_ready p s) (MoreBytes_stored s)"
  unfolding MoreBytes_stmts_def MoreBytes_ready_def MoreBytes_stored_def MoreBytes_getters append.simps
  by (intro good_stmts_field good_stmts.Nil) (simp_all cong: cell_reads_cong)

interpretation l_MoreBytes: lazy_message MoreBytes_tags MoreBytes_groups MoreBytes_norm
  "\<lambda>s. MoreBytes_sizes s" "\<lambda>s. MoreBytes_appends s"
  MoreBytesReader_save "\<lambda>p. NewMoreBytesReader\<lparr>mbuf := Some p\<rparr>" mbuf "MoreBytes_stmts" MoreBytes_zero MoreBytes_ready MoreBytes_stored
proof
  show "distinct MoreBytes_tags"
    using MoreBytes_cases_distinct by (simp only: MoreBytesReader_cases_def MoreBytes_tags_def list.map fst_conv)
  show "list_all valid_tag MoreBytes_tags"
    by (simp add: MoreBytes_tags_def wireMoreBytes valid_tag_def)
  show "list_all2 (\<lambda>t g. \<forall>f \<in> set g. fst f = t \<and> wf_val (snd f)) MoreBytes_tags (MoreBytes_groups s)" for s
    unfolding MoreBytes_tags_def MoreBytes_groups_def by (intro list.rel_intros field_tagged)
  show "list_all2 (\<lambda>e g. e = int (length (fields_bytes g))) (MoreBytes_sizes s) (MoreBytes_groups s)" for s
    unfolding MoreBytes_sizes_def MoreBytes_groups_def append.simps
    by (intro list.rel_intros field_sized)
  show "list_all2 (\<lambda>st g. writes st (fields_bytes g)) (MoreBytes_appends s) (MoreBytes_groups s)" for s
    unfolding MoreBytes_appends_def MoreBytes_groups_def append.simps
    by (intro list.rel_intros field_written)
  show "mbuf (MoreBytesReader_save t w off m) = mbuf m" for t w off m
    unfolding MoreBytesReader_save_def by (rule tag_switch_keeps) (simp add: MoreBytesReader_cases_def)
  show "fold (\<lambda>e. e) (MoreBytes_stored s) MoreBytes_zero = MoreBytes_norm s" for s
    unfolding MoreBytes_stored_def by (simp add: MoreBytes_zero_def MoreBytes_norm_def float_defaults)
qed (simp_all add: MoreBytes_saved MoreBytes_converted)

interpretation m_MoreBytes: message_codec MoreBytes_content MoreBytes_norm MoreBytes_XXX_PbContentSize MoreBytes_MarshalTo
  "MoreBytesReader_Unmarshal NewMoreBytesReader" MoreBytesReader_ToStruct
  using l_MoreBytes.message
  by (simp only: MoreBytes_content_def [abs_def] MoreBytes_XXX_PbContentSize_def MoreBytes_MarshalTo_def MoreBytesReader_Unmarshal_def [abs_def] MoreBytesReader_ToStruct_def)


section \<open>ManyOptionalString: the reader\<close>

definition wireManyOptionalString_Str1 :: ProtoWireNumber where "wireManyOptionalString_Str1 = 1"
definition wireManyOptionalString_Str2 :: ProtoWireNumber where "wireManyOptionalString_Str2 = 2"
definition wireManyOptionalString_Str3 :: ProtoWireNumber where "wireManyOptionalString_Str3 = 3"
definition wireManyOptionalString_Str4 :: ProtoWireNumber where "wireManyOptionalString_Str4 = 4"
definition wireManyOptionalString_Str5 :: ProtoWireNumber where "wireManyOptionalString_Str5 = 5"
definition wireManyOptionalString_Str6 :: ProtoWireNumber where "wireManyOptionalString_Str6 = 6"
definition wireManyOptionalString_Str7 :: ProtoWireNumber where "wireManyOptionalString_Str7 = 7"
definition wireManyOptionalString_Str8 :: ProtoWireNumber where "wireManyOptionalString_Str8 = 8"
definition wireManyOptionalString_Str9 :: ProtoWireNumber where "wireManyOptionalString_Str9 = 9"
definition wireManyOptionalString_Str10 :: ProtoWireNumber where "wireManyOptionalString_Str10 = 10"
definition wireManyOptionalString_Str11 :: ProtoWireNumber where "wireManyOptionalString_Str11 = 11"
definition wireManyOptionalString_Str12 :: ProtoWireNumber where "wireManyOptionalString_Str12 = 12"
definition wireManyOptionalString_Str13 :: ProtoWireNumber where "wireManyOptionalString_Str13 = 13"
definition wireManyOptionalString_Str14 :: ProtoWireNumber where "wireManyOptionalString_Str14 = 14"
definition wireManyOptionalString_Str15 :: ProtoWireNumber where "wireManyOptionalString_Str15 = 15"
definition wireManyOptionalString_Str16 :: ProtoWireNumber where "wireManyOptionalString_Str16 = 16"
definition wireManyOptionalString_Str17 :: ProtoWireNumber where "wireManyOptionalString_Str17 = 17"
definition wireManyOptionalString_Str18 :: ProtoWireNumber where "wireManyOptionalString_Str18 = 18"
definition wireManyOptionalString_Str19 :: ProtoWireNumber where "wireManyOptionalString_Str19 = 19"
definition wireManyOptionalString_Str20 :: ProtoWireNumber where "wireManyOptionalString_Str20 = 20"
definition wireManyOptionalString_Str21 :: ProtoWireNumber where "wireManyOptionalString_Str21 = 21"
definition wireManyOptionalString_Str22 :: ProtoWireNumber where "wireManyOptionalString_Str22 = 22"
definition wireManyOptionalString_Str23 :: ProtoWireNumber where "wireManyOptionalString_Str23 = 23"
definition wireManyOptionalString_Str24 :: ProtoWireNumber where "wireManyOptionalString_Str24 = 24"
definition wireManyOptionalString_Str25 :: ProtoWireNumber where "wireManyOptionalString_Str25 = 25"
definition wireManyOptionalString_Str26 :: ProtoWireNumber where "wireManyOptionalString_Str26 = 26"
definition wireManyOptionalString_Str27 :: ProtoWireNumber where "wireManyOptionalString_Str27 = 27"
definition wireManyOptionalString_Str28 :: ProtoWireNumber where "wireManyOptionalString_Str28 = 28"
definition wireManyOptionalString_Str29 :: ProtoWireNumber where "wireManyOptionalString_Str29 = 29"
definition wireManyOptionalString_Str30 :: ProtoWireNumber where "wireManyOptionalString_Str30 = 30"
definition wireManyOptionalString_Str31 :: ProtoWireNumber where "wireManyOptionalString_Str31 = 31"
definition wireManyOptionalString_Str32 :: ProtoWireNumber where "wireManyOptionalString_Str32 = 32"

lemmas wireManyOptionalString =
  wireManyOptionalString_Str1_def wireManyOptionalString_Str2_def
  wireManyOptionalString_Str3_def wireManyOptionalString_Str4_def
  wireManyOptionalString_Str5_def wireManyOptionalString_Str6_def
  wireManyOptionalString_Str7_def wireManyOptionalString_Str8_def
  wireManyOptionalString_Str9_def wireManyOptionalString_Str10_def
  wireManyOptionalString_Str11_def wireManyOptionalString_Str12_def
  wireManyOptionalString_Str13_def wireManyOptionalString_Str14_def
  wireManyOptionalString_Str15_def wireManyOptionalString_Str16_def
  wireManyOptionalString_Str17_def wireManyOptionalString_Str18_def
  wireManyOptionalString_Str19_def wireManyOptionalString_Str20_def
  wireManyOptionalString_Str21_def wireManyOptionalString_Str22_def
  wireManyOptionalString_Str23_def wireManyOptionalString_Str24_def
  wireManyOptionalString_Str25_def wireManyOptionalString_Str26_def
  wireManyOptionalString_Str27_def wireManyOptionalString_Str28_def
  wireManyOptionalString_Str29_def wireManyOptionalString_Str30_def
  wireManyOptionalString_Str31_def wireManyOptionalString_Str32_def

record ManyOptionalStringReader =
  mbuf :: "Reader option"
  cellStr1 :: "gostring one_cell"
  cellStr2 :: "gostring one_cell"
  cellStr3 :: "gostring one_cell"
  cellStr4 :: "gostring one_cell"
  cellStr5 :: "gostring one_cell"
  cellStr6 :: "gostring one_cell"
  cellStr7 :: "gostring one_cell"
  cellStr8 :: "gostring one_cell"
  cellStr9 :: "gostring one_cell"
  cellStr10 :: "gostring one_cell"
  cellStr11 :: "gostring one_cell"
  cellStr12 :: "gostring one_cell"
  cellStr13 :: "gostring one_cell"
  cellStr14 :: "gostring one_cell"
  cellStr15 :: "gostring one_cell"
  cellStr16 :: "gostring one_cell"
  cellStr17 :: "gostring one_cell"
  cellStr18 :: "gostring one_cell"
  cellStr19 :: "gostring one_cell"
  cellStr20 :: "gostring one_cell"
  cellStr21 :: "gostring one_cell"
  cellStr22 :: "gostring one_cell"
  cellStr23 :: "gostring one_cell"
  cellStr24 :: "gostring one_cell"
  cellStr25 :: "gostring one_cell"
  cellStr26 :: "gostring one_cell"
  cellStr27 :: "gostring one_cell"
  cellStr28 :: "gostring one_cell"
  cellStr29 :: "gostring one_cell"
  cellStr30 :: "gostring one_cell"
  cellStr31 :: "gostring one_cell"
  cellStr32 :: "gostring one_cell"

definition NewManyOptionalStringReader :: ManyOptionalStringReader where
  "NewManyOptionalStringReader = \<lparr>
     mbuf = None, cellStr1 = newCell [] 0, cellStr2 = newCell [] 0, cellStr3 = newCell [] 0,
     cellStr4 = newCell [] 0, cellStr5 = newCell [] 0, cellStr6 = newCell [] 0,
     cellStr7 = newCell [] 0, cellStr8 = newCell [] 0, cellStr9 = newCell [] 0,
     cellStr10 = newCell [] 0, cellStr11 = newCell [] 0, cellStr12 = newCell [] 0,
     cellStr13 = newCell [] 0, cellStr14 = newCell [] 0, cellStr15 = newCell [] 0,
     cellStr16 = newCell [] 0, cellStr17 = newCell [] 0, cellStr18 = newCell [] 0,
     cellStr19 = newCell [] 0, cellStr20 = newCell [] 0, cellStr21 = newCell [] 0,
     cellStr22 = newCell [] 0, cellStr23 = newCell [] 0, cellStr24 = newCell [] 0,
     cellStr25 = newCell [] 0, cellStr26 = newCell [] 0, cellStr27 = newCell [] 0,
     cellStr28 = newCell [] 0, cellStr29 = newCell [] 0, cellStr30 = newCell [] 0,
     cellStr31 = newCell [] 0, cellStr32 = newCell [] 0\<rparr>"

definition ManyOptionalStringReader_readStr1 :: "ManyOptionalStringReader \<Rightarrow> (gostring \<times> ManyOptionalStringReader) run" where
  "ManyOptionalStringReader_readStr1 = readCell cellStr1 cellStr1_update mbuf (readOne ReadString [])"

definition ManyOptionalStringReader_GetStr1 :: "ManyOptionalStringReader option \<Rightarrow> (gostring \<times> ManyOptionalStringReader option) run" where
  "ManyOptionalStringReader_GetStr1 = getter ManyOptionalStringReader_readStr1 []"

definition ManyOptionalStringReader_readStr2 :: "ManyOptionalStringReader \<Rightarrow> (gostring \<times> ManyOptionalStringReader) run" where
  "ManyOptionalStringReader_readStr2 = readCell cellStr2 cellStr2_update mbuf (readOne ReadString [])"

definition ManyOptionalStringReader_GetStr2 :: "ManyOptionalStringReader option \<Rightarrow> (gostring \<times> ManyOptionalStringReader option) run" where
  "ManyOptionalStringReader_GetStr2 = getter ManyOptionalStringReader_readStr2 []"

definition ManyOptionalStringReader_readStr3 :: "ManyOptionalStringReader \<Rightarrow> (gostring \<times> ManyOptionalStringReader) run" where
  "ManyOptionalStringReader_readStr3 = readCell cellStr3 cellStr3_update mbuf (readOne ReadString [])"

definition ManyOptionalStringReader_GetStr3 :: "ManyOptionalStringReader option \<Rightarrow> (gostring \<times> ManyOptionalStringReader option) run" where
  "ManyOptionalStringReader_GetStr3 = getter ManyOptionalStringReader_readStr3 []"

definition ManyOptionalStringReader_readStr4 :: "ManyOptionalStringReader \<Rightarrow> (gostring \<times> ManyOptionalStringReader) run" where
  "ManyOptionalStringReader_readStr4 = readCell cellStr4 cellStr4_update mbuf (readOne ReadString [])"

definition ManyOptionalStringReader_GetStr4 :: "ManyOptionalStringReader option \<Rightarrow> (gostring \<times> ManyOptionalStringReader option) run" where
  "ManyOptionalStringReader_GetStr4 = getter ManyOptionalStringReader_readStr4 []"

definition ManyOptionalStringReader_readStr5 :: "ManyOptionalStringReader \<Rightarrow> (gostring \<times> ManyOptionalStringReader) run" where
  "ManyOptionalStringReader_readStr5 = readCell cellStr5 cellStr5_update mbuf (readOne ReadString [])"

definition ManyOptionalStringReader_GetStr5 :: "ManyOptionalStringReader option \<Rightarrow> (gostring \<times> ManyOptionalStringReader option) run" where
  "ManyOptionalStringReader_GetStr5 = getter ManyOptionalStringReader_readStr5 []"

definition ManyOptionalStringReader_readStr6 :: "ManyOptionalStringReader \<Rightarrow> (gostring \<times> ManyOptionalStringReader) run" where
  "ManyOptionalStringReader_readStr6 = readCell cellStr6 cellStr6_update mbuf (readOne ReadString [])"

definition ManyOptionalStringReader_GetStr6 :: "ManyOptionalStringReader option \<Rightarrow> (gostring \<times> ManyOptionalStringReader option) run" where
  "ManyOptionalStringReader_GetStr6 = getter ManyOptionalStringReader_readStr6 []"

definition ManyOptionalStringReader_readStr7 :: "ManyOptionalStringReader \<Rightarrow> (gostring \<times> ManyOptionalStringReader) run" where
  "ManyOptionalStringReader_readStr7 = readCell cellStr7 cellStr7_update mbuf (readOne ReadString [])"

definition ManyOptionalStringReader_GetStr7 :: "ManyOptionalStringReader option \<Rightarrow> (gostring \<times> ManyOptionalStringReader option) run" where
  "ManyOptionalStringReader_GetStr7 = getter ManyOptionalStringReader_readStr7 []"

definition ManyOptionalStringReader_readStr8 :: "ManyOptionalStringReader \<Rightarrow> (gostring \<times> ManyOptionalStringReader) run" where
  "ManyOptionalStringReader_readStr8 = readCell cellStr8 cellStr8_update mbuf (readOne ReadString [])"

definition ManyOptionalStringReader_GetStr8 :: "ManyOptionalStringReader option \<Rightarrow> (gostring \<times> ManyOptionalStringReader option) run" where
  "ManyOptionalStringReader_GetStr8 = getter ManyOptionalStringReader_readStr8 []"

definition ManyOptionalStringReader_readStr9 :: "ManyOptionalStringReader \<Rightarrow> (gostring \<times> ManyOptionalStringReader) run" where
  "ManyOptionalStringReader_readStr9 = readCell cellStr9 cellStr9_update mbuf (readOne ReadString [])"

definition ManyOptionalStringReader_GetStr9 :: "ManyOptionalStringReader option \<Rightarrow> (gostring \<times> ManyOptionalStringReader option) run" where
  "ManyOptionalStringReader_GetStr9 = getter ManyOptionalStringReader_readStr9 []"

definition ManyOptionalStringReader_readStr10 :: "ManyOptionalStringReader \<Rightarrow> (gostring \<times> ManyOptionalStringReader) run" where
  "ManyOptionalStringReader_readStr10 = readCell cellStr10 cellStr10_update mbuf (readOne ReadString [])"

definition ManyOptionalStringReader_GetStr10 :: "ManyOptionalStringReader option \<Rightarrow> (gostring \<times> ManyOptionalStringReader option) run" where
  "ManyOptionalStringReader_GetStr10 = getter ManyOptionalStringReader_readStr10 []"

definition ManyOptionalStringReader_readStr11 :: "ManyOptionalStringReader \<Rightarrow> (gostring \<times> ManyOptionalStringReader) run" where
  "ManyOptionalStringReader_readStr11 = readCell cellStr11 cellStr11_update mbuf (readOne ReadString [])"

definition ManyOptionalStringReader_GetStr11 :: "ManyOptionalStringReader option \<Rightarrow> (gostring \<times> ManyOptionalStringReader option) run" where
  "ManyOptionalStringReader_GetStr11 = getter ManyOptionalStringReader_readStr11 []"

definition ManyOptionalStringReader_readStr12 :: "ManyOptionalStringReader \<Rightarrow> (gostring \<times> ManyOptionalStringReader) run" where
  "ManyOptionalStringReader_readStr12 = readCell cellStr12 cellStr12_update mbuf (readOne ReadString [])"

definition ManyOptionalStringReader_GetStr12 :: "ManyOptionalStringReader option \<Rightarrow> (gostring \<times> ManyOptionalStringReader option) run" where
  "ManyOptionalStringReader_GetStr12 = getter ManyOptionalStringReader_readStr12 []"

definition ManyOptionalStringReader_readStr13 :: "ManyOptionalStringReader \<Rightarrow> (gostring \<times> ManyOptionalStringReader) run" where
  "ManyOptionalStringReader_readStr13 = readCell cellStr13 cellStr13_update mbuf (readOne ReadString [])"

definition ManyOptionalStringReader_GetStr13 :: "ManyOptionalStringReader option \<Rightarrow> (gostring \<times> ManyOptionalStringReader option) run" where
  "ManyOptionalStringReader_GetStr13 = getter ManyOptionalStringReader_readStr13 []"

definition ManyOptionalStringReader_readStr14 :: "ManyOptionalStringReader \<Rightarrow> (gostring \<times> ManyOptionalStringReader) run" where
  "ManyOptionalStringReader_readStr14 = readCell cellStr14 cellStr14_update mbuf (readOne ReadString [])"

definition ManyOptionalStringReader_GetStr14 :: "ManyOptionalStringReader option \<Rightarrow> (gostring \<times> ManyOptionalStringReader option) run" where
  "ManyOptionalStringReader_GetStr14 = getter ManyOptionalStringReader_readStr14 []"

definition ManyOptionalStringReader_readStr15 :: "ManyOptionalStringReader \<Rightarrow> (gostring \<times> ManyOptionalStringReader) run" where
  "ManyOptionalStringReader_readStr15 = readCell cellStr15 cellStr15_update mbuf (readOne ReadString [])"

definition ManyOptionalStringReader_GetStr15 :: "ManyOptionalStringReader option \<Rightarrow> (gostring \<times> ManyOptionalStringReader option) run" where
  "ManyOptionalStringReader_GetStr15 = getter ManyOptionalStringReader_readStr15 []"

definition ManyOptionalStringReader_readStr16 :: "ManyOptionalStringReader \<Rightarrow> (gostring \<times> ManyOptionalStringReader) run" where
  "ManyOptionalStringReader_readStr16 = readCell cellStr16 cellStr16_update mbuf (readOne ReadString [])"

definition ManyOptionalStringReader_GetStr16 :: "ManyOptionalStringReader option \<Rightarrow> (gostring \<times> ManyOptionalStringReader option) run" where
  "ManyOptionalStringReader_GetStr16 = getter ManyOptionalStringReader_readStr16 []"

definition ManyOptionalStringReader_readStr17 :: "ManyOptionalStringReader \<Rightarrow> (gostring \<times> ManyOptionalStringReader) run" where
  "ManyOptionalStringReader_readStr17 = readCell cellStr17 cellStr17_update mbuf (readOne ReadString [])"

definition ManyOptionalStringReader_GetStr17 :: "ManyOptionalStringReader option \<Rightarrow> (gostring \<times> ManyOptionalStringReader option) run" where
  "ManyOptionalStringReader_GetStr17 = getter ManyOptionalStringReader_readStr17 []"

definition ManyOptionalStringReader_readStr18 :: "ManyOptionalStringReader \<Rightarrow> (gostring \<times> ManyOptionalStringReader) run" where
  "ManyOptionalStringReader_readStr18 = readCell cellStr18 cellStr18_update mbuf (readOne ReadString [])"

definition ManyOptionalStringReader_GetStr18 :: "ManyOptionalStringReader option \<Rightarrow> (gostring \<times> ManyOptionalStringReader option) run" where
  "ManyOptionalStringReader_GetStr18 = getter ManyOptionalStringReader_readStr18 []"

definition ManyOptionalStringReader_readStr19 :: "ManyOptionalStringReader \<Rightarrow> (gostring \<times> ManyOptionalStringReader) run" where
  "ManyOptionalStringReader_readStr19 = readCell cellStr19 cellStr19_update mbuf (readOne ReadString [])"

definition ManyOptionalStringReader_GetStr19 :: "ManyOptionalStringReader option \<Rightarrow> (gostring \<times> ManyOptionalStringReader option) run" where
  "ManyOptionalStringReader_GetStr19 = getter ManyOptionalStringReader_readStr19 []"

definition ManyOptionalStringReader_readStr20 :: "ManyOptionalStringReader \<Rightarrow> (gostring \<times> ManyOptionalStringReader) run" where
  "ManyOptionalStringReader_readStr20 = readCell cellStr20 cellStr20_update mbuf (readOne ReadString [])"

definition ManyOptionalStringReader_GetStr20 :: "ManyOptionalStringReader option \<Rightarrow> (gostring \<times> ManyOptionalStringReader option) run" where
  "ManyOptionalStringReader_GetStr20 = getter ManyOptionalStringReader_readStr20 []"

definition ManyOptionalStringReader_readStr21 :: "ManyOptionalStringReader \<Rightarrow> (gostring \<times> ManyOptionalStringReader) run" where
  "ManyOptionalStringReader_readStr21 = readCell cellStr21 cellStr21_update mbuf (readOne ReadString [])"

definition ManyOptionalStringReader_GetStr21 :: "ManyOptionalStringReader option \<Rightarrow> (gostring \<times> ManyOptionalStringReader option) run" where
  "ManyOptionalStringReader_GetStr21 = getter ManyOptionalStringReader_readStr21 []"

definition ManyOptionalStringReader_readStr22 :: "ManyOptionalStringReader \<Rightarrow> (gostring \<times> ManyOptionalStringReader) run" where
  "ManyOptionalStringReader_readStr22 = readCell cellStr22 cellStr22_update mbuf (readOne ReadString [])"

definition ManyOptionalStringReader_GetStr22 :: "ManyOptionalStringReader option \<Rightarrow> (gostring \<times> ManyOptionalStringReader option) run" where
  "ManyOptionalStringReader_GetStr22 = getter ManyOptionalStringReader_readStr22 []"

definition ManyOptionalStringReader_readStr23 :: "ManyOptionalStringReader \<Rightarrow> (gostring \<times> ManyOptionalStringReader) run" where
  "ManyOptionalStringReader_readStr23 = readCell cellStr23 cellStr23_update mbuf (readOne ReadString [])"

definition ManyOptionalStringReader_GetStr23 :: "ManyOptionalStringReader option \<Rightarrow> (gostring \<times> ManyOptionalStringReader option) run" where
  "ManyOptionalStringReader_GetStr23 = getter ManyOptionalStringReader_readStr23 []"

definition ManyOptionalStringReader_readStr24 :: "ManyOptionalStringReader \<Rightarrow> (gostring \<times> ManyOptionalStringReader) run" where
  "ManyOptionalStringReader_readStr24 = readCell cellStr24 cellStr24_update mbuf (readOne ReadString [])"

definition ManyOptionalStringReader_GetStr24 :: "ManyOptionalStringReader option \<Rightarrow> (gostring \<times> ManyOptionalStringReader option) run" where
  "ManyOptionalStringReader_GetStr24 = getter ManyOptionalStringReader_readStr24 []"

definition ManyOptionalStringReader_readStr25 :: "ManyOptionalStringReader \<Rightarrow> (gostring \<times> ManyOptionalStringReader) run" where
  "ManyOptionalStringReader_readStr25 = readCell cellStr25 cellStr25_update mbuf (readOne ReadString [])"

definition ManyOptionalStringReader_GetStr25 :: "ManyOptionalStringReader option \<Rightarrow> (gostring \<times> ManyOptionalStringReader option) run" where
  "ManyOptionalStringReader_GetStr25 = getter ManyOptionalStringReader_readStr25 []"

definition ManyOptionalStringReader_readStr26 :: "ManyOptionalStringReader \<Rightarrow> (gostring \<times> ManyOptionalStringReader) run" where
  "ManyOptionalStringReader_readStr26 = readCell cellStr26 cellStr26_update mbuf (readOne ReadString [])"

definition ManyOptionalStringReader_GetStr26 :: "ManyOptionalStringReader option \<Rightarrow> (gostring \<times> ManyOptionalStringReader option) run" where
  "ManyOptionalStringReader_GetStr26 = getter ManyOptionalStringReader_readStr26 []"

definition ManyOptionalStringReader_readStr27 :: "ManyOptionalStringReader \<Rightarrow> (gostring \<times> ManyOptionalStringReader) run" where
  "ManyOptionalStringReader_readStr27 = readCell cellStr27 cellStr27_update mbuf (readOne ReadString [])"

definition ManyOptionalStringReader_GetStr27 :: "ManyOptionalStringReader option \<Rightarrow> (gostring \<times> ManyOptionalStringReader option) run" where
  "ManyOptionalStringReader_GetStr27 = getter ManyOptionalStringReader_readStr27 []"

definition ManyOptionalStringReader_readStr28 :: "ManyOptionalStringReader \<Rightarrow> (gostring \<times> ManyOptionalStringReader) run" where
  "ManyOptionalStringReader_readStr28 = readCell cellStr28 cellStr28_update mbuf (readOne ReadString [])"

definition ManyOptionalStringReader_GetStr28 :: "ManyOptionalStringReader option \<Rightarrow> (gostring \<times> ManyOptionalStringReader option) run" where
  "ManyOptionalStringReader_GetStr28 = getter ManyOptionalStringReader_readStr28 []"

definition ManyOptionalStringReader_readStr29 :: "ManyOptionalStringReader \<Rightarrow> (gostring \<times> ManyOptionalStringReader) run" where
  "ManyOptionalStringReader_readStr29 = readCell cellStr29 cellStr29_update mbuf (readOne ReadString [])"

definition ManyOptionalStringReader_GetStr29 :: "ManyOptionalStringReader option \<Rightarrow> (gostring \<times> ManyOptionalStringReader option) run" where
  "ManyOptionalStringReader_GetStr29 = getter ManyOptionalStringReader_readStr29 []"

definition ManyOptionalStringReader_readStr30 :: "ManyOptionalStringReader \<Rightarrow> (gostring \<times> ManyOptionalStringReader) run" where
  "ManyOptionalStringReader_readStr30 = readCell cellStr30 cellStr30_update mbuf (readOne ReadString [])"

definition ManyOptionalStringReader_GetStr30 :: "ManyOptionalStringReader option \<Rightarrow> (gostring \<times> ManyOptionalStringReader option) run" where
  "ManyOptionalStringReader_GetStr30 = getter ManyOptionalStringReader_readStr30 []"

definition ManyOptionalStringReader_readStr31 :: "ManyOptionalStringReader \<Rightarrow> (gostring \<times> ManyOptionalStringReader) run" where
  "ManyOptionalStringReader_readStr31 = readCell cellStr31 cellStr31_update mbuf (readOne ReadString [])"

definition ManyOptionalStringReader_GetStr31 :: "ManyOptionalStringReader option \<Rightarrow> (gostring \<times> ManyOptionalStringReader option) run" where
  "ManyOptionalStringReader_GetStr31 = getter ManyOptionalStringReader_readStr31 []"

definition ManyOptionalStringReader_readStr32 :: "ManyOptionalStringReader \<Rightarrow> (gostring \<times> ManyOptionalStringReader) run" where
  "ManyOptionalStringReader_readStr32 = readCell cellStr32 cellStr32_update mbuf (readOne ReadString [])"

definition ManyOptionalStringReader_GetStr32 :: "ManyOptionalStringReader option \<Rightarrow> (gostring \<times> ManyOptionalStringReader option) run" where
  "ManyOptionalStringReader_GetStr32 = getter ManyOptionalStringReader_readStr32 []"

lemmas ManyOptionalString_getters =
  ManyOptionalStringReader_readStr1_def ManyOptionalStringReader_GetStr1_def
  ManyOptionalStringReader_readStr2_def ManyOptionalStringReader_GetStr2_def
  ManyOptionalStringReader_readStr3_def ManyOptionalStringReader_GetStr3_def
  ManyOptionalStringReader_readStr4_def ManyOptionalStringReader_GetStr4_def
  ManyOptionalStringReader_readStr5_def ManyOptionalStringReader_GetStr5_def
  ManyOptionalStringReader_readStr6_def ManyOptionalStringReader_GetStr6_def
  ManyOptionalStringReader_readStr7_def ManyOptionalStringReader_GetStr7_def
  ManyOptionalStringReader_readStr8_def ManyOptionalStringReader_GetStr8_def
  ManyOptionalStringReader_readStr9_def ManyOptionalStringReader_GetStr9_def
  ManyOptionalStringReader_readStr10_def ManyOptionalStringReader_GetStr10_def
  ManyOptionalStringReader_readStr11_def ManyOptionalStringReader_GetStr11_def
  ManyOptionalStringReader_readStr12_def ManyOptionalStringReader_GetStr12_def
  ManyOptionalStringReader_readStr13_def ManyOptionalStringReader_GetStr13_def
  ManyOptionalStringReader_readStr14_def ManyOptionalStringReader_GetStr14_def
  ManyOptionalStringReader_readStr15_def ManyOptionalStringReader_GetStr15_def
  ManyOptionalStringReader_readStr16_def ManyOptionalStringReader_GetStr16_def
  ManyOptionalStringReader_readStr17_def ManyOptionalStringReader_GetStr17_def
  ManyOptionalStringReader_readStr18_def ManyOptionalStringReader_GetStr18_def
  ManyOptionalStringReader_readStr19_def ManyOptionalStringReader_GetStr19_def
  ManyOptionalStringReader_readStr20_def ManyOptionalStringReader_GetStr20_def
  ManyOptionalStringReader_readStr21_def ManyOptionalStringReader_GetStr21_def
  ManyOptionalStringReader_readStr22_def ManyOptionalStringReader_GetStr22_def
  ManyOptionalStringReader_readStr23_def ManyOptionalStringReader_GetStr23_def
  ManyOptionalStringReader_readStr24_def ManyOptionalStringReader_GetStr24_def
  ManyOptionalStringReader_readStr25_def ManyOptionalStringReader_GetStr25_def
  ManyOptionalStringReader_readStr26_def ManyOptionalStringReader_GetStr26_def
  ManyOptionalStringReader_readStr27_def ManyOptionalStringReader_GetStr27_def
  ManyOptionalStringReader_readStr28_def ManyOptionalStringReader_GetStr28_def
  ManyOptionalStringReader_readStr29_def ManyOptionalStringReader_GetStr29_def
  ManyOptionalStringReader_readStr30_def ManyOptionalStringReader_GetStr30_def
  ManyOptionalStringReader_readStr31_def ManyOptionalStringReader_GetStr31_def
  ManyOptionalStringReader_readStr32_def ManyOptionalStringReader_GetStr32_def

definition ManyOptionalStringReader_cases :: "ProtoWireType \<Rightarrow> int \<Rightarrow> (ProtoWireNumber \<times> (ManyOptionalStringReader \<Rightarrow> ManyOptionalStringReader)) list" where
  "ManyOptionalStringReader_cases wire offset = [
     (wireManyOptionalString_Str1, \<lambda>m. m\<lparr>cellStr1 := onOffset (setOffset wire offset) (cellStr1 m)\<rparr>),
     (wireManyOptionalString_Str2, \<lambda>m. m\<lparr>cellStr2 := onOffset (setOffset wire offset) (cellStr2 m)\<rparr>),
     (wireManyOptionalString_Str3, \<lambda>m. m\<lparr>cellStr3 := onOffset (setOffset wire offset) (cellStr3 m)\<rparr>),
     (wireManyOptionalString_Str4, \<lambda>m. m\<lparr>cellStr4 := onOffset (setOffset wire offset) (cellStr4 m)\<rparr>),
     (wireManyOptionalString_Str5, \<lambda>m. m\<lparr>cellStr5 := onOffset (setOffset wire offset) (cellStr5 m)\<rparr>),
     (wireManyOptionalString_Str6, \<lambda>m. m\<lparr>cellStr6 := onOffset (setOffset wire offset) (cellStr6 m)\<rparr>),
     (wireManyOptionalString_Str7, \<lambda>m. m\<lparr>cellStr7 := onOffset (setOffset wire offset) (cellStr7 m)\<rparr>),
     (wireManyOptionalString_Str8, \<lambda>m. m\<lparr>cellStr8 := onOffset (setOffset wire offset) (cellStr8 m)\<rparr>),
     (wireManyOptionalString_Str9, \<lambda>m. m\<lparr>cellStr9 := onOffset (setOffset wire offset) (cellStr9 m)\<rparr>),
     (wireManyOptionalString_Str10, \<lambda>m. m\<lparr>cellStr10 := onOffset (setOffset wire offset) (cellStr10 m)\<rparr>),
     (wireManyOptionalString_Str11, \<lambda>m. m\<lparr>cellStr11 := onOffset (setOffset wire offset) (cellStr11 m)\<rparr>),
     (wireManyOptionalString_Str12, \<lambda>m. m\<lparr>cellStr12 := onOffset (setOffset wire offset) (cellStr12 m)\<rparr>),
     (wireManyOptionalString_Str13, \<lambda>m. m\<lparr>cellStr13 := onOffset (setOffset wire offset) (cellStr13 m)\<rparr>),
     (wireManyOptionalString_Str14, \<lambda>m. m\<lparr>cellStr14 := onOffset (setOffset wire offset) (cellStr14 m)\<rparr>),
     (wireManyOptionalString_Str15, \<lambda>m. m\<lparr>cellStr15 := onOffset (setOffset wire offset) (cellStr15 m)\<rparr>),
     (wireManyOptionalString_Str16, \<lambda>m. m\<lparr>cellStr16 := onOffset (setOffset wire offset) (cellStr16 m)\<rparr>),
     (wireManyOptionalString_Str17, \<lambda>m. m\<lparr>cellStr17 := onOffset (setOffset wire offset) (cellStr17 m)\<rparr>),
     (wireManyOptionalString_Str18, \<lambda>m. m\<lparr>cellStr18 := onOffset (setOffset wire offset) (cellStr18 m)\<rparr>),
     (wireManyOptionalString_Str19, \<lambda>m. m\<lparr>cellStr19 := onOffset (setOffset wire offset) (cellStr19 m)\<rparr>),
     (wireManyOptionalString_Str20, \<lambda>m. m\<lparr>cellStr20 := onOffset (setOffset wire offset) (cellStr20 m)\<rparr>),
     (wireManyOptionalString_Str21, \<lambda>m. m\<lparr>cellStr21 := onOffset (setOffset wire offset) (cellStr21 m)\<rparr>),
     (wireManyOptionalString_Str22, \<lambda>m. m\<lparr>cellStr22 := onOffset (setOffset wire offset) (cellStr22 m)\<rparr>),
     (wireManyOptionalString_Str23, \<lambda>m. m\<lparr>cellStr23 := onOffset (setOffset wire offset) (cellStr23 m)\<rparr>),
     (wireManyOptionalString_Str24, \<lambda>m. m\<lparr>cellStr24 := onOffset (setOffset wire offset) (cellStr24 m)\<rparr>),
     (wireManyOptionalString_Str25, \<lambda>m. m\<lparr>cellStr25 := onOffset (setOffset wire offset) (cellStr25 m)\<rparr>),
     (wireManyOptionalString_Str26, \<lambda>m. m\<lparr>cellStr26 := onOffset (setOffset wire offset) (cellStr26 m)\<rparr>),
     (wireManyOptionalString_Str27, \<lambda>m. m\<lparr>cellStr27 := onOffset (setOffset wire offset) (cellStr27 m)\<rparr>),
     (wireManyOptionalString_Str28, \<lambda>m. m\<lparr>cellStr28 := onOffset (setOffset wire offset) (cellStr28 m)\<rparr>),
     (wireManyOptionalString_Str29, \<lambda>m. m\<lparr>cellStr29 := onOffset (setOffset wire offset) (cellStr29 m)\<rparr>),
     (wireManyOptionalString_Str30, \<lambda>m. m\<lparr>cellStr30 := onOffset (setOffset wire offset) (cellStr30 m)\<rparr>),
     (wireManyOptionalString_Str31, \<lambda>m. m\<lparr>cellStr31 := onOffset (setOffset wire offset) (cellStr31 m)\<rparr>),
     (wireManyOptionalString_Str32, \<lambda>m. m\<lparr>cellStr32 := onOffset (setOffset wire offset) (cellStr32 m)\<rparr>)]"

definition ManyOptionalStringReader_save :: "ProtoWireNumber \<Rightarrow> ProtoWireType \<Rightarrow> int \<Rightarrow> ManyOptionalStringReader \<Rightarrow> ManyOptionalStringReader" where
  "ManyOptionalStringReader_save tag wire offset = tag_switch (ManyOptionalStringReader_cases wire offset) tag"

definition ManyOptionalStringReader_Unmarshal :: "ManyOptionalStringReader \<Rightarrow> gslice \<Rightarrow> (ManyOptionalStringReader \<times> string option) run" where
  "ManyOptionalStringReader_Unmarshal m data =
     unmarshalLoop ManyOptionalStringReader_save (NewReader data) 0 (m\<lparr>mbuf := Some (NewReader data)\<rparr>)"

definition ManyOptionalStringReader_SourceBytes :: "ManyOptionalStringReader option \<Rightarrow> gslice" where
  "ManyOptionalStringReader_SourceBytes s = (case s of None \<Rightarrow> nil_slice | Some r \<Rightarrow> Bytes (mbuf r))"

section \<open>ManyOptionalString: the struct\<close>

record ManyOptionalString =
  Str1 :: gostring
  Str2 :: gostring
  Str3 :: gostring
  Str4 :: gostring
  Str5 :: gostring
  Str6 :: gostring
  Str7 :: gostring
  Str8 :: gostring
  Str9 :: gostring
  Str10 :: gostring
  Str11 :: gostring
  Str12 :: gostring
  Str13 :: gostring
  Str14 :: gostring
  Str15 :: gostring
  Str16 :: gostring
  Str17 :: gostring
  Str18 :: gostring
  Str19 :: gostring
  Str20 :: gostring
  Str21 :: gostring
  Str22 :: gostring
  Str23 :: gostring
  Str24 :: gostring
  Str25 :: gostring
  Str26 :: gostring
  Str27 :: gostring
  Str28 :: gostring
  Str29 :: gostring
  Str30 :: gostring
  Str31 :: gostring
  Str32 :: gostring

definition ManyOptionalString_zero :: ManyOptionalString where
  "ManyOptionalString_zero = \<lparr>
     Str1 = [], Str2 = [], Str3 = [], Str4 = [], Str5 = [], Str6 = [], Str7 = [], Str8 = [],
     Str9 = [], Str10 = [], Str11 = [], Str12 = [], Str13 = [], Str14 = [], Str15 = [],
     Str16 = [], Str17 = [], Str18 = [], Str19 = [], Str20 = [], Str21 = [], Str22 = [],
     Str23 = [], Str24 = [], Str25 = [], Str26 = [], Str27 = [], Str28 = [], Str29 = [],
     Str30 = [], Str31 = [], Str32 = []\<rparr>"

definition ManyOptionalString_stmts :: "(ManyOptionalString \<times> ManyOptionalStringReader option \<Rightarrow> (ManyOptionalString \<times> ManyOptionalStringReader option) run) list" where
  "ManyOptionalString_stmts = [
     assign ManyOptionalStringReader_GetStr1 (\<lambda>v res. res\<lparr>Str1 := v\<rparr>),
     assign ManyOptionalStringReader_GetStr2 (\<lambda>v res. res\<lparr>Str2 := v\<rparr>),
     assign ManyOptionalStringReader_GetStr3 (\<lambda>v res. res\<lparr>Str3 := v\<rparr>),
     assign ManyOptionalStringReader_GetStr4 (\<lambda>v res. res\<lparr>Str4 := v\<rparr>),
     assign ManyOptionalStringReader_GetStr5 (\<lambda>v res. res\<lparr>Str5 := v\<rparr>),
     assign ManyOptionalStringReader_GetStr6 (\<lambda>v res. res\<lparr>Str6 := v\<rparr>),
     assign ManyOptionalStringReader_GetStr7 (\<lambda>v res. res\<lparr>Str7 := v\<rparr>),
     assign ManyOptionalStringReader_GetStr8 (\<lambda>v res. res\<lparr>Str8 := v\<rparr>),
     assign ManyOptionalStringReader_GetStr9 (\<lambda>v res. res\<lparr>Str9 := v\<rparr>),
     assign ManyOptionalStringReader_GetStr10 (\<lambda>v res. res\<lparr>Str10 := v\<rparr>),
     assign ManyOptionalStringReader_GetStr11 (\<lambda>v res. res\<lparr>Str11 := v\<rparr>),
     assign ManyOptionalStringReader_GetStr12 (\<lambda>v res. res\<lparr>Str12 := v\<rparr>),
     assign ManyOptionalStringReader_GetStr13 (\<lambda>v res. res\<lparr>Str13 := v\<rparr>),
     assign ManyOptionalStringReader_GetStr14 (\<lambda>v res. res\<lparr>Str14 := v\<rparr>),
     assign ManyOptionalStringReader_GetStr15 (\<lambda>v res. res\<lparr>Str15 := v\<rparr>),
     assign ManyOptionalStringReader_GetStr16 (\<lambda>v res. res\<lparr>Str16 := v\<rparr>),
     assign ManyOptionalStringReader_GetStr17 (\<lambda>v res. res\<lparr>Str17 := v\<rparr>),
     assign ManyOptionalStringReader_GetStr18 (\<lambda>v res. res\<lparr>Str18 := v\<rparr>),
     assign ManyOptionalStringReader_GetStr19 (\<lambda>v res. res\<lparr>Str19 := v\<rparr>),
     assign ManyOptionalStringReader_GetStr20 (\<lambda>v res. res\<lparr>Str20 := v\<rparr>),
     assign ManyOptionalStringReader_GetStr21 (\<lambda>v res. res\<lparr>Str21 := v\<rparr>),
     assign ManyOptionalStringReader_GetStr22 (\<lambda>v res. res\<lparr>Str22 := v\<rparr>),
     assign ManyOptionalStringReader_GetStr23 (\<lambda>v res. res\<lparr>Str23 := v\<rparr>),
     assign ManyOptionalStringReader_GetStr24 (\<lambda>v res. res\<lparr>Str24 := v\<rparr>),
     assign ManyOptionalStringReader_GetStr25 (\<lambda>v res. res\<lparr>Str25 := v\<rparr>),
     assign ManyOptionalStringReader_GetStr26 (\<lambda>v res. res\<lparr>Str26 := v\<rparr>),
     assign ManyOptionalStringReader_GetStr27 (\<lambda>v res. res\<lparr>Str27 := v\<rparr>),
     assign ManyOptionalStringReader_GetStr28 (\<lambda>v res. res\<lparr>Str28 := v\<rparr>),
     assign ManyOptionalStringReader_GetStr29 (\<lambda>v res. res\<lparr>Str29 := v\<rparr>),
     assign ManyOptionalStringReader_GetStr30 (\<lambda>v res. res\<lparr>Str30 := v\<rparr>),
     assign ManyOptionalStringReader_GetStr31 (\<lambda>v res. res\<lparr>Str31 := v\<rparr>),
     assign ManyOptionalStringReader_GetStr32 (\<lambda>v res. res\<lparr>Str32 := v\<rparr>)]"

definition ManyOptionalStringReader_ToStruct :: "ManyOptionalStringReader option \<Rightarrow> (ManyOptionalString option \<times> ManyOptionalStringReader option) run" where
  "ManyOptionalStringReader_ToStruct = toStructWith (ManyOptionalString_stmts) ManyOptionalString_zero"

definition ManyOptionalString_appends :: "ManyOptionalString \<Rightarrow> (Writer \<Rightarrow> Writer go) list" where
  "ManyOptionalString_appends s = [
     \<lambda>res. if Str1 s \<noteq> [] then AppendString res wireManyOptionalString_Str1 (Str1 s) else Ret res,
     \<lambda>res. if Str2 s \<noteq> [] then AppendString res wireManyOptionalString_Str2 (Str2 s) else Ret res,
     \<lambda>res. if Str3 s \<noteq> [] then AppendString res wireManyOptionalString_Str3 (Str3 s) else Ret res,
     \<lambda>res. if Str4 s \<noteq> [] then AppendString res wireManyOptionalString_Str4 (Str4 s) else Ret res,
     \<lambda>res. if Str5 s \<noteq> [] then AppendString res wireManyOptionalString_Str5 (Str5 s) else Ret res,
     \<lambda>res. if Str6 s \<noteq> [] then AppendString res wireManyOptionalString_Str6 (Str6 s) else Ret res,
     \<lambda>res. if Str7 s \<noteq> [] then AppendString res wireManyOptionalString_Str7 (Str7 s) else Ret res,
     \<lambda>res. if Str8 s \<noteq> [] then AppendString res wireManyOptionalString_Str8 (Str8 s) else Ret res,
     \<lambda>res. if Str9 s \<noteq> [] then AppendString res wireManyOptionalString_Str9 (Str9 s) else Ret res,
     \<lambda>res. if Str10 s \<noteq> [] then AppendString res wireManyOptionalString_Str10 (Str10 s) else Ret res,
     \<lambda>res. if Str11 s \<noteq> [] then AppendString res wireManyOptionalString_Str11 (Str11 s) else Ret res,
     \<lambda>res. if Str12 s \<noteq> [] then AppendString res wireManyOptionalString_Str12 (Str12 s) else Ret res,
     \<lambda>res. if Str13 s \<noteq> [] then AppendString res wireManyOptionalString_Str13 (Str13 s) else Ret res,
     \<lambda>res. if Str14 s \<noteq> [] then AppendString res wireManyOptionalString_Str14 (Str14 s) else Ret res,
     \<lambda>res. if Str15 s \<noteq> [] then AppendString res wireManyOptionalString_Str15 (Str15 s) else Ret res,
     \<lambda>res. if Str16 s \<noteq> [] then AppendString res wireManyOptionalString_Str16 (Str16 s) else Ret res,
     \<lambda>res. if Str17 s \<noteq> [] then AppendString res wireManyOptionalString_Str17 (Str17 s) else Ret res,
     \<lambda>res. if Str18 s \<noteq> [] then AppendString res wireManyOptionalString_Str18 (Str18 s) else Ret res,
     \<lambda>res. if Str19 s \<noteq> [] then AppendString res wireManyOptionalString_Str19 (Str19 s) else Ret res,
     \<lambda>res. if Str20 s \<noteq> [] then AppendString res wireManyOptionalString_Str20 (Str20 s) else Ret res,
     \<lambda>res. if Str21 s \<noteq> [] then AppendString res wireManyOptionalString_Str21 (Str21 s) else Ret res,
     \<lambda>res. if Str22 s \<noteq> [] then AppendString res wireManyOptionalString_Str22 (Str22 s) else Ret res,
     \<lambda>res. if Str23 s \<noteq> [] then AppendString res wireManyOptionalString_Str23 (Str23 s) else Ret res,
     \<lambda>res. if Str24 s \<noteq> [] then AppendString res wireManyOptionalString_Str24 (Str24 s) else Ret res,
     \<lambda>res. if Str25 s \<noteq> [] then AppendString res wireManyOptionalString_Str25 (Str25 s) else Ret res,
     \<lambda>res. if Str26 s \<noteq> [] then AppendString res wireManyOptionalString_Str26 (Str26 s) else Ret res,
     \<lambda>res. if Str27 s \<noteq> [] then AppendString res wireManyOptionalString_Str27 (Str27 s) else Ret res,
     \<lambda>res. if Str28 s \<noteq> [] then AppendString res wireManyOptionalString_Str28 (Str28 s) else Ret res,
     \<lambda>res. if Str29 s \<noteq> [] then AppendString res wireManyOptionalString_Str29 (Str29 s) else Ret res,
     \<lambda>res. if Str30 s \<noteq> [] then AppendString res wireManyOptionalString_Str30 (Str30 s) else Ret res,
     \<lambda>res. if Str31 s \<noteq> [] then AppendString res wireManyOptionalString_Str31 (Str31 s) else Ret res,
     \<lambda>res. if Str32 s \<noteq> [] then AppendString res wireManyOptionalString_Str32 (Str32 s) else Ret res]"

definition ManyOptionalString_MarshalTo :: "Writer \<Rightarrow> ManyOptionalString option \<Rightarrow> Writer go" where
  "ManyOptionalString_MarshalTo = marshalToWith (\<lambda>s. ManyOptionalString_appends s)"

definition ManyOptionalString_sizes1 :: "ManyOptionalString \<Rightarrow> int list" where
  "ManyOptionalString_sizes1 s = [
     if Str1 s \<noteq> [] then sizeDelimitedWithTag SizeString wireManyOptionalString_Str1 (Str1 s) else 0,
     if Str2 s \<noteq> [] then sizeDelimitedWithTag SizeString wireManyOptionalString_Str2 (Str2 s) else 0,
     if Str3 s \<noteq> [] then sizeDelimitedWithTag SizeString wireManyOptionalString_Str3 (Str3 s) else 0,
     if Str4 s \<noteq> [] then sizeDelimitedWithTag SizeString wireManyOptionalString_Str4 (Str4 s) else 0,
     if Str5 s \<noteq> [] then sizeDelimitedWithTag SizeString wireManyOptionalString_Str5 (Str5 s) else 0,
     if Str6 s \<noteq> [] then sizeDelimitedWithTag SizeString wireManyOptionalString_Str6 (Str6 s) else 0,
     if Str7 s \<noteq> [] then sizeDelimitedWithTag SizeString wireManyOptionalString_Str7 (Str7 s) else 0,
     if Str8 s \<noteq> [] then sizeDelimitedWithTag SizeString wireManyOptionalString_Str8 (Str8 s) else 0,
     if Str9 s \<noteq> [] then sizeDelimitedWithTag SizeString wireManyOptionalString_Str9 (Str9 s) else 0,
     if Str10 s \<noteq> [] then sizeDelimitedWithTag SizeString wireManyOptionalString_Str10 (Str10 s) else 0,
     if Str11 s \<noteq> [] then sizeDelimitedWithTag SizeString wireManyOptionalString_Str11 (Str11 s) else 0,
     if Str12 s \<noteq> [] then sizeDelimitedWithTag SizeString wireManyOptionalString_Str12 (Str12 s) else 0,
     if Str13 s \<noteq> [] then sizeDelimitedWithTag SizeString wireManyOptionalString_Str13 (Str13 s) else 0,
     if Str14 s \<noteq> [] then sizeDelimitedWithTag SizeString wireManyOptionalString_Str14 (Str14 s) else 0,
     if Str15 s \<noteq> [] then sizeDelimitedWithTag SizeString wireManyOptionalString_Str15 (Str15 s) else 0,
     if Str16 s \<noteq> [] then sizeDelimitedWithTag SizeString wireManyOptionalString_Str16 (Str16 s) else 0,
     if Str17 s \<noteq> [] then sizeDelimitedWithTag SizeString wireManyOptionalString_Str17 (Str17 s) else 0,
     if Str18 s \<noteq> [] then sizeDelimitedWithTag SizeString wireManyOptionalString_Str18 (Str18 s) else 0,
     if Str19 s \<noteq> [] then sizeDelimitedWithTag SizeString wireManyOptionalString_Str19 (Str19 s) else 0,
     if Str20 s \<noteq> [] then sizeDelimitedWithTag SizeString wireManyOptionalString_Str20 (Str20 s) else 0,
     if Str21 s \<noteq> [] then sizeDelimitedWithTag SizeString wireManyOptionalString_Str21 (Str21 s) else 0]"

definition ManyOptionalString_sizes2 :: "ManyOptionalString \<Rightarrow> int list" where
  "ManyOptionalString_sizes2 s = [
     if Str22 s \<noteq> [] then sizeDelimitedWithTag SizeString wireManyOptionalString_Str22 (Str22 s) else 0,
     if Str23 s \<noteq> [] then sizeDelimitedWithTag SizeString wireManyOptionalString_Str23 (Str23 s) else 0,
     if Str24 s \<noteq> [] then sizeDelimitedWithTag SizeString wireManyOptionalString_Str24 (Str24 s) else 0,
     if Str25 s \<noteq> [] then sizeDelimitedWithTag SizeString wireManyOptionalString_Str25 (Str25 s) else 0,
     if Str26 s \<noteq> [] then sizeDelimitedWithTag SizeString wireManyOptionalString_Str26 (Str26 s) else 0,
     if Str27 s \<noteq> [] then sizeDelimitedWithTag SizeString wireManyOptionalString_Str27 (Str27 s) else 0,
     if Str28 s \<noteq> [] then sizeDelimitedWithTag SizeString wireManyOptionalString_Str28 (Str28 s) else 0,
     if Str29 s \<noteq> [] then sizeDelimitedWithTag SizeString wireManyOptionalString_Str29 (Str29 s) else 0,
     if Str30 s \<noteq> [] then sizeDelimitedWithTag SizeString wireManyOptionalString_Str30 (Str30 s) else 0,
     if Str31 s \<noteq> [] then sizeDelimitedWithTag SizeString wireManyOptionalString_Str31 (Str31 s) else 0,
     if Str32 s \<noteq> [] then sizeDelimitedWithTag SizeString wireManyOptionalString_Str32 (Str32 s) else 0]"

definition ManyOptionalString_XXX_PbContentSize :: "ManyOptionalString option \<Rightarrow> int" where
  "ManyOptionalString_XXX_PbContentSize = contentSizeWith (\<lambda>s. ManyOptionalString_sizes1 s @ ManyOptionalString_sizes2 s)"

definition ManyOptionalString_Marshal :: "ManyOptionalString option \<Rightarrow> byte list go" where
  "ManyOptionalString_Marshal = marshalWith ManyOptionalString_XXX_PbContentSize ManyOptionalString_MarshalTo"

definition ManyOptionalString_Copy :: "ManyOptionalString option \<Rightarrow> ManyOptionalString option" where
  "ManyOptionalString_Copy s =
     (case s of None \<Rightarrow> None | Some s \<Rightarrow> Some \<lparr>
        Str1 = Str1 s, Str2 = Str2 s, Str3 = Str3 s, Str4 = Str4 s, Str5 = Str5 s,
        Str6 = Str6 s, Str7 = Str7 s, Str8 = Str8 s, Str9 = Str9 s, Str10 = Str10 s,
        Str11 = Str11 s, Str12 = Str12 s, Str13 = Str13 s, Str14 = Str14 s, Str15 = Str15 s,
        Str16 = Str16 s, Str17 = Str17 s, Str18 = Str18 s, Str19 = Str19 s, Str20 = Str20 s,
        Str21 = Str21 s, Str22 = Str22 s, Str23 = Str23 s, Str24 = Str24 s, Str25 = Str25 s,
        Str26 = Str26 s, Str27 = Str27 s, Str28 = Str28 s, Str29 = Str29 s, Str30 = Str30 s,
        Str31 = Str31 s, Str32 = Str32 s\<rparr>)"

section \<open>ManyOptionalString: the round trip\<close>

definition ManyOptionalString_tags :: "ProtoWireNumber list" where
  "ManyOptionalString_tags = [
     wireManyOptionalString_Str1, wireManyOptionalString_Str2, wireManyOptionalString_Str3,
     wireManyOptionalString_Str4, wireManyOptionalString_Str5, wireManyOptionalString_Str6,
     wireManyOptionalString_Str7, wireManyOptionalString_Str8, wireManyOptionalString_Str9,
     wireManyOptionalString_Str10, wireManyOptionalString_Str11, wireManyOptionalString_Str12,
     wireManyOptionalString_Str13, wireManyOptionalString_Str14, wireManyOptionalString_Str15,
     wireManyOptionalString_Str16, wireManyOptionalString_Str17, wireManyOptionalString_Str18,
     wireManyOptionalString_Str19, wireManyOptionalString_Str20, wireManyOptionalString_Str21,
     wireManyOptionalString_Str22, wireManyOptionalString_Str23, wireManyOptionalString_Str24,
     wireManyOptionalString_Str25, wireManyOptionalString_Str26, wireManyOptionalString_Str27,
     wireManyOptionalString_Str28, wireManyOptionalString_Str29, wireManyOptionalString_Str30,
     wireManyOptionalString_Str31, wireManyOptionalString_Str32]"

definition ManyOptionalString_groups :: "ManyOptionalString \<Rightarrow> wfield list list" where
  "ManyOptionalString_groups s = [
     opt_field (Str1 s \<noteq> []) (wireManyOptionalString_Str1, WBytes (Str1 s)),
     opt_field (Str2 s \<noteq> []) (wireManyOptionalString_Str2, WBytes (Str2 s)),
     opt_field (Str3 s \<noteq> []) (wireManyOptionalString_Str3, WBytes (Str3 s)),
     opt_field (Str4 s \<noteq> []) (wireManyOptionalString_Str4, WBytes (Str4 s)),
     opt_field (Str5 s \<noteq> []) (wireManyOptionalString_Str5, WBytes (Str5 s)),
     opt_field (Str6 s \<noteq> []) (wireManyOptionalString_Str6, WBytes (Str6 s)),
     opt_field (Str7 s \<noteq> []) (wireManyOptionalString_Str7, WBytes (Str7 s)),
     opt_field (Str8 s \<noteq> []) (wireManyOptionalString_Str8, WBytes (Str8 s)),
     opt_field (Str9 s \<noteq> []) (wireManyOptionalString_Str9, WBytes (Str9 s)),
     opt_field (Str10 s \<noteq> []) (wireManyOptionalString_Str10, WBytes (Str10 s)),
     opt_field (Str11 s \<noteq> []) (wireManyOptionalString_Str11, WBytes (Str11 s)),
     opt_field (Str12 s \<noteq> []) (wireManyOptionalString_Str12, WBytes (Str12 s)),
     opt_field (Str13 s \<noteq> []) (wireManyOptionalString_Str13, WBytes (Str13 s)),
     opt_field (Str14 s \<noteq> []) (wireManyOptionalString_Str14, WBytes (Str14 s)),
     opt_field (Str15 s \<noteq> []) (wireManyOptionalString_Str15, WBytes (Str15 s)),
     opt_field (Str16 s \<noteq> []) (wireManyOptionalString_Str16, WBytes (Str16 s)),
     opt_field (Str17 s \<noteq> []) (wireManyOptionalString_Str17, WBytes (Str17 s)),
     opt_field (Str18 s \<noteq> []) (wireManyOptionalString_Str18, WBytes (Str18 s)),
     opt_field (Str19 s \<noteq> []) (wireManyOptionalString_Str19, WBytes (Str19 s)),
     opt_field (Str20 s \<noteq> []) (wireManyOptionalString_Str20, WBytes (Str20 s)),
     opt_field (Str21 s \<noteq> []) (wireManyOptionalString_Str21, WBytes (Str21 s)),
     opt_field (Str22 s \<noteq> []) (wireManyOptionalString_Str22, WBytes (Str22 s)),
     opt_field (Str23 s \<noteq> []) (wireManyOptionalString_Str23, WBytes (Str23 s)),
     opt_field (Str24 s \<noteq> []) (wireManyOptionalString_Str24, WBytes (Str24 s)),
     opt_field (Str25 s \<noteq> []) (wireManyOptionalString_Str25, WBytes (Str25 s)),
     opt_field (Str26 s \<noteq> []) (wireManyOptionalString_Str26, WBytes (Str26 s)),
     opt_field (Str27 s \<noteq> []) (wireManyOptionalString_Str27, WBytes (Str27 s)),
     opt_field (Str28 s \<noteq> []) (wireManyOptionalString_Str28, WBytes (Str28 s)),
     opt_field (Str29 s \<noteq> []) (wireManyOptionalString_Str29, WBytes (Str29 s)),
     opt_field (Str30 s \<noteq> []) (wireManyOptionalString_Str30, WBytes (Str30 s)),
     opt_field (Str31 s \<noteq> []) (wireManyOptionalString_Str31, WBytes (Str31 s)),
     opt_field (Str32 s \<noteq> []) (wireManyOptionalString_Str32, WBytes (Str32 s))]"

definition ManyOptionalString_content :: "ManyOptionalString \<Rightarrow> wfield list" where
  "ManyOptionalString_content s = concat (ManyOptionalString_groups s)"

text \<open>What a round trip keeps.\<close>

definition ManyOptionalString_norm :: "ManyOptionalString \<Rightarrow> ManyOptionalString" where
  "ManyOptionalString_norm s = s"

definition ManyOptionalString_ready :: "Reader \<Rightarrow> ManyOptionalString \<Rightarrow> (ManyOptionalStringReader \<Rightarrow> bool) list" where
  "ManyOptionalString_ready p s = [
     \<lambda>m. cell_reads (readOne ReadString []) plain p (if Str1 s \<noteq> [] then Str1 s else []) (cellStr1 m),
     \<lambda>m. cell_reads (readOne ReadString []) plain p (if Str2 s \<noteq> [] then Str2 s else []) (cellStr2 m),
     \<lambda>m. cell_reads (readOne ReadString []) plain p (if Str3 s \<noteq> [] then Str3 s else []) (cellStr3 m),
     \<lambda>m. cell_reads (readOne ReadString []) plain p (if Str4 s \<noteq> [] then Str4 s else []) (cellStr4 m),
     \<lambda>m. cell_reads (readOne ReadString []) plain p (if Str5 s \<noteq> [] then Str5 s else []) (cellStr5 m),
     \<lambda>m. cell_reads (readOne ReadString []) plain p (if Str6 s \<noteq> [] then Str6 s else []) (cellStr6 m),
     \<lambda>m. cell_reads (readOne ReadString []) plain p (if Str7 s \<noteq> [] then Str7 s else []) (cellStr7 m),
     \<lambda>m. cell_reads (readOne ReadString []) plain p (if Str8 s \<noteq> [] then Str8 s else []) (cellStr8 m),
     \<lambda>m. cell_reads (readOne ReadString []) plain p (if Str9 s \<noteq> [] then Str9 s else []) (cellStr9 m),
     \<lambda>m. cell_reads (readOne ReadString []) plain p (if Str10 s \<noteq> [] then Str10 s else []) (cellStr10 m),
     \<lambda>m. cell_reads (readOne ReadString []) plain p (if Str11 s \<noteq> [] then Str11 s else []) (cellStr11 m),
     \<lambda>m. cell_reads (readOne ReadString []) plain p (if Str12 s \<noteq> [] then Str12 s else []) (cellStr12 m),
     \<lambda>m. cell_reads (readOne ReadString []) plain p (if Str13 s \<noteq> [] then Str13 s else []) (cellStr13 m),
     \<lambda>m. cell_reads (readOne ReadString []) plain p (if Str14 s \<noteq> [] then Str14 s else []) (cellStr14 m),
     \<lambda>m. cell_reads (readOne ReadString []) plain p (if Str15 s \<noteq> [] then Str15 s else []) (cellStr15 m),
     \<lambda>m. cell_reads (readOne ReadString []) plain p (if Str16 s \<noteq> [] then Str16 s else []) (cellStr16 m),
     \<lambda>m. cell_reads (readOne ReadString []) plain p (if Str17 s \<noteq> [] then Str17 s else []) (cellStr17 m),
     \<lambda>m. cell_reads (readOne ReadString []) plain p (if Str18 s \<noteq> [] then Str18 s else []) (cellStr18 m),
     \<lambda>m. cell_reads (readOne ReadString []) plain p (if Str19 s \<noteq> [] then Str19 s else []) (cellStr19 m),
     \<lambda>m. cell_reads (readOne ReadString []) plain p (if Str20 s \<noteq> [] then Str20 s else []) (cellStr20 m),
     \<lambda>m. cell_reads (readOne ReadString []) plain p (if Str21 s \<noteq> [] then Str21 s else []) (cellStr21 m),
     \<lambda>m. cell_reads (readOne ReadString []) plain p (if Str22 s \<noteq> [] then Str22 s else []) (cellStr22 m),
     \<lambda>m. cell_reads (readOne ReadString []) plain p (if Str23 s \<noteq> [] then Str23 s else []) (cellStr23 m),
     \<lambda>m. cell_reads (readOne ReadString []) plain p (if Str24 s \<noteq> [] then Str24 s else []) (cellStr24 m),
     \<lambda>m. cell_reads (readOne ReadString []) plain p (if Str25 s \<noteq> [] then Str25 s else []) (cellStr25 m),
     \<lambda>m. cell_reads (readOne ReadString []) plain p (if Str26 s \<noteq> [] then Str26 s else []) (cellStr26 m),
     \<lambda>m. cell_reads (readOne ReadString []) plain p (if Str27 s \<noteq> [] then Str27 s else []) (cellStr27 m),
     \<lambda>m. cell_reads (readOne ReadString []) plain p (if Str28 s \<noteq> [] then Str28 s else []) (cellStr28 m),
     \<lambda>m. cell_reads (readOne ReadString []) plain p (if Str29 s \<noteq> [] then Str29 s else []) (cellStr29 m),
     \<lambda>m. cell_reads (readOne ReadString []) plain p (if Str30 s \<noteq> [] then Str30 s else []) (cellStr30 m),
     \<lambda>m. cell_reads (readOne ReadString []) plain p (if Str31 s \<noteq> [] then Str31 s else []) (cellStr31 m),
     \<lambda>m. cell_reads (readOne ReadString []) plain p (if Str32 s \<noteq> [] then Str32 s else []) (cellStr32 m)]"

definition ManyOptionalString_stored :: "ManyOptionalString \<Rightarrow> (ManyOptionalString \<Rightarrow> ManyOptionalString) list" where
  "ManyOptionalString_stored s = [
     \<lambda>res. res\<lparr>Str1 := if Str1 s \<noteq> [] then Str1 s else []\<rparr>,
     \<lambda>res. res\<lparr>Str2 := if Str2 s \<noteq> [] then Str2 s else []\<rparr>,
     \<lambda>res. res\<lparr>Str3 := if Str3 s \<noteq> [] then Str3 s else []\<rparr>,
     \<lambda>res. res\<lparr>Str4 := if Str4 s \<noteq> [] then Str4 s else []\<rparr>,
     \<lambda>res. res\<lparr>Str5 := if Str5 s \<noteq> [] then Str5 s else []\<rparr>,
     \<lambda>res. res\<lparr>Str6 := if Str6 s \<noteq> [] then Str6 s else []\<rparr>,
     \<lambda>res. res\<lparr>Str7 := if Str7 s \<noteq> [] then Str7 s else []\<rparr>,
     \<lambda>res. res\<lparr>Str8 := if Str8 s \<noteq> [] then Str8 s else []\<rparr>,
     \<lambda>res. res\<lparr>Str9 := if Str9 s \<noteq> [] then Str9 s else []\<rparr>,
     \<lambda>res. res\<lparr>Str10 := if Str10 s \<noteq> [] then Str10 s else []\<rparr>,
     \<lambda>res. res\<lparr>Str11 := if Str11 s \<noteq> [] then Str11 s else []\<rparr>,
     \<lambda>res. res\<lparr>Str12 := if Str12 s \<noteq> [] then Str12 s else []\<rparr>,
     \<lambda>res. res\<lparr>Str13 := if Str13 s \<noteq> [] then Str13 s else []\<rparr>,
     \<lambda>res. res\<lparr>Str14 := if Str14 s \<noteq> [] then Str14 s else []\<rparr>,
     \<lambda>res. res\<lparr>Str15 := if Str15 s \<noteq> [] then Str15 s else []\<rparr>,
     \<lambda>res. res\<lparr>Str16 := if Str16 s \<noteq> [] then Str16 s else []\<rparr>,
     \<lambda>res. res\<lparr>Str17 := if Str17 s \<noteq> [] then Str17 s else []\<rparr>,
     \<lambda>res. res\<lparr>Str18 := if Str18 s \<noteq> [] then Str18 s else []\<rparr>,
     \<lambda>res. res\<lparr>Str19 := if Str19 s \<noteq> [] then Str19 s else []\<rparr>,
     \<lambda>res. res\<lparr>Str20 := if Str20 s \<noteq> [] then Str20 s else []\<rparr>,
     \<lambda>res. res\<lparr>Str21 := if Str21 s \<noteq> [] then Str21 s else []\<rparr>,
     \<lambda>res. res\<lparr>Str22 := if Str22 s \<noteq> [] then Str22 s else []\<rparr>,
     \<lambda>res. res\<lparr>Str23 := if Str23 s \<noteq> [] then Str23 s else []\<rparr>,
     \<lambda>res. res\<lparr>Str24 := if Str24 s \<noteq> [] then Str24 s else []\<rparr>,
     \<lambda>res. res\<lparr>Str25 := if Str25 s \<noteq> [] then Str25 s else []\<rparr>,
     \<lambda>res. res\<lparr>Str26 := if Str26 s \<noteq> [] then Str26 s else []\<rparr>,
     \<lambda>res. res\<lparr>Str27 := if Str27 s \<noteq> [] then Str27 s else []\<rparr>,
     \<lambda>res. res\<lparr>Str28 := if Str28 s \<noteq> [] then Str28 s else []\<rparr>,
     \<lambda>res. res\<lparr>Str29 := if Str29 s \<noteq> [] then Str29 s else []\<rparr>,
     \<lambda>res. res\<lparr>Str30 := if Str30 s \<noteq> [] then Str30 s else []\<rparr>,
     \<lambda>res. res\<lparr>Str31 := if Str31 s \<noteq> [] then Str31 s else []\<rparr>,
     \<lambda>res. res\<lparr>Str32 := if Str32 s \<noteq> [] then Str32 s else []\<rparr>]"

lemma ManyOptionalString_cases_distinct: "distinct (map fst (ManyOptionalStringReader_cases wire offset))"
  by (rule ascending_distinct) (simp add: ManyOptionalStringReader_cases_def wireManyOptionalString)

lemma ManyOptionalString_stores:
  "stores_cell ManyOptionalStringReader_save wireManyOptionalString_Str1 setOffset cellStr1"
  "stores_cell ManyOptionalStringReader_save wireManyOptionalString_Str2 setOffset cellStr2"
  "stores_cell ManyOptionalStringReader_save wireManyOptionalString_Str3 setOffset cellStr3"
  "stores_cell ManyOptionalStringReader_save wireManyOptionalString_Str4 setOffset cellStr4"
  "stores_cell ManyOptionalStringReader_save wireManyOptionalString_Str5 setOffset cellStr5"
  "stores_cell ManyOptionalStringReader_save wireManyOptionalString_Str6 setOffset cellStr6"
  "stores_cell ManyOptionalStringReader_save wireManyOptionalString_Str7 setOffset cellStr7"
  "stores_cell ManyOptionalStringReader_save wireManyOptionalString_Str8 setOffset cellStr8"
  "stores_cell ManyOptionalStringReader_save wireManyOptionalString_Str9 setOffset cellStr9"
  "stores_cell ManyOptionalStringReader_save wireManyOptionalString_Str10 setOffset cellStr10"
  "stores_cell ManyOptionalStringReader_save wireManyOptionalString_Str11 setOffset cellStr11"
  "stores_cell ManyOptionalStringReader_save wireManyOptionalString_Str12 setOffset cellStr12"
  "stores_cell ManyOptionalStringReader_save wireManyOptionalString_Str13 setOffset cellStr13"
  "stores_cell ManyOptionalStringReader_save wireManyOptionalString_Str14 setOffset cellStr14"
  "stores_cell ManyOptionalStringReader_save wireManyOptionalString_Str15 setOffset cellStr15"
  "stores_cell ManyOptionalStringReader_save wireManyOptionalString_Str16 setOffset cellStr16"
  "stores_cell ManyOptionalStringReader_save wireManyOptionalString_Str17 setOffset cellStr17"
  "stores_cell ManyOptionalStringReader_save wireManyOptionalString_Str18 setOffset cellStr18"
  "stores_cell ManyOptionalStringReader_save wireManyOptionalString_Str19 setOffset cellStr19"
  "stores_cell ManyOptionalStringReader_save wireManyOptionalString_Str20 setOffset cellStr20"
  "stores_cell ManyOptionalStringReader_save wireManyOptionalString_Str21 setOffset cellStr21"
  "stores_cell ManyOptionalStringReader_save wireManyOptionalString_Str22 setOffset cellStr22"
  "stores_cell ManyOptionalStringReader_save wireManyOptionalString_Str23 setOffset cellStr23"
  "stores_cell ManyOptionalStringReader_save wireManyOptionalString_Str24 setOffset cellStr24"
  "stores_cell ManyOptionalStringReader_save wireManyOptionalString_Str25 setOffset cellStr25"
  "stores_cell ManyOptionalStringReader_save wireManyOptionalString_Str26 setOffset cellStr26"
  "stores_cell ManyOptionalStringReader_save wireManyOptionalString_Str27 setOffset cellStr27"
  "stores_cell ManyOptionalStringReader_save wireManyOptionalString_Str28 setOffset cellStr28"
  "stores_cell ManyOptionalStringReader_save wireManyOptionalString_Str29 setOffset cellStr29"
  "stores_cell ManyOptionalStringReader_save wireManyOptionalString_Str30 setOffset cellStr30"
  "stores_cell ManyOptionalStringReader_save wireManyOptionalString_Str31 setOffset cellStr31"
  "stores_cell ManyOptionalStringReader_save wireManyOptionalString_Str32 setOffset cellStr32"
  unfolding ManyOptionalStringReader_save_def [abs_def] by (rule stores_cell_switch; (rule ManyOptionalString_cases_distinct)?; unfold ManyOptionalStringReader_cases_def; intro own_case.intros; simp)+

lemma ManyOptionalString_saved: "good_fields ManyOptionalStringReader_save p (NewManyOptionalStringReader\<lparr>mbuf := Some p\<rparr>) ManyOptionalString_tags (ManyOptionalString_groups s) (ManyOptionalString_ready p s)"
  unfolding ManyOptionalString_tags_def ManyOptionalString_groups_def ManyOptionalString_ready_def
  by (intro good_fields.intros field_saved ManyOptionalString_stores) (simp_all add: NewManyOptionalStringReader_def newCell_def)

lemma ManyOptionalString_converted: "good_stmts mbuf p (ManyOptionalString_stmts) (ManyOptionalString_ready p s) (ManyOptionalString_stored s)"
  unfolding ManyOptionalString_stmts_def ManyOptionalString_ready_def ManyOptionalString_stored_def ManyOptionalString_getters append.simps
  by (intro good_stmts_field good_stmts.Nil) (simp_all cong: cell_reads_cong)

interpretation l_ManyOptionalString: lazy_message ManyOptionalString_tags ManyOptionalString_groups ManyOptionalString_norm
  "\<lambda>s. ManyOptionalString_sizes1 s @ ManyOptionalString_sizes2 s" "\<lambda>s. ManyOptionalString_appends s"
  ManyOptionalStringReader_save "\<lambda>p. NewManyOptionalStringReader\<lparr>mbuf := Some p\<rparr>" mbuf "ManyOptionalString_stmts" ManyOptionalString_zero ManyOptionalString_ready ManyOptionalString_stored
proof
  show "distinct ManyOptionalString_tags"
    using ManyOptionalString_cases_distinct by (simp only: ManyOptionalStringReader_cases_def ManyOptionalString_tags_def list.map fst_conv)
  show "list_all valid_tag ManyOptionalString_tags"
    by (simp add: ManyOptionalString_tags_def wireManyOptionalString valid_tag_def)
  show "list_all2 (\<lambda>t g. \<forall>f \<in> set g. fst f = t \<and> wf_val (snd f)) ManyOptionalString_tags (ManyOptionalString_groups s)" for s
    unfolding ManyOptionalString_tags_def ManyOptionalString_groups_def by (intro list.rel_intros field_tagged)
  show "list_all2 (\<lambda>e g. e = int (length (fields_bytes g))) (ManyOptionalString_sizes1 s @ ManyOptionalString_sizes2 s) (ManyOptionalString_groups s)" for s
    unfolding ManyOptionalString_sizes1_def ManyOptionalString_sizes2_def ManyOptionalString_groups_def append.simps
    by (intro list.rel_intros field_sized)
  show "list_all2 (\<lambda>st g. writes st (fields_bytes g)) (ManyOptionalString_appends s) (ManyOptionalString_groups s)" for s
    unfolding ManyOptionalString_appends_def ManyOptionalString_groups_def append.simps
    by (intro list.rel_intros field_written)
  show "mbuf (ManyOptionalStringReader_save t w off m) = mbuf m" for t w off m
    unfolding ManyOptionalStringReader_save_def by (rule tag_switch_keeps) (simp add: ManyOptionalStringReader_cases_def)
  show "fold (\<lambda>e. e) (ManyOptionalString_stored s) ManyOptionalString_zero = ManyOptionalString_norm s" for s
    unfolding ManyOptionalString_stored_def by (simp add: ManyOptionalString_zero_def ManyOptionalString_norm_def float_defaults)
qed (simp_all add: ManyOptionalString_saved ManyOptionalString_converted)

interpretation m_ManyOptionalString: message_codec ManyOptionalString_content ManyOptionalString_norm ManyOptionalString_XXX_PbContentSize ManyOptionalString_MarshalTo
  "ManyOptionalStringReader_Unmarshal NewManyOptionalStringReader" ManyOptionalStringReader_ToStruct
  using l_ManyOptionalString.message
  by (simp only: ManyOptionalString_content_def [abs_def] ManyOptionalString_XXX_PbContentSize_def ManyOptionalString_MarshalTo_def ManyOptionalStringReader_Unmarshal_def [abs_def] ManyOptionalStringReader_ToStruct_def)


section \<open>Int32Message: the reader\<close>

definition wireInt32Message_Data :: ProtoWireNumber where "wireInt32Message_Data = 1"

lemmas wireInt32Message =
  wireInt32Message_Data_def

record Int32MessageReader =
  mbuf :: "Reader option"
  cellData :: "int32 one_cell"

definition NewInt32MessageReader :: Int32MessageReader where
  "NewInt32MessageReader = \<lparr>
     mbuf = None, cellData = newCell 0 0\<rparr>"

definition Int32MessageReader_readData :: "Int32MessageReader \<Rightarrow> (int32 \<times> Int32MessageReader) run" where
  "Int32MessageReader_readData = readCell cellData cellData_update mbuf (readOne ReadInt32 0)"

definition Int32MessageReader_GetData :: "Int32MessageReader option \<Rightarrow> (int32 \<times> Int32MessageReader option) run" where
  "Int32MessageReader_GetData = getter Int32MessageReader_readData 0"

lemmas Int32Message_getters =
  Int32MessageReader_readData_def Int32MessageReader_GetData_def

definition Int32MessageReader_cases :: "ProtoWireType \<Rightarrow> int \<Rightarrow> (ProtoWireNumber \<times> (Int32MessageReader \<Rightarrow> Int32MessageReader)) list" where
  "Int32MessageReader_cases wire offset = [
     (wireInt32Message_Data, \<lambda>m. m\<lparr>cellData := onOffset (setOffset wire offset) (cellData m)\<rparr>)]"

definition Int32MessageReader_save :: "ProtoWireNumber \<Rightarrow> ProtoWireType \<Rightarrow> int \<Rightarrow> Int32MessageReader \<Rightarrow> Int32MessageReader" where
  "Int32MessageReader_save tag wire offset = tag_switch (Int32MessageReader_cases wire offset) tag"

definition Int32MessageReader_Unmarshal :: "Int32MessageReader \<Rightarrow> gslice \<Rightarrow> (Int32MessageReader \<times> string option) run" where
  "Int32MessageReader_Unmarshal m data =
     unmarshalLoop Int32MessageReader_save (NewReader data) 0 (m\<lparr>mbuf := Some (NewReader data)\<rparr>)"

definition Int32MessageReader_SourceBytes :: "Int32MessageReader option \<Rightarrow> gslice" where
  "Int32MessageReader_SourceBytes s = (case s of None \<Rightarrow> nil_slice | Some r \<Rightarrow> Bytes (mbuf r))"

section \<open>Int32Message: the struct\<close>

record Int32Message =
  Data :: int32

definition Int32Message_zero :: Int32Message where
  "Int32Message_zero = \<lparr>
     Data = 0\<rparr>"

definition Int32Message_stmts :: "(Int32Message \<times> Int32MessageReader option \<Rightarrow> (Int32Message \<times> Int32MessageReader option) run) list" where
  "Int32Message_stmts = [
     assign Int32MessageReader_GetData (\<lambda>v res. res\<lparr>Data := v\<rparr>)]"

definition Int32MessageReader_ToStruct :: "Int32MessageReader option \<Rightarrow> (Int32Message option \<times> Int32MessageReader option) run" where
  "Int32MessageReader_ToStruct = toStructWith (Int32Message_stmts) Int32Message_zero"

definition Int32Message_appends :: "Int32Message \<Rightarrow> (Writer \<Rightarrow> Writer go) list" where
  "Int32Message_appends s = [
     \<lambda>res. if Data s \<noteq> 0 then AppendInt32 res wireInt32Message_Data (Data s) else Ret res]"

definition Int32Message_MarshalTo :: "Writer \<Rightarrow> Int32Message option \<Rightarrow> Writer go" where
  "Int32Message_MarshalTo = marshalToWith (\<lambda>s. Int32Message_appends s)"

definition Int32Message_sizes :: "Int32Message \<Rightarrow> int list" where
  "Int32Message_sizes s = [
     if Data s \<noteq> 0 then sizeWithTag SizeInt32 wireInt32Message_Data (Data s) else 0]"

definition Int32Message_XXX_PbContentSize :: "Int32Message option \<Rightarrow> int" where
  "Int32Message_XXX_PbContentSize = contentSizeWith (\<lambda>s. Int32Message_sizes s)"

definition Int32Message_Marshal :: "Int32Message option \<Rightarrow> byte list go" where
  "Int32Message_Marshal = marshalWith Int32Message_XXX_PbContentSize Int32Message_MarshalTo"

definition Int32Message_Copy :: "Int32Message option \<Rightarrow> Int32Message option" where
  "Int32Message_Copy s =
     (case s of None \<Rightarrow> None | Some s \<Rightarrow> Some \<lparr>
        Data = Data s\<rparr>)"

section \<open>Int32Message: the round trip\<close>

definition Int32Message_tags :: "ProtoWireNumber list" where
  "Int32Message_tags = [
     wireInt32Message_Data]"

definition Int32Message_groups :: "Int32Message \<Rightarrow> wfield list list" where
  "Int32Message_groups s = [
     opt_field (Data s \<noteq> 0) (wireInt32Message_Data, int32_val (Data s))]"

definition Int32Message_content :: "Int32Message \<Rightarrow> wfield list" where
  "Int32Message_content s = concat (Int32Message_groups s)"

text \<open>What a round trip keeps.\<close>

definition Int32Message_norm :: "Int32Message \<Rightarrow> Int32Message" where
  "Int32Message_norm s = s"

definition Int32Message_ready :: "Reader \<Rightarrow> Int32Message \<Rightarrow> (Int32MessageReader \<Rightarrow> bool) list" where
  "Int32Message_ready p s = [
     \<lambda>m. cell_reads (readOne ReadInt32 0) plain p (if Data s \<noteq> 0 then Data s else 0) (cellData m)]"

definition Int32Message_stored :: "Int32Message \<Rightarrow> (Int32Message \<Rightarrow> Int32Message) list" where
  "Int32Message_stored s = [
     \<lambda>res. res\<lparr>Data := if Data s \<noteq> 0 then Data s else 0\<rparr>]"

lemma Int32Message_cases_distinct: "distinct (map fst (Int32MessageReader_cases wire offset))"
  by (rule ascending_distinct) (simp add: Int32MessageReader_cases_def wireInt32Message)

lemma Int32Message_stores:
  "stores_cell Int32MessageReader_save wireInt32Message_Data setOffset cellData"
  unfolding Int32MessageReader_save_def [abs_def] by (rule stores_cell_switch; (rule Int32Message_cases_distinct)?; unfold Int32MessageReader_cases_def; intro own_case.intros; simp)+

lemma Int32Message_saved: "good_fields Int32MessageReader_save p (NewInt32MessageReader\<lparr>mbuf := Some p\<rparr>) Int32Message_tags (Int32Message_groups s) (Int32Message_ready p s)"
  unfolding Int32Message_tags_def Int32Message_groups_def Int32Message_ready_def
  by (intro good_fields.intros field_saved Int32Message_stores) (simp_all add: NewInt32MessageReader_def newCell_def)

lemma Int32Message_converted: "good_stmts mbuf p (Int32Message_stmts) (Int32Message_ready p s) (Int32Message_stored s)"
  unfolding Int32Message_stmts_def Int32Message_ready_def Int32Message_stored_def Int32Message_getters append.simps
  by (intro good_stmts_field good_stmts.Nil) (simp_all cong: cell_reads_cong)

interpretation l_Int32Message: lazy_message Int32Message_tags Int32Message_groups Int32Message_norm
  "\<lambda>s. Int32Message_sizes s" "\<lambda>s. Int32Message_appends s"
  Int32MessageReader_save "\<lambda>p. NewInt32MessageReader\<lparr>mbuf := Some p\<rparr>" mbuf "Int32Message_stmts" Int32Message_zero Int32Message_ready Int32Message_stored
proof
  show "distinct Int32Message_tags"
    using Int32Message_cases_distinct by (simp only: Int32MessageReader_cases_def Int32Message_tags_def list.map fst_conv)
  show "list_all valid_tag Int32Message_tags"
    by (simp add: Int32Message_tags_def wireInt32Message valid_tag_def)
  show "list_all2 (\<lambda>t g. \<forall>f \<in> set g. fst f = t \<and> wf_val (snd f)) Int32Message_tags (Int32Message_groups s)" for s
    unfolding Int32Message_tags_def Int32Message_groups_def by (intro list.rel_intros field_tagged)
  show "list_all2 (\<lambda>e g. e = int (length (fields_bytes g))) (Int32Message_sizes s) (Int32Message_groups s)" for s
    unfolding Int32Message_sizes_def Int32Message_groups_def append.simps
    by (intro list.rel_intros field_sized)
  show "list_all2 (\<lambda>st g. writes st (fields_bytes g)) (Int32Message_appends s) (Int32Message_groups s)" for s
    unfolding Int32Message_appends_def Int32Message_groups_def append.simps
    by (intro list.rel_intros field_written)
  show "mbuf (Int32MessageReader_save t w off m) = mbuf m" for t w off m
    unfolding Int32MessageReader_save_def by (rule tag_switch_keeps) (simp add: Int32MessageReader_cases_def)
  show "fold (\<lambda>e. e) (Int32Message_stored s) Int32Message_zero = Int32Message_norm s" for s
    unfolding Int32Message_stored_def by (simp add: Int32Message_zero_def Int32Message_norm_def float_defaults)
qed (simp_all add: Int32Message_saved Int32Message_converted)

interpretation m_Int32Message: message_codec Int32Message_content Int32Message_norm Int32Message_XXX_PbContentSize Int32Message_MarshalTo
  "Int32MessageReader_Unmarshal NewInt32MessageReader" Int32MessageReader_ToStruct
  using l_Int32Message.message
  by (simp only: Int32Message_content_def [abs_def] Int32Message_XXX_PbContentSize_def Int32Message_MarshalTo_def Int32MessageReader_Unmarshal_def [abs_def] Int32MessageReader_ToStruct_def)


section \<open>Uint32Message: the reader\<close>

definition wireUint32Message_Data :: ProtoWireNumber where "wireUint32Message_Data = 1"

lemmas wireUint32Message =
  wireUint32Message_Data_def

record Uint32MessageReader =
  mbuf :: "Reader option"
  cellData :: "uint32 one_cell"

definition NewUint32MessageReader :: Uint32MessageReader where
  "NewUint32MessageReader = \<lparr>
     mbuf = None, cellData = newCell 0 0\<rparr>"

definition Uint32MessageReader_readData :: "Uint32MessageReader \<Rightarrow> (uint32 \<times> Uint32MessageReader) run" where
  "Uint32MessageReader_readData = readCell cellData cellData_update mbuf (readOne ReadUint32 0)"

definition Uint32MessageReader_GetData :: "Uint32MessageReader option \<Rightarrow> (uint32 \<times> Uint32MessageReader option) run" where
  "Uint32MessageReader_GetData = getter Uint32MessageReader_readData 0"

lemmas Uint32Message_getters =
  Uint32MessageReader_readData_def Uint32MessageReader_GetData_def

definition Uint32MessageReader_cases :: "ProtoWireType \<Rightarrow> int \<Rightarrow> (ProtoWireNumber \<times> (Uint32MessageReader \<Rightarrow> Uint32MessageReader)) list" where
  "Uint32MessageReader_cases wire offset = [
     (wireUint32Message_Data, \<lambda>m. m\<lparr>cellData := onOffset (setOffset wire offset) (cellData m)\<rparr>)]"

definition Uint32MessageReader_save :: "ProtoWireNumber \<Rightarrow> ProtoWireType \<Rightarrow> int \<Rightarrow> Uint32MessageReader \<Rightarrow> Uint32MessageReader" where
  "Uint32MessageReader_save tag wire offset = tag_switch (Uint32MessageReader_cases wire offset) tag"

definition Uint32MessageReader_Unmarshal :: "Uint32MessageReader \<Rightarrow> gslice \<Rightarrow> (Uint32MessageReader \<times> string option) run" where
  "Uint32MessageReader_Unmarshal m data =
     unmarshalLoop Uint32MessageReader_save (NewReader data) 0 (m\<lparr>mbuf := Some (NewReader data)\<rparr>)"

definition Uint32MessageReader_SourceBytes :: "Uint32MessageReader option \<Rightarrow> gslice" where
  "Uint32MessageReader_SourceBytes s = (case s of None \<Rightarrow> nil_slice | Some r \<Rightarrow> Bytes (mbuf r))"

section \<open>Uint32Message: the struct\<close>

record Uint32Message =
  Data :: uint32

definition Uint32Message_zero :: Uint32Message where
  "Uint32Message_zero = \<lparr>
     Data = 0\<rparr>"

definition Uint32Message_stmts :: "(Uint32Message \<times> Uint32MessageReader option \<Rightarrow> (Uint32Message \<times> Uint32MessageReader option) run) list" where
  "Uint32Message_stmts = [
     assign Uint32MessageReader_GetData (\<lambda>v res. res\<lparr>Data := v\<rparr>)]"

definition Uint32MessageReader_ToStruct :: "Uint32MessageReader option \<Rightarrow> (Uint32Message option \<times> Uint32MessageReader option) run" where
  "Uint32MessageReader_ToStruct = toStructWith (Uint32Message_stmts) Uint32Message_zero"

definition Uint32Message_appends :: "Uint32Message \<Rightarrow> (Writer \<Rightarrow> Writer go) list" where
  "Uint32Message_appends s = [
     \<lambda>res. if Data s \<noteq> 0 then AppendUint32 res wireUint32Message_Data (Data s) else Ret res]"

definition Uint32Message_MarshalTo :: "Writer \<Rightarrow> Uint32Message option \<Rightarrow> Writer go" where
  "Uint32Message_MarshalTo = marshalToWith (\<lambda>s. Uint32Message_appends s)"

definition Uint32Message_sizes :: "Uint32Message \<Rightarrow> int list" where
  "Uint32Message_sizes s = [
     if Data s \<noteq> 0 then sizeWithTag SizeUint32 wireUint32Message_Data (Data s) else 0]"

definition Uint32Message_XXX_PbContentSize :: "Uint32Message option \<Rightarrow> int" where
  "Uint32Message_XXX_PbContentSize = contentSizeWith (\<lambda>s. Uint32Message_sizes s)"

definition Uint32Message_Marshal :: "Uint32Message option \<Rightarrow> byte list go" where
  "Uint32Message_Marshal = marshalWith Uint32Message_XXX_PbContentSize Uint32Message_MarshalTo"

definition Uint32Message_Copy :: "Uint32Message option \<Rightarrow> Uint32Message option" where
  "Uint32Message_Copy s =
     (case s of None \<Rightarrow> None | Some s \<Rightarrow> Some \<lparr>
        Data = Data s\<rparr>)"

section \<open>Uint32Message: the round trip\<close>

definition Uint32Message_tags :: "ProtoWireNumber list" where
  "Uint32Message_tags = [
     wireUint32Message_Data]"

definition Uint32Message_groups :: "Uint32Message \<Rightarrow> wfield list list" where
  "Uint32Message_groups s = [
     opt_field (Data s \<noteq> 0) (wireUint32Message_Data, uint32_val (Data s))]"

definition Uint32Message_content :: "Uint32Message \<Rightarrow> wfield list" where
  "Uint32Message_content s = concat (Uint32Message_groups s)"

text \<open>What a round trip keeps.\<close>

definition Uint32Message_norm :: "Uint32Message \<Rightarrow> Uint32Message" where
  "Uint32Message_norm s = s"

definition Uint32Message_ready :: "Reader \<Rightarrow> Uint32Message \<Rightarrow> (Uint32MessageReader \<Rightarrow> bool) list" where
  "Uint32Message_ready p s = [
     \<lambda>m. cell_reads (readOne ReadUint32 0) plain p (if Data s \<noteq> 0 then Data s else 0) (cellData m)]"

definition Uint32Message_stored :: "Uint32Message \<Rightarrow> (Uint32Message \<Rightarrow> Uint32Message) list" where
  "Uint32Message_stored s = [
     \<lambda>res. res\<lparr>Data := if Data s \<noteq> 0 then Data s else 0\<rparr>]"

lemma Uint32Message_cases_distinct: "distinct (map fst (Uint32MessageReader_cases wire offset))"
  by (rule ascending_distinct) (simp add: Uint32MessageReader_cases_def wireUint32Message)

lemma Uint32Message_stores:
  "stores_cell Uint32MessageReader_save wireUint32Message_Data setOffset cellData"
  unfolding Uint32MessageReader_save_def [abs_def] by (rule stores_cell_switch; (rule Uint32Message_cases_distinct)?; unfold Uint32MessageReader_cases_def; intro own_case.intros; simp)+

lemma Uint32Message_saved: "good_fields Uint32MessageReader_save p (NewUint32MessageReader\<lparr>mbuf := Some p\<rparr>) Uint32Message_tags (Uint32Message_groups s) (Uint32Message_ready p s)"
  unfolding Uint32Message_tags_def Uint32Message_groups_def Uint32Message_ready_def
  by (intro good_fields.intros field_saved Uint32Message_stores) (simp_all add: NewUint32MessageReader_def newCell_def)

lemma Uint32Message_converted: "good_stmts mbuf p (Uint32Message_stmts) (Uint32Message_ready p s) (Uint32Message_stored s)"
  unfolding Uint32Message_stmts_def Uint32Message_ready_def Uint32Message_stored_def Uint32Message_getters append.simps
  by (intro good_stmts_field good_stmts.Nil) (simp_all cong: cell_reads_cong)

interpretation l_Uint32Message: lazy_message Uint32Message_tags Uint32Message_groups Uint32Message_norm
  "\<lambda>s. Uint32Message_sizes s" "\<lambda>s. Uint32Message_appends s"
  Uint32MessageReader_save "\<lambda>p. NewUint32MessageReader\<lparr>mbuf := Some p\<rparr>" mbuf "Uint32Message_stmts" Uint32Message_zero Uint32Message_ready Uint32Message_stored
proof
  show "distinct Uint32Message_tags"
    using Uint32Message_cases_distinct by (simp only: Uint32MessageReader_cases_def Uint32Message_tags_def list.map fst_conv)
  show "list_all valid_tag Uint32Message_tags"
    by (simp add: Uint32Message_tags_def wireUint32Message valid_tag_def)
  show "list_all2 (\<lambda>t g. \<forall>f \<in> set g. fst f = t \<and> wf_val (snd f)) Uint32Message_tags (Uint32Message_groups s)" for s
    unfolding Uint32Message_tags_def Uint32Message_groups_def by (intro list.rel_intros field_tagged)
  show "list_all2 (\<lambda>e g. e = int (length (fields_bytes g))) (Uint32Message_sizes s) (Uint32Message_groups s)" for s
    unfolding Uint32Message_sizes_def Uint32Message_groups_def append.simps
    by (intro list.rel_intros field_sized)
  show "list_all2 (\<lambda>st g. writes st (fields_bytes g)) (Uint32Message_appends s) (Uint32Message_groups s)" for s
    unfolding Uint32Message_appends_def Uint32Message_groups_def append.simps
    by (intro list.rel_intros field_written)
  show "mbuf (Uint32MessageReader_save t w off m) = mbuf m" for t w off m
    unfolding Uint32MessageReader_save_def by (rule tag_switch_keeps) (simp add: Uint32MessageReader_cases_def)
  show "fold (\<lambda>e. e) (Uint32Message_stored s) Uint32Message_zero = Uint32Message_norm s" for s
    unfolding Uint32Message_stored_def by (simp add: Uint32Message_zero_def Uint32Message_norm_def float_defaults)
qed (simp_all add: Uint32Message_saved Uint32Message_converted)

interpretation m_Uint32Message: message_codec Uint32Message_content Uint32Message_norm Uint32Message_XXX_PbContentSize Uint32Message_MarshalTo
  "Uint32MessageReader_Unmarshal NewUint32MessageReader" Uint32MessageReader_ToStruct
  using l_Uint32Message.message
  by (simp only: Uint32Message_content_def [abs_def] Uint32Message_XXX_PbContentSize_def Uint32Message_MarshalTo_def Uint32MessageReader_Unmarshal_def [abs_def] Uint32MessageReader_ToStruct_def)


section \<open>Int64Message: the reader\<close>

definition wireInt64Message_Data :: ProtoWireNumber where "wireInt64Message_Data = 1"

lemmas wireInt64Message =
  wireInt64Message_Data_def

record Int64MessageReader =
  mbuf :: "Reader option"
  cellData :: "int64 one_cell"

definition NewInt64MessageReader :: Int64MessageReader where
  "NewInt64MessageReader = \<lparr>
     mbuf = None, cellData = newCell 0 0\<rparr>"

definition Int64MessageReader_readData :: "Int64MessageReader \<Rightarrow> (int64 \<times> Int64MessageReader) run" where
  "Int64MessageReader_readData = readCell cellData cellData_update mbuf (readOne ReadInt64 0)"

definition Int64MessageReader_GetData :: "Int64MessageReader option \<Rightarrow> (int64 \<times> Int64MessageReader option) run" where
  "Int64MessageReader_GetData = getter Int64MessageReader_readData 0"

lemmas Int64Message_getters =
  Int64MessageReader_readData_def Int64MessageReader_GetData_def

definition Int64MessageReader_cases :: "ProtoWireType \<Rightarrow> int \<Rightarrow> (ProtoWireNumber \<times> (Int64MessageReader \<Rightarrow> Int64MessageReader)) list" where
  "Int64MessageReader_cases wire offset = [
     (wireInt64Message_Data, \<lambda>m. m\<lparr>cellData := onOffset (setOffset wire offset) (cellData m)\<rparr>)]"

definition Int64MessageReader_save :: "ProtoWireNumber \<Rightarrow> ProtoWireType \<Rightarrow> int \<Rightarrow> Int64MessageReader \<Rightarrow> Int64MessageReader" where
  "Int64MessageReader_save tag wire offset = tag_switch (Int64MessageReader_cases wire offset) tag"

definition Int64MessageReader_Unmarshal :: "Int64MessageReader \<Rightarrow> gslice \<Rightarrow> (Int64MessageReader \<times> string option) run" where
  "Int64MessageReader_Unmarshal m data =
     unmarshalLoop Int64MessageReader_save (NewReader data) 0 (m\<lparr>mbuf := Some (NewReader data)\<rparr>)"

definition Int64MessageReader_SourceBytes :: "Int64MessageReader option \<Rightarrow> gslice" where
  "Int64MessageReader_SourceBytes s = (case s of None \<Rightarrow> nil_slice | Some r \<Rightarrow> Bytes (mbuf r))"

section \<open>Int64Message: the struct\<close>

record Int64Message =
  Data :: int64

definition Int64Message_zero :: Int64Message where
  "Int64Message_zero = \<lparr>
     Data = 0\<rparr>"

definition Int64Message_stmts :: "(Int64Message \<times> Int64MessageReader option \<Rightarrow> (Int64Message \<times> Int64MessageReader option) run) list" where
  "Int64Message_stmts = [
     assign Int64MessageReader_GetData (\<lambda>v res. res\<lparr>Data := v\<rparr>)]"

definition Int64MessageReader_ToStruct :: "Int64MessageReader option \<Rightarrow> (Int64Message option \<times> Int64MessageReader option) run" where
  "Int64MessageReader_ToStruct = toStructWith (Int64Message_stmts) Int64Message_zero"

definition Int64Message_appends :: "Int64Message \<Rightarrow> (Writer \<Rightarrow> Writer go) list" where
  "Int64Message_appends s = [
     \<lambda>res. if Data s \<noteq> 0 then AppendInt64 res wireInt64Message_Data (Data s) else Ret res]"

definition Int64Message_MarshalTo :: "Writer \<Rightarrow> Int64Message option \<Rightarrow> Writer go" where
  "Int64Message_MarshalTo = marshalToWith (\<lambda>s. Int64Message_appends s)"

definition Int64Message_sizes :: "Int64Message \<Rightarrow> int list" where
  "Int64Message_sizes s = [
     if Data s \<noteq> 0 then sizeWithTag SizeInt64 wireInt64Message_Data (Data s) else 0]"

definition Int64Message_XXX_PbContentSize :: "Int64Message option \<Rightarrow> int" where
  "Int64Message_XXX_PbContentSize = contentSizeWith (\<lambda>s. Int64Message_sizes s)"

definition Int64Message_Marshal :: "Int64Message option \<Rightarrow> byte list go" where
  "Int64Message_Marshal = marshalWith Int64Message_XXX_PbContentSize Int64Message_MarshalTo"

definition Int64Message_Copy :: "Int64Message option \<Rightarrow> Int64Message option" where
  "Int64Message_Copy s =
     (case s of None \<Rightarrow> None | Some s \<Rightarrow> Some \<lparr>
        Data = Data s\<rparr>)"

section \<open>Int64Message: the round trip\<close>

definition Int64Message_tags :: "ProtoWireNumber list" where
  "Int64Message_tags = [
     wireInt64Message_Data]"

definition Int64Message_groups :: "Int64Message \<Rightarrow> wfield list list" where
  "Int64Message_groups s = [
     opt_field (Data s \<noteq> 0) (wireInt64Message_Data, int64_val (Data s))]"

definition Int64Message_content :: "Int64Message \<Rightarrow> wfield list" where
  "Int64Message_content s = concat (Int64Message_groups s)"

text \<open>What a round trip keeps.\<close>

definition Int64Message_norm :: "Int64Message \<Rightarrow> Int64Message" where
  "Int64Message_norm s = s"

definition Int64Message_ready :: "Reader \<Rightarrow> Int64Message \<Rightarrow> (Int64MessageReader \<Rightarrow> bool) list" where
  "Int64Message_ready p s = [
     \<lambda>m. cell_reads (readOne ReadInt64 0) plain p (if Data s \<noteq> 0 then Data s else 0) (cellData m)]"

definition Int64Message_stored :: "Int64Message \<Rightarrow> (Int64Message \<Rightarrow> Int64Message) list" where
  "Int64Message_stored s = [
     \<lambda>res. res\<lparr>Data := if Data s \<noteq> 0 then Data s else 0\<rparr>]"

lemma Int64Message_cases_distinct: "distinct (map fst (Int64MessageReader_cases wire offset))"
  by (rule ascending_distinct) (simp add: Int64MessageReader_cases_def wireInt64Message)

lemma Int64Message_stores:
  "stores_cell Int64MessageReader_save wireInt64Message_Data setOffset cellData"
  unfolding Int64MessageReader_save_def [abs_def] by (rule stores_cell_switch; (rule Int64Message_cases_distinct)?; unfold Int64MessageReader_cases_def; intro own_case.intros; simp)+

lemma Int64Message_saved: "good_fields Int64MessageReader_save p (NewInt64MessageReader\<lparr>mbuf := Some p\<rparr>) Int64Message_tags (Int64Message_groups s) (Int64Message_ready p s)"
  unfolding Int64Message_tags_def Int64Message_groups_def Int64Message_ready_def
  by (intro good_fields.intros field_saved Int64Message_stores) (simp_all add: NewInt64MessageReader_def newCell_def)

lemma Int64Message_converted: "good_stmts mbuf p (Int64Message_stmts) (Int64Message_ready p s) (Int64Message_stored s)"
  unfolding Int64Message_stmts_def Int64Message_ready_def Int64Message_stored_def Int64Message_getters append.simps
  by (intro good_stmts_field good_stmts.Nil) (simp_all cong: cell_reads_cong)

interpretation l_Int64Message: lazy_message Int64Message_tags Int64Message_groups Int64Message_norm
  "\<lambda>s. Int64Message_sizes s" "\<lambda>s. Int64Message_appends s"
  Int64MessageReader_save "\<lambda>p. NewInt64MessageReader\<lparr>mbuf := Some p\<rparr>" mbuf "Int64Message_stmts" Int64Message_zero Int64Message_ready Int64Message_stored
proof
  show "distinct Int64Message_tags"
    using Int64Message_cases_distinct by (simp only: Int64MessageReader_cases_def Int64Message_tags_def list.map fst_conv)
  show "list_all valid_tag Int64Message_tags"
    by (simp add: Int64Message_tags_def wireInt64Message valid_tag_def)
  show "list_all2 (\<lambda>t g. \<forall>f \<in> set g. fst f = t \<and> wf_val (snd f)) Int64Message_tags (Int64Message_groups s)" for s
    unfolding Int64Message_tags_def Int64Message_groups_def by (intro list.rel_intros field_tagged)
  show "list_all2 (\<lambda>e g. e = int (length (fields_bytes g))) (Int64Message_sizes s) (Int64Message_groups s)" for s
    unfolding Int64Message_sizes_def Int64Message_groups_def append.simps
    by (intro list.rel_intros field_sized)
  show "list_all2 (\<lambda>st g. writes st (fields_bytes g)) (Int64Message_appends s) (Int64Message_groups s)" for s
    unfolding Int64Message_appends_def Int64Message_groups_def append.simps
    by (intro list.rel_intros field_written)
  show "mbuf (Int64MessageReader_save t w off m) = mbuf m" for t w off m
    unfolding Int64MessageReader_save_def by (rule tag_switch_keeps) (simp add: Int64MessageReader_cases_def)
  show "fold (\<lambda>e. e) (Int64Message_stored s) Int64Message_zero = Int64Message_norm s" for s
    unfolding Int64Message_stored_def by (simp add: Int64Message_zero_def Int64Message_norm_def float_defaults)
qed (simp_all add: Int64Message_saved Int64Message_converted)

interpretation m_Int64Message: message_codec Int64Message_content Int64Message_norm Int64Message_XXX_PbContentSize Int64Message_MarshalTo
  "Int64MessageReader_Unmarshal NewInt64MessageReader" Int64MessageReader_ToStruct
  using l_Int64Message.message
  by (simp only: Int64Message_content_def [abs_def] Int64Message_XXX_PbContentSize_def Int64Message_MarshalTo_def Int64MessageReader_Unmarshal_def [abs_def] Int64MessageReader_ToStruct_def)


section \<open>Uint64Message: the reader\<close>

definition wireUint64Message_Data :: ProtoWireNumber where "wireUint64Message_Data = 1"

lemmas wireUint64Message =
  wireUint64Message_Data_def

record Uint64MessageReader =
  mbuf :: "Reader option"
  cellData :: "uint64 one_cell"

definition NewUint64MessageReader :: Uint64MessageReader where
  "NewUint64MessageReader = \<lparr>
     mbuf = None, cellData = newCell 0 0\<rparr>"

definition Uint64MessageReader_readData :: "Uint64MessageReader \<Rightarrow> (uint64 \<times> Uint64MessageReader) run" where
  "Uint64MessageReader_readData = readCell cellData cellData_update mbuf (readOne ReadUint64 0)"

definition Uint64MessageReader_GetData :: "Uint64MessageReader option \<Rightarrow> (uint64 \<times> Uint64MessageReader option) run" where
  "Uint64MessageReader_GetData = getter Uint64MessageReader_readData 0"

lemmas Uint64Message_getters =
  Uint64MessageReader_readData_def Uint64MessageReader_GetData_def

definition Uint64MessageReader_cases :: "ProtoWireType \<Rightarrow> int \<Rightarrow> (ProtoWireNumber \<times> (Uint64MessageReader \<Rightarrow> Uint64MessageReader)) list" where
  "Uint64MessageReader_cases wire offset = [
     (wireUint64Message_Data, \<lambda>m. m\<lparr>cellData := onOffset (setOffset wire offset) (cellData m)\<rparr>)]"

definition Uint64MessageReader_save :: "ProtoWireNumber \<Rightarrow> ProtoWireType \<Rightarrow> int \<Rightarrow> Uint64MessageReader \<Rightarrow> Uint64MessageReader" where
  "Uint64MessageReader_save tag wire offset = tag_switch (Uint64MessageReader_cases wire offset) tag"

definition Uint64MessageReader_Unmarshal :: "Uint64MessageReader \<Rightarrow> gslice \<Rightarrow> (Uint64MessageReader \<times> string option) run" where
  "Uint64MessageReader_Unmarshal m data =
     unmarshalLoop Uint64MessageReader_save (NewReader data) 0 (m\<lparr>mbuf := Some (NewReader data)\<rparr>)"

definition Uint64MessageReader_SourceBytes :: "Uint64MessageReader option \<Rightarrow> gslice" where
  "Uint64MessageReader_SourceBytes s = (case s of None \<Rightarrow> nil_slice | Some r \<Rightarrow> Bytes (mbuf r))"

section \<open>Uint64Message: the struct\<close>

record Uint64Message =
  Data :: uint64

definition Uint64Message_zero :: Uint64Message where
  "Uint64Message_zero = \<lparr>
     Data = 0\<rparr>"

definition Uint64Message_stmts :: "(Uint64Message \<times> Uint64MessageReader option \<Rightarrow> (Uint64Message \<times> Uint64MessageReader option) run) list" where
  "Uint64Message_stmts = [
     assign Uint64MessageReader_GetData (\<lambda>v res. res\<lparr>Data := v\<rparr>)]"

definition Uint64MessageReader_ToStruct :: "Uint64MessageReader option \<Rightarrow> (Uint64Message option \<times> Uint64MessageReader option) run" where
  "Uint64MessageReader_ToStruct = toStructWith (Uint64Message_stmts) Uint64Message_zero"

definition Uint64Message_appends :: "Uint64Message \<Rightarrow> (Writer \<Rightarrow> Writer go) list" where
  "Uint64Message_appends s = [
     \<lambda>res. if Data s \<noteq> 0 then AppendUint64 res wireUint64Message_Data (Data s) else Ret res]"

definition Uint64Message_MarshalTo :: "Writer \<Rightarrow> Uint64Message option \<Rightarrow> Writer go" where
  "Uint64Message_MarshalTo = marshalToWith (\<lambda>s. Uint64Message_appends s)"

definition Uint64Message_sizes :: "Uint64Message \<Rightarrow> int list" where
  "Uint64Message_sizes s = [
     if Data s \<noteq> 0 then sizeWithTag SizeUint64 wireUint64Message_Data (Data s) else 0]"

definition Uint64Message_XXX_PbContentSize :: "Uint64Message option \<Rightarrow> int" where
  "Uint64Message_XXX_PbContentSize = contentSizeWith (\<lambda>s. Uint64Message_sizes s)"

definition Uint64Message_Marshal :: "Uint64Message option \<Rightarrow> byte list go" where
  "Uint64Message_Marshal = marshalWith Uint64Message_XXX_PbContentSize Uint64Message_MarshalTo"

definition Uint64Message_Copy :: "Uint64Message option \<Rightarrow> Uint64Message option" where
  "Uint64Message_Copy s =
     (case s of None \<Rightarrow> None | Some s \<Rightarrow> Some \<lparr>
        Data = Data s\<rparr>)"

section \<open>Uint64Message: the round trip\<close>

definition Uint64Message_tags :: "ProtoWireNumber list" where
  "Uint64Message_tags = [
     wireUint64Message_Data]"

definition Uint64Message_groups :: "Uint64Message \<Rightarrow> wfield list list" where
  "Uint64Message_groups s = [
     opt_field (Data s \<noteq> 0) (wireUint64Message_Data, uint64_val (Data s))]"

definition Uint64Message_content :: "Uint64Message \<Rightarrow> wfield list" where
  "Uint64Message_content s = concat (Uint64Message_groups s)"

text \<open>What a round trip keeps.\<close>

definition Uint64Message_norm :: "Uint64Message \<Rightarrow> Uint64Message" where
  "Uint64Message_norm s = s"

definition Uint64Message_ready :: "Reader \<Rightarrow> Uint64Message \<Rightarrow> (Uint64MessageReader \<Rightarrow> bool) list" where
  "Uint64Message_ready p s = [
     \<lambda>m. cell_reads (readOne ReadUint64 0) plain p (if Data s \<noteq> 0 then Data s else 0) (cellData m)]"

definition Uint64Message_stored :: "Uint64Message \<Rightarrow> (Uint64Message \<Rightarrow> Uint64Message) list" where
  "Uint64Message_stored s = [
     \<lambda>res. res\<lparr>Data := if Data s \<noteq> 0 then Data s else 0\<rparr>]"

lemma Uint64Message_cases_distinct: "distinct (map fst (Uint64MessageReader_cases wire offset))"
  by (rule ascending_distinct) (simp add: Uint64MessageReader_cases_def wireUint64Message)

lemma Uint64Message_stores:
  "stores_cell Uint64MessageReader_save wireUint64Message_Data setOffset cellData"
  unfolding Uint64MessageReader_save_def [abs_def] by (rule stores_cell_switch; (rule Uint64Message_cases_distinct)?; unfold Uint64MessageReader_cases_def; intro own_case.intros; simp)+

lemma Uint64Message_saved: "good_fields Uint64MessageReader_save p (NewUint64MessageReader\<lparr>mbuf := Some p\<rparr>) Uint64Message_tags (Uint64Message_groups s) (Uint64Message_ready p s)"
  unfolding Uint64Message_tags_def Uint64Message_groups_def Uint64Message_ready_def
  by (intro good_fields.intros field_saved Uint64Message_stores) (simp_all add: NewUint64MessageReader_def newCell_def)

lemma Uint64Message_converted: "good_stmts mbuf p (Uint64Message_stmts) (Uint64Message_ready p s) (Uint64Message_stored s)"
  unfolding Uint64Message_stmts_def Uint64Message_ready_def Uint64Message_stored_def Uint64Message_getters append.simps
  by (intro good_stmts_field good_stmts.Nil) (simp_all cong: cell_reads_cong)

interpretation l_Uint64Message: lazy_message Uint64Message_tags Uint64Message_groups Uint64Message_norm
  "\<lambda>s. Uint64Message_sizes s" "\<lambda>s. Uint64Message_appends s"
  Uint64MessageReader_save "\<lambda>p. NewUint64MessageReader\<lparr>mbuf := Some p\<rparr>" mbuf "Uint64Message_stmts" Uint64Message_zero Uint64Message_ready Uint64Message_stored
proof
  show "distinct Uint64Message_tags"
    using Uint64Message_cases_distinct by (simp only: Uint64MessageReader_cases_def Uint64Message_tags_def list.map fst_conv)
  show "list_all valid_tag Uint64Message_tags"
    by (simp add: Uint64Message_tags_def wireUint64Message valid_tag_def)
  show "list_all2 (\<lambda>t g. \<forall>f \<in> set g. fst f = t \<and> wf_val (snd f)) Uint64Message_tags (Uint64Message_groups s)" for s
    unfolding Uint64Message_tags_def Uint64Message_groups_def by (intro list.rel_intros field_tagged)
  show "list_all2 (\<lambda>e g. e = int (length (fields_bytes g))) (Uint64Message_sizes s) (Uint64Message_groups s)" for s
    unfolding Uint64Message_sizes_def Uint64Message_groups_def append.simps
    by (intro list.rel_intros field_sized)
  show "list_all2 (\<lambda>st g. writes st (fields_bytes g)) (Uint64Message_appends s) (Uint64Message_groups s)" for s
    unfolding Uint64Message_appends_def Uint64Message_groups_def append.simps
    by (intro list.rel_intros field_written)
  show "mbuf (Uint64MessageReader_save t w off m) = mbuf m" for t w off m
    unfolding Uint64MessageReader_save_def by (rule tag_switch_keeps) (simp add: Uint64MessageReader_cases_def)
  show "fold (\<lambda>e. e) (Uint64Message_stored s) Uint64Message_zero = Uint64Message_norm s" for s
    unfolding Uint64Message_stored_def by (simp add: Uint64Message_zero_def Uint64Message_norm_def float_defaults)
qed (simp_all add: Uint64Message_saved Uint64Message_converted)

interpretation m_Uint64Message: message_codec Uint64Message_content Uint64Message_norm Uint64Message_XXX_PbContentSize Uint64Message_MarshalTo
  "Uint64MessageReader_Unmarshal NewUint64MessageReader" Uint64MessageReader_ToStruct
  using l_Uint64Message.message
  by (simp only: Uint64Message_content_def [abs_def] Uint64Message_XXX_PbContentSize_def Uint64Message_MarshalTo_def Uint64MessageReader_Unmarshal_def [abs_def] Uint64MessageReader_ToStruct_def)


section \<open>BoolMessage: the reader\<close>

definition wireBoolMessage_Data :: ProtoWireNumber where "wireBoolMessage_Data = 1"

lemmas wireBoolMessage =
  wireBoolMessage_Data_def

record BoolMessageReader =
  mbuf :: "Reader option"
  cellData :: "bool one_cell"

definition NewBoolMessageReader :: BoolMessageReader where
  "NewBoolMessageReader = \<lparr>
     mbuf = None, cellData = newCell False 0\<rparr>"

definition BoolMessageReader_readData :: "BoolMessageReader \<Rightarrow> (bool \<times> BoolMessageReader) run" where
  "BoolMessageReader_readData = readCell cellData cellData_update mbuf (readOne ReadBool False)"

definition BoolMessageReader_GetData :: "BoolMessageReader option \<Rightarrow> (bool \<times> BoolMessageReader option) run" where
  "BoolMessageReader_GetData = getter BoolMessageReader_readData False"

lemmas BoolMessage_getters =
  BoolMessageReader_readData_def BoolMessageReader_GetData_def

definition BoolMessageReader_cases :: "ProtoWireType \<Rightarrow> int \<Rightarrow> (ProtoWireNumber \<times> (BoolMessageReader \<Rightarrow> BoolMessageReader)) list" where
  "BoolMessageReader_cases wire offset = [
     (wireBoolMessage_Data, \<lambda>m. m\<lparr>cellData := onOffset (setOffset wire offset) (cellData m)\<rparr>)]"

definition BoolMessageReader_save :: "ProtoWireNumber \<Rightarrow> ProtoWireType \<Rightarrow> int \<Rightarrow> BoolMessageReader \<Rightarrow> BoolMessageReader" where
  "BoolMessageReader_save tag wire offset = tag_switch (BoolMessageReader_cases wire offset) tag"

definition BoolMessageReader_Unmarshal :: "BoolMessageReader \<Rightarrow> gslice \<Rightarrow> (BoolMessageReader \<times> string option) run" where
  "BoolMessageReader_Unmarshal m data =
     unmarshalLoop BoolMessageReader_save (NewReader data) 0 (m\<lparr>mbuf := Some (NewReader data)\<rparr>)"

definition BoolMessageReader_SourceBytes :: "BoolMessageReader option \<Rightarrow> gslice" where
  "BoolMessageReader_SourceBytes s = (case s of None \<Rightarrow> nil_slice | Some r \<Rightarrow> Bytes (mbuf r))"

section \<open>BoolMessage: the struct\<close>

record BoolMessage =
  Data :: bool

definition BoolMessage_zero :: BoolMessage where
  "BoolMessage_zero = \<lparr>
     Data = False\<rparr>"

definition BoolMessage_stmts :: "(BoolMessage \<times> BoolMessageReader option \<Rightarrow> (BoolMessage \<times> BoolMessageReader option) run) list" where
  "BoolMessage_stmts = [
     assign BoolMessageReader_GetData (\<lambda>v res. res\<lparr>Data := v\<rparr>)]"

definition BoolMessageReader_ToStruct :: "BoolMessageReader option \<Rightarrow> (BoolMessage option \<times> BoolMessageReader option) run" where
  "BoolMessageReader_ToStruct = toStructWith (BoolMessage_stmts) BoolMessage_zero"

definition BoolMessage_appends :: "BoolMessage \<Rightarrow> (Writer \<Rightarrow> Writer go) list" where
  "BoolMessage_appends s = [
     \<lambda>res. if Data s then AppendBool res wireBoolMessage_Data (Data s) else Ret res]"

definition BoolMessage_MarshalTo :: "Writer \<Rightarrow> BoolMessage option \<Rightarrow> Writer go" where
  "BoolMessage_MarshalTo = marshalToWith (\<lambda>s. BoolMessage_appends s)"

definition BoolMessage_sizes :: "BoolMessage \<Rightarrow> int list" where
  "BoolMessage_sizes s = [
     if Data s then sizeWithTag SizeBool wireBoolMessage_Data (Data s) else 0]"

definition BoolMessage_XXX_PbContentSize :: "BoolMessage option \<Rightarrow> int" where
  "BoolMessage_XXX_PbContentSize = contentSizeWith (\<lambda>s. BoolMessage_sizes s)"

definition BoolMessage_Marshal :: "BoolMessage option \<Rightarrow> byte list go" where
  "BoolMessage_Marshal = marshalWith BoolMessage_XXX_PbContentSize BoolMessage_MarshalTo"

definition BoolMessage_Copy :: "BoolMessage option \<Rightarrow> BoolMessage option" where
  "BoolMessage_Copy s =
     (case s of None \<Rightarrow> None | Some s \<Rightarrow> Some \<lparr>
        Data = Data s\<rparr>)"

section \<open>BoolMessage: the round trip\<close>

definition BoolMessage_tags :: "ProtoWireNumber list" where
  "BoolMessage_tags = [
     wireBoolMessage_Data]"

definition BoolMessage_groups :: "BoolMessage \<Rightarrow> wfield list list" where
  "BoolMessage_groups s = [
     opt_field (Data s) (wireBoolMessage_Data, bool_val (Data s))]"

definition BoolMessage_content :: "BoolMessage \<Rightarrow> wfield list" where
  "BoolMessage_content s = concat (BoolMessage_groups s)"

text \<open>What a round trip keeps.\<close>

definition BoolMessage_norm :: "BoolMessage \<Rightarrow> BoolMessage" where
  "BoolMessage_norm s = s"

definition BoolMessage_ready :: "Reader \<Rightarrow> BoolMessage \<Rightarrow> (BoolMessageReader \<Rightarrow> bool) list" where
  "BoolMessage_ready p s = [
     \<lambda>m. cell_reads (readOne ReadBool False) plain p (if Data s then Data s else False) (cellData m)]"

definition BoolMessage_stored :: "BoolMessage \<Rightarrow> (BoolMessage \<Rightarrow> BoolMessage) list" where
  "BoolMessage_stored s = [
     \<lambda>res. res\<lparr>Data := if Data s then Data s else False\<rparr>]"

lemma BoolMessage_cases_distinct: "distinct (map fst (BoolMessageReader_cases wire offset))"
  by (rule ascending_distinct) (simp add: BoolMessageReader_cases_def wireBoolMessage)

lemma BoolMessage_stores:
  "stores_cell BoolMessageReader_save wireBoolMessage_Data setOffset cellData"
  unfolding BoolMessageReader_save_def [abs_def] by (rule stores_cell_switch; (rule BoolMessage_cases_distinct)?; unfold BoolMessageReader_cases_def; intro own_case.intros; simp)+

lemma BoolMessage_saved: "good_fields BoolMessageReader_save p (NewBoolMessageReader\<lparr>mbuf := Some p\<rparr>) BoolMessage_tags (BoolMessage_groups s) (BoolMessage_ready p s)"
  unfolding BoolMessage_tags_def BoolMessage_groups_def BoolMessage_ready_def
  by (intro good_fields.intros field_saved BoolMessage_stores) (simp_all add: NewBoolMessageReader_def newCell_def)

lemma BoolMessage_converted: "good_stmts mbuf p (BoolMessage_stmts) (BoolMessage_ready p s) (BoolMessage_stored s)"
  unfolding BoolMessage_stmts_def BoolMessage_ready_def BoolMessage_stored_def BoolMessage_getters append.simps
  by (intro good_stmts_field good_stmts.Nil) (simp_all cong: cell_reads_cong)

interpretation l_BoolMessage: lazy_message BoolMessage_tags BoolMessage_groups BoolMessage_norm
  "\<lambda>s. BoolMessage_sizes s" "\<lambda>s. BoolMessage_appends s"
  BoolMessageReader_save "\<lambda>p. NewBoolMessageReader\<lparr>mbuf := Some p\<rparr>" mbuf "BoolMessage_stmts" BoolMessage_zero BoolMessage_ready BoolMessage_stored
proof
  show "distinct BoolMessage_tags"
    using BoolMessage_cases_distinct by (simp only: BoolMessageReader_cases_def BoolMessage_tags_def list.map fst_conv)
  show "list_all valid_tag BoolMessage_tags"
    by (simp add: BoolMessage_tags_def wireBoolMessage valid_tag_def)
  show "list_all2 (\<lambda>t g. \<forall>f \<in> set g. fst f = t \<and> wf_val (snd f)) BoolMessage_tags (BoolMessage_groups s)" for s
    unfolding BoolMessage_tags_def BoolMessage_groups_def by (intro list.rel_intros field_tagged)
  show "list_all2 (\<lambda>e g. e = int (length (fields_bytes g))) (BoolMessage_sizes s) (BoolMessage_groups s)" for s
    unfolding BoolMessage_sizes_def BoolMessage_groups_def append.simps
    by (intro list.rel_intros field_sized)
  show "list_all2 (\<lambda>st g. writes st (fields_bytes g)) (BoolMessage_appends s) (BoolMessage_groups s)" for s
    unfolding BoolMessage_appends_def BoolMessage_groups_def append.simps
    by (intro list.rel_intros field_written)
  show "mbuf (BoolMessageReader_save t w off m) = mbuf m" for t w off m
    unfolding BoolMessageReader_save_def by (rule tag_switch_keeps) (simp add: BoolMessageReader_cases_def)
  show "fold (\<lambda>e. e) (BoolMessage_stored s) BoolMessage_zero = BoolMessage_norm s" for s
    unfolding BoolMessage_stored_def by (simp add: BoolMessage_zero_def BoolMessage_norm_def float_defaults)
qed (simp_all add: BoolMessage_saved BoolMessage_converted)

interpretation m_BoolMessage: message_codec BoolMessage_content BoolMessage_norm BoolMessage_XXX_PbContentSize BoolMessage_MarshalTo
  "BoolMessageReader_Unmarshal NewBoolMessageReader" BoolMessageReader_ToStruct
  using l_BoolMessage.message
  by (simp only: BoolMessage_content_def [abs_def] BoolMessage_XXX_PbContentSize_def BoolMessage_MarshalTo_def BoolMessageReader_Unmarshal_def [abs_def] BoolMessageReader_ToStruct_def)


section \<open>SparseEnumMessage: the reader\<close>

definition wireSparseEnumMessage_SparseEnum :: ProtoWireNumber where "wireSparseEnumMessage_SparseEnum = 1"

lemmas wireSparseEnumMessage =
  wireSparseEnumMessage_SparseEnum_def

record SparseEnumMessageReader =
  mbuf :: "Reader option"
  cellSparseEnum :: "TestSparseEnum one_cell"

definition NewSparseEnumMessageReader :: SparseEnumMessageReader where
  "NewSparseEnumMessageReader = \<lparr>
     mbuf = None, cellSparseEnum = newCell 0 0\<rparr>"

definition SparseEnumMessageReader_readSparseEnum :: "SparseEnumMessageReader \<Rightarrow> (TestSparseEnum \<times> SparseEnumMessageReader) run" where
  "SparseEnumMessageReader_readSparseEnum = readCell cellSparseEnum cellSparseEnum_update mbuf (readOne ReadInt32 0)"

definition SparseEnumMessageReader_GetSparseEnum :: "SparseEnumMessageReader option \<Rightarrow> (TestSparseEnum \<times> SparseEnumMessageReader option) run" where
  "SparseEnumMessageReader_GetSparseEnum = getter SparseEnumMessageReader_readSparseEnum 0"

lemmas SparseEnumMessage_getters =
  SparseEnumMessageReader_readSparseEnum_def SparseEnumMessageReader_GetSparseEnum_def

definition SparseEnumMessageReader_cases :: "ProtoWireType \<Rightarrow> int \<Rightarrow> (ProtoWireNumber \<times> (SparseEnumMessageReader \<Rightarrow> SparseEnumMessageReader)) list" where
  "SparseEnumMessageReader_cases wire offset = [
     (wireSparseEnumMessage_SparseEnum, \<lambda>m. m\<lparr>cellSparseEnum := onOffset (setOffset wire offset) (cellSparseEnum m)\<rparr>)]"

definition SparseEnumMessageReader_save :: "ProtoWireNumber \<Rightarrow> ProtoWireType \<Rightarrow> int \<Rightarrow> SparseEnumMessageReader \<Rightarrow> SparseEnumMessageReader" where
  "SparseEnumMessageReader_save tag wire offset = tag_switch (SparseEnumMessageReader_cases wire offset) tag"

definition SparseEnumMessageReader_Unmarshal :: "SparseEnumMessageReader \<Rightarrow> gslice \<Rightarrow> (SparseEnumMessageReader \<times> string option) run" where
  "SparseEnumMessageReader_Unmarshal m data =
     unmarshalLoop SparseEnumMessageReader_save (NewReader data) 0 (m\<lparr>mbuf := Some (NewReader data)\<rparr>)"

definition SparseEnumMessageReader_SourceBytes :: "SparseEnumMessageReader option \<Rightarrow> gslice" where
  "SparseEnumMessageReader_SourceBytes s = (case s of None \<Rightarrow> nil_slice | Some r \<Rightarrow> Bytes (mbuf r))"

section \<open>SparseEnumMessage: the struct\<close>

record SparseEnumMessage =
  SparseEnum :: TestSparseEnum

definition SparseEnumMessage_zero :: SparseEnumMessage where
  "SparseEnumMessage_zero = \<lparr>
     SparseEnum = 0\<rparr>"

definition SparseEnumMessage_stmts :: "(SparseEnumMessage \<times> SparseEnumMessageReader option \<Rightarrow> (SparseEnumMessage \<times> SparseEnumMessageReader option) run) list" where
  "SparseEnumMessage_stmts = [
     assign SparseEnumMessageReader_GetSparseEnum (\<lambda>v res. res\<lparr>SparseEnum := v\<rparr>)]"

definition SparseEnumMessageReader_ToStruct :: "SparseEnumMessageReader option \<Rightarrow> (SparseEnumMessage option \<times> SparseEnumMessageReader option) run" where
  "SparseEnumMessageReader_ToStruct = toStructWith (SparseEnumMessage_stmts) SparseEnumMessage_zero"

definition SparseEnumMessage_appends :: "SparseEnumMessage \<Rightarrow> (Writer \<Rightarrow> Writer go) list" where
  "SparseEnumMessage_appends s = [
     \<lambda>res. if SparseEnum s \<noteq> 0 then AppendInt32 res wireSparseEnumMessage_SparseEnum (SparseEnum s) else Ret res]"

definition SparseEnumMessage_MarshalTo :: "Writer \<Rightarrow> SparseEnumMessage option \<Rightarrow> Writer go" where
  "SparseEnumMessage_MarshalTo = marshalToWith (\<lambda>s. SparseEnumMessage_appends s)"

definition SparseEnumMessage_sizes :: "SparseEnumMessage \<Rightarrow> int list" where
  "SparseEnumMessage_sizes s = [
     if SparseEnum s \<noteq> 0 then sizeWithTag SizeInt32 wireSparseEnumMessage_SparseEnum (SparseEnum s) else 0]"

definition SparseEnumMessage_XXX_PbContentSize :: "SparseEnumMessage option \<Rightarrow> int" where
  "SparseEnumMessage_XXX_PbContentSize = contentSizeWith (\<lambda>s. SparseEnumMessage_sizes s)"

definition SparseEnumMessage_Marshal :: "SparseEnumMessage option \<Rightarrow> byte list go" where
  "SparseEnumMessage_Marshal = marshalWith SparseEnumMessage_XXX_PbContentSize SparseEnumMessage_MarshalTo"

definition SparseEnumMessage_Copy :: "SparseEnumMessage option \<Rightarrow> SparseEnumMessage option" where
  "SparseEnumMessage_Copy s =
     (case s of None \<Rightarrow> None | Some s \<Rightarrow> Some \<lparr>
        SparseEnum = SparseEnum s\<rparr>)"

section \<open>SparseEnumMessage: the round trip\<close>

definition SparseEnumMessage_tags :: "ProtoWireNumber list" where
  "SparseEnumMessage_tags = [
     wireSparseEnumMessage_SparseEnum]"

definition SparseEnumMessage_groups :: "SparseEnumMessage \<Rightarrow> wfield list list" where
  "SparseEnumMessage_groups s = [
     opt_field (SparseEnum s \<noteq> 0) (wireSparseEnumMessage_SparseEnum, int32_val (SparseEnum s))]"

definition SparseEnumMessage_content :: "SparseEnumMessage \<Rightarrow> wfield list" where
  "SparseEnumMessage_content s = concat (SparseEnumMessage_groups s)"

text \<open>What a round trip keeps.\<close>

definition SparseEnumMessage_norm :: "SparseEnumMessage \<Rightarrow> SparseEnumMessage" where
  "SparseEnumMessage_norm s = s"

definition SparseEnumMessage_ready :: "Reader \<Rightarrow> SparseEnumMessage \<Rightarrow> (SparseEnumMessageReader \<Rightarrow> bool) list" where
  "SparseEnumMessage_ready p s = [
     \<lambda>m. cell_reads (readOne ReadInt32 0) plain p (if SparseEnum s \<noteq> 0 then SparseEnum s else 0) (cellSparseEnum m)]"

definition SparseEnumMessage_stored :: "SparseEnumMessage \<Rightarrow> (SparseEnumMessage \<Rightarrow> SparseEnumMessage) list" where
  "SparseEnumMessage_stored s = [
     \<lambda>res. res\<lparr>SparseEnum := if SparseEnum s \<noteq> 0 then SparseEnum s else 0\<rparr>]"

lemma SparseEnumMessage_cases_distinct: "distinct (map fst (SparseEnumMessageReader_cases wire offset))"
  by (rule ascending_distinct) (simp add: SparseEnumMessageReader_cases_def wireSparseEnumMessage)

lemma SparseEnumMessage_stores:
  "stores_cell SparseEnumMessageReader_save wireSparseEnumMessage_SparseEnum setOffset cellSparseEnum"
  unfolding SparseEnumMessageReader_save_def [abs_def] by (rule stores_cell_switch; (rule SparseEnumMessage_cases_distinct)?; unfold SparseEnumMessageReader_cases_def; intro own_case.intros; simp)+

lemma SparseEnumMessage_saved: "good_fields SparseEnumMessageReader_save p (NewSparseEnumMessageReader\<lparr>mbuf := Some p\<rparr>) SparseEnumMessage_tags (SparseEnumMessage_groups s) (SparseEnumMessage_ready p s)"
  unfolding SparseEnumMessage_tags_def SparseEnumMessage_groups_def SparseEnumMessage_ready_def
  by (intro good_fields.intros field_saved SparseEnumMessage_stores) (simp_all add: NewSparseEnumMessageReader_def newCell_def)

lemma SparseEnumMessage_converted: "good_stmts mbuf p (SparseEnumMessage_stmts) (SparseEnumMessage_ready p s) (SparseEnumMessage_stored s)"
  unfolding SparseEnumMessage_stmts_def SparseEnumMessage_ready_def SparseEnumMessage_stored_def SparseEnumMessage_getters append.simps
  by (intro good_stmts_field good_stmts.Nil) (simp_all cong: cell_reads_cong)

interpretation l_SparseEnumMessage: lazy_message SparseEnumMessage_tags SparseEnumMessage_groups SparseEnumMessage_norm
  "\<lambda>s. SparseEnumMessage_sizes s" "\<lambda>s. SparseEnumMessage_appends s"
  SparseEnumMessageReader_save "\<lambda>p. NewSparseEnumMessageReader\<lparr>mbuf := Some p\<rparr>" mbuf "SparseEnumMessage_stmts" SparseEnumMessage_zero SparseEnumMessage_ready SparseEnumMessage_stored
proof
  show "distinct SparseEnumMessage_tags"
    using SparseEnumMessage_cases_distinct by (simp only: SparseEnumMessageReader_cases_def SparseEnumMessage_tags_def list.map fst_conv)
  show "list_all valid_tag SparseEnumMessage_tags"
    by (simp add: SparseEnumMessage_tags_def wireSparseEnumMessage valid_tag_def)
  show "list_all2 (\<lambda>t g. \<forall>f \<in> set g. fst f = t \<and> wf_val (snd f)) SparseEnumMessage_tags (SparseEnumMessage_groups s)" for s
    unfolding SparseEnumMessage_tags_def SparseEnumMessage_groups_def by (intro list.rel_intros field_tagged)
  show "list_all2 (\<lambda>e g. e = int (length (fields_bytes g))) (SparseEnumMessage_sizes s) (SparseEnumMessage_groups s)" for s
    unfolding SparseEnumMessage_sizes_def SparseEnumMessage_groups_def append.simps
    by (intro list.rel_intros field_sized)
  show "list_all2 (\<lambda>st g. writes st (fields_bytes g)) (SparseEnumMessage_appends s) (SparseEnumMessage_groups s)" for s
    unfolding SparseEnumMessage_appends_def SparseEnumMessage_groups_def append.simps
    by (intro list.rel_intros field_written)
  show "mbuf (SparseEnumMessageReader_save t w off m) = mbuf m" for t w off m
    unfolding SparseEnumMessageReader_save_def by (rule tag_switch_keeps) (simp add: SparseEnumMessageReader_cases_def)
  show "fold (\<lambda>e. e) (SparseEnumMessage_stored s) SparseEnumMessage_zero = SparseEnumMessage_norm s" for s
    unfolding SparseEnumMessage_stored_def by (simp add: SparseEnumMessage_zero_def SparseEnumMessage_norm_def float_defaults)
qed (simp_all add: SparseEnumMessage_saved SparseEnumMessage_converted)

interpretation m_SparseEnumMessage: message_codec SparseEnumMessage_content SparseEnumMessage_norm SparseEnumMessage_XXX_PbContentSize SparseEnumMessage_MarshalTo
  "SparseEnumMessageReader_Unmarshal NewSparseEnumMessageReader" SparseEnumMessageReader_ToStruct
  using l_SparseEnumMessage.message
  by (simp only: SparseEnumMessage_content_def [abs_def] SparseEnumMessage_XXX_PbContentSize_def SparseEnumMessage_MarshalTo_def SparseEnumMessageReader_Unmarshal_def [abs_def] SparseEnumMessageReader_ToStruct_def)


section \<open>TestMessageSize: the reader\<close>

definition wireTestMessageSize_M1 :: ProtoWireNumber where "wireTestMessageSize_M1 = 1"
definition wireTestMessageSize_M2 :: ProtoWireNumber where "wireTestMessageSize_M2 = 2"
definition wireTestMessageSize_M3 :: ProtoWireNumber where "wireTestMessageSize_M3 = 3"
definition wireTestMessageSize_M4 :: ProtoWireNumber where "wireTestMessageSize_M4 = 4"
definition wireTestMessageSize_M5 :: ProtoWireNumber where "wireTestMessageSize_M5 = 5"
definition wireTestMessageSize_M6 :: ProtoWireNumber where "wireTestMessageSize_M6 = 6"

lemmas wireTestMessageSize =
  wireTestMessageSize_M1_def wireTestMessageSize_M2_def wireTestMessageSize_M3_def
  wireTestMessageSize_M4_def wireTestMessageSize_M5_def wireTestMessageSize_M6_def

record TestMessageSizeReader =
  mbuf :: "Reader option"
  cellM1 :: "bool one_cell"
  cellM2 :: "int64 one_cell"
  cellM3 :: "bool one_cell"
  cellM4 :: "gostring one_cell"
  cellM5 :: "int32 one_cell"
  cellM6 :: "int64 one_cell"

definition NewTestMessageSizeReader :: TestMessageSizeReader where
  "NewTestMessageSizeReader = \<lparr>
     mbuf = None, cellM1 = newCell False 0, cellM2 = newCell 0 0, cellM3 = newCell False 0,
     cellM4 = newCell [] 0, cellM5 = newCell 0 0, cellM6 = newCell 0 0\<rparr>"

definition TestMessageSizeReader_readM1 :: "TestMessageSizeReader \<Rightarrow> (bool \<times> TestMessageSizeReader) run" where
  "TestMessageSizeReader_readM1 = readCell cellM1 cellM1_update mbuf (readOne ReadBool False)"

definition TestMessageSizeReader_GetM1 :: "TestMessageSizeReader option \<Rightarrow> (bool \<times> TestMessageSizeReader option) run" where
  "TestMessageSizeReader_GetM1 = getter TestMessageSizeReader_readM1 False"

definition TestMessageSizeReader_readM2 :: "TestMessageSizeReader \<Rightarrow> (int64 \<times> TestMessageSizeReader) run" where
  "TestMessageSizeReader_readM2 = readCell cellM2 cellM2_update mbuf (readOne ReadInt64 0)"

definition TestMessageSizeReader_GetM2 :: "TestMessageSizeReader option \<Rightarrow> (int64 \<times> TestMessageSizeReader option) run" where
  "TestMessageSizeReader_GetM2 = getter TestMessageSizeReader_readM2 0"

definition TestMessageSizeReader_readM3 :: "TestMessageSizeReader \<Rightarrow> (bool \<times> TestMessageSizeReader) run" where
  "TestMessageSizeReader_readM3 = readCell cellM3 cellM3_update mbuf (readOne ReadBool False)"

definition TestMessageSizeReader_GetM3 :: "TestMessageSizeReader option \<Rightarrow> (bool \<times> TestMessageSizeReader option) run" where
  "TestMessageSizeReader_GetM3 = getter TestMessageSizeReader_readM3 False"

definition TestMessageSizeReader_readM4 :: "TestMessageSizeReader \<Rightarrow> (gostring \<times> TestMessageSizeReader) run" where
  "TestMessageSizeReader_readM4 = readCell cellM4 cellM4_update mbuf (readOne ReadString [])"

definition TestMessageSizeReader_GetM4 :: "TestMessageSizeReader option \<Rightarrow> (gostring \<times> TestMessageSizeReader option) run" where
  "TestMessageSizeReader_GetM4 = getter TestMessageSizeReader_readM4 []"

definition TestMessageSizeReader_readM5 :: "TestMessageSizeReader \<Rightarrow> (int32 \<times> TestMessageSizeReader) run" where
  "TestMessageSizeReader_readM5 = readCell cellM5 cellM5_update mbuf (readOne ReadInt32 0)"

definition TestMessageSizeReader_GetM5 :: "TestMessageSizeReader option \<Rightarrow> (int32 \<times> TestMessageSizeReader option) run" where
  "TestMessageSizeReader_GetM5 = getter TestMessageSizeReader_readM5 0"

definition TestMessageSizeReader_readM6 :: "TestMessageSizeReader \<Rightarrow> (int64 \<times> TestMessageSizeReader) run" where
  "TestMessageSizeReader_readM6 = readCell cellM6 cellM6_update mbuf (readOne ReadInt64 0)"

definition TestMessageSizeReader_GetM6 :: "TestMessageSizeReader option \<Rightarrow> (int64 \<times> TestMessageSizeReader option) run" where
  "TestMessageSizeReader_GetM6 = getter TestMessageSizeReader_readM6 0"

lemmas TestMessageSize_getters =
  TestMessageSizeReader_readM1_def TestMessageSizeReader_GetM1_def
  TestMessageSizeReader_readM2_def TestMessageSizeReader_GetM2_def
  TestMessageSizeReader_readM3_def TestMessageSizeReader_GetM3_def
  TestMessageSizeReader_readM4_def TestMessageSizeReader_GetM4_def
  TestMessageSizeReader_readM5_def TestMessageSizeReader_GetM5_def
  TestMessageSizeReader_readM6_def TestMessageSizeReader_GetM6_def

definition TestMessageSizeReader_cases :: "ProtoWireType \<Rightarrow> int \<Rightarrow> (ProtoWireNumber \<times> (TestMessageSizeReader \<Rightarrow> TestMessageSizeReader)) list" where
  "TestMessageSizeReader_cases wire offset = [
     (wireTestMessageSize_M1, \<lambda>m. m\<lparr>cellM1 := onOffset (setOffset wire offset) (cellM1 m)\<rparr>),
     (wireTestMessageSize_M2, \<lambda>m. m\<lparr>cellM2 := onOffset (setOffset wire offset) (cellM2 m)\<rparr>),
     (wireTestMessageSize_M3, \<lambda>m. m\<lparr>cellM3 := onOffset (setOffset wire offset) (cellM3 m)\<rparr>),
     (wireTestMessageSize_M4, \<lambda>m. m\<lparr>cellM4 := onOffset (setOffset wire offset) (cellM4 m)\<rparr>),
     (wireTestMessageSize_M5, \<lambda>m. m\<lparr>cellM5 := onOffset (setOffset wire offset) (cellM5 m)\<rparr>),
     (wireTestMessageSize_M6, \<lambda>m. m\<lparr>cellM6 := onOffset (setOffset wire offset) (cellM6 m)\<rparr>)]"

definition TestMessageSizeReader_save :: "ProtoWireNumber \<Rightarrow> ProtoWireType \<Rightarrow> int \<Rightarrow> TestMessageSizeReader \<Rightarrow> TestMessageSizeReader" where
  "TestMessageSizeReader_save tag wire offset = tag_switch (TestMessageSizeReader_cases wire offset) tag"

definition TestMessageSizeReader_Unmarshal :: "TestMessageSizeReader \<Rightarrow> gslice \<Rightarrow> (TestMessageSizeReader \<times> string option) run" where
  "TestMessageSizeReader_Unmarshal m data =
     unmarshalLoop TestMessageSizeReader_save (NewReader data) 0 (m\<lparr>mbuf := Some (NewReader data)\<rparr>)"

definition TestMessageSizeReader_SourceBytes :: "TestMessageSizeReader option \<Rightarrow> gslice" where
  "TestMessageSizeReader_SourceBytes s = (case s of None \<Rightarrow> nil_slice | Some r \<Rightarrow> Bytes (mbuf r))"

section \<open>TestMessageSize: the struct\<close>

record TestMessageSize =
  M1 :: bool
  M2 :: int64
  M3 :: bool
  M4 :: gostring
  M5 :: int32
  M6 :: int64

definition TestMessageSize_zero :: TestMessageSize where
  "TestMessageSize_zero = \<lparr>
     M1 = False, M2 = 0, M3 = False, M4 = [], M5 = 0, M6 = 0\<rparr>"

definition TestMessageSize_stmts :: "(TestMessageSize \<times> TestMessageSizeReader option \<Rightarrow> (TestMessageSize \<times> TestMessageSizeReader option) run) list" where
  "TestMessageSize_stmts = [
     assign TestMessageSizeReader_GetM1 (\<lambda>v res. res\<lparr>M1 := v\<rparr>),
     assign TestMessageSizeReader_GetM2 (\<lambda>v res. res\<lparr>M2 := v\<rparr>),
     assign TestMessageSizeReader_GetM3 (\<lambda>v res. res\<lparr>M3 := v\<rparr>),
     assign TestMessageSizeReader_GetM4 (\<lambda>v res. res\<lparr>M4 := v\<rparr>),
     assign TestMessageSizeReader_GetM5 (\<lambda>v res. res\<lparr>M5 := v\<rparr>),
     assign TestMessageSizeReader_GetM6 (\<lambda>v res. res\<lparr>M6 := v\<rparr>)]"

definition TestMessageSizeReader_ToStruct :: "TestMessageSizeReader option \<Rightarrow> (TestMessageSize option \<times> TestMessageSizeReader option) run" where
  "TestMessageSizeReader_ToStruct = toStructWith (TestMessageSize_stmts) TestMessageSize_zero"

definition TestMessageSize_appends :: "TestMessageSize \<Rightarrow> (Writer \<Rightarrow> Writer go) list" where
  "TestMessageSize_appends s = [
     \<lambda>res. if M1 s then AppendBool res wireTestMessageSize_M1 (M1 s) else Ret res,
     \<lambda>res. if M2 s \<noteq> 0 then AppendInt64 res wireTestMessageSize_M2 (M2 s) else Ret res,
     \<lambda>res. if M3 s then AppendBool res wireTestMessageSize_M3 (M3 s) else Ret res,
     \<lambda>res. if M4 s \<noteq> [] then AppendString res wireTestMessageSize_M4 (M4 s) else Ret res,
     \<lambda>res. if M5 s \<noteq> 0 then AppendInt32 res wireTestMessageSize_M5 (M5 s) else Ret res,
     \<lambda>res. if M6 s \<noteq> 0 then AppendInt64 res wireTestMessageSize_M6 (M6 s) else Ret res]"

definition TestMessageSize_MarshalTo :: "Writer \<Rightarrow> TestMessageSize option \<Rightarrow> Writer go" where
  "TestMessageSize_MarshalTo = marshalToWith (\<lambda>s. TestMessageSize_appends s)"

definition TestMessageSize_sizes :: "TestMessageSize \<Rightarrow> int list" where
  "TestMessageSize_sizes s = [
     if M1 s then sizeWithTag SizeBool wireTestMessageSize_M1 (M1 s) else 0,
     if M2 s \<noteq> 0 then sizeWithTag SizeInt64 wireTestMessageSize_M2 (M2 s) else 0,
     if M3 s then sizeWithTag SizeBool wireTestMessageSize_M3 (M3 s) else 0,
     if M4 s \<noteq> [] then sizeDelimitedWithTag SizeString wireTestMessageSize_M4 (M4 s) else 0,
     if M5 s \<noteq> 0 then sizeWithTag SizeInt32 wireTestMessageSize_M5 (M5 s) else 0,
     if M6 s \<noteq> 0 then sizeWithTag SizeInt64 wireTestMessageSize_M6 (M6 s) else 0]"

definition TestMessageSize_XXX_PbContentSize :: "TestMessageSize option \<Rightarrow> int" where
  "TestMessageSize_XXX_PbContentSize = contentSizeWith (\<lambda>s. TestMessageSize_sizes s)"

definition TestMessageSize_Marshal :: "TestMessageSize option \<Rightarrow> byte list go" where
  "TestMessageSize_Marshal = marshalWith TestMessageSize_XXX_PbContentSize TestMessageSize_MarshalTo"

definition TestMessageSize_Copy :: "TestMessageSize option \<Rightarrow> TestMessageSize option" where
  "TestMessageSize_Copy s =
     (case s of None \<Rightarrow> None | Some s \<Rightarrow> Some \<lparr>
        M1 = M1 s, M2 = M2 s, M3 = M3 s, M4 = M4 s, M5 = M5 s, M6 = M6 s\<rparr>)"

section \<open>TestMessageSize: the round trip\<close>

definition TestMessageSize_tags :: "ProtoWireNumber list" where
  "TestMessageSize_tags = [
     wireTestMessageSize_M1, wireTestMessageSize_M2, wireTestMessageSize_M3,
     wireTestMessageSize_M4, wireTestMessageSize_M5, wireTestMessageSize_M6]"

definition TestMessageSize_groups :: "TestMessageSize \<Rightarrow> wfield list list" where
  "TestMessageSize_groups s = [
     opt_field (M1 s) (wireTestMessageSize_M1, bool_val (M1 s)),
     opt_field (M2 s \<noteq> 0) (wireTestMessageSize_M2, int64_val (M2 s)),
     opt_field (M3 s) (wireTestMessageSize_M3, bool_val (M3 s)),
     opt_field (M4 s \<noteq> []) (wireTestMessageSize_M4, WBytes (M4 s)),
     opt_field (M5 s \<noteq> 0) (wireTestMessageSize_M5, int32_val (M5 s)),
     opt_field (M6 s \<noteq> 0) (wireTestMessageSize_M6, int64_val (M6 s))]"

definition TestMessageSize_content :: "TestMessageSize \<Rightarrow> wfield list" where
  "TestMessageSize_content s = concat (TestMessageSize_groups s)"

text \<open>What a round trip keeps.\<close>

definition TestMessageSize_norm :: "TestMessageSize \<Rightarrow> TestMessageSize" where
  "TestMessageSize_norm s = s"

definition TestMessageSize_ready :: "Reader \<Rightarrow> TestMessageSize \<Rightarrow> (TestMessageSizeReader \<Rightarrow> bool) list" where
  "TestMessageSize_ready p s = [
     \<lambda>m. cell_reads (readOne ReadBool False) plain p (if M1 s then M1 s else False) (cellM1 m),
     \<lambda>m. cell_reads (readOne ReadInt64 0) plain p (if M2 s \<noteq> 0 then M2 s else 0) (cellM2 m),
     \<lambda>m. cell_reads (readOne ReadBool False) plain p (if M3 s then M3 s else False) (cellM3 m),
     \<lambda>m. cell_reads (readOne ReadString []) plain p (if M4 s \<noteq> [] then M4 s else []) (cellM4 m),
     \<lambda>m. cell_reads (readOne ReadInt32 0) plain p (if M5 s \<noteq> 0 then M5 s else 0) (cellM5 m),
     \<lambda>m. cell_reads (readOne ReadInt64 0) plain p (if M6 s \<noteq> 0 then M6 s else 0) (cellM6 m)]"

definition TestMessageSize_stored :: "TestMessageSize \<Rightarrow> (TestMessageSize \<Rightarrow> TestMessageSize) list" where
  "TestMessageSize_stored s = [
     \<lambda>res. res\<lparr>M1 := if M1 s then M1 s else False\<rparr>,
     \<lambda>res. res\<lparr>M2 := if M2 s \<noteq> 0 then M2 s else 0\<rparr>,
     \<lambda>res. res\<lparr>M3 := if M3 s then M3 s else False\<rparr>,
     \<lambda>res. res\<lparr>M4 := if M4 s \<noteq> [] then M4 s else []\<rparr>,
     \<lambda>res. res\<lparr>M5 := if M5 s \<noteq> 0 then M5 s else 0\<rparr>,
     \<lambda>res. res\<lparr>M6 := if M6 s \<noteq> 0 then M6 s else 0\<rparr>]"

lemma TestMessageSize_cases_distinct: "distinct (map fst (TestMessageSizeReader_cases wire offset))"
  by (rule ascending_distinct) (simp add: TestMessageSizeReader_cases_def wireTestMessageSize)

lemma TestMessageSize_stores:
  "stores_cell TestMessageSizeReader_save wireTestMessageSize_M1 setOffset cellM1"
  "stores_cell TestMessageSizeReader_save wireTestMessageSize_M2 setOffset cellM2"
  "stores_cell TestMessageSizeReader_save wireTestMessageSize_M3 setOffset cellM3"
  "stores_cell TestMessageSizeReader_save wireTestMessageSize_M4 setOffset cellM4"
  "stores_cell TestMessageSizeReader_save wireTestMessageSize_M5 setOffset cellM5"
  "stores_cell TestMessageSizeReader_save wireTestMessageSize_M6 setOffset cellM6"
  unfolding TestMessageSizeReader_save_def [abs_def] by (rule stores_cell_switch; (rule TestMessageSize_cases_distinct)?; unfold TestMessageSizeReader_cases_def; intro own_case.intros; simp)+

lemma TestMessageSize_saved: "good_fields TestMessageSizeReader_save p (NewTestMessageSizeReader\<lparr>mbuf := Some p\<rparr>) TestMessageSize_tags (TestMessageSize_groups s) (TestMessageSize_ready p s)"
  unfolding TestMessageSize_tags_def TestMessageSize_groups_def TestMessageSize_ready_def
  by (intro good_fields.intros field_saved TestMessageSize_stores) (simp_all add: NewTestMessageSizeReader_def newCell_def)

lemma TestMessageSize_converted: "good_stmts mbuf p (TestMessageSize_stmts) (TestMessageSize_ready p s) (TestMessageSize_stored s)"
  unfolding TestMessageSize_stmts_def TestMessageSize_ready_def TestMessageSize_stored_def TestMessageSize_getters append.simps
  by (intro good_stmts_field good_stmts.Nil) (simp_all cong: cell_reads_cong)

interpretation l_TestMessageSize: lazy_message TestMessageSize_tags TestMessageSize_groups TestMessageSize_norm
  "\<lambda>s. TestMessageSize_sizes s" "\<lambda>s. TestMessageSize_appends s"
  TestMessageSizeReader_save "\<lambda>p. NewTestMessageSizeReader\<lparr>mbuf := Some p\<rparr>" mbuf "TestMessageSize_stmts" TestMessageSize_zero TestMessageSize_ready TestMessageSize_stored
proof
  show "distinct TestMessageSize_tags"
    using TestMessageSize_cases_distinct by (simp only: TestMessageSizeReader_cases_def TestMessageSize_tags_def list.map fst_conv)
  show "list_all valid_tag TestMessageSize_tags"
    by (simp add: TestMessageSize_tags_def wireTestMessageSize valid_tag_def)
  show "list_all2 (\<lambda>t g. \<forall>f \<in> set g. fst f = t \<and> wf_val (snd f)) TestMessageSize_tags (TestMessageSize_groups s)" for s
    unfolding TestMessageSize_tags_def TestMessageSize_groups_def by (intro list.rel_intros field_tagged)
  show "list_all2 (\<lambda>e g. e = int (length (fields_bytes g))) (TestMessageSize_sizes s) (TestMessageSize_groups s)" for s
    unfolding TestMessageSize_sizes_def TestMessageSize_groups_def append.simps
    by (intro list.rel_intros field_sized)
  show "list_all2 (\<lambda>st g. writes st (fields_bytes g)) (TestMessageSize_appends s) (TestMessageSize_groups s)" for s
    unfolding TestMessageSize_appends_def TestMessageSize_groups_def append.simps
    by (intro list.rel_intros field_written)
  show "mbuf (TestMessageSizeReader_save t w off m) = mbuf m" for t w off m
    unfolding TestMessageSizeReader_save_def by (rule tag_switch_keeps) (simp add: TestMessageSizeReader_cases_def)
  show "fold (\<lambda>e. e) (TestMessageSize_stored s) TestMessageSize_zero = TestMessageSize_norm s" for s
    unfolding TestMessageSize_stored_def by (simp add: TestMessageSize_zero_def TestMessageSize_norm_def float_defaults)
qed (simp_all add: TestMessageSize_saved TestMessageSize_converted)

interpretation m_TestMessageSize: message_codec TestMessageSize_content TestMessageSize_norm TestMessageSize_XXX_PbContentSize TestMessageSize_MarshalTo
  "TestMessageSizeReader_Unmarshal NewTestMessageSizeReader" TestMessageSizeReader_ToStruct
  using l_TestMessageSize.message
  by (simp only: TestMessageSize_content_def [abs_def] TestMessageSize_XXX_PbContentSize_def TestMessageSize_MarshalTo_def TestMessageSizeReader_Unmarshal_def [abs_def] TestMessageSizeReader_ToStruct_def)


section \<open>TestJsonName: the reader\<close>

definition wireTestJsonName_FieldName1 :: ProtoWireNumber where "wireTestJsonName_FieldName1 = 1"
definition wireTestJsonName_FieldName2 :: ProtoWireNumber where "wireTestJsonName_FieldName2 = 2"
definition wireTestJsonName_FieldName3 :: ProtoWireNumber where "wireTestJsonName_FieldName3 = 3"
definition wireTestJsonName_FieldName4 :: ProtoWireNumber where "wireTestJsonName_FieldName4 = 4"
definition wireTestJsonName_FIELDNAME5 :: ProtoWireNumber where "wireTestJsonName_FIELDNAME5 = 5"
definition wireTestJsonName_FieldName6 :: ProtoWireNumber where "wireTestJsonName_FieldName6 = 6"
definition wireTestJsonName_Fieldname7 :: ProtoWireNumber where "wireTestJsonName_Fieldname7 = 7"

lemmas wireTestJsonName =
  wireTestJsonName_FieldName1_def wireTestJsonName_FieldName2_def
  wireTestJsonName_FieldName3_def wireTestJsonName_FieldName4_def
  wireTestJsonName_FIELDNAME5_def wireTestJsonName_FieldName6_def
  wireTestJsonName_Fieldname7_def

record TestJsonNameReader =
  mbuf :: "Reader option"
  cellFieldName1 :: "int32 one_cell"
  cellFieldName2 :: "int32 one_cell"
  cellFieldName3 :: "int32 one_cell"
  cellFieldName4 :: "int32 one_cell"
  cellFIELDNAME5 :: "int32 one_cell"
  cellFieldName6 :: "int32 one_cell"
  cellFieldname7 :: "int32 one_cell"

definition NewTestJsonNameReader :: TestJsonNameReader where
  "NewTestJsonNameReader = \<lparr>
     mbuf = None, cellFieldName1 = newCell 0 0, cellFieldName2 = newCell 0 0,
     cellFieldName3 = newCell 0 0, cellFieldName4 = newCell 0 0, cellFIELDNAME5 = newCell 0 0,
     cellFieldName6 = newCell 0 0, cellFieldname7 = newCell 0 0\<rparr>"

definition TestJsonNameReader_readFieldName1 :: "TestJsonNameReader \<Rightarrow> (int32 \<times> TestJsonNameReader) run" where
  "TestJsonNameReader_readFieldName1 = readCell cellFieldName1 cellFieldName1_update mbuf (readOne ReadInt32 0)"

definition TestJsonNameReader_GetFieldName1 :: "TestJsonNameReader option \<Rightarrow> (int32 \<times> TestJsonNameReader option) run" where
  "TestJsonNameReader_GetFieldName1 = getter TestJsonNameReader_readFieldName1 0"

definition TestJsonNameReader_readFieldName2 :: "TestJsonNameReader \<Rightarrow> (int32 \<times> TestJsonNameReader) run" where
  "TestJsonNameReader_readFieldName2 = readCell cellFieldName2 cellFieldName2_update mbuf (readOne ReadInt32 0)"

definition TestJsonNameReader_GetFieldName2 :: "TestJsonNameReader option \<Rightarrow> (int32 \<times> TestJsonNameReader option) run" where
  "TestJsonNameReader_GetFieldName2 = getter TestJsonNameReader_readFieldName2 0"

definition TestJsonNameReader_readFieldName3 :: "TestJsonNameReader \<Rightarrow> (int32 \<times> TestJsonNameReader) run" where
  "TestJsonNameReader_readFieldName3 = readCell cellFieldName3 cellFieldName3_update mbuf (readOne ReadInt32 0)"

definition TestJsonNameReader_GetFieldName3 :: "TestJsonNameReader option \<Rightarrow> (int32 \<times> TestJsonNameReader option) run" where
  "TestJsonNameReader_GetFieldName3 = getter TestJsonNameReader_readFieldName3 0"

definition TestJsonNameReader_readFieldName4 :: "TestJsonNameReader \<Rightarrow> (int32 \<times> TestJsonNameReader) run" where
  "TestJsonNameReader_readFieldName4 = readCell cellFieldName4 cellFieldName4_update mbuf (readOne ReadInt32 0)"

definition TestJsonNameReader_GetFieldName4 :: "TestJsonNameReader option \<Rightarrow> (int32 \<times> TestJsonNameReader option) run" where
  "TestJsonNameReader_GetFieldName4 = getter TestJsonNameReader_readFieldName4 0"

definition TestJsonNameReader_readFIELDNAME5 :: "TestJsonNameReader \<Rightarrow> (int32 \<times> TestJsonNameReader) run" where
  "TestJsonNameReader_readFIELDNAME5 = readCell cellFIELDNAME5 cellFIELDNAME5_update mbuf (readOne ReadInt32 0)"

definition TestJsonNameReader_GetFIELDNAME5 :: "TestJsonNameReader option \<Rightarrow> (int32 \<times> TestJsonNameReader option) run" where
  "TestJsonNameReader_GetFIELDNAME5 = getter TestJsonNameReader_readFIELDNAME5 0"

definition TestJsonNameReader_readFieldName6 :: "TestJsonNameReader \<Rightarrow> (int32 \<times> TestJsonNameReader) run" where
  "TestJsonNameReader_readFieldName6 = readCell cellFieldName6 cellFieldName6_update mbuf (readOne ReadInt32 0)"

definition TestJsonNameReader_GetFieldName6 :: "TestJsonNameReader option \<Rightarrow> (int32 \<times> TestJsonNameReader option) run" where
  "TestJsonNameReader_GetFieldName6 = getter TestJsonNameReader_readFieldName6 0"

definition TestJsonNameReader_readFieldname7 :: "TestJsonNameReader \<Rightarrow> (int32 \<times> TestJsonNameReader) run" where
  "TestJsonNameReader_readFieldname7 = readCell cellFieldname7 cellFieldname7_update mbuf (readOne ReadInt32 0)"

definition TestJsonNameReader_GetFieldname7 :: "TestJsonNameReader option \<Rightarrow> (int32 \<times> TestJsonNameReader option) run" where
  "TestJsonNameReader_GetFieldname7 = getter TestJsonNameReader_readFieldname7 0"

lemmas TestJsonName_getters =
  TestJsonNameReader_readFieldName1_def TestJsonNameReader_GetFieldName1_def
  TestJsonNameReader_readFieldName2_def TestJsonNameReader_GetFieldName2_def
  TestJsonNameReader_readFieldName3_def TestJsonNameReader_GetFieldName3_def
  TestJsonNameReader_readFieldName4_def TestJsonNameReader_GetFieldName4_def
  TestJsonNameReader_readFIELDNAME5_def TestJsonNameReader_GetFIELDNAME5_def
  TestJsonNameReader_readFieldName6_def TestJsonNameReader_GetFieldName6_def
  TestJsonNameReader_readFieldname7_def TestJsonNameReader_GetFieldname7_def

definition TestJsonNameReader_cases :: "ProtoWireType \<Rightarrow> int \<Rightarrow> (ProtoWireNumber \<times> (TestJsonNameReader \<Rightarrow> TestJsonNameReader)) list" where
  "TestJsonNameReader_cases wire offset = [
     (wireTestJsonName_FieldName1, \<lambda>m. m\<lparr>cellFieldName1 := onOffset (setOffset wire offset) (cellFieldName1 m)\<rparr>),
     (wireTestJsonName_FieldName2, \<lambda>m. m\<lparr>cellFieldName2 := onOffset (setOffset wire offset) (cellFieldName2 m)\<rparr>),
     (wireTestJsonName_FieldName3, \<lambda>m. m\<lparr>cellFieldName3 := onOffset (setOffset wire offset) (cellFieldName3 m)\<rparr>),
     (wireTestJsonName_FieldName4, \<lambda>m. m\<lparr>cellFieldName4 := onOffset (setOffset wire offset) (cellFieldName4 m)\<rparr>),
     (wireTestJsonName_FIELDNAME5, \<lambda>m. m\<lparr>cellFIELDNAME5 := onOffset (setOffset wire offset) (cellFIELDNAME5 m)\<rparr>),
     (wireTestJsonName_FieldName6, \<lambda>m. m\<lparr>cellFieldName6 := onOffset (setOffset wire offset) (cellFieldName6 m)\<rparr>),
     (wireTestJsonName_Fieldname7, \<lambda>m. m\<lparr>cellFieldname7 := onOffset (setOffset wire offset) (cellFieldname7 m)\<rparr>)]"

definition TestJsonNameReader_save :: "ProtoWireNumber \<Rightarrow> ProtoWireType \<Rightarrow> int \<Rightarrow> TestJsonNameReader \<Rightarrow> TestJsonNameReader" where
  "TestJsonNameReader_save tag wire offset = tag_switch (TestJsonNameReader_cases wire offset) tag"

definition TestJsonNameReader_Unmarshal :: "TestJsonNameReader \<Rightarrow> gslice \<Rightarrow> (TestJsonNameReader \<times> string option) run" where
  "TestJsonNameReader_Unmarshal m data =
     unmarshalLoop TestJsonNameReader_save (NewReader data) 0 (m\<lparr>mbuf := Some (NewReader data)\<rparr>)"

definition TestJsonNameReader_SourceBytes :: "TestJsonNameReader option \<Rightarrow> gslice" where
  "TestJsonNameReader_SourceBytes s = (case s of None \<Rightarrow> nil_slice | Some r \<Rightarrow> Bytes (mbuf r))"

section \<open>TestJsonName: the struct\<close>

record TestJsonName =
  FieldName1 :: int32
  FieldName2 :: int32
  FieldName3 :: int32
  FieldName4 :: int32
  FIELDNAME5 :: int32
  FieldName6 :: int32
  Fieldname7 :: int32

definition TestJsonName_zero :: TestJsonName where
  "TestJsonName_zero = \<lparr>
     FieldName1 = 0, FieldName2 = 0, FieldName3 = 0, FieldName4 = 0, FIELDNAME5 = 0,
     FieldName6 = 0, Fieldname7 = 0\<rparr>"

definition TestJsonName_stmts :: "(TestJsonName \<times> TestJsonNameReader option \<Rightarrow> (TestJsonName \<times> TestJsonNameReader option) run) list" where
  "TestJsonName_stmts = [
     assign TestJsonNameReader_GetFieldName1 (\<lambda>v res. res\<lparr>FieldName1 := v\<rparr>),
     assign TestJsonNameReader_GetFieldName2 (\<lambda>v res. res\<lparr>FieldName2 := v\<rparr>),
     assign TestJsonNameReader_GetFieldName3 (\<lambda>v res. res\<lparr>FieldName3 := v\<rparr>),
     assign TestJsonNameReader_GetFieldName4 (\<lambda>v res. res\<lparr>FieldName4 := v\<rparr>),
     assign TestJsonNameReader_GetFIELDNAME5 (\<lambda>v res. res\<lparr>FIELDNAME5 := v\<rparr>),
     assign TestJsonNameReader_GetFieldName6 (\<lambda>v res. res\<lparr>FieldName6 := v\<rparr>),
     assign TestJsonNameReader_GetFieldname7 (\<lambda>v res. res\<lparr>Fieldname7 := v\<rparr>)]"

definition TestJsonNameReader_ToStruct :: "TestJsonNameReader option \<Rightarrow> (TestJsonName option \<times> TestJsonNameReader option) run" where
  "TestJsonNameReader_ToStruct = toStructWith (TestJsonName_stmts) TestJsonName_zero"

definition TestJsonName_appends :: "TestJsonName \<Rightarrow> (Writer \<Rightarrow> Writer go) list" where
  "TestJsonName_appends s = [
     \<lambda>res. if FieldName1 s \<noteq> 0 then AppendInt32 res wireTestJsonName_FieldName1 (FieldName1 s) else Ret res,
     \<lambda>res. if FieldName2 s \<noteq> 0 then AppendInt32 res wireTestJsonName_FieldName2 (FieldName2 s) else Ret res,
     \<lambda>res. if FieldName3 s \<noteq> 0 then AppendInt32 res wireTestJsonName_FieldName3 (FieldName3 s) else Ret res,
     \<lambda>res. if FieldName4 s \<noteq> 0 then AppendInt32 res wireTestJsonName_FieldName4 (FieldName4 s) else Ret res,
     \<lambda>res. if FIELDNAME5 s \<noteq> 0 then AppendInt32 res wireTestJsonName_FIELDNAME5 (FIELDNAME5 s) else Ret res,
     \<lambda>res. if FieldName6 s \<noteq> 0 then AppendInt32 res wireTestJsonName_FieldName6 (FieldName6 s) else Ret res,
     \<lambda>res. if Fieldname7 s \<noteq> 0 then AppendInt32 res wireTestJsonName_Fieldname7 (Fieldname7 s) else Ret res]"

definition TestJsonName_MarshalTo :: "Writer \<Rightarrow> TestJsonName option \<Rightarrow> Writer go" where
  "TestJsonName_MarshalTo = marshalToWith (\<lambda>s. TestJsonName_appends s)"

definition TestJsonName_sizes :: "TestJsonName \<Rightarrow> int list" where
  "TestJsonName_sizes s = [
     if FieldName1 s \<noteq> 0 then sizeWithTag SizeInt32 wireTestJsonName_FieldName1 (FieldName1 s) else 0,
     if FieldName2 s \<noteq> 0 then sizeWithTag SizeInt32 wireTestJsonName_FieldName2 (FieldName2 s) else 0,
     if FieldName3 s \<noteq> 0 then sizeWithTag SizeInt32 wireTestJsonName_FieldName3 (FieldName3 s) else 0,
     if FieldName4 s \<noteq> 0 then sizeWithTag SizeInt32 wireTestJsonName_FieldName4 (FieldName4 s) else 0,
     if FIELDNAME5 s \<noteq> 0 then sizeWithTag SizeInt32 wireTestJsonName_FIELDNAME5 (FIELDNAME5 s) else 0,
     if FieldName6 s \<noteq> 0 then sizeWithTag SizeInt32 wireTestJsonName_FieldName6 (FieldName6 s) else 0,
     if Fieldname7 s \<noteq> 0 then sizeWithTag SizeInt32 wireTestJsonName_Fieldname7 (Fieldname7 s) else 0]"

definition TestJsonName_XXX_PbContentSize :: "TestJsonName option \<Rightarrow> int" where
  "TestJsonName_XXX_PbContentSize = contentSizeWith (\<lambda>s. TestJsonName_sizes s)"

definition TestJsonName_Marshal :: "TestJsonName option \<Rightarrow> byte list go" where
  "TestJsonName_Marshal = marshalWith TestJsonName_XXX_PbContentSize TestJsonName_MarshalTo"

definition TestJsonName_Copy :: "TestJsonName option \<Rightarrow> TestJsonName option" where
  "TestJsonName_Copy s =
     (case s of None \<Rightarrow> None | Some s \<Rightarrow> Some \<lparr>
        FieldName1 = FieldName1 s, FieldName2 = FieldName2 s, FieldName3 = FieldName3 s,
        FieldName4 = FieldName4 s, FIELDNAME5 = FIELDNAME5 s, FieldName6 = FieldName6 s,
        Fieldname7 = Fieldname7 s\<rparr>)"

section \<open>TestJsonName: the round trip\<close>

definition TestJsonName_tags :: "ProtoWireNumber list" where
  "TestJsonName_tags = [
     wireTestJsonName_FieldName1, wireTestJsonName_FieldName2, wireTestJsonName_FieldName3,
     wireTestJsonName_FieldName4, wireTestJsonName_FIELDNAME5, wireTestJsonName_FieldName6,
     wireTestJsonName_Fieldname7]"

definition TestJsonName_groups :: "TestJsonName \<Rightarrow> wfield list list" where
  "TestJsonName_groups s = [
     opt_field (FieldName1 s \<noteq> 0) (wireTestJsonName_FieldName1, int32_val (FieldName1 s)),
     opt_field (FieldName2 s \<noteq> 0) (wireTestJsonName_FieldName2, int32_val (FieldName2 s)),
     opt_field (FieldName3 s \<noteq> 0) (wireTestJsonName_FieldName3, int32_val (FieldName3 s)),
     opt_field (FieldName4 s \<noteq> 0) (wireTestJsonName_FieldName4, int32_val (FieldName4 s)),
     opt_field (FIELDNAME5 s \<noteq> 0) (wireTestJsonName_FIELDNAME5, int32_val (FIELDNAME5 s)),
     opt_field (FieldName6 s \<noteq> 0) (wireTestJsonName_FieldName6, int32_val (FieldName6 s)),
     opt_field (Fieldname7 s \<noteq> 0) (wireTestJsonName_Fieldname7, int32_val (Fieldname7 s))]"

definition TestJsonName_content :: "TestJsonName \<Rightarrow> wfield list" where
  "TestJsonName_content s = concat (TestJsonName_groups s)"

text \<open>What a round trip keeps.\<close>

definition TestJsonName_norm :: "TestJsonName \<Rightarrow> TestJsonName" where
  "TestJsonName_norm s = s"

definition TestJsonName_ready :: "Reader \<Rightarrow> TestJsonName \<Rightarrow> (TestJsonNameReader \<Rightarrow> bool) list" where
  "TestJsonName_ready p s = [
     \<lambda>m. cell_reads (readOne ReadInt32 0) plain p (if FieldName1 s \<noteq> 0 then FieldName1 s else 0) (cellFieldName1 m),
     \<lambda>m. cell_reads (readOne ReadInt32 0) plain p (if FieldName2 s \<noteq> 0 then FieldName2 s else 0) (cellFieldName2 m),
     \<lambda>m. cell_reads (readOne ReadInt32 0) plain p (if FieldName3 s \<noteq> 0 then FieldName3 s else 0) (cellFieldName3 m),
     \<lambda>m. cell_reads (readOne ReadInt32 0) plain p (if FieldName4 s \<noteq> 0 then FieldName4 s else 0) (cellFieldName4 m),
     \<lambda>m. cell_reads (readOne ReadInt32 0) plain p (if FIELDNAME5 s \<noteq> 0 then FIELDNAME5 s else 0) (cellFIELDNAME5 m),
     \<lambda>m. cell_reads (readOne ReadInt32 0) plain p (if FieldName6 s \<noteq> 0 then FieldName6 s else 0) (cellFieldName6 m),
     \<lambda>m. cell_reads (readOne ReadInt32 0) plain p (if Fieldname7 s \<noteq> 0 then Fieldname7 s else 0) (cellFieldname7 m)]"

definition TestJsonName_stored :: "TestJsonName \<Rightarrow> (TestJsonName \<Rightarrow> TestJsonName) list" where
  "TestJsonName_stored s = [
     \<lambda>res. res\<lparr>FieldName1 := if FieldName1 s \<noteq> 0 then FieldName1 s else 0\<rparr>,
     \<lambda>res. res\<lparr>FieldName2 := if FieldName2 s \<noteq> 0 then FieldName2 s else 0\<rparr>,
     \<lambda>res. res\<lparr>FieldName3 := if FieldName3 s \<noteq> 0 then FieldName3 s else 0\<rparr>,
     \<lambda>res. res\<lparr>FieldName4 := if FieldName4 s \<noteq> 0 then FieldName4 s else 0\<rparr>,
     \<lambda>res. res\<lparr>FIELDNAME5 := if FIELDNAME5 s \<noteq> 0 then FIELDNAME5 s else 0\<rparr>,
     \<lambda>res. res\<lparr>FieldName6 := if FieldName6 s \<noteq> 0 then FieldName6 s else 0\<rparr>,
     \<lambda>res. res\<lparr>Fieldname7 := if Fieldname7 s \<noteq> 0 then Fieldname7 s else 0\<rparr>]"

lemma TestJsonName_cases_distinct: "distinct (map fst (TestJsonNameReader_cases wire offset))"
  by (rule ascending_distinct) (simp add: TestJsonNameReader_cases_def wireTestJsonName)

lemma TestJsonName_stores:
  "stores_cell TestJsonNameReader_save wireTestJsonName_FieldName1 setOffset cellFieldName1"
  "stores_cell TestJsonNameReader_save wireTestJsonName_FieldName2 setOffset cellFieldName2"
  "stores_cell TestJsonNameReader_save wireTestJsonName_FieldName3 setOffset cellFieldName3"
  "stores_cell TestJsonNameReader_save wireTestJsonName_FieldName4 setOffset cellFieldName4"
  "stores_cell TestJsonNameReader_save wireTestJsonName_FIELDNAME5 setOffset cellFIELDNAME5"
  "stores_cell TestJsonNameReader_save wireTestJsonName_FieldName6 setOffset cellFieldName6"
  "stores_cell TestJsonNameReader_save wireTestJsonName_Fieldname7 setOffset cellFieldname7"
  unfolding TestJsonNameReader_save_def [abs_def] by (rule stores_cell_switch; (rule TestJsonName_cases_distinct)?; unfold TestJsonNameReader_cases_def; intro own_case.intros; simp)+

lemma TestJsonName_saved: "good_fields TestJsonNameReader_save p (NewTestJsonNameReader\<lparr>mbuf := Some p\<rparr>) TestJsonName_tags (TestJsonName_groups s) (TestJsonName_ready p s)"
  unfolding TestJsonName_tags_def TestJsonName_groups_def TestJsonName_ready_def
  by (intro good_fields.intros field_saved TestJsonName_stores) (simp_all add: NewTestJsonNameReader_def newCell_def)

lemma TestJsonName_converted: "good_stmts mbuf p (TestJsonName_stmts) (TestJsonName_ready p s) (TestJsonName_stored s)"
  unfolding TestJsonName_stmts_def TestJsonName_ready_def TestJsonName_stored_def TestJsonName_getters append.simps
  by (intro good_stmts_field good_stmts.Nil) (simp_all cong: cell_reads_cong)

interpretation l_TestJsonName: lazy_message TestJsonName_tags TestJsonName_groups TestJsonName_norm
  "\<lambda>s. TestJsonName_sizes s" "\<lambda>s. TestJsonName_appends s"
  TestJsonNameReader_save "\<lambda>p. NewTestJsonNameReader\<lparr>mbuf := Some p\<rparr>" mbuf "TestJsonName_stmts" TestJsonName_zero TestJsonName_ready TestJsonName_stored
proof
  show "distinct TestJsonName_tags"
    using TestJsonName_cases_distinct by (simp only: TestJsonNameReader_cases_def TestJsonName_tags_def list.map fst_conv)
  show "list_all valid_tag TestJsonName_tags"
    by (simp add: TestJsonName_tags_def wireTestJsonName valid_tag_def)
  show "list_all2 (\<lambda>t g. \<forall>f \<in> set g. fst f = t \<and> wf_val (snd f)) TestJsonName_tags (TestJsonName_groups s)" for s
    unfolding TestJsonName_tags_def TestJsonName_groups_def by (intro list.rel_intros field_tagged)
  show "list_all2 (\<lambda>e g. e = int (length (fields_bytes g))) (TestJsonName_sizes s) (TestJsonName_groups s)" for s
    unfolding TestJsonName_sizes_def TestJsonName_groups_def append.simps
    by (intro list.rel_intros field_sized)
  show "list_all2 (\<lambda>st g. writes st (fields_bytes g)) (TestJsonName_appends s) (TestJsonName_groups s)" for s
    unfolding TestJsonName_appends_def TestJsonName_groups_def append.simps
    by (intro list.rel_intros field_written)
  show "mbuf (TestJsonNameReader_save t w off m) = mbuf m" for t w off m
    unfolding TestJsonNameReader_save_def by (rule tag_switch_keeps) (simp add: TestJsonNameReader_cases_def)
  show "fold (\<lambda>e. e) (TestJsonName_stored s) TestJsonName_zero = TestJsonName_norm s" for s
    unfolding TestJsonName_stored_def by (simp add: TestJsonName_zero_def TestJsonName_norm_def float_defaults)
qed (simp_all add: TestJsonName_saved TestJsonName_converted)

interpretation m_TestJsonName: message_codec TestJsonName_content TestJsonName_norm TestJsonName_XXX_PbContentSize TestJsonName_MarshalTo
  "TestJsonNameReader_Unmarshal NewTestJsonNameReader" TestJsonNameReader_ToStruct
  using l_TestJsonName.message
  by (simp only: TestJsonName_content_def [abs_def] TestJsonName_XXX_PbContentSize_def TestJsonName_MarshalTo_def TestJsonNameReader_Unmarshal_def [abs_def] TestJsonNameReader_ToStruct_def)


section \<open>TestCamelCaseFieldNames: the reader\<close>

definition wireTestCamelCaseFieldNames_PrimitiveField :: ProtoWireNumber where "wireTestCamelCaseFieldNames_PrimitiveField = 1"
definition wireTestCamelCaseFieldNames_StringField :: ProtoWireNumber where "wireTestCamelCaseFieldNames_StringField = 2"
definition wireTestCamelCaseFieldNames_EnumField :: ProtoWireNumber where "wireTestCamelCaseFieldNames_EnumField = 3"
definition wireTestCamelCaseFieldNames_MessageField :: ProtoWireNumber where "wireTestCamelCaseFieldNames_MessageField = 4"
definition wireTestCamelCaseFieldNames_StringPieceField :: ProtoWireNumber where "wireTestCamelCaseFieldNames_StringPieceField = 5"
definition wireTestCamelCaseFieldNames_CordField :: ProtoWireNumber where "wireTestCamelCaseFieldNames_CordField = 6"
definition wireTestCamelCaseFieldNames_RepeatedPrimitiveField :: ProtoWireNumber where "wireTestCamelCaseFieldNames_RepeatedPrimitiveField = 7"
definition wireTestCamelCaseFieldNames_RepeatedStringField :: ProtoWireNumber where "wireTestCamelCaseFieldNames_RepeatedStringField = 8"
definition wireTestCamelCaseFieldNames_RepeatedEnumField :: ProtoWireNumber where "wireTestCamelCaseFieldNames_RepeatedEnumField = 9"
definition wireTestCamelCaseFieldNames_RepeatedMessageField :: ProtoWireNumber where "wireTestCamelCaseFieldNames_RepeatedMessageField = 10"
definition wireTestCamelCaseFieldNames_RepeatedStringPieceField :: ProtoWireNumber where "wireTestCamelCaseFieldNames_RepeatedStringPieceField = 11"
definition wireTestCamelCaseFieldNames_RepeatedCordField :: ProtoWireNumber where "wireTestCamelCaseFieldNames_RepeatedCordField = 12"

lemmas wireTestCamelCaseFieldNames =
  wireTestCamelCaseFieldNames_PrimitiveField_def wireTestCamelCaseFieldNames_StringField_def
  wireTestCamelCaseFieldNames_EnumField_def wireTestCamelCaseFieldNames_MessageField_def
  wireTestCamelCaseFieldNames_StringPieceField_def wireTestCamelCaseFieldNames_CordField_def
  wireTestCamelCaseFieldNames_RepeatedPrimitiveField_def
  wireTestCamelCaseFieldNames_RepeatedStringField_def
  wireTestCamelCaseFieldNames_RepeatedEnumField_def
  wireTestCamelCaseFieldNames_RepeatedMessageField_def
  wireTestCamelCaseFieldNames_RepeatedStringPieceField_def
  wireTestCamelCaseFieldNames_RepeatedCordField_def

record TestCamelCaseFieldNamesReader =
  mbuf :: "Reader option"
  cellPrimitiveField :: "int32 one_cell"
  cellStringField :: "gostring one_cell"
  cellEnumField :: "ForeignEnum one_cell"
  cellMessageField :: "(ForeignMessageReader option) one_cell"
  cellStringPieceField :: "gostring one_cell"
  cellCordField :: "gostring one_cell"
  cellRepeatedPrimitiveField :: "int32 packed_cell"
  cellRepeatedStringField :: "gostring list_cell"
  cellRepeatedEnumField :: "ForeignEnum packed_cell"
  cellRepeatedMessageField :: "(ForeignMessageReader option) list_cell"
  cellRepeatedStringPieceField :: "gostring list_cell"
  cellRepeatedCordField :: "gostring list_cell"

definition NewTestCamelCaseFieldNamesReader :: TestCamelCaseFieldNamesReader where
  "NewTestCamelCaseFieldNamesReader = \<lparr>
     mbuf = None, cellPrimitiveField = newCell 0 0, cellStringField = newCell [] 0,
     cellEnumField = newCell 0 0, cellMessageField = newCell None 0,
     cellStringPieceField = newCell [] 0, cellCordField = newCell [] 0,
     cellRepeatedPrimitiveField = newCell [] ([], []), cellRepeatedStringField = newCell [] [],
     cellRepeatedEnumField = newCell [] ([], []), cellRepeatedMessageField = newCell [] [],
     cellRepeatedStringPieceField = newCell [] [], cellRepeatedCordField = newCell [] []\<rparr>"

definition TestCamelCaseFieldNamesReader_readPrimitiveField :: "TestCamelCaseFieldNamesReader \<Rightarrow> (int32 \<times> TestCamelCaseFieldNamesReader) run" where
  "TestCamelCaseFieldNamesReader_readPrimitiveField = readCell cellPrimitiveField cellPrimitiveField_update mbuf (readOne ReadInt32 0)"

definition TestCamelCaseFieldNamesReader_GetPrimitiveField :: "TestCamelCaseFieldNamesReader option \<Rightarrow> (int32 \<times> TestCamelCaseFieldNamesReader option) run" where
  "TestCamelCaseFieldNamesReader_GetPrimitiveField = getter TestCamelCaseFieldNamesReader_readPrimitiveField 0"

definition TestCamelCaseFieldNamesReader_readStringField :: "TestCamelCaseFieldNamesReader \<Rightarrow> (gostring \<times> TestCamelCaseFieldNamesReader) run" where
  "TestCamelCaseFieldNamesReader_readStringField = readCell cellStringField cellStringField_update mbuf (readOne ReadString [])"

definition TestCamelCaseFieldNamesReader_GetStringField :: "TestCamelCaseFieldNamesReader option \<Rightarrow> (gostring \<times> TestCamelCaseFieldNamesReader option) run" where
  "TestCamelCaseFieldNamesReader_GetStringField = getter TestCamelCaseFieldNamesReader_readStringField []"

definition TestCamelCaseFieldNamesReader_readEnumField :: "TestCamelCaseFieldNamesReader \<Rightarrow> (ForeignEnum \<times> TestCamelCaseFieldNamesReader) run" where
  "TestCamelCaseFieldNamesReader_readEnumField = readCell cellEnumField cellEnumField_update mbuf (readOne ReadInt32 0)"

definition TestCamelCaseFieldNamesReader_GetEnumField :: "TestCamelCaseFieldNamesReader option \<Rightarrow> (ForeignEnum \<times> TestCamelCaseFieldNamesReader option) run" where
  "TestCamelCaseFieldNamesReader_GetEnumField = getter TestCamelCaseFieldNamesReader_readEnumField 0"

definition TestCamelCaseFieldNamesReader_readMessageField :: "TestCamelCaseFieldNamesReader \<Rightarrow> (ForeignMessageReader option \<times> TestCamelCaseFieldNamesReader) run" where
  "TestCamelCaseFieldNamesReader_readMessageField = readCell cellMessageField cellMessageField_update mbuf (structReader (ForeignMessageReader_Unmarshal NewForeignMessageReader))"

definition TestCamelCaseFieldNamesReader_GetMessageField :: "TestCamelCaseFieldNamesReader option \<Rightarrow> (ForeignMessageReader option \<times> TestCamelCaseFieldNamesReader option) run" where
  "TestCamelCaseFieldNamesReader_GetMessageField = getter TestCamelCaseFieldNamesReader_readMessageField None"

definition TestCamelCaseFieldNamesReader_readStringPieceField :: "TestCamelCaseFieldNamesReader \<Rightarrow> (gostring \<times> TestCamelCaseFieldNamesReader) run" where
  "TestCamelCaseFieldNamesReader_readStringPieceField = readCell cellStringPieceField cellStringPieceField_update mbuf (readOne ReadString [])"

definition TestCamelCaseFieldNamesReader_GetStringPieceField :: "TestCamelCaseFieldNamesReader option \<Rightarrow> (gostring \<times> TestCamelCaseFieldNamesReader option) run" where
  "TestCamelCaseFieldNamesReader_GetStringPieceField = getter TestCamelCaseFieldNamesReader_readStringPieceField []"

definition TestCamelCaseFieldNamesReader_readCordField :: "TestCamelCaseFieldNamesReader \<Rightarrow> (gostring \<times> TestCamelCaseFieldNamesReader) run" where
  "TestCamelCaseFieldNamesReader_readCordField = readCell cellCordField cellCordField_update mbuf (readOne ReadString [])"

definition TestCamelCaseFieldNamesReader_GetCordField :: "TestCamelCaseFieldNamesReader option \<Rightarrow> (gostring \<times> TestCamelCaseFieldNamesReader option) run" where
  "TestCamelCaseFieldNamesReader_GetCordField = getter TestCamelCaseFieldNamesReader_readCordField []"

definition TestCamelCaseFieldNamesReader_readRepeatedPrimitiveField :: "TestCamelCaseFieldNamesReader \<Rightarrow> (int32 list \<times> TestCamelCaseFieldNamesReader) run" where
  "TestCamelCaseFieldNamesReader_readRepeatedPrimitiveField = readCell cellRepeatedPrimitiveField cellRepeatedPrimitiveField_update mbuf (readPacked ReadInt32 SizedReadInt32 0)"

definition TestCamelCaseFieldNamesReader_GetRepeatedPrimitiveField :: "TestCamelCaseFieldNamesReader option \<Rightarrow> (int32 list \<times> TestCamelCaseFieldNamesReader option) run" where
  "TestCamelCaseFieldNamesReader_GetRepeatedPrimitiveField = getter TestCamelCaseFieldNamesReader_readRepeatedPrimitiveField []"

definition TestCamelCaseFieldNamesReader_readRepeatedStringField :: "TestCamelCaseFieldNamesReader \<Rightarrow> (gostring list \<times> TestCamelCaseFieldNamesReader) run" where
  "TestCamelCaseFieldNamesReader_readRepeatedStringField = readCell cellRepeatedStringField cellRepeatedStringField_update mbuf (readList ReadString [])"

definition TestCamelCaseFieldNamesReader_GetRepeatedStringField :: "TestCamelCaseFieldNamesReader option \<Rightarrow> (gostring list \<times> TestCamelCaseFieldNamesReader option) run" where
  "TestCamelCaseFieldNamesReader_GetRepeatedStringField = getter TestCamelCaseFieldNamesReader_readRepeatedStringField []"

definition TestCamelCaseFieldNamesReader_readRepeatedEnumField :: "TestCamelCaseFieldNamesReader \<Rightarrow> (ForeignEnum list \<times> TestCamelCaseFieldNamesReader) run" where
  "TestCamelCaseFieldNamesReader_readRepeatedEnumField = readCell cellRepeatedEnumField cellRepeatedEnumField_update mbuf (readPacked ReadInt32 SizedReadInt32 0)"

definition TestCamelCaseFieldNamesReader_GetRepeatedEnumField :: "TestCamelCaseFieldNamesReader option \<Rightarrow> (ForeignEnum list \<times> TestCamelCaseFieldNamesReader option) run" where
  "TestCamelCaseFieldNamesReader_GetRepeatedEnumField = getter TestCamelCaseFieldNamesReader_readRepeatedEnumField []"

definition TestCamelCaseFieldNamesReader_readRepeatedMessageField :: "TestCamelCaseFieldNamesReader \<Rightarrow> ((ForeignMessageReader option) list \<times> TestCamelCaseFieldNamesReader) run" where
  "TestCamelCaseFieldNamesReader_readRepeatedMessageField = readCell cellRepeatedMessageField cellRepeatedMessageField_update mbuf (readStructs (ForeignMessageReader_Unmarshal NewForeignMessageReader))"

definition TestCamelCaseFieldNamesReader_GetRepeatedMessageField :: "TestCamelCaseFieldNamesReader option \<Rightarrow> ((ForeignMessageReader option) list \<times> TestCamelCaseFieldNamesReader option) run" where
  "TestCamelCaseFieldNamesReader_GetRepeatedMessageField = getter TestCamelCaseFieldNamesReader_readRepeatedMessageField []"

definition TestCamelCaseFieldNamesReader_readRepeatedStringPieceField :: "TestCamelCaseFieldNamesReader \<Rightarrow> (gostring list \<times> TestCamelCaseFieldNamesReader) run" where
  "TestCamelCaseFieldNamesReader_readRepeatedStringPieceField = readCell cellRepeatedStringPieceField cellRepeatedStringPieceField_update mbuf (readList ReadString [])"

definition TestCamelCaseFieldNamesReader_GetRepeatedStringPieceField :: "TestCamelCaseFieldNamesReader option \<Rightarrow> (gostring list \<times> TestCamelCaseFieldNamesReader option) run" where
  "TestCamelCaseFieldNamesReader_GetRepeatedStringPieceField = getter TestCamelCaseFieldNamesReader_readRepeatedStringPieceField []"

definition TestCamelCaseFieldNamesReader_readRepeatedCordField :: "TestCamelCaseFieldNamesReader \<Rightarrow> (gostring list \<times> TestCamelCaseFieldNamesReader) run" where
  "TestCamelCaseFieldNamesReader_readRepeatedCordField = readCell cellRepeatedCordField cellRepeatedCordField_update mbuf (readList ReadString [])"

definition TestCamelCaseFieldNamesReader_GetRepeatedCordField :: "TestCamelCaseFieldNamesReader option \<Rightarrow> (gostring list \<times> TestCamelCaseFieldNamesReader option) run" where
  "TestCamelCaseFieldNamesReader_GetRepeatedCordField = getter TestCamelCaseFieldNamesReader_readRepeatedCordField []"

lemmas TestCamelCaseFieldNames_getters =
  TestCamelCaseFieldNamesReader_readPrimitiveField_def TestCamelCaseFieldNamesReader_GetPrimitiveField_def
  TestCamelCaseFieldNamesReader_readStringField_def TestCamelCaseFieldNamesReader_GetStringField_def
  TestCamelCaseFieldNamesReader_readEnumField_def TestCamelCaseFieldNamesReader_GetEnumField_def
  TestCamelCaseFieldNamesReader_readMessageField_def TestCamelCaseFieldNamesReader_GetMessageField_def
  TestCamelCaseFieldNamesReader_readStringPieceField_def TestCamelCaseFieldNamesReader_GetStringPieceField_def
  TestCamelCaseFieldNamesReader_readCordField_def TestCamelCaseFieldNamesReader_GetCordField_def
  TestCamelCaseFieldNamesReader_readRepeatedPrimitiveField_def TestCamelCaseFieldNamesReader_GetRepeatedPrimitiveField_def
  TestCamelCaseFieldNamesReader_readRepeatedStringField_def TestCamelCaseFieldNamesReader_GetRepeatedStringField_def
  TestCamelCaseFieldNamesReader_readRepeatedEnumField_def TestCamelCaseFieldNamesReader_GetRepeatedEnumField_def
  TestCamelCaseFieldNamesReader_readRepeatedMessageField_def TestCamelCaseFieldNamesReader_GetRepeatedMessageField_def
  TestCamelCaseFieldNamesReader_readRepeatedStringPieceField_def TestCamelCaseFieldNamesReader_GetRepeatedStringPieceField_def
  TestCamelCaseFieldNamesReader_readRepeatedCordField_def TestCamelCaseFieldNamesReader_GetRepeatedCordField_def

definition TestCamelCaseFieldNamesReader_cases :: "ProtoWireType \<Rightarrow> int \<Rightarrow> (ProtoWireNumber \<times> (TestCamelCaseFieldNamesReader \<Rightarrow> TestCamelCaseFieldNamesReader)) list" where
  "TestCamelCaseFieldNamesReader_cases wire offset = [
     (wireTestCamelCaseFieldNames_PrimitiveField, \<lambda>m. m\<lparr>cellPrimitiveField := onOffset (setOffset wire offset) (cellPrimitiveField m)\<rparr>),
     (wireTestCamelCaseFieldNames_StringField, \<lambda>m. m\<lparr>cellStringField := onOffset (setOffset wire offset) (cellStringField m)\<rparr>),
     (wireTestCamelCaseFieldNames_EnumField, \<lambda>m. m\<lparr>cellEnumField := onOffset (setOffset wire offset) (cellEnumField m)\<rparr>),
     (wireTestCamelCaseFieldNames_MessageField, \<lambda>m. m\<lparr>cellMessageField := onOffset (setOffset wire offset) (cellMessageField m)\<rparr>),
     (wireTestCamelCaseFieldNames_StringPieceField, \<lambda>m. m\<lparr>cellStringPieceField := onOffset (setOffset wire offset) (cellStringPieceField m)\<rparr>),
     (wireTestCamelCaseFieldNames_CordField, \<lambda>m. m\<lparr>cellCordField := onOffset (setOffset wire offset) (cellCordField m)\<rparr>),
     (wireTestCamelCaseFieldNames_RepeatedPrimitiveField, \<lambda>m. m\<lparr>cellRepeatedPrimitiveField := onOffset (addTyped wire offset) (cellRepeatedPrimitiveField m)\<rparr>),
     (wireTestCamelCaseFieldNames_RepeatedStringField, \<lambda>m. m\<lparr>cellRepeatedStringField := onOffset (addOffset wire offset) (cellRepeatedStringField m)\<rparr>),
     (wireTestCamelCaseFieldNames_RepeatedEnumField, \<lambda>m. m\<lparr>cellRepeatedEnumField := onOffset (addTyped wire offset) (cellRepeatedEnumField m)\<rparr>),
     (wireTestCamelCaseFieldNames_RepeatedMessageField, \<lambda>m. m\<lparr>cellRepeatedMessageField := onOffset (addOffset wire offset) (cellRepeatedMessageField m)\<rparr>),
     (wireTestCamelCaseFieldNames_RepeatedStringPieceField, \<lambda>m. m\<lparr>cellRepeatedStringPieceField := onOffset (addOffset wire offset) (cellRepeatedStringPieceField m)\<rparr>),
     (wireTestCamelCaseFieldNames_RepeatedCordField, \<lambda>m. m\<lparr>cellRepeatedCordField := onOffset (addOffset wire offset) (cellRepeatedCordField m)\<rparr>)]"

definition TestCamelCaseFieldNamesReader_save :: "ProtoWireNumber \<Rightarrow> ProtoWireType \<Rightarrow> int \<Rightarrow> TestCamelCaseFieldNamesReader \<Rightarrow> TestCamelCaseFieldNamesReader" where
  "TestCamelCaseFieldNamesReader_save tag wire offset = tag_switch (TestCamelCaseFieldNamesReader_cases wire offset) tag"

definition TestCamelCaseFieldNamesReader_Unmarshal :: "TestCamelCaseFieldNamesReader \<Rightarrow> gslice \<Rightarrow> (TestCamelCaseFieldNamesReader \<times> string option) run" where
  "TestCamelCaseFieldNamesReader_Unmarshal m data =
     unmarshalLoop TestCamelCaseFieldNamesReader_save (NewReader data) 0 (m\<lparr>mbuf := Some (NewReader data)\<rparr>)"

definition TestCamelCaseFieldNamesReader_SourceBytes :: "TestCamelCaseFieldNamesReader option \<Rightarrow> gslice" where
  "TestCamelCaseFieldNamesReader_SourceBytes s = (case s of None \<Rightarrow> nil_slice | Some r \<Rightarrow> Bytes (mbuf r))"

section \<open>TestCamelCaseFieldNames: the struct\<close>

record TestCamelCaseFieldNames =
  PrimitiveField :: int32
  StringField :: gostring
  EnumField :: ForeignEnum
  MessageField :: "ForeignMessage option"
  StringPieceField :: gostring
  CordField :: gostring
  RepeatedPrimitiveField :: "int32 list"
  RepeatedStringField :: "gostring list"
  RepeatedEnumField :: "ForeignEnum list"
  RepeatedMessageField :: "(ForeignMessage option) list"
  RepeatedStringPieceField :: "gostring list"
  RepeatedCordField :: "gostring list"

definition TestCamelCaseFieldNames_zero :: TestCamelCaseFieldNames where
  "TestCamelCaseFieldNames_zero = \<lparr>
     PrimitiveField = 0, StringField = [], EnumField = 0, MessageField = None,
     StringPieceField = [], CordField = [], RepeatedPrimitiveField = [],
     RepeatedStringField = [], RepeatedEnumField = [], RepeatedMessageField = [],
     RepeatedStringPieceField = [], RepeatedCordField = []\<rparr>"

definition TestCamelCaseFieldNames_stmts :: "(TestCamelCaseFieldNames \<times> TestCamelCaseFieldNamesReader option \<Rightarrow> (TestCamelCaseFieldNames \<times> TestCamelCaseFieldNamesReader option) run) list" where
  "TestCamelCaseFieldNames_stmts = [
     assign TestCamelCaseFieldNamesReader_GetPrimitiveField (\<lambda>v res. res\<lparr>PrimitiveField := v\<rparr>),
     assign TestCamelCaseFieldNamesReader_GetStringField (\<lambda>v res. res\<lparr>StringField := v\<rparr>),
     assign TestCamelCaseFieldNamesReader_GetEnumField (\<lambda>v res. res\<lparr>EnumField := v\<rparr>),
     assignStruct TestCamelCaseFieldNamesReader_GetMessageField (structToStruct ForeignMessageReader_ToStruct) cellMessageField_update
       (\<lambda>v res. res\<lparr>MessageField := v\<rparr>),
     assign TestCamelCaseFieldNamesReader_GetStringPieceField (\<lambda>v res. res\<lparr>StringPieceField := v\<rparr>),
     assign TestCamelCaseFieldNamesReader_GetCordField (\<lambda>v res. res\<lparr>CordField := v\<rparr>),
     assign TestCamelCaseFieldNamesReader_GetRepeatedPrimitiveField (\<lambda>v res. res\<lparr>RepeatedPrimitiveField := v\<rparr>),
     assign TestCamelCaseFieldNamesReader_GetRepeatedStringField (\<lambda>v res. res\<lparr>RepeatedStringField := v\<rparr>),
     assign TestCamelCaseFieldNamesReader_GetRepeatedEnumField (\<lambda>v res. res\<lparr>RepeatedEnumField := v\<rparr>),
     assignStruct TestCamelCaseFieldNamesReader_GetRepeatedMessageField (repeatedToStruct ForeignMessageReader_ToStruct) cellRepeatedMessageField_update
       (\<lambda>v res. res\<lparr>RepeatedMessageField := v\<rparr>),
     assign TestCamelCaseFieldNamesReader_GetRepeatedStringPieceField (\<lambda>v res. res\<lparr>RepeatedStringPieceField := v\<rparr>),
     assign TestCamelCaseFieldNamesReader_GetRepeatedCordField (\<lambda>v res. res\<lparr>RepeatedCordField := v\<rparr>)]"

definition TestCamelCaseFieldNamesReader_ToStruct :: "TestCamelCaseFieldNamesReader option \<Rightarrow> (TestCamelCaseFieldNames option \<times> TestCamelCaseFieldNamesReader option) run" where
  "TestCamelCaseFieldNamesReader_ToStruct = toStructWith (TestCamelCaseFieldNames_stmts) TestCamelCaseFieldNames_zero"

definition TestCamelCaseFieldNames_appends :: "TestCamelCaseFieldNames \<Rightarrow> (Writer \<Rightarrow> Writer go) list" where
  "TestCamelCaseFieldNames_appends s = [
     \<lambda>res. if PrimitiveField s \<noteq> 0 then AppendInt32 res wireTestCamelCaseFieldNames_PrimitiveField (PrimitiveField s) else Ret res,
     \<lambda>res. if StringField s \<noteq> [] then AppendString res wireTestCamelCaseFieldNames_StringField (StringField s) else Ret res,
     \<lambda>res. if EnumField s \<noteq> 0 then AppendInt32 res wireTestCamelCaseFieldNames_EnumField (EnumField s) else Ret res,
     \<lambda>res. if MessageField s \<noteq> None then structWriter ForeignMessage_XXX_PbContentSize ForeignMessage_MarshalTo res wireTestCamelCaseFieldNames_MessageField (MessageField s) else Ret res,
     \<lambda>res. if StringPieceField s \<noteq> [] then AppendString res wireTestCamelCaseFieldNames_StringPieceField (StringPieceField s) else Ret res,
     \<lambda>res. if CordField s \<noteq> [] then AppendString res wireTestCamelCaseFieldNames_CordField (CordField s) else Ret res,
     \<lambda>res. if RepeatedPrimitiveField s \<noteq> [] then packedWriter AppendInt32WithoutTag AppendInt32 SizeInt32 res wireTestCamelCaseFieldNames_RepeatedPrimitiveField (RepeatedPrimitiveField s) else Ret res,
     \<lambda>res. if RepeatedStringField s \<noteq> [] then repeatedWriter AppendString res wireTestCamelCaseFieldNames_RepeatedStringField (RepeatedStringField s) else Ret res,
     \<lambda>res. if RepeatedEnumField s \<noteq> [] then packedWriter AppendInt32WithoutTag AppendInt32 SizeInt32 res wireTestCamelCaseFieldNames_RepeatedEnumField (RepeatedEnumField s) else Ret res,
     \<lambda>res. if RepeatedMessageField s \<noteq> [] then repeatedWriter (structWriter ForeignMessage_XXX_PbContentSize ForeignMessage_MarshalTo) res wireTestCamelCaseFieldNames_RepeatedMessageField (RepeatedMessageField s) else Ret res,
     \<lambda>res. if RepeatedStringPieceField s \<noteq> [] then repeatedWriter AppendString res wireTestCamelCaseFieldNames_RepeatedStringPieceField (RepeatedStringPieceField s) else Ret res,
     \<lambda>res. if RepeatedCordField s \<noteq> [] then repeatedWriter AppendString res wireTestCamelCaseFieldNames_RepeatedCordField (RepeatedCordField s) else Ret res]"

definition TestCamelCaseFieldNames_MarshalTo :: "Writer \<Rightarrow> TestCamelCaseFieldNames option \<Rightarrow> Writer go" where
  "TestCamelCaseFieldNames_MarshalTo = marshalToWith (\<lambda>s. TestCamelCaseFieldNames_appends s)"

definition TestCamelCaseFieldNames_sizes :: "TestCamelCaseFieldNames \<Rightarrow> int list" where
  "TestCamelCaseFieldNames_sizes s = [
     if PrimitiveField s \<noteq> 0 then sizeWithTag SizeInt32 wireTestCamelCaseFieldNames_PrimitiveField (PrimitiveField s) else 0,
     if StringField s \<noteq> [] then sizeDelimitedWithTag SizeString wireTestCamelCaseFieldNames_StringField (StringField s) else 0,
     if EnumField s \<noteq> 0 then sizeWithTag SizeInt32 wireTestCamelCaseFieldNames_EnumField (EnumField s) else 0,
     if MessageField s \<noteq> None then sizeDelimitedWithTag ForeignMessage_XXX_PbContentSize wireTestCamelCaseFieldNames_MessageField (MessageField s) else 0,
     if StringPieceField s \<noteq> [] then sizeDelimitedWithTag SizeString wireTestCamelCaseFieldNames_StringPieceField (StringPieceField s) else 0,
     if CordField s \<noteq> [] then sizeDelimitedWithTag SizeString wireTestCamelCaseFieldNames_CordField (CordField s) else 0,
     if RepeatedPrimitiveField s \<noteq> [] then packedSize SizeInt32 wireTestCamelCaseFieldNames_RepeatedPrimitiveField (RepeatedPrimitiveField s) else 0,
     if RepeatedStringField s \<noteq> [] then repeatedSize (sizeDelimitedWithTag SizeString wireTestCamelCaseFieldNames_RepeatedStringField) (RepeatedStringField s) else 0,
     if RepeatedEnumField s \<noteq> [] then packedSize SizeInt32 wireTestCamelCaseFieldNames_RepeatedEnumField (RepeatedEnumField s) else 0,
     if RepeatedMessageField s \<noteq> [] then repeatedSize (sizeDelimitedWithTag ForeignMessage_XXX_PbContentSize wireTestCamelCaseFieldNames_RepeatedMessageField) (RepeatedMessageField s) else 0,
     if RepeatedStringPieceField s \<noteq> [] then repeatedSize (sizeDelimitedWithTag SizeString wireTestCamelCaseFieldNames_RepeatedStringPieceField) (RepeatedStringPieceField s) else 0,
     if RepeatedCordField s \<noteq> [] then repeatedSize (sizeDelimitedWithTag SizeString wireTestCamelCaseFieldNames_RepeatedCordField) (RepeatedCordField s) else 0]"

definition TestCamelCaseFieldNames_XXX_PbContentSize :: "TestCamelCaseFieldNames option \<Rightarrow> int" where
  "TestCamelCaseFieldNames_XXX_PbContentSize = contentSizeWith (\<lambda>s. TestCamelCaseFieldNames_sizes s)"

definition TestCamelCaseFieldNames_Marshal :: "TestCamelCaseFieldNames option \<Rightarrow> byte list go" where
  "TestCamelCaseFieldNames_Marshal = marshalWith TestCamelCaseFieldNames_XXX_PbContentSize TestCamelCaseFieldNames_MarshalTo"

definition TestCamelCaseFieldNames_Copy :: "TestCamelCaseFieldNames option \<Rightarrow> TestCamelCaseFieldNames option" where
  "TestCamelCaseFieldNames_Copy s =
     (case s of None \<Rightarrow> None | Some s \<Rightarrow> Some \<lparr>
        PrimitiveField = PrimitiveField s, StringField = StringField s, EnumField = EnumField s,
        MessageField = (case MessageField s of None \<Rightarrow> None | Some x \<Rightarrow> ForeignMessage_Copy (Some x)),
        StringPieceField = StringPieceField s, CordField = CordField s,
        RepeatedPrimitiveField = RepeatedPrimitiveField s,
        RepeatedStringField = RepeatedStringField s, RepeatedEnumField = RepeatedEnumField s,
        RepeatedMessageField = map (\<lambda>e. case e of None \<Rightarrow> None | Some x \<Rightarrow> ForeignMessage_Copy (Some x)) (RepeatedMessageField s),
        RepeatedStringPieceField = RepeatedStringPieceField s,
        RepeatedCordField = RepeatedCordField s\<rparr>)"

section \<open>TestCamelCaseFieldNames: the round trip\<close>

definition TestCamelCaseFieldNames_tags :: "ProtoWireNumber list" where
  "TestCamelCaseFieldNames_tags = [
     wireTestCamelCaseFieldNames_PrimitiveField, wireTestCamelCaseFieldNames_StringField,
     wireTestCamelCaseFieldNames_EnumField, wireTestCamelCaseFieldNames_MessageField,
     wireTestCamelCaseFieldNames_StringPieceField, wireTestCamelCaseFieldNames_CordField,
     wireTestCamelCaseFieldNames_RepeatedPrimitiveField,
     wireTestCamelCaseFieldNames_RepeatedStringField,
     wireTestCamelCaseFieldNames_RepeatedEnumField,
     wireTestCamelCaseFieldNames_RepeatedMessageField,
     wireTestCamelCaseFieldNames_RepeatedStringPieceField,
     wireTestCamelCaseFieldNames_RepeatedCordField]"

definition TestCamelCaseFieldNames_groups :: "TestCamelCaseFieldNames \<Rightarrow> wfield list list" where
  "TestCamelCaseFieldNames_groups s = [
     opt_field (PrimitiveField s \<noteq> 0) (wireTestCamelCaseFieldNames_PrimitiveField, int32_val (PrimitiveField s)),
     opt_field (StringField s \<noteq> []) (wireTestCamelCaseFieldNames_StringField, WBytes (StringField s)),
     opt_field (EnumField s \<noteq> 0) (wireTestCamelCaseFieldNames_EnumField, int32_val (EnumField s)),
     opt_field (MessageField s \<noteq> None) (wireTestCamelCaseFieldNames_MessageField, WBytes (ptr_bytes ForeignMessage_content (MessageField s))),
     opt_field (StringPieceField s \<noteq> []) (wireTestCamelCaseFieldNames_StringPieceField, WBytes (StringPieceField s)),
     opt_field (CordField s \<noteq> []) (wireTestCamelCaseFieldNames_CordField, WBytes (CordField s)),
     packed_fields int32_val wireTestCamelCaseFieldNames_RepeatedPrimitiveField (RepeatedPrimitiveField s),
     bytes_fields wireTestCamelCaseFieldNames_RepeatedStringField (RepeatedStringField s),
     packed_fields int32_val wireTestCamelCaseFieldNames_RepeatedEnumField (RepeatedEnumField s),
     bytes_fields wireTestCamelCaseFieldNames_RepeatedMessageField (map (ptr_bytes ForeignMessage_content) (RepeatedMessageField s)),
     bytes_fields wireTestCamelCaseFieldNames_RepeatedStringPieceField (RepeatedStringPieceField s),
     bytes_fields wireTestCamelCaseFieldNames_RepeatedCordField (RepeatedCordField s)]"

definition TestCamelCaseFieldNames_content :: "TestCamelCaseFieldNames \<Rightarrow> wfield list" where
  "TestCamelCaseFieldNames_content s = concat (TestCamelCaseFieldNames_groups s)"

text \<open>What a round trip keeps.\<close>

definition TestCamelCaseFieldNames_norm :: "TestCamelCaseFieldNames \<Rightarrow> TestCamelCaseFieldNames" where
  "TestCamelCaseFieldNames_norm s = s\<lparr>
     MessageField := norm_ptr ForeignMessage_content ForeignMessage_norm (MessageField s),
     RepeatedMessageField := map (norm_ptr ForeignMessage_content ForeignMessage_norm) (RepeatedMessageField s)\<rparr>"

definition TestCamelCaseFieldNames_ready :: "Reader \<Rightarrow> TestCamelCaseFieldNames \<Rightarrow> (TestCamelCaseFieldNamesReader \<Rightarrow> bool) list" where
  "TestCamelCaseFieldNames_ready p s = [
     \<lambda>m. cell_reads (readOne ReadInt32 0) plain p (if PrimitiveField s \<noteq> 0 then PrimitiveField s else 0) (cellPrimitiveField m),
     \<lambda>m. cell_reads (readOne ReadString []) plain p (if StringField s \<noteq> [] then StringField s else []) (cellStringField m),
     \<lambda>m. cell_reads (readOne ReadInt32 0) plain p (if EnumField s \<noteq> 0 then EnumField s else 0) (cellEnumField m),
     \<lambda>m. cell_reads (structReader (ForeignMessageReader_Unmarshal NewForeignMessageReader)) (structToStruct ForeignMessageReader_ToStruct) p (norm_ptr ForeignMessage_content ForeignMessage_norm (MessageField s)) (cellMessageField m),
     \<lambda>m. cell_reads (readOne ReadString []) plain p (if StringPieceField s \<noteq> [] then StringPieceField s else []) (cellStringPieceField m),
     \<lambda>m. cell_reads (readOne ReadString []) plain p (if CordField s \<noteq> [] then CordField s else []) (cellCordField m),
     \<lambda>m. cell_reads (readPacked ReadInt32 SizedReadInt32 0) plain p (RepeatedPrimitiveField s) (cellRepeatedPrimitiveField m),
     \<lambda>m. cell_reads (readList ReadString []) plain p (RepeatedStringField s) (cellRepeatedStringField m),
     \<lambda>m. cell_reads (readPacked ReadInt32 SizedReadInt32 0) plain p (RepeatedEnumField s) (cellRepeatedEnumField m),
     \<lambda>m. cell_reads (readStructs (ForeignMessageReader_Unmarshal NewForeignMessageReader)) (repeatedToStruct ForeignMessageReader_ToStruct) p (map (norm_ptr ForeignMessage_content ForeignMessage_norm) (RepeatedMessageField s)) (cellRepeatedMessageField m),
     \<lambda>m. cell_reads (readList ReadString []) plain p (RepeatedStringPieceField s) (cellRepeatedStringPieceField m),
     \<lambda>m. cell_reads (readList ReadString []) plain p (RepeatedCordField s) (cellRepeatedCordField m)]"

definition TestCamelCaseFieldNames_stored :: "TestCamelCaseFieldNames \<Rightarrow> (TestCamelCaseFieldNames \<Rightarrow> TestCamelCaseFieldNames) list" where
  "TestCamelCaseFieldNames_stored s = [
     \<lambda>res. res\<lparr>PrimitiveField := if PrimitiveField s \<noteq> 0 then PrimitiveField s else 0\<rparr>,
     \<lambda>res. res\<lparr>StringField := if StringField s \<noteq> [] then StringField s else []\<rparr>,
     \<lambda>res. res\<lparr>EnumField := if EnumField s \<noteq> 0 then EnumField s else 0\<rparr>,
     \<lambda>res. res\<lparr>MessageField := norm_ptr ForeignMessage_content ForeignMessage_norm (MessageField s)\<rparr>,
     \<lambda>res. res\<lparr>StringPieceField := if StringPieceField s \<noteq> [] then StringPieceField s else []\<rparr>,
     \<lambda>res. res\<lparr>CordField := if CordField s \<noteq> [] then CordField s else []\<rparr>,
     \<lambda>res. res\<lparr>RepeatedPrimitiveField := RepeatedPrimitiveField s\<rparr>,
     \<lambda>res. res\<lparr>RepeatedStringField := RepeatedStringField s\<rparr>,
     \<lambda>res. res\<lparr>RepeatedEnumField := RepeatedEnumField s\<rparr>,
     \<lambda>res. res\<lparr>RepeatedMessageField := map (norm_ptr ForeignMessage_content ForeignMessage_norm) (RepeatedMessageField s)\<rparr>,
     \<lambda>res. res\<lparr>RepeatedStringPieceField := RepeatedStringPieceField s\<rparr>,
     \<lambda>res. res\<lparr>RepeatedCordField := RepeatedCordField s\<rparr>]"

lemma TestCamelCaseFieldNames_cases_distinct: "distinct (map fst (TestCamelCaseFieldNamesReader_cases wire offset))"
  by (rule ascending_distinct) (simp add: TestCamelCaseFieldNamesReader_cases_def wireTestCamelCaseFieldNames)

lemma TestCamelCaseFieldNames_stores:
  "stores_cell TestCamelCaseFieldNamesReader_save wireTestCamelCaseFieldNames_PrimitiveField setOffset cellPrimitiveField"
  "stores_cell TestCamelCaseFieldNamesReader_save wireTestCamelCaseFieldNames_StringField setOffset cellStringField"
  "stores_cell TestCamelCaseFieldNamesReader_save wireTestCamelCaseFieldNames_EnumField setOffset cellEnumField"
  "stores_cell TestCamelCaseFieldNamesReader_save wireTestCamelCaseFieldNames_MessageField setOffset cellMessageField"
  "stores_cell TestCamelCaseFieldNamesReader_save wireTestCamelCaseFieldNames_StringPieceField setOffset cellStringPieceField"
  "stores_cell TestCamelCaseFieldNamesReader_save wireTestCamelCaseFieldNames_CordField setOffset cellCordField"
  "stores_cell TestCamelCaseFieldNamesReader_save wireTestCamelCaseFieldNames_RepeatedPrimitiveField addTyped cellRepeatedPrimitiveField"
  "stores_cell TestCamelCaseFieldNamesReader_save wireTestCamelCaseFieldNames_RepeatedStringField addOffset cellRepeatedStringField"
  "stores_cell TestCamelCaseFieldNamesReader_save wireTestCamelCaseFieldNames_RepeatedEnumField addTyped cellRepeatedEnumField"
  "stores_cell TestCamelCaseFieldNamesReader_save wireTestCamelCaseFieldNames_RepeatedMessageField addOffset cellRepeatedMessageField"
  "stores_cell TestCamelCaseFieldNamesReader_save wireTestCamelCaseFieldNames_RepeatedStringPieceField addOffset cellRepeatedStringPieceField"
  "stores_cell TestCamelCaseFieldNamesReader_save wireTestCamelCaseFieldNames_RepeatedCordField addOffset cellRepeatedCordField"
  unfolding TestCamelCaseFieldNamesReader_save_def [abs_def] by (rule stores_cell_switch; (rule TestCamelCaseFieldNames_cases_distinct)?; unfold TestCamelCaseFieldNamesReader_cases_def; intro own_case.intros; simp)+

lemma TestCamelCaseFieldNames_saved: "good_fields TestCamelCaseFieldNamesReader_save p (NewTestCamelCaseFieldNamesReader\<lparr>mbuf := Some p\<rparr>) TestCamelCaseFieldNames_tags (TestCamelCaseFieldNames_groups s) (TestCamelCaseFieldNames_ready p s)"
  unfolding TestCamelCaseFieldNames_tags_def TestCamelCaseFieldNames_groups_def TestCamelCaseFieldNames_ready_def
  by (intro good_fields.intros field_saved m_ForeignMessage.saved_struct TestCamelCaseFieldNames_stores) (simp_all add: NewTestCamelCaseFieldNamesReader_def newCell_def)

lemma TestCamelCaseFieldNames_converted: "good_stmts mbuf p (TestCamelCaseFieldNames_stmts) (TestCamelCaseFieldNames_ready p s) (TestCamelCaseFieldNames_stored s)"
  unfolding TestCamelCaseFieldNames_stmts_def TestCamelCaseFieldNames_ready_def TestCamelCaseFieldNames_stored_def TestCamelCaseFieldNames_getters append.simps
  by (intro good_stmts_field good_stmts.Nil) (simp_all cong: cell_reads_cong)

interpretation l_TestCamelCaseFieldNames: lazy_message TestCamelCaseFieldNames_tags TestCamelCaseFieldNames_groups TestCamelCaseFieldNames_norm
  "\<lambda>s. TestCamelCaseFieldNames_sizes s" "\<lambda>s. TestCamelCaseFieldNames_appends s"
  TestCamelCaseFieldNamesReader_save "\<lambda>p. NewTestCamelCaseFieldNamesReader\<lparr>mbuf := Some p\<rparr>" mbuf "TestCamelCaseFieldNames_stmts" TestCamelCaseFieldNames_zero TestCamelCaseFieldNames_ready TestCamelCaseFieldNames_stored
proof
  show "distinct TestCamelCaseFieldNames_tags"
    using TestCamelCaseFieldNames_cases_distinct by (simp only: TestCamelCaseFieldNamesReader_cases_def TestCamelCaseFieldNames_tags_def list.map fst_conv)
  show "list_all valid_tag TestCamelCaseFieldNames_tags"
    by (simp add: TestCamelCaseFieldNames_tags_def wireTestCamelCaseFieldNames valid_tag_def)
  show "list_all2 (\<lambda>t g. \<forall>f \<in> set g. fst f = t \<and> wf_val (snd f)) TestCamelCaseFieldNames_tags (TestCamelCaseFieldNames_groups s)" for s
    unfolding TestCamelCaseFieldNames_tags_def TestCamelCaseFieldNames_groups_def by (intro list.rel_intros field_tagged m_ForeignMessage.tagged_struct)
  show "list_all2 (\<lambda>e g. e = int (length (fields_bytes g))) (TestCamelCaseFieldNames_sizes s) (TestCamelCaseFieldNames_groups s)" for s
    unfolding TestCamelCaseFieldNames_sizes_def TestCamelCaseFieldNames_groups_def append.simps
    by (intro list.rel_intros field_sized m_ForeignMessage.sized_struct)
  show "list_all2 (\<lambda>st g. writes st (fields_bytes g)) (TestCamelCaseFieldNames_appends s) (TestCamelCaseFieldNames_groups s)" for s
    unfolding TestCamelCaseFieldNames_appends_def TestCamelCaseFieldNames_groups_def append.simps
    by (intro list.rel_intros field_written m_ForeignMessage.written_struct)
  show "mbuf (TestCamelCaseFieldNamesReader_save t w off m) = mbuf m" for t w off m
    unfolding TestCamelCaseFieldNamesReader_save_def by (rule tag_switch_keeps) (simp add: TestCamelCaseFieldNamesReader_cases_def)
  show "fold (\<lambda>e. e) (TestCamelCaseFieldNames_stored s) TestCamelCaseFieldNames_zero = TestCamelCaseFieldNames_norm s" for s
    unfolding TestCamelCaseFieldNames_stored_def by (simp add: TestCamelCaseFieldNames_zero_def TestCamelCaseFieldNames_norm_def float_defaults)
qed (simp_all add: TestCamelCaseFieldNames_saved TestCamelCaseFieldNames_converted)

interpretation m_TestCamelCaseFieldNames: message_codec TestCamelCaseFieldNames_content TestCamelCaseFieldNames_norm TestCamelCaseFieldNames_XXX_PbContentSize TestCamelCaseFieldNames_MarshalTo
  "TestCamelCaseFieldNamesReader_Unmarshal NewTestCamelCaseFieldNamesReader" TestCamelCaseFieldNamesReader_ToStruct
  using l_TestCamelCaseFieldNames.message
  by (simp only: TestCamelCaseFieldNames_content_def [abs_def] TestCamelCaseFieldNames_XXX_PbContentSize_def TestCamelCaseFieldNames_MarshalTo_def TestCamelCaseFieldNamesReader_Unmarshal_def [abs_def] TestCamelCaseFieldNamesReader_ToStruct_def)


section \<open>TestReallyLargeTagNumber: the reader\<close>

definition wireTestReallyLargeTagNumber_A :: ProtoWireNumber where "wireTestReallyLargeTagNumber_A = 1"
definition wireTestReallyLargeTagNumber_Bb :: ProtoWireNumber where "wireTestReallyLargeTagNumber_Bb = 268435455"

lemmas wireTestReallyLargeTagNumber =
  wireTestReallyLargeTagNumber_A_def wireTestReallyLargeTagNumber_Bb_def

record TestReallyLargeTagNumberReader =
  mbuf :: "Reader option"
  cellA :: "int32 one_cell"
  cellBb :: "int32 one_cell"

definition NewTestReallyLargeTagNumberReader :: TestReallyLargeTagNumberReader where
  "NewTestReallyLargeTagNumberReader = \<lparr>
     mbuf = None, cellA = newCell 0 0, cellBb = newCell 0 0\<rparr>"

definition TestReallyLargeTagNumberReader_readA :: "TestReallyLargeTagNumberReader \<Rightarrow> (int32 \<times> TestReallyLargeTagNumberReader) run" where
  "TestReallyLargeTagNumberReader_readA = readCell cellA cellA_update mbuf (readOne ReadInt32 0)"

definition TestReallyLargeTagNumberReader_GetA :: "TestReallyLargeTagNumberReader option \<Rightarrow> (int32 \<times> TestReallyLargeTagNumberReader option) run" where
  "TestReallyLargeTagNumberReader_GetA = getter TestReallyLargeTagNumberReader_readA 0"

definition TestReallyLargeTagNumberReader_readBb :: "TestReallyLargeTagNumberReader \<Rightarrow> (int32 \<times> TestReallyLargeTagNumberReader) run" where
  "TestReallyLargeTagNumberReader_readBb = readCell cellBb cellBb_update mbuf (readOne ReadInt32 0)"

definition TestReallyLargeTagNumberReader_GetBb :: "TestReallyLargeTagNumberReader option \<Rightarrow> (int32 \<times> TestReallyLargeTagNumberReader option) run" where
  "TestReallyLargeTagNumberReader_GetBb = getter TestReallyLargeTagNumberReader_readBb 0"

lemmas TestReallyLargeTagNumber_getters =
  TestReallyLargeTagNumberReader_readA_def TestReallyLargeTagNumberReader_GetA_def
  TestReallyLargeTagNumberReader_readBb_def TestReallyLargeTagNumberReader_GetBb_def

definition TestReallyLargeTagNumberReader_cases :: "ProtoWireType \<Rightarrow> int \<Rightarrow> (ProtoWireNumber \<times> (TestReallyLargeTagNumberReader \<Rightarrow> TestReallyLargeTagNumberReader)) list" where
  "TestReallyLargeTagNumberReader_cases wire offset = [
     (wireTestReallyLargeTagNumber_A, \<lambda>m. m\<lparr>cellA := onOffset (setOffset wire offset) (cellA m)\<rparr>),
     (wireTestReallyLargeTagNumber_Bb, \<lambda>m. m\<lparr>cellBb := onOffset (setOffset wire offset) (cellBb m)\<rparr>)]"

definition TestReallyLargeTagNumberReader_save :: "ProtoWireNumber \<Rightarrow> ProtoWireType \<Rightarrow> int \<Rightarrow> TestReallyLargeTagNumberReader \<Rightarrow> TestReallyLargeTagNumberReader" where
  "TestReallyLargeTagNumberReader_save tag wire offset = tag_switch (TestReallyLargeTagNumberReader_cases wire offset) tag"

definition TestReallyLargeTagNumberReader_Unmarshal :: "TestReallyLargeTagNumberReader \<Rightarrow> gslice \<Rightarrow> (TestReallyLargeTagNumberReader \<times> string option) run" where
  "TestReallyLargeTagNumberReader_Unmarshal m data =
     unmarshalLoop TestReallyLargeTagNumberReader_save (NewReader data) 0 (m\<lparr>mbuf := Some (NewReader data)\<rparr>)"

definition TestReallyLargeTagNumberReader_SourceBytes :: "TestReallyLargeTagNumberReader option \<Rightarrow> gslice" where
  "TestReallyLargeTagNumberReader_SourceBytes s = (case s of None \<Rightarrow> nil_slice | Some r \<Rightarrow> Bytes (mbuf r))"

section \<open>TestReallyLargeTagNumber: the struct\<close>

record TestReallyLargeTagNumber =
  A' :: int32
  Bb :: int32

definition TestReallyLargeTagNumber_zero :: TestReallyLargeTagNumber where
  "TestReallyLargeTagNumber_zero = \<lparr>
     A' = 0, Bb = 0\<rparr>"

definition TestReallyLargeTagNumber_stmts :: "(TestReallyLargeTagNumber \<times> TestReallyLargeTagNumberReader option \<Rightarrow> (TestReallyLargeTagNumber \<times> TestReallyLargeTagNumberReader option) run) list" where
  "TestReallyLargeTagNumber_stmts = [
     assign TestReallyLargeTagNumberReader_GetA (\<lambda>v res. res\<lparr>A' := v\<rparr>),
     assign TestReallyLargeTagNumberReader_GetBb (\<lambda>v res. res\<lparr>Bb := v\<rparr>)]"

definition TestReallyLargeTagNumberReader_ToStruct :: "TestReallyLargeTagNumberReader option \<Rightarrow> (TestReallyLargeTagNumber option \<times> TestReallyLargeTagNumberReader option) run" where
  "TestReallyLargeTagNumberReader_ToStruct = toStructWith (TestReallyLargeTagNumber_stmts) TestReallyLargeTagNumber_zero"

definition TestReallyLargeTagNumber_appends :: "TestReallyLargeTagNumber \<Rightarrow> (Writer \<Rightarrow> Writer go) list" where
  "TestReallyLargeTagNumber_appends s = [
     \<lambda>res. if A' s \<noteq> 0 then AppendInt32 res wireTestReallyLargeTagNumber_A (A' s) else Ret res,
     \<lambda>res. if Bb s \<noteq> 0 then AppendInt32 res wireTestReallyLargeTagNumber_Bb (Bb s) else Ret res]"

definition TestReallyLargeTagNumber_MarshalTo :: "Writer \<Rightarrow> TestReallyLargeTagNumber option \<Rightarrow> Writer go" where
  "TestReallyLargeTagNumber_MarshalTo = marshalToWith (\<lambda>s. TestReallyLargeTagNumber_appends s)"

definition TestReallyLargeTagNumber_sizes :: "TestReallyLargeTagNumber \<Rightarrow> int list" where
  "TestReallyLargeTagNumber_sizes s = [
     if A' s \<noteq> 0 then sizeWithTag SizeInt32 wireTestReallyLargeTagNumber_A (A' s) else 0,
     if Bb s \<noteq> 0 then sizeWithTag SizeInt32 wireTestReallyLargeTagNumber_Bb (Bb s) else 0]"

definition TestReallyLargeTagNumber_XXX_PbContentSize :: "TestReallyLargeTagNumber option \<Rightarrow> int" where
  "TestReallyLargeTagNumber_XXX_PbContentSize = contentSizeWith (\<lambda>s. TestReallyLargeTagNumber_sizes s)"

definition TestReallyLargeTagNumber_Marshal :: "TestReallyLargeTagNumber option \<Rightarrow> byte list go" where
  "TestReallyLargeTagNumber_Marshal = marshalWith TestReallyLargeTagNumber_XXX_PbContentSize TestReallyLargeTagNumber_MarshalTo"

definition TestReallyLargeTagNumber_Copy :: "TestReallyLargeTagNumber option \<Rightarrow> TestReallyLargeTagNumber option" where
  "TestReallyLargeTagNumber_Copy s =
     (case s of None \<Rightarrow> None | Some s \<Rightarrow> Some \<lparr>
        A' = A' s, Bb = Bb s\<rparr>)"

section \<open>TestReallyLargeTagNumber: the round trip\<close>

definition TestReallyLargeTagNumber_tags :: "ProtoWireNumber list" where
  "TestReallyLargeTagNumber_tags = [
     wireTestReallyLargeTagNumber_A, wireTestReallyLargeTagNumber_Bb]"

definition TestReallyLargeTagNumber_groups :: "TestReallyLargeTagNumber \<Rightarrow> wfield list list" where
  "TestReallyLargeTagNumber_groups s = [
     opt_field (A' s \<noteq> 0) (wireTestReallyLargeTagNumber_A, int32_val (A' s)),
     opt_field (Bb s \<noteq> 0) (wireTestReallyLargeTagNumber_Bb, int32_val (Bb s))]"

definition TestReallyLargeTagNumber_content :: "TestReallyLargeTagNumber \<Rightarrow> wfield list" where
  "TestReallyLargeTagNumber_content s = concat (TestReallyLargeTagNumber_groups s)"

text \<open>What a round trip keeps.\<close>

definition TestReallyLargeTagNumber_norm :: "TestReallyLargeTagNumber \<Rightarrow> TestReallyLargeTagNumber" where
  "TestReallyLargeTagNumber_norm s = s"

definition TestReallyLargeTagNumber_ready :: "Reader \<Rightarrow> TestReallyLargeTagNumber \<Rightarrow> (TestReallyLargeTagNumberReader \<Rightarrow> bool) list" where
  "TestReallyLargeTagNumber_ready p s = [
     \<lambda>m. cell_reads (readOne ReadInt32 0) plain p (if A' s \<noteq> 0 then A' s else 0) (cellA m),
     \<lambda>m. cell_reads (readOne ReadInt32 0) plain p (if Bb s \<noteq> 0 then Bb s else 0) (cellBb m)]"

definition TestReallyLargeTagNumber_stored :: "TestReallyLargeTagNumber \<Rightarrow> (TestReallyLargeTagNumber \<Rightarrow> TestReallyLargeTagNumber) list" where
  "TestReallyLargeTagNumber_stored s = [
     \<lambda>res. res\<lparr>A' := if A' s \<noteq> 0 then A' s else 0\<rparr>,
     \<lambda>res. res\<lparr>Bb := if Bb s \<noteq> 0 then Bb s else 0\<rparr>]"

lemma TestReallyLargeTagNumber_cases_distinct: "distinct (map fst (TestReallyLargeTagNumberReader_cases wire offset))"
  by (rule ascending_distinct) (simp add: TestReallyLargeTagNumberReader_cases_def wireTestReallyLargeTagNumber)

lemma TestReallyLargeTagNumber_stores:
  "stores_cell TestReallyLargeTagNumberReader_save wireTestReallyLargeTagNumber_A setOffset cellA"
  "stores_cell TestReallyLargeTagNumberReader_save wireTestReallyLargeTagNumber_Bb setOffset cellBb"
  unfolding TestReallyLargeTagNumberReader_save_def [abs_def] by (rule stores_cell_switch; (rule TestReallyLargeTagNumber_cases_distinct)?; unfold TestReallyLargeTagNumberReader_cases_def; intro own_case.intros; simp)+

lemma TestReallyLargeTagNumber_saved: "good_fields TestReallyLargeTagNumberReader_save p (NewTestReallyLargeTagNumberReader\<lparr>mbuf := Some p\<rparr>) TestReallyLargeTagNumber_tags (TestReallyLargeTagNumber_groups s) (TestReallyLargeTagNumber_ready p s)"
  unfolding TestReallyLargeTagNumber_tags_def TestReallyLargeTagNumber_groups_def TestReallyLargeTagNumber_ready_def
  by (intro good_fields.intros field_saved TestReallyLargeTagNumber_stores) (simp_all add: NewTestReallyLargeTagNumberReader_def newCell_def)

lemma TestReallyLargeTagNumber_converted: "good_stmts mbuf p (TestReallyLargeTagNumber_stmts) (TestReallyLargeTagNumber_ready p s) (TestReallyLargeTagNumber_stored s)"
  unfolding TestReallyLargeTagNumber_stmts_def TestReallyLargeTagNumber_ready_def TestReallyLargeTagNumber_stored_def TestReallyLargeTagNumber_getters append.simps
  by (intro good_stmts_field good_stmts.Nil) (simp_all cong: cell_reads_cong)

interpretation l_TestReallyLargeTagNumber: lazy_message TestReallyLargeTagNumber_tags TestReallyLargeTagNumber_groups TestReallyLargeTagNumber_norm
  "\<lambda>s. TestReallyLargeTagNumber_sizes s" "\<lambda>s. TestReallyLargeTagNumber_appends s"
  TestReallyLargeTagNumberReader_save "\<lambda>p. NewTestReallyLargeTagNumberReader\<lparr>mbuf := Some p\<rparr>" mbuf "TestReallyLargeTagNumber_stmts" TestReallyLargeTagNumber_zero TestReallyLargeTagNumber_ready TestReallyLargeTagNumber_stored
proof
  show "distinct TestReallyLargeTagNumber_tags"
    using TestReallyLargeTagNumber_cases_distinct by (simp only: TestReallyLargeTagNumberReader_cases_def TestReallyLargeTagNumber_tags_def list.map fst_conv)
  show "list_all valid_tag TestReallyLargeTagNumber_tags"
    by (simp add: TestReallyLargeTagNumber_tags_def wireTestReallyLargeTagNumber valid_tag_def)
  show "list_all2 (\<lambda>t g. \<forall>f \<in> set g. fst f = t \<and> wf_val (snd f)) TestReallyLargeTagNumber_tags (TestReallyLargeTagNumber_groups s)" for s
    unfolding TestReallyLargeTagNumber_tags_def TestReallyLargeTagNumber_groups_def by (intro list.rel_intros field_tagged)
  show "list_all2 (\<lambda>e g. e = int (length (fields_bytes g))) (TestReallyLargeTagNumber_sizes s) (TestReallyLargeTagNumber_groups s)" for s
    unfolding TestReallyLargeTagNumber_sizes_def TestReallyLargeTagNumber_groups_def append.simps
    by (intro list.rel_intros field_sized)
  show "list_all2 (\<lambda>st g. writes st (fields_bytes g)) (TestReallyLargeTagNumber_appends s) (TestReallyLargeTagNumber_groups s)" for s
    unfolding TestReallyLargeTagNumber_appends_def TestReallyLargeTagNumber_groups_def append.simps
    by (intro list.rel_intros field_written)
  show "mbuf (TestReallyLargeTagNumberReader_save t w off m) = mbuf m" for t w off m
    unfolding TestReallyLargeTagNumberReader_save_def by (rule tag_switch_keeps) (simp add: TestReallyLargeTagNumberReader_cases_def)
  show "fold (\<lambda>e. e) (TestReallyLargeTagNumber_stored s) TestReallyLargeTagNumber_zero = TestReallyLargeTagNumber_norm s" for s
    unfolding TestReallyLargeTagNumber_stored_def by (simp add: TestReallyLargeTagNumber_zero_def TestReallyLargeTagNumber_norm_def float_defaults)
qed (simp_all add: TestReallyLargeTagNumber_saved TestReallyLargeTagNumber_converted)

interpretation m_TestReallyLargeTagNumber: message_codec TestReallyLargeTagNumber_content TestReallyLargeTagNumber_norm TestReallyLargeTagNumber_XXX_PbContentSize TestReallyLargeTagNumber_MarshalTo
  "TestReallyLargeTagNumberReader_Unmarshal NewTestReallyLargeTagNumberReader" TestReallyLargeTagNumberReader_ToStruct
  using l_TestReallyLargeTagNumber.message
  by (simp only: TestReallyLargeTagNumber_content_def [abs_def] TestReallyLargeTagNumber_XXX_PbContentSize_def TestReallyLargeTagNumber_MarshalTo_def TestReallyLargeTagNumberReader_Unmarshal_def [abs_def] TestReallyLargeTagNumberReader_ToStruct_def)


section \<open>TestDeprecatedFields: the reader\<close>

definition wireTestDeprecatedFields_DeprecatedInt32 :: ProtoWireNumber where "wireTestDeprecatedFields_DeprecatedInt32 = 1"
definition wireTestDeprecatedFields_DeprecatedInt32InOneof :: ProtoWireNumber where "wireTestDeprecatedFields_DeprecatedInt32InOneof = 2"

lemmas wireTestDeprecatedFields =
  wireTestDeprecatedFields_DeprecatedInt32_def
  wireTestDeprecatedFields_DeprecatedInt32InOneof_def

record TestDeprecatedFieldsReader =
  mbuf :: "Reader option"
  cellDeprecatedInt32 :: "int32 one_cell"
  cellDeprecatedInt32InOneof :: "int32 one_cell"

definition NewTestDeprecatedFieldsReader :: TestDeprecatedFieldsReader where
  "NewTestDeprecatedFieldsReader = \<lparr>
     mbuf = None, cellDeprecatedInt32 = newCell 0 0, cellDeprecatedInt32InOneof = newCell 0 0\<rparr>"

definition TestDeprecatedFieldsReader_readDeprecatedInt32 :: "TestDeprecatedFieldsReader \<Rightarrow> (int32 \<times> TestDeprecatedFieldsReader) run" where
  "TestDeprecatedFieldsReader_readDeprecatedInt32 = readCell cellDeprecatedInt32 cellDeprecatedInt32_update mbuf (readOne ReadInt32 0)"

definition TestDeprecatedFieldsReader_GetDeprecatedInt32 :: "TestDeprecatedFieldsReader option \<Rightarrow> (int32 \<times> TestDeprecatedFieldsReader option) run" where
  "TestDeprecatedFieldsReader_GetDeprecatedInt32 = getter TestDeprecatedFieldsReader_readDeprecatedInt32 0"

definition TestDeprecatedFieldsReader_readDeprecatedInt32InOneof :: "TestDeprecatedFieldsReader \<Rightarrow> (int32 \<times> TestDeprecatedFieldsReader) run" where
  "TestDeprecatedFieldsReader_readDeprecatedInt32InOneof = readCell cellDeprecatedInt32InOneof cellDeprecatedInt32InOneof_update mbuf (readOne ReadInt32 0)"

definition TestDeprecatedFieldsReader_GetDeprecatedInt32InOneof :: "TestDeprecatedFieldsReader option \<Rightarrow> (int32 \<times> TestDeprecatedFieldsReader option) run" where
  "TestDeprecatedFieldsReader_GetDeprecatedInt32InOneof = getter TestDeprecatedFieldsReader_readDeprecatedInt32InOneof 0"

lemmas TestDeprecatedFields_getters =
  TestDeprecatedFieldsReader_readDeprecatedInt32_def TestDeprecatedFieldsReader_GetDeprecatedInt32_def
  TestDeprecatedFieldsReader_readDeprecatedInt32InOneof_def TestDeprecatedFieldsReader_GetDeprecatedInt32InOneof_def

definition TestDeprecatedFieldsReader_cases :: "ProtoWireType \<Rightarrow> int \<Rightarrow> (ProtoWireNumber \<times> (TestDeprecatedFieldsReader \<Rightarrow> TestDeprecatedFieldsReader)) list" where
  "TestDeprecatedFieldsReader_cases wire offset = [
     (wireTestDeprecatedFields_DeprecatedInt32, \<lambda>m. m\<lparr>cellDeprecatedInt32 := onOffset (setOffset wire offset) (cellDeprecatedInt32 m)\<rparr>),
     (wireTestDeprecatedFields_DeprecatedInt32InOneof, \<lambda>m. m\<lparr>cellDeprecatedInt32InOneof := onOffset (setOffset wire offset) (cellDeprecatedInt32InOneof m)\<rparr>)]"

definition TestDeprecatedFieldsReader_save :: "ProtoWireNumber \<Rightarrow> ProtoWireType \<Rightarrow> int \<Rightarrow> TestDeprecatedFieldsReader \<Rightarrow> TestDeprecatedFieldsReader" where
  "TestDeprecatedFieldsReader_save tag wire offset = tag_switch (TestDeprecatedFieldsReader_cases wire offset) tag"

definition TestDeprecatedFieldsReader_Unmarshal :: "TestDeprecatedFieldsReader \<Rightarrow> gslice \<Rightarrow> (TestDeprecatedFieldsReader \<times> string option) run" where
  "TestDeprecatedFieldsReader_Unmarshal m data =
     unmarshalLoop TestDeprecatedFieldsReader_save (NewReader data) 0 (m\<lparr>mbuf := Some (NewReader data)\<rparr>)"

definition TestDeprecatedFieldsReader_SourceBytes :: "TestDeprecatedFieldsReader option \<Rightarrow> gslice" where
  "TestDeprecatedFieldsReader_SourceBytes s = (case s of None \<Rightarrow> nil_slice | Some r \<Rightarrow> Bytes (mbuf r))"

section \<open>TestDeprecatedFields: the struct\<close>

record TestDeprecatedFields =
  DeprecatedInt32 :: int32
  DeprecatedInt32InOneof :: int32

definition TestDeprecatedFields_zero :: TestDeprecatedFields where
  "TestDeprecatedFields_zero = \<lparr>
     DeprecatedInt32 = 0, DeprecatedInt32InOneof = 0\<rparr>"

definition TestDeprecatedFields_stmts :: "(TestDeprecatedFields \<times> TestDeprecatedFieldsReader option \<Rightarrow> (TestDeprecatedFields \<times> TestDeprecatedFieldsReader option) run) list" where
  "TestDeprecatedFields_stmts = [
     assign TestDeprecatedFieldsReader_GetDeprecatedInt32 (\<lambda>v res. res\<lparr>DeprecatedInt32 := v\<rparr>),
     assign TestDeprecatedFieldsReader_GetDeprecatedInt32InOneof (\<lambda>v res. res\<lparr>DeprecatedInt32InOneof := v\<rparr>)]"

definition TestDeprecatedFieldsReader_ToStruct :: "TestDeprecatedFieldsReader option \<Rightarrow> (TestDeprecatedFields option \<times> TestDeprecatedFieldsReader option) run" where
  "TestDeprecatedFieldsReader_ToStruct = toStructWith (TestDeprecatedFields_stmts) TestDeprecatedFields_zero"

definition TestDeprecatedFields_appends :: "TestDeprecatedFields \<Rightarrow> (Writer \<Rightarrow> Writer go) list" where
  "TestDeprecatedFields_appends s = [
     \<lambda>res. if DeprecatedInt32 s \<noteq> 0 then AppendInt32 res wireTestDeprecatedFields_DeprecatedInt32 (DeprecatedInt32 s) else Ret res,
     \<lambda>res. if DeprecatedInt32InOneof s \<noteq> 0 then AppendInt32 res wireTestDeprecatedFields_DeprecatedInt32InOneof (DeprecatedInt32InOneof s) else Ret res]"

definition TestDeprecatedFields_MarshalTo :: "Writer \<Rightarrow> TestDeprecatedFields option \<Rightarrow> Writer go" where
  "TestDeprecatedFields_MarshalTo = marshalToWith (\<lambda>s. TestDeprecatedFields_appends s)"

definition TestDeprecatedFields_sizes :: "TestDeprecatedFields \<Rightarrow> int list" where
  "TestDeprecatedFields_sizes s = [
     if DeprecatedInt32 s \<noteq> 0 then sizeWithTag SizeInt32 wireTestDeprecatedFields_DeprecatedInt32 (DeprecatedInt32 s) else 0,
     if DeprecatedInt32InOneof s \<noteq> 0 then sizeWithTag SizeInt32 wireTestDeprecatedFields_DeprecatedInt32InOneof (DeprecatedInt32InOneof s) else 0]"

definition TestDeprecatedFields_XXX_PbContentSize :: "TestDeprecatedFields option \<Rightarrow> int" where
  "TestDeprecatedFields_XXX_PbContentSize = contentSizeWith (\<lambda>s. TestDeprecatedFields_sizes s)"

definition TestDeprecatedFields_Marshal :: "TestDeprecatedFields option \<Rightarrow> byte list go" where
  "TestDeprecatedFields_Marshal = marshalWith TestDeprecatedFields_XXX_PbContentSize TestDeprecatedFields_MarshalTo"

definition TestDeprecatedFields_Copy :: "TestDeprecatedFields option \<Rightarrow> TestDeprecatedFields option" where
  "TestDeprecatedFields_Copy s =
     (case s of None \<Rightarrow> None | Some s \<Rightarrow> Some \<lparr>
        DeprecatedInt32 = DeprecatedInt32 s, DeprecatedInt32InOneof = DeprecatedInt32InOneof s\<rparr>)"

section \<open>TestDeprecatedFields: the round trip\<close>

definition TestDeprecatedFields_tags :: "ProtoWireNumber list" where
  "TestDeprecatedFields_tags = [
     wireTestDeprecatedFields_DeprecatedInt32, wireTestDeprecatedFields_DeprecatedInt32InOneof]"

definition TestDeprecatedFields_groups :: "TestDeprecatedFields \<Rightarrow> wfield list list" where
  "TestDeprecatedFields_groups s = [
     opt_field (DeprecatedInt32 s \<noteq> 0) (wireTestDeprecatedFields_DeprecatedInt32, int32_val (DeprecatedInt32 s)),
     opt_field (DeprecatedInt32InOneof s \<noteq> 0) (wireTestDeprecatedFields_DeprecatedInt32InOneof, int32_val (DeprecatedInt32InOneof s))]"

definition TestDeprecatedFields_content :: "TestDeprecatedFields \<Rightarrow> wfield list" where
  "TestDeprecatedFields_content s = concat (TestDeprecatedFields_groups s)"

text \<open>What a round trip keeps.\<close>

definition TestDeprecatedFields_norm :: "TestDeprecatedFields \<Rightarrow> TestDeprecatedFields" where
  "TestDeprecatedFields_norm s = s"

definition TestDeprecatedFields_ready :: "Reader \<Rightarrow> TestDeprecatedFields \<Rightarrow> (TestDeprecatedFieldsReader \<Rightarrow> bool) list" where
  "TestDeprecatedFields_ready p s = [
     \<lambda>m. cell_reads (readOne ReadInt32 0) plain p (if DeprecatedInt32 s \<noteq> 0 then DeprecatedInt32 s else 0) (cellDeprecatedInt32 m),
     \<lambda>m. cell_reads (readOne ReadInt32 0) plain p (if DeprecatedInt32InOneof s \<noteq> 0 then DeprecatedInt32InOneof s else 0) (cellDeprecatedInt32InOneof m)]"

definition TestDeprecatedFields_stored :: "TestDeprecatedFields \<Rightarrow> (TestDeprecatedFields \<Rightarrow> TestDeprecatedFields) list" where
  "TestDeprecatedFields_stored s = [
     \<lambda>res. res\<lparr>DeprecatedInt32 := if DeprecatedInt32 s \<noteq> 0 then DeprecatedInt32 s else 0\<rparr>,
     \<lambda>res. res\<lparr>DeprecatedInt32InOneof := if DeprecatedInt32InOneof s \<noteq> 0 then DeprecatedInt32InOneof s else 0\<rparr>]"

lemma TestDeprecatedFields_cases_distinct: "distinct (map fst (TestDeprecatedFieldsReader_cases wire offset))"
  by (rule ascending_distinct) (simp add: TestDeprecatedFieldsReader_cases_def wireTestDeprecatedFields)

lemma TestDeprecatedFields_stores:
  "stores_cell TestDeprecatedFieldsReader_save wireTestDeprecatedFields_DeprecatedInt32 setOffset cellDeprecatedInt32"
  "stores_cell TestDeprecatedFieldsReader_save wireTestDeprecatedFields_DeprecatedInt32InOneof setOffset cellDeprecatedInt32InOneof"
  unfolding TestDeprecatedFieldsReader_save_def [abs_def] by (rule stores_cell_switch; (rule TestDeprecatedFields_cases_distinct)?; unfold TestDeprecatedFieldsReader_cases_def; intro own_case.intros; simp)+

lemma TestDeprecatedFields_saved: "good_fields TestDeprecatedFieldsReader_save p (NewTestDeprecatedFieldsReader\<lparr>mbuf := Some p\<rparr>) TestDeprecatedFields_tags (TestDeprecatedFields_groups s) (TestDeprecatedFields_ready p s)"
  unfolding TestDeprecatedFields_tags_def TestDeprecatedFields_groups_def TestDeprecatedFields_ready_def
  by (intro good_fields.intros field_saved TestDeprecatedFields_stores) (simp_all add: NewTestDeprecatedFieldsReader_def newCell_def)

lemma TestDeprecatedFields_converted: "good_stmts mbuf p (TestDeprecatedFields_stmts) (TestDeprecatedFields_ready p s) (TestDeprecatedFields_stored s)"
  unfolding TestDeprecatedFields_stmts_def TestDeprecatedFields_ready_def TestDeprecatedFields_stored_def TestDeprecatedFields_getters append.simps
  by (intro good_stmts_field good_stmts.Nil) (simp_all cong: cell_reads_cong)

interpretation l_TestDeprecatedFields: lazy_message TestDeprecatedFields_tags TestDeprecatedFields_groups TestDeprecatedFields_norm
  "\<lambda>s. TestDeprecatedFields_sizes s" "\<lambda>s. TestDeprecatedFields_appends s"
  TestDeprecatedFieldsReader_save "\<lambda>p. NewTestDeprecatedFieldsReader\<lparr>mbuf := Some p\<rparr>" mbuf "TestDeprecatedFields_stmts" TestDeprecatedFields_zero TestDeprecatedFields_ready TestDeprecatedFields_stored
proof
  show "distinct TestDeprecatedFields_tags"
    using TestDeprecatedFields_cases_distinct by (simp only: TestDeprecatedFieldsReader_cases_def TestDeprecatedFields_tags_def list.map fst_conv)
  show "list_all valid_tag TestDeprecatedFields_tags"
    by (simp add: TestDeprecatedFields_tags_def wireTestDeprecatedFields valid_tag_def)
  show "list_all2 (\<lambda>t g. \<forall>f \<in> set g. fst f = t \<and> wf_val (snd f)) TestDeprecatedFields_tags (TestDeprecatedFields_groups s)" for s
    unfolding TestDeprecatedFields_tags_def TestDeprecatedFields_groups_def by (intro list.rel_intros field_tagged)
  show "list_all2 (\<lambda>e g. e = int (length (fields_bytes g))) (TestDeprecatedFields_sizes s) (TestDeprecatedFields_groups s)" for s
    unfolding TestDeprecatedFields_sizes_def TestDeprecatedFields_groups_def append.simps
    by (intro list.rel_intros field_sized)
  show "list_all2 (\<lambda>st g. writes st (fields_bytes g)) (TestDeprecatedFields_appends s) (TestDeprecatedFields_groups s)" for s
    unfolding TestDeprecatedFields_appends_def TestDeprecatedFields_groups_def append.simps
    by (intro list.rel_intros field_written)
  show "mbuf (TestDeprecatedFieldsReader_save t w off m) = mbuf m" for t w off m
    unfolding TestDeprecatedFieldsReader_save_def by (rule tag_switch_keeps) (simp add: TestDeprecatedFieldsReader_cases_def)
  show "fold (\<lambda>e. e) (TestDeprecatedFields_stored s) TestDeprecatedFields_zero = TestDeprecatedFields_norm s" for s
    unfolding TestDeprecatedFields_stored_def by (simp add: TestDeprecatedFields_zero_def TestDeprecatedFields_norm_def float_defaults)
qed (simp_all add: TestDeprecatedFields_saved TestDeprecatedFields_converted)

interpretation m_TestDeprecatedFields: message_codec TestDeprecatedFields_content TestDeprecatedFields_norm TestDeprecatedFields_XXX_PbContentSize TestDeprecatedFields_MarshalTo
  "TestDeprecatedFieldsReader_Unmarshal NewTestDeprecatedFieldsReader" TestDeprecatedFieldsReader_ToStruct
  using l_TestDeprecatedFields.message
  by (simp only: TestDeprecatedFields_content_def [abs_def] TestDeprecatedFields_XXX_PbContentSize_def TestDeprecatedFields_MarshalTo_def TestDeprecatedFieldsReader_Unmarshal_def [abs_def] TestDeprecatedFieldsReader_ToStruct_def)


end
