(* ===== verification/TestAllExtensions_Message.thy ===== *)
theory TestAllExtensions_Message
  imports Unittest_Base
begin

text \<open>
  The message type \<^verbatim>\<open>TestAllExtensions\<close> of
  \<^verbatim>\<open>src/shared/gremlin_go/bench/gremlin_pb/protobuf_unittest/unittest.pb2.go\<close>: the extensions of the file as the fields of the message they extend.
\<close>

section \<open>TestAllExtensions: the reader\<close>

definition wireTestAllExtensions_OptionalInt32Extension :: ProtoWireNumber where "wireTestAllExtensions_OptionalInt32Extension = 1"
definition wireTestAllExtensions_OptionalInt64Extension :: ProtoWireNumber where "wireTestAllExtensions_OptionalInt64Extension = 2"
definition wireTestAllExtensions_OptionalUint32Extension :: ProtoWireNumber where "wireTestAllExtensions_OptionalUint32Extension = 3"
definition wireTestAllExtensions_OptionalUint64Extension :: ProtoWireNumber where "wireTestAllExtensions_OptionalUint64Extension = 4"
definition wireTestAllExtensions_OptionalSint32Extension :: ProtoWireNumber where "wireTestAllExtensions_OptionalSint32Extension = 5"
definition wireTestAllExtensions_OptionalSint64Extension :: ProtoWireNumber where "wireTestAllExtensions_OptionalSint64Extension = 6"
definition wireTestAllExtensions_OptionalFixed32Extension :: ProtoWireNumber where "wireTestAllExtensions_OptionalFixed32Extension = 7"
definition wireTestAllExtensions_OptionalFixed64Extension :: ProtoWireNumber where "wireTestAllExtensions_OptionalFixed64Extension = 8"
definition wireTestAllExtensions_OptionalSfixed32Extension :: ProtoWireNumber where "wireTestAllExtensions_OptionalSfixed32Extension = 9"
definition wireTestAllExtensions_OptionalSfixed64Extension :: ProtoWireNumber where "wireTestAllExtensions_OptionalSfixed64Extension = 10"
definition wireTestAllExtensions_OptionalFloatExtension :: ProtoWireNumber where "wireTestAllExtensions_OptionalFloatExtension = 11"
definition wireTestAllExtensions_OptionalDoubleExtension :: ProtoWireNumber where "wireTestAllExtensions_OptionalDoubleExtension = 12"
definition wireTestAllExtensions_OptionalBoolExtension :: ProtoWireNumber where "wireTestAllExtensions_OptionalBoolExtension = 13"
definition wireTestAllExtensions_OptionalStringExtension :: ProtoWireNumber where "wireTestAllExtensions_OptionalStringExtension = 14"
definition wireTestAllExtensions_OptionalBytesExtension :: ProtoWireNumber where "wireTestAllExtensions_OptionalBytesExtension = 15"
definition wireTestAllExtensions_OptionalNestedMessageExtension :: ProtoWireNumber where "wireTestAllExtensions_OptionalNestedMessageExtension = 18"
definition wireTestAllExtensions_OptionalForeignMessageExtension :: ProtoWireNumber where "wireTestAllExtensions_OptionalForeignMessageExtension = 19"
definition wireTestAllExtensions_OptionalImportMessageExtension :: ProtoWireNumber where "wireTestAllExtensions_OptionalImportMessageExtension = 20"
definition wireTestAllExtensions_OptionalNestedEnumExtension :: ProtoWireNumber where "wireTestAllExtensions_OptionalNestedEnumExtension = 21"
definition wireTestAllExtensions_OptionalForeignEnumExtension :: ProtoWireNumber where "wireTestAllExtensions_OptionalForeignEnumExtension = 22"
definition wireTestAllExtensions_OptionalImportEnumExtension :: ProtoWireNumber where "wireTestAllExtensions_OptionalImportEnumExtension = 23"
definition wireTestAllExtensions_OptionalStringPieceExtension :: ProtoWireNumber where "wireTestAllExtensions_OptionalStringPieceExtension = 24"
definition wireTestAllExtensions_OptionalCordExtension :: ProtoWireNumber where "wireTestAllExtensions_OptionalCordExtension = 25"
definition wireTestAllExtensions_OptionalPublicImportMessageExtension :: ProtoWireNumber where "wireTestAllExtensions_OptionalPublicImportMessageExtension = 26"
definition wireTestAllExtensions_OptionalLazyMessageExtension :: ProtoWireNumber where "wireTestAllExtensions_OptionalLazyMessageExtension = 27"
definition wireTestAllExtensions_OptionalUnverifiedLazyMessageExtension :: ProtoWireNumber where "wireTestAllExtensions_OptionalUnverifiedLazyMessageExtension = 28"
definition wireTestAllExtensions_RepeatedInt32Extension :: ProtoWireNumber where "wireTestAllExtensions_RepeatedInt32Extension = 31"
definition wireTestAllExtensions_RepeatedInt64Extension :: ProtoWireNumber where "wireTestAllExtensions_RepeatedInt64Extension = 32"
definition wireTestAllExtensions_RepeatedUint32Extension :: ProtoWireNumber where "wireTestAllExtensions_RepeatedUint32Extension = 33"
definition wireTestAllExtensions_RepeatedUint64Extension :: ProtoWireNumber where "wireTestAllExtensions_RepeatedUint64Extension = 34"
definition wireTestAllExtensions_RepeatedSint32Extension :: ProtoWireNumber where "wireTestAllExtensions_RepeatedSint32Extension = 35"
definition wireTestAllExtensions_RepeatedSint64Extension :: ProtoWireNumber where "wireTestAllExtensions_RepeatedSint64Extension = 36"
definition wireTestAllExtensions_RepeatedFixed32Extension :: ProtoWireNumber where "wireTestAllExtensions_RepeatedFixed32Extension = 37"
definition wireTestAllExtensions_RepeatedFixed64Extension :: ProtoWireNumber where "wireTestAllExtensions_RepeatedFixed64Extension = 38"
definition wireTestAllExtensions_RepeatedSfixed32Extension :: ProtoWireNumber where "wireTestAllExtensions_RepeatedSfixed32Extension = 39"
definition wireTestAllExtensions_RepeatedSfixed64Extension :: ProtoWireNumber where "wireTestAllExtensions_RepeatedSfixed64Extension = 40"
definition wireTestAllExtensions_RepeatedFloatExtension :: ProtoWireNumber where "wireTestAllExtensions_RepeatedFloatExtension = 41"
definition wireTestAllExtensions_RepeatedDoubleExtension :: ProtoWireNumber where "wireTestAllExtensions_RepeatedDoubleExtension = 42"
definition wireTestAllExtensions_RepeatedBoolExtension :: ProtoWireNumber where "wireTestAllExtensions_RepeatedBoolExtension = 43"
definition wireTestAllExtensions_RepeatedStringExtension :: ProtoWireNumber where "wireTestAllExtensions_RepeatedStringExtension = 44"
definition wireTestAllExtensions_RepeatedBytesExtension :: ProtoWireNumber where "wireTestAllExtensions_RepeatedBytesExtension = 45"
definition wireTestAllExtensions_RepeatedNestedMessageExtension :: ProtoWireNumber where "wireTestAllExtensions_RepeatedNestedMessageExtension = 48"
definition wireTestAllExtensions_RepeatedForeignMessageExtension :: ProtoWireNumber where "wireTestAllExtensions_RepeatedForeignMessageExtension = 49"
definition wireTestAllExtensions_RepeatedImportMessageExtension :: ProtoWireNumber where "wireTestAllExtensions_RepeatedImportMessageExtension = 50"
definition wireTestAllExtensions_RepeatedNestedEnumExtension :: ProtoWireNumber where "wireTestAllExtensions_RepeatedNestedEnumExtension = 51"
definition wireTestAllExtensions_RepeatedForeignEnumExtension :: ProtoWireNumber where "wireTestAllExtensions_RepeatedForeignEnumExtension = 52"
definition wireTestAllExtensions_RepeatedImportEnumExtension :: ProtoWireNumber where "wireTestAllExtensions_RepeatedImportEnumExtension = 53"
definition wireTestAllExtensions_RepeatedStringPieceExtension :: ProtoWireNumber where "wireTestAllExtensions_RepeatedStringPieceExtension = 54"
definition wireTestAllExtensions_RepeatedCordExtension :: ProtoWireNumber where "wireTestAllExtensions_RepeatedCordExtension = 55"
definition wireTestAllExtensions_RepeatedLazyMessageExtension :: ProtoWireNumber where "wireTestAllExtensions_RepeatedLazyMessageExtension = 57"
definition wireTestAllExtensions_DefaultInt32Extension :: ProtoWireNumber where "wireTestAllExtensions_DefaultInt32Extension = 61"
definition wireTestAllExtensions_DefaultInt64Extension :: ProtoWireNumber where "wireTestAllExtensions_DefaultInt64Extension = 62"
definition wireTestAllExtensions_DefaultUint32Extension :: ProtoWireNumber where "wireTestAllExtensions_DefaultUint32Extension = 63"
definition wireTestAllExtensions_DefaultUint64Extension :: ProtoWireNumber where "wireTestAllExtensions_DefaultUint64Extension = 64"
definition wireTestAllExtensions_DefaultSint32Extension :: ProtoWireNumber where "wireTestAllExtensions_DefaultSint32Extension = 65"
definition wireTestAllExtensions_DefaultSint64Extension :: ProtoWireNumber where "wireTestAllExtensions_DefaultSint64Extension = 66"
definition wireTestAllExtensions_DefaultFixed32Extension :: ProtoWireNumber where "wireTestAllExtensions_DefaultFixed32Extension = 67"
definition wireTestAllExtensions_DefaultFixed64Extension :: ProtoWireNumber where "wireTestAllExtensions_DefaultFixed64Extension = 68"
definition wireTestAllExtensions_DefaultSfixed32Extension :: ProtoWireNumber where "wireTestAllExtensions_DefaultSfixed32Extension = 69"
definition wireTestAllExtensions_DefaultSfixed64Extension :: ProtoWireNumber where "wireTestAllExtensions_DefaultSfixed64Extension = 70"
definition wireTestAllExtensions_DefaultFloatExtension :: ProtoWireNumber where "wireTestAllExtensions_DefaultFloatExtension = 71"
definition wireTestAllExtensions_DefaultDoubleExtension :: ProtoWireNumber where "wireTestAllExtensions_DefaultDoubleExtension = 72"
definition wireTestAllExtensions_DefaultBoolExtension :: ProtoWireNumber where "wireTestAllExtensions_DefaultBoolExtension = 73"
definition wireTestAllExtensions_DefaultStringExtension :: ProtoWireNumber where "wireTestAllExtensions_DefaultStringExtension = 74"
definition wireTestAllExtensions_DefaultBytesExtension :: ProtoWireNumber where "wireTestAllExtensions_DefaultBytesExtension = 75"
definition wireTestAllExtensions_DefaultNestedEnumExtension :: ProtoWireNumber where "wireTestAllExtensions_DefaultNestedEnumExtension = 81"
definition wireTestAllExtensions_DefaultForeignEnumExtension :: ProtoWireNumber where "wireTestAllExtensions_DefaultForeignEnumExtension = 82"
definition wireTestAllExtensions_DefaultImportEnumExtension :: ProtoWireNumber where "wireTestAllExtensions_DefaultImportEnumExtension = 83"
definition wireTestAllExtensions_DefaultStringPieceExtension :: ProtoWireNumber where "wireTestAllExtensions_DefaultStringPieceExtension = 84"
definition wireTestAllExtensions_DefaultCordExtension :: ProtoWireNumber where "wireTestAllExtensions_DefaultCordExtension = 85"
definition wireTestAllExtensions_OneofUint32Extension :: ProtoWireNumber where "wireTestAllExtensions_OneofUint32Extension = 111"
definition wireTestAllExtensions_OneofNestedMessageExtension :: ProtoWireNumber where "wireTestAllExtensions_OneofNestedMessageExtension = 112"
definition wireTestAllExtensions_OneofStringExtension :: ProtoWireNumber where "wireTestAllExtensions_OneofStringExtension = 113"
definition wireTestAllExtensions_OneofBytesExtension :: ProtoWireNumber where "wireTestAllExtensions_OneofBytesExtension = 114"

lemmas wireTestAllExtensions =
  wireTestAllExtensions_OptionalInt32Extension_def
  wireTestAllExtensions_OptionalInt64Extension_def
  wireTestAllExtensions_OptionalUint32Extension_def
  wireTestAllExtensions_OptionalUint64Extension_def
  wireTestAllExtensions_OptionalSint32Extension_def
  wireTestAllExtensions_OptionalSint64Extension_def
  wireTestAllExtensions_OptionalFixed32Extension_def
  wireTestAllExtensions_OptionalFixed64Extension_def
  wireTestAllExtensions_OptionalSfixed32Extension_def
  wireTestAllExtensions_OptionalSfixed64Extension_def
  wireTestAllExtensions_OptionalFloatExtension_def
  wireTestAllExtensions_OptionalDoubleExtension_def
  wireTestAllExtensions_OptionalBoolExtension_def
  wireTestAllExtensions_OptionalStringExtension_def
  wireTestAllExtensions_OptionalBytesExtension_def
  wireTestAllExtensions_OptionalNestedMessageExtension_def
  wireTestAllExtensions_OptionalForeignMessageExtension_def
  wireTestAllExtensions_OptionalImportMessageExtension_def
  wireTestAllExtensions_OptionalNestedEnumExtension_def
  wireTestAllExtensions_OptionalForeignEnumExtension_def
  wireTestAllExtensions_OptionalImportEnumExtension_def
  wireTestAllExtensions_OptionalStringPieceExtension_def
  wireTestAllExtensions_OptionalCordExtension_def
  wireTestAllExtensions_OptionalPublicImportMessageExtension_def
  wireTestAllExtensions_OptionalLazyMessageExtension_def
  wireTestAllExtensions_OptionalUnverifiedLazyMessageExtension_def
  wireTestAllExtensions_RepeatedInt32Extension_def
  wireTestAllExtensions_RepeatedInt64Extension_def
  wireTestAllExtensions_RepeatedUint32Extension_def
  wireTestAllExtensions_RepeatedUint64Extension_def
  wireTestAllExtensions_RepeatedSint32Extension_def
  wireTestAllExtensions_RepeatedSint64Extension_def
  wireTestAllExtensions_RepeatedFixed32Extension_def
  wireTestAllExtensions_RepeatedFixed64Extension_def
  wireTestAllExtensions_RepeatedSfixed32Extension_def
  wireTestAllExtensions_RepeatedSfixed64Extension_def
  wireTestAllExtensions_RepeatedFloatExtension_def
  wireTestAllExtensions_RepeatedDoubleExtension_def
  wireTestAllExtensions_RepeatedBoolExtension_def
  wireTestAllExtensions_RepeatedStringExtension_def
  wireTestAllExtensions_RepeatedBytesExtension_def
  wireTestAllExtensions_RepeatedNestedMessageExtension_def
  wireTestAllExtensions_RepeatedForeignMessageExtension_def
  wireTestAllExtensions_RepeatedImportMessageExtension_def
  wireTestAllExtensions_RepeatedNestedEnumExtension_def
  wireTestAllExtensions_RepeatedForeignEnumExtension_def
  wireTestAllExtensions_RepeatedImportEnumExtension_def
  wireTestAllExtensions_RepeatedStringPieceExtension_def
  wireTestAllExtensions_RepeatedCordExtension_def
  wireTestAllExtensions_RepeatedLazyMessageExtension_def
  wireTestAllExtensions_DefaultInt32Extension_def
  wireTestAllExtensions_DefaultInt64Extension_def
  wireTestAllExtensions_DefaultUint32Extension_def
  wireTestAllExtensions_DefaultUint64Extension_def
  wireTestAllExtensions_DefaultSint32Extension_def
  wireTestAllExtensions_DefaultSint64Extension_def
  wireTestAllExtensions_DefaultFixed32Extension_def
  wireTestAllExtensions_DefaultFixed64Extension_def
  wireTestAllExtensions_DefaultSfixed32Extension_def
  wireTestAllExtensions_DefaultSfixed64Extension_def
  wireTestAllExtensions_DefaultFloatExtension_def
  wireTestAllExtensions_DefaultDoubleExtension_def
  wireTestAllExtensions_DefaultBoolExtension_def
  wireTestAllExtensions_DefaultStringExtension_def
  wireTestAllExtensions_DefaultBytesExtension_def
  wireTestAllExtensions_DefaultNestedEnumExtension_def
  wireTestAllExtensions_DefaultForeignEnumExtension_def
  wireTestAllExtensions_DefaultImportEnumExtension_def
  wireTestAllExtensions_DefaultStringPieceExtension_def
  wireTestAllExtensions_DefaultCordExtension_def wireTestAllExtensions_OneofUint32Extension_def
  wireTestAllExtensions_OneofNestedMessageExtension_def
  wireTestAllExtensions_OneofStringExtension_def wireTestAllExtensions_OneofBytesExtension_def

record TestAllExtensionsReader =
  mbuf :: "Reader option"
  cellOptionalInt32Extension :: "int32 one_cell"
  cellOptionalInt64Extension :: "int64 one_cell"
  cellOptionalUint32Extension :: "uint32 one_cell"
  cellOptionalUint64Extension :: "uint64 one_cell"
  cellOptionalSint32Extension :: "int32 one_cell"
  cellOptionalSint64Extension :: "int64 one_cell"
  cellOptionalFixed32Extension :: "uint32 one_cell"
  cellOptionalFixed64Extension :: "uint64 one_cell"
  cellOptionalSfixed32Extension :: "int32 one_cell"
  cellOptionalSfixed64Extension :: "int64 one_cell"
  cellOptionalFloatExtension :: "float32 one_cell"
  cellOptionalDoubleExtension :: "float64 one_cell"
  cellOptionalBoolExtension :: "bool one_cell"
  cellOptionalStringExtension :: "gostring one_cell"
  cellOptionalBytesExtension :: "(byte list) one_cell"
  cellOptionalNestedMessageExtension :: "(TestAllTypes_NestedMessageReader option) one_cell"
  cellOptionalForeignMessageExtension :: "(ForeignMessageReader option) one_cell"
  cellOptionalImportMessageExtension :: "(ImportMessageReader option) one_cell"
  cellOptionalNestedEnumExtension :: "TestAllTypes_NestedEnum one_cell"
  cellOptionalForeignEnumExtension :: "ForeignEnum one_cell"
  cellOptionalImportEnumExtension :: "ImportEnum one_cell"
  cellOptionalStringPieceExtension :: "gostring one_cell"
  cellOptionalCordExtension :: "gostring one_cell"
  cellOptionalPublicImportMessageExtension :: "(PublicImportMessageReader option) one_cell"
  cellOptionalLazyMessageExtension :: "(TestAllTypes_NestedMessageReader option) one_cell"
  cellOptionalUnverifiedLazyMessageExtension :: "(TestAllTypes_NestedMessageReader option) one_cell"
  cellRepeatedInt32Extension :: "int32 packed_cell"
  cellRepeatedInt64Extension :: "int64 packed_cell"
  cellRepeatedUint32Extension :: "uint32 packed_cell"
  cellRepeatedUint64Extension :: "uint64 packed_cell"
  cellRepeatedSint32Extension :: "int32 packed_cell"
  cellRepeatedSint64Extension :: "int64 packed_cell"
  cellRepeatedFixed32Extension :: "uint32 packed_cell"
  cellRepeatedFixed64Extension :: "uint64 packed_cell"
  cellRepeatedSfixed32Extension :: "int32 packed_cell"
  cellRepeatedSfixed64Extension :: "int64 packed_cell"
  cellRepeatedFloatExtension :: "float32 packed_cell"
  cellRepeatedDoubleExtension :: "float64 packed_cell"
  cellRepeatedBoolExtension :: "bool packed_cell"
  cellRepeatedStringExtension :: "gostring list_cell"
  cellRepeatedBytesExtension :: "(byte list) list_cell"
  cellRepeatedNestedMessageExtension :: "(TestAllTypes_NestedMessageReader option) list_cell"
  cellRepeatedForeignMessageExtension :: "(ForeignMessageReader option) list_cell"
  cellRepeatedImportMessageExtension :: "(ImportMessageReader option) list_cell"
  cellRepeatedNestedEnumExtension :: "TestAllTypes_NestedEnum packed_cell"
  cellRepeatedForeignEnumExtension :: "ForeignEnum packed_cell"
  cellRepeatedImportEnumExtension :: "ImportEnum packed_cell"
  cellRepeatedStringPieceExtension :: "gostring list_cell"
  cellRepeatedCordExtension :: "gostring list_cell"
  cellRepeatedLazyMessageExtension :: "(TestAllTypes_NestedMessageReader option) list_cell"
  cellDefaultInt32Extension :: "int32 one_cell"
  cellDefaultInt64Extension :: "int64 one_cell"
  cellDefaultUint32Extension :: "uint32 one_cell"
  cellDefaultUint64Extension :: "uint64 one_cell"
  cellDefaultSint32Extension :: "int32 one_cell"
  cellDefaultSint64Extension :: "int64 one_cell"
  cellDefaultFixed32Extension :: "uint32 one_cell"
  cellDefaultFixed64Extension :: "uint64 one_cell"
  cellDefaultSfixed32Extension :: "int32 one_cell"
  cellDefaultSfixed64Extension :: "int64 one_cell"
  cellDefaultFloatExtension :: "float32 one_cell"
  cellDefaultDoubleExtension :: "float64 one_cell"
  cellDefaultBoolExtension :: "bool one_cell"
  cellDefaultStringExtension :: "gostring one_cell"
  cellDefaultBytesExtension :: "(byte list) one_cell"
  cellDefaultNestedEnumExtension :: "TestAllTypes_NestedEnum one_cell"
  cellDefaultForeignEnumExtension :: "ForeignEnum one_cell"
  cellDefaultImportEnumExtension :: "ImportEnum one_cell"
  cellDefaultStringPieceExtension :: "gostring one_cell"
  cellDefaultCordExtension :: "gostring one_cell"
  cellOneofUint32Extension :: "uint32 one_cell"
  cellOneofNestedMessageExtension :: "(TestAllTypes_NestedMessageReader option) one_cell"
  cellOneofStringExtension :: "gostring one_cell"
  cellOneofBytesExtension :: "(byte list) one_cell"

definition NewTestAllExtensionsReader :: TestAllExtensionsReader where
  "NewTestAllExtensionsReader = \<lparr>
     mbuf = None, cellOptionalInt32Extension = newCell 0 0,
     cellOptionalInt64Extension = newCell 0 0, cellOptionalUint32Extension = newCell 0 0,
     cellOptionalUint64Extension = newCell 0 0, cellOptionalSint32Extension = newCell 0 0,
     cellOptionalSint64Extension = newCell 0 0, cellOptionalFixed32Extension = newCell 0 0,
     cellOptionalFixed64Extension = newCell 0 0, cellOptionalSfixed32Extension = newCell 0 0,
     cellOptionalSfixed64Extension = newCell 0 0, cellOptionalFloatExtension = newCell 0 0,
     cellOptionalDoubleExtension = newCell 0 0, cellOptionalBoolExtension = newCell False 0,
     cellOptionalStringExtension = newCell [] 0, cellOptionalBytesExtension = newCell [] 0,
     cellOptionalNestedMessageExtension = newCell None 0,
     cellOptionalForeignMessageExtension = newCell None 0,
     cellOptionalImportMessageExtension = newCell None 0,
     cellOptionalNestedEnumExtension = newCell 0 0,
     cellOptionalForeignEnumExtension = newCell 0 0,
     cellOptionalImportEnumExtension = newCell 0 0,
     cellOptionalStringPieceExtension = newCell [] 0, cellOptionalCordExtension = newCell [] 0,
     cellOptionalPublicImportMessageExtension = newCell None 0,
     cellOptionalLazyMessageExtension = newCell None 0,
     cellOptionalUnverifiedLazyMessageExtension = newCell None 0,
     cellRepeatedInt32Extension = newCell [] ([], []),
     cellRepeatedInt64Extension = newCell [] ([], []),
     cellRepeatedUint32Extension = newCell [] ([], []),
     cellRepeatedUint64Extension = newCell [] ([], []),
     cellRepeatedSint32Extension = newCell [] ([], []),
     cellRepeatedSint64Extension = newCell [] ([], []),
     cellRepeatedFixed32Extension = newCell [] ([], []),
     cellRepeatedFixed64Extension = newCell [] ([], []),
     cellRepeatedSfixed32Extension = newCell [] ([], []),
     cellRepeatedSfixed64Extension = newCell [] ([], []),
     cellRepeatedFloatExtension = newCell [] ([], []),
     cellRepeatedDoubleExtension = newCell [] ([], []),
     cellRepeatedBoolExtension = newCell [] ([], []),
     cellRepeatedStringExtension = newCell [] [], cellRepeatedBytesExtension = newCell [] [],
     cellRepeatedNestedMessageExtension = newCell [] [],
     cellRepeatedForeignMessageExtension = newCell [] [],
     cellRepeatedImportMessageExtension = newCell [] [],
     cellRepeatedNestedEnumExtension = newCell [] ([], []),
     cellRepeatedForeignEnumExtension = newCell [] ([], []),
     cellRepeatedImportEnumExtension = newCell [] ([], []),
     cellRepeatedStringPieceExtension = newCell [] [],
     cellRepeatedCordExtension = newCell [] [],
     cellRepeatedLazyMessageExtension = newCell [] [], cellDefaultInt32Extension = newCell 0 0,
     cellDefaultInt64Extension = newCell 0 0, cellDefaultUint32Extension = newCell 0 0,
     cellDefaultUint64Extension = newCell 0 0, cellDefaultSint32Extension = newCell 0 0,
     cellDefaultSint64Extension = newCell 0 0, cellDefaultFixed32Extension = newCell 0 0,
     cellDefaultFixed64Extension = newCell 0 0, cellDefaultSfixed32Extension = newCell 0 0,
     cellDefaultSfixed64Extension = newCell 0 0, cellDefaultFloatExtension = newCell 0 0,
     cellDefaultDoubleExtension = newCell 0 0, cellDefaultBoolExtension = newCell False 0,
     cellDefaultStringExtension = newCell [] 0, cellDefaultBytesExtension = newCell [] 0,
     cellDefaultNestedEnumExtension = newCell 0 0,
     cellDefaultForeignEnumExtension = newCell 0 0,
     cellDefaultImportEnumExtension = newCell 0 0,
     cellDefaultStringPieceExtension = newCell [] 0, cellDefaultCordExtension = newCell [] 0,
     cellOneofUint32Extension = newCell 0 0, cellOneofNestedMessageExtension = newCell None 0,
     cellOneofStringExtension = newCell [] 0, cellOneofBytesExtension = newCell [] 0\<rparr>"

definition TestAllExtensionsReader_readOptionalInt32Extension :: "TestAllExtensionsReader \<Rightarrow> (int32 \<times> TestAllExtensionsReader) run" where
  "TestAllExtensionsReader_readOptionalInt32Extension = readCell cellOptionalInt32Extension cellOptionalInt32Extension_update mbuf (readOne ReadInt32 0)"

definition TestAllExtensionsReader_GetOptionalInt32Extension :: "TestAllExtensionsReader option \<Rightarrow> (int32 \<times> TestAllExtensionsReader option) run" where
  "TestAllExtensionsReader_GetOptionalInt32Extension = getter TestAllExtensionsReader_readOptionalInt32Extension 0"

definition TestAllExtensionsReader_readOptionalInt64Extension :: "TestAllExtensionsReader \<Rightarrow> (int64 \<times> TestAllExtensionsReader) run" where
  "TestAllExtensionsReader_readOptionalInt64Extension = readCell cellOptionalInt64Extension cellOptionalInt64Extension_update mbuf (readOne ReadInt64 0)"

definition TestAllExtensionsReader_GetOptionalInt64Extension :: "TestAllExtensionsReader option \<Rightarrow> (int64 \<times> TestAllExtensionsReader option) run" where
  "TestAllExtensionsReader_GetOptionalInt64Extension = getter TestAllExtensionsReader_readOptionalInt64Extension 0"

definition TestAllExtensionsReader_readOptionalUint32Extension :: "TestAllExtensionsReader \<Rightarrow> (uint32 \<times> TestAllExtensionsReader) run" where
  "TestAllExtensionsReader_readOptionalUint32Extension = readCell cellOptionalUint32Extension cellOptionalUint32Extension_update mbuf (readOne ReadUint32 0)"

definition TestAllExtensionsReader_GetOptionalUint32Extension :: "TestAllExtensionsReader option \<Rightarrow> (uint32 \<times> TestAllExtensionsReader option) run" where
  "TestAllExtensionsReader_GetOptionalUint32Extension = getter TestAllExtensionsReader_readOptionalUint32Extension 0"

definition TestAllExtensionsReader_readOptionalUint64Extension :: "TestAllExtensionsReader \<Rightarrow> (uint64 \<times> TestAllExtensionsReader) run" where
  "TestAllExtensionsReader_readOptionalUint64Extension = readCell cellOptionalUint64Extension cellOptionalUint64Extension_update mbuf (readOne ReadUint64 0)"

definition TestAllExtensionsReader_GetOptionalUint64Extension :: "TestAllExtensionsReader option \<Rightarrow> (uint64 \<times> TestAllExtensionsReader option) run" where
  "TestAllExtensionsReader_GetOptionalUint64Extension = getter TestAllExtensionsReader_readOptionalUint64Extension 0"

definition TestAllExtensionsReader_readOptionalSint32Extension :: "TestAllExtensionsReader \<Rightarrow> (int32 \<times> TestAllExtensionsReader) run" where
  "TestAllExtensionsReader_readOptionalSint32Extension = readCell cellOptionalSint32Extension cellOptionalSint32Extension_update mbuf (readOne ReadSInt32 0)"

definition TestAllExtensionsReader_GetOptionalSint32Extension :: "TestAllExtensionsReader option \<Rightarrow> (int32 \<times> TestAllExtensionsReader option) run" where
  "TestAllExtensionsReader_GetOptionalSint32Extension = getter TestAllExtensionsReader_readOptionalSint32Extension 0"

definition TestAllExtensionsReader_readOptionalSint64Extension :: "TestAllExtensionsReader \<Rightarrow> (int64 \<times> TestAllExtensionsReader) run" where
  "TestAllExtensionsReader_readOptionalSint64Extension = readCell cellOptionalSint64Extension cellOptionalSint64Extension_update mbuf (readOne ReadSInt64 0)"

definition TestAllExtensionsReader_GetOptionalSint64Extension :: "TestAllExtensionsReader option \<Rightarrow> (int64 \<times> TestAllExtensionsReader option) run" where
  "TestAllExtensionsReader_GetOptionalSint64Extension = getter TestAllExtensionsReader_readOptionalSint64Extension 0"

definition TestAllExtensionsReader_readOptionalFixed32Extension :: "TestAllExtensionsReader \<Rightarrow> (uint32 \<times> TestAllExtensionsReader) run" where
  "TestAllExtensionsReader_readOptionalFixed32Extension = readCell cellOptionalFixed32Extension cellOptionalFixed32Extension_update mbuf (readOne ReadFixed32 0)"

definition TestAllExtensionsReader_GetOptionalFixed32Extension :: "TestAllExtensionsReader option \<Rightarrow> (uint32 \<times> TestAllExtensionsReader option) run" where
  "TestAllExtensionsReader_GetOptionalFixed32Extension = getter TestAllExtensionsReader_readOptionalFixed32Extension 0"

definition TestAllExtensionsReader_readOptionalFixed64Extension :: "TestAllExtensionsReader \<Rightarrow> (uint64 \<times> TestAllExtensionsReader) run" where
  "TestAllExtensionsReader_readOptionalFixed64Extension = readCell cellOptionalFixed64Extension cellOptionalFixed64Extension_update mbuf (readOne ReadFixed64 0)"

definition TestAllExtensionsReader_GetOptionalFixed64Extension :: "TestAllExtensionsReader option \<Rightarrow> (uint64 \<times> TestAllExtensionsReader option) run" where
  "TestAllExtensionsReader_GetOptionalFixed64Extension = getter TestAllExtensionsReader_readOptionalFixed64Extension 0"

definition TestAllExtensionsReader_readOptionalSfixed32Extension :: "TestAllExtensionsReader \<Rightarrow> (int32 \<times> TestAllExtensionsReader) run" where
  "TestAllExtensionsReader_readOptionalSfixed32Extension = readCell cellOptionalSfixed32Extension cellOptionalSfixed32Extension_update mbuf (readOne ReadSFixed32 0)"

definition TestAllExtensionsReader_GetOptionalSfixed32Extension :: "TestAllExtensionsReader option \<Rightarrow> (int32 \<times> TestAllExtensionsReader option) run" where
  "TestAllExtensionsReader_GetOptionalSfixed32Extension = getter TestAllExtensionsReader_readOptionalSfixed32Extension 0"

definition TestAllExtensionsReader_readOptionalSfixed64Extension :: "TestAllExtensionsReader \<Rightarrow> (int64 \<times> TestAllExtensionsReader) run" where
  "TestAllExtensionsReader_readOptionalSfixed64Extension = readCell cellOptionalSfixed64Extension cellOptionalSfixed64Extension_update mbuf (readOne ReadSFixed64 0)"

definition TestAllExtensionsReader_GetOptionalSfixed64Extension :: "TestAllExtensionsReader option \<Rightarrow> (int64 \<times> TestAllExtensionsReader option) run" where
  "TestAllExtensionsReader_GetOptionalSfixed64Extension = getter TestAllExtensionsReader_readOptionalSfixed64Extension 0"

definition TestAllExtensionsReader_readOptionalFloatExtension :: "TestAllExtensionsReader \<Rightarrow> (float32 \<times> TestAllExtensionsReader) run" where
  "TestAllExtensionsReader_readOptionalFloatExtension = readCell cellOptionalFloatExtension cellOptionalFloatExtension_update mbuf (readOne ReadFloat32 0x0)"

definition TestAllExtensionsReader_GetOptionalFloatExtension :: "TestAllExtensionsReader option \<Rightarrow> (float32 \<times> TestAllExtensionsReader option) run" where
  "TestAllExtensionsReader_GetOptionalFloatExtension = getter TestAllExtensionsReader_readOptionalFloatExtension 0x0"

definition TestAllExtensionsReader_readOptionalDoubleExtension :: "TestAllExtensionsReader \<Rightarrow> (float64 \<times> TestAllExtensionsReader) run" where
  "TestAllExtensionsReader_readOptionalDoubleExtension = readCell cellOptionalDoubleExtension cellOptionalDoubleExtension_update mbuf (readOne ReadFloat64 0x0)"

definition TestAllExtensionsReader_GetOptionalDoubleExtension :: "TestAllExtensionsReader option \<Rightarrow> (float64 \<times> TestAllExtensionsReader option) run" where
  "TestAllExtensionsReader_GetOptionalDoubleExtension = getter TestAllExtensionsReader_readOptionalDoubleExtension 0x0"

definition TestAllExtensionsReader_readOptionalBoolExtension :: "TestAllExtensionsReader \<Rightarrow> (bool \<times> TestAllExtensionsReader) run" where
  "TestAllExtensionsReader_readOptionalBoolExtension = readCell cellOptionalBoolExtension cellOptionalBoolExtension_update mbuf (readOne ReadBool False)"

definition TestAllExtensionsReader_GetOptionalBoolExtension :: "TestAllExtensionsReader option \<Rightarrow> (bool \<times> TestAllExtensionsReader option) run" where
  "TestAllExtensionsReader_GetOptionalBoolExtension = getter TestAllExtensionsReader_readOptionalBoolExtension False"

definition TestAllExtensionsReader_readOptionalStringExtension :: "TestAllExtensionsReader \<Rightarrow> (gostring \<times> TestAllExtensionsReader) run" where
  "TestAllExtensionsReader_readOptionalStringExtension = readCell cellOptionalStringExtension cellOptionalStringExtension_update mbuf (readOne ReadString [])"

definition TestAllExtensionsReader_GetOptionalStringExtension :: "TestAllExtensionsReader option \<Rightarrow> (gostring \<times> TestAllExtensionsReader option) run" where
  "TestAllExtensionsReader_GetOptionalStringExtension = getter TestAllExtensionsReader_readOptionalStringExtension []"

definition TestAllExtensionsReader_readOptionalBytesExtension :: "TestAllExtensionsReader \<Rightarrow> (byte list \<times> TestAllExtensionsReader) run" where
  "TestAllExtensionsReader_readOptionalBytesExtension = readCell cellOptionalBytesExtension cellOptionalBytesExtension_update mbuf (readOne ReadByteList [])"

definition TestAllExtensionsReader_GetOptionalBytesExtension :: "TestAllExtensionsReader option \<Rightarrow> (byte list \<times> TestAllExtensionsReader option) run" where
  "TestAllExtensionsReader_GetOptionalBytesExtension = getter TestAllExtensionsReader_readOptionalBytesExtension []"

definition TestAllExtensionsReader_readOptionalNestedMessageExtension :: "TestAllExtensionsReader \<Rightarrow> (TestAllTypes_NestedMessageReader option \<times> TestAllExtensionsReader) run" where
  "TestAllExtensionsReader_readOptionalNestedMessageExtension = readCell cellOptionalNestedMessageExtension cellOptionalNestedMessageExtension_update mbuf (structReader (TestAllTypes_NestedMessageReader_Unmarshal NewTestAllTypes_NestedMessageReader))"

definition TestAllExtensionsReader_GetOptionalNestedMessageExtension :: "TestAllExtensionsReader option \<Rightarrow> (TestAllTypes_NestedMessageReader option \<times> TestAllExtensionsReader option) run" where
  "TestAllExtensionsReader_GetOptionalNestedMessageExtension = getter TestAllExtensionsReader_readOptionalNestedMessageExtension None"

definition TestAllExtensionsReader_readOptionalForeignMessageExtension :: "TestAllExtensionsReader \<Rightarrow> (ForeignMessageReader option \<times> TestAllExtensionsReader) run" where
  "TestAllExtensionsReader_readOptionalForeignMessageExtension = readCell cellOptionalForeignMessageExtension cellOptionalForeignMessageExtension_update mbuf (structReader (ForeignMessageReader_Unmarshal NewForeignMessageReader))"

definition TestAllExtensionsReader_GetOptionalForeignMessageExtension :: "TestAllExtensionsReader option \<Rightarrow> (ForeignMessageReader option \<times> TestAllExtensionsReader option) run" where
  "TestAllExtensionsReader_GetOptionalForeignMessageExtension = getter TestAllExtensionsReader_readOptionalForeignMessageExtension None"

definition TestAllExtensionsReader_readOptionalImportMessageExtension :: "TestAllExtensionsReader \<Rightarrow> (ImportMessageReader option \<times> TestAllExtensionsReader) run" where
  "TestAllExtensionsReader_readOptionalImportMessageExtension = readCell cellOptionalImportMessageExtension cellOptionalImportMessageExtension_update mbuf (structReader (ImportMessageReader_Unmarshal NewImportMessageReader))"

definition TestAllExtensionsReader_GetOptionalImportMessageExtension :: "TestAllExtensionsReader option \<Rightarrow> (ImportMessageReader option \<times> TestAllExtensionsReader option) run" where
  "TestAllExtensionsReader_GetOptionalImportMessageExtension = getter TestAllExtensionsReader_readOptionalImportMessageExtension None"

definition TestAllExtensionsReader_readOptionalNestedEnumExtension :: "TestAllExtensionsReader \<Rightarrow> (TestAllTypes_NestedEnum \<times> TestAllExtensionsReader) run" where
  "TestAllExtensionsReader_readOptionalNestedEnumExtension = readCell cellOptionalNestedEnumExtension cellOptionalNestedEnumExtension_update mbuf (readOne ReadInt32 0)"

definition TestAllExtensionsReader_GetOptionalNestedEnumExtension :: "TestAllExtensionsReader option \<Rightarrow> (TestAllTypes_NestedEnum \<times> TestAllExtensionsReader option) run" where
  "TestAllExtensionsReader_GetOptionalNestedEnumExtension = getter TestAllExtensionsReader_readOptionalNestedEnumExtension 0"

definition TestAllExtensionsReader_readOptionalForeignEnumExtension :: "TestAllExtensionsReader \<Rightarrow> (ForeignEnum \<times> TestAllExtensionsReader) run" where
  "TestAllExtensionsReader_readOptionalForeignEnumExtension = readCell cellOptionalForeignEnumExtension cellOptionalForeignEnumExtension_update mbuf (readOne ReadInt32 0)"

definition TestAllExtensionsReader_GetOptionalForeignEnumExtension :: "TestAllExtensionsReader option \<Rightarrow> (ForeignEnum \<times> TestAllExtensionsReader option) run" where
  "TestAllExtensionsReader_GetOptionalForeignEnumExtension = getter TestAllExtensionsReader_readOptionalForeignEnumExtension 0"

definition TestAllExtensionsReader_readOptionalImportEnumExtension :: "TestAllExtensionsReader \<Rightarrow> (ImportEnum \<times> TestAllExtensionsReader) run" where
  "TestAllExtensionsReader_readOptionalImportEnumExtension = readCell cellOptionalImportEnumExtension cellOptionalImportEnumExtension_update mbuf (readOne ReadInt32 0)"

definition TestAllExtensionsReader_GetOptionalImportEnumExtension :: "TestAllExtensionsReader option \<Rightarrow> (ImportEnum \<times> TestAllExtensionsReader option) run" where
  "TestAllExtensionsReader_GetOptionalImportEnumExtension = getter TestAllExtensionsReader_readOptionalImportEnumExtension 0"

definition TestAllExtensionsReader_readOptionalStringPieceExtension :: "TestAllExtensionsReader \<Rightarrow> (gostring \<times> TestAllExtensionsReader) run" where
  "TestAllExtensionsReader_readOptionalStringPieceExtension = readCell cellOptionalStringPieceExtension cellOptionalStringPieceExtension_update mbuf (readOne ReadString [])"

definition TestAllExtensionsReader_GetOptionalStringPieceExtension :: "TestAllExtensionsReader option \<Rightarrow> (gostring \<times> TestAllExtensionsReader option) run" where
  "TestAllExtensionsReader_GetOptionalStringPieceExtension = getter TestAllExtensionsReader_readOptionalStringPieceExtension []"

definition TestAllExtensionsReader_readOptionalCordExtension :: "TestAllExtensionsReader \<Rightarrow> (gostring \<times> TestAllExtensionsReader) run" where
  "TestAllExtensionsReader_readOptionalCordExtension = readCell cellOptionalCordExtension cellOptionalCordExtension_update mbuf (readOne ReadString [])"

definition TestAllExtensionsReader_GetOptionalCordExtension :: "TestAllExtensionsReader option \<Rightarrow> (gostring \<times> TestAllExtensionsReader option) run" where
  "TestAllExtensionsReader_GetOptionalCordExtension = getter TestAllExtensionsReader_readOptionalCordExtension []"

definition TestAllExtensionsReader_readOptionalPublicImportMessageExtension :: "TestAllExtensionsReader \<Rightarrow> (PublicImportMessageReader option \<times> TestAllExtensionsReader) run" where
  "TestAllExtensionsReader_readOptionalPublicImportMessageExtension = readCell cellOptionalPublicImportMessageExtension cellOptionalPublicImportMessageExtension_update mbuf (structReader (PublicImportMessageReader_Unmarshal NewPublicImportMessageReader))"

definition TestAllExtensionsReader_GetOptionalPublicImportMessageExtension :: "TestAllExtensionsReader option \<Rightarrow> (PublicImportMessageReader option \<times> TestAllExtensionsReader option) run" where
  "TestAllExtensionsReader_GetOptionalPublicImportMessageExtension = getter TestAllExtensionsReader_readOptionalPublicImportMessageExtension None"

definition TestAllExtensionsReader_readOptionalLazyMessageExtension :: "TestAllExtensionsReader \<Rightarrow> (TestAllTypes_NestedMessageReader option \<times> TestAllExtensionsReader) run" where
  "TestAllExtensionsReader_readOptionalLazyMessageExtension = readCell cellOptionalLazyMessageExtension cellOptionalLazyMessageExtension_update mbuf (structReader (TestAllTypes_NestedMessageReader_Unmarshal NewTestAllTypes_NestedMessageReader))"

definition TestAllExtensionsReader_GetOptionalLazyMessageExtension :: "TestAllExtensionsReader option \<Rightarrow> (TestAllTypes_NestedMessageReader option \<times> TestAllExtensionsReader option) run" where
  "TestAllExtensionsReader_GetOptionalLazyMessageExtension = getter TestAllExtensionsReader_readOptionalLazyMessageExtension None"

definition TestAllExtensionsReader_readOptionalUnverifiedLazyMessageExtension :: "TestAllExtensionsReader \<Rightarrow> (TestAllTypes_NestedMessageReader option \<times> TestAllExtensionsReader) run" where
  "TestAllExtensionsReader_readOptionalUnverifiedLazyMessageExtension = readCell cellOptionalUnverifiedLazyMessageExtension cellOptionalUnverifiedLazyMessageExtension_update mbuf (structReader (TestAllTypes_NestedMessageReader_Unmarshal NewTestAllTypes_NestedMessageReader))"

definition TestAllExtensionsReader_GetOptionalUnverifiedLazyMessageExtension :: "TestAllExtensionsReader option \<Rightarrow> (TestAllTypes_NestedMessageReader option \<times> TestAllExtensionsReader option) run" where
  "TestAllExtensionsReader_GetOptionalUnverifiedLazyMessageExtension = getter TestAllExtensionsReader_readOptionalUnverifiedLazyMessageExtension None"

definition TestAllExtensionsReader_readRepeatedInt32Extension :: "TestAllExtensionsReader \<Rightarrow> (int32 list \<times> TestAllExtensionsReader) run" where
  "TestAllExtensionsReader_readRepeatedInt32Extension = readCell cellRepeatedInt32Extension cellRepeatedInt32Extension_update mbuf (readPacked ReadInt32 SizedReadInt32 0)"

definition TestAllExtensionsReader_GetRepeatedInt32Extension :: "TestAllExtensionsReader option \<Rightarrow> (int32 list \<times> TestAllExtensionsReader option) run" where
  "TestAllExtensionsReader_GetRepeatedInt32Extension = getter TestAllExtensionsReader_readRepeatedInt32Extension []"

definition TestAllExtensionsReader_readRepeatedInt64Extension :: "TestAllExtensionsReader \<Rightarrow> (int64 list \<times> TestAllExtensionsReader) run" where
  "TestAllExtensionsReader_readRepeatedInt64Extension = readCell cellRepeatedInt64Extension cellRepeatedInt64Extension_update mbuf (readPacked ReadInt64 SizedReadInt64 0)"

definition TestAllExtensionsReader_GetRepeatedInt64Extension :: "TestAllExtensionsReader option \<Rightarrow> (int64 list \<times> TestAllExtensionsReader option) run" where
  "TestAllExtensionsReader_GetRepeatedInt64Extension = getter TestAllExtensionsReader_readRepeatedInt64Extension []"

definition TestAllExtensionsReader_readRepeatedUint32Extension :: "TestAllExtensionsReader \<Rightarrow> (uint32 list \<times> TestAllExtensionsReader) run" where
  "TestAllExtensionsReader_readRepeatedUint32Extension = readCell cellRepeatedUint32Extension cellRepeatedUint32Extension_update mbuf (readPacked ReadUint32 SizedReadUint32 0)"

definition TestAllExtensionsReader_GetRepeatedUint32Extension :: "TestAllExtensionsReader option \<Rightarrow> (uint32 list \<times> TestAllExtensionsReader option) run" where
  "TestAllExtensionsReader_GetRepeatedUint32Extension = getter TestAllExtensionsReader_readRepeatedUint32Extension []"

definition TestAllExtensionsReader_readRepeatedUint64Extension :: "TestAllExtensionsReader \<Rightarrow> (uint64 list \<times> TestAllExtensionsReader) run" where
  "TestAllExtensionsReader_readRepeatedUint64Extension = readCell cellRepeatedUint64Extension cellRepeatedUint64Extension_update mbuf (readPacked ReadUint64 SizedReadUint64 0)"

definition TestAllExtensionsReader_GetRepeatedUint64Extension :: "TestAllExtensionsReader option \<Rightarrow> (uint64 list \<times> TestAllExtensionsReader option) run" where
  "TestAllExtensionsReader_GetRepeatedUint64Extension = getter TestAllExtensionsReader_readRepeatedUint64Extension []"

definition TestAllExtensionsReader_readRepeatedSint32Extension :: "TestAllExtensionsReader \<Rightarrow> (int32 list \<times> TestAllExtensionsReader) run" where
  "TestAllExtensionsReader_readRepeatedSint32Extension = readCell cellRepeatedSint32Extension cellRepeatedSint32Extension_update mbuf (readPacked ReadSInt32 SizedReadSInt32 0)"

definition TestAllExtensionsReader_GetRepeatedSint32Extension :: "TestAllExtensionsReader option \<Rightarrow> (int32 list \<times> TestAllExtensionsReader option) run" where
  "TestAllExtensionsReader_GetRepeatedSint32Extension = getter TestAllExtensionsReader_readRepeatedSint32Extension []"

definition TestAllExtensionsReader_readRepeatedSint64Extension :: "TestAllExtensionsReader \<Rightarrow> (int64 list \<times> TestAllExtensionsReader) run" where
  "TestAllExtensionsReader_readRepeatedSint64Extension = readCell cellRepeatedSint64Extension cellRepeatedSint64Extension_update mbuf (readPacked ReadSInt64 SizedReadSInt64 0)"

definition TestAllExtensionsReader_GetRepeatedSint64Extension :: "TestAllExtensionsReader option \<Rightarrow> (int64 list \<times> TestAllExtensionsReader option) run" where
  "TestAllExtensionsReader_GetRepeatedSint64Extension = getter TestAllExtensionsReader_readRepeatedSint64Extension []"

definition TestAllExtensionsReader_readRepeatedFixed32Extension :: "TestAllExtensionsReader \<Rightarrow> (uint32 list \<times> TestAllExtensionsReader) run" where
  "TestAllExtensionsReader_readRepeatedFixed32Extension = readCell cellRepeatedFixed32Extension cellRepeatedFixed32Extension_update mbuf (readPacked ReadFixed32 SizedReadFixed32 0)"

definition TestAllExtensionsReader_GetRepeatedFixed32Extension :: "TestAllExtensionsReader option \<Rightarrow> (uint32 list \<times> TestAllExtensionsReader option) run" where
  "TestAllExtensionsReader_GetRepeatedFixed32Extension = getter TestAllExtensionsReader_readRepeatedFixed32Extension []"

definition TestAllExtensionsReader_readRepeatedFixed64Extension :: "TestAllExtensionsReader \<Rightarrow> (uint64 list \<times> TestAllExtensionsReader) run" where
  "TestAllExtensionsReader_readRepeatedFixed64Extension = readCell cellRepeatedFixed64Extension cellRepeatedFixed64Extension_update mbuf (readPacked ReadFixed64 SizedReadFixed64 0)"

definition TestAllExtensionsReader_GetRepeatedFixed64Extension :: "TestAllExtensionsReader option \<Rightarrow> (uint64 list \<times> TestAllExtensionsReader option) run" where
  "TestAllExtensionsReader_GetRepeatedFixed64Extension = getter TestAllExtensionsReader_readRepeatedFixed64Extension []"

definition TestAllExtensionsReader_readRepeatedSfixed32Extension :: "TestAllExtensionsReader \<Rightarrow> (int32 list \<times> TestAllExtensionsReader) run" where
  "TestAllExtensionsReader_readRepeatedSfixed32Extension = readCell cellRepeatedSfixed32Extension cellRepeatedSfixed32Extension_update mbuf (readPacked ReadSFixed32 SizedReadSFixed32 0)"

definition TestAllExtensionsReader_GetRepeatedSfixed32Extension :: "TestAllExtensionsReader option \<Rightarrow> (int32 list \<times> TestAllExtensionsReader option) run" where
  "TestAllExtensionsReader_GetRepeatedSfixed32Extension = getter TestAllExtensionsReader_readRepeatedSfixed32Extension []"

definition TestAllExtensionsReader_readRepeatedSfixed64Extension :: "TestAllExtensionsReader \<Rightarrow> (int64 list \<times> TestAllExtensionsReader) run" where
  "TestAllExtensionsReader_readRepeatedSfixed64Extension = readCell cellRepeatedSfixed64Extension cellRepeatedSfixed64Extension_update mbuf (readPacked ReadSFixed64 SizedReadSFixed64 0)"

definition TestAllExtensionsReader_GetRepeatedSfixed64Extension :: "TestAllExtensionsReader option \<Rightarrow> (int64 list \<times> TestAllExtensionsReader option) run" where
  "TestAllExtensionsReader_GetRepeatedSfixed64Extension = getter TestAllExtensionsReader_readRepeatedSfixed64Extension []"

definition TestAllExtensionsReader_readRepeatedFloatExtension :: "TestAllExtensionsReader \<Rightarrow> (float32 list \<times> TestAllExtensionsReader) run" where
  "TestAllExtensionsReader_readRepeatedFloatExtension = readCell cellRepeatedFloatExtension cellRepeatedFloatExtension_update mbuf (readPacked ReadFloat32 SizedReadFloat32 0)"

definition TestAllExtensionsReader_GetRepeatedFloatExtension :: "TestAllExtensionsReader option \<Rightarrow> (float32 list \<times> TestAllExtensionsReader option) run" where
  "TestAllExtensionsReader_GetRepeatedFloatExtension = getter TestAllExtensionsReader_readRepeatedFloatExtension []"

definition TestAllExtensionsReader_readRepeatedDoubleExtension :: "TestAllExtensionsReader \<Rightarrow> (float64 list \<times> TestAllExtensionsReader) run" where
  "TestAllExtensionsReader_readRepeatedDoubleExtension = readCell cellRepeatedDoubleExtension cellRepeatedDoubleExtension_update mbuf (readPacked ReadFloat64 SizedReadFloat64 0)"

definition TestAllExtensionsReader_GetRepeatedDoubleExtension :: "TestAllExtensionsReader option \<Rightarrow> (float64 list \<times> TestAllExtensionsReader option) run" where
  "TestAllExtensionsReader_GetRepeatedDoubleExtension = getter TestAllExtensionsReader_readRepeatedDoubleExtension []"

definition TestAllExtensionsReader_readRepeatedBoolExtension :: "TestAllExtensionsReader \<Rightarrow> (bool list \<times> TestAllExtensionsReader) run" where
  "TestAllExtensionsReader_readRepeatedBoolExtension = readCell cellRepeatedBoolExtension cellRepeatedBoolExtension_update mbuf (readPacked ReadBool SizedReadBool False)"

definition TestAllExtensionsReader_GetRepeatedBoolExtension :: "TestAllExtensionsReader option \<Rightarrow> (bool list \<times> TestAllExtensionsReader option) run" where
  "TestAllExtensionsReader_GetRepeatedBoolExtension = getter TestAllExtensionsReader_readRepeatedBoolExtension []"

definition TestAllExtensionsReader_readRepeatedStringExtension :: "TestAllExtensionsReader \<Rightarrow> (gostring list \<times> TestAllExtensionsReader) run" where
  "TestAllExtensionsReader_readRepeatedStringExtension = readCell cellRepeatedStringExtension cellRepeatedStringExtension_update mbuf (readList ReadString [])"

definition TestAllExtensionsReader_GetRepeatedStringExtension :: "TestAllExtensionsReader option \<Rightarrow> (gostring list \<times> TestAllExtensionsReader option) run" where
  "TestAllExtensionsReader_GetRepeatedStringExtension = getter TestAllExtensionsReader_readRepeatedStringExtension []"

definition TestAllExtensionsReader_readRepeatedBytesExtension :: "TestAllExtensionsReader \<Rightarrow> ((byte list) list \<times> TestAllExtensionsReader) run" where
  "TestAllExtensionsReader_readRepeatedBytesExtension = readCell cellRepeatedBytesExtension cellRepeatedBytesExtension_update mbuf (readList ReadByteList [])"

definition TestAllExtensionsReader_GetRepeatedBytesExtension :: "TestAllExtensionsReader option \<Rightarrow> ((byte list) list \<times> TestAllExtensionsReader option) run" where
  "TestAllExtensionsReader_GetRepeatedBytesExtension = getter TestAllExtensionsReader_readRepeatedBytesExtension []"

definition TestAllExtensionsReader_readRepeatedNestedMessageExtension :: "TestAllExtensionsReader \<Rightarrow> ((TestAllTypes_NestedMessageReader option) list \<times> TestAllExtensionsReader) run" where
  "TestAllExtensionsReader_readRepeatedNestedMessageExtension = readCell cellRepeatedNestedMessageExtension cellRepeatedNestedMessageExtension_update mbuf (readStructs (TestAllTypes_NestedMessageReader_Unmarshal NewTestAllTypes_NestedMessageReader))"

definition TestAllExtensionsReader_GetRepeatedNestedMessageExtension :: "TestAllExtensionsReader option \<Rightarrow> ((TestAllTypes_NestedMessageReader option) list \<times> TestAllExtensionsReader option) run" where
  "TestAllExtensionsReader_GetRepeatedNestedMessageExtension = getter TestAllExtensionsReader_readRepeatedNestedMessageExtension []"

definition TestAllExtensionsReader_readRepeatedForeignMessageExtension :: "TestAllExtensionsReader \<Rightarrow> ((ForeignMessageReader option) list \<times> TestAllExtensionsReader) run" where
  "TestAllExtensionsReader_readRepeatedForeignMessageExtension = readCell cellRepeatedForeignMessageExtension cellRepeatedForeignMessageExtension_update mbuf (readStructs (ForeignMessageReader_Unmarshal NewForeignMessageReader))"

definition TestAllExtensionsReader_GetRepeatedForeignMessageExtension :: "TestAllExtensionsReader option \<Rightarrow> ((ForeignMessageReader option) list \<times> TestAllExtensionsReader option) run" where
  "TestAllExtensionsReader_GetRepeatedForeignMessageExtension = getter TestAllExtensionsReader_readRepeatedForeignMessageExtension []"

definition TestAllExtensionsReader_readRepeatedImportMessageExtension :: "TestAllExtensionsReader \<Rightarrow> ((ImportMessageReader option) list \<times> TestAllExtensionsReader) run" where
  "TestAllExtensionsReader_readRepeatedImportMessageExtension = readCell cellRepeatedImportMessageExtension cellRepeatedImportMessageExtension_update mbuf (readStructs (ImportMessageReader_Unmarshal NewImportMessageReader))"

definition TestAllExtensionsReader_GetRepeatedImportMessageExtension :: "TestAllExtensionsReader option \<Rightarrow> ((ImportMessageReader option) list \<times> TestAllExtensionsReader option) run" where
  "TestAllExtensionsReader_GetRepeatedImportMessageExtension = getter TestAllExtensionsReader_readRepeatedImportMessageExtension []"

definition TestAllExtensionsReader_readRepeatedNestedEnumExtension :: "TestAllExtensionsReader \<Rightarrow> (TestAllTypes_NestedEnum list \<times> TestAllExtensionsReader) run" where
  "TestAllExtensionsReader_readRepeatedNestedEnumExtension = readCell cellRepeatedNestedEnumExtension cellRepeatedNestedEnumExtension_update mbuf (readPacked ReadInt32 SizedReadInt32 0)"

definition TestAllExtensionsReader_GetRepeatedNestedEnumExtension :: "TestAllExtensionsReader option \<Rightarrow> (TestAllTypes_NestedEnum list \<times> TestAllExtensionsReader option) run" where
  "TestAllExtensionsReader_GetRepeatedNestedEnumExtension = getter TestAllExtensionsReader_readRepeatedNestedEnumExtension []"

definition TestAllExtensionsReader_readRepeatedForeignEnumExtension :: "TestAllExtensionsReader \<Rightarrow> (ForeignEnum list \<times> TestAllExtensionsReader) run" where
  "TestAllExtensionsReader_readRepeatedForeignEnumExtension = readCell cellRepeatedForeignEnumExtension cellRepeatedForeignEnumExtension_update mbuf (readPacked ReadInt32 SizedReadInt32 0)"

definition TestAllExtensionsReader_GetRepeatedForeignEnumExtension :: "TestAllExtensionsReader option \<Rightarrow> (ForeignEnum list \<times> TestAllExtensionsReader option) run" where
  "TestAllExtensionsReader_GetRepeatedForeignEnumExtension = getter TestAllExtensionsReader_readRepeatedForeignEnumExtension []"

definition TestAllExtensionsReader_readRepeatedImportEnumExtension :: "TestAllExtensionsReader \<Rightarrow> (ImportEnum list \<times> TestAllExtensionsReader) run" where
  "TestAllExtensionsReader_readRepeatedImportEnumExtension = readCell cellRepeatedImportEnumExtension cellRepeatedImportEnumExtension_update mbuf (readPacked ReadInt32 SizedReadInt32 0)"

definition TestAllExtensionsReader_GetRepeatedImportEnumExtension :: "TestAllExtensionsReader option \<Rightarrow> (ImportEnum list \<times> TestAllExtensionsReader option) run" where
  "TestAllExtensionsReader_GetRepeatedImportEnumExtension = getter TestAllExtensionsReader_readRepeatedImportEnumExtension []"

definition TestAllExtensionsReader_readRepeatedStringPieceExtension :: "TestAllExtensionsReader \<Rightarrow> (gostring list \<times> TestAllExtensionsReader) run" where
  "TestAllExtensionsReader_readRepeatedStringPieceExtension = readCell cellRepeatedStringPieceExtension cellRepeatedStringPieceExtension_update mbuf (readList ReadString [])"

definition TestAllExtensionsReader_GetRepeatedStringPieceExtension :: "TestAllExtensionsReader option \<Rightarrow> (gostring list \<times> TestAllExtensionsReader option) run" where
  "TestAllExtensionsReader_GetRepeatedStringPieceExtension = getter TestAllExtensionsReader_readRepeatedStringPieceExtension []"

definition TestAllExtensionsReader_readRepeatedCordExtension :: "TestAllExtensionsReader \<Rightarrow> (gostring list \<times> TestAllExtensionsReader) run" where
  "TestAllExtensionsReader_readRepeatedCordExtension = readCell cellRepeatedCordExtension cellRepeatedCordExtension_update mbuf (readList ReadString [])"

definition TestAllExtensionsReader_GetRepeatedCordExtension :: "TestAllExtensionsReader option \<Rightarrow> (gostring list \<times> TestAllExtensionsReader option) run" where
  "TestAllExtensionsReader_GetRepeatedCordExtension = getter TestAllExtensionsReader_readRepeatedCordExtension []"

definition TestAllExtensionsReader_readRepeatedLazyMessageExtension :: "TestAllExtensionsReader \<Rightarrow> ((TestAllTypes_NestedMessageReader option) list \<times> TestAllExtensionsReader) run" where
  "TestAllExtensionsReader_readRepeatedLazyMessageExtension = readCell cellRepeatedLazyMessageExtension cellRepeatedLazyMessageExtension_update mbuf (readStructs (TestAllTypes_NestedMessageReader_Unmarshal NewTestAllTypes_NestedMessageReader))"

definition TestAllExtensionsReader_GetRepeatedLazyMessageExtension :: "TestAllExtensionsReader option \<Rightarrow> ((TestAllTypes_NestedMessageReader option) list \<times> TestAllExtensionsReader option) run" where
  "TestAllExtensionsReader_GetRepeatedLazyMessageExtension = getter TestAllExtensionsReader_readRepeatedLazyMessageExtension []"

definition TestAllExtensionsReader_readDefaultInt32Extension :: "TestAllExtensionsReader \<Rightarrow> (int32 \<times> TestAllExtensionsReader) run" where
  "TestAllExtensionsReader_readDefaultInt32Extension = readCell cellDefaultInt32Extension cellDefaultInt32Extension_update mbuf (readOne ReadInt32 41)"

definition TestAllExtensionsReader_GetDefaultInt32Extension :: "TestAllExtensionsReader option \<Rightarrow> (int32 \<times> TestAllExtensionsReader option) run" where
  "TestAllExtensionsReader_GetDefaultInt32Extension = getter TestAllExtensionsReader_readDefaultInt32Extension 41"

definition TestAllExtensionsReader_readDefaultInt64Extension :: "TestAllExtensionsReader \<Rightarrow> (int64 \<times> TestAllExtensionsReader) run" where
  "TestAllExtensionsReader_readDefaultInt64Extension = readCell cellDefaultInt64Extension cellDefaultInt64Extension_update mbuf (readOne ReadInt64 42)"

definition TestAllExtensionsReader_GetDefaultInt64Extension :: "TestAllExtensionsReader option \<Rightarrow> (int64 \<times> TestAllExtensionsReader option) run" where
  "TestAllExtensionsReader_GetDefaultInt64Extension = getter TestAllExtensionsReader_readDefaultInt64Extension 42"

definition TestAllExtensionsReader_readDefaultUint32Extension :: "TestAllExtensionsReader \<Rightarrow> (uint32 \<times> TestAllExtensionsReader) run" where
  "TestAllExtensionsReader_readDefaultUint32Extension = readCell cellDefaultUint32Extension cellDefaultUint32Extension_update mbuf (readOne ReadUint32 43)"

definition TestAllExtensionsReader_GetDefaultUint32Extension :: "TestAllExtensionsReader option \<Rightarrow> (uint32 \<times> TestAllExtensionsReader option) run" where
  "TestAllExtensionsReader_GetDefaultUint32Extension = getter TestAllExtensionsReader_readDefaultUint32Extension 43"

definition TestAllExtensionsReader_readDefaultUint64Extension :: "TestAllExtensionsReader \<Rightarrow> (uint64 \<times> TestAllExtensionsReader) run" where
  "TestAllExtensionsReader_readDefaultUint64Extension = readCell cellDefaultUint64Extension cellDefaultUint64Extension_update mbuf (readOne ReadUint64 44)"

definition TestAllExtensionsReader_GetDefaultUint64Extension :: "TestAllExtensionsReader option \<Rightarrow> (uint64 \<times> TestAllExtensionsReader option) run" where
  "TestAllExtensionsReader_GetDefaultUint64Extension = getter TestAllExtensionsReader_readDefaultUint64Extension 44"

definition TestAllExtensionsReader_readDefaultSint32Extension :: "TestAllExtensionsReader \<Rightarrow> (int32 \<times> TestAllExtensionsReader) run" where
  "TestAllExtensionsReader_readDefaultSint32Extension = readCell cellDefaultSint32Extension cellDefaultSint32Extension_update mbuf (readOne ReadSInt32 (- 45))"

definition TestAllExtensionsReader_GetDefaultSint32Extension :: "TestAllExtensionsReader option \<Rightarrow> (int32 \<times> TestAllExtensionsReader option) run" where
  "TestAllExtensionsReader_GetDefaultSint32Extension = getter TestAllExtensionsReader_readDefaultSint32Extension (- 45)"

definition TestAllExtensionsReader_readDefaultSint64Extension :: "TestAllExtensionsReader \<Rightarrow> (int64 \<times> TestAllExtensionsReader) run" where
  "TestAllExtensionsReader_readDefaultSint64Extension = readCell cellDefaultSint64Extension cellDefaultSint64Extension_update mbuf (readOne ReadSInt64 46)"

definition TestAllExtensionsReader_GetDefaultSint64Extension :: "TestAllExtensionsReader option \<Rightarrow> (int64 \<times> TestAllExtensionsReader option) run" where
  "TestAllExtensionsReader_GetDefaultSint64Extension = getter TestAllExtensionsReader_readDefaultSint64Extension 46"

definition TestAllExtensionsReader_readDefaultFixed32Extension :: "TestAllExtensionsReader \<Rightarrow> (uint32 \<times> TestAllExtensionsReader) run" where
  "TestAllExtensionsReader_readDefaultFixed32Extension = readCell cellDefaultFixed32Extension cellDefaultFixed32Extension_update mbuf (readOne ReadFixed32 47)"

definition TestAllExtensionsReader_GetDefaultFixed32Extension :: "TestAllExtensionsReader option \<Rightarrow> (uint32 \<times> TestAllExtensionsReader option) run" where
  "TestAllExtensionsReader_GetDefaultFixed32Extension = getter TestAllExtensionsReader_readDefaultFixed32Extension 47"

definition TestAllExtensionsReader_readDefaultFixed64Extension :: "TestAllExtensionsReader \<Rightarrow> (uint64 \<times> TestAllExtensionsReader) run" where
  "TestAllExtensionsReader_readDefaultFixed64Extension = readCell cellDefaultFixed64Extension cellDefaultFixed64Extension_update mbuf (readOne ReadFixed64 48)"

definition TestAllExtensionsReader_GetDefaultFixed64Extension :: "TestAllExtensionsReader option \<Rightarrow> (uint64 \<times> TestAllExtensionsReader option) run" where
  "TestAllExtensionsReader_GetDefaultFixed64Extension = getter TestAllExtensionsReader_readDefaultFixed64Extension 48"

definition TestAllExtensionsReader_readDefaultSfixed32Extension :: "TestAllExtensionsReader \<Rightarrow> (int32 \<times> TestAllExtensionsReader) run" where
  "TestAllExtensionsReader_readDefaultSfixed32Extension = readCell cellDefaultSfixed32Extension cellDefaultSfixed32Extension_update mbuf (readOne ReadSFixed32 49)"

definition TestAllExtensionsReader_GetDefaultSfixed32Extension :: "TestAllExtensionsReader option \<Rightarrow> (int32 \<times> TestAllExtensionsReader option) run" where
  "TestAllExtensionsReader_GetDefaultSfixed32Extension = getter TestAllExtensionsReader_readDefaultSfixed32Extension 49"

definition TestAllExtensionsReader_readDefaultSfixed64Extension :: "TestAllExtensionsReader \<Rightarrow> (int64 \<times> TestAllExtensionsReader) run" where
  "TestAllExtensionsReader_readDefaultSfixed64Extension = readCell cellDefaultSfixed64Extension cellDefaultSfixed64Extension_update mbuf (readOne ReadSFixed64 (- 50))"

definition TestAllExtensionsReader_GetDefaultSfixed64Extension :: "TestAllExtensionsReader option \<Rightarrow> (int64 \<times> TestAllExtensionsReader option) run" where
  "TestAllExtensionsReader_GetDefaultSfixed64Extension = getter TestAllExtensionsReader_readDefaultSfixed64Extension (- 50)"

definition TestAllExtensionsReader_readDefaultFloatExtension :: "TestAllExtensionsReader \<Rightarrow> (float32 \<times> TestAllExtensionsReader) run" where
  "TestAllExtensionsReader_readDefaultFloatExtension = readCell cellDefaultFloatExtension cellDefaultFloatExtension_update mbuf (readOne ReadFloat32 0x424E0000)"

definition TestAllExtensionsReader_GetDefaultFloatExtension :: "TestAllExtensionsReader option \<Rightarrow> (float32 \<times> TestAllExtensionsReader option) run" where
  "TestAllExtensionsReader_GetDefaultFloatExtension = getter TestAllExtensionsReader_readDefaultFloatExtension 0x424E0000"

definition TestAllExtensionsReader_readDefaultDoubleExtension :: "TestAllExtensionsReader \<Rightarrow> (float64 \<times> TestAllExtensionsReader) run" where
  "TestAllExtensionsReader_readDefaultDoubleExtension = readCell cellDefaultDoubleExtension cellDefaultDoubleExtension_update mbuf (readOne ReadFloat64 0x40E9640000000000)"

definition TestAllExtensionsReader_GetDefaultDoubleExtension :: "TestAllExtensionsReader option \<Rightarrow> (float64 \<times> TestAllExtensionsReader option) run" where
  "TestAllExtensionsReader_GetDefaultDoubleExtension = getter TestAllExtensionsReader_readDefaultDoubleExtension 0x40E9640000000000"

definition TestAllExtensionsReader_readDefaultBoolExtension :: "TestAllExtensionsReader \<Rightarrow> (bool \<times> TestAllExtensionsReader) run" where
  "TestAllExtensionsReader_readDefaultBoolExtension = readCell cellDefaultBoolExtension cellDefaultBoolExtension_update mbuf (readOne ReadBool True)"

definition TestAllExtensionsReader_GetDefaultBoolExtension :: "TestAllExtensionsReader option \<Rightarrow> (bool \<times> TestAllExtensionsReader option) run" where
  "TestAllExtensionsReader_GetDefaultBoolExtension = getter TestAllExtensionsReader_readDefaultBoolExtension True"

definition TestAllExtensionsReader_readDefaultStringExtension :: "TestAllExtensionsReader \<Rightarrow> (gostring \<times> TestAllExtensionsReader) run" where
  "TestAllExtensionsReader_readDefaultStringExtension = readCell cellDefaultStringExtension cellDefaultStringExtension_update mbuf (readOne ReadString (bytes_of ''hello''))"

definition TestAllExtensionsReader_GetDefaultStringExtension :: "TestAllExtensionsReader option \<Rightarrow> (gostring \<times> TestAllExtensionsReader option) run" where
  "TestAllExtensionsReader_GetDefaultStringExtension = getter TestAllExtensionsReader_readDefaultStringExtension (bytes_of ''hello'')"

definition TestAllExtensionsReader_readDefaultBytesExtension :: "TestAllExtensionsReader \<Rightarrow> (byte list \<times> TestAllExtensionsReader) run" where
  "TestAllExtensionsReader_readDefaultBytesExtension = readCell cellDefaultBytesExtension cellDefaultBytesExtension_update mbuf (readOne ReadByteList (bytes_of ''world''))"

definition TestAllExtensionsReader_GetDefaultBytesExtension :: "TestAllExtensionsReader option \<Rightarrow> (byte list \<times> TestAllExtensionsReader option) run" where
  "TestAllExtensionsReader_GetDefaultBytesExtension = getter TestAllExtensionsReader_readDefaultBytesExtension (bytes_of ''world'')"

definition TestAllExtensionsReader_readDefaultNestedEnumExtension :: "TestAllExtensionsReader \<Rightarrow> (TestAllTypes_NestedEnum \<times> TestAllExtensionsReader) run" where
  "TestAllExtensionsReader_readDefaultNestedEnumExtension = readCell cellDefaultNestedEnumExtension cellDefaultNestedEnumExtension_update mbuf (readOne ReadInt32 0)"

definition TestAllExtensionsReader_GetDefaultNestedEnumExtension :: "TestAllExtensionsReader option \<Rightarrow> (TestAllTypes_NestedEnum \<times> TestAllExtensionsReader option) run" where
  "TestAllExtensionsReader_GetDefaultNestedEnumExtension = getter TestAllExtensionsReader_readDefaultNestedEnumExtension 0"

definition TestAllExtensionsReader_readDefaultForeignEnumExtension :: "TestAllExtensionsReader \<Rightarrow> (ForeignEnum \<times> TestAllExtensionsReader) run" where
  "TestAllExtensionsReader_readDefaultForeignEnumExtension = readCell cellDefaultForeignEnumExtension cellDefaultForeignEnumExtension_update mbuf (readOne ReadInt32 0)"

definition TestAllExtensionsReader_GetDefaultForeignEnumExtension :: "TestAllExtensionsReader option \<Rightarrow> (ForeignEnum \<times> TestAllExtensionsReader option) run" where
  "TestAllExtensionsReader_GetDefaultForeignEnumExtension = getter TestAllExtensionsReader_readDefaultForeignEnumExtension 0"

definition TestAllExtensionsReader_readDefaultImportEnumExtension :: "TestAllExtensionsReader \<Rightarrow> (ImportEnum \<times> TestAllExtensionsReader) run" where
  "TestAllExtensionsReader_readDefaultImportEnumExtension = readCell cellDefaultImportEnumExtension cellDefaultImportEnumExtension_update mbuf (readOne ReadInt32 0)"

definition TestAllExtensionsReader_GetDefaultImportEnumExtension :: "TestAllExtensionsReader option \<Rightarrow> (ImportEnum \<times> TestAllExtensionsReader option) run" where
  "TestAllExtensionsReader_GetDefaultImportEnumExtension = getter TestAllExtensionsReader_readDefaultImportEnumExtension 0"

definition TestAllExtensionsReader_readDefaultStringPieceExtension :: "TestAllExtensionsReader \<Rightarrow> (gostring \<times> TestAllExtensionsReader) run" where
  "TestAllExtensionsReader_readDefaultStringPieceExtension = readCell cellDefaultStringPieceExtension cellDefaultStringPieceExtension_update mbuf (readOne ReadString (bytes_of ''abc''))"

definition TestAllExtensionsReader_GetDefaultStringPieceExtension :: "TestAllExtensionsReader option \<Rightarrow> (gostring \<times> TestAllExtensionsReader option) run" where
  "TestAllExtensionsReader_GetDefaultStringPieceExtension = getter TestAllExtensionsReader_readDefaultStringPieceExtension (bytes_of ''abc'')"

definition TestAllExtensionsReader_readDefaultCordExtension :: "TestAllExtensionsReader \<Rightarrow> (gostring \<times> TestAllExtensionsReader) run" where
  "TestAllExtensionsReader_readDefaultCordExtension = readCell cellDefaultCordExtension cellDefaultCordExtension_update mbuf (readOne ReadString (bytes_of ''123''))"

definition TestAllExtensionsReader_GetDefaultCordExtension :: "TestAllExtensionsReader option \<Rightarrow> (gostring \<times> TestAllExtensionsReader option) run" where
  "TestAllExtensionsReader_GetDefaultCordExtension = getter TestAllExtensionsReader_readDefaultCordExtension (bytes_of ''123'')"

definition TestAllExtensionsReader_readOneofUint32Extension :: "TestAllExtensionsReader \<Rightarrow> (uint32 \<times> TestAllExtensionsReader) run" where
  "TestAllExtensionsReader_readOneofUint32Extension = readCell cellOneofUint32Extension cellOneofUint32Extension_update mbuf (readOne ReadUint32 0)"

definition TestAllExtensionsReader_GetOneofUint32Extension :: "TestAllExtensionsReader option \<Rightarrow> (uint32 \<times> TestAllExtensionsReader option) run" where
  "TestAllExtensionsReader_GetOneofUint32Extension = getter TestAllExtensionsReader_readOneofUint32Extension 0"

definition TestAllExtensionsReader_readOneofNestedMessageExtension :: "TestAllExtensionsReader \<Rightarrow> (TestAllTypes_NestedMessageReader option \<times> TestAllExtensionsReader) run" where
  "TestAllExtensionsReader_readOneofNestedMessageExtension = readCell cellOneofNestedMessageExtension cellOneofNestedMessageExtension_update mbuf (structReader (TestAllTypes_NestedMessageReader_Unmarshal NewTestAllTypes_NestedMessageReader))"

definition TestAllExtensionsReader_GetOneofNestedMessageExtension :: "TestAllExtensionsReader option \<Rightarrow> (TestAllTypes_NestedMessageReader option \<times> TestAllExtensionsReader option) run" where
  "TestAllExtensionsReader_GetOneofNestedMessageExtension = getter TestAllExtensionsReader_readOneofNestedMessageExtension None"

definition TestAllExtensionsReader_readOneofStringExtension :: "TestAllExtensionsReader \<Rightarrow> (gostring \<times> TestAllExtensionsReader) run" where
  "TestAllExtensionsReader_readOneofStringExtension = readCell cellOneofStringExtension cellOneofStringExtension_update mbuf (readOne ReadString [])"

definition TestAllExtensionsReader_GetOneofStringExtension :: "TestAllExtensionsReader option \<Rightarrow> (gostring \<times> TestAllExtensionsReader option) run" where
  "TestAllExtensionsReader_GetOneofStringExtension = getter TestAllExtensionsReader_readOneofStringExtension []"

definition TestAllExtensionsReader_readOneofBytesExtension :: "TestAllExtensionsReader \<Rightarrow> (byte list \<times> TestAllExtensionsReader) run" where
  "TestAllExtensionsReader_readOneofBytesExtension = readCell cellOneofBytesExtension cellOneofBytesExtension_update mbuf (readOne ReadByteList [])"

definition TestAllExtensionsReader_GetOneofBytesExtension :: "TestAllExtensionsReader option \<Rightarrow> (byte list \<times> TestAllExtensionsReader option) run" where
  "TestAllExtensionsReader_GetOneofBytesExtension = getter TestAllExtensionsReader_readOneofBytesExtension []"

lemmas TestAllExtensions_getters =
  TestAllExtensionsReader_readOptionalInt32Extension_def TestAllExtensionsReader_GetOptionalInt32Extension_def
  TestAllExtensionsReader_readOptionalInt64Extension_def TestAllExtensionsReader_GetOptionalInt64Extension_def
  TestAllExtensionsReader_readOptionalUint32Extension_def TestAllExtensionsReader_GetOptionalUint32Extension_def
  TestAllExtensionsReader_readOptionalUint64Extension_def TestAllExtensionsReader_GetOptionalUint64Extension_def
  TestAllExtensionsReader_readOptionalSint32Extension_def TestAllExtensionsReader_GetOptionalSint32Extension_def
  TestAllExtensionsReader_readOptionalSint64Extension_def TestAllExtensionsReader_GetOptionalSint64Extension_def
  TestAllExtensionsReader_readOptionalFixed32Extension_def TestAllExtensionsReader_GetOptionalFixed32Extension_def
  TestAllExtensionsReader_readOptionalFixed64Extension_def TestAllExtensionsReader_GetOptionalFixed64Extension_def
  TestAllExtensionsReader_readOptionalSfixed32Extension_def TestAllExtensionsReader_GetOptionalSfixed32Extension_def
  TestAllExtensionsReader_readOptionalSfixed64Extension_def TestAllExtensionsReader_GetOptionalSfixed64Extension_def
  TestAllExtensionsReader_readOptionalFloatExtension_def TestAllExtensionsReader_GetOptionalFloatExtension_def
  TestAllExtensionsReader_readOptionalDoubleExtension_def TestAllExtensionsReader_GetOptionalDoubleExtension_def
  TestAllExtensionsReader_readOptionalBoolExtension_def TestAllExtensionsReader_GetOptionalBoolExtension_def
  TestAllExtensionsReader_readOptionalStringExtension_def TestAllExtensionsReader_GetOptionalStringExtension_def
  TestAllExtensionsReader_readOptionalBytesExtension_def TestAllExtensionsReader_GetOptionalBytesExtension_def
  TestAllExtensionsReader_readOptionalNestedMessageExtension_def TestAllExtensionsReader_GetOptionalNestedMessageExtension_def
  TestAllExtensionsReader_readOptionalForeignMessageExtension_def TestAllExtensionsReader_GetOptionalForeignMessageExtension_def
  TestAllExtensionsReader_readOptionalImportMessageExtension_def TestAllExtensionsReader_GetOptionalImportMessageExtension_def
  TestAllExtensionsReader_readOptionalNestedEnumExtension_def TestAllExtensionsReader_GetOptionalNestedEnumExtension_def
  TestAllExtensionsReader_readOptionalForeignEnumExtension_def TestAllExtensionsReader_GetOptionalForeignEnumExtension_def
  TestAllExtensionsReader_readOptionalImportEnumExtension_def TestAllExtensionsReader_GetOptionalImportEnumExtension_def
  TestAllExtensionsReader_readOptionalStringPieceExtension_def TestAllExtensionsReader_GetOptionalStringPieceExtension_def
  TestAllExtensionsReader_readOptionalCordExtension_def TestAllExtensionsReader_GetOptionalCordExtension_def
  TestAllExtensionsReader_readOptionalPublicImportMessageExtension_def TestAllExtensionsReader_GetOptionalPublicImportMessageExtension_def
  TestAllExtensionsReader_readOptionalLazyMessageExtension_def TestAllExtensionsReader_GetOptionalLazyMessageExtension_def
  TestAllExtensionsReader_readOptionalUnverifiedLazyMessageExtension_def TestAllExtensionsReader_GetOptionalUnverifiedLazyMessageExtension_def
  TestAllExtensionsReader_readRepeatedInt32Extension_def TestAllExtensionsReader_GetRepeatedInt32Extension_def
  TestAllExtensionsReader_readRepeatedInt64Extension_def TestAllExtensionsReader_GetRepeatedInt64Extension_def
  TestAllExtensionsReader_readRepeatedUint32Extension_def TestAllExtensionsReader_GetRepeatedUint32Extension_def
  TestAllExtensionsReader_readRepeatedUint64Extension_def TestAllExtensionsReader_GetRepeatedUint64Extension_def
  TestAllExtensionsReader_readRepeatedSint32Extension_def TestAllExtensionsReader_GetRepeatedSint32Extension_def
  TestAllExtensionsReader_readRepeatedSint64Extension_def TestAllExtensionsReader_GetRepeatedSint64Extension_def
  TestAllExtensionsReader_readRepeatedFixed32Extension_def TestAllExtensionsReader_GetRepeatedFixed32Extension_def
  TestAllExtensionsReader_readRepeatedFixed64Extension_def TestAllExtensionsReader_GetRepeatedFixed64Extension_def
  TestAllExtensionsReader_readRepeatedSfixed32Extension_def TestAllExtensionsReader_GetRepeatedSfixed32Extension_def
  TestAllExtensionsReader_readRepeatedSfixed64Extension_def TestAllExtensionsReader_GetRepeatedSfixed64Extension_def
  TestAllExtensionsReader_readRepeatedFloatExtension_def TestAllExtensionsReader_GetRepeatedFloatExtension_def
  TestAllExtensionsReader_readRepeatedDoubleExtension_def TestAllExtensionsReader_GetRepeatedDoubleExtension_def
  TestAllExtensionsReader_readRepeatedBoolExtension_def TestAllExtensionsReader_GetRepeatedBoolExtension_def
  TestAllExtensionsReader_readRepeatedStringExtension_def TestAllExtensionsReader_GetRepeatedStringExtension_def
  TestAllExtensionsReader_readRepeatedBytesExtension_def TestAllExtensionsReader_GetRepeatedBytesExtension_def
  TestAllExtensionsReader_readRepeatedNestedMessageExtension_def TestAllExtensionsReader_GetRepeatedNestedMessageExtension_def
  TestAllExtensionsReader_readRepeatedForeignMessageExtension_def TestAllExtensionsReader_GetRepeatedForeignMessageExtension_def
  TestAllExtensionsReader_readRepeatedImportMessageExtension_def TestAllExtensionsReader_GetRepeatedImportMessageExtension_def
  TestAllExtensionsReader_readRepeatedNestedEnumExtension_def TestAllExtensionsReader_GetRepeatedNestedEnumExtension_def
  TestAllExtensionsReader_readRepeatedForeignEnumExtension_def TestAllExtensionsReader_GetRepeatedForeignEnumExtension_def
  TestAllExtensionsReader_readRepeatedImportEnumExtension_def TestAllExtensionsReader_GetRepeatedImportEnumExtension_def
  TestAllExtensionsReader_readRepeatedStringPieceExtension_def TestAllExtensionsReader_GetRepeatedStringPieceExtension_def
  TestAllExtensionsReader_readRepeatedCordExtension_def TestAllExtensionsReader_GetRepeatedCordExtension_def
  TestAllExtensionsReader_readRepeatedLazyMessageExtension_def TestAllExtensionsReader_GetRepeatedLazyMessageExtension_def
  TestAllExtensionsReader_readDefaultInt32Extension_def TestAllExtensionsReader_GetDefaultInt32Extension_def
  TestAllExtensionsReader_readDefaultInt64Extension_def TestAllExtensionsReader_GetDefaultInt64Extension_def
  TestAllExtensionsReader_readDefaultUint32Extension_def TestAllExtensionsReader_GetDefaultUint32Extension_def
  TestAllExtensionsReader_readDefaultUint64Extension_def TestAllExtensionsReader_GetDefaultUint64Extension_def
  TestAllExtensionsReader_readDefaultSint32Extension_def TestAllExtensionsReader_GetDefaultSint32Extension_def
  TestAllExtensionsReader_readDefaultSint64Extension_def TestAllExtensionsReader_GetDefaultSint64Extension_def
  TestAllExtensionsReader_readDefaultFixed32Extension_def TestAllExtensionsReader_GetDefaultFixed32Extension_def
  TestAllExtensionsReader_readDefaultFixed64Extension_def TestAllExtensionsReader_GetDefaultFixed64Extension_def
  TestAllExtensionsReader_readDefaultSfixed32Extension_def TestAllExtensionsReader_GetDefaultSfixed32Extension_def
  TestAllExtensionsReader_readDefaultSfixed64Extension_def TestAllExtensionsReader_GetDefaultSfixed64Extension_def
  TestAllExtensionsReader_readDefaultFloatExtension_def TestAllExtensionsReader_GetDefaultFloatExtension_def
  TestAllExtensionsReader_readDefaultDoubleExtension_def TestAllExtensionsReader_GetDefaultDoubleExtension_def
  TestAllExtensionsReader_readDefaultBoolExtension_def TestAllExtensionsReader_GetDefaultBoolExtension_def
  TestAllExtensionsReader_readDefaultStringExtension_def TestAllExtensionsReader_GetDefaultStringExtension_def
  TestAllExtensionsReader_readDefaultBytesExtension_def TestAllExtensionsReader_GetDefaultBytesExtension_def
  TestAllExtensionsReader_readDefaultNestedEnumExtension_def TestAllExtensionsReader_GetDefaultNestedEnumExtension_def
  TestAllExtensionsReader_readDefaultForeignEnumExtension_def TestAllExtensionsReader_GetDefaultForeignEnumExtension_def
  TestAllExtensionsReader_readDefaultImportEnumExtension_def TestAllExtensionsReader_GetDefaultImportEnumExtension_def
  TestAllExtensionsReader_readDefaultStringPieceExtension_def TestAllExtensionsReader_GetDefaultStringPieceExtension_def
  TestAllExtensionsReader_readDefaultCordExtension_def TestAllExtensionsReader_GetDefaultCordExtension_def
  TestAllExtensionsReader_readOneofUint32Extension_def TestAllExtensionsReader_GetOneofUint32Extension_def
  TestAllExtensionsReader_readOneofNestedMessageExtension_def TestAllExtensionsReader_GetOneofNestedMessageExtension_def
  TestAllExtensionsReader_readOneofStringExtension_def TestAllExtensionsReader_GetOneofStringExtension_def
  TestAllExtensionsReader_readOneofBytesExtension_def TestAllExtensionsReader_GetOneofBytesExtension_def

definition TestAllExtensionsReader_cases :: "ProtoWireType \<Rightarrow> int \<Rightarrow> (ProtoWireNumber \<times> (TestAllExtensionsReader \<Rightarrow> TestAllExtensionsReader)) list" where
  "TestAllExtensionsReader_cases wire offset = [
     (wireTestAllExtensions_OptionalInt32Extension, \<lambda>m. m\<lparr>cellOptionalInt32Extension := onOffset (setOffset wire offset) (cellOptionalInt32Extension m)\<rparr>),
     (wireTestAllExtensions_OptionalInt64Extension, \<lambda>m. m\<lparr>cellOptionalInt64Extension := onOffset (setOffset wire offset) (cellOptionalInt64Extension m)\<rparr>),
     (wireTestAllExtensions_OptionalUint32Extension, \<lambda>m. m\<lparr>cellOptionalUint32Extension := onOffset (setOffset wire offset) (cellOptionalUint32Extension m)\<rparr>),
     (wireTestAllExtensions_OptionalUint64Extension, \<lambda>m. m\<lparr>cellOptionalUint64Extension := onOffset (setOffset wire offset) (cellOptionalUint64Extension m)\<rparr>),
     (wireTestAllExtensions_OptionalSint32Extension, \<lambda>m. m\<lparr>cellOptionalSint32Extension := onOffset (setOffset wire offset) (cellOptionalSint32Extension m)\<rparr>),
     (wireTestAllExtensions_OptionalSint64Extension, \<lambda>m. m\<lparr>cellOptionalSint64Extension := onOffset (setOffset wire offset) (cellOptionalSint64Extension m)\<rparr>),
     (wireTestAllExtensions_OptionalFixed32Extension, \<lambda>m. m\<lparr>cellOptionalFixed32Extension := onOffset (setOffset wire offset) (cellOptionalFixed32Extension m)\<rparr>),
     (wireTestAllExtensions_OptionalFixed64Extension, \<lambda>m. m\<lparr>cellOptionalFixed64Extension := onOffset (setOffset wire offset) (cellOptionalFixed64Extension m)\<rparr>),
     (wireTestAllExtensions_OptionalSfixed32Extension, \<lambda>m. m\<lparr>cellOptionalSfixed32Extension := onOffset (setOffset wire offset) (cellOptionalSfixed32Extension m)\<rparr>),
     (wireTestAllExtensions_OptionalSfixed64Extension, \<lambda>m. m\<lparr>cellOptionalSfixed64Extension := onOffset (setOffset wire offset) (cellOptionalSfixed64Extension m)\<rparr>),
     (wireTestAllExtensions_OptionalFloatExtension, \<lambda>m. m\<lparr>cellOptionalFloatExtension := onOffset (setOffset wire offset) (cellOptionalFloatExtension m)\<rparr>),
     (wireTestAllExtensions_OptionalDoubleExtension, \<lambda>m. m\<lparr>cellOptionalDoubleExtension := onOffset (setOffset wire offset) (cellOptionalDoubleExtension m)\<rparr>),
     (wireTestAllExtensions_OptionalBoolExtension, \<lambda>m. m\<lparr>cellOptionalBoolExtension := onOffset (setOffset wire offset) (cellOptionalBoolExtension m)\<rparr>),
     (wireTestAllExtensions_OptionalStringExtension, \<lambda>m. m\<lparr>cellOptionalStringExtension := onOffset (setOffset wire offset) (cellOptionalStringExtension m)\<rparr>),
     (wireTestAllExtensions_OptionalBytesExtension, \<lambda>m. m\<lparr>cellOptionalBytesExtension := onOffset (setOffset wire offset) (cellOptionalBytesExtension m)\<rparr>),
     (wireTestAllExtensions_OptionalNestedMessageExtension, \<lambda>m. m\<lparr>cellOptionalNestedMessageExtension := onOffset (setOffset wire offset) (cellOptionalNestedMessageExtension m)\<rparr>),
     (wireTestAllExtensions_OptionalForeignMessageExtension, \<lambda>m. m\<lparr>cellOptionalForeignMessageExtension := onOffset (setOffset wire offset) (cellOptionalForeignMessageExtension m)\<rparr>),
     (wireTestAllExtensions_OptionalImportMessageExtension, \<lambda>m. m\<lparr>cellOptionalImportMessageExtension := onOffset (setOffset wire offset) (cellOptionalImportMessageExtension m)\<rparr>),
     (wireTestAllExtensions_OptionalNestedEnumExtension, \<lambda>m. m\<lparr>cellOptionalNestedEnumExtension := onOffset (setOffset wire offset) (cellOptionalNestedEnumExtension m)\<rparr>),
     (wireTestAllExtensions_OptionalForeignEnumExtension, \<lambda>m. m\<lparr>cellOptionalForeignEnumExtension := onOffset (setOffset wire offset) (cellOptionalForeignEnumExtension m)\<rparr>),
     (wireTestAllExtensions_OptionalImportEnumExtension, \<lambda>m. m\<lparr>cellOptionalImportEnumExtension := onOffset (setOffset wire offset) (cellOptionalImportEnumExtension m)\<rparr>),
     (wireTestAllExtensions_OptionalStringPieceExtension, \<lambda>m. m\<lparr>cellOptionalStringPieceExtension := onOffset (setOffset wire offset) (cellOptionalStringPieceExtension m)\<rparr>),
     (wireTestAllExtensions_OptionalCordExtension, \<lambda>m. m\<lparr>cellOptionalCordExtension := onOffset (setOffset wire offset) (cellOptionalCordExtension m)\<rparr>),
     (wireTestAllExtensions_OptionalPublicImportMessageExtension, \<lambda>m. m\<lparr>cellOptionalPublicImportMessageExtension := onOffset (setOffset wire offset) (cellOptionalPublicImportMessageExtension m)\<rparr>),
     (wireTestAllExtensions_OptionalLazyMessageExtension, \<lambda>m. m\<lparr>cellOptionalLazyMessageExtension := onOffset (setOffset wire offset) (cellOptionalLazyMessageExtension m)\<rparr>),
     (wireTestAllExtensions_OptionalUnverifiedLazyMessageExtension, \<lambda>m. m\<lparr>cellOptionalUnverifiedLazyMessageExtension := onOffset (setOffset wire offset) (cellOptionalUnverifiedLazyMessageExtension m)\<rparr>),
     (wireTestAllExtensions_RepeatedInt32Extension, \<lambda>m. m\<lparr>cellRepeatedInt32Extension := onOffset (addTyped wire offset) (cellRepeatedInt32Extension m)\<rparr>),
     (wireTestAllExtensions_RepeatedInt64Extension, \<lambda>m. m\<lparr>cellRepeatedInt64Extension := onOffset (addTyped wire offset) (cellRepeatedInt64Extension m)\<rparr>),
     (wireTestAllExtensions_RepeatedUint32Extension, \<lambda>m. m\<lparr>cellRepeatedUint32Extension := onOffset (addTyped wire offset) (cellRepeatedUint32Extension m)\<rparr>),
     (wireTestAllExtensions_RepeatedUint64Extension, \<lambda>m. m\<lparr>cellRepeatedUint64Extension := onOffset (addTyped wire offset) (cellRepeatedUint64Extension m)\<rparr>),
     (wireTestAllExtensions_RepeatedSint32Extension, \<lambda>m. m\<lparr>cellRepeatedSint32Extension := onOffset (addTyped wire offset) (cellRepeatedSint32Extension m)\<rparr>),
     (wireTestAllExtensions_RepeatedSint64Extension, \<lambda>m. m\<lparr>cellRepeatedSint64Extension := onOffset (addTyped wire offset) (cellRepeatedSint64Extension m)\<rparr>),
     (wireTestAllExtensions_RepeatedFixed32Extension, \<lambda>m. m\<lparr>cellRepeatedFixed32Extension := onOffset (addTyped wire offset) (cellRepeatedFixed32Extension m)\<rparr>),
     (wireTestAllExtensions_RepeatedFixed64Extension, \<lambda>m. m\<lparr>cellRepeatedFixed64Extension := onOffset (addTyped wire offset) (cellRepeatedFixed64Extension m)\<rparr>),
     (wireTestAllExtensions_RepeatedSfixed32Extension, \<lambda>m. m\<lparr>cellRepeatedSfixed32Extension := onOffset (addTyped wire offset) (cellRepeatedSfixed32Extension m)\<rparr>),
     (wireTestAllExtensions_RepeatedSfixed64Extension, \<lambda>m. m\<lparr>cellRepeatedSfixed64Extension := onOffset (addTyped wire offset) (cellRepeatedSfixed64Extension m)\<rparr>),
     (wireTestAllExtensions_RepeatedFloatExtension, \<lambda>m. m\<lparr>cellRepeatedFloatExtension := onOffset (addTyped wire offset) (cellRepeatedFloatExtension m)\<rparr>),
     (wireTestAllExtensions_RepeatedDoubleExtension, \<lambda>m. m\<lparr>cellRepeatedDoubleExtension := onOffset (addTyped wire offset) (cellRepeatedDoubleExtension m)\<rparr>),
     (wireTestAllExtensions_RepeatedBoolExtension, \<lambda>m. m\<lparr>cellRepeatedBoolExtension := onOffset (addTyped wire offset) (cellRepeatedBoolExtension m)\<rparr>),
     (wireTestAllExtensions_RepeatedStringExtension, \<lambda>m. m\<lparr>cellRepeatedStringExtension := onOffset (addOffset wire offset) (cellRepeatedStringExtension m)\<rparr>),
     (wireTestAllExtensions_RepeatedBytesExtension, \<lambda>m. m\<lparr>cellRepeatedBytesExtension := onOffset (addOffset wire offset) (cellRepeatedBytesExtension m)\<rparr>),
     (wireTestAllExtensions_RepeatedNestedMessageExtension, \<lambda>m. m\<lparr>cellRepeatedNestedMessageExtension := onOffset (addOffset wire offset) (cellRepeatedNestedMessageExtension m)\<rparr>),
     (wireTestAllExtensions_RepeatedForeignMessageExtension, \<lambda>m. m\<lparr>cellRepeatedForeignMessageExtension := onOffset (addOffset wire offset) (cellRepeatedForeignMessageExtension m)\<rparr>),
     (wireTestAllExtensions_RepeatedImportMessageExtension, \<lambda>m. m\<lparr>cellRepeatedImportMessageExtension := onOffset (addOffset wire offset) (cellRepeatedImportMessageExtension m)\<rparr>),
     (wireTestAllExtensions_RepeatedNestedEnumExtension, \<lambda>m. m\<lparr>cellRepeatedNestedEnumExtension := onOffset (addTyped wire offset) (cellRepeatedNestedEnumExtension m)\<rparr>),
     (wireTestAllExtensions_RepeatedForeignEnumExtension, \<lambda>m. m\<lparr>cellRepeatedForeignEnumExtension := onOffset (addTyped wire offset) (cellRepeatedForeignEnumExtension m)\<rparr>),
     (wireTestAllExtensions_RepeatedImportEnumExtension, \<lambda>m. m\<lparr>cellRepeatedImportEnumExtension := onOffset (addTyped wire offset) (cellRepeatedImportEnumExtension m)\<rparr>),
     (wireTestAllExtensions_RepeatedStringPieceExtension, \<lambda>m. m\<lparr>cellRepeatedStringPieceExtension := onOffset (addOffset wire offset) (cellRepeatedStringPieceExtension m)\<rparr>),
     (wireTestAllExtensions_RepeatedCordExtension, \<lambda>m. m\<lparr>cellRepeatedCordExtension := onOffset (addOffset wire offset) (cellRepeatedCordExtension m)\<rparr>),
     (wireTestAllExtensions_RepeatedLazyMessageExtension, \<lambda>m. m\<lparr>cellRepeatedLazyMessageExtension := onOffset (addOffset wire offset) (cellRepeatedLazyMessageExtension m)\<rparr>),
     (wireTestAllExtensions_DefaultInt32Extension, \<lambda>m. m\<lparr>cellDefaultInt32Extension := onOffset (setOffset wire offset) (cellDefaultInt32Extension m)\<rparr>),
     (wireTestAllExtensions_DefaultInt64Extension, \<lambda>m. m\<lparr>cellDefaultInt64Extension := onOffset (setOffset wire offset) (cellDefaultInt64Extension m)\<rparr>),
     (wireTestAllExtensions_DefaultUint32Extension, \<lambda>m. m\<lparr>cellDefaultUint32Extension := onOffset (setOffset wire offset) (cellDefaultUint32Extension m)\<rparr>),
     (wireTestAllExtensions_DefaultUint64Extension, \<lambda>m. m\<lparr>cellDefaultUint64Extension := onOffset (setOffset wire offset) (cellDefaultUint64Extension m)\<rparr>),
     (wireTestAllExtensions_DefaultSint32Extension, \<lambda>m. m\<lparr>cellDefaultSint32Extension := onOffset (setOffset wire offset) (cellDefaultSint32Extension m)\<rparr>),
     (wireTestAllExtensions_DefaultSint64Extension, \<lambda>m. m\<lparr>cellDefaultSint64Extension := onOffset (setOffset wire offset) (cellDefaultSint64Extension m)\<rparr>),
     (wireTestAllExtensions_DefaultFixed32Extension, \<lambda>m. m\<lparr>cellDefaultFixed32Extension := onOffset (setOffset wire offset) (cellDefaultFixed32Extension m)\<rparr>),
     (wireTestAllExtensions_DefaultFixed64Extension, \<lambda>m. m\<lparr>cellDefaultFixed64Extension := onOffset (setOffset wire offset) (cellDefaultFixed64Extension m)\<rparr>),
     (wireTestAllExtensions_DefaultSfixed32Extension, \<lambda>m. m\<lparr>cellDefaultSfixed32Extension := onOffset (setOffset wire offset) (cellDefaultSfixed32Extension m)\<rparr>),
     (wireTestAllExtensions_DefaultSfixed64Extension, \<lambda>m. m\<lparr>cellDefaultSfixed64Extension := onOffset (setOffset wire offset) (cellDefaultSfixed64Extension m)\<rparr>),
     (wireTestAllExtensions_DefaultFloatExtension, \<lambda>m. m\<lparr>cellDefaultFloatExtension := onOffset (setOffset wire offset) (cellDefaultFloatExtension m)\<rparr>),
     (wireTestAllExtensions_DefaultDoubleExtension, \<lambda>m. m\<lparr>cellDefaultDoubleExtension := onOffset (setOffset wire offset) (cellDefaultDoubleExtension m)\<rparr>),
     (wireTestAllExtensions_DefaultBoolExtension, \<lambda>m. m\<lparr>cellDefaultBoolExtension := onOffset (setOffset wire offset) (cellDefaultBoolExtension m)\<rparr>),
     (wireTestAllExtensions_DefaultStringExtension, \<lambda>m. m\<lparr>cellDefaultStringExtension := onOffset (setOffset wire offset) (cellDefaultStringExtension m)\<rparr>),
     (wireTestAllExtensions_DefaultBytesExtension, \<lambda>m. m\<lparr>cellDefaultBytesExtension := onOffset (setOffset wire offset) (cellDefaultBytesExtension m)\<rparr>),
     (wireTestAllExtensions_DefaultNestedEnumExtension, \<lambda>m. m\<lparr>cellDefaultNestedEnumExtension := onOffset (setOffset wire offset) (cellDefaultNestedEnumExtension m)\<rparr>),
     (wireTestAllExtensions_DefaultForeignEnumExtension, \<lambda>m. m\<lparr>cellDefaultForeignEnumExtension := onOffset (setOffset wire offset) (cellDefaultForeignEnumExtension m)\<rparr>),
     (wireTestAllExtensions_DefaultImportEnumExtension, \<lambda>m. m\<lparr>cellDefaultImportEnumExtension := onOffset (setOffset wire offset) (cellDefaultImportEnumExtension m)\<rparr>),
     (wireTestAllExtensions_DefaultStringPieceExtension, \<lambda>m. m\<lparr>cellDefaultStringPieceExtension := onOffset (setOffset wire offset) (cellDefaultStringPieceExtension m)\<rparr>),
     (wireTestAllExtensions_DefaultCordExtension, \<lambda>m. m\<lparr>cellDefaultCordExtension := onOffset (setOffset wire offset) (cellDefaultCordExtension m)\<rparr>),
     (wireTestAllExtensions_OneofUint32Extension, \<lambda>m. m\<lparr>cellOneofUint32Extension := onOffset (setOffset wire offset) (cellOneofUint32Extension m)\<rparr>),
     (wireTestAllExtensions_OneofNestedMessageExtension, \<lambda>m. m\<lparr>cellOneofNestedMessageExtension := onOffset (setOffset wire offset) (cellOneofNestedMessageExtension m)\<rparr>),
     (wireTestAllExtensions_OneofStringExtension, \<lambda>m. m\<lparr>cellOneofStringExtension := onOffset (setOffset wire offset) (cellOneofStringExtension m)\<rparr>),
     (wireTestAllExtensions_OneofBytesExtension, \<lambda>m. m\<lparr>cellOneofBytesExtension := onOffset (setOffset wire offset) (cellOneofBytesExtension m)\<rparr>)]"

definition TestAllExtensionsReader_save :: "ProtoWireNumber \<Rightarrow> ProtoWireType \<Rightarrow> int \<Rightarrow> TestAllExtensionsReader \<Rightarrow> TestAllExtensionsReader" where
  "TestAllExtensionsReader_save tag wire offset = tag_switch (TestAllExtensionsReader_cases wire offset) tag"

definition TestAllExtensionsReader_Unmarshal :: "TestAllExtensionsReader \<Rightarrow> gslice \<Rightarrow> (TestAllExtensionsReader \<times> string option) run" where
  "TestAllExtensionsReader_Unmarshal m data =
     unmarshalLoop TestAllExtensionsReader_save (NewReader data) 0 (m\<lparr>mbuf := Some (NewReader data)\<rparr>)"

definition TestAllExtensionsReader_SourceBytes :: "TestAllExtensionsReader option \<Rightarrow> gslice" where
  "TestAllExtensionsReader_SourceBytes s = (case s of None \<Rightarrow> nil_slice | Some r \<Rightarrow> Bytes (mbuf r))"

section \<open>TestAllExtensions: the struct\<close>

record TestAllExtensions =
  OptionalInt32Extension :: int32
  OptionalInt64Extension :: int64
  OptionalUint32Extension :: uint32
  OptionalUint64Extension :: uint64
  OptionalSint32Extension :: int32
  OptionalSint64Extension :: int64
  OptionalFixed32Extension :: uint32
  OptionalFixed64Extension :: uint64
  OptionalSfixed32Extension :: int32
  OptionalSfixed64Extension :: int64
  OptionalFloatExtension :: float32
  OptionalDoubleExtension :: float64
  OptionalBoolExtension :: bool
  OptionalStringExtension :: gostring
  OptionalBytesExtension :: "byte list"
  OptionalNestedMessageExtension :: "TestAllTypes_NestedMessage option"
  OptionalForeignMessageExtension :: "ForeignMessage option"
  OptionalImportMessageExtension :: "ImportMessage option"
  OptionalNestedEnumExtension :: TestAllTypes_NestedEnum
  OptionalForeignEnumExtension :: ForeignEnum
  OptionalImportEnumExtension :: ImportEnum
  OptionalStringPieceExtension :: gostring
  OptionalCordExtension :: gostring
  OptionalPublicImportMessageExtension :: "PublicImportMessage option"
  OptionalLazyMessageExtension :: "TestAllTypes_NestedMessage option"
  OptionalUnverifiedLazyMessageExtension :: "TestAllTypes_NestedMessage option"
  RepeatedInt32Extension :: "int32 list"
  RepeatedInt64Extension :: "int64 list"
  RepeatedUint32Extension :: "uint32 list"
  RepeatedUint64Extension :: "uint64 list"
  RepeatedSint32Extension :: "int32 list"
  RepeatedSint64Extension :: "int64 list"
  RepeatedFixed32Extension :: "uint32 list"
  RepeatedFixed64Extension :: "uint64 list"
  RepeatedSfixed32Extension :: "int32 list"
  RepeatedSfixed64Extension :: "int64 list"
  RepeatedFloatExtension :: "float32 list"
  RepeatedDoubleExtension :: "float64 list"
  RepeatedBoolExtension :: "bool list"
  RepeatedStringExtension :: "gostring list"
  RepeatedBytesExtension :: "(byte list) list"
  RepeatedNestedMessageExtension :: "(TestAllTypes_NestedMessage option) list"
  RepeatedForeignMessageExtension :: "(ForeignMessage option) list"
  RepeatedImportMessageExtension :: "(ImportMessage option) list"
  RepeatedNestedEnumExtension :: "TestAllTypes_NestedEnum list"
  RepeatedForeignEnumExtension :: "ForeignEnum list"
  RepeatedImportEnumExtension :: "ImportEnum list"
  RepeatedStringPieceExtension :: "gostring list"
  RepeatedCordExtension :: "gostring list"
  RepeatedLazyMessageExtension :: "(TestAllTypes_NestedMessage option) list"
  DefaultInt32Extension :: int32
  DefaultInt64Extension :: int64
  DefaultUint32Extension :: uint32
  DefaultUint64Extension :: uint64
  DefaultSint32Extension :: int32
  DefaultSint64Extension :: int64
  DefaultFixed32Extension :: uint32
  DefaultFixed64Extension :: uint64
  DefaultSfixed32Extension :: int32
  DefaultSfixed64Extension :: int64
  DefaultFloatExtension :: float32
  DefaultDoubleExtension :: float64
  DefaultBoolExtension :: bool
  DefaultStringExtension :: gostring
  DefaultBytesExtension :: "byte list"
  DefaultNestedEnumExtension :: TestAllTypes_NestedEnum
  DefaultForeignEnumExtension :: ForeignEnum
  DefaultImportEnumExtension :: ImportEnum
  DefaultStringPieceExtension :: gostring
  DefaultCordExtension :: gostring
  OneofUint32Extension :: uint32
  OneofNestedMessageExtension :: "TestAllTypes_NestedMessage option"
  OneofStringExtension :: gostring
  OneofBytesExtension :: "byte list"

definition TestAllExtensions_zero :: TestAllExtensions where
  "TestAllExtensions_zero = \<lparr>
     OptionalInt32Extension = 0, OptionalInt64Extension = 0, OptionalUint32Extension = 0,
     OptionalUint64Extension = 0, OptionalSint32Extension = 0, OptionalSint64Extension = 0,
     OptionalFixed32Extension = 0, OptionalFixed64Extension = 0, OptionalSfixed32Extension = 0,
     OptionalSfixed64Extension = 0, OptionalFloatExtension = 0, OptionalDoubleExtension = 0,
     OptionalBoolExtension = False, OptionalStringExtension = [], OptionalBytesExtension = [],
     OptionalNestedMessageExtension = None, OptionalForeignMessageExtension = None,
     OptionalImportMessageExtension = None, OptionalNestedEnumExtension = 0,
     OptionalForeignEnumExtension = 0, OptionalImportEnumExtension = 0,
     OptionalStringPieceExtension = [], OptionalCordExtension = [],
     OptionalPublicImportMessageExtension = None, OptionalLazyMessageExtension = None,
     OptionalUnverifiedLazyMessageExtension = None, RepeatedInt32Extension = [],
     RepeatedInt64Extension = [], RepeatedUint32Extension = [], RepeatedUint64Extension = [],
     RepeatedSint32Extension = [], RepeatedSint64Extension = [], RepeatedFixed32Extension = [],
     RepeatedFixed64Extension = [], RepeatedSfixed32Extension = [],
     RepeatedSfixed64Extension = [], RepeatedFloatExtension = [], RepeatedDoubleExtension = [],
     RepeatedBoolExtension = [], RepeatedStringExtension = [], RepeatedBytesExtension = [],
     RepeatedNestedMessageExtension = [], RepeatedForeignMessageExtension = [],
     RepeatedImportMessageExtension = [], RepeatedNestedEnumExtension = [],
     RepeatedForeignEnumExtension = [], RepeatedImportEnumExtension = [],
     RepeatedStringPieceExtension = [], RepeatedCordExtension = [],
     RepeatedLazyMessageExtension = [], DefaultInt32Extension = 0, DefaultInt64Extension = 0,
     DefaultUint32Extension = 0, DefaultUint64Extension = 0, DefaultSint32Extension = 0,
     DefaultSint64Extension = 0, DefaultFixed32Extension = 0, DefaultFixed64Extension = 0,
     DefaultSfixed32Extension = 0, DefaultSfixed64Extension = 0, DefaultFloatExtension = 0,
     DefaultDoubleExtension = 0, DefaultBoolExtension = False, DefaultStringExtension = [],
     DefaultBytesExtension = [], DefaultNestedEnumExtension = 0,
     DefaultForeignEnumExtension = 0, DefaultImportEnumExtension = 0,
     DefaultStringPieceExtension = [], DefaultCordExtension = [], OneofUint32Extension = 0,
     OneofNestedMessageExtension = None, OneofStringExtension = [], OneofBytesExtension = []\<rparr>"

definition TestAllExtensions_stmts1 :: "(TestAllExtensions \<times> TestAllExtensionsReader option \<Rightarrow> (TestAllExtensions \<times> TestAllExtensionsReader option) run) list" where
  "TestAllExtensions_stmts1 = [
     assign TestAllExtensionsReader_GetOptionalInt32Extension (\<lambda>v res. res\<lparr>OptionalInt32Extension := v\<rparr>),
     assign TestAllExtensionsReader_GetOptionalInt64Extension (\<lambda>v res. res\<lparr>OptionalInt64Extension := v\<rparr>),
     assign TestAllExtensionsReader_GetOptionalUint32Extension (\<lambda>v res. res\<lparr>OptionalUint32Extension := v\<rparr>),
     assign TestAllExtensionsReader_GetOptionalUint64Extension (\<lambda>v res. res\<lparr>OptionalUint64Extension := v\<rparr>),
     assign TestAllExtensionsReader_GetOptionalSint32Extension (\<lambda>v res. res\<lparr>OptionalSint32Extension := v\<rparr>),
     assign TestAllExtensionsReader_GetOptionalSint64Extension (\<lambda>v res. res\<lparr>OptionalSint64Extension := v\<rparr>),
     assign TestAllExtensionsReader_GetOptionalFixed32Extension (\<lambda>v res. res\<lparr>OptionalFixed32Extension := v\<rparr>),
     assign TestAllExtensionsReader_GetOptionalFixed64Extension (\<lambda>v res. res\<lparr>OptionalFixed64Extension := v\<rparr>),
     assign TestAllExtensionsReader_GetOptionalSfixed32Extension (\<lambda>v res. res\<lparr>OptionalSfixed32Extension := v\<rparr>),
     assign TestAllExtensionsReader_GetOptionalSfixed64Extension (\<lambda>v res. res\<lparr>OptionalSfixed64Extension := v\<rparr>),
     assign TestAllExtensionsReader_GetOptionalFloatExtension (\<lambda>v res. res\<lparr>OptionalFloatExtension := v\<rparr>),
     assign TestAllExtensionsReader_GetOptionalDoubleExtension (\<lambda>v res. res\<lparr>OptionalDoubleExtension := v\<rparr>),
     assign TestAllExtensionsReader_GetOptionalBoolExtension (\<lambda>v res. res\<lparr>OptionalBoolExtension := v\<rparr>),
     assign TestAllExtensionsReader_GetOptionalStringExtension (\<lambda>v res. res\<lparr>OptionalStringExtension := v\<rparr>),
     assign TestAllExtensionsReader_GetOptionalBytesExtension (\<lambda>v res. res\<lparr>OptionalBytesExtension := v\<rparr>),
     assignStruct TestAllExtensionsReader_GetOptionalNestedMessageExtension (structToStruct TestAllTypes_NestedMessageReader_ToStruct) cellOptionalNestedMessageExtension_update
       (\<lambda>v res. res\<lparr>OptionalNestedMessageExtension := v\<rparr>),
     assignStruct TestAllExtensionsReader_GetOptionalForeignMessageExtension (structToStruct ForeignMessageReader_ToStruct) cellOptionalForeignMessageExtension_update
       (\<lambda>v res. res\<lparr>OptionalForeignMessageExtension := v\<rparr>),
     assignStruct TestAllExtensionsReader_GetOptionalImportMessageExtension (structToStruct ImportMessageReader_ToStruct) cellOptionalImportMessageExtension_update
       (\<lambda>v res. res\<lparr>OptionalImportMessageExtension := v\<rparr>),
     assign TestAllExtensionsReader_GetOptionalNestedEnumExtension (\<lambda>v res. res\<lparr>OptionalNestedEnumExtension := v\<rparr>),
     assign TestAllExtensionsReader_GetOptionalForeignEnumExtension (\<lambda>v res. res\<lparr>OptionalForeignEnumExtension := v\<rparr>),
     assign TestAllExtensionsReader_GetOptionalImportEnumExtension (\<lambda>v res. res\<lparr>OptionalImportEnumExtension := v\<rparr>),
     assign TestAllExtensionsReader_GetOptionalStringPieceExtension (\<lambda>v res. res\<lparr>OptionalStringPieceExtension := v\<rparr>),
     assign TestAllExtensionsReader_GetOptionalCordExtension (\<lambda>v res. res\<lparr>OptionalCordExtension := v\<rparr>),
     assignStruct TestAllExtensionsReader_GetOptionalPublicImportMessageExtension (structToStruct PublicImportMessageReader_ToStruct) cellOptionalPublicImportMessageExtension_update
       (\<lambda>v res. res\<lparr>OptionalPublicImportMessageExtension := v\<rparr>),
     assignStruct TestAllExtensionsReader_GetOptionalLazyMessageExtension (structToStruct TestAllTypes_NestedMessageReader_ToStruct) cellOptionalLazyMessageExtension_update
       (\<lambda>v res. res\<lparr>OptionalLazyMessageExtension := v\<rparr>),
     assignStruct TestAllExtensionsReader_GetOptionalUnverifiedLazyMessageExtension (structToStruct TestAllTypes_NestedMessageReader_ToStruct) cellOptionalUnverifiedLazyMessageExtension_update
       (\<lambda>v res. res\<lparr>OptionalUnverifiedLazyMessageExtension := v\<rparr>),
     assign TestAllExtensionsReader_GetRepeatedInt32Extension (\<lambda>v res. res\<lparr>RepeatedInt32Extension := v\<rparr>),
     assign TestAllExtensionsReader_GetRepeatedInt64Extension (\<lambda>v res. res\<lparr>RepeatedInt64Extension := v\<rparr>),
     assign TestAllExtensionsReader_GetRepeatedUint32Extension (\<lambda>v res. res\<lparr>RepeatedUint32Extension := v\<rparr>),
     assign TestAllExtensionsReader_GetRepeatedUint64Extension (\<lambda>v res. res\<lparr>RepeatedUint64Extension := v\<rparr>),
     assign TestAllExtensionsReader_GetRepeatedSint32Extension (\<lambda>v res. res\<lparr>RepeatedSint32Extension := v\<rparr>),
     assign TestAllExtensionsReader_GetRepeatedSint64Extension (\<lambda>v res. res\<lparr>RepeatedSint64Extension := v\<rparr>),
     assign TestAllExtensionsReader_GetRepeatedFixed32Extension (\<lambda>v res. res\<lparr>RepeatedFixed32Extension := v\<rparr>),
     assign TestAllExtensionsReader_GetRepeatedFixed64Extension (\<lambda>v res. res\<lparr>RepeatedFixed64Extension := v\<rparr>),
     assign TestAllExtensionsReader_GetRepeatedSfixed32Extension (\<lambda>v res. res\<lparr>RepeatedSfixed32Extension := v\<rparr>),
     assign TestAllExtensionsReader_GetRepeatedSfixed64Extension (\<lambda>v res. res\<lparr>RepeatedSfixed64Extension := v\<rparr>),
     assign TestAllExtensionsReader_GetRepeatedFloatExtension (\<lambda>v res. res\<lparr>RepeatedFloatExtension := v\<rparr>),
     assign TestAllExtensionsReader_GetRepeatedDoubleExtension (\<lambda>v res. res\<lparr>RepeatedDoubleExtension := v\<rparr>),
     assign TestAllExtensionsReader_GetRepeatedBoolExtension (\<lambda>v res. res\<lparr>RepeatedBoolExtension := v\<rparr>),
     assign TestAllExtensionsReader_GetRepeatedStringExtension (\<lambda>v res. res\<lparr>RepeatedStringExtension := v\<rparr>),
     assign TestAllExtensionsReader_GetRepeatedBytesExtension (\<lambda>v res. res\<lparr>RepeatedBytesExtension := v\<rparr>),
     assignStruct TestAllExtensionsReader_GetRepeatedNestedMessageExtension (repeatedToStruct TestAllTypes_NestedMessageReader_ToStruct) cellRepeatedNestedMessageExtension_update
       (\<lambda>v res. res\<lparr>RepeatedNestedMessageExtension := v\<rparr>),
     assignStruct TestAllExtensionsReader_GetRepeatedForeignMessageExtension (repeatedToStruct ForeignMessageReader_ToStruct) cellRepeatedForeignMessageExtension_update
       (\<lambda>v res. res\<lparr>RepeatedForeignMessageExtension := v\<rparr>),
     assignStruct TestAllExtensionsReader_GetRepeatedImportMessageExtension (repeatedToStruct ImportMessageReader_ToStruct) cellRepeatedImportMessageExtension_update
       (\<lambda>v res. res\<lparr>RepeatedImportMessageExtension := v\<rparr>),
     assign TestAllExtensionsReader_GetRepeatedNestedEnumExtension (\<lambda>v res. res\<lparr>RepeatedNestedEnumExtension := v\<rparr>),
     assign TestAllExtensionsReader_GetRepeatedForeignEnumExtension (\<lambda>v res. res\<lparr>RepeatedForeignEnumExtension := v\<rparr>),
     assign TestAllExtensionsReader_GetRepeatedImportEnumExtension (\<lambda>v res. res\<lparr>RepeatedImportEnumExtension := v\<rparr>),
     assign TestAllExtensionsReader_GetRepeatedStringPieceExtension (\<lambda>v res. res\<lparr>RepeatedStringPieceExtension := v\<rparr>),
     assign TestAllExtensionsReader_GetRepeatedCordExtension (\<lambda>v res. res\<lparr>RepeatedCordExtension := v\<rparr>),
     assignStruct TestAllExtensionsReader_GetRepeatedLazyMessageExtension (repeatedToStruct TestAllTypes_NestedMessageReader_ToStruct) cellRepeatedLazyMessageExtension_update
       (\<lambda>v res. res\<lparr>RepeatedLazyMessageExtension := v\<rparr>)]"

definition TestAllExtensions_stmts2 :: "(TestAllExtensions \<times> TestAllExtensionsReader option \<Rightarrow> (TestAllExtensions \<times> TestAllExtensionsReader option) run) list" where
  "TestAllExtensions_stmts2 = [
     assign TestAllExtensionsReader_GetDefaultInt32Extension (\<lambda>v res. res\<lparr>DefaultInt32Extension := v\<rparr>),
     assign TestAllExtensionsReader_GetDefaultInt64Extension (\<lambda>v res. res\<lparr>DefaultInt64Extension := v\<rparr>),
     assign TestAllExtensionsReader_GetDefaultUint32Extension (\<lambda>v res. res\<lparr>DefaultUint32Extension := v\<rparr>),
     assign TestAllExtensionsReader_GetDefaultUint64Extension (\<lambda>v res. res\<lparr>DefaultUint64Extension := v\<rparr>),
     assign TestAllExtensionsReader_GetDefaultSint32Extension (\<lambda>v res. res\<lparr>DefaultSint32Extension := v\<rparr>),
     assign TestAllExtensionsReader_GetDefaultSint64Extension (\<lambda>v res. res\<lparr>DefaultSint64Extension := v\<rparr>),
     assign TestAllExtensionsReader_GetDefaultFixed32Extension (\<lambda>v res. res\<lparr>DefaultFixed32Extension := v\<rparr>),
     assign TestAllExtensionsReader_GetDefaultFixed64Extension (\<lambda>v res. res\<lparr>DefaultFixed64Extension := v\<rparr>),
     assign TestAllExtensionsReader_GetDefaultSfixed32Extension (\<lambda>v res. res\<lparr>DefaultSfixed32Extension := v\<rparr>),
     assign TestAllExtensionsReader_GetDefaultSfixed64Extension (\<lambda>v res. res\<lparr>DefaultSfixed64Extension := v\<rparr>),
     assign TestAllExtensionsReader_GetDefaultFloatExtension (\<lambda>v res. res\<lparr>DefaultFloatExtension := v\<rparr>),
     assign TestAllExtensionsReader_GetDefaultDoubleExtension (\<lambda>v res. res\<lparr>DefaultDoubleExtension := v\<rparr>),
     assign TestAllExtensionsReader_GetDefaultBoolExtension (\<lambda>v res. res\<lparr>DefaultBoolExtension := v\<rparr>),
     assign TestAllExtensionsReader_GetDefaultStringExtension (\<lambda>v res. res\<lparr>DefaultStringExtension := v\<rparr>),
     assign TestAllExtensionsReader_GetDefaultBytesExtension (\<lambda>v res. res\<lparr>DefaultBytesExtension := v\<rparr>),
     assign TestAllExtensionsReader_GetDefaultNestedEnumExtension (\<lambda>v res. res\<lparr>DefaultNestedEnumExtension := v\<rparr>),
     assign TestAllExtensionsReader_GetDefaultForeignEnumExtension (\<lambda>v res. res\<lparr>DefaultForeignEnumExtension := v\<rparr>),
     assign TestAllExtensionsReader_GetDefaultImportEnumExtension (\<lambda>v res. res\<lparr>DefaultImportEnumExtension := v\<rparr>),
     assign TestAllExtensionsReader_GetDefaultStringPieceExtension (\<lambda>v res. res\<lparr>DefaultStringPieceExtension := v\<rparr>),
     assign TestAllExtensionsReader_GetDefaultCordExtension (\<lambda>v res. res\<lparr>DefaultCordExtension := v\<rparr>),
     assign TestAllExtensionsReader_GetOneofUint32Extension (\<lambda>v res. res\<lparr>OneofUint32Extension := v\<rparr>),
     assignStruct TestAllExtensionsReader_GetOneofNestedMessageExtension (structToStruct TestAllTypes_NestedMessageReader_ToStruct) cellOneofNestedMessageExtension_update
       (\<lambda>v res. res\<lparr>OneofNestedMessageExtension := v\<rparr>),
     assign TestAllExtensionsReader_GetOneofStringExtension (\<lambda>v res. res\<lparr>OneofStringExtension := v\<rparr>),
     assign TestAllExtensionsReader_GetOneofBytesExtension (\<lambda>v res. res\<lparr>OneofBytesExtension := v\<rparr>)]"

definition TestAllExtensionsReader_ToStruct :: "TestAllExtensionsReader option \<Rightarrow> (TestAllExtensions option \<times> TestAllExtensionsReader option) run" where
  "TestAllExtensionsReader_ToStruct = toStructWith (TestAllExtensions_stmts1 @ TestAllExtensions_stmts2) TestAllExtensions_zero"

definition TestAllExtensions_appends1 :: "TestAllExtensions \<Rightarrow> (Writer \<Rightarrow> Writer go) list" where
  "TestAllExtensions_appends1 s = [
     \<lambda>res. if OptionalInt32Extension s \<noteq> 0 then AppendInt32 res wireTestAllExtensions_OptionalInt32Extension (OptionalInt32Extension s) else Ret res,
     \<lambda>res. if OptionalInt64Extension s \<noteq> 0 then AppendInt64 res wireTestAllExtensions_OptionalInt64Extension (OptionalInt64Extension s) else Ret res,
     \<lambda>res. if OptionalUint32Extension s \<noteq> 0 then AppendUint32 res wireTestAllExtensions_OptionalUint32Extension (OptionalUint32Extension s) else Ret res,
     \<lambda>res. if OptionalUint64Extension s \<noteq> 0 then AppendUint64 res wireTestAllExtensions_OptionalUint64Extension (OptionalUint64Extension s) else Ret res,
     \<lambda>res. if OptionalSint32Extension s \<noteq> 0 then AppendSInt32 res wireTestAllExtensions_OptionalSint32Extension (OptionalSint32Extension s) else Ret res,
     \<lambda>res. if OptionalSint64Extension s \<noteq> 0 then AppendSInt64 res wireTestAllExtensions_OptionalSint64Extension (OptionalSint64Extension s) else Ret res,
     \<lambda>res. if OptionalFixed32Extension s \<noteq> 0 then AppendFixed32 res wireTestAllExtensions_OptionalFixed32Extension (OptionalFixed32Extension s) else Ret res,
     \<lambda>res. if OptionalFixed64Extension s \<noteq> 0 then AppendFixed64 res wireTestAllExtensions_OptionalFixed64Extension (OptionalFixed64Extension s) else Ret res,
     \<lambda>res. if OptionalSfixed32Extension s \<noteq> 0 then AppendSFixed32 res wireTestAllExtensions_OptionalSfixed32Extension (OptionalSfixed32Extension s) else Ret res,
     \<lambda>res. if OptionalSfixed64Extension s \<noteq> 0 then AppendSFixed64 res wireTestAllExtensions_OptionalSfixed64Extension (OptionalSfixed64Extension s) else Ret res,
     \<lambda>res. if \<not> float32_is_zero (OptionalFloatExtension s) then AppendFloat32 res wireTestAllExtensions_OptionalFloatExtension (OptionalFloatExtension s) else Ret res,
     \<lambda>res. if \<not> float64_is_zero (OptionalDoubleExtension s) then AppendFloat64 res wireTestAllExtensions_OptionalDoubleExtension (OptionalDoubleExtension s) else Ret res,
     \<lambda>res. if OptionalBoolExtension s then AppendBool res wireTestAllExtensions_OptionalBoolExtension (OptionalBoolExtension s) else Ret res,
     \<lambda>res. if OptionalStringExtension s \<noteq> [] then AppendString res wireTestAllExtensions_OptionalStringExtension (OptionalStringExtension s) else Ret res,
     \<lambda>res. if OptionalBytesExtension s \<noteq> [] then AppendBytes res wireTestAllExtensions_OptionalBytesExtension (OptionalBytesExtension s) else Ret res,
     \<lambda>res. if OptionalNestedMessageExtension s \<noteq> None then structWriter TestAllTypes_NestedMessage_XXX_PbContentSize TestAllTypes_NestedMessage_MarshalTo res wireTestAllExtensions_OptionalNestedMessageExtension (OptionalNestedMessageExtension s) else Ret res,
     \<lambda>res. if OptionalForeignMessageExtension s \<noteq> None then structWriter ForeignMessage_XXX_PbContentSize ForeignMessage_MarshalTo res wireTestAllExtensions_OptionalForeignMessageExtension (OptionalForeignMessageExtension s) else Ret res,
     \<lambda>res. if OptionalImportMessageExtension s \<noteq> None then structWriter ImportMessage_XXX_PbContentSize ImportMessage_MarshalTo res wireTestAllExtensions_OptionalImportMessageExtension (OptionalImportMessageExtension s) else Ret res,
     \<lambda>res. if OptionalNestedEnumExtension s \<noteq> 0 then AppendInt32 res wireTestAllExtensions_OptionalNestedEnumExtension (OptionalNestedEnumExtension s) else Ret res,
     \<lambda>res. if OptionalForeignEnumExtension s \<noteq> 0 then AppendInt32 res wireTestAllExtensions_OptionalForeignEnumExtension (OptionalForeignEnumExtension s) else Ret res,
     \<lambda>res. if OptionalImportEnumExtension s \<noteq> 0 then AppendInt32 res wireTestAllExtensions_OptionalImportEnumExtension (OptionalImportEnumExtension s) else Ret res,
     \<lambda>res. if OptionalStringPieceExtension s \<noteq> [] then AppendString res wireTestAllExtensions_OptionalStringPieceExtension (OptionalStringPieceExtension s) else Ret res,
     \<lambda>res. if OptionalCordExtension s \<noteq> [] then AppendString res wireTestAllExtensions_OptionalCordExtension (OptionalCordExtension s) else Ret res,
     \<lambda>res. if OptionalPublicImportMessageExtension s \<noteq> None then structWriter PublicImportMessage_XXX_PbContentSize PublicImportMessage_MarshalTo res wireTestAllExtensions_OptionalPublicImportMessageExtension (OptionalPublicImportMessageExtension s) else Ret res,
     \<lambda>res. if OptionalLazyMessageExtension s \<noteq> None then structWriter TestAllTypes_NestedMessage_XXX_PbContentSize TestAllTypes_NestedMessage_MarshalTo res wireTestAllExtensions_OptionalLazyMessageExtension (OptionalLazyMessageExtension s) else Ret res,
     \<lambda>res. if OptionalUnverifiedLazyMessageExtension s \<noteq> None then structWriter TestAllTypes_NestedMessage_XXX_PbContentSize TestAllTypes_NestedMessage_MarshalTo res wireTestAllExtensions_OptionalUnverifiedLazyMessageExtension (OptionalUnverifiedLazyMessageExtension s) else Ret res,
     \<lambda>res. if RepeatedInt32Extension s \<noteq> [] then packedWriter AppendInt32WithoutTag AppendInt32 SizeInt32 res wireTestAllExtensions_RepeatedInt32Extension (RepeatedInt32Extension s) else Ret res,
     \<lambda>res. if RepeatedInt64Extension s \<noteq> [] then packedWriter AppendInt64WithoutTag AppendInt64 SizeInt64 res wireTestAllExtensions_RepeatedInt64Extension (RepeatedInt64Extension s) else Ret res,
     \<lambda>res. if RepeatedUint32Extension s \<noteq> [] then packedWriter AppendUint32WithoutTag AppendUint32 SizeUint32 res wireTestAllExtensions_RepeatedUint32Extension (RepeatedUint32Extension s) else Ret res]"

definition TestAllExtensions_appends2 :: "TestAllExtensions \<Rightarrow> (Writer \<Rightarrow> Writer go) list" where
  "TestAllExtensions_appends2 s = [
     \<lambda>res. if RepeatedUint64Extension s \<noteq> [] then packedWriter AppendUint64WithoutTag AppendUint64 SizeUint64 res wireTestAllExtensions_RepeatedUint64Extension (RepeatedUint64Extension s) else Ret res,
     \<lambda>res. if RepeatedSint32Extension s \<noteq> [] then packedWriter AppendSInt32WithoutTag AppendSInt32 SizeSInt32 res wireTestAllExtensions_RepeatedSint32Extension (RepeatedSint32Extension s) else Ret res,
     \<lambda>res. if RepeatedSint64Extension s \<noteq> [] then packedWriter AppendSInt64WithoutTag AppendSInt64 SizeSInt64 res wireTestAllExtensions_RepeatedSint64Extension (RepeatedSint64Extension s) else Ret res,
     \<lambda>res. if RepeatedFixed32Extension s \<noteq> [] then packedWriter AppendFixed32WithoutTag AppendFixed32 SizeFixed32 res wireTestAllExtensions_RepeatedFixed32Extension (RepeatedFixed32Extension s) else Ret res,
     \<lambda>res. if RepeatedFixed64Extension s \<noteq> [] then packedWriter AppendFixed64WithoutTag AppendFixed64 SizeFixed64 res wireTestAllExtensions_RepeatedFixed64Extension (RepeatedFixed64Extension s) else Ret res,
     \<lambda>res. if RepeatedSfixed32Extension s \<noteq> [] then packedWriter AppendSFixed32WithoutTag AppendSFixed32 SizeSFixed32 res wireTestAllExtensions_RepeatedSfixed32Extension (RepeatedSfixed32Extension s) else Ret res,
     \<lambda>res. if RepeatedSfixed64Extension s \<noteq> [] then packedWriter AppendSFixed64WithoutTag AppendSFixed64 SizeSFixed64 res wireTestAllExtensions_RepeatedSfixed64Extension (RepeatedSfixed64Extension s) else Ret res,
     \<lambda>res. if RepeatedFloatExtension s \<noteq> [] then packedWriter AppendFloat32WithoutTag AppendFloat32 SizeFloat32 res wireTestAllExtensions_RepeatedFloatExtension (RepeatedFloatExtension s) else Ret res,
     \<lambda>res. if RepeatedDoubleExtension s \<noteq> [] then packedWriter AppendFloat64WithoutTag AppendFloat64 SizeFloat64 res wireTestAllExtensions_RepeatedDoubleExtension (RepeatedDoubleExtension s) else Ret res]"

definition TestAllExtensions_appends3 :: "TestAllExtensions \<Rightarrow> (Writer \<Rightarrow> Writer go) list" where
  "TestAllExtensions_appends3 s = [
     \<lambda>res. if RepeatedBoolExtension s \<noteq> [] then packedWriter AppendBoolWithoutTag AppendBool SizeBool res wireTestAllExtensions_RepeatedBoolExtension (RepeatedBoolExtension s) else Ret res,
     \<lambda>res. if RepeatedStringExtension s \<noteq> [] then repeatedWriter AppendString res wireTestAllExtensions_RepeatedStringExtension (RepeatedStringExtension s) else Ret res,
     \<lambda>res. if RepeatedBytesExtension s \<noteq> [] then repeatedWriter AppendBytes res wireTestAllExtensions_RepeatedBytesExtension (RepeatedBytesExtension s) else Ret res,
     \<lambda>res. if RepeatedNestedMessageExtension s \<noteq> [] then repeatedWriter (structWriter TestAllTypes_NestedMessage_XXX_PbContentSize TestAllTypes_NestedMessage_MarshalTo) res wireTestAllExtensions_RepeatedNestedMessageExtension (RepeatedNestedMessageExtension s) else Ret res,
     \<lambda>res. if RepeatedForeignMessageExtension s \<noteq> [] then repeatedWriter (structWriter ForeignMessage_XXX_PbContentSize ForeignMessage_MarshalTo) res wireTestAllExtensions_RepeatedForeignMessageExtension (RepeatedForeignMessageExtension s) else Ret res,
     \<lambda>res. if RepeatedImportMessageExtension s \<noteq> [] then repeatedWriter (structWriter ImportMessage_XXX_PbContentSize ImportMessage_MarshalTo) res wireTestAllExtensions_RepeatedImportMessageExtension (RepeatedImportMessageExtension s) else Ret res,
     \<lambda>res. if RepeatedNestedEnumExtension s \<noteq> [] then packedWriter AppendInt32WithoutTag AppendInt32 SizeInt32 res wireTestAllExtensions_RepeatedNestedEnumExtension (RepeatedNestedEnumExtension s) else Ret res,
     \<lambda>res. if RepeatedForeignEnumExtension s \<noteq> [] then packedWriter AppendInt32WithoutTag AppendInt32 SizeInt32 res wireTestAllExtensions_RepeatedForeignEnumExtension (RepeatedForeignEnumExtension s) else Ret res,
     \<lambda>res. if RepeatedImportEnumExtension s \<noteq> [] then packedWriter AppendInt32WithoutTag AppendInt32 SizeInt32 res wireTestAllExtensions_RepeatedImportEnumExtension (RepeatedImportEnumExtension s) else Ret res,
     \<lambda>res. if RepeatedStringPieceExtension s \<noteq> [] then repeatedWriter AppendString res wireTestAllExtensions_RepeatedStringPieceExtension (RepeatedStringPieceExtension s) else Ret res,
     \<lambda>res. if RepeatedCordExtension s \<noteq> [] then repeatedWriter AppendString res wireTestAllExtensions_RepeatedCordExtension (RepeatedCordExtension s) else Ret res,
     \<lambda>res. if RepeatedLazyMessageExtension s \<noteq> [] then repeatedWriter (structWriter TestAllTypes_NestedMessage_XXX_PbContentSize TestAllTypes_NestedMessage_MarshalTo) res wireTestAllExtensions_RepeatedLazyMessageExtension (RepeatedLazyMessageExtension s) else Ret res,
     \<lambda>res. if DefaultInt32Extension s \<noteq> 41 then AppendInt32 res wireTestAllExtensions_DefaultInt32Extension (DefaultInt32Extension s) else Ret res,
     \<lambda>res. if DefaultInt64Extension s \<noteq> 42 then AppendInt64 res wireTestAllExtensions_DefaultInt64Extension (DefaultInt64Extension s) else Ret res,
     \<lambda>res. if DefaultUint32Extension s \<noteq> 43 then AppendUint32 res wireTestAllExtensions_DefaultUint32Extension (DefaultUint32Extension s) else Ret res,
     \<lambda>res. if DefaultUint64Extension s \<noteq> 44 then AppendUint64 res wireTestAllExtensions_DefaultUint64Extension (DefaultUint64Extension s) else Ret res,
     \<lambda>res. if DefaultSint32Extension s \<noteq> - 45 then AppendSInt32 res wireTestAllExtensions_DefaultSint32Extension (DefaultSint32Extension s) else Ret res,
     \<lambda>res. if DefaultSint64Extension s \<noteq> 46 then AppendSInt64 res wireTestAllExtensions_DefaultSint64Extension (DefaultSint64Extension s) else Ret res,
     \<lambda>res. if DefaultFixed32Extension s \<noteq> 47 then AppendFixed32 res wireTestAllExtensions_DefaultFixed32Extension (DefaultFixed32Extension s) else Ret res,
     \<lambda>res. if DefaultFixed64Extension s \<noteq> 48 then AppendFixed64 res wireTestAllExtensions_DefaultFixed64Extension (DefaultFixed64Extension s) else Ret res,
     \<lambda>res. if DefaultSfixed32Extension s \<noteq> 49 then AppendSFixed32 res wireTestAllExtensions_DefaultSfixed32Extension (DefaultSfixed32Extension s) else Ret res,
     \<lambda>res. if DefaultSfixed64Extension s \<noteq> - 50 then AppendSFixed64 res wireTestAllExtensions_DefaultSfixed64Extension (DefaultSfixed64Extension s) else Ret res,
     \<lambda>res. if \<not> float32_eq (DefaultFloatExtension s) (0x424E0000) then AppendFloat32 res wireTestAllExtensions_DefaultFloatExtension (DefaultFloatExtension s) else Ret res,
     \<lambda>res. if \<not> float64_eq (DefaultDoubleExtension s) (0x40E9640000000000) then AppendFloat64 res wireTestAllExtensions_DefaultDoubleExtension (DefaultDoubleExtension s) else Ret res]"

definition TestAllExtensions_appends4 :: "TestAllExtensions \<Rightarrow> (Writer \<Rightarrow> Writer go) list" where
  "TestAllExtensions_appends4 s = [
     \<lambda>res. if DefaultBoolExtension s \<noteq> True then AppendBool res wireTestAllExtensions_DefaultBoolExtension (DefaultBoolExtension s) else Ret res,
     \<lambda>res. if DefaultStringExtension s \<noteq> bytes_of ''hello'' then AppendString res wireTestAllExtensions_DefaultStringExtension (DefaultStringExtension s) else Ret res,
     \<lambda>res. if DefaultBytesExtension s \<noteq> bytes_of ''world'' then AppendBytes res wireTestAllExtensions_DefaultBytesExtension (DefaultBytesExtension s) else Ret res,
     \<lambda>res. if DefaultNestedEnumExtension s \<noteq> 0 then AppendInt32 res wireTestAllExtensions_DefaultNestedEnumExtension (DefaultNestedEnumExtension s) else Ret res,
     \<lambda>res. if DefaultForeignEnumExtension s \<noteq> 0 then AppendInt32 res wireTestAllExtensions_DefaultForeignEnumExtension (DefaultForeignEnumExtension s) else Ret res,
     \<lambda>res. if DefaultImportEnumExtension s \<noteq> 0 then AppendInt32 res wireTestAllExtensions_DefaultImportEnumExtension (DefaultImportEnumExtension s) else Ret res,
     \<lambda>res. if DefaultStringPieceExtension s \<noteq> bytes_of ''abc'' then AppendString res wireTestAllExtensions_DefaultStringPieceExtension (DefaultStringPieceExtension s) else Ret res,
     \<lambda>res. if DefaultCordExtension s \<noteq> bytes_of ''123'' then AppendString res wireTestAllExtensions_DefaultCordExtension (DefaultCordExtension s) else Ret res,
     \<lambda>res. if OneofUint32Extension s \<noteq> 0 then AppendUint32 res wireTestAllExtensions_OneofUint32Extension (OneofUint32Extension s) else Ret res,
     \<lambda>res. if OneofNestedMessageExtension s \<noteq> None then structWriter TestAllTypes_NestedMessage_XXX_PbContentSize TestAllTypes_NestedMessage_MarshalTo res wireTestAllExtensions_OneofNestedMessageExtension (OneofNestedMessageExtension s) else Ret res,
     \<lambda>res. if OneofStringExtension s \<noteq> [] then AppendString res wireTestAllExtensions_OneofStringExtension (OneofStringExtension s) else Ret res,
     \<lambda>res. if OneofBytesExtension s \<noteq> [] then AppendBytes res wireTestAllExtensions_OneofBytesExtension (OneofBytesExtension s) else Ret res]"

definition TestAllExtensions_MarshalTo :: "Writer \<Rightarrow> TestAllExtensions option \<Rightarrow> Writer go" where
  "TestAllExtensions_MarshalTo = marshalToWith (\<lambda>s. TestAllExtensions_appends1 s @ TestAllExtensions_appends2 s @ TestAllExtensions_appends3 s @ TestAllExtensions_appends4 s)"

definition TestAllExtensions_sizes1 :: "TestAllExtensions \<Rightarrow> int list" where
  "TestAllExtensions_sizes1 s = [
     if OptionalInt32Extension s \<noteq> 0 then sizeWithTag SizeInt32 wireTestAllExtensions_OptionalInt32Extension (OptionalInt32Extension s) else 0,
     if OptionalInt64Extension s \<noteq> 0 then sizeWithTag SizeInt64 wireTestAllExtensions_OptionalInt64Extension (OptionalInt64Extension s) else 0,
     if OptionalUint32Extension s \<noteq> 0 then sizeWithTag SizeUint32 wireTestAllExtensions_OptionalUint32Extension (OptionalUint32Extension s) else 0,
     if OptionalUint64Extension s \<noteq> 0 then sizeWithTag SizeUint64 wireTestAllExtensions_OptionalUint64Extension (OptionalUint64Extension s) else 0,
     if OptionalSint32Extension s \<noteq> 0 then sizeWithTag SizeSInt32 wireTestAllExtensions_OptionalSint32Extension (OptionalSint32Extension s) else 0,
     if OptionalSint64Extension s \<noteq> 0 then sizeWithTag SizeSInt64 wireTestAllExtensions_OptionalSint64Extension (OptionalSint64Extension s) else 0,
     if OptionalFixed32Extension s \<noteq> 0 then sizeWithTag SizeFixed32 wireTestAllExtensions_OptionalFixed32Extension (OptionalFixed32Extension s) else 0,
     if OptionalFixed64Extension s \<noteq> 0 then sizeWithTag SizeFixed64 wireTestAllExtensions_OptionalFixed64Extension (OptionalFixed64Extension s) else 0,
     if OptionalSfixed32Extension s \<noteq> 0 then sizeWithTag SizeSFixed32 wireTestAllExtensions_OptionalSfixed32Extension (OptionalSfixed32Extension s) else 0,
     if OptionalSfixed64Extension s \<noteq> 0 then sizeWithTag SizeSFixed64 wireTestAllExtensions_OptionalSfixed64Extension (OptionalSfixed64Extension s) else 0,
     if \<not> float32_is_zero (OptionalFloatExtension s) then sizeWithTag SizeFloat32 wireTestAllExtensions_OptionalFloatExtension (OptionalFloatExtension s) else 0,
     if \<not> float64_is_zero (OptionalDoubleExtension s) then sizeWithTag SizeFloat64 wireTestAllExtensions_OptionalDoubleExtension (OptionalDoubleExtension s) else 0,
     if OptionalBoolExtension s then sizeWithTag SizeBool wireTestAllExtensions_OptionalBoolExtension (OptionalBoolExtension s) else 0,
     if OptionalStringExtension s \<noteq> [] then sizeDelimitedWithTag SizeString wireTestAllExtensions_OptionalStringExtension (OptionalStringExtension s) else 0,
     if OptionalBytesExtension s \<noteq> [] then sizeDelimitedWithTag SizeBytes wireTestAllExtensions_OptionalBytesExtension (OptionalBytesExtension s) else 0,
     if OptionalNestedMessageExtension s \<noteq> None then sizeDelimitedWithTag TestAllTypes_NestedMessage_XXX_PbContentSize wireTestAllExtensions_OptionalNestedMessageExtension (OptionalNestedMessageExtension s) else 0,
     if OptionalForeignMessageExtension s \<noteq> None then sizeDelimitedWithTag ForeignMessage_XXX_PbContentSize wireTestAllExtensions_OptionalForeignMessageExtension (OptionalForeignMessageExtension s) else 0,
     if OptionalImportMessageExtension s \<noteq> None then sizeDelimitedWithTag ImportMessage_XXX_PbContentSize wireTestAllExtensions_OptionalImportMessageExtension (OptionalImportMessageExtension s) else 0,
     if OptionalNestedEnumExtension s \<noteq> 0 then sizeWithTag SizeInt32 wireTestAllExtensions_OptionalNestedEnumExtension (OptionalNestedEnumExtension s) else 0,
     if OptionalForeignEnumExtension s \<noteq> 0 then sizeWithTag SizeInt32 wireTestAllExtensions_OptionalForeignEnumExtension (OptionalForeignEnumExtension s) else 0,
     if OptionalImportEnumExtension s \<noteq> 0 then sizeWithTag SizeInt32 wireTestAllExtensions_OptionalImportEnumExtension (OptionalImportEnumExtension s) else 0,
     if OptionalStringPieceExtension s \<noteq> [] then sizeDelimitedWithTag SizeString wireTestAllExtensions_OptionalStringPieceExtension (OptionalStringPieceExtension s) else 0,
     if OptionalCordExtension s \<noteq> [] then sizeDelimitedWithTag SizeString wireTestAllExtensions_OptionalCordExtension (OptionalCordExtension s) else 0]"

definition TestAllExtensions_sizes2 :: "TestAllExtensions \<Rightarrow> int list" where
  "TestAllExtensions_sizes2 s = [
     if OptionalPublicImportMessageExtension s \<noteq> None then sizeDelimitedWithTag PublicImportMessage_XXX_PbContentSize wireTestAllExtensions_OptionalPublicImportMessageExtension (OptionalPublicImportMessageExtension s) else 0,
     if OptionalLazyMessageExtension s \<noteq> None then sizeDelimitedWithTag TestAllTypes_NestedMessage_XXX_PbContentSize wireTestAllExtensions_OptionalLazyMessageExtension (OptionalLazyMessageExtension s) else 0,
     if OptionalUnverifiedLazyMessageExtension s \<noteq> None then sizeDelimitedWithTag TestAllTypes_NestedMessage_XXX_PbContentSize wireTestAllExtensions_OptionalUnverifiedLazyMessageExtension (OptionalUnverifiedLazyMessageExtension s) else 0,
     if RepeatedInt32Extension s \<noteq> [] then packedSize SizeInt32 wireTestAllExtensions_RepeatedInt32Extension (RepeatedInt32Extension s) else 0,
     if RepeatedInt64Extension s \<noteq> [] then packedSize SizeInt64 wireTestAllExtensions_RepeatedInt64Extension (RepeatedInt64Extension s) else 0,
     if RepeatedUint32Extension s \<noteq> [] then packedSize SizeUint32 wireTestAllExtensions_RepeatedUint32Extension (RepeatedUint32Extension s) else 0,
     if RepeatedUint64Extension s \<noteq> [] then packedSize SizeUint64 wireTestAllExtensions_RepeatedUint64Extension (RepeatedUint64Extension s) else 0,
     if RepeatedSint32Extension s \<noteq> [] then packedSize SizeSInt32 wireTestAllExtensions_RepeatedSint32Extension (RepeatedSint32Extension s) else 0,
     if RepeatedSint64Extension s \<noteq> [] then packedSize SizeSInt64 wireTestAllExtensions_RepeatedSint64Extension (RepeatedSint64Extension s) else 0]"

definition TestAllExtensions_sizes3 :: "TestAllExtensions \<Rightarrow> int list" where
  "TestAllExtensions_sizes3 s = [
     if RepeatedFixed32Extension s \<noteq> [] then packedSize SizeFixed32 wireTestAllExtensions_RepeatedFixed32Extension (RepeatedFixed32Extension s) else 0,
     if RepeatedFixed64Extension s \<noteq> [] then packedSize SizeFixed64 wireTestAllExtensions_RepeatedFixed64Extension (RepeatedFixed64Extension s) else 0,
     if RepeatedSfixed32Extension s \<noteq> [] then packedSize SizeSFixed32 wireTestAllExtensions_RepeatedSfixed32Extension (RepeatedSfixed32Extension s) else 0,
     if RepeatedSfixed64Extension s \<noteq> [] then packedSize SizeSFixed64 wireTestAllExtensions_RepeatedSfixed64Extension (RepeatedSfixed64Extension s) else 0,
     if RepeatedFloatExtension s \<noteq> [] then packedSize SizeFloat32 wireTestAllExtensions_RepeatedFloatExtension (RepeatedFloatExtension s) else 0,
     if RepeatedDoubleExtension s \<noteq> [] then packedSize SizeFloat64 wireTestAllExtensions_RepeatedDoubleExtension (RepeatedDoubleExtension s) else 0,
     if RepeatedBoolExtension s \<noteq> [] then packedSize SizeBool wireTestAllExtensions_RepeatedBoolExtension (RepeatedBoolExtension s) else 0,
     if RepeatedStringExtension s \<noteq> [] then repeatedSize (sizeDelimitedWithTag SizeString wireTestAllExtensions_RepeatedStringExtension) (RepeatedStringExtension s) else 0]"

definition TestAllExtensions_sizes4 :: "TestAllExtensions \<Rightarrow> int list" where
  "TestAllExtensions_sizes4 s = [
     if RepeatedBytesExtension s \<noteq> [] then repeatedSize (sizeDelimitedWithTag SizeBytes wireTestAllExtensions_RepeatedBytesExtension) (RepeatedBytesExtension s) else 0,
     if RepeatedNestedMessageExtension s \<noteq> [] then repeatedSize (sizeDelimitedWithTag TestAllTypes_NestedMessage_XXX_PbContentSize wireTestAllExtensions_RepeatedNestedMessageExtension) (RepeatedNestedMessageExtension s) else 0,
     if RepeatedForeignMessageExtension s \<noteq> [] then repeatedSize (sizeDelimitedWithTag ForeignMessage_XXX_PbContentSize wireTestAllExtensions_RepeatedForeignMessageExtension) (RepeatedForeignMessageExtension s) else 0,
     if RepeatedImportMessageExtension s \<noteq> [] then repeatedSize (sizeDelimitedWithTag ImportMessage_XXX_PbContentSize wireTestAllExtensions_RepeatedImportMessageExtension) (RepeatedImportMessageExtension s) else 0,
     if RepeatedNestedEnumExtension s \<noteq> [] then packedSize SizeInt32 wireTestAllExtensions_RepeatedNestedEnumExtension (RepeatedNestedEnumExtension s) else 0,
     if RepeatedForeignEnumExtension s \<noteq> [] then packedSize SizeInt32 wireTestAllExtensions_RepeatedForeignEnumExtension (RepeatedForeignEnumExtension s) else 0,
     if RepeatedImportEnumExtension s \<noteq> [] then packedSize SizeInt32 wireTestAllExtensions_RepeatedImportEnumExtension (RepeatedImportEnumExtension s) else 0,
     if RepeatedStringPieceExtension s \<noteq> [] then repeatedSize (sizeDelimitedWithTag SizeString wireTestAllExtensions_RepeatedStringPieceExtension) (RepeatedStringPieceExtension s) else 0,
     if RepeatedCordExtension s \<noteq> [] then repeatedSize (sizeDelimitedWithTag SizeString wireTestAllExtensions_RepeatedCordExtension) (RepeatedCordExtension s) else 0,
     if RepeatedLazyMessageExtension s \<noteq> [] then repeatedSize (sizeDelimitedWithTag TestAllTypes_NestedMessage_XXX_PbContentSize wireTestAllExtensions_RepeatedLazyMessageExtension) (RepeatedLazyMessageExtension s) else 0]"

definition TestAllExtensions_sizes5 :: "TestAllExtensions \<Rightarrow> int list" where
  "TestAllExtensions_sizes5 s = [
     if DefaultInt32Extension s \<noteq> 41 then sizeWithTag SizeInt32 wireTestAllExtensions_DefaultInt32Extension (DefaultInt32Extension s) else 0,
     if DefaultInt64Extension s \<noteq> 42 then sizeWithTag SizeInt64 wireTestAllExtensions_DefaultInt64Extension (DefaultInt64Extension s) else 0,
     if DefaultUint32Extension s \<noteq> 43 then sizeWithTag SizeUint32 wireTestAllExtensions_DefaultUint32Extension (DefaultUint32Extension s) else 0,
     if DefaultUint64Extension s \<noteq> 44 then sizeWithTag SizeUint64 wireTestAllExtensions_DefaultUint64Extension (DefaultUint64Extension s) else 0,
     if DefaultSint32Extension s \<noteq> - 45 then sizeWithTag SizeSInt32 wireTestAllExtensions_DefaultSint32Extension (DefaultSint32Extension s) else 0,
     if DefaultSint64Extension s \<noteq> 46 then sizeWithTag SizeSInt64 wireTestAllExtensions_DefaultSint64Extension (DefaultSint64Extension s) else 0,
     if DefaultFixed32Extension s \<noteq> 47 then sizeWithTag SizeFixed32 wireTestAllExtensions_DefaultFixed32Extension (DefaultFixed32Extension s) else 0,
     if DefaultFixed64Extension s \<noteq> 48 then sizeWithTag SizeFixed64 wireTestAllExtensions_DefaultFixed64Extension (DefaultFixed64Extension s) else 0,
     if DefaultSfixed32Extension s \<noteq> 49 then sizeWithTag SizeSFixed32 wireTestAllExtensions_DefaultSfixed32Extension (DefaultSfixed32Extension s) else 0,
     if DefaultSfixed64Extension s \<noteq> - 50 then sizeWithTag SizeSFixed64 wireTestAllExtensions_DefaultSfixed64Extension (DefaultSfixed64Extension s) else 0,
     if \<not> float32_eq (DefaultFloatExtension s) (0x424E0000) then sizeWithTag SizeFloat32 wireTestAllExtensions_DefaultFloatExtension (DefaultFloatExtension s) else 0,
     if \<not> float64_eq (DefaultDoubleExtension s) (0x40E9640000000000) then sizeWithTag SizeFloat64 wireTestAllExtensions_DefaultDoubleExtension (DefaultDoubleExtension s) else 0,
     if DefaultBoolExtension s \<noteq> True then sizeWithTag SizeBool wireTestAllExtensions_DefaultBoolExtension (DefaultBoolExtension s) else 0,
     if DefaultStringExtension s \<noteq> bytes_of ''hello'' then sizeDelimitedWithTag SizeString wireTestAllExtensions_DefaultStringExtension (DefaultStringExtension s) else 0,
     if DefaultBytesExtension s \<noteq> bytes_of ''world'' then sizeDelimitedWithTag SizeBytes wireTestAllExtensions_DefaultBytesExtension (DefaultBytesExtension s) else 0,
     if DefaultNestedEnumExtension s \<noteq> 0 then sizeWithTag SizeInt32 wireTestAllExtensions_DefaultNestedEnumExtension (DefaultNestedEnumExtension s) else 0,
     if DefaultForeignEnumExtension s \<noteq> 0 then sizeWithTag SizeInt32 wireTestAllExtensions_DefaultForeignEnumExtension (DefaultForeignEnumExtension s) else 0,
     if DefaultImportEnumExtension s \<noteq> 0 then sizeWithTag SizeInt32 wireTestAllExtensions_DefaultImportEnumExtension (DefaultImportEnumExtension s) else 0,
     if DefaultStringPieceExtension s \<noteq> bytes_of ''abc'' then sizeDelimitedWithTag SizeString wireTestAllExtensions_DefaultStringPieceExtension (DefaultStringPieceExtension s) else 0,
     if DefaultCordExtension s \<noteq> bytes_of ''123'' then sizeDelimitedWithTag SizeString wireTestAllExtensions_DefaultCordExtension (DefaultCordExtension s) else 0,
     if OneofUint32Extension s \<noteq> 0 then sizeWithTag SizeUint32 wireTestAllExtensions_OneofUint32Extension (OneofUint32Extension s) else 0,
     if OneofNestedMessageExtension s \<noteq> None then sizeDelimitedWithTag TestAllTypes_NestedMessage_XXX_PbContentSize wireTestAllExtensions_OneofNestedMessageExtension (OneofNestedMessageExtension s) else 0,
     if OneofStringExtension s \<noteq> [] then sizeDelimitedWithTag SizeString wireTestAllExtensions_OneofStringExtension (OneofStringExtension s) else 0]"

definition TestAllExtensions_sizes6 :: "TestAllExtensions \<Rightarrow> int list" where
  "TestAllExtensions_sizes6 s = [
     if OneofBytesExtension s \<noteq> [] then sizeDelimitedWithTag SizeBytes wireTestAllExtensions_OneofBytesExtension (OneofBytesExtension s) else 0]"

definition TestAllExtensions_XXX_PbContentSize :: "TestAllExtensions option \<Rightarrow> int" where
  "TestAllExtensions_XXX_PbContentSize = contentSizeWith (\<lambda>s. TestAllExtensions_sizes1 s @ TestAllExtensions_sizes2 s @ TestAllExtensions_sizes3 s @ TestAllExtensions_sizes4 s @ TestAllExtensions_sizes5 s @ TestAllExtensions_sizes6 s)"

definition TestAllExtensions_Marshal :: "TestAllExtensions option \<Rightarrow> byte list go" where
  "TestAllExtensions_Marshal = marshalWith TestAllExtensions_XXX_PbContentSize TestAllExtensions_MarshalTo"

definition TestAllExtensions_Copy :: "TestAllExtensions option \<Rightarrow> TestAllExtensions option" where
  "TestAllExtensions_Copy s =
     (case s of None \<Rightarrow> None | Some s \<Rightarrow> Some \<lparr>
        OptionalInt32Extension = OptionalInt32Extension s,
        OptionalInt64Extension = OptionalInt64Extension s,
        OptionalUint32Extension = OptionalUint32Extension s,
        OptionalUint64Extension = OptionalUint64Extension s,
        OptionalSint32Extension = OptionalSint32Extension s,
        OptionalSint64Extension = OptionalSint64Extension s,
        OptionalFixed32Extension = OptionalFixed32Extension s,
        OptionalFixed64Extension = OptionalFixed64Extension s,
        OptionalSfixed32Extension = OptionalSfixed32Extension s,
        OptionalSfixed64Extension = OptionalSfixed64Extension s,
        OptionalFloatExtension = OptionalFloatExtension s,
        OptionalDoubleExtension = OptionalDoubleExtension s,
        OptionalBoolExtension = OptionalBoolExtension s,
        OptionalStringExtension = OptionalStringExtension s,
        OptionalBytesExtension = OptionalBytesExtension s,
        OptionalNestedMessageExtension = (case OptionalNestedMessageExtension s of None \<Rightarrow> None | Some x \<Rightarrow> TestAllTypes_NestedMessage_Copy (Some x)),
        OptionalForeignMessageExtension = (case OptionalForeignMessageExtension s of None \<Rightarrow> None | Some x \<Rightarrow> ForeignMessage_Copy (Some x)),
        OptionalImportMessageExtension = (case OptionalImportMessageExtension s of None \<Rightarrow> None | Some x \<Rightarrow> ImportMessage_Copy (Some x)),
        OptionalNestedEnumExtension = OptionalNestedEnumExtension s,
        OptionalForeignEnumExtension = OptionalForeignEnumExtension s,
        OptionalImportEnumExtension = OptionalImportEnumExtension s,
        OptionalStringPieceExtension = OptionalStringPieceExtension s,
        OptionalCordExtension = OptionalCordExtension s,
        OptionalPublicImportMessageExtension = (case OptionalPublicImportMessageExtension s of None \<Rightarrow> None | Some x \<Rightarrow> PublicImportMessage_Copy (Some x)),
        OptionalLazyMessageExtension = (case OptionalLazyMessageExtension s of None \<Rightarrow> None | Some x \<Rightarrow> TestAllTypes_NestedMessage_Copy (Some x)),
        OptionalUnverifiedLazyMessageExtension = (case OptionalUnverifiedLazyMessageExtension s of None \<Rightarrow> None | Some x \<Rightarrow> TestAllTypes_NestedMessage_Copy (Some x)),
        RepeatedInt32Extension = RepeatedInt32Extension s,
        RepeatedInt64Extension = RepeatedInt64Extension s,
        RepeatedUint32Extension = RepeatedUint32Extension s,
        RepeatedUint64Extension = RepeatedUint64Extension s,
        RepeatedSint32Extension = RepeatedSint32Extension s,
        RepeatedSint64Extension = RepeatedSint64Extension s,
        RepeatedFixed32Extension = RepeatedFixed32Extension s,
        RepeatedFixed64Extension = RepeatedFixed64Extension s,
        RepeatedSfixed32Extension = RepeatedSfixed32Extension s,
        RepeatedSfixed64Extension = RepeatedSfixed64Extension s,
        RepeatedFloatExtension = RepeatedFloatExtension s,
        RepeatedDoubleExtension = RepeatedDoubleExtension s,
        RepeatedBoolExtension = RepeatedBoolExtension s,
        RepeatedStringExtension = RepeatedStringExtension s,
        RepeatedBytesExtension = RepeatedBytesExtension s,
        RepeatedNestedMessageExtension = map (\<lambda>e. case e of None \<Rightarrow> None | Some x \<Rightarrow> TestAllTypes_NestedMessage_Copy (Some x)) (RepeatedNestedMessageExtension s),
        RepeatedForeignMessageExtension = map (\<lambda>e. case e of None \<Rightarrow> None | Some x \<Rightarrow> ForeignMessage_Copy (Some x)) (RepeatedForeignMessageExtension s),
        RepeatedImportMessageExtension = map (\<lambda>e. case e of None \<Rightarrow> None | Some x \<Rightarrow> ImportMessage_Copy (Some x)) (RepeatedImportMessageExtension s),
        RepeatedNestedEnumExtension = RepeatedNestedEnumExtension s,
        RepeatedForeignEnumExtension = RepeatedForeignEnumExtension s,
        RepeatedImportEnumExtension = RepeatedImportEnumExtension s,
        RepeatedStringPieceExtension = RepeatedStringPieceExtension s,
        RepeatedCordExtension = RepeatedCordExtension s,
        RepeatedLazyMessageExtension = map (\<lambda>e. case e of None \<Rightarrow> None | Some x \<Rightarrow> TestAllTypes_NestedMessage_Copy (Some x)) (RepeatedLazyMessageExtension s),
        DefaultInt32Extension = DefaultInt32Extension s,
        DefaultInt64Extension = DefaultInt64Extension s,
        DefaultUint32Extension = DefaultUint32Extension s,
        DefaultUint64Extension = DefaultUint64Extension s,
        DefaultSint32Extension = DefaultSint32Extension s,
        DefaultSint64Extension = DefaultSint64Extension s,
        DefaultFixed32Extension = DefaultFixed32Extension s,
        DefaultFixed64Extension = DefaultFixed64Extension s,
        DefaultSfixed32Extension = DefaultSfixed32Extension s,
        DefaultSfixed64Extension = DefaultSfixed64Extension s,
        DefaultFloatExtension = DefaultFloatExtension s,
        DefaultDoubleExtension = DefaultDoubleExtension s,
        DefaultBoolExtension = DefaultBoolExtension s,
        DefaultStringExtension = DefaultStringExtension s,
        DefaultBytesExtension = DefaultBytesExtension s,
        DefaultNestedEnumExtension = DefaultNestedEnumExtension s,
        DefaultForeignEnumExtension = DefaultForeignEnumExtension s,
        DefaultImportEnumExtension = DefaultImportEnumExtension s,
        DefaultStringPieceExtension = DefaultStringPieceExtension s,
        DefaultCordExtension = DefaultCordExtension s,
        OneofUint32Extension = OneofUint32Extension s,
        OneofNestedMessageExtension = (case OneofNestedMessageExtension s of None \<Rightarrow> None | Some x \<Rightarrow> TestAllTypes_NestedMessage_Copy (Some x)),
        OneofStringExtension = OneofStringExtension s,
        OneofBytesExtension = OneofBytesExtension s\<rparr>)"

section \<open>TestAllExtensions: the round trip\<close>

definition TestAllExtensions_tags :: "ProtoWireNumber list" where
  "TestAllExtensions_tags = [
     wireTestAllExtensions_OptionalInt32Extension, wireTestAllExtensions_OptionalInt64Extension,
     wireTestAllExtensions_OptionalUint32Extension,
     wireTestAllExtensions_OptionalUint64Extension,
     wireTestAllExtensions_OptionalSint32Extension,
     wireTestAllExtensions_OptionalSint64Extension,
     wireTestAllExtensions_OptionalFixed32Extension,
     wireTestAllExtensions_OptionalFixed64Extension,
     wireTestAllExtensions_OptionalSfixed32Extension,
     wireTestAllExtensions_OptionalSfixed64Extension,
     wireTestAllExtensions_OptionalFloatExtension,
     wireTestAllExtensions_OptionalDoubleExtension, wireTestAllExtensions_OptionalBoolExtension,
     wireTestAllExtensions_OptionalStringExtension,
     wireTestAllExtensions_OptionalBytesExtension,
     wireTestAllExtensions_OptionalNestedMessageExtension,
     wireTestAllExtensions_OptionalForeignMessageExtension,
     wireTestAllExtensions_OptionalImportMessageExtension,
     wireTestAllExtensions_OptionalNestedEnumExtension,
     wireTestAllExtensions_OptionalForeignEnumExtension,
     wireTestAllExtensions_OptionalImportEnumExtension,
     wireTestAllExtensions_OptionalStringPieceExtension,
     wireTestAllExtensions_OptionalCordExtension,
     wireTestAllExtensions_OptionalPublicImportMessageExtension,
     wireTestAllExtensions_OptionalLazyMessageExtension,
     wireTestAllExtensions_OptionalUnverifiedLazyMessageExtension,
     wireTestAllExtensions_RepeatedInt32Extension, wireTestAllExtensions_RepeatedInt64Extension,
     wireTestAllExtensions_RepeatedUint32Extension,
     wireTestAllExtensions_RepeatedUint64Extension,
     wireTestAllExtensions_RepeatedSint32Extension,
     wireTestAllExtensions_RepeatedSint64Extension,
     wireTestAllExtensions_RepeatedFixed32Extension,
     wireTestAllExtensions_RepeatedFixed64Extension,
     wireTestAllExtensions_RepeatedSfixed32Extension,
     wireTestAllExtensions_RepeatedSfixed64Extension,
     wireTestAllExtensions_RepeatedFloatExtension,
     wireTestAllExtensions_RepeatedDoubleExtension, wireTestAllExtensions_RepeatedBoolExtension,
     wireTestAllExtensions_RepeatedStringExtension,
     wireTestAllExtensions_RepeatedBytesExtension,
     wireTestAllExtensions_RepeatedNestedMessageExtension,
     wireTestAllExtensions_RepeatedForeignMessageExtension,
     wireTestAllExtensions_RepeatedImportMessageExtension,
     wireTestAllExtensions_RepeatedNestedEnumExtension,
     wireTestAllExtensions_RepeatedForeignEnumExtension,
     wireTestAllExtensions_RepeatedImportEnumExtension,
     wireTestAllExtensions_RepeatedStringPieceExtension,
     wireTestAllExtensions_RepeatedCordExtension,
     wireTestAllExtensions_RepeatedLazyMessageExtension,
     wireTestAllExtensions_DefaultInt32Extension, wireTestAllExtensions_DefaultInt64Extension,
     wireTestAllExtensions_DefaultUint32Extension, wireTestAllExtensions_DefaultUint64Extension,
     wireTestAllExtensions_DefaultSint32Extension, wireTestAllExtensions_DefaultSint64Extension,
     wireTestAllExtensions_DefaultFixed32Extension,
     wireTestAllExtensions_DefaultFixed64Extension,
     wireTestAllExtensions_DefaultSfixed32Extension,
     wireTestAllExtensions_DefaultSfixed64Extension,
     wireTestAllExtensions_DefaultFloatExtension, wireTestAllExtensions_DefaultDoubleExtension,
     wireTestAllExtensions_DefaultBoolExtension, wireTestAllExtensions_DefaultStringExtension,
     wireTestAllExtensions_DefaultBytesExtension,
     wireTestAllExtensions_DefaultNestedEnumExtension,
     wireTestAllExtensions_DefaultForeignEnumExtension,
     wireTestAllExtensions_DefaultImportEnumExtension,
     wireTestAllExtensions_DefaultStringPieceExtension,
     wireTestAllExtensions_DefaultCordExtension, wireTestAllExtensions_OneofUint32Extension,
     wireTestAllExtensions_OneofNestedMessageExtension,
     wireTestAllExtensions_OneofStringExtension, wireTestAllExtensions_OneofBytesExtension]"

definition TestAllExtensions_groups :: "TestAllExtensions \<Rightarrow> wfield list list" where
  "TestAllExtensions_groups s = [
     opt_field (OptionalInt32Extension s \<noteq> 0) (wireTestAllExtensions_OptionalInt32Extension, int32_val (OptionalInt32Extension s)),
     opt_field (OptionalInt64Extension s \<noteq> 0) (wireTestAllExtensions_OptionalInt64Extension, int64_val (OptionalInt64Extension s)),
     opt_field (OptionalUint32Extension s \<noteq> 0) (wireTestAllExtensions_OptionalUint32Extension, uint32_val (OptionalUint32Extension s)),
     opt_field (OptionalUint64Extension s \<noteq> 0) (wireTestAllExtensions_OptionalUint64Extension, uint64_val (OptionalUint64Extension s)),
     opt_field (OptionalSint32Extension s \<noteq> 0) (wireTestAllExtensions_OptionalSint32Extension, sint32_val (OptionalSint32Extension s)),
     opt_field (OptionalSint64Extension s \<noteq> 0) (wireTestAllExtensions_OptionalSint64Extension, sint64_val (OptionalSint64Extension s)),
     opt_field (OptionalFixed32Extension s \<noteq> 0) (wireTestAllExtensions_OptionalFixed32Extension, WFixed32 (OptionalFixed32Extension s)),
     opt_field (OptionalFixed64Extension s \<noteq> 0) (wireTestAllExtensions_OptionalFixed64Extension, WFixed64 (OptionalFixed64Extension s)),
     opt_field (OptionalSfixed32Extension s \<noteq> 0) (wireTestAllExtensions_OptionalSfixed32Extension, WFixed32 (OptionalSfixed32Extension s)),
     opt_field (OptionalSfixed64Extension s \<noteq> 0) (wireTestAllExtensions_OptionalSfixed64Extension, WFixed64 (OptionalSfixed64Extension s)),
     opt_field (\<not> float32_is_zero (OptionalFloatExtension s)) (wireTestAllExtensions_OptionalFloatExtension, WFixed32 (OptionalFloatExtension s)),
     opt_field (\<not> float64_is_zero (OptionalDoubleExtension s)) (wireTestAllExtensions_OptionalDoubleExtension, WFixed64 (OptionalDoubleExtension s)),
     opt_field (OptionalBoolExtension s) (wireTestAllExtensions_OptionalBoolExtension, bool_val (OptionalBoolExtension s)),
     opt_field (OptionalStringExtension s \<noteq> []) (wireTestAllExtensions_OptionalStringExtension, WBytes (OptionalStringExtension s)),
     opt_field (OptionalBytesExtension s \<noteq> []) (wireTestAllExtensions_OptionalBytesExtension, WBytes (OptionalBytesExtension s)),
     opt_field (OptionalNestedMessageExtension s \<noteq> None) (wireTestAllExtensions_OptionalNestedMessageExtension, WBytes (ptr_bytes TestAllTypes_NestedMessage_content (OptionalNestedMessageExtension s))),
     opt_field (OptionalForeignMessageExtension s \<noteq> None) (wireTestAllExtensions_OptionalForeignMessageExtension, WBytes (ptr_bytes ForeignMessage_content (OptionalForeignMessageExtension s))),
     opt_field (OptionalImportMessageExtension s \<noteq> None) (wireTestAllExtensions_OptionalImportMessageExtension, WBytes (ptr_bytes ImportMessage_content (OptionalImportMessageExtension s))),
     opt_field (OptionalNestedEnumExtension s \<noteq> 0) (wireTestAllExtensions_OptionalNestedEnumExtension, int32_val (OptionalNestedEnumExtension s)),
     opt_field (OptionalForeignEnumExtension s \<noteq> 0) (wireTestAllExtensions_OptionalForeignEnumExtension, int32_val (OptionalForeignEnumExtension s)),
     opt_field (OptionalImportEnumExtension s \<noteq> 0) (wireTestAllExtensions_OptionalImportEnumExtension, int32_val (OptionalImportEnumExtension s)),
     opt_field (OptionalStringPieceExtension s \<noteq> []) (wireTestAllExtensions_OptionalStringPieceExtension, WBytes (OptionalStringPieceExtension s)),
     opt_field (OptionalCordExtension s \<noteq> []) (wireTestAllExtensions_OptionalCordExtension, WBytes (OptionalCordExtension s)),
     opt_field (OptionalPublicImportMessageExtension s \<noteq> None) (wireTestAllExtensions_OptionalPublicImportMessageExtension, WBytes (ptr_bytes PublicImportMessage_content (OptionalPublicImportMessageExtension s))),
     opt_field (OptionalLazyMessageExtension s \<noteq> None) (wireTestAllExtensions_OptionalLazyMessageExtension, WBytes (ptr_bytes TestAllTypes_NestedMessage_content (OptionalLazyMessageExtension s))),
     opt_field (OptionalUnverifiedLazyMessageExtension s \<noteq> None) (wireTestAllExtensions_OptionalUnverifiedLazyMessageExtension, WBytes (ptr_bytes TestAllTypes_NestedMessage_content (OptionalUnverifiedLazyMessageExtension s))),
     packed_fields int32_val wireTestAllExtensions_RepeatedInt32Extension (RepeatedInt32Extension s),
     packed_fields int64_val wireTestAllExtensions_RepeatedInt64Extension (RepeatedInt64Extension s),
     packed_fields uint32_val wireTestAllExtensions_RepeatedUint32Extension (RepeatedUint32Extension s),
     packed_fields uint64_val wireTestAllExtensions_RepeatedUint64Extension (RepeatedUint64Extension s),
     packed_fields sint32_val wireTestAllExtensions_RepeatedSint32Extension (RepeatedSint32Extension s),
     packed_fields sint64_val wireTestAllExtensions_RepeatedSint64Extension (RepeatedSint64Extension s),
     packed_fields WFixed32 wireTestAllExtensions_RepeatedFixed32Extension (RepeatedFixed32Extension s),
     packed_fields WFixed64 wireTestAllExtensions_RepeatedFixed64Extension (RepeatedFixed64Extension s),
     packed_fields WFixed32 wireTestAllExtensions_RepeatedSfixed32Extension (RepeatedSfixed32Extension s),
     packed_fields WFixed64 wireTestAllExtensions_RepeatedSfixed64Extension (RepeatedSfixed64Extension s),
     packed_fields WFixed32 wireTestAllExtensions_RepeatedFloatExtension (RepeatedFloatExtension s),
     packed_fields WFixed64 wireTestAllExtensions_RepeatedDoubleExtension (RepeatedDoubleExtension s),
     packed_fields bool_val wireTestAllExtensions_RepeatedBoolExtension (RepeatedBoolExtension s),
     bytes_fields wireTestAllExtensions_RepeatedStringExtension (RepeatedStringExtension s),
     bytes_fields wireTestAllExtensions_RepeatedBytesExtension (RepeatedBytesExtension s),
     bytes_fields wireTestAllExtensions_RepeatedNestedMessageExtension (map (ptr_bytes TestAllTypes_NestedMessage_content) (RepeatedNestedMessageExtension s)),
     bytes_fields wireTestAllExtensions_RepeatedForeignMessageExtension (map (ptr_bytes ForeignMessage_content) (RepeatedForeignMessageExtension s)),
     bytes_fields wireTestAllExtensions_RepeatedImportMessageExtension (map (ptr_bytes ImportMessage_content) (RepeatedImportMessageExtension s)),
     packed_fields int32_val wireTestAllExtensions_RepeatedNestedEnumExtension (RepeatedNestedEnumExtension s),
     packed_fields int32_val wireTestAllExtensions_RepeatedForeignEnumExtension (RepeatedForeignEnumExtension s),
     packed_fields int32_val wireTestAllExtensions_RepeatedImportEnumExtension (RepeatedImportEnumExtension s),
     bytes_fields wireTestAllExtensions_RepeatedStringPieceExtension (RepeatedStringPieceExtension s),
     bytes_fields wireTestAllExtensions_RepeatedCordExtension (RepeatedCordExtension s),
     bytes_fields wireTestAllExtensions_RepeatedLazyMessageExtension (map (ptr_bytes TestAllTypes_NestedMessage_content) (RepeatedLazyMessageExtension s)),
     opt_field (DefaultInt32Extension s \<noteq> 41) (wireTestAllExtensions_DefaultInt32Extension, int32_val (DefaultInt32Extension s)),
     opt_field (DefaultInt64Extension s \<noteq> 42) (wireTestAllExtensions_DefaultInt64Extension, int64_val (DefaultInt64Extension s)),
     opt_field (DefaultUint32Extension s \<noteq> 43) (wireTestAllExtensions_DefaultUint32Extension, uint32_val (DefaultUint32Extension s)),
     opt_field (DefaultUint64Extension s \<noteq> 44) (wireTestAllExtensions_DefaultUint64Extension, uint64_val (DefaultUint64Extension s)),
     opt_field (DefaultSint32Extension s \<noteq> - 45) (wireTestAllExtensions_DefaultSint32Extension, sint32_val (DefaultSint32Extension s)),
     opt_field (DefaultSint64Extension s \<noteq> 46) (wireTestAllExtensions_DefaultSint64Extension, sint64_val (DefaultSint64Extension s)),
     opt_field (DefaultFixed32Extension s \<noteq> 47) (wireTestAllExtensions_DefaultFixed32Extension, WFixed32 (DefaultFixed32Extension s)),
     opt_field (DefaultFixed64Extension s \<noteq> 48) (wireTestAllExtensions_DefaultFixed64Extension, WFixed64 (DefaultFixed64Extension s)),
     opt_field (DefaultSfixed32Extension s \<noteq> 49) (wireTestAllExtensions_DefaultSfixed32Extension, WFixed32 (DefaultSfixed32Extension s)),
     opt_field (DefaultSfixed64Extension s \<noteq> - 50) (wireTestAllExtensions_DefaultSfixed64Extension, WFixed64 (DefaultSfixed64Extension s)),
     opt_field (\<not> float32_eq (DefaultFloatExtension s) (0x424E0000)) (wireTestAllExtensions_DefaultFloatExtension, WFixed32 (DefaultFloatExtension s)),
     opt_field (\<not> float64_eq (DefaultDoubleExtension s) (0x40E9640000000000)) (wireTestAllExtensions_DefaultDoubleExtension, WFixed64 (DefaultDoubleExtension s)),
     opt_field (DefaultBoolExtension s \<noteq> True) (wireTestAllExtensions_DefaultBoolExtension, bool_val (DefaultBoolExtension s)),
     opt_field (DefaultStringExtension s \<noteq> bytes_of ''hello'') (wireTestAllExtensions_DefaultStringExtension, WBytes (DefaultStringExtension s)),
     opt_field (DefaultBytesExtension s \<noteq> bytes_of ''world'') (wireTestAllExtensions_DefaultBytesExtension, WBytes (DefaultBytesExtension s)),
     opt_field (DefaultNestedEnumExtension s \<noteq> 0) (wireTestAllExtensions_DefaultNestedEnumExtension, int32_val (DefaultNestedEnumExtension s)),
     opt_field (DefaultForeignEnumExtension s \<noteq> 0) (wireTestAllExtensions_DefaultForeignEnumExtension, int32_val (DefaultForeignEnumExtension s)),
     opt_field (DefaultImportEnumExtension s \<noteq> 0) (wireTestAllExtensions_DefaultImportEnumExtension, int32_val (DefaultImportEnumExtension s)),
     opt_field (DefaultStringPieceExtension s \<noteq> bytes_of ''abc'') (wireTestAllExtensions_DefaultStringPieceExtension, WBytes (DefaultStringPieceExtension s)),
     opt_field (DefaultCordExtension s \<noteq> bytes_of ''123'') (wireTestAllExtensions_DefaultCordExtension, WBytes (DefaultCordExtension s)),
     opt_field (OneofUint32Extension s \<noteq> 0) (wireTestAllExtensions_OneofUint32Extension, uint32_val (OneofUint32Extension s)),
     opt_field (OneofNestedMessageExtension s \<noteq> None) (wireTestAllExtensions_OneofNestedMessageExtension, WBytes (ptr_bytes TestAllTypes_NestedMessage_content (OneofNestedMessageExtension s))),
     opt_field (OneofStringExtension s \<noteq> []) (wireTestAllExtensions_OneofStringExtension, WBytes (OneofStringExtension s)),
     opt_field (OneofBytesExtension s \<noteq> []) (wireTestAllExtensions_OneofBytesExtension, WBytes (OneofBytesExtension s))]"

definition TestAllExtensions_content :: "TestAllExtensions \<Rightarrow> wfield list" where
  "TestAllExtensions_content s = concat (TestAllExtensions_groups s)"

text \<open>What a round trip keeps.\<close>

definition TestAllExtensions_norm :: "TestAllExtensions \<Rightarrow> TestAllExtensions" where
  "TestAllExtensions_norm s = s\<lparr>
     OptionalFloatExtension := if \<not> float32_is_zero (OptionalFloatExtension s) then OptionalFloatExtension s else 0x0,
     OptionalDoubleExtension := if \<not> float64_is_zero (OptionalDoubleExtension s) then OptionalDoubleExtension s else 0x0,
     OptionalNestedMessageExtension := norm_ptr TestAllTypes_NestedMessage_content TestAllTypes_NestedMessage_norm (OptionalNestedMessageExtension s),
     OptionalForeignMessageExtension := norm_ptr ForeignMessage_content ForeignMessage_norm (OptionalForeignMessageExtension s),
     OptionalImportMessageExtension := norm_ptr ImportMessage_content ImportMessage_norm (OptionalImportMessageExtension s),
     OptionalPublicImportMessageExtension := norm_ptr PublicImportMessage_content PublicImportMessage_norm (OptionalPublicImportMessageExtension s),
     OptionalLazyMessageExtension := norm_ptr TestAllTypes_NestedMessage_content TestAllTypes_NestedMessage_norm (OptionalLazyMessageExtension s),
     OptionalUnverifiedLazyMessageExtension := norm_ptr TestAllTypes_NestedMessage_content TestAllTypes_NestedMessage_norm (OptionalUnverifiedLazyMessageExtension s),
     RepeatedNestedMessageExtension := map (norm_ptr TestAllTypes_NestedMessage_content TestAllTypes_NestedMessage_norm) (RepeatedNestedMessageExtension s),
     RepeatedForeignMessageExtension := map (norm_ptr ForeignMessage_content ForeignMessage_norm) (RepeatedForeignMessageExtension s),
     RepeatedImportMessageExtension := map (norm_ptr ImportMessage_content ImportMessage_norm) (RepeatedImportMessageExtension s),
     RepeatedLazyMessageExtension := map (norm_ptr TestAllTypes_NestedMessage_content TestAllTypes_NestedMessage_norm) (RepeatedLazyMessageExtension s),
     OneofNestedMessageExtension := norm_ptr TestAllTypes_NestedMessage_content TestAllTypes_NestedMessage_norm (OneofNestedMessageExtension s)\<rparr>"

definition TestAllExtensions_ready :: "Reader \<Rightarrow> TestAllExtensions \<Rightarrow> (TestAllExtensionsReader \<Rightarrow> bool) list" where
  "TestAllExtensions_ready p s = [
     \<lambda>m. cell_reads (readOne ReadInt32 0) plain p (if OptionalInt32Extension s \<noteq> 0 then OptionalInt32Extension s else 0) (cellOptionalInt32Extension m),
     \<lambda>m. cell_reads (readOne ReadInt64 0) plain p (if OptionalInt64Extension s \<noteq> 0 then OptionalInt64Extension s else 0) (cellOptionalInt64Extension m),
     \<lambda>m. cell_reads (readOne ReadUint32 0) plain p (if OptionalUint32Extension s \<noteq> 0 then OptionalUint32Extension s else 0) (cellOptionalUint32Extension m),
     \<lambda>m. cell_reads (readOne ReadUint64 0) plain p (if OptionalUint64Extension s \<noteq> 0 then OptionalUint64Extension s else 0) (cellOptionalUint64Extension m),
     \<lambda>m. cell_reads (readOne ReadSInt32 0) plain p (if OptionalSint32Extension s \<noteq> 0 then OptionalSint32Extension s else 0) (cellOptionalSint32Extension m),
     \<lambda>m. cell_reads (readOne ReadSInt64 0) plain p (if OptionalSint64Extension s \<noteq> 0 then OptionalSint64Extension s else 0) (cellOptionalSint64Extension m),
     \<lambda>m. cell_reads (readOne ReadFixed32 0) plain p (if OptionalFixed32Extension s \<noteq> 0 then OptionalFixed32Extension s else 0) (cellOptionalFixed32Extension m),
     \<lambda>m. cell_reads (readOne ReadFixed64 0) plain p (if OptionalFixed64Extension s \<noteq> 0 then OptionalFixed64Extension s else 0) (cellOptionalFixed64Extension m),
     \<lambda>m. cell_reads (readOne ReadSFixed32 0) plain p (if OptionalSfixed32Extension s \<noteq> 0 then OptionalSfixed32Extension s else 0) (cellOptionalSfixed32Extension m),
     \<lambda>m. cell_reads (readOne ReadSFixed64 0) plain p (if OptionalSfixed64Extension s \<noteq> 0 then OptionalSfixed64Extension s else 0) (cellOptionalSfixed64Extension m),
     \<lambda>m. cell_reads (readOne ReadFloat32 0x0) plain p (if \<not> float32_is_zero (OptionalFloatExtension s) then OptionalFloatExtension s else 0x0) (cellOptionalFloatExtension m),
     \<lambda>m. cell_reads (readOne ReadFloat64 0x0) plain p (if \<not> float64_is_zero (OptionalDoubleExtension s) then OptionalDoubleExtension s else 0x0) (cellOptionalDoubleExtension m),
     \<lambda>m. cell_reads (readOne ReadBool False) plain p (if OptionalBoolExtension s then OptionalBoolExtension s else False) (cellOptionalBoolExtension m),
     \<lambda>m. cell_reads (readOne ReadString []) plain p (if OptionalStringExtension s \<noteq> [] then OptionalStringExtension s else []) (cellOptionalStringExtension m),
     \<lambda>m. cell_reads (readOne ReadByteList []) plain p (if OptionalBytesExtension s \<noteq> [] then OptionalBytesExtension s else []) (cellOptionalBytesExtension m),
     \<lambda>m. cell_reads (structReader (TestAllTypes_NestedMessageReader_Unmarshal NewTestAllTypes_NestedMessageReader)) (structToStruct TestAllTypes_NestedMessageReader_ToStruct) p (norm_ptr TestAllTypes_NestedMessage_content TestAllTypes_NestedMessage_norm (OptionalNestedMessageExtension s)) (cellOptionalNestedMessageExtension m),
     \<lambda>m. cell_reads (structReader (ForeignMessageReader_Unmarshal NewForeignMessageReader)) (structToStruct ForeignMessageReader_ToStruct) p (norm_ptr ForeignMessage_content ForeignMessage_norm (OptionalForeignMessageExtension s)) (cellOptionalForeignMessageExtension m),
     \<lambda>m. cell_reads (structReader (ImportMessageReader_Unmarshal NewImportMessageReader)) (structToStruct ImportMessageReader_ToStruct) p (norm_ptr ImportMessage_content ImportMessage_norm (OptionalImportMessageExtension s)) (cellOptionalImportMessageExtension m),
     \<lambda>m. cell_reads (readOne ReadInt32 0) plain p (if OptionalNestedEnumExtension s \<noteq> 0 then OptionalNestedEnumExtension s else 0) (cellOptionalNestedEnumExtension m),
     \<lambda>m. cell_reads (readOne ReadInt32 0) plain p (if OptionalForeignEnumExtension s \<noteq> 0 then OptionalForeignEnumExtension s else 0) (cellOptionalForeignEnumExtension m),
     \<lambda>m. cell_reads (readOne ReadInt32 0) plain p (if OptionalImportEnumExtension s \<noteq> 0 then OptionalImportEnumExtension s else 0) (cellOptionalImportEnumExtension m),
     \<lambda>m. cell_reads (readOne ReadString []) plain p (if OptionalStringPieceExtension s \<noteq> [] then OptionalStringPieceExtension s else []) (cellOptionalStringPieceExtension m),
     \<lambda>m. cell_reads (readOne ReadString []) plain p (if OptionalCordExtension s \<noteq> [] then OptionalCordExtension s else []) (cellOptionalCordExtension m),
     \<lambda>m. cell_reads (structReader (PublicImportMessageReader_Unmarshal NewPublicImportMessageReader)) (structToStruct PublicImportMessageReader_ToStruct) p (norm_ptr PublicImportMessage_content PublicImportMessage_norm (OptionalPublicImportMessageExtension s)) (cellOptionalPublicImportMessageExtension m),
     \<lambda>m. cell_reads (structReader (TestAllTypes_NestedMessageReader_Unmarshal NewTestAllTypes_NestedMessageReader)) (structToStruct TestAllTypes_NestedMessageReader_ToStruct) p (norm_ptr TestAllTypes_NestedMessage_content TestAllTypes_NestedMessage_norm (OptionalLazyMessageExtension s)) (cellOptionalLazyMessageExtension m),
     \<lambda>m. cell_reads (structReader (TestAllTypes_NestedMessageReader_Unmarshal NewTestAllTypes_NestedMessageReader)) (structToStruct TestAllTypes_NestedMessageReader_ToStruct) p (norm_ptr TestAllTypes_NestedMessage_content TestAllTypes_NestedMessage_norm (OptionalUnverifiedLazyMessageExtension s)) (cellOptionalUnverifiedLazyMessageExtension m),
     \<lambda>m. cell_reads (readPacked ReadInt32 SizedReadInt32 0) plain p (RepeatedInt32Extension s) (cellRepeatedInt32Extension m),
     \<lambda>m. cell_reads (readPacked ReadInt64 SizedReadInt64 0) plain p (RepeatedInt64Extension s) (cellRepeatedInt64Extension m),
     \<lambda>m. cell_reads (readPacked ReadUint32 SizedReadUint32 0) plain p (RepeatedUint32Extension s) (cellRepeatedUint32Extension m),
     \<lambda>m. cell_reads (readPacked ReadUint64 SizedReadUint64 0) plain p (RepeatedUint64Extension s) (cellRepeatedUint64Extension m),
     \<lambda>m. cell_reads (readPacked ReadSInt32 SizedReadSInt32 0) plain p (RepeatedSint32Extension s) (cellRepeatedSint32Extension m),
     \<lambda>m. cell_reads (readPacked ReadSInt64 SizedReadSInt64 0) plain p (RepeatedSint64Extension s) (cellRepeatedSint64Extension m),
     \<lambda>m. cell_reads (readPacked ReadFixed32 SizedReadFixed32 0) plain p (RepeatedFixed32Extension s) (cellRepeatedFixed32Extension m),
     \<lambda>m. cell_reads (readPacked ReadFixed64 SizedReadFixed64 0) plain p (RepeatedFixed64Extension s) (cellRepeatedFixed64Extension m),
     \<lambda>m. cell_reads (readPacked ReadSFixed32 SizedReadSFixed32 0) plain p (RepeatedSfixed32Extension s) (cellRepeatedSfixed32Extension m),
     \<lambda>m. cell_reads (readPacked ReadSFixed64 SizedReadSFixed64 0) plain p (RepeatedSfixed64Extension s) (cellRepeatedSfixed64Extension m),
     \<lambda>m. cell_reads (readPacked ReadFloat32 SizedReadFloat32 0) plain p (RepeatedFloatExtension s) (cellRepeatedFloatExtension m),
     \<lambda>m. cell_reads (readPacked ReadFloat64 SizedReadFloat64 0) plain p (RepeatedDoubleExtension s) (cellRepeatedDoubleExtension m),
     \<lambda>m. cell_reads (readPacked ReadBool SizedReadBool False) plain p (RepeatedBoolExtension s) (cellRepeatedBoolExtension m),
     \<lambda>m. cell_reads (readList ReadString []) plain p (RepeatedStringExtension s) (cellRepeatedStringExtension m),
     \<lambda>m. cell_reads (readList ReadByteList []) plain p (RepeatedBytesExtension s) (cellRepeatedBytesExtension m),
     \<lambda>m. cell_reads (readStructs (TestAllTypes_NestedMessageReader_Unmarshal NewTestAllTypes_NestedMessageReader)) (repeatedToStruct TestAllTypes_NestedMessageReader_ToStruct) p (map (norm_ptr TestAllTypes_NestedMessage_content TestAllTypes_NestedMessage_norm) (RepeatedNestedMessageExtension s)) (cellRepeatedNestedMessageExtension m),
     \<lambda>m. cell_reads (readStructs (ForeignMessageReader_Unmarshal NewForeignMessageReader)) (repeatedToStruct ForeignMessageReader_ToStruct) p (map (norm_ptr ForeignMessage_content ForeignMessage_norm) (RepeatedForeignMessageExtension s)) (cellRepeatedForeignMessageExtension m),
     \<lambda>m. cell_reads (readStructs (ImportMessageReader_Unmarshal NewImportMessageReader)) (repeatedToStruct ImportMessageReader_ToStruct) p (map (norm_ptr ImportMessage_content ImportMessage_norm) (RepeatedImportMessageExtension s)) (cellRepeatedImportMessageExtension m),
     \<lambda>m. cell_reads (readPacked ReadInt32 SizedReadInt32 0) plain p (RepeatedNestedEnumExtension s) (cellRepeatedNestedEnumExtension m),
     \<lambda>m. cell_reads (readPacked ReadInt32 SizedReadInt32 0) plain p (RepeatedForeignEnumExtension s) (cellRepeatedForeignEnumExtension m),
     \<lambda>m. cell_reads (readPacked ReadInt32 SizedReadInt32 0) plain p (RepeatedImportEnumExtension s) (cellRepeatedImportEnumExtension m),
     \<lambda>m. cell_reads (readList ReadString []) plain p (RepeatedStringPieceExtension s) (cellRepeatedStringPieceExtension m),
     \<lambda>m. cell_reads (readList ReadString []) plain p (RepeatedCordExtension s) (cellRepeatedCordExtension m),
     \<lambda>m. cell_reads (readStructs (TestAllTypes_NestedMessageReader_Unmarshal NewTestAllTypes_NestedMessageReader)) (repeatedToStruct TestAllTypes_NestedMessageReader_ToStruct) p (map (norm_ptr TestAllTypes_NestedMessage_content TestAllTypes_NestedMessage_norm) (RepeatedLazyMessageExtension s)) (cellRepeatedLazyMessageExtension m),
     \<lambda>m. cell_reads (readOne ReadInt32 41) plain p (if DefaultInt32Extension s \<noteq> 41 then DefaultInt32Extension s else 41) (cellDefaultInt32Extension m),
     \<lambda>m. cell_reads (readOne ReadInt64 42) plain p (if DefaultInt64Extension s \<noteq> 42 then DefaultInt64Extension s else 42) (cellDefaultInt64Extension m),
     \<lambda>m. cell_reads (readOne ReadUint32 43) plain p (if DefaultUint32Extension s \<noteq> 43 then DefaultUint32Extension s else 43) (cellDefaultUint32Extension m),
     \<lambda>m. cell_reads (readOne ReadUint64 44) plain p (if DefaultUint64Extension s \<noteq> 44 then DefaultUint64Extension s else 44) (cellDefaultUint64Extension m),
     \<lambda>m. cell_reads (readOne ReadSInt32 (- 45)) plain p (if DefaultSint32Extension s \<noteq> - 45 then DefaultSint32Extension s else - 45) (cellDefaultSint32Extension m),
     \<lambda>m. cell_reads (readOne ReadSInt64 46) plain p (if DefaultSint64Extension s \<noteq> 46 then DefaultSint64Extension s else 46) (cellDefaultSint64Extension m),
     \<lambda>m. cell_reads (readOne ReadFixed32 47) plain p (if DefaultFixed32Extension s \<noteq> 47 then DefaultFixed32Extension s else 47) (cellDefaultFixed32Extension m),
     \<lambda>m. cell_reads (readOne ReadFixed64 48) plain p (if DefaultFixed64Extension s \<noteq> 48 then DefaultFixed64Extension s else 48) (cellDefaultFixed64Extension m),
     \<lambda>m. cell_reads (readOne ReadSFixed32 49) plain p (if DefaultSfixed32Extension s \<noteq> 49 then DefaultSfixed32Extension s else 49) (cellDefaultSfixed32Extension m),
     \<lambda>m. cell_reads (readOne ReadSFixed64 (- 50)) plain p (if DefaultSfixed64Extension s \<noteq> - 50 then DefaultSfixed64Extension s else - 50) (cellDefaultSfixed64Extension m),
     \<lambda>m. cell_reads (readOne ReadFloat32 0x424E0000) plain p (if \<not> float32_eq (DefaultFloatExtension s) (0x424E0000) then DefaultFloatExtension s else 0x424E0000) (cellDefaultFloatExtension m),
     \<lambda>m. cell_reads (readOne ReadFloat64 0x40E9640000000000) plain p (if \<not> float64_eq (DefaultDoubleExtension s) (0x40E9640000000000) then DefaultDoubleExtension s else 0x40E9640000000000) (cellDefaultDoubleExtension m),
     \<lambda>m. cell_reads (readOne ReadBool True) plain p (if DefaultBoolExtension s \<noteq> True then DefaultBoolExtension s else True) (cellDefaultBoolExtension m),
     \<lambda>m. cell_reads (readOne ReadString (bytes_of ''hello'')) plain p (if DefaultStringExtension s \<noteq> bytes_of ''hello'' then DefaultStringExtension s else bytes_of ''hello'') (cellDefaultStringExtension m),
     \<lambda>m. cell_reads (readOne ReadByteList (bytes_of ''world'')) plain p (if DefaultBytesExtension s \<noteq> bytes_of ''world'' then DefaultBytesExtension s else bytes_of ''world'') (cellDefaultBytesExtension m),
     \<lambda>m. cell_reads (readOne ReadInt32 0) plain p (if DefaultNestedEnumExtension s \<noteq> 0 then DefaultNestedEnumExtension s else 0) (cellDefaultNestedEnumExtension m),
     \<lambda>m. cell_reads (readOne ReadInt32 0) plain p (if DefaultForeignEnumExtension s \<noteq> 0 then DefaultForeignEnumExtension s else 0) (cellDefaultForeignEnumExtension m),
     \<lambda>m. cell_reads (readOne ReadInt32 0) plain p (if DefaultImportEnumExtension s \<noteq> 0 then DefaultImportEnumExtension s else 0) (cellDefaultImportEnumExtension m),
     \<lambda>m. cell_reads (readOne ReadString (bytes_of ''abc'')) plain p (if DefaultStringPieceExtension s \<noteq> bytes_of ''abc'' then DefaultStringPieceExtension s else bytes_of ''abc'') (cellDefaultStringPieceExtension m),
     \<lambda>m. cell_reads (readOne ReadString (bytes_of ''123'')) plain p (if DefaultCordExtension s \<noteq> bytes_of ''123'' then DefaultCordExtension s else bytes_of ''123'') (cellDefaultCordExtension m),
     \<lambda>m. cell_reads (readOne ReadUint32 0) plain p (if OneofUint32Extension s \<noteq> 0 then OneofUint32Extension s else 0) (cellOneofUint32Extension m),
     \<lambda>m. cell_reads (structReader (TestAllTypes_NestedMessageReader_Unmarshal NewTestAllTypes_NestedMessageReader)) (structToStruct TestAllTypes_NestedMessageReader_ToStruct) p (norm_ptr TestAllTypes_NestedMessage_content TestAllTypes_NestedMessage_norm (OneofNestedMessageExtension s)) (cellOneofNestedMessageExtension m),
     \<lambda>m. cell_reads (readOne ReadString []) plain p (if OneofStringExtension s \<noteq> [] then OneofStringExtension s else []) (cellOneofStringExtension m),
     \<lambda>m. cell_reads (readOne ReadByteList []) plain p (if OneofBytesExtension s \<noteq> [] then OneofBytesExtension s else []) (cellOneofBytesExtension m)]"

definition TestAllExtensions_stored :: "TestAllExtensions \<Rightarrow> (TestAllExtensions \<Rightarrow> TestAllExtensions) list" where
  "TestAllExtensions_stored s = [
     \<lambda>res. res\<lparr>OptionalInt32Extension := if OptionalInt32Extension s \<noteq> 0 then OptionalInt32Extension s else 0\<rparr>,
     \<lambda>res. res\<lparr>OptionalInt64Extension := if OptionalInt64Extension s \<noteq> 0 then OptionalInt64Extension s else 0\<rparr>,
     \<lambda>res. res\<lparr>OptionalUint32Extension := if OptionalUint32Extension s \<noteq> 0 then OptionalUint32Extension s else 0\<rparr>,
     \<lambda>res. res\<lparr>OptionalUint64Extension := if OptionalUint64Extension s \<noteq> 0 then OptionalUint64Extension s else 0\<rparr>,
     \<lambda>res. res\<lparr>OptionalSint32Extension := if OptionalSint32Extension s \<noteq> 0 then OptionalSint32Extension s else 0\<rparr>,
     \<lambda>res. res\<lparr>OptionalSint64Extension := if OptionalSint64Extension s \<noteq> 0 then OptionalSint64Extension s else 0\<rparr>,
     \<lambda>res. res\<lparr>OptionalFixed32Extension := if OptionalFixed32Extension s \<noteq> 0 then OptionalFixed32Extension s else 0\<rparr>,
     \<lambda>res. res\<lparr>OptionalFixed64Extension := if OptionalFixed64Extension s \<noteq> 0 then OptionalFixed64Extension s else 0\<rparr>,
     \<lambda>res. res\<lparr>OptionalSfixed32Extension := if OptionalSfixed32Extension s \<noteq> 0 then OptionalSfixed32Extension s else 0\<rparr>,
     \<lambda>res. res\<lparr>OptionalSfixed64Extension := if OptionalSfixed64Extension s \<noteq> 0 then OptionalSfixed64Extension s else 0\<rparr>,
     \<lambda>res. res\<lparr>OptionalFloatExtension := if \<not> float32_is_zero (OptionalFloatExtension s) then OptionalFloatExtension s else 0x0\<rparr>,
     \<lambda>res. res\<lparr>OptionalDoubleExtension := if \<not> float64_is_zero (OptionalDoubleExtension s) then OptionalDoubleExtension s else 0x0\<rparr>,
     \<lambda>res. res\<lparr>OptionalBoolExtension := if OptionalBoolExtension s then OptionalBoolExtension s else False\<rparr>,
     \<lambda>res. res\<lparr>OptionalStringExtension := if OptionalStringExtension s \<noteq> [] then OptionalStringExtension s else []\<rparr>,
     \<lambda>res. res\<lparr>OptionalBytesExtension := if OptionalBytesExtension s \<noteq> [] then OptionalBytesExtension s else []\<rparr>,
     \<lambda>res. res\<lparr>OptionalNestedMessageExtension := norm_ptr TestAllTypes_NestedMessage_content TestAllTypes_NestedMessage_norm (OptionalNestedMessageExtension s)\<rparr>,
     \<lambda>res. res\<lparr>OptionalForeignMessageExtension := norm_ptr ForeignMessage_content ForeignMessage_norm (OptionalForeignMessageExtension s)\<rparr>,
     \<lambda>res. res\<lparr>OptionalImportMessageExtension := norm_ptr ImportMessage_content ImportMessage_norm (OptionalImportMessageExtension s)\<rparr>,
     \<lambda>res. res\<lparr>OptionalNestedEnumExtension := if OptionalNestedEnumExtension s \<noteq> 0 then OptionalNestedEnumExtension s else 0\<rparr>,
     \<lambda>res. res\<lparr>OptionalForeignEnumExtension := if OptionalForeignEnumExtension s \<noteq> 0 then OptionalForeignEnumExtension s else 0\<rparr>,
     \<lambda>res. res\<lparr>OptionalImportEnumExtension := if OptionalImportEnumExtension s \<noteq> 0 then OptionalImportEnumExtension s else 0\<rparr>,
     \<lambda>res. res\<lparr>OptionalStringPieceExtension := if OptionalStringPieceExtension s \<noteq> [] then OptionalStringPieceExtension s else []\<rparr>,
     \<lambda>res. res\<lparr>OptionalCordExtension := if OptionalCordExtension s \<noteq> [] then OptionalCordExtension s else []\<rparr>,
     \<lambda>res. res\<lparr>OptionalPublicImportMessageExtension := norm_ptr PublicImportMessage_content PublicImportMessage_norm (OptionalPublicImportMessageExtension s)\<rparr>,
     \<lambda>res. res\<lparr>OptionalLazyMessageExtension := norm_ptr TestAllTypes_NestedMessage_content TestAllTypes_NestedMessage_norm (OptionalLazyMessageExtension s)\<rparr>,
     \<lambda>res. res\<lparr>OptionalUnverifiedLazyMessageExtension := norm_ptr TestAllTypes_NestedMessage_content TestAllTypes_NestedMessage_norm (OptionalUnverifiedLazyMessageExtension s)\<rparr>,
     \<lambda>res. res\<lparr>RepeatedInt32Extension := RepeatedInt32Extension s\<rparr>,
     \<lambda>res. res\<lparr>RepeatedInt64Extension := RepeatedInt64Extension s\<rparr>,
     \<lambda>res. res\<lparr>RepeatedUint32Extension := RepeatedUint32Extension s\<rparr>,
     \<lambda>res. res\<lparr>RepeatedUint64Extension := RepeatedUint64Extension s\<rparr>,
     \<lambda>res. res\<lparr>RepeatedSint32Extension := RepeatedSint32Extension s\<rparr>,
     \<lambda>res. res\<lparr>RepeatedSint64Extension := RepeatedSint64Extension s\<rparr>,
     \<lambda>res. res\<lparr>RepeatedFixed32Extension := RepeatedFixed32Extension s\<rparr>,
     \<lambda>res. res\<lparr>RepeatedFixed64Extension := RepeatedFixed64Extension s\<rparr>,
     \<lambda>res. res\<lparr>RepeatedSfixed32Extension := RepeatedSfixed32Extension s\<rparr>,
     \<lambda>res. res\<lparr>RepeatedSfixed64Extension := RepeatedSfixed64Extension s\<rparr>,
     \<lambda>res. res\<lparr>RepeatedFloatExtension := RepeatedFloatExtension s\<rparr>,
     \<lambda>res. res\<lparr>RepeatedDoubleExtension := RepeatedDoubleExtension s\<rparr>,
     \<lambda>res. res\<lparr>RepeatedBoolExtension := RepeatedBoolExtension s\<rparr>,
     \<lambda>res. res\<lparr>RepeatedStringExtension := RepeatedStringExtension s\<rparr>,
     \<lambda>res. res\<lparr>RepeatedBytesExtension := RepeatedBytesExtension s\<rparr>,
     \<lambda>res. res\<lparr>RepeatedNestedMessageExtension := map (norm_ptr TestAllTypes_NestedMessage_content TestAllTypes_NestedMessage_norm) (RepeatedNestedMessageExtension s)\<rparr>,
     \<lambda>res. res\<lparr>RepeatedForeignMessageExtension := map (norm_ptr ForeignMessage_content ForeignMessage_norm) (RepeatedForeignMessageExtension s)\<rparr>,
     \<lambda>res. res\<lparr>RepeatedImportMessageExtension := map (norm_ptr ImportMessage_content ImportMessage_norm) (RepeatedImportMessageExtension s)\<rparr>,
     \<lambda>res. res\<lparr>RepeatedNestedEnumExtension := RepeatedNestedEnumExtension s\<rparr>,
     \<lambda>res. res\<lparr>RepeatedForeignEnumExtension := RepeatedForeignEnumExtension s\<rparr>,
     \<lambda>res. res\<lparr>RepeatedImportEnumExtension := RepeatedImportEnumExtension s\<rparr>,
     \<lambda>res. res\<lparr>RepeatedStringPieceExtension := RepeatedStringPieceExtension s\<rparr>,
     \<lambda>res. res\<lparr>RepeatedCordExtension := RepeatedCordExtension s\<rparr>,
     \<lambda>res. res\<lparr>RepeatedLazyMessageExtension := map (norm_ptr TestAllTypes_NestedMessage_content TestAllTypes_NestedMessage_norm) (RepeatedLazyMessageExtension s)\<rparr>,
     \<lambda>res. res\<lparr>DefaultInt32Extension := if DefaultInt32Extension s \<noteq> 41 then DefaultInt32Extension s else 41\<rparr>,
     \<lambda>res. res\<lparr>DefaultInt64Extension := if DefaultInt64Extension s \<noteq> 42 then DefaultInt64Extension s else 42\<rparr>,
     \<lambda>res. res\<lparr>DefaultUint32Extension := if DefaultUint32Extension s \<noteq> 43 then DefaultUint32Extension s else 43\<rparr>,
     \<lambda>res. res\<lparr>DefaultUint64Extension := if DefaultUint64Extension s \<noteq> 44 then DefaultUint64Extension s else 44\<rparr>,
     \<lambda>res. res\<lparr>DefaultSint32Extension := if DefaultSint32Extension s \<noteq> - 45 then DefaultSint32Extension s else - 45\<rparr>,
     \<lambda>res. res\<lparr>DefaultSint64Extension := if DefaultSint64Extension s \<noteq> 46 then DefaultSint64Extension s else 46\<rparr>,
     \<lambda>res. res\<lparr>DefaultFixed32Extension := if DefaultFixed32Extension s \<noteq> 47 then DefaultFixed32Extension s else 47\<rparr>,
     \<lambda>res. res\<lparr>DefaultFixed64Extension := if DefaultFixed64Extension s \<noteq> 48 then DefaultFixed64Extension s else 48\<rparr>,
     \<lambda>res. res\<lparr>DefaultSfixed32Extension := if DefaultSfixed32Extension s \<noteq> 49 then DefaultSfixed32Extension s else 49\<rparr>,
     \<lambda>res. res\<lparr>DefaultSfixed64Extension := if DefaultSfixed64Extension s \<noteq> - 50 then DefaultSfixed64Extension s else - 50\<rparr>,
     \<lambda>res. res\<lparr>DefaultFloatExtension := if \<not> float32_eq (DefaultFloatExtension s) (0x424E0000) then DefaultFloatExtension s else 0x424E0000\<rparr>,
     \<lambda>res. res\<lparr>DefaultDoubleExtension := if \<not> float64_eq (DefaultDoubleExtension s) (0x40E9640000000000) then DefaultDoubleExtension s else 0x40E9640000000000\<rparr>,
     \<lambda>res. res\<lparr>DefaultBoolExtension := if DefaultBoolExtension s \<noteq> True then DefaultBoolExtension s else True\<rparr>,
     \<lambda>res. res\<lparr>DefaultStringExtension := if DefaultStringExtension s \<noteq> bytes_of ''hello'' then DefaultStringExtension s else bytes_of ''hello''\<rparr>,
     \<lambda>res. res\<lparr>DefaultBytesExtension := if DefaultBytesExtension s \<noteq> bytes_of ''world'' then DefaultBytesExtension s else bytes_of ''world''\<rparr>,
     \<lambda>res. res\<lparr>DefaultNestedEnumExtension := if DefaultNestedEnumExtension s \<noteq> 0 then DefaultNestedEnumExtension s else 0\<rparr>,
     \<lambda>res. res\<lparr>DefaultForeignEnumExtension := if DefaultForeignEnumExtension s \<noteq> 0 then DefaultForeignEnumExtension s else 0\<rparr>,
     \<lambda>res. res\<lparr>DefaultImportEnumExtension := if DefaultImportEnumExtension s \<noteq> 0 then DefaultImportEnumExtension s else 0\<rparr>,
     \<lambda>res. res\<lparr>DefaultStringPieceExtension := if DefaultStringPieceExtension s \<noteq> bytes_of ''abc'' then DefaultStringPieceExtension s else bytes_of ''abc''\<rparr>,
     \<lambda>res. res\<lparr>DefaultCordExtension := if DefaultCordExtension s \<noteq> bytes_of ''123'' then DefaultCordExtension s else bytes_of ''123''\<rparr>,
     \<lambda>res. res\<lparr>OneofUint32Extension := if OneofUint32Extension s \<noteq> 0 then OneofUint32Extension s else 0\<rparr>,
     \<lambda>res. res\<lparr>OneofNestedMessageExtension := norm_ptr TestAllTypes_NestedMessage_content TestAllTypes_NestedMessage_norm (OneofNestedMessageExtension s)\<rparr>,
     \<lambda>res. res\<lparr>OneofStringExtension := if OneofStringExtension s \<noteq> [] then OneofStringExtension s else []\<rparr>,
     \<lambda>res. res\<lparr>OneofBytesExtension := if OneofBytesExtension s \<noteq> [] then OneofBytesExtension s else []\<rparr>]"

lemma TestAllExtensions_cases_distinct: "distinct (map fst (TestAllExtensionsReader_cases wire offset))"
  by (rule ascending_distinct) (simp add: TestAllExtensionsReader_cases_def wireTestAllExtensions)

lemma TestAllExtensions_stores:
  "stores_cell TestAllExtensionsReader_save wireTestAllExtensions_OptionalInt32Extension setOffset cellOptionalInt32Extension"
  "stores_cell TestAllExtensionsReader_save wireTestAllExtensions_OptionalInt64Extension setOffset cellOptionalInt64Extension"
  "stores_cell TestAllExtensionsReader_save wireTestAllExtensions_OptionalUint32Extension setOffset cellOptionalUint32Extension"
  "stores_cell TestAllExtensionsReader_save wireTestAllExtensions_OptionalUint64Extension setOffset cellOptionalUint64Extension"
  "stores_cell TestAllExtensionsReader_save wireTestAllExtensions_OptionalSint32Extension setOffset cellOptionalSint32Extension"
  "stores_cell TestAllExtensionsReader_save wireTestAllExtensions_OptionalSint64Extension setOffset cellOptionalSint64Extension"
  "stores_cell TestAllExtensionsReader_save wireTestAllExtensions_OptionalFixed32Extension setOffset cellOptionalFixed32Extension"
  "stores_cell TestAllExtensionsReader_save wireTestAllExtensions_OptionalFixed64Extension setOffset cellOptionalFixed64Extension"
  "stores_cell TestAllExtensionsReader_save wireTestAllExtensions_OptionalSfixed32Extension setOffset cellOptionalSfixed32Extension"
  "stores_cell TestAllExtensionsReader_save wireTestAllExtensions_OptionalSfixed64Extension setOffset cellOptionalSfixed64Extension"
  "stores_cell TestAllExtensionsReader_save wireTestAllExtensions_OptionalFloatExtension setOffset cellOptionalFloatExtension"
  "stores_cell TestAllExtensionsReader_save wireTestAllExtensions_OptionalDoubleExtension setOffset cellOptionalDoubleExtension"
  "stores_cell TestAllExtensionsReader_save wireTestAllExtensions_OptionalBoolExtension setOffset cellOptionalBoolExtension"
  "stores_cell TestAllExtensionsReader_save wireTestAllExtensions_OptionalStringExtension setOffset cellOptionalStringExtension"
  "stores_cell TestAllExtensionsReader_save wireTestAllExtensions_OptionalBytesExtension setOffset cellOptionalBytesExtension"
  "stores_cell TestAllExtensionsReader_save wireTestAllExtensions_OptionalNestedMessageExtension setOffset cellOptionalNestedMessageExtension"
  "stores_cell TestAllExtensionsReader_save wireTestAllExtensions_OptionalForeignMessageExtension setOffset cellOptionalForeignMessageExtension"
  "stores_cell TestAllExtensionsReader_save wireTestAllExtensions_OptionalImportMessageExtension setOffset cellOptionalImportMessageExtension"
  "stores_cell TestAllExtensionsReader_save wireTestAllExtensions_OptionalNestedEnumExtension setOffset cellOptionalNestedEnumExtension"
  "stores_cell TestAllExtensionsReader_save wireTestAllExtensions_OptionalForeignEnumExtension setOffset cellOptionalForeignEnumExtension"
  "stores_cell TestAllExtensionsReader_save wireTestAllExtensions_OptionalImportEnumExtension setOffset cellOptionalImportEnumExtension"
  "stores_cell TestAllExtensionsReader_save wireTestAllExtensions_OptionalStringPieceExtension setOffset cellOptionalStringPieceExtension"
  "stores_cell TestAllExtensionsReader_save wireTestAllExtensions_OptionalCordExtension setOffset cellOptionalCordExtension"
  "stores_cell TestAllExtensionsReader_save wireTestAllExtensions_OptionalPublicImportMessageExtension setOffset cellOptionalPublicImportMessageExtension"
  "stores_cell TestAllExtensionsReader_save wireTestAllExtensions_OptionalLazyMessageExtension setOffset cellOptionalLazyMessageExtension"
  "stores_cell TestAllExtensionsReader_save wireTestAllExtensions_OptionalUnverifiedLazyMessageExtension setOffset cellOptionalUnverifiedLazyMessageExtension"
  "stores_cell TestAllExtensionsReader_save wireTestAllExtensions_RepeatedInt32Extension addTyped cellRepeatedInt32Extension"
  "stores_cell TestAllExtensionsReader_save wireTestAllExtensions_RepeatedInt64Extension addTyped cellRepeatedInt64Extension"
  "stores_cell TestAllExtensionsReader_save wireTestAllExtensions_RepeatedUint32Extension addTyped cellRepeatedUint32Extension"
  "stores_cell TestAllExtensionsReader_save wireTestAllExtensions_RepeatedUint64Extension addTyped cellRepeatedUint64Extension"
  "stores_cell TestAllExtensionsReader_save wireTestAllExtensions_RepeatedSint32Extension addTyped cellRepeatedSint32Extension"
  "stores_cell TestAllExtensionsReader_save wireTestAllExtensions_RepeatedSint64Extension addTyped cellRepeatedSint64Extension"
  "stores_cell TestAllExtensionsReader_save wireTestAllExtensions_RepeatedFixed32Extension addTyped cellRepeatedFixed32Extension"
  "stores_cell TestAllExtensionsReader_save wireTestAllExtensions_RepeatedFixed64Extension addTyped cellRepeatedFixed64Extension"
  "stores_cell TestAllExtensionsReader_save wireTestAllExtensions_RepeatedSfixed32Extension addTyped cellRepeatedSfixed32Extension"
  "stores_cell TestAllExtensionsReader_save wireTestAllExtensions_RepeatedSfixed64Extension addTyped cellRepeatedSfixed64Extension"
  "stores_cell TestAllExtensionsReader_save wireTestAllExtensions_RepeatedFloatExtension addTyped cellRepeatedFloatExtension"
  "stores_cell TestAllExtensionsReader_save wireTestAllExtensions_RepeatedDoubleExtension addTyped cellRepeatedDoubleExtension"
  "stores_cell TestAllExtensionsReader_save wireTestAllExtensions_RepeatedBoolExtension addTyped cellRepeatedBoolExtension"
  "stores_cell TestAllExtensionsReader_save wireTestAllExtensions_RepeatedStringExtension addOffset cellRepeatedStringExtension"
  "stores_cell TestAllExtensionsReader_save wireTestAllExtensions_RepeatedBytesExtension addOffset cellRepeatedBytesExtension"
  "stores_cell TestAllExtensionsReader_save wireTestAllExtensions_RepeatedNestedMessageExtension addOffset cellRepeatedNestedMessageExtension"
  "stores_cell TestAllExtensionsReader_save wireTestAllExtensions_RepeatedForeignMessageExtension addOffset cellRepeatedForeignMessageExtension"
  "stores_cell TestAllExtensionsReader_save wireTestAllExtensions_RepeatedImportMessageExtension addOffset cellRepeatedImportMessageExtension"
  "stores_cell TestAllExtensionsReader_save wireTestAllExtensions_RepeatedNestedEnumExtension addTyped cellRepeatedNestedEnumExtension"
  "stores_cell TestAllExtensionsReader_save wireTestAllExtensions_RepeatedForeignEnumExtension addTyped cellRepeatedForeignEnumExtension"
  "stores_cell TestAllExtensionsReader_save wireTestAllExtensions_RepeatedImportEnumExtension addTyped cellRepeatedImportEnumExtension"
  "stores_cell TestAllExtensionsReader_save wireTestAllExtensions_RepeatedStringPieceExtension addOffset cellRepeatedStringPieceExtension"
  "stores_cell TestAllExtensionsReader_save wireTestAllExtensions_RepeatedCordExtension addOffset cellRepeatedCordExtension"
  "stores_cell TestAllExtensionsReader_save wireTestAllExtensions_RepeatedLazyMessageExtension addOffset cellRepeatedLazyMessageExtension"
  "stores_cell TestAllExtensionsReader_save wireTestAllExtensions_DefaultInt32Extension setOffset cellDefaultInt32Extension"
  "stores_cell TestAllExtensionsReader_save wireTestAllExtensions_DefaultInt64Extension setOffset cellDefaultInt64Extension"
  "stores_cell TestAllExtensionsReader_save wireTestAllExtensions_DefaultUint32Extension setOffset cellDefaultUint32Extension"
  "stores_cell TestAllExtensionsReader_save wireTestAllExtensions_DefaultUint64Extension setOffset cellDefaultUint64Extension"
  "stores_cell TestAllExtensionsReader_save wireTestAllExtensions_DefaultSint32Extension setOffset cellDefaultSint32Extension"
  "stores_cell TestAllExtensionsReader_save wireTestAllExtensions_DefaultSint64Extension setOffset cellDefaultSint64Extension"
  "stores_cell TestAllExtensionsReader_save wireTestAllExtensions_DefaultFixed32Extension setOffset cellDefaultFixed32Extension"
  "stores_cell TestAllExtensionsReader_save wireTestAllExtensions_DefaultFixed64Extension setOffset cellDefaultFixed64Extension"
  "stores_cell TestAllExtensionsReader_save wireTestAllExtensions_DefaultSfixed32Extension setOffset cellDefaultSfixed32Extension"
  "stores_cell TestAllExtensionsReader_save wireTestAllExtensions_DefaultSfixed64Extension setOffset cellDefaultSfixed64Extension"
  "stores_cell TestAllExtensionsReader_save wireTestAllExtensions_DefaultFloatExtension setOffset cellDefaultFloatExtension"
  "stores_cell TestAllExtensionsReader_save wireTestAllExtensions_DefaultDoubleExtension setOffset cellDefaultDoubleExtension"
  "stores_cell TestAllExtensionsReader_save wireTestAllExtensions_DefaultBoolExtension setOffset cellDefaultBoolExtension"
  "stores_cell TestAllExtensionsReader_save wireTestAllExtensions_DefaultStringExtension setOffset cellDefaultStringExtension"
  "stores_cell TestAllExtensionsReader_save wireTestAllExtensions_DefaultBytesExtension setOffset cellDefaultBytesExtension"
  "stores_cell TestAllExtensionsReader_save wireTestAllExtensions_DefaultNestedEnumExtension setOffset cellDefaultNestedEnumExtension"
  "stores_cell TestAllExtensionsReader_save wireTestAllExtensions_DefaultForeignEnumExtension setOffset cellDefaultForeignEnumExtension"
  "stores_cell TestAllExtensionsReader_save wireTestAllExtensions_DefaultImportEnumExtension setOffset cellDefaultImportEnumExtension"
  "stores_cell TestAllExtensionsReader_save wireTestAllExtensions_DefaultStringPieceExtension setOffset cellDefaultStringPieceExtension"
  "stores_cell TestAllExtensionsReader_save wireTestAllExtensions_DefaultCordExtension setOffset cellDefaultCordExtension"
  "stores_cell TestAllExtensionsReader_save wireTestAllExtensions_OneofUint32Extension setOffset cellOneofUint32Extension"
  "stores_cell TestAllExtensionsReader_save wireTestAllExtensions_OneofNestedMessageExtension setOffset cellOneofNestedMessageExtension"
  "stores_cell TestAllExtensionsReader_save wireTestAllExtensions_OneofStringExtension setOffset cellOneofStringExtension"
  "stores_cell TestAllExtensionsReader_save wireTestAllExtensions_OneofBytesExtension setOffset cellOneofBytesExtension"
  unfolding TestAllExtensionsReader_save_def [abs_def] by (rule stores_cell_switch; (rule TestAllExtensions_cases_distinct)?; unfold TestAllExtensionsReader_cases_def; intro own_case.intros; simp)+

lemma TestAllExtensions_saved: "good_fields TestAllExtensionsReader_save p (NewTestAllExtensionsReader\<lparr>mbuf := Some p\<rparr>) TestAllExtensions_tags (TestAllExtensions_groups s) (TestAllExtensions_ready p s)"
  unfolding TestAllExtensions_tags_def TestAllExtensions_groups_def TestAllExtensions_ready_def
  by (intro good_fields.intros field_saved m_TestAllTypes_NestedMessage.saved_struct m_ForeignMessage.saved_struct m_ImportMessage.saved_struct m_PublicImportMessage.saved_struct TestAllExtensions_stores) (simp_all add: NewTestAllExtensionsReader_def newCell_def)

lemma TestAllExtensions_converted: "good_stmts mbuf p (TestAllExtensions_stmts1 @ TestAllExtensions_stmts2) (TestAllExtensions_ready p s) (TestAllExtensions_stored s)"
  unfolding TestAllExtensions_stmts1_def TestAllExtensions_stmts2_def TestAllExtensions_ready_def TestAllExtensions_stored_def TestAllExtensions_getters append.simps
  by (intro good_stmts_field good_stmts.Nil) (simp_all cong: cell_reads_cong)

interpretation l_TestAllExtensions: lazy_message TestAllExtensions_tags TestAllExtensions_groups TestAllExtensions_norm
  "\<lambda>s. TestAllExtensions_sizes1 s @ TestAllExtensions_sizes2 s @ TestAllExtensions_sizes3 s @ TestAllExtensions_sizes4 s @ TestAllExtensions_sizes5 s @ TestAllExtensions_sizes6 s" "\<lambda>s. TestAllExtensions_appends1 s @ TestAllExtensions_appends2 s @ TestAllExtensions_appends3 s @ TestAllExtensions_appends4 s"
  TestAllExtensionsReader_save "\<lambda>p. NewTestAllExtensionsReader\<lparr>mbuf := Some p\<rparr>" mbuf "TestAllExtensions_stmts1 @ TestAllExtensions_stmts2" TestAllExtensions_zero TestAllExtensions_ready TestAllExtensions_stored
proof
  show "distinct TestAllExtensions_tags"
    using TestAllExtensions_cases_distinct by (simp only: TestAllExtensionsReader_cases_def TestAllExtensions_tags_def list.map fst_conv)
  show "list_all valid_tag TestAllExtensions_tags"
    by (simp add: TestAllExtensions_tags_def wireTestAllExtensions valid_tag_def)
  show "list_all2 (\<lambda>t g. \<forall>f \<in> set g. fst f = t \<and> wf_val (snd f)) TestAllExtensions_tags (TestAllExtensions_groups s)" for s
    unfolding TestAllExtensions_tags_def TestAllExtensions_groups_def by (intro list.rel_intros field_tagged m_TestAllTypes_NestedMessage.tagged_struct m_ForeignMessage.tagged_struct m_ImportMessage.tagged_struct m_PublicImportMessage.tagged_struct)
  show "list_all2 (\<lambda>e g. e = int (length (fields_bytes g))) (TestAllExtensions_sizes1 s @ TestAllExtensions_sizes2 s @ TestAllExtensions_sizes3 s @ TestAllExtensions_sizes4 s @ TestAllExtensions_sizes5 s @ TestAllExtensions_sizes6 s) (TestAllExtensions_groups s)" for s
    unfolding TestAllExtensions_sizes1_def TestAllExtensions_sizes2_def TestAllExtensions_sizes3_def TestAllExtensions_sizes4_def TestAllExtensions_sizes5_def TestAllExtensions_sizes6_def TestAllExtensions_groups_def append.simps
    by (intro list.rel_intros field_sized m_TestAllTypes_NestedMessage.sized_struct m_ForeignMessage.sized_struct m_ImportMessage.sized_struct m_PublicImportMessage.sized_struct)
  show "list_all2 (\<lambda>st g. writes st (fields_bytes g)) (TestAllExtensions_appends1 s @ TestAllExtensions_appends2 s @ TestAllExtensions_appends3 s @ TestAllExtensions_appends4 s) (TestAllExtensions_groups s)" for s
    unfolding TestAllExtensions_appends1_def TestAllExtensions_appends2_def TestAllExtensions_appends3_def TestAllExtensions_appends4_def TestAllExtensions_groups_def append.simps
    by (intro list.rel_intros field_written m_TestAllTypes_NestedMessage.written_struct m_ForeignMessage.written_struct m_ImportMessage.written_struct m_PublicImportMessage.written_struct)
  show "mbuf (TestAllExtensionsReader_save t w off m) = mbuf m" for t w off m
    unfolding TestAllExtensionsReader_save_def by (rule tag_switch_keeps) (simp add: TestAllExtensionsReader_cases_def)
  show "fold (\<lambda>e. e) (TestAllExtensions_stored s) TestAllExtensions_zero = TestAllExtensions_norm s" for s
    unfolding TestAllExtensions_stored_def by (simp add: TestAllExtensions_zero_def TestAllExtensions_norm_def float_defaults)
qed (simp_all add: TestAllExtensions_saved TestAllExtensions_converted)

interpretation m_TestAllExtensions: message_codec TestAllExtensions_content TestAllExtensions_norm TestAllExtensions_XXX_PbContentSize TestAllExtensions_MarshalTo
  "TestAllExtensionsReader_Unmarshal NewTestAllExtensionsReader" TestAllExtensionsReader_ToStruct
  using l_TestAllExtensions.message
  by (simp only: TestAllExtensions_content_def [abs_def] TestAllExtensions_XXX_PbContentSize_def TestAllExtensions_MarshalTo_def TestAllExtensionsReader_Unmarshal_def [abs_def] TestAllExtensionsReader_ToStruct_def)


end
