(* ===== verification/Unittest_Extensions.thy ===== *)
theory Unittest_Extensions
  imports TestAllExtensions_Message
begin

text \<open>
  The messages of \<^verbatim>\<open>src/shared/gremlin_go/bench/gremlin_pb/protobuf_unittest/unittest.pb2.go\<close> that extend others or are extended.
\<close>

section \<open>TestNestedExtension: the reader\<close>

record TestNestedExtensionReader =
  mbuf :: "Reader option"

definition NewTestNestedExtensionReader :: TestNestedExtensionReader where
  "NewTestNestedExtensionReader = \<lparr>
     mbuf = None\<rparr>"

definition TestNestedExtensionReader_cases :: "ProtoWireType \<Rightarrow> int \<Rightarrow> (ProtoWireNumber \<times> (TestNestedExtensionReader \<Rightarrow> TestNestedExtensionReader)) list" where
  "TestNestedExtensionReader_cases wire offset = []"

definition TestNestedExtensionReader_save :: "ProtoWireNumber \<Rightarrow> ProtoWireType \<Rightarrow> int \<Rightarrow> TestNestedExtensionReader \<Rightarrow> TestNestedExtensionReader" where
  "TestNestedExtensionReader_save tag wire offset = tag_switch (TestNestedExtensionReader_cases wire offset) tag"

definition TestNestedExtensionReader_Unmarshal :: "TestNestedExtensionReader \<Rightarrow> gslice \<Rightarrow> (TestNestedExtensionReader \<times> string option) run" where
  "TestNestedExtensionReader_Unmarshal m data =
     unmarshalLoop TestNestedExtensionReader_save (NewReader data) 0 (m\<lparr>mbuf := Some (NewReader data)\<rparr>)"

definition TestNestedExtensionReader_SourceBytes :: "TestNestedExtensionReader option \<Rightarrow> gslice" where
  "TestNestedExtensionReader_SourceBytes s = (case s of None \<Rightarrow> nil_slice | Some r \<Rightarrow> Bytes (mbuf r))"

section \<open>TestNestedExtension: the struct\<close>

type_synonym TestNestedExtension = unit

definition TestNestedExtension_zero :: TestNestedExtension where
  "TestNestedExtension_zero = ()"

definition TestNestedExtension_stmts :: "(TestNestedExtension \<times> TestNestedExtensionReader option \<Rightarrow> (TestNestedExtension \<times> TestNestedExtensionReader option) run) list" where
  "TestNestedExtension_stmts = []"

definition TestNestedExtensionReader_ToStruct :: "TestNestedExtensionReader option \<Rightarrow> (TestNestedExtension option \<times> TestNestedExtensionReader option) run" where
  "TestNestedExtensionReader_ToStruct = toStructWith (TestNestedExtension_stmts) TestNestedExtension_zero"

definition TestNestedExtension_appends :: "TestNestedExtension \<Rightarrow> (Writer \<Rightarrow> Writer go) list" where
  "TestNestedExtension_appends s = []"

definition TestNestedExtension_MarshalTo :: "Writer \<Rightarrow> TestNestedExtension option \<Rightarrow> Writer go" where
  "TestNestedExtension_MarshalTo = marshalToWith (\<lambda>s. TestNestedExtension_appends s)"

definition TestNestedExtension_sizes :: "TestNestedExtension \<Rightarrow> int list" where
  "TestNestedExtension_sizes s = []"

definition TestNestedExtension_XXX_PbContentSize :: "TestNestedExtension option \<Rightarrow> int" where
  "TestNestedExtension_XXX_PbContentSize = contentSizeWith (\<lambda>s. TestNestedExtension_sizes s)"

definition TestNestedExtension_Marshal :: "TestNestedExtension option \<Rightarrow> byte list go" where
  "TestNestedExtension_Marshal = marshalWith TestNestedExtension_XXX_PbContentSize TestNestedExtension_MarshalTo"

definition TestNestedExtension_Copy :: "TestNestedExtension option \<Rightarrow> TestNestedExtension option" where
  "TestNestedExtension_Copy s =
     (case s of None \<Rightarrow> None | Some s \<Rightarrow> Some ())"

section \<open>TestNestedExtension: the round trip\<close>

definition TestNestedExtension_tags :: "ProtoWireNumber list" where
  "TestNestedExtension_tags = []"

definition TestNestedExtension_groups :: "TestNestedExtension \<Rightarrow> wfield list list" where
  "TestNestedExtension_groups s = []"

definition TestNestedExtension_content :: "TestNestedExtension \<Rightarrow> wfield list" where
  "TestNestedExtension_content s = concat (TestNestedExtension_groups s)"

text \<open>What a round trip keeps.\<close>

definition TestNestedExtension_norm :: "TestNestedExtension \<Rightarrow> TestNestedExtension" where
  "TestNestedExtension_norm s = s"

definition TestNestedExtension_ready :: "Reader \<Rightarrow> TestNestedExtension \<Rightarrow> (TestNestedExtensionReader \<Rightarrow> bool) list" where
  "TestNestedExtension_ready p s = []"

definition TestNestedExtension_stored :: "TestNestedExtension \<Rightarrow> (TestNestedExtension \<Rightarrow> TestNestedExtension) list" where
  "TestNestedExtension_stored s = []"

lemma TestNestedExtension_cases_distinct: "distinct (map fst (TestNestedExtensionReader_cases wire offset))"
  by (rule ascending_distinct) (simp add: TestNestedExtensionReader_cases_def )

lemma TestNestedExtension_saved: "good_fields TestNestedExtensionReader_save p (NewTestNestedExtensionReader\<lparr>mbuf := Some p\<rparr>) TestNestedExtension_tags (TestNestedExtension_groups s) (TestNestedExtension_ready p s)"
  unfolding TestNestedExtension_tags_def TestNestedExtension_groups_def TestNestedExtension_ready_def
  by (intro good_fields.intros field_saved)

lemma TestNestedExtension_converted: "good_stmts mbuf p (TestNestedExtension_stmts) (TestNestedExtension_ready p s) (TestNestedExtension_stored s)"
  unfolding TestNestedExtension_stmts_def TestNestedExtension_ready_def TestNestedExtension_stored_def append.simps
  by (intro good_stmts_field good_stmts.Nil)

interpretation l_TestNestedExtension: lazy_message TestNestedExtension_tags TestNestedExtension_groups TestNestedExtension_norm
  "\<lambda>s. TestNestedExtension_sizes s" "\<lambda>s. TestNestedExtension_appends s"
  TestNestedExtensionReader_save "\<lambda>p. NewTestNestedExtensionReader\<lparr>mbuf := Some p\<rparr>" mbuf "TestNestedExtension_stmts" TestNestedExtension_zero TestNestedExtension_ready TestNestedExtension_stored
proof
  show "distinct TestNestedExtension_tags"
    using TestNestedExtension_cases_distinct by (simp only: TestNestedExtensionReader_cases_def TestNestedExtension_tags_def list.map fst_conv)
  show "list_all valid_tag TestNestedExtension_tags"
    by (simp add: TestNestedExtension_tags_def  valid_tag_def)
  show "list_all2 (\<lambda>t g. \<forall>f \<in> set g. fst f = t \<and> wf_val (snd f)) TestNestedExtension_tags (TestNestedExtension_groups s)" for s
    unfolding TestNestedExtension_tags_def TestNestedExtension_groups_def by (intro list.rel_intros field_tagged)
  show "list_all2 (\<lambda>e g. e = int (length (fields_bytes g))) (TestNestedExtension_sizes s) (TestNestedExtension_groups s)" for s
    unfolding TestNestedExtension_sizes_def TestNestedExtension_groups_def append.simps
    by (intro list.rel_intros field_sized)
  show "list_all2 (\<lambda>st g. writes st (fields_bytes g)) (TestNestedExtension_appends s) (TestNestedExtension_groups s)" for s
    unfolding TestNestedExtension_appends_def TestNestedExtension_groups_def append.simps
    by (intro list.rel_intros field_written)
  show "mbuf (TestNestedExtensionReader_save t w off m) = mbuf m" for t w off m
    unfolding TestNestedExtensionReader_save_def by (rule tag_switch_keeps) (simp add: TestNestedExtensionReader_cases_def)
  show "fold (\<lambda>e. e) (TestNestedExtension_stored s) TestNestedExtension_zero = TestNestedExtension_norm s" for s
    unfolding TestNestedExtension_stored_def by (simp add: TestNestedExtension_zero_def TestNestedExtension_norm_def float_defaults)
qed (simp_all add: TestNestedExtension_saved TestNestedExtension_converted)

interpretation m_TestNestedExtension: message_codec TestNestedExtension_content TestNestedExtension_norm TestNestedExtension_XXX_PbContentSize TestNestedExtension_MarshalTo
  "TestNestedExtensionReader_Unmarshal NewTestNestedExtensionReader" TestNestedExtensionReader_ToStruct
  using l_TestNestedExtension.message
  by (simp only: TestNestedExtension_content_def [abs_def] TestNestedExtension_XXX_PbContentSize_def TestNestedExtension_MarshalTo_def TestNestedExtensionReader_Unmarshal_def [abs_def] TestNestedExtensionReader_ToStruct_def)


section \<open>TestNestedExtension_TestAllExtensions: the reader\<close>

definition wireTestNestedExtension_TestAllExtensions_Test :: ProtoWireNumber where "wireTestNestedExtension_TestAllExtensions_Test = 1002"
definition wireTestNestedExtension_TestAllExtensions_NestedStringExtension :: ProtoWireNumber where "wireTestNestedExtension_TestAllExtensions_NestedStringExtension = 1003"

lemmas wireTestNestedExtension_TestAllExtensions =
  wireTestNestedExtension_TestAllExtensions_Test_def
  wireTestNestedExtension_TestAllExtensions_NestedStringExtension_def

record TestNestedExtension_TestAllExtensionsReader =
  mbuf :: "Reader option"
  cellTest :: "gostring one_cell"
  cellNestedStringExtension :: "gostring one_cell"

definition NewTestNestedExtension_TestAllExtensionsReader :: TestNestedExtension_TestAllExtensionsReader where
  "NewTestNestedExtension_TestAllExtensionsReader = \<lparr>
     mbuf = None, cellTest = newCell [] 0, cellNestedStringExtension = newCell [] 0\<rparr>"

definition TestNestedExtension_TestAllExtensionsReader_readTest :: "TestNestedExtension_TestAllExtensionsReader \<Rightarrow> (gostring \<times> TestNestedExtension_TestAllExtensionsReader) run" where
  "TestNestedExtension_TestAllExtensionsReader_readTest = readCell cellTest cellTest_update mbuf (readOne ReadString (bytes_of ''test''))"

definition TestNestedExtension_TestAllExtensionsReader_GetTest :: "TestNestedExtension_TestAllExtensionsReader option \<Rightarrow> (gostring \<times> TestNestedExtension_TestAllExtensionsReader option) run" where
  "TestNestedExtension_TestAllExtensionsReader_GetTest = getter TestNestedExtension_TestAllExtensionsReader_readTest (bytes_of ''test'')"

definition TestNestedExtension_TestAllExtensionsReader_readNestedStringExtension :: "TestNestedExtension_TestAllExtensionsReader \<Rightarrow> (gostring \<times> TestNestedExtension_TestAllExtensionsReader) run" where
  "TestNestedExtension_TestAllExtensionsReader_readNestedStringExtension = readCell cellNestedStringExtension cellNestedStringExtension_update mbuf (readOne ReadString [])"

definition TestNestedExtension_TestAllExtensionsReader_GetNestedStringExtension :: "TestNestedExtension_TestAllExtensionsReader option \<Rightarrow> (gostring \<times> TestNestedExtension_TestAllExtensionsReader option) run" where
  "TestNestedExtension_TestAllExtensionsReader_GetNestedStringExtension = getter TestNestedExtension_TestAllExtensionsReader_readNestedStringExtension []"

lemmas TestNestedExtension_TestAllExtensions_getters =
  TestNestedExtension_TestAllExtensionsReader_readTest_def TestNestedExtension_TestAllExtensionsReader_GetTest_def
  TestNestedExtension_TestAllExtensionsReader_readNestedStringExtension_def TestNestedExtension_TestAllExtensionsReader_GetNestedStringExtension_def

definition TestNestedExtension_TestAllExtensionsReader_cases :: "ProtoWireType \<Rightarrow> int \<Rightarrow> (ProtoWireNumber \<times> (TestNestedExtension_TestAllExtensionsReader \<Rightarrow> TestNestedExtension_TestAllExtensionsReader)) list" where
  "TestNestedExtension_TestAllExtensionsReader_cases wire offset = [
     (wireTestNestedExtension_TestAllExtensions_Test, \<lambda>m. m\<lparr>cellTest := onOffset (setOffset wire offset) (cellTest m)\<rparr>),
     (wireTestNestedExtension_TestAllExtensions_NestedStringExtension, \<lambda>m. m\<lparr>cellNestedStringExtension := onOffset (setOffset wire offset) (cellNestedStringExtension m)\<rparr>)]"

definition TestNestedExtension_TestAllExtensionsReader_save :: "ProtoWireNumber \<Rightarrow> ProtoWireType \<Rightarrow> int \<Rightarrow> TestNestedExtension_TestAllExtensionsReader \<Rightarrow> TestNestedExtension_TestAllExtensionsReader" where
  "TestNestedExtension_TestAllExtensionsReader_save tag wire offset = tag_switch (TestNestedExtension_TestAllExtensionsReader_cases wire offset) tag"

definition TestNestedExtension_TestAllExtensionsReader_Unmarshal :: "TestNestedExtension_TestAllExtensionsReader \<Rightarrow> gslice \<Rightarrow> (TestNestedExtension_TestAllExtensionsReader \<times> string option) run" where
  "TestNestedExtension_TestAllExtensionsReader_Unmarshal m data =
     unmarshalLoop TestNestedExtension_TestAllExtensionsReader_save (NewReader data) 0 (m\<lparr>mbuf := Some (NewReader data)\<rparr>)"

definition TestNestedExtension_TestAllExtensionsReader_SourceBytes :: "TestNestedExtension_TestAllExtensionsReader option \<Rightarrow> gslice" where
  "TestNestedExtension_TestAllExtensionsReader_SourceBytes s = (case s of None \<Rightarrow> nil_slice | Some r \<Rightarrow> Bytes (mbuf r))"

section \<open>TestNestedExtension_TestAllExtensions: the struct\<close>

record TestNestedExtension_TestAllExtensions =
  Test :: gostring
  NestedStringExtension :: gostring

definition TestNestedExtension_TestAllExtensions_zero :: TestNestedExtension_TestAllExtensions where
  "TestNestedExtension_TestAllExtensions_zero = \<lparr>
     Test = [], NestedStringExtension = []\<rparr>"

definition TestNestedExtension_TestAllExtensions_stmts :: "(TestNestedExtension_TestAllExtensions \<times> TestNestedExtension_TestAllExtensionsReader option \<Rightarrow> (TestNestedExtension_TestAllExtensions \<times> TestNestedExtension_TestAllExtensionsReader option) run) list" where
  "TestNestedExtension_TestAllExtensions_stmts = [
     assign TestNestedExtension_TestAllExtensionsReader_GetTest (\<lambda>v res. res\<lparr>Test := v\<rparr>),
     assign TestNestedExtension_TestAllExtensionsReader_GetNestedStringExtension (\<lambda>v res. res\<lparr>NestedStringExtension := v\<rparr>)]"

definition TestNestedExtension_TestAllExtensionsReader_ToStruct :: "TestNestedExtension_TestAllExtensionsReader option \<Rightarrow> (TestNestedExtension_TestAllExtensions option \<times> TestNestedExtension_TestAllExtensionsReader option) run" where
  "TestNestedExtension_TestAllExtensionsReader_ToStruct = toStructWith (TestNestedExtension_TestAllExtensions_stmts) TestNestedExtension_TestAllExtensions_zero"

definition TestNestedExtension_TestAllExtensions_appends :: "TestNestedExtension_TestAllExtensions \<Rightarrow> (Writer \<Rightarrow> Writer go) list" where
  "TestNestedExtension_TestAllExtensions_appends s = [
     \<lambda>res. if Test s \<noteq> bytes_of ''test'' then AppendString res wireTestNestedExtension_TestAllExtensions_Test (Test s) else Ret res,
     \<lambda>res. if NestedStringExtension s \<noteq> [] then AppendString res wireTestNestedExtension_TestAllExtensions_NestedStringExtension (NestedStringExtension s) else Ret res]"

definition TestNestedExtension_TestAllExtensions_MarshalTo :: "Writer \<Rightarrow> TestNestedExtension_TestAllExtensions option \<Rightarrow> Writer go" where
  "TestNestedExtension_TestAllExtensions_MarshalTo = marshalToWith (\<lambda>s. TestNestedExtension_TestAllExtensions_appends s)"

definition TestNestedExtension_TestAllExtensions_sizes :: "TestNestedExtension_TestAllExtensions \<Rightarrow> int list" where
  "TestNestedExtension_TestAllExtensions_sizes s = [
     if Test s \<noteq> bytes_of ''test'' then sizeDelimitedWithTag SizeString wireTestNestedExtension_TestAllExtensions_Test (Test s) else 0,
     if NestedStringExtension s \<noteq> [] then sizeDelimitedWithTag SizeString wireTestNestedExtension_TestAllExtensions_NestedStringExtension (NestedStringExtension s) else 0]"

definition TestNestedExtension_TestAllExtensions_XXX_PbContentSize :: "TestNestedExtension_TestAllExtensions option \<Rightarrow> int" where
  "TestNestedExtension_TestAllExtensions_XXX_PbContentSize = contentSizeWith (\<lambda>s. TestNestedExtension_TestAllExtensions_sizes s)"

definition TestNestedExtension_TestAllExtensions_Marshal :: "TestNestedExtension_TestAllExtensions option \<Rightarrow> byte list go" where
  "TestNestedExtension_TestAllExtensions_Marshal = marshalWith TestNestedExtension_TestAllExtensions_XXX_PbContentSize TestNestedExtension_TestAllExtensions_MarshalTo"

definition TestNestedExtension_TestAllExtensions_Copy :: "TestNestedExtension_TestAllExtensions option \<Rightarrow> TestNestedExtension_TestAllExtensions option" where
  "TestNestedExtension_TestAllExtensions_Copy s =
     (case s of None \<Rightarrow> None | Some s \<Rightarrow> Some \<lparr>
        Test = Test s, NestedStringExtension = NestedStringExtension s\<rparr>)"

section \<open>TestNestedExtension_TestAllExtensions: the round trip\<close>

definition TestNestedExtension_TestAllExtensions_tags :: "ProtoWireNumber list" where
  "TestNestedExtension_TestAllExtensions_tags = [
     wireTestNestedExtension_TestAllExtensions_Test,
     wireTestNestedExtension_TestAllExtensions_NestedStringExtension]"

definition TestNestedExtension_TestAllExtensions_groups :: "TestNestedExtension_TestAllExtensions \<Rightarrow> wfield list list" where
  "TestNestedExtension_TestAllExtensions_groups s = [
     opt_field (Test s \<noteq> bytes_of ''test'') (wireTestNestedExtension_TestAllExtensions_Test, WBytes (Test s)),
     opt_field (NestedStringExtension s \<noteq> []) (wireTestNestedExtension_TestAllExtensions_NestedStringExtension, WBytes (NestedStringExtension s))]"

definition TestNestedExtension_TestAllExtensions_content :: "TestNestedExtension_TestAllExtensions \<Rightarrow> wfield list" where
  "TestNestedExtension_TestAllExtensions_content s = concat (TestNestedExtension_TestAllExtensions_groups s)"

text \<open>What a round trip keeps.\<close>

definition TestNestedExtension_TestAllExtensions_norm :: "TestNestedExtension_TestAllExtensions \<Rightarrow> TestNestedExtension_TestAllExtensions" where
  "TestNestedExtension_TestAllExtensions_norm s = s"

definition TestNestedExtension_TestAllExtensions_ready :: "Reader \<Rightarrow> TestNestedExtension_TestAllExtensions \<Rightarrow> (TestNestedExtension_TestAllExtensionsReader \<Rightarrow> bool) list" where
  "TestNestedExtension_TestAllExtensions_ready p s = [
     \<lambda>m. cell_reads (readOne ReadString (bytes_of ''test'')) plain p (if Test s \<noteq> bytes_of ''test'' then Test s else bytes_of ''test'') (cellTest m),
     \<lambda>m. cell_reads (readOne ReadString []) plain p (if NestedStringExtension s \<noteq> [] then NestedStringExtension s else []) (cellNestedStringExtension m)]"

definition TestNestedExtension_TestAllExtensions_stored :: "TestNestedExtension_TestAllExtensions \<Rightarrow> (TestNestedExtension_TestAllExtensions \<Rightarrow> TestNestedExtension_TestAllExtensions) list" where
  "TestNestedExtension_TestAllExtensions_stored s = [
     \<lambda>res. res\<lparr>Test := if Test s \<noteq> bytes_of ''test'' then Test s else bytes_of ''test''\<rparr>,
     \<lambda>res. res\<lparr>NestedStringExtension := if NestedStringExtension s \<noteq> [] then NestedStringExtension s else []\<rparr>]"

lemma TestNestedExtension_TestAllExtensions_cases_distinct: "distinct (map fst (TestNestedExtension_TestAllExtensionsReader_cases wire offset))"
  by (rule ascending_distinct) (simp add: TestNestedExtension_TestAllExtensionsReader_cases_def wireTestNestedExtension_TestAllExtensions)

lemma TestNestedExtension_TestAllExtensions_stores:
  "stores_cell TestNestedExtension_TestAllExtensionsReader_save wireTestNestedExtension_TestAllExtensions_Test setOffset cellTest"
  "stores_cell TestNestedExtension_TestAllExtensionsReader_save wireTestNestedExtension_TestAllExtensions_NestedStringExtension setOffset cellNestedStringExtension"
  unfolding TestNestedExtension_TestAllExtensionsReader_save_def [abs_def] by (rule stores_cell_switch; (rule TestNestedExtension_TestAllExtensions_cases_distinct)?; unfold TestNestedExtension_TestAllExtensionsReader_cases_def; intro own_case.intros; simp)+

lemma TestNestedExtension_TestAllExtensions_saved: "good_fields TestNestedExtension_TestAllExtensionsReader_save p (NewTestNestedExtension_TestAllExtensionsReader\<lparr>mbuf := Some p\<rparr>) TestNestedExtension_TestAllExtensions_tags (TestNestedExtension_TestAllExtensions_groups s) (TestNestedExtension_TestAllExtensions_ready p s)"
  unfolding TestNestedExtension_TestAllExtensions_tags_def TestNestedExtension_TestAllExtensions_groups_def TestNestedExtension_TestAllExtensions_ready_def
  by (intro good_fields.intros field_saved TestNestedExtension_TestAllExtensions_stores) (simp_all add: NewTestNestedExtension_TestAllExtensionsReader_def newCell_def)

lemma TestNestedExtension_TestAllExtensions_converted: "good_stmts mbuf p (TestNestedExtension_TestAllExtensions_stmts) (TestNestedExtension_TestAllExtensions_ready p s) (TestNestedExtension_TestAllExtensions_stored s)"
  unfolding TestNestedExtension_TestAllExtensions_stmts_def TestNestedExtension_TestAllExtensions_ready_def TestNestedExtension_TestAllExtensions_stored_def TestNestedExtension_TestAllExtensions_getters append.simps
  by (intro good_stmts_field good_stmts.Nil) (simp_all cong: cell_reads_cong)

interpretation l_TestNestedExtension_TestAllExtensions: lazy_message TestNestedExtension_TestAllExtensions_tags TestNestedExtension_TestAllExtensions_groups TestNestedExtension_TestAllExtensions_norm
  "\<lambda>s. TestNestedExtension_TestAllExtensions_sizes s" "\<lambda>s. TestNestedExtension_TestAllExtensions_appends s"
  TestNestedExtension_TestAllExtensionsReader_save "\<lambda>p. NewTestNestedExtension_TestAllExtensionsReader\<lparr>mbuf := Some p\<rparr>" mbuf "TestNestedExtension_TestAllExtensions_stmts" TestNestedExtension_TestAllExtensions_zero TestNestedExtension_TestAllExtensions_ready TestNestedExtension_TestAllExtensions_stored
proof
  show "distinct TestNestedExtension_TestAllExtensions_tags"
    using TestNestedExtension_TestAllExtensions_cases_distinct by (simp only: TestNestedExtension_TestAllExtensionsReader_cases_def TestNestedExtension_TestAllExtensions_tags_def list.map fst_conv)
  show "list_all valid_tag TestNestedExtension_TestAllExtensions_tags"
    by (simp add: TestNestedExtension_TestAllExtensions_tags_def wireTestNestedExtension_TestAllExtensions valid_tag_def)
  show "list_all2 (\<lambda>t g. \<forall>f \<in> set g. fst f = t \<and> wf_val (snd f)) TestNestedExtension_TestAllExtensions_tags (TestNestedExtension_TestAllExtensions_groups s)" for s
    unfolding TestNestedExtension_TestAllExtensions_tags_def TestNestedExtension_TestAllExtensions_groups_def by (intro list.rel_intros field_tagged)
  show "list_all2 (\<lambda>e g. e = int (length (fields_bytes g))) (TestNestedExtension_TestAllExtensions_sizes s) (TestNestedExtension_TestAllExtensions_groups s)" for s
    unfolding TestNestedExtension_TestAllExtensions_sizes_def TestNestedExtension_TestAllExtensions_groups_def append.simps
    by (intro list.rel_intros field_sized)
  show "list_all2 (\<lambda>st g. writes st (fields_bytes g)) (TestNestedExtension_TestAllExtensions_appends s) (TestNestedExtension_TestAllExtensions_groups s)" for s
    unfolding TestNestedExtension_TestAllExtensions_appends_def TestNestedExtension_TestAllExtensions_groups_def append.simps
    by (intro list.rel_intros field_written)
  show "mbuf (TestNestedExtension_TestAllExtensionsReader_save t w off m) = mbuf m" for t w off m
    unfolding TestNestedExtension_TestAllExtensionsReader_save_def by (rule tag_switch_keeps) (simp add: TestNestedExtension_TestAllExtensionsReader_cases_def)
  show "fold (\<lambda>e. e) (TestNestedExtension_TestAllExtensions_stored s) TestNestedExtension_TestAllExtensions_zero = TestNestedExtension_TestAllExtensions_norm s" for s
    unfolding TestNestedExtension_TestAllExtensions_stored_def by (simp add: TestNestedExtension_TestAllExtensions_zero_def TestNestedExtension_TestAllExtensions_norm_def float_defaults)
qed (simp_all add: TestNestedExtension_TestAllExtensions_saved TestNestedExtension_TestAllExtensions_converted)

interpretation m_TestNestedExtension_TestAllExtensions: message_codec TestNestedExtension_TestAllExtensions_content TestNestedExtension_TestAllExtensions_norm TestNestedExtension_TestAllExtensions_XXX_PbContentSize TestNestedExtension_TestAllExtensions_MarshalTo
  "TestNestedExtension_TestAllExtensionsReader_Unmarshal NewTestNestedExtension_TestAllExtensionsReader" TestNestedExtension_TestAllExtensionsReader_ToStruct
  using l_TestNestedExtension_TestAllExtensions.message
  by (simp only: TestNestedExtension_TestAllExtensions_content_def [abs_def] TestNestedExtension_TestAllExtensions_XXX_PbContentSize_def TestNestedExtension_TestAllExtensions_MarshalTo_def TestNestedExtension_TestAllExtensionsReader_Unmarshal_def [abs_def] TestNestedExtension_TestAllExtensionsReader_ToStruct_def)


section \<open>TestChildExtension: the reader\<close>

definition wireTestChildExtension_A :: ProtoWireNumber where "wireTestChildExtension_A = 1"
definition wireTestChildExtension_B :: ProtoWireNumber where "wireTestChildExtension_B = 2"
definition wireTestChildExtension_OptionalExtension :: ProtoWireNumber where "wireTestChildExtension_OptionalExtension = 3"

lemmas wireTestChildExtension =
  wireTestChildExtension_A_def wireTestChildExtension_B_def
  wireTestChildExtension_OptionalExtension_def

record TestChildExtensionReader =
  mbuf :: "Reader option"
  cellA :: "gostring one_cell"
  cellB :: "gostring one_cell"
  cellOptionalExtension :: "(TestAllExtensionsReader option) one_cell"

definition NewTestChildExtensionReader :: TestChildExtensionReader where
  "NewTestChildExtensionReader = \<lparr>
     mbuf = None, cellA = newCell [] 0, cellB = newCell [] 0,
     cellOptionalExtension = newCell None 0\<rparr>"

definition TestChildExtensionReader_readA :: "TestChildExtensionReader \<Rightarrow> (gostring \<times> TestChildExtensionReader) run" where
  "TestChildExtensionReader_readA = readCell cellA cellA_update mbuf (readOne ReadString [])"

definition TestChildExtensionReader_GetA :: "TestChildExtensionReader option \<Rightarrow> (gostring \<times> TestChildExtensionReader option) run" where
  "TestChildExtensionReader_GetA = getter TestChildExtensionReader_readA []"

definition TestChildExtensionReader_readB :: "TestChildExtensionReader \<Rightarrow> (gostring \<times> TestChildExtensionReader) run" where
  "TestChildExtensionReader_readB = readCell cellB cellB_update mbuf (readOne ReadString [])"

definition TestChildExtensionReader_GetB :: "TestChildExtensionReader option \<Rightarrow> (gostring \<times> TestChildExtensionReader option) run" where
  "TestChildExtensionReader_GetB = getter TestChildExtensionReader_readB []"

definition TestChildExtensionReader_readOptionalExtension :: "TestChildExtensionReader \<Rightarrow> (TestAllExtensionsReader option \<times> TestChildExtensionReader) run" where
  "TestChildExtensionReader_readOptionalExtension = readCell cellOptionalExtension cellOptionalExtension_update mbuf (structReader (TestAllExtensionsReader_Unmarshal NewTestAllExtensionsReader))"

definition TestChildExtensionReader_GetOptionalExtension :: "TestChildExtensionReader option \<Rightarrow> (TestAllExtensionsReader option \<times> TestChildExtensionReader option) run" where
  "TestChildExtensionReader_GetOptionalExtension = getter TestChildExtensionReader_readOptionalExtension None"

lemmas TestChildExtension_getters =
  TestChildExtensionReader_readA_def TestChildExtensionReader_GetA_def
  TestChildExtensionReader_readB_def TestChildExtensionReader_GetB_def
  TestChildExtensionReader_readOptionalExtension_def TestChildExtensionReader_GetOptionalExtension_def

definition TestChildExtensionReader_cases :: "ProtoWireType \<Rightarrow> int \<Rightarrow> (ProtoWireNumber \<times> (TestChildExtensionReader \<Rightarrow> TestChildExtensionReader)) list" where
  "TestChildExtensionReader_cases wire offset = [
     (wireTestChildExtension_A, \<lambda>m. m\<lparr>cellA := onOffset (setOffset wire offset) (cellA m)\<rparr>),
     (wireTestChildExtension_B, \<lambda>m. m\<lparr>cellB := onOffset (setOffset wire offset) (cellB m)\<rparr>),
     (wireTestChildExtension_OptionalExtension, \<lambda>m. m\<lparr>cellOptionalExtension := onOffset (setOffset wire offset) (cellOptionalExtension m)\<rparr>)]"

definition TestChildExtensionReader_save :: "ProtoWireNumber \<Rightarrow> ProtoWireType \<Rightarrow> int \<Rightarrow> TestChildExtensionReader \<Rightarrow> TestChildExtensionReader" where
  "TestChildExtensionReader_save tag wire offset = tag_switch (TestChildExtensionReader_cases wire offset) tag"

definition TestChildExtensionReader_Unmarshal :: "TestChildExtensionReader \<Rightarrow> gslice \<Rightarrow> (TestChildExtensionReader \<times> string option) run" where
  "TestChildExtensionReader_Unmarshal m data =
     unmarshalLoop TestChildExtensionReader_save (NewReader data) 0 (m\<lparr>mbuf := Some (NewReader data)\<rparr>)"

definition TestChildExtensionReader_SourceBytes :: "TestChildExtensionReader option \<Rightarrow> gslice" where
  "TestChildExtensionReader_SourceBytes s = (case s of None \<Rightarrow> nil_slice | Some r \<Rightarrow> Bytes (mbuf r))"

section \<open>TestChildExtension: the struct\<close>

record TestChildExtension =
  A' :: gostring
  B' :: gostring
  OptionalExtension :: "TestAllExtensions option"

definition TestChildExtension_zero :: TestChildExtension where
  "TestChildExtension_zero = \<lparr>
     A' = [], B' = [], OptionalExtension = None\<rparr>"

definition TestChildExtension_stmts :: "(TestChildExtension \<times> TestChildExtensionReader option \<Rightarrow> (TestChildExtension \<times> TestChildExtensionReader option) run) list" where
  "TestChildExtension_stmts = [
     assign TestChildExtensionReader_GetA (\<lambda>v res. res\<lparr>A' := v\<rparr>),
     assign TestChildExtensionReader_GetB (\<lambda>v res. res\<lparr>B' := v\<rparr>),
     assignStruct TestChildExtensionReader_GetOptionalExtension (structToStruct TestAllExtensionsReader_ToStruct) cellOptionalExtension_update
       (\<lambda>v res. res\<lparr>OptionalExtension := v\<rparr>)]"

definition TestChildExtensionReader_ToStruct :: "TestChildExtensionReader option \<Rightarrow> (TestChildExtension option \<times> TestChildExtensionReader option) run" where
  "TestChildExtensionReader_ToStruct = toStructWith (TestChildExtension_stmts) TestChildExtension_zero"

definition TestChildExtension_appends :: "TestChildExtension \<Rightarrow> (Writer \<Rightarrow> Writer go) list" where
  "TestChildExtension_appends s = [
     \<lambda>res. if A' s \<noteq> [] then AppendString res wireTestChildExtension_A (A' s) else Ret res,
     \<lambda>res. if B' s \<noteq> [] then AppendString res wireTestChildExtension_B (B' s) else Ret res,
     \<lambda>res. if OptionalExtension s \<noteq> None then structWriter TestAllExtensions_XXX_PbContentSize TestAllExtensions_MarshalTo res wireTestChildExtension_OptionalExtension (OptionalExtension s) else Ret res]"

definition TestChildExtension_MarshalTo :: "Writer \<Rightarrow> TestChildExtension option \<Rightarrow> Writer go" where
  "TestChildExtension_MarshalTo = marshalToWith (\<lambda>s. TestChildExtension_appends s)"

definition TestChildExtension_sizes :: "TestChildExtension \<Rightarrow> int list" where
  "TestChildExtension_sizes s = [
     if A' s \<noteq> [] then sizeDelimitedWithTag SizeString wireTestChildExtension_A (A' s) else 0,
     if B' s \<noteq> [] then sizeDelimitedWithTag SizeString wireTestChildExtension_B (B' s) else 0,
     if OptionalExtension s \<noteq> None then sizeDelimitedWithTag TestAllExtensions_XXX_PbContentSize wireTestChildExtension_OptionalExtension (OptionalExtension s) else 0]"

definition TestChildExtension_XXX_PbContentSize :: "TestChildExtension option \<Rightarrow> int" where
  "TestChildExtension_XXX_PbContentSize = contentSizeWith (\<lambda>s. TestChildExtension_sizes s)"

definition TestChildExtension_Marshal :: "TestChildExtension option \<Rightarrow> byte list go" where
  "TestChildExtension_Marshal = marshalWith TestChildExtension_XXX_PbContentSize TestChildExtension_MarshalTo"

definition TestChildExtension_Copy :: "TestChildExtension option \<Rightarrow> TestChildExtension option" where
  "TestChildExtension_Copy s =
     (case s of None \<Rightarrow> None | Some s \<Rightarrow> Some \<lparr>
        A' = A' s, B' = B' s,
        OptionalExtension = (case OptionalExtension s of None \<Rightarrow> None | Some x \<Rightarrow> TestAllExtensions_Copy (Some x))\<rparr>)"

section \<open>TestChildExtension: the round trip\<close>

definition TestChildExtension_tags :: "ProtoWireNumber list" where
  "TestChildExtension_tags = [
     wireTestChildExtension_A, wireTestChildExtension_B,
     wireTestChildExtension_OptionalExtension]"

definition TestChildExtension_groups :: "TestChildExtension \<Rightarrow> wfield list list" where
  "TestChildExtension_groups s = [
     opt_field (A' s \<noteq> []) (wireTestChildExtension_A, WBytes (A' s)),
     opt_field (B' s \<noteq> []) (wireTestChildExtension_B, WBytes (B' s)),
     opt_field (OptionalExtension s \<noteq> None) (wireTestChildExtension_OptionalExtension, WBytes (ptr_bytes TestAllExtensions_content (OptionalExtension s)))]"

definition TestChildExtension_content :: "TestChildExtension \<Rightarrow> wfield list" where
  "TestChildExtension_content s = concat (TestChildExtension_groups s)"

text \<open>What a round trip keeps.\<close>

definition TestChildExtension_norm :: "TestChildExtension \<Rightarrow> TestChildExtension" where
  "TestChildExtension_norm s = s\<lparr>
     OptionalExtension := norm_ptr TestAllExtensions_content TestAllExtensions_norm (OptionalExtension s)\<rparr>"

definition TestChildExtension_ready :: "Reader \<Rightarrow> TestChildExtension \<Rightarrow> (TestChildExtensionReader \<Rightarrow> bool) list" where
  "TestChildExtension_ready p s = [
     \<lambda>m. cell_reads (readOne ReadString []) plain p (if A' s \<noteq> [] then A' s else []) (cellA m),
     \<lambda>m. cell_reads (readOne ReadString []) plain p (if B' s \<noteq> [] then B' s else []) (cellB m),
     \<lambda>m. cell_reads (structReader (TestAllExtensionsReader_Unmarshal NewTestAllExtensionsReader)) (structToStruct TestAllExtensionsReader_ToStruct) p (norm_ptr TestAllExtensions_content TestAllExtensions_norm (OptionalExtension s)) (cellOptionalExtension m)]"

definition TestChildExtension_stored :: "TestChildExtension \<Rightarrow> (TestChildExtension \<Rightarrow> TestChildExtension) list" where
  "TestChildExtension_stored s = [
     \<lambda>res. res\<lparr>A' := if A' s \<noteq> [] then A' s else []\<rparr>,
     \<lambda>res. res\<lparr>B' := if B' s \<noteq> [] then B' s else []\<rparr>,
     \<lambda>res. res\<lparr>OptionalExtension := norm_ptr TestAllExtensions_content TestAllExtensions_norm (OptionalExtension s)\<rparr>]"

lemma TestChildExtension_cases_distinct: "distinct (map fst (TestChildExtensionReader_cases wire offset))"
  by (rule ascending_distinct) (simp add: TestChildExtensionReader_cases_def wireTestChildExtension)

lemma TestChildExtension_stores:
  "stores_cell TestChildExtensionReader_save wireTestChildExtension_A setOffset cellA"
  "stores_cell TestChildExtensionReader_save wireTestChildExtension_B setOffset cellB"
  "stores_cell TestChildExtensionReader_save wireTestChildExtension_OptionalExtension setOffset cellOptionalExtension"
  unfolding TestChildExtensionReader_save_def [abs_def] by (rule stores_cell_switch; (rule TestChildExtension_cases_distinct)?; unfold TestChildExtensionReader_cases_def; intro own_case.intros; simp)+

lemma TestChildExtension_saved: "good_fields TestChildExtensionReader_save p (NewTestChildExtensionReader\<lparr>mbuf := Some p\<rparr>) TestChildExtension_tags (TestChildExtension_groups s) (TestChildExtension_ready p s)"
  unfolding TestChildExtension_tags_def TestChildExtension_groups_def TestChildExtension_ready_def
  by (intro good_fields.intros field_saved m_TestAllExtensions.saved_struct TestChildExtension_stores) (simp_all add: NewTestChildExtensionReader_def newCell_def)

lemma TestChildExtension_converted: "good_stmts mbuf p (TestChildExtension_stmts) (TestChildExtension_ready p s) (TestChildExtension_stored s)"
  unfolding TestChildExtension_stmts_def TestChildExtension_ready_def TestChildExtension_stored_def TestChildExtension_getters append.simps
  by (intro good_stmts_field good_stmts.Nil) (simp_all cong: cell_reads_cong)

interpretation l_TestChildExtension: lazy_message TestChildExtension_tags TestChildExtension_groups TestChildExtension_norm
  "\<lambda>s. TestChildExtension_sizes s" "\<lambda>s. TestChildExtension_appends s"
  TestChildExtensionReader_save "\<lambda>p. NewTestChildExtensionReader\<lparr>mbuf := Some p\<rparr>" mbuf "TestChildExtension_stmts" TestChildExtension_zero TestChildExtension_ready TestChildExtension_stored
proof
  show "distinct TestChildExtension_tags"
    using TestChildExtension_cases_distinct by (simp only: TestChildExtensionReader_cases_def TestChildExtension_tags_def list.map fst_conv)
  show "list_all valid_tag TestChildExtension_tags"
    by (simp add: TestChildExtension_tags_def wireTestChildExtension valid_tag_def)
  show "list_all2 (\<lambda>t g. \<forall>f \<in> set g. fst f = t \<and> wf_val (snd f)) TestChildExtension_tags (TestChildExtension_groups s)" for s
    unfolding TestChildExtension_tags_def TestChildExtension_groups_def by (intro list.rel_intros field_tagged m_TestAllExtensions.tagged_struct)
  show "list_all2 (\<lambda>e g. e = int (length (fields_bytes g))) (TestChildExtension_sizes s) (TestChildExtension_groups s)" for s
    unfolding TestChildExtension_sizes_def TestChildExtension_groups_def append.simps
    by (intro list.rel_intros field_sized m_TestAllExtensions.sized_struct)
  show "list_all2 (\<lambda>st g. writes st (fields_bytes g)) (TestChildExtension_appends s) (TestChildExtension_groups s)" for s
    unfolding TestChildExtension_appends_def TestChildExtension_groups_def append.simps
    by (intro list.rel_intros field_written m_TestAllExtensions.written_struct)
  show "mbuf (TestChildExtensionReader_save t w off m) = mbuf m" for t w off m
    unfolding TestChildExtensionReader_save_def by (rule tag_switch_keeps) (simp add: TestChildExtensionReader_cases_def)
  show "fold (\<lambda>e. e) (TestChildExtension_stored s) TestChildExtension_zero = TestChildExtension_norm s" for s
    unfolding TestChildExtension_stored_def by (simp add: TestChildExtension_zero_def TestChildExtension_norm_def float_defaults)
qed (simp_all add: TestChildExtension_saved TestChildExtension_converted)

interpretation m_TestChildExtension: message_codec TestChildExtension_content TestChildExtension_norm TestChildExtension_XXX_PbContentSize TestChildExtension_MarshalTo
  "TestChildExtensionReader_Unmarshal NewTestChildExtensionReader" TestChildExtensionReader_ToStruct
  using l_TestChildExtension.message
  by (simp only: TestChildExtension_content_def [abs_def] TestChildExtension_XXX_PbContentSize_def TestChildExtension_MarshalTo_def TestChildExtensionReader_Unmarshal_def [abs_def] TestChildExtensionReader_ToStruct_def)


section \<open>TestNestedChildExtension: the reader\<close>

definition wireTestNestedChildExtension_A :: ProtoWireNumber where "wireTestNestedChildExtension_A = 1"
definition wireTestNestedChildExtension_Child :: ProtoWireNumber where "wireTestNestedChildExtension_Child = 2"

lemmas wireTestNestedChildExtension =
  wireTestNestedChildExtension_A_def wireTestNestedChildExtension_Child_def

record TestNestedChildExtensionReader =
  mbuf :: "Reader option"
  cellA :: "int32 one_cell"
  cellChild :: "(TestChildExtensionReader option) one_cell"

definition NewTestNestedChildExtensionReader :: TestNestedChildExtensionReader where
  "NewTestNestedChildExtensionReader = \<lparr>
     mbuf = None, cellA = newCell 0 0, cellChild = newCell None 0\<rparr>"

definition TestNestedChildExtensionReader_readA :: "TestNestedChildExtensionReader \<Rightarrow> (int32 \<times> TestNestedChildExtensionReader) run" where
  "TestNestedChildExtensionReader_readA = readCell cellA cellA_update mbuf (readOne ReadInt32 0)"

definition TestNestedChildExtensionReader_GetA :: "TestNestedChildExtensionReader option \<Rightarrow> (int32 \<times> TestNestedChildExtensionReader option) run" where
  "TestNestedChildExtensionReader_GetA = getter TestNestedChildExtensionReader_readA 0"

definition TestNestedChildExtensionReader_readChild :: "TestNestedChildExtensionReader \<Rightarrow> (TestChildExtensionReader option \<times> TestNestedChildExtensionReader) run" where
  "TestNestedChildExtensionReader_readChild = readCell cellChild cellChild_update mbuf (structReader (TestChildExtensionReader_Unmarshal NewTestChildExtensionReader))"

definition TestNestedChildExtensionReader_GetChild :: "TestNestedChildExtensionReader option \<Rightarrow> (TestChildExtensionReader option \<times> TestNestedChildExtensionReader option) run" where
  "TestNestedChildExtensionReader_GetChild = getter TestNestedChildExtensionReader_readChild None"

lemmas TestNestedChildExtension_getters =
  TestNestedChildExtensionReader_readA_def TestNestedChildExtensionReader_GetA_def
  TestNestedChildExtensionReader_readChild_def TestNestedChildExtensionReader_GetChild_def

definition TestNestedChildExtensionReader_cases :: "ProtoWireType \<Rightarrow> int \<Rightarrow> (ProtoWireNumber \<times> (TestNestedChildExtensionReader \<Rightarrow> TestNestedChildExtensionReader)) list" where
  "TestNestedChildExtensionReader_cases wire offset = [
     (wireTestNestedChildExtension_A, \<lambda>m. m\<lparr>cellA := onOffset (setOffset wire offset) (cellA m)\<rparr>),
     (wireTestNestedChildExtension_Child, \<lambda>m. m\<lparr>cellChild := onOffset (setOffset wire offset) (cellChild m)\<rparr>)]"

definition TestNestedChildExtensionReader_save :: "ProtoWireNumber \<Rightarrow> ProtoWireType \<Rightarrow> int \<Rightarrow> TestNestedChildExtensionReader \<Rightarrow> TestNestedChildExtensionReader" where
  "TestNestedChildExtensionReader_save tag wire offset = tag_switch (TestNestedChildExtensionReader_cases wire offset) tag"

definition TestNestedChildExtensionReader_Unmarshal :: "TestNestedChildExtensionReader \<Rightarrow> gslice \<Rightarrow> (TestNestedChildExtensionReader \<times> string option) run" where
  "TestNestedChildExtensionReader_Unmarshal m data =
     unmarshalLoop TestNestedChildExtensionReader_save (NewReader data) 0 (m\<lparr>mbuf := Some (NewReader data)\<rparr>)"

definition TestNestedChildExtensionReader_SourceBytes :: "TestNestedChildExtensionReader option \<Rightarrow> gslice" where
  "TestNestedChildExtensionReader_SourceBytes s = (case s of None \<Rightarrow> nil_slice | Some r \<Rightarrow> Bytes (mbuf r))"

section \<open>TestNestedChildExtension: the struct\<close>

record TestNestedChildExtension =
  A' :: int32
  Child :: "TestChildExtension option"

definition TestNestedChildExtension_zero :: TestNestedChildExtension where
  "TestNestedChildExtension_zero = \<lparr>
     A' = 0, Child = None\<rparr>"

definition TestNestedChildExtension_stmts :: "(TestNestedChildExtension \<times> TestNestedChildExtensionReader option \<Rightarrow> (TestNestedChildExtension \<times> TestNestedChildExtensionReader option) run) list" where
  "TestNestedChildExtension_stmts = [
     assign TestNestedChildExtensionReader_GetA (\<lambda>v res. res\<lparr>A' := v\<rparr>),
     assignStruct TestNestedChildExtensionReader_GetChild (structToStruct TestChildExtensionReader_ToStruct) cellChild_update
       (\<lambda>v res. res\<lparr>Child := v\<rparr>)]"

definition TestNestedChildExtensionReader_ToStruct :: "TestNestedChildExtensionReader option \<Rightarrow> (TestNestedChildExtension option \<times> TestNestedChildExtensionReader option) run" where
  "TestNestedChildExtensionReader_ToStruct = toStructWith (TestNestedChildExtension_stmts) TestNestedChildExtension_zero"

definition TestNestedChildExtension_appends :: "TestNestedChildExtension \<Rightarrow> (Writer \<Rightarrow> Writer go) list" where
  "TestNestedChildExtension_appends s = [
     \<lambda>res. if A' s \<noteq> 0 then AppendInt32 res wireTestNestedChildExtension_A (A' s) else Ret res,
     \<lambda>res. if Child s \<noteq> None then structWriter TestChildExtension_XXX_PbContentSize TestChildExtension_MarshalTo res wireTestNestedChildExtension_Child (Child s) else Ret res]"

definition TestNestedChildExtension_MarshalTo :: "Writer \<Rightarrow> TestNestedChildExtension option \<Rightarrow> Writer go" where
  "TestNestedChildExtension_MarshalTo = marshalToWith (\<lambda>s. TestNestedChildExtension_appends s)"

definition TestNestedChildExtension_sizes :: "TestNestedChildExtension \<Rightarrow> int list" where
  "TestNestedChildExtension_sizes s = [
     if A' s \<noteq> 0 then sizeWithTag SizeInt32 wireTestNestedChildExtension_A (A' s) else 0,
     if Child s \<noteq> None then sizeDelimitedWithTag TestChildExtension_XXX_PbContentSize wireTestNestedChildExtension_Child (Child s) else 0]"

definition TestNestedChildExtension_XXX_PbContentSize :: "TestNestedChildExtension option \<Rightarrow> int" where
  "TestNestedChildExtension_XXX_PbContentSize = contentSizeWith (\<lambda>s. TestNestedChildExtension_sizes s)"

definition TestNestedChildExtension_Marshal :: "TestNestedChildExtension option \<Rightarrow> byte list go" where
  "TestNestedChildExtension_Marshal = marshalWith TestNestedChildExtension_XXX_PbContentSize TestNestedChildExtension_MarshalTo"

definition TestNestedChildExtension_Copy :: "TestNestedChildExtension option \<Rightarrow> TestNestedChildExtension option" where
  "TestNestedChildExtension_Copy s =
     (case s of None \<Rightarrow> None | Some s \<Rightarrow> Some \<lparr>
        A' = A' s,
        Child = (case Child s of None \<Rightarrow> None | Some x \<Rightarrow> TestChildExtension_Copy (Some x))\<rparr>)"

section \<open>TestNestedChildExtension: the round trip\<close>

definition TestNestedChildExtension_tags :: "ProtoWireNumber list" where
  "TestNestedChildExtension_tags = [
     wireTestNestedChildExtension_A, wireTestNestedChildExtension_Child]"

definition TestNestedChildExtension_groups :: "TestNestedChildExtension \<Rightarrow> wfield list list" where
  "TestNestedChildExtension_groups s = [
     opt_field (A' s \<noteq> 0) (wireTestNestedChildExtension_A, int32_val (A' s)),
     opt_field (Child s \<noteq> None) (wireTestNestedChildExtension_Child, WBytes (ptr_bytes TestChildExtension_content (Child s)))]"

definition TestNestedChildExtension_content :: "TestNestedChildExtension \<Rightarrow> wfield list" where
  "TestNestedChildExtension_content s = concat (TestNestedChildExtension_groups s)"

text \<open>What a round trip keeps.\<close>

definition TestNestedChildExtension_norm :: "TestNestedChildExtension \<Rightarrow> TestNestedChildExtension" where
  "TestNestedChildExtension_norm s = s\<lparr>
     Child := norm_ptr TestChildExtension_content TestChildExtension_norm (Child s)\<rparr>"

definition TestNestedChildExtension_ready :: "Reader \<Rightarrow> TestNestedChildExtension \<Rightarrow> (TestNestedChildExtensionReader \<Rightarrow> bool) list" where
  "TestNestedChildExtension_ready p s = [
     \<lambda>m. cell_reads (readOne ReadInt32 0) plain p (if A' s \<noteq> 0 then A' s else 0) (cellA m),
     \<lambda>m. cell_reads (structReader (TestChildExtensionReader_Unmarshal NewTestChildExtensionReader)) (structToStruct TestChildExtensionReader_ToStruct) p (norm_ptr TestChildExtension_content TestChildExtension_norm (Child s)) (cellChild m)]"

definition TestNestedChildExtension_stored :: "TestNestedChildExtension \<Rightarrow> (TestNestedChildExtension \<Rightarrow> TestNestedChildExtension) list" where
  "TestNestedChildExtension_stored s = [
     \<lambda>res. res\<lparr>A' := if A' s \<noteq> 0 then A' s else 0\<rparr>,
     \<lambda>res. res\<lparr>Child := norm_ptr TestChildExtension_content TestChildExtension_norm (Child s)\<rparr>]"

lemma TestNestedChildExtension_cases_distinct: "distinct (map fst (TestNestedChildExtensionReader_cases wire offset))"
  by (rule ascending_distinct) (simp add: TestNestedChildExtensionReader_cases_def wireTestNestedChildExtension)

lemma TestNestedChildExtension_stores:
  "stores_cell TestNestedChildExtensionReader_save wireTestNestedChildExtension_A setOffset cellA"
  "stores_cell TestNestedChildExtensionReader_save wireTestNestedChildExtension_Child setOffset cellChild"
  unfolding TestNestedChildExtensionReader_save_def [abs_def] by (rule stores_cell_switch; (rule TestNestedChildExtension_cases_distinct)?; unfold TestNestedChildExtensionReader_cases_def; intro own_case.intros; simp)+

lemma TestNestedChildExtension_saved: "good_fields TestNestedChildExtensionReader_save p (NewTestNestedChildExtensionReader\<lparr>mbuf := Some p\<rparr>) TestNestedChildExtension_tags (TestNestedChildExtension_groups s) (TestNestedChildExtension_ready p s)"
  unfolding TestNestedChildExtension_tags_def TestNestedChildExtension_groups_def TestNestedChildExtension_ready_def
  by (intro good_fields.intros field_saved m_TestChildExtension.saved_struct TestNestedChildExtension_stores) (simp_all add: NewTestNestedChildExtensionReader_def newCell_def)

lemma TestNestedChildExtension_converted: "good_stmts mbuf p (TestNestedChildExtension_stmts) (TestNestedChildExtension_ready p s) (TestNestedChildExtension_stored s)"
  unfolding TestNestedChildExtension_stmts_def TestNestedChildExtension_ready_def TestNestedChildExtension_stored_def TestNestedChildExtension_getters append.simps
  by (intro good_stmts_field good_stmts.Nil) (simp_all cong: cell_reads_cong)

interpretation l_TestNestedChildExtension: lazy_message TestNestedChildExtension_tags TestNestedChildExtension_groups TestNestedChildExtension_norm
  "\<lambda>s. TestNestedChildExtension_sizes s" "\<lambda>s. TestNestedChildExtension_appends s"
  TestNestedChildExtensionReader_save "\<lambda>p. NewTestNestedChildExtensionReader\<lparr>mbuf := Some p\<rparr>" mbuf "TestNestedChildExtension_stmts" TestNestedChildExtension_zero TestNestedChildExtension_ready TestNestedChildExtension_stored
proof
  show "distinct TestNestedChildExtension_tags"
    using TestNestedChildExtension_cases_distinct by (simp only: TestNestedChildExtensionReader_cases_def TestNestedChildExtension_tags_def list.map fst_conv)
  show "list_all valid_tag TestNestedChildExtension_tags"
    by (simp add: TestNestedChildExtension_tags_def wireTestNestedChildExtension valid_tag_def)
  show "list_all2 (\<lambda>t g. \<forall>f \<in> set g. fst f = t \<and> wf_val (snd f)) TestNestedChildExtension_tags (TestNestedChildExtension_groups s)" for s
    unfolding TestNestedChildExtension_tags_def TestNestedChildExtension_groups_def by (intro list.rel_intros field_tagged m_TestChildExtension.tagged_struct)
  show "list_all2 (\<lambda>e g. e = int (length (fields_bytes g))) (TestNestedChildExtension_sizes s) (TestNestedChildExtension_groups s)" for s
    unfolding TestNestedChildExtension_sizes_def TestNestedChildExtension_groups_def append.simps
    by (intro list.rel_intros field_sized m_TestChildExtension.sized_struct)
  show "list_all2 (\<lambda>st g. writes st (fields_bytes g)) (TestNestedChildExtension_appends s) (TestNestedChildExtension_groups s)" for s
    unfolding TestNestedChildExtension_appends_def TestNestedChildExtension_groups_def append.simps
    by (intro list.rel_intros field_written m_TestChildExtension.written_struct)
  show "mbuf (TestNestedChildExtensionReader_save t w off m) = mbuf m" for t w off m
    unfolding TestNestedChildExtensionReader_save_def by (rule tag_switch_keeps) (simp add: TestNestedChildExtensionReader_cases_def)
  show "fold (\<lambda>e. e) (TestNestedChildExtension_stored s) TestNestedChildExtension_zero = TestNestedChildExtension_norm s" for s
    unfolding TestNestedChildExtension_stored_def by (simp add: TestNestedChildExtension_zero_def TestNestedChildExtension_norm_def float_defaults)
qed (simp_all add: TestNestedChildExtension_saved TestNestedChildExtension_converted)

interpretation m_TestNestedChildExtension: message_codec TestNestedChildExtension_content TestNestedChildExtension_norm TestNestedChildExtension_XXX_PbContentSize TestNestedChildExtension_MarshalTo
  "TestNestedChildExtensionReader_Unmarshal NewTestNestedChildExtensionReader" TestNestedChildExtensionReader_ToStruct
  using l_TestNestedChildExtension.message
  by (simp only: TestNestedChildExtension_content_def [abs_def] TestNestedChildExtension_XXX_PbContentSize_def TestNestedChildExtension_MarshalTo_def TestNestedChildExtensionReader_Unmarshal_def [abs_def] TestNestedChildExtensionReader_ToStruct_def)


section \<open>TestChildExtensionData_NestedTestAllExtensionsData_NestedDynamicExtensions: the reader\<close>

definition wireTestChildExtensionData_NestedTestAllExtensionsData_NestedDynamicExtensions_A :: ProtoWireNumber where "wireTestChildExtensionData_NestedTestAllExtensionsData_NestedDynamicExtensions_A = 1"
definition wireTestChildExtensionData_NestedTestAllExtensionsData_NestedDynamicExtensions_B :: ProtoWireNumber where "wireTestChildExtensionData_NestedTestAllExtensionsData_NestedDynamicExtensions_B = 2"

lemmas wireTestChildExtensionData_NestedTestAllExtensionsData_NestedDynamicExtensions =
  wireTestChildExtensionData_NestedTestAllExtensionsData_NestedDynamicExtensions_A_def
  wireTestChildExtensionData_NestedTestAllExtensionsData_NestedDynamicExtensions_B_def

record TestChildExtensionData_NestedTestAllExtensionsData_NestedDynamicExtensionsReader =
  mbuf :: "Reader option"
  cellA :: "int32 one_cell"
  cellB :: "int32 one_cell"

definition NewTestChildExtensionData_NestedTestAllExtensionsData_NestedDynamicExtensionsReader :: TestChildExtensionData_NestedTestAllExtensionsData_NestedDynamicExtensionsReader where
  "NewTestChildExtensionData_NestedTestAllExtensionsData_NestedDynamicExtensionsReader = \<lparr>
     mbuf = None, cellA = newCell 0 0, cellB = newCell 0 0\<rparr>"

definition TestChildExtensionData_NestedTestAllExtensionsData_NestedDynamicExtensionsReader_readA :: "TestChildExtensionData_NestedTestAllExtensionsData_NestedDynamicExtensionsReader \<Rightarrow> (int32 \<times> TestChildExtensionData_NestedTestAllExtensionsData_NestedDynamicExtensionsReader) run" where
  "TestChildExtensionData_NestedTestAllExtensionsData_NestedDynamicExtensionsReader_readA = readCell cellA cellA_update mbuf (readOne ReadInt32 0)"

definition TestChildExtensionData_NestedTestAllExtensionsData_NestedDynamicExtensionsReader_GetA :: "TestChildExtensionData_NestedTestAllExtensionsData_NestedDynamicExtensionsReader option \<Rightarrow> (int32 \<times> TestChildExtensionData_NestedTestAllExtensionsData_NestedDynamicExtensionsReader option) run" where
  "TestChildExtensionData_NestedTestAllExtensionsData_NestedDynamicExtensionsReader_GetA = getter TestChildExtensionData_NestedTestAllExtensionsData_NestedDynamicExtensionsReader_readA 0"

definition TestChildExtensionData_NestedTestAllExtensionsData_NestedDynamicExtensionsReader_readB :: "TestChildExtensionData_NestedTestAllExtensionsData_NestedDynamicExtensionsReader \<Rightarrow> (int32 \<times> TestChildExtensionData_NestedTestAllExtensionsData_NestedDynamicExtensionsReader) run" where
  "TestChildExtensionData_NestedTestAllExtensionsData_NestedDynamicExtensionsReader_readB = readCell cellB cellB_update mbuf (readOne ReadInt32 0)"

definition TestChildExtensionData_NestedTestAllExtensionsData_NestedDynamicExtensionsReader_GetB :: "TestChildExtensionData_NestedTestAllExtensionsData_NestedDynamicExtensionsReader option \<Rightarrow> (int32 \<times> TestChildExtensionData_NestedTestAllExtensionsData_NestedDynamicExtensionsReader option) run" where
  "TestChildExtensionData_NestedTestAllExtensionsData_NestedDynamicExtensionsReader_GetB = getter TestChildExtensionData_NestedTestAllExtensionsData_NestedDynamicExtensionsReader_readB 0"

lemmas TestChildExtensionData_NestedTestAllExtensionsData_NestedDynamicExtensions_getters =
  TestChildExtensionData_NestedTestAllExtensionsData_NestedDynamicExtensionsReader_readA_def TestChildExtensionData_NestedTestAllExtensionsData_NestedDynamicExtensionsReader_GetA_def
  TestChildExtensionData_NestedTestAllExtensionsData_NestedDynamicExtensionsReader_readB_def TestChildExtensionData_NestedTestAllExtensionsData_NestedDynamicExtensionsReader_GetB_def

definition TestChildExtensionData_NestedTestAllExtensionsData_NestedDynamicExtensionsReader_cases :: "ProtoWireType \<Rightarrow> int \<Rightarrow> (ProtoWireNumber \<times> (TestChildExtensionData_NestedTestAllExtensionsData_NestedDynamicExtensionsReader \<Rightarrow> TestChildExtensionData_NestedTestAllExtensionsData_NestedDynamicExtensionsReader)) list" where
  "TestChildExtensionData_NestedTestAllExtensionsData_NestedDynamicExtensionsReader_cases wire offset = [
     (wireTestChildExtensionData_NestedTestAllExtensionsData_NestedDynamicExtensions_A, \<lambda>m. m\<lparr>cellA := onOffset (setOffset wire offset) (cellA m)\<rparr>),
     (wireTestChildExtensionData_NestedTestAllExtensionsData_NestedDynamicExtensions_B, \<lambda>m. m\<lparr>cellB := onOffset (setOffset wire offset) (cellB m)\<rparr>)]"

definition TestChildExtensionData_NestedTestAllExtensionsData_NestedDynamicExtensionsReader_save :: "ProtoWireNumber \<Rightarrow> ProtoWireType \<Rightarrow> int \<Rightarrow> TestChildExtensionData_NestedTestAllExtensionsData_NestedDynamicExtensionsReader \<Rightarrow> TestChildExtensionData_NestedTestAllExtensionsData_NestedDynamicExtensionsReader" where
  "TestChildExtensionData_NestedTestAllExtensionsData_NestedDynamicExtensionsReader_save tag wire offset = tag_switch (TestChildExtensionData_NestedTestAllExtensionsData_NestedDynamicExtensionsReader_cases wire offset) tag"

definition TestChildExtensionData_NestedTestAllExtensionsData_NestedDynamicExtensionsReader_Unmarshal :: "TestChildExtensionData_NestedTestAllExtensionsData_NestedDynamicExtensionsReader \<Rightarrow> gslice \<Rightarrow> (TestChildExtensionData_NestedTestAllExtensionsData_NestedDynamicExtensionsReader \<times> string option) run" where
  "TestChildExtensionData_NestedTestAllExtensionsData_NestedDynamicExtensionsReader_Unmarshal m data =
     unmarshalLoop TestChildExtensionData_NestedTestAllExtensionsData_NestedDynamicExtensionsReader_save (NewReader data) 0 (m\<lparr>mbuf := Some (NewReader data)\<rparr>)"

definition TestChildExtensionData_NestedTestAllExtensionsData_NestedDynamicExtensionsReader_SourceBytes :: "TestChildExtensionData_NestedTestAllExtensionsData_NestedDynamicExtensionsReader option \<Rightarrow> gslice" where
  "TestChildExtensionData_NestedTestAllExtensionsData_NestedDynamicExtensionsReader_SourceBytes s = (case s of None \<Rightarrow> nil_slice | Some r \<Rightarrow> Bytes (mbuf r))"

section \<open>TestChildExtensionData_NestedTestAllExtensionsData_NestedDynamicExtensions: the struct\<close>

record TestChildExtensionData_NestedTestAllExtensionsData_NestedDynamicExtensions =
  A' :: int32
  B' :: int32

definition TestChildExtensionData_NestedTestAllExtensionsData_NestedDynamicExtensions_zero :: TestChildExtensionData_NestedTestAllExtensionsData_NestedDynamicExtensions where
  "TestChildExtensionData_NestedTestAllExtensionsData_NestedDynamicExtensions_zero = \<lparr>
     A' = 0, B' = 0\<rparr>"

definition TestChildExtensionData_NestedTestAllExtensionsData_NestedDynamicExtensions_stmts :: "(TestChildExtensionData_NestedTestAllExtensionsData_NestedDynamicExtensions \<times> TestChildExtensionData_NestedTestAllExtensionsData_NestedDynamicExtensionsReader option \<Rightarrow> (TestChildExtensionData_NestedTestAllExtensionsData_NestedDynamicExtensions \<times> TestChildExtensionData_NestedTestAllExtensionsData_NestedDynamicExtensionsReader option) run) list" where
  "TestChildExtensionData_NestedTestAllExtensionsData_NestedDynamicExtensions_stmts = [
     assign TestChildExtensionData_NestedTestAllExtensionsData_NestedDynamicExtensionsReader_GetA (\<lambda>v res. res\<lparr>A' := v\<rparr>),
     assign TestChildExtensionData_NestedTestAllExtensionsData_NestedDynamicExtensionsReader_GetB (\<lambda>v res. res\<lparr>B' := v\<rparr>)]"

definition TestChildExtensionData_NestedTestAllExtensionsData_NestedDynamicExtensionsReader_ToStruct :: "TestChildExtensionData_NestedTestAllExtensionsData_NestedDynamicExtensionsReader option \<Rightarrow> (TestChildExtensionData_NestedTestAllExtensionsData_NestedDynamicExtensions option \<times> TestChildExtensionData_NestedTestAllExtensionsData_NestedDynamicExtensionsReader option) run" where
  "TestChildExtensionData_NestedTestAllExtensionsData_NestedDynamicExtensionsReader_ToStruct = toStructWith (TestChildExtensionData_NestedTestAllExtensionsData_NestedDynamicExtensions_stmts) TestChildExtensionData_NestedTestAllExtensionsData_NestedDynamicExtensions_zero"

definition TestChildExtensionData_NestedTestAllExtensionsData_NestedDynamicExtensions_appends :: "TestChildExtensionData_NestedTestAllExtensionsData_NestedDynamicExtensions \<Rightarrow> (Writer \<Rightarrow> Writer go) list" where
  "TestChildExtensionData_NestedTestAllExtensionsData_NestedDynamicExtensions_appends s = [
     \<lambda>res. if A' s \<noteq> 0 then AppendInt32 res wireTestChildExtensionData_NestedTestAllExtensionsData_NestedDynamicExtensions_A (A' s) else Ret res,
     \<lambda>res. if B' s \<noteq> 0 then AppendInt32 res wireTestChildExtensionData_NestedTestAllExtensionsData_NestedDynamicExtensions_B (B' s) else Ret res]"

definition TestChildExtensionData_NestedTestAllExtensionsData_NestedDynamicExtensions_MarshalTo :: "Writer \<Rightarrow> TestChildExtensionData_NestedTestAllExtensionsData_NestedDynamicExtensions option \<Rightarrow> Writer go" where
  "TestChildExtensionData_NestedTestAllExtensionsData_NestedDynamicExtensions_MarshalTo = marshalToWith (\<lambda>s. TestChildExtensionData_NestedTestAllExtensionsData_NestedDynamicExtensions_appends s)"

definition TestChildExtensionData_NestedTestAllExtensionsData_NestedDynamicExtensions_sizes :: "TestChildExtensionData_NestedTestAllExtensionsData_NestedDynamicExtensions \<Rightarrow> int list" where
  "TestChildExtensionData_NestedTestAllExtensionsData_NestedDynamicExtensions_sizes s = [
     if A' s \<noteq> 0 then sizeWithTag SizeInt32 wireTestChildExtensionData_NestedTestAllExtensionsData_NestedDynamicExtensions_A (A' s) else 0,
     if B' s \<noteq> 0 then sizeWithTag SizeInt32 wireTestChildExtensionData_NestedTestAllExtensionsData_NestedDynamicExtensions_B (B' s) else 0]"

definition TestChildExtensionData_NestedTestAllExtensionsData_NestedDynamicExtensions_XXX_PbContentSize :: "TestChildExtensionData_NestedTestAllExtensionsData_NestedDynamicExtensions option \<Rightarrow> int" where
  "TestChildExtensionData_NestedTestAllExtensionsData_NestedDynamicExtensions_XXX_PbContentSize = contentSizeWith (\<lambda>s. TestChildExtensionData_NestedTestAllExtensionsData_NestedDynamicExtensions_sizes s)"

definition TestChildExtensionData_NestedTestAllExtensionsData_NestedDynamicExtensions_Marshal :: "TestChildExtensionData_NestedTestAllExtensionsData_NestedDynamicExtensions option \<Rightarrow> byte list go" where
  "TestChildExtensionData_NestedTestAllExtensionsData_NestedDynamicExtensions_Marshal = marshalWith TestChildExtensionData_NestedTestAllExtensionsData_NestedDynamicExtensions_XXX_PbContentSize TestChildExtensionData_NestedTestAllExtensionsData_NestedDynamicExtensions_MarshalTo"

definition TestChildExtensionData_NestedTestAllExtensionsData_NestedDynamicExtensions_Copy :: "TestChildExtensionData_NestedTestAllExtensionsData_NestedDynamicExtensions option \<Rightarrow> TestChildExtensionData_NestedTestAllExtensionsData_NestedDynamicExtensions option" where
  "TestChildExtensionData_NestedTestAllExtensionsData_NestedDynamicExtensions_Copy s =
     (case s of None \<Rightarrow> None | Some s \<Rightarrow> Some \<lparr>
        A' = A' s, B' = B' s\<rparr>)"

section \<open>TestChildExtensionData_NestedTestAllExtensionsData_NestedDynamicExtensions: the round trip\<close>

definition TestChildExtensionData_NestedTestAllExtensionsData_NestedDynamicExtensions_tags :: "ProtoWireNumber list" where
  "TestChildExtensionData_NestedTestAllExtensionsData_NestedDynamicExtensions_tags = [
     wireTestChildExtensionData_NestedTestAllExtensionsData_NestedDynamicExtensions_A,
     wireTestChildExtensionData_NestedTestAllExtensionsData_NestedDynamicExtensions_B]"

definition TestChildExtensionData_NestedTestAllExtensionsData_NestedDynamicExtensions_groups :: "TestChildExtensionData_NestedTestAllExtensionsData_NestedDynamicExtensions \<Rightarrow> wfield list list" where
  "TestChildExtensionData_NestedTestAllExtensionsData_NestedDynamicExtensions_groups s = [
     opt_field (A' s \<noteq> 0) (wireTestChildExtensionData_NestedTestAllExtensionsData_NestedDynamicExtensions_A, int32_val (A' s)),
     opt_field (B' s \<noteq> 0) (wireTestChildExtensionData_NestedTestAllExtensionsData_NestedDynamicExtensions_B, int32_val (B' s))]"

definition TestChildExtensionData_NestedTestAllExtensionsData_NestedDynamicExtensions_content :: "TestChildExtensionData_NestedTestAllExtensionsData_NestedDynamicExtensions \<Rightarrow> wfield list" where
  "TestChildExtensionData_NestedTestAllExtensionsData_NestedDynamicExtensions_content s = concat (TestChildExtensionData_NestedTestAllExtensionsData_NestedDynamicExtensions_groups s)"

text \<open>What a round trip keeps.\<close>

definition TestChildExtensionData_NestedTestAllExtensionsData_NestedDynamicExtensions_norm :: "TestChildExtensionData_NestedTestAllExtensionsData_NestedDynamicExtensions \<Rightarrow> TestChildExtensionData_NestedTestAllExtensionsData_NestedDynamicExtensions" where
  "TestChildExtensionData_NestedTestAllExtensionsData_NestedDynamicExtensions_norm s = s"

definition TestChildExtensionData_NestedTestAllExtensionsData_NestedDynamicExtensions_ready :: "Reader \<Rightarrow> TestChildExtensionData_NestedTestAllExtensionsData_NestedDynamicExtensions \<Rightarrow> (TestChildExtensionData_NestedTestAllExtensionsData_NestedDynamicExtensionsReader \<Rightarrow> bool) list" where
  "TestChildExtensionData_NestedTestAllExtensionsData_NestedDynamicExtensions_ready p s = [
     \<lambda>m. cell_reads (readOne ReadInt32 0) plain p (if A' s \<noteq> 0 then A' s else 0) (cellA m),
     \<lambda>m. cell_reads (readOne ReadInt32 0) plain p (if B' s \<noteq> 0 then B' s else 0) (cellB m)]"

definition TestChildExtensionData_NestedTestAllExtensionsData_NestedDynamicExtensions_stored :: "TestChildExtensionData_NestedTestAllExtensionsData_NestedDynamicExtensions \<Rightarrow> (TestChildExtensionData_NestedTestAllExtensionsData_NestedDynamicExtensions \<Rightarrow> TestChildExtensionData_NestedTestAllExtensionsData_NestedDynamicExtensions) list" where
  "TestChildExtensionData_NestedTestAllExtensionsData_NestedDynamicExtensions_stored s = [
     \<lambda>res. res\<lparr>A' := if A' s \<noteq> 0 then A' s else 0\<rparr>,
     \<lambda>res. res\<lparr>B' := if B' s \<noteq> 0 then B' s else 0\<rparr>]"

lemma TestChildExtensionData_NestedTestAllExtensionsData_NestedDynamicExtensions_cases_distinct: "distinct (map fst (TestChildExtensionData_NestedTestAllExtensionsData_NestedDynamicExtensionsReader_cases wire offset))"
  by (rule ascending_distinct) (simp add: TestChildExtensionData_NestedTestAllExtensionsData_NestedDynamicExtensionsReader_cases_def wireTestChildExtensionData_NestedTestAllExtensionsData_NestedDynamicExtensions)

lemma TestChildExtensionData_NestedTestAllExtensionsData_NestedDynamicExtensions_stores:
  "stores_cell TestChildExtensionData_NestedTestAllExtensionsData_NestedDynamicExtensionsReader_save wireTestChildExtensionData_NestedTestAllExtensionsData_NestedDynamicExtensions_A setOffset cellA"
  "stores_cell TestChildExtensionData_NestedTestAllExtensionsData_NestedDynamicExtensionsReader_save wireTestChildExtensionData_NestedTestAllExtensionsData_NestedDynamicExtensions_B setOffset cellB"
  unfolding TestChildExtensionData_NestedTestAllExtensionsData_NestedDynamicExtensionsReader_save_def [abs_def] by (rule stores_cell_switch; (rule TestChildExtensionData_NestedTestAllExtensionsData_NestedDynamicExtensions_cases_distinct)?; unfold TestChildExtensionData_NestedTestAllExtensionsData_NestedDynamicExtensionsReader_cases_def; intro own_case.intros; simp)+

lemma TestChildExtensionData_NestedTestAllExtensionsData_NestedDynamicExtensions_saved: "good_fields TestChildExtensionData_NestedTestAllExtensionsData_NestedDynamicExtensionsReader_save p (NewTestChildExtensionData_NestedTestAllExtensionsData_NestedDynamicExtensionsReader\<lparr>mbuf := Some p\<rparr>) TestChildExtensionData_NestedTestAllExtensionsData_NestedDynamicExtensions_tags (TestChildExtensionData_NestedTestAllExtensionsData_NestedDynamicExtensions_groups s) (TestChildExtensionData_NestedTestAllExtensionsData_NestedDynamicExtensions_ready p s)"
  unfolding TestChildExtensionData_NestedTestAllExtensionsData_NestedDynamicExtensions_tags_def TestChildExtensionData_NestedTestAllExtensionsData_NestedDynamicExtensions_groups_def TestChildExtensionData_NestedTestAllExtensionsData_NestedDynamicExtensions_ready_def
  by (intro good_fields.intros field_saved TestChildExtensionData_NestedTestAllExtensionsData_NestedDynamicExtensions_stores) (simp_all add: NewTestChildExtensionData_NestedTestAllExtensionsData_NestedDynamicExtensionsReader_def newCell_def)

lemma TestChildExtensionData_NestedTestAllExtensionsData_NestedDynamicExtensions_converted: "good_stmts mbuf p (TestChildExtensionData_NestedTestAllExtensionsData_NestedDynamicExtensions_stmts) (TestChildExtensionData_NestedTestAllExtensionsData_NestedDynamicExtensions_ready p s) (TestChildExtensionData_NestedTestAllExtensionsData_NestedDynamicExtensions_stored s)"
  unfolding TestChildExtensionData_NestedTestAllExtensionsData_NestedDynamicExtensions_stmts_def TestChildExtensionData_NestedTestAllExtensionsData_NestedDynamicExtensions_ready_def TestChildExtensionData_NestedTestAllExtensionsData_NestedDynamicExtensions_stored_def TestChildExtensionData_NestedTestAllExtensionsData_NestedDynamicExtensions_getters append.simps
  by (intro good_stmts_field good_stmts.Nil) (simp_all cong: cell_reads_cong)

interpretation l_TestChildExtensionData_NestedTestAllExtensionsData_NestedDynamicExtensions: lazy_message TestChildExtensionData_NestedTestAllExtensionsData_NestedDynamicExtensions_tags TestChildExtensionData_NestedTestAllExtensionsData_NestedDynamicExtensions_groups TestChildExtensionData_NestedTestAllExtensionsData_NestedDynamicExtensions_norm
  "\<lambda>s. TestChildExtensionData_NestedTestAllExtensionsData_NestedDynamicExtensions_sizes s" "\<lambda>s. TestChildExtensionData_NestedTestAllExtensionsData_NestedDynamicExtensions_appends s"
  TestChildExtensionData_NestedTestAllExtensionsData_NestedDynamicExtensionsReader_save "\<lambda>p. NewTestChildExtensionData_NestedTestAllExtensionsData_NestedDynamicExtensionsReader\<lparr>mbuf := Some p\<rparr>" mbuf "TestChildExtensionData_NestedTestAllExtensionsData_NestedDynamicExtensions_stmts" TestChildExtensionData_NestedTestAllExtensionsData_NestedDynamicExtensions_zero TestChildExtensionData_NestedTestAllExtensionsData_NestedDynamicExtensions_ready TestChildExtensionData_NestedTestAllExtensionsData_NestedDynamicExtensions_stored
proof
  show "distinct TestChildExtensionData_NestedTestAllExtensionsData_NestedDynamicExtensions_tags"
    using TestChildExtensionData_NestedTestAllExtensionsData_NestedDynamicExtensions_cases_distinct by (simp only: TestChildExtensionData_NestedTestAllExtensionsData_NestedDynamicExtensionsReader_cases_def TestChildExtensionData_NestedTestAllExtensionsData_NestedDynamicExtensions_tags_def list.map fst_conv)
  show "list_all valid_tag TestChildExtensionData_NestedTestAllExtensionsData_NestedDynamicExtensions_tags"
    by (simp add: TestChildExtensionData_NestedTestAllExtensionsData_NestedDynamicExtensions_tags_def wireTestChildExtensionData_NestedTestAllExtensionsData_NestedDynamicExtensions valid_tag_def)
  show "list_all2 (\<lambda>t g. \<forall>f \<in> set g. fst f = t \<and> wf_val (snd f)) TestChildExtensionData_NestedTestAllExtensionsData_NestedDynamicExtensions_tags (TestChildExtensionData_NestedTestAllExtensionsData_NestedDynamicExtensions_groups s)" for s
    unfolding TestChildExtensionData_NestedTestAllExtensionsData_NestedDynamicExtensions_tags_def TestChildExtensionData_NestedTestAllExtensionsData_NestedDynamicExtensions_groups_def by (intro list.rel_intros field_tagged)
  show "list_all2 (\<lambda>e g. e = int (length (fields_bytes g))) (TestChildExtensionData_NestedTestAllExtensionsData_NestedDynamicExtensions_sizes s) (TestChildExtensionData_NestedTestAllExtensionsData_NestedDynamicExtensions_groups s)" for s
    unfolding TestChildExtensionData_NestedTestAllExtensionsData_NestedDynamicExtensions_sizes_def TestChildExtensionData_NestedTestAllExtensionsData_NestedDynamicExtensions_groups_def append.simps
    by (intro list.rel_intros field_sized)
  show "list_all2 (\<lambda>st g. writes st (fields_bytes g)) (TestChildExtensionData_NestedTestAllExtensionsData_NestedDynamicExtensions_appends s) (TestChildExtensionData_NestedTestAllExtensionsData_NestedDynamicExtensions_groups s)" for s
    unfolding TestChildExtensionData_NestedTestAllExtensionsData_NestedDynamicExtensions_appends_def TestChildExtensionData_NestedTestAllExtensionsData_NestedDynamicExtensions_groups_def append.simps
    by (intro list.rel_intros field_written)
  show "mbuf (TestChildExtensionData_NestedTestAllExtensionsData_NestedDynamicExtensionsReader_save t w off m) = mbuf m" for t w off m
    unfolding TestChildExtensionData_NestedTestAllExtensionsData_NestedDynamicExtensionsReader_save_def by (rule tag_switch_keeps) (simp add: TestChildExtensionData_NestedTestAllExtensionsData_NestedDynamicExtensionsReader_cases_def)
  show "fold (\<lambda>e. e) (TestChildExtensionData_NestedTestAllExtensionsData_NestedDynamicExtensions_stored s) TestChildExtensionData_NestedTestAllExtensionsData_NestedDynamicExtensions_zero = TestChildExtensionData_NestedTestAllExtensionsData_NestedDynamicExtensions_norm s" for s
    unfolding TestChildExtensionData_NestedTestAllExtensionsData_NestedDynamicExtensions_stored_def by (simp add: TestChildExtensionData_NestedTestAllExtensionsData_NestedDynamicExtensions_zero_def TestChildExtensionData_NestedTestAllExtensionsData_NestedDynamicExtensions_norm_def float_defaults)
qed (simp_all add: TestChildExtensionData_NestedTestAllExtensionsData_NestedDynamicExtensions_saved TestChildExtensionData_NestedTestAllExtensionsData_NestedDynamicExtensions_converted)

interpretation m_TestChildExtensionData_NestedTestAllExtensionsData_NestedDynamicExtensions: message_codec TestChildExtensionData_NestedTestAllExtensionsData_NestedDynamicExtensions_content TestChildExtensionData_NestedTestAllExtensionsData_NestedDynamicExtensions_norm TestChildExtensionData_NestedTestAllExtensionsData_NestedDynamicExtensions_XXX_PbContentSize TestChildExtensionData_NestedTestAllExtensionsData_NestedDynamicExtensions_MarshalTo
  "TestChildExtensionData_NestedTestAllExtensionsData_NestedDynamicExtensionsReader_Unmarshal NewTestChildExtensionData_NestedTestAllExtensionsData_NestedDynamicExtensionsReader" TestChildExtensionData_NestedTestAllExtensionsData_NestedDynamicExtensionsReader_ToStruct
  using l_TestChildExtensionData_NestedTestAllExtensionsData_NestedDynamicExtensions.message
  by (simp only: TestChildExtensionData_NestedTestAllExtensionsData_NestedDynamicExtensions_content_def [abs_def] TestChildExtensionData_NestedTestAllExtensionsData_NestedDynamicExtensions_XXX_PbContentSize_def TestChildExtensionData_NestedTestAllExtensionsData_NestedDynamicExtensions_MarshalTo_def TestChildExtensionData_NestedTestAllExtensionsData_NestedDynamicExtensionsReader_Unmarshal_def [abs_def] TestChildExtensionData_NestedTestAllExtensionsData_NestedDynamicExtensionsReader_ToStruct_def)


section \<open>TestChildExtensionData_NestedTestAllExtensionsData: the reader\<close>

definition wireTestChildExtensionData_NestedTestAllExtensionsData_Dynamic :: ProtoWireNumber where "wireTestChildExtensionData_NestedTestAllExtensionsData_Dynamic = 409707008"

lemmas wireTestChildExtensionData_NestedTestAllExtensionsData =
  wireTestChildExtensionData_NestedTestAllExtensionsData_Dynamic_def

record TestChildExtensionData_NestedTestAllExtensionsDataReader =
  mbuf :: "Reader option"
  cellDynamic :: "(TestChildExtensionData_NestedTestAllExtensionsData_NestedDynamicExtensionsReader option) one_cell"

definition NewTestChildExtensionData_NestedTestAllExtensionsDataReader :: TestChildExtensionData_NestedTestAllExtensionsDataReader where
  "NewTestChildExtensionData_NestedTestAllExtensionsDataReader = \<lparr>
     mbuf = None, cellDynamic = newCell None 0\<rparr>"

definition TestChildExtensionData_NestedTestAllExtensionsDataReader_readDynamic :: "TestChildExtensionData_NestedTestAllExtensionsDataReader \<Rightarrow> (TestChildExtensionData_NestedTestAllExtensionsData_NestedDynamicExtensionsReader option \<times> TestChildExtensionData_NestedTestAllExtensionsDataReader) run" where
  "TestChildExtensionData_NestedTestAllExtensionsDataReader_readDynamic = readCell cellDynamic cellDynamic_update mbuf (structReader (TestChildExtensionData_NestedTestAllExtensionsData_NestedDynamicExtensionsReader_Unmarshal NewTestChildExtensionData_NestedTestAllExtensionsData_NestedDynamicExtensionsReader))"

definition TestChildExtensionData_NestedTestAllExtensionsDataReader_GetDynamic :: "TestChildExtensionData_NestedTestAllExtensionsDataReader option \<Rightarrow> (TestChildExtensionData_NestedTestAllExtensionsData_NestedDynamicExtensionsReader option \<times> TestChildExtensionData_NestedTestAllExtensionsDataReader option) run" where
  "TestChildExtensionData_NestedTestAllExtensionsDataReader_GetDynamic = getter TestChildExtensionData_NestedTestAllExtensionsDataReader_readDynamic None"

lemmas TestChildExtensionData_NestedTestAllExtensionsData_getters =
  TestChildExtensionData_NestedTestAllExtensionsDataReader_readDynamic_def TestChildExtensionData_NestedTestAllExtensionsDataReader_GetDynamic_def

definition TestChildExtensionData_NestedTestAllExtensionsDataReader_cases :: "ProtoWireType \<Rightarrow> int \<Rightarrow> (ProtoWireNumber \<times> (TestChildExtensionData_NestedTestAllExtensionsDataReader \<Rightarrow> TestChildExtensionData_NestedTestAllExtensionsDataReader)) list" where
  "TestChildExtensionData_NestedTestAllExtensionsDataReader_cases wire offset = [
     (wireTestChildExtensionData_NestedTestAllExtensionsData_Dynamic, \<lambda>m. m\<lparr>cellDynamic := onOffset (setOffset wire offset) (cellDynamic m)\<rparr>)]"

definition TestChildExtensionData_NestedTestAllExtensionsDataReader_save :: "ProtoWireNumber \<Rightarrow> ProtoWireType \<Rightarrow> int \<Rightarrow> TestChildExtensionData_NestedTestAllExtensionsDataReader \<Rightarrow> TestChildExtensionData_NestedTestAllExtensionsDataReader" where
  "TestChildExtensionData_NestedTestAllExtensionsDataReader_save tag wire offset = tag_switch (TestChildExtensionData_NestedTestAllExtensionsDataReader_cases wire offset) tag"

definition TestChildExtensionData_NestedTestAllExtensionsDataReader_Unmarshal :: "TestChildExtensionData_NestedTestAllExtensionsDataReader \<Rightarrow> gslice \<Rightarrow> (TestChildExtensionData_NestedTestAllExtensionsDataReader \<times> string option) run" where
  "TestChildExtensionData_NestedTestAllExtensionsDataReader_Unmarshal m data =
     unmarshalLoop TestChildExtensionData_NestedTestAllExtensionsDataReader_save (NewReader data) 0 (m\<lparr>mbuf := Some (NewReader data)\<rparr>)"

definition TestChildExtensionData_NestedTestAllExtensionsDataReader_SourceBytes :: "TestChildExtensionData_NestedTestAllExtensionsDataReader option \<Rightarrow> gslice" where
  "TestChildExtensionData_NestedTestAllExtensionsDataReader_SourceBytes s = (case s of None \<Rightarrow> nil_slice | Some r \<Rightarrow> Bytes (mbuf r))"

section \<open>TestChildExtensionData_NestedTestAllExtensionsData: the struct\<close>

record TestChildExtensionData_NestedTestAllExtensionsData =
  Dynamic :: "TestChildExtensionData_NestedTestAllExtensionsData_NestedDynamicExtensions option"

definition TestChildExtensionData_NestedTestAllExtensionsData_zero :: TestChildExtensionData_NestedTestAllExtensionsData where
  "TestChildExtensionData_NestedTestAllExtensionsData_zero = \<lparr>
     Dynamic = None\<rparr>"

definition TestChildExtensionData_NestedTestAllExtensionsData_stmts :: "(TestChildExtensionData_NestedTestAllExtensionsData \<times> TestChildExtensionData_NestedTestAllExtensionsDataReader option \<Rightarrow> (TestChildExtensionData_NestedTestAllExtensionsData \<times> TestChildExtensionData_NestedTestAllExtensionsDataReader option) run) list" where
  "TestChildExtensionData_NestedTestAllExtensionsData_stmts = [
     assignStruct TestChildExtensionData_NestedTestAllExtensionsDataReader_GetDynamic (structToStruct TestChildExtensionData_NestedTestAllExtensionsData_NestedDynamicExtensionsReader_ToStruct) cellDynamic_update
       (\<lambda>v res. res\<lparr>Dynamic := v\<rparr>)]"

definition TestChildExtensionData_NestedTestAllExtensionsDataReader_ToStruct :: "TestChildExtensionData_NestedTestAllExtensionsDataReader option \<Rightarrow> (TestChildExtensionData_NestedTestAllExtensionsData option \<times> TestChildExtensionData_NestedTestAllExtensionsDataReader option) run" where
  "TestChildExtensionData_NestedTestAllExtensionsDataReader_ToStruct = toStructWith (TestChildExtensionData_NestedTestAllExtensionsData_stmts) TestChildExtensionData_NestedTestAllExtensionsData_zero"

definition TestChildExtensionData_NestedTestAllExtensionsData_appends :: "TestChildExtensionData_NestedTestAllExtensionsData \<Rightarrow> (Writer \<Rightarrow> Writer go) list" where
  "TestChildExtensionData_NestedTestAllExtensionsData_appends s = [
     \<lambda>res. if Dynamic s \<noteq> None then structWriter TestChildExtensionData_NestedTestAllExtensionsData_NestedDynamicExtensions_XXX_PbContentSize TestChildExtensionData_NestedTestAllExtensionsData_NestedDynamicExtensions_MarshalTo res wireTestChildExtensionData_NestedTestAllExtensionsData_Dynamic (Dynamic s) else Ret res]"

definition TestChildExtensionData_NestedTestAllExtensionsData_MarshalTo :: "Writer \<Rightarrow> TestChildExtensionData_NestedTestAllExtensionsData option \<Rightarrow> Writer go" where
  "TestChildExtensionData_NestedTestAllExtensionsData_MarshalTo = marshalToWith (\<lambda>s. TestChildExtensionData_NestedTestAllExtensionsData_appends s)"

definition TestChildExtensionData_NestedTestAllExtensionsData_sizes :: "TestChildExtensionData_NestedTestAllExtensionsData \<Rightarrow> int list" where
  "TestChildExtensionData_NestedTestAllExtensionsData_sizes s = [
     if Dynamic s \<noteq> None then sizeDelimitedWithTag TestChildExtensionData_NestedTestAllExtensionsData_NestedDynamicExtensions_XXX_PbContentSize wireTestChildExtensionData_NestedTestAllExtensionsData_Dynamic (Dynamic s) else 0]"

definition TestChildExtensionData_NestedTestAllExtensionsData_XXX_PbContentSize :: "TestChildExtensionData_NestedTestAllExtensionsData option \<Rightarrow> int" where
  "TestChildExtensionData_NestedTestAllExtensionsData_XXX_PbContentSize = contentSizeWith (\<lambda>s. TestChildExtensionData_NestedTestAllExtensionsData_sizes s)"

definition TestChildExtensionData_NestedTestAllExtensionsData_Marshal :: "TestChildExtensionData_NestedTestAllExtensionsData option \<Rightarrow> byte list go" where
  "TestChildExtensionData_NestedTestAllExtensionsData_Marshal = marshalWith TestChildExtensionData_NestedTestAllExtensionsData_XXX_PbContentSize TestChildExtensionData_NestedTestAllExtensionsData_MarshalTo"

definition TestChildExtensionData_NestedTestAllExtensionsData_Copy :: "TestChildExtensionData_NestedTestAllExtensionsData option \<Rightarrow> TestChildExtensionData_NestedTestAllExtensionsData option" where
  "TestChildExtensionData_NestedTestAllExtensionsData_Copy s =
     (case s of None \<Rightarrow> None | Some s \<Rightarrow> Some \<lparr>
        Dynamic = (case Dynamic s of None \<Rightarrow> None | Some x \<Rightarrow> TestChildExtensionData_NestedTestAllExtensionsData_NestedDynamicExtensions_Copy (Some x))\<rparr>)"

section \<open>TestChildExtensionData_NestedTestAllExtensionsData: the round trip\<close>

definition TestChildExtensionData_NestedTestAllExtensionsData_tags :: "ProtoWireNumber list" where
  "TestChildExtensionData_NestedTestAllExtensionsData_tags = [
     wireTestChildExtensionData_NestedTestAllExtensionsData_Dynamic]"

definition TestChildExtensionData_NestedTestAllExtensionsData_groups :: "TestChildExtensionData_NestedTestAllExtensionsData \<Rightarrow> wfield list list" where
  "TestChildExtensionData_NestedTestAllExtensionsData_groups s = [
     opt_field (Dynamic s \<noteq> None) (wireTestChildExtensionData_NestedTestAllExtensionsData_Dynamic, WBytes (ptr_bytes TestChildExtensionData_NestedTestAllExtensionsData_NestedDynamicExtensions_content (Dynamic s)))]"

definition TestChildExtensionData_NestedTestAllExtensionsData_content :: "TestChildExtensionData_NestedTestAllExtensionsData \<Rightarrow> wfield list" where
  "TestChildExtensionData_NestedTestAllExtensionsData_content s = concat (TestChildExtensionData_NestedTestAllExtensionsData_groups s)"

text \<open>What a round trip keeps.\<close>

definition TestChildExtensionData_NestedTestAllExtensionsData_norm :: "TestChildExtensionData_NestedTestAllExtensionsData \<Rightarrow> TestChildExtensionData_NestedTestAllExtensionsData" where
  "TestChildExtensionData_NestedTestAllExtensionsData_norm s = s\<lparr>
     Dynamic := norm_ptr TestChildExtensionData_NestedTestAllExtensionsData_NestedDynamicExtensions_content TestChildExtensionData_NestedTestAllExtensionsData_NestedDynamicExtensions_norm (Dynamic s)\<rparr>"

definition TestChildExtensionData_NestedTestAllExtensionsData_ready :: "Reader \<Rightarrow> TestChildExtensionData_NestedTestAllExtensionsData \<Rightarrow> (TestChildExtensionData_NestedTestAllExtensionsDataReader \<Rightarrow> bool) list" where
  "TestChildExtensionData_NestedTestAllExtensionsData_ready p s = [
     \<lambda>m. cell_reads (structReader (TestChildExtensionData_NestedTestAllExtensionsData_NestedDynamicExtensionsReader_Unmarshal NewTestChildExtensionData_NestedTestAllExtensionsData_NestedDynamicExtensionsReader)) (structToStruct TestChildExtensionData_NestedTestAllExtensionsData_NestedDynamicExtensionsReader_ToStruct) p (norm_ptr TestChildExtensionData_NestedTestAllExtensionsData_NestedDynamicExtensions_content TestChildExtensionData_NestedTestAllExtensionsData_NestedDynamicExtensions_norm (Dynamic s)) (cellDynamic m)]"

definition TestChildExtensionData_NestedTestAllExtensionsData_stored :: "TestChildExtensionData_NestedTestAllExtensionsData \<Rightarrow> (TestChildExtensionData_NestedTestAllExtensionsData \<Rightarrow> TestChildExtensionData_NestedTestAllExtensionsData) list" where
  "TestChildExtensionData_NestedTestAllExtensionsData_stored s = [
     \<lambda>res. res\<lparr>Dynamic := norm_ptr TestChildExtensionData_NestedTestAllExtensionsData_NestedDynamicExtensions_content TestChildExtensionData_NestedTestAllExtensionsData_NestedDynamicExtensions_norm (Dynamic s)\<rparr>]"

lemma TestChildExtensionData_NestedTestAllExtensionsData_cases_distinct: "distinct (map fst (TestChildExtensionData_NestedTestAllExtensionsDataReader_cases wire offset))"
  by (rule ascending_distinct) (simp add: TestChildExtensionData_NestedTestAllExtensionsDataReader_cases_def wireTestChildExtensionData_NestedTestAllExtensionsData)

lemma TestChildExtensionData_NestedTestAllExtensionsData_stores:
  "stores_cell TestChildExtensionData_NestedTestAllExtensionsDataReader_save wireTestChildExtensionData_NestedTestAllExtensionsData_Dynamic setOffset cellDynamic"
  unfolding TestChildExtensionData_NestedTestAllExtensionsDataReader_save_def [abs_def] by (rule stores_cell_switch; (rule TestChildExtensionData_NestedTestAllExtensionsData_cases_distinct)?; unfold TestChildExtensionData_NestedTestAllExtensionsDataReader_cases_def; intro own_case.intros; simp)+

lemma TestChildExtensionData_NestedTestAllExtensionsData_saved: "good_fields TestChildExtensionData_NestedTestAllExtensionsDataReader_save p (NewTestChildExtensionData_NestedTestAllExtensionsDataReader\<lparr>mbuf := Some p\<rparr>) TestChildExtensionData_NestedTestAllExtensionsData_tags (TestChildExtensionData_NestedTestAllExtensionsData_groups s) (TestChildExtensionData_NestedTestAllExtensionsData_ready p s)"
  unfolding TestChildExtensionData_NestedTestAllExtensionsData_tags_def TestChildExtensionData_NestedTestAllExtensionsData_groups_def TestChildExtensionData_NestedTestAllExtensionsData_ready_def
  by (intro good_fields.intros field_saved m_TestChildExtensionData_NestedTestAllExtensionsData_NestedDynamicExtensions.saved_struct TestChildExtensionData_NestedTestAllExtensionsData_stores) (simp_all add: NewTestChildExtensionData_NestedTestAllExtensionsDataReader_def newCell_def)

lemma TestChildExtensionData_NestedTestAllExtensionsData_converted: "good_stmts mbuf p (TestChildExtensionData_NestedTestAllExtensionsData_stmts) (TestChildExtensionData_NestedTestAllExtensionsData_ready p s) (TestChildExtensionData_NestedTestAllExtensionsData_stored s)"
  unfolding TestChildExtensionData_NestedTestAllExtensionsData_stmts_def TestChildExtensionData_NestedTestAllExtensionsData_ready_def TestChildExtensionData_NestedTestAllExtensionsData_stored_def TestChildExtensionData_NestedTestAllExtensionsData_getters append.simps
  by (intro good_stmts_field good_stmts.Nil) (simp_all cong: cell_reads_cong)

interpretation l_TestChildExtensionData_NestedTestAllExtensionsData: lazy_message TestChildExtensionData_NestedTestAllExtensionsData_tags TestChildExtensionData_NestedTestAllExtensionsData_groups TestChildExtensionData_NestedTestAllExtensionsData_norm
  "\<lambda>s. TestChildExtensionData_NestedTestAllExtensionsData_sizes s" "\<lambda>s. TestChildExtensionData_NestedTestAllExtensionsData_appends s"
  TestChildExtensionData_NestedTestAllExtensionsDataReader_save "\<lambda>p. NewTestChildExtensionData_NestedTestAllExtensionsDataReader\<lparr>mbuf := Some p\<rparr>" mbuf "TestChildExtensionData_NestedTestAllExtensionsData_stmts" TestChildExtensionData_NestedTestAllExtensionsData_zero TestChildExtensionData_NestedTestAllExtensionsData_ready TestChildExtensionData_NestedTestAllExtensionsData_stored
proof
  show "distinct TestChildExtensionData_NestedTestAllExtensionsData_tags"
    using TestChildExtensionData_NestedTestAllExtensionsData_cases_distinct by (simp only: TestChildExtensionData_NestedTestAllExtensionsDataReader_cases_def TestChildExtensionData_NestedTestAllExtensionsData_tags_def list.map fst_conv)
  show "list_all valid_tag TestChildExtensionData_NestedTestAllExtensionsData_tags"
    by (simp add: TestChildExtensionData_NestedTestAllExtensionsData_tags_def wireTestChildExtensionData_NestedTestAllExtensionsData valid_tag_def)
  show "list_all2 (\<lambda>t g. \<forall>f \<in> set g. fst f = t \<and> wf_val (snd f)) TestChildExtensionData_NestedTestAllExtensionsData_tags (TestChildExtensionData_NestedTestAllExtensionsData_groups s)" for s
    unfolding TestChildExtensionData_NestedTestAllExtensionsData_tags_def TestChildExtensionData_NestedTestAllExtensionsData_groups_def by (intro list.rel_intros field_tagged m_TestChildExtensionData_NestedTestAllExtensionsData_NestedDynamicExtensions.tagged_struct)
  show "list_all2 (\<lambda>e g. e = int (length (fields_bytes g))) (TestChildExtensionData_NestedTestAllExtensionsData_sizes s) (TestChildExtensionData_NestedTestAllExtensionsData_groups s)" for s
    unfolding TestChildExtensionData_NestedTestAllExtensionsData_sizes_def TestChildExtensionData_NestedTestAllExtensionsData_groups_def append.simps
    by (intro list.rel_intros field_sized m_TestChildExtensionData_NestedTestAllExtensionsData_NestedDynamicExtensions.sized_struct)
  show "list_all2 (\<lambda>st g. writes st (fields_bytes g)) (TestChildExtensionData_NestedTestAllExtensionsData_appends s) (TestChildExtensionData_NestedTestAllExtensionsData_groups s)" for s
    unfolding TestChildExtensionData_NestedTestAllExtensionsData_appends_def TestChildExtensionData_NestedTestAllExtensionsData_groups_def append.simps
    by (intro list.rel_intros field_written m_TestChildExtensionData_NestedTestAllExtensionsData_NestedDynamicExtensions.written_struct)
  show "mbuf (TestChildExtensionData_NestedTestAllExtensionsDataReader_save t w off m) = mbuf m" for t w off m
    unfolding TestChildExtensionData_NestedTestAllExtensionsDataReader_save_def by (rule tag_switch_keeps) (simp add: TestChildExtensionData_NestedTestAllExtensionsDataReader_cases_def)
  show "fold (\<lambda>e. e) (TestChildExtensionData_NestedTestAllExtensionsData_stored s) TestChildExtensionData_NestedTestAllExtensionsData_zero = TestChildExtensionData_NestedTestAllExtensionsData_norm s" for s
    unfolding TestChildExtensionData_NestedTestAllExtensionsData_stored_def by (simp add: TestChildExtensionData_NestedTestAllExtensionsData_zero_def TestChildExtensionData_NestedTestAllExtensionsData_norm_def float_defaults)
qed (simp_all add: TestChildExtensionData_NestedTestAllExtensionsData_saved TestChildExtensionData_NestedTestAllExtensionsData_converted)

interpretation m_TestChildExtensionData_NestedTestAllExtensionsData: message_codec TestChildExtensionData_NestedTestAllExtensionsData_content TestChildExtensionData_NestedTestAllExtensionsData_norm TestChildExtensionData_NestedTestAllExtensionsData_XXX_PbContentSize TestChildExtensionData_NestedTestAllExtensionsData_MarshalTo
  "TestChildExtensionData_NestedTestAllExtensionsDataReader_Unmarshal NewTestChildExtensionData_NestedTestAllExtensionsDataReader" TestChildExtensionData_NestedTestAllExtensionsDataReader_ToStruct
  using l_TestChildExtensionData_NestedTestAllExtensionsData.message
  by (simp only: TestChildExtensionData_NestedTestAllExtensionsData_content_def [abs_def] TestChildExtensionData_NestedTestAllExtensionsData_XXX_PbContentSize_def TestChildExtensionData_NestedTestAllExtensionsData_MarshalTo_def TestChildExtensionData_NestedTestAllExtensionsDataReader_Unmarshal_def [abs_def] TestChildExtensionData_NestedTestAllExtensionsDataReader_ToStruct_def)


section \<open>TestChildExtensionData: the reader\<close>

definition wireTestChildExtensionData_A :: ProtoWireNumber where "wireTestChildExtensionData_A = 1"
definition wireTestChildExtensionData_B :: ProtoWireNumber where "wireTestChildExtensionData_B = 2"
definition wireTestChildExtensionData_OptionalExtension :: ProtoWireNumber where "wireTestChildExtensionData_OptionalExtension = 3"

lemmas wireTestChildExtensionData =
  wireTestChildExtensionData_A_def wireTestChildExtensionData_B_def
  wireTestChildExtensionData_OptionalExtension_def

record TestChildExtensionDataReader =
  mbuf :: "Reader option"
  cellA :: "gostring one_cell"
  cellB :: "gostring one_cell"
  cellOptionalExtension :: "(TestChildExtensionData_NestedTestAllExtensionsDataReader option) one_cell"

definition NewTestChildExtensionDataReader :: TestChildExtensionDataReader where
  "NewTestChildExtensionDataReader = \<lparr>
     mbuf = None, cellA = newCell [] 0, cellB = newCell [] 0,
     cellOptionalExtension = newCell None 0\<rparr>"

definition TestChildExtensionDataReader_readA :: "TestChildExtensionDataReader \<Rightarrow> (gostring \<times> TestChildExtensionDataReader) run" where
  "TestChildExtensionDataReader_readA = readCell cellA cellA_update mbuf (readOne ReadString [])"

definition TestChildExtensionDataReader_GetA :: "TestChildExtensionDataReader option \<Rightarrow> (gostring \<times> TestChildExtensionDataReader option) run" where
  "TestChildExtensionDataReader_GetA = getter TestChildExtensionDataReader_readA []"

definition TestChildExtensionDataReader_readB :: "TestChildExtensionDataReader \<Rightarrow> (gostring \<times> TestChildExtensionDataReader) run" where
  "TestChildExtensionDataReader_readB = readCell cellB cellB_update mbuf (readOne ReadString [])"

definition TestChildExtensionDataReader_GetB :: "TestChildExtensionDataReader option \<Rightarrow> (gostring \<times> TestChildExtensionDataReader option) run" where
  "TestChildExtensionDataReader_GetB = getter TestChildExtensionDataReader_readB []"

definition TestChildExtensionDataReader_readOptionalExtension :: "TestChildExtensionDataReader \<Rightarrow> (TestChildExtensionData_NestedTestAllExtensionsDataReader option \<times> TestChildExtensionDataReader) run" where
  "TestChildExtensionDataReader_readOptionalExtension = readCell cellOptionalExtension cellOptionalExtension_update mbuf (structReader (TestChildExtensionData_NestedTestAllExtensionsDataReader_Unmarshal NewTestChildExtensionData_NestedTestAllExtensionsDataReader))"

definition TestChildExtensionDataReader_GetOptionalExtension :: "TestChildExtensionDataReader option \<Rightarrow> (TestChildExtensionData_NestedTestAllExtensionsDataReader option \<times> TestChildExtensionDataReader option) run" where
  "TestChildExtensionDataReader_GetOptionalExtension = getter TestChildExtensionDataReader_readOptionalExtension None"

lemmas TestChildExtensionData_getters =
  TestChildExtensionDataReader_readA_def TestChildExtensionDataReader_GetA_def
  TestChildExtensionDataReader_readB_def TestChildExtensionDataReader_GetB_def
  TestChildExtensionDataReader_readOptionalExtension_def TestChildExtensionDataReader_GetOptionalExtension_def

definition TestChildExtensionDataReader_cases :: "ProtoWireType \<Rightarrow> int \<Rightarrow> (ProtoWireNumber \<times> (TestChildExtensionDataReader \<Rightarrow> TestChildExtensionDataReader)) list" where
  "TestChildExtensionDataReader_cases wire offset = [
     (wireTestChildExtensionData_A, \<lambda>m. m\<lparr>cellA := onOffset (setOffset wire offset) (cellA m)\<rparr>),
     (wireTestChildExtensionData_B, \<lambda>m. m\<lparr>cellB := onOffset (setOffset wire offset) (cellB m)\<rparr>),
     (wireTestChildExtensionData_OptionalExtension, \<lambda>m. m\<lparr>cellOptionalExtension := onOffset (setOffset wire offset) (cellOptionalExtension m)\<rparr>)]"

definition TestChildExtensionDataReader_save :: "ProtoWireNumber \<Rightarrow> ProtoWireType \<Rightarrow> int \<Rightarrow> TestChildExtensionDataReader \<Rightarrow> TestChildExtensionDataReader" where
  "TestChildExtensionDataReader_save tag wire offset = tag_switch (TestChildExtensionDataReader_cases wire offset) tag"

definition TestChildExtensionDataReader_Unmarshal :: "TestChildExtensionDataReader \<Rightarrow> gslice \<Rightarrow> (TestChildExtensionDataReader \<times> string option) run" where
  "TestChildExtensionDataReader_Unmarshal m data =
     unmarshalLoop TestChildExtensionDataReader_save (NewReader data) 0 (m\<lparr>mbuf := Some (NewReader data)\<rparr>)"

definition TestChildExtensionDataReader_SourceBytes :: "TestChildExtensionDataReader option \<Rightarrow> gslice" where
  "TestChildExtensionDataReader_SourceBytes s = (case s of None \<Rightarrow> nil_slice | Some r \<Rightarrow> Bytes (mbuf r))"

section \<open>TestChildExtensionData: the struct\<close>

record TestChildExtensionData =
  A' :: gostring
  B' :: gostring
  OptionalExtension :: "TestChildExtensionData_NestedTestAllExtensionsData option"

definition TestChildExtensionData_zero :: TestChildExtensionData where
  "TestChildExtensionData_zero = \<lparr>
     A' = [], B' = [], OptionalExtension = None\<rparr>"

definition TestChildExtensionData_stmts :: "(TestChildExtensionData \<times> TestChildExtensionDataReader option \<Rightarrow> (TestChildExtensionData \<times> TestChildExtensionDataReader option) run) list" where
  "TestChildExtensionData_stmts = [
     assign TestChildExtensionDataReader_GetA (\<lambda>v res. res\<lparr>A' := v\<rparr>),
     assign TestChildExtensionDataReader_GetB (\<lambda>v res. res\<lparr>B' := v\<rparr>),
     assignStruct TestChildExtensionDataReader_GetOptionalExtension (structToStruct TestChildExtensionData_NestedTestAllExtensionsDataReader_ToStruct) cellOptionalExtension_update
       (\<lambda>v res. res\<lparr>OptionalExtension := v\<rparr>)]"

definition TestChildExtensionDataReader_ToStruct :: "TestChildExtensionDataReader option \<Rightarrow> (TestChildExtensionData option \<times> TestChildExtensionDataReader option) run" where
  "TestChildExtensionDataReader_ToStruct = toStructWith (TestChildExtensionData_stmts) TestChildExtensionData_zero"

definition TestChildExtensionData_appends :: "TestChildExtensionData \<Rightarrow> (Writer \<Rightarrow> Writer go) list" where
  "TestChildExtensionData_appends s = [
     \<lambda>res. if A' s \<noteq> [] then AppendString res wireTestChildExtensionData_A (A' s) else Ret res,
     \<lambda>res. if B' s \<noteq> [] then AppendString res wireTestChildExtensionData_B (B' s) else Ret res,
     \<lambda>res. if OptionalExtension s \<noteq> None then structWriter TestChildExtensionData_NestedTestAllExtensionsData_XXX_PbContentSize TestChildExtensionData_NestedTestAllExtensionsData_MarshalTo res wireTestChildExtensionData_OptionalExtension (OptionalExtension s) else Ret res]"

definition TestChildExtensionData_MarshalTo :: "Writer \<Rightarrow> TestChildExtensionData option \<Rightarrow> Writer go" where
  "TestChildExtensionData_MarshalTo = marshalToWith (\<lambda>s. TestChildExtensionData_appends s)"

definition TestChildExtensionData_sizes :: "TestChildExtensionData \<Rightarrow> int list" where
  "TestChildExtensionData_sizes s = [
     if A' s \<noteq> [] then sizeDelimitedWithTag SizeString wireTestChildExtensionData_A (A' s) else 0,
     if B' s \<noteq> [] then sizeDelimitedWithTag SizeString wireTestChildExtensionData_B (B' s) else 0,
     if OptionalExtension s \<noteq> None then sizeDelimitedWithTag TestChildExtensionData_NestedTestAllExtensionsData_XXX_PbContentSize wireTestChildExtensionData_OptionalExtension (OptionalExtension s) else 0]"

definition TestChildExtensionData_XXX_PbContentSize :: "TestChildExtensionData option \<Rightarrow> int" where
  "TestChildExtensionData_XXX_PbContentSize = contentSizeWith (\<lambda>s. TestChildExtensionData_sizes s)"

definition TestChildExtensionData_Marshal :: "TestChildExtensionData option \<Rightarrow> byte list go" where
  "TestChildExtensionData_Marshal = marshalWith TestChildExtensionData_XXX_PbContentSize TestChildExtensionData_MarshalTo"

definition TestChildExtensionData_Copy :: "TestChildExtensionData option \<Rightarrow> TestChildExtensionData option" where
  "TestChildExtensionData_Copy s =
     (case s of None \<Rightarrow> None | Some s \<Rightarrow> Some \<lparr>
        A' = A' s, B' = B' s,
        OptionalExtension = (case OptionalExtension s of None \<Rightarrow> None | Some x \<Rightarrow> TestChildExtensionData_NestedTestAllExtensionsData_Copy (Some x))\<rparr>)"

section \<open>TestChildExtensionData: the round trip\<close>

definition TestChildExtensionData_tags :: "ProtoWireNumber list" where
  "TestChildExtensionData_tags = [
     wireTestChildExtensionData_A, wireTestChildExtensionData_B,
     wireTestChildExtensionData_OptionalExtension]"

definition TestChildExtensionData_groups :: "TestChildExtensionData \<Rightarrow> wfield list list" where
  "TestChildExtensionData_groups s = [
     opt_field (A' s \<noteq> []) (wireTestChildExtensionData_A, WBytes (A' s)),
     opt_field (B' s \<noteq> []) (wireTestChildExtensionData_B, WBytes (B' s)),
     opt_field (OptionalExtension s \<noteq> None) (wireTestChildExtensionData_OptionalExtension, WBytes (ptr_bytes TestChildExtensionData_NestedTestAllExtensionsData_content (OptionalExtension s)))]"

definition TestChildExtensionData_content :: "TestChildExtensionData \<Rightarrow> wfield list" where
  "TestChildExtensionData_content s = concat (TestChildExtensionData_groups s)"

text \<open>What a round trip keeps.\<close>

definition TestChildExtensionData_norm :: "TestChildExtensionData \<Rightarrow> TestChildExtensionData" where
  "TestChildExtensionData_norm s = s\<lparr>
     OptionalExtension := norm_ptr TestChildExtensionData_NestedTestAllExtensionsData_content TestChildExtensionData_NestedTestAllExtensionsData_norm (OptionalExtension s)\<rparr>"

definition TestChildExtensionData_ready :: "Reader \<Rightarrow> TestChildExtensionData \<Rightarrow> (TestChildExtensionDataReader \<Rightarrow> bool) list" where
  "TestChildExtensionData_ready p s = [
     \<lambda>m. cell_reads (readOne ReadString []) plain p (if A' s \<noteq> [] then A' s else []) (cellA m),
     \<lambda>m. cell_reads (readOne ReadString []) plain p (if B' s \<noteq> [] then B' s else []) (cellB m),
     \<lambda>m. cell_reads (structReader (TestChildExtensionData_NestedTestAllExtensionsDataReader_Unmarshal NewTestChildExtensionData_NestedTestAllExtensionsDataReader)) (structToStruct TestChildExtensionData_NestedTestAllExtensionsDataReader_ToStruct) p (norm_ptr TestChildExtensionData_NestedTestAllExtensionsData_content TestChildExtensionData_NestedTestAllExtensionsData_norm (OptionalExtension s)) (cellOptionalExtension m)]"

definition TestChildExtensionData_stored :: "TestChildExtensionData \<Rightarrow> (TestChildExtensionData \<Rightarrow> TestChildExtensionData) list" where
  "TestChildExtensionData_stored s = [
     \<lambda>res. res\<lparr>A' := if A' s \<noteq> [] then A' s else []\<rparr>,
     \<lambda>res. res\<lparr>B' := if B' s \<noteq> [] then B' s else []\<rparr>,
     \<lambda>res. res\<lparr>OptionalExtension := norm_ptr TestChildExtensionData_NestedTestAllExtensionsData_content TestChildExtensionData_NestedTestAllExtensionsData_norm (OptionalExtension s)\<rparr>]"

lemma TestChildExtensionData_cases_distinct: "distinct (map fst (TestChildExtensionDataReader_cases wire offset))"
  by (rule ascending_distinct) (simp add: TestChildExtensionDataReader_cases_def wireTestChildExtensionData)

lemma TestChildExtensionData_stores:
  "stores_cell TestChildExtensionDataReader_save wireTestChildExtensionData_A setOffset cellA"
  "stores_cell TestChildExtensionDataReader_save wireTestChildExtensionData_B setOffset cellB"
  "stores_cell TestChildExtensionDataReader_save wireTestChildExtensionData_OptionalExtension setOffset cellOptionalExtension"
  unfolding TestChildExtensionDataReader_save_def [abs_def] by (rule stores_cell_switch; (rule TestChildExtensionData_cases_distinct)?; unfold TestChildExtensionDataReader_cases_def; intro own_case.intros; simp)+

lemma TestChildExtensionData_saved: "good_fields TestChildExtensionDataReader_save p (NewTestChildExtensionDataReader\<lparr>mbuf := Some p\<rparr>) TestChildExtensionData_tags (TestChildExtensionData_groups s) (TestChildExtensionData_ready p s)"
  unfolding TestChildExtensionData_tags_def TestChildExtensionData_groups_def TestChildExtensionData_ready_def
  by (intro good_fields.intros field_saved m_TestChildExtensionData_NestedTestAllExtensionsData.saved_struct TestChildExtensionData_stores) (simp_all add: NewTestChildExtensionDataReader_def newCell_def)

lemma TestChildExtensionData_converted: "good_stmts mbuf p (TestChildExtensionData_stmts) (TestChildExtensionData_ready p s) (TestChildExtensionData_stored s)"
  unfolding TestChildExtensionData_stmts_def TestChildExtensionData_ready_def TestChildExtensionData_stored_def TestChildExtensionData_getters append.simps
  by (intro good_stmts_field good_stmts.Nil) (simp_all cong: cell_reads_cong)

interpretation l_TestChildExtensionData: lazy_message TestChildExtensionData_tags TestChildExtensionData_groups TestChildExtensionData_norm
  "\<lambda>s. TestChildExtensionData_sizes s" "\<lambda>s. TestChildExtensionData_appends s"
  TestChildExtensionDataReader_save "\<lambda>p. NewTestChildExtensionDataReader\<lparr>mbuf := Some p\<rparr>" mbuf "TestChildExtensionData_stmts" TestChildExtensionData_zero TestChildExtensionData_ready TestChildExtensionData_stored
proof
  show "distinct TestChildExtensionData_tags"
    using TestChildExtensionData_cases_distinct by (simp only: TestChildExtensionDataReader_cases_def TestChildExtensionData_tags_def list.map fst_conv)
  show "list_all valid_tag TestChildExtensionData_tags"
    by (simp add: TestChildExtensionData_tags_def wireTestChildExtensionData valid_tag_def)
  show "list_all2 (\<lambda>t g. \<forall>f \<in> set g. fst f = t \<and> wf_val (snd f)) TestChildExtensionData_tags (TestChildExtensionData_groups s)" for s
    unfolding TestChildExtensionData_tags_def TestChildExtensionData_groups_def by (intro list.rel_intros field_tagged m_TestChildExtensionData_NestedTestAllExtensionsData.tagged_struct)
  show "list_all2 (\<lambda>e g. e = int (length (fields_bytes g))) (TestChildExtensionData_sizes s) (TestChildExtensionData_groups s)" for s
    unfolding TestChildExtensionData_sizes_def TestChildExtensionData_groups_def append.simps
    by (intro list.rel_intros field_sized m_TestChildExtensionData_NestedTestAllExtensionsData.sized_struct)
  show "list_all2 (\<lambda>st g. writes st (fields_bytes g)) (TestChildExtensionData_appends s) (TestChildExtensionData_groups s)" for s
    unfolding TestChildExtensionData_appends_def TestChildExtensionData_groups_def append.simps
    by (intro list.rel_intros field_written m_TestChildExtensionData_NestedTestAllExtensionsData.written_struct)
  show "mbuf (TestChildExtensionDataReader_save t w off m) = mbuf m" for t w off m
    unfolding TestChildExtensionDataReader_save_def by (rule tag_switch_keeps) (simp add: TestChildExtensionDataReader_cases_def)
  show "fold (\<lambda>e. e) (TestChildExtensionData_stored s) TestChildExtensionData_zero = TestChildExtensionData_norm s" for s
    unfolding TestChildExtensionData_stored_def by (simp add: TestChildExtensionData_zero_def TestChildExtensionData_norm_def float_defaults)
qed (simp_all add: TestChildExtensionData_saved TestChildExtensionData_converted)

interpretation m_TestChildExtensionData: message_codec TestChildExtensionData_content TestChildExtensionData_norm TestChildExtensionData_XXX_PbContentSize TestChildExtensionData_MarshalTo
  "TestChildExtensionDataReader_Unmarshal NewTestChildExtensionDataReader" TestChildExtensionDataReader_ToStruct
  using l_TestChildExtensionData.message
  by (simp only: TestChildExtensionData_content_def [abs_def] TestChildExtensionData_XXX_PbContentSize_def TestChildExtensionData_MarshalTo_def TestChildExtensionDataReader_Unmarshal_def [abs_def] TestChildExtensionDataReader_ToStruct_def)


section \<open>TestNestedChildExtensionData: the reader\<close>

definition wireTestNestedChildExtensionData_A :: ProtoWireNumber where "wireTestNestedChildExtensionData_A = 1"
definition wireTestNestedChildExtensionData_Child :: ProtoWireNumber where "wireTestNestedChildExtensionData_Child = 2"

lemmas wireTestNestedChildExtensionData =
  wireTestNestedChildExtensionData_A_def wireTestNestedChildExtensionData_Child_def

record TestNestedChildExtensionDataReader =
  mbuf :: "Reader option"
  cellA :: "int32 one_cell"
  cellChild :: "(TestChildExtensionDataReader option) one_cell"

definition NewTestNestedChildExtensionDataReader :: TestNestedChildExtensionDataReader where
  "NewTestNestedChildExtensionDataReader = \<lparr>
     mbuf = None, cellA = newCell 0 0, cellChild = newCell None 0\<rparr>"

definition TestNestedChildExtensionDataReader_readA :: "TestNestedChildExtensionDataReader \<Rightarrow> (int32 \<times> TestNestedChildExtensionDataReader) run" where
  "TestNestedChildExtensionDataReader_readA = readCell cellA cellA_update mbuf (readOne ReadInt32 0)"

definition TestNestedChildExtensionDataReader_GetA :: "TestNestedChildExtensionDataReader option \<Rightarrow> (int32 \<times> TestNestedChildExtensionDataReader option) run" where
  "TestNestedChildExtensionDataReader_GetA = getter TestNestedChildExtensionDataReader_readA 0"

definition TestNestedChildExtensionDataReader_readChild :: "TestNestedChildExtensionDataReader \<Rightarrow> (TestChildExtensionDataReader option \<times> TestNestedChildExtensionDataReader) run" where
  "TestNestedChildExtensionDataReader_readChild = readCell cellChild cellChild_update mbuf (structReader (TestChildExtensionDataReader_Unmarshal NewTestChildExtensionDataReader))"

definition TestNestedChildExtensionDataReader_GetChild :: "TestNestedChildExtensionDataReader option \<Rightarrow> (TestChildExtensionDataReader option \<times> TestNestedChildExtensionDataReader option) run" where
  "TestNestedChildExtensionDataReader_GetChild = getter TestNestedChildExtensionDataReader_readChild None"

lemmas TestNestedChildExtensionData_getters =
  TestNestedChildExtensionDataReader_readA_def TestNestedChildExtensionDataReader_GetA_def
  TestNestedChildExtensionDataReader_readChild_def TestNestedChildExtensionDataReader_GetChild_def

definition TestNestedChildExtensionDataReader_cases :: "ProtoWireType \<Rightarrow> int \<Rightarrow> (ProtoWireNumber \<times> (TestNestedChildExtensionDataReader \<Rightarrow> TestNestedChildExtensionDataReader)) list" where
  "TestNestedChildExtensionDataReader_cases wire offset = [
     (wireTestNestedChildExtensionData_A, \<lambda>m. m\<lparr>cellA := onOffset (setOffset wire offset) (cellA m)\<rparr>),
     (wireTestNestedChildExtensionData_Child, \<lambda>m. m\<lparr>cellChild := onOffset (setOffset wire offset) (cellChild m)\<rparr>)]"

definition TestNestedChildExtensionDataReader_save :: "ProtoWireNumber \<Rightarrow> ProtoWireType \<Rightarrow> int \<Rightarrow> TestNestedChildExtensionDataReader \<Rightarrow> TestNestedChildExtensionDataReader" where
  "TestNestedChildExtensionDataReader_save tag wire offset = tag_switch (TestNestedChildExtensionDataReader_cases wire offset) tag"

definition TestNestedChildExtensionDataReader_Unmarshal :: "TestNestedChildExtensionDataReader \<Rightarrow> gslice \<Rightarrow> (TestNestedChildExtensionDataReader \<times> string option) run" where
  "TestNestedChildExtensionDataReader_Unmarshal m data =
     unmarshalLoop TestNestedChildExtensionDataReader_save (NewReader data) 0 (m\<lparr>mbuf := Some (NewReader data)\<rparr>)"

definition TestNestedChildExtensionDataReader_SourceBytes :: "TestNestedChildExtensionDataReader option \<Rightarrow> gslice" where
  "TestNestedChildExtensionDataReader_SourceBytes s = (case s of None \<Rightarrow> nil_slice | Some r \<Rightarrow> Bytes (mbuf r))"

section \<open>TestNestedChildExtensionData: the struct\<close>

record TestNestedChildExtensionData =
  A' :: int32
  Child :: "TestChildExtensionData option"

definition TestNestedChildExtensionData_zero :: TestNestedChildExtensionData where
  "TestNestedChildExtensionData_zero = \<lparr>
     A' = 0, Child = None\<rparr>"

definition TestNestedChildExtensionData_stmts :: "(TestNestedChildExtensionData \<times> TestNestedChildExtensionDataReader option \<Rightarrow> (TestNestedChildExtensionData \<times> TestNestedChildExtensionDataReader option) run) list" where
  "TestNestedChildExtensionData_stmts = [
     assign TestNestedChildExtensionDataReader_GetA (\<lambda>v res. res\<lparr>A' := v\<rparr>),
     assignStruct TestNestedChildExtensionDataReader_GetChild (structToStruct TestChildExtensionDataReader_ToStruct) cellChild_update
       (\<lambda>v res. res\<lparr>Child := v\<rparr>)]"

definition TestNestedChildExtensionDataReader_ToStruct :: "TestNestedChildExtensionDataReader option \<Rightarrow> (TestNestedChildExtensionData option \<times> TestNestedChildExtensionDataReader option) run" where
  "TestNestedChildExtensionDataReader_ToStruct = toStructWith (TestNestedChildExtensionData_stmts) TestNestedChildExtensionData_zero"

definition TestNestedChildExtensionData_appends :: "TestNestedChildExtensionData \<Rightarrow> (Writer \<Rightarrow> Writer go) list" where
  "TestNestedChildExtensionData_appends s = [
     \<lambda>res. if A' s \<noteq> 0 then AppendInt32 res wireTestNestedChildExtensionData_A (A' s) else Ret res,
     \<lambda>res. if Child s \<noteq> None then structWriter TestChildExtensionData_XXX_PbContentSize TestChildExtensionData_MarshalTo res wireTestNestedChildExtensionData_Child (Child s) else Ret res]"

definition TestNestedChildExtensionData_MarshalTo :: "Writer \<Rightarrow> TestNestedChildExtensionData option \<Rightarrow> Writer go" where
  "TestNestedChildExtensionData_MarshalTo = marshalToWith (\<lambda>s. TestNestedChildExtensionData_appends s)"

definition TestNestedChildExtensionData_sizes :: "TestNestedChildExtensionData \<Rightarrow> int list" where
  "TestNestedChildExtensionData_sizes s = [
     if A' s \<noteq> 0 then sizeWithTag SizeInt32 wireTestNestedChildExtensionData_A (A' s) else 0,
     if Child s \<noteq> None then sizeDelimitedWithTag TestChildExtensionData_XXX_PbContentSize wireTestNestedChildExtensionData_Child (Child s) else 0]"

definition TestNestedChildExtensionData_XXX_PbContentSize :: "TestNestedChildExtensionData option \<Rightarrow> int" where
  "TestNestedChildExtensionData_XXX_PbContentSize = contentSizeWith (\<lambda>s. TestNestedChildExtensionData_sizes s)"

definition TestNestedChildExtensionData_Marshal :: "TestNestedChildExtensionData option \<Rightarrow> byte list go" where
  "TestNestedChildExtensionData_Marshal = marshalWith TestNestedChildExtensionData_XXX_PbContentSize TestNestedChildExtensionData_MarshalTo"

definition TestNestedChildExtensionData_Copy :: "TestNestedChildExtensionData option \<Rightarrow> TestNestedChildExtensionData option" where
  "TestNestedChildExtensionData_Copy s =
     (case s of None \<Rightarrow> None | Some s \<Rightarrow> Some \<lparr>
        A' = A' s,
        Child = (case Child s of None \<Rightarrow> None | Some x \<Rightarrow> TestChildExtensionData_Copy (Some x))\<rparr>)"

section \<open>TestNestedChildExtensionData: the round trip\<close>

definition TestNestedChildExtensionData_tags :: "ProtoWireNumber list" where
  "TestNestedChildExtensionData_tags = [
     wireTestNestedChildExtensionData_A, wireTestNestedChildExtensionData_Child]"

definition TestNestedChildExtensionData_groups :: "TestNestedChildExtensionData \<Rightarrow> wfield list list" where
  "TestNestedChildExtensionData_groups s = [
     opt_field (A' s \<noteq> 0) (wireTestNestedChildExtensionData_A, int32_val (A' s)),
     opt_field (Child s \<noteq> None) (wireTestNestedChildExtensionData_Child, WBytes (ptr_bytes TestChildExtensionData_content (Child s)))]"

definition TestNestedChildExtensionData_content :: "TestNestedChildExtensionData \<Rightarrow> wfield list" where
  "TestNestedChildExtensionData_content s = concat (TestNestedChildExtensionData_groups s)"

text \<open>What a round trip keeps.\<close>

definition TestNestedChildExtensionData_norm :: "TestNestedChildExtensionData \<Rightarrow> TestNestedChildExtensionData" where
  "TestNestedChildExtensionData_norm s = s\<lparr>
     Child := norm_ptr TestChildExtensionData_content TestChildExtensionData_norm (Child s)\<rparr>"

definition TestNestedChildExtensionData_ready :: "Reader \<Rightarrow> TestNestedChildExtensionData \<Rightarrow> (TestNestedChildExtensionDataReader \<Rightarrow> bool) list" where
  "TestNestedChildExtensionData_ready p s = [
     \<lambda>m. cell_reads (readOne ReadInt32 0) plain p (if A' s \<noteq> 0 then A' s else 0) (cellA m),
     \<lambda>m. cell_reads (structReader (TestChildExtensionDataReader_Unmarshal NewTestChildExtensionDataReader)) (structToStruct TestChildExtensionDataReader_ToStruct) p (norm_ptr TestChildExtensionData_content TestChildExtensionData_norm (Child s)) (cellChild m)]"

definition TestNestedChildExtensionData_stored :: "TestNestedChildExtensionData \<Rightarrow> (TestNestedChildExtensionData \<Rightarrow> TestNestedChildExtensionData) list" where
  "TestNestedChildExtensionData_stored s = [
     \<lambda>res. res\<lparr>A' := if A' s \<noteq> 0 then A' s else 0\<rparr>,
     \<lambda>res. res\<lparr>Child := norm_ptr TestChildExtensionData_content TestChildExtensionData_norm (Child s)\<rparr>]"

lemma TestNestedChildExtensionData_cases_distinct: "distinct (map fst (TestNestedChildExtensionDataReader_cases wire offset))"
  by (rule ascending_distinct) (simp add: TestNestedChildExtensionDataReader_cases_def wireTestNestedChildExtensionData)

lemma TestNestedChildExtensionData_stores:
  "stores_cell TestNestedChildExtensionDataReader_save wireTestNestedChildExtensionData_A setOffset cellA"
  "stores_cell TestNestedChildExtensionDataReader_save wireTestNestedChildExtensionData_Child setOffset cellChild"
  unfolding TestNestedChildExtensionDataReader_save_def [abs_def] by (rule stores_cell_switch; (rule TestNestedChildExtensionData_cases_distinct)?; unfold TestNestedChildExtensionDataReader_cases_def; intro own_case.intros; simp)+

lemma TestNestedChildExtensionData_saved: "good_fields TestNestedChildExtensionDataReader_save p (NewTestNestedChildExtensionDataReader\<lparr>mbuf := Some p\<rparr>) TestNestedChildExtensionData_tags (TestNestedChildExtensionData_groups s) (TestNestedChildExtensionData_ready p s)"
  unfolding TestNestedChildExtensionData_tags_def TestNestedChildExtensionData_groups_def TestNestedChildExtensionData_ready_def
  by (intro good_fields.intros field_saved m_TestChildExtensionData.saved_struct TestNestedChildExtensionData_stores) (simp_all add: NewTestNestedChildExtensionDataReader_def newCell_def)

lemma TestNestedChildExtensionData_converted: "good_stmts mbuf p (TestNestedChildExtensionData_stmts) (TestNestedChildExtensionData_ready p s) (TestNestedChildExtensionData_stored s)"
  unfolding TestNestedChildExtensionData_stmts_def TestNestedChildExtensionData_ready_def TestNestedChildExtensionData_stored_def TestNestedChildExtensionData_getters append.simps
  by (intro good_stmts_field good_stmts.Nil) (simp_all cong: cell_reads_cong)

interpretation l_TestNestedChildExtensionData: lazy_message TestNestedChildExtensionData_tags TestNestedChildExtensionData_groups TestNestedChildExtensionData_norm
  "\<lambda>s. TestNestedChildExtensionData_sizes s" "\<lambda>s. TestNestedChildExtensionData_appends s"
  TestNestedChildExtensionDataReader_save "\<lambda>p. NewTestNestedChildExtensionDataReader\<lparr>mbuf := Some p\<rparr>" mbuf "TestNestedChildExtensionData_stmts" TestNestedChildExtensionData_zero TestNestedChildExtensionData_ready TestNestedChildExtensionData_stored
proof
  show "distinct TestNestedChildExtensionData_tags"
    using TestNestedChildExtensionData_cases_distinct by (simp only: TestNestedChildExtensionDataReader_cases_def TestNestedChildExtensionData_tags_def list.map fst_conv)
  show "list_all valid_tag TestNestedChildExtensionData_tags"
    by (simp add: TestNestedChildExtensionData_tags_def wireTestNestedChildExtensionData valid_tag_def)
  show "list_all2 (\<lambda>t g. \<forall>f \<in> set g. fst f = t \<and> wf_val (snd f)) TestNestedChildExtensionData_tags (TestNestedChildExtensionData_groups s)" for s
    unfolding TestNestedChildExtensionData_tags_def TestNestedChildExtensionData_groups_def by (intro list.rel_intros field_tagged m_TestChildExtensionData.tagged_struct)
  show "list_all2 (\<lambda>e g. e = int (length (fields_bytes g))) (TestNestedChildExtensionData_sizes s) (TestNestedChildExtensionData_groups s)" for s
    unfolding TestNestedChildExtensionData_sizes_def TestNestedChildExtensionData_groups_def append.simps
    by (intro list.rel_intros field_sized m_TestChildExtensionData.sized_struct)
  show "list_all2 (\<lambda>st g. writes st (fields_bytes g)) (TestNestedChildExtensionData_appends s) (TestNestedChildExtensionData_groups s)" for s
    unfolding TestNestedChildExtensionData_appends_def TestNestedChildExtensionData_groups_def append.simps
    by (intro list.rel_intros field_written m_TestChildExtensionData.written_struct)
  show "mbuf (TestNestedChildExtensionDataReader_save t w off m) = mbuf m" for t w off m
    unfolding TestNestedChildExtensionDataReader_save_def by (rule tag_switch_keeps) (simp add: TestNestedChildExtensionDataReader_cases_def)
  show "fold (\<lambda>e. e) (TestNestedChildExtensionData_stored s) TestNestedChildExtensionData_zero = TestNestedChildExtensionData_norm s" for s
    unfolding TestNestedChildExtensionData_stored_def by (simp add: TestNestedChildExtensionData_zero_def TestNestedChildExtensionData_norm_def float_defaults)
qed (simp_all add: TestNestedChildExtensionData_saved TestNestedChildExtensionData_converted)

interpretation m_TestNestedChildExtensionData: message_codec TestNestedChildExtensionData_content TestNestedChildExtensionData_norm TestNestedChildExtensionData_XXX_PbContentSize TestNestedChildExtensionData_MarshalTo
  "TestNestedChildExtensionDataReader_Unmarshal NewTestNestedChildExtensionDataReader" TestNestedChildExtensionDataReader_ToStruct
  using l_TestNestedChildExtensionData.message
  by (simp only: TestNestedChildExtensionData_content_def [abs_def] TestNestedChildExtensionData_XXX_PbContentSize_def TestNestedChildExtensionData_MarshalTo_def TestNestedChildExtensionDataReader_Unmarshal_def [abs_def] TestNestedChildExtensionDataReader_ToStruct_def)


section \<open>TestFieldOrderings_NestedMessage: the reader\<close>

definition wireTestFieldOrderings_NestedMessage_Oo :: ProtoWireNumber where "wireTestFieldOrderings_NestedMessage_Oo = 2"
definition wireTestFieldOrderings_NestedMessage_Bb :: ProtoWireNumber where "wireTestFieldOrderings_NestedMessage_Bb = 1"

lemmas wireTestFieldOrderings_NestedMessage =
  wireTestFieldOrderings_NestedMessage_Oo_def wireTestFieldOrderings_NestedMessage_Bb_def

record TestFieldOrderings_NestedMessageReader =
  mbuf :: "Reader option"
  cellOo :: "int64 one_cell"
  cellBb :: "int32 one_cell"

definition NewTestFieldOrderings_NestedMessageReader :: TestFieldOrderings_NestedMessageReader where
  "NewTestFieldOrderings_NestedMessageReader = \<lparr>
     mbuf = None, cellOo = newCell 0 0, cellBb = newCell 0 0\<rparr>"

definition TestFieldOrderings_NestedMessageReader_readOo :: "TestFieldOrderings_NestedMessageReader \<Rightarrow> (int64 \<times> TestFieldOrderings_NestedMessageReader) run" where
  "TestFieldOrderings_NestedMessageReader_readOo = readCell cellOo cellOo_update mbuf (readOne ReadInt64 0)"

definition TestFieldOrderings_NestedMessageReader_GetOo :: "TestFieldOrderings_NestedMessageReader option \<Rightarrow> (int64 \<times> TestFieldOrderings_NestedMessageReader option) run" where
  "TestFieldOrderings_NestedMessageReader_GetOo = getter TestFieldOrderings_NestedMessageReader_readOo 0"

definition TestFieldOrderings_NestedMessageReader_readBb :: "TestFieldOrderings_NestedMessageReader \<Rightarrow> (int32 \<times> TestFieldOrderings_NestedMessageReader) run" where
  "TestFieldOrderings_NestedMessageReader_readBb = readCell cellBb cellBb_update mbuf (readOne ReadInt32 0)"

definition TestFieldOrderings_NestedMessageReader_GetBb :: "TestFieldOrderings_NestedMessageReader option \<Rightarrow> (int32 \<times> TestFieldOrderings_NestedMessageReader option) run" where
  "TestFieldOrderings_NestedMessageReader_GetBb = getter TestFieldOrderings_NestedMessageReader_readBb 0"

lemmas TestFieldOrderings_NestedMessage_getters =
  TestFieldOrderings_NestedMessageReader_readOo_def TestFieldOrderings_NestedMessageReader_GetOo_def
  TestFieldOrderings_NestedMessageReader_readBb_def TestFieldOrderings_NestedMessageReader_GetBb_def

definition TestFieldOrderings_NestedMessageReader_cases :: "ProtoWireType \<Rightarrow> int \<Rightarrow> (ProtoWireNumber \<times> (TestFieldOrderings_NestedMessageReader \<Rightarrow> TestFieldOrderings_NestedMessageReader)) list" where
  "TestFieldOrderings_NestedMessageReader_cases wire offset = [
     (wireTestFieldOrderings_NestedMessage_Oo, \<lambda>m. m\<lparr>cellOo := onOffset (setOffset wire offset) (cellOo m)\<rparr>),
     (wireTestFieldOrderings_NestedMessage_Bb, \<lambda>m. m\<lparr>cellBb := onOffset (setOffset wire offset) (cellBb m)\<rparr>)]"

definition TestFieldOrderings_NestedMessageReader_save :: "ProtoWireNumber \<Rightarrow> ProtoWireType \<Rightarrow> int \<Rightarrow> TestFieldOrderings_NestedMessageReader \<Rightarrow> TestFieldOrderings_NestedMessageReader" where
  "TestFieldOrderings_NestedMessageReader_save tag wire offset = tag_switch (TestFieldOrderings_NestedMessageReader_cases wire offset) tag"

definition TestFieldOrderings_NestedMessageReader_Unmarshal :: "TestFieldOrderings_NestedMessageReader \<Rightarrow> gslice \<Rightarrow> (TestFieldOrderings_NestedMessageReader \<times> string option) run" where
  "TestFieldOrderings_NestedMessageReader_Unmarshal m data =
     unmarshalLoop TestFieldOrderings_NestedMessageReader_save (NewReader data) 0 (m\<lparr>mbuf := Some (NewReader data)\<rparr>)"

definition TestFieldOrderings_NestedMessageReader_SourceBytes :: "TestFieldOrderings_NestedMessageReader option \<Rightarrow> gslice" where
  "TestFieldOrderings_NestedMessageReader_SourceBytes s = (case s of None \<Rightarrow> nil_slice | Some r \<Rightarrow> Bytes (mbuf r))"

section \<open>TestFieldOrderings_NestedMessage: the struct\<close>

record TestFieldOrderings_NestedMessage =
  Oo :: int64
  Bb :: int32

definition TestFieldOrderings_NestedMessage_zero :: TestFieldOrderings_NestedMessage where
  "TestFieldOrderings_NestedMessage_zero = \<lparr>
     Oo = 0, Bb = 0\<rparr>"

definition TestFieldOrderings_NestedMessage_stmts :: "(TestFieldOrderings_NestedMessage \<times> TestFieldOrderings_NestedMessageReader option \<Rightarrow> (TestFieldOrderings_NestedMessage \<times> TestFieldOrderings_NestedMessageReader option) run) list" where
  "TestFieldOrderings_NestedMessage_stmts = [
     assign TestFieldOrderings_NestedMessageReader_GetOo (\<lambda>v res. res\<lparr>Oo := v\<rparr>),
     assign TestFieldOrderings_NestedMessageReader_GetBb (\<lambda>v res. res\<lparr>Bb := v\<rparr>)]"

definition TestFieldOrderings_NestedMessageReader_ToStruct :: "TestFieldOrderings_NestedMessageReader option \<Rightarrow> (TestFieldOrderings_NestedMessage option \<times> TestFieldOrderings_NestedMessageReader option) run" where
  "TestFieldOrderings_NestedMessageReader_ToStruct = toStructWith (TestFieldOrderings_NestedMessage_stmts) TestFieldOrderings_NestedMessage_zero"

definition TestFieldOrderings_NestedMessage_appends :: "TestFieldOrderings_NestedMessage \<Rightarrow> (Writer \<Rightarrow> Writer go) list" where
  "TestFieldOrderings_NestedMessage_appends s = [
     \<lambda>res. if Oo s \<noteq> 0 then AppendInt64 res wireTestFieldOrderings_NestedMessage_Oo (Oo s) else Ret res,
     \<lambda>res. if Bb s \<noteq> 0 then AppendInt32 res wireTestFieldOrderings_NestedMessage_Bb (Bb s) else Ret res]"

definition TestFieldOrderings_NestedMessage_MarshalTo :: "Writer \<Rightarrow> TestFieldOrderings_NestedMessage option \<Rightarrow> Writer go" where
  "TestFieldOrderings_NestedMessage_MarshalTo = marshalToWith (\<lambda>s. TestFieldOrderings_NestedMessage_appends s)"

definition TestFieldOrderings_NestedMessage_sizes :: "TestFieldOrderings_NestedMessage \<Rightarrow> int list" where
  "TestFieldOrderings_NestedMessage_sizes s = [
     if Oo s \<noteq> 0 then sizeWithTag SizeInt64 wireTestFieldOrderings_NestedMessage_Oo (Oo s) else 0,
     if Bb s \<noteq> 0 then sizeWithTag SizeInt32 wireTestFieldOrderings_NestedMessage_Bb (Bb s) else 0]"

definition TestFieldOrderings_NestedMessage_XXX_PbContentSize :: "TestFieldOrderings_NestedMessage option \<Rightarrow> int" where
  "TestFieldOrderings_NestedMessage_XXX_PbContentSize = contentSizeWith (\<lambda>s. TestFieldOrderings_NestedMessage_sizes s)"

definition TestFieldOrderings_NestedMessage_Marshal :: "TestFieldOrderings_NestedMessage option \<Rightarrow> byte list go" where
  "TestFieldOrderings_NestedMessage_Marshal = marshalWith TestFieldOrderings_NestedMessage_XXX_PbContentSize TestFieldOrderings_NestedMessage_MarshalTo"

definition TestFieldOrderings_NestedMessage_Copy :: "TestFieldOrderings_NestedMessage option \<Rightarrow> TestFieldOrderings_NestedMessage option" where
  "TestFieldOrderings_NestedMessage_Copy s =
     (case s of None \<Rightarrow> None | Some s \<Rightarrow> Some \<lparr>
        Oo = Oo s, Bb = Bb s\<rparr>)"

section \<open>TestFieldOrderings_NestedMessage: the round trip\<close>

definition TestFieldOrderings_NestedMessage_tags :: "ProtoWireNumber list" where
  "TestFieldOrderings_NestedMessage_tags = [
     wireTestFieldOrderings_NestedMessage_Oo, wireTestFieldOrderings_NestedMessage_Bb]"

definition TestFieldOrderings_NestedMessage_groups :: "TestFieldOrderings_NestedMessage \<Rightarrow> wfield list list" where
  "TestFieldOrderings_NestedMessage_groups s = [
     opt_field (Oo s \<noteq> 0) (wireTestFieldOrderings_NestedMessage_Oo, int64_val (Oo s)),
     opt_field (Bb s \<noteq> 0) (wireTestFieldOrderings_NestedMessage_Bb, int32_val (Bb s))]"

definition TestFieldOrderings_NestedMessage_content :: "TestFieldOrderings_NestedMessage \<Rightarrow> wfield list" where
  "TestFieldOrderings_NestedMessage_content s = concat (TestFieldOrderings_NestedMessage_groups s)"

text \<open>What a round trip keeps.\<close>

definition TestFieldOrderings_NestedMessage_norm :: "TestFieldOrderings_NestedMessage \<Rightarrow> TestFieldOrderings_NestedMessage" where
  "TestFieldOrderings_NestedMessage_norm s = s"

definition TestFieldOrderings_NestedMessage_ready :: "Reader \<Rightarrow> TestFieldOrderings_NestedMessage \<Rightarrow> (TestFieldOrderings_NestedMessageReader \<Rightarrow> bool) list" where
  "TestFieldOrderings_NestedMessage_ready p s = [
     \<lambda>m. cell_reads (readOne ReadInt64 0) plain p (if Oo s \<noteq> 0 then Oo s else 0) (cellOo m),
     \<lambda>m. cell_reads (readOne ReadInt32 0) plain p (if Bb s \<noteq> 0 then Bb s else 0) (cellBb m)]"

definition TestFieldOrderings_NestedMessage_stored :: "TestFieldOrderings_NestedMessage \<Rightarrow> (TestFieldOrderings_NestedMessage \<Rightarrow> TestFieldOrderings_NestedMessage) list" where
  "TestFieldOrderings_NestedMessage_stored s = [
     \<lambda>res. res\<lparr>Oo := if Oo s \<noteq> 0 then Oo s else 0\<rparr>,
     \<lambda>res. res\<lparr>Bb := if Bb s \<noteq> 0 then Bb s else 0\<rparr>]"

lemma TestFieldOrderings_NestedMessage_cases_distinct: "distinct (map fst (TestFieldOrderings_NestedMessageReader_cases wire offset))"
  by (simp add: TestFieldOrderings_NestedMessageReader_cases_def wireTestFieldOrderings_NestedMessage)

lemma TestFieldOrderings_NestedMessage_stores:
  "stores_cell TestFieldOrderings_NestedMessageReader_save wireTestFieldOrderings_NestedMessage_Oo setOffset cellOo"
  "stores_cell TestFieldOrderings_NestedMessageReader_save wireTestFieldOrderings_NestedMessage_Bb setOffset cellBb"
  unfolding TestFieldOrderings_NestedMessageReader_save_def [abs_def] by (rule stores_cell_switch; (rule TestFieldOrderings_NestedMessage_cases_distinct)?; unfold TestFieldOrderings_NestedMessageReader_cases_def; intro own_case.intros; simp)+

lemma TestFieldOrderings_NestedMessage_saved: "good_fields TestFieldOrderings_NestedMessageReader_save p (NewTestFieldOrderings_NestedMessageReader\<lparr>mbuf := Some p\<rparr>) TestFieldOrderings_NestedMessage_tags (TestFieldOrderings_NestedMessage_groups s) (TestFieldOrderings_NestedMessage_ready p s)"
  unfolding TestFieldOrderings_NestedMessage_tags_def TestFieldOrderings_NestedMessage_groups_def TestFieldOrderings_NestedMessage_ready_def
  by (intro good_fields.intros field_saved TestFieldOrderings_NestedMessage_stores) (simp_all add: NewTestFieldOrderings_NestedMessageReader_def newCell_def)

lemma TestFieldOrderings_NestedMessage_converted: "good_stmts mbuf p (TestFieldOrderings_NestedMessage_stmts) (TestFieldOrderings_NestedMessage_ready p s) (TestFieldOrderings_NestedMessage_stored s)"
  unfolding TestFieldOrderings_NestedMessage_stmts_def TestFieldOrderings_NestedMessage_ready_def TestFieldOrderings_NestedMessage_stored_def TestFieldOrderings_NestedMessage_getters append.simps
  by (intro good_stmts_field good_stmts.Nil) (simp_all cong: cell_reads_cong)

interpretation l_TestFieldOrderings_NestedMessage: lazy_message TestFieldOrderings_NestedMessage_tags TestFieldOrderings_NestedMessage_groups TestFieldOrderings_NestedMessage_norm
  "\<lambda>s. TestFieldOrderings_NestedMessage_sizes s" "\<lambda>s. TestFieldOrderings_NestedMessage_appends s"
  TestFieldOrderings_NestedMessageReader_save "\<lambda>p. NewTestFieldOrderings_NestedMessageReader\<lparr>mbuf := Some p\<rparr>" mbuf "TestFieldOrderings_NestedMessage_stmts" TestFieldOrderings_NestedMessage_zero TestFieldOrderings_NestedMessage_ready TestFieldOrderings_NestedMessage_stored
proof
  show "distinct TestFieldOrderings_NestedMessage_tags"
    using TestFieldOrderings_NestedMessage_cases_distinct by (simp only: TestFieldOrderings_NestedMessageReader_cases_def TestFieldOrderings_NestedMessage_tags_def list.map fst_conv)
  show "list_all valid_tag TestFieldOrderings_NestedMessage_tags"
    by (simp add: TestFieldOrderings_NestedMessage_tags_def wireTestFieldOrderings_NestedMessage valid_tag_def)
  show "list_all2 (\<lambda>t g. \<forall>f \<in> set g. fst f = t \<and> wf_val (snd f)) TestFieldOrderings_NestedMessage_tags (TestFieldOrderings_NestedMessage_groups s)" for s
    unfolding TestFieldOrderings_NestedMessage_tags_def TestFieldOrderings_NestedMessage_groups_def by (intro list.rel_intros field_tagged)
  show "list_all2 (\<lambda>e g. e = int (length (fields_bytes g))) (TestFieldOrderings_NestedMessage_sizes s) (TestFieldOrderings_NestedMessage_groups s)" for s
    unfolding TestFieldOrderings_NestedMessage_sizes_def TestFieldOrderings_NestedMessage_groups_def append.simps
    by (intro list.rel_intros field_sized)
  show "list_all2 (\<lambda>st g. writes st (fields_bytes g)) (TestFieldOrderings_NestedMessage_appends s) (TestFieldOrderings_NestedMessage_groups s)" for s
    unfolding TestFieldOrderings_NestedMessage_appends_def TestFieldOrderings_NestedMessage_groups_def append.simps
    by (intro list.rel_intros field_written)
  show "mbuf (TestFieldOrderings_NestedMessageReader_save t w off m) = mbuf m" for t w off m
    unfolding TestFieldOrderings_NestedMessageReader_save_def by (rule tag_switch_keeps) (simp add: TestFieldOrderings_NestedMessageReader_cases_def)
  show "fold (\<lambda>e. e) (TestFieldOrderings_NestedMessage_stored s) TestFieldOrderings_NestedMessage_zero = TestFieldOrderings_NestedMessage_norm s" for s
    unfolding TestFieldOrderings_NestedMessage_stored_def by (simp add: TestFieldOrderings_NestedMessage_zero_def TestFieldOrderings_NestedMessage_norm_def float_defaults)
qed (simp_all add: TestFieldOrderings_NestedMessage_saved TestFieldOrderings_NestedMessage_converted)

interpretation m_TestFieldOrderings_NestedMessage: message_codec TestFieldOrderings_NestedMessage_content TestFieldOrderings_NestedMessage_norm TestFieldOrderings_NestedMessage_XXX_PbContentSize TestFieldOrderings_NestedMessage_MarshalTo
  "TestFieldOrderings_NestedMessageReader_Unmarshal NewTestFieldOrderings_NestedMessageReader" TestFieldOrderings_NestedMessageReader_ToStruct
  using l_TestFieldOrderings_NestedMessage.message
  by (simp only: TestFieldOrderings_NestedMessage_content_def [abs_def] TestFieldOrderings_NestedMessage_XXX_PbContentSize_def TestFieldOrderings_NestedMessage_MarshalTo_def TestFieldOrderings_NestedMessageReader_Unmarshal_def [abs_def] TestFieldOrderings_NestedMessageReader_ToStruct_def)


section \<open>TestFieldOrderings: the reader\<close>

definition wireTestFieldOrderings_MyExtensionString :: ProtoWireNumber where "wireTestFieldOrderings_MyExtensionString = 50"
definition wireTestFieldOrderings_MyExtensionInt :: ProtoWireNumber where "wireTestFieldOrderings_MyExtensionInt = 5"
definition wireTestFieldOrderings_MyString :: ProtoWireNumber where "wireTestFieldOrderings_MyString = 11"
definition wireTestFieldOrderings_MyInt :: ProtoWireNumber where "wireTestFieldOrderings_MyInt = 1"
definition wireTestFieldOrderings_MyFloat :: ProtoWireNumber where "wireTestFieldOrderings_MyFloat = 101"
definition wireTestFieldOrderings_OptionalNestedMessage :: ProtoWireNumber where "wireTestFieldOrderings_OptionalNestedMessage = 200"

lemmas wireTestFieldOrderings =
  wireTestFieldOrderings_MyExtensionString_def wireTestFieldOrderings_MyExtensionInt_def
  wireTestFieldOrderings_MyString_def wireTestFieldOrderings_MyInt_def
  wireTestFieldOrderings_MyFloat_def wireTestFieldOrderings_OptionalNestedMessage_def

record TestFieldOrderingsReader =
  mbuf :: "Reader option"
  cellMyExtensionString :: "gostring one_cell"
  cellMyExtensionInt :: "int32 one_cell"
  cellMyString :: "gostring one_cell"
  cellMyInt :: "int64 one_cell"
  cellMyFloat :: "float32 one_cell"
  cellOptionalNestedMessage :: "(TestFieldOrderings_NestedMessageReader option) one_cell"

definition NewTestFieldOrderingsReader :: TestFieldOrderingsReader where
  "NewTestFieldOrderingsReader = \<lparr>
     mbuf = None, cellMyExtensionString = newCell [] 0, cellMyExtensionInt = newCell 0 0,
     cellMyString = newCell [] 0, cellMyInt = newCell 0 0, cellMyFloat = newCell 0 0,
     cellOptionalNestedMessage = newCell None 0\<rparr>"

definition TestFieldOrderingsReader_readMyExtensionString :: "TestFieldOrderingsReader \<Rightarrow> (gostring \<times> TestFieldOrderingsReader) run" where
  "TestFieldOrderingsReader_readMyExtensionString = readCell cellMyExtensionString cellMyExtensionString_update mbuf (readOne ReadString [])"

definition TestFieldOrderingsReader_GetMyExtensionString :: "TestFieldOrderingsReader option \<Rightarrow> (gostring \<times> TestFieldOrderingsReader option) run" where
  "TestFieldOrderingsReader_GetMyExtensionString = getter TestFieldOrderingsReader_readMyExtensionString []"

definition TestFieldOrderingsReader_readMyExtensionInt :: "TestFieldOrderingsReader \<Rightarrow> (int32 \<times> TestFieldOrderingsReader) run" where
  "TestFieldOrderingsReader_readMyExtensionInt = readCell cellMyExtensionInt cellMyExtensionInt_update mbuf (readOne ReadInt32 0)"

definition TestFieldOrderingsReader_GetMyExtensionInt :: "TestFieldOrderingsReader option \<Rightarrow> (int32 \<times> TestFieldOrderingsReader option) run" where
  "TestFieldOrderingsReader_GetMyExtensionInt = getter TestFieldOrderingsReader_readMyExtensionInt 0"

definition TestFieldOrderingsReader_readMyString :: "TestFieldOrderingsReader \<Rightarrow> (gostring \<times> TestFieldOrderingsReader) run" where
  "TestFieldOrderingsReader_readMyString = readCell cellMyString cellMyString_update mbuf (readOne ReadString [])"

definition TestFieldOrderingsReader_GetMyString :: "TestFieldOrderingsReader option \<Rightarrow> (gostring \<times> TestFieldOrderingsReader option) run" where
  "TestFieldOrderingsReader_GetMyString = getter TestFieldOrderingsReader_readMyString []"

definition TestFieldOrderingsReader_readMyInt :: "TestFieldOrderingsReader \<Rightarrow> (int64 \<times> TestFieldOrderingsReader) run" where
  "TestFieldOrderingsReader_readMyInt = readCell cellMyInt cellMyInt_update mbuf (readOne ReadInt64 0)"

definition TestFieldOrderingsReader_GetMyInt :: "TestFieldOrderingsReader option \<Rightarrow> (int64 \<times> TestFieldOrderingsReader option) run" where
  "TestFieldOrderingsReader_GetMyInt = getter TestFieldOrderingsReader_readMyInt 0"

definition TestFieldOrderingsReader_readMyFloat :: "TestFieldOrderingsReader \<Rightarrow> (float32 \<times> TestFieldOrderingsReader) run" where
  "TestFieldOrderingsReader_readMyFloat = readCell cellMyFloat cellMyFloat_update mbuf (readOne ReadFloat32 0x0)"

definition TestFieldOrderingsReader_GetMyFloat :: "TestFieldOrderingsReader option \<Rightarrow> (float32 \<times> TestFieldOrderingsReader option) run" where
  "TestFieldOrderingsReader_GetMyFloat = getter TestFieldOrderingsReader_readMyFloat 0x0"

definition TestFieldOrderingsReader_readOptionalNestedMessage :: "TestFieldOrderingsReader \<Rightarrow> (TestFieldOrderings_NestedMessageReader option \<times> TestFieldOrderingsReader) run" where
  "TestFieldOrderingsReader_readOptionalNestedMessage = readCell cellOptionalNestedMessage cellOptionalNestedMessage_update mbuf (structReader (TestFieldOrderings_NestedMessageReader_Unmarshal NewTestFieldOrderings_NestedMessageReader))"

definition TestFieldOrderingsReader_GetOptionalNestedMessage :: "TestFieldOrderingsReader option \<Rightarrow> (TestFieldOrderings_NestedMessageReader option \<times> TestFieldOrderingsReader option) run" where
  "TestFieldOrderingsReader_GetOptionalNestedMessage = getter TestFieldOrderingsReader_readOptionalNestedMessage None"

lemmas TestFieldOrderings_getters =
  TestFieldOrderingsReader_readMyExtensionString_def TestFieldOrderingsReader_GetMyExtensionString_def
  TestFieldOrderingsReader_readMyExtensionInt_def TestFieldOrderingsReader_GetMyExtensionInt_def
  TestFieldOrderingsReader_readMyString_def TestFieldOrderingsReader_GetMyString_def
  TestFieldOrderingsReader_readMyInt_def TestFieldOrderingsReader_GetMyInt_def
  TestFieldOrderingsReader_readMyFloat_def TestFieldOrderingsReader_GetMyFloat_def
  TestFieldOrderingsReader_readOptionalNestedMessage_def TestFieldOrderingsReader_GetOptionalNestedMessage_def

definition TestFieldOrderingsReader_cases :: "ProtoWireType \<Rightarrow> int \<Rightarrow> (ProtoWireNumber \<times> (TestFieldOrderingsReader \<Rightarrow> TestFieldOrderingsReader)) list" where
  "TestFieldOrderingsReader_cases wire offset = [
     (wireTestFieldOrderings_MyExtensionString, \<lambda>m. m\<lparr>cellMyExtensionString := onOffset (setOffset wire offset) (cellMyExtensionString m)\<rparr>),
     (wireTestFieldOrderings_MyExtensionInt, \<lambda>m. m\<lparr>cellMyExtensionInt := onOffset (setOffset wire offset) (cellMyExtensionInt m)\<rparr>),
     (wireTestFieldOrderings_MyString, \<lambda>m. m\<lparr>cellMyString := onOffset (setOffset wire offset) (cellMyString m)\<rparr>),
     (wireTestFieldOrderings_MyInt, \<lambda>m. m\<lparr>cellMyInt := onOffset (setOffset wire offset) (cellMyInt m)\<rparr>),
     (wireTestFieldOrderings_MyFloat, \<lambda>m. m\<lparr>cellMyFloat := onOffset (setOffset wire offset) (cellMyFloat m)\<rparr>),
     (wireTestFieldOrderings_OptionalNestedMessage, \<lambda>m. m\<lparr>cellOptionalNestedMessage := onOffset (setOffset wire offset) (cellOptionalNestedMessage m)\<rparr>)]"

definition TestFieldOrderingsReader_save :: "ProtoWireNumber \<Rightarrow> ProtoWireType \<Rightarrow> int \<Rightarrow> TestFieldOrderingsReader \<Rightarrow> TestFieldOrderingsReader" where
  "TestFieldOrderingsReader_save tag wire offset = tag_switch (TestFieldOrderingsReader_cases wire offset) tag"

definition TestFieldOrderingsReader_Unmarshal :: "TestFieldOrderingsReader \<Rightarrow> gslice \<Rightarrow> (TestFieldOrderingsReader \<times> string option) run" where
  "TestFieldOrderingsReader_Unmarshal m data =
     unmarshalLoop TestFieldOrderingsReader_save (NewReader data) 0 (m\<lparr>mbuf := Some (NewReader data)\<rparr>)"

definition TestFieldOrderingsReader_SourceBytes :: "TestFieldOrderingsReader option \<Rightarrow> gslice" where
  "TestFieldOrderingsReader_SourceBytes s = (case s of None \<Rightarrow> nil_slice | Some r \<Rightarrow> Bytes (mbuf r))"

section \<open>TestFieldOrderings: the struct\<close>

record TestFieldOrderings =
  MyExtensionString :: gostring
  MyExtensionInt :: int32
  MyString :: gostring
  MyInt :: int64
  MyFloat :: float32
  OptionalNestedMessage :: "TestFieldOrderings_NestedMessage option"

definition TestFieldOrderings_zero :: TestFieldOrderings where
  "TestFieldOrderings_zero = \<lparr>
     MyExtensionString = [], MyExtensionInt = 0, MyString = [], MyInt = 0, MyFloat = 0,
     OptionalNestedMessage = None\<rparr>"

definition TestFieldOrderings_stmts :: "(TestFieldOrderings \<times> TestFieldOrderingsReader option \<Rightarrow> (TestFieldOrderings \<times> TestFieldOrderingsReader option) run) list" where
  "TestFieldOrderings_stmts = [
     assign TestFieldOrderingsReader_GetMyExtensionString (\<lambda>v res. res\<lparr>MyExtensionString := v\<rparr>),
     assign TestFieldOrderingsReader_GetMyExtensionInt (\<lambda>v res. res\<lparr>MyExtensionInt := v\<rparr>),
     assign TestFieldOrderingsReader_GetMyString (\<lambda>v res. res\<lparr>MyString := v\<rparr>),
     assign TestFieldOrderingsReader_GetMyInt (\<lambda>v res. res\<lparr>MyInt := v\<rparr>),
     assign TestFieldOrderingsReader_GetMyFloat (\<lambda>v res. res\<lparr>MyFloat := v\<rparr>),
     assignStruct TestFieldOrderingsReader_GetOptionalNestedMessage (structToStruct TestFieldOrderings_NestedMessageReader_ToStruct) cellOptionalNestedMessage_update
       (\<lambda>v res. res\<lparr>OptionalNestedMessage := v\<rparr>)]"

definition TestFieldOrderingsReader_ToStruct :: "TestFieldOrderingsReader option \<Rightarrow> (TestFieldOrderings option \<times> TestFieldOrderingsReader option) run" where
  "TestFieldOrderingsReader_ToStruct = toStructWith (TestFieldOrderings_stmts) TestFieldOrderings_zero"

definition TestFieldOrderings_appends :: "TestFieldOrderings \<Rightarrow> (Writer \<Rightarrow> Writer go) list" where
  "TestFieldOrderings_appends s = [
     \<lambda>res. if MyExtensionString s \<noteq> [] then AppendString res wireTestFieldOrderings_MyExtensionString (MyExtensionString s) else Ret res,
     \<lambda>res. if MyExtensionInt s \<noteq> 0 then AppendInt32 res wireTestFieldOrderings_MyExtensionInt (MyExtensionInt s) else Ret res,
     \<lambda>res. if MyString s \<noteq> [] then AppendString res wireTestFieldOrderings_MyString (MyString s) else Ret res,
     \<lambda>res. if MyInt s \<noteq> 0 then AppendInt64 res wireTestFieldOrderings_MyInt (MyInt s) else Ret res,
     \<lambda>res. if \<not> float32_is_zero (MyFloat s) then AppendFloat32 res wireTestFieldOrderings_MyFloat (MyFloat s) else Ret res,
     \<lambda>res. if OptionalNestedMessage s \<noteq> None then structWriter TestFieldOrderings_NestedMessage_XXX_PbContentSize TestFieldOrderings_NestedMessage_MarshalTo res wireTestFieldOrderings_OptionalNestedMessage (OptionalNestedMessage s) else Ret res]"

definition TestFieldOrderings_MarshalTo :: "Writer \<Rightarrow> TestFieldOrderings option \<Rightarrow> Writer go" where
  "TestFieldOrderings_MarshalTo = marshalToWith (\<lambda>s. TestFieldOrderings_appends s)"

definition TestFieldOrderings_sizes :: "TestFieldOrderings \<Rightarrow> int list" where
  "TestFieldOrderings_sizes s = [
     if MyExtensionString s \<noteq> [] then sizeDelimitedWithTag SizeString wireTestFieldOrderings_MyExtensionString (MyExtensionString s) else 0,
     if MyExtensionInt s \<noteq> 0 then sizeWithTag SizeInt32 wireTestFieldOrderings_MyExtensionInt (MyExtensionInt s) else 0,
     if MyString s \<noteq> [] then sizeDelimitedWithTag SizeString wireTestFieldOrderings_MyString (MyString s) else 0,
     if MyInt s \<noteq> 0 then sizeWithTag SizeInt64 wireTestFieldOrderings_MyInt (MyInt s) else 0,
     if \<not> float32_is_zero (MyFloat s) then sizeWithTag SizeFloat32 wireTestFieldOrderings_MyFloat (MyFloat s) else 0,
     if OptionalNestedMessage s \<noteq> None then sizeDelimitedWithTag TestFieldOrderings_NestedMessage_XXX_PbContentSize wireTestFieldOrderings_OptionalNestedMessage (OptionalNestedMessage s) else 0]"

definition TestFieldOrderings_XXX_PbContentSize :: "TestFieldOrderings option \<Rightarrow> int" where
  "TestFieldOrderings_XXX_PbContentSize = contentSizeWith (\<lambda>s. TestFieldOrderings_sizes s)"

definition TestFieldOrderings_Marshal :: "TestFieldOrderings option \<Rightarrow> byte list go" where
  "TestFieldOrderings_Marshal = marshalWith TestFieldOrderings_XXX_PbContentSize TestFieldOrderings_MarshalTo"

definition TestFieldOrderings_Copy :: "TestFieldOrderings option \<Rightarrow> TestFieldOrderings option" where
  "TestFieldOrderings_Copy s =
     (case s of None \<Rightarrow> None | Some s \<Rightarrow> Some \<lparr>
        MyExtensionString = MyExtensionString s, MyExtensionInt = MyExtensionInt s,
        MyString = MyString s, MyInt = MyInt s, MyFloat = MyFloat s,
        OptionalNestedMessage = (case OptionalNestedMessage s of None \<Rightarrow> None | Some x \<Rightarrow> TestFieldOrderings_NestedMessage_Copy (Some x))\<rparr>)"

section \<open>TestFieldOrderings: the round trip\<close>

definition TestFieldOrderings_tags :: "ProtoWireNumber list" where
  "TestFieldOrderings_tags = [
     wireTestFieldOrderings_MyExtensionString, wireTestFieldOrderings_MyExtensionInt,
     wireTestFieldOrderings_MyString, wireTestFieldOrderings_MyInt,
     wireTestFieldOrderings_MyFloat, wireTestFieldOrderings_OptionalNestedMessage]"

definition TestFieldOrderings_groups :: "TestFieldOrderings \<Rightarrow> wfield list list" where
  "TestFieldOrderings_groups s = [
     opt_field (MyExtensionString s \<noteq> []) (wireTestFieldOrderings_MyExtensionString, WBytes (MyExtensionString s)),
     opt_field (MyExtensionInt s \<noteq> 0) (wireTestFieldOrderings_MyExtensionInt, int32_val (MyExtensionInt s)),
     opt_field (MyString s \<noteq> []) (wireTestFieldOrderings_MyString, WBytes (MyString s)),
     opt_field (MyInt s \<noteq> 0) (wireTestFieldOrderings_MyInt, int64_val (MyInt s)),
     opt_field (\<not> float32_is_zero (MyFloat s)) (wireTestFieldOrderings_MyFloat, WFixed32 (MyFloat s)),
     opt_field (OptionalNestedMessage s \<noteq> None) (wireTestFieldOrderings_OptionalNestedMessage, WBytes (ptr_bytes TestFieldOrderings_NestedMessage_content (OptionalNestedMessage s)))]"

definition TestFieldOrderings_content :: "TestFieldOrderings \<Rightarrow> wfield list" where
  "TestFieldOrderings_content s = concat (TestFieldOrderings_groups s)"

text \<open>What a round trip keeps.\<close>

definition TestFieldOrderings_norm :: "TestFieldOrderings \<Rightarrow> TestFieldOrderings" where
  "TestFieldOrderings_norm s = s\<lparr>
     MyFloat := if \<not> float32_is_zero (MyFloat s) then MyFloat s else 0x0,
     OptionalNestedMessage := norm_ptr TestFieldOrderings_NestedMessage_content TestFieldOrderings_NestedMessage_norm (OptionalNestedMessage s)\<rparr>"

definition TestFieldOrderings_ready :: "Reader \<Rightarrow> TestFieldOrderings \<Rightarrow> (TestFieldOrderingsReader \<Rightarrow> bool) list" where
  "TestFieldOrderings_ready p s = [
     \<lambda>m. cell_reads (readOne ReadString []) plain p (if MyExtensionString s \<noteq> [] then MyExtensionString s else []) (cellMyExtensionString m),
     \<lambda>m. cell_reads (readOne ReadInt32 0) plain p (if MyExtensionInt s \<noteq> 0 then MyExtensionInt s else 0) (cellMyExtensionInt m),
     \<lambda>m. cell_reads (readOne ReadString []) plain p (if MyString s \<noteq> [] then MyString s else []) (cellMyString m),
     \<lambda>m. cell_reads (readOne ReadInt64 0) plain p (if MyInt s \<noteq> 0 then MyInt s else 0) (cellMyInt m),
     \<lambda>m. cell_reads (readOne ReadFloat32 0x0) plain p (if \<not> float32_is_zero (MyFloat s) then MyFloat s else 0x0) (cellMyFloat m),
     \<lambda>m. cell_reads (structReader (TestFieldOrderings_NestedMessageReader_Unmarshal NewTestFieldOrderings_NestedMessageReader)) (structToStruct TestFieldOrderings_NestedMessageReader_ToStruct) p (norm_ptr TestFieldOrderings_NestedMessage_content TestFieldOrderings_NestedMessage_norm (OptionalNestedMessage s)) (cellOptionalNestedMessage m)]"

definition TestFieldOrderings_stored :: "TestFieldOrderings \<Rightarrow> (TestFieldOrderings \<Rightarrow> TestFieldOrderings) list" where
  "TestFieldOrderings_stored s = [
     \<lambda>res. res\<lparr>MyExtensionString := if MyExtensionString s \<noteq> [] then MyExtensionString s else []\<rparr>,
     \<lambda>res. res\<lparr>MyExtensionInt := if MyExtensionInt s \<noteq> 0 then MyExtensionInt s else 0\<rparr>,
     \<lambda>res. res\<lparr>MyString := if MyString s \<noteq> [] then MyString s else []\<rparr>,
     \<lambda>res. res\<lparr>MyInt := if MyInt s \<noteq> 0 then MyInt s else 0\<rparr>,
     \<lambda>res. res\<lparr>MyFloat := if \<not> float32_is_zero (MyFloat s) then MyFloat s else 0x0\<rparr>,
     \<lambda>res. res\<lparr>OptionalNestedMessage := norm_ptr TestFieldOrderings_NestedMessage_content TestFieldOrderings_NestedMessage_norm (OptionalNestedMessage s)\<rparr>]"

lemma TestFieldOrderings_cases_distinct: "distinct (map fst (TestFieldOrderingsReader_cases wire offset))"
  by (simp add: TestFieldOrderingsReader_cases_def wireTestFieldOrderings)

lemma TestFieldOrderings_stores:
  "stores_cell TestFieldOrderingsReader_save wireTestFieldOrderings_MyExtensionString setOffset cellMyExtensionString"
  "stores_cell TestFieldOrderingsReader_save wireTestFieldOrderings_MyExtensionInt setOffset cellMyExtensionInt"
  "stores_cell TestFieldOrderingsReader_save wireTestFieldOrderings_MyString setOffset cellMyString"
  "stores_cell TestFieldOrderingsReader_save wireTestFieldOrderings_MyInt setOffset cellMyInt"
  "stores_cell TestFieldOrderingsReader_save wireTestFieldOrderings_MyFloat setOffset cellMyFloat"
  "stores_cell TestFieldOrderingsReader_save wireTestFieldOrderings_OptionalNestedMessage setOffset cellOptionalNestedMessage"
  unfolding TestFieldOrderingsReader_save_def [abs_def] by (rule stores_cell_switch; (rule TestFieldOrderings_cases_distinct)?; unfold TestFieldOrderingsReader_cases_def; intro own_case.intros; simp)+

lemma TestFieldOrderings_saved: "good_fields TestFieldOrderingsReader_save p (NewTestFieldOrderingsReader\<lparr>mbuf := Some p\<rparr>) TestFieldOrderings_tags (TestFieldOrderings_groups s) (TestFieldOrderings_ready p s)"
  unfolding TestFieldOrderings_tags_def TestFieldOrderings_groups_def TestFieldOrderings_ready_def
  by (intro good_fields.intros field_saved m_TestFieldOrderings_NestedMessage.saved_struct TestFieldOrderings_stores) (simp_all add: NewTestFieldOrderingsReader_def newCell_def)

lemma TestFieldOrderings_converted: "good_stmts mbuf p (TestFieldOrderings_stmts) (TestFieldOrderings_ready p s) (TestFieldOrderings_stored s)"
  unfolding TestFieldOrderings_stmts_def TestFieldOrderings_ready_def TestFieldOrderings_stored_def TestFieldOrderings_getters append.simps
  by (intro good_stmts_field good_stmts.Nil) (simp_all cong: cell_reads_cong)

interpretation l_TestFieldOrderings: lazy_message TestFieldOrderings_tags TestFieldOrderings_groups TestFieldOrderings_norm
  "\<lambda>s. TestFieldOrderings_sizes s" "\<lambda>s. TestFieldOrderings_appends s"
  TestFieldOrderingsReader_save "\<lambda>p. NewTestFieldOrderingsReader\<lparr>mbuf := Some p\<rparr>" mbuf "TestFieldOrderings_stmts" TestFieldOrderings_zero TestFieldOrderings_ready TestFieldOrderings_stored
proof
  show "distinct TestFieldOrderings_tags"
    using TestFieldOrderings_cases_distinct by (simp only: TestFieldOrderingsReader_cases_def TestFieldOrderings_tags_def list.map fst_conv)
  show "list_all valid_tag TestFieldOrderings_tags"
    by (simp add: TestFieldOrderings_tags_def wireTestFieldOrderings valid_tag_def)
  show "list_all2 (\<lambda>t g. \<forall>f \<in> set g. fst f = t \<and> wf_val (snd f)) TestFieldOrderings_tags (TestFieldOrderings_groups s)" for s
    unfolding TestFieldOrderings_tags_def TestFieldOrderings_groups_def by (intro list.rel_intros field_tagged m_TestFieldOrderings_NestedMessage.tagged_struct)
  show "list_all2 (\<lambda>e g. e = int (length (fields_bytes g))) (TestFieldOrderings_sizes s) (TestFieldOrderings_groups s)" for s
    unfolding TestFieldOrderings_sizes_def TestFieldOrderings_groups_def append.simps
    by (intro list.rel_intros field_sized m_TestFieldOrderings_NestedMessage.sized_struct)
  show "list_all2 (\<lambda>st g. writes st (fields_bytes g)) (TestFieldOrderings_appends s) (TestFieldOrderings_groups s)" for s
    unfolding TestFieldOrderings_appends_def TestFieldOrderings_groups_def append.simps
    by (intro list.rel_intros field_written m_TestFieldOrderings_NestedMessage.written_struct)
  show "mbuf (TestFieldOrderingsReader_save t w off m) = mbuf m" for t w off m
    unfolding TestFieldOrderingsReader_save_def by (rule tag_switch_keeps) (simp add: TestFieldOrderingsReader_cases_def)
  show "fold (\<lambda>e. e) (TestFieldOrderings_stored s) TestFieldOrderings_zero = TestFieldOrderings_norm s" for s
    unfolding TestFieldOrderings_stored_def by (simp add: TestFieldOrderings_zero_def TestFieldOrderings_norm_def float_defaults)
qed (simp_all add: TestFieldOrderings_saved TestFieldOrderings_converted)

interpretation m_TestFieldOrderings: message_codec TestFieldOrderings_content TestFieldOrderings_norm TestFieldOrderings_XXX_PbContentSize TestFieldOrderings_MarshalTo
  "TestFieldOrderingsReader_Unmarshal NewTestFieldOrderingsReader" TestFieldOrderingsReader_ToStruct
  using l_TestFieldOrderings.message
  by (simp only: TestFieldOrderings_content_def [abs_def] TestFieldOrderings_XXX_PbContentSize_def TestFieldOrderings_MarshalTo_def TestFieldOrderingsReader_Unmarshal_def [abs_def] TestFieldOrderingsReader_ToStruct_def)


section \<open>TestExtensionOrderings1: the reader\<close>

definition wireTestExtensionOrderings1_MyString :: ProtoWireNumber where "wireTestExtensionOrderings1_MyString = 1"

lemmas wireTestExtensionOrderings1 =
  wireTestExtensionOrderings1_MyString_def

record TestExtensionOrderings1Reader =
  mbuf :: "Reader option"
  cellMyString :: "gostring one_cell"

definition NewTestExtensionOrderings1Reader :: TestExtensionOrderings1Reader where
  "NewTestExtensionOrderings1Reader = \<lparr>
     mbuf = None, cellMyString = newCell [] 0\<rparr>"

definition TestExtensionOrderings1Reader_readMyString :: "TestExtensionOrderings1Reader \<Rightarrow> (gostring \<times> TestExtensionOrderings1Reader) run" where
  "TestExtensionOrderings1Reader_readMyString = readCell cellMyString cellMyString_update mbuf (readOne ReadString [])"

definition TestExtensionOrderings1Reader_GetMyString :: "TestExtensionOrderings1Reader option \<Rightarrow> (gostring \<times> TestExtensionOrderings1Reader option) run" where
  "TestExtensionOrderings1Reader_GetMyString = getter TestExtensionOrderings1Reader_readMyString []"

lemmas TestExtensionOrderings1_getters =
  TestExtensionOrderings1Reader_readMyString_def TestExtensionOrderings1Reader_GetMyString_def

definition TestExtensionOrderings1Reader_cases :: "ProtoWireType \<Rightarrow> int \<Rightarrow> (ProtoWireNumber \<times> (TestExtensionOrderings1Reader \<Rightarrow> TestExtensionOrderings1Reader)) list" where
  "TestExtensionOrderings1Reader_cases wire offset = [
     (wireTestExtensionOrderings1_MyString, \<lambda>m. m\<lparr>cellMyString := onOffset (setOffset wire offset) (cellMyString m)\<rparr>)]"

definition TestExtensionOrderings1Reader_save :: "ProtoWireNumber \<Rightarrow> ProtoWireType \<Rightarrow> int \<Rightarrow> TestExtensionOrderings1Reader \<Rightarrow> TestExtensionOrderings1Reader" where
  "TestExtensionOrderings1Reader_save tag wire offset = tag_switch (TestExtensionOrderings1Reader_cases wire offset) tag"

definition TestExtensionOrderings1Reader_Unmarshal :: "TestExtensionOrderings1Reader \<Rightarrow> gslice \<Rightarrow> (TestExtensionOrderings1Reader \<times> string option) run" where
  "TestExtensionOrderings1Reader_Unmarshal m data =
     unmarshalLoop TestExtensionOrderings1Reader_save (NewReader data) 0 (m\<lparr>mbuf := Some (NewReader data)\<rparr>)"

definition TestExtensionOrderings1Reader_SourceBytes :: "TestExtensionOrderings1Reader option \<Rightarrow> gslice" where
  "TestExtensionOrderings1Reader_SourceBytes s = (case s of None \<Rightarrow> nil_slice | Some r \<Rightarrow> Bytes (mbuf r))"

section \<open>TestExtensionOrderings1: the struct\<close>

record TestExtensionOrderings1 =
  MyString :: gostring

definition TestExtensionOrderings1_zero :: TestExtensionOrderings1 where
  "TestExtensionOrderings1_zero = \<lparr>
     MyString = []\<rparr>"

definition TestExtensionOrderings1_stmts :: "(TestExtensionOrderings1 \<times> TestExtensionOrderings1Reader option \<Rightarrow> (TestExtensionOrderings1 \<times> TestExtensionOrderings1Reader option) run) list" where
  "TestExtensionOrderings1_stmts = [
     assign TestExtensionOrderings1Reader_GetMyString (\<lambda>v res. res\<lparr>MyString := v\<rparr>)]"

definition TestExtensionOrderings1Reader_ToStruct :: "TestExtensionOrderings1Reader option \<Rightarrow> (TestExtensionOrderings1 option \<times> TestExtensionOrderings1Reader option) run" where
  "TestExtensionOrderings1Reader_ToStruct = toStructWith (TestExtensionOrderings1_stmts) TestExtensionOrderings1_zero"

definition TestExtensionOrderings1_appends :: "TestExtensionOrderings1 \<Rightarrow> (Writer \<Rightarrow> Writer go) list" where
  "TestExtensionOrderings1_appends s = [
     \<lambda>res. if MyString s \<noteq> [] then AppendString res wireTestExtensionOrderings1_MyString (MyString s) else Ret res]"

definition TestExtensionOrderings1_MarshalTo :: "Writer \<Rightarrow> TestExtensionOrderings1 option \<Rightarrow> Writer go" where
  "TestExtensionOrderings1_MarshalTo = marshalToWith (\<lambda>s. TestExtensionOrderings1_appends s)"

definition TestExtensionOrderings1_sizes :: "TestExtensionOrderings1 \<Rightarrow> int list" where
  "TestExtensionOrderings1_sizes s = [
     if MyString s \<noteq> [] then sizeDelimitedWithTag SizeString wireTestExtensionOrderings1_MyString (MyString s) else 0]"

definition TestExtensionOrderings1_XXX_PbContentSize :: "TestExtensionOrderings1 option \<Rightarrow> int" where
  "TestExtensionOrderings1_XXX_PbContentSize = contentSizeWith (\<lambda>s. TestExtensionOrderings1_sizes s)"

definition TestExtensionOrderings1_Marshal :: "TestExtensionOrderings1 option \<Rightarrow> byte list go" where
  "TestExtensionOrderings1_Marshal = marshalWith TestExtensionOrderings1_XXX_PbContentSize TestExtensionOrderings1_MarshalTo"

definition TestExtensionOrderings1_Copy :: "TestExtensionOrderings1 option \<Rightarrow> TestExtensionOrderings1 option" where
  "TestExtensionOrderings1_Copy s =
     (case s of None \<Rightarrow> None | Some s \<Rightarrow> Some \<lparr>
        MyString = MyString s\<rparr>)"

section \<open>TestExtensionOrderings1: the round trip\<close>

definition TestExtensionOrderings1_tags :: "ProtoWireNumber list" where
  "TestExtensionOrderings1_tags = [
     wireTestExtensionOrderings1_MyString]"

definition TestExtensionOrderings1_groups :: "TestExtensionOrderings1 \<Rightarrow> wfield list list" where
  "TestExtensionOrderings1_groups s = [
     opt_field (MyString s \<noteq> []) (wireTestExtensionOrderings1_MyString, WBytes (MyString s))]"

definition TestExtensionOrderings1_content :: "TestExtensionOrderings1 \<Rightarrow> wfield list" where
  "TestExtensionOrderings1_content s = concat (TestExtensionOrderings1_groups s)"

text \<open>What a round trip keeps.\<close>

definition TestExtensionOrderings1_norm :: "TestExtensionOrderings1 \<Rightarrow> TestExtensionOrderings1" where
  "TestExtensionOrderings1_norm s = s"

definition TestExtensionOrderings1_ready :: "Reader \<Rightarrow> TestExtensionOrderings1 \<Rightarrow> (TestExtensionOrderings1Reader \<Rightarrow> bool) list" where
  "TestExtensionOrderings1_ready p s = [
     \<lambda>m. cell_reads (readOne ReadString []) plain p (if MyString s \<noteq> [] then MyString s else []) (cellMyString m)]"

definition TestExtensionOrderings1_stored :: "TestExtensionOrderings1 \<Rightarrow> (TestExtensionOrderings1 \<Rightarrow> TestExtensionOrderings1) list" where
  "TestExtensionOrderings1_stored s = [
     \<lambda>res. res\<lparr>MyString := if MyString s \<noteq> [] then MyString s else []\<rparr>]"

lemma TestExtensionOrderings1_cases_distinct: "distinct (map fst (TestExtensionOrderings1Reader_cases wire offset))"
  by (rule ascending_distinct) (simp add: TestExtensionOrderings1Reader_cases_def wireTestExtensionOrderings1)

lemma TestExtensionOrderings1_stores:
  "stores_cell TestExtensionOrderings1Reader_save wireTestExtensionOrderings1_MyString setOffset cellMyString"
  unfolding TestExtensionOrderings1Reader_save_def [abs_def] by (rule stores_cell_switch; (rule TestExtensionOrderings1_cases_distinct)?; unfold TestExtensionOrderings1Reader_cases_def; intro own_case.intros; simp)+

lemma TestExtensionOrderings1_saved: "good_fields TestExtensionOrderings1Reader_save p (NewTestExtensionOrderings1Reader\<lparr>mbuf := Some p\<rparr>) TestExtensionOrderings1_tags (TestExtensionOrderings1_groups s) (TestExtensionOrderings1_ready p s)"
  unfolding TestExtensionOrderings1_tags_def TestExtensionOrderings1_groups_def TestExtensionOrderings1_ready_def
  by (intro good_fields.intros field_saved TestExtensionOrderings1_stores) (simp_all add: NewTestExtensionOrderings1Reader_def newCell_def)

lemma TestExtensionOrderings1_converted: "good_stmts mbuf p (TestExtensionOrderings1_stmts) (TestExtensionOrderings1_ready p s) (TestExtensionOrderings1_stored s)"
  unfolding TestExtensionOrderings1_stmts_def TestExtensionOrderings1_ready_def TestExtensionOrderings1_stored_def TestExtensionOrderings1_getters append.simps
  by (intro good_stmts_field good_stmts.Nil) (simp_all cong: cell_reads_cong)

interpretation l_TestExtensionOrderings1: lazy_message TestExtensionOrderings1_tags TestExtensionOrderings1_groups TestExtensionOrderings1_norm
  "\<lambda>s. TestExtensionOrderings1_sizes s" "\<lambda>s. TestExtensionOrderings1_appends s"
  TestExtensionOrderings1Reader_save "\<lambda>p. NewTestExtensionOrderings1Reader\<lparr>mbuf := Some p\<rparr>" mbuf "TestExtensionOrderings1_stmts" TestExtensionOrderings1_zero TestExtensionOrderings1_ready TestExtensionOrderings1_stored
proof
  show "distinct TestExtensionOrderings1_tags"
    using TestExtensionOrderings1_cases_distinct by (simp only: TestExtensionOrderings1Reader_cases_def TestExtensionOrderings1_tags_def list.map fst_conv)
  show "list_all valid_tag TestExtensionOrderings1_tags"
    by (simp add: TestExtensionOrderings1_tags_def wireTestExtensionOrderings1 valid_tag_def)
  show "list_all2 (\<lambda>t g. \<forall>f \<in> set g. fst f = t \<and> wf_val (snd f)) TestExtensionOrderings1_tags (TestExtensionOrderings1_groups s)" for s
    unfolding TestExtensionOrderings1_tags_def TestExtensionOrderings1_groups_def by (intro list.rel_intros field_tagged)
  show "list_all2 (\<lambda>e g. e = int (length (fields_bytes g))) (TestExtensionOrderings1_sizes s) (TestExtensionOrderings1_groups s)" for s
    unfolding TestExtensionOrderings1_sizes_def TestExtensionOrderings1_groups_def append.simps
    by (intro list.rel_intros field_sized)
  show "list_all2 (\<lambda>st g. writes st (fields_bytes g)) (TestExtensionOrderings1_appends s) (TestExtensionOrderings1_groups s)" for s
    unfolding TestExtensionOrderings1_appends_def TestExtensionOrderings1_groups_def append.simps
    by (intro list.rel_intros field_written)
  show "mbuf (TestExtensionOrderings1Reader_save t w off m) = mbuf m" for t w off m
    unfolding TestExtensionOrderings1Reader_save_def by (rule tag_switch_keeps) (simp add: TestExtensionOrderings1Reader_cases_def)
  show "fold (\<lambda>e. e) (TestExtensionOrderings1_stored s) TestExtensionOrderings1_zero = TestExtensionOrderings1_norm s" for s
    unfolding TestExtensionOrderings1_stored_def by (simp add: TestExtensionOrderings1_zero_def TestExtensionOrderings1_norm_def float_defaults)
qed (simp_all add: TestExtensionOrderings1_saved TestExtensionOrderings1_converted)

interpretation m_TestExtensionOrderings1: message_codec TestExtensionOrderings1_content TestExtensionOrderings1_norm TestExtensionOrderings1_XXX_PbContentSize TestExtensionOrderings1_MarshalTo
  "TestExtensionOrderings1Reader_Unmarshal NewTestExtensionOrderings1Reader" TestExtensionOrderings1Reader_ToStruct
  using l_TestExtensionOrderings1.message
  by (simp only: TestExtensionOrderings1_content_def [abs_def] TestExtensionOrderings1_XXX_PbContentSize_def TestExtensionOrderings1_MarshalTo_def TestExtensionOrderings1Reader_Unmarshal_def [abs_def] TestExtensionOrderings1Reader_ToStruct_def)


section \<open>TestExtensionOrderings1_TestFieldOrderings: the reader\<close>

definition wireTestExtensionOrderings1_TestFieldOrderings_TestExtOrderings1 :: ProtoWireNumber where "wireTestExtensionOrderings1_TestFieldOrderings_TestExtOrderings1 = 13"
definition wireTestExtensionOrderings1_TestFieldOrderings_MyString :: ProtoWireNumber where "wireTestExtensionOrderings1_TestFieldOrderings_MyString = 11"
definition wireTestExtensionOrderings1_TestFieldOrderings_MyInt :: ProtoWireNumber where "wireTestExtensionOrderings1_TestFieldOrderings_MyInt = 1"
definition wireTestExtensionOrderings1_TestFieldOrderings_MyFloat :: ProtoWireNumber where "wireTestExtensionOrderings1_TestFieldOrderings_MyFloat = 101"
definition wireTestExtensionOrderings1_TestFieldOrderings_OptionalNestedMessage :: ProtoWireNumber where "wireTestExtensionOrderings1_TestFieldOrderings_OptionalNestedMessage = 200"

lemmas wireTestExtensionOrderings1_TestFieldOrderings =
  wireTestExtensionOrderings1_TestFieldOrderings_TestExtOrderings1_def
  wireTestExtensionOrderings1_TestFieldOrderings_MyString_def
  wireTestExtensionOrderings1_TestFieldOrderings_MyInt_def
  wireTestExtensionOrderings1_TestFieldOrderings_MyFloat_def
  wireTestExtensionOrderings1_TestFieldOrderings_OptionalNestedMessage_def

record TestExtensionOrderings1_TestFieldOrderingsReader =
  mbuf :: "Reader option"
  cellTestExtOrderings1 :: "(TestExtensionOrderings1Reader option) one_cell"
  cellMyString :: "gostring one_cell"
  cellMyInt :: "int64 one_cell"
  cellMyFloat :: "float32 one_cell"
  cellOptionalNestedMessage :: "(TestFieldOrderingsReader option) one_cell"

definition NewTestExtensionOrderings1_TestFieldOrderingsReader :: TestExtensionOrderings1_TestFieldOrderingsReader where
  "NewTestExtensionOrderings1_TestFieldOrderingsReader = \<lparr>
     mbuf = None, cellTestExtOrderings1 = newCell None 0, cellMyString = newCell [] 0,
     cellMyInt = newCell 0 0, cellMyFloat = newCell 0 0,
     cellOptionalNestedMessage = newCell None 0\<rparr>"

definition TestExtensionOrderings1_TestFieldOrderingsReader_readTestExtOrderings1 :: "TestExtensionOrderings1_TestFieldOrderingsReader \<Rightarrow> (TestExtensionOrderings1Reader option \<times> TestExtensionOrderings1_TestFieldOrderingsReader) run" where
  "TestExtensionOrderings1_TestFieldOrderingsReader_readTestExtOrderings1 = readCell cellTestExtOrderings1 cellTestExtOrderings1_update mbuf (structReader (TestExtensionOrderings1Reader_Unmarshal NewTestExtensionOrderings1Reader))"

definition TestExtensionOrderings1_TestFieldOrderingsReader_GetTestExtOrderings1 :: "TestExtensionOrderings1_TestFieldOrderingsReader option \<Rightarrow> (TestExtensionOrderings1Reader option \<times> TestExtensionOrderings1_TestFieldOrderingsReader option) run" where
  "TestExtensionOrderings1_TestFieldOrderingsReader_GetTestExtOrderings1 = getter TestExtensionOrderings1_TestFieldOrderingsReader_readTestExtOrderings1 None"

definition TestExtensionOrderings1_TestFieldOrderingsReader_readMyString :: "TestExtensionOrderings1_TestFieldOrderingsReader \<Rightarrow> (gostring \<times> TestExtensionOrderings1_TestFieldOrderingsReader) run" where
  "TestExtensionOrderings1_TestFieldOrderingsReader_readMyString = readCell cellMyString cellMyString_update mbuf (readOne ReadString [])"

definition TestExtensionOrderings1_TestFieldOrderingsReader_GetMyString :: "TestExtensionOrderings1_TestFieldOrderingsReader option \<Rightarrow> (gostring \<times> TestExtensionOrderings1_TestFieldOrderingsReader option) run" where
  "TestExtensionOrderings1_TestFieldOrderingsReader_GetMyString = getter TestExtensionOrderings1_TestFieldOrderingsReader_readMyString []"

definition TestExtensionOrderings1_TestFieldOrderingsReader_readMyInt :: "TestExtensionOrderings1_TestFieldOrderingsReader \<Rightarrow> (int64 \<times> TestExtensionOrderings1_TestFieldOrderingsReader) run" where
  "TestExtensionOrderings1_TestFieldOrderingsReader_readMyInt = readCell cellMyInt cellMyInt_update mbuf (readOne ReadInt64 0)"

definition TestExtensionOrderings1_TestFieldOrderingsReader_GetMyInt :: "TestExtensionOrderings1_TestFieldOrderingsReader option \<Rightarrow> (int64 \<times> TestExtensionOrderings1_TestFieldOrderingsReader option) run" where
  "TestExtensionOrderings1_TestFieldOrderingsReader_GetMyInt = getter TestExtensionOrderings1_TestFieldOrderingsReader_readMyInt 0"

definition TestExtensionOrderings1_TestFieldOrderingsReader_readMyFloat :: "TestExtensionOrderings1_TestFieldOrderingsReader \<Rightarrow> (float32 \<times> TestExtensionOrderings1_TestFieldOrderingsReader) run" where
  "TestExtensionOrderings1_TestFieldOrderingsReader_readMyFloat = readCell cellMyFloat cellMyFloat_update mbuf (readOne ReadFloat32 0x0)"

definition TestExtensionOrderings1_TestFieldOrderingsReader_GetMyFloat :: "TestExtensionOrderings1_TestFieldOrderingsReader option \<Rightarrow> (float32 \<times> TestExtensionOrderings1_TestFieldOrderingsReader option) run" where
  "TestExtensionOrderings1_TestFieldOrderingsReader_GetMyFloat = getter TestExtensionOrderings1_TestFieldOrderingsReader_readMyFloat 0x0"

definition TestExtensionOrderings1_TestFieldOrderingsReader_readOptionalNestedMessage :: "TestExtensionOrderings1_TestFieldOrderingsReader \<Rightarrow> (TestFieldOrderingsReader option \<times> TestExtensionOrderings1_TestFieldOrderingsReader) run" where
  "TestExtensionOrderings1_TestFieldOrderingsReader_readOptionalNestedMessage = readCell cellOptionalNestedMessage cellOptionalNestedMessage_update mbuf (structReader (TestFieldOrderingsReader_Unmarshal NewTestFieldOrderingsReader))"

definition TestExtensionOrderings1_TestFieldOrderingsReader_GetOptionalNestedMessage :: "TestExtensionOrderings1_TestFieldOrderingsReader option \<Rightarrow> (TestFieldOrderingsReader option \<times> TestExtensionOrderings1_TestFieldOrderingsReader option) run" where
  "TestExtensionOrderings1_TestFieldOrderingsReader_GetOptionalNestedMessage = getter TestExtensionOrderings1_TestFieldOrderingsReader_readOptionalNestedMessage None"

lemmas TestExtensionOrderings1_TestFieldOrderings_getters =
  TestExtensionOrderings1_TestFieldOrderingsReader_readTestExtOrderings1_def TestExtensionOrderings1_TestFieldOrderingsReader_GetTestExtOrderings1_def
  TestExtensionOrderings1_TestFieldOrderingsReader_readMyString_def TestExtensionOrderings1_TestFieldOrderingsReader_GetMyString_def
  TestExtensionOrderings1_TestFieldOrderingsReader_readMyInt_def TestExtensionOrderings1_TestFieldOrderingsReader_GetMyInt_def
  TestExtensionOrderings1_TestFieldOrderingsReader_readMyFloat_def TestExtensionOrderings1_TestFieldOrderingsReader_GetMyFloat_def
  TestExtensionOrderings1_TestFieldOrderingsReader_readOptionalNestedMessage_def TestExtensionOrderings1_TestFieldOrderingsReader_GetOptionalNestedMessage_def

definition TestExtensionOrderings1_TestFieldOrderingsReader_cases :: "ProtoWireType \<Rightarrow> int \<Rightarrow> (ProtoWireNumber \<times> (TestExtensionOrderings1_TestFieldOrderingsReader \<Rightarrow> TestExtensionOrderings1_TestFieldOrderingsReader)) list" where
  "TestExtensionOrderings1_TestFieldOrderingsReader_cases wire offset = [
     (wireTestExtensionOrderings1_TestFieldOrderings_TestExtOrderings1, \<lambda>m. m\<lparr>cellTestExtOrderings1 := onOffset (setOffset wire offset) (cellTestExtOrderings1 m)\<rparr>),
     (wireTestExtensionOrderings1_TestFieldOrderings_MyString, \<lambda>m. m\<lparr>cellMyString := onOffset (setOffset wire offset) (cellMyString m)\<rparr>),
     (wireTestExtensionOrderings1_TestFieldOrderings_MyInt, \<lambda>m. m\<lparr>cellMyInt := onOffset (setOffset wire offset) (cellMyInt m)\<rparr>),
     (wireTestExtensionOrderings1_TestFieldOrderings_MyFloat, \<lambda>m. m\<lparr>cellMyFloat := onOffset (setOffset wire offset) (cellMyFloat m)\<rparr>),
     (wireTestExtensionOrderings1_TestFieldOrderings_OptionalNestedMessage, \<lambda>m. m\<lparr>cellOptionalNestedMessage := onOffset (setOffset wire offset) (cellOptionalNestedMessage m)\<rparr>)]"

definition TestExtensionOrderings1_TestFieldOrderingsReader_save :: "ProtoWireNumber \<Rightarrow> ProtoWireType \<Rightarrow> int \<Rightarrow> TestExtensionOrderings1_TestFieldOrderingsReader \<Rightarrow> TestExtensionOrderings1_TestFieldOrderingsReader" where
  "TestExtensionOrderings1_TestFieldOrderingsReader_save tag wire offset = tag_switch (TestExtensionOrderings1_TestFieldOrderingsReader_cases wire offset) tag"

definition TestExtensionOrderings1_TestFieldOrderingsReader_Unmarshal :: "TestExtensionOrderings1_TestFieldOrderingsReader \<Rightarrow> gslice \<Rightarrow> (TestExtensionOrderings1_TestFieldOrderingsReader \<times> string option) run" where
  "TestExtensionOrderings1_TestFieldOrderingsReader_Unmarshal m data =
     unmarshalLoop TestExtensionOrderings1_TestFieldOrderingsReader_save (NewReader data) 0 (m\<lparr>mbuf := Some (NewReader data)\<rparr>)"

definition TestExtensionOrderings1_TestFieldOrderingsReader_SourceBytes :: "TestExtensionOrderings1_TestFieldOrderingsReader option \<Rightarrow> gslice" where
  "TestExtensionOrderings1_TestFieldOrderingsReader_SourceBytes s = (case s of None \<Rightarrow> nil_slice | Some r \<Rightarrow> Bytes (mbuf r))"

section \<open>TestExtensionOrderings1_TestFieldOrderings: the struct\<close>

record TestExtensionOrderings1_TestFieldOrderings =
  TestExtOrderings1 :: "TestExtensionOrderings1 option"
  MyString :: gostring
  MyInt :: int64
  MyFloat :: float32
  OptionalNestedMessage :: "TestFieldOrderings option"

definition TestExtensionOrderings1_TestFieldOrderings_zero :: TestExtensionOrderings1_TestFieldOrderings where
  "TestExtensionOrderings1_TestFieldOrderings_zero = \<lparr>
     TestExtOrderings1 = None, MyString = [], MyInt = 0, MyFloat = 0,
     OptionalNestedMessage = None\<rparr>"

definition TestExtensionOrderings1_TestFieldOrderings_stmts :: "(TestExtensionOrderings1_TestFieldOrderings \<times> TestExtensionOrderings1_TestFieldOrderingsReader option \<Rightarrow> (TestExtensionOrderings1_TestFieldOrderings \<times> TestExtensionOrderings1_TestFieldOrderingsReader option) run) list" where
  "TestExtensionOrderings1_TestFieldOrderings_stmts = [
     assignStruct TestExtensionOrderings1_TestFieldOrderingsReader_GetTestExtOrderings1 (structToStruct TestExtensionOrderings1Reader_ToStruct) cellTestExtOrderings1_update
       (\<lambda>v res. res\<lparr>TestExtOrderings1 := v\<rparr>),
     assign TestExtensionOrderings1_TestFieldOrderingsReader_GetMyString (\<lambda>v res. res\<lparr>MyString := v\<rparr>),
     assign TestExtensionOrderings1_TestFieldOrderingsReader_GetMyInt (\<lambda>v res. res\<lparr>MyInt := v\<rparr>),
     assign TestExtensionOrderings1_TestFieldOrderingsReader_GetMyFloat (\<lambda>v res. res\<lparr>MyFloat := v\<rparr>),
     assignStruct TestExtensionOrderings1_TestFieldOrderingsReader_GetOptionalNestedMessage (structToStruct TestFieldOrderingsReader_ToStruct) cellOptionalNestedMessage_update
       (\<lambda>v res. res\<lparr>OptionalNestedMessage := v\<rparr>)]"

definition TestExtensionOrderings1_TestFieldOrderingsReader_ToStruct :: "TestExtensionOrderings1_TestFieldOrderingsReader option \<Rightarrow> (TestExtensionOrderings1_TestFieldOrderings option \<times> TestExtensionOrderings1_TestFieldOrderingsReader option) run" where
  "TestExtensionOrderings1_TestFieldOrderingsReader_ToStruct = toStructWith (TestExtensionOrderings1_TestFieldOrderings_stmts) TestExtensionOrderings1_TestFieldOrderings_zero"

definition TestExtensionOrderings1_TestFieldOrderings_appends :: "TestExtensionOrderings1_TestFieldOrderings \<Rightarrow> (Writer \<Rightarrow> Writer go) list" where
  "TestExtensionOrderings1_TestFieldOrderings_appends s = [
     \<lambda>res. if TestExtOrderings1 s \<noteq> None then structWriter TestExtensionOrderings1_XXX_PbContentSize TestExtensionOrderings1_MarshalTo res wireTestExtensionOrderings1_TestFieldOrderings_TestExtOrderings1 (TestExtOrderings1 s) else Ret res,
     \<lambda>res. if MyString s \<noteq> [] then AppendString res wireTestExtensionOrderings1_TestFieldOrderings_MyString (MyString s) else Ret res,
     \<lambda>res. if MyInt s \<noteq> 0 then AppendInt64 res wireTestExtensionOrderings1_TestFieldOrderings_MyInt (MyInt s) else Ret res,
     \<lambda>res. if \<not> float32_is_zero (MyFloat s) then AppendFloat32 res wireTestExtensionOrderings1_TestFieldOrderings_MyFloat (MyFloat s) else Ret res,
     \<lambda>res. if OptionalNestedMessage s \<noteq> None then structWriter TestFieldOrderings_XXX_PbContentSize TestFieldOrderings_MarshalTo res wireTestExtensionOrderings1_TestFieldOrderings_OptionalNestedMessage (OptionalNestedMessage s) else Ret res]"

definition TestExtensionOrderings1_TestFieldOrderings_MarshalTo :: "Writer \<Rightarrow> TestExtensionOrderings1_TestFieldOrderings option \<Rightarrow> Writer go" where
  "TestExtensionOrderings1_TestFieldOrderings_MarshalTo = marshalToWith (\<lambda>s. TestExtensionOrderings1_TestFieldOrderings_appends s)"

definition TestExtensionOrderings1_TestFieldOrderings_sizes :: "TestExtensionOrderings1_TestFieldOrderings \<Rightarrow> int list" where
  "TestExtensionOrderings1_TestFieldOrderings_sizes s = [
     if TestExtOrderings1 s \<noteq> None then sizeDelimitedWithTag TestExtensionOrderings1_XXX_PbContentSize wireTestExtensionOrderings1_TestFieldOrderings_TestExtOrderings1 (TestExtOrderings1 s) else 0,
     if MyString s \<noteq> [] then sizeDelimitedWithTag SizeString wireTestExtensionOrderings1_TestFieldOrderings_MyString (MyString s) else 0,
     if MyInt s \<noteq> 0 then sizeWithTag SizeInt64 wireTestExtensionOrderings1_TestFieldOrderings_MyInt (MyInt s) else 0,
     if \<not> float32_is_zero (MyFloat s) then sizeWithTag SizeFloat32 wireTestExtensionOrderings1_TestFieldOrderings_MyFloat (MyFloat s) else 0,
     if OptionalNestedMessage s \<noteq> None then sizeDelimitedWithTag TestFieldOrderings_XXX_PbContentSize wireTestExtensionOrderings1_TestFieldOrderings_OptionalNestedMessage (OptionalNestedMessage s) else 0]"

definition TestExtensionOrderings1_TestFieldOrderings_XXX_PbContentSize :: "TestExtensionOrderings1_TestFieldOrderings option \<Rightarrow> int" where
  "TestExtensionOrderings1_TestFieldOrderings_XXX_PbContentSize = contentSizeWith (\<lambda>s. TestExtensionOrderings1_TestFieldOrderings_sizes s)"

definition TestExtensionOrderings1_TestFieldOrderings_Marshal :: "TestExtensionOrderings1_TestFieldOrderings option \<Rightarrow> byte list go" where
  "TestExtensionOrderings1_TestFieldOrderings_Marshal = marshalWith TestExtensionOrderings1_TestFieldOrderings_XXX_PbContentSize TestExtensionOrderings1_TestFieldOrderings_MarshalTo"

definition TestExtensionOrderings1_TestFieldOrderings_Copy :: "TestExtensionOrderings1_TestFieldOrderings option \<Rightarrow> TestExtensionOrderings1_TestFieldOrderings option" where
  "TestExtensionOrderings1_TestFieldOrderings_Copy s =
     (case s of None \<Rightarrow> None | Some s \<Rightarrow> Some \<lparr>
        TestExtOrderings1 = (case TestExtOrderings1 s of None \<Rightarrow> None | Some x \<Rightarrow> TestExtensionOrderings1_Copy (Some x)),
        MyString = MyString s, MyInt = MyInt s, MyFloat = MyFloat s,
        OptionalNestedMessage = (case OptionalNestedMessage s of None \<Rightarrow> None | Some x \<Rightarrow> TestFieldOrderings_Copy (Some x))\<rparr>)"

section \<open>TestExtensionOrderings1_TestFieldOrderings: the round trip\<close>

definition TestExtensionOrderings1_TestFieldOrderings_tags :: "ProtoWireNumber list" where
  "TestExtensionOrderings1_TestFieldOrderings_tags = [
     wireTestExtensionOrderings1_TestFieldOrderings_TestExtOrderings1,
     wireTestExtensionOrderings1_TestFieldOrderings_MyString,
     wireTestExtensionOrderings1_TestFieldOrderings_MyInt,
     wireTestExtensionOrderings1_TestFieldOrderings_MyFloat,
     wireTestExtensionOrderings1_TestFieldOrderings_OptionalNestedMessage]"

definition TestExtensionOrderings1_TestFieldOrderings_groups :: "TestExtensionOrderings1_TestFieldOrderings \<Rightarrow> wfield list list" where
  "TestExtensionOrderings1_TestFieldOrderings_groups s = [
     opt_field (TestExtOrderings1 s \<noteq> None) (wireTestExtensionOrderings1_TestFieldOrderings_TestExtOrderings1, WBytes (ptr_bytes TestExtensionOrderings1_content (TestExtOrderings1 s))),
     opt_field (MyString s \<noteq> []) (wireTestExtensionOrderings1_TestFieldOrderings_MyString, WBytes (MyString s)),
     opt_field (MyInt s \<noteq> 0) (wireTestExtensionOrderings1_TestFieldOrderings_MyInt, int64_val (MyInt s)),
     opt_field (\<not> float32_is_zero (MyFloat s)) (wireTestExtensionOrderings1_TestFieldOrderings_MyFloat, WFixed32 (MyFloat s)),
     opt_field (OptionalNestedMessage s \<noteq> None) (wireTestExtensionOrderings1_TestFieldOrderings_OptionalNestedMessage, WBytes (ptr_bytes TestFieldOrderings_content (OptionalNestedMessage s)))]"

definition TestExtensionOrderings1_TestFieldOrderings_content :: "TestExtensionOrderings1_TestFieldOrderings \<Rightarrow> wfield list" where
  "TestExtensionOrderings1_TestFieldOrderings_content s = concat (TestExtensionOrderings1_TestFieldOrderings_groups s)"

text \<open>What a round trip keeps.\<close>

definition TestExtensionOrderings1_TestFieldOrderings_norm :: "TestExtensionOrderings1_TestFieldOrderings \<Rightarrow> TestExtensionOrderings1_TestFieldOrderings" where
  "TestExtensionOrderings1_TestFieldOrderings_norm s = s\<lparr>
     TestExtOrderings1 := norm_ptr TestExtensionOrderings1_content TestExtensionOrderings1_norm (TestExtOrderings1 s),
     MyFloat := if \<not> float32_is_zero (MyFloat s) then MyFloat s else 0x0,
     OptionalNestedMessage := norm_ptr TestFieldOrderings_content TestFieldOrderings_norm (OptionalNestedMessage s)\<rparr>"

definition TestExtensionOrderings1_TestFieldOrderings_ready :: "Reader \<Rightarrow> TestExtensionOrderings1_TestFieldOrderings \<Rightarrow> (TestExtensionOrderings1_TestFieldOrderingsReader \<Rightarrow> bool) list" where
  "TestExtensionOrderings1_TestFieldOrderings_ready p s = [
     \<lambda>m. cell_reads (structReader (TestExtensionOrderings1Reader_Unmarshal NewTestExtensionOrderings1Reader)) (structToStruct TestExtensionOrderings1Reader_ToStruct) p (norm_ptr TestExtensionOrderings1_content TestExtensionOrderings1_norm (TestExtOrderings1 s)) (cellTestExtOrderings1 m),
     \<lambda>m. cell_reads (readOne ReadString []) plain p (if MyString s \<noteq> [] then MyString s else []) (cellMyString m),
     \<lambda>m. cell_reads (readOne ReadInt64 0) plain p (if MyInt s \<noteq> 0 then MyInt s else 0) (cellMyInt m),
     \<lambda>m. cell_reads (readOne ReadFloat32 0x0) plain p (if \<not> float32_is_zero (MyFloat s) then MyFloat s else 0x0) (cellMyFloat m),
     \<lambda>m. cell_reads (structReader (TestFieldOrderingsReader_Unmarshal NewTestFieldOrderingsReader)) (structToStruct TestFieldOrderingsReader_ToStruct) p (norm_ptr TestFieldOrderings_content TestFieldOrderings_norm (OptionalNestedMessage s)) (cellOptionalNestedMessage m)]"

definition TestExtensionOrderings1_TestFieldOrderings_stored :: "TestExtensionOrderings1_TestFieldOrderings \<Rightarrow> (TestExtensionOrderings1_TestFieldOrderings \<Rightarrow> TestExtensionOrderings1_TestFieldOrderings) list" where
  "TestExtensionOrderings1_TestFieldOrderings_stored s = [
     \<lambda>res. res\<lparr>TestExtOrderings1 := norm_ptr TestExtensionOrderings1_content TestExtensionOrderings1_norm (TestExtOrderings1 s)\<rparr>,
     \<lambda>res. res\<lparr>MyString := if MyString s \<noteq> [] then MyString s else []\<rparr>,
     \<lambda>res. res\<lparr>MyInt := if MyInt s \<noteq> 0 then MyInt s else 0\<rparr>,
     \<lambda>res. res\<lparr>MyFloat := if \<not> float32_is_zero (MyFloat s) then MyFloat s else 0x0\<rparr>,
     \<lambda>res. res\<lparr>OptionalNestedMessage := norm_ptr TestFieldOrderings_content TestFieldOrderings_norm (OptionalNestedMessage s)\<rparr>]"

lemma TestExtensionOrderings1_TestFieldOrderings_cases_distinct: "distinct (map fst (TestExtensionOrderings1_TestFieldOrderingsReader_cases wire offset))"
  by (simp add: TestExtensionOrderings1_TestFieldOrderingsReader_cases_def wireTestExtensionOrderings1_TestFieldOrderings)

lemma TestExtensionOrderings1_TestFieldOrderings_stores:
  "stores_cell TestExtensionOrderings1_TestFieldOrderingsReader_save wireTestExtensionOrderings1_TestFieldOrderings_TestExtOrderings1 setOffset cellTestExtOrderings1"
  "stores_cell TestExtensionOrderings1_TestFieldOrderingsReader_save wireTestExtensionOrderings1_TestFieldOrderings_MyString setOffset cellMyString"
  "stores_cell TestExtensionOrderings1_TestFieldOrderingsReader_save wireTestExtensionOrderings1_TestFieldOrderings_MyInt setOffset cellMyInt"
  "stores_cell TestExtensionOrderings1_TestFieldOrderingsReader_save wireTestExtensionOrderings1_TestFieldOrderings_MyFloat setOffset cellMyFloat"
  "stores_cell TestExtensionOrderings1_TestFieldOrderingsReader_save wireTestExtensionOrderings1_TestFieldOrderings_OptionalNestedMessage setOffset cellOptionalNestedMessage"
  unfolding TestExtensionOrderings1_TestFieldOrderingsReader_save_def [abs_def] by (rule stores_cell_switch; (rule TestExtensionOrderings1_TestFieldOrderings_cases_distinct)?; unfold TestExtensionOrderings1_TestFieldOrderingsReader_cases_def; intro own_case.intros; simp)+

lemma TestExtensionOrderings1_TestFieldOrderings_saved: "good_fields TestExtensionOrderings1_TestFieldOrderingsReader_save p (NewTestExtensionOrderings1_TestFieldOrderingsReader\<lparr>mbuf := Some p\<rparr>) TestExtensionOrderings1_TestFieldOrderings_tags (TestExtensionOrderings1_TestFieldOrderings_groups s) (TestExtensionOrderings1_TestFieldOrderings_ready p s)"
  unfolding TestExtensionOrderings1_TestFieldOrderings_tags_def TestExtensionOrderings1_TestFieldOrderings_groups_def TestExtensionOrderings1_TestFieldOrderings_ready_def
  by (intro good_fields.intros field_saved m_TestExtensionOrderings1.saved_struct m_TestFieldOrderings.saved_struct TestExtensionOrderings1_TestFieldOrderings_stores) (simp_all add: NewTestExtensionOrderings1_TestFieldOrderingsReader_def newCell_def)

lemma TestExtensionOrderings1_TestFieldOrderings_converted: "good_stmts mbuf p (TestExtensionOrderings1_TestFieldOrderings_stmts) (TestExtensionOrderings1_TestFieldOrderings_ready p s) (TestExtensionOrderings1_TestFieldOrderings_stored s)"
  unfolding TestExtensionOrderings1_TestFieldOrderings_stmts_def TestExtensionOrderings1_TestFieldOrderings_ready_def TestExtensionOrderings1_TestFieldOrderings_stored_def TestExtensionOrderings1_TestFieldOrderings_getters append.simps
  by (intro good_stmts_field good_stmts.Nil) (simp_all cong: cell_reads_cong)

interpretation l_TestExtensionOrderings1_TestFieldOrderings: lazy_message TestExtensionOrderings1_TestFieldOrderings_tags TestExtensionOrderings1_TestFieldOrderings_groups TestExtensionOrderings1_TestFieldOrderings_norm
  "\<lambda>s. TestExtensionOrderings1_TestFieldOrderings_sizes s" "\<lambda>s. TestExtensionOrderings1_TestFieldOrderings_appends s"
  TestExtensionOrderings1_TestFieldOrderingsReader_save "\<lambda>p. NewTestExtensionOrderings1_TestFieldOrderingsReader\<lparr>mbuf := Some p\<rparr>" mbuf "TestExtensionOrderings1_TestFieldOrderings_stmts" TestExtensionOrderings1_TestFieldOrderings_zero TestExtensionOrderings1_TestFieldOrderings_ready TestExtensionOrderings1_TestFieldOrderings_stored
proof
  show "distinct TestExtensionOrderings1_TestFieldOrderings_tags"
    using TestExtensionOrderings1_TestFieldOrderings_cases_distinct by (simp only: TestExtensionOrderings1_TestFieldOrderingsReader_cases_def TestExtensionOrderings1_TestFieldOrderings_tags_def list.map fst_conv)
  show "list_all valid_tag TestExtensionOrderings1_TestFieldOrderings_tags"
    by (simp add: TestExtensionOrderings1_TestFieldOrderings_tags_def wireTestExtensionOrderings1_TestFieldOrderings valid_tag_def)
  show "list_all2 (\<lambda>t g. \<forall>f \<in> set g. fst f = t \<and> wf_val (snd f)) TestExtensionOrderings1_TestFieldOrderings_tags (TestExtensionOrderings1_TestFieldOrderings_groups s)" for s
    unfolding TestExtensionOrderings1_TestFieldOrderings_tags_def TestExtensionOrderings1_TestFieldOrderings_groups_def by (intro list.rel_intros field_tagged m_TestExtensionOrderings1.tagged_struct m_TestFieldOrderings.tagged_struct)
  show "list_all2 (\<lambda>e g. e = int (length (fields_bytes g))) (TestExtensionOrderings1_TestFieldOrderings_sizes s) (TestExtensionOrderings1_TestFieldOrderings_groups s)" for s
    unfolding TestExtensionOrderings1_TestFieldOrderings_sizes_def TestExtensionOrderings1_TestFieldOrderings_groups_def append.simps
    by (intro list.rel_intros field_sized m_TestExtensionOrderings1.sized_struct m_TestFieldOrderings.sized_struct)
  show "list_all2 (\<lambda>st g. writes st (fields_bytes g)) (TestExtensionOrderings1_TestFieldOrderings_appends s) (TestExtensionOrderings1_TestFieldOrderings_groups s)" for s
    unfolding TestExtensionOrderings1_TestFieldOrderings_appends_def TestExtensionOrderings1_TestFieldOrderings_groups_def append.simps
    by (intro list.rel_intros field_written m_TestExtensionOrderings1.written_struct m_TestFieldOrderings.written_struct)
  show "mbuf (TestExtensionOrderings1_TestFieldOrderingsReader_save t w off m) = mbuf m" for t w off m
    unfolding TestExtensionOrderings1_TestFieldOrderingsReader_save_def by (rule tag_switch_keeps) (simp add: TestExtensionOrderings1_TestFieldOrderingsReader_cases_def)
  show "fold (\<lambda>e. e) (TestExtensionOrderings1_TestFieldOrderings_stored s) TestExtensionOrderings1_TestFieldOrderings_zero = TestExtensionOrderings1_TestFieldOrderings_norm s" for s
    unfolding TestExtensionOrderings1_TestFieldOrderings_stored_def by (simp add: TestExtensionOrderings1_TestFieldOrderings_zero_def TestExtensionOrderings1_TestFieldOrderings_norm_def float_defaults)
qed (simp_all add: TestExtensionOrderings1_TestFieldOrderings_saved TestExtensionOrderings1_TestFieldOrderings_converted)

interpretation m_TestExtensionOrderings1_TestFieldOrderings: message_codec TestExtensionOrderings1_TestFieldOrderings_content TestExtensionOrderings1_TestFieldOrderings_norm TestExtensionOrderings1_TestFieldOrderings_XXX_PbContentSize TestExtensionOrderings1_TestFieldOrderings_MarshalTo
  "TestExtensionOrderings1_TestFieldOrderingsReader_Unmarshal NewTestExtensionOrderings1_TestFieldOrderingsReader" TestExtensionOrderings1_TestFieldOrderingsReader_ToStruct
  using l_TestExtensionOrderings1_TestFieldOrderings.message
  by (simp only: TestExtensionOrderings1_TestFieldOrderings_content_def [abs_def] TestExtensionOrderings1_TestFieldOrderings_XXX_PbContentSize_def TestExtensionOrderings1_TestFieldOrderings_MarshalTo_def TestExtensionOrderings1_TestFieldOrderingsReader_Unmarshal_def [abs_def] TestExtensionOrderings1_TestFieldOrderingsReader_ToStruct_def)


section \<open>TestExtensionOrderings2: the reader\<close>

definition wireTestExtensionOrderings2_MyString :: ProtoWireNumber where "wireTestExtensionOrderings2_MyString = 1"

lemmas wireTestExtensionOrderings2 =
  wireTestExtensionOrderings2_MyString_def

record TestExtensionOrderings2Reader =
  mbuf :: "Reader option"
  cellMyString :: "gostring one_cell"

definition NewTestExtensionOrderings2Reader :: TestExtensionOrderings2Reader where
  "NewTestExtensionOrderings2Reader = \<lparr>
     mbuf = None, cellMyString = newCell [] 0\<rparr>"

definition TestExtensionOrderings2Reader_readMyString :: "TestExtensionOrderings2Reader \<Rightarrow> (gostring \<times> TestExtensionOrderings2Reader) run" where
  "TestExtensionOrderings2Reader_readMyString = readCell cellMyString cellMyString_update mbuf (readOne ReadString [])"

definition TestExtensionOrderings2Reader_GetMyString :: "TestExtensionOrderings2Reader option \<Rightarrow> (gostring \<times> TestExtensionOrderings2Reader option) run" where
  "TestExtensionOrderings2Reader_GetMyString = getter TestExtensionOrderings2Reader_readMyString []"

lemmas TestExtensionOrderings2_getters =
  TestExtensionOrderings2Reader_readMyString_def TestExtensionOrderings2Reader_GetMyString_def

definition TestExtensionOrderings2Reader_cases :: "ProtoWireType \<Rightarrow> int \<Rightarrow> (ProtoWireNumber \<times> (TestExtensionOrderings2Reader \<Rightarrow> TestExtensionOrderings2Reader)) list" where
  "TestExtensionOrderings2Reader_cases wire offset = [
     (wireTestExtensionOrderings2_MyString, \<lambda>m. m\<lparr>cellMyString := onOffset (setOffset wire offset) (cellMyString m)\<rparr>)]"

definition TestExtensionOrderings2Reader_save :: "ProtoWireNumber \<Rightarrow> ProtoWireType \<Rightarrow> int \<Rightarrow> TestExtensionOrderings2Reader \<Rightarrow> TestExtensionOrderings2Reader" where
  "TestExtensionOrderings2Reader_save tag wire offset = tag_switch (TestExtensionOrderings2Reader_cases wire offset) tag"

definition TestExtensionOrderings2Reader_Unmarshal :: "TestExtensionOrderings2Reader \<Rightarrow> gslice \<Rightarrow> (TestExtensionOrderings2Reader \<times> string option) run" where
  "TestExtensionOrderings2Reader_Unmarshal m data =
     unmarshalLoop TestExtensionOrderings2Reader_save (NewReader data) 0 (m\<lparr>mbuf := Some (NewReader data)\<rparr>)"

definition TestExtensionOrderings2Reader_SourceBytes :: "TestExtensionOrderings2Reader option \<Rightarrow> gslice" where
  "TestExtensionOrderings2Reader_SourceBytes s = (case s of None \<Rightarrow> nil_slice | Some r \<Rightarrow> Bytes (mbuf r))"

section \<open>TestExtensionOrderings2: the struct\<close>

record TestExtensionOrderings2 =
  MyString :: gostring

definition TestExtensionOrderings2_zero :: TestExtensionOrderings2 where
  "TestExtensionOrderings2_zero = \<lparr>
     MyString = []\<rparr>"

definition TestExtensionOrderings2_stmts :: "(TestExtensionOrderings2 \<times> TestExtensionOrderings2Reader option \<Rightarrow> (TestExtensionOrderings2 \<times> TestExtensionOrderings2Reader option) run) list" where
  "TestExtensionOrderings2_stmts = [
     assign TestExtensionOrderings2Reader_GetMyString (\<lambda>v res. res\<lparr>MyString := v\<rparr>)]"

definition TestExtensionOrderings2Reader_ToStruct :: "TestExtensionOrderings2Reader option \<Rightarrow> (TestExtensionOrderings2 option \<times> TestExtensionOrderings2Reader option) run" where
  "TestExtensionOrderings2Reader_ToStruct = toStructWith (TestExtensionOrderings2_stmts) TestExtensionOrderings2_zero"

definition TestExtensionOrderings2_appends :: "TestExtensionOrderings2 \<Rightarrow> (Writer \<Rightarrow> Writer go) list" where
  "TestExtensionOrderings2_appends s = [
     \<lambda>res. if MyString s \<noteq> [] then AppendString res wireTestExtensionOrderings2_MyString (MyString s) else Ret res]"

definition TestExtensionOrderings2_MarshalTo :: "Writer \<Rightarrow> TestExtensionOrderings2 option \<Rightarrow> Writer go" where
  "TestExtensionOrderings2_MarshalTo = marshalToWith (\<lambda>s. TestExtensionOrderings2_appends s)"

definition TestExtensionOrderings2_sizes :: "TestExtensionOrderings2 \<Rightarrow> int list" where
  "TestExtensionOrderings2_sizes s = [
     if MyString s \<noteq> [] then sizeDelimitedWithTag SizeString wireTestExtensionOrderings2_MyString (MyString s) else 0]"

definition TestExtensionOrderings2_XXX_PbContentSize :: "TestExtensionOrderings2 option \<Rightarrow> int" where
  "TestExtensionOrderings2_XXX_PbContentSize = contentSizeWith (\<lambda>s. TestExtensionOrderings2_sizes s)"

definition TestExtensionOrderings2_Marshal :: "TestExtensionOrderings2 option \<Rightarrow> byte list go" where
  "TestExtensionOrderings2_Marshal = marshalWith TestExtensionOrderings2_XXX_PbContentSize TestExtensionOrderings2_MarshalTo"

definition TestExtensionOrderings2_Copy :: "TestExtensionOrderings2 option \<Rightarrow> TestExtensionOrderings2 option" where
  "TestExtensionOrderings2_Copy s =
     (case s of None \<Rightarrow> None | Some s \<Rightarrow> Some \<lparr>
        MyString = MyString s\<rparr>)"

section \<open>TestExtensionOrderings2: the round trip\<close>

definition TestExtensionOrderings2_tags :: "ProtoWireNumber list" where
  "TestExtensionOrderings2_tags = [
     wireTestExtensionOrderings2_MyString]"

definition TestExtensionOrderings2_groups :: "TestExtensionOrderings2 \<Rightarrow> wfield list list" where
  "TestExtensionOrderings2_groups s = [
     opt_field (MyString s \<noteq> []) (wireTestExtensionOrderings2_MyString, WBytes (MyString s))]"

definition TestExtensionOrderings2_content :: "TestExtensionOrderings2 \<Rightarrow> wfield list" where
  "TestExtensionOrderings2_content s = concat (TestExtensionOrderings2_groups s)"

text \<open>What a round trip keeps.\<close>

definition TestExtensionOrderings2_norm :: "TestExtensionOrderings2 \<Rightarrow> TestExtensionOrderings2" where
  "TestExtensionOrderings2_norm s = s"

definition TestExtensionOrderings2_ready :: "Reader \<Rightarrow> TestExtensionOrderings2 \<Rightarrow> (TestExtensionOrderings2Reader \<Rightarrow> bool) list" where
  "TestExtensionOrderings2_ready p s = [
     \<lambda>m. cell_reads (readOne ReadString []) plain p (if MyString s \<noteq> [] then MyString s else []) (cellMyString m)]"

definition TestExtensionOrderings2_stored :: "TestExtensionOrderings2 \<Rightarrow> (TestExtensionOrderings2 \<Rightarrow> TestExtensionOrderings2) list" where
  "TestExtensionOrderings2_stored s = [
     \<lambda>res. res\<lparr>MyString := if MyString s \<noteq> [] then MyString s else []\<rparr>]"

lemma TestExtensionOrderings2_cases_distinct: "distinct (map fst (TestExtensionOrderings2Reader_cases wire offset))"
  by (rule ascending_distinct) (simp add: TestExtensionOrderings2Reader_cases_def wireTestExtensionOrderings2)

lemma TestExtensionOrderings2_stores:
  "stores_cell TestExtensionOrderings2Reader_save wireTestExtensionOrderings2_MyString setOffset cellMyString"
  unfolding TestExtensionOrderings2Reader_save_def [abs_def] by (rule stores_cell_switch; (rule TestExtensionOrderings2_cases_distinct)?; unfold TestExtensionOrderings2Reader_cases_def; intro own_case.intros; simp)+

lemma TestExtensionOrderings2_saved: "good_fields TestExtensionOrderings2Reader_save p (NewTestExtensionOrderings2Reader\<lparr>mbuf := Some p\<rparr>) TestExtensionOrderings2_tags (TestExtensionOrderings2_groups s) (TestExtensionOrderings2_ready p s)"
  unfolding TestExtensionOrderings2_tags_def TestExtensionOrderings2_groups_def TestExtensionOrderings2_ready_def
  by (intro good_fields.intros field_saved TestExtensionOrderings2_stores) (simp_all add: NewTestExtensionOrderings2Reader_def newCell_def)

lemma TestExtensionOrderings2_converted: "good_stmts mbuf p (TestExtensionOrderings2_stmts) (TestExtensionOrderings2_ready p s) (TestExtensionOrderings2_stored s)"
  unfolding TestExtensionOrderings2_stmts_def TestExtensionOrderings2_ready_def TestExtensionOrderings2_stored_def TestExtensionOrderings2_getters append.simps
  by (intro good_stmts_field good_stmts.Nil) (simp_all cong: cell_reads_cong)

interpretation l_TestExtensionOrderings2: lazy_message TestExtensionOrderings2_tags TestExtensionOrderings2_groups TestExtensionOrderings2_norm
  "\<lambda>s. TestExtensionOrderings2_sizes s" "\<lambda>s. TestExtensionOrderings2_appends s"
  TestExtensionOrderings2Reader_save "\<lambda>p. NewTestExtensionOrderings2Reader\<lparr>mbuf := Some p\<rparr>" mbuf "TestExtensionOrderings2_stmts" TestExtensionOrderings2_zero TestExtensionOrderings2_ready TestExtensionOrderings2_stored
proof
  show "distinct TestExtensionOrderings2_tags"
    using TestExtensionOrderings2_cases_distinct by (simp only: TestExtensionOrderings2Reader_cases_def TestExtensionOrderings2_tags_def list.map fst_conv)
  show "list_all valid_tag TestExtensionOrderings2_tags"
    by (simp add: TestExtensionOrderings2_tags_def wireTestExtensionOrderings2 valid_tag_def)
  show "list_all2 (\<lambda>t g. \<forall>f \<in> set g. fst f = t \<and> wf_val (snd f)) TestExtensionOrderings2_tags (TestExtensionOrderings2_groups s)" for s
    unfolding TestExtensionOrderings2_tags_def TestExtensionOrderings2_groups_def by (intro list.rel_intros field_tagged)
  show "list_all2 (\<lambda>e g. e = int (length (fields_bytes g))) (TestExtensionOrderings2_sizes s) (TestExtensionOrderings2_groups s)" for s
    unfolding TestExtensionOrderings2_sizes_def TestExtensionOrderings2_groups_def append.simps
    by (intro list.rel_intros field_sized)
  show "list_all2 (\<lambda>st g. writes st (fields_bytes g)) (TestExtensionOrderings2_appends s) (TestExtensionOrderings2_groups s)" for s
    unfolding TestExtensionOrderings2_appends_def TestExtensionOrderings2_groups_def append.simps
    by (intro list.rel_intros field_written)
  show "mbuf (TestExtensionOrderings2Reader_save t w off m) = mbuf m" for t w off m
    unfolding TestExtensionOrderings2Reader_save_def by (rule tag_switch_keeps) (simp add: TestExtensionOrderings2Reader_cases_def)
  show "fold (\<lambda>e. e) (TestExtensionOrderings2_stored s) TestExtensionOrderings2_zero = TestExtensionOrderings2_norm s" for s
    unfolding TestExtensionOrderings2_stored_def by (simp add: TestExtensionOrderings2_zero_def TestExtensionOrderings2_norm_def float_defaults)
qed (simp_all add: TestExtensionOrderings2_saved TestExtensionOrderings2_converted)

interpretation m_TestExtensionOrderings2: message_codec TestExtensionOrderings2_content TestExtensionOrderings2_norm TestExtensionOrderings2_XXX_PbContentSize TestExtensionOrderings2_MarshalTo
  "TestExtensionOrderings2Reader_Unmarshal NewTestExtensionOrderings2Reader" TestExtensionOrderings2Reader_ToStruct
  using l_TestExtensionOrderings2.message
  by (simp only: TestExtensionOrderings2_content_def [abs_def] TestExtensionOrderings2_XXX_PbContentSize_def TestExtensionOrderings2_MarshalTo_def TestExtensionOrderings2Reader_Unmarshal_def [abs_def] TestExtensionOrderings2Reader_ToStruct_def)


section \<open>TestExtensionOrderings2_TestFieldOrderings: the reader\<close>

definition wireTestExtensionOrderings2_TestFieldOrderings_TestExtOrderings2 :: ProtoWireNumber where "wireTestExtensionOrderings2_TestFieldOrderings_TestExtOrderings2 = 12"
definition wireTestExtensionOrderings2_TestFieldOrderings_MyString :: ProtoWireNumber where "wireTestExtensionOrderings2_TestFieldOrderings_MyString = 11"
definition wireTestExtensionOrderings2_TestFieldOrderings_MyInt :: ProtoWireNumber where "wireTestExtensionOrderings2_TestFieldOrderings_MyInt = 1"
definition wireTestExtensionOrderings2_TestFieldOrderings_MyFloat :: ProtoWireNumber where "wireTestExtensionOrderings2_TestFieldOrderings_MyFloat = 101"
definition wireTestExtensionOrderings2_TestFieldOrderings_OptionalNestedMessage :: ProtoWireNumber where "wireTestExtensionOrderings2_TestFieldOrderings_OptionalNestedMessage = 200"

lemmas wireTestExtensionOrderings2_TestFieldOrderings =
  wireTestExtensionOrderings2_TestFieldOrderings_TestExtOrderings2_def
  wireTestExtensionOrderings2_TestFieldOrderings_MyString_def
  wireTestExtensionOrderings2_TestFieldOrderings_MyInt_def
  wireTestExtensionOrderings2_TestFieldOrderings_MyFloat_def
  wireTestExtensionOrderings2_TestFieldOrderings_OptionalNestedMessage_def

record TestExtensionOrderings2_TestFieldOrderingsReader =
  mbuf :: "Reader option"
  cellTestExtOrderings2 :: "(TestExtensionOrderings2Reader option) one_cell"
  cellMyString :: "gostring one_cell"
  cellMyInt :: "int64 one_cell"
  cellMyFloat :: "float32 one_cell"
  cellOptionalNestedMessage :: "(TestFieldOrderingsReader option) one_cell"

definition NewTestExtensionOrderings2_TestFieldOrderingsReader :: TestExtensionOrderings2_TestFieldOrderingsReader where
  "NewTestExtensionOrderings2_TestFieldOrderingsReader = \<lparr>
     mbuf = None, cellTestExtOrderings2 = newCell None 0, cellMyString = newCell [] 0,
     cellMyInt = newCell 0 0, cellMyFloat = newCell 0 0,
     cellOptionalNestedMessage = newCell None 0\<rparr>"

definition TestExtensionOrderings2_TestFieldOrderingsReader_readTestExtOrderings2 :: "TestExtensionOrderings2_TestFieldOrderingsReader \<Rightarrow> (TestExtensionOrderings2Reader option \<times> TestExtensionOrderings2_TestFieldOrderingsReader) run" where
  "TestExtensionOrderings2_TestFieldOrderingsReader_readTestExtOrderings2 = readCell cellTestExtOrderings2 cellTestExtOrderings2_update mbuf (structReader (TestExtensionOrderings2Reader_Unmarshal NewTestExtensionOrderings2Reader))"

definition TestExtensionOrderings2_TestFieldOrderingsReader_GetTestExtOrderings2 :: "TestExtensionOrderings2_TestFieldOrderingsReader option \<Rightarrow> (TestExtensionOrderings2Reader option \<times> TestExtensionOrderings2_TestFieldOrderingsReader option) run" where
  "TestExtensionOrderings2_TestFieldOrderingsReader_GetTestExtOrderings2 = getter TestExtensionOrderings2_TestFieldOrderingsReader_readTestExtOrderings2 None"

definition TestExtensionOrderings2_TestFieldOrderingsReader_readMyString :: "TestExtensionOrderings2_TestFieldOrderingsReader \<Rightarrow> (gostring \<times> TestExtensionOrderings2_TestFieldOrderingsReader) run" where
  "TestExtensionOrderings2_TestFieldOrderingsReader_readMyString = readCell cellMyString cellMyString_update mbuf (readOne ReadString [])"

definition TestExtensionOrderings2_TestFieldOrderingsReader_GetMyString :: "TestExtensionOrderings2_TestFieldOrderingsReader option \<Rightarrow> (gostring \<times> TestExtensionOrderings2_TestFieldOrderingsReader option) run" where
  "TestExtensionOrderings2_TestFieldOrderingsReader_GetMyString = getter TestExtensionOrderings2_TestFieldOrderingsReader_readMyString []"

definition TestExtensionOrderings2_TestFieldOrderingsReader_readMyInt :: "TestExtensionOrderings2_TestFieldOrderingsReader \<Rightarrow> (int64 \<times> TestExtensionOrderings2_TestFieldOrderingsReader) run" where
  "TestExtensionOrderings2_TestFieldOrderingsReader_readMyInt = readCell cellMyInt cellMyInt_update mbuf (readOne ReadInt64 0)"

definition TestExtensionOrderings2_TestFieldOrderingsReader_GetMyInt :: "TestExtensionOrderings2_TestFieldOrderingsReader option \<Rightarrow> (int64 \<times> TestExtensionOrderings2_TestFieldOrderingsReader option) run" where
  "TestExtensionOrderings2_TestFieldOrderingsReader_GetMyInt = getter TestExtensionOrderings2_TestFieldOrderingsReader_readMyInt 0"

definition TestExtensionOrderings2_TestFieldOrderingsReader_readMyFloat :: "TestExtensionOrderings2_TestFieldOrderingsReader \<Rightarrow> (float32 \<times> TestExtensionOrderings2_TestFieldOrderingsReader) run" where
  "TestExtensionOrderings2_TestFieldOrderingsReader_readMyFloat = readCell cellMyFloat cellMyFloat_update mbuf (readOne ReadFloat32 0x0)"

definition TestExtensionOrderings2_TestFieldOrderingsReader_GetMyFloat :: "TestExtensionOrderings2_TestFieldOrderingsReader option \<Rightarrow> (float32 \<times> TestExtensionOrderings2_TestFieldOrderingsReader option) run" where
  "TestExtensionOrderings2_TestFieldOrderingsReader_GetMyFloat = getter TestExtensionOrderings2_TestFieldOrderingsReader_readMyFloat 0x0"

definition TestExtensionOrderings2_TestFieldOrderingsReader_readOptionalNestedMessage :: "TestExtensionOrderings2_TestFieldOrderingsReader \<Rightarrow> (TestFieldOrderingsReader option \<times> TestExtensionOrderings2_TestFieldOrderingsReader) run" where
  "TestExtensionOrderings2_TestFieldOrderingsReader_readOptionalNestedMessage = readCell cellOptionalNestedMessage cellOptionalNestedMessage_update mbuf (structReader (TestFieldOrderingsReader_Unmarshal NewTestFieldOrderingsReader))"

definition TestExtensionOrderings2_TestFieldOrderingsReader_GetOptionalNestedMessage :: "TestExtensionOrderings2_TestFieldOrderingsReader option \<Rightarrow> (TestFieldOrderingsReader option \<times> TestExtensionOrderings2_TestFieldOrderingsReader option) run" where
  "TestExtensionOrderings2_TestFieldOrderingsReader_GetOptionalNestedMessage = getter TestExtensionOrderings2_TestFieldOrderingsReader_readOptionalNestedMessage None"

lemmas TestExtensionOrderings2_TestFieldOrderings_getters =
  TestExtensionOrderings2_TestFieldOrderingsReader_readTestExtOrderings2_def TestExtensionOrderings2_TestFieldOrderingsReader_GetTestExtOrderings2_def
  TestExtensionOrderings2_TestFieldOrderingsReader_readMyString_def TestExtensionOrderings2_TestFieldOrderingsReader_GetMyString_def
  TestExtensionOrderings2_TestFieldOrderingsReader_readMyInt_def TestExtensionOrderings2_TestFieldOrderingsReader_GetMyInt_def
  TestExtensionOrderings2_TestFieldOrderingsReader_readMyFloat_def TestExtensionOrderings2_TestFieldOrderingsReader_GetMyFloat_def
  TestExtensionOrderings2_TestFieldOrderingsReader_readOptionalNestedMessage_def TestExtensionOrderings2_TestFieldOrderingsReader_GetOptionalNestedMessage_def

definition TestExtensionOrderings2_TestFieldOrderingsReader_cases :: "ProtoWireType \<Rightarrow> int \<Rightarrow> (ProtoWireNumber \<times> (TestExtensionOrderings2_TestFieldOrderingsReader \<Rightarrow> TestExtensionOrderings2_TestFieldOrderingsReader)) list" where
  "TestExtensionOrderings2_TestFieldOrderingsReader_cases wire offset = [
     (wireTestExtensionOrderings2_TestFieldOrderings_TestExtOrderings2, \<lambda>m. m\<lparr>cellTestExtOrderings2 := onOffset (setOffset wire offset) (cellTestExtOrderings2 m)\<rparr>),
     (wireTestExtensionOrderings2_TestFieldOrderings_MyString, \<lambda>m. m\<lparr>cellMyString := onOffset (setOffset wire offset) (cellMyString m)\<rparr>),
     (wireTestExtensionOrderings2_TestFieldOrderings_MyInt, \<lambda>m. m\<lparr>cellMyInt := onOffset (setOffset wire offset) (cellMyInt m)\<rparr>),
     (wireTestExtensionOrderings2_TestFieldOrderings_MyFloat, \<lambda>m. m\<lparr>cellMyFloat := onOffset (setOffset wire offset) (cellMyFloat m)\<rparr>),
     (wireTestExtensionOrderings2_TestFieldOrderings_OptionalNestedMessage, \<lambda>m. m\<lparr>cellOptionalNestedMessage := onOffset (setOffset wire offset) (cellOptionalNestedMessage m)\<rparr>)]"

definition TestExtensionOrderings2_TestFieldOrderingsReader_save :: "ProtoWireNumber \<Rightarrow> ProtoWireType \<Rightarrow> int \<Rightarrow> TestExtensionOrderings2_TestFieldOrderingsReader \<Rightarrow> TestExtensionOrderings2_TestFieldOrderingsReader" where
  "TestExtensionOrderings2_TestFieldOrderingsReader_save tag wire offset = tag_switch (TestExtensionOrderings2_TestFieldOrderingsReader_cases wire offset) tag"

definition TestExtensionOrderings2_TestFieldOrderingsReader_Unmarshal :: "TestExtensionOrderings2_TestFieldOrderingsReader \<Rightarrow> gslice \<Rightarrow> (TestExtensionOrderings2_TestFieldOrderingsReader \<times> string option) run" where
  "TestExtensionOrderings2_TestFieldOrderingsReader_Unmarshal m data =
     unmarshalLoop TestExtensionOrderings2_TestFieldOrderingsReader_save (NewReader data) 0 (m\<lparr>mbuf := Some (NewReader data)\<rparr>)"

definition TestExtensionOrderings2_TestFieldOrderingsReader_SourceBytes :: "TestExtensionOrderings2_TestFieldOrderingsReader option \<Rightarrow> gslice" where
  "TestExtensionOrderings2_TestFieldOrderingsReader_SourceBytes s = (case s of None \<Rightarrow> nil_slice | Some r \<Rightarrow> Bytes (mbuf r))"

section \<open>TestExtensionOrderings2_TestFieldOrderings: the struct\<close>

record TestExtensionOrderings2_TestFieldOrderings =
  TestExtOrderings2 :: "TestExtensionOrderings2 option"
  MyString :: gostring
  MyInt :: int64
  MyFloat :: float32
  OptionalNestedMessage :: "TestFieldOrderings option"

definition TestExtensionOrderings2_TestFieldOrderings_zero :: TestExtensionOrderings2_TestFieldOrderings where
  "TestExtensionOrderings2_TestFieldOrderings_zero = \<lparr>
     TestExtOrderings2 = None, MyString = [], MyInt = 0, MyFloat = 0,
     OptionalNestedMessage = None\<rparr>"

definition TestExtensionOrderings2_TestFieldOrderings_stmts :: "(TestExtensionOrderings2_TestFieldOrderings \<times> TestExtensionOrderings2_TestFieldOrderingsReader option \<Rightarrow> (TestExtensionOrderings2_TestFieldOrderings \<times> TestExtensionOrderings2_TestFieldOrderingsReader option) run) list" where
  "TestExtensionOrderings2_TestFieldOrderings_stmts = [
     assignStruct TestExtensionOrderings2_TestFieldOrderingsReader_GetTestExtOrderings2 (structToStruct TestExtensionOrderings2Reader_ToStruct) cellTestExtOrderings2_update
       (\<lambda>v res. res\<lparr>TestExtOrderings2 := v\<rparr>),
     assign TestExtensionOrderings2_TestFieldOrderingsReader_GetMyString (\<lambda>v res. res\<lparr>MyString := v\<rparr>),
     assign TestExtensionOrderings2_TestFieldOrderingsReader_GetMyInt (\<lambda>v res. res\<lparr>MyInt := v\<rparr>),
     assign TestExtensionOrderings2_TestFieldOrderingsReader_GetMyFloat (\<lambda>v res. res\<lparr>MyFloat := v\<rparr>),
     assignStruct TestExtensionOrderings2_TestFieldOrderingsReader_GetOptionalNestedMessage (structToStruct TestFieldOrderingsReader_ToStruct) cellOptionalNestedMessage_update
       (\<lambda>v res. res\<lparr>OptionalNestedMessage := v\<rparr>)]"

definition TestExtensionOrderings2_TestFieldOrderingsReader_ToStruct :: "TestExtensionOrderings2_TestFieldOrderingsReader option \<Rightarrow> (TestExtensionOrderings2_TestFieldOrderings option \<times> TestExtensionOrderings2_TestFieldOrderingsReader option) run" where
  "TestExtensionOrderings2_TestFieldOrderingsReader_ToStruct = toStructWith (TestExtensionOrderings2_TestFieldOrderings_stmts) TestExtensionOrderings2_TestFieldOrderings_zero"

definition TestExtensionOrderings2_TestFieldOrderings_appends :: "TestExtensionOrderings2_TestFieldOrderings \<Rightarrow> (Writer \<Rightarrow> Writer go) list" where
  "TestExtensionOrderings2_TestFieldOrderings_appends s = [
     \<lambda>res. if TestExtOrderings2 s \<noteq> None then structWriter TestExtensionOrderings2_XXX_PbContentSize TestExtensionOrderings2_MarshalTo res wireTestExtensionOrderings2_TestFieldOrderings_TestExtOrderings2 (TestExtOrderings2 s) else Ret res,
     \<lambda>res. if MyString s \<noteq> [] then AppendString res wireTestExtensionOrderings2_TestFieldOrderings_MyString (MyString s) else Ret res,
     \<lambda>res. if MyInt s \<noteq> 0 then AppendInt64 res wireTestExtensionOrderings2_TestFieldOrderings_MyInt (MyInt s) else Ret res,
     \<lambda>res. if \<not> float32_is_zero (MyFloat s) then AppendFloat32 res wireTestExtensionOrderings2_TestFieldOrderings_MyFloat (MyFloat s) else Ret res,
     \<lambda>res. if OptionalNestedMessage s \<noteq> None then structWriter TestFieldOrderings_XXX_PbContentSize TestFieldOrderings_MarshalTo res wireTestExtensionOrderings2_TestFieldOrderings_OptionalNestedMessage (OptionalNestedMessage s) else Ret res]"

definition TestExtensionOrderings2_TestFieldOrderings_MarshalTo :: "Writer \<Rightarrow> TestExtensionOrderings2_TestFieldOrderings option \<Rightarrow> Writer go" where
  "TestExtensionOrderings2_TestFieldOrderings_MarshalTo = marshalToWith (\<lambda>s. TestExtensionOrderings2_TestFieldOrderings_appends s)"

definition TestExtensionOrderings2_TestFieldOrderings_sizes :: "TestExtensionOrderings2_TestFieldOrderings \<Rightarrow> int list" where
  "TestExtensionOrderings2_TestFieldOrderings_sizes s = [
     if TestExtOrderings2 s \<noteq> None then sizeDelimitedWithTag TestExtensionOrderings2_XXX_PbContentSize wireTestExtensionOrderings2_TestFieldOrderings_TestExtOrderings2 (TestExtOrderings2 s) else 0,
     if MyString s \<noteq> [] then sizeDelimitedWithTag SizeString wireTestExtensionOrderings2_TestFieldOrderings_MyString (MyString s) else 0,
     if MyInt s \<noteq> 0 then sizeWithTag SizeInt64 wireTestExtensionOrderings2_TestFieldOrderings_MyInt (MyInt s) else 0,
     if \<not> float32_is_zero (MyFloat s) then sizeWithTag SizeFloat32 wireTestExtensionOrderings2_TestFieldOrderings_MyFloat (MyFloat s) else 0,
     if OptionalNestedMessage s \<noteq> None then sizeDelimitedWithTag TestFieldOrderings_XXX_PbContentSize wireTestExtensionOrderings2_TestFieldOrderings_OptionalNestedMessage (OptionalNestedMessage s) else 0]"

definition TestExtensionOrderings2_TestFieldOrderings_XXX_PbContentSize :: "TestExtensionOrderings2_TestFieldOrderings option \<Rightarrow> int" where
  "TestExtensionOrderings2_TestFieldOrderings_XXX_PbContentSize = contentSizeWith (\<lambda>s. TestExtensionOrderings2_TestFieldOrderings_sizes s)"

definition TestExtensionOrderings2_TestFieldOrderings_Marshal :: "TestExtensionOrderings2_TestFieldOrderings option \<Rightarrow> byte list go" where
  "TestExtensionOrderings2_TestFieldOrderings_Marshal = marshalWith TestExtensionOrderings2_TestFieldOrderings_XXX_PbContentSize TestExtensionOrderings2_TestFieldOrderings_MarshalTo"

definition TestExtensionOrderings2_TestFieldOrderings_Copy :: "TestExtensionOrderings2_TestFieldOrderings option \<Rightarrow> TestExtensionOrderings2_TestFieldOrderings option" where
  "TestExtensionOrderings2_TestFieldOrderings_Copy s =
     (case s of None \<Rightarrow> None | Some s \<Rightarrow> Some \<lparr>
        TestExtOrderings2 = (case TestExtOrderings2 s of None \<Rightarrow> None | Some x \<Rightarrow> TestExtensionOrderings2_Copy (Some x)),
        MyString = MyString s, MyInt = MyInt s, MyFloat = MyFloat s,
        OptionalNestedMessage = (case OptionalNestedMessage s of None \<Rightarrow> None | Some x \<Rightarrow> TestFieldOrderings_Copy (Some x))\<rparr>)"

section \<open>TestExtensionOrderings2_TestFieldOrderings: the round trip\<close>

definition TestExtensionOrderings2_TestFieldOrderings_tags :: "ProtoWireNumber list" where
  "TestExtensionOrderings2_TestFieldOrderings_tags = [
     wireTestExtensionOrderings2_TestFieldOrderings_TestExtOrderings2,
     wireTestExtensionOrderings2_TestFieldOrderings_MyString,
     wireTestExtensionOrderings2_TestFieldOrderings_MyInt,
     wireTestExtensionOrderings2_TestFieldOrderings_MyFloat,
     wireTestExtensionOrderings2_TestFieldOrderings_OptionalNestedMessage]"

definition TestExtensionOrderings2_TestFieldOrderings_groups :: "TestExtensionOrderings2_TestFieldOrderings \<Rightarrow> wfield list list" where
  "TestExtensionOrderings2_TestFieldOrderings_groups s = [
     opt_field (TestExtOrderings2 s \<noteq> None) (wireTestExtensionOrderings2_TestFieldOrderings_TestExtOrderings2, WBytes (ptr_bytes TestExtensionOrderings2_content (TestExtOrderings2 s))),
     opt_field (MyString s \<noteq> []) (wireTestExtensionOrderings2_TestFieldOrderings_MyString, WBytes (MyString s)),
     opt_field (MyInt s \<noteq> 0) (wireTestExtensionOrderings2_TestFieldOrderings_MyInt, int64_val (MyInt s)),
     opt_field (\<not> float32_is_zero (MyFloat s)) (wireTestExtensionOrderings2_TestFieldOrderings_MyFloat, WFixed32 (MyFloat s)),
     opt_field (OptionalNestedMessage s \<noteq> None) (wireTestExtensionOrderings2_TestFieldOrderings_OptionalNestedMessage, WBytes (ptr_bytes TestFieldOrderings_content (OptionalNestedMessage s)))]"

definition TestExtensionOrderings2_TestFieldOrderings_content :: "TestExtensionOrderings2_TestFieldOrderings \<Rightarrow> wfield list" where
  "TestExtensionOrderings2_TestFieldOrderings_content s = concat (TestExtensionOrderings2_TestFieldOrderings_groups s)"

text \<open>What a round trip keeps.\<close>

definition TestExtensionOrderings2_TestFieldOrderings_norm :: "TestExtensionOrderings2_TestFieldOrderings \<Rightarrow> TestExtensionOrderings2_TestFieldOrderings" where
  "TestExtensionOrderings2_TestFieldOrderings_norm s = s\<lparr>
     TestExtOrderings2 := norm_ptr TestExtensionOrderings2_content TestExtensionOrderings2_norm (TestExtOrderings2 s),
     MyFloat := if \<not> float32_is_zero (MyFloat s) then MyFloat s else 0x0,
     OptionalNestedMessage := norm_ptr TestFieldOrderings_content TestFieldOrderings_norm (OptionalNestedMessage s)\<rparr>"

definition TestExtensionOrderings2_TestFieldOrderings_ready :: "Reader \<Rightarrow> TestExtensionOrderings2_TestFieldOrderings \<Rightarrow> (TestExtensionOrderings2_TestFieldOrderingsReader \<Rightarrow> bool) list" where
  "TestExtensionOrderings2_TestFieldOrderings_ready p s = [
     \<lambda>m. cell_reads (structReader (TestExtensionOrderings2Reader_Unmarshal NewTestExtensionOrderings2Reader)) (structToStruct TestExtensionOrderings2Reader_ToStruct) p (norm_ptr TestExtensionOrderings2_content TestExtensionOrderings2_norm (TestExtOrderings2 s)) (cellTestExtOrderings2 m),
     \<lambda>m. cell_reads (readOne ReadString []) plain p (if MyString s \<noteq> [] then MyString s else []) (cellMyString m),
     \<lambda>m. cell_reads (readOne ReadInt64 0) plain p (if MyInt s \<noteq> 0 then MyInt s else 0) (cellMyInt m),
     \<lambda>m. cell_reads (readOne ReadFloat32 0x0) plain p (if \<not> float32_is_zero (MyFloat s) then MyFloat s else 0x0) (cellMyFloat m),
     \<lambda>m. cell_reads (structReader (TestFieldOrderingsReader_Unmarshal NewTestFieldOrderingsReader)) (structToStruct TestFieldOrderingsReader_ToStruct) p (norm_ptr TestFieldOrderings_content TestFieldOrderings_norm (OptionalNestedMessage s)) (cellOptionalNestedMessage m)]"

definition TestExtensionOrderings2_TestFieldOrderings_stored :: "TestExtensionOrderings2_TestFieldOrderings \<Rightarrow> (TestExtensionOrderings2_TestFieldOrderings \<Rightarrow> TestExtensionOrderings2_TestFieldOrderings) list" where
  "TestExtensionOrderings2_TestFieldOrderings_stored s = [
     \<lambda>res. res\<lparr>TestExtOrderings2 := norm_ptr TestExtensionOrderings2_content TestExtensionOrderings2_norm (TestExtOrderings2 s)\<rparr>,
     \<lambda>res. res\<lparr>MyString := if MyString s \<noteq> [] then MyString s else []\<rparr>,
     \<lambda>res. res\<lparr>MyInt := if MyInt s \<noteq> 0 then MyInt s else 0\<rparr>,
     \<lambda>res. res\<lparr>MyFloat := if \<not> float32_is_zero (MyFloat s) then MyFloat s else 0x0\<rparr>,
     \<lambda>res. res\<lparr>OptionalNestedMessage := norm_ptr TestFieldOrderings_content TestFieldOrderings_norm (OptionalNestedMessage s)\<rparr>]"

lemma TestExtensionOrderings2_TestFieldOrderings_cases_distinct: "distinct (map fst (TestExtensionOrderings2_TestFieldOrderingsReader_cases wire offset))"
  by (simp add: TestExtensionOrderings2_TestFieldOrderingsReader_cases_def wireTestExtensionOrderings2_TestFieldOrderings)

lemma TestExtensionOrderings2_TestFieldOrderings_stores:
  "stores_cell TestExtensionOrderings2_TestFieldOrderingsReader_save wireTestExtensionOrderings2_TestFieldOrderings_TestExtOrderings2 setOffset cellTestExtOrderings2"
  "stores_cell TestExtensionOrderings2_TestFieldOrderingsReader_save wireTestExtensionOrderings2_TestFieldOrderings_MyString setOffset cellMyString"
  "stores_cell TestExtensionOrderings2_TestFieldOrderingsReader_save wireTestExtensionOrderings2_TestFieldOrderings_MyInt setOffset cellMyInt"
  "stores_cell TestExtensionOrderings2_TestFieldOrderingsReader_save wireTestExtensionOrderings2_TestFieldOrderings_MyFloat setOffset cellMyFloat"
  "stores_cell TestExtensionOrderings2_TestFieldOrderingsReader_save wireTestExtensionOrderings2_TestFieldOrderings_OptionalNestedMessage setOffset cellOptionalNestedMessage"
  unfolding TestExtensionOrderings2_TestFieldOrderingsReader_save_def [abs_def] by (rule stores_cell_switch; (rule TestExtensionOrderings2_TestFieldOrderings_cases_distinct)?; unfold TestExtensionOrderings2_TestFieldOrderingsReader_cases_def; intro own_case.intros; simp)+

lemma TestExtensionOrderings2_TestFieldOrderings_saved: "good_fields TestExtensionOrderings2_TestFieldOrderingsReader_save p (NewTestExtensionOrderings2_TestFieldOrderingsReader\<lparr>mbuf := Some p\<rparr>) TestExtensionOrderings2_TestFieldOrderings_tags (TestExtensionOrderings2_TestFieldOrderings_groups s) (TestExtensionOrderings2_TestFieldOrderings_ready p s)"
  unfolding TestExtensionOrderings2_TestFieldOrderings_tags_def TestExtensionOrderings2_TestFieldOrderings_groups_def TestExtensionOrderings2_TestFieldOrderings_ready_def
  by (intro good_fields.intros field_saved m_TestExtensionOrderings2.saved_struct m_TestFieldOrderings.saved_struct TestExtensionOrderings2_TestFieldOrderings_stores) (simp_all add: NewTestExtensionOrderings2_TestFieldOrderingsReader_def newCell_def)

lemma TestExtensionOrderings2_TestFieldOrderings_converted: "good_stmts mbuf p (TestExtensionOrderings2_TestFieldOrderings_stmts) (TestExtensionOrderings2_TestFieldOrderings_ready p s) (TestExtensionOrderings2_TestFieldOrderings_stored s)"
  unfolding TestExtensionOrderings2_TestFieldOrderings_stmts_def TestExtensionOrderings2_TestFieldOrderings_ready_def TestExtensionOrderings2_TestFieldOrderings_stored_def TestExtensionOrderings2_TestFieldOrderings_getters append.simps
  by (intro good_stmts_field good_stmts.Nil) (simp_all cong: cell_reads_cong)

interpretation l_TestExtensionOrderings2_TestFieldOrderings: lazy_message TestExtensionOrderings2_TestFieldOrderings_tags TestExtensionOrderings2_TestFieldOrderings_groups TestExtensionOrderings2_TestFieldOrderings_norm
  "\<lambda>s. TestExtensionOrderings2_TestFieldOrderings_sizes s" "\<lambda>s. TestExtensionOrderings2_TestFieldOrderings_appends s"
  TestExtensionOrderings2_TestFieldOrderingsReader_save "\<lambda>p. NewTestExtensionOrderings2_TestFieldOrderingsReader\<lparr>mbuf := Some p\<rparr>" mbuf "TestExtensionOrderings2_TestFieldOrderings_stmts" TestExtensionOrderings2_TestFieldOrderings_zero TestExtensionOrderings2_TestFieldOrderings_ready TestExtensionOrderings2_TestFieldOrderings_stored
proof
  show "distinct TestExtensionOrderings2_TestFieldOrderings_tags"
    using TestExtensionOrderings2_TestFieldOrderings_cases_distinct by (simp only: TestExtensionOrderings2_TestFieldOrderingsReader_cases_def TestExtensionOrderings2_TestFieldOrderings_tags_def list.map fst_conv)
  show "list_all valid_tag TestExtensionOrderings2_TestFieldOrderings_tags"
    by (simp add: TestExtensionOrderings2_TestFieldOrderings_tags_def wireTestExtensionOrderings2_TestFieldOrderings valid_tag_def)
  show "list_all2 (\<lambda>t g. \<forall>f \<in> set g. fst f = t \<and> wf_val (snd f)) TestExtensionOrderings2_TestFieldOrderings_tags (TestExtensionOrderings2_TestFieldOrderings_groups s)" for s
    unfolding TestExtensionOrderings2_TestFieldOrderings_tags_def TestExtensionOrderings2_TestFieldOrderings_groups_def by (intro list.rel_intros field_tagged m_TestExtensionOrderings2.tagged_struct m_TestFieldOrderings.tagged_struct)
  show "list_all2 (\<lambda>e g. e = int (length (fields_bytes g))) (TestExtensionOrderings2_TestFieldOrderings_sizes s) (TestExtensionOrderings2_TestFieldOrderings_groups s)" for s
    unfolding TestExtensionOrderings2_TestFieldOrderings_sizes_def TestExtensionOrderings2_TestFieldOrderings_groups_def append.simps
    by (intro list.rel_intros field_sized m_TestExtensionOrderings2.sized_struct m_TestFieldOrderings.sized_struct)
  show "list_all2 (\<lambda>st g. writes st (fields_bytes g)) (TestExtensionOrderings2_TestFieldOrderings_appends s) (TestExtensionOrderings2_TestFieldOrderings_groups s)" for s
    unfolding TestExtensionOrderings2_TestFieldOrderings_appends_def TestExtensionOrderings2_TestFieldOrderings_groups_def append.simps
    by (intro list.rel_intros field_written m_TestExtensionOrderings2.written_struct m_TestFieldOrderings.written_struct)
  show "mbuf (TestExtensionOrderings2_TestFieldOrderingsReader_save t w off m) = mbuf m" for t w off m
    unfolding TestExtensionOrderings2_TestFieldOrderingsReader_save_def by (rule tag_switch_keeps) (simp add: TestExtensionOrderings2_TestFieldOrderingsReader_cases_def)
  show "fold (\<lambda>e. e) (TestExtensionOrderings2_TestFieldOrderings_stored s) TestExtensionOrderings2_TestFieldOrderings_zero = TestExtensionOrderings2_TestFieldOrderings_norm s" for s
    unfolding TestExtensionOrderings2_TestFieldOrderings_stored_def by (simp add: TestExtensionOrderings2_TestFieldOrderings_zero_def TestExtensionOrderings2_TestFieldOrderings_norm_def float_defaults)
qed (simp_all add: TestExtensionOrderings2_TestFieldOrderings_saved TestExtensionOrderings2_TestFieldOrderings_converted)

interpretation m_TestExtensionOrderings2_TestFieldOrderings: message_codec TestExtensionOrderings2_TestFieldOrderings_content TestExtensionOrderings2_TestFieldOrderings_norm TestExtensionOrderings2_TestFieldOrderings_XXX_PbContentSize TestExtensionOrderings2_TestFieldOrderings_MarshalTo
  "TestExtensionOrderings2_TestFieldOrderingsReader_Unmarshal NewTestExtensionOrderings2_TestFieldOrderingsReader" TestExtensionOrderings2_TestFieldOrderingsReader_ToStruct
  using l_TestExtensionOrderings2_TestFieldOrderings.message
  by (simp only: TestExtensionOrderings2_TestFieldOrderings_content_def [abs_def] TestExtensionOrderings2_TestFieldOrderings_XXX_PbContentSize_def TestExtensionOrderings2_TestFieldOrderings_MarshalTo_def TestExtensionOrderings2_TestFieldOrderingsReader_Unmarshal_def [abs_def] TestExtensionOrderings2_TestFieldOrderingsReader_ToStruct_def)


section \<open>TestExtensionOrderings2_TestExtensionOrderings3: the reader\<close>

definition wireTestExtensionOrderings2_TestExtensionOrderings3_MyString :: ProtoWireNumber where "wireTestExtensionOrderings2_TestExtensionOrderings3_MyString = 1"

lemmas wireTestExtensionOrderings2_TestExtensionOrderings3 =
  wireTestExtensionOrderings2_TestExtensionOrderings3_MyString_def

record TestExtensionOrderings2_TestExtensionOrderings3Reader =
  mbuf :: "Reader option"
  cellMyString :: "gostring one_cell"

definition NewTestExtensionOrderings2_TestExtensionOrderings3Reader :: TestExtensionOrderings2_TestExtensionOrderings3Reader where
  "NewTestExtensionOrderings2_TestExtensionOrderings3Reader = \<lparr>
     mbuf = None, cellMyString = newCell [] 0\<rparr>"

definition TestExtensionOrderings2_TestExtensionOrderings3Reader_readMyString :: "TestExtensionOrderings2_TestExtensionOrderings3Reader \<Rightarrow> (gostring \<times> TestExtensionOrderings2_TestExtensionOrderings3Reader) run" where
  "TestExtensionOrderings2_TestExtensionOrderings3Reader_readMyString = readCell cellMyString cellMyString_update mbuf (readOne ReadString [])"

definition TestExtensionOrderings2_TestExtensionOrderings3Reader_GetMyString :: "TestExtensionOrderings2_TestExtensionOrderings3Reader option \<Rightarrow> (gostring \<times> TestExtensionOrderings2_TestExtensionOrderings3Reader option) run" where
  "TestExtensionOrderings2_TestExtensionOrderings3Reader_GetMyString = getter TestExtensionOrderings2_TestExtensionOrderings3Reader_readMyString []"

lemmas TestExtensionOrderings2_TestExtensionOrderings3_getters =
  TestExtensionOrderings2_TestExtensionOrderings3Reader_readMyString_def TestExtensionOrderings2_TestExtensionOrderings3Reader_GetMyString_def

definition TestExtensionOrderings2_TestExtensionOrderings3Reader_cases :: "ProtoWireType \<Rightarrow> int \<Rightarrow> (ProtoWireNumber \<times> (TestExtensionOrderings2_TestExtensionOrderings3Reader \<Rightarrow> TestExtensionOrderings2_TestExtensionOrderings3Reader)) list" where
  "TestExtensionOrderings2_TestExtensionOrderings3Reader_cases wire offset = [
     (wireTestExtensionOrderings2_TestExtensionOrderings3_MyString, \<lambda>m. m\<lparr>cellMyString := onOffset (setOffset wire offset) (cellMyString m)\<rparr>)]"

definition TestExtensionOrderings2_TestExtensionOrderings3Reader_save :: "ProtoWireNumber \<Rightarrow> ProtoWireType \<Rightarrow> int \<Rightarrow> TestExtensionOrderings2_TestExtensionOrderings3Reader \<Rightarrow> TestExtensionOrderings2_TestExtensionOrderings3Reader" where
  "TestExtensionOrderings2_TestExtensionOrderings3Reader_save tag wire offset = tag_switch (TestExtensionOrderings2_TestExtensionOrderings3Reader_cases wire offset) tag"

definition TestExtensionOrderings2_TestExtensionOrderings3Reader_Unmarshal :: "TestExtensionOrderings2_TestExtensionOrderings3Reader \<Rightarrow> gslice \<Rightarrow> (TestExtensionOrderings2_TestExtensionOrderings3Reader \<times> string option) run" where
  "TestExtensionOrderings2_TestExtensionOrderings3Reader_Unmarshal m data =
     unmarshalLoop TestExtensionOrderings2_TestExtensionOrderings3Reader_save (NewReader data) 0 (m\<lparr>mbuf := Some (NewReader data)\<rparr>)"

definition TestExtensionOrderings2_TestExtensionOrderings3Reader_SourceBytes :: "TestExtensionOrderings2_TestExtensionOrderings3Reader option \<Rightarrow> gslice" where
  "TestExtensionOrderings2_TestExtensionOrderings3Reader_SourceBytes s = (case s of None \<Rightarrow> nil_slice | Some r \<Rightarrow> Bytes (mbuf r))"

section \<open>TestExtensionOrderings2_TestExtensionOrderings3: the struct\<close>

record TestExtensionOrderings2_TestExtensionOrderings3 =
  MyString :: gostring

definition TestExtensionOrderings2_TestExtensionOrderings3_zero :: TestExtensionOrderings2_TestExtensionOrderings3 where
  "TestExtensionOrderings2_TestExtensionOrderings3_zero = \<lparr>
     MyString = []\<rparr>"

definition TestExtensionOrderings2_TestExtensionOrderings3_stmts :: "(TestExtensionOrderings2_TestExtensionOrderings3 \<times> TestExtensionOrderings2_TestExtensionOrderings3Reader option \<Rightarrow> (TestExtensionOrderings2_TestExtensionOrderings3 \<times> TestExtensionOrderings2_TestExtensionOrderings3Reader option) run) list" where
  "TestExtensionOrderings2_TestExtensionOrderings3_stmts = [
     assign TestExtensionOrderings2_TestExtensionOrderings3Reader_GetMyString (\<lambda>v res. res\<lparr>MyString := v\<rparr>)]"

definition TestExtensionOrderings2_TestExtensionOrderings3Reader_ToStruct :: "TestExtensionOrderings2_TestExtensionOrderings3Reader option \<Rightarrow> (TestExtensionOrderings2_TestExtensionOrderings3 option \<times> TestExtensionOrderings2_TestExtensionOrderings3Reader option) run" where
  "TestExtensionOrderings2_TestExtensionOrderings3Reader_ToStruct = toStructWith (TestExtensionOrderings2_TestExtensionOrderings3_stmts) TestExtensionOrderings2_TestExtensionOrderings3_zero"

definition TestExtensionOrderings2_TestExtensionOrderings3_appends :: "TestExtensionOrderings2_TestExtensionOrderings3 \<Rightarrow> (Writer \<Rightarrow> Writer go) list" where
  "TestExtensionOrderings2_TestExtensionOrderings3_appends s = [
     \<lambda>res. if MyString s \<noteq> [] then AppendString res wireTestExtensionOrderings2_TestExtensionOrderings3_MyString (MyString s) else Ret res]"

definition TestExtensionOrderings2_TestExtensionOrderings3_MarshalTo :: "Writer \<Rightarrow> TestExtensionOrderings2_TestExtensionOrderings3 option \<Rightarrow> Writer go" where
  "TestExtensionOrderings2_TestExtensionOrderings3_MarshalTo = marshalToWith (\<lambda>s. TestExtensionOrderings2_TestExtensionOrderings3_appends s)"

definition TestExtensionOrderings2_TestExtensionOrderings3_sizes :: "TestExtensionOrderings2_TestExtensionOrderings3 \<Rightarrow> int list" where
  "TestExtensionOrderings2_TestExtensionOrderings3_sizes s = [
     if MyString s \<noteq> [] then sizeDelimitedWithTag SizeString wireTestExtensionOrderings2_TestExtensionOrderings3_MyString (MyString s) else 0]"

definition TestExtensionOrderings2_TestExtensionOrderings3_XXX_PbContentSize :: "TestExtensionOrderings2_TestExtensionOrderings3 option \<Rightarrow> int" where
  "TestExtensionOrderings2_TestExtensionOrderings3_XXX_PbContentSize = contentSizeWith (\<lambda>s. TestExtensionOrderings2_TestExtensionOrderings3_sizes s)"

definition TestExtensionOrderings2_TestExtensionOrderings3_Marshal :: "TestExtensionOrderings2_TestExtensionOrderings3 option \<Rightarrow> byte list go" where
  "TestExtensionOrderings2_TestExtensionOrderings3_Marshal = marshalWith TestExtensionOrderings2_TestExtensionOrderings3_XXX_PbContentSize TestExtensionOrderings2_TestExtensionOrderings3_MarshalTo"

definition TestExtensionOrderings2_TestExtensionOrderings3_Copy :: "TestExtensionOrderings2_TestExtensionOrderings3 option \<Rightarrow> TestExtensionOrderings2_TestExtensionOrderings3 option" where
  "TestExtensionOrderings2_TestExtensionOrderings3_Copy s =
     (case s of None \<Rightarrow> None | Some s \<Rightarrow> Some \<lparr>
        MyString = MyString s\<rparr>)"

section \<open>TestExtensionOrderings2_TestExtensionOrderings3: the round trip\<close>

definition TestExtensionOrderings2_TestExtensionOrderings3_tags :: "ProtoWireNumber list" where
  "TestExtensionOrderings2_TestExtensionOrderings3_tags = [
     wireTestExtensionOrderings2_TestExtensionOrderings3_MyString]"

definition TestExtensionOrderings2_TestExtensionOrderings3_groups :: "TestExtensionOrderings2_TestExtensionOrderings3 \<Rightarrow> wfield list list" where
  "TestExtensionOrderings2_TestExtensionOrderings3_groups s = [
     opt_field (MyString s \<noteq> []) (wireTestExtensionOrderings2_TestExtensionOrderings3_MyString, WBytes (MyString s))]"

definition TestExtensionOrderings2_TestExtensionOrderings3_content :: "TestExtensionOrderings2_TestExtensionOrderings3 \<Rightarrow> wfield list" where
  "TestExtensionOrderings2_TestExtensionOrderings3_content s = concat (TestExtensionOrderings2_TestExtensionOrderings3_groups s)"

text \<open>What a round trip keeps.\<close>

definition TestExtensionOrderings2_TestExtensionOrderings3_norm :: "TestExtensionOrderings2_TestExtensionOrderings3 \<Rightarrow> TestExtensionOrderings2_TestExtensionOrderings3" where
  "TestExtensionOrderings2_TestExtensionOrderings3_norm s = s"

definition TestExtensionOrderings2_TestExtensionOrderings3_ready :: "Reader \<Rightarrow> TestExtensionOrderings2_TestExtensionOrderings3 \<Rightarrow> (TestExtensionOrderings2_TestExtensionOrderings3Reader \<Rightarrow> bool) list" where
  "TestExtensionOrderings2_TestExtensionOrderings3_ready p s = [
     \<lambda>m. cell_reads (readOne ReadString []) plain p (if MyString s \<noteq> [] then MyString s else []) (cellMyString m)]"

definition TestExtensionOrderings2_TestExtensionOrderings3_stored :: "TestExtensionOrderings2_TestExtensionOrderings3 \<Rightarrow> (TestExtensionOrderings2_TestExtensionOrderings3 \<Rightarrow> TestExtensionOrderings2_TestExtensionOrderings3) list" where
  "TestExtensionOrderings2_TestExtensionOrderings3_stored s = [
     \<lambda>res. res\<lparr>MyString := if MyString s \<noteq> [] then MyString s else []\<rparr>]"

lemma TestExtensionOrderings2_TestExtensionOrderings3_cases_distinct: "distinct (map fst (TestExtensionOrderings2_TestExtensionOrderings3Reader_cases wire offset))"
  by (rule ascending_distinct) (simp add: TestExtensionOrderings2_TestExtensionOrderings3Reader_cases_def wireTestExtensionOrderings2_TestExtensionOrderings3)

lemma TestExtensionOrderings2_TestExtensionOrderings3_stores:
  "stores_cell TestExtensionOrderings2_TestExtensionOrderings3Reader_save wireTestExtensionOrderings2_TestExtensionOrderings3_MyString setOffset cellMyString"
  unfolding TestExtensionOrderings2_TestExtensionOrderings3Reader_save_def [abs_def] by (rule stores_cell_switch; (rule TestExtensionOrderings2_TestExtensionOrderings3_cases_distinct)?; unfold TestExtensionOrderings2_TestExtensionOrderings3Reader_cases_def; intro own_case.intros; simp)+

lemma TestExtensionOrderings2_TestExtensionOrderings3_saved: "good_fields TestExtensionOrderings2_TestExtensionOrderings3Reader_save p (NewTestExtensionOrderings2_TestExtensionOrderings3Reader\<lparr>mbuf := Some p\<rparr>) TestExtensionOrderings2_TestExtensionOrderings3_tags (TestExtensionOrderings2_TestExtensionOrderings3_groups s) (TestExtensionOrderings2_TestExtensionOrderings3_ready p s)"
  unfolding TestExtensionOrderings2_TestExtensionOrderings3_tags_def TestExtensionOrderings2_TestExtensionOrderings3_groups_def TestExtensionOrderings2_TestExtensionOrderings3_ready_def
  by (intro good_fields.intros field_saved TestExtensionOrderings2_TestExtensionOrderings3_stores) (simp_all add: NewTestExtensionOrderings2_TestExtensionOrderings3Reader_def newCell_def)

lemma TestExtensionOrderings2_TestExtensionOrderings3_converted: "good_stmts mbuf p (TestExtensionOrderings2_TestExtensionOrderings3_stmts) (TestExtensionOrderings2_TestExtensionOrderings3_ready p s) (TestExtensionOrderings2_TestExtensionOrderings3_stored s)"
  unfolding TestExtensionOrderings2_TestExtensionOrderings3_stmts_def TestExtensionOrderings2_TestExtensionOrderings3_ready_def TestExtensionOrderings2_TestExtensionOrderings3_stored_def TestExtensionOrderings2_TestExtensionOrderings3_getters append.simps
  by (intro good_stmts_field good_stmts.Nil) (simp_all cong: cell_reads_cong)

interpretation l_TestExtensionOrderings2_TestExtensionOrderings3: lazy_message TestExtensionOrderings2_TestExtensionOrderings3_tags TestExtensionOrderings2_TestExtensionOrderings3_groups TestExtensionOrderings2_TestExtensionOrderings3_norm
  "\<lambda>s. TestExtensionOrderings2_TestExtensionOrderings3_sizes s" "\<lambda>s. TestExtensionOrderings2_TestExtensionOrderings3_appends s"
  TestExtensionOrderings2_TestExtensionOrderings3Reader_save "\<lambda>p. NewTestExtensionOrderings2_TestExtensionOrderings3Reader\<lparr>mbuf := Some p\<rparr>" mbuf "TestExtensionOrderings2_TestExtensionOrderings3_stmts" TestExtensionOrderings2_TestExtensionOrderings3_zero TestExtensionOrderings2_TestExtensionOrderings3_ready TestExtensionOrderings2_TestExtensionOrderings3_stored
proof
  show "distinct TestExtensionOrderings2_TestExtensionOrderings3_tags"
    using TestExtensionOrderings2_TestExtensionOrderings3_cases_distinct by (simp only: TestExtensionOrderings2_TestExtensionOrderings3Reader_cases_def TestExtensionOrderings2_TestExtensionOrderings3_tags_def list.map fst_conv)
  show "list_all valid_tag TestExtensionOrderings2_TestExtensionOrderings3_tags"
    by (simp add: TestExtensionOrderings2_TestExtensionOrderings3_tags_def wireTestExtensionOrderings2_TestExtensionOrderings3 valid_tag_def)
  show "list_all2 (\<lambda>t g. \<forall>f \<in> set g. fst f = t \<and> wf_val (snd f)) TestExtensionOrderings2_TestExtensionOrderings3_tags (TestExtensionOrderings2_TestExtensionOrderings3_groups s)" for s
    unfolding TestExtensionOrderings2_TestExtensionOrderings3_tags_def TestExtensionOrderings2_TestExtensionOrderings3_groups_def by (intro list.rel_intros field_tagged)
  show "list_all2 (\<lambda>e g. e = int (length (fields_bytes g))) (TestExtensionOrderings2_TestExtensionOrderings3_sizes s) (TestExtensionOrderings2_TestExtensionOrderings3_groups s)" for s
    unfolding TestExtensionOrderings2_TestExtensionOrderings3_sizes_def TestExtensionOrderings2_TestExtensionOrderings3_groups_def append.simps
    by (intro list.rel_intros field_sized)
  show "list_all2 (\<lambda>st g. writes st (fields_bytes g)) (TestExtensionOrderings2_TestExtensionOrderings3_appends s) (TestExtensionOrderings2_TestExtensionOrderings3_groups s)" for s
    unfolding TestExtensionOrderings2_TestExtensionOrderings3_appends_def TestExtensionOrderings2_TestExtensionOrderings3_groups_def append.simps
    by (intro list.rel_intros field_written)
  show "mbuf (TestExtensionOrderings2_TestExtensionOrderings3Reader_save t w off m) = mbuf m" for t w off m
    unfolding TestExtensionOrderings2_TestExtensionOrderings3Reader_save_def by (rule tag_switch_keeps) (simp add: TestExtensionOrderings2_TestExtensionOrderings3Reader_cases_def)
  show "fold (\<lambda>e. e) (TestExtensionOrderings2_TestExtensionOrderings3_stored s) TestExtensionOrderings2_TestExtensionOrderings3_zero = TestExtensionOrderings2_TestExtensionOrderings3_norm s" for s
    unfolding TestExtensionOrderings2_TestExtensionOrderings3_stored_def by (simp add: TestExtensionOrderings2_TestExtensionOrderings3_zero_def TestExtensionOrderings2_TestExtensionOrderings3_norm_def float_defaults)
qed (simp_all add: TestExtensionOrderings2_TestExtensionOrderings3_saved TestExtensionOrderings2_TestExtensionOrderings3_converted)

interpretation m_TestExtensionOrderings2_TestExtensionOrderings3: message_codec TestExtensionOrderings2_TestExtensionOrderings3_content TestExtensionOrderings2_TestExtensionOrderings3_norm TestExtensionOrderings2_TestExtensionOrderings3_XXX_PbContentSize TestExtensionOrderings2_TestExtensionOrderings3_MarshalTo
  "TestExtensionOrderings2_TestExtensionOrderings3Reader_Unmarshal NewTestExtensionOrderings2_TestExtensionOrderings3Reader" TestExtensionOrderings2_TestExtensionOrderings3Reader_ToStruct
  using l_TestExtensionOrderings2_TestExtensionOrderings3.message
  by (simp only: TestExtensionOrderings2_TestExtensionOrderings3_content_def [abs_def] TestExtensionOrderings2_TestExtensionOrderings3_XXX_PbContentSize_def TestExtensionOrderings2_TestExtensionOrderings3_MarshalTo_def TestExtensionOrderings2_TestExtensionOrderings3Reader_Unmarshal_def [abs_def] TestExtensionOrderings2_TestExtensionOrderings3Reader_ToStruct_def)


section \<open>TestExtensionOrderings2_TestExtensionOrderings3_TestFieldOrderings: the reader\<close>

definition wireTestExtensionOrderings2_TestExtensionOrderings3_TestFieldOrderings_TestExtOrderings3 :: ProtoWireNumber where "wireTestExtensionOrderings2_TestExtensionOrderings3_TestFieldOrderings_TestExtOrderings3 = 14"
definition wireTestExtensionOrderings2_TestExtensionOrderings3_TestFieldOrderings_MyString :: ProtoWireNumber where "wireTestExtensionOrderings2_TestExtensionOrderings3_TestFieldOrderings_MyString = 11"
definition wireTestExtensionOrderings2_TestExtensionOrderings3_TestFieldOrderings_MyInt :: ProtoWireNumber where "wireTestExtensionOrderings2_TestExtensionOrderings3_TestFieldOrderings_MyInt = 1"
definition wireTestExtensionOrderings2_TestExtensionOrderings3_TestFieldOrderings_MyFloat :: ProtoWireNumber where "wireTestExtensionOrderings2_TestExtensionOrderings3_TestFieldOrderings_MyFloat = 101"
definition wireTestExtensionOrderings2_TestExtensionOrderings3_TestFieldOrderings_OptionalNestedMessage :: ProtoWireNumber where "wireTestExtensionOrderings2_TestExtensionOrderings3_TestFieldOrderings_OptionalNestedMessage = 200"

lemmas wireTestExtensionOrderings2_TestExtensionOrderings3_TestFieldOrderings =
  wireTestExtensionOrderings2_TestExtensionOrderings3_TestFieldOrderings_TestExtOrderings3_def
  wireTestExtensionOrderings2_TestExtensionOrderings3_TestFieldOrderings_MyString_def
  wireTestExtensionOrderings2_TestExtensionOrderings3_TestFieldOrderings_MyInt_def
  wireTestExtensionOrderings2_TestExtensionOrderings3_TestFieldOrderings_MyFloat_def
  wireTestExtensionOrderings2_TestExtensionOrderings3_TestFieldOrderings_OptionalNestedMessage_def

record TestExtensionOrderings2_TestExtensionOrderings3_TestFieldOrderingsReader =
  mbuf :: "Reader option"
  cellTestExtOrderings3 :: "(TestExtensionOrderings2_TestExtensionOrderings3Reader option) one_cell"
  cellMyString :: "gostring one_cell"
  cellMyInt :: "int64 one_cell"
  cellMyFloat :: "float32 one_cell"
  cellOptionalNestedMessage :: "(TestFieldOrderingsReader option) one_cell"

definition NewTestExtensionOrderings2_TestExtensionOrderings3_TestFieldOrderingsReader :: TestExtensionOrderings2_TestExtensionOrderings3_TestFieldOrderingsReader where
  "NewTestExtensionOrderings2_TestExtensionOrderings3_TestFieldOrderingsReader = \<lparr>
     mbuf = None, cellTestExtOrderings3 = newCell None 0, cellMyString = newCell [] 0,
     cellMyInt = newCell 0 0, cellMyFloat = newCell 0 0,
     cellOptionalNestedMessage = newCell None 0\<rparr>"

definition TestExtensionOrderings2_TestExtensionOrderings3_TestFieldOrderingsReader_readTestExtOrderings3 :: "TestExtensionOrderings2_TestExtensionOrderings3_TestFieldOrderingsReader \<Rightarrow> (TestExtensionOrderings2_TestExtensionOrderings3Reader option \<times> TestExtensionOrderings2_TestExtensionOrderings3_TestFieldOrderingsReader) run" where
  "TestExtensionOrderings2_TestExtensionOrderings3_TestFieldOrderingsReader_readTestExtOrderings3 = readCell cellTestExtOrderings3 cellTestExtOrderings3_update mbuf (structReader (TestExtensionOrderings2_TestExtensionOrderings3Reader_Unmarshal NewTestExtensionOrderings2_TestExtensionOrderings3Reader))"

definition TestExtensionOrderings2_TestExtensionOrderings3_TestFieldOrderingsReader_GetTestExtOrderings3 :: "TestExtensionOrderings2_TestExtensionOrderings3_TestFieldOrderingsReader option \<Rightarrow> (TestExtensionOrderings2_TestExtensionOrderings3Reader option \<times> TestExtensionOrderings2_TestExtensionOrderings3_TestFieldOrderingsReader option) run" where
  "TestExtensionOrderings2_TestExtensionOrderings3_TestFieldOrderingsReader_GetTestExtOrderings3 = getter TestExtensionOrderings2_TestExtensionOrderings3_TestFieldOrderingsReader_readTestExtOrderings3 None"

definition TestExtensionOrderings2_TestExtensionOrderings3_TestFieldOrderingsReader_readMyString :: "TestExtensionOrderings2_TestExtensionOrderings3_TestFieldOrderingsReader \<Rightarrow> (gostring \<times> TestExtensionOrderings2_TestExtensionOrderings3_TestFieldOrderingsReader) run" where
  "TestExtensionOrderings2_TestExtensionOrderings3_TestFieldOrderingsReader_readMyString = readCell cellMyString cellMyString_update mbuf (readOne ReadString [])"

definition TestExtensionOrderings2_TestExtensionOrderings3_TestFieldOrderingsReader_GetMyString :: "TestExtensionOrderings2_TestExtensionOrderings3_TestFieldOrderingsReader option \<Rightarrow> (gostring \<times> TestExtensionOrderings2_TestExtensionOrderings3_TestFieldOrderingsReader option) run" where
  "TestExtensionOrderings2_TestExtensionOrderings3_TestFieldOrderingsReader_GetMyString = getter TestExtensionOrderings2_TestExtensionOrderings3_TestFieldOrderingsReader_readMyString []"

definition TestExtensionOrderings2_TestExtensionOrderings3_TestFieldOrderingsReader_readMyInt :: "TestExtensionOrderings2_TestExtensionOrderings3_TestFieldOrderingsReader \<Rightarrow> (int64 \<times> TestExtensionOrderings2_TestExtensionOrderings3_TestFieldOrderingsReader) run" where
  "TestExtensionOrderings2_TestExtensionOrderings3_TestFieldOrderingsReader_readMyInt = readCell cellMyInt cellMyInt_update mbuf (readOne ReadInt64 0)"

definition TestExtensionOrderings2_TestExtensionOrderings3_TestFieldOrderingsReader_GetMyInt :: "TestExtensionOrderings2_TestExtensionOrderings3_TestFieldOrderingsReader option \<Rightarrow> (int64 \<times> TestExtensionOrderings2_TestExtensionOrderings3_TestFieldOrderingsReader option) run" where
  "TestExtensionOrderings2_TestExtensionOrderings3_TestFieldOrderingsReader_GetMyInt = getter TestExtensionOrderings2_TestExtensionOrderings3_TestFieldOrderingsReader_readMyInt 0"

definition TestExtensionOrderings2_TestExtensionOrderings3_TestFieldOrderingsReader_readMyFloat :: "TestExtensionOrderings2_TestExtensionOrderings3_TestFieldOrderingsReader \<Rightarrow> (float32 \<times> TestExtensionOrderings2_TestExtensionOrderings3_TestFieldOrderingsReader) run" where
  "TestExtensionOrderings2_TestExtensionOrderings3_TestFieldOrderingsReader_readMyFloat = readCell cellMyFloat cellMyFloat_update mbuf (readOne ReadFloat32 0x0)"

definition TestExtensionOrderings2_TestExtensionOrderings3_TestFieldOrderingsReader_GetMyFloat :: "TestExtensionOrderings2_TestExtensionOrderings3_TestFieldOrderingsReader option \<Rightarrow> (float32 \<times> TestExtensionOrderings2_TestExtensionOrderings3_TestFieldOrderingsReader option) run" where
  "TestExtensionOrderings2_TestExtensionOrderings3_TestFieldOrderingsReader_GetMyFloat = getter TestExtensionOrderings2_TestExtensionOrderings3_TestFieldOrderingsReader_readMyFloat 0x0"

definition TestExtensionOrderings2_TestExtensionOrderings3_TestFieldOrderingsReader_readOptionalNestedMessage :: "TestExtensionOrderings2_TestExtensionOrderings3_TestFieldOrderingsReader \<Rightarrow> (TestFieldOrderingsReader option \<times> TestExtensionOrderings2_TestExtensionOrderings3_TestFieldOrderingsReader) run" where
  "TestExtensionOrderings2_TestExtensionOrderings3_TestFieldOrderingsReader_readOptionalNestedMessage = readCell cellOptionalNestedMessage cellOptionalNestedMessage_update mbuf (structReader (TestFieldOrderingsReader_Unmarshal NewTestFieldOrderingsReader))"

definition TestExtensionOrderings2_TestExtensionOrderings3_TestFieldOrderingsReader_GetOptionalNestedMessage :: "TestExtensionOrderings2_TestExtensionOrderings3_TestFieldOrderingsReader option \<Rightarrow> (TestFieldOrderingsReader option \<times> TestExtensionOrderings2_TestExtensionOrderings3_TestFieldOrderingsReader option) run" where
  "TestExtensionOrderings2_TestExtensionOrderings3_TestFieldOrderingsReader_GetOptionalNestedMessage = getter TestExtensionOrderings2_TestExtensionOrderings3_TestFieldOrderingsReader_readOptionalNestedMessage None"

lemmas TestExtensionOrderings2_TestExtensionOrderings3_TestFieldOrderings_getters =
  TestExtensionOrderings2_TestExtensionOrderings3_TestFieldOrderingsReader_readTestExtOrderings3_def TestExtensionOrderings2_TestExtensionOrderings3_TestFieldOrderingsReader_GetTestExtOrderings3_def
  TestExtensionOrderings2_TestExtensionOrderings3_TestFieldOrderingsReader_readMyString_def TestExtensionOrderings2_TestExtensionOrderings3_TestFieldOrderingsReader_GetMyString_def
  TestExtensionOrderings2_TestExtensionOrderings3_TestFieldOrderingsReader_readMyInt_def TestExtensionOrderings2_TestExtensionOrderings3_TestFieldOrderingsReader_GetMyInt_def
  TestExtensionOrderings2_TestExtensionOrderings3_TestFieldOrderingsReader_readMyFloat_def TestExtensionOrderings2_TestExtensionOrderings3_TestFieldOrderingsReader_GetMyFloat_def
  TestExtensionOrderings2_TestExtensionOrderings3_TestFieldOrderingsReader_readOptionalNestedMessage_def TestExtensionOrderings2_TestExtensionOrderings3_TestFieldOrderingsReader_GetOptionalNestedMessage_def

definition TestExtensionOrderings2_TestExtensionOrderings3_TestFieldOrderingsReader_cases :: "ProtoWireType \<Rightarrow> int \<Rightarrow> (ProtoWireNumber \<times> (TestExtensionOrderings2_TestExtensionOrderings3_TestFieldOrderingsReader \<Rightarrow> TestExtensionOrderings2_TestExtensionOrderings3_TestFieldOrderingsReader)) list" where
  "TestExtensionOrderings2_TestExtensionOrderings3_TestFieldOrderingsReader_cases wire offset = [
     (wireTestExtensionOrderings2_TestExtensionOrderings3_TestFieldOrderings_TestExtOrderings3, \<lambda>m. m\<lparr>cellTestExtOrderings3 := onOffset (setOffset wire offset) (cellTestExtOrderings3 m)\<rparr>),
     (wireTestExtensionOrderings2_TestExtensionOrderings3_TestFieldOrderings_MyString, \<lambda>m. m\<lparr>cellMyString := onOffset (setOffset wire offset) (cellMyString m)\<rparr>),
     (wireTestExtensionOrderings2_TestExtensionOrderings3_TestFieldOrderings_MyInt, \<lambda>m. m\<lparr>cellMyInt := onOffset (setOffset wire offset) (cellMyInt m)\<rparr>),
     (wireTestExtensionOrderings2_TestExtensionOrderings3_TestFieldOrderings_MyFloat, \<lambda>m. m\<lparr>cellMyFloat := onOffset (setOffset wire offset) (cellMyFloat m)\<rparr>),
     (wireTestExtensionOrderings2_TestExtensionOrderings3_TestFieldOrderings_OptionalNestedMessage, \<lambda>m. m\<lparr>cellOptionalNestedMessage := onOffset (setOffset wire offset) (cellOptionalNestedMessage m)\<rparr>)]"

definition TestExtensionOrderings2_TestExtensionOrderings3_TestFieldOrderingsReader_save :: "ProtoWireNumber \<Rightarrow> ProtoWireType \<Rightarrow> int \<Rightarrow> TestExtensionOrderings2_TestExtensionOrderings3_TestFieldOrderingsReader \<Rightarrow> TestExtensionOrderings2_TestExtensionOrderings3_TestFieldOrderingsReader" where
  "TestExtensionOrderings2_TestExtensionOrderings3_TestFieldOrderingsReader_save tag wire offset = tag_switch (TestExtensionOrderings2_TestExtensionOrderings3_TestFieldOrderingsReader_cases wire offset) tag"

definition TestExtensionOrderings2_TestExtensionOrderings3_TestFieldOrderingsReader_Unmarshal :: "TestExtensionOrderings2_TestExtensionOrderings3_TestFieldOrderingsReader \<Rightarrow> gslice \<Rightarrow> (TestExtensionOrderings2_TestExtensionOrderings3_TestFieldOrderingsReader \<times> string option) run" where
  "TestExtensionOrderings2_TestExtensionOrderings3_TestFieldOrderingsReader_Unmarshal m data =
     unmarshalLoop TestExtensionOrderings2_TestExtensionOrderings3_TestFieldOrderingsReader_save (NewReader data) 0 (m\<lparr>mbuf := Some (NewReader data)\<rparr>)"

definition TestExtensionOrderings2_TestExtensionOrderings3_TestFieldOrderingsReader_SourceBytes :: "TestExtensionOrderings2_TestExtensionOrderings3_TestFieldOrderingsReader option \<Rightarrow> gslice" where
  "TestExtensionOrderings2_TestExtensionOrderings3_TestFieldOrderingsReader_SourceBytes s = (case s of None \<Rightarrow> nil_slice | Some r \<Rightarrow> Bytes (mbuf r))"

section \<open>TestExtensionOrderings2_TestExtensionOrderings3_TestFieldOrderings: the struct\<close>

record TestExtensionOrderings2_TestExtensionOrderings3_TestFieldOrderings =
  TestExtOrderings3 :: "TestExtensionOrderings2_TestExtensionOrderings3 option"
  MyString :: gostring
  MyInt :: int64
  MyFloat :: float32
  OptionalNestedMessage :: "TestFieldOrderings option"

definition TestExtensionOrderings2_TestExtensionOrderings3_TestFieldOrderings_zero :: TestExtensionOrderings2_TestExtensionOrderings3_TestFieldOrderings where
  "TestExtensionOrderings2_TestExtensionOrderings3_TestFieldOrderings_zero = \<lparr>
     TestExtOrderings3 = None, MyString = [], MyInt = 0, MyFloat = 0,
     OptionalNestedMessage = None\<rparr>"

definition TestExtensionOrderings2_TestExtensionOrderings3_TestFieldOrderings_stmts :: "(TestExtensionOrderings2_TestExtensionOrderings3_TestFieldOrderings \<times> TestExtensionOrderings2_TestExtensionOrderings3_TestFieldOrderingsReader option \<Rightarrow> (TestExtensionOrderings2_TestExtensionOrderings3_TestFieldOrderings \<times> TestExtensionOrderings2_TestExtensionOrderings3_TestFieldOrderingsReader option) run) list" where
  "TestExtensionOrderings2_TestExtensionOrderings3_TestFieldOrderings_stmts = [
     assignStruct TestExtensionOrderings2_TestExtensionOrderings3_TestFieldOrderingsReader_GetTestExtOrderings3 (structToStruct TestExtensionOrderings2_TestExtensionOrderings3Reader_ToStruct) cellTestExtOrderings3_update
       (\<lambda>v res. res\<lparr>TestExtOrderings3 := v\<rparr>),
     assign TestExtensionOrderings2_TestExtensionOrderings3_TestFieldOrderingsReader_GetMyString (\<lambda>v res. res\<lparr>MyString := v\<rparr>),
     assign TestExtensionOrderings2_TestExtensionOrderings3_TestFieldOrderingsReader_GetMyInt (\<lambda>v res. res\<lparr>MyInt := v\<rparr>),
     assign TestExtensionOrderings2_TestExtensionOrderings3_TestFieldOrderingsReader_GetMyFloat (\<lambda>v res. res\<lparr>MyFloat := v\<rparr>),
     assignStruct TestExtensionOrderings2_TestExtensionOrderings3_TestFieldOrderingsReader_GetOptionalNestedMessage (structToStruct TestFieldOrderingsReader_ToStruct) cellOptionalNestedMessage_update
       (\<lambda>v res. res\<lparr>OptionalNestedMessage := v\<rparr>)]"

definition TestExtensionOrderings2_TestExtensionOrderings3_TestFieldOrderingsReader_ToStruct :: "TestExtensionOrderings2_TestExtensionOrderings3_TestFieldOrderingsReader option \<Rightarrow> (TestExtensionOrderings2_TestExtensionOrderings3_TestFieldOrderings option \<times> TestExtensionOrderings2_TestExtensionOrderings3_TestFieldOrderingsReader option) run" where
  "TestExtensionOrderings2_TestExtensionOrderings3_TestFieldOrderingsReader_ToStruct = toStructWith (TestExtensionOrderings2_TestExtensionOrderings3_TestFieldOrderings_stmts) TestExtensionOrderings2_TestExtensionOrderings3_TestFieldOrderings_zero"

definition TestExtensionOrderings2_TestExtensionOrderings3_TestFieldOrderings_appends :: "TestExtensionOrderings2_TestExtensionOrderings3_TestFieldOrderings \<Rightarrow> (Writer \<Rightarrow> Writer go) list" where
  "TestExtensionOrderings2_TestExtensionOrderings3_TestFieldOrderings_appends s = [
     \<lambda>res. if TestExtOrderings3 s \<noteq> None then structWriter TestExtensionOrderings2_TestExtensionOrderings3_XXX_PbContentSize TestExtensionOrderings2_TestExtensionOrderings3_MarshalTo res wireTestExtensionOrderings2_TestExtensionOrderings3_TestFieldOrderings_TestExtOrderings3 (TestExtOrderings3 s) else Ret res,
     \<lambda>res. if MyString s \<noteq> [] then AppendString res wireTestExtensionOrderings2_TestExtensionOrderings3_TestFieldOrderings_MyString (MyString s) else Ret res,
     \<lambda>res. if MyInt s \<noteq> 0 then AppendInt64 res wireTestExtensionOrderings2_TestExtensionOrderings3_TestFieldOrderings_MyInt (MyInt s) else Ret res,
     \<lambda>res. if \<not> float32_is_zero (MyFloat s) then AppendFloat32 res wireTestExtensionOrderings2_TestExtensionOrderings3_TestFieldOrderings_MyFloat (MyFloat s) else Ret res,
     \<lambda>res. if OptionalNestedMessage s \<noteq> None then structWriter TestFieldOrderings_XXX_PbContentSize TestFieldOrderings_MarshalTo res wireTestExtensionOrderings2_TestExtensionOrderings3_TestFieldOrderings_OptionalNestedMessage (OptionalNestedMessage s) else Ret res]"

definition TestExtensionOrderings2_TestExtensionOrderings3_TestFieldOrderings_MarshalTo :: "Writer \<Rightarrow> TestExtensionOrderings2_TestExtensionOrderings3_TestFieldOrderings option \<Rightarrow> Writer go" where
  "TestExtensionOrderings2_TestExtensionOrderings3_TestFieldOrderings_MarshalTo = marshalToWith (\<lambda>s. TestExtensionOrderings2_TestExtensionOrderings3_TestFieldOrderings_appends s)"

definition TestExtensionOrderings2_TestExtensionOrderings3_TestFieldOrderings_sizes :: "TestExtensionOrderings2_TestExtensionOrderings3_TestFieldOrderings \<Rightarrow> int list" where
  "TestExtensionOrderings2_TestExtensionOrderings3_TestFieldOrderings_sizes s = [
     if TestExtOrderings3 s \<noteq> None then sizeDelimitedWithTag TestExtensionOrderings2_TestExtensionOrderings3_XXX_PbContentSize wireTestExtensionOrderings2_TestExtensionOrderings3_TestFieldOrderings_TestExtOrderings3 (TestExtOrderings3 s) else 0,
     if MyString s \<noteq> [] then sizeDelimitedWithTag SizeString wireTestExtensionOrderings2_TestExtensionOrderings3_TestFieldOrderings_MyString (MyString s) else 0,
     if MyInt s \<noteq> 0 then sizeWithTag SizeInt64 wireTestExtensionOrderings2_TestExtensionOrderings3_TestFieldOrderings_MyInt (MyInt s) else 0,
     if \<not> float32_is_zero (MyFloat s) then sizeWithTag SizeFloat32 wireTestExtensionOrderings2_TestExtensionOrderings3_TestFieldOrderings_MyFloat (MyFloat s) else 0,
     if OptionalNestedMessage s \<noteq> None then sizeDelimitedWithTag TestFieldOrderings_XXX_PbContentSize wireTestExtensionOrderings2_TestExtensionOrderings3_TestFieldOrderings_OptionalNestedMessage (OptionalNestedMessage s) else 0]"

definition TestExtensionOrderings2_TestExtensionOrderings3_TestFieldOrderings_XXX_PbContentSize :: "TestExtensionOrderings2_TestExtensionOrderings3_TestFieldOrderings option \<Rightarrow> int" where
  "TestExtensionOrderings2_TestExtensionOrderings3_TestFieldOrderings_XXX_PbContentSize = contentSizeWith (\<lambda>s. TestExtensionOrderings2_TestExtensionOrderings3_TestFieldOrderings_sizes s)"

definition TestExtensionOrderings2_TestExtensionOrderings3_TestFieldOrderings_Marshal :: "TestExtensionOrderings2_TestExtensionOrderings3_TestFieldOrderings option \<Rightarrow> byte list go" where
  "TestExtensionOrderings2_TestExtensionOrderings3_TestFieldOrderings_Marshal = marshalWith TestExtensionOrderings2_TestExtensionOrderings3_TestFieldOrderings_XXX_PbContentSize TestExtensionOrderings2_TestExtensionOrderings3_TestFieldOrderings_MarshalTo"

definition TestExtensionOrderings2_TestExtensionOrderings3_TestFieldOrderings_Copy :: "TestExtensionOrderings2_TestExtensionOrderings3_TestFieldOrderings option \<Rightarrow> TestExtensionOrderings2_TestExtensionOrderings3_TestFieldOrderings option" where
  "TestExtensionOrderings2_TestExtensionOrderings3_TestFieldOrderings_Copy s =
     (case s of None \<Rightarrow> None | Some s \<Rightarrow> Some \<lparr>
        TestExtOrderings3 = (case TestExtOrderings3 s of None \<Rightarrow> None | Some x \<Rightarrow> TestExtensionOrderings2_TestExtensionOrderings3_Copy (Some x)),
        MyString = MyString s, MyInt = MyInt s, MyFloat = MyFloat s,
        OptionalNestedMessage = (case OptionalNestedMessage s of None \<Rightarrow> None | Some x \<Rightarrow> TestFieldOrderings_Copy (Some x))\<rparr>)"

section \<open>TestExtensionOrderings2_TestExtensionOrderings3_TestFieldOrderings: the round trip\<close>

definition TestExtensionOrderings2_TestExtensionOrderings3_TestFieldOrderings_tags :: "ProtoWireNumber list" where
  "TestExtensionOrderings2_TestExtensionOrderings3_TestFieldOrderings_tags = [
     wireTestExtensionOrderings2_TestExtensionOrderings3_TestFieldOrderings_TestExtOrderings3,
     wireTestExtensionOrderings2_TestExtensionOrderings3_TestFieldOrderings_MyString,
     wireTestExtensionOrderings2_TestExtensionOrderings3_TestFieldOrderings_MyInt,
     wireTestExtensionOrderings2_TestExtensionOrderings3_TestFieldOrderings_MyFloat,
     wireTestExtensionOrderings2_TestExtensionOrderings3_TestFieldOrderings_OptionalNestedMessage]"

definition TestExtensionOrderings2_TestExtensionOrderings3_TestFieldOrderings_groups :: "TestExtensionOrderings2_TestExtensionOrderings3_TestFieldOrderings \<Rightarrow> wfield list list" where
  "TestExtensionOrderings2_TestExtensionOrderings3_TestFieldOrderings_groups s = [
     opt_field (TestExtOrderings3 s \<noteq> None) (wireTestExtensionOrderings2_TestExtensionOrderings3_TestFieldOrderings_TestExtOrderings3, WBytes (ptr_bytes TestExtensionOrderings2_TestExtensionOrderings3_content (TestExtOrderings3 s))),
     opt_field (MyString s \<noteq> []) (wireTestExtensionOrderings2_TestExtensionOrderings3_TestFieldOrderings_MyString, WBytes (MyString s)),
     opt_field (MyInt s \<noteq> 0) (wireTestExtensionOrderings2_TestExtensionOrderings3_TestFieldOrderings_MyInt, int64_val (MyInt s)),
     opt_field (\<not> float32_is_zero (MyFloat s)) (wireTestExtensionOrderings2_TestExtensionOrderings3_TestFieldOrderings_MyFloat, WFixed32 (MyFloat s)),
     opt_field (OptionalNestedMessage s \<noteq> None) (wireTestExtensionOrderings2_TestExtensionOrderings3_TestFieldOrderings_OptionalNestedMessage, WBytes (ptr_bytes TestFieldOrderings_content (OptionalNestedMessage s)))]"

definition TestExtensionOrderings2_TestExtensionOrderings3_TestFieldOrderings_content :: "TestExtensionOrderings2_TestExtensionOrderings3_TestFieldOrderings \<Rightarrow> wfield list" where
  "TestExtensionOrderings2_TestExtensionOrderings3_TestFieldOrderings_content s = concat (TestExtensionOrderings2_TestExtensionOrderings3_TestFieldOrderings_groups s)"

text \<open>What a round trip keeps.\<close>

definition TestExtensionOrderings2_TestExtensionOrderings3_TestFieldOrderings_norm :: "TestExtensionOrderings2_TestExtensionOrderings3_TestFieldOrderings \<Rightarrow> TestExtensionOrderings2_TestExtensionOrderings3_TestFieldOrderings" where
  "TestExtensionOrderings2_TestExtensionOrderings3_TestFieldOrderings_norm s = s\<lparr>
     TestExtOrderings3 := norm_ptr TestExtensionOrderings2_TestExtensionOrderings3_content TestExtensionOrderings2_TestExtensionOrderings3_norm (TestExtOrderings3 s),
     MyFloat := if \<not> float32_is_zero (MyFloat s) then MyFloat s else 0x0,
     OptionalNestedMessage := norm_ptr TestFieldOrderings_content TestFieldOrderings_norm (OptionalNestedMessage s)\<rparr>"

definition TestExtensionOrderings2_TestExtensionOrderings3_TestFieldOrderings_ready :: "Reader \<Rightarrow> TestExtensionOrderings2_TestExtensionOrderings3_TestFieldOrderings \<Rightarrow> (TestExtensionOrderings2_TestExtensionOrderings3_TestFieldOrderingsReader \<Rightarrow> bool) list" where
  "TestExtensionOrderings2_TestExtensionOrderings3_TestFieldOrderings_ready p s = [
     \<lambda>m. cell_reads (structReader (TestExtensionOrderings2_TestExtensionOrderings3Reader_Unmarshal NewTestExtensionOrderings2_TestExtensionOrderings3Reader)) (structToStruct TestExtensionOrderings2_TestExtensionOrderings3Reader_ToStruct) p (norm_ptr TestExtensionOrderings2_TestExtensionOrderings3_content TestExtensionOrderings2_TestExtensionOrderings3_norm (TestExtOrderings3 s)) (cellTestExtOrderings3 m),
     \<lambda>m. cell_reads (readOne ReadString []) plain p (if MyString s \<noteq> [] then MyString s else []) (cellMyString m),
     \<lambda>m. cell_reads (readOne ReadInt64 0) plain p (if MyInt s \<noteq> 0 then MyInt s else 0) (cellMyInt m),
     \<lambda>m. cell_reads (readOne ReadFloat32 0x0) plain p (if \<not> float32_is_zero (MyFloat s) then MyFloat s else 0x0) (cellMyFloat m),
     \<lambda>m. cell_reads (structReader (TestFieldOrderingsReader_Unmarshal NewTestFieldOrderingsReader)) (structToStruct TestFieldOrderingsReader_ToStruct) p (norm_ptr TestFieldOrderings_content TestFieldOrderings_norm (OptionalNestedMessage s)) (cellOptionalNestedMessage m)]"

definition TestExtensionOrderings2_TestExtensionOrderings3_TestFieldOrderings_stored :: "TestExtensionOrderings2_TestExtensionOrderings3_TestFieldOrderings \<Rightarrow> (TestExtensionOrderings2_TestExtensionOrderings3_TestFieldOrderings \<Rightarrow> TestExtensionOrderings2_TestExtensionOrderings3_TestFieldOrderings) list" where
  "TestExtensionOrderings2_TestExtensionOrderings3_TestFieldOrderings_stored s = [
     \<lambda>res. res\<lparr>TestExtOrderings3 := norm_ptr TestExtensionOrderings2_TestExtensionOrderings3_content TestExtensionOrderings2_TestExtensionOrderings3_norm (TestExtOrderings3 s)\<rparr>,
     \<lambda>res. res\<lparr>MyString := if MyString s \<noteq> [] then MyString s else []\<rparr>,
     \<lambda>res. res\<lparr>MyInt := if MyInt s \<noteq> 0 then MyInt s else 0\<rparr>,
     \<lambda>res. res\<lparr>MyFloat := if \<not> float32_is_zero (MyFloat s) then MyFloat s else 0x0\<rparr>,
     \<lambda>res. res\<lparr>OptionalNestedMessage := norm_ptr TestFieldOrderings_content TestFieldOrderings_norm (OptionalNestedMessage s)\<rparr>]"

lemma TestExtensionOrderings2_TestExtensionOrderings3_TestFieldOrderings_cases_distinct: "distinct (map fst (TestExtensionOrderings2_TestExtensionOrderings3_TestFieldOrderingsReader_cases wire offset))"
  by (simp add: TestExtensionOrderings2_TestExtensionOrderings3_TestFieldOrderingsReader_cases_def wireTestExtensionOrderings2_TestExtensionOrderings3_TestFieldOrderings)

lemma TestExtensionOrderings2_TestExtensionOrderings3_TestFieldOrderings_stores:
  "stores_cell TestExtensionOrderings2_TestExtensionOrderings3_TestFieldOrderingsReader_save wireTestExtensionOrderings2_TestExtensionOrderings3_TestFieldOrderings_TestExtOrderings3 setOffset cellTestExtOrderings3"
  "stores_cell TestExtensionOrderings2_TestExtensionOrderings3_TestFieldOrderingsReader_save wireTestExtensionOrderings2_TestExtensionOrderings3_TestFieldOrderings_MyString setOffset cellMyString"
  "stores_cell TestExtensionOrderings2_TestExtensionOrderings3_TestFieldOrderingsReader_save wireTestExtensionOrderings2_TestExtensionOrderings3_TestFieldOrderings_MyInt setOffset cellMyInt"
  "stores_cell TestExtensionOrderings2_TestExtensionOrderings3_TestFieldOrderingsReader_save wireTestExtensionOrderings2_TestExtensionOrderings3_TestFieldOrderings_MyFloat setOffset cellMyFloat"
  "stores_cell TestExtensionOrderings2_TestExtensionOrderings3_TestFieldOrderingsReader_save wireTestExtensionOrderings2_TestExtensionOrderings3_TestFieldOrderings_OptionalNestedMessage setOffset cellOptionalNestedMessage"
  unfolding TestExtensionOrderings2_TestExtensionOrderings3_TestFieldOrderingsReader_save_def [abs_def] by (rule stores_cell_switch; (rule TestExtensionOrderings2_TestExtensionOrderings3_TestFieldOrderings_cases_distinct)?; unfold TestExtensionOrderings2_TestExtensionOrderings3_TestFieldOrderingsReader_cases_def; intro own_case.intros; simp)+

lemma TestExtensionOrderings2_TestExtensionOrderings3_TestFieldOrderings_saved: "good_fields TestExtensionOrderings2_TestExtensionOrderings3_TestFieldOrderingsReader_save p (NewTestExtensionOrderings2_TestExtensionOrderings3_TestFieldOrderingsReader\<lparr>mbuf := Some p\<rparr>) TestExtensionOrderings2_TestExtensionOrderings3_TestFieldOrderings_tags (TestExtensionOrderings2_TestExtensionOrderings3_TestFieldOrderings_groups s) (TestExtensionOrderings2_TestExtensionOrderings3_TestFieldOrderings_ready p s)"
  unfolding TestExtensionOrderings2_TestExtensionOrderings3_TestFieldOrderings_tags_def TestExtensionOrderings2_TestExtensionOrderings3_TestFieldOrderings_groups_def TestExtensionOrderings2_TestExtensionOrderings3_TestFieldOrderings_ready_def
  by (intro good_fields.intros field_saved m_TestExtensionOrderings2_TestExtensionOrderings3.saved_struct m_TestFieldOrderings.saved_struct TestExtensionOrderings2_TestExtensionOrderings3_TestFieldOrderings_stores) (simp_all add: NewTestExtensionOrderings2_TestExtensionOrderings3_TestFieldOrderingsReader_def newCell_def)

lemma TestExtensionOrderings2_TestExtensionOrderings3_TestFieldOrderings_converted: "good_stmts mbuf p (TestExtensionOrderings2_TestExtensionOrderings3_TestFieldOrderings_stmts) (TestExtensionOrderings2_TestExtensionOrderings3_TestFieldOrderings_ready p s) (TestExtensionOrderings2_TestExtensionOrderings3_TestFieldOrderings_stored s)"
  unfolding TestExtensionOrderings2_TestExtensionOrderings3_TestFieldOrderings_stmts_def TestExtensionOrderings2_TestExtensionOrderings3_TestFieldOrderings_ready_def TestExtensionOrderings2_TestExtensionOrderings3_TestFieldOrderings_stored_def TestExtensionOrderings2_TestExtensionOrderings3_TestFieldOrderings_getters append.simps
  by (intro good_stmts_field good_stmts.Nil) (simp_all cong: cell_reads_cong)

interpretation l_TestExtensionOrderings2_TestExtensionOrderings3_TestFieldOrderings: lazy_message TestExtensionOrderings2_TestExtensionOrderings3_TestFieldOrderings_tags TestExtensionOrderings2_TestExtensionOrderings3_TestFieldOrderings_groups TestExtensionOrderings2_TestExtensionOrderings3_TestFieldOrderings_norm
  "\<lambda>s. TestExtensionOrderings2_TestExtensionOrderings3_TestFieldOrderings_sizes s" "\<lambda>s. TestExtensionOrderings2_TestExtensionOrderings3_TestFieldOrderings_appends s"
  TestExtensionOrderings2_TestExtensionOrderings3_TestFieldOrderingsReader_save "\<lambda>p. NewTestExtensionOrderings2_TestExtensionOrderings3_TestFieldOrderingsReader\<lparr>mbuf := Some p\<rparr>" mbuf "TestExtensionOrderings2_TestExtensionOrderings3_TestFieldOrderings_stmts" TestExtensionOrderings2_TestExtensionOrderings3_TestFieldOrderings_zero TestExtensionOrderings2_TestExtensionOrderings3_TestFieldOrderings_ready TestExtensionOrderings2_TestExtensionOrderings3_TestFieldOrderings_stored
proof
  show "distinct TestExtensionOrderings2_TestExtensionOrderings3_TestFieldOrderings_tags"
    using TestExtensionOrderings2_TestExtensionOrderings3_TestFieldOrderings_cases_distinct by (simp only: TestExtensionOrderings2_TestExtensionOrderings3_TestFieldOrderingsReader_cases_def TestExtensionOrderings2_TestExtensionOrderings3_TestFieldOrderings_tags_def list.map fst_conv)
  show "list_all valid_tag TestExtensionOrderings2_TestExtensionOrderings3_TestFieldOrderings_tags"
    by (simp add: TestExtensionOrderings2_TestExtensionOrderings3_TestFieldOrderings_tags_def wireTestExtensionOrderings2_TestExtensionOrderings3_TestFieldOrderings valid_tag_def)
  show "list_all2 (\<lambda>t g. \<forall>f \<in> set g. fst f = t \<and> wf_val (snd f)) TestExtensionOrderings2_TestExtensionOrderings3_TestFieldOrderings_tags (TestExtensionOrderings2_TestExtensionOrderings3_TestFieldOrderings_groups s)" for s
    unfolding TestExtensionOrderings2_TestExtensionOrderings3_TestFieldOrderings_tags_def TestExtensionOrderings2_TestExtensionOrderings3_TestFieldOrderings_groups_def by (intro list.rel_intros field_tagged m_TestExtensionOrderings2_TestExtensionOrderings3.tagged_struct m_TestFieldOrderings.tagged_struct)
  show "list_all2 (\<lambda>e g. e = int (length (fields_bytes g))) (TestExtensionOrderings2_TestExtensionOrderings3_TestFieldOrderings_sizes s) (TestExtensionOrderings2_TestExtensionOrderings3_TestFieldOrderings_groups s)" for s
    unfolding TestExtensionOrderings2_TestExtensionOrderings3_TestFieldOrderings_sizes_def TestExtensionOrderings2_TestExtensionOrderings3_TestFieldOrderings_groups_def append.simps
    by (intro list.rel_intros field_sized m_TestExtensionOrderings2_TestExtensionOrderings3.sized_struct m_TestFieldOrderings.sized_struct)
  show "list_all2 (\<lambda>st g. writes st (fields_bytes g)) (TestExtensionOrderings2_TestExtensionOrderings3_TestFieldOrderings_appends s) (TestExtensionOrderings2_TestExtensionOrderings3_TestFieldOrderings_groups s)" for s
    unfolding TestExtensionOrderings2_TestExtensionOrderings3_TestFieldOrderings_appends_def TestExtensionOrderings2_TestExtensionOrderings3_TestFieldOrderings_groups_def append.simps
    by (intro list.rel_intros field_written m_TestExtensionOrderings2_TestExtensionOrderings3.written_struct m_TestFieldOrderings.written_struct)
  show "mbuf (TestExtensionOrderings2_TestExtensionOrderings3_TestFieldOrderingsReader_save t w off m) = mbuf m" for t w off m
    unfolding TestExtensionOrderings2_TestExtensionOrderings3_TestFieldOrderingsReader_save_def by (rule tag_switch_keeps) (simp add: TestExtensionOrderings2_TestExtensionOrderings3_TestFieldOrderingsReader_cases_def)
  show "fold (\<lambda>e. e) (TestExtensionOrderings2_TestExtensionOrderings3_TestFieldOrderings_stored s) TestExtensionOrderings2_TestExtensionOrderings3_TestFieldOrderings_zero = TestExtensionOrderings2_TestExtensionOrderings3_TestFieldOrderings_norm s" for s
    unfolding TestExtensionOrderings2_TestExtensionOrderings3_TestFieldOrderings_stored_def by (simp add: TestExtensionOrderings2_TestExtensionOrderings3_TestFieldOrderings_zero_def TestExtensionOrderings2_TestExtensionOrderings3_TestFieldOrderings_norm_def float_defaults)
qed (simp_all add: TestExtensionOrderings2_TestExtensionOrderings3_TestFieldOrderings_saved TestExtensionOrderings2_TestExtensionOrderings3_TestFieldOrderings_converted)

interpretation m_TestExtensionOrderings2_TestExtensionOrderings3_TestFieldOrderings: message_codec TestExtensionOrderings2_TestExtensionOrderings3_TestFieldOrderings_content TestExtensionOrderings2_TestExtensionOrderings3_TestFieldOrderings_norm TestExtensionOrderings2_TestExtensionOrderings3_TestFieldOrderings_XXX_PbContentSize TestExtensionOrderings2_TestExtensionOrderings3_TestFieldOrderings_MarshalTo
  "TestExtensionOrderings2_TestExtensionOrderings3_TestFieldOrderingsReader_Unmarshal NewTestExtensionOrderings2_TestExtensionOrderings3_TestFieldOrderingsReader" TestExtensionOrderings2_TestExtensionOrderings3_TestFieldOrderingsReader_ToStruct
  using l_TestExtensionOrderings2_TestExtensionOrderings3_TestFieldOrderings.message
  by (simp only: TestExtensionOrderings2_TestExtensionOrderings3_TestFieldOrderings_content_def [abs_def] TestExtensionOrderings2_TestExtensionOrderings3_TestFieldOrderings_XXX_PbContentSize_def TestExtensionOrderings2_TestExtensionOrderings3_TestFieldOrderings_MarshalTo_def TestExtensionOrderings2_TestExtensionOrderings3_TestFieldOrderingsReader_Unmarshal_def [abs_def] TestExtensionOrderings2_TestExtensionOrderings3_TestFieldOrderingsReader_ToStruct_def)


section \<open>TestExtensionInsideTable: the reader\<close>

definition wireTestExtensionInsideTable_TestExtensionInsideTableExtension :: ProtoWireNumber where "wireTestExtensionInsideTable_TestExtensionInsideTableExtension = 5"
definition wireTestExtensionInsideTable_Field1 :: ProtoWireNumber where "wireTestExtensionInsideTable_Field1 = 1"
definition wireTestExtensionInsideTable_Field2 :: ProtoWireNumber where "wireTestExtensionInsideTable_Field2 = 2"
definition wireTestExtensionInsideTable_Field3 :: ProtoWireNumber where "wireTestExtensionInsideTable_Field3 = 3"
definition wireTestExtensionInsideTable_Field4 :: ProtoWireNumber where "wireTestExtensionInsideTable_Field4 = 4"
definition wireTestExtensionInsideTable_Field6 :: ProtoWireNumber where "wireTestExtensionInsideTable_Field6 = 6"
definition wireTestExtensionInsideTable_Field7 :: ProtoWireNumber where "wireTestExtensionInsideTable_Field7 = 7"
definition wireTestExtensionInsideTable_Field8 :: ProtoWireNumber where "wireTestExtensionInsideTable_Field8 = 8"
definition wireTestExtensionInsideTable_Field9 :: ProtoWireNumber where "wireTestExtensionInsideTable_Field9 = 9"
definition wireTestExtensionInsideTable_Field10 :: ProtoWireNumber where "wireTestExtensionInsideTable_Field10 = 10"

lemmas wireTestExtensionInsideTable =
  wireTestExtensionInsideTable_TestExtensionInsideTableExtension_def
  wireTestExtensionInsideTable_Field1_def wireTestExtensionInsideTable_Field2_def
  wireTestExtensionInsideTable_Field3_def wireTestExtensionInsideTable_Field4_def
  wireTestExtensionInsideTable_Field6_def wireTestExtensionInsideTable_Field7_def
  wireTestExtensionInsideTable_Field8_def wireTestExtensionInsideTable_Field9_def
  wireTestExtensionInsideTable_Field10_def

record TestExtensionInsideTableReader =
  mbuf :: "Reader option"
  cellTestExtensionInsideTableExtension :: "int32 one_cell"
  cellField1 :: "int32 one_cell"
  cellField2 :: "int32 one_cell"
  cellField3 :: "int32 one_cell"
  cellField4 :: "int32 one_cell"
  cellField6 :: "int32 one_cell"
  cellField7 :: "int32 one_cell"
  cellField8 :: "int32 one_cell"
  cellField9 :: "int32 one_cell"
  cellField10 :: "int32 one_cell"

definition NewTestExtensionInsideTableReader :: TestExtensionInsideTableReader where
  "NewTestExtensionInsideTableReader = \<lparr>
     mbuf = None, cellTestExtensionInsideTableExtension = newCell 0 0, cellField1 = newCell 0 0,
     cellField2 = newCell 0 0, cellField3 = newCell 0 0, cellField4 = newCell 0 0,
     cellField6 = newCell 0 0, cellField7 = newCell 0 0, cellField8 = newCell 0 0,
     cellField9 = newCell 0 0, cellField10 = newCell 0 0\<rparr>"

definition TestExtensionInsideTableReader_readTestExtensionInsideTableExtension :: "TestExtensionInsideTableReader \<Rightarrow> (int32 \<times> TestExtensionInsideTableReader) run" where
  "TestExtensionInsideTableReader_readTestExtensionInsideTableExtension = readCell cellTestExtensionInsideTableExtension cellTestExtensionInsideTableExtension_update mbuf (readOne ReadInt32 0)"

definition TestExtensionInsideTableReader_GetTestExtensionInsideTableExtension :: "TestExtensionInsideTableReader option \<Rightarrow> (int32 \<times> TestExtensionInsideTableReader option) run" where
  "TestExtensionInsideTableReader_GetTestExtensionInsideTableExtension = getter TestExtensionInsideTableReader_readTestExtensionInsideTableExtension 0"

definition TestExtensionInsideTableReader_readField1 :: "TestExtensionInsideTableReader \<Rightarrow> (int32 \<times> TestExtensionInsideTableReader) run" where
  "TestExtensionInsideTableReader_readField1 = readCell cellField1 cellField1_update mbuf (readOne ReadInt32 0)"

definition TestExtensionInsideTableReader_GetField1 :: "TestExtensionInsideTableReader option \<Rightarrow> (int32 \<times> TestExtensionInsideTableReader option) run" where
  "TestExtensionInsideTableReader_GetField1 = getter TestExtensionInsideTableReader_readField1 0"

definition TestExtensionInsideTableReader_readField2 :: "TestExtensionInsideTableReader \<Rightarrow> (int32 \<times> TestExtensionInsideTableReader) run" where
  "TestExtensionInsideTableReader_readField2 = readCell cellField2 cellField2_update mbuf (readOne ReadInt32 0)"

definition TestExtensionInsideTableReader_GetField2 :: "TestExtensionInsideTableReader option \<Rightarrow> (int32 \<times> TestExtensionInsideTableReader option) run" where
  "TestExtensionInsideTableReader_GetField2 = getter TestExtensionInsideTableReader_readField2 0"

definition TestExtensionInsideTableReader_readField3 :: "TestExtensionInsideTableReader \<Rightarrow> (int32 \<times> TestExtensionInsideTableReader) run" where
  "TestExtensionInsideTableReader_readField3 = readCell cellField3 cellField3_update mbuf (readOne ReadInt32 0)"

definition TestExtensionInsideTableReader_GetField3 :: "TestExtensionInsideTableReader option \<Rightarrow> (int32 \<times> TestExtensionInsideTableReader option) run" where
  "TestExtensionInsideTableReader_GetField3 = getter TestExtensionInsideTableReader_readField3 0"

definition TestExtensionInsideTableReader_readField4 :: "TestExtensionInsideTableReader \<Rightarrow> (int32 \<times> TestExtensionInsideTableReader) run" where
  "TestExtensionInsideTableReader_readField4 = readCell cellField4 cellField4_update mbuf (readOne ReadInt32 0)"

definition TestExtensionInsideTableReader_GetField4 :: "TestExtensionInsideTableReader option \<Rightarrow> (int32 \<times> TestExtensionInsideTableReader option) run" where
  "TestExtensionInsideTableReader_GetField4 = getter TestExtensionInsideTableReader_readField4 0"

definition TestExtensionInsideTableReader_readField6 :: "TestExtensionInsideTableReader \<Rightarrow> (int32 \<times> TestExtensionInsideTableReader) run" where
  "TestExtensionInsideTableReader_readField6 = readCell cellField6 cellField6_update mbuf (readOne ReadInt32 0)"

definition TestExtensionInsideTableReader_GetField6 :: "TestExtensionInsideTableReader option \<Rightarrow> (int32 \<times> TestExtensionInsideTableReader option) run" where
  "TestExtensionInsideTableReader_GetField6 = getter TestExtensionInsideTableReader_readField6 0"

definition TestExtensionInsideTableReader_readField7 :: "TestExtensionInsideTableReader \<Rightarrow> (int32 \<times> TestExtensionInsideTableReader) run" where
  "TestExtensionInsideTableReader_readField7 = readCell cellField7 cellField7_update mbuf (readOne ReadInt32 0)"

definition TestExtensionInsideTableReader_GetField7 :: "TestExtensionInsideTableReader option \<Rightarrow> (int32 \<times> TestExtensionInsideTableReader option) run" where
  "TestExtensionInsideTableReader_GetField7 = getter TestExtensionInsideTableReader_readField7 0"

definition TestExtensionInsideTableReader_readField8 :: "TestExtensionInsideTableReader \<Rightarrow> (int32 \<times> TestExtensionInsideTableReader) run" where
  "TestExtensionInsideTableReader_readField8 = readCell cellField8 cellField8_update mbuf (readOne ReadInt32 0)"

definition TestExtensionInsideTableReader_GetField8 :: "TestExtensionInsideTableReader option \<Rightarrow> (int32 \<times> TestExtensionInsideTableReader option) run" where
  "TestExtensionInsideTableReader_GetField8 = getter TestExtensionInsideTableReader_readField8 0"

definition TestExtensionInsideTableReader_readField9 :: "TestExtensionInsideTableReader \<Rightarrow> (int32 \<times> TestExtensionInsideTableReader) run" where
  "TestExtensionInsideTableReader_readField9 = readCell cellField9 cellField9_update mbuf (readOne ReadInt32 0)"

definition TestExtensionInsideTableReader_GetField9 :: "TestExtensionInsideTableReader option \<Rightarrow> (int32 \<times> TestExtensionInsideTableReader option) run" where
  "TestExtensionInsideTableReader_GetField9 = getter TestExtensionInsideTableReader_readField9 0"

definition TestExtensionInsideTableReader_readField10 :: "TestExtensionInsideTableReader \<Rightarrow> (int32 \<times> TestExtensionInsideTableReader) run" where
  "TestExtensionInsideTableReader_readField10 = readCell cellField10 cellField10_update mbuf (readOne ReadInt32 0)"

definition TestExtensionInsideTableReader_GetField10 :: "TestExtensionInsideTableReader option \<Rightarrow> (int32 \<times> TestExtensionInsideTableReader option) run" where
  "TestExtensionInsideTableReader_GetField10 = getter TestExtensionInsideTableReader_readField10 0"

lemmas TestExtensionInsideTable_getters =
  TestExtensionInsideTableReader_readTestExtensionInsideTableExtension_def TestExtensionInsideTableReader_GetTestExtensionInsideTableExtension_def
  TestExtensionInsideTableReader_readField1_def TestExtensionInsideTableReader_GetField1_def
  TestExtensionInsideTableReader_readField2_def TestExtensionInsideTableReader_GetField2_def
  TestExtensionInsideTableReader_readField3_def TestExtensionInsideTableReader_GetField3_def
  TestExtensionInsideTableReader_readField4_def TestExtensionInsideTableReader_GetField4_def
  TestExtensionInsideTableReader_readField6_def TestExtensionInsideTableReader_GetField6_def
  TestExtensionInsideTableReader_readField7_def TestExtensionInsideTableReader_GetField7_def
  TestExtensionInsideTableReader_readField8_def TestExtensionInsideTableReader_GetField8_def
  TestExtensionInsideTableReader_readField9_def TestExtensionInsideTableReader_GetField9_def
  TestExtensionInsideTableReader_readField10_def TestExtensionInsideTableReader_GetField10_def

definition TestExtensionInsideTableReader_cases :: "ProtoWireType \<Rightarrow> int \<Rightarrow> (ProtoWireNumber \<times> (TestExtensionInsideTableReader \<Rightarrow> TestExtensionInsideTableReader)) list" where
  "TestExtensionInsideTableReader_cases wire offset = [
     (wireTestExtensionInsideTable_TestExtensionInsideTableExtension, \<lambda>m. m\<lparr>cellTestExtensionInsideTableExtension := onOffset (setOffset wire offset) (cellTestExtensionInsideTableExtension m)\<rparr>),
     (wireTestExtensionInsideTable_Field1, \<lambda>m. m\<lparr>cellField1 := onOffset (setOffset wire offset) (cellField1 m)\<rparr>),
     (wireTestExtensionInsideTable_Field2, \<lambda>m. m\<lparr>cellField2 := onOffset (setOffset wire offset) (cellField2 m)\<rparr>),
     (wireTestExtensionInsideTable_Field3, \<lambda>m. m\<lparr>cellField3 := onOffset (setOffset wire offset) (cellField3 m)\<rparr>),
     (wireTestExtensionInsideTable_Field4, \<lambda>m. m\<lparr>cellField4 := onOffset (setOffset wire offset) (cellField4 m)\<rparr>),
     (wireTestExtensionInsideTable_Field6, \<lambda>m. m\<lparr>cellField6 := onOffset (setOffset wire offset) (cellField6 m)\<rparr>),
     (wireTestExtensionInsideTable_Field7, \<lambda>m. m\<lparr>cellField7 := onOffset (setOffset wire offset) (cellField7 m)\<rparr>),
     (wireTestExtensionInsideTable_Field8, \<lambda>m. m\<lparr>cellField8 := onOffset (setOffset wire offset) (cellField8 m)\<rparr>),
     (wireTestExtensionInsideTable_Field9, \<lambda>m. m\<lparr>cellField9 := onOffset (setOffset wire offset) (cellField9 m)\<rparr>),
     (wireTestExtensionInsideTable_Field10, \<lambda>m. m\<lparr>cellField10 := onOffset (setOffset wire offset) (cellField10 m)\<rparr>)]"

definition TestExtensionInsideTableReader_save :: "ProtoWireNumber \<Rightarrow> ProtoWireType \<Rightarrow> int \<Rightarrow> TestExtensionInsideTableReader \<Rightarrow> TestExtensionInsideTableReader" where
  "TestExtensionInsideTableReader_save tag wire offset = tag_switch (TestExtensionInsideTableReader_cases wire offset) tag"

definition TestExtensionInsideTableReader_Unmarshal :: "TestExtensionInsideTableReader \<Rightarrow> gslice \<Rightarrow> (TestExtensionInsideTableReader \<times> string option) run" where
  "TestExtensionInsideTableReader_Unmarshal m data =
     unmarshalLoop TestExtensionInsideTableReader_save (NewReader data) 0 (m\<lparr>mbuf := Some (NewReader data)\<rparr>)"

definition TestExtensionInsideTableReader_SourceBytes :: "TestExtensionInsideTableReader option \<Rightarrow> gslice" where
  "TestExtensionInsideTableReader_SourceBytes s = (case s of None \<Rightarrow> nil_slice | Some r \<Rightarrow> Bytes (mbuf r))"

section \<open>TestExtensionInsideTable: the struct\<close>

record TestExtensionInsideTable =
  TestExtensionInsideTableExtension :: int32
  Field1 :: int32
  Field2 :: int32
  Field3 :: int32
  Field4 :: int32
  Field6 :: int32
  Field7 :: int32
  Field8 :: int32
  Field9 :: int32
  Field10 :: int32

definition TestExtensionInsideTable_zero :: TestExtensionInsideTable where
  "TestExtensionInsideTable_zero = \<lparr>
     TestExtensionInsideTableExtension = 0, Field1 = 0, Field2 = 0, Field3 = 0, Field4 = 0,
     Field6 = 0, Field7 = 0, Field8 = 0, Field9 = 0, Field10 = 0\<rparr>"

definition TestExtensionInsideTable_stmts :: "(TestExtensionInsideTable \<times> TestExtensionInsideTableReader option \<Rightarrow> (TestExtensionInsideTable \<times> TestExtensionInsideTableReader option) run) list" where
  "TestExtensionInsideTable_stmts = [
     assign TestExtensionInsideTableReader_GetTestExtensionInsideTableExtension (\<lambda>v res. res\<lparr>TestExtensionInsideTableExtension := v\<rparr>),
     assign TestExtensionInsideTableReader_GetField1 (\<lambda>v res. res\<lparr>Field1 := v\<rparr>),
     assign TestExtensionInsideTableReader_GetField2 (\<lambda>v res. res\<lparr>Field2 := v\<rparr>),
     assign TestExtensionInsideTableReader_GetField3 (\<lambda>v res. res\<lparr>Field3 := v\<rparr>),
     assign TestExtensionInsideTableReader_GetField4 (\<lambda>v res. res\<lparr>Field4 := v\<rparr>),
     assign TestExtensionInsideTableReader_GetField6 (\<lambda>v res. res\<lparr>Field6 := v\<rparr>),
     assign TestExtensionInsideTableReader_GetField7 (\<lambda>v res. res\<lparr>Field7 := v\<rparr>),
     assign TestExtensionInsideTableReader_GetField8 (\<lambda>v res. res\<lparr>Field8 := v\<rparr>),
     assign TestExtensionInsideTableReader_GetField9 (\<lambda>v res. res\<lparr>Field9 := v\<rparr>),
     assign TestExtensionInsideTableReader_GetField10 (\<lambda>v res. res\<lparr>Field10 := v\<rparr>)]"

definition TestExtensionInsideTableReader_ToStruct :: "TestExtensionInsideTableReader option \<Rightarrow> (TestExtensionInsideTable option \<times> TestExtensionInsideTableReader option) run" where
  "TestExtensionInsideTableReader_ToStruct = toStructWith (TestExtensionInsideTable_stmts) TestExtensionInsideTable_zero"

definition TestExtensionInsideTable_appends :: "TestExtensionInsideTable \<Rightarrow> (Writer \<Rightarrow> Writer go) list" where
  "TestExtensionInsideTable_appends s = [
     \<lambda>res. if TestExtensionInsideTableExtension s \<noteq> 0 then AppendInt32 res wireTestExtensionInsideTable_TestExtensionInsideTableExtension (TestExtensionInsideTableExtension s) else Ret res,
     \<lambda>res. if Field1 s \<noteq> 0 then AppendInt32 res wireTestExtensionInsideTable_Field1 (Field1 s) else Ret res,
     \<lambda>res. if Field2 s \<noteq> 0 then AppendInt32 res wireTestExtensionInsideTable_Field2 (Field2 s) else Ret res,
     \<lambda>res. if Field3 s \<noteq> 0 then AppendInt32 res wireTestExtensionInsideTable_Field3 (Field3 s) else Ret res,
     \<lambda>res. if Field4 s \<noteq> 0 then AppendInt32 res wireTestExtensionInsideTable_Field4 (Field4 s) else Ret res,
     \<lambda>res. if Field6 s \<noteq> 0 then AppendInt32 res wireTestExtensionInsideTable_Field6 (Field6 s) else Ret res,
     \<lambda>res. if Field7 s \<noteq> 0 then AppendInt32 res wireTestExtensionInsideTable_Field7 (Field7 s) else Ret res,
     \<lambda>res. if Field8 s \<noteq> 0 then AppendInt32 res wireTestExtensionInsideTable_Field8 (Field8 s) else Ret res,
     \<lambda>res. if Field9 s \<noteq> 0 then AppendInt32 res wireTestExtensionInsideTable_Field9 (Field9 s) else Ret res,
     \<lambda>res. if Field10 s \<noteq> 0 then AppendInt32 res wireTestExtensionInsideTable_Field10 (Field10 s) else Ret res]"

definition TestExtensionInsideTable_MarshalTo :: "Writer \<Rightarrow> TestExtensionInsideTable option \<Rightarrow> Writer go" where
  "TestExtensionInsideTable_MarshalTo = marshalToWith (\<lambda>s. TestExtensionInsideTable_appends s)"

definition TestExtensionInsideTable_sizes :: "TestExtensionInsideTable \<Rightarrow> int list" where
  "TestExtensionInsideTable_sizes s = [
     if TestExtensionInsideTableExtension s \<noteq> 0 then sizeWithTag SizeInt32 wireTestExtensionInsideTable_TestExtensionInsideTableExtension (TestExtensionInsideTableExtension s) else 0,
     if Field1 s \<noteq> 0 then sizeWithTag SizeInt32 wireTestExtensionInsideTable_Field1 (Field1 s) else 0,
     if Field2 s \<noteq> 0 then sizeWithTag SizeInt32 wireTestExtensionInsideTable_Field2 (Field2 s) else 0,
     if Field3 s \<noteq> 0 then sizeWithTag SizeInt32 wireTestExtensionInsideTable_Field3 (Field3 s) else 0,
     if Field4 s \<noteq> 0 then sizeWithTag SizeInt32 wireTestExtensionInsideTable_Field4 (Field4 s) else 0,
     if Field6 s \<noteq> 0 then sizeWithTag SizeInt32 wireTestExtensionInsideTable_Field6 (Field6 s) else 0,
     if Field7 s \<noteq> 0 then sizeWithTag SizeInt32 wireTestExtensionInsideTable_Field7 (Field7 s) else 0,
     if Field8 s \<noteq> 0 then sizeWithTag SizeInt32 wireTestExtensionInsideTable_Field8 (Field8 s) else 0,
     if Field9 s \<noteq> 0 then sizeWithTag SizeInt32 wireTestExtensionInsideTable_Field9 (Field9 s) else 0,
     if Field10 s \<noteq> 0 then sizeWithTag SizeInt32 wireTestExtensionInsideTable_Field10 (Field10 s) else 0]"

definition TestExtensionInsideTable_XXX_PbContentSize :: "TestExtensionInsideTable option \<Rightarrow> int" where
  "TestExtensionInsideTable_XXX_PbContentSize = contentSizeWith (\<lambda>s. TestExtensionInsideTable_sizes s)"

definition TestExtensionInsideTable_Marshal :: "TestExtensionInsideTable option \<Rightarrow> byte list go" where
  "TestExtensionInsideTable_Marshal = marshalWith TestExtensionInsideTable_XXX_PbContentSize TestExtensionInsideTable_MarshalTo"

definition TestExtensionInsideTable_Copy :: "TestExtensionInsideTable option \<Rightarrow> TestExtensionInsideTable option" where
  "TestExtensionInsideTable_Copy s =
     (case s of None \<Rightarrow> None | Some s \<Rightarrow> Some \<lparr>
        TestExtensionInsideTableExtension = TestExtensionInsideTableExtension s,
        Field1 = Field1 s, Field2 = Field2 s, Field3 = Field3 s, Field4 = Field4 s,
        Field6 = Field6 s, Field7 = Field7 s, Field8 = Field8 s, Field9 = Field9 s,
        Field10 = Field10 s\<rparr>)"

section \<open>TestExtensionInsideTable: the round trip\<close>

definition TestExtensionInsideTable_tags :: "ProtoWireNumber list" where
  "TestExtensionInsideTable_tags = [
     wireTestExtensionInsideTable_TestExtensionInsideTableExtension,
     wireTestExtensionInsideTable_Field1, wireTestExtensionInsideTable_Field2,
     wireTestExtensionInsideTable_Field3, wireTestExtensionInsideTable_Field4,
     wireTestExtensionInsideTable_Field6, wireTestExtensionInsideTable_Field7,
     wireTestExtensionInsideTable_Field8, wireTestExtensionInsideTable_Field9,
     wireTestExtensionInsideTable_Field10]"

definition TestExtensionInsideTable_groups :: "TestExtensionInsideTable \<Rightarrow> wfield list list" where
  "TestExtensionInsideTable_groups s = [
     opt_field (TestExtensionInsideTableExtension s \<noteq> 0) (wireTestExtensionInsideTable_TestExtensionInsideTableExtension, int32_val (TestExtensionInsideTableExtension s)),
     opt_field (Field1 s \<noteq> 0) (wireTestExtensionInsideTable_Field1, int32_val (Field1 s)),
     opt_field (Field2 s \<noteq> 0) (wireTestExtensionInsideTable_Field2, int32_val (Field2 s)),
     opt_field (Field3 s \<noteq> 0) (wireTestExtensionInsideTable_Field3, int32_val (Field3 s)),
     opt_field (Field4 s \<noteq> 0) (wireTestExtensionInsideTable_Field4, int32_val (Field4 s)),
     opt_field (Field6 s \<noteq> 0) (wireTestExtensionInsideTable_Field6, int32_val (Field6 s)),
     opt_field (Field7 s \<noteq> 0) (wireTestExtensionInsideTable_Field7, int32_val (Field7 s)),
     opt_field (Field8 s \<noteq> 0) (wireTestExtensionInsideTable_Field8, int32_val (Field8 s)),
     opt_field (Field9 s \<noteq> 0) (wireTestExtensionInsideTable_Field9, int32_val (Field9 s)),
     opt_field (Field10 s \<noteq> 0) (wireTestExtensionInsideTable_Field10, int32_val (Field10 s))]"

definition TestExtensionInsideTable_content :: "TestExtensionInsideTable \<Rightarrow> wfield list" where
  "TestExtensionInsideTable_content s = concat (TestExtensionInsideTable_groups s)"

text \<open>What a round trip keeps.\<close>

definition TestExtensionInsideTable_norm :: "TestExtensionInsideTable \<Rightarrow> TestExtensionInsideTable" where
  "TestExtensionInsideTable_norm s = s"

definition TestExtensionInsideTable_ready :: "Reader \<Rightarrow> TestExtensionInsideTable \<Rightarrow> (TestExtensionInsideTableReader \<Rightarrow> bool) list" where
  "TestExtensionInsideTable_ready p s = [
     \<lambda>m. cell_reads (readOne ReadInt32 0) plain p (if TestExtensionInsideTableExtension s \<noteq> 0 then TestExtensionInsideTableExtension s else 0) (cellTestExtensionInsideTableExtension m),
     \<lambda>m. cell_reads (readOne ReadInt32 0) plain p (if Field1 s \<noteq> 0 then Field1 s else 0) (cellField1 m),
     \<lambda>m. cell_reads (readOne ReadInt32 0) plain p (if Field2 s \<noteq> 0 then Field2 s else 0) (cellField2 m),
     \<lambda>m. cell_reads (readOne ReadInt32 0) plain p (if Field3 s \<noteq> 0 then Field3 s else 0) (cellField3 m),
     \<lambda>m. cell_reads (readOne ReadInt32 0) plain p (if Field4 s \<noteq> 0 then Field4 s else 0) (cellField4 m),
     \<lambda>m. cell_reads (readOne ReadInt32 0) plain p (if Field6 s \<noteq> 0 then Field6 s else 0) (cellField6 m),
     \<lambda>m. cell_reads (readOne ReadInt32 0) plain p (if Field7 s \<noteq> 0 then Field7 s else 0) (cellField7 m),
     \<lambda>m. cell_reads (readOne ReadInt32 0) plain p (if Field8 s \<noteq> 0 then Field8 s else 0) (cellField8 m),
     \<lambda>m. cell_reads (readOne ReadInt32 0) plain p (if Field9 s \<noteq> 0 then Field9 s else 0) (cellField9 m),
     \<lambda>m. cell_reads (readOne ReadInt32 0) plain p (if Field10 s \<noteq> 0 then Field10 s else 0) (cellField10 m)]"

definition TestExtensionInsideTable_stored :: "TestExtensionInsideTable \<Rightarrow> (TestExtensionInsideTable \<Rightarrow> TestExtensionInsideTable) list" where
  "TestExtensionInsideTable_stored s = [
     \<lambda>res. res\<lparr>TestExtensionInsideTableExtension := if TestExtensionInsideTableExtension s \<noteq> 0 then TestExtensionInsideTableExtension s else 0\<rparr>,
     \<lambda>res. res\<lparr>Field1 := if Field1 s \<noteq> 0 then Field1 s else 0\<rparr>,
     \<lambda>res. res\<lparr>Field2 := if Field2 s \<noteq> 0 then Field2 s else 0\<rparr>,
     \<lambda>res. res\<lparr>Field3 := if Field3 s \<noteq> 0 then Field3 s else 0\<rparr>,
     \<lambda>res. res\<lparr>Field4 := if Field4 s \<noteq> 0 then Field4 s else 0\<rparr>,
     \<lambda>res. res\<lparr>Field6 := if Field6 s \<noteq> 0 then Field6 s else 0\<rparr>,
     \<lambda>res. res\<lparr>Field7 := if Field7 s \<noteq> 0 then Field7 s else 0\<rparr>,
     \<lambda>res. res\<lparr>Field8 := if Field8 s \<noteq> 0 then Field8 s else 0\<rparr>,
     \<lambda>res. res\<lparr>Field9 := if Field9 s \<noteq> 0 then Field9 s else 0\<rparr>,
     \<lambda>res. res\<lparr>Field10 := if Field10 s \<noteq> 0 then Field10 s else 0\<rparr>]"

lemma TestExtensionInsideTable_cases_distinct: "distinct (map fst (TestExtensionInsideTableReader_cases wire offset))"
  by (simp add: TestExtensionInsideTableReader_cases_def wireTestExtensionInsideTable)

lemma TestExtensionInsideTable_stores:
  "stores_cell TestExtensionInsideTableReader_save wireTestExtensionInsideTable_TestExtensionInsideTableExtension setOffset cellTestExtensionInsideTableExtension"
  "stores_cell TestExtensionInsideTableReader_save wireTestExtensionInsideTable_Field1 setOffset cellField1"
  "stores_cell TestExtensionInsideTableReader_save wireTestExtensionInsideTable_Field2 setOffset cellField2"
  "stores_cell TestExtensionInsideTableReader_save wireTestExtensionInsideTable_Field3 setOffset cellField3"
  "stores_cell TestExtensionInsideTableReader_save wireTestExtensionInsideTable_Field4 setOffset cellField4"
  "stores_cell TestExtensionInsideTableReader_save wireTestExtensionInsideTable_Field6 setOffset cellField6"
  "stores_cell TestExtensionInsideTableReader_save wireTestExtensionInsideTable_Field7 setOffset cellField7"
  "stores_cell TestExtensionInsideTableReader_save wireTestExtensionInsideTable_Field8 setOffset cellField8"
  "stores_cell TestExtensionInsideTableReader_save wireTestExtensionInsideTable_Field9 setOffset cellField9"
  "stores_cell TestExtensionInsideTableReader_save wireTestExtensionInsideTable_Field10 setOffset cellField10"
  unfolding TestExtensionInsideTableReader_save_def [abs_def] by (rule stores_cell_switch; (rule TestExtensionInsideTable_cases_distinct)?; unfold TestExtensionInsideTableReader_cases_def; intro own_case.intros; simp)+

lemma TestExtensionInsideTable_saved: "good_fields TestExtensionInsideTableReader_save p (NewTestExtensionInsideTableReader\<lparr>mbuf := Some p\<rparr>) TestExtensionInsideTable_tags (TestExtensionInsideTable_groups s) (TestExtensionInsideTable_ready p s)"
  unfolding TestExtensionInsideTable_tags_def TestExtensionInsideTable_groups_def TestExtensionInsideTable_ready_def
  by (intro good_fields.intros field_saved TestExtensionInsideTable_stores) (simp_all add: NewTestExtensionInsideTableReader_def newCell_def)

lemma TestExtensionInsideTable_converted: "good_stmts mbuf p (TestExtensionInsideTable_stmts) (TestExtensionInsideTable_ready p s) (TestExtensionInsideTable_stored s)"
  unfolding TestExtensionInsideTable_stmts_def TestExtensionInsideTable_ready_def TestExtensionInsideTable_stored_def TestExtensionInsideTable_getters append.simps
  by (intro good_stmts_field good_stmts.Nil) (simp_all cong: cell_reads_cong)

interpretation l_TestExtensionInsideTable: lazy_message TestExtensionInsideTable_tags TestExtensionInsideTable_groups TestExtensionInsideTable_norm
  "\<lambda>s. TestExtensionInsideTable_sizes s" "\<lambda>s. TestExtensionInsideTable_appends s"
  TestExtensionInsideTableReader_save "\<lambda>p. NewTestExtensionInsideTableReader\<lparr>mbuf := Some p\<rparr>" mbuf "TestExtensionInsideTable_stmts" TestExtensionInsideTable_zero TestExtensionInsideTable_ready TestExtensionInsideTable_stored
proof
  show "distinct TestExtensionInsideTable_tags"
    using TestExtensionInsideTable_cases_distinct by (simp only: TestExtensionInsideTableReader_cases_def TestExtensionInsideTable_tags_def list.map fst_conv)
  show "list_all valid_tag TestExtensionInsideTable_tags"
    by (simp add: TestExtensionInsideTable_tags_def wireTestExtensionInsideTable valid_tag_def)
  show "list_all2 (\<lambda>t g. \<forall>f \<in> set g. fst f = t \<and> wf_val (snd f)) TestExtensionInsideTable_tags (TestExtensionInsideTable_groups s)" for s
    unfolding TestExtensionInsideTable_tags_def TestExtensionInsideTable_groups_def by (intro list.rel_intros field_tagged)
  show "list_all2 (\<lambda>e g. e = int (length (fields_bytes g))) (TestExtensionInsideTable_sizes s) (TestExtensionInsideTable_groups s)" for s
    unfolding TestExtensionInsideTable_sizes_def TestExtensionInsideTable_groups_def append.simps
    by (intro list.rel_intros field_sized)
  show "list_all2 (\<lambda>st g. writes st (fields_bytes g)) (TestExtensionInsideTable_appends s) (TestExtensionInsideTable_groups s)" for s
    unfolding TestExtensionInsideTable_appends_def TestExtensionInsideTable_groups_def append.simps
    by (intro list.rel_intros field_written)
  show "mbuf (TestExtensionInsideTableReader_save t w off m) = mbuf m" for t w off m
    unfolding TestExtensionInsideTableReader_save_def by (rule tag_switch_keeps) (simp add: TestExtensionInsideTableReader_cases_def)
  show "fold (\<lambda>e. e) (TestExtensionInsideTable_stored s) TestExtensionInsideTable_zero = TestExtensionInsideTable_norm s" for s
    unfolding TestExtensionInsideTable_stored_def by (simp add: TestExtensionInsideTable_zero_def TestExtensionInsideTable_norm_def float_defaults)
qed (simp_all add: TestExtensionInsideTable_saved TestExtensionInsideTable_converted)

interpretation m_TestExtensionInsideTable: message_codec TestExtensionInsideTable_content TestExtensionInsideTable_norm TestExtensionInsideTable_XXX_PbContentSize TestExtensionInsideTable_MarshalTo
  "TestExtensionInsideTableReader_Unmarshal NewTestExtensionInsideTableReader" TestExtensionInsideTableReader_ToStruct
  using l_TestExtensionInsideTable.message
  by (simp only: TestExtensionInsideTable_content_def [abs_def] TestExtensionInsideTable_XXX_PbContentSize_def TestExtensionInsideTable_MarshalTo_def TestExtensionInsideTableReader_Unmarshal_def [abs_def] TestExtensionInsideTableReader_ToStruct_def)


section \<open>TestExtensionRangeSerialize: the reader\<close>

definition wireTestExtensionRangeSerialize_FooOne :: ProtoWireNumber where "wireTestExtensionRangeSerialize_FooOne = 1"
definition wireTestExtensionRangeSerialize_FooTwo :: ProtoWireNumber where "wireTestExtensionRangeSerialize_FooTwo = 6"
definition wireTestExtensionRangeSerialize_FooThree :: ProtoWireNumber where "wireTestExtensionRangeSerialize_FooThree = 7"
definition wireTestExtensionRangeSerialize_FooFour :: ProtoWireNumber where "wireTestExtensionRangeSerialize_FooFour = 13"

lemmas wireTestExtensionRangeSerialize =
  wireTestExtensionRangeSerialize_FooOne_def wireTestExtensionRangeSerialize_FooTwo_def
  wireTestExtensionRangeSerialize_FooThree_def wireTestExtensionRangeSerialize_FooFour_def

record TestExtensionRangeSerializeReader =
  mbuf :: "Reader option"
  cellFooOne :: "int32 one_cell"
  cellFooTwo :: "int32 one_cell"
  cellFooThree :: "int32 one_cell"
  cellFooFour :: "int32 one_cell"

definition NewTestExtensionRangeSerializeReader :: TestExtensionRangeSerializeReader where
  "NewTestExtensionRangeSerializeReader = \<lparr>
     mbuf = None, cellFooOne = newCell 0 0, cellFooTwo = newCell 0 0,
     cellFooThree = newCell 0 0, cellFooFour = newCell 0 0\<rparr>"

definition TestExtensionRangeSerializeReader_readFooOne :: "TestExtensionRangeSerializeReader \<Rightarrow> (int32 \<times> TestExtensionRangeSerializeReader) run" where
  "TestExtensionRangeSerializeReader_readFooOne = readCell cellFooOne cellFooOne_update mbuf (readOne ReadInt32 0)"

definition TestExtensionRangeSerializeReader_GetFooOne :: "TestExtensionRangeSerializeReader option \<Rightarrow> (int32 \<times> TestExtensionRangeSerializeReader option) run" where
  "TestExtensionRangeSerializeReader_GetFooOne = getter TestExtensionRangeSerializeReader_readFooOne 0"

definition TestExtensionRangeSerializeReader_readFooTwo :: "TestExtensionRangeSerializeReader \<Rightarrow> (int32 \<times> TestExtensionRangeSerializeReader) run" where
  "TestExtensionRangeSerializeReader_readFooTwo = readCell cellFooTwo cellFooTwo_update mbuf (readOne ReadInt32 0)"

definition TestExtensionRangeSerializeReader_GetFooTwo :: "TestExtensionRangeSerializeReader option \<Rightarrow> (int32 \<times> TestExtensionRangeSerializeReader option) run" where
  "TestExtensionRangeSerializeReader_GetFooTwo = getter TestExtensionRangeSerializeReader_readFooTwo 0"

definition TestExtensionRangeSerializeReader_readFooThree :: "TestExtensionRangeSerializeReader \<Rightarrow> (int32 \<times> TestExtensionRangeSerializeReader) run" where
  "TestExtensionRangeSerializeReader_readFooThree = readCell cellFooThree cellFooThree_update mbuf (readOne ReadInt32 0)"

definition TestExtensionRangeSerializeReader_GetFooThree :: "TestExtensionRangeSerializeReader option \<Rightarrow> (int32 \<times> TestExtensionRangeSerializeReader option) run" where
  "TestExtensionRangeSerializeReader_GetFooThree = getter TestExtensionRangeSerializeReader_readFooThree 0"

definition TestExtensionRangeSerializeReader_readFooFour :: "TestExtensionRangeSerializeReader \<Rightarrow> (int32 \<times> TestExtensionRangeSerializeReader) run" where
  "TestExtensionRangeSerializeReader_readFooFour = readCell cellFooFour cellFooFour_update mbuf (readOne ReadInt32 0)"

definition TestExtensionRangeSerializeReader_GetFooFour :: "TestExtensionRangeSerializeReader option \<Rightarrow> (int32 \<times> TestExtensionRangeSerializeReader option) run" where
  "TestExtensionRangeSerializeReader_GetFooFour = getter TestExtensionRangeSerializeReader_readFooFour 0"

lemmas TestExtensionRangeSerialize_getters =
  TestExtensionRangeSerializeReader_readFooOne_def TestExtensionRangeSerializeReader_GetFooOne_def
  TestExtensionRangeSerializeReader_readFooTwo_def TestExtensionRangeSerializeReader_GetFooTwo_def
  TestExtensionRangeSerializeReader_readFooThree_def TestExtensionRangeSerializeReader_GetFooThree_def
  TestExtensionRangeSerializeReader_readFooFour_def TestExtensionRangeSerializeReader_GetFooFour_def

definition TestExtensionRangeSerializeReader_cases :: "ProtoWireType \<Rightarrow> int \<Rightarrow> (ProtoWireNumber \<times> (TestExtensionRangeSerializeReader \<Rightarrow> TestExtensionRangeSerializeReader)) list" where
  "TestExtensionRangeSerializeReader_cases wire offset = [
     (wireTestExtensionRangeSerialize_FooOne, \<lambda>m. m\<lparr>cellFooOne := onOffset (setOffset wire offset) (cellFooOne m)\<rparr>),
     (wireTestExtensionRangeSerialize_FooTwo, \<lambda>m. m\<lparr>cellFooTwo := onOffset (setOffset wire offset) (cellFooTwo m)\<rparr>),
     (wireTestExtensionRangeSerialize_FooThree, \<lambda>m. m\<lparr>cellFooThree := onOffset (setOffset wire offset) (cellFooThree m)\<rparr>),
     (wireTestExtensionRangeSerialize_FooFour, \<lambda>m. m\<lparr>cellFooFour := onOffset (setOffset wire offset) (cellFooFour m)\<rparr>)]"

definition TestExtensionRangeSerializeReader_save :: "ProtoWireNumber \<Rightarrow> ProtoWireType \<Rightarrow> int \<Rightarrow> TestExtensionRangeSerializeReader \<Rightarrow> TestExtensionRangeSerializeReader" where
  "TestExtensionRangeSerializeReader_save tag wire offset = tag_switch (TestExtensionRangeSerializeReader_cases wire offset) tag"

definition TestExtensionRangeSerializeReader_Unmarshal :: "TestExtensionRangeSerializeReader \<Rightarrow> gslice \<Rightarrow> (TestExtensionRangeSerializeReader \<times> string option) run" where
  "TestExtensionRangeSerializeReader_Unmarshal m data =
     unmarshalLoop TestExtensionRangeSerializeReader_save (NewReader data) 0 (m\<lparr>mbuf := Some (NewReader data)\<rparr>)"

definition TestExtensionRangeSerializeReader_SourceBytes :: "TestExtensionRangeSerializeReader option \<Rightarrow> gslice" where
  "TestExtensionRangeSerializeReader_SourceBytes s = (case s of None \<Rightarrow> nil_slice | Some r \<Rightarrow> Bytes (mbuf r))"

section \<open>TestExtensionRangeSerialize: the struct\<close>

record TestExtensionRangeSerialize =
  FooOne :: int32
  FooTwo :: int32
  FooThree :: int32
  FooFour :: int32

definition TestExtensionRangeSerialize_zero :: TestExtensionRangeSerialize where
  "TestExtensionRangeSerialize_zero = \<lparr>
     FooOne = 0, FooTwo = 0, FooThree = 0, FooFour = 0\<rparr>"

definition TestExtensionRangeSerialize_stmts :: "(TestExtensionRangeSerialize \<times> TestExtensionRangeSerializeReader option \<Rightarrow> (TestExtensionRangeSerialize \<times> TestExtensionRangeSerializeReader option) run) list" where
  "TestExtensionRangeSerialize_stmts = [
     assign TestExtensionRangeSerializeReader_GetFooOne (\<lambda>v res. res\<lparr>FooOne := v\<rparr>),
     assign TestExtensionRangeSerializeReader_GetFooTwo (\<lambda>v res. res\<lparr>FooTwo := v\<rparr>),
     assign TestExtensionRangeSerializeReader_GetFooThree (\<lambda>v res. res\<lparr>FooThree := v\<rparr>),
     assign TestExtensionRangeSerializeReader_GetFooFour (\<lambda>v res. res\<lparr>FooFour := v\<rparr>)]"

definition TestExtensionRangeSerializeReader_ToStruct :: "TestExtensionRangeSerializeReader option \<Rightarrow> (TestExtensionRangeSerialize option \<times> TestExtensionRangeSerializeReader option) run" where
  "TestExtensionRangeSerializeReader_ToStruct = toStructWith (TestExtensionRangeSerialize_stmts) TestExtensionRangeSerialize_zero"

definition TestExtensionRangeSerialize_appends :: "TestExtensionRangeSerialize \<Rightarrow> (Writer \<Rightarrow> Writer go) list" where
  "TestExtensionRangeSerialize_appends s = [
     \<lambda>res. if FooOne s \<noteq> 0 then AppendInt32 res wireTestExtensionRangeSerialize_FooOne (FooOne s) else Ret res,
     \<lambda>res. if FooTwo s \<noteq> 0 then AppendInt32 res wireTestExtensionRangeSerialize_FooTwo (FooTwo s) else Ret res,
     \<lambda>res. if FooThree s \<noteq> 0 then AppendInt32 res wireTestExtensionRangeSerialize_FooThree (FooThree s) else Ret res,
     \<lambda>res. if FooFour s \<noteq> 0 then AppendInt32 res wireTestExtensionRangeSerialize_FooFour (FooFour s) else Ret res]"

definition TestExtensionRangeSerialize_MarshalTo :: "Writer \<Rightarrow> TestExtensionRangeSerialize option \<Rightarrow> Writer go" where
  "TestExtensionRangeSerialize_MarshalTo = marshalToWith (\<lambda>s. TestExtensionRangeSerialize_appends s)"

definition TestExtensionRangeSerialize_sizes :: "TestExtensionRangeSerialize \<Rightarrow> int list" where
  "TestExtensionRangeSerialize_sizes s = [
     if FooOne s \<noteq> 0 then sizeWithTag SizeInt32 wireTestExtensionRangeSerialize_FooOne (FooOne s) else 0,
     if FooTwo s \<noteq> 0 then sizeWithTag SizeInt32 wireTestExtensionRangeSerialize_FooTwo (FooTwo s) else 0,
     if FooThree s \<noteq> 0 then sizeWithTag SizeInt32 wireTestExtensionRangeSerialize_FooThree (FooThree s) else 0,
     if FooFour s \<noteq> 0 then sizeWithTag SizeInt32 wireTestExtensionRangeSerialize_FooFour (FooFour s) else 0]"

definition TestExtensionRangeSerialize_XXX_PbContentSize :: "TestExtensionRangeSerialize option \<Rightarrow> int" where
  "TestExtensionRangeSerialize_XXX_PbContentSize = contentSizeWith (\<lambda>s. TestExtensionRangeSerialize_sizes s)"

definition TestExtensionRangeSerialize_Marshal :: "TestExtensionRangeSerialize option \<Rightarrow> byte list go" where
  "TestExtensionRangeSerialize_Marshal = marshalWith TestExtensionRangeSerialize_XXX_PbContentSize TestExtensionRangeSerialize_MarshalTo"

definition TestExtensionRangeSerialize_Copy :: "TestExtensionRangeSerialize option \<Rightarrow> TestExtensionRangeSerialize option" where
  "TestExtensionRangeSerialize_Copy s =
     (case s of None \<Rightarrow> None | Some s \<Rightarrow> Some \<lparr>
        FooOne = FooOne s, FooTwo = FooTwo s, FooThree = FooThree s, FooFour = FooFour s\<rparr>)"

section \<open>TestExtensionRangeSerialize: the round trip\<close>

definition TestExtensionRangeSerialize_tags :: "ProtoWireNumber list" where
  "TestExtensionRangeSerialize_tags = [
     wireTestExtensionRangeSerialize_FooOne, wireTestExtensionRangeSerialize_FooTwo,
     wireTestExtensionRangeSerialize_FooThree, wireTestExtensionRangeSerialize_FooFour]"

definition TestExtensionRangeSerialize_groups :: "TestExtensionRangeSerialize \<Rightarrow> wfield list list" where
  "TestExtensionRangeSerialize_groups s = [
     opt_field (FooOne s \<noteq> 0) (wireTestExtensionRangeSerialize_FooOne, int32_val (FooOne s)),
     opt_field (FooTwo s \<noteq> 0) (wireTestExtensionRangeSerialize_FooTwo, int32_val (FooTwo s)),
     opt_field (FooThree s \<noteq> 0) (wireTestExtensionRangeSerialize_FooThree, int32_val (FooThree s)),
     opt_field (FooFour s \<noteq> 0) (wireTestExtensionRangeSerialize_FooFour, int32_val (FooFour s))]"

definition TestExtensionRangeSerialize_content :: "TestExtensionRangeSerialize \<Rightarrow> wfield list" where
  "TestExtensionRangeSerialize_content s = concat (TestExtensionRangeSerialize_groups s)"

text \<open>What a round trip keeps.\<close>

definition TestExtensionRangeSerialize_norm :: "TestExtensionRangeSerialize \<Rightarrow> TestExtensionRangeSerialize" where
  "TestExtensionRangeSerialize_norm s = s"

definition TestExtensionRangeSerialize_ready :: "Reader \<Rightarrow> TestExtensionRangeSerialize \<Rightarrow> (TestExtensionRangeSerializeReader \<Rightarrow> bool) list" where
  "TestExtensionRangeSerialize_ready p s = [
     \<lambda>m. cell_reads (readOne ReadInt32 0) plain p (if FooOne s \<noteq> 0 then FooOne s else 0) (cellFooOne m),
     \<lambda>m. cell_reads (readOne ReadInt32 0) plain p (if FooTwo s \<noteq> 0 then FooTwo s else 0) (cellFooTwo m),
     \<lambda>m. cell_reads (readOne ReadInt32 0) plain p (if FooThree s \<noteq> 0 then FooThree s else 0) (cellFooThree m),
     \<lambda>m. cell_reads (readOne ReadInt32 0) plain p (if FooFour s \<noteq> 0 then FooFour s else 0) (cellFooFour m)]"

definition TestExtensionRangeSerialize_stored :: "TestExtensionRangeSerialize \<Rightarrow> (TestExtensionRangeSerialize \<Rightarrow> TestExtensionRangeSerialize) list" where
  "TestExtensionRangeSerialize_stored s = [
     \<lambda>res. res\<lparr>FooOne := if FooOne s \<noteq> 0 then FooOne s else 0\<rparr>,
     \<lambda>res. res\<lparr>FooTwo := if FooTwo s \<noteq> 0 then FooTwo s else 0\<rparr>,
     \<lambda>res. res\<lparr>FooThree := if FooThree s \<noteq> 0 then FooThree s else 0\<rparr>,
     \<lambda>res. res\<lparr>FooFour := if FooFour s \<noteq> 0 then FooFour s else 0\<rparr>]"

lemma TestExtensionRangeSerialize_cases_distinct: "distinct (map fst (TestExtensionRangeSerializeReader_cases wire offset))"
  by (rule ascending_distinct) (simp add: TestExtensionRangeSerializeReader_cases_def wireTestExtensionRangeSerialize)

lemma TestExtensionRangeSerialize_stores:
  "stores_cell TestExtensionRangeSerializeReader_save wireTestExtensionRangeSerialize_FooOne setOffset cellFooOne"
  "stores_cell TestExtensionRangeSerializeReader_save wireTestExtensionRangeSerialize_FooTwo setOffset cellFooTwo"
  "stores_cell TestExtensionRangeSerializeReader_save wireTestExtensionRangeSerialize_FooThree setOffset cellFooThree"
  "stores_cell TestExtensionRangeSerializeReader_save wireTestExtensionRangeSerialize_FooFour setOffset cellFooFour"
  unfolding TestExtensionRangeSerializeReader_save_def [abs_def] by (rule stores_cell_switch; (rule TestExtensionRangeSerialize_cases_distinct)?; unfold TestExtensionRangeSerializeReader_cases_def; intro own_case.intros; simp)+

lemma TestExtensionRangeSerialize_saved: "good_fields TestExtensionRangeSerializeReader_save p (NewTestExtensionRangeSerializeReader\<lparr>mbuf := Some p\<rparr>) TestExtensionRangeSerialize_tags (TestExtensionRangeSerialize_groups s) (TestExtensionRangeSerialize_ready p s)"
  unfolding TestExtensionRangeSerialize_tags_def TestExtensionRangeSerialize_groups_def TestExtensionRangeSerialize_ready_def
  by (intro good_fields.intros field_saved TestExtensionRangeSerialize_stores) (simp_all add: NewTestExtensionRangeSerializeReader_def newCell_def)

lemma TestExtensionRangeSerialize_converted: "good_stmts mbuf p (TestExtensionRangeSerialize_stmts) (TestExtensionRangeSerialize_ready p s) (TestExtensionRangeSerialize_stored s)"
  unfolding TestExtensionRangeSerialize_stmts_def TestExtensionRangeSerialize_ready_def TestExtensionRangeSerialize_stored_def TestExtensionRangeSerialize_getters append.simps
  by (intro good_stmts_field good_stmts.Nil) (simp_all cong: cell_reads_cong)

interpretation l_TestExtensionRangeSerialize: lazy_message TestExtensionRangeSerialize_tags TestExtensionRangeSerialize_groups TestExtensionRangeSerialize_norm
  "\<lambda>s. TestExtensionRangeSerialize_sizes s" "\<lambda>s. TestExtensionRangeSerialize_appends s"
  TestExtensionRangeSerializeReader_save "\<lambda>p. NewTestExtensionRangeSerializeReader\<lparr>mbuf := Some p\<rparr>" mbuf "TestExtensionRangeSerialize_stmts" TestExtensionRangeSerialize_zero TestExtensionRangeSerialize_ready TestExtensionRangeSerialize_stored
proof
  show "distinct TestExtensionRangeSerialize_tags"
    using TestExtensionRangeSerialize_cases_distinct by (simp only: TestExtensionRangeSerializeReader_cases_def TestExtensionRangeSerialize_tags_def list.map fst_conv)
  show "list_all valid_tag TestExtensionRangeSerialize_tags"
    by (simp add: TestExtensionRangeSerialize_tags_def wireTestExtensionRangeSerialize valid_tag_def)
  show "list_all2 (\<lambda>t g. \<forall>f \<in> set g. fst f = t \<and> wf_val (snd f)) TestExtensionRangeSerialize_tags (TestExtensionRangeSerialize_groups s)" for s
    unfolding TestExtensionRangeSerialize_tags_def TestExtensionRangeSerialize_groups_def by (intro list.rel_intros field_tagged)
  show "list_all2 (\<lambda>e g. e = int (length (fields_bytes g))) (TestExtensionRangeSerialize_sizes s) (TestExtensionRangeSerialize_groups s)" for s
    unfolding TestExtensionRangeSerialize_sizes_def TestExtensionRangeSerialize_groups_def append.simps
    by (intro list.rel_intros field_sized)
  show "list_all2 (\<lambda>st g. writes st (fields_bytes g)) (TestExtensionRangeSerialize_appends s) (TestExtensionRangeSerialize_groups s)" for s
    unfolding TestExtensionRangeSerialize_appends_def TestExtensionRangeSerialize_groups_def append.simps
    by (intro list.rel_intros field_written)
  show "mbuf (TestExtensionRangeSerializeReader_save t w off m) = mbuf m" for t w off m
    unfolding TestExtensionRangeSerializeReader_save_def by (rule tag_switch_keeps) (simp add: TestExtensionRangeSerializeReader_cases_def)
  show "fold (\<lambda>e. e) (TestExtensionRangeSerialize_stored s) TestExtensionRangeSerialize_zero = TestExtensionRangeSerialize_norm s" for s
    unfolding TestExtensionRangeSerialize_stored_def by (simp add: TestExtensionRangeSerialize_zero_def TestExtensionRangeSerialize_norm_def float_defaults)
qed (simp_all add: TestExtensionRangeSerialize_saved TestExtensionRangeSerialize_converted)

interpretation m_TestExtensionRangeSerialize: message_codec TestExtensionRangeSerialize_content TestExtensionRangeSerialize_norm TestExtensionRangeSerialize_XXX_PbContentSize TestExtensionRangeSerialize_MarshalTo
  "TestExtensionRangeSerializeReader_Unmarshal NewTestExtensionRangeSerializeReader" TestExtensionRangeSerializeReader_ToStruct
  using l_TestExtensionRangeSerialize.message
  by (simp only: TestExtensionRangeSerialize_content_def [abs_def] TestExtensionRangeSerialize_XXX_PbContentSize_def TestExtensionRangeSerialize_MarshalTo_def TestExtensionRangeSerializeReader_Unmarshal_def [abs_def] TestExtensionRangeSerializeReader_ToStruct_def)


section \<open>TestExtensionRangeSerialize_TestExtensionRangeSerialize: the reader\<close>

definition wireTestExtensionRangeSerialize_TestExtensionRangeSerialize_BarOne :: ProtoWireNumber where "wireTestExtensionRangeSerialize_TestExtensionRangeSerialize_BarOne = 2"
definition wireTestExtensionRangeSerialize_TestExtensionRangeSerialize_BarTwo :: ProtoWireNumber where "wireTestExtensionRangeSerialize_TestExtensionRangeSerialize_BarTwo = 4"
definition wireTestExtensionRangeSerialize_TestExtensionRangeSerialize_BarThree :: ProtoWireNumber where "wireTestExtensionRangeSerialize_TestExtensionRangeSerialize_BarThree = 10"
definition wireTestExtensionRangeSerialize_TestExtensionRangeSerialize_BarFour :: ProtoWireNumber where "wireTestExtensionRangeSerialize_TestExtensionRangeSerialize_BarFour = 15"
definition wireTestExtensionRangeSerialize_TestExtensionRangeSerialize_BarFive :: ProtoWireNumber where "wireTestExtensionRangeSerialize_TestExtensionRangeSerialize_BarFive = 19"
definition wireTestExtensionRangeSerialize_TestExtensionRangeSerialize_FooOne :: ProtoWireNumber where "wireTestExtensionRangeSerialize_TestExtensionRangeSerialize_FooOne = 1"
definition wireTestExtensionRangeSerialize_TestExtensionRangeSerialize_FooTwo :: ProtoWireNumber where "wireTestExtensionRangeSerialize_TestExtensionRangeSerialize_FooTwo = 6"
definition wireTestExtensionRangeSerialize_TestExtensionRangeSerialize_FooThree :: ProtoWireNumber where "wireTestExtensionRangeSerialize_TestExtensionRangeSerialize_FooThree = 7"
definition wireTestExtensionRangeSerialize_TestExtensionRangeSerialize_FooFour :: ProtoWireNumber where "wireTestExtensionRangeSerialize_TestExtensionRangeSerialize_FooFour = 13"

lemmas wireTestExtensionRangeSerialize_TestExtensionRangeSerialize =
  wireTestExtensionRangeSerialize_TestExtensionRangeSerialize_BarOne_def
  wireTestExtensionRangeSerialize_TestExtensionRangeSerialize_BarTwo_def
  wireTestExtensionRangeSerialize_TestExtensionRangeSerialize_BarThree_def
  wireTestExtensionRangeSerialize_TestExtensionRangeSerialize_BarFour_def
  wireTestExtensionRangeSerialize_TestExtensionRangeSerialize_BarFive_def
  wireTestExtensionRangeSerialize_TestExtensionRangeSerialize_FooOne_def
  wireTestExtensionRangeSerialize_TestExtensionRangeSerialize_FooTwo_def
  wireTestExtensionRangeSerialize_TestExtensionRangeSerialize_FooThree_def
  wireTestExtensionRangeSerialize_TestExtensionRangeSerialize_FooFour_def

record TestExtensionRangeSerialize_TestExtensionRangeSerializeReader =
  mbuf :: "Reader option"
  cellBarOne :: "int32 one_cell"
  cellBarTwo :: "int32 one_cell"
  cellBarThree :: "int32 one_cell"
  cellBarFour :: "int32 one_cell"
  cellBarFive :: "int32 one_cell"
  cellFooOne :: "int32 one_cell"
  cellFooTwo :: "int32 one_cell"
  cellFooThree :: "int32 one_cell"
  cellFooFour :: "int32 one_cell"

definition NewTestExtensionRangeSerialize_TestExtensionRangeSerializeReader :: TestExtensionRangeSerialize_TestExtensionRangeSerializeReader where
  "NewTestExtensionRangeSerialize_TestExtensionRangeSerializeReader = \<lparr>
     mbuf = None, cellBarOne = newCell 0 0, cellBarTwo = newCell 0 0,
     cellBarThree = newCell 0 0, cellBarFour = newCell 0 0, cellBarFive = newCell 0 0,
     cellFooOne = newCell 0 0, cellFooTwo = newCell 0 0, cellFooThree = newCell 0 0,
     cellFooFour = newCell 0 0\<rparr>"

definition TestExtensionRangeSerialize_TestExtensionRangeSerializeReader_readBarOne :: "TestExtensionRangeSerialize_TestExtensionRangeSerializeReader \<Rightarrow> (int32 \<times> TestExtensionRangeSerialize_TestExtensionRangeSerializeReader) run" where
  "TestExtensionRangeSerialize_TestExtensionRangeSerializeReader_readBarOne = readCell cellBarOne cellBarOne_update mbuf (readOne ReadInt32 0)"

definition TestExtensionRangeSerialize_TestExtensionRangeSerializeReader_GetBarOne :: "TestExtensionRangeSerialize_TestExtensionRangeSerializeReader option \<Rightarrow> (int32 \<times> TestExtensionRangeSerialize_TestExtensionRangeSerializeReader option) run" where
  "TestExtensionRangeSerialize_TestExtensionRangeSerializeReader_GetBarOne = getter TestExtensionRangeSerialize_TestExtensionRangeSerializeReader_readBarOne 0"

definition TestExtensionRangeSerialize_TestExtensionRangeSerializeReader_readBarTwo :: "TestExtensionRangeSerialize_TestExtensionRangeSerializeReader \<Rightarrow> (int32 \<times> TestExtensionRangeSerialize_TestExtensionRangeSerializeReader) run" where
  "TestExtensionRangeSerialize_TestExtensionRangeSerializeReader_readBarTwo = readCell cellBarTwo cellBarTwo_update mbuf (readOne ReadInt32 0)"

definition TestExtensionRangeSerialize_TestExtensionRangeSerializeReader_GetBarTwo :: "TestExtensionRangeSerialize_TestExtensionRangeSerializeReader option \<Rightarrow> (int32 \<times> TestExtensionRangeSerialize_TestExtensionRangeSerializeReader option) run" where
  "TestExtensionRangeSerialize_TestExtensionRangeSerializeReader_GetBarTwo = getter TestExtensionRangeSerialize_TestExtensionRangeSerializeReader_readBarTwo 0"

definition TestExtensionRangeSerialize_TestExtensionRangeSerializeReader_readBarThree :: "TestExtensionRangeSerialize_TestExtensionRangeSerializeReader \<Rightarrow> (int32 \<times> TestExtensionRangeSerialize_TestExtensionRangeSerializeReader) run" where
  "TestExtensionRangeSerialize_TestExtensionRangeSerializeReader_readBarThree = readCell cellBarThree cellBarThree_update mbuf (readOne ReadInt32 0)"

definition TestExtensionRangeSerialize_TestExtensionRangeSerializeReader_GetBarThree :: "TestExtensionRangeSerialize_TestExtensionRangeSerializeReader option \<Rightarrow> (int32 \<times> TestExtensionRangeSerialize_TestExtensionRangeSerializeReader option) run" where
  "TestExtensionRangeSerialize_TestExtensionRangeSerializeReader_GetBarThree = getter TestExtensionRangeSerialize_TestExtensionRangeSerializeReader_readBarThree 0"

definition TestExtensionRangeSerialize_TestExtensionRangeSerializeReader_readBarFour :: "TestExtensionRangeSerialize_TestExtensionRangeSerializeReader \<Rightarrow> (int32 \<times> TestExtensionRangeSerialize_TestExtensionRangeSerializeReader) run" where
  "TestExtensionRangeSerialize_TestExtensionRangeSerializeReader_readBarFour = readCell cellBarFour cellBarFour_update mbuf (readOne ReadInt32 0)"

definition TestExtensionRangeSerialize_TestExtensionRangeSerializeReader_GetBarFour :: "TestExtensionRangeSerialize_TestExtensionRangeSerializeReader option \<Rightarrow> (int32 \<times> TestExtensionRangeSerialize_TestExtensionRangeSerializeReader option) run" where
  "TestExtensionRangeSerialize_TestExtensionRangeSerializeReader_GetBarFour = getter TestExtensionRangeSerialize_TestExtensionRangeSerializeReader_readBarFour 0"

definition TestExtensionRangeSerialize_TestExtensionRangeSerializeReader_readBarFive :: "TestExtensionRangeSerialize_TestExtensionRangeSerializeReader \<Rightarrow> (int32 \<times> TestExtensionRangeSerialize_TestExtensionRangeSerializeReader) run" where
  "TestExtensionRangeSerialize_TestExtensionRangeSerializeReader_readBarFive = readCell cellBarFive cellBarFive_update mbuf (readOne ReadInt32 0)"

definition TestExtensionRangeSerialize_TestExtensionRangeSerializeReader_GetBarFive :: "TestExtensionRangeSerialize_TestExtensionRangeSerializeReader option \<Rightarrow> (int32 \<times> TestExtensionRangeSerialize_TestExtensionRangeSerializeReader option) run" where
  "TestExtensionRangeSerialize_TestExtensionRangeSerializeReader_GetBarFive = getter TestExtensionRangeSerialize_TestExtensionRangeSerializeReader_readBarFive 0"

definition TestExtensionRangeSerialize_TestExtensionRangeSerializeReader_readFooOne :: "TestExtensionRangeSerialize_TestExtensionRangeSerializeReader \<Rightarrow> (int32 \<times> TestExtensionRangeSerialize_TestExtensionRangeSerializeReader) run" where
  "TestExtensionRangeSerialize_TestExtensionRangeSerializeReader_readFooOne = readCell cellFooOne cellFooOne_update mbuf (readOne ReadInt32 0)"

definition TestExtensionRangeSerialize_TestExtensionRangeSerializeReader_GetFooOne :: "TestExtensionRangeSerialize_TestExtensionRangeSerializeReader option \<Rightarrow> (int32 \<times> TestExtensionRangeSerialize_TestExtensionRangeSerializeReader option) run" where
  "TestExtensionRangeSerialize_TestExtensionRangeSerializeReader_GetFooOne = getter TestExtensionRangeSerialize_TestExtensionRangeSerializeReader_readFooOne 0"

definition TestExtensionRangeSerialize_TestExtensionRangeSerializeReader_readFooTwo :: "TestExtensionRangeSerialize_TestExtensionRangeSerializeReader \<Rightarrow> (int32 \<times> TestExtensionRangeSerialize_TestExtensionRangeSerializeReader) run" where
  "TestExtensionRangeSerialize_TestExtensionRangeSerializeReader_readFooTwo = readCell cellFooTwo cellFooTwo_update mbuf (readOne ReadInt32 0)"

definition TestExtensionRangeSerialize_TestExtensionRangeSerializeReader_GetFooTwo :: "TestExtensionRangeSerialize_TestExtensionRangeSerializeReader option \<Rightarrow> (int32 \<times> TestExtensionRangeSerialize_TestExtensionRangeSerializeReader option) run" where
  "TestExtensionRangeSerialize_TestExtensionRangeSerializeReader_GetFooTwo = getter TestExtensionRangeSerialize_TestExtensionRangeSerializeReader_readFooTwo 0"

definition TestExtensionRangeSerialize_TestExtensionRangeSerializeReader_readFooThree :: "TestExtensionRangeSerialize_TestExtensionRangeSerializeReader \<Rightarrow> (int32 \<times> TestExtensionRangeSerialize_TestExtensionRangeSerializeReader) run" where
  "TestExtensionRangeSerialize_TestExtensionRangeSerializeReader_readFooThree = readCell cellFooThree cellFooThree_update mbuf (readOne ReadInt32 0)"

definition TestExtensionRangeSerialize_TestExtensionRangeSerializeReader_GetFooThree :: "TestExtensionRangeSerialize_TestExtensionRangeSerializeReader option \<Rightarrow> (int32 \<times> TestExtensionRangeSerialize_TestExtensionRangeSerializeReader option) run" where
  "TestExtensionRangeSerialize_TestExtensionRangeSerializeReader_GetFooThree = getter TestExtensionRangeSerialize_TestExtensionRangeSerializeReader_readFooThree 0"

definition TestExtensionRangeSerialize_TestExtensionRangeSerializeReader_readFooFour :: "TestExtensionRangeSerialize_TestExtensionRangeSerializeReader \<Rightarrow> (int32 \<times> TestExtensionRangeSerialize_TestExtensionRangeSerializeReader) run" where
  "TestExtensionRangeSerialize_TestExtensionRangeSerializeReader_readFooFour = readCell cellFooFour cellFooFour_update mbuf (readOne ReadInt32 0)"

definition TestExtensionRangeSerialize_TestExtensionRangeSerializeReader_GetFooFour :: "TestExtensionRangeSerialize_TestExtensionRangeSerializeReader option \<Rightarrow> (int32 \<times> TestExtensionRangeSerialize_TestExtensionRangeSerializeReader option) run" where
  "TestExtensionRangeSerialize_TestExtensionRangeSerializeReader_GetFooFour = getter TestExtensionRangeSerialize_TestExtensionRangeSerializeReader_readFooFour 0"

lemmas TestExtensionRangeSerialize_TestExtensionRangeSerialize_getters =
  TestExtensionRangeSerialize_TestExtensionRangeSerializeReader_readBarOne_def TestExtensionRangeSerialize_TestExtensionRangeSerializeReader_GetBarOne_def
  TestExtensionRangeSerialize_TestExtensionRangeSerializeReader_readBarTwo_def TestExtensionRangeSerialize_TestExtensionRangeSerializeReader_GetBarTwo_def
  TestExtensionRangeSerialize_TestExtensionRangeSerializeReader_readBarThree_def TestExtensionRangeSerialize_TestExtensionRangeSerializeReader_GetBarThree_def
  TestExtensionRangeSerialize_TestExtensionRangeSerializeReader_readBarFour_def TestExtensionRangeSerialize_TestExtensionRangeSerializeReader_GetBarFour_def
  TestExtensionRangeSerialize_TestExtensionRangeSerializeReader_readBarFive_def TestExtensionRangeSerialize_TestExtensionRangeSerializeReader_GetBarFive_def
  TestExtensionRangeSerialize_TestExtensionRangeSerializeReader_readFooOne_def TestExtensionRangeSerialize_TestExtensionRangeSerializeReader_GetFooOne_def
  TestExtensionRangeSerialize_TestExtensionRangeSerializeReader_readFooTwo_def TestExtensionRangeSerialize_TestExtensionRangeSerializeReader_GetFooTwo_def
  TestExtensionRangeSerialize_TestExtensionRangeSerializeReader_readFooThree_def TestExtensionRangeSerialize_TestExtensionRangeSerializeReader_GetFooThree_def
  TestExtensionRangeSerialize_TestExtensionRangeSerializeReader_readFooFour_def TestExtensionRangeSerialize_TestExtensionRangeSerializeReader_GetFooFour_def

definition TestExtensionRangeSerialize_TestExtensionRangeSerializeReader_cases :: "ProtoWireType \<Rightarrow> int \<Rightarrow> (ProtoWireNumber \<times> (TestExtensionRangeSerialize_TestExtensionRangeSerializeReader \<Rightarrow> TestExtensionRangeSerialize_TestExtensionRangeSerializeReader)) list" where
  "TestExtensionRangeSerialize_TestExtensionRangeSerializeReader_cases wire offset = [
     (wireTestExtensionRangeSerialize_TestExtensionRangeSerialize_BarOne, \<lambda>m. m\<lparr>cellBarOne := onOffset (setOffset wire offset) (cellBarOne m)\<rparr>),
     (wireTestExtensionRangeSerialize_TestExtensionRangeSerialize_BarTwo, \<lambda>m. m\<lparr>cellBarTwo := onOffset (setOffset wire offset) (cellBarTwo m)\<rparr>),
     (wireTestExtensionRangeSerialize_TestExtensionRangeSerialize_BarThree, \<lambda>m. m\<lparr>cellBarThree := onOffset (setOffset wire offset) (cellBarThree m)\<rparr>),
     (wireTestExtensionRangeSerialize_TestExtensionRangeSerialize_BarFour, \<lambda>m. m\<lparr>cellBarFour := onOffset (setOffset wire offset) (cellBarFour m)\<rparr>),
     (wireTestExtensionRangeSerialize_TestExtensionRangeSerialize_BarFive, \<lambda>m. m\<lparr>cellBarFive := onOffset (setOffset wire offset) (cellBarFive m)\<rparr>),
     (wireTestExtensionRangeSerialize_TestExtensionRangeSerialize_FooOne, \<lambda>m. m\<lparr>cellFooOne := onOffset (setOffset wire offset) (cellFooOne m)\<rparr>),
     (wireTestExtensionRangeSerialize_TestExtensionRangeSerialize_FooTwo, \<lambda>m. m\<lparr>cellFooTwo := onOffset (setOffset wire offset) (cellFooTwo m)\<rparr>),
     (wireTestExtensionRangeSerialize_TestExtensionRangeSerialize_FooThree, \<lambda>m. m\<lparr>cellFooThree := onOffset (setOffset wire offset) (cellFooThree m)\<rparr>),
     (wireTestExtensionRangeSerialize_TestExtensionRangeSerialize_FooFour, \<lambda>m. m\<lparr>cellFooFour := onOffset (setOffset wire offset) (cellFooFour m)\<rparr>)]"

definition TestExtensionRangeSerialize_TestExtensionRangeSerializeReader_save :: "ProtoWireNumber \<Rightarrow> ProtoWireType \<Rightarrow> int \<Rightarrow> TestExtensionRangeSerialize_TestExtensionRangeSerializeReader \<Rightarrow> TestExtensionRangeSerialize_TestExtensionRangeSerializeReader" where
  "TestExtensionRangeSerialize_TestExtensionRangeSerializeReader_save tag wire offset = tag_switch (TestExtensionRangeSerialize_TestExtensionRangeSerializeReader_cases wire offset) tag"

definition TestExtensionRangeSerialize_TestExtensionRangeSerializeReader_Unmarshal :: "TestExtensionRangeSerialize_TestExtensionRangeSerializeReader \<Rightarrow> gslice \<Rightarrow> (TestExtensionRangeSerialize_TestExtensionRangeSerializeReader \<times> string option) run" where
  "TestExtensionRangeSerialize_TestExtensionRangeSerializeReader_Unmarshal m data =
     unmarshalLoop TestExtensionRangeSerialize_TestExtensionRangeSerializeReader_save (NewReader data) 0 (m\<lparr>mbuf := Some (NewReader data)\<rparr>)"

definition TestExtensionRangeSerialize_TestExtensionRangeSerializeReader_SourceBytes :: "TestExtensionRangeSerialize_TestExtensionRangeSerializeReader option \<Rightarrow> gslice" where
  "TestExtensionRangeSerialize_TestExtensionRangeSerializeReader_SourceBytes s = (case s of None \<Rightarrow> nil_slice | Some r \<Rightarrow> Bytes (mbuf r))"

section \<open>TestExtensionRangeSerialize_TestExtensionRangeSerialize: the struct\<close>

record TestExtensionRangeSerialize_TestExtensionRangeSerialize =
  BarOne :: int32
  BarTwo :: int32
  BarThree :: int32
  BarFour :: int32
  BarFive :: int32
  FooOne :: int32
  FooTwo :: int32
  FooThree :: int32
  FooFour :: int32

definition TestExtensionRangeSerialize_TestExtensionRangeSerialize_zero :: TestExtensionRangeSerialize_TestExtensionRangeSerialize where
  "TestExtensionRangeSerialize_TestExtensionRangeSerialize_zero = \<lparr>
     BarOne = 0, BarTwo = 0, BarThree = 0, BarFour = 0, BarFive = 0, FooOne = 0, FooTwo = 0,
     FooThree = 0, FooFour = 0\<rparr>"

definition TestExtensionRangeSerialize_TestExtensionRangeSerialize_stmts :: "(TestExtensionRangeSerialize_TestExtensionRangeSerialize \<times> TestExtensionRangeSerialize_TestExtensionRangeSerializeReader option \<Rightarrow> (TestExtensionRangeSerialize_TestExtensionRangeSerialize \<times> TestExtensionRangeSerialize_TestExtensionRangeSerializeReader option) run) list" where
  "TestExtensionRangeSerialize_TestExtensionRangeSerialize_stmts = [
     assign TestExtensionRangeSerialize_TestExtensionRangeSerializeReader_GetBarOne (\<lambda>v res. res\<lparr>BarOne := v\<rparr>),
     assign TestExtensionRangeSerialize_TestExtensionRangeSerializeReader_GetBarTwo (\<lambda>v res. res\<lparr>BarTwo := v\<rparr>),
     assign TestExtensionRangeSerialize_TestExtensionRangeSerializeReader_GetBarThree (\<lambda>v res. res\<lparr>BarThree := v\<rparr>),
     assign TestExtensionRangeSerialize_TestExtensionRangeSerializeReader_GetBarFour (\<lambda>v res. res\<lparr>BarFour := v\<rparr>),
     assign TestExtensionRangeSerialize_TestExtensionRangeSerializeReader_GetBarFive (\<lambda>v res. res\<lparr>BarFive := v\<rparr>),
     assign TestExtensionRangeSerialize_TestExtensionRangeSerializeReader_GetFooOne (\<lambda>v res. res\<lparr>FooOne := v\<rparr>),
     assign TestExtensionRangeSerialize_TestExtensionRangeSerializeReader_GetFooTwo (\<lambda>v res. res\<lparr>FooTwo := v\<rparr>),
     assign TestExtensionRangeSerialize_TestExtensionRangeSerializeReader_GetFooThree (\<lambda>v res. res\<lparr>FooThree := v\<rparr>),
     assign TestExtensionRangeSerialize_TestExtensionRangeSerializeReader_GetFooFour (\<lambda>v res. res\<lparr>FooFour := v\<rparr>)]"

definition TestExtensionRangeSerialize_TestExtensionRangeSerializeReader_ToStruct :: "TestExtensionRangeSerialize_TestExtensionRangeSerializeReader option \<Rightarrow> (TestExtensionRangeSerialize_TestExtensionRangeSerialize option \<times> TestExtensionRangeSerialize_TestExtensionRangeSerializeReader option) run" where
  "TestExtensionRangeSerialize_TestExtensionRangeSerializeReader_ToStruct = toStructWith (TestExtensionRangeSerialize_TestExtensionRangeSerialize_stmts) TestExtensionRangeSerialize_TestExtensionRangeSerialize_zero"

definition TestExtensionRangeSerialize_TestExtensionRangeSerialize_appends :: "TestExtensionRangeSerialize_TestExtensionRangeSerialize \<Rightarrow> (Writer \<Rightarrow> Writer go) list" where
  "TestExtensionRangeSerialize_TestExtensionRangeSerialize_appends s = [
     \<lambda>res. if BarOne s \<noteq> 0 then AppendInt32 res wireTestExtensionRangeSerialize_TestExtensionRangeSerialize_BarOne (BarOne s) else Ret res,
     \<lambda>res. if BarTwo s \<noteq> 0 then AppendInt32 res wireTestExtensionRangeSerialize_TestExtensionRangeSerialize_BarTwo (BarTwo s) else Ret res,
     \<lambda>res. if BarThree s \<noteq> 0 then AppendInt32 res wireTestExtensionRangeSerialize_TestExtensionRangeSerialize_BarThree (BarThree s) else Ret res,
     \<lambda>res. if BarFour s \<noteq> 0 then AppendInt32 res wireTestExtensionRangeSerialize_TestExtensionRangeSerialize_BarFour (BarFour s) else Ret res,
     \<lambda>res. if BarFive s \<noteq> 0 then AppendInt32 res wireTestExtensionRangeSerialize_TestExtensionRangeSerialize_BarFive (BarFive s) else Ret res,
     \<lambda>res. if FooOne s \<noteq> 0 then AppendInt32 res wireTestExtensionRangeSerialize_TestExtensionRangeSerialize_FooOne (FooOne s) else Ret res,
     \<lambda>res. if FooTwo s \<noteq> 0 then AppendInt32 res wireTestExtensionRangeSerialize_TestExtensionRangeSerialize_FooTwo (FooTwo s) else Ret res,
     \<lambda>res. if FooThree s \<noteq> 0 then AppendInt32 res wireTestExtensionRangeSerialize_TestExtensionRangeSerialize_FooThree (FooThree s) else Ret res,
     \<lambda>res. if FooFour s \<noteq> 0 then AppendInt32 res wireTestExtensionRangeSerialize_TestExtensionRangeSerialize_FooFour (FooFour s) else Ret res]"

definition TestExtensionRangeSerialize_TestExtensionRangeSerialize_MarshalTo :: "Writer \<Rightarrow> TestExtensionRangeSerialize_TestExtensionRangeSerialize option \<Rightarrow> Writer go" where
  "TestExtensionRangeSerialize_TestExtensionRangeSerialize_MarshalTo = marshalToWith (\<lambda>s. TestExtensionRangeSerialize_TestExtensionRangeSerialize_appends s)"

definition TestExtensionRangeSerialize_TestExtensionRangeSerialize_sizes :: "TestExtensionRangeSerialize_TestExtensionRangeSerialize \<Rightarrow> int list" where
  "TestExtensionRangeSerialize_TestExtensionRangeSerialize_sizes s = [
     if BarOne s \<noteq> 0 then sizeWithTag SizeInt32 wireTestExtensionRangeSerialize_TestExtensionRangeSerialize_BarOne (BarOne s) else 0,
     if BarTwo s \<noteq> 0 then sizeWithTag SizeInt32 wireTestExtensionRangeSerialize_TestExtensionRangeSerialize_BarTwo (BarTwo s) else 0,
     if BarThree s \<noteq> 0 then sizeWithTag SizeInt32 wireTestExtensionRangeSerialize_TestExtensionRangeSerialize_BarThree (BarThree s) else 0,
     if BarFour s \<noteq> 0 then sizeWithTag SizeInt32 wireTestExtensionRangeSerialize_TestExtensionRangeSerialize_BarFour (BarFour s) else 0,
     if BarFive s \<noteq> 0 then sizeWithTag SizeInt32 wireTestExtensionRangeSerialize_TestExtensionRangeSerialize_BarFive (BarFive s) else 0,
     if FooOne s \<noteq> 0 then sizeWithTag SizeInt32 wireTestExtensionRangeSerialize_TestExtensionRangeSerialize_FooOne (FooOne s) else 0,
     if FooTwo s \<noteq> 0 then sizeWithTag SizeInt32 wireTestExtensionRangeSerialize_TestExtensionRangeSerialize_FooTwo (FooTwo s) else 0,
     if FooThree s \<noteq> 0 then sizeWithTag SizeInt32 wireTestExtensionRangeSerialize_TestExtensionRangeSerialize_FooThree (FooThree s) else 0,
     if FooFour s \<noteq> 0 then sizeWithTag SizeInt32 wireTestExtensionRangeSerialize_TestExtensionRangeSerialize_FooFour (FooFour s) else 0]"

definition TestExtensionRangeSerialize_TestExtensionRangeSerialize_XXX_PbContentSize :: "TestExtensionRangeSerialize_TestExtensionRangeSerialize option \<Rightarrow> int" where
  "TestExtensionRangeSerialize_TestExtensionRangeSerialize_XXX_PbContentSize = contentSizeWith (\<lambda>s. TestExtensionRangeSerialize_TestExtensionRangeSerialize_sizes s)"

definition TestExtensionRangeSerialize_TestExtensionRangeSerialize_Marshal :: "TestExtensionRangeSerialize_TestExtensionRangeSerialize option \<Rightarrow> byte list go" where
  "TestExtensionRangeSerialize_TestExtensionRangeSerialize_Marshal = marshalWith TestExtensionRangeSerialize_TestExtensionRangeSerialize_XXX_PbContentSize TestExtensionRangeSerialize_TestExtensionRangeSerialize_MarshalTo"

definition TestExtensionRangeSerialize_TestExtensionRangeSerialize_Copy :: "TestExtensionRangeSerialize_TestExtensionRangeSerialize option \<Rightarrow> TestExtensionRangeSerialize_TestExtensionRangeSerialize option" where
  "TestExtensionRangeSerialize_TestExtensionRangeSerialize_Copy s =
     (case s of None \<Rightarrow> None | Some s \<Rightarrow> Some \<lparr>
        BarOne = BarOne s, BarTwo = BarTwo s, BarThree = BarThree s, BarFour = BarFour s,
        BarFive = BarFive s, FooOne = FooOne s, FooTwo = FooTwo s, FooThree = FooThree s,
        FooFour = FooFour s\<rparr>)"

section \<open>TestExtensionRangeSerialize_TestExtensionRangeSerialize: the round trip\<close>

definition TestExtensionRangeSerialize_TestExtensionRangeSerialize_tags :: "ProtoWireNumber list" where
  "TestExtensionRangeSerialize_TestExtensionRangeSerialize_tags = [
     wireTestExtensionRangeSerialize_TestExtensionRangeSerialize_BarOne,
     wireTestExtensionRangeSerialize_TestExtensionRangeSerialize_BarTwo,
     wireTestExtensionRangeSerialize_TestExtensionRangeSerialize_BarThree,
     wireTestExtensionRangeSerialize_TestExtensionRangeSerialize_BarFour,
     wireTestExtensionRangeSerialize_TestExtensionRangeSerialize_BarFive,
     wireTestExtensionRangeSerialize_TestExtensionRangeSerialize_FooOne,
     wireTestExtensionRangeSerialize_TestExtensionRangeSerialize_FooTwo,
     wireTestExtensionRangeSerialize_TestExtensionRangeSerialize_FooThree,
     wireTestExtensionRangeSerialize_TestExtensionRangeSerialize_FooFour]"

definition TestExtensionRangeSerialize_TestExtensionRangeSerialize_groups :: "TestExtensionRangeSerialize_TestExtensionRangeSerialize \<Rightarrow> wfield list list" where
  "TestExtensionRangeSerialize_TestExtensionRangeSerialize_groups s = [
     opt_field (BarOne s \<noteq> 0) (wireTestExtensionRangeSerialize_TestExtensionRangeSerialize_BarOne, int32_val (BarOne s)),
     opt_field (BarTwo s \<noteq> 0) (wireTestExtensionRangeSerialize_TestExtensionRangeSerialize_BarTwo, int32_val (BarTwo s)),
     opt_field (BarThree s \<noteq> 0) (wireTestExtensionRangeSerialize_TestExtensionRangeSerialize_BarThree, int32_val (BarThree s)),
     opt_field (BarFour s \<noteq> 0) (wireTestExtensionRangeSerialize_TestExtensionRangeSerialize_BarFour, int32_val (BarFour s)),
     opt_field (BarFive s \<noteq> 0) (wireTestExtensionRangeSerialize_TestExtensionRangeSerialize_BarFive, int32_val (BarFive s)),
     opt_field (FooOne s \<noteq> 0) (wireTestExtensionRangeSerialize_TestExtensionRangeSerialize_FooOne, int32_val (FooOne s)),
     opt_field (FooTwo s \<noteq> 0) (wireTestExtensionRangeSerialize_TestExtensionRangeSerialize_FooTwo, int32_val (FooTwo s)),
     opt_field (FooThree s \<noteq> 0) (wireTestExtensionRangeSerialize_TestExtensionRangeSerialize_FooThree, int32_val (FooThree s)),
     opt_field (FooFour s \<noteq> 0) (wireTestExtensionRangeSerialize_TestExtensionRangeSerialize_FooFour, int32_val (FooFour s))]"

definition TestExtensionRangeSerialize_TestExtensionRangeSerialize_content :: "TestExtensionRangeSerialize_TestExtensionRangeSerialize \<Rightarrow> wfield list" where
  "TestExtensionRangeSerialize_TestExtensionRangeSerialize_content s = concat (TestExtensionRangeSerialize_TestExtensionRangeSerialize_groups s)"

text \<open>What a round trip keeps.\<close>

definition TestExtensionRangeSerialize_TestExtensionRangeSerialize_norm :: "TestExtensionRangeSerialize_TestExtensionRangeSerialize \<Rightarrow> TestExtensionRangeSerialize_TestExtensionRangeSerialize" where
  "TestExtensionRangeSerialize_TestExtensionRangeSerialize_norm s = s"

definition TestExtensionRangeSerialize_TestExtensionRangeSerialize_ready :: "Reader \<Rightarrow> TestExtensionRangeSerialize_TestExtensionRangeSerialize \<Rightarrow> (TestExtensionRangeSerialize_TestExtensionRangeSerializeReader \<Rightarrow> bool) list" where
  "TestExtensionRangeSerialize_TestExtensionRangeSerialize_ready p s = [
     \<lambda>m. cell_reads (readOne ReadInt32 0) plain p (if BarOne s \<noteq> 0 then BarOne s else 0) (cellBarOne m),
     \<lambda>m. cell_reads (readOne ReadInt32 0) plain p (if BarTwo s \<noteq> 0 then BarTwo s else 0) (cellBarTwo m),
     \<lambda>m. cell_reads (readOne ReadInt32 0) plain p (if BarThree s \<noteq> 0 then BarThree s else 0) (cellBarThree m),
     \<lambda>m. cell_reads (readOne ReadInt32 0) plain p (if BarFour s \<noteq> 0 then BarFour s else 0) (cellBarFour m),
     \<lambda>m. cell_reads (readOne ReadInt32 0) plain p (if BarFive s \<noteq> 0 then BarFive s else 0) (cellBarFive m),
     \<lambda>m. cell_reads (readOne ReadInt32 0) plain p (if FooOne s \<noteq> 0 then FooOne s else 0) (cellFooOne m),
     \<lambda>m. cell_reads (readOne ReadInt32 0) plain p (if FooTwo s \<noteq> 0 then FooTwo s else 0) (cellFooTwo m),
     \<lambda>m. cell_reads (readOne ReadInt32 0) plain p (if FooThree s \<noteq> 0 then FooThree s else 0) (cellFooThree m),
     \<lambda>m. cell_reads (readOne ReadInt32 0) plain p (if FooFour s \<noteq> 0 then FooFour s else 0) (cellFooFour m)]"

definition TestExtensionRangeSerialize_TestExtensionRangeSerialize_stored :: "TestExtensionRangeSerialize_TestExtensionRangeSerialize \<Rightarrow> (TestExtensionRangeSerialize_TestExtensionRangeSerialize \<Rightarrow> TestExtensionRangeSerialize_TestExtensionRangeSerialize) list" where
  "TestExtensionRangeSerialize_TestExtensionRangeSerialize_stored s = [
     \<lambda>res. res\<lparr>BarOne := if BarOne s \<noteq> 0 then BarOne s else 0\<rparr>,
     \<lambda>res. res\<lparr>BarTwo := if BarTwo s \<noteq> 0 then BarTwo s else 0\<rparr>,
     \<lambda>res. res\<lparr>BarThree := if BarThree s \<noteq> 0 then BarThree s else 0\<rparr>,
     \<lambda>res. res\<lparr>BarFour := if BarFour s \<noteq> 0 then BarFour s else 0\<rparr>,
     \<lambda>res. res\<lparr>BarFive := if BarFive s \<noteq> 0 then BarFive s else 0\<rparr>,
     \<lambda>res. res\<lparr>FooOne := if FooOne s \<noteq> 0 then FooOne s else 0\<rparr>,
     \<lambda>res. res\<lparr>FooTwo := if FooTwo s \<noteq> 0 then FooTwo s else 0\<rparr>,
     \<lambda>res. res\<lparr>FooThree := if FooThree s \<noteq> 0 then FooThree s else 0\<rparr>,
     \<lambda>res. res\<lparr>FooFour := if FooFour s \<noteq> 0 then FooFour s else 0\<rparr>]"

lemma TestExtensionRangeSerialize_TestExtensionRangeSerialize_cases_distinct: "distinct (map fst (TestExtensionRangeSerialize_TestExtensionRangeSerializeReader_cases wire offset))"
  by (simp add: TestExtensionRangeSerialize_TestExtensionRangeSerializeReader_cases_def wireTestExtensionRangeSerialize_TestExtensionRangeSerialize)

lemma TestExtensionRangeSerialize_TestExtensionRangeSerialize_stores:
  "stores_cell TestExtensionRangeSerialize_TestExtensionRangeSerializeReader_save wireTestExtensionRangeSerialize_TestExtensionRangeSerialize_BarOne setOffset cellBarOne"
  "stores_cell TestExtensionRangeSerialize_TestExtensionRangeSerializeReader_save wireTestExtensionRangeSerialize_TestExtensionRangeSerialize_BarTwo setOffset cellBarTwo"
  "stores_cell TestExtensionRangeSerialize_TestExtensionRangeSerializeReader_save wireTestExtensionRangeSerialize_TestExtensionRangeSerialize_BarThree setOffset cellBarThree"
  "stores_cell TestExtensionRangeSerialize_TestExtensionRangeSerializeReader_save wireTestExtensionRangeSerialize_TestExtensionRangeSerialize_BarFour setOffset cellBarFour"
  "stores_cell TestExtensionRangeSerialize_TestExtensionRangeSerializeReader_save wireTestExtensionRangeSerialize_TestExtensionRangeSerialize_BarFive setOffset cellBarFive"
  "stores_cell TestExtensionRangeSerialize_TestExtensionRangeSerializeReader_save wireTestExtensionRangeSerialize_TestExtensionRangeSerialize_FooOne setOffset cellFooOne"
  "stores_cell TestExtensionRangeSerialize_TestExtensionRangeSerializeReader_save wireTestExtensionRangeSerialize_TestExtensionRangeSerialize_FooTwo setOffset cellFooTwo"
  "stores_cell TestExtensionRangeSerialize_TestExtensionRangeSerializeReader_save wireTestExtensionRangeSerialize_TestExtensionRangeSerialize_FooThree setOffset cellFooThree"
  "stores_cell TestExtensionRangeSerialize_TestExtensionRangeSerializeReader_save wireTestExtensionRangeSerialize_TestExtensionRangeSerialize_FooFour setOffset cellFooFour"
  unfolding TestExtensionRangeSerialize_TestExtensionRangeSerializeReader_save_def [abs_def] by (rule stores_cell_switch; (rule TestExtensionRangeSerialize_TestExtensionRangeSerialize_cases_distinct)?; unfold TestExtensionRangeSerialize_TestExtensionRangeSerializeReader_cases_def; intro own_case.intros; simp)+

lemma TestExtensionRangeSerialize_TestExtensionRangeSerialize_saved: "good_fields TestExtensionRangeSerialize_TestExtensionRangeSerializeReader_save p (NewTestExtensionRangeSerialize_TestExtensionRangeSerializeReader\<lparr>mbuf := Some p\<rparr>) TestExtensionRangeSerialize_TestExtensionRangeSerialize_tags (TestExtensionRangeSerialize_TestExtensionRangeSerialize_groups s) (TestExtensionRangeSerialize_TestExtensionRangeSerialize_ready p s)"
  unfolding TestExtensionRangeSerialize_TestExtensionRangeSerialize_tags_def TestExtensionRangeSerialize_TestExtensionRangeSerialize_groups_def TestExtensionRangeSerialize_TestExtensionRangeSerialize_ready_def
  by (intro good_fields.intros field_saved TestExtensionRangeSerialize_TestExtensionRangeSerialize_stores) (simp_all add: NewTestExtensionRangeSerialize_TestExtensionRangeSerializeReader_def newCell_def)

lemma TestExtensionRangeSerialize_TestExtensionRangeSerialize_converted: "good_stmts mbuf p (TestExtensionRangeSerialize_TestExtensionRangeSerialize_stmts) (TestExtensionRangeSerialize_TestExtensionRangeSerialize_ready p s) (TestExtensionRangeSerialize_TestExtensionRangeSerialize_stored s)"
  unfolding TestExtensionRangeSerialize_TestExtensionRangeSerialize_stmts_def TestExtensionRangeSerialize_TestExtensionRangeSerialize_ready_def TestExtensionRangeSerialize_TestExtensionRangeSerialize_stored_def TestExtensionRangeSerialize_TestExtensionRangeSerialize_getters append.simps
  by (intro good_stmts_field good_stmts.Nil) (simp_all cong: cell_reads_cong)

interpretation l_TestExtensionRangeSerialize_TestExtensionRangeSerialize: lazy_message TestExtensionRangeSerialize_TestExtensionRangeSerialize_tags TestExtensionRangeSerialize_TestExtensionRangeSerialize_groups TestExtensionRangeSerialize_TestExtensionRangeSerialize_norm
  "\<lambda>s. TestExtensionRangeSerialize_TestExtensionRangeSerialize_sizes s" "\<lambda>s. TestExtensionRangeSerialize_TestExtensionRangeSerialize_appends s"
  TestExtensionRangeSerialize_TestExtensionRangeSerializeReader_save "\<lambda>p. NewTestExtensionRangeSerialize_TestExtensionRangeSerializeReader\<lparr>mbuf := Some p\<rparr>" mbuf "TestExtensionRangeSerialize_TestExtensionRangeSerialize_stmts" TestExtensionRangeSerialize_TestExtensionRangeSerialize_zero TestExtensionRangeSerialize_TestExtensionRangeSerialize_ready TestExtensionRangeSerialize_TestExtensionRangeSerialize_stored
proof
  show "distinct TestExtensionRangeSerialize_TestExtensionRangeSerialize_tags"
    using TestExtensionRangeSerialize_TestExtensionRangeSerialize_cases_distinct by (simp only: TestExtensionRangeSerialize_TestExtensionRangeSerializeReader_cases_def TestExtensionRangeSerialize_TestExtensionRangeSerialize_tags_def list.map fst_conv)
  show "list_all valid_tag TestExtensionRangeSerialize_TestExtensionRangeSerialize_tags"
    by (simp add: TestExtensionRangeSerialize_TestExtensionRangeSerialize_tags_def wireTestExtensionRangeSerialize_TestExtensionRangeSerialize valid_tag_def)
  show "list_all2 (\<lambda>t g. \<forall>f \<in> set g. fst f = t \<and> wf_val (snd f)) TestExtensionRangeSerialize_TestExtensionRangeSerialize_tags (TestExtensionRangeSerialize_TestExtensionRangeSerialize_groups s)" for s
    unfolding TestExtensionRangeSerialize_TestExtensionRangeSerialize_tags_def TestExtensionRangeSerialize_TestExtensionRangeSerialize_groups_def by (intro list.rel_intros field_tagged)
  show "list_all2 (\<lambda>e g. e = int (length (fields_bytes g))) (TestExtensionRangeSerialize_TestExtensionRangeSerialize_sizes s) (TestExtensionRangeSerialize_TestExtensionRangeSerialize_groups s)" for s
    unfolding TestExtensionRangeSerialize_TestExtensionRangeSerialize_sizes_def TestExtensionRangeSerialize_TestExtensionRangeSerialize_groups_def append.simps
    by (intro list.rel_intros field_sized)
  show "list_all2 (\<lambda>st g. writes st (fields_bytes g)) (TestExtensionRangeSerialize_TestExtensionRangeSerialize_appends s) (TestExtensionRangeSerialize_TestExtensionRangeSerialize_groups s)" for s
    unfolding TestExtensionRangeSerialize_TestExtensionRangeSerialize_appends_def TestExtensionRangeSerialize_TestExtensionRangeSerialize_groups_def append.simps
    by (intro list.rel_intros field_written)
  show "mbuf (TestExtensionRangeSerialize_TestExtensionRangeSerializeReader_save t w off m) = mbuf m" for t w off m
    unfolding TestExtensionRangeSerialize_TestExtensionRangeSerializeReader_save_def by (rule tag_switch_keeps) (simp add: TestExtensionRangeSerialize_TestExtensionRangeSerializeReader_cases_def)
  show "fold (\<lambda>e. e) (TestExtensionRangeSerialize_TestExtensionRangeSerialize_stored s) TestExtensionRangeSerialize_TestExtensionRangeSerialize_zero = TestExtensionRangeSerialize_TestExtensionRangeSerialize_norm s" for s
    unfolding TestExtensionRangeSerialize_TestExtensionRangeSerialize_stored_def by (simp add: TestExtensionRangeSerialize_TestExtensionRangeSerialize_zero_def TestExtensionRangeSerialize_TestExtensionRangeSerialize_norm_def float_defaults)
qed (simp_all add: TestExtensionRangeSerialize_TestExtensionRangeSerialize_saved TestExtensionRangeSerialize_TestExtensionRangeSerialize_converted)

interpretation m_TestExtensionRangeSerialize_TestExtensionRangeSerialize: message_codec TestExtensionRangeSerialize_TestExtensionRangeSerialize_content TestExtensionRangeSerialize_TestExtensionRangeSerialize_norm TestExtensionRangeSerialize_TestExtensionRangeSerialize_XXX_PbContentSize TestExtensionRangeSerialize_TestExtensionRangeSerialize_MarshalTo
  "TestExtensionRangeSerialize_TestExtensionRangeSerializeReader_Unmarshal NewTestExtensionRangeSerialize_TestExtensionRangeSerializeReader" TestExtensionRangeSerialize_TestExtensionRangeSerializeReader_ToStruct
  using l_TestExtensionRangeSerialize_TestExtensionRangeSerialize.message
  by (simp only: TestExtensionRangeSerialize_TestExtensionRangeSerialize_content_def [abs_def] TestExtensionRangeSerialize_TestExtensionRangeSerialize_XXX_PbContentSize_def TestExtensionRangeSerialize_TestExtensionRangeSerialize_MarshalTo_def TestExtensionRangeSerialize_TestExtensionRangeSerializeReader_Unmarshal_def [abs_def] TestExtensionRangeSerialize_TestExtensionRangeSerializeReader_ToStruct_def)


section \<open>TestDynamicExtensions_DynamicMessageType: the reader\<close>

definition wireTestDynamicExtensions_DynamicMessageType_DynamicField :: ProtoWireNumber where "wireTestDynamicExtensions_DynamicMessageType_DynamicField = 2100"

lemmas wireTestDynamicExtensions_DynamicMessageType =
  wireTestDynamicExtensions_DynamicMessageType_DynamicField_def

record TestDynamicExtensions_DynamicMessageTypeReader =
  mbuf :: "Reader option"
  cellDynamicField :: "int32 one_cell"

definition NewTestDynamicExtensions_DynamicMessageTypeReader :: TestDynamicExtensions_DynamicMessageTypeReader where
  "NewTestDynamicExtensions_DynamicMessageTypeReader = \<lparr>
     mbuf = None, cellDynamicField = newCell 0 0\<rparr>"

definition TestDynamicExtensions_DynamicMessageTypeReader_readDynamicField :: "TestDynamicExtensions_DynamicMessageTypeReader \<Rightarrow> (int32 \<times> TestDynamicExtensions_DynamicMessageTypeReader) run" where
  "TestDynamicExtensions_DynamicMessageTypeReader_readDynamicField = readCell cellDynamicField cellDynamicField_update mbuf (readOne ReadInt32 0)"

definition TestDynamicExtensions_DynamicMessageTypeReader_GetDynamicField :: "TestDynamicExtensions_DynamicMessageTypeReader option \<Rightarrow> (int32 \<times> TestDynamicExtensions_DynamicMessageTypeReader option) run" where
  "TestDynamicExtensions_DynamicMessageTypeReader_GetDynamicField = getter TestDynamicExtensions_DynamicMessageTypeReader_readDynamicField 0"

lemmas TestDynamicExtensions_DynamicMessageType_getters =
  TestDynamicExtensions_DynamicMessageTypeReader_readDynamicField_def TestDynamicExtensions_DynamicMessageTypeReader_GetDynamicField_def

definition TestDynamicExtensions_DynamicMessageTypeReader_cases :: "ProtoWireType \<Rightarrow> int \<Rightarrow> (ProtoWireNumber \<times> (TestDynamicExtensions_DynamicMessageTypeReader \<Rightarrow> TestDynamicExtensions_DynamicMessageTypeReader)) list" where
  "TestDynamicExtensions_DynamicMessageTypeReader_cases wire offset = [
     (wireTestDynamicExtensions_DynamicMessageType_DynamicField, \<lambda>m. m\<lparr>cellDynamicField := onOffset (setOffset wire offset) (cellDynamicField m)\<rparr>)]"

definition TestDynamicExtensions_DynamicMessageTypeReader_save :: "ProtoWireNumber \<Rightarrow> ProtoWireType \<Rightarrow> int \<Rightarrow> TestDynamicExtensions_DynamicMessageTypeReader \<Rightarrow> TestDynamicExtensions_DynamicMessageTypeReader" where
  "TestDynamicExtensions_DynamicMessageTypeReader_save tag wire offset = tag_switch (TestDynamicExtensions_DynamicMessageTypeReader_cases wire offset) tag"

definition TestDynamicExtensions_DynamicMessageTypeReader_Unmarshal :: "TestDynamicExtensions_DynamicMessageTypeReader \<Rightarrow> gslice \<Rightarrow> (TestDynamicExtensions_DynamicMessageTypeReader \<times> string option) run" where
  "TestDynamicExtensions_DynamicMessageTypeReader_Unmarshal m data =
     unmarshalLoop TestDynamicExtensions_DynamicMessageTypeReader_save (NewReader data) 0 (m\<lparr>mbuf := Some (NewReader data)\<rparr>)"

definition TestDynamicExtensions_DynamicMessageTypeReader_SourceBytes :: "TestDynamicExtensions_DynamicMessageTypeReader option \<Rightarrow> gslice" where
  "TestDynamicExtensions_DynamicMessageTypeReader_SourceBytes s = (case s of None \<Rightarrow> nil_slice | Some r \<Rightarrow> Bytes (mbuf r))"

section \<open>TestDynamicExtensions_DynamicMessageType: the struct\<close>

record TestDynamicExtensions_DynamicMessageType =
  DynamicField :: int32

definition TestDynamicExtensions_DynamicMessageType_zero :: TestDynamicExtensions_DynamicMessageType where
  "TestDynamicExtensions_DynamicMessageType_zero = \<lparr>
     DynamicField = 0\<rparr>"

definition TestDynamicExtensions_DynamicMessageType_stmts :: "(TestDynamicExtensions_DynamicMessageType \<times> TestDynamicExtensions_DynamicMessageTypeReader option \<Rightarrow> (TestDynamicExtensions_DynamicMessageType \<times> TestDynamicExtensions_DynamicMessageTypeReader option) run) list" where
  "TestDynamicExtensions_DynamicMessageType_stmts = [
     assign TestDynamicExtensions_DynamicMessageTypeReader_GetDynamicField (\<lambda>v res. res\<lparr>DynamicField := v\<rparr>)]"

definition TestDynamicExtensions_DynamicMessageTypeReader_ToStruct :: "TestDynamicExtensions_DynamicMessageTypeReader option \<Rightarrow> (TestDynamicExtensions_DynamicMessageType option \<times> TestDynamicExtensions_DynamicMessageTypeReader option) run" where
  "TestDynamicExtensions_DynamicMessageTypeReader_ToStruct = toStructWith (TestDynamicExtensions_DynamicMessageType_stmts) TestDynamicExtensions_DynamicMessageType_zero"

definition TestDynamicExtensions_DynamicMessageType_appends :: "TestDynamicExtensions_DynamicMessageType \<Rightarrow> (Writer \<Rightarrow> Writer go) list" where
  "TestDynamicExtensions_DynamicMessageType_appends s = [
     \<lambda>res. if DynamicField s \<noteq> 0 then AppendInt32 res wireTestDynamicExtensions_DynamicMessageType_DynamicField (DynamicField s) else Ret res]"

definition TestDynamicExtensions_DynamicMessageType_MarshalTo :: "Writer \<Rightarrow> TestDynamicExtensions_DynamicMessageType option \<Rightarrow> Writer go" where
  "TestDynamicExtensions_DynamicMessageType_MarshalTo = marshalToWith (\<lambda>s. TestDynamicExtensions_DynamicMessageType_appends s)"

definition TestDynamicExtensions_DynamicMessageType_sizes :: "TestDynamicExtensions_DynamicMessageType \<Rightarrow> int list" where
  "TestDynamicExtensions_DynamicMessageType_sizes s = [
     if DynamicField s \<noteq> 0 then sizeWithTag SizeInt32 wireTestDynamicExtensions_DynamicMessageType_DynamicField (DynamicField s) else 0]"

definition TestDynamicExtensions_DynamicMessageType_XXX_PbContentSize :: "TestDynamicExtensions_DynamicMessageType option \<Rightarrow> int" where
  "TestDynamicExtensions_DynamicMessageType_XXX_PbContentSize = contentSizeWith (\<lambda>s. TestDynamicExtensions_DynamicMessageType_sizes s)"

definition TestDynamicExtensions_DynamicMessageType_Marshal :: "TestDynamicExtensions_DynamicMessageType option \<Rightarrow> byte list go" where
  "TestDynamicExtensions_DynamicMessageType_Marshal = marshalWith TestDynamicExtensions_DynamicMessageType_XXX_PbContentSize TestDynamicExtensions_DynamicMessageType_MarshalTo"

definition TestDynamicExtensions_DynamicMessageType_Copy :: "TestDynamicExtensions_DynamicMessageType option \<Rightarrow> TestDynamicExtensions_DynamicMessageType option" where
  "TestDynamicExtensions_DynamicMessageType_Copy s =
     (case s of None \<Rightarrow> None | Some s \<Rightarrow> Some \<lparr>
        DynamicField = DynamicField s\<rparr>)"

section \<open>TestDynamicExtensions_DynamicMessageType: the round trip\<close>

definition TestDynamicExtensions_DynamicMessageType_tags :: "ProtoWireNumber list" where
  "TestDynamicExtensions_DynamicMessageType_tags = [
     wireTestDynamicExtensions_DynamicMessageType_DynamicField]"

definition TestDynamicExtensions_DynamicMessageType_groups :: "TestDynamicExtensions_DynamicMessageType \<Rightarrow> wfield list list" where
  "TestDynamicExtensions_DynamicMessageType_groups s = [
     opt_field (DynamicField s \<noteq> 0) (wireTestDynamicExtensions_DynamicMessageType_DynamicField, int32_val (DynamicField s))]"

definition TestDynamicExtensions_DynamicMessageType_content :: "TestDynamicExtensions_DynamicMessageType \<Rightarrow> wfield list" where
  "TestDynamicExtensions_DynamicMessageType_content s = concat (TestDynamicExtensions_DynamicMessageType_groups s)"

text \<open>What a round trip keeps.\<close>

definition TestDynamicExtensions_DynamicMessageType_norm :: "TestDynamicExtensions_DynamicMessageType \<Rightarrow> TestDynamicExtensions_DynamicMessageType" where
  "TestDynamicExtensions_DynamicMessageType_norm s = s"

definition TestDynamicExtensions_DynamicMessageType_ready :: "Reader \<Rightarrow> TestDynamicExtensions_DynamicMessageType \<Rightarrow> (TestDynamicExtensions_DynamicMessageTypeReader \<Rightarrow> bool) list" where
  "TestDynamicExtensions_DynamicMessageType_ready p s = [
     \<lambda>m. cell_reads (readOne ReadInt32 0) plain p (if DynamicField s \<noteq> 0 then DynamicField s else 0) (cellDynamicField m)]"

definition TestDynamicExtensions_DynamicMessageType_stored :: "TestDynamicExtensions_DynamicMessageType \<Rightarrow> (TestDynamicExtensions_DynamicMessageType \<Rightarrow> TestDynamicExtensions_DynamicMessageType) list" where
  "TestDynamicExtensions_DynamicMessageType_stored s = [
     \<lambda>res. res\<lparr>DynamicField := if DynamicField s \<noteq> 0 then DynamicField s else 0\<rparr>]"

lemma TestDynamicExtensions_DynamicMessageType_cases_distinct: "distinct (map fst (TestDynamicExtensions_DynamicMessageTypeReader_cases wire offset))"
  by (rule ascending_distinct) (simp add: TestDynamicExtensions_DynamicMessageTypeReader_cases_def wireTestDynamicExtensions_DynamicMessageType)

lemma TestDynamicExtensions_DynamicMessageType_stores:
  "stores_cell TestDynamicExtensions_DynamicMessageTypeReader_save wireTestDynamicExtensions_DynamicMessageType_DynamicField setOffset cellDynamicField"
  unfolding TestDynamicExtensions_DynamicMessageTypeReader_save_def [abs_def] by (rule stores_cell_switch; (rule TestDynamicExtensions_DynamicMessageType_cases_distinct)?; unfold TestDynamicExtensions_DynamicMessageTypeReader_cases_def; intro own_case.intros; simp)+

lemma TestDynamicExtensions_DynamicMessageType_saved: "good_fields TestDynamicExtensions_DynamicMessageTypeReader_save p (NewTestDynamicExtensions_DynamicMessageTypeReader\<lparr>mbuf := Some p\<rparr>) TestDynamicExtensions_DynamicMessageType_tags (TestDynamicExtensions_DynamicMessageType_groups s) (TestDynamicExtensions_DynamicMessageType_ready p s)"
  unfolding TestDynamicExtensions_DynamicMessageType_tags_def TestDynamicExtensions_DynamicMessageType_groups_def TestDynamicExtensions_DynamicMessageType_ready_def
  by (intro good_fields.intros field_saved TestDynamicExtensions_DynamicMessageType_stores) (simp_all add: NewTestDynamicExtensions_DynamicMessageTypeReader_def newCell_def)

lemma TestDynamicExtensions_DynamicMessageType_converted: "good_stmts mbuf p (TestDynamicExtensions_DynamicMessageType_stmts) (TestDynamicExtensions_DynamicMessageType_ready p s) (TestDynamicExtensions_DynamicMessageType_stored s)"
  unfolding TestDynamicExtensions_DynamicMessageType_stmts_def TestDynamicExtensions_DynamicMessageType_ready_def TestDynamicExtensions_DynamicMessageType_stored_def TestDynamicExtensions_DynamicMessageType_getters append.simps
  by (intro good_stmts_field good_stmts.Nil) (simp_all cong: cell_reads_cong)

interpretation l_TestDynamicExtensions_DynamicMessageType: lazy_message TestDynamicExtensions_DynamicMessageType_tags TestDynamicExtensions_DynamicMessageType_groups TestDynamicExtensions_DynamicMessageType_norm
  "\<lambda>s. TestDynamicExtensions_DynamicMessageType_sizes s" "\<lambda>s. TestDynamicExtensions_DynamicMessageType_appends s"
  TestDynamicExtensions_DynamicMessageTypeReader_save "\<lambda>p. NewTestDynamicExtensions_DynamicMessageTypeReader\<lparr>mbuf := Some p\<rparr>" mbuf "TestDynamicExtensions_DynamicMessageType_stmts" TestDynamicExtensions_DynamicMessageType_zero TestDynamicExtensions_DynamicMessageType_ready TestDynamicExtensions_DynamicMessageType_stored
proof
  show "distinct TestDynamicExtensions_DynamicMessageType_tags"
    using TestDynamicExtensions_DynamicMessageType_cases_distinct by (simp only: TestDynamicExtensions_DynamicMessageTypeReader_cases_def TestDynamicExtensions_DynamicMessageType_tags_def list.map fst_conv)
  show "list_all valid_tag TestDynamicExtensions_DynamicMessageType_tags"
    by (simp add: TestDynamicExtensions_DynamicMessageType_tags_def wireTestDynamicExtensions_DynamicMessageType valid_tag_def)
  show "list_all2 (\<lambda>t g. \<forall>f \<in> set g. fst f = t \<and> wf_val (snd f)) TestDynamicExtensions_DynamicMessageType_tags (TestDynamicExtensions_DynamicMessageType_groups s)" for s
    unfolding TestDynamicExtensions_DynamicMessageType_tags_def TestDynamicExtensions_DynamicMessageType_groups_def by (intro list.rel_intros field_tagged)
  show "list_all2 (\<lambda>e g. e = int (length (fields_bytes g))) (TestDynamicExtensions_DynamicMessageType_sizes s) (TestDynamicExtensions_DynamicMessageType_groups s)" for s
    unfolding TestDynamicExtensions_DynamicMessageType_sizes_def TestDynamicExtensions_DynamicMessageType_groups_def append.simps
    by (intro list.rel_intros field_sized)
  show "list_all2 (\<lambda>st g. writes st (fields_bytes g)) (TestDynamicExtensions_DynamicMessageType_appends s) (TestDynamicExtensions_DynamicMessageType_groups s)" for s
    unfolding TestDynamicExtensions_DynamicMessageType_appends_def TestDynamicExtensions_DynamicMessageType_groups_def append.simps
    by (intro list.rel_intros field_written)
  show "mbuf (TestDynamicExtensions_DynamicMessageTypeReader_save t w off m) = mbuf m" for t w off m
    unfolding TestDynamicExtensions_DynamicMessageTypeReader_save_def by (rule tag_switch_keeps) (simp add: TestDynamicExtensions_DynamicMessageTypeReader_cases_def)
  show "fold (\<lambda>e. e) (TestDynamicExtensions_DynamicMessageType_stored s) TestDynamicExtensions_DynamicMessageType_zero = TestDynamicExtensions_DynamicMessageType_norm s" for s
    unfolding TestDynamicExtensions_DynamicMessageType_stored_def by (simp add: TestDynamicExtensions_DynamicMessageType_zero_def TestDynamicExtensions_DynamicMessageType_norm_def float_defaults)
qed (simp_all add: TestDynamicExtensions_DynamicMessageType_saved TestDynamicExtensions_DynamicMessageType_converted)

interpretation m_TestDynamicExtensions_DynamicMessageType: message_codec TestDynamicExtensions_DynamicMessageType_content TestDynamicExtensions_DynamicMessageType_norm TestDynamicExtensions_DynamicMessageType_XXX_PbContentSize TestDynamicExtensions_DynamicMessageType_MarshalTo
  "TestDynamicExtensions_DynamicMessageTypeReader_Unmarshal NewTestDynamicExtensions_DynamicMessageTypeReader" TestDynamicExtensions_DynamicMessageTypeReader_ToStruct
  using l_TestDynamicExtensions_DynamicMessageType.message
  by (simp only: TestDynamicExtensions_DynamicMessageType_content_def [abs_def] TestDynamicExtensions_DynamicMessageType_XXX_PbContentSize_def TestDynamicExtensions_DynamicMessageType_MarshalTo_def TestDynamicExtensions_DynamicMessageTypeReader_Unmarshal_def [abs_def] TestDynamicExtensions_DynamicMessageTypeReader_ToStruct_def)


section \<open>TestDynamicExtensions: the reader\<close>

definition wireTestDynamicExtensions_ScalarExtension :: ProtoWireNumber where "wireTestDynamicExtensions_ScalarExtension = 2000"
definition wireTestDynamicExtensions_EnumExtension :: ProtoWireNumber where "wireTestDynamicExtensions_EnumExtension = 2001"
definition wireTestDynamicExtensions_DynamicEnumExtension :: ProtoWireNumber where "wireTestDynamicExtensions_DynamicEnumExtension = 2002"
definition wireTestDynamicExtensions_MessageExtension :: ProtoWireNumber where "wireTestDynamicExtensions_MessageExtension = 2003"
definition wireTestDynamicExtensions_DynamicMessageExtension :: ProtoWireNumber where "wireTestDynamicExtensions_DynamicMessageExtension = 2004"
definition wireTestDynamicExtensions_RepeatedExtension :: ProtoWireNumber where "wireTestDynamicExtensions_RepeatedExtension = 2005"
definition wireTestDynamicExtensions_PackedExtension :: ProtoWireNumber where "wireTestDynamicExtensions_PackedExtension = 2006"

lemmas wireTestDynamicExtensions =
  wireTestDynamicExtensions_ScalarExtension_def wireTestDynamicExtensions_EnumExtension_def
  wireTestDynamicExtensions_DynamicEnumExtension_def
  wireTestDynamicExtensions_MessageExtension_def
  wireTestDynamicExtensions_DynamicMessageExtension_def
  wireTestDynamicExtensions_RepeatedExtension_def wireTestDynamicExtensions_PackedExtension_def

record TestDynamicExtensionsReader =
  mbuf :: "Reader option"
  cellScalarExtension :: "uint32 one_cell"
  cellEnumExtension :: "ForeignEnum one_cell"
  cellDynamicEnumExtension :: "TestDynamicExtensions_DynamicEnumType one_cell"
  cellMessageExtension :: "(ForeignMessageReader option) one_cell"
  cellDynamicMessageExtension :: "(TestDynamicExtensions_DynamicMessageTypeReader option) one_cell"
  cellRepeatedExtension :: "gostring list_cell"
  cellPackedExtension :: "int32 packed_cell"

definition NewTestDynamicExtensionsReader :: TestDynamicExtensionsReader where
  "NewTestDynamicExtensionsReader = \<lparr>
     mbuf = None, cellScalarExtension = newCell 0 0, cellEnumExtension = newCell 0 0,
     cellDynamicEnumExtension = newCell 0 0, cellMessageExtension = newCell None 0,
     cellDynamicMessageExtension = newCell None 0, cellRepeatedExtension = newCell [] [],
     cellPackedExtension = newCell [] ([], [])\<rparr>"

definition TestDynamicExtensionsReader_readScalarExtension :: "TestDynamicExtensionsReader \<Rightarrow> (uint32 \<times> TestDynamicExtensionsReader) run" where
  "TestDynamicExtensionsReader_readScalarExtension = readCell cellScalarExtension cellScalarExtension_update mbuf (readOne ReadFixed32 0)"

definition TestDynamicExtensionsReader_GetScalarExtension :: "TestDynamicExtensionsReader option \<Rightarrow> (uint32 \<times> TestDynamicExtensionsReader option) run" where
  "TestDynamicExtensionsReader_GetScalarExtension = getter TestDynamicExtensionsReader_readScalarExtension 0"

definition TestDynamicExtensionsReader_readEnumExtension :: "TestDynamicExtensionsReader \<Rightarrow> (ForeignEnum \<times> TestDynamicExtensionsReader) run" where
  "TestDynamicExtensionsReader_readEnumExtension = readCell cellEnumExtension cellEnumExtension_update mbuf (readOne ReadInt32 0)"

definition TestDynamicExtensionsReader_GetEnumExtension :: "TestDynamicExtensionsReader option \<Rightarrow> (ForeignEnum \<times> TestDynamicExtensionsReader option) run" where
  "TestDynamicExtensionsReader_GetEnumExtension = getter TestDynamicExtensionsReader_readEnumExtension 0"

definition TestDynamicExtensionsReader_readDynamicEnumExtension :: "TestDynamicExtensionsReader \<Rightarrow> (TestDynamicExtensions_DynamicEnumType \<times> TestDynamicExtensionsReader) run" where
  "TestDynamicExtensionsReader_readDynamicEnumExtension = readCell cellDynamicEnumExtension cellDynamicEnumExtension_update mbuf (readOne ReadInt32 0)"

definition TestDynamicExtensionsReader_GetDynamicEnumExtension :: "TestDynamicExtensionsReader option \<Rightarrow> (TestDynamicExtensions_DynamicEnumType \<times> TestDynamicExtensionsReader option) run" where
  "TestDynamicExtensionsReader_GetDynamicEnumExtension = getter TestDynamicExtensionsReader_readDynamicEnumExtension 0"

definition TestDynamicExtensionsReader_readMessageExtension :: "TestDynamicExtensionsReader \<Rightarrow> (ForeignMessageReader option \<times> TestDynamicExtensionsReader) run" where
  "TestDynamicExtensionsReader_readMessageExtension = readCell cellMessageExtension cellMessageExtension_update mbuf (structReader (ForeignMessageReader_Unmarshal NewForeignMessageReader))"

definition TestDynamicExtensionsReader_GetMessageExtension :: "TestDynamicExtensionsReader option \<Rightarrow> (ForeignMessageReader option \<times> TestDynamicExtensionsReader option) run" where
  "TestDynamicExtensionsReader_GetMessageExtension = getter TestDynamicExtensionsReader_readMessageExtension None"

definition TestDynamicExtensionsReader_readDynamicMessageExtension :: "TestDynamicExtensionsReader \<Rightarrow> (TestDynamicExtensions_DynamicMessageTypeReader option \<times> TestDynamicExtensionsReader) run" where
  "TestDynamicExtensionsReader_readDynamicMessageExtension = readCell cellDynamicMessageExtension cellDynamicMessageExtension_update mbuf (structReader (TestDynamicExtensions_DynamicMessageTypeReader_Unmarshal NewTestDynamicExtensions_DynamicMessageTypeReader))"

definition TestDynamicExtensionsReader_GetDynamicMessageExtension :: "TestDynamicExtensionsReader option \<Rightarrow> (TestDynamicExtensions_DynamicMessageTypeReader option \<times> TestDynamicExtensionsReader option) run" where
  "TestDynamicExtensionsReader_GetDynamicMessageExtension = getter TestDynamicExtensionsReader_readDynamicMessageExtension None"

definition TestDynamicExtensionsReader_readRepeatedExtension :: "TestDynamicExtensionsReader \<Rightarrow> (gostring list \<times> TestDynamicExtensionsReader) run" where
  "TestDynamicExtensionsReader_readRepeatedExtension = readCell cellRepeatedExtension cellRepeatedExtension_update mbuf (readList ReadString [])"

definition TestDynamicExtensionsReader_GetRepeatedExtension :: "TestDynamicExtensionsReader option \<Rightarrow> (gostring list \<times> TestDynamicExtensionsReader option) run" where
  "TestDynamicExtensionsReader_GetRepeatedExtension = getter TestDynamicExtensionsReader_readRepeatedExtension []"

definition TestDynamicExtensionsReader_readPackedExtension :: "TestDynamicExtensionsReader \<Rightarrow> (int32 list \<times> TestDynamicExtensionsReader) run" where
  "TestDynamicExtensionsReader_readPackedExtension = readCell cellPackedExtension cellPackedExtension_update mbuf (readPacked ReadSInt32 SizedReadSInt32 0)"

definition TestDynamicExtensionsReader_GetPackedExtension :: "TestDynamicExtensionsReader option \<Rightarrow> (int32 list \<times> TestDynamicExtensionsReader option) run" where
  "TestDynamicExtensionsReader_GetPackedExtension = getter TestDynamicExtensionsReader_readPackedExtension []"

lemmas TestDynamicExtensions_getters =
  TestDynamicExtensionsReader_readScalarExtension_def TestDynamicExtensionsReader_GetScalarExtension_def
  TestDynamicExtensionsReader_readEnumExtension_def TestDynamicExtensionsReader_GetEnumExtension_def
  TestDynamicExtensionsReader_readDynamicEnumExtension_def TestDynamicExtensionsReader_GetDynamicEnumExtension_def
  TestDynamicExtensionsReader_readMessageExtension_def TestDynamicExtensionsReader_GetMessageExtension_def
  TestDynamicExtensionsReader_readDynamicMessageExtension_def TestDynamicExtensionsReader_GetDynamicMessageExtension_def
  TestDynamicExtensionsReader_readRepeatedExtension_def TestDynamicExtensionsReader_GetRepeatedExtension_def
  TestDynamicExtensionsReader_readPackedExtension_def TestDynamicExtensionsReader_GetPackedExtension_def

definition TestDynamicExtensionsReader_cases :: "ProtoWireType \<Rightarrow> int \<Rightarrow> (ProtoWireNumber \<times> (TestDynamicExtensionsReader \<Rightarrow> TestDynamicExtensionsReader)) list" where
  "TestDynamicExtensionsReader_cases wire offset = [
     (wireTestDynamicExtensions_ScalarExtension, \<lambda>m. m\<lparr>cellScalarExtension := onOffset (setOffset wire offset) (cellScalarExtension m)\<rparr>),
     (wireTestDynamicExtensions_EnumExtension, \<lambda>m. m\<lparr>cellEnumExtension := onOffset (setOffset wire offset) (cellEnumExtension m)\<rparr>),
     (wireTestDynamicExtensions_DynamicEnumExtension, \<lambda>m. m\<lparr>cellDynamicEnumExtension := onOffset (setOffset wire offset) (cellDynamicEnumExtension m)\<rparr>),
     (wireTestDynamicExtensions_MessageExtension, \<lambda>m. m\<lparr>cellMessageExtension := onOffset (setOffset wire offset) (cellMessageExtension m)\<rparr>),
     (wireTestDynamicExtensions_DynamicMessageExtension, \<lambda>m. m\<lparr>cellDynamicMessageExtension := onOffset (setOffset wire offset) (cellDynamicMessageExtension m)\<rparr>),
     (wireTestDynamicExtensions_RepeatedExtension, \<lambda>m. m\<lparr>cellRepeatedExtension := onOffset (addOffset wire offset) (cellRepeatedExtension m)\<rparr>),
     (wireTestDynamicExtensions_PackedExtension, \<lambda>m. m\<lparr>cellPackedExtension := onOffset (addTyped wire offset) (cellPackedExtension m)\<rparr>)]"

definition TestDynamicExtensionsReader_save :: "ProtoWireNumber \<Rightarrow> ProtoWireType \<Rightarrow> int \<Rightarrow> TestDynamicExtensionsReader \<Rightarrow> TestDynamicExtensionsReader" where
  "TestDynamicExtensionsReader_save tag wire offset = tag_switch (TestDynamicExtensionsReader_cases wire offset) tag"

definition TestDynamicExtensionsReader_Unmarshal :: "TestDynamicExtensionsReader \<Rightarrow> gslice \<Rightarrow> (TestDynamicExtensionsReader \<times> string option) run" where
  "TestDynamicExtensionsReader_Unmarshal m data =
     unmarshalLoop TestDynamicExtensionsReader_save (NewReader data) 0 (m\<lparr>mbuf := Some (NewReader data)\<rparr>)"

definition TestDynamicExtensionsReader_SourceBytes :: "TestDynamicExtensionsReader option \<Rightarrow> gslice" where
  "TestDynamicExtensionsReader_SourceBytes s = (case s of None \<Rightarrow> nil_slice | Some r \<Rightarrow> Bytes (mbuf r))"

section \<open>TestDynamicExtensions: the struct\<close>

record TestDynamicExtensions =
  ScalarExtension :: uint32
  EnumExtension :: ForeignEnum
  DynamicEnumExtension :: TestDynamicExtensions_DynamicEnumType
  MessageExtension :: "ForeignMessage option"
  DynamicMessageExtension :: "TestDynamicExtensions_DynamicMessageType option"
  RepeatedExtension :: "gostring list"
  PackedExtension :: "int32 list"

definition TestDynamicExtensions_zero :: TestDynamicExtensions where
  "TestDynamicExtensions_zero = \<lparr>
     ScalarExtension = 0, EnumExtension = 0, DynamicEnumExtension = 0, MessageExtension = None,
     DynamicMessageExtension = None, RepeatedExtension = [], PackedExtension = []\<rparr>"

definition TestDynamicExtensions_stmts :: "(TestDynamicExtensions \<times> TestDynamicExtensionsReader option \<Rightarrow> (TestDynamicExtensions \<times> TestDynamicExtensionsReader option) run) list" where
  "TestDynamicExtensions_stmts = [
     assign TestDynamicExtensionsReader_GetScalarExtension (\<lambda>v res. res\<lparr>ScalarExtension := v\<rparr>),
     assign TestDynamicExtensionsReader_GetEnumExtension (\<lambda>v res. res\<lparr>EnumExtension := v\<rparr>),
     assign TestDynamicExtensionsReader_GetDynamicEnumExtension (\<lambda>v res. res\<lparr>DynamicEnumExtension := v\<rparr>),
     assignStruct TestDynamicExtensionsReader_GetMessageExtension (structToStruct ForeignMessageReader_ToStruct) cellMessageExtension_update
       (\<lambda>v res. res\<lparr>MessageExtension := v\<rparr>),
     assignStruct TestDynamicExtensionsReader_GetDynamicMessageExtension (structToStruct TestDynamicExtensions_DynamicMessageTypeReader_ToStruct) cellDynamicMessageExtension_update
       (\<lambda>v res. res\<lparr>DynamicMessageExtension := v\<rparr>),
     assign TestDynamicExtensionsReader_GetRepeatedExtension (\<lambda>v res. res\<lparr>RepeatedExtension := v\<rparr>),
     assign TestDynamicExtensionsReader_GetPackedExtension (\<lambda>v res. res\<lparr>PackedExtension := v\<rparr>)]"

definition TestDynamicExtensionsReader_ToStruct :: "TestDynamicExtensionsReader option \<Rightarrow> (TestDynamicExtensions option \<times> TestDynamicExtensionsReader option) run" where
  "TestDynamicExtensionsReader_ToStruct = toStructWith (TestDynamicExtensions_stmts) TestDynamicExtensions_zero"

definition TestDynamicExtensions_appends :: "TestDynamicExtensions \<Rightarrow> (Writer \<Rightarrow> Writer go) list" where
  "TestDynamicExtensions_appends s = [
     \<lambda>res. if ScalarExtension s \<noteq> 0 then AppendFixed32 res wireTestDynamicExtensions_ScalarExtension (ScalarExtension s) else Ret res,
     \<lambda>res. if EnumExtension s \<noteq> 0 then AppendInt32 res wireTestDynamicExtensions_EnumExtension (EnumExtension s) else Ret res,
     \<lambda>res. if DynamicEnumExtension s \<noteq> 0 then AppendInt32 res wireTestDynamicExtensions_DynamicEnumExtension (DynamicEnumExtension s) else Ret res,
     \<lambda>res. if MessageExtension s \<noteq> None then structWriter ForeignMessage_XXX_PbContentSize ForeignMessage_MarshalTo res wireTestDynamicExtensions_MessageExtension (MessageExtension s) else Ret res,
     \<lambda>res. if DynamicMessageExtension s \<noteq> None then structWriter TestDynamicExtensions_DynamicMessageType_XXX_PbContentSize TestDynamicExtensions_DynamicMessageType_MarshalTo res wireTestDynamicExtensions_DynamicMessageExtension (DynamicMessageExtension s) else Ret res,
     \<lambda>res. if RepeatedExtension s \<noteq> [] then repeatedWriter AppendString res wireTestDynamicExtensions_RepeatedExtension (RepeatedExtension s) else Ret res,
     \<lambda>res. if PackedExtension s \<noteq> [] then packedWriter AppendSInt32WithoutTag AppendSInt32 SizeSInt32 res wireTestDynamicExtensions_PackedExtension (PackedExtension s) else Ret res]"

definition TestDynamicExtensions_MarshalTo :: "Writer \<Rightarrow> TestDynamicExtensions option \<Rightarrow> Writer go" where
  "TestDynamicExtensions_MarshalTo = marshalToWith (\<lambda>s. TestDynamicExtensions_appends s)"

definition TestDynamicExtensions_sizes :: "TestDynamicExtensions \<Rightarrow> int list" where
  "TestDynamicExtensions_sizes s = [
     if ScalarExtension s \<noteq> 0 then sizeWithTag SizeFixed32 wireTestDynamicExtensions_ScalarExtension (ScalarExtension s) else 0,
     if EnumExtension s \<noteq> 0 then sizeWithTag SizeInt32 wireTestDynamicExtensions_EnumExtension (EnumExtension s) else 0,
     if DynamicEnumExtension s \<noteq> 0 then sizeWithTag SizeInt32 wireTestDynamicExtensions_DynamicEnumExtension (DynamicEnumExtension s) else 0,
     if MessageExtension s \<noteq> None then sizeDelimitedWithTag ForeignMessage_XXX_PbContentSize wireTestDynamicExtensions_MessageExtension (MessageExtension s) else 0,
     if DynamicMessageExtension s \<noteq> None then sizeDelimitedWithTag TestDynamicExtensions_DynamicMessageType_XXX_PbContentSize wireTestDynamicExtensions_DynamicMessageExtension (DynamicMessageExtension s) else 0,
     if RepeatedExtension s \<noteq> [] then repeatedSize (sizeDelimitedWithTag SizeString wireTestDynamicExtensions_RepeatedExtension) (RepeatedExtension s) else 0,
     if PackedExtension s \<noteq> [] then packedSize SizeSInt32 wireTestDynamicExtensions_PackedExtension (PackedExtension s) else 0]"

definition TestDynamicExtensions_XXX_PbContentSize :: "TestDynamicExtensions option \<Rightarrow> int" where
  "TestDynamicExtensions_XXX_PbContentSize = contentSizeWith (\<lambda>s. TestDynamicExtensions_sizes s)"

definition TestDynamicExtensions_Marshal :: "TestDynamicExtensions option \<Rightarrow> byte list go" where
  "TestDynamicExtensions_Marshal = marshalWith TestDynamicExtensions_XXX_PbContentSize TestDynamicExtensions_MarshalTo"

definition TestDynamicExtensions_Copy :: "TestDynamicExtensions option \<Rightarrow> TestDynamicExtensions option" where
  "TestDynamicExtensions_Copy s =
     (case s of None \<Rightarrow> None | Some s \<Rightarrow> Some \<lparr>
        ScalarExtension = ScalarExtension s, EnumExtension = EnumExtension s,
        DynamicEnumExtension = DynamicEnumExtension s,
        MessageExtension = (case MessageExtension s of None \<Rightarrow> None | Some x \<Rightarrow> ForeignMessage_Copy (Some x)),
        DynamicMessageExtension = (case DynamicMessageExtension s of None \<Rightarrow> None | Some x \<Rightarrow> TestDynamicExtensions_DynamicMessageType_Copy (Some x)),
        RepeatedExtension = RepeatedExtension s, PackedExtension = PackedExtension s\<rparr>)"

section \<open>TestDynamicExtensions: the round trip\<close>

definition TestDynamicExtensions_tags :: "ProtoWireNumber list" where
  "TestDynamicExtensions_tags = [
     wireTestDynamicExtensions_ScalarExtension, wireTestDynamicExtensions_EnumExtension,
     wireTestDynamicExtensions_DynamicEnumExtension, wireTestDynamicExtensions_MessageExtension,
     wireTestDynamicExtensions_DynamicMessageExtension,
     wireTestDynamicExtensions_RepeatedExtension, wireTestDynamicExtensions_PackedExtension]"

definition TestDynamicExtensions_groups :: "TestDynamicExtensions \<Rightarrow> wfield list list" where
  "TestDynamicExtensions_groups s = [
     opt_field (ScalarExtension s \<noteq> 0) (wireTestDynamicExtensions_ScalarExtension, WFixed32 (ScalarExtension s)),
     opt_field (EnumExtension s \<noteq> 0) (wireTestDynamicExtensions_EnumExtension, int32_val (EnumExtension s)),
     opt_field (DynamicEnumExtension s \<noteq> 0) (wireTestDynamicExtensions_DynamicEnumExtension, int32_val (DynamicEnumExtension s)),
     opt_field (MessageExtension s \<noteq> None) (wireTestDynamicExtensions_MessageExtension, WBytes (ptr_bytes ForeignMessage_content (MessageExtension s))),
     opt_field (DynamicMessageExtension s \<noteq> None) (wireTestDynamicExtensions_DynamicMessageExtension, WBytes (ptr_bytes TestDynamicExtensions_DynamicMessageType_content (DynamicMessageExtension s))),
     bytes_fields wireTestDynamicExtensions_RepeatedExtension (RepeatedExtension s),
     packed_fields sint32_val wireTestDynamicExtensions_PackedExtension (PackedExtension s)]"

definition TestDynamicExtensions_content :: "TestDynamicExtensions \<Rightarrow> wfield list" where
  "TestDynamicExtensions_content s = concat (TestDynamicExtensions_groups s)"

text \<open>What a round trip keeps.\<close>

definition TestDynamicExtensions_norm :: "TestDynamicExtensions \<Rightarrow> TestDynamicExtensions" where
  "TestDynamicExtensions_norm s = s\<lparr>
     MessageExtension := norm_ptr ForeignMessage_content ForeignMessage_norm (MessageExtension s),
     DynamicMessageExtension := norm_ptr TestDynamicExtensions_DynamicMessageType_content TestDynamicExtensions_DynamicMessageType_norm (DynamicMessageExtension s)\<rparr>"

definition TestDynamicExtensions_ready :: "Reader \<Rightarrow> TestDynamicExtensions \<Rightarrow> (TestDynamicExtensionsReader \<Rightarrow> bool) list" where
  "TestDynamicExtensions_ready p s = [
     \<lambda>m. cell_reads (readOne ReadFixed32 0) plain p (if ScalarExtension s \<noteq> 0 then ScalarExtension s else 0) (cellScalarExtension m),
     \<lambda>m. cell_reads (readOne ReadInt32 0) plain p (if EnumExtension s \<noteq> 0 then EnumExtension s else 0) (cellEnumExtension m),
     \<lambda>m. cell_reads (readOne ReadInt32 0) plain p (if DynamicEnumExtension s \<noteq> 0 then DynamicEnumExtension s else 0) (cellDynamicEnumExtension m),
     \<lambda>m. cell_reads (structReader (ForeignMessageReader_Unmarshal NewForeignMessageReader)) (structToStruct ForeignMessageReader_ToStruct) p (norm_ptr ForeignMessage_content ForeignMessage_norm (MessageExtension s)) (cellMessageExtension m),
     \<lambda>m. cell_reads (structReader (TestDynamicExtensions_DynamicMessageTypeReader_Unmarshal NewTestDynamicExtensions_DynamicMessageTypeReader)) (structToStruct TestDynamicExtensions_DynamicMessageTypeReader_ToStruct) p (norm_ptr TestDynamicExtensions_DynamicMessageType_content TestDynamicExtensions_DynamicMessageType_norm (DynamicMessageExtension s)) (cellDynamicMessageExtension m),
     \<lambda>m. cell_reads (readList ReadString []) plain p (RepeatedExtension s) (cellRepeatedExtension m),
     \<lambda>m. cell_reads (readPacked ReadSInt32 SizedReadSInt32 0) plain p (PackedExtension s) (cellPackedExtension m)]"

definition TestDynamicExtensions_stored :: "TestDynamicExtensions \<Rightarrow> (TestDynamicExtensions \<Rightarrow> TestDynamicExtensions) list" where
  "TestDynamicExtensions_stored s = [
     \<lambda>res. res\<lparr>ScalarExtension := if ScalarExtension s \<noteq> 0 then ScalarExtension s else 0\<rparr>,
     \<lambda>res. res\<lparr>EnumExtension := if EnumExtension s \<noteq> 0 then EnumExtension s else 0\<rparr>,
     \<lambda>res. res\<lparr>DynamicEnumExtension := if DynamicEnumExtension s \<noteq> 0 then DynamicEnumExtension s else 0\<rparr>,
     \<lambda>res. res\<lparr>MessageExtension := norm_ptr ForeignMessage_content ForeignMessage_norm (MessageExtension s)\<rparr>,
     \<lambda>res. res\<lparr>DynamicMessageExtension := norm_ptr TestDynamicExtensions_DynamicMessageType_content TestDynamicExtensions_DynamicMessageType_norm (DynamicMessageExtension s)\<rparr>,
     \<lambda>res. res\<lparr>RepeatedExtension := RepeatedExtension s\<rparr>,
     \<lambda>res. res\<lparr>PackedExtension := PackedExtension s\<rparr>]"

lemma TestDynamicExtensions_cases_distinct: "distinct (map fst (TestDynamicExtensionsReader_cases wire offset))"
  by (rule ascending_distinct) (simp add: TestDynamicExtensionsReader_cases_def wireTestDynamicExtensions)

lemma TestDynamicExtensions_stores:
  "stores_cell TestDynamicExtensionsReader_save wireTestDynamicExtensions_ScalarExtension setOffset cellScalarExtension"
  "stores_cell TestDynamicExtensionsReader_save wireTestDynamicExtensions_EnumExtension setOffset cellEnumExtension"
  "stores_cell TestDynamicExtensionsReader_save wireTestDynamicExtensions_DynamicEnumExtension setOffset cellDynamicEnumExtension"
  "stores_cell TestDynamicExtensionsReader_save wireTestDynamicExtensions_MessageExtension setOffset cellMessageExtension"
  "stores_cell TestDynamicExtensionsReader_save wireTestDynamicExtensions_DynamicMessageExtension setOffset cellDynamicMessageExtension"
  "stores_cell TestDynamicExtensionsReader_save wireTestDynamicExtensions_RepeatedExtension addOffset cellRepeatedExtension"
  "stores_cell TestDynamicExtensionsReader_save wireTestDynamicExtensions_PackedExtension addTyped cellPackedExtension"
  unfolding TestDynamicExtensionsReader_save_def [abs_def] by (rule stores_cell_switch; (rule TestDynamicExtensions_cases_distinct)?; unfold TestDynamicExtensionsReader_cases_def; intro own_case.intros; simp)+

lemma TestDynamicExtensions_saved: "good_fields TestDynamicExtensionsReader_save p (NewTestDynamicExtensionsReader\<lparr>mbuf := Some p\<rparr>) TestDynamicExtensions_tags (TestDynamicExtensions_groups s) (TestDynamicExtensions_ready p s)"
  unfolding TestDynamicExtensions_tags_def TestDynamicExtensions_groups_def TestDynamicExtensions_ready_def
  by (intro good_fields.intros field_saved m_ForeignMessage.saved_struct m_TestDynamicExtensions_DynamicMessageType.saved_struct TestDynamicExtensions_stores) (simp_all add: NewTestDynamicExtensionsReader_def newCell_def)

lemma TestDynamicExtensions_converted: "good_stmts mbuf p (TestDynamicExtensions_stmts) (TestDynamicExtensions_ready p s) (TestDynamicExtensions_stored s)"
  unfolding TestDynamicExtensions_stmts_def TestDynamicExtensions_ready_def TestDynamicExtensions_stored_def TestDynamicExtensions_getters append.simps
  by (intro good_stmts_field good_stmts.Nil) (simp_all cong: cell_reads_cong)

interpretation l_TestDynamicExtensions: lazy_message TestDynamicExtensions_tags TestDynamicExtensions_groups TestDynamicExtensions_norm
  "\<lambda>s. TestDynamicExtensions_sizes s" "\<lambda>s. TestDynamicExtensions_appends s"
  TestDynamicExtensionsReader_save "\<lambda>p. NewTestDynamicExtensionsReader\<lparr>mbuf := Some p\<rparr>" mbuf "TestDynamicExtensions_stmts" TestDynamicExtensions_zero TestDynamicExtensions_ready TestDynamicExtensions_stored
proof
  show "distinct TestDynamicExtensions_tags"
    using TestDynamicExtensions_cases_distinct by (simp only: TestDynamicExtensionsReader_cases_def TestDynamicExtensions_tags_def list.map fst_conv)
  show "list_all valid_tag TestDynamicExtensions_tags"
    by (simp add: TestDynamicExtensions_tags_def wireTestDynamicExtensions valid_tag_def)
  show "list_all2 (\<lambda>t g. \<forall>f \<in> set g. fst f = t \<and> wf_val (snd f)) TestDynamicExtensions_tags (TestDynamicExtensions_groups s)" for s
    unfolding TestDynamicExtensions_tags_def TestDynamicExtensions_groups_def by (intro list.rel_intros field_tagged m_ForeignMessage.tagged_struct m_TestDynamicExtensions_DynamicMessageType.tagged_struct)
  show "list_all2 (\<lambda>e g. e = int (length (fields_bytes g))) (TestDynamicExtensions_sizes s) (TestDynamicExtensions_groups s)" for s
    unfolding TestDynamicExtensions_sizes_def TestDynamicExtensions_groups_def append.simps
    by (intro list.rel_intros field_sized m_ForeignMessage.sized_struct m_TestDynamicExtensions_DynamicMessageType.sized_struct)
  show "list_all2 (\<lambda>st g. writes st (fields_bytes g)) (TestDynamicExtensions_appends s) (TestDynamicExtensions_groups s)" for s
    unfolding TestDynamicExtensions_appends_def TestDynamicExtensions_groups_def append.simps
    by (intro list.rel_intros field_written m_ForeignMessage.written_struct m_TestDynamicExtensions_DynamicMessageType.written_struct)
  show "mbuf (TestDynamicExtensionsReader_save t w off m) = mbuf m" for t w off m
    unfolding TestDynamicExtensionsReader_save_def by (rule tag_switch_keeps) (simp add: TestDynamicExtensionsReader_cases_def)
  show "fold (\<lambda>e. e) (TestDynamicExtensions_stored s) TestDynamicExtensions_zero = TestDynamicExtensions_norm s" for s
    unfolding TestDynamicExtensions_stored_def by (simp add: TestDynamicExtensions_zero_def TestDynamicExtensions_norm_def float_defaults)
qed (simp_all add: TestDynamicExtensions_saved TestDynamicExtensions_converted)

interpretation m_TestDynamicExtensions: message_codec TestDynamicExtensions_content TestDynamicExtensions_norm TestDynamicExtensions_XXX_PbContentSize TestDynamicExtensions_MarshalTo
  "TestDynamicExtensionsReader_Unmarshal NewTestDynamicExtensionsReader" TestDynamicExtensionsReader_ToStruct
  using l_TestDynamicExtensions.message
  by (simp only: TestDynamicExtensions_content_def [abs_def] TestDynamicExtensions_XXX_PbContentSize_def TestDynamicExtensions_MarshalTo_def TestDynamicExtensionsReader_Unmarshal_def [abs_def] TestDynamicExtensionsReader_ToStruct_def)


section \<open>TestMergeException: the reader\<close>

definition wireTestMergeException_AllExtensions :: ProtoWireNumber where "wireTestMergeException_AllExtensions = 1"

lemmas wireTestMergeException =
  wireTestMergeException_AllExtensions_def

record TestMergeExceptionReader =
  mbuf :: "Reader option"
  cellAllExtensions :: "(TestAllExtensionsReader option) one_cell"

definition NewTestMergeExceptionReader :: TestMergeExceptionReader where
  "NewTestMergeExceptionReader = \<lparr>
     mbuf = None, cellAllExtensions = newCell None 0\<rparr>"

definition TestMergeExceptionReader_readAllExtensions :: "TestMergeExceptionReader \<Rightarrow> (TestAllExtensionsReader option \<times> TestMergeExceptionReader) run" where
  "TestMergeExceptionReader_readAllExtensions = readCell cellAllExtensions cellAllExtensions_update mbuf (structReader (TestAllExtensionsReader_Unmarshal NewTestAllExtensionsReader))"

definition TestMergeExceptionReader_GetAllExtensions :: "TestMergeExceptionReader option \<Rightarrow> (TestAllExtensionsReader option \<times> TestMergeExceptionReader option) run" where
  "TestMergeExceptionReader_GetAllExtensions = getter TestMergeExceptionReader_readAllExtensions None"

lemmas TestMergeException_getters =
  TestMergeExceptionReader_readAllExtensions_def TestMergeExceptionReader_GetAllExtensions_def

definition TestMergeExceptionReader_cases :: "ProtoWireType \<Rightarrow> int \<Rightarrow> (ProtoWireNumber \<times> (TestMergeExceptionReader \<Rightarrow> TestMergeExceptionReader)) list" where
  "TestMergeExceptionReader_cases wire offset = [
     (wireTestMergeException_AllExtensions, \<lambda>m. m\<lparr>cellAllExtensions := onOffset (setOffset wire offset) (cellAllExtensions m)\<rparr>)]"

definition TestMergeExceptionReader_save :: "ProtoWireNumber \<Rightarrow> ProtoWireType \<Rightarrow> int \<Rightarrow> TestMergeExceptionReader \<Rightarrow> TestMergeExceptionReader" where
  "TestMergeExceptionReader_save tag wire offset = tag_switch (TestMergeExceptionReader_cases wire offset) tag"

definition TestMergeExceptionReader_Unmarshal :: "TestMergeExceptionReader \<Rightarrow> gslice \<Rightarrow> (TestMergeExceptionReader \<times> string option) run" where
  "TestMergeExceptionReader_Unmarshal m data =
     unmarshalLoop TestMergeExceptionReader_save (NewReader data) 0 (m\<lparr>mbuf := Some (NewReader data)\<rparr>)"

definition TestMergeExceptionReader_SourceBytes :: "TestMergeExceptionReader option \<Rightarrow> gslice" where
  "TestMergeExceptionReader_SourceBytes s = (case s of None \<Rightarrow> nil_slice | Some r \<Rightarrow> Bytes (mbuf r))"

section \<open>TestMergeException: the struct\<close>

record TestMergeException =
  AllExtensions :: "TestAllExtensions option"

definition TestMergeException_zero :: TestMergeException where
  "TestMergeException_zero = \<lparr>
     AllExtensions = None\<rparr>"

definition TestMergeException_stmts :: "(TestMergeException \<times> TestMergeExceptionReader option \<Rightarrow> (TestMergeException \<times> TestMergeExceptionReader option) run) list" where
  "TestMergeException_stmts = [
     assignStruct TestMergeExceptionReader_GetAllExtensions (structToStruct TestAllExtensionsReader_ToStruct) cellAllExtensions_update
       (\<lambda>v res. res\<lparr>AllExtensions := v\<rparr>)]"

definition TestMergeExceptionReader_ToStruct :: "TestMergeExceptionReader option \<Rightarrow> (TestMergeException option \<times> TestMergeExceptionReader option) run" where
  "TestMergeExceptionReader_ToStruct = toStructWith (TestMergeException_stmts) TestMergeException_zero"

definition TestMergeException_appends :: "TestMergeException \<Rightarrow> (Writer \<Rightarrow> Writer go) list" where
  "TestMergeException_appends s = [
     \<lambda>res. if AllExtensions s \<noteq> None then structWriter TestAllExtensions_XXX_PbContentSize TestAllExtensions_MarshalTo res wireTestMergeException_AllExtensions (AllExtensions s) else Ret res]"

definition TestMergeException_MarshalTo :: "Writer \<Rightarrow> TestMergeException option \<Rightarrow> Writer go" where
  "TestMergeException_MarshalTo = marshalToWith (\<lambda>s. TestMergeException_appends s)"

definition TestMergeException_sizes :: "TestMergeException \<Rightarrow> int list" where
  "TestMergeException_sizes s = [
     if AllExtensions s \<noteq> None then sizeDelimitedWithTag TestAllExtensions_XXX_PbContentSize wireTestMergeException_AllExtensions (AllExtensions s) else 0]"

definition TestMergeException_XXX_PbContentSize :: "TestMergeException option \<Rightarrow> int" where
  "TestMergeException_XXX_PbContentSize = contentSizeWith (\<lambda>s. TestMergeException_sizes s)"

definition TestMergeException_Marshal :: "TestMergeException option \<Rightarrow> byte list go" where
  "TestMergeException_Marshal = marshalWith TestMergeException_XXX_PbContentSize TestMergeException_MarshalTo"

definition TestMergeException_Copy :: "TestMergeException option \<Rightarrow> TestMergeException option" where
  "TestMergeException_Copy s =
     (case s of None \<Rightarrow> None | Some s \<Rightarrow> Some \<lparr>
        AllExtensions = (case AllExtensions s of None \<Rightarrow> None | Some x \<Rightarrow> TestAllExtensions_Copy (Some x))\<rparr>)"

section \<open>TestMergeException: the round trip\<close>

definition TestMergeException_tags :: "ProtoWireNumber list" where
  "TestMergeException_tags = [
     wireTestMergeException_AllExtensions]"

definition TestMergeException_groups :: "TestMergeException \<Rightarrow> wfield list list" where
  "TestMergeException_groups s = [
     opt_field (AllExtensions s \<noteq> None) (wireTestMergeException_AllExtensions, WBytes (ptr_bytes TestAllExtensions_content (AllExtensions s)))]"

definition TestMergeException_content :: "TestMergeException \<Rightarrow> wfield list" where
  "TestMergeException_content s = concat (TestMergeException_groups s)"

text \<open>What a round trip keeps.\<close>

definition TestMergeException_norm :: "TestMergeException \<Rightarrow> TestMergeException" where
  "TestMergeException_norm s = s\<lparr>
     AllExtensions := norm_ptr TestAllExtensions_content TestAllExtensions_norm (AllExtensions s)\<rparr>"

definition TestMergeException_ready :: "Reader \<Rightarrow> TestMergeException \<Rightarrow> (TestMergeExceptionReader \<Rightarrow> bool) list" where
  "TestMergeException_ready p s = [
     \<lambda>m. cell_reads (structReader (TestAllExtensionsReader_Unmarshal NewTestAllExtensionsReader)) (structToStruct TestAllExtensionsReader_ToStruct) p (norm_ptr TestAllExtensions_content TestAllExtensions_norm (AllExtensions s)) (cellAllExtensions m)]"

definition TestMergeException_stored :: "TestMergeException \<Rightarrow> (TestMergeException \<Rightarrow> TestMergeException) list" where
  "TestMergeException_stored s = [
     \<lambda>res. res\<lparr>AllExtensions := norm_ptr TestAllExtensions_content TestAllExtensions_norm (AllExtensions s)\<rparr>]"

lemma TestMergeException_cases_distinct: "distinct (map fst (TestMergeExceptionReader_cases wire offset))"
  by (rule ascending_distinct) (simp add: TestMergeExceptionReader_cases_def wireTestMergeException)

lemma TestMergeException_stores:
  "stores_cell TestMergeExceptionReader_save wireTestMergeException_AllExtensions setOffset cellAllExtensions"
  unfolding TestMergeExceptionReader_save_def [abs_def] by (rule stores_cell_switch; (rule TestMergeException_cases_distinct)?; unfold TestMergeExceptionReader_cases_def; intro own_case.intros; simp)+

lemma TestMergeException_saved: "good_fields TestMergeExceptionReader_save p (NewTestMergeExceptionReader\<lparr>mbuf := Some p\<rparr>) TestMergeException_tags (TestMergeException_groups s) (TestMergeException_ready p s)"
  unfolding TestMergeException_tags_def TestMergeException_groups_def TestMergeException_ready_def
  by (intro good_fields.intros field_saved m_TestAllExtensions.saved_struct TestMergeException_stores) (simp_all add: NewTestMergeExceptionReader_def newCell_def)

lemma TestMergeException_converted: "good_stmts mbuf p (TestMergeException_stmts) (TestMergeException_ready p s) (TestMergeException_stored s)"
  unfolding TestMergeException_stmts_def TestMergeException_ready_def TestMergeException_stored_def TestMergeException_getters append.simps
  by (intro good_stmts_field good_stmts.Nil) (simp_all cong: cell_reads_cong)

interpretation l_TestMergeException: lazy_message TestMergeException_tags TestMergeException_groups TestMergeException_norm
  "\<lambda>s. TestMergeException_sizes s" "\<lambda>s. TestMergeException_appends s"
  TestMergeExceptionReader_save "\<lambda>p. NewTestMergeExceptionReader\<lparr>mbuf := Some p\<rparr>" mbuf "TestMergeException_stmts" TestMergeException_zero TestMergeException_ready TestMergeException_stored
proof
  show "distinct TestMergeException_tags"
    using TestMergeException_cases_distinct by (simp only: TestMergeExceptionReader_cases_def TestMergeException_tags_def list.map fst_conv)
  show "list_all valid_tag TestMergeException_tags"
    by (simp add: TestMergeException_tags_def wireTestMergeException valid_tag_def)
  show "list_all2 (\<lambda>t g. \<forall>f \<in> set g. fst f = t \<and> wf_val (snd f)) TestMergeException_tags (TestMergeException_groups s)" for s
    unfolding TestMergeException_tags_def TestMergeException_groups_def by (intro list.rel_intros field_tagged m_TestAllExtensions.tagged_struct)
  show "list_all2 (\<lambda>e g. e = int (length (fields_bytes g))) (TestMergeException_sizes s) (TestMergeException_groups s)" for s
    unfolding TestMergeException_sizes_def TestMergeException_groups_def append.simps
    by (intro list.rel_intros field_sized m_TestAllExtensions.sized_struct)
  show "list_all2 (\<lambda>st g. writes st (fields_bytes g)) (TestMergeException_appends s) (TestMergeException_groups s)" for s
    unfolding TestMergeException_appends_def TestMergeException_groups_def append.simps
    by (intro list.rel_intros field_written m_TestAllExtensions.written_struct)
  show "mbuf (TestMergeExceptionReader_save t w off m) = mbuf m" for t w off m
    unfolding TestMergeExceptionReader_save_def by (rule tag_switch_keeps) (simp add: TestMergeExceptionReader_cases_def)
  show "fold (\<lambda>e. e) (TestMergeException_stored s) TestMergeException_zero = TestMergeException_norm s" for s
    unfolding TestMergeException_stored_def by (simp add: TestMergeException_zero_def TestMergeException_norm_def float_defaults)
qed (simp_all add: TestMergeException_saved TestMergeException_converted)

interpretation m_TestMergeException: message_codec TestMergeException_content TestMergeException_norm TestMergeException_XXX_PbContentSize TestMergeException_MarshalTo
  "TestMergeExceptionReader_Unmarshal NewTestMergeExceptionReader" TestMergeExceptionReader_ToStruct
  using l_TestMergeException.message
  by (simp only: TestMergeException_content_def [abs_def] TestMergeException_XXX_PbContentSize_def TestMergeException_MarshalTo_def TestMergeExceptionReader_Unmarshal_def [abs_def] TestMergeExceptionReader_ToStruct_def)


end
