(* ===== verification/TestAllTypes_Message.thy ===== *)
theory TestAllTypes_Message
  imports Unittest_Base
begin

text \<open>
  The message type \<^verbatim>\<open>TestAllTypes\<close> of
  \<^verbatim>\<open>src/shared/gremlin_go/bench/gremlin_pb/protobuf_unittest/unittest.pb2.go\<close>: 74 fields of every kind and type, single, repeated,
  with defaults and in a oneof, which is a group of ordinary fields to the generator.
\<close>

section \<open>TestAllTypes: the reader\<close>

definition wireTestAllTypes_OptionalInt32 :: ProtoWireNumber where "wireTestAllTypes_OptionalInt32 = 1"
definition wireTestAllTypes_OptionalInt64 :: ProtoWireNumber where "wireTestAllTypes_OptionalInt64 = 2"
definition wireTestAllTypes_OptionalUint32 :: ProtoWireNumber where "wireTestAllTypes_OptionalUint32 = 3"
definition wireTestAllTypes_OptionalUint64 :: ProtoWireNumber where "wireTestAllTypes_OptionalUint64 = 4"
definition wireTestAllTypes_OptionalSint32 :: ProtoWireNumber where "wireTestAllTypes_OptionalSint32 = 5"
definition wireTestAllTypes_OptionalSint64 :: ProtoWireNumber where "wireTestAllTypes_OptionalSint64 = 6"
definition wireTestAllTypes_OptionalFixed32 :: ProtoWireNumber where "wireTestAllTypes_OptionalFixed32 = 7"
definition wireTestAllTypes_OptionalFixed64 :: ProtoWireNumber where "wireTestAllTypes_OptionalFixed64 = 8"
definition wireTestAllTypes_OptionalSfixed32 :: ProtoWireNumber where "wireTestAllTypes_OptionalSfixed32 = 9"
definition wireTestAllTypes_OptionalSfixed64 :: ProtoWireNumber where "wireTestAllTypes_OptionalSfixed64 = 10"
definition wireTestAllTypes_OptionalFloat :: ProtoWireNumber where "wireTestAllTypes_OptionalFloat = 11"
definition wireTestAllTypes_OptionalDouble :: ProtoWireNumber where "wireTestAllTypes_OptionalDouble = 12"
definition wireTestAllTypes_OptionalBool :: ProtoWireNumber where "wireTestAllTypes_OptionalBool = 13"
definition wireTestAllTypes_OptionalString :: ProtoWireNumber where "wireTestAllTypes_OptionalString = 14"
definition wireTestAllTypes_OptionalBytes :: ProtoWireNumber where "wireTestAllTypes_OptionalBytes = 15"
definition wireTestAllTypes_OptionalNestedMessage :: ProtoWireNumber where "wireTestAllTypes_OptionalNestedMessage = 18"
definition wireTestAllTypes_OptionalForeignMessage :: ProtoWireNumber where "wireTestAllTypes_OptionalForeignMessage = 19"
definition wireTestAllTypes_OptionalImportMessage :: ProtoWireNumber where "wireTestAllTypes_OptionalImportMessage = 20"
definition wireTestAllTypes_OptionalNestedEnum :: ProtoWireNumber where "wireTestAllTypes_OptionalNestedEnum = 21"
definition wireTestAllTypes_OptionalForeignEnum :: ProtoWireNumber where "wireTestAllTypes_OptionalForeignEnum = 22"
definition wireTestAllTypes_OptionalImportEnum :: ProtoWireNumber where "wireTestAllTypes_OptionalImportEnum = 23"
definition wireTestAllTypes_OptionalStringPiece :: ProtoWireNumber where "wireTestAllTypes_OptionalStringPiece = 24"
definition wireTestAllTypes_OptionalCord :: ProtoWireNumber where "wireTestAllTypes_OptionalCord = 25"
definition wireTestAllTypes_OptionalPublicImportMessage :: ProtoWireNumber where "wireTestAllTypes_OptionalPublicImportMessage = 26"
definition wireTestAllTypes_OptionalLazyMessage :: ProtoWireNumber where "wireTestAllTypes_OptionalLazyMessage = 27"
definition wireTestAllTypes_OptionalUnverifiedLazyMessage :: ProtoWireNumber where "wireTestAllTypes_OptionalUnverifiedLazyMessage = 28"
definition wireTestAllTypes_RepeatedInt32 :: ProtoWireNumber where "wireTestAllTypes_RepeatedInt32 = 31"
definition wireTestAllTypes_RepeatedInt64 :: ProtoWireNumber where "wireTestAllTypes_RepeatedInt64 = 32"
definition wireTestAllTypes_RepeatedUint32 :: ProtoWireNumber where "wireTestAllTypes_RepeatedUint32 = 33"
definition wireTestAllTypes_RepeatedUint64 :: ProtoWireNumber where "wireTestAllTypes_RepeatedUint64 = 34"
definition wireTestAllTypes_RepeatedSint32 :: ProtoWireNumber where "wireTestAllTypes_RepeatedSint32 = 35"
definition wireTestAllTypes_RepeatedSint64 :: ProtoWireNumber where "wireTestAllTypes_RepeatedSint64 = 36"
definition wireTestAllTypes_RepeatedFixed32 :: ProtoWireNumber where "wireTestAllTypes_RepeatedFixed32 = 37"
definition wireTestAllTypes_RepeatedFixed64 :: ProtoWireNumber where "wireTestAllTypes_RepeatedFixed64 = 38"
definition wireTestAllTypes_RepeatedSfixed32 :: ProtoWireNumber where "wireTestAllTypes_RepeatedSfixed32 = 39"
definition wireTestAllTypes_RepeatedSfixed64 :: ProtoWireNumber where "wireTestAllTypes_RepeatedSfixed64 = 40"
definition wireTestAllTypes_RepeatedFloat :: ProtoWireNumber where "wireTestAllTypes_RepeatedFloat = 41"
definition wireTestAllTypes_RepeatedDouble :: ProtoWireNumber where "wireTestAllTypes_RepeatedDouble = 42"
definition wireTestAllTypes_RepeatedBool :: ProtoWireNumber where "wireTestAllTypes_RepeatedBool = 43"
definition wireTestAllTypes_RepeatedString :: ProtoWireNumber where "wireTestAllTypes_RepeatedString = 44"
definition wireTestAllTypes_RepeatedBytes :: ProtoWireNumber where "wireTestAllTypes_RepeatedBytes = 45"
definition wireTestAllTypes_RepeatedNestedMessage :: ProtoWireNumber where "wireTestAllTypes_RepeatedNestedMessage = 48"
definition wireTestAllTypes_RepeatedForeignMessage :: ProtoWireNumber where "wireTestAllTypes_RepeatedForeignMessage = 49"
definition wireTestAllTypes_RepeatedImportMessage :: ProtoWireNumber where "wireTestAllTypes_RepeatedImportMessage = 50"
definition wireTestAllTypes_RepeatedNestedEnum :: ProtoWireNumber where "wireTestAllTypes_RepeatedNestedEnum = 51"
definition wireTestAllTypes_RepeatedForeignEnum :: ProtoWireNumber where "wireTestAllTypes_RepeatedForeignEnum = 52"
definition wireTestAllTypes_RepeatedImportEnum :: ProtoWireNumber where "wireTestAllTypes_RepeatedImportEnum = 53"
definition wireTestAllTypes_RepeatedStringPiece :: ProtoWireNumber where "wireTestAllTypes_RepeatedStringPiece = 54"
definition wireTestAllTypes_RepeatedCord :: ProtoWireNumber where "wireTestAllTypes_RepeatedCord = 55"
definition wireTestAllTypes_RepeatedLazyMessage :: ProtoWireNumber where "wireTestAllTypes_RepeatedLazyMessage = 57"
definition wireTestAllTypes_DefaultInt32 :: ProtoWireNumber where "wireTestAllTypes_DefaultInt32 = 61"
definition wireTestAllTypes_DefaultInt64 :: ProtoWireNumber where "wireTestAllTypes_DefaultInt64 = 62"
definition wireTestAllTypes_DefaultUint32 :: ProtoWireNumber where "wireTestAllTypes_DefaultUint32 = 63"
definition wireTestAllTypes_DefaultUint64 :: ProtoWireNumber where "wireTestAllTypes_DefaultUint64 = 64"
definition wireTestAllTypes_DefaultSint32 :: ProtoWireNumber where "wireTestAllTypes_DefaultSint32 = 65"
definition wireTestAllTypes_DefaultSint64 :: ProtoWireNumber where "wireTestAllTypes_DefaultSint64 = 66"
definition wireTestAllTypes_DefaultFixed32 :: ProtoWireNumber where "wireTestAllTypes_DefaultFixed32 = 67"
definition wireTestAllTypes_DefaultFixed64 :: ProtoWireNumber where "wireTestAllTypes_DefaultFixed64 = 68"
definition wireTestAllTypes_DefaultSfixed32 :: ProtoWireNumber where "wireTestAllTypes_DefaultSfixed32 = 69"
definition wireTestAllTypes_DefaultSfixed64 :: ProtoWireNumber where "wireTestAllTypes_DefaultSfixed64 = 70"
definition wireTestAllTypes_DefaultFloat :: ProtoWireNumber where "wireTestAllTypes_DefaultFloat = 71"
definition wireTestAllTypes_DefaultDouble :: ProtoWireNumber where "wireTestAllTypes_DefaultDouble = 72"
definition wireTestAllTypes_DefaultBool :: ProtoWireNumber where "wireTestAllTypes_DefaultBool = 73"
definition wireTestAllTypes_DefaultString :: ProtoWireNumber where "wireTestAllTypes_DefaultString = 74"
definition wireTestAllTypes_DefaultBytes :: ProtoWireNumber where "wireTestAllTypes_DefaultBytes = 75"
definition wireTestAllTypes_DefaultNestedEnum :: ProtoWireNumber where "wireTestAllTypes_DefaultNestedEnum = 81"
definition wireTestAllTypes_DefaultForeignEnum :: ProtoWireNumber where "wireTestAllTypes_DefaultForeignEnum = 82"
definition wireTestAllTypes_DefaultImportEnum :: ProtoWireNumber where "wireTestAllTypes_DefaultImportEnum = 83"
definition wireTestAllTypes_DefaultStringPiece :: ProtoWireNumber where "wireTestAllTypes_DefaultStringPiece = 84"
definition wireTestAllTypes_DefaultCord :: ProtoWireNumber where "wireTestAllTypes_DefaultCord = 85"
definition wireTestAllTypes_OneofUint32 :: ProtoWireNumber where "wireTestAllTypes_OneofUint32 = 111"
definition wireTestAllTypes_OneofNestedMessage :: ProtoWireNumber where "wireTestAllTypes_OneofNestedMessage = 112"
definition wireTestAllTypes_OneofString :: ProtoWireNumber where "wireTestAllTypes_OneofString = 113"
definition wireTestAllTypes_OneofBytes :: ProtoWireNumber where "wireTestAllTypes_OneofBytes = 114"

lemmas wireTestAllTypes =
  wireTestAllTypes_OptionalInt32_def wireTestAllTypes_OptionalInt64_def
  wireTestAllTypes_OptionalUint32_def wireTestAllTypes_OptionalUint64_def
  wireTestAllTypes_OptionalSint32_def wireTestAllTypes_OptionalSint64_def
  wireTestAllTypes_OptionalFixed32_def wireTestAllTypes_OptionalFixed64_def
  wireTestAllTypes_OptionalSfixed32_def wireTestAllTypes_OptionalSfixed64_def
  wireTestAllTypes_OptionalFloat_def wireTestAllTypes_OptionalDouble_def
  wireTestAllTypes_OptionalBool_def wireTestAllTypes_OptionalString_def
  wireTestAllTypes_OptionalBytes_def wireTestAllTypes_OptionalNestedMessage_def
  wireTestAllTypes_OptionalForeignMessage_def wireTestAllTypes_OptionalImportMessage_def
  wireTestAllTypes_OptionalNestedEnum_def wireTestAllTypes_OptionalForeignEnum_def
  wireTestAllTypes_OptionalImportEnum_def wireTestAllTypes_OptionalStringPiece_def
  wireTestAllTypes_OptionalCord_def wireTestAllTypes_OptionalPublicImportMessage_def
  wireTestAllTypes_OptionalLazyMessage_def wireTestAllTypes_OptionalUnverifiedLazyMessage_def
  wireTestAllTypes_RepeatedInt32_def wireTestAllTypes_RepeatedInt64_def
  wireTestAllTypes_RepeatedUint32_def wireTestAllTypes_RepeatedUint64_def
  wireTestAllTypes_RepeatedSint32_def wireTestAllTypes_RepeatedSint64_def
  wireTestAllTypes_RepeatedFixed32_def wireTestAllTypes_RepeatedFixed64_def
  wireTestAllTypes_RepeatedSfixed32_def wireTestAllTypes_RepeatedSfixed64_def
  wireTestAllTypes_RepeatedFloat_def wireTestAllTypes_RepeatedDouble_def
  wireTestAllTypes_RepeatedBool_def wireTestAllTypes_RepeatedString_def
  wireTestAllTypes_RepeatedBytes_def wireTestAllTypes_RepeatedNestedMessage_def
  wireTestAllTypes_RepeatedForeignMessage_def wireTestAllTypes_RepeatedImportMessage_def
  wireTestAllTypes_RepeatedNestedEnum_def wireTestAllTypes_RepeatedForeignEnum_def
  wireTestAllTypes_RepeatedImportEnum_def wireTestAllTypes_RepeatedStringPiece_def
  wireTestAllTypes_RepeatedCord_def wireTestAllTypes_RepeatedLazyMessage_def
  wireTestAllTypes_DefaultInt32_def wireTestAllTypes_DefaultInt64_def
  wireTestAllTypes_DefaultUint32_def wireTestAllTypes_DefaultUint64_def
  wireTestAllTypes_DefaultSint32_def wireTestAllTypes_DefaultSint64_def
  wireTestAllTypes_DefaultFixed32_def wireTestAllTypes_DefaultFixed64_def
  wireTestAllTypes_DefaultSfixed32_def wireTestAllTypes_DefaultSfixed64_def
  wireTestAllTypes_DefaultFloat_def wireTestAllTypes_DefaultDouble_def
  wireTestAllTypes_DefaultBool_def wireTestAllTypes_DefaultString_def
  wireTestAllTypes_DefaultBytes_def wireTestAllTypes_DefaultNestedEnum_def
  wireTestAllTypes_DefaultForeignEnum_def wireTestAllTypes_DefaultImportEnum_def
  wireTestAllTypes_DefaultStringPiece_def wireTestAllTypes_DefaultCord_def
  wireTestAllTypes_OneofUint32_def wireTestAllTypes_OneofNestedMessage_def
  wireTestAllTypes_OneofString_def wireTestAllTypes_OneofBytes_def

record TestAllTypesReader =
  mbuf :: "Reader option"
  cellOptionalInt32 :: "int32 one_cell"
  cellOptionalInt64 :: "int64 one_cell"
  cellOptionalUint32 :: "uint32 one_cell"
  cellOptionalUint64 :: "uint64 one_cell"
  cellOptionalSint32 :: "int32 one_cell"
  cellOptionalSint64 :: "int64 one_cell"
  cellOptionalFixed32 :: "uint32 one_cell"
  cellOptionalFixed64 :: "uint64 one_cell"
  cellOptionalSfixed32 :: "int32 one_cell"
  cellOptionalSfixed64 :: "int64 one_cell"
  cellOptionalFloat :: "float32 one_cell"
  cellOptionalDouble :: "float64 one_cell"
  cellOptionalBool :: "bool one_cell"
  cellOptionalString :: "gostring one_cell"
  cellOptionalBytes :: "(byte list) one_cell"
  cellOptionalNestedMessage :: "(TestAllTypes_NestedMessageReader option) one_cell"
  cellOptionalForeignMessage :: "(ForeignMessageReader option) one_cell"
  cellOptionalImportMessage :: "(ImportMessageReader option) one_cell"
  cellOptionalNestedEnum :: "TestAllTypes_NestedEnum one_cell"
  cellOptionalForeignEnum :: "ForeignEnum one_cell"
  cellOptionalImportEnum :: "ImportEnum one_cell"
  cellOptionalStringPiece :: "gostring one_cell"
  cellOptionalCord :: "gostring one_cell"
  cellOptionalPublicImportMessage :: "(PublicImportMessageReader option) one_cell"
  cellOptionalLazyMessage :: "(TestAllTypes_NestedMessageReader option) one_cell"
  cellOptionalUnverifiedLazyMessage :: "(TestAllTypes_NestedMessageReader option) one_cell"
  cellRepeatedInt32 :: "int32 packed_cell"
  cellRepeatedInt64 :: "int64 packed_cell"
  cellRepeatedUint32 :: "uint32 packed_cell"
  cellRepeatedUint64 :: "uint64 packed_cell"
  cellRepeatedSint32 :: "int32 packed_cell"
  cellRepeatedSint64 :: "int64 packed_cell"
  cellRepeatedFixed32 :: "uint32 packed_cell"
  cellRepeatedFixed64 :: "uint64 packed_cell"
  cellRepeatedSfixed32 :: "int32 packed_cell"
  cellRepeatedSfixed64 :: "int64 packed_cell"
  cellRepeatedFloat :: "float32 packed_cell"
  cellRepeatedDouble :: "float64 packed_cell"
  cellRepeatedBool :: "bool packed_cell"
  cellRepeatedString :: "gostring list_cell"
  cellRepeatedBytes :: "(byte list) list_cell"
  cellRepeatedNestedMessage :: "(TestAllTypes_NestedMessageReader option) list_cell"
  cellRepeatedForeignMessage :: "(ForeignMessageReader option) list_cell"
  cellRepeatedImportMessage :: "(ImportMessageReader option) list_cell"
  cellRepeatedNestedEnum :: "TestAllTypes_NestedEnum packed_cell"
  cellRepeatedForeignEnum :: "ForeignEnum packed_cell"
  cellRepeatedImportEnum :: "ImportEnum packed_cell"
  cellRepeatedStringPiece :: "gostring list_cell"
  cellRepeatedCord :: "gostring list_cell"
  cellRepeatedLazyMessage :: "(TestAllTypes_NestedMessageReader option) list_cell"
  cellDefaultInt32 :: "int32 one_cell"
  cellDefaultInt64 :: "int64 one_cell"
  cellDefaultUint32 :: "uint32 one_cell"
  cellDefaultUint64 :: "uint64 one_cell"
  cellDefaultSint32 :: "int32 one_cell"
  cellDefaultSint64 :: "int64 one_cell"
  cellDefaultFixed32 :: "uint32 one_cell"
  cellDefaultFixed64 :: "uint64 one_cell"
  cellDefaultSfixed32 :: "int32 one_cell"
  cellDefaultSfixed64 :: "int64 one_cell"
  cellDefaultFloat :: "float32 one_cell"
  cellDefaultDouble :: "float64 one_cell"
  cellDefaultBool :: "bool one_cell"
  cellDefaultString :: "gostring one_cell"
  cellDefaultBytes :: "(byte list) one_cell"
  cellDefaultNestedEnum :: "TestAllTypes_NestedEnum one_cell"
  cellDefaultForeignEnum :: "ForeignEnum one_cell"
  cellDefaultImportEnum :: "ImportEnum one_cell"
  cellDefaultStringPiece :: "gostring one_cell"
  cellDefaultCord :: "gostring one_cell"
  cellOneofUint32 :: "uint32 one_cell"
  cellOneofNestedMessage :: "(TestAllTypes_NestedMessageReader option) one_cell"
  cellOneofString :: "gostring one_cell"
  cellOneofBytes :: "(byte list) one_cell"

definition NewTestAllTypesReader :: TestAllTypesReader where
  "NewTestAllTypesReader = \<lparr>
     mbuf = None, cellOptionalInt32 = newCell 0 0, cellOptionalInt64 = newCell 0 0,
     cellOptionalUint32 = newCell 0 0, cellOptionalUint64 = newCell 0 0,
     cellOptionalSint32 = newCell 0 0, cellOptionalSint64 = newCell 0 0,
     cellOptionalFixed32 = newCell 0 0, cellOptionalFixed64 = newCell 0 0,
     cellOptionalSfixed32 = newCell 0 0, cellOptionalSfixed64 = newCell 0 0,
     cellOptionalFloat = newCell 0 0, cellOptionalDouble = newCell 0 0,
     cellOptionalBool = newCell False 0, cellOptionalString = newCell [] 0,
     cellOptionalBytes = newCell [] 0, cellOptionalNestedMessage = newCell None 0,
     cellOptionalForeignMessage = newCell None 0, cellOptionalImportMessage = newCell None 0,
     cellOptionalNestedEnum = newCell 0 0, cellOptionalForeignEnum = newCell 0 0,
     cellOptionalImportEnum = newCell 0 0, cellOptionalStringPiece = newCell [] 0,
     cellOptionalCord = newCell [] 0, cellOptionalPublicImportMessage = newCell None 0,
     cellOptionalLazyMessage = newCell None 0,
     cellOptionalUnverifiedLazyMessage = newCell None 0,
     cellRepeatedInt32 = newCell [] ([], []), cellRepeatedInt64 = newCell [] ([], []),
     cellRepeatedUint32 = newCell [] ([], []), cellRepeatedUint64 = newCell [] ([], []),
     cellRepeatedSint32 = newCell [] ([], []), cellRepeatedSint64 = newCell [] ([], []),
     cellRepeatedFixed32 = newCell [] ([], []), cellRepeatedFixed64 = newCell [] ([], []),
     cellRepeatedSfixed32 = newCell [] ([], []), cellRepeatedSfixed64 = newCell [] ([], []),
     cellRepeatedFloat = newCell [] ([], []), cellRepeatedDouble = newCell [] ([], []),
     cellRepeatedBool = newCell [] ([], []), cellRepeatedString = newCell [] [],
     cellRepeatedBytes = newCell [] [], cellRepeatedNestedMessage = newCell [] [],
     cellRepeatedForeignMessage = newCell [] [], cellRepeatedImportMessage = newCell [] [],
     cellRepeatedNestedEnum = newCell [] ([], []),
     cellRepeatedForeignEnum = newCell [] ([], []),
     cellRepeatedImportEnum = newCell [] ([], []), cellRepeatedStringPiece = newCell [] [],
     cellRepeatedCord = newCell [] [], cellRepeatedLazyMessage = newCell [] [],
     cellDefaultInt32 = newCell 0 0, cellDefaultInt64 = newCell 0 0,
     cellDefaultUint32 = newCell 0 0, cellDefaultUint64 = newCell 0 0,
     cellDefaultSint32 = newCell 0 0, cellDefaultSint64 = newCell 0 0,
     cellDefaultFixed32 = newCell 0 0, cellDefaultFixed64 = newCell 0 0,
     cellDefaultSfixed32 = newCell 0 0, cellDefaultSfixed64 = newCell 0 0,
     cellDefaultFloat = newCell 0 0, cellDefaultDouble = newCell 0 0,
     cellDefaultBool = newCell False 0, cellDefaultString = newCell [] 0,
     cellDefaultBytes = newCell [] 0, cellDefaultNestedEnum = newCell 0 0,
     cellDefaultForeignEnum = newCell 0 0, cellDefaultImportEnum = newCell 0 0,
     cellDefaultStringPiece = newCell [] 0, cellDefaultCord = newCell [] 0,
     cellOneofUint32 = newCell 0 0, cellOneofNestedMessage = newCell None 0,
     cellOneofString = newCell [] 0, cellOneofBytes = newCell [] 0\<rparr>"

definition TestAllTypesReader_readOptionalInt32 :: "TestAllTypesReader \<Rightarrow> (int32 \<times> TestAllTypesReader) run" where
  "TestAllTypesReader_readOptionalInt32 = readCell cellOptionalInt32 cellOptionalInt32_update mbuf (readOne ReadInt32 0)"

definition TestAllTypesReader_GetOptionalInt32 :: "TestAllTypesReader option \<Rightarrow> (int32 \<times> TestAllTypesReader option) run" where
  "TestAllTypesReader_GetOptionalInt32 = getter TestAllTypesReader_readOptionalInt32 0"

definition TestAllTypesReader_readOptionalInt64 :: "TestAllTypesReader \<Rightarrow> (int64 \<times> TestAllTypesReader) run" where
  "TestAllTypesReader_readOptionalInt64 = readCell cellOptionalInt64 cellOptionalInt64_update mbuf (readOne ReadInt64 0)"

definition TestAllTypesReader_GetOptionalInt64 :: "TestAllTypesReader option \<Rightarrow> (int64 \<times> TestAllTypesReader option) run" where
  "TestAllTypesReader_GetOptionalInt64 = getter TestAllTypesReader_readOptionalInt64 0"

definition TestAllTypesReader_readOptionalUint32 :: "TestAllTypesReader \<Rightarrow> (uint32 \<times> TestAllTypesReader) run" where
  "TestAllTypesReader_readOptionalUint32 = readCell cellOptionalUint32 cellOptionalUint32_update mbuf (readOne ReadUint32 0)"

definition TestAllTypesReader_GetOptionalUint32 :: "TestAllTypesReader option \<Rightarrow> (uint32 \<times> TestAllTypesReader option) run" where
  "TestAllTypesReader_GetOptionalUint32 = getter TestAllTypesReader_readOptionalUint32 0"

definition TestAllTypesReader_readOptionalUint64 :: "TestAllTypesReader \<Rightarrow> (uint64 \<times> TestAllTypesReader) run" where
  "TestAllTypesReader_readOptionalUint64 = readCell cellOptionalUint64 cellOptionalUint64_update mbuf (readOne ReadUint64 0)"

definition TestAllTypesReader_GetOptionalUint64 :: "TestAllTypesReader option \<Rightarrow> (uint64 \<times> TestAllTypesReader option) run" where
  "TestAllTypesReader_GetOptionalUint64 = getter TestAllTypesReader_readOptionalUint64 0"

definition TestAllTypesReader_readOptionalSint32 :: "TestAllTypesReader \<Rightarrow> (int32 \<times> TestAllTypesReader) run" where
  "TestAllTypesReader_readOptionalSint32 = readCell cellOptionalSint32 cellOptionalSint32_update mbuf (readOne ReadSInt32 0)"

definition TestAllTypesReader_GetOptionalSint32 :: "TestAllTypesReader option \<Rightarrow> (int32 \<times> TestAllTypesReader option) run" where
  "TestAllTypesReader_GetOptionalSint32 = getter TestAllTypesReader_readOptionalSint32 0"

definition TestAllTypesReader_readOptionalSint64 :: "TestAllTypesReader \<Rightarrow> (int64 \<times> TestAllTypesReader) run" where
  "TestAllTypesReader_readOptionalSint64 = readCell cellOptionalSint64 cellOptionalSint64_update mbuf (readOne ReadSInt64 0)"

definition TestAllTypesReader_GetOptionalSint64 :: "TestAllTypesReader option \<Rightarrow> (int64 \<times> TestAllTypesReader option) run" where
  "TestAllTypesReader_GetOptionalSint64 = getter TestAllTypesReader_readOptionalSint64 0"

definition TestAllTypesReader_readOptionalFixed32 :: "TestAllTypesReader \<Rightarrow> (uint32 \<times> TestAllTypesReader) run" where
  "TestAllTypesReader_readOptionalFixed32 = readCell cellOptionalFixed32 cellOptionalFixed32_update mbuf (readOne ReadFixed32 0)"

definition TestAllTypesReader_GetOptionalFixed32 :: "TestAllTypesReader option \<Rightarrow> (uint32 \<times> TestAllTypesReader option) run" where
  "TestAllTypesReader_GetOptionalFixed32 = getter TestAllTypesReader_readOptionalFixed32 0"

definition TestAllTypesReader_readOptionalFixed64 :: "TestAllTypesReader \<Rightarrow> (uint64 \<times> TestAllTypesReader) run" where
  "TestAllTypesReader_readOptionalFixed64 = readCell cellOptionalFixed64 cellOptionalFixed64_update mbuf (readOne ReadFixed64 0)"

definition TestAllTypesReader_GetOptionalFixed64 :: "TestAllTypesReader option \<Rightarrow> (uint64 \<times> TestAllTypesReader option) run" where
  "TestAllTypesReader_GetOptionalFixed64 = getter TestAllTypesReader_readOptionalFixed64 0"

definition TestAllTypesReader_readOptionalSfixed32 :: "TestAllTypesReader \<Rightarrow> (int32 \<times> TestAllTypesReader) run" where
  "TestAllTypesReader_readOptionalSfixed32 = readCell cellOptionalSfixed32 cellOptionalSfixed32_update mbuf (readOne ReadSFixed32 0)"

definition TestAllTypesReader_GetOptionalSfixed32 :: "TestAllTypesReader option \<Rightarrow> (int32 \<times> TestAllTypesReader option) run" where
  "TestAllTypesReader_GetOptionalSfixed32 = getter TestAllTypesReader_readOptionalSfixed32 0"

definition TestAllTypesReader_readOptionalSfixed64 :: "TestAllTypesReader \<Rightarrow> (int64 \<times> TestAllTypesReader) run" where
  "TestAllTypesReader_readOptionalSfixed64 = readCell cellOptionalSfixed64 cellOptionalSfixed64_update mbuf (readOne ReadSFixed64 0)"

definition TestAllTypesReader_GetOptionalSfixed64 :: "TestAllTypesReader option \<Rightarrow> (int64 \<times> TestAllTypesReader option) run" where
  "TestAllTypesReader_GetOptionalSfixed64 = getter TestAllTypesReader_readOptionalSfixed64 0"

definition TestAllTypesReader_readOptionalFloat :: "TestAllTypesReader \<Rightarrow> (float32 \<times> TestAllTypesReader) run" where
  "TestAllTypesReader_readOptionalFloat = readCell cellOptionalFloat cellOptionalFloat_update mbuf (readOne ReadFloat32 0x0)"

definition TestAllTypesReader_GetOptionalFloat :: "TestAllTypesReader option \<Rightarrow> (float32 \<times> TestAllTypesReader option) run" where
  "TestAllTypesReader_GetOptionalFloat = getter TestAllTypesReader_readOptionalFloat 0x0"

definition TestAllTypesReader_readOptionalDouble :: "TestAllTypesReader \<Rightarrow> (float64 \<times> TestAllTypesReader) run" where
  "TestAllTypesReader_readOptionalDouble = readCell cellOptionalDouble cellOptionalDouble_update mbuf (readOne ReadFloat64 0x0)"

definition TestAllTypesReader_GetOptionalDouble :: "TestAllTypesReader option \<Rightarrow> (float64 \<times> TestAllTypesReader option) run" where
  "TestAllTypesReader_GetOptionalDouble = getter TestAllTypesReader_readOptionalDouble 0x0"

definition TestAllTypesReader_readOptionalBool :: "TestAllTypesReader \<Rightarrow> (bool \<times> TestAllTypesReader) run" where
  "TestAllTypesReader_readOptionalBool = readCell cellOptionalBool cellOptionalBool_update mbuf (readOne ReadBool False)"

definition TestAllTypesReader_GetOptionalBool :: "TestAllTypesReader option \<Rightarrow> (bool \<times> TestAllTypesReader option) run" where
  "TestAllTypesReader_GetOptionalBool = getter TestAllTypesReader_readOptionalBool False"

definition TestAllTypesReader_readOptionalString :: "TestAllTypesReader \<Rightarrow> (gostring \<times> TestAllTypesReader) run" where
  "TestAllTypesReader_readOptionalString = readCell cellOptionalString cellOptionalString_update mbuf (readOne ReadString [])"

definition TestAllTypesReader_GetOptionalString :: "TestAllTypesReader option \<Rightarrow> (gostring \<times> TestAllTypesReader option) run" where
  "TestAllTypesReader_GetOptionalString = getter TestAllTypesReader_readOptionalString []"

definition TestAllTypesReader_readOptionalBytes :: "TestAllTypesReader \<Rightarrow> (byte list \<times> TestAllTypesReader) run" where
  "TestAllTypesReader_readOptionalBytes = readCell cellOptionalBytes cellOptionalBytes_update mbuf (readOne ReadByteList [])"

definition TestAllTypesReader_GetOptionalBytes :: "TestAllTypesReader option \<Rightarrow> (byte list \<times> TestAllTypesReader option) run" where
  "TestAllTypesReader_GetOptionalBytes = getter TestAllTypesReader_readOptionalBytes []"

definition TestAllTypesReader_readOptionalNestedMessage :: "TestAllTypesReader \<Rightarrow> (TestAllTypes_NestedMessageReader option \<times> TestAllTypesReader) run" where
  "TestAllTypesReader_readOptionalNestedMessage = readCell cellOptionalNestedMessage cellOptionalNestedMessage_update mbuf (structReader (TestAllTypes_NestedMessageReader_Unmarshal NewTestAllTypes_NestedMessageReader))"

definition TestAllTypesReader_GetOptionalNestedMessage :: "TestAllTypesReader option \<Rightarrow> (TestAllTypes_NestedMessageReader option \<times> TestAllTypesReader option) run" where
  "TestAllTypesReader_GetOptionalNestedMessage = getter TestAllTypesReader_readOptionalNestedMessage None"

definition TestAllTypesReader_readOptionalForeignMessage :: "TestAllTypesReader \<Rightarrow> (ForeignMessageReader option \<times> TestAllTypesReader) run" where
  "TestAllTypesReader_readOptionalForeignMessage = readCell cellOptionalForeignMessage cellOptionalForeignMessage_update mbuf (structReader (ForeignMessageReader_Unmarshal NewForeignMessageReader))"

definition TestAllTypesReader_GetOptionalForeignMessage :: "TestAllTypesReader option \<Rightarrow> (ForeignMessageReader option \<times> TestAllTypesReader option) run" where
  "TestAllTypesReader_GetOptionalForeignMessage = getter TestAllTypesReader_readOptionalForeignMessage None"

definition TestAllTypesReader_readOptionalImportMessage :: "TestAllTypesReader \<Rightarrow> (ImportMessageReader option \<times> TestAllTypesReader) run" where
  "TestAllTypesReader_readOptionalImportMessage = readCell cellOptionalImportMessage cellOptionalImportMessage_update mbuf (structReader (ImportMessageReader_Unmarshal NewImportMessageReader))"

definition TestAllTypesReader_GetOptionalImportMessage :: "TestAllTypesReader option \<Rightarrow> (ImportMessageReader option \<times> TestAllTypesReader option) run" where
  "TestAllTypesReader_GetOptionalImportMessage = getter TestAllTypesReader_readOptionalImportMessage None"

definition TestAllTypesReader_readOptionalNestedEnum :: "TestAllTypesReader \<Rightarrow> (TestAllTypes_NestedEnum \<times> TestAllTypesReader) run" where
  "TestAllTypesReader_readOptionalNestedEnum = readCell cellOptionalNestedEnum cellOptionalNestedEnum_update mbuf (readOne ReadInt32 0)"

definition TestAllTypesReader_GetOptionalNestedEnum :: "TestAllTypesReader option \<Rightarrow> (TestAllTypes_NestedEnum \<times> TestAllTypesReader option) run" where
  "TestAllTypesReader_GetOptionalNestedEnum = getter TestAllTypesReader_readOptionalNestedEnum 0"

definition TestAllTypesReader_readOptionalForeignEnum :: "TestAllTypesReader \<Rightarrow> (ForeignEnum \<times> TestAllTypesReader) run" where
  "TestAllTypesReader_readOptionalForeignEnum = readCell cellOptionalForeignEnum cellOptionalForeignEnum_update mbuf (readOne ReadInt32 0)"

definition TestAllTypesReader_GetOptionalForeignEnum :: "TestAllTypesReader option \<Rightarrow> (ForeignEnum \<times> TestAllTypesReader option) run" where
  "TestAllTypesReader_GetOptionalForeignEnum = getter TestAllTypesReader_readOptionalForeignEnum 0"

definition TestAllTypesReader_readOptionalImportEnum :: "TestAllTypesReader \<Rightarrow> (ImportEnum \<times> TestAllTypesReader) run" where
  "TestAllTypesReader_readOptionalImportEnum = readCell cellOptionalImportEnum cellOptionalImportEnum_update mbuf (readOne ReadInt32 0)"

definition TestAllTypesReader_GetOptionalImportEnum :: "TestAllTypesReader option \<Rightarrow> (ImportEnum \<times> TestAllTypesReader option) run" where
  "TestAllTypesReader_GetOptionalImportEnum = getter TestAllTypesReader_readOptionalImportEnum 0"

definition TestAllTypesReader_readOptionalStringPiece :: "TestAllTypesReader \<Rightarrow> (gostring \<times> TestAllTypesReader) run" where
  "TestAllTypesReader_readOptionalStringPiece = readCell cellOptionalStringPiece cellOptionalStringPiece_update mbuf (readOne ReadString [])"

definition TestAllTypesReader_GetOptionalStringPiece :: "TestAllTypesReader option \<Rightarrow> (gostring \<times> TestAllTypesReader option) run" where
  "TestAllTypesReader_GetOptionalStringPiece = getter TestAllTypesReader_readOptionalStringPiece []"

definition TestAllTypesReader_readOptionalCord :: "TestAllTypesReader \<Rightarrow> (gostring \<times> TestAllTypesReader) run" where
  "TestAllTypesReader_readOptionalCord = readCell cellOptionalCord cellOptionalCord_update mbuf (readOne ReadString [])"

definition TestAllTypesReader_GetOptionalCord :: "TestAllTypesReader option \<Rightarrow> (gostring \<times> TestAllTypesReader option) run" where
  "TestAllTypesReader_GetOptionalCord = getter TestAllTypesReader_readOptionalCord []"

definition TestAllTypesReader_readOptionalPublicImportMessage :: "TestAllTypesReader \<Rightarrow> (PublicImportMessageReader option \<times> TestAllTypesReader) run" where
  "TestAllTypesReader_readOptionalPublicImportMessage = readCell cellOptionalPublicImportMessage cellOptionalPublicImportMessage_update mbuf (structReader (PublicImportMessageReader_Unmarshal NewPublicImportMessageReader))"

definition TestAllTypesReader_GetOptionalPublicImportMessage :: "TestAllTypesReader option \<Rightarrow> (PublicImportMessageReader option \<times> TestAllTypesReader option) run" where
  "TestAllTypesReader_GetOptionalPublicImportMessage = getter TestAllTypesReader_readOptionalPublicImportMessage None"

definition TestAllTypesReader_readOptionalLazyMessage :: "TestAllTypesReader \<Rightarrow> (TestAllTypes_NestedMessageReader option \<times> TestAllTypesReader) run" where
  "TestAllTypesReader_readOptionalLazyMessage = readCell cellOptionalLazyMessage cellOptionalLazyMessage_update mbuf (structReader (TestAllTypes_NestedMessageReader_Unmarshal NewTestAllTypes_NestedMessageReader))"

definition TestAllTypesReader_GetOptionalLazyMessage :: "TestAllTypesReader option \<Rightarrow> (TestAllTypes_NestedMessageReader option \<times> TestAllTypesReader option) run" where
  "TestAllTypesReader_GetOptionalLazyMessage = getter TestAllTypesReader_readOptionalLazyMessage None"

definition TestAllTypesReader_readOptionalUnverifiedLazyMessage :: "TestAllTypesReader \<Rightarrow> (TestAllTypes_NestedMessageReader option \<times> TestAllTypesReader) run" where
  "TestAllTypesReader_readOptionalUnverifiedLazyMessage = readCell cellOptionalUnverifiedLazyMessage cellOptionalUnverifiedLazyMessage_update mbuf (structReader (TestAllTypes_NestedMessageReader_Unmarshal NewTestAllTypes_NestedMessageReader))"

definition TestAllTypesReader_GetOptionalUnverifiedLazyMessage :: "TestAllTypesReader option \<Rightarrow> (TestAllTypes_NestedMessageReader option \<times> TestAllTypesReader option) run" where
  "TestAllTypesReader_GetOptionalUnverifiedLazyMessage = getter TestAllTypesReader_readOptionalUnverifiedLazyMessage None"

definition TestAllTypesReader_readRepeatedInt32 :: "TestAllTypesReader \<Rightarrow> (int32 list \<times> TestAllTypesReader) run" where
  "TestAllTypesReader_readRepeatedInt32 = readCell cellRepeatedInt32 cellRepeatedInt32_update mbuf (readPacked ReadInt32 SizedReadInt32 0)"

definition TestAllTypesReader_GetRepeatedInt32 :: "TestAllTypesReader option \<Rightarrow> (int32 list \<times> TestAllTypesReader option) run" where
  "TestAllTypesReader_GetRepeatedInt32 = getter TestAllTypesReader_readRepeatedInt32 []"

definition TestAllTypesReader_readRepeatedInt64 :: "TestAllTypesReader \<Rightarrow> (int64 list \<times> TestAllTypesReader) run" where
  "TestAllTypesReader_readRepeatedInt64 = readCell cellRepeatedInt64 cellRepeatedInt64_update mbuf (readPacked ReadInt64 SizedReadInt64 0)"

definition TestAllTypesReader_GetRepeatedInt64 :: "TestAllTypesReader option \<Rightarrow> (int64 list \<times> TestAllTypesReader option) run" where
  "TestAllTypesReader_GetRepeatedInt64 = getter TestAllTypesReader_readRepeatedInt64 []"

definition TestAllTypesReader_readRepeatedUint32 :: "TestAllTypesReader \<Rightarrow> (uint32 list \<times> TestAllTypesReader) run" where
  "TestAllTypesReader_readRepeatedUint32 = readCell cellRepeatedUint32 cellRepeatedUint32_update mbuf (readPacked ReadUint32 SizedReadUint32 0)"

definition TestAllTypesReader_GetRepeatedUint32 :: "TestAllTypesReader option \<Rightarrow> (uint32 list \<times> TestAllTypesReader option) run" where
  "TestAllTypesReader_GetRepeatedUint32 = getter TestAllTypesReader_readRepeatedUint32 []"

definition TestAllTypesReader_readRepeatedUint64 :: "TestAllTypesReader \<Rightarrow> (uint64 list \<times> TestAllTypesReader) run" where
  "TestAllTypesReader_readRepeatedUint64 = readCell cellRepeatedUint64 cellRepeatedUint64_update mbuf (readPacked ReadUint64 SizedReadUint64 0)"

definition TestAllTypesReader_GetRepeatedUint64 :: "TestAllTypesReader option \<Rightarrow> (uint64 list \<times> TestAllTypesReader option) run" where
  "TestAllTypesReader_GetRepeatedUint64 = getter TestAllTypesReader_readRepeatedUint64 []"

definition TestAllTypesReader_readRepeatedSint32 :: "TestAllTypesReader \<Rightarrow> (int32 list \<times> TestAllTypesReader) run" where
  "TestAllTypesReader_readRepeatedSint32 = readCell cellRepeatedSint32 cellRepeatedSint32_update mbuf (readPacked ReadSInt32 SizedReadSInt32 0)"

definition TestAllTypesReader_GetRepeatedSint32 :: "TestAllTypesReader option \<Rightarrow> (int32 list \<times> TestAllTypesReader option) run" where
  "TestAllTypesReader_GetRepeatedSint32 = getter TestAllTypesReader_readRepeatedSint32 []"

definition TestAllTypesReader_readRepeatedSint64 :: "TestAllTypesReader \<Rightarrow> (int64 list \<times> TestAllTypesReader) run" where
  "TestAllTypesReader_readRepeatedSint64 = readCell cellRepeatedSint64 cellRepeatedSint64_update mbuf (readPacked ReadSInt64 SizedReadSInt64 0)"

definition TestAllTypesReader_GetRepeatedSint64 :: "TestAllTypesReader option \<Rightarrow> (int64 list \<times> TestAllTypesReader option) run" where
  "TestAllTypesReader_GetRepeatedSint64 = getter TestAllTypesReader_readRepeatedSint64 []"

definition TestAllTypesReader_readRepeatedFixed32 :: "TestAllTypesReader \<Rightarrow> (uint32 list \<times> TestAllTypesReader) run" where
  "TestAllTypesReader_readRepeatedFixed32 = readCell cellRepeatedFixed32 cellRepeatedFixed32_update mbuf (readPacked ReadFixed32 SizedReadFixed32 0)"

definition TestAllTypesReader_GetRepeatedFixed32 :: "TestAllTypesReader option \<Rightarrow> (uint32 list \<times> TestAllTypesReader option) run" where
  "TestAllTypesReader_GetRepeatedFixed32 = getter TestAllTypesReader_readRepeatedFixed32 []"

definition TestAllTypesReader_readRepeatedFixed64 :: "TestAllTypesReader \<Rightarrow> (uint64 list \<times> TestAllTypesReader) run" where
  "TestAllTypesReader_readRepeatedFixed64 = readCell cellRepeatedFixed64 cellRepeatedFixed64_update mbuf (readPacked ReadFixed64 SizedReadFixed64 0)"

definition TestAllTypesReader_GetRepeatedFixed64 :: "TestAllTypesReader option \<Rightarrow> (uint64 list \<times> TestAllTypesReader option) run" where
  "TestAllTypesReader_GetRepeatedFixed64 = getter TestAllTypesReader_readRepeatedFixed64 []"

definition TestAllTypesReader_readRepeatedSfixed32 :: "TestAllTypesReader \<Rightarrow> (int32 list \<times> TestAllTypesReader) run" where
  "TestAllTypesReader_readRepeatedSfixed32 = readCell cellRepeatedSfixed32 cellRepeatedSfixed32_update mbuf (readPacked ReadSFixed32 SizedReadSFixed32 0)"

definition TestAllTypesReader_GetRepeatedSfixed32 :: "TestAllTypesReader option \<Rightarrow> (int32 list \<times> TestAllTypesReader option) run" where
  "TestAllTypesReader_GetRepeatedSfixed32 = getter TestAllTypesReader_readRepeatedSfixed32 []"

definition TestAllTypesReader_readRepeatedSfixed64 :: "TestAllTypesReader \<Rightarrow> (int64 list \<times> TestAllTypesReader) run" where
  "TestAllTypesReader_readRepeatedSfixed64 = readCell cellRepeatedSfixed64 cellRepeatedSfixed64_update mbuf (readPacked ReadSFixed64 SizedReadSFixed64 0)"

definition TestAllTypesReader_GetRepeatedSfixed64 :: "TestAllTypesReader option \<Rightarrow> (int64 list \<times> TestAllTypesReader option) run" where
  "TestAllTypesReader_GetRepeatedSfixed64 = getter TestAllTypesReader_readRepeatedSfixed64 []"

definition TestAllTypesReader_readRepeatedFloat :: "TestAllTypesReader \<Rightarrow> (float32 list \<times> TestAllTypesReader) run" where
  "TestAllTypesReader_readRepeatedFloat = readCell cellRepeatedFloat cellRepeatedFloat_update mbuf (readPacked ReadFloat32 SizedReadFloat32 0)"

definition TestAllTypesReader_GetRepeatedFloat :: "TestAllTypesReader option \<Rightarrow> (float32 list \<times> TestAllTypesReader option) run" where
  "TestAllTypesReader_GetRepeatedFloat = getter TestAllTypesReader_readRepeatedFloat []"

definition TestAllTypesReader_readRepeatedDouble :: "TestAllTypesReader \<Rightarrow> (float64 list \<times> TestAllTypesReader) run" where
  "TestAllTypesReader_readRepeatedDouble = readCell cellRepeatedDouble cellRepeatedDouble_update mbuf (readPacked ReadFloat64 SizedReadFloat64 0)"

definition TestAllTypesReader_GetRepeatedDouble :: "TestAllTypesReader option \<Rightarrow> (float64 list \<times> TestAllTypesReader option) run" where
  "TestAllTypesReader_GetRepeatedDouble = getter TestAllTypesReader_readRepeatedDouble []"

definition TestAllTypesReader_readRepeatedBool :: "TestAllTypesReader \<Rightarrow> (bool list \<times> TestAllTypesReader) run" where
  "TestAllTypesReader_readRepeatedBool = readCell cellRepeatedBool cellRepeatedBool_update mbuf (readPacked ReadBool SizedReadBool False)"

definition TestAllTypesReader_GetRepeatedBool :: "TestAllTypesReader option \<Rightarrow> (bool list \<times> TestAllTypesReader option) run" where
  "TestAllTypesReader_GetRepeatedBool = getter TestAllTypesReader_readRepeatedBool []"

definition TestAllTypesReader_readRepeatedString :: "TestAllTypesReader \<Rightarrow> (gostring list \<times> TestAllTypesReader) run" where
  "TestAllTypesReader_readRepeatedString = readCell cellRepeatedString cellRepeatedString_update mbuf (readList ReadString [])"

definition TestAllTypesReader_GetRepeatedString :: "TestAllTypesReader option \<Rightarrow> (gostring list \<times> TestAllTypesReader option) run" where
  "TestAllTypesReader_GetRepeatedString = getter TestAllTypesReader_readRepeatedString []"

definition TestAllTypesReader_readRepeatedBytes :: "TestAllTypesReader \<Rightarrow> ((byte list) list \<times> TestAllTypesReader) run" where
  "TestAllTypesReader_readRepeatedBytes = readCell cellRepeatedBytes cellRepeatedBytes_update mbuf (readList ReadByteList [])"

definition TestAllTypesReader_GetRepeatedBytes :: "TestAllTypesReader option \<Rightarrow> ((byte list) list \<times> TestAllTypesReader option) run" where
  "TestAllTypesReader_GetRepeatedBytes = getter TestAllTypesReader_readRepeatedBytes []"

definition TestAllTypesReader_readRepeatedNestedMessage :: "TestAllTypesReader \<Rightarrow> ((TestAllTypes_NestedMessageReader option) list \<times> TestAllTypesReader) run" where
  "TestAllTypesReader_readRepeatedNestedMessage = readCell cellRepeatedNestedMessage cellRepeatedNestedMessage_update mbuf (readStructs (TestAllTypes_NestedMessageReader_Unmarshal NewTestAllTypes_NestedMessageReader))"

definition TestAllTypesReader_GetRepeatedNestedMessage :: "TestAllTypesReader option \<Rightarrow> ((TestAllTypes_NestedMessageReader option) list \<times> TestAllTypesReader option) run" where
  "TestAllTypesReader_GetRepeatedNestedMessage = getter TestAllTypesReader_readRepeatedNestedMessage []"

definition TestAllTypesReader_readRepeatedForeignMessage :: "TestAllTypesReader \<Rightarrow> ((ForeignMessageReader option) list \<times> TestAllTypesReader) run" where
  "TestAllTypesReader_readRepeatedForeignMessage = readCell cellRepeatedForeignMessage cellRepeatedForeignMessage_update mbuf (readStructs (ForeignMessageReader_Unmarshal NewForeignMessageReader))"

definition TestAllTypesReader_GetRepeatedForeignMessage :: "TestAllTypesReader option \<Rightarrow> ((ForeignMessageReader option) list \<times> TestAllTypesReader option) run" where
  "TestAllTypesReader_GetRepeatedForeignMessage = getter TestAllTypesReader_readRepeatedForeignMessage []"

definition TestAllTypesReader_readRepeatedImportMessage :: "TestAllTypesReader \<Rightarrow> ((ImportMessageReader option) list \<times> TestAllTypesReader) run" where
  "TestAllTypesReader_readRepeatedImportMessage = readCell cellRepeatedImportMessage cellRepeatedImportMessage_update mbuf (readStructs (ImportMessageReader_Unmarshal NewImportMessageReader))"

definition TestAllTypesReader_GetRepeatedImportMessage :: "TestAllTypesReader option \<Rightarrow> ((ImportMessageReader option) list \<times> TestAllTypesReader option) run" where
  "TestAllTypesReader_GetRepeatedImportMessage = getter TestAllTypesReader_readRepeatedImportMessage []"

definition TestAllTypesReader_readRepeatedNestedEnum :: "TestAllTypesReader \<Rightarrow> (TestAllTypes_NestedEnum list \<times> TestAllTypesReader) run" where
  "TestAllTypesReader_readRepeatedNestedEnum = readCell cellRepeatedNestedEnum cellRepeatedNestedEnum_update mbuf (readPacked ReadInt32 SizedReadInt32 0)"

definition TestAllTypesReader_GetRepeatedNestedEnum :: "TestAllTypesReader option \<Rightarrow> (TestAllTypes_NestedEnum list \<times> TestAllTypesReader option) run" where
  "TestAllTypesReader_GetRepeatedNestedEnum = getter TestAllTypesReader_readRepeatedNestedEnum []"

definition TestAllTypesReader_readRepeatedForeignEnum :: "TestAllTypesReader \<Rightarrow> (ForeignEnum list \<times> TestAllTypesReader) run" where
  "TestAllTypesReader_readRepeatedForeignEnum = readCell cellRepeatedForeignEnum cellRepeatedForeignEnum_update mbuf (readPacked ReadInt32 SizedReadInt32 0)"

definition TestAllTypesReader_GetRepeatedForeignEnum :: "TestAllTypesReader option \<Rightarrow> (ForeignEnum list \<times> TestAllTypesReader option) run" where
  "TestAllTypesReader_GetRepeatedForeignEnum = getter TestAllTypesReader_readRepeatedForeignEnum []"

definition TestAllTypesReader_readRepeatedImportEnum :: "TestAllTypesReader \<Rightarrow> (ImportEnum list \<times> TestAllTypesReader) run" where
  "TestAllTypesReader_readRepeatedImportEnum = readCell cellRepeatedImportEnum cellRepeatedImportEnum_update mbuf (readPacked ReadInt32 SizedReadInt32 0)"

definition TestAllTypesReader_GetRepeatedImportEnum :: "TestAllTypesReader option \<Rightarrow> (ImportEnum list \<times> TestAllTypesReader option) run" where
  "TestAllTypesReader_GetRepeatedImportEnum = getter TestAllTypesReader_readRepeatedImportEnum []"

definition TestAllTypesReader_readRepeatedStringPiece :: "TestAllTypesReader \<Rightarrow> (gostring list \<times> TestAllTypesReader) run" where
  "TestAllTypesReader_readRepeatedStringPiece = readCell cellRepeatedStringPiece cellRepeatedStringPiece_update mbuf (readList ReadString [])"

definition TestAllTypesReader_GetRepeatedStringPiece :: "TestAllTypesReader option \<Rightarrow> (gostring list \<times> TestAllTypesReader option) run" where
  "TestAllTypesReader_GetRepeatedStringPiece = getter TestAllTypesReader_readRepeatedStringPiece []"

definition TestAllTypesReader_readRepeatedCord :: "TestAllTypesReader \<Rightarrow> (gostring list \<times> TestAllTypesReader) run" where
  "TestAllTypesReader_readRepeatedCord = readCell cellRepeatedCord cellRepeatedCord_update mbuf (readList ReadString [])"

definition TestAllTypesReader_GetRepeatedCord :: "TestAllTypesReader option \<Rightarrow> (gostring list \<times> TestAllTypesReader option) run" where
  "TestAllTypesReader_GetRepeatedCord = getter TestAllTypesReader_readRepeatedCord []"

definition TestAllTypesReader_readRepeatedLazyMessage :: "TestAllTypesReader \<Rightarrow> ((TestAllTypes_NestedMessageReader option) list \<times> TestAllTypesReader) run" where
  "TestAllTypesReader_readRepeatedLazyMessage = readCell cellRepeatedLazyMessage cellRepeatedLazyMessage_update mbuf (readStructs (TestAllTypes_NestedMessageReader_Unmarshal NewTestAllTypes_NestedMessageReader))"

definition TestAllTypesReader_GetRepeatedLazyMessage :: "TestAllTypesReader option \<Rightarrow> ((TestAllTypes_NestedMessageReader option) list \<times> TestAllTypesReader option) run" where
  "TestAllTypesReader_GetRepeatedLazyMessage = getter TestAllTypesReader_readRepeatedLazyMessage []"

definition TestAllTypesReader_readDefaultInt32 :: "TestAllTypesReader \<Rightarrow> (int32 \<times> TestAllTypesReader) run" where
  "TestAllTypesReader_readDefaultInt32 = readCell cellDefaultInt32 cellDefaultInt32_update mbuf (readOne ReadInt32 41)"

definition TestAllTypesReader_GetDefaultInt32 :: "TestAllTypesReader option \<Rightarrow> (int32 \<times> TestAllTypesReader option) run" where
  "TestAllTypesReader_GetDefaultInt32 = getter TestAllTypesReader_readDefaultInt32 41"

definition TestAllTypesReader_readDefaultInt64 :: "TestAllTypesReader \<Rightarrow> (int64 \<times> TestAllTypesReader) run" where
  "TestAllTypesReader_readDefaultInt64 = readCell cellDefaultInt64 cellDefaultInt64_update mbuf (readOne ReadInt64 42)"

definition TestAllTypesReader_GetDefaultInt64 :: "TestAllTypesReader option \<Rightarrow> (int64 \<times> TestAllTypesReader option) run" where
  "TestAllTypesReader_GetDefaultInt64 = getter TestAllTypesReader_readDefaultInt64 42"

definition TestAllTypesReader_readDefaultUint32 :: "TestAllTypesReader \<Rightarrow> (uint32 \<times> TestAllTypesReader) run" where
  "TestAllTypesReader_readDefaultUint32 = readCell cellDefaultUint32 cellDefaultUint32_update mbuf (readOne ReadUint32 43)"

definition TestAllTypesReader_GetDefaultUint32 :: "TestAllTypesReader option \<Rightarrow> (uint32 \<times> TestAllTypesReader option) run" where
  "TestAllTypesReader_GetDefaultUint32 = getter TestAllTypesReader_readDefaultUint32 43"

definition TestAllTypesReader_readDefaultUint64 :: "TestAllTypesReader \<Rightarrow> (uint64 \<times> TestAllTypesReader) run" where
  "TestAllTypesReader_readDefaultUint64 = readCell cellDefaultUint64 cellDefaultUint64_update mbuf (readOne ReadUint64 44)"

definition TestAllTypesReader_GetDefaultUint64 :: "TestAllTypesReader option \<Rightarrow> (uint64 \<times> TestAllTypesReader option) run" where
  "TestAllTypesReader_GetDefaultUint64 = getter TestAllTypesReader_readDefaultUint64 44"

definition TestAllTypesReader_readDefaultSint32 :: "TestAllTypesReader \<Rightarrow> (int32 \<times> TestAllTypesReader) run" where
  "TestAllTypesReader_readDefaultSint32 = readCell cellDefaultSint32 cellDefaultSint32_update mbuf (readOne ReadSInt32 (- 45))"

definition TestAllTypesReader_GetDefaultSint32 :: "TestAllTypesReader option \<Rightarrow> (int32 \<times> TestAllTypesReader option) run" where
  "TestAllTypesReader_GetDefaultSint32 = getter TestAllTypesReader_readDefaultSint32 (- 45)"

definition TestAllTypesReader_readDefaultSint64 :: "TestAllTypesReader \<Rightarrow> (int64 \<times> TestAllTypesReader) run" where
  "TestAllTypesReader_readDefaultSint64 = readCell cellDefaultSint64 cellDefaultSint64_update mbuf (readOne ReadSInt64 46)"

definition TestAllTypesReader_GetDefaultSint64 :: "TestAllTypesReader option \<Rightarrow> (int64 \<times> TestAllTypesReader option) run" where
  "TestAllTypesReader_GetDefaultSint64 = getter TestAllTypesReader_readDefaultSint64 46"

definition TestAllTypesReader_readDefaultFixed32 :: "TestAllTypesReader \<Rightarrow> (uint32 \<times> TestAllTypesReader) run" where
  "TestAllTypesReader_readDefaultFixed32 = readCell cellDefaultFixed32 cellDefaultFixed32_update mbuf (readOne ReadFixed32 47)"

definition TestAllTypesReader_GetDefaultFixed32 :: "TestAllTypesReader option \<Rightarrow> (uint32 \<times> TestAllTypesReader option) run" where
  "TestAllTypesReader_GetDefaultFixed32 = getter TestAllTypesReader_readDefaultFixed32 47"

definition TestAllTypesReader_readDefaultFixed64 :: "TestAllTypesReader \<Rightarrow> (uint64 \<times> TestAllTypesReader) run" where
  "TestAllTypesReader_readDefaultFixed64 = readCell cellDefaultFixed64 cellDefaultFixed64_update mbuf (readOne ReadFixed64 48)"

definition TestAllTypesReader_GetDefaultFixed64 :: "TestAllTypesReader option \<Rightarrow> (uint64 \<times> TestAllTypesReader option) run" where
  "TestAllTypesReader_GetDefaultFixed64 = getter TestAllTypesReader_readDefaultFixed64 48"

definition TestAllTypesReader_readDefaultSfixed32 :: "TestAllTypesReader \<Rightarrow> (int32 \<times> TestAllTypesReader) run" where
  "TestAllTypesReader_readDefaultSfixed32 = readCell cellDefaultSfixed32 cellDefaultSfixed32_update mbuf (readOne ReadSFixed32 49)"

definition TestAllTypesReader_GetDefaultSfixed32 :: "TestAllTypesReader option \<Rightarrow> (int32 \<times> TestAllTypesReader option) run" where
  "TestAllTypesReader_GetDefaultSfixed32 = getter TestAllTypesReader_readDefaultSfixed32 49"

definition TestAllTypesReader_readDefaultSfixed64 :: "TestAllTypesReader \<Rightarrow> (int64 \<times> TestAllTypesReader) run" where
  "TestAllTypesReader_readDefaultSfixed64 = readCell cellDefaultSfixed64 cellDefaultSfixed64_update mbuf (readOne ReadSFixed64 (- 50))"

definition TestAllTypesReader_GetDefaultSfixed64 :: "TestAllTypesReader option \<Rightarrow> (int64 \<times> TestAllTypesReader option) run" where
  "TestAllTypesReader_GetDefaultSfixed64 = getter TestAllTypesReader_readDefaultSfixed64 (- 50)"

definition TestAllTypesReader_readDefaultFloat :: "TestAllTypesReader \<Rightarrow> (float32 \<times> TestAllTypesReader) run" where
  "TestAllTypesReader_readDefaultFloat = readCell cellDefaultFloat cellDefaultFloat_update mbuf (readOne ReadFloat32 0x424E0000)"

definition TestAllTypesReader_GetDefaultFloat :: "TestAllTypesReader option \<Rightarrow> (float32 \<times> TestAllTypesReader option) run" where
  "TestAllTypesReader_GetDefaultFloat = getter TestAllTypesReader_readDefaultFloat 0x424E0000"

definition TestAllTypesReader_readDefaultDouble :: "TestAllTypesReader \<Rightarrow> (float64 \<times> TestAllTypesReader) run" where
  "TestAllTypesReader_readDefaultDouble = readCell cellDefaultDouble cellDefaultDouble_update mbuf (readOne ReadFloat64 0x40E9640000000000)"

definition TestAllTypesReader_GetDefaultDouble :: "TestAllTypesReader option \<Rightarrow> (float64 \<times> TestAllTypesReader option) run" where
  "TestAllTypesReader_GetDefaultDouble = getter TestAllTypesReader_readDefaultDouble 0x40E9640000000000"

definition TestAllTypesReader_readDefaultBool :: "TestAllTypesReader \<Rightarrow> (bool \<times> TestAllTypesReader) run" where
  "TestAllTypesReader_readDefaultBool = readCell cellDefaultBool cellDefaultBool_update mbuf (readOne ReadBool True)"

definition TestAllTypesReader_GetDefaultBool :: "TestAllTypesReader option \<Rightarrow> (bool \<times> TestAllTypesReader option) run" where
  "TestAllTypesReader_GetDefaultBool = getter TestAllTypesReader_readDefaultBool True"

definition TestAllTypesReader_readDefaultString :: "TestAllTypesReader \<Rightarrow> (gostring \<times> TestAllTypesReader) run" where
  "TestAllTypesReader_readDefaultString = readCell cellDefaultString cellDefaultString_update mbuf (readOne ReadString (bytes_of ''hello''))"

definition TestAllTypesReader_GetDefaultString :: "TestAllTypesReader option \<Rightarrow> (gostring \<times> TestAllTypesReader option) run" where
  "TestAllTypesReader_GetDefaultString = getter TestAllTypesReader_readDefaultString (bytes_of ''hello'')"

definition TestAllTypesReader_readDefaultBytes :: "TestAllTypesReader \<Rightarrow> (byte list \<times> TestAllTypesReader) run" where
  "TestAllTypesReader_readDefaultBytes = readCell cellDefaultBytes cellDefaultBytes_update mbuf (readOne ReadByteList (bytes_of ''world''))"

definition TestAllTypesReader_GetDefaultBytes :: "TestAllTypesReader option \<Rightarrow> (byte list \<times> TestAllTypesReader option) run" where
  "TestAllTypesReader_GetDefaultBytes = getter TestAllTypesReader_readDefaultBytes (bytes_of ''world'')"

definition TestAllTypesReader_readDefaultNestedEnum :: "TestAllTypesReader \<Rightarrow> (TestAllTypes_NestedEnum \<times> TestAllTypesReader) run" where
  "TestAllTypesReader_readDefaultNestedEnum = readCell cellDefaultNestedEnum cellDefaultNestedEnum_update mbuf (readOne ReadInt32 0)"

definition TestAllTypesReader_GetDefaultNestedEnum :: "TestAllTypesReader option \<Rightarrow> (TestAllTypes_NestedEnum \<times> TestAllTypesReader option) run" where
  "TestAllTypesReader_GetDefaultNestedEnum = getter TestAllTypesReader_readDefaultNestedEnum 0"

definition TestAllTypesReader_readDefaultForeignEnum :: "TestAllTypesReader \<Rightarrow> (ForeignEnum \<times> TestAllTypesReader) run" where
  "TestAllTypesReader_readDefaultForeignEnum = readCell cellDefaultForeignEnum cellDefaultForeignEnum_update mbuf (readOne ReadInt32 0)"

definition TestAllTypesReader_GetDefaultForeignEnum :: "TestAllTypesReader option \<Rightarrow> (ForeignEnum \<times> TestAllTypesReader option) run" where
  "TestAllTypesReader_GetDefaultForeignEnum = getter TestAllTypesReader_readDefaultForeignEnum 0"

definition TestAllTypesReader_readDefaultImportEnum :: "TestAllTypesReader \<Rightarrow> (ImportEnum \<times> TestAllTypesReader) run" where
  "TestAllTypesReader_readDefaultImportEnum = readCell cellDefaultImportEnum cellDefaultImportEnum_update mbuf (readOne ReadInt32 0)"

definition TestAllTypesReader_GetDefaultImportEnum :: "TestAllTypesReader option \<Rightarrow> (ImportEnum \<times> TestAllTypesReader option) run" where
  "TestAllTypesReader_GetDefaultImportEnum = getter TestAllTypesReader_readDefaultImportEnum 0"

definition TestAllTypesReader_readDefaultStringPiece :: "TestAllTypesReader \<Rightarrow> (gostring \<times> TestAllTypesReader) run" where
  "TestAllTypesReader_readDefaultStringPiece = readCell cellDefaultStringPiece cellDefaultStringPiece_update mbuf (readOne ReadString (bytes_of ''abc''))"

definition TestAllTypesReader_GetDefaultStringPiece :: "TestAllTypesReader option \<Rightarrow> (gostring \<times> TestAllTypesReader option) run" where
  "TestAllTypesReader_GetDefaultStringPiece = getter TestAllTypesReader_readDefaultStringPiece (bytes_of ''abc'')"

definition TestAllTypesReader_readDefaultCord :: "TestAllTypesReader \<Rightarrow> (gostring \<times> TestAllTypesReader) run" where
  "TestAllTypesReader_readDefaultCord = readCell cellDefaultCord cellDefaultCord_update mbuf (readOne ReadString (bytes_of ''123''))"

definition TestAllTypesReader_GetDefaultCord :: "TestAllTypesReader option \<Rightarrow> (gostring \<times> TestAllTypesReader option) run" where
  "TestAllTypesReader_GetDefaultCord = getter TestAllTypesReader_readDefaultCord (bytes_of ''123'')"

definition TestAllTypesReader_readOneofUint32 :: "TestAllTypesReader \<Rightarrow> (uint32 \<times> TestAllTypesReader) run" where
  "TestAllTypesReader_readOneofUint32 = readCell cellOneofUint32 cellOneofUint32_update mbuf (readOne ReadUint32 0)"

definition TestAllTypesReader_GetOneofUint32 :: "TestAllTypesReader option \<Rightarrow> (uint32 \<times> TestAllTypesReader option) run" where
  "TestAllTypesReader_GetOneofUint32 = getter TestAllTypesReader_readOneofUint32 0"

definition TestAllTypesReader_readOneofNestedMessage :: "TestAllTypesReader \<Rightarrow> (TestAllTypes_NestedMessageReader option \<times> TestAllTypesReader) run" where
  "TestAllTypesReader_readOneofNestedMessage = readCell cellOneofNestedMessage cellOneofNestedMessage_update mbuf (structReader (TestAllTypes_NestedMessageReader_Unmarshal NewTestAllTypes_NestedMessageReader))"

definition TestAllTypesReader_GetOneofNestedMessage :: "TestAllTypesReader option \<Rightarrow> (TestAllTypes_NestedMessageReader option \<times> TestAllTypesReader option) run" where
  "TestAllTypesReader_GetOneofNestedMessage = getter TestAllTypesReader_readOneofNestedMessage None"

definition TestAllTypesReader_readOneofString :: "TestAllTypesReader \<Rightarrow> (gostring \<times> TestAllTypesReader) run" where
  "TestAllTypesReader_readOneofString = readCell cellOneofString cellOneofString_update mbuf (readOne ReadString [])"

definition TestAllTypesReader_GetOneofString :: "TestAllTypesReader option \<Rightarrow> (gostring \<times> TestAllTypesReader option) run" where
  "TestAllTypesReader_GetOneofString = getter TestAllTypesReader_readOneofString []"

definition TestAllTypesReader_readOneofBytes :: "TestAllTypesReader \<Rightarrow> (byte list \<times> TestAllTypesReader) run" where
  "TestAllTypesReader_readOneofBytes = readCell cellOneofBytes cellOneofBytes_update mbuf (readOne ReadByteList [])"

definition TestAllTypesReader_GetOneofBytes :: "TestAllTypesReader option \<Rightarrow> (byte list \<times> TestAllTypesReader option) run" where
  "TestAllTypesReader_GetOneofBytes = getter TestAllTypesReader_readOneofBytes []"

lemmas TestAllTypes_getters =
  TestAllTypesReader_readOptionalInt32_def TestAllTypesReader_GetOptionalInt32_def
  TestAllTypesReader_readOptionalInt64_def TestAllTypesReader_GetOptionalInt64_def
  TestAllTypesReader_readOptionalUint32_def TestAllTypesReader_GetOptionalUint32_def
  TestAllTypesReader_readOptionalUint64_def TestAllTypesReader_GetOptionalUint64_def
  TestAllTypesReader_readOptionalSint32_def TestAllTypesReader_GetOptionalSint32_def
  TestAllTypesReader_readOptionalSint64_def TestAllTypesReader_GetOptionalSint64_def
  TestAllTypesReader_readOptionalFixed32_def TestAllTypesReader_GetOptionalFixed32_def
  TestAllTypesReader_readOptionalFixed64_def TestAllTypesReader_GetOptionalFixed64_def
  TestAllTypesReader_readOptionalSfixed32_def TestAllTypesReader_GetOptionalSfixed32_def
  TestAllTypesReader_readOptionalSfixed64_def TestAllTypesReader_GetOptionalSfixed64_def
  TestAllTypesReader_readOptionalFloat_def TestAllTypesReader_GetOptionalFloat_def
  TestAllTypesReader_readOptionalDouble_def TestAllTypesReader_GetOptionalDouble_def
  TestAllTypesReader_readOptionalBool_def TestAllTypesReader_GetOptionalBool_def
  TestAllTypesReader_readOptionalString_def TestAllTypesReader_GetOptionalString_def
  TestAllTypesReader_readOptionalBytes_def TestAllTypesReader_GetOptionalBytes_def
  TestAllTypesReader_readOptionalNestedMessage_def TestAllTypesReader_GetOptionalNestedMessage_def
  TestAllTypesReader_readOptionalForeignMessage_def TestAllTypesReader_GetOptionalForeignMessage_def
  TestAllTypesReader_readOptionalImportMessage_def TestAllTypesReader_GetOptionalImportMessage_def
  TestAllTypesReader_readOptionalNestedEnum_def TestAllTypesReader_GetOptionalNestedEnum_def
  TestAllTypesReader_readOptionalForeignEnum_def TestAllTypesReader_GetOptionalForeignEnum_def
  TestAllTypesReader_readOptionalImportEnum_def TestAllTypesReader_GetOptionalImportEnum_def
  TestAllTypesReader_readOptionalStringPiece_def TestAllTypesReader_GetOptionalStringPiece_def
  TestAllTypesReader_readOptionalCord_def TestAllTypesReader_GetOptionalCord_def
  TestAllTypesReader_readOptionalPublicImportMessage_def TestAllTypesReader_GetOptionalPublicImportMessage_def
  TestAllTypesReader_readOptionalLazyMessage_def TestAllTypesReader_GetOptionalLazyMessage_def
  TestAllTypesReader_readOptionalUnverifiedLazyMessage_def TestAllTypesReader_GetOptionalUnverifiedLazyMessage_def
  TestAllTypesReader_readRepeatedInt32_def TestAllTypesReader_GetRepeatedInt32_def
  TestAllTypesReader_readRepeatedInt64_def TestAllTypesReader_GetRepeatedInt64_def
  TestAllTypesReader_readRepeatedUint32_def TestAllTypesReader_GetRepeatedUint32_def
  TestAllTypesReader_readRepeatedUint64_def TestAllTypesReader_GetRepeatedUint64_def
  TestAllTypesReader_readRepeatedSint32_def TestAllTypesReader_GetRepeatedSint32_def
  TestAllTypesReader_readRepeatedSint64_def TestAllTypesReader_GetRepeatedSint64_def
  TestAllTypesReader_readRepeatedFixed32_def TestAllTypesReader_GetRepeatedFixed32_def
  TestAllTypesReader_readRepeatedFixed64_def TestAllTypesReader_GetRepeatedFixed64_def
  TestAllTypesReader_readRepeatedSfixed32_def TestAllTypesReader_GetRepeatedSfixed32_def
  TestAllTypesReader_readRepeatedSfixed64_def TestAllTypesReader_GetRepeatedSfixed64_def
  TestAllTypesReader_readRepeatedFloat_def TestAllTypesReader_GetRepeatedFloat_def
  TestAllTypesReader_readRepeatedDouble_def TestAllTypesReader_GetRepeatedDouble_def
  TestAllTypesReader_readRepeatedBool_def TestAllTypesReader_GetRepeatedBool_def
  TestAllTypesReader_readRepeatedString_def TestAllTypesReader_GetRepeatedString_def
  TestAllTypesReader_readRepeatedBytes_def TestAllTypesReader_GetRepeatedBytes_def
  TestAllTypesReader_readRepeatedNestedMessage_def TestAllTypesReader_GetRepeatedNestedMessage_def
  TestAllTypesReader_readRepeatedForeignMessage_def TestAllTypesReader_GetRepeatedForeignMessage_def
  TestAllTypesReader_readRepeatedImportMessage_def TestAllTypesReader_GetRepeatedImportMessage_def
  TestAllTypesReader_readRepeatedNestedEnum_def TestAllTypesReader_GetRepeatedNestedEnum_def
  TestAllTypesReader_readRepeatedForeignEnum_def TestAllTypesReader_GetRepeatedForeignEnum_def
  TestAllTypesReader_readRepeatedImportEnum_def TestAllTypesReader_GetRepeatedImportEnum_def
  TestAllTypesReader_readRepeatedStringPiece_def TestAllTypesReader_GetRepeatedStringPiece_def
  TestAllTypesReader_readRepeatedCord_def TestAllTypesReader_GetRepeatedCord_def
  TestAllTypesReader_readRepeatedLazyMessage_def TestAllTypesReader_GetRepeatedLazyMessage_def
  TestAllTypesReader_readDefaultInt32_def TestAllTypesReader_GetDefaultInt32_def
  TestAllTypesReader_readDefaultInt64_def TestAllTypesReader_GetDefaultInt64_def
  TestAllTypesReader_readDefaultUint32_def TestAllTypesReader_GetDefaultUint32_def
  TestAllTypesReader_readDefaultUint64_def TestAllTypesReader_GetDefaultUint64_def
  TestAllTypesReader_readDefaultSint32_def TestAllTypesReader_GetDefaultSint32_def
  TestAllTypesReader_readDefaultSint64_def TestAllTypesReader_GetDefaultSint64_def
  TestAllTypesReader_readDefaultFixed32_def TestAllTypesReader_GetDefaultFixed32_def
  TestAllTypesReader_readDefaultFixed64_def TestAllTypesReader_GetDefaultFixed64_def
  TestAllTypesReader_readDefaultSfixed32_def TestAllTypesReader_GetDefaultSfixed32_def
  TestAllTypesReader_readDefaultSfixed64_def TestAllTypesReader_GetDefaultSfixed64_def
  TestAllTypesReader_readDefaultFloat_def TestAllTypesReader_GetDefaultFloat_def
  TestAllTypesReader_readDefaultDouble_def TestAllTypesReader_GetDefaultDouble_def
  TestAllTypesReader_readDefaultBool_def TestAllTypesReader_GetDefaultBool_def
  TestAllTypesReader_readDefaultString_def TestAllTypesReader_GetDefaultString_def
  TestAllTypesReader_readDefaultBytes_def TestAllTypesReader_GetDefaultBytes_def
  TestAllTypesReader_readDefaultNestedEnum_def TestAllTypesReader_GetDefaultNestedEnum_def
  TestAllTypesReader_readDefaultForeignEnum_def TestAllTypesReader_GetDefaultForeignEnum_def
  TestAllTypesReader_readDefaultImportEnum_def TestAllTypesReader_GetDefaultImportEnum_def
  TestAllTypesReader_readDefaultStringPiece_def TestAllTypesReader_GetDefaultStringPiece_def
  TestAllTypesReader_readDefaultCord_def TestAllTypesReader_GetDefaultCord_def
  TestAllTypesReader_readOneofUint32_def TestAllTypesReader_GetOneofUint32_def
  TestAllTypesReader_readOneofNestedMessage_def TestAllTypesReader_GetOneofNestedMessage_def
  TestAllTypesReader_readOneofString_def TestAllTypesReader_GetOneofString_def
  TestAllTypesReader_readOneofBytes_def TestAllTypesReader_GetOneofBytes_def

definition TestAllTypesReader_cases :: "ProtoWireType \<Rightarrow> int \<Rightarrow> (ProtoWireNumber \<times> (TestAllTypesReader \<Rightarrow> TestAllTypesReader)) list" where
  "TestAllTypesReader_cases wire offset = [
     (wireTestAllTypes_OptionalInt32, \<lambda>m. m\<lparr>cellOptionalInt32 := onOffset (setOffset wire offset) (cellOptionalInt32 m)\<rparr>),
     (wireTestAllTypes_OptionalInt64, \<lambda>m. m\<lparr>cellOptionalInt64 := onOffset (setOffset wire offset) (cellOptionalInt64 m)\<rparr>),
     (wireTestAllTypes_OptionalUint32, \<lambda>m. m\<lparr>cellOptionalUint32 := onOffset (setOffset wire offset) (cellOptionalUint32 m)\<rparr>),
     (wireTestAllTypes_OptionalUint64, \<lambda>m. m\<lparr>cellOptionalUint64 := onOffset (setOffset wire offset) (cellOptionalUint64 m)\<rparr>),
     (wireTestAllTypes_OptionalSint32, \<lambda>m. m\<lparr>cellOptionalSint32 := onOffset (setOffset wire offset) (cellOptionalSint32 m)\<rparr>),
     (wireTestAllTypes_OptionalSint64, \<lambda>m. m\<lparr>cellOptionalSint64 := onOffset (setOffset wire offset) (cellOptionalSint64 m)\<rparr>),
     (wireTestAllTypes_OptionalFixed32, \<lambda>m. m\<lparr>cellOptionalFixed32 := onOffset (setOffset wire offset) (cellOptionalFixed32 m)\<rparr>),
     (wireTestAllTypes_OptionalFixed64, \<lambda>m. m\<lparr>cellOptionalFixed64 := onOffset (setOffset wire offset) (cellOptionalFixed64 m)\<rparr>),
     (wireTestAllTypes_OptionalSfixed32, \<lambda>m. m\<lparr>cellOptionalSfixed32 := onOffset (setOffset wire offset) (cellOptionalSfixed32 m)\<rparr>),
     (wireTestAllTypes_OptionalSfixed64, \<lambda>m. m\<lparr>cellOptionalSfixed64 := onOffset (setOffset wire offset) (cellOptionalSfixed64 m)\<rparr>),
     (wireTestAllTypes_OptionalFloat, \<lambda>m. m\<lparr>cellOptionalFloat := onOffset (setOffset wire offset) (cellOptionalFloat m)\<rparr>),
     (wireTestAllTypes_OptionalDouble, \<lambda>m. m\<lparr>cellOptionalDouble := onOffset (setOffset wire offset) (cellOptionalDouble m)\<rparr>),
     (wireTestAllTypes_OptionalBool, \<lambda>m. m\<lparr>cellOptionalBool := onOffset (setOffset wire offset) (cellOptionalBool m)\<rparr>),
     (wireTestAllTypes_OptionalString, \<lambda>m. m\<lparr>cellOptionalString := onOffset (setOffset wire offset) (cellOptionalString m)\<rparr>),
     (wireTestAllTypes_OptionalBytes, \<lambda>m. m\<lparr>cellOptionalBytes := onOffset (setOffset wire offset) (cellOptionalBytes m)\<rparr>),
     (wireTestAllTypes_OptionalNestedMessage, \<lambda>m. m\<lparr>cellOptionalNestedMessage := onOffset (setOffset wire offset) (cellOptionalNestedMessage m)\<rparr>),
     (wireTestAllTypes_OptionalForeignMessage, \<lambda>m. m\<lparr>cellOptionalForeignMessage := onOffset (setOffset wire offset) (cellOptionalForeignMessage m)\<rparr>),
     (wireTestAllTypes_OptionalImportMessage, \<lambda>m. m\<lparr>cellOptionalImportMessage := onOffset (setOffset wire offset) (cellOptionalImportMessage m)\<rparr>),
     (wireTestAllTypes_OptionalNestedEnum, \<lambda>m. m\<lparr>cellOptionalNestedEnum := onOffset (setOffset wire offset) (cellOptionalNestedEnum m)\<rparr>),
     (wireTestAllTypes_OptionalForeignEnum, \<lambda>m. m\<lparr>cellOptionalForeignEnum := onOffset (setOffset wire offset) (cellOptionalForeignEnum m)\<rparr>),
     (wireTestAllTypes_OptionalImportEnum, \<lambda>m. m\<lparr>cellOptionalImportEnum := onOffset (setOffset wire offset) (cellOptionalImportEnum m)\<rparr>),
     (wireTestAllTypes_OptionalStringPiece, \<lambda>m. m\<lparr>cellOptionalStringPiece := onOffset (setOffset wire offset) (cellOptionalStringPiece m)\<rparr>),
     (wireTestAllTypes_OptionalCord, \<lambda>m. m\<lparr>cellOptionalCord := onOffset (setOffset wire offset) (cellOptionalCord m)\<rparr>),
     (wireTestAllTypes_OptionalPublicImportMessage, \<lambda>m. m\<lparr>cellOptionalPublicImportMessage := onOffset (setOffset wire offset) (cellOptionalPublicImportMessage m)\<rparr>),
     (wireTestAllTypes_OptionalLazyMessage, \<lambda>m. m\<lparr>cellOptionalLazyMessage := onOffset (setOffset wire offset) (cellOptionalLazyMessage m)\<rparr>),
     (wireTestAllTypes_OptionalUnverifiedLazyMessage, \<lambda>m. m\<lparr>cellOptionalUnverifiedLazyMessage := onOffset (setOffset wire offset) (cellOptionalUnverifiedLazyMessage m)\<rparr>),
     (wireTestAllTypes_RepeatedInt32, \<lambda>m. m\<lparr>cellRepeatedInt32 := onOffset (addTyped wire offset) (cellRepeatedInt32 m)\<rparr>),
     (wireTestAllTypes_RepeatedInt64, \<lambda>m. m\<lparr>cellRepeatedInt64 := onOffset (addTyped wire offset) (cellRepeatedInt64 m)\<rparr>),
     (wireTestAllTypes_RepeatedUint32, \<lambda>m. m\<lparr>cellRepeatedUint32 := onOffset (addTyped wire offset) (cellRepeatedUint32 m)\<rparr>),
     (wireTestAllTypes_RepeatedUint64, \<lambda>m. m\<lparr>cellRepeatedUint64 := onOffset (addTyped wire offset) (cellRepeatedUint64 m)\<rparr>),
     (wireTestAllTypes_RepeatedSint32, \<lambda>m. m\<lparr>cellRepeatedSint32 := onOffset (addTyped wire offset) (cellRepeatedSint32 m)\<rparr>),
     (wireTestAllTypes_RepeatedSint64, \<lambda>m. m\<lparr>cellRepeatedSint64 := onOffset (addTyped wire offset) (cellRepeatedSint64 m)\<rparr>),
     (wireTestAllTypes_RepeatedFixed32, \<lambda>m. m\<lparr>cellRepeatedFixed32 := onOffset (addTyped wire offset) (cellRepeatedFixed32 m)\<rparr>),
     (wireTestAllTypes_RepeatedFixed64, \<lambda>m. m\<lparr>cellRepeatedFixed64 := onOffset (addTyped wire offset) (cellRepeatedFixed64 m)\<rparr>),
     (wireTestAllTypes_RepeatedSfixed32, \<lambda>m. m\<lparr>cellRepeatedSfixed32 := onOffset (addTyped wire offset) (cellRepeatedSfixed32 m)\<rparr>),
     (wireTestAllTypes_RepeatedSfixed64, \<lambda>m. m\<lparr>cellRepeatedSfixed64 := onOffset (addTyped wire offset) (cellRepeatedSfixed64 m)\<rparr>),
     (wireTestAllTypes_RepeatedFloat, \<lambda>m. m\<lparr>cellRepeatedFloat := onOffset (addTyped wire offset) (cellRepeatedFloat m)\<rparr>),
     (wireTestAllTypes_RepeatedDouble, \<lambda>m. m\<lparr>cellRepeatedDouble := onOffset (addTyped wire offset) (cellRepeatedDouble m)\<rparr>),
     (wireTestAllTypes_RepeatedBool, \<lambda>m. m\<lparr>cellRepeatedBool := onOffset (addTyped wire offset) (cellRepeatedBool m)\<rparr>),
     (wireTestAllTypes_RepeatedString, \<lambda>m. m\<lparr>cellRepeatedString := onOffset (addOffset wire offset) (cellRepeatedString m)\<rparr>),
     (wireTestAllTypes_RepeatedBytes, \<lambda>m. m\<lparr>cellRepeatedBytes := onOffset (addOffset wire offset) (cellRepeatedBytes m)\<rparr>),
     (wireTestAllTypes_RepeatedNestedMessage, \<lambda>m. m\<lparr>cellRepeatedNestedMessage := onOffset (addOffset wire offset) (cellRepeatedNestedMessage m)\<rparr>),
     (wireTestAllTypes_RepeatedForeignMessage, \<lambda>m. m\<lparr>cellRepeatedForeignMessage := onOffset (addOffset wire offset) (cellRepeatedForeignMessage m)\<rparr>),
     (wireTestAllTypes_RepeatedImportMessage, \<lambda>m. m\<lparr>cellRepeatedImportMessage := onOffset (addOffset wire offset) (cellRepeatedImportMessage m)\<rparr>),
     (wireTestAllTypes_RepeatedNestedEnum, \<lambda>m. m\<lparr>cellRepeatedNestedEnum := onOffset (addTyped wire offset) (cellRepeatedNestedEnum m)\<rparr>),
     (wireTestAllTypes_RepeatedForeignEnum, \<lambda>m. m\<lparr>cellRepeatedForeignEnum := onOffset (addTyped wire offset) (cellRepeatedForeignEnum m)\<rparr>),
     (wireTestAllTypes_RepeatedImportEnum, \<lambda>m. m\<lparr>cellRepeatedImportEnum := onOffset (addTyped wire offset) (cellRepeatedImportEnum m)\<rparr>),
     (wireTestAllTypes_RepeatedStringPiece, \<lambda>m. m\<lparr>cellRepeatedStringPiece := onOffset (addOffset wire offset) (cellRepeatedStringPiece m)\<rparr>),
     (wireTestAllTypes_RepeatedCord, \<lambda>m. m\<lparr>cellRepeatedCord := onOffset (addOffset wire offset) (cellRepeatedCord m)\<rparr>),
     (wireTestAllTypes_RepeatedLazyMessage, \<lambda>m. m\<lparr>cellRepeatedLazyMessage := onOffset (addOffset wire offset) (cellRepeatedLazyMessage m)\<rparr>),
     (wireTestAllTypes_DefaultInt32, \<lambda>m. m\<lparr>cellDefaultInt32 := onOffset (setOffset wire offset) (cellDefaultInt32 m)\<rparr>),
     (wireTestAllTypes_DefaultInt64, \<lambda>m. m\<lparr>cellDefaultInt64 := onOffset (setOffset wire offset) (cellDefaultInt64 m)\<rparr>),
     (wireTestAllTypes_DefaultUint32, \<lambda>m. m\<lparr>cellDefaultUint32 := onOffset (setOffset wire offset) (cellDefaultUint32 m)\<rparr>),
     (wireTestAllTypes_DefaultUint64, \<lambda>m. m\<lparr>cellDefaultUint64 := onOffset (setOffset wire offset) (cellDefaultUint64 m)\<rparr>),
     (wireTestAllTypes_DefaultSint32, \<lambda>m. m\<lparr>cellDefaultSint32 := onOffset (setOffset wire offset) (cellDefaultSint32 m)\<rparr>),
     (wireTestAllTypes_DefaultSint64, \<lambda>m. m\<lparr>cellDefaultSint64 := onOffset (setOffset wire offset) (cellDefaultSint64 m)\<rparr>),
     (wireTestAllTypes_DefaultFixed32, \<lambda>m. m\<lparr>cellDefaultFixed32 := onOffset (setOffset wire offset) (cellDefaultFixed32 m)\<rparr>),
     (wireTestAllTypes_DefaultFixed64, \<lambda>m. m\<lparr>cellDefaultFixed64 := onOffset (setOffset wire offset) (cellDefaultFixed64 m)\<rparr>),
     (wireTestAllTypes_DefaultSfixed32, \<lambda>m. m\<lparr>cellDefaultSfixed32 := onOffset (setOffset wire offset) (cellDefaultSfixed32 m)\<rparr>),
     (wireTestAllTypes_DefaultSfixed64, \<lambda>m. m\<lparr>cellDefaultSfixed64 := onOffset (setOffset wire offset) (cellDefaultSfixed64 m)\<rparr>),
     (wireTestAllTypes_DefaultFloat, \<lambda>m. m\<lparr>cellDefaultFloat := onOffset (setOffset wire offset) (cellDefaultFloat m)\<rparr>),
     (wireTestAllTypes_DefaultDouble, \<lambda>m. m\<lparr>cellDefaultDouble := onOffset (setOffset wire offset) (cellDefaultDouble m)\<rparr>),
     (wireTestAllTypes_DefaultBool, \<lambda>m. m\<lparr>cellDefaultBool := onOffset (setOffset wire offset) (cellDefaultBool m)\<rparr>),
     (wireTestAllTypes_DefaultString, \<lambda>m. m\<lparr>cellDefaultString := onOffset (setOffset wire offset) (cellDefaultString m)\<rparr>),
     (wireTestAllTypes_DefaultBytes, \<lambda>m. m\<lparr>cellDefaultBytes := onOffset (setOffset wire offset) (cellDefaultBytes m)\<rparr>),
     (wireTestAllTypes_DefaultNestedEnum, \<lambda>m. m\<lparr>cellDefaultNestedEnum := onOffset (setOffset wire offset) (cellDefaultNestedEnum m)\<rparr>),
     (wireTestAllTypes_DefaultForeignEnum, \<lambda>m. m\<lparr>cellDefaultForeignEnum := onOffset (setOffset wire offset) (cellDefaultForeignEnum m)\<rparr>),
     (wireTestAllTypes_DefaultImportEnum, \<lambda>m. m\<lparr>cellDefaultImportEnum := onOffset (setOffset wire offset) (cellDefaultImportEnum m)\<rparr>),
     (wireTestAllTypes_DefaultStringPiece, \<lambda>m. m\<lparr>cellDefaultStringPiece := onOffset (setOffset wire offset) (cellDefaultStringPiece m)\<rparr>),
     (wireTestAllTypes_DefaultCord, \<lambda>m. m\<lparr>cellDefaultCord := onOffset (setOffset wire offset) (cellDefaultCord m)\<rparr>),
     (wireTestAllTypes_OneofUint32, \<lambda>m. m\<lparr>cellOneofUint32 := onOffset (setOffset wire offset) (cellOneofUint32 m)\<rparr>),
     (wireTestAllTypes_OneofNestedMessage, \<lambda>m. m\<lparr>cellOneofNestedMessage := onOffset (setOffset wire offset) (cellOneofNestedMessage m)\<rparr>),
     (wireTestAllTypes_OneofString, \<lambda>m. m\<lparr>cellOneofString := onOffset (setOffset wire offset) (cellOneofString m)\<rparr>),
     (wireTestAllTypes_OneofBytes, \<lambda>m. m\<lparr>cellOneofBytes := onOffset (setOffset wire offset) (cellOneofBytes m)\<rparr>)]"

definition TestAllTypesReader_save :: "ProtoWireNumber \<Rightarrow> ProtoWireType \<Rightarrow> int \<Rightarrow> TestAllTypesReader \<Rightarrow> TestAllTypesReader" where
  "TestAllTypesReader_save tag wire offset = tag_switch (TestAllTypesReader_cases wire offset) tag"

definition TestAllTypesReader_Unmarshal :: "TestAllTypesReader \<Rightarrow> gslice \<Rightarrow> (TestAllTypesReader \<times> string option) run" where
  "TestAllTypesReader_Unmarshal m data =
     unmarshalLoop TestAllTypesReader_save (NewReader data) 0 (m\<lparr>mbuf := Some (NewReader data)\<rparr>)"

definition TestAllTypesReader_SourceBytes :: "TestAllTypesReader option \<Rightarrow> gslice" where
  "TestAllTypesReader_SourceBytes s = (case s of None \<Rightarrow> nil_slice | Some r \<Rightarrow> Bytes (mbuf r))"

section \<open>TestAllTypes: the struct\<close>

record TestAllTypes =
  OptionalInt32 :: int32
  OptionalInt64 :: int64
  OptionalUint32 :: uint32
  OptionalUint64 :: uint64
  OptionalSint32 :: int32
  OptionalSint64 :: int64
  OptionalFixed32 :: uint32
  OptionalFixed64 :: uint64
  OptionalSfixed32 :: int32
  OptionalSfixed64 :: int64
  OptionalFloat :: float32
  OptionalDouble :: float64
  OptionalBool :: bool
  OptionalString :: gostring
  OptionalBytes :: "byte list"
  OptionalNestedMessage :: "TestAllTypes_NestedMessage option"
  OptionalForeignMessage :: "ForeignMessage option"
  OptionalImportMessage :: "ImportMessage option"
  OptionalNestedEnum :: TestAllTypes_NestedEnum
  OptionalForeignEnum :: ForeignEnum
  OptionalImportEnum :: ImportEnum
  OptionalStringPiece :: gostring
  OptionalCord :: gostring
  OptionalPublicImportMessage :: "PublicImportMessage option"
  OptionalLazyMessage :: "TestAllTypes_NestedMessage option"
  OptionalUnverifiedLazyMessage :: "TestAllTypes_NestedMessage option"
  RepeatedInt32 :: "int32 list"
  RepeatedInt64 :: "int64 list"
  RepeatedUint32 :: "uint32 list"
  RepeatedUint64 :: "uint64 list"
  RepeatedSint32 :: "int32 list"
  RepeatedSint64 :: "int64 list"
  RepeatedFixed32 :: "uint32 list"
  RepeatedFixed64 :: "uint64 list"
  RepeatedSfixed32 :: "int32 list"
  RepeatedSfixed64 :: "int64 list"
  RepeatedFloat :: "float32 list"
  RepeatedDouble :: "float64 list"
  RepeatedBool :: "bool list"
  RepeatedString :: "gostring list"
  RepeatedBytes :: "(byte list) list"
  RepeatedNestedMessage :: "(TestAllTypes_NestedMessage option) list"
  RepeatedForeignMessage :: "(ForeignMessage option) list"
  RepeatedImportMessage :: "(ImportMessage option) list"
  RepeatedNestedEnum :: "TestAllTypes_NestedEnum list"
  RepeatedForeignEnum :: "ForeignEnum list"
  RepeatedImportEnum :: "ImportEnum list"
  RepeatedStringPiece :: "gostring list"
  RepeatedCord :: "gostring list"
  RepeatedLazyMessage :: "(TestAllTypes_NestedMessage option) list"
  DefaultInt32 :: int32
  DefaultInt64 :: int64
  DefaultUint32 :: uint32
  DefaultUint64 :: uint64
  DefaultSint32 :: int32
  DefaultSint64 :: int64
  DefaultFixed32 :: uint32
  DefaultFixed64 :: uint64
  DefaultSfixed32 :: int32
  DefaultSfixed64 :: int64
  DefaultFloat :: float32
  DefaultDouble :: float64
  DefaultBool :: bool
  DefaultString :: gostring
  DefaultBytes :: "byte list"
  DefaultNestedEnum :: TestAllTypes_NestedEnum
  DefaultForeignEnum :: ForeignEnum
  DefaultImportEnum :: ImportEnum
  DefaultStringPiece :: gostring
  DefaultCord :: gostring
  OneofUint32 :: uint32
  OneofNestedMessage :: "TestAllTypes_NestedMessage option"
  OneofString :: gostring
  OneofBytes :: "byte list"

definition TestAllTypes_zero :: TestAllTypes where
  "TestAllTypes_zero = \<lparr>
     OptionalInt32 = 0, OptionalInt64 = 0, OptionalUint32 = 0, OptionalUint64 = 0,
     OptionalSint32 = 0, OptionalSint64 = 0, OptionalFixed32 = 0, OptionalFixed64 = 0,
     OptionalSfixed32 = 0, OptionalSfixed64 = 0, OptionalFloat = 0, OptionalDouble = 0,
     OptionalBool = False, OptionalString = [], OptionalBytes = [],
     OptionalNestedMessage = None, OptionalForeignMessage = None, OptionalImportMessage = None,
     OptionalNestedEnum = 0, OptionalForeignEnum = 0, OptionalImportEnum = 0,
     OptionalStringPiece = [], OptionalCord = [], OptionalPublicImportMessage = None,
     OptionalLazyMessage = None, OptionalUnverifiedLazyMessage = None, RepeatedInt32 = [],
     RepeatedInt64 = [], RepeatedUint32 = [], RepeatedUint64 = [], RepeatedSint32 = [],
     RepeatedSint64 = [], RepeatedFixed32 = [], RepeatedFixed64 = [], RepeatedSfixed32 = [],
     RepeatedSfixed64 = [], RepeatedFloat = [], RepeatedDouble = [], RepeatedBool = [],
     RepeatedString = [], RepeatedBytes = [], RepeatedNestedMessage = [],
     RepeatedForeignMessage = [], RepeatedImportMessage = [], RepeatedNestedEnum = [],
     RepeatedForeignEnum = [], RepeatedImportEnum = [], RepeatedStringPiece = [],
     RepeatedCord = [], RepeatedLazyMessage = [], DefaultInt32 = 0, DefaultInt64 = 0,
     DefaultUint32 = 0, DefaultUint64 = 0, DefaultSint32 = 0, DefaultSint64 = 0,
     DefaultFixed32 = 0, DefaultFixed64 = 0, DefaultSfixed32 = 0, DefaultSfixed64 = 0,
     DefaultFloat = 0, DefaultDouble = 0, DefaultBool = False, DefaultString = [],
     DefaultBytes = [], DefaultNestedEnum = 0, DefaultForeignEnum = 0, DefaultImportEnum = 0,
     DefaultStringPiece = [], DefaultCord = [], OneofUint32 = 0, OneofNestedMessage = None,
     OneofString = [], OneofBytes = []\<rparr>"

definition TestAllTypes_stmts1 :: "(TestAllTypes \<times> TestAllTypesReader option \<Rightarrow> (TestAllTypes \<times> TestAllTypesReader option) run) list" where
  "TestAllTypes_stmts1 = [
     assign TestAllTypesReader_GetOptionalInt32 (\<lambda>v res. res\<lparr>OptionalInt32 := v\<rparr>),
     assign TestAllTypesReader_GetOptionalInt64 (\<lambda>v res. res\<lparr>OptionalInt64 := v\<rparr>),
     assign TestAllTypesReader_GetOptionalUint32 (\<lambda>v res. res\<lparr>OptionalUint32 := v\<rparr>),
     assign TestAllTypesReader_GetOptionalUint64 (\<lambda>v res. res\<lparr>OptionalUint64 := v\<rparr>),
     assign TestAllTypesReader_GetOptionalSint32 (\<lambda>v res. res\<lparr>OptionalSint32 := v\<rparr>),
     assign TestAllTypesReader_GetOptionalSint64 (\<lambda>v res. res\<lparr>OptionalSint64 := v\<rparr>),
     assign TestAllTypesReader_GetOptionalFixed32 (\<lambda>v res. res\<lparr>OptionalFixed32 := v\<rparr>),
     assign TestAllTypesReader_GetOptionalFixed64 (\<lambda>v res. res\<lparr>OptionalFixed64 := v\<rparr>),
     assign TestAllTypesReader_GetOptionalSfixed32 (\<lambda>v res. res\<lparr>OptionalSfixed32 := v\<rparr>),
     assign TestAllTypesReader_GetOptionalSfixed64 (\<lambda>v res. res\<lparr>OptionalSfixed64 := v\<rparr>),
     assign TestAllTypesReader_GetOptionalFloat (\<lambda>v res. res\<lparr>OptionalFloat := v\<rparr>),
     assign TestAllTypesReader_GetOptionalDouble (\<lambda>v res. res\<lparr>OptionalDouble := v\<rparr>),
     assign TestAllTypesReader_GetOptionalBool (\<lambda>v res. res\<lparr>OptionalBool := v\<rparr>),
     assign TestAllTypesReader_GetOptionalString (\<lambda>v res. res\<lparr>OptionalString := v\<rparr>),
     assign TestAllTypesReader_GetOptionalBytes (\<lambda>v res. res\<lparr>OptionalBytes := v\<rparr>),
     assignStruct TestAllTypesReader_GetOptionalNestedMessage (structToStruct TestAllTypes_NestedMessageReader_ToStruct) cellOptionalNestedMessage_update
       (\<lambda>v res. res\<lparr>OptionalNestedMessage := v\<rparr>),
     assignStruct TestAllTypesReader_GetOptionalForeignMessage (structToStruct ForeignMessageReader_ToStruct) cellOptionalForeignMessage_update
       (\<lambda>v res. res\<lparr>OptionalForeignMessage := v\<rparr>),
     assignStruct TestAllTypesReader_GetOptionalImportMessage (structToStruct ImportMessageReader_ToStruct) cellOptionalImportMessage_update
       (\<lambda>v res. res\<lparr>OptionalImportMessage := v\<rparr>),
     assign TestAllTypesReader_GetOptionalNestedEnum (\<lambda>v res. res\<lparr>OptionalNestedEnum := v\<rparr>),
     assign TestAllTypesReader_GetOptionalForeignEnum (\<lambda>v res. res\<lparr>OptionalForeignEnum := v\<rparr>),
     assign TestAllTypesReader_GetOptionalImportEnum (\<lambda>v res. res\<lparr>OptionalImportEnum := v\<rparr>),
     assign TestAllTypesReader_GetOptionalStringPiece (\<lambda>v res. res\<lparr>OptionalStringPiece := v\<rparr>),
     assign TestAllTypesReader_GetOptionalCord (\<lambda>v res. res\<lparr>OptionalCord := v\<rparr>),
     assignStruct TestAllTypesReader_GetOptionalPublicImportMessage (structToStruct PublicImportMessageReader_ToStruct) cellOptionalPublicImportMessage_update
       (\<lambda>v res. res\<lparr>OptionalPublicImportMessage := v\<rparr>),
     assignStruct TestAllTypesReader_GetOptionalLazyMessage (structToStruct TestAllTypes_NestedMessageReader_ToStruct) cellOptionalLazyMessage_update
       (\<lambda>v res. res\<lparr>OptionalLazyMessage := v\<rparr>),
     assignStruct TestAllTypesReader_GetOptionalUnverifiedLazyMessage (structToStruct TestAllTypes_NestedMessageReader_ToStruct) cellOptionalUnverifiedLazyMessage_update
       (\<lambda>v res. res\<lparr>OptionalUnverifiedLazyMessage := v\<rparr>),
     assign TestAllTypesReader_GetRepeatedInt32 (\<lambda>v res. res\<lparr>RepeatedInt32 := v\<rparr>),
     assign TestAllTypesReader_GetRepeatedInt64 (\<lambda>v res. res\<lparr>RepeatedInt64 := v\<rparr>),
     assign TestAllTypesReader_GetRepeatedUint32 (\<lambda>v res. res\<lparr>RepeatedUint32 := v\<rparr>),
     assign TestAllTypesReader_GetRepeatedUint64 (\<lambda>v res. res\<lparr>RepeatedUint64 := v\<rparr>),
     assign TestAllTypesReader_GetRepeatedSint32 (\<lambda>v res. res\<lparr>RepeatedSint32 := v\<rparr>),
     assign TestAllTypesReader_GetRepeatedSint64 (\<lambda>v res. res\<lparr>RepeatedSint64 := v\<rparr>),
     assign TestAllTypesReader_GetRepeatedFixed32 (\<lambda>v res. res\<lparr>RepeatedFixed32 := v\<rparr>),
     assign TestAllTypesReader_GetRepeatedFixed64 (\<lambda>v res. res\<lparr>RepeatedFixed64 := v\<rparr>),
     assign TestAllTypesReader_GetRepeatedSfixed32 (\<lambda>v res. res\<lparr>RepeatedSfixed32 := v\<rparr>),
     assign TestAllTypesReader_GetRepeatedSfixed64 (\<lambda>v res. res\<lparr>RepeatedSfixed64 := v\<rparr>),
     assign TestAllTypesReader_GetRepeatedFloat (\<lambda>v res. res\<lparr>RepeatedFloat := v\<rparr>),
     assign TestAllTypesReader_GetRepeatedDouble (\<lambda>v res. res\<lparr>RepeatedDouble := v\<rparr>),
     assign TestAllTypesReader_GetRepeatedBool (\<lambda>v res. res\<lparr>RepeatedBool := v\<rparr>),
     assign TestAllTypesReader_GetRepeatedString (\<lambda>v res. res\<lparr>RepeatedString := v\<rparr>),
     assign TestAllTypesReader_GetRepeatedBytes (\<lambda>v res. res\<lparr>RepeatedBytes := v\<rparr>),
     assignStruct TestAllTypesReader_GetRepeatedNestedMessage (repeatedToStruct TestAllTypes_NestedMessageReader_ToStruct) cellRepeatedNestedMessage_update
       (\<lambda>v res. res\<lparr>RepeatedNestedMessage := v\<rparr>),
     assignStruct TestAllTypesReader_GetRepeatedForeignMessage (repeatedToStruct ForeignMessageReader_ToStruct) cellRepeatedForeignMessage_update
       (\<lambda>v res. res\<lparr>RepeatedForeignMessage := v\<rparr>),
     assignStruct TestAllTypesReader_GetRepeatedImportMessage (repeatedToStruct ImportMessageReader_ToStruct) cellRepeatedImportMessage_update
       (\<lambda>v res. res\<lparr>RepeatedImportMessage := v\<rparr>),
     assign TestAllTypesReader_GetRepeatedNestedEnum (\<lambda>v res. res\<lparr>RepeatedNestedEnum := v\<rparr>),
     assign TestAllTypesReader_GetRepeatedForeignEnum (\<lambda>v res. res\<lparr>RepeatedForeignEnum := v\<rparr>),
     assign TestAllTypesReader_GetRepeatedImportEnum (\<lambda>v res. res\<lparr>RepeatedImportEnum := v\<rparr>),
     assign TestAllTypesReader_GetRepeatedStringPiece (\<lambda>v res. res\<lparr>RepeatedStringPiece := v\<rparr>),
     assign TestAllTypesReader_GetRepeatedCord (\<lambda>v res. res\<lparr>RepeatedCord := v\<rparr>),
     assignStruct TestAllTypesReader_GetRepeatedLazyMessage (repeatedToStruct TestAllTypes_NestedMessageReader_ToStruct) cellRepeatedLazyMessage_update
       (\<lambda>v res. res\<lparr>RepeatedLazyMessage := v\<rparr>)]"

definition TestAllTypes_stmts2 :: "(TestAllTypes \<times> TestAllTypesReader option \<Rightarrow> (TestAllTypes \<times> TestAllTypesReader option) run) list" where
  "TestAllTypes_stmts2 = [
     assign TestAllTypesReader_GetDefaultInt32 (\<lambda>v res. res\<lparr>DefaultInt32 := v\<rparr>),
     assign TestAllTypesReader_GetDefaultInt64 (\<lambda>v res. res\<lparr>DefaultInt64 := v\<rparr>),
     assign TestAllTypesReader_GetDefaultUint32 (\<lambda>v res. res\<lparr>DefaultUint32 := v\<rparr>),
     assign TestAllTypesReader_GetDefaultUint64 (\<lambda>v res. res\<lparr>DefaultUint64 := v\<rparr>),
     assign TestAllTypesReader_GetDefaultSint32 (\<lambda>v res. res\<lparr>DefaultSint32 := v\<rparr>),
     assign TestAllTypesReader_GetDefaultSint64 (\<lambda>v res. res\<lparr>DefaultSint64 := v\<rparr>),
     assign TestAllTypesReader_GetDefaultFixed32 (\<lambda>v res. res\<lparr>DefaultFixed32 := v\<rparr>),
     assign TestAllTypesReader_GetDefaultFixed64 (\<lambda>v res. res\<lparr>DefaultFixed64 := v\<rparr>),
     assign TestAllTypesReader_GetDefaultSfixed32 (\<lambda>v res. res\<lparr>DefaultSfixed32 := v\<rparr>),
     assign TestAllTypesReader_GetDefaultSfixed64 (\<lambda>v res. res\<lparr>DefaultSfixed64 := v\<rparr>),
     assign TestAllTypesReader_GetDefaultFloat (\<lambda>v res. res\<lparr>DefaultFloat := v\<rparr>),
     assign TestAllTypesReader_GetDefaultDouble (\<lambda>v res. res\<lparr>DefaultDouble := v\<rparr>),
     assign TestAllTypesReader_GetDefaultBool (\<lambda>v res. res\<lparr>DefaultBool := v\<rparr>),
     assign TestAllTypesReader_GetDefaultString (\<lambda>v res. res\<lparr>DefaultString := v\<rparr>),
     assign TestAllTypesReader_GetDefaultBytes (\<lambda>v res. res\<lparr>DefaultBytes := v\<rparr>),
     assign TestAllTypesReader_GetDefaultNestedEnum (\<lambda>v res. res\<lparr>DefaultNestedEnum := v\<rparr>),
     assign TestAllTypesReader_GetDefaultForeignEnum (\<lambda>v res. res\<lparr>DefaultForeignEnum := v\<rparr>),
     assign TestAllTypesReader_GetDefaultImportEnum (\<lambda>v res. res\<lparr>DefaultImportEnum := v\<rparr>),
     assign TestAllTypesReader_GetDefaultStringPiece (\<lambda>v res. res\<lparr>DefaultStringPiece := v\<rparr>),
     assign TestAllTypesReader_GetDefaultCord (\<lambda>v res. res\<lparr>DefaultCord := v\<rparr>),
     assign TestAllTypesReader_GetOneofUint32 (\<lambda>v res. res\<lparr>OneofUint32 := v\<rparr>),
     assignStruct TestAllTypesReader_GetOneofNestedMessage (structToStruct TestAllTypes_NestedMessageReader_ToStruct) cellOneofNestedMessage_update
       (\<lambda>v res. res\<lparr>OneofNestedMessage := v\<rparr>),
     assign TestAllTypesReader_GetOneofString (\<lambda>v res. res\<lparr>OneofString := v\<rparr>),
     assign TestAllTypesReader_GetOneofBytes (\<lambda>v res. res\<lparr>OneofBytes := v\<rparr>)]"

definition TestAllTypesReader_ToStruct :: "TestAllTypesReader option \<Rightarrow> (TestAllTypes option \<times> TestAllTypesReader option) run" where
  "TestAllTypesReader_ToStruct = toStructWith (TestAllTypes_stmts1 @ TestAllTypes_stmts2) TestAllTypes_zero"

definition TestAllTypes_appends1 :: "TestAllTypes \<Rightarrow> (Writer \<Rightarrow> Writer go) list" where
  "TestAllTypes_appends1 s = [
     \<lambda>res. if OptionalInt32 s \<noteq> 0 then AppendInt32 res wireTestAllTypes_OptionalInt32 (OptionalInt32 s) else Ret res,
     \<lambda>res. if OptionalInt64 s \<noteq> 0 then AppendInt64 res wireTestAllTypes_OptionalInt64 (OptionalInt64 s) else Ret res,
     \<lambda>res. if OptionalUint32 s \<noteq> 0 then AppendUint32 res wireTestAllTypes_OptionalUint32 (OptionalUint32 s) else Ret res,
     \<lambda>res. if OptionalUint64 s \<noteq> 0 then AppendUint64 res wireTestAllTypes_OptionalUint64 (OptionalUint64 s) else Ret res,
     \<lambda>res. if OptionalSint32 s \<noteq> 0 then AppendSInt32 res wireTestAllTypes_OptionalSint32 (OptionalSint32 s) else Ret res,
     \<lambda>res. if OptionalSint64 s \<noteq> 0 then AppendSInt64 res wireTestAllTypes_OptionalSint64 (OptionalSint64 s) else Ret res,
     \<lambda>res. if OptionalFixed32 s \<noteq> 0 then AppendFixed32 res wireTestAllTypes_OptionalFixed32 (OptionalFixed32 s) else Ret res,
     \<lambda>res. if OptionalFixed64 s \<noteq> 0 then AppendFixed64 res wireTestAllTypes_OptionalFixed64 (OptionalFixed64 s) else Ret res,
     \<lambda>res. if OptionalSfixed32 s \<noteq> 0 then AppendSFixed32 res wireTestAllTypes_OptionalSfixed32 (OptionalSfixed32 s) else Ret res,
     \<lambda>res. if OptionalSfixed64 s \<noteq> 0 then AppendSFixed64 res wireTestAllTypes_OptionalSfixed64 (OptionalSfixed64 s) else Ret res,
     \<lambda>res. if \<not> float32_is_zero (OptionalFloat s) then AppendFloat32 res wireTestAllTypes_OptionalFloat (OptionalFloat s) else Ret res,
     \<lambda>res. if \<not> float64_is_zero (OptionalDouble s) then AppendFloat64 res wireTestAllTypes_OptionalDouble (OptionalDouble s) else Ret res,
     \<lambda>res. if OptionalBool s then AppendBool res wireTestAllTypes_OptionalBool (OptionalBool s) else Ret res,
     \<lambda>res. if OptionalString s \<noteq> [] then AppendString res wireTestAllTypes_OptionalString (OptionalString s) else Ret res,
     \<lambda>res. if OptionalBytes s \<noteq> [] then AppendBytes res wireTestAllTypes_OptionalBytes (OptionalBytes s) else Ret res,
     \<lambda>res. if OptionalNestedMessage s \<noteq> None then structWriter TestAllTypes_NestedMessage_XXX_PbContentSize TestAllTypes_NestedMessage_MarshalTo res wireTestAllTypes_OptionalNestedMessage (OptionalNestedMessage s) else Ret res,
     \<lambda>res. if OptionalForeignMessage s \<noteq> None then structWriter ForeignMessage_XXX_PbContentSize ForeignMessage_MarshalTo res wireTestAllTypes_OptionalForeignMessage (OptionalForeignMessage s) else Ret res,
     \<lambda>res. if OptionalImportMessage s \<noteq> None then structWriter ImportMessage_XXX_PbContentSize ImportMessage_MarshalTo res wireTestAllTypes_OptionalImportMessage (OptionalImportMessage s) else Ret res,
     \<lambda>res. if OptionalNestedEnum s \<noteq> 0 then AppendInt32 res wireTestAllTypes_OptionalNestedEnum (OptionalNestedEnum s) else Ret res,
     \<lambda>res. if OptionalForeignEnum s \<noteq> 0 then AppendInt32 res wireTestAllTypes_OptionalForeignEnum (OptionalForeignEnum s) else Ret res,
     \<lambda>res. if OptionalImportEnum s \<noteq> 0 then AppendInt32 res wireTestAllTypes_OptionalImportEnum (OptionalImportEnum s) else Ret res,
     \<lambda>res. if OptionalStringPiece s \<noteq> [] then AppendString res wireTestAllTypes_OptionalStringPiece (OptionalStringPiece s) else Ret res,
     \<lambda>res. if OptionalCord s \<noteq> [] then AppendString res wireTestAllTypes_OptionalCord (OptionalCord s) else Ret res,
     \<lambda>res. if OptionalPublicImportMessage s \<noteq> None then structWriter PublicImportMessage_XXX_PbContentSize PublicImportMessage_MarshalTo res wireTestAllTypes_OptionalPublicImportMessage (OptionalPublicImportMessage s) else Ret res,
     \<lambda>res. if OptionalLazyMessage s \<noteq> None then structWriter TestAllTypes_NestedMessage_XXX_PbContentSize TestAllTypes_NestedMessage_MarshalTo res wireTestAllTypes_OptionalLazyMessage (OptionalLazyMessage s) else Ret res,
     \<lambda>res. if OptionalUnverifiedLazyMessage s \<noteq> None then structWriter TestAllTypes_NestedMessage_XXX_PbContentSize TestAllTypes_NestedMessage_MarshalTo res wireTestAllTypes_OptionalUnverifiedLazyMessage (OptionalUnverifiedLazyMessage s) else Ret res,
     \<lambda>res. if RepeatedInt32 s \<noteq> [] then packedWriter AppendInt32WithoutTag AppendInt32 SizeInt32 res wireTestAllTypes_RepeatedInt32 (RepeatedInt32 s) else Ret res,
     \<lambda>res. if RepeatedInt64 s \<noteq> [] then packedWriter AppendInt64WithoutTag AppendInt64 SizeInt64 res wireTestAllTypes_RepeatedInt64 (RepeatedInt64 s) else Ret res,
     \<lambda>res. if RepeatedUint32 s \<noteq> [] then packedWriter AppendUint32WithoutTag AppendUint32 SizeUint32 res wireTestAllTypes_RepeatedUint32 (RepeatedUint32 s) else Ret res]"

definition TestAllTypes_appends2 :: "TestAllTypes \<Rightarrow> (Writer \<Rightarrow> Writer go) list" where
  "TestAllTypes_appends2 s = [
     \<lambda>res. if RepeatedUint64 s \<noteq> [] then packedWriter AppendUint64WithoutTag AppendUint64 SizeUint64 res wireTestAllTypes_RepeatedUint64 (RepeatedUint64 s) else Ret res,
     \<lambda>res. if RepeatedSint32 s \<noteq> [] then packedWriter AppendSInt32WithoutTag AppendSInt32 SizeSInt32 res wireTestAllTypes_RepeatedSint32 (RepeatedSint32 s) else Ret res,
     \<lambda>res. if RepeatedSint64 s \<noteq> [] then packedWriter AppendSInt64WithoutTag AppendSInt64 SizeSInt64 res wireTestAllTypes_RepeatedSint64 (RepeatedSint64 s) else Ret res,
     \<lambda>res. if RepeatedFixed32 s \<noteq> [] then packedWriter AppendFixed32WithoutTag AppendFixed32 SizeFixed32 res wireTestAllTypes_RepeatedFixed32 (RepeatedFixed32 s) else Ret res,
     \<lambda>res. if RepeatedFixed64 s \<noteq> [] then packedWriter AppendFixed64WithoutTag AppendFixed64 SizeFixed64 res wireTestAllTypes_RepeatedFixed64 (RepeatedFixed64 s) else Ret res,
     \<lambda>res. if RepeatedSfixed32 s \<noteq> [] then packedWriter AppendSFixed32WithoutTag AppendSFixed32 SizeSFixed32 res wireTestAllTypes_RepeatedSfixed32 (RepeatedSfixed32 s) else Ret res,
     \<lambda>res. if RepeatedSfixed64 s \<noteq> [] then packedWriter AppendSFixed64WithoutTag AppendSFixed64 SizeSFixed64 res wireTestAllTypes_RepeatedSfixed64 (RepeatedSfixed64 s) else Ret res,
     \<lambda>res. if RepeatedFloat s \<noteq> [] then packedWriter AppendFloat32WithoutTag AppendFloat32 SizeFloat32 res wireTestAllTypes_RepeatedFloat (RepeatedFloat s) else Ret res,
     \<lambda>res. if RepeatedDouble s \<noteq> [] then packedWriter AppendFloat64WithoutTag AppendFloat64 SizeFloat64 res wireTestAllTypes_RepeatedDouble (RepeatedDouble s) else Ret res]"

definition TestAllTypes_appends3 :: "TestAllTypes \<Rightarrow> (Writer \<Rightarrow> Writer go) list" where
  "TestAllTypes_appends3 s = [
     \<lambda>res. if RepeatedBool s \<noteq> [] then packedWriter AppendBoolWithoutTag AppendBool SizeBool res wireTestAllTypes_RepeatedBool (RepeatedBool s) else Ret res,
     \<lambda>res. if RepeatedString s \<noteq> [] then repeatedWriter AppendString res wireTestAllTypes_RepeatedString (RepeatedString s) else Ret res,
     \<lambda>res. if RepeatedBytes s \<noteq> [] then repeatedWriter AppendBytes res wireTestAllTypes_RepeatedBytes (RepeatedBytes s) else Ret res,
     \<lambda>res. if RepeatedNestedMessage s \<noteq> [] then repeatedWriter (structWriter TestAllTypes_NestedMessage_XXX_PbContentSize TestAllTypes_NestedMessage_MarshalTo) res wireTestAllTypes_RepeatedNestedMessage (RepeatedNestedMessage s) else Ret res,
     \<lambda>res. if RepeatedForeignMessage s \<noteq> [] then repeatedWriter (structWriter ForeignMessage_XXX_PbContentSize ForeignMessage_MarshalTo) res wireTestAllTypes_RepeatedForeignMessage (RepeatedForeignMessage s) else Ret res,
     \<lambda>res. if RepeatedImportMessage s \<noteq> [] then repeatedWriter (structWriter ImportMessage_XXX_PbContentSize ImportMessage_MarshalTo) res wireTestAllTypes_RepeatedImportMessage (RepeatedImportMessage s) else Ret res,
     \<lambda>res. if RepeatedNestedEnum s \<noteq> [] then packedWriter AppendInt32WithoutTag AppendInt32 SizeInt32 res wireTestAllTypes_RepeatedNestedEnum (RepeatedNestedEnum s) else Ret res,
     \<lambda>res. if RepeatedForeignEnum s \<noteq> [] then packedWriter AppendInt32WithoutTag AppendInt32 SizeInt32 res wireTestAllTypes_RepeatedForeignEnum (RepeatedForeignEnum s) else Ret res,
     \<lambda>res. if RepeatedImportEnum s \<noteq> [] then packedWriter AppendInt32WithoutTag AppendInt32 SizeInt32 res wireTestAllTypes_RepeatedImportEnum (RepeatedImportEnum s) else Ret res,
     \<lambda>res. if RepeatedStringPiece s \<noteq> [] then repeatedWriter AppendString res wireTestAllTypes_RepeatedStringPiece (RepeatedStringPiece s) else Ret res,
     \<lambda>res. if RepeatedCord s \<noteq> [] then repeatedWriter AppendString res wireTestAllTypes_RepeatedCord (RepeatedCord s) else Ret res,
     \<lambda>res. if RepeatedLazyMessage s \<noteq> [] then repeatedWriter (structWriter TestAllTypes_NestedMessage_XXX_PbContentSize TestAllTypes_NestedMessage_MarshalTo) res wireTestAllTypes_RepeatedLazyMessage (RepeatedLazyMessage s) else Ret res,
     \<lambda>res. if DefaultInt32 s \<noteq> 41 then AppendInt32 res wireTestAllTypes_DefaultInt32 (DefaultInt32 s) else Ret res,
     \<lambda>res. if DefaultInt64 s \<noteq> 42 then AppendInt64 res wireTestAllTypes_DefaultInt64 (DefaultInt64 s) else Ret res,
     \<lambda>res. if DefaultUint32 s \<noteq> 43 then AppendUint32 res wireTestAllTypes_DefaultUint32 (DefaultUint32 s) else Ret res,
     \<lambda>res. if DefaultUint64 s \<noteq> 44 then AppendUint64 res wireTestAllTypes_DefaultUint64 (DefaultUint64 s) else Ret res,
     \<lambda>res. if DefaultSint32 s \<noteq> - 45 then AppendSInt32 res wireTestAllTypes_DefaultSint32 (DefaultSint32 s) else Ret res,
     \<lambda>res. if DefaultSint64 s \<noteq> 46 then AppendSInt64 res wireTestAllTypes_DefaultSint64 (DefaultSint64 s) else Ret res,
     \<lambda>res. if DefaultFixed32 s \<noteq> 47 then AppendFixed32 res wireTestAllTypes_DefaultFixed32 (DefaultFixed32 s) else Ret res,
     \<lambda>res. if DefaultFixed64 s \<noteq> 48 then AppendFixed64 res wireTestAllTypes_DefaultFixed64 (DefaultFixed64 s) else Ret res,
     \<lambda>res. if DefaultSfixed32 s \<noteq> 49 then AppendSFixed32 res wireTestAllTypes_DefaultSfixed32 (DefaultSfixed32 s) else Ret res,
     \<lambda>res. if DefaultSfixed64 s \<noteq> - 50 then AppendSFixed64 res wireTestAllTypes_DefaultSfixed64 (DefaultSfixed64 s) else Ret res,
     \<lambda>res. if \<not> float32_eq (DefaultFloat s) (0x424E0000) then AppendFloat32 res wireTestAllTypes_DefaultFloat (DefaultFloat s) else Ret res,
     \<lambda>res. if \<not> float64_eq (DefaultDouble s) (0x40E9640000000000) then AppendFloat64 res wireTestAllTypes_DefaultDouble (DefaultDouble s) else Ret res]"

definition TestAllTypes_appends4 :: "TestAllTypes \<Rightarrow> (Writer \<Rightarrow> Writer go) list" where
  "TestAllTypes_appends4 s = [
     \<lambda>res. if DefaultBool s \<noteq> True then AppendBool res wireTestAllTypes_DefaultBool (DefaultBool s) else Ret res,
     \<lambda>res. if DefaultString s \<noteq> bytes_of ''hello'' then AppendString res wireTestAllTypes_DefaultString (DefaultString s) else Ret res,
     \<lambda>res. if DefaultBytes s \<noteq> bytes_of ''world'' then AppendBytes res wireTestAllTypes_DefaultBytes (DefaultBytes s) else Ret res,
     \<lambda>res. if DefaultNestedEnum s \<noteq> 0 then AppendInt32 res wireTestAllTypes_DefaultNestedEnum (DefaultNestedEnum s) else Ret res,
     \<lambda>res. if DefaultForeignEnum s \<noteq> 0 then AppendInt32 res wireTestAllTypes_DefaultForeignEnum (DefaultForeignEnum s) else Ret res,
     \<lambda>res. if DefaultImportEnum s \<noteq> 0 then AppendInt32 res wireTestAllTypes_DefaultImportEnum (DefaultImportEnum s) else Ret res,
     \<lambda>res. if DefaultStringPiece s \<noteq> bytes_of ''abc'' then AppendString res wireTestAllTypes_DefaultStringPiece (DefaultStringPiece s) else Ret res,
     \<lambda>res. if DefaultCord s \<noteq> bytes_of ''123'' then AppendString res wireTestAllTypes_DefaultCord (DefaultCord s) else Ret res,
     \<lambda>res. if OneofUint32 s \<noteq> 0 then AppendUint32 res wireTestAllTypes_OneofUint32 (OneofUint32 s) else Ret res,
     \<lambda>res. if OneofNestedMessage s \<noteq> None then structWriter TestAllTypes_NestedMessage_XXX_PbContentSize TestAllTypes_NestedMessage_MarshalTo res wireTestAllTypes_OneofNestedMessage (OneofNestedMessage s) else Ret res,
     \<lambda>res. if OneofString s \<noteq> [] then AppendString res wireTestAllTypes_OneofString (OneofString s) else Ret res,
     \<lambda>res. if OneofBytes s \<noteq> [] then AppendBytes res wireTestAllTypes_OneofBytes (OneofBytes s) else Ret res]"

definition TestAllTypes_MarshalTo :: "Writer \<Rightarrow> TestAllTypes option \<Rightarrow> Writer go" where
  "TestAllTypes_MarshalTo = marshalToWith (\<lambda>s. TestAllTypes_appends1 s @ TestAllTypes_appends2 s @ TestAllTypes_appends3 s @ TestAllTypes_appends4 s)"

definition TestAllTypes_sizes1 :: "TestAllTypes \<Rightarrow> int list" where
  "TestAllTypes_sizes1 s = [
     if OptionalInt32 s \<noteq> 0 then sizeWithTag SizeInt32 wireTestAllTypes_OptionalInt32 (OptionalInt32 s) else 0,
     if OptionalInt64 s \<noteq> 0 then sizeWithTag SizeInt64 wireTestAllTypes_OptionalInt64 (OptionalInt64 s) else 0,
     if OptionalUint32 s \<noteq> 0 then sizeWithTag SizeUint32 wireTestAllTypes_OptionalUint32 (OptionalUint32 s) else 0,
     if OptionalUint64 s \<noteq> 0 then sizeWithTag SizeUint64 wireTestAllTypes_OptionalUint64 (OptionalUint64 s) else 0,
     if OptionalSint32 s \<noteq> 0 then sizeWithTag SizeSInt32 wireTestAllTypes_OptionalSint32 (OptionalSint32 s) else 0,
     if OptionalSint64 s \<noteq> 0 then sizeWithTag SizeSInt64 wireTestAllTypes_OptionalSint64 (OptionalSint64 s) else 0,
     if OptionalFixed32 s \<noteq> 0 then sizeWithTag SizeFixed32 wireTestAllTypes_OptionalFixed32 (OptionalFixed32 s) else 0,
     if OptionalFixed64 s \<noteq> 0 then sizeWithTag SizeFixed64 wireTestAllTypes_OptionalFixed64 (OptionalFixed64 s) else 0,
     if OptionalSfixed32 s \<noteq> 0 then sizeWithTag SizeSFixed32 wireTestAllTypes_OptionalSfixed32 (OptionalSfixed32 s) else 0,
     if OptionalSfixed64 s \<noteq> 0 then sizeWithTag SizeSFixed64 wireTestAllTypes_OptionalSfixed64 (OptionalSfixed64 s) else 0,
     if \<not> float32_is_zero (OptionalFloat s) then sizeWithTag SizeFloat32 wireTestAllTypes_OptionalFloat (OptionalFloat s) else 0,
     if \<not> float64_is_zero (OptionalDouble s) then sizeWithTag SizeFloat64 wireTestAllTypes_OptionalDouble (OptionalDouble s) else 0,
     if OptionalBool s then sizeWithTag SizeBool wireTestAllTypes_OptionalBool (OptionalBool s) else 0,
     if OptionalString s \<noteq> [] then sizeDelimitedWithTag SizeString wireTestAllTypes_OptionalString (OptionalString s) else 0,
     if OptionalBytes s \<noteq> [] then sizeDelimitedWithTag SizeBytes wireTestAllTypes_OptionalBytes (OptionalBytes s) else 0,
     if OptionalNestedMessage s \<noteq> None then sizeDelimitedWithTag TestAllTypes_NestedMessage_XXX_PbContentSize wireTestAllTypes_OptionalNestedMessage (OptionalNestedMessage s) else 0,
     if OptionalForeignMessage s \<noteq> None then sizeDelimitedWithTag ForeignMessage_XXX_PbContentSize wireTestAllTypes_OptionalForeignMessage (OptionalForeignMessage s) else 0,
     if OptionalImportMessage s \<noteq> None then sizeDelimitedWithTag ImportMessage_XXX_PbContentSize wireTestAllTypes_OptionalImportMessage (OptionalImportMessage s) else 0,
     if OptionalNestedEnum s \<noteq> 0 then sizeWithTag SizeInt32 wireTestAllTypes_OptionalNestedEnum (OptionalNestedEnum s) else 0,
     if OptionalForeignEnum s \<noteq> 0 then sizeWithTag SizeInt32 wireTestAllTypes_OptionalForeignEnum (OptionalForeignEnum s) else 0,
     if OptionalImportEnum s \<noteq> 0 then sizeWithTag SizeInt32 wireTestAllTypes_OptionalImportEnum (OptionalImportEnum s) else 0,
     if OptionalStringPiece s \<noteq> [] then sizeDelimitedWithTag SizeString wireTestAllTypes_OptionalStringPiece (OptionalStringPiece s) else 0,
     if OptionalCord s \<noteq> [] then sizeDelimitedWithTag SizeString wireTestAllTypes_OptionalCord (OptionalCord s) else 0]"

definition TestAllTypes_sizes2 :: "TestAllTypes \<Rightarrow> int list" where
  "TestAllTypes_sizes2 s = [
     if OptionalPublicImportMessage s \<noteq> None then sizeDelimitedWithTag PublicImportMessage_XXX_PbContentSize wireTestAllTypes_OptionalPublicImportMessage (OptionalPublicImportMessage s) else 0,
     if OptionalLazyMessage s \<noteq> None then sizeDelimitedWithTag TestAllTypes_NestedMessage_XXX_PbContentSize wireTestAllTypes_OptionalLazyMessage (OptionalLazyMessage s) else 0,
     if OptionalUnverifiedLazyMessage s \<noteq> None then sizeDelimitedWithTag TestAllTypes_NestedMessage_XXX_PbContentSize wireTestAllTypes_OptionalUnverifiedLazyMessage (OptionalUnverifiedLazyMessage s) else 0,
     if RepeatedInt32 s \<noteq> [] then packedSize SizeInt32 wireTestAllTypes_RepeatedInt32 (RepeatedInt32 s) else 0,
     if RepeatedInt64 s \<noteq> [] then packedSize SizeInt64 wireTestAllTypes_RepeatedInt64 (RepeatedInt64 s) else 0,
     if RepeatedUint32 s \<noteq> [] then packedSize SizeUint32 wireTestAllTypes_RepeatedUint32 (RepeatedUint32 s) else 0,
     if RepeatedUint64 s \<noteq> [] then packedSize SizeUint64 wireTestAllTypes_RepeatedUint64 (RepeatedUint64 s) else 0,
     if RepeatedSint32 s \<noteq> [] then packedSize SizeSInt32 wireTestAllTypes_RepeatedSint32 (RepeatedSint32 s) else 0,
     if RepeatedSint64 s \<noteq> [] then packedSize SizeSInt64 wireTestAllTypes_RepeatedSint64 (RepeatedSint64 s) else 0]"

definition TestAllTypes_sizes3 :: "TestAllTypes \<Rightarrow> int list" where
  "TestAllTypes_sizes3 s = [
     if RepeatedFixed32 s \<noteq> [] then packedSize SizeFixed32 wireTestAllTypes_RepeatedFixed32 (RepeatedFixed32 s) else 0,
     if RepeatedFixed64 s \<noteq> [] then packedSize SizeFixed64 wireTestAllTypes_RepeatedFixed64 (RepeatedFixed64 s) else 0,
     if RepeatedSfixed32 s \<noteq> [] then packedSize SizeSFixed32 wireTestAllTypes_RepeatedSfixed32 (RepeatedSfixed32 s) else 0,
     if RepeatedSfixed64 s \<noteq> [] then packedSize SizeSFixed64 wireTestAllTypes_RepeatedSfixed64 (RepeatedSfixed64 s) else 0,
     if RepeatedFloat s \<noteq> [] then packedSize SizeFloat32 wireTestAllTypes_RepeatedFloat (RepeatedFloat s) else 0,
     if RepeatedDouble s \<noteq> [] then packedSize SizeFloat64 wireTestAllTypes_RepeatedDouble (RepeatedDouble s) else 0,
     if RepeatedBool s \<noteq> [] then packedSize SizeBool wireTestAllTypes_RepeatedBool (RepeatedBool s) else 0,
     if RepeatedString s \<noteq> [] then repeatedSize (sizeDelimitedWithTag SizeString wireTestAllTypes_RepeatedString) (RepeatedString s) else 0]"

definition TestAllTypes_sizes4 :: "TestAllTypes \<Rightarrow> int list" where
  "TestAllTypes_sizes4 s = [
     if RepeatedBytes s \<noteq> [] then repeatedSize (sizeDelimitedWithTag SizeBytes wireTestAllTypes_RepeatedBytes) (RepeatedBytes s) else 0,
     if RepeatedNestedMessage s \<noteq> [] then repeatedSize (sizeDelimitedWithTag TestAllTypes_NestedMessage_XXX_PbContentSize wireTestAllTypes_RepeatedNestedMessage) (RepeatedNestedMessage s) else 0,
     if RepeatedForeignMessage s \<noteq> [] then repeatedSize (sizeDelimitedWithTag ForeignMessage_XXX_PbContentSize wireTestAllTypes_RepeatedForeignMessage) (RepeatedForeignMessage s) else 0,
     if RepeatedImportMessage s \<noteq> [] then repeatedSize (sizeDelimitedWithTag ImportMessage_XXX_PbContentSize wireTestAllTypes_RepeatedImportMessage) (RepeatedImportMessage s) else 0,
     if RepeatedNestedEnum s \<noteq> [] then packedSize SizeInt32 wireTestAllTypes_RepeatedNestedEnum (RepeatedNestedEnum s) else 0,
     if RepeatedForeignEnum s \<noteq> [] then packedSize SizeInt32 wireTestAllTypes_RepeatedForeignEnum (RepeatedForeignEnum s) else 0,
     if RepeatedImportEnum s \<noteq> [] then packedSize SizeInt32 wireTestAllTypes_RepeatedImportEnum (RepeatedImportEnum s) else 0,
     if RepeatedStringPiece s \<noteq> [] then repeatedSize (sizeDelimitedWithTag SizeString wireTestAllTypes_RepeatedStringPiece) (RepeatedStringPiece s) else 0,
     if RepeatedCord s \<noteq> [] then repeatedSize (sizeDelimitedWithTag SizeString wireTestAllTypes_RepeatedCord) (RepeatedCord s) else 0,
     if RepeatedLazyMessage s \<noteq> [] then repeatedSize (sizeDelimitedWithTag TestAllTypes_NestedMessage_XXX_PbContentSize wireTestAllTypes_RepeatedLazyMessage) (RepeatedLazyMessage s) else 0]"

definition TestAllTypes_sizes5 :: "TestAllTypes \<Rightarrow> int list" where
  "TestAllTypes_sizes5 s = [
     if DefaultInt32 s \<noteq> 41 then sizeWithTag SizeInt32 wireTestAllTypes_DefaultInt32 (DefaultInt32 s) else 0,
     if DefaultInt64 s \<noteq> 42 then sizeWithTag SizeInt64 wireTestAllTypes_DefaultInt64 (DefaultInt64 s) else 0,
     if DefaultUint32 s \<noteq> 43 then sizeWithTag SizeUint32 wireTestAllTypes_DefaultUint32 (DefaultUint32 s) else 0,
     if DefaultUint64 s \<noteq> 44 then sizeWithTag SizeUint64 wireTestAllTypes_DefaultUint64 (DefaultUint64 s) else 0,
     if DefaultSint32 s \<noteq> - 45 then sizeWithTag SizeSInt32 wireTestAllTypes_DefaultSint32 (DefaultSint32 s) else 0,
     if DefaultSint64 s \<noteq> 46 then sizeWithTag SizeSInt64 wireTestAllTypes_DefaultSint64 (DefaultSint64 s) else 0,
     if DefaultFixed32 s \<noteq> 47 then sizeWithTag SizeFixed32 wireTestAllTypes_DefaultFixed32 (DefaultFixed32 s) else 0,
     if DefaultFixed64 s \<noteq> 48 then sizeWithTag SizeFixed64 wireTestAllTypes_DefaultFixed64 (DefaultFixed64 s) else 0,
     if DefaultSfixed32 s \<noteq> 49 then sizeWithTag SizeSFixed32 wireTestAllTypes_DefaultSfixed32 (DefaultSfixed32 s) else 0,
     if DefaultSfixed64 s \<noteq> - 50 then sizeWithTag SizeSFixed64 wireTestAllTypes_DefaultSfixed64 (DefaultSfixed64 s) else 0,
     if \<not> float32_eq (DefaultFloat s) (0x424E0000) then sizeWithTag SizeFloat32 wireTestAllTypes_DefaultFloat (DefaultFloat s) else 0,
     if \<not> float64_eq (DefaultDouble s) (0x40E9640000000000) then sizeWithTag SizeFloat64 wireTestAllTypes_DefaultDouble (DefaultDouble s) else 0,
     if DefaultBool s \<noteq> True then sizeWithTag SizeBool wireTestAllTypes_DefaultBool (DefaultBool s) else 0,
     if DefaultString s \<noteq> bytes_of ''hello'' then sizeDelimitedWithTag SizeString wireTestAllTypes_DefaultString (DefaultString s) else 0,
     if DefaultBytes s \<noteq> bytes_of ''world'' then sizeDelimitedWithTag SizeBytes wireTestAllTypes_DefaultBytes (DefaultBytes s) else 0,
     if DefaultNestedEnum s \<noteq> 0 then sizeWithTag SizeInt32 wireTestAllTypes_DefaultNestedEnum (DefaultNestedEnum s) else 0,
     if DefaultForeignEnum s \<noteq> 0 then sizeWithTag SizeInt32 wireTestAllTypes_DefaultForeignEnum (DefaultForeignEnum s) else 0,
     if DefaultImportEnum s \<noteq> 0 then sizeWithTag SizeInt32 wireTestAllTypes_DefaultImportEnum (DefaultImportEnum s) else 0,
     if DefaultStringPiece s \<noteq> bytes_of ''abc'' then sizeDelimitedWithTag SizeString wireTestAllTypes_DefaultStringPiece (DefaultStringPiece s) else 0,
     if DefaultCord s \<noteq> bytes_of ''123'' then sizeDelimitedWithTag SizeString wireTestAllTypes_DefaultCord (DefaultCord s) else 0,
     if OneofUint32 s \<noteq> 0 then sizeWithTag SizeUint32 wireTestAllTypes_OneofUint32 (OneofUint32 s) else 0,
     if OneofNestedMessage s \<noteq> None then sizeDelimitedWithTag TestAllTypes_NestedMessage_XXX_PbContentSize wireTestAllTypes_OneofNestedMessage (OneofNestedMessage s) else 0,
     if OneofString s \<noteq> [] then sizeDelimitedWithTag SizeString wireTestAllTypes_OneofString (OneofString s) else 0]"

definition TestAllTypes_sizes6 :: "TestAllTypes \<Rightarrow> int list" where
  "TestAllTypes_sizes6 s = [
     if OneofBytes s \<noteq> [] then sizeDelimitedWithTag SizeBytes wireTestAllTypes_OneofBytes (OneofBytes s) else 0]"

definition TestAllTypes_XXX_PbContentSize :: "TestAllTypes option \<Rightarrow> int" where
  "TestAllTypes_XXX_PbContentSize = contentSizeWith (\<lambda>s. TestAllTypes_sizes1 s @ TestAllTypes_sizes2 s @ TestAllTypes_sizes3 s @ TestAllTypes_sizes4 s @ TestAllTypes_sizes5 s @ TestAllTypes_sizes6 s)"

definition TestAllTypes_Marshal :: "TestAllTypes option \<Rightarrow> byte list go" where
  "TestAllTypes_Marshal = marshalWith TestAllTypes_XXX_PbContentSize TestAllTypes_MarshalTo"

definition TestAllTypes_Copy :: "TestAllTypes option \<Rightarrow> TestAllTypes option" where
  "TestAllTypes_Copy s =
     (case s of None \<Rightarrow> None | Some s \<Rightarrow> Some \<lparr>
        OptionalInt32 = OptionalInt32 s, OptionalInt64 = OptionalInt64 s,
        OptionalUint32 = OptionalUint32 s, OptionalUint64 = OptionalUint64 s,
        OptionalSint32 = OptionalSint32 s, OptionalSint64 = OptionalSint64 s,
        OptionalFixed32 = OptionalFixed32 s, OptionalFixed64 = OptionalFixed64 s,
        OptionalSfixed32 = OptionalSfixed32 s, OptionalSfixed64 = OptionalSfixed64 s,
        OptionalFloat = OptionalFloat s, OptionalDouble = OptionalDouble s,
        OptionalBool = OptionalBool s, OptionalString = OptionalString s,
        OptionalBytes = OptionalBytes s,
        OptionalNestedMessage = (case OptionalNestedMessage s of None \<Rightarrow> None | Some x \<Rightarrow> TestAllTypes_NestedMessage_Copy (Some x)),
        OptionalForeignMessage = (case OptionalForeignMessage s of None \<Rightarrow> None | Some x \<Rightarrow> ForeignMessage_Copy (Some x)),
        OptionalImportMessage = (case OptionalImportMessage s of None \<Rightarrow> None | Some x \<Rightarrow> ImportMessage_Copy (Some x)),
        OptionalNestedEnum = OptionalNestedEnum s, OptionalForeignEnum = OptionalForeignEnum s,
        OptionalImportEnum = OptionalImportEnum s, OptionalStringPiece = OptionalStringPiece s,
        OptionalCord = OptionalCord s,
        OptionalPublicImportMessage = (case OptionalPublicImportMessage s of None \<Rightarrow> None | Some x \<Rightarrow> PublicImportMessage_Copy (Some x)),
        OptionalLazyMessage = (case OptionalLazyMessage s of None \<Rightarrow> None | Some x \<Rightarrow> TestAllTypes_NestedMessage_Copy (Some x)),
        OptionalUnverifiedLazyMessage = (case OptionalUnverifiedLazyMessage s of None \<Rightarrow> None | Some x \<Rightarrow> TestAllTypes_NestedMessage_Copy (Some x)),
        RepeatedInt32 = RepeatedInt32 s, RepeatedInt64 = RepeatedInt64 s,
        RepeatedUint32 = RepeatedUint32 s, RepeatedUint64 = RepeatedUint64 s,
        RepeatedSint32 = RepeatedSint32 s, RepeatedSint64 = RepeatedSint64 s,
        RepeatedFixed32 = RepeatedFixed32 s, RepeatedFixed64 = RepeatedFixed64 s,
        RepeatedSfixed32 = RepeatedSfixed32 s, RepeatedSfixed64 = RepeatedSfixed64 s,
        RepeatedFloat = RepeatedFloat s, RepeatedDouble = RepeatedDouble s,
        RepeatedBool = RepeatedBool s, RepeatedString = RepeatedString s,
        RepeatedBytes = RepeatedBytes s,
        RepeatedNestedMessage = map (\<lambda>e. case e of None \<Rightarrow> None | Some x \<Rightarrow> TestAllTypes_NestedMessage_Copy (Some x)) (RepeatedNestedMessage s),
        RepeatedForeignMessage = map (\<lambda>e. case e of None \<Rightarrow> None | Some x \<Rightarrow> ForeignMessage_Copy (Some x)) (RepeatedForeignMessage s),
        RepeatedImportMessage = map (\<lambda>e. case e of None \<Rightarrow> None | Some x \<Rightarrow> ImportMessage_Copy (Some x)) (RepeatedImportMessage s),
        RepeatedNestedEnum = RepeatedNestedEnum s, RepeatedForeignEnum = RepeatedForeignEnum s,
        RepeatedImportEnum = RepeatedImportEnum s, RepeatedStringPiece = RepeatedStringPiece s,
        RepeatedCord = RepeatedCord s,
        RepeatedLazyMessage = map (\<lambda>e. case e of None \<Rightarrow> None | Some x \<Rightarrow> TestAllTypes_NestedMessage_Copy (Some x)) (RepeatedLazyMessage s),
        DefaultInt32 = DefaultInt32 s, DefaultInt64 = DefaultInt64 s,
        DefaultUint32 = DefaultUint32 s, DefaultUint64 = DefaultUint64 s,
        DefaultSint32 = DefaultSint32 s, DefaultSint64 = DefaultSint64 s,
        DefaultFixed32 = DefaultFixed32 s, DefaultFixed64 = DefaultFixed64 s,
        DefaultSfixed32 = DefaultSfixed32 s, DefaultSfixed64 = DefaultSfixed64 s,
        DefaultFloat = DefaultFloat s, DefaultDouble = DefaultDouble s,
        DefaultBool = DefaultBool s, DefaultString = DefaultString s,
        DefaultBytes = DefaultBytes s, DefaultNestedEnum = DefaultNestedEnum s,
        DefaultForeignEnum = DefaultForeignEnum s, DefaultImportEnum = DefaultImportEnum s,
        DefaultStringPiece = DefaultStringPiece s, DefaultCord = DefaultCord s,
        OneofUint32 = OneofUint32 s,
        OneofNestedMessage = (case OneofNestedMessage s of None \<Rightarrow> None | Some x \<Rightarrow> TestAllTypes_NestedMessage_Copy (Some x)),
        OneofString = OneofString s, OneofBytes = OneofBytes s\<rparr>)"

section \<open>TestAllTypes: the round trip\<close>

definition TestAllTypes_tags :: "ProtoWireNumber list" where
  "TestAllTypes_tags = [
     wireTestAllTypes_OptionalInt32, wireTestAllTypes_OptionalInt64,
     wireTestAllTypes_OptionalUint32, wireTestAllTypes_OptionalUint64,
     wireTestAllTypes_OptionalSint32, wireTestAllTypes_OptionalSint64,
     wireTestAllTypes_OptionalFixed32, wireTestAllTypes_OptionalFixed64,
     wireTestAllTypes_OptionalSfixed32, wireTestAllTypes_OptionalSfixed64,
     wireTestAllTypes_OptionalFloat, wireTestAllTypes_OptionalDouble,
     wireTestAllTypes_OptionalBool, wireTestAllTypes_OptionalString,
     wireTestAllTypes_OptionalBytes, wireTestAllTypes_OptionalNestedMessage,
     wireTestAllTypes_OptionalForeignMessage, wireTestAllTypes_OptionalImportMessage,
     wireTestAllTypes_OptionalNestedEnum, wireTestAllTypes_OptionalForeignEnum,
     wireTestAllTypes_OptionalImportEnum, wireTestAllTypes_OptionalStringPiece,
     wireTestAllTypes_OptionalCord, wireTestAllTypes_OptionalPublicImportMessage,
     wireTestAllTypes_OptionalLazyMessage, wireTestAllTypes_OptionalUnverifiedLazyMessage,
     wireTestAllTypes_RepeatedInt32, wireTestAllTypes_RepeatedInt64,
     wireTestAllTypes_RepeatedUint32, wireTestAllTypes_RepeatedUint64,
     wireTestAllTypes_RepeatedSint32, wireTestAllTypes_RepeatedSint64,
     wireTestAllTypes_RepeatedFixed32, wireTestAllTypes_RepeatedFixed64,
     wireTestAllTypes_RepeatedSfixed32, wireTestAllTypes_RepeatedSfixed64,
     wireTestAllTypes_RepeatedFloat, wireTestAllTypes_RepeatedDouble,
     wireTestAllTypes_RepeatedBool, wireTestAllTypes_RepeatedString,
     wireTestAllTypes_RepeatedBytes, wireTestAllTypes_RepeatedNestedMessage,
     wireTestAllTypes_RepeatedForeignMessage, wireTestAllTypes_RepeatedImportMessage,
     wireTestAllTypes_RepeatedNestedEnum, wireTestAllTypes_RepeatedForeignEnum,
     wireTestAllTypes_RepeatedImportEnum, wireTestAllTypes_RepeatedStringPiece,
     wireTestAllTypes_RepeatedCord, wireTestAllTypes_RepeatedLazyMessage,
     wireTestAllTypes_DefaultInt32, wireTestAllTypes_DefaultInt64,
     wireTestAllTypes_DefaultUint32, wireTestAllTypes_DefaultUint64,
     wireTestAllTypes_DefaultSint32, wireTestAllTypes_DefaultSint64,
     wireTestAllTypes_DefaultFixed32, wireTestAllTypes_DefaultFixed64,
     wireTestAllTypes_DefaultSfixed32, wireTestAllTypes_DefaultSfixed64,
     wireTestAllTypes_DefaultFloat, wireTestAllTypes_DefaultDouble,
     wireTestAllTypes_DefaultBool, wireTestAllTypes_DefaultString,
     wireTestAllTypes_DefaultBytes, wireTestAllTypes_DefaultNestedEnum,
     wireTestAllTypes_DefaultForeignEnum, wireTestAllTypes_DefaultImportEnum,
     wireTestAllTypes_DefaultStringPiece, wireTestAllTypes_DefaultCord,
     wireTestAllTypes_OneofUint32, wireTestAllTypes_OneofNestedMessage,
     wireTestAllTypes_OneofString, wireTestAllTypes_OneofBytes]"

definition TestAllTypes_groups :: "TestAllTypes \<Rightarrow> wfield list list" where
  "TestAllTypes_groups s = [
     opt_field (OptionalInt32 s \<noteq> 0) (wireTestAllTypes_OptionalInt32, int32_val (OptionalInt32 s)),
     opt_field (OptionalInt64 s \<noteq> 0) (wireTestAllTypes_OptionalInt64, int64_val (OptionalInt64 s)),
     opt_field (OptionalUint32 s \<noteq> 0) (wireTestAllTypes_OptionalUint32, uint32_val (OptionalUint32 s)),
     opt_field (OptionalUint64 s \<noteq> 0) (wireTestAllTypes_OptionalUint64, uint64_val (OptionalUint64 s)),
     opt_field (OptionalSint32 s \<noteq> 0) (wireTestAllTypes_OptionalSint32, sint32_val (OptionalSint32 s)),
     opt_field (OptionalSint64 s \<noteq> 0) (wireTestAllTypes_OptionalSint64, sint64_val (OptionalSint64 s)),
     opt_field (OptionalFixed32 s \<noteq> 0) (wireTestAllTypes_OptionalFixed32, WFixed32 (OptionalFixed32 s)),
     opt_field (OptionalFixed64 s \<noteq> 0) (wireTestAllTypes_OptionalFixed64, WFixed64 (OptionalFixed64 s)),
     opt_field (OptionalSfixed32 s \<noteq> 0) (wireTestAllTypes_OptionalSfixed32, WFixed32 (OptionalSfixed32 s)),
     opt_field (OptionalSfixed64 s \<noteq> 0) (wireTestAllTypes_OptionalSfixed64, WFixed64 (OptionalSfixed64 s)),
     opt_field (\<not> float32_is_zero (OptionalFloat s)) (wireTestAllTypes_OptionalFloat, WFixed32 (OptionalFloat s)),
     opt_field (\<not> float64_is_zero (OptionalDouble s)) (wireTestAllTypes_OptionalDouble, WFixed64 (OptionalDouble s)),
     opt_field (OptionalBool s) (wireTestAllTypes_OptionalBool, bool_val (OptionalBool s)),
     opt_field (OptionalString s \<noteq> []) (wireTestAllTypes_OptionalString, WBytes (OptionalString s)),
     opt_field (OptionalBytes s \<noteq> []) (wireTestAllTypes_OptionalBytes, WBytes (OptionalBytes s)),
     opt_field (OptionalNestedMessage s \<noteq> None) (wireTestAllTypes_OptionalNestedMessage, WBytes (ptr_bytes TestAllTypes_NestedMessage_content (OptionalNestedMessage s))),
     opt_field (OptionalForeignMessage s \<noteq> None) (wireTestAllTypes_OptionalForeignMessage, WBytes (ptr_bytes ForeignMessage_content (OptionalForeignMessage s))),
     opt_field (OptionalImportMessage s \<noteq> None) (wireTestAllTypes_OptionalImportMessage, WBytes (ptr_bytes ImportMessage_content (OptionalImportMessage s))),
     opt_field (OptionalNestedEnum s \<noteq> 0) (wireTestAllTypes_OptionalNestedEnum, int32_val (OptionalNestedEnum s)),
     opt_field (OptionalForeignEnum s \<noteq> 0) (wireTestAllTypes_OptionalForeignEnum, int32_val (OptionalForeignEnum s)),
     opt_field (OptionalImportEnum s \<noteq> 0) (wireTestAllTypes_OptionalImportEnum, int32_val (OptionalImportEnum s)),
     opt_field (OptionalStringPiece s \<noteq> []) (wireTestAllTypes_OptionalStringPiece, WBytes (OptionalStringPiece s)),
     opt_field (OptionalCord s \<noteq> []) (wireTestAllTypes_OptionalCord, WBytes (OptionalCord s)),
     opt_field (OptionalPublicImportMessage s \<noteq> None) (wireTestAllTypes_OptionalPublicImportMessage, WBytes (ptr_bytes PublicImportMessage_content (OptionalPublicImportMessage s))),
     opt_field (OptionalLazyMessage s \<noteq> None) (wireTestAllTypes_OptionalLazyMessage, WBytes (ptr_bytes TestAllTypes_NestedMessage_content (OptionalLazyMessage s))),
     opt_field (OptionalUnverifiedLazyMessage s \<noteq> None) (wireTestAllTypes_OptionalUnverifiedLazyMessage, WBytes (ptr_bytes TestAllTypes_NestedMessage_content (OptionalUnverifiedLazyMessage s))),
     packed_fields int32_val wireTestAllTypes_RepeatedInt32 (RepeatedInt32 s),
     packed_fields int64_val wireTestAllTypes_RepeatedInt64 (RepeatedInt64 s),
     packed_fields uint32_val wireTestAllTypes_RepeatedUint32 (RepeatedUint32 s),
     packed_fields uint64_val wireTestAllTypes_RepeatedUint64 (RepeatedUint64 s),
     packed_fields sint32_val wireTestAllTypes_RepeatedSint32 (RepeatedSint32 s),
     packed_fields sint64_val wireTestAllTypes_RepeatedSint64 (RepeatedSint64 s),
     packed_fields WFixed32 wireTestAllTypes_RepeatedFixed32 (RepeatedFixed32 s),
     packed_fields WFixed64 wireTestAllTypes_RepeatedFixed64 (RepeatedFixed64 s),
     packed_fields WFixed32 wireTestAllTypes_RepeatedSfixed32 (RepeatedSfixed32 s),
     packed_fields WFixed64 wireTestAllTypes_RepeatedSfixed64 (RepeatedSfixed64 s),
     packed_fields WFixed32 wireTestAllTypes_RepeatedFloat (RepeatedFloat s),
     packed_fields WFixed64 wireTestAllTypes_RepeatedDouble (RepeatedDouble s),
     packed_fields bool_val wireTestAllTypes_RepeatedBool (RepeatedBool s),
     bytes_fields wireTestAllTypes_RepeatedString (RepeatedString s),
     bytes_fields wireTestAllTypes_RepeatedBytes (RepeatedBytes s),
     bytes_fields wireTestAllTypes_RepeatedNestedMessage (map (ptr_bytes TestAllTypes_NestedMessage_content) (RepeatedNestedMessage s)),
     bytes_fields wireTestAllTypes_RepeatedForeignMessage (map (ptr_bytes ForeignMessage_content) (RepeatedForeignMessage s)),
     bytes_fields wireTestAllTypes_RepeatedImportMessage (map (ptr_bytes ImportMessage_content) (RepeatedImportMessage s)),
     packed_fields int32_val wireTestAllTypes_RepeatedNestedEnum (RepeatedNestedEnum s),
     packed_fields int32_val wireTestAllTypes_RepeatedForeignEnum (RepeatedForeignEnum s),
     packed_fields int32_val wireTestAllTypes_RepeatedImportEnum (RepeatedImportEnum s),
     bytes_fields wireTestAllTypes_RepeatedStringPiece (RepeatedStringPiece s),
     bytes_fields wireTestAllTypes_RepeatedCord (RepeatedCord s),
     bytes_fields wireTestAllTypes_RepeatedLazyMessage (map (ptr_bytes TestAllTypes_NestedMessage_content) (RepeatedLazyMessage s)),
     opt_field (DefaultInt32 s \<noteq> 41) (wireTestAllTypes_DefaultInt32, int32_val (DefaultInt32 s)),
     opt_field (DefaultInt64 s \<noteq> 42) (wireTestAllTypes_DefaultInt64, int64_val (DefaultInt64 s)),
     opt_field (DefaultUint32 s \<noteq> 43) (wireTestAllTypes_DefaultUint32, uint32_val (DefaultUint32 s)),
     opt_field (DefaultUint64 s \<noteq> 44) (wireTestAllTypes_DefaultUint64, uint64_val (DefaultUint64 s)),
     opt_field (DefaultSint32 s \<noteq> - 45) (wireTestAllTypes_DefaultSint32, sint32_val (DefaultSint32 s)),
     opt_field (DefaultSint64 s \<noteq> 46) (wireTestAllTypes_DefaultSint64, sint64_val (DefaultSint64 s)),
     opt_field (DefaultFixed32 s \<noteq> 47) (wireTestAllTypes_DefaultFixed32, WFixed32 (DefaultFixed32 s)),
     opt_field (DefaultFixed64 s \<noteq> 48) (wireTestAllTypes_DefaultFixed64, WFixed64 (DefaultFixed64 s)),
     opt_field (DefaultSfixed32 s \<noteq> 49) (wireTestAllTypes_DefaultSfixed32, WFixed32 (DefaultSfixed32 s)),
     opt_field (DefaultSfixed64 s \<noteq> - 50) (wireTestAllTypes_DefaultSfixed64, WFixed64 (DefaultSfixed64 s)),
     opt_field (\<not> float32_eq (DefaultFloat s) (0x424E0000)) (wireTestAllTypes_DefaultFloat, WFixed32 (DefaultFloat s)),
     opt_field (\<not> float64_eq (DefaultDouble s) (0x40E9640000000000)) (wireTestAllTypes_DefaultDouble, WFixed64 (DefaultDouble s)),
     opt_field (DefaultBool s \<noteq> True) (wireTestAllTypes_DefaultBool, bool_val (DefaultBool s)),
     opt_field (DefaultString s \<noteq> bytes_of ''hello'') (wireTestAllTypes_DefaultString, WBytes (DefaultString s)),
     opt_field (DefaultBytes s \<noteq> bytes_of ''world'') (wireTestAllTypes_DefaultBytes, WBytes (DefaultBytes s)),
     opt_field (DefaultNestedEnum s \<noteq> 0) (wireTestAllTypes_DefaultNestedEnum, int32_val (DefaultNestedEnum s)),
     opt_field (DefaultForeignEnum s \<noteq> 0) (wireTestAllTypes_DefaultForeignEnum, int32_val (DefaultForeignEnum s)),
     opt_field (DefaultImportEnum s \<noteq> 0) (wireTestAllTypes_DefaultImportEnum, int32_val (DefaultImportEnum s)),
     opt_field (DefaultStringPiece s \<noteq> bytes_of ''abc'') (wireTestAllTypes_DefaultStringPiece, WBytes (DefaultStringPiece s)),
     opt_field (DefaultCord s \<noteq> bytes_of ''123'') (wireTestAllTypes_DefaultCord, WBytes (DefaultCord s)),
     opt_field (OneofUint32 s \<noteq> 0) (wireTestAllTypes_OneofUint32, uint32_val (OneofUint32 s)),
     opt_field (OneofNestedMessage s \<noteq> None) (wireTestAllTypes_OneofNestedMessage, WBytes (ptr_bytes TestAllTypes_NestedMessage_content (OneofNestedMessage s))),
     opt_field (OneofString s \<noteq> []) (wireTestAllTypes_OneofString, WBytes (OneofString s)),
     opt_field (OneofBytes s \<noteq> []) (wireTestAllTypes_OneofBytes, WBytes (OneofBytes s))]"

definition TestAllTypes_content :: "TestAllTypes \<Rightarrow> wfield list" where
  "TestAllTypes_content s = concat (TestAllTypes_groups s)"

text \<open>What a round trip keeps.\<close>

definition TestAllTypes_norm :: "TestAllTypes \<Rightarrow> TestAllTypes" where
  "TestAllTypes_norm s = s\<lparr>
     OptionalFloat := if \<not> float32_is_zero (OptionalFloat s) then OptionalFloat s else 0x0,
     OptionalDouble := if \<not> float64_is_zero (OptionalDouble s) then OptionalDouble s else 0x0,
     OptionalNestedMessage := norm_ptr TestAllTypes_NestedMessage_content TestAllTypes_NestedMessage_norm (OptionalNestedMessage s),
     OptionalForeignMessage := norm_ptr ForeignMessage_content ForeignMessage_norm (OptionalForeignMessage s),
     OptionalImportMessage := norm_ptr ImportMessage_content ImportMessage_norm (OptionalImportMessage s),
     OptionalPublicImportMessage := norm_ptr PublicImportMessage_content PublicImportMessage_norm (OptionalPublicImportMessage s),
     OptionalLazyMessage := norm_ptr TestAllTypes_NestedMessage_content TestAllTypes_NestedMessage_norm (OptionalLazyMessage s),
     OptionalUnverifiedLazyMessage := norm_ptr TestAllTypes_NestedMessage_content TestAllTypes_NestedMessage_norm (OptionalUnverifiedLazyMessage s),
     RepeatedNestedMessage := map (norm_ptr TestAllTypes_NestedMessage_content TestAllTypes_NestedMessage_norm) (RepeatedNestedMessage s),
     RepeatedForeignMessage := map (norm_ptr ForeignMessage_content ForeignMessage_norm) (RepeatedForeignMessage s),
     RepeatedImportMessage := map (norm_ptr ImportMessage_content ImportMessage_norm) (RepeatedImportMessage s),
     RepeatedLazyMessage := map (norm_ptr TestAllTypes_NestedMessage_content TestAllTypes_NestedMessage_norm) (RepeatedLazyMessage s),
     OneofNestedMessage := norm_ptr TestAllTypes_NestedMessage_content TestAllTypes_NestedMessage_norm (OneofNestedMessage s)\<rparr>"

definition TestAllTypes_ready :: "Reader \<Rightarrow> TestAllTypes \<Rightarrow> (TestAllTypesReader \<Rightarrow> bool) list" where
  "TestAllTypes_ready p s = [
     \<lambda>m. cell_reads (readOne ReadInt32 0) plain p (if OptionalInt32 s \<noteq> 0 then OptionalInt32 s else 0) (cellOptionalInt32 m),
     \<lambda>m. cell_reads (readOne ReadInt64 0) plain p (if OptionalInt64 s \<noteq> 0 then OptionalInt64 s else 0) (cellOptionalInt64 m),
     \<lambda>m. cell_reads (readOne ReadUint32 0) plain p (if OptionalUint32 s \<noteq> 0 then OptionalUint32 s else 0) (cellOptionalUint32 m),
     \<lambda>m. cell_reads (readOne ReadUint64 0) plain p (if OptionalUint64 s \<noteq> 0 then OptionalUint64 s else 0) (cellOptionalUint64 m),
     \<lambda>m. cell_reads (readOne ReadSInt32 0) plain p (if OptionalSint32 s \<noteq> 0 then OptionalSint32 s else 0) (cellOptionalSint32 m),
     \<lambda>m. cell_reads (readOne ReadSInt64 0) plain p (if OptionalSint64 s \<noteq> 0 then OptionalSint64 s else 0) (cellOptionalSint64 m),
     \<lambda>m. cell_reads (readOne ReadFixed32 0) plain p (if OptionalFixed32 s \<noteq> 0 then OptionalFixed32 s else 0) (cellOptionalFixed32 m),
     \<lambda>m. cell_reads (readOne ReadFixed64 0) plain p (if OptionalFixed64 s \<noteq> 0 then OptionalFixed64 s else 0) (cellOptionalFixed64 m),
     \<lambda>m. cell_reads (readOne ReadSFixed32 0) plain p (if OptionalSfixed32 s \<noteq> 0 then OptionalSfixed32 s else 0) (cellOptionalSfixed32 m),
     \<lambda>m. cell_reads (readOne ReadSFixed64 0) plain p (if OptionalSfixed64 s \<noteq> 0 then OptionalSfixed64 s else 0) (cellOptionalSfixed64 m),
     \<lambda>m. cell_reads (readOne ReadFloat32 0x0) plain p (if \<not> float32_is_zero (OptionalFloat s) then OptionalFloat s else 0x0) (cellOptionalFloat m),
     \<lambda>m. cell_reads (readOne ReadFloat64 0x0) plain p (if \<not> float64_is_zero (OptionalDouble s) then OptionalDouble s else 0x0) (cellOptionalDouble m),
     \<lambda>m. cell_reads (readOne ReadBool False) plain p (if OptionalBool s then OptionalBool s else False) (cellOptionalBool m),
     \<lambda>m. cell_reads (readOne ReadString []) plain p (if OptionalString s \<noteq> [] then OptionalString s else []) (cellOptionalString m),
     \<lambda>m. cell_reads (readOne ReadByteList []) plain p (if OptionalBytes s \<noteq> [] then OptionalBytes s else []) (cellOptionalBytes m),
     \<lambda>m. cell_reads (structReader (TestAllTypes_NestedMessageReader_Unmarshal NewTestAllTypes_NestedMessageReader)) (structToStruct TestAllTypes_NestedMessageReader_ToStruct) p (norm_ptr TestAllTypes_NestedMessage_content TestAllTypes_NestedMessage_norm (OptionalNestedMessage s)) (cellOptionalNestedMessage m),
     \<lambda>m. cell_reads (structReader (ForeignMessageReader_Unmarshal NewForeignMessageReader)) (structToStruct ForeignMessageReader_ToStruct) p (norm_ptr ForeignMessage_content ForeignMessage_norm (OptionalForeignMessage s)) (cellOptionalForeignMessage m),
     \<lambda>m. cell_reads (structReader (ImportMessageReader_Unmarshal NewImportMessageReader)) (structToStruct ImportMessageReader_ToStruct) p (norm_ptr ImportMessage_content ImportMessage_norm (OptionalImportMessage s)) (cellOptionalImportMessage m),
     \<lambda>m. cell_reads (readOne ReadInt32 0) plain p (if OptionalNestedEnum s \<noteq> 0 then OptionalNestedEnum s else 0) (cellOptionalNestedEnum m),
     \<lambda>m. cell_reads (readOne ReadInt32 0) plain p (if OptionalForeignEnum s \<noteq> 0 then OptionalForeignEnum s else 0) (cellOptionalForeignEnum m),
     \<lambda>m. cell_reads (readOne ReadInt32 0) plain p (if OptionalImportEnum s \<noteq> 0 then OptionalImportEnum s else 0) (cellOptionalImportEnum m),
     \<lambda>m. cell_reads (readOne ReadString []) plain p (if OptionalStringPiece s \<noteq> [] then OptionalStringPiece s else []) (cellOptionalStringPiece m),
     \<lambda>m. cell_reads (readOne ReadString []) plain p (if OptionalCord s \<noteq> [] then OptionalCord s else []) (cellOptionalCord m),
     \<lambda>m. cell_reads (structReader (PublicImportMessageReader_Unmarshal NewPublicImportMessageReader)) (structToStruct PublicImportMessageReader_ToStruct) p (norm_ptr PublicImportMessage_content PublicImportMessage_norm (OptionalPublicImportMessage s)) (cellOptionalPublicImportMessage m),
     \<lambda>m. cell_reads (structReader (TestAllTypes_NestedMessageReader_Unmarshal NewTestAllTypes_NestedMessageReader)) (structToStruct TestAllTypes_NestedMessageReader_ToStruct) p (norm_ptr TestAllTypes_NestedMessage_content TestAllTypes_NestedMessage_norm (OptionalLazyMessage s)) (cellOptionalLazyMessage m),
     \<lambda>m. cell_reads (structReader (TestAllTypes_NestedMessageReader_Unmarshal NewTestAllTypes_NestedMessageReader)) (structToStruct TestAllTypes_NestedMessageReader_ToStruct) p (norm_ptr TestAllTypes_NestedMessage_content TestAllTypes_NestedMessage_norm (OptionalUnverifiedLazyMessage s)) (cellOptionalUnverifiedLazyMessage m),
     \<lambda>m. cell_reads (readPacked ReadInt32 SizedReadInt32 0) plain p (RepeatedInt32 s) (cellRepeatedInt32 m),
     \<lambda>m. cell_reads (readPacked ReadInt64 SizedReadInt64 0) plain p (RepeatedInt64 s) (cellRepeatedInt64 m),
     \<lambda>m. cell_reads (readPacked ReadUint32 SizedReadUint32 0) plain p (RepeatedUint32 s) (cellRepeatedUint32 m),
     \<lambda>m. cell_reads (readPacked ReadUint64 SizedReadUint64 0) plain p (RepeatedUint64 s) (cellRepeatedUint64 m),
     \<lambda>m. cell_reads (readPacked ReadSInt32 SizedReadSInt32 0) plain p (RepeatedSint32 s) (cellRepeatedSint32 m),
     \<lambda>m. cell_reads (readPacked ReadSInt64 SizedReadSInt64 0) plain p (RepeatedSint64 s) (cellRepeatedSint64 m),
     \<lambda>m. cell_reads (readPacked ReadFixed32 SizedReadFixed32 0) plain p (RepeatedFixed32 s) (cellRepeatedFixed32 m),
     \<lambda>m. cell_reads (readPacked ReadFixed64 SizedReadFixed64 0) plain p (RepeatedFixed64 s) (cellRepeatedFixed64 m),
     \<lambda>m. cell_reads (readPacked ReadSFixed32 SizedReadSFixed32 0) plain p (RepeatedSfixed32 s) (cellRepeatedSfixed32 m),
     \<lambda>m. cell_reads (readPacked ReadSFixed64 SizedReadSFixed64 0) plain p (RepeatedSfixed64 s) (cellRepeatedSfixed64 m),
     \<lambda>m. cell_reads (readPacked ReadFloat32 SizedReadFloat32 0) plain p (RepeatedFloat s) (cellRepeatedFloat m),
     \<lambda>m. cell_reads (readPacked ReadFloat64 SizedReadFloat64 0) plain p (RepeatedDouble s) (cellRepeatedDouble m),
     \<lambda>m. cell_reads (readPacked ReadBool SizedReadBool False) plain p (RepeatedBool s) (cellRepeatedBool m),
     \<lambda>m. cell_reads (readList ReadString []) plain p (RepeatedString s) (cellRepeatedString m),
     \<lambda>m. cell_reads (readList ReadByteList []) plain p (RepeatedBytes s) (cellRepeatedBytes m),
     \<lambda>m. cell_reads (readStructs (TestAllTypes_NestedMessageReader_Unmarshal NewTestAllTypes_NestedMessageReader)) (repeatedToStruct TestAllTypes_NestedMessageReader_ToStruct) p (map (norm_ptr TestAllTypes_NestedMessage_content TestAllTypes_NestedMessage_norm) (RepeatedNestedMessage s)) (cellRepeatedNestedMessage m),
     \<lambda>m. cell_reads (readStructs (ForeignMessageReader_Unmarshal NewForeignMessageReader)) (repeatedToStruct ForeignMessageReader_ToStruct) p (map (norm_ptr ForeignMessage_content ForeignMessage_norm) (RepeatedForeignMessage s)) (cellRepeatedForeignMessage m),
     \<lambda>m. cell_reads (readStructs (ImportMessageReader_Unmarshal NewImportMessageReader)) (repeatedToStruct ImportMessageReader_ToStruct) p (map (norm_ptr ImportMessage_content ImportMessage_norm) (RepeatedImportMessage s)) (cellRepeatedImportMessage m),
     \<lambda>m. cell_reads (readPacked ReadInt32 SizedReadInt32 0) plain p (RepeatedNestedEnum s) (cellRepeatedNestedEnum m),
     \<lambda>m. cell_reads (readPacked ReadInt32 SizedReadInt32 0) plain p (RepeatedForeignEnum s) (cellRepeatedForeignEnum m),
     \<lambda>m. cell_reads (readPacked ReadInt32 SizedReadInt32 0) plain p (RepeatedImportEnum s) (cellRepeatedImportEnum m),
     \<lambda>m. cell_reads (readList ReadString []) plain p (RepeatedStringPiece s) (cellRepeatedStringPiece m),
     \<lambda>m. cell_reads (readList ReadString []) plain p (RepeatedCord s) (cellRepeatedCord m),
     \<lambda>m. cell_reads (readStructs (TestAllTypes_NestedMessageReader_Unmarshal NewTestAllTypes_NestedMessageReader)) (repeatedToStruct TestAllTypes_NestedMessageReader_ToStruct) p (map (norm_ptr TestAllTypes_NestedMessage_content TestAllTypes_NestedMessage_norm) (RepeatedLazyMessage s)) (cellRepeatedLazyMessage m),
     \<lambda>m. cell_reads (readOne ReadInt32 41) plain p (if DefaultInt32 s \<noteq> 41 then DefaultInt32 s else 41) (cellDefaultInt32 m),
     \<lambda>m. cell_reads (readOne ReadInt64 42) plain p (if DefaultInt64 s \<noteq> 42 then DefaultInt64 s else 42) (cellDefaultInt64 m),
     \<lambda>m. cell_reads (readOne ReadUint32 43) plain p (if DefaultUint32 s \<noteq> 43 then DefaultUint32 s else 43) (cellDefaultUint32 m),
     \<lambda>m. cell_reads (readOne ReadUint64 44) plain p (if DefaultUint64 s \<noteq> 44 then DefaultUint64 s else 44) (cellDefaultUint64 m),
     \<lambda>m. cell_reads (readOne ReadSInt32 (- 45)) plain p (if DefaultSint32 s \<noteq> - 45 then DefaultSint32 s else - 45) (cellDefaultSint32 m),
     \<lambda>m. cell_reads (readOne ReadSInt64 46) plain p (if DefaultSint64 s \<noteq> 46 then DefaultSint64 s else 46) (cellDefaultSint64 m),
     \<lambda>m. cell_reads (readOne ReadFixed32 47) plain p (if DefaultFixed32 s \<noteq> 47 then DefaultFixed32 s else 47) (cellDefaultFixed32 m),
     \<lambda>m. cell_reads (readOne ReadFixed64 48) plain p (if DefaultFixed64 s \<noteq> 48 then DefaultFixed64 s else 48) (cellDefaultFixed64 m),
     \<lambda>m. cell_reads (readOne ReadSFixed32 49) plain p (if DefaultSfixed32 s \<noteq> 49 then DefaultSfixed32 s else 49) (cellDefaultSfixed32 m),
     \<lambda>m. cell_reads (readOne ReadSFixed64 (- 50)) plain p (if DefaultSfixed64 s \<noteq> - 50 then DefaultSfixed64 s else - 50) (cellDefaultSfixed64 m),
     \<lambda>m. cell_reads (readOne ReadFloat32 0x424E0000) plain p (if \<not> float32_eq (DefaultFloat s) (0x424E0000) then DefaultFloat s else 0x424E0000) (cellDefaultFloat m),
     \<lambda>m. cell_reads (readOne ReadFloat64 0x40E9640000000000) plain p (if \<not> float64_eq (DefaultDouble s) (0x40E9640000000000) then DefaultDouble s else 0x40E9640000000000) (cellDefaultDouble m),
     \<lambda>m. cell_reads (readOne ReadBool True) plain p (if DefaultBool s \<noteq> True then DefaultBool s else True) (cellDefaultBool m),
     \<lambda>m. cell_reads (readOne ReadString (bytes_of ''hello'')) plain p (if DefaultString s \<noteq> bytes_of ''hello'' then DefaultString s else bytes_of ''hello'') (cellDefaultString m),
     \<lambda>m. cell_reads (readOne ReadByteList (bytes_of ''world'')) plain p (if DefaultBytes s \<noteq> bytes_of ''world'' then DefaultBytes s else bytes_of ''world'') (cellDefaultBytes m),
     \<lambda>m. cell_reads (readOne ReadInt32 0) plain p (if DefaultNestedEnum s \<noteq> 0 then DefaultNestedEnum s else 0) (cellDefaultNestedEnum m),
     \<lambda>m. cell_reads (readOne ReadInt32 0) plain p (if DefaultForeignEnum s \<noteq> 0 then DefaultForeignEnum s else 0) (cellDefaultForeignEnum m),
     \<lambda>m. cell_reads (readOne ReadInt32 0) plain p (if DefaultImportEnum s \<noteq> 0 then DefaultImportEnum s else 0) (cellDefaultImportEnum m),
     \<lambda>m. cell_reads (readOne ReadString (bytes_of ''abc'')) plain p (if DefaultStringPiece s \<noteq> bytes_of ''abc'' then DefaultStringPiece s else bytes_of ''abc'') (cellDefaultStringPiece m),
     \<lambda>m. cell_reads (readOne ReadString (bytes_of ''123'')) plain p (if DefaultCord s \<noteq> bytes_of ''123'' then DefaultCord s else bytes_of ''123'') (cellDefaultCord m),
     \<lambda>m. cell_reads (readOne ReadUint32 0) plain p (if OneofUint32 s \<noteq> 0 then OneofUint32 s else 0) (cellOneofUint32 m),
     \<lambda>m. cell_reads (structReader (TestAllTypes_NestedMessageReader_Unmarshal NewTestAllTypes_NestedMessageReader)) (structToStruct TestAllTypes_NestedMessageReader_ToStruct) p (norm_ptr TestAllTypes_NestedMessage_content TestAllTypes_NestedMessage_norm (OneofNestedMessage s)) (cellOneofNestedMessage m),
     \<lambda>m. cell_reads (readOne ReadString []) plain p (if OneofString s \<noteq> [] then OneofString s else []) (cellOneofString m),
     \<lambda>m. cell_reads (readOne ReadByteList []) plain p (if OneofBytes s \<noteq> [] then OneofBytes s else []) (cellOneofBytes m)]"

definition TestAllTypes_stored :: "TestAllTypes \<Rightarrow> (TestAllTypes \<Rightarrow> TestAllTypes) list" where
  "TestAllTypes_stored s = [
     \<lambda>res. res\<lparr>OptionalInt32 := if OptionalInt32 s \<noteq> 0 then OptionalInt32 s else 0\<rparr>,
     \<lambda>res. res\<lparr>OptionalInt64 := if OptionalInt64 s \<noteq> 0 then OptionalInt64 s else 0\<rparr>,
     \<lambda>res. res\<lparr>OptionalUint32 := if OptionalUint32 s \<noteq> 0 then OptionalUint32 s else 0\<rparr>,
     \<lambda>res. res\<lparr>OptionalUint64 := if OptionalUint64 s \<noteq> 0 then OptionalUint64 s else 0\<rparr>,
     \<lambda>res. res\<lparr>OptionalSint32 := if OptionalSint32 s \<noteq> 0 then OptionalSint32 s else 0\<rparr>,
     \<lambda>res. res\<lparr>OptionalSint64 := if OptionalSint64 s \<noteq> 0 then OptionalSint64 s else 0\<rparr>,
     \<lambda>res. res\<lparr>OptionalFixed32 := if OptionalFixed32 s \<noteq> 0 then OptionalFixed32 s else 0\<rparr>,
     \<lambda>res. res\<lparr>OptionalFixed64 := if OptionalFixed64 s \<noteq> 0 then OptionalFixed64 s else 0\<rparr>,
     \<lambda>res. res\<lparr>OptionalSfixed32 := if OptionalSfixed32 s \<noteq> 0 then OptionalSfixed32 s else 0\<rparr>,
     \<lambda>res. res\<lparr>OptionalSfixed64 := if OptionalSfixed64 s \<noteq> 0 then OptionalSfixed64 s else 0\<rparr>,
     \<lambda>res. res\<lparr>OptionalFloat := if \<not> float32_is_zero (OptionalFloat s) then OptionalFloat s else 0x0\<rparr>,
     \<lambda>res. res\<lparr>OptionalDouble := if \<not> float64_is_zero (OptionalDouble s) then OptionalDouble s else 0x0\<rparr>,
     \<lambda>res. res\<lparr>OptionalBool := if OptionalBool s then OptionalBool s else False\<rparr>,
     \<lambda>res. res\<lparr>OptionalString := if OptionalString s \<noteq> [] then OptionalString s else []\<rparr>,
     \<lambda>res. res\<lparr>OptionalBytes := if OptionalBytes s \<noteq> [] then OptionalBytes s else []\<rparr>,
     \<lambda>res. res\<lparr>OptionalNestedMessage := norm_ptr TestAllTypes_NestedMessage_content TestAllTypes_NestedMessage_norm (OptionalNestedMessage s)\<rparr>,
     \<lambda>res. res\<lparr>OptionalForeignMessage := norm_ptr ForeignMessage_content ForeignMessage_norm (OptionalForeignMessage s)\<rparr>,
     \<lambda>res. res\<lparr>OptionalImportMessage := norm_ptr ImportMessage_content ImportMessage_norm (OptionalImportMessage s)\<rparr>,
     \<lambda>res. res\<lparr>OptionalNestedEnum := if OptionalNestedEnum s \<noteq> 0 then OptionalNestedEnum s else 0\<rparr>,
     \<lambda>res. res\<lparr>OptionalForeignEnum := if OptionalForeignEnum s \<noteq> 0 then OptionalForeignEnum s else 0\<rparr>,
     \<lambda>res. res\<lparr>OptionalImportEnum := if OptionalImportEnum s \<noteq> 0 then OptionalImportEnum s else 0\<rparr>,
     \<lambda>res. res\<lparr>OptionalStringPiece := if OptionalStringPiece s \<noteq> [] then OptionalStringPiece s else []\<rparr>,
     \<lambda>res. res\<lparr>OptionalCord := if OptionalCord s \<noteq> [] then OptionalCord s else []\<rparr>,
     \<lambda>res. res\<lparr>OptionalPublicImportMessage := norm_ptr PublicImportMessage_content PublicImportMessage_norm (OptionalPublicImportMessage s)\<rparr>,
     \<lambda>res. res\<lparr>OptionalLazyMessage := norm_ptr TestAllTypes_NestedMessage_content TestAllTypes_NestedMessage_norm (OptionalLazyMessage s)\<rparr>,
     \<lambda>res. res\<lparr>OptionalUnverifiedLazyMessage := norm_ptr TestAllTypes_NestedMessage_content TestAllTypes_NestedMessage_norm (OptionalUnverifiedLazyMessage s)\<rparr>,
     \<lambda>res. res\<lparr>RepeatedInt32 := RepeatedInt32 s\<rparr>,
     \<lambda>res. res\<lparr>RepeatedInt64 := RepeatedInt64 s\<rparr>,
     \<lambda>res. res\<lparr>RepeatedUint32 := RepeatedUint32 s\<rparr>,
     \<lambda>res. res\<lparr>RepeatedUint64 := RepeatedUint64 s\<rparr>,
     \<lambda>res. res\<lparr>RepeatedSint32 := RepeatedSint32 s\<rparr>,
     \<lambda>res. res\<lparr>RepeatedSint64 := RepeatedSint64 s\<rparr>,
     \<lambda>res. res\<lparr>RepeatedFixed32 := RepeatedFixed32 s\<rparr>,
     \<lambda>res. res\<lparr>RepeatedFixed64 := RepeatedFixed64 s\<rparr>,
     \<lambda>res. res\<lparr>RepeatedSfixed32 := RepeatedSfixed32 s\<rparr>,
     \<lambda>res. res\<lparr>RepeatedSfixed64 := RepeatedSfixed64 s\<rparr>,
     \<lambda>res. res\<lparr>RepeatedFloat := RepeatedFloat s\<rparr>,
     \<lambda>res. res\<lparr>RepeatedDouble := RepeatedDouble s\<rparr>,
     \<lambda>res. res\<lparr>RepeatedBool := RepeatedBool s\<rparr>,
     \<lambda>res. res\<lparr>RepeatedString := RepeatedString s\<rparr>,
     \<lambda>res. res\<lparr>RepeatedBytes := RepeatedBytes s\<rparr>,
     \<lambda>res. res\<lparr>RepeatedNestedMessage := map (norm_ptr TestAllTypes_NestedMessage_content TestAllTypes_NestedMessage_norm) (RepeatedNestedMessage s)\<rparr>,
     \<lambda>res. res\<lparr>RepeatedForeignMessage := map (norm_ptr ForeignMessage_content ForeignMessage_norm) (RepeatedForeignMessage s)\<rparr>,
     \<lambda>res. res\<lparr>RepeatedImportMessage := map (norm_ptr ImportMessage_content ImportMessage_norm) (RepeatedImportMessage s)\<rparr>,
     \<lambda>res. res\<lparr>RepeatedNestedEnum := RepeatedNestedEnum s\<rparr>,
     \<lambda>res. res\<lparr>RepeatedForeignEnum := RepeatedForeignEnum s\<rparr>,
     \<lambda>res. res\<lparr>RepeatedImportEnum := RepeatedImportEnum s\<rparr>,
     \<lambda>res. res\<lparr>RepeatedStringPiece := RepeatedStringPiece s\<rparr>,
     \<lambda>res. res\<lparr>RepeatedCord := RepeatedCord s\<rparr>,
     \<lambda>res. res\<lparr>RepeatedLazyMessage := map (norm_ptr TestAllTypes_NestedMessage_content TestAllTypes_NestedMessage_norm) (RepeatedLazyMessage s)\<rparr>,
     \<lambda>res. res\<lparr>DefaultInt32 := if DefaultInt32 s \<noteq> 41 then DefaultInt32 s else 41\<rparr>,
     \<lambda>res. res\<lparr>DefaultInt64 := if DefaultInt64 s \<noteq> 42 then DefaultInt64 s else 42\<rparr>,
     \<lambda>res. res\<lparr>DefaultUint32 := if DefaultUint32 s \<noteq> 43 then DefaultUint32 s else 43\<rparr>,
     \<lambda>res. res\<lparr>DefaultUint64 := if DefaultUint64 s \<noteq> 44 then DefaultUint64 s else 44\<rparr>,
     \<lambda>res. res\<lparr>DefaultSint32 := if DefaultSint32 s \<noteq> - 45 then DefaultSint32 s else - 45\<rparr>,
     \<lambda>res. res\<lparr>DefaultSint64 := if DefaultSint64 s \<noteq> 46 then DefaultSint64 s else 46\<rparr>,
     \<lambda>res. res\<lparr>DefaultFixed32 := if DefaultFixed32 s \<noteq> 47 then DefaultFixed32 s else 47\<rparr>,
     \<lambda>res. res\<lparr>DefaultFixed64 := if DefaultFixed64 s \<noteq> 48 then DefaultFixed64 s else 48\<rparr>,
     \<lambda>res. res\<lparr>DefaultSfixed32 := if DefaultSfixed32 s \<noteq> 49 then DefaultSfixed32 s else 49\<rparr>,
     \<lambda>res. res\<lparr>DefaultSfixed64 := if DefaultSfixed64 s \<noteq> - 50 then DefaultSfixed64 s else - 50\<rparr>,
     \<lambda>res. res\<lparr>DefaultFloat := if \<not> float32_eq (DefaultFloat s) (0x424E0000) then DefaultFloat s else 0x424E0000\<rparr>,
     \<lambda>res. res\<lparr>DefaultDouble := if \<not> float64_eq (DefaultDouble s) (0x40E9640000000000) then DefaultDouble s else 0x40E9640000000000\<rparr>,
     \<lambda>res. res\<lparr>DefaultBool := if DefaultBool s \<noteq> True then DefaultBool s else True\<rparr>,
     \<lambda>res. res\<lparr>DefaultString := if DefaultString s \<noteq> bytes_of ''hello'' then DefaultString s else bytes_of ''hello''\<rparr>,
     \<lambda>res. res\<lparr>DefaultBytes := if DefaultBytes s \<noteq> bytes_of ''world'' then DefaultBytes s else bytes_of ''world''\<rparr>,
     \<lambda>res. res\<lparr>DefaultNestedEnum := if DefaultNestedEnum s \<noteq> 0 then DefaultNestedEnum s else 0\<rparr>,
     \<lambda>res. res\<lparr>DefaultForeignEnum := if DefaultForeignEnum s \<noteq> 0 then DefaultForeignEnum s else 0\<rparr>,
     \<lambda>res. res\<lparr>DefaultImportEnum := if DefaultImportEnum s \<noteq> 0 then DefaultImportEnum s else 0\<rparr>,
     \<lambda>res. res\<lparr>DefaultStringPiece := if DefaultStringPiece s \<noteq> bytes_of ''abc'' then DefaultStringPiece s else bytes_of ''abc''\<rparr>,
     \<lambda>res. res\<lparr>DefaultCord := if DefaultCord s \<noteq> bytes_of ''123'' then DefaultCord s else bytes_of ''123''\<rparr>,
     \<lambda>res. res\<lparr>OneofUint32 := if OneofUint32 s \<noteq> 0 then OneofUint32 s else 0\<rparr>,
     \<lambda>res. res\<lparr>OneofNestedMessage := norm_ptr TestAllTypes_NestedMessage_content TestAllTypes_NestedMessage_norm (OneofNestedMessage s)\<rparr>,
     \<lambda>res. res\<lparr>OneofString := if OneofString s \<noteq> [] then OneofString s else []\<rparr>,
     \<lambda>res. res\<lparr>OneofBytes := if OneofBytes s \<noteq> [] then OneofBytes s else []\<rparr>]"

lemma TestAllTypes_cases_distinct: "distinct (map fst (TestAllTypesReader_cases wire offset))"
  by (rule ascending_distinct) (simp add: TestAllTypesReader_cases_def wireTestAllTypes)

lemma TestAllTypes_stores:
  "stores_cell TestAllTypesReader_save wireTestAllTypes_OptionalInt32 setOffset cellOptionalInt32"
  "stores_cell TestAllTypesReader_save wireTestAllTypes_OptionalInt64 setOffset cellOptionalInt64"
  "stores_cell TestAllTypesReader_save wireTestAllTypes_OptionalUint32 setOffset cellOptionalUint32"
  "stores_cell TestAllTypesReader_save wireTestAllTypes_OptionalUint64 setOffset cellOptionalUint64"
  "stores_cell TestAllTypesReader_save wireTestAllTypes_OptionalSint32 setOffset cellOptionalSint32"
  "stores_cell TestAllTypesReader_save wireTestAllTypes_OptionalSint64 setOffset cellOptionalSint64"
  "stores_cell TestAllTypesReader_save wireTestAllTypes_OptionalFixed32 setOffset cellOptionalFixed32"
  "stores_cell TestAllTypesReader_save wireTestAllTypes_OptionalFixed64 setOffset cellOptionalFixed64"
  "stores_cell TestAllTypesReader_save wireTestAllTypes_OptionalSfixed32 setOffset cellOptionalSfixed32"
  "stores_cell TestAllTypesReader_save wireTestAllTypes_OptionalSfixed64 setOffset cellOptionalSfixed64"
  "stores_cell TestAllTypesReader_save wireTestAllTypes_OptionalFloat setOffset cellOptionalFloat"
  "stores_cell TestAllTypesReader_save wireTestAllTypes_OptionalDouble setOffset cellOptionalDouble"
  "stores_cell TestAllTypesReader_save wireTestAllTypes_OptionalBool setOffset cellOptionalBool"
  "stores_cell TestAllTypesReader_save wireTestAllTypes_OptionalString setOffset cellOptionalString"
  "stores_cell TestAllTypesReader_save wireTestAllTypes_OptionalBytes setOffset cellOptionalBytes"
  "stores_cell TestAllTypesReader_save wireTestAllTypes_OptionalNestedMessage setOffset cellOptionalNestedMessage"
  "stores_cell TestAllTypesReader_save wireTestAllTypes_OptionalForeignMessage setOffset cellOptionalForeignMessage"
  "stores_cell TestAllTypesReader_save wireTestAllTypes_OptionalImportMessage setOffset cellOptionalImportMessage"
  "stores_cell TestAllTypesReader_save wireTestAllTypes_OptionalNestedEnum setOffset cellOptionalNestedEnum"
  "stores_cell TestAllTypesReader_save wireTestAllTypes_OptionalForeignEnum setOffset cellOptionalForeignEnum"
  "stores_cell TestAllTypesReader_save wireTestAllTypes_OptionalImportEnum setOffset cellOptionalImportEnum"
  "stores_cell TestAllTypesReader_save wireTestAllTypes_OptionalStringPiece setOffset cellOptionalStringPiece"
  "stores_cell TestAllTypesReader_save wireTestAllTypes_OptionalCord setOffset cellOptionalCord"
  "stores_cell TestAllTypesReader_save wireTestAllTypes_OptionalPublicImportMessage setOffset cellOptionalPublicImportMessage"
  "stores_cell TestAllTypesReader_save wireTestAllTypes_OptionalLazyMessage setOffset cellOptionalLazyMessage"
  "stores_cell TestAllTypesReader_save wireTestAllTypes_OptionalUnverifiedLazyMessage setOffset cellOptionalUnverifiedLazyMessage"
  "stores_cell TestAllTypesReader_save wireTestAllTypes_RepeatedInt32 addTyped cellRepeatedInt32"
  "stores_cell TestAllTypesReader_save wireTestAllTypes_RepeatedInt64 addTyped cellRepeatedInt64"
  "stores_cell TestAllTypesReader_save wireTestAllTypes_RepeatedUint32 addTyped cellRepeatedUint32"
  "stores_cell TestAllTypesReader_save wireTestAllTypes_RepeatedUint64 addTyped cellRepeatedUint64"
  "stores_cell TestAllTypesReader_save wireTestAllTypes_RepeatedSint32 addTyped cellRepeatedSint32"
  "stores_cell TestAllTypesReader_save wireTestAllTypes_RepeatedSint64 addTyped cellRepeatedSint64"
  "stores_cell TestAllTypesReader_save wireTestAllTypes_RepeatedFixed32 addTyped cellRepeatedFixed32"
  "stores_cell TestAllTypesReader_save wireTestAllTypes_RepeatedFixed64 addTyped cellRepeatedFixed64"
  "stores_cell TestAllTypesReader_save wireTestAllTypes_RepeatedSfixed32 addTyped cellRepeatedSfixed32"
  "stores_cell TestAllTypesReader_save wireTestAllTypes_RepeatedSfixed64 addTyped cellRepeatedSfixed64"
  "stores_cell TestAllTypesReader_save wireTestAllTypes_RepeatedFloat addTyped cellRepeatedFloat"
  "stores_cell TestAllTypesReader_save wireTestAllTypes_RepeatedDouble addTyped cellRepeatedDouble"
  "stores_cell TestAllTypesReader_save wireTestAllTypes_RepeatedBool addTyped cellRepeatedBool"
  "stores_cell TestAllTypesReader_save wireTestAllTypes_RepeatedString addOffset cellRepeatedString"
  "stores_cell TestAllTypesReader_save wireTestAllTypes_RepeatedBytes addOffset cellRepeatedBytes"
  "stores_cell TestAllTypesReader_save wireTestAllTypes_RepeatedNestedMessage addOffset cellRepeatedNestedMessage"
  "stores_cell TestAllTypesReader_save wireTestAllTypes_RepeatedForeignMessage addOffset cellRepeatedForeignMessage"
  "stores_cell TestAllTypesReader_save wireTestAllTypes_RepeatedImportMessage addOffset cellRepeatedImportMessage"
  "stores_cell TestAllTypesReader_save wireTestAllTypes_RepeatedNestedEnum addTyped cellRepeatedNestedEnum"
  "stores_cell TestAllTypesReader_save wireTestAllTypes_RepeatedForeignEnum addTyped cellRepeatedForeignEnum"
  "stores_cell TestAllTypesReader_save wireTestAllTypes_RepeatedImportEnum addTyped cellRepeatedImportEnum"
  "stores_cell TestAllTypesReader_save wireTestAllTypes_RepeatedStringPiece addOffset cellRepeatedStringPiece"
  "stores_cell TestAllTypesReader_save wireTestAllTypes_RepeatedCord addOffset cellRepeatedCord"
  "stores_cell TestAllTypesReader_save wireTestAllTypes_RepeatedLazyMessage addOffset cellRepeatedLazyMessage"
  "stores_cell TestAllTypesReader_save wireTestAllTypes_DefaultInt32 setOffset cellDefaultInt32"
  "stores_cell TestAllTypesReader_save wireTestAllTypes_DefaultInt64 setOffset cellDefaultInt64"
  "stores_cell TestAllTypesReader_save wireTestAllTypes_DefaultUint32 setOffset cellDefaultUint32"
  "stores_cell TestAllTypesReader_save wireTestAllTypes_DefaultUint64 setOffset cellDefaultUint64"
  "stores_cell TestAllTypesReader_save wireTestAllTypes_DefaultSint32 setOffset cellDefaultSint32"
  "stores_cell TestAllTypesReader_save wireTestAllTypes_DefaultSint64 setOffset cellDefaultSint64"
  "stores_cell TestAllTypesReader_save wireTestAllTypes_DefaultFixed32 setOffset cellDefaultFixed32"
  "stores_cell TestAllTypesReader_save wireTestAllTypes_DefaultFixed64 setOffset cellDefaultFixed64"
  "stores_cell TestAllTypesReader_save wireTestAllTypes_DefaultSfixed32 setOffset cellDefaultSfixed32"
  "stores_cell TestAllTypesReader_save wireTestAllTypes_DefaultSfixed64 setOffset cellDefaultSfixed64"
  "stores_cell TestAllTypesReader_save wireTestAllTypes_DefaultFloat setOffset cellDefaultFloat"
  "stores_cell TestAllTypesReader_save wireTestAllTypes_DefaultDouble setOffset cellDefaultDouble"
  "stores_cell TestAllTypesReader_save wireTestAllTypes_DefaultBool setOffset cellDefaultBool"
  "stores_cell TestAllTypesReader_save wireTestAllTypes_DefaultString setOffset cellDefaultString"
  "stores_cell TestAllTypesReader_save wireTestAllTypes_DefaultBytes setOffset cellDefaultBytes"
  "stores_cell TestAllTypesReader_save wireTestAllTypes_DefaultNestedEnum setOffset cellDefaultNestedEnum"
  "stores_cell TestAllTypesReader_save wireTestAllTypes_DefaultForeignEnum setOffset cellDefaultForeignEnum"
  "stores_cell TestAllTypesReader_save wireTestAllTypes_DefaultImportEnum setOffset cellDefaultImportEnum"
  "stores_cell TestAllTypesReader_save wireTestAllTypes_DefaultStringPiece setOffset cellDefaultStringPiece"
  "stores_cell TestAllTypesReader_save wireTestAllTypes_DefaultCord setOffset cellDefaultCord"
  "stores_cell TestAllTypesReader_save wireTestAllTypes_OneofUint32 setOffset cellOneofUint32"
  "stores_cell TestAllTypesReader_save wireTestAllTypes_OneofNestedMessage setOffset cellOneofNestedMessage"
  "stores_cell TestAllTypesReader_save wireTestAllTypes_OneofString setOffset cellOneofString"
  "stores_cell TestAllTypesReader_save wireTestAllTypes_OneofBytes setOffset cellOneofBytes"
  unfolding TestAllTypesReader_save_def [abs_def] by (rule stores_cell_switch; (rule TestAllTypes_cases_distinct)?; unfold TestAllTypesReader_cases_def; intro own_case.intros; simp)+

lemma TestAllTypes_saved: "good_fields TestAllTypesReader_save p (NewTestAllTypesReader\<lparr>mbuf := Some p\<rparr>) TestAllTypes_tags (TestAllTypes_groups s) (TestAllTypes_ready p s)"
  unfolding TestAllTypes_tags_def TestAllTypes_groups_def TestAllTypes_ready_def
  by (intro good_fields.intros field_saved m_TestAllTypes_NestedMessage.saved_struct m_ForeignMessage.saved_struct m_ImportMessage.saved_struct m_PublicImportMessage.saved_struct TestAllTypes_stores) (simp_all add: NewTestAllTypesReader_def newCell_def)

lemma TestAllTypes_converted: "good_stmts mbuf p (TestAllTypes_stmts1 @ TestAllTypes_stmts2) (TestAllTypes_ready p s) (TestAllTypes_stored s)"
  unfolding TestAllTypes_stmts1_def TestAllTypes_stmts2_def TestAllTypes_ready_def TestAllTypes_stored_def TestAllTypes_getters append.simps
  by (intro good_stmts_field good_stmts.Nil) (simp_all cong: cell_reads_cong)

interpretation l_TestAllTypes: lazy_message TestAllTypes_tags TestAllTypes_groups TestAllTypes_norm
  "\<lambda>s. TestAllTypes_sizes1 s @ TestAllTypes_sizes2 s @ TestAllTypes_sizes3 s @ TestAllTypes_sizes4 s @ TestAllTypes_sizes5 s @ TestAllTypes_sizes6 s" "\<lambda>s. TestAllTypes_appends1 s @ TestAllTypes_appends2 s @ TestAllTypes_appends3 s @ TestAllTypes_appends4 s"
  TestAllTypesReader_save "\<lambda>p. NewTestAllTypesReader\<lparr>mbuf := Some p\<rparr>" mbuf "TestAllTypes_stmts1 @ TestAllTypes_stmts2" TestAllTypes_zero TestAllTypes_ready TestAllTypes_stored
proof
  show "distinct TestAllTypes_tags"
    using TestAllTypes_cases_distinct by (simp only: TestAllTypesReader_cases_def TestAllTypes_tags_def list.map fst_conv)
  show "list_all valid_tag TestAllTypes_tags"
    by (simp add: TestAllTypes_tags_def wireTestAllTypes valid_tag_def)
  show "list_all2 (\<lambda>t g. \<forall>f \<in> set g. fst f = t \<and> wf_val (snd f)) TestAllTypes_tags (TestAllTypes_groups s)" for s
    unfolding TestAllTypes_tags_def TestAllTypes_groups_def by (intro list.rel_intros field_tagged m_TestAllTypes_NestedMessage.tagged_struct m_ForeignMessage.tagged_struct m_ImportMessage.tagged_struct m_PublicImportMessage.tagged_struct)
  show "list_all2 (\<lambda>e g. e = int (length (fields_bytes g))) (TestAllTypes_sizes1 s @ TestAllTypes_sizes2 s @ TestAllTypes_sizes3 s @ TestAllTypes_sizes4 s @ TestAllTypes_sizes5 s @ TestAllTypes_sizes6 s) (TestAllTypes_groups s)" for s
    unfolding TestAllTypes_sizes1_def TestAllTypes_sizes2_def TestAllTypes_sizes3_def TestAllTypes_sizes4_def TestAllTypes_sizes5_def TestAllTypes_sizes6_def TestAllTypes_groups_def append.simps
    by (intro list.rel_intros field_sized m_TestAllTypes_NestedMessage.sized_struct m_ForeignMessage.sized_struct m_ImportMessage.sized_struct m_PublicImportMessage.sized_struct)
  show "list_all2 (\<lambda>st g. writes st (fields_bytes g)) (TestAllTypes_appends1 s @ TestAllTypes_appends2 s @ TestAllTypes_appends3 s @ TestAllTypes_appends4 s) (TestAllTypes_groups s)" for s
    unfolding TestAllTypes_appends1_def TestAllTypes_appends2_def TestAllTypes_appends3_def TestAllTypes_appends4_def TestAllTypes_groups_def append.simps
    by (intro list.rel_intros field_written m_TestAllTypes_NestedMessage.written_struct m_ForeignMessage.written_struct m_ImportMessage.written_struct m_PublicImportMessage.written_struct)
  show "mbuf (TestAllTypesReader_save t w off m) = mbuf m" for t w off m
    unfolding TestAllTypesReader_save_def by (rule tag_switch_keeps) (simp add: TestAllTypesReader_cases_def)
  show "fold (\<lambda>e. e) (TestAllTypes_stored s) TestAllTypes_zero = TestAllTypes_norm s" for s
    unfolding TestAllTypes_stored_def by (simp add: TestAllTypes_zero_def TestAllTypes_norm_def float_defaults)
qed (simp_all add: TestAllTypes_saved TestAllTypes_converted)

interpretation m_TestAllTypes: message_codec TestAllTypes_content TestAllTypes_norm TestAllTypes_XXX_PbContentSize TestAllTypes_MarshalTo
  "TestAllTypesReader_Unmarshal NewTestAllTypesReader" TestAllTypesReader_ToStruct
  using l_TestAllTypes.message
  by (simp only: TestAllTypes_content_def [abs_def] TestAllTypes_XXX_PbContentSize_def TestAllTypes_MarshalTo_def TestAllTypesReader_Unmarshal_def [abs_def] TestAllTypesReader_ToStruct_def)


end
