(* ===== verification/Unittest_Packed.thy ===== *)
theory Unittest_Packed
  imports Unittest_Base
begin

text \<open>
  The messages of \<^verbatim>\<open>src/shared/gremlin_go/bench/gremlin_pb/protobuf_unittest/unittest.pb2.go\<close> with repeated scalars of all types. The
  packed and the unpacked ones have the same code: the generator always writes lists packed, and reads both forms.
\<close>

section \<open>TestPackedTypes: the reader\<close>

definition wireTestPackedTypes_PackedInt32 :: ProtoWireNumber where "wireTestPackedTypes_PackedInt32 = 90"
definition wireTestPackedTypes_PackedInt64 :: ProtoWireNumber where "wireTestPackedTypes_PackedInt64 = 91"
definition wireTestPackedTypes_PackedUint32 :: ProtoWireNumber where "wireTestPackedTypes_PackedUint32 = 92"
definition wireTestPackedTypes_PackedUint64 :: ProtoWireNumber where "wireTestPackedTypes_PackedUint64 = 93"
definition wireTestPackedTypes_PackedSint32 :: ProtoWireNumber where "wireTestPackedTypes_PackedSint32 = 94"
definition wireTestPackedTypes_PackedSint64 :: ProtoWireNumber where "wireTestPackedTypes_PackedSint64 = 95"
definition wireTestPackedTypes_PackedFixed32 :: ProtoWireNumber where "wireTestPackedTypes_PackedFixed32 = 96"
definition wireTestPackedTypes_PackedFixed64 :: ProtoWireNumber where "wireTestPackedTypes_PackedFixed64 = 97"
definition wireTestPackedTypes_PackedSfixed32 :: ProtoWireNumber where "wireTestPackedTypes_PackedSfixed32 = 98"
definition wireTestPackedTypes_PackedSfixed64 :: ProtoWireNumber where "wireTestPackedTypes_PackedSfixed64 = 99"
definition wireTestPackedTypes_PackedFloat :: ProtoWireNumber where "wireTestPackedTypes_PackedFloat = 100"
definition wireTestPackedTypes_PackedDouble :: ProtoWireNumber where "wireTestPackedTypes_PackedDouble = 101"
definition wireTestPackedTypes_PackedBool :: ProtoWireNumber where "wireTestPackedTypes_PackedBool = 102"
definition wireTestPackedTypes_PackedEnum :: ProtoWireNumber where "wireTestPackedTypes_PackedEnum = 103"

lemmas wireTestPackedTypes =
  wireTestPackedTypes_PackedInt32_def wireTestPackedTypes_PackedInt64_def
  wireTestPackedTypes_PackedUint32_def wireTestPackedTypes_PackedUint64_def
  wireTestPackedTypes_PackedSint32_def wireTestPackedTypes_PackedSint64_def
  wireTestPackedTypes_PackedFixed32_def wireTestPackedTypes_PackedFixed64_def
  wireTestPackedTypes_PackedSfixed32_def wireTestPackedTypes_PackedSfixed64_def
  wireTestPackedTypes_PackedFloat_def wireTestPackedTypes_PackedDouble_def
  wireTestPackedTypes_PackedBool_def wireTestPackedTypes_PackedEnum_def

record TestPackedTypesReader =
  mbuf :: "Reader option"
  cellPackedInt32 :: "int32 packed_cell"
  cellPackedInt64 :: "int64 packed_cell"
  cellPackedUint32 :: "uint32 packed_cell"
  cellPackedUint64 :: "uint64 packed_cell"
  cellPackedSint32 :: "int32 packed_cell"
  cellPackedSint64 :: "int64 packed_cell"
  cellPackedFixed32 :: "uint32 packed_cell"
  cellPackedFixed64 :: "uint64 packed_cell"
  cellPackedSfixed32 :: "int32 packed_cell"
  cellPackedSfixed64 :: "int64 packed_cell"
  cellPackedFloat :: "float32 packed_cell"
  cellPackedDouble :: "float64 packed_cell"
  cellPackedBool :: "bool packed_cell"
  cellPackedEnum :: "ForeignEnum packed_cell"

definition NewTestPackedTypesReader :: TestPackedTypesReader where
  "NewTestPackedTypesReader = \<lparr>
     mbuf = None, cellPackedInt32 = newCell [] ([], []), cellPackedInt64 = newCell [] ([], []),
     cellPackedUint32 = newCell [] ([], []), cellPackedUint64 = newCell [] ([], []),
     cellPackedSint32 = newCell [] ([], []), cellPackedSint64 = newCell [] ([], []),
     cellPackedFixed32 = newCell [] ([], []), cellPackedFixed64 = newCell [] ([], []),
     cellPackedSfixed32 = newCell [] ([], []), cellPackedSfixed64 = newCell [] ([], []),
     cellPackedFloat = newCell [] ([], []), cellPackedDouble = newCell [] ([], []),
     cellPackedBool = newCell [] ([], []), cellPackedEnum = newCell [] ([], [])\<rparr>"

definition TestPackedTypesReader_readPackedInt32 :: "TestPackedTypesReader \<Rightarrow> (int32 list \<times> TestPackedTypesReader) run" where
  "TestPackedTypesReader_readPackedInt32 = readCell cellPackedInt32 cellPackedInt32_update mbuf (readPacked ReadInt32 SizedReadInt32 0)"

definition TestPackedTypesReader_GetPackedInt32 :: "TestPackedTypesReader option \<Rightarrow> (int32 list \<times> TestPackedTypesReader option) run" where
  "TestPackedTypesReader_GetPackedInt32 = getter TestPackedTypesReader_readPackedInt32 []"

definition TestPackedTypesReader_readPackedInt64 :: "TestPackedTypesReader \<Rightarrow> (int64 list \<times> TestPackedTypesReader) run" where
  "TestPackedTypesReader_readPackedInt64 = readCell cellPackedInt64 cellPackedInt64_update mbuf (readPacked ReadInt64 SizedReadInt64 0)"

definition TestPackedTypesReader_GetPackedInt64 :: "TestPackedTypesReader option \<Rightarrow> (int64 list \<times> TestPackedTypesReader option) run" where
  "TestPackedTypesReader_GetPackedInt64 = getter TestPackedTypesReader_readPackedInt64 []"

definition TestPackedTypesReader_readPackedUint32 :: "TestPackedTypesReader \<Rightarrow> (uint32 list \<times> TestPackedTypesReader) run" where
  "TestPackedTypesReader_readPackedUint32 = readCell cellPackedUint32 cellPackedUint32_update mbuf (readPacked ReadUint32 SizedReadUint32 0)"

definition TestPackedTypesReader_GetPackedUint32 :: "TestPackedTypesReader option \<Rightarrow> (uint32 list \<times> TestPackedTypesReader option) run" where
  "TestPackedTypesReader_GetPackedUint32 = getter TestPackedTypesReader_readPackedUint32 []"

definition TestPackedTypesReader_readPackedUint64 :: "TestPackedTypesReader \<Rightarrow> (uint64 list \<times> TestPackedTypesReader) run" where
  "TestPackedTypesReader_readPackedUint64 = readCell cellPackedUint64 cellPackedUint64_update mbuf (readPacked ReadUint64 SizedReadUint64 0)"

definition TestPackedTypesReader_GetPackedUint64 :: "TestPackedTypesReader option \<Rightarrow> (uint64 list \<times> TestPackedTypesReader option) run" where
  "TestPackedTypesReader_GetPackedUint64 = getter TestPackedTypesReader_readPackedUint64 []"

definition TestPackedTypesReader_readPackedSint32 :: "TestPackedTypesReader \<Rightarrow> (int32 list \<times> TestPackedTypesReader) run" where
  "TestPackedTypesReader_readPackedSint32 = readCell cellPackedSint32 cellPackedSint32_update mbuf (readPacked ReadSInt32 SizedReadSInt32 0)"

definition TestPackedTypesReader_GetPackedSint32 :: "TestPackedTypesReader option \<Rightarrow> (int32 list \<times> TestPackedTypesReader option) run" where
  "TestPackedTypesReader_GetPackedSint32 = getter TestPackedTypesReader_readPackedSint32 []"

definition TestPackedTypesReader_readPackedSint64 :: "TestPackedTypesReader \<Rightarrow> (int64 list \<times> TestPackedTypesReader) run" where
  "TestPackedTypesReader_readPackedSint64 = readCell cellPackedSint64 cellPackedSint64_update mbuf (readPacked ReadSInt64 SizedReadSInt64 0)"

definition TestPackedTypesReader_GetPackedSint64 :: "TestPackedTypesReader option \<Rightarrow> (int64 list \<times> TestPackedTypesReader option) run" where
  "TestPackedTypesReader_GetPackedSint64 = getter TestPackedTypesReader_readPackedSint64 []"

definition TestPackedTypesReader_readPackedFixed32 :: "TestPackedTypesReader \<Rightarrow> (uint32 list \<times> TestPackedTypesReader) run" where
  "TestPackedTypesReader_readPackedFixed32 = readCell cellPackedFixed32 cellPackedFixed32_update mbuf (readPacked ReadFixed32 SizedReadFixed32 0)"

definition TestPackedTypesReader_GetPackedFixed32 :: "TestPackedTypesReader option \<Rightarrow> (uint32 list \<times> TestPackedTypesReader option) run" where
  "TestPackedTypesReader_GetPackedFixed32 = getter TestPackedTypesReader_readPackedFixed32 []"

definition TestPackedTypesReader_readPackedFixed64 :: "TestPackedTypesReader \<Rightarrow> (uint64 list \<times> TestPackedTypesReader) run" where
  "TestPackedTypesReader_readPackedFixed64 = readCell cellPackedFixed64 cellPackedFixed64_update mbuf (readPacked ReadFixed64 SizedReadFixed64 0)"

definition TestPackedTypesReader_GetPackedFixed64 :: "TestPackedTypesReader option \<Rightarrow> (uint64 list \<times> TestPackedTypesReader option) run" where
  "TestPackedTypesReader_GetPackedFixed64 = getter TestPackedTypesReader_readPackedFixed64 []"

definition TestPackedTypesReader_readPackedSfixed32 :: "TestPackedTypesReader \<Rightarrow> (int32 list \<times> TestPackedTypesReader) run" where
  "TestPackedTypesReader_readPackedSfixed32 = readCell cellPackedSfixed32 cellPackedSfixed32_update mbuf (readPacked ReadSFixed32 SizedReadSFixed32 0)"

definition TestPackedTypesReader_GetPackedSfixed32 :: "TestPackedTypesReader option \<Rightarrow> (int32 list \<times> TestPackedTypesReader option) run" where
  "TestPackedTypesReader_GetPackedSfixed32 = getter TestPackedTypesReader_readPackedSfixed32 []"

definition TestPackedTypesReader_readPackedSfixed64 :: "TestPackedTypesReader \<Rightarrow> (int64 list \<times> TestPackedTypesReader) run" where
  "TestPackedTypesReader_readPackedSfixed64 = readCell cellPackedSfixed64 cellPackedSfixed64_update mbuf (readPacked ReadSFixed64 SizedReadSFixed64 0)"

definition TestPackedTypesReader_GetPackedSfixed64 :: "TestPackedTypesReader option \<Rightarrow> (int64 list \<times> TestPackedTypesReader option) run" where
  "TestPackedTypesReader_GetPackedSfixed64 = getter TestPackedTypesReader_readPackedSfixed64 []"

definition TestPackedTypesReader_readPackedFloat :: "TestPackedTypesReader \<Rightarrow> (float32 list \<times> TestPackedTypesReader) run" where
  "TestPackedTypesReader_readPackedFloat = readCell cellPackedFloat cellPackedFloat_update mbuf (readPacked ReadFloat32 SizedReadFloat32 0)"

definition TestPackedTypesReader_GetPackedFloat :: "TestPackedTypesReader option \<Rightarrow> (float32 list \<times> TestPackedTypesReader option) run" where
  "TestPackedTypesReader_GetPackedFloat = getter TestPackedTypesReader_readPackedFloat []"

definition TestPackedTypesReader_readPackedDouble :: "TestPackedTypesReader \<Rightarrow> (float64 list \<times> TestPackedTypesReader) run" where
  "TestPackedTypesReader_readPackedDouble = readCell cellPackedDouble cellPackedDouble_update mbuf (readPacked ReadFloat64 SizedReadFloat64 0)"

definition TestPackedTypesReader_GetPackedDouble :: "TestPackedTypesReader option \<Rightarrow> (float64 list \<times> TestPackedTypesReader option) run" where
  "TestPackedTypesReader_GetPackedDouble = getter TestPackedTypesReader_readPackedDouble []"

definition TestPackedTypesReader_readPackedBool :: "TestPackedTypesReader \<Rightarrow> (bool list \<times> TestPackedTypesReader) run" where
  "TestPackedTypesReader_readPackedBool = readCell cellPackedBool cellPackedBool_update mbuf (readPacked ReadBool SizedReadBool False)"

definition TestPackedTypesReader_GetPackedBool :: "TestPackedTypesReader option \<Rightarrow> (bool list \<times> TestPackedTypesReader option) run" where
  "TestPackedTypesReader_GetPackedBool = getter TestPackedTypesReader_readPackedBool []"

definition TestPackedTypesReader_readPackedEnum :: "TestPackedTypesReader \<Rightarrow> (ForeignEnum list \<times> TestPackedTypesReader) run" where
  "TestPackedTypesReader_readPackedEnum = readCell cellPackedEnum cellPackedEnum_update mbuf (readPacked ReadInt32 SizedReadInt32 0)"

definition TestPackedTypesReader_GetPackedEnum :: "TestPackedTypesReader option \<Rightarrow> (ForeignEnum list \<times> TestPackedTypesReader option) run" where
  "TestPackedTypesReader_GetPackedEnum = getter TestPackedTypesReader_readPackedEnum []"

lemmas TestPackedTypes_getters =
  TestPackedTypesReader_readPackedInt32_def TestPackedTypesReader_GetPackedInt32_def
  TestPackedTypesReader_readPackedInt64_def TestPackedTypesReader_GetPackedInt64_def
  TestPackedTypesReader_readPackedUint32_def TestPackedTypesReader_GetPackedUint32_def
  TestPackedTypesReader_readPackedUint64_def TestPackedTypesReader_GetPackedUint64_def
  TestPackedTypesReader_readPackedSint32_def TestPackedTypesReader_GetPackedSint32_def
  TestPackedTypesReader_readPackedSint64_def TestPackedTypesReader_GetPackedSint64_def
  TestPackedTypesReader_readPackedFixed32_def TestPackedTypesReader_GetPackedFixed32_def
  TestPackedTypesReader_readPackedFixed64_def TestPackedTypesReader_GetPackedFixed64_def
  TestPackedTypesReader_readPackedSfixed32_def TestPackedTypesReader_GetPackedSfixed32_def
  TestPackedTypesReader_readPackedSfixed64_def TestPackedTypesReader_GetPackedSfixed64_def
  TestPackedTypesReader_readPackedFloat_def TestPackedTypesReader_GetPackedFloat_def
  TestPackedTypesReader_readPackedDouble_def TestPackedTypesReader_GetPackedDouble_def
  TestPackedTypesReader_readPackedBool_def TestPackedTypesReader_GetPackedBool_def
  TestPackedTypesReader_readPackedEnum_def TestPackedTypesReader_GetPackedEnum_def

definition TestPackedTypesReader_cases :: "ProtoWireType \<Rightarrow> int \<Rightarrow> (ProtoWireNumber \<times> (TestPackedTypesReader \<Rightarrow> TestPackedTypesReader)) list" where
  "TestPackedTypesReader_cases wire offset = [
     (wireTestPackedTypes_PackedInt32, \<lambda>m. m\<lparr>cellPackedInt32 := onOffset (addTyped wire offset) (cellPackedInt32 m)\<rparr>),
     (wireTestPackedTypes_PackedInt64, \<lambda>m. m\<lparr>cellPackedInt64 := onOffset (addTyped wire offset) (cellPackedInt64 m)\<rparr>),
     (wireTestPackedTypes_PackedUint32, \<lambda>m. m\<lparr>cellPackedUint32 := onOffset (addTyped wire offset) (cellPackedUint32 m)\<rparr>),
     (wireTestPackedTypes_PackedUint64, \<lambda>m. m\<lparr>cellPackedUint64 := onOffset (addTyped wire offset) (cellPackedUint64 m)\<rparr>),
     (wireTestPackedTypes_PackedSint32, \<lambda>m. m\<lparr>cellPackedSint32 := onOffset (addTyped wire offset) (cellPackedSint32 m)\<rparr>),
     (wireTestPackedTypes_PackedSint64, \<lambda>m. m\<lparr>cellPackedSint64 := onOffset (addTyped wire offset) (cellPackedSint64 m)\<rparr>),
     (wireTestPackedTypes_PackedFixed32, \<lambda>m. m\<lparr>cellPackedFixed32 := onOffset (addTyped wire offset) (cellPackedFixed32 m)\<rparr>),
     (wireTestPackedTypes_PackedFixed64, \<lambda>m. m\<lparr>cellPackedFixed64 := onOffset (addTyped wire offset) (cellPackedFixed64 m)\<rparr>),
     (wireTestPackedTypes_PackedSfixed32, \<lambda>m. m\<lparr>cellPackedSfixed32 := onOffset (addTyped wire offset) (cellPackedSfixed32 m)\<rparr>),
     (wireTestPackedTypes_PackedSfixed64, \<lambda>m. m\<lparr>cellPackedSfixed64 := onOffset (addTyped wire offset) (cellPackedSfixed64 m)\<rparr>),
     (wireTestPackedTypes_PackedFloat, \<lambda>m. m\<lparr>cellPackedFloat := onOffset (addTyped wire offset) (cellPackedFloat m)\<rparr>),
     (wireTestPackedTypes_PackedDouble, \<lambda>m. m\<lparr>cellPackedDouble := onOffset (addTyped wire offset) (cellPackedDouble m)\<rparr>),
     (wireTestPackedTypes_PackedBool, \<lambda>m. m\<lparr>cellPackedBool := onOffset (addTyped wire offset) (cellPackedBool m)\<rparr>),
     (wireTestPackedTypes_PackedEnum, \<lambda>m. m\<lparr>cellPackedEnum := onOffset (addTyped wire offset) (cellPackedEnum m)\<rparr>)]"

definition TestPackedTypesReader_save :: "ProtoWireNumber \<Rightarrow> ProtoWireType \<Rightarrow> int \<Rightarrow> TestPackedTypesReader \<Rightarrow> TestPackedTypesReader" where
  "TestPackedTypesReader_save tag wire offset = tag_switch (TestPackedTypesReader_cases wire offset) tag"

definition TestPackedTypesReader_Unmarshal :: "TestPackedTypesReader \<Rightarrow> gslice \<Rightarrow> (TestPackedTypesReader \<times> string option) run" where
  "TestPackedTypesReader_Unmarshal m data =
     unmarshalLoop TestPackedTypesReader_save (NewReader data) 0 (m\<lparr>mbuf := Some (NewReader data)\<rparr>)"

definition TestPackedTypesReader_SourceBytes :: "TestPackedTypesReader option \<Rightarrow> gslice" where
  "TestPackedTypesReader_SourceBytes s = (case s of None \<Rightarrow> nil_slice | Some r \<Rightarrow> Bytes (mbuf r))"

section \<open>TestPackedTypes: the struct\<close>

record TestPackedTypes =
  PackedInt32 :: "int32 list"
  PackedInt64 :: "int64 list"
  PackedUint32 :: "uint32 list"
  PackedUint64 :: "uint64 list"
  PackedSint32 :: "int32 list"
  PackedSint64 :: "int64 list"
  PackedFixed32 :: "uint32 list"
  PackedFixed64 :: "uint64 list"
  PackedSfixed32 :: "int32 list"
  PackedSfixed64 :: "int64 list"
  PackedFloat :: "float32 list"
  PackedDouble :: "float64 list"
  PackedBool :: "bool list"
  PackedEnum :: "ForeignEnum list"

definition TestPackedTypes_zero :: TestPackedTypes where
  "TestPackedTypes_zero = \<lparr>
     PackedInt32 = [], PackedInt64 = [], PackedUint32 = [], PackedUint64 = [],
     PackedSint32 = [], PackedSint64 = [], PackedFixed32 = [], PackedFixed64 = [],
     PackedSfixed32 = [], PackedSfixed64 = [], PackedFloat = [], PackedDouble = [],
     PackedBool = [], PackedEnum = []\<rparr>"

definition TestPackedTypes_stmts :: "(TestPackedTypes \<times> TestPackedTypesReader option \<Rightarrow> (TestPackedTypes \<times> TestPackedTypesReader option) run) list" where
  "TestPackedTypes_stmts = [
     assign TestPackedTypesReader_GetPackedInt32 (\<lambda>v res. res\<lparr>PackedInt32 := v\<rparr>),
     assign TestPackedTypesReader_GetPackedInt64 (\<lambda>v res. res\<lparr>PackedInt64 := v\<rparr>),
     assign TestPackedTypesReader_GetPackedUint32 (\<lambda>v res. res\<lparr>PackedUint32 := v\<rparr>),
     assign TestPackedTypesReader_GetPackedUint64 (\<lambda>v res. res\<lparr>PackedUint64 := v\<rparr>),
     assign TestPackedTypesReader_GetPackedSint32 (\<lambda>v res. res\<lparr>PackedSint32 := v\<rparr>),
     assign TestPackedTypesReader_GetPackedSint64 (\<lambda>v res. res\<lparr>PackedSint64 := v\<rparr>),
     assign TestPackedTypesReader_GetPackedFixed32 (\<lambda>v res. res\<lparr>PackedFixed32 := v\<rparr>),
     assign TestPackedTypesReader_GetPackedFixed64 (\<lambda>v res. res\<lparr>PackedFixed64 := v\<rparr>),
     assign TestPackedTypesReader_GetPackedSfixed32 (\<lambda>v res. res\<lparr>PackedSfixed32 := v\<rparr>),
     assign TestPackedTypesReader_GetPackedSfixed64 (\<lambda>v res. res\<lparr>PackedSfixed64 := v\<rparr>),
     assign TestPackedTypesReader_GetPackedFloat (\<lambda>v res. res\<lparr>PackedFloat := v\<rparr>),
     assign TestPackedTypesReader_GetPackedDouble (\<lambda>v res. res\<lparr>PackedDouble := v\<rparr>),
     assign TestPackedTypesReader_GetPackedBool (\<lambda>v res. res\<lparr>PackedBool := v\<rparr>),
     assign TestPackedTypesReader_GetPackedEnum (\<lambda>v res. res\<lparr>PackedEnum := v\<rparr>)]"

definition TestPackedTypesReader_ToStruct :: "TestPackedTypesReader option \<Rightarrow> (TestPackedTypes option \<times> TestPackedTypesReader option) run" where
  "TestPackedTypesReader_ToStruct = toStructWith (TestPackedTypes_stmts) TestPackedTypes_zero"

definition TestPackedTypes_appends1 :: "TestPackedTypes \<Rightarrow> (Writer \<Rightarrow> Writer go) list" where
  "TestPackedTypes_appends1 s = [
     \<lambda>res. if PackedInt32 s \<noteq> [] then packedWriter AppendInt32WithoutTag AppendInt32 SizeInt32 res wireTestPackedTypes_PackedInt32 (PackedInt32 s) else Ret res,
     \<lambda>res. if PackedInt64 s \<noteq> [] then packedWriter AppendInt64WithoutTag AppendInt64 SizeInt64 res wireTestPackedTypes_PackedInt64 (PackedInt64 s) else Ret res,
     \<lambda>res. if PackedUint32 s \<noteq> [] then packedWriter AppendUint32WithoutTag AppendUint32 SizeUint32 res wireTestPackedTypes_PackedUint32 (PackedUint32 s) else Ret res,
     \<lambda>res. if PackedUint64 s \<noteq> [] then packedWriter AppendUint64WithoutTag AppendUint64 SizeUint64 res wireTestPackedTypes_PackedUint64 (PackedUint64 s) else Ret res,
     \<lambda>res. if PackedSint32 s \<noteq> [] then packedWriter AppendSInt32WithoutTag AppendSInt32 SizeSInt32 res wireTestPackedTypes_PackedSint32 (PackedSint32 s) else Ret res,
     \<lambda>res. if PackedSint64 s \<noteq> [] then packedWriter AppendSInt64WithoutTag AppendSInt64 SizeSInt64 res wireTestPackedTypes_PackedSint64 (PackedSint64 s) else Ret res,
     \<lambda>res. if PackedFixed32 s \<noteq> [] then packedWriter AppendFixed32WithoutTag AppendFixed32 SizeFixed32 res wireTestPackedTypes_PackedFixed32 (PackedFixed32 s) else Ret res,
     \<lambda>res. if PackedFixed64 s \<noteq> [] then packedWriter AppendFixed64WithoutTag AppendFixed64 SizeFixed64 res wireTestPackedTypes_PackedFixed64 (PackedFixed64 s) else Ret res,
     \<lambda>res. if PackedSfixed32 s \<noteq> [] then packedWriter AppendSFixed32WithoutTag AppendSFixed32 SizeSFixed32 res wireTestPackedTypes_PackedSfixed32 (PackedSfixed32 s) else Ret res]"

definition TestPackedTypes_appends2 :: "TestPackedTypes \<Rightarrow> (Writer \<Rightarrow> Writer go) list" where
  "TestPackedTypes_appends2 s = [
     \<lambda>res. if PackedSfixed64 s \<noteq> [] then packedWriter AppendSFixed64WithoutTag AppendSFixed64 SizeSFixed64 res wireTestPackedTypes_PackedSfixed64 (PackedSfixed64 s) else Ret res,
     \<lambda>res. if PackedFloat s \<noteq> [] then packedWriter AppendFloat32WithoutTag AppendFloat32 SizeFloat32 res wireTestPackedTypes_PackedFloat (PackedFloat s) else Ret res,
     \<lambda>res. if PackedDouble s \<noteq> [] then packedWriter AppendFloat64WithoutTag AppendFloat64 SizeFloat64 res wireTestPackedTypes_PackedDouble (PackedDouble s) else Ret res,
     \<lambda>res. if PackedBool s \<noteq> [] then packedWriter AppendBoolWithoutTag AppendBool SizeBool res wireTestPackedTypes_PackedBool (PackedBool s) else Ret res,
     \<lambda>res. if PackedEnum s \<noteq> [] then packedWriter AppendInt32WithoutTag AppendInt32 SizeInt32 res wireTestPackedTypes_PackedEnum (PackedEnum s) else Ret res]"

definition TestPackedTypes_MarshalTo :: "Writer \<Rightarrow> TestPackedTypes option \<Rightarrow> Writer go" where
  "TestPackedTypes_MarshalTo = marshalToWith (\<lambda>s. TestPackedTypes_appends1 s @ TestPackedTypes_appends2 s)"

definition TestPackedTypes_sizes1 :: "TestPackedTypes \<Rightarrow> int list" where
  "TestPackedTypes_sizes1 s = [
     if PackedInt32 s \<noteq> [] then packedSize SizeInt32 wireTestPackedTypes_PackedInt32 (PackedInt32 s) else 0,
     if PackedInt64 s \<noteq> [] then packedSize SizeInt64 wireTestPackedTypes_PackedInt64 (PackedInt64 s) else 0,
     if PackedUint32 s \<noteq> [] then packedSize SizeUint32 wireTestPackedTypes_PackedUint32 (PackedUint32 s) else 0,
     if PackedUint64 s \<noteq> [] then packedSize SizeUint64 wireTestPackedTypes_PackedUint64 (PackedUint64 s) else 0,
     if PackedSint32 s \<noteq> [] then packedSize SizeSInt32 wireTestPackedTypes_PackedSint32 (PackedSint32 s) else 0,
     if PackedSint64 s \<noteq> [] then packedSize SizeSInt64 wireTestPackedTypes_PackedSint64 (PackedSint64 s) else 0,
     if PackedFixed32 s \<noteq> [] then packedSize SizeFixed32 wireTestPackedTypes_PackedFixed32 (PackedFixed32 s) else 0]"

definition TestPackedTypes_sizes2 :: "TestPackedTypes \<Rightarrow> int list" where
  "TestPackedTypes_sizes2 s = [
     if PackedFixed64 s \<noteq> [] then packedSize SizeFixed64 wireTestPackedTypes_PackedFixed64 (PackedFixed64 s) else 0,
     if PackedSfixed32 s \<noteq> [] then packedSize SizeSFixed32 wireTestPackedTypes_PackedSfixed32 (PackedSfixed32 s) else 0,
     if PackedSfixed64 s \<noteq> [] then packedSize SizeSFixed64 wireTestPackedTypes_PackedSfixed64 (PackedSfixed64 s) else 0,
     if PackedFloat s \<noteq> [] then packedSize SizeFloat32 wireTestPackedTypes_PackedFloat (PackedFloat s) else 0,
     if PackedDouble s \<noteq> [] then packedSize SizeFloat64 wireTestPackedTypes_PackedDouble (PackedDouble s) else 0,
     if PackedBool s \<noteq> [] then packedSize SizeBool wireTestPackedTypes_PackedBool (PackedBool s) else 0,
     if PackedEnum s \<noteq> [] then packedSize SizeInt32 wireTestPackedTypes_PackedEnum (PackedEnum s) else 0]"

definition TestPackedTypes_XXX_PbContentSize :: "TestPackedTypes option \<Rightarrow> int" where
  "TestPackedTypes_XXX_PbContentSize = contentSizeWith (\<lambda>s. TestPackedTypes_sizes1 s @ TestPackedTypes_sizes2 s)"

definition TestPackedTypes_Marshal :: "TestPackedTypes option \<Rightarrow> byte list go" where
  "TestPackedTypes_Marshal = marshalWith TestPackedTypes_XXX_PbContentSize TestPackedTypes_MarshalTo"

definition TestPackedTypes_Copy :: "TestPackedTypes option \<Rightarrow> TestPackedTypes option" where
  "TestPackedTypes_Copy s =
     (case s of None \<Rightarrow> None | Some s \<Rightarrow> Some \<lparr>
        PackedInt32 = PackedInt32 s, PackedInt64 = PackedInt64 s, PackedUint32 = PackedUint32 s,
        PackedUint64 = PackedUint64 s, PackedSint32 = PackedSint32 s,
        PackedSint64 = PackedSint64 s, PackedFixed32 = PackedFixed32 s,
        PackedFixed64 = PackedFixed64 s, PackedSfixed32 = PackedSfixed32 s,
        PackedSfixed64 = PackedSfixed64 s, PackedFloat = PackedFloat s,
        PackedDouble = PackedDouble s, PackedBool = PackedBool s, PackedEnum = PackedEnum s\<rparr>)"

section \<open>TestPackedTypes: the round trip\<close>

definition TestPackedTypes_tags :: "ProtoWireNumber list" where
  "TestPackedTypes_tags = [
     wireTestPackedTypes_PackedInt32, wireTestPackedTypes_PackedInt64,
     wireTestPackedTypes_PackedUint32, wireTestPackedTypes_PackedUint64,
     wireTestPackedTypes_PackedSint32, wireTestPackedTypes_PackedSint64,
     wireTestPackedTypes_PackedFixed32, wireTestPackedTypes_PackedFixed64,
     wireTestPackedTypes_PackedSfixed32, wireTestPackedTypes_PackedSfixed64,
     wireTestPackedTypes_PackedFloat, wireTestPackedTypes_PackedDouble,
     wireTestPackedTypes_PackedBool, wireTestPackedTypes_PackedEnum]"

definition TestPackedTypes_groups :: "TestPackedTypes \<Rightarrow> wfield list list" where
  "TestPackedTypes_groups s = [
     packed_fields int32_val wireTestPackedTypes_PackedInt32 (PackedInt32 s),
     packed_fields int64_val wireTestPackedTypes_PackedInt64 (PackedInt64 s),
     packed_fields uint32_val wireTestPackedTypes_PackedUint32 (PackedUint32 s),
     packed_fields uint64_val wireTestPackedTypes_PackedUint64 (PackedUint64 s),
     packed_fields sint32_val wireTestPackedTypes_PackedSint32 (PackedSint32 s),
     packed_fields sint64_val wireTestPackedTypes_PackedSint64 (PackedSint64 s),
     packed_fields WFixed32 wireTestPackedTypes_PackedFixed32 (PackedFixed32 s),
     packed_fields WFixed64 wireTestPackedTypes_PackedFixed64 (PackedFixed64 s),
     packed_fields WFixed32 wireTestPackedTypes_PackedSfixed32 (PackedSfixed32 s),
     packed_fields WFixed64 wireTestPackedTypes_PackedSfixed64 (PackedSfixed64 s),
     packed_fields WFixed32 wireTestPackedTypes_PackedFloat (PackedFloat s),
     packed_fields WFixed64 wireTestPackedTypes_PackedDouble (PackedDouble s),
     packed_fields bool_val wireTestPackedTypes_PackedBool (PackedBool s),
     packed_fields int32_val wireTestPackedTypes_PackedEnum (PackedEnum s)]"

definition TestPackedTypes_content :: "TestPackedTypes \<Rightarrow> wfield list" where
  "TestPackedTypes_content s = concat (TestPackedTypes_groups s)"

text \<open>What a round trip keeps.\<close>

definition TestPackedTypes_norm :: "TestPackedTypes \<Rightarrow> TestPackedTypes" where
  "TestPackedTypes_norm s = s"

definition TestPackedTypes_ready :: "Reader \<Rightarrow> TestPackedTypes \<Rightarrow> (TestPackedTypesReader \<Rightarrow> bool) list" where
  "TestPackedTypes_ready p s = [
     \<lambda>m. cell_reads (readPacked ReadInt32 SizedReadInt32 0) plain p (PackedInt32 s) (cellPackedInt32 m),
     \<lambda>m. cell_reads (readPacked ReadInt64 SizedReadInt64 0) plain p (PackedInt64 s) (cellPackedInt64 m),
     \<lambda>m. cell_reads (readPacked ReadUint32 SizedReadUint32 0) plain p (PackedUint32 s) (cellPackedUint32 m),
     \<lambda>m. cell_reads (readPacked ReadUint64 SizedReadUint64 0) plain p (PackedUint64 s) (cellPackedUint64 m),
     \<lambda>m. cell_reads (readPacked ReadSInt32 SizedReadSInt32 0) plain p (PackedSint32 s) (cellPackedSint32 m),
     \<lambda>m. cell_reads (readPacked ReadSInt64 SizedReadSInt64 0) plain p (PackedSint64 s) (cellPackedSint64 m),
     \<lambda>m. cell_reads (readPacked ReadFixed32 SizedReadFixed32 0) plain p (PackedFixed32 s) (cellPackedFixed32 m),
     \<lambda>m. cell_reads (readPacked ReadFixed64 SizedReadFixed64 0) plain p (PackedFixed64 s) (cellPackedFixed64 m),
     \<lambda>m. cell_reads (readPacked ReadSFixed32 SizedReadSFixed32 0) plain p (PackedSfixed32 s) (cellPackedSfixed32 m),
     \<lambda>m. cell_reads (readPacked ReadSFixed64 SizedReadSFixed64 0) plain p (PackedSfixed64 s) (cellPackedSfixed64 m),
     \<lambda>m. cell_reads (readPacked ReadFloat32 SizedReadFloat32 0) plain p (PackedFloat s) (cellPackedFloat m),
     \<lambda>m. cell_reads (readPacked ReadFloat64 SizedReadFloat64 0) plain p (PackedDouble s) (cellPackedDouble m),
     \<lambda>m. cell_reads (readPacked ReadBool SizedReadBool False) plain p (PackedBool s) (cellPackedBool m),
     \<lambda>m. cell_reads (readPacked ReadInt32 SizedReadInt32 0) plain p (PackedEnum s) (cellPackedEnum m)]"

definition TestPackedTypes_stored :: "TestPackedTypes \<Rightarrow> (TestPackedTypes \<Rightarrow> TestPackedTypes) list" where
  "TestPackedTypes_stored s = [
     \<lambda>res. res\<lparr>PackedInt32 := PackedInt32 s\<rparr>,
     \<lambda>res. res\<lparr>PackedInt64 := PackedInt64 s\<rparr>,
     \<lambda>res. res\<lparr>PackedUint32 := PackedUint32 s\<rparr>,
     \<lambda>res. res\<lparr>PackedUint64 := PackedUint64 s\<rparr>,
     \<lambda>res. res\<lparr>PackedSint32 := PackedSint32 s\<rparr>,
     \<lambda>res. res\<lparr>PackedSint64 := PackedSint64 s\<rparr>,
     \<lambda>res. res\<lparr>PackedFixed32 := PackedFixed32 s\<rparr>,
     \<lambda>res. res\<lparr>PackedFixed64 := PackedFixed64 s\<rparr>,
     \<lambda>res. res\<lparr>PackedSfixed32 := PackedSfixed32 s\<rparr>,
     \<lambda>res. res\<lparr>PackedSfixed64 := PackedSfixed64 s\<rparr>,
     \<lambda>res. res\<lparr>PackedFloat := PackedFloat s\<rparr>,
     \<lambda>res. res\<lparr>PackedDouble := PackedDouble s\<rparr>,
     \<lambda>res. res\<lparr>PackedBool := PackedBool s\<rparr>,
     \<lambda>res. res\<lparr>PackedEnum := PackedEnum s\<rparr>]"

lemma TestPackedTypes_cases_distinct: "distinct (map fst (TestPackedTypesReader_cases wire offset))"
  by (rule ascending_distinct) (simp add: TestPackedTypesReader_cases_def wireTestPackedTypes)

lemma TestPackedTypes_stores:
  "stores_cell TestPackedTypesReader_save wireTestPackedTypes_PackedInt32 addTyped cellPackedInt32"
  "stores_cell TestPackedTypesReader_save wireTestPackedTypes_PackedInt64 addTyped cellPackedInt64"
  "stores_cell TestPackedTypesReader_save wireTestPackedTypes_PackedUint32 addTyped cellPackedUint32"
  "stores_cell TestPackedTypesReader_save wireTestPackedTypes_PackedUint64 addTyped cellPackedUint64"
  "stores_cell TestPackedTypesReader_save wireTestPackedTypes_PackedSint32 addTyped cellPackedSint32"
  "stores_cell TestPackedTypesReader_save wireTestPackedTypes_PackedSint64 addTyped cellPackedSint64"
  "stores_cell TestPackedTypesReader_save wireTestPackedTypes_PackedFixed32 addTyped cellPackedFixed32"
  "stores_cell TestPackedTypesReader_save wireTestPackedTypes_PackedFixed64 addTyped cellPackedFixed64"
  "stores_cell TestPackedTypesReader_save wireTestPackedTypes_PackedSfixed32 addTyped cellPackedSfixed32"
  "stores_cell TestPackedTypesReader_save wireTestPackedTypes_PackedSfixed64 addTyped cellPackedSfixed64"
  "stores_cell TestPackedTypesReader_save wireTestPackedTypes_PackedFloat addTyped cellPackedFloat"
  "stores_cell TestPackedTypesReader_save wireTestPackedTypes_PackedDouble addTyped cellPackedDouble"
  "stores_cell TestPackedTypesReader_save wireTestPackedTypes_PackedBool addTyped cellPackedBool"
  "stores_cell TestPackedTypesReader_save wireTestPackedTypes_PackedEnum addTyped cellPackedEnum"
  unfolding TestPackedTypesReader_save_def [abs_def] by (rule stores_cell_switch; (rule TestPackedTypes_cases_distinct)?; unfold TestPackedTypesReader_cases_def; intro own_case.intros; simp)+

lemma TestPackedTypes_saved: "good_fields TestPackedTypesReader_save p (NewTestPackedTypesReader\<lparr>mbuf := Some p\<rparr>) TestPackedTypes_tags (TestPackedTypes_groups s) (TestPackedTypes_ready p s)"
  unfolding TestPackedTypes_tags_def TestPackedTypes_groups_def TestPackedTypes_ready_def
  by (intro good_fields.intros field_saved TestPackedTypes_stores) (simp_all add: NewTestPackedTypesReader_def newCell_def)

lemma TestPackedTypes_converted: "good_stmts mbuf p (TestPackedTypes_stmts) (TestPackedTypes_ready p s) (TestPackedTypes_stored s)"
  unfolding TestPackedTypes_stmts_def TestPackedTypes_ready_def TestPackedTypes_stored_def TestPackedTypes_getters append.simps
  by (intro good_stmts_field good_stmts.Nil) (simp_all cong: cell_reads_cong)

interpretation l_TestPackedTypes: lazy_message TestPackedTypes_tags TestPackedTypes_groups TestPackedTypes_norm
  "\<lambda>s. TestPackedTypes_sizes1 s @ TestPackedTypes_sizes2 s" "\<lambda>s. TestPackedTypes_appends1 s @ TestPackedTypes_appends2 s"
  TestPackedTypesReader_save "\<lambda>p. NewTestPackedTypesReader\<lparr>mbuf := Some p\<rparr>" mbuf "TestPackedTypes_stmts" TestPackedTypes_zero TestPackedTypes_ready TestPackedTypes_stored
proof
  show "distinct TestPackedTypes_tags"
    using TestPackedTypes_cases_distinct by (simp only: TestPackedTypesReader_cases_def TestPackedTypes_tags_def list.map fst_conv)
  show "list_all valid_tag TestPackedTypes_tags"
    by (simp add: TestPackedTypes_tags_def wireTestPackedTypes valid_tag_def)
  show "list_all2 (\<lambda>t g. \<forall>f \<in> set g. fst f = t \<and> wf_val (snd f)) TestPackedTypes_tags (TestPackedTypes_groups s)" for s
    unfolding TestPackedTypes_tags_def TestPackedTypes_groups_def by (intro list.rel_intros field_tagged)
  show "list_all2 (\<lambda>e g. e = int (length (fields_bytes g))) (TestPackedTypes_sizes1 s @ TestPackedTypes_sizes2 s) (TestPackedTypes_groups s)" for s
    unfolding TestPackedTypes_sizes1_def TestPackedTypes_sizes2_def TestPackedTypes_groups_def append.simps
    by (intro list.rel_intros field_sized)
  show "list_all2 (\<lambda>st g. writes st (fields_bytes g)) (TestPackedTypes_appends1 s @ TestPackedTypes_appends2 s) (TestPackedTypes_groups s)" for s
    unfolding TestPackedTypes_appends1_def TestPackedTypes_appends2_def TestPackedTypes_groups_def append.simps
    by (intro list.rel_intros field_written)
  show "mbuf (TestPackedTypesReader_save t w off m) = mbuf m" for t w off m
    unfolding TestPackedTypesReader_save_def by (rule tag_switch_keeps) (simp add: TestPackedTypesReader_cases_def)
  show "fold (\<lambda>e. e) (TestPackedTypes_stored s) TestPackedTypes_zero = TestPackedTypes_norm s" for s
    unfolding TestPackedTypes_stored_def by (simp add: TestPackedTypes_zero_def TestPackedTypes_norm_def float_defaults)
qed (simp_all add: TestPackedTypes_saved TestPackedTypes_converted)

interpretation m_TestPackedTypes: message_codec TestPackedTypes_content TestPackedTypes_norm TestPackedTypes_XXX_PbContentSize TestPackedTypes_MarshalTo
  "TestPackedTypesReader_Unmarshal NewTestPackedTypesReader" TestPackedTypesReader_ToStruct
  using l_TestPackedTypes.message
  by (simp only: TestPackedTypes_content_def [abs_def] TestPackedTypes_XXX_PbContentSize_def TestPackedTypes_MarshalTo_def TestPackedTypesReader_Unmarshal_def [abs_def] TestPackedTypesReader_ToStruct_def)


section \<open>TestUnpackedTypes: the reader\<close>

definition wireTestUnpackedTypes_UnpackedInt32 :: ProtoWireNumber where "wireTestUnpackedTypes_UnpackedInt32 = 90"
definition wireTestUnpackedTypes_UnpackedInt64 :: ProtoWireNumber where "wireTestUnpackedTypes_UnpackedInt64 = 91"
definition wireTestUnpackedTypes_UnpackedUint32 :: ProtoWireNumber where "wireTestUnpackedTypes_UnpackedUint32 = 92"
definition wireTestUnpackedTypes_UnpackedUint64 :: ProtoWireNumber where "wireTestUnpackedTypes_UnpackedUint64 = 93"
definition wireTestUnpackedTypes_UnpackedSint32 :: ProtoWireNumber where "wireTestUnpackedTypes_UnpackedSint32 = 94"
definition wireTestUnpackedTypes_UnpackedSint64 :: ProtoWireNumber where "wireTestUnpackedTypes_UnpackedSint64 = 95"
definition wireTestUnpackedTypes_UnpackedFixed32 :: ProtoWireNumber where "wireTestUnpackedTypes_UnpackedFixed32 = 96"
definition wireTestUnpackedTypes_UnpackedFixed64 :: ProtoWireNumber where "wireTestUnpackedTypes_UnpackedFixed64 = 97"
definition wireTestUnpackedTypes_UnpackedSfixed32 :: ProtoWireNumber where "wireTestUnpackedTypes_UnpackedSfixed32 = 98"
definition wireTestUnpackedTypes_UnpackedSfixed64 :: ProtoWireNumber where "wireTestUnpackedTypes_UnpackedSfixed64 = 99"
definition wireTestUnpackedTypes_UnpackedFloat :: ProtoWireNumber where "wireTestUnpackedTypes_UnpackedFloat = 100"
definition wireTestUnpackedTypes_UnpackedDouble :: ProtoWireNumber where "wireTestUnpackedTypes_UnpackedDouble = 101"
definition wireTestUnpackedTypes_UnpackedBool :: ProtoWireNumber where "wireTestUnpackedTypes_UnpackedBool = 102"
definition wireTestUnpackedTypes_UnpackedEnum :: ProtoWireNumber where "wireTestUnpackedTypes_UnpackedEnum = 103"

lemmas wireTestUnpackedTypes =
  wireTestUnpackedTypes_UnpackedInt32_def wireTestUnpackedTypes_UnpackedInt64_def
  wireTestUnpackedTypes_UnpackedUint32_def wireTestUnpackedTypes_UnpackedUint64_def
  wireTestUnpackedTypes_UnpackedSint32_def wireTestUnpackedTypes_UnpackedSint64_def
  wireTestUnpackedTypes_UnpackedFixed32_def wireTestUnpackedTypes_UnpackedFixed64_def
  wireTestUnpackedTypes_UnpackedSfixed32_def wireTestUnpackedTypes_UnpackedSfixed64_def
  wireTestUnpackedTypes_UnpackedFloat_def wireTestUnpackedTypes_UnpackedDouble_def
  wireTestUnpackedTypes_UnpackedBool_def wireTestUnpackedTypes_UnpackedEnum_def

record TestUnpackedTypesReader =
  mbuf :: "Reader option"
  cellUnpackedInt32 :: "int32 packed_cell"
  cellUnpackedInt64 :: "int64 packed_cell"
  cellUnpackedUint32 :: "uint32 packed_cell"
  cellUnpackedUint64 :: "uint64 packed_cell"
  cellUnpackedSint32 :: "int32 packed_cell"
  cellUnpackedSint64 :: "int64 packed_cell"
  cellUnpackedFixed32 :: "uint32 packed_cell"
  cellUnpackedFixed64 :: "uint64 packed_cell"
  cellUnpackedSfixed32 :: "int32 packed_cell"
  cellUnpackedSfixed64 :: "int64 packed_cell"
  cellUnpackedFloat :: "float32 packed_cell"
  cellUnpackedDouble :: "float64 packed_cell"
  cellUnpackedBool :: "bool packed_cell"
  cellUnpackedEnum :: "ForeignEnum packed_cell"

definition NewTestUnpackedTypesReader :: TestUnpackedTypesReader where
  "NewTestUnpackedTypesReader = \<lparr>
     mbuf = None, cellUnpackedInt32 = newCell [] ([], []),
     cellUnpackedInt64 = newCell [] ([], []), cellUnpackedUint32 = newCell [] ([], []),
     cellUnpackedUint64 = newCell [] ([], []), cellUnpackedSint32 = newCell [] ([], []),
     cellUnpackedSint64 = newCell [] ([], []), cellUnpackedFixed32 = newCell [] ([], []),
     cellUnpackedFixed64 = newCell [] ([], []), cellUnpackedSfixed32 = newCell [] ([], []),
     cellUnpackedSfixed64 = newCell [] ([], []), cellUnpackedFloat = newCell [] ([], []),
     cellUnpackedDouble = newCell [] ([], []), cellUnpackedBool = newCell [] ([], []),
     cellUnpackedEnum = newCell [] ([], [])\<rparr>"

definition TestUnpackedTypesReader_readUnpackedInt32 :: "TestUnpackedTypesReader \<Rightarrow> (int32 list \<times> TestUnpackedTypesReader) run" where
  "TestUnpackedTypesReader_readUnpackedInt32 = readCell cellUnpackedInt32 cellUnpackedInt32_update mbuf (readPacked ReadInt32 SizedReadInt32 0)"

definition TestUnpackedTypesReader_GetUnpackedInt32 :: "TestUnpackedTypesReader option \<Rightarrow> (int32 list \<times> TestUnpackedTypesReader option) run" where
  "TestUnpackedTypesReader_GetUnpackedInt32 = getter TestUnpackedTypesReader_readUnpackedInt32 []"

definition TestUnpackedTypesReader_readUnpackedInt64 :: "TestUnpackedTypesReader \<Rightarrow> (int64 list \<times> TestUnpackedTypesReader) run" where
  "TestUnpackedTypesReader_readUnpackedInt64 = readCell cellUnpackedInt64 cellUnpackedInt64_update mbuf (readPacked ReadInt64 SizedReadInt64 0)"

definition TestUnpackedTypesReader_GetUnpackedInt64 :: "TestUnpackedTypesReader option \<Rightarrow> (int64 list \<times> TestUnpackedTypesReader option) run" where
  "TestUnpackedTypesReader_GetUnpackedInt64 = getter TestUnpackedTypesReader_readUnpackedInt64 []"

definition TestUnpackedTypesReader_readUnpackedUint32 :: "TestUnpackedTypesReader \<Rightarrow> (uint32 list \<times> TestUnpackedTypesReader) run" where
  "TestUnpackedTypesReader_readUnpackedUint32 = readCell cellUnpackedUint32 cellUnpackedUint32_update mbuf (readPacked ReadUint32 SizedReadUint32 0)"

definition TestUnpackedTypesReader_GetUnpackedUint32 :: "TestUnpackedTypesReader option \<Rightarrow> (uint32 list \<times> TestUnpackedTypesReader option) run" where
  "TestUnpackedTypesReader_GetUnpackedUint32 = getter TestUnpackedTypesReader_readUnpackedUint32 []"

definition TestUnpackedTypesReader_readUnpackedUint64 :: "TestUnpackedTypesReader \<Rightarrow> (uint64 list \<times> TestUnpackedTypesReader) run" where
  "TestUnpackedTypesReader_readUnpackedUint64 = readCell cellUnpackedUint64 cellUnpackedUint64_update mbuf (readPacked ReadUint64 SizedReadUint64 0)"

definition TestUnpackedTypesReader_GetUnpackedUint64 :: "TestUnpackedTypesReader option \<Rightarrow> (uint64 list \<times> TestUnpackedTypesReader option) run" where
  "TestUnpackedTypesReader_GetUnpackedUint64 = getter TestUnpackedTypesReader_readUnpackedUint64 []"

definition TestUnpackedTypesReader_readUnpackedSint32 :: "TestUnpackedTypesReader \<Rightarrow> (int32 list \<times> TestUnpackedTypesReader) run" where
  "TestUnpackedTypesReader_readUnpackedSint32 = readCell cellUnpackedSint32 cellUnpackedSint32_update mbuf (readPacked ReadSInt32 SizedReadSInt32 0)"

definition TestUnpackedTypesReader_GetUnpackedSint32 :: "TestUnpackedTypesReader option \<Rightarrow> (int32 list \<times> TestUnpackedTypesReader option) run" where
  "TestUnpackedTypesReader_GetUnpackedSint32 = getter TestUnpackedTypesReader_readUnpackedSint32 []"

definition TestUnpackedTypesReader_readUnpackedSint64 :: "TestUnpackedTypesReader \<Rightarrow> (int64 list \<times> TestUnpackedTypesReader) run" where
  "TestUnpackedTypesReader_readUnpackedSint64 = readCell cellUnpackedSint64 cellUnpackedSint64_update mbuf (readPacked ReadSInt64 SizedReadSInt64 0)"

definition TestUnpackedTypesReader_GetUnpackedSint64 :: "TestUnpackedTypesReader option \<Rightarrow> (int64 list \<times> TestUnpackedTypesReader option) run" where
  "TestUnpackedTypesReader_GetUnpackedSint64 = getter TestUnpackedTypesReader_readUnpackedSint64 []"

definition TestUnpackedTypesReader_readUnpackedFixed32 :: "TestUnpackedTypesReader \<Rightarrow> (uint32 list \<times> TestUnpackedTypesReader) run" where
  "TestUnpackedTypesReader_readUnpackedFixed32 = readCell cellUnpackedFixed32 cellUnpackedFixed32_update mbuf (readPacked ReadFixed32 SizedReadFixed32 0)"

definition TestUnpackedTypesReader_GetUnpackedFixed32 :: "TestUnpackedTypesReader option \<Rightarrow> (uint32 list \<times> TestUnpackedTypesReader option) run" where
  "TestUnpackedTypesReader_GetUnpackedFixed32 = getter TestUnpackedTypesReader_readUnpackedFixed32 []"

definition TestUnpackedTypesReader_readUnpackedFixed64 :: "TestUnpackedTypesReader \<Rightarrow> (uint64 list \<times> TestUnpackedTypesReader) run" where
  "TestUnpackedTypesReader_readUnpackedFixed64 = readCell cellUnpackedFixed64 cellUnpackedFixed64_update mbuf (readPacked ReadFixed64 SizedReadFixed64 0)"

definition TestUnpackedTypesReader_GetUnpackedFixed64 :: "TestUnpackedTypesReader option \<Rightarrow> (uint64 list \<times> TestUnpackedTypesReader option) run" where
  "TestUnpackedTypesReader_GetUnpackedFixed64 = getter TestUnpackedTypesReader_readUnpackedFixed64 []"

definition TestUnpackedTypesReader_readUnpackedSfixed32 :: "TestUnpackedTypesReader \<Rightarrow> (int32 list \<times> TestUnpackedTypesReader) run" where
  "TestUnpackedTypesReader_readUnpackedSfixed32 = readCell cellUnpackedSfixed32 cellUnpackedSfixed32_update mbuf (readPacked ReadSFixed32 SizedReadSFixed32 0)"

definition TestUnpackedTypesReader_GetUnpackedSfixed32 :: "TestUnpackedTypesReader option \<Rightarrow> (int32 list \<times> TestUnpackedTypesReader option) run" where
  "TestUnpackedTypesReader_GetUnpackedSfixed32 = getter TestUnpackedTypesReader_readUnpackedSfixed32 []"

definition TestUnpackedTypesReader_readUnpackedSfixed64 :: "TestUnpackedTypesReader \<Rightarrow> (int64 list \<times> TestUnpackedTypesReader) run" where
  "TestUnpackedTypesReader_readUnpackedSfixed64 = readCell cellUnpackedSfixed64 cellUnpackedSfixed64_update mbuf (readPacked ReadSFixed64 SizedReadSFixed64 0)"

definition TestUnpackedTypesReader_GetUnpackedSfixed64 :: "TestUnpackedTypesReader option \<Rightarrow> (int64 list \<times> TestUnpackedTypesReader option) run" where
  "TestUnpackedTypesReader_GetUnpackedSfixed64 = getter TestUnpackedTypesReader_readUnpackedSfixed64 []"

definition TestUnpackedTypesReader_readUnpackedFloat :: "TestUnpackedTypesReader \<Rightarrow> (float32 list \<times> TestUnpackedTypesReader) run" where
  "TestUnpackedTypesReader_readUnpackedFloat = readCell cellUnpackedFloat cellUnpackedFloat_update mbuf (readPacked ReadFloat32 SizedReadFloat32 0)"

definition TestUnpackedTypesReader_GetUnpackedFloat :: "TestUnpackedTypesReader option \<Rightarrow> (float32 list \<times> TestUnpackedTypesReader option) run" where
  "TestUnpackedTypesReader_GetUnpackedFloat = getter TestUnpackedTypesReader_readUnpackedFloat []"

definition TestUnpackedTypesReader_readUnpackedDouble :: "TestUnpackedTypesReader \<Rightarrow> (float64 list \<times> TestUnpackedTypesReader) run" where
  "TestUnpackedTypesReader_readUnpackedDouble = readCell cellUnpackedDouble cellUnpackedDouble_update mbuf (readPacked ReadFloat64 SizedReadFloat64 0)"

definition TestUnpackedTypesReader_GetUnpackedDouble :: "TestUnpackedTypesReader option \<Rightarrow> (float64 list \<times> TestUnpackedTypesReader option) run" where
  "TestUnpackedTypesReader_GetUnpackedDouble = getter TestUnpackedTypesReader_readUnpackedDouble []"

definition TestUnpackedTypesReader_readUnpackedBool :: "TestUnpackedTypesReader \<Rightarrow> (bool list \<times> TestUnpackedTypesReader) run" where
  "TestUnpackedTypesReader_readUnpackedBool = readCell cellUnpackedBool cellUnpackedBool_update mbuf (readPacked ReadBool SizedReadBool False)"

definition TestUnpackedTypesReader_GetUnpackedBool :: "TestUnpackedTypesReader option \<Rightarrow> (bool list \<times> TestUnpackedTypesReader option) run" where
  "TestUnpackedTypesReader_GetUnpackedBool = getter TestUnpackedTypesReader_readUnpackedBool []"

definition TestUnpackedTypesReader_readUnpackedEnum :: "TestUnpackedTypesReader \<Rightarrow> (ForeignEnum list \<times> TestUnpackedTypesReader) run" where
  "TestUnpackedTypesReader_readUnpackedEnum = readCell cellUnpackedEnum cellUnpackedEnum_update mbuf (readPacked ReadInt32 SizedReadInt32 0)"

definition TestUnpackedTypesReader_GetUnpackedEnum :: "TestUnpackedTypesReader option \<Rightarrow> (ForeignEnum list \<times> TestUnpackedTypesReader option) run" where
  "TestUnpackedTypesReader_GetUnpackedEnum = getter TestUnpackedTypesReader_readUnpackedEnum []"

lemmas TestUnpackedTypes_getters =
  TestUnpackedTypesReader_readUnpackedInt32_def TestUnpackedTypesReader_GetUnpackedInt32_def
  TestUnpackedTypesReader_readUnpackedInt64_def TestUnpackedTypesReader_GetUnpackedInt64_def
  TestUnpackedTypesReader_readUnpackedUint32_def TestUnpackedTypesReader_GetUnpackedUint32_def
  TestUnpackedTypesReader_readUnpackedUint64_def TestUnpackedTypesReader_GetUnpackedUint64_def
  TestUnpackedTypesReader_readUnpackedSint32_def TestUnpackedTypesReader_GetUnpackedSint32_def
  TestUnpackedTypesReader_readUnpackedSint64_def TestUnpackedTypesReader_GetUnpackedSint64_def
  TestUnpackedTypesReader_readUnpackedFixed32_def TestUnpackedTypesReader_GetUnpackedFixed32_def
  TestUnpackedTypesReader_readUnpackedFixed64_def TestUnpackedTypesReader_GetUnpackedFixed64_def
  TestUnpackedTypesReader_readUnpackedSfixed32_def TestUnpackedTypesReader_GetUnpackedSfixed32_def
  TestUnpackedTypesReader_readUnpackedSfixed64_def TestUnpackedTypesReader_GetUnpackedSfixed64_def
  TestUnpackedTypesReader_readUnpackedFloat_def TestUnpackedTypesReader_GetUnpackedFloat_def
  TestUnpackedTypesReader_readUnpackedDouble_def TestUnpackedTypesReader_GetUnpackedDouble_def
  TestUnpackedTypesReader_readUnpackedBool_def TestUnpackedTypesReader_GetUnpackedBool_def
  TestUnpackedTypesReader_readUnpackedEnum_def TestUnpackedTypesReader_GetUnpackedEnum_def

definition TestUnpackedTypesReader_cases :: "ProtoWireType \<Rightarrow> int \<Rightarrow> (ProtoWireNumber \<times> (TestUnpackedTypesReader \<Rightarrow> TestUnpackedTypesReader)) list" where
  "TestUnpackedTypesReader_cases wire offset = [
     (wireTestUnpackedTypes_UnpackedInt32, \<lambda>m. m\<lparr>cellUnpackedInt32 := onOffset (addTyped wire offset) (cellUnpackedInt32 m)\<rparr>),
     (wireTestUnpackedTypes_UnpackedInt64, \<lambda>m. m\<lparr>cellUnpackedInt64 := onOffset (addTyped wire offset) (cellUnpackedInt64 m)\<rparr>),
     (wireTestUnpackedTypes_UnpackedUint32, \<lambda>m. m\<lparr>cellUnpackedUint32 := onOffset (addTyped wire offset) (cellUnpackedUint32 m)\<rparr>),
     (wireTestUnpackedTypes_UnpackedUint64, \<lambda>m. m\<lparr>cellUnpackedUint64 := onOffset (addTyped wire offset) (cellUnpackedUint64 m)\<rparr>),
     (wireTestUnpackedTypes_UnpackedSint32, \<lambda>m. m\<lparr>cellUnpackedSint32 := onOffset (addTyped wire offset) (cellUnpackedSint32 m)\<rparr>),
     (wireTestUnpackedTypes_UnpackedSint64, \<lambda>m. m\<lparr>cellUnpackedSint64 := onOffset (addTyped wire offset) (cellUnpackedSint64 m)\<rparr>),
     (wireTestUnpackedTypes_UnpackedFixed32, \<lambda>m. m\<lparr>cellUnpackedFixed32 := onOffset (addTyped wire offset) (cellUnpackedFixed32 m)\<rparr>),
     (wireTestUnpackedTypes_UnpackedFixed64, \<lambda>m. m\<lparr>cellUnpackedFixed64 := onOffset (addTyped wire offset) (cellUnpackedFixed64 m)\<rparr>),
     (wireTestUnpackedTypes_UnpackedSfixed32, \<lambda>m. m\<lparr>cellUnpackedSfixed32 := onOffset (addTyped wire offset) (cellUnpackedSfixed32 m)\<rparr>),
     (wireTestUnpackedTypes_UnpackedSfixed64, \<lambda>m. m\<lparr>cellUnpackedSfixed64 := onOffset (addTyped wire offset) (cellUnpackedSfixed64 m)\<rparr>),
     (wireTestUnpackedTypes_UnpackedFloat, \<lambda>m. m\<lparr>cellUnpackedFloat := onOffset (addTyped wire offset) (cellUnpackedFloat m)\<rparr>),
     (wireTestUnpackedTypes_UnpackedDouble, \<lambda>m. m\<lparr>cellUnpackedDouble := onOffset (addTyped wire offset) (cellUnpackedDouble m)\<rparr>),
     (wireTestUnpackedTypes_UnpackedBool, \<lambda>m. m\<lparr>cellUnpackedBool := onOffset (addTyped wire offset) (cellUnpackedBool m)\<rparr>),
     (wireTestUnpackedTypes_UnpackedEnum, \<lambda>m. m\<lparr>cellUnpackedEnum := onOffset (addTyped wire offset) (cellUnpackedEnum m)\<rparr>)]"

definition TestUnpackedTypesReader_save :: "ProtoWireNumber \<Rightarrow> ProtoWireType \<Rightarrow> int \<Rightarrow> TestUnpackedTypesReader \<Rightarrow> TestUnpackedTypesReader" where
  "TestUnpackedTypesReader_save tag wire offset = tag_switch (TestUnpackedTypesReader_cases wire offset) tag"

definition TestUnpackedTypesReader_Unmarshal :: "TestUnpackedTypesReader \<Rightarrow> gslice \<Rightarrow> (TestUnpackedTypesReader \<times> string option) run" where
  "TestUnpackedTypesReader_Unmarshal m data =
     unmarshalLoop TestUnpackedTypesReader_save (NewReader data) 0 (m\<lparr>mbuf := Some (NewReader data)\<rparr>)"

definition TestUnpackedTypesReader_SourceBytes :: "TestUnpackedTypesReader option \<Rightarrow> gslice" where
  "TestUnpackedTypesReader_SourceBytes s = (case s of None \<Rightarrow> nil_slice | Some r \<Rightarrow> Bytes (mbuf r))"

section \<open>TestUnpackedTypes: the struct\<close>

record TestUnpackedTypes =
  UnpackedInt32 :: "int32 list"
  UnpackedInt64 :: "int64 list"
  UnpackedUint32 :: "uint32 list"
  UnpackedUint64 :: "uint64 list"
  UnpackedSint32 :: "int32 list"
  UnpackedSint64 :: "int64 list"
  UnpackedFixed32 :: "uint32 list"
  UnpackedFixed64 :: "uint64 list"
  UnpackedSfixed32 :: "int32 list"
  UnpackedSfixed64 :: "int64 list"
  UnpackedFloat :: "float32 list"
  UnpackedDouble :: "float64 list"
  UnpackedBool :: "bool list"
  UnpackedEnum :: "ForeignEnum list"

definition TestUnpackedTypes_zero :: TestUnpackedTypes where
  "TestUnpackedTypes_zero = \<lparr>
     UnpackedInt32 = [], UnpackedInt64 = [], UnpackedUint32 = [], UnpackedUint64 = [],
     UnpackedSint32 = [], UnpackedSint64 = [], UnpackedFixed32 = [], UnpackedFixed64 = [],
     UnpackedSfixed32 = [], UnpackedSfixed64 = [], UnpackedFloat = [], UnpackedDouble = [],
     UnpackedBool = [], UnpackedEnum = []\<rparr>"

definition TestUnpackedTypes_stmts :: "(TestUnpackedTypes \<times> TestUnpackedTypesReader option \<Rightarrow> (TestUnpackedTypes \<times> TestUnpackedTypesReader option) run) list" where
  "TestUnpackedTypes_stmts = [
     assign TestUnpackedTypesReader_GetUnpackedInt32 (\<lambda>v res. res\<lparr>UnpackedInt32 := v\<rparr>),
     assign TestUnpackedTypesReader_GetUnpackedInt64 (\<lambda>v res. res\<lparr>UnpackedInt64 := v\<rparr>),
     assign TestUnpackedTypesReader_GetUnpackedUint32 (\<lambda>v res. res\<lparr>UnpackedUint32 := v\<rparr>),
     assign TestUnpackedTypesReader_GetUnpackedUint64 (\<lambda>v res. res\<lparr>UnpackedUint64 := v\<rparr>),
     assign TestUnpackedTypesReader_GetUnpackedSint32 (\<lambda>v res. res\<lparr>UnpackedSint32 := v\<rparr>),
     assign TestUnpackedTypesReader_GetUnpackedSint64 (\<lambda>v res. res\<lparr>UnpackedSint64 := v\<rparr>),
     assign TestUnpackedTypesReader_GetUnpackedFixed32 (\<lambda>v res. res\<lparr>UnpackedFixed32 := v\<rparr>),
     assign TestUnpackedTypesReader_GetUnpackedFixed64 (\<lambda>v res. res\<lparr>UnpackedFixed64 := v\<rparr>),
     assign TestUnpackedTypesReader_GetUnpackedSfixed32 (\<lambda>v res. res\<lparr>UnpackedSfixed32 := v\<rparr>),
     assign TestUnpackedTypesReader_GetUnpackedSfixed64 (\<lambda>v res. res\<lparr>UnpackedSfixed64 := v\<rparr>),
     assign TestUnpackedTypesReader_GetUnpackedFloat (\<lambda>v res. res\<lparr>UnpackedFloat := v\<rparr>),
     assign TestUnpackedTypesReader_GetUnpackedDouble (\<lambda>v res. res\<lparr>UnpackedDouble := v\<rparr>),
     assign TestUnpackedTypesReader_GetUnpackedBool (\<lambda>v res. res\<lparr>UnpackedBool := v\<rparr>),
     assign TestUnpackedTypesReader_GetUnpackedEnum (\<lambda>v res. res\<lparr>UnpackedEnum := v\<rparr>)]"

definition TestUnpackedTypesReader_ToStruct :: "TestUnpackedTypesReader option \<Rightarrow> (TestUnpackedTypes option \<times> TestUnpackedTypesReader option) run" where
  "TestUnpackedTypesReader_ToStruct = toStructWith (TestUnpackedTypes_stmts) TestUnpackedTypes_zero"

definition TestUnpackedTypes_appends1 :: "TestUnpackedTypes \<Rightarrow> (Writer \<Rightarrow> Writer go) list" where
  "TestUnpackedTypes_appends1 s = [
     \<lambda>res. if UnpackedInt32 s \<noteq> [] then packedWriter AppendInt32WithoutTag AppendInt32 SizeInt32 res wireTestUnpackedTypes_UnpackedInt32 (UnpackedInt32 s) else Ret res,
     \<lambda>res. if UnpackedInt64 s \<noteq> [] then packedWriter AppendInt64WithoutTag AppendInt64 SizeInt64 res wireTestUnpackedTypes_UnpackedInt64 (UnpackedInt64 s) else Ret res,
     \<lambda>res. if UnpackedUint32 s \<noteq> [] then packedWriter AppendUint32WithoutTag AppendUint32 SizeUint32 res wireTestUnpackedTypes_UnpackedUint32 (UnpackedUint32 s) else Ret res,
     \<lambda>res. if UnpackedUint64 s \<noteq> [] then packedWriter AppendUint64WithoutTag AppendUint64 SizeUint64 res wireTestUnpackedTypes_UnpackedUint64 (UnpackedUint64 s) else Ret res,
     \<lambda>res. if UnpackedSint32 s \<noteq> [] then packedWriter AppendSInt32WithoutTag AppendSInt32 SizeSInt32 res wireTestUnpackedTypes_UnpackedSint32 (UnpackedSint32 s) else Ret res,
     \<lambda>res. if UnpackedSint64 s \<noteq> [] then packedWriter AppendSInt64WithoutTag AppendSInt64 SizeSInt64 res wireTestUnpackedTypes_UnpackedSint64 (UnpackedSint64 s) else Ret res,
     \<lambda>res. if UnpackedFixed32 s \<noteq> [] then packedWriter AppendFixed32WithoutTag AppendFixed32 SizeFixed32 res wireTestUnpackedTypes_UnpackedFixed32 (UnpackedFixed32 s) else Ret res,
     \<lambda>res. if UnpackedFixed64 s \<noteq> [] then packedWriter AppendFixed64WithoutTag AppendFixed64 SizeFixed64 res wireTestUnpackedTypes_UnpackedFixed64 (UnpackedFixed64 s) else Ret res,
     \<lambda>res. if UnpackedSfixed32 s \<noteq> [] then packedWriter AppendSFixed32WithoutTag AppendSFixed32 SizeSFixed32 res wireTestUnpackedTypes_UnpackedSfixed32 (UnpackedSfixed32 s) else Ret res]"

definition TestUnpackedTypes_appends2 :: "TestUnpackedTypes \<Rightarrow> (Writer \<Rightarrow> Writer go) list" where
  "TestUnpackedTypes_appends2 s = [
     \<lambda>res. if UnpackedSfixed64 s \<noteq> [] then packedWriter AppendSFixed64WithoutTag AppendSFixed64 SizeSFixed64 res wireTestUnpackedTypes_UnpackedSfixed64 (UnpackedSfixed64 s) else Ret res,
     \<lambda>res. if UnpackedFloat s \<noteq> [] then packedWriter AppendFloat32WithoutTag AppendFloat32 SizeFloat32 res wireTestUnpackedTypes_UnpackedFloat (UnpackedFloat s) else Ret res,
     \<lambda>res. if UnpackedDouble s \<noteq> [] then packedWriter AppendFloat64WithoutTag AppendFloat64 SizeFloat64 res wireTestUnpackedTypes_UnpackedDouble (UnpackedDouble s) else Ret res,
     \<lambda>res. if UnpackedBool s \<noteq> [] then packedWriter AppendBoolWithoutTag AppendBool SizeBool res wireTestUnpackedTypes_UnpackedBool (UnpackedBool s) else Ret res,
     \<lambda>res. if UnpackedEnum s \<noteq> [] then packedWriter AppendInt32WithoutTag AppendInt32 SizeInt32 res wireTestUnpackedTypes_UnpackedEnum (UnpackedEnum s) else Ret res]"

definition TestUnpackedTypes_MarshalTo :: "Writer \<Rightarrow> TestUnpackedTypes option \<Rightarrow> Writer go" where
  "TestUnpackedTypes_MarshalTo = marshalToWith (\<lambda>s. TestUnpackedTypes_appends1 s @ TestUnpackedTypes_appends2 s)"

definition TestUnpackedTypes_sizes1 :: "TestUnpackedTypes \<Rightarrow> int list" where
  "TestUnpackedTypes_sizes1 s = [
     if UnpackedInt32 s \<noteq> [] then packedSize SizeInt32 wireTestUnpackedTypes_UnpackedInt32 (UnpackedInt32 s) else 0,
     if UnpackedInt64 s \<noteq> [] then packedSize SizeInt64 wireTestUnpackedTypes_UnpackedInt64 (UnpackedInt64 s) else 0,
     if UnpackedUint32 s \<noteq> [] then packedSize SizeUint32 wireTestUnpackedTypes_UnpackedUint32 (UnpackedUint32 s) else 0,
     if UnpackedUint64 s \<noteq> [] then packedSize SizeUint64 wireTestUnpackedTypes_UnpackedUint64 (UnpackedUint64 s) else 0,
     if UnpackedSint32 s \<noteq> [] then packedSize SizeSInt32 wireTestUnpackedTypes_UnpackedSint32 (UnpackedSint32 s) else 0,
     if UnpackedSint64 s \<noteq> [] then packedSize SizeSInt64 wireTestUnpackedTypes_UnpackedSint64 (UnpackedSint64 s) else 0,
     if UnpackedFixed32 s \<noteq> [] then packedSize SizeFixed32 wireTestUnpackedTypes_UnpackedFixed32 (UnpackedFixed32 s) else 0]"

definition TestUnpackedTypes_sizes2 :: "TestUnpackedTypes \<Rightarrow> int list" where
  "TestUnpackedTypes_sizes2 s = [
     if UnpackedFixed64 s \<noteq> [] then packedSize SizeFixed64 wireTestUnpackedTypes_UnpackedFixed64 (UnpackedFixed64 s) else 0,
     if UnpackedSfixed32 s \<noteq> [] then packedSize SizeSFixed32 wireTestUnpackedTypes_UnpackedSfixed32 (UnpackedSfixed32 s) else 0,
     if UnpackedSfixed64 s \<noteq> [] then packedSize SizeSFixed64 wireTestUnpackedTypes_UnpackedSfixed64 (UnpackedSfixed64 s) else 0,
     if UnpackedFloat s \<noteq> [] then packedSize SizeFloat32 wireTestUnpackedTypes_UnpackedFloat (UnpackedFloat s) else 0,
     if UnpackedDouble s \<noteq> [] then packedSize SizeFloat64 wireTestUnpackedTypes_UnpackedDouble (UnpackedDouble s) else 0,
     if UnpackedBool s \<noteq> [] then packedSize SizeBool wireTestUnpackedTypes_UnpackedBool (UnpackedBool s) else 0,
     if UnpackedEnum s \<noteq> [] then packedSize SizeInt32 wireTestUnpackedTypes_UnpackedEnum (UnpackedEnum s) else 0]"

definition TestUnpackedTypes_XXX_PbContentSize :: "TestUnpackedTypes option \<Rightarrow> int" where
  "TestUnpackedTypes_XXX_PbContentSize = contentSizeWith (\<lambda>s. TestUnpackedTypes_sizes1 s @ TestUnpackedTypes_sizes2 s)"

definition TestUnpackedTypes_Marshal :: "TestUnpackedTypes option \<Rightarrow> byte list go" where
  "TestUnpackedTypes_Marshal = marshalWith TestUnpackedTypes_XXX_PbContentSize TestUnpackedTypes_MarshalTo"

definition TestUnpackedTypes_Copy :: "TestUnpackedTypes option \<Rightarrow> TestUnpackedTypes option" where
  "TestUnpackedTypes_Copy s =
     (case s of None \<Rightarrow> None | Some s \<Rightarrow> Some \<lparr>
        UnpackedInt32 = UnpackedInt32 s, UnpackedInt64 = UnpackedInt64 s,
        UnpackedUint32 = UnpackedUint32 s, UnpackedUint64 = UnpackedUint64 s,
        UnpackedSint32 = UnpackedSint32 s, UnpackedSint64 = UnpackedSint64 s,
        UnpackedFixed32 = UnpackedFixed32 s, UnpackedFixed64 = UnpackedFixed64 s,
        UnpackedSfixed32 = UnpackedSfixed32 s, UnpackedSfixed64 = UnpackedSfixed64 s,
        UnpackedFloat = UnpackedFloat s, UnpackedDouble = UnpackedDouble s,
        UnpackedBool = UnpackedBool s, UnpackedEnum = UnpackedEnum s\<rparr>)"

section \<open>TestUnpackedTypes: the round trip\<close>

definition TestUnpackedTypes_tags :: "ProtoWireNumber list" where
  "TestUnpackedTypes_tags = [
     wireTestUnpackedTypes_UnpackedInt32, wireTestUnpackedTypes_UnpackedInt64,
     wireTestUnpackedTypes_UnpackedUint32, wireTestUnpackedTypes_UnpackedUint64,
     wireTestUnpackedTypes_UnpackedSint32, wireTestUnpackedTypes_UnpackedSint64,
     wireTestUnpackedTypes_UnpackedFixed32, wireTestUnpackedTypes_UnpackedFixed64,
     wireTestUnpackedTypes_UnpackedSfixed32, wireTestUnpackedTypes_UnpackedSfixed64,
     wireTestUnpackedTypes_UnpackedFloat, wireTestUnpackedTypes_UnpackedDouble,
     wireTestUnpackedTypes_UnpackedBool, wireTestUnpackedTypes_UnpackedEnum]"

definition TestUnpackedTypes_groups :: "TestUnpackedTypes \<Rightarrow> wfield list list" where
  "TestUnpackedTypes_groups s = [
     packed_fields int32_val wireTestUnpackedTypes_UnpackedInt32 (UnpackedInt32 s),
     packed_fields int64_val wireTestUnpackedTypes_UnpackedInt64 (UnpackedInt64 s),
     packed_fields uint32_val wireTestUnpackedTypes_UnpackedUint32 (UnpackedUint32 s),
     packed_fields uint64_val wireTestUnpackedTypes_UnpackedUint64 (UnpackedUint64 s),
     packed_fields sint32_val wireTestUnpackedTypes_UnpackedSint32 (UnpackedSint32 s),
     packed_fields sint64_val wireTestUnpackedTypes_UnpackedSint64 (UnpackedSint64 s),
     packed_fields WFixed32 wireTestUnpackedTypes_UnpackedFixed32 (UnpackedFixed32 s),
     packed_fields WFixed64 wireTestUnpackedTypes_UnpackedFixed64 (UnpackedFixed64 s),
     packed_fields WFixed32 wireTestUnpackedTypes_UnpackedSfixed32 (UnpackedSfixed32 s),
     packed_fields WFixed64 wireTestUnpackedTypes_UnpackedSfixed64 (UnpackedSfixed64 s),
     packed_fields WFixed32 wireTestUnpackedTypes_UnpackedFloat (UnpackedFloat s),
     packed_fields WFixed64 wireTestUnpackedTypes_UnpackedDouble (UnpackedDouble s),
     packed_fields bool_val wireTestUnpackedTypes_UnpackedBool (UnpackedBool s),
     packed_fields int32_val wireTestUnpackedTypes_UnpackedEnum (UnpackedEnum s)]"

definition TestUnpackedTypes_content :: "TestUnpackedTypes \<Rightarrow> wfield list" where
  "TestUnpackedTypes_content s = concat (TestUnpackedTypes_groups s)"

text \<open>What a round trip keeps.\<close>

definition TestUnpackedTypes_norm :: "TestUnpackedTypes \<Rightarrow> TestUnpackedTypes" where
  "TestUnpackedTypes_norm s = s"

definition TestUnpackedTypes_ready :: "Reader \<Rightarrow> TestUnpackedTypes \<Rightarrow> (TestUnpackedTypesReader \<Rightarrow> bool) list" where
  "TestUnpackedTypes_ready p s = [
     \<lambda>m. cell_reads (readPacked ReadInt32 SizedReadInt32 0) plain p (UnpackedInt32 s) (cellUnpackedInt32 m),
     \<lambda>m. cell_reads (readPacked ReadInt64 SizedReadInt64 0) plain p (UnpackedInt64 s) (cellUnpackedInt64 m),
     \<lambda>m. cell_reads (readPacked ReadUint32 SizedReadUint32 0) plain p (UnpackedUint32 s) (cellUnpackedUint32 m),
     \<lambda>m. cell_reads (readPacked ReadUint64 SizedReadUint64 0) plain p (UnpackedUint64 s) (cellUnpackedUint64 m),
     \<lambda>m. cell_reads (readPacked ReadSInt32 SizedReadSInt32 0) plain p (UnpackedSint32 s) (cellUnpackedSint32 m),
     \<lambda>m. cell_reads (readPacked ReadSInt64 SizedReadSInt64 0) plain p (UnpackedSint64 s) (cellUnpackedSint64 m),
     \<lambda>m. cell_reads (readPacked ReadFixed32 SizedReadFixed32 0) plain p (UnpackedFixed32 s) (cellUnpackedFixed32 m),
     \<lambda>m. cell_reads (readPacked ReadFixed64 SizedReadFixed64 0) plain p (UnpackedFixed64 s) (cellUnpackedFixed64 m),
     \<lambda>m. cell_reads (readPacked ReadSFixed32 SizedReadSFixed32 0) plain p (UnpackedSfixed32 s) (cellUnpackedSfixed32 m),
     \<lambda>m. cell_reads (readPacked ReadSFixed64 SizedReadSFixed64 0) plain p (UnpackedSfixed64 s) (cellUnpackedSfixed64 m),
     \<lambda>m. cell_reads (readPacked ReadFloat32 SizedReadFloat32 0) plain p (UnpackedFloat s) (cellUnpackedFloat m),
     \<lambda>m. cell_reads (readPacked ReadFloat64 SizedReadFloat64 0) plain p (UnpackedDouble s) (cellUnpackedDouble m),
     \<lambda>m. cell_reads (readPacked ReadBool SizedReadBool False) plain p (UnpackedBool s) (cellUnpackedBool m),
     \<lambda>m. cell_reads (readPacked ReadInt32 SizedReadInt32 0) plain p (UnpackedEnum s) (cellUnpackedEnum m)]"

definition TestUnpackedTypes_stored :: "TestUnpackedTypes \<Rightarrow> (TestUnpackedTypes \<Rightarrow> TestUnpackedTypes) list" where
  "TestUnpackedTypes_stored s = [
     \<lambda>res. res\<lparr>UnpackedInt32 := UnpackedInt32 s\<rparr>,
     \<lambda>res. res\<lparr>UnpackedInt64 := UnpackedInt64 s\<rparr>,
     \<lambda>res. res\<lparr>UnpackedUint32 := UnpackedUint32 s\<rparr>,
     \<lambda>res. res\<lparr>UnpackedUint64 := UnpackedUint64 s\<rparr>,
     \<lambda>res. res\<lparr>UnpackedSint32 := UnpackedSint32 s\<rparr>,
     \<lambda>res. res\<lparr>UnpackedSint64 := UnpackedSint64 s\<rparr>,
     \<lambda>res. res\<lparr>UnpackedFixed32 := UnpackedFixed32 s\<rparr>,
     \<lambda>res. res\<lparr>UnpackedFixed64 := UnpackedFixed64 s\<rparr>,
     \<lambda>res. res\<lparr>UnpackedSfixed32 := UnpackedSfixed32 s\<rparr>,
     \<lambda>res. res\<lparr>UnpackedSfixed64 := UnpackedSfixed64 s\<rparr>,
     \<lambda>res. res\<lparr>UnpackedFloat := UnpackedFloat s\<rparr>,
     \<lambda>res. res\<lparr>UnpackedDouble := UnpackedDouble s\<rparr>,
     \<lambda>res. res\<lparr>UnpackedBool := UnpackedBool s\<rparr>,
     \<lambda>res. res\<lparr>UnpackedEnum := UnpackedEnum s\<rparr>]"

lemma TestUnpackedTypes_cases_distinct: "distinct (map fst (TestUnpackedTypesReader_cases wire offset))"
  by (rule ascending_distinct) (simp add: TestUnpackedTypesReader_cases_def wireTestUnpackedTypes)

lemma TestUnpackedTypes_stores:
  "stores_cell TestUnpackedTypesReader_save wireTestUnpackedTypes_UnpackedInt32 addTyped cellUnpackedInt32"
  "stores_cell TestUnpackedTypesReader_save wireTestUnpackedTypes_UnpackedInt64 addTyped cellUnpackedInt64"
  "stores_cell TestUnpackedTypesReader_save wireTestUnpackedTypes_UnpackedUint32 addTyped cellUnpackedUint32"
  "stores_cell TestUnpackedTypesReader_save wireTestUnpackedTypes_UnpackedUint64 addTyped cellUnpackedUint64"
  "stores_cell TestUnpackedTypesReader_save wireTestUnpackedTypes_UnpackedSint32 addTyped cellUnpackedSint32"
  "stores_cell TestUnpackedTypesReader_save wireTestUnpackedTypes_UnpackedSint64 addTyped cellUnpackedSint64"
  "stores_cell TestUnpackedTypesReader_save wireTestUnpackedTypes_UnpackedFixed32 addTyped cellUnpackedFixed32"
  "stores_cell TestUnpackedTypesReader_save wireTestUnpackedTypes_UnpackedFixed64 addTyped cellUnpackedFixed64"
  "stores_cell TestUnpackedTypesReader_save wireTestUnpackedTypes_UnpackedSfixed32 addTyped cellUnpackedSfixed32"
  "stores_cell TestUnpackedTypesReader_save wireTestUnpackedTypes_UnpackedSfixed64 addTyped cellUnpackedSfixed64"
  "stores_cell TestUnpackedTypesReader_save wireTestUnpackedTypes_UnpackedFloat addTyped cellUnpackedFloat"
  "stores_cell TestUnpackedTypesReader_save wireTestUnpackedTypes_UnpackedDouble addTyped cellUnpackedDouble"
  "stores_cell TestUnpackedTypesReader_save wireTestUnpackedTypes_UnpackedBool addTyped cellUnpackedBool"
  "stores_cell TestUnpackedTypesReader_save wireTestUnpackedTypes_UnpackedEnum addTyped cellUnpackedEnum"
  unfolding TestUnpackedTypesReader_save_def [abs_def] by (rule stores_cell_switch; (rule TestUnpackedTypes_cases_distinct)?; unfold TestUnpackedTypesReader_cases_def; intro own_case.intros; simp)+

lemma TestUnpackedTypes_saved: "good_fields TestUnpackedTypesReader_save p (NewTestUnpackedTypesReader\<lparr>mbuf := Some p\<rparr>) TestUnpackedTypes_tags (TestUnpackedTypes_groups s) (TestUnpackedTypes_ready p s)"
  unfolding TestUnpackedTypes_tags_def TestUnpackedTypes_groups_def TestUnpackedTypes_ready_def
  by (intro good_fields.intros field_saved TestUnpackedTypes_stores) (simp_all add: NewTestUnpackedTypesReader_def newCell_def)

lemma TestUnpackedTypes_converted: "good_stmts mbuf p (TestUnpackedTypes_stmts) (TestUnpackedTypes_ready p s) (TestUnpackedTypes_stored s)"
  unfolding TestUnpackedTypes_stmts_def TestUnpackedTypes_ready_def TestUnpackedTypes_stored_def TestUnpackedTypes_getters append.simps
  by (intro good_stmts_field good_stmts.Nil) (simp_all cong: cell_reads_cong)

interpretation l_TestUnpackedTypes: lazy_message TestUnpackedTypes_tags TestUnpackedTypes_groups TestUnpackedTypes_norm
  "\<lambda>s. TestUnpackedTypes_sizes1 s @ TestUnpackedTypes_sizes2 s" "\<lambda>s. TestUnpackedTypes_appends1 s @ TestUnpackedTypes_appends2 s"
  TestUnpackedTypesReader_save "\<lambda>p. NewTestUnpackedTypesReader\<lparr>mbuf := Some p\<rparr>" mbuf "TestUnpackedTypes_stmts" TestUnpackedTypes_zero TestUnpackedTypes_ready TestUnpackedTypes_stored
proof
  show "distinct TestUnpackedTypes_tags"
    using TestUnpackedTypes_cases_distinct by (simp only: TestUnpackedTypesReader_cases_def TestUnpackedTypes_tags_def list.map fst_conv)
  show "list_all valid_tag TestUnpackedTypes_tags"
    by (simp add: TestUnpackedTypes_tags_def wireTestUnpackedTypes valid_tag_def)
  show "list_all2 (\<lambda>t g. \<forall>f \<in> set g. fst f = t \<and> wf_val (snd f)) TestUnpackedTypes_tags (TestUnpackedTypes_groups s)" for s
    unfolding TestUnpackedTypes_tags_def TestUnpackedTypes_groups_def by (intro list.rel_intros field_tagged)
  show "list_all2 (\<lambda>e g. e = int (length (fields_bytes g))) (TestUnpackedTypes_sizes1 s @ TestUnpackedTypes_sizes2 s) (TestUnpackedTypes_groups s)" for s
    unfolding TestUnpackedTypes_sizes1_def TestUnpackedTypes_sizes2_def TestUnpackedTypes_groups_def append.simps
    by (intro list.rel_intros field_sized)
  show "list_all2 (\<lambda>st g. writes st (fields_bytes g)) (TestUnpackedTypes_appends1 s @ TestUnpackedTypes_appends2 s) (TestUnpackedTypes_groups s)" for s
    unfolding TestUnpackedTypes_appends1_def TestUnpackedTypes_appends2_def TestUnpackedTypes_groups_def append.simps
    by (intro list.rel_intros field_written)
  show "mbuf (TestUnpackedTypesReader_save t w off m) = mbuf m" for t w off m
    unfolding TestUnpackedTypesReader_save_def by (rule tag_switch_keeps) (simp add: TestUnpackedTypesReader_cases_def)
  show "fold (\<lambda>e. e) (TestUnpackedTypes_stored s) TestUnpackedTypes_zero = TestUnpackedTypes_norm s" for s
    unfolding TestUnpackedTypes_stored_def by (simp add: TestUnpackedTypes_zero_def TestUnpackedTypes_norm_def float_defaults)
qed (simp_all add: TestUnpackedTypes_saved TestUnpackedTypes_converted)

interpretation m_TestUnpackedTypes: message_codec TestUnpackedTypes_content TestUnpackedTypes_norm TestUnpackedTypes_XXX_PbContentSize TestUnpackedTypes_MarshalTo
  "TestUnpackedTypesReader_Unmarshal NewTestUnpackedTypesReader" TestUnpackedTypesReader_ToStruct
  using l_TestUnpackedTypes.message
  by (simp only: TestUnpackedTypes_content_def [abs_def] TestUnpackedTypes_XXX_PbContentSize_def TestUnpackedTypes_MarshalTo_def TestUnpackedTypesReader_Unmarshal_def [abs_def] TestUnpackedTypesReader_ToStruct_def)


section \<open>TestPackedExtensions: the reader\<close>

definition wireTestPackedExtensions_PackedInt32Extension :: ProtoWireNumber where "wireTestPackedExtensions_PackedInt32Extension = 90"
definition wireTestPackedExtensions_PackedInt64Extension :: ProtoWireNumber where "wireTestPackedExtensions_PackedInt64Extension = 91"
definition wireTestPackedExtensions_PackedUint32Extension :: ProtoWireNumber where "wireTestPackedExtensions_PackedUint32Extension = 92"
definition wireTestPackedExtensions_PackedUint64Extension :: ProtoWireNumber where "wireTestPackedExtensions_PackedUint64Extension = 93"
definition wireTestPackedExtensions_PackedSint32Extension :: ProtoWireNumber where "wireTestPackedExtensions_PackedSint32Extension = 94"
definition wireTestPackedExtensions_PackedSint64Extension :: ProtoWireNumber where "wireTestPackedExtensions_PackedSint64Extension = 95"
definition wireTestPackedExtensions_PackedFixed32Extension :: ProtoWireNumber where "wireTestPackedExtensions_PackedFixed32Extension = 96"
definition wireTestPackedExtensions_PackedFixed64Extension :: ProtoWireNumber where "wireTestPackedExtensions_PackedFixed64Extension = 97"
definition wireTestPackedExtensions_PackedSfixed32Extension :: ProtoWireNumber where "wireTestPackedExtensions_PackedSfixed32Extension = 98"
definition wireTestPackedExtensions_PackedSfixed64Extension :: ProtoWireNumber where "wireTestPackedExtensions_PackedSfixed64Extension = 99"
definition wireTestPackedExtensions_PackedFloatExtension :: ProtoWireNumber where "wireTestPackedExtensions_PackedFloatExtension = 100"
definition wireTestPackedExtensions_PackedDoubleExtension :: ProtoWireNumber where "wireTestPackedExtensions_PackedDoubleExtension = 101"
definition wireTestPackedExtensions_PackedBoolExtension :: ProtoWireNumber where "wireTestPackedExtensions_PackedBoolExtension = 102"
definition wireTestPackedExtensions_PackedEnumExtension :: ProtoWireNumber where "wireTestPackedExtensions_PackedEnumExtension = 103"

lemmas wireTestPackedExtensions =
  wireTestPackedExtensions_PackedInt32Extension_def
  wireTestPackedExtensions_PackedInt64Extension_def
  wireTestPackedExtensions_PackedUint32Extension_def
  wireTestPackedExtensions_PackedUint64Extension_def
  wireTestPackedExtensions_PackedSint32Extension_def
  wireTestPackedExtensions_PackedSint64Extension_def
  wireTestPackedExtensions_PackedFixed32Extension_def
  wireTestPackedExtensions_PackedFixed64Extension_def
  wireTestPackedExtensions_PackedSfixed32Extension_def
  wireTestPackedExtensions_PackedSfixed64Extension_def
  wireTestPackedExtensions_PackedFloatExtension_def
  wireTestPackedExtensions_PackedDoubleExtension_def
  wireTestPackedExtensions_PackedBoolExtension_def
  wireTestPackedExtensions_PackedEnumExtension_def

record TestPackedExtensionsReader =
  mbuf :: "Reader option"
  cellPackedInt32Extension :: "int32 packed_cell"
  cellPackedInt64Extension :: "int64 packed_cell"
  cellPackedUint32Extension :: "uint32 packed_cell"
  cellPackedUint64Extension :: "uint64 packed_cell"
  cellPackedSint32Extension :: "int32 packed_cell"
  cellPackedSint64Extension :: "int64 packed_cell"
  cellPackedFixed32Extension :: "uint32 packed_cell"
  cellPackedFixed64Extension :: "uint64 packed_cell"
  cellPackedSfixed32Extension :: "int32 packed_cell"
  cellPackedSfixed64Extension :: "int64 packed_cell"
  cellPackedFloatExtension :: "float32 packed_cell"
  cellPackedDoubleExtension :: "float64 packed_cell"
  cellPackedBoolExtension :: "bool packed_cell"
  cellPackedEnumExtension :: "ForeignEnum packed_cell"

definition NewTestPackedExtensionsReader :: TestPackedExtensionsReader where
  "NewTestPackedExtensionsReader = \<lparr>
     mbuf = None, cellPackedInt32Extension = newCell [] ([], []),
     cellPackedInt64Extension = newCell [] ([], []),
     cellPackedUint32Extension = newCell [] ([], []),
     cellPackedUint64Extension = newCell [] ([], []),
     cellPackedSint32Extension = newCell [] ([], []),
     cellPackedSint64Extension = newCell [] ([], []),
     cellPackedFixed32Extension = newCell [] ([], []),
     cellPackedFixed64Extension = newCell [] ([], []),
     cellPackedSfixed32Extension = newCell [] ([], []),
     cellPackedSfixed64Extension = newCell [] ([], []),
     cellPackedFloatExtension = newCell [] ([], []),
     cellPackedDoubleExtension = newCell [] ([], []),
     cellPackedBoolExtension = newCell [] ([], []),
     cellPackedEnumExtension = newCell [] ([], [])\<rparr>"

definition TestPackedExtensionsReader_readPackedInt32Extension :: "TestPackedExtensionsReader \<Rightarrow> (int32 list \<times> TestPackedExtensionsReader) run" where
  "TestPackedExtensionsReader_readPackedInt32Extension = readCell cellPackedInt32Extension cellPackedInt32Extension_update mbuf (readPacked ReadInt32 SizedReadInt32 0)"

definition TestPackedExtensionsReader_GetPackedInt32Extension :: "TestPackedExtensionsReader option \<Rightarrow> (int32 list \<times> TestPackedExtensionsReader option) run" where
  "TestPackedExtensionsReader_GetPackedInt32Extension = getter TestPackedExtensionsReader_readPackedInt32Extension []"

definition TestPackedExtensionsReader_readPackedInt64Extension :: "TestPackedExtensionsReader \<Rightarrow> (int64 list \<times> TestPackedExtensionsReader) run" where
  "TestPackedExtensionsReader_readPackedInt64Extension = readCell cellPackedInt64Extension cellPackedInt64Extension_update mbuf (readPacked ReadInt64 SizedReadInt64 0)"

definition TestPackedExtensionsReader_GetPackedInt64Extension :: "TestPackedExtensionsReader option \<Rightarrow> (int64 list \<times> TestPackedExtensionsReader option) run" where
  "TestPackedExtensionsReader_GetPackedInt64Extension = getter TestPackedExtensionsReader_readPackedInt64Extension []"

definition TestPackedExtensionsReader_readPackedUint32Extension :: "TestPackedExtensionsReader \<Rightarrow> (uint32 list \<times> TestPackedExtensionsReader) run" where
  "TestPackedExtensionsReader_readPackedUint32Extension = readCell cellPackedUint32Extension cellPackedUint32Extension_update mbuf (readPacked ReadUint32 SizedReadUint32 0)"

definition TestPackedExtensionsReader_GetPackedUint32Extension :: "TestPackedExtensionsReader option \<Rightarrow> (uint32 list \<times> TestPackedExtensionsReader option) run" where
  "TestPackedExtensionsReader_GetPackedUint32Extension = getter TestPackedExtensionsReader_readPackedUint32Extension []"

definition TestPackedExtensionsReader_readPackedUint64Extension :: "TestPackedExtensionsReader \<Rightarrow> (uint64 list \<times> TestPackedExtensionsReader) run" where
  "TestPackedExtensionsReader_readPackedUint64Extension = readCell cellPackedUint64Extension cellPackedUint64Extension_update mbuf (readPacked ReadUint64 SizedReadUint64 0)"

definition TestPackedExtensionsReader_GetPackedUint64Extension :: "TestPackedExtensionsReader option \<Rightarrow> (uint64 list \<times> TestPackedExtensionsReader option) run" where
  "TestPackedExtensionsReader_GetPackedUint64Extension = getter TestPackedExtensionsReader_readPackedUint64Extension []"

definition TestPackedExtensionsReader_readPackedSint32Extension :: "TestPackedExtensionsReader \<Rightarrow> (int32 list \<times> TestPackedExtensionsReader) run" where
  "TestPackedExtensionsReader_readPackedSint32Extension = readCell cellPackedSint32Extension cellPackedSint32Extension_update mbuf (readPacked ReadSInt32 SizedReadSInt32 0)"

definition TestPackedExtensionsReader_GetPackedSint32Extension :: "TestPackedExtensionsReader option \<Rightarrow> (int32 list \<times> TestPackedExtensionsReader option) run" where
  "TestPackedExtensionsReader_GetPackedSint32Extension = getter TestPackedExtensionsReader_readPackedSint32Extension []"

definition TestPackedExtensionsReader_readPackedSint64Extension :: "TestPackedExtensionsReader \<Rightarrow> (int64 list \<times> TestPackedExtensionsReader) run" where
  "TestPackedExtensionsReader_readPackedSint64Extension = readCell cellPackedSint64Extension cellPackedSint64Extension_update mbuf (readPacked ReadSInt64 SizedReadSInt64 0)"

definition TestPackedExtensionsReader_GetPackedSint64Extension :: "TestPackedExtensionsReader option \<Rightarrow> (int64 list \<times> TestPackedExtensionsReader option) run" where
  "TestPackedExtensionsReader_GetPackedSint64Extension = getter TestPackedExtensionsReader_readPackedSint64Extension []"

definition TestPackedExtensionsReader_readPackedFixed32Extension :: "TestPackedExtensionsReader \<Rightarrow> (uint32 list \<times> TestPackedExtensionsReader) run" where
  "TestPackedExtensionsReader_readPackedFixed32Extension = readCell cellPackedFixed32Extension cellPackedFixed32Extension_update mbuf (readPacked ReadFixed32 SizedReadFixed32 0)"

definition TestPackedExtensionsReader_GetPackedFixed32Extension :: "TestPackedExtensionsReader option \<Rightarrow> (uint32 list \<times> TestPackedExtensionsReader option) run" where
  "TestPackedExtensionsReader_GetPackedFixed32Extension = getter TestPackedExtensionsReader_readPackedFixed32Extension []"

definition TestPackedExtensionsReader_readPackedFixed64Extension :: "TestPackedExtensionsReader \<Rightarrow> (uint64 list \<times> TestPackedExtensionsReader) run" where
  "TestPackedExtensionsReader_readPackedFixed64Extension = readCell cellPackedFixed64Extension cellPackedFixed64Extension_update mbuf (readPacked ReadFixed64 SizedReadFixed64 0)"

definition TestPackedExtensionsReader_GetPackedFixed64Extension :: "TestPackedExtensionsReader option \<Rightarrow> (uint64 list \<times> TestPackedExtensionsReader option) run" where
  "TestPackedExtensionsReader_GetPackedFixed64Extension = getter TestPackedExtensionsReader_readPackedFixed64Extension []"

definition TestPackedExtensionsReader_readPackedSfixed32Extension :: "TestPackedExtensionsReader \<Rightarrow> (int32 list \<times> TestPackedExtensionsReader) run" where
  "TestPackedExtensionsReader_readPackedSfixed32Extension = readCell cellPackedSfixed32Extension cellPackedSfixed32Extension_update mbuf (readPacked ReadSFixed32 SizedReadSFixed32 0)"

definition TestPackedExtensionsReader_GetPackedSfixed32Extension :: "TestPackedExtensionsReader option \<Rightarrow> (int32 list \<times> TestPackedExtensionsReader option) run" where
  "TestPackedExtensionsReader_GetPackedSfixed32Extension = getter TestPackedExtensionsReader_readPackedSfixed32Extension []"

definition TestPackedExtensionsReader_readPackedSfixed64Extension :: "TestPackedExtensionsReader \<Rightarrow> (int64 list \<times> TestPackedExtensionsReader) run" where
  "TestPackedExtensionsReader_readPackedSfixed64Extension = readCell cellPackedSfixed64Extension cellPackedSfixed64Extension_update mbuf (readPacked ReadSFixed64 SizedReadSFixed64 0)"

definition TestPackedExtensionsReader_GetPackedSfixed64Extension :: "TestPackedExtensionsReader option \<Rightarrow> (int64 list \<times> TestPackedExtensionsReader option) run" where
  "TestPackedExtensionsReader_GetPackedSfixed64Extension = getter TestPackedExtensionsReader_readPackedSfixed64Extension []"

definition TestPackedExtensionsReader_readPackedFloatExtension :: "TestPackedExtensionsReader \<Rightarrow> (float32 list \<times> TestPackedExtensionsReader) run" where
  "TestPackedExtensionsReader_readPackedFloatExtension = readCell cellPackedFloatExtension cellPackedFloatExtension_update mbuf (readPacked ReadFloat32 SizedReadFloat32 0)"

definition TestPackedExtensionsReader_GetPackedFloatExtension :: "TestPackedExtensionsReader option \<Rightarrow> (float32 list \<times> TestPackedExtensionsReader option) run" where
  "TestPackedExtensionsReader_GetPackedFloatExtension = getter TestPackedExtensionsReader_readPackedFloatExtension []"

definition TestPackedExtensionsReader_readPackedDoubleExtension :: "TestPackedExtensionsReader \<Rightarrow> (float64 list \<times> TestPackedExtensionsReader) run" where
  "TestPackedExtensionsReader_readPackedDoubleExtension = readCell cellPackedDoubleExtension cellPackedDoubleExtension_update mbuf (readPacked ReadFloat64 SizedReadFloat64 0)"

definition TestPackedExtensionsReader_GetPackedDoubleExtension :: "TestPackedExtensionsReader option \<Rightarrow> (float64 list \<times> TestPackedExtensionsReader option) run" where
  "TestPackedExtensionsReader_GetPackedDoubleExtension = getter TestPackedExtensionsReader_readPackedDoubleExtension []"

definition TestPackedExtensionsReader_readPackedBoolExtension :: "TestPackedExtensionsReader \<Rightarrow> (bool list \<times> TestPackedExtensionsReader) run" where
  "TestPackedExtensionsReader_readPackedBoolExtension = readCell cellPackedBoolExtension cellPackedBoolExtension_update mbuf (readPacked ReadBool SizedReadBool False)"

definition TestPackedExtensionsReader_GetPackedBoolExtension :: "TestPackedExtensionsReader option \<Rightarrow> (bool list \<times> TestPackedExtensionsReader option) run" where
  "TestPackedExtensionsReader_GetPackedBoolExtension = getter TestPackedExtensionsReader_readPackedBoolExtension []"

definition TestPackedExtensionsReader_readPackedEnumExtension :: "TestPackedExtensionsReader \<Rightarrow> (ForeignEnum list \<times> TestPackedExtensionsReader) run" where
  "TestPackedExtensionsReader_readPackedEnumExtension = readCell cellPackedEnumExtension cellPackedEnumExtension_update mbuf (readPacked ReadInt32 SizedReadInt32 0)"

definition TestPackedExtensionsReader_GetPackedEnumExtension :: "TestPackedExtensionsReader option \<Rightarrow> (ForeignEnum list \<times> TestPackedExtensionsReader option) run" where
  "TestPackedExtensionsReader_GetPackedEnumExtension = getter TestPackedExtensionsReader_readPackedEnumExtension []"

lemmas TestPackedExtensions_getters =
  TestPackedExtensionsReader_readPackedInt32Extension_def TestPackedExtensionsReader_GetPackedInt32Extension_def
  TestPackedExtensionsReader_readPackedInt64Extension_def TestPackedExtensionsReader_GetPackedInt64Extension_def
  TestPackedExtensionsReader_readPackedUint32Extension_def TestPackedExtensionsReader_GetPackedUint32Extension_def
  TestPackedExtensionsReader_readPackedUint64Extension_def TestPackedExtensionsReader_GetPackedUint64Extension_def
  TestPackedExtensionsReader_readPackedSint32Extension_def TestPackedExtensionsReader_GetPackedSint32Extension_def
  TestPackedExtensionsReader_readPackedSint64Extension_def TestPackedExtensionsReader_GetPackedSint64Extension_def
  TestPackedExtensionsReader_readPackedFixed32Extension_def TestPackedExtensionsReader_GetPackedFixed32Extension_def
  TestPackedExtensionsReader_readPackedFixed64Extension_def TestPackedExtensionsReader_GetPackedFixed64Extension_def
  TestPackedExtensionsReader_readPackedSfixed32Extension_def TestPackedExtensionsReader_GetPackedSfixed32Extension_def
  TestPackedExtensionsReader_readPackedSfixed64Extension_def TestPackedExtensionsReader_GetPackedSfixed64Extension_def
  TestPackedExtensionsReader_readPackedFloatExtension_def TestPackedExtensionsReader_GetPackedFloatExtension_def
  TestPackedExtensionsReader_readPackedDoubleExtension_def TestPackedExtensionsReader_GetPackedDoubleExtension_def
  TestPackedExtensionsReader_readPackedBoolExtension_def TestPackedExtensionsReader_GetPackedBoolExtension_def
  TestPackedExtensionsReader_readPackedEnumExtension_def TestPackedExtensionsReader_GetPackedEnumExtension_def

definition TestPackedExtensionsReader_cases :: "ProtoWireType \<Rightarrow> int \<Rightarrow> (ProtoWireNumber \<times> (TestPackedExtensionsReader \<Rightarrow> TestPackedExtensionsReader)) list" where
  "TestPackedExtensionsReader_cases wire offset = [
     (wireTestPackedExtensions_PackedInt32Extension, \<lambda>m. m\<lparr>cellPackedInt32Extension := onOffset (addTyped wire offset) (cellPackedInt32Extension m)\<rparr>),
     (wireTestPackedExtensions_PackedInt64Extension, \<lambda>m. m\<lparr>cellPackedInt64Extension := onOffset (addTyped wire offset) (cellPackedInt64Extension m)\<rparr>),
     (wireTestPackedExtensions_PackedUint32Extension, \<lambda>m. m\<lparr>cellPackedUint32Extension := onOffset (addTyped wire offset) (cellPackedUint32Extension m)\<rparr>),
     (wireTestPackedExtensions_PackedUint64Extension, \<lambda>m. m\<lparr>cellPackedUint64Extension := onOffset (addTyped wire offset) (cellPackedUint64Extension m)\<rparr>),
     (wireTestPackedExtensions_PackedSint32Extension, \<lambda>m. m\<lparr>cellPackedSint32Extension := onOffset (addTyped wire offset) (cellPackedSint32Extension m)\<rparr>),
     (wireTestPackedExtensions_PackedSint64Extension, \<lambda>m. m\<lparr>cellPackedSint64Extension := onOffset (addTyped wire offset) (cellPackedSint64Extension m)\<rparr>),
     (wireTestPackedExtensions_PackedFixed32Extension, \<lambda>m. m\<lparr>cellPackedFixed32Extension := onOffset (addTyped wire offset) (cellPackedFixed32Extension m)\<rparr>),
     (wireTestPackedExtensions_PackedFixed64Extension, \<lambda>m. m\<lparr>cellPackedFixed64Extension := onOffset (addTyped wire offset) (cellPackedFixed64Extension m)\<rparr>),
     (wireTestPackedExtensions_PackedSfixed32Extension, \<lambda>m. m\<lparr>cellPackedSfixed32Extension := onOffset (addTyped wire offset) (cellPackedSfixed32Extension m)\<rparr>),
     (wireTestPackedExtensions_PackedSfixed64Extension, \<lambda>m. m\<lparr>cellPackedSfixed64Extension := onOffset (addTyped wire offset) (cellPackedSfixed64Extension m)\<rparr>),
     (wireTestPackedExtensions_PackedFloatExtension, \<lambda>m. m\<lparr>cellPackedFloatExtension := onOffset (addTyped wire offset) (cellPackedFloatExtension m)\<rparr>),
     (wireTestPackedExtensions_PackedDoubleExtension, \<lambda>m. m\<lparr>cellPackedDoubleExtension := onOffset (addTyped wire offset) (cellPackedDoubleExtension m)\<rparr>),
     (wireTestPackedExtensions_PackedBoolExtension, \<lambda>m. m\<lparr>cellPackedBoolExtension := onOffset (addTyped wire offset) (cellPackedBoolExtension m)\<rparr>),
     (wireTestPackedExtensions_PackedEnumExtension, \<lambda>m. m\<lparr>cellPackedEnumExtension := onOffset (addTyped wire offset) (cellPackedEnumExtension m)\<rparr>)]"

definition TestPackedExtensionsReader_save :: "ProtoWireNumber \<Rightarrow> ProtoWireType \<Rightarrow> int \<Rightarrow> TestPackedExtensionsReader \<Rightarrow> TestPackedExtensionsReader" where
  "TestPackedExtensionsReader_save tag wire offset = tag_switch (TestPackedExtensionsReader_cases wire offset) tag"

definition TestPackedExtensionsReader_Unmarshal :: "TestPackedExtensionsReader \<Rightarrow> gslice \<Rightarrow> (TestPackedExtensionsReader \<times> string option) run" where
  "TestPackedExtensionsReader_Unmarshal m data =
     unmarshalLoop TestPackedExtensionsReader_save (NewReader data) 0 (m\<lparr>mbuf := Some (NewReader data)\<rparr>)"

definition TestPackedExtensionsReader_SourceBytes :: "TestPackedExtensionsReader option \<Rightarrow> gslice" where
  "TestPackedExtensionsReader_SourceBytes s = (case s of None \<Rightarrow> nil_slice | Some r \<Rightarrow> Bytes (mbuf r))"

section \<open>TestPackedExtensions: the struct\<close>

record TestPackedExtensions =
  PackedInt32Extension :: "int32 list"
  PackedInt64Extension :: "int64 list"
  PackedUint32Extension :: "uint32 list"
  PackedUint64Extension :: "uint64 list"
  PackedSint32Extension :: "int32 list"
  PackedSint64Extension :: "int64 list"
  PackedFixed32Extension :: "uint32 list"
  PackedFixed64Extension :: "uint64 list"
  PackedSfixed32Extension :: "int32 list"
  PackedSfixed64Extension :: "int64 list"
  PackedFloatExtension :: "float32 list"
  PackedDoubleExtension :: "float64 list"
  PackedBoolExtension :: "bool list"
  PackedEnumExtension :: "ForeignEnum list"

definition TestPackedExtensions_zero :: TestPackedExtensions where
  "TestPackedExtensions_zero = \<lparr>
     PackedInt32Extension = [], PackedInt64Extension = [], PackedUint32Extension = [],
     PackedUint64Extension = [], PackedSint32Extension = [], PackedSint64Extension = [],
     PackedFixed32Extension = [], PackedFixed64Extension = [], PackedSfixed32Extension = [],
     PackedSfixed64Extension = [], PackedFloatExtension = [], PackedDoubleExtension = [],
     PackedBoolExtension = [], PackedEnumExtension = []\<rparr>"

definition TestPackedExtensions_stmts :: "(TestPackedExtensions \<times> TestPackedExtensionsReader option \<Rightarrow> (TestPackedExtensions \<times> TestPackedExtensionsReader option) run) list" where
  "TestPackedExtensions_stmts = [
     assign TestPackedExtensionsReader_GetPackedInt32Extension (\<lambda>v res. res\<lparr>PackedInt32Extension := v\<rparr>),
     assign TestPackedExtensionsReader_GetPackedInt64Extension (\<lambda>v res. res\<lparr>PackedInt64Extension := v\<rparr>),
     assign TestPackedExtensionsReader_GetPackedUint32Extension (\<lambda>v res. res\<lparr>PackedUint32Extension := v\<rparr>),
     assign TestPackedExtensionsReader_GetPackedUint64Extension (\<lambda>v res. res\<lparr>PackedUint64Extension := v\<rparr>),
     assign TestPackedExtensionsReader_GetPackedSint32Extension (\<lambda>v res. res\<lparr>PackedSint32Extension := v\<rparr>),
     assign TestPackedExtensionsReader_GetPackedSint64Extension (\<lambda>v res. res\<lparr>PackedSint64Extension := v\<rparr>),
     assign TestPackedExtensionsReader_GetPackedFixed32Extension (\<lambda>v res. res\<lparr>PackedFixed32Extension := v\<rparr>),
     assign TestPackedExtensionsReader_GetPackedFixed64Extension (\<lambda>v res. res\<lparr>PackedFixed64Extension := v\<rparr>),
     assign TestPackedExtensionsReader_GetPackedSfixed32Extension (\<lambda>v res. res\<lparr>PackedSfixed32Extension := v\<rparr>),
     assign TestPackedExtensionsReader_GetPackedSfixed64Extension (\<lambda>v res. res\<lparr>PackedSfixed64Extension := v\<rparr>),
     assign TestPackedExtensionsReader_GetPackedFloatExtension (\<lambda>v res. res\<lparr>PackedFloatExtension := v\<rparr>),
     assign TestPackedExtensionsReader_GetPackedDoubleExtension (\<lambda>v res. res\<lparr>PackedDoubleExtension := v\<rparr>),
     assign TestPackedExtensionsReader_GetPackedBoolExtension (\<lambda>v res. res\<lparr>PackedBoolExtension := v\<rparr>),
     assign TestPackedExtensionsReader_GetPackedEnumExtension (\<lambda>v res. res\<lparr>PackedEnumExtension := v\<rparr>)]"

definition TestPackedExtensionsReader_ToStruct :: "TestPackedExtensionsReader option \<Rightarrow> (TestPackedExtensions option \<times> TestPackedExtensionsReader option) run" where
  "TestPackedExtensionsReader_ToStruct = toStructWith (TestPackedExtensions_stmts) TestPackedExtensions_zero"

definition TestPackedExtensions_appends1 :: "TestPackedExtensions \<Rightarrow> (Writer \<Rightarrow> Writer go) list" where
  "TestPackedExtensions_appends1 s = [
     \<lambda>res. if PackedInt32Extension s \<noteq> [] then packedWriter AppendInt32WithoutTag AppendInt32 SizeInt32 res wireTestPackedExtensions_PackedInt32Extension (PackedInt32Extension s) else Ret res,
     \<lambda>res. if PackedInt64Extension s \<noteq> [] then packedWriter AppendInt64WithoutTag AppendInt64 SizeInt64 res wireTestPackedExtensions_PackedInt64Extension (PackedInt64Extension s) else Ret res,
     \<lambda>res. if PackedUint32Extension s \<noteq> [] then packedWriter AppendUint32WithoutTag AppendUint32 SizeUint32 res wireTestPackedExtensions_PackedUint32Extension (PackedUint32Extension s) else Ret res,
     \<lambda>res. if PackedUint64Extension s \<noteq> [] then packedWriter AppendUint64WithoutTag AppendUint64 SizeUint64 res wireTestPackedExtensions_PackedUint64Extension (PackedUint64Extension s) else Ret res,
     \<lambda>res. if PackedSint32Extension s \<noteq> [] then packedWriter AppendSInt32WithoutTag AppendSInt32 SizeSInt32 res wireTestPackedExtensions_PackedSint32Extension (PackedSint32Extension s) else Ret res,
     \<lambda>res. if PackedSint64Extension s \<noteq> [] then packedWriter AppendSInt64WithoutTag AppendSInt64 SizeSInt64 res wireTestPackedExtensions_PackedSint64Extension (PackedSint64Extension s) else Ret res,
     \<lambda>res. if PackedFixed32Extension s \<noteq> [] then packedWriter AppendFixed32WithoutTag AppendFixed32 SizeFixed32 res wireTestPackedExtensions_PackedFixed32Extension (PackedFixed32Extension s) else Ret res,
     \<lambda>res. if PackedFixed64Extension s \<noteq> [] then packedWriter AppendFixed64WithoutTag AppendFixed64 SizeFixed64 res wireTestPackedExtensions_PackedFixed64Extension (PackedFixed64Extension s) else Ret res,
     \<lambda>res. if PackedSfixed32Extension s \<noteq> [] then packedWriter AppendSFixed32WithoutTag AppendSFixed32 SizeSFixed32 res wireTestPackedExtensions_PackedSfixed32Extension (PackedSfixed32Extension s) else Ret res]"

definition TestPackedExtensions_appends2 :: "TestPackedExtensions \<Rightarrow> (Writer \<Rightarrow> Writer go) list" where
  "TestPackedExtensions_appends2 s = [
     \<lambda>res. if PackedSfixed64Extension s \<noteq> [] then packedWriter AppendSFixed64WithoutTag AppendSFixed64 SizeSFixed64 res wireTestPackedExtensions_PackedSfixed64Extension (PackedSfixed64Extension s) else Ret res,
     \<lambda>res. if PackedFloatExtension s \<noteq> [] then packedWriter AppendFloat32WithoutTag AppendFloat32 SizeFloat32 res wireTestPackedExtensions_PackedFloatExtension (PackedFloatExtension s) else Ret res,
     \<lambda>res. if PackedDoubleExtension s \<noteq> [] then packedWriter AppendFloat64WithoutTag AppendFloat64 SizeFloat64 res wireTestPackedExtensions_PackedDoubleExtension (PackedDoubleExtension s) else Ret res,
     \<lambda>res. if PackedBoolExtension s \<noteq> [] then packedWriter AppendBoolWithoutTag AppendBool SizeBool res wireTestPackedExtensions_PackedBoolExtension (PackedBoolExtension s) else Ret res,
     \<lambda>res. if PackedEnumExtension s \<noteq> [] then packedWriter AppendInt32WithoutTag AppendInt32 SizeInt32 res wireTestPackedExtensions_PackedEnumExtension (PackedEnumExtension s) else Ret res]"

definition TestPackedExtensions_MarshalTo :: "Writer \<Rightarrow> TestPackedExtensions option \<Rightarrow> Writer go" where
  "TestPackedExtensions_MarshalTo = marshalToWith (\<lambda>s. TestPackedExtensions_appends1 s @ TestPackedExtensions_appends2 s)"

definition TestPackedExtensions_sizes1 :: "TestPackedExtensions \<Rightarrow> int list" where
  "TestPackedExtensions_sizes1 s = [
     if PackedInt32Extension s \<noteq> [] then packedSize SizeInt32 wireTestPackedExtensions_PackedInt32Extension (PackedInt32Extension s) else 0,
     if PackedInt64Extension s \<noteq> [] then packedSize SizeInt64 wireTestPackedExtensions_PackedInt64Extension (PackedInt64Extension s) else 0,
     if PackedUint32Extension s \<noteq> [] then packedSize SizeUint32 wireTestPackedExtensions_PackedUint32Extension (PackedUint32Extension s) else 0,
     if PackedUint64Extension s \<noteq> [] then packedSize SizeUint64 wireTestPackedExtensions_PackedUint64Extension (PackedUint64Extension s) else 0,
     if PackedSint32Extension s \<noteq> [] then packedSize SizeSInt32 wireTestPackedExtensions_PackedSint32Extension (PackedSint32Extension s) else 0,
     if PackedSint64Extension s \<noteq> [] then packedSize SizeSInt64 wireTestPackedExtensions_PackedSint64Extension (PackedSint64Extension s) else 0,
     if PackedFixed32Extension s \<noteq> [] then packedSize SizeFixed32 wireTestPackedExtensions_PackedFixed32Extension (PackedFixed32Extension s) else 0]"

definition TestPackedExtensions_sizes2 :: "TestPackedExtensions \<Rightarrow> int list" where
  "TestPackedExtensions_sizes2 s = [
     if PackedFixed64Extension s \<noteq> [] then packedSize SizeFixed64 wireTestPackedExtensions_PackedFixed64Extension (PackedFixed64Extension s) else 0,
     if PackedSfixed32Extension s \<noteq> [] then packedSize SizeSFixed32 wireTestPackedExtensions_PackedSfixed32Extension (PackedSfixed32Extension s) else 0,
     if PackedSfixed64Extension s \<noteq> [] then packedSize SizeSFixed64 wireTestPackedExtensions_PackedSfixed64Extension (PackedSfixed64Extension s) else 0,
     if PackedFloatExtension s \<noteq> [] then packedSize SizeFloat32 wireTestPackedExtensions_PackedFloatExtension (PackedFloatExtension s) else 0,
     if PackedDoubleExtension s \<noteq> [] then packedSize SizeFloat64 wireTestPackedExtensions_PackedDoubleExtension (PackedDoubleExtension s) else 0,
     if PackedBoolExtension s \<noteq> [] then packedSize SizeBool wireTestPackedExtensions_PackedBoolExtension (PackedBoolExtension s) else 0,
     if PackedEnumExtension s \<noteq> [] then packedSize SizeInt32 wireTestPackedExtensions_PackedEnumExtension (PackedEnumExtension s) else 0]"

definition TestPackedExtensions_XXX_PbContentSize :: "TestPackedExtensions option \<Rightarrow> int" where
  "TestPackedExtensions_XXX_PbContentSize = contentSizeWith (\<lambda>s. TestPackedExtensions_sizes1 s @ TestPackedExtensions_sizes2 s)"

definition TestPackedExtensions_Marshal :: "TestPackedExtensions option \<Rightarrow> byte list go" where
  "TestPackedExtensions_Marshal = marshalWith TestPackedExtensions_XXX_PbContentSize TestPackedExtensions_MarshalTo"

definition TestPackedExtensions_Copy :: "TestPackedExtensions option \<Rightarrow> TestPackedExtensions option" where
  "TestPackedExtensions_Copy s =
     (case s of None \<Rightarrow> None | Some s \<Rightarrow> Some \<lparr>
        PackedInt32Extension = PackedInt32Extension s,
        PackedInt64Extension = PackedInt64Extension s,
        PackedUint32Extension = PackedUint32Extension s,
        PackedUint64Extension = PackedUint64Extension s,
        PackedSint32Extension = PackedSint32Extension s,
        PackedSint64Extension = PackedSint64Extension s,
        PackedFixed32Extension = PackedFixed32Extension s,
        PackedFixed64Extension = PackedFixed64Extension s,
        PackedSfixed32Extension = PackedSfixed32Extension s,
        PackedSfixed64Extension = PackedSfixed64Extension s,
        PackedFloatExtension = PackedFloatExtension s,
        PackedDoubleExtension = PackedDoubleExtension s,
        PackedBoolExtension = PackedBoolExtension s, PackedEnumExtension = PackedEnumExtension s\<rparr>)"

section \<open>TestPackedExtensions: the round trip\<close>

definition TestPackedExtensions_tags :: "ProtoWireNumber list" where
  "TestPackedExtensions_tags = [
     wireTestPackedExtensions_PackedInt32Extension,
     wireTestPackedExtensions_PackedInt64Extension,
     wireTestPackedExtensions_PackedUint32Extension,
     wireTestPackedExtensions_PackedUint64Extension,
     wireTestPackedExtensions_PackedSint32Extension,
     wireTestPackedExtensions_PackedSint64Extension,
     wireTestPackedExtensions_PackedFixed32Extension,
     wireTestPackedExtensions_PackedFixed64Extension,
     wireTestPackedExtensions_PackedSfixed32Extension,
     wireTestPackedExtensions_PackedSfixed64Extension,
     wireTestPackedExtensions_PackedFloatExtension,
     wireTestPackedExtensions_PackedDoubleExtension,
     wireTestPackedExtensions_PackedBoolExtension, wireTestPackedExtensions_PackedEnumExtension]"

definition TestPackedExtensions_groups :: "TestPackedExtensions \<Rightarrow> wfield list list" where
  "TestPackedExtensions_groups s = [
     packed_fields int32_val wireTestPackedExtensions_PackedInt32Extension (PackedInt32Extension s),
     packed_fields int64_val wireTestPackedExtensions_PackedInt64Extension (PackedInt64Extension s),
     packed_fields uint32_val wireTestPackedExtensions_PackedUint32Extension (PackedUint32Extension s),
     packed_fields uint64_val wireTestPackedExtensions_PackedUint64Extension (PackedUint64Extension s),
     packed_fields sint32_val wireTestPackedExtensions_PackedSint32Extension (PackedSint32Extension s),
     packed_fields sint64_val wireTestPackedExtensions_PackedSint64Extension (PackedSint64Extension s),
     packed_fields WFixed32 wireTestPackedExtensions_PackedFixed32Extension (PackedFixed32Extension s),
     packed_fields WFixed64 wireTestPackedExtensions_PackedFixed64Extension (PackedFixed64Extension s),
     packed_fields WFixed32 wireTestPackedExtensions_PackedSfixed32Extension (PackedSfixed32Extension s),
     packed_fields WFixed64 wireTestPackedExtensions_PackedSfixed64Extension (PackedSfixed64Extension s),
     packed_fields WFixed32 wireTestPackedExtensions_PackedFloatExtension (PackedFloatExtension s),
     packed_fields WFixed64 wireTestPackedExtensions_PackedDoubleExtension (PackedDoubleExtension s),
     packed_fields bool_val wireTestPackedExtensions_PackedBoolExtension (PackedBoolExtension s),
     packed_fields int32_val wireTestPackedExtensions_PackedEnumExtension (PackedEnumExtension s)]"

definition TestPackedExtensions_content :: "TestPackedExtensions \<Rightarrow> wfield list" where
  "TestPackedExtensions_content s = concat (TestPackedExtensions_groups s)"

text \<open>What a round trip keeps.\<close>

definition TestPackedExtensions_norm :: "TestPackedExtensions \<Rightarrow> TestPackedExtensions" where
  "TestPackedExtensions_norm s = s"

definition TestPackedExtensions_ready :: "Reader \<Rightarrow> TestPackedExtensions \<Rightarrow> (TestPackedExtensionsReader \<Rightarrow> bool) list" where
  "TestPackedExtensions_ready p s = [
     \<lambda>m. cell_reads (readPacked ReadInt32 SizedReadInt32 0) plain p (PackedInt32Extension s) (cellPackedInt32Extension m),
     \<lambda>m. cell_reads (readPacked ReadInt64 SizedReadInt64 0) plain p (PackedInt64Extension s) (cellPackedInt64Extension m),
     \<lambda>m. cell_reads (readPacked ReadUint32 SizedReadUint32 0) plain p (PackedUint32Extension s) (cellPackedUint32Extension m),
     \<lambda>m. cell_reads (readPacked ReadUint64 SizedReadUint64 0) plain p (PackedUint64Extension s) (cellPackedUint64Extension m),
     \<lambda>m. cell_reads (readPacked ReadSInt32 SizedReadSInt32 0) plain p (PackedSint32Extension s) (cellPackedSint32Extension m),
     \<lambda>m. cell_reads (readPacked ReadSInt64 SizedReadSInt64 0) plain p (PackedSint64Extension s) (cellPackedSint64Extension m),
     \<lambda>m. cell_reads (readPacked ReadFixed32 SizedReadFixed32 0) plain p (PackedFixed32Extension s) (cellPackedFixed32Extension m),
     \<lambda>m. cell_reads (readPacked ReadFixed64 SizedReadFixed64 0) plain p (PackedFixed64Extension s) (cellPackedFixed64Extension m),
     \<lambda>m. cell_reads (readPacked ReadSFixed32 SizedReadSFixed32 0) plain p (PackedSfixed32Extension s) (cellPackedSfixed32Extension m),
     \<lambda>m. cell_reads (readPacked ReadSFixed64 SizedReadSFixed64 0) plain p (PackedSfixed64Extension s) (cellPackedSfixed64Extension m),
     \<lambda>m. cell_reads (readPacked ReadFloat32 SizedReadFloat32 0) plain p (PackedFloatExtension s) (cellPackedFloatExtension m),
     \<lambda>m. cell_reads (readPacked ReadFloat64 SizedReadFloat64 0) plain p (PackedDoubleExtension s) (cellPackedDoubleExtension m),
     \<lambda>m. cell_reads (readPacked ReadBool SizedReadBool False) plain p (PackedBoolExtension s) (cellPackedBoolExtension m),
     \<lambda>m. cell_reads (readPacked ReadInt32 SizedReadInt32 0) plain p (PackedEnumExtension s) (cellPackedEnumExtension m)]"

definition TestPackedExtensions_stored :: "TestPackedExtensions \<Rightarrow> (TestPackedExtensions \<Rightarrow> TestPackedExtensions) list" where
  "TestPackedExtensions_stored s = [
     \<lambda>res. res\<lparr>PackedInt32Extension := PackedInt32Extension s\<rparr>,
     \<lambda>res. res\<lparr>PackedInt64Extension := PackedInt64Extension s\<rparr>,
     \<lambda>res. res\<lparr>PackedUint32Extension := PackedUint32Extension s\<rparr>,
     \<lambda>res. res\<lparr>PackedUint64Extension := PackedUint64Extension s\<rparr>,
     \<lambda>res. res\<lparr>PackedSint32Extension := PackedSint32Extension s\<rparr>,
     \<lambda>res. res\<lparr>PackedSint64Extension := PackedSint64Extension s\<rparr>,
     \<lambda>res. res\<lparr>PackedFixed32Extension := PackedFixed32Extension s\<rparr>,
     \<lambda>res. res\<lparr>PackedFixed64Extension := PackedFixed64Extension s\<rparr>,
     \<lambda>res. res\<lparr>PackedSfixed32Extension := PackedSfixed32Extension s\<rparr>,
     \<lambda>res. res\<lparr>PackedSfixed64Extension := PackedSfixed64Extension s\<rparr>,
     \<lambda>res. res\<lparr>PackedFloatExtension := PackedFloatExtension s\<rparr>,
     \<lambda>res. res\<lparr>PackedDoubleExtension := PackedDoubleExtension s\<rparr>,
     \<lambda>res. res\<lparr>PackedBoolExtension := PackedBoolExtension s\<rparr>,
     \<lambda>res. res\<lparr>PackedEnumExtension := PackedEnumExtension s\<rparr>]"

lemma TestPackedExtensions_cases_distinct: "distinct (map fst (TestPackedExtensionsReader_cases wire offset))"
  by (rule ascending_distinct) (simp add: TestPackedExtensionsReader_cases_def wireTestPackedExtensions)

lemma TestPackedExtensions_stores:
  "stores_cell TestPackedExtensionsReader_save wireTestPackedExtensions_PackedInt32Extension addTyped cellPackedInt32Extension"
  "stores_cell TestPackedExtensionsReader_save wireTestPackedExtensions_PackedInt64Extension addTyped cellPackedInt64Extension"
  "stores_cell TestPackedExtensionsReader_save wireTestPackedExtensions_PackedUint32Extension addTyped cellPackedUint32Extension"
  "stores_cell TestPackedExtensionsReader_save wireTestPackedExtensions_PackedUint64Extension addTyped cellPackedUint64Extension"
  "stores_cell TestPackedExtensionsReader_save wireTestPackedExtensions_PackedSint32Extension addTyped cellPackedSint32Extension"
  "stores_cell TestPackedExtensionsReader_save wireTestPackedExtensions_PackedSint64Extension addTyped cellPackedSint64Extension"
  "stores_cell TestPackedExtensionsReader_save wireTestPackedExtensions_PackedFixed32Extension addTyped cellPackedFixed32Extension"
  "stores_cell TestPackedExtensionsReader_save wireTestPackedExtensions_PackedFixed64Extension addTyped cellPackedFixed64Extension"
  "stores_cell TestPackedExtensionsReader_save wireTestPackedExtensions_PackedSfixed32Extension addTyped cellPackedSfixed32Extension"
  "stores_cell TestPackedExtensionsReader_save wireTestPackedExtensions_PackedSfixed64Extension addTyped cellPackedSfixed64Extension"
  "stores_cell TestPackedExtensionsReader_save wireTestPackedExtensions_PackedFloatExtension addTyped cellPackedFloatExtension"
  "stores_cell TestPackedExtensionsReader_save wireTestPackedExtensions_PackedDoubleExtension addTyped cellPackedDoubleExtension"
  "stores_cell TestPackedExtensionsReader_save wireTestPackedExtensions_PackedBoolExtension addTyped cellPackedBoolExtension"
  "stores_cell TestPackedExtensionsReader_save wireTestPackedExtensions_PackedEnumExtension addTyped cellPackedEnumExtension"
  unfolding TestPackedExtensionsReader_save_def [abs_def] by (rule stores_cell_switch; (rule TestPackedExtensions_cases_distinct)?; unfold TestPackedExtensionsReader_cases_def; intro own_case.intros; simp)+

lemma TestPackedExtensions_saved: "good_fields TestPackedExtensionsReader_save p (NewTestPackedExtensionsReader\<lparr>mbuf := Some p\<rparr>) TestPackedExtensions_tags (TestPackedExtensions_groups s) (TestPackedExtensions_ready p s)"
  unfolding TestPackedExtensions_tags_def TestPackedExtensions_groups_def TestPackedExtensions_ready_def
  by (intro good_fields.intros field_saved TestPackedExtensions_stores) (simp_all add: NewTestPackedExtensionsReader_def newCell_def)

lemma TestPackedExtensions_converted: "good_stmts mbuf p (TestPackedExtensions_stmts) (TestPackedExtensions_ready p s) (TestPackedExtensions_stored s)"
  unfolding TestPackedExtensions_stmts_def TestPackedExtensions_ready_def TestPackedExtensions_stored_def TestPackedExtensions_getters append.simps
  by (intro good_stmts_field good_stmts.Nil) (simp_all cong: cell_reads_cong)

interpretation l_TestPackedExtensions: lazy_message TestPackedExtensions_tags TestPackedExtensions_groups TestPackedExtensions_norm
  "\<lambda>s. TestPackedExtensions_sizes1 s @ TestPackedExtensions_sizes2 s" "\<lambda>s. TestPackedExtensions_appends1 s @ TestPackedExtensions_appends2 s"
  TestPackedExtensionsReader_save "\<lambda>p. NewTestPackedExtensionsReader\<lparr>mbuf := Some p\<rparr>" mbuf "TestPackedExtensions_stmts" TestPackedExtensions_zero TestPackedExtensions_ready TestPackedExtensions_stored
proof
  show "distinct TestPackedExtensions_tags"
    using TestPackedExtensions_cases_distinct by (simp only: TestPackedExtensionsReader_cases_def TestPackedExtensions_tags_def list.map fst_conv)
  show "list_all valid_tag TestPackedExtensions_tags"
    by (simp add: TestPackedExtensions_tags_def wireTestPackedExtensions valid_tag_def)
  show "list_all2 (\<lambda>t g. \<forall>f \<in> set g. fst f = t \<and> wf_val (snd f)) TestPackedExtensions_tags (TestPackedExtensions_groups s)" for s
    unfolding TestPackedExtensions_tags_def TestPackedExtensions_groups_def by (intro list.rel_intros field_tagged)
  show "list_all2 (\<lambda>e g. e = int (length (fields_bytes g))) (TestPackedExtensions_sizes1 s @ TestPackedExtensions_sizes2 s) (TestPackedExtensions_groups s)" for s
    unfolding TestPackedExtensions_sizes1_def TestPackedExtensions_sizes2_def TestPackedExtensions_groups_def append.simps
    by (intro list.rel_intros field_sized)
  show "list_all2 (\<lambda>st g. writes st (fields_bytes g)) (TestPackedExtensions_appends1 s @ TestPackedExtensions_appends2 s) (TestPackedExtensions_groups s)" for s
    unfolding TestPackedExtensions_appends1_def TestPackedExtensions_appends2_def TestPackedExtensions_groups_def append.simps
    by (intro list.rel_intros field_written)
  show "mbuf (TestPackedExtensionsReader_save t w off m) = mbuf m" for t w off m
    unfolding TestPackedExtensionsReader_save_def by (rule tag_switch_keeps) (simp add: TestPackedExtensionsReader_cases_def)
  show "fold (\<lambda>e. e) (TestPackedExtensions_stored s) TestPackedExtensions_zero = TestPackedExtensions_norm s" for s
    unfolding TestPackedExtensions_stored_def by (simp add: TestPackedExtensions_zero_def TestPackedExtensions_norm_def float_defaults)
qed (simp_all add: TestPackedExtensions_saved TestPackedExtensions_converted)

interpretation m_TestPackedExtensions: message_codec TestPackedExtensions_content TestPackedExtensions_norm TestPackedExtensions_XXX_PbContentSize TestPackedExtensions_MarshalTo
  "TestPackedExtensionsReader_Unmarshal NewTestPackedExtensionsReader" TestPackedExtensionsReader_ToStruct
  using l_TestPackedExtensions.message
  by (simp only: TestPackedExtensions_content_def [abs_def] TestPackedExtensions_XXX_PbContentSize_def TestPackedExtensions_MarshalTo_def TestPackedExtensionsReader_Unmarshal_def [abs_def] TestPackedExtensionsReader_ToStruct_def)


section \<open>TestUnpackedExtensions: the reader\<close>

definition wireTestUnpackedExtensions_UnpackedInt32Extension :: ProtoWireNumber where "wireTestUnpackedExtensions_UnpackedInt32Extension = 90"
definition wireTestUnpackedExtensions_UnpackedInt64Extension :: ProtoWireNumber where "wireTestUnpackedExtensions_UnpackedInt64Extension = 91"
definition wireTestUnpackedExtensions_UnpackedUint32Extension :: ProtoWireNumber where "wireTestUnpackedExtensions_UnpackedUint32Extension = 92"
definition wireTestUnpackedExtensions_UnpackedUint64Extension :: ProtoWireNumber where "wireTestUnpackedExtensions_UnpackedUint64Extension = 93"
definition wireTestUnpackedExtensions_UnpackedSint32Extension :: ProtoWireNumber where "wireTestUnpackedExtensions_UnpackedSint32Extension = 94"
definition wireTestUnpackedExtensions_UnpackedSint64Extension :: ProtoWireNumber where "wireTestUnpackedExtensions_UnpackedSint64Extension = 95"
definition wireTestUnpackedExtensions_UnpackedFixed32Extension :: ProtoWireNumber where "wireTestUnpackedExtensions_UnpackedFixed32Extension = 96"
definition wireTestUnpackedExtensions_UnpackedFixed64Extension :: ProtoWireNumber where "wireTestUnpackedExtensions_UnpackedFixed64Extension = 97"
definition wireTestUnpackedExtensions_UnpackedSfixed32Extension :: ProtoWireNumber where "wireTestUnpackedExtensions_UnpackedSfixed32Extension = 98"
definition wireTestUnpackedExtensions_UnpackedSfixed64Extension :: ProtoWireNumber where "wireTestUnpackedExtensions_UnpackedSfixed64Extension = 99"
definition wireTestUnpackedExtensions_UnpackedFloatExtension :: ProtoWireNumber where "wireTestUnpackedExtensions_UnpackedFloatExtension = 100"
definition wireTestUnpackedExtensions_UnpackedDoubleExtension :: ProtoWireNumber where "wireTestUnpackedExtensions_UnpackedDoubleExtension = 101"
definition wireTestUnpackedExtensions_UnpackedBoolExtension :: ProtoWireNumber where "wireTestUnpackedExtensions_UnpackedBoolExtension = 102"
definition wireTestUnpackedExtensions_UnpackedEnumExtension :: ProtoWireNumber where "wireTestUnpackedExtensions_UnpackedEnumExtension = 103"

lemmas wireTestUnpackedExtensions =
  wireTestUnpackedExtensions_UnpackedInt32Extension_def
  wireTestUnpackedExtensions_UnpackedInt64Extension_def
  wireTestUnpackedExtensions_UnpackedUint32Extension_def
  wireTestUnpackedExtensions_UnpackedUint64Extension_def
  wireTestUnpackedExtensions_UnpackedSint32Extension_def
  wireTestUnpackedExtensions_UnpackedSint64Extension_def
  wireTestUnpackedExtensions_UnpackedFixed32Extension_def
  wireTestUnpackedExtensions_UnpackedFixed64Extension_def
  wireTestUnpackedExtensions_UnpackedSfixed32Extension_def
  wireTestUnpackedExtensions_UnpackedSfixed64Extension_def
  wireTestUnpackedExtensions_UnpackedFloatExtension_def
  wireTestUnpackedExtensions_UnpackedDoubleExtension_def
  wireTestUnpackedExtensions_UnpackedBoolExtension_def
  wireTestUnpackedExtensions_UnpackedEnumExtension_def

record TestUnpackedExtensionsReader =
  mbuf :: "Reader option"
  cellUnpackedInt32Extension :: "int32 packed_cell"
  cellUnpackedInt64Extension :: "int64 packed_cell"
  cellUnpackedUint32Extension :: "uint32 packed_cell"
  cellUnpackedUint64Extension :: "uint64 packed_cell"
  cellUnpackedSint32Extension :: "int32 packed_cell"
  cellUnpackedSint64Extension :: "int64 packed_cell"
  cellUnpackedFixed32Extension :: "uint32 packed_cell"
  cellUnpackedFixed64Extension :: "uint64 packed_cell"
  cellUnpackedSfixed32Extension :: "int32 packed_cell"
  cellUnpackedSfixed64Extension :: "int64 packed_cell"
  cellUnpackedFloatExtension :: "float32 packed_cell"
  cellUnpackedDoubleExtension :: "float64 packed_cell"
  cellUnpackedBoolExtension :: "bool packed_cell"
  cellUnpackedEnumExtension :: "ForeignEnum packed_cell"

definition NewTestUnpackedExtensionsReader :: TestUnpackedExtensionsReader where
  "NewTestUnpackedExtensionsReader = \<lparr>
     mbuf = None, cellUnpackedInt32Extension = newCell [] ([], []),
     cellUnpackedInt64Extension = newCell [] ([], []),
     cellUnpackedUint32Extension = newCell [] ([], []),
     cellUnpackedUint64Extension = newCell [] ([], []),
     cellUnpackedSint32Extension = newCell [] ([], []),
     cellUnpackedSint64Extension = newCell [] ([], []),
     cellUnpackedFixed32Extension = newCell [] ([], []),
     cellUnpackedFixed64Extension = newCell [] ([], []),
     cellUnpackedSfixed32Extension = newCell [] ([], []),
     cellUnpackedSfixed64Extension = newCell [] ([], []),
     cellUnpackedFloatExtension = newCell [] ([], []),
     cellUnpackedDoubleExtension = newCell [] ([], []),
     cellUnpackedBoolExtension = newCell [] ([], []),
     cellUnpackedEnumExtension = newCell [] ([], [])\<rparr>"

definition TestUnpackedExtensionsReader_readUnpackedInt32Extension :: "TestUnpackedExtensionsReader \<Rightarrow> (int32 list \<times> TestUnpackedExtensionsReader) run" where
  "TestUnpackedExtensionsReader_readUnpackedInt32Extension = readCell cellUnpackedInt32Extension cellUnpackedInt32Extension_update mbuf (readPacked ReadInt32 SizedReadInt32 0)"

definition TestUnpackedExtensionsReader_GetUnpackedInt32Extension :: "TestUnpackedExtensionsReader option \<Rightarrow> (int32 list \<times> TestUnpackedExtensionsReader option) run" where
  "TestUnpackedExtensionsReader_GetUnpackedInt32Extension = getter TestUnpackedExtensionsReader_readUnpackedInt32Extension []"

definition TestUnpackedExtensionsReader_readUnpackedInt64Extension :: "TestUnpackedExtensionsReader \<Rightarrow> (int64 list \<times> TestUnpackedExtensionsReader) run" where
  "TestUnpackedExtensionsReader_readUnpackedInt64Extension = readCell cellUnpackedInt64Extension cellUnpackedInt64Extension_update mbuf (readPacked ReadInt64 SizedReadInt64 0)"

definition TestUnpackedExtensionsReader_GetUnpackedInt64Extension :: "TestUnpackedExtensionsReader option \<Rightarrow> (int64 list \<times> TestUnpackedExtensionsReader option) run" where
  "TestUnpackedExtensionsReader_GetUnpackedInt64Extension = getter TestUnpackedExtensionsReader_readUnpackedInt64Extension []"

definition TestUnpackedExtensionsReader_readUnpackedUint32Extension :: "TestUnpackedExtensionsReader \<Rightarrow> (uint32 list \<times> TestUnpackedExtensionsReader) run" where
  "TestUnpackedExtensionsReader_readUnpackedUint32Extension = readCell cellUnpackedUint32Extension cellUnpackedUint32Extension_update mbuf (readPacked ReadUint32 SizedReadUint32 0)"

definition TestUnpackedExtensionsReader_GetUnpackedUint32Extension :: "TestUnpackedExtensionsReader option \<Rightarrow> (uint32 list \<times> TestUnpackedExtensionsReader option) run" where
  "TestUnpackedExtensionsReader_GetUnpackedUint32Extension = getter TestUnpackedExtensionsReader_readUnpackedUint32Extension []"

definition TestUnpackedExtensionsReader_readUnpackedUint64Extension :: "TestUnpackedExtensionsReader \<Rightarrow> (uint64 list \<times> TestUnpackedExtensionsReader) run" where
  "TestUnpackedExtensionsReader_readUnpackedUint64Extension = readCell cellUnpackedUint64Extension cellUnpackedUint64Extension_update mbuf (readPacked ReadUint64 SizedReadUint64 0)"

definition TestUnpackedExtensionsReader_GetUnpackedUint64Extension :: "TestUnpackedExtensionsReader option \<Rightarrow> (uint64 list \<times> TestUnpackedExtensionsReader option) run" where
  "TestUnpackedExtensionsReader_GetUnpackedUint64Extension = getter TestUnpackedExtensionsReader_readUnpackedUint64Extension []"

definition TestUnpackedExtensionsReader_readUnpackedSint32Extension :: "TestUnpackedExtensionsReader \<Rightarrow> (int32 list \<times> TestUnpackedExtensionsReader) run" where
  "TestUnpackedExtensionsReader_readUnpackedSint32Extension = readCell cellUnpackedSint32Extension cellUnpackedSint32Extension_update mbuf (readPacked ReadSInt32 SizedReadSInt32 0)"

definition TestUnpackedExtensionsReader_GetUnpackedSint32Extension :: "TestUnpackedExtensionsReader option \<Rightarrow> (int32 list \<times> TestUnpackedExtensionsReader option) run" where
  "TestUnpackedExtensionsReader_GetUnpackedSint32Extension = getter TestUnpackedExtensionsReader_readUnpackedSint32Extension []"

definition TestUnpackedExtensionsReader_readUnpackedSint64Extension :: "TestUnpackedExtensionsReader \<Rightarrow> (int64 list \<times> TestUnpackedExtensionsReader) run" where
  "TestUnpackedExtensionsReader_readUnpackedSint64Extension = readCell cellUnpackedSint64Extension cellUnpackedSint64Extension_update mbuf (readPacked ReadSInt64 SizedReadSInt64 0)"

definition TestUnpackedExtensionsReader_GetUnpackedSint64Extension :: "TestUnpackedExtensionsReader option \<Rightarrow> (int64 list \<times> TestUnpackedExtensionsReader option) run" where
  "TestUnpackedExtensionsReader_GetUnpackedSint64Extension = getter TestUnpackedExtensionsReader_readUnpackedSint64Extension []"

definition TestUnpackedExtensionsReader_readUnpackedFixed32Extension :: "TestUnpackedExtensionsReader \<Rightarrow> (uint32 list \<times> TestUnpackedExtensionsReader) run" where
  "TestUnpackedExtensionsReader_readUnpackedFixed32Extension = readCell cellUnpackedFixed32Extension cellUnpackedFixed32Extension_update mbuf (readPacked ReadFixed32 SizedReadFixed32 0)"

definition TestUnpackedExtensionsReader_GetUnpackedFixed32Extension :: "TestUnpackedExtensionsReader option \<Rightarrow> (uint32 list \<times> TestUnpackedExtensionsReader option) run" where
  "TestUnpackedExtensionsReader_GetUnpackedFixed32Extension = getter TestUnpackedExtensionsReader_readUnpackedFixed32Extension []"

definition TestUnpackedExtensionsReader_readUnpackedFixed64Extension :: "TestUnpackedExtensionsReader \<Rightarrow> (uint64 list \<times> TestUnpackedExtensionsReader) run" where
  "TestUnpackedExtensionsReader_readUnpackedFixed64Extension = readCell cellUnpackedFixed64Extension cellUnpackedFixed64Extension_update mbuf (readPacked ReadFixed64 SizedReadFixed64 0)"

definition TestUnpackedExtensionsReader_GetUnpackedFixed64Extension :: "TestUnpackedExtensionsReader option \<Rightarrow> (uint64 list \<times> TestUnpackedExtensionsReader option) run" where
  "TestUnpackedExtensionsReader_GetUnpackedFixed64Extension = getter TestUnpackedExtensionsReader_readUnpackedFixed64Extension []"

definition TestUnpackedExtensionsReader_readUnpackedSfixed32Extension :: "TestUnpackedExtensionsReader \<Rightarrow> (int32 list \<times> TestUnpackedExtensionsReader) run" where
  "TestUnpackedExtensionsReader_readUnpackedSfixed32Extension = readCell cellUnpackedSfixed32Extension cellUnpackedSfixed32Extension_update mbuf (readPacked ReadSFixed32 SizedReadSFixed32 0)"

definition TestUnpackedExtensionsReader_GetUnpackedSfixed32Extension :: "TestUnpackedExtensionsReader option \<Rightarrow> (int32 list \<times> TestUnpackedExtensionsReader option) run" where
  "TestUnpackedExtensionsReader_GetUnpackedSfixed32Extension = getter TestUnpackedExtensionsReader_readUnpackedSfixed32Extension []"

definition TestUnpackedExtensionsReader_readUnpackedSfixed64Extension :: "TestUnpackedExtensionsReader \<Rightarrow> (int64 list \<times> TestUnpackedExtensionsReader) run" where
  "TestUnpackedExtensionsReader_readUnpackedSfixed64Extension = readCell cellUnpackedSfixed64Extension cellUnpackedSfixed64Extension_update mbuf (readPacked ReadSFixed64 SizedReadSFixed64 0)"

definition TestUnpackedExtensionsReader_GetUnpackedSfixed64Extension :: "TestUnpackedExtensionsReader option \<Rightarrow> (int64 list \<times> TestUnpackedExtensionsReader option) run" where
  "TestUnpackedExtensionsReader_GetUnpackedSfixed64Extension = getter TestUnpackedExtensionsReader_readUnpackedSfixed64Extension []"

definition TestUnpackedExtensionsReader_readUnpackedFloatExtension :: "TestUnpackedExtensionsReader \<Rightarrow> (float32 list \<times> TestUnpackedExtensionsReader) run" where
  "TestUnpackedExtensionsReader_readUnpackedFloatExtension = readCell cellUnpackedFloatExtension cellUnpackedFloatExtension_update mbuf (readPacked ReadFloat32 SizedReadFloat32 0)"

definition TestUnpackedExtensionsReader_GetUnpackedFloatExtension :: "TestUnpackedExtensionsReader option \<Rightarrow> (float32 list \<times> TestUnpackedExtensionsReader option) run" where
  "TestUnpackedExtensionsReader_GetUnpackedFloatExtension = getter TestUnpackedExtensionsReader_readUnpackedFloatExtension []"

definition TestUnpackedExtensionsReader_readUnpackedDoubleExtension :: "TestUnpackedExtensionsReader \<Rightarrow> (float64 list \<times> TestUnpackedExtensionsReader) run" where
  "TestUnpackedExtensionsReader_readUnpackedDoubleExtension = readCell cellUnpackedDoubleExtension cellUnpackedDoubleExtension_update mbuf (readPacked ReadFloat64 SizedReadFloat64 0)"

definition TestUnpackedExtensionsReader_GetUnpackedDoubleExtension :: "TestUnpackedExtensionsReader option \<Rightarrow> (float64 list \<times> TestUnpackedExtensionsReader option) run" where
  "TestUnpackedExtensionsReader_GetUnpackedDoubleExtension = getter TestUnpackedExtensionsReader_readUnpackedDoubleExtension []"

definition TestUnpackedExtensionsReader_readUnpackedBoolExtension :: "TestUnpackedExtensionsReader \<Rightarrow> (bool list \<times> TestUnpackedExtensionsReader) run" where
  "TestUnpackedExtensionsReader_readUnpackedBoolExtension = readCell cellUnpackedBoolExtension cellUnpackedBoolExtension_update mbuf (readPacked ReadBool SizedReadBool False)"

definition TestUnpackedExtensionsReader_GetUnpackedBoolExtension :: "TestUnpackedExtensionsReader option \<Rightarrow> (bool list \<times> TestUnpackedExtensionsReader option) run" where
  "TestUnpackedExtensionsReader_GetUnpackedBoolExtension = getter TestUnpackedExtensionsReader_readUnpackedBoolExtension []"

definition TestUnpackedExtensionsReader_readUnpackedEnumExtension :: "TestUnpackedExtensionsReader \<Rightarrow> (ForeignEnum list \<times> TestUnpackedExtensionsReader) run" where
  "TestUnpackedExtensionsReader_readUnpackedEnumExtension = readCell cellUnpackedEnumExtension cellUnpackedEnumExtension_update mbuf (readPacked ReadInt32 SizedReadInt32 0)"

definition TestUnpackedExtensionsReader_GetUnpackedEnumExtension :: "TestUnpackedExtensionsReader option \<Rightarrow> (ForeignEnum list \<times> TestUnpackedExtensionsReader option) run" where
  "TestUnpackedExtensionsReader_GetUnpackedEnumExtension = getter TestUnpackedExtensionsReader_readUnpackedEnumExtension []"

lemmas TestUnpackedExtensions_getters =
  TestUnpackedExtensionsReader_readUnpackedInt32Extension_def TestUnpackedExtensionsReader_GetUnpackedInt32Extension_def
  TestUnpackedExtensionsReader_readUnpackedInt64Extension_def TestUnpackedExtensionsReader_GetUnpackedInt64Extension_def
  TestUnpackedExtensionsReader_readUnpackedUint32Extension_def TestUnpackedExtensionsReader_GetUnpackedUint32Extension_def
  TestUnpackedExtensionsReader_readUnpackedUint64Extension_def TestUnpackedExtensionsReader_GetUnpackedUint64Extension_def
  TestUnpackedExtensionsReader_readUnpackedSint32Extension_def TestUnpackedExtensionsReader_GetUnpackedSint32Extension_def
  TestUnpackedExtensionsReader_readUnpackedSint64Extension_def TestUnpackedExtensionsReader_GetUnpackedSint64Extension_def
  TestUnpackedExtensionsReader_readUnpackedFixed32Extension_def TestUnpackedExtensionsReader_GetUnpackedFixed32Extension_def
  TestUnpackedExtensionsReader_readUnpackedFixed64Extension_def TestUnpackedExtensionsReader_GetUnpackedFixed64Extension_def
  TestUnpackedExtensionsReader_readUnpackedSfixed32Extension_def TestUnpackedExtensionsReader_GetUnpackedSfixed32Extension_def
  TestUnpackedExtensionsReader_readUnpackedSfixed64Extension_def TestUnpackedExtensionsReader_GetUnpackedSfixed64Extension_def
  TestUnpackedExtensionsReader_readUnpackedFloatExtension_def TestUnpackedExtensionsReader_GetUnpackedFloatExtension_def
  TestUnpackedExtensionsReader_readUnpackedDoubleExtension_def TestUnpackedExtensionsReader_GetUnpackedDoubleExtension_def
  TestUnpackedExtensionsReader_readUnpackedBoolExtension_def TestUnpackedExtensionsReader_GetUnpackedBoolExtension_def
  TestUnpackedExtensionsReader_readUnpackedEnumExtension_def TestUnpackedExtensionsReader_GetUnpackedEnumExtension_def

definition TestUnpackedExtensionsReader_cases :: "ProtoWireType \<Rightarrow> int \<Rightarrow> (ProtoWireNumber \<times> (TestUnpackedExtensionsReader \<Rightarrow> TestUnpackedExtensionsReader)) list" where
  "TestUnpackedExtensionsReader_cases wire offset = [
     (wireTestUnpackedExtensions_UnpackedInt32Extension, \<lambda>m. m\<lparr>cellUnpackedInt32Extension := onOffset (addTyped wire offset) (cellUnpackedInt32Extension m)\<rparr>),
     (wireTestUnpackedExtensions_UnpackedInt64Extension, \<lambda>m. m\<lparr>cellUnpackedInt64Extension := onOffset (addTyped wire offset) (cellUnpackedInt64Extension m)\<rparr>),
     (wireTestUnpackedExtensions_UnpackedUint32Extension, \<lambda>m. m\<lparr>cellUnpackedUint32Extension := onOffset (addTyped wire offset) (cellUnpackedUint32Extension m)\<rparr>),
     (wireTestUnpackedExtensions_UnpackedUint64Extension, \<lambda>m. m\<lparr>cellUnpackedUint64Extension := onOffset (addTyped wire offset) (cellUnpackedUint64Extension m)\<rparr>),
     (wireTestUnpackedExtensions_UnpackedSint32Extension, \<lambda>m. m\<lparr>cellUnpackedSint32Extension := onOffset (addTyped wire offset) (cellUnpackedSint32Extension m)\<rparr>),
     (wireTestUnpackedExtensions_UnpackedSint64Extension, \<lambda>m. m\<lparr>cellUnpackedSint64Extension := onOffset (addTyped wire offset) (cellUnpackedSint64Extension m)\<rparr>),
     (wireTestUnpackedExtensions_UnpackedFixed32Extension, \<lambda>m. m\<lparr>cellUnpackedFixed32Extension := onOffset (addTyped wire offset) (cellUnpackedFixed32Extension m)\<rparr>),
     (wireTestUnpackedExtensions_UnpackedFixed64Extension, \<lambda>m. m\<lparr>cellUnpackedFixed64Extension := onOffset (addTyped wire offset) (cellUnpackedFixed64Extension m)\<rparr>),
     (wireTestUnpackedExtensions_UnpackedSfixed32Extension, \<lambda>m. m\<lparr>cellUnpackedSfixed32Extension := onOffset (addTyped wire offset) (cellUnpackedSfixed32Extension m)\<rparr>),
     (wireTestUnpackedExtensions_UnpackedSfixed64Extension, \<lambda>m. m\<lparr>cellUnpackedSfixed64Extension := onOffset (addTyped wire offset) (cellUnpackedSfixed64Extension m)\<rparr>),
     (wireTestUnpackedExtensions_UnpackedFloatExtension, \<lambda>m. m\<lparr>cellUnpackedFloatExtension := onOffset (addTyped wire offset) (cellUnpackedFloatExtension m)\<rparr>),
     (wireTestUnpackedExtensions_UnpackedDoubleExtension, \<lambda>m. m\<lparr>cellUnpackedDoubleExtension := onOffset (addTyped wire offset) (cellUnpackedDoubleExtension m)\<rparr>),
     (wireTestUnpackedExtensions_UnpackedBoolExtension, \<lambda>m. m\<lparr>cellUnpackedBoolExtension := onOffset (addTyped wire offset) (cellUnpackedBoolExtension m)\<rparr>),
     (wireTestUnpackedExtensions_UnpackedEnumExtension, \<lambda>m. m\<lparr>cellUnpackedEnumExtension := onOffset (addTyped wire offset) (cellUnpackedEnumExtension m)\<rparr>)]"

definition TestUnpackedExtensionsReader_save :: "ProtoWireNumber \<Rightarrow> ProtoWireType \<Rightarrow> int \<Rightarrow> TestUnpackedExtensionsReader \<Rightarrow> TestUnpackedExtensionsReader" where
  "TestUnpackedExtensionsReader_save tag wire offset = tag_switch (TestUnpackedExtensionsReader_cases wire offset) tag"

definition TestUnpackedExtensionsReader_Unmarshal :: "TestUnpackedExtensionsReader \<Rightarrow> gslice \<Rightarrow> (TestUnpackedExtensionsReader \<times> string option) run" where
  "TestUnpackedExtensionsReader_Unmarshal m data =
     unmarshalLoop TestUnpackedExtensionsReader_save (NewReader data) 0 (m\<lparr>mbuf := Some (NewReader data)\<rparr>)"

definition TestUnpackedExtensionsReader_SourceBytes :: "TestUnpackedExtensionsReader option \<Rightarrow> gslice" where
  "TestUnpackedExtensionsReader_SourceBytes s = (case s of None \<Rightarrow> nil_slice | Some r \<Rightarrow> Bytes (mbuf r))"

section \<open>TestUnpackedExtensions: the struct\<close>

record TestUnpackedExtensions =
  UnpackedInt32Extension :: "int32 list"
  UnpackedInt64Extension :: "int64 list"
  UnpackedUint32Extension :: "uint32 list"
  UnpackedUint64Extension :: "uint64 list"
  UnpackedSint32Extension :: "int32 list"
  UnpackedSint64Extension :: "int64 list"
  UnpackedFixed32Extension :: "uint32 list"
  UnpackedFixed64Extension :: "uint64 list"
  UnpackedSfixed32Extension :: "int32 list"
  UnpackedSfixed64Extension :: "int64 list"
  UnpackedFloatExtension :: "float32 list"
  UnpackedDoubleExtension :: "float64 list"
  UnpackedBoolExtension :: "bool list"
  UnpackedEnumExtension :: "ForeignEnum list"

definition TestUnpackedExtensions_zero :: TestUnpackedExtensions where
  "TestUnpackedExtensions_zero = \<lparr>
     UnpackedInt32Extension = [], UnpackedInt64Extension = [], UnpackedUint32Extension = [],
     UnpackedUint64Extension = [], UnpackedSint32Extension = [], UnpackedSint64Extension = [],
     UnpackedFixed32Extension = [], UnpackedFixed64Extension = [],
     UnpackedSfixed32Extension = [], UnpackedSfixed64Extension = [],
     UnpackedFloatExtension = [], UnpackedDoubleExtension = [], UnpackedBoolExtension = [],
     UnpackedEnumExtension = []\<rparr>"

definition TestUnpackedExtensions_stmts :: "(TestUnpackedExtensions \<times> TestUnpackedExtensionsReader option \<Rightarrow> (TestUnpackedExtensions \<times> TestUnpackedExtensionsReader option) run) list" where
  "TestUnpackedExtensions_stmts = [
     assign TestUnpackedExtensionsReader_GetUnpackedInt32Extension (\<lambda>v res. res\<lparr>UnpackedInt32Extension := v\<rparr>),
     assign TestUnpackedExtensionsReader_GetUnpackedInt64Extension (\<lambda>v res. res\<lparr>UnpackedInt64Extension := v\<rparr>),
     assign TestUnpackedExtensionsReader_GetUnpackedUint32Extension (\<lambda>v res. res\<lparr>UnpackedUint32Extension := v\<rparr>),
     assign TestUnpackedExtensionsReader_GetUnpackedUint64Extension (\<lambda>v res. res\<lparr>UnpackedUint64Extension := v\<rparr>),
     assign TestUnpackedExtensionsReader_GetUnpackedSint32Extension (\<lambda>v res. res\<lparr>UnpackedSint32Extension := v\<rparr>),
     assign TestUnpackedExtensionsReader_GetUnpackedSint64Extension (\<lambda>v res. res\<lparr>UnpackedSint64Extension := v\<rparr>),
     assign TestUnpackedExtensionsReader_GetUnpackedFixed32Extension (\<lambda>v res. res\<lparr>UnpackedFixed32Extension := v\<rparr>),
     assign TestUnpackedExtensionsReader_GetUnpackedFixed64Extension (\<lambda>v res. res\<lparr>UnpackedFixed64Extension := v\<rparr>),
     assign TestUnpackedExtensionsReader_GetUnpackedSfixed32Extension (\<lambda>v res. res\<lparr>UnpackedSfixed32Extension := v\<rparr>),
     assign TestUnpackedExtensionsReader_GetUnpackedSfixed64Extension (\<lambda>v res. res\<lparr>UnpackedSfixed64Extension := v\<rparr>),
     assign TestUnpackedExtensionsReader_GetUnpackedFloatExtension (\<lambda>v res. res\<lparr>UnpackedFloatExtension := v\<rparr>),
     assign TestUnpackedExtensionsReader_GetUnpackedDoubleExtension (\<lambda>v res. res\<lparr>UnpackedDoubleExtension := v\<rparr>),
     assign TestUnpackedExtensionsReader_GetUnpackedBoolExtension (\<lambda>v res. res\<lparr>UnpackedBoolExtension := v\<rparr>),
     assign TestUnpackedExtensionsReader_GetUnpackedEnumExtension (\<lambda>v res. res\<lparr>UnpackedEnumExtension := v\<rparr>)]"

definition TestUnpackedExtensionsReader_ToStruct :: "TestUnpackedExtensionsReader option \<Rightarrow> (TestUnpackedExtensions option \<times> TestUnpackedExtensionsReader option) run" where
  "TestUnpackedExtensionsReader_ToStruct = toStructWith (TestUnpackedExtensions_stmts) TestUnpackedExtensions_zero"

definition TestUnpackedExtensions_appends1 :: "TestUnpackedExtensions \<Rightarrow> (Writer \<Rightarrow> Writer go) list" where
  "TestUnpackedExtensions_appends1 s = [
     \<lambda>res. if UnpackedInt32Extension s \<noteq> [] then packedWriter AppendInt32WithoutTag AppendInt32 SizeInt32 res wireTestUnpackedExtensions_UnpackedInt32Extension (UnpackedInt32Extension s) else Ret res,
     \<lambda>res. if UnpackedInt64Extension s \<noteq> [] then packedWriter AppendInt64WithoutTag AppendInt64 SizeInt64 res wireTestUnpackedExtensions_UnpackedInt64Extension (UnpackedInt64Extension s) else Ret res,
     \<lambda>res. if UnpackedUint32Extension s \<noteq> [] then packedWriter AppendUint32WithoutTag AppendUint32 SizeUint32 res wireTestUnpackedExtensions_UnpackedUint32Extension (UnpackedUint32Extension s) else Ret res,
     \<lambda>res. if UnpackedUint64Extension s \<noteq> [] then packedWriter AppendUint64WithoutTag AppendUint64 SizeUint64 res wireTestUnpackedExtensions_UnpackedUint64Extension (UnpackedUint64Extension s) else Ret res,
     \<lambda>res. if UnpackedSint32Extension s \<noteq> [] then packedWriter AppendSInt32WithoutTag AppendSInt32 SizeSInt32 res wireTestUnpackedExtensions_UnpackedSint32Extension (UnpackedSint32Extension s) else Ret res,
     \<lambda>res. if UnpackedSint64Extension s \<noteq> [] then packedWriter AppendSInt64WithoutTag AppendSInt64 SizeSInt64 res wireTestUnpackedExtensions_UnpackedSint64Extension (UnpackedSint64Extension s) else Ret res,
     \<lambda>res. if UnpackedFixed32Extension s \<noteq> [] then packedWriter AppendFixed32WithoutTag AppendFixed32 SizeFixed32 res wireTestUnpackedExtensions_UnpackedFixed32Extension (UnpackedFixed32Extension s) else Ret res,
     \<lambda>res. if UnpackedFixed64Extension s \<noteq> [] then packedWriter AppendFixed64WithoutTag AppendFixed64 SizeFixed64 res wireTestUnpackedExtensions_UnpackedFixed64Extension (UnpackedFixed64Extension s) else Ret res,
     \<lambda>res. if UnpackedSfixed32Extension s \<noteq> [] then packedWriter AppendSFixed32WithoutTag AppendSFixed32 SizeSFixed32 res wireTestUnpackedExtensions_UnpackedSfixed32Extension (UnpackedSfixed32Extension s) else Ret res]"

definition TestUnpackedExtensions_appends2 :: "TestUnpackedExtensions \<Rightarrow> (Writer \<Rightarrow> Writer go) list" where
  "TestUnpackedExtensions_appends2 s = [
     \<lambda>res. if UnpackedSfixed64Extension s \<noteq> [] then packedWriter AppendSFixed64WithoutTag AppendSFixed64 SizeSFixed64 res wireTestUnpackedExtensions_UnpackedSfixed64Extension (UnpackedSfixed64Extension s) else Ret res,
     \<lambda>res. if UnpackedFloatExtension s \<noteq> [] then packedWriter AppendFloat32WithoutTag AppendFloat32 SizeFloat32 res wireTestUnpackedExtensions_UnpackedFloatExtension (UnpackedFloatExtension s) else Ret res,
     \<lambda>res. if UnpackedDoubleExtension s \<noteq> [] then packedWriter AppendFloat64WithoutTag AppendFloat64 SizeFloat64 res wireTestUnpackedExtensions_UnpackedDoubleExtension (UnpackedDoubleExtension s) else Ret res,
     \<lambda>res. if UnpackedBoolExtension s \<noteq> [] then packedWriter AppendBoolWithoutTag AppendBool SizeBool res wireTestUnpackedExtensions_UnpackedBoolExtension (UnpackedBoolExtension s) else Ret res,
     \<lambda>res. if UnpackedEnumExtension s \<noteq> [] then packedWriter AppendInt32WithoutTag AppendInt32 SizeInt32 res wireTestUnpackedExtensions_UnpackedEnumExtension (UnpackedEnumExtension s) else Ret res]"

definition TestUnpackedExtensions_MarshalTo :: "Writer \<Rightarrow> TestUnpackedExtensions option \<Rightarrow> Writer go" where
  "TestUnpackedExtensions_MarshalTo = marshalToWith (\<lambda>s. TestUnpackedExtensions_appends1 s @ TestUnpackedExtensions_appends2 s)"

definition TestUnpackedExtensions_sizes1 :: "TestUnpackedExtensions \<Rightarrow> int list" where
  "TestUnpackedExtensions_sizes1 s = [
     if UnpackedInt32Extension s \<noteq> [] then packedSize SizeInt32 wireTestUnpackedExtensions_UnpackedInt32Extension (UnpackedInt32Extension s) else 0,
     if UnpackedInt64Extension s \<noteq> [] then packedSize SizeInt64 wireTestUnpackedExtensions_UnpackedInt64Extension (UnpackedInt64Extension s) else 0,
     if UnpackedUint32Extension s \<noteq> [] then packedSize SizeUint32 wireTestUnpackedExtensions_UnpackedUint32Extension (UnpackedUint32Extension s) else 0,
     if UnpackedUint64Extension s \<noteq> [] then packedSize SizeUint64 wireTestUnpackedExtensions_UnpackedUint64Extension (UnpackedUint64Extension s) else 0,
     if UnpackedSint32Extension s \<noteq> [] then packedSize SizeSInt32 wireTestUnpackedExtensions_UnpackedSint32Extension (UnpackedSint32Extension s) else 0,
     if UnpackedSint64Extension s \<noteq> [] then packedSize SizeSInt64 wireTestUnpackedExtensions_UnpackedSint64Extension (UnpackedSint64Extension s) else 0,
     if UnpackedFixed32Extension s \<noteq> [] then packedSize SizeFixed32 wireTestUnpackedExtensions_UnpackedFixed32Extension (UnpackedFixed32Extension s) else 0]"

definition TestUnpackedExtensions_sizes2 :: "TestUnpackedExtensions \<Rightarrow> int list" where
  "TestUnpackedExtensions_sizes2 s = [
     if UnpackedFixed64Extension s \<noteq> [] then packedSize SizeFixed64 wireTestUnpackedExtensions_UnpackedFixed64Extension (UnpackedFixed64Extension s) else 0,
     if UnpackedSfixed32Extension s \<noteq> [] then packedSize SizeSFixed32 wireTestUnpackedExtensions_UnpackedSfixed32Extension (UnpackedSfixed32Extension s) else 0,
     if UnpackedSfixed64Extension s \<noteq> [] then packedSize SizeSFixed64 wireTestUnpackedExtensions_UnpackedSfixed64Extension (UnpackedSfixed64Extension s) else 0,
     if UnpackedFloatExtension s \<noteq> [] then packedSize SizeFloat32 wireTestUnpackedExtensions_UnpackedFloatExtension (UnpackedFloatExtension s) else 0,
     if UnpackedDoubleExtension s \<noteq> [] then packedSize SizeFloat64 wireTestUnpackedExtensions_UnpackedDoubleExtension (UnpackedDoubleExtension s) else 0,
     if UnpackedBoolExtension s \<noteq> [] then packedSize SizeBool wireTestUnpackedExtensions_UnpackedBoolExtension (UnpackedBoolExtension s) else 0,
     if UnpackedEnumExtension s \<noteq> [] then packedSize SizeInt32 wireTestUnpackedExtensions_UnpackedEnumExtension (UnpackedEnumExtension s) else 0]"

definition TestUnpackedExtensions_XXX_PbContentSize :: "TestUnpackedExtensions option \<Rightarrow> int" where
  "TestUnpackedExtensions_XXX_PbContentSize = contentSizeWith (\<lambda>s. TestUnpackedExtensions_sizes1 s @ TestUnpackedExtensions_sizes2 s)"

definition TestUnpackedExtensions_Marshal :: "TestUnpackedExtensions option \<Rightarrow> byte list go" where
  "TestUnpackedExtensions_Marshal = marshalWith TestUnpackedExtensions_XXX_PbContentSize TestUnpackedExtensions_MarshalTo"

definition TestUnpackedExtensions_Copy :: "TestUnpackedExtensions option \<Rightarrow> TestUnpackedExtensions option" where
  "TestUnpackedExtensions_Copy s =
     (case s of None \<Rightarrow> None | Some s \<Rightarrow> Some \<lparr>
        UnpackedInt32Extension = UnpackedInt32Extension s,
        UnpackedInt64Extension = UnpackedInt64Extension s,
        UnpackedUint32Extension = UnpackedUint32Extension s,
        UnpackedUint64Extension = UnpackedUint64Extension s,
        UnpackedSint32Extension = UnpackedSint32Extension s,
        UnpackedSint64Extension = UnpackedSint64Extension s,
        UnpackedFixed32Extension = UnpackedFixed32Extension s,
        UnpackedFixed64Extension = UnpackedFixed64Extension s,
        UnpackedSfixed32Extension = UnpackedSfixed32Extension s,
        UnpackedSfixed64Extension = UnpackedSfixed64Extension s,
        UnpackedFloatExtension = UnpackedFloatExtension s,
        UnpackedDoubleExtension = UnpackedDoubleExtension s,
        UnpackedBoolExtension = UnpackedBoolExtension s,
        UnpackedEnumExtension = UnpackedEnumExtension s\<rparr>)"

section \<open>TestUnpackedExtensions: the round trip\<close>

definition TestUnpackedExtensions_tags :: "ProtoWireNumber list" where
  "TestUnpackedExtensions_tags = [
     wireTestUnpackedExtensions_UnpackedInt32Extension,
     wireTestUnpackedExtensions_UnpackedInt64Extension,
     wireTestUnpackedExtensions_UnpackedUint32Extension,
     wireTestUnpackedExtensions_UnpackedUint64Extension,
     wireTestUnpackedExtensions_UnpackedSint32Extension,
     wireTestUnpackedExtensions_UnpackedSint64Extension,
     wireTestUnpackedExtensions_UnpackedFixed32Extension,
     wireTestUnpackedExtensions_UnpackedFixed64Extension,
     wireTestUnpackedExtensions_UnpackedSfixed32Extension,
     wireTestUnpackedExtensions_UnpackedSfixed64Extension,
     wireTestUnpackedExtensions_UnpackedFloatExtension,
     wireTestUnpackedExtensions_UnpackedDoubleExtension,
     wireTestUnpackedExtensions_UnpackedBoolExtension,
     wireTestUnpackedExtensions_UnpackedEnumExtension]"

definition TestUnpackedExtensions_groups :: "TestUnpackedExtensions \<Rightarrow> wfield list list" where
  "TestUnpackedExtensions_groups s = [
     packed_fields int32_val wireTestUnpackedExtensions_UnpackedInt32Extension (UnpackedInt32Extension s),
     packed_fields int64_val wireTestUnpackedExtensions_UnpackedInt64Extension (UnpackedInt64Extension s),
     packed_fields uint32_val wireTestUnpackedExtensions_UnpackedUint32Extension (UnpackedUint32Extension s),
     packed_fields uint64_val wireTestUnpackedExtensions_UnpackedUint64Extension (UnpackedUint64Extension s),
     packed_fields sint32_val wireTestUnpackedExtensions_UnpackedSint32Extension (UnpackedSint32Extension s),
     packed_fields sint64_val wireTestUnpackedExtensions_UnpackedSint64Extension (UnpackedSint64Extension s),
     packed_fields WFixed32 wireTestUnpackedExtensions_UnpackedFixed32Extension (UnpackedFixed32Extension s),
     packed_fields WFixed64 wireTestUnpackedExtensions_UnpackedFixed64Extension (UnpackedFixed64Extension s),
     packed_fields WFixed32 wireTestUnpackedExtensions_UnpackedSfixed32Extension (UnpackedSfixed32Extension s),
     packed_fields WFixed64 wireTestUnpackedExtensions_UnpackedSfixed64Extension (UnpackedSfixed64Extension s),
     packed_fields WFixed32 wireTestUnpackedExtensions_UnpackedFloatExtension (UnpackedFloatExtension s),
     packed_fields WFixed64 wireTestUnpackedExtensions_UnpackedDoubleExtension (UnpackedDoubleExtension s),
     packed_fields bool_val wireTestUnpackedExtensions_UnpackedBoolExtension (UnpackedBoolExtension s),
     packed_fields int32_val wireTestUnpackedExtensions_UnpackedEnumExtension (UnpackedEnumExtension s)]"

definition TestUnpackedExtensions_content :: "TestUnpackedExtensions \<Rightarrow> wfield list" where
  "TestUnpackedExtensions_content s = concat (TestUnpackedExtensions_groups s)"

text \<open>What a round trip keeps.\<close>

definition TestUnpackedExtensions_norm :: "TestUnpackedExtensions \<Rightarrow> TestUnpackedExtensions" where
  "TestUnpackedExtensions_norm s = s"

definition TestUnpackedExtensions_ready :: "Reader \<Rightarrow> TestUnpackedExtensions \<Rightarrow> (TestUnpackedExtensionsReader \<Rightarrow> bool) list" where
  "TestUnpackedExtensions_ready p s = [
     \<lambda>m. cell_reads (readPacked ReadInt32 SizedReadInt32 0) plain p (UnpackedInt32Extension s) (cellUnpackedInt32Extension m),
     \<lambda>m. cell_reads (readPacked ReadInt64 SizedReadInt64 0) plain p (UnpackedInt64Extension s) (cellUnpackedInt64Extension m),
     \<lambda>m. cell_reads (readPacked ReadUint32 SizedReadUint32 0) plain p (UnpackedUint32Extension s) (cellUnpackedUint32Extension m),
     \<lambda>m. cell_reads (readPacked ReadUint64 SizedReadUint64 0) plain p (UnpackedUint64Extension s) (cellUnpackedUint64Extension m),
     \<lambda>m. cell_reads (readPacked ReadSInt32 SizedReadSInt32 0) plain p (UnpackedSint32Extension s) (cellUnpackedSint32Extension m),
     \<lambda>m. cell_reads (readPacked ReadSInt64 SizedReadSInt64 0) plain p (UnpackedSint64Extension s) (cellUnpackedSint64Extension m),
     \<lambda>m. cell_reads (readPacked ReadFixed32 SizedReadFixed32 0) plain p (UnpackedFixed32Extension s) (cellUnpackedFixed32Extension m),
     \<lambda>m. cell_reads (readPacked ReadFixed64 SizedReadFixed64 0) plain p (UnpackedFixed64Extension s) (cellUnpackedFixed64Extension m),
     \<lambda>m. cell_reads (readPacked ReadSFixed32 SizedReadSFixed32 0) plain p (UnpackedSfixed32Extension s) (cellUnpackedSfixed32Extension m),
     \<lambda>m. cell_reads (readPacked ReadSFixed64 SizedReadSFixed64 0) plain p (UnpackedSfixed64Extension s) (cellUnpackedSfixed64Extension m),
     \<lambda>m. cell_reads (readPacked ReadFloat32 SizedReadFloat32 0) plain p (UnpackedFloatExtension s) (cellUnpackedFloatExtension m),
     \<lambda>m. cell_reads (readPacked ReadFloat64 SizedReadFloat64 0) plain p (UnpackedDoubleExtension s) (cellUnpackedDoubleExtension m),
     \<lambda>m. cell_reads (readPacked ReadBool SizedReadBool False) plain p (UnpackedBoolExtension s) (cellUnpackedBoolExtension m),
     \<lambda>m. cell_reads (readPacked ReadInt32 SizedReadInt32 0) plain p (UnpackedEnumExtension s) (cellUnpackedEnumExtension m)]"

definition TestUnpackedExtensions_stored :: "TestUnpackedExtensions \<Rightarrow> (TestUnpackedExtensions \<Rightarrow> TestUnpackedExtensions) list" where
  "TestUnpackedExtensions_stored s = [
     \<lambda>res. res\<lparr>UnpackedInt32Extension := UnpackedInt32Extension s\<rparr>,
     \<lambda>res. res\<lparr>UnpackedInt64Extension := UnpackedInt64Extension s\<rparr>,
     \<lambda>res. res\<lparr>UnpackedUint32Extension := UnpackedUint32Extension s\<rparr>,
     \<lambda>res. res\<lparr>UnpackedUint64Extension := UnpackedUint64Extension s\<rparr>,
     \<lambda>res. res\<lparr>UnpackedSint32Extension := UnpackedSint32Extension s\<rparr>,
     \<lambda>res. res\<lparr>UnpackedSint64Extension := UnpackedSint64Extension s\<rparr>,
     \<lambda>res. res\<lparr>UnpackedFixed32Extension := UnpackedFixed32Extension s\<rparr>,
     \<lambda>res. res\<lparr>UnpackedFixed64Extension := UnpackedFixed64Extension s\<rparr>,
     \<lambda>res. res\<lparr>UnpackedSfixed32Extension := UnpackedSfixed32Extension s\<rparr>,
     \<lambda>res. res\<lparr>UnpackedSfixed64Extension := UnpackedSfixed64Extension s\<rparr>,
     \<lambda>res. res\<lparr>UnpackedFloatExtension := UnpackedFloatExtension s\<rparr>,
     \<lambda>res. res\<lparr>UnpackedDoubleExtension := UnpackedDoubleExtension s\<rparr>,
     \<lambda>res. res\<lparr>UnpackedBoolExtension := UnpackedBoolExtension s\<rparr>,
     \<lambda>res. res\<lparr>UnpackedEnumExtension := UnpackedEnumExtension s\<rparr>]"

lemma TestUnpackedExtensions_cases_distinct: "distinct (map fst (TestUnpackedExtensionsReader_cases wire offset))"
  by (rule ascending_distinct) (simp add: TestUnpackedExtensionsReader_cases_def wireTestUnpackedExtensions)

lemma TestUnpackedExtensions_stores:
  "stores_cell TestUnpackedExtensionsReader_save wireTestUnpackedExtensions_UnpackedInt32Extension addTyped cellUnpackedInt32Extension"
  "stores_cell TestUnpackedExtensionsReader_save wireTestUnpackedExtensions_UnpackedInt64Extension addTyped cellUnpackedInt64Extension"
  "stores_cell TestUnpackedExtensionsReader_save wireTestUnpackedExtensions_UnpackedUint32Extension addTyped cellUnpackedUint32Extension"
  "stores_cell TestUnpackedExtensionsReader_save wireTestUnpackedExtensions_UnpackedUint64Extension addTyped cellUnpackedUint64Extension"
  "stores_cell TestUnpackedExtensionsReader_save wireTestUnpackedExtensions_UnpackedSint32Extension addTyped cellUnpackedSint32Extension"
  "stores_cell TestUnpackedExtensionsReader_save wireTestUnpackedExtensions_UnpackedSint64Extension addTyped cellUnpackedSint64Extension"
  "stores_cell TestUnpackedExtensionsReader_save wireTestUnpackedExtensions_UnpackedFixed32Extension addTyped cellUnpackedFixed32Extension"
  "stores_cell TestUnpackedExtensionsReader_save wireTestUnpackedExtensions_UnpackedFixed64Extension addTyped cellUnpackedFixed64Extension"
  "stores_cell TestUnpackedExtensionsReader_save wireTestUnpackedExtensions_UnpackedSfixed32Extension addTyped cellUnpackedSfixed32Extension"
  "stores_cell TestUnpackedExtensionsReader_save wireTestUnpackedExtensions_UnpackedSfixed64Extension addTyped cellUnpackedSfixed64Extension"
  "stores_cell TestUnpackedExtensionsReader_save wireTestUnpackedExtensions_UnpackedFloatExtension addTyped cellUnpackedFloatExtension"
  "stores_cell TestUnpackedExtensionsReader_save wireTestUnpackedExtensions_UnpackedDoubleExtension addTyped cellUnpackedDoubleExtension"
  "stores_cell TestUnpackedExtensionsReader_save wireTestUnpackedExtensions_UnpackedBoolExtension addTyped cellUnpackedBoolExtension"
  "stores_cell TestUnpackedExtensionsReader_save wireTestUnpackedExtensions_UnpackedEnumExtension addTyped cellUnpackedEnumExtension"
  unfolding TestUnpackedExtensionsReader_save_def [abs_def] by (rule stores_cell_switch; (rule TestUnpackedExtensions_cases_distinct)?; unfold TestUnpackedExtensionsReader_cases_def; intro own_case.intros; simp)+

lemma TestUnpackedExtensions_saved: "good_fields TestUnpackedExtensionsReader_save p (NewTestUnpackedExtensionsReader\<lparr>mbuf := Some p\<rparr>) TestUnpackedExtensions_tags (TestUnpackedExtensions_groups s) (TestUnpackedExtensions_ready p s)"
  unfolding TestUnpackedExtensions_tags_def TestUnpackedExtensions_groups_def TestUnpackedExtensions_ready_def
  by (intro good_fields.intros field_saved TestUnpackedExtensions_stores) (simp_all add: NewTestUnpackedExtensionsReader_def newCell_def)

lemma TestUnpackedExtensions_converted: "good_stmts mbuf p (TestUnpackedExtensions_stmts) (TestUnpackedExtensions_ready p s) (TestUnpackedExtensions_stored s)"
  unfolding TestUnpackedExtensions_stmts_def TestUnpackedExtensions_ready_def TestUnpackedExtensions_stored_def TestUnpackedExtensions_getters append.simps
  by (intro good_stmts_field good_stmts.Nil) (simp_all cong: cell_reads_cong)

interpretation l_TestUnpackedExtensions: lazy_message TestUnpackedExtensions_tags TestUnpackedExtensions_groups TestUnpackedExtensions_norm
  "\<lambda>s. TestUnpackedExtensions_sizes1 s @ TestUnpackedExtensions_sizes2 s" "\<lambda>s. TestUnpackedExtensions_appends1 s @ TestUnpackedExtensions_appends2 s"
  TestUnpackedExtensionsReader_save "\<lambda>p. NewTestUnpackedExtensionsReader\<lparr>mbuf := Some p\<rparr>" mbuf "TestUnpackedExtensions_stmts" TestUnpackedExtensions_zero TestUnpackedExtensions_ready TestUnpackedExtensions_stored
proof
  show "distinct TestUnpackedExtensions_tags"
    using TestUnpackedExtensions_cases_distinct by (simp only: TestUnpackedExtensionsReader_cases_def TestUnpackedExtensions_tags_def list.map fst_conv)
  show "list_all valid_tag TestUnpackedExtensions_tags"
    by (simp add: TestUnpackedExtensions_tags_def wireTestUnpackedExtensions valid_tag_def)
  show "list_all2 (\<lambda>t g. \<forall>f \<in> set g. fst f = t \<and> wf_val (snd f)) TestUnpackedExtensions_tags (TestUnpackedExtensions_groups s)" for s
    unfolding TestUnpackedExtensions_tags_def TestUnpackedExtensions_groups_def by (intro list.rel_intros field_tagged)
  show "list_all2 (\<lambda>e g. e = int (length (fields_bytes g))) (TestUnpackedExtensions_sizes1 s @ TestUnpackedExtensions_sizes2 s) (TestUnpackedExtensions_groups s)" for s
    unfolding TestUnpackedExtensions_sizes1_def TestUnpackedExtensions_sizes2_def TestUnpackedExtensions_groups_def append.simps
    by (intro list.rel_intros field_sized)
  show "list_all2 (\<lambda>st g. writes st (fields_bytes g)) (TestUnpackedExtensions_appends1 s @ TestUnpackedExtensions_appends2 s) (TestUnpackedExtensions_groups s)" for s
    unfolding TestUnpackedExtensions_appends1_def TestUnpackedExtensions_appends2_def TestUnpackedExtensions_groups_def append.simps
    by (intro list.rel_intros field_written)
  show "mbuf (TestUnpackedExtensionsReader_save t w off m) = mbuf m" for t w off m
    unfolding TestUnpackedExtensionsReader_save_def by (rule tag_switch_keeps) (simp add: TestUnpackedExtensionsReader_cases_def)
  show "fold (\<lambda>e. e) (TestUnpackedExtensions_stored s) TestUnpackedExtensions_zero = TestUnpackedExtensions_norm s" for s
    unfolding TestUnpackedExtensions_stored_def by (simp add: TestUnpackedExtensions_zero_def TestUnpackedExtensions_norm_def float_defaults)
qed (simp_all add: TestUnpackedExtensions_saved TestUnpackedExtensions_converted)

interpretation m_TestUnpackedExtensions: message_codec TestUnpackedExtensions_content TestUnpackedExtensions_norm TestUnpackedExtensions_XXX_PbContentSize TestUnpackedExtensions_MarshalTo
  "TestUnpackedExtensionsReader_Unmarshal NewTestUnpackedExtensionsReader" TestUnpackedExtensionsReader_ToStruct
  using l_TestUnpackedExtensions.message
  by (simp only: TestUnpackedExtensions_content_def [abs_def] TestUnpackedExtensions_XXX_PbContentSize_def TestUnpackedExtensions_MarshalTo_def TestUnpackedExtensionsReader_Unmarshal_def [abs_def] TestUnpackedExtensionsReader_ToStruct_def)


section \<open>TestRepeatedScalarDifferentTagSizes: the reader\<close>

definition wireTestRepeatedScalarDifferentTagSizes_RepeatedFixed32 :: ProtoWireNumber where "wireTestRepeatedScalarDifferentTagSizes_RepeatedFixed32 = 12"
definition wireTestRepeatedScalarDifferentTagSizes_RepeatedInt32 :: ProtoWireNumber where "wireTestRepeatedScalarDifferentTagSizes_RepeatedInt32 = 13"
definition wireTestRepeatedScalarDifferentTagSizes_RepeatedFixed64 :: ProtoWireNumber where "wireTestRepeatedScalarDifferentTagSizes_RepeatedFixed64 = 2046"
definition wireTestRepeatedScalarDifferentTagSizes_RepeatedInt64 :: ProtoWireNumber where "wireTestRepeatedScalarDifferentTagSizes_RepeatedInt64 = 2047"
definition wireTestRepeatedScalarDifferentTagSizes_RepeatedFloat :: ProtoWireNumber where "wireTestRepeatedScalarDifferentTagSizes_RepeatedFloat = 262142"
definition wireTestRepeatedScalarDifferentTagSizes_RepeatedUint64 :: ProtoWireNumber where "wireTestRepeatedScalarDifferentTagSizes_RepeatedUint64 = 262143"

lemmas wireTestRepeatedScalarDifferentTagSizes =
  wireTestRepeatedScalarDifferentTagSizes_RepeatedFixed32_def
  wireTestRepeatedScalarDifferentTagSizes_RepeatedInt32_def
  wireTestRepeatedScalarDifferentTagSizes_RepeatedFixed64_def
  wireTestRepeatedScalarDifferentTagSizes_RepeatedInt64_def
  wireTestRepeatedScalarDifferentTagSizes_RepeatedFloat_def
  wireTestRepeatedScalarDifferentTagSizes_RepeatedUint64_def

record TestRepeatedScalarDifferentTagSizesReader =
  mbuf :: "Reader option"
  cellRepeatedFixed32 :: "uint32 packed_cell"
  cellRepeatedInt32 :: "int32 packed_cell"
  cellRepeatedFixed64 :: "uint64 packed_cell"
  cellRepeatedInt64 :: "int64 packed_cell"
  cellRepeatedFloat :: "float32 packed_cell"
  cellRepeatedUint64 :: "uint64 packed_cell"

definition NewTestRepeatedScalarDifferentTagSizesReader :: TestRepeatedScalarDifferentTagSizesReader where
  "NewTestRepeatedScalarDifferentTagSizesReader = \<lparr>
     mbuf = None, cellRepeatedFixed32 = newCell [] ([], []),
     cellRepeatedInt32 = newCell [] ([], []), cellRepeatedFixed64 = newCell [] ([], []),
     cellRepeatedInt64 = newCell [] ([], []), cellRepeatedFloat = newCell [] ([], []),
     cellRepeatedUint64 = newCell [] ([], [])\<rparr>"

definition TestRepeatedScalarDifferentTagSizesReader_readRepeatedFixed32 :: "TestRepeatedScalarDifferentTagSizesReader \<Rightarrow> (uint32 list \<times> TestRepeatedScalarDifferentTagSizesReader) run" where
  "TestRepeatedScalarDifferentTagSizesReader_readRepeatedFixed32 = readCell cellRepeatedFixed32 cellRepeatedFixed32_update mbuf (readPacked ReadFixed32 SizedReadFixed32 0)"

definition TestRepeatedScalarDifferentTagSizesReader_GetRepeatedFixed32 :: "TestRepeatedScalarDifferentTagSizesReader option \<Rightarrow> (uint32 list \<times> TestRepeatedScalarDifferentTagSizesReader option) run" where
  "TestRepeatedScalarDifferentTagSizesReader_GetRepeatedFixed32 = getter TestRepeatedScalarDifferentTagSizesReader_readRepeatedFixed32 []"

definition TestRepeatedScalarDifferentTagSizesReader_readRepeatedInt32 :: "TestRepeatedScalarDifferentTagSizesReader \<Rightarrow> (int32 list \<times> TestRepeatedScalarDifferentTagSizesReader) run" where
  "TestRepeatedScalarDifferentTagSizesReader_readRepeatedInt32 = readCell cellRepeatedInt32 cellRepeatedInt32_update mbuf (readPacked ReadInt32 SizedReadInt32 0)"

definition TestRepeatedScalarDifferentTagSizesReader_GetRepeatedInt32 :: "TestRepeatedScalarDifferentTagSizesReader option \<Rightarrow> (int32 list \<times> TestRepeatedScalarDifferentTagSizesReader option) run" where
  "TestRepeatedScalarDifferentTagSizesReader_GetRepeatedInt32 = getter TestRepeatedScalarDifferentTagSizesReader_readRepeatedInt32 []"

definition TestRepeatedScalarDifferentTagSizesReader_readRepeatedFixed64 :: "TestRepeatedScalarDifferentTagSizesReader \<Rightarrow> (uint64 list \<times> TestRepeatedScalarDifferentTagSizesReader) run" where
  "TestRepeatedScalarDifferentTagSizesReader_readRepeatedFixed64 = readCell cellRepeatedFixed64 cellRepeatedFixed64_update mbuf (readPacked ReadFixed64 SizedReadFixed64 0)"

definition TestRepeatedScalarDifferentTagSizesReader_GetRepeatedFixed64 :: "TestRepeatedScalarDifferentTagSizesReader option \<Rightarrow> (uint64 list \<times> TestRepeatedScalarDifferentTagSizesReader option) run" where
  "TestRepeatedScalarDifferentTagSizesReader_GetRepeatedFixed64 = getter TestRepeatedScalarDifferentTagSizesReader_readRepeatedFixed64 []"

definition TestRepeatedScalarDifferentTagSizesReader_readRepeatedInt64 :: "TestRepeatedScalarDifferentTagSizesReader \<Rightarrow> (int64 list \<times> TestRepeatedScalarDifferentTagSizesReader) run" where
  "TestRepeatedScalarDifferentTagSizesReader_readRepeatedInt64 = readCell cellRepeatedInt64 cellRepeatedInt64_update mbuf (readPacked ReadInt64 SizedReadInt64 0)"

definition TestRepeatedScalarDifferentTagSizesReader_GetRepeatedInt64 :: "TestRepeatedScalarDifferentTagSizesReader option \<Rightarrow> (int64 list \<times> TestRepeatedScalarDifferentTagSizesReader option) run" where
  "TestRepeatedScalarDifferentTagSizesReader_GetRepeatedInt64 = getter TestRepeatedScalarDifferentTagSizesReader_readRepeatedInt64 []"

definition TestRepeatedScalarDifferentTagSizesReader_readRepeatedFloat :: "TestRepeatedScalarDifferentTagSizesReader \<Rightarrow> (float32 list \<times> TestRepeatedScalarDifferentTagSizesReader) run" where
  "TestRepeatedScalarDifferentTagSizesReader_readRepeatedFloat = readCell cellRepeatedFloat cellRepeatedFloat_update mbuf (readPacked ReadFloat32 SizedReadFloat32 0)"

definition TestRepeatedScalarDifferentTagSizesReader_GetRepeatedFloat :: "TestRepeatedScalarDifferentTagSizesReader option \<Rightarrow> (float32 list \<times> TestRepeatedScalarDifferentTagSizesReader option) run" where
  "TestRepeatedScalarDifferentTagSizesReader_GetRepeatedFloat = getter TestRepeatedScalarDifferentTagSizesReader_readRepeatedFloat []"

definition TestRepeatedScalarDifferentTagSizesReader_readRepeatedUint64 :: "TestRepeatedScalarDifferentTagSizesReader \<Rightarrow> (uint64 list \<times> TestRepeatedScalarDifferentTagSizesReader) run" where
  "TestRepeatedScalarDifferentTagSizesReader_readRepeatedUint64 = readCell cellRepeatedUint64 cellRepeatedUint64_update mbuf (readPacked ReadUint64 SizedReadUint64 0)"

definition TestRepeatedScalarDifferentTagSizesReader_GetRepeatedUint64 :: "TestRepeatedScalarDifferentTagSizesReader option \<Rightarrow> (uint64 list \<times> TestRepeatedScalarDifferentTagSizesReader option) run" where
  "TestRepeatedScalarDifferentTagSizesReader_GetRepeatedUint64 = getter TestRepeatedScalarDifferentTagSizesReader_readRepeatedUint64 []"

lemmas TestRepeatedScalarDifferentTagSizes_getters =
  TestRepeatedScalarDifferentTagSizesReader_readRepeatedFixed32_def TestRepeatedScalarDifferentTagSizesReader_GetRepeatedFixed32_def
  TestRepeatedScalarDifferentTagSizesReader_readRepeatedInt32_def TestRepeatedScalarDifferentTagSizesReader_GetRepeatedInt32_def
  TestRepeatedScalarDifferentTagSizesReader_readRepeatedFixed64_def TestRepeatedScalarDifferentTagSizesReader_GetRepeatedFixed64_def
  TestRepeatedScalarDifferentTagSizesReader_readRepeatedInt64_def TestRepeatedScalarDifferentTagSizesReader_GetRepeatedInt64_def
  TestRepeatedScalarDifferentTagSizesReader_readRepeatedFloat_def TestRepeatedScalarDifferentTagSizesReader_GetRepeatedFloat_def
  TestRepeatedScalarDifferentTagSizesReader_readRepeatedUint64_def TestRepeatedScalarDifferentTagSizesReader_GetRepeatedUint64_def

definition TestRepeatedScalarDifferentTagSizesReader_cases :: "ProtoWireType \<Rightarrow> int \<Rightarrow> (ProtoWireNumber \<times> (TestRepeatedScalarDifferentTagSizesReader \<Rightarrow> TestRepeatedScalarDifferentTagSizesReader)) list" where
  "TestRepeatedScalarDifferentTagSizesReader_cases wire offset = [
     (wireTestRepeatedScalarDifferentTagSizes_RepeatedFixed32, \<lambda>m. m\<lparr>cellRepeatedFixed32 := onOffset (addTyped wire offset) (cellRepeatedFixed32 m)\<rparr>),
     (wireTestRepeatedScalarDifferentTagSizes_RepeatedInt32, \<lambda>m. m\<lparr>cellRepeatedInt32 := onOffset (addTyped wire offset) (cellRepeatedInt32 m)\<rparr>),
     (wireTestRepeatedScalarDifferentTagSizes_RepeatedFixed64, \<lambda>m. m\<lparr>cellRepeatedFixed64 := onOffset (addTyped wire offset) (cellRepeatedFixed64 m)\<rparr>),
     (wireTestRepeatedScalarDifferentTagSizes_RepeatedInt64, \<lambda>m. m\<lparr>cellRepeatedInt64 := onOffset (addTyped wire offset) (cellRepeatedInt64 m)\<rparr>),
     (wireTestRepeatedScalarDifferentTagSizes_RepeatedFloat, \<lambda>m. m\<lparr>cellRepeatedFloat := onOffset (addTyped wire offset) (cellRepeatedFloat m)\<rparr>),
     (wireTestRepeatedScalarDifferentTagSizes_RepeatedUint64, \<lambda>m. m\<lparr>cellRepeatedUint64 := onOffset (addTyped wire offset) (cellRepeatedUint64 m)\<rparr>)]"

definition TestRepeatedScalarDifferentTagSizesReader_save :: "ProtoWireNumber \<Rightarrow> ProtoWireType \<Rightarrow> int \<Rightarrow> TestRepeatedScalarDifferentTagSizesReader \<Rightarrow> TestRepeatedScalarDifferentTagSizesReader" where
  "TestRepeatedScalarDifferentTagSizesReader_save tag wire offset = tag_switch (TestRepeatedScalarDifferentTagSizesReader_cases wire offset) tag"

definition TestRepeatedScalarDifferentTagSizesReader_Unmarshal :: "TestRepeatedScalarDifferentTagSizesReader \<Rightarrow> gslice \<Rightarrow> (TestRepeatedScalarDifferentTagSizesReader \<times> string option) run" where
  "TestRepeatedScalarDifferentTagSizesReader_Unmarshal m data =
     unmarshalLoop TestRepeatedScalarDifferentTagSizesReader_save (NewReader data) 0 (m\<lparr>mbuf := Some (NewReader data)\<rparr>)"

definition TestRepeatedScalarDifferentTagSizesReader_SourceBytes :: "TestRepeatedScalarDifferentTagSizesReader option \<Rightarrow> gslice" where
  "TestRepeatedScalarDifferentTagSizesReader_SourceBytes s = (case s of None \<Rightarrow> nil_slice | Some r \<Rightarrow> Bytes (mbuf r))"

section \<open>TestRepeatedScalarDifferentTagSizes: the struct\<close>

record TestRepeatedScalarDifferentTagSizes =
  RepeatedFixed32 :: "uint32 list"
  RepeatedInt32 :: "int32 list"
  RepeatedFixed64 :: "uint64 list"
  RepeatedInt64 :: "int64 list"
  RepeatedFloat :: "float32 list"
  RepeatedUint64 :: "uint64 list"

definition TestRepeatedScalarDifferentTagSizes_zero :: TestRepeatedScalarDifferentTagSizes where
  "TestRepeatedScalarDifferentTagSizes_zero = \<lparr>
     RepeatedFixed32 = [], RepeatedInt32 = [], RepeatedFixed64 = [], RepeatedInt64 = [],
     RepeatedFloat = [], RepeatedUint64 = []\<rparr>"

definition TestRepeatedScalarDifferentTagSizes_stmts :: "(TestRepeatedScalarDifferentTagSizes \<times> TestRepeatedScalarDifferentTagSizesReader option \<Rightarrow> (TestRepeatedScalarDifferentTagSizes \<times> TestRepeatedScalarDifferentTagSizesReader option) run) list" where
  "TestRepeatedScalarDifferentTagSizes_stmts = [
     assign TestRepeatedScalarDifferentTagSizesReader_GetRepeatedFixed32 (\<lambda>v res. res\<lparr>RepeatedFixed32 := v\<rparr>),
     assign TestRepeatedScalarDifferentTagSizesReader_GetRepeatedInt32 (\<lambda>v res. res\<lparr>RepeatedInt32 := v\<rparr>),
     assign TestRepeatedScalarDifferentTagSizesReader_GetRepeatedFixed64 (\<lambda>v res. res\<lparr>RepeatedFixed64 := v\<rparr>),
     assign TestRepeatedScalarDifferentTagSizesReader_GetRepeatedInt64 (\<lambda>v res. res\<lparr>RepeatedInt64 := v\<rparr>),
     assign TestRepeatedScalarDifferentTagSizesReader_GetRepeatedFloat (\<lambda>v res. res\<lparr>RepeatedFloat := v\<rparr>),
     assign TestRepeatedScalarDifferentTagSizesReader_GetRepeatedUint64 (\<lambda>v res. res\<lparr>RepeatedUint64 := v\<rparr>)]"

definition TestRepeatedScalarDifferentTagSizesReader_ToStruct :: "TestRepeatedScalarDifferentTagSizesReader option \<Rightarrow> (TestRepeatedScalarDifferentTagSizes option \<times> TestRepeatedScalarDifferentTagSizesReader option) run" where
  "TestRepeatedScalarDifferentTagSizesReader_ToStruct = toStructWith (TestRepeatedScalarDifferentTagSizes_stmts) TestRepeatedScalarDifferentTagSizes_zero"

definition TestRepeatedScalarDifferentTagSizes_appends :: "TestRepeatedScalarDifferentTagSizes \<Rightarrow> (Writer \<Rightarrow> Writer go) list" where
  "TestRepeatedScalarDifferentTagSizes_appends s = [
     \<lambda>res. if RepeatedFixed32 s \<noteq> [] then packedWriter AppendFixed32WithoutTag AppendFixed32 SizeFixed32 res wireTestRepeatedScalarDifferentTagSizes_RepeatedFixed32 (RepeatedFixed32 s) else Ret res,
     \<lambda>res. if RepeatedInt32 s \<noteq> [] then packedWriter AppendInt32WithoutTag AppendInt32 SizeInt32 res wireTestRepeatedScalarDifferentTagSizes_RepeatedInt32 (RepeatedInt32 s) else Ret res,
     \<lambda>res. if RepeatedFixed64 s \<noteq> [] then packedWriter AppendFixed64WithoutTag AppendFixed64 SizeFixed64 res wireTestRepeatedScalarDifferentTagSizes_RepeatedFixed64 (RepeatedFixed64 s) else Ret res,
     \<lambda>res. if RepeatedInt64 s \<noteq> [] then packedWriter AppendInt64WithoutTag AppendInt64 SizeInt64 res wireTestRepeatedScalarDifferentTagSizes_RepeatedInt64 (RepeatedInt64 s) else Ret res,
     \<lambda>res. if RepeatedFloat s \<noteq> [] then packedWriter AppendFloat32WithoutTag AppendFloat32 SizeFloat32 res wireTestRepeatedScalarDifferentTagSizes_RepeatedFloat (RepeatedFloat s) else Ret res,
     \<lambda>res. if RepeatedUint64 s \<noteq> [] then packedWriter AppendUint64WithoutTag AppendUint64 SizeUint64 res wireTestRepeatedScalarDifferentTagSizes_RepeatedUint64 (RepeatedUint64 s) else Ret res]"

definition TestRepeatedScalarDifferentTagSizes_MarshalTo :: "Writer \<Rightarrow> TestRepeatedScalarDifferentTagSizes option \<Rightarrow> Writer go" where
  "TestRepeatedScalarDifferentTagSizes_MarshalTo = marshalToWith (\<lambda>s. TestRepeatedScalarDifferentTagSizes_appends s)"

definition TestRepeatedScalarDifferentTagSizes_sizes :: "TestRepeatedScalarDifferentTagSizes \<Rightarrow> int list" where
  "TestRepeatedScalarDifferentTagSizes_sizes s = [
     if RepeatedFixed32 s \<noteq> [] then packedSize SizeFixed32 wireTestRepeatedScalarDifferentTagSizes_RepeatedFixed32 (RepeatedFixed32 s) else 0,
     if RepeatedInt32 s \<noteq> [] then packedSize SizeInt32 wireTestRepeatedScalarDifferentTagSizes_RepeatedInt32 (RepeatedInt32 s) else 0,
     if RepeatedFixed64 s \<noteq> [] then packedSize SizeFixed64 wireTestRepeatedScalarDifferentTagSizes_RepeatedFixed64 (RepeatedFixed64 s) else 0,
     if RepeatedInt64 s \<noteq> [] then packedSize SizeInt64 wireTestRepeatedScalarDifferentTagSizes_RepeatedInt64 (RepeatedInt64 s) else 0,
     if RepeatedFloat s \<noteq> [] then packedSize SizeFloat32 wireTestRepeatedScalarDifferentTagSizes_RepeatedFloat (RepeatedFloat s) else 0,
     if RepeatedUint64 s \<noteq> [] then packedSize SizeUint64 wireTestRepeatedScalarDifferentTagSizes_RepeatedUint64 (RepeatedUint64 s) else 0]"

definition TestRepeatedScalarDifferentTagSizes_XXX_PbContentSize :: "TestRepeatedScalarDifferentTagSizes option \<Rightarrow> int" where
  "TestRepeatedScalarDifferentTagSizes_XXX_PbContentSize = contentSizeWith (\<lambda>s. TestRepeatedScalarDifferentTagSizes_sizes s)"

definition TestRepeatedScalarDifferentTagSizes_Marshal :: "TestRepeatedScalarDifferentTagSizes option \<Rightarrow> byte list go" where
  "TestRepeatedScalarDifferentTagSizes_Marshal = marshalWith TestRepeatedScalarDifferentTagSizes_XXX_PbContentSize TestRepeatedScalarDifferentTagSizes_MarshalTo"

definition TestRepeatedScalarDifferentTagSizes_Copy :: "TestRepeatedScalarDifferentTagSizes option \<Rightarrow> TestRepeatedScalarDifferentTagSizes option" where
  "TestRepeatedScalarDifferentTagSizes_Copy s =
     (case s of None \<Rightarrow> None | Some s \<Rightarrow> Some \<lparr>
        RepeatedFixed32 = RepeatedFixed32 s, RepeatedInt32 = RepeatedInt32 s,
        RepeatedFixed64 = RepeatedFixed64 s, RepeatedInt64 = RepeatedInt64 s,
        RepeatedFloat = RepeatedFloat s, RepeatedUint64 = RepeatedUint64 s\<rparr>)"

section \<open>TestRepeatedScalarDifferentTagSizes: the round trip\<close>

definition TestRepeatedScalarDifferentTagSizes_tags :: "ProtoWireNumber list" where
  "TestRepeatedScalarDifferentTagSizes_tags = [
     wireTestRepeatedScalarDifferentTagSizes_RepeatedFixed32,
     wireTestRepeatedScalarDifferentTagSizes_RepeatedInt32,
     wireTestRepeatedScalarDifferentTagSizes_RepeatedFixed64,
     wireTestRepeatedScalarDifferentTagSizes_RepeatedInt64,
     wireTestRepeatedScalarDifferentTagSizes_RepeatedFloat,
     wireTestRepeatedScalarDifferentTagSizes_RepeatedUint64]"

definition TestRepeatedScalarDifferentTagSizes_groups :: "TestRepeatedScalarDifferentTagSizes \<Rightarrow> wfield list list" where
  "TestRepeatedScalarDifferentTagSizes_groups s = [
     packed_fields WFixed32 wireTestRepeatedScalarDifferentTagSizes_RepeatedFixed32 (RepeatedFixed32 s),
     packed_fields int32_val wireTestRepeatedScalarDifferentTagSizes_RepeatedInt32 (RepeatedInt32 s),
     packed_fields WFixed64 wireTestRepeatedScalarDifferentTagSizes_RepeatedFixed64 (RepeatedFixed64 s),
     packed_fields int64_val wireTestRepeatedScalarDifferentTagSizes_RepeatedInt64 (RepeatedInt64 s),
     packed_fields WFixed32 wireTestRepeatedScalarDifferentTagSizes_RepeatedFloat (RepeatedFloat s),
     packed_fields uint64_val wireTestRepeatedScalarDifferentTagSizes_RepeatedUint64 (RepeatedUint64 s)]"

definition TestRepeatedScalarDifferentTagSizes_content :: "TestRepeatedScalarDifferentTagSizes \<Rightarrow> wfield list" where
  "TestRepeatedScalarDifferentTagSizes_content s = concat (TestRepeatedScalarDifferentTagSizes_groups s)"

text \<open>What a round trip keeps.\<close>

definition TestRepeatedScalarDifferentTagSizes_norm :: "TestRepeatedScalarDifferentTagSizes \<Rightarrow> TestRepeatedScalarDifferentTagSizes" where
  "TestRepeatedScalarDifferentTagSizes_norm s = s"

definition TestRepeatedScalarDifferentTagSizes_ready :: "Reader \<Rightarrow> TestRepeatedScalarDifferentTagSizes \<Rightarrow> (TestRepeatedScalarDifferentTagSizesReader \<Rightarrow> bool) list" where
  "TestRepeatedScalarDifferentTagSizes_ready p s = [
     \<lambda>m. cell_reads (readPacked ReadFixed32 SizedReadFixed32 0) plain p (RepeatedFixed32 s) (cellRepeatedFixed32 m),
     \<lambda>m. cell_reads (readPacked ReadInt32 SizedReadInt32 0) plain p (RepeatedInt32 s) (cellRepeatedInt32 m),
     \<lambda>m. cell_reads (readPacked ReadFixed64 SizedReadFixed64 0) plain p (RepeatedFixed64 s) (cellRepeatedFixed64 m),
     \<lambda>m. cell_reads (readPacked ReadInt64 SizedReadInt64 0) plain p (RepeatedInt64 s) (cellRepeatedInt64 m),
     \<lambda>m. cell_reads (readPacked ReadFloat32 SizedReadFloat32 0) plain p (RepeatedFloat s) (cellRepeatedFloat m),
     \<lambda>m. cell_reads (readPacked ReadUint64 SizedReadUint64 0) plain p (RepeatedUint64 s) (cellRepeatedUint64 m)]"

definition TestRepeatedScalarDifferentTagSizes_stored :: "TestRepeatedScalarDifferentTagSizes \<Rightarrow> (TestRepeatedScalarDifferentTagSizes \<Rightarrow> TestRepeatedScalarDifferentTagSizes) list" where
  "TestRepeatedScalarDifferentTagSizes_stored s = [
     \<lambda>res. res\<lparr>RepeatedFixed32 := RepeatedFixed32 s\<rparr>,
     \<lambda>res. res\<lparr>RepeatedInt32 := RepeatedInt32 s\<rparr>,
     \<lambda>res. res\<lparr>RepeatedFixed64 := RepeatedFixed64 s\<rparr>,
     \<lambda>res. res\<lparr>RepeatedInt64 := RepeatedInt64 s\<rparr>,
     \<lambda>res. res\<lparr>RepeatedFloat := RepeatedFloat s\<rparr>,
     \<lambda>res. res\<lparr>RepeatedUint64 := RepeatedUint64 s\<rparr>]"

lemma TestRepeatedScalarDifferentTagSizes_cases_distinct: "distinct (map fst (TestRepeatedScalarDifferentTagSizesReader_cases wire offset))"
  by (rule ascending_distinct) (simp add: TestRepeatedScalarDifferentTagSizesReader_cases_def wireTestRepeatedScalarDifferentTagSizes)

lemma TestRepeatedScalarDifferentTagSizes_stores:
  "stores_cell TestRepeatedScalarDifferentTagSizesReader_save wireTestRepeatedScalarDifferentTagSizes_RepeatedFixed32 addTyped cellRepeatedFixed32"
  "stores_cell TestRepeatedScalarDifferentTagSizesReader_save wireTestRepeatedScalarDifferentTagSizes_RepeatedInt32 addTyped cellRepeatedInt32"
  "stores_cell TestRepeatedScalarDifferentTagSizesReader_save wireTestRepeatedScalarDifferentTagSizes_RepeatedFixed64 addTyped cellRepeatedFixed64"
  "stores_cell TestRepeatedScalarDifferentTagSizesReader_save wireTestRepeatedScalarDifferentTagSizes_RepeatedInt64 addTyped cellRepeatedInt64"
  "stores_cell TestRepeatedScalarDifferentTagSizesReader_save wireTestRepeatedScalarDifferentTagSizes_RepeatedFloat addTyped cellRepeatedFloat"
  "stores_cell TestRepeatedScalarDifferentTagSizesReader_save wireTestRepeatedScalarDifferentTagSizes_RepeatedUint64 addTyped cellRepeatedUint64"
  unfolding TestRepeatedScalarDifferentTagSizesReader_save_def [abs_def] by (rule stores_cell_switch; (rule TestRepeatedScalarDifferentTagSizes_cases_distinct)?; unfold TestRepeatedScalarDifferentTagSizesReader_cases_def; intro own_case.intros; simp)+

lemma TestRepeatedScalarDifferentTagSizes_saved: "good_fields TestRepeatedScalarDifferentTagSizesReader_save p (NewTestRepeatedScalarDifferentTagSizesReader\<lparr>mbuf := Some p\<rparr>) TestRepeatedScalarDifferentTagSizes_tags (TestRepeatedScalarDifferentTagSizes_groups s) (TestRepeatedScalarDifferentTagSizes_ready p s)"
  unfolding TestRepeatedScalarDifferentTagSizes_tags_def TestRepeatedScalarDifferentTagSizes_groups_def TestRepeatedScalarDifferentTagSizes_ready_def
  by (intro good_fields.intros field_saved TestRepeatedScalarDifferentTagSizes_stores) (simp_all add: NewTestRepeatedScalarDifferentTagSizesReader_def newCell_def)

lemma TestRepeatedScalarDifferentTagSizes_converted: "good_stmts mbuf p (TestRepeatedScalarDifferentTagSizes_stmts) (TestRepeatedScalarDifferentTagSizes_ready p s) (TestRepeatedScalarDifferentTagSizes_stored s)"
  unfolding TestRepeatedScalarDifferentTagSizes_stmts_def TestRepeatedScalarDifferentTagSizes_ready_def TestRepeatedScalarDifferentTagSizes_stored_def TestRepeatedScalarDifferentTagSizes_getters append.simps
  by (intro good_stmts_field good_stmts.Nil) (simp_all cong: cell_reads_cong)

interpretation l_TestRepeatedScalarDifferentTagSizes: lazy_message TestRepeatedScalarDifferentTagSizes_tags TestRepeatedScalarDifferentTagSizes_groups TestRepeatedScalarDifferentTagSizes_norm
  "\<lambda>s. TestRepeatedScalarDifferentTagSizes_sizes s" "\<lambda>s. TestRepeatedScalarDifferentTagSizes_appends s"
  TestRepeatedScalarDifferentTagSizesReader_save "\<lambda>p. NewTestRepeatedScalarDifferentTagSizesReader\<lparr>mbuf := Some p\<rparr>" mbuf "TestRepeatedScalarDifferentTagSizes_stmts" TestRepeatedScalarDifferentTagSizes_zero TestRepeatedScalarDifferentTagSizes_ready TestRepeatedScalarDifferentTagSizes_stored
proof
  show "distinct TestRepeatedScalarDifferentTagSizes_tags"
    using TestRepeatedScalarDifferentTagSizes_cases_distinct by (simp only: TestRepeatedScalarDifferentTagSizesReader_cases_def TestRepeatedScalarDifferentTagSizes_tags_def list.map fst_conv)
  show "list_all valid_tag TestRepeatedScalarDifferentTagSizes_tags"
    by (simp add: TestRepeatedScalarDifferentTagSizes_tags_def wireTestRepeatedScalarDifferentTagSizes valid_tag_def)
  show "list_all2 (\<lambda>t g. \<forall>f \<in> set g. fst f = t \<and> wf_val (snd f)) TestRepeatedScalarDifferentTagSizes_tags (TestRepeatedScalarDifferentTagSizes_groups s)" for s
    unfolding TestRepeatedScalarDifferentTagSizes_tags_def TestRepeatedScalarDifferentTagSizes_groups_def by (intro list.rel_intros field_tagged)
  show "list_all2 (\<lambda>e g. e = int (length (fields_bytes g))) (TestRepeatedScalarDifferentTagSizes_sizes s) (TestRepeatedScalarDifferentTagSizes_groups s)" for s
    unfolding TestRepeatedScalarDifferentTagSizes_sizes_def TestRepeatedScalarDifferentTagSizes_groups_def append.simps
    by (intro list.rel_intros field_sized)
  show "list_all2 (\<lambda>st g. writes st (fields_bytes g)) (TestRepeatedScalarDifferentTagSizes_appends s) (TestRepeatedScalarDifferentTagSizes_groups s)" for s
    unfolding TestRepeatedScalarDifferentTagSizes_appends_def TestRepeatedScalarDifferentTagSizes_groups_def append.simps
    by (intro list.rel_intros field_written)
  show "mbuf (TestRepeatedScalarDifferentTagSizesReader_save t w off m) = mbuf m" for t w off m
    unfolding TestRepeatedScalarDifferentTagSizesReader_save_def by (rule tag_switch_keeps) (simp add: TestRepeatedScalarDifferentTagSizesReader_cases_def)
  show "fold (\<lambda>e. e) (TestRepeatedScalarDifferentTagSizes_stored s) TestRepeatedScalarDifferentTagSizes_zero = TestRepeatedScalarDifferentTagSizes_norm s" for s
    unfolding TestRepeatedScalarDifferentTagSizes_stored_def by (simp add: TestRepeatedScalarDifferentTagSizes_zero_def TestRepeatedScalarDifferentTagSizes_norm_def float_defaults)
qed (simp_all add: TestRepeatedScalarDifferentTagSizes_saved TestRepeatedScalarDifferentTagSizes_converted)

interpretation m_TestRepeatedScalarDifferentTagSizes: message_codec TestRepeatedScalarDifferentTagSizes_content TestRepeatedScalarDifferentTagSizes_norm TestRepeatedScalarDifferentTagSizes_XXX_PbContentSize TestRepeatedScalarDifferentTagSizes_MarshalTo
  "TestRepeatedScalarDifferentTagSizesReader_Unmarshal NewTestRepeatedScalarDifferentTagSizesReader" TestRepeatedScalarDifferentTagSizesReader_ToStruct
  using l_TestRepeatedScalarDifferentTagSizes.message
  by (simp only: TestRepeatedScalarDifferentTagSizes_content_def [abs_def] TestRepeatedScalarDifferentTagSizes_XXX_PbContentSize_def TestRepeatedScalarDifferentTagSizes_MarshalTo_def TestRepeatedScalarDifferentTagSizesReader_Unmarshal_def [abs_def] TestRepeatedScalarDifferentTagSizesReader_ToStruct_def)


end
