(* ===== verification/Unittest_Nested.thy ===== *)
theory Unittest_Nested
  imports TestAllTypes_Message Unittest_Packed
begin

text \<open>
  The messages of \<^verbatim>\<open>src/shared/gremlin_go/bench/gremlin_pb/protobuf_unittest/unittest.pb2.go\<close> that embed others, large ones included, and
  the messages without fields.
\<close>

section \<open>TestForeignNested: the reader\<close>

definition wireTestForeignNested_ForeignNested :: ProtoWireNumber where "wireTestForeignNested_ForeignNested = 1"

lemmas wireTestForeignNested =
  wireTestForeignNested_ForeignNested_def

record TestForeignNestedReader =
  mbuf :: "Reader option"
  cellForeignNested :: "(TestAllTypes_NestedMessageReader option) one_cell"

definition NewTestForeignNestedReader :: TestForeignNestedReader where
  "NewTestForeignNestedReader = \<lparr>
     mbuf = None, cellForeignNested = newCell None 0\<rparr>"

definition TestForeignNestedReader_readForeignNested :: "TestForeignNestedReader \<Rightarrow> (TestAllTypes_NestedMessageReader option \<times> TestForeignNestedReader) run" where
  "TestForeignNestedReader_readForeignNested = readCell cellForeignNested cellForeignNested_update mbuf (structReader (TestAllTypes_NestedMessageReader_Unmarshal NewTestAllTypes_NestedMessageReader))"

definition TestForeignNestedReader_GetForeignNested :: "TestForeignNestedReader option \<Rightarrow> (TestAllTypes_NestedMessageReader option \<times> TestForeignNestedReader option) run" where
  "TestForeignNestedReader_GetForeignNested = getter TestForeignNestedReader_readForeignNested None"

lemmas TestForeignNested_getters =
  TestForeignNestedReader_readForeignNested_def TestForeignNestedReader_GetForeignNested_def

definition TestForeignNestedReader_cases :: "ProtoWireType \<Rightarrow> int \<Rightarrow> (ProtoWireNumber \<times> (TestForeignNestedReader \<Rightarrow> TestForeignNestedReader)) list" where
  "TestForeignNestedReader_cases wire offset = [
     (wireTestForeignNested_ForeignNested, \<lambda>m. m\<lparr>cellForeignNested := onOffset (setOffset wire offset) (cellForeignNested m)\<rparr>)]"

definition TestForeignNestedReader_save :: "ProtoWireNumber \<Rightarrow> ProtoWireType \<Rightarrow> int \<Rightarrow> TestForeignNestedReader \<Rightarrow> TestForeignNestedReader" where
  "TestForeignNestedReader_save tag wire offset = tag_switch (TestForeignNestedReader_cases wire offset) tag"

definition TestForeignNestedReader_Unmarshal :: "TestForeignNestedReader \<Rightarrow> gslice \<Rightarrow> (TestForeignNestedReader \<times> string option) run" where
  "TestForeignNestedReader_Unmarshal m data =
     unmarshalLoop TestForeignNestedReader_save (NewReader data) 0 (m\<lparr>mbuf := Some (NewReader data)\<rparr>)"

definition TestForeignNestedReader_SourceBytes :: "TestForeignNestedReader option \<Rightarrow> gslice" where
  "TestForeignNestedReader_SourceBytes s = (case s of None \<Rightarrow> nil_slice | Some r \<Rightarrow> Bytes (mbuf r))"

section \<open>TestForeignNested: the struct\<close>

record TestForeignNested =
  ForeignNested :: "TestAllTypes_NestedMessage option"

definition TestForeignNested_zero :: TestForeignNested where
  "TestForeignNested_zero = \<lparr>
     ForeignNested = None\<rparr>"

definition TestForeignNested_stmts :: "(TestForeignNested \<times> TestForeignNestedReader option \<Rightarrow> (TestForeignNested \<times> TestForeignNestedReader option) run) list" where
  "TestForeignNested_stmts = [
     assignStruct TestForeignNestedReader_GetForeignNested (structToStruct TestAllTypes_NestedMessageReader_ToStruct) cellForeignNested_update
       (\<lambda>v res. res\<lparr>ForeignNested := v\<rparr>)]"

definition TestForeignNestedReader_ToStruct :: "TestForeignNestedReader option \<Rightarrow> (TestForeignNested option \<times> TestForeignNestedReader option) run" where
  "TestForeignNestedReader_ToStruct = toStructWith (TestForeignNested_stmts) TestForeignNested_zero"

definition TestForeignNested_appends :: "TestForeignNested \<Rightarrow> (Writer \<Rightarrow> Writer go) list" where
  "TestForeignNested_appends s = [
     \<lambda>res. if ForeignNested s \<noteq> None then structWriter TestAllTypes_NestedMessage_XXX_PbContentSize TestAllTypes_NestedMessage_MarshalTo res wireTestForeignNested_ForeignNested (ForeignNested s) else Ret res]"

definition TestForeignNested_MarshalTo :: "Writer \<Rightarrow> TestForeignNested option \<Rightarrow> Writer go" where
  "TestForeignNested_MarshalTo = marshalToWith (\<lambda>s. TestForeignNested_appends s)"

definition TestForeignNested_sizes :: "TestForeignNested \<Rightarrow> int list" where
  "TestForeignNested_sizes s = [
     if ForeignNested s \<noteq> None then sizeDelimitedWithTag TestAllTypes_NestedMessage_XXX_PbContentSize wireTestForeignNested_ForeignNested (ForeignNested s) else 0]"

definition TestForeignNested_XXX_PbContentSize :: "TestForeignNested option \<Rightarrow> int" where
  "TestForeignNested_XXX_PbContentSize = contentSizeWith (\<lambda>s. TestForeignNested_sizes s)"

definition TestForeignNested_Marshal :: "TestForeignNested option \<Rightarrow> byte list go" where
  "TestForeignNested_Marshal = marshalWith TestForeignNested_XXX_PbContentSize TestForeignNested_MarshalTo"

definition TestForeignNested_Copy :: "TestForeignNested option \<Rightarrow> TestForeignNested option" where
  "TestForeignNested_Copy s =
     (case s of None \<Rightarrow> None | Some s \<Rightarrow> Some \<lparr>
        ForeignNested = (case ForeignNested s of None \<Rightarrow> None | Some x \<Rightarrow> TestAllTypes_NestedMessage_Copy (Some x))\<rparr>)"

section \<open>TestForeignNested: the round trip\<close>

definition TestForeignNested_tags :: "ProtoWireNumber list" where
  "TestForeignNested_tags = [
     wireTestForeignNested_ForeignNested]"

definition TestForeignNested_groups :: "TestForeignNested \<Rightarrow> wfield list list" where
  "TestForeignNested_groups s = [
     opt_field (ForeignNested s \<noteq> None) (wireTestForeignNested_ForeignNested, WBytes (ptr_bytes TestAllTypes_NestedMessage_content (ForeignNested s)))]"

definition TestForeignNested_content :: "TestForeignNested \<Rightarrow> wfield list" where
  "TestForeignNested_content s = concat (TestForeignNested_groups s)"

text \<open>What a round trip keeps.\<close>

definition TestForeignNested_norm :: "TestForeignNested \<Rightarrow> TestForeignNested" where
  "TestForeignNested_norm s = s\<lparr>
     ForeignNested := norm_ptr TestAllTypes_NestedMessage_content TestAllTypes_NestedMessage_norm (ForeignNested s)\<rparr>"

definition TestForeignNested_ready :: "Reader \<Rightarrow> TestForeignNested \<Rightarrow> (TestForeignNestedReader \<Rightarrow> bool) list" where
  "TestForeignNested_ready p s = [
     \<lambda>m. cell_reads (structReader (TestAllTypes_NestedMessageReader_Unmarshal NewTestAllTypes_NestedMessageReader)) (structToStruct TestAllTypes_NestedMessageReader_ToStruct) p (norm_ptr TestAllTypes_NestedMessage_content TestAllTypes_NestedMessage_norm (ForeignNested s)) (cellForeignNested m)]"

definition TestForeignNested_stored :: "TestForeignNested \<Rightarrow> (TestForeignNested \<Rightarrow> TestForeignNested) list" where
  "TestForeignNested_stored s = [
     \<lambda>res. res\<lparr>ForeignNested := norm_ptr TestAllTypes_NestedMessage_content TestAllTypes_NestedMessage_norm (ForeignNested s)\<rparr>]"

lemma TestForeignNested_cases_distinct: "distinct (map fst (TestForeignNestedReader_cases wire offset))"
  by (rule ascending_distinct) (simp add: TestForeignNestedReader_cases_def wireTestForeignNested)

lemma TestForeignNested_stores:
  "stores_cell TestForeignNestedReader_save wireTestForeignNested_ForeignNested setOffset cellForeignNested"
  unfolding TestForeignNestedReader_save_def [abs_def] by (rule stores_cell_switch; (rule TestForeignNested_cases_distinct)?; unfold TestForeignNestedReader_cases_def; intro own_case.intros; simp)+

lemma TestForeignNested_saved: "good_fields TestForeignNestedReader_save p (NewTestForeignNestedReader\<lparr>mbuf := Some p\<rparr>) TestForeignNested_tags (TestForeignNested_groups s) (TestForeignNested_ready p s)"
  unfolding TestForeignNested_tags_def TestForeignNested_groups_def TestForeignNested_ready_def
  by (intro good_fields.intros field_saved m_TestAllTypes_NestedMessage.saved_struct TestForeignNested_stores) (simp_all add: NewTestForeignNestedReader_def newCell_def)

lemma TestForeignNested_converted: "good_stmts mbuf p (TestForeignNested_stmts) (TestForeignNested_ready p s) (TestForeignNested_stored s)"
  unfolding TestForeignNested_stmts_def TestForeignNested_ready_def TestForeignNested_stored_def TestForeignNested_getters append.simps
  by (intro good_stmts_field good_stmts.Nil) (simp_all cong: cell_reads_cong)

interpretation l_TestForeignNested: lazy_message TestForeignNested_tags TestForeignNested_groups TestForeignNested_norm
  "\<lambda>s. TestForeignNested_sizes s" "\<lambda>s. TestForeignNested_appends s"
  TestForeignNestedReader_save "\<lambda>p. NewTestForeignNestedReader\<lparr>mbuf := Some p\<rparr>" mbuf "TestForeignNested_stmts" TestForeignNested_zero TestForeignNested_ready TestForeignNested_stored
proof
  show "distinct TestForeignNested_tags"
    using TestForeignNested_cases_distinct by (simp only: TestForeignNestedReader_cases_def TestForeignNested_tags_def list.map fst_conv)
  show "list_all valid_tag TestForeignNested_tags"
    by (simp add: TestForeignNested_tags_def wireTestForeignNested valid_tag_def)
  show "list_all2 (\<lambda>t g. \<forall>f \<in> set g. fst f = t \<and> wf_val (snd f)) TestForeignNested_tags (TestForeignNested_groups s)" for s
    unfolding TestForeignNested_tags_def TestForeignNested_groups_def by (intro list.rel_intros field_tagged m_TestAllTypes_NestedMessage.tagged_struct)
  show "list_all2 (\<lambda>e g. e = int (length (fields_bytes g))) (TestForeignNested_sizes s) (TestForeignNested_groups s)" for s
    unfolding TestForeignNested_sizes_def TestForeignNested_groups_def append.simps
    by (intro list.rel_intros field_sized m_TestAllTypes_NestedMessage.sized_struct)
  show "list_all2 (\<lambda>st g. writes st (fields_bytes g)) (TestForeignNested_appends s) (TestForeignNested_groups s)" for s
    unfolding TestForeignNested_appends_def TestForeignNested_groups_def append.simps
    by (intro list.rel_intros field_written m_TestAllTypes_NestedMessage.written_struct)
  show "mbuf (TestForeignNestedReader_save t w off m) = mbuf m" for t w off m
    unfolding TestForeignNestedReader_save_def by (rule tag_switch_keeps) (simp add: TestForeignNestedReader_cases_def)
  show "fold (\<lambda>e. e) (TestForeignNested_stored s) TestForeignNested_zero = TestForeignNested_norm s" for s
    unfolding TestForeignNested_stored_def by (simp add: TestForeignNested_zero_def TestForeignNested_norm_def float_defaults)
qed (simp_all add: TestForeignNested_saved TestForeignNested_converted)

interpretation m_TestForeignNested: message_codec TestForeignNested_content TestForeignNested_norm TestForeignNested_XXX_PbContentSize TestForeignNested_MarshalTo
  "TestForeignNestedReader_Unmarshal NewTestForeignNestedReader" TestForeignNestedReader_ToStruct
  using l_TestForeignNested.message
  by (simp only: TestForeignNested_content_def [abs_def] TestForeignNested_XXX_PbContentSize_def TestForeignNested_MarshalTo_def TestForeignNestedReader_Unmarshal_def [abs_def] TestForeignNestedReader_ToStruct_def)


section \<open>TestPickleNestedMessage: the reader\<close>

record TestPickleNestedMessageReader =
  mbuf :: "Reader option"

definition NewTestPickleNestedMessageReader :: TestPickleNestedMessageReader where
  "NewTestPickleNestedMessageReader = \<lparr>
     mbuf = None\<rparr>"

definition TestPickleNestedMessageReader_cases :: "ProtoWireType \<Rightarrow> int \<Rightarrow> (ProtoWireNumber \<times> (TestPickleNestedMessageReader \<Rightarrow> TestPickleNestedMessageReader)) list" where
  "TestPickleNestedMessageReader_cases wire offset = []"

definition TestPickleNestedMessageReader_save :: "ProtoWireNumber \<Rightarrow> ProtoWireType \<Rightarrow> int \<Rightarrow> TestPickleNestedMessageReader \<Rightarrow> TestPickleNestedMessageReader" where
  "TestPickleNestedMessageReader_save tag wire offset = tag_switch (TestPickleNestedMessageReader_cases wire offset) tag"

definition TestPickleNestedMessageReader_Unmarshal :: "TestPickleNestedMessageReader \<Rightarrow> gslice \<Rightarrow> (TestPickleNestedMessageReader \<times> string option) run" where
  "TestPickleNestedMessageReader_Unmarshal m data =
     unmarshalLoop TestPickleNestedMessageReader_save (NewReader data) 0 (m\<lparr>mbuf := Some (NewReader data)\<rparr>)"

definition TestPickleNestedMessageReader_SourceBytes :: "TestPickleNestedMessageReader option \<Rightarrow> gslice" where
  "TestPickleNestedMessageReader_SourceBytes s = (case s of None \<Rightarrow> nil_slice | Some r \<Rightarrow> Bytes (mbuf r))"

section \<open>TestPickleNestedMessage: the struct\<close>

type_synonym TestPickleNestedMessage = unit

definition TestPickleNestedMessage_zero :: TestPickleNestedMessage where
  "TestPickleNestedMessage_zero = ()"

definition TestPickleNestedMessage_stmts :: "(TestPickleNestedMessage \<times> TestPickleNestedMessageReader option \<Rightarrow> (TestPickleNestedMessage \<times> TestPickleNestedMessageReader option) run) list" where
  "TestPickleNestedMessage_stmts = []"

definition TestPickleNestedMessageReader_ToStruct :: "TestPickleNestedMessageReader option \<Rightarrow> (TestPickleNestedMessage option \<times> TestPickleNestedMessageReader option) run" where
  "TestPickleNestedMessageReader_ToStruct = toStructWith (TestPickleNestedMessage_stmts) TestPickleNestedMessage_zero"

definition TestPickleNestedMessage_appends :: "TestPickleNestedMessage \<Rightarrow> (Writer \<Rightarrow> Writer go) list" where
  "TestPickleNestedMessage_appends s = []"

definition TestPickleNestedMessage_MarshalTo :: "Writer \<Rightarrow> TestPickleNestedMessage option \<Rightarrow> Writer go" where
  "TestPickleNestedMessage_MarshalTo = marshalToWith (\<lambda>s. TestPickleNestedMessage_appends s)"

definition TestPickleNestedMessage_sizes :: "TestPickleNestedMessage \<Rightarrow> int list" where
  "TestPickleNestedMessage_sizes s = []"

definition TestPickleNestedMessage_XXX_PbContentSize :: "TestPickleNestedMessage option \<Rightarrow> int" where
  "TestPickleNestedMessage_XXX_PbContentSize = contentSizeWith (\<lambda>s. TestPickleNestedMessage_sizes s)"

definition TestPickleNestedMessage_Marshal :: "TestPickleNestedMessage option \<Rightarrow> byte list go" where
  "TestPickleNestedMessage_Marshal = marshalWith TestPickleNestedMessage_XXX_PbContentSize TestPickleNestedMessage_MarshalTo"

definition TestPickleNestedMessage_Copy :: "TestPickleNestedMessage option \<Rightarrow> TestPickleNestedMessage option" where
  "TestPickleNestedMessage_Copy s =
     (case s of None \<Rightarrow> None | Some s \<Rightarrow> Some ())"

section \<open>TestPickleNestedMessage: the round trip\<close>

definition TestPickleNestedMessage_tags :: "ProtoWireNumber list" where
  "TestPickleNestedMessage_tags = []"

definition TestPickleNestedMessage_groups :: "TestPickleNestedMessage \<Rightarrow> wfield list list" where
  "TestPickleNestedMessage_groups s = []"

definition TestPickleNestedMessage_content :: "TestPickleNestedMessage \<Rightarrow> wfield list" where
  "TestPickleNestedMessage_content s = concat (TestPickleNestedMessage_groups s)"

text \<open>What a round trip keeps.\<close>

definition TestPickleNestedMessage_norm :: "TestPickleNestedMessage \<Rightarrow> TestPickleNestedMessage" where
  "TestPickleNestedMessage_norm s = s"

definition TestPickleNestedMessage_ready :: "Reader \<Rightarrow> TestPickleNestedMessage \<Rightarrow> (TestPickleNestedMessageReader \<Rightarrow> bool) list" where
  "TestPickleNestedMessage_ready p s = []"

definition TestPickleNestedMessage_stored :: "TestPickleNestedMessage \<Rightarrow> (TestPickleNestedMessage \<Rightarrow> TestPickleNestedMessage) list" where
  "TestPickleNestedMessage_stored s = []"

lemma TestPickleNestedMessage_cases_distinct: "distinct (map fst (TestPickleNestedMessageReader_cases wire offset))"
  by (rule ascending_distinct) (simp add: TestPickleNestedMessageReader_cases_def )

lemma TestPickleNestedMessage_saved: "good_fields TestPickleNestedMessageReader_save p (NewTestPickleNestedMessageReader\<lparr>mbuf := Some p\<rparr>) TestPickleNestedMessage_tags (TestPickleNestedMessage_groups s) (TestPickleNestedMessage_ready p s)"
  unfolding TestPickleNestedMessage_tags_def TestPickleNestedMessage_groups_def TestPickleNestedMessage_ready_def
  by (intro good_fields.intros field_saved)

lemma TestPickleNestedMessage_converted: "good_stmts mbuf p (TestPickleNestedMessage_stmts) (TestPickleNestedMessage_ready p s) (TestPickleNestedMessage_stored s)"
  unfolding TestPickleNestedMessage_stmts_def TestPickleNestedMessage_ready_def TestPickleNestedMessage_stored_def append.simps
  by (intro good_stmts_field good_stmts.Nil)

interpretation l_TestPickleNestedMessage: lazy_message TestPickleNestedMessage_tags TestPickleNestedMessage_groups TestPickleNestedMessage_norm
  "\<lambda>s. TestPickleNestedMessage_sizes s" "\<lambda>s. TestPickleNestedMessage_appends s"
  TestPickleNestedMessageReader_save "\<lambda>p. NewTestPickleNestedMessageReader\<lparr>mbuf := Some p\<rparr>" mbuf "TestPickleNestedMessage_stmts" TestPickleNestedMessage_zero TestPickleNestedMessage_ready TestPickleNestedMessage_stored
proof
  show "distinct TestPickleNestedMessage_tags"
    using TestPickleNestedMessage_cases_distinct by (simp only: TestPickleNestedMessageReader_cases_def TestPickleNestedMessage_tags_def list.map fst_conv)
  show "list_all valid_tag TestPickleNestedMessage_tags"
    by (simp add: TestPickleNestedMessage_tags_def  valid_tag_def)
  show "list_all2 (\<lambda>t g. \<forall>f \<in> set g. fst f = t \<and> wf_val (snd f)) TestPickleNestedMessage_tags (TestPickleNestedMessage_groups s)" for s
    unfolding TestPickleNestedMessage_tags_def TestPickleNestedMessage_groups_def by (intro list.rel_intros field_tagged)
  show "list_all2 (\<lambda>e g. e = int (length (fields_bytes g))) (TestPickleNestedMessage_sizes s) (TestPickleNestedMessage_groups s)" for s
    unfolding TestPickleNestedMessage_sizes_def TestPickleNestedMessage_groups_def append.simps
    by (intro list.rel_intros field_sized)
  show "list_all2 (\<lambda>st g. writes st (fields_bytes g)) (TestPickleNestedMessage_appends s) (TestPickleNestedMessage_groups s)" for s
    unfolding TestPickleNestedMessage_appends_def TestPickleNestedMessage_groups_def append.simps
    by (intro list.rel_intros field_written)
  show "mbuf (TestPickleNestedMessageReader_save t w off m) = mbuf m" for t w off m
    unfolding TestPickleNestedMessageReader_save_def by (rule tag_switch_keeps) (simp add: TestPickleNestedMessageReader_cases_def)
  show "fold (\<lambda>e. e) (TestPickleNestedMessage_stored s) TestPickleNestedMessage_zero = TestPickleNestedMessage_norm s" for s
    unfolding TestPickleNestedMessage_stored_def by (simp add: TestPickleNestedMessage_zero_def TestPickleNestedMessage_norm_def float_defaults)
qed (simp_all add: TestPickleNestedMessage_saved TestPickleNestedMessage_converted)

interpretation m_TestPickleNestedMessage: message_codec TestPickleNestedMessage_content TestPickleNestedMessage_norm TestPickleNestedMessage_XXX_PbContentSize TestPickleNestedMessage_MarshalTo
  "TestPickleNestedMessageReader_Unmarshal NewTestPickleNestedMessageReader" TestPickleNestedMessageReader_ToStruct
  using l_TestPickleNestedMessage.message
  by (simp only: TestPickleNestedMessage_content_def [abs_def] TestPickleNestedMessage_XXX_PbContentSize_def TestPickleNestedMessage_MarshalTo_def TestPickleNestedMessageReader_Unmarshal_def [abs_def] TestPickleNestedMessageReader_ToStruct_def)


section \<open>TestPickleNestedMessage_NestedMessage: the reader\<close>

definition wireTestPickleNestedMessage_NestedMessage_Bb :: ProtoWireNumber where "wireTestPickleNestedMessage_NestedMessage_Bb = 1"

lemmas wireTestPickleNestedMessage_NestedMessage =
  wireTestPickleNestedMessage_NestedMessage_Bb_def

record TestPickleNestedMessage_NestedMessageReader =
  mbuf :: "Reader option"
  cellBb :: "int32 one_cell"

definition NewTestPickleNestedMessage_NestedMessageReader :: TestPickleNestedMessage_NestedMessageReader where
  "NewTestPickleNestedMessage_NestedMessageReader = \<lparr>
     mbuf = None, cellBb = newCell 0 0\<rparr>"

definition TestPickleNestedMessage_NestedMessageReader_readBb :: "TestPickleNestedMessage_NestedMessageReader \<Rightarrow> (int32 \<times> TestPickleNestedMessage_NestedMessageReader) run" where
  "TestPickleNestedMessage_NestedMessageReader_readBb = readCell cellBb cellBb_update mbuf (readOne ReadInt32 0)"

definition TestPickleNestedMessage_NestedMessageReader_GetBb :: "TestPickleNestedMessage_NestedMessageReader option \<Rightarrow> (int32 \<times> TestPickleNestedMessage_NestedMessageReader option) run" where
  "TestPickleNestedMessage_NestedMessageReader_GetBb = getter TestPickleNestedMessage_NestedMessageReader_readBb 0"

lemmas TestPickleNestedMessage_NestedMessage_getters =
  TestPickleNestedMessage_NestedMessageReader_readBb_def TestPickleNestedMessage_NestedMessageReader_GetBb_def

definition TestPickleNestedMessage_NestedMessageReader_cases :: "ProtoWireType \<Rightarrow> int \<Rightarrow> (ProtoWireNumber \<times> (TestPickleNestedMessage_NestedMessageReader \<Rightarrow> TestPickleNestedMessage_NestedMessageReader)) list" where
  "TestPickleNestedMessage_NestedMessageReader_cases wire offset = [
     (wireTestPickleNestedMessage_NestedMessage_Bb, \<lambda>m. m\<lparr>cellBb := onOffset (setOffset wire offset) (cellBb m)\<rparr>)]"

definition TestPickleNestedMessage_NestedMessageReader_save :: "ProtoWireNumber \<Rightarrow> ProtoWireType \<Rightarrow> int \<Rightarrow> TestPickleNestedMessage_NestedMessageReader \<Rightarrow> TestPickleNestedMessage_NestedMessageReader" where
  "TestPickleNestedMessage_NestedMessageReader_save tag wire offset = tag_switch (TestPickleNestedMessage_NestedMessageReader_cases wire offset) tag"

definition TestPickleNestedMessage_NestedMessageReader_Unmarshal :: "TestPickleNestedMessage_NestedMessageReader \<Rightarrow> gslice \<Rightarrow> (TestPickleNestedMessage_NestedMessageReader \<times> string option) run" where
  "TestPickleNestedMessage_NestedMessageReader_Unmarshal m data =
     unmarshalLoop TestPickleNestedMessage_NestedMessageReader_save (NewReader data) 0 (m\<lparr>mbuf := Some (NewReader data)\<rparr>)"

definition TestPickleNestedMessage_NestedMessageReader_SourceBytes :: "TestPickleNestedMessage_NestedMessageReader option \<Rightarrow> gslice" where
  "TestPickleNestedMessage_NestedMessageReader_SourceBytes s = (case s of None \<Rightarrow> nil_slice | Some r \<Rightarrow> Bytes (mbuf r))"

section \<open>TestPickleNestedMessage_NestedMessage: the struct\<close>

record TestPickleNestedMessage_NestedMessage =
  Bb :: int32

definition TestPickleNestedMessage_NestedMessage_zero :: TestPickleNestedMessage_NestedMessage where
  "TestPickleNestedMessage_NestedMessage_zero = \<lparr>
     Bb = 0\<rparr>"

definition TestPickleNestedMessage_NestedMessage_stmts :: "(TestPickleNestedMessage_NestedMessage \<times> TestPickleNestedMessage_NestedMessageReader option \<Rightarrow> (TestPickleNestedMessage_NestedMessage \<times> TestPickleNestedMessage_NestedMessageReader option) run) list" where
  "TestPickleNestedMessage_NestedMessage_stmts = [
     assign TestPickleNestedMessage_NestedMessageReader_GetBb (\<lambda>v res. res\<lparr>Bb := v\<rparr>)]"

definition TestPickleNestedMessage_NestedMessageReader_ToStruct :: "TestPickleNestedMessage_NestedMessageReader option \<Rightarrow> (TestPickleNestedMessage_NestedMessage option \<times> TestPickleNestedMessage_NestedMessageReader option) run" where
  "TestPickleNestedMessage_NestedMessageReader_ToStruct = toStructWith (TestPickleNestedMessage_NestedMessage_stmts) TestPickleNestedMessage_NestedMessage_zero"

definition TestPickleNestedMessage_NestedMessage_appends :: "TestPickleNestedMessage_NestedMessage \<Rightarrow> (Writer \<Rightarrow> Writer go) list" where
  "TestPickleNestedMessage_NestedMessage_appends s = [
     \<lambda>res. if Bb s \<noteq> 0 then AppendInt32 res wireTestPickleNestedMessage_NestedMessage_Bb (Bb s) else Ret res]"

definition TestPickleNestedMessage_NestedMessage_MarshalTo :: "Writer \<Rightarrow> TestPickleNestedMessage_NestedMessage option \<Rightarrow> Writer go" where
  "TestPickleNestedMessage_NestedMessage_MarshalTo = marshalToWith (\<lambda>s. TestPickleNestedMessage_NestedMessage_appends s)"

definition TestPickleNestedMessage_NestedMessage_sizes :: "TestPickleNestedMessage_NestedMessage \<Rightarrow> int list" where
  "TestPickleNestedMessage_NestedMessage_sizes s = [
     if Bb s \<noteq> 0 then sizeWithTag SizeInt32 wireTestPickleNestedMessage_NestedMessage_Bb (Bb s) else 0]"

definition TestPickleNestedMessage_NestedMessage_XXX_PbContentSize :: "TestPickleNestedMessage_NestedMessage option \<Rightarrow> int" where
  "TestPickleNestedMessage_NestedMessage_XXX_PbContentSize = contentSizeWith (\<lambda>s. TestPickleNestedMessage_NestedMessage_sizes s)"

definition TestPickleNestedMessage_NestedMessage_Marshal :: "TestPickleNestedMessage_NestedMessage option \<Rightarrow> byte list go" where
  "TestPickleNestedMessage_NestedMessage_Marshal = marshalWith TestPickleNestedMessage_NestedMessage_XXX_PbContentSize TestPickleNestedMessage_NestedMessage_MarshalTo"

definition TestPickleNestedMessage_NestedMessage_Copy :: "TestPickleNestedMessage_NestedMessage option \<Rightarrow> TestPickleNestedMessage_NestedMessage option" where
  "TestPickleNestedMessage_NestedMessage_Copy s =
     (case s of None \<Rightarrow> None | Some s \<Rightarrow> Some \<lparr>
        Bb = Bb s\<rparr>)"

section \<open>TestPickleNestedMessage_NestedMessage: the round trip\<close>

definition TestPickleNestedMessage_NestedMessage_tags :: "ProtoWireNumber list" where
  "TestPickleNestedMessage_NestedMessage_tags = [
     wireTestPickleNestedMessage_NestedMessage_Bb]"

definition TestPickleNestedMessage_NestedMessage_groups :: "TestPickleNestedMessage_NestedMessage \<Rightarrow> wfield list list" where
  "TestPickleNestedMessage_NestedMessage_groups s = [
     opt_field (Bb s \<noteq> 0) (wireTestPickleNestedMessage_NestedMessage_Bb, int32_val (Bb s))]"

definition TestPickleNestedMessage_NestedMessage_content :: "TestPickleNestedMessage_NestedMessage \<Rightarrow> wfield list" where
  "TestPickleNestedMessage_NestedMessage_content s = concat (TestPickleNestedMessage_NestedMessage_groups s)"

text \<open>What a round trip keeps.\<close>

definition TestPickleNestedMessage_NestedMessage_norm :: "TestPickleNestedMessage_NestedMessage \<Rightarrow> TestPickleNestedMessage_NestedMessage" where
  "TestPickleNestedMessage_NestedMessage_norm s = s"

definition TestPickleNestedMessage_NestedMessage_ready :: "Reader \<Rightarrow> TestPickleNestedMessage_NestedMessage \<Rightarrow> (TestPickleNestedMessage_NestedMessageReader \<Rightarrow> bool) list" where
  "TestPickleNestedMessage_NestedMessage_ready p s = [
     \<lambda>m. cell_reads (readOne ReadInt32 0) plain p (if Bb s \<noteq> 0 then Bb s else 0) (cellBb m)]"

definition TestPickleNestedMessage_NestedMessage_stored :: "TestPickleNestedMessage_NestedMessage \<Rightarrow> (TestPickleNestedMessage_NestedMessage \<Rightarrow> TestPickleNestedMessage_NestedMessage) list" where
  "TestPickleNestedMessage_NestedMessage_stored s = [
     \<lambda>res. res\<lparr>Bb := if Bb s \<noteq> 0 then Bb s else 0\<rparr>]"

lemma TestPickleNestedMessage_NestedMessage_cases_distinct: "distinct (map fst (TestPickleNestedMessage_NestedMessageReader_cases wire offset))"
  by (rule ascending_distinct) (simp add: TestPickleNestedMessage_NestedMessageReader_cases_def wireTestPickleNestedMessage_NestedMessage)

lemma TestPickleNestedMessage_NestedMessage_stores:
  "stores_cell TestPickleNestedMessage_NestedMessageReader_save wireTestPickleNestedMessage_NestedMessage_Bb setOffset cellBb"
  unfolding TestPickleNestedMessage_NestedMessageReader_save_def [abs_def] by (rule stores_cell_switch; (rule TestPickleNestedMessage_NestedMessage_cases_distinct)?; unfold TestPickleNestedMessage_NestedMessageReader_cases_def; intro own_case.intros; simp)+

lemma TestPickleNestedMessage_NestedMessage_saved: "good_fields TestPickleNestedMessage_NestedMessageReader_save p (NewTestPickleNestedMessage_NestedMessageReader\<lparr>mbuf := Some p\<rparr>) TestPickleNestedMessage_NestedMessage_tags (TestPickleNestedMessage_NestedMessage_groups s) (TestPickleNestedMessage_NestedMessage_ready p s)"
  unfolding TestPickleNestedMessage_NestedMessage_tags_def TestPickleNestedMessage_NestedMessage_groups_def TestPickleNestedMessage_NestedMessage_ready_def
  by (intro good_fields.intros field_saved TestPickleNestedMessage_NestedMessage_stores) (simp_all add: NewTestPickleNestedMessage_NestedMessageReader_def newCell_def)

lemma TestPickleNestedMessage_NestedMessage_converted: "good_stmts mbuf p (TestPickleNestedMessage_NestedMessage_stmts) (TestPickleNestedMessage_NestedMessage_ready p s) (TestPickleNestedMessage_NestedMessage_stored s)"
  unfolding TestPickleNestedMessage_NestedMessage_stmts_def TestPickleNestedMessage_NestedMessage_ready_def TestPickleNestedMessage_NestedMessage_stored_def TestPickleNestedMessage_NestedMessage_getters append.simps
  by (intro good_stmts_field good_stmts.Nil) (simp_all cong: cell_reads_cong)

interpretation l_TestPickleNestedMessage_NestedMessage: lazy_message TestPickleNestedMessage_NestedMessage_tags TestPickleNestedMessage_NestedMessage_groups TestPickleNestedMessage_NestedMessage_norm
  "\<lambda>s. TestPickleNestedMessage_NestedMessage_sizes s" "\<lambda>s. TestPickleNestedMessage_NestedMessage_appends s"
  TestPickleNestedMessage_NestedMessageReader_save "\<lambda>p. NewTestPickleNestedMessage_NestedMessageReader\<lparr>mbuf := Some p\<rparr>" mbuf "TestPickleNestedMessage_NestedMessage_stmts" TestPickleNestedMessage_NestedMessage_zero TestPickleNestedMessage_NestedMessage_ready TestPickleNestedMessage_NestedMessage_stored
proof
  show "distinct TestPickleNestedMessage_NestedMessage_tags"
    using TestPickleNestedMessage_NestedMessage_cases_distinct by (simp only: TestPickleNestedMessage_NestedMessageReader_cases_def TestPickleNestedMessage_NestedMessage_tags_def list.map fst_conv)
  show "list_all valid_tag TestPickleNestedMessage_NestedMessage_tags"
    by (simp add: TestPickleNestedMessage_NestedMessage_tags_def wireTestPickleNestedMessage_NestedMessage valid_tag_def)
  show "list_all2 (\<lambda>t g. \<forall>f \<in> set g. fst f = t \<and> wf_val (snd f)) TestPickleNestedMessage_NestedMessage_tags (TestPickleNestedMessage_NestedMessage_groups s)" for s
    unfolding TestPickleNestedMessage_NestedMessage_tags_def TestPickleNestedMessage_NestedMessage_groups_def by (intro list.rel_intros field_tagged)
  show "list_all2 (\<lambda>e g. e = int (length (fields_bytes g))) (TestPickleNestedMessage_NestedMessage_sizes s) (TestPickleNestedMessage_NestedMessage_groups s)" for s
    unfolding TestPickleNestedMessage_NestedMessage_sizes_def TestPickleNestedMessage_NestedMessage_groups_def append.simps
    by (intro list.rel_intros field_sized)
  show "list_all2 (\<lambda>st g. writes st (fields_bytes g)) (TestPickleNestedMessage_NestedMessage_appends s) (TestPickleNestedMessage_NestedMessage_groups s)" for s
    unfolding TestPickleNestedMessage_NestedMessage_appends_def TestPickleNestedMessage_NestedMessage_groups_def append.simps
    by (intro list.rel_intros field_written)
  show "mbuf (TestPickleNestedMessage_NestedMessageReader_save t w off m) = mbuf m" for t w off m
    unfolding TestPickleNestedMessage_NestedMessageReader_save_def by (rule tag_switch_keeps) (simp add: TestPickleNestedMessage_NestedMessageReader_cases_def)
  show "fold (\<lambda>e. e) (TestPickleNestedMessage_NestedMessage_stored s) TestPickleNestedMessage_NestedMessage_zero = TestPickleNestedMessage_NestedMessage_norm s" for s
    unfolding TestPickleNestedMessage_NestedMessage_stored_def by (simp add: TestPickleNestedMessage_NestedMessage_zero_def TestPickleNestedMessage_NestedMessage_norm_def float_defaults)
qed (simp_all add: TestPickleNestedMessage_NestedMessage_saved TestPickleNestedMessage_NestedMessage_converted)

interpretation m_TestPickleNestedMessage_NestedMessage: message_codec TestPickleNestedMessage_NestedMessage_content TestPickleNestedMessage_NestedMessage_norm TestPickleNestedMessage_NestedMessage_XXX_PbContentSize TestPickleNestedMessage_NestedMessage_MarshalTo
  "TestPickleNestedMessage_NestedMessageReader_Unmarshal NewTestPickleNestedMessage_NestedMessageReader" TestPickleNestedMessage_NestedMessageReader_ToStruct
  using l_TestPickleNestedMessage_NestedMessage.message
  by (simp only: TestPickleNestedMessage_NestedMessage_content_def [abs_def] TestPickleNestedMessage_NestedMessage_XXX_PbContentSize_def TestPickleNestedMessage_NestedMessage_MarshalTo_def TestPickleNestedMessage_NestedMessageReader_Unmarshal_def [abs_def] TestPickleNestedMessage_NestedMessageReader_ToStruct_def)


section \<open>TestPickleNestedMessage_NestedMessage_NestedNestedMessage: the reader\<close>

definition wireTestPickleNestedMessage_NestedMessage_NestedNestedMessage_Cc :: ProtoWireNumber where "wireTestPickleNestedMessage_NestedMessage_NestedNestedMessage_Cc = 1"

lemmas wireTestPickleNestedMessage_NestedMessage_NestedNestedMessage =
  wireTestPickleNestedMessage_NestedMessage_NestedNestedMessage_Cc_def

record TestPickleNestedMessage_NestedMessage_NestedNestedMessageReader =
  mbuf :: "Reader option"
  cellCc :: "int32 one_cell"

definition NewTestPickleNestedMessage_NestedMessage_NestedNestedMessageReader :: TestPickleNestedMessage_NestedMessage_NestedNestedMessageReader where
  "NewTestPickleNestedMessage_NestedMessage_NestedNestedMessageReader = \<lparr>
     mbuf = None, cellCc = newCell 0 0\<rparr>"

definition TestPickleNestedMessage_NestedMessage_NestedNestedMessageReader_readCc :: "TestPickleNestedMessage_NestedMessage_NestedNestedMessageReader \<Rightarrow> (int32 \<times> TestPickleNestedMessage_NestedMessage_NestedNestedMessageReader) run" where
  "TestPickleNestedMessage_NestedMessage_NestedNestedMessageReader_readCc = readCell cellCc cellCc_update mbuf (readOne ReadInt32 0)"

definition TestPickleNestedMessage_NestedMessage_NestedNestedMessageReader_GetCc :: "TestPickleNestedMessage_NestedMessage_NestedNestedMessageReader option \<Rightarrow> (int32 \<times> TestPickleNestedMessage_NestedMessage_NestedNestedMessageReader option) run" where
  "TestPickleNestedMessage_NestedMessage_NestedNestedMessageReader_GetCc = getter TestPickleNestedMessage_NestedMessage_NestedNestedMessageReader_readCc 0"

lemmas TestPickleNestedMessage_NestedMessage_NestedNestedMessage_getters =
  TestPickleNestedMessage_NestedMessage_NestedNestedMessageReader_readCc_def TestPickleNestedMessage_NestedMessage_NestedNestedMessageReader_GetCc_def

definition TestPickleNestedMessage_NestedMessage_NestedNestedMessageReader_cases :: "ProtoWireType \<Rightarrow> int \<Rightarrow> (ProtoWireNumber \<times> (TestPickleNestedMessage_NestedMessage_NestedNestedMessageReader \<Rightarrow> TestPickleNestedMessage_NestedMessage_NestedNestedMessageReader)) list" where
  "TestPickleNestedMessage_NestedMessage_NestedNestedMessageReader_cases wire offset = [
     (wireTestPickleNestedMessage_NestedMessage_NestedNestedMessage_Cc, \<lambda>m. m\<lparr>cellCc := onOffset (setOffset wire offset) (cellCc m)\<rparr>)]"

definition TestPickleNestedMessage_NestedMessage_NestedNestedMessageReader_save :: "ProtoWireNumber \<Rightarrow> ProtoWireType \<Rightarrow> int \<Rightarrow> TestPickleNestedMessage_NestedMessage_NestedNestedMessageReader \<Rightarrow> TestPickleNestedMessage_NestedMessage_NestedNestedMessageReader" where
  "TestPickleNestedMessage_NestedMessage_NestedNestedMessageReader_save tag wire offset = tag_switch (TestPickleNestedMessage_NestedMessage_NestedNestedMessageReader_cases wire offset) tag"

definition TestPickleNestedMessage_NestedMessage_NestedNestedMessageReader_Unmarshal :: "TestPickleNestedMessage_NestedMessage_NestedNestedMessageReader \<Rightarrow> gslice \<Rightarrow> (TestPickleNestedMessage_NestedMessage_NestedNestedMessageReader \<times> string option) run" where
  "TestPickleNestedMessage_NestedMessage_NestedNestedMessageReader_Unmarshal m data =
     unmarshalLoop TestPickleNestedMessage_NestedMessage_NestedNestedMessageReader_save (NewReader data) 0 (m\<lparr>mbuf := Some (NewReader data)\<rparr>)"

definition TestPickleNestedMessage_NestedMessage_NestedNestedMessageReader_SourceBytes :: "TestPickleNestedMessage_NestedMessage_NestedNestedMessageReader option \<Rightarrow> gslice" where
  "TestPickleNestedMessage_NestedMessage_NestedNestedMessageReader_SourceBytes s = (case s of None \<Rightarrow> nil_slice | Some r \<Rightarrow> Bytes (mbuf r))"

section \<open>TestPickleNestedMessage_NestedMessage_NestedNestedMessage: the struct\<close>

record TestPickleNestedMessage_NestedMessage_NestedNestedMessage =
  Cc :: int32

definition TestPickleNestedMessage_NestedMessage_NestedNestedMessage_zero :: TestPickleNestedMessage_NestedMessage_NestedNestedMessage where
  "TestPickleNestedMessage_NestedMessage_NestedNestedMessage_zero = \<lparr>
     Cc = 0\<rparr>"

definition TestPickleNestedMessage_NestedMessage_NestedNestedMessage_stmts :: "(TestPickleNestedMessage_NestedMessage_NestedNestedMessage \<times> TestPickleNestedMessage_NestedMessage_NestedNestedMessageReader option \<Rightarrow> (TestPickleNestedMessage_NestedMessage_NestedNestedMessage \<times> TestPickleNestedMessage_NestedMessage_NestedNestedMessageReader option) run) list" where
  "TestPickleNestedMessage_NestedMessage_NestedNestedMessage_stmts = [
     assign TestPickleNestedMessage_NestedMessage_NestedNestedMessageReader_GetCc (\<lambda>v res. res\<lparr>Cc := v\<rparr>)]"

definition TestPickleNestedMessage_NestedMessage_NestedNestedMessageReader_ToStruct :: "TestPickleNestedMessage_NestedMessage_NestedNestedMessageReader option \<Rightarrow> (TestPickleNestedMessage_NestedMessage_NestedNestedMessage option \<times> TestPickleNestedMessage_NestedMessage_NestedNestedMessageReader option) run" where
  "TestPickleNestedMessage_NestedMessage_NestedNestedMessageReader_ToStruct = toStructWith (TestPickleNestedMessage_NestedMessage_NestedNestedMessage_stmts) TestPickleNestedMessage_NestedMessage_NestedNestedMessage_zero"

definition TestPickleNestedMessage_NestedMessage_NestedNestedMessage_appends :: "TestPickleNestedMessage_NestedMessage_NestedNestedMessage \<Rightarrow> (Writer \<Rightarrow> Writer go) list" where
  "TestPickleNestedMessage_NestedMessage_NestedNestedMessage_appends s = [
     \<lambda>res. if Cc s \<noteq> 0 then AppendInt32 res wireTestPickleNestedMessage_NestedMessage_NestedNestedMessage_Cc (Cc s) else Ret res]"

definition TestPickleNestedMessage_NestedMessage_NestedNestedMessage_MarshalTo :: "Writer \<Rightarrow> TestPickleNestedMessage_NestedMessage_NestedNestedMessage option \<Rightarrow> Writer go" where
  "TestPickleNestedMessage_NestedMessage_NestedNestedMessage_MarshalTo = marshalToWith (\<lambda>s. TestPickleNestedMessage_NestedMessage_NestedNestedMessage_appends s)"

definition TestPickleNestedMessage_NestedMessage_NestedNestedMessage_sizes :: "TestPickleNestedMessage_NestedMessage_NestedNestedMessage \<Rightarrow> int list" where
  "TestPickleNestedMessage_NestedMessage_NestedNestedMessage_sizes s = [
     if Cc s \<noteq> 0 then sizeWithTag SizeInt32 wireTestPickleNestedMessage_NestedMessage_NestedNestedMessage_Cc (Cc s) else 0]"

definition TestPickleNestedMessage_NestedMessage_NestedNestedMessage_XXX_PbContentSize :: "TestPickleNestedMessage_NestedMessage_NestedNestedMessage option \<Rightarrow> int" where
  "TestPickleNestedMessage_NestedMessage_NestedNestedMessage_XXX_PbContentSize = contentSizeWith (\<lambda>s. TestPickleNestedMessage_NestedMessage_NestedNestedMessage_sizes s)"

definition TestPickleNestedMessage_NestedMessage_NestedNestedMessage_Marshal :: "TestPickleNestedMessage_NestedMessage_NestedNestedMessage option \<Rightarrow> byte list go" where
  "TestPickleNestedMessage_NestedMessage_NestedNestedMessage_Marshal = marshalWith TestPickleNestedMessage_NestedMessage_NestedNestedMessage_XXX_PbContentSize TestPickleNestedMessage_NestedMessage_NestedNestedMessage_MarshalTo"

definition TestPickleNestedMessage_NestedMessage_NestedNestedMessage_Copy :: "TestPickleNestedMessage_NestedMessage_NestedNestedMessage option \<Rightarrow> TestPickleNestedMessage_NestedMessage_NestedNestedMessage option" where
  "TestPickleNestedMessage_NestedMessage_NestedNestedMessage_Copy s =
     (case s of None \<Rightarrow> None | Some s \<Rightarrow> Some \<lparr>
        Cc = Cc s\<rparr>)"

section \<open>TestPickleNestedMessage_NestedMessage_NestedNestedMessage: the round trip\<close>

definition TestPickleNestedMessage_NestedMessage_NestedNestedMessage_tags :: "ProtoWireNumber list" where
  "TestPickleNestedMessage_NestedMessage_NestedNestedMessage_tags = [
     wireTestPickleNestedMessage_NestedMessage_NestedNestedMessage_Cc]"

definition TestPickleNestedMessage_NestedMessage_NestedNestedMessage_groups :: "TestPickleNestedMessage_NestedMessage_NestedNestedMessage \<Rightarrow> wfield list list" where
  "TestPickleNestedMessage_NestedMessage_NestedNestedMessage_groups s = [
     opt_field (Cc s \<noteq> 0) (wireTestPickleNestedMessage_NestedMessage_NestedNestedMessage_Cc, int32_val (Cc s))]"

definition TestPickleNestedMessage_NestedMessage_NestedNestedMessage_content :: "TestPickleNestedMessage_NestedMessage_NestedNestedMessage \<Rightarrow> wfield list" where
  "TestPickleNestedMessage_NestedMessage_NestedNestedMessage_content s = concat (TestPickleNestedMessage_NestedMessage_NestedNestedMessage_groups s)"

text \<open>What a round trip keeps.\<close>

definition TestPickleNestedMessage_NestedMessage_NestedNestedMessage_norm :: "TestPickleNestedMessage_NestedMessage_NestedNestedMessage \<Rightarrow> TestPickleNestedMessage_NestedMessage_NestedNestedMessage" where
  "TestPickleNestedMessage_NestedMessage_NestedNestedMessage_norm s = s"

definition TestPickleNestedMessage_NestedMessage_NestedNestedMessage_ready :: "Reader \<Rightarrow> TestPickleNestedMessage_NestedMessage_NestedNestedMessage \<Rightarrow> (TestPickleNestedMessage_NestedMessage_NestedNestedMessageReader \<Rightarrow> bool) list" where
  "TestPickleNestedMessage_NestedMessage_NestedNestedMessage_ready p s = [
     \<lambda>m. cell_reads (readOne ReadInt32 0) plain p (if Cc s \<noteq> 0 then Cc s else 0) (cellCc m)]"

definition TestPickleNestedMessage_NestedMessage_NestedNestedMessage_stored :: "TestPickleNestedMessage_NestedMessage_NestedNestedMessage \<Rightarrow> (TestPickleNestedMessage_NestedMessage_NestedNestedMessage \<Rightarrow> TestPickleNestedMessage_NestedMessage_NestedNestedMessage) list" where
  "TestPickleNestedMessage_NestedMessage_NestedNestedMessage_stored s = [
     \<lambda>res. res\<lparr>Cc := if Cc s \<noteq> 0 then Cc s else 0\<rparr>]"

lemma TestPickleNestedMessage_NestedMessage_NestedNestedMessage_cases_distinct: "distinct (map fst (TestPickleNestedMessage_NestedMessage_NestedNestedMessageReader_cases wire offset))"
  by (rule ascending_distinct) (simp add: TestPickleNestedMessage_NestedMessage_NestedNestedMessageReader_cases_def wireTestPickleNestedMessage_NestedMessage_NestedNestedMessage)

lemma TestPickleNestedMessage_NestedMessage_NestedNestedMessage_stores:
  "stores_cell TestPickleNestedMessage_NestedMessage_NestedNestedMessageReader_save wireTestPickleNestedMessage_NestedMessage_NestedNestedMessage_Cc setOffset cellCc"
  unfolding TestPickleNestedMessage_NestedMessage_NestedNestedMessageReader_save_def [abs_def] by (rule stores_cell_switch; (rule TestPickleNestedMessage_NestedMessage_NestedNestedMessage_cases_distinct)?; unfold TestPickleNestedMessage_NestedMessage_NestedNestedMessageReader_cases_def; intro own_case.intros; simp)+

lemma TestPickleNestedMessage_NestedMessage_NestedNestedMessage_saved: "good_fields TestPickleNestedMessage_NestedMessage_NestedNestedMessageReader_save p (NewTestPickleNestedMessage_NestedMessage_NestedNestedMessageReader\<lparr>mbuf := Some p\<rparr>) TestPickleNestedMessage_NestedMessage_NestedNestedMessage_tags (TestPickleNestedMessage_NestedMessage_NestedNestedMessage_groups s) (TestPickleNestedMessage_NestedMessage_NestedNestedMessage_ready p s)"
  unfolding TestPickleNestedMessage_NestedMessage_NestedNestedMessage_tags_def TestPickleNestedMessage_NestedMessage_NestedNestedMessage_groups_def TestPickleNestedMessage_NestedMessage_NestedNestedMessage_ready_def
  by (intro good_fields.intros field_saved TestPickleNestedMessage_NestedMessage_NestedNestedMessage_stores) (simp_all add: NewTestPickleNestedMessage_NestedMessage_NestedNestedMessageReader_def newCell_def)

lemma TestPickleNestedMessage_NestedMessage_NestedNestedMessage_converted: "good_stmts mbuf p (TestPickleNestedMessage_NestedMessage_NestedNestedMessage_stmts) (TestPickleNestedMessage_NestedMessage_NestedNestedMessage_ready p s) (TestPickleNestedMessage_NestedMessage_NestedNestedMessage_stored s)"
  unfolding TestPickleNestedMessage_NestedMessage_NestedNestedMessage_stmts_def TestPickleNestedMessage_NestedMessage_NestedNestedMessage_ready_def TestPickleNestedMessage_NestedMessage_NestedNestedMessage_stored_def TestPickleNestedMessage_NestedMessage_NestedNestedMessage_getters append.simps
  by (intro good_stmts_field good_stmts.Nil) (simp_all cong: cell_reads_cong)

interpretation l_TestPickleNestedMessage_NestedMessage_NestedNestedMessage: lazy_message TestPickleNestedMessage_NestedMessage_NestedNestedMessage_tags TestPickleNestedMessage_NestedMessage_NestedNestedMessage_groups TestPickleNestedMessage_NestedMessage_NestedNestedMessage_norm
  "\<lambda>s. TestPickleNestedMessage_NestedMessage_NestedNestedMessage_sizes s" "\<lambda>s. TestPickleNestedMessage_NestedMessage_NestedNestedMessage_appends s"
  TestPickleNestedMessage_NestedMessage_NestedNestedMessageReader_save "\<lambda>p. NewTestPickleNestedMessage_NestedMessage_NestedNestedMessageReader\<lparr>mbuf := Some p\<rparr>" mbuf "TestPickleNestedMessage_NestedMessage_NestedNestedMessage_stmts" TestPickleNestedMessage_NestedMessage_NestedNestedMessage_zero TestPickleNestedMessage_NestedMessage_NestedNestedMessage_ready TestPickleNestedMessage_NestedMessage_NestedNestedMessage_stored
proof
  show "distinct TestPickleNestedMessage_NestedMessage_NestedNestedMessage_tags"
    using TestPickleNestedMessage_NestedMessage_NestedNestedMessage_cases_distinct by (simp only: TestPickleNestedMessage_NestedMessage_NestedNestedMessageReader_cases_def TestPickleNestedMessage_NestedMessage_NestedNestedMessage_tags_def list.map fst_conv)
  show "list_all valid_tag TestPickleNestedMessage_NestedMessage_NestedNestedMessage_tags"
    by (simp add: TestPickleNestedMessage_NestedMessage_NestedNestedMessage_tags_def wireTestPickleNestedMessage_NestedMessage_NestedNestedMessage valid_tag_def)
  show "list_all2 (\<lambda>t g. \<forall>f \<in> set g. fst f = t \<and> wf_val (snd f)) TestPickleNestedMessage_NestedMessage_NestedNestedMessage_tags (TestPickleNestedMessage_NestedMessage_NestedNestedMessage_groups s)" for s
    unfolding TestPickleNestedMessage_NestedMessage_NestedNestedMessage_tags_def TestPickleNestedMessage_NestedMessage_NestedNestedMessage_groups_def by (intro list.rel_intros field_tagged)
  show "list_all2 (\<lambda>e g. e = int (length (fields_bytes g))) (TestPickleNestedMessage_NestedMessage_NestedNestedMessage_sizes s) (TestPickleNestedMessage_NestedMessage_NestedNestedMessage_groups s)" for s
    unfolding TestPickleNestedMessage_NestedMessage_NestedNestedMessage_sizes_def TestPickleNestedMessage_NestedMessage_NestedNestedMessage_groups_def append.simps
    by (intro list.rel_intros field_sized)
  show "list_all2 (\<lambda>st g. writes st (fields_bytes g)) (TestPickleNestedMessage_NestedMessage_NestedNestedMessage_appends s) (TestPickleNestedMessage_NestedMessage_NestedNestedMessage_groups s)" for s
    unfolding TestPickleNestedMessage_NestedMessage_NestedNestedMessage_appends_def TestPickleNestedMessage_NestedMessage_NestedNestedMessage_groups_def append.simps
    by (intro list.rel_intros field_written)
  show "mbuf (TestPickleNestedMessage_NestedMessage_NestedNestedMessageReader_save t w off m) = mbuf m" for t w off m
    unfolding TestPickleNestedMessage_NestedMessage_NestedNestedMessageReader_save_def by (rule tag_switch_keeps) (simp add: TestPickleNestedMessage_NestedMessage_NestedNestedMessageReader_cases_def)
  show "fold (\<lambda>e. e) (TestPickleNestedMessage_NestedMessage_NestedNestedMessage_stored s) TestPickleNestedMessage_NestedMessage_NestedNestedMessage_zero = TestPickleNestedMessage_NestedMessage_NestedNestedMessage_norm s" for s
    unfolding TestPickleNestedMessage_NestedMessage_NestedNestedMessage_stored_def by (simp add: TestPickleNestedMessage_NestedMessage_NestedNestedMessage_zero_def TestPickleNestedMessage_NestedMessage_NestedNestedMessage_norm_def float_defaults)
qed (simp_all add: TestPickleNestedMessage_NestedMessage_NestedNestedMessage_saved TestPickleNestedMessage_NestedMessage_NestedNestedMessage_converted)

interpretation m_TestPickleNestedMessage_NestedMessage_NestedNestedMessage: message_codec TestPickleNestedMessage_NestedMessage_NestedNestedMessage_content TestPickleNestedMessage_NestedMessage_NestedNestedMessage_norm TestPickleNestedMessage_NestedMessage_NestedNestedMessage_XXX_PbContentSize TestPickleNestedMessage_NestedMessage_NestedNestedMessage_MarshalTo
  "TestPickleNestedMessage_NestedMessage_NestedNestedMessageReader_Unmarshal NewTestPickleNestedMessage_NestedMessage_NestedNestedMessageReader" TestPickleNestedMessage_NestedMessage_NestedNestedMessageReader_ToStruct
  using l_TestPickleNestedMessage_NestedMessage_NestedNestedMessage.message
  by (simp only: TestPickleNestedMessage_NestedMessage_NestedNestedMessage_content_def [abs_def] TestPickleNestedMessage_NestedMessage_NestedNestedMessage_XXX_PbContentSize_def TestPickleNestedMessage_NestedMessage_NestedNestedMessage_MarshalTo_def TestPickleNestedMessage_NestedMessage_NestedNestedMessageReader_Unmarshal_def [abs_def] TestPickleNestedMessage_NestedMessage_NestedNestedMessageReader_ToStruct_def)


section \<open>TestIsInitialized_SubMessage: the reader\<close>

record TestIsInitialized_SubMessageReader =
  mbuf :: "Reader option"

definition NewTestIsInitialized_SubMessageReader :: TestIsInitialized_SubMessageReader where
  "NewTestIsInitialized_SubMessageReader = \<lparr>
     mbuf = None\<rparr>"

definition TestIsInitialized_SubMessageReader_cases :: "ProtoWireType \<Rightarrow> int \<Rightarrow> (ProtoWireNumber \<times> (TestIsInitialized_SubMessageReader \<Rightarrow> TestIsInitialized_SubMessageReader)) list" where
  "TestIsInitialized_SubMessageReader_cases wire offset = []"

definition TestIsInitialized_SubMessageReader_save :: "ProtoWireNumber \<Rightarrow> ProtoWireType \<Rightarrow> int \<Rightarrow> TestIsInitialized_SubMessageReader \<Rightarrow> TestIsInitialized_SubMessageReader" where
  "TestIsInitialized_SubMessageReader_save tag wire offset = tag_switch (TestIsInitialized_SubMessageReader_cases wire offset) tag"

definition TestIsInitialized_SubMessageReader_Unmarshal :: "TestIsInitialized_SubMessageReader \<Rightarrow> gslice \<Rightarrow> (TestIsInitialized_SubMessageReader \<times> string option) run" where
  "TestIsInitialized_SubMessageReader_Unmarshal m data =
     unmarshalLoop TestIsInitialized_SubMessageReader_save (NewReader data) 0 (m\<lparr>mbuf := Some (NewReader data)\<rparr>)"

definition TestIsInitialized_SubMessageReader_SourceBytes :: "TestIsInitialized_SubMessageReader option \<Rightarrow> gslice" where
  "TestIsInitialized_SubMessageReader_SourceBytes s = (case s of None \<Rightarrow> nil_slice | Some r \<Rightarrow> Bytes (mbuf r))"

section \<open>TestIsInitialized_SubMessage: the struct\<close>

type_synonym TestIsInitialized_SubMessage = unit

definition TestIsInitialized_SubMessage_zero :: TestIsInitialized_SubMessage where
  "TestIsInitialized_SubMessage_zero = ()"

definition TestIsInitialized_SubMessage_stmts :: "(TestIsInitialized_SubMessage \<times> TestIsInitialized_SubMessageReader option \<Rightarrow> (TestIsInitialized_SubMessage \<times> TestIsInitialized_SubMessageReader option) run) list" where
  "TestIsInitialized_SubMessage_stmts = []"

definition TestIsInitialized_SubMessageReader_ToStruct :: "TestIsInitialized_SubMessageReader option \<Rightarrow> (TestIsInitialized_SubMessage option \<times> TestIsInitialized_SubMessageReader option) run" where
  "TestIsInitialized_SubMessageReader_ToStruct = toStructWith (TestIsInitialized_SubMessage_stmts) TestIsInitialized_SubMessage_zero"

definition TestIsInitialized_SubMessage_appends :: "TestIsInitialized_SubMessage \<Rightarrow> (Writer \<Rightarrow> Writer go) list" where
  "TestIsInitialized_SubMessage_appends s = []"

definition TestIsInitialized_SubMessage_MarshalTo :: "Writer \<Rightarrow> TestIsInitialized_SubMessage option \<Rightarrow> Writer go" where
  "TestIsInitialized_SubMessage_MarshalTo = marshalToWith (\<lambda>s. TestIsInitialized_SubMessage_appends s)"

definition TestIsInitialized_SubMessage_sizes :: "TestIsInitialized_SubMessage \<Rightarrow> int list" where
  "TestIsInitialized_SubMessage_sizes s = []"

definition TestIsInitialized_SubMessage_XXX_PbContentSize :: "TestIsInitialized_SubMessage option \<Rightarrow> int" where
  "TestIsInitialized_SubMessage_XXX_PbContentSize = contentSizeWith (\<lambda>s. TestIsInitialized_SubMessage_sizes s)"

definition TestIsInitialized_SubMessage_Marshal :: "TestIsInitialized_SubMessage option \<Rightarrow> byte list go" where
  "TestIsInitialized_SubMessage_Marshal = marshalWith TestIsInitialized_SubMessage_XXX_PbContentSize TestIsInitialized_SubMessage_MarshalTo"

definition TestIsInitialized_SubMessage_Copy :: "TestIsInitialized_SubMessage option \<Rightarrow> TestIsInitialized_SubMessage option" where
  "TestIsInitialized_SubMessage_Copy s =
     (case s of None \<Rightarrow> None | Some s \<Rightarrow> Some ())"

section \<open>TestIsInitialized_SubMessage: the round trip\<close>

definition TestIsInitialized_SubMessage_tags :: "ProtoWireNumber list" where
  "TestIsInitialized_SubMessage_tags = []"

definition TestIsInitialized_SubMessage_groups :: "TestIsInitialized_SubMessage \<Rightarrow> wfield list list" where
  "TestIsInitialized_SubMessage_groups s = []"

definition TestIsInitialized_SubMessage_content :: "TestIsInitialized_SubMessage \<Rightarrow> wfield list" where
  "TestIsInitialized_SubMessage_content s = concat (TestIsInitialized_SubMessage_groups s)"

text \<open>What a round trip keeps.\<close>

definition TestIsInitialized_SubMessage_norm :: "TestIsInitialized_SubMessage \<Rightarrow> TestIsInitialized_SubMessage" where
  "TestIsInitialized_SubMessage_norm s = s"

definition TestIsInitialized_SubMessage_ready :: "Reader \<Rightarrow> TestIsInitialized_SubMessage \<Rightarrow> (TestIsInitialized_SubMessageReader \<Rightarrow> bool) list" where
  "TestIsInitialized_SubMessage_ready p s = []"

definition TestIsInitialized_SubMessage_stored :: "TestIsInitialized_SubMessage \<Rightarrow> (TestIsInitialized_SubMessage \<Rightarrow> TestIsInitialized_SubMessage) list" where
  "TestIsInitialized_SubMessage_stored s = []"

lemma TestIsInitialized_SubMessage_cases_distinct: "distinct (map fst (TestIsInitialized_SubMessageReader_cases wire offset))"
  by (rule ascending_distinct) (simp add: TestIsInitialized_SubMessageReader_cases_def )

lemma TestIsInitialized_SubMessage_saved: "good_fields TestIsInitialized_SubMessageReader_save p (NewTestIsInitialized_SubMessageReader\<lparr>mbuf := Some p\<rparr>) TestIsInitialized_SubMessage_tags (TestIsInitialized_SubMessage_groups s) (TestIsInitialized_SubMessage_ready p s)"
  unfolding TestIsInitialized_SubMessage_tags_def TestIsInitialized_SubMessage_groups_def TestIsInitialized_SubMessage_ready_def
  by (intro good_fields.intros field_saved)

lemma TestIsInitialized_SubMessage_converted: "good_stmts mbuf p (TestIsInitialized_SubMessage_stmts) (TestIsInitialized_SubMessage_ready p s) (TestIsInitialized_SubMessage_stored s)"
  unfolding TestIsInitialized_SubMessage_stmts_def TestIsInitialized_SubMessage_ready_def TestIsInitialized_SubMessage_stored_def append.simps
  by (intro good_stmts_field good_stmts.Nil)

interpretation l_TestIsInitialized_SubMessage: lazy_message TestIsInitialized_SubMessage_tags TestIsInitialized_SubMessage_groups TestIsInitialized_SubMessage_norm
  "\<lambda>s. TestIsInitialized_SubMessage_sizes s" "\<lambda>s. TestIsInitialized_SubMessage_appends s"
  TestIsInitialized_SubMessageReader_save "\<lambda>p. NewTestIsInitialized_SubMessageReader\<lparr>mbuf := Some p\<rparr>" mbuf "TestIsInitialized_SubMessage_stmts" TestIsInitialized_SubMessage_zero TestIsInitialized_SubMessage_ready TestIsInitialized_SubMessage_stored
proof
  show "distinct TestIsInitialized_SubMessage_tags"
    using TestIsInitialized_SubMessage_cases_distinct by (simp only: TestIsInitialized_SubMessageReader_cases_def TestIsInitialized_SubMessage_tags_def list.map fst_conv)
  show "list_all valid_tag TestIsInitialized_SubMessage_tags"
    by (simp add: TestIsInitialized_SubMessage_tags_def  valid_tag_def)
  show "list_all2 (\<lambda>t g. \<forall>f \<in> set g. fst f = t \<and> wf_val (snd f)) TestIsInitialized_SubMessage_tags (TestIsInitialized_SubMessage_groups s)" for s
    unfolding TestIsInitialized_SubMessage_tags_def TestIsInitialized_SubMessage_groups_def by (intro list.rel_intros field_tagged)
  show "list_all2 (\<lambda>e g. e = int (length (fields_bytes g))) (TestIsInitialized_SubMessage_sizes s) (TestIsInitialized_SubMessage_groups s)" for s
    unfolding TestIsInitialized_SubMessage_sizes_def TestIsInitialized_SubMessage_groups_def append.simps
    by (intro list.rel_intros field_sized)
  show "list_all2 (\<lambda>st g. writes st (fields_bytes g)) (TestIsInitialized_SubMessage_appends s) (TestIsInitialized_SubMessage_groups s)" for s
    unfolding TestIsInitialized_SubMessage_appends_def TestIsInitialized_SubMessage_groups_def append.simps
    by (intro list.rel_intros field_written)
  show "mbuf (TestIsInitialized_SubMessageReader_save t w off m) = mbuf m" for t w off m
    unfolding TestIsInitialized_SubMessageReader_save_def by (rule tag_switch_keeps) (simp add: TestIsInitialized_SubMessageReader_cases_def)
  show "fold (\<lambda>e. e) (TestIsInitialized_SubMessage_stored s) TestIsInitialized_SubMessage_zero = TestIsInitialized_SubMessage_norm s" for s
    unfolding TestIsInitialized_SubMessage_stored_def by (simp add: TestIsInitialized_SubMessage_zero_def TestIsInitialized_SubMessage_norm_def float_defaults)
qed (simp_all add: TestIsInitialized_SubMessage_saved TestIsInitialized_SubMessage_converted)

interpretation m_TestIsInitialized_SubMessage: message_codec TestIsInitialized_SubMessage_content TestIsInitialized_SubMessage_norm TestIsInitialized_SubMessage_XXX_PbContentSize TestIsInitialized_SubMessage_MarshalTo
  "TestIsInitialized_SubMessageReader_Unmarshal NewTestIsInitialized_SubMessageReader" TestIsInitialized_SubMessageReader_ToStruct
  using l_TestIsInitialized_SubMessage.message
  by (simp only: TestIsInitialized_SubMessage_content_def [abs_def] TestIsInitialized_SubMessage_XXX_PbContentSize_def TestIsInitialized_SubMessage_MarshalTo_def TestIsInitialized_SubMessageReader_Unmarshal_def [abs_def] TestIsInitialized_SubMessageReader_ToStruct_def)


section \<open>TestIsInitialized: the reader\<close>

definition wireTestIsInitialized_SubMessage :: ProtoWireNumber where "wireTestIsInitialized_SubMessage = 1"

lemmas wireTestIsInitialized =
  wireTestIsInitialized_SubMessage_def

record TestIsInitializedReader =
  mbuf :: "Reader option"
  cellSubMessage :: "(TestIsInitialized_SubMessageReader option) one_cell"

definition NewTestIsInitializedReader :: TestIsInitializedReader where
  "NewTestIsInitializedReader = \<lparr>
     mbuf = None, cellSubMessage = newCell None 0\<rparr>"

definition TestIsInitializedReader_readSubMessage :: "TestIsInitializedReader \<Rightarrow> (TestIsInitialized_SubMessageReader option \<times> TestIsInitializedReader) run" where
  "TestIsInitializedReader_readSubMessage = readCell cellSubMessage cellSubMessage_update mbuf (structReader (TestIsInitialized_SubMessageReader_Unmarshal NewTestIsInitialized_SubMessageReader))"

definition TestIsInitializedReader_GetSubMessage :: "TestIsInitializedReader option \<Rightarrow> (TestIsInitialized_SubMessageReader option \<times> TestIsInitializedReader option) run" where
  "TestIsInitializedReader_GetSubMessage = getter TestIsInitializedReader_readSubMessage None"

lemmas TestIsInitialized_getters =
  TestIsInitializedReader_readSubMessage_def TestIsInitializedReader_GetSubMessage_def

definition TestIsInitializedReader_cases :: "ProtoWireType \<Rightarrow> int \<Rightarrow> (ProtoWireNumber \<times> (TestIsInitializedReader \<Rightarrow> TestIsInitializedReader)) list" where
  "TestIsInitializedReader_cases wire offset = [
     (wireTestIsInitialized_SubMessage, \<lambda>m. m\<lparr>cellSubMessage := onOffset (setOffset wire offset) (cellSubMessage m)\<rparr>)]"

definition TestIsInitializedReader_save :: "ProtoWireNumber \<Rightarrow> ProtoWireType \<Rightarrow> int \<Rightarrow> TestIsInitializedReader \<Rightarrow> TestIsInitializedReader" where
  "TestIsInitializedReader_save tag wire offset = tag_switch (TestIsInitializedReader_cases wire offset) tag"

definition TestIsInitializedReader_Unmarshal :: "TestIsInitializedReader \<Rightarrow> gslice \<Rightarrow> (TestIsInitializedReader \<times> string option) run" where
  "TestIsInitializedReader_Unmarshal m data =
     unmarshalLoop TestIsInitializedReader_save (NewReader data) 0 (m\<lparr>mbuf := Some (NewReader data)\<rparr>)"

definition TestIsInitializedReader_SourceBytes :: "TestIsInitializedReader option \<Rightarrow> gslice" where
  "TestIsInitializedReader_SourceBytes s = (case s of None \<Rightarrow> nil_slice | Some r \<Rightarrow> Bytes (mbuf r))"

section \<open>TestIsInitialized: the struct\<close>

record TestIsInitialized =
  SubMessage :: "TestIsInitialized_SubMessage option"

definition TestIsInitialized_zero :: TestIsInitialized where
  "TestIsInitialized_zero = \<lparr>
     SubMessage = None\<rparr>"

definition TestIsInitialized_stmts :: "(TestIsInitialized \<times> TestIsInitializedReader option \<Rightarrow> (TestIsInitialized \<times> TestIsInitializedReader option) run) list" where
  "TestIsInitialized_stmts = [
     assignStruct TestIsInitializedReader_GetSubMessage (structToStruct TestIsInitialized_SubMessageReader_ToStruct) cellSubMessage_update
       (\<lambda>v res. res\<lparr>SubMessage := v\<rparr>)]"

definition TestIsInitializedReader_ToStruct :: "TestIsInitializedReader option \<Rightarrow> (TestIsInitialized option \<times> TestIsInitializedReader option) run" where
  "TestIsInitializedReader_ToStruct = toStructWith (TestIsInitialized_stmts) TestIsInitialized_zero"

definition TestIsInitialized_appends :: "TestIsInitialized \<Rightarrow> (Writer \<Rightarrow> Writer go) list" where
  "TestIsInitialized_appends s = [
     \<lambda>res. if SubMessage s \<noteq> None then structWriter TestIsInitialized_SubMessage_XXX_PbContentSize TestIsInitialized_SubMessage_MarshalTo res wireTestIsInitialized_SubMessage (SubMessage s) else Ret res]"

definition TestIsInitialized_MarshalTo :: "Writer \<Rightarrow> TestIsInitialized option \<Rightarrow> Writer go" where
  "TestIsInitialized_MarshalTo = marshalToWith (\<lambda>s. TestIsInitialized_appends s)"

definition TestIsInitialized_sizes :: "TestIsInitialized \<Rightarrow> int list" where
  "TestIsInitialized_sizes s = [
     if SubMessage s \<noteq> None then sizeDelimitedWithTag TestIsInitialized_SubMessage_XXX_PbContentSize wireTestIsInitialized_SubMessage (SubMessage s) else 0]"

definition TestIsInitialized_XXX_PbContentSize :: "TestIsInitialized option \<Rightarrow> int" where
  "TestIsInitialized_XXX_PbContentSize = contentSizeWith (\<lambda>s. TestIsInitialized_sizes s)"

definition TestIsInitialized_Marshal :: "TestIsInitialized option \<Rightarrow> byte list go" where
  "TestIsInitialized_Marshal = marshalWith TestIsInitialized_XXX_PbContentSize TestIsInitialized_MarshalTo"

definition TestIsInitialized_Copy :: "TestIsInitialized option \<Rightarrow> TestIsInitialized option" where
  "TestIsInitialized_Copy s =
     (case s of None \<Rightarrow> None | Some s \<Rightarrow> Some \<lparr>
        SubMessage = (case SubMessage s of None \<Rightarrow> None | Some x \<Rightarrow> TestIsInitialized_SubMessage_Copy (Some x))\<rparr>)"

section \<open>TestIsInitialized: the round trip\<close>

definition TestIsInitialized_tags :: "ProtoWireNumber list" where
  "TestIsInitialized_tags = [
     wireTestIsInitialized_SubMessage]"

definition TestIsInitialized_groups :: "TestIsInitialized \<Rightarrow> wfield list list" where
  "TestIsInitialized_groups s = [
     opt_field (SubMessage s \<noteq> None) (wireTestIsInitialized_SubMessage, WBytes (ptr_bytes TestIsInitialized_SubMessage_content (SubMessage s)))]"

definition TestIsInitialized_content :: "TestIsInitialized \<Rightarrow> wfield list" where
  "TestIsInitialized_content s = concat (TestIsInitialized_groups s)"

text \<open>What a round trip keeps.\<close>

definition TestIsInitialized_norm :: "TestIsInitialized \<Rightarrow> TestIsInitialized" where
  "TestIsInitialized_norm s = s\<lparr>
     SubMessage := norm_ptr TestIsInitialized_SubMessage_content TestIsInitialized_SubMessage_norm (SubMessage s)\<rparr>"

definition TestIsInitialized_ready :: "Reader \<Rightarrow> TestIsInitialized \<Rightarrow> (TestIsInitializedReader \<Rightarrow> bool) list" where
  "TestIsInitialized_ready p s = [
     \<lambda>m. cell_reads (structReader (TestIsInitialized_SubMessageReader_Unmarshal NewTestIsInitialized_SubMessageReader)) (structToStruct TestIsInitialized_SubMessageReader_ToStruct) p (norm_ptr TestIsInitialized_SubMessage_content TestIsInitialized_SubMessage_norm (SubMessage s)) (cellSubMessage m)]"

definition TestIsInitialized_stored :: "TestIsInitialized \<Rightarrow> (TestIsInitialized \<Rightarrow> TestIsInitialized) list" where
  "TestIsInitialized_stored s = [
     \<lambda>res. res\<lparr>SubMessage := norm_ptr TestIsInitialized_SubMessage_content TestIsInitialized_SubMessage_norm (SubMessage s)\<rparr>]"

lemma TestIsInitialized_cases_distinct: "distinct (map fst (TestIsInitializedReader_cases wire offset))"
  by (rule ascending_distinct) (simp add: TestIsInitializedReader_cases_def wireTestIsInitialized)

lemma TestIsInitialized_stores:
  "stores_cell TestIsInitializedReader_save wireTestIsInitialized_SubMessage setOffset cellSubMessage"
  unfolding TestIsInitializedReader_save_def [abs_def] by (rule stores_cell_switch; (rule TestIsInitialized_cases_distinct)?; unfold TestIsInitializedReader_cases_def; intro own_case.intros; simp)+

lemma TestIsInitialized_saved: "good_fields TestIsInitializedReader_save p (NewTestIsInitializedReader\<lparr>mbuf := Some p\<rparr>) TestIsInitialized_tags (TestIsInitialized_groups s) (TestIsInitialized_ready p s)"
  unfolding TestIsInitialized_tags_def TestIsInitialized_groups_def TestIsInitialized_ready_def
  by (intro good_fields.intros field_saved m_TestIsInitialized_SubMessage.saved_struct TestIsInitialized_stores) (simp_all add: NewTestIsInitializedReader_def newCell_def)

lemma TestIsInitialized_converted: "good_stmts mbuf p (TestIsInitialized_stmts) (TestIsInitialized_ready p s) (TestIsInitialized_stored s)"
  unfolding TestIsInitialized_stmts_def TestIsInitialized_ready_def TestIsInitialized_stored_def TestIsInitialized_getters append.simps
  by (intro good_stmts_field good_stmts.Nil) (simp_all cong: cell_reads_cong)

interpretation l_TestIsInitialized: lazy_message TestIsInitialized_tags TestIsInitialized_groups TestIsInitialized_norm
  "\<lambda>s. TestIsInitialized_sizes s" "\<lambda>s. TestIsInitialized_appends s"
  TestIsInitializedReader_save "\<lambda>p. NewTestIsInitializedReader\<lparr>mbuf := Some p\<rparr>" mbuf "TestIsInitialized_stmts" TestIsInitialized_zero TestIsInitialized_ready TestIsInitialized_stored
proof
  show "distinct TestIsInitialized_tags"
    using TestIsInitialized_cases_distinct by (simp only: TestIsInitializedReader_cases_def TestIsInitialized_tags_def list.map fst_conv)
  show "list_all valid_tag TestIsInitialized_tags"
    by (simp add: TestIsInitialized_tags_def wireTestIsInitialized valid_tag_def)
  show "list_all2 (\<lambda>t g. \<forall>f \<in> set g. fst f = t \<and> wf_val (snd f)) TestIsInitialized_tags (TestIsInitialized_groups s)" for s
    unfolding TestIsInitialized_tags_def TestIsInitialized_groups_def by (intro list.rel_intros field_tagged m_TestIsInitialized_SubMessage.tagged_struct)
  show "list_all2 (\<lambda>e g. e = int (length (fields_bytes g))) (TestIsInitialized_sizes s) (TestIsInitialized_groups s)" for s
    unfolding TestIsInitialized_sizes_def TestIsInitialized_groups_def append.simps
    by (intro list.rel_intros field_sized m_TestIsInitialized_SubMessage.sized_struct)
  show "list_all2 (\<lambda>st g. writes st (fields_bytes g)) (TestIsInitialized_appends s) (TestIsInitialized_groups s)" for s
    unfolding TestIsInitialized_appends_def TestIsInitialized_groups_def append.simps
    by (intro list.rel_intros field_written m_TestIsInitialized_SubMessage.written_struct)
  show "mbuf (TestIsInitializedReader_save t w off m) = mbuf m" for t w off m
    unfolding TestIsInitializedReader_save_def by (rule tag_switch_keeps) (simp add: TestIsInitializedReader_cases_def)
  show "fold (\<lambda>e. e) (TestIsInitialized_stored s) TestIsInitialized_zero = TestIsInitialized_norm s" for s
    unfolding TestIsInitialized_stored_def by (simp add: TestIsInitialized_zero_def TestIsInitialized_norm_def float_defaults)
qed (simp_all add: TestIsInitialized_saved TestIsInitialized_converted)

interpretation m_TestIsInitialized: message_codec TestIsInitialized_content TestIsInitialized_norm TestIsInitialized_XXX_PbContentSize TestIsInitialized_MarshalTo
  "TestIsInitializedReader_Unmarshal NewTestIsInitializedReader" TestIsInitializedReader_ToStruct
  using l_TestIsInitialized.message
  by (simp only: TestIsInitialized_content_def [abs_def] TestIsInitialized_XXX_PbContentSize_def TestIsInitialized_MarshalTo_def TestIsInitializedReader_Unmarshal_def [abs_def] TestIsInitializedReader_ToStruct_def)


section \<open>TestNestedMessageHasBits_NestedMessage: the reader\<close>

definition wireTestNestedMessageHasBits_NestedMessage_NestedmessageRepeatedInt32 :: ProtoWireNumber where "wireTestNestedMessageHasBits_NestedMessage_NestedmessageRepeatedInt32 = 1"
definition wireTestNestedMessageHasBits_NestedMessage_NestedmessageRepeatedForeignmessage :: ProtoWireNumber where "wireTestNestedMessageHasBits_NestedMessage_NestedmessageRepeatedForeignmessage = 2"

lemmas wireTestNestedMessageHasBits_NestedMessage =
  wireTestNestedMessageHasBits_NestedMessage_NestedmessageRepeatedInt32_def
  wireTestNestedMessageHasBits_NestedMessage_NestedmessageRepeatedForeignmessage_def

record TestNestedMessageHasBits_NestedMessageReader =
  mbuf :: "Reader option"
  cellNestedmessageRepeatedInt32 :: "int32 packed_cell"
  cellNestedmessageRepeatedForeignmessage :: "(ForeignMessageReader option) list_cell"

definition NewTestNestedMessageHasBits_NestedMessageReader :: TestNestedMessageHasBits_NestedMessageReader where
  "NewTestNestedMessageHasBits_NestedMessageReader = \<lparr>
     mbuf = None, cellNestedmessageRepeatedInt32 = newCell [] ([], []),
     cellNestedmessageRepeatedForeignmessage = newCell [] []\<rparr>"

definition TestNestedMessageHasBits_NestedMessageReader_readNestedmessageRepeatedInt32 :: "TestNestedMessageHasBits_NestedMessageReader \<Rightarrow> (int32 list \<times> TestNestedMessageHasBits_NestedMessageReader) run" where
  "TestNestedMessageHasBits_NestedMessageReader_readNestedmessageRepeatedInt32 = readCell cellNestedmessageRepeatedInt32 cellNestedmessageRepeatedInt32_update mbuf (readPacked ReadInt32 SizedReadInt32 0)"

definition TestNestedMessageHasBits_NestedMessageReader_GetNestedmessageRepeatedInt32 :: "TestNestedMessageHasBits_NestedMessageReader option \<Rightarrow> (int32 list \<times> TestNestedMessageHasBits_NestedMessageReader option) run" where
  "TestNestedMessageHasBits_NestedMessageReader_GetNestedmessageRepeatedInt32 = getter TestNestedMessageHasBits_NestedMessageReader_readNestedmessageRepeatedInt32 []"

definition TestNestedMessageHasBits_NestedMessageReader_readNestedmessageRepeatedForeignmessage :: "TestNestedMessageHasBits_NestedMessageReader \<Rightarrow> ((ForeignMessageReader option) list \<times> TestNestedMessageHasBits_NestedMessageReader) run" where
  "TestNestedMessageHasBits_NestedMessageReader_readNestedmessageRepeatedForeignmessage = readCell cellNestedmessageRepeatedForeignmessage cellNestedmessageRepeatedForeignmessage_update mbuf (readStructs (ForeignMessageReader_Unmarshal NewForeignMessageReader))"

definition TestNestedMessageHasBits_NestedMessageReader_GetNestedmessageRepeatedForeignmessage :: "TestNestedMessageHasBits_NestedMessageReader option \<Rightarrow> ((ForeignMessageReader option) list \<times> TestNestedMessageHasBits_NestedMessageReader option) run" where
  "TestNestedMessageHasBits_NestedMessageReader_GetNestedmessageRepeatedForeignmessage = getter TestNestedMessageHasBits_NestedMessageReader_readNestedmessageRepeatedForeignmessage []"

lemmas TestNestedMessageHasBits_NestedMessage_getters =
  TestNestedMessageHasBits_NestedMessageReader_readNestedmessageRepeatedInt32_def TestNestedMessageHasBits_NestedMessageReader_GetNestedmessageRepeatedInt32_def
  TestNestedMessageHasBits_NestedMessageReader_readNestedmessageRepeatedForeignmessage_def TestNestedMessageHasBits_NestedMessageReader_GetNestedmessageRepeatedForeignmessage_def

definition TestNestedMessageHasBits_NestedMessageReader_cases :: "ProtoWireType \<Rightarrow> int \<Rightarrow> (ProtoWireNumber \<times> (TestNestedMessageHasBits_NestedMessageReader \<Rightarrow> TestNestedMessageHasBits_NestedMessageReader)) list" where
  "TestNestedMessageHasBits_NestedMessageReader_cases wire offset = [
     (wireTestNestedMessageHasBits_NestedMessage_NestedmessageRepeatedInt32, \<lambda>m. m\<lparr>cellNestedmessageRepeatedInt32 := onOffset (addTyped wire offset) (cellNestedmessageRepeatedInt32 m)\<rparr>),
     (wireTestNestedMessageHasBits_NestedMessage_NestedmessageRepeatedForeignmessage, \<lambda>m. m\<lparr>cellNestedmessageRepeatedForeignmessage := onOffset (addOffset wire offset) (cellNestedmessageRepeatedForeignmessage m)\<rparr>)]"

definition TestNestedMessageHasBits_NestedMessageReader_save :: "ProtoWireNumber \<Rightarrow> ProtoWireType \<Rightarrow> int \<Rightarrow> TestNestedMessageHasBits_NestedMessageReader \<Rightarrow> TestNestedMessageHasBits_NestedMessageReader" where
  "TestNestedMessageHasBits_NestedMessageReader_save tag wire offset = tag_switch (TestNestedMessageHasBits_NestedMessageReader_cases wire offset) tag"

definition TestNestedMessageHasBits_NestedMessageReader_Unmarshal :: "TestNestedMessageHasBits_NestedMessageReader \<Rightarrow> gslice \<Rightarrow> (TestNestedMessageHasBits_NestedMessageReader \<times> string option) run" where
  "TestNestedMessageHasBits_NestedMessageReader_Unmarshal m data =
     unmarshalLoop TestNestedMessageHasBits_NestedMessageReader_save (NewReader data) 0 (m\<lparr>mbuf := Some (NewReader data)\<rparr>)"

definition TestNestedMessageHasBits_NestedMessageReader_SourceBytes :: "TestNestedMessageHasBits_NestedMessageReader option \<Rightarrow> gslice" where
  "TestNestedMessageHasBits_NestedMessageReader_SourceBytes s = (case s of None \<Rightarrow> nil_slice | Some r \<Rightarrow> Bytes (mbuf r))"

section \<open>TestNestedMessageHasBits_NestedMessage: the struct\<close>

record TestNestedMessageHasBits_NestedMessage =
  NestedmessageRepeatedInt32 :: "int32 list"
  NestedmessageRepeatedForeignmessage :: "(ForeignMessage option) list"

definition TestNestedMessageHasBits_NestedMessage_zero :: TestNestedMessageHasBits_NestedMessage where
  "TestNestedMessageHasBits_NestedMessage_zero = \<lparr>
     NestedmessageRepeatedInt32 = [], NestedmessageRepeatedForeignmessage = []\<rparr>"

definition TestNestedMessageHasBits_NestedMessage_stmts :: "(TestNestedMessageHasBits_NestedMessage \<times> TestNestedMessageHasBits_NestedMessageReader option \<Rightarrow> (TestNestedMessageHasBits_NestedMessage \<times> TestNestedMessageHasBits_NestedMessageReader option) run) list" where
  "TestNestedMessageHasBits_NestedMessage_stmts = [
     assign TestNestedMessageHasBits_NestedMessageReader_GetNestedmessageRepeatedInt32 (\<lambda>v res. res\<lparr>NestedmessageRepeatedInt32 := v\<rparr>),
     assignStruct TestNestedMessageHasBits_NestedMessageReader_GetNestedmessageRepeatedForeignmessage (repeatedToStruct ForeignMessageReader_ToStruct) cellNestedmessageRepeatedForeignmessage_update
       (\<lambda>v res. res\<lparr>NestedmessageRepeatedForeignmessage := v\<rparr>)]"

definition TestNestedMessageHasBits_NestedMessageReader_ToStruct :: "TestNestedMessageHasBits_NestedMessageReader option \<Rightarrow> (TestNestedMessageHasBits_NestedMessage option \<times> TestNestedMessageHasBits_NestedMessageReader option) run" where
  "TestNestedMessageHasBits_NestedMessageReader_ToStruct = toStructWith (TestNestedMessageHasBits_NestedMessage_stmts) TestNestedMessageHasBits_NestedMessage_zero"

definition TestNestedMessageHasBits_NestedMessage_appends :: "TestNestedMessageHasBits_NestedMessage \<Rightarrow> (Writer \<Rightarrow> Writer go) list" where
  "TestNestedMessageHasBits_NestedMessage_appends s = [
     \<lambda>res. if NestedmessageRepeatedInt32 s \<noteq> [] then packedWriter AppendInt32WithoutTag AppendInt32 SizeInt32 res wireTestNestedMessageHasBits_NestedMessage_NestedmessageRepeatedInt32 (NestedmessageRepeatedInt32 s) else Ret res,
     \<lambda>res. if NestedmessageRepeatedForeignmessage s \<noteq> [] then repeatedWriter (structWriter ForeignMessage_XXX_PbContentSize ForeignMessage_MarshalTo) res wireTestNestedMessageHasBits_NestedMessage_NestedmessageRepeatedForeignmessage (NestedmessageRepeatedForeignmessage s) else Ret res]"

definition TestNestedMessageHasBits_NestedMessage_MarshalTo :: "Writer \<Rightarrow> TestNestedMessageHasBits_NestedMessage option \<Rightarrow> Writer go" where
  "TestNestedMessageHasBits_NestedMessage_MarshalTo = marshalToWith (\<lambda>s. TestNestedMessageHasBits_NestedMessage_appends s)"

definition TestNestedMessageHasBits_NestedMessage_sizes :: "TestNestedMessageHasBits_NestedMessage \<Rightarrow> int list" where
  "TestNestedMessageHasBits_NestedMessage_sizes s = [
     if NestedmessageRepeatedInt32 s \<noteq> [] then packedSize SizeInt32 wireTestNestedMessageHasBits_NestedMessage_NestedmessageRepeatedInt32 (NestedmessageRepeatedInt32 s) else 0,
     if NestedmessageRepeatedForeignmessage s \<noteq> [] then repeatedSize (sizeDelimitedWithTag ForeignMessage_XXX_PbContentSize wireTestNestedMessageHasBits_NestedMessage_NestedmessageRepeatedForeignmessage) (NestedmessageRepeatedForeignmessage s) else 0]"

definition TestNestedMessageHasBits_NestedMessage_XXX_PbContentSize :: "TestNestedMessageHasBits_NestedMessage option \<Rightarrow> int" where
  "TestNestedMessageHasBits_NestedMessage_XXX_PbContentSize = contentSizeWith (\<lambda>s. TestNestedMessageHasBits_NestedMessage_sizes s)"

definition TestNestedMessageHasBits_NestedMessage_Marshal :: "TestNestedMessageHasBits_NestedMessage option \<Rightarrow> byte list go" where
  "TestNestedMessageHasBits_NestedMessage_Marshal = marshalWith TestNestedMessageHasBits_NestedMessage_XXX_PbContentSize TestNestedMessageHasBits_NestedMessage_MarshalTo"

definition TestNestedMessageHasBits_NestedMessage_Copy :: "TestNestedMessageHasBits_NestedMessage option \<Rightarrow> TestNestedMessageHasBits_NestedMessage option" where
  "TestNestedMessageHasBits_NestedMessage_Copy s =
     (case s of None \<Rightarrow> None | Some s \<Rightarrow> Some \<lparr>
        NestedmessageRepeatedInt32 = NestedmessageRepeatedInt32 s,
        NestedmessageRepeatedForeignmessage = map (\<lambda>e. case e of None \<Rightarrow> None | Some x \<Rightarrow> ForeignMessage_Copy (Some x)) (NestedmessageRepeatedForeignmessage s)\<rparr>)"

section \<open>TestNestedMessageHasBits_NestedMessage: the round trip\<close>

definition TestNestedMessageHasBits_NestedMessage_tags :: "ProtoWireNumber list" where
  "TestNestedMessageHasBits_NestedMessage_tags = [
     wireTestNestedMessageHasBits_NestedMessage_NestedmessageRepeatedInt32,
     wireTestNestedMessageHasBits_NestedMessage_NestedmessageRepeatedForeignmessage]"

definition TestNestedMessageHasBits_NestedMessage_groups :: "TestNestedMessageHasBits_NestedMessage \<Rightarrow> wfield list list" where
  "TestNestedMessageHasBits_NestedMessage_groups s = [
     packed_fields int32_val wireTestNestedMessageHasBits_NestedMessage_NestedmessageRepeatedInt32 (NestedmessageRepeatedInt32 s),
     bytes_fields wireTestNestedMessageHasBits_NestedMessage_NestedmessageRepeatedForeignmessage (map (ptr_bytes ForeignMessage_content) (NestedmessageRepeatedForeignmessage s))]"

definition TestNestedMessageHasBits_NestedMessage_content :: "TestNestedMessageHasBits_NestedMessage \<Rightarrow> wfield list" where
  "TestNestedMessageHasBits_NestedMessage_content s = concat (TestNestedMessageHasBits_NestedMessage_groups s)"

text \<open>What a round trip keeps.\<close>

definition TestNestedMessageHasBits_NestedMessage_norm :: "TestNestedMessageHasBits_NestedMessage \<Rightarrow> TestNestedMessageHasBits_NestedMessage" where
  "TestNestedMessageHasBits_NestedMessage_norm s = s\<lparr>
     NestedmessageRepeatedForeignmessage := map (norm_ptr ForeignMessage_content ForeignMessage_norm) (NestedmessageRepeatedForeignmessage s)\<rparr>"

definition TestNestedMessageHasBits_NestedMessage_ready :: "Reader \<Rightarrow> TestNestedMessageHasBits_NestedMessage \<Rightarrow> (TestNestedMessageHasBits_NestedMessageReader \<Rightarrow> bool) list" where
  "TestNestedMessageHasBits_NestedMessage_ready p s = [
     \<lambda>m. cell_reads (readPacked ReadInt32 SizedReadInt32 0) plain p (NestedmessageRepeatedInt32 s) (cellNestedmessageRepeatedInt32 m),
     \<lambda>m. cell_reads (readStructs (ForeignMessageReader_Unmarshal NewForeignMessageReader)) (repeatedToStruct ForeignMessageReader_ToStruct) p (map (norm_ptr ForeignMessage_content ForeignMessage_norm) (NestedmessageRepeatedForeignmessage s)) (cellNestedmessageRepeatedForeignmessage m)]"

definition TestNestedMessageHasBits_NestedMessage_stored :: "TestNestedMessageHasBits_NestedMessage \<Rightarrow> (TestNestedMessageHasBits_NestedMessage \<Rightarrow> TestNestedMessageHasBits_NestedMessage) list" where
  "TestNestedMessageHasBits_NestedMessage_stored s = [
     \<lambda>res. res\<lparr>NestedmessageRepeatedInt32 := NestedmessageRepeatedInt32 s\<rparr>,
     \<lambda>res. res\<lparr>NestedmessageRepeatedForeignmessage := map (norm_ptr ForeignMessage_content ForeignMessage_norm) (NestedmessageRepeatedForeignmessage s)\<rparr>]"

lemma TestNestedMessageHasBits_NestedMessage_cases_distinct: "distinct (map fst (TestNestedMessageHasBits_NestedMessageReader_cases wire offset))"
  by (rule ascending_distinct) (simp add: TestNestedMessageHasBits_NestedMessageReader_cases_def wireTestNestedMessageHasBits_NestedMessage)

lemma TestNestedMessageHasBits_NestedMessage_stores:
  "stores_cell TestNestedMessageHasBits_NestedMessageReader_save wireTestNestedMessageHasBits_NestedMessage_NestedmessageRepeatedInt32 addTyped cellNestedmessageRepeatedInt32"
  "stores_cell TestNestedMessageHasBits_NestedMessageReader_save wireTestNestedMessageHasBits_NestedMessage_NestedmessageRepeatedForeignmessage addOffset cellNestedmessageRepeatedForeignmessage"
  unfolding TestNestedMessageHasBits_NestedMessageReader_save_def [abs_def] by (rule stores_cell_switch; (rule TestNestedMessageHasBits_NestedMessage_cases_distinct)?; unfold TestNestedMessageHasBits_NestedMessageReader_cases_def; intro own_case.intros; simp)+

lemma TestNestedMessageHasBits_NestedMessage_saved: "good_fields TestNestedMessageHasBits_NestedMessageReader_save p (NewTestNestedMessageHasBits_NestedMessageReader\<lparr>mbuf := Some p\<rparr>) TestNestedMessageHasBits_NestedMessage_tags (TestNestedMessageHasBits_NestedMessage_groups s) (TestNestedMessageHasBits_NestedMessage_ready p s)"
  unfolding TestNestedMessageHasBits_NestedMessage_tags_def TestNestedMessageHasBits_NestedMessage_groups_def TestNestedMessageHasBits_NestedMessage_ready_def
  by (intro good_fields.intros field_saved m_ForeignMessage.saved_struct TestNestedMessageHasBits_NestedMessage_stores) (simp_all add: NewTestNestedMessageHasBits_NestedMessageReader_def newCell_def)

lemma TestNestedMessageHasBits_NestedMessage_converted: "good_stmts mbuf p (TestNestedMessageHasBits_NestedMessage_stmts) (TestNestedMessageHasBits_NestedMessage_ready p s) (TestNestedMessageHasBits_NestedMessage_stored s)"
  unfolding TestNestedMessageHasBits_NestedMessage_stmts_def TestNestedMessageHasBits_NestedMessage_ready_def TestNestedMessageHasBits_NestedMessage_stored_def TestNestedMessageHasBits_NestedMessage_getters append.simps
  by (intro good_stmts_field good_stmts.Nil) (simp_all cong: cell_reads_cong)

interpretation l_TestNestedMessageHasBits_NestedMessage: lazy_message TestNestedMessageHasBits_NestedMessage_tags TestNestedMessageHasBits_NestedMessage_groups TestNestedMessageHasBits_NestedMessage_norm
  "\<lambda>s. TestNestedMessageHasBits_NestedMessage_sizes s" "\<lambda>s. TestNestedMessageHasBits_NestedMessage_appends s"
  TestNestedMessageHasBits_NestedMessageReader_save "\<lambda>p. NewTestNestedMessageHasBits_NestedMessageReader\<lparr>mbuf := Some p\<rparr>" mbuf "TestNestedMessageHasBits_NestedMessage_stmts" TestNestedMessageHasBits_NestedMessage_zero TestNestedMessageHasBits_NestedMessage_ready TestNestedMessageHasBits_NestedMessage_stored
proof
  show "distinct TestNestedMessageHasBits_NestedMessage_tags"
    using TestNestedMessageHasBits_NestedMessage_cases_distinct by (simp only: TestNestedMessageHasBits_NestedMessageReader_cases_def TestNestedMessageHasBits_NestedMessage_tags_def list.map fst_conv)
  show "list_all valid_tag TestNestedMessageHasBits_NestedMessage_tags"
    by (simp add: TestNestedMessageHasBits_NestedMessage_tags_def wireTestNestedMessageHasBits_NestedMessage valid_tag_def)
  show "list_all2 (\<lambda>t g. \<forall>f \<in> set g. fst f = t \<and> wf_val (snd f)) TestNestedMessageHasBits_NestedMessage_tags (TestNestedMessageHasBits_NestedMessage_groups s)" for s
    unfolding TestNestedMessageHasBits_NestedMessage_tags_def TestNestedMessageHasBits_NestedMessage_groups_def by (intro list.rel_intros field_tagged m_ForeignMessage.tagged_struct)
  show "list_all2 (\<lambda>e g. e = int (length (fields_bytes g))) (TestNestedMessageHasBits_NestedMessage_sizes s) (TestNestedMessageHasBits_NestedMessage_groups s)" for s
    unfolding TestNestedMessageHasBits_NestedMessage_sizes_def TestNestedMessageHasBits_NestedMessage_groups_def append.simps
    by (intro list.rel_intros field_sized m_ForeignMessage.sized_struct)
  show "list_all2 (\<lambda>st g. writes st (fields_bytes g)) (TestNestedMessageHasBits_NestedMessage_appends s) (TestNestedMessageHasBits_NestedMessage_groups s)" for s
    unfolding TestNestedMessageHasBits_NestedMessage_appends_def TestNestedMessageHasBits_NestedMessage_groups_def append.simps
    by (intro list.rel_intros field_written m_ForeignMessage.written_struct)
  show "mbuf (TestNestedMessageHasBits_NestedMessageReader_save t w off m) = mbuf m" for t w off m
    unfolding TestNestedMessageHasBits_NestedMessageReader_save_def by (rule tag_switch_keeps) (simp add: TestNestedMessageHasBits_NestedMessageReader_cases_def)
  show "fold (\<lambda>e. e) (TestNestedMessageHasBits_NestedMessage_stored s) TestNestedMessageHasBits_NestedMessage_zero = TestNestedMessageHasBits_NestedMessage_norm s" for s
    unfolding TestNestedMessageHasBits_NestedMessage_stored_def by (simp add: TestNestedMessageHasBits_NestedMessage_zero_def TestNestedMessageHasBits_NestedMessage_norm_def float_defaults)
qed (simp_all add: TestNestedMessageHasBits_NestedMessage_saved TestNestedMessageHasBits_NestedMessage_converted)

interpretation m_TestNestedMessageHasBits_NestedMessage: message_codec TestNestedMessageHasBits_NestedMessage_content TestNestedMessageHasBits_NestedMessage_norm TestNestedMessageHasBits_NestedMessage_XXX_PbContentSize TestNestedMessageHasBits_NestedMessage_MarshalTo
  "TestNestedMessageHasBits_NestedMessageReader_Unmarshal NewTestNestedMessageHasBits_NestedMessageReader" TestNestedMessageHasBits_NestedMessageReader_ToStruct
  using l_TestNestedMessageHasBits_NestedMessage.message
  by (simp only: TestNestedMessageHasBits_NestedMessage_content_def [abs_def] TestNestedMessageHasBits_NestedMessage_XXX_PbContentSize_def TestNestedMessageHasBits_NestedMessage_MarshalTo_def TestNestedMessageHasBits_NestedMessageReader_Unmarshal_def [abs_def] TestNestedMessageHasBits_NestedMessageReader_ToStruct_def)


section \<open>TestNestedMessageHasBits: the reader\<close>

definition wireTestNestedMessageHasBits_OptionalNestedMessage :: ProtoWireNumber where "wireTestNestedMessageHasBits_OptionalNestedMessage = 1"

lemmas wireTestNestedMessageHasBits =
  wireTestNestedMessageHasBits_OptionalNestedMessage_def

record TestNestedMessageHasBitsReader =
  mbuf :: "Reader option"
  cellOptionalNestedMessage :: "(TestNestedMessageHasBits_NestedMessageReader option) one_cell"

definition NewTestNestedMessageHasBitsReader :: TestNestedMessageHasBitsReader where
  "NewTestNestedMessageHasBitsReader = \<lparr>
     mbuf = None, cellOptionalNestedMessage = newCell None 0\<rparr>"

definition TestNestedMessageHasBitsReader_readOptionalNestedMessage :: "TestNestedMessageHasBitsReader \<Rightarrow> (TestNestedMessageHasBits_NestedMessageReader option \<times> TestNestedMessageHasBitsReader) run" where
  "TestNestedMessageHasBitsReader_readOptionalNestedMessage = readCell cellOptionalNestedMessage cellOptionalNestedMessage_update mbuf (structReader (TestNestedMessageHasBits_NestedMessageReader_Unmarshal NewTestNestedMessageHasBits_NestedMessageReader))"

definition TestNestedMessageHasBitsReader_GetOptionalNestedMessage :: "TestNestedMessageHasBitsReader option \<Rightarrow> (TestNestedMessageHasBits_NestedMessageReader option \<times> TestNestedMessageHasBitsReader option) run" where
  "TestNestedMessageHasBitsReader_GetOptionalNestedMessage = getter TestNestedMessageHasBitsReader_readOptionalNestedMessage None"

lemmas TestNestedMessageHasBits_getters =
  TestNestedMessageHasBitsReader_readOptionalNestedMessage_def TestNestedMessageHasBitsReader_GetOptionalNestedMessage_def

definition TestNestedMessageHasBitsReader_cases :: "ProtoWireType \<Rightarrow> int \<Rightarrow> (ProtoWireNumber \<times> (TestNestedMessageHasBitsReader \<Rightarrow> TestNestedMessageHasBitsReader)) list" where
  "TestNestedMessageHasBitsReader_cases wire offset = [
     (wireTestNestedMessageHasBits_OptionalNestedMessage, \<lambda>m. m\<lparr>cellOptionalNestedMessage := onOffset (setOffset wire offset) (cellOptionalNestedMessage m)\<rparr>)]"

definition TestNestedMessageHasBitsReader_save :: "ProtoWireNumber \<Rightarrow> ProtoWireType \<Rightarrow> int \<Rightarrow> TestNestedMessageHasBitsReader \<Rightarrow> TestNestedMessageHasBitsReader" where
  "TestNestedMessageHasBitsReader_save tag wire offset = tag_switch (TestNestedMessageHasBitsReader_cases wire offset) tag"

definition TestNestedMessageHasBitsReader_Unmarshal :: "TestNestedMessageHasBitsReader \<Rightarrow> gslice \<Rightarrow> (TestNestedMessageHasBitsReader \<times> string option) run" where
  "TestNestedMessageHasBitsReader_Unmarshal m data =
     unmarshalLoop TestNestedMessageHasBitsReader_save (NewReader data) 0 (m\<lparr>mbuf := Some (NewReader data)\<rparr>)"

definition TestNestedMessageHasBitsReader_SourceBytes :: "TestNestedMessageHasBitsReader option \<Rightarrow> gslice" where
  "TestNestedMessageHasBitsReader_SourceBytes s = (case s of None \<Rightarrow> nil_slice | Some r \<Rightarrow> Bytes (mbuf r))"

section \<open>TestNestedMessageHasBits: the struct\<close>

record TestNestedMessageHasBits =
  OptionalNestedMessage :: "TestNestedMessageHasBits_NestedMessage option"

definition TestNestedMessageHasBits_zero :: TestNestedMessageHasBits where
  "TestNestedMessageHasBits_zero = \<lparr>
     OptionalNestedMessage = None\<rparr>"

definition TestNestedMessageHasBits_stmts :: "(TestNestedMessageHasBits \<times> TestNestedMessageHasBitsReader option \<Rightarrow> (TestNestedMessageHasBits \<times> TestNestedMessageHasBitsReader option) run) list" where
  "TestNestedMessageHasBits_stmts = [
     assignStruct TestNestedMessageHasBitsReader_GetOptionalNestedMessage (structToStruct TestNestedMessageHasBits_NestedMessageReader_ToStruct) cellOptionalNestedMessage_update
       (\<lambda>v res. res\<lparr>OptionalNestedMessage := v\<rparr>)]"

definition TestNestedMessageHasBitsReader_ToStruct :: "TestNestedMessageHasBitsReader option \<Rightarrow> (TestNestedMessageHasBits option \<times> TestNestedMessageHasBitsReader option) run" where
  "TestNestedMessageHasBitsReader_ToStruct = toStructWith (TestNestedMessageHasBits_stmts) TestNestedMessageHasBits_zero"

definition TestNestedMessageHasBits_appends :: "TestNestedMessageHasBits \<Rightarrow> (Writer \<Rightarrow> Writer go) list" where
  "TestNestedMessageHasBits_appends s = [
     \<lambda>res. if OptionalNestedMessage s \<noteq> None then structWriter TestNestedMessageHasBits_NestedMessage_XXX_PbContentSize TestNestedMessageHasBits_NestedMessage_MarshalTo res wireTestNestedMessageHasBits_OptionalNestedMessage (OptionalNestedMessage s) else Ret res]"

definition TestNestedMessageHasBits_MarshalTo :: "Writer \<Rightarrow> TestNestedMessageHasBits option \<Rightarrow> Writer go" where
  "TestNestedMessageHasBits_MarshalTo = marshalToWith (\<lambda>s. TestNestedMessageHasBits_appends s)"

definition TestNestedMessageHasBits_sizes :: "TestNestedMessageHasBits \<Rightarrow> int list" where
  "TestNestedMessageHasBits_sizes s = [
     if OptionalNestedMessage s \<noteq> None then sizeDelimitedWithTag TestNestedMessageHasBits_NestedMessage_XXX_PbContentSize wireTestNestedMessageHasBits_OptionalNestedMessage (OptionalNestedMessage s) else 0]"

definition TestNestedMessageHasBits_XXX_PbContentSize :: "TestNestedMessageHasBits option \<Rightarrow> int" where
  "TestNestedMessageHasBits_XXX_PbContentSize = contentSizeWith (\<lambda>s. TestNestedMessageHasBits_sizes s)"

definition TestNestedMessageHasBits_Marshal :: "TestNestedMessageHasBits option \<Rightarrow> byte list go" where
  "TestNestedMessageHasBits_Marshal = marshalWith TestNestedMessageHasBits_XXX_PbContentSize TestNestedMessageHasBits_MarshalTo"

definition TestNestedMessageHasBits_Copy :: "TestNestedMessageHasBits option \<Rightarrow> TestNestedMessageHasBits option" where
  "TestNestedMessageHasBits_Copy s =
     (case s of None \<Rightarrow> None | Some s \<Rightarrow> Some \<lparr>
        OptionalNestedMessage = (case OptionalNestedMessage s of None \<Rightarrow> None | Some x \<Rightarrow> TestNestedMessageHasBits_NestedMessage_Copy (Some x))\<rparr>)"

section \<open>TestNestedMessageHasBits: the round trip\<close>

definition TestNestedMessageHasBits_tags :: "ProtoWireNumber list" where
  "TestNestedMessageHasBits_tags = [
     wireTestNestedMessageHasBits_OptionalNestedMessage]"

definition TestNestedMessageHasBits_groups :: "TestNestedMessageHasBits \<Rightarrow> wfield list list" where
  "TestNestedMessageHasBits_groups s = [
     opt_field (OptionalNestedMessage s \<noteq> None) (wireTestNestedMessageHasBits_OptionalNestedMessage, WBytes (ptr_bytes TestNestedMessageHasBits_NestedMessage_content (OptionalNestedMessage s)))]"

definition TestNestedMessageHasBits_content :: "TestNestedMessageHasBits \<Rightarrow> wfield list" where
  "TestNestedMessageHasBits_content s = concat (TestNestedMessageHasBits_groups s)"

text \<open>What a round trip keeps.\<close>

definition TestNestedMessageHasBits_norm :: "TestNestedMessageHasBits \<Rightarrow> TestNestedMessageHasBits" where
  "TestNestedMessageHasBits_norm s = s\<lparr>
     OptionalNestedMessage := norm_ptr TestNestedMessageHasBits_NestedMessage_content TestNestedMessageHasBits_NestedMessage_norm (OptionalNestedMessage s)\<rparr>"

definition TestNestedMessageHasBits_ready :: "Reader \<Rightarrow> TestNestedMessageHasBits \<Rightarrow> (TestNestedMessageHasBitsReader \<Rightarrow> bool) list" where
  "TestNestedMessageHasBits_ready p s = [
     \<lambda>m. cell_reads (structReader (TestNestedMessageHasBits_NestedMessageReader_Unmarshal NewTestNestedMessageHasBits_NestedMessageReader)) (structToStruct TestNestedMessageHasBits_NestedMessageReader_ToStruct) p (norm_ptr TestNestedMessageHasBits_NestedMessage_content TestNestedMessageHasBits_NestedMessage_norm (OptionalNestedMessage s)) (cellOptionalNestedMessage m)]"

definition TestNestedMessageHasBits_stored :: "TestNestedMessageHasBits \<Rightarrow> (TestNestedMessageHasBits \<Rightarrow> TestNestedMessageHasBits) list" where
  "TestNestedMessageHasBits_stored s = [
     \<lambda>res. res\<lparr>OptionalNestedMessage := norm_ptr TestNestedMessageHasBits_NestedMessage_content TestNestedMessageHasBits_NestedMessage_norm (OptionalNestedMessage s)\<rparr>]"

lemma TestNestedMessageHasBits_cases_distinct: "distinct (map fst (TestNestedMessageHasBitsReader_cases wire offset))"
  by (rule ascending_distinct) (simp add: TestNestedMessageHasBitsReader_cases_def wireTestNestedMessageHasBits)

lemma TestNestedMessageHasBits_stores:
  "stores_cell TestNestedMessageHasBitsReader_save wireTestNestedMessageHasBits_OptionalNestedMessage setOffset cellOptionalNestedMessage"
  unfolding TestNestedMessageHasBitsReader_save_def [abs_def] by (rule stores_cell_switch; (rule TestNestedMessageHasBits_cases_distinct)?; unfold TestNestedMessageHasBitsReader_cases_def; intro own_case.intros; simp)+

lemma TestNestedMessageHasBits_saved: "good_fields TestNestedMessageHasBitsReader_save p (NewTestNestedMessageHasBitsReader\<lparr>mbuf := Some p\<rparr>) TestNestedMessageHasBits_tags (TestNestedMessageHasBits_groups s) (TestNestedMessageHasBits_ready p s)"
  unfolding TestNestedMessageHasBits_tags_def TestNestedMessageHasBits_groups_def TestNestedMessageHasBits_ready_def
  by (intro good_fields.intros field_saved m_TestNestedMessageHasBits_NestedMessage.saved_struct TestNestedMessageHasBits_stores) (simp_all add: NewTestNestedMessageHasBitsReader_def newCell_def)

lemma TestNestedMessageHasBits_converted: "good_stmts mbuf p (TestNestedMessageHasBits_stmts) (TestNestedMessageHasBits_ready p s) (TestNestedMessageHasBits_stored s)"
  unfolding TestNestedMessageHasBits_stmts_def TestNestedMessageHasBits_ready_def TestNestedMessageHasBits_stored_def TestNestedMessageHasBits_getters append.simps
  by (intro good_stmts_field good_stmts.Nil) (simp_all cong: cell_reads_cong)

interpretation l_TestNestedMessageHasBits: lazy_message TestNestedMessageHasBits_tags TestNestedMessageHasBits_groups TestNestedMessageHasBits_norm
  "\<lambda>s. TestNestedMessageHasBits_sizes s" "\<lambda>s. TestNestedMessageHasBits_appends s"
  TestNestedMessageHasBitsReader_save "\<lambda>p. NewTestNestedMessageHasBitsReader\<lparr>mbuf := Some p\<rparr>" mbuf "TestNestedMessageHasBits_stmts" TestNestedMessageHasBits_zero TestNestedMessageHasBits_ready TestNestedMessageHasBits_stored
proof
  show "distinct TestNestedMessageHasBits_tags"
    using TestNestedMessageHasBits_cases_distinct by (simp only: TestNestedMessageHasBitsReader_cases_def TestNestedMessageHasBits_tags_def list.map fst_conv)
  show "list_all valid_tag TestNestedMessageHasBits_tags"
    by (simp add: TestNestedMessageHasBits_tags_def wireTestNestedMessageHasBits valid_tag_def)
  show "list_all2 (\<lambda>t g. \<forall>f \<in> set g. fst f = t \<and> wf_val (snd f)) TestNestedMessageHasBits_tags (TestNestedMessageHasBits_groups s)" for s
    unfolding TestNestedMessageHasBits_tags_def TestNestedMessageHasBits_groups_def by (intro list.rel_intros field_tagged m_TestNestedMessageHasBits_NestedMessage.tagged_struct)
  show "list_all2 (\<lambda>e g. e = int (length (fields_bytes g))) (TestNestedMessageHasBits_sizes s) (TestNestedMessageHasBits_groups s)" for s
    unfolding TestNestedMessageHasBits_sizes_def TestNestedMessageHasBits_groups_def append.simps
    by (intro list.rel_intros field_sized m_TestNestedMessageHasBits_NestedMessage.sized_struct)
  show "list_all2 (\<lambda>st g. writes st (fields_bytes g)) (TestNestedMessageHasBits_appends s) (TestNestedMessageHasBits_groups s)" for s
    unfolding TestNestedMessageHasBits_appends_def TestNestedMessageHasBits_groups_def append.simps
    by (intro list.rel_intros field_written m_TestNestedMessageHasBits_NestedMessage.written_struct)
  show "mbuf (TestNestedMessageHasBitsReader_save t w off m) = mbuf m" for t w off m
    unfolding TestNestedMessageHasBitsReader_save_def by (rule tag_switch_keeps) (simp add: TestNestedMessageHasBitsReader_cases_def)
  show "fold (\<lambda>e. e) (TestNestedMessageHasBits_stored s) TestNestedMessageHasBits_zero = TestNestedMessageHasBits_norm s" for s
    unfolding TestNestedMessageHasBits_stored_def by (simp add: TestNestedMessageHasBits_zero_def TestNestedMessageHasBits_norm_def float_defaults)
qed (simp_all add: TestNestedMessageHasBits_saved TestNestedMessageHasBits_converted)

interpretation m_TestNestedMessageHasBits: message_codec TestNestedMessageHasBits_content TestNestedMessageHasBits_norm TestNestedMessageHasBits_XXX_PbContentSize TestNestedMessageHasBits_MarshalTo
  "TestNestedMessageHasBitsReader_Unmarshal NewTestNestedMessageHasBitsReader" TestNestedMessageHasBitsReader_ToStruct
  using l_TestNestedMessageHasBits.message
  by (simp only: TestNestedMessageHasBits_content_def [abs_def] TestNestedMessageHasBits_XXX_PbContentSize_def TestNestedMessageHasBits_MarshalTo_def TestNestedMessageHasBitsReader_Unmarshal_def [abs_def] TestNestedMessageHasBitsReader_ToStruct_def)


section \<open>TestEagerMessage: the reader\<close>

definition wireTestEagerMessage_SubMessage :: ProtoWireNumber where "wireTestEagerMessage_SubMessage = 1"

lemmas wireTestEagerMessage =
  wireTestEagerMessage_SubMessage_def

record TestEagerMessageReader =
  mbuf :: "Reader option"
  cellSubMessage :: "(TestAllTypesReader option) one_cell"

definition NewTestEagerMessageReader :: TestEagerMessageReader where
  "NewTestEagerMessageReader = \<lparr>
     mbuf = None, cellSubMessage = newCell None 0\<rparr>"

definition TestEagerMessageReader_readSubMessage :: "TestEagerMessageReader \<Rightarrow> (TestAllTypesReader option \<times> TestEagerMessageReader) run" where
  "TestEagerMessageReader_readSubMessage = readCell cellSubMessage cellSubMessage_update mbuf (structReader (TestAllTypesReader_Unmarshal NewTestAllTypesReader))"

definition TestEagerMessageReader_GetSubMessage :: "TestEagerMessageReader option \<Rightarrow> (TestAllTypesReader option \<times> TestEagerMessageReader option) run" where
  "TestEagerMessageReader_GetSubMessage = getter TestEagerMessageReader_readSubMessage None"

lemmas TestEagerMessage_getters =
  TestEagerMessageReader_readSubMessage_def TestEagerMessageReader_GetSubMessage_def

definition TestEagerMessageReader_cases :: "ProtoWireType \<Rightarrow> int \<Rightarrow> (ProtoWireNumber \<times> (TestEagerMessageReader \<Rightarrow> TestEagerMessageReader)) list" where
  "TestEagerMessageReader_cases wire offset = [
     (wireTestEagerMessage_SubMessage, \<lambda>m. m\<lparr>cellSubMessage := onOffset (setOffset wire offset) (cellSubMessage m)\<rparr>)]"

definition TestEagerMessageReader_save :: "ProtoWireNumber \<Rightarrow> ProtoWireType \<Rightarrow> int \<Rightarrow> TestEagerMessageReader \<Rightarrow> TestEagerMessageReader" where
  "TestEagerMessageReader_save tag wire offset = tag_switch (TestEagerMessageReader_cases wire offset) tag"

definition TestEagerMessageReader_Unmarshal :: "TestEagerMessageReader \<Rightarrow> gslice \<Rightarrow> (TestEagerMessageReader \<times> string option) run" where
  "TestEagerMessageReader_Unmarshal m data =
     unmarshalLoop TestEagerMessageReader_save (NewReader data) 0 (m\<lparr>mbuf := Some (NewReader data)\<rparr>)"

definition TestEagerMessageReader_SourceBytes :: "TestEagerMessageReader option \<Rightarrow> gslice" where
  "TestEagerMessageReader_SourceBytes s = (case s of None \<Rightarrow> nil_slice | Some r \<Rightarrow> Bytes (mbuf r))"

section \<open>TestEagerMessage: the struct\<close>

record TestEagerMessage =
  SubMessage :: "TestAllTypes option"

definition TestEagerMessage_zero :: TestEagerMessage where
  "TestEagerMessage_zero = \<lparr>
     SubMessage = None\<rparr>"

definition TestEagerMessage_stmts :: "(TestEagerMessage \<times> TestEagerMessageReader option \<Rightarrow> (TestEagerMessage \<times> TestEagerMessageReader option) run) list" where
  "TestEagerMessage_stmts = [
     assignStruct TestEagerMessageReader_GetSubMessage (structToStruct TestAllTypesReader_ToStruct) cellSubMessage_update
       (\<lambda>v res. res\<lparr>SubMessage := v\<rparr>)]"

definition TestEagerMessageReader_ToStruct :: "TestEagerMessageReader option \<Rightarrow> (TestEagerMessage option \<times> TestEagerMessageReader option) run" where
  "TestEagerMessageReader_ToStruct = toStructWith (TestEagerMessage_stmts) TestEagerMessage_zero"

definition TestEagerMessage_appends :: "TestEagerMessage \<Rightarrow> (Writer \<Rightarrow> Writer go) list" where
  "TestEagerMessage_appends s = [
     \<lambda>res. if SubMessage s \<noteq> None then structWriter TestAllTypes_XXX_PbContentSize TestAllTypes_MarshalTo res wireTestEagerMessage_SubMessage (SubMessage s) else Ret res]"

definition TestEagerMessage_MarshalTo :: "Writer \<Rightarrow> TestEagerMessage option \<Rightarrow> Writer go" where
  "TestEagerMessage_MarshalTo = marshalToWith (\<lambda>s. TestEagerMessage_appends s)"

definition TestEagerMessage_sizes :: "TestEagerMessage \<Rightarrow> int list" where
  "TestEagerMessage_sizes s = [
     if SubMessage s \<noteq> None then sizeDelimitedWithTag TestAllTypes_XXX_PbContentSize wireTestEagerMessage_SubMessage (SubMessage s) else 0]"

definition TestEagerMessage_XXX_PbContentSize :: "TestEagerMessage option \<Rightarrow> int" where
  "TestEagerMessage_XXX_PbContentSize = contentSizeWith (\<lambda>s. TestEagerMessage_sizes s)"

definition TestEagerMessage_Marshal :: "TestEagerMessage option \<Rightarrow> byte list go" where
  "TestEagerMessage_Marshal = marshalWith TestEagerMessage_XXX_PbContentSize TestEagerMessage_MarshalTo"

definition TestEagerMessage_Copy :: "TestEagerMessage option \<Rightarrow> TestEagerMessage option" where
  "TestEagerMessage_Copy s =
     (case s of None \<Rightarrow> None | Some s \<Rightarrow> Some \<lparr>
        SubMessage = (case SubMessage s of None \<Rightarrow> None | Some x \<Rightarrow> TestAllTypes_Copy (Some x))\<rparr>)"

section \<open>TestEagerMessage: the round trip\<close>

definition TestEagerMessage_tags :: "ProtoWireNumber list" where
  "TestEagerMessage_tags = [
     wireTestEagerMessage_SubMessage]"

definition TestEagerMessage_groups :: "TestEagerMessage \<Rightarrow> wfield list list" where
  "TestEagerMessage_groups s = [
     opt_field (SubMessage s \<noteq> None) (wireTestEagerMessage_SubMessage, WBytes (ptr_bytes TestAllTypes_content (SubMessage s)))]"

definition TestEagerMessage_content :: "TestEagerMessage \<Rightarrow> wfield list" where
  "TestEagerMessage_content s = concat (TestEagerMessage_groups s)"

text \<open>What a round trip keeps.\<close>

definition TestEagerMessage_norm :: "TestEagerMessage \<Rightarrow> TestEagerMessage" where
  "TestEagerMessage_norm s = s\<lparr>
     SubMessage := norm_ptr TestAllTypes_content TestAllTypes_norm (SubMessage s)\<rparr>"

definition TestEagerMessage_ready :: "Reader \<Rightarrow> TestEagerMessage \<Rightarrow> (TestEagerMessageReader \<Rightarrow> bool) list" where
  "TestEagerMessage_ready p s = [
     \<lambda>m. cell_reads (structReader (TestAllTypesReader_Unmarshal NewTestAllTypesReader)) (structToStruct TestAllTypesReader_ToStruct) p (norm_ptr TestAllTypes_content TestAllTypes_norm (SubMessage s)) (cellSubMessage m)]"

definition TestEagerMessage_stored :: "TestEagerMessage \<Rightarrow> (TestEagerMessage \<Rightarrow> TestEagerMessage) list" where
  "TestEagerMessage_stored s = [
     \<lambda>res. res\<lparr>SubMessage := norm_ptr TestAllTypes_content TestAllTypes_norm (SubMessage s)\<rparr>]"

lemma TestEagerMessage_cases_distinct: "distinct (map fst (TestEagerMessageReader_cases wire offset))"
  by (rule ascending_distinct) (simp add: TestEagerMessageReader_cases_def wireTestEagerMessage)

lemma TestEagerMessage_stores:
  "stores_cell TestEagerMessageReader_save wireTestEagerMessage_SubMessage setOffset cellSubMessage"
  unfolding TestEagerMessageReader_save_def [abs_def] by (rule stores_cell_switch; (rule TestEagerMessage_cases_distinct)?; unfold TestEagerMessageReader_cases_def; intro own_case.intros; simp)+

lemma TestEagerMessage_saved: "good_fields TestEagerMessageReader_save p (NewTestEagerMessageReader\<lparr>mbuf := Some p\<rparr>) TestEagerMessage_tags (TestEagerMessage_groups s) (TestEagerMessage_ready p s)"
  unfolding TestEagerMessage_tags_def TestEagerMessage_groups_def TestEagerMessage_ready_def
  by (intro good_fields.intros field_saved m_TestAllTypes.saved_struct TestEagerMessage_stores) (simp_all add: NewTestEagerMessageReader_def newCell_def)

lemma TestEagerMessage_converted: "good_stmts mbuf p (TestEagerMessage_stmts) (TestEagerMessage_ready p s) (TestEagerMessage_stored s)"
  unfolding TestEagerMessage_stmts_def TestEagerMessage_ready_def TestEagerMessage_stored_def TestEagerMessage_getters append.simps
  by (intro good_stmts_field good_stmts.Nil) (simp_all cong: cell_reads_cong)

interpretation l_TestEagerMessage: lazy_message TestEagerMessage_tags TestEagerMessage_groups TestEagerMessage_norm
  "\<lambda>s. TestEagerMessage_sizes s" "\<lambda>s. TestEagerMessage_appends s"
  TestEagerMessageReader_save "\<lambda>p. NewTestEagerMessageReader\<lparr>mbuf := Some p\<rparr>" mbuf "TestEagerMessage_stmts" TestEagerMessage_zero TestEagerMessage_ready TestEagerMessage_stored
proof
  show "distinct TestEagerMessage_tags"
    using TestEagerMessage_cases_distinct by (simp only: TestEagerMessageReader_cases_def TestEagerMessage_tags_def list.map fst_conv)
  show "list_all valid_tag TestEagerMessage_tags"
    by (simp add: TestEagerMessage_tags_def wireTestEagerMessage valid_tag_def)
  show "list_all2 (\<lambda>t g. \<forall>f \<in> set g. fst f = t \<and> wf_val (snd f)) TestEagerMessage_tags (TestEagerMessage_groups s)" for s
    unfolding TestEagerMessage_tags_def TestEagerMessage_groups_def by (intro list.rel_intros field_tagged m_TestAllTypes.tagged_struct)
  show "list_all2 (\<lambda>e g. e = int (length (fields_bytes g))) (TestEagerMessage_sizes s) (TestEagerMessage_groups s)" for s
    unfolding TestEagerMessage_sizes_def TestEagerMessage_groups_def append.simps
    by (intro list.rel_intros field_sized m_TestAllTypes.sized_struct)
  show "list_all2 (\<lambda>st g. writes st (fields_bytes g)) (TestEagerMessage_appends s) (TestEagerMessage_groups s)" for s
    unfolding TestEagerMessage_appends_def TestEagerMessage_groups_def append.simps
    by (intro list.rel_intros field_written m_TestAllTypes.written_struct)
  show "mbuf (TestEagerMessageReader_save t w off m) = mbuf m" for t w off m
    unfolding TestEagerMessageReader_save_def by (rule tag_switch_keeps) (simp add: TestEagerMessageReader_cases_def)
  show "fold (\<lambda>e. e) (TestEagerMessage_stored s) TestEagerMessage_zero = TestEagerMessage_norm s" for s
    unfolding TestEagerMessage_stored_def by (simp add: TestEagerMessage_zero_def TestEagerMessage_norm_def float_defaults)
qed (simp_all add: TestEagerMessage_saved TestEagerMessage_converted)

interpretation m_TestEagerMessage: message_codec TestEagerMessage_content TestEagerMessage_norm TestEagerMessage_XXX_PbContentSize TestEagerMessage_MarshalTo
  "TestEagerMessageReader_Unmarshal NewTestEagerMessageReader" TestEagerMessageReader_ToStruct
  using l_TestEagerMessage.message
  by (simp only: TestEagerMessage_content_def [abs_def] TestEagerMessage_XXX_PbContentSize_def TestEagerMessage_MarshalTo_def TestEagerMessageReader_Unmarshal_def [abs_def] TestEagerMessageReader_ToStruct_def)


section \<open>TestLazyMessage: the reader\<close>

definition wireTestLazyMessage_SubMessage :: ProtoWireNumber where "wireTestLazyMessage_SubMessage = 1"

lemmas wireTestLazyMessage =
  wireTestLazyMessage_SubMessage_def

record TestLazyMessageReader =
  mbuf :: "Reader option"
  cellSubMessage :: "(TestAllTypesReader option) one_cell"

definition NewTestLazyMessageReader :: TestLazyMessageReader where
  "NewTestLazyMessageReader = \<lparr>
     mbuf = None, cellSubMessage = newCell None 0\<rparr>"

definition TestLazyMessageReader_readSubMessage :: "TestLazyMessageReader \<Rightarrow> (TestAllTypesReader option \<times> TestLazyMessageReader) run" where
  "TestLazyMessageReader_readSubMessage = readCell cellSubMessage cellSubMessage_update mbuf (structReader (TestAllTypesReader_Unmarshal NewTestAllTypesReader))"

definition TestLazyMessageReader_GetSubMessage :: "TestLazyMessageReader option \<Rightarrow> (TestAllTypesReader option \<times> TestLazyMessageReader option) run" where
  "TestLazyMessageReader_GetSubMessage = getter TestLazyMessageReader_readSubMessage None"

lemmas TestLazyMessage_getters =
  TestLazyMessageReader_readSubMessage_def TestLazyMessageReader_GetSubMessage_def

definition TestLazyMessageReader_cases :: "ProtoWireType \<Rightarrow> int \<Rightarrow> (ProtoWireNumber \<times> (TestLazyMessageReader \<Rightarrow> TestLazyMessageReader)) list" where
  "TestLazyMessageReader_cases wire offset = [
     (wireTestLazyMessage_SubMessage, \<lambda>m. m\<lparr>cellSubMessage := onOffset (setOffset wire offset) (cellSubMessage m)\<rparr>)]"

definition TestLazyMessageReader_save :: "ProtoWireNumber \<Rightarrow> ProtoWireType \<Rightarrow> int \<Rightarrow> TestLazyMessageReader \<Rightarrow> TestLazyMessageReader" where
  "TestLazyMessageReader_save tag wire offset = tag_switch (TestLazyMessageReader_cases wire offset) tag"

definition TestLazyMessageReader_Unmarshal :: "TestLazyMessageReader \<Rightarrow> gslice \<Rightarrow> (TestLazyMessageReader \<times> string option) run" where
  "TestLazyMessageReader_Unmarshal m data =
     unmarshalLoop TestLazyMessageReader_save (NewReader data) 0 (m\<lparr>mbuf := Some (NewReader data)\<rparr>)"

definition TestLazyMessageReader_SourceBytes :: "TestLazyMessageReader option \<Rightarrow> gslice" where
  "TestLazyMessageReader_SourceBytes s = (case s of None \<Rightarrow> nil_slice | Some r \<Rightarrow> Bytes (mbuf r))"

section \<open>TestLazyMessage: the struct\<close>

record TestLazyMessage =
  SubMessage :: "TestAllTypes option"

definition TestLazyMessage_zero :: TestLazyMessage where
  "TestLazyMessage_zero = \<lparr>
     SubMessage = None\<rparr>"

definition TestLazyMessage_stmts :: "(TestLazyMessage \<times> TestLazyMessageReader option \<Rightarrow> (TestLazyMessage \<times> TestLazyMessageReader option) run) list" where
  "TestLazyMessage_stmts = [
     assignStruct TestLazyMessageReader_GetSubMessage (structToStruct TestAllTypesReader_ToStruct) cellSubMessage_update
       (\<lambda>v res. res\<lparr>SubMessage := v\<rparr>)]"

definition TestLazyMessageReader_ToStruct :: "TestLazyMessageReader option \<Rightarrow> (TestLazyMessage option \<times> TestLazyMessageReader option) run" where
  "TestLazyMessageReader_ToStruct = toStructWith (TestLazyMessage_stmts) TestLazyMessage_zero"

definition TestLazyMessage_appends :: "TestLazyMessage \<Rightarrow> (Writer \<Rightarrow> Writer go) list" where
  "TestLazyMessage_appends s = [
     \<lambda>res. if SubMessage s \<noteq> None then structWriter TestAllTypes_XXX_PbContentSize TestAllTypes_MarshalTo res wireTestLazyMessage_SubMessage (SubMessage s) else Ret res]"

definition TestLazyMessage_MarshalTo :: "Writer \<Rightarrow> TestLazyMessage option \<Rightarrow> Writer go" where
  "TestLazyMessage_MarshalTo = marshalToWith (\<lambda>s. TestLazyMessage_appends s)"

definition TestLazyMessage_sizes :: "TestLazyMessage \<Rightarrow> int list" where
  "TestLazyMessage_sizes s = [
     if SubMessage s \<noteq> None then sizeDelimitedWithTag TestAllTypes_XXX_PbContentSize wireTestLazyMessage_SubMessage (SubMessage s) else 0]"

definition TestLazyMessage_XXX_PbContentSize :: "TestLazyMessage option \<Rightarrow> int" where
  "TestLazyMessage_XXX_PbContentSize = contentSizeWith (\<lambda>s. TestLazyMessage_sizes s)"

definition TestLazyMessage_Marshal :: "TestLazyMessage option \<Rightarrow> byte list go" where
  "TestLazyMessage_Marshal = marshalWith TestLazyMessage_XXX_PbContentSize TestLazyMessage_MarshalTo"

definition TestLazyMessage_Copy :: "TestLazyMessage option \<Rightarrow> TestLazyMessage option" where
  "TestLazyMessage_Copy s =
     (case s of None \<Rightarrow> None | Some s \<Rightarrow> Some \<lparr>
        SubMessage = (case SubMessage s of None \<Rightarrow> None | Some x \<Rightarrow> TestAllTypes_Copy (Some x))\<rparr>)"

section \<open>TestLazyMessage: the round trip\<close>

definition TestLazyMessage_tags :: "ProtoWireNumber list" where
  "TestLazyMessage_tags = [
     wireTestLazyMessage_SubMessage]"

definition TestLazyMessage_groups :: "TestLazyMessage \<Rightarrow> wfield list list" where
  "TestLazyMessage_groups s = [
     opt_field (SubMessage s \<noteq> None) (wireTestLazyMessage_SubMessage, WBytes (ptr_bytes TestAllTypes_content (SubMessage s)))]"

definition TestLazyMessage_content :: "TestLazyMessage \<Rightarrow> wfield list" where
  "TestLazyMessage_content s = concat (TestLazyMessage_groups s)"

text \<open>What a round trip keeps.\<close>

definition TestLazyMessage_norm :: "TestLazyMessage \<Rightarrow> TestLazyMessage" where
  "TestLazyMessage_norm s = s\<lparr>
     SubMessage := norm_ptr TestAllTypes_content TestAllTypes_norm (SubMessage s)\<rparr>"

definition TestLazyMessage_ready :: "Reader \<Rightarrow> TestLazyMessage \<Rightarrow> (TestLazyMessageReader \<Rightarrow> bool) list" where
  "TestLazyMessage_ready p s = [
     \<lambda>m. cell_reads (structReader (TestAllTypesReader_Unmarshal NewTestAllTypesReader)) (structToStruct TestAllTypesReader_ToStruct) p (norm_ptr TestAllTypes_content TestAllTypes_norm (SubMessage s)) (cellSubMessage m)]"

definition TestLazyMessage_stored :: "TestLazyMessage \<Rightarrow> (TestLazyMessage \<Rightarrow> TestLazyMessage) list" where
  "TestLazyMessage_stored s = [
     \<lambda>res. res\<lparr>SubMessage := norm_ptr TestAllTypes_content TestAllTypes_norm (SubMessage s)\<rparr>]"

lemma TestLazyMessage_cases_distinct: "distinct (map fst (TestLazyMessageReader_cases wire offset))"
  by (rule ascending_distinct) (simp add: TestLazyMessageReader_cases_def wireTestLazyMessage)

lemma TestLazyMessage_stores:
  "stores_cell TestLazyMessageReader_save wireTestLazyMessage_SubMessage setOffset cellSubMessage"
  unfolding TestLazyMessageReader_save_def [abs_def] by (rule stores_cell_switch; (rule TestLazyMessage_cases_distinct)?; unfold TestLazyMessageReader_cases_def; intro own_case.intros; simp)+

lemma TestLazyMessage_saved: "good_fields TestLazyMessageReader_save p (NewTestLazyMessageReader\<lparr>mbuf := Some p\<rparr>) TestLazyMessage_tags (TestLazyMessage_groups s) (TestLazyMessage_ready p s)"
  unfolding TestLazyMessage_tags_def TestLazyMessage_groups_def TestLazyMessage_ready_def
  by (intro good_fields.intros field_saved m_TestAllTypes.saved_struct TestLazyMessage_stores) (simp_all add: NewTestLazyMessageReader_def newCell_def)

lemma TestLazyMessage_converted: "good_stmts mbuf p (TestLazyMessage_stmts) (TestLazyMessage_ready p s) (TestLazyMessage_stored s)"
  unfolding TestLazyMessage_stmts_def TestLazyMessage_ready_def TestLazyMessage_stored_def TestLazyMessage_getters append.simps
  by (intro good_stmts_field good_stmts.Nil) (simp_all cong: cell_reads_cong)

interpretation l_TestLazyMessage: lazy_message TestLazyMessage_tags TestLazyMessage_groups TestLazyMessage_norm
  "\<lambda>s. TestLazyMessage_sizes s" "\<lambda>s. TestLazyMessage_appends s"
  TestLazyMessageReader_save "\<lambda>p. NewTestLazyMessageReader\<lparr>mbuf := Some p\<rparr>" mbuf "TestLazyMessage_stmts" TestLazyMessage_zero TestLazyMessage_ready TestLazyMessage_stored
proof
  show "distinct TestLazyMessage_tags"
    using TestLazyMessage_cases_distinct by (simp only: TestLazyMessageReader_cases_def TestLazyMessage_tags_def list.map fst_conv)
  show "list_all valid_tag TestLazyMessage_tags"
    by (simp add: TestLazyMessage_tags_def wireTestLazyMessage valid_tag_def)
  show "list_all2 (\<lambda>t g. \<forall>f \<in> set g. fst f = t \<and> wf_val (snd f)) TestLazyMessage_tags (TestLazyMessage_groups s)" for s
    unfolding TestLazyMessage_tags_def TestLazyMessage_groups_def by (intro list.rel_intros field_tagged m_TestAllTypes.tagged_struct)
  show "list_all2 (\<lambda>e g. e = int (length (fields_bytes g))) (TestLazyMessage_sizes s) (TestLazyMessage_groups s)" for s
    unfolding TestLazyMessage_sizes_def TestLazyMessage_groups_def append.simps
    by (intro list.rel_intros field_sized m_TestAllTypes.sized_struct)
  show "list_all2 (\<lambda>st g. writes st (fields_bytes g)) (TestLazyMessage_appends s) (TestLazyMessage_groups s)" for s
    unfolding TestLazyMessage_appends_def TestLazyMessage_groups_def append.simps
    by (intro list.rel_intros field_written m_TestAllTypes.written_struct)
  show "mbuf (TestLazyMessageReader_save t w off m) = mbuf m" for t w off m
    unfolding TestLazyMessageReader_save_def by (rule tag_switch_keeps) (simp add: TestLazyMessageReader_cases_def)
  show "fold (\<lambda>e. e) (TestLazyMessage_stored s) TestLazyMessage_zero = TestLazyMessage_norm s" for s
    unfolding TestLazyMessage_stored_def by (simp add: TestLazyMessage_zero_def TestLazyMessage_norm_def float_defaults)
qed (simp_all add: TestLazyMessage_saved TestLazyMessage_converted)

interpretation m_TestLazyMessage: message_codec TestLazyMessage_content TestLazyMessage_norm TestLazyMessage_XXX_PbContentSize TestLazyMessage_MarshalTo
  "TestLazyMessageReader_Unmarshal NewTestLazyMessageReader" TestLazyMessageReader_ToStruct
  using l_TestLazyMessage.message
  by (simp only: TestLazyMessage_content_def [abs_def] TestLazyMessage_XXX_PbContentSize_def TestLazyMessage_MarshalTo_def TestLazyMessageReader_Unmarshal_def [abs_def] TestLazyMessageReader_ToStruct_def)


section \<open>TestEagerMaybeLazy_NestedMessage: the reader\<close>

definition wireTestEagerMaybeLazy_NestedMessage_Packed :: ProtoWireNumber where "wireTestEagerMaybeLazy_NestedMessage_Packed = 1"

lemmas wireTestEagerMaybeLazy_NestedMessage =
  wireTestEagerMaybeLazy_NestedMessage_Packed_def

record TestEagerMaybeLazy_NestedMessageReader =
  mbuf :: "Reader option"
  cellPacked :: "(TestPackedTypesReader option) one_cell"

definition NewTestEagerMaybeLazy_NestedMessageReader :: TestEagerMaybeLazy_NestedMessageReader where
  "NewTestEagerMaybeLazy_NestedMessageReader = \<lparr>
     mbuf = None, cellPacked = newCell None 0\<rparr>"

definition TestEagerMaybeLazy_NestedMessageReader_readPacked :: "TestEagerMaybeLazy_NestedMessageReader \<Rightarrow> (TestPackedTypesReader option \<times> TestEagerMaybeLazy_NestedMessageReader) run" where
  "TestEagerMaybeLazy_NestedMessageReader_readPacked = readCell cellPacked cellPacked_update mbuf (structReader (TestPackedTypesReader_Unmarshal NewTestPackedTypesReader))"

definition TestEagerMaybeLazy_NestedMessageReader_GetPacked :: "TestEagerMaybeLazy_NestedMessageReader option \<Rightarrow> (TestPackedTypesReader option \<times> TestEagerMaybeLazy_NestedMessageReader option) run" where
  "TestEagerMaybeLazy_NestedMessageReader_GetPacked = getter TestEagerMaybeLazy_NestedMessageReader_readPacked None"

lemmas TestEagerMaybeLazy_NestedMessage_getters =
  TestEagerMaybeLazy_NestedMessageReader_readPacked_def TestEagerMaybeLazy_NestedMessageReader_GetPacked_def

definition TestEagerMaybeLazy_NestedMessageReader_cases :: "ProtoWireType \<Rightarrow> int \<Rightarrow> (ProtoWireNumber \<times> (TestEagerMaybeLazy_NestedMessageReader \<Rightarrow> TestEagerMaybeLazy_NestedMessageReader)) list" where
  "TestEagerMaybeLazy_NestedMessageReader_cases wire offset = [
     (wireTestEagerMaybeLazy_NestedMessage_Packed, \<lambda>m. m\<lparr>cellPacked := onOffset (setOffset wire offset) (cellPacked m)\<rparr>)]"

definition TestEagerMaybeLazy_NestedMessageReader_save :: "ProtoWireNumber \<Rightarrow> ProtoWireType \<Rightarrow> int \<Rightarrow> TestEagerMaybeLazy_NestedMessageReader \<Rightarrow> TestEagerMaybeLazy_NestedMessageReader" where
  "TestEagerMaybeLazy_NestedMessageReader_save tag wire offset = tag_switch (TestEagerMaybeLazy_NestedMessageReader_cases wire offset) tag"

definition TestEagerMaybeLazy_NestedMessageReader_Unmarshal :: "TestEagerMaybeLazy_NestedMessageReader \<Rightarrow> gslice \<Rightarrow> (TestEagerMaybeLazy_NestedMessageReader \<times> string option) run" where
  "TestEagerMaybeLazy_NestedMessageReader_Unmarshal m data =
     unmarshalLoop TestEagerMaybeLazy_NestedMessageReader_save (NewReader data) 0 (m\<lparr>mbuf := Some (NewReader data)\<rparr>)"

definition TestEagerMaybeLazy_NestedMessageReader_SourceBytes :: "TestEagerMaybeLazy_NestedMessageReader option \<Rightarrow> gslice" where
  "TestEagerMaybeLazy_NestedMessageReader_SourceBytes s = (case s of None \<Rightarrow> nil_slice | Some r \<Rightarrow> Bytes (mbuf r))"

section \<open>TestEagerMaybeLazy_NestedMessage: the struct\<close>

record TestEagerMaybeLazy_NestedMessage =
  Packed :: "TestPackedTypes option"

definition TestEagerMaybeLazy_NestedMessage_zero :: TestEagerMaybeLazy_NestedMessage where
  "TestEagerMaybeLazy_NestedMessage_zero = \<lparr>
     Packed = None\<rparr>"

definition TestEagerMaybeLazy_NestedMessage_stmts :: "(TestEagerMaybeLazy_NestedMessage \<times> TestEagerMaybeLazy_NestedMessageReader option \<Rightarrow> (TestEagerMaybeLazy_NestedMessage \<times> TestEagerMaybeLazy_NestedMessageReader option) run) list" where
  "TestEagerMaybeLazy_NestedMessage_stmts = [
     assignStruct TestEagerMaybeLazy_NestedMessageReader_GetPacked (structToStruct TestPackedTypesReader_ToStruct) cellPacked_update
       (\<lambda>v res. res\<lparr>Packed := v\<rparr>)]"

definition TestEagerMaybeLazy_NestedMessageReader_ToStruct :: "TestEagerMaybeLazy_NestedMessageReader option \<Rightarrow> (TestEagerMaybeLazy_NestedMessage option \<times> TestEagerMaybeLazy_NestedMessageReader option) run" where
  "TestEagerMaybeLazy_NestedMessageReader_ToStruct = toStructWith (TestEagerMaybeLazy_NestedMessage_stmts) TestEagerMaybeLazy_NestedMessage_zero"

definition TestEagerMaybeLazy_NestedMessage_appends :: "TestEagerMaybeLazy_NestedMessage \<Rightarrow> (Writer \<Rightarrow> Writer go) list" where
  "TestEagerMaybeLazy_NestedMessage_appends s = [
     \<lambda>res. if Packed s \<noteq> None then structWriter TestPackedTypes_XXX_PbContentSize TestPackedTypes_MarshalTo res wireTestEagerMaybeLazy_NestedMessage_Packed (Packed s) else Ret res]"

definition TestEagerMaybeLazy_NestedMessage_MarshalTo :: "Writer \<Rightarrow> TestEagerMaybeLazy_NestedMessage option \<Rightarrow> Writer go" where
  "TestEagerMaybeLazy_NestedMessage_MarshalTo = marshalToWith (\<lambda>s. TestEagerMaybeLazy_NestedMessage_appends s)"

definition TestEagerMaybeLazy_NestedMessage_sizes :: "TestEagerMaybeLazy_NestedMessage \<Rightarrow> int list" where
  "TestEagerMaybeLazy_NestedMessage_sizes s = [
     if Packed s \<noteq> None then sizeDelimitedWithTag TestPackedTypes_XXX_PbContentSize wireTestEagerMaybeLazy_NestedMessage_Packed (Packed s) else 0]"

definition TestEagerMaybeLazy_NestedMessage_XXX_PbContentSize :: "TestEagerMaybeLazy_NestedMessage option \<Rightarrow> int" where
  "TestEagerMaybeLazy_NestedMessage_XXX_PbContentSize = contentSizeWith (\<lambda>s. TestEagerMaybeLazy_NestedMessage_sizes s)"

definition TestEagerMaybeLazy_NestedMessage_Marshal :: "TestEagerMaybeLazy_NestedMessage option \<Rightarrow> byte list go" where
  "TestEagerMaybeLazy_NestedMessage_Marshal = marshalWith TestEagerMaybeLazy_NestedMessage_XXX_PbContentSize TestEagerMaybeLazy_NestedMessage_MarshalTo"

definition TestEagerMaybeLazy_NestedMessage_Copy :: "TestEagerMaybeLazy_NestedMessage option \<Rightarrow> TestEagerMaybeLazy_NestedMessage option" where
  "TestEagerMaybeLazy_NestedMessage_Copy s =
     (case s of None \<Rightarrow> None | Some s \<Rightarrow> Some \<lparr>
        Packed = (case Packed s of None \<Rightarrow> None | Some x \<Rightarrow> TestPackedTypes_Copy (Some x))\<rparr>)"

section \<open>TestEagerMaybeLazy_NestedMessage: the round trip\<close>

definition TestEagerMaybeLazy_NestedMessage_tags :: "ProtoWireNumber list" where
  "TestEagerMaybeLazy_NestedMessage_tags = [
     wireTestEagerMaybeLazy_NestedMessage_Packed]"

definition TestEagerMaybeLazy_NestedMessage_groups :: "TestEagerMaybeLazy_NestedMessage \<Rightarrow> wfield list list" where
  "TestEagerMaybeLazy_NestedMessage_groups s = [
     opt_field (Packed s \<noteq> None) (wireTestEagerMaybeLazy_NestedMessage_Packed, WBytes (ptr_bytes TestPackedTypes_content (Packed s)))]"

definition TestEagerMaybeLazy_NestedMessage_content :: "TestEagerMaybeLazy_NestedMessage \<Rightarrow> wfield list" where
  "TestEagerMaybeLazy_NestedMessage_content s = concat (TestEagerMaybeLazy_NestedMessage_groups s)"

text \<open>What a round trip keeps.\<close>

definition TestEagerMaybeLazy_NestedMessage_norm :: "TestEagerMaybeLazy_NestedMessage \<Rightarrow> TestEagerMaybeLazy_NestedMessage" where
  "TestEagerMaybeLazy_NestedMessage_norm s = s\<lparr>
     Packed := norm_ptr TestPackedTypes_content TestPackedTypes_norm (Packed s)\<rparr>"

definition TestEagerMaybeLazy_NestedMessage_ready :: "Reader \<Rightarrow> TestEagerMaybeLazy_NestedMessage \<Rightarrow> (TestEagerMaybeLazy_NestedMessageReader \<Rightarrow> bool) list" where
  "TestEagerMaybeLazy_NestedMessage_ready p s = [
     \<lambda>m. cell_reads (structReader (TestPackedTypesReader_Unmarshal NewTestPackedTypesReader)) (structToStruct TestPackedTypesReader_ToStruct) p (norm_ptr TestPackedTypes_content TestPackedTypes_norm (Packed s)) (cellPacked m)]"

definition TestEagerMaybeLazy_NestedMessage_stored :: "TestEagerMaybeLazy_NestedMessage \<Rightarrow> (TestEagerMaybeLazy_NestedMessage \<Rightarrow> TestEagerMaybeLazy_NestedMessage) list" where
  "TestEagerMaybeLazy_NestedMessage_stored s = [
     \<lambda>res. res\<lparr>Packed := norm_ptr TestPackedTypes_content TestPackedTypes_norm (Packed s)\<rparr>]"

lemma TestEagerMaybeLazy_NestedMessage_cases_distinct: "distinct (map fst (TestEagerMaybeLazy_NestedMessageReader_cases wire offset))"
  by (rule ascending_distinct) (simp add: TestEagerMaybeLazy_NestedMessageReader_cases_def wireTestEagerMaybeLazy_NestedMessage)

lemma TestEagerMaybeLazy_NestedMessage_stores:
  "stores_cell TestEagerMaybeLazy_NestedMessageReader_save wireTestEagerMaybeLazy_NestedMessage_Packed setOffset cellPacked"
  unfolding TestEagerMaybeLazy_NestedMessageReader_save_def [abs_def] by (rule stores_cell_switch; (rule TestEagerMaybeLazy_NestedMessage_cases_distinct)?; unfold TestEagerMaybeLazy_NestedMessageReader_cases_def; intro own_case.intros; simp)+

lemma TestEagerMaybeLazy_NestedMessage_saved: "good_fields TestEagerMaybeLazy_NestedMessageReader_save p (NewTestEagerMaybeLazy_NestedMessageReader\<lparr>mbuf := Some p\<rparr>) TestEagerMaybeLazy_NestedMessage_tags (TestEagerMaybeLazy_NestedMessage_groups s) (TestEagerMaybeLazy_NestedMessage_ready p s)"
  unfolding TestEagerMaybeLazy_NestedMessage_tags_def TestEagerMaybeLazy_NestedMessage_groups_def TestEagerMaybeLazy_NestedMessage_ready_def
  by (intro good_fields.intros field_saved m_TestPackedTypes.saved_struct TestEagerMaybeLazy_NestedMessage_stores) (simp_all add: NewTestEagerMaybeLazy_NestedMessageReader_def newCell_def)

lemma TestEagerMaybeLazy_NestedMessage_converted: "good_stmts mbuf p (TestEagerMaybeLazy_NestedMessage_stmts) (TestEagerMaybeLazy_NestedMessage_ready p s) (TestEagerMaybeLazy_NestedMessage_stored s)"
  unfolding TestEagerMaybeLazy_NestedMessage_stmts_def TestEagerMaybeLazy_NestedMessage_ready_def TestEagerMaybeLazy_NestedMessage_stored_def TestEagerMaybeLazy_NestedMessage_getters append.simps
  by (intro good_stmts_field good_stmts.Nil) (simp_all cong: cell_reads_cong)

interpretation l_TestEagerMaybeLazy_NestedMessage: lazy_message TestEagerMaybeLazy_NestedMessage_tags TestEagerMaybeLazy_NestedMessage_groups TestEagerMaybeLazy_NestedMessage_norm
  "\<lambda>s. TestEagerMaybeLazy_NestedMessage_sizes s" "\<lambda>s. TestEagerMaybeLazy_NestedMessage_appends s"
  TestEagerMaybeLazy_NestedMessageReader_save "\<lambda>p. NewTestEagerMaybeLazy_NestedMessageReader\<lparr>mbuf := Some p\<rparr>" mbuf "TestEagerMaybeLazy_NestedMessage_stmts" TestEagerMaybeLazy_NestedMessage_zero TestEagerMaybeLazy_NestedMessage_ready TestEagerMaybeLazy_NestedMessage_stored
proof
  show "distinct TestEagerMaybeLazy_NestedMessage_tags"
    using TestEagerMaybeLazy_NestedMessage_cases_distinct by (simp only: TestEagerMaybeLazy_NestedMessageReader_cases_def TestEagerMaybeLazy_NestedMessage_tags_def list.map fst_conv)
  show "list_all valid_tag TestEagerMaybeLazy_NestedMessage_tags"
    by (simp add: TestEagerMaybeLazy_NestedMessage_tags_def wireTestEagerMaybeLazy_NestedMessage valid_tag_def)
  show "list_all2 (\<lambda>t g. \<forall>f \<in> set g. fst f = t \<and> wf_val (snd f)) TestEagerMaybeLazy_NestedMessage_tags (TestEagerMaybeLazy_NestedMessage_groups s)" for s
    unfolding TestEagerMaybeLazy_NestedMessage_tags_def TestEagerMaybeLazy_NestedMessage_groups_def by (intro list.rel_intros field_tagged m_TestPackedTypes.tagged_struct)
  show "list_all2 (\<lambda>e g. e = int (length (fields_bytes g))) (TestEagerMaybeLazy_NestedMessage_sizes s) (TestEagerMaybeLazy_NestedMessage_groups s)" for s
    unfolding TestEagerMaybeLazy_NestedMessage_sizes_def TestEagerMaybeLazy_NestedMessage_groups_def append.simps
    by (intro list.rel_intros field_sized m_TestPackedTypes.sized_struct)
  show "list_all2 (\<lambda>st g. writes st (fields_bytes g)) (TestEagerMaybeLazy_NestedMessage_appends s) (TestEagerMaybeLazy_NestedMessage_groups s)" for s
    unfolding TestEagerMaybeLazy_NestedMessage_appends_def TestEagerMaybeLazy_NestedMessage_groups_def append.simps
    by (intro list.rel_intros field_written m_TestPackedTypes.written_struct)
  show "mbuf (TestEagerMaybeLazy_NestedMessageReader_save t w off m) = mbuf m" for t w off m
    unfolding TestEagerMaybeLazy_NestedMessageReader_save_def by (rule tag_switch_keeps) (simp add: TestEagerMaybeLazy_NestedMessageReader_cases_def)
  show "fold (\<lambda>e. e) (TestEagerMaybeLazy_NestedMessage_stored s) TestEagerMaybeLazy_NestedMessage_zero = TestEagerMaybeLazy_NestedMessage_norm s" for s
    unfolding TestEagerMaybeLazy_NestedMessage_stored_def by (simp add: TestEagerMaybeLazy_NestedMessage_zero_def TestEagerMaybeLazy_NestedMessage_norm_def float_defaults)
qed (simp_all add: TestEagerMaybeLazy_NestedMessage_saved TestEagerMaybeLazy_NestedMessage_converted)

interpretation m_TestEagerMaybeLazy_NestedMessage: message_codec TestEagerMaybeLazy_NestedMessage_content TestEagerMaybeLazy_NestedMessage_norm TestEagerMaybeLazy_NestedMessage_XXX_PbContentSize TestEagerMaybeLazy_NestedMessage_MarshalTo
  "TestEagerMaybeLazy_NestedMessageReader_Unmarshal NewTestEagerMaybeLazy_NestedMessageReader" TestEagerMaybeLazy_NestedMessageReader_ToStruct
  using l_TestEagerMaybeLazy_NestedMessage.message
  by (simp only: TestEagerMaybeLazy_NestedMessage_content_def [abs_def] TestEagerMaybeLazy_NestedMessage_XXX_PbContentSize_def TestEagerMaybeLazy_NestedMessage_MarshalTo_def TestEagerMaybeLazy_NestedMessageReader_Unmarshal_def [abs_def] TestEagerMaybeLazy_NestedMessageReader_ToStruct_def)


section \<open>TestEagerMaybeLazy: the reader\<close>

definition wireTestEagerMaybeLazy_MessageFoo :: ProtoWireNumber where "wireTestEagerMaybeLazy_MessageFoo = 1"
definition wireTestEagerMaybeLazy_MessageBar :: ProtoWireNumber where "wireTestEagerMaybeLazy_MessageBar = 2"
definition wireTestEagerMaybeLazy_MessageBaz :: ProtoWireNumber where "wireTestEagerMaybeLazy_MessageBaz = 3"

lemmas wireTestEagerMaybeLazy =
  wireTestEagerMaybeLazy_MessageFoo_def wireTestEagerMaybeLazy_MessageBar_def
  wireTestEagerMaybeLazy_MessageBaz_def

record TestEagerMaybeLazyReader =
  mbuf :: "Reader option"
  cellMessageFoo :: "(TestAllTypesReader option) one_cell"
  cellMessageBar :: "(TestAllTypesReader option) one_cell"
  cellMessageBaz :: "(TestEagerMaybeLazy_NestedMessageReader option) one_cell"

definition NewTestEagerMaybeLazyReader :: TestEagerMaybeLazyReader where
  "NewTestEagerMaybeLazyReader = \<lparr>
     mbuf = None, cellMessageFoo = newCell None 0, cellMessageBar = newCell None 0,
     cellMessageBaz = newCell None 0\<rparr>"

definition TestEagerMaybeLazyReader_readMessageFoo :: "TestEagerMaybeLazyReader \<Rightarrow> (TestAllTypesReader option \<times> TestEagerMaybeLazyReader) run" where
  "TestEagerMaybeLazyReader_readMessageFoo = readCell cellMessageFoo cellMessageFoo_update mbuf (structReader (TestAllTypesReader_Unmarshal NewTestAllTypesReader))"

definition TestEagerMaybeLazyReader_GetMessageFoo :: "TestEagerMaybeLazyReader option \<Rightarrow> (TestAllTypesReader option \<times> TestEagerMaybeLazyReader option) run" where
  "TestEagerMaybeLazyReader_GetMessageFoo = getter TestEagerMaybeLazyReader_readMessageFoo None"

definition TestEagerMaybeLazyReader_readMessageBar :: "TestEagerMaybeLazyReader \<Rightarrow> (TestAllTypesReader option \<times> TestEagerMaybeLazyReader) run" where
  "TestEagerMaybeLazyReader_readMessageBar = readCell cellMessageBar cellMessageBar_update mbuf (structReader (TestAllTypesReader_Unmarshal NewTestAllTypesReader))"

definition TestEagerMaybeLazyReader_GetMessageBar :: "TestEagerMaybeLazyReader option \<Rightarrow> (TestAllTypesReader option \<times> TestEagerMaybeLazyReader option) run" where
  "TestEagerMaybeLazyReader_GetMessageBar = getter TestEagerMaybeLazyReader_readMessageBar None"

definition TestEagerMaybeLazyReader_readMessageBaz :: "TestEagerMaybeLazyReader \<Rightarrow> (TestEagerMaybeLazy_NestedMessageReader option \<times> TestEagerMaybeLazyReader) run" where
  "TestEagerMaybeLazyReader_readMessageBaz = readCell cellMessageBaz cellMessageBaz_update mbuf (structReader (TestEagerMaybeLazy_NestedMessageReader_Unmarshal NewTestEagerMaybeLazy_NestedMessageReader))"

definition TestEagerMaybeLazyReader_GetMessageBaz :: "TestEagerMaybeLazyReader option \<Rightarrow> (TestEagerMaybeLazy_NestedMessageReader option \<times> TestEagerMaybeLazyReader option) run" where
  "TestEagerMaybeLazyReader_GetMessageBaz = getter TestEagerMaybeLazyReader_readMessageBaz None"

lemmas TestEagerMaybeLazy_getters =
  TestEagerMaybeLazyReader_readMessageFoo_def TestEagerMaybeLazyReader_GetMessageFoo_def
  TestEagerMaybeLazyReader_readMessageBar_def TestEagerMaybeLazyReader_GetMessageBar_def
  TestEagerMaybeLazyReader_readMessageBaz_def TestEagerMaybeLazyReader_GetMessageBaz_def

definition TestEagerMaybeLazyReader_cases :: "ProtoWireType \<Rightarrow> int \<Rightarrow> (ProtoWireNumber \<times> (TestEagerMaybeLazyReader \<Rightarrow> TestEagerMaybeLazyReader)) list" where
  "TestEagerMaybeLazyReader_cases wire offset = [
     (wireTestEagerMaybeLazy_MessageFoo, \<lambda>m. m\<lparr>cellMessageFoo := onOffset (setOffset wire offset) (cellMessageFoo m)\<rparr>),
     (wireTestEagerMaybeLazy_MessageBar, \<lambda>m. m\<lparr>cellMessageBar := onOffset (setOffset wire offset) (cellMessageBar m)\<rparr>),
     (wireTestEagerMaybeLazy_MessageBaz, \<lambda>m. m\<lparr>cellMessageBaz := onOffset (setOffset wire offset) (cellMessageBaz m)\<rparr>)]"

definition TestEagerMaybeLazyReader_save :: "ProtoWireNumber \<Rightarrow> ProtoWireType \<Rightarrow> int \<Rightarrow> TestEagerMaybeLazyReader \<Rightarrow> TestEagerMaybeLazyReader" where
  "TestEagerMaybeLazyReader_save tag wire offset = tag_switch (TestEagerMaybeLazyReader_cases wire offset) tag"

definition TestEagerMaybeLazyReader_Unmarshal :: "TestEagerMaybeLazyReader \<Rightarrow> gslice \<Rightarrow> (TestEagerMaybeLazyReader \<times> string option) run" where
  "TestEagerMaybeLazyReader_Unmarshal m data =
     unmarshalLoop TestEagerMaybeLazyReader_save (NewReader data) 0 (m\<lparr>mbuf := Some (NewReader data)\<rparr>)"

definition TestEagerMaybeLazyReader_SourceBytes :: "TestEagerMaybeLazyReader option \<Rightarrow> gslice" where
  "TestEagerMaybeLazyReader_SourceBytes s = (case s of None \<Rightarrow> nil_slice | Some r \<Rightarrow> Bytes (mbuf r))"

section \<open>TestEagerMaybeLazy: the struct\<close>

record TestEagerMaybeLazy =
  MessageFoo :: "TestAllTypes option"
  MessageBar :: "TestAllTypes option"
  MessageBaz :: "TestEagerMaybeLazy_NestedMessage option"

definition TestEagerMaybeLazy_zero :: TestEagerMaybeLazy where
  "TestEagerMaybeLazy_zero = \<lparr>
     MessageFoo = None, MessageBar = None, MessageBaz = None\<rparr>"

definition TestEagerMaybeLazy_stmts :: "(TestEagerMaybeLazy \<times> TestEagerMaybeLazyReader option \<Rightarrow> (TestEagerMaybeLazy \<times> TestEagerMaybeLazyReader option) run) list" where
  "TestEagerMaybeLazy_stmts = [
     assignStruct TestEagerMaybeLazyReader_GetMessageFoo (structToStruct TestAllTypesReader_ToStruct) cellMessageFoo_update
       (\<lambda>v res. res\<lparr>MessageFoo := v\<rparr>),
     assignStruct TestEagerMaybeLazyReader_GetMessageBar (structToStruct TestAllTypesReader_ToStruct) cellMessageBar_update
       (\<lambda>v res. res\<lparr>MessageBar := v\<rparr>),
     assignStruct TestEagerMaybeLazyReader_GetMessageBaz (structToStruct TestEagerMaybeLazy_NestedMessageReader_ToStruct) cellMessageBaz_update
       (\<lambda>v res. res\<lparr>MessageBaz := v\<rparr>)]"

definition TestEagerMaybeLazyReader_ToStruct :: "TestEagerMaybeLazyReader option \<Rightarrow> (TestEagerMaybeLazy option \<times> TestEagerMaybeLazyReader option) run" where
  "TestEagerMaybeLazyReader_ToStruct = toStructWith (TestEagerMaybeLazy_stmts) TestEagerMaybeLazy_zero"

definition TestEagerMaybeLazy_appends :: "TestEagerMaybeLazy \<Rightarrow> (Writer \<Rightarrow> Writer go) list" where
  "TestEagerMaybeLazy_appends s = [
     \<lambda>res. if MessageFoo s \<noteq> None then structWriter TestAllTypes_XXX_PbContentSize TestAllTypes_MarshalTo res wireTestEagerMaybeLazy_MessageFoo (MessageFoo s) else Ret res,
     \<lambda>res. if MessageBar s \<noteq> None then structWriter TestAllTypes_XXX_PbContentSize TestAllTypes_MarshalTo res wireTestEagerMaybeLazy_MessageBar (MessageBar s) else Ret res,
     \<lambda>res. if MessageBaz s \<noteq> None then structWriter TestEagerMaybeLazy_NestedMessage_XXX_PbContentSize TestEagerMaybeLazy_NestedMessage_MarshalTo res wireTestEagerMaybeLazy_MessageBaz (MessageBaz s) else Ret res]"

definition TestEagerMaybeLazy_MarshalTo :: "Writer \<Rightarrow> TestEagerMaybeLazy option \<Rightarrow> Writer go" where
  "TestEagerMaybeLazy_MarshalTo = marshalToWith (\<lambda>s. TestEagerMaybeLazy_appends s)"

definition TestEagerMaybeLazy_sizes :: "TestEagerMaybeLazy \<Rightarrow> int list" where
  "TestEagerMaybeLazy_sizes s = [
     if MessageFoo s \<noteq> None then sizeDelimitedWithTag TestAllTypes_XXX_PbContentSize wireTestEagerMaybeLazy_MessageFoo (MessageFoo s) else 0,
     if MessageBar s \<noteq> None then sizeDelimitedWithTag TestAllTypes_XXX_PbContentSize wireTestEagerMaybeLazy_MessageBar (MessageBar s) else 0,
     if MessageBaz s \<noteq> None then sizeDelimitedWithTag TestEagerMaybeLazy_NestedMessage_XXX_PbContentSize wireTestEagerMaybeLazy_MessageBaz (MessageBaz s) else 0]"

definition TestEagerMaybeLazy_XXX_PbContentSize :: "TestEagerMaybeLazy option \<Rightarrow> int" where
  "TestEagerMaybeLazy_XXX_PbContentSize = contentSizeWith (\<lambda>s. TestEagerMaybeLazy_sizes s)"

definition TestEagerMaybeLazy_Marshal :: "TestEagerMaybeLazy option \<Rightarrow> byte list go" where
  "TestEagerMaybeLazy_Marshal = marshalWith TestEagerMaybeLazy_XXX_PbContentSize TestEagerMaybeLazy_MarshalTo"

definition TestEagerMaybeLazy_Copy :: "TestEagerMaybeLazy option \<Rightarrow> TestEagerMaybeLazy option" where
  "TestEagerMaybeLazy_Copy s =
     (case s of None \<Rightarrow> None | Some s \<Rightarrow> Some \<lparr>
        MessageFoo = (case MessageFoo s of None \<Rightarrow> None | Some x \<Rightarrow> TestAllTypes_Copy (Some x)),
        MessageBar = (case MessageBar s of None \<Rightarrow> None | Some x \<Rightarrow> TestAllTypes_Copy (Some x)),
        MessageBaz = (case MessageBaz s of None \<Rightarrow> None | Some x \<Rightarrow> TestEagerMaybeLazy_NestedMessage_Copy (Some x))\<rparr>)"

section \<open>TestEagerMaybeLazy: the round trip\<close>

definition TestEagerMaybeLazy_tags :: "ProtoWireNumber list" where
  "TestEagerMaybeLazy_tags = [
     wireTestEagerMaybeLazy_MessageFoo, wireTestEagerMaybeLazy_MessageBar,
     wireTestEagerMaybeLazy_MessageBaz]"

definition TestEagerMaybeLazy_groups :: "TestEagerMaybeLazy \<Rightarrow> wfield list list" where
  "TestEagerMaybeLazy_groups s = [
     opt_field (MessageFoo s \<noteq> None) (wireTestEagerMaybeLazy_MessageFoo, WBytes (ptr_bytes TestAllTypes_content (MessageFoo s))),
     opt_field (MessageBar s \<noteq> None) (wireTestEagerMaybeLazy_MessageBar, WBytes (ptr_bytes TestAllTypes_content (MessageBar s))),
     opt_field (MessageBaz s \<noteq> None) (wireTestEagerMaybeLazy_MessageBaz, WBytes (ptr_bytes TestEagerMaybeLazy_NestedMessage_content (MessageBaz s)))]"

definition TestEagerMaybeLazy_content :: "TestEagerMaybeLazy \<Rightarrow> wfield list" where
  "TestEagerMaybeLazy_content s = concat (TestEagerMaybeLazy_groups s)"

text \<open>What a round trip keeps.\<close>

definition TestEagerMaybeLazy_norm :: "TestEagerMaybeLazy \<Rightarrow> TestEagerMaybeLazy" where
  "TestEagerMaybeLazy_norm s = s\<lparr>
     MessageFoo := norm_ptr TestAllTypes_content TestAllTypes_norm (MessageFoo s),
     MessageBar := norm_ptr TestAllTypes_content TestAllTypes_norm (MessageBar s),
     MessageBaz := norm_ptr TestEagerMaybeLazy_NestedMessage_content TestEagerMaybeLazy_NestedMessage_norm (MessageBaz s)\<rparr>"

definition TestEagerMaybeLazy_ready :: "Reader \<Rightarrow> TestEagerMaybeLazy \<Rightarrow> (TestEagerMaybeLazyReader \<Rightarrow> bool) list" where
  "TestEagerMaybeLazy_ready p s = [
     \<lambda>m. cell_reads (structReader (TestAllTypesReader_Unmarshal NewTestAllTypesReader)) (structToStruct TestAllTypesReader_ToStruct) p (norm_ptr TestAllTypes_content TestAllTypes_norm (MessageFoo s)) (cellMessageFoo m),
     \<lambda>m. cell_reads (structReader (TestAllTypesReader_Unmarshal NewTestAllTypesReader)) (structToStruct TestAllTypesReader_ToStruct) p (norm_ptr TestAllTypes_content TestAllTypes_norm (MessageBar s)) (cellMessageBar m),
     \<lambda>m. cell_reads (structReader (TestEagerMaybeLazy_NestedMessageReader_Unmarshal NewTestEagerMaybeLazy_NestedMessageReader)) (structToStruct TestEagerMaybeLazy_NestedMessageReader_ToStruct) p (norm_ptr TestEagerMaybeLazy_NestedMessage_content TestEagerMaybeLazy_NestedMessage_norm (MessageBaz s)) (cellMessageBaz m)]"

definition TestEagerMaybeLazy_stored :: "TestEagerMaybeLazy \<Rightarrow> (TestEagerMaybeLazy \<Rightarrow> TestEagerMaybeLazy) list" where
  "TestEagerMaybeLazy_stored s = [
     \<lambda>res. res\<lparr>MessageFoo := norm_ptr TestAllTypes_content TestAllTypes_norm (MessageFoo s)\<rparr>,
     \<lambda>res. res\<lparr>MessageBar := norm_ptr TestAllTypes_content TestAllTypes_norm (MessageBar s)\<rparr>,
     \<lambda>res. res\<lparr>MessageBaz := norm_ptr TestEagerMaybeLazy_NestedMessage_content TestEagerMaybeLazy_NestedMessage_norm (MessageBaz s)\<rparr>]"

lemma TestEagerMaybeLazy_cases_distinct: "distinct (map fst (TestEagerMaybeLazyReader_cases wire offset))"
  by (rule ascending_distinct) (simp add: TestEagerMaybeLazyReader_cases_def wireTestEagerMaybeLazy)

lemma TestEagerMaybeLazy_stores:
  "stores_cell TestEagerMaybeLazyReader_save wireTestEagerMaybeLazy_MessageFoo setOffset cellMessageFoo"
  "stores_cell TestEagerMaybeLazyReader_save wireTestEagerMaybeLazy_MessageBar setOffset cellMessageBar"
  "stores_cell TestEagerMaybeLazyReader_save wireTestEagerMaybeLazy_MessageBaz setOffset cellMessageBaz"
  unfolding TestEagerMaybeLazyReader_save_def [abs_def] by (rule stores_cell_switch; (rule TestEagerMaybeLazy_cases_distinct)?; unfold TestEagerMaybeLazyReader_cases_def; intro own_case.intros; simp)+

lemma TestEagerMaybeLazy_saved: "good_fields TestEagerMaybeLazyReader_save p (NewTestEagerMaybeLazyReader\<lparr>mbuf := Some p\<rparr>) TestEagerMaybeLazy_tags (TestEagerMaybeLazy_groups s) (TestEagerMaybeLazy_ready p s)"
  unfolding TestEagerMaybeLazy_tags_def TestEagerMaybeLazy_groups_def TestEagerMaybeLazy_ready_def
  by (intro good_fields.intros field_saved m_TestAllTypes.saved_struct m_TestEagerMaybeLazy_NestedMessage.saved_struct TestEagerMaybeLazy_stores) (simp_all add: NewTestEagerMaybeLazyReader_def newCell_def)

lemma TestEagerMaybeLazy_converted: "good_stmts mbuf p (TestEagerMaybeLazy_stmts) (TestEagerMaybeLazy_ready p s) (TestEagerMaybeLazy_stored s)"
  unfolding TestEagerMaybeLazy_stmts_def TestEagerMaybeLazy_ready_def TestEagerMaybeLazy_stored_def TestEagerMaybeLazy_getters append.simps
  by (intro good_stmts_field good_stmts.Nil) (simp_all cong: cell_reads_cong)

interpretation l_TestEagerMaybeLazy: lazy_message TestEagerMaybeLazy_tags TestEagerMaybeLazy_groups TestEagerMaybeLazy_norm
  "\<lambda>s. TestEagerMaybeLazy_sizes s" "\<lambda>s. TestEagerMaybeLazy_appends s"
  TestEagerMaybeLazyReader_save "\<lambda>p. NewTestEagerMaybeLazyReader\<lparr>mbuf := Some p\<rparr>" mbuf "TestEagerMaybeLazy_stmts" TestEagerMaybeLazy_zero TestEagerMaybeLazy_ready TestEagerMaybeLazy_stored
proof
  show "distinct TestEagerMaybeLazy_tags"
    using TestEagerMaybeLazy_cases_distinct by (simp only: TestEagerMaybeLazyReader_cases_def TestEagerMaybeLazy_tags_def list.map fst_conv)
  show "list_all valid_tag TestEagerMaybeLazy_tags"
    by (simp add: TestEagerMaybeLazy_tags_def wireTestEagerMaybeLazy valid_tag_def)
  show "list_all2 (\<lambda>t g. \<forall>f \<in> set g. fst f = t \<and> wf_val (snd f)) TestEagerMaybeLazy_tags (TestEagerMaybeLazy_groups s)" for s
    unfolding TestEagerMaybeLazy_tags_def TestEagerMaybeLazy_groups_def by (intro list.rel_intros field_tagged m_TestAllTypes.tagged_struct m_TestEagerMaybeLazy_NestedMessage.tagged_struct)
  show "list_all2 (\<lambda>e g. e = int (length (fields_bytes g))) (TestEagerMaybeLazy_sizes s) (TestEagerMaybeLazy_groups s)" for s
    unfolding TestEagerMaybeLazy_sizes_def TestEagerMaybeLazy_groups_def append.simps
    by (intro list.rel_intros field_sized m_TestAllTypes.sized_struct m_TestEagerMaybeLazy_NestedMessage.sized_struct)
  show "list_all2 (\<lambda>st g. writes st (fields_bytes g)) (TestEagerMaybeLazy_appends s) (TestEagerMaybeLazy_groups s)" for s
    unfolding TestEagerMaybeLazy_appends_def TestEagerMaybeLazy_groups_def append.simps
    by (intro list.rel_intros field_written m_TestAllTypes.written_struct m_TestEagerMaybeLazy_NestedMessage.written_struct)
  show "mbuf (TestEagerMaybeLazyReader_save t w off m) = mbuf m" for t w off m
    unfolding TestEagerMaybeLazyReader_save_def by (rule tag_switch_keeps) (simp add: TestEagerMaybeLazyReader_cases_def)
  show "fold (\<lambda>e. e) (TestEagerMaybeLazy_stored s) TestEagerMaybeLazy_zero = TestEagerMaybeLazy_norm s" for s
    unfolding TestEagerMaybeLazy_stored_def by (simp add: TestEagerMaybeLazy_zero_def TestEagerMaybeLazy_norm_def float_defaults)
qed (simp_all add: TestEagerMaybeLazy_saved TestEagerMaybeLazy_converted)

interpretation m_TestEagerMaybeLazy: message_codec TestEagerMaybeLazy_content TestEagerMaybeLazy_norm TestEagerMaybeLazy_XXX_PbContentSize TestEagerMaybeLazy_MarshalTo
  "TestEagerMaybeLazyReader_Unmarshal NewTestEagerMaybeLazyReader" TestEagerMaybeLazyReader_ToStruct
  using l_TestEagerMaybeLazy.message
  by (simp only: TestEagerMaybeLazy_content_def [abs_def] TestEagerMaybeLazy_XXX_PbContentSize_def TestEagerMaybeLazy_MarshalTo_def TestEagerMaybeLazyReader_Unmarshal_def [abs_def] TestEagerMaybeLazyReader_ToStruct_def)


section \<open>TestOneof: the reader\<close>

definition wireTestOneof_FooInt :: ProtoWireNumber where "wireTestOneof_FooInt = 1"
definition wireTestOneof_FooString :: ProtoWireNumber where "wireTestOneof_FooString = 2"
definition wireTestOneof_FooMessage :: ProtoWireNumber where "wireTestOneof_FooMessage = 3"

lemmas wireTestOneof =
  wireTestOneof_FooInt_def wireTestOneof_FooString_def wireTestOneof_FooMessage_def

record TestOneofReader =
  mbuf :: "Reader option"
  cellFooInt :: "int32 one_cell"
  cellFooString :: "gostring one_cell"
  cellFooMessage :: "(TestAllTypesReader option) one_cell"

definition NewTestOneofReader :: TestOneofReader where
  "NewTestOneofReader = \<lparr>
     mbuf = None, cellFooInt = newCell 0 0, cellFooString = newCell [] 0,
     cellFooMessage = newCell None 0\<rparr>"

definition TestOneofReader_readFooInt :: "TestOneofReader \<Rightarrow> (int32 \<times> TestOneofReader) run" where
  "TestOneofReader_readFooInt = readCell cellFooInt cellFooInt_update mbuf (readOne ReadInt32 0)"

definition TestOneofReader_GetFooInt :: "TestOneofReader option \<Rightarrow> (int32 \<times> TestOneofReader option) run" where
  "TestOneofReader_GetFooInt = getter TestOneofReader_readFooInt 0"

definition TestOneofReader_readFooString :: "TestOneofReader \<Rightarrow> (gostring \<times> TestOneofReader) run" where
  "TestOneofReader_readFooString = readCell cellFooString cellFooString_update mbuf (readOne ReadString [])"

definition TestOneofReader_GetFooString :: "TestOneofReader option \<Rightarrow> (gostring \<times> TestOneofReader option) run" where
  "TestOneofReader_GetFooString = getter TestOneofReader_readFooString []"

definition TestOneofReader_readFooMessage :: "TestOneofReader \<Rightarrow> (TestAllTypesReader option \<times> TestOneofReader) run" where
  "TestOneofReader_readFooMessage = readCell cellFooMessage cellFooMessage_update mbuf (structReader (TestAllTypesReader_Unmarshal NewTestAllTypesReader))"

definition TestOneofReader_GetFooMessage :: "TestOneofReader option \<Rightarrow> (TestAllTypesReader option \<times> TestOneofReader option) run" where
  "TestOneofReader_GetFooMessage = getter TestOneofReader_readFooMessage None"

lemmas TestOneof_getters =
  TestOneofReader_readFooInt_def TestOneofReader_GetFooInt_def
  TestOneofReader_readFooString_def TestOneofReader_GetFooString_def
  TestOneofReader_readFooMessage_def TestOneofReader_GetFooMessage_def

definition TestOneofReader_cases :: "ProtoWireType \<Rightarrow> int \<Rightarrow> (ProtoWireNumber \<times> (TestOneofReader \<Rightarrow> TestOneofReader)) list" where
  "TestOneofReader_cases wire offset = [
     (wireTestOneof_FooInt, \<lambda>m. m\<lparr>cellFooInt := onOffset (setOffset wire offset) (cellFooInt m)\<rparr>),
     (wireTestOneof_FooString, \<lambda>m. m\<lparr>cellFooString := onOffset (setOffset wire offset) (cellFooString m)\<rparr>),
     (wireTestOneof_FooMessage, \<lambda>m. m\<lparr>cellFooMessage := onOffset (setOffset wire offset) (cellFooMessage m)\<rparr>)]"

definition TestOneofReader_save :: "ProtoWireNumber \<Rightarrow> ProtoWireType \<Rightarrow> int \<Rightarrow> TestOneofReader \<Rightarrow> TestOneofReader" where
  "TestOneofReader_save tag wire offset = tag_switch (TestOneofReader_cases wire offset) tag"

definition TestOneofReader_Unmarshal :: "TestOneofReader \<Rightarrow> gslice \<Rightarrow> (TestOneofReader \<times> string option) run" where
  "TestOneofReader_Unmarshal m data =
     unmarshalLoop TestOneofReader_save (NewReader data) 0 (m\<lparr>mbuf := Some (NewReader data)\<rparr>)"

definition TestOneofReader_SourceBytes :: "TestOneofReader option \<Rightarrow> gslice" where
  "TestOneofReader_SourceBytes s = (case s of None \<Rightarrow> nil_slice | Some r \<Rightarrow> Bytes (mbuf r))"

section \<open>TestOneof: the struct\<close>

record TestOneof =
  FooInt :: int32
  FooString :: gostring
  FooMessage :: "TestAllTypes option"

definition TestOneof_zero :: TestOneof where
  "TestOneof_zero = \<lparr>
     FooInt = 0, FooString = [], FooMessage = None\<rparr>"

definition TestOneof_stmts :: "(TestOneof \<times> TestOneofReader option \<Rightarrow> (TestOneof \<times> TestOneofReader option) run) list" where
  "TestOneof_stmts = [
     assign TestOneofReader_GetFooInt (\<lambda>v res. res\<lparr>FooInt := v\<rparr>),
     assign TestOneofReader_GetFooString (\<lambda>v res. res\<lparr>FooString := v\<rparr>),
     assignStruct TestOneofReader_GetFooMessage (structToStruct TestAllTypesReader_ToStruct) cellFooMessage_update
       (\<lambda>v res. res\<lparr>FooMessage := v\<rparr>)]"

definition TestOneofReader_ToStruct :: "TestOneofReader option \<Rightarrow> (TestOneof option \<times> TestOneofReader option) run" where
  "TestOneofReader_ToStruct = toStructWith (TestOneof_stmts) TestOneof_zero"

definition TestOneof_appends :: "TestOneof \<Rightarrow> (Writer \<Rightarrow> Writer go) list" where
  "TestOneof_appends s = [
     \<lambda>res. if FooInt s \<noteq> 0 then AppendInt32 res wireTestOneof_FooInt (FooInt s) else Ret res,
     \<lambda>res. if FooString s \<noteq> [] then AppendString res wireTestOneof_FooString (FooString s) else Ret res,
     \<lambda>res. if FooMessage s \<noteq> None then structWriter TestAllTypes_XXX_PbContentSize TestAllTypes_MarshalTo res wireTestOneof_FooMessage (FooMessage s) else Ret res]"

definition TestOneof_MarshalTo :: "Writer \<Rightarrow> TestOneof option \<Rightarrow> Writer go" where
  "TestOneof_MarshalTo = marshalToWith (\<lambda>s. TestOneof_appends s)"

definition TestOneof_sizes :: "TestOneof \<Rightarrow> int list" where
  "TestOneof_sizes s = [
     if FooInt s \<noteq> 0 then sizeWithTag SizeInt32 wireTestOneof_FooInt (FooInt s) else 0,
     if FooString s \<noteq> [] then sizeDelimitedWithTag SizeString wireTestOneof_FooString (FooString s) else 0,
     if FooMessage s \<noteq> None then sizeDelimitedWithTag TestAllTypes_XXX_PbContentSize wireTestOneof_FooMessage (FooMessage s) else 0]"

definition TestOneof_XXX_PbContentSize :: "TestOneof option \<Rightarrow> int" where
  "TestOneof_XXX_PbContentSize = contentSizeWith (\<lambda>s. TestOneof_sizes s)"

definition TestOneof_Marshal :: "TestOneof option \<Rightarrow> byte list go" where
  "TestOneof_Marshal = marshalWith TestOneof_XXX_PbContentSize TestOneof_MarshalTo"

definition TestOneof_Copy :: "TestOneof option \<Rightarrow> TestOneof option" where
  "TestOneof_Copy s =
     (case s of None \<Rightarrow> None | Some s \<Rightarrow> Some \<lparr>
        FooInt = FooInt s, FooString = FooString s,
        FooMessage = (case FooMessage s of None \<Rightarrow> None | Some x \<Rightarrow> TestAllTypes_Copy (Some x))\<rparr>)"

section \<open>TestOneof: the round trip\<close>

definition TestOneof_tags :: "ProtoWireNumber list" where
  "TestOneof_tags = [
     wireTestOneof_FooInt, wireTestOneof_FooString, wireTestOneof_FooMessage]"

definition TestOneof_groups :: "TestOneof \<Rightarrow> wfield list list" where
  "TestOneof_groups s = [
     opt_field (FooInt s \<noteq> 0) (wireTestOneof_FooInt, int32_val (FooInt s)),
     opt_field (FooString s \<noteq> []) (wireTestOneof_FooString, WBytes (FooString s)),
     opt_field (FooMessage s \<noteq> None) (wireTestOneof_FooMessage, WBytes (ptr_bytes TestAllTypes_content (FooMessage s)))]"

definition TestOneof_content :: "TestOneof \<Rightarrow> wfield list" where
  "TestOneof_content s = concat (TestOneof_groups s)"

text \<open>What a round trip keeps.\<close>

definition TestOneof_norm :: "TestOneof \<Rightarrow> TestOneof" where
  "TestOneof_norm s = s\<lparr>
     FooMessage := norm_ptr TestAllTypes_content TestAllTypes_norm (FooMessage s)\<rparr>"

definition TestOneof_ready :: "Reader \<Rightarrow> TestOneof \<Rightarrow> (TestOneofReader \<Rightarrow> bool) list" where
  "TestOneof_ready p s = [
     \<lambda>m. cell_reads (readOne ReadInt32 0) plain p (if FooInt s \<noteq> 0 then FooInt s else 0) (cellFooInt m),
     \<lambda>m. cell_reads (readOne ReadString []) plain p (if FooString s \<noteq> [] then FooString s else []) (cellFooString m),
     \<lambda>m. cell_reads (structReader (TestAllTypesReader_Unmarshal NewTestAllTypesReader)) (structToStruct TestAllTypesReader_ToStruct) p (norm_ptr TestAllTypes_content TestAllTypes_norm (FooMessage s)) (cellFooMessage m)]"

definition TestOneof_stored :: "TestOneof \<Rightarrow> (TestOneof \<Rightarrow> TestOneof) list" where
  "TestOneof_stored s = [
     \<lambda>res. res\<lparr>FooInt := if FooInt s \<noteq> 0 then FooInt s else 0\<rparr>,
     \<lambda>res. res\<lparr>FooString := if FooString s \<noteq> [] then FooString s else []\<rparr>,
     \<lambda>res. res\<lparr>FooMessage := norm_ptr TestAllTypes_content TestAllTypes_norm (FooMessage s)\<rparr>]"

lemma TestOneof_cases_distinct: "distinct (map fst (TestOneofReader_cases wire offset))"
  by (rule ascending_distinct) (simp add: TestOneofReader_cases_def wireTestOneof)

lemma TestOneof_stores:
  "stores_cell TestOneofReader_save wireTestOneof_FooInt setOffset cellFooInt"
  "stores_cell TestOneofReader_save wireTestOneof_FooString setOffset cellFooString"
  "stores_cell TestOneofReader_save wireTestOneof_FooMessage setOffset cellFooMessage"
  unfolding TestOneofReader_save_def [abs_def] by (rule stores_cell_switch; (rule TestOneof_cases_distinct)?; unfold TestOneofReader_cases_def; intro own_case.intros; simp)+

lemma TestOneof_saved: "good_fields TestOneofReader_save p (NewTestOneofReader\<lparr>mbuf := Some p\<rparr>) TestOneof_tags (TestOneof_groups s) (TestOneof_ready p s)"
  unfolding TestOneof_tags_def TestOneof_groups_def TestOneof_ready_def
  by (intro good_fields.intros field_saved m_TestAllTypes.saved_struct TestOneof_stores) (simp_all add: NewTestOneofReader_def newCell_def)

lemma TestOneof_converted: "good_stmts mbuf p (TestOneof_stmts) (TestOneof_ready p s) (TestOneof_stored s)"
  unfolding TestOneof_stmts_def TestOneof_ready_def TestOneof_stored_def TestOneof_getters append.simps
  by (intro good_stmts_field good_stmts.Nil) (simp_all cong: cell_reads_cong)

interpretation l_TestOneof: lazy_message TestOneof_tags TestOneof_groups TestOneof_norm
  "\<lambda>s. TestOneof_sizes s" "\<lambda>s. TestOneof_appends s"
  TestOneofReader_save "\<lambda>p. NewTestOneofReader\<lparr>mbuf := Some p\<rparr>" mbuf "TestOneof_stmts" TestOneof_zero TestOneof_ready TestOneof_stored
proof
  show "distinct TestOneof_tags"
    using TestOneof_cases_distinct by (simp only: TestOneofReader_cases_def TestOneof_tags_def list.map fst_conv)
  show "list_all valid_tag TestOneof_tags"
    by (simp add: TestOneof_tags_def wireTestOneof valid_tag_def)
  show "list_all2 (\<lambda>t g. \<forall>f \<in> set g. fst f = t \<and> wf_val (snd f)) TestOneof_tags (TestOneof_groups s)" for s
    unfolding TestOneof_tags_def TestOneof_groups_def by (intro list.rel_intros field_tagged m_TestAllTypes.tagged_struct)
  show "list_all2 (\<lambda>e g. e = int (length (fields_bytes g))) (TestOneof_sizes s) (TestOneof_groups s)" for s
    unfolding TestOneof_sizes_def TestOneof_groups_def append.simps
    by (intro list.rel_intros field_sized m_TestAllTypes.sized_struct)
  show "list_all2 (\<lambda>st g. writes st (fields_bytes g)) (TestOneof_appends s) (TestOneof_groups s)" for s
    unfolding TestOneof_appends_def TestOneof_groups_def append.simps
    by (intro list.rel_intros field_written m_TestAllTypes.written_struct)
  show "mbuf (TestOneofReader_save t w off m) = mbuf m" for t w off m
    unfolding TestOneofReader_save_def by (rule tag_switch_keeps) (simp add: TestOneofReader_cases_def)
  show "fold (\<lambda>e. e) (TestOneof_stored s) TestOneof_zero = TestOneof_norm s" for s
    unfolding TestOneof_stored_def by (simp add: TestOneof_zero_def TestOneof_norm_def float_defaults)
qed (simp_all add: TestOneof_saved TestOneof_converted)

interpretation m_TestOneof: message_codec TestOneof_content TestOneof_norm TestOneof_XXX_PbContentSize TestOneof_MarshalTo
  "TestOneofReader_Unmarshal NewTestOneofReader" TestOneofReader_ToStruct
  using l_TestOneof.message
  by (simp only: TestOneof_content_def [abs_def] TestOneof_XXX_PbContentSize_def TestOneof_MarshalTo_def TestOneofReader_Unmarshal_def [abs_def] TestOneofReader_ToStruct_def)


section \<open>TestOneofBackwardsCompatible: the reader\<close>

definition wireTestOneofBackwardsCompatible_FooInt :: ProtoWireNumber where "wireTestOneofBackwardsCompatible_FooInt = 1"
definition wireTestOneofBackwardsCompatible_FooString :: ProtoWireNumber where "wireTestOneofBackwardsCompatible_FooString = 2"
definition wireTestOneofBackwardsCompatible_FooMessage :: ProtoWireNumber where "wireTestOneofBackwardsCompatible_FooMessage = 3"

lemmas wireTestOneofBackwardsCompatible =
  wireTestOneofBackwardsCompatible_FooInt_def wireTestOneofBackwardsCompatible_FooString_def
  wireTestOneofBackwardsCompatible_FooMessage_def

record TestOneofBackwardsCompatibleReader =
  mbuf :: "Reader option"
  cellFooInt :: "int32 one_cell"
  cellFooString :: "gostring one_cell"
  cellFooMessage :: "(TestAllTypesReader option) one_cell"

definition NewTestOneofBackwardsCompatibleReader :: TestOneofBackwardsCompatibleReader where
  "NewTestOneofBackwardsCompatibleReader = \<lparr>
     mbuf = None, cellFooInt = newCell 0 0, cellFooString = newCell [] 0,
     cellFooMessage = newCell None 0\<rparr>"

definition TestOneofBackwardsCompatibleReader_readFooInt :: "TestOneofBackwardsCompatibleReader \<Rightarrow> (int32 \<times> TestOneofBackwardsCompatibleReader) run" where
  "TestOneofBackwardsCompatibleReader_readFooInt = readCell cellFooInt cellFooInt_update mbuf (readOne ReadInt32 0)"

definition TestOneofBackwardsCompatibleReader_GetFooInt :: "TestOneofBackwardsCompatibleReader option \<Rightarrow> (int32 \<times> TestOneofBackwardsCompatibleReader option) run" where
  "TestOneofBackwardsCompatibleReader_GetFooInt = getter TestOneofBackwardsCompatibleReader_readFooInt 0"

definition TestOneofBackwardsCompatibleReader_readFooString :: "TestOneofBackwardsCompatibleReader \<Rightarrow> (gostring \<times> TestOneofBackwardsCompatibleReader) run" where
  "TestOneofBackwardsCompatibleReader_readFooString = readCell cellFooString cellFooString_update mbuf (readOne ReadString [])"

definition TestOneofBackwardsCompatibleReader_GetFooString :: "TestOneofBackwardsCompatibleReader option \<Rightarrow> (gostring \<times> TestOneofBackwardsCompatibleReader option) run" where
  "TestOneofBackwardsCompatibleReader_GetFooString = getter TestOneofBackwardsCompatibleReader_readFooString []"

definition TestOneofBackwardsCompatibleReader_readFooMessage :: "TestOneofBackwardsCompatibleReader \<Rightarrow> (TestAllTypesReader option \<times> TestOneofBackwardsCompatibleReader) run" where
  "TestOneofBackwardsCompatibleReader_readFooMessage = readCell cellFooMessage cellFooMessage_update mbuf (structReader (TestAllTypesReader_Unmarshal NewTestAllTypesReader))"

definition TestOneofBackwardsCompatibleReader_GetFooMessage :: "TestOneofBackwardsCompatibleReader option \<Rightarrow> (TestAllTypesReader option \<times> TestOneofBackwardsCompatibleReader option) run" where
  "TestOneofBackwardsCompatibleReader_GetFooMessage = getter TestOneofBackwardsCompatibleReader_readFooMessage None"

lemmas TestOneofBackwardsCompatible_getters =
  TestOneofBackwardsCompatibleReader_readFooInt_def TestOneofBackwardsCompatibleReader_GetFooInt_def
  TestOneofBackwardsCompatibleReader_readFooString_def TestOneofBackwardsCompatibleReader_GetFooString_def
  TestOneofBackwardsCompatibleReader_readFooMessage_def TestOneofBackwardsCompatibleReader_GetFooMessage_def

definition TestOneofBackwardsCompatibleReader_cases :: "ProtoWireType \<Rightarrow> int \<Rightarrow> (ProtoWireNumber \<times> (TestOneofBackwardsCompatibleReader \<Rightarrow> TestOneofBackwardsCompatibleReader)) list" where
  "TestOneofBackwardsCompatibleReader_cases wire offset = [
     (wireTestOneofBackwardsCompatible_FooInt, \<lambda>m. m\<lparr>cellFooInt := onOffset (setOffset wire offset) (cellFooInt m)\<rparr>),
     (wireTestOneofBackwardsCompatible_FooString, \<lambda>m. m\<lparr>cellFooString := onOffset (setOffset wire offset) (cellFooString m)\<rparr>),
     (wireTestOneofBackwardsCompatible_FooMessage, \<lambda>m. m\<lparr>cellFooMessage := onOffset (setOffset wire offset) (cellFooMessage m)\<rparr>)]"

definition TestOneofBackwardsCompatibleReader_save :: "ProtoWireNumber \<Rightarrow> ProtoWireType \<Rightarrow> int \<Rightarrow> TestOneofBackwardsCompatibleReader \<Rightarrow> TestOneofBackwardsCompatibleReader" where
  "TestOneofBackwardsCompatibleReader_save tag wire offset = tag_switch (TestOneofBackwardsCompatibleReader_cases wire offset) tag"

definition TestOneofBackwardsCompatibleReader_Unmarshal :: "TestOneofBackwardsCompatibleReader \<Rightarrow> gslice \<Rightarrow> (TestOneofBackwardsCompatibleReader \<times> string option) run" where
  "TestOneofBackwardsCompatibleReader_Unmarshal m data =
     unmarshalLoop TestOneofBackwardsCompatibleReader_save (NewReader data) 0 (m\<lparr>mbuf := Some (NewReader data)\<rparr>)"

definition TestOneofBackwardsCompatibleReader_SourceBytes :: "TestOneofBackwardsCompatibleReader option \<Rightarrow> gslice" where
  "TestOneofBackwardsCompatibleReader_SourceBytes s = (case s of None \<Rightarrow> nil_slice | Some r \<Rightarrow> Bytes (mbuf r))"

section \<open>TestOneofBackwardsCompatible: the struct\<close>

record TestOneofBackwardsCompatible =
  FooInt :: int32
  FooString :: gostring
  FooMessage :: "TestAllTypes option"

definition TestOneofBackwardsCompatible_zero :: TestOneofBackwardsCompatible where
  "TestOneofBackwardsCompatible_zero = \<lparr>
     FooInt = 0, FooString = [], FooMessage = None\<rparr>"

definition TestOneofBackwardsCompatible_stmts :: "(TestOneofBackwardsCompatible \<times> TestOneofBackwardsCompatibleReader option \<Rightarrow> (TestOneofBackwardsCompatible \<times> TestOneofBackwardsCompatibleReader option) run) list" where
  "TestOneofBackwardsCompatible_stmts = [
     assign TestOneofBackwardsCompatibleReader_GetFooInt (\<lambda>v res. res\<lparr>FooInt := v\<rparr>),
     assign TestOneofBackwardsCompatibleReader_GetFooString (\<lambda>v res. res\<lparr>FooString := v\<rparr>),
     assignStruct TestOneofBackwardsCompatibleReader_GetFooMessage (structToStruct TestAllTypesReader_ToStruct) cellFooMessage_update
       (\<lambda>v res. res\<lparr>FooMessage := v\<rparr>)]"

definition TestOneofBackwardsCompatibleReader_ToStruct :: "TestOneofBackwardsCompatibleReader option \<Rightarrow> (TestOneofBackwardsCompatible option \<times> TestOneofBackwardsCompatibleReader option) run" where
  "TestOneofBackwardsCompatibleReader_ToStruct = toStructWith (TestOneofBackwardsCompatible_stmts) TestOneofBackwardsCompatible_zero"

definition TestOneofBackwardsCompatible_appends :: "TestOneofBackwardsCompatible \<Rightarrow> (Writer \<Rightarrow> Writer go) list" where
  "TestOneofBackwardsCompatible_appends s = [
     \<lambda>res. if FooInt s \<noteq> 0 then AppendInt32 res wireTestOneofBackwardsCompatible_FooInt (FooInt s) else Ret res,
     \<lambda>res. if FooString s \<noteq> [] then AppendString res wireTestOneofBackwardsCompatible_FooString (FooString s) else Ret res,
     \<lambda>res. if FooMessage s \<noteq> None then structWriter TestAllTypes_XXX_PbContentSize TestAllTypes_MarshalTo res wireTestOneofBackwardsCompatible_FooMessage (FooMessage s) else Ret res]"

definition TestOneofBackwardsCompatible_MarshalTo :: "Writer \<Rightarrow> TestOneofBackwardsCompatible option \<Rightarrow> Writer go" where
  "TestOneofBackwardsCompatible_MarshalTo = marshalToWith (\<lambda>s. TestOneofBackwardsCompatible_appends s)"

definition TestOneofBackwardsCompatible_sizes :: "TestOneofBackwardsCompatible \<Rightarrow> int list" where
  "TestOneofBackwardsCompatible_sizes s = [
     if FooInt s \<noteq> 0 then sizeWithTag SizeInt32 wireTestOneofBackwardsCompatible_FooInt (FooInt s) else 0,
     if FooString s \<noteq> [] then sizeDelimitedWithTag SizeString wireTestOneofBackwardsCompatible_FooString (FooString s) else 0,
     if FooMessage s \<noteq> None then sizeDelimitedWithTag TestAllTypes_XXX_PbContentSize wireTestOneofBackwardsCompatible_FooMessage (FooMessage s) else 0]"

definition TestOneofBackwardsCompatible_XXX_PbContentSize :: "TestOneofBackwardsCompatible option \<Rightarrow> int" where
  "TestOneofBackwardsCompatible_XXX_PbContentSize = contentSizeWith (\<lambda>s. TestOneofBackwardsCompatible_sizes s)"

definition TestOneofBackwardsCompatible_Marshal :: "TestOneofBackwardsCompatible option \<Rightarrow> byte list go" where
  "TestOneofBackwardsCompatible_Marshal = marshalWith TestOneofBackwardsCompatible_XXX_PbContentSize TestOneofBackwardsCompatible_MarshalTo"

definition TestOneofBackwardsCompatible_Copy :: "TestOneofBackwardsCompatible option \<Rightarrow> TestOneofBackwardsCompatible option" where
  "TestOneofBackwardsCompatible_Copy s =
     (case s of None \<Rightarrow> None | Some s \<Rightarrow> Some \<lparr>
        FooInt = FooInt s, FooString = FooString s,
        FooMessage = (case FooMessage s of None \<Rightarrow> None | Some x \<Rightarrow> TestAllTypes_Copy (Some x))\<rparr>)"

section \<open>TestOneofBackwardsCompatible: the round trip\<close>

definition TestOneofBackwardsCompatible_tags :: "ProtoWireNumber list" where
  "TestOneofBackwardsCompatible_tags = [
     wireTestOneofBackwardsCompatible_FooInt, wireTestOneofBackwardsCompatible_FooString,
     wireTestOneofBackwardsCompatible_FooMessage]"

definition TestOneofBackwardsCompatible_groups :: "TestOneofBackwardsCompatible \<Rightarrow> wfield list list" where
  "TestOneofBackwardsCompatible_groups s = [
     opt_field (FooInt s \<noteq> 0) (wireTestOneofBackwardsCompatible_FooInt, int32_val (FooInt s)),
     opt_field (FooString s \<noteq> []) (wireTestOneofBackwardsCompatible_FooString, WBytes (FooString s)),
     opt_field (FooMessage s \<noteq> None) (wireTestOneofBackwardsCompatible_FooMessage, WBytes (ptr_bytes TestAllTypes_content (FooMessage s)))]"

definition TestOneofBackwardsCompatible_content :: "TestOneofBackwardsCompatible \<Rightarrow> wfield list" where
  "TestOneofBackwardsCompatible_content s = concat (TestOneofBackwardsCompatible_groups s)"

text \<open>What a round trip keeps.\<close>

definition TestOneofBackwardsCompatible_norm :: "TestOneofBackwardsCompatible \<Rightarrow> TestOneofBackwardsCompatible" where
  "TestOneofBackwardsCompatible_norm s = s\<lparr>
     FooMessage := norm_ptr TestAllTypes_content TestAllTypes_norm (FooMessage s)\<rparr>"

definition TestOneofBackwardsCompatible_ready :: "Reader \<Rightarrow> TestOneofBackwardsCompatible \<Rightarrow> (TestOneofBackwardsCompatibleReader \<Rightarrow> bool) list" where
  "TestOneofBackwardsCompatible_ready p s = [
     \<lambda>m. cell_reads (readOne ReadInt32 0) plain p (if FooInt s \<noteq> 0 then FooInt s else 0) (cellFooInt m),
     \<lambda>m. cell_reads (readOne ReadString []) plain p (if FooString s \<noteq> [] then FooString s else []) (cellFooString m),
     \<lambda>m. cell_reads (structReader (TestAllTypesReader_Unmarshal NewTestAllTypesReader)) (structToStruct TestAllTypesReader_ToStruct) p (norm_ptr TestAllTypes_content TestAllTypes_norm (FooMessage s)) (cellFooMessage m)]"

definition TestOneofBackwardsCompatible_stored :: "TestOneofBackwardsCompatible \<Rightarrow> (TestOneofBackwardsCompatible \<Rightarrow> TestOneofBackwardsCompatible) list" where
  "TestOneofBackwardsCompatible_stored s = [
     \<lambda>res. res\<lparr>FooInt := if FooInt s \<noteq> 0 then FooInt s else 0\<rparr>,
     \<lambda>res. res\<lparr>FooString := if FooString s \<noteq> [] then FooString s else []\<rparr>,
     \<lambda>res. res\<lparr>FooMessage := norm_ptr TestAllTypes_content TestAllTypes_norm (FooMessage s)\<rparr>]"

lemma TestOneofBackwardsCompatible_cases_distinct: "distinct (map fst (TestOneofBackwardsCompatibleReader_cases wire offset))"
  by (rule ascending_distinct) (simp add: TestOneofBackwardsCompatibleReader_cases_def wireTestOneofBackwardsCompatible)

lemma TestOneofBackwardsCompatible_stores:
  "stores_cell TestOneofBackwardsCompatibleReader_save wireTestOneofBackwardsCompatible_FooInt setOffset cellFooInt"
  "stores_cell TestOneofBackwardsCompatibleReader_save wireTestOneofBackwardsCompatible_FooString setOffset cellFooString"
  "stores_cell TestOneofBackwardsCompatibleReader_save wireTestOneofBackwardsCompatible_FooMessage setOffset cellFooMessage"
  unfolding TestOneofBackwardsCompatibleReader_save_def [abs_def] by (rule stores_cell_switch; (rule TestOneofBackwardsCompatible_cases_distinct)?; unfold TestOneofBackwardsCompatibleReader_cases_def; intro own_case.intros; simp)+

lemma TestOneofBackwardsCompatible_saved: "good_fields TestOneofBackwardsCompatibleReader_save p (NewTestOneofBackwardsCompatibleReader\<lparr>mbuf := Some p\<rparr>) TestOneofBackwardsCompatible_tags (TestOneofBackwardsCompatible_groups s) (TestOneofBackwardsCompatible_ready p s)"
  unfolding TestOneofBackwardsCompatible_tags_def TestOneofBackwardsCompatible_groups_def TestOneofBackwardsCompatible_ready_def
  by (intro good_fields.intros field_saved m_TestAllTypes.saved_struct TestOneofBackwardsCompatible_stores) (simp_all add: NewTestOneofBackwardsCompatibleReader_def newCell_def)

lemma TestOneofBackwardsCompatible_converted: "good_stmts mbuf p (TestOneofBackwardsCompatible_stmts) (TestOneofBackwardsCompatible_ready p s) (TestOneofBackwardsCompatible_stored s)"
  unfolding TestOneofBackwardsCompatible_stmts_def TestOneofBackwardsCompatible_ready_def TestOneofBackwardsCompatible_stored_def TestOneofBackwardsCompatible_getters append.simps
  by (intro good_stmts_field good_stmts.Nil) (simp_all cong: cell_reads_cong)

interpretation l_TestOneofBackwardsCompatible: lazy_message TestOneofBackwardsCompatible_tags TestOneofBackwardsCompatible_groups TestOneofBackwardsCompatible_norm
  "\<lambda>s. TestOneofBackwardsCompatible_sizes s" "\<lambda>s. TestOneofBackwardsCompatible_appends s"
  TestOneofBackwardsCompatibleReader_save "\<lambda>p. NewTestOneofBackwardsCompatibleReader\<lparr>mbuf := Some p\<rparr>" mbuf "TestOneofBackwardsCompatible_stmts" TestOneofBackwardsCompatible_zero TestOneofBackwardsCompatible_ready TestOneofBackwardsCompatible_stored
proof
  show "distinct TestOneofBackwardsCompatible_tags"
    using TestOneofBackwardsCompatible_cases_distinct by (simp only: TestOneofBackwardsCompatibleReader_cases_def TestOneofBackwardsCompatible_tags_def list.map fst_conv)
  show "list_all valid_tag TestOneofBackwardsCompatible_tags"
    by (simp add: TestOneofBackwardsCompatible_tags_def wireTestOneofBackwardsCompatible valid_tag_def)
  show "list_all2 (\<lambda>t g. \<forall>f \<in> set g. fst f = t \<and> wf_val (snd f)) TestOneofBackwardsCompatible_tags (TestOneofBackwardsCompatible_groups s)" for s
    unfolding TestOneofBackwardsCompatible_tags_def TestOneofBackwardsCompatible_groups_def by (intro list.rel_intros field_tagged m_TestAllTypes.tagged_struct)
  show "list_all2 (\<lambda>e g. e = int (length (fields_bytes g))) (TestOneofBackwardsCompatible_sizes s) (TestOneofBackwardsCompatible_groups s)" for s
    unfolding TestOneofBackwardsCompatible_sizes_def TestOneofBackwardsCompatible_groups_def append.simps
    by (intro list.rel_intros field_sized m_TestAllTypes.sized_struct)
  show "list_all2 (\<lambda>st g. writes st (fields_bytes g)) (TestOneofBackwardsCompatible_appends s) (TestOneofBackwardsCompatible_groups s)" for s
    unfolding TestOneofBackwardsCompatible_appends_def TestOneofBackwardsCompatible_groups_def append.simps
    by (intro list.rel_intros field_written m_TestAllTypes.written_struct)
  show "mbuf (TestOneofBackwardsCompatibleReader_save t w off m) = mbuf m" for t w off m
    unfolding TestOneofBackwardsCompatibleReader_save_def by (rule tag_switch_keeps) (simp add: TestOneofBackwardsCompatibleReader_cases_def)
  show "fold (\<lambda>e. e) (TestOneofBackwardsCompatible_stored s) TestOneofBackwardsCompatible_zero = TestOneofBackwardsCompatible_norm s" for s
    unfolding TestOneofBackwardsCompatible_stored_def by (simp add: TestOneofBackwardsCompatible_zero_def TestOneofBackwardsCompatible_norm_def float_defaults)
qed (simp_all add: TestOneofBackwardsCompatible_saved TestOneofBackwardsCompatible_converted)

interpretation m_TestOneofBackwardsCompatible: message_codec TestOneofBackwardsCompatible_content TestOneofBackwardsCompatible_norm TestOneofBackwardsCompatible_XXX_PbContentSize TestOneofBackwardsCompatible_MarshalTo
  "TestOneofBackwardsCompatibleReader_Unmarshal NewTestOneofBackwardsCompatibleReader" TestOneofBackwardsCompatibleReader_ToStruct
  using l_TestOneofBackwardsCompatible.message
  by (simp only: TestOneofBackwardsCompatible_content_def [abs_def] TestOneofBackwardsCompatible_XXX_PbContentSize_def TestOneofBackwardsCompatible_MarshalTo_def TestOneofBackwardsCompatibleReader_Unmarshal_def [abs_def] TestOneofBackwardsCompatibleReader_ToStruct_def)


section \<open>TestParsingMerge: the reader\<close>

definition wireTestParsingMerge_RequiredAllTypes :: ProtoWireNumber where "wireTestParsingMerge_RequiredAllTypes = 1"
definition wireTestParsingMerge_OptionalAllTypes :: ProtoWireNumber where "wireTestParsingMerge_OptionalAllTypes = 2"
definition wireTestParsingMerge_RepeatedAllTypes :: ProtoWireNumber where "wireTestParsingMerge_RepeatedAllTypes = 3"

lemmas wireTestParsingMerge =
  wireTestParsingMerge_RequiredAllTypes_def wireTestParsingMerge_OptionalAllTypes_def
  wireTestParsingMerge_RepeatedAllTypes_def

record TestParsingMergeReader =
  mbuf :: "Reader option"
  cellRequiredAllTypes :: "(TestAllTypesReader option) one_cell"
  cellOptionalAllTypes :: "(TestAllTypesReader option) one_cell"
  cellRepeatedAllTypes :: "(TestAllTypesReader option) list_cell"

definition NewTestParsingMergeReader :: TestParsingMergeReader where
  "NewTestParsingMergeReader = \<lparr>
     mbuf = None, cellRequiredAllTypes = newCell None 0, cellOptionalAllTypes = newCell None 0,
     cellRepeatedAllTypes = newCell [] []\<rparr>"

definition TestParsingMergeReader_readRequiredAllTypes :: "TestParsingMergeReader \<Rightarrow> (TestAllTypesReader option \<times> TestParsingMergeReader) run" where
  "TestParsingMergeReader_readRequiredAllTypes = readCell cellRequiredAllTypes cellRequiredAllTypes_update mbuf (structReader (TestAllTypesReader_Unmarshal NewTestAllTypesReader))"

definition TestParsingMergeReader_GetRequiredAllTypes :: "TestParsingMergeReader option \<Rightarrow> (TestAllTypesReader option \<times> TestParsingMergeReader option) run" where
  "TestParsingMergeReader_GetRequiredAllTypes = getter TestParsingMergeReader_readRequiredAllTypes None"

definition TestParsingMergeReader_readOptionalAllTypes :: "TestParsingMergeReader \<Rightarrow> (TestAllTypesReader option \<times> TestParsingMergeReader) run" where
  "TestParsingMergeReader_readOptionalAllTypes = readCell cellOptionalAllTypes cellOptionalAllTypes_update mbuf (structReader (TestAllTypesReader_Unmarshal NewTestAllTypesReader))"

definition TestParsingMergeReader_GetOptionalAllTypes :: "TestParsingMergeReader option \<Rightarrow> (TestAllTypesReader option \<times> TestParsingMergeReader option) run" where
  "TestParsingMergeReader_GetOptionalAllTypes = getter TestParsingMergeReader_readOptionalAllTypes None"

definition TestParsingMergeReader_readRepeatedAllTypes :: "TestParsingMergeReader \<Rightarrow> ((TestAllTypesReader option) list \<times> TestParsingMergeReader) run" where
  "TestParsingMergeReader_readRepeatedAllTypes = readCell cellRepeatedAllTypes cellRepeatedAllTypes_update mbuf (readStructs (TestAllTypesReader_Unmarshal NewTestAllTypesReader))"

definition TestParsingMergeReader_GetRepeatedAllTypes :: "TestParsingMergeReader option \<Rightarrow> ((TestAllTypesReader option) list \<times> TestParsingMergeReader option) run" where
  "TestParsingMergeReader_GetRepeatedAllTypes = getter TestParsingMergeReader_readRepeatedAllTypes []"

lemmas TestParsingMerge_getters =
  TestParsingMergeReader_readRequiredAllTypes_def TestParsingMergeReader_GetRequiredAllTypes_def
  TestParsingMergeReader_readOptionalAllTypes_def TestParsingMergeReader_GetOptionalAllTypes_def
  TestParsingMergeReader_readRepeatedAllTypes_def TestParsingMergeReader_GetRepeatedAllTypes_def

definition TestParsingMergeReader_cases :: "ProtoWireType \<Rightarrow> int \<Rightarrow> (ProtoWireNumber \<times> (TestParsingMergeReader \<Rightarrow> TestParsingMergeReader)) list" where
  "TestParsingMergeReader_cases wire offset = [
     (wireTestParsingMerge_RequiredAllTypes, \<lambda>m. m\<lparr>cellRequiredAllTypes := onOffset (setOffset wire offset) (cellRequiredAllTypes m)\<rparr>),
     (wireTestParsingMerge_OptionalAllTypes, \<lambda>m. m\<lparr>cellOptionalAllTypes := onOffset (setOffset wire offset) (cellOptionalAllTypes m)\<rparr>),
     (wireTestParsingMerge_RepeatedAllTypes, \<lambda>m. m\<lparr>cellRepeatedAllTypes := onOffset (addOffset wire offset) (cellRepeatedAllTypes m)\<rparr>)]"

definition TestParsingMergeReader_save :: "ProtoWireNumber \<Rightarrow> ProtoWireType \<Rightarrow> int \<Rightarrow> TestParsingMergeReader \<Rightarrow> TestParsingMergeReader" where
  "TestParsingMergeReader_save tag wire offset = tag_switch (TestParsingMergeReader_cases wire offset) tag"

definition TestParsingMergeReader_Unmarshal :: "TestParsingMergeReader \<Rightarrow> gslice \<Rightarrow> (TestParsingMergeReader \<times> string option) run" where
  "TestParsingMergeReader_Unmarshal m data =
     unmarshalLoop TestParsingMergeReader_save (NewReader data) 0 (m\<lparr>mbuf := Some (NewReader data)\<rparr>)"

definition TestParsingMergeReader_SourceBytes :: "TestParsingMergeReader option \<Rightarrow> gslice" where
  "TestParsingMergeReader_SourceBytes s = (case s of None \<Rightarrow> nil_slice | Some r \<Rightarrow> Bytes (mbuf r))"

section \<open>TestParsingMerge: the struct\<close>

record TestParsingMerge =
  RequiredAllTypes :: "TestAllTypes option"
  OptionalAllTypes :: "TestAllTypes option"
  RepeatedAllTypes :: "(TestAllTypes option) list"

definition TestParsingMerge_zero :: TestParsingMerge where
  "TestParsingMerge_zero = \<lparr>
     RequiredAllTypes = None, OptionalAllTypes = None, RepeatedAllTypes = []\<rparr>"

definition TestParsingMerge_stmts :: "(TestParsingMerge \<times> TestParsingMergeReader option \<Rightarrow> (TestParsingMerge \<times> TestParsingMergeReader option) run) list" where
  "TestParsingMerge_stmts = [
     assignStruct TestParsingMergeReader_GetRequiredAllTypes (structToStruct TestAllTypesReader_ToStruct) cellRequiredAllTypes_update
       (\<lambda>v res. res\<lparr>RequiredAllTypes := v\<rparr>),
     assignStruct TestParsingMergeReader_GetOptionalAllTypes (structToStruct TestAllTypesReader_ToStruct) cellOptionalAllTypes_update
       (\<lambda>v res. res\<lparr>OptionalAllTypes := v\<rparr>),
     assignStruct TestParsingMergeReader_GetRepeatedAllTypes (repeatedToStruct TestAllTypesReader_ToStruct) cellRepeatedAllTypes_update
       (\<lambda>v res. res\<lparr>RepeatedAllTypes := v\<rparr>)]"

definition TestParsingMergeReader_ToStruct :: "TestParsingMergeReader option \<Rightarrow> (TestParsingMerge option \<times> TestParsingMergeReader option) run" where
  "TestParsingMergeReader_ToStruct = toStructWith (TestParsingMerge_stmts) TestParsingMerge_zero"

definition TestParsingMerge_appends :: "TestParsingMerge \<Rightarrow> (Writer \<Rightarrow> Writer go) list" where
  "TestParsingMerge_appends s = [
     \<lambda>res. if True then structWriter TestAllTypes_XXX_PbContentSize TestAllTypes_MarshalTo res wireTestParsingMerge_RequiredAllTypes (RequiredAllTypes s) else Ret res,
     \<lambda>res. if OptionalAllTypes s \<noteq> None then structWriter TestAllTypes_XXX_PbContentSize TestAllTypes_MarshalTo res wireTestParsingMerge_OptionalAllTypes (OptionalAllTypes s) else Ret res,
     \<lambda>res. if RepeatedAllTypes s \<noteq> [] then repeatedWriter (structWriter TestAllTypes_XXX_PbContentSize TestAllTypes_MarshalTo) res wireTestParsingMerge_RepeatedAllTypes (RepeatedAllTypes s) else Ret res]"

definition TestParsingMerge_MarshalTo :: "Writer \<Rightarrow> TestParsingMerge option \<Rightarrow> Writer go" where
  "TestParsingMerge_MarshalTo = marshalToWith (\<lambda>s. TestParsingMerge_appends s)"

definition TestParsingMerge_sizes :: "TestParsingMerge \<Rightarrow> int list" where
  "TestParsingMerge_sizes s = [
     if True then sizeDelimitedWithTag TestAllTypes_XXX_PbContentSize wireTestParsingMerge_RequiredAllTypes (RequiredAllTypes s) else 0,
     if OptionalAllTypes s \<noteq> None then sizeDelimitedWithTag TestAllTypes_XXX_PbContentSize wireTestParsingMerge_OptionalAllTypes (OptionalAllTypes s) else 0,
     if RepeatedAllTypes s \<noteq> [] then repeatedSize (sizeDelimitedWithTag TestAllTypes_XXX_PbContentSize wireTestParsingMerge_RepeatedAllTypes) (RepeatedAllTypes s) else 0]"

definition TestParsingMerge_XXX_PbContentSize :: "TestParsingMerge option \<Rightarrow> int" where
  "TestParsingMerge_XXX_PbContentSize = contentSizeWith (\<lambda>s. TestParsingMerge_sizes s)"

definition TestParsingMerge_Marshal :: "TestParsingMerge option \<Rightarrow> byte list go" where
  "TestParsingMerge_Marshal = marshalWith TestParsingMerge_XXX_PbContentSize TestParsingMerge_MarshalTo"

definition TestParsingMerge_Copy :: "TestParsingMerge option \<Rightarrow> TestParsingMerge option" where
  "TestParsingMerge_Copy s =
     (case s of None \<Rightarrow> None | Some s \<Rightarrow> Some \<lparr>
        RequiredAllTypes = (case RequiredAllTypes s of None \<Rightarrow> None | Some x \<Rightarrow> TestAllTypes_Copy (Some x)),
        OptionalAllTypes = (case OptionalAllTypes s of None \<Rightarrow> None | Some x \<Rightarrow> TestAllTypes_Copy (Some x)),
        RepeatedAllTypes = map (\<lambda>e. case e of None \<Rightarrow> None | Some x \<Rightarrow> TestAllTypes_Copy (Some x)) (RepeatedAllTypes s)\<rparr>)"

section \<open>TestParsingMerge: the round trip\<close>

definition TestParsingMerge_tags :: "ProtoWireNumber list" where
  "TestParsingMerge_tags = [
     wireTestParsingMerge_RequiredAllTypes, wireTestParsingMerge_OptionalAllTypes,
     wireTestParsingMerge_RepeatedAllTypes]"

definition TestParsingMerge_groups :: "TestParsingMerge \<Rightarrow> wfield list list" where
  "TestParsingMerge_groups s = [
     opt_field (True) (wireTestParsingMerge_RequiredAllTypes, WBytes (ptr_bytes TestAllTypes_content (RequiredAllTypes s))),
     opt_field (OptionalAllTypes s \<noteq> None) (wireTestParsingMerge_OptionalAllTypes, WBytes (ptr_bytes TestAllTypes_content (OptionalAllTypes s))),
     bytes_fields wireTestParsingMerge_RepeatedAllTypes (map (ptr_bytes TestAllTypes_content) (RepeatedAllTypes s))]"

definition TestParsingMerge_content :: "TestParsingMerge \<Rightarrow> wfield list" where
  "TestParsingMerge_content s = concat (TestParsingMerge_groups s)"

text \<open>What a round trip keeps.\<close>

definition TestParsingMerge_norm :: "TestParsingMerge \<Rightarrow> TestParsingMerge" where
  "TestParsingMerge_norm s = s\<lparr>
     RequiredAllTypes := norm_ptr TestAllTypes_content TestAllTypes_norm (RequiredAllTypes s),
     OptionalAllTypes := norm_ptr TestAllTypes_content TestAllTypes_norm (OptionalAllTypes s),
     RepeatedAllTypes := map (norm_ptr TestAllTypes_content TestAllTypes_norm) (RepeatedAllTypes s)\<rparr>"

definition TestParsingMerge_ready :: "Reader \<Rightarrow> TestParsingMerge \<Rightarrow> (TestParsingMergeReader \<Rightarrow> bool) list" where
  "TestParsingMerge_ready p s = [
     \<lambda>m. cell_reads (structReader (TestAllTypesReader_Unmarshal NewTestAllTypesReader)) (structToStruct TestAllTypesReader_ToStruct) p (norm_ptr TestAllTypes_content TestAllTypes_norm (RequiredAllTypes s)) (cellRequiredAllTypes m),
     \<lambda>m. cell_reads (structReader (TestAllTypesReader_Unmarshal NewTestAllTypesReader)) (structToStruct TestAllTypesReader_ToStruct) p (norm_ptr TestAllTypes_content TestAllTypes_norm (OptionalAllTypes s)) (cellOptionalAllTypes m),
     \<lambda>m. cell_reads (readStructs (TestAllTypesReader_Unmarshal NewTestAllTypesReader)) (repeatedToStruct TestAllTypesReader_ToStruct) p (map (norm_ptr TestAllTypes_content TestAllTypes_norm) (RepeatedAllTypes s)) (cellRepeatedAllTypes m)]"

definition TestParsingMerge_stored :: "TestParsingMerge \<Rightarrow> (TestParsingMerge \<Rightarrow> TestParsingMerge) list" where
  "TestParsingMerge_stored s = [
     \<lambda>res. res\<lparr>RequiredAllTypes := norm_ptr TestAllTypes_content TestAllTypes_norm (RequiredAllTypes s)\<rparr>,
     \<lambda>res. res\<lparr>OptionalAllTypes := norm_ptr TestAllTypes_content TestAllTypes_norm (OptionalAllTypes s)\<rparr>,
     \<lambda>res. res\<lparr>RepeatedAllTypes := map (norm_ptr TestAllTypes_content TestAllTypes_norm) (RepeatedAllTypes s)\<rparr>]"

lemma TestParsingMerge_cases_distinct: "distinct (map fst (TestParsingMergeReader_cases wire offset))"
  by (rule ascending_distinct) (simp add: TestParsingMergeReader_cases_def wireTestParsingMerge)

lemma TestParsingMerge_stores:
  "stores_cell TestParsingMergeReader_save wireTestParsingMerge_RequiredAllTypes setOffset cellRequiredAllTypes"
  "stores_cell TestParsingMergeReader_save wireTestParsingMerge_OptionalAllTypes setOffset cellOptionalAllTypes"
  "stores_cell TestParsingMergeReader_save wireTestParsingMerge_RepeatedAllTypes addOffset cellRepeatedAllTypes"
  unfolding TestParsingMergeReader_save_def [abs_def] by (rule stores_cell_switch; (rule TestParsingMerge_cases_distinct)?; unfold TestParsingMergeReader_cases_def; intro own_case.intros; simp)+

lemma TestParsingMerge_saved: "good_fields TestParsingMergeReader_save p (NewTestParsingMergeReader\<lparr>mbuf := Some p\<rparr>) TestParsingMerge_tags (TestParsingMerge_groups s) (TestParsingMerge_ready p s)"
  unfolding TestParsingMerge_tags_def TestParsingMerge_groups_def TestParsingMerge_ready_def
  by (intro good_fields.intros field_saved m_TestAllTypes.saved_struct TestParsingMerge_stores) (simp_all add: NewTestParsingMergeReader_def newCell_def)

lemma TestParsingMerge_converted: "good_stmts mbuf p (TestParsingMerge_stmts) (TestParsingMerge_ready p s) (TestParsingMerge_stored s)"
  unfolding TestParsingMerge_stmts_def TestParsingMerge_ready_def TestParsingMerge_stored_def TestParsingMerge_getters append.simps
  by (intro good_stmts_field good_stmts.Nil) (simp_all cong: cell_reads_cong)

interpretation l_TestParsingMerge: lazy_message TestParsingMerge_tags TestParsingMerge_groups TestParsingMerge_norm
  "\<lambda>s. TestParsingMerge_sizes s" "\<lambda>s. TestParsingMerge_appends s"
  TestParsingMergeReader_save "\<lambda>p. NewTestParsingMergeReader\<lparr>mbuf := Some p\<rparr>" mbuf "TestParsingMerge_stmts" TestParsingMerge_zero TestParsingMerge_ready TestParsingMerge_stored
proof
  show "distinct TestParsingMerge_tags"
    using TestParsingMerge_cases_distinct by (simp only: TestParsingMergeReader_cases_def TestParsingMerge_tags_def list.map fst_conv)
  show "list_all valid_tag TestParsingMerge_tags"
    by (simp add: TestParsingMerge_tags_def wireTestParsingMerge valid_tag_def)
  show "list_all2 (\<lambda>t g. \<forall>f \<in> set g. fst f = t \<and> wf_val (snd f)) TestParsingMerge_tags (TestParsingMerge_groups s)" for s
    unfolding TestParsingMerge_tags_def TestParsingMerge_groups_def by (intro list.rel_intros field_tagged m_TestAllTypes.tagged_struct)
  show "list_all2 (\<lambda>e g. e = int (length (fields_bytes g))) (TestParsingMerge_sizes s) (TestParsingMerge_groups s)" for s
    unfolding TestParsingMerge_sizes_def TestParsingMerge_groups_def append.simps
    by (intro list.rel_intros field_sized m_TestAllTypes.sized_struct)
  show "list_all2 (\<lambda>st g. writes st (fields_bytes g)) (TestParsingMerge_appends s) (TestParsingMerge_groups s)" for s
    unfolding TestParsingMerge_appends_def TestParsingMerge_groups_def append.simps
    by (intro list.rel_intros field_written m_TestAllTypes.written_struct)
  show "mbuf (TestParsingMergeReader_save t w off m) = mbuf m" for t w off m
    unfolding TestParsingMergeReader_save_def by (rule tag_switch_keeps) (simp add: TestParsingMergeReader_cases_def)
  show "fold (\<lambda>e. e) (TestParsingMerge_stored s) TestParsingMerge_zero = TestParsingMerge_norm s" for s
    unfolding TestParsingMerge_stored_def by (simp add: TestParsingMerge_zero_def TestParsingMerge_norm_def float_defaults)
qed (simp_all add: TestParsingMerge_saved TestParsingMerge_converted)

interpretation m_TestParsingMerge: message_codec TestParsingMerge_content TestParsingMerge_norm TestParsingMerge_XXX_PbContentSize TestParsingMerge_MarshalTo
  "TestParsingMergeReader_Unmarshal NewTestParsingMergeReader" TestParsingMergeReader_ToStruct
  using l_TestParsingMerge.message
  by (simp only: TestParsingMerge_content_def [abs_def] TestParsingMerge_XXX_PbContentSize_def TestParsingMerge_MarshalTo_def TestParsingMergeReader_Unmarshal_def [abs_def] TestParsingMergeReader_ToStruct_def)


section \<open>TestParsingMerge_RepeatedFieldsGenerator: the reader\<close>

definition wireTestParsingMerge_RepeatedFieldsGenerator_Field1 :: ProtoWireNumber where "wireTestParsingMerge_RepeatedFieldsGenerator_Field1 = 1"
definition wireTestParsingMerge_RepeatedFieldsGenerator_Field2 :: ProtoWireNumber where "wireTestParsingMerge_RepeatedFieldsGenerator_Field2 = 2"
definition wireTestParsingMerge_RepeatedFieldsGenerator_Field3 :: ProtoWireNumber where "wireTestParsingMerge_RepeatedFieldsGenerator_Field3 = 3"
definition wireTestParsingMerge_RepeatedFieldsGenerator_Ext1 :: ProtoWireNumber where "wireTestParsingMerge_RepeatedFieldsGenerator_Ext1 = 1000"
definition wireTestParsingMerge_RepeatedFieldsGenerator_Ext2 :: ProtoWireNumber where "wireTestParsingMerge_RepeatedFieldsGenerator_Ext2 = 1001"

lemmas wireTestParsingMerge_RepeatedFieldsGenerator =
  wireTestParsingMerge_RepeatedFieldsGenerator_Field1_def
  wireTestParsingMerge_RepeatedFieldsGenerator_Field2_def
  wireTestParsingMerge_RepeatedFieldsGenerator_Field3_def
  wireTestParsingMerge_RepeatedFieldsGenerator_Ext1_def
  wireTestParsingMerge_RepeatedFieldsGenerator_Ext2_def

record TestParsingMerge_RepeatedFieldsGeneratorReader =
  mbuf :: "Reader option"
  cellField1 :: "(TestAllTypesReader option) list_cell"
  cellField2 :: "(TestAllTypesReader option) list_cell"
  cellField3 :: "(TestAllTypesReader option) list_cell"
  cellExt1 :: "(TestAllTypesReader option) list_cell"
  cellExt2 :: "(TestAllTypesReader option) list_cell"

definition NewTestParsingMerge_RepeatedFieldsGeneratorReader :: TestParsingMerge_RepeatedFieldsGeneratorReader where
  "NewTestParsingMerge_RepeatedFieldsGeneratorReader = \<lparr>
     mbuf = None, cellField1 = newCell [] [], cellField2 = newCell [] [],
     cellField3 = newCell [] [], cellExt1 = newCell [] [], cellExt2 = newCell [] []\<rparr>"

definition TestParsingMerge_RepeatedFieldsGeneratorReader_readField1 :: "TestParsingMerge_RepeatedFieldsGeneratorReader \<Rightarrow> ((TestAllTypesReader option) list \<times> TestParsingMerge_RepeatedFieldsGeneratorReader) run" where
  "TestParsingMerge_RepeatedFieldsGeneratorReader_readField1 = readCell cellField1 cellField1_update mbuf (readStructs (TestAllTypesReader_Unmarshal NewTestAllTypesReader))"

definition TestParsingMerge_RepeatedFieldsGeneratorReader_GetField1 :: "TestParsingMerge_RepeatedFieldsGeneratorReader option \<Rightarrow> ((TestAllTypesReader option) list \<times> TestParsingMerge_RepeatedFieldsGeneratorReader option) run" where
  "TestParsingMerge_RepeatedFieldsGeneratorReader_GetField1 = getter TestParsingMerge_RepeatedFieldsGeneratorReader_readField1 []"

definition TestParsingMerge_RepeatedFieldsGeneratorReader_readField2 :: "TestParsingMerge_RepeatedFieldsGeneratorReader \<Rightarrow> ((TestAllTypesReader option) list \<times> TestParsingMerge_RepeatedFieldsGeneratorReader) run" where
  "TestParsingMerge_RepeatedFieldsGeneratorReader_readField2 = readCell cellField2 cellField2_update mbuf (readStructs (TestAllTypesReader_Unmarshal NewTestAllTypesReader))"

definition TestParsingMerge_RepeatedFieldsGeneratorReader_GetField2 :: "TestParsingMerge_RepeatedFieldsGeneratorReader option \<Rightarrow> ((TestAllTypesReader option) list \<times> TestParsingMerge_RepeatedFieldsGeneratorReader option) run" where
  "TestParsingMerge_RepeatedFieldsGeneratorReader_GetField2 = getter TestParsingMerge_RepeatedFieldsGeneratorReader_readField2 []"

definition TestParsingMerge_RepeatedFieldsGeneratorReader_readField3 :: "TestParsingMerge_RepeatedFieldsGeneratorReader \<Rightarrow> ((TestAllTypesReader option) list \<times> TestParsingMerge_RepeatedFieldsGeneratorReader) run" where
  "TestParsingMerge_RepeatedFieldsGeneratorReader_readField3 = readCell cellField3 cellField3_update mbuf (readStructs (TestAllTypesReader_Unmarshal NewTestAllTypesReader))"

definition TestParsingMerge_RepeatedFieldsGeneratorReader_GetField3 :: "TestParsingMerge_RepeatedFieldsGeneratorReader option \<Rightarrow> ((TestAllTypesReader option) list \<times> TestParsingMerge_RepeatedFieldsGeneratorReader option) run" where
  "TestParsingMerge_RepeatedFieldsGeneratorReader_GetField3 = getter TestParsingMerge_RepeatedFieldsGeneratorReader_readField3 []"

definition TestParsingMerge_RepeatedFieldsGeneratorReader_readExt1 :: "TestParsingMerge_RepeatedFieldsGeneratorReader \<Rightarrow> ((TestAllTypesReader option) list \<times> TestParsingMerge_RepeatedFieldsGeneratorReader) run" where
  "TestParsingMerge_RepeatedFieldsGeneratorReader_readExt1 = readCell cellExt1 cellExt1_update mbuf (readStructs (TestAllTypesReader_Unmarshal NewTestAllTypesReader))"

definition TestParsingMerge_RepeatedFieldsGeneratorReader_GetExt1 :: "TestParsingMerge_RepeatedFieldsGeneratorReader option \<Rightarrow> ((TestAllTypesReader option) list \<times> TestParsingMerge_RepeatedFieldsGeneratorReader option) run" where
  "TestParsingMerge_RepeatedFieldsGeneratorReader_GetExt1 = getter TestParsingMerge_RepeatedFieldsGeneratorReader_readExt1 []"

definition TestParsingMerge_RepeatedFieldsGeneratorReader_readExt2 :: "TestParsingMerge_RepeatedFieldsGeneratorReader \<Rightarrow> ((TestAllTypesReader option) list \<times> TestParsingMerge_RepeatedFieldsGeneratorReader) run" where
  "TestParsingMerge_RepeatedFieldsGeneratorReader_readExt2 = readCell cellExt2 cellExt2_update mbuf (readStructs (TestAllTypesReader_Unmarshal NewTestAllTypesReader))"

definition TestParsingMerge_RepeatedFieldsGeneratorReader_GetExt2 :: "TestParsingMerge_RepeatedFieldsGeneratorReader option \<Rightarrow> ((TestAllTypesReader option) list \<times> TestParsingMerge_RepeatedFieldsGeneratorReader option) run" where
  "TestParsingMerge_RepeatedFieldsGeneratorReader_GetExt2 = getter TestParsingMerge_RepeatedFieldsGeneratorReader_readExt2 []"

lemmas TestParsingMerge_RepeatedFieldsGenerator_getters =
  TestParsingMerge_RepeatedFieldsGeneratorReader_readField1_def TestParsingMerge_RepeatedFieldsGeneratorReader_GetField1_def
  TestParsingMerge_RepeatedFieldsGeneratorReader_readField2_def TestParsingMerge_RepeatedFieldsGeneratorReader_GetField2_def
  TestParsingMerge_RepeatedFieldsGeneratorReader_readField3_def TestParsingMerge_RepeatedFieldsGeneratorReader_GetField3_def
  TestParsingMerge_RepeatedFieldsGeneratorReader_readExt1_def TestParsingMerge_RepeatedFieldsGeneratorReader_GetExt1_def
  TestParsingMerge_RepeatedFieldsGeneratorReader_readExt2_def TestParsingMerge_RepeatedFieldsGeneratorReader_GetExt2_def

definition TestParsingMerge_RepeatedFieldsGeneratorReader_cases :: "ProtoWireType \<Rightarrow> int \<Rightarrow> (ProtoWireNumber \<times> (TestParsingMerge_RepeatedFieldsGeneratorReader \<Rightarrow> TestParsingMerge_RepeatedFieldsGeneratorReader)) list" where
  "TestParsingMerge_RepeatedFieldsGeneratorReader_cases wire offset = [
     (wireTestParsingMerge_RepeatedFieldsGenerator_Field1, \<lambda>m. m\<lparr>cellField1 := onOffset (addOffset wire offset) (cellField1 m)\<rparr>),
     (wireTestParsingMerge_RepeatedFieldsGenerator_Field2, \<lambda>m. m\<lparr>cellField2 := onOffset (addOffset wire offset) (cellField2 m)\<rparr>),
     (wireTestParsingMerge_RepeatedFieldsGenerator_Field3, \<lambda>m. m\<lparr>cellField3 := onOffset (addOffset wire offset) (cellField3 m)\<rparr>),
     (wireTestParsingMerge_RepeatedFieldsGenerator_Ext1, \<lambda>m. m\<lparr>cellExt1 := onOffset (addOffset wire offset) (cellExt1 m)\<rparr>),
     (wireTestParsingMerge_RepeatedFieldsGenerator_Ext2, \<lambda>m. m\<lparr>cellExt2 := onOffset (addOffset wire offset) (cellExt2 m)\<rparr>)]"

definition TestParsingMerge_RepeatedFieldsGeneratorReader_save :: "ProtoWireNumber \<Rightarrow> ProtoWireType \<Rightarrow> int \<Rightarrow> TestParsingMerge_RepeatedFieldsGeneratorReader \<Rightarrow> TestParsingMerge_RepeatedFieldsGeneratorReader" where
  "TestParsingMerge_RepeatedFieldsGeneratorReader_save tag wire offset = tag_switch (TestParsingMerge_RepeatedFieldsGeneratorReader_cases wire offset) tag"

definition TestParsingMerge_RepeatedFieldsGeneratorReader_Unmarshal :: "TestParsingMerge_RepeatedFieldsGeneratorReader \<Rightarrow> gslice \<Rightarrow> (TestParsingMerge_RepeatedFieldsGeneratorReader \<times> string option) run" where
  "TestParsingMerge_RepeatedFieldsGeneratorReader_Unmarshal m data =
     unmarshalLoop TestParsingMerge_RepeatedFieldsGeneratorReader_save (NewReader data) 0 (m\<lparr>mbuf := Some (NewReader data)\<rparr>)"

definition TestParsingMerge_RepeatedFieldsGeneratorReader_SourceBytes :: "TestParsingMerge_RepeatedFieldsGeneratorReader option \<Rightarrow> gslice" where
  "TestParsingMerge_RepeatedFieldsGeneratorReader_SourceBytes s = (case s of None \<Rightarrow> nil_slice | Some r \<Rightarrow> Bytes (mbuf r))"

section \<open>TestParsingMerge_RepeatedFieldsGenerator: the struct\<close>

record TestParsingMerge_RepeatedFieldsGenerator =
  Field1 :: "(TestAllTypes option) list"
  Field2 :: "(TestAllTypes option) list"
  Field3 :: "(TestAllTypes option) list"
  Ext1 :: "(TestAllTypes option) list"
  Ext2 :: "(TestAllTypes option) list"

definition TestParsingMerge_RepeatedFieldsGenerator_zero :: TestParsingMerge_RepeatedFieldsGenerator where
  "TestParsingMerge_RepeatedFieldsGenerator_zero = \<lparr>
     Field1 = [], Field2 = [], Field3 = [], Ext1 = [], Ext2 = []\<rparr>"

definition TestParsingMerge_RepeatedFieldsGenerator_stmts :: "(TestParsingMerge_RepeatedFieldsGenerator \<times> TestParsingMerge_RepeatedFieldsGeneratorReader option \<Rightarrow> (TestParsingMerge_RepeatedFieldsGenerator \<times> TestParsingMerge_RepeatedFieldsGeneratorReader option) run) list" where
  "TestParsingMerge_RepeatedFieldsGenerator_stmts = [
     assignStruct TestParsingMerge_RepeatedFieldsGeneratorReader_GetField1 (repeatedToStruct TestAllTypesReader_ToStruct) cellField1_update
       (\<lambda>v res. res\<lparr>Field1 := v\<rparr>),
     assignStruct TestParsingMerge_RepeatedFieldsGeneratorReader_GetField2 (repeatedToStruct TestAllTypesReader_ToStruct) cellField2_update
       (\<lambda>v res. res\<lparr>Field2 := v\<rparr>),
     assignStruct TestParsingMerge_RepeatedFieldsGeneratorReader_GetField3 (repeatedToStruct TestAllTypesReader_ToStruct) cellField3_update
       (\<lambda>v res. res\<lparr>Field3 := v\<rparr>),
     assignStruct TestParsingMerge_RepeatedFieldsGeneratorReader_GetExt1 (repeatedToStruct TestAllTypesReader_ToStruct) cellExt1_update
       (\<lambda>v res. res\<lparr>Ext1 := v\<rparr>),
     assignStruct TestParsingMerge_RepeatedFieldsGeneratorReader_GetExt2 (repeatedToStruct TestAllTypesReader_ToStruct) cellExt2_update
       (\<lambda>v res. res\<lparr>Ext2 := v\<rparr>)]"

definition TestParsingMerge_RepeatedFieldsGeneratorReader_ToStruct :: "TestParsingMerge_RepeatedFieldsGeneratorReader option \<Rightarrow> (TestParsingMerge_RepeatedFieldsGenerator option \<times> TestParsingMerge_RepeatedFieldsGeneratorReader option) run" where
  "TestParsingMerge_RepeatedFieldsGeneratorReader_ToStruct = toStructWith (TestParsingMerge_RepeatedFieldsGenerator_stmts) TestParsingMerge_RepeatedFieldsGenerator_zero"

definition TestParsingMerge_RepeatedFieldsGenerator_appends :: "TestParsingMerge_RepeatedFieldsGenerator \<Rightarrow> (Writer \<Rightarrow> Writer go) list" where
  "TestParsingMerge_RepeatedFieldsGenerator_appends s = [
     \<lambda>res. if Field1 s \<noteq> [] then repeatedWriter (structWriter TestAllTypes_XXX_PbContentSize TestAllTypes_MarshalTo) res wireTestParsingMerge_RepeatedFieldsGenerator_Field1 (Field1 s) else Ret res,
     \<lambda>res. if Field2 s \<noteq> [] then repeatedWriter (structWriter TestAllTypes_XXX_PbContentSize TestAllTypes_MarshalTo) res wireTestParsingMerge_RepeatedFieldsGenerator_Field2 (Field2 s) else Ret res,
     \<lambda>res. if Field3 s \<noteq> [] then repeatedWriter (structWriter TestAllTypes_XXX_PbContentSize TestAllTypes_MarshalTo) res wireTestParsingMerge_RepeatedFieldsGenerator_Field3 (Field3 s) else Ret res,
     \<lambda>res. if Ext1 s \<noteq> [] then repeatedWriter (structWriter TestAllTypes_XXX_PbContentSize TestAllTypes_MarshalTo) res wireTestParsingMerge_RepeatedFieldsGenerator_Ext1 (Ext1 s) else Ret res,
     \<lambda>res. if Ext2 s \<noteq> [] then repeatedWriter (structWriter TestAllTypes_XXX_PbContentSize TestAllTypes_MarshalTo) res wireTestParsingMerge_RepeatedFieldsGenerator_Ext2 (Ext2 s) else Ret res]"

definition TestParsingMerge_RepeatedFieldsGenerator_MarshalTo :: "Writer \<Rightarrow> TestParsingMerge_RepeatedFieldsGenerator option \<Rightarrow> Writer go" where
  "TestParsingMerge_RepeatedFieldsGenerator_MarshalTo = marshalToWith (\<lambda>s. TestParsingMerge_RepeatedFieldsGenerator_appends s)"

definition TestParsingMerge_RepeatedFieldsGenerator_sizes :: "TestParsingMerge_RepeatedFieldsGenerator \<Rightarrow> int list" where
  "TestParsingMerge_RepeatedFieldsGenerator_sizes s = [
     if Field1 s \<noteq> [] then repeatedSize (sizeDelimitedWithTag TestAllTypes_XXX_PbContentSize wireTestParsingMerge_RepeatedFieldsGenerator_Field1) (Field1 s) else 0,
     if Field2 s \<noteq> [] then repeatedSize (sizeDelimitedWithTag TestAllTypes_XXX_PbContentSize wireTestParsingMerge_RepeatedFieldsGenerator_Field2) (Field2 s) else 0,
     if Field3 s \<noteq> [] then repeatedSize (sizeDelimitedWithTag TestAllTypes_XXX_PbContentSize wireTestParsingMerge_RepeatedFieldsGenerator_Field3) (Field3 s) else 0,
     if Ext1 s \<noteq> [] then repeatedSize (sizeDelimitedWithTag TestAllTypes_XXX_PbContentSize wireTestParsingMerge_RepeatedFieldsGenerator_Ext1) (Ext1 s) else 0,
     if Ext2 s \<noteq> [] then repeatedSize (sizeDelimitedWithTag TestAllTypes_XXX_PbContentSize wireTestParsingMerge_RepeatedFieldsGenerator_Ext2) (Ext2 s) else 0]"

definition TestParsingMerge_RepeatedFieldsGenerator_XXX_PbContentSize :: "TestParsingMerge_RepeatedFieldsGenerator option \<Rightarrow> int" where
  "TestParsingMerge_RepeatedFieldsGenerator_XXX_PbContentSize = contentSizeWith (\<lambda>s. TestParsingMerge_RepeatedFieldsGenerator_sizes s)"

definition TestParsingMerge_RepeatedFieldsGenerator_Marshal :: "TestParsingMerge_RepeatedFieldsGenerator option \<Rightarrow> byte list go" where
  "TestParsingMerge_RepeatedFieldsGenerator_Marshal = marshalWith TestParsingMerge_RepeatedFieldsGenerator_XXX_PbContentSize TestParsingMerge_RepeatedFieldsGenerator_MarshalTo"

definition TestParsingMerge_RepeatedFieldsGenerator_Copy :: "TestParsingMerge_RepeatedFieldsGenerator option \<Rightarrow> TestParsingMerge_RepeatedFieldsGenerator option" where
  "TestParsingMerge_RepeatedFieldsGenerator_Copy s =
     (case s of None \<Rightarrow> None | Some s \<Rightarrow> Some \<lparr>
        Field1 = map (\<lambda>e. case e of None \<Rightarrow> None | Some x \<Rightarrow> TestAllTypes_Copy (Some x)) (Field1 s),
        Field2 = map (\<lambda>e. case e of None \<Rightarrow> None | Some x \<Rightarrow> TestAllTypes_Copy (Some x)) (Field2 s),
        Field3 = map (\<lambda>e. case e of None \<Rightarrow> None | Some x \<Rightarrow> TestAllTypes_Copy (Some x)) (Field3 s),
        Ext1 = map (\<lambda>e. case e of None \<Rightarrow> None | Some x \<Rightarrow> TestAllTypes_Copy (Some x)) (Ext1 s),
        Ext2 = map (\<lambda>e. case e of None \<Rightarrow> None | Some x \<Rightarrow> TestAllTypes_Copy (Some x)) (Ext2 s)\<rparr>)"

section \<open>TestParsingMerge_RepeatedFieldsGenerator: the round trip\<close>

definition TestParsingMerge_RepeatedFieldsGenerator_tags :: "ProtoWireNumber list" where
  "TestParsingMerge_RepeatedFieldsGenerator_tags = [
     wireTestParsingMerge_RepeatedFieldsGenerator_Field1,
     wireTestParsingMerge_RepeatedFieldsGenerator_Field2,
     wireTestParsingMerge_RepeatedFieldsGenerator_Field3,
     wireTestParsingMerge_RepeatedFieldsGenerator_Ext1,
     wireTestParsingMerge_RepeatedFieldsGenerator_Ext2]"

definition TestParsingMerge_RepeatedFieldsGenerator_groups :: "TestParsingMerge_RepeatedFieldsGenerator \<Rightarrow> wfield list list" where
  "TestParsingMerge_RepeatedFieldsGenerator_groups s = [
     bytes_fields wireTestParsingMerge_RepeatedFieldsGenerator_Field1 (map (ptr_bytes TestAllTypes_content) (Field1 s)),
     bytes_fields wireTestParsingMerge_RepeatedFieldsGenerator_Field2 (map (ptr_bytes TestAllTypes_content) (Field2 s)),
     bytes_fields wireTestParsingMerge_RepeatedFieldsGenerator_Field3 (map (ptr_bytes TestAllTypes_content) (Field3 s)),
     bytes_fields wireTestParsingMerge_RepeatedFieldsGenerator_Ext1 (map (ptr_bytes TestAllTypes_content) (Ext1 s)),
     bytes_fields wireTestParsingMerge_RepeatedFieldsGenerator_Ext2 (map (ptr_bytes TestAllTypes_content) (Ext2 s))]"

definition TestParsingMerge_RepeatedFieldsGenerator_content :: "TestParsingMerge_RepeatedFieldsGenerator \<Rightarrow> wfield list" where
  "TestParsingMerge_RepeatedFieldsGenerator_content s = concat (TestParsingMerge_RepeatedFieldsGenerator_groups s)"

text \<open>What a round trip keeps.\<close>

definition TestParsingMerge_RepeatedFieldsGenerator_norm :: "TestParsingMerge_RepeatedFieldsGenerator \<Rightarrow> TestParsingMerge_RepeatedFieldsGenerator" where
  "TestParsingMerge_RepeatedFieldsGenerator_norm s = s\<lparr>
     Field1 := map (norm_ptr TestAllTypes_content TestAllTypes_norm) (Field1 s),
     Field2 := map (norm_ptr TestAllTypes_content TestAllTypes_norm) (Field2 s),
     Field3 := map (norm_ptr TestAllTypes_content TestAllTypes_norm) (Field3 s),
     Ext1 := map (norm_ptr TestAllTypes_content TestAllTypes_norm) (Ext1 s),
     Ext2 := map (norm_ptr TestAllTypes_content TestAllTypes_norm) (Ext2 s)\<rparr>"

definition TestParsingMerge_RepeatedFieldsGenerator_ready :: "Reader \<Rightarrow> TestParsingMerge_RepeatedFieldsGenerator \<Rightarrow> (TestParsingMerge_RepeatedFieldsGeneratorReader \<Rightarrow> bool) list" where
  "TestParsingMerge_RepeatedFieldsGenerator_ready p s = [
     \<lambda>m. cell_reads (readStructs (TestAllTypesReader_Unmarshal NewTestAllTypesReader)) (repeatedToStruct TestAllTypesReader_ToStruct) p (map (norm_ptr TestAllTypes_content TestAllTypes_norm) (Field1 s)) (cellField1 m),
     \<lambda>m. cell_reads (readStructs (TestAllTypesReader_Unmarshal NewTestAllTypesReader)) (repeatedToStruct TestAllTypesReader_ToStruct) p (map (norm_ptr TestAllTypes_content TestAllTypes_norm) (Field2 s)) (cellField2 m),
     \<lambda>m. cell_reads (readStructs (TestAllTypesReader_Unmarshal NewTestAllTypesReader)) (repeatedToStruct TestAllTypesReader_ToStruct) p (map (norm_ptr TestAllTypes_content TestAllTypes_norm) (Field3 s)) (cellField3 m),
     \<lambda>m. cell_reads (readStructs (TestAllTypesReader_Unmarshal NewTestAllTypesReader)) (repeatedToStruct TestAllTypesReader_ToStruct) p (map (norm_ptr TestAllTypes_content TestAllTypes_norm) (Ext1 s)) (cellExt1 m),
     \<lambda>m. cell_reads (readStructs (TestAllTypesReader_Unmarshal NewTestAllTypesReader)) (repeatedToStruct TestAllTypesReader_ToStruct) p (map (norm_ptr TestAllTypes_content TestAllTypes_norm) (Ext2 s)) (cellExt2 m)]"

definition TestParsingMerge_RepeatedFieldsGenerator_stored :: "TestParsingMerge_RepeatedFieldsGenerator \<Rightarrow> (TestParsingMerge_RepeatedFieldsGenerator \<Rightarrow> TestParsingMerge_RepeatedFieldsGenerator) list" where
  "TestParsingMerge_RepeatedFieldsGenerator_stored s = [
     \<lambda>res. res\<lparr>Field1 := map (norm_ptr TestAllTypes_content TestAllTypes_norm) (Field1 s)\<rparr>,
     \<lambda>res. res\<lparr>Field2 := map (norm_ptr TestAllTypes_content TestAllTypes_norm) (Field2 s)\<rparr>,
     \<lambda>res. res\<lparr>Field3 := map (norm_ptr TestAllTypes_content TestAllTypes_norm) (Field3 s)\<rparr>,
     \<lambda>res. res\<lparr>Ext1 := map (norm_ptr TestAllTypes_content TestAllTypes_norm) (Ext1 s)\<rparr>,
     \<lambda>res. res\<lparr>Ext2 := map (norm_ptr TestAllTypes_content TestAllTypes_norm) (Ext2 s)\<rparr>]"

lemma TestParsingMerge_RepeatedFieldsGenerator_cases_distinct: "distinct (map fst (TestParsingMerge_RepeatedFieldsGeneratorReader_cases wire offset))"
  by (rule ascending_distinct) (simp add: TestParsingMerge_RepeatedFieldsGeneratorReader_cases_def wireTestParsingMerge_RepeatedFieldsGenerator)

lemma TestParsingMerge_RepeatedFieldsGenerator_stores:
  "stores_cell TestParsingMerge_RepeatedFieldsGeneratorReader_save wireTestParsingMerge_RepeatedFieldsGenerator_Field1 addOffset cellField1"
  "stores_cell TestParsingMerge_RepeatedFieldsGeneratorReader_save wireTestParsingMerge_RepeatedFieldsGenerator_Field2 addOffset cellField2"
  "stores_cell TestParsingMerge_RepeatedFieldsGeneratorReader_save wireTestParsingMerge_RepeatedFieldsGenerator_Field3 addOffset cellField3"
  "stores_cell TestParsingMerge_RepeatedFieldsGeneratorReader_save wireTestParsingMerge_RepeatedFieldsGenerator_Ext1 addOffset cellExt1"
  "stores_cell TestParsingMerge_RepeatedFieldsGeneratorReader_save wireTestParsingMerge_RepeatedFieldsGenerator_Ext2 addOffset cellExt2"
  unfolding TestParsingMerge_RepeatedFieldsGeneratorReader_save_def [abs_def] by (rule stores_cell_switch; (rule TestParsingMerge_RepeatedFieldsGenerator_cases_distinct)?; unfold TestParsingMerge_RepeatedFieldsGeneratorReader_cases_def; intro own_case.intros; simp)+

lemma TestParsingMerge_RepeatedFieldsGenerator_saved: "good_fields TestParsingMerge_RepeatedFieldsGeneratorReader_save p (NewTestParsingMerge_RepeatedFieldsGeneratorReader\<lparr>mbuf := Some p\<rparr>) TestParsingMerge_RepeatedFieldsGenerator_tags (TestParsingMerge_RepeatedFieldsGenerator_groups s) (TestParsingMerge_RepeatedFieldsGenerator_ready p s)"
  unfolding TestParsingMerge_RepeatedFieldsGenerator_tags_def TestParsingMerge_RepeatedFieldsGenerator_groups_def TestParsingMerge_RepeatedFieldsGenerator_ready_def
  by (intro good_fields.intros field_saved m_TestAllTypes.saved_struct TestParsingMerge_RepeatedFieldsGenerator_stores) (simp_all add: NewTestParsingMerge_RepeatedFieldsGeneratorReader_def newCell_def)

lemma TestParsingMerge_RepeatedFieldsGenerator_converted: "good_stmts mbuf p (TestParsingMerge_RepeatedFieldsGenerator_stmts) (TestParsingMerge_RepeatedFieldsGenerator_ready p s) (TestParsingMerge_RepeatedFieldsGenerator_stored s)"
  unfolding TestParsingMerge_RepeatedFieldsGenerator_stmts_def TestParsingMerge_RepeatedFieldsGenerator_ready_def TestParsingMerge_RepeatedFieldsGenerator_stored_def TestParsingMerge_RepeatedFieldsGenerator_getters append.simps
  by (intro good_stmts_field good_stmts.Nil) (simp_all cong: cell_reads_cong)

interpretation l_TestParsingMerge_RepeatedFieldsGenerator: lazy_message TestParsingMerge_RepeatedFieldsGenerator_tags TestParsingMerge_RepeatedFieldsGenerator_groups TestParsingMerge_RepeatedFieldsGenerator_norm
  "\<lambda>s. TestParsingMerge_RepeatedFieldsGenerator_sizes s" "\<lambda>s. TestParsingMerge_RepeatedFieldsGenerator_appends s"
  TestParsingMerge_RepeatedFieldsGeneratorReader_save "\<lambda>p. NewTestParsingMerge_RepeatedFieldsGeneratorReader\<lparr>mbuf := Some p\<rparr>" mbuf "TestParsingMerge_RepeatedFieldsGenerator_stmts" TestParsingMerge_RepeatedFieldsGenerator_zero TestParsingMerge_RepeatedFieldsGenerator_ready TestParsingMerge_RepeatedFieldsGenerator_stored
proof
  show "distinct TestParsingMerge_RepeatedFieldsGenerator_tags"
    using TestParsingMerge_RepeatedFieldsGenerator_cases_distinct by (simp only: TestParsingMerge_RepeatedFieldsGeneratorReader_cases_def TestParsingMerge_RepeatedFieldsGenerator_tags_def list.map fst_conv)
  show "list_all valid_tag TestParsingMerge_RepeatedFieldsGenerator_tags"
    by (simp add: TestParsingMerge_RepeatedFieldsGenerator_tags_def wireTestParsingMerge_RepeatedFieldsGenerator valid_tag_def)
  show "list_all2 (\<lambda>t g. \<forall>f \<in> set g. fst f = t \<and> wf_val (snd f)) TestParsingMerge_RepeatedFieldsGenerator_tags (TestParsingMerge_RepeatedFieldsGenerator_groups s)" for s
    unfolding TestParsingMerge_RepeatedFieldsGenerator_tags_def TestParsingMerge_RepeatedFieldsGenerator_groups_def by (intro list.rel_intros field_tagged m_TestAllTypes.tagged_struct)
  show "list_all2 (\<lambda>e g. e = int (length (fields_bytes g))) (TestParsingMerge_RepeatedFieldsGenerator_sizes s) (TestParsingMerge_RepeatedFieldsGenerator_groups s)" for s
    unfolding TestParsingMerge_RepeatedFieldsGenerator_sizes_def TestParsingMerge_RepeatedFieldsGenerator_groups_def append.simps
    by (intro list.rel_intros field_sized m_TestAllTypes.sized_struct)
  show "list_all2 (\<lambda>st g. writes st (fields_bytes g)) (TestParsingMerge_RepeatedFieldsGenerator_appends s) (TestParsingMerge_RepeatedFieldsGenerator_groups s)" for s
    unfolding TestParsingMerge_RepeatedFieldsGenerator_appends_def TestParsingMerge_RepeatedFieldsGenerator_groups_def append.simps
    by (intro list.rel_intros field_written m_TestAllTypes.written_struct)
  show "mbuf (TestParsingMerge_RepeatedFieldsGeneratorReader_save t w off m) = mbuf m" for t w off m
    unfolding TestParsingMerge_RepeatedFieldsGeneratorReader_save_def by (rule tag_switch_keeps) (simp add: TestParsingMerge_RepeatedFieldsGeneratorReader_cases_def)
  show "fold (\<lambda>e. e) (TestParsingMerge_RepeatedFieldsGenerator_stored s) TestParsingMerge_RepeatedFieldsGenerator_zero = TestParsingMerge_RepeatedFieldsGenerator_norm s" for s
    unfolding TestParsingMerge_RepeatedFieldsGenerator_stored_def by (simp add: TestParsingMerge_RepeatedFieldsGenerator_zero_def TestParsingMerge_RepeatedFieldsGenerator_norm_def float_defaults)
qed (simp_all add: TestParsingMerge_RepeatedFieldsGenerator_saved TestParsingMerge_RepeatedFieldsGenerator_converted)

interpretation m_TestParsingMerge_RepeatedFieldsGenerator: message_codec TestParsingMerge_RepeatedFieldsGenerator_content TestParsingMerge_RepeatedFieldsGenerator_norm TestParsingMerge_RepeatedFieldsGenerator_XXX_PbContentSize TestParsingMerge_RepeatedFieldsGenerator_MarshalTo
  "TestParsingMerge_RepeatedFieldsGeneratorReader_Unmarshal NewTestParsingMerge_RepeatedFieldsGeneratorReader" TestParsingMerge_RepeatedFieldsGeneratorReader_ToStruct
  using l_TestParsingMerge_RepeatedFieldsGenerator.message
  by (simp only: TestParsingMerge_RepeatedFieldsGenerator_content_def [abs_def] TestParsingMerge_RepeatedFieldsGenerator_XXX_PbContentSize_def TestParsingMerge_RepeatedFieldsGenerator_MarshalTo_def TestParsingMerge_RepeatedFieldsGeneratorReader_Unmarshal_def [abs_def] TestParsingMerge_RepeatedFieldsGeneratorReader_ToStruct_def)


section \<open>TestParsingMerge_TestParsingMerge: the reader\<close>

definition wireTestParsingMerge_TestParsingMerge_OptionalExt :: ProtoWireNumber where "wireTestParsingMerge_TestParsingMerge_OptionalExt = 1000"
definition wireTestParsingMerge_TestParsingMerge_RepeatedExt :: ProtoWireNumber where "wireTestParsingMerge_TestParsingMerge_RepeatedExt = 1001"
definition wireTestParsingMerge_TestParsingMerge_RequiredAllTypes :: ProtoWireNumber where "wireTestParsingMerge_TestParsingMerge_RequiredAllTypes = 1"
definition wireTestParsingMerge_TestParsingMerge_OptionalAllTypes :: ProtoWireNumber where "wireTestParsingMerge_TestParsingMerge_OptionalAllTypes = 2"
definition wireTestParsingMerge_TestParsingMerge_RepeatedAllTypes :: ProtoWireNumber where "wireTestParsingMerge_TestParsingMerge_RepeatedAllTypes = 3"

lemmas wireTestParsingMerge_TestParsingMerge =
  wireTestParsingMerge_TestParsingMerge_OptionalExt_def
  wireTestParsingMerge_TestParsingMerge_RepeatedExt_def
  wireTestParsingMerge_TestParsingMerge_RequiredAllTypes_def
  wireTestParsingMerge_TestParsingMerge_OptionalAllTypes_def
  wireTestParsingMerge_TestParsingMerge_RepeatedAllTypes_def

record TestParsingMerge_TestParsingMergeReader =
  mbuf :: "Reader option"
  cellOptionalExt :: "(TestAllTypesReader option) one_cell"
  cellRepeatedExt :: "(TestAllTypesReader option) list_cell"
  cellRequiredAllTypes :: "(TestAllTypesReader option) one_cell"
  cellOptionalAllTypes :: "(TestAllTypesReader option) one_cell"
  cellRepeatedAllTypes :: "(TestAllTypesReader option) list_cell"

definition NewTestParsingMerge_TestParsingMergeReader :: TestParsingMerge_TestParsingMergeReader where
  "NewTestParsingMerge_TestParsingMergeReader = \<lparr>
     mbuf = None, cellOptionalExt = newCell None 0, cellRepeatedExt = newCell [] [],
     cellRequiredAllTypes = newCell None 0, cellOptionalAllTypes = newCell None 0,
     cellRepeatedAllTypes = newCell [] []\<rparr>"

definition TestParsingMerge_TestParsingMergeReader_readOptionalExt :: "TestParsingMerge_TestParsingMergeReader \<Rightarrow> (TestAllTypesReader option \<times> TestParsingMerge_TestParsingMergeReader) run" where
  "TestParsingMerge_TestParsingMergeReader_readOptionalExt = readCell cellOptionalExt cellOptionalExt_update mbuf (structReader (TestAllTypesReader_Unmarshal NewTestAllTypesReader))"

definition TestParsingMerge_TestParsingMergeReader_GetOptionalExt :: "TestParsingMerge_TestParsingMergeReader option \<Rightarrow> (TestAllTypesReader option \<times> TestParsingMerge_TestParsingMergeReader option) run" where
  "TestParsingMerge_TestParsingMergeReader_GetOptionalExt = getter TestParsingMerge_TestParsingMergeReader_readOptionalExt None"

definition TestParsingMerge_TestParsingMergeReader_readRepeatedExt :: "TestParsingMerge_TestParsingMergeReader \<Rightarrow> ((TestAllTypesReader option) list \<times> TestParsingMerge_TestParsingMergeReader) run" where
  "TestParsingMerge_TestParsingMergeReader_readRepeatedExt = readCell cellRepeatedExt cellRepeatedExt_update mbuf (readStructs (TestAllTypesReader_Unmarshal NewTestAllTypesReader))"

definition TestParsingMerge_TestParsingMergeReader_GetRepeatedExt :: "TestParsingMerge_TestParsingMergeReader option \<Rightarrow> ((TestAllTypesReader option) list \<times> TestParsingMerge_TestParsingMergeReader option) run" where
  "TestParsingMerge_TestParsingMergeReader_GetRepeatedExt = getter TestParsingMerge_TestParsingMergeReader_readRepeatedExt []"

definition TestParsingMerge_TestParsingMergeReader_readRequiredAllTypes :: "TestParsingMerge_TestParsingMergeReader \<Rightarrow> (TestAllTypesReader option \<times> TestParsingMerge_TestParsingMergeReader) run" where
  "TestParsingMerge_TestParsingMergeReader_readRequiredAllTypes = readCell cellRequiredAllTypes cellRequiredAllTypes_update mbuf (structReader (TestAllTypesReader_Unmarshal NewTestAllTypesReader))"

definition TestParsingMerge_TestParsingMergeReader_GetRequiredAllTypes :: "TestParsingMerge_TestParsingMergeReader option \<Rightarrow> (TestAllTypesReader option \<times> TestParsingMerge_TestParsingMergeReader option) run" where
  "TestParsingMerge_TestParsingMergeReader_GetRequiredAllTypes = getter TestParsingMerge_TestParsingMergeReader_readRequiredAllTypes None"

definition TestParsingMerge_TestParsingMergeReader_readOptionalAllTypes :: "TestParsingMerge_TestParsingMergeReader \<Rightarrow> (TestAllTypesReader option \<times> TestParsingMerge_TestParsingMergeReader) run" where
  "TestParsingMerge_TestParsingMergeReader_readOptionalAllTypes = readCell cellOptionalAllTypes cellOptionalAllTypes_update mbuf (structReader (TestAllTypesReader_Unmarshal NewTestAllTypesReader))"

definition TestParsingMerge_TestParsingMergeReader_GetOptionalAllTypes :: "TestParsingMerge_TestParsingMergeReader option \<Rightarrow> (TestAllTypesReader option \<times> TestParsingMerge_TestParsingMergeReader option) run" where
  "TestParsingMerge_TestParsingMergeReader_GetOptionalAllTypes = getter TestParsingMerge_TestParsingMergeReader_readOptionalAllTypes None"

definition TestParsingMerge_TestParsingMergeReader_readRepeatedAllTypes :: "TestParsingMerge_TestParsingMergeReader \<Rightarrow> ((TestAllTypesReader option) list \<times> TestParsingMerge_TestParsingMergeReader) run" where
  "TestParsingMerge_TestParsingMergeReader_readRepeatedAllTypes = readCell cellRepeatedAllTypes cellRepeatedAllTypes_update mbuf (readStructs (TestAllTypesReader_Unmarshal NewTestAllTypesReader))"

definition TestParsingMerge_TestParsingMergeReader_GetRepeatedAllTypes :: "TestParsingMerge_TestParsingMergeReader option \<Rightarrow> ((TestAllTypesReader option) list \<times> TestParsingMerge_TestParsingMergeReader option) run" where
  "TestParsingMerge_TestParsingMergeReader_GetRepeatedAllTypes = getter TestParsingMerge_TestParsingMergeReader_readRepeatedAllTypes []"

lemmas TestParsingMerge_TestParsingMerge_getters =
  TestParsingMerge_TestParsingMergeReader_readOptionalExt_def TestParsingMerge_TestParsingMergeReader_GetOptionalExt_def
  TestParsingMerge_TestParsingMergeReader_readRepeatedExt_def TestParsingMerge_TestParsingMergeReader_GetRepeatedExt_def
  TestParsingMerge_TestParsingMergeReader_readRequiredAllTypes_def TestParsingMerge_TestParsingMergeReader_GetRequiredAllTypes_def
  TestParsingMerge_TestParsingMergeReader_readOptionalAllTypes_def TestParsingMerge_TestParsingMergeReader_GetOptionalAllTypes_def
  TestParsingMerge_TestParsingMergeReader_readRepeatedAllTypes_def TestParsingMerge_TestParsingMergeReader_GetRepeatedAllTypes_def

definition TestParsingMerge_TestParsingMergeReader_cases :: "ProtoWireType \<Rightarrow> int \<Rightarrow> (ProtoWireNumber \<times> (TestParsingMerge_TestParsingMergeReader \<Rightarrow> TestParsingMerge_TestParsingMergeReader)) list" where
  "TestParsingMerge_TestParsingMergeReader_cases wire offset = [
     (wireTestParsingMerge_TestParsingMerge_OptionalExt, \<lambda>m. m\<lparr>cellOptionalExt := onOffset (setOffset wire offset) (cellOptionalExt m)\<rparr>),
     (wireTestParsingMerge_TestParsingMerge_RepeatedExt, \<lambda>m. m\<lparr>cellRepeatedExt := onOffset (addOffset wire offset) (cellRepeatedExt m)\<rparr>),
     (wireTestParsingMerge_TestParsingMerge_RequiredAllTypes, \<lambda>m. m\<lparr>cellRequiredAllTypes := onOffset (setOffset wire offset) (cellRequiredAllTypes m)\<rparr>),
     (wireTestParsingMerge_TestParsingMerge_OptionalAllTypes, \<lambda>m. m\<lparr>cellOptionalAllTypes := onOffset (setOffset wire offset) (cellOptionalAllTypes m)\<rparr>),
     (wireTestParsingMerge_TestParsingMerge_RepeatedAllTypes, \<lambda>m. m\<lparr>cellRepeatedAllTypes := onOffset (addOffset wire offset) (cellRepeatedAllTypes m)\<rparr>)]"

definition TestParsingMerge_TestParsingMergeReader_save :: "ProtoWireNumber \<Rightarrow> ProtoWireType \<Rightarrow> int \<Rightarrow> TestParsingMerge_TestParsingMergeReader \<Rightarrow> TestParsingMerge_TestParsingMergeReader" where
  "TestParsingMerge_TestParsingMergeReader_save tag wire offset = tag_switch (TestParsingMerge_TestParsingMergeReader_cases wire offset) tag"

definition TestParsingMerge_TestParsingMergeReader_Unmarshal :: "TestParsingMerge_TestParsingMergeReader \<Rightarrow> gslice \<Rightarrow> (TestParsingMerge_TestParsingMergeReader \<times> string option) run" where
  "TestParsingMerge_TestParsingMergeReader_Unmarshal m data =
     unmarshalLoop TestParsingMerge_TestParsingMergeReader_save (NewReader data) 0 (m\<lparr>mbuf := Some (NewReader data)\<rparr>)"

definition TestParsingMerge_TestParsingMergeReader_SourceBytes :: "TestParsingMerge_TestParsingMergeReader option \<Rightarrow> gslice" where
  "TestParsingMerge_TestParsingMergeReader_SourceBytes s = (case s of None \<Rightarrow> nil_slice | Some r \<Rightarrow> Bytes (mbuf r))"

section \<open>TestParsingMerge_TestParsingMerge: the struct\<close>

record TestParsingMerge_TestParsingMerge =
  OptionalExt :: "TestAllTypes option"
  RepeatedExt :: "(TestAllTypes option) list"
  RequiredAllTypes :: "TestAllTypes option"
  OptionalAllTypes :: "TestAllTypes option"
  RepeatedAllTypes :: "(TestAllTypes option) list"

definition TestParsingMerge_TestParsingMerge_zero :: TestParsingMerge_TestParsingMerge where
  "TestParsingMerge_TestParsingMerge_zero = \<lparr>
     OptionalExt = None, RepeatedExt = [], RequiredAllTypes = None, OptionalAllTypes = None,
     RepeatedAllTypes = []\<rparr>"

definition TestParsingMerge_TestParsingMerge_stmts :: "(TestParsingMerge_TestParsingMerge \<times> TestParsingMerge_TestParsingMergeReader option \<Rightarrow> (TestParsingMerge_TestParsingMerge \<times> TestParsingMerge_TestParsingMergeReader option) run) list" where
  "TestParsingMerge_TestParsingMerge_stmts = [
     assignStruct TestParsingMerge_TestParsingMergeReader_GetOptionalExt (structToStruct TestAllTypesReader_ToStruct) cellOptionalExt_update
       (\<lambda>v res. res\<lparr>OptionalExt := v\<rparr>),
     assignStruct TestParsingMerge_TestParsingMergeReader_GetRepeatedExt (repeatedToStruct TestAllTypesReader_ToStruct) cellRepeatedExt_update
       (\<lambda>v res. res\<lparr>RepeatedExt := v\<rparr>),
     assignStruct TestParsingMerge_TestParsingMergeReader_GetRequiredAllTypes (structToStruct TestAllTypesReader_ToStruct) cellRequiredAllTypes_update
       (\<lambda>v res. res\<lparr>RequiredAllTypes := v\<rparr>),
     assignStruct TestParsingMerge_TestParsingMergeReader_GetOptionalAllTypes (structToStruct TestAllTypesReader_ToStruct) cellOptionalAllTypes_update
       (\<lambda>v res. res\<lparr>OptionalAllTypes := v\<rparr>),
     assignStruct TestParsingMerge_TestParsingMergeReader_GetRepeatedAllTypes (repeatedToStruct TestAllTypesReader_ToStruct) cellRepeatedAllTypes_update
       (\<lambda>v res. res\<lparr>RepeatedAllTypes := v\<rparr>)]"

definition TestParsingMerge_TestParsingMergeReader_ToStruct :: "TestParsingMerge_TestParsingMergeReader option \<Rightarrow> (TestParsingMerge_TestParsingMerge option \<times> TestParsingMerge_TestParsingMergeReader option) run" where
  "TestParsingMerge_TestParsingMergeReader_ToStruct = toStructWith (TestParsingMerge_TestParsingMerge_stmts) TestParsingMerge_TestParsingMerge_zero"

definition TestParsingMerge_TestParsingMerge_appends :: "TestParsingMerge_TestParsingMerge \<Rightarrow> (Writer \<Rightarrow> Writer go) list" where
  "TestParsingMerge_TestParsingMerge_appends s = [
     \<lambda>res. if OptionalExt s \<noteq> None then structWriter TestAllTypes_XXX_PbContentSize TestAllTypes_MarshalTo res wireTestParsingMerge_TestParsingMerge_OptionalExt (OptionalExt s) else Ret res,
     \<lambda>res. if RepeatedExt s \<noteq> [] then repeatedWriter (structWriter TestAllTypes_XXX_PbContentSize TestAllTypes_MarshalTo) res wireTestParsingMerge_TestParsingMerge_RepeatedExt (RepeatedExt s) else Ret res,
     \<lambda>res. if True then structWriter TestAllTypes_XXX_PbContentSize TestAllTypes_MarshalTo res wireTestParsingMerge_TestParsingMerge_RequiredAllTypes (RequiredAllTypes s) else Ret res,
     \<lambda>res. if OptionalAllTypes s \<noteq> None then structWriter TestAllTypes_XXX_PbContentSize TestAllTypes_MarshalTo res wireTestParsingMerge_TestParsingMerge_OptionalAllTypes (OptionalAllTypes s) else Ret res,
     \<lambda>res. if RepeatedAllTypes s \<noteq> [] then repeatedWriter (structWriter TestAllTypes_XXX_PbContentSize TestAllTypes_MarshalTo) res wireTestParsingMerge_TestParsingMerge_RepeatedAllTypes (RepeatedAllTypes s) else Ret res]"

definition TestParsingMerge_TestParsingMerge_MarshalTo :: "Writer \<Rightarrow> TestParsingMerge_TestParsingMerge option \<Rightarrow> Writer go" where
  "TestParsingMerge_TestParsingMerge_MarshalTo = marshalToWith (\<lambda>s. TestParsingMerge_TestParsingMerge_appends s)"

definition TestParsingMerge_TestParsingMerge_sizes :: "TestParsingMerge_TestParsingMerge \<Rightarrow> int list" where
  "TestParsingMerge_TestParsingMerge_sizes s = [
     if OptionalExt s \<noteq> None then sizeDelimitedWithTag TestAllTypes_XXX_PbContentSize wireTestParsingMerge_TestParsingMerge_OptionalExt (OptionalExt s) else 0,
     if RepeatedExt s \<noteq> [] then repeatedSize (sizeDelimitedWithTag TestAllTypes_XXX_PbContentSize wireTestParsingMerge_TestParsingMerge_RepeatedExt) (RepeatedExt s) else 0,
     if True then sizeDelimitedWithTag TestAllTypes_XXX_PbContentSize wireTestParsingMerge_TestParsingMerge_RequiredAllTypes (RequiredAllTypes s) else 0,
     if OptionalAllTypes s \<noteq> None then sizeDelimitedWithTag TestAllTypes_XXX_PbContentSize wireTestParsingMerge_TestParsingMerge_OptionalAllTypes (OptionalAllTypes s) else 0,
     if RepeatedAllTypes s \<noteq> [] then repeatedSize (sizeDelimitedWithTag TestAllTypes_XXX_PbContentSize wireTestParsingMerge_TestParsingMerge_RepeatedAllTypes) (RepeatedAllTypes s) else 0]"

definition TestParsingMerge_TestParsingMerge_XXX_PbContentSize :: "TestParsingMerge_TestParsingMerge option \<Rightarrow> int" where
  "TestParsingMerge_TestParsingMerge_XXX_PbContentSize = contentSizeWith (\<lambda>s. TestParsingMerge_TestParsingMerge_sizes s)"

definition TestParsingMerge_TestParsingMerge_Marshal :: "TestParsingMerge_TestParsingMerge option \<Rightarrow> byte list go" where
  "TestParsingMerge_TestParsingMerge_Marshal = marshalWith TestParsingMerge_TestParsingMerge_XXX_PbContentSize TestParsingMerge_TestParsingMerge_MarshalTo"

definition TestParsingMerge_TestParsingMerge_Copy :: "TestParsingMerge_TestParsingMerge option \<Rightarrow> TestParsingMerge_TestParsingMerge option" where
  "TestParsingMerge_TestParsingMerge_Copy s =
     (case s of None \<Rightarrow> None | Some s \<Rightarrow> Some \<lparr>
        OptionalExt = (case OptionalExt s of None \<Rightarrow> None | Some x \<Rightarrow> TestAllTypes_Copy (Some x)),
        RepeatedExt = map (\<lambda>e. case e of None \<Rightarrow> None | Some x \<Rightarrow> TestAllTypes_Copy (Some x)) (RepeatedExt s),
        RequiredAllTypes = (case RequiredAllTypes s of None \<Rightarrow> None | Some x \<Rightarrow> TestAllTypes_Copy (Some x)),
        OptionalAllTypes = (case OptionalAllTypes s of None \<Rightarrow> None | Some x \<Rightarrow> TestAllTypes_Copy (Some x)),
        RepeatedAllTypes = map (\<lambda>e. case e of None \<Rightarrow> None | Some x \<Rightarrow> TestAllTypes_Copy (Some x)) (RepeatedAllTypes s)\<rparr>)"

section \<open>TestParsingMerge_TestParsingMerge: the round trip\<close>

definition TestParsingMerge_TestParsingMerge_tags :: "ProtoWireNumber list" where
  "TestParsingMerge_TestParsingMerge_tags = [
     wireTestParsingMerge_TestParsingMerge_OptionalExt,
     wireTestParsingMerge_TestParsingMerge_RepeatedExt,
     wireTestParsingMerge_TestParsingMerge_RequiredAllTypes,
     wireTestParsingMerge_TestParsingMerge_OptionalAllTypes,
     wireTestParsingMerge_TestParsingMerge_RepeatedAllTypes]"

definition TestParsingMerge_TestParsingMerge_groups :: "TestParsingMerge_TestParsingMerge \<Rightarrow> wfield list list" where
  "TestParsingMerge_TestParsingMerge_groups s = [
     opt_field (OptionalExt s \<noteq> None) (wireTestParsingMerge_TestParsingMerge_OptionalExt, WBytes (ptr_bytes TestAllTypes_content (OptionalExt s))),
     bytes_fields wireTestParsingMerge_TestParsingMerge_RepeatedExt (map (ptr_bytes TestAllTypes_content) (RepeatedExt s)),
     opt_field (True) (wireTestParsingMerge_TestParsingMerge_RequiredAllTypes, WBytes (ptr_bytes TestAllTypes_content (RequiredAllTypes s))),
     opt_field (OptionalAllTypes s \<noteq> None) (wireTestParsingMerge_TestParsingMerge_OptionalAllTypes, WBytes (ptr_bytes TestAllTypes_content (OptionalAllTypes s))),
     bytes_fields wireTestParsingMerge_TestParsingMerge_RepeatedAllTypes (map (ptr_bytes TestAllTypes_content) (RepeatedAllTypes s))]"

definition TestParsingMerge_TestParsingMerge_content :: "TestParsingMerge_TestParsingMerge \<Rightarrow> wfield list" where
  "TestParsingMerge_TestParsingMerge_content s = concat (TestParsingMerge_TestParsingMerge_groups s)"

text \<open>What a round trip keeps.\<close>

definition TestParsingMerge_TestParsingMerge_norm :: "TestParsingMerge_TestParsingMerge \<Rightarrow> TestParsingMerge_TestParsingMerge" where
  "TestParsingMerge_TestParsingMerge_norm s = s\<lparr>
     OptionalExt := norm_ptr TestAllTypes_content TestAllTypes_norm (OptionalExt s),
     RepeatedExt := map (norm_ptr TestAllTypes_content TestAllTypes_norm) (RepeatedExt s),
     RequiredAllTypes := norm_ptr TestAllTypes_content TestAllTypes_norm (RequiredAllTypes s),
     OptionalAllTypes := norm_ptr TestAllTypes_content TestAllTypes_norm (OptionalAllTypes s),
     RepeatedAllTypes := map (norm_ptr TestAllTypes_content TestAllTypes_norm) (RepeatedAllTypes s)\<rparr>"

definition TestParsingMerge_TestParsingMerge_ready :: "Reader \<Rightarrow> TestParsingMerge_TestParsingMerge \<Rightarrow> (TestParsingMerge_TestParsingMergeReader \<Rightarrow> bool) list" where
  "TestParsingMerge_TestParsingMerge_ready p s = [
     \<lambda>m. cell_reads (structReader (TestAllTypesReader_Unmarshal NewTestAllTypesReader)) (structToStruct TestAllTypesReader_ToStruct) p (norm_ptr TestAllTypes_content TestAllTypes_norm (OptionalExt s)) (cellOptionalExt m),
     \<lambda>m. cell_reads (readStructs (TestAllTypesReader_Unmarshal NewTestAllTypesReader)) (repeatedToStruct TestAllTypesReader_ToStruct) p (map (norm_ptr TestAllTypes_content TestAllTypes_norm) (RepeatedExt s)) (cellRepeatedExt m),
     \<lambda>m. cell_reads (structReader (TestAllTypesReader_Unmarshal NewTestAllTypesReader)) (structToStruct TestAllTypesReader_ToStruct) p (norm_ptr TestAllTypes_content TestAllTypes_norm (RequiredAllTypes s)) (cellRequiredAllTypes m),
     \<lambda>m. cell_reads (structReader (TestAllTypesReader_Unmarshal NewTestAllTypesReader)) (structToStruct TestAllTypesReader_ToStruct) p (norm_ptr TestAllTypes_content TestAllTypes_norm (OptionalAllTypes s)) (cellOptionalAllTypes m),
     \<lambda>m. cell_reads (readStructs (TestAllTypesReader_Unmarshal NewTestAllTypesReader)) (repeatedToStruct TestAllTypesReader_ToStruct) p (map (norm_ptr TestAllTypes_content TestAllTypes_norm) (RepeatedAllTypes s)) (cellRepeatedAllTypes m)]"

definition TestParsingMerge_TestParsingMerge_stored :: "TestParsingMerge_TestParsingMerge \<Rightarrow> (TestParsingMerge_TestParsingMerge \<Rightarrow> TestParsingMerge_TestParsingMerge) list" where
  "TestParsingMerge_TestParsingMerge_stored s = [
     \<lambda>res. res\<lparr>OptionalExt := norm_ptr TestAllTypes_content TestAllTypes_norm (OptionalExt s)\<rparr>,
     \<lambda>res. res\<lparr>RepeatedExt := map (norm_ptr TestAllTypes_content TestAllTypes_norm) (RepeatedExt s)\<rparr>,
     \<lambda>res. res\<lparr>RequiredAllTypes := norm_ptr TestAllTypes_content TestAllTypes_norm (RequiredAllTypes s)\<rparr>,
     \<lambda>res. res\<lparr>OptionalAllTypes := norm_ptr TestAllTypes_content TestAllTypes_norm (OptionalAllTypes s)\<rparr>,
     \<lambda>res. res\<lparr>RepeatedAllTypes := map (norm_ptr TestAllTypes_content TestAllTypes_norm) (RepeatedAllTypes s)\<rparr>]"

lemma TestParsingMerge_TestParsingMerge_cases_distinct: "distinct (map fst (TestParsingMerge_TestParsingMergeReader_cases wire offset))"
  by (simp add: TestParsingMerge_TestParsingMergeReader_cases_def wireTestParsingMerge_TestParsingMerge)

lemma TestParsingMerge_TestParsingMerge_stores:
  "stores_cell TestParsingMerge_TestParsingMergeReader_save wireTestParsingMerge_TestParsingMerge_OptionalExt setOffset cellOptionalExt"
  "stores_cell TestParsingMerge_TestParsingMergeReader_save wireTestParsingMerge_TestParsingMerge_RepeatedExt addOffset cellRepeatedExt"
  "stores_cell TestParsingMerge_TestParsingMergeReader_save wireTestParsingMerge_TestParsingMerge_RequiredAllTypes setOffset cellRequiredAllTypes"
  "stores_cell TestParsingMerge_TestParsingMergeReader_save wireTestParsingMerge_TestParsingMerge_OptionalAllTypes setOffset cellOptionalAllTypes"
  "stores_cell TestParsingMerge_TestParsingMergeReader_save wireTestParsingMerge_TestParsingMerge_RepeatedAllTypes addOffset cellRepeatedAllTypes"
  unfolding TestParsingMerge_TestParsingMergeReader_save_def [abs_def] by (rule stores_cell_switch; (rule TestParsingMerge_TestParsingMerge_cases_distinct)?; unfold TestParsingMerge_TestParsingMergeReader_cases_def; intro own_case.intros; simp)+

lemma TestParsingMerge_TestParsingMerge_saved: "good_fields TestParsingMerge_TestParsingMergeReader_save p (NewTestParsingMerge_TestParsingMergeReader\<lparr>mbuf := Some p\<rparr>) TestParsingMerge_TestParsingMerge_tags (TestParsingMerge_TestParsingMerge_groups s) (TestParsingMerge_TestParsingMerge_ready p s)"
  unfolding TestParsingMerge_TestParsingMerge_tags_def TestParsingMerge_TestParsingMerge_groups_def TestParsingMerge_TestParsingMerge_ready_def
  by (intro good_fields.intros field_saved m_TestAllTypes.saved_struct TestParsingMerge_TestParsingMerge_stores) (simp_all add: NewTestParsingMerge_TestParsingMergeReader_def newCell_def)

lemma TestParsingMerge_TestParsingMerge_converted: "good_stmts mbuf p (TestParsingMerge_TestParsingMerge_stmts) (TestParsingMerge_TestParsingMerge_ready p s) (TestParsingMerge_TestParsingMerge_stored s)"
  unfolding TestParsingMerge_TestParsingMerge_stmts_def TestParsingMerge_TestParsingMerge_ready_def TestParsingMerge_TestParsingMerge_stored_def TestParsingMerge_TestParsingMerge_getters append.simps
  by (intro good_stmts_field good_stmts.Nil) (simp_all cong: cell_reads_cong)

interpretation l_TestParsingMerge_TestParsingMerge: lazy_message TestParsingMerge_TestParsingMerge_tags TestParsingMerge_TestParsingMerge_groups TestParsingMerge_TestParsingMerge_norm
  "\<lambda>s. TestParsingMerge_TestParsingMerge_sizes s" "\<lambda>s. TestParsingMerge_TestParsingMerge_appends s"
  TestParsingMerge_TestParsingMergeReader_save "\<lambda>p. NewTestParsingMerge_TestParsingMergeReader\<lparr>mbuf := Some p\<rparr>" mbuf "TestParsingMerge_TestParsingMerge_stmts" TestParsingMerge_TestParsingMerge_zero TestParsingMerge_TestParsingMerge_ready TestParsingMerge_TestParsingMerge_stored
proof
  show "distinct TestParsingMerge_TestParsingMerge_tags"
    using TestParsingMerge_TestParsingMerge_cases_distinct by (simp only: TestParsingMerge_TestParsingMergeReader_cases_def TestParsingMerge_TestParsingMerge_tags_def list.map fst_conv)
  show "list_all valid_tag TestParsingMerge_TestParsingMerge_tags"
    by (simp add: TestParsingMerge_TestParsingMerge_tags_def wireTestParsingMerge_TestParsingMerge valid_tag_def)
  show "list_all2 (\<lambda>t g. \<forall>f \<in> set g. fst f = t \<and> wf_val (snd f)) TestParsingMerge_TestParsingMerge_tags (TestParsingMerge_TestParsingMerge_groups s)" for s
    unfolding TestParsingMerge_TestParsingMerge_tags_def TestParsingMerge_TestParsingMerge_groups_def by (intro list.rel_intros field_tagged m_TestAllTypes.tagged_struct)
  show "list_all2 (\<lambda>e g. e = int (length (fields_bytes g))) (TestParsingMerge_TestParsingMerge_sizes s) (TestParsingMerge_TestParsingMerge_groups s)" for s
    unfolding TestParsingMerge_TestParsingMerge_sizes_def TestParsingMerge_TestParsingMerge_groups_def append.simps
    by (intro list.rel_intros field_sized m_TestAllTypes.sized_struct)
  show "list_all2 (\<lambda>st g. writes st (fields_bytes g)) (TestParsingMerge_TestParsingMerge_appends s) (TestParsingMerge_TestParsingMerge_groups s)" for s
    unfolding TestParsingMerge_TestParsingMerge_appends_def TestParsingMerge_TestParsingMerge_groups_def append.simps
    by (intro list.rel_intros field_written m_TestAllTypes.written_struct)
  show "mbuf (TestParsingMerge_TestParsingMergeReader_save t w off m) = mbuf m" for t w off m
    unfolding TestParsingMerge_TestParsingMergeReader_save_def by (rule tag_switch_keeps) (simp add: TestParsingMerge_TestParsingMergeReader_cases_def)
  show "fold (\<lambda>e. e) (TestParsingMerge_TestParsingMerge_stored s) TestParsingMerge_TestParsingMerge_zero = TestParsingMerge_TestParsingMerge_norm s" for s
    unfolding TestParsingMerge_TestParsingMerge_stored_def by (simp add: TestParsingMerge_TestParsingMerge_zero_def TestParsingMerge_TestParsingMerge_norm_def float_defaults)
qed (simp_all add: TestParsingMerge_TestParsingMerge_saved TestParsingMerge_TestParsingMerge_converted)

interpretation m_TestParsingMerge_TestParsingMerge: message_codec TestParsingMerge_TestParsingMerge_content TestParsingMerge_TestParsingMerge_norm TestParsingMerge_TestParsingMerge_XXX_PbContentSize TestParsingMerge_TestParsingMerge_MarshalTo
  "TestParsingMerge_TestParsingMergeReader_Unmarshal NewTestParsingMerge_TestParsingMergeReader" TestParsingMerge_TestParsingMergeReader_ToStruct
  using l_TestParsingMerge_TestParsingMerge.message
  by (simp only: TestParsingMerge_TestParsingMerge_content_def [abs_def] TestParsingMerge_TestParsingMerge_XXX_PbContentSize_def TestParsingMerge_TestParsingMerge_MarshalTo_def TestParsingMerge_TestParsingMergeReader_Unmarshal_def [abs_def] TestParsingMerge_TestParsingMergeReader_ToStruct_def)


section \<open>TestReservedFields: the reader\<close>

record TestReservedFieldsReader =
  mbuf :: "Reader option"

definition NewTestReservedFieldsReader :: TestReservedFieldsReader where
  "NewTestReservedFieldsReader = \<lparr>
     mbuf = None\<rparr>"

definition TestReservedFieldsReader_cases :: "ProtoWireType \<Rightarrow> int \<Rightarrow> (ProtoWireNumber \<times> (TestReservedFieldsReader \<Rightarrow> TestReservedFieldsReader)) list" where
  "TestReservedFieldsReader_cases wire offset = []"

definition TestReservedFieldsReader_save :: "ProtoWireNumber \<Rightarrow> ProtoWireType \<Rightarrow> int \<Rightarrow> TestReservedFieldsReader \<Rightarrow> TestReservedFieldsReader" where
  "TestReservedFieldsReader_save tag wire offset = tag_switch (TestReservedFieldsReader_cases wire offset) tag"

definition TestReservedFieldsReader_Unmarshal :: "TestReservedFieldsReader \<Rightarrow> gslice \<Rightarrow> (TestReservedFieldsReader \<times> string option) run" where
  "TestReservedFieldsReader_Unmarshal m data =
     unmarshalLoop TestReservedFieldsReader_save (NewReader data) 0 (m\<lparr>mbuf := Some (NewReader data)\<rparr>)"

definition TestReservedFieldsReader_SourceBytes :: "TestReservedFieldsReader option \<Rightarrow> gslice" where
  "TestReservedFieldsReader_SourceBytes s = (case s of None \<Rightarrow> nil_slice | Some r \<Rightarrow> Bytes (mbuf r))"

section \<open>TestReservedFields: the struct\<close>

type_synonym TestReservedFields = unit

definition TestReservedFields_zero :: TestReservedFields where
  "TestReservedFields_zero = ()"

definition TestReservedFields_stmts :: "(TestReservedFields \<times> TestReservedFieldsReader option \<Rightarrow> (TestReservedFields \<times> TestReservedFieldsReader option) run) list" where
  "TestReservedFields_stmts = []"

definition TestReservedFieldsReader_ToStruct :: "TestReservedFieldsReader option \<Rightarrow> (TestReservedFields option \<times> TestReservedFieldsReader option) run" where
  "TestReservedFieldsReader_ToStruct = toStructWith (TestReservedFields_stmts) TestReservedFields_zero"

definition TestReservedFields_appends :: "TestReservedFields \<Rightarrow> (Writer \<Rightarrow> Writer go) list" where
  "TestReservedFields_appends s = []"

definition TestReservedFields_MarshalTo :: "Writer \<Rightarrow> TestReservedFields option \<Rightarrow> Writer go" where
  "TestReservedFields_MarshalTo = marshalToWith (\<lambda>s. TestReservedFields_appends s)"

definition TestReservedFields_sizes :: "TestReservedFields \<Rightarrow> int list" where
  "TestReservedFields_sizes s = []"

definition TestReservedFields_XXX_PbContentSize :: "TestReservedFields option \<Rightarrow> int" where
  "TestReservedFields_XXX_PbContentSize = contentSizeWith (\<lambda>s. TestReservedFields_sizes s)"

definition TestReservedFields_Marshal :: "TestReservedFields option \<Rightarrow> byte list go" where
  "TestReservedFields_Marshal = marshalWith TestReservedFields_XXX_PbContentSize TestReservedFields_MarshalTo"

definition TestReservedFields_Copy :: "TestReservedFields option \<Rightarrow> TestReservedFields option" where
  "TestReservedFields_Copy s =
     (case s of None \<Rightarrow> None | Some s \<Rightarrow> Some ())"

section \<open>TestReservedFields: the round trip\<close>

definition TestReservedFields_tags :: "ProtoWireNumber list" where
  "TestReservedFields_tags = []"

definition TestReservedFields_groups :: "TestReservedFields \<Rightarrow> wfield list list" where
  "TestReservedFields_groups s = []"

definition TestReservedFields_content :: "TestReservedFields \<Rightarrow> wfield list" where
  "TestReservedFields_content s = concat (TestReservedFields_groups s)"

text \<open>What a round trip keeps.\<close>

definition TestReservedFields_norm :: "TestReservedFields \<Rightarrow> TestReservedFields" where
  "TestReservedFields_norm s = s"

definition TestReservedFields_ready :: "Reader \<Rightarrow> TestReservedFields \<Rightarrow> (TestReservedFieldsReader \<Rightarrow> bool) list" where
  "TestReservedFields_ready p s = []"

definition TestReservedFields_stored :: "TestReservedFields \<Rightarrow> (TestReservedFields \<Rightarrow> TestReservedFields) list" where
  "TestReservedFields_stored s = []"

lemma TestReservedFields_cases_distinct: "distinct (map fst (TestReservedFieldsReader_cases wire offset))"
  by (rule ascending_distinct) (simp add: TestReservedFieldsReader_cases_def )

lemma TestReservedFields_saved: "good_fields TestReservedFieldsReader_save p (NewTestReservedFieldsReader\<lparr>mbuf := Some p\<rparr>) TestReservedFields_tags (TestReservedFields_groups s) (TestReservedFields_ready p s)"
  unfolding TestReservedFields_tags_def TestReservedFields_groups_def TestReservedFields_ready_def
  by (intro good_fields.intros field_saved)

lemma TestReservedFields_converted: "good_stmts mbuf p (TestReservedFields_stmts) (TestReservedFields_ready p s) (TestReservedFields_stored s)"
  unfolding TestReservedFields_stmts_def TestReservedFields_ready_def TestReservedFields_stored_def append.simps
  by (intro good_stmts_field good_stmts.Nil)

interpretation l_TestReservedFields: lazy_message TestReservedFields_tags TestReservedFields_groups TestReservedFields_norm
  "\<lambda>s. TestReservedFields_sizes s" "\<lambda>s. TestReservedFields_appends s"
  TestReservedFieldsReader_save "\<lambda>p. NewTestReservedFieldsReader\<lparr>mbuf := Some p\<rparr>" mbuf "TestReservedFields_stmts" TestReservedFields_zero TestReservedFields_ready TestReservedFields_stored
proof
  show "distinct TestReservedFields_tags"
    using TestReservedFields_cases_distinct by (simp only: TestReservedFieldsReader_cases_def TestReservedFields_tags_def list.map fst_conv)
  show "list_all valid_tag TestReservedFields_tags"
    by (simp add: TestReservedFields_tags_def  valid_tag_def)
  show "list_all2 (\<lambda>t g. \<forall>f \<in> set g. fst f = t \<and> wf_val (snd f)) TestReservedFields_tags (TestReservedFields_groups s)" for s
    unfolding TestReservedFields_tags_def TestReservedFields_groups_def by (intro list.rel_intros field_tagged)
  show "list_all2 (\<lambda>e g. e = int (length (fields_bytes g))) (TestReservedFields_sizes s) (TestReservedFields_groups s)" for s
    unfolding TestReservedFields_sizes_def TestReservedFields_groups_def append.simps
    by (intro list.rel_intros field_sized)
  show "list_all2 (\<lambda>st g. writes st (fields_bytes g)) (TestReservedFields_appends s) (TestReservedFields_groups s)" for s
    unfolding TestReservedFields_appends_def TestReservedFields_groups_def append.simps
    by (intro list.rel_intros field_written)
  show "mbuf (TestReservedFieldsReader_save t w off m) = mbuf m" for t w off m
    unfolding TestReservedFieldsReader_save_def by (rule tag_switch_keeps) (simp add: TestReservedFieldsReader_cases_def)
  show "fold (\<lambda>e. e) (TestReservedFields_stored s) TestReservedFields_zero = TestReservedFields_norm s" for s
    unfolding TestReservedFields_stored_def by (simp add: TestReservedFields_zero_def TestReservedFields_norm_def float_defaults)
qed (simp_all add: TestReservedFields_saved TestReservedFields_converted)

interpretation m_TestReservedFields: message_codec TestReservedFields_content TestReservedFields_norm TestReservedFields_XXX_PbContentSize TestReservedFields_MarshalTo
  "TestReservedFieldsReader_Unmarshal NewTestReservedFieldsReader" TestReservedFieldsReader_ToStruct
  using l_TestReservedFields.message
  by (simp only: TestReservedFields_content_def [abs_def] TestReservedFields_XXX_PbContentSize_def TestReservedFields_MarshalTo_def TestReservedFieldsReader_Unmarshal_def [abs_def] TestReservedFieldsReader_ToStruct_def)


section \<open>TestDeprecatedMessage: the reader\<close>

record TestDeprecatedMessageReader =
  mbuf :: "Reader option"

definition NewTestDeprecatedMessageReader :: TestDeprecatedMessageReader where
  "NewTestDeprecatedMessageReader = \<lparr>
     mbuf = None\<rparr>"

definition TestDeprecatedMessageReader_cases :: "ProtoWireType \<Rightarrow> int \<Rightarrow> (ProtoWireNumber \<times> (TestDeprecatedMessageReader \<Rightarrow> TestDeprecatedMessageReader)) list" where
  "TestDeprecatedMessageReader_cases wire offset = []"

definition TestDeprecatedMessageReader_save :: "ProtoWireNumber \<Rightarrow> ProtoWireType \<Rightarrow> int \<Rightarrow> TestDeprecatedMessageReader \<Rightarrow> TestDeprecatedMessageReader" where
  "TestDeprecatedMessageReader_save tag wire offset = tag_switch (TestDeprecatedMessageReader_cases wire offset) tag"

definition TestDeprecatedMessageReader_Unmarshal :: "TestDeprecatedMessageReader \<Rightarrow> gslice \<Rightarrow> (TestDeprecatedMessageReader \<times> string option) run" where
  "TestDeprecatedMessageReader_Unmarshal m data =
     unmarshalLoop TestDeprecatedMessageReader_save (NewReader data) 0 (m\<lparr>mbuf := Some (NewReader data)\<rparr>)"

definition TestDeprecatedMessageReader_SourceBytes :: "TestDeprecatedMessageReader option \<Rightarrow> gslice" where
  "TestDeprecatedMessageReader_SourceBytes s = (case s of None \<Rightarrow> nil_slice | Some r \<Rightarrow> Bytes (mbuf r))"

section \<open>TestDeprecatedMessage: the struct\<close>

type_synonym TestDeprecatedMessage = unit

definition TestDeprecatedMessage_zero :: TestDeprecatedMessage where
  "TestDeprecatedMessage_zero = ()"

definition TestDeprecatedMessage_stmts :: "(TestDeprecatedMessage \<times> TestDeprecatedMessageReader option \<Rightarrow> (TestDeprecatedMessage \<times> TestDeprecatedMessageReader option) run) list" where
  "TestDeprecatedMessage_stmts = []"

definition TestDeprecatedMessageReader_ToStruct :: "TestDeprecatedMessageReader option \<Rightarrow> (TestDeprecatedMessage option \<times> TestDeprecatedMessageReader option) run" where
  "TestDeprecatedMessageReader_ToStruct = toStructWith (TestDeprecatedMessage_stmts) TestDeprecatedMessage_zero"

definition TestDeprecatedMessage_appends :: "TestDeprecatedMessage \<Rightarrow> (Writer \<Rightarrow> Writer go) list" where
  "TestDeprecatedMessage_appends s = []"

definition TestDeprecatedMessage_MarshalTo :: "Writer \<Rightarrow> TestDeprecatedMessage option \<Rightarrow> Writer go" where
  "TestDeprecatedMessage_MarshalTo = marshalToWith (\<lambda>s. TestDeprecatedMessage_appends s)"

definition TestDeprecatedMessage_sizes :: "TestDeprecatedMessage \<Rightarrow> int list" where
  "TestDeprecatedMessage_sizes s = []"

definition TestDeprecatedMessage_XXX_PbContentSize :: "TestDeprecatedMessage option \<Rightarrow> int" where
  "TestDeprecatedMessage_XXX_PbContentSize = contentSizeWith (\<lambda>s. TestDeprecatedMessage_sizes s)"

definition TestDeprecatedMessage_Marshal :: "TestDeprecatedMessage option \<Rightarrow> byte list go" where
  "TestDeprecatedMessage_Marshal = marshalWith TestDeprecatedMessage_XXX_PbContentSize TestDeprecatedMessage_MarshalTo"

definition TestDeprecatedMessage_Copy :: "TestDeprecatedMessage option \<Rightarrow> TestDeprecatedMessage option" where
  "TestDeprecatedMessage_Copy s =
     (case s of None \<Rightarrow> None | Some s \<Rightarrow> Some ())"

section \<open>TestDeprecatedMessage: the round trip\<close>

definition TestDeprecatedMessage_tags :: "ProtoWireNumber list" where
  "TestDeprecatedMessage_tags = []"

definition TestDeprecatedMessage_groups :: "TestDeprecatedMessage \<Rightarrow> wfield list list" where
  "TestDeprecatedMessage_groups s = []"

definition TestDeprecatedMessage_content :: "TestDeprecatedMessage \<Rightarrow> wfield list" where
  "TestDeprecatedMessage_content s = concat (TestDeprecatedMessage_groups s)"

text \<open>What a round trip keeps.\<close>

definition TestDeprecatedMessage_norm :: "TestDeprecatedMessage \<Rightarrow> TestDeprecatedMessage" where
  "TestDeprecatedMessage_norm s = s"

definition TestDeprecatedMessage_ready :: "Reader \<Rightarrow> TestDeprecatedMessage \<Rightarrow> (TestDeprecatedMessageReader \<Rightarrow> bool) list" where
  "TestDeprecatedMessage_ready p s = []"

definition TestDeprecatedMessage_stored :: "TestDeprecatedMessage \<Rightarrow> (TestDeprecatedMessage \<Rightarrow> TestDeprecatedMessage) list" where
  "TestDeprecatedMessage_stored s = []"

lemma TestDeprecatedMessage_cases_distinct: "distinct (map fst (TestDeprecatedMessageReader_cases wire offset))"
  by (rule ascending_distinct) (simp add: TestDeprecatedMessageReader_cases_def )

lemma TestDeprecatedMessage_saved: "good_fields TestDeprecatedMessageReader_save p (NewTestDeprecatedMessageReader\<lparr>mbuf := Some p\<rparr>) TestDeprecatedMessage_tags (TestDeprecatedMessage_groups s) (TestDeprecatedMessage_ready p s)"
  unfolding TestDeprecatedMessage_tags_def TestDeprecatedMessage_groups_def TestDeprecatedMessage_ready_def
  by (intro good_fields.intros field_saved)

lemma TestDeprecatedMessage_converted: "good_stmts mbuf p (TestDeprecatedMessage_stmts) (TestDeprecatedMessage_ready p s) (TestDeprecatedMessage_stored s)"
  unfolding TestDeprecatedMessage_stmts_def TestDeprecatedMessage_ready_def TestDeprecatedMessage_stored_def append.simps
  by (intro good_stmts_field good_stmts.Nil)

interpretation l_TestDeprecatedMessage: lazy_message TestDeprecatedMessage_tags TestDeprecatedMessage_groups TestDeprecatedMessage_norm
  "\<lambda>s. TestDeprecatedMessage_sizes s" "\<lambda>s. TestDeprecatedMessage_appends s"
  TestDeprecatedMessageReader_save "\<lambda>p. NewTestDeprecatedMessageReader\<lparr>mbuf := Some p\<rparr>" mbuf "TestDeprecatedMessage_stmts" TestDeprecatedMessage_zero TestDeprecatedMessage_ready TestDeprecatedMessage_stored
proof
  show "distinct TestDeprecatedMessage_tags"
    using TestDeprecatedMessage_cases_distinct by (simp only: TestDeprecatedMessageReader_cases_def TestDeprecatedMessage_tags_def list.map fst_conv)
  show "list_all valid_tag TestDeprecatedMessage_tags"
    by (simp add: TestDeprecatedMessage_tags_def  valid_tag_def)
  show "list_all2 (\<lambda>t g. \<forall>f \<in> set g. fst f = t \<and> wf_val (snd f)) TestDeprecatedMessage_tags (TestDeprecatedMessage_groups s)" for s
    unfolding TestDeprecatedMessage_tags_def TestDeprecatedMessage_groups_def by (intro list.rel_intros field_tagged)
  show "list_all2 (\<lambda>e g. e = int (length (fields_bytes g))) (TestDeprecatedMessage_sizes s) (TestDeprecatedMessage_groups s)" for s
    unfolding TestDeprecatedMessage_sizes_def TestDeprecatedMessage_groups_def append.simps
    by (intro list.rel_intros field_sized)
  show "list_all2 (\<lambda>st g. writes st (fields_bytes g)) (TestDeprecatedMessage_appends s) (TestDeprecatedMessage_groups s)" for s
    unfolding TestDeprecatedMessage_appends_def TestDeprecatedMessage_groups_def append.simps
    by (intro list.rel_intros field_written)
  show "mbuf (TestDeprecatedMessageReader_save t w off m) = mbuf m" for t w off m
    unfolding TestDeprecatedMessageReader_save_def by (rule tag_switch_keeps) (simp add: TestDeprecatedMessageReader_cases_def)
  show "fold (\<lambda>e. e) (TestDeprecatedMessage_stored s) TestDeprecatedMessage_zero = TestDeprecatedMessage_norm s" for s
    unfolding TestDeprecatedMessage_stored_def by (simp add: TestDeprecatedMessage_zero_def TestDeprecatedMessage_norm_def float_defaults)
qed (simp_all add: TestDeprecatedMessage_saved TestDeprecatedMessage_converted)

interpretation m_TestDeprecatedMessage: message_codec TestDeprecatedMessage_content TestDeprecatedMessage_norm TestDeprecatedMessage_XXX_PbContentSize TestDeprecatedMessage_MarshalTo
  "TestDeprecatedMessageReader_Unmarshal NewTestDeprecatedMessageReader" TestDeprecatedMessageReader_ToStruct
  using l_TestDeprecatedMessage.message
  by (simp only: TestDeprecatedMessage_content_def [abs_def] TestDeprecatedMessage_XXX_PbContentSize_def TestDeprecatedMessage_MarshalTo_def TestDeprecatedMessageReader_Unmarshal_def [abs_def] TestDeprecatedMessageReader_ToStruct_def)


section \<open>TestEmptyMessage: the reader\<close>

record TestEmptyMessageReader =
  mbuf :: "Reader option"

definition NewTestEmptyMessageReader :: TestEmptyMessageReader where
  "NewTestEmptyMessageReader = \<lparr>
     mbuf = None\<rparr>"

definition TestEmptyMessageReader_cases :: "ProtoWireType \<Rightarrow> int \<Rightarrow> (ProtoWireNumber \<times> (TestEmptyMessageReader \<Rightarrow> TestEmptyMessageReader)) list" where
  "TestEmptyMessageReader_cases wire offset = []"

definition TestEmptyMessageReader_save :: "ProtoWireNumber \<Rightarrow> ProtoWireType \<Rightarrow> int \<Rightarrow> TestEmptyMessageReader \<Rightarrow> TestEmptyMessageReader" where
  "TestEmptyMessageReader_save tag wire offset = tag_switch (TestEmptyMessageReader_cases wire offset) tag"

definition TestEmptyMessageReader_Unmarshal :: "TestEmptyMessageReader \<Rightarrow> gslice \<Rightarrow> (TestEmptyMessageReader \<times> string option) run" where
  "TestEmptyMessageReader_Unmarshal m data =
     unmarshalLoop TestEmptyMessageReader_save (NewReader data) 0 (m\<lparr>mbuf := Some (NewReader data)\<rparr>)"

definition TestEmptyMessageReader_SourceBytes :: "TestEmptyMessageReader option \<Rightarrow> gslice" where
  "TestEmptyMessageReader_SourceBytes s = (case s of None \<Rightarrow> nil_slice | Some r \<Rightarrow> Bytes (mbuf r))"

section \<open>TestEmptyMessage: the struct\<close>

type_synonym TestEmptyMessage = unit

definition TestEmptyMessage_zero :: TestEmptyMessage where
  "TestEmptyMessage_zero = ()"

definition TestEmptyMessage_stmts :: "(TestEmptyMessage \<times> TestEmptyMessageReader option \<Rightarrow> (TestEmptyMessage \<times> TestEmptyMessageReader option) run) list" where
  "TestEmptyMessage_stmts = []"

definition TestEmptyMessageReader_ToStruct :: "TestEmptyMessageReader option \<Rightarrow> (TestEmptyMessage option \<times> TestEmptyMessageReader option) run" where
  "TestEmptyMessageReader_ToStruct = toStructWith (TestEmptyMessage_stmts) TestEmptyMessage_zero"

definition TestEmptyMessage_appends :: "TestEmptyMessage \<Rightarrow> (Writer \<Rightarrow> Writer go) list" where
  "TestEmptyMessage_appends s = []"

definition TestEmptyMessage_MarshalTo :: "Writer \<Rightarrow> TestEmptyMessage option \<Rightarrow> Writer go" where
  "TestEmptyMessage_MarshalTo = marshalToWith (\<lambda>s. TestEmptyMessage_appends s)"

definition TestEmptyMessage_sizes :: "TestEmptyMessage \<Rightarrow> int list" where
  "TestEmptyMessage_sizes s = []"

definition TestEmptyMessage_XXX_PbContentSize :: "TestEmptyMessage option \<Rightarrow> int" where
  "TestEmptyMessage_XXX_PbContentSize = contentSizeWith (\<lambda>s. TestEmptyMessage_sizes s)"

definition TestEmptyMessage_Marshal :: "TestEmptyMessage option \<Rightarrow> byte list go" where
  "TestEmptyMessage_Marshal = marshalWith TestEmptyMessage_XXX_PbContentSize TestEmptyMessage_MarshalTo"

definition TestEmptyMessage_Copy :: "TestEmptyMessage option \<Rightarrow> TestEmptyMessage option" where
  "TestEmptyMessage_Copy s =
     (case s of None \<Rightarrow> None | Some s \<Rightarrow> Some ())"

section \<open>TestEmptyMessage: the round trip\<close>

definition TestEmptyMessage_tags :: "ProtoWireNumber list" where
  "TestEmptyMessage_tags = []"

definition TestEmptyMessage_groups :: "TestEmptyMessage \<Rightarrow> wfield list list" where
  "TestEmptyMessage_groups s = []"

definition TestEmptyMessage_content :: "TestEmptyMessage \<Rightarrow> wfield list" where
  "TestEmptyMessage_content s = concat (TestEmptyMessage_groups s)"

text \<open>What a round trip keeps.\<close>

definition TestEmptyMessage_norm :: "TestEmptyMessage \<Rightarrow> TestEmptyMessage" where
  "TestEmptyMessage_norm s = s"

definition TestEmptyMessage_ready :: "Reader \<Rightarrow> TestEmptyMessage \<Rightarrow> (TestEmptyMessageReader \<Rightarrow> bool) list" where
  "TestEmptyMessage_ready p s = []"

definition TestEmptyMessage_stored :: "TestEmptyMessage \<Rightarrow> (TestEmptyMessage \<Rightarrow> TestEmptyMessage) list" where
  "TestEmptyMessage_stored s = []"

lemma TestEmptyMessage_cases_distinct: "distinct (map fst (TestEmptyMessageReader_cases wire offset))"
  by (rule ascending_distinct) (simp add: TestEmptyMessageReader_cases_def )

lemma TestEmptyMessage_saved: "good_fields TestEmptyMessageReader_save p (NewTestEmptyMessageReader\<lparr>mbuf := Some p\<rparr>) TestEmptyMessage_tags (TestEmptyMessage_groups s) (TestEmptyMessage_ready p s)"
  unfolding TestEmptyMessage_tags_def TestEmptyMessage_groups_def TestEmptyMessage_ready_def
  by (intro good_fields.intros field_saved)

lemma TestEmptyMessage_converted: "good_stmts mbuf p (TestEmptyMessage_stmts) (TestEmptyMessage_ready p s) (TestEmptyMessage_stored s)"
  unfolding TestEmptyMessage_stmts_def TestEmptyMessage_ready_def TestEmptyMessage_stored_def append.simps
  by (intro good_stmts_field good_stmts.Nil)

interpretation l_TestEmptyMessage: lazy_message TestEmptyMessage_tags TestEmptyMessage_groups TestEmptyMessage_norm
  "\<lambda>s. TestEmptyMessage_sizes s" "\<lambda>s. TestEmptyMessage_appends s"
  TestEmptyMessageReader_save "\<lambda>p. NewTestEmptyMessageReader\<lparr>mbuf := Some p\<rparr>" mbuf "TestEmptyMessage_stmts" TestEmptyMessage_zero TestEmptyMessage_ready TestEmptyMessage_stored
proof
  show "distinct TestEmptyMessage_tags"
    using TestEmptyMessage_cases_distinct by (simp only: TestEmptyMessageReader_cases_def TestEmptyMessage_tags_def list.map fst_conv)
  show "list_all valid_tag TestEmptyMessage_tags"
    by (simp add: TestEmptyMessage_tags_def  valid_tag_def)
  show "list_all2 (\<lambda>t g. \<forall>f \<in> set g. fst f = t \<and> wf_val (snd f)) TestEmptyMessage_tags (TestEmptyMessage_groups s)" for s
    unfolding TestEmptyMessage_tags_def TestEmptyMessage_groups_def by (intro list.rel_intros field_tagged)
  show "list_all2 (\<lambda>e g. e = int (length (fields_bytes g))) (TestEmptyMessage_sizes s) (TestEmptyMessage_groups s)" for s
    unfolding TestEmptyMessage_sizes_def TestEmptyMessage_groups_def append.simps
    by (intro list.rel_intros field_sized)
  show "list_all2 (\<lambda>st g. writes st (fields_bytes g)) (TestEmptyMessage_appends s) (TestEmptyMessage_groups s)" for s
    unfolding TestEmptyMessage_appends_def TestEmptyMessage_groups_def append.simps
    by (intro list.rel_intros field_written)
  show "mbuf (TestEmptyMessageReader_save t w off m) = mbuf m" for t w off m
    unfolding TestEmptyMessageReader_save_def by (rule tag_switch_keeps) (simp add: TestEmptyMessageReader_cases_def)
  show "fold (\<lambda>e. e) (TestEmptyMessage_stored s) TestEmptyMessage_zero = TestEmptyMessage_norm s" for s
    unfolding TestEmptyMessage_stored_def by (simp add: TestEmptyMessage_zero_def TestEmptyMessage_norm_def float_defaults)
qed (simp_all add: TestEmptyMessage_saved TestEmptyMessage_converted)

interpretation m_TestEmptyMessage: message_codec TestEmptyMessage_content TestEmptyMessage_norm TestEmptyMessage_XXX_PbContentSize TestEmptyMessage_MarshalTo
  "TestEmptyMessageReader_Unmarshal NewTestEmptyMessageReader" TestEmptyMessageReader_ToStruct
  using l_TestEmptyMessage.message
  by (simp only: TestEmptyMessage_content_def [abs_def] TestEmptyMessage_XXX_PbContentSize_def TestEmptyMessage_MarshalTo_def TestEmptyMessageReader_Unmarshal_def [abs_def] TestEmptyMessageReader_ToStruct_def)


section \<open>TestEmptyMessageWithExtensions: the reader\<close>

record TestEmptyMessageWithExtensionsReader =
  mbuf :: "Reader option"

definition NewTestEmptyMessageWithExtensionsReader :: TestEmptyMessageWithExtensionsReader where
  "NewTestEmptyMessageWithExtensionsReader = \<lparr>
     mbuf = None\<rparr>"

definition TestEmptyMessageWithExtensionsReader_cases :: "ProtoWireType \<Rightarrow> int \<Rightarrow> (ProtoWireNumber \<times> (TestEmptyMessageWithExtensionsReader \<Rightarrow> TestEmptyMessageWithExtensionsReader)) list" where
  "TestEmptyMessageWithExtensionsReader_cases wire offset = []"

definition TestEmptyMessageWithExtensionsReader_save :: "ProtoWireNumber \<Rightarrow> ProtoWireType \<Rightarrow> int \<Rightarrow> TestEmptyMessageWithExtensionsReader \<Rightarrow> TestEmptyMessageWithExtensionsReader" where
  "TestEmptyMessageWithExtensionsReader_save tag wire offset = tag_switch (TestEmptyMessageWithExtensionsReader_cases wire offset) tag"

definition TestEmptyMessageWithExtensionsReader_Unmarshal :: "TestEmptyMessageWithExtensionsReader \<Rightarrow> gslice \<Rightarrow> (TestEmptyMessageWithExtensionsReader \<times> string option) run" where
  "TestEmptyMessageWithExtensionsReader_Unmarshal m data =
     unmarshalLoop TestEmptyMessageWithExtensionsReader_save (NewReader data) 0 (m\<lparr>mbuf := Some (NewReader data)\<rparr>)"

definition TestEmptyMessageWithExtensionsReader_SourceBytes :: "TestEmptyMessageWithExtensionsReader option \<Rightarrow> gslice" where
  "TestEmptyMessageWithExtensionsReader_SourceBytes s = (case s of None \<Rightarrow> nil_slice | Some r \<Rightarrow> Bytes (mbuf r))"

section \<open>TestEmptyMessageWithExtensions: the struct\<close>

type_synonym TestEmptyMessageWithExtensions = unit

definition TestEmptyMessageWithExtensions_zero :: TestEmptyMessageWithExtensions where
  "TestEmptyMessageWithExtensions_zero = ()"

definition TestEmptyMessageWithExtensions_stmts :: "(TestEmptyMessageWithExtensions \<times> TestEmptyMessageWithExtensionsReader option \<Rightarrow> (TestEmptyMessageWithExtensions \<times> TestEmptyMessageWithExtensionsReader option) run) list" where
  "TestEmptyMessageWithExtensions_stmts = []"

definition TestEmptyMessageWithExtensionsReader_ToStruct :: "TestEmptyMessageWithExtensionsReader option \<Rightarrow> (TestEmptyMessageWithExtensions option \<times> TestEmptyMessageWithExtensionsReader option) run" where
  "TestEmptyMessageWithExtensionsReader_ToStruct = toStructWith (TestEmptyMessageWithExtensions_stmts) TestEmptyMessageWithExtensions_zero"

definition TestEmptyMessageWithExtensions_appends :: "TestEmptyMessageWithExtensions \<Rightarrow> (Writer \<Rightarrow> Writer go) list" where
  "TestEmptyMessageWithExtensions_appends s = []"

definition TestEmptyMessageWithExtensions_MarshalTo :: "Writer \<Rightarrow> TestEmptyMessageWithExtensions option \<Rightarrow> Writer go" where
  "TestEmptyMessageWithExtensions_MarshalTo = marshalToWith (\<lambda>s. TestEmptyMessageWithExtensions_appends s)"

definition TestEmptyMessageWithExtensions_sizes :: "TestEmptyMessageWithExtensions \<Rightarrow> int list" where
  "TestEmptyMessageWithExtensions_sizes s = []"

definition TestEmptyMessageWithExtensions_XXX_PbContentSize :: "TestEmptyMessageWithExtensions option \<Rightarrow> int" where
  "TestEmptyMessageWithExtensions_XXX_PbContentSize = contentSizeWith (\<lambda>s. TestEmptyMessageWithExtensions_sizes s)"

definition TestEmptyMessageWithExtensions_Marshal :: "TestEmptyMessageWithExtensions option \<Rightarrow> byte list go" where
  "TestEmptyMessageWithExtensions_Marshal = marshalWith TestEmptyMessageWithExtensions_XXX_PbContentSize TestEmptyMessageWithExtensions_MarshalTo"

definition TestEmptyMessageWithExtensions_Copy :: "TestEmptyMessageWithExtensions option \<Rightarrow> TestEmptyMessageWithExtensions option" where
  "TestEmptyMessageWithExtensions_Copy s =
     (case s of None \<Rightarrow> None | Some s \<Rightarrow> Some ())"

section \<open>TestEmptyMessageWithExtensions: the round trip\<close>

definition TestEmptyMessageWithExtensions_tags :: "ProtoWireNumber list" where
  "TestEmptyMessageWithExtensions_tags = []"

definition TestEmptyMessageWithExtensions_groups :: "TestEmptyMessageWithExtensions \<Rightarrow> wfield list list" where
  "TestEmptyMessageWithExtensions_groups s = []"

definition TestEmptyMessageWithExtensions_content :: "TestEmptyMessageWithExtensions \<Rightarrow> wfield list" where
  "TestEmptyMessageWithExtensions_content s = concat (TestEmptyMessageWithExtensions_groups s)"

text \<open>What a round trip keeps.\<close>

definition TestEmptyMessageWithExtensions_norm :: "TestEmptyMessageWithExtensions \<Rightarrow> TestEmptyMessageWithExtensions" where
  "TestEmptyMessageWithExtensions_norm s = s"

definition TestEmptyMessageWithExtensions_ready :: "Reader \<Rightarrow> TestEmptyMessageWithExtensions \<Rightarrow> (TestEmptyMessageWithExtensionsReader \<Rightarrow> bool) list" where
  "TestEmptyMessageWithExtensions_ready p s = []"

definition TestEmptyMessageWithExtensions_stored :: "TestEmptyMessageWithExtensions \<Rightarrow> (TestEmptyMessageWithExtensions \<Rightarrow> TestEmptyMessageWithExtensions) list" where
  "TestEmptyMessageWithExtensions_stored s = []"

lemma TestEmptyMessageWithExtensions_cases_distinct: "distinct (map fst (TestEmptyMessageWithExtensionsReader_cases wire offset))"
  by (rule ascending_distinct) (simp add: TestEmptyMessageWithExtensionsReader_cases_def )

lemma TestEmptyMessageWithExtensions_saved: "good_fields TestEmptyMessageWithExtensionsReader_save p (NewTestEmptyMessageWithExtensionsReader\<lparr>mbuf := Some p\<rparr>) TestEmptyMessageWithExtensions_tags (TestEmptyMessageWithExtensions_groups s) (TestEmptyMessageWithExtensions_ready p s)"
  unfolding TestEmptyMessageWithExtensions_tags_def TestEmptyMessageWithExtensions_groups_def TestEmptyMessageWithExtensions_ready_def
  by (intro good_fields.intros field_saved)

lemma TestEmptyMessageWithExtensions_converted: "good_stmts mbuf p (TestEmptyMessageWithExtensions_stmts) (TestEmptyMessageWithExtensions_ready p s) (TestEmptyMessageWithExtensions_stored s)"
  unfolding TestEmptyMessageWithExtensions_stmts_def TestEmptyMessageWithExtensions_ready_def TestEmptyMessageWithExtensions_stored_def append.simps
  by (intro good_stmts_field good_stmts.Nil)

interpretation l_TestEmptyMessageWithExtensions: lazy_message TestEmptyMessageWithExtensions_tags TestEmptyMessageWithExtensions_groups TestEmptyMessageWithExtensions_norm
  "\<lambda>s. TestEmptyMessageWithExtensions_sizes s" "\<lambda>s. TestEmptyMessageWithExtensions_appends s"
  TestEmptyMessageWithExtensionsReader_save "\<lambda>p. NewTestEmptyMessageWithExtensionsReader\<lparr>mbuf := Some p\<rparr>" mbuf "TestEmptyMessageWithExtensions_stmts" TestEmptyMessageWithExtensions_zero TestEmptyMessageWithExtensions_ready TestEmptyMessageWithExtensions_stored
proof
  show "distinct TestEmptyMessageWithExtensions_tags"
    using TestEmptyMessageWithExtensions_cases_distinct by (simp only: TestEmptyMessageWithExtensionsReader_cases_def TestEmptyMessageWithExtensions_tags_def list.map fst_conv)
  show "list_all valid_tag TestEmptyMessageWithExtensions_tags"
    by (simp add: TestEmptyMessageWithExtensions_tags_def  valid_tag_def)
  show "list_all2 (\<lambda>t g. \<forall>f \<in> set g. fst f = t \<and> wf_val (snd f)) TestEmptyMessageWithExtensions_tags (TestEmptyMessageWithExtensions_groups s)" for s
    unfolding TestEmptyMessageWithExtensions_tags_def TestEmptyMessageWithExtensions_groups_def by (intro list.rel_intros field_tagged)
  show "list_all2 (\<lambda>e g. e = int (length (fields_bytes g))) (TestEmptyMessageWithExtensions_sizes s) (TestEmptyMessageWithExtensions_groups s)" for s
    unfolding TestEmptyMessageWithExtensions_sizes_def TestEmptyMessageWithExtensions_groups_def append.simps
    by (intro list.rel_intros field_sized)
  show "list_all2 (\<lambda>st g. writes st (fields_bytes g)) (TestEmptyMessageWithExtensions_appends s) (TestEmptyMessageWithExtensions_groups s)" for s
    unfolding TestEmptyMessageWithExtensions_appends_def TestEmptyMessageWithExtensions_groups_def append.simps
    by (intro list.rel_intros field_written)
  show "mbuf (TestEmptyMessageWithExtensionsReader_save t w off m) = mbuf m" for t w off m
    unfolding TestEmptyMessageWithExtensionsReader_save_def by (rule tag_switch_keeps) (simp add: TestEmptyMessageWithExtensionsReader_cases_def)
  show "fold (\<lambda>e. e) (TestEmptyMessageWithExtensions_stored s) TestEmptyMessageWithExtensions_zero = TestEmptyMessageWithExtensions_norm s" for s
    unfolding TestEmptyMessageWithExtensions_stored_def by (simp add: TestEmptyMessageWithExtensions_zero_def TestEmptyMessageWithExtensions_norm_def float_defaults)
qed (simp_all add: TestEmptyMessageWithExtensions_saved TestEmptyMessageWithExtensions_converted)

interpretation m_TestEmptyMessageWithExtensions: message_codec TestEmptyMessageWithExtensions_content TestEmptyMessageWithExtensions_norm TestEmptyMessageWithExtensions_XXX_PbContentSize TestEmptyMessageWithExtensions_MarshalTo
  "TestEmptyMessageWithExtensionsReader_Unmarshal NewTestEmptyMessageWithExtensionsReader" TestEmptyMessageWithExtensionsReader_ToStruct
  using l_TestEmptyMessageWithExtensions.message
  by (simp only: TestEmptyMessageWithExtensions_content_def [abs_def] TestEmptyMessageWithExtensions_XXX_PbContentSize_def TestEmptyMessageWithExtensions_MarshalTo_def TestEmptyMessageWithExtensionsReader_Unmarshal_def [abs_def] TestEmptyMessageWithExtensionsReader_ToStruct_def)


section \<open>TestMultipleExtensionRanges: the reader\<close>

record TestMultipleExtensionRangesReader =
  mbuf :: "Reader option"

definition NewTestMultipleExtensionRangesReader :: TestMultipleExtensionRangesReader where
  "NewTestMultipleExtensionRangesReader = \<lparr>
     mbuf = None\<rparr>"

definition TestMultipleExtensionRangesReader_cases :: "ProtoWireType \<Rightarrow> int \<Rightarrow> (ProtoWireNumber \<times> (TestMultipleExtensionRangesReader \<Rightarrow> TestMultipleExtensionRangesReader)) list" where
  "TestMultipleExtensionRangesReader_cases wire offset = []"

definition TestMultipleExtensionRangesReader_save :: "ProtoWireNumber \<Rightarrow> ProtoWireType \<Rightarrow> int \<Rightarrow> TestMultipleExtensionRangesReader \<Rightarrow> TestMultipleExtensionRangesReader" where
  "TestMultipleExtensionRangesReader_save tag wire offset = tag_switch (TestMultipleExtensionRangesReader_cases wire offset) tag"

definition TestMultipleExtensionRangesReader_Unmarshal :: "TestMultipleExtensionRangesReader \<Rightarrow> gslice \<Rightarrow> (TestMultipleExtensionRangesReader \<times> string option) run" where
  "TestMultipleExtensionRangesReader_Unmarshal m data =
     unmarshalLoop TestMultipleExtensionRangesReader_save (NewReader data) 0 (m\<lparr>mbuf := Some (NewReader data)\<rparr>)"

definition TestMultipleExtensionRangesReader_SourceBytes :: "TestMultipleExtensionRangesReader option \<Rightarrow> gslice" where
  "TestMultipleExtensionRangesReader_SourceBytes s = (case s of None \<Rightarrow> nil_slice | Some r \<Rightarrow> Bytes (mbuf r))"

section \<open>TestMultipleExtensionRanges: the struct\<close>

type_synonym TestMultipleExtensionRanges = unit

definition TestMultipleExtensionRanges_zero :: TestMultipleExtensionRanges where
  "TestMultipleExtensionRanges_zero = ()"

definition TestMultipleExtensionRanges_stmts :: "(TestMultipleExtensionRanges \<times> TestMultipleExtensionRangesReader option \<Rightarrow> (TestMultipleExtensionRanges \<times> TestMultipleExtensionRangesReader option) run) list" where
  "TestMultipleExtensionRanges_stmts = []"

definition TestMultipleExtensionRangesReader_ToStruct :: "TestMultipleExtensionRangesReader option \<Rightarrow> (TestMultipleExtensionRanges option \<times> TestMultipleExtensionRangesReader option) run" where
  "TestMultipleExtensionRangesReader_ToStruct = toStructWith (TestMultipleExtensionRanges_stmts) TestMultipleExtensionRanges_zero"

definition TestMultipleExtensionRanges_appends :: "TestMultipleExtensionRanges \<Rightarrow> (Writer \<Rightarrow> Writer go) list" where
  "TestMultipleExtensionRanges_appends s = []"

definition TestMultipleExtensionRanges_MarshalTo :: "Writer \<Rightarrow> TestMultipleExtensionRanges option \<Rightarrow> Writer go" where
  "TestMultipleExtensionRanges_MarshalTo = marshalToWith (\<lambda>s. TestMultipleExtensionRanges_appends s)"

definition TestMultipleExtensionRanges_sizes :: "TestMultipleExtensionRanges \<Rightarrow> int list" where
  "TestMultipleExtensionRanges_sizes s = []"

definition TestMultipleExtensionRanges_XXX_PbContentSize :: "TestMultipleExtensionRanges option \<Rightarrow> int" where
  "TestMultipleExtensionRanges_XXX_PbContentSize = contentSizeWith (\<lambda>s. TestMultipleExtensionRanges_sizes s)"

definition TestMultipleExtensionRanges_Marshal :: "TestMultipleExtensionRanges option \<Rightarrow> byte list go" where
  "TestMultipleExtensionRanges_Marshal = marshalWith TestMultipleExtensionRanges_XXX_PbContentSize TestMultipleExtensionRanges_MarshalTo"

definition TestMultipleExtensionRanges_Copy :: "TestMultipleExtensionRanges option \<Rightarrow> TestMultipleExtensionRanges option" where
  "TestMultipleExtensionRanges_Copy s =
     (case s of None \<Rightarrow> None | Some s \<Rightarrow> Some ())"

section \<open>TestMultipleExtensionRanges: the round trip\<close>

definition TestMultipleExtensionRanges_tags :: "ProtoWireNumber list" where
  "TestMultipleExtensionRanges_tags = []"

definition TestMultipleExtensionRanges_groups :: "TestMultipleExtensionRanges \<Rightarrow> wfield list list" where
  "TestMultipleExtensionRanges_groups s = []"

definition TestMultipleExtensionRanges_content :: "TestMultipleExtensionRanges \<Rightarrow> wfield list" where
  "TestMultipleExtensionRanges_content s = concat (TestMultipleExtensionRanges_groups s)"

text \<open>What a round trip keeps.\<close>

definition TestMultipleExtensionRanges_norm :: "TestMultipleExtensionRanges \<Rightarrow> TestMultipleExtensionRanges" where
  "TestMultipleExtensionRanges_norm s = s"

definition TestMultipleExtensionRanges_ready :: "Reader \<Rightarrow> TestMultipleExtensionRanges \<Rightarrow> (TestMultipleExtensionRangesReader \<Rightarrow> bool) list" where
  "TestMultipleExtensionRanges_ready p s = []"

definition TestMultipleExtensionRanges_stored :: "TestMultipleExtensionRanges \<Rightarrow> (TestMultipleExtensionRanges \<Rightarrow> TestMultipleExtensionRanges) list" where
  "TestMultipleExtensionRanges_stored s = []"

lemma TestMultipleExtensionRanges_cases_distinct: "distinct (map fst (TestMultipleExtensionRangesReader_cases wire offset))"
  by (rule ascending_distinct) (simp add: TestMultipleExtensionRangesReader_cases_def )

lemma TestMultipleExtensionRanges_saved: "good_fields TestMultipleExtensionRangesReader_save p (NewTestMultipleExtensionRangesReader\<lparr>mbuf := Some p\<rparr>) TestMultipleExtensionRanges_tags (TestMultipleExtensionRanges_groups s) (TestMultipleExtensionRanges_ready p s)"
  unfolding TestMultipleExtensionRanges_tags_def TestMultipleExtensionRanges_groups_def TestMultipleExtensionRanges_ready_def
  by (intro good_fields.intros field_saved)

lemma TestMultipleExtensionRanges_converted: "good_stmts mbuf p (TestMultipleExtensionRanges_stmts) (TestMultipleExtensionRanges_ready p s) (TestMultipleExtensionRanges_stored s)"
  unfolding TestMultipleExtensionRanges_stmts_def TestMultipleExtensionRanges_ready_def TestMultipleExtensionRanges_stored_def append.simps
  by (intro good_stmts_field good_stmts.Nil)

interpretation l_TestMultipleExtensionRanges: lazy_message TestMultipleExtensionRanges_tags TestMultipleExtensionRanges_groups TestMultipleExtensionRanges_norm
  "\<lambda>s. TestMultipleExtensionRanges_sizes s" "\<lambda>s. TestMultipleExtensionRanges_appends s"
  TestMultipleExtensionRangesReader_save "\<lambda>p. NewTestMultipleExtensionRangesReader\<lparr>mbuf := Some p\<rparr>" mbuf "TestMultipleExtensionRanges_stmts" TestMultipleExtensionRanges_zero TestMultipleExtensionRanges_ready TestMultipleExtensionRanges_stored
proof
  show "distinct TestMultipleExtensionRanges_tags"
    using TestMultipleExtensionRanges_cases_distinct by (simp only: TestMultipleExtensionRangesReader_cases_def TestMultipleExtensionRanges_tags_def list.map fst_conv)
  show "list_all valid_tag TestMultipleExtensionRanges_tags"
    by (simp add: TestMultipleExtensionRanges_tags_def  valid_tag_def)
  show "list_all2 (\<lambda>t g. \<forall>f \<in> set g. fst f = t \<and> wf_val (snd f)) TestMultipleExtensionRanges_tags (TestMultipleExtensionRanges_groups s)" for s
    unfolding TestMultipleExtensionRanges_tags_def TestMultipleExtensionRanges_groups_def by (intro list.rel_intros field_tagged)
  show "list_all2 (\<lambda>e g. e = int (length (fields_bytes g))) (TestMultipleExtensionRanges_sizes s) (TestMultipleExtensionRanges_groups s)" for s
    unfolding TestMultipleExtensionRanges_sizes_def TestMultipleExtensionRanges_groups_def append.simps
    by (intro list.rel_intros field_sized)
  show "list_all2 (\<lambda>st g. writes st (fields_bytes g)) (TestMultipleExtensionRanges_appends s) (TestMultipleExtensionRanges_groups s)" for s
    unfolding TestMultipleExtensionRanges_appends_def TestMultipleExtensionRanges_groups_def append.simps
    by (intro list.rel_intros field_written)
  show "mbuf (TestMultipleExtensionRangesReader_save t w off m) = mbuf m" for t w off m
    unfolding TestMultipleExtensionRangesReader_save_def by (rule tag_switch_keeps) (simp add: TestMultipleExtensionRangesReader_cases_def)
  show "fold (\<lambda>e. e) (TestMultipleExtensionRanges_stored s) TestMultipleExtensionRanges_zero = TestMultipleExtensionRanges_norm s" for s
    unfolding TestMultipleExtensionRanges_stored_def by (simp add: TestMultipleExtensionRanges_zero_def TestMultipleExtensionRanges_norm_def float_defaults)
qed (simp_all add: TestMultipleExtensionRanges_saved TestMultipleExtensionRanges_converted)

interpretation m_TestMultipleExtensionRanges: message_codec TestMultipleExtensionRanges_content TestMultipleExtensionRanges_norm TestMultipleExtensionRanges_XXX_PbContentSize TestMultipleExtensionRanges_MarshalTo
  "TestMultipleExtensionRangesReader_Unmarshal NewTestMultipleExtensionRangesReader" TestMultipleExtensionRangesReader_ToStruct
  using l_TestMultipleExtensionRanges.message
  by (simp only: TestMultipleExtensionRanges_content_def [abs_def] TestMultipleExtensionRanges_XXX_PbContentSize_def TestMultipleExtensionRanges_MarshalTo_def TestMultipleExtensionRangesReader_Unmarshal_def [abs_def] TestMultipleExtensionRangesReader_ToStruct_def)


section \<open>FooRequest: the reader\<close>

record FooRequestReader =
  mbuf :: "Reader option"

definition NewFooRequestReader :: FooRequestReader where
  "NewFooRequestReader = \<lparr>
     mbuf = None\<rparr>"

definition FooRequestReader_cases :: "ProtoWireType \<Rightarrow> int \<Rightarrow> (ProtoWireNumber \<times> (FooRequestReader \<Rightarrow> FooRequestReader)) list" where
  "FooRequestReader_cases wire offset = []"

definition FooRequestReader_save :: "ProtoWireNumber \<Rightarrow> ProtoWireType \<Rightarrow> int \<Rightarrow> FooRequestReader \<Rightarrow> FooRequestReader" where
  "FooRequestReader_save tag wire offset = tag_switch (FooRequestReader_cases wire offset) tag"

definition FooRequestReader_Unmarshal :: "FooRequestReader \<Rightarrow> gslice \<Rightarrow> (FooRequestReader \<times> string option) run" where
  "FooRequestReader_Unmarshal m data =
     unmarshalLoop FooRequestReader_save (NewReader data) 0 (m\<lparr>mbuf := Some (NewReader data)\<rparr>)"

definition FooRequestReader_SourceBytes :: "FooRequestReader option \<Rightarrow> gslice" where
  "FooRequestReader_SourceBytes s = (case s of None \<Rightarrow> nil_slice | Some r \<Rightarrow> Bytes (mbuf r))"

section \<open>FooRequest: the struct\<close>

type_synonym FooRequest = unit

definition FooRequest_zero :: FooRequest where
  "FooRequest_zero = ()"

definition FooRequest_stmts :: "(FooRequest \<times> FooRequestReader option \<Rightarrow> (FooRequest \<times> FooRequestReader option) run) list" where
  "FooRequest_stmts = []"

definition FooRequestReader_ToStruct :: "FooRequestReader option \<Rightarrow> (FooRequest option \<times> FooRequestReader option) run" where
  "FooRequestReader_ToStruct = toStructWith (FooRequest_stmts) FooRequest_zero"

definition FooRequest_appends :: "FooRequest \<Rightarrow> (Writer \<Rightarrow> Writer go) list" where
  "FooRequest_appends s = []"

definition FooRequest_MarshalTo :: "Writer \<Rightarrow> FooRequest option \<Rightarrow> Writer go" where
  "FooRequest_MarshalTo = marshalToWith (\<lambda>s. FooRequest_appends s)"

definition FooRequest_sizes :: "FooRequest \<Rightarrow> int list" where
  "FooRequest_sizes s = []"

definition FooRequest_XXX_PbContentSize :: "FooRequest option \<Rightarrow> int" where
  "FooRequest_XXX_PbContentSize = contentSizeWith (\<lambda>s. FooRequest_sizes s)"

definition FooRequest_Marshal :: "FooRequest option \<Rightarrow> byte list go" where
  "FooRequest_Marshal = marshalWith FooRequest_XXX_PbContentSize FooRequest_MarshalTo"

definition FooRequest_Copy :: "FooRequest option \<Rightarrow> FooRequest option" where
  "FooRequest_Copy s =
     (case s of None \<Rightarrow> None | Some s \<Rightarrow> Some ())"

section \<open>FooRequest: the round trip\<close>

definition FooRequest_tags :: "ProtoWireNumber list" where
  "FooRequest_tags = []"

definition FooRequest_groups :: "FooRequest \<Rightarrow> wfield list list" where
  "FooRequest_groups s = []"

definition FooRequest_content :: "FooRequest \<Rightarrow> wfield list" where
  "FooRequest_content s = concat (FooRequest_groups s)"

text \<open>What a round trip keeps.\<close>

definition FooRequest_norm :: "FooRequest \<Rightarrow> FooRequest" where
  "FooRequest_norm s = s"

definition FooRequest_ready :: "Reader \<Rightarrow> FooRequest \<Rightarrow> (FooRequestReader \<Rightarrow> bool) list" where
  "FooRequest_ready p s = []"

definition FooRequest_stored :: "FooRequest \<Rightarrow> (FooRequest \<Rightarrow> FooRequest) list" where
  "FooRequest_stored s = []"

lemma FooRequest_cases_distinct: "distinct (map fst (FooRequestReader_cases wire offset))"
  by (rule ascending_distinct) (simp add: FooRequestReader_cases_def )

lemma FooRequest_saved: "good_fields FooRequestReader_save p (NewFooRequestReader\<lparr>mbuf := Some p\<rparr>) FooRequest_tags (FooRequest_groups s) (FooRequest_ready p s)"
  unfolding FooRequest_tags_def FooRequest_groups_def FooRequest_ready_def
  by (intro good_fields.intros field_saved)

lemma FooRequest_converted: "good_stmts mbuf p (FooRequest_stmts) (FooRequest_ready p s) (FooRequest_stored s)"
  unfolding FooRequest_stmts_def FooRequest_ready_def FooRequest_stored_def append.simps
  by (intro good_stmts_field good_stmts.Nil)

interpretation l_FooRequest: lazy_message FooRequest_tags FooRequest_groups FooRequest_norm
  "\<lambda>s. FooRequest_sizes s" "\<lambda>s. FooRequest_appends s"
  FooRequestReader_save "\<lambda>p. NewFooRequestReader\<lparr>mbuf := Some p\<rparr>" mbuf "FooRequest_stmts" FooRequest_zero FooRequest_ready FooRequest_stored
proof
  show "distinct FooRequest_tags"
    using FooRequest_cases_distinct by (simp only: FooRequestReader_cases_def FooRequest_tags_def list.map fst_conv)
  show "list_all valid_tag FooRequest_tags"
    by (simp add: FooRequest_tags_def  valid_tag_def)
  show "list_all2 (\<lambda>t g. \<forall>f \<in> set g. fst f = t \<and> wf_val (snd f)) FooRequest_tags (FooRequest_groups s)" for s
    unfolding FooRequest_tags_def FooRequest_groups_def by (intro list.rel_intros field_tagged)
  show "list_all2 (\<lambda>e g. e = int (length (fields_bytes g))) (FooRequest_sizes s) (FooRequest_groups s)" for s
    unfolding FooRequest_sizes_def FooRequest_groups_def append.simps
    by (intro list.rel_intros field_sized)
  show "list_all2 (\<lambda>st g. writes st (fields_bytes g)) (FooRequest_appends s) (FooRequest_groups s)" for s
    unfolding FooRequest_appends_def FooRequest_groups_def append.simps
    by (intro list.rel_intros field_written)
  show "mbuf (FooRequestReader_save t w off m) = mbuf m" for t w off m
    unfolding FooRequestReader_save_def by (rule tag_switch_keeps) (simp add: FooRequestReader_cases_def)
  show "fold (\<lambda>e. e) (FooRequest_stored s) FooRequest_zero = FooRequest_norm s" for s
    unfolding FooRequest_stored_def by (simp add: FooRequest_zero_def FooRequest_norm_def float_defaults)
qed (simp_all add: FooRequest_saved FooRequest_converted)

interpretation m_FooRequest: message_codec FooRequest_content FooRequest_norm FooRequest_XXX_PbContentSize FooRequest_MarshalTo
  "FooRequestReader_Unmarshal NewFooRequestReader" FooRequestReader_ToStruct
  using l_FooRequest.message
  by (simp only: FooRequest_content_def [abs_def] FooRequest_XXX_PbContentSize_def FooRequest_MarshalTo_def FooRequestReader_Unmarshal_def [abs_def] FooRequestReader_ToStruct_def)


section \<open>FooResponse: the reader\<close>

record FooResponseReader =
  mbuf :: "Reader option"

definition NewFooResponseReader :: FooResponseReader where
  "NewFooResponseReader = \<lparr>
     mbuf = None\<rparr>"

definition FooResponseReader_cases :: "ProtoWireType \<Rightarrow> int \<Rightarrow> (ProtoWireNumber \<times> (FooResponseReader \<Rightarrow> FooResponseReader)) list" where
  "FooResponseReader_cases wire offset = []"

definition FooResponseReader_save :: "ProtoWireNumber \<Rightarrow> ProtoWireType \<Rightarrow> int \<Rightarrow> FooResponseReader \<Rightarrow> FooResponseReader" where
  "FooResponseReader_save tag wire offset = tag_switch (FooResponseReader_cases wire offset) tag"

definition FooResponseReader_Unmarshal :: "FooResponseReader \<Rightarrow> gslice \<Rightarrow> (FooResponseReader \<times> string option) run" where
  "FooResponseReader_Unmarshal m data =
     unmarshalLoop FooResponseReader_save (NewReader data) 0 (m\<lparr>mbuf := Some (NewReader data)\<rparr>)"

definition FooResponseReader_SourceBytes :: "FooResponseReader option \<Rightarrow> gslice" where
  "FooResponseReader_SourceBytes s = (case s of None \<Rightarrow> nil_slice | Some r \<Rightarrow> Bytes (mbuf r))"

section \<open>FooResponse: the struct\<close>

type_synonym FooResponse = unit

definition FooResponse_zero :: FooResponse where
  "FooResponse_zero = ()"

definition FooResponse_stmts :: "(FooResponse \<times> FooResponseReader option \<Rightarrow> (FooResponse \<times> FooResponseReader option) run) list" where
  "FooResponse_stmts = []"

definition FooResponseReader_ToStruct :: "FooResponseReader option \<Rightarrow> (FooResponse option \<times> FooResponseReader option) run" where
  "FooResponseReader_ToStruct = toStructWith (FooResponse_stmts) FooResponse_zero"

definition FooResponse_appends :: "FooResponse \<Rightarrow> (Writer \<Rightarrow> Writer go) list" where
  "FooResponse_appends s = []"

definition FooResponse_MarshalTo :: "Writer \<Rightarrow> FooResponse option \<Rightarrow> Writer go" where
  "FooResponse_MarshalTo = marshalToWith (\<lambda>s. FooResponse_appends s)"

definition FooResponse_sizes :: "FooResponse \<Rightarrow> int list" where
  "FooResponse_sizes s = []"

definition FooResponse_XXX_PbContentSize :: "FooResponse option \<Rightarrow> int" where
  "FooResponse_XXX_PbContentSize = contentSizeWith (\<lambda>s. FooResponse_sizes s)"

definition FooResponse_Marshal :: "FooResponse option \<Rightarrow> byte list go" where
  "FooResponse_Marshal = marshalWith FooResponse_XXX_PbContentSize FooResponse_MarshalTo"

definition FooResponse_Copy :: "FooResponse option \<Rightarrow> FooResponse option" where
  "FooResponse_Copy s =
     (case s of None \<Rightarrow> None | Some s \<Rightarrow> Some ())"

section \<open>FooResponse: the round trip\<close>

definition FooResponse_tags :: "ProtoWireNumber list" where
  "FooResponse_tags = []"

definition FooResponse_groups :: "FooResponse \<Rightarrow> wfield list list" where
  "FooResponse_groups s = []"

definition FooResponse_content :: "FooResponse \<Rightarrow> wfield list" where
  "FooResponse_content s = concat (FooResponse_groups s)"

text \<open>What a round trip keeps.\<close>

definition FooResponse_norm :: "FooResponse \<Rightarrow> FooResponse" where
  "FooResponse_norm s = s"

definition FooResponse_ready :: "Reader \<Rightarrow> FooResponse \<Rightarrow> (FooResponseReader \<Rightarrow> bool) list" where
  "FooResponse_ready p s = []"

definition FooResponse_stored :: "FooResponse \<Rightarrow> (FooResponse \<Rightarrow> FooResponse) list" where
  "FooResponse_stored s = []"

lemma FooResponse_cases_distinct: "distinct (map fst (FooResponseReader_cases wire offset))"
  by (rule ascending_distinct) (simp add: FooResponseReader_cases_def )

lemma FooResponse_saved: "good_fields FooResponseReader_save p (NewFooResponseReader\<lparr>mbuf := Some p\<rparr>) FooResponse_tags (FooResponse_groups s) (FooResponse_ready p s)"
  unfolding FooResponse_tags_def FooResponse_groups_def FooResponse_ready_def
  by (intro good_fields.intros field_saved)

lemma FooResponse_converted: "good_stmts mbuf p (FooResponse_stmts) (FooResponse_ready p s) (FooResponse_stored s)"
  unfolding FooResponse_stmts_def FooResponse_ready_def FooResponse_stored_def append.simps
  by (intro good_stmts_field good_stmts.Nil)

interpretation l_FooResponse: lazy_message FooResponse_tags FooResponse_groups FooResponse_norm
  "\<lambda>s. FooResponse_sizes s" "\<lambda>s. FooResponse_appends s"
  FooResponseReader_save "\<lambda>p. NewFooResponseReader\<lparr>mbuf := Some p\<rparr>" mbuf "FooResponse_stmts" FooResponse_zero FooResponse_ready FooResponse_stored
proof
  show "distinct FooResponse_tags"
    using FooResponse_cases_distinct by (simp only: FooResponseReader_cases_def FooResponse_tags_def list.map fst_conv)
  show "list_all valid_tag FooResponse_tags"
    by (simp add: FooResponse_tags_def  valid_tag_def)
  show "list_all2 (\<lambda>t g. \<forall>f \<in> set g. fst f = t \<and> wf_val (snd f)) FooResponse_tags (FooResponse_groups s)" for s
    unfolding FooResponse_tags_def FooResponse_groups_def by (intro list.rel_intros field_tagged)
  show "list_all2 (\<lambda>e g. e = int (length (fields_bytes g))) (FooResponse_sizes s) (FooResponse_groups s)" for s
    unfolding FooResponse_sizes_def FooResponse_groups_def append.simps
    by (intro list.rel_intros field_sized)
  show "list_all2 (\<lambda>st g. writes st (fields_bytes g)) (FooResponse_appends s) (FooResponse_groups s)" for s
    unfolding FooResponse_appends_def FooResponse_groups_def append.simps
    by (intro list.rel_intros field_written)
  show "mbuf (FooResponseReader_save t w off m) = mbuf m" for t w off m
    unfolding FooResponseReader_save_def by (rule tag_switch_keeps) (simp add: FooResponseReader_cases_def)
  show "fold (\<lambda>e. e) (FooResponse_stored s) FooResponse_zero = FooResponse_norm s" for s
    unfolding FooResponse_stored_def by (simp add: FooResponse_zero_def FooResponse_norm_def float_defaults)
qed (simp_all add: FooResponse_saved FooResponse_converted)

interpretation m_FooResponse: message_codec FooResponse_content FooResponse_norm FooResponse_XXX_PbContentSize FooResponse_MarshalTo
  "FooResponseReader_Unmarshal NewFooResponseReader" FooResponseReader_ToStruct
  using l_FooResponse.message
  by (simp only: FooResponse_content_def [abs_def] FooResponse_XXX_PbContentSize_def FooResponse_MarshalTo_def FooResponseReader_Unmarshal_def [abs_def] FooResponseReader_ToStruct_def)


section \<open>FooClientMessage: the reader\<close>

record FooClientMessageReader =
  mbuf :: "Reader option"

definition NewFooClientMessageReader :: FooClientMessageReader where
  "NewFooClientMessageReader = \<lparr>
     mbuf = None\<rparr>"

definition FooClientMessageReader_cases :: "ProtoWireType \<Rightarrow> int \<Rightarrow> (ProtoWireNumber \<times> (FooClientMessageReader \<Rightarrow> FooClientMessageReader)) list" where
  "FooClientMessageReader_cases wire offset = []"

definition FooClientMessageReader_save :: "ProtoWireNumber \<Rightarrow> ProtoWireType \<Rightarrow> int \<Rightarrow> FooClientMessageReader \<Rightarrow> FooClientMessageReader" where
  "FooClientMessageReader_save tag wire offset = tag_switch (FooClientMessageReader_cases wire offset) tag"

definition FooClientMessageReader_Unmarshal :: "FooClientMessageReader \<Rightarrow> gslice \<Rightarrow> (FooClientMessageReader \<times> string option) run" where
  "FooClientMessageReader_Unmarshal m data =
     unmarshalLoop FooClientMessageReader_save (NewReader data) 0 (m\<lparr>mbuf := Some (NewReader data)\<rparr>)"

definition FooClientMessageReader_SourceBytes :: "FooClientMessageReader option \<Rightarrow> gslice" where
  "FooClientMessageReader_SourceBytes s = (case s of None \<Rightarrow> nil_slice | Some r \<Rightarrow> Bytes (mbuf r))"

section \<open>FooClientMessage: the struct\<close>

type_synonym FooClientMessage = unit

definition FooClientMessage_zero :: FooClientMessage where
  "FooClientMessage_zero = ()"

definition FooClientMessage_stmts :: "(FooClientMessage \<times> FooClientMessageReader option \<Rightarrow> (FooClientMessage \<times> FooClientMessageReader option) run) list" where
  "FooClientMessage_stmts = []"

definition FooClientMessageReader_ToStruct :: "FooClientMessageReader option \<Rightarrow> (FooClientMessage option \<times> FooClientMessageReader option) run" where
  "FooClientMessageReader_ToStruct = toStructWith (FooClientMessage_stmts) FooClientMessage_zero"

definition FooClientMessage_appends :: "FooClientMessage \<Rightarrow> (Writer \<Rightarrow> Writer go) list" where
  "FooClientMessage_appends s = []"

definition FooClientMessage_MarshalTo :: "Writer \<Rightarrow> FooClientMessage option \<Rightarrow> Writer go" where
  "FooClientMessage_MarshalTo = marshalToWith (\<lambda>s. FooClientMessage_appends s)"

definition FooClientMessage_sizes :: "FooClientMessage \<Rightarrow> int list" where
  "FooClientMessage_sizes s = []"

definition FooClientMessage_XXX_PbContentSize :: "FooClientMessage option \<Rightarrow> int" where
  "FooClientMessage_XXX_PbContentSize = contentSizeWith (\<lambda>s. FooClientMessage_sizes s)"

definition FooClientMessage_Marshal :: "FooClientMessage option \<Rightarrow> byte list go" where
  "FooClientMessage_Marshal = marshalWith FooClientMessage_XXX_PbContentSize FooClientMessage_MarshalTo"

definition FooClientMessage_Copy :: "FooClientMessage option \<Rightarrow> FooClientMessage option" where
  "FooClientMessage_Copy s =
     (case s of None \<Rightarrow> None | Some s \<Rightarrow> Some ())"

section \<open>FooClientMessage: the round trip\<close>

definition FooClientMessage_tags :: "ProtoWireNumber list" where
  "FooClientMessage_tags = []"

definition FooClientMessage_groups :: "FooClientMessage \<Rightarrow> wfield list list" where
  "FooClientMessage_groups s = []"

definition FooClientMessage_content :: "FooClientMessage \<Rightarrow> wfield list" where
  "FooClientMessage_content s = concat (FooClientMessage_groups s)"

text \<open>What a round trip keeps.\<close>

definition FooClientMessage_norm :: "FooClientMessage \<Rightarrow> FooClientMessage" where
  "FooClientMessage_norm s = s"

definition FooClientMessage_ready :: "Reader \<Rightarrow> FooClientMessage \<Rightarrow> (FooClientMessageReader \<Rightarrow> bool) list" where
  "FooClientMessage_ready p s = []"

definition FooClientMessage_stored :: "FooClientMessage \<Rightarrow> (FooClientMessage \<Rightarrow> FooClientMessage) list" where
  "FooClientMessage_stored s = []"

lemma FooClientMessage_cases_distinct: "distinct (map fst (FooClientMessageReader_cases wire offset))"
  by (rule ascending_distinct) (simp add: FooClientMessageReader_cases_def )

lemma FooClientMessage_saved: "good_fields FooClientMessageReader_save p (NewFooClientMessageReader\<lparr>mbuf := Some p\<rparr>) FooClientMessage_tags (FooClientMessage_groups s) (FooClientMessage_ready p s)"
  unfolding FooClientMessage_tags_def FooClientMessage_groups_def FooClientMessage_ready_def
  by (intro good_fields.intros field_saved)

lemma FooClientMessage_converted: "good_stmts mbuf p (FooClientMessage_stmts) (FooClientMessage_ready p s) (FooClientMessage_stored s)"
  unfolding FooClientMessage_stmts_def FooClientMessage_ready_def FooClientMessage_stored_def append.simps
  by (intro good_stmts_field good_stmts.Nil)

interpretation l_FooClientMessage: lazy_message FooClientMessage_tags FooClientMessage_groups FooClientMessage_norm
  "\<lambda>s. FooClientMessage_sizes s" "\<lambda>s. FooClientMessage_appends s"
  FooClientMessageReader_save "\<lambda>p. NewFooClientMessageReader\<lparr>mbuf := Some p\<rparr>" mbuf "FooClientMessage_stmts" FooClientMessage_zero FooClientMessage_ready FooClientMessage_stored
proof
  show "distinct FooClientMessage_tags"
    using FooClientMessage_cases_distinct by (simp only: FooClientMessageReader_cases_def FooClientMessage_tags_def list.map fst_conv)
  show "list_all valid_tag FooClientMessage_tags"
    by (simp add: FooClientMessage_tags_def  valid_tag_def)
  show "list_all2 (\<lambda>t g. \<forall>f \<in> set g. fst f = t \<and> wf_val (snd f)) FooClientMessage_tags (FooClientMessage_groups s)" for s
    unfolding FooClientMessage_tags_def FooClientMessage_groups_def by (intro list.rel_intros field_tagged)
  show "list_all2 (\<lambda>e g. e = int (length (fields_bytes g))) (FooClientMessage_sizes s) (FooClientMessage_groups s)" for s
    unfolding FooClientMessage_sizes_def FooClientMessage_groups_def append.simps
    by (intro list.rel_intros field_sized)
  show "list_all2 (\<lambda>st g. writes st (fields_bytes g)) (FooClientMessage_appends s) (FooClientMessage_groups s)" for s
    unfolding FooClientMessage_appends_def FooClientMessage_groups_def append.simps
    by (intro list.rel_intros field_written)
  show "mbuf (FooClientMessageReader_save t w off m) = mbuf m" for t w off m
    unfolding FooClientMessageReader_save_def by (rule tag_switch_keeps) (simp add: FooClientMessageReader_cases_def)
  show "fold (\<lambda>e. e) (FooClientMessage_stored s) FooClientMessage_zero = FooClientMessage_norm s" for s
    unfolding FooClientMessage_stored_def by (simp add: FooClientMessage_zero_def FooClientMessage_norm_def float_defaults)
qed (simp_all add: FooClientMessage_saved FooClientMessage_converted)

interpretation m_FooClientMessage: message_codec FooClientMessage_content FooClientMessage_norm FooClientMessage_XXX_PbContentSize FooClientMessage_MarshalTo
  "FooClientMessageReader_Unmarshal NewFooClientMessageReader" FooClientMessageReader_ToStruct
  using l_FooClientMessage.message
  by (simp only: FooClientMessage_content_def [abs_def] FooClientMessage_XXX_PbContentSize_def FooClientMessage_MarshalTo_def FooClientMessageReader_Unmarshal_def [abs_def] FooClientMessageReader_ToStruct_def)


section \<open>FooServerMessage: the reader\<close>

record FooServerMessageReader =
  mbuf :: "Reader option"

definition NewFooServerMessageReader :: FooServerMessageReader where
  "NewFooServerMessageReader = \<lparr>
     mbuf = None\<rparr>"

definition FooServerMessageReader_cases :: "ProtoWireType \<Rightarrow> int \<Rightarrow> (ProtoWireNumber \<times> (FooServerMessageReader \<Rightarrow> FooServerMessageReader)) list" where
  "FooServerMessageReader_cases wire offset = []"

definition FooServerMessageReader_save :: "ProtoWireNumber \<Rightarrow> ProtoWireType \<Rightarrow> int \<Rightarrow> FooServerMessageReader \<Rightarrow> FooServerMessageReader" where
  "FooServerMessageReader_save tag wire offset = tag_switch (FooServerMessageReader_cases wire offset) tag"

definition FooServerMessageReader_Unmarshal :: "FooServerMessageReader \<Rightarrow> gslice \<Rightarrow> (FooServerMessageReader \<times> string option) run" where
  "FooServerMessageReader_Unmarshal m data =
     unmarshalLoop FooServerMessageReader_save (NewReader data) 0 (m\<lparr>mbuf := Some (NewReader data)\<rparr>)"

definition FooServerMessageReader_SourceBytes :: "FooServerMessageReader option \<Rightarrow> gslice" where
  "FooServerMessageReader_SourceBytes s = (case s of None \<Rightarrow> nil_slice | Some r \<Rightarrow> Bytes (mbuf r))"

section \<open>FooServerMessage: the struct\<close>

type_synonym FooServerMessage = unit

definition FooServerMessage_zero :: FooServerMessage where
  "FooServerMessage_zero = ()"

definition FooServerMessage_stmts :: "(FooServerMessage \<times> FooServerMessageReader option \<Rightarrow> (FooServerMessage \<times> FooServerMessageReader option) run) list" where
  "FooServerMessage_stmts = []"

definition FooServerMessageReader_ToStruct :: "FooServerMessageReader option \<Rightarrow> (FooServerMessage option \<times> FooServerMessageReader option) run" where
  "FooServerMessageReader_ToStruct = toStructWith (FooServerMessage_stmts) FooServerMessage_zero"

definition FooServerMessage_appends :: "FooServerMessage \<Rightarrow> (Writer \<Rightarrow> Writer go) list" where
  "FooServerMessage_appends s = []"

definition FooServerMessage_MarshalTo :: "Writer \<Rightarrow> FooServerMessage option \<Rightarrow> Writer go" where
  "FooServerMessage_MarshalTo = marshalToWith (\<lambda>s. FooServerMessage_appends s)"

definition FooServerMessage_sizes :: "FooServerMessage \<Rightarrow> int list" where
  "FooServerMessage_sizes s = []"

definition FooServerMessage_XXX_PbContentSize :: "FooServerMessage option \<Rightarrow> int" where
  "FooServerMessage_XXX_PbContentSize = contentSizeWith (\<lambda>s. FooServerMessage_sizes s)"

definition FooServerMessage_Marshal :: "FooServerMessage option \<Rightarrow> byte list go" where
  "FooServerMessage_Marshal = marshalWith FooServerMessage_XXX_PbContentSize FooServerMessage_MarshalTo"

definition FooServerMessage_Copy :: "FooServerMessage option \<Rightarrow> FooServerMessage option" where
  "FooServerMessage_Copy s =
     (case s of None \<Rightarrow> None | Some s \<Rightarrow> Some ())"

section \<open>FooServerMessage: the round trip\<close>

definition FooServerMessage_tags :: "ProtoWireNumber list" where
  "FooServerMessage_tags = []"

definition FooServerMessage_groups :: "FooServerMessage \<Rightarrow> wfield list list" where
  "FooServerMessage_groups s = []"

definition FooServerMessage_content :: "FooServerMessage \<Rightarrow> wfield list" where
  "FooServerMessage_content s = concat (FooServerMessage_groups s)"

text \<open>What a round trip keeps.\<close>

definition FooServerMessage_norm :: "FooServerMessage \<Rightarrow> FooServerMessage" where
  "FooServerMessage_norm s = s"

definition FooServerMessage_ready :: "Reader \<Rightarrow> FooServerMessage \<Rightarrow> (FooServerMessageReader \<Rightarrow> bool) list" where
  "FooServerMessage_ready p s = []"

definition FooServerMessage_stored :: "FooServerMessage \<Rightarrow> (FooServerMessage \<Rightarrow> FooServerMessage) list" where
  "FooServerMessage_stored s = []"

lemma FooServerMessage_cases_distinct: "distinct (map fst (FooServerMessageReader_cases wire offset))"
  by (rule ascending_distinct) (simp add: FooServerMessageReader_cases_def )

lemma FooServerMessage_saved: "good_fields FooServerMessageReader_save p (NewFooServerMessageReader\<lparr>mbuf := Some p\<rparr>) FooServerMessage_tags (FooServerMessage_groups s) (FooServerMessage_ready p s)"
  unfolding FooServerMessage_tags_def FooServerMessage_groups_def FooServerMessage_ready_def
  by (intro good_fields.intros field_saved)

lemma FooServerMessage_converted: "good_stmts mbuf p (FooServerMessage_stmts) (FooServerMessage_ready p s) (FooServerMessage_stored s)"
  unfolding FooServerMessage_stmts_def FooServerMessage_ready_def FooServerMessage_stored_def append.simps
  by (intro good_stmts_field good_stmts.Nil)

interpretation l_FooServerMessage: lazy_message FooServerMessage_tags FooServerMessage_groups FooServerMessage_norm
  "\<lambda>s. FooServerMessage_sizes s" "\<lambda>s. FooServerMessage_appends s"
  FooServerMessageReader_save "\<lambda>p. NewFooServerMessageReader\<lparr>mbuf := Some p\<rparr>" mbuf "FooServerMessage_stmts" FooServerMessage_zero FooServerMessage_ready FooServerMessage_stored
proof
  show "distinct FooServerMessage_tags"
    using FooServerMessage_cases_distinct by (simp only: FooServerMessageReader_cases_def FooServerMessage_tags_def list.map fst_conv)
  show "list_all valid_tag FooServerMessage_tags"
    by (simp add: FooServerMessage_tags_def  valid_tag_def)
  show "list_all2 (\<lambda>t g. \<forall>f \<in> set g. fst f = t \<and> wf_val (snd f)) FooServerMessage_tags (FooServerMessage_groups s)" for s
    unfolding FooServerMessage_tags_def FooServerMessage_groups_def by (intro list.rel_intros field_tagged)
  show "list_all2 (\<lambda>e g. e = int (length (fields_bytes g))) (FooServerMessage_sizes s) (FooServerMessage_groups s)" for s
    unfolding FooServerMessage_sizes_def FooServerMessage_groups_def append.simps
    by (intro list.rel_intros field_sized)
  show "list_all2 (\<lambda>st g. writes st (fields_bytes g)) (FooServerMessage_appends s) (FooServerMessage_groups s)" for s
    unfolding FooServerMessage_appends_def FooServerMessage_groups_def append.simps
    by (intro list.rel_intros field_written)
  show "mbuf (FooServerMessageReader_save t w off m) = mbuf m" for t w off m
    unfolding FooServerMessageReader_save_def by (rule tag_switch_keeps) (simp add: FooServerMessageReader_cases_def)
  show "fold (\<lambda>e. e) (FooServerMessage_stored s) FooServerMessage_zero = FooServerMessage_norm s" for s
    unfolding FooServerMessage_stored_def by (simp add: FooServerMessage_zero_def FooServerMessage_norm_def float_defaults)
qed (simp_all add: FooServerMessage_saved FooServerMessage_converted)

interpretation m_FooServerMessage: message_codec FooServerMessage_content FooServerMessage_norm FooServerMessage_XXX_PbContentSize FooServerMessage_MarshalTo
  "FooServerMessageReader_Unmarshal NewFooServerMessageReader" FooServerMessageReader_ToStruct
  using l_FooServerMessage.message
  by (simp only: FooServerMessage_content_def [abs_def] FooServerMessage_XXX_PbContentSize_def FooServerMessage_MarshalTo_def FooServerMessageReader_Unmarshal_def [abs_def] FooServerMessageReader_ToStruct_def)


section \<open>BarRequest: the reader\<close>

record BarRequestReader =
  mbuf :: "Reader option"

definition NewBarRequestReader :: BarRequestReader where
  "NewBarRequestReader = \<lparr>
     mbuf = None\<rparr>"

definition BarRequestReader_cases :: "ProtoWireType \<Rightarrow> int \<Rightarrow> (ProtoWireNumber \<times> (BarRequestReader \<Rightarrow> BarRequestReader)) list" where
  "BarRequestReader_cases wire offset = []"

definition BarRequestReader_save :: "ProtoWireNumber \<Rightarrow> ProtoWireType \<Rightarrow> int \<Rightarrow> BarRequestReader \<Rightarrow> BarRequestReader" where
  "BarRequestReader_save tag wire offset = tag_switch (BarRequestReader_cases wire offset) tag"

definition BarRequestReader_Unmarshal :: "BarRequestReader \<Rightarrow> gslice \<Rightarrow> (BarRequestReader \<times> string option) run" where
  "BarRequestReader_Unmarshal m data =
     unmarshalLoop BarRequestReader_save (NewReader data) 0 (m\<lparr>mbuf := Some (NewReader data)\<rparr>)"

definition BarRequestReader_SourceBytes :: "BarRequestReader option \<Rightarrow> gslice" where
  "BarRequestReader_SourceBytes s = (case s of None \<Rightarrow> nil_slice | Some r \<Rightarrow> Bytes (mbuf r))"

section \<open>BarRequest: the struct\<close>

type_synonym BarRequest = unit

definition BarRequest_zero :: BarRequest where
  "BarRequest_zero = ()"

definition BarRequest_stmts :: "(BarRequest \<times> BarRequestReader option \<Rightarrow> (BarRequest \<times> BarRequestReader option) run) list" where
  "BarRequest_stmts = []"

definition BarRequestReader_ToStruct :: "BarRequestReader option \<Rightarrow> (BarRequest option \<times> BarRequestReader option) run" where
  "BarRequestReader_ToStruct = toStructWith (BarRequest_stmts) BarRequest_zero"

definition BarRequest_appends :: "BarRequest \<Rightarrow> (Writer \<Rightarrow> Writer go) list" where
  "BarRequest_appends s = []"

definition BarRequest_MarshalTo :: "Writer \<Rightarrow> BarRequest option \<Rightarrow> Writer go" where
  "BarRequest_MarshalTo = marshalToWith (\<lambda>s. BarRequest_appends s)"

definition BarRequest_sizes :: "BarRequest \<Rightarrow> int list" where
  "BarRequest_sizes s = []"

definition BarRequest_XXX_PbContentSize :: "BarRequest option \<Rightarrow> int" where
  "BarRequest_XXX_PbContentSize = contentSizeWith (\<lambda>s. BarRequest_sizes s)"

definition BarRequest_Marshal :: "BarRequest option \<Rightarrow> byte list go" where
  "BarRequest_Marshal = marshalWith BarRequest_XXX_PbContentSize BarRequest_MarshalTo"

definition BarRequest_Copy :: "BarRequest option \<Rightarrow> BarRequest option" where
  "BarRequest_Copy s =
     (case s of None \<Rightarrow> None | Some s \<Rightarrow> Some ())"

section \<open>BarRequest: the round trip\<close>

definition BarRequest_tags :: "ProtoWireNumber list" where
  "BarRequest_tags = []"

definition BarRequest_groups :: "BarRequest \<Rightarrow> wfield list list" where
  "BarRequest_groups s = []"

definition BarRequest_content :: "BarRequest \<Rightarrow> wfield list" where
  "BarRequest_content s = concat (BarRequest_groups s)"

text \<open>What a round trip keeps.\<close>

definition BarRequest_norm :: "BarRequest \<Rightarrow> BarRequest" where
  "BarRequest_norm s = s"

definition BarRequest_ready :: "Reader \<Rightarrow> BarRequest \<Rightarrow> (BarRequestReader \<Rightarrow> bool) list" where
  "BarRequest_ready p s = []"

definition BarRequest_stored :: "BarRequest \<Rightarrow> (BarRequest \<Rightarrow> BarRequest) list" where
  "BarRequest_stored s = []"

lemma BarRequest_cases_distinct: "distinct (map fst (BarRequestReader_cases wire offset))"
  by (rule ascending_distinct) (simp add: BarRequestReader_cases_def )

lemma BarRequest_saved: "good_fields BarRequestReader_save p (NewBarRequestReader\<lparr>mbuf := Some p\<rparr>) BarRequest_tags (BarRequest_groups s) (BarRequest_ready p s)"
  unfolding BarRequest_tags_def BarRequest_groups_def BarRequest_ready_def
  by (intro good_fields.intros field_saved)

lemma BarRequest_converted: "good_stmts mbuf p (BarRequest_stmts) (BarRequest_ready p s) (BarRequest_stored s)"
  unfolding BarRequest_stmts_def BarRequest_ready_def BarRequest_stored_def append.simps
  by (intro good_stmts_field good_stmts.Nil)

interpretation l_BarRequest: lazy_message BarRequest_tags BarRequest_groups BarRequest_norm
  "\<lambda>s. BarRequest_sizes s" "\<lambda>s. BarRequest_appends s"
  BarRequestReader_save "\<lambda>p. NewBarRequestReader\<lparr>mbuf := Some p\<rparr>" mbuf "BarRequest_stmts" BarRequest_zero BarRequest_ready BarRequest_stored
proof
  show "distinct BarRequest_tags"
    using BarRequest_cases_distinct by (simp only: BarRequestReader_cases_def BarRequest_tags_def list.map fst_conv)
  show "list_all valid_tag BarRequest_tags"
    by (simp add: BarRequest_tags_def  valid_tag_def)
  show "list_all2 (\<lambda>t g. \<forall>f \<in> set g. fst f = t \<and> wf_val (snd f)) BarRequest_tags (BarRequest_groups s)" for s
    unfolding BarRequest_tags_def BarRequest_groups_def by (intro list.rel_intros field_tagged)
  show "list_all2 (\<lambda>e g. e = int (length (fields_bytes g))) (BarRequest_sizes s) (BarRequest_groups s)" for s
    unfolding BarRequest_sizes_def BarRequest_groups_def append.simps
    by (intro list.rel_intros field_sized)
  show "list_all2 (\<lambda>st g. writes st (fields_bytes g)) (BarRequest_appends s) (BarRequest_groups s)" for s
    unfolding BarRequest_appends_def BarRequest_groups_def append.simps
    by (intro list.rel_intros field_written)
  show "mbuf (BarRequestReader_save t w off m) = mbuf m" for t w off m
    unfolding BarRequestReader_save_def by (rule tag_switch_keeps) (simp add: BarRequestReader_cases_def)
  show "fold (\<lambda>e. e) (BarRequest_stored s) BarRequest_zero = BarRequest_norm s" for s
    unfolding BarRequest_stored_def by (simp add: BarRequest_zero_def BarRequest_norm_def float_defaults)
qed (simp_all add: BarRequest_saved BarRequest_converted)

interpretation m_BarRequest: message_codec BarRequest_content BarRequest_norm BarRequest_XXX_PbContentSize BarRequest_MarshalTo
  "BarRequestReader_Unmarshal NewBarRequestReader" BarRequestReader_ToStruct
  using l_BarRequest.message
  by (simp only: BarRequest_content_def [abs_def] BarRequest_XXX_PbContentSize_def BarRequest_MarshalTo_def BarRequestReader_Unmarshal_def [abs_def] BarRequestReader_ToStruct_def)


section \<open>BarResponse: the reader\<close>

record BarResponseReader =
  mbuf :: "Reader option"

definition NewBarResponseReader :: BarResponseReader where
  "NewBarResponseReader = \<lparr>
     mbuf = None\<rparr>"

definition BarResponseReader_cases :: "ProtoWireType \<Rightarrow> int \<Rightarrow> (ProtoWireNumber \<times> (BarResponseReader \<Rightarrow> BarResponseReader)) list" where
  "BarResponseReader_cases wire offset = []"

definition BarResponseReader_save :: "ProtoWireNumber \<Rightarrow> ProtoWireType \<Rightarrow> int \<Rightarrow> BarResponseReader \<Rightarrow> BarResponseReader" where
  "BarResponseReader_save tag wire offset = tag_switch (BarResponseReader_cases wire offset) tag"

definition BarResponseReader_Unmarshal :: "BarResponseReader \<Rightarrow> gslice \<Rightarrow> (BarResponseReader \<times> string option) run" where
  "BarResponseReader_Unmarshal m data =
     unmarshalLoop BarResponseReader_save (NewReader data) 0 (m\<lparr>mbuf := Some (NewReader data)\<rparr>)"

definition BarResponseReader_SourceBytes :: "BarResponseReader option \<Rightarrow> gslice" where
  "BarResponseReader_SourceBytes s = (case s of None \<Rightarrow> nil_slice | Some r \<Rightarrow> Bytes (mbuf r))"

section \<open>BarResponse: the struct\<close>

type_synonym BarResponse = unit

definition BarResponse_zero :: BarResponse where
  "BarResponse_zero = ()"

definition BarResponse_stmts :: "(BarResponse \<times> BarResponseReader option \<Rightarrow> (BarResponse \<times> BarResponseReader option) run) list" where
  "BarResponse_stmts = []"

definition BarResponseReader_ToStruct :: "BarResponseReader option \<Rightarrow> (BarResponse option \<times> BarResponseReader option) run" where
  "BarResponseReader_ToStruct = toStructWith (BarResponse_stmts) BarResponse_zero"

definition BarResponse_appends :: "BarResponse \<Rightarrow> (Writer \<Rightarrow> Writer go) list" where
  "BarResponse_appends s = []"

definition BarResponse_MarshalTo :: "Writer \<Rightarrow> BarResponse option \<Rightarrow> Writer go" where
  "BarResponse_MarshalTo = marshalToWith (\<lambda>s. BarResponse_appends s)"

definition BarResponse_sizes :: "BarResponse \<Rightarrow> int list" where
  "BarResponse_sizes s = []"

definition BarResponse_XXX_PbContentSize :: "BarResponse option \<Rightarrow> int" where
  "BarResponse_XXX_PbContentSize = contentSizeWith (\<lambda>s. BarResponse_sizes s)"

definition BarResponse_Marshal :: "BarResponse option \<Rightarrow> byte list go" where
  "BarResponse_Marshal = marshalWith BarResponse_XXX_PbContentSize BarResponse_MarshalTo"

definition BarResponse_Copy :: "BarResponse option \<Rightarrow> BarResponse option" where
  "BarResponse_Copy s =
     (case s of None \<Rightarrow> None | Some s \<Rightarrow> Some ())"

section \<open>BarResponse: the round trip\<close>

definition BarResponse_tags :: "ProtoWireNumber list" where
  "BarResponse_tags = []"

definition BarResponse_groups :: "BarResponse \<Rightarrow> wfield list list" where
  "BarResponse_groups s = []"

definition BarResponse_content :: "BarResponse \<Rightarrow> wfield list" where
  "BarResponse_content s = concat (BarResponse_groups s)"

text \<open>What a round trip keeps.\<close>

definition BarResponse_norm :: "BarResponse \<Rightarrow> BarResponse" where
  "BarResponse_norm s = s"

definition BarResponse_ready :: "Reader \<Rightarrow> BarResponse \<Rightarrow> (BarResponseReader \<Rightarrow> bool) list" where
  "BarResponse_ready p s = []"

definition BarResponse_stored :: "BarResponse \<Rightarrow> (BarResponse \<Rightarrow> BarResponse) list" where
  "BarResponse_stored s = []"

lemma BarResponse_cases_distinct: "distinct (map fst (BarResponseReader_cases wire offset))"
  by (rule ascending_distinct) (simp add: BarResponseReader_cases_def )

lemma BarResponse_saved: "good_fields BarResponseReader_save p (NewBarResponseReader\<lparr>mbuf := Some p\<rparr>) BarResponse_tags (BarResponse_groups s) (BarResponse_ready p s)"
  unfolding BarResponse_tags_def BarResponse_groups_def BarResponse_ready_def
  by (intro good_fields.intros field_saved)

lemma BarResponse_converted: "good_stmts mbuf p (BarResponse_stmts) (BarResponse_ready p s) (BarResponse_stored s)"
  unfolding BarResponse_stmts_def BarResponse_ready_def BarResponse_stored_def append.simps
  by (intro good_stmts_field good_stmts.Nil)

interpretation l_BarResponse: lazy_message BarResponse_tags BarResponse_groups BarResponse_norm
  "\<lambda>s. BarResponse_sizes s" "\<lambda>s. BarResponse_appends s"
  BarResponseReader_save "\<lambda>p. NewBarResponseReader\<lparr>mbuf := Some p\<rparr>" mbuf "BarResponse_stmts" BarResponse_zero BarResponse_ready BarResponse_stored
proof
  show "distinct BarResponse_tags"
    using BarResponse_cases_distinct by (simp only: BarResponseReader_cases_def BarResponse_tags_def list.map fst_conv)
  show "list_all valid_tag BarResponse_tags"
    by (simp add: BarResponse_tags_def  valid_tag_def)
  show "list_all2 (\<lambda>t g. \<forall>f \<in> set g. fst f = t \<and> wf_val (snd f)) BarResponse_tags (BarResponse_groups s)" for s
    unfolding BarResponse_tags_def BarResponse_groups_def by (intro list.rel_intros field_tagged)
  show "list_all2 (\<lambda>e g. e = int (length (fields_bytes g))) (BarResponse_sizes s) (BarResponse_groups s)" for s
    unfolding BarResponse_sizes_def BarResponse_groups_def append.simps
    by (intro list.rel_intros field_sized)
  show "list_all2 (\<lambda>st g. writes st (fields_bytes g)) (BarResponse_appends s) (BarResponse_groups s)" for s
    unfolding BarResponse_appends_def BarResponse_groups_def append.simps
    by (intro list.rel_intros field_written)
  show "mbuf (BarResponseReader_save t w off m) = mbuf m" for t w off m
    unfolding BarResponseReader_save_def by (rule tag_switch_keeps) (simp add: BarResponseReader_cases_def)
  show "fold (\<lambda>e. e) (BarResponse_stored s) BarResponse_zero = BarResponse_norm s" for s
    unfolding BarResponse_stored_def by (simp add: BarResponse_zero_def BarResponse_norm_def float_defaults)
qed (simp_all add: BarResponse_saved BarResponse_converted)

interpretation m_BarResponse: message_codec BarResponse_content BarResponse_norm BarResponse_XXX_PbContentSize BarResponse_MarshalTo
  "BarResponseReader_Unmarshal NewBarResponseReader" BarResponseReader_ToStruct
  using l_BarResponse.message
  by (simp only: BarResponse_content_def [abs_def] BarResponse_XXX_PbContentSize_def BarResponse_MarshalTo_def BarResponseReader_Unmarshal_def [abs_def] BarResponseReader_ToStruct_def)


end
