(* ===== verification/Unittest_Huge.thy ===== *)
theory Unittest_Huge
  imports TestAllTypes_Message Map_Kinds
begin

text \<open>
  The message \<^verbatim>\<open>TestHugeFieldNumbers\<close> of \<^verbatim>\<open>src/shared/gremlin_go/bench/gremlin_pb/protobuf_unittest/unittest.pb2.go\<close>, with the largest tag
  numbers and a map.
\<close>

section \<open>TestHugeFieldNumbers: the reader\<close>

definition wireTestHugeFieldNumbers_TestAllTypes :: ProtoWireNumber where "wireTestHugeFieldNumbers_TestAllTypes = 536860000"
definition wireTestHugeFieldNumbers_OptionalInt32 :: ProtoWireNumber where "wireTestHugeFieldNumbers_OptionalInt32 = 536870000"
definition wireTestHugeFieldNumbers_Fixed32 :: ProtoWireNumber where "wireTestHugeFieldNumbers_Fixed32 = 536870001"
definition wireTestHugeFieldNumbers_RepeatedInt32 :: ProtoWireNumber where "wireTestHugeFieldNumbers_RepeatedInt32 = 536870002"
definition wireTestHugeFieldNumbers_PackedInt32 :: ProtoWireNumber where "wireTestHugeFieldNumbers_PackedInt32 = 536870003"
definition wireTestHugeFieldNumbers_OptionalEnum :: ProtoWireNumber where "wireTestHugeFieldNumbers_OptionalEnum = 536870004"
definition wireTestHugeFieldNumbers_OptionalString :: ProtoWireNumber where "wireTestHugeFieldNumbers_OptionalString = 536870005"
definition wireTestHugeFieldNumbers_OptionalBytes :: ProtoWireNumber where "wireTestHugeFieldNumbers_OptionalBytes = 536870006"
definition wireTestHugeFieldNumbers_OptionalMessage :: ProtoWireNumber where "wireTestHugeFieldNumbers_OptionalMessage = 536870007"
definition wireTestHugeFieldNumbers_StringStringMap :: ProtoWireNumber where "wireTestHugeFieldNumbers_StringStringMap = 536870010"
definition wireTestHugeFieldNumbers_OneofUint32 :: ProtoWireNumber where "wireTestHugeFieldNumbers_OneofUint32 = 536870011"
definition wireTestHugeFieldNumbers_OneofTestAllTypes :: ProtoWireNumber where "wireTestHugeFieldNumbers_OneofTestAllTypes = 536870012"
definition wireTestHugeFieldNumbers_OneofString :: ProtoWireNumber where "wireTestHugeFieldNumbers_OneofString = 536870013"
definition wireTestHugeFieldNumbers_OneofBytes :: ProtoWireNumber where "wireTestHugeFieldNumbers_OneofBytes = 536870014"

lemmas wireTestHugeFieldNumbers =
  wireTestHugeFieldNumbers_TestAllTypes_def wireTestHugeFieldNumbers_OptionalInt32_def
  wireTestHugeFieldNumbers_Fixed32_def wireTestHugeFieldNumbers_RepeatedInt32_def
  wireTestHugeFieldNumbers_PackedInt32_def wireTestHugeFieldNumbers_OptionalEnum_def
  wireTestHugeFieldNumbers_OptionalString_def wireTestHugeFieldNumbers_OptionalBytes_def
  wireTestHugeFieldNumbers_OptionalMessage_def wireTestHugeFieldNumbers_StringStringMap_def
  wireTestHugeFieldNumbers_OneofUint32_def wireTestHugeFieldNumbers_OneofTestAllTypes_def
  wireTestHugeFieldNumbers_OneofString_def wireTestHugeFieldNumbers_OneofBytes_def

record TestHugeFieldNumbersReader =
  mbuf :: "Reader option"
  cellTestAllTypes :: "(TestAllTypesReader option) one_cell"
  cellOptionalInt32 :: "int32 one_cell"
  cellFixed32 :: "int32 one_cell"
  cellRepeatedInt32 :: "int32 packed_cell"
  cellPackedInt32 :: "int32 packed_cell"
  cellOptionalEnum :: "ForeignEnum one_cell"
  cellOptionalString :: "gostring one_cell"
  cellOptionalBytes :: "(byte list) one_cell"
  cellOptionalMessage :: "(ForeignMessageReader option) one_cell"
  cellStringStringMap :: "(gostring \<times> gostring) list_cell"
  cellOneofUint32 :: "uint32 one_cell"
  cellOneofTestAllTypes :: "(TestAllTypesReader option) one_cell"
  cellOneofString :: "gostring one_cell"
  cellOneofBytes :: "(byte list) one_cell"

definition NewTestHugeFieldNumbersReader :: TestHugeFieldNumbersReader where
  "NewTestHugeFieldNumbersReader = \<lparr>
     mbuf = None, cellTestAllTypes = newCell None 0, cellOptionalInt32 = newCell 0 0,
     cellFixed32 = newCell 0 0, cellRepeatedInt32 = newCell [] ([], []),
     cellPackedInt32 = newCell [] ([], []), cellOptionalEnum = newCell 0 0,
     cellOptionalString = newCell [] 0, cellOptionalBytes = newCell [] 0,
     cellOptionalMessage = newCell None 0, cellStringStringMap = newCell [] [],
     cellOneofUint32 = newCell 0 0, cellOneofTestAllTypes = newCell None 0,
     cellOneofString = newCell [] 0, cellOneofBytes = newCell [] 0\<rparr>"

definition TestHugeFieldNumbersReader_readTestAllTypes :: "TestHugeFieldNumbersReader \<Rightarrow> (TestAllTypesReader option \<times> TestHugeFieldNumbersReader) run" where
  "TestHugeFieldNumbersReader_readTestAllTypes = readCell cellTestAllTypes cellTestAllTypes_update mbuf (structReader (TestAllTypesReader_Unmarshal NewTestAllTypesReader))"

definition TestHugeFieldNumbersReader_GetTestAllTypes :: "TestHugeFieldNumbersReader option \<Rightarrow> (TestAllTypesReader option \<times> TestHugeFieldNumbersReader option) run" where
  "TestHugeFieldNumbersReader_GetTestAllTypes = getter TestHugeFieldNumbersReader_readTestAllTypes None"

definition TestHugeFieldNumbersReader_readOptionalInt32 :: "TestHugeFieldNumbersReader \<Rightarrow> (int32 \<times> TestHugeFieldNumbersReader) run" where
  "TestHugeFieldNumbersReader_readOptionalInt32 = readCell cellOptionalInt32 cellOptionalInt32_update mbuf (readOne ReadInt32 0)"

definition TestHugeFieldNumbersReader_GetOptionalInt32 :: "TestHugeFieldNumbersReader option \<Rightarrow> (int32 \<times> TestHugeFieldNumbersReader option) run" where
  "TestHugeFieldNumbersReader_GetOptionalInt32 = getter TestHugeFieldNumbersReader_readOptionalInt32 0"

definition TestHugeFieldNumbersReader_readFixed32 :: "TestHugeFieldNumbersReader \<Rightarrow> (int32 \<times> TestHugeFieldNumbersReader) run" where
  "TestHugeFieldNumbersReader_readFixed32 = readCell cellFixed32 cellFixed32_update mbuf (readOne ReadInt32 0)"

definition TestHugeFieldNumbersReader_GetFixed32 :: "TestHugeFieldNumbersReader option \<Rightarrow> (int32 \<times> TestHugeFieldNumbersReader option) run" where
  "TestHugeFieldNumbersReader_GetFixed32 = getter TestHugeFieldNumbersReader_readFixed32 0"

definition TestHugeFieldNumbersReader_readRepeatedInt32 :: "TestHugeFieldNumbersReader \<Rightarrow> (int32 list \<times> TestHugeFieldNumbersReader) run" where
  "TestHugeFieldNumbersReader_readRepeatedInt32 = readCell cellRepeatedInt32 cellRepeatedInt32_update mbuf (readPacked ReadInt32 SizedReadInt32 0)"

definition TestHugeFieldNumbersReader_GetRepeatedInt32 :: "TestHugeFieldNumbersReader option \<Rightarrow> (int32 list \<times> TestHugeFieldNumbersReader option) run" where
  "TestHugeFieldNumbersReader_GetRepeatedInt32 = getter TestHugeFieldNumbersReader_readRepeatedInt32 []"

definition TestHugeFieldNumbersReader_readPackedInt32 :: "TestHugeFieldNumbersReader \<Rightarrow> (int32 list \<times> TestHugeFieldNumbersReader) run" where
  "TestHugeFieldNumbersReader_readPackedInt32 = readCell cellPackedInt32 cellPackedInt32_update mbuf (readPacked ReadInt32 SizedReadInt32 0)"

definition TestHugeFieldNumbersReader_GetPackedInt32 :: "TestHugeFieldNumbersReader option \<Rightarrow> (int32 list \<times> TestHugeFieldNumbersReader option) run" where
  "TestHugeFieldNumbersReader_GetPackedInt32 = getter TestHugeFieldNumbersReader_readPackedInt32 []"

definition TestHugeFieldNumbersReader_readOptionalEnum :: "TestHugeFieldNumbersReader \<Rightarrow> (ForeignEnum \<times> TestHugeFieldNumbersReader) run" where
  "TestHugeFieldNumbersReader_readOptionalEnum = readCell cellOptionalEnum cellOptionalEnum_update mbuf (readOne ReadInt32 0)"

definition TestHugeFieldNumbersReader_GetOptionalEnum :: "TestHugeFieldNumbersReader option \<Rightarrow> (ForeignEnum \<times> TestHugeFieldNumbersReader option) run" where
  "TestHugeFieldNumbersReader_GetOptionalEnum = getter TestHugeFieldNumbersReader_readOptionalEnum 0"

definition TestHugeFieldNumbersReader_readOptionalString :: "TestHugeFieldNumbersReader \<Rightarrow> (gostring \<times> TestHugeFieldNumbersReader) run" where
  "TestHugeFieldNumbersReader_readOptionalString = readCell cellOptionalString cellOptionalString_update mbuf (readOne ReadString [])"

definition TestHugeFieldNumbersReader_GetOptionalString :: "TestHugeFieldNumbersReader option \<Rightarrow> (gostring \<times> TestHugeFieldNumbersReader option) run" where
  "TestHugeFieldNumbersReader_GetOptionalString = getter TestHugeFieldNumbersReader_readOptionalString []"

definition TestHugeFieldNumbersReader_readOptionalBytes :: "TestHugeFieldNumbersReader \<Rightarrow> (byte list \<times> TestHugeFieldNumbersReader) run" where
  "TestHugeFieldNumbersReader_readOptionalBytes = readCell cellOptionalBytes cellOptionalBytes_update mbuf (readOne ReadByteList [])"

definition TestHugeFieldNumbersReader_GetOptionalBytes :: "TestHugeFieldNumbersReader option \<Rightarrow> (byte list \<times> TestHugeFieldNumbersReader option) run" where
  "TestHugeFieldNumbersReader_GetOptionalBytes = getter TestHugeFieldNumbersReader_readOptionalBytes []"

definition TestHugeFieldNumbersReader_readOptionalMessage :: "TestHugeFieldNumbersReader \<Rightarrow> (ForeignMessageReader option \<times> TestHugeFieldNumbersReader) run" where
  "TestHugeFieldNumbersReader_readOptionalMessage = readCell cellOptionalMessage cellOptionalMessage_update mbuf (structReader (ForeignMessageReader_Unmarshal NewForeignMessageReader))"

definition TestHugeFieldNumbersReader_GetOptionalMessage :: "TestHugeFieldNumbersReader option \<Rightarrow> (ForeignMessageReader option \<times> TestHugeFieldNumbersReader option) run" where
  "TestHugeFieldNumbersReader_GetOptionalMessage = getter TestHugeFieldNumbersReader_readOptionalMessage None"

definition TestHugeFieldNumbersReader_readStringStringMap :: "TestHugeFieldNumbersReader \<Rightarrow> ((gostring \<times> gostring) list \<times> TestHugeFieldNumbersReader) run" where
  "TestHugeFieldNumbersReader_readStringStringMap = readCell cellStringStringMap cellStringStringMap_update mbuf (readMap (sizedScalar SizedReadString []) (sizedScalar SizedReadString []) [] [])"

definition TestHugeFieldNumbersReader_GetStringStringMap :: "TestHugeFieldNumbersReader option \<Rightarrow> ((gostring \<times> gostring) list \<times> TestHugeFieldNumbersReader option) run" where
  "TestHugeFieldNumbersReader_GetStringStringMap = getter TestHugeFieldNumbersReader_readStringStringMap []"

definition TestHugeFieldNumbersReader_readOneofUint32 :: "TestHugeFieldNumbersReader \<Rightarrow> (uint32 \<times> TestHugeFieldNumbersReader) run" where
  "TestHugeFieldNumbersReader_readOneofUint32 = readCell cellOneofUint32 cellOneofUint32_update mbuf (readOne ReadUint32 0)"

definition TestHugeFieldNumbersReader_GetOneofUint32 :: "TestHugeFieldNumbersReader option \<Rightarrow> (uint32 \<times> TestHugeFieldNumbersReader option) run" where
  "TestHugeFieldNumbersReader_GetOneofUint32 = getter TestHugeFieldNumbersReader_readOneofUint32 0"

definition TestHugeFieldNumbersReader_readOneofTestAllTypes :: "TestHugeFieldNumbersReader \<Rightarrow> (TestAllTypesReader option \<times> TestHugeFieldNumbersReader) run" where
  "TestHugeFieldNumbersReader_readOneofTestAllTypes = readCell cellOneofTestAllTypes cellOneofTestAllTypes_update mbuf (structReader (TestAllTypesReader_Unmarshal NewTestAllTypesReader))"

definition TestHugeFieldNumbersReader_GetOneofTestAllTypes :: "TestHugeFieldNumbersReader option \<Rightarrow> (TestAllTypesReader option \<times> TestHugeFieldNumbersReader option) run" where
  "TestHugeFieldNumbersReader_GetOneofTestAllTypes = getter TestHugeFieldNumbersReader_readOneofTestAllTypes None"

definition TestHugeFieldNumbersReader_readOneofString :: "TestHugeFieldNumbersReader \<Rightarrow> (gostring \<times> TestHugeFieldNumbersReader) run" where
  "TestHugeFieldNumbersReader_readOneofString = readCell cellOneofString cellOneofString_update mbuf (readOne ReadString [])"

definition TestHugeFieldNumbersReader_GetOneofString :: "TestHugeFieldNumbersReader option \<Rightarrow> (gostring \<times> TestHugeFieldNumbersReader option) run" where
  "TestHugeFieldNumbersReader_GetOneofString = getter TestHugeFieldNumbersReader_readOneofString []"

definition TestHugeFieldNumbersReader_readOneofBytes :: "TestHugeFieldNumbersReader \<Rightarrow> (byte list \<times> TestHugeFieldNumbersReader) run" where
  "TestHugeFieldNumbersReader_readOneofBytes = readCell cellOneofBytes cellOneofBytes_update mbuf (readOne ReadByteList [])"

definition TestHugeFieldNumbersReader_GetOneofBytes :: "TestHugeFieldNumbersReader option \<Rightarrow> (byte list \<times> TestHugeFieldNumbersReader option) run" where
  "TestHugeFieldNumbersReader_GetOneofBytes = getter TestHugeFieldNumbersReader_readOneofBytes []"

lemmas TestHugeFieldNumbers_getters =
  TestHugeFieldNumbersReader_readTestAllTypes_def TestHugeFieldNumbersReader_GetTestAllTypes_def
  TestHugeFieldNumbersReader_readOptionalInt32_def TestHugeFieldNumbersReader_GetOptionalInt32_def
  TestHugeFieldNumbersReader_readFixed32_def TestHugeFieldNumbersReader_GetFixed32_def
  TestHugeFieldNumbersReader_readRepeatedInt32_def TestHugeFieldNumbersReader_GetRepeatedInt32_def
  TestHugeFieldNumbersReader_readPackedInt32_def TestHugeFieldNumbersReader_GetPackedInt32_def
  TestHugeFieldNumbersReader_readOptionalEnum_def TestHugeFieldNumbersReader_GetOptionalEnum_def
  TestHugeFieldNumbersReader_readOptionalString_def TestHugeFieldNumbersReader_GetOptionalString_def
  TestHugeFieldNumbersReader_readOptionalBytes_def TestHugeFieldNumbersReader_GetOptionalBytes_def
  TestHugeFieldNumbersReader_readOptionalMessage_def TestHugeFieldNumbersReader_GetOptionalMessage_def
  TestHugeFieldNumbersReader_readStringStringMap_def TestHugeFieldNumbersReader_GetStringStringMap_def
  TestHugeFieldNumbersReader_readOneofUint32_def TestHugeFieldNumbersReader_GetOneofUint32_def
  TestHugeFieldNumbersReader_readOneofTestAllTypes_def TestHugeFieldNumbersReader_GetOneofTestAllTypes_def
  TestHugeFieldNumbersReader_readOneofString_def TestHugeFieldNumbersReader_GetOneofString_def
  TestHugeFieldNumbersReader_readOneofBytes_def TestHugeFieldNumbersReader_GetOneofBytes_def

definition TestHugeFieldNumbersReader_cases :: "ProtoWireType \<Rightarrow> int \<Rightarrow> (ProtoWireNumber \<times> (TestHugeFieldNumbersReader \<Rightarrow> TestHugeFieldNumbersReader)) list" where
  "TestHugeFieldNumbersReader_cases wire offset = [
     (wireTestHugeFieldNumbers_TestAllTypes, \<lambda>m. m\<lparr>cellTestAllTypes := onOffset (setOffset wire offset) (cellTestAllTypes m)\<rparr>),
     (wireTestHugeFieldNumbers_OptionalInt32, \<lambda>m. m\<lparr>cellOptionalInt32 := onOffset (setOffset wire offset) (cellOptionalInt32 m)\<rparr>),
     (wireTestHugeFieldNumbers_Fixed32, \<lambda>m. m\<lparr>cellFixed32 := onOffset (setOffset wire offset) (cellFixed32 m)\<rparr>),
     (wireTestHugeFieldNumbers_RepeatedInt32, \<lambda>m. m\<lparr>cellRepeatedInt32 := onOffset (addTyped wire offset) (cellRepeatedInt32 m)\<rparr>),
     (wireTestHugeFieldNumbers_PackedInt32, \<lambda>m. m\<lparr>cellPackedInt32 := onOffset (addTyped wire offset) (cellPackedInt32 m)\<rparr>),
     (wireTestHugeFieldNumbers_OptionalEnum, \<lambda>m. m\<lparr>cellOptionalEnum := onOffset (setOffset wire offset) (cellOptionalEnum m)\<rparr>),
     (wireTestHugeFieldNumbers_OptionalString, \<lambda>m. m\<lparr>cellOptionalString := onOffset (setOffset wire offset) (cellOptionalString m)\<rparr>),
     (wireTestHugeFieldNumbers_OptionalBytes, \<lambda>m. m\<lparr>cellOptionalBytes := onOffset (setOffset wire offset) (cellOptionalBytes m)\<rparr>),
     (wireTestHugeFieldNumbers_OptionalMessage, \<lambda>m. m\<lparr>cellOptionalMessage := onOffset (setOffset wire offset) (cellOptionalMessage m)\<rparr>),
     (wireTestHugeFieldNumbers_StringStringMap, \<lambda>m. m\<lparr>cellStringStringMap := onOffset (addOffset wire offset) (cellStringStringMap m)\<rparr>),
     (wireTestHugeFieldNumbers_OneofUint32, \<lambda>m. m\<lparr>cellOneofUint32 := onOffset (setOffset wire offset) (cellOneofUint32 m)\<rparr>),
     (wireTestHugeFieldNumbers_OneofTestAllTypes, \<lambda>m. m\<lparr>cellOneofTestAllTypes := onOffset (setOffset wire offset) (cellOneofTestAllTypes m)\<rparr>),
     (wireTestHugeFieldNumbers_OneofString, \<lambda>m. m\<lparr>cellOneofString := onOffset (setOffset wire offset) (cellOneofString m)\<rparr>),
     (wireTestHugeFieldNumbers_OneofBytes, \<lambda>m. m\<lparr>cellOneofBytes := onOffset (setOffset wire offset) (cellOneofBytes m)\<rparr>)]"

definition TestHugeFieldNumbersReader_save :: "ProtoWireNumber \<Rightarrow> ProtoWireType \<Rightarrow> int \<Rightarrow> TestHugeFieldNumbersReader \<Rightarrow> TestHugeFieldNumbersReader" where
  "TestHugeFieldNumbersReader_save tag wire offset = tag_switch (TestHugeFieldNumbersReader_cases wire offset) tag"

definition TestHugeFieldNumbersReader_Unmarshal :: "TestHugeFieldNumbersReader \<Rightarrow> gslice \<Rightarrow> (TestHugeFieldNumbersReader \<times> string option) run" where
  "TestHugeFieldNumbersReader_Unmarshal m data =
     unmarshalLoop TestHugeFieldNumbersReader_save (NewReader data) 0 (m\<lparr>mbuf := Some (NewReader data)\<rparr>)"

definition TestHugeFieldNumbersReader_SourceBytes :: "TestHugeFieldNumbersReader option \<Rightarrow> gslice" where
  "TestHugeFieldNumbersReader_SourceBytes s = (case s of None \<Rightarrow> nil_slice | Some r \<Rightarrow> Bytes (mbuf r))"

section \<open>TestHugeFieldNumbers: the struct\<close>

record TestHugeFieldNumbers =
  TestAllTypes :: "TestAllTypes option"
  OptionalInt32 :: int32
  Fixed32 :: int32
  RepeatedInt32 :: "int32 list"
  PackedInt32 :: "int32 list"
  OptionalEnum :: ForeignEnum
  OptionalString :: gostring
  OptionalBytes :: "byte list"
  OptionalMessage :: "ForeignMessage option"
  StringStringMap :: "(gostring \<times> gostring) list"
  OneofUint32 :: uint32
  OneofTestAllTypes :: "TestAllTypes option"
  OneofString :: gostring
  OneofBytes :: "byte list"

definition TestHugeFieldNumbers_zero :: TestHugeFieldNumbers where
  "TestHugeFieldNumbers_zero = \<lparr>
     TestAllTypes = None, OptionalInt32 = 0, Fixed32 = 0, RepeatedInt32 = [], PackedInt32 = [],
     OptionalEnum = 0, OptionalString = [], OptionalBytes = [], OptionalMessage = None,
     StringStringMap = [], OneofUint32 = 0, OneofTestAllTypes = None, OneofString = [],
     OneofBytes = []\<rparr>"

definition TestHugeFieldNumbers_stmts :: "(TestHugeFieldNumbers \<times> TestHugeFieldNumbersReader option \<Rightarrow> (TestHugeFieldNumbers \<times> TestHugeFieldNumbersReader option) run) list" where
  "TestHugeFieldNumbers_stmts = [
     assignStruct TestHugeFieldNumbersReader_GetTestAllTypes (structToStruct TestAllTypesReader_ToStruct) cellTestAllTypes_update
       (\<lambda>v res. res\<lparr>TestAllTypes := v\<rparr>),
     assign TestHugeFieldNumbersReader_GetOptionalInt32 (\<lambda>v res. res\<lparr>OptionalInt32 := v\<rparr>),
     assign TestHugeFieldNumbersReader_GetFixed32 (\<lambda>v res. res\<lparr>Fixed32 := v\<rparr>),
     assign TestHugeFieldNumbersReader_GetRepeatedInt32 (\<lambda>v res. res\<lparr>RepeatedInt32 := v\<rparr>),
     assign TestHugeFieldNumbersReader_GetPackedInt32 (\<lambda>v res. res\<lparr>PackedInt32 := v\<rparr>),
     assign TestHugeFieldNumbersReader_GetOptionalEnum (\<lambda>v res. res\<lparr>OptionalEnum := v\<rparr>),
     assign TestHugeFieldNumbersReader_GetOptionalString (\<lambda>v res. res\<lparr>OptionalString := v\<rparr>),
     assign TestHugeFieldNumbersReader_GetOptionalBytes (\<lambda>v res. res\<lparr>OptionalBytes := v\<rparr>),
     assignStruct TestHugeFieldNumbersReader_GetOptionalMessage (structToStruct ForeignMessageReader_ToStruct) cellOptionalMessage_update
       (\<lambda>v res. res\<lparr>OptionalMessage := v\<rparr>),
     assign TestHugeFieldNumbersReader_GetStringStringMap (\<lambda>v res. res\<lparr>StringStringMap := v\<rparr>),
     assign TestHugeFieldNumbersReader_GetOneofUint32 (\<lambda>v res. res\<lparr>OneofUint32 := v\<rparr>),
     assignStruct TestHugeFieldNumbersReader_GetOneofTestAllTypes (structToStruct TestAllTypesReader_ToStruct) cellOneofTestAllTypes_update
       (\<lambda>v res. res\<lparr>OneofTestAllTypes := v\<rparr>),
     assign TestHugeFieldNumbersReader_GetOneofString (\<lambda>v res. res\<lparr>OneofString := v\<rparr>),
     assign TestHugeFieldNumbersReader_GetOneofBytes (\<lambda>v res. res\<lparr>OneofBytes := v\<rparr>)]"

definition TestHugeFieldNumbersReader_ToStruct :: "TestHugeFieldNumbersReader option \<Rightarrow> (TestHugeFieldNumbers option \<times> TestHugeFieldNumbersReader option) run" where
  "TestHugeFieldNumbersReader_ToStruct = toStructWith (TestHugeFieldNumbers_stmts) TestHugeFieldNumbers_zero"

definition TestHugeFieldNumbers_appends :: "TestHugeFieldNumbers \<Rightarrow> (Writer \<Rightarrow> Writer go) list" where
  "TestHugeFieldNumbers_appends s = [
     \<lambda>res. if TestAllTypes s \<noteq> None then structWriter TestAllTypes_XXX_PbContentSize TestAllTypes_MarshalTo res wireTestHugeFieldNumbers_TestAllTypes (TestAllTypes s) else Ret res,
     \<lambda>res. if OptionalInt32 s \<noteq> 0 then AppendInt32 res wireTestHugeFieldNumbers_OptionalInt32 (OptionalInt32 s) else Ret res,
     \<lambda>res. if Fixed32 s \<noteq> 0 then AppendInt32 res wireTestHugeFieldNumbers_Fixed32 (Fixed32 s) else Ret res,
     \<lambda>res. if RepeatedInt32 s \<noteq> [] then packedWriter AppendInt32WithoutTag AppendInt32 SizeInt32 res wireTestHugeFieldNumbers_RepeatedInt32 (RepeatedInt32 s) else Ret res,
     \<lambda>res. if PackedInt32 s \<noteq> [] then packedWriter AppendInt32WithoutTag AppendInt32 SizeInt32 res wireTestHugeFieldNumbers_PackedInt32 (PackedInt32 s) else Ret res,
     \<lambda>res. if OptionalEnum s \<noteq> 0 then AppendInt32 res wireTestHugeFieldNumbers_OptionalEnum (OptionalEnum s) else Ret res,
     \<lambda>res. if OptionalString s \<noteq> [] then AppendString res wireTestHugeFieldNumbers_OptionalString (OptionalString s) else Ret res,
     \<lambda>res. if OptionalBytes s \<noteq> [] then AppendBytes res wireTestHugeFieldNumbers_OptionalBytes (OptionalBytes s) else Ret res,
     \<lambda>res. if OptionalMessage s \<noteq> None then structWriter ForeignMessage_XXX_PbContentSize ForeignMessage_MarshalTo res wireTestHugeFieldNumbers_OptionalMessage (OptionalMessage s) else Ret res,
     \<lambda>res. if StringStringMap s \<noteq> [] then mapWriter (sizeDelimitedWithTag SizeString) (sizeDelimitedWithTag SizeString) AppendString AppendString res wireTestHugeFieldNumbers_StringStringMap (StringStringMap s) else Ret res,
     \<lambda>res. if OneofUint32 s \<noteq> 0 then AppendUint32 res wireTestHugeFieldNumbers_OneofUint32 (OneofUint32 s) else Ret res,
     \<lambda>res. if OneofTestAllTypes s \<noteq> None then structWriter TestAllTypes_XXX_PbContentSize TestAllTypes_MarshalTo res wireTestHugeFieldNumbers_OneofTestAllTypes (OneofTestAllTypes s) else Ret res,
     \<lambda>res. if OneofString s \<noteq> [] then AppendString res wireTestHugeFieldNumbers_OneofString (OneofString s) else Ret res,
     \<lambda>res. if OneofBytes s \<noteq> [] then AppendBytes res wireTestHugeFieldNumbers_OneofBytes (OneofBytes s) else Ret res]"

definition TestHugeFieldNumbers_MarshalTo :: "Writer \<Rightarrow> TestHugeFieldNumbers option \<Rightarrow> Writer go" where
  "TestHugeFieldNumbers_MarshalTo = marshalToWith (\<lambda>s. TestHugeFieldNumbers_appends s)"

definition TestHugeFieldNumbers_sizes :: "TestHugeFieldNumbers \<Rightarrow> int list" where
  "TestHugeFieldNumbers_sizes s = [
     if TestAllTypes s \<noteq> None then sizeDelimitedWithTag TestAllTypes_XXX_PbContentSize wireTestHugeFieldNumbers_TestAllTypes (TestAllTypes s) else 0,
     if OptionalInt32 s \<noteq> 0 then sizeWithTag SizeInt32 wireTestHugeFieldNumbers_OptionalInt32 (OptionalInt32 s) else 0,
     if Fixed32 s \<noteq> 0 then sizeWithTag SizeInt32 wireTestHugeFieldNumbers_Fixed32 (Fixed32 s) else 0,
     if RepeatedInt32 s \<noteq> [] then packedSize SizeInt32 wireTestHugeFieldNumbers_RepeatedInt32 (RepeatedInt32 s) else 0,
     if PackedInt32 s \<noteq> [] then packedSize SizeInt32 wireTestHugeFieldNumbers_PackedInt32 (PackedInt32 s) else 0,
     if OptionalEnum s \<noteq> 0 then sizeWithTag SizeInt32 wireTestHugeFieldNumbers_OptionalEnum (OptionalEnum s) else 0,
     if OptionalString s \<noteq> [] then sizeDelimitedWithTag SizeString wireTestHugeFieldNumbers_OptionalString (OptionalString s) else 0,
     if OptionalBytes s \<noteq> [] then sizeDelimitedWithTag SizeBytes wireTestHugeFieldNumbers_OptionalBytes (OptionalBytes s) else 0,
     if OptionalMessage s \<noteq> None then sizeDelimitedWithTag ForeignMessage_XXX_PbContentSize wireTestHugeFieldNumbers_OptionalMessage (OptionalMessage s) else 0,
     if StringStringMap s \<noteq> [] then mapSize (sizeDelimitedWithTag SizeString) (sizeDelimitedWithTag SizeString) wireTestHugeFieldNumbers_StringStringMap (StringStringMap s) else 0,
     if OneofUint32 s \<noteq> 0 then sizeWithTag SizeUint32 wireTestHugeFieldNumbers_OneofUint32 (OneofUint32 s) else 0,
     if OneofTestAllTypes s \<noteq> None then sizeDelimitedWithTag TestAllTypes_XXX_PbContentSize wireTestHugeFieldNumbers_OneofTestAllTypes (OneofTestAllTypes s) else 0,
     if OneofString s \<noteq> [] then sizeDelimitedWithTag SizeString wireTestHugeFieldNumbers_OneofString (OneofString s) else 0,
     if OneofBytes s \<noteq> [] then sizeDelimitedWithTag SizeBytes wireTestHugeFieldNumbers_OneofBytes (OneofBytes s) else 0]"

definition TestHugeFieldNumbers_XXX_PbContentSize :: "TestHugeFieldNumbers option \<Rightarrow> int" where
  "TestHugeFieldNumbers_XXX_PbContentSize = contentSizeWith (\<lambda>s. TestHugeFieldNumbers_sizes s)"

text \<open>
  The loops of the size and of the write code may take different orders through a map: the second argument is the
  struct as the second of them finds it.
\<close>

definition TestHugeFieldNumbers_Marshal :: "TestHugeFieldNumbers option \<Rightarrow> TestHugeFieldNumbers option \<Rightarrow> byte list go" where
  "TestHugeFieldNumbers_Marshal s s' = marshalWith (\<lambda>_. TestHugeFieldNumbers_XXX_PbContentSize s) TestHugeFieldNumbers_MarshalTo s'"

definition TestHugeFieldNumbers_Copy :: "TestHugeFieldNumbers option \<Rightarrow> TestHugeFieldNumbers option" where
  "TestHugeFieldNumbers_Copy s =
     (case s of None \<Rightarrow> None | Some s \<Rightarrow> Some \<lparr>
        TestAllTypes = (case TestAllTypes s of None \<Rightarrow> None | Some x \<Rightarrow> TestAllTypes_Copy (Some x)),
        OptionalInt32 = OptionalInt32 s, Fixed32 = Fixed32 s, RepeatedInt32 = RepeatedInt32 s,
        PackedInt32 = PackedInt32 s, OptionalEnum = OptionalEnum s,
        OptionalString = OptionalString s, OptionalBytes = OptionalBytes s,
        OptionalMessage = (case OptionalMessage s of None \<Rightarrow> None | Some x \<Rightarrow> ForeignMessage_Copy (Some x)),
        StringStringMap = mapCopy (StringStringMap s), OneofUint32 = OneofUint32 s,
        OneofTestAllTypes = (case OneofTestAllTypes s of None \<Rightarrow> None | Some x \<Rightarrow> TestAllTypes_Copy (Some x)),
        OneofString = OneofString s, OneofBytes = OneofBytes s\<rparr>)"

section \<open>TestHugeFieldNumbers: the round trip\<close>

definition TestHugeFieldNumbers_tags :: "ProtoWireNumber list" where
  "TestHugeFieldNumbers_tags = [
     wireTestHugeFieldNumbers_TestAllTypes, wireTestHugeFieldNumbers_OptionalInt32,
     wireTestHugeFieldNumbers_Fixed32, wireTestHugeFieldNumbers_RepeatedInt32,
     wireTestHugeFieldNumbers_PackedInt32, wireTestHugeFieldNumbers_OptionalEnum,
     wireTestHugeFieldNumbers_OptionalString, wireTestHugeFieldNumbers_OptionalBytes,
     wireTestHugeFieldNumbers_OptionalMessage, wireTestHugeFieldNumbers_StringStringMap,
     wireTestHugeFieldNumbers_OneofUint32, wireTestHugeFieldNumbers_OneofTestAllTypes,
     wireTestHugeFieldNumbers_OneofString, wireTestHugeFieldNumbers_OneofBytes]"

definition TestHugeFieldNumbers_groups :: "TestHugeFieldNumbers \<Rightarrow> wfield list list" where
  "TestHugeFieldNumbers_groups s = [
     opt_field (TestAllTypes s \<noteq> None) (wireTestHugeFieldNumbers_TestAllTypes, WBytes (ptr_bytes TestAllTypes_content (TestAllTypes s))),
     opt_field (OptionalInt32 s \<noteq> 0) (wireTestHugeFieldNumbers_OptionalInt32, int32_val (OptionalInt32 s)),
     opt_field (Fixed32 s \<noteq> 0) (wireTestHugeFieldNumbers_Fixed32, int32_val (Fixed32 s)),
     packed_fields int32_val wireTestHugeFieldNumbers_RepeatedInt32 (RepeatedInt32 s),
     packed_fields int32_val wireTestHugeFieldNumbers_PackedInt32 (PackedInt32 s),
     opt_field (OptionalEnum s \<noteq> 0) (wireTestHugeFieldNumbers_OptionalEnum, int32_val (OptionalEnum s)),
     opt_field (OptionalString s \<noteq> []) (wireTestHugeFieldNumbers_OptionalString, WBytes (OptionalString s)),
     opt_field (OptionalBytes s \<noteq> []) (wireTestHugeFieldNumbers_OptionalBytes, WBytes (OptionalBytes s)),
     opt_field (OptionalMessage s \<noteq> None) (wireTestHugeFieldNumbers_OptionalMessage, WBytes (ptr_bytes ForeignMessage_content (OptionalMessage s))),
     map_content WBytes WBytes wireTestHugeFieldNumbers_StringStringMap (StringStringMap s),
     opt_field (OneofUint32 s \<noteq> 0) (wireTestHugeFieldNumbers_OneofUint32, uint32_val (OneofUint32 s)),
     opt_field (OneofTestAllTypes s \<noteq> None) (wireTestHugeFieldNumbers_OneofTestAllTypes, WBytes (ptr_bytes TestAllTypes_content (OneofTestAllTypes s))),
     opt_field (OneofString s \<noteq> []) (wireTestHugeFieldNumbers_OneofString, WBytes (OneofString s)),
     opt_field (OneofBytes s \<noteq> []) (wireTestHugeFieldNumbers_OneofBytes, WBytes (OneofBytes s))]"

definition TestHugeFieldNumbers_content :: "TestHugeFieldNumbers \<Rightarrow> wfield list" where
  "TestHugeFieldNumbers_content s = concat (TestHugeFieldNumbers_groups s)"

text \<open>What a round trip keeps.\<close>

definition TestHugeFieldNumbers_norm :: "TestHugeFieldNumbers \<Rightarrow> TestHugeFieldNumbers" where
  "TestHugeFieldNumbers_norm s = s\<lparr>
     TestAllTypes := norm_ptr TestAllTypes_content TestAllTypes_norm (TestAllTypes s),
     OptionalMessage := norm_ptr ForeignMessage_content ForeignMessage_norm (OptionalMessage s),
     StringStringMap := mapCopy (StringStringMap s),
     OneofTestAllTypes := norm_ptr TestAllTypes_content TestAllTypes_norm (OneofTestAllTypes s)\<rparr>"

definition TestHugeFieldNumbers_ready :: "Reader \<Rightarrow> TestHugeFieldNumbers \<Rightarrow> (TestHugeFieldNumbersReader \<Rightarrow> bool) list" where
  "TestHugeFieldNumbers_ready p s = [
     \<lambda>m. cell_reads (structReader (TestAllTypesReader_Unmarshal NewTestAllTypesReader)) (structToStruct TestAllTypesReader_ToStruct) p (norm_ptr TestAllTypes_content TestAllTypes_norm (TestAllTypes s)) (cellTestAllTypes m),
     \<lambda>m. cell_reads (readOne ReadInt32 0) plain p (if OptionalInt32 s \<noteq> 0 then OptionalInt32 s else 0) (cellOptionalInt32 m),
     \<lambda>m. cell_reads (readOne ReadInt32 0) plain p (if Fixed32 s \<noteq> 0 then Fixed32 s else 0) (cellFixed32 m),
     \<lambda>m. cell_reads (readPacked ReadInt32 SizedReadInt32 0) plain p (RepeatedInt32 s) (cellRepeatedInt32 m),
     \<lambda>m. cell_reads (readPacked ReadInt32 SizedReadInt32 0) plain p (PackedInt32 s) (cellPackedInt32 m),
     \<lambda>m. cell_reads (readOne ReadInt32 0) plain p (if OptionalEnum s \<noteq> 0 then OptionalEnum s else 0) (cellOptionalEnum m),
     \<lambda>m. cell_reads (readOne ReadString []) plain p (if OptionalString s \<noteq> [] then OptionalString s else []) (cellOptionalString m),
     \<lambda>m. cell_reads (readOne ReadByteList []) plain p (if OptionalBytes s \<noteq> [] then OptionalBytes s else []) (cellOptionalBytes m),
     \<lambda>m. cell_reads (structReader (ForeignMessageReader_Unmarshal NewForeignMessageReader)) (structToStruct ForeignMessageReader_ToStruct) p (norm_ptr ForeignMessage_content ForeignMessage_norm (OptionalMessage s)) (cellOptionalMessage m),
     \<lambda>m. cell_reads (readMap (sizedScalar SizedReadString []) (sizedScalar SizedReadString []) [] []) plain p (mapCopy (StringStringMap s)) (cellStringStringMap m),
     \<lambda>m. cell_reads (readOne ReadUint32 0) plain p (if OneofUint32 s \<noteq> 0 then OneofUint32 s else 0) (cellOneofUint32 m),
     \<lambda>m. cell_reads (structReader (TestAllTypesReader_Unmarshal NewTestAllTypesReader)) (structToStruct TestAllTypesReader_ToStruct) p (norm_ptr TestAllTypes_content TestAllTypes_norm (OneofTestAllTypes s)) (cellOneofTestAllTypes m),
     \<lambda>m. cell_reads (readOne ReadString []) plain p (if OneofString s \<noteq> [] then OneofString s else []) (cellOneofString m),
     \<lambda>m. cell_reads (readOne ReadByteList []) plain p (if OneofBytes s \<noteq> [] then OneofBytes s else []) (cellOneofBytes m)]"

definition TestHugeFieldNumbers_stored :: "TestHugeFieldNumbers \<Rightarrow> (TestHugeFieldNumbers \<Rightarrow> TestHugeFieldNumbers) list" where
  "TestHugeFieldNumbers_stored s = [
     \<lambda>res. res\<lparr>TestAllTypes := norm_ptr TestAllTypes_content TestAllTypes_norm (TestAllTypes s)\<rparr>,
     \<lambda>res. res\<lparr>OptionalInt32 := if OptionalInt32 s \<noteq> 0 then OptionalInt32 s else 0\<rparr>,
     \<lambda>res. res\<lparr>Fixed32 := if Fixed32 s \<noteq> 0 then Fixed32 s else 0\<rparr>,
     \<lambda>res. res\<lparr>RepeatedInt32 := RepeatedInt32 s\<rparr>,
     \<lambda>res. res\<lparr>PackedInt32 := PackedInt32 s\<rparr>,
     \<lambda>res. res\<lparr>OptionalEnum := if OptionalEnum s \<noteq> 0 then OptionalEnum s else 0\<rparr>,
     \<lambda>res. res\<lparr>OptionalString := if OptionalString s \<noteq> [] then OptionalString s else []\<rparr>,
     \<lambda>res. res\<lparr>OptionalBytes := if OptionalBytes s \<noteq> [] then OptionalBytes s else []\<rparr>,
     \<lambda>res. res\<lparr>OptionalMessage := norm_ptr ForeignMessage_content ForeignMessage_norm (OptionalMessage s)\<rparr>,
     \<lambda>res. res\<lparr>StringStringMap := mapCopy (StringStringMap s)\<rparr>,
     \<lambda>res. res\<lparr>OneofUint32 := if OneofUint32 s \<noteq> 0 then OneofUint32 s else 0\<rparr>,
     \<lambda>res. res\<lparr>OneofTestAllTypes := norm_ptr TestAllTypes_content TestAllTypes_norm (OneofTestAllTypes s)\<rparr>,
     \<lambda>res. res\<lparr>OneofString := if OneofString s \<noteq> [] then OneofString s else []\<rparr>,
     \<lambda>res. res\<lparr>OneofBytes := if OneofBytes s \<noteq> [] then OneofBytes s else []\<rparr>]"

lemma TestHugeFieldNumbers_cases_distinct: "distinct (map fst (TestHugeFieldNumbersReader_cases wire offset))"
  by (rule ascending_distinct) (simp add: TestHugeFieldNumbersReader_cases_def wireTestHugeFieldNumbers)

lemma TestHugeFieldNumbers_stores:
  "stores_cell TestHugeFieldNumbersReader_save wireTestHugeFieldNumbers_TestAllTypes setOffset cellTestAllTypes"
  "stores_cell TestHugeFieldNumbersReader_save wireTestHugeFieldNumbers_OptionalInt32 setOffset cellOptionalInt32"
  "stores_cell TestHugeFieldNumbersReader_save wireTestHugeFieldNumbers_Fixed32 setOffset cellFixed32"
  "stores_cell TestHugeFieldNumbersReader_save wireTestHugeFieldNumbers_RepeatedInt32 addTyped cellRepeatedInt32"
  "stores_cell TestHugeFieldNumbersReader_save wireTestHugeFieldNumbers_PackedInt32 addTyped cellPackedInt32"
  "stores_cell TestHugeFieldNumbersReader_save wireTestHugeFieldNumbers_OptionalEnum setOffset cellOptionalEnum"
  "stores_cell TestHugeFieldNumbersReader_save wireTestHugeFieldNumbers_OptionalString setOffset cellOptionalString"
  "stores_cell TestHugeFieldNumbersReader_save wireTestHugeFieldNumbers_OptionalBytes setOffset cellOptionalBytes"
  "stores_cell TestHugeFieldNumbersReader_save wireTestHugeFieldNumbers_OptionalMessage setOffset cellOptionalMessage"
  "stores_cell TestHugeFieldNumbersReader_save wireTestHugeFieldNumbers_StringStringMap addOffset cellStringStringMap"
  "stores_cell TestHugeFieldNumbersReader_save wireTestHugeFieldNumbers_OneofUint32 setOffset cellOneofUint32"
  "stores_cell TestHugeFieldNumbersReader_save wireTestHugeFieldNumbers_OneofTestAllTypes setOffset cellOneofTestAllTypes"
  "stores_cell TestHugeFieldNumbersReader_save wireTestHugeFieldNumbers_OneofString setOffset cellOneofString"
  "stores_cell TestHugeFieldNumbersReader_save wireTestHugeFieldNumbers_OneofBytes setOffset cellOneofBytes"
  unfolding TestHugeFieldNumbersReader_save_def [abs_def] by (rule stores_cell_switch; (rule TestHugeFieldNumbers_cases_distinct)?; unfold TestHugeFieldNumbersReader_cases_def; intro own_case.intros; simp)+

lemma TestHugeFieldNumbers_saved: "good_fields TestHugeFieldNumbersReader_save p (NewTestHugeFieldNumbersReader\<lparr>mbuf := Some p\<rparr>) TestHugeFieldNumbers_tags (TestHugeFieldNumbers_groups s) (TestHugeFieldNumbers_ready p s)"
  unfolding TestHugeFieldNumbers_tags_def TestHugeFieldNumbers_groups_def TestHugeFieldNumbers_ready_def
  by (intro good_fields.intros field_saved m_TestAllTypes.saved_struct m_ForeignMessage.saved_struct map_saved TestHugeFieldNumbers_stores) (simp_all add: NewTestHugeFieldNumbersReader_def newCell_def)

lemma TestHugeFieldNumbers_converted: "good_stmts mbuf p (TestHugeFieldNumbers_stmts) (TestHugeFieldNumbers_ready p s) (TestHugeFieldNumbers_stored s)"
  unfolding TestHugeFieldNumbers_stmts_def TestHugeFieldNumbers_ready_def TestHugeFieldNumbers_stored_def TestHugeFieldNumbers_getters append.simps
  by (intro good_stmts_field good_stmts.Nil) (simp_all cong: cell_reads_cong)

interpretation l_TestHugeFieldNumbers: lazy_message TestHugeFieldNumbers_tags TestHugeFieldNumbers_groups TestHugeFieldNumbers_norm
  "\<lambda>s. TestHugeFieldNumbers_sizes s" "\<lambda>s. TestHugeFieldNumbers_appends s"
  TestHugeFieldNumbersReader_save "\<lambda>p. NewTestHugeFieldNumbersReader\<lparr>mbuf := Some p\<rparr>" mbuf "TestHugeFieldNumbers_stmts" TestHugeFieldNumbers_zero TestHugeFieldNumbers_ready TestHugeFieldNumbers_stored
proof
  show "distinct TestHugeFieldNumbers_tags"
    using TestHugeFieldNumbers_cases_distinct by (simp only: TestHugeFieldNumbersReader_cases_def TestHugeFieldNumbers_tags_def list.map fst_conv)
  show "list_all valid_tag TestHugeFieldNumbers_tags"
    by (simp add: TestHugeFieldNumbers_tags_def wireTestHugeFieldNumbers valid_tag_def)
  show "list_all2 (\<lambda>t g. \<forall>f \<in> set g. fst f = t \<and> wf_val (snd f)) TestHugeFieldNumbers_tags (TestHugeFieldNumbers_groups s)" for s
    unfolding TestHugeFieldNumbers_tags_def TestHugeFieldNumbers_groups_def by (intro list.rel_intros field_tagged m_TestAllTypes.tagged_struct m_ForeignMessage.tagged_struct map_tagged)
  show "list_all2 (\<lambda>e g. e = int (length (fields_bytes g))) (TestHugeFieldNumbers_sizes s) (TestHugeFieldNumbers_groups s)" for s
    unfolding TestHugeFieldNumbers_sizes_def TestHugeFieldNumbers_groups_def append.simps
    by (intro list.rel_intros field_sized m_TestAllTypes.sized_struct m_ForeignMessage.sized_struct map_sized)
  show "list_all2 (\<lambda>st g. writes st (fields_bytes g)) (TestHugeFieldNumbers_appends s) (TestHugeFieldNumbers_groups s)" for s
    unfolding TestHugeFieldNumbers_appends_def TestHugeFieldNumbers_groups_def append.simps
    by (intro list.rel_intros field_written m_TestAllTypes.written_struct m_ForeignMessage.written_struct map_written)
  show "mbuf (TestHugeFieldNumbersReader_save t w off m) = mbuf m" for t w off m
    unfolding TestHugeFieldNumbersReader_save_def by (rule tag_switch_keeps) (simp add: TestHugeFieldNumbersReader_cases_def)
  show "fold (\<lambda>e. e) (TestHugeFieldNumbers_stored s) TestHugeFieldNumbers_zero = TestHugeFieldNumbers_norm s" for s
    unfolding TestHugeFieldNumbers_stored_def by (simp add: TestHugeFieldNumbers_zero_def TestHugeFieldNumbers_norm_def float_defaults)
qed (simp_all add: TestHugeFieldNumbers_saved TestHugeFieldNumbers_converted)

interpretation m_TestHugeFieldNumbers: message_codec TestHugeFieldNumbers_content TestHugeFieldNumbers_norm TestHugeFieldNumbers_XXX_PbContentSize TestHugeFieldNumbers_MarshalTo
  "TestHugeFieldNumbersReader_Unmarshal NewTestHugeFieldNumbersReader" TestHugeFieldNumbersReader_ToStruct
  using l_TestHugeFieldNumbers.message
  by (simp only: TestHugeFieldNumbers_content_def [abs_def] TestHugeFieldNumbers_XXX_PbContentSize_def TestHugeFieldNumbers_MarshalTo_def TestHugeFieldNumbersReader_Unmarshal_def [abs_def] TestHugeFieldNumbersReader_ToStruct_def)


end
