(* ===== verification/Golden_Message.thy ===== *)
theory Golden_Message
  imports TestAllTypes_Message
begin

text \<open>
  The golden message of \<^verbatim>\<open>src/shared/gremlin_go/bench/bench_data.go\<close>, a value of the largest type of the protobuf
  unit tests that the benchmarks write, change and read back. Floats are given by their bits. A message that is
  built here shares no submessage between two of its fields, so pointers are options.
\<close>

definition PopulateGoldenMessageGremlin :: "TestAllTypes option \<Rightarrow> TestAllTypes option go" where
  "PopulateGoldenMessageGremlin msg = (case msg of None \<Rightarrow> Panic | Some msg \<Rightarrow> Ret (Some (msg\<lparr>
      OptionalInt32 := 101,
      OptionalInt64 := 102,
      OptionalUint32 := 103,
      OptionalUint64 := 104,
      OptionalSint32 := 105,
      OptionalSint64 := 106,
      OptionalFixed32 := 107,
      OptionalFixed64 := 108,
      OptionalSfixed32 := 109,
      OptionalSfixed64 := 110,
      OptionalFloat := 0x42DE0000,
      OptionalDouble := 0x405C000000000000,
      OptionalBool := True,
      OptionalString := bytes_of ''115'',
      OptionalBytes := bytes_of ''116'',
      OptionalNestedMessage := Some \<lparr>Bb = 118\<rparr>,
      OptionalForeignMessage := Some \<lparr>C' = 119, D' = 0\<rparr>,
      OptionalImportMessage := Some \<lparr>ImportMessage.D' = 120\<rparr>,
      OptionalNestedEnum := TestAllTypes_BAZ,
      OptionalForeignEnum := ForeignEnum_FOREIGN_BAZ,
      OptionalImportEnum := ImportEnum_IMPORT_BAZ,
      OptionalStringPiece := bytes_of ''124'',
      OptionalCord := bytes_of ''125'',
      OptionalPublicImportMessage := Some \<lparr>E' = 126\<rparr>,
      OptionalLazyMessage := Some \<lparr>Bb = 127\<rparr>,
      OptionalUnverifiedLazyMessage := Some \<lparr>Bb = 128\<rparr>,
      RepeatedInt32 := [201, 301],
      RepeatedInt64 := [202, 302],
      RepeatedUint32 := [203, 303],
      RepeatedUint64 := [204, 304],
      RepeatedSint32 := [205, 305],
      RepeatedSint64 := [206, 306],
      RepeatedFixed32 := [207, 307],
      RepeatedFixed64 := [208, 308],
      RepeatedSfixed32 := [209, 309],
      RepeatedSfixed64 := [210, 310],
      RepeatedFloat := [0x43530000, 0x439B8000],
      RepeatedDouble := [0x406A800000000000, 0x4073800000000000],
      RepeatedBool := [True, False],
      RepeatedString := [bytes_of ''215'', bytes_of ''315''],
      RepeatedBytes := [bytes_of ''216'', bytes_of ''316''],
      RepeatedNestedMessage := [Some \<lparr>Bb = 218\<rparr>, Some \<lparr>Bb = 318\<rparr>],
      RepeatedForeignMessage := [Some \<lparr>C' = 219, D' = 0\<rparr>, Some \<lparr>C' = 319, D' = 0\<rparr>],
      RepeatedImportMessage := [Some \<lparr>ImportMessage.D' = 220\<rparr>, Some \<lparr>ImportMessage.D' = 320\<rparr>],
      RepeatedNestedEnum := [TestAllTypes_BAR, TestAllTypes_BAZ],
      RepeatedForeignEnum := [ForeignEnum_FOREIGN_BAR, ForeignEnum_FOREIGN_BAZ],
      RepeatedImportEnum := [ImportEnum_IMPORT_BAR, ImportEnum_IMPORT_BAZ],
      RepeatedStringPiece := [bytes_of ''224'', bytes_of ''324''],
      RepeatedCord := [bytes_of ''225'', bytes_of ''325''],
      RepeatedLazyMessage := [Some \<lparr>Bb = 227\<rparr>, Some \<lparr>Bb = 327\<rparr>],
      DefaultInt32 := 401,
      DefaultInt64 := 402,
      DefaultUint32 := 403,
      DefaultUint64 := 404,
      DefaultSint32 := 405,
      DefaultSint64 := 406,
      DefaultFixed32 := 407,
      DefaultFixed64 := 408,
      DefaultSfixed32 := 409,
      DefaultSfixed64 := 410,
      DefaultFloat := 0x43CD8000,
      DefaultDouble := 0x4079C00000000000,
      DefaultBool := False,
      DefaultString := bytes_of ''415'',
      DefaultBytes := bytes_of ''416'',
      DefaultNestedEnum := TestAllTypes_FOO,
      DefaultForeignEnum := ForeignEnum_FOREIGN_FOO,
      DefaultImportEnum := ImportEnum_IMPORT_FOO,
      DefaultStringPiece := bytes_of ''424'',
      DefaultCord := bytes_of ''425'',
      OneofUint32 := 601\<rparr>)))"

definition CreateGoldenMessageGremlin :: "TestAllTypes option go" where
  "CreateGoldenMessageGremlin = PopulateGoldenMessageGremlin (Some TestAllTypes_zero)"

definition UpdateGoldenMessageGremlin :: "TestAllTypes option \<Rightarrow> int \<Rightarrow> TestAllTypes option go" where
  "UpdateGoldenMessageGremlin msg i =
     (case msg of None \<Rightarrow> Panic
      | Some msg \<Rightarrow>
          (case OptionalNestedMessage msg of None \<Rightarrow> Panic
           | Some nested \<Rightarrow>
               (case RepeatedNestedMessage msg of
                  Some item0 # Some item1 # items \<Rightarrow> Ret (Some (msg\<lparr>
                    OptionalInt32 := 101 + word_of_int i,
                    OptionalNestedMessage := Some (nested\<lparr>Bb := 118 + word_of_int i\<rparr>),
                    RepeatedNestedMessage :=
                      Some (item0\<lparr>Bb := 218 + word_of_int i\<rparr>) #
                      Some (item1\<lparr>Bb := 318 + word_of_int i\<rparr>) # items,
                    OneofUint32 := 601 + word_of_int i\<rparr>))
                | _ \<Rightarrow> Panic)))"

text \<open>
  The golden message after an iteration of the benchmark has no submessage that a round trip drops and no negative
  zero, as long as the counter does not wrap one of its numbers around to zero.
\<close>

definition golden :: TestAllTypes where
  "golden = (case CreateGoldenMessageGremlin of Ret (Some m) \<Rightarrow> m | _ \<Rightarrow> TestAllTypes_zero)"

lemma golden_created: "CreateGoldenMessageGremlin = Ret (Some golden)"
  by (simp add: golden_def CreateGoldenMessageGremlin_def PopulateGoldenMessageGremlin_def)

lemma golden_fields:
  "OptionalFloat golden = 0x42DE0000"
  "OptionalDouble golden = 0x405C000000000000"
  "OptionalNestedMessage golden = Some \<lparr>Bb = 118\<rparr>"
  "OptionalForeignMessage golden = Some \<lparr>C' = 119, D' = 0\<rparr>"
  "OptionalImportMessage golden = Some \<lparr>ImportMessage.D' = 120\<rparr>"
  "OptionalPublicImportMessage golden = Some \<lparr>E' = 126\<rparr>"
  "OptionalLazyMessage golden = Some \<lparr>Bb = 127\<rparr>"
  "OptionalUnverifiedLazyMessage golden = Some \<lparr>Bb = 128\<rparr>"
  "RepeatedNestedMessage golden = [Some \<lparr>Bb = 218\<rparr>, Some \<lparr>Bb = 318\<rparr>]"
  "RepeatedForeignMessage golden = [Some \<lparr>C' = 219, D' = 0\<rparr>, Some \<lparr>C' = 319, D' = 0\<rparr>]"
  "RepeatedImportMessage golden = [Some \<lparr>ImportMessage.D' = 220\<rparr>, Some \<lparr>ImportMessage.D' = 320\<rparr>]"
  "RepeatedLazyMessage golden = [Some \<lparr>Bb = 227\<rparr>, Some \<lparr>Bb = 327\<rparr>]"
  "OneofNestedMessage golden = None"
  by (simp_all add: golden_def CreateGoldenMessageGremlin_def PopulateGoldenMessageGremlin_def TestAllTypes_zero_def)

definition golden_update :: "int \<Rightarrow> TestAllTypes" where
  "golden_update i = golden\<lparr>
     OptionalInt32 := 101 + word_of_int i,
     OptionalNestedMessage := Some \<lparr>Bb = 118 + word_of_int i\<rparr>,
     RepeatedNestedMessage := [Some \<lparr>Bb = 218 + word_of_int i\<rparr>, Some \<lparr>Bb = 318 + word_of_int i\<rparr>],
     OneofUint32 := 601 + word_of_int i\<rparr>"

lemma golden_updated: "UpdateGoldenMessageGremlin (Some golden) i = Ret (Some (golden_update i))"
  by (simp add: UpdateGoldenMessageGremlin_def golden_fields golden_update_def)

lemma golden_update_size: "TestAllTypes_XXX_PbContentSize (Some (golden_update 7)) < 1000"
  by code_simp

lemma TestAllTypes_norm_id:
  assumes "\<not> float32_is_zero (OptionalFloat s)" "\<not> float64_is_zero (OptionalDouble s)"
    "norm_ptr TestAllTypes_NestedMessage_content TestAllTypes_NestedMessage_norm (OptionalNestedMessage s) = OptionalNestedMessage s"
    "norm_ptr ForeignMessage_content ForeignMessage_norm (OptionalForeignMessage s) = OptionalForeignMessage s"
    "norm_ptr ImportMessage_content ImportMessage_norm (OptionalImportMessage s) = OptionalImportMessage s"
    "norm_ptr PublicImportMessage_content PublicImportMessage_norm (OptionalPublicImportMessage s) = OptionalPublicImportMessage s"
    "norm_ptr TestAllTypes_NestedMessage_content TestAllTypes_NestedMessage_norm (OptionalLazyMessage s) = OptionalLazyMessage s"
    "norm_ptr TestAllTypes_NestedMessage_content TestAllTypes_NestedMessage_norm (OptionalUnverifiedLazyMessage s) = OptionalUnverifiedLazyMessage s"
    "map (norm_ptr TestAllTypes_NestedMessage_content TestAllTypes_NestedMessage_norm) (RepeatedNestedMessage s) = RepeatedNestedMessage s"
    "map (norm_ptr ForeignMessage_content ForeignMessage_norm) (RepeatedForeignMessage s) = RepeatedForeignMessage s"
    "map (norm_ptr ImportMessage_content ImportMessage_norm) (RepeatedImportMessage s) = RepeatedImportMessage s"
    "map (norm_ptr TestAllTypes_NestedMessage_content TestAllTypes_NestedMessage_norm) (RepeatedLazyMessage s) = RepeatedLazyMessage s"
    "norm_ptr TestAllTypes_NestedMessage_content TestAllTypes_NestedMessage_norm (OneofNestedMessage s) = OneofNestedMessage s"
  shows "TestAllTypes_norm s = s"
  unfolding TestAllTypes_norm_def using assms by simp

lemma golden_update_norm:
  assumes "118 + word_of_int i \<noteq> (0 :: int32)" "218 + word_of_int i \<noteq> (0 :: int32)" "318 + word_of_int i \<noteq> (0 :: int32)"
  shows "TestAllTypes_norm (golden_update i) = golden_update i"
  using assms
  by - (rule TestAllTypes_norm_id; simp add: golden_update_def golden_fields float32_is_zero_def float64_is_zero_def norm_ptr_def
      TestAllTypes_NestedMessage_norm_def ForeignMessage_norm_def ImportMessage_norm_def PublicImportMessage_norm_def
      TestAllTypes_NestedMessage_content_def ForeignMessage_content_def ImportMessage_content_def PublicImportMessage_content_def
      TestAllTypes_NestedMessage_groups_def ForeignMessage_groups_def ImportMessage_groups_def PublicImportMessage_groups_def
      opt_field_def)

text \<open>
  C13. A message of the largest type of the protobuf unit tests, with scalars of every kind, strings, enums, submessages,
  lists, packed lists and fields with declared defaults, marshals into exactly the computed size, and is read back
  as it was, up to nil for empty submessages and zero for negative zero.
\<close>

theorem TestAllTypes_roundtrip:
  assumes "TestAllTypes_XXX_PbContentSize (Some s) + 10 < 2 ^ 63"
  shows "\<exists>bs r r'. TestAllTypes_Marshal (Some s) = Ret bs \<and>
    int (length bs) = TestAllTypes_XXX_PbContentSize (Some s) \<and>
    TestAllTypesReader_Unmarshal NewTestAllTypesReader (slice_of bs) = Some (Ret (r, None)) \<and>
    TestAllTypesReader_ToStruct (Some r) = Some (Ret (Some (TestAllTypes_norm s), Some r'))"
  using m_TestAllTypes.round_trip [OF assms] by (simp only: TestAllTypes_Marshal_def)

text \<open>What an iteration of the benchmark writes is read back unchanged.\<close>

theorem TestAllTypes_roundtrip_witness:
  "\<exists>m bs r r'. go_bind CreateGoldenMessageGremlin (\<lambda>msg. UpdateGoldenMessageGremlin msg 7) = Ret (Some m) \<and>
     OptionalInt32 m = 108 \<and> TestAllTypes_Marshal (Some m) = Ret bs \<and>
     TestAllTypesReader_Unmarshal NewTestAllTypesReader (slice_of bs) = Some (Ret (r, None)) \<and>
     TestAllTypesReader_ToStruct (Some r) = Some (Ret (Some m, Some r'))"
proof -
  let ?m = "golden_update 7"
  have "go_bind CreateGoldenMessageGremlin (\<lambda>msg. UpdateGoldenMessageGremlin msg 7) = Ret (Some ?m)"
    by (simp add: golden_created golden_updated)
  moreover have "OptionalInt32 ?m = 108" by (simp add: golden_update_def)
  moreover have "TestAllTypes_XXX_PbContentSize (Some ?m) + 10 < 2 ^ 63"
    using golden_update_size by simp
  ultimately show ?thesis
    using TestAllTypes_roundtrip [of ?m] golden_update_norm [of 7] by auto
qed

end
