(* ===== verification/Recursive_Kinds.thy ===== *)
theory Recursive_Kinds
  imports Field_Kinds
begin

text \<open>
  What the message types that contain themselves need: congruence rules for the functions that recurse through the
  operations of a field, monotonicity rules for \<^verbatim>\<open>ToStruct\<close>, whose recursion goes down the bytes and has no measure on
  its argument, and the laws of a message field for one value, so that a value can rely on the values inside it.
\<close>

section \<open>Recursion through fields\<close>

lemma sizeDelimitedWithTag_cong [fundef_cong]:
  "x = y \<Longrightarrow> f y = g y \<Longrightarrow> sizeDelimitedWithTag f tag x = sizeDelimitedWithTag g tag y"
  by (simp add: sizeDelimitedWithTag_def)

lemma repeatedSize_cong [fundef_cong]:
  "xs = ys \<Longrightarrow> (\<And>x. x \<in> set ys \<Longrightarrow> f x = g x) \<Longrightarrow> repeatedSize f xs = repeatedSize g ys"
  by (simp add: repeatedSize_def foldl_add_sum cong: map_cong)

lemma structWriter_cong [fundef_cong]:
  "x = y \<Longrightarrow> f y = g y \<Longrightarrow> (\<And>w. h w y = k w y) \<Longrightarrow> structWriter f h w tag x = structWriter g k w tag y"
  by (simp add: structWriter_def)

lemma repeatedWriter_cong [fundef_cong]:
  assumes "xs = ys" and "\<And>w x. x \<in> set ys \<Longrightarrow> f w tag x = g w tag x"
  shows "repeatedWriter f w tag xs = repeatedWriter g w tag ys"
proof -
  have "go_fold (\<lambda>e res. f res tag e) ys = go_fold (\<lambda>e res. g res tag e) ys"
    using assms(2)
  proof (induction ys)
    case (Cons y ys)
    then have "go_fold (\<lambda>e res. f res tag e) ys = go_fold (\<lambda>e res. g res tag e) ys" by simp
    then show ?case using Cons.prems by (intro ext) simp
  qed (intro ext; simp)
  then show ?thesis by (simp add: repeatedWriter_def assms(1))
qed

lemma ptr_bytes_cong [fundef_cong]:
  "x = y \<Longrightarrow> (\<And>s. y = Some s \<Longrightarrow> f s = g s) \<Longrightarrow> ptr_bytes f x = ptr_bytes g y"
  by (cases y) (simp_all add: ptr_bytes_def)

lemma norm_ptr_cong [fundef_cong]:
  "x = y \<Longrightarrow> (\<And>s. y = Some s \<Longrightarrow> f s = g s) \<Longrightarrow> norm_ptr c f x = norm_ptr c g y"
  by (cases y) (simp_all add: norm_ptr_def)

section \<open>ToStruct as a least fixed point\<close>

text \<open>
  Each operation between \<^verbatim>\<open>ToStruct\<close> of a message and that of a message inside it is monotone in the latter.
\<close>

lemma run_bind_mono [partial_function_mono]:
  assumes "mono_option B" and "\<And>y. mono_option (\<lambda>f. C y f)"
  shows "mono_option (\<lambda>f. run_bind (B f) (\<lambda>y. C y f))"
  unfolding run_bind_def
proof (rule bind_mono [OF assms(1)])
  show "mono_option (\<lambda>f. case r of Ret x \<Rightarrow> C x f | Err e \<Rightarrow> Some (Err e) | Panic \<Rightarrow> Some Panic)" for r
    by (cases r) (simp_all add: assms(2) option.const_mono)
qed

lemma run_map_mono:
  "(\<And>x. mono_option (\<lambda>f. F f x)) \<Longrightarrow> mono_option (\<lambda>f. run_map (F f) xs)"
  by (induction xs) (simp_all add: option.const_mono run_bind_mono)

lemma structToStruct_mono [partial_function_mono]:
  "(\<And>x. mono_option (\<lambda>f. F f x)) \<Longrightarrow> mono_option (\<lambda>f. structToStruct (F f) data)"
  by (cases data) (simp_all add: structToStruct_def option.const_mono)

lemma repeatedToStruct_mono [partial_function_mono]:
  "(\<And>x. mono_option (\<lambda>f. F f x)) \<Longrightarrow> mono_option (\<lambda>f. repeatedToStruct (F f) data)"
  unfolding repeatedToStruct_def by (intro run_bind_mono run_map_mono structToStruct_mono option.const_mono)

lemma assignStruct_mono [partial_function_mono]:
  "(\<And>x. mono_option (\<lambda>f. F f x)) \<Longrightarrow> mono_option (\<lambda>f. assignStruct get (F f) upd put rm)"
  unfolding assignStruct_def case_prod_beta by (intro run_bind_mono option.const_mono)

lemma run_seq_mono [partial_function_mono]:
  "(\<And>x. mono_option (\<lambda>f. F f x)) \<Longrightarrow> (\<And>x. mono_option (\<lambda>f. run_seq (Fs f) x)) \<Longrightarrow>
   mono_option (\<lambda>f. run_seq (F f # Fs f) x)"
  by (simp add: run_bind_mono)

lemma toStructWith_mono [partial_function_mono]:
  "(\<And>x. mono_option (\<lambda>f. run_seq (Fs f) x)) \<Longrightarrow> mono_option (\<lambda>f. toStructWith (Fs f) blank m)"
  unfolding toStructWith_def
  by (cases m) (simp_all add: option.const_mono run_bind_mono case_prod_beta)

section \<open>A message field, for one value\<close>

lemma sized_struct_at:
  assumes "codec_at content norm contentSize marshalTo unm to_struct x"
  shows "(if c then sizeDelimitedWithTag contentSize tag x else 0) =
    int (length (fields_bytes (opt_field c (tag, WBytes (ptr_bytes content x)))))"
  by (intro length_opt structSize_at [OF assms])

lemma written_struct_at:
  assumes "codec_at content norm contentSize marshalTo unm to_struct x"
  shows "writes (\<lambda>w. if c then structWriter contentSize marshalTo w tag x else Ret w)
    (fields_bytes (opt_field c (tag, WBytes (ptr_bytes content x))))"
  by (intro writes_opt) (simp add: writes_def structWriter_at [OF assms] field_bytes_def)

lemma saved_struct_at:
  assumes "codec_at content norm contentSize marshalTo unm to_struct x"
    and "stores_cell sv tag setOffset sel" and "cellOffset (sel m0) = 0" and "\<not> cellParsed (sel m0)"
  shows "good_field sv p m0 tag (opt_field (x \<noteq> None) (tag, WBytes (ptr_bytes content x)))
    (\<lambda>m. cell_reads (structReader unm) (structToStruct to_struct) p (norm_ptr content norm x) (sel m))"
proof (rule good_cell_group [OF assms(2,3,4)])
  fix off
  assume h: "holds_at p off (fields_bytes (opt_field (x \<noteq> None) (tag, WBytes (ptr_bytes content x))))"
  show "\<exists>d d'. structReader unm (Some p)
        (run_save (\<lambda>_. setOffset) off (opt_field (x \<noteq> None) (tag, WBytes (ptr_bytes content x))) 0) = Some (Ret d) \<and>
      structToStruct to_struct d = Some (Ret (norm_ptr content norm x, d'))"
    using struct_opt_at [OF assms(1) h] by (simp add: run_save_one)
qed (simp add: opt_field_def)

lemma sized_structs_at:
  assumes "\<forall>x \<in> set xs. codec_at content norm contentSize marshalTo unm to_struct x"
  shows "(if xs \<noteq> [] then repeatedSize (sizeDelimitedWithTag contentSize tag) xs else 0) =
    int (length (fields_bytes (bytes_fields tag (map (ptr_bytes content) xs))))"
  by (rule length_list [where g = "\<lambda>xs. bytes_fields tag (map (ptr_bytes content) xs)"],
      rule repeatedStructSize_at [OF assms]) simp

lemma written_structs_at:
  assumes "\<forall>x \<in> set xs. codec_at content norm contentSize marshalTo unm to_struct x"
  shows "writes (\<lambda>w. if xs \<noteq> [] then repeatedWriter (structWriter contentSize marshalTo) w tag xs else Ret w)
    (fields_bytes (bytes_fields tag (map (ptr_bytes content) xs)))"
  by (rule writes_list [where g = "\<lambda>xs. bytes_fields tag (map (ptr_bytes content) xs)"])
    (simp_all add: writes_def repeatedStructWriter_at [OF assms])

lemma saved_structs_at:
  assumes "\<forall>x \<in> set xs. codec_at content norm contentSize marshalTo unm to_struct x"
    and "stores_cell sv tag addOffset sel" and "cellOffset (sel m0) = []" and "\<not> cellParsed (sel m0)"
  shows "good_field sv p m0 tag (bytes_fields tag (map (ptr_bytes content) xs))
    (\<lambda>m. cell_reads (readStructs unm) (repeatedToStruct to_struct) p (map (norm_ptr content norm) xs) (sel m))"
proof (rule good_cell_group [OF assms(2,3,4)])
  fix off
  assume h: "holds_at p off (fields_bytes (bytes_fields tag (map (ptr_bytes content) xs)))"
  show "\<exists>d d'. readStructs unm (Some p)
        (run_save (\<lambda>_. addOffset) off (bytes_fields tag (map (ptr_bytes content) xs)) []) = Some (Ret d) \<and>
      repeatedToStruct to_struct d = Some (Ret (map (norm_ptr content norm) xs, d'))"
    using repeatedStruct_at [OF assms(1) h, of "[]"] by (simp add: run_save_many readStructs_def)
qed (use bytes_fields_tagged in \<open>simp add: bytes_fields_def\<close>)

text \<open>A type that keeps its promise for every value is a message type.\<close>

lemma message_codecI:
  assumes "\<And>x. codec_at content norm contentSize marshalTo unm to_struct x"
  shows "message_codec content norm contentSize marshalTo unm to_struct"
proof
  fix x w d s
  show "contentSize x = int (length (ptr_bytes content x))" and "wf_writer w \<Longrightarrow> marshalTo w x = writeBytes w (ptr_bytes content x)"
    using assms [of x] by (simp_all add: codec_at_def)
  show "\<exists>r r'. unm d = Some (Ret (r, None)) \<and> to_struct (Some r) = Some (Ret (Some (norm s), Some r'))"
    if "elems d = fields_bytes (content s)" "slen d + 10 < 2 ^ 63"
    using assms [of "Some s"] that by (simp add: codec_at_def decodes_to_def)
qed

end
