(* ===== verification/NestedTestAllTypes_Message.thy ===== *)
theory NestedTestAllTypes_Message
  imports TestAllTypes_Message Recursive_Kinds
begin

text \<open>
  The message type \<^verbatim>\<open>NestedTestAllTypes\<close> of
  \<^verbatim>\<open>src/shared/gremlin_go/bench/gremlin_pb/protobuf_unittest/unittest.pb2.go\<close>, a tree: it contains itself in single fields and in a list, and large messages at every node.
\<close>

section \<open>NestedTestAllTypes: the reader\<close>

definition wireNestedTestAllTypes_Child :: ProtoWireNumber where "wireNestedTestAllTypes_Child = 1"
definition wireNestedTestAllTypes_Payload :: ProtoWireNumber where "wireNestedTestAllTypes_Payload = 2"
definition wireNestedTestAllTypes_RepeatedChild :: ProtoWireNumber where "wireNestedTestAllTypes_RepeatedChild = 3"
definition wireNestedTestAllTypes_LazyChild :: ProtoWireNumber where "wireNestedTestAllTypes_LazyChild = 4"
definition wireNestedTestAllTypes_EagerChild :: ProtoWireNumber where "wireNestedTestAllTypes_EagerChild = 5"

lemmas wireNestedTestAllTypes =
  wireNestedTestAllTypes_Child_def wireNestedTestAllTypes_Payload_def
  wireNestedTestAllTypes_RepeatedChild_def wireNestedTestAllTypes_LazyChild_def
  wireNestedTestAllTypes_EagerChild_def

text \<open>A reader holds readers of its own type, so it is a datatype; the cells of its fields are views of it.\<close>

datatype NestedTestAllTypesReader = NestedTestAllTypesReader (mbuf: "Reader option")
  (dataChild: "NestedTestAllTypesReader option") (dataPayload: "TestAllTypesReader option") (dataRepeatedChild: "(NestedTestAllTypesReader option) list") (dataLazyChild: "NestedTestAllTypesReader option") (dataEagerChild: "TestAllTypesReader option")
  (offsetChild: int) (offsetPayload: int) (offsetRepeatedChild: "int list") (offsetLazyChild: int) (offsetEagerChild: int)
  (parsedChild: bool) (parsedPayload: bool) (parsedRepeatedChild: bool) (parsedLazyChild: bool) (parsedEagerChild: bool)

definition cellChild :: "NestedTestAllTypesReader \<Rightarrow> (NestedTestAllTypesReader option) one_cell" where
  "cellChild m = \<lparr>cellData = dataChild m, cellOffset = offsetChild m, cellParsed = parsedChild m\<rparr>"

definition cellPayload :: "NestedTestAllTypesReader \<Rightarrow> (TestAllTypesReader option) one_cell" where
  "cellPayload m = \<lparr>cellData = dataPayload m, cellOffset = offsetPayload m, cellParsed = parsedPayload m\<rparr>"

definition cellRepeatedChild :: "NestedTestAllTypesReader \<Rightarrow> (NestedTestAllTypesReader option) list_cell" where
  "cellRepeatedChild m = \<lparr>cellData = dataRepeatedChild m, cellOffset = offsetRepeatedChild m, cellParsed = parsedRepeatedChild m\<rparr>"

definition cellLazyChild :: "NestedTestAllTypesReader \<Rightarrow> (NestedTestAllTypesReader option) one_cell" where
  "cellLazyChild m = \<lparr>cellData = dataLazyChild m, cellOffset = offsetLazyChild m, cellParsed = parsedLazyChild m\<rparr>"

definition cellEagerChild :: "NestedTestAllTypesReader \<Rightarrow> (TestAllTypesReader option) one_cell" where
  "cellEagerChild m = \<lparr>cellData = dataEagerChild m, cellOffset = offsetEagerChild m, cellParsed = parsedEagerChild m\<rparr>"

definition cellChild_update :: "((NestedTestAllTypesReader option) one_cell \<Rightarrow> (NestedTestAllTypesReader option) one_cell) \<Rightarrow> NestedTestAllTypesReader \<Rightarrow> NestedTestAllTypesReader" where
  "cellChild_update f m = (let c = f (cellChild m) in
     NestedTestAllTypesReader (mbuf m) (cellData c) (dataPayload m) (dataRepeatedChild m) (dataLazyChild m) (dataEagerChild m) (cellOffset c) (offsetPayload m) (offsetRepeatedChild m) (offsetLazyChild m) (offsetEagerChild m) (cellParsed c) (parsedPayload m) (parsedRepeatedChild m) (parsedLazyChild m) (parsedEagerChild m))"

definition cellPayload_update :: "((TestAllTypesReader option) one_cell \<Rightarrow> (TestAllTypesReader option) one_cell) \<Rightarrow> NestedTestAllTypesReader \<Rightarrow> NestedTestAllTypesReader" where
  "cellPayload_update f m = (let c = f (cellPayload m) in
     NestedTestAllTypesReader (mbuf m) (dataChild m) (cellData c) (dataRepeatedChild m) (dataLazyChild m) (dataEagerChild m) (offsetChild m) (cellOffset c) (offsetRepeatedChild m) (offsetLazyChild m) (offsetEagerChild m) (parsedChild m) (cellParsed c) (parsedRepeatedChild m) (parsedLazyChild m) (parsedEagerChild m))"

definition cellRepeatedChild_update :: "((NestedTestAllTypesReader option) list_cell \<Rightarrow> (NestedTestAllTypesReader option) list_cell) \<Rightarrow> NestedTestAllTypesReader \<Rightarrow> NestedTestAllTypesReader" where
  "cellRepeatedChild_update f m = (let c = f (cellRepeatedChild m) in
     NestedTestAllTypesReader (mbuf m) (dataChild m) (dataPayload m) (cellData c) (dataLazyChild m) (dataEagerChild m) (offsetChild m) (offsetPayload m) (cellOffset c) (offsetLazyChild m) (offsetEagerChild m) (parsedChild m) (parsedPayload m) (cellParsed c) (parsedLazyChild m) (parsedEagerChild m))"

definition cellLazyChild_update :: "((NestedTestAllTypesReader option) one_cell \<Rightarrow> (NestedTestAllTypesReader option) one_cell) \<Rightarrow> NestedTestAllTypesReader \<Rightarrow> NestedTestAllTypesReader" where
  "cellLazyChild_update f m = (let c = f (cellLazyChild m) in
     NestedTestAllTypesReader (mbuf m) (dataChild m) (dataPayload m) (dataRepeatedChild m) (cellData c) (dataEagerChild m) (offsetChild m) (offsetPayload m) (offsetRepeatedChild m) (cellOffset c) (offsetEagerChild m) (parsedChild m) (parsedPayload m) (parsedRepeatedChild m) (cellParsed c) (parsedEagerChild m))"

definition cellEagerChild_update :: "((TestAllTypesReader option) one_cell \<Rightarrow> (TestAllTypesReader option) one_cell) \<Rightarrow> NestedTestAllTypesReader \<Rightarrow> NestedTestAllTypesReader" where
  "cellEagerChild_update f m = (let c = f (cellEagerChild m) in
     NestedTestAllTypesReader (mbuf m) (dataChild m) (dataPayload m) (dataRepeatedChild m) (dataLazyChild m) (cellData c) (offsetChild m) (offsetPayload m) (offsetRepeatedChild m) (offsetLazyChild m) (cellOffset c) (parsedChild m) (parsedPayload m) (parsedRepeatedChild m) (parsedLazyChild m) (cellParsed c))"

definition mbuf_update :: "(Reader option \<Rightarrow> Reader option) \<Rightarrow> NestedTestAllTypesReader \<Rightarrow> NestedTestAllTypesReader" where
  "mbuf_update f m = NestedTestAllTypesReader (f (mbuf m)) (dataChild m) (dataPayload m) (dataRepeatedChild m) (dataLazyChild m) (dataEagerChild m) (offsetChild m) (offsetPayload m) (offsetRepeatedChild m) (offsetLazyChild m) (offsetEagerChild m) (parsedChild m) (parsedPayload m) (parsedRepeatedChild m) (parsedLazyChild m) (parsedEagerChild m)"

lemma NestedTestAllTypes_cells [simp]:
  "cellChild (cellChild_update f0 m) = f0 (cellChild m)"
  "cellPayload (cellChild_update f0 m) = cellPayload m"
  "cellRepeatedChild (cellChild_update f0 m) = cellRepeatedChild m"
  "cellLazyChild (cellChild_update f0 m) = cellLazyChild m"
  "cellEagerChild (cellChild_update f0 m) = cellEagerChild m"
  "mbuf (cellChild_update f0 m) = mbuf m"
  "cellChild (mbuf_update f m) = cellChild m"
  "cellChild (cellPayload_update f1 m) = cellChild m"
  "cellPayload (cellPayload_update f1 m) = f1 (cellPayload m)"
  "cellRepeatedChild (cellPayload_update f1 m) = cellRepeatedChild m"
  "cellLazyChild (cellPayload_update f1 m) = cellLazyChild m"
  "cellEagerChild (cellPayload_update f1 m) = cellEagerChild m"
  "mbuf (cellPayload_update f1 m) = mbuf m"
  "cellPayload (mbuf_update f m) = cellPayload m"
  "cellChild (cellRepeatedChild_update f2 m) = cellChild m"
  "cellPayload (cellRepeatedChild_update f2 m) = cellPayload m"
  "cellRepeatedChild (cellRepeatedChild_update f2 m) = f2 (cellRepeatedChild m)"
  "cellLazyChild (cellRepeatedChild_update f2 m) = cellLazyChild m"
  "cellEagerChild (cellRepeatedChild_update f2 m) = cellEagerChild m"
  "mbuf (cellRepeatedChild_update f2 m) = mbuf m"
  "cellRepeatedChild (mbuf_update f m) = cellRepeatedChild m"
  "cellChild (cellLazyChild_update f3 m) = cellChild m"
  "cellPayload (cellLazyChild_update f3 m) = cellPayload m"
  "cellRepeatedChild (cellLazyChild_update f3 m) = cellRepeatedChild m"
  "cellLazyChild (cellLazyChild_update f3 m) = f3 (cellLazyChild m)"
  "cellEagerChild (cellLazyChild_update f3 m) = cellEagerChild m"
  "mbuf (cellLazyChild_update f3 m) = mbuf m"
  "cellLazyChild (mbuf_update f m) = cellLazyChild m"
  "cellChild (cellEagerChild_update f4 m) = cellChild m"
  "cellPayload (cellEagerChild_update f4 m) = cellPayload m"
  "cellRepeatedChild (cellEagerChild_update f4 m) = cellRepeatedChild m"
  "cellLazyChild (cellEagerChild_update f4 m) = cellLazyChild m"
  "cellEagerChild (cellEagerChild_update f4 m) = f4 (cellEagerChild m)"
  "mbuf (cellEagerChild_update f4 m) = mbuf m"
  "cellEagerChild (mbuf_update f m) = cellEagerChild m"
  "mbuf (mbuf_update f m) = f (mbuf m)"
  by (simp_all add: Let_def cellChild_def cellChild_update_def cellPayload_def cellPayload_update_def cellRepeatedChild_def cellRepeatedChild_update_def cellLazyChild_def cellLazyChild_update_def cellEagerChild_def cellEagerChild_update_def mbuf_update_def)

definition NewNestedTestAllTypesReader :: NestedTestAllTypesReader where
  "NewNestedTestAllTypesReader = NestedTestAllTypesReader None None None [] None None 0 0 [] 0 0 False False False False False"

lemma NewNestedTestAllTypes_cells [simp]:
  "mbuf NewNestedTestAllTypesReader = None" "cellChild NewNestedTestAllTypesReader = newCell None 0" "cellPayload NewNestedTestAllTypesReader = newCell None 0" "cellRepeatedChild NewNestedTestAllTypesReader = newCell [] []" "cellLazyChild NewNestedTestAllTypesReader = newCell None 0" "cellEagerChild NewNestedTestAllTypesReader = newCell None 0"
  by (simp_all add: NewNestedTestAllTypesReader_def cellChild_def cellPayload_def cellRepeatedChild_def cellLazyChild_def cellEagerChild_def newCell_def)

definition NestedTestAllTypesReader_cases :: "ProtoWireType \<Rightarrow> int \<Rightarrow> (ProtoWireNumber \<times> (NestedTestAllTypesReader \<Rightarrow> NestedTestAllTypesReader)) list" where
  "NestedTestAllTypesReader_cases wire offset = [
     (wireNestedTestAllTypes_Child, \<lambda>m. m\<lparr>cellChild := onOffset (setOffset wire offset) (cellChild m)\<rparr>),
     (wireNestedTestAllTypes_Payload, \<lambda>m. m\<lparr>cellPayload := onOffset (setOffset wire offset) (cellPayload m)\<rparr>),
     (wireNestedTestAllTypes_RepeatedChild, \<lambda>m. m\<lparr>cellRepeatedChild := onOffset (addOffset wire offset) (cellRepeatedChild m)\<rparr>),
     (wireNestedTestAllTypes_LazyChild, \<lambda>m. m\<lparr>cellLazyChild := onOffset (setOffset wire offset) (cellLazyChild m)\<rparr>),
     (wireNestedTestAllTypes_EagerChild, \<lambda>m. m\<lparr>cellEagerChild := onOffset (setOffset wire offset) (cellEagerChild m)\<rparr>)]"

definition NestedTestAllTypesReader_save :: "ProtoWireNumber \<Rightarrow> ProtoWireType \<Rightarrow> int \<Rightarrow> NestedTestAllTypesReader \<Rightarrow> NestedTestAllTypesReader" where
  "NestedTestAllTypesReader_save tag wire offset = tag_switch (NestedTestAllTypesReader_cases wire offset) tag"

definition NestedTestAllTypesReader_Unmarshal :: "NestedTestAllTypesReader \<Rightarrow> gslice \<Rightarrow> (NestedTestAllTypesReader \<times> string option) run" where
  "NestedTestAllTypesReader_Unmarshal m data =
     unmarshalLoop NestedTestAllTypesReader_save (NewReader data) 0 (m\<lparr>mbuf := Some (NewReader data)\<rparr>)"

definition NestedTestAllTypesReader_SourceBytes :: "NestedTestAllTypesReader option \<Rightarrow> gslice" where
  "NestedTestAllTypesReader_SourceBytes s = (case s of None \<Rightarrow> nil_slice | Some r \<Rightarrow> Bytes (mbuf r))"

definition NestedTestAllTypesReader_readChild :: "NestedTestAllTypesReader \<Rightarrow> (NestedTestAllTypesReader option \<times> NestedTestAllTypesReader) run" where
  "NestedTestAllTypesReader_readChild = readCell cellChild cellChild_update mbuf (structReader (NestedTestAllTypesReader_Unmarshal NewNestedTestAllTypesReader))"

definition NestedTestAllTypesReader_GetChild :: "NestedTestAllTypesReader option \<Rightarrow> (NestedTestAllTypesReader option \<times> NestedTestAllTypesReader option) run" where
  "NestedTestAllTypesReader_GetChild = getter NestedTestAllTypesReader_readChild None"

definition NestedTestAllTypesReader_readPayload :: "NestedTestAllTypesReader \<Rightarrow> (TestAllTypesReader option \<times> NestedTestAllTypesReader) run" where
  "NestedTestAllTypesReader_readPayload = readCell cellPayload cellPayload_update mbuf (structReader (TestAllTypesReader_Unmarshal NewTestAllTypesReader))"

definition NestedTestAllTypesReader_GetPayload :: "NestedTestAllTypesReader option \<Rightarrow> (TestAllTypesReader option \<times> NestedTestAllTypesReader option) run" where
  "NestedTestAllTypesReader_GetPayload = getter NestedTestAllTypesReader_readPayload None"

definition NestedTestAllTypesReader_readRepeatedChild :: "NestedTestAllTypesReader \<Rightarrow> ((NestedTestAllTypesReader option) list \<times> NestedTestAllTypesReader) run" where
  "NestedTestAllTypesReader_readRepeatedChild = readCell cellRepeatedChild cellRepeatedChild_update mbuf (readStructs (NestedTestAllTypesReader_Unmarshal NewNestedTestAllTypesReader))"

definition NestedTestAllTypesReader_GetRepeatedChild :: "NestedTestAllTypesReader option \<Rightarrow> ((NestedTestAllTypesReader option) list \<times> NestedTestAllTypesReader option) run" where
  "NestedTestAllTypesReader_GetRepeatedChild = getter NestedTestAllTypesReader_readRepeatedChild []"

definition NestedTestAllTypesReader_readLazyChild :: "NestedTestAllTypesReader \<Rightarrow> (NestedTestAllTypesReader option \<times> NestedTestAllTypesReader) run" where
  "NestedTestAllTypesReader_readLazyChild = readCell cellLazyChild cellLazyChild_update mbuf (structReader (NestedTestAllTypesReader_Unmarshal NewNestedTestAllTypesReader))"

definition NestedTestAllTypesReader_GetLazyChild :: "NestedTestAllTypesReader option \<Rightarrow> (NestedTestAllTypesReader option \<times> NestedTestAllTypesReader option) run" where
  "NestedTestAllTypesReader_GetLazyChild = getter NestedTestAllTypesReader_readLazyChild None"

definition NestedTestAllTypesReader_readEagerChild :: "NestedTestAllTypesReader \<Rightarrow> (TestAllTypesReader option \<times> NestedTestAllTypesReader) run" where
  "NestedTestAllTypesReader_readEagerChild = readCell cellEagerChild cellEagerChild_update mbuf (structReader (TestAllTypesReader_Unmarshal NewTestAllTypesReader))"

definition NestedTestAllTypesReader_GetEagerChild :: "NestedTestAllTypesReader option \<Rightarrow> (TestAllTypesReader option \<times> NestedTestAllTypesReader option) run" where
  "NestedTestAllTypesReader_GetEagerChild = getter NestedTestAllTypesReader_readEagerChild None"

lemmas NestedTestAllTypes_getters =
  NestedTestAllTypesReader_readChild_def NestedTestAllTypesReader_GetChild_def
  NestedTestAllTypesReader_readPayload_def NestedTestAllTypesReader_GetPayload_def
  NestedTestAllTypesReader_readRepeatedChild_def NestedTestAllTypesReader_GetRepeatedChild_def
  NestedTestAllTypesReader_readLazyChild_def NestedTestAllTypesReader_GetLazyChild_def
  NestedTestAllTypesReader_readEagerChild_def NestedTestAllTypesReader_GetEagerChild_def

section \<open>NestedTestAllTypes: the struct\<close>

datatype NestedTestAllTypes = NestedTestAllTypes (Child: "NestedTestAllTypes option") (Payload: "TestAllTypes option") (RepeatedChild: "(NestedTestAllTypes option) list") (LazyChild: "NestedTestAllTypes option") (EagerChild: "TestAllTypes option")

definition Child_update :: "(NestedTestAllTypes option \<Rightarrow> NestedTestAllTypes option) \<Rightarrow> NestedTestAllTypes \<Rightarrow> NestedTestAllTypes" where
  "Child_update f s = NestedTestAllTypes (f (Child s)) (Payload s) (RepeatedChild s) (LazyChild s) (EagerChild s)"

definition Payload_update :: "(TestAllTypes option \<Rightarrow> TestAllTypes option) \<Rightarrow> NestedTestAllTypes \<Rightarrow> NestedTestAllTypes" where
  "Payload_update f s = NestedTestAllTypes (Child s) (f (Payload s)) (RepeatedChild s) (LazyChild s) (EagerChild s)"

definition RepeatedChild_update :: "((NestedTestAllTypes option) list \<Rightarrow> (NestedTestAllTypes option) list) \<Rightarrow> NestedTestAllTypes \<Rightarrow> NestedTestAllTypes" where
  "RepeatedChild_update f s = NestedTestAllTypes (Child s) (Payload s) (f (RepeatedChild s)) (LazyChild s) (EagerChild s)"

definition LazyChild_update :: "(NestedTestAllTypes option \<Rightarrow> NestedTestAllTypes option) \<Rightarrow> NestedTestAllTypes \<Rightarrow> NestedTestAllTypes" where
  "LazyChild_update f s = NestedTestAllTypes (Child s) (Payload s) (RepeatedChild s) (f (LazyChild s)) (EagerChild s)"

definition EagerChild_update :: "(TestAllTypes option \<Rightarrow> TestAllTypes option) \<Rightarrow> NestedTestAllTypes \<Rightarrow> NestedTestAllTypes" where
  "EagerChild_update f s = NestedTestAllTypes (Child s) (Payload s) (RepeatedChild s) (LazyChild s) (f (EagerChild s))"

definition NestedTestAllTypes_zero :: NestedTestAllTypes where
  "NestedTestAllTypes_zero = NestedTestAllTypes None None [] None None"

fun NestedTestAllTypes_XXX_PbContentSize :: "NestedTestAllTypes option \<Rightarrow> int" where
  "NestedTestAllTypes_XXX_PbContentSize None = 0"
| "NestedTestAllTypes_XXX_PbContentSize (Some (NestedTestAllTypes x0 x1 x2 x3 x4)) = sum_list [
     if x0 \<noteq> None then sizeDelimitedWithTag NestedTestAllTypes_XXX_PbContentSize wireNestedTestAllTypes_Child x0 else 0,
     if x1 \<noteq> None then sizeDelimitedWithTag TestAllTypes_XXX_PbContentSize wireNestedTestAllTypes_Payload x1 else 0,
     if x2 \<noteq> [] then repeatedSize (sizeDelimitedWithTag NestedTestAllTypes_XXX_PbContentSize wireNestedTestAllTypes_RepeatedChild) x2 else 0,
     if x3 \<noteq> None then sizeDelimitedWithTag NestedTestAllTypes_XXX_PbContentSize wireNestedTestAllTypes_LazyChild x3 else 0,
     if x4 \<noteq> None then sizeDelimitedWithTag TestAllTypes_XXX_PbContentSize wireNestedTestAllTypes_EagerChild x4 else 0]"

fun NestedTestAllTypes_MarshalTo :: "Writer \<Rightarrow> NestedTestAllTypes option \<Rightarrow> Writer go" where
  "NestedTestAllTypes_MarshalTo res None = Ret res"
| "NestedTestAllTypes_MarshalTo res (Some (NestedTestAllTypes x0 x1 x2 x3 x4)) = go_seq [
     \<lambda>res. if x0 \<noteq> None then structWriter NestedTestAllTypes_XXX_PbContentSize NestedTestAllTypes_MarshalTo res wireNestedTestAllTypes_Child x0 else Ret res,
     \<lambda>res. if x1 \<noteq> None then structWriter TestAllTypes_XXX_PbContentSize TestAllTypes_MarshalTo res wireNestedTestAllTypes_Payload x1 else Ret res,
     \<lambda>res. if x2 \<noteq> [] then repeatedWriter (structWriter NestedTestAllTypes_XXX_PbContentSize NestedTestAllTypes_MarshalTo) res wireNestedTestAllTypes_RepeatedChild x2 else Ret res,
     \<lambda>res. if x3 \<noteq> None then structWriter NestedTestAllTypes_XXX_PbContentSize NestedTestAllTypes_MarshalTo res wireNestedTestAllTypes_LazyChild x3 else Ret res,
     \<lambda>res. if x4 \<noteq> None then structWriter TestAllTypes_XXX_PbContentSize TestAllTypes_MarshalTo res wireNestedTestAllTypes_EagerChild x4 else Ret res] res"

definition NestedTestAllTypes_Marshal :: "NestedTestAllTypes option \<Rightarrow> byte list go" where
  "NestedTestAllTypes_Marshal = marshalWith NestedTestAllTypes_XXX_PbContentSize NestedTestAllTypes_MarshalTo"

fun NestedTestAllTypes_Copy :: "NestedTestAllTypes option \<Rightarrow> NestedTestAllTypes option" where
  "NestedTestAllTypes_Copy None = None"
| "NestedTestAllTypes_Copy (Some (NestedTestAllTypes x0 x1 x2 x3 x4)) = Some (NestedTestAllTypes
     (case x0 of None \<Rightarrow> None | Some x \<Rightarrow> NestedTestAllTypes_Copy (Some x))
     (case x1 of None \<Rightarrow> None | Some x \<Rightarrow> TestAllTypes_Copy (Some x))
     (map (\<lambda>e. case e of None \<Rightarrow> None | Some x \<Rightarrow> NestedTestAllTypes_Copy (Some x)) x2)
     (case x3 of None \<Rightarrow> None | Some x \<Rightarrow> NestedTestAllTypes_Copy (Some x))
     (case x4 of None \<Rightarrow> None | Some x \<Rightarrow> TestAllTypes_Copy (Some x)))"

partial_function (option) NestedTestAllTypesReader_ToStruct :: "NestedTestAllTypesReader option \<Rightarrow> (NestedTestAllTypes option \<times> NestedTestAllTypesReader option) go option" where
  "NestedTestAllTypesReader_ToStruct m = toStructWith [
     assignStruct NestedTestAllTypesReader_GetChild (structToStruct NestedTestAllTypesReader_ToStruct) cellChild_update
       (\<lambda>v res. res\<lparr>Child := v\<rparr>),
     assignStruct NestedTestAllTypesReader_GetPayload (structToStruct TestAllTypesReader_ToStruct) cellPayload_update
       (\<lambda>v res. res\<lparr>Payload := v\<rparr>),
     assignStruct NestedTestAllTypesReader_GetRepeatedChild (repeatedToStruct NestedTestAllTypesReader_ToStruct) cellRepeatedChild_update
       (\<lambda>v res. res\<lparr>RepeatedChild := v\<rparr>),
     assignStruct NestedTestAllTypesReader_GetLazyChild (structToStruct NestedTestAllTypesReader_ToStruct) cellLazyChild_update
       (\<lambda>v res. res\<lparr>LazyChild := v\<rparr>),
     assignStruct NestedTestAllTypesReader_GetEagerChild (structToStruct TestAllTypesReader_ToStruct) cellEagerChild_update
       (\<lambda>v res. res\<lparr>EagerChild := v\<rparr>)] NestedTestAllTypes_zero m"

section \<open>NestedTestAllTypes: the round trip\<close>

fun NestedTestAllTypes_content :: "NestedTestAllTypes \<Rightarrow> wfield list" where
  "NestedTestAllTypes_content (NestedTestAllTypes x0 x1 x2 x3 x4) = concat [
     opt_field (x0 \<noteq> None) (wireNestedTestAllTypes_Child, WBytes (ptr_bytes NestedTestAllTypes_content x0)),
     opt_field (x1 \<noteq> None) (wireNestedTestAllTypes_Payload, WBytes (ptr_bytes TestAllTypes_content x1)),
     bytes_fields wireNestedTestAllTypes_RepeatedChild (map (ptr_bytes NestedTestAllTypes_content) x2),
     opt_field (x3 \<noteq> None) (wireNestedTestAllTypes_LazyChild, WBytes (ptr_bytes NestedTestAllTypes_content x3)),
     opt_field (x4 \<noteq> None) (wireNestedTestAllTypes_EagerChild, WBytes (ptr_bytes TestAllTypes_content x4))]"

text \<open>What a round trip keeps.\<close>

fun NestedTestAllTypes_norm :: "NestedTestAllTypes \<Rightarrow> NestedTestAllTypes" where
  "NestedTestAllTypes_norm (NestedTestAllTypes x0 x1 x2 x3 x4) = NestedTestAllTypes
     (norm_ptr NestedTestAllTypes_content NestedTestAllTypes_norm x0)
     (norm_ptr TestAllTypes_content TestAllTypes_norm x1)
     (map (norm_ptr NestedTestAllTypes_content NestedTestAllTypes_norm) x2)
     (norm_ptr NestedTestAllTypes_content NestedTestAllTypes_norm x3)
     (norm_ptr TestAllTypes_content TestAllTypes_norm x4)"

definition NestedTestAllTypes_tags :: "ProtoWireNumber list" where
  "NestedTestAllTypes_tags = [
     wireNestedTestAllTypes_Child, wireNestedTestAllTypes_Payload,
     wireNestedTestAllTypes_RepeatedChild, wireNestedTestAllTypes_LazyChild,
     wireNestedTestAllTypes_EagerChild]"

definition NestedTestAllTypes_groups :: "NestedTestAllTypes \<Rightarrow> wfield list list" where
  "NestedTestAllTypes_groups s = [
     opt_field (Child s \<noteq> None) (wireNestedTestAllTypes_Child, WBytes (ptr_bytes NestedTestAllTypes_content (Child s))),
     opt_field (Payload s \<noteq> None) (wireNestedTestAllTypes_Payload, WBytes (ptr_bytes TestAllTypes_content (Payload s))),
     bytes_fields wireNestedTestAllTypes_RepeatedChild (map (ptr_bytes NestedTestAllTypes_content) (RepeatedChild s)),
     opt_field (LazyChild s \<noteq> None) (wireNestedTestAllTypes_LazyChild, WBytes (ptr_bytes NestedTestAllTypes_content (LazyChild s))),
     opt_field (EagerChild s \<noteq> None) (wireNestedTestAllTypes_EagerChild, WBytes (ptr_bytes TestAllTypes_content (EagerChild s)))]"

definition NestedTestAllTypes_sizes :: "NestedTestAllTypes \<Rightarrow> int list" where
  "NestedTestAllTypes_sizes s = [
     if Child s \<noteq> None then sizeDelimitedWithTag NestedTestAllTypes_XXX_PbContentSize wireNestedTestAllTypes_Child (Child s) else 0,
     if Payload s \<noteq> None then sizeDelimitedWithTag TestAllTypes_XXX_PbContentSize wireNestedTestAllTypes_Payload (Payload s) else 0,
     if RepeatedChild s \<noteq> [] then repeatedSize (sizeDelimitedWithTag NestedTestAllTypes_XXX_PbContentSize wireNestedTestAllTypes_RepeatedChild) (RepeatedChild s) else 0,
     if LazyChild s \<noteq> None then sizeDelimitedWithTag NestedTestAllTypes_XXX_PbContentSize wireNestedTestAllTypes_LazyChild (LazyChild s) else 0,
     if EagerChild s \<noteq> None then sizeDelimitedWithTag TestAllTypes_XXX_PbContentSize wireNestedTestAllTypes_EagerChild (EagerChild s) else 0]"

definition NestedTestAllTypes_appends :: "NestedTestAllTypes \<Rightarrow> (Writer \<Rightarrow> Writer go) list" where
  "NestedTestAllTypes_appends s = [
     \<lambda>res. if Child s \<noteq> None then structWriter NestedTestAllTypes_XXX_PbContentSize NestedTestAllTypes_MarshalTo res wireNestedTestAllTypes_Child (Child s) else Ret res,
     \<lambda>res. if Payload s \<noteq> None then structWriter TestAllTypes_XXX_PbContentSize TestAllTypes_MarshalTo res wireNestedTestAllTypes_Payload (Payload s) else Ret res,
     \<lambda>res. if RepeatedChild s \<noteq> [] then repeatedWriter (structWriter NestedTestAllTypes_XXX_PbContentSize NestedTestAllTypes_MarshalTo) res wireNestedTestAllTypes_RepeatedChild (RepeatedChild s) else Ret res,
     \<lambda>res. if LazyChild s \<noteq> None then structWriter NestedTestAllTypes_XXX_PbContentSize NestedTestAllTypes_MarshalTo res wireNestedTestAllTypes_LazyChild (LazyChild s) else Ret res,
     \<lambda>res. if EagerChild s \<noteq> None then structWriter TestAllTypes_XXX_PbContentSize TestAllTypes_MarshalTo res wireNestedTestAllTypes_EagerChild (EagerChild s) else Ret res]"

definition NestedTestAllTypes_stmts :: "(NestedTestAllTypes \<times> NestedTestAllTypesReader option \<Rightarrow> (NestedTestAllTypes \<times> NestedTestAllTypesReader option) run) list" where
  "NestedTestAllTypes_stmts = [
     assignStruct NestedTestAllTypesReader_GetChild (structToStruct NestedTestAllTypesReader_ToStruct) cellChild_update
       (\<lambda>v res. res\<lparr>Child := v\<rparr>),
     assignStruct NestedTestAllTypesReader_GetPayload (structToStruct TestAllTypesReader_ToStruct) cellPayload_update
       (\<lambda>v res. res\<lparr>Payload := v\<rparr>),
     assignStruct NestedTestAllTypesReader_GetRepeatedChild (repeatedToStruct NestedTestAllTypesReader_ToStruct) cellRepeatedChild_update
       (\<lambda>v res. res\<lparr>RepeatedChild := v\<rparr>),
     assignStruct NestedTestAllTypesReader_GetLazyChild (structToStruct NestedTestAllTypesReader_ToStruct) cellLazyChild_update
       (\<lambda>v res. res\<lparr>LazyChild := v\<rparr>),
     assignStruct NestedTestAllTypesReader_GetEagerChild (structToStruct TestAllTypesReader_ToStruct) cellEagerChild_update
       (\<lambda>v res. res\<lparr>EagerChild := v\<rparr>)]"

definition NestedTestAllTypes_ready :: "Reader \<Rightarrow> NestedTestAllTypes \<Rightarrow> (NestedTestAllTypesReader \<Rightarrow> bool) list" where
  "NestedTestAllTypes_ready p s = [
     \<lambda>m. cell_reads (structReader (NestedTestAllTypesReader_Unmarshal NewNestedTestAllTypesReader)) (structToStruct NestedTestAllTypesReader_ToStruct) p (norm_ptr NestedTestAllTypes_content NestedTestAllTypes_norm (Child s)) (cellChild m),
     \<lambda>m. cell_reads (structReader (TestAllTypesReader_Unmarshal NewTestAllTypesReader)) (structToStruct TestAllTypesReader_ToStruct) p (norm_ptr TestAllTypes_content TestAllTypes_norm (Payload s)) (cellPayload m),
     \<lambda>m. cell_reads (readStructs (NestedTestAllTypesReader_Unmarshal NewNestedTestAllTypesReader)) (repeatedToStruct NestedTestAllTypesReader_ToStruct) p (map (norm_ptr NestedTestAllTypes_content NestedTestAllTypes_norm) (RepeatedChild s)) (cellRepeatedChild m),
     \<lambda>m. cell_reads (structReader (NestedTestAllTypesReader_Unmarshal NewNestedTestAllTypesReader)) (structToStruct NestedTestAllTypesReader_ToStruct) p (norm_ptr NestedTestAllTypes_content NestedTestAllTypes_norm (LazyChild s)) (cellLazyChild m),
     \<lambda>m. cell_reads (structReader (TestAllTypesReader_Unmarshal NewTestAllTypesReader)) (structToStruct TestAllTypesReader_ToStruct) p (norm_ptr TestAllTypes_content TestAllTypes_norm (EagerChild s)) (cellEagerChild m)]"

definition NestedTestAllTypes_stored :: "NestedTestAllTypes \<Rightarrow> (NestedTestAllTypes \<Rightarrow> NestedTestAllTypes) list" where
  "NestedTestAllTypes_stored s = [
     \<lambda>res. res\<lparr>Child := norm_ptr NestedTestAllTypes_content NestedTestAllTypes_norm (Child s)\<rparr>,
     \<lambda>res. res\<lparr>Payload := norm_ptr TestAllTypes_content TestAllTypes_norm (Payload s)\<rparr>,
     \<lambda>res. res\<lparr>RepeatedChild := map (norm_ptr NestedTestAllTypes_content NestedTestAllTypes_norm) (RepeatedChild s)\<rparr>,
     \<lambda>res. res\<lparr>LazyChild := norm_ptr NestedTestAllTypes_content NestedTestAllTypes_norm (LazyChild s)\<rparr>,
     \<lambda>res. res\<lparr>EagerChild := norm_ptr TestAllTypes_content TestAllTypes_norm (EagerChild s)\<rparr>]"

lemma NestedTestAllTypes_unfold:
  "NestedTestAllTypes_content s = concat (NestedTestAllTypes_groups s)" "NestedTestAllTypes_XXX_PbContentSize (Some s) = sum_list (NestedTestAllTypes_sizes s)"
  "NestedTestAllTypes_MarshalTo w (Some s) = go_seq (NestedTestAllTypes_appends s) w" "NestedTestAllTypesReader_ToStruct = toStructWith NestedTestAllTypes_stmts NestedTestAllTypes_zero"
proof -
  show "NestedTestAllTypes_content s = concat (NestedTestAllTypes_groups s)" by (cases s) (simp add: NestedTestAllTypes_groups_def)
  show "NestedTestAllTypes_XXX_PbContentSize (Some s) = sum_list (NestedTestAllTypes_sizes s)" by (cases s) (simp add: NestedTestAllTypes_sizes_def)
  show "NestedTestAllTypes_MarshalTo w (Some s) = go_seq (NestedTestAllTypes_appends s) w" by (cases s) (simp add: NestedTestAllTypes_appends_def)
  show "NestedTestAllTypesReader_ToStruct = toStructWith NestedTestAllTypes_stmts NestedTestAllTypes_zero" by (rule ext) (subst NestedTestAllTypesReader_ToStruct.simps, simp add: NestedTestAllTypes_stmts_def)
qed

lemma NestedTestAllTypes_cases_distinct: "distinct (map fst (NestedTestAllTypesReader_cases wire offset))"
  by (rule ascending_distinct) (simp add: NestedTestAllTypesReader_cases_def wireNestedTestAllTypes)

lemma NestedTestAllTypes_stores:
  "stores_cell NestedTestAllTypesReader_save wireNestedTestAllTypes_Child setOffset cellChild"
  "stores_cell NestedTestAllTypesReader_save wireNestedTestAllTypes_Payload setOffset cellPayload"
  "stores_cell NestedTestAllTypesReader_save wireNestedTestAllTypes_RepeatedChild addOffset cellRepeatedChild"
  "stores_cell NestedTestAllTypesReader_save wireNestedTestAllTypes_LazyChild setOffset cellLazyChild"
  "stores_cell NestedTestAllTypesReader_save wireNestedTestAllTypes_EagerChild setOffset cellEagerChild"
  unfolding NestedTestAllTypesReader_save_def [abs_def] by (rule stores_cell_switch; (rule NestedTestAllTypes_cases_distinct)?; unfold NestedTestAllTypesReader_cases_def; intro own_case.intros; simp)+

lemma NestedTestAllTypes_at_Some:
  assumes "codec_at NestedTestAllTypes_content NestedTestAllTypes_norm NestedTestAllTypes_XXX_PbContentSize NestedTestAllTypes_MarshalTo (NestedTestAllTypesReader_Unmarshal NewNestedTestAllTypesReader) NestedTestAllTypesReader_ToStruct (Child s)"
    and "\<forall>x \<in> set (RepeatedChild s). codec_at NestedTestAllTypes_content NestedTestAllTypes_norm NestedTestAllTypes_XXX_PbContentSize NestedTestAllTypes_MarshalTo (NestedTestAllTypesReader_Unmarshal NewNestedTestAllTypesReader) NestedTestAllTypesReader_ToStruct x"
    and "codec_at NestedTestAllTypes_content NestedTestAllTypes_norm NestedTestAllTypes_XXX_PbContentSize NestedTestAllTypes_MarshalTo (NestedTestAllTypesReader_Unmarshal NewNestedTestAllTypesReader) NestedTestAllTypesReader_ToStruct (LazyChild s)"
  shows "codec_at NestedTestAllTypes_content NestedTestAllTypes_norm NestedTestAllTypes_XXX_PbContentSize NestedTestAllTypes_MarshalTo (NestedTestAllTypesReader_Unmarshal NewNestedTestAllTypesReader) NestedTestAllTypesReader_ToStruct (Some s)"
proof (rule codec_at_groups)
  have tagged: "list_all2 (\<lambda>t g. \<forall>f \<in> set g. fst f = t \<and> wf_val (snd f)) NestedTestAllTypes_tags (NestedTestAllTypes_groups s)"
    unfolding NestedTestAllTypes_tags_def NestedTestAllTypes_groups_def by (intro list.rel_intros field_tagged m_TestAllTypes.tagged_struct)
  have "distinct NestedTestAllTypes_tags"
    using NestedTestAllTypes_cases_distinct by (simp only: NestedTestAllTypesReader_cases_def NestedTestAllTypes_tags_def list.map fst_conv)
  moreover have "list_all valid_tag NestedTestAllTypes_tags"
    by (simp add: NestedTestAllTypes_tags_def wireNestedTestAllTypes valid_tag_def)
  moreover have "mbuf (NestedTestAllTypesReader_save t w off m) = mbuf m" for t w off m
    unfolding NestedTestAllTypesReader_save_def by (rule tag_switch_keeps) (simp add: NestedTestAllTypesReader_cases_def)
  moreover have "good_fields NestedTestAllTypesReader_save p (NewNestedTestAllTypesReader\<lparr>mbuf := Some p\<rparr>) NestedTestAllTypes_tags (NestedTestAllTypes_groups s) (NestedTestAllTypes_ready p s)" for p
    unfolding NestedTestAllTypes_tags_def NestedTestAllTypes_groups_def NestedTestAllTypes_ready_def
    by (intro good_fields.intros field_saved saved_struct_at [OF assms(1)] saved_structs_at [OF assms(2)] saved_struct_at [OF assms(3)] m_TestAllTypes.saved_struct NestedTestAllTypes_stores) (simp_all add: newCell_def)
  moreover have "good_stmts mbuf p NestedTestAllTypes_stmts (NestedTestAllTypes_ready p s) (NestedTestAllTypes_stored s)" for p
    unfolding NestedTestAllTypes_stmts_def NestedTestAllTypes_ready_def NestedTestAllTypes_stored_def NestedTestAllTypes_getters
    by (intro good_stmts_field good_stmts.Nil) (simp_all cong: cell_reads_cong)
  moreover have "fold (\<lambda>e. e) (NestedTestAllTypes_stored s) NestedTestAllTypes_zero = NestedTestAllTypes_norm s"
    by (cases s) (simp add: NestedTestAllTypes_stored_def NestedTestAllTypes_zero_def Child_update_def Payload_update_def RepeatedChild_update_def LazyChild_update_def EagerChild_update_def)
  ultimately show "decodes_to (NestedTestAllTypesReader_Unmarshal NewNestedTestAllTypesReader) NestedTestAllTypesReader_ToStruct (fields_bytes (concat (NestedTestAllTypes_groups s))) (NestedTestAllTypes_norm s)"
    unfolding NestedTestAllTypes_unfold(4) NestedTestAllTypesReader_Unmarshal_def
    by - (rule decodes_groups [where fresh = "\<lambda>p. NewNestedTestAllTypesReader\<lparr>mbuf := Some p\<rparr>" and bufOf = mbuf, OF _ _ tagged], simp_all)
  show "list_all2 (\<lambda>e g. e = int (length (fields_bytes g))) (NestedTestAllTypes_sizes s) (NestedTestAllTypes_groups s)"
    unfolding NestedTestAllTypes_sizes_def NestedTestAllTypes_groups_def by (intro list.rel_intros field_sized sized_struct_at [OF assms(1)] sized_structs_at [OF assms(2)] sized_struct_at [OF assms(3)] m_TestAllTypes.sized_struct)
  show "list_all2 (\<lambda>st g. writes st (fields_bytes g)) (NestedTestAllTypes_appends s) (NestedTestAllTypes_groups s)"
    unfolding NestedTestAllTypes_appends_def NestedTestAllTypes_groups_def by (intro list.rel_intros field_written written_struct_at [OF assms(1)] written_structs_at [OF assms(2)] written_struct_at [OF assms(3)] m_TestAllTypes.written_struct)
qed (simp_all add: NestedTestAllTypes_unfold)

lemma NestedTestAllTypes_at_None: "codec_at NestedTestAllTypes_content NestedTestAllTypes_norm NestedTestAllTypes_XXX_PbContentSize NestedTestAllTypes_MarshalTo (NestedTestAllTypesReader_Unmarshal NewNestedTestAllTypesReader) NestedTestAllTypesReader_ToStruct None"
  by (simp add: codec_at_def ptr_bytes_def)

lemma NestedTestAllTypes_at: "codec_at NestedTestAllTypes_content NestedTestAllTypes_norm NestedTestAllTypes_XXX_PbContentSize NestedTestAllTypes_MarshalTo (NestedTestAllTypesReader_Unmarshal NewNestedTestAllTypesReader) NestedTestAllTypesReader_ToStruct x"
proof -
  have "codec_at NestedTestAllTypes_content NestedTestAllTypes_norm NestedTestAllTypes_XXX_PbContentSize NestedTestAllTypes_MarshalTo (NestedTestAllTypesReader_Unmarshal NewNestedTestAllTypesReader) NestedTestAllTypesReader_ToStruct (Some s)" for s
  proof (induction s)
    case (NestedTestAllTypes x0 x1 x2 x3 x4)
    have rx0: "codec_at NestedTestAllTypes_content NestedTestAllTypes_norm NestedTestAllTypes_XXX_PbContentSize NestedTestAllTypes_MarshalTo (NestedTestAllTypesReader_Unmarshal NewNestedTestAllTypesReader) NestedTestAllTypesReader_ToStruct x0"
      using NestedTestAllTypes(1) NestedTestAllTypes_at_None by (cases x0) simp_all
    have rx2: "codec_at NestedTestAllTypes_content NestedTestAllTypes_norm NestedTestAllTypes_XXX_PbContentSize NestedTestAllTypes_MarshalTo (NestedTestAllTypesReader_Unmarshal NewNestedTestAllTypesReader) NestedTestAllTypesReader_ToStruct y" if "y \<in> set x2" for y
      using NestedTestAllTypes(2) that NestedTestAllTypes_at_None by (cases y) force+
    have rx3: "codec_at NestedTestAllTypes_content NestedTestAllTypes_norm NestedTestAllTypes_XXX_PbContentSize NestedTestAllTypes_MarshalTo (NestedTestAllTypesReader_Unmarshal NewNestedTestAllTypesReader) NestedTestAllTypesReader_ToStruct x3"
      using NestedTestAllTypes(3) NestedTestAllTypes_at_None by (cases x3) simp_all
    show ?case by (rule NestedTestAllTypes_at_Some) (simp_all add: rx0 rx2 rx3)
  qed
  then show ?thesis using NestedTestAllTypes_at_None by (cases x) simp_all
qed

interpretation m_NestedTestAllTypes: message_codec NestedTestAllTypes_content NestedTestAllTypes_norm NestedTestAllTypes_XXX_PbContentSize NestedTestAllTypes_MarshalTo
  "NestedTestAllTypesReader_Unmarshal NewNestedTestAllTypesReader" NestedTestAllTypesReader_ToStruct
  by (rule message_codecI, rule NestedTestAllTypes_at)

end
