(* ===== verification/Unittest_Properties.thy ===== *)
theory Unittest_Properties
  imports Golden_Message NestedTestAllTypes_Message Unittest_Defaults
begin

text \<open>
  Properties of the larger messages of the protobuf unit tests: the reader of \<^verbatim>\<open>TestAllTypes\<close> does not
  depend on the order of fields, and the trees of \<^verbatim>\<open>NestedTestAllTypes\<close>, whose reader, size and writer call
  themselves, survive a round trip.
\<close>

section \<open>The order of fields\<close>

text \<open>
  C16. A reader does not depend on the order of the fields: from a message that holds the fields of a struct of the
  largest unit test type in any order, the elements of a list together, with any well-formed fields of unknown numbers
  between them, groups included, it decodes that struct.
\<close>

theorem TestAllTypes_fields_in_any_order:
  assumes "list_all wf_field fs" and "list_all2 (stands_in fs) TestAllTypes_tags (TestAllTypes_groups s)"
    and "elems d = fields_bytes fs" and "slen d + 10 < 2 ^ 63"
  shows "\<exists>r r'. TestAllTypesReader_Unmarshal NewTestAllTypesReader d = Some (Ret (r, None)) \<and>
    TestAllTypesReader_ToStruct (Some r) = Some (Ret (Some (TestAllTypes_norm s), Some r'))"
  using l_TestAllTypes.decode_any_order [OF assms(1,2), unfolded decodes_to_def] assms(3,4)
  by (simp only: TestAllTypesReader_Unmarshal_def TestAllTypesReader_ToStruct_def)

definition sparse :: TestAllTypes where
  "sparse = TestAllTypes_zero\<lparr>OptionalInt32 := 5, OptionalFloat := 0x42DE0000, OptionalDouble := 0x405C000000000000,
     OptionalNestedMessage := Some \<lparr>Bb = 118\<rparr>, RepeatedInt64 := [1, 300], RepeatedString := [bytes_of ''a'', bytes_of ''bc''],
     OneofString := bytes_of ''x''\<rparr>"

lemma sparse_norm: "TestAllTypes_norm sparse = sparse"
  by (rule TestAllTypes_norm_id; simp add: sparse_def TestAllTypes_zero_def float32_is_zero_def float64_is_zero_def norm_ptr_def
      TestAllTypes_NestedMessage_norm_def TestAllTypes_NestedMessage_content_def TestAllTypes_NestedMessage_groups_def opt_field_def)

definition shuffled :: "wfield list" where
  "shuffled = (9999, WVarint 1) # concat (rev (TestAllTypes_groups sparse)) @ [(10000, WGroup 10000 [(5, WVarint 3)])]"

lemma shuffled_stands: "list_all2 (stands_in shuffled) TestAllTypes_tags (TestAllTypes_groups sparse)"
  by code_simp

lemma shuffled_short: "length (fields_bytes shuffled) < 1200"
  by code_simp

lemma shuffled_wf: "list_all wf_field shuffled"
  by code_simp

text \<open>A message with its fields in the opposite order between two unknown ones.\<close>

theorem TestAllTypes_fields_in_any_order_witness:
  "\<exists>r r'. TestAllTypesReader_Unmarshal NewTestAllTypesReader (slice_of (fields_bytes shuffled)) = Some (Ret (r, None)) \<and>
    TestAllTypesReader_ToStruct (Some r) = Some (Ret (Some sparse, Some r'))"
proof -
  have "slen (slice_of (fields_bytes shuffled)) + 10 < 2 ^ 63"
    using shuffled_short by (simp add: slen_def)
  then have "\<exists>r r'. TestAllTypesReader_Unmarshal NewTestAllTypesReader (slice_of (fields_bytes shuffled)) = Some (Ret (r, None)) \<and>
    TestAllTypesReader_ToStruct (Some r) = Some (Ret (Some (TestAllTypes_norm sparse), Some r'))"
    by (intro TestAllTypes_fields_in_any_order [OF shuffled_wf shuffled_stands]) simp_all
  then show ?thesis by (simp only: sparse_norm)
qed

section \<open>Trees\<close>

text \<open>
  C15. A tree of messages, of any depth and width, with a message of the largest unit test type at every node, survives
  a round trip through the recursive size function, writer, reader and conversion of the generated code: \<^verbatim>\<open>Marshal\<close>
  writes exactly the computed size, and all of them return, with the tree as it was up to two things: an empty submessage
  is read back as nil, and in the payloads, as in every message of their type, a single float that is negative zero is read back
  as zero (\<^const>\<open>NestedTestAllTypes_norm\<close>).
\<close>

theorem NestedTestAllTypes_roundtrip:
  assumes "NestedTestAllTypes_XXX_PbContentSize (Some s) + 10 < 2 ^ 63"
  shows "\<exists>bs r r'. NestedTestAllTypes_Marshal (Some s) = Ret bs \<and>
    int (length bs) = NestedTestAllTypes_XXX_PbContentSize (Some s) \<and>
    NestedTestAllTypesReader_Unmarshal NewNestedTestAllTypesReader (slice_of bs) = Some (Ret (r, None)) \<and>
    NestedTestAllTypesReader_ToStruct (Some r) = Some (Ret (Some (NestedTestAllTypes_norm s), Some r'))"
  using m_NestedTestAllTypes.round_trip [OF assms] by (simp only: NestedTestAllTypes_Marshal_def)

text \<open>A node with a child and two elements in its list, one of which has a child of its own.\<close>

definition demo_tree :: NestedTestAllTypes where
  "demo_tree = (let leaf = NestedTestAllTypes None (Some (golden_update 7)) [] None None
     in NestedTestAllTypes (Some leaf) None [Some leaf, Some (NestedTestAllTypes (Some leaf) None [] None None)] None
          (Some (golden_update 7)))"

lemma golden_update_norm_7: "TestAllTypes_norm (golden_update 7) = golden_update 7"
  by (rule golden_update_norm) simp_all

lemma golden_update_size_7: "TestAllTypes_XXX_PbContentSize (Some (golden_update 7)) = 480"
  by code_simp

lemma golden_update_content: "TestAllTypes_content (golden_update 7) \<noteq> []"
  using m_TestAllTypes.contentSize_ptr [of "Some (golden_update 7)"] golden_update_size_7 by (auto simp: ptr_bytes_def)

lemma demo_tree_size: "NestedTestAllTypes_XXX_PbContentSize (Some demo_tree) = 1944"
  by (simp add: demo_tree_def Let_def sizeDelimitedWithTag_def repeatedSize_def golden_update_size_7
      wireNestedTestAllTypes SizeTag_def SizeUint64_def SizeVarInt_def Let_def)

lemma demo_tree_norm: "NestedTestAllTypes_norm demo_tree = demo_tree"
  by (simp add: demo_tree_def Let_def norm_ptr_def golden_update_content golden_update_norm_7 opt_field_def)

theorem NestedTestAllTypes_roundtrip_witness:
  "\<exists>bs r r'. NestedTestAllTypes_Marshal (Some demo_tree) = Ret bs \<and> length bs = 1944 \<and>
    NestedTestAllTypesReader_Unmarshal NewNestedTestAllTypesReader (slice_of bs) = Some (Ret (r, None)) \<and>
    NestedTestAllTypesReader_ToStruct (Some r) = Some (Ret (Some demo_tree, Some r'))"
  using NestedTestAllTypes_roundtrip [of demo_tree] by (simp add: demo_tree_size demo_tree_norm)

section \<open>Declared defaults\<close>

text \<open>
  \<^verbatim>\<open>unittest.proto\<close> declares BAR as the default of an enum field; the getter returns 0, which is no value of the enum.
\<close>

lemma enum_default_is_lost:
  "TestAllTypesReader_GetDefaultNestedEnum None = Some (Ret (0, None))" "TestAllTypes_BAR \<noteq> 0"
  by (simp_all add: TestAllTypesReader_GetDefaultNestedEnum_def getter_def TestAllTypes_BAR_def)

text \<open>The default \<^verbatim>\<open>hel\000lo\<close> has six bytes; the getter returns the nine characters of its notation.\<close>

lemma escaped_default_is_not_decoded:
  "TestExtremeDefaultValuesReader_GetStringWithZero None = Some (Ret (bytes_of ''hel'' @ [92] @ bytes_of ''000lo'', None))"
  by (simp add: TestExtremeDefaultValuesReader_GetStringWithZero_def getter_def bytes_of_def)

end
