(* ===== verification/TestNestedRequiredForeign_Message.thy ===== *)
theory TestNestedRequiredForeign_Message
  imports Unittest_Required Recursive_Kinds
begin

text \<open>
  The message type \<^verbatim>\<open>TestNestedRequiredForeign\<close> of
  \<^verbatim>\<open>src/shared/gremlin_go/bench/gremlin_pb/protobuf_unittest/unittest.pb2.go\<close>, which contains itself and messages with required fields.
\<close>

section \<open>TestNestedRequiredForeign: the reader\<close>

definition wireTestNestedRequiredForeign_Child :: ProtoWireNumber where "wireTestNestedRequiredForeign_Child = 1"
definition wireTestNestedRequiredForeign_Payload :: ProtoWireNumber where "wireTestNestedRequiredForeign_Payload = 2"
definition wireTestNestedRequiredForeign_Dummy :: ProtoWireNumber where "wireTestNestedRequiredForeign_Dummy = 3"

lemmas wireTestNestedRequiredForeign =
  wireTestNestedRequiredForeign_Child_def wireTestNestedRequiredForeign_Payload_def
  wireTestNestedRequiredForeign_Dummy_def

text \<open>A reader holds readers of its own type, so it is a datatype; the cells of its fields are views of it.\<close>

datatype TestNestedRequiredForeignReader = TestNestedRequiredForeignReader (mbuf: "Reader option")
  (dataChild: "TestNestedRequiredForeignReader option") (dataPayload: "TestRequiredForeignReader option") (dataDummy: int32)
  (offsetChild: int) (offsetPayload: int) (offsetDummy: int)
  (parsedChild: bool) (parsedPayload: bool) (parsedDummy: bool)

definition cellChild :: "TestNestedRequiredForeignReader \<Rightarrow> (TestNestedRequiredForeignReader option) one_cell" where
  "cellChild m = \<lparr>cellData = dataChild m, cellOffset = offsetChild m, cellParsed = parsedChild m\<rparr>"

definition cellPayload :: "TestNestedRequiredForeignReader \<Rightarrow> (TestRequiredForeignReader option) one_cell" where
  "cellPayload m = \<lparr>cellData = dataPayload m, cellOffset = offsetPayload m, cellParsed = parsedPayload m\<rparr>"

definition cellDummy :: "TestNestedRequiredForeignReader \<Rightarrow> int32 one_cell" where
  "cellDummy m = \<lparr>cellData = dataDummy m, cellOffset = offsetDummy m, cellParsed = parsedDummy m\<rparr>"

definition cellChild_update :: "((TestNestedRequiredForeignReader option) one_cell \<Rightarrow> (TestNestedRequiredForeignReader option) one_cell) \<Rightarrow> TestNestedRequiredForeignReader \<Rightarrow> TestNestedRequiredForeignReader" where
  "cellChild_update f m = (let c = f (cellChild m) in
     TestNestedRequiredForeignReader (mbuf m) (cellData c) (dataPayload m) (dataDummy m) (cellOffset c) (offsetPayload m) (offsetDummy m) (cellParsed c) (parsedPayload m) (parsedDummy m))"

definition cellPayload_update :: "((TestRequiredForeignReader option) one_cell \<Rightarrow> (TestRequiredForeignReader option) one_cell) \<Rightarrow> TestNestedRequiredForeignReader \<Rightarrow> TestNestedRequiredForeignReader" where
  "cellPayload_update f m = (let c = f (cellPayload m) in
     TestNestedRequiredForeignReader (mbuf m) (dataChild m) (cellData c) (dataDummy m) (offsetChild m) (cellOffset c) (offsetDummy m) (parsedChild m) (cellParsed c) (parsedDummy m))"

definition cellDummy_update :: "(int32 one_cell \<Rightarrow> int32 one_cell) \<Rightarrow> TestNestedRequiredForeignReader \<Rightarrow> TestNestedRequiredForeignReader" where
  "cellDummy_update f m = (let c = f (cellDummy m) in
     TestNestedRequiredForeignReader (mbuf m) (dataChild m) (dataPayload m) (cellData c) (offsetChild m) (offsetPayload m) (cellOffset c) (parsedChild m) (parsedPayload m) (cellParsed c))"

definition mbuf_update :: "(Reader option \<Rightarrow> Reader option) \<Rightarrow> TestNestedRequiredForeignReader \<Rightarrow> TestNestedRequiredForeignReader" where
  "mbuf_update f m = TestNestedRequiredForeignReader (f (mbuf m)) (dataChild m) (dataPayload m) (dataDummy m) (offsetChild m) (offsetPayload m) (offsetDummy m) (parsedChild m) (parsedPayload m) (parsedDummy m)"

lemma TestNestedRequiredForeign_cells [simp]:
  "cellChild (cellChild_update f0 m) = f0 (cellChild m)"
  "cellPayload (cellChild_update f0 m) = cellPayload m"
  "cellDummy (cellChild_update f0 m) = cellDummy m"
  "mbuf (cellChild_update f0 m) = mbuf m"
  "cellChild (mbuf_update f m) = cellChild m"
  "cellChild (cellPayload_update f1 m) = cellChild m"
  "cellPayload (cellPayload_update f1 m) = f1 (cellPayload m)"
  "cellDummy (cellPayload_update f1 m) = cellDummy m"
  "mbuf (cellPayload_update f1 m) = mbuf m"
  "cellPayload (mbuf_update f m) = cellPayload m"
  "cellChild (cellDummy_update f2 m) = cellChild m"
  "cellPayload (cellDummy_update f2 m) = cellPayload m"
  "cellDummy (cellDummy_update f2 m) = f2 (cellDummy m)"
  "mbuf (cellDummy_update f2 m) = mbuf m"
  "cellDummy (mbuf_update f m) = cellDummy m"
  "mbuf (mbuf_update f m) = f (mbuf m)"
  by (simp_all add: Let_def cellChild_def cellChild_update_def cellPayload_def cellPayload_update_def cellDummy_def cellDummy_update_def mbuf_update_def)

definition NewTestNestedRequiredForeignReader :: TestNestedRequiredForeignReader where
  "NewTestNestedRequiredForeignReader = TestNestedRequiredForeignReader None None None 0 0 0 0 False False False"

lemma NewTestNestedRequiredForeign_cells [simp]:
  "mbuf NewTestNestedRequiredForeignReader = None" "cellChild NewTestNestedRequiredForeignReader = newCell None 0" "cellPayload NewTestNestedRequiredForeignReader = newCell None 0" "cellDummy NewTestNestedRequiredForeignReader = newCell 0 0"
  by (simp_all add: NewTestNestedRequiredForeignReader_def cellChild_def cellPayload_def cellDummy_def newCell_def)

definition TestNestedRequiredForeignReader_cases :: "ProtoWireType \<Rightarrow> int \<Rightarrow> (ProtoWireNumber \<times> (TestNestedRequiredForeignReader \<Rightarrow> TestNestedRequiredForeignReader)) list" where
  "TestNestedRequiredForeignReader_cases wire offset = [
     (wireTestNestedRequiredForeign_Child, \<lambda>m. m\<lparr>cellChild := onOffset (setOffset wire offset) (cellChild m)\<rparr>),
     (wireTestNestedRequiredForeign_Payload, \<lambda>m. m\<lparr>cellPayload := onOffset (setOffset wire offset) (cellPayload m)\<rparr>),
     (wireTestNestedRequiredForeign_Dummy, \<lambda>m. m\<lparr>cellDummy := onOffset (setOffset wire offset) (cellDummy m)\<rparr>)]"

definition TestNestedRequiredForeignReader_save :: "ProtoWireNumber \<Rightarrow> ProtoWireType \<Rightarrow> int \<Rightarrow> TestNestedRequiredForeignReader \<Rightarrow> TestNestedRequiredForeignReader" where
  "TestNestedRequiredForeignReader_save tag wire offset = tag_switch (TestNestedRequiredForeignReader_cases wire offset) tag"

definition TestNestedRequiredForeignReader_Unmarshal :: "TestNestedRequiredForeignReader \<Rightarrow> gslice \<Rightarrow> (TestNestedRequiredForeignReader \<times> string option) run" where
  "TestNestedRequiredForeignReader_Unmarshal m data =
     unmarshalLoop TestNestedRequiredForeignReader_save (NewReader data) 0 (m\<lparr>mbuf := Some (NewReader data)\<rparr>)"

definition TestNestedRequiredForeignReader_SourceBytes :: "TestNestedRequiredForeignReader option \<Rightarrow> gslice" where
  "TestNestedRequiredForeignReader_SourceBytes s = (case s of None \<Rightarrow> nil_slice | Some r \<Rightarrow> Bytes (mbuf r))"

definition TestNestedRequiredForeignReader_readChild :: "TestNestedRequiredForeignReader \<Rightarrow> (TestNestedRequiredForeignReader option \<times> TestNestedRequiredForeignReader) run" where
  "TestNestedRequiredForeignReader_readChild = readCell cellChild cellChild_update mbuf (structReader (TestNestedRequiredForeignReader_Unmarshal NewTestNestedRequiredForeignReader))"

definition TestNestedRequiredForeignReader_GetChild :: "TestNestedRequiredForeignReader option \<Rightarrow> (TestNestedRequiredForeignReader option \<times> TestNestedRequiredForeignReader option) run" where
  "TestNestedRequiredForeignReader_GetChild = getter TestNestedRequiredForeignReader_readChild None"

definition TestNestedRequiredForeignReader_readPayload :: "TestNestedRequiredForeignReader \<Rightarrow> (TestRequiredForeignReader option \<times> TestNestedRequiredForeignReader) run" where
  "TestNestedRequiredForeignReader_readPayload = readCell cellPayload cellPayload_update mbuf (structReader (TestRequiredForeignReader_Unmarshal NewTestRequiredForeignReader))"

definition TestNestedRequiredForeignReader_GetPayload :: "TestNestedRequiredForeignReader option \<Rightarrow> (TestRequiredForeignReader option \<times> TestNestedRequiredForeignReader option) run" where
  "TestNestedRequiredForeignReader_GetPayload = getter TestNestedRequiredForeignReader_readPayload None"

definition TestNestedRequiredForeignReader_readDummy :: "TestNestedRequiredForeignReader \<Rightarrow> (int32 \<times> TestNestedRequiredForeignReader) run" where
  "TestNestedRequiredForeignReader_readDummy = readCell cellDummy cellDummy_update mbuf (readOne ReadInt32 0)"

definition TestNestedRequiredForeignReader_GetDummy :: "TestNestedRequiredForeignReader option \<Rightarrow> (int32 \<times> TestNestedRequiredForeignReader option) run" where
  "TestNestedRequiredForeignReader_GetDummy = getter TestNestedRequiredForeignReader_readDummy 0"

lemmas TestNestedRequiredForeign_getters =
  TestNestedRequiredForeignReader_readChild_def TestNestedRequiredForeignReader_GetChild_def
  TestNestedRequiredForeignReader_readPayload_def TestNestedRequiredForeignReader_GetPayload_def
  TestNestedRequiredForeignReader_readDummy_def TestNestedRequiredForeignReader_GetDummy_def

section \<open>TestNestedRequiredForeign: the struct\<close>

datatype TestNestedRequiredForeign = TestNestedRequiredForeign (Child: "TestNestedRequiredForeign option") (Payload: "TestRequiredForeign option") (Dummy: int32)

definition Child_update :: "(TestNestedRequiredForeign option \<Rightarrow> TestNestedRequiredForeign option) \<Rightarrow> TestNestedRequiredForeign \<Rightarrow> TestNestedRequiredForeign" where
  "Child_update f s = TestNestedRequiredForeign (f (Child s)) (Payload s) (Dummy s)"

definition Payload_update :: "(TestRequiredForeign option \<Rightarrow> TestRequiredForeign option) \<Rightarrow> TestNestedRequiredForeign \<Rightarrow> TestNestedRequiredForeign" where
  "Payload_update f s = TestNestedRequiredForeign (Child s) (f (Payload s)) (Dummy s)"

definition Dummy_update :: "(int32 \<Rightarrow> int32) \<Rightarrow> TestNestedRequiredForeign \<Rightarrow> TestNestedRequiredForeign" where
  "Dummy_update f s = TestNestedRequiredForeign (Child s) (Payload s) (f (Dummy s))"

definition TestNestedRequiredForeign_zero :: TestNestedRequiredForeign where
  "TestNestedRequiredForeign_zero = TestNestedRequiredForeign None None 0"

fun TestNestedRequiredForeign_XXX_PbContentSize :: "TestNestedRequiredForeign option \<Rightarrow> int" where
  "TestNestedRequiredForeign_XXX_PbContentSize None = 0"
| "TestNestedRequiredForeign_XXX_PbContentSize (Some (TestNestedRequiredForeign x0 x1 x2)) = sum_list [
     if x0 \<noteq> None then sizeDelimitedWithTag TestNestedRequiredForeign_XXX_PbContentSize wireTestNestedRequiredForeign_Child x0 else 0,
     if x1 \<noteq> None then sizeDelimitedWithTag TestRequiredForeign_XXX_PbContentSize wireTestNestedRequiredForeign_Payload x1 else 0,
     if x2 \<noteq> 0 then sizeWithTag SizeInt32 wireTestNestedRequiredForeign_Dummy x2 else 0]"

fun TestNestedRequiredForeign_MarshalTo :: "Writer \<Rightarrow> TestNestedRequiredForeign option \<Rightarrow> Writer go" where
  "TestNestedRequiredForeign_MarshalTo res None = Ret res"
| "TestNestedRequiredForeign_MarshalTo res (Some (TestNestedRequiredForeign x0 x1 x2)) = go_seq [
     \<lambda>res. if x0 \<noteq> None then structWriter TestNestedRequiredForeign_XXX_PbContentSize TestNestedRequiredForeign_MarshalTo res wireTestNestedRequiredForeign_Child x0 else Ret res,
     \<lambda>res. if x1 \<noteq> None then structWriter TestRequiredForeign_XXX_PbContentSize TestRequiredForeign_MarshalTo res wireTestNestedRequiredForeign_Payload x1 else Ret res,
     \<lambda>res. if x2 \<noteq> 0 then AppendInt32 res wireTestNestedRequiredForeign_Dummy x2 else Ret res] res"

definition TestNestedRequiredForeign_Marshal :: "TestNestedRequiredForeign option \<Rightarrow> byte list go" where
  "TestNestedRequiredForeign_Marshal = marshalWith TestNestedRequiredForeign_XXX_PbContentSize TestNestedRequiredForeign_MarshalTo"

fun TestNestedRequiredForeign_Copy :: "TestNestedRequiredForeign option \<Rightarrow> TestNestedRequiredForeign option" where
  "TestNestedRequiredForeign_Copy None = None"
| "TestNestedRequiredForeign_Copy (Some (TestNestedRequiredForeign x0 x1 x2)) = Some (TestNestedRequiredForeign
     (case x0 of None \<Rightarrow> None | Some x \<Rightarrow> TestNestedRequiredForeign_Copy (Some x))
     (case x1 of None \<Rightarrow> None | Some x \<Rightarrow> TestRequiredForeign_Copy (Some x))
     x2)"

partial_function (option) TestNestedRequiredForeignReader_ToStruct :: "TestNestedRequiredForeignReader option \<Rightarrow> (TestNestedRequiredForeign option \<times> TestNestedRequiredForeignReader option) go option" where
  "TestNestedRequiredForeignReader_ToStruct m = toStructWith [
     assignStruct TestNestedRequiredForeignReader_GetChild (structToStruct TestNestedRequiredForeignReader_ToStruct) cellChild_update
       (\<lambda>v res. res\<lparr>Child := v\<rparr>),
     assignStruct TestNestedRequiredForeignReader_GetPayload (structToStruct TestRequiredForeignReader_ToStruct) cellPayload_update
       (\<lambda>v res. res\<lparr>Payload := v\<rparr>),
     assign TestNestedRequiredForeignReader_GetDummy (\<lambda>v res. res\<lparr>Dummy := v\<rparr>)] TestNestedRequiredForeign_zero m"

section \<open>TestNestedRequiredForeign: the round trip\<close>

fun TestNestedRequiredForeign_content :: "TestNestedRequiredForeign \<Rightarrow> wfield list" where
  "TestNestedRequiredForeign_content (TestNestedRequiredForeign x0 x1 x2) = concat [
     opt_field (x0 \<noteq> None) (wireTestNestedRequiredForeign_Child, WBytes (ptr_bytes TestNestedRequiredForeign_content x0)),
     opt_field (x1 \<noteq> None) (wireTestNestedRequiredForeign_Payload, WBytes (ptr_bytes TestRequiredForeign_content x1)),
     opt_field (x2 \<noteq> 0) (wireTestNestedRequiredForeign_Dummy, int32_val x2)]"

text \<open>What a round trip keeps.\<close>

fun TestNestedRequiredForeign_norm :: "TestNestedRequiredForeign \<Rightarrow> TestNestedRequiredForeign" where
  "TestNestedRequiredForeign_norm (TestNestedRequiredForeign x0 x1 x2) = TestNestedRequiredForeign
     (norm_ptr TestNestedRequiredForeign_content TestNestedRequiredForeign_norm x0)
     (norm_ptr TestRequiredForeign_content TestRequiredForeign_norm x1)
     x2"

definition TestNestedRequiredForeign_tags :: "ProtoWireNumber list" where
  "TestNestedRequiredForeign_tags = [
     wireTestNestedRequiredForeign_Child, wireTestNestedRequiredForeign_Payload,
     wireTestNestedRequiredForeign_Dummy]"

definition TestNestedRequiredForeign_groups :: "TestNestedRequiredForeign \<Rightarrow> wfield list list" where
  "TestNestedRequiredForeign_groups s = [
     opt_field (Child s \<noteq> None) (wireTestNestedRequiredForeign_Child, WBytes (ptr_bytes TestNestedRequiredForeign_content (Child s))),
     opt_field (Payload s \<noteq> None) (wireTestNestedRequiredForeign_Payload, WBytes (ptr_bytes TestRequiredForeign_content (Payload s))),
     opt_field (Dummy s \<noteq> 0) (wireTestNestedRequiredForeign_Dummy, int32_val (Dummy s))]"

definition TestNestedRequiredForeign_sizes :: "TestNestedRequiredForeign \<Rightarrow> int list" where
  "TestNestedRequiredForeign_sizes s = [
     if Child s \<noteq> None then sizeDelimitedWithTag TestNestedRequiredForeign_XXX_PbContentSize wireTestNestedRequiredForeign_Child (Child s) else 0,
     if Payload s \<noteq> None then sizeDelimitedWithTag TestRequiredForeign_XXX_PbContentSize wireTestNestedRequiredForeign_Payload (Payload s) else 0,
     if Dummy s \<noteq> 0 then sizeWithTag SizeInt32 wireTestNestedRequiredForeign_Dummy (Dummy s) else 0]"

definition TestNestedRequiredForeign_appends :: "TestNestedRequiredForeign \<Rightarrow> (Writer \<Rightarrow> Writer go) list" where
  "TestNestedRequiredForeign_appends s = [
     \<lambda>res. if Child s \<noteq> None then structWriter TestNestedRequiredForeign_XXX_PbContentSize TestNestedRequiredForeign_MarshalTo res wireTestNestedRequiredForeign_Child (Child s) else Ret res,
     \<lambda>res. if Payload s \<noteq> None then structWriter TestRequiredForeign_XXX_PbContentSize TestRequiredForeign_MarshalTo res wireTestNestedRequiredForeign_Payload (Payload s) else Ret res,
     \<lambda>res. if Dummy s \<noteq> 0 then AppendInt32 res wireTestNestedRequiredForeign_Dummy (Dummy s) else Ret res]"

definition TestNestedRequiredForeign_stmts :: "(TestNestedRequiredForeign \<times> TestNestedRequiredForeignReader option \<Rightarrow> (TestNestedRequiredForeign \<times> TestNestedRequiredForeignReader option) run) list" where
  "TestNestedRequiredForeign_stmts = [
     assignStruct TestNestedRequiredForeignReader_GetChild (structToStruct TestNestedRequiredForeignReader_ToStruct) cellChild_update
       (\<lambda>v res. res\<lparr>Child := v\<rparr>),
     assignStruct TestNestedRequiredForeignReader_GetPayload (structToStruct TestRequiredForeignReader_ToStruct) cellPayload_update
       (\<lambda>v res. res\<lparr>Payload := v\<rparr>),
     assign TestNestedRequiredForeignReader_GetDummy (\<lambda>v res. res\<lparr>Dummy := v\<rparr>)]"

definition TestNestedRequiredForeign_ready :: "Reader \<Rightarrow> TestNestedRequiredForeign \<Rightarrow> (TestNestedRequiredForeignReader \<Rightarrow> bool) list" where
  "TestNestedRequiredForeign_ready p s = [
     \<lambda>m. cell_reads (structReader (TestNestedRequiredForeignReader_Unmarshal NewTestNestedRequiredForeignReader)) (structToStruct TestNestedRequiredForeignReader_ToStruct) p (norm_ptr TestNestedRequiredForeign_content TestNestedRequiredForeign_norm (Child s)) (cellChild m),
     \<lambda>m. cell_reads (structReader (TestRequiredForeignReader_Unmarshal NewTestRequiredForeignReader)) (structToStruct TestRequiredForeignReader_ToStruct) p (norm_ptr TestRequiredForeign_content TestRequiredForeign_norm (Payload s)) (cellPayload m),
     \<lambda>m. cell_reads (readOne ReadInt32 0) plain p (if Dummy s \<noteq> 0 then Dummy s else 0) (cellDummy m)]"

definition TestNestedRequiredForeign_stored :: "TestNestedRequiredForeign \<Rightarrow> (TestNestedRequiredForeign \<Rightarrow> TestNestedRequiredForeign) list" where
  "TestNestedRequiredForeign_stored s = [
     \<lambda>res. res\<lparr>Child := norm_ptr TestNestedRequiredForeign_content TestNestedRequiredForeign_norm (Child s)\<rparr>,
     \<lambda>res. res\<lparr>Payload := norm_ptr TestRequiredForeign_content TestRequiredForeign_norm (Payload s)\<rparr>,
     \<lambda>res. res\<lparr>Dummy := if Dummy s \<noteq> 0 then Dummy s else 0\<rparr>]"

lemma TestNestedRequiredForeign_unfold:
  "TestNestedRequiredForeign_content s = concat (TestNestedRequiredForeign_groups s)" "TestNestedRequiredForeign_XXX_PbContentSize (Some s) = sum_list (TestNestedRequiredForeign_sizes s)"
  "TestNestedRequiredForeign_MarshalTo w (Some s) = go_seq (TestNestedRequiredForeign_appends s) w" "TestNestedRequiredForeignReader_ToStruct = toStructWith TestNestedRequiredForeign_stmts TestNestedRequiredForeign_zero"
proof -
  show "TestNestedRequiredForeign_content s = concat (TestNestedRequiredForeign_groups s)" by (cases s) (simp add: TestNestedRequiredForeign_groups_def)
  show "TestNestedRequiredForeign_XXX_PbContentSize (Some s) = sum_list (TestNestedRequiredForeign_sizes s)" by (cases s) (simp add: TestNestedRequiredForeign_sizes_def)
  show "TestNestedRequiredForeign_MarshalTo w (Some s) = go_seq (TestNestedRequiredForeign_appends s) w" by (cases s) (simp add: TestNestedRequiredForeign_appends_def)
  show "TestNestedRequiredForeignReader_ToStruct = toStructWith TestNestedRequiredForeign_stmts TestNestedRequiredForeign_zero" by (rule ext) (subst TestNestedRequiredForeignReader_ToStruct.simps, simp add: TestNestedRequiredForeign_stmts_def)
qed

lemma TestNestedRequiredForeign_cases_distinct: "distinct (map fst (TestNestedRequiredForeignReader_cases wire offset))"
  by (rule ascending_distinct) (simp add: TestNestedRequiredForeignReader_cases_def wireTestNestedRequiredForeign)

lemma TestNestedRequiredForeign_stores:
  "stores_cell TestNestedRequiredForeignReader_save wireTestNestedRequiredForeign_Child setOffset cellChild"
  "stores_cell TestNestedRequiredForeignReader_save wireTestNestedRequiredForeign_Payload setOffset cellPayload"
  "stores_cell TestNestedRequiredForeignReader_save wireTestNestedRequiredForeign_Dummy setOffset cellDummy"
  unfolding TestNestedRequiredForeignReader_save_def [abs_def] by (rule stores_cell_switch; (rule TestNestedRequiredForeign_cases_distinct)?; unfold TestNestedRequiredForeignReader_cases_def; intro own_case.intros; simp)+

lemma TestNestedRequiredForeign_at_Some:
  assumes "codec_at TestNestedRequiredForeign_content TestNestedRequiredForeign_norm TestNestedRequiredForeign_XXX_PbContentSize TestNestedRequiredForeign_MarshalTo (TestNestedRequiredForeignReader_Unmarshal NewTestNestedRequiredForeignReader) TestNestedRequiredForeignReader_ToStruct (Child s)"
  shows "codec_at TestNestedRequiredForeign_content TestNestedRequiredForeign_norm TestNestedRequiredForeign_XXX_PbContentSize TestNestedRequiredForeign_MarshalTo (TestNestedRequiredForeignReader_Unmarshal NewTestNestedRequiredForeignReader) TestNestedRequiredForeignReader_ToStruct (Some s)"
proof (rule codec_at_groups)
  have tagged: "list_all2 (\<lambda>t g. \<forall>f \<in> set g. fst f = t \<and> wf_val (snd f)) TestNestedRequiredForeign_tags (TestNestedRequiredForeign_groups s)"
    unfolding TestNestedRequiredForeign_tags_def TestNestedRequiredForeign_groups_def by (intro list.rel_intros field_tagged m_TestRequiredForeign.tagged_struct)
  have "distinct TestNestedRequiredForeign_tags"
    using TestNestedRequiredForeign_cases_distinct by (simp only: TestNestedRequiredForeignReader_cases_def TestNestedRequiredForeign_tags_def list.map fst_conv)
  moreover have "list_all valid_tag TestNestedRequiredForeign_tags"
    by (simp add: TestNestedRequiredForeign_tags_def wireTestNestedRequiredForeign valid_tag_def)
  moreover have "mbuf (TestNestedRequiredForeignReader_save t w off m) = mbuf m" for t w off m
    unfolding TestNestedRequiredForeignReader_save_def by (rule tag_switch_keeps) (simp add: TestNestedRequiredForeignReader_cases_def)
  moreover have "good_fields TestNestedRequiredForeignReader_save p (NewTestNestedRequiredForeignReader\<lparr>mbuf := Some p\<rparr>) TestNestedRequiredForeign_tags (TestNestedRequiredForeign_groups s) (TestNestedRequiredForeign_ready p s)" for p
    unfolding TestNestedRequiredForeign_tags_def TestNestedRequiredForeign_groups_def TestNestedRequiredForeign_ready_def
    by (intro good_fields.intros field_saved saved_struct_at [OF assms(1)] m_TestRequiredForeign.saved_struct TestNestedRequiredForeign_stores) (simp_all add: newCell_def)
  moreover have "good_stmts mbuf p TestNestedRequiredForeign_stmts (TestNestedRequiredForeign_ready p s) (TestNestedRequiredForeign_stored s)" for p
    unfolding TestNestedRequiredForeign_stmts_def TestNestedRequiredForeign_ready_def TestNestedRequiredForeign_stored_def TestNestedRequiredForeign_getters
    by (intro good_stmts_field good_stmts.Nil) (simp_all cong: cell_reads_cong)
  moreover have "fold (\<lambda>e. e) (TestNestedRequiredForeign_stored s) TestNestedRequiredForeign_zero = TestNestedRequiredForeign_norm s"
    by (cases s) (simp add: TestNestedRequiredForeign_stored_def TestNestedRequiredForeign_zero_def Child_update_def Payload_update_def Dummy_update_def)
  ultimately show "decodes_to (TestNestedRequiredForeignReader_Unmarshal NewTestNestedRequiredForeignReader) TestNestedRequiredForeignReader_ToStruct (fields_bytes (concat (TestNestedRequiredForeign_groups s))) (TestNestedRequiredForeign_norm s)"
    unfolding TestNestedRequiredForeign_unfold(4) TestNestedRequiredForeignReader_Unmarshal_def
    by - (rule decodes_groups [where fresh = "\<lambda>p. NewTestNestedRequiredForeignReader\<lparr>mbuf := Some p\<rparr>" and bufOf = mbuf, OF _ _ tagged], simp_all)
  show "list_all2 (\<lambda>e g. e = int (length (fields_bytes g))) (TestNestedRequiredForeign_sizes s) (TestNestedRequiredForeign_groups s)"
    unfolding TestNestedRequiredForeign_sizes_def TestNestedRequiredForeign_groups_def by (intro list.rel_intros field_sized sized_struct_at [OF assms(1)] m_TestRequiredForeign.sized_struct)
  show "list_all2 (\<lambda>st g. writes st (fields_bytes g)) (TestNestedRequiredForeign_appends s) (TestNestedRequiredForeign_groups s)"
    unfolding TestNestedRequiredForeign_appends_def TestNestedRequiredForeign_groups_def by (intro list.rel_intros field_written written_struct_at [OF assms(1)] m_TestRequiredForeign.written_struct)
qed (simp_all add: TestNestedRequiredForeign_unfold)

lemma TestNestedRequiredForeign_at_None: "codec_at TestNestedRequiredForeign_content TestNestedRequiredForeign_norm TestNestedRequiredForeign_XXX_PbContentSize TestNestedRequiredForeign_MarshalTo (TestNestedRequiredForeignReader_Unmarshal NewTestNestedRequiredForeignReader) TestNestedRequiredForeignReader_ToStruct None"
  by (simp add: codec_at_def ptr_bytes_def)

lemma TestNestedRequiredForeign_at: "codec_at TestNestedRequiredForeign_content TestNestedRequiredForeign_norm TestNestedRequiredForeign_XXX_PbContentSize TestNestedRequiredForeign_MarshalTo (TestNestedRequiredForeignReader_Unmarshal NewTestNestedRequiredForeignReader) TestNestedRequiredForeignReader_ToStruct x"
proof -
  have "codec_at TestNestedRequiredForeign_content TestNestedRequiredForeign_norm TestNestedRequiredForeign_XXX_PbContentSize TestNestedRequiredForeign_MarshalTo (TestNestedRequiredForeignReader_Unmarshal NewTestNestedRequiredForeignReader) TestNestedRequiredForeignReader_ToStruct (Some s)" for s
  proof (induction s)
    case (TestNestedRequiredForeign x0 x1 x2)
    have rx0: "codec_at TestNestedRequiredForeign_content TestNestedRequiredForeign_norm TestNestedRequiredForeign_XXX_PbContentSize TestNestedRequiredForeign_MarshalTo (TestNestedRequiredForeignReader_Unmarshal NewTestNestedRequiredForeignReader) TestNestedRequiredForeignReader_ToStruct x0"
      using TestNestedRequiredForeign(1) TestNestedRequiredForeign_at_None by (cases x0) simp_all
    show ?case by (rule TestNestedRequiredForeign_at_Some) (simp_all add: rx0)
  qed
  then show ?thesis using TestNestedRequiredForeign_at_None by (cases x) simp_all
qed

interpretation m_TestNestedRequiredForeign: message_codec TestNestedRequiredForeign_content TestNestedRequiredForeign_norm TestNestedRequiredForeign_XXX_PbContentSize TestNestedRequiredForeign_MarshalTo
  "TestNestedRequiredForeignReader_Unmarshal NewTestNestedRequiredForeignReader" TestNestedRequiredForeignReader_ToStruct
  by (rule message_codecI, rule TestNestedRequiredForeign_at)

end
