(* ===== verification/TestRecursiveMessage_Message.thy ===== *)
theory TestRecursiveMessage_Message
  imports Unittest_Base Recursive_Kinds
begin

text \<open>
  The message type \<^verbatim>\<open>TestRecursiveMessage\<close> of
  \<^verbatim>\<open>src/shared/gremlin_go/bench/gremlin_pb/protobuf_unittest/unittest.pb2.go\<close>, which contains itself: recursive functions compute its
  size and write it, and \<^verbatim>\<open>ToStruct\<close> recurses through the bytes of the message. Its promise is shown for one value
  from those for the values inside it, and for all by induction.
\<close>

section \<open>TestRecursiveMessage: the reader\<close>

definition wireTestRecursiveMessage_A :: ProtoWireNumber where "wireTestRecursiveMessage_A = 1"
definition wireTestRecursiveMessage_I :: ProtoWireNumber where "wireTestRecursiveMessage_I = 2"

lemmas wireTestRecursiveMessage =
  wireTestRecursiveMessage_A_def wireTestRecursiveMessage_I_def

text \<open>A reader holds readers of its own type, so it is a datatype; the cells of its fields are views of it.\<close>

datatype TestRecursiveMessageReader = TestRecursiveMessageReader (mbuf: "Reader option")
  (dataA: "TestRecursiveMessageReader option") (dataI: int32)
  (offsetA: int) (offsetI: int)
  (parsedA: bool) (parsedI: bool)

definition cellA :: "TestRecursiveMessageReader \<Rightarrow> (TestRecursiveMessageReader option) one_cell" where
  "cellA m = \<lparr>cellData = dataA m, cellOffset = offsetA m, cellParsed = parsedA m\<rparr>"

definition cellI :: "TestRecursiveMessageReader \<Rightarrow> int32 one_cell" where
  "cellI m = \<lparr>cellData = dataI m, cellOffset = offsetI m, cellParsed = parsedI m\<rparr>"

definition cellA_update :: "((TestRecursiveMessageReader option) one_cell \<Rightarrow> (TestRecursiveMessageReader option) one_cell) \<Rightarrow> TestRecursiveMessageReader \<Rightarrow> TestRecursiveMessageReader" where
  "cellA_update f m = (let c = f (cellA m) in
     TestRecursiveMessageReader (mbuf m) (cellData c) (dataI m) (cellOffset c) (offsetI m) (cellParsed c) (parsedI m))"

definition cellI_update :: "(int32 one_cell \<Rightarrow> int32 one_cell) \<Rightarrow> TestRecursiveMessageReader \<Rightarrow> TestRecursiveMessageReader" where
  "cellI_update f m = (let c = f (cellI m) in
     TestRecursiveMessageReader (mbuf m) (dataA m) (cellData c) (offsetA m) (cellOffset c) (parsedA m) (cellParsed c))"

definition mbuf_update :: "(Reader option \<Rightarrow> Reader option) \<Rightarrow> TestRecursiveMessageReader \<Rightarrow> TestRecursiveMessageReader" where
  "mbuf_update f m = TestRecursiveMessageReader (f (mbuf m)) (dataA m) (dataI m) (offsetA m) (offsetI m) (parsedA m) (parsedI m)"

lemma TestRecursiveMessage_cells [simp]:
  "cellA (cellA_update f0 m) = f0 (cellA m)"
  "cellI (cellA_update f0 m) = cellI m"
  "mbuf (cellA_update f0 m) = mbuf m"
  "cellA (mbuf_update f m) = cellA m"
  "cellA (cellI_update f1 m) = cellA m"
  "cellI (cellI_update f1 m) = f1 (cellI m)"
  "mbuf (cellI_update f1 m) = mbuf m"
  "cellI (mbuf_update f m) = cellI m"
  "mbuf (mbuf_update f m) = f (mbuf m)"
  by (simp_all add: Let_def cellA_def cellA_update_def cellI_def cellI_update_def mbuf_update_def)

definition NewTestRecursiveMessageReader :: TestRecursiveMessageReader where
  "NewTestRecursiveMessageReader = TestRecursiveMessageReader None None 0 0 0 False False"

lemma NewTestRecursiveMessage_cells [simp]:
  "mbuf NewTestRecursiveMessageReader = None" "cellA NewTestRecursiveMessageReader = newCell None 0" "cellI NewTestRecursiveMessageReader = newCell 0 0"
  by (simp_all add: NewTestRecursiveMessageReader_def cellA_def cellI_def newCell_def)

definition TestRecursiveMessageReader_cases :: "ProtoWireType \<Rightarrow> int \<Rightarrow> (ProtoWireNumber \<times> (TestRecursiveMessageReader \<Rightarrow> TestRecursiveMessageReader)) list" where
  "TestRecursiveMessageReader_cases wire offset = [
     (wireTestRecursiveMessage_A, \<lambda>m. m\<lparr>cellA := onOffset (setOffset wire offset) (cellA m)\<rparr>),
     (wireTestRecursiveMessage_I, \<lambda>m. m\<lparr>cellI := onOffset (setOffset wire offset) (cellI m)\<rparr>)]"

definition TestRecursiveMessageReader_save :: "ProtoWireNumber \<Rightarrow> ProtoWireType \<Rightarrow> int \<Rightarrow> TestRecursiveMessageReader \<Rightarrow> TestRecursiveMessageReader" where
  "TestRecursiveMessageReader_save tag wire offset = tag_switch (TestRecursiveMessageReader_cases wire offset) tag"

definition TestRecursiveMessageReader_Unmarshal :: "TestRecursiveMessageReader \<Rightarrow> gslice \<Rightarrow> (TestRecursiveMessageReader \<times> string option) run" where
  "TestRecursiveMessageReader_Unmarshal m data =
     unmarshalLoop TestRecursiveMessageReader_save (NewReader data) 0 (m\<lparr>mbuf := Some (NewReader data)\<rparr>)"

definition TestRecursiveMessageReader_SourceBytes :: "TestRecursiveMessageReader option \<Rightarrow> gslice" where
  "TestRecursiveMessageReader_SourceBytes s = (case s of None \<Rightarrow> nil_slice | Some r \<Rightarrow> Bytes (mbuf r))"

definition TestRecursiveMessageReader_readA :: "TestRecursiveMessageReader \<Rightarrow> (TestRecursiveMessageReader option \<times> TestRecursiveMessageReader) run" where
  "TestRecursiveMessageReader_readA = readCell cellA cellA_update mbuf (structReader (TestRecursiveMessageReader_Unmarshal NewTestRecursiveMessageReader))"

definition TestRecursiveMessageReader_GetA :: "TestRecursiveMessageReader option \<Rightarrow> (TestRecursiveMessageReader option \<times> TestRecursiveMessageReader option) run" where
  "TestRecursiveMessageReader_GetA = getter TestRecursiveMessageReader_readA None"

definition TestRecursiveMessageReader_readI :: "TestRecursiveMessageReader \<Rightarrow> (int32 \<times> TestRecursiveMessageReader) run" where
  "TestRecursiveMessageReader_readI = readCell cellI cellI_update mbuf (readOne ReadInt32 0)"

definition TestRecursiveMessageReader_GetI :: "TestRecursiveMessageReader option \<Rightarrow> (int32 \<times> TestRecursiveMessageReader option) run" where
  "TestRecursiveMessageReader_GetI = getter TestRecursiveMessageReader_readI 0"

lemmas TestRecursiveMessage_getters =
  TestRecursiveMessageReader_readA_def TestRecursiveMessageReader_GetA_def
  TestRecursiveMessageReader_readI_def TestRecursiveMessageReader_GetI_def

section \<open>TestRecursiveMessage: the struct\<close>

datatype TestRecursiveMessage = TestRecursiveMessage (A': "TestRecursiveMessage option") (I': int32)

definition A'_update :: "(TestRecursiveMessage option \<Rightarrow> TestRecursiveMessage option) \<Rightarrow> TestRecursiveMessage \<Rightarrow> TestRecursiveMessage" where
  "A'_update f s = TestRecursiveMessage (f (A' s)) (I' s)"

definition I'_update :: "(int32 \<Rightarrow> int32) \<Rightarrow> TestRecursiveMessage \<Rightarrow> TestRecursiveMessage" where
  "I'_update f s = TestRecursiveMessage (A' s) (f (I' s))"

definition TestRecursiveMessage_zero :: TestRecursiveMessage where
  "TestRecursiveMessage_zero = TestRecursiveMessage None 0"

fun TestRecursiveMessage_XXX_PbContentSize :: "TestRecursiveMessage option \<Rightarrow> int" where
  "TestRecursiveMessage_XXX_PbContentSize None = 0"
| "TestRecursiveMessage_XXX_PbContentSize (Some (TestRecursiveMessage x0 x1)) = sum_list [
     if x0 \<noteq> None then sizeDelimitedWithTag TestRecursiveMessage_XXX_PbContentSize wireTestRecursiveMessage_A x0 else 0,
     if x1 \<noteq> 0 then sizeWithTag SizeInt32 wireTestRecursiveMessage_I x1 else 0]"

fun TestRecursiveMessage_MarshalTo :: "Writer \<Rightarrow> TestRecursiveMessage option \<Rightarrow> Writer go" where
  "TestRecursiveMessage_MarshalTo res None = Ret res"
| "TestRecursiveMessage_MarshalTo res (Some (TestRecursiveMessage x0 x1)) = go_seq [
     \<lambda>res. if x0 \<noteq> None then structWriter TestRecursiveMessage_XXX_PbContentSize TestRecursiveMessage_MarshalTo res wireTestRecursiveMessage_A x0 else Ret res,
     \<lambda>res. if x1 \<noteq> 0 then AppendInt32 res wireTestRecursiveMessage_I x1 else Ret res] res"

definition TestRecursiveMessage_Marshal :: "TestRecursiveMessage option \<Rightarrow> byte list go" where
  "TestRecursiveMessage_Marshal = marshalWith TestRecursiveMessage_XXX_PbContentSize TestRecursiveMessage_MarshalTo"

fun TestRecursiveMessage_Copy :: "TestRecursiveMessage option \<Rightarrow> TestRecursiveMessage option" where
  "TestRecursiveMessage_Copy None = None"
| "TestRecursiveMessage_Copy (Some (TestRecursiveMessage x0 x1)) = Some (TestRecursiveMessage
     (case x0 of None \<Rightarrow> None | Some x \<Rightarrow> TestRecursiveMessage_Copy (Some x))
     x1)"

partial_function (option) TestRecursiveMessageReader_ToStruct :: "TestRecursiveMessageReader option \<Rightarrow> (TestRecursiveMessage option \<times> TestRecursiveMessageReader option) go option" where
  "TestRecursiveMessageReader_ToStruct m = toStructWith [
     assignStruct TestRecursiveMessageReader_GetA (structToStruct TestRecursiveMessageReader_ToStruct) cellA_update
       (\<lambda>v res. res\<lparr>A' := v\<rparr>),
     assign TestRecursiveMessageReader_GetI (\<lambda>v res. res\<lparr>I' := v\<rparr>)] TestRecursiveMessage_zero m"

section \<open>TestRecursiveMessage: the round trip\<close>

fun TestRecursiveMessage_content :: "TestRecursiveMessage \<Rightarrow> wfield list" where
  "TestRecursiveMessage_content (TestRecursiveMessage x0 x1) = concat [
     opt_field (x0 \<noteq> None) (wireTestRecursiveMessage_A, WBytes (ptr_bytes TestRecursiveMessage_content x0)),
     opt_field (x1 \<noteq> 0) (wireTestRecursiveMessage_I, int32_val x1)]"

text \<open>What a round trip keeps.\<close>

fun TestRecursiveMessage_norm :: "TestRecursiveMessage \<Rightarrow> TestRecursiveMessage" where
  "TestRecursiveMessage_norm (TestRecursiveMessage x0 x1) = TestRecursiveMessage
     (norm_ptr TestRecursiveMessage_content TestRecursiveMessage_norm x0)
     x1"

definition TestRecursiveMessage_tags :: "ProtoWireNumber list" where
  "TestRecursiveMessage_tags = [
     wireTestRecursiveMessage_A, wireTestRecursiveMessage_I]"

definition TestRecursiveMessage_groups :: "TestRecursiveMessage \<Rightarrow> wfield list list" where
  "TestRecursiveMessage_groups s = [
     opt_field (A' s \<noteq> None) (wireTestRecursiveMessage_A, WBytes (ptr_bytes TestRecursiveMessage_content (A' s))),
     opt_field (I' s \<noteq> 0) (wireTestRecursiveMessage_I, int32_val (I' s))]"

definition TestRecursiveMessage_sizes :: "TestRecursiveMessage \<Rightarrow> int list" where
  "TestRecursiveMessage_sizes s = [
     if A' s \<noteq> None then sizeDelimitedWithTag TestRecursiveMessage_XXX_PbContentSize wireTestRecursiveMessage_A (A' s) else 0,
     if I' s \<noteq> 0 then sizeWithTag SizeInt32 wireTestRecursiveMessage_I (I' s) else 0]"

definition TestRecursiveMessage_appends :: "TestRecursiveMessage \<Rightarrow> (Writer \<Rightarrow> Writer go) list" where
  "TestRecursiveMessage_appends s = [
     \<lambda>res. if A' s \<noteq> None then structWriter TestRecursiveMessage_XXX_PbContentSize TestRecursiveMessage_MarshalTo res wireTestRecursiveMessage_A (A' s) else Ret res,
     \<lambda>res. if I' s \<noteq> 0 then AppendInt32 res wireTestRecursiveMessage_I (I' s) else Ret res]"

definition TestRecursiveMessage_stmts :: "(TestRecursiveMessage \<times> TestRecursiveMessageReader option \<Rightarrow> (TestRecursiveMessage \<times> TestRecursiveMessageReader option) run) list" where
  "TestRecursiveMessage_stmts = [
     assignStruct TestRecursiveMessageReader_GetA (structToStruct TestRecursiveMessageReader_ToStruct) cellA_update
       (\<lambda>v res. res\<lparr>A' := v\<rparr>),
     assign TestRecursiveMessageReader_GetI (\<lambda>v res. res\<lparr>I' := v\<rparr>)]"

definition TestRecursiveMessage_ready :: "Reader \<Rightarrow> TestRecursiveMessage \<Rightarrow> (TestRecursiveMessageReader \<Rightarrow> bool) list" where
  "TestRecursiveMessage_ready p s = [
     \<lambda>m. cell_reads (structReader (TestRecursiveMessageReader_Unmarshal NewTestRecursiveMessageReader)) (structToStruct TestRecursiveMessageReader_ToStruct) p (norm_ptr TestRecursiveMessage_content TestRecursiveMessage_norm (A' s)) (cellA m),
     \<lambda>m. cell_reads (readOne ReadInt32 0) plain p (if I' s \<noteq> 0 then I' s else 0) (cellI m)]"

definition TestRecursiveMessage_stored :: "TestRecursiveMessage \<Rightarrow> (TestRecursiveMessage \<Rightarrow> TestRecursiveMessage) list" where
  "TestRecursiveMessage_stored s = [
     \<lambda>res. res\<lparr>A' := norm_ptr TestRecursiveMessage_content TestRecursiveMessage_norm (A' s)\<rparr>,
     \<lambda>res. res\<lparr>I' := if I' s \<noteq> 0 then I' s else 0\<rparr>]"

lemma TestRecursiveMessage_unfold:
  "TestRecursiveMessage_content s = concat (TestRecursiveMessage_groups s)" "TestRecursiveMessage_XXX_PbContentSize (Some s) = sum_list (TestRecursiveMessage_sizes s)"
  "TestRecursiveMessage_MarshalTo w (Some s) = go_seq (TestRecursiveMessage_appends s) w" "TestRecursiveMessageReader_ToStruct = toStructWith TestRecursiveMessage_stmts TestRecursiveMessage_zero"
proof -
  show "TestRecursiveMessage_content s = concat (TestRecursiveMessage_groups s)" by (cases s) (simp add: TestRecursiveMessage_groups_def)
  show "TestRecursiveMessage_XXX_PbContentSize (Some s) = sum_list (TestRecursiveMessage_sizes s)" by (cases s) (simp add: TestRecursiveMessage_sizes_def)
  show "TestRecursiveMessage_MarshalTo w (Some s) = go_seq (TestRecursiveMessage_appends s) w" by (cases s) (simp add: TestRecursiveMessage_appends_def)
  show "TestRecursiveMessageReader_ToStruct = toStructWith TestRecursiveMessage_stmts TestRecursiveMessage_zero" by (rule ext) (subst TestRecursiveMessageReader_ToStruct.simps, simp add: TestRecursiveMessage_stmts_def)
qed

lemma TestRecursiveMessage_cases_distinct: "distinct (map fst (TestRecursiveMessageReader_cases wire offset))"
  by (rule ascending_distinct) (simp add: TestRecursiveMessageReader_cases_def wireTestRecursiveMessage)

lemma TestRecursiveMessage_stores:
  "stores_cell TestRecursiveMessageReader_save wireTestRecursiveMessage_A setOffset cellA"
  "stores_cell TestRecursiveMessageReader_save wireTestRecursiveMessage_I setOffset cellI"
  unfolding TestRecursiveMessageReader_save_def [abs_def] by (rule stores_cell_switch; (rule TestRecursiveMessage_cases_distinct)?; unfold TestRecursiveMessageReader_cases_def; intro own_case.intros; simp)+

lemma TestRecursiveMessage_at_Some:
  assumes "codec_at TestRecursiveMessage_content TestRecursiveMessage_norm TestRecursiveMessage_XXX_PbContentSize TestRecursiveMessage_MarshalTo (TestRecursiveMessageReader_Unmarshal NewTestRecursiveMessageReader) TestRecursiveMessageReader_ToStruct (A' s)"
  shows "codec_at TestRecursiveMessage_content TestRecursiveMessage_norm TestRecursiveMessage_XXX_PbContentSize TestRecursiveMessage_MarshalTo (TestRecursiveMessageReader_Unmarshal NewTestRecursiveMessageReader) TestRecursiveMessageReader_ToStruct (Some s)"
proof (rule codec_at_groups)
  have tagged: "list_all2 (\<lambda>t g. \<forall>f \<in> set g. fst f = t \<and> wf_val (snd f)) TestRecursiveMessage_tags (TestRecursiveMessage_groups s)"
    unfolding TestRecursiveMessage_tags_def TestRecursiveMessage_groups_def by (intro list.rel_intros field_tagged)
  have "distinct TestRecursiveMessage_tags"
    using TestRecursiveMessage_cases_distinct by (simp only: TestRecursiveMessageReader_cases_def TestRecursiveMessage_tags_def list.map fst_conv)
  moreover have "list_all valid_tag TestRecursiveMessage_tags"
    by (simp add: TestRecursiveMessage_tags_def wireTestRecursiveMessage valid_tag_def)
  moreover have "mbuf (TestRecursiveMessageReader_save t w off m) = mbuf m" for t w off m
    unfolding TestRecursiveMessageReader_save_def by (rule tag_switch_keeps) (simp add: TestRecursiveMessageReader_cases_def)
  moreover have "good_fields TestRecursiveMessageReader_save p (NewTestRecursiveMessageReader\<lparr>mbuf := Some p\<rparr>) TestRecursiveMessage_tags (TestRecursiveMessage_groups s) (TestRecursiveMessage_ready p s)" for p
    unfolding TestRecursiveMessage_tags_def TestRecursiveMessage_groups_def TestRecursiveMessage_ready_def
    by (intro good_fields.intros field_saved saved_struct_at [OF assms(1)] TestRecursiveMessage_stores) (simp_all add: newCell_def)
  moreover have "good_stmts mbuf p TestRecursiveMessage_stmts (TestRecursiveMessage_ready p s) (TestRecursiveMessage_stored s)" for p
    unfolding TestRecursiveMessage_stmts_def TestRecursiveMessage_ready_def TestRecursiveMessage_stored_def TestRecursiveMessage_getters
    by (intro good_stmts_field good_stmts.Nil) (simp_all cong: cell_reads_cong)
  moreover have "fold (\<lambda>e. e) (TestRecursiveMessage_stored s) TestRecursiveMessage_zero = TestRecursiveMessage_norm s"
    by (cases s) (simp add: TestRecursiveMessage_stored_def TestRecursiveMessage_zero_def A'_update_def I'_update_def)
  ultimately show "decodes_to (TestRecursiveMessageReader_Unmarshal NewTestRecursiveMessageReader) TestRecursiveMessageReader_ToStruct (fields_bytes (concat (TestRecursiveMessage_groups s))) (TestRecursiveMessage_norm s)"
    unfolding TestRecursiveMessage_unfold(4) TestRecursiveMessageReader_Unmarshal_def
    by - (rule decodes_groups [where fresh = "\<lambda>p. NewTestRecursiveMessageReader\<lparr>mbuf := Some p\<rparr>" and bufOf = mbuf, OF _ _ tagged], simp_all)
  show "list_all2 (\<lambda>e g. e = int (length (fields_bytes g))) (TestRecursiveMessage_sizes s) (TestRecursiveMessage_groups s)"
    unfolding TestRecursiveMessage_sizes_def TestRecursiveMessage_groups_def by (intro list.rel_intros field_sized sized_struct_at [OF assms(1)])
  show "list_all2 (\<lambda>st g. writes st (fields_bytes g)) (TestRecursiveMessage_appends s) (TestRecursiveMessage_groups s)"
    unfolding TestRecursiveMessage_appends_def TestRecursiveMessage_groups_def by (intro list.rel_intros field_written written_struct_at [OF assms(1)])
qed (simp_all add: TestRecursiveMessage_unfold)

lemma TestRecursiveMessage_at_None: "codec_at TestRecursiveMessage_content TestRecursiveMessage_norm TestRecursiveMessage_XXX_PbContentSize TestRecursiveMessage_MarshalTo (TestRecursiveMessageReader_Unmarshal NewTestRecursiveMessageReader) TestRecursiveMessageReader_ToStruct None"
  by (simp add: codec_at_def ptr_bytes_def)

lemma TestRecursiveMessage_at: "codec_at TestRecursiveMessage_content TestRecursiveMessage_norm TestRecursiveMessage_XXX_PbContentSize TestRecursiveMessage_MarshalTo (TestRecursiveMessageReader_Unmarshal NewTestRecursiveMessageReader) TestRecursiveMessageReader_ToStruct x"
proof -
  have "codec_at TestRecursiveMessage_content TestRecursiveMessage_norm TestRecursiveMessage_XXX_PbContentSize TestRecursiveMessage_MarshalTo (TestRecursiveMessageReader_Unmarshal NewTestRecursiveMessageReader) TestRecursiveMessageReader_ToStruct (Some s)" for s
  proof (induction s)
    case (TestRecursiveMessage x0 x1)
    have rx0: "codec_at TestRecursiveMessage_content TestRecursiveMessage_norm TestRecursiveMessage_XXX_PbContentSize TestRecursiveMessage_MarshalTo (TestRecursiveMessageReader_Unmarshal NewTestRecursiveMessageReader) TestRecursiveMessageReader_ToStruct x0"
      using TestRecursiveMessage(1) TestRecursiveMessage_at_None by (cases x0) simp_all
    show ?case by (rule TestRecursiveMessage_at_Some) (simp_all add: rx0)
  qed
  then show ?thesis using TestRecursiveMessage_at_None by (cases x) simp_all
qed

interpretation m_TestRecursiveMessage: message_codec TestRecursiveMessage_content TestRecursiveMessage_norm TestRecursiveMessage_XXX_PbContentSize TestRecursiveMessage_MarshalTo
  "TestRecursiveMessageReader_Unmarshal NewTestRecursiveMessageReader" TestRecursiveMessageReader_ToStruct
  by (rule message_codecI, rule TestRecursiveMessage_at)

end
