(* ===== verification/TestMutualRecursion_Message.thy ===== *)
theory TestMutualRecursion_Message
  imports Unittest_Base Recursive_Kinds
begin

text \<open>
  The message types \<^verbatim>\<open>TestMutualRecursionA\<close> and \<^verbatim>\<open>TestMutualRecursionB\<close> of
  \<^verbatim>\<open>src/shared/gremlin_go/bench/gremlin_pb/protobuf_unittest/unittest.pb2.go\<close>, which contain each other, and a message that contains the second.
\<close>

section \<open>TestMutualRecursionA: the tags\<close>

definition wireTestMutualRecursionA_Bb :: ProtoWireNumber where "wireTestMutualRecursionA_Bb = 1"

lemmas wireTestMutualRecursionA =
  wireTestMutualRecursionA_Bb_def

section \<open>TestMutualRecursionB: the tags\<close>

definition wireTestMutualRecursionB_A :: ProtoWireNumber where "wireTestMutualRecursionB_A = 1"
definition wireTestMutualRecursionB_OptionalInt32 :: ProtoWireNumber where "wireTestMutualRecursionB_OptionalInt32 = 2"

lemmas wireTestMutualRecursionB =
  wireTestMutualRecursionB_A_def wireTestMutualRecursionB_OptionalInt32_def

section \<open>The readers\<close>

text \<open>A reader holds readers of its own type, so it is a datatype; the cells of its fields are views of it.\<close>

datatype TestMutualRecursionAReader = TestMutualRecursionAReader (mbufA: "Reader option")
  (dataBb: "TestMutualRecursionBReader option")
  (offsetBb: int)
  (parsedBb: bool)
and TestMutualRecursionBReader = TestMutualRecursionBReader (mbufB: "Reader option")
  (dataA: "TestMutualRecursionAReader option") (dataOptionalInt32: int32)
  (offsetA: int) (offsetOptionalInt32: int)
  (parsedA: bool) (parsedOptionalInt32: bool)

definition cellBb :: "TestMutualRecursionAReader \<Rightarrow> (TestMutualRecursionBReader option) one_cell" where
  "cellBb m = \<lparr>cellData = dataBb m, cellOffset = offsetBb m, cellParsed = parsedBb m\<rparr>"

definition cellBb_update :: "((TestMutualRecursionBReader option) one_cell \<Rightarrow> (TestMutualRecursionBReader option) one_cell) \<Rightarrow> TestMutualRecursionAReader \<Rightarrow> TestMutualRecursionAReader" where
  "cellBb_update f m = (let c = f (cellBb m) in
     TestMutualRecursionAReader (mbufA m) (cellData c) (cellOffset c) (cellParsed c))"

definition mbufA_update :: "(Reader option \<Rightarrow> Reader option) \<Rightarrow> TestMutualRecursionAReader \<Rightarrow> TestMutualRecursionAReader" where
  "mbufA_update f m = TestMutualRecursionAReader (f (mbufA m)) (dataBb m) (offsetBb m) (parsedBb m)"

lemma TestMutualRecursionA_cells [simp]:
  "cellBb (cellBb_update f0 m) = f0 (cellBb m)"
  "mbufA (cellBb_update f0 m) = mbufA m"
  "cellBb (mbufA_update f m) = cellBb m"
  "mbufA (mbufA_update f m) = f (mbufA m)"
  by (simp_all add: Let_def cellBb_def cellBb_update_def mbufA_update_def)

definition NewTestMutualRecursionAReader :: TestMutualRecursionAReader where
  "NewTestMutualRecursionAReader = TestMutualRecursionAReader None None 0 False"

lemma NewTestMutualRecursionA_cells [simp]:
  "mbufA NewTestMutualRecursionAReader = None" "cellBb NewTestMutualRecursionAReader = newCell None 0"
  by (simp_all add: NewTestMutualRecursionAReader_def cellBb_def newCell_def)

definition TestMutualRecursionAReader_cases :: "ProtoWireType \<Rightarrow> int \<Rightarrow> (ProtoWireNumber \<times> (TestMutualRecursionAReader \<Rightarrow> TestMutualRecursionAReader)) list" where
  "TestMutualRecursionAReader_cases wire offset = [
     (wireTestMutualRecursionA_Bb, \<lambda>m. m\<lparr>cellBb := onOffset (setOffset wire offset) (cellBb m)\<rparr>)]"

definition TestMutualRecursionAReader_save :: "ProtoWireNumber \<Rightarrow> ProtoWireType \<Rightarrow> int \<Rightarrow> TestMutualRecursionAReader \<Rightarrow> TestMutualRecursionAReader" where
  "TestMutualRecursionAReader_save tag wire offset = tag_switch (TestMutualRecursionAReader_cases wire offset) tag"

definition TestMutualRecursionAReader_Unmarshal :: "TestMutualRecursionAReader \<Rightarrow> gslice \<Rightarrow> (TestMutualRecursionAReader \<times> string option) run" where
  "TestMutualRecursionAReader_Unmarshal m data =
     unmarshalLoop TestMutualRecursionAReader_save (NewReader data) 0 (m\<lparr>mbufA := Some (NewReader data)\<rparr>)"

definition TestMutualRecursionAReader_SourceBytes :: "TestMutualRecursionAReader option \<Rightarrow> gslice" where
  "TestMutualRecursionAReader_SourceBytes s = (case s of None \<Rightarrow> nil_slice | Some r \<Rightarrow> Bytes (mbufA r))"

definition cellA :: "TestMutualRecursionBReader \<Rightarrow> (TestMutualRecursionAReader option) one_cell" where
  "cellA m = \<lparr>cellData = dataA m, cellOffset = offsetA m, cellParsed = parsedA m\<rparr>"

definition cellOptionalInt32 :: "TestMutualRecursionBReader \<Rightarrow> int32 one_cell" where
  "cellOptionalInt32 m = \<lparr>cellData = dataOptionalInt32 m, cellOffset = offsetOptionalInt32 m, cellParsed = parsedOptionalInt32 m\<rparr>"

definition cellA_update :: "((TestMutualRecursionAReader option) one_cell \<Rightarrow> (TestMutualRecursionAReader option) one_cell) \<Rightarrow> TestMutualRecursionBReader \<Rightarrow> TestMutualRecursionBReader" where
  "cellA_update f m = (let c = f (cellA m) in
     TestMutualRecursionBReader (mbufB m) (cellData c) (dataOptionalInt32 m) (cellOffset c) (offsetOptionalInt32 m) (cellParsed c) (parsedOptionalInt32 m))"

definition cellOptionalInt32_update :: "(int32 one_cell \<Rightarrow> int32 one_cell) \<Rightarrow> TestMutualRecursionBReader \<Rightarrow> TestMutualRecursionBReader" where
  "cellOptionalInt32_update f m = (let c = f (cellOptionalInt32 m) in
     TestMutualRecursionBReader (mbufB m) (dataA m) (cellData c) (offsetA m) (cellOffset c) (parsedA m) (cellParsed c))"

definition mbufB_update :: "(Reader option \<Rightarrow> Reader option) \<Rightarrow> TestMutualRecursionBReader \<Rightarrow> TestMutualRecursionBReader" where
  "mbufB_update f m = TestMutualRecursionBReader (f (mbufB m)) (dataA m) (dataOptionalInt32 m) (offsetA m) (offsetOptionalInt32 m) (parsedA m) (parsedOptionalInt32 m)"

lemma TestMutualRecursionB_cells [simp]:
  "cellA (cellA_update f0 m) = f0 (cellA m)"
  "cellOptionalInt32 (cellA_update f0 m) = cellOptionalInt32 m"
  "mbufB (cellA_update f0 m) = mbufB m"
  "cellA (mbufB_update f m) = cellA m"
  "cellA (cellOptionalInt32_update f1 m) = cellA m"
  "cellOptionalInt32 (cellOptionalInt32_update f1 m) = f1 (cellOptionalInt32 m)"
  "mbufB (cellOptionalInt32_update f1 m) = mbufB m"
  "cellOptionalInt32 (mbufB_update f m) = cellOptionalInt32 m"
  "mbufB (mbufB_update f m) = f (mbufB m)"
  by (simp_all add: Let_def cellA_def cellA_update_def cellOptionalInt32_def cellOptionalInt32_update_def mbufB_update_def)

definition NewTestMutualRecursionBReader :: TestMutualRecursionBReader where
  "NewTestMutualRecursionBReader = TestMutualRecursionBReader None None 0 0 0 False False"

lemma NewTestMutualRecursionB_cells [simp]:
  "mbufB NewTestMutualRecursionBReader = None" "cellA NewTestMutualRecursionBReader = newCell None 0" "cellOptionalInt32 NewTestMutualRecursionBReader = newCell 0 0"
  by (simp_all add: NewTestMutualRecursionBReader_def cellA_def cellOptionalInt32_def newCell_def)

definition TestMutualRecursionBReader_cases :: "ProtoWireType \<Rightarrow> int \<Rightarrow> (ProtoWireNumber \<times> (TestMutualRecursionBReader \<Rightarrow> TestMutualRecursionBReader)) list" where
  "TestMutualRecursionBReader_cases wire offset = [
     (wireTestMutualRecursionB_A, \<lambda>m. m\<lparr>cellA := onOffset (setOffset wire offset) (cellA m)\<rparr>),
     (wireTestMutualRecursionB_OptionalInt32, \<lambda>m. m\<lparr>cellOptionalInt32 := onOffset (setOffset wire offset) (cellOptionalInt32 m)\<rparr>)]"

definition TestMutualRecursionBReader_save :: "ProtoWireNumber \<Rightarrow> ProtoWireType \<Rightarrow> int \<Rightarrow> TestMutualRecursionBReader \<Rightarrow> TestMutualRecursionBReader" where
  "TestMutualRecursionBReader_save tag wire offset = tag_switch (TestMutualRecursionBReader_cases wire offset) tag"

definition TestMutualRecursionBReader_Unmarshal :: "TestMutualRecursionBReader \<Rightarrow> gslice \<Rightarrow> (TestMutualRecursionBReader \<times> string option) run" where
  "TestMutualRecursionBReader_Unmarshal m data =
     unmarshalLoop TestMutualRecursionBReader_save (NewReader data) 0 (m\<lparr>mbufB := Some (NewReader data)\<rparr>)"

definition TestMutualRecursionBReader_SourceBytes :: "TestMutualRecursionBReader option \<Rightarrow> gslice" where
  "TestMutualRecursionBReader_SourceBytes s = (case s of None \<Rightarrow> nil_slice | Some r \<Rightarrow> Bytes (mbufB r))"

definition TestMutualRecursionAReader_readBb :: "TestMutualRecursionAReader \<Rightarrow> (TestMutualRecursionBReader option \<times> TestMutualRecursionAReader) run" where
  "TestMutualRecursionAReader_readBb = readCell cellBb cellBb_update mbufA (structReader (TestMutualRecursionBReader_Unmarshal NewTestMutualRecursionBReader))"

definition TestMutualRecursionAReader_GetBb :: "TestMutualRecursionAReader option \<Rightarrow> (TestMutualRecursionBReader option \<times> TestMutualRecursionAReader option) run" where
  "TestMutualRecursionAReader_GetBb = getter TestMutualRecursionAReader_readBb None"

lemmas TestMutualRecursionA_getters =
  TestMutualRecursionAReader_readBb_def TestMutualRecursionAReader_GetBb_def

definition TestMutualRecursionBReader_readA :: "TestMutualRecursionBReader \<Rightarrow> (TestMutualRecursionAReader option \<times> TestMutualRecursionBReader) run" where
  "TestMutualRecursionBReader_readA = readCell cellA cellA_update mbufB (structReader (TestMutualRecursionAReader_Unmarshal NewTestMutualRecursionAReader))"

definition TestMutualRecursionBReader_GetA :: "TestMutualRecursionBReader option \<Rightarrow> (TestMutualRecursionAReader option \<times> TestMutualRecursionBReader option) run" where
  "TestMutualRecursionBReader_GetA = getter TestMutualRecursionBReader_readA None"

definition TestMutualRecursionBReader_readOptionalInt32 :: "TestMutualRecursionBReader \<Rightarrow> (int32 \<times> TestMutualRecursionBReader) run" where
  "TestMutualRecursionBReader_readOptionalInt32 = readCell cellOptionalInt32 cellOptionalInt32_update mbufB (readOne ReadInt32 0)"

definition TestMutualRecursionBReader_GetOptionalInt32 :: "TestMutualRecursionBReader option \<Rightarrow> (int32 \<times> TestMutualRecursionBReader option) run" where
  "TestMutualRecursionBReader_GetOptionalInt32 = getter TestMutualRecursionBReader_readOptionalInt32 0"

lemmas TestMutualRecursionB_getters =
  TestMutualRecursionBReader_readA_def TestMutualRecursionBReader_GetA_def
  TestMutualRecursionBReader_readOptionalInt32_def TestMutualRecursionBReader_GetOptionalInt32_def

section \<open>The structs\<close>

datatype TestMutualRecursionA = TestMutualRecursionA (Bb: "TestMutualRecursionB option")
and TestMutualRecursionB = TestMutualRecursionB (A': "TestMutualRecursionA option") (OptionalInt32: int32)

definition Bb_update :: "(TestMutualRecursionB option \<Rightarrow> TestMutualRecursionB option) \<Rightarrow> TestMutualRecursionA \<Rightarrow> TestMutualRecursionA" where
  "Bb_update f s = TestMutualRecursionA (f (Bb s))"

definition TestMutualRecursionA_zero :: TestMutualRecursionA where
  "TestMutualRecursionA_zero = TestMutualRecursionA None"

definition A'_update :: "(TestMutualRecursionA option \<Rightarrow> TestMutualRecursionA option) \<Rightarrow> TestMutualRecursionB \<Rightarrow> TestMutualRecursionB" where
  "A'_update f s = TestMutualRecursionB (f (A' s)) (OptionalInt32 s)"

definition OptionalInt32_update :: "(int32 \<Rightarrow> int32) \<Rightarrow> TestMutualRecursionB \<Rightarrow> TestMutualRecursionB" where
  "OptionalInt32_update f s = TestMutualRecursionB (A' s) (f (OptionalInt32 s))"

definition TestMutualRecursionB_zero :: TestMutualRecursionB where
  "TestMutualRecursionB_zero = TestMutualRecursionB None 0"

fun TestMutualRecursionA_XXX_PbContentSize :: "TestMutualRecursionA option \<Rightarrow> int"
  and TestMutualRecursionB_XXX_PbContentSize :: "TestMutualRecursionB option \<Rightarrow> int" where
  "TestMutualRecursionA_XXX_PbContentSize None = 0"
| "TestMutualRecursionA_XXX_PbContentSize (Some (TestMutualRecursionA x0)) = sum_list [
     if x0 \<noteq> None then sizeDelimitedWithTag TestMutualRecursionB_XXX_PbContentSize wireTestMutualRecursionA_Bb x0 else 0]"
| "TestMutualRecursionB_XXX_PbContentSize None = 0"
| "TestMutualRecursionB_XXX_PbContentSize (Some (TestMutualRecursionB x0 x1)) = sum_list [
     if x0 \<noteq> None then sizeDelimitedWithTag TestMutualRecursionA_XXX_PbContentSize wireTestMutualRecursionB_A x0 else 0,
     if x1 \<noteq> 0 then sizeWithTag SizeInt32 wireTestMutualRecursionB_OptionalInt32 x1 else 0]"

fun TestMutualRecursionA_MarshalTo :: "Writer \<Rightarrow> TestMutualRecursionA option \<Rightarrow> Writer go"
  and TestMutualRecursionB_MarshalTo :: "Writer \<Rightarrow> TestMutualRecursionB option \<Rightarrow> Writer go" where
  "TestMutualRecursionA_MarshalTo res None = Ret res"
| "TestMutualRecursionA_MarshalTo res (Some (TestMutualRecursionA x0)) = go_seq [
     \<lambda>res. if x0 \<noteq> None then structWriter TestMutualRecursionB_XXX_PbContentSize TestMutualRecursionB_MarshalTo res wireTestMutualRecursionA_Bb x0 else Ret res] res"
| "TestMutualRecursionB_MarshalTo res None = Ret res"
| "TestMutualRecursionB_MarshalTo res (Some (TestMutualRecursionB x0 x1)) = go_seq [
     \<lambda>res. if x0 \<noteq> None then structWriter TestMutualRecursionA_XXX_PbContentSize TestMutualRecursionA_MarshalTo res wireTestMutualRecursionB_A x0 else Ret res,
     \<lambda>res. if x1 \<noteq> 0 then AppendInt32 res wireTestMutualRecursionB_OptionalInt32 x1 else Ret res] res"

definition TestMutualRecursionA_Marshal :: "TestMutualRecursionA option \<Rightarrow> byte list go" where
  "TestMutualRecursionA_Marshal = marshalWith TestMutualRecursionA_XXX_PbContentSize TestMutualRecursionA_MarshalTo"

definition TestMutualRecursionB_Marshal :: "TestMutualRecursionB option \<Rightarrow> byte list go" where
  "TestMutualRecursionB_Marshal = marshalWith TestMutualRecursionB_XXX_PbContentSize TestMutualRecursionB_MarshalTo"

fun TestMutualRecursionA_Copy :: "TestMutualRecursionA option \<Rightarrow> TestMutualRecursionA option"
  and TestMutualRecursionB_Copy :: "TestMutualRecursionB option \<Rightarrow> TestMutualRecursionB option" where
  "TestMutualRecursionA_Copy None = None"
| "TestMutualRecursionA_Copy (Some (TestMutualRecursionA x0)) = Some (TestMutualRecursionA
     (case x0 of None \<Rightarrow> None | Some x \<Rightarrow> TestMutualRecursionB_Copy (Some x)))"
| "TestMutualRecursionB_Copy None = None"
| "TestMutualRecursionB_Copy (Some (TestMutualRecursionB x0 x1)) = Some (TestMutualRecursionB
     (case x0 of None \<Rightarrow> None | Some x \<Rightarrow> TestMutualRecursionA_Copy (Some x))
     x1)"

text \<open>The recursion goes through both types; it is taken at the second.\<close>

definition TestMutualRecursionAReader_ToStruct_with ::
  "(TestMutualRecursionBReader option \<Rightarrow> (TestMutualRecursionB option \<times> TestMutualRecursionBReader option) go option) \<Rightarrow> TestMutualRecursionAReader option \<Rightarrow> (TestMutualRecursionA option \<times> TestMutualRecursionAReader option) go option" where
  "TestMutualRecursionAReader_ToStruct_with to_struct = toStructWith [
     assignStruct TestMutualRecursionAReader_GetBb (structToStruct to_struct) cellBb_update
       (\<lambda>v res. res\<lparr>Bb := v\<rparr>)] TestMutualRecursionA_zero"

lemma TestMutualRecursionA_ToStruct_mono [partial_function_mono]:
  "(\<And>x. mono_option (\<lambda>f. F f x)) \<Longrightarrow> mono_option (\<lambda>f. TestMutualRecursionAReader_ToStruct_with (F f) m)"
  unfolding TestMutualRecursionAReader_ToStruct_with_def
  by (intro toStructWith_mono run_seq_mono assignStruct_mono structToStruct_mono option.const_mono)

partial_function (option) TestMutualRecursionBReader_ToStruct :: "TestMutualRecursionBReader option \<Rightarrow> (TestMutualRecursionB option \<times> TestMutualRecursionBReader option) go option" where
  "TestMutualRecursionBReader_ToStruct m = toStructWith [
     assignStruct TestMutualRecursionBReader_GetA (structToStruct (TestMutualRecursionAReader_ToStruct_with TestMutualRecursionBReader_ToStruct)) cellA_update
       (\<lambda>v res. res\<lparr>A' := v\<rparr>),
     assign TestMutualRecursionBReader_GetOptionalInt32 (\<lambda>v res. res\<lparr>OptionalInt32 := v\<rparr>)] TestMutualRecursionB_zero m"

definition TestMutualRecursionAReader_ToStruct :: "TestMutualRecursionAReader option \<Rightarrow> (TestMutualRecursionA option \<times> TestMutualRecursionAReader option) go option" where
  "TestMutualRecursionAReader_ToStruct = TestMutualRecursionAReader_ToStruct_with TestMutualRecursionBReader_ToStruct"

section \<open>The round trips\<close>

fun TestMutualRecursionA_content :: "TestMutualRecursionA \<Rightarrow> wfield list"
  and TestMutualRecursionB_content :: "TestMutualRecursionB \<Rightarrow> wfield list" where
  "TestMutualRecursionA_content (TestMutualRecursionA x0) = concat [
     opt_field (x0 \<noteq> None) (wireTestMutualRecursionA_Bb, WBytes (ptr_bytes TestMutualRecursionB_content x0))]"
| "TestMutualRecursionB_content (TestMutualRecursionB x0 x1) = concat [
     opt_field (x0 \<noteq> None) (wireTestMutualRecursionB_A, WBytes (ptr_bytes TestMutualRecursionA_content x0)),
     opt_field (x1 \<noteq> 0) (wireTestMutualRecursionB_OptionalInt32, int32_val x1)]"

text \<open>What a round trip keeps.\<close>

fun TestMutualRecursionA_norm :: "TestMutualRecursionA \<Rightarrow> TestMutualRecursionA"
  and TestMutualRecursionB_norm :: "TestMutualRecursionB \<Rightarrow> TestMutualRecursionB" where
  "TestMutualRecursionA_norm (TestMutualRecursionA x0) = TestMutualRecursionA
     (norm_ptr TestMutualRecursionB_content TestMutualRecursionB_norm x0)"
| "TestMutualRecursionB_norm (TestMutualRecursionB x0 x1) = TestMutualRecursionB
     (norm_ptr TestMutualRecursionA_content TestMutualRecursionA_norm x0)
     x1"

definition TestMutualRecursionA_tags :: "ProtoWireNumber list" where
  "TestMutualRecursionA_tags = [
     wireTestMutualRecursionA_Bb]"

definition TestMutualRecursionA_groups :: "TestMutualRecursionA \<Rightarrow> wfield list list" where
  "TestMutualRecursionA_groups s = [
     opt_field (Bb s \<noteq> None) (wireTestMutualRecursionA_Bb, WBytes (ptr_bytes TestMutualRecursionB_content (Bb s)))]"

definition TestMutualRecursionA_sizes :: "TestMutualRecursionA \<Rightarrow> int list" where
  "TestMutualRecursionA_sizes s = [
     if Bb s \<noteq> None then sizeDelimitedWithTag TestMutualRecursionB_XXX_PbContentSize wireTestMutualRecursionA_Bb (Bb s) else 0]"

definition TestMutualRecursionA_appends :: "TestMutualRecursionA \<Rightarrow> (Writer \<Rightarrow> Writer go) list" where
  "TestMutualRecursionA_appends s = [
     \<lambda>res. if Bb s \<noteq> None then structWriter TestMutualRecursionB_XXX_PbContentSize TestMutualRecursionB_MarshalTo res wireTestMutualRecursionA_Bb (Bb s) else Ret res]"

definition TestMutualRecursionA_stmts :: "(TestMutualRecursionA \<times> TestMutualRecursionAReader option \<Rightarrow> (TestMutualRecursionA \<times> TestMutualRecursionAReader option) run) list" where
  "TestMutualRecursionA_stmts = [
     assignStruct TestMutualRecursionAReader_GetBb (structToStruct TestMutualRecursionBReader_ToStruct) cellBb_update
       (\<lambda>v res. res\<lparr>Bb := v\<rparr>)]"

definition TestMutualRecursionA_ready :: "Reader \<Rightarrow> TestMutualRecursionA \<Rightarrow> (TestMutualRecursionAReader \<Rightarrow> bool) list" where
  "TestMutualRecursionA_ready p s = [
     \<lambda>m. cell_reads (structReader (TestMutualRecursionBReader_Unmarshal NewTestMutualRecursionBReader)) (structToStruct TestMutualRecursionBReader_ToStruct) p (norm_ptr TestMutualRecursionB_content TestMutualRecursionB_norm (Bb s)) (cellBb m)]"

definition TestMutualRecursionA_stored :: "TestMutualRecursionA \<Rightarrow> (TestMutualRecursionA \<Rightarrow> TestMutualRecursionA) list" where
  "TestMutualRecursionA_stored s = [
     \<lambda>res. res\<lparr>Bb := norm_ptr TestMutualRecursionB_content TestMutualRecursionB_norm (Bb s)\<rparr>]"

lemma TestMutualRecursionA_unfold:
  "TestMutualRecursionA_content s = concat (TestMutualRecursionA_groups s)" "TestMutualRecursionA_XXX_PbContentSize (Some s) = sum_list (TestMutualRecursionA_sizes s)"
  "TestMutualRecursionA_MarshalTo w (Some s) = go_seq (TestMutualRecursionA_appends s) w" "TestMutualRecursionAReader_ToStruct = toStructWith TestMutualRecursionA_stmts TestMutualRecursionA_zero"
proof -
  show "TestMutualRecursionA_content s = concat (TestMutualRecursionA_groups s)" by (cases s) (simp add: TestMutualRecursionA_groups_def)
  show "TestMutualRecursionA_XXX_PbContentSize (Some s) = sum_list (TestMutualRecursionA_sizes s)" by (cases s) (simp add: TestMutualRecursionA_sizes_def)
  show "TestMutualRecursionA_MarshalTo w (Some s) = go_seq (TestMutualRecursionA_appends s) w" by (cases s) (simp add: TestMutualRecursionA_appends_def)
  show "TestMutualRecursionAReader_ToStruct = toStructWith TestMutualRecursionA_stmts TestMutualRecursionA_zero" by (rule ext) (simp add: TestMutualRecursionAReader_ToStruct_def TestMutualRecursionAReader_ToStruct_with_def TestMutualRecursionA_stmts_def)
qed

lemma TestMutualRecursionA_cases_distinct: "distinct (map fst (TestMutualRecursionAReader_cases wire offset))"
  by (rule ascending_distinct) (simp add: TestMutualRecursionAReader_cases_def wireTestMutualRecursionA)

lemma TestMutualRecursionA_stores:
  "stores_cell TestMutualRecursionAReader_save wireTestMutualRecursionA_Bb setOffset cellBb"
  unfolding TestMutualRecursionAReader_save_def [abs_def] by (rule stores_cell_switch; (rule TestMutualRecursionA_cases_distinct)?; unfold TestMutualRecursionAReader_cases_def; intro own_case.intros; simp)+

lemma TestMutualRecursionA_at_Some:
  assumes "codec_at TestMutualRecursionB_content TestMutualRecursionB_norm TestMutualRecursionB_XXX_PbContentSize TestMutualRecursionB_MarshalTo (TestMutualRecursionBReader_Unmarshal NewTestMutualRecursionBReader) TestMutualRecursionBReader_ToStruct (Bb s)"
  shows "codec_at TestMutualRecursionA_content TestMutualRecursionA_norm TestMutualRecursionA_XXX_PbContentSize TestMutualRecursionA_MarshalTo (TestMutualRecursionAReader_Unmarshal NewTestMutualRecursionAReader) TestMutualRecursionAReader_ToStruct (Some s)"
proof (rule codec_at_groups)
  have tagged: "list_all2 (\<lambda>t g. \<forall>f \<in> set g. fst f = t \<and> wf_val (snd f)) TestMutualRecursionA_tags (TestMutualRecursionA_groups s)"
    unfolding TestMutualRecursionA_tags_def TestMutualRecursionA_groups_def by (intro list.rel_intros field_tagged)
  have "distinct TestMutualRecursionA_tags"
    using TestMutualRecursionA_cases_distinct by (simp only: TestMutualRecursionAReader_cases_def TestMutualRecursionA_tags_def list.map fst_conv)
  moreover have "list_all valid_tag TestMutualRecursionA_tags"
    by (simp add: TestMutualRecursionA_tags_def wireTestMutualRecursionA valid_tag_def)
  moreover have "mbufA (TestMutualRecursionAReader_save t w off m) = mbufA m" for t w off m
    unfolding TestMutualRecursionAReader_save_def by (rule tag_switch_keeps) (simp add: TestMutualRecursionAReader_cases_def)
  moreover have "good_fields TestMutualRecursionAReader_save p (NewTestMutualRecursionAReader\<lparr>mbufA := Some p\<rparr>) TestMutualRecursionA_tags (TestMutualRecursionA_groups s) (TestMutualRecursionA_ready p s)" for p
    unfolding TestMutualRecursionA_tags_def TestMutualRecursionA_groups_def TestMutualRecursionA_ready_def
    by (intro good_fields.intros field_saved saved_struct_at [OF assms(1)] TestMutualRecursionA_stores) (simp_all add: newCell_def)
  moreover have "good_stmts mbufA p TestMutualRecursionA_stmts (TestMutualRecursionA_ready p s) (TestMutualRecursionA_stored s)" for p
    unfolding TestMutualRecursionA_stmts_def TestMutualRecursionA_ready_def TestMutualRecursionA_stored_def TestMutualRecursionA_getters
    by (intro good_stmts_field good_stmts.Nil) (simp_all cong: cell_reads_cong)
  moreover have "fold (\<lambda>e. e) (TestMutualRecursionA_stored s) TestMutualRecursionA_zero = TestMutualRecursionA_norm s"
    by (cases s) (simp add: TestMutualRecursionA_stored_def TestMutualRecursionA_zero_def Bb_update_def)
  ultimately show "decodes_to (TestMutualRecursionAReader_Unmarshal NewTestMutualRecursionAReader) TestMutualRecursionAReader_ToStruct (fields_bytes (concat (TestMutualRecursionA_groups s))) (TestMutualRecursionA_norm s)"
    unfolding TestMutualRecursionA_unfold(4) TestMutualRecursionAReader_Unmarshal_def
    by - (rule decodes_groups [where fresh = "\<lambda>p. NewTestMutualRecursionAReader\<lparr>mbufA := Some p\<rparr>" and bufOf = mbufA, OF _ _ tagged], simp_all)
  show "list_all2 (\<lambda>e g. e = int (length (fields_bytes g))) (TestMutualRecursionA_sizes s) (TestMutualRecursionA_groups s)"
    unfolding TestMutualRecursionA_sizes_def TestMutualRecursionA_groups_def by (intro list.rel_intros field_sized sized_struct_at [OF assms(1)])
  show "list_all2 (\<lambda>st g. writes st (fields_bytes g)) (TestMutualRecursionA_appends s) (TestMutualRecursionA_groups s)"
    unfolding TestMutualRecursionA_appends_def TestMutualRecursionA_groups_def by (intro list.rel_intros field_written written_struct_at [OF assms(1)])
qed (simp_all add: TestMutualRecursionA_unfold)

lemma TestMutualRecursionA_at_None: "codec_at TestMutualRecursionA_content TestMutualRecursionA_norm TestMutualRecursionA_XXX_PbContentSize TestMutualRecursionA_MarshalTo (TestMutualRecursionAReader_Unmarshal NewTestMutualRecursionAReader) TestMutualRecursionAReader_ToStruct None"
  by (simp add: codec_at_def ptr_bytes_def)

definition TestMutualRecursionB_tags :: "ProtoWireNumber list" where
  "TestMutualRecursionB_tags = [
     wireTestMutualRecursionB_A, wireTestMutualRecursionB_OptionalInt32]"

definition TestMutualRecursionB_groups :: "TestMutualRecursionB \<Rightarrow> wfield list list" where
  "TestMutualRecursionB_groups s = [
     opt_field (A' s \<noteq> None) (wireTestMutualRecursionB_A, WBytes (ptr_bytes TestMutualRecursionA_content (A' s))),
     opt_field (OptionalInt32 s \<noteq> 0) (wireTestMutualRecursionB_OptionalInt32, int32_val (OptionalInt32 s))]"

definition TestMutualRecursionB_sizes :: "TestMutualRecursionB \<Rightarrow> int list" where
  "TestMutualRecursionB_sizes s = [
     if A' s \<noteq> None then sizeDelimitedWithTag TestMutualRecursionA_XXX_PbContentSize wireTestMutualRecursionB_A (A' s) else 0,
     if OptionalInt32 s \<noteq> 0 then sizeWithTag SizeInt32 wireTestMutualRecursionB_OptionalInt32 (OptionalInt32 s) else 0]"

definition TestMutualRecursionB_appends :: "TestMutualRecursionB \<Rightarrow> (Writer \<Rightarrow> Writer go) list" where
  "TestMutualRecursionB_appends s = [
     \<lambda>res. if A' s \<noteq> None then structWriter TestMutualRecursionA_XXX_PbContentSize TestMutualRecursionA_MarshalTo res wireTestMutualRecursionB_A (A' s) else Ret res,
     \<lambda>res. if OptionalInt32 s \<noteq> 0 then AppendInt32 res wireTestMutualRecursionB_OptionalInt32 (OptionalInt32 s) else Ret res]"

definition TestMutualRecursionB_stmts :: "(TestMutualRecursionB \<times> TestMutualRecursionBReader option \<Rightarrow> (TestMutualRecursionB \<times> TestMutualRecursionBReader option) run) list" where
  "TestMutualRecursionB_stmts = [
     assignStruct TestMutualRecursionBReader_GetA (structToStruct TestMutualRecursionAReader_ToStruct) cellA_update
       (\<lambda>v res. res\<lparr>A' := v\<rparr>),
     assign TestMutualRecursionBReader_GetOptionalInt32 (\<lambda>v res. res\<lparr>OptionalInt32 := v\<rparr>)]"

definition TestMutualRecursionB_ready :: "Reader \<Rightarrow> TestMutualRecursionB \<Rightarrow> (TestMutualRecursionBReader \<Rightarrow> bool) list" where
  "TestMutualRecursionB_ready p s = [
     \<lambda>m. cell_reads (structReader (TestMutualRecursionAReader_Unmarshal NewTestMutualRecursionAReader)) (structToStruct TestMutualRecursionAReader_ToStruct) p (norm_ptr TestMutualRecursionA_content TestMutualRecursionA_norm (A' s)) (cellA m),
     \<lambda>m. cell_reads (readOne ReadInt32 0) plain p (if OptionalInt32 s \<noteq> 0 then OptionalInt32 s else 0) (cellOptionalInt32 m)]"

definition TestMutualRecursionB_stored :: "TestMutualRecursionB \<Rightarrow> (TestMutualRecursionB \<Rightarrow> TestMutualRecursionB) list" where
  "TestMutualRecursionB_stored s = [
     \<lambda>res. res\<lparr>A' := norm_ptr TestMutualRecursionA_content TestMutualRecursionA_norm (A' s)\<rparr>,
     \<lambda>res. res\<lparr>OptionalInt32 := if OptionalInt32 s \<noteq> 0 then OptionalInt32 s else 0\<rparr>]"

lemma TestMutualRecursionB_unfold:
  "TestMutualRecursionB_content s = concat (TestMutualRecursionB_groups s)" "TestMutualRecursionB_XXX_PbContentSize (Some s) = sum_list (TestMutualRecursionB_sizes s)"
  "TestMutualRecursionB_MarshalTo w (Some s) = go_seq (TestMutualRecursionB_appends s) w" "TestMutualRecursionBReader_ToStruct = toStructWith TestMutualRecursionB_stmts TestMutualRecursionB_zero"
proof -
  show "TestMutualRecursionB_content s = concat (TestMutualRecursionB_groups s)" by (cases s) (simp add: TestMutualRecursionB_groups_def)
  show "TestMutualRecursionB_XXX_PbContentSize (Some s) = sum_list (TestMutualRecursionB_sizes s)" by (cases s) (simp add: TestMutualRecursionB_sizes_def)
  show "TestMutualRecursionB_MarshalTo w (Some s) = go_seq (TestMutualRecursionB_appends s) w" by (cases s) (simp add: TestMutualRecursionB_appends_def)
  show "TestMutualRecursionBReader_ToStruct = toStructWith TestMutualRecursionB_stmts TestMutualRecursionB_zero" by (rule ext) (subst TestMutualRecursionBReader_ToStruct.simps, simp add: TestMutualRecursionB_stmts_def TestMutualRecursionAReader_ToStruct_def)
qed

lemma TestMutualRecursionB_cases_distinct: "distinct (map fst (TestMutualRecursionBReader_cases wire offset))"
  by (rule ascending_distinct) (simp add: TestMutualRecursionBReader_cases_def wireTestMutualRecursionB)

lemma TestMutualRecursionB_stores:
  "stores_cell TestMutualRecursionBReader_save wireTestMutualRecursionB_A setOffset cellA"
  "stores_cell TestMutualRecursionBReader_save wireTestMutualRecursionB_OptionalInt32 setOffset cellOptionalInt32"
  unfolding TestMutualRecursionBReader_save_def [abs_def] by (rule stores_cell_switch; (rule TestMutualRecursionB_cases_distinct)?; unfold TestMutualRecursionBReader_cases_def; intro own_case.intros; simp)+

lemma TestMutualRecursionB_at_Some:
  assumes "codec_at TestMutualRecursionA_content TestMutualRecursionA_norm TestMutualRecursionA_XXX_PbContentSize TestMutualRecursionA_MarshalTo (TestMutualRecursionAReader_Unmarshal NewTestMutualRecursionAReader) TestMutualRecursionAReader_ToStruct (A' s)"
  shows "codec_at TestMutualRecursionB_content TestMutualRecursionB_norm TestMutualRecursionB_XXX_PbContentSize TestMutualRecursionB_MarshalTo (TestMutualRecursionBReader_Unmarshal NewTestMutualRecursionBReader) TestMutualRecursionBReader_ToStruct (Some s)"
proof (rule codec_at_groups)
  have tagged: "list_all2 (\<lambda>t g. \<forall>f \<in> set g. fst f = t \<and> wf_val (snd f)) TestMutualRecursionB_tags (TestMutualRecursionB_groups s)"
    unfolding TestMutualRecursionB_tags_def TestMutualRecursionB_groups_def by (intro list.rel_intros field_tagged)
  have "distinct TestMutualRecursionB_tags"
    using TestMutualRecursionB_cases_distinct by (simp only: TestMutualRecursionBReader_cases_def TestMutualRecursionB_tags_def list.map fst_conv)
  moreover have "list_all valid_tag TestMutualRecursionB_tags"
    by (simp add: TestMutualRecursionB_tags_def wireTestMutualRecursionB valid_tag_def)
  moreover have "mbufB (TestMutualRecursionBReader_save t w off m) = mbufB m" for t w off m
    unfolding TestMutualRecursionBReader_save_def by (rule tag_switch_keeps) (simp add: TestMutualRecursionBReader_cases_def)
  moreover have "good_fields TestMutualRecursionBReader_save p (NewTestMutualRecursionBReader\<lparr>mbufB := Some p\<rparr>) TestMutualRecursionB_tags (TestMutualRecursionB_groups s) (TestMutualRecursionB_ready p s)" for p
    unfolding TestMutualRecursionB_tags_def TestMutualRecursionB_groups_def TestMutualRecursionB_ready_def
    by (intro good_fields.intros field_saved saved_struct_at [OF assms(1)] TestMutualRecursionB_stores) (simp_all add: newCell_def)
  moreover have "good_stmts mbufB p TestMutualRecursionB_stmts (TestMutualRecursionB_ready p s) (TestMutualRecursionB_stored s)" for p
    unfolding TestMutualRecursionB_stmts_def TestMutualRecursionB_ready_def TestMutualRecursionB_stored_def TestMutualRecursionB_getters
    by (intro good_stmts_field good_stmts.Nil) (simp_all cong: cell_reads_cong)
  moreover have "fold (\<lambda>e. e) (TestMutualRecursionB_stored s) TestMutualRecursionB_zero = TestMutualRecursionB_norm s"
    by (cases s) (simp add: TestMutualRecursionB_stored_def TestMutualRecursionB_zero_def A'_update_def OptionalInt32_update_def)
  ultimately show "decodes_to (TestMutualRecursionBReader_Unmarshal NewTestMutualRecursionBReader) TestMutualRecursionBReader_ToStruct (fields_bytes (concat (TestMutualRecursionB_groups s))) (TestMutualRecursionB_norm s)"
    unfolding TestMutualRecursionB_unfold(4) TestMutualRecursionBReader_Unmarshal_def
    by - (rule decodes_groups [where fresh = "\<lambda>p. NewTestMutualRecursionBReader\<lparr>mbufB := Some p\<rparr>" and bufOf = mbufB, OF _ _ tagged], simp_all)
  show "list_all2 (\<lambda>e g. e = int (length (fields_bytes g))) (TestMutualRecursionB_sizes s) (TestMutualRecursionB_groups s)"
    unfolding TestMutualRecursionB_sizes_def TestMutualRecursionB_groups_def by (intro list.rel_intros field_sized sized_struct_at [OF assms(1)])
  show "list_all2 (\<lambda>st g. writes st (fields_bytes g)) (TestMutualRecursionB_appends s) (TestMutualRecursionB_groups s)"
    unfolding TestMutualRecursionB_appends_def TestMutualRecursionB_groups_def by (intro list.rel_intros field_written written_struct_at [OF assms(1)])
qed (simp_all add: TestMutualRecursionB_unfold)

lemma TestMutualRecursionB_at_None: "codec_at TestMutualRecursionB_content TestMutualRecursionB_norm TestMutualRecursionB_XXX_PbContentSize TestMutualRecursionB_MarshalTo (TestMutualRecursionBReader_Unmarshal NewTestMutualRecursionBReader) TestMutualRecursionBReader_ToStruct None"
  by (simp add: codec_at_def ptr_bytes_def)

lemma TestMutualRecursionA_at_both:
  "codec_at TestMutualRecursionA_content TestMutualRecursionA_norm TestMutualRecursionA_XXX_PbContentSize TestMutualRecursionA_MarshalTo (TestMutualRecursionAReader_Unmarshal NewTestMutualRecursionAReader) TestMutualRecursionAReader_ToStruct (Some s)"
  "codec_at TestMutualRecursionB_content TestMutualRecursionB_norm TestMutualRecursionB_XXX_PbContentSize TestMutualRecursionB_MarshalTo (TestMutualRecursionBReader_Unmarshal NewTestMutualRecursionBReader) TestMutualRecursionBReader_ToStruct (Some t)"
proof (induction s and t)
  case (TestMutualRecursionA x0)
  have "codec_at TestMutualRecursionB_content TestMutualRecursionB_norm TestMutualRecursionB_XXX_PbContentSize TestMutualRecursionB_MarshalTo (TestMutualRecursionBReader_Unmarshal NewTestMutualRecursionBReader) TestMutualRecursionBReader_ToStruct x0" using TestMutualRecursionA TestMutualRecursionB_at_None by (cases x0) simp_all
  then show ?case by (intro TestMutualRecursionA_at_Some) simp
next
  case (TestMutualRecursionB x0 x1)
  have "codec_at TestMutualRecursionA_content TestMutualRecursionA_norm TestMutualRecursionA_XXX_PbContentSize TestMutualRecursionA_MarshalTo (TestMutualRecursionAReader_Unmarshal NewTestMutualRecursionAReader) TestMutualRecursionAReader_ToStruct x0" using TestMutualRecursionB TestMutualRecursionA_at_None by (cases x0) simp_all
  then show ?case by (intro TestMutualRecursionB_at_Some) simp
qed

lemma TestMutualRecursionA_at: "codec_at TestMutualRecursionA_content TestMutualRecursionA_norm TestMutualRecursionA_XXX_PbContentSize TestMutualRecursionA_MarshalTo (TestMutualRecursionAReader_Unmarshal NewTestMutualRecursionAReader) TestMutualRecursionAReader_ToStruct x"
  using TestMutualRecursionA_at_None TestMutualRecursionA_at_both(1) by (cases x) simp_all

lemma TestMutualRecursionB_at: "codec_at TestMutualRecursionB_content TestMutualRecursionB_norm TestMutualRecursionB_XXX_PbContentSize TestMutualRecursionB_MarshalTo (TestMutualRecursionBReader_Unmarshal NewTestMutualRecursionBReader) TestMutualRecursionBReader_ToStruct x"
  using TestMutualRecursionB_at_None TestMutualRecursionA_at_both(2) by (cases x) simp_all

interpretation m_TestMutualRecursionA: message_codec TestMutualRecursionA_content TestMutualRecursionA_norm TestMutualRecursionA_XXX_PbContentSize TestMutualRecursionA_MarshalTo
  "TestMutualRecursionAReader_Unmarshal NewTestMutualRecursionAReader" TestMutualRecursionAReader_ToStruct
  by (rule message_codecI, rule TestMutualRecursionA_at)

interpretation m_TestMutualRecursionB: message_codec TestMutualRecursionB_content TestMutualRecursionB_norm TestMutualRecursionB_XXX_PbContentSize TestMutualRecursionB_MarshalTo
  "TestMutualRecursionBReader_Unmarshal NewTestMutualRecursionBReader" TestMutualRecursionBReader_ToStruct
  by (rule message_codecI, rule TestMutualRecursionB_at)

section \<open>TestMutualRecursionA_SubMessage: the reader\<close>

definition wireTestMutualRecursionA_SubMessage_B :: ProtoWireNumber where "wireTestMutualRecursionA_SubMessage_B = 1"

lemmas wireTestMutualRecursionA_SubMessage =
  wireTestMutualRecursionA_SubMessage_B_def

record TestMutualRecursionA_SubMessageReader =
  mbuf :: "Reader option"
  cellB :: "(TestMutualRecursionBReader option) one_cell"

definition NewTestMutualRecursionA_SubMessageReader :: TestMutualRecursionA_SubMessageReader where
  "NewTestMutualRecursionA_SubMessageReader = \<lparr>
     mbuf = None, cellB = newCell None 0\<rparr>"

definition TestMutualRecursionA_SubMessageReader_readB :: "TestMutualRecursionA_SubMessageReader \<Rightarrow> (TestMutualRecursionBReader option \<times> TestMutualRecursionA_SubMessageReader) run" where
  "TestMutualRecursionA_SubMessageReader_readB = readCell cellB cellB_update mbuf (structReader (TestMutualRecursionBReader_Unmarshal NewTestMutualRecursionBReader))"

definition TestMutualRecursionA_SubMessageReader_GetB :: "TestMutualRecursionA_SubMessageReader option \<Rightarrow> (TestMutualRecursionBReader option \<times> TestMutualRecursionA_SubMessageReader option) run" where
  "TestMutualRecursionA_SubMessageReader_GetB = getter TestMutualRecursionA_SubMessageReader_readB None"

lemmas TestMutualRecursionA_SubMessage_getters =
  TestMutualRecursionA_SubMessageReader_readB_def TestMutualRecursionA_SubMessageReader_GetB_def

definition TestMutualRecursionA_SubMessageReader_cases :: "ProtoWireType \<Rightarrow> int \<Rightarrow> (ProtoWireNumber \<times> (TestMutualRecursionA_SubMessageReader \<Rightarrow> TestMutualRecursionA_SubMessageReader)) list" where
  "TestMutualRecursionA_SubMessageReader_cases wire offset = [
     (wireTestMutualRecursionA_SubMessage_B, \<lambda>m. m\<lparr>cellB := onOffset (setOffset wire offset) (cellB m)\<rparr>)]"

definition TestMutualRecursionA_SubMessageReader_save :: "ProtoWireNumber \<Rightarrow> ProtoWireType \<Rightarrow> int \<Rightarrow> TestMutualRecursionA_SubMessageReader \<Rightarrow> TestMutualRecursionA_SubMessageReader" where
  "TestMutualRecursionA_SubMessageReader_save tag wire offset = tag_switch (TestMutualRecursionA_SubMessageReader_cases wire offset) tag"

definition TestMutualRecursionA_SubMessageReader_Unmarshal :: "TestMutualRecursionA_SubMessageReader \<Rightarrow> gslice \<Rightarrow> (TestMutualRecursionA_SubMessageReader \<times> string option) run" where
  "TestMutualRecursionA_SubMessageReader_Unmarshal m data =
     unmarshalLoop TestMutualRecursionA_SubMessageReader_save (NewReader data) 0 (m\<lparr>mbuf := Some (NewReader data)\<rparr>)"

definition TestMutualRecursionA_SubMessageReader_SourceBytes :: "TestMutualRecursionA_SubMessageReader option \<Rightarrow> gslice" where
  "TestMutualRecursionA_SubMessageReader_SourceBytes s = (case s of None \<Rightarrow> nil_slice | Some r \<Rightarrow> Bytes (mbuf r))"

section \<open>TestMutualRecursionA_SubMessage: the struct\<close>

record TestMutualRecursionA_SubMessage =
  B' :: "TestMutualRecursionB option"

definition TestMutualRecursionA_SubMessage_zero :: TestMutualRecursionA_SubMessage where
  "TestMutualRecursionA_SubMessage_zero = \<lparr>
     B' = None\<rparr>"

definition TestMutualRecursionA_SubMessage_stmts :: "(TestMutualRecursionA_SubMessage \<times> TestMutualRecursionA_SubMessageReader option \<Rightarrow> (TestMutualRecursionA_SubMessage \<times> TestMutualRecursionA_SubMessageReader option) run) list" where
  "TestMutualRecursionA_SubMessage_stmts = [
     assignStruct TestMutualRecursionA_SubMessageReader_GetB (structToStruct TestMutualRecursionBReader_ToStruct) cellB_update
       (\<lambda>v res. res\<lparr>B' := v\<rparr>)]"

definition TestMutualRecursionA_SubMessageReader_ToStruct :: "TestMutualRecursionA_SubMessageReader option \<Rightarrow> (TestMutualRecursionA_SubMessage option \<times> TestMutualRecursionA_SubMessageReader option) run" where
  "TestMutualRecursionA_SubMessageReader_ToStruct = toStructWith (TestMutualRecursionA_SubMessage_stmts) TestMutualRecursionA_SubMessage_zero"

definition TestMutualRecursionA_SubMessage_appends :: "TestMutualRecursionA_SubMessage \<Rightarrow> (Writer \<Rightarrow> Writer go) list" where
  "TestMutualRecursionA_SubMessage_appends s = [
     \<lambda>res. if B' s \<noteq> None then structWriter TestMutualRecursionB_XXX_PbContentSize TestMutualRecursionB_MarshalTo res wireTestMutualRecursionA_SubMessage_B (B' s) else Ret res]"

definition TestMutualRecursionA_SubMessage_MarshalTo :: "Writer \<Rightarrow> TestMutualRecursionA_SubMessage option \<Rightarrow> Writer go" where
  "TestMutualRecursionA_SubMessage_MarshalTo = marshalToWith (\<lambda>s. TestMutualRecursionA_SubMessage_appends s)"

definition TestMutualRecursionA_SubMessage_sizes :: "TestMutualRecursionA_SubMessage \<Rightarrow> int list" where
  "TestMutualRecursionA_SubMessage_sizes s = [
     if B' s \<noteq> None then sizeDelimitedWithTag TestMutualRecursionB_XXX_PbContentSize wireTestMutualRecursionA_SubMessage_B (B' s) else 0]"

definition TestMutualRecursionA_SubMessage_XXX_PbContentSize :: "TestMutualRecursionA_SubMessage option \<Rightarrow> int" where
  "TestMutualRecursionA_SubMessage_XXX_PbContentSize = contentSizeWith (\<lambda>s. TestMutualRecursionA_SubMessage_sizes s)"

definition TestMutualRecursionA_SubMessage_Marshal :: "TestMutualRecursionA_SubMessage option \<Rightarrow> byte list go" where
  "TestMutualRecursionA_SubMessage_Marshal = marshalWith TestMutualRecursionA_SubMessage_XXX_PbContentSize TestMutualRecursionA_SubMessage_MarshalTo"

definition TestMutualRecursionA_SubMessage_Copy :: "TestMutualRecursionA_SubMessage option \<Rightarrow> TestMutualRecursionA_SubMessage option" where
  "TestMutualRecursionA_SubMessage_Copy s =
     (case s of None \<Rightarrow> None | Some s \<Rightarrow> Some \<lparr>
        B' = (case B' s of None \<Rightarrow> None | Some x \<Rightarrow> TestMutualRecursionB_Copy (Some x))\<rparr>)"

section \<open>TestMutualRecursionA_SubMessage: the round trip\<close>

definition TestMutualRecursionA_SubMessage_tags :: "ProtoWireNumber list" where
  "TestMutualRecursionA_SubMessage_tags = [
     wireTestMutualRecursionA_SubMessage_B]"

definition TestMutualRecursionA_SubMessage_groups :: "TestMutualRecursionA_SubMessage \<Rightarrow> wfield list list" where
  "TestMutualRecursionA_SubMessage_groups s = [
     opt_field (B' s \<noteq> None) (wireTestMutualRecursionA_SubMessage_B, WBytes (ptr_bytes TestMutualRecursionB_content (B' s)))]"

definition TestMutualRecursionA_SubMessage_content :: "TestMutualRecursionA_SubMessage \<Rightarrow> wfield list" where
  "TestMutualRecursionA_SubMessage_content s = concat (TestMutualRecursionA_SubMessage_groups s)"

text \<open>What a round trip keeps.\<close>

definition TestMutualRecursionA_SubMessage_norm :: "TestMutualRecursionA_SubMessage \<Rightarrow> TestMutualRecursionA_SubMessage" where
  "TestMutualRecursionA_SubMessage_norm s = s\<lparr>
     B' := norm_ptr TestMutualRecursionB_content TestMutualRecursionB_norm (B' s)\<rparr>"

definition TestMutualRecursionA_SubMessage_ready :: "Reader \<Rightarrow> TestMutualRecursionA_SubMessage \<Rightarrow> (TestMutualRecursionA_SubMessageReader \<Rightarrow> bool) list" where
  "TestMutualRecursionA_SubMessage_ready p s = [
     \<lambda>m. cell_reads (structReader (TestMutualRecursionBReader_Unmarshal NewTestMutualRecursionBReader)) (structToStruct TestMutualRecursionBReader_ToStruct) p (norm_ptr TestMutualRecursionB_content TestMutualRecursionB_norm (B' s)) (cellB m)]"

definition TestMutualRecursionA_SubMessage_stored :: "TestMutualRecursionA_SubMessage \<Rightarrow> (TestMutualRecursionA_SubMessage \<Rightarrow> TestMutualRecursionA_SubMessage) list" where
  "TestMutualRecursionA_SubMessage_stored s = [
     \<lambda>res. res\<lparr>B' := norm_ptr TestMutualRecursionB_content TestMutualRecursionB_norm (B' s)\<rparr>]"

lemma TestMutualRecursionA_SubMessage_cases_distinct: "distinct (map fst (TestMutualRecursionA_SubMessageReader_cases wire offset))"
  by (rule ascending_distinct) (simp add: TestMutualRecursionA_SubMessageReader_cases_def wireTestMutualRecursionA_SubMessage)

lemma TestMutualRecursionA_SubMessage_stores:
  "stores_cell TestMutualRecursionA_SubMessageReader_save wireTestMutualRecursionA_SubMessage_B setOffset cellB"
  unfolding TestMutualRecursionA_SubMessageReader_save_def [abs_def] by (rule stores_cell_switch; (rule TestMutualRecursionA_SubMessage_cases_distinct)?; unfold TestMutualRecursionA_SubMessageReader_cases_def; intro own_case.intros; simp)+

lemma TestMutualRecursionA_SubMessage_saved: "good_fields TestMutualRecursionA_SubMessageReader_save p (NewTestMutualRecursionA_SubMessageReader\<lparr>mbuf := Some p\<rparr>) TestMutualRecursionA_SubMessage_tags (TestMutualRecursionA_SubMessage_groups s) (TestMutualRecursionA_SubMessage_ready p s)"
  unfolding TestMutualRecursionA_SubMessage_tags_def TestMutualRecursionA_SubMessage_groups_def TestMutualRecursionA_SubMessage_ready_def
  by (intro good_fields.intros field_saved m_TestMutualRecursionB.saved_struct TestMutualRecursionA_SubMessage_stores) (simp_all add: NewTestMutualRecursionA_SubMessageReader_def newCell_def)

lemma TestMutualRecursionA_SubMessage_converted: "good_stmts mbuf p (TestMutualRecursionA_SubMessage_stmts) (TestMutualRecursionA_SubMessage_ready p s) (TestMutualRecursionA_SubMessage_stored s)"
  unfolding TestMutualRecursionA_SubMessage_stmts_def TestMutualRecursionA_SubMessage_ready_def TestMutualRecursionA_SubMessage_stored_def TestMutualRecursionA_SubMessage_getters append.simps
  by (intro good_stmts_field good_stmts.Nil) (simp_all cong: cell_reads_cong)

interpretation l_TestMutualRecursionA_SubMessage: lazy_message TestMutualRecursionA_SubMessage_tags TestMutualRecursionA_SubMessage_groups TestMutualRecursionA_SubMessage_norm
  "\<lambda>s. TestMutualRecursionA_SubMessage_sizes s" "\<lambda>s. TestMutualRecursionA_SubMessage_appends s"
  TestMutualRecursionA_SubMessageReader_save "\<lambda>p. NewTestMutualRecursionA_SubMessageReader\<lparr>mbuf := Some p\<rparr>" mbuf "TestMutualRecursionA_SubMessage_stmts" TestMutualRecursionA_SubMessage_zero TestMutualRecursionA_SubMessage_ready TestMutualRecursionA_SubMessage_stored
proof
  show "distinct TestMutualRecursionA_SubMessage_tags"
    using TestMutualRecursionA_SubMessage_cases_distinct by (simp only: TestMutualRecursionA_SubMessageReader_cases_def TestMutualRecursionA_SubMessage_tags_def list.map fst_conv)
  show "list_all valid_tag TestMutualRecursionA_SubMessage_tags"
    by (simp add: TestMutualRecursionA_SubMessage_tags_def wireTestMutualRecursionA_SubMessage valid_tag_def)
  show "list_all2 (\<lambda>t g. \<forall>f \<in> set g. fst f = t \<and> wf_val (snd f)) TestMutualRecursionA_SubMessage_tags (TestMutualRecursionA_SubMessage_groups s)" for s
    unfolding TestMutualRecursionA_SubMessage_tags_def TestMutualRecursionA_SubMessage_groups_def by (intro list.rel_intros field_tagged m_TestMutualRecursionB.tagged_struct)
  show "list_all2 (\<lambda>e g. e = int (length (fields_bytes g))) (TestMutualRecursionA_SubMessage_sizes s) (TestMutualRecursionA_SubMessage_groups s)" for s
    unfolding TestMutualRecursionA_SubMessage_sizes_def TestMutualRecursionA_SubMessage_groups_def append.simps
    by (intro list.rel_intros field_sized m_TestMutualRecursionB.sized_struct)
  show "list_all2 (\<lambda>st g. writes st (fields_bytes g)) (TestMutualRecursionA_SubMessage_appends s) (TestMutualRecursionA_SubMessage_groups s)" for s
    unfolding TestMutualRecursionA_SubMessage_appends_def TestMutualRecursionA_SubMessage_groups_def append.simps
    by (intro list.rel_intros field_written m_TestMutualRecursionB.written_struct)
  show "mbuf (TestMutualRecursionA_SubMessageReader_save t w off m) = mbuf m" for t w off m
    unfolding TestMutualRecursionA_SubMessageReader_save_def by (rule tag_switch_keeps) (simp add: TestMutualRecursionA_SubMessageReader_cases_def)
  show "fold (\<lambda>e. e) (TestMutualRecursionA_SubMessage_stored s) TestMutualRecursionA_SubMessage_zero = TestMutualRecursionA_SubMessage_norm s" for s
    unfolding TestMutualRecursionA_SubMessage_stored_def by (simp add: TestMutualRecursionA_SubMessage_zero_def TestMutualRecursionA_SubMessage_norm_def float_defaults)
qed (simp_all add: TestMutualRecursionA_SubMessage_saved TestMutualRecursionA_SubMessage_converted)

interpretation m_TestMutualRecursionA_SubMessage: message_codec TestMutualRecursionA_SubMessage_content TestMutualRecursionA_SubMessage_norm TestMutualRecursionA_SubMessage_XXX_PbContentSize TestMutualRecursionA_SubMessage_MarshalTo
  "TestMutualRecursionA_SubMessageReader_Unmarshal NewTestMutualRecursionA_SubMessageReader" TestMutualRecursionA_SubMessageReader_ToStruct
  using l_TestMutualRecursionA_SubMessage.message
  by (simp only: TestMutualRecursionA_SubMessage_content_def [abs_def] TestMutualRecursionA_SubMessage_XXX_PbContentSize_def TestMutualRecursionA_SubMessage_MarshalTo_def TestMutualRecursionA_SubMessageReader_Unmarshal_def [abs_def] TestMutualRecursionA_SubMessageReader_ToStruct_def)


end
