(* ===== verification/Spec2Isabelle.thy ===== *)
theory Spec2Isabelle
  imports Wire_Hazards Benchmark_Data FlatMessage_Message TestMap_Message Map_Messages Motor_Memory Dataset_Main Compiler Video_Pool
    Support_Code Unittest_Defaults Unittest_Required Unittest_Scalars Unittest_Extensions Unittest_Nested
    Unittest_Huge Golden_Message Unittest_Properties TestNestedRequiredForeign_Message TestRecursiveMessage_Message
    TestMutualRecursion_Message
begin

text \<open>
  A verification library for the Go programs of the repository: the protobuf library \<^verbatim>\<open>gremlin_go\<close>
  with its compiler \<^verbatim>\<open>gremlinc\<close>, the driver of the ST3215 servo, and the two programs that make datasets
  and videos of what a station has recorded.

  \<^bold>\<open>The program and its parts.\<close>
  \<^verbatim>\<open>src/shared/gremlin_go\<close> reads and writes the protobuf wire format; \<^verbatim>\<open>gremlinc\<close>, below it, turns proto files into
  Go files that use it, such as \<^verbatim>\<open>bench/gremlin_pb/benchmark/benchmark.pb2.go\<close>. A station stores
  messages of these types in queues. \<^verbatim>\<open>dataset-generator\<close> finds the bounds of a queue, streams its frames through
  an episode detector, and writes the episodes it accepts to parquet files, while a terminal interface
  shows its progress. \<^verbatim>\<open>dataset-mp4\<close> reads such a file and renders the episodes as a video.

  \<^bold>\<open>Conventions\<close> (\<open>Go_Prelude\<close>, \<open>Go_Strings\<close>, \<open>Go_Text\<close>, \<open>Go_Float\<close>).
  Integers of a fixed width are words, Go's \<^verbatim>\<open>int\<close> is an \<open>int\<close> with its wrap-around written out where an
  operation can reach it (\<open>iadd\<close>); slices are records of their elements and of the bytes behind them up to the
  capacity, because re-slicing can expose these. A result is of type \<open>go\<close>: \<open>Ret\<close>, \<open>Err\<close> for an error
  value, \<open>Panic\<close> for a run-time panic or a fatal log entry. Loops that follow offsets in their input are \<open>partial_function (option)\<close>s,
  in which \<open>None\<close> is a loop that never returns; what they are claimed to return is proved as \<open>Some\<close>.
  No fuel is used. A float that is computed
  with is the rational it stands for, every operation rounding to the nearest of 53 binary digits; one that is only stored is its bits. Maps of the source that are only read by key are functions or association lists.

  \<^bold>\<open>The wire library.\<close>
  \<open>Wire_Reader\<close> is \<^verbatim>\<open>reader.go\<close> and \<^verbatim>\<open>reading.go\<close>, \<open>Wire_Writer\<close> is \<^verbatim>\<open>writer.go\<close>, function by function.
  \<open>Wire_Codec\<close> proves the unrolled varint routines equal to a recursive definition of the base 128 encoding;
  \<open>Wire_Fields\<close> states the interface of a scalar type (locale \<open>scalar_codec\<close>, interpreted for all thirteen);
  \<open>Wire_Grammar\<close> gives the grammar of messages with nested groups; \<open>Wire_Properties\<close> has the properties of well-formed input, \<open>Wire_Hazards\<close>
  those of malformed input: messages on which the readers never return, panic late, or read past the end
  of a submessage.

  \<^bold>\<open>Generated messages.\<close>
  \<open>Generated_Code\<close> is what the templates of \<^verbatim>\<open>generators/golang\<close> emit, with the operations of a field
  as arguments; \<open>Message_Codec\<close> is the interface of a message type (locale \<open>message_codec\<close>: content, size and marshalling agree).
  \<open>Level4_Message\<close> to \<open>Level1_Message\<close>, \<open>DeepNested_Message\<close> and \<open>FlatMessage_Message\<close> are the types of \<^verbatim>\<open>benchmark.pb2.go\<close>,
  each with its reader, struct, \<^verbatim>\<open>Marshal\<close>, \<^verbatim>\<open>Unmarshal\<close>, \<^verbatim>\<open>ToStruct\<close> and \<^verbatim>\<open>Copy\<close>, and each an interpretation of the locale that
  rests on that of the type nested in it. This theory proves the round trips of the two top-level types.
  \<open>Map_Fields\<close> is the code that the templates emit for a map field: a Go map is an association list, in the order one loop takes through
  it, and what is proved holds for every order. Keys and values are instances of one interface (locale \<open>entry_part\<close>), a map field combines two
  (\<open>map_field\<close>, \<open>scalar_map\<close>). \<open>TestMap_Types\<close> and \<open>TestMap_Message\<close> are the type of \<^verbatim>\<open>map_test.pb2.go\<close> with a map of every kind, \<open>Map_Messages\<close>
  has the other types of that file.

  \<^bold>\<open>The protobuf unit tests\<close> (\<^verbatim>\<open>unittest.pb2.go\<close> and the two files it imports). All messages of these files are modelled.
  A message with many fields is its reader's cells (value, offset, parsed or not), one list of cases for the tag switch, and lists of size
  expressions, append statements and \<^verbatim>\<open>ToStruct\<close> statements, one element for each field in the order of the code. \<open>Lazy_Messages\<close> gives these
  pieces their meaning and proves from laws about single fields (locales \<open>lazy_field\<close>, \<open>lazy_message\<close>) that the message is a \<open>message_codec\<close>
  and that its reader takes the fields in any order. \<open>Field_Kinds\<close> and \<open>Map_Kinds\<close> prove the laws for every
  kind of field the templates know. \<open>Unittest_Base\<close>, \<open>Unittest_Defaults\<close>, \<open>Unittest_Required\<close>, \<open>Unittest_Scalars\<close>,
  \<open>Unittest_Packed\<close>, \<open>Unittest_Nested\<close>, \<open>Unittest_Extensions\<close>, \<open>Unittest_Huge\<close>, \<open>TestAllTypes_Message\<close> and \<open>TestAllExtensions_Message\<close> have the types, each with
  an interpretation. Messages that contain themselves are datatypes with recursive functions (\<open>Recursive_Kinds\<close>, with the congruence and
  monotonicity rules for recursion through fields and lists): \<open>TestRecursiveMessage_Message\<close>, \<open>NestedTestAllTypes_Message\<close>,
  \<open>TestNestedRequiredForeign_Message\<close>, \<open>TestMutualRecursion_Message\<close>; their readers are \<open>partial_function\<close>s, proved to return.
  \<open>Golden_Message\<close> is the golden message of the benchmarks with the round trip of its type, \<open>Unittest_Properties\<close> the order of fields,
  the round trip of trees, and declared defaults that the generated code loses.

  \<^bold>\<open>The compiler.\<close>
  \<open>Scoped_Names\<close> is \<^verbatim>\<open>types/scopes.go\<close>: names as paths of components, and the interface of searching outwards
  through the scopes (locale \<open>scoped_names\<close>). \<open>Proto_Model\<close> is \<^verbatim>\<open>types/struct.go\<close> and \<^verbatim>\<open>types/types.go\<close>: messages and enums, which the source shares
  by pointer, live on the heaps of a \<open>program\<close>. \<open>Source_Files\<close> is \<^verbatim>\<open>paths.go\<close> and \<^verbatim>\<open>reader.go\<close>: the walk over the file
  system, and the parsing goroutines as a step relation all of whose runs end in the same result. \<open>Proto_Parser\<close> is \<^verbatim>\<open>parser.go\<close>,
  \<open>Proto_Imports\<close> is \<^verbatim>\<open>imports.go\<close>, \<open>Proto_Resolve\<close> is \<^verbatim>\<open>resolving.go\<close>: the innermost declaration in scope is
  found, and what is resolved without an error has a type. The generator is a function to source text:
  \<open>Gen_Fields\<close> is \<^verbatim>\<open>fields/*.go\<close> (the templates, as lists of lines), \<open>Gen_Types\<close> is \<^verbatim>\<open>types/*.go\<close>, \<open>Gen_Files\<close> is \<^verbatim>\<open>core/files.go\<close>,
  \<^verbatim>\<open>fields/types.go\<close>, \<^verbatim>\<open>mapper\<close> and \<^verbatim>\<open>golang.go\<close>. Evaluated on the proto files of the repository the model gives the checked-in files
  \<^verbatim>\<open>benchmark.pb2.go\<close>, \<^verbatim>\<open>gogofast\<close>, \<^verbatim>\<open>map_test\<close>, \<^verbatim>\<open>unittest_import\<close> and \<^verbatim>\<open>unittest.pb2.go\<close> byte for byte.
  \<open>Gen_Soundness\<close> proves that every type a generated file uses is declared or imported there, \<open>Gen_Complete\<close> that
  generation succeeds on resolved programs, \<open>Gen_Properties\<close> the tables, paths and aliases. \<open>Compiler\<close> is \<^verbatim>\<open>main.go\<close>:
  it follows a program through all passes and concludes that a command without reported errors writes all its files.

  \<^bold>\<open>The servo.\<close> \<open>Motor_Memory\<close> is \<^verbatim>\<open>software/drivers/st3215/memory.go\<close>: signed angles out of
  two-byte registers, on images of every length.

  \<^bold>\<open>The dataset generator\<close> (\<^verbatim>\<open>software/station/bin/dataset-generator\<close>).
  \<open>Messages\<close> is \<^verbatim>\<open>messages.go\<close> and \<^verbatim>\<open>framedef.go\<close>. \<open>Episodes\<close> is \<^verbatim>\<open>episodes.go\<close>: the detector as a state machine
  with its invariant, the contract of what it writes (\<open>episode_ok\<close>) as a refinement of the history of saved episodes, the accounting of its counters, and
  the exact conditions of its panics, all of them ids that cannot be read.
  \<open>Queue_Bounds\<close> is \<^verbatim>\<open>bounds.go\<close> and \<^verbatim>\<open>source.go\<close>, \<open>Queue_Properties\<close> what the searches find, when the backward search panics, and that streaming loses nothing.
  \<open>Ui_Model\<close> is the update function of \<^verbatim>\<open>ui/model.go\<close>, the log pane and the log writer of \<^verbatim>\<open>ui/runner.go\<close>; \<open>Ui_View\<close> what is drawn,
  with its floating point: the exact conditions of its panics, among them two narrow window widths, and durations are printed exactly.
  \<open>Dataset_Pipeline\<close> is \<^verbatim>\<open>runProcessing\<close>: the detector and the interface agree, and a whole run builds the dataset.
  \<open>Dataset_Main\<close> is \<^verbatim>\<open>main\<close>: the user's events do not disturb what the goroutine reports, however they are interleaved, unless they quit (\<open>bystander\<close>); the
  event loop hands on messages until some \<^verbatim>\<open>Update\<close> has asked it to quit (\<open>quits\<close>), and the summary
  tells what is in the dataset, unless the user quits.

  \<^bold>\<open>The video exporter\<close> (\<^verbatim>\<open>software/station/bin/dataset-mp4\<close>).
  \<open>Video_Episodes\<close> reads the columns and collects the episodes; a reference definition by runs of rows says which, and the episodes the
  generator has saved come out again. \<open>Video_Grid\<close> lays the episodes out in grids and draws them, as the list of drawing calls: every frame is shown
  once, and the images of every slot are drawn at their places in its cell. \<open>Video_Pool\<close> is the worker pool, a step relation over its channels that
  neither deadlocks nor loses a job, and the main program, which crashes on an id that cannot be read.

  \<^bold>\<open>Support code\<close> (\<open>Support_Code\<close>): the search for the project root, the wrapper of the station client, the limit of
  open files and the log hook. \<open>Benchmark_Data\<close> is the nested message of the benchmarks, which the round trip of its type is applied to.

  \<^bold>\<open>Arguments of the model.\<close>
  What is not in the repository is an argument of the definitions that use it: the clock, the file system and the parquet library
  (\<open>env\<close>, \<open>merge_env\<close>), the station client (\<open>client\<close>, with the documented order of its answers as \<open>serves\<close>), the integers of
  \<^verbatim>\<open>uintn\<close> (\<open>uintn_ops\<close>, with their laws as \<open>uintn_ok\<close>; the text of the id in some bytes is an option, since the bytes may not be read,
  and then calling \<^verbatim>\<open>String\<close> on the nil result panics: \<open>idString\<close>), the parsers of frames and of proto files, terminal styles, the
  drawing library, the JPEG decoder, the render service and \<^verbatim>\<open>ffmpeg\<close>. The syntax tree of \<^verbatim>\<open>emicklei/proto\<close> and the arrays of Arrow are data:
  the values that the code reads from them. Properties with a hypothesis on an argument come with an instance of it.

  \<^bold>\<open>Not modelled.\<close>
  The event loop of \<^verbatim>\<open>bubbletea\<close>, of which the model sees the messages it handles; log output and the setup of the logging library;
  flag parsing; the size of channel buffers where only the order of messages matters; the second copy of the generated test files
  below \<^verbatim>\<open>testpb\<close>, which differs in an import path; what other compilers generate; benchmark drivers, which only measure time, and examples; and the station server, drivers, simulators and clients in Rust, Python and JavaScript.
\<close>

section \<open>Round trips of whole messages\<close>

text \<open>
  C1. A message of five nested levels survives a round trip: \<^verbatim>\<open>Marshal\<close> returns exactly
  \<^verbatim>\<open>XXX_PbContentSize\<close> bytes without a panic, \<^verbatim>\<open>Unmarshal\<close> accepts them, and
  \<^verbatim>\<open>ToStruct\<close> returns the message, in which empty submessages have become nil and a
  negative zero a zero (\<open>DeepNested_norm\<close>).
\<close>

theorem DeepNested_roundtrip:
  assumes "DeepNested_XXX_PbContentSize (Some s) + 10 < 2 ^ 63"
  shows "\<exists>bs r r'. DeepNested_Marshal (Some s) = Ret bs \<and>
    int (length bs) = DeepNested_XXX_PbContentSize (Some s) \<and>
    DeepNestedReader_Unmarshal NewDeepNestedReader (slice_of bs) = Some (Ret (r, None)) \<and>
    DeepNestedReader_ToStruct (Some r) = Some (Ret (Some (DeepNested_norm s), Some r'))"
  using m_DeepNested.round_trip [OF assms] by (simp only: DeepNested_Marshal_def)

text \<open>The message that the benchmarks write and read comes back unchanged.\<close>

theorem DeepNested_roundtrip_witness:
  "\<exists>bs r r'. DeepNested_Marshal CreateDeepNestedGremlin = Ret bs \<and>
     DeepNestedReader_Unmarshal NewDeepNestedReader (slice_of bs) = Some (Ret (r, None)) \<and>
     DeepNestedReader_ToStruct (Some r) = Some (Ret (CreateDeepNestedGremlin, Some r'))"
proof -
  obtain s where s: "CreateDeepNestedGremlin = Some s" by (simp add: CreateDeepNestedGremlin_def)
  have "DeepNested_norm s = s" "DeepNested_XXX_PbContentSize (Some s) < 2000"
    using benchmark_norm benchmark_size unfolding s by simp_all
  then show ?thesis unfolding s using DeepNested_roundtrip [of s] by auto
qed

text \<open>
  A flat message with a packed list, a float and repeated strings survives a round trip in
  the exact size that \<^verbatim>\<open>XXX_PbContentSize\<close> computes; only a negative zero becomes a zero.
\<close>

theorem FlatMessage_roundtrip:
  assumes "FlatMessage_XXX_PbContentSize (Some s) + 10 < 2 ^ 63"
  shows "\<exists>bs r r'. FlatMessage_Marshal (Some s) = Ret bs \<and>
    int (length bs) = FlatMessage_XXX_PbContentSize (Some s) \<and>
    FlatMessageReader_Unmarshal NewFlatMessageReader (slice_of bs) = Some (Ret (r, None)) \<and>
    FlatMessageReader_ToStruct (Some r) =
      Some (Ret (Some (s\<lparr>FlatMessage.Score := if float64_is_zero (FlatMessage.Score s) then 0
        else FlatMessage.Score s\<rparr>), Some r'))"
  using m_FlatMessage.round_trip [OF assms]
  by (simp only: FlatMessage_Marshal_def FlatMessage_norm_def float64_norm_def)

definition demo_FlatMessage :: FlatMessage where
  "demo_FlatMessage = \<lparr>FlatMessage.Id' = -7, Name = [0x61, 0x62], Value = 300,
     Score = 0x3FF0000000000000, Numbers = [1, -1, 70000], Tags = [[0x78]]\<rparr>"

theorem FlatMessage_roundtrip_witness:
  "\<exists>bs r r'. FlatMessage_Marshal (Some demo_FlatMessage) = Ret bs \<and>
     FlatMessageReader_Unmarshal NewFlatMessageReader (slice_of bs) = Some (Ret (r, None)) \<and>
     FlatMessageReader_ToStruct (Some r) = Some (Ret (Some demo_FlatMessage, Some r'))"
proof -
  have "FlatMessage_XXX_PbContentSize (Some demo_FlatMessage) < 100"
    by code_simp
  then show ?thesis
    using FlatMessage_roundtrip [of demo_FlatMessage]
    by (auto simp: demo_FlatMessage_def float64_is_zero_def)
qed

end
